(* ===== verification/CSB_Prelude.thy ===== *)
theory CSB_Prelude
  imports "HOL-Library.Word" "HOL-Library.Multiset"
begin

text \<open>
  What the component theories share: the names of the machine types of the C sources, the
  result type of a C function that may abort or be undefined, the compiler builtin that
  counts leading zeros, and lemmas on lists, results and words.

  The benchmarks are compiled without \<open>NDEBUG\<close> (bench/CMakeLists.txt), so a failing
  \<open>assert\<close> aborts the process: it is the value \<open>Inl Assert_failed\<close>. An operation the C
  standard leaves undefined (an out-of-range access, a shift by the width of the type, a
  signed overflow) is \<open>Inl Undefined\<close>. A call of \<open>exit\<close> is \<open>Inl (Exit n)\<close>. A loop that
  consumes an input tape (entropy, kernel answers) and has used it up is \<open>Inl Starved\<close>:
  the C function has not returned yet.
\<close>

unbundle bit_operations_syntax

type_synonym u8 = "8 word"
type_synonym u16 = "16 word"
type_synonym u32 = "32 word"
type_synonym u64 = "64 word"

datatype fault = Assert_failed | Undefined | Exit int | Starved

type_synonym 'a result = "fault + 'a"

definition c_assert :: "bool \<Rightarrow> 'a result \<Rightarrow> 'a result" where
  "c_assert b k = (if b then k else Inl Assert_failed)"

fun bind_r :: "'a result \<Rightarrow> ('a \<Rightarrow> 'b result) \<Rightarrow> 'b result" where
  "bind_r (Inl e) k = Inl e"
| "bind_r (Inr x) k = k x"

named_theorems csb_defs \<open>definitions that a component's proofs always unfold\<close>

section \<open>Results\<close>

lemma c_assert_Inr [simp]: "c_assert b k = Inr x \<longleftrightarrow> b \<and> k = Inr x"
  by (simp add: c_assert_def)

lemma c_assert_True [simp]: "c_assert True k = k"
  by (simp add: c_assert_def)

lemma c_assert_False [simp]: "c_assert False k = Inl Assert_failed"
  by (simp add: c_assert_def)

lemma bind_r_Inr [simp]: "bind_r m k = Inr y \<longleftrightarrow> (\<exists>x. m = Inr x \<and> k x = Inr y)"
  by (cases m) simp_all

lemma bind_r_assoc: "bind_r (bind_r m f) g = bind_r m (\<lambda>x. bind_r (f x) g)"
  by (cases m) simp_all

lemma bind_r_cong [fundef_cong]:
  "m = m' \<Longrightarrow> (\<And>x. m' = Inr x \<Longrightarrow> f x = g x) \<Longrightarrow> bind_r m f = bind_r m' g"
  by (cases m') simp_all

section \<open>Leading zeros\<close>

text \<open>
  \<open>__builtin_clz\<close> and \<open>__builtin_clzll\<close>: the number of zero bits above the highest set bit.
  The builtins are undefined at 0; every caller in the sources guards against it.
\<close>

definition clz :: "'a::len word \<Rightarrow> nat" where
  "clz w = length (takeWhile (\<lambda>i. \<not> bit w i) (rev [0..<LENGTH('a)]))"

lemma unat_lt: "unat (w :: 'a::len word) < 2 ^ LENGTH('a)"
  by (rule unsigned_less)

lemma unat_ucast_up: "LENGTH('a) \<le> LENGTH('b) \<Longrightarrow> unat (ucast (w :: 'a::len word) :: 'b::len word) = unat w"
  by (simp add: unsigned_ucast_eq take_bit_nat_eq_self_iff less_le_trans [OF unat_lt power_increasing])

lemma takeWhile_rev_upt:
  assumes "k < n" "P k" "\<And>i. k < i \<Longrightarrow> i < n \<Longrightarrow> \<not> P i"
  shows "length (takeWhile (\<lambda>i. \<not> P i) (rev [0..<n])) = n - 1 - k"
proof -
  have split: "[0..<n] = [0..<Suc k] @ [Suc k..<n]"
    using assms(1) by (metis Suc_leI le_add_diff_inverse upt_add_eq_append zero_le)
  have "takeWhile (\<lambda>i. \<not> P i) (rev [0..<n]) = rev [Suc k..<n]"
    unfolding split using assms(2,3)
    by (subst rev_append, subst takeWhile_append2) auto
  then show ?thesis by simp
qed

lemma clz_eq:
  fixes w :: "'a::len word"
  assumes "2 ^ k \<le> unat w" "unat w < 2 ^ Suc k"
  shows "clz w = LENGTH('a) - 1 - k" and "k < LENGTH('a)"
proof -
  have "(2::nat) ^ k < 2 ^ LENGTH('a)"
    using assms(1) unat_lt [of w] by linarith
  then show k: "k < LENGTH('a)" by simp
  have "unat w div 2 ^ k = 1"
    using assms by (intro div_nat_eqI) auto
  then have bk: "bit (unat w) k" by (simp add: bit_iff_odd)
  have hi: "\<not> bit (unat w) i" if "k < i" for i
  proof -
    have "(2::nat) ^ Suc k \<le> 2 ^ i" using that by (intro power_increasing) auto
    then have "unat w div 2 ^ i = 0" using assms(2) by simp
    then show ?thesis by (simp add: bit_iff_odd)
  qed
  then show "clz w = LENGTH('a) - 1 - k"
    unfolding clz_def using k bk hi by (intro takeWhile_rev_upt) (auto simp: bit_unsigned_iff)
qed

lemma nonzero_has_log:
  assumes "(n::nat) \<noteq> 0"
  shows "\<exists>k. 2 ^ k \<le> n \<and> n < 2 ^ Suc k"
proof -
  have "0 < n" using assms by simp
  then show ?thesis using ex_power_ivl1 [of 2 n] by auto
qed

lemma mod_wrap_once: "(n::nat) \<le> x \<Longrightarrow> x < 2 * n \<Longrightarrow> x mod n = x - n"
  by (simp add: le_mod_geq)

lemma offset_in_rng: 
  fixes lo :: "'a::len word"
  assumes "lo \<le> hi" "r < hi - lo + 1" shows "lo \<le> r + lo \<and> r + lo \<le> hi"
proof -
  have "unat r < unat ((hi - lo) + 1)" using assms(2) by (simp only: word_less_nat_alt)
  also have "\<dots> \<le> Suc (unat (hi - lo))" by (simp add: unat_word_ariths(1))
  finally have "r \<le> hi - lo" by (simp add: word_le_nat_alt)
  then have "unat r \<le> unat hi - unat lo" using assms(1) by (simp add: word_le_nat_alt unat_sub)
  with assms(1) have s: "unat r + unat lo \<le> unat hi" by (simp add: word_le_nat_alt)
  then have "unat r + unat lo < 2 ^ LENGTH('a)" using unat_lt [of hi] by (rule le_less_trans)
  then have "unat (r + lo) = unat r + unat lo" by (simp add: unat_word_ariths(1))
  then show ?thesis using s by (simp add: word_le_nat_alt)
qed

lemma unat_two_power:
  assumes "k < LENGTH('a)"
  shows "unat (2 ^ k :: 'a::len word) = 2 ^ k"
proof -
  have "unat (of_nat (2 ^ k) :: 'a word) = take_bit LENGTH('a) (2 ^ k)"
    by (simp only: unsigned_of_nat of_nat_id)
  also have "\<dots> = 2 ^ k" using assms by (intro take_bit_nat_eq_self) simp
  finally show ?thesis by simp
qed

lemma word_mod_less: "x < p \<Longrightarrow> x mod p = (x :: 'a::len word)"
  by (simp add: word_unat_eq_iff unat_mod word_less_nat_alt)

end
