(* ===== verification/CSB_Math.thy ===== *)
theory CSB_Math
  imports CSB_Prelude
begin

text \<open>
  bench/include/CSB/math.h: logarithms and powers of two on \<open>uint32_t\<close>, the arithmetic
  macros, and rounding up to a multiple. A macro is modelled at the unsigned type it is
  used at.
\<close>

definition v_log2 :: "u32 \<Rightarrow> u32 result" where
  "v_log2 v = c_assert (v \<noteq> 0)
     (Inr ((8 * 8 - of_nat (clz (ucast v :: u64))) - 1))"

definition v_pow2_round_up :: "u32 \<Rightarrow> u32 result" where
  "v_pow2_round_up v = c_assert (v \<noteq> 0)
     (if v = 1 then Inr 1
      else let sh = 32 - clz (v - 1)
           in if sh < 32 then Inr (push_bit sh 1) else Inl Undefined)"

definition v_pow2_round_down :: "u32 \<Rightarrow> u32 result" where
  "v_pow2_round_down v = c_assert (v \<noteq> 0) (Inr (push_bit ((32 - clz v) - 1) 1))"

definition V_IS_POWER_OF_TWO :: "'a::len word \<Rightarrow> bool" where
  "V_IS_POWER_OF_TWO n \<longleftrightarrow> n \<noteq> 0 \<and> n AND (n - 1) = 0"

definition V_MOD_POWER_OF_TWO :: "'a::len word \<Rightarrow> 'a word \<Rightarrow> 'a word" where
  "V_MOD_POWER_OF_TWO n p = (if V_IS_POWER_OF_TWO p then n AND (p - 1) else n mod p)"

definition VMIN :: "'a::len word \<Rightarrow> 'a word \<Rightarrow> 'a word" where
  "VMIN a b = (if a < b then a else b)"

definition VMAX :: "'a::len word \<Rightarrow> 'a word \<Rightarrow> 'a word" where
  "VMAX a b = (if a > b then a else b)"

definition VIN_RANGE :: "'a::len word \<Rightarrow> 'a word \<Rightarrow> 'a word \<Rightarrow> bool" where
  "VIN_RANGE lb v ub \<longleftrightarrow> lb \<le> v \<and> v \<le> ub"

definition VCEIL_DIV :: "'a::len word \<Rightarrow> 'a word \<Rightarrow> 'a word" where
  "VCEIL_DIV x y = (if x mod y = 0 then x div y else x div y + 1)"

definition VIS_ODD :: "'a::len word \<Rightarrow> bool" where
  "VIS_ODD v \<longleftrightarrow> v AND 1 = 1"

definition VIS_EVEN :: "'a::len word \<Rightarrow> bool" where
  "VIS_EVEN v \<longleftrightarrow> v AND 1 = 0"

text \<open>\<open>size_t\<close> arithmetic wraps; the second assertion is what catches the wrap.\<close>

definition v_least_containing_multiple :: "u64 \<Rightarrow> u64 \<Rightarrow> u64 result" where
  "v_least_containing_multiple divisor dividend =
     c_assert (dividend \<noteq> 0)
       (let res = ((divisor + (dividend - 1)) div dividend) * dividend
        in c_assert (res \<ge> divisor) (Inr res))"

section \<open>Lemmas\<close>

lemma VMIN_min: "VMIN a b = min a b"
  by (auto simp: VMIN_def min_def)

lemma VMAX_max: "VMAX a b = max a b"
  by (auto simp: VMAX_def max_def)

text \<open>Rounding up: the least power of two that is not below the argument.\<close>

lemma pow2_round_up_bounds:
  assumes "v \<noteq> 0" "unat v \<le> 2 ^ 31"
  shows "\<exists>k \<le> 31. v_pow2_round_up v = Inr (2 ^ k) \<and> unat v \<le> 2 ^ k \<and> (2::nat) ^ k < 2 * unat v"
proof (cases "v = 1")
  case True
  then show ?thesis
    by (intro exI [of _ 0]) (simp add: v_pow2_round_up_def)
next
  case False
  have v1: "unat v > 1"
    using assms(1) False by (auto simp: word_unat_eq_iff intro: Suc_lessI)
  have u: "unat (v - 1) = unat v - 1"
    using assms(1) by (simp add: unat_minus_one)
  then obtain k where k: "2 ^ k \<le> unat (v - 1)" "unat (v - 1) < 2 ^ Suc k"
    using nonzero_has_log [of "unat (v - 1)"] v1 by auto
  have "(2::nat) ^ k < 2 ^ 31" using k(1) u assms(2) v1 by linarith
  then have k31: "k < 31" by (rule power_less_imp_less_exp [rotated]) simp
  have "clz (v - 1) = 31 - k" using clz_eq(1) [OF k] by simp
  then have "v_pow2_round_up v = Inr (2 ^ Suc k)"
    using False assms(1) k31
    by (simp add: v_pow2_round_up_def push_bit_eq_mult Let_def Suc_diff_le)
  moreover have "unat v \<le> 2 ^ Suc k" "(2::nat) ^ Suc k < 2 * unat v"
    using k u v1 by auto
  ultimately show ?thesis using k31 by (intro exI [of _ "Suc k"]) auto
qed

text \<open>Rounding down and the logarithm: the position of the highest set bit.\<close>

lemma pow2_round_down_bounds:
  assumes "v \<noteq> 0"
  shows "\<exists>k < 32. v_pow2_round_down v = Inr (2 ^ k) \<and> v_log2 v = Inr (of_nat k) \<and>
           (2::nat) ^ k \<le> unat v \<and> unat v < 2 ^ Suc k"
proof -
  obtain k where k: "2 ^ k \<le> unat v" "unat v < 2 ^ Suc k"
    using nonzero_has_log [of "unat v"] assms by (auto simp: unat_eq_zero)
  have c32: "clz v = 31 - k" and k32: "k < 32" using clz_eq [OF k] by simp_all
  have "unat (ucast v :: u64) = unat v" by (rule unat_ucast_up) simp
  then have c64: "clz (ucast v :: u64) = 63 - k"
    using clz_eq(1) [of k "ucast v :: u64"] k by simp
  have "v_pow2_round_down v = Inr (2 ^ k)"
    using assms k32 by (simp add: v_pow2_round_down_def c32 push_bit_eq_mult)
  moreover have "v_log2 v = Inr (of_nat k)"
    using assms k32 by (simp add: v_log2_def c64 of_nat_diff)
  ultimately show ?thesis using k k32 by blast
qed

text \<open>The test \<open>n & (n - 1)\<close> recognises exactly the powers of two.\<close>

lemma and_pred_zero_imp_power:
  fixes n :: nat
  assumes "n \<noteq> 0" "n AND (n - 1) = 0"
  shows "\<exists>k. n = 2 ^ k"
proof -
  obtain k where k: "2 ^ k \<le> n" "n < 2 ^ Suc k" using nonzero_has_log [OF assms(1)] by blast
  have "n = 2 ^ k"
  proof (rule ccontr)
    assume "n \<noteq> 2 ^ k"
    with k have "2 ^ k \<le> n - 1" "n - 1 < 2 ^ Suc k" by auto
    then have "(n - 1) div 2 ^ k = 1" "n div 2 ^ k = 1" using k by (auto intro!: div_nat_eqI)
    then have "bit n k" "bit (n - 1) k" by (simp_all add: bit_iff_odd)
    then have "bit (n AND (n - 1)) k" by (simp add: bit_and_iff)
    with assms(2) show False by simp
  qed
  then show ?thesis ..
qed

lemma unat_and: "unat (a AND b) = unat a AND unat (b :: 'a::len word)"
  by (rule bit_eqI) (simp add: bit_simps)

lemma is_power_of_two_iff: "V_IS_POWER_OF_TWO (n :: 'a::len word) \<longleftrightarrow> (\<exists>k. unat n = 2 ^ k)"
proof
  assume l: "V_IS_POWER_OF_TWO n"
  then have n0: "n \<noteq> 0" and "unat (n AND (n - 1)) = 0"
    by (simp_all add: V_IS_POWER_OF_TWO_def)
  then have "unat n AND (unat n - 1) = 0" by (simp add: unat_and unat_minus_one)
  with n0 have "unat n \<noteq> 0" "unat n AND (unat n - 1) = 0" by (simp_all add: unat_eq_zero)
  then show "\<exists>k. unat n = 2 ^ k" by (rule and_pred_zero_imp_power)
next
  assume "\<exists>k. unat n = 2 ^ k"
  then obtain k where k: "unat n = 2 ^ k" ..
  then have n0: "n \<noteq> 0" by auto
  have "(2::nat) ^ k AND mask k = 0" by (rule bit_eqI) (auto simp: bit_simps)
  then have "unat n AND (unat n - 1) = 0" by (simp add: k mask_eq_exp_minus_1)
  then have "unat (n AND (n - 1)) = 0" using n0 by (simp add: unat_and unat_minus_one)
  then show "V_IS_POWER_OF_TWO n" using n0 by (simp add: V_IS_POWER_OF_TWO_def unat_eq_zero)
qed

text \<open>On powers of two, masking is the remainder.\<close>

lemma and_pred_power_mod:
  assumes "unat p = 2 ^ k"
  shows "n AND (p - 1) = n mod (p :: 'a::len word)"
proof -
  have p0: "p \<noteq> 0" using assms by auto
  have "unat (n AND (p - 1)) = unat n AND mask k"
    using p0 by (simp add: unat_and unat_minus_one assms mask_eq_exp_minus_1)
  also have "\<dots> = unat (n mod p)"
    by (simp add: take_bit_eq_mod unat_mod_distrib assms flip: take_bit_eq_mask)
  finally show ?thesis by (simp add: word_unat_eq_iff)
qed

text \<open>Rounding up to a multiple either gives the least one or trips an assertion.\<close>

lemma round_up_multiple:
  assumes "0 < (m::nat)"
  shows "d \<le> (d + (m - 1)) div m * m" and "(d + (m - 1)) div m * m < d + m"
proof -
  have e: "(d + (m - 1)) div m * m + (d + (m - 1)) mod m = d + (m - 1)" by simp
  have "(d + (m - 1)) mod m < m" using assms by simp
  then show "d \<le> (d + (m - 1)) div m * m" using e assms by linarith
  show "(d + (m - 1)) div m * m < d + m" using e assms by linarith
qed

lemma least_multiple_value:
  assumes "dividend \<noteq> 0" "unat divisor + unat dividend \<le> 2 ^ 64"
  shows "\<exists>r. v_least_containing_multiple divisor dividend = Inr r \<and>
    unat r = ((unat divisor + (unat dividend - 1)) div unat dividend) * unat dividend"
proof -
  let ?d = "unat divisor" and ?m = "unat dividend"
  let ?r = "((divisor + (dividend - 1)) div dividend) * dividend"
  have m0: "0 < ?m" using assms(1) by (simp add: unat_gt_0)
  have s: "unat (divisor + (dividend - 1)) = ?d + (?m - 1)"
    using assms m0 by (simp add: unat_minus_one unat_word_ariths)
  note ru = round_up_multiple [OF m0, of ?d]
  have "(?d + (?m - 1)) div ?m * ?m < 2 ^ 64" using ru(2) assms(2) by linarith
  then have r: "unat ?r = (?d + (?m - 1)) div ?m * ?m"
    by (simp add: unat_word_ariths(2) unat_div_distrib s)
  then have "?d \<le> unat ?r" using ru(1) by simp
  then show ?thesis using assms(1) r
    by (simp add: v_least_containing_multiple_def Let_def word_le_nat_alt)
qed

lemma least_multiple_fault:
  assumes "dividend = 0 \<or> 2 ^ 64 < unat divisor + unat dividend"
  shows "v_least_containing_multiple divisor dividend = Inl Assert_failed"
proof (cases "dividend = 0")
  case False
  let ?d = "unat divisor" and ?m = "unat dividend"
  let ?s = "divisor + (dividend - 1)"
  have m: "0 < ?m" "?m < 2 ^ 64" "?d < 2 ^ 64"
    using False unat_lt [of dividend] unat_lt [of divisor] by (simp_all add: unat_gt_0)
  have h: "2 ^ 64 < ?d + ?m" using assms False by blast
  have "unat ?s = (?d + (?m - 1)) mod 2 ^ 64"
    using False by (simp add: unat_minus_one unat_word_ariths)
  also have "\<dots> = ?d + (?m - 1) - 2 ^ 64"
    by (rule mod_wrap_once) (use m h in simp_all)
  finally have s: "unat ?s < ?d" using m h by simp
  have "unat (?s div dividend * dividend) \<le> unat (?s div dividend) * ?m"
    by (simp only: unat_word_ariths mod_less_eq_dividend)
  also have "\<dots> \<le> unat ?s" by (simp only: unat_div div_times_less_eq_dividend)
  finally have "unat (?s div dividend * dividend) \<le> unat ?s" .
  then have "\<not> divisor \<le> ?s div dividend * dividend"
    using s by (simp add: word_le_nat_alt)
  then show ?thesis using False by (simp add: v_least_containing_multiple_def Let_def)
qed (simp add: v_least_containing_multiple_def)

section \<open>Properties\<close>

text \<open>
  C40. \<open>v_pow2_round_up\<close> returns the least power of two that is at least its argument for every
  argument from 1 to \<open>2^31\<close>, aborts at 0, and above \<open>2^31\<close> shifts by the width of the type,
  which C leaves undefined.
\<close>

theorem v_pow2_round_up_spec:
  "v_pow2_round_up v =
     (if v = 0 then Inl Assert_failed
      else if unat v \<le> 2 ^ 31 then Inr (2 ^ (LEAST k. unat v \<le> 2 ^ k))
      else Inl Undefined)"
proof -
  consider "v = 0" | "v \<noteq> 0" "unat v \<le> 2 ^ 31" | "v \<noteq> 0" "2 ^ 31 < unat v" by linarith
  then show ?thesis
  proof cases
    case 2
    then obtain k where k: "v_pow2_round_up v = Inr (2 ^ k)" "unat v \<le> 2 ^ k"
        "(2::nat) ^ k < 2 * unat v" using pow2_round_up_bounds by blast
    have "(LEAST j. unat v \<le> 2 ^ j) = k"
    proof (rule Least_equality)
      fix j assume "unat v \<le> 2 ^ j"
      then have "(2::nat) ^ k < 2 ^ Suc j" using k(3) by simp
      then show "k \<le> j" using power_less_imp_less_exp [of "2::nat" k "Suc j"] by simp
    qed (rule k(2))
    with 2 k(1) show ?thesis by simp
  next
    case 3
    then have "2 ^ 31 \<le> unat (v - 1)" "unat (v - 1) < 2 ^ Suc 31"
      using unat_lt [of "v - 1"] by (simp_all add: unat_minus_one)
    then have "clz (v - 1) = 0" using clz_eq(1) [of 31 "v - 1"] by simp
    with 3 show ?thesis by (auto simp: v_pow2_round_up_def Let_def)
  qed (simp add: v_pow2_round_up_def)
qed

text \<open>
  \<open>V_MOD_POWER_OF_TWO\<close> is the remainder for every modulus, whether or not it takes the
  masking branch.
\<close>

lemma v_mod_power_of_two_is_mod: "V_MOD_POWER_OF_TWO n p = (n :: u64) mod p"
  by (auto simp: V_MOD_POWER_OF_TWO_def is_power_of_two_iff intro: and_pred_power_mod)

text \<open>
  \<open>v_least_containing_multiple\<close> either returns the least multiple of \<open>dividend\<close> that is
  at least \<open>divisor\<close>, or aborts on one of its assertions; it never returns a wrapped value,
  and it aborts exactly when the dividend is 0 or the rounding addition overflows \<open>size_t\<close>.
\<close>

lemma v_least_containing_multiple_spec:
  "v_least_containing_multiple divisor dividend =
     (if dividend = 0 \<or> 2 ^ 64 < unat divisor + unat dividend then Inl Assert_failed
      else Inr (of_nat (LEAST m. unat divisor \<le> m \<and> unat dividend dvd m)))"
proof (cases "dividend = 0 \<or> 2 ^ 64 < unat divisor + unat dividend")
  case False
  let ?d = "unat divisor" and ?m = "unat dividend"
  have m0: "0 < ?m" using False by (simp add: unat_gt_0)
  obtain r where r: "v_least_containing_multiple divisor dividend = Inr r"
      "unat r = (?d + (?m - 1)) div ?m * ?m"
    using least_multiple_value False by force
  have "(LEAST m. ?d \<le> m \<and> ?m dvd m) = unat r"
  proof (rule Least_equality)
    show "?d \<le> unat r \<and> ?m dvd unat r" using round_up_multiple(1) [OF m0] r(2) by simp
  next
    fix n assume "?d \<le> n \<and> ?m dvd n"
    then obtain q where q: "n = ?m * q" "?d \<le> ?m * q" by (auto elim: dvdE)
    have "unat r < ?d + ?m" unfolding r(2) by (rule round_up_multiple(2) [OF m0])
    also have "\<dots> \<le> Suc q * ?m" using q(2) by (simp add: mult.commute)
    finally have "(?d + (?m - 1)) div ?m < Suc q" unfolding r(2) by (simp only: mult_less_cancel2)
    then have "(?d + (?m - 1)) div ?m * ?m \<le> q * ?m" by (intro mult_right_mono) simp_all
    then show "unat r \<le> n" using q(1) r(2) by (simp only: mult.commute)
  qed
  with False r(1) show ?thesis by (simp only: if_False) simp
qed (simp only: least_multiple_fault if_True)

end
