(* ===== verification/CSB_Rand.thy ===== *)
theory CSB_Rand
  imports CSB_Math
begin

text \<open>
  bench/include/CSB/rand.h. Randomness is an input of the model: each call of
  \<open>getrandom\<close> takes the next element of the \<open>entropy\<close> tape (\<open>None\<close> is the answer -1),
  each call of \<open>rand\<close> the next element of \<open>rand_tape\<close>, which \<open>srand\<close> replaces by the
  library's sequence for the seed (the parameter \<open>lib_rand\<close>). \<open>getrandom\<close> fills four bytes
  in one call, as its documentation guarantees for requests of at most 256 bytes.
  A rejection loop recurses over its tape; a tape that ends is \<open>Inl Starved\<close>.
\<close>

record rand_state =
  g_rand_initialized :: bool
  entropy :: "u32 option list"
  rand_tape :: "u32 list"

type_synonym 's drawer = "u32 \<Rightarrow> u32 \<Rightarrow> 's \<Rightarrow> (u32 \<times> 's) result"

section \<open>The generators\<close>

definition srand :: "(u32 \<Rightarrow> u32 list) \<Rightarrow> u32 \<Rightarrow> rand_state \<Rightarrow> rand_state" where
  "srand lib_rand seed st = st\<lparr>rand_tape := lib_rand seed\<rparr>"

definition random_init :: "(u32 \<Rightarrow> u32 list) \<Rightarrow> u64 \<Rightarrow> rand_state \<Rightarrow> rand_state" where
  "random_init lib_rand now st =
     (let seed = ucast now in
      if \<not> g_rand_initialized st
      then (srand lib_rand seed st)\<lparr>g_rand_initialized := True\<rparr> else st)"

definition random_init_seed :: "(u32 \<Rightarrow> u32 list) \<Rightarrow> u32 \<Rightarrow> rand_state \<Rightarrow> rand_state result" where
  "random_init_seed lib_rand seed st =
     c_assert (\<not> g_rand_initialized st)
       (Inr ((srand lib_rand seed st)\<lparr>g_rand_initialized := True\<rparr>))"

definition random_rand :: "rand_state \<Rightarrow> (u32 \<times> rand_state) result" where
  "random_rand st = (case entropy st of
       [] \<Rightarrow> Inl Starved
     | None # _ \<Rightarrow> Inl Assert_failed
     | Some r # es \<Rightarrow> Inr (r, st\<lparr>entropy := es\<rparr>))"

text \<open>The rejection loop \<open>do r = rand % pow2(rng); while (r >= rng)\<close>, over its tape.\<close>

fun random_loop :: "u32 \<Rightarrow> u32 option list \<Rightarrow> (u32 \<times> u32 option list) result" where
  "random_loop rng [] = Inl Starved"
| "random_loop rng (None # es) = Inl Assert_failed"
| "random_loop rng (Some x # es) =
     bind_r (v_pow2_round_up rng)
       (\<lambda>p. let r = x mod p in if r \<ge> rng then random_loop rng es else Inr (r, es))"

definition random_ranged :: "(u32 \<Rightarrow> u32 list) \<Rightarrow> u32 \<Rightarrow> rand_state \<Rightarrow> (u32 \<times> rand_state) result" where
  "random_ranged lib_rand rng st =
     bind_r (if \<not> g_rand_initialized st then random_init_seed lib_rand 0 st else Inr st)
       (\<lambda>st1. c_assert (g_rand_initialized st1)
         (c_assert (rng \<le> 0x0FFFFFFF)
           (bind_r (random_loop rng (entropy st1))
             (\<lambda>(r, es). Inr (r, st1\<lparr>entropy := es\<rparr>)))))"

definition random_next_int :: "(u32 \<Rightarrow> u32 list) \<Rightarrow> rand_state drawer" where
  "random_next_int lib_rand lo hi st =
     c_assert (hi \<ge> lo)
       (bind_r (random_ranged lib_rand (hi - lo + 1) st) (\<lambda>(r, st'). Inr (r + lo, st')))"

definition random_next_int64 ::
  "u64 \<Rightarrow> u64 \<Rightarrow> u16 \<Rightarrow> rand_state \<Rightarrow> (u64 \<times> rand_state) result" where
  "random_next_int64 lo hi alignment st =
     (let rng = (hi - lo) + 1 in
      c_assert (hi \<ge> lo)
       (bind_r (random_rand st) (\<lambda>(lsbits, st1).
        bind_r (random_rand st1) (\<lambda>(msbits, st2).
          let n0 = push_bit 32 (ucast msbits :: u64) OR ucast lsbits in
          if rng = 0 \<or> unat alignment \<ge> 31 then Inl Undefined
          else
            (let n1 = n0 mod rng + lo;
                 n2 = n1 AND NOT (push_bit (unat alignment) 1 - 1)
             in c_assert (n2 \<ge> lo) (c_assert (n2 \<le> hi) (Inr (n2, st2))))))))"

text \<open>\<open>rand() % v_pow2_round_up(rng)\<close>: the \<open>int\<close> converts to \<open>uint32_t\<close>.\<close>

fun deterministic_loop :: "u32 \<Rightarrow> u32 list \<Rightarrow> (u32 \<times> u32 list) result" where
  "deterministic_loop rng [] = Inl Starved"
| "deterministic_loop rng (x # xs) =
     bind_r (v_pow2_round_up rng)
       (\<lambda>p. let r = x mod p in if r \<ge> rng then deterministic_loop rng xs else Inr (r, xs))"

definition deterministic_random_init :: "(u32 \<Rightarrow> u32 list) \<Rightarrow> u32 \<Rightarrow> rand_state \<Rightarrow> rand_state" where
  "deterministic_random_init = srand"

definition deterministic_random :: "u32 \<Rightarrow> rand_state \<Rightarrow> (u32 \<times> rand_state) result" where
  "deterministic_random rng st =
     bind_r (deterministic_loop rng (rand_tape st))
       (\<lambda>(r, xs). Inr (r, st\<lparr>rand_tape := xs\<rparr>))"

definition deterministic_random_next_int :: "rand_state drawer" where
  "deterministic_random_next_int lo hi st =
     c_assert (hi \<ge> lo)
       (bind_r (deterministic_random (hi - lo + 1) st) (\<lambda>(r, st'). Inr (r + lo, st')))"

text \<open>
  The thread-safe generator: \<open>rand_r\<close> is a parameter from the thread's seed to the answer
  (an \<open>int\<close>) and the next seed; a seed of 0 is first replaced by the time. Negating
  \<open>INT_MIN\<close> is undefined.
\<close>

definition random_thread_safe_rand ::
  "(u32 \<Rightarrow> u32 \<times> u32) \<Rightarrow> u32 \<Rightarrow> u32 \<Rightarrow> u32 \<times> u32" where
  "random_thread_safe_rand rand_r now seed = rand_r (if seed = 0 then now else seed)"

definition random_thread_safe_get_next ::
  "(u32 \<Rightarrow> u32 \<times> u32) \<Rightarrow> u32 \<Rightarrow> u32 \<Rightarrow> u32 \<Rightarrow> u32 \<Rightarrow> (u32 \<times> u32) result" where
  "random_thread_safe_get_next rand_r now lo hi seed =
     c_assert (lo \<le> hi)
      (c_assert (hi < 0x7FFFFFFF)
        (let (r, seed') = random_thread_safe_rand rand_r now seed in
         if sint r = - (2 ^ 31) then Inl Undefined
         else (let a = (if sint r < 0 then - r else r)
               in Inr (a mod (hi - lo + 1) + lo, seed'))))"

section \<open>Consumers of a drawer\<close>

text \<open>
  The functions of rand.h (and the warm-up of benchmark.c) that call a ranged generator,
  over an arbitrary one, so that their lemmas hold for \<open>random_next_int\<close> and
  \<open>deterministic_random_next_int\<close> alike.
\<close>

fun draw_many :: "'s drawer \<Rightarrow> nat \<Rightarrow> u32 \<Rightarrow> u32 \<Rightarrow> 's \<Rightarrow> (u32 list \<times> 's) result" where
  "draw_many draw 0 lo hi s = Inr ([], s)"
| "draw_many draw (Suc n) lo hi s =
     bind_r (draw lo hi s) (\<lambda>(r, s1).
       bind_r (draw_many draw n lo hi s1) (\<lambda>(rs, s2). Inr (r # rs, s2)))"

definition swap :: "'a list \<Rightarrow> nat \<Rightarrow> nat \<Rightarrow> 'a list" where
  "swap xs i j = xs[i := xs ! j, j := xs ! i]"

fun shuffle_steps :: "'s drawer \<Rightarrow> nat list \<Rightarrow> 'a list \<Rightarrow> 's \<Rightarrow> ('a list \<times> 's) result" where
  "shuffle_steps draw [] arr s = Inr (arr, s)"
| "shuffle_steps draw (i # is) arr s =
     bind_r (draw 0 (of_nat (i - 1)) s)
       (\<lambda>(index, s'). shuffle_steps draw is (swap arr i (unat index)) s')"

fun probability_scan :: "u32 \<Rightarrow> u32 \<Rightarrow> nat \<Rightarrow> u32 list \<Rightarrow> nat result" where
  "probability_scan r start i [] = Inl Assert_failed"
| "probability_scan r start i (p # ps) =
     (if r > start \<and> r \<le> start + p then Inr i
      else probability_scan r (start + p) (Suc i) ps)"

definition random_gen_values ::
  "(u32 \<Rightarrow> u32 list) \<Rightarrow> nat \<Rightarrow> u32 \<Rightarrow> u32 \<Rightarrow> rand_state \<Rightarrow> (u32 list \<times> rand_state) result" where
  "random_gen_values lib_rand len lo hi st = draw_many (random_next_int lib_rand) len lo hi st"

definition random_next_string ::
  "(u32 \<Rightarrow> u32 list) \<Rightarrow> nat \<Rightarrow> rand_state \<Rightarrow> (u8 list \<times> rand_state) result" where
  "random_next_string lib_rand len st =
     bind_r (draw_many (random_next_int lib_rand) len 0 255 st)
       (\<lambda>(rs, st'). Inr (map ucast rs, st'))"

text \<open>With \<open>len = 0\<close> the bound \<open>len - 1\<close> wraps and the loop writes past the buffer.\<close>

definition random_next_printable_string ::
  "(u32 \<Rightarrow> u32 list) \<Rightarrow> nat \<Rightarrow> rand_state \<Rightarrow> (u8 list \<times> rand_state) result" where
  "random_next_printable_string lib_rand len st =
     (if len = 0 then Inl Undefined
      else bind_r (draw_many (random_next_int lib_rand) (len - 1) 33 126 st)
             (\<lambda>(rs, st'). Inr (map ucast rs @ [0], st')))"

definition random_with_probability ::
  "(u32 \<Rightarrow> u32 list) \<Rightarrow> u32 list \<Rightarrow> rand_state \<Rightarrow> (nat \<times> rand_state) result" where
  "random_with_probability lib_rand probabilities st =
     bind_r (random_next_int lib_rand 1 100 st)
       (\<lambda>(r, st'). bind_r (probability_scan r 0 0 probabilities) (\<lambda>i. Inr (i, st')))"

definition deterministic_random_shuffle :: "'a list \<Rightarrow> rand_state \<Rightarrow> ('a list \<times> rand_state) result" where
  "deterministic_random_shuffle arr st =
     shuffle_steps deterministic_random_next_int [1..<length arr] arr st"

section \<open>Lemmas\<close>

lemma random_loop_below: "random_loop rng es = Inr (r, es') \<Longrightarrow> r < rng"
  by (induction rng es rule: random_loop.induct) (force simp: Let_def split: if_splits)+

lemma deterministic_loop_below: "deterministic_loop rng es = Inr (r, es') \<Longrightarrow> r < rng"
  by (induction rng es rule: deterministic_loop.induct) (force simp: Let_def split: if_splits)+
lemma probability_scan_interval: "probability_scan r start i ps = Inr k \<Longrightarrow> unat start + sum_list (map unat ps) < 2 ^ 32 \<Longrightarrow> 
  i \<le> k \<and> k < i + length ps \<and> unat start + sum_list (map unat (take (k - i) ps)) < unat r \<and> unat r \<le> unat start + sum_list (map unat (take (Suc (k - i)) ps))"
proof (induction r start i ps rule: probability_scan.induct)
  case (2 r start i p ps)
  have u: "unat (start + p) = unat start + unat p" using 2 by (subst unat_add_lem [symmetric]) auto
  show ?case
  proof (cases "r > start \<and> r \<le> start + p")
    case True
    then show ?thesis using 2 u by (auto simp: word_le_nat_alt word_less_nat_alt)
  next
    case False
    then have "Suc i \<le> k \<and> k < Suc i + length ps \<and> unat (start + p) + sum_list (map unat (take (k - Suc i) ps)) < unat r \<and> unat r \<le> unat (start + p) + sum_list (map unat (take (Suc (k - Suc i)) ps))"
      using 2 u by auto
    moreover then obtain d where "k = Suc i + d" by (auto simp: le_iff_add)
    ultimately show ?thesis using u by (simp add: Suc_diff_le)
  qed
qed simp

lemma random_next_int_range: "random_next_int lib lo hi s = Inr (r, s') \<Longrightarrow> lo \<le> r \<and> r \<le> hi"
  by (auto simp: random_next_int_def random_ranged_def split: prod.splits
      dest!: random_loop_below intro: offset_in_rng [THEN conjunct1] offset_in_rng [THEN conjunct2])

lemma deterministic_next_int_range: "deterministic_random_next_int lo hi s = Inr (r, s') \<Longrightarrow> lo \<le> r \<and> r \<le> hi"
  by (auto simp: deterministic_random_next_int_def deterministic_random_def split: prod.splits
      dest!: deterministic_loop_below intro: offset_in_rng [THEN conjunct1] offset_in_rng [THEN conjunct2])

lemma random_loop_returns:
  assumes "None \<notin> set es" "Some x \<in> set es" "x < rng" "unat rng \<le> 2 ^ 31"
  shows "\<exists>r es'. random_loop rng es = Inr (r, es')"
proof -
  have r0: "rng \<noteq> 0" using assms(3) by auto
  obtain k where k: "k \<le> 31" "v_pow2_round_up rng = Inr (2 ^ k)" "unat rng \<le> 2 ^ k"
    using pow2_round_up_bounds [OF r0 assms(4)] by blast
  have "unat (2 ^ k :: u32) = 2 ^ k" using k(1) by (intro unat_two_power) simp
  then have "rng \<le> 2 ^ k" using k(3) by (simp add: word_le_nat_alt)
  then have x: "x mod 2 ^ k = x" using assms(3) by (simp add: word_mod_less)
  show ?thesis using assms(1,2)
  proof (induction es)
    case (Cons a es)
    then obtain y where a: "a = Some y" by (cases a) auto
    show ?case
    proof (cases "y mod 2 ^ k < rng")
      case False
      with Cons a x assms(3) show ?thesis by (auto simp: k(2) Let_def)
    qed (auto simp: a k(2) Let_def dest: leD)
  qed simp
qed

locale ranged_drawer =
  fixes draw :: "'s drawer"
  assumes draw_range: "draw lo hi s = Inr (r, s') \<Longrightarrow> lo \<le> r \<and> r \<le> hi"
begin

lemma draw_many_range:
  "draw_many draw n lo hi s = Inr (rs, s') \<Longrightarrow> length rs = n \<and> (\<forall>r \<in> set rs. lo \<le> r \<and> r \<le> hi)"
proof (induction n arbitrary: s rs)
  case (Suc n)
  then show ?case by (auto dest!: draw_range split: prod.splits) 
qed simp

lemma draw_index:
  assumes "draw 0 (of_nat k) s = Inr (r, s')"
  shows "unat r \<le> k"
proof -
  have "unat r \<le> unat (of_nat k :: u32)"
    using draw_range [OF assms] by (simp add: word_le_nat_alt)
  also have "\<dots> \<le> k" by (simp add: unat_of_nat)
  finally show ?thesis .
qed

end

definition displaced :: "'a list \<Rightarrow> nat \<Rightarrow> 'a list \<Rightarrow> bool" where
  "displaced orig m arr \<longleftrightarrow> mset arr = mset orig \<and> (\<forall>k. m \<le> k \<longrightarrow> k < length orig \<longrightarrow> arr ! k = orig ! k)
     \<and> (2 \<le> m \<longrightarrow> (\<forall>j < m. arr ! j \<noteq> orig ! j))"

lemma length_swap [simp]: "length (swap xs i j) = length xs"
  by (simp add: swap_def)

lemma nth_swap: "i < length xs \<Longrightarrow> j < length xs \<Longrightarrow>
    swap xs i j ! k = (if k = j then xs ! i else if k = i then xs ! j else xs ! k)"
  by (simp add: swap_def nth_list_update)

lemma mset_swap [simp]: "i < length xs \<Longrightarrow> j < length xs \<Longrightarrow> mset (swap xs i j) = mset xs"
  by (simp add: swap_def mset_update nth_list_update)

lemma displaced_step:
  assumes "distinct orig" "displaced orig m arr" "0 < m" "m < length orig" "idx < m"
  shows "displaced orig (Suc m) (swap arr m idx)"
proof -
  from assms(2) have ms: "mset arr = mset orig" and tl: "\<And>k. m \<le> k \<Longrightarrow> k < length orig \<Longrightarrow> arr ! k = orig ! k"
    and hd: "\<And>j. 2 \<le> m \<Longrightarrow> j < m \<Longrightarrow> arr ! j \<noteq> orig ! j" by (simp_all add: displaced_def)
  have len: "length arr = length orig" using ms by (rule mset_eq_length)
  have dist: "distinct arr" using ms assms(1) by (metis mset_eq_imp_distinct_iff)
  have "swap arr m idx ! j \<noteq> orig ! j" if jm: "j < Suc m" for j
  proof -
    consider "j = m" | "j = idx" | "j < m" "j \<noteq> idx" using jm by linarith
    then show ?thesis
    proof cases
      case 1
      have "arr ! idx \<noteq> arr ! m" using dist assms len by (simp add: nth_eq_iff_index_eq)
      then show ?thesis using 1 assms len tl [of m] by (simp add: nth_swap)
    next
      case 2
      have "orig ! m \<noteq> orig ! idx" using assms by (simp add: nth_eq_iff_index_eq)
      then show ?thesis using 2 assms len tl [of m] by (simp add: nth_swap)
    next
      case 3
      then have "2 \<le> m" using assms(5) by linarith
      then show ?thesis using 3 assms len hd [of j] by (simp add: nth_swap)
    qed
  qed
  moreover have "swap arr m idx ! k = orig ! k" if "Suc m \<le> k" "k < length orig" for k
    using that assms len tl [of k] by (simp add: nth_swap)
  ultimately show ?thesis using ms len assms by (simp add: displaced_def)
qed

context ranged_drawer begin

lemma shuffle_steps_displaced:
  assumes "shuffle_steps draw [m..<length orig] arr s = Inr (arr', s')"
    and "distinct orig" "displaced orig m arr" "0 < m" "m \<le> length orig"
  shows "displaced orig (length orig) arr'"
  using assms
proof (induction "length orig - m" arbitrary: m arr s)
  case (Suc n)
  then have m: "m < length orig" by linarith
  with Suc.prems(1) obtain idx s1 where d: "draw 0 (of_nat (m - 1)) s = Inr (idx, s1)"
    and r: "shuffle_steps draw [Suc m..<length orig] (swap arr m (unat idx)) s1 = Inr (arr', s')"
    by (auto simp: upt_conv_Cons)
  have "unat idx < m" using draw_index [OF d] Suc.prems(4) by linarith
  then have "displaced orig (Suc m) (swap arr m (unat idx))"
    using displaced_step Suc.prems m by blast
  from Suc.hyps(1) [OF _ r Suc.prems(2) this] show ?case using Suc.hyps(2) m by simp
qed simp

end

interpretation rn: ranged_drawer "random_next_int lib_rand" for lib_rand
  by unfold_locales (rule random_next_int_range)

interpretation dr: ranged_drawer deterministic_random_next_int
  by unfold_locales (rule deterministic_next_int_range)


lemma shuffle_result:
  assumes "deterministic_random_shuffle arr st = Inr (arr', st')" "distinct arr" "2 \<le> length arr"
  shows "displaced arr (length arr) arr'"
proof (rule dr.shuffle_steps_displaced)
  show "shuffle_steps deterministic_random_next_int [1..<length arr] arr st = Inr (arr', st')"
    using assms(1) by (simp add: deterministic_random_shuffle_def)
qed (use assms in \<open>simp_all add: displaced_def\<close>)

text \<open>
  When the shuffle returns: a multiple of a power of two that is at least the size of the range
  is never rejected, so each draw uses up at most one of them.
\<close>

definition accepted :: "nat \<Rightarrow> u32 list \<Rightarrow> nat" where
  "accepted k xs = length (filter (\<lambda>x. 2 ^ k dvd unat x) xs)"

lemma deterministic_loop_returns:
  assumes "rng \<noteq> 0" "unat rng \<le> 2 ^ k" "k \<le> 31" "0 < accepted k xs"
  shows "\<exists>r xs'. deterministic_loop rng xs = Inr (r, xs') \<and> accepted k xs \<le> accepted k xs' + 1"
proof -
  have "(2::nat) ^ k \<le> 2 ^ 31" using assms(3) by (intro power_increasing) simp_all
  then obtain j where j: "j \<le> 31" "v_pow2_round_up rng = Inr (2 ^ j)" "(2::nat) ^ j < 2 * unat rng"
    using pow2_round_up_bounds [OF assms(1)] assms(2) by auto
  have "(2::nat) ^ j < 2 ^ Suc k" using j(3) assms(2) by simp
  then have jk: "j \<le> k" using power_less_imp_less_exp [of "2::nat" j "Suc k"] by simp
  have p: "unat (2 ^ j :: u32) = 2 ^ j" using j(1) by (intro unat_two_power) simp
  have never: "x mod 2 ^ j < rng" if "2 ^ k dvd unat x" for x
  proof -
    have "unat (x mod 2 ^ j) = 0" using dvd_trans [OF le_imp_power_dvd [OF jk] that] by (simp add: unat_mod p)
    then show ?thesis using assms(1) by (simp add: unat_eq_0 word_neq_0_conv)
  qed
  show ?thesis using assms(4)
  proof (induction xs)
    case (Cons x xs)
    show ?case
    proof (cases "x mod 2 ^ j < rng")
      case True
      then show ?thesis by (auto simp: j(2) Let_def accepted_def not_less [symmetric])
    next
      case False
      then have "\<not> 2 ^ k dvd unat x" using never by blast
      with False Cons show ?thesis by (auto simp: j(2) Let_def accepted_def)
    qed
  qed (simp add: accepted_def)
qed

lemma shuffle_steps_return:
  assumes "\<And>i. i \<in> set is \<Longrightarrow> 0 < i \<and> i \<le> 2 ^ k" "k \<le> 31" "length is \<le> accepted k (rand_tape st)"
  shows "\<exists>arr' st'. shuffle_steps deterministic_random_next_int is arr st = Inr (arr', st')"
  using assms(1,3)
proof (induction "is" arbitrary: arr st)
  case (Cons i "is")
  have i: "0 < i" "i \<le> 2 ^ k" using Cons.prems(1) [of i] by simp_all
  have "(2::nat) ^ k \<le> 2 ^ 31" using assms(2) by (intro power_increasing) simp_all
  then have u: "unat (of_nat i :: u32) = i" using i by (simp add: unat_of_nat take_bit_nat_eq_self)
  have rng: "of_nat (i - 1) - 0 + 1 = (of_nat i :: u32)" using i(1) by (simp add: of_nat_diff)
  have "(of_nat i :: u32) \<noteq> 0" using u i(1) by (metis unat_0 less_irrefl)
  then obtain r xs where r: "deterministic_loop (of_nat i) (rand_tape st) = Inr (r, xs)"
      "accepted k (rand_tape st) \<le> accepted k xs + 1"
    using deterministic_loop_returns [of "of_nat i" k "rand_tape st"] u i(2) assms(2) Cons.prems(2) by auto
  then have "deterministic_random_next_int 0 (of_nat (i - 1)) st = Inr (r, st\<lparr>rand_tape := xs\<rparr>)"
    unfolding deterministic_random_next_int_def rng by (simp add: deterministic_random_def)
  with Cons.IH [of "st\<lparr>rand_tape := xs\<rparr>"] Cons.prems r(2) show ?case by simp
qed simp

lemma probability_scan_total:
  "unat start + sum_list (map unat ps) < 2 ^ 32 \<Longrightarrow> start < r \<Longrightarrow>
   unat r \<le> unat start + sum_list (map unat ps) \<Longrightarrow> \<exists>k. probability_scan r start i ps = Inr k"
proof (induction r start i ps rule: probability_scan.induct)
  case (2 r start i p ps)
  have u: "unat (start + p) = unat start + unat p"
    using "2.prems"(1) by (subst unat_add_lem [symmetric]) auto
  show ?case
  proof (cases "r > start \<and> r \<le> start + p")
    case False
    with "2.prems" have "start + p < r" by (simp add: not_le)
    with 2 u False show ?thesis by auto
  qed simp
qed (simp add: word_less_nat_alt)

lemma random_ranged_returns:
  assumes "None \<notin> set (entropy st)" "Some x \<in> set (entropy st)" "x < rng" "rng \<le> 0x0FFFFFFF"
  shows "\<exists>r st'. random_ranged lib_rand rng st = Inr (r, st')"
proof -
  have "unat rng \<le> 2 ^ 31" using assms(4) by (simp add: word_le_nat_alt)
  then obtain r es where "random_loop rng (entropy st) = Inr (r, es)"
    using random_loop_returns assms(1-3) by blast
  then show ?thesis using assms(4)
    by (simp add: random_ranged_def random_init_seed_def srand_def)
qed

text \<open>Aligning a word down clears its low bits.\<close>

lemma aligned_down_dvd:
  fixes n :: u64
  assumes "a < 64"
  shows "2 ^ a dvd unat (n AND NOT (push_bit a 1 - 1))"
proof -
  have "push_bit a 1 - 1 = (mask a :: u64)" by (simp add: push_bit_eq_mult mask_eq_exp_minus_1)
  then have "take_bit a (unat (n AND NOT (push_bit a 1 - 1))) = 0"
    by (intro bit_eqI) (simp add: bit_simps)
  then show ?thesis by (simp add: take_bit_eq_0_iff)
qed

section \<open>Properties\<close>

text \<open>
  C37. \<open>random_next_int\<close> returns a number of the closed interval it was asked for as soon as the
  entropy source delivers one word that is itself below the size of the interval (and does
  not fail before), for every interval of fewer than \<open>0x0FFFFFFF\<close> numbers.
\<close>

theorem random_next_int_returns_in_range:
  assumes "lo \<le> hi" and "hi - lo < 0x0FFFFFFF"
    and "None \<notin> set (entropy st)" and "Some x \<in> set (entropy st)" and "x \<le> hi - lo"
  shows "\<exists>r st'. random_next_int lib_rand lo hi st = Inr (r, st') \<and> lo \<le> r \<and> r \<le> hi"
proof -
  have u: "unat (hi - lo + 1) = unat (hi - lo) + 1"
    using assms(2) by (simp add: unat_word_ariths(1) word_less_nat_alt)
  have "x < hi - lo + 1" using assms(5) by (simp add: word_less_nat_alt word_le_nat_alt u)
  moreover have "hi - lo + 1 \<le> 0x0FFFFFFF" using assms(2) by (simp add: word_less_nat_alt word_le_nat_alt u)
  ultimately obtain r st' where "random_ranged lib_rand (hi - lo + 1) st = Inr (r, st')"
    using random_ranged_returns assms(3,4) by blast
  then have e: "random_next_int lib_rand lo hi st = Inr (r + lo, st')"
    using assms(1) by (simp add: random_next_int_def)
  then show ?thesis using rn.draw_range by blast
qed

theorem random_next_int_returns_in_range_witness:
  "\<exists>r st'. random_next_int (\<lambda>_. []) 3 7 \<lparr>g_rand_initialized = False, entropy = [Some 6, Some 2], rand_tape = []\<rparr>
     = Inr (r, st') \<and> 3 \<le> r \<and> r \<le> 7"
  by (rule random_next_int_returns_in_range [where x = 2]) simp_all

text \<open>
  With percentages that sum to 100, \<open>random_with_probability\<close> never reaches its final
  assertion: it returns the index whose cumulative interval holds the drawn number, so
  each index is chosen for exactly as many of the hundred draws as its percentage says.
\<close>

lemma random_with_probability_exact:
  assumes "sum_list (map unat ps) = 100"
    and "random_next_int lib_rand 1 100 st = Inr (r, st')"
  shows "\<exists>i < length ps. random_with_probability lib_rand ps st = Inr (i, st') \<and>
    sum_list (map unat (take i ps)) < unat r \<and> unat r \<le> sum_list (map unat (take (Suc i) ps))"
proof -
  have "1 \<le> r" "r \<le> 100" using rn.draw_range [OF assms(2)] by simp_all
  then have r: "0 < r" "unat r \<le> 100" by (simp_all add: word_le_nat_alt word_less_nat_alt)
  then obtain i where i: "probability_scan r 0 0 ps = Inr i"
    using probability_scan_total [of 0 ps r 0] assms(1) by auto
  with probability_scan_interval [OF i] assms show ?thesis
    by (auto simp: random_with_probability_def)
qed

text \<open>
  C38. \<open>deterministic_random_shuffle\<close> of two or more distinct elements returns, as soon as the
  sequence of \<open>rand\<close> still holds one number per step that no rejection loop can reject (a multiple
  of a power of two that is at least the length). The result is a permutation, and since the index
  is drawn strictly below the current position, none of the elements is left where it was: the
  identity and most other permutations are never produced.
\<close>

theorem shuffle_permutes_and_displaces:
  assumes "distinct arr" "2 \<le> length arr" "length arr \<le> 2 ^ k" "k \<le> 31"
    "length arr - 1 \<le> length (filter (\<lambda>x. 2 ^ k dvd unat x) (rand_tape st))"
  shows "\<exists>arr' st'. deterministic_random_shuffle arr st = Inr (arr', st') \<and> mset arr' = mset arr \<and>
    (\<forall>j < length arr. arr' ! j \<noteq> arr ! j)"
proof -
  obtain arr' st' where "deterministic_random_shuffle arr st = Inr (arr', st')"
    using shuffle_steps_return [of "[1..<length arr]" k st arr] assms(3-5)
    by (fastforce simp: deterministic_random_shuffle_def accepted_def)
  with shuffle_result [OF this assms(1,2)] assms(2) show ?thesis by (auto simp: displaced_def)
qed

theorem shuffle_permutes_and_displaces_witness:
  "\<exists>arr' st'. deterministic_random_shuffle [0::nat, 1, 2] \<lparr>g_rand_initialized = True, entropy = [], rand_tape = [3, 8, 4]\<rparr> =
      Inr (arr', st') \<and> mset arr' = {#0, 1, 2#} \<and> arr' ! 2 \<noteq> 2"
proof -
  let ?st = "\<lparr>g_rand_initialized = True, entropy = [], rand_tape = [3, 8, 4]\<rparr>"
  obtain arr' st' where "deterministic_random_shuffle [0::nat, 1, 2] ?st = Inr (arr', st')" "mset arr' = mset [0, 1, 2]"
      "\<forall>j < length [0::nat, 1, 2]. arr' ! j \<noteq> [0, 1, 2] ! j"
    using shuffle_permutes_and_displaces [of "[0::nat, 1, 2]" 2 ?st] by auto
  moreover from this(3) have "arr' ! 2 \<noteq> 2" by (metis length_Cons lessI list.size(3) nth_Cons_Suc nth_Cons_0 numeral_2_eq_2)
  ultimately show ?thesis by auto
qed

lemma random_with_probability_exact_example:
  "\<exists>i < length [20, 20, 60 :: u32]. random_with_probability (\<lambda>_. []) [20, 20, 60]
      \<lparr>g_rand_initialized = False, entropy = [Some 41], rand_tape = []\<rparr> =
        Inr (i, \<lparr>g_rand_initialized = True, entropy = [], rand_tape = []\<rparr>) \<and>
    sum_list (map unat (take i [20, 20, 60 :: u32])) < unat (42 :: u32) \<and>
    unat (42 :: u32) \<le> sum_list (map unat (take (Suc i) [20, 20, 60 :: u32]))"
  by (rule random_with_probability_exact) (simp, code_simp)

text \<open>
  A value returned by \<open>random_next_int64\<close> lies in the requested interval and is a multiple
  of \<open>2^alignment\<close>.
\<close>

lemma random_next_int64_aligned_in_range:
  assumes "random_next_int64 lo hi al st = Inr (r, st')"
  shows "lo \<le> r \<and> r \<le> hi \<and> 2 ^ unat al dvd unat r"
proof -
  from assms have "lo \<le> r" "r \<le> hi" "unat al < 31"
      "\<exists>n. r = n AND NOT (push_bit (unat al) 1 - 1)"
    by (auto simp: random_next_int64_def Let_def split: if_splits prod.splits)
  then show ?thesis using aligned_down_dvd [of "unat al"] by auto
qed

lemma random_next_int64_aligned_in_range_example:
  "(16 :: u64) \<le> 24 \<and> (24 :: u64) \<le> 32 \<and> 2 ^ unat (3 :: u16) dvd unat (24 :: u64)"
proof (rule random_next_int64_aligned_in_range)
  show "random_next_int64 16 32 3 \<lparr>g_rand_initialized = True, entropy = [Some 9, Some 0], rand_tape = []\<rparr>
    = Inr (24, \<lparr>g_rand_initialized = True, entropy = [], rand_tape = []\<rparr>)"
    by code_simp
qed

text \<open>
  The alignment is applied after the draw, so when the interval holds no aligned number
  \<open>random_next_int64\<close> aborts on its own assertions, whatever is drawn.
\<close>

lemma random_next_int64_aborts_without_aligned:
  assumes "lo \<le> hi" and "hi - lo + 1 \<noteq> 0" and "unat al < 31"
    and "entropy st = Some a # Some b # es"
    and "\<not> (\<exists>m. unat lo \<le> m \<and> m \<le> unat hi \<and> 2 ^ unat al dvd m)"
  shows "random_next_int64 lo hi al st = Inl Assert_failed"
proof -
  have "\<not> (lo \<le> x \<and> x \<le> hi)" if "2 ^ unat al dvd unat x" for x
    using assms(5) that by (auto simp: word_le_nat_alt)
  then have "\<not> (lo \<le> n AND NOT (push_bit (unat al) 1 - 1) \<and> n AND NOT (push_bit (unat al) 1 - 1) \<le> hi)" for n
    using aligned_down_dvd [of "unat al" n] assms(3) by simp
  then show ?thesis using assms(1-4)
    by (auto simp: random_next_int64_def Let_def random_rand_def c_assert_def)
qed

lemma random_next_int64_aborts_without_aligned_witness:
  "random_next_int64 1 3 2 \<lparr>g_rand_initialized = True, entropy = [Some 9, Some 0], rand_tape = []\<rparr>
    = Inl Assert_failed"
proof (rule random_next_int64_aborts_without_aligned)
  show "\<not> (\<exists>m. unat (1 :: u64) \<le> m \<and> m \<le> unat (3 :: u64) \<and> 2 ^ unat (2 :: u16) dvd m)"
    by (auto dest: dvd_imp_le)
qed simp_all

end
