(* ===== verification/CSB_Double.thy ===== *)
theory CSB_Double
  imports CSB_Prelude
begin

text \<open>
  The non-negative part of the C types \<open>float\<close> and \<open>double\<close>, as bm_stats.h uses them:
  conversion from \<open>uint64_t\<close>, product, sum and quotient, each rounded once to the precision
  of the type (24 or 53 bits, to nearest, ties to even), and the conversion back to
  \<open>uint64_t\<close>, which truncates. \<open>Fin m e\<close> is \<open>m * 2 ^ e\<close>. A \<open>float\<close> result of \<open>2 ^ 128\<close> or
  more is infinite; no \<open>double\<close> of this program comes near that type's limit.
\<close>

datatype dbl = Fin int int | Infinity | NaN

abbreviation float_prec :: nat where "float_prec \<equiv> 24"

abbreviation double_prec :: nat where "double_prec \<equiv> 53"

text \<open>How many low bits are beyond the precision, and rounding them off.\<close>

function excess :: "nat \<Rightarrow> int \<Rightarrow> nat" where
  "excess p n = (if n < 2 ^ p then 0 else Suc (excess p (n div 2)))"
  by pat_completeness auto
termination
proof (relation "measure (\<lambda>(p, n). nat n)", simp)
  fix p :: nat and n :: int
  assume "\<not> n < 2 ^ p"
  then have "1 \<le> n" by (meson linorder_not_less one_le_power order_trans one_le_numeral)
  then show "((p, n div 2), p, n) \<in> measure (\<lambda>(p, n). nat n)" by simp
qed

declare excess.simps [simp del]

definition round_even :: "int \<Rightarrow> nat \<Rightarrow> int" where
  "round_even n k =
     (if k = 0 then n
      else let q = n div 2 ^ k; r = n mod 2 ^ k; half = 2 ^ (k - 1)
           in if r < half \<or> (r = half \<and> even q) then q else q + 1)"

definition round_to :: "nat \<Rightarrow> int \<Rightarrow> int \<Rightarrow> dbl" where
  "round_to p m e =
     (let k = excess p m; r = round_even m k; f = e + int k
      in if p = float_prec \<and> 0 \<le> f \<and> 2 ^ 128 \<le> r * 2 ^ nat f then Infinity else Fin r f)"

definition of_u64 :: "nat \<Rightarrow> u64 \<Rightarrow> dbl" where
  "of_u64 p n = round_to p (uint n) 0"

fun widen :: "dbl \<Rightarrow> dbl" where
  "widen (Fin m e) = round_to double_prec m e"
| "widen d = d"

fun dmul :: "nat \<Rightarrow> dbl \<Rightarrow> dbl \<Rightarrow> dbl" where
  "dmul p (Fin a e) (Fin b f) = round_to p (a * b) (e + f)"
| "dmul p NaN _ = NaN"
| "dmul p _ NaN = NaN"
| "dmul p Infinity (Fin b f) = (if b = 0 then NaN else Infinity)"
| "dmul p (Fin a e) Infinity = (if a = 0 then NaN else Infinity)"
| "dmul p Infinity Infinity = Infinity"

fun dadd :: "nat \<Rightarrow> dbl \<Rightarrow> dbl \<Rightarrow> dbl" where
  "dadd p (Fin a e) (Fin b f) =
     (let g = min e f in round_to p (a * 2 ^ nat (e - g) + b * 2 ^ nat (f - g)) g)"
| "dadd p NaN _ = NaN"
| "dadd p _ NaN = NaN"
| "dadd p _ _ = Infinity"

text \<open>
  The quotient is computed to 128 extra bits, with one sticky bit below them for the rest;
  the operands have at most 53 bits, so the rounding sees the exact quotient.
\<close>

fun ddiv :: "nat \<Rightarrow> dbl \<Rightarrow> dbl \<Rightarrow> dbl" where
  "ddiv p (Fin a e) (Fin b f) =
     (if b = 0 then (if a = 0 then NaN else Infinity)
      else let n = a * 2 ^ 128
           in round_to p (2 * (n div b) + (if n mod b = 0 then 0 else 1)) (e - f - 129))"
| "ddiv p NaN _ = NaN"
| "ddiv p _ NaN = NaN"
| "ddiv p Infinity (Fin b f) = Infinity"
| "ddiv p (Fin a e) Infinity = Fin 0 0"
| "ddiv p Infinity Infinity = NaN"

text \<open>A fused multiply-add rounds once; GCC contracts \<open>c + a * b\<close> to it on AArch64.\<close>

fun dfma :: "nat \<Rightarrow> dbl \<Rightarrow> dbl \<Rightarrow> dbl \<Rightarrow> dbl" where
  "dfma p (Fin a e) (Fin b f) (Fin c g) =
     (let h = min (e + f) g
      in round_to p (a * b * 2 ^ nat (e + f - h) + c * 2 ^ nat (g - h)) h)"
| "dfma p a b c = dadd p (dmul p a b) c"

fun to_u64 :: "dbl \<Rightarrow> u64 result" where
  "to_u64 (Fin m e) =
     (let v = (if 0 \<le> e then m * 2 ^ nat e else m div 2 ^ nat (- e))
      in if v < 2 ^ 64 then Inr (of_int v) else Inl Undefined)"
| "to_u64 _ = Inl Undefined"

text \<open>\<open>%.df\<close> prints the value rounded to \<open>d\<close> decimals: this integer over \<open>10 ^ d\<close>.\<close>

fun to_decimals :: "nat \<Rightarrow> dbl \<Rightarrow> int option" where
  "to_decimals d (Fin m e) =
     Some (if 0 \<le> e then m * 2 ^ nat e * 10 ^ d else round_even (m * 10 ^ d) (nat (- e)))"
| "to_decimals d _ = None"

section \<open>Lemmas\<close>

lemma excess_exact: "n < 2 ^ p \<Longrightarrow> excess p n = 0"
  by (simp add: excess.simps)

text \<open>Integers that fit the precision convert exactly.\<close>

lemma of_u64_exact: "uint n < 2 ^ p \<Longrightarrow> p \<noteq> float_prec \<Longrightarrow> of_u64 p n = Fin (uint n) 0"
  by (simp add: of_u64_def round_to_def excess_exact round_even_def)

lemma round_even_bounds:
  assumes "0 \<le> n"
  shows "\<bar>round_even n k * 2 ^ k - n\<bar> * 2 \<le> 2 ^ k" and "0 \<le> round_even n k"
proof -
  let ?q = "n div 2 ^ k" and ?r = "n mod 2 ^ k"
  have n: "n = ?q * 2 ^ k + ?r" by (simp only: div_mult_mod_eq)
  have r: "0 \<le> ?r" "?r < 2 ^ k" by simp_all
  have q: "0 \<le> ?q" using assms by (simp add: pos_imp_zdiv_nonneg_iff)
  have h: "(2::int) * 2 ^ (k - 1) = 2 ^ k" if "k \<noteq> 0"
    using that by (cases k) simp_all
  show "\<bar>round_even n k * 2 ^ k - n\<bar> * 2 \<le> 2 ^ k"
  proof (cases "k \<noteq> 0 \<and> round_even n k = ?q + 1")
    case True
    then have "2 ^ (k - 1) \<le> ?r"
      by (auto simp: round_even_def Let_def split: if_splits)
    then have "2 ^ k \<le> 2 * ?r" using h True by linarith
    moreover have "round_even n k * 2 ^ k - n = 2 ^ k - ?r"
      using True n by (simp add: algebra_simps)
    moreover have "\<bar>2 ^ k - ?r\<bar> = 2 ^ k - ?r" using r by (intro abs_of_nonneg) linarith
    ultimately have "\<bar>round_even n k * 2 ^ k - n\<bar> = 2 ^ k - ?r" by (simp only:)
    moreover have "(2 ^ k - ?r) * 2 \<le> 2 ^ k" using \<open>2 ^ k \<le> 2 * ?r\<close> by (simp add: algebra_simps)
    ultimately show ?thesis by (simp only:)
  next
    case False
    then have e: "round_even n k = ?q \<and> (k \<noteq> 0 \<longrightarrow> ?r \<le> 2 ^ (k - 1))"
      by (auto simp: round_even_def Let_def split: if_splits)
    then have "2 * ?r \<le> 2 ^ k" using h by (cases "k = 0") auto
    moreover have "round_even n k * 2 ^ k - n = - ?r" using e n by simp
    ultimately show ?thesis using r by simp
  qed
  show "0 \<le> round_even n k" using q assms by (auto simp: round_even_def Let_def)
qed

end
