(* ===== verification/CSB_Target.thy ===== *)
theory CSB_Target
  imports CSB_Prelude
begin

text \<open>
  bench/include/CSB/bm_target.h: the interface between the skeleton (benchmark.c and
  bm_stats.h) and a benchmark target. A target is a set of functions over its own thread
  context \<open>'c\<close> and the outside world \<open>'w\<close> (kernel, entropy, global variables of the target);
  each may abort. The locale \<open>counting_target\<close> states what the skeleton relies on when it
  adds up the results of \<open>bm_dispatch_operation\<close>; every modelled target interprets it.
\<close>

record bm_op_res =
  op_count :: u64
  succ_count :: u64

record ('c, 'w) bm_target =
  bm_target_get_name :: string
  bm_target_op_count :: nat
  bm_target_get_op_name :: "nat \<Rightarrow> nat \<Rightarrow> 'w \<Rightarrow> string result"
  bm_target_init :: "u64 \<Rightarrow> u64 \<Rightarrow> 'w \<Rightarrow> 'w result"
  bm_target_reg :: "u64 \<Rightarrow> 'c \<Rightarrow> 'w \<Rightarrow> ('c \<times> 'w) result"
  bm_dispatch_operation :: "nat \<Rightarrow> 'c \<Rightarrow> 'w \<Rightarrow> (bm_op_res \<times> 'c \<times> 'w) result"
  bm_target_dereg :: "u64 \<Rightarrow> 'c \<Rightarrow> 'w \<Rightarrow> ('c \<times> 'w) result"
  bm_target_destroy :: "u64 \<Rightarrow> 'w \<Rightarrow> 'w result"
  bm_target_extra_info :: "string"

text \<open>
  The laws of a counting target: a thread context and world that satisfy the invariant keep
  it across a dispatch, and a dispatch never reports more successes than operations.
\<close>

locale counting_target =
  fixes dispatch :: "nat \<Rightarrow> 'c \<Rightarrow> 'w \<Rightarrow> (bm_op_res \<times> 'c \<times> 'w) result"
    and inv :: "'c \<Rightarrow> 'w \<Rightarrow> bool"
  assumes dispatch_inv: "inv c w \<Longrightarrow> dispatch op c w = Inr (r, c', w') \<Longrightarrow> inv c' w'"
    and dispatch_succ: "inv c w \<Longrightarrow> dispatch op c w = Inr (r, c', w') \<Longrightarrow>
      unat (succ_count r) \<le> unat (op_count r)"

text \<open>A thread's sequence of dispatches, with the results in order.\<close>

fun dispatch_all :: "(nat \<Rightarrow> 'c \<Rightarrow> 'w \<Rightarrow> (bm_op_res \<times> 'c \<times> 'w) result) \<Rightarrow> nat list \<Rightarrow>
    'c \<Rightarrow> 'w \<Rightarrow> (bm_op_res list \<times> 'c \<times> 'w) result" where
  "dispatch_all dispatch [] c w = Inr ([], c, w)"
| "dispatch_all dispatch (op # ops) c w =
     bind_r (dispatch op c w) (\<lambda>(r, c1, w1).
       bind_r (dispatch_all dispatch ops c1 w1) (\<lambda>(rs, c2, w2). Inr (r # rs, c2, w2)))"

context counting_target
begin

lemma dispatch_all_counts:
  assumes "dispatch_all dispatch ops c w = Inr (rs, c', w')" and "inv c w"
  shows "inv c' w' \<and> length rs = length ops \<and>
    (\<forall>r \<in> set rs. unat (succ_count r) \<le> unat (op_count r))"
  using assms
proof (induction ops arbitrary: c w rs)
  case (Cons op ops)
  then obtain r c1 w1 rs' where d: "dispatch op c w = Inr (r, c1, w1)"
    and a: "dispatch_all dispatch ops c1 w1 = Inr (rs', c', w')" and rs: "rs = r # rs'"
    by (auto split: prod.splits)
  from Cons.IH [OF a dispatch_inv [OF Cons.prems(2) d]] dispatch_succ [OF Cons.prems(2) d] rs
  show ?case by simp
qed simp

lemma dispatch_all_totals:
  assumes "dispatch_all dispatch ops c w = Inr (rs, c', w')" and "inv c w"
  shows "sum_list (map (unat \<circ> succ_count) rs) \<le> sum_list (map (unat \<circ> op_count) rs)"
  using dispatch_all_counts [OF assms] by (auto intro: sum_list_mono)

end

end
