(* ===== verification/CSB_Stats.thy ===== *)
theory CSB_Stats
  imports CSB_Math CSB_Double CSB_Target
begin

text \<open>
  bench/include/CSB/bm_stats.h: the per-thread, per-operation counters, the histogram of
  operation times, and the aggregation that is printed at the end. Allocation succeeds (the
  code does not check it). \<open>printf\<close> is a list of key and value pairs in the order printed.
\<close>

definition STAT_MAX_NUM_BUCKETS :: nat where
  "STAT_MAX_NUM_BUCKETS = 60"

definition STAT_INC_FACTOR :: dbl where
  "STAT_INC_FACTOR = ddiv double_prec (Fin 11 0) (Fin 10 0)"

definition CACHELINE_SIZE :: u64 where
  "CACHELINE_SIZE = 128"

definition ALIGNMENT_SIZE :: "u64 \<Rightarrow> u64" where
  "ALIGNMENT_SIZE x =
     (if x mod CACHELINE_SIZE = 0 then x else ((x div CACHELINE_SIZE) + 1) * CACHELINE_SIZE)"

record bm_op_stat =
  os_succ_count :: u64
  os_count :: u64
  os_skipped_count :: u64
  os_sum :: u64
  os_min :: u64
  os_max :: u64
  histogram_data :: "u64 list"

record bm_thread_stat =
  ts_ops :: "bm_op_stat list"
  ts_len :: nat

record bm_stat =
  s_threads :: "bm_thread_stat list"
  s_len :: nat
  min_duration_clk :: u64
  max_duration_clk :: u64
  min_duration_ms :: u64
  max_duration_ms :: u64
  op_time_ranges :: "u64 list"

definition zero_op_stat :: bm_op_stat where
  "zero_op_stat = \<lparr>os_succ_count = 0, os_count = 0, os_skipped_count = 0, os_sum = 0,
     os_min = 0, os_max = 0, histogram_data = replicate STAT_MAX_NUM_BUCKETS 0\<rparr>"

section \<open>Initialisation\<close>

definition next_max :: "u64 \<Rightarrow> u64 \<Rightarrow> u64 result" where
  "next_max mn mx = to_u64 (dadd double_prec (of_u64 double_prec mx)
     (dmul double_prec (of_u64 double_prec (mx - mn + 1)) STAT_INC_FACTOR))"

fun bucket_ranges :: "nat \<Rightarrow> u64 \<Rightarrow> u64 \<Rightarrow> u64 list result" where
  "bucket_ranges 0 mn mx = Inr []"
| "bucket_ranges (Suc n) mn mx =
     bind_r (next_max mn mx) (\<lambda>mx'.
       bind_r (bucket_ranges n (mx + 1) mx') (\<lambda>rs. Inr (mx # rs)))"

definition bm_stat_init :: "bm_stat \<Rightarrow> nat \<Rightarrow> nat \<Rightarrow> bm_stat result" where
  "bm_stat_init stats num_threads num_ops =
     (let op = zero_op_stat\<lparr>os_min := - 1\<rparr>;
          thread = \<lparr>ts_ops = replicate num_ops op, ts_len = num_ops\<rparr>
      in bind_r (bucket_ranges STAT_MAX_NUM_BUCKETS 0 99) (\<lambda>rs.
           Inr (stats\<lparr>s_threads := replicate num_threads thread, s_len := num_threads,
                      op_time_ranges := rs\<rparr>)))"

text \<open>\<open>bm_stat_destroy\<close> frees the arrays: afterwards no thread's figures can be accessed.\<close>

definition bm_stat_destroy :: "bm_stat \<Rightarrow> bm_stat result" where
  "bm_stat_destroy stats =
     (if s_len stats > length (s_threads stats) then Inl Undefined else Inr (stats\<lparr>s_threads := []\<rparr>))"

section \<open>Recording\<close>

fun find_bucket :: "u64 \<Rightarrow> u64 list \<Rightarrow> nat" where
  "find_bucket duration [] = 0"
| "find_bucket duration (r # rs) =
     (if duration \<le> r then 0 else Suc (find_bucket duration rs))"

definition bucket_index :: "u64 list \<Rightarrow> u64 \<Rightarrow> nat" where
  "bucket_index ranges duration =
     (let idx = find_bucket duration ranges
      in if idx = STAT_MAX_NUM_BUCKETS then idx - 1 else idx)"

definition op_stat_add ::
  "u64 list \<Rightarrow> bm_op_res \<Rightarrow> u64 \<Rightarrow> bool \<Rightarrow> bm_op_stat \<Rightarrow> bm_op_stat" where
  "op_stat_add ranges result duration skipped s =
     (if skipped then s\<lparr>os_skipped_count := os_skipped_count s + 1\<rparr>
      else let idx = bucket_index ranges duration in
        s\<lparr>os_succ_count := os_succ_count s + succ_count result,
          os_sum := os_sum s + duration,
          os_count := os_count s + op_count result,
          os_max := VMAX (os_max s) duration,
          os_min := VMIN (os_min s) duration,
          histogram_data := (histogram_data s)[idx := histogram_data s ! idx + 1]\<rparr>)"

definition bm_stat_add_op ::
  "bm_stat \<Rightarrow> nat \<Rightarrow> nat \<Rightarrow> bm_op_res \<Rightarrow> u64 \<Rightarrow> bool \<Rightarrow> bm_stat result" where
  "bm_stat_add_op stats tid op result duration skipped =
     c_assert (tid < s_len stats)
      (if tid \<ge> length (s_threads stats) then Inl Undefined
       else let th = s_threads stats ! tid in
         c_assert (op < ts_len th)
          (if op \<ge> length (ts_ops th) then Inl Undefined
           else let s = op_stat_add (op_time_ranges stats) result duration skipped (ts_ops th ! op);
                    th' = th\<lparr>ts_ops := (ts_ops th)[op := s]\<rparr>
                in Inr (stats\<lparr>s_threads := (s_threads stats)[tid := th']\<rparr>)))"

definition bm_stat_add_spent_time :: "bm_stat \<Rightarrow> u64 \<Rightarrow> u64 \<Rightarrow> u64 \<Rightarrow> u64 \<Rightarrow> bm_stat" where
  "bm_stat_add_spent_time stats min_clk max_clk min_ms max_ms =
     stats\<lparr>min_duration_clk := min_clk, max_duration_clk := max_clk,
           min_duration_ms := min_ms, max_duration_ms := max_ms\<rparr>"

section \<open>Aggregation and printing\<close>

text \<open>One step of the collection loop, for one thread and one operation.\<close>

definition merge_op :: "bm_op_stat \<Rightarrow> bm_op_stat \<Rightarrow> bm_op_stat" where
  "merge_op a s =
     \<lparr>os_succ_count = os_succ_count a + os_succ_count s,
      os_count = os_count a + os_count s,
      os_skipped_count = os_skipped_count a + os_skipped_count s,
      os_sum = os_sum a + os_sum s,
      os_min = VMIN (os_min a) (os_min s),
      os_max = VMAX (os_max a) (os_max s),
      histogram_data = map2 (+) (histogram_data a) (histogram_data s)\<rparr>"

definition collect_op :: "bm_thread_stat list \<Rightarrow> nat \<Rightarrow> bm_op_stat" where
  "collect_op threads op =
     foldl merge_op (zero_op_stat\<lparr>os_min := - 1\<rparr>) (map (\<lambda>th. ts_ops th ! op) threads)"

datatype pval = PU u64 | PF nat dbl | PS string | PH "u64 list"

definition op_avg :: "bm_op_stat \<Rightarrow> dbl" where
  "op_avg s = (if os_count s \<noteq> 0
     then ddiv double_prec (of_u64 double_prec (os_sum s)) (of_u64 double_prec (os_count s))
     else Fin 0 0)"

definition op_succ_percent :: "bm_op_stat \<Rightarrow> dbl" where
  "op_succ_percent s = (if os_count s \<noteq> 0
     then ddiv double_prec (dmul double_prec (of_u64 double_prec (os_succ_count s)) (Fin 100 0))
            (of_u64 double_prec (os_count s))
     else Fin 0 0)"

definition print_op :: "string \<Rightarrow> bm_op_stat \<Rightarrow> (string \<times> pval) list" where
  "print_op op_name s =
     [(op_name @ ''_max'', PU (os_max s)),
      (op_name @ ''_min'', PU (if os_min s = - 1 then 0 else os_min s)),
      (op_name @ ''_sum'', PU (os_sum s)),
      (op_name @ ''_count'', PU (os_count s)),
      (op_name @ ''_succ_count'', PU (os_succ_count s)),
      (op_name @ ''_skipped_count'', PU (os_skipped_count s)),
      (op_name @ ''_avg'', PF 2 (op_avg s)),
      (op_name @ ''_succ_percent'', PF 2 (op_succ_percent s)),
      (op_name @ ''_histogram'', PH (histogram_data s))]"

fun print_ops :: "(nat \<Rightarrow> string result) \<Rightarrow> nat \<Rightarrow> bm_op_stat list \<Rightarrow> (string \<times> pval) list result" where
  "print_ops op_name op [] = Inr []"
| "print_ops op_name op (s # ss) =
     bind_r (op_name op) (\<lambda>name.
       bind_r (print_ops op_name (Suc op) ss) (\<lambda>out. Inr (print_op name s @ out)))"

text \<open>The collection over all operations; the histogram is not part of it.\<close>

definition merge_univ :: "bm_op_stat \<Rightarrow> bm_op_stat \<Rightarrow> bm_op_stat" where
  "merge_univ u s = (merge_op u s)\<lparr>histogram_data := histogram_data u\<rparr>"

definition univ_stat :: "bm_op_stat list \<Rightarrow> bm_op_stat" where
  "univ_stat ops = foldl merge_univ (zero_op_stat\<lparr>os_min := - 1\<rparr>) ops"

definition print_univ :: "bm_op_stat \<Rightarrow> (string \<times> pval) list" where
  "print_univ u =
     [(''univ_max'', PU (os_max u)), (''univ_min'', PU (os_min u)), (''univ_sum'', PU (os_sum u)),
      (''univ_count'', PU (os_count u)), (''univ_succ_count'', PU (os_succ_count u)),
      (''univ_skipped_count'', PU (os_skipped_count u)),
      (''univ_avg'', PF 2 (op_avg u)), (''univ_succ_percent'', PF 2 (op_succ_percent u))]"

text \<open>
  \<open>univ_count * 1000.0f\<close> is a product of type \<open>float\<close>: the count is rounded to 24 bits
  before it is scaled, and only the result becomes a \<open>double\<close>.
\<close>

definition throughput :: "u64 \<Rightarrow> u64 \<Rightarrow> dbl" where
  "throughput univ_count ms =
     ddiv double_prec (widen (dmul float_prec (of_u64 float_prec univ_count) (Fin 1000 0)))
       (of_u64 double_prec ms)"

definition throughput_ts :: "u64 \<Rightarrow> u64 \<Rightarrow> u64 \<Rightarrow> dbl" where
  "throughput_ts univ_count ticks_to_ms clk =
     ddiv double_prec
       (widen (dmul float_prec (dmul float_prec (of_u64 float_prec univ_count) (Fin 1000 0))
                 (of_u64 float_prec ticks_to_ms)))
       (of_u64 double_prec clk)"

definition print_rates :: "bm_stat \<Rightarrow> u64 \<Rightarrow> u64 \<Rightarrow> (string \<times> pval) list" where
  "print_rates stats cnt ticks_to_ms =
     [(''throughput_max'', PF 8 (throughput cnt (min_duration_ms stats))),
      (''throughput_min'', PF 8 (throughput cnt (max_duration_ms stats))),
      (''throughput_max_ts'', PF 8 (throughput_ts cnt ticks_to_ms (min_duration_clk stats))),
      (''throughput_min_ts'', PF 8 (throughput_ts cnt ticks_to_ms (max_duration_clk stats))),
      (''ticks_to_ms'', PU ticks_to_ms),
      (''duration_max_ms'', PU (max_duration_ms stats)),
      (''duration_max_clk'', PU (max_duration_clk stats)),
      (''duration_min_ms'', PU (min_duration_ms stats)),
      (''duration_min_clk'', PU (min_duration_clk stats))]"

text \<open>
  The target delivers its name, the operation names (asked for with a buffer of 20 bytes) and
  the extra information; \<open>ticks_to_ms\<close> and the resource usage come from time.h.
\<close>

definition bm_print_stats ::
  "bm_stat \<Rightarrow> nat \<Rightarrow> string \<Rightarrow> string \<Rightarrow> (nat \<Rightarrow> string result) \<Rightarrow> u64 \<Rightarrow> (u64 \<times> u64 \<times> u64) result
     \<Rightarrow> (string \<times> pval) list result" where
  "bm_print_stats stats op_len algo_name info op_name ticks_to_ms usage =
     c_assert (list_all (\<lambda>th. ts_len th = op_len) (s_threads stats))
      (let ops = map (collect_op (s_threads stats)) [0..<op_len]; u = univ_stat ops in
       bind_r (print_ops op_name 0 ops) (\<lambda>per_op.
       bind_r usage (\<lambda>(sys_time, usr_time, max_rss_kb).
       Inr ([(''algo_name'', PS algo_name)] @ (if info \<noteq> [] then [(info, PS [])] else []) @
            per_op @ print_univ u @ print_rates stats (os_count u) ticks_to_ms @
            [(''sys_time'', PU sys_time), (''usr_time'', PU usr_time),
             (''max_rss_kb'', PU max_rss_kb)]))))"

section \<open>The histogram cell of a duration\<close>

lemma find_bucket_le: "find_bucket d rs \<le> length rs"
  by (induction d rs rule: find_bucket.induct) auto

lemma find_bucket_before: "i < find_bucket d rs \<Longrightarrow> rs ! i < d"
  by (induction d rs arbitrary: i rule: find_bucket.induct)
    (auto simp: nth_Cons not_le split: if_splits nat.splits)

lemma find_bucket_at: "find_bucket d rs < length rs \<Longrightarrow> d \<le> rs ! find_bucket d rs"
  by (induction d rs rule: find_bucket.induct) (auto split: if_splits)

lemma bucket_index_less: "length rs = STAT_MAX_NUM_BUCKETS \<Longrightarrow> bucket_index rs d < STAT_MAX_NUM_BUCKETS"
  using find_bucket_le [of d rs] by (auto simp: bucket_index_def Let_def STAT_MAX_NUM_BUCKETS_def)

lemma bucket_index_before:
  assumes "length rs = STAT_MAX_NUM_BUCKETS" "j < bucket_index rs d"
  shows "rs ! j < d"
  using assms by (intro find_bucket_before) (auto simp: bucket_index_def Let_def split: if_splits)

lemma bucket_index_at:
  assumes "length rs = STAT_MAX_NUM_BUCKETS" "bucket_index rs d < STAT_MAX_NUM_BUCKETS - 1"
  shows "d \<le> rs ! bucket_index rs d"
  using assms find_bucket_le [of d rs] find_bucket_at [of d rs]
  by (auto simp: bucket_index_def Let_def split: if_splits)

section \<open>Aggregation\<close>

text \<open>
  Folding per-thread figures into a total: \<open>outer\<close> adds a cell to the total, \<open>inner\<close> adds
  a sample to a cell. The laws make a sample added to any cell count in the total once,
  whichever thread's cell it was and whatever the order of the cells.
\<close>

locale aggregation =
  fixes outer :: "'a \<Rightarrow> 's \<Rightarrow> 'a" and inner :: "'s \<Rightarrow> 's \<Rightarrow> 's" and ok :: "'a \<Rightarrow> bool" and wf :: "'s \<Rightarrow> bool"
  assumes outer_inner: "ok a \<Longrightarrow> wf x \<Longrightarrow> wf y \<Longrightarrow> outer a (inner x y) = outer (outer a x) y"
    and outer_swap: "ok a \<Longrightarrow> wf x \<Longrightarrow> wf y \<Longrightarrow> outer (outer a x) y = outer (outer a y) x"
    and ok_outer: "ok a \<Longrightarrow> wf x \<Longrightarrow> ok (outer a x)"
begin

lemma ok_foldl: "ok a \<Longrightarrow> list_all wf xs \<Longrightarrow> ok (foldl outer a xs)"
  by (induction xs arbitrary: a) (auto intro: ok_outer)

lemma foldl_outer_swap:
  "ok a \<Longrightarrow> list_all wf xs \<Longrightarrow> wf y \<Longrightarrow> foldl outer (outer a y) xs = outer (foldl outer a xs) y"
  by (induction xs arbitrary: a) (auto simp: outer_swap ok_outer)

lemma foldl_update:
  assumes "ok a" "list_all wf xs" "wf y" "i < length xs"
  shows "foldl outer a (xs[i := inner (xs ! i) y]) = outer (foldl outer a xs) y"
  using assms
proof (induction xs arbitrary: a i)
  case (Cons x xs)
  then show ?case
    by (cases i) (auto simp: outer_inner foldl_outer_swap ok_outer)
qed simp

end

definition wf_op_stat :: "bm_op_stat \<Rightarrow> bool" where
  "wf_op_stat s \<longleftrightarrow> length (histogram_data s) = STAT_MAX_NUM_BUCKETS"

definition init_op_stat :: bm_op_stat where
  "init_op_stat = zero_op_stat\<lparr>os_min := - 1\<rparr>"

lemma wf_init [simp]: "wf_op_stat init_op_stat"
  by (simp add: wf_op_stat_def init_op_stat_def zero_op_stat_def)

lemma wf_merge [simp]: "wf_op_stat a \<Longrightarrow> wf_op_stat b \<Longrightarrow> wf_op_stat (merge_op a b)"
  by (simp add: wf_op_stat_def merge_op_def)

lemma map2_add_assoc: "length a = length b \<Longrightarrow> length b = length c \<Longrightarrow>
   map2 (+) (map2 (+) a b) c = map2 (+) a (map2 (+) b (c :: u64 list))"
  by (induction a b c rule: list_induct3) (simp_all add: add.assoc)

lemma map2_add_commute: "length a = length b \<Longrightarrow> map2 (+) a b = map2 (+) b (a :: u64 list)"
  by (induction a b rule: list_induct2) (simp_all add: add.commute)

lemma merge_assoc:
  "wf_op_stat a \<Longrightarrow> wf_op_stat b \<Longrightarrow> wf_op_stat c \<Longrightarrow>
   merge_op (merge_op a b) c = merge_op a (merge_op b c)"
  by (simp add: merge_op_def wf_op_stat_def VMIN_min VMAX_max map2_add_assoc add.assoc min.assoc max.assoc)

lemma merge_commute: "wf_op_stat a \<Longrightarrow> wf_op_stat b \<Longrightarrow> merge_op a b = merge_op b a"
  by (simp add: merge_op_def wf_op_stat_def VMIN_min VMAX_max map2_add_commute add.commute min.commute max.commute)

interpretation collect: aggregation merge_op merge_op wf_op_stat wf_op_stat
proof
  show "merge_op (merge_op a x) y = merge_op (merge_op a y) x"
    if "wf_op_stat a" "wf_op_stat x" "wf_op_stat y" for a x y
    using that by (metis merge_assoc merge_commute)
qed (simp_all add: merge_assoc)

interpretation univ: aggregation merge_univ merge_op "\<lambda>_. True" wf_op_stat
  by unfold_locales
    (simp_all add: merge_univ_def merge_op_def VMIN_min VMAX_max add.assoc add.commute add.left_commute min.assoc max.assoc
      min.commute max.commute min.left_commute max.left_commute)

definition single :: "u64 list \<Rightarrow> bm_op_res \<times> u64 \<times> bool \<Rightarrow> bm_op_stat" where
  "single ranges = (\<lambda>(r, d, skipped). op_stat_add ranges r d skipped init_op_stat)"

lemma list_update_add: "length h = n \<Longrightarrow> i < n \<Longrightarrow>
   h[i := h ! i + 1] = map2 (+) h ((replicate n 0)[i := 1 :: u64])"
  by (rule nth_equalityI) (auto simp: nth_list_update)

lemma map2_add_zeros: "length h = n \<Longrightarrow> map2 (+) h (replicate n (0::u64)) = h"
  by (rule nth_equalityI) auto

lemma wf_op_stat_add [simp]: "wf_op_stat s \<Longrightarrow> wf_op_stat (op_stat_add ranges r d skipped s)"
  by (simp add: op_stat_add_def wf_op_stat_def Let_def)

lemma wf_single [simp]: "wf_op_stat (single ranges x)"
  by (simp add: single_def split: prod.splits)

lemma op_stat_add_merge:
  assumes "wf_op_stat s" "length ranges = STAT_MAX_NUM_BUCKETS"
  shows "op_stat_add ranges r d skipped s = merge_op s (single ranges (r, d, skipped))"
  using assms bucket_index_less [OF assms(2), of d]
  by (auto simp: op_stat_add_def single_def merge_op_def init_op_stat_def zero_op_stat_def Let_def
      wf_op_stat_def VMIN_min VMAX_max list_update_add map2_add_zeros intro!: bm_op_stat.equality)

text \<open>A recorded operation: the thread, the operation, and what was measured.\<close>

type_synonym sample = "nat \<times> nat \<times> bm_op_res \<times> u64 \<times> bool"

fun record_all :: "bm_stat \<Rightarrow> sample list \<Rightarrow> bm_stat result" where
  "record_all stats [] = Inr stats"
| "record_all stats ((tid, op, r, d, skipped) # evs) =
     bind_r (bm_stat_add_op stats tid op r d skipped) (\<lambda>stats'. record_all stats' evs)"

definition samples_of :: "nat \<Rightarrow> sample list \<Rightarrow> (bm_op_res \<times> u64 \<times> bool) list" where
  "samples_of op evs = map (\<lambda>(_, _, s). s) (filter (\<lambda>(_, op', _). op' = op) evs)"

lemma samples_of_simps [simp]:
  "samples_of op [] = []"
  "samples_of op ((tid, op', s) # evs) = (if op' = op then s # samples_of op evs else samples_of op evs)"
  by (simp_all add: samples_of_def)

definition wf_stat :: "nat \<Rightarrow> bm_stat \<Rightarrow> bool" where
  "wf_stat num_ops stats \<longleftrightarrow> length (s_threads stats) = s_len stats \<and>
     list_all (\<lambda>th. ts_len th = num_ops \<and> length (ts_ops th) = num_ops \<and> list_all wf_op_stat (ts_ops th))
       (s_threads stats) \<and>
     length (op_time_ranges stats) = STAT_MAX_NUM_BUCKETS"

lemma collect_op_init_stat:
  "collect_op threads op = foldl merge_op init_op_stat (map (\<lambda>th. ts_ops th ! op) threads)"
  by (simp add: collect_op_def init_op_stat_def)

lemma bm_stat_add_op_ok:
  assumes wf: "wf_stat n stats" and tid: "tid < s_len stats" and op: "op < n"
  obtains stats' where "bm_stat_add_op stats tid op r d skipped = Inr stats'" "wf_stat n stats'"
    "s_len stats' = s_len stats" "op_time_ranges stats' = op_time_ranges stats"
    "\<And>j. j < n \<Longrightarrow> collect_op (s_threads stats') j =
       (if j = op then merge_op (collect_op (s_threads stats) op) (single (op_time_ranges stats) (r, d, skipped))
        else collect_op (s_threads stats) j)"
proof -
  let ?th = "s_threads stats ! tid"
  let ?s = "op_stat_add (op_time_ranges stats) r d skipped (ts_ops ?th ! op)"
  let ?th' = "?th\<lparr>ts_ops := (ts_ops ?th)[op := ?s]\<rparr>"
  let ?st = "stats\<lparr>s_threads := (s_threads stats)[tid := ?th']\<rparr>"
  have len: "length (s_threads stats) = s_len stats"
    and thw: "\<And>i. i < s_len stats \<Longrightarrow> ts_len (s_threads stats ! i) = n \<and>
      length (ts_ops (s_threads stats ! i)) = n \<and> list_all wf_op_stat (ts_ops (s_threads stats ! i))"
    and rl: "length (op_time_ranges stats) = STAT_MAX_NUM_BUCKETS"
    using wf by (auto simp: wf_stat_def list_all_length)
  have wfs: "wf_op_stat (ts_ops ?th ! op)"
    using thw [OF tid] op by (simp add: list_all_length)
  have run: "bm_stat_add_op stats tid op r d skipped = Inr ?st"
    using tid len thw [OF tid] op by (simp add: bm_stat_add_op_def Let_def)
  have wf': "wf_stat n ?st"
    using wf tid op len thw [OF tid] wfs
    by (auto simp: wf_stat_def list_all_length nth_list_update)
  have coll: "collect_op (s_threads ?st) j =
       (if j = op then merge_op (collect_op (s_threads stats) op) (single (op_time_ranges stats) (r, d, skipped))
        else collect_op (s_threads stats) j)" if j: "j < n" for j
  proof (cases "j = op")
    case True
    let ?row = "map (\<lambda>th. ts_ops th ! op) (s_threads stats)"
    have row: "map (\<lambda>th. ts_ops th ! op) (s_threads ?st) =
        ?row[tid := merge_op (?row ! tid) (single (op_time_ranges stats) (r, d, skipped))]"
      using tid len thw [OF tid] op wfs rl by (simp add: map_update op_stat_add_merge)
    have "list_all wf_op_stat ?row"
      using thw op len by (auto simp: list_all_length)
    then show ?thesis
      unfolding collect_op_init_stat True row
      using tid len by (subst collect.foldl_update) simp_all
  next
    case False
    have "map (\<lambda>th. ts_ops th ! j) (s_threads ?st) = map (\<lambda>th. ts_ops th ! j) (s_threads stats)"
      using False tid len by (intro nth_equalityI) (auto simp: nth_list_update)
    then show ?thesis unfolding collect_op_def using False by simp
  qed
  show ?thesis
    by (rule that [OF run wf' _ _ coll]) simp_all
qed

lemma record_all_ok:
  assumes "wf_stat n stats" and "\<forall>e \<in> set evs. fst e < s_len stats \<and> fst (snd e) < n"
  shows "\<exists>stats'. record_all stats evs = Inr stats' \<and> wf_stat n stats' \<and>
    s_len stats' = s_len stats \<and> op_time_ranges stats' = op_time_ranges stats \<and>
    (\<forall>j < n. collect_op (s_threads stats') j =
       foldl merge_op (collect_op (s_threads stats) j)
         (map (single (op_time_ranges stats)) (samples_of j evs)))"
  using assms
proof (induction evs arbitrary: stats)
  case (Cons e evs)
  obtain tid op r d k where e: "e = (tid, op, r, d, k)" by (cases e)
  from Cons.prems e have "tid < s_len stats" "op < n" by auto
  from bm_stat_add_op_ok [OF Cons.prems(1) this, of r d k] obtain st where
    st: "bm_stat_add_op stats tid op r d k = Inr st" "wf_stat n st" "s_len st = s_len stats"
      "op_time_ranges st = op_time_ranges stats"
    and coll: "\<And>j. j < n \<Longrightarrow> collect_op (s_threads st) j =
       (if j = op then merge_op (collect_op (s_threads stats) op) (single (op_time_ranges stats) (r, d, k))
        else collect_op (s_threads stats) j)" by blast
  have "\<forall>e \<in> set evs. fst e < s_len st \<and> fst (snd e) < n" using Cons.prems(2) st(3) by simp
  from Cons.IH [OF st(2) this] obtain st' where
    "record_all st evs = Inr st'" "wf_stat n st'" "s_len st' = s_len st" "op_time_ranges st' = op_time_ranges st"
    "\<forall>j < n. collect_op (s_threads st') j = foldl merge_op (collect_op (s_threads st) j)
         (map (single (op_time_ranges st)) (samples_of j evs))"
    by blast
  with st coll e show ?case by auto
qed simp

text \<open>
  The specification: the figures of one operation over all its samples, whichever threads
  took them and in whatever order.
\<close>

definition taken :: "(bm_op_res \<times> u64 \<times> bool) list \<Rightarrow> (bm_op_res \<times> u64) list" where
  "taken samples = map (\<lambda>(r, d, _). (r, d)) (filter (\<lambda>(_, _, skipped). \<not> skipped) samples)"

definition op_summary :: "u64 list \<Rightarrow> (bm_op_res \<times> u64 \<times> bool) list \<Rightarrow> bm_op_stat" where
  "op_summary ranges samples =
     \<lparr>os_succ_count = sum_list (map (succ_count \<circ> fst) (taken samples)),
      os_count = sum_list (map (op_count \<circ> fst) (taken samples)),
      os_skipped_count = of_nat (length (filter (\<lambda>(_, _, skipped). skipped) samples)),
      os_sum = sum_list (map snd (taken samples)),
      os_min = Min (insert (- 1) (snd ` set (taken samples))),
      os_max = Max (insert 0 (snd ` set (taken samples))),
      histogram_data = map (\<lambda>b. of_nat (length (filter (\<lambda>(_, d). bucket_index ranges d = b) (taken samples))))
        [0..<STAT_MAX_NUM_BUCKETS]\<rparr>"

lemma taken_snoc: "taken (xs @ [(r, d, k)]) = taken xs @ (if k then [] else [(r, d)])"
  by (simp add: taken_def)

lemma op_summary_nil: "op_summary ranges [] = init_op_stat"
  by (simp add: op_summary_def taken_def init_op_stat_def zero_op_stat_def map_replicate_const)

lemma Min_insert_last: "finite A \<Longrightarrow> Min (insert y A) = min (Min (insert (- 1) A)) (y :: u64)"
  by (cases "A = {}") (simp_all add: min.commute)

lemma Max_insert_last: "finite A \<Longrightarrow> Max (insert y A) = max (Max (insert 0 A)) (y :: u64)"
  by (cases "A = {}") (simp_all add: max.commute)

lemma wf_op_summary [simp]: "wf_op_stat (op_summary ranges xs)"
  by (simp add: wf_op_stat_def op_summary_def)

lemma op_summary_snoc:
  assumes "length ranges = STAT_MAX_NUM_BUCKETS"
  shows "op_summary ranges (xs @ [(r, d, k)]) = op_stat_add ranges r d k (op_summary ranges xs)"
proof (cases k)
  case True
  then show ?thesis by (simp add: op_summary_def taken_snoc op_stat_add_def)
next
  case False
  have "map (\<lambda>b. of_nat (length (filter (\<lambda>(_, d). bucket_index ranges d = b) (taken xs @ [(r, d)]))) :: u64)
        [0..<STAT_MAX_NUM_BUCKETS] =
      (let h = map (\<lambda>b. of_nat (length (filter (\<lambda>(_, d). bucket_index ranges d = b) (taken xs))))
        [0..<STAT_MAX_NUM_BUCKETS] in h[bucket_index ranges d := h ! bucket_index ranges d + 1])"
    using bucket_index_less [OF assms, of d] unfolding Let_def
    by (intro nth_equalityI) (auto simp: nth_list_update)
  with False show ?thesis
    by (simp add: op_summary_def taken_snoc op_stat_add_def Let_def VMIN_min VMAX_max
        Min_insert_last [of _ d] Max_insert_last [of _ d])
qed

lemma foldl_merge_summary:
  assumes "length ranges = STAT_MAX_NUM_BUCKETS"
  shows "foldl merge_op init_op_stat (map (single ranges) xs) = op_summary ranges xs"
proof (induction xs rule: rev_induct)
  case Nil
  show ?case by (simp add: op_summary_nil)
next
  case (snoc x xs)
  obtain r d k where x: "x = (r, d, k)" by (cases x)
  show ?case using snoc unfolding x op_summary_snoc [OF assms]
    by (simp add: op_stat_add_merge [OF _ assms])
qed

lemma collect_op_init: "foldl merge_op init_op_stat (replicate m init_op_stat) = init_op_stat"
proof (induction m)
  case (Suc m)
  have "merge_op init_op_stat init_op_stat = init_op_stat"
    by (simp add: merge_op_def init_op_stat_def zero_op_stat_def VMIN_min VMAX_max zip_replicate)
  with Suc show ?case by simp
qed simp

end
