(* ===== verification/CSB_Libc.thy ===== *)
theory CSB_Libc
  imports CSB_Prelude
begin

text \<open>
  The functions of the C library on strings that the sources parse their input with, as the C
  standard and the glibc manual describe them: the character classes, \<open>strtoul\<close> (bases 0
  and 10; the rest of the string at the end pointer is returned beside the value) and the
  \<open>%u\<close> conversion of \<open>printf\<close>. A C string is the list of its characters without the
  terminating zero, which no element equals.
\<close>

abbreviation ascii :: "char \<Rightarrow> nat" where
  "ascii c \<equiv> of_char c"

definition is_space :: "char \<Rightarrow> bool" where
  "is_space c \<longleftrightarrow> ascii c = 32 \<or> (9 \<le> ascii c \<and> ascii c \<le> 13)"

definition digit_of :: "char \<Rightarrow> nat option" where
  "digit_of c =
     (if 48 \<le> ascii c \<and> ascii c \<le> 57 then Some (ascii c - 48)
      else if 97 \<le> ascii c \<and> ascii c \<le> 122 then Some (ascii c - 87)
      else if 65 \<le> ascii c \<and> ascii c \<le> 90 then Some (ascii c - 55)
      else None)"

definition is_digit_in :: "nat \<Rightarrow> char \<Rightarrow> bool" where
  "is_digit_in base c = (case digit_of c of None \<Rightarrow> False | Some d \<Rightarrow> d < base)"

definition digit_val :: "char \<Rightarrow> nat" where
  "digit_val c = (case digit_of c of None \<Rightarrow> 0 | Some d \<Rightarrow> d)"

definition number_of :: "nat \<Rightarrow> string \<Rightarrow> nat" where
  "number_of base ds = foldl (\<lambda>acc c. acc * base + digit_val c) 0 ds"

text \<open>The optional sign and the radix prefix.\<close>

definition split_sign :: "string \<Rightarrow> bool \<times> string" where
  "split_sign s = (case s of [] \<Rightarrow> (False, [])
     | c # cs \<Rightarrow> if c = CHR ''-'' then (True, cs) else if c = CHR ''+'' then (False, cs) else (False, s))"

definition split_radix :: "nat \<Rightarrow> string \<Rightarrow> nat \<times> string" where
  "split_radix base s =
     (if base \<noteq> 0 then (base, s)
      else case s of
        z # x # h # r \<Rightarrow>
          if z = CHR ''0'' \<and> (x = CHR ''x'' \<or> x = CHR ''X'') \<and> is_digit_in 16 h then (16, h # r)
          else if z = CHR ''0'' then (8, s) else (10, s)
      | z # _ \<Rightarrow> if z = CHR ''0'' then (8, s) else (10, s)
      | [] \<Rightarrow> (10, s))"

definition strtoul :: "nat \<Rightarrow> string \<Rightarrow> u64 \<times> string" where
  "strtoul base s =
     (let (neg, s1) = split_sign (dropWhile is_space s);
          (b, s2) = split_radix base s1;
          ds = takeWhile (is_digit_in b) s2;
          n = number_of b ds
      in if ds = [] then (0, s)
         else ((if n \<ge> 2 ^ 64 then - 1 else if neg then - of_nat n else of_nat n),
               dropWhile (is_digit_in b) s2))"

text \<open>Does \<open>strtoul\<close> set \<open>errno\<close> to \<open>ERANGE\<close>?\<close>

definition strtoul_erange :: "nat \<Rightarrow> string \<Rightarrow> bool" where
  "strtoul_erange base s =
     (let (b, s2) = split_radix base (snd (split_sign (dropWhile is_space s)))
      in number_of b (takeWhile (is_digit_in b) s2) \<ge> 2 ^ 64)"

section \<open>Decimal numbers\<close>

definition digit_char :: "nat \<Rightarrow> char" where
  "digit_char d = char_of (48 + d)"

fun decimal :: "nat \<Rightarrow> string" where
  "decimal n = (if n < 10 then [digit_char n] else decimal (n div 10) @ [digit_char (n mod 10)])"

declare decimal.simps [simp del]

lemma ascii_digit_char [simp]: "d < 10 \<Longrightarrow> ascii (digit_char d) = 48 + d"
  by (simp add: digit_char_def)

lemma digit_of_digit_char [simp]: "d < 10 \<Longrightarrow> digit_of (digit_char d) = Some d"
  by (simp add: digit_of_def)

lemma is_digit_in_digit_char [simp]: "d < 10 \<Longrightarrow> is_digit_in b (digit_char d) \<longleftrightarrow> d < b"
  by (simp add: is_digit_in_def)

lemma digit_val_digit_char [simp]: "d < 10 \<Longrightarrow> digit_val (digit_char d) = d"
  by (simp add: digit_val_def)

lemma decimal_not_Nil [simp]: "decimal n \<noteq> []"
  by (subst decimal.simps) simp

lemma decimal_digits: "c \<in> set (decimal n) \<Longrightarrow> is_digit_in 10 c \<and> 48 \<le> ascii c \<and> ascii c \<le> 57"
proof (induction n rule: decimal.induct)
  case (1 n)
  then show ?case by (subst (asm) (2) decimal.simps) (auto split: if_splits)
qed

lemma number_of_snoc: "number_of b (ds @ [c]) = number_of b ds * b + digit_val c"
  by (simp add: number_of_def)

lemma number_of_decimal [simp]: "number_of 10 (decimal n) = n"
proof (induction n rule: decimal.induct)
  case (1 n)
  show ?case
  proof (cases "n < 10")
    case True
    then show ?thesis by (subst decimal.simps) (simp add: number_of_def)
  next
    case False
    with 1 show ?thesis by (subst decimal.simps) (simp add: number_of_snoc)
  qed
qed

lemma ascii_eq_iff: "c = d \<longleftrightarrow> ascii c = ascii d"
  by simp

lemma decimal_zero: "decimal 0 = [CHR ''0'']"
  by (subst decimal.simps) (simp add: ascii_eq_iff)

lemma hd_decimal: "0 < n \<Longrightarrow> 49 \<le> ascii (hd (decimal n))"
proof (induction n rule: decimal.induct)
  case (1 n)
  then show ?case by (subst decimal.simps) (auto simp: hd_append)
qed

lemma digit_char_eval [simp]:
  "digit_char 0 = CHR ''0''" "digit_char (Suc 0) = CHR ''1''" "digit_char 2 = CHR ''2''" "digit_char 3 = CHR ''3''"
  "digit_char 4 = CHR ''4''" "digit_char 5 = CHR ''5''" "digit_char 6 = CHR ''6''" "digit_char 7 = CHR ''7''"
  "digit_char 8 = CHR ''8''" "digit_char 9 = CHR ''9''"
  by (simp_all add: ascii_eq_iff)

text \<open>What may follow a number for \<open>strtoul\<close> to stop there.\<close>

definition number_ends :: "string \<Rightarrow> bool" where
  "number_ends r \<longleftrightarrow> r = [] \<or> (\<not> is_digit_in 10 (hd r) \<and> hd r \<noteq> CHR ''x'' \<and> hd r \<noteq> CHR ''X'')"

lemma number_ends_simps [simp]: "number_ends []" "number_ends (CHR ''='' # r)"
  by (simp_all add: number_ends_def is_digit_in_def digit_of_def)

text \<open>How \<open>strtoul\<close> scans a decimal number; a leading zero selects base 8.\<close>

lemma scan_decimal:
  assumes "base = 10 \<or> base = 0 \<and> 0 < n"
  shows "split_sign (dropWhile is_space (decimal n @ r)) = (False, decimal n @ r)"
    "split_radix base (decimal n @ r) = (10, decimal n @ r)"
proof -
  obtain c cs where d: "decimal n = c # cs" by (cases "decimal n") auto
  have c: "48 \<le> ascii c" "ascii c \<le> 57" using decimal_digits [of c n] d by auto
  then have "\<not> is_space c" "c \<noteq> CHR ''-''" "c \<noteq> CHR ''+''" by (auto simp: is_space_def)
  then show "split_sign (dropWhile is_space (decimal n @ r)) = (False, decimal n @ r)"
    by (simp add: d split_sign_def)
  show "split_radix base (decimal n @ r) = (10, decimal n @ r)"
  proof (cases "base = 0")
    case True
    with assms have "49 \<le> ascii c" using hd_decimal [of n] d by simp
    then have "c \<noteq> CHR ''0''" by auto
    with True d show ?thesis by (auto simp: split_radix_def split: list.splits)
  qed (use assms in \<open>simp add: split_radix_def\<close>)
qed

lemma scan_zero:
  assumes "number_ends r"
  shows "dropWhile is_space (''0'' @ r) = ''0'' @ r" "split_sign (''0'' @ r) = (False, ''0'' @ r)"
    "split_radix 0 (''0'' @ r) = (8, ''0'' @ r)" "takeWhile (is_digit_in 8) (''0'' @ r) = ''0''"
    "dropWhile (is_digit_in 8) (''0'' @ r) = r"
proof -
  have "takeWhile (is_digit_in 8) r = []" "dropWhile (is_digit_in 8) r = r"
    using assms by (cases r; auto simp: number_ends_def is_digit_in_def split: option.splits)+
  moreover have "is_digit_in 8 (CHR ''0'')" by (simp add: is_digit_in_def digit_of_def)
  ultimately show "takeWhile (is_digit_in 8) (''0'' @ r) = ''0''" "dropWhile (is_digit_in 8) (''0'' @ r) = r" by simp_all
  show "split_radix 0 (''0'' @ r) = (8, ''0'' @ r)"
    using assms by (auto simp: split_radix_def number_ends_def split: list.splits)
qed (simp_all add: is_space_def split_sign_def)

lemma digits_of_decimal:
  assumes "number_ends r"
  shows "takeWhile (is_digit_in 10) (decimal n @ r) = decimal n" "dropWhile (is_digit_in 10) (decimal n @ r) = r"
proof -
  have "takeWhile (is_digit_in 10) r = []" "dropWhile (is_digit_in 10) r = r"
    using assms by (cases r; simp add: number_ends_def)+
  with decimal_digits show "takeWhile (is_digit_in 10) (decimal n @ r) = decimal n"
    "dropWhile (is_digit_in 10) (decimal n @ r) = r"
    by (auto simp: takeWhile_append dropWhile_append)
qed

lemma number_of_zero [simp]: "number_of b ''0'' = 0"
  by (simp add: number_of_def digit_val_def digit_of_def)

lemma strtoul_decimal:
  assumes "base = 0 \<or> base = 10" "number_ends r" "n < 2 ^ 64"
  shows "strtoul base (decimal n @ r) = (of_nat n, r)"
proof (cases "base = 0 \<and> n = 0")
  case True
  with scan_zero [OF assms(2)] show ?thesis by (simp add: strtoul_def decimal_zero)
next
  case False
  with scan_decimal [of base n r] digits_of_decimal [OF assms(2)] assms show ?thesis by (auto simp: strtoul_def)
qed

lemma strtoul_erange_decimal:
  assumes "base = 0 \<or> base = 10" "number_ends r"
  shows "strtoul_erange base (decimal n @ r) \<longleftrightarrow> 2 ^ 64 \<le> n"
proof (cases "base = 0 \<and> n = 0")
  case True
  with scan_zero [OF assms(2)] show ?thesis by (simp add: strtoul_erange_def decimal_zero)
next
  case False
  with scan_decimal [of base n r] digits_of_decimal [OF assms(2)] assms show ?thesis by (auto simp: strtoul_erange_def)
qed

end
