(* ===== verification/CSB_Params.thy ===== *)
theory CSB_Params
  imports CSB_Libc
begin

text \<open>
  bench/include/CSB/bm_error.h and bm_params.h: the command line of a benchmark. A regular
  expression of the header is compiled to a list of literals and digit groups; a match
  delivers for each group the rest of the argument from where the group starts, which is
  what the code hands to \<open>strtoul\<close>. The memory \<open>malloc\<close> returns for \<open>op_dist\<close> has unknown
  contents, the argument \<open>junk\<close>.
\<close>

section \<open>Errors\<close>

datatype bm_error_t =
    BM_ERR_NONE
  | BM_ERR_PARAMS_INCORRECT_COUNT
  | BM_ERR_PARAMS_CANNOT_PARSE
  | BM_ERR_PARAM_MISMATCH
  | BM_ERR_PARAM_MISSING

fun bm_error_code :: "bm_error_t \<Rightarrow> int" where
  "bm_error_code BM_ERR_NONE = 0"
| "bm_error_code BM_ERR_PARAMS_INCORRECT_COUNT = 1"
| "bm_error_code BM_ERR_PARAMS_CANNOT_PARSE = 2"
| "bm_error_code BM_ERR_PARAM_MISMATCH = 3"
| "bm_error_code BM_ERR_PARAM_MISSING = 4"

lemma bm_error_code_inject: "bm_error_code a = bm_error_code b \<Longrightarrow> a = b"
  by (cases a; cases b) simp_all

text \<open>The enumerators are ordered by their C values.\<close>

instantiation bm_error_t :: linorder
begin

definition less_eq_bm_error_t :: "bm_error_t \<Rightarrow> bm_error_t \<Rightarrow> bool" where
  "less_eq_bm_error_t a b \<longleftrightarrow> bm_error_code a \<le> bm_error_code b"

definition less_bm_error_t :: "bm_error_t \<Rightarrow> bm_error_t \<Rightarrow> bool" where
  "less_bm_error_t a b \<longleftrightarrow> bm_error_code a < bm_error_code b"

instance
  by standard (auto simp: less_eq_bm_error_t_def less_bm_error_t_def intro: bm_error_code_inject)

end

section \<open>Regular expressions\<close>

datatype ritem = Lit char | Digits

definition digit_group :: string where
  "digit_group = ''([0-9]+)''"

fun regcomp :: "string \<Rightarrow> ritem list" where
  "regcomp [] = []"
| "regcomp (c # cs) =
     (if take 8 (c # cs) = digit_group then Digits # regcomp (drop 7 cs) else Lit c # regcomp cs)"

fun regexec_at :: "ritem list \<Rightarrow> string \<Rightarrow> string list option" where
  "regexec_at [] s = Some []"
| "regexec_at (Lit c # ps) s = (if s \<noteq> [] \<and> hd s = c then regexec_at ps (tl s) else None)"
| "regexec_at (Digits # ps) s =
     (if s = [] \<or> \<not> is_digit_in 10 (hd s) then None
      else map_option ((#) s) (regexec_at ps (dropWhile (is_digit_in 10) s)))"

text \<open>The leftmost match.\<close>

fun regexec :: "ritem list \<Rightarrow> string \<Rightarrow> string list option" where
  "regexec ps [] = regexec_at ps []"
| "regexec ps (c # cs) =
     (case regexec_at ps (c # cs) of Some groups \<Rightarrow> Some groups | None \<Rightarrow> regexec ps cs)"

definition PARAM_NTHREADS :: string where "PARAM_NTHREADS = ''-t=([0-9]+)''"
definition PARAM_MAX_NOISE :: string where "PARAM_MAX_NOISE = ''-n=([0-9]+)''"
definition PARAM_DURATION :: string where "PARAM_DURATION = ''-d=([0-9]+)''"
definition PARAM_INIT_SIZE :: string where "PARAM_INIT_SIZE = ''-s=([0-9]+)''"
definition PARAM_OP_DIST :: string where "PARAM_OP_DIST = ''-op([0-9]+)=([0-9]+)''"

section \<open>Parameters\<close>

definition PARAM_VAL_NONE :: u32 where
  "PARAM_VAL_NONE = - 1"

definition PARAM_FIXED_LEN :: nat where
  "PARAM_FIXED_LEN = 5"

record bm_params =
  num_threads :: u32
  init_sz :: u32
  max_noise :: u32
  duration :: u32
  op_dist :: "u32 list"
  op_dist_len :: nat

text \<open>\<open>max_gp_count\<close> is 3: the whole match and two groups.\<close>

definition bm_params_extract_val :: "string \<Rightarrow> string \<Rightarrow> u32 list \<Rightarrow> bm_error_t \<times> u32 list" where
  "bm_params_extract_val param regex_string out_val =
     (case regexec (regcomp regex_string) param of
        None \<Rightarrow> (BM_ERR_PARAMS_CANNOT_PARSE, out_val)
      | Some groups \<Rightarrow>
          let vals = map (\<lambda>g. ucast (fst (strtoul 0 g))) (take (length out_val) (take 2 groups))
          in (BM_ERR_NONE, vals @ drop (length vals) out_val))"

definition bm_param_check_match :: "string \<Rightarrow> string \<Rightarrow> u32 option" where
  "bm_param_check_match param regex =
     (let (err, value) = bm_params_extract_val param regex [0]
      in if err = BM_ERR_NONE then Some (value ! 0) else None)"

definition bm_param_check_match_op :: "string \<Rightarrow> string \<Rightarrow> u32 list \<Rightarrow> nat \<Rightarrow> u32 list option result" where
  "bm_param_check_match_op param regex output max_idx =
     (let (err, value) = bm_params_extract_val param regex [0, 0]
      in if err = BM_ERR_NONE
         then c_assert (unat (value ! 0) < max_idx)
                (if unat (value ! 0) < length output then Inr (Some (output[unat (value ! 0) := value ! 1]))
                 else Inl Undefined)
         else Inr None)"

definition bm_params_match_field :: "bm_params \<Rightarrow> string \<Rightarrow> (bool \<times> bm_params) result" where
  "bm_params_match_field p param =
     (case bm_param_check_match param PARAM_NTHREADS of
        Some v \<Rightarrow> Inr (True, p\<lparr>num_threads := v\<rparr>)
      | None \<Rightarrow> case bm_param_check_match param PARAM_MAX_NOISE of
        Some v \<Rightarrow> Inr (True, p\<lparr>max_noise := v\<rparr>)
      | None \<Rightarrow> case bm_param_check_match param PARAM_DURATION of
        Some v \<Rightarrow> Inr (True, p\<lparr>duration := v\<rparr>)
      | None \<Rightarrow> case bm_param_check_match param PARAM_INIT_SIZE of
        Some v \<Rightarrow> Inr (True, p\<lparr>init_sz := v\<rparr>)
      | None \<Rightarrow> bind_r (bm_param_check_match_op param PARAM_OP_DIST (op_dist p) (op_dist_len p)) (\<lambda>m.
          case m of Some output \<Rightarrow> Inr (True, p\<lparr>op_dist := output\<rparr>) | None \<Rightarrow> Inr (False, p)))"

text \<open>\<open>printf\<close> of every parameter, as key and value, in the order printed.\<close>

definition bm_print_params :: "bm_params \<Rightarrow> (string \<times> u32) list" where
  "bm_print_params p =
     [(''num_threads'', num_threads p), (''init_sz'', init_sz p), (''max_noise'', max_noise p),
      (''duration'', duration p)] @
     map (\<lambda>i. (''op'' @ decimal i @ ''_dist'', op_dist p ! i)) [0..<op_dist_len p]"

definition bm_params_init :: "bm_params \<Rightarrow> bm_params result" where
  "bm_params_init p =
     (if op_dist_len p > length (op_dist p) then Inl Undefined
      else Inr (p\<lparr>num_threads := PARAM_VAL_NONE, init_sz := PARAM_VAL_NONE, max_noise := PARAM_VAL_NONE,
             duration := PARAM_VAL_NONE,
             op_dist := replicate (op_dist_len p) PARAM_VAL_NONE @ drop (op_dist_len p) (op_dist p)\<rparr>))"

definition bm_are_params_set :: "bm_params \<Rightarrow> bool" where
  "bm_are_params_set p \<longleftrightarrow>
     num_threads p \<noteq> PARAM_VAL_NONE \<and> init_sz p \<noteq> PARAM_VAL_NONE \<and>
     max_noise p \<noteq> PARAM_VAL_NONE \<and> duration p \<noteq> PARAM_VAL_NONE \<and>
     list_all (\<lambda>i. op_dist p ! i \<noteq> PARAM_VAL_NONE) [0..<op_dist_len p]"

fun match_args :: "bm_params \<Rightarrow> string list \<Rightarrow> bm_params result" where
  "match_args p [] = Inr p"
| "match_args p (a # as) = bind_r (bm_params_match_field p a) (\<lambda>(_, p'). match_args p' as)"

text \<open>
  \<open>_bm_params_init\<close> runs while \<open>op_dist_len\<close> still has its old value; \<open>g_params\<close> is a zeroed
  global, so it is 0 there and the loop of \<open>_bm_params_init\<close> leaves \<open>op_dist\<close> as \<open>malloc\<close>
  returned it.
\<close>

definition bm_params_extract ::
  "string list \<Rightarrow> bm_params \<Rightarrow> nat \<Rightarrow> u32 list \<Rightarrow> (bm_error_t \<times> bm_params) result" where
  "bm_params_extract argv p num_ops junk =
     (if length argv \<noteq> PARAM_FIXED_LEN + num_ops then Inr (BM_ERR_PARAMS_INCORRECT_COUNT, p)
      else bind_r (bm_params_init (p\<lparr>op_dist := junk\<rparr>)) (\<lambda>p1.
           bind_r (match_args (p1\<lparr>op_dist_len := num_ops\<rparr>) (tl argv)) (\<lambda>p2.
             Inr (if bm_are_params_set p2 then BM_ERR_NONE else BM_ERR_PARAM_MISSING, p2))))"

definition zero_params :: bm_params where
  "zero_params = \<lparr>num_threads = 0, init_sz = 0, max_noise = 0, duration = 0, op_dist = [], op_dist_len = 0\<rparr>"

section \<open>Matching\<close>

lemma regcomp_params:
  "regcomp PARAM_NTHREADS = [Lit CHR ''-'', Lit CHR ''t'', Lit CHR ''='', Digits]"
  "regcomp PARAM_MAX_NOISE = [Lit CHR ''-'', Lit CHR ''n'', Lit CHR ''='', Digits]"
  "regcomp PARAM_DURATION = [Lit CHR ''-'', Lit CHR ''d'', Lit CHR ''='', Digits]"
  "regcomp PARAM_INIT_SIZE = [Lit CHR ''-'', Lit CHR ''s'', Lit CHR ''='', Digits]"
  "regcomp PARAM_OP_DIST =
     [Lit CHR ''-'', Lit CHR ''o'', Lit CHR ''p'', Digits, Lit CHR ''='', Digits]"
  by (simp_all add: digit_group_def PARAM_NTHREADS_def PARAM_MAX_NOISE_def PARAM_DURATION_def
      PARAM_INIT_SIZE_def PARAM_OP_DIST_def)

lemma regexec_absent: "c \<notin> set s \<Longrightarrow> regexec (Lit c # ps) s = None"
  by (induction s) auto

lemma regexec_at_front: "c \<notin> set s \<Longrightarrow> regexec (Lit c # ps) (c # s) = regexec_at (Lit c # ps) (c # s)"
  by (auto simp: regexec_absent split: option.splits)

lemma decimal_not_dash [simp]: "CHR ''-'' \<notin> set (decimal n)"
  using decimal_digits [of "CHR ''-''" n] by auto

lemma decimal_hd_digit [simp]: "is_digit_in 10 (hd (decimal n))"
  using decimal_digits [of "hd (decimal n)" n] by simp

lemma decimal_prefix [simp]:
  assumes "number_ends r"
  shows "takeWhile (is_digit_in 10) (decimal n @ r) = decimal n" "dropWhile (is_digit_in 10) (decimal n @ r) = r"
proof -
  have "takeWhile (is_digit_in 10) r = []" "dropWhile (is_digit_in 10) r = r"
    using assms by (cases r; simp add: number_ends_def)+
  moreover have "\<And>c. c \<in> set (decimal n) \<Longrightarrow> is_digit_in 10 c" using decimal_digits by blast
  ultimately show "takeWhile (is_digit_in 10) (decimal n @ r) = decimal n" "dropWhile (is_digit_in 10) (decimal n @ r) = r"
    by (auto simp: takeWhile_append dropWhile_append)
qed

lemma decimal_inj: "decimal m = decimal n \<Longrightarrow> m = n"
  by (metis number_of_decimal)

lemma match_decimal [simp]:
  "number_ends r \<Longrightarrow> regexec_at (Digits # ps) (decimal n @ r) = map_option ((#) (decimal n @ r)) (regexec_at ps r)"
  by (simp add: hd_append)

lemma match_decimal_end [simp]:
  "regexec_at (Digits # ps) (decimal n) = map_option ((#) (decimal n)) (regexec_at ps [])"
  using match_decimal [of "[]" ps n] by simp

lemma strtoul_decimal_end [simp]: "n < 2 ^ 64 \<Longrightarrow> strtoul 0 (decimal n) = (of_nat n, [])"
  using strtoul_decimal [of 0 "[]" n] by simp

lemma ucast_of_nat_u32: "ucast (of_nat n :: u64) = (of_nat n :: u32)"
  by (rule bit_word_eqI) (simp add: bit_ucast_iff bit_of_nat_iff)

lemmas match_defs = bm_params_match_field_def bm_param_check_match_def bm_param_check_match_op_def
  bm_params_extract_val_def regcomp_params regexec_at_front ucast_of_nat_u32

lemma match_field_fixed:
  assumes "n < 2 ^ 64"
  shows "bm_params_match_field p (''-t='' @ decimal n) = Inr (True, p\<lparr>num_threads := of_nat n\<rparr>)"
    "bm_params_match_field p (''-n='' @ decimal n) = Inr (True, p\<lparr>max_noise := of_nat n\<rparr>)"
    "bm_params_match_field p (''-d='' @ decimal n) = Inr (True, p\<lparr>duration := of_nat n\<rparr>)"
    "bm_params_match_field p (''-s='' @ decimal n) = Inr (True, p\<lparr>init_sz := of_nat n\<rparr>)"
  using assms by (simp_all add: match_defs del: regexec.simps)

lemma match_field_op:
  assumes "i < 2 ^ 32" "v < 2 ^ 64" "i < op_dist_len p" "op_dist_len p \<le> length (op_dist p)"
  shows "bm_params_match_field p (''-op'' @ decimal i @ ''='' @ decimal v) =
    Inr (True, p\<lparr>op_dist := (op_dist p)[i := of_nat v]\<rparr>)"
proof -
  have "unat (of_nat i :: u32) = i" using assms(1) by (simp add: unsigned_of_nat take_bit_nat_eq_self)
  moreover have "strtoul 0 (decimal i @ ''='' @ decimal v) = (of_nat i, ''='' @ decimal v)"
    using assms(1) by (intro strtoul_decimal) auto
  ultimately show ?thesis using assms by (simp add: match_defs c_assert_def del: regexec.simps)
qed

section \<open>Canonical argument lists\<close>

definition arg_t :: "bm_params \<Rightarrow> string" where "arg_t p = ''-t='' @ decimal (unat (num_threads p))"
definition arg_n :: "bm_params \<Rightarrow> string" where "arg_n p = ''-n='' @ decimal (unat (max_noise p))"
definition arg_d :: "bm_params \<Rightarrow> string" where "arg_d p = ''-d='' @ decimal (unat (duration p))"
definition arg_s :: "bm_params \<Rightarrow> string" where "arg_s p = ''-s='' @ decimal (unat (init_sz p))"
definition arg_op :: "bm_params \<Rightarrow> nat \<Rightarrow> string" where
  "arg_op p i = ''-op'' @ decimal i @ ''='' @ decimal (unat (op_dist p ! i))"

definition canonical_args :: "bm_params \<Rightarrow> string list" where
  "canonical_args p = [arg_t p, arg_n p, arg_d p, arg_s p] @ map (arg_op p) [0..<op_dist_len p]"

text \<open>The parameters that result from the flags in \<open>as\<close> when \<open>q\<close> holds the values before.\<close>

definition given :: "bm_params \<Rightarrow> bm_params \<Rightarrow> string set \<Rightarrow> bm_params" where
  "given p q as =
     \<lparr>num_threads = (if arg_t p \<in> as then num_threads p else num_threads q),
      init_sz = (if arg_s p \<in> as then init_sz p else init_sz q),
      max_noise = (if arg_n p \<in> as then max_noise p else max_noise q),
      duration = (if arg_d p \<in> as then duration p else duration q),
      op_dist = map (\<lambda>i. if arg_op p i \<in> as then op_dist p ! i else op_dist q ! i) [0..<op_dist_len p],
      op_dist_len = op_dist_len p\<rparr>"

definition wf_params :: "bm_params \<Rightarrow> bool" where
  "wf_params p \<longleftrightarrow> length (op_dist p) = op_dist_len p \<and> op_dist_len p < 2 ^ 32"

lemma arg_op_inj: "arg_op p i = arg_op p j \<Longrightarrow> i = j"
proof -
  assume "arg_op p i = arg_op p j"
  then have "takeWhile (is_digit_in 10) (drop 3 (arg_op p i)) = takeWhile (is_digit_in 10) (drop 3 (arg_op p j))"
    by simp
  then show "i = j" by (simp add: arg_op_def decimal_inj)
qed

lemma arg_op_iff [simp]: "arg_op p i = arg_op p j \<longleftrightarrow> i = j"
  using arg_op_inj by blast

lemma arg_distinct [simp]:
  "arg_t p \<noteq> arg_n p" "arg_t p \<noteq> arg_d p" "arg_t p \<noteq> arg_s p" "arg_t p \<noteq> arg_op p i"
  "arg_n p \<noteq> arg_t p" "arg_n p \<noteq> arg_d p" "arg_n p \<noteq> arg_s p" "arg_n p \<noteq> arg_op p i"
  "arg_d p \<noteq> arg_t p" "arg_d p \<noteq> arg_n p" "arg_d p \<noteq> arg_s p" "arg_d p \<noteq> arg_op p i"
  "arg_s p \<noteq> arg_t p" "arg_s p \<noteq> arg_n p" "arg_s p \<noteq> arg_d p" "arg_s p \<noteq> arg_op p i"
  "arg_op p i \<noteq> arg_t p" "arg_op p i \<noteq> arg_n p" "arg_op p i \<noteq> arg_d p" "arg_op p i \<noteq> arg_s p"
  by (simp_all add: arg_t_def arg_n_def arg_d_def arg_s_def arg_op_def)

lemma unat_u32_less: "unat (w :: u32) < 2 ^ 64"
  using unat_lt [of w] by simp

lemma given_single:
  assumes q: "length (op_dist q) = op_dist_len p" "op_dist_len q = op_dist_len p"
  shows "given p q {} = q"
    "given p q {arg_t p} = q\<lparr>num_threads := num_threads p\<rparr>"
    "given p q {arg_n p} = q\<lparr>max_noise := max_noise p\<rparr>"
    "given p q {arg_d p} = q\<lparr>duration := duration p\<rparr>"
    "given p q {arg_s p} = q\<lparr>init_sz := init_sz p\<rparr>"
    "given p q {arg_op p i} = q\<lparr>op_dist := (op_dist q)[i := op_dist p ! i]\<rparr>"
proof -
  have same: "map (\<lambda>i. op_dist q ! i) [0..<op_dist_len p] = op_dist q"
    using q(1) by (metis map_nth)
  have op: "map (\<lambda>j. if arg_op p j = arg_op p i then op_dist p ! j else op_dist q ! j) [0..<op_dist_len p] =
      (op_dist q)[i := op_dist p ! i]"
    using q(1) by (intro nth_equalityI) (auto simp: nth_list_update)
  show "given p q {} = q"
    "given p q {arg_t p} = q\<lparr>num_threads := num_threads p\<rparr>"
    "given p q {arg_n p} = q\<lparr>max_noise := max_noise p\<rparr>"
    "given p q {arg_d p} = q\<lparr>duration := duration p\<rparr>"
    "given p q {arg_s p} = q\<lparr>init_sz := init_sz p\<rparr>"
    "given p q {arg_op p i} = q\<lparr>op_dist := (op_dist q)[i := op_dist p ! i]\<rparr>"
    by (rule bm_params.equality; simp add: given_def same op [simplified] q)+
qed

lemma match_field_args:
  "bm_params_match_field q (arg_t p) = Inr (True, q\<lparr>num_threads := num_threads p\<rparr>)"
  "bm_params_match_field q (arg_n p) = Inr (True, q\<lparr>max_noise := max_noise p\<rparr>)"
  "bm_params_match_field q (arg_d p) = Inr (True, q\<lparr>duration := duration p\<rparr>)"
  "bm_params_match_field q (arg_s p) = Inr (True, q\<lparr>init_sz := init_sz p\<rparr>)"
  unfolding arg_t_def arg_n_def arg_d_def arg_s_def match_field_fixed [OF unat_u32_less] by simp_all

lemma match_field_canonical:
  assumes p: "wf_params p" and q: "length (op_dist q) = op_dist_len p" "op_dist_len q = op_dist_len p"
    and a: "a \<in> set (canonical_args p)"
  shows "bm_params_match_field q a = Inr (True, given p q {a})"
proof -
  from a consider "a = arg_t p" | "a = arg_n p" | "a = arg_d p" | "a = arg_s p"
    | i where "i < op_dist_len p" "a = arg_op p i"
    by (auto simp: canonical_args_def)
  then show ?thesis
  proof cases
    case (5 i)
    have "i < 2 ^ 32" using 5 p by (simp add: wf_params_def)
    then show ?thesis
      using 5 q match_field_op [of i "unat (op_dist p ! i)" q] unat_u32_less
      unfolding 5(2) given_single [OF q] unfolding arg_op_def by simp
  qed (simp_all only: given_single [OF q] match_field_args)
qed

lemma given_given:
  assumes "length (op_dist q) = op_dist_len p"
  shows "given p (given p q as) bs = given p q (as \<union> bs)"
  by (auto simp: given_def)

lemma length_given [simp]: "length (op_dist (given p q as)) = op_dist_len p" "op_dist_len (given p q as) = op_dist_len p"
  by (simp_all add: given_def)

lemma match_args_canonical:
  assumes "wf_params p" "length (op_dist q) = op_dist_len p" "op_dist_len q = op_dist_len p"
    and "set as \<subseteq> set (canonical_args p)"
  shows "match_args q as = Inr (given p q (set as))"
  using assms(2-)
proof (induction as arbitrary: q)
  case (Cons a as)
  then have "match_args (given p q {a}) as = Inr (given p (given p q {a}) (set as))" by simp
  then show ?case
    using Cons.prems match_field_canonical [OF assms(1) Cons.prems(1,2), of a] by (simp add: given_given)
qed (simp add: given_single)

definition unset :: "u32 list \<Rightarrow> nat \<Rightarrow> bm_params" where
  "unset junk n = \<lparr>num_threads = PARAM_VAL_NONE, init_sz = PARAM_VAL_NONE, max_noise = PARAM_VAL_NONE,
     duration = PARAM_VAL_NONE, op_dist = junk, op_dist_len = n\<rparr>"

lemma unset_sel [simp]:
  "num_threads (unset junk n) = PARAM_VAL_NONE" "init_sz (unset junk n) = PARAM_VAL_NONE"
  "max_noise (unset junk n) = PARAM_VAL_NONE" "duration (unset junk n) = PARAM_VAL_NONE"
  "op_dist (unset junk n) = junk" "op_dist_len (unset junk n) = n"
  by (simp_all add: unset_def)

lemma extract_canonical:
  assumes "wf_params p" "length junk = op_dist_len p" "length as = 4 + op_dist_len p"
    and "set as \<subseteq> set (canonical_args p)"
  shows "bm_params_extract (prog # as) zero_params (op_dist_len p) junk =
    (let r = given p (unset junk (op_dist_len p)) (set as)
     in Inr (if bm_are_params_set r then BM_ERR_NONE else BM_ERR_PARAM_MISSING, r))"
proof -
  have "match_args (unset junk (op_dist_len p)) as = Inr (given p (unset junk (op_dist_len p)) (set as))"
    using assms by (intro match_args_canonical) simp_all
  then show ?thesis
    using assms(3) by (simp add: bm_params_extract_def bm_params_init_def zero_params_def PARAM_FIXED_LEN_def unset_def)
qed

lemma given_all:
  assumes "length (op_dist p) = op_dist_len p" "set (canonical_args p) \<subseteq> as"
  shows "given p q as = p"
proof -
  have "map (\<lambda>i. if arg_op p i \<in> as then op_dist p ! i else op_dist q ! i) [0..<op_dist_len p] = op_dist p"
    using assms by (intro nth_equalityI) (auto simp: canonical_args_def image_subset_iff)
  then show ?thesis using assms(2) by (simp add: given_def canonical_args_def)
qed

lemma params_roundtrip:
  assumes "wf_params p" "bm_are_params_set p" "mset as = mset (canonical_args p)" "length junk = op_dist_len p"
  shows "bm_params_extract (prog # as) zero_params (op_dist_len p) junk = Inr (BM_ERR_NONE, p)"
proof -
  have "set as = set (canonical_args p)" using assms(3) by (metis set_mset_mset)
  moreover have "length as = 4 + op_dist_len p"
    using mset_eq_length [OF assms(3)] by (simp add: canonical_args_def)
  ultimately show ?thesis
    using extract_canonical [OF assms(1,4), of as prog] assms(1,2)
    by (simp add: given_all wf_params_def Let_def)
qed

text \<open>
  C9. The command line round trip: the flags of a parameter set, in any order, are parsed to
  that parameter set, whatever \<open>malloc\<close> returns.
\<close>

theorem bm_params_extract_roundtrip:
  assumes "wf_params p" "bm_are_params_set p" "mset as = mset (canonical_args p)" "length junk = op_dist_len p"
  shows "bm_params_extract (prog # as) zero_params (op_dist_len p) junk = Inr (BM_ERR_NONE, p)"
  using assms by (rule params_roundtrip)

definition sample_params :: bm_params where
  "sample_params = \<lparr>num_threads = 2, init_sz = 64, max_noise = 10, duration = 3, op_dist = [1000, 24], op_dist_len = 2\<rparr>"

theorem bm_params_extract_roundtrip_witness:
  "bm_params_extract
     (''bench'' # [''-op1=24'', ''-d=3'', ''-t=2'', ''-op0=1000'', ''-s=64'', ''-n=10''])
     zero_params 2 [7, 7] = Inr (BM_ERR_NONE, sample_params)"
proof -
  have "canonical_args sample_params = [''-t=2'', ''-n=10'', ''-d=3'', ''-s=64'', ''-op0=1000'', ''-op1=24'']"
    by (simp add: canonical_args_def sample_params_def arg_t_def arg_n_def arg_d_def arg_s_def arg_op_def
        decimal.simps upt_rec)
  then have "mset [''-op1=24'', ''-d=3'', ''-t=2'', ''-op0=1000'', ''-s=64'', ''-n=10''] = mset (canonical_args sample_params)"
    by simp
  from bm_params_extract_roundtrip [OF _ _ this, of "[7, 7]" "''bench''"]
  show ?thesis by (simp add: wf_params_def bm_are_params_set_def PARAM_VAL_NONE_def sample_params_def upt_rec)
qed

text \<open>
  A fixed flag that is missing is always reported, whatever flag is given twice instead.
\<close>

lemma bm_params_extract_missing_fixed:
  assumes "wf_params p" "length junk = op_dist_len p" "length as = 4 + op_dist_len p"
    and "set as \<subseteq> set (canonical_args p)"
    and "arg_t p \<notin> set as \<or> arg_n p \<notin> set as \<or> arg_d p \<notin> set as \<or> arg_s p \<notin> set as"
  shows "\<exists>q. bm_params_extract (prog # as) zero_params (op_dist_len p) junk = Inr (BM_ERR_PARAM_MISSING, q)"
proof -
  have "\<not> bm_are_params_set (given p (unset junk (op_dist_len p)) (set as))"
    using assms(5) by (auto simp: bm_are_params_set_def given_def)
  then show ?thesis using extract_canonical [OF assms(1-4), of prog] by (simp add: Let_def)
qed

text \<open>
  C10. A missing operation flag is not reported: when another flag is given twice, the
  operation's share is whatever \<open>malloc\<close> returned, and parsing succeeds unless that happens to
  be the marker of an unset parameter.
\<close>

theorem bm_params_extract_missing_op:
  assumes "wf_params p" "bm_are_params_set p" "length junk = op_dist_len p" "length as = 4 + op_dist_len p"
    and "j < op_dist_len p" "set as = set (canonical_args p) - {arg_op p j}"
  shows "bm_params_extract (prog # as) zero_params (op_dist_len p) junk =
    Inr (if junk ! j = PARAM_VAL_NONE then BM_ERR_PARAM_MISSING else BM_ERR_NONE,
         p\<lparr>op_dist := (op_dist p)[j := junk ! j]\<rparr>)"
proof -
  have ops: "arg_op p i \<in> set as \<longleftrightarrow> i \<noteq> j" if "i < op_dist_len p" for i
    using that assms(6) by (auto simp: canonical_args_def)
  have "map (\<lambda>i. if arg_op p i \<in> set as then op_dist p ! i else junk ! i) [0..<op_dist_len p] = (op_dist p)[j := junk ! j]"
    using ops assms(1,5) by (intro nth_equalityI) (auto simp: wf_params_def nth_list_update)
  moreover have "arg_t p \<in> set as" "arg_n p \<in> set as" "arg_d p \<in> set as" "arg_s p \<in> set as"
    using assms(6) by (simp_all add: canonical_args_def)
  ultimately have g: "given p (unset junk (op_dist_len p)) (set as) = p\<lparr>op_dist := (op_dist p)[j := junk ! j]\<rparr>"
    by (intro bm_params.equality) (simp_all add: given_def cong: if_cong)
  have sub: "set as \<subseteq> set (canonical_args p)" using assms(6) by blast
  have "bm_are_params_set (p\<lparr>op_dist := (op_dist p)[j := junk ! j]\<rparr>) \<longleftrightarrow> junk ! j \<noteq> PARAM_VAL_NONE"
    using assms(1,2,5) by (auto simp: bm_are_params_set_def wf_params_def list_all_iff nth_list_update split: if_splits)
  then show ?thesis
    using extract_canonical [OF assms(1,3,4) sub, of prog] by (simp add: g Let_def)
qed

lemma sample_args:
  "wf_params sample_params" "bm_are_params_set sample_params" "op_dist_len sample_params = 2"
  "arg_t sample_params = ''-t=2''" "arg_n sample_params = ''-n=10''" "arg_d sample_params = ''-d=3''"
  "arg_s sample_params = ''-s=64''" "arg_op sample_params 0 = ''-op0=1000''" "arg_op sample_params 1 = ''-op1=24''"
  "set (canonical_args sample_params) = {''-t=2'', ''-n=10'', ''-d=3'', ''-s=64'', ''-op0=1000'', ''-op1=24''}"
  by (simp_all add: wf_params_def bm_are_params_set_def PARAM_VAL_NONE_def canonical_args_def sample_params_def arg_t_def
      arg_n_def arg_d_def arg_s_def arg_op_def decimal.simps upt_rec)

lemma bm_params_extract_missing_fixed_example:
  "\<exists>q. bm_params_extract (''bench'' # [''-op1=24'', ''-d=3'', ''-op1=24'', ''-op0=1000'', ''-s=64'', ''-n=10''])
     zero_params 2 [7, 7] = Inr (BM_ERR_PARAM_MISSING, q)"
  using bm_params_extract_missing_fixed [of sample_params "[7, 7]"
    "[''-op1=24'', ''-d=3'', ''-op1=24'', ''-op0=1000'', ''-s=64'', ''-n=10'']" "''bench''"]
  by (simp add: sample_args)

theorem bm_params_extract_missing_op_witness:
  "bm_params_extract (''bench'' # [''-t=2'', ''-d=3'', ''-t=2'', ''-op0=1000'', ''-s=64'', ''-n=10''])
     zero_params 2 [7, 7] = Inr (BM_ERR_NONE, sample_params\<lparr>op_dist := [1000, 7]\<rparr>)"
proof -
  let ?as = "[''-t=2'', ''-d=3'', ''-t=2'', ''-op0=1000'', ''-s=64'', ''-n=10'']"
  have "set ?as = {''-t=2'', ''-n=10'', ''-d=3'', ''-s=64'', ''-op0=1000'', ''-op1=24''} - {''-op1=24''}"
    by (simp add: insert_Diff_if insert_commute)
  then have as: "set ?as = set (canonical_args sample_params) - {arg_op sample_params 1}"
    by (simp only: sample_args)
  have d: "op_dist sample_params = [1000, 24]" by (simp add: sample_params_def)
  have "length ?as = 4 + op_dist_len sample_params" "1 < op_dist_len sample_params"
    "length [7, 7 :: u32] = op_dist_len sample_params"
    by (simp_all only: sample_args) simp_all
  from bm_params_extract_missing_op [OF sample_args(1,2) this(3,1,2) as, of "''bench''"]
  show ?thesis unfolding sample_args(3) by (simp add: d PARAM_VAL_NONE_def)
qed
end
