(* ===== verification/CSB_Warmup.thy ===== *)
theory CSB_Warmup
  imports CSB_Rand CSB_Stats CSB_Params
begin

text \<open>
  bench/benchmark.c: the global variables of the skeleton and \<open>bm_phase_warmup\<close>, which
  spreads the operations over the 1024 slots of \<open>g_ops\<close> by rejection sampling. The search
  for an empty slot draws until it finds one: it recurses while entropy is left.
\<close>

definition DISTRIBUTION_BOUND :: nat where
  "DISTRIBUTION_BOUND = 1024"

definition EMPTY_SLOT :: u64 where
  "EMPTY_SLOT = 0xFFFFFFFF"

record 'w bench =
  g_stop :: bool
  g_stats :: bm_stat
  g_params :: bm_params
  g_ops :: "u64 list"
  g_rand :: rand_state
  world :: 'w

section \<open>Placing the operations\<close>

lemma random_loop_consumes: "random_loop rng es = Inr (r, es') \<Longrightarrow> length es' < length es"
  by (induction rng es rule: random_loop.induct) (force simp: Let_def split: if_splits)+

lemma random_next_int_consumes:
  "random_next_int lib lo hi st = Inr (r, st') \<Longrightarrow> length (entropy st') < length (entropy st)"
  by (auto simp: random_next_int_def random_ranged_def random_init_seed_def srand_def c_assert_def
      split: prod.splits if_splits dest!: random_loop_consumes)

function place_op ::
  "(u32 \<Rightarrow> u32 list) \<Rightarrow> u64 \<Rightarrow> u64 list \<Rightarrow> rand_state \<Rightarrow> (u64 list \<times> rand_state) result" where
  "place_op lib i ops st =
     bind_r (random_next_int lib 0 (of_nat (DISTRIBUTION_BOUND - 1)) st) (\<lambda>ps.
       if ops ! unat (fst ps) = EMPTY_SLOT then Inr (ops[unat (fst ps) := i], snd ps)
       else place_op lib i ops (snd ps))"
  by pat_completeness auto

termination
  by (relation "measure (\<lambda>(_, _, _, st). length (entropy st))")
    (auto dest: random_next_int_consumes)

declare place_op.simps [simp del]

fun place_times ::
  "(u32 \<Rightarrow> u32 list) \<Rightarrow> nat \<Rightarrow> u64 \<Rightarrow> u64 list \<Rightarrow> rand_state \<Rightarrow> (u64 list \<times> rand_state) result" where
  "place_times lib 0 i ops st = Inr (ops, st)"
| "place_times lib (Suc n) i ops st =
     bind_r (place_op lib i ops st) (\<lambda>(ops', st'). place_times lib n i ops' st')"

fun fill_ops ::
  "(u32 \<Rightarrow> u32 list) \<Rightarrow> u32 list \<Rightarrow> u64 \<Rightarrow> u64 list \<Rightarrow> rand_state \<Rightarrow> (u64 list \<times> rand_state) result" where
  "fill_ops lib [] i ops st = Inr (ops, st)"
| "fill_ops lib (d # dist) i ops st =
     bind_r (place_times lib (unat d) i ops st) (\<lambda>(ops', st'). fill_ops lib dist (i + 1) ops' st')"

definition total_dist :: "u32 list \<Rightarrow> u64" where
  "total_dist dist = sum_list (map ucast dist)"

definition bm_phase_warmup ::
  "(u32 \<Rightarrow> u32 list) \<Rightarrow> ('c, 'w) bm_target \<Rightarrow> 'w bench \<Rightarrow> 'w bench result" where
  "bm_phase_warmup lib T b =
     (let p = g_params b; dist = take (op_dist_len p) (op_dist p) in
      bind_r (random_init_seed lib 0 (g_rand b)) (\<lambda>r0.
      bind_r (bm_stat_init (g_stats b) (unat (num_threads p)) (bm_target_op_count T)) (\<lambda>stats.
      bind_r (bm_target_init T (ucast (init_sz p)) (ucast (num_threads p)) (world b)) (\<lambda>w.
      c_assert (total_dist dist = of_nat DISTRIBUTION_BOUND)
       (bind_r (fill_ops lib dist 0 (replicate DISTRIBUTION_BOUND EMPTY_SLOT) r0) (\<lambda>(ops, r1).
        c_assert (list_all (\<lambda>op. op < of_nat (op_dist_len p)) ops)
          (Inr (b\<lparr>g_stats := stats, g_ops := ops, g_rand := r1, world := w\<rparr>))))))))"

section \<open>Lemmas\<close>

lemma draw_slot:
  assumes "g_rand_initialized st"
  shows "random_next_int lib 0 (of_nat (DISTRIBUTION_BOUND - 1)) st =
    (case entropy st of [] \<Rightarrow> Inl Starved | None # _ \<Rightarrow> Inl Assert_failed
     | Some x # es \<Rightarrow> Inr (x mod 1024, st\<lparr>entropy := es\<rparr>))"
proof -
  have p: "v_pow2_round_up 1024 = Inr 1024" by (simp add: v_pow2_round_up_def Let_def clz_def upt_rec)
  have "\<not> 1024 \<le> x mod 1024" for x :: u32 by (simp add: not_le word_mod_less_divisor)
  then show ?thesis
    using assms by (cases "entropy st") (auto simp: random_next_int_def random_ranged_def DISTRIBUTION_BOUND_def p Let_def
        c_assert_def split: option.splits)
qed

text \<open>The slots after \<open>k\<close> placements: one multiset of operations, the rest empty.\<close>

lemma place_op_mset:
  assumes "place_op lib i ops st = Inr (ops', st')" "length ops = DISTRIBUTION_BOUND"
  shows "length ops' = DISTRIBUTION_BOUND \<and> EMPTY_SLOT \<in># mset ops \<and>
    mset ops' = add_mset i (mset ops - {#EMPTY_SLOT#})"
  using assms
proof (induction lib i ops st rule: place_op.induct)
  case (1 lib i ops st)
  from "1.prems" obtain pos st1 where d: "random_next_int lib 0 (of_nat (DISTRIBUTION_BOUND - 1)) st = Inr (pos, st1)"
    by (subst (asm) place_op.simps) auto
  have "unat pos \<le> DISTRIBUTION_BOUND - 1" using rn.draw_index [OF d] .
  then have pos: "unat pos < length ops" using "1.prems"(2) by (simp add: DISTRIBUTION_BOUND_def)
  show ?case
  proof (cases "ops ! unat pos = EMPTY_SLOT")
    case True
    have "EMPTY_SLOT \<in> set ops" using True pos nth_mem by metis
    with True pos "1.prems" d show ?thesis
      by (subst (asm) place_op.simps) (auto simp: mset_update)
  next
    case False
    with "1.prems" d have "place_op lib i ops st1 = Inr (ops', st')" by (subst (asm) place_op.simps) auto
    with "1.IH" [OF d] False "1.prems"(2) show ?thesis by auto
  qed
qed

lemma place_times_mset:
  assumes "place_times lib n i ops st = Inr (ops', st')" "length ops = DISTRIBUTION_BOUND"
    and "mset ops = A + replicate_mset (n + m) EMPTY_SLOT" "i \<noteq> EMPTY_SLOT" "EMPTY_SLOT \<notin># A"
  shows "length ops' = DISTRIBUTION_BOUND \<and>
    mset ops' = A + replicate_mset n i + replicate_mset m EMPTY_SLOT"
  using assms
proof (induction n arbitrary: ops st A)
  case (Suc n)
  then obtain ops1 st1 where p: "place_op lib i ops st = Inr (ops1, st1)"
    and r: "place_times lib n i ops1 st1 = Inr (ops', st')" by auto
  have "mset ops1 = add_mset i A + replicate_mset (n + m) EMPTY_SLOT"
    using place_op_mset [OF p Suc.prems(2)] Suc.prems(3) by simp
  from Suc.IH [OF r _ this] place_op_mset [OF p Suc.prems(2)] Suc.prems show ?case by simp
qed simp

text \<open>What the distribution asks for: \<open>d\<close> copies of each operation.\<close>

fun wanted :: "u32 list \<Rightarrow> u64 \<Rightarrow> u64 multiset" where
  "wanted [] i = {#}"
| "wanted (d # dist) i = replicate_mset (unat d) i + wanted dist (i + 1)"

lemma fill_ops_mset:
  assumes "fill_ops lib dist i ops st = Inr (ops', st')" "length ops = DISTRIBUTION_BOUND"
    and "mset ops = A + replicate_mset (sum_list (map unat dist) + m) EMPTY_SLOT" "EMPTY_SLOT \<notin># A"
    and "unat i + length dist < 2 ^ 32"
  shows "length ops' = DISTRIBUTION_BOUND \<and> mset ops' = A + wanted dist i + replicate_mset m EMPTY_SLOT"
  using assms
proof (induction dist arbitrary: i ops st A)
  case (Cons d dist)
  then obtain ops1 st1 where p: "place_times lib (unat d) i ops st = Inr (ops1, st1)"
    and r: "fill_ops lib dist (i + 1) ops1 st1 = Inr (ops', st')" by auto
  have i: "i \<noteq> EMPTY_SLOT" using Cons.prems(5) by (auto simp: EMPTY_SLOT_def)
  have "length ops1 = DISTRIBUTION_BOUND \<and> mset ops1 = A + replicate_mset (unat d) i
      + replicate_mset (sum_list (map unat dist) + m) EMPTY_SLOT"
    using Cons.prems i by (intro place_times_mset [OF p]) (simp_all add: add.assoc)
  moreover have "unat (i + 1) = unat i + 1" using Cons.prems(5) by (simp add: unat_word_ariths(1))
  ultimately show ?case using Cons.IH [OF r] Cons.prems i by (auto simp: add.assoc split: if_splits)
qed simp


lemma wanted_bound:
  "unat i + length dist < 2 ^ 32 \<Longrightarrow> op \<in># wanted dist i \<Longrightarrow>
     unat i \<le> unat op \<and> unat op < unat i + length dist"
proof (induction dist i rule: wanted.induct)
  case (2 d dist i)
  then have "unat (i + 1) = unat i + 1" by (simp add: unat_word_ariths(1))
  with 2 show ?case by (cases "op \<in># wanted dist (i + 1)") (auto split: if_splits)
qed simp

lemma wanted_count:
  "unat i + length dist < 2 ^ 32 \<Longrightarrow> j < length dist \<Longrightarrow>
     count (wanted dist i) (i + of_nat j) = unat (dist ! j)"
proof (induction dist i arbitrary: j rule: wanted.induct)
  case (2 d dist i)
  have u: "unat (i + 1) = unat i + 1" using "2.prems" by (simp add: unat_word_ariths(1))
  show ?case
  proof (cases j)
    case 0
    have "i \<notin># wanted dist (i + 1)" using wanted_bound [of "i + 1" dist i] u "2.prems" by auto
    then show ?thesis using 0 by (simp add: not_in_iff)
  next
    case (Suc k)
    have "unat (i + of_nat (Suc k)) = unat i + Suc k"
      using "2.prems" Suc by (simp add: unat_word_ariths(1) unat_of_nat)
    then have "i + of_nat (Suc k) \<noteq> i" by (metis add_eq_self_zero nat.distinct(1))
    moreover have "count (wanted dist (i + 1)) (i + 1 + of_nat k) = unat (dist ! k)"
      using 2 Suc u by simp
    ultimately show ?thesis using Suc by (simp add: add.assoc)
  qed
qed simp

lemma total_dist_exact:
  assumes "length dist < 2 ^ 32"
  shows "unat (total_dist dist) = sum_list (map unat dist)"
proof -
  have bound: "sum_list (map unat ds) \<le> length ds * 2 ^ 32" for ds :: "u32 list"
  proof (induction ds)
    case (Cons d ds)
    then show ?case using unat_lt [of d] by simp
  qed simp
  have "unat (total_dist ds) = sum_list (map unat ds)" if "length ds < 2 ^ 32" for ds
    using that
  proof (induction ds)
    case (Cons d ds)
    have "sum_list (map unat (d # ds)) < 2 ^ 64"
      using bound [of "d # ds"] Cons.prems by simp
    moreover have "total_dist (d # ds) = ucast d + total_dist ds" by (simp add: total_dist_def)
    ultimately show ?case using Cons by (simp add: unat_word_ariths(1) unat_ucast_up)
  qed (simp add: total_dist_def)
  then show ?thesis using assms .
qed

section \<open>The search for a slot ends\<close>

text \<open>
  A block of entropy that hits every slot: enough for one placement, wherever the empty slots
  are.
\<close>

definition covers :: "u32 option list \<Rightarrow> bool" where
  "covers es \<longleftrightarrow> None \<notin> set es \<and> (\<forall>k < DISTRIBUTION_BOUND. \<exists>x. Some x \<in> set es \<and> unat x mod 1024 = k)"

lemma place_op_step:
  assumes "g_rand_initialized st" "entropy st = Some y # es"
  shows "place_op lib i ops st = (if ops ! (unat y mod 1024) = EMPTY_SLOT
      then Inr (ops[unat y mod 1024 := i], st\<lparr>entropy := es\<rparr>) else place_op lib i ops (st\<lparr>entropy := es\<rparr>))"
  unfolding place_op.simps [of lib i ops st] draw_slot [OF assms(1)] assms(2)
  by (simp add: unat_mod)

lemma place_op_returns:
  assumes "g_rand_initialized st" "entropy st = es @ rst" "None \<notin> set es"
    and "Some x \<in> set es" "ops ! (unat x mod 1024) = EMPTY_SLOT"
  shows "\<exists>ops' st' es'. place_op lib i ops st = Inr (ops', st') \<and> g_rand_initialized st' \<and>
    entropy st' = es' @ rst \<and> None \<notin> set es'"
  using assms
proof (induction es arbitrary: st)
  case (Cons a es)
  then obtain y where a: "a = Some y" by (cases a) auto
  let ?st = "st\<lparr>entropy := es @ rst\<rparr>"
  have step: "place_op lib i ops st = (if ops ! (unat y mod 1024) = EMPTY_SLOT
      then Inr (ops[unat y mod 1024 := i], ?st) else place_op lib i ops ?st)"
    using Cons.prems a by (intro place_op_step) simp_all
  show ?case
  proof (cases "ops ! (unat y mod 1024) = EMPTY_SLOT")
    case False
    then have "Some x \<in> set es" using Cons.prems a by auto
    with Cons.IH [of ?st] Cons.prems False step show ?thesis by simp
  qed (use Cons.prems step in auto)
qed simp

lemma place_times_returns:
  assumes "g_rand_initialized st" "entropy st = es @ concat (blocks @ rst)" "None \<notin> set es"
    and "list_all covers blocks" "length blocks = n" "length ops = DISTRIBUTION_BOUND"
    and "n \<le> count (mset ops) EMPTY_SLOT"
  shows "\<exists>ops' st' es'. place_times lib n i ops st = Inr (ops', st') \<and> g_rand_initialized st' \<and>
    entropy st' = es' @ concat rst \<and> None \<notin> set es'"
  using assms
proof (induction n arbitrary: st es blocks ops)
  case (Suc n)
  then obtain b bs where b: "blocks = b # bs" by (cases blocks) auto
  have "EMPTY_SLOT \<in># mset ops" using Suc.prems(7) by (metis count_eq_zero_iff not_less_eq_eq zero_le)
  then obtain k where k: "k < DISTRIBUTION_BOUND" "ops ! k = EMPTY_SLOT"
    using Suc.prems(6) by (auto simp: in_set_conv_nth)
  then obtain x where "Some x \<in> set b" "unat x mod 1024 = k" using Suc.prems(4) b by (auto simp: covers_def)
  then obtain ops1 st1 es1 where p: "place_op lib i ops st = Inr (ops1, st1)" "g_rand_initialized st1"
    "entropy st1 = es1 @ concat (bs @ rst)" "None \<notin> set es1"
    using place_op_returns [of st "es @ b" "concat (bs @ rst)" x ops lib i] Suc.prems b k by (auto simp: covers_def)
  have "n \<le> count (mset ops1) EMPTY_SLOT"
    using place_op_mset [OF p(1) Suc.prems(6)] Suc.prems(7) by auto
  with Suc.IH [OF p(2,3,4)] place_op_mset [OF p(1) Suc.prems(6)] Suc.prems b p(1) show ?case by auto
qed auto


lemma fill_ops_returns:
  assumes "g_rand_initialized st" "entropy st = es @ concat blocks" "None \<notin> set es"
    and "list_all covers blocks" "length blocks = sum_list (map unat dist)" "length ops = DISTRIBUTION_BOUND"
    and "mset ops = A + replicate_mset (sum_list (map unat dist)) EMPTY_SLOT" "EMPTY_SLOT \<notin># A"
    and "unat i + length dist < 2 ^ 32"
  shows "\<exists>ops' st'. fill_ops lib dist i ops st = Inr (ops', st')"
  using assms
proof (induction dist arbitrary: st es blocks ops A i)
  case (Cons d dist)
  let ?b = "take (unat d) blocks" and ?r = "drop (unat d) blocks"
  have len: "length ?b = unat d" using Cons.prems(5) by simp
  have cov: "list_all covers ?b" "list_all covers ?r"
    using Cons.prems(4) by (auto simp: list_all_iff dest: in_set_takeD in_set_dropD)
  have cnt: "unat d \<le> count (mset ops) EMPTY_SLOT" using Cons.prems(7) by simp
  obtain ops1 st1 es1 where p: "place_times lib (unat d) i ops st = Inr (ops1, st1)"
    and st1: "g_rand_initialized st1" "entropy st1 = es1 @ concat ?r" "None \<notin> set es1"
    using place_times_returns [of st es ?b ?r "unat d" ops lib i] Cons.prems len cov cnt by auto
  have ne: "i \<noteq> EMPTY_SLOT" using Cons.prems(9) by (auto simp: EMPTY_SLOT_def)
  have m1: "length ops1 = DISTRIBUTION_BOUND \<and> mset ops1 = A + replicate_mset (unat d) i
      + replicate_mset (sum_list (map unat dist)) EMPTY_SLOT"
    using Cons.prems ne by (intro place_times_mset [OF p]) simp_all
  have u: "unat (i + 1) = unat i + 1" using Cons.prems(9) by (simp add: unat_word_ariths(1))
  have "\<exists>ops' st'. fill_ops lib dist (i + 1) ops1 st1 = Inr (ops', st')"
    using Cons.prems m1 u ne
    by (intro Cons.IH [OF st1 cov(2), of _ "A + replicate_mset (unat d) i"]) (auto split: if_splits)
  then show ?case by (simp add: p)
qed simp

lemma wanted_total: "size (wanted dist i) = sum_list (map unat dist)"
  by (induction dist i rule: wanted.induct) simp_all

lemma fill_from_empty:
  assumes "fill_ops lib dist 0 (replicate DISTRIBUTION_BOUND EMPTY_SLOT) st = Inr (ops, st')"
    and "total_dist dist = of_nat DISTRIBUTION_BOUND" "length dist < 2 ^ 32"
  shows "length ops = DISTRIBUTION_BOUND \<and> mset ops = wanted dist 0"
proof -
  have "sum_list (map unat dist) = DISTRIBUTION_BOUND"
    using total_dist_exact [OF assms(3)] assms(2) by (simp add: DISTRIBUTION_BOUND_def)
  then show ?thesis
    using fill_ops_mset [OF assms(1), of "{#}" 0] assms(3) by simp
qed

lemma warmup_distribution:
  assumes "bm_phase_warmup lib T b = Inr b'" and "wf_params (g_params b)"
  shows "length (g_ops b') = DISTRIBUTION_BOUND \<and>
    (\<forall>j < op_dist_len (g_params b). count (mset (g_ops b')) (of_nat j) = unat (op_dist (g_params b) ! j)) \<and>
    (\<forall>op \<in> set (g_ops b'). unat op < op_dist_len (g_params b)) \<and> g_params b' = g_params b"
proof -
  let ?p = "g_params b"
  have len: "length (op_dist ?p) = op_dist_len ?p" "length (op_dist ?p) < 2 ^ 32"
    using assms(2) by (simp_all add: wf_params_def)
  from assms(1) len obtain r0 where total: "total_dist (op_dist ?p) = of_nat DISTRIBUTION_BOUND"
    and f: "fill_ops lib (op_dist ?p) 0 (replicate DISTRIBUTION_BOUND EMPTY_SLOT) r0 = Inr (g_ops b', g_rand b')"
    and p: "g_params b' = ?p"
    by (auto simp: bm_phase_warmup_def Let_def)
  have m: "length (g_ops b') = DISTRIBUTION_BOUND \<and> mset (g_ops b') = wanted (op_dist ?p) 0"
    using fill_from_empty [OF f total len(2)] .
  have "unat op < op_dist_len ?p" if "op \<in> set (g_ops b')" for op
    using wanted_bound [of 0 "op_dist ?p" op] that m len by (metis add_0 set_mset_mset unsigned_0)
  moreover have "count (mset (g_ops b')) (of_nat j) = unat (op_dist ?p ! j)" if "j < op_dist_len ?p" for j
    using wanted_count [of 0 "op_dist ?p" j] that m len by simp
  ultimately show ?thesis using m p by simp
qed

lemma bm_phase_warmup_ok:
  assumes "wf_params (g_params b)" "total_dist (op_dist (g_params b)) = of_nat DISTRIBUTION_BOUND"
    and "\<not> g_rand_initialized (g_rand b)" "entropy (g_rand b) = concat blocks" "list_all covers blocks"
    and "length blocks = DISTRIBUTION_BOUND"
    and "bm_target_init T (ucast (init_sz (g_params b))) (ucast (num_threads (g_params b))) (world b) = Inr w"
    and "bm_stat_init (g_stats b) (unat (num_threads (g_params b))) (bm_target_op_count T) = Inr stats"
  shows "\<exists>b'. bm_phase_warmup lib T b = Inr b'"
proof -
  let ?p = "g_params b"
  have len: "length (op_dist ?p) = op_dist_len ?p" "length (op_dist ?p) < 2 ^ 32"
    using assms(1) by (simp_all add: wf_params_def)
  have sum: "sum_list (map unat (op_dist ?p)) = DISTRIBUTION_BOUND"
    using total_dist_exact [OF len(2)] assms(2) by (simp add: DISTRIBUTION_BOUND_def)
  define r0 where "r0 = (srand lib 0 (g_rand b))\<lparr>g_rand_initialized := True\<rparr>"
  have r0: "g_rand_initialized r0" "entropy r0 = [] @ concat blocks" "random_init_seed lib 0 (g_rand b) = Inr r0"
    using assms(3,4) by (simp_all add: r0_def srand_def random_init_seed_def)
  obtain ops r1 where f: "fill_ops lib (op_dist ?p) 0 (replicate DISTRIBUTION_BOUND EMPTY_SLOT) r0 = Inr (ops, r1)"
    using fill_ops_returns [OF r0(1,2) _ assms(5), of "op_dist ?p" "replicate DISTRIBUTION_BOUND EMPTY_SLOT" "{#}" 0 lib]
      assms(6) sum len by auto
  have m: "mset ops = wanted (op_dist ?p) 0" using fill_from_empty [OF f assms(2) len(2)] by simp
  have "op < of_nat (op_dist_len ?p)" if "op \<in> set ops" for op
    using wanted_bound [of 0 "op_dist ?p" op] that m len
    by (auto simp: word_less_nat_alt unat_of_nat simp flip: set_mset_mset)
  then have "list_all (\<lambda>op. op < of_nat (op_dist_len ?p)) ops" by (simp add: list_all_iff)
  then show ?thesis using f assms(2,7,8) r0(3) len by (simp add: bm_phase_warmup_def Let_def)
qed

end
