(* ===== verification/CSB_Time.thy ===== *)
theory CSB_Time
  imports CSB_Libc "HOL-Library.Signed_Division"
begin

text \<open>
  bench/include/CSB/time.h. The clocks are inputs: a reading of the time-stamp counter or of
  \<open>clock_gettime\<close> is an argument. \<open>long\<close> and \<open>time_t\<close> are 64 bits wide; a signed result
  outside that range is undefined, and \<open>/\<close> truncates towards zero.
\<close>

record timespec =
  tv_sec :: int
  tv_nsec :: int

record rusage =
  stime_sec :: int
  stime_usec :: int
  utime_sec :: int
  utime_usec :: int
  maxrss :: int

definition c_long :: "int \<Rightarrow> int result" where
  "c_long x = (if - (2 ^ 63) \<le> x \<and> x < 2 ^ 63 then Inr x else Inl Undefined)"

abbreviation VTIME_MILLISEC_IN_SEC :: int where "VTIME_MILLISEC_IN_SEC \<equiv> 1000"

abbreviation VTIME_MICROSEC_IN_SEC :: int where "VTIME_MICROSEC_IN_SEC \<equiv> 1000000"

abbreviation VTIME_NANOSEC_IN_SEC :: int where "VTIME_NANOSEC_IN_SEC \<equiv> 1000000000"

text \<open>The x86-64 reading, from the two halves the instruction \<open>rdtsc\<close> delivers.\<close>

definition read_time_stamp_counter :: "u32 \<Rightarrow> u32 \<Rightarrow> u64" where
  "read_time_stamp_counter lo hi = push_bit 32 (ucast hi) OR ucast lo"

definition calc_ticks_in_ms :: "u64 \<Rightarrow> u64 \<Rightarrow> u64" where
  "calc_ticks_in_ms ticks_before ticks_after =
     (let milliseconds = 1000; ticks_elapsed = ticks_after - ticks_before
      in ticks_elapsed div milliseconds)"

definition calc_spent_time :: "timespec \<Rightarrow> timespec \<Rightarrow> int result" where
  "calc_spent_time start_time finish_time =
     bind_r (c_long (tv_sec finish_time - tv_sec start_time)) (\<lambda>ds.
     bind_r (c_long (ds * VTIME_MICROSEC_IN_SEC)) (\<lambda>us.
     bind_r (c_long (tv_nsec finish_time - tv_nsec start_time)) (\<lambda>dn.
     c_long (us + dn sdiv VTIME_MILLISEC_IN_SEC))))"

definition calc_spent_time_nano :: "timespec \<Rightarrow> timespec \<Rightarrow> int result" where
  "calc_spent_time_nano start_time finish_time =
     bind_r (c_long (tv_sec finish_time - tv_sec start_time)) (\<lambda>ds.
     bind_r (c_long (ds * VTIME_NANOSEC_IN_SEC)) (\<lambda>ns.
     bind_r (c_long (tv_nsec finish_time - tv_nsec start_time)) (\<lambda>dn.
     c_long (ns + dn))))"

text \<open>\<open>getrusage\<close> as an answer: \<open>None\<close> is a failure, which the assertion turns into an abort.\<close>

definition get_usr_sys_time :: "rusage option \<Rightarrow> (u64 \<times> u64 \<times> u64) result" where
  "get_usr_sys_time answer = (case answer of
       None \<Rightarrow> Inl Assert_failed
     | Some u \<Rightarrow>
         bind_r (c_long (stime_sec u * VTIME_MICROSEC_IN_SEC)) (\<lambda>s.
         bind_r (c_long (s + stime_usec u)) (\<lambda>sys.
         bind_r (c_long (utime_sec u * VTIME_MICROSEC_IN_SEC)) (\<lambda>t.
         bind_r (c_long (t + utime_usec u)) (\<lambda>usr.
         Inr (of_int sys, of_int usr, of_int (maxrss u)))))))"

text \<open>\<open>clock_gettime\<close> as an answer; the result is not looked at, a failure leaves the time as it was.\<close>

definition record_time :: "timespec option \<Rightarrow> timespec \<Rightarrow> timespec" where
  "record_time answer now = (case answer of None \<Rightarrow> now | Some t \<Rightarrow> t)"

text \<open>
  \<open>struct tm\<close> and \<open>asctime\<close> as the C standard defines them: the format
  \<open>%.3s %.3s%3d %.2d:%.2d:%.2d %d\<close> with a newline, undefined for a member outside its range and
  for a year that does not have four digits. \<open>localtime\<close> depends on the time zone and is
  a parameter; \<open>None\<close> is the null pointer. \<open>time\<close> is an argument.
\<close>

record tm =
  tm_sec :: nat
  tm_min :: nat
  tm_hour :: nat
  tm_mday :: nat
  tm_mon :: nat
  tm_year :: int
  tm_wday :: nat

definition wday_name :: "string list" where
  "wday_name = [''Sun'', ''Mon'', ''Tue'', ''Wed'', ''Thu'', ''Fri'', ''Sat'']"

definition mon_name :: "string list" where
  "mon_name = [''Jan'', ''Feb'', ''Mar'', ''Apr'', ''May'', ''Jun'', ''Jul'', ''Aug'', ''Sep'', ''Oct'', ''Nov'', ''Dec'']"

definition two_digits :: "nat \<Rightarrow> string" where
  "two_digits n = (if n < 10 then ''0'' @ decimal n else decimal n)"

definition tm_ok :: "tm \<Rightarrow> bool" where
  "tm_ok t \<longleftrightarrow> tm_sec t \<le> 60 \<and> tm_min t < 60 \<and> tm_hour t < 24 \<and> 1 \<le> tm_mday t \<and> tm_mday t \<le> 31 \<and>
     tm_mon t < 12 \<and> tm_wday t < 7 \<and> 1000 \<le> 1900 + tm_year t \<and> 1900 + tm_year t \<le> 9999"

definition asctime :: "tm \<Rightarrow> string result" where
  "asctime t =
     (if tm_ok t
      then Inr (wday_name ! tm_wday t @ '' '' @ mon_name ! tm_mon t @
        (if tm_mday t < 10 then ''  '' else '' '') @ decimal (tm_mday t) @ '' '' @ two_digits (tm_hour t) @ '':'' @
        two_digits (tm_min t) @ '':'' @ two_digits (tm_sec t) @ '' '' @ decimal (nat (1900 + tm_year t)) @ [CHR 0x0A])
      else Inl Undefined)"

definition get_local_time :: "(int \<Rightarrow> tm option) \<Rightarrow> int \<Rightarrow> string result" where
  "get_local_time os_localtime rawtime =
     (case os_localtime rawtime of None \<Rightarrow> Inl Undefined | Some timeinfo \<Rightarrow> asctime timeinfo)"

section \<open>Lemmas\<close>

text \<open>The text of a valid time fills the 26 bytes that \<open>asctime\<close> has for it, with its terminating zero.\<close>

lemma length_decimal_step: "10 \<le> n \<Longrightarrow> length (decimal n) = Suc (length (decimal (n div 10)))"
  by (subst decimal.simps) simp

lemma length_decimal:
  "n < 10 \<Longrightarrow> length (decimal n) = 1" "10 \<le> n \<Longrightarrow> n < 100 \<Longrightarrow> length (decimal n) = 2"
  "1000 \<le> n \<Longrightarrow> n < 10000 \<Longrightarrow> length (decimal n) = 4"
proof -
  show one: "length (decimal n) = 1" if "n < 10" for n using that by (subst decimal.simps) simp
  show two: "length (decimal n) = 2" if "10 \<le> n" "n < 100" for n
    using that one [of "n div 10"] by (simp add: length_decimal_step)
  show "length (decimal n) = 4" if "1000 \<le> n" "n < 10000"
    using that two [of "n div 10 div 10"] length_decimal_step [of n] length_decimal_step [of "n div 10"] by simp
qed

lemma names_length: "d < 7 \<Longrightarrow> length (wday_name ! d) = 3" "m < 12 \<Longrightarrow> length (mon_name ! m) = 3"
  by (auto simp: wday_name_def mon_name_def nth_Cons' numeral_eq_Suc less_Suc_eq)

lemma two_digits_length: "n < 100 \<Longrightarrow> length (two_digits n) = 2"
  using length_decimal [of n] by (auto simp: two_digits_def)

lemma get_local_time_fits:
  assumes "os_localtime rawtime = Some t" "tm_ok t"
  shows "\<exists>s. get_local_time os_localtime rawtime = Inr s \<and> length s = 25 \<and> last s = CHR 0x0A"
proof -
  have "1000 \<le> nat (1900 + tm_year t)" "nat (1900 + tm_year t) < 10000" using assms(2) by (auto simp: tm_ok_def)
  then have "length (decimal (nat (1900 + tm_year t))) = 4" by (rule length_decimal)
  moreover have "length ((if tm_mday t < 10 then ''  '' else '' '') @ decimal (tm_mday t)) = 3"
    using assms(2) length_decimal [of "tm_mday t"] by (auto simp: tm_ok_def)
  ultimately show ?thesis
    using assms by (auto simp: get_local_time_def asctime_def tm_ok_def names_length two_digits_length)
qed

definition normal_time :: "timespec \<Rightarrow> bool" where
  "normal_time t \<longleftrightarrow> 0 \<le> tv_sec t \<and> tv_sec t < 2 ^ 32 \<and> 0 \<le> tv_nsec t \<and> tv_nsec t < 1000000000"

definition nanoseconds :: "timespec \<Rightarrow> int" where
  "nanoseconds t = tv_sec t * 1000000000 + tv_nsec t"

lemma c_long_eq [simp]: "c_long x = Inr y \<longleftrightarrow> y = x \<and> - (2 ^ 63) \<le> x \<and> x < 2 ^ 63"
  by (auto simp: c_long_def)

lemma c_long_in: "- (2 ^ 63) \<le> x \<Longrightarrow> x < 2 ^ 63 \<Longrightarrow> c_long x = Inr x"
  by simp

lemma sdiv_thousand: "\<bar>1000 * (d sdiv 1000) - d\<bar> < (1000 :: int)"
proof (cases "0 \<le> d")
  case True
  then have "d sdiv 1000 = d div 1000" by (simp add: signed_divide_int_def sgn_if)
  moreover have "d - 1000 * (d div 1000) = d mod 1000" by (simp add: minus_mult_div_eq_mod)
  moreover have "0 \<le> d mod 1000" "d mod 1000 < 1000" by simp_all
  ultimately show ?thesis by linarith
next
  case False
  then have "d sdiv 1000 = - (- d div 1000)" by (simp add: signed_divide_int_def)
  moreover have "- d - 1000 * (- d div 1000) = - d mod 1000" by (simp add: minus_mult_div_eq_mod)
  moreover have "0 \<le> - d mod 1000" "- d mod 1000 < 1000" by simp_all
  ultimately show ?thesis by linarith
qed

lemma sdiv_thousand_bounds:
  assumes "\<bar>d\<bar> < (1000000000 :: int)"
  shows "\<bar>d sdiv 1000\<bar> \<le> 1000000"
  using sdiv_thousand [of d] assms by (simp only: abs_less_iff abs_le_iff) linarith

lemma calc_spent_time_bounds:
  assumes "normal_time s" and "normal_time f"
  shows "\<exists>us. calc_spent_time s f = Inr us \<and>
    \<bar>1000 * us - (nanoseconds f - nanoseconds s)\<bar> < 1000 \<and>
    \<not> (nanoseconds s \<le> nanoseconds f \<and> us < 0)"
proof -
  define ds where "ds = tv_sec f - tv_sec s"
  define dn where "dn = tv_nsec f - tv_nsec s"
  have ds: "- (2 ^ 32) < ds" "ds < 2 ^ 32" and dn: "\<bar>dn\<bar> < 1000000000"
    using assms by (auto simp: normal_time_def ds_def dn_def)
  have q: "\<bar>dn sdiv 1000\<bar> \<le> 1000000" by (rule sdiv_thousand_bounds [OF dn])
  have "calc_spent_time s f = Inr (ds * 1000000 + dn sdiv 1000)"
    using ds dn q by (simp add: calc_spent_time_def abs_less_iff abs_le_iff flip: ds_def dn_def)
  moreover have d: "nanoseconds f - nanoseconds s = ds * 1000000000 + dn"
    by (simp add: nanoseconds_def ds_def dn_def algebra_simps)
  moreover have "\<bar>1000 * (ds * 1000000 + dn sdiv 1000) - (ds * 1000000000 + dn)\<bar> < 1000"
    using sdiv_thousand [of dn] by simp
  moreover have "0 \<le> ds * 1000000 + dn sdiv 1000" if "nanoseconds s \<le> nanoseconds f"
    using d that dn q sdiv_thousand [of dn] by (simp only: abs_less_iff abs_le_iff) linarith
  ultimately show ?thesis by auto
qed

section \<open>Properties\<close>

text \<open>
  C39. For two normalised times \<open>calc_spent_time\<close> is defined, differs from the exact distance
  by less than one microsecond, and is not negative when the finish is not before the start.
\<close>

theorem calc_spent_time_accurate:
  assumes "normal_time s" and "normal_time f"
  shows "\<exists>us. calc_spent_time s f = Inr us \<and>
    \<bar>1000 * us - (nanoseconds f - nanoseconds s)\<bar> < 1000 \<and>
    \<not> (nanoseconds s \<le> nanoseconds f \<and> us < 0)"
  using assms by (rule calc_spent_time_bounds)

theorem calc_spent_time_accurate_witness:
  "\<exists>us. calc_spent_time \<lparr>tv_sec = 7, tv_nsec = 999999500\<rparr> \<lparr>tv_sec = 8, tv_nsec = 1\<rparr> = Inr us \<and>
    \<bar>1000 * us - (nanoseconds \<lparr>tv_sec = 8, tv_nsec = 1\<rparr> - nanoseconds \<lparr>tv_sec = 7, tv_nsec = 999999500\<rparr>)\<bar> < 1000 \<and>
    \<not> (nanoseconds \<lparr>tv_sec = 7, tv_nsec = 999999500\<rparr> \<le> nanoseconds \<lparr>tv_sec = 8, tv_nsec = 1\<rparr> \<and> us < 0)"
  by (rule calc_spent_time_accurate) (simp_all add: normal_time_def)

end
