(* ===== verification/CSB_Run.thy ===== *)
theory CSB_Run
  imports CSB_Warmup CSB_Time
begin

text \<open>
  bench/benchmark.c: the benchmark threads (\<open>run\<close>) and the measured phase of the main thread
  (\<open>bm_phase_run\<close>), as a step relation over all their interleavings. A step is one access to
  what the threads share (a clock, the stop flag, the statistics, a barrier) together with the
  thread's own work before the next one.

  A reading of a clock is kept as the moment it was taken; the record \<open>clocks\<close> says what the
  time stamp counter and the wall clock show at a moment. A barrier lets all its
  participants go on in one step, once the main thread and every benchmark thread wait at it.
  A step that aborts (a failing assertion, an \<open>exit\<close>) has no successor state: the process is
  gone. \<open>ops_log\<close> is not in the code: it lists the completed operations for the theorems.
\<close>

record clocks =
  tsc :: "nat \<Rightarrow> u64"
  wall :: "nat \<Rightarrow> timespec"

datatype thread_pc =
  T_start | T_wait_start | T_check | T_begin | T_dispatch | T_end | T_wait_stop | T_dereg | T_done

record 'c thread =
  t_pc :: thread_pc
  t_i :: u64
  t_op :: nat
  t_begin :: nat
  t_result :: bm_op_res
  t_ctx :: 'c

datatype main_pc =
  M_create | M_max_start_clk | M_max_start_ms | M_start | M_min_start_clk | M_min_start_ms | M_sleep
  | M_min_stop_clk | M_min_stop_ms | M_stop | M_max_stop_clk | M_max_stop_ms | M_join | M_done

record ('c, 'w) phase =
  bench :: "'w bench"
  main_pc :: main_pc
  threads :: "'c thread list"
  moment :: nat
  duration_max_start_clk :: nat
  duration_max_start_ms :: nat
  duration_min_start_clk :: nat
  duration_min_start_ms :: nat
  duration_min_stop_clk :: nat
  duration_min_stop_ms :: nat
  duration_max_stop_clk :: nat
  duration_max_stop_ms :: nat
  ops_log :: "(nat \<times> nat \<times> nat \<times> nat \<times> bm_op_res) list"

section \<open>The benchmark threads\<close>

definition start_position :: "bm_params \<Rightarrow> nat \<Rightarrow> u64" where
  "start_position p tid = of_nat DISTRIBUTION_BOUND * of_nat tid div ucast (num_threads p)"

definition slot :: "u64 \<Rightarrow> nat" where
  "slot i = unat (i mod of_nat DISTRIBUTION_BOUND)"

definition set_thread :: "nat \<Rightarrow> 'c thread \<Rightarrow> ('c, 'w) phase \<Rightarrow> ('c, 'w) phase" where
  "set_thread tid t s = s\<lparr>threads := (threads s)[tid := t]\<rparr>"

text \<open>One step of \<open>run\<close>; \<open>None\<close> while the thread waits at a barrier or has returned.\<close>

definition run_step ::
  "('c, 'w) bm_target \<Rightarrow> clocks \<Rightarrow> nat \<Rightarrow> ('c, 'w) phase \<Rightarrow> ('c, 'w) phase result option" where
  "run_step T clk tid s =
     (let t = threads s ! tid; b = bench s in
      case t_pc t of
        T_start \<Rightarrow> Some (bind_r (bm_target_reg T (of_nat tid) (t_ctx t) (world b)) (\<lambda>(c, w).
          Inr (set_thread tid (t\<lparr>t_i := start_position (g_params b) tid, t_ctx := c, t_pc := T_wait_start\<rparr>)
                (s\<lparr>bench := b\<lparr>world := w\<rparr>\<rparr>))))
      | T_check \<Rightarrow> Some (Inr (set_thread tid (t\<lparr>t_pc := if g_stop b then T_wait_stop else T_begin\<rparr>) s))
      | T_begin \<Rightarrow> Some (Inr (set_thread tid
          (t\<lparr>t_op := unat (g_ops b ! slot (t_i t)), t_begin := moment s, t_pc := T_dispatch\<rparr>) s))
      | T_dispatch \<Rightarrow> Some (bind_r (bm_dispatch_operation T (t_op t) (t_ctx t) (world b)) (\<lambda>(r, c, w).
          Inr (set_thread tid (t\<lparr>t_result := r, t_ctx := c, t_pc := T_end\<rparr>) (s\<lparr>bench := b\<lparr>world := w\<rparr>\<rparr>))))
      | T_end \<Rightarrow> (let op_time = tsc clk (moment s) - tsc clk (t_begin t); skip = False in
          Some (bind_r (bm_stat_add_op (g_stats b) tid (t_op t) (t_result t) op_time skip) (\<lambda>stats.
          Inr (set_thread tid (t\<lparr>t_i := t_i t + 1, t_pc := T_check\<rparr>)
                (s\<lparr>bench := b\<lparr>g_stats := stats\<rparr>,
                   ops_log := ops_log s @ [(tid, t_op t, t_begin t, moment s, t_result t)]\<rparr>)))))
      | T_dereg \<Rightarrow> Some (bind_r (bm_target_dereg T (of_nat tid) (t_ctx t) (world b)) (\<lambda>(c, w).
          Inr (set_thread tid (t\<lparr>t_ctx := c, t_pc := T_done\<rparr>) (s\<lparr>bench := b\<lparr>world := w\<rparr>\<rparr>))))
      | _ \<Rightarrow> None)"

section \<open>The main thread\<close>

definition all_at :: "thread_pc \<Rightarrow> ('c, 'w) phase \<Rightarrow> bool" where
  "all_at pc s \<longleftrightarrow> list_all (\<lambda>t. t_pc t = pc) (threads s)"

definition release :: "thread_pc \<Rightarrow> ('c, 'w) phase \<Rightarrow> ('c, 'w) phase" where
  "release pc s = s\<lparr>threads := map (\<lambda>t. t\<lparr>t_pc := pc\<rparr>) (threads s)\<rparr>"

definition new_thread :: "'c \<Rightarrow> 'c thread" where
  "new_thread zero_ctx = \<lparr>t_pc = T_start, t_i = 0, t_op = 0, t_begin = 0,
     t_result = \<lparr>op_count = 0, succ_count = 0\<rparr>, t_ctx = zero_ctx\<rparr>"

definition add_durations :: "clocks \<Rightarrow> ('c, 'w) phase \<Rightarrow> ('c, 'w) phase result" where
  "add_durations clk s =
     (let b = bench s;
          min_clk = tsc clk (duration_min_stop_clk s) - tsc clk (duration_min_start_clk s);
          max_clk = tsc clk (duration_max_stop_clk s) - tsc clk (duration_max_start_clk s)
      in bind_r (calc_spent_time (wall clk (duration_min_start_ms s)) (wall clk (duration_min_stop_ms s))) (\<lambda>min_ms.
         bind_r (calc_spent_time (wall clk (duration_max_start_ms s)) (wall clk (duration_max_stop_ms s))) (\<lambda>max_ms.
         Inr (s\<lparr>bench := b\<lparr>g_stats :=
           bm_stat_add_spent_time (g_stats b) min_clk max_clk (of_int min_ms) (of_int max_ms)\<rparr>\<rparr>))))"

text \<open>
  One step of \<open>bm_phase_run\<close>; \<open>None\<close> while the main thread waits for the others. \<open>usleep\<close> and
  \<open>sleep\<close> let time pass, which any step may.
\<close>

definition bm_phase_run_step :: "'c \<Rightarrow> clocks \<Rightarrow> ('c, 'w) phase \<Rightarrow> ('c, 'w) phase result option" where
  "bm_phase_run_step zero_ctx clk s =
     (case main_pc s of
        M_create \<Rightarrow> Some (Inr (if length (threads s) < unat (num_threads (g_params (bench s)))
            then s\<lparr>threads := threads s @ [new_thread zero_ctx]\<rparr>
            else s\<lparr>main_pc := M_max_start_clk\<rparr>))
      | M_max_start_clk \<Rightarrow> Some (Inr (s\<lparr>duration_max_start_clk := moment s, main_pc := M_max_start_ms\<rparr>))
      | M_max_start_ms \<Rightarrow> Some (Inr (s\<lparr>duration_max_start_ms := moment s, main_pc := M_start\<rparr>))
      | M_start \<Rightarrow> if all_at T_wait_start s then Some (Inr (release T_check (s\<lparr>main_pc := M_min_start_clk\<rparr>))) else None
      | M_min_start_clk \<Rightarrow> Some (Inr (s\<lparr>duration_min_start_clk := moment s, main_pc := M_min_start_ms\<rparr>))
      | M_min_start_ms \<Rightarrow> Some (Inr (s\<lparr>duration_min_start_ms := moment s, main_pc := M_sleep\<rparr>))
      | M_sleep \<Rightarrow> Some (Inr (s\<lparr>bench := (bench s)\<lparr>g_stop := True\<rparr>, main_pc := M_min_stop_clk\<rparr>))
      | M_min_stop_clk \<Rightarrow> Some (Inr (s\<lparr>duration_min_stop_clk := moment s, main_pc := M_min_stop_ms\<rparr>))
      | M_min_stop_ms \<Rightarrow> Some (Inr (s\<lparr>duration_min_stop_ms := moment s, main_pc := M_stop\<rparr>))
      | M_stop \<Rightarrow> if all_at T_wait_stop s then Some (Inr (release T_dereg (s\<lparr>main_pc := M_max_stop_clk\<rparr>))) else None
      | M_max_stop_clk \<Rightarrow> Some (Inr (s\<lparr>duration_max_stop_clk := moment s, main_pc := M_max_stop_ms\<rparr>))
      | M_max_stop_ms \<Rightarrow> Some (Inr (s\<lparr>duration_max_stop_ms := moment s, main_pc := M_join\<rparr>))
      | M_join \<Rightarrow> if all_at T_done s then Some (bind_r (add_durations clk s) (\<lambda>s'. Inr (s'\<lparr>main_pc := M_done\<rparr>))) else None
      | M_done \<Rightarrow> None)"

definition start_phase :: "'w bench \<Rightarrow> nat \<Rightarrow> ('c, 'w) phase" where
  "start_phase b m = \<lparr>bench = b, main_pc = M_create, threads = [], moment = m,
     duration_max_start_clk = 0, duration_max_start_ms = 0, duration_min_start_clk = 0,
     duration_min_start_ms = 0, duration_min_stop_clk = 0, duration_min_stop_ms = 0,
     duration_max_stop_clk = 0, duration_max_stop_ms = 0, ops_log = []\<rparr>"

text \<open>Every state some schedule of the threads leads to; time passes between any two steps.\<close>

inductive phase_step :: "('c, 'w) bm_target \<Rightarrow> 'c \<Rightarrow> clocks \<Rightarrow> ('c, 'w) phase \<Rightarrow> ('c, 'w) phase \<Rightarrow> bool"
  for T zero_ctx clk where
  tick: "phase_step T zero_ctx clk s (s\<lparr>moment := Suc (moment s)\<rparr>)"
| main: "bm_phase_run_step zero_ctx clk s = Some (Inr s') \<Longrightarrow> phase_step T zero_ctx clk s s'"
| thread: "tid < length (threads s) \<Longrightarrow> run_step T clk tid s = Some (Inr s') \<Longrightarrow> phase_step T zero_ctx clk s s'"

inductive reachable :: "('c, 'w) bm_target \<Rightarrow> 'c \<Rightarrow> clocks \<Rightarrow> 'w bench \<Rightarrow> ('c, 'w) phase \<Rightarrow> bool"
  for T zero_ctx clk b where
  start: "reachable T zero_ctx clk b (start_phase b m)"
| step: "reachable T zero_ctx clk b s \<Longrightarrow> phase_step T zero_ctx clk s s' \<Longrightarrow> reachable T zero_ctx clk b s'"

text \<open>A schedule is a list of agents, \<open>None\<close> for the clock, and can be executed.\<close>

datatype agent = Clock | Main | Thread nat

definition exec_step ::
  "('c, 'w) bm_target \<Rightarrow> 'c \<Rightarrow> clocks \<Rightarrow> agent \<Rightarrow> ('c, 'w) phase \<Rightarrow> ('c, 'w) phase option" where
  "exec_step T zero_ctx clk a s =
     (case a of Clock \<Rightarrow> Some (s\<lparr>moment := Suc (moment s)\<rparr>)
      | Main \<Rightarrow> (case bm_phase_run_step zero_ctx clk s of Some (Inr s') \<Rightarrow> Some s' | _ \<Rightarrow> None)
      | Thread tid \<Rightarrow> if tid < length (threads s)
          then (case run_step T clk tid s of Some (Inr s') \<Rightarrow> Some s' | _ \<Rightarrow> None) else None)"

fun exec_schedule ::
  "('c, 'w) bm_target \<Rightarrow> 'c \<Rightarrow> clocks \<Rightarrow> agent list \<Rightarrow> ('c, 'w) phase \<Rightarrow> ('c, 'w) phase option" where
  "exec_schedule T zero_ctx clk [] s = Some s"
| "exec_schedule T zero_ctx clk (a # as) s =
     (case exec_step T zero_ctx clk a s of Some s' \<Rightarrow> exec_schedule T zero_ctx clk as s' | None \<Rightarrow> None)"

lemma exec_step_phase_step: "exec_step T z clk a s = Some s' \<Longrightarrow> phase_step T z clk s s'"
  by (auto simp: exec_step_def intro: phase_step.intros split: agent.splits if_splits option.splits sum.splits)

lemma exec_schedule_reachable:
  "exec_schedule T z clk as s = Some s' \<Longrightarrow> reachable T z clk b s \<Longrightarrow> reachable T z clk b s'"
  by (induction as arbitrary: s) (auto split: option.splits dest: exec_step_phase_step intro: reachable.step)

lemma list_all_update: "list_all P xs \<Longrightarrow> P x \<Longrightarrow> list_all P (xs[i := x])"
  by (auto simp: list_all_iff dest!: set_update_subset_insert [THEN subsetD])

section \<open>Stages\<close>

text \<open>
  Where a benchmark thread can be while the main thread is before the start barrier, between
  the barriers, and after the stop barrier; and how many clock readings the main thread has
  taken.
\<close>

definition before_start :: "main_pc set" where
  "before_start = {M_create, M_max_start_clk, M_max_start_ms, M_start}"

definition measuring :: "main_pc set" where
  "measuring = {M_min_start_clk, M_min_start_ms, M_sleep, M_min_stop_clk, M_min_stop_ms, M_stop}"

fun thread_pcs :: "main_pc \<Rightarrow> thread_pc set" where
  "thread_pcs m =
     (if m \<in> before_start then {T_start, T_wait_start}
      else if m \<in> measuring then {T_check, T_begin, T_dispatch, T_end, T_wait_stop}
      else {T_dereg, T_done})"

fun readings :: "main_pc \<Rightarrow> nat" where
  "readings M_create = 0" | "readings M_max_start_clk = 0" | "readings M_max_start_ms = 1"
| "readings M_start = 2" | "readings M_min_start_clk = 2" | "readings M_min_start_ms = 3"
| "readings M_sleep = 4" | "readings M_min_stop_clk = 4" | "readings M_min_stop_ms = 5"
| "readings M_stop = 6" | "readings M_max_stop_clk = 6" | "readings M_max_stop_ms = 7"
| "readings M_join = 8" | "readings M_done = 8"

definition timeline :: "('c, 'w) phase \<Rightarrow> nat list" where
  "timeline s = [duration_max_start_clk s, duration_max_start_ms s, duration_min_start_clk s,
     duration_min_start_ms s, duration_min_stop_clk s, duration_min_stop_ms s,
     duration_max_stop_clk s, duration_max_stop_ms s]"

definition stopped :: "main_pc \<Rightarrow> bool" where
  "stopped m \<longleftrightarrow> m \<notin> before_start \<and> m \<notin> {M_min_start_clk, M_min_start_ms, M_sleep}"

definition thread_ok :: "('c, 'w) phase \<Rightarrow> 'c thread \<Rightarrow> bool" where
  "thread_ok s t \<longleftrightarrow> t_pc t \<in> thread_pcs (main_pc s) \<and>
     (t_pc t = T_wait_stop \<longrightarrow> g_stop (bench s)) \<and>
     (t_pc t \<in> {T_dispatch, T_end} \<longrightarrow> duration_max_start_ms s \<le> t_begin t \<and> t_begin t \<le> moment s)"

definition log_ok :: "('c, 'w) phase \<Rightarrow> nat \<times> nat \<times> nat \<times> nat \<times> bm_op_res \<Rightarrow> bool" where
  "log_ok s = (\<lambda>(tid, op, b, e, r). duration_max_start_ms s \<le> b \<and> b \<le> e \<and> e \<le> moment s \<and>
     (6 < readings (main_pc s) \<longrightarrow> e \<le> duration_max_stop_clk s))"

definition flow :: "('c, 'w) phase \<Rightarrow> bool" where
  "flow s \<longleftrightarrow> list_all (thread_ok s) (threads s) \<and> g_stop (bench s) = stopped (main_pc s) \<and>
     sorted (take (readings (main_pc s)) (timeline s) @ [moment s]) \<and>
     list_all (log_ok s) (ops_log s) \<and> (main_pc s \<in> before_start \<longrightarrow> ops_log s = []) \<and>
     length (threads s) \<le> unat (num_threads (g_params (bench s))) \<and>
     (main_pc s \<noteq> M_create \<longrightarrow> length (threads s) = unat (num_threads (g_params (bench s))))"

lemmas stage_defs = before_start_def measuring_def stopped_def

lemma flow_start: "\<not> g_stop b \<Longrightarrow> flow (start_phase b m)"
  by (simp add: flow_def start_phase_def stage_defs)

lemma flow_tick: "flow s \<Longrightarrow> flow (s\<lparr>moment := Suc (moment s)\<rparr>)"
  by (auto simp: flow_def timeline_def sorted_append list_all_iff thread_ok_def log_ok_def intro: le_SucI)

lemma run_step_cases [consumes 1, case_names reg check pick dispatch finish dereg]:
  assumes "run_step T clk tid s = Some (Inr s')"
  obtains c w where "t_pc (threads s ! tid) = T_start"
      "bm_target_reg T (of_nat tid) (t_ctx (threads s ! tid)) (world (bench s)) = Inr (c, w)"
      "s' = set_thread tid ((threads s ! tid)\<lparr>t_i := start_position (g_params (bench s)) tid, t_ctx := c, t_pc := T_wait_start\<rparr>)
         (s\<lparr>bench := (bench s)\<lparr>world := w\<rparr>\<rparr>)"
  | "t_pc (threads s ! tid) = T_check"
      "s' = set_thread tid ((threads s ! tid)\<lparr>t_pc := if g_stop (bench s) then T_wait_stop else T_begin\<rparr>) s"
  | "t_pc (threads s ! tid) = T_begin"
      "s' = set_thread tid ((threads s ! tid)\<lparr>t_op := unat (g_ops (bench s) ! slot (t_i (threads s ! tid))),
         t_begin := moment s, t_pc := T_dispatch\<rparr>) s"
  | r c w where "t_pc (threads s ! tid) = T_dispatch"
      "bm_dispatch_operation T (t_op (threads s ! tid)) (t_ctx (threads s ! tid)) (world (bench s)) = Inr (r, c, w)"
      "s' = set_thread tid ((threads s ! tid)\<lparr>t_result := r, t_ctx := c, t_pc := T_end\<rparr>) (s\<lparr>bench := (bench s)\<lparr>world := w\<rparr>\<rparr>)"
  | stats where "t_pc (threads s ! tid) = T_end"
      "bm_stat_add_op (g_stats (bench s)) tid (t_op (threads s ! tid)) (t_result (threads s ! tid))
         (tsc clk (moment s) - tsc clk (t_begin (threads s ! tid))) False = Inr stats"
      "s' = set_thread tid ((threads s ! tid)\<lparr>t_i := t_i (threads s ! tid) + 1, t_pc := T_check\<rparr>)
         (s\<lparr>bench := (bench s)\<lparr>g_stats := stats\<rparr>, ops_log := ops_log s @
            [(tid, t_op (threads s ! tid), t_begin (threads s ! tid), moment s, t_result (threads s ! tid))]\<rparr>)"
  | c w where "t_pc (threads s ! tid) = T_dereg"
      "bm_target_dereg T (of_nat tid) (t_ctx (threads s ! tid)) (world (bench s)) = Inr (c, w)"
      "s' = set_thread tid ((threads s ! tid)\<lparr>t_ctx := c, t_pc := T_done\<rparr>) (s\<lparr>bench := (bench s)\<lparr>world := w\<rparr>\<rparr>)"
  using assms
  by (cases "t_pc (threads s ! tid)") (auto simp: run_step_def Let_def split: prod.splits)

lemma thread_ok_cong:
  assumes "main_pc s' = main_pc s" "g_stop (bench s') = g_stop (bench s)"
    "duration_max_start_ms s' = duration_max_start_ms s" "moment s' = moment s"
  shows "thread_ok s' = thread_ok s"
  using assms by (simp add: thread_ok_def fun_eq_iff)

lemma log_ok_cong:
  assumes "main_pc s' = main_pc s" "duration_max_stop_clk s' = duration_max_stop_clk s"
    "duration_max_start_ms s' = duration_max_start_ms s" "moment s' = moment s"
  shows "log_ok s' = log_ok s"
  using assms by (simp add: log_ok_def fun_eq_iff)

lemma flow_set_thread:
  assumes "flow s" "thread_ok s t" "tid < length (threads s)"
    and "list_all (log_ok s) new" "main_pc s \<in> before_start \<longrightarrow> new = []"
    and "g_stop b = g_stop (bench s)" "g_params b = g_params (bench s)"
  shows "flow (set_thread tid t (s\<lparr>bench := b, ops_log := ops_log s @ new\<rparr>))"
proof -
  let ?s = "set_thread tid t (s\<lparr>bench := b, ops_log := ops_log s @ new\<rparr>)"
  have "thread_ok ?s = thread_ok s" "log_ok ?s = log_ok s" "timeline ?s = timeline s"
    using assms(6) by (auto intro!: thread_ok_cong log_ok_cong simp: set_thread_def timeline_def)
  then show ?thesis
    using assms by (simp add: flow_def) (auto simp: set_thread_def intro: list_all_update)
qed

lemma flow_run_step:
  assumes f: "flow s" "tid < length (threads s)" "run_step T clk tid s = Some (Inr s')"
  shows "flow s'"
proof -
  have t: "thread_ok s (threads s ! tid)" using assms(1,2) by (simp add: flow_def list_all_length)
  have srt: "sorted (take (readings (main_pc s)) (timeline s) @ [moment s])" using f(1) by (simp add: flow_def)
  note set = flow_set_thread [OF f(1) _ f(2)]
  from f(3) show ?thesis
  proof (cases rule: run_step_cases)
    case (reg c w)
    then show ?thesis
      using t set [of _ "[]" "(bench s)\<lparr>world := w\<rparr>"] by (auto simp: thread_ok_def split: if_splits)
  next
    case check
    then show ?thesis
      using t set [of _ "[]" "bench s"] by (auto simp: thread_ok_def split: if_splits)
  next
    case pick
    have "duration_max_start_ms s \<le> moment s"
      using srt t pick(1) by (cases "main_pc s") (auto simp: thread_ok_def timeline_def stage_defs)
    with pick show ?thesis
      using t set [of _ "[]" "bench s"] by (auto simp: thread_ok_def split: if_splits)
  next
    case (dispatch r c w)
    then show ?thesis
      using t set [of _ "[]" "(bench s)\<lparr>world := w\<rparr>"] by (auto simp: thread_ok_def split: if_splits)
  next
    case (finish stats)
    have m: "main_pc s \<in> measuring" using t finish(1) by (auto simp: thread_ok_def split: if_splits)
    then have "list_all (log_ok s) [(tid, t_op (threads s ! tid), t_begin (threads s ! tid), moment s, t_result (threads s ! tid))]"
      using t finish(1) by (auto simp: thread_ok_def log_ok_def stage_defs)
    with finish m show ?thesis
      using t set [of _ _ "(bench s)\<lparr>g_stats := stats\<rparr>"] by (auto simp: thread_ok_def stage_defs split: if_splits)
  next
    case (dereg c w)
    then show ?thesis
      using t set [of _ "[]" "(bench s)\<lparr>world := w\<rparr>"] by (auto simp: thread_ok_def split: if_splits)
  qed
qed

lemma main_step_cases [consumes 1, case_names create created max_start_clk max_start_ms start
    min_start_clk min_start_ms signal min_stop_clk min_stop_ms stop max_stop_clk max_stop_ms join]:
  assumes "bm_phase_run_step z clk s = Some (Inr s')"
  obtains "main_pc s = M_create" "length (threads s) < unat (num_threads (g_params (bench s)))"
      "s' = s\<lparr>threads := threads s @ [new_thread z]\<rparr>"
  | "main_pc s = M_create" "\<not> length (threads s) < unat (num_threads (g_params (bench s)))"
      "s' = s\<lparr>main_pc := M_max_start_clk\<rparr>"
  | "main_pc s = M_max_start_clk" "s' = s\<lparr>duration_max_start_clk := moment s, main_pc := M_max_start_ms\<rparr>"
  | "main_pc s = M_max_start_ms" "s' = s\<lparr>duration_max_start_ms := moment s, main_pc := M_start\<rparr>"
  | "main_pc s = M_start" "all_at T_wait_start s" "s' = release T_check (s\<lparr>main_pc := M_min_start_clk\<rparr>)"
  | "main_pc s = M_min_start_clk" "s' = s\<lparr>duration_min_start_clk := moment s, main_pc := M_min_start_ms\<rparr>"
  | "main_pc s = M_min_start_ms" "s' = s\<lparr>duration_min_start_ms := moment s, main_pc := M_sleep\<rparr>"
  | "main_pc s = M_sleep" "s' = s\<lparr>bench := (bench s)\<lparr>g_stop := True\<rparr>, main_pc := M_min_stop_clk\<rparr>"
  | "main_pc s = M_min_stop_clk" "s' = s\<lparr>duration_min_stop_clk := moment s, main_pc := M_min_stop_ms\<rparr>"
  | "main_pc s = M_min_stop_ms" "s' = s\<lparr>duration_min_stop_ms := moment s, main_pc := M_stop\<rparr>"
  | "main_pc s = M_stop" "all_at T_wait_stop s" "s' = release T_dereg (s\<lparr>main_pc := M_max_stop_clk\<rparr>)"
  | "main_pc s = M_max_stop_clk" "s' = s\<lparr>duration_max_stop_clk := moment s, main_pc := M_max_stop_ms\<rparr>"
  | "main_pc s = M_max_stop_ms" "s' = s\<lparr>duration_max_stop_ms := moment s, main_pc := M_join\<rparr>"
  | s1 where "main_pc s = M_join" "all_at T_done s" "add_durations clk s = Inr s1" "s' = s1\<lparr>main_pc := M_done\<rparr>"
proof (cases "main_pc s")
  case M_create
  show thesis
  proof (cases "length (threads s) < unat (num_threads (g_params (bench s)))")
    case True
    with M_create assms show ?thesis by (intro that(1)) (simp_all add: bm_phase_run_step_def)
  next
    case False
    with M_create assms show ?thesis by (intro that(2)) (simp_all add: bm_phase_run_step_def)
  qed
next
  case M_max_start_clk
  with assms show thesis by (intro that(3)) (auto simp: bm_phase_run_step_def split: if_splits)
next
  case M_max_start_ms
  with assms show thesis by (intro that(4)) (auto simp: bm_phase_run_step_def split: if_splits)
next
  case M_start
  with assms show thesis by (intro that(5)) (auto simp: bm_phase_run_step_def split: if_splits)
next
  case M_min_start_clk
  with assms show thesis by (intro that(6)) (auto simp: bm_phase_run_step_def split: if_splits)
next
  case M_min_start_ms
  with assms show thesis by (intro that(7)) (auto simp: bm_phase_run_step_def split: if_splits)
next
  case M_sleep
  with assms show thesis by (intro that(8)) (auto simp: bm_phase_run_step_def split: if_splits)
next
  case M_min_stop_clk
  with assms show thesis by (intro that(9)) (auto simp: bm_phase_run_step_def split: if_splits)
next
  case M_min_stop_ms
  with assms show thesis by (intro that(10)) (auto simp: bm_phase_run_step_def split: if_splits)
next
  case M_stop
  with assms show thesis by (intro that(11)) (auto simp: bm_phase_run_step_def split: if_splits)
next
  case M_max_stop_clk
  with assms show thesis by (intro that(12)) (auto simp: bm_phase_run_step_def split: if_splits)
next
  case M_max_stop_ms
  with assms show thesis by (intro that(13)) (auto simp: bm_phase_run_step_def split: if_splits)
next
  case M_join
  with assms obtain s1 where "all_at T_done s" "add_durations clk s = Inr s1" "s' = s1\<lparr>main_pc := M_done\<rparr>"
    by (auto simp: bm_phase_run_step_def split: if_splits)
  with M_join show thesis by (rule that(14))
next
  case M_done
  with assms show thesis by (simp add: bm_phase_run_step_def)
qed

lemma add_durations_frame:
  assumes "add_durations clk s = Inr s1"
  obtains stats where "s1 = s\<lparr>bench := (bench s)\<lparr>g_stats := stats\<rparr>\<rparr>"
    "op_time_ranges stats = op_time_ranges (g_stats (bench s))" "s_threads stats = s_threads (g_stats (bench s))"
    "s_len stats = s_len (g_stats (bench s))"
  using assms by (auto simp: add_durations_def Let_def bm_stat_add_spent_time_def)

definition timed :: "('c, 'w) phase \<Rightarrow> bool" where
  "timed s \<longleftrightarrow> sorted (take (readings (main_pc s)) (timeline s) @ [moment s])"

lemma timed_main_step:
  assumes "bm_phase_run_step z clk s = Some (Inr s')" "timed s"
  shows "timed s'"
  using assms
  by (cases rule: main_step_cases) (auto simp: timed_def timeline_def release_def elim!: add_durations_frame)

definition threads_ok :: "('c, 'w) phase \<Rightarrow> bool" where
  "threads_ok s \<longleftrightarrow> list_all (thread_ok s) (threads s) \<and> g_stop (bench s) = stopped (main_pc s) \<and>
     length (threads s) \<le> unat (num_threads (g_params (bench s))) \<and>
     (main_pc s \<noteq> M_create \<longrightarrow> length (threads s) = unat (num_threads (g_params (bench s))))"

lemma threads_main_step:
  assumes "bm_phase_run_step z clk s = Some (Inr s')" "threads_ok s"
  shows "threads_ok s'"
  using assms
  by (cases rule: main_step_cases) (auto simp: threads_ok_def thread_ok_def stage_defs list_all_iff release_def
    new_thread_def all_at_def elim!: add_durations_frame)

definition logged :: "('c, 'w) phase \<Rightarrow> bool" where
  "logged s \<longleftrightarrow> list_all (log_ok s) (ops_log s) \<and> (main_pc s \<in> before_start \<longrightarrow> ops_log s = [])"

lemma logged_main_step:
  assumes "bm_phase_run_step z clk s = Some (Inr s')" "logged s"
  shows "logged s'"
  using assms
  by (cases rule: main_step_cases) (auto simp: logged_def log_ok_def stage_defs list_all_iff release_def elim!: add_durations_frame)

lemma flow_split: "flow s \<longleftrightarrow> threads_ok s \<and> timed s \<and> logged s"
  by (auto simp: flow_def threads_ok_def timed_def logged_def)

lemma flow_main_step: "bm_phase_run_step z clk s = Some (Inr s') \<Longrightarrow> flow s \<Longrightarrow> flow s'"
  by (simp add: flow_split threads_main_step timed_main_step logged_main_step)

inductive_cases phase_stepE: "phase_step T z clk s s'"

lemma flow_step: "phase_step T z clk s s' \<Longrightarrow> flow s \<Longrightarrow> flow s'"
  by (erule phase_stepE) (auto intro: flow_tick flow_main_step flow_run_step)

lemma flow_reachable: "reachable T z clk b s \<Longrightarrow> \<not> g_stop b \<Longrightarrow> flow s"
  by (induction rule: reachable.induct) (auto intro: flow_start flow_step)

section \<open>What the threads record\<close>

definition samples :: "clocks \<Rightarrow> (nat \<times> nat \<times> nat \<times> nat \<times> bm_op_res) list \<Rightarrow> sample list" where
  "samples clk = map (\<lambda>(tid, op, b, e, r). (tid, op, r, tsc clk e - tsc clk b, False))"

lemma record_all_snoc:
  "record_all st (evs @ [e]) = bind_r (record_all st evs) (\<lambda>st'. record_all st' [e])"
  by (induction evs arbitrary: st) (auto simp: bind_r_assoc)

text \<open>The statistics with the durations of the finished phase.\<close>

definition with_durations :: "clocks \<Rightarrow> ('c, 'w) phase \<Rightarrow> bm_stat \<Rightarrow> bm_stat result" where
  "with_durations clk s stats =
     bind_r (calc_spent_time (wall clk (duration_min_start_ms s)) (wall clk (duration_min_stop_ms s))) (\<lambda>min_ms.
     bind_r (calc_spent_time (wall clk (duration_max_start_ms s)) (wall clk (duration_max_stop_ms s))) (\<lambda>max_ms.
     Inr (bm_stat_add_spent_time stats
       (tsc clk (duration_min_stop_clk s) - tsc clk (duration_min_start_clk s))
       (tsc clk (duration_max_stop_clk s) - tsc clk (duration_max_start_clk s)) (of_int min_ms) (of_int max_ms))))"

definition recorded :: "clocks \<Rightarrow> 'w bench \<Rightarrow> ('c, 'w) phase \<Rightarrow> bool" where
  "recorded clk b s \<longleftrightarrow> g_params (bench s) = g_params b \<and> g_ops (bench s) = g_ops b \<and>
     (\<exists>stats. record_all (g_stats b) (samples clk (ops_log s)) = Inr stats \<and>
       (if main_pc s = M_done then with_durations clk s stats = Inr (g_stats (bench s))
        else g_stats (bench s) = stats))"

lemma recorded_run_step:
  assumes "run_step T clk tid s = Some (Inr s')" "recorded clk b s" "flow s" "tid < length (threads s)"
  shows "recorded clk b s'"
proof -
  have "t_pc (threads s ! tid) = T_end \<Longrightarrow> main_pc s \<noteq> M_done"
    using assms(3,4) by (auto simp: flow_def list_all_length thread_ok_def stage_defs)
  with assms(1,2) show ?thesis
    by (cases rule: run_step_cases)
      (auto simp: recorded_def set_thread_def samples_def record_all_snoc with_durations_def)
qed

lemma recorded_main_step:
  assumes "bm_phase_run_step z clk s = Some (Inr s')" "recorded clk b s"
  shows "recorded clk b s'"
  using assms
  by (cases rule: main_step_cases)
    (auto simp: recorded_def release_def with_durations_def add_durations_def Let_def)

lemma recorded_tick: "recorded clk b s \<Longrightarrow> recorded clk b (s\<lparr>moment := Suc (moment s)\<rparr>)"
proof -
  have "with_durations clk (s\<lparr>moment := Suc (moment s)\<rparr>) = with_durations clk s"
    by (simp add: fun_eq_iff with_durations_def)
  then show "recorded clk b s \<Longrightarrow> ?thesis"
    by (cases "main_pc s = M_done") (simp_all add: recorded_def)
qed

lemma recorded_step: "phase_step T z clk s s' \<Longrightarrow> recorded clk b s \<Longrightarrow> flow s \<Longrightarrow> recorded clk b s'"
  by (erule phase_stepE) (auto intro: recorded_tick recorded_main_step recorded_run_step)

lemma recorded_reachable: "reachable T z clk b s \<Longrightarrow> \<not> g_stop b \<Longrightarrow> recorded clk b s"
proof (induction rule: reachable.induct)
  case (start m)
  then show ?case by (simp add: recorded_def start_phase_def samples_def)
qed (blast intro: recorded_step flow_reachable)

section \<open>Which operations a thread runs\<close>

definition ops_of :: "nat \<Rightarrow> (nat \<times> nat \<times> nat \<times> nat \<times> bm_op_res) list \<Rightarrow> nat list" where
  "ops_of tid log = map (\<lambda>(_, op, _). op) (filter (\<lambda>(tid', _). tid' = tid) log)"

definition planned :: "'w bench \<Rightarrow> nat \<Rightarrow> nat \<Rightarrow> nat" where
  "planned b tid k = unat (g_ops b ! slot (start_position (g_params b) tid + of_nat k))"

definition thread_on_plan :: "'w bench \<Rightarrow> ('c, 'w) phase \<Rightarrow> nat \<Rightarrow> bool" where
  "thread_on_plan b s tid \<longleftrightarrow>
     (let t = threads s ! tid; n = length (ops_of tid (ops_log s)) in
      ops_of tid (ops_log s) = map (planned b tid) [0..<n] \<and>
      (t_pc t \<noteq> T_start \<longrightarrow> t_i t = start_position (g_params b) tid + of_nat n) \<and>
      (t_pc t \<in> {T_dispatch, T_end} \<longrightarrow> t_op t = planned b tid n))"

definition on_plan :: "'w bench \<Rightarrow> ('c, 'w) phase \<Rightarrow> bool" where
  "on_plan b s \<longleftrightarrow> (\<forall>tid < length (threads s). thread_on_plan b s tid)"

lemma ops_of_snoc: "ops_of tid (log @ [(tid', op, r)]) = ops_of tid log @ (if tid' = tid then [op] else [])"
  by (cases r) (simp add: ops_of_def)

lemma on_plan_set_thread:
  assumes "on_plan b s" "thread_on_plan b (set_thread tid t s') tid" "tid < length (threads s)"
    and "threads s' = threads s" "\<And>j. j \<noteq> tid \<Longrightarrow> ops_of j (ops_log s') = ops_of j (ops_log s)"
  shows "on_plan b (set_thread tid t s')"
  using assms by (auto simp: on_plan_def thread_on_plan_def Let_def set_thread_def nth_list_update)

lemma thread_on_plan_set:
  assumes "tid < length (threads s)"
  shows "thread_on_plan b (set_thread tid t s) tid \<longleftrightarrow>
     (let n = length (ops_of tid (ops_log s)) in
      ops_of tid (ops_log s) = map (planned b tid) [0..<n] \<and>
      (t_pc t \<noteq> T_start \<longrightarrow> t_i t = start_position (g_params b) tid + of_nat n) \<and>
      (t_pc t \<in> {T_dispatch, T_end} \<longrightarrow> t_op t = planned b tid n))"
  using assms by (simp add: thread_on_plan_def set_thread_def Let_def)

lemma on_plan_run_step:
  assumes r: "run_step T clk tid s = Some (Inr s')" and p: "on_plan b s" and rec: "recorded clk b s"
    and f: "flow s" and tid: "tid < length (threads s)"
  shows "on_plan b s'"
proof -
  have start: "ops_of tid (ops_log s) = []" if "t_pc (threads s ! tid) = T_start"
    using that f tid by (auto simp: flow_def list_all_length thread_ok_def ops_of_def split: if_splits)
  have on: "thread_on_plan b s tid" using p tid by (simp add: on_plan_def)
  show ?thesis
    using r on [unfolded thread_on_plan_def Let_def] rec start
    by (cases rule: run_step_cases)
      (auto intro!: on_plan_set_thread [OF p _ tid] simp: thread_on_plan_set Let_def tid
        recorded_def planned_def ops_of_snoc)
qed

lemma on_plan_main_step:
  assumes r: "bm_phase_run_step z clk s = Some (Inr s')" and p: "on_plan b s" and f: "flow s"
  shows "on_plan b s'"
  using r
proof (cases rule: main_step_cases)
  case create
  have "ops_log s = []" using f create(1) by (simp add: flow_def stage_defs)
  with create p show ?thesis
    by (auto simp: on_plan_def thread_on_plan_def Let_def nth_append new_thread_def ops_of_def less_Suc_eq)
qed (use p in \<open>auto simp: on_plan_def thread_on_plan_def Let_def release_def all_at_def list_all_length elim!: add_durations_frame\<close>)

lemma on_plan_tick: "on_plan b s \<Longrightarrow> on_plan b (s\<lparr>moment := Suc (moment s)\<rparr>)"
  by (simp add: on_plan_def thread_on_plan_def)

lemma on_plan_step:
  "phase_step T z clk s s' \<Longrightarrow> on_plan b s \<Longrightarrow> recorded clk b s \<Longrightarrow> flow s \<Longrightarrow> on_plan b s'"
  by (erule phase_stepE) (auto intro: on_plan_tick on_plan_main_step on_plan_run_step)

lemma on_plan_reachable: "reachable T z clk b s \<Longrightarrow> \<not> g_stop b \<Longrightarrow> on_plan b s"
proof (induction rule: reachable.induct)
  case (start m)
  then show ?case by (simp add: on_plan_def start_phase_def)
qed (blast intro: on_plan_step flow_reachable recorded_reachable)

end
