(* ===== verification/CSB_Run_Proofs.thy ===== *)
theory CSB_Run_Proofs
  imports CSB_Run
begin

text \<open>
  Consequences of the invariants of the measured phase: the schedule a thread follows visits
  every slot once in any 1024 consecutive operations, and from every reachable state the
  process can go on to the end of the phase.
\<close>
section \<open>Windows of the plan\<close>

lemma calc_spent_time_defined: "normal_time s \<Longrightarrow> normal_time f \<Longrightarrow> \<exists>us. calc_spent_time s f = Inr us"
  using calc_spent_time_bounds by blast

lemma slot_less: "slot i < DISTRIBUTION_BOUND"
  by (simp add: slot_def DISTRIBUTION_BOUND_def unat_mod)

lemma slot_add: "slot (x + of_nat k) = (unat x + k) mod DISTRIBUTION_BOUND"
proof -
  have d: "(1024 :: nat) dvd 2 ^ 64" by (simp add: dvd_def)
  have "unat (x + of_nat k) mod 1024 = (unat x + k) mod 1024"
    using mod_mod_cancel [OF d, of "unat x + k"] mod_mod_cancel [OF d, of k] 
    by (simp add: unat_word_ariths(1) unat_of_nat mod_add_right_eq)
  then show ?thesis by (simp add: slot_def DISTRIBUTION_BOUND_def unat_mod)
qed

lemma rotation:
  assumes "0 < (n::nat)"
  shows "image_mset (\<lambda>k. (a + k) mod n) (mset [0..<n]) = mset [0..<n]"
proof -
  have inj: "inj_on (\<lambda>k. (a + k) mod n) {0..<n}"
  proof (rule linorder_inj_onI')
    fix i j assume ij: "i \<in> {0..<n}" "j \<in> {0..<n}" "i < j"
    show "(a + i) mod n \<noteq> (a + j) mod n"
    proof
      assume "(a + i) mod n = (a + j) mod n"
      then have "n dvd a + j - (a + i)" using ij(3) by (metis mod_eq_dvd_iff_nat add_le_cancel_left less_imp_le)
      then show False using ij by (auto dest: dvd_imp_le)
    qed
  qed
  then have "(\<lambda>k. (a + k) mod n) ` {0..<n} = {0..<n}"
    using assms by (intro endo_inj_surj) auto
  with inj show ?thesis by (simp add: image_mset_mset_set)
qed

text \<open>Any 1024 consecutive positions visit every slot once, also where the counter wraps.\<close>

lemma planned_window:
  assumes "length (g_ops b) = DISTRIBUTION_BOUND"
  shows "mset (map (planned b tid) [k..<k + DISTRIBUTION_BOUND]) = image_mset unat (mset (g_ops b))"
proof -
  let ?x = "start_position (g_params b) tid" and ?n = DISTRIBUTION_BOUND
  have "map (planned b tid) [k..<k + ?n] = map (\<lambda>j. planned b tid (k + j)) [0..<?n]"
    by (rule nth_equalityI) simp_all
  also have "\<dots> = map (\<lambda>j. unat (g_ops b ! ((unat ?x + k + j) mod ?n))) [0..<?n]"
    using slot_add [of ?x "k + _"] by (simp only: planned_def add.assoc)
  also have "mset \<dots> = image_mset (\<lambda>j. unat (g_ops b ! j)) (image_mset (\<lambda>j. (unat ?x + k + j) mod ?n) (mset [0..<?n]))"
    by (simp add: multiset.map_comp comp_def del: mset_upt)
  also have "\<dots> = image_mset (\<lambda>j. unat (g_ops b ! j)) (mset [0..<?n])"
    by (subst rotation) (simp_all add: DISTRIBUTION_BOUND_def)
  also have "\<dots> = image_mset unat (mset (map ((!) (g_ops b)) [0..<?n]))"
    by (simp add: multiset.map_comp comp_def del: mset_upt)
  also have "map ((!) (g_ops b)) [0..<?n] = g_ops b" using assms by (metis map_nth)
  finally show ?thesis .
qed

section \<open>The process can always finish\<close>

lemma record_all_wf:
  "record_all st evs = Inr st' \<Longrightarrow> wf_stat n st \<Longrightarrow> wf_stat n st' \<and> s_len st' = s_len st \<and>
     (\<forall>e \<in> set evs. fst e < s_len st \<and> fst (snd e) < n)"
proof (induction st evs rule: record_all.induct)
  case (2 st tid op r d k evs)
  from "2.prems"(1) obtain st1 where s: "bm_stat_add_op st tid op r d k = Inr st1" "record_all st1 evs = Inr st'" by auto
  then have "tid < s_len st" "op < n"
    using "2.prems"(2) by (auto simp: bm_stat_add_op_def wf_stat_def list_all_length Let_def split: if_splits)
  with bm_stat_add_op_ok [OF "2.prems"(2) this, of r d k] s(1) obtain "wf_stat n st1" "s_len st1 = s_len st" by auto
  with "2.IH" [OF s(1,2)] \<open>tid < s_len st\<close> \<open>op < n\<close> show ?case by auto
qed simp

text \<open>A target that never aborts: every call returns, whatever the state of the world.\<close>

definition never_aborts :: "('c, 'w) bm_target \<Rightarrow> bool" where
  "never_aborts T \<longleftrightarrow> (\<forall>tid c w. \<exists>x. bm_target_reg T tid c w = Inr x) \<and>
     (\<forall>op c w. op < bm_target_op_count T \<longrightarrow> (\<exists>x. bm_dispatch_operation T op c w = Inr x)) \<and>
     (\<forall>tid c w. \<exists>x. bm_target_dereg T tid c w = Inr x)"

text \<open>
  What the run asks of a target to be able to end: in a state that is \<open>ready\<close>, the pending calls of
  the threads return, and the state after a step is ready again. A thread that goes on to
  another operation before the stop is not covered: a target may have room for what has begun
  only.
\<close>

locale finishing_target =
  fixes T :: "('c, 'w) bm_target" and z :: 'c and ready :: "('c, 'w) phase \<Rightarrow> bool"
  assumes reg_returns: "ready s \<Longrightarrow> tid < length (threads s) \<Longrightarrow> t_pc (threads s ! tid) = T_start \<Longrightarrow>
      \<exists>x. bm_target_reg T (of_nat tid) (t_ctx (threads s ! tid)) (world (bench s)) = Inr x"
    and dispatch_returns: "ready s \<Longrightarrow> tid < length (threads s) \<Longrightarrow> t_pc (threads s ! tid) = T_dispatch \<Longrightarrow>
      t_op (threads s ! tid) < bm_target_op_count T \<Longrightarrow>
      \<exists>x. bm_dispatch_operation T (t_op (threads s ! tid)) (t_ctx (threads s ! tid)) (world (bench s)) = Inr x"
    and dereg_returns: "ready s \<Longrightarrow> tid < length (threads s) \<Longrightarrow> t_pc (threads s ! tid) = T_dereg \<Longrightarrow>
      \<exists>x. bm_target_dereg T (of_nat tid) (t_ctx (threads s ! tid)) (world (bench s)) = Inr x"
    and ready_thread: "ready s \<Longrightarrow> tid < length (threads s) \<Longrightarrow> run_step T clk tid s = Some (Inr s') \<Longrightarrow>
      (t_pc (threads s ! tid) = T_check \<longrightarrow> g_stop (bench s)) \<Longrightarrow> ready s'"
    and ready_main: "ready s \<Longrightarrow> bm_phase_run_step z clk s = Some (Inr s') \<Longrightarrow> ready s'"

fun thread_rank :: "thread_pc \<Rightarrow> nat" where
  "thread_rank T_start = 1" | "thread_rank T_wait_start = 0" | "thread_rank T_begin = 4"
| "thread_rank T_dispatch = 3" | "thread_rank T_end = 2" | "thread_rank T_check = 1"
| "thread_rank T_wait_stop = 0" | "thread_rank T_dereg = 1" | "thread_rank T_done = 0"

fun main_rank :: "main_pc \<Rightarrow> nat" where
  "main_rank M_create = 13" | "main_rank M_max_start_clk = 12" | "main_rank M_max_start_ms = 11"
| "main_rank M_start = 10" | "main_rank M_min_start_clk = 9" | "main_rank M_min_start_ms = 8"
| "main_rank M_sleep = 7" | "main_rank M_min_stop_clk = 6" | "main_rank M_min_stop_ms = 5"
| "main_rank M_stop = 4" | "main_rank M_max_stop_clk = 3" | "main_rank M_max_stop_ms = 2"
| "main_rank M_join = 1" | "main_rank M_done = 0"

definition phase_order :: "(('c, 'w) phase \<times> ('c, 'w) phase) set" where
  "phase_order = measures [\<lambda>s. main_rank (main_pc s),
     \<lambda>s. unat (num_threads (g_params (bench s))) - length (threads s),
     \<lambda>s. sum_list (map (thread_rank \<circ> t_pc) (threads s))]"

lemma wf_phase_order: "wf phase_order"
  by (simp add: phase_order_def)

lemma rank_update:
  assumes "tid < length ts" "thread_rank (t_pc t) < thread_rank (t_pc (ts ! tid))"
  shows "sum_list (map (thread_rank \<circ> t_pc) (ts[tid := t])) < sum_list (map (thread_rank \<circ> t_pc) ts)"
  using assms
proof (induction ts arbitrary: tid)
  case (Cons x ts)
  then show ?case by (cases tid) auto
qed simp

definition can_run :: "('c, 'w) bm_target \<Rightarrow> clocks \<Rightarrow> 'w bench \<Rightarrow> bool" where
  "can_run T clk b \<longleftrightarrow> wf_stat (bm_target_op_count T) (g_stats b) \<and>
     s_len (g_stats b) = unat (num_threads (g_params b)) \<and> length (g_ops b) = DISTRIBUTION_BOUND \<and>
     (\<forall>op \<in> set (g_ops b). unat op < bm_target_op_count T) \<and> \<not> g_stop b \<and> (\<forall>m. normal_time (wall clk m))"

definition all_invariants :: "clocks \<Rightarrow> 'w bench \<Rightarrow> ('c, 'w) phase \<Rightarrow> bool" where
  "all_invariants clk b s \<longleftrightarrow> flow s \<and> recorded clk b s \<and> on_plan b s"

lemma all_invariants_reachable: "reachable T z clk b s \<Longrightarrow> \<not> g_stop b \<Longrightarrow> all_invariants clk b s"
  by (simp add: all_invariants_def flow_reachable recorded_reachable on_plan_reachable)

lemma planned_less:
  assumes "can_run T clk b" shows "planned b tid k < bm_target_op_count T"
proof -
  have "g_ops b ! slot (start_position (g_params b) tid + of_nat k) \<in> set (g_ops b)"
    using assms slot_less by (simp add: can_run_def)
  then show ?thesis using assms by (simp add: can_run_def planned_def)
qed

lemma not_all_at: "\<not> all_at pc s \<Longrightarrow> \<exists>tid < length (threads s). t_pc (threads s ! tid) \<noteq> pc"
  by (auto simp: all_at_def list_all_length)

lemma main_progress:
  assumes run: "can_run T clk b" and "main_pc s \<noteq> M_done"
    and "main_pc s = M_create \<longrightarrow> \<not> length (threads s) < unat (num_threads (g_params (bench s)))"
    and "main_pc s = M_start \<longrightarrow> all_at T_wait_start s" "main_pc s = M_stop \<longrightarrow> all_at T_wait_stop s"
    and "main_pc s = M_join \<longrightarrow> all_at T_done s"
  shows "\<exists>s'. bm_phase_run_step z clk s = Some (Inr s') \<and> main_rank (main_pc s') < main_rank (main_pc s)"
proof -
  have time: "\<exists>us. calc_spent_time (wall clk i) (wall clk j) = Inr us" for i j
    using run by (intro calc_spent_time_defined) (simp_all add: can_run_def)
  show ?thesis
    using assms(2-) time [of "duration_min_start_ms s" "duration_min_stop_ms s"]
      time [of "duration_max_start_ms s" "duration_max_stop_ms s"]
    by (cases "main_pc s") (simp_all add: bm_phase_run_step_def release_def add_durations_def Let_def, fastforce)
qed

text \<open>The agent a blocked main thread waits for.\<close>

fun awaited :: "main_pc \<Rightarrow> thread_pc option" where
  "awaited M_start = Some T_wait_start"
| "awaited M_stop = Some T_wait_stop"
| "awaited M_join = Some T_done"
| "awaited _ = None"

context finishing_target
begin

lemma thread_progress:
  assumes run: "can_run T clk b" and inv: "all_invariants clk b s" and ready: "ready s" and tid: "tid < length (threads s)"
    and pc: "t_pc (threads s ! tid) \<notin> {T_wait_start, T_wait_stop, T_done}"
    and chk: "t_pc (threads s ! tid) = T_check \<longrightarrow> g_stop (bench s)"
  shows "\<exists>s'. run_step T clk tid s = Some (Inr s') \<and> (s', s) \<in> phase_order"
proof -
  let ?t = "threads s ! tid" and ?b = "bench s"
  have frame: "(set_thread tid t' s1, s) \<in> phase_order"
    if "thread_rank (t_pc t') < thread_rank (t_pc ?t)" "main_pc s1 = main_pc s" "threads s1 = threads s"
      "g_params (bench s1) = g_params ?b" for t' s1
    using that rank_update [OF tid, of t'] by (simp add: phase_order_def set_thread_def)
  have on: "thread_on_plan b s tid" and f: "flow s" and r: "recorded clk b s"
    using inv tid by (auto simp: all_invariants_def on_plan_def)
  show ?thesis
  proof (cases "t_pc ?t")
    case T_start
    obtain c w where "bm_target_reg T (of_nat tid) (t_ctx ?t) (world ?b) = Inr (c, w)"
      using reg_returns [OF ready tid T_start] by auto
    then show ?thesis using T_start by (auto simp: run_step_def Let_def intro!: frame)
  next
    case T_dereg
    obtain c w where "bm_target_dereg T (of_nat tid) (t_ctx ?t) (world ?b) = Inr (c, w)"
      using dereg_returns [OF ready tid T_dereg] by auto
    then show ?thesis using T_dereg by (auto simp: run_step_def Let_def intro!: frame)
  next
    case T_dispatch
    then have "t_op ?t < bm_target_op_count T" using on planned_less [OF run] by (simp add: thread_on_plan_def Let_def)
    then obtain res c w where "bm_dispatch_operation T (t_op ?t) (t_ctx ?t) (world ?b) = Inr (res, c, w)"
      using dispatch_returns [OF ready tid T_dispatch] by auto
    then show ?thesis using T_dispatch by (auto simp: run_step_def Let_def intro!: frame)
  next
    case T_end
    then have m: "main_pc s \<noteq> M_done" using f tid by (auto simp: flow_def list_all_length thread_ok_def stage_defs)
    have op: "t_op ?t < bm_target_op_count T" using T_end on planned_less [OF run] by (simp add: thread_on_plan_def Let_def)
    have wf: "wf_stat (bm_target_op_count T) (g_stats ?b)" "s_len (g_stats ?b) = s_len (g_stats b)"
      using r m run record_all_wf [of "g_stats b" "samples clk (ops_log s)" "g_stats ?b"]
      by (auto simp: recorded_def can_run_def)
    have "tid < s_len (g_stats ?b)"
      using wf(2) run f r tid by (simp add: can_run_def flow_def recorded_def)
    with bm_stat_add_op_ok [OF wf(1) this op] obtain stats where
      "bm_stat_add_op (g_stats ?b) tid (t_op ?t) (t_result ?t) (tsc clk (moment s) - tsc clk (t_begin ?t)) False = Inr stats"
      by metis
    then show ?thesis using T_end by (auto simp: run_step_def Let_def intro!: frame)
  qed (use pc chk in \<open>auto simp: run_step_def Let_def intro!: frame\<close>)
qed

lemma awaited_progress:
  assumes run: "can_run T clk b" and inv: "all_invariants clk b s" and ready: "ready s"
    and "awaited (main_pc s) = Some pc" "\<not> all_at pc s"
  shows "\<exists>s'. phase_step T z clk s s' \<and> ready s' \<and> (s', s) \<in> phase_order"
proof -
  obtain tid where tid: "tid < length (threads s)" "t_pc (threads s ! tid) \<noteq> pc" using not_all_at [OF assms(5)] by blast
  have "thread_ok s (threads s ! tid)" "g_stop (bench s) = stopped (main_pc s)"
    using inv tid(1) by (auto simp: all_invariants_def flow_def list_all_length)
  then have "t_pc (threads s ! tid) \<notin> {T_wait_start, T_wait_stop, T_done}"
    "t_pc (threads s ! tid) = T_check \<longrightarrow> g_stop (bench s)"
    using assms(4) tid(2) by (cases "main_pc s"; auto simp: thread_ok_def stage_defs)+
  with thread_progress [OF run inv ready tid(1)] ready_thread [OF ready tid(1)] tid(1) show ?thesis
    by (meson phase_step.thread)
qed

lemma phase_progress:
  assumes run: "can_run T clk b" and inv: "all_invariants clk b s" and ready: "ready s" and "main_pc s \<noteq> M_done"
  shows "\<exists>s'. phase_step T z clk s s' \<and> ready s' \<and> (s', s) \<in> phase_order"
proof -
  consider pc where "awaited (main_pc s) = Some pc" "\<not> all_at pc s"
    | "main_pc s = M_create" "length (threads s) < unat (num_threads (g_params (bench s)))"
    | "main_pc s = M_create \<longrightarrow> \<not> length (threads s) < unat (num_threads (g_params (bench s)))"
      "main_pc s = M_start \<longrightarrow> all_at T_wait_start s" "main_pc s = M_stop \<longrightarrow> all_at T_wait_stop s"
      "main_pc s = M_join \<longrightarrow> all_at T_done s"
    by (metis awaited.simps(1-3))
  then show ?thesis
  proof cases
    case 1
    then show ?thesis by (rule awaited_progress [OF run inv ready])
  next
    case 2
    let ?s = "s\<lparr>threads := threads s @ [new_thread z]\<rparr>"
    have step: "bm_phase_run_step z clk s = Some (Inr ?s)" using 2 by (simp add: bm_phase_run_step_def)
    then have "phase_step T z clk s ?s" by (rule phase_step.main)
    moreover have "ready ?s" using ready_main [OF ready step] .
    moreover have "(?s, s) \<in> phase_order" using 2 by (simp add: phase_order_def)
    ultimately show ?thesis by blast
  next
    case 3
    from main_progress [OF run assms(4) 3, of z] obtain s' where s':
      "bm_phase_run_step z clk s = Some (Inr s')" "main_rank (main_pc s') < main_rank (main_pc s)" by blast
    then have "(s', s) \<in> phase_order" by (simp add: phase_order_def)
    with s'(1) ready_main [OF ready s'(1)] show ?thesis by (meson phase_step.main)
  qed
qed

lemma phase_can_finish:
  assumes run: "can_run T clk b" and "reachable T z clk b s" "ready s"
  shows "\<exists>s'. reachable T z clk b s' \<and> (phase_step T z clk)\<^sup>*\<^sup>* s s' \<and> main_pc s' = M_done"
  using assms(2,3)
proof (induction s rule: wf_induct_rule [OF wf_phase_order])
  case (1 s)
  show ?case
  proof (cases "main_pc s = M_done")
    case False
    have "\<not> g_stop b" using run by (simp add: can_run_def)
    from phase_progress [OF run all_invariants_reachable [OF 1(2) this] 1(3) False] obtain s1
      where s1: "phase_step T z clk s s1" "ready s1" "(s1, s) \<in> phase_order" by blast
    from 1(1) [OF s1(3) reachable.step [OF 1(2) s1(1)] s1(2)] s1(1) show ?thesis
      by (meson converse_rtranclp_into_rtranclp)
  qed (use 1(2) in blast)
qed

end

interpretation any: finishing_target T z "\<lambda>s. never_aborts T" for T :: "('c, 'w) bm_target" and z
  by unfold_locales (auto simp: never_aborts_def)

end
