(* ===== verification/CSB_Stats_Proofs.thy ===== *)
theory CSB_Stats_Proofs
  imports CSB_Stats
begin

text \<open>
  The bucket table that bm_stat_init computes in double arithmetic, and the properties of
  bm_stats.h: every sample recorded by any thread is counted exactly once in the figures that
  are printed, and the histogram cell of a duration is the least bucket that holds it.
\<close>

section \<open>The bucket table\<close>

lemma stat_inc_factor_eval: "STAT_INC_FACTOR = Fin 4953959590107546 (- 52)"
  by (simp add: STAT_INC_FACTOR_def round_to_def excess.simps round_even_def Let_def)

lemmas next_max_eval =
  next_max_def stat_inc_factor_eval of_u64_def round_to_def excess.simps round_even_def Let_def

lemma next_max_table:
  shows
    "next_max 0 99 = Inr 209" "next_max 100 209 = Inr 330" "next_max 210 330 = Inr 463"
    "next_max 331 463 = Inr 609" "next_max 464 609 = Inr 769" "next_max 610 769 = Inr 945"
    "next_max 770 945 = Inr 1138" "next_max 946 1138 = Inr 1350"
    "next_max 1139 1350 = Inr 1583" "next_max 1351 1583 = Inr 1839"
    "next_max 1584 1839 = Inr 2120" "next_max 1840 2120 = Inr 2429"
    "next_max 2121 2429 = Inr 2768" "next_max 2430 2768 = Inr 3140"
    "next_max 2769 3140 = Inr 3549" "next_max 3141 3549 = Inr 3998"
    "next_max 3550 3998 = Inr 4491" "next_max 3999 4491 = Inr 5033"
    "next_max 4492 5033 = Inr 5629" "next_max 5034 5629 = Inr 6284"
    "next_max 5630 6284 = Inr 7004" "next_max 6285 7004 = Inr 7796"
    "next_max 7005 7796 = Inr 8667" "next_max 7797 8667 = Inr 9625"
    "next_max 8668 9625 = Inr 10678" "next_max 9626 10678 = Inr 11836"
    "next_max 10679 11836 = Inr 13109" "next_max 11837 13109 = Inr 14509"
    "next_max 13110 14509 = Inr 16049" "next_max 14510 16049 = Inr 17743"
    "next_max 16050 17743 = Inr 19606" "next_max 17744 19606 = Inr 21655"
    "next_max 19607 21655 = Inr 23908" "next_max 21656 23908 = Inr 26386"
    "next_max 23909 26386 = Inr 29111" "next_max 26387 29111 = Inr 32108"
    "next_max 29112 32108 = Inr 35404" "next_max 32109 35404 = Inr 39029"
    "next_max 35405 39029 = Inr 43016" "next_max 39030 43016 = Inr 47401"
    "next_max 43017 47401 = Inr 52224" "next_max 47402 52224 = Inr 57529"
    "next_max 52225 57529 = Inr 63364" "next_max 57530 63364 = Inr 69782"
    "next_max 63365 69782 = Inr 76841" "next_max 69783 76841 = Inr 84605"
    "next_max 76842 84605 = Inr 93145" "next_max 84606 93145 = Inr 102539"
    "next_max 93146 102539 = Inr 112872" "next_max 102540 112872 = Inr 124238"
    "next_max 112873 124238 = Inr 136740" "next_max 124239 136740 = Inr 150492"
    "next_max 136741 150492 = Inr 165619" "next_max 150493 165619 = Inr 182258"
    "next_max 165620 182258 = Inr 200560" "next_max 182259 200560 = Inr 220692"
    "next_max 200561 220692 = Inr 242837" "next_max 220693 242837 = Inr 267196"
    "next_max 242838 267196 = Inr 293990" "next_max 267197 293990 = Inr 323463"
  by (simp_all add: next_max_eval)

definition bucket_table :: "u64 list" where
  "bucket_table =
     [99, 209, 330, 463, 609, 769, 945, 1138, 1350, 1583, 1839, 2120, 2429, 2768, 3140, 3549,
      3998, 4491, 5033, 5629, 6284, 7004, 7796, 8667, 9625, 10678, 11836, 13109, 14509, 16049,
      17743, 19606, 21655, 23908, 26386, 29111, 32108, 35404, 39029, 43016, 47401, 52224,
      57529, 63364, 69782, 76841, 84605, 93145, 102539, 112872, 124238, 136740, 150492,
      165619, 182258, 200560, 220692, 242837, 267196, 293990]"

lemma bucket_ranges_table: "bucket_ranges STAT_MAX_NUM_BUCKETS 0 99 = Inr bucket_table"
  unfolding STAT_MAX_NUM_BUCKETS_def bucket_table_def
  by (simp add: next_max_table eval_nat_numeral)

lemma bucket_table_length: "length bucket_table = STAT_MAX_NUM_BUCKETS"
  by (simp add: bucket_table_def STAT_MAX_NUM_BUCKETS_def)

lemma bucket_table_sorted: "sorted_wrt (<) bucket_table"
  by (simp add: bucket_table_def)

section \<open>Initialisation\<close>

lemma bm_stat_init_ok:
  "bm_stat_init stats num_threads num_ops = Inr (stats\<lparr>s_threads := replicate num_threads
      \<lparr>ts_ops = replicate num_ops init_op_stat, ts_len = num_ops\<rparr>, s_len := num_threads, op_time_ranges := bucket_table\<rparr>)"
  by (simp add: bm_stat_init_def bucket_ranges_table flip: init_op_stat_def)

lemma wf_stat_init: "bm_stat_init stats num_threads num_ops = Inr stats0 \<Longrightarrow>
    wf_stat num_ops stats0 \<and> s_len stats0 = num_threads"
  by (auto simp: bm_stat_init_ok wf_stat_def list_all_length bucket_table_length)

lemma record_all_collects:
  assumes init: "bm_stat_init stats num_threads num_ops = Inr stats0"
    and evs: "\<forall>e \<in> set evs. fst e < num_threads \<and> fst (snd e) < num_ops"
  shows "\<exists>stats1. record_all stats0 evs = Inr stats1 \<and> wf_stat num_ops stats1 \<and>
    (\<forall>op < num_ops. collect_op (s_threads stats1) op = op_summary (op_time_ranges stats0) (samples_of op evs))"
proof -
  have wf: "wf_stat num_ops stats0" and "s_len stats0 = num_threads" using wf_stat_init [OF init] by auto
  have c0: "collect_op (s_threads stats0) j = init_op_stat" if "j < num_ops" for j
    using that init by (auto simp: bm_stat_init_ok collect_op_init_stat collect_op_init map_replicate_const)
  have rl: "length (op_time_ranges stats0) = STAT_MAX_NUM_BUCKETS" using wf by (simp add: wf_stat_def)
  show ?thesis
    using record_all_ok [OF wf, of evs] evs \<open>s_len stats0 = num_threads\<close> foldl_merge_summary [OF rl] c0 by fastforce
qed

text \<open>
  C7. Whatever threads record whatever samples in whatever order, the figures collected for
  an operation are those of its samples: sums and counts (in 64-bit arithmetic), least and
  greatest duration, and the histogram.
\<close>

theorem stats_refine_summary:
  assumes "bm_stat_init stats num_threads num_ops = Inr stats0"
    and "\<forall>e \<in> set evs. fst e < num_threads \<and> fst (snd e) < num_ops"
  shows "\<exists>stats1. record_all stats0 evs = Inr stats1 \<and>
    (\<forall>op < num_ops. collect_op (s_threads stats1) op = op_summary (op_time_ranges stats0) (samples_of op evs))"
  using record_all_collects [OF assms] by blast

definition blank_stat :: bm_stat where
  "blank_stat = \<lparr>s_threads = [], s_len = 0, min_duration_clk = 0, max_duration_clk = 0,
     min_duration_ms = 0, max_duration_ms = 0, op_time_ranges = []\<rparr>"

definition three_samples :: "sample list" where
  "three_samples =
     [(1, 0, \<lparr>op_count = 1, succ_count = 1\<rparr>, 250, False), (0, 0, \<lparr>op_count = 1, succ_count = 0\<rparr>, 70, False),
      (1, 0, \<lparr>op_count = 0, succ_count = 0\<rparr>, 0, True)]"

theorem stats_refine_summary_witness:
  "\<exists>stats0 stats1. bm_stat_init blank_stat 2 1 = Inr stats0 \<and> record_all stats0 three_samples = Inr stats1 \<and>
    collect_op (s_threads stats1) 0 = op_summary (op_time_ranges stats0) (samples_of 0 three_samples)"
proof -
  have "\<forall>e \<in> set three_samples. fst e < 2 \<and> fst (snd e) < 1" by (simp add: three_samples_def)
  from stats_refine_summary [OF bm_stat_init_ok [of blank_stat 2 1] this] bm_stat_init_ok [of blank_stat 2 1]
  show ?thesis by auto
qed

lemma op_summary_cons_snoc:
  "length ranges = STAT_MAX_NUM_BUCKETS \<Longrightarrow>
   op_summary ranges (xs @ [x]) = merge_op (op_summary ranges xs) (single ranges x)"
  by (cases x) (simp add: op_summary_snoc op_stat_add_merge)

lemma merge_univ_forget: "merge_univ (x\<lparr>histogram_data := h\<rparr>) s = (merge_op x s)\<lparr>histogram_data := h\<rparr>"
  by (simp add: merge_univ_def merge_op_def)

lemma samples_of_snoc: "samples_of op (evs @ [(tid, op', s)]) = samples_of op evs @ (if op' = op then [s] else [])"
  by (simp add: samples_of_def)

lemma univ_stat_summary:
  assumes rl: "length ranges = STAT_MAX_NUM_BUCKETS" and "\<forall>e \<in> set evs. fst (snd e) < n"
  shows "univ_stat (map (\<lambda>op. op_summary ranges (samples_of op evs)) [0..<n]) =
    (op_summary ranges (map (snd \<circ> snd) evs))\<lparr>histogram_data := replicate STAT_MAX_NUM_BUCKETS 0\<rparr>"
  using assms(2)
proof (induction evs rule: rev_induct)
  case Nil
  have init: "merge_univ init_op_stat init_op_stat = init_op_stat"
    by (simp add: merge_univ_def merge_op_def init_op_stat_def zero_op_stat_def VMIN_min VMAX_max)
  have "foldl merge_univ init_op_stat (replicate n init_op_stat) = init_op_stat"
    by (induction n) (simp_all add: init)
  then show ?case
    by (simp add: univ_stat_def op_summary_nil map_replicate_const flip: init_op_stat_def)
      (simp add: init_op_stat_def zero_op_stat_def)
next
  case (snoc e evs)
  obtain tid op s where e: "e = (tid, op, s)" by (cases e)
  with snoc.prems have op: "op < n" by simp
  let ?ops = "map (\<lambda>op. op_summary ranges (samples_of op evs)) [0..<n]"
  have "map (\<lambda>op. op_summary ranges (samples_of op (evs @ [e]))) [0..<n] =
      ?ops[op := merge_op (?ops ! op) (single ranges s)]"
    using op by (intro nth_equalityI) (auto simp: e samples_of_snoc op_summary_cons_snoc [OF rl] nth_list_update)
  then have "univ_stat (map (\<lambda>op. op_summary ranges (samples_of op (evs @ [e]))) [0..<n]) =
      merge_univ (univ_stat ?ops) (single ranges s)"
    using op univ.foldl_update [where a = "zero_op_stat\<lparr>os_min := - 1\<rparr>" and xs = ?ops and y = "single ranges s" and i = op]
    by (simp add: univ_stat_def list_all_length)
  also have "\<dots> = (op_summary ranges (map (snd \<circ> snd) (evs @ [e])))\<lparr>histogram_data := replicate STAT_MAX_NUM_BUCKETS 0\<rparr>"
    using snoc by (simp add: merge_univ_forget e op_summary_cons_snoc [OF rl] comp_def)
  finally show ?case .
qed

section \<open>The histogram\<close>

lemma bucket_index_eq_least:
  assumes "length rs = STAT_MAX_NUM_BUCKETS" "sorted_wrt (<) rs"
  shows "bucket_index rs d = (if d \<le> last rs then (LEAST i. d \<le> rs ! i) else STAT_MAX_NUM_BUCKETS - 1)"
proof -
  have lst: "last rs = rs ! (STAT_MAX_NUM_BUCKETS - 1)"
    using assms(1) by (subst last_conv_nth) (auto simp: STAT_MAX_NUM_BUCKETS_def)
  let ?k = "bucket_index rs d"
  have k: "?k < STAT_MAX_NUM_BUCKETS" by (rule bucket_index_less [OF assms(1)])
  show ?thesis
  proof (cases "d \<le> last rs")
    case True
    have "d \<le> rs ! ?k"
    proof (cases "?k < STAT_MAX_NUM_BUCKETS - 1")
      case False
      then show ?thesis using k True lst by (simp add: STAT_MAX_NUM_BUCKETS_def less_Suc_eq eval_nat_numeral)
    qed (rule bucket_index_at [OF assms(1)])
    moreover have "?k \<le> j" if "d \<le> rs ! j" for j
      using that bucket_index_before [OF assms(1), of j d] by force
    ultimately have "(LEAST i. d \<le> rs ! i) = ?k" by (rule Least_equality)
    with True show ?thesis by simp
  next
    case False
    have "rs ! i \<le> last rs" if "i < STAT_MAX_NUM_BUCKETS" for i
      using assms that unfolding lst
      by (cases "i = STAT_MAX_NUM_BUCKETS - 1") (auto simp: sorted_wrt_iff_nth_less intro!: less_imp_le)
    then have "\<not> ?k < STAT_MAX_NUM_BUCKETS - 1"
      using bucket_index_at [OF assms(1), of d] False k by force
    with k False show ?thesis by simp
  qed
qed

text \<open>
  C11. The bucket bounds that bm_stat_init computes in double arithmetic fit uint64_t, are 60
  strictly increasing values from 99 to 293990, and bm_stat_add_op files a duration under the
  least bound that is not below it, all longer durations under the last one.
\<close>

theorem bm_stat_init_buckets:
  assumes "bm_stat_init stats num_threads num_ops = Inr stats0"
  shows "length (op_time_ranges stats0) = 60 \<and> sorted_wrt (<) (op_time_ranges stats0) \<and>
    hd (op_time_ranges stats0) = 99 \<and> last (op_time_ranges stats0) = 293990 \<and>
    (\<forall>d. bucket_index (op_time_ranges stats0) d =
       (if d \<le> 293990 then (LEAST i. d \<le> op_time_ranges stats0 ! i) else 59))"
proof -
  have s0: "op_time_ranges stats0 = bucket_table" using assms by (auto simp: bm_stat_init_ok)
  have "last bucket_table = 293990" by (simp add: bucket_table_def)
  then show ?thesis
    using bucket_index_eq_least [OF bucket_table_length bucket_table_sorted] bucket_table_length bucket_table_sorted
    by (simp add: s0 STAT_MAX_NUM_BUCKETS_def) (simp add: bucket_table_def)
qed

theorem bm_stat_init_buckets_witness:
  "\<exists>stats0. bm_stat_init blank_stat 2 3 = Inr stats0 \<and> bucket_index (op_time_ranges stats0) 293991 = 59"
  using bm_stat_init_buckets [OF bm_stat_init_ok [of blank_stat 2 3]] bm_stat_init_ok [of blank_stat 2 3]
  by (simp add: word_le_nat_alt)

section \<open>What is printed\<close>

lemma print_ops_ok:
  "(\<And>i. \<exists>name. op_name i = Inr name) \<Longrightarrow> \<exists>out. print_ops op_name k ss = Inr out"
proof (induction ss arbitrary: k)
  case (Cons s ss)
  then obtain out name where "print_ops op_name (Suc k) ss = Inr out" "op_name k = Inr name" by metis
  then show ?case by simp
qed simp

lemma bm_print_stats_covers:
  assumes rl: "length rng = STAT_MAX_NUM_BUCKETS" and wf: "wf_stat n stats1" and evs: "\<forall>e \<in> set evs. fst (snd e) < n"
    and coll: "\<And>op. op < n \<Longrightarrow> collect_op (s_threads stats1) op = op_summary rng (samples_of op evs)"
    and out: "bm_print_stats stats1 n algo info op_name ticks usage = Inr out"
  shows "set (print_univ (op_summary rng (map (snd \<circ> snd) evs))) \<subseteq> set out \<and>
    set (print_rates stats1 (os_count (op_summary rng (map (snd \<circ> snd) evs))) ticks) \<subseteq> set out"
proof -
  have ops: "map (collect_op (s_threads stats1)) [0..<n] = map (\<lambda>op. op_summary rng (samples_of op evs)) [0..<n]"
    using coll by simp
  have u: "univ_stat (map (collect_op (s_threads stats1)) [0..<n]) =
      (op_summary rng (map (snd \<circ> snd) evs))\<lparr>histogram_data := replicate STAT_MAX_NUM_BUCKETS 0\<rparr>"
    unfolding ops using evs by (intro univ_stat_summary [OF rl]) auto
  show ?thesis
    using out u
    by (auto simp: bm_print_stats_def Let_def print_univ_def op_avg_def op_succ_percent_def split: prod.splits)
qed

lemma bm_print_stats_returns:
  assumes wf: "wf_stat n stats1" and "\<And>i. \<exists>name. op_name i = Inr name"
  shows "\<exists>out. bm_print_stats stats1 n algo info op_name ticks (Inr usage) = Inr out"
proof -
  have "list_all (\<lambda>th. ts_len th = n) (s_threads stats1)"
    using wf by (auto simp: wf_stat_def list_all_length)
  moreover obtain per_op where "print_ops op_name 0 (map (collect_op (s_threads stats1)) [0..<n]) = Inr per_op"
    using print_ops_ok [of op_name, OF assms(2)] by blast
  ultimately show ?thesis by (cases usage) (auto simp: bm_print_stats_def Let_def)
qed

text \<open>
  C8. What is printed covers every sample once: after any sequence of recordings, by any
  threads in any order, bm_print_stats succeeds, the universal figures it prints are those of
  all samples together, and its throughput is computed from their operation count.
\<close>

theorem bm_print_stats_totals:
  assumes "bm_stat_init stats num_threads num_ops = Inr stats0"
    and "\<forall>e \<in> set evs. fst e < num_threads \<and> fst (snd e) < num_ops"
    and "record_all stats0 evs = Inr stats1"
    and "\<And>i. \<exists>name. op_name i = Inr name"
  shows "\<exists>out. bm_print_stats stats1 num_ops algo info op_name ticks (Inr usage) = Inr out \<and>
    set (print_univ (op_summary (op_time_ranges stats0) (map (snd \<circ> snd) evs))) \<subseteq> set out \<and>
    set (print_rates stats1 (sum_list (map (op_count \<circ> fst) (taken (map (snd \<circ> snd) evs)))) ticks) \<subseteq> set out"
proof -
  let ?rng = "op_time_ranges stats0"
  have rl: "length ?rng = STAT_MAX_NUM_BUCKETS"
    using wf_stat_init [OF assms(1)] by (simp add: wf_stat_def)
  obtain wf: "wf_stat num_ops stats1"
    and coll: "\<And>op. op < num_ops \<Longrightarrow> collect_op (s_threads stats1) op = op_summary ?rng (samples_of op evs)"
    using record_all_collects [OF assms(1,2)] assms(3) by auto
  obtain out where out: "bm_print_stats stats1 num_ops algo info op_name ticks (Inr usage) = Inr out"
    using bm_print_stats_returns [of num_ops stats1 op_name, OF wf assms(4)] by blast
  have "os_count (op_summary ?rng xs) = sum_list (map (op_count \<circ> fst) (taken xs))" for xs
    by (simp add: op_summary_def)
  then show ?thesis using bm_print_stats_covers [OF rl wf _ coll out] out assms(2) by auto
qed

theorem bm_print_stats_totals_witness:
  "\<exists>stats0 stats1 out. bm_stat_init blank_stat 2 1 = Inr stats0 \<and> record_all stats0 three_samples = Inr stats1 \<and>
    bm_print_stats stats1 1 ''empty'' [] (\<lambda>_. Inr ''noop'') 2500000 (Inr (0, 0, 0)) = Inr out \<and>
    (''univ_count'', PU 2) \<in> set out \<and> (''univ_min'', PU 70) \<in> set out \<and> (''univ_max'', PU 250) \<in> set out"
proof -
  have evs: "\<forall>e \<in> set three_samples. fst e < 2 \<and> fst (snd e) < 1" by (simp add: three_samples_def)
  note init = bm_stat_init_ok [of blank_stat 2 1]
  from record_all_collects [OF init evs] obtain stats1 where
    run: "record_all (blank_stat\<lparr>s_threads := replicate 2 \<lparr>ts_ops = replicate 1 init_op_stat, ts_len = 1\<rparr>,
        s_len := 2, op_time_ranges := bucket_table\<rparr>) three_samples = Inr stats1" by blast
  have "\<And>i. \<exists>name. (\<lambda>_ :: nat. Inr ''noop'' :: string result) i = Inr name" by simp
  from bm_print_stats_totals [OF init evs run this, of "''empty''" "[]" 2500000 "(0, 0, 0)"] init run show ?thesis
    by (fastforce simp: three_samples_def print_univ_def op_summary_def taken_def)
qed

section \<open>Each thread keeps its own figures\<close>

text \<open>The figures of one operation in one thread's row, and the samples one thread took.\<close>

abbreviation cell :: "bm_stat \<Rightarrow> nat \<Rightarrow> nat \<Rightarrow> bm_op_stat" where
  "cell stats tid op \<equiv> ts_ops (s_threads stats ! tid) ! op"

definition taken_by :: "nat \<Rightarrow> sample list \<Rightarrow> sample list" where
  "taken_by tid evs = filter (\<lambda>e. fst e = tid) evs"

lemma taken_by_simps [simp]:
  "taken_by tid [] = []"
  "taken_by tid (e # evs) = (if fst e = tid then e # taken_by tid evs else taken_by tid evs)"
  by (simp_all add: taken_by_def)

lemma bm_stat_add_op_cell:
  assumes "wf_stat n stats" "t < s_len stats" "op < n" "tid < s_len stats" "j < n"
    and "bm_stat_add_op stats t op r d k = Inr stats'"
  shows "cell stats' tid j =
    (if tid = t \<and> j = op then op_stat_add (op_time_ranges stats) r d k (cell stats tid j) else cell stats tid j)"
  using assms by (auto simp: wf_stat_def list_all_length bm_stat_add_op_def Let_def nth_list_update)

lemma foldl_op_stat_add:
  assumes "length ranges = STAT_MAX_NUM_BUCKETS"
  shows "foldl (\<lambda>s (r, d, k). op_stat_add ranges r d k s) init_op_stat xs = op_summary ranges xs"
  by (induction xs rule: rev_induct) (auto simp: op_summary_nil op_summary_snoc [OF assms])

lemma record_all_cells:
  assumes "wf_stat n stats" and "\<forall>e \<in> set evs. fst e < s_len stats \<and> fst (snd e) < n"
    and "tid < s_len stats" "j < n" and "record_all stats evs = Inr stats'"
  shows "cell stats' tid j = foldl (\<lambda>s (r, d, k). op_stat_add (op_time_ranges stats) r d k s)
    (cell stats tid j) (samples_of j (taken_by tid evs))"
  using assms
proof (induction evs arbitrary: stats)
  case (Cons e evs)
  obtain t op r d k where e: "e = (t, op, r, d, k)" by (cases e)
  with Cons.prems have "t < s_len stats" "op < n" by auto
  from bm_stat_add_op_ok [OF Cons.prems(1) this, of r d k] obtain st where
    st: "bm_stat_add_op stats t op r d k = Inr st" "wf_stat n st" "s_len st = s_len stats"
      "op_time_ranges st = op_time_ranges stats" by blast
  have "record_all st evs = Inr stats'" using Cons.prems(5) st(1) e by simp
  with Cons.IH [OF st(2)] Cons.prems st(3,4)
  have "cell stats' tid j = foldl (\<lambda>s (r, d, k). op_stat_add (op_time_ranges stats) r d k s)
    (cell st tid j) (samples_of j (taken_by tid evs))" by simp
  with bm_stat_add_op_cell [OF Cons.prems(1) \<open>t < s_len stats\<close> \<open>op < n\<close> Cons.prems(3,4) st(1)]
  show ?case using e by auto
qed simp

text \<open>
  C12. The rows belong to the threads: however the recordings of the threads are interleaved, the
  figures in a thread's row are, operation by operation, those of the samples that this thread
  recorded itself: their counts and sums, the least and greatest duration, and the histogram.
\<close>

theorem threads_record_own:
  assumes "bm_stat_init stats num_threads num_ops = Inr stats0"
    and "\<forall>e \<in> set evs. fst e < num_threads \<and> fst (snd e) < num_ops"
  shows "\<exists>stats1. record_all stats0 evs = Inr stats1 \<and>
    (\<forall>tid < num_threads. \<forall>op < num_ops. ts_ops (s_threads stats1 ! tid) ! op =
       op_summary (op_time_ranges stats0) (samples_of op (filter (\<lambda>e. fst e = tid) evs)))"
proof -
  have wf: "wf_stat num_ops stats0" and len: "s_len stats0 = num_threads"
    using wf_stat_init [OF assms(1)] by auto
  have rl: "length (op_time_ranges stats0) = STAT_MAX_NUM_BUCKETS" using wf by (simp add: wf_stat_def)
  have c0: "cell stats0 tid op = init_op_stat" if "tid < num_threads" "op < num_ops" for tid op
    using that assms(1) by (auto simp: bm_stat_init_ok)
  obtain stats1 where "record_all stats0 evs = Inr stats1"
    using record_all_ok [OF wf, of evs] assms(2) len by auto
  with record_all_cells [OF wf] show ?thesis
    using assms(2) len c0 by (auto simp: foldl_op_stat_add [OF rl] taken_by_def)
qed

theorem threads_record_own_witness:
  "\<exists>stats0 stats1. bm_stat_init blank_stat 2 1 = Inr stats0 \<and> record_all stats0 three_samples = Inr stats1 \<and>
    os_max (ts_ops (s_threads stats1 ! 0) ! 0) = 70 \<and> os_succ_count (ts_ops (s_threads stats1 ! 0) ! 0) = 0 \<and>
    os_max (ts_ops (s_threads stats1 ! 1) ! 0) = 250 \<and> os_skipped_count (ts_ops (s_threads stats1 ! 1) ! 0) = 1"
proof -
  note init = bm_stat_init_ok [of blank_stat 2 1]
  have "\<forall>e \<in> set three_samples. fst e < 2 \<and> fst (snd e) < 1" by (simp add: three_samples_def)
  from threads_record_own [OF init this] obtain stats1 where
    run: "record_all (blank_stat\<lparr>s_threads := replicate 2 \<lparr>ts_ops = replicate 1 init_op_stat, ts_len = 1\<rparr>,
      s_len := 2, op_time_ranges := bucket_table\<rparr>) three_samples = Inr stats1"
    and own: "\<And>tid op. tid < 2 \<Longrightarrow> op < 1 \<Longrightarrow> ts_ops (s_threads stats1 ! tid) ! op =
      op_summary bucket_table (samples_of op (filter (\<lambda>e. fst e = tid) three_samples))"
    by auto
  have "ts_ops (s_threads stats1 ! tid) ! 0 =
      op_summary bucket_table (samples_of 0 (filter (\<lambda>e. fst e = tid) three_samples))" if "tid < 2" for tid
    by (rule own [OF that]) simp
  from this [of 0] this [of 1] run init show ?thesis
    by (auto simp: three_samples_def op_summary_def taken_def)
qed

end
