(* ===== verification/CSB_Empty.thy ===== *)
theory CSB_Empty
  imports CSB_Rand CSB_Target
begin

text \<open>
  bench/include/CSB/bm_helper.h (the noise between operations) and bench/targets/bm_empty.h,
  the target that measures the overhead of the skeleton. A \<open>nop\<close> has no effect on the model's
  state; the answers of the stop function are a tape.
\<close>

section \<open>Noise\<close>

definition noise_count ::
  "(u32 \<Rightarrow> u32 \<times> u32) \<Rightarrow> u32 \<Rightarrow> u64 \<Rightarrow> bool \<Rightarrow> u32 \<Rightarrow> (u64 \<times> u32) result" where
  "noise_count rand_r now max_noise random seed =
     (if random
      then bind_r (random_thread_safe_get_next rand_r now 0 (ucast max_noise) seed) (\<lambda>(r, seed'). Inr (ucast r, seed'))
      else Inr (max_noise, seed))"

definition bm_generate_noise ::
  "(u32 \<Rightarrow> u32 \<times> u32) \<Rightarrow> u32 \<Rightarrow> u64 \<Rightarrow> bool \<Rightarrow> u32 \<Rightarrow> (u64 \<times> u32) result" where
  "bm_generate_noise rand_r now max_noise random seed =
     (if max_noise = 0 then Inr (0, seed) else noise_count rand_r now max_noise random seed)"

fun nops_until :: "nat \<Rightarrow> bool list \<Rightarrow> nat result" where
  "nops_until 0 stops = Inr 0"
| "nops_until (Suc n) [] = Inl Starved"
| "nops_until (Suc n) (stop # stops) = (if stop then Inr 0 else bind_r (nops_until n stops) (\<lambda>k. Inr (Suc k)))"

text \<open>The returned number is the one drawn, also when the loop stopped earlier.\<close>

definition bm_generate_noise_interruptible ::
  "(u32 \<Rightarrow> u32 \<times> u32) \<Rightarrow> u32 \<Rightarrow> u64 \<Rightarrow> bool \<Rightarrow> bool list \<Rightarrow> u32 \<Rightarrow> (u64 \<times> nat \<times> u32) result" where
  "bm_generate_noise_interruptible rand_r now max_noise random stops seed =
     (if max_noise = 0 then Inr (0, 0, seed)
      else bind_r (noise_count rand_r now max_noise random seed) (\<lambda>(n, seed').
           bind_r (nops_until (unat n) stops) (\<lambda>executed. Inr (n, executed, seed'))))"

lemma nops_until_le: "nops_until n stops = Inr k \<Longrightarrow> k \<le> n"
  by (induction n stops arbitrary: k rule: nops_until.induct) (auto split: if_splits)

section \<open>The empty target\<close>

definition NOP_PER_OP :: u64 where "NOP_PER_OP = 100"

definition MAX_NAME_LEN :: nat where "MAX_NAME_LEN = 20"

record empty_ctx =
  e_tid :: u64

definition empty_get_op_name :: "nat \<Rightarrow> nat \<Rightarrow> 'w \<Rightarrow> string result" where
  "empty_get_op_name len op_id w = c_assert (len \<ge> MAX_NAME_LEN) (Inr ''op0_nop'')"

definition empty_reg :: "u64 \<Rightarrow> empty_ctx \<Rightarrow> 'w \<Rightarrow> (empty_ctx \<times> 'w) result" where
  "empty_reg tid ctx w = Inr (ctx\<lparr>e_tid := tid\<rparr>, w)"

definition empty_dispatch :: "nat \<Rightarrow> empty_ctx \<Rightarrow> 'w \<Rightarrow> (bm_op_res \<times> empty_ctx \<times> 'w) result" where
  "empty_dispatch op_id ctx w =
     (let res = \<lparr>op_count = 1, succ_count = 1\<rparr>
      in bind_r (bm_generate_noise (\<lambda>s. (0, s)) 0 NOP_PER_OP False 0) (\<lambda>_. Inr (res, ctx, w)))"

definition bm_empty :: "(empty_ctx, 'w) bm_target" where
  "bm_empty = \<lparr>bm_target_get_name = ''bm_empty'', bm_target_op_count = 1,
     bm_target_get_op_name = empty_get_op_name, bm_target_init = (\<lambda>init_size num_threads w. Inr w),
     bm_target_reg = empty_reg, bm_dispatch_operation = empty_dispatch,
     bm_target_dereg = (\<lambda>tid ctx w. Inr (ctx, w)), bm_target_destroy = (\<lambda>num_threads w. Inr w),
     bm_target_extra_info = []\<rparr>"

lemma empty_dispatch_result: "empty_dispatch op ctx w = Inr (\<lparr>op_count = 1, succ_count = 1\<rparr>, ctx, w)"
  by (simp add: empty_dispatch_def bm_generate_noise_def noise_count_def)

interpretation empty: counting_target empty_dispatch "\<lambda>ctx w. True"
  by unfold_locales (auto simp: empty_dispatch_result)

end
