(* ===== verification/CSB_Benchmark.thy ===== *)
theory CSB_Benchmark
  imports CSB_Run_Proofs CSB_Stats_Proofs CSB_Empty
begin

text \<open>
  bench/benchmark.c: the last phases and \<open>main\<close>, and the properties of the whole skeleton,
  for an arbitrary target. \<open>main\<close> is a relation between the command line and what it returns
  and prints, because the measured phase has as many outcomes as the threads have schedules.
\<close>

definition STAT_OP_NAME_MAX_LEN :: nat where
  "STAT_OP_NAME_MAX_LEN = 20"

definition bm_phase_conclude ::
  "('c, 'w) bm_target \<Rightarrow> u64 \<Rightarrow> (u64 \<times> u64 \<times> u64) result \<Rightarrow> 'w bench \<Rightarrow> ((string \<times> pval) list \<times> 'w bench) result" where
  "bm_phase_conclude T ticks usage b =
     bind_r (bm_target_destroy T (ucast (num_threads (g_params b))) (world b)) (\<lambda>w.
     bind_r (bm_print_stats (g_stats b) (bm_target_op_count T) (bm_target_get_name T) (bm_target_extra_info T)
        (\<lambda>op. bm_target_get_op_name T STAT_OP_NAME_MAX_LEN op w) ticks usage) (\<lambda>out.
     Inr (map (\<lambda>(k, v). (k, PU (ucast v))) (bm_print_params (g_params b)) @ out, b\<lparr>world := w\<rparr>)))"

definition bm_phase_cooldown :: "'w bench \<Rightarrow> 'w bench result" where
  "bm_phase_cooldown b = bind_r (bm_stat_destroy (g_stats b)) (\<lambda>stats. Inr (b\<lparr>g_stats := stats\<rparr>))"

text \<open>
  \<open>globals\<close> holds the globals as the process finds them (zeroed, the stop flag false, the
  generator not initialised), the entropy to come and the world outside.
\<close>

inductive main_returns ::
  "(u32 \<Rightarrow> u32 list) \<Rightarrow> ('c, 'w) bm_target \<Rightarrow> 'c \<Rightarrow> clocks \<Rightarrow> u32 list \<Rightarrow> u64 \<Rightarrow> (u64 \<times> u64 \<times> u64) result \<Rightarrow>
     string list \<Rightarrow> 'w bench \<Rightarrow> int \<Rightarrow> (string \<times> pval) list \<Rightarrow> bool"
  for lib T zero_ctx clk junk ticks usage argv globals where
  bad_params: "bm_params_extract argv (g_params globals) (bm_target_op_count T) junk = Inr (err, p) \<Longrightarrow>
     err \<noteq> BM_ERR_NONE \<Longrightarrow> main_returns lib T zero_ctx clk junk ticks usage argv globals (bm_error_code err) []"
| finished: "bm_params_extract argv (g_params globals) (bm_target_op_count T) junk = Inr (BM_ERR_NONE, p) \<Longrightarrow>
     bm_phase_warmup lib T (globals\<lparr>g_params := p\<rparr>) = Inr b \<Longrightarrow>
     reachable T zero_ctx clk b s \<Longrightarrow> main_pc s = M_done \<Longrightarrow>
     bm_phase_conclude T ticks usage (bench s) = Inr (out, b') \<Longrightarrow>
     bm_phase_cooldown b' = Inr b'' \<Longrightarrow>
     main_returns lib T zero_ctx clk junk ticks usage argv globals (bm_error_code BM_ERR_NONE) out"

inductive_cases main_returnsE: "main_returns lib T z clk junk ticks usage argv globals code out"

section \<open>The measured phase\<close>

lemma flow_done:
  assumes "flow s" "main_pc s = M_done"
  shows "sorted (timeline s)"
    "(tid, op, bg, e, r) \<in> set (ops_log s) \<Longrightarrow> duration_max_start_ms s \<le> bg \<and> bg \<le> e \<and> e \<le> duration_max_stop_clk s"
  using assms by (auto simp: flow_def timeline_def list_all_iff log_ok_def dest!: bspec)

lemma timeline_sorted:
  assumes "sorted (timeline s)"
  shows "duration_max_start_clk s \<le> duration_max_start_ms s" "duration_max_start_clk s \<le> duration_min_start_clk s"
    "duration_min_start_clk s \<le> duration_min_stop_clk s" "duration_min_stop_clk s \<le> duration_max_stop_clk s"
    "duration_max_start_ms s \<le> duration_min_start_ms s" "duration_min_start_ms s \<le> duration_min_stop_ms s"
    "duration_min_stop_ms s \<le> duration_max_stop_ms s"
  using assms by (auto simp: timeline_def)

lemma unat_word_of_int_small: "0 \<le> i \<Longrightarrow> i < 2 ^ 64 \<Longrightarrow> unat (of_int i :: u64) = nat i"
  by (simp add: unsigned_of_int take_bit_int_eq_self)

lemma mono_diff_le:
  fixes f :: "nat \<Rightarrow> u64"
  assumes "mono (unat \<circ> f)" "a \<le> b" "b \<le> c" "c \<le> d"
  shows "f c - f b \<le> f d - f a"
proof -
  have "unat (f a) \<le> unat (f b)" "unat (f b) \<le> unat (f c)" "unat (f c) \<le> unat (f d)"
    using assms by (auto simp: mono_def)
  then show ?thesis by (simp add: word_le_nat_alt unat_sub)
qed

lemma recorded_durations:
  assumes "reachable T zero_ctx clk b s" "\<not> g_stop b" "main_pc s = M_done"
  obtains u1 u2 where
    "calc_spent_time (wall clk (duration_min_start_ms s)) (wall clk (duration_min_stop_ms s)) = Inr u1"
    "calc_spent_time (wall clk (duration_max_start_ms s)) (wall clk (duration_max_stop_ms s)) = Inr u2"
    "min_duration_clk (g_stats (bench s)) = tsc clk (duration_min_stop_clk s) - tsc clk (duration_min_start_clk s)"
    "max_duration_clk (g_stats (bench s)) = tsc clk (duration_max_stop_clk s) - tsc clk (duration_max_start_clk s)"
    "min_duration_ms (g_stats (bench s)) = of_int u1" "max_duration_ms (g_stats (bench s)) = of_int u2"
proof -
  obtain stats where "with_durations clk s stats = Inr (g_stats (bench s))"
    using recorded_reachable [OF assms(1,2)] assms(3) by (auto simp: recorded_def)
  then obtain u1 u2 where
    u: "calc_spent_time (wall clk (duration_min_start_ms s)) (wall clk (duration_min_stop_ms s)) = Inr u1"
      "calc_spent_time (wall clk (duration_max_start_ms s)) (wall clk (duration_max_stop_ms s)) = Inr u2"
    and g: "g_stats (bench s) = bm_stat_add_spent_time stats
       (tsc clk (duration_min_stop_clk s) - tsc clk (duration_min_start_clk s))
       (tsc clk (duration_max_stop_clk s) - tsc clk (duration_max_start_clk s)) (of_int u1) (of_int u2)"
    by (auto simp: with_durations_def)
  show ?thesis by (rule that [OF u]) (simp_all add: g bm_stat_add_spent_time_def)
qed

lemma spent_time_order:
  assumes n: "\<And>m. normal_time (w m)" and "mono (nanoseconds \<circ> w)" and "a \<le> b" "b \<le> c" "c \<le> d"
    and u: "calc_spent_time (w b) (w c) = Inr u1" "calc_spent_time (w a) (w d) = Inr u2"
  shows "unat (of_int u1 :: u64) \<le> unat (of_int u2 :: u64) + 1"
proof -
  have ns: "nanoseconds (w i) \<le> nanoseconds (w j)" if "i \<le> j" for i j
    using assms(2) that by (auto simp: mono_def)
  have "nanoseconds (w c) - nanoseconds (w b) \<le> nanoseconds (w d) - nanoseconds (w a)"
    using ns [OF assms(3)] ns [OF assms(5)] by linarith
  then have "u1 \<le> u2 + 1" "0 \<le> u1" "0 \<le> u2"
    using calc_spent_time_bounds [OF n n, of b c] calc_spent_time_bounds [OF n n, of a d] u
      ns [OF assms(4)] ns [of a d] assms(3-5) by (simp_all add: abs_less_iff)
  moreover have "u1 < 2 ^ 63" "u2 < 2 ^ 63" using u by (auto simp: calc_spent_time_def)
  ultimately show ?thesis by (simp add: unat_word_of_int_small)
qed

text \<open>
  C3. The measured intervals are nested and hold every measured operation. When the phase is
  done, the eight readings of the clocks that benchmark.c takes happened in the order of its
  text, the instants of the minimal interval between those of the maximal one, and every
  operation that was measured began after both readings that open the maximal interval and
  ended before both that close it; the durations handed to the statistics are the differences
  of the time stamps read at these instants. Where the time stamp counter is monotone, no
  operation therefore took more ticks than the reported maximal duration, and the minimal
  duration does not exceed the maximal one; where the wall clock (CLOCK_REALTIME, which may be
  set back) is monotone, it does so in microseconds by rounding at most.
\<close>

theorem run_interval_contains_operations:
  assumes "reachable T zero_ctx clk b s" and "main_pc s = M_done" and "\<not> g_stop b"
  shows "sorted [duration_max_start_clk s, duration_max_start_ms s, duration_min_start_clk s, duration_min_start_ms s,
      duration_min_stop_clk s, duration_min_stop_ms s, duration_max_stop_clk s, duration_max_stop_ms s] \<and>
    (\<forall>(tid, op, bg, e, r) \<in> set (ops_log s).
       duration_max_start_ms s \<le> bg \<and> bg \<le> e \<and> e \<le> duration_max_stop_clk s) \<and>
    min_duration_clk (g_stats (bench s)) = tsc clk (duration_min_stop_clk s) - tsc clk (duration_min_start_clk s) \<and>
    max_duration_clk (g_stats (bench s)) = tsc clk (duration_max_stop_clk s) - tsc clk (duration_max_start_clk s) \<and>
    (mono (unat \<circ> tsc clk) \<longrightarrow> min_duration_clk (g_stats (bench s)) \<le> max_duration_clk (g_stats (bench s)) \<and>
      (\<forall>(tid, op, bg, e, r) \<in> set (ops_log s). tsc clk e - tsc clk bg \<le> max_duration_clk (g_stats (bench s)))) \<and>
    ((\<forall>m. normal_time (wall clk m)) \<and> mono (nanoseconds \<circ> wall clk) \<longrightarrow>
      unat (min_duration_ms (g_stats (bench s))) \<le> unat (max_duration_ms (g_stats (bench s))) + 1)"
proof -
  note flow = flow_done [OF flow_reachable [OF assms(1,3)] assms(2)]
  note order = timeline_sorted [OF flow(1)]
  obtain u1 u2 where u: "calc_spent_time (wall clk (duration_min_start_ms s)) (wall clk (duration_min_stop_ms s)) = Inr u1"
      "calc_spent_time (wall clk (duration_max_start_ms s)) (wall clk (duration_max_stop_ms s)) = Inr u2"
    and d: "min_duration_clk (g_stats (bench s)) = tsc clk (duration_min_stop_clk s) - tsc clk (duration_min_start_clk s)"
      "max_duration_clk (g_stats (bench s)) = tsc clk (duration_max_stop_clk s) - tsc clk (duration_max_start_clk s)"
    and ms: "min_duration_ms (g_stats (bench s)) = of_int u1" "max_duration_ms (g_stats (bench s)) = of_int u2"
    by (rule recorded_durations [OF assms(1,3,2)])
  have op: "tsc clk e - tsc clk bg \<le> max_duration_clk (g_stats (bench s))"
    if "mono (unat \<circ> tsc clk)" "(tid, op, bg, e, r) \<in> set (ops_log s)" for tid op bg e r
    unfolding d using mono_diff_le [OF that(1), of "duration_max_start_clk s" bg e] flow(2) [OF that(2)] order(1) by simp
  show ?thesis
    using flow op mono_diff_le [OF _ order(2-4), of "tsc clk"] spent_time_order [OF _ _ order(5-7) u]
    unfolding ms timeline_def by (auto simp: d)
qed

section \<open>A run of the empty benchmark, for the witnesses\<close>

definition demo_params :: bm_params where
  "demo_params = \<lparr>num_threads = 1, init_sz = 0, max_noise = 0, duration = 1, op_dist = [1024], op_dist_len = 1\<rparr>"

definition demo_bench :: "unit bench" where
  "demo_bench = \<lparr>g_stop = False,
     g_stats = blank_stat\<lparr>s_threads := [\<lparr>ts_ops = [init_op_stat], ts_len = 1\<rparr>], s_len := 1, op_time_ranges := bucket_table\<rparr>,
     g_params = demo_params, g_ops = replicate DISTRIBUTION_BOUND 0,
     g_rand = \<lparr>g_rand_initialized = True, entropy = [], rand_tape = []\<rparr>, world = ()\<rparr>"

definition demo_clocks :: clocks where
  "demo_clocks = \<lparr>tsc = (\<lambda>m. of_nat (min m 1000)), wall = (\<lambda>m. \<lparr>tv_sec = 0, tv_nsec = int (min m 1000)\<rparr>)\<rparr>"

definition demo_schedule :: "agent list" where
  "demo_schedule =
     [Main, Main, Main, Main, Thread 0, Main, Main, Main, Thread 0, Clock, Thread 0, Thread 0, Clock, Thread 0,
      Main, Main, Main, Thread 0, Clock, Main, Main, Main, Thread 0, Main]"

lemma demo_clocks_ok:
  "mono (unat \<circ> tsc demo_clocks)" "normal_time (wall demo_clocks m)" "mono (nanoseconds \<circ> wall demo_clocks)"
  by (auto simp: demo_clocks_def mono_def normal_time_def nanoseconds_def unat_of_nat take_bit_nat_eq_self)

lemma demo_run:
  "\<exists>s. exec_schedule bm_empty \<lparr>e_tid = 7\<rparr> demo_clocks demo_schedule (start_phase demo_bench 0) = Some s \<and>
     main_pc s = M_done \<and> length (threads s) = 1 \<and> ops_log s = [(0, 0, 1, 2, \<lparr>op_count = 1, succ_count = 1\<rparr>)]"
  by (simp add: demo_schedule_def start_phase_def exec_step_def bm_phase_run_step_def run_step_def demo_bench_def demo_params_def
      new_thread_def all_at_def release_def set_thread_def bm_empty_def empty_reg_def empty_dispatch_result
      bm_stat_add_op_def op_stat_add_def Let_def add_durations_def demo_clocks_def calc_spent_time_def c_long_def slot_less)


lemma demo_reachable:
  "\<exists>s. reachable bm_empty \<lparr>e_tid = 7\<rparr> demo_clocks demo_bench s \<and>
     main_pc s = M_done \<and> length (threads s) = 1 \<and> ops_log s = [(0, 0, 1, 2, \<lparr>op_count = 1, succ_count = 1\<rparr>)]"
proof -
  from demo_run obtain s where
    s: "exec_schedule bm_empty \<lparr>e_tid = 7\<rparr> demo_clocks demo_schedule (start_phase demo_bench 0) = Some s"
    "main_pc s = M_done" "length (threads s) = 1" "ops_log s = [(0, 0, 1, 2, \<lparr>op_count = 1, succ_count = 1\<rparr>)]" by blast
  show ?thesis using exec_schedule_reachable [OF s(1) reachable.start] s(2-4) by blast
qed

lemma demo_not_stopped: "\<not> g_stop demo_bench"
  by (simp add: demo_bench_def)

theorem run_interval_contains_operations_witness:
  "\<exists>s. reachable bm_empty \<lparr>e_tid = 7\<rparr> demo_clocks demo_bench s \<and> ops_log s = [(0, 0, 1, 2, \<lparr>op_count = 1, succ_count = 1\<rparr>)] \<and>
     duration_max_start_ms s \<le> 1 \<and> 2 \<le> duration_max_stop_clk s \<and> 1 \<le> max_duration_clk (g_stats (bench s)) \<and>
     min_duration_clk (g_stats (bench s)) \<le> max_duration_clk (g_stats (bench s))"
proof -
  obtain s where s: "reachable bm_empty \<lparr>e_tid = 7\<rparr> demo_clocks demo_bench s" "main_pc s = M_done"
    "ops_log s = [(0, 0, 1, 2, \<lparr>op_count = 1, succ_count = 1\<rparr>)]" using demo_reachable by blast
  have "tsc demo_clocks 2 - tsc demo_clocks 1 = 1" by (simp add: demo_clocks_def)
  with run_interval_contains_operations [OF s(1,2) demo_not_stopped] demo_clocks_ok(1) s show ?thesis by auto
qed

section \<open>The schedule of a thread\<close>

lemma ops_of_thread_planned:
  assumes "reachable T z clk b s" "\<not> g_stop b" "tid < length (threads s)"
  shows "ops_of tid (ops_log s) = map (planned b tid) [0..<length (ops_of tid (ops_log s))]"
  using on_plan_reachable [OF assms(1,2)] assms(3) by (simp add: on_plan_def thread_on_plan_def Let_def)

lemma count_image_inj: "inj f \<Longrightarrow> count (image_mset f M) (f x) = count M x"
  by (induction M) (auto simp: inj_eq)

lemma warmup_window:
  assumes "bm_phase_warmup lib T globals = Inr b" "wf_params (g_params globals)" "j < op_dist_len (g_params globals)"
  shows "count_list (map (planned b tid) [k..<k + DISTRIBUTION_BOUND]) j = unat (op_dist (g_params globals) ! j)"
proof -
  have w: "length (g_ops b) = DISTRIBUTION_BOUND"
    "count (mset (g_ops b)) (of_nat j) = unat (op_dist (g_params globals) ! j)"
    using warmup_distribution [OF assms(1,2)] assms(3) by auto
  have "count_list (map (planned b tid) [k..<k + DISTRIBUTION_BOUND]) j = count (image_mset unat (mset (g_ops b))) j"
    using planned_window [OF w(1), of tid k] by (metis count_mset)
  also have "\<dots> = count (image_mset unat (mset (g_ops b))) (unat (of_nat j :: u64))"
    using assms(2,3) by (simp add: wf_params_def unat_of_nat take_bit_nat_eq_self)
  also have "\<dots> = count (mset (g_ops b)) (of_nat j)"
    by (rule count_image_inj) (simp add: inj_on_def word_unat_eq_iff)
  finally show ?thesis using w(2) by simp
qed

text \<open>
  C2. Fair share: after a warm-up, what a thread has run in any reachable state is a prefix of
  its plan, and any 1024 consecutive operations of the plan contain each operation exactly as
  often as its share of the distribution says, wherever the thread starts and also where its
  counter wraps.
\<close>

theorem thread_runs_distribution:
  assumes "bm_phase_warmup lib T globals = Inr b" and "wf_params (g_params globals)" and "\<not> g_stop globals"
    and "reachable T zero_ctx clk b s" and "tid < length (threads s)" and "j < op_dist_len (g_params globals)"
  shows "ops_of tid (ops_log s) = map (planned b tid) [0..<length (ops_of tid (ops_log s))] \<and>
    (\<forall>k. count_list (map (planned b tid) [k..<k + DISTRIBUTION_BOUND]) j = unat (op_dist (g_params globals) ! j))"
proof -
  have "\<not> g_stop b" using assms(1,3) by (auto simp: bm_phase_warmup_def Let_def)
  then show ?thesis
    using ops_of_thread_planned [OF assms(4) _ assms(5)] warmup_window [OF assms(1,2,6)] by blast
qed

section \<open>The program runs to completion\<close>

lemma warmup_can_run:
  assumes "bm_phase_warmup lib T globals = Inr b" "wf_params (g_params globals)" "\<not> g_stop globals"
    and "op_dist_len (g_params globals) = bm_target_op_count T" "\<And>m. normal_time (wall clk m)"
  shows "can_run T clk b"
proof -
  from assms(1) have "bm_stat_init (g_stats globals) (unat (num_threads (g_params globals))) (bm_target_op_count T) = Inr (g_stats b)"
    and "g_stop b = g_stop globals" "g_params b = g_params globals"
    by (auto simp: bm_phase_warmup_def Let_def)
  then show ?thesis
    using warmup_distribution [OF assms(1,2)] wf_stat_init assms(3-5) by (auto simp: can_run_def)
qed

text \<open>Globals of a process whose entropy source delivers all slots in turn.\<close>

definition demo_globals :: "unit bench" where
  "demo_globals = \<lparr>g_stop = False, g_stats = blank_stat, g_params = demo_params, g_ops = [],
     g_rand = \<lparr>g_rand_initialized = False, entropy = concat (replicate DISTRIBUTION_BOUND (map (Some \<circ> of_nat) [0..<DISTRIBUTION_BOUND])),
       rand_tape = []\<rparr>, world = ()\<rparr>"

lemma demo_covers: "covers (map (Some \<circ> of_nat) [0..<DISTRIBUTION_BOUND])"
proof -
  have "\<exists>x. Some x \<in> set (map (Some \<circ> of_nat) [0..<DISTRIBUTION_BOUND]) \<and> unat (x :: u32) mod 1024 = k"
    if "k < DISTRIBUTION_BOUND" for k
    using that by (intro exI [of _ "of_nat k"]) (auto simp: DISTRIBUTION_BOUND_def unat_of_nat take_bit_nat_eq_self)
  then show ?thesis by (auto simp: covers_def)
qed

lemma demo_wf: "wf_params (g_params demo_globals)" "\<not> g_stop demo_globals"
  "op_dist_len (g_params demo_globals) = bm_target_op_count (bm_empty :: (empty_ctx, unit) bm_target)"
  by (simp_all add: demo_globals_def demo_params_def wf_params_def bm_empty_def)

lemma demo_warmup: "\<exists>b. bm_phase_warmup (\<lambda>_. []) bm_empty demo_globals = Inr b"
  by (rule bm_phase_warmup_ok [OF demo_wf(1) _ _ _ _ _ _ bm_stat_init_ok,
      where blocks = "replicate DISTRIBUTION_BOUND (map (Some \<circ> of_nat) [0..<DISTRIBUTION_BOUND])" and w = "()"])
    (simp_all add: demo_globals_def demo_params_def total_dist_def DISTRIBUTION_BOUND_def bm_empty_def
      list_all_iff demo_covers [unfolded DISTRIBUTION_BOUND_def])

lemma bm_empty_never_aborts: "never_aborts bm_empty"
  by (simp add: never_aborts_def bm_empty_def empty_reg_def empty_dispatch_result)

theorem thread_runs_distribution_witness:
  "\<exists>b s. bm_phase_warmup (\<lambda>_. []) bm_empty demo_globals = Inr b \<and>
     reachable bm_empty \<lparr>e_tid = 7\<rparr> demo_clocks b s \<and> count_list (map (planned b 0) [5..<5 + DISTRIBUTION_BOUND]) 0 = 1024"
proof -
  obtain b where b: "bm_phase_warmup (\<lambda>_. []) bm_empty demo_globals = Inr b" using demo_warmup by blast
  let ?s = "start_phase b 0 :: (empty_ctx, unit) phase"
  have p: "num_threads (g_params b) = 1"
    using warmup_distribution [OF b demo_wf(1)] by (simp add: demo_globals_def demo_params_def)
  have r: "reachable bm_empty \<lparr>e_tid = 7\<rparr> demo_clocks b (?s\<lparr>threads := threads ?s @ [new_thread \<lparr>e_tid = 7\<rparr>]\<rparr>)"
    by (rule reachable.step [OF reachable.start phase_step.main]) (simp add: bm_phase_run_step_def start_phase_def p)
  from thread_runs_distribution [OF b demo_wf(1,2) r, of 0 0] b r show ?thesis
    by (auto simp: start_phase_def demo_globals_def demo_params_def)
qed

text \<open>
  C4. No deadlock and no abort: when the target's calls return, the process can go on from
  every reachable state of the measured phase to its end.
\<close>

theorem run_can_always_finish:
  assumes "bm_phase_warmup lib T globals = Inr b" and "wf_params (g_params globals)" and "\<not> g_stop globals"
    and "op_dist_len (g_params globals) = bm_target_op_count T" and "never_aborts T"
    and "\<And>m. normal_time (wall clk m)" and "reachable T zero_ctx clk b s"
  shows "\<exists>s'. (phase_step T zero_ctx clk)\<^sup>*\<^sup>* s s' \<and> main_pc s' = M_done"
  using any.phase_can_finish [OF warmup_can_run [OF assms(1-4,6)] assms(7,5)] by blast


theorem run_can_always_finish_witness:
  "\<exists>b s'. bm_phase_warmup (\<lambda>_. []) bm_empty demo_globals = Inr b \<and>
     (phase_step bm_empty \<lparr>e_tid = 7\<rparr> demo_clocks)\<^sup>*\<^sup>* (start_phase b 0) s' \<and> main_pc s' = M_done"
proof -
  obtain b where b: "bm_phase_warmup (\<lambda>_. []) bm_empty demo_globals = Inr b" using demo_warmup by blast
  from run_can_always_finish [OF b demo_wf bm_empty_never_aborts demo_clocks_ok(2) reachable.start] b
  show ?thesis by blast
qed

section \<open>The whole program\<close>

lemma with_durations_frame:
  "with_durations clk s st = Inr st' \<Longrightarrow> s_threads st' = s_threads st \<and> wf_stat n st' = wf_stat n st"
  by (auto simp: with_durations_def bm_stat_add_spent_time_def wf_stat_def)

lemma wf_stat_done:
  assumes "reachable T z clk b s" "\<not> g_stop b" "wf_stat n (g_stats b)" "main_pc s = M_done"
  shows "wf_stat n (g_stats (bench s))"
  using recorded_reachable [OF assms(1,2)] record_all_wf [OF _ assms(3)] with_durations_frame assms(4)
  by (metis recorded_def)

lemma samples_in_range:
  assumes "reachable T z clk b s" "\<not> g_stop b" "wf_stat n (g_stats b)" "s_len (g_stats b) = m"
  shows "\<forall>e \<in> set (samples clk (ops_log s)). fst e < m \<and> fst (snd e) < n"
  using recorded_reachable [OF assms(1,2)] record_all_wf [OF _ assms(3)] assms(4) by (auto simp: recorded_def)

text \<open>A target whose calls outside the measured phase return as well.\<close>

definition always_returns :: "('c, 'w) bm_target \<Rightarrow> bool" where
  "always_returns T \<longleftrightarrow> never_aborts T \<and> (\<forall>a n w. \<exists>w'. bm_target_init T a n w = Inr w') \<and>
     (\<forall>n w. \<exists>w'. bm_target_destroy T n w = Inr w') \<and>
     (\<forall>op w. \<exists>name. bm_target_get_op_name T STAT_OP_NAME_MAX_LEN op w = Inr name)"

lemma conclude_returns:
  assumes "always_returns T" "wf_stat (bm_target_op_count T) (g_stats b)"
  shows "\<exists>out b'. bm_phase_conclude T ticks (Inr usage) b = Inr (out, b') \<and> g_stats b' = g_stats b"
proof -
  obtain w where w: "bm_target_destroy T (ucast (num_threads (g_params b))) (world b) = Inr w"
    using assms(1) by (meson always_returns_def)
  have "\<exists>name. bm_target_get_op_name T STAT_OP_NAME_MAX_LEN op w = Inr name" for op
    using assms(1) by (simp add: always_returns_def)
  from bm_print_stats_returns [of _ _ "\<lambda>op. bm_target_get_op_name T STAT_OP_NAME_MAX_LEN op w", OF assms(2) this]
  show ?thesis using w by (fastforce simp: bm_phase_conclude_def)
qed

lemma main_returns_canonical:
  assumes globals: "g_params globals = zero_params" "\<not> g_stop globals" "\<not> g_rand_initialized (g_rand globals)"
    and p: "wf_params p" "bm_are_params_set p" "op_dist_len p = bm_target_op_count T"
    and args: "mset as = mset (canonical_args p)" "length junk = op_dist_len p"
    and total: "total_dist (op_dist p) = of_nat DISTRIBUTION_BOUND"
    and entropy: "entropy (g_rand globals) = concat blocks" "list_all covers blocks" "length blocks = DISTRIBUTION_BOUND"
    and T: "always_returns T" and clk: "\<And>m. normal_time (wall clk m)"
  shows "\<exists>out. main_returns lib T zero_ctx clk junk ticks (Inr usage) (prog # as) globals 0 out"
proof -
  let ?g = "globals\<lparr>g_params := p\<rparr>"
  have ex: "bm_params_extract (prog # as) (g_params globals) (bm_target_op_count T) junk = Inr (BM_ERR_NONE, p)"
    using params_roundtrip [OF p(1,2) args, of prog] globals(1) p(3) by simp
  obtain w where "bm_target_init T (ucast (init_sz p)) (ucast (num_threads p)) (world globals) = Inr w"
    using T by (meson always_returns_def)
  then obtain b where b: "bm_phase_warmup lib T ?g = Inr b"
    using bm_phase_warmup_ok [of ?g blocks T w, OF _ _ _ _ entropy(2,3) _ bm_stat_init_ok] p(1) total entropy(1) globals(3) by auto
  have run: "can_run T clk b"
    using warmup_can_run [OF b _ _ _ clk] p globals(2) T by (simp add: always_returns_def)
  have "never_aborts T" using T by (simp add: always_returns_def)
  then obtain s where s: "reachable T zero_ctx clk b s" "main_pc s = M_done"
    using any.phase_can_finish [OF run reachable.start] by blast
  have wf: "wf_stat (bm_target_op_count T) (g_stats (bench s))"
    using wf_stat_done [OF s(1) _ _ s(2)] run by (simp add: can_run_def)
  from conclude_returns [OF T wf] obtain out b' where out: "bm_phase_conclude T ticks (Inr usage) (bench s) = Inr (out, b')"
    "g_stats b' = g_stats (bench s)" by blast
  then have "\<exists>b''. bm_phase_cooldown b' = Inr b''"
    using wf by (simp add: bm_phase_cooldown_def bm_stat_destroy_def wf_stat_def)
  with main_returns.finished [OF ex b s out(1)] show ?thesis by auto
qed

text \<open>
  C6. main can return 0: on such a command line, when the shares add up to 1024, the entropy
  source hits every slot 1024 times over and the target's calls return, the program has a run
  to completion.
\<close>

theorem main_can_return:
  assumes "g_params globals = zero_params" and "\<not> g_stop globals" and "\<not> g_rand_initialized (g_rand globals)"
    and "wf_params p" and "bm_are_params_set p" and "op_dist_len p = bm_target_op_count T"
    and "mset as = mset (canonical_args p)" and "length junk = op_dist_len p"
    and "total_dist (op_dist p) = of_nat DISTRIBUTION_BOUND"
    and "entropy (g_rand globals) = concat blocks" and "list_all covers blocks" and "length blocks = DISTRIBUTION_BOUND"
    and "always_returns T" and "\<And>m. normal_time (wall clk m)"
  shows "\<exists>out. main_returns lib T zero_ctx clk junk ticks (Inr usage) (prog # as) globals 0 out"
  using assms by (rule main_returns_canonical)

lemma bm_empty_always_returns: "always_returns bm_empty"
  using bm_empty_never_aborts
  by (simp add: always_returns_def bm_empty_def empty_get_op_name_def MAX_NAME_LEN_def STAT_OP_NAME_MAX_LEN_def)

lemma demo_args:
  "wf_params demo_params" "bm_are_params_set demo_params" "length [5 :: u32] = op_dist_len demo_params"
  "mset [''-t=1'', ''-op0=1024'', ''-s=0'', ''-d=1'', ''-n=0''] = mset (canonical_args demo_params)"
  "op_dist_len demo_params = bm_target_op_count (bm_empty :: (empty_ctx, unit) bm_target)"
  "total_dist (op_dist demo_params) = of_nat DISTRIBUTION_BOUND"
  by (simp_all add: demo_params_def wf_params_def bm_are_params_set_def PARAM_VAL_NONE_def canonical_args_def arg_t_def
      arg_n_def arg_d_def arg_s_def arg_op_def decimal.simps upt_rec bm_empty_def total_dist_def DISTRIBUTION_BOUND_def)

lemma demo_entropy:
  "entropy (g_rand (demo_globals\<lparr>g_params := zero_params\<rparr>)) =
     concat (replicate DISTRIBUTION_BOUND (map (Some \<circ> of_nat) [0..<DISTRIBUTION_BOUND]))"
  "list_all covers (replicate DISTRIBUTION_BOUND (map (Some \<circ> of_nat) [0..<DISTRIBUTION_BOUND]))"
  "g_params (demo_globals\<lparr>g_params := zero_params\<rparr>) = zero_params" "\<not> g_stop (demo_globals\<lparr>g_params := zero_params\<rparr>)"
  "\<not> g_rand_initialized (g_rand (demo_globals\<lparr>g_params := zero_params\<rparr>))"
  using demo_covers by (simp_all add: demo_globals_def list_all_iff)

theorem main_can_return_witness:
  "\<exists>out. main_returns (\<lambda>_. []) bm_empty \<lparr>e_tid = 7\<rparr> demo_clocks [5] 2500 (Inr (1, 2, 3))
     (''bench'' # [''-t=1'', ''-op0=1024'', ''-s=0'', ''-d=1'', ''-n=0'']) (demo_globals\<lparr>g_params := zero_params\<rparr>) 0 out"
  by (rule main_can_return [OF demo_entropy(3-5) demo_args(1,2,5,4,3,6) demo_entropy(1,2) _ bm_empty_always_returns demo_clocks_ok(2)])
    simp

lemma conclude_report:
  assumes w: "bm_phase_warmup lib T globals = Inr b" and "\<not> g_stop globals"
    and r: "reachable T zero_ctx clk b s" "main_pc s = M_done"
    and out: "bm_phase_conclude T ticks usage (bench s) = Inr (out, b')"
  shows "set (print_univ (op_summary (op_time_ranges (g_stats b)) (map (snd \<circ> snd) (samples clk (ops_log s))))) \<subseteq> set out"
    and "\<forall>(tid, op, bg, e, r) \<in> set (ops_log s). tid < unat (num_threads (g_params globals)) \<and> op < bm_target_op_count T \<and>
       duration_max_start_clk s \<le> bg \<and> bg \<le> e \<and> e \<le> duration_max_stop_clk s"
proof -
  let ?n = "bm_target_op_count T" and ?log = "samples clk (ops_log s)"
  have init: "bm_stat_init (g_stats globals) (unat (num_threads (g_params globals))) ?n = Inr (g_stats b)" and stop: "\<not> g_stop b"
    using w assms(2) by (auto simp: bm_phase_warmup_def Let_def)
  have wf: "wf_stat ?n (g_stats b)" "s_len (g_stats b) = unat (num_threads (g_params globals))"
    using wf_stat_init [OF init] by auto
  note rng = samples_in_range [OF r(1) stop wf]
  obtain stats where rec: "record_all (g_stats b) ?log = Inr stats" and dur: "with_durations clk s stats = Inr (g_stats (bench s))"
    using recorded_reachable [OF r(1) stop] r(2) by (auto simp: recorded_def)
  have ths: "s_threads (g_stats (bench s)) = s_threads stats" "wf_stat ?n (g_stats (bench s))"
    using with_durations_frame [OF dur] record_all_wf [OF rec wf(1)] by auto
  have coll: "collect_op (s_threads (g_stats (bench s))) op = op_summary (op_time_ranges (g_stats b)) (samples_of op ?log)"
    if "op < ?n" for op
    using record_all_collects [OF init, of ?log] rng rec that by (simp add: ths)
  obtain w1 printed where pr: "bm_print_stats (g_stats (bench s)) ?n (bm_target_get_name T) (bm_target_extra_info T)
      (\<lambda>op. bm_target_get_op_name T STAT_OP_NAME_MAX_LEN op w1) ticks usage = Inr printed" "set printed \<subseteq> set out"
    using out by (auto simp: bm_phase_conclude_def)
  have "length (op_time_ranges (g_stats b)) = STAT_MAX_NUM_BUCKETS" using wf by (simp add: wf_stat_def)
  from bm_print_stats_covers [OF this ths(2) _ coll pr(1)] rng pr(2)
  show "set (print_univ (op_summary (op_time_ranges (g_stats b)) (map (snd \<circ> snd) ?log))) \<subseteq> set out" by blast
  have "tid < unat (num_threads (g_params globals)) \<and> op < ?n \<and> duration_max_start_clk s \<le> bg \<and> bg \<le> e \<and> e \<le> duration_max_stop_clk s"
    if "(tid, op, bg, e, r) \<in> set (ops_log s)" for tid op bg e r
    using rng that flow_done(2) [OF flow_reachable [OF r(1) stop] r(2) that]
      timeline_sorted(1) [OF flow_done(1) [OF flow_reachable [OF r(1) stop] r(2)]] by (auto simp: samples_def)
  then show "\<forall>(tid, op, bg, e, r) \<in> set (ops_log s). tid < unat (num_threads (g_params globals)) \<and> op < ?n \<and>
       duration_max_start_clk s \<le> bg \<and> bg \<le> e \<and> e \<le> duration_max_stop_clk s" by (auto split: prod.splits)
qed

text \<open>
  C1. End to end: on a command line that spells a parameter set, in any order, main returns 0
  and what it prints are the figures of exactly the operations that the threads of some run of
  the measured phase have completed, each counted once, all of them between the readings of
  the clock that bound the maximal duration.
\<close>

theorem main_reports_the_run:
  assumes "main_returns lib T zero_ctx clk junk ticks usage (prog # as) globals code out"
    and "g_params globals = zero_params" and "\<not> g_stop globals"
    and "wf_params p" and "bm_are_params_set p" and "op_dist_len p = bm_target_op_count T"
    and "mset as = mset (canonical_args p)" and "length junk = op_dist_len p"
  shows "code = 0 \<and> (\<exists>b s. bm_phase_warmup lib T (globals\<lparr>g_params := p\<rparr>) = Inr b \<and>
    reachable T zero_ctx clk b s \<and> main_pc s = M_done \<and>
    set (print_univ (op_summary (op_time_ranges (g_stats b)) (map (snd \<circ> snd) (samples clk (ops_log s))))) \<subseteq> set out \<and>
    (\<forall>(tid, op, bg, e, r) \<in> set (ops_log s). tid < unat (num_threads p) \<and> op < op_dist_len p \<and>
       duration_max_start_clk s \<le> bg \<and> bg \<le> e \<and> e \<le> duration_max_stop_clk s))"
proof -
  have ex: "bm_params_extract (prog # as) (g_params globals) (bm_target_op_count T) junk = Inr (BM_ERR_NONE, p)"
    using params_roundtrip [OF assms(4,5,7,8), of prog] assms(2,6) by simp
  from assms(1) show ?thesis
  proof (cases rule: main_returns.cases)
    case (bad_params err q)
    with ex show ?thesis by simp
  next
    case (finished q b s b' b'')
    with ex have q: "q = p" by simp
    have "\<not> g_stop (globals\<lparr>g_params := q\<rparr>)" using assms(3) by simp
    from conclude_report [OF finished(3) this finished(4-6)] finished(1,3-5) q assms(6) show ?thesis by auto
  qed
qed

theorem main_reports_the_run_witness:
  "\<exists>(b :: unit bench) s out. main_returns (\<lambda>_. []) bm_empty \<lparr>e_tid = 7\<rparr> demo_clocks [5] 2500 (Inr (1, 2, 3))
     (''bench'' # [''-t=1'', ''-op0=1024'', ''-s=0'', ''-d=1'', ''-n=0'']) (demo_globals\<lparr>g_params := zero_params\<rparr>) 0 out \<and>
     reachable bm_empty \<lparr>e_tid = 7\<rparr> demo_clocks b s \<and> main_pc s = M_done \<and>
     set (print_univ (op_summary (op_time_ranges (g_stats b)) (map (snd \<circ> snd) (samples demo_clocks (ops_log s))))) \<subseteq> set out"
proof -
  obtain out where m: "main_returns (\<lambda>_. []) bm_empty \<lparr>e_tid = 7\<rparr> demo_clocks [5] 2500 (Inr (1, 2, 3))
     (''bench'' # [''-t=1'', ''-op0=1024'', ''-s=0'', ''-d=1'', ''-n=0'']) (demo_globals\<lparr>g_params := zero_params\<rparr>) 0 out"
    using main_returns_canonical [OF demo_entropy(3-5) demo_args(1,2,5,4,3,6) demo_entropy(1,2) _ bm_empty_always_returns demo_clocks_ok(2)]
    by fastforce
  note r = main_reports_the_run [OF m demo_entropy(3,4) demo_args(1,2,5,4,3)]
  from r [THEN conjunct2] m show ?thesis by blast
qed

end
