(* ===== verification/CSB_Launcher.thy ===== *)
theory CSB_Launcher
  imports CSB_Prelude
begin

text \<open>
  bench/include/CSB/thread_launcher.h: threads that are created one by one, bound to cores,
  and released together by the flag \<open>g_go\<close>. The state of one launch is a record, its steps
  are those of the launching thread and of each launched one, in any interleaving. The
  function that the threads run is arbitrary: it is entered and at some time returns.
  \<open>entered\<close> is not in the code: it lists the thread ids in the order the function is entered.
\<close>

text \<open>
  \<open>get_nprocs\<close> and \<open>sched_setaffinity\<close> are answers of the system; a negative answer of the
  latter fails the assertion. The result is the core the thread is bound to.
\<close>

definition set_cpu_affinity :: "int \<Rightarrow> (nat \<Rightarrow> int) \<Rightarrow> nat \<Rightarrow> nat result" where
  "set_cpu_affinity nprocs sched_setaffinity target_cpu =
     (if (of_int nprocs :: u32) = 0 then Inl Undefined
      else let core = target_cpu mod unat (of_int nprocs :: u32)
           in c_assert (\<not> sched_setaffinity core < 0) (Inr core))"

datatype launched_pc = L_affinity | L_wait_go | L_fun | L_returned

record launched =
  l_id :: nat
  assign_me_to_core :: bool
  l_pc :: launched_pc
  l_core :: "nat option"

datatype launcher_pc = LM_create nat | LM_go | LM_sleep | LM_stop | LM_stop_time | LM_join nat | LM_done

record launch =
  g_go :: bool
  stop_flag :: bool
  lm_pc :: launcher_pc
  launched :: "launched list"
  now :: nat
  stop_time :: nat
  entered :: "nat list"

definition GIVE_START_SIGNAL :: "launch \<Rightarrow> launch" where
  "GIVE_START_SIGNAL s = s\<lparr>g_go := True\<rparr>"

text \<open>\<open>RESET_START_SIGNAL\<close> expands to a load of the flag.\<close>

definition RESET_START_SIGNAL :: "launch \<Rightarrow> bool \<times> launch" where
  "RESET_START_SIGNAL s = (g_go s, s)"

text \<open>One step of \<open>common_run\<close>; \<open>None\<close> while the thread spins or after it has returned.\<close>

definition common_run_step :: "int \<Rightarrow> (nat \<Rightarrow> int) \<Rightarrow> nat \<Rightarrow> launch \<Rightarrow> launch result option" where
  "common_run_step nprocs setaff i s =
     (let t = launched s ! i; put = (\<lambda>t'. s\<lparr>launched := (launched s)[i := t']\<rparr>) in
      case l_pc t of
        L_affinity \<Rightarrow> Some (if assign_me_to_core t
            then bind_r (set_cpu_affinity nprocs setaff (l_id t)) (\<lambda>core. Inr (put (t\<lparr>l_core := Some core, l_pc := L_wait_go\<rparr>)))
            else Inr (put (t\<lparr>l_pc := L_wait_go\<rparr>)))
      | L_wait_go \<Rightarrow> if g_go s then Some (Inr ((put (t\<lparr>l_pc := L_fun\<rparr>))\<lparr>entered := entered s @ [l_id t]\<rparr>)) else None
      | L_fun \<Rightarrow> Some (Inr (put (t\<lparr>l_pc := L_returned\<rparr>)))
      | L_returned \<Rightarrow> None)"

text \<open>
  One step of \<open>launch_threads\<close> (\<open>stop_them\<close> false) or \<open>launch_threads_and_stop_them\<close>:
  \<open>create_threads\<close>, then for the latter \<open>sleep\<close>, the stop flag and the time of it, then
  \<open>await_threads\<close>, which joins the threads in order.
\<close>

definition launcher_step :: "bool \<Rightarrow> bool \<Rightarrow> nat \<Rightarrow> launch \<Rightarrow> launch option" where
  "launcher_step stop_them bnd n s =
     (case lm_pc s of
        LM_create i \<Rightarrow> Some (if i < n
          then s\<lparr>launched := launched s @ [\<lparr>l_id = i, assign_me_to_core = bnd, l_pc = L_affinity, l_core = None\<rparr>],
                 lm_pc := LM_create (Suc i)\<rparr>
          else s\<lparr>lm_pc := LM_go\<rparr>)
      | LM_go \<Rightarrow> Some ((GIVE_START_SIGNAL s)\<lparr>lm_pc := if stop_them then LM_sleep else LM_join 0\<rparr>)
      | LM_sleep \<Rightarrow> Some (s\<lparr>lm_pc := LM_stop\<rparr>)
      | LM_stop \<Rightarrow> Some (s\<lparr>stop_flag := True, lm_pc := LM_stop_time\<rparr>)
      | LM_stop_time \<Rightarrow> Some (s\<lparr>stop_time := now s, lm_pc := LM_join 0\<rparr>)
      | LM_join i \<Rightarrow> if i < n
          then (if l_pc (launched s ! i) = L_returned then Some (s\<lparr>lm_pc := LM_join (Suc i)\<rparr>) else None)
          else Some (s\<lparr>lm_pc := LM_done\<rparr>)
      | LM_done \<Rightarrow> None)"

definition launch_start :: "bool \<Rightarrow> nat \<Rightarrow> launch" where
  "launch_start go m = \<lparr>g_go = go, stop_flag = False, lm_pc = LM_create 0, launched = [], now = m, stop_time = 0, entered = []\<rparr>"

inductive launch_reachable :: "int \<Rightarrow> (nat \<Rightarrow> int) \<Rightarrow> bool \<Rightarrow> bool \<Rightarrow> nat \<Rightarrow> bool \<Rightarrow> launch \<Rightarrow> bool"
  for nprocs setaff stop_them bnd n go where
  start: "launch_reachable nprocs setaff stop_them bnd n go (launch_start go m)"
| tick: "launch_reachable nprocs setaff stop_them bnd n go s \<Longrightarrow>
    launch_reachable nprocs setaff stop_them bnd n go (s\<lparr>now := Suc (now s)\<rparr>)"
| launcher: "launch_reachable nprocs setaff stop_them bnd n go s \<Longrightarrow> launcher_step stop_them bnd n s = Some s' \<Longrightarrow>
    launch_reachable nprocs setaff stop_them bnd n go s'"
| launched: "launch_reachable nprocs setaff stop_them bnd n go s \<Longrightarrow> i < length (launched s) \<Longrightarrow>
    common_run_step nprocs setaff i s = Some (Inr s') \<Longrightarrow> launch_reachable nprocs setaff stop_them bnd n go s'"

section \<open>The invariant\<close>

text \<open>How many threads exist while the launcher is at a point.\<close>

fun created_at :: "nat \<Rightarrow> launcher_pc \<Rightarrow> nat" where
  "created_at n (LM_create i) = i"
| "created_at n _ = n"

fun signalled_at :: "launcher_pc \<Rightarrow> bool" where
  "signalled_at (LM_create i) = False"
| "signalled_at LM_go = False"
| "signalled_at _ = True"

fun joined_at :: "nat \<Rightarrow> launcher_pc \<Rightarrow> nat" where
  "joined_at n (LM_join i) = i"
| "joined_at n LM_done = n"
| "joined_at n _ = 0"

definition has_entered :: "launched \<Rightarrow> bool" where
  "has_entered t \<longleftrightarrow> l_pc t = L_fun \<or> l_pc t = L_returned"

definition launched_ok :: "int \<Rightarrow> bool \<Rightarrow> bool \<Rightarrow> nat \<Rightarrow> nat \<Rightarrow> launched \<Rightarrow> bool" where
  "launched_ok nprocs bnd go_flag joined i t \<longleftrightarrow> l_id t = i \<and> assign_me_to_core t = bnd \<and>
     (has_entered t \<longrightarrow> go_flag) \<and> (i < joined \<longrightarrow> l_pc t = L_returned) \<and>
     (bnd \<and> l_pc t \<noteq> L_affinity \<longrightarrow> l_core t = Some (i mod unat (of_int nprocs :: u32)))"

definition entered_ids :: "launched list \<Rightarrow> nat set" where
  "entered_ids ts = {i. i < length ts \<and> has_entered (ts ! i)}"

definition launch_inv :: "int \<Rightarrow> bool \<Rightarrow> nat \<Rightarrow> bool \<Rightarrow> launch \<Rightarrow> bool" where
  "launch_inv nprocs bnd n go s \<longleftrightarrow>
     length (launched s) = created_at n (lm_pc s) \<and> created_at n (lm_pc s) \<le> n \<and> joined_at n (lm_pc s) \<le> n \<and>
     g_go s = (go \<or> signalled_at (lm_pc s)) \<and>
     (\<forall>i < length (launched s). launched_ok nprocs bnd (g_go s) (joined_at n (lm_pc s)) i (launched s ! i)) \<and>
     distinct (entered s) \<and> set (entered s) = entered_ids (launched s)"

lemma launch_inv_start: "launch_inv nprocs bnd n go (launch_start go m)"
  by (simp add: launch_inv_def launch_start_def entered_ids_def)

lemma launch_inv_tick: "launch_inv nprocs bnd n go s \<Longrightarrow> launch_inv nprocs bnd n go (s\<lparr>now := Suc (now s)\<rparr>)"
  by (clarsimp simp: launch_inv_def)

lemma entered_ids_append: "\<not> has_entered t \<Longrightarrow> entered_ids (ts @ [t]) = entered_ids ts"
  by (auto simp: entered_ids_def nth_append less_Suc_eq)

lemma entered_ids_update:
  "i < length ts \<Longrightarrow> entered_ids (ts[i := t]) = (if has_entered t then insert i (entered_ids ts) else entered_ids ts - {i})"
  by (auto simp: entered_ids_def nth_list_update split: if_splits)

lemma launched_ok_go: "launched_ok nprocs bnd g j i t \<Longrightarrow> launched_ok nprocs bnd True j i t"
  by (simp add: launched_ok_def)

lemma launch_inv_launcher:
  assumes "launcher_step stop_them bnd n s = Some s'" "launch_inv nprocs bnd n go s"
  shows "launch_inv nprocs bnd n go s'"
proof (cases "lm_pc s")
  case (LM_create i)
  show ?thesis
  proof (cases "i < n")
    case True
    let ?t = "\<lparr>l_id = i, assign_me_to_core = bnd, l_pc = L_affinity, l_core = None\<rparr>"
    have new: "launched_ok nprocs bnd (g_go s) 0 i ?t" "\<not> has_entered ?t" by (simp_all add: launched_ok_def has_entered_def)
    have s': "s' = s\<lparr>launched := launched s @ [?t], lm_pc := LM_create (Suc i)\<rparr>"
      using assms(1) LM_create True by (simp add: launcher_step_def)
    have len: "length (launched s) = i" using assms(2) LM_create by (simp add: launch_inv_def)
    have "launched_ok nprocs bnd (g_go s) 0 j ((launched s @ [?t]) ! j)" if "j < Suc i" for j
      using that assms(2) LM_create new(1) len by (cases "j = i") (auto simp: launch_inv_def nth_append less_Suc_eq)
    then show ?thesis using assms(2) LM_create True len entered_ids_append [OF new(2), of "launched s"]
      unfolding s' launch_inv_def by simp
  qed (use assms LM_create in \<open>simp add: launcher_step_def launch_inv_def, force\<close>)
next
  case (LM_join i)
  have "launched_ok nprocs bnd (g_go s) (Suc i) j (launched s ! j)"
    if "launched_ok nprocs bnd (g_go s) i j (launched s ! j)" "l_pc (launched s ! i) = L_returned" for j
    using that by (cases "j = i") (auto simp: launched_ok_def less_Suc_eq)
  then show ?thesis using assms LM_join
    by (cases "i < n") (simp_all add: launcher_step_def launch_inv_def split: if_splits, force+)
next
  case LM_go
  have "\<forall>i < length (launched s). launched_ok nprocs bnd True 0 i (launched s ! i)"
    using assms(2) LM_go launched_ok_go by (simp add: launch_inv_def) blast
  then show ?thesis using assms LM_go
    by (cases stop_them) (simp_all add: launcher_step_def launch_inv_def GIVE_START_SIGNAL_def, force+)
qed (use assms in \<open>simp_all add: launcher_step_def launch_inv_def, force+\<close>)

lemma launch_inv_put:
  assumes "launch_inv nprocs bnd n go s" "i < length (launched s)"
    and "launched_ok nprocs bnd (g_go s) (joined_at n (lm_pc s)) i t"
    and "has_entered t \<longleftrightarrow> has_entered (launched s ! i) \<or> new = [i]" "new = [] \<or> new = [i] \<and> \<not> has_entered (launched s ! i)"
  shows "launch_inv nprocs bnd n go (s\<lparr>launched := (launched s)[i := t], entered := entered s @ new\<rparr>)"
proof -
  have "set (entered s @ new) = entered_ids ((launched s)[i := t])" "distinct (entered s @ new)"
    using assms by (auto simp: launch_inv_def entered_ids_update) (auto simp: entered_ids_def)
  then show ?thesis using assms(1-3) by (auto simp: launch_inv_def nth_list_update)
qed

lemma launch_inv_launched:
  assumes step: "common_run_step nprocs setaff i s = Some (Inr s')" and inv: "launch_inv nprocs bnd n go s"
    and i: "i < length (launched s)"
  shows "launch_inv nprocs bnd n go s'"
proof -
  let ?t = "launched s ! i"
  have ok: "launched_ok nprocs bnd (g_go s) (joined_at n (lm_pc s)) i ?t"
    using inv i unfolding launch_inv_def by blast
  note put = launch_inv_put [OF inv i]
  show ?thesis
  proof (cases "l_pc ?t")
    case L_affinity
    show ?thesis
    proof (cases "assign_me_to_core ?t")
      case True
      then have s': "s' = s\<lparr>launched := (launched s)[i := ?t\<lparr>l_core := Some (l_id ?t mod unat (of_int nprocs :: u32)),
          l_pc := L_wait_go\<rparr>], entered := entered s @ []\<rparr>"
        using step L_affinity by (auto simp: common_run_step_def Let_def set_cpu_affinity_def split: if_splits)
      show ?thesis unfolding s' using ok L_affinity by (intro put) (auto simp: launched_ok_def has_entered_def)
    next
      case False
      then have s': "s' = s\<lparr>launched := (launched s)[i := ?t\<lparr>l_pc := L_wait_go\<rparr>], entered := entered s @ []\<rparr>"
        using step L_affinity by (auto simp: common_run_step_def Let_def)
      show ?thesis unfolding s' using ok False L_affinity by (intro put) (auto simp: launched_ok_def has_entered_def)
    qed
  next
    case L_wait_go
    then have s': "s' = s\<lparr>launched := (launched s)[i := ?t\<lparr>l_pc := L_fun\<rparr>], entered := entered s @ [i]\<rparr>" "g_go s"
      using step ok by (auto simp: common_run_step_def Let_def launched_ok_def split: if_splits)
    show ?thesis unfolding s'(1) using ok L_wait_go s'(2) by (intro put) (auto simp: launched_ok_def has_entered_def)
  next
    case L_fun
    then have s': "s' = s\<lparr>launched := (launched s)[i := ?t\<lparr>l_pc := L_returned\<rparr>], entered := entered s @ []\<rparr>"
      using step by (auto simp: common_run_step_def Let_def)
    show ?thesis unfolding s' using ok L_fun by (intro put) (auto simp: launched_ok_def has_entered_def)
  qed (use step in \<open>simp add: common_run_step_def Let_def\<close>)
qed

lemma launch_inv_reachable: "launch_reachable nprocs setaff stop_them bnd n go s \<Longrightarrow> launch_inv nprocs bnd n go s"
  by (induction rule: launch_reachable.induct)
    (auto intro: launch_inv_start launch_inv_tick launch_inv_launcher launch_inv_launched)


section \<open>Properties\<close>

text \<open>
  C13. With the flag down at the beginning, the function is not entered before every thread
  has been created, each thread enters it at most once and, when threads are bound, on the core
  its id selects; when the launch is over every id has entered exactly once.
\<close>

theorem launch_enters_after_creation:
  assumes "launch_reachable nprocs setaff stop_them bnd n False s"
  shows "(entered s \<noteq> [] \<longrightarrow> length (launched s) = n \<and> g_go s) \<and> distinct (entered s) \<and>
    (bnd \<longrightarrow> (\<forall>i \<in> set (entered s). l_core (launched s ! i) = Some (i mod unat (of_int nprocs :: u32)))) \<and>
    (lm_pc s = LM_done \<longrightarrow> mset (entered s) = mset [0..<n])"
proof -
  note inv = launch_inv_reachable [OF assms]
  have ok: "launched_ok nprocs bnd (g_go s) (joined_at n (lm_pc s)) i (launched s ! i)" if "i < length (launched s)" for i
    using inv that unfolding launch_inv_def by blast
  have ids: "set (entered s) = entered_ids (launched s)" "distinct (entered s)"
    and len: "length (launched s) = created_at n (lm_pc s)" and go: "g_go s = signalled_at (lm_pc s)"
    using inv by (simp_all add: launch_inv_def)
  have ent: "i < length (launched s)" "has_entered (launched s ! i)" if "i \<in> set (entered s)" for i
    using that unfolding ids(1) entered_ids_def by blast+
  have one: "length (launched s) = n \<and> g_go s" if "i \<in> set (entered s)" for i
  proof -
    have "g_go s" using ok [OF ent(1) [OF that]] ent(2) [OF that] unfolding launched_ok_def by blast
    then show ?thesis using go len by (cases "lm_pc s") simp_all
  qed
  have core: "l_core (launched s ! i) = Some (i mod unat (of_int nprocs :: u32))" if "i \<in> set (entered s)" "bnd" for i
  proof -
    have "l_pc (launched s ! i) \<noteq> L_affinity" using ent(2) [OF that(1)] unfolding has_entered_def by force
    then show ?thesis using ok [OF ent(1) [OF that(1)]] that(2) unfolding launched_ok_def by blast
  qed
  have "mset (entered s) = mset [0..<n]" if "lm_pc s = LM_done"
  proof -
    have "entered_ids (launched s) = {0..<n}"
      using that len ok by (auto simp: entered_ids_def launched_ok_def has_entered_def)
    then show ?thesis using ids by (metis distinct_upt set_eq_iff_mset_eq_distinct set_upt)
  qed
  then show ?thesis using one core ids by (metis list.set_intros(1) neq_Nil_conv)
qed

text \<open>
  C14. RESET_START_SIGNAL leaves the flag as it is; after a launch the flag is up, and a second
  launch lets its first thread enter the function while the second does not exist yet.
\<close>

theorem second_launch_starts_early:
  assumes "launch_reachable nprocs setaff stop_them bnd n False s" and "lm_pc s = LM_done"
    and "unat (of_int nprocs :: u32) \<noteq> 0" and "\<forall>core. \<not> setaff core < 0" and "2 \<le> m"
  shows "\<exists>s'. launch_reachable nprocs setaff stop_them bnd m (g_go (snd (RESET_START_SIGNAL s))) s' \<and>
    entered s' = [0] \<and> length (launched s') = 1"
proof -
  have "g_go s" using launch_inv_reachable [OF assms(1)] assms(2) by (simp add: launch_inv_def)
  let ?reach = "launch_reachable nprocs setaff stop_them bnd m True"
  let ?t = "\<lparr>l_id = 0, assign_me_to_core = bnd, l_pc = L_affinity, l_core = None\<rparr>"
  let ?s1 = "(launch_start True 0)\<lparr>launched := [?t], lm_pc := LM_create 1\<rparr>"
  have nz: "(of_int nprocs :: u32) \<noteq> 0" using assms(3) by auto
  have r1: "?reach ?s1"
    by (rule launch_reachable.launcher [OF launch_reachable.start [of _ _ _ _ _ _ 0]])
      (use assms(5) in \<open>simp add: launcher_step_def launch_start_def\<close>)
  define c where "c = (if bnd then Some 0 else None :: nat option)"
  have step: "common_run_step nprocs setaff 0 ?s1 = Some (Inr (?s1\<lparr>launched := [?t\<lparr>l_core := c, l_pc := L_wait_go\<rparr>]\<rparr>))"
    using nz assms(4) by (cases bnd) (simp_all add: common_run_step_def set_cpu_affinity_def c_def)
  have r2: "?reach (?s1\<lparr>launched := [?t\<lparr>l_core := c, l_pc := L_wait_go\<rparr>]\<rparr>)"
    by (rule launch_reachable.launched [OF r1 _ step]) simp
  have "?reach (?s1\<lparr>launched := [?t\<lparr>l_core := c, l_pc := L_fun\<rparr>], entered := [0]\<rparr>)"
    by (rule launch_reachable.launched [OF r2, of 0]) (simp_all add: common_run_step_def Let_def launch_start_def)
  then show ?thesis using \<open>g_go s\<close> by (auto simp: RESET_START_SIGNAL_def launch_start_def)
qed

lemma demo_launch:
  "\<exists>s. launch_reachable 2 (\<lambda>_. 0) False True 1 False s \<and> lm_pc s = LM_done"
proof -
  let ?reach = "launch_reachable 2 (\<lambda>_. 0) False True 1 False"
  let ?s = "\<lambda>go pc ts en. (launch_start False 0)\<lparr>g_go := go, lm_pc := pc, launched := ts, entered := en\<rparr>"
  let ?t = "\<lambda>pc c. \<lparr>l_id = 0, assign_me_to_core = True, l_pc = pc, l_core = c\<rparr>"
  note defs = launcher_step_def launch_start_def common_run_step_def set_cpu_affinity_def GIVE_START_SIGNAL_def Let_def
  note start = launch_reachable.start [of 2 "\<lambda>_. 0" False True 1 False 0]
  have 1: "?reach (?s False (LM_create 1) [?t L_affinity None] [])"
    by (rule launch_reachable.launcher [OF start]) (simp add: defs)
  have 2: "?reach (?s False (LM_create 1) [?t L_wait_go (Some 0)] [])"
    by (rule launch_reachable.launched [OF 1, of 0]) (simp_all add: defs)
  have 3: "?reach (?s False LM_go [?t L_wait_go (Some 0)] [])"
    by (rule launch_reachable.launcher [OF 2]) (simp add: defs)
  have 4: "?reach (?s True (LM_join 0) [?t L_wait_go (Some 0)] [])"
    by (rule launch_reachable.launcher [OF 3]) (simp add: defs)
  have 5: "?reach (?s True (LM_join 0) [?t L_fun (Some 0)] [0])"
    by (rule launch_reachable.launched [OF 4, of 0]) (simp_all add: defs)
  have 6: "?reach (?s True (LM_join 0) [?t L_returned (Some 0)] [0])"
    by (rule launch_reachable.launched [OF 5, of 0]) (simp_all add: defs)
  have 7: "?reach (?s True (LM_join 1) [?t L_returned (Some 0)] [0])"
    by (rule launch_reachable.launcher [OF 6]) (simp add: defs)
  have "?reach (?s True LM_done [?t L_returned (Some 0)] [0])"
    by (rule launch_reachable.launcher [OF 7]) (simp add: defs)
  then show ?thesis by (intro exI conjI) (assumption, simp)
qed

theorem launch_enters_after_creation_witness:
  "\<exists>s. launch_reachable 2 (\<lambda>_. 0) False True 1 False s \<and> mset (entered s) = mset [0..<1]"
proof -
  obtain s where "launch_reachable 2 (\<lambda>_. 0) False True 1 False s" "lm_pc s = LM_done" using demo_launch by blast
  with launch_enters_after_creation [OF this(1)] show ?thesis by blast
qed

theorem second_launch_starts_early_witness:
  "\<exists>s'. launch_reachable 2 (\<lambda>_. 0) False True 2 True s' \<and> entered s' = [0] \<and> length (launched s') = 1"
proof -
  obtain s where s: "launch_reachable 2 (\<lambda>_. 0) False True 1 False s" "lm_pc s = LM_done" using demo_launch by blast
  have "g_go s" using launch_inv_reachable [OF s(1)] s(2) by (simp add: launch_inv_def)
  with second_launch_starts_early [OF s, of 2] show ?thesis by (simp add: RESET_START_SIGNAL_def)
qed

end
