(* ===== verification/CSB_Kernel.thy ===== *)
theory CSB_Kernel
  imports CSB_Prelude
begin

text \<open>
  The operating system as a parameter: a record of the system calls the network programs
  use, each a function of the kernel's state \<open>'k\<close>, which holds everything the program does
  not see. A call that delivers data returns \<open>None\<close> for the answer -1. \<open>epoll_wait\<close> and
  \<open>read\<close> deliver at most as many events or bytes as asked for, as their manual pages say;
  an answer beyond that overruns the caller's array, which the models make \<open>Undefined\<close>.
  \<open>k_malloc\<close> says whether an allocation succeeds. An address is the bytes of the host in
  network byte order, the empty string for the wildcard address of its family. The constants are those of Linux.
\<close>

datatype ctl_op = EPOLL_CTL_ADD | EPOLL_CTL_MOD | EPOLL_CTL_DEL

record epoll_event =
  ev_events :: u32
  ev_data :: int

text \<open>\<open>sockaddr_in\<close> and \<open>sockaddr_in6\<close>; the port is in network byte order.\<close>

record sockaddr =
  sa_family :: int
  sin_port :: u16
  sin_addr :: string

definition INADDR_ANY :: string where "INADDR_ANY = []"

record 'k kernel =
  k_socket :: "int \<Rightarrow> 'k \<Rightarrow> int \<times> 'k"
  k_setsockopt :: "int \<Rightarrow> int \<Rightarrow> 'k \<Rightarrow> int \<times> 'k"
  k_bind :: "int \<Rightarrow> sockaddr \<Rightarrow> 'k \<Rightarrow> int \<times> 'k"
  k_listen :: "int \<Rightarrow> int \<Rightarrow> 'k \<Rightarrow> int \<times> 'k"
  k_connect :: "int \<Rightarrow> sockaddr \<Rightarrow> 'k \<Rightarrow> int \<times> 'k"
  k_getfl :: "int \<Rightarrow> 'k \<Rightarrow> int \<times> 'k"
  k_setfl :: "int \<Rightarrow> int \<Rightarrow> 'k \<Rightarrow> int \<times> 'k"
  k_epoll_create :: "'k \<Rightarrow> int \<times> 'k"
  k_epoll_ctl :: "int \<Rightarrow> ctl_op \<Rightarrow> int \<Rightarrow> epoll_event \<Rightarrow> 'k \<Rightarrow> int \<times> 'k"
  k_epoll_wait :: "int \<Rightarrow> nat \<Rightarrow> int \<Rightarrow> 'k \<Rightarrow> epoll_event list option \<times> 'k"
  k_accept :: "int \<Rightarrow> 'k \<Rightarrow> int \<times> 'k"
  k_read :: "int \<Rightarrow> nat \<Rightarrow> 'k \<Rightarrow> string option \<times> 'k"
  k_write :: "int \<Rightarrow> string \<Rightarrow> 'k \<Rightarrow> int \<times> 'k"
  k_send :: "int \<Rightarrow> u64 \<Rightarrow> 'k \<Rightarrow> int \<times> 'k"
  k_recv :: "int \<Rightarrow> u64 \<Rightarrow> 'k \<Rightarrow> int \<times> 'k"
  k_close :: "int \<Rightarrow> 'k \<Rightarrow> int \<times> 'k"
  k_errno :: "'k \<Rightarrow> int"
  k_malloc :: "'k \<Rightarrow> bool \<times> 'k"

definition O_NONBLOCK :: int where "O_NONBLOCK = 0x800"
definition EPOLLIN :: u32 where "EPOLLIN = 1"
definition EPOLLOUT :: u32 where "EPOLLOUT = 4"
definition EPOLLERR :: u32 where "EPOLLERR = 8"
definition EPOLLHUP :: u32 where "EPOLLHUP = 16"
definition EAGAIN :: int where "EAGAIN = 11"
definition ECONNRESET :: int where "ECONNRESET = 104"
definition AF_INET :: int where "AF_INET = 2"
definition AF_INET6 :: int where "AF_INET6 = 10"
definition SOMAXCONN :: int where "SOMAXCONN = 4096"
definition SO_REUSEADDR :: int where "SO_REUSEADDR = 2"
definition SO_REUSEPORT :: int where "SO_REUSEPORT = 15"

definition htons :: "u16 \<Rightarrow> u16" where
  "htons w = push_bit 8 w OR drop_bit 8 w"

end
