(* ===== verification/CSB_Redis.thy ===== *)
theory CSB_Redis
  imports CSB_Empty CSB_Libc CSB_Kernel "HOL-Library.Sublist"
begin

text \<open>
  bench/targets/bm_server_redis.h: a fake redis server as a benchmark target, over an arbitrary
  kernel (CSB_Kernel).
\<close>

section \<open>Set-up\<close>

record 'k redis_world =
  g_socket :: int
  g_epoll_fd :: int
  kern :: 'k

record redis_ctx =
  r_tid :: u64
  r_cnt :: int

definition MAX_EVENTS :: nat where "MAX_EVENTS = 10"
definition TIMEOUT_MS :: int where "TIMEOUT_MS = 10"
definition MAX_BUFFER_LEN :: nat where "MAX_BUFFER_LEN = 1024"

definition make_socket_nonblocking :: "'k kernel \<Rightarrow> int \<Rightarrow> 'k \<Rightarrow> (int \<times> 'k) result" where
  "make_socket_nonblocking K fd k =
     (let (flags, k1) = k_getfl K fd k; (r, k2) = k_setfl K fd (flags OR O_NONBLOCK) k1
      in c_assert (r \<noteq> - 1) (Inr (r, k2)))"

definition redis_init :: "'k kernel \<Rightarrow> u64 \<Rightarrow> u64 \<Rightarrow> 'k redis_world \<Rightarrow> 'k redis_world result" where
  "redis_init K port nthreads w =
     (let (s, k1) = k_socket K AF_INET (kern w) in
      c_assert (s \<noteq> - 1)
       (let (r1, k2) = k_setsockopt K s SO_REUSEADDR k1 in
        c_assert (r1 \<noteq> - 1)
         (let (r2, k3) = k_bind K s \<lparr>sa_family = AF_INET, sin_port = htons (ucast port), sin_addr = INADDR_ANY\<rparr> k2 in
          c_assert (r2 \<noteq> - 1)
           (let (r3, k4) = k_listen K s SOMAXCONN k3 in
            c_assert (r3 \<noteq> - 1)
             (bind_r (make_socket_nonblocking K s k4) (\<lambda>(_, k5).
              let (e, k6) = k_epoll_create K k5 in
              c_assert (e \<noteq> - 1)
               (let (r4, k7) = k_epoll_ctl K e EPOLL_CTL_ADD s \<lparr>ev_events = EPOLLIN, ev_data = s\<rparr> k6 in
                c_assert (r4 \<noteq> - 1) (Inr \<lparr>g_socket = s, g_epoll_fd = e, kern = k7\<rparr>))))))))"

definition redis_get_op_name :: "nat \<Rightarrow> nat \<Rightarrow> 'w \<Rightarrow> string result" where
  "redis_get_op_name len op_id w = c_assert (len \<ge> MAX_NAME_LEN) (Inr ''op0_read_write'')"

definition redis_reg :: "u64 \<Rightarrow> redis_ctx \<Rightarrow> 'w \<Rightarrow> (redis_ctx \<times> 'w) result" where
  "redis_reg tid ctx w = Inr (ctx\<lparr>r_tid := tid, r_cnt := 0\<rparr>, w)"

section \<open>Serving\<close>

definition bm_accept_connection ::
  "'k kernel \<Rightarrow> bm_op_res \<Rightarrow> 'k redis_world \<Rightarrow> (bm_op_res \<times> 'k redis_world) result" where
  "bm_accept_connection K res w =
     (let (client_fd, k1) = k_accept K (g_socket w) (kern w);
          res1 = res\<lparr>op_count := op_count res + 1\<rparr> in
      if client_fd \<noteq> - 1
      then bind_r (make_socket_nonblocking K client_fd k1) (\<lambda>(_, k2).
        Inr (res1\<lparr>succ_count := succ_count res1 + 1\<rparr>,
          w\<lparr>kern := snd (k_epoll_ctl K (g_epoll_fd w) EPOLL_CTL_ADD client_fd
              \<lparr>ev_events = EPOLLIN, ev_data = client_fd\<rparr> k2)\<rparr>))
      else Inr (res1, w\<lparr>kern := k1\<rparr>))"

definition CRLF :: string where
  "CRLF = [char_of (13 :: nat), char_of (10 :: nat)]"

definition OK_REPLY :: string where
  "OK_REPLY = ''+OK'' @ CRLF"

definition bm_handle_get :: "'k kernel \<Rightarrow> int \<Rightarrow> 'k \<Rightarrow> int \<times> 'k" where
  "bm_handle_get K fd k =
     (let msg = ''HI''; reply = ''$'' @ decimal (length msg) @ CRLF @ msg @ CRLF in k_write K fd reply k)"

definition bm_handle_set :: "'k kernel \<Rightarrow> int \<Rightarrow> 'k \<Rightarrow> int \<times> 'k" where
  "bm_handle_set K fd k = k_write K fd OK_REPLY k"

text \<open>\<open>strstr\<close>: does the needle occur in the string?\<close>

definition strstr :: "string \<Rightarrow> string \<Rightarrow> bool" where
  "strstr haystack needle \<longleftrightarrow> sublist needle haystack"

definition bm_respond :: "'k kernel \<Rightarrow> int \<Rightarrow> string \<Rightarrow> 'k \<Rightarrow> (int \<times> 'k) result" where
  "bm_respond K fd buf k =
     (if strstr buf ''SET'' then Inr (bm_handle_set K fd k)
      else if strstr buf ''GET'' then Inr (bm_handle_get K fd k)
      else Inl Assert_failed)"

text \<open>The C string in the buffer: the bytes read, up to the first zero byte.\<close>

definition c_string :: "string \<Rightarrow> string" where
  "c_string bytes = takeWhile (\<lambda>c. of_char c \<noteq> (0 :: nat)) bytes"

definition handle_data ::
  "'k kernel \<Rightarrow> int \<Rightarrow> bm_op_res \<Rightarrow> 'k redis_world \<Rightarrow> (bm_op_res \<times> 'k redis_world) result" where
  "handle_data K fd res w =
     (let (answer, k1) = k_read K fd MAX_BUFFER_LEN (kern w);
          res1 = res\<lparr>op_count := op_count res + 1\<rparr> in
      case answer of
        None \<Rightarrow> Inr (res1, w\<lparr>kern := snd (k_close K fd k1)\<rparr>)
      | Some bytes \<Rightarrow>
          if bytes = [] then Inr (res1, w\<lparr>kern := snd (k_close K fd k1)\<rparr>)
          else if length bytes > MAX_BUFFER_LEN then Inl Undefined
          else let res2 = res1\<lparr>succ_count := succ_count res1 + 1\<rparr> in
            c_assert (length bytes < MAX_BUFFER_LEN)
             (bind_r (bm_respond K fd (c_string bytes) k1) (\<lambda>(ret, k2).
              Inr (if ret \<noteq> - 1
                   then let res3 = res2\<lparr>op_count := op_count res2 + 1\<rparr>
                        in if ret > 0 then res3\<lparr>succ_count := succ_count res3 + 1\<rparr> else res3
                   else res2, w\<lparr>kern := k2\<rparr>))))"

fun handle_events ::
  "'k kernel \<Rightarrow> epoll_event list \<Rightarrow> bm_op_res \<Rightarrow> 'k redis_world \<Rightarrow> (bm_op_res \<times> 'k redis_world) result" where
  "handle_events K [] res w = Inr (res, w)"
| "handle_events K (ev # evs) res w =
     bind_r (if ev_data ev = g_socket w then bm_accept_connection K res w else handle_data K (ev_data ev) res w)
       (\<lambda>(res', w'). handle_events K evs res' w')"

definition redis_dispatch ::
  "'k kernel \<Rightarrow> nat \<Rightarrow> redis_ctx \<Rightarrow> 'k redis_world \<Rightarrow> (bm_op_res \<times> redis_ctx \<times> 'k redis_world) result" where
  "redis_dispatch K op_id ctx w =
     (let res0 = \<lparr>op_count = 0, succ_count = 0\<rparr> in
      if g_socket w = - 1 \<or> g_epoll_fd w = - 1 then Inr (res0, ctx, w)
      else let (answer, k1) = k_epoll_wait K (g_epoll_fd w) MAX_EVENTS TIMEOUT_MS (kern w); w1 = w\<lparr>kern := k1\<rparr> in
        case answer of
          None \<Rightarrow> Inr (res0, ctx, w1)
        | Some evs \<Rightarrow> if length evs > MAX_EVENTS then Inl Undefined
            else bind_r (handle_events K evs res0 w1) (\<lambda>(res, w2). Inr (res, ctx, w2)))"

definition bm_server_redis :: "'k kernel \<Rightarrow> (redis_ctx, 'k redis_world) bm_target" where
  "bm_server_redis K = \<lparr>bm_target_get_name = ''bm_server_redis'', bm_target_op_count = 2,
     bm_target_get_op_name = redis_get_op_name, bm_target_init = redis_init K,
     bm_target_reg = redis_reg, bm_dispatch_operation = redis_dispatch K,
     bm_target_dereg = (\<lambda>tid ctx w. Inr (ctx, w)), bm_target_destroy = (\<lambda>num_threads w. Inr w),
     bm_target_extra_info = []\<rparr>"

section \<open>Lemmas\<close>

definition res_ok :: "nat \<Rightarrow> bm_op_res \<Rightarrow> bool" where
  "res_ok n r \<longleftrightarrow> unat (succ_count r) \<le> unat (op_count r) \<and> unat (op_count r) \<le> n"

lemma unat_Suc_small: "unat (x :: u64) \<le> n \<Longrightarrow> n < 2 ^ 63 \<Longrightarrow> unat (x + 1) = unat x + 1"
  by (simp add: unat_word_ariths(1))

lemma accept_res:
  assumes "bm_accept_connection K res w = Inr (res', w')" "res_ok n res" "n < 100"
  shows "res_ok (n + 2) res'"
  using assms by (auto simp: bm_accept_connection_def res_ok_def Let_def unat_Suc_small split: prod.splits if_splits)

lemma data_res:
  assumes "handle_data K fd res w = Inr (res', w')" "res_ok n res" "n < 100"
  shows "res_ok (n + 2) res'"
proof -
  have u: "unat (op_count res + 1) = unat (op_count res) + 1" "unat (op_count res + 1 + 1) = unat (op_count res) + 2"
    "unat (succ_count res + 1) = unat (succ_count res) + 1" "unat (succ_count res + 1 + 1) = unat (succ_count res) + 2"
    using assms(2,3) by (simp_all add: res_ok_def unat_word_ariths(1))
  show ?thesis
    using assms u by (auto simp: handle_data_def res_ok_def Let_def split: prod.splits option.splits if_splits)
qed

lemma handle_events_res:
  "handle_events K evs res w = Inr (res', w') \<Longrightarrow> res_ok n res \<Longrightarrow> n + 2 * length evs < 100 \<Longrightarrow>
     res_ok (n + 2 * length evs) res'"
proof (induction evs arbitrary: res w n)
  case (Cons ev evs)
  then obtain r1 w1 where "(if ev_data ev = g_socket w then bm_accept_connection K res w else handle_data K (ev_data ev) res w) = Inr (r1, w1)"
    and r: "handle_events K evs r1 w1 = Inr (res', w')" by auto
  then have "res_ok (n + 2) r1"
    using Cons.prems(2,3) accept_res [of K res w r1 w1 n] data_res [of K "ev_data ev" res w r1 w1 n]
    by (simp split: if_splits)
  from Cons.IH [OF r this] Cons.prems(3) show ?case by (simp add: add.assoc)
qed (simp add: res_ok_def)

lemma redis_dispatch_res:
  assumes "redis_dispatch K op ctx w = Inr (res, ctx', w')"
  shows "res_ok 20 res"
proof -
  have zero: "res_ok 0 \<lparr>op_count = 0, succ_count = 0\<rparr>" by (simp add: res_ok_def)
  from assms consider "res = \<lparr>op_count = 0, succ_count = 0\<rparr>"
    | evs w1 w2 where "handle_events K evs \<lparr>op_count = 0, succ_count = 0\<rparr> w1 = Inr (res, w2)" "length evs \<le> MAX_EVENTS"
    by (auto simp: redis_dispatch_def Let_def split: if_splits prod.splits option.splits)
  then show ?thesis
  proof cases
    case 2
    from handle_events_res [OF 2(1) zero] 2(2) show ?thesis by (auto simp: MAX_EVENTS_def res_ok_def)
  qed (simp add: res_ok_def)
qed

interpretation redis: counting_target "redis_dispatch K" "\<lambda>ctx w. True" for K
  by unfold_locales (auto dest: redis_dispatch_res simp: res_ok_def)


section \<open>Properties\<close>

text \<open>The request a redis client library sends: an array of bulk strings.\<close>

definition resp_bulk :: "string \<Rightarrow> string" where
  "resp_bulk arg = ''$'' @ decimal (length arg) @ CRLF @ arg @ CRLF"

definition resp_request :: "string list \<Rightarrow> string" where
  "resp_request args = ''*'' @ decimal (length args) @ CRLF @ concat (map resp_bulk args)"

lemma strstr_append: "strstr s needle \<Longrightarrow> strstr (p @ s @ q) needle"
  by (simp add: strstr_def sublist_appendI sublist_order.order_trans [OF _ sublist_appendI])

lemma strstr_argument: "arg \<in> set args \<Longrightarrow> strstr arg needle \<Longrightarrow> strstr (resp_request args) needle"
proof -
  assume "arg \<in> set args" "strstr arg needle"
  then obtain xs ys where "args = xs @ arg # ys" by (meson split_list)
  then have "resp_request args = (''*'' @ decimal (length args) @ CRLF @ concat (map resp_bulk xs) @
      ''$'' @ decimal (length arg) @ CRLF) @ arg @ (CRLF @ concat (map resp_bulk ys))"
    by (simp add: resp_request_def resp_bulk_def)
  then show ?thesis using \<open>strstr arg needle\<close> strstr_append by metis
qed

lemma strstr_first: "strstr s (c # needle) \<Longrightarrow> c \<in> set s"
  by (auto simp: strstr_def sublist_def)

lemma resp_letters:
  assumes "c \<in> set (resp_request args)" "65 \<le> (of_char c :: nat)"
  shows "\<exists>arg \<in> set args. c \<in> set arg"
proof -
  have "c \<notin> set (decimal n)" for n using decimal_digits [of c n] assms(2) by auto
  with assms show ?thesis by (auto simp: resp_request_def resp_bulk_def CRLF_def split: if_splits)
qed

lemma c_string_id: "\<forall>c \<in> set bytes. of_char c \<noteq> (0 :: nat) \<Longrightarrow> c_string bytes = bytes"
  by (simp add: c_string_def takeWhile_eq_all_conv)

lemma resp_no_zero:
  assumes "\<forall>arg \<in> set args. \<forall>c \<in> set arg. of_char c \<noteq> (0 :: nat)"
  shows "\<forall>c \<in> set (resp_request args). of_char c \<noteq> (0 :: nat)"
proof -
  have "of_char c \<noteq> (0 :: nat)" if "c \<in> set (decimal n)" for c n using decimal_digits [OF that] by auto
  with assms show ?thesis by (auto simp: resp_request_def resp_bulk_def CRLF_def)
qed

text \<open>
  C15. The server's protocol: a well-formed request that fits the buffer is answered by one
  write to the client, \<open>+OK\<close> when the word SET occurs anywhere in it, the value HI as a bulk
  string when GET does; the read and, when something was written, the write are counted. In
  particular a GET whose key contains SET is answered as a SET.
\<close>

theorem redis_answers_request:
  assumes "k_read K fd MAX_BUFFER_LEN (kern w) = (Some (resp_request args), k1)"
    and "length (resp_request args) < MAX_BUFFER_LEN"
    and "\<forall>arg \<in> set args. \<forall>c \<in> set arg. of_char c \<noteq> (0 :: nat)"
    and "k_write K fd (if \<exists>arg \<in> set args. strstr arg ''SET'' then ''+OK'' @ CRLF else resp_bulk ''HI'') k1 = (ret, k2)"
    and "(\<exists>arg \<in> set args. strstr arg ''SET'') \<or> (''GET'' \<in> set args \<and> (\<forall>arg \<in> set args. CHR ''S'' \<notin> set arg))"
    and "0 < ret" and "res_ok n res" and "n < 100"
  shows "\<exists>res'. handle_data K fd res w = Inr (res', w\<lparr>kern := k2\<rparr>) \<and>
    unat (op_count res') = unat (op_count res) + 2 \<and> unat (succ_count res') = unat (succ_count res) + 2"
proof -
  let ?req = "resp_request args"
  have u: "unat (op_count res + 1 + 1) = unat (op_count res) + 2" "unat (succ_count res + 1 + 1) = unat (succ_count res) + 2"
    using assms(7,8) by (simp_all add: res_ok_def unat_word_ariths(1))
  have id: "c_string ?req = ?req" using c_string_id resp_no_zero [OF assms(3)] by blast
  have ne: "?req \<noteq> []" by (simp add: resp_request_def)
  have resp: "bm_respond K fd ?req k1 = Inr (ret, k2)"
  proof (cases "\<exists>arg \<in> set args. strstr arg ''SET''")
    case True
    then have "strstr ?req ''SET''" using strstr_argument by blast
    with True assms(4) show ?thesis by (simp add: bm_respond_def bm_handle_set_def OK_REPLY_def)
  next
    case False
    with assms(5) have g: "''GET'' \<in> set args" "\<forall>arg \<in> set args. CHR ''S'' \<notin> set arg" by auto
    have "\<not> strstr ?req ''SET''" using strstr_first resp_letters [of "CHR ''S''" args] g(2) by fastforce
    moreover have "strstr ?req ''GET''" using strstr_argument [OF g(1)] by (simp add: strstr_def)
    ultimately show ?thesis using False assms(4)
      by (simp add: bm_respond_def bm_handle_get_def resp_bulk_def Let_def)
  qed
  have "\<not> length ?req > MAX_BUFFER_LEN" using assms(2) by simp
  then show ?thesis
    using assms(1,2,6) ne resp u by (simp add: handle_data_def Let_def id)
qed

text \<open>
  A client that sends 1024 bytes at once brings the server down: the read fills the
  buffer and the assertion that room is left for the terminating zero fails.
\<close>

lemma redis_full_buffer_aborts:
  assumes "k_read K fd MAX_BUFFER_LEN (kern w) = (Some bytes, k1)" and "length bytes = MAX_BUFFER_LEN"
  shows "handle_data K fd res w = Inl Assert_failed"
  using assms by (auto simp: handle_data_def Let_def MAX_BUFFER_LEN_def)

text \<open>
  C16. What one dispatch reports is bounded: at most two operations per event, and never more
  successes than operations; so over any sequence of dispatches the reported successes do not
  exceed the reported operations.
\<close>

theorem redis_dispatch_counts:
  assumes "dispatch_all (redis_dispatch K) ops ctx w = Inr (rs, ctx', w')"
  shows "length rs = length ops \<and> sum_list (map (unat \<circ> succ_count) rs) \<le> sum_list (map (unat \<circ> op_count) rs) \<and>
    sum_list (map (unat \<circ> op_count) rs) \<le> 20 * length ops"
proof -
  have "length rs = length ops \<and> sum_list (map (unat \<circ> op_count) rs) \<le> 20 * length ops"
    using assms
  proof (induction ops arbitrary: ctx w rs)
    case (Cons op ops)
    then obtain r c1 w1 rs' where d: "redis_dispatch K op ctx w = Inr (r, c1, w1)"
      and a: "dispatch_all (redis_dispatch K) ops c1 w1 = Inr (rs', ctx', w')" and rs: "rs = r # rs'"
      by (auto split: prod.splits)
    from Cons.IH [OF a] redis_dispatch_res [OF d] rs show ?case by (simp add: res_ok_def)
  qed simp
  then show ?thesis using redis.dispatch_all_totals [OF assms] by simp
qed

text \<open>A kernel for the witnesses: one client that has sent \<open>request\<close>; writes succeed in full.\<close>

definition demo_kernel :: "string \<Rightarrow> string list kernel" where
  "demo_kernel request = \<lparr>k_socket = (\<lambda>_ k. (3, k)), k_setsockopt = (\<lambda>_ _ k. (0, k)), k_bind = (\<lambda>_ _ k. (0, k)),
     k_listen = (\<lambda>_ _ k. (0, k)), k_connect = (\<lambda>_ _ k. (0, k)), k_getfl = (\<lambda>_ k. (2, k)), k_setfl = (\<lambda>_ _ k. (0, k)),
     k_epoll_create = (\<lambda>k. (4, k)), k_epoll_ctl = (\<lambda>_ _ _ _ k. (0, k)),
     k_epoll_wait = (\<lambda>_ _ _ k. (Some [\<lparr>ev_events = EPOLLIN, ev_data = 5\<rparr>], k)), k_accept = (\<lambda>_ k. (5, k)),
     k_read = (\<lambda>_ n k. (Some (take n request), k)), k_write = (\<lambda>_ s k. (int (length s), k @ [s])),
     k_send = (\<lambda>_ _ k. (-1, k)), k_recv = (\<lambda>_ _ k. (-1, k)), k_close = (\<lambda>_ k. (0, k)), k_errno = (\<lambda>_. 11), k_malloc = (\<lambda>k. (True, k))\<rparr>"

definition demo_redis :: "string list redis_world" where
  "demo_redis = \<lparr>g_socket = 3, g_epoll_fd = 4, kern = []\<rparr>"

theorem redis_answers_request_witness:
  "\<exists>res'. handle_data (demo_kernel (resp_request [''GET'', ''fooSET''])) 5 \<lparr>op_count = 0, succ_count = 0\<rparr> demo_redis =
     Inr (res', demo_redis\<lparr>kern := [''+OK'' @ CRLF]\<rparr>) \<and> unat (op_count res') = 0 + 2"
proof -
  have req: "resp_request [''GET'', ''fooSET''] = ''*2'' @ CRLF @ ''$3'' @ CRLF @ ''GET'' @ CRLF @ ''$6'' @ CRLF @ ''fooSET'' @ CRLF"
    by (simp add: resp_request_def resp_bulk_def decimal.simps ascii_eq_iff)
  have set: "strstr ''fooSET'' ''SET''"
    unfolding strstr_def by (rule sublist_appendI [of "''SET''" "''foo''" "[]", simplified])
  have w: "k_write (demo_kernel (resp_request [''GET'', ''fooSET''])) 5 (''+OK'' @ CRLF) [] = (5, [''+OK'' @ CRLF])"
    by (simp add: demo_kernel_def CRLF_def)
  have "\<exists>res'. handle_data (demo_kernel (resp_request [''GET'', ''fooSET''])) 5 \<lparr>op_count = 0, succ_count = 0\<rparr> demo_redis =
      Inr (res', demo_redis\<lparr>kern := [''+OK'' @ CRLF]\<rparr>) \<and>
      unat (op_count res') = unat (op_count \<lparr>op_count = 0, succ_count = 0\<rparr>) + 2 \<and>
      unat (succ_count res') = unat (succ_count \<lparr>op_count = 0, succ_count = 0\<rparr>) + 2"
    by (rule redis_answers_request [where args = "[''GET'', ''fooSET'']" and ret = 5 and n = 0])
      (use set w in \<open>simp_all add: demo_redis_def res_ok_def\<close>, simp_all add: demo_kernel_def req CRLF_def MAX_BUFFER_LEN_def)
  then show ?thesis by auto
qed

lemma redis_full_buffer_aborts_example:
  "handle_data (demo_kernel (replicate 2000 CHR ''x'')) 5 \<lparr>op_count = 0, succ_count = 0\<rparr> demo_redis = Inl Assert_failed"
  by (rule redis_full_buffer_aborts [where bytes = "replicate 1024 CHR ''x''" and ?k1.0 = "[]"]) (simp_all add: demo_kernel_def demo_redis_def MAX_BUFFER_LEN_def)

theorem redis_dispatch_counts_witness:
  "\<exists>rs w'. dispatch_all (redis_dispatch (demo_kernel (''SET''))) [0, 1] \<lparr>r_tid = 0, r_cnt = 0\<rparr> demo_redis =
     Inr (rs, \<lparr>r_tid = 0, r_cnt = 0\<rparr>, w') \<and> sum_list (map (unat \<circ> succ_count) rs) \<le> sum_list (map (unat \<circ> op_count) rs)"
proof -
  have "\<exists>rs w'. dispatch_all (redis_dispatch (demo_kernel (''SET''))) [0, 1] \<lparr>r_tid = 0, r_cnt = 0\<rparr> demo_redis =
     Inr (rs, \<lparr>r_tid = 0, r_cnt = 0\<rparr>, w')"
    by (simp add: redis_dispatch_def demo_redis_def demo_kernel_def handle_data_def Let_def MAX_BUFFER_LEN_def MAX_EVENTS_def
        bm_respond_def bm_handle_set_def c_string_def strstr_def)
  with redis_dispatch_counts show ?thesis by blast
qed

end
