(* ===== verification/CSB_NetOps.thy ===== *)
theory CSB_NetOps
  imports CSB_Libc CSB_Kernel
begin

text \<open>
  bench/network/helper.h: operation sequences like \<open>2r1024-1w32\<close>, parsed into an array of at
  most \<open>nops\<close> entries, and the size of the largest buffer they need.
\<close>

record extracted_op =
  op_n :: u64
  op_sz :: u64
  is_write :: bool

text \<open>
  The loop of \<open>parse_ops\<close>, by the number of free entries: the entries written, and the error
  code with which it stops, if any.
\<close>

fun parse_loop :: "nat \<Rightarrow> string \<Rightarrow> extracted_op list \<times> int option" where
  "parse_loop 0 str = ([], None)"
| "parse_loop (Suc free) str =
     (if str = [] then ([], None)
      else let (n, next1) = strtoul 10 str in
        if next1 = [] \<or> (hd next1 \<noteq> CHR ''r'' \<and> hd next1 \<noteq> CHR ''w'') then ([], Some (- 1))
        else let wr = (hd next1 = CHR ''w''); (sz, next2) = strtoul 10 (tl next1) in
          if next2 \<noteq> [] \<and> hd next2 \<noteq> CHR ''-'' then ([], Some (- 2))
          else let (ops, err) = parse_loop free (tl next2)
               in (\<lparr>op_n = n, op_sz = sz, is_write = wr\<rparr> # ops, err))"

definition parse_ops :: "string \<Rightarrow> nat \<Rightarrow> int \<times> extracted_op list" where
  "parse_ops input nops =
     (let (ops, err) = parse_loop nops input
      in (case err of Some e \<Rightarrow> e | None \<Rightarrow> int (length ops), ops))"

text \<open>\<open>load_prog_file\<close>: \<open>open\<close>, \<open>fstat\<close> and \<open>mmap\<close>, any of which may fail.\<close>

definition load_prog_file :: "(string \<Rightarrow> int) \<Rightarrow> (int \<Rightarrow> nat option) \<Rightarrow> (int \<Rightarrow> nat \<Rightarrow> string option) \<Rightarrow> string \<Rightarrow> string option" where
  "load_prog_file os_open os_fstat os_mmap path =
     (let fd = os_open path in
      if fd = - 1 then None
      else case os_fstat fd of None \<Rightarrow> None | Some st_size \<Rightarrow> os_mmap fd st_size)"

text \<open>The loop reads \<open>nops\<close> entries of the array \<open>ops\<close>.\<close>

definition get_max_buffer_size :: "extracted_op list \<Rightarrow> u64 \<Rightarrow> u64 result" where
  "get_max_buffer_size ops nops =
     (if unat nops > length ops then Inl Undefined
      else Inr (foldl (\<lambda>max_sz op. if op_sz op > max_sz then op_sz op else max_sz) 0 (take (unat nops) ops)))"

definition setnonblocking :: "'k kernel \<Rightarrow> int \<Rightarrow> 'k \<Rightarrow> 'k" where
  "setnonblocking K sock k =
     (let (opt, k1) = k_getfl K sock k in snd (k_setfl K sock (opt OR O_NONBLOCK) k1))"

section \<open>Lemmas\<close>

definition render_op :: "extracted_op \<Rightarrow> string" where
  "render_op op = decimal (unat (op_n op)) @ [if is_write op then CHR ''w'' else CHR ''r''] @ decimal (unat (op_sz op))"

fun render_ops :: "extracted_op list \<Rightarrow> string" where
  "render_ops [] = []"
| "render_ops [op] = render_op op"
| "render_ops (op # op' # ops) = render_op op @ ''-'' @ render_ops (op' # ops)"

lemma render_ops_Cons: "render_ops (op # ops) = render_op op @ (if ops = [] then [] else ''-'' @ render_ops ops)"
  by (cases ops) simp_all

lemma render_ops_nonempty: "ops \<noteq> [] \<Longrightarrow> render_ops ops \<noteq> []"
  by (cases ops) (simp_all add: render_ops_Cons render_op_def)

lemma number_ends_op:
  "number_ends (CHR ''r'' # r)" "number_ends (CHR ''w'' # r)" "number_ends (CHR ''-'' # r)"
  by (simp_all add: number_ends_def is_digit_in_def digit_of_def)

lemma parse_render_step:
  assumes "rest = [] \<or> hd rest = CHR ''-''"
  shows "parse_loop (Suc free) (render_op op @ rest) =
    (let (ops, err) = parse_loop free (tl rest) in (op # ops, err))"
proof -
  let ?c = "if is_write op then CHR ''w'' else CHR ''r''"
  have r: "number_ends rest" using assms by (cases rest) (auto simp: number_ends_op)
  have "number_ends (?c # decimal (unat (op_sz op)) @ rest)" by (simp add: number_ends_op)
  then have 1: "strtoul 10 (render_op op @ rest) = (op_n op, ?c # decimal (unat (op_sz op)) @ rest)"
    using strtoul_decimal [of 10 "?c # decimal (unat (op_sz op)) @ rest" "unat (op_n op)"] unat_lt [of "op_n op"]
    by (simp add: render_op_def)
  have 2: "strtoul 10 (decimal (unat (op_sz op)) @ rest) = (op_sz op, rest)"
    using strtoul_decimal [of 10 rest "unat (op_sz op)"] unat_lt [of "op_sz op"] r by simp
  have "render_op op @ rest \<noteq> []" by (simp add: render_op_def)
  moreover have "hd (?c # decimal (unat (op_sz op)) @ rest) = CHR ''w'' \<longleftrightarrow> is_write op" by simp
  ultimately show ?thesis using assms 1 2 by (auto simp: Let_def split: prod.splits)
qed

lemma parse_loop_render: "parse_loop nops (render_ops ops) = (take nops ops, None)"
proof (induction ops arbitrary: nops)
  case Nil
  show ?case by (cases nops) simp_all
next
  case (Cons op ops)
  show ?case
  proof (cases nops)
    case (Suc free)
    have "parse_loop free (if ops = [] then [] else render_ops ops) = (take free ops, None)"
      using Cons [of free] by (cases "ops = []") simp_all
    then show ?thesis
      unfolding Suc render_ops_Cons by (subst parse_render_step) (auto split: if_splits)
  qed simp
qed

text \<open>
  C33. Round trip of operation sequences: the text of a sequence parses to that sequence, cut
  off without notice at the size of the array.
\<close>

theorem parse_ops_roundtrip:
  "parse_ops (render_ops ops) nops = (int (min nops (length ops)), take nops ops)"
  by (simp add: parse_ops_def parse_loop_render min_def)

lemma get_max_buffer_size_ge:
  assumes "get_max_buffer_size ops nops = Inr m" "i < unat nops"
  shows "op_sz (ops ! i) \<le> m"
proof -
  let ?f = "\<lambda>max_sz op. if op_sz op > max_sz then op_sz op else max_sz"
  have ge: "x \<le> foldl ?f x xs \<and> (\<forall>op \<in> set xs. op_sz op \<le> foldl ?f x xs)" for x xs
  proof (induction xs arbitrary: x)
    case (Cons op xs)
    have "x \<le> ?f x op" "op_sz op \<le> ?f x op" by auto
    with Cons [of "?f x op"] show ?case by (auto intro: order_trans)
  qed simp
  have "ops ! i \<in> set (take (unat nops) ops)"
    using assms by (auto simp: get_max_buffer_size_def in_set_conv_nth split: if_splits intro!: exI [of _ i])
  with ge [of 0 "take (unat nops) ops"] assms(1) show ?thesis
    by (auto simp: get_max_buffer_size_def split: if_splits)
qed

end
