(* ===== verification/CSB_Net.thy ===== *)
theory CSB_Net
  imports CSB_NetOps
begin

text \<open>
  What bench/network/client.c and bench/network/server.c have in common: connections that step
  through the parsed operation sequence. The two programs count the repetitions of an
  operation differently (\<open>>=\<close> and \<open>==\<close>); the locale \<open>stepping\<close> states what both guarantee for
  sequences without empty operations, and both interpret it. \<open>conn_heap\<close> is the heap of
  \<open>conn_data\<close> objects by address.
\<close>

record conn_data =
  step :: u64
  n :: u64
  last_epoll :: u32
  fd :: int

record 'k net =
  eops :: "extracted_op list"
  eops_sz :: u64
  sbuf_size :: u64
  conn_heap :: "int \<Rightarrow> conn_data option"
  next_ptr :: int
  epoll_fd :: int
  nconn :: u64
  net_kern :: 'k

definition MAX_EVS :: nat where "MAX_EVS = 16"

definition MAX_EOPS :: nat where "MAX_EOPS = 128"

text \<open>\<open>eops\<close> holds all the entries of the static array, the unused ones zero.\<close>

definition deref :: "'a option \<Rightarrow> 'a result" where
  "deref p = (case p of None \<Rightarrow> Inl Undefined | Some x \<Rightarrow> Inr x)"

definition eop_at :: "'k net \<Rightarrow> u64 \<Rightarrow> extracted_op result" where
  "eop_at s i = (if unat i < length (eops s) then Inr (eops s ! unat i) else Inl Undefined)"

definition wait_for :: "extracted_op \<Rightarrow> u32" where
  "wait_for op = (if is_write op then EPOLLIN else EPOLLOUT)"

text \<open>\<open>advance_step\<close>, of the client and of the server.\<close>

definition next_step :: "'k net \<Rightarrow> conn_data \<Rightarrow> conn_data result" where
  "next_step s d = (if eops_sz s = 0 then Inl Undefined else Inr (d\<lparr>n := 0, step := (step d + 1) mod eops_sz s\<rparr>))"

definition client_advance_step :: "'k net \<Rightarrow> conn_data \<Rightarrow> conn_data result" where
  "client_advance_step s d =
     (let d1 = d\<lparr>n := n d + 1\<rparr> in
      bind_r (eop_at s (step d1)) (\<lambda>op. if n d1 \<ge> op_n op then next_step s d1 else Inr d1))"

definition server_advance_step :: "'k net \<Rightarrow> conn_data \<Rightarrow> conn_data result" where
  "server_advance_step s d =
     (let d1 = d\<lparr>n := n d + 1\<rparr> in
      bind_r (eop_at s (step d1)) (\<lambda>op. if n d1 = op_n op then next_step s d1 else Inr d1))"

definition put_conn :: "int \<Rightarrow> conn_data \<Rightarrow> 'k net \<Rightarrow> 'k net" where
  "put_conn p d s = s\<lparr>conn_heap := (conn_heap s)(p := Some d)\<rparr>"

text \<open>\<open>config_wait\<close>; a failing \<open>epoll_ctl\<close> is only reported.\<close>

definition config_wait :: "'k kernel \<Rightarrow> int \<Rightarrow> conn_data \<Rightarrow> 'k net \<Rightarrow> 'k net result" where
  "config_wait K p d s =
     bind_r (eop_at s (step d)) (\<lambda>op.
       let next_epoll = wait_for op in
       Inr (if last_epoll d = next_epoll then put_conn p d s
            else (put_conn p (d\<lparr>last_epoll := next_epoll\<rparr>) s)\<lparr>net_kern :=
                   snd (k_epoll_ctl K (epoll_fd s) EPOLL_CTL_MOD (fd d) \<lparr>ev_events = next_epoll, ev_data = p\<rparr> (net_kern s))\<rparr>))"

definition close_conn :: "'k kernel \<Rightarrow> int \<Rightarrow> conn_data \<Rightarrow> 'k net \<Rightarrow> 'k net" where
  "close_conn K p d s =
     (let k1 = snd (k_epoll_ctl K (epoll_fd s) EPOLL_CTL_DEL (fd d) \<lparr>ev_events = 0, ev_data = 0\<rparr> (net_kern s))
      in s\<lparr>conn_heap := (conn_heap s)(p := None), net_kern := snd (k_close K (fd d) k1)\<rparr>)"

section \<open>The server's connections\<close>

definition server_unregister :: "'k kernel \<Rightarrow> int \<Rightarrow> conn_data \<Rightarrow> 'k net \<Rightarrow> 'k net" where
  "server_unregister = close_conn"

definition server_readwrite :: "'k kernel \<Rightarrow> epoll_event \<Rightarrow> 'k net \<Rightarrow> 'k net result" where
  "server_readwrite K ev s =
     (case conn_heap s (ev_data ev) of
        None \<Rightarrow> Inl Undefined
      | Some d \<Rightarrow>
          if ev_events ev AND (EPOLLHUP OR EPOLLERR) \<noteq> 0 then Inr (server_unregister K (ev_data ev) d s)
          else bind_r (eop_at s (step d)) (\<lambda>op.
            c_assert (op_sz op < sbuf_size s)
             (bind_r
               (if ev_events ev AND EPOLLOUT \<noteq> 0
                then c_assert (\<not> is_write op) (Inr (k_send K (fd d) (op_sz op) (net_kern s)))
                else if ev_events ev AND EPOLLIN \<noteq> 0
                then c_assert (is_write op) (Inr (k_recv K (fd d) (op_sz op) (net_kern s)))
                else Inr (0, net_kern s))
               (\<lambda>(r, k1). let s1 = s\<lparr>net_kern := k1\<rparr> in
                 if r = - 1 then Inr (server_unregister K (ev_data ev) d s1)
                 else bind_r (server_advance_step s1 d) (\<lambda>d1.
                   if step d1 = 0 then Inr (server_unregister K (ev_data ev) d1 s1)
                   else config_wait K (ev_data ev) d1 s1)))))"

text \<open>The branch of the server's loop for the listening socket, whose event carries NULL.\<close>

definition server_accept :: "'k kernel \<Rightarrow> int \<Rightarrow> 'k net \<Rightarrow> 'k net result" where
  "server_accept K lsock s =
     (let (cfd, k1) = k_accept K lsock (net_kern s) in
      if cfd = - 1 then Inr (s\<lparr>net_kern := k1\<rparr>)
      else let (ok, k2) = k_malloc K (setnonblocking K cfd k1) in
        if \<not> ok then Inr (s\<lparr>net_kern := snd (k_close K cfd k2)\<rparr>)
        else bind_r (eop_at s 0) (\<lambda>op.
          let p = next_ptr s; d = \<lparr>step = 0, n = 0, last_epoll = wait_for op, fd = cfd\<rparr>;
              (r, k3) = k_epoll_ctl K (epoll_fd s) EPOLL_CTL_ADD cfd \<lparr>ev_events = wait_for op, ev_data = p\<rparr> k2
          in if r = - 1 then Inr (s\<lparr>net_kern := snd (k_close K cfd k3), next_ptr := p + 1\<rparr>)
             else Inr ((put_conn p d s)\<lparr>net_kern := k3, next_ptr := p + 1\<rparr>)))"

fun server_events :: "'k kernel \<Rightarrow> int \<Rightarrow> epoll_event list \<Rightarrow> 'k net \<Rightarrow> 'k net result" where
  "server_events K lsock [] s = Inr s"
| "server_events K lsock (ev # evs) s =
     bind_r (if ev_data ev = 0 then server_accept K lsock s else server_readwrite K ev s)
       (server_events K lsock evs)"

text \<open>
  One turn of the endless loop: \<open>epoll_wait\<close> and its events. The loop itself never returns;
  \<open>server_turns\<close> is its first \<open>turns\<close> turns.
\<close>

definition server_turn :: "'k kernel \<Rightarrow> int \<Rightarrow> 'k net \<Rightarrow> 'k net result" where
  "server_turn K lsock s =
     (let (answer, k1) = k_epoll_wait K (epoll_fd s) MAX_EVS (- 1) (net_kern s); s1 = s\<lparr>net_kern := k1\<rparr> in
      case answer of None \<Rightarrow> Inr s1
      | Some evs \<Rightarrow> if length evs > MAX_EVS then Inl Undefined else server_events K lsock evs s1)"

fun server_turns :: "'k kernel \<Rightarrow> int \<Rightarrow> nat \<Rightarrow> 'k net \<Rightarrow> 'k net result" where
  "server_turns K lsock 0 s = Inr s"
| "server_turns K lsock (Suc turns) s = bind_r (server_turn K lsock s) (server_turns K lsock turns)"

section \<open>The client's connections\<close>

definition client_unregister :: "'k kernel \<Rightarrow> int \<Rightarrow> conn_data \<Rightarrow> 'k net \<Rightarrow> 'k net" where
  "client_unregister K p d s = (close_conn K p d s)\<lparr>nconn := nconn s - 1\<rparr>"

text \<open>\<open>connect\<close>, tried once or, with \<open>retry\<close>, until it succeeds; \<open>tries\<close> bounds the attempts.\<close>

fun connect_loop :: "'k kernel \<Rightarrow> int \<Rightarrow> sockaddr \<Rightarrow> bool \<Rightarrow> nat \<Rightarrow> 'k \<Rightarrow> (int \<times> 'k) result" where
  "connect_loop K sock addr retry 0 k = Inl Starved"
| "connect_loop K sock addr retry (Suc tries) k =
     (let (r, k1) = k_connect K sock addr k in
      if retry \<and> r \<noteq> 0 then connect_loop K sock addr retry tries k1 else Inr (r, k1))"

text \<open>\<open>serv_addr\<close> is a pointer; its family is read, so NULL is undefined behaviour.\<close>

definition register_new :: "'k kernel \<Rightarrow> sockaddr option \<Rightarrow> bool \<Rightarrow> nat \<Rightarrow> 'k net \<Rightarrow> (bool \<times> 'k net) result" where
  "register_new K serv_addr retry_on_fail tries s =
     (let (ok, k1) = k_malloc K (net_kern s) in
      if \<not> ok then Inr (False, s\<lparr>net_kern := k1\<rparr>)
      else bind_r (eop_at s 0) (\<lambda>op. bind_r (deref serv_addr) (\<lambda>addr.
        let p = next_ptr s; (csock, k2) = k_socket K (sa_family addr) k1; s2 = s\<lparr>net_kern := k2, next_ptr := p + 1\<rparr> in
        if csock = - 1 then Inr (False, s2)
        else bind_r (connect_loop K csock addr retry_on_fail tries k2) (\<lambda>(r, k3).
          let s3 = s2\<lparr>net_kern := k3\<rparr> in
          if r = - 1 then Inr (False, s3)
          else let (r4, k4) = k_epoll_ctl K (epoll_fd s) EPOLL_CTL_ADD csock
                     \<lparr>ev_events = wait_for op, ev_data = p\<rparr> (setnonblocking K csock k3);
                   s4 = s3\<lparr>net_kern := k4\<rparr>
            in if r4 = - 1 then Inr (False, s4)
               else Inr (True, (put_conn p \<lparr>step = 0, n = 0, last_epoll = wait_for op, fd = csock\<rparr> s4)
                  \<lparr>nconn := nconn s4 + 1\<rparr>)))))"

text \<open>The inner loop of \<open>readwrite\<close>, which ends when a call returns -1; \<open>calls\<close> bounds them.\<close>

fun client_io_loop :: "'k kernel \<Rightarrow> nat \<Rightarrow> conn_data \<Rightarrow> 'k net \<Rightarrow> (conn_data \<times> 'k net) result" where
  "client_io_loop K 0 d s = Inl Starved"
| "client_io_loop K (Suc calls) d s =
     bind_r (eop_at s (step d)) (\<lambda>op.
       let (r, k1) = (if is_write op then k_recv K (fd d) (op_sz op) (net_kern s)
                      else k_send K (fd d) (op_sz op) (net_kern s));
           s1 = s\<lparr>net_kern := k1\<rparr>
       in if r = - 1 then Inr (d, s1)
          else bind_r (client_advance_step s1 d) (\<lambda>d1. client_io_loop K calls d1 s1))"

definition client_readwrite :: "'k kernel \<Rightarrow> nat \<Rightarrow> epoll_event \<Rightarrow> 'k net \<Rightarrow> 'k net result" where
  "client_readwrite K calls ev s =
     (case conn_heap s (ev_data ev) of
        None \<Rightarrow> Inl Undefined
      | Some d \<Rightarrow>
          if ev_events ev AND (EPOLLHUP OR EPOLLERR) \<noteq> 0 then Inr (client_unregister K (ev_data ev) d s)
          else bind_r (eop_at s (step d)) (\<lambda>op.
            c_assert (op_sz op < sbuf_size s)
             (c_assert (if ev_events ev AND EPOLLOUT \<noteq> 0 then \<not> is_write op
                        else if ev_events ev AND EPOLLIN \<noteq> 0 then is_write op else True)
               (bind_r (client_io_loop K calls d s) (\<lambda>(d1, s1).
                 if k_errno K (net_kern s1) \<noteq> EAGAIN \<and> k_errno K (net_kern s1) \<noteq> ECONNRESET
                 then Inr (client_unregister K (ev_data ev) d1 s1)
                 else config_wait K (ev_data ev) d1 s1)))))"

fun client_events :: "'k kernel \<Rightarrow> nat \<Rightarrow> epoll_event list \<Rightarrow> 'k net \<Rightarrow> 'k net result" where
  "client_events K calls [] s = Inr s"
| "client_events K calls (ev # evs) s = bind_r (client_readwrite K calls ev s) (client_events K calls evs)"

text \<open>\<open>while (est.nconn < num_conn) register_new(...)\<close>: each success adds a connection.\<close>

fun top_up :: "'k kernel \<Rightarrow> sockaddr option \<Rightarrow> nat \<Rightarrow> 'k net \<Rightarrow> 'k net result" where
  "top_up K serv_addr 0 s = Inr s"
| "top_up K serv_addr (Suc missing) s =
     bind_r (register_new K serv_addr False 1 s) (\<lambda>(ok, s1). if ok then top_up K serv_addr missing s1 else Inr s1)"

text \<open>
  The main loop, over at most \<open>turns\<close> turns: it ends when no connection is left or, with
  \<open>only_once\<close>, after the first turn in which \<open>epoll_wait\<close> delivered events.
\<close>

fun client_loop :: "'k kernel \<Rightarrow> sockaddr option \<Rightarrow> nat \<Rightarrow> u64 \<Rightarrow> bool \<Rightarrow> nat \<Rightarrow> 'k net \<Rightarrow> 'k net result" where
  "client_loop K serv_addr calls num_conn only_once 0 s = Inl Starved"
| "client_loop K serv_addr calls num_conn only_once (Suc turns) s =
     (if nconn s = 0 then Inr s
      else let (answer, k1) = k_epoll_wait K (epoll_fd s) MAX_EVS (- 1) (net_kern s); s1 = s\<lparr>net_kern := k1\<rparr> in
        case answer of None \<Rightarrow> client_loop K serv_addr calls num_conn only_once turns s1
        | Some evs \<Rightarrow> if length evs > MAX_EVS then Inl Undefined
            else bind_r (client_events K calls evs s1) (\<lambda>s2.
                 bind_r (top_up K serv_addr (unat num_conn - unat (nconn s2)) s2) (\<lambda>s3.
                 if only_once then Inr s3 else client_loop K serv_addr calls num_conn only_once turns s3)))"

section \<open>The schedule and the interface of advance\_step\<close>

text \<open>
  The operations of a sequence one by one, in the order both programs follow, and the place
  in it that a connection has reached.
\<close>

definition schedule :: "'k net \<Rightarrow> extracted_op list" where
  "schedule s = concat (map (\<lambda>op. replicate (unat (op_n op)) op) (take (unat (eops_sz s)) (eops s)))"

definition position :: "'k net \<Rightarrow> conn_data \<Rightarrow> nat" where
  "position s d = (\<Sum>i<unat (step d). unat (op_n (eops s ! i))) + unat (n d)"

definition cur_op :: "'k net \<Rightarrow> conn_data \<Rightarrow> extracted_op" where
  "cur_op s d = eops s ! unat (step d)"

definition wf_ops :: "'k net \<Rightarrow> bool" where
  "wf_ops s \<longleftrightarrow> 0 < eops_sz s \<and> unat (eops_sz s) \<le> length (eops s) \<and>
     (\<forall>i<unat (eops_sz s). op_n (eops s ! i) \<noteq> 0 \<and> op_sz (eops s ! i) < sbuf_size s)"

definition in_step :: "'k net \<Rightarrow> conn_data \<Rightarrow> bool" where
  "in_step s d \<longleftrightarrow> step d < eops_sz s \<and> n d < op_n (cur_op s d)"

lemma concat_replicate_nth:
  assumes "i < length xs" "j < f (xs ! i)"
  shows "(\<Sum>k<i. f (xs ! k)) + j < length (concat (map (\<lambda>x. replicate (f x) x) xs)) \<and>
    concat (map (\<lambda>x. replicate (f x) x) xs) ! ((\<Sum>k<i. f (xs ! k)) + j) = xs ! i"
  using assms
proof (induction xs arbitrary: i)
  case (Cons x xs)
  show ?case
  proof (cases i)
    case 0
    with Cons.prems show ?thesis by (simp add: nth_append)
  next
    case (Suc i')
    have "(\<Sum>k<Suc i'. f ((x # xs) ! k)) = f x + (\<Sum>k<i'. f (xs ! k))"
      by (simp add: sum.lessThan_Suc_shift del: sum.lessThan_Suc)
    with Suc Cons.IH [of i'] Cons.prems show ?thesis by (simp add: nth_append del: sum.lessThan_Suc)
  qed
qed simp

lemma length_concat_replicate:
  "length (concat (map (\<lambda>x. replicate (f x) x) xs)) = (\<Sum>k<length xs. f (xs ! k))"
  by (induction xs) (simp_all add: sum.lessThan_Suc_shift del: sum.lessThan_Suc)

lemma sched_at:
  assumes "wf_ops s" "in_step s d"
  shows "position s d < length (schedule s)" "schedule s ! position s d = cur_op s d"
proof -
  let ?xs = "take (unat (eops_sz s)) (eops s)"
  have i: "unat (step d) < length ?xs" using assms
    by (simp add: in_step_def wf_ops_def word_less_nat_alt)
  have j: "unat (n d) < unat (op_n (?xs ! unat (step d)))" using assms i
    by (simp add: in_step_def cur_op_def word_less_nat_alt)
  have "(\<Sum>k<unat (step d). unat (op_n (?xs ! k))) = (\<Sum>k<unat (step d). unat (op_n (eops s ! k)))"
    using i by (intro sum.cong) auto
  with concat_replicate_nth [where f = "\<lambda>op. unat (op_n op)", OF i j] i
  show "position s d < length (schedule s)" "schedule s ! position s d = cur_op s d"
    by (simp_all add: schedule_def position_def cur_op_def)
qed

lemma length_schedule:
  assumes "wf_ops s"
  shows "length (schedule s) = (\<Sum>i<unat (eops_sz s). unat (op_n (eops s ! i)))"
proof -
  have "length (schedule s) = (\<Sum>i<length (take (unat (eops_sz s)) (eops s)). unat (op_n (take (unat (eops_sz s)) (eops s) ! i)))"
    unfolding schedule_def by (rule length_concat_replicate)
  also have "\<dots> = (\<Sum>i<unat (eops_sz s). unat (op_n (eops s ! i)))"
    using assms by (intro sum.cong) (auto simp: wf_ops_def)
  finally show ?thesis .
qed

text \<open>
  What both versions of \<open>advance_step\<close> promise for a connection inside a non-empty operation:
  count one repetition and, after the last one, go to the next step.
\<close>

locale stepping =
  fixes advance :: "'k net \<Rightarrow> conn_data \<Rightarrow> conn_data result"
  assumes advance_within: "wf_ops s \<Longrightarrow> in_step s d \<Longrightarrow> n d + 1 < op_n (cur_op s d) \<Longrightarrow>
      advance s d = Inr (d\<lparr>n := n d + 1\<rparr>)"
    and advance_last: "wf_ops s \<Longrightarrow> in_step s d \<Longrightarrow> n d + 1 = op_n (cur_op s d) \<Longrightarrow>
      advance s d = Inr (d\<lparr>n := 0, step := (step d + 1) mod eops_sz s\<rparr>)"
begin

lemma advance_position:
  assumes wf: "wf_ops s" and at: "in_step s d"
  obtains d' where "advance s d = Inr d'" "in_step s d'" "fd d' = fd d" "last_epoll d' = last_epoll d"
    "position s d' = (position s d + 1) mod length (schedule s)"
    "step d' = 0 \<longleftrightarrow> (step d = 0 \<and> n d + 1 < op_n (cur_op s d)) \<or> position s d + 1 = length (schedule s)"
proof -
  note p = sched_at [OF wf at]
  have nn: "unat (n d + 1) = unat (n d) + 1"
    using at unat_lt [of "op_n (cur_op s d)"]
    by (simp add: in_step_def word_less_nat_alt unat_word_ariths)
  have ss: "unat (step d + 1) = unat (step d) + 1"
    using at unat_lt [of "eops_sz s"]
    by (simp add: in_step_def word_less_nat_alt unat_word_ariths)
  have sz: "unat (step d) < unat (eops_sz s)" using at by (simp add: in_step_def word_less_nat_alt)
  consider (within) "n d + 1 < op_n (cur_op s d)" | (wrap) "n d + 1 = op_n (cur_op s d)" "step d + 1 = eops_sz s"
    | (on) "n d + 1 = op_n (cur_op s d)" "step d + 1 < eops_sz s"
    using at nn ss by (auto simp: in_step_def word_less_nat_alt word_unat_eq_iff) linarith+
  then show ?thesis
  proof cases
    case within
    let ?d = "d\<lparr>n := n d + 1\<rparr>"
    have at': "in_step s ?d" using at within by (simp add: in_step_def cur_op_def)
    have "position s ?d = position s d + 1" by (simp add: position_def nn)
    with sched_at(1) [OF wf at'] advance_within [OF wf at within] at' within that show ?thesis by simp
  next
    case wrap
    let ?d = "d\<lparr>n := 0, step := 0\<rparr>"
    have "in_step s ?d" using wf by (simp add: in_step_def cur_op_def wf_ops_def word_neq_0_conv word_less_nat_alt)
    moreover have "position s d + 1 = length (schedule s)"
      using wrap ss nn by (simp add: position_def length_schedule [OF wf] cur_op_def flip: wrap(2))
    moreover have "position s ?d = 0" by (simp add: position_def)
    ultimately show ?thesis using advance_last [OF wf at wrap(1)] wrap(2) that [of ?d] by simp
  next
    case on
    let ?d = "d\<lparr>n := 0, step := step d + 1\<rparr>"
    have at': "in_step s ?d" using wf on ss
      by (simp add: in_step_def cur_op_def wf_ops_def word_neq_0_conv word_less_nat_alt)
    have ps: "position s ?d = position s d + 1"
      using on(1) nn ss by (simp add: position_def cur_op_def)
    have "(step d + 1) mod eops_sz s = step d + 1" using on(2)
      by (simp add: word_less_nat_alt word_unat_eq_iff unat_mod)
    moreover have "step d + 1 \<noteq> 0" using ss by (metis add_is_0 one_neq_zero unat_0)
    ultimately show ?thesis
      using sched_at(1) [OF wf at'] advance_last [OF wf at on(1)] at' ps on(1) that [of ?d] by simp
  qed
qed

end

interpretation client_stepping: stepping client_advance_step
  by unfold_locales
    (auto simp: client_advance_step_def next_step_def eop_at_def in_step_def wf_ops_def cur_op_def word_less_nat_alt word_le_nat_alt Let_def)

interpretation server_stepping: stepping server_advance_step
  by unfold_locales
    (auto simp: server_advance_step_def next_step_def eop_at_def in_step_def wf_ops_def cur_op_def word_less_nat_alt Let_def)

end
