(* ===== verification/CSB_Net_Proofs.thy ===== *)
theory CSB_Net_Proofs
  imports CSB_Net
begin

text \<open>
  Correctness of the connections of bench/network: both programs keep every registered
  connection in step with what it waits for, so that none of their assertions fails on the
  events that epoll delivers; the client goes through the schedule until a call fails, on any
  kernel, and for ever when none does; the server closes a connection when it is back at step 0,
  which it also is after the first repetition of the first operation.
\<close>

definition conn_ok :: "'k net \<Rightarrow> conn_data \<Rightarrow> bool" where
  "conn_ok s d \<longleftrightarrow> in_step s d \<and> last_epoll d = wait_for (cur_op s d)"

definition net_ok :: "'k net \<Rightarrow> bool" where
  "net_ok s \<longleftrightarrow> wf_ops s \<and> 0 < next_ptr s \<and>
     (\<forall>p d. conn_heap s p = Some d \<longrightarrow> 0 < p \<and> p < next_ptr s \<and> conn_ok s d)"

text \<open>What \<open>epoll_wait\<close> delivers for a registered connection: what it waits for, an error or a hangup.\<close>

definition event_for :: "conn_data \<Rightarrow> epoll_event \<Rightarrow> bool" where
  "event_for d ev \<longleftrightarrow> ev_events ev AND NOT (last_epoll d OR (EPOLLHUP OR EPOLLERR)) = 0"

definition event_ok :: "'k net \<Rightarrow> epoll_event \<Rightarrow> bool" where
  "event_ok s ev \<longleftrightarrow> (case conn_heap s (ev_data ev) of None \<Rightarrow> ev_data ev = 0 | Some d \<Rightarrow> event_for d ev)"

definition batch_ok :: "'k net \<Rightarrow> epoll_event list \<Rightarrow> bool" where
  "batch_ok s evs \<longleftrightarrow> list_all (event_ok s) evs \<and> distinct (filter (\<lambda>p. p \<noteq> 0) (map ev_data evs))"

section \<open>What depends on the program only\<close>

lemma prog_frame [simp]:
  "wf_ops (s\<lparr>net_kern := k\<rparr>) = wf_ops s" "wf_ops (s\<lparr>conn_heap := h\<rparr>) = wf_ops s"
  "wf_ops (s\<lparr>next_ptr := q\<rparr>) = wf_ops s" "wf_ops (s\<lparr>nconn := c\<rparr>) = wf_ops s"
  "cur_op (s\<lparr>net_kern := k\<rparr>) = cur_op s" "cur_op (s\<lparr>conn_heap := h\<rparr>) = cur_op s"
  "cur_op (s\<lparr>next_ptr := q\<rparr>) = cur_op s" "cur_op (s\<lparr>nconn := c\<rparr>) = cur_op s"
  by (auto simp: wf_ops_def cur_op_def fun_eq_iff)

lemma in_step_frame [simp]:
  "in_step (s\<lparr>net_kern := k\<rparr>) = in_step s" "in_step (s\<lparr>conn_heap := h\<rparr>) = in_step s"
  "in_step (s\<lparr>next_ptr := q\<rparr>) = in_step s" "in_step (s\<lparr>nconn := c\<rparr>) = in_step s"
  by (auto simp: in_step_def fun_eq_iff)

lemma conn_ok_frame [simp]:
  "conn_ok (s\<lparr>net_kern := k\<rparr>) = conn_ok s" "conn_ok (s\<lparr>conn_heap := h\<rparr>) = conn_ok s"
  "conn_ok (s\<lparr>next_ptr := q\<rparr>) = conn_ok s" "conn_ok (s\<lparr>nconn := c\<rparr>) = conn_ok s"
  by (auto simp: conn_ok_def fun_eq_iff)

lemma schedule_frame [simp]:
  "schedule (s\<lparr>net_kern := k\<rparr>) = schedule s" "schedule (s\<lparr>conn_heap := h\<rparr>) = schedule s"
  "position (s\<lparr>net_kern := k\<rparr>) = position s" "position (s\<lparr>conn_heap := h\<rparr>) = position s"
  by (auto simp: schedule_def position_def fun_eq_iff)

lemma eop_at_in_step: "wf_ops s \<Longrightarrow> in_step s d \<Longrightarrow> eop_at s (step d) = Inr (cur_op s d)"
  by (auto simp: eop_at_def wf_ops_def in_step_def cur_op_def word_less_nat_alt)

lemma eop_at_0: "wf_ops s \<Longrightarrow> eop_at s 0 = Inr (eops s ! 0)"
  by (auto simp: eop_at_def wf_ops_def word_less_nat_alt)

lemma cur_op_sz: "wf_ops s \<Longrightarrow> in_step s d \<Longrightarrow> op_sz (cur_op s d) < sbuf_size s"
  by (auto simp: wf_ops_def in_step_def cur_op_def word_less_nat_alt)

lemma in_step_start: "wf_ops s \<Longrightarrow> in_step s \<lparr>step = 0, n = 0, last_epoll = e, fd = f\<rparr>"
  by (auto simp: wf_ops_def in_step_def cur_op_def word_less_nat_alt word_neq_0_conv)

section \<open>Events\<close>

lemma masked_out: "e AND NOT m = 0 \<Longrightarrow> b AND m = 0 \<Longrightarrow> e AND b = (0 :: 'a::len word)"
  by (metis (no_types, lifting) and.assoc and.commute and.right_neutral bit.conj_disj_distrib bit.disj_cancel_right
      bit.conj_zero_left or.right_neutral)

lemma event_direction:
  assumes "event_for d ev" "last_epoll d = wait_for op" "ev_events ev AND (EPOLLHUP OR EPOLLERR) = 0"
  shows "ev_events ev AND EPOLLOUT \<noteq> 0 \<Longrightarrow> \<not> is_write op"
    and "ev_events ev AND EPOLLIN \<noteq> 0 \<Longrightarrow> is_write op"
  using assms masked_out [of "ev_events ev" "last_epoll d OR (EPOLLHUP OR EPOLLERR)"]
  by (auto simp: event_for_def wait_for_def EPOLLIN_def EPOLLOUT_def EPOLLHUP_def EPOLLERR_def split: if_splits)

section \<open>Keeping the connections in order\<close>

lemma net_okD: "net_ok s \<Longrightarrow> conn_heap s p = Some d \<Longrightarrow> wf_ops s \<and> in_step s d \<and> last_epoll d = wait_for (cur_op s d)"
  by (auto simp: net_ok_def conn_ok_def)

lemma net_ok_set:
  assumes "net_ok s" "conn_heap s p = Some d0" "\<And>d. c = Some d \<Longrightarrow> conn_ok s d"
  shows "net_ok (s\<lparr>conn_heap := (conn_heap s)(p := c), net_kern := k\<rparr>)"
  using assms by (auto simp: net_ok_def split: if_splits)

lemma close_conn_eq: "\<exists>k. close_conn K p d s = s\<lparr>conn_heap := (conn_heap s)(p := None), net_kern := k\<rparr>"
  by (auto simp: close_conn_def Let_def)

lemma config_wait_eq:
  assumes "wf_ops s" "in_step s d"
  obtains k where "config_wait K p d s =
    Inr (s\<lparr>conn_heap := (conn_heap s)(p := Some (d\<lparr>last_epoll := wait_for (cur_op s d)\<rparr>)), net_kern := k\<rparr>)"
proof (cases "last_epoll d = wait_for (cur_op s d)")
  case True
  then have "d\<lparr>last_epoll := wait_for (cur_op s d)\<rparr> = d" by (simp flip: True)
  with True that [of "net_kern s"] assms show ?thesis by (simp add: config_wait_def eop_at_in_step put_conn_def)
next
  case False
  with that assms show ?thesis by (simp add: config_wait_def eop_at_in_step put_conn_def Let_def)
qed

lemma conn_ok_last_epoll: "in_step s d \<Longrightarrow> conn_ok s (d\<lparr>last_epoll := wait_for (cur_op s d)\<rparr>)"
  by (simp add: conn_ok_def in_step_def cur_op_def)

lemma config_wait_ok:
  assumes "net_ok s" "conn_heap s p = Some d0" "in_step s d"
  shows "\<exists>c k. config_wait K p d s = Inr (s\<lparr>conn_heap := (conn_heap s)(p := c), net_kern := k\<rparr>) \<and>
    net_ok (s\<lparr>conn_heap := (conn_heap s)(p := c), net_kern := k\<rparr>)"
proof -
  have "wf_ops s" using assms(1) by (simp add: net_ok_def)
  then obtain k where "config_wait K p d s =
      Inr (s\<lparr>conn_heap := (conn_heap s)(p := Some (d\<lparr>last_epoll := wait_for (cur_op s d)\<rparr>)), net_kern := k\<rparr>)"
    using config_wait_eq [OF _ assms(3)] by blast
  moreover have "net_ok (s\<lparr>conn_heap := (conn_heap s)(p := Some (d\<lparr>last_epoll := wait_for (cur_op s d)\<rparr>)), net_kern := k\<rparr>)"
    by (rule net_ok_set [OF assms(1,2)]) (use conn_ok_last_epoll [OF assms(3)] in simp)
  ultimately show ?thesis by blast
qed

text \<open>What handling one event may change.\<close>

definition conn_change :: "'k net \<Rightarrow> int \<Rightarrow> 'k net \<Rightarrow> bool" where
  "conn_change s p s' \<longleftrightarrow> net_ok s' \<and> (\<forall>q. q \<noteq> p \<longrightarrow> conn_heap s' q = conn_heap s q)"

lemma unregister_change:
  assumes "net_ok s" "conn_heap s p = Some d0"
  shows "conn_change s p (server_unregister K p d (s\<lparr>net_kern := k\<rparr>))"
proof -
  obtain k' where "close_conn K p d (s\<lparr>net_kern := k\<rparr>) = s\<lparr>conn_heap := (conn_heap s)(p := None), net_kern := k'\<rparr>"
    using close_conn_eq [of K p d "s\<lparr>net_kern := k\<rparr>"] by auto
  with net_ok_set [OF assms, of None] show ?thesis by (simp add: conn_change_def server_unregister_def)
qed

lemma config_wait_change:
  assumes "net_ok s" "conn_heap s p = Some d0" "in_step s d"
  shows "\<exists>s'. config_wait K p d (s\<lparr>net_kern := k\<rparr>) = Inr s' \<and> conn_change s p s'"
proof -
  have "net_ok (s\<lparr>net_kern := k\<rparr>)" using assms(1) by (auto simp: net_ok_def)
  then obtain c k' where "config_wait K p d (s\<lparr>net_kern := k\<rparr>) = Inr (s\<lparr>conn_heap := (conn_heap s)(p := c), net_kern := k'\<rparr>)"
      "net_ok (s\<lparr>conn_heap := (conn_heap s)(p := c), net_kern := k'\<rparr>)"
    using config_wait_ok [of "s\<lparr>net_kern := k\<rparr>" p d0 d K] assms by auto
  then show ?thesis by (simp add: conn_change_def)
qed

lemma server_readwrite_ok:
  assumes ok: "net_ok s" and d: "conn_heap s (ev_data ev) = Some d" and ev: "event_for d ev"
  shows "\<exists>s'. server_readwrite K ev s = Inr s' \<and> conn_change s (ev_data ev) s'"
proof (cases "ev_events ev AND (EPOLLHUP OR EPOLLERR) = 0")
  case False
  with d unregister_change [OF ok d, of K d "net_kern s"] show ?thesis by (simp add: server_readwrite_def)
next
  case True
  let ?op = "cur_op s d"
  note D = net_okD [OF ok d]
  define io where "io = (if ev_events ev AND EPOLLOUT \<noteq> 0
                then c_assert (\<not> is_write ?op) (Inr (k_send K (fd d) (op_sz ?op) (net_kern s)))
                else if ev_events ev AND EPOLLIN \<noteq> 0
                then c_assert (is_write ?op) (Inr (k_recv K (fd d) (op_sz ?op) (net_kern s)))
                else Inr (0, net_kern s))"
  have "\<exists>r k1. io = Inr (r, k1)"
    using event_direction [OF ev _ True, of ?op] D by (simp add: io_def)
  then obtain r k1 where r: "io = Inr (r, k1)" by blast
  obtain d1 where d1: "server_advance_step (s\<lparr>net_kern := k1\<rparr>) d = Inr d1" "in_step s d1"
    using server_stepping.advance_position [of "s\<lparr>net_kern := k1\<rparr>" d] D by auto
  show ?thesis
    using d True D cur_op_sz [of s d] d1 unregister_change [OF ok d, of K _ k1]
      config_wait_change [OF ok d d1(2), of K k1]
    by (simp add: server_readwrite_def eop_at_in_step r Let_def flip: io_def)
qed

lemma server_accept_ok:
  assumes ok: "net_ok s"
  shows "\<exists>s'. server_accept K lsock s = Inr s' \<and> net_ok s' \<and>
    (\<forall>p < next_ptr s. conn_heap s' p = conn_heap s p)"
proof -
  have wf: "wf_ops s" using ok by (simp add: net_ok_def)
  have add: "net_ok ((put_conn (next_ptr s) \<lparr>step = 0, n = 0, last_epoll = wait_for (eops s ! 0), fd = f\<rparr> s)
      \<lparr>net_kern := k, next_ptr := next_ptr s + 1\<rparr>)" for f k
    using ok in_step_start [OF wf] by (force simp: net_ok_def put_conn_def conn_ok_def cur_op_def)
  have keep: "net_ok (s\<lparr>net_kern := k\<rparr>)" for k using ok by (auto simp: net_ok_def)
  have skip: "net_ok (s\<lparr>net_kern := k, next_ptr := next_ptr s + 1\<rparr>)" for k using ok by (force simp: net_ok_def)
  show ?thesis using add keep skip wf
    by (auto simp: server_accept_def eop_at_0 Let_def put_conn_def split: prod.splits)
qed

lemma batch_ok_rest:
  assumes b: "batch_ok s (ev # evs)" and ev: "ev_data ev \<noteq> 0" and c: "conn_change s (ev_data ev) s1"
  shows "batch_ok s1 evs"
proof -
  have "event_ok s1 e" if "e \<in> set evs" for e
  proof -
    have "ev_data ev \<notin> ev_data ` set evs" using b ev by (simp add: batch_ok_def)
    with that have "ev_data e \<noteq> ev_data ev" by (metis imageI)
    moreover have "event_ok s e" using b that by (simp add: batch_ok_def list_all_iff)
    ultimately show ?thesis using c by (simp add: event_ok_def conn_change_def)
  qed
  with b ev show ?thesis by (simp add: batch_ok_def list_all_iff)
qed

text \<open>
  C29. No assertion of the server fails and no access leaves its arrays: on a batch of events
  that epoll can deliver for the listening socket and the registered connections, the server
  handles every event and keeps each connection waiting for the direction of its current
  operation.
\<close>

theorem server_handles_batch:
  assumes "net_ok s" "batch_ok s evs"
  shows "\<exists>s'. server_events K lsock evs s = Inr s' \<and> net_ok s'"
  using assms
proof (induction evs arbitrary: s)
  case (Cons ev evs)
  have ev: "event_ok s ev" using Cons.prems(2) by (simp add: batch_ok_def)
  show ?case
  proof (cases "ev_data ev = 0")
    case True
    then obtain s1 where s1: "server_accept K lsock s = Inr s1" "net_ok s1"
        "\<forall>p < next_ptr s. conn_heap s1 p = conn_heap s p"
      using server_accept_ok [OF Cons.prems(1)] by blast
    have "event_ok s1 e" if "event_ok s e" for e
      using that s1(3) Cons.prems(1) by (force simp: event_ok_def net_ok_def split: option.splits)
    then have "batch_ok s1 evs" using Cons.prems(2) by (auto simp: batch_ok_def list_all_iff split: if_splits)
    with Cons.IH [OF s1(2)] True s1(1) show ?thesis by simp
  next
    case False
    then obtain d where d: "conn_heap s (ev_data ev) = Some d" "event_for d ev"
      using ev by (auto simp: event_ok_def split: option.splits)
    then obtain s1 where s1: "server_readwrite K ev s = Inr s1" "conn_change s (ev_data ev) s1"
      using server_readwrite_ok [OF Cons.prems(1)] by blast
    then have "batch_ok s1 evs" using batch_ok_rest [OF Cons.prems(2) False] by simp
    with Cons.IH [of s1] False s1 show ?thesis by (simp add: conn_change_def)
  qed
qed simp

section \<open>Calls that move data\<close>

text \<open>
  What the server is given when it sends and receives: \<open>room k\<close> says of how many more calls it is
  known that they succeed, whatever happens after them; a call that succeeds is logged. Closing
  and configuring connections moves no data and does not make less of it succeed. \<open>log\<close> and
  \<open>room\<close> observe the kernel's state.
\<close>

type_synonym io = "int \<times> bool \<times> u64"

definition io_answer :: "('k \<Rightarrow> io list) \<Rightarrow> ('k \<Rightarrow> nat) \<Rightarrow> io \<Rightarrow> 'k \<Rightarrow> int \<times> 'k \<Rightarrow> bool" where
  "io_answer log room x k a \<longleftrightarrow>
     (0 < room k \<longrightarrow> fst a \<noteq> - 1 \<and> room k - 1 \<le> room (snd a) \<and> log (snd a) = log k @ [x])"

definition kernel_io :: "'k kernel \<Rightarrow> ('k \<Rightarrow> io list) \<Rightarrow> ('k \<Rightarrow> nat) \<Rightarrow> bool" where
  "kernel_io K log room \<longleftrightarrow>
     (\<forall>f sz k. io_answer log room (f, False, sz) k (k_send K f sz k)) \<and>
     (\<forall>f sz k. io_answer log room (f, True, sz) k (k_recv K f sz k)) \<and>
     (\<forall>e c f ev k. log (snd (k_epoll_ctl K e c f ev k)) = log k \<and> room k \<le> room (snd (k_epoll_ctl K e c f ev k))) \<and>
     (\<forall>f k. log (snd (k_close K f k)) = log k \<and> room k \<le> room (snd (k_close K f k)))"

definition io_of :: "int \<Rightarrow> extracted_op \<Rightarrow> io" where
  "io_of f op = (f, is_write op, op_sz op)"

definition perform :: "'k kernel \<Rightarrow> int \<Rightarrow> extracted_op \<Rightarrow> 'k \<Rightarrow> int \<times> 'k" where
  "perform K f op k = (if is_write op then k_recv K f (op_sz op) k else k_send K f (op_sz op) k)"

lemma perform_answer: "kernel_io K log room \<Longrightarrow> io_answer log room (io_of f op) k (perform K f op k)"
  by (cases "is_write op") (simp_all add: kernel_io_def io_of_def perform_def)

lemma close_conn_io: "kernel_io K log room \<Longrightarrow>
    log (net_kern (close_conn K p d s)) = log (net_kern s) \<and> room (net_kern s) \<le> room (net_kern (close_conn K p d s))"
  unfolding kernel_io_def close_conn_def Let_def by (simp, meson order_trans)

lemma config_wait_io:
  "kernel_io K log room \<Longrightarrow> config_wait K p d s = Inr s' \<Longrightarrow>
    log (net_kern s') = log (net_kern s) \<and> room (net_kern s) \<le> room (net_kern s')"
  by (auto simp: kernel_io_def config_wait_def put_conn_def Let_def)

text \<open>The operations that \<open>m\<close> calls perform from the place \<open>i\<close> of the schedule on.\<close>

definition cyclic :: "'k net \<Rightarrow> nat \<Rightarrow> nat \<Rightarrow> extracted_op list" where
  "cyclic s i m = map (\<lambda>j. schedule s ! ((i + j) mod length (schedule s))) [0..<m]"

lemma cyclic_frame [simp]:
  "cyclic (s\<lparr>net_kern := k\<rparr>) = cyclic s" "cyclic (s\<lparr>conn_heap := h\<rparr>) = cyclic s"
  by (simp_all add: cyclic_def fun_eq_iff)

lemma cyclic_0 [simp]: "cyclic s i 0 = []"
  by (simp add: cyclic_def)

lemma cyclic_Suc:
  "i < length (schedule s) \<Longrightarrow> cyclic s i (Suc m) = schedule s ! i # cyclic s ((i + 1) mod length (schedule s)) m"
proof -
  assume i: "i < length (schedule s)"
  have "cyclic s i (Suc m) = schedule s ! i # map (\<lambda>j. schedule s ! ((i + j) mod length (schedule s))) [1..<Suc m]"
    using i by (simp add: cyclic_def upt_conv_Cons del: upt_Suc)
  also have "map (\<lambda>j. schedule s ! ((i + j) mod length (schedule s))) [1..<Suc m] = cyclic s ((i + 1) mod length (schedule s)) m"
    unfolding cyclic_def One_nat_def map_Suc_upt [symmetric] map_map o_def by (simp add: mod_simps)
  finally show ?thesis .
qed

text \<open>The answers of the kernel to a list of operations on a socket, and the kernel afterwards.\<close>

fun performs :: "'k kernel \<Rightarrow> int \<Rightarrow> extracted_op list \<Rightarrow> 'k \<Rightarrow> int list \<times> 'k" where
  "performs K f [] k = ([], k)"
| "performs K f (op # ops) k = (let (r, k1) = perform K f op k; (rs, k2) = performs K f ops k1 in (r # rs, k2))"

lemma client_io_loop_Suc:
  assumes "wf_ops s" "in_step s d" "perform K (fd d) (cur_op s d) (net_kern s) = (r, k1)"
  shows "client_io_loop K (Suc calls) d s =
     (if r = - 1 then Inr (d, s\<lparr>net_kern := k1\<rparr>)
      else bind_r (client_advance_step (s\<lparr>net_kern := k1\<rparr>) d) (\<lambda>d1. client_io_loop K calls d1 (s\<lparr>net_kern := k1\<rparr>)))"
  using assms by (simp add: eop_at_in_step perform_def Let_def split: if_splits)

lemma client_advance_frame:
  assumes "wf_ops s" "in_step s d"
  obtains d1 where "client_advance_step (s\<lparr>net_kern := k1\<rparr>) d = Inr d1" "in_step s d1" "fd d1 = fd d" "last_epoll d1 = last_epoll d"
    "position s d1 = (position s d + 1) mod length (schedule s)"
  using client_stepping.advance_position [of "s\<lparr>net_kern := k1\<rparr>" d] assms by auto

text \<open>As long as no call fails, the loop performs the schedule.\<close>

lemma client_io_loop_follows:
  assumes "wf_ops s" "in_step s d" "performs K (fd d) (cyclic s (position s d) m) (net_kern s) = (rs, k)" "- 1 \<notin> set rs"
  shows "\<exists>d'. in_step s d' \<and> fd d' = fd d \<and> last_epoll d' = last_epoll d \<and>
    position s d' = (position s d + m) mod length (schedule s) \<and>
    (\<forall>calls. client_io_loop K (m + calls) d s = client_io_loop K calls d' (s\<lparr>net_kern := k\<rparr>))"
  using assms
proof (induction m arbitrary: d s rs)
  case 0
  then have "k = net_kern s" by simp
  then have "s\<lparr>net_kern := k\<rparr> = s" by simp
  with 0(2) sched_at(1) [OF 0(1,2)] show ?case by (intro exI [of _ d]) simp
next
  case (Suc m)
  note pos = sched_at [OF Suc.prems(1,2)]
  obtain r k1 where r: "perform K (fd d) (cur_op s d) (net_kern s) = (r, k1)" by fastforce
  obtain rs' k2 where rs': "performs K (fd d) (cyclic s ((position s d + 1) mod length (schedule s)) m) k1 = (rs', k2)" by fastforce
  have ok: "r \<noteq> - 1" "- 1 \<notin> set rs'" "k2 = k"
    using Suc.prems(3,4) rs' r pos by (auto simp: cyclic_Suc)
  obtain d1 where d1: "client_advance_step (s\<lparr>net_kern := k1\<rparr>) d = Inr d1" "in_step s d1" "fd d1 = fd d" "last_epoll d1 = last_epoll d"
    "position s d1 = (position s d + 1) mod length (schedule s)"
    by (rule client_advance_frame [OF Suc.prems(1,2)])
  from Suc.IH [of "s\<lparr>net_kern := k1\<rparr>" d1 rs'] Suc.prems(1) d1 rs' ok obtain d' where
    d': "in_step s d'" "fd d' = fd d" "last_epoll d' = last_epoll d" "position s d' = (position s d1 + m) mod length (schedule s)"
      "\<forall>calls. client_io_loop K (m + calls) d1 (s\<lparr>net_kern := k1\<rparr>) = client_io_loop K calls d' (s\<lparr>net_kern := k\<rparr>)"
    by auto
  have "position s d' = (position s d + Suc m) mod length (schedule s)" using d'(4) d1(5) by (simp add: mod_simps)
  moreover have "client_io_loop K (Suc m + calls) d s = client_io_loop K calls d' (s\<lparr>net_kern := k\<rparr>)" for calls
    using client_io_loop_Suc [OF Suc.prems(1,2) r, of "m + calls"] ok(1) d1(1) d'(5) by (simp del: client_io_loop.simps)
  ultimately show ?case using d' by (intro exI [of _ d']) simp
qed

lemma client_io_loop_total:
  assumes "wf_ops s" "in_step s d"
  shows "(\<exists>d' k'. client_io_loop K calls d s = Inr (d', s\<lparr>net_kern := k'\<rparr>) \<and> in_step s d') \<or>
    client_io_loop K calls d s = Inl Starved \<and> - 1 \<notin> set (fst (performs K (fd d) (cyclic s (position s d) calls) (net_kern s)))"
  using assms
proof (induction calls arbitrary: d s)
  case (Suc calls)
  note pos = sched_at [OF Suc.prems(1,2)]
  obtain r k1 where r: "perform K (fd d) (cur_op s d) (net_kern s) = (r, k1)" by fastforce
  note loop = client_io_loop_Suc [OF Suc.prems(1,2) r, of calls]
  obtain d1 where d1: "client_advance_step (s\<lparr>net_kern := k1\<rparr>) d = Inr d1" "in_step s d1" "fd d1 = fd d" "last_epoll d1 = last_epoll d"
    "position s d1 = (position s d + 1) mod length (schedule s)"
    by (rule client_advance_frame [OF Suc.prems(1,2)])
  show ?case
  proof (cases "r = - 1")
    case True
    with loop Suc.prems(2) show ?thesis by (auto simp del: client_io_loop.simps)
  next
    case False
    have "fst (performs K (fd d) (cyclic s (position s d) (Suc calls)) (net_kern s)) =
        r # fst (performs K (fd d) (cyclic s (position s d1) calls) k1)"
      using pos r d1(5) by (simp add: cyclic_Suc split_beta)
    with Suc.IH [of "s\<lparr>net_kern := k1\<rparr>" d1] Suc.prems(1) d1(1-3) loop False show ?thesis
      by (fastforce simp del: client_io_loop.simps)
  qed
qed simp

lemma client_unregister_change:
  assumes "net_ok s" "conn_heap s p = Some d0"
  shows "conn_change s p (client_unregister K p d (s\<lparr>net_kern := k\<rparr>))"
proof -
  obtain k' where "close_conn K p d (s\<lparr>net_kern := k\<rparr>) = s\<lparr>conn_heap := (conn_heap s)(p := None), net_kern := k'\<rparr>"
    using close_conn_eq [of K p d "s\<lparr>net_kern := k\<rparr>"] by auto
  with net_ok_set [OF assms, of None] show ?thesis
    by (simp add: conn_change_def client_unregister_def) (auto simp: net_ok_def)
qed

text \<open>Entering \<open>readwrite\<close> on an event that is neither an error nor a hangup.\<close>

lemma client_readwrite_enter:
  assumes ok: "net_ok s" and d: "conn_heap s (ev_data ev) = Some d" and ev: "event_for d ev"
    and h: "ev_events ev AND (EPOLLHUP OR EPOLLERR) = 0"
  shows "client_readwrite K calls ev s = bind_r (client_io_loop K calls d s) (\<lambda>(d1, s1).
     if k_errno K (net_kern s1) \<noteq> EAGAIN \<and> k_errno K (net_kern s1) \<noteq> ECONNRESET
     then Inr (client_unregister K (ev_data ev) d1 s1) else config_wait K (ev_data ev) d1 s1)"
proof -
  note D = net_okD [OF ok d]
  show ?thesis using d h D cur_op_sz [of s d] event_direction [OF ev _ h, of "cur_op s d"]
    by (simp add: client_readwrite_def eop_at_in_step)
qed

text \<open>What an event leaves behind, for any kernel: order, or a loop that is still running.\<close>

definition same_program :: "'k net \<Rightarrow> 'k net \<Rightarrow> bool" where
  "same_program s s' \<longleftrightarrow> eops s' = eops s \<and> eops_sz s' = eops_sz s"

lemma close_conn_program: "same_program s (close_conn K p d s)"
  by (simp add: same_program_def close_conn_def Let_def)

lemma same_program_cyclic: "same_program s s' \<Longrightarrow> cyclic s' = cyclic s"
  by (simp add: same_program_def cyclic_def schedule_def fun_eq_iff)

lemma same_program_trans: "same_program s s1 \<Longrightarrow> same_program s1 s2 \<Longrightarrow> same_program s s2"
  by (simp add: same_program_def)

lemma client_unregister_program: "same_program s (client_unregister K p d (s\<lparr>net_kern := k\<rparr>))"
  by (simp add: same_program_def client_unregister_def close_conn_def Let_def)

lemma config_wait_program: "config_wait K p d (s\<lparr>net_kern := k\<rparr>) = Inr s' \<Longrightarrow> same_program s s'"
  by (auto simp: same_program_def config_wait_def put_conn_def Let_def)

lemma client_readwrite_total:
  assumes ok: "net_ok s" and d: "conn_heap s (ev_data ev) = Some d" and ev: "event_for d ev"
  shows "(\<exists>s'. client_readwrite K calls ev s = Inr s' \<and> conn_change s (ev_data ev) s' \<and> same_program s s') \<or>
    client_readwrite K calls ev s = Inl Starved \<and> - 1 \<notin> set (fst (performs K (fd d) (cyclic s (position s d) calls) (net_kern s)))"
proof (cases "ev_events ev AND (EPOLLHUP OR EPOLLERR) = 0")
  case False
  with d client_unregister_change [OF ok d, of K d "net_kern s"] client_unregister_program [of s K "ev_data ev" d "net_kern s"]
  show ?thesis by (simp add: client_readwrite_def)
next
  case True
  note enter = client_readwrite_enter [OF ok d ev True, of K calls]
  note D = net_okD [OF ok d]
  from client_io_loop_total [of s d K calls] D consider
    (stops) d1 k1 where "client_io_loop K calls d s = Inr (d1, s\<lparr>net_kern := k1\<rparr>)" "in_step s d1"
    | (spins) "client_io_loop K calls d s = Inl Starved"
        "- 1 \<notin> set (fst (performs K (fd d) (cyclic s (position s d) calls) (net_kern s)))" by blast
  then show ?thesis
  proof cases
    case stops
    obtain s2 where "config_wait K (ev_data ev) d1 (s\<lparr>net_kern := k1\<rparr>) = Inr s2" "conn_change s (ev_data ev) s2"
      using config_wait_change [OF ok d stops(2), of K k1] by blast
    with enter stops client_unregister_change [OF ok d, of K d1 k1] config_wait_program client_unregister_program
    show ?thesis by (cases "k_errno K k1 \<noteq> EAGAIN \<and> k_errno K k1 \<noteq> ECONNRESET") auto
  qed (use enter in simp)
qed

lemma client_readwrite_runs:
  assumes "net_ok s" "conn_heap s (ev_data ev) = Some d" "event_for d ev" "ev_events ev AND (EPOLLHUP OR EPOLLERR) = 0"
    "performs K (fd d) (cyclic s (position s d) m) (net_kern s) = (rs, k)" "- 1 \<notin> set rs"
  shows "client_readwrite K m ev s = Inl Starved"
  using client_io_loop_follows [OF _ _ assms(5,6)] net_okD [OF assms(1,2)] client_readwrite_enter [OF assms(1-4), of K m]
  by (metis add_0_right bind_r.simps(1) client_io_loop.simps(1))

lemma client_readwrite_fails_at:
  assumes "net_ok s" "conn_heap s (ev_data ev) = Some d" "event_for d ev" "ev_events ev AND (EPOLLHUP OR EPOLLERR) = 0"
    "performs K (fd d) (cyclic s (position s d) m) (net_kern s) = (rs, k)" "- 1 \<notin> set rs"
    "perform K (fd d) (schedule s ! ((position s d + m) mod length (schedule s))) k = (- 1, k')" "m < calls"
  shows "\<exists>d' s'. client_readwrite K calls ev s = Inr s' \<and> net_ok s' \<and> fd d' = fd d \<and>
        position s d' = (position s d + m) mod length (schedule s) \<and>
        (if k_errno K k' = EAGAIN \<or> k_errno K k' = ECONNRESET
         then config_wait K (ev_data ev) d' (s\<lparr>net_kern := k'\<rparr>) = Inr s' \<and>
           conn_heap s' (ev_data ev) = Some (d'\<lparr>last_epoll := wait_for (cur_op s d')\<rparr>)
         else s' = client_unregister K (ev_data ev) d' (s\<lparr>net_kern := k'\<rparr>) \<and> conn_heap s' (ev_data ev) = None)"
proof -
  note D = net_okD [OF assms(1,2)]
  obtain d' where d': "in_step s d'" "fd d' = fd d" "position s d' = (position s d + m) mod length (schedule s)"
      "\<And>calls. client_io_loop K (m + calls) d s = client_io_loop K calls d' (s\<lparr>net_kern := k\<rparr>)"
    using client_io_loop_follows [OF _ _ assms(5,6)] D by blast
  note enter = client_readwrite_enter [OF assms(1-4), of K calls]
  obtain c where c: "calls = m + Suc c" using assms(8) less_imp_Suc_add by fastforce
  have "perform K (fd d') (cur_op s d') k = (- 1, k')" using assms(7) d'(1-3) sched_at(2) [of s d'] D by simp
  then have loop: "client_io_loop K calls d s = Inr (d', s\<lparr>net_kern := k'\<rparr>)"
    using client_io_loop_Suc [of "s\<lparr>net_kern := k\<rparr>" d' K "- 1" k' c] D d'(1) d'(4) [of "Suc c"] c by (simp del: client_io_loop.simps)
  obtain k2 where w: "config_wait K (ev_data ev) d' (s\<lparr>net_kern := k'\<rparr>) = Inr (s\<lparr>conn_heap := (conn_heap s)(ev_data ev :=
      Some (d'\<lparr>last_epoll := wait_for (cur_op s d')\<rparr>)), net_kern := k2\<rparr>)"
    using config_wait_eq [of "s\<lparr>net_kern := k'\<rparr>" d' K "ev_data ev"] D d'(1) by auto
  obtain s2 where s2: "config_wait K (ev_data ev) d' (s\<lparr>net_kern := k'\<rparr>) = Inr s2" "net_ok s2"
    using config_wait_change [OF assms(1,2) d'(1), of K k'] by (auto simp: conn_change_def)
  have u: "net_ok (client_unregister K (ev_data ev) d' (s\<lparr>net_kern := k'\<rparr>))"
      "conn_heap (client_unregister K (ev_data ev) d' (s\<lparr>net_kern := k'\<rparr>)) (ev_data ev) = None"
    using client_unregister_change [OF assms(1,2), of K d' k']
    by (simp_all add: conn_change_def client_unregister_def close_conn_def Let_def)
  show ?thesis
  proof (cases "k_errno K k' = EAGAIN \<or> k_errno K k' = ECONNRESET")
    case True
    with enter loop have "client_readwrite K calls ev s = Inr s2" using s2(1) by auto
    with True s2 w d'(2,3) show ?thesis by (intro exI [of _ d'] exI [of _ s2]) auto
  next
    case False
    with enter loop u d'(2,3) show ?thesis
      by (intro exI [of _ d'] exI [of _ "client_unregister K (ev_data ev) d' (s\<lparr>net_kern := k'\<rparr>)"]) simp
  qed
qed

text \<open>
  C27. The client performs the schedule, on any kernel: on an event for a connection it sends and
  receives exactly the next operations of the schedule, in order and round and round, until the
  first call that fails. If the first \<open>m\<close> calls are answered and the next one fails, the event is
  handled with just these calls: the connection is left at the place it has reached, or closed
  when the error is neither EAGAIN nor ECONNRESET. As long as no call fails the loop goes on: it
  is not done after \<open>m\<close> calls (\<open>Starved\<close>), whatever they returned.
\<close>

theorem client_follows_schedule:
  assumes "net_ok s" "conn_heap s (ev_data ev) = Some d" "event_for d ev" "ev_events ev AND (EPOLLHUP OR EPOLLERR) = 0"
    "performs K (fd d) (cyclic s (position s d) m) (net_kern s) = (rs, k)" "- 1 \<notin> set rs"
    "perform K (fd d) (schedule s ! ((position s d + m) mod length (schedule s))) k = (r, k')"
  shows "client_readwrite K m ev s = Inl Starved \<and>
    (r = - 1 \<longrightarrow> (\<forall>calls > m.
      \<exists>d' s'. client_readwrite K calls ev s = Inr s' \<and> net_ok s' \<and> fd d' = fd d \<and>
        position s d' = (position s d + m) mod length (schedule s) \<and>
        (if k_errno K k' = EAGAIN \<or> k_errno K k' = ECONNRESET
         then config_wait K (ev_data ev) d' (s\<lparr>net_kern := k'\<rparr>) = Inr s' \<and>
           conn_heap s' (ev_data ev) = Some (d'\<lparr>last_epoll := wait_for (cur_op s d')\<rparr>)
         else s' = client_unregister K (ev_data ev) d' (s\<lparr>net_kern := k'\<rparr>) \<and> conn_heap s' (ev_data ev) = None)))"
  using client_readwrite_runs [OF assms(1-6)] client_readwrite_fails_at [OF assms(1-6)] assms(7) by simp

text \<open>
  C28. The end of a connection is taken for data: when the peer has closed its side, \<open>recv\<close> returns 0
  from then on, and the client counts each 0 as an operation performed. With a sequence that only
  receives, the loop over one event never ends: it is not done after any number of calls.
\<close>

theorem client_spins_at_end_of_file:
  assumes "net_ok s" "conn_heap s (ev_data ev) = Some d" "event_for d ev" "ev_events ev AND (EPOLLHUP OR EPOLLERR) = 0"
    "list_all is_write (schedule s)" "at_eof (net_kern s)"
    "\<And>sz k. at_eof k \<Longrightarrow> fst (k_recv K (fd d) sz k) = 0 \<and> at_eof (snd (k_recv K (fd d) sz k))"
  shows "client_readwrite K calls ev s = Inl Starved"
proof -
  have "0 < length (schedule s)" using sched_at(1) [of s d] net_okD [OF assms(1,2)] by force
  then have ops: "list_all is_write (cyclic s i m)" for i m
    using assms(5) by (simp add: cyclic_def list_all_iff)
  have "- 1 \<notin> set (fst (performs K (fd d) ops k))" if "list_all is_write ops" "at_eof k" for ops k
    using that
  proof (induction ops arbitrary: k)
    case (Cons op ops)
    have "fst (perform K (fd d) op k) = 0" "at_eof (snd (perform K (fd d) op k))"
      using assms(7) [OF Cons.prems(2)] Cons.prems(1) by (simp_all add: perform_def)
    with Cons show ?case by (simp add: split_beta)
  qed simp
  from this [OF ops assms(6)] client_readwrite_runs [OF assms(1-4)] show ?thesis by (metis prod.collapse)
qed

section \<open>A turn of the client\<close>

text \<open>
  A kernel on which the calls of a connection run dry: of any \<open>m\<close> operations in a row of the
  schedule, on one socket and from any state, one fails. Sockets do not share this.
\<close>

definition runs_dry :: "'k kernel \<Rightarrow> 'k net \<Rightarrow> nat \<Rightarrow> bool" where
  "runs_dry K s m \<longleftrightarrow> (\<forall>f i k. - 1 \<in> set (fst (performs K f (cyclic s i m) k)))"

lemma client_events_ok:
  "net_ok s \<Longrightarrow> batch_ok s evs \<Longrightarrow> 0 \<notin> ev_data ` set evs \<Longrightarrow>
    (\<exists>s'. client_events K calls evs s = Inr s' \<and> net_ok s') \<or>
    client_events K calls evs s = Inl Starved \<and> \<not> runs_dry K s calls"
proof (induction evs arbitrary: s)
  case (Cons ev evs)
  have ev: "event_ok s ev" "ev_data ev \<noteq> 0" using Cons.prems by (auto simp: batch_ok_def)
  then obtain d where d: "conn_heap s (ev_data ev) = Some d" "event_for d ev"
    by (auto simp: event_ok_def split: option.splits)
  from client_readwrite_total [OF Cons.prems(1) d, of K calls] show ?case
  proof (elim disjE exE conjE)
    fix s1 assume s1: "client_readwrite K calls ev s = Inr s1" "conn_change s (ev_data ev) s1" "same_program s s1"
    have "net_ok s1" "batch_ok s1 evs" "0 \<notin> ev_data ` set evs" "runs_dry K s1 calls \<longleftrightarrow> runs_dry K s calls"
      using s1(2) batch_ok_rest [OF Cons.prems(2) ev(2) s1(2)] Cons.prems(3) same_program_cyclic [OF s1(3)]
      by (auto simp: conn_change_def runs_dry_def)
    with Cons.IH [of s1] s1(1) show ?thesis by simp
  next
    assume "client_readwrite K calls ev s = Inl Starved"
      "- 1 \<notin> set (fst (performs K (fd d) (cyclic s (position s d) calls) (net_kern s)))"
    then show ?thesis by (auto simp: runs_dry_def)
  qed
qed simp

lemma update_swap:
  "s\<lparr>next_ptr := q, net_kern := k\<rparr> = s\<lparr>net_kern := k, next_ptr := q\<rparr>"
  "s\<lparr>next_ptr := q, net_kern := k, conn_heap := h\<rparr> = s\<lparr>net_kern := k, next_ptr := q, conn_heap := h\<rparr>" for s :: "'k net"
  by simp_all

lemma register_new_ok:
  assumes "net_ok s"
  shows "\<exists>ok s'. register_new K (Some addr) False 1 s = Inr (ok, s') \<and> net_ok s'"
proof -
  have wf: "wf_ops s" using assms by (simp add: net_ok_def)
  have add: "net_ok ((put_conn (next_ptr s) \<lparr>step = 0, n = 0, last_epoll = wait_for (eops s ! 0), fd = f\<rparr>
      (s\<lparr>net_kern := k, next_ptr := next_ptr s + 1\<rparr>))\<lparr>nconn := c\<rparr>)" for f k c
    using assms in_step_start [OF wf] by (force simp: net_ok_def put_conn_def conn_ok_def cur_op_def)
  have keep: "net_ok (s\<lparr>net_kern := k\<rparr>)" for k using assms by (auto simp: net_ok_def)
  have skip: "net_ok (s\<lparr>net_kern := k, next_ptr := next_ptr s + 1\<rparr>)" for k using assms by (force simp: net_ok_def)
  show ?thesis using add keep skip wf
    by (auto simp: register_new_def deref_def eop_at_0 Let_def put_conn_def update_swap split: prod.splits)
qed

lemma top_up_ok: "net_ok s \<Longrightarrow> \<exists>s'. top_up K (Some addr) missing s = Inr s' \<and> net_ok s'"
proof (induction missing arbitrary: s)
  case (Suc missing)
  from register_new_ok [OF Suc.prems] obtain ok s1 where
    "register_new K (Some addr) False 1 s = Inr (ok, s1)" "net_ok s1" by blast
  with Suc.IH [of s1] show ?case by simp
qed simp

text \<open>
  C30. No assertion of the client fails either, on any kernel: a turn of its main loop, on a batch
  of events that epoll can deliver for its connections, can only go on for ever or handle every
  event, replace the connections that were closed, and keep each connection waiting for the
  direction of its operation. It does the latter when the calls of each connection run dry, one
  failing among any \<open>calls\<close> in a row.
\<close>

theorem client_turn_ok:
  assumes "net_ok s" "batch_ok s evs" "0 \<notin> ev_data ` set evs"
  shows "case bind_r (client_events K calls evs s) (top_up K (Some addr) missing) of
      Inl e \<Rightarrow> e = Starved \<and> \<not> runs_dry K s calls
    | Inr s' \<Rightarrow> net_ok s'"
  using client_events_ok [OF assms, of K calls] top_up_ok [of _ K addr missing] by fastforce

section \<open>The life of a connection of the server\<close>

text \<open>The server, handling events for the connection \<open>p\<close> only, each for what it waits for.\<close>

fun serve :: "'k kernel \<Rightarrow> int \<Rightarrow> nat \<Rightarrow> 'k net \<Rightarrow> 'k net result" where
  "serve K p 0 s = Inr s"
| "serve K p (Suc m) s =
     (case conn_heap s p of None \<Rightarrow> Inl Undefined
      | Some d \<Rightarrow> bind_r (server_readwrite K \<lparr>ev_events = last_epoll d, ev_data = p\<rparr> s) (serve K p m))"

lemma server_readwrite_step:
  assumes K: "kernel_io K log room" and wf: "wf_ops s" and d: "conn_heap s p = Some d" and c: "conn_ok s d"
    and room: "0 < room (net_kern s)"
  obtains s' d' where
    "server_readwrite K \<lparr>ev_events = last_epoll d, ev_data = p\<rparr> s = Inr s'"
    "log (net_kern s') = log (net_kern s) @ [io_of (fd d) (cur_op s d)]" "room (net_kern s) - 1 \<le> room (net_kern s')"
    "wf_ops s'" "schedule s' = schedule s" "fd d' = fd d" "in_step s d'"
    "position s d' = (position s d + 1) mod length (schedule s)"
    "step d' = 0 \<longleftrightarrow> (step d = 0 \<and> n d + 1 < op_n (cur_op s d)) \<or> position s d + 1 = length (schedule s)"
    "conn_heap s' p = (if step d' = 0 then None else Some (d'\<lparr>last_epoll := wait_for (cur_op s d')\<rparr>))"
    "in_step s' = in_step s" "cur_op s' = cur_op s" "position s' = position s"
proof -
  have at: "in_step s d" and le: "last_epoll d = wait_for (cur_op s d)" using c by (simp_all add: conn_ok_def)
  obtain r k1 where r: "perform K (fd d) (cur_op s d) (net_kern s) = (r, k1)" by fastforce
  have a: "r \<noteq> - 1" "room (net_kern s) - 1 \<le> room k1" "log k1 = log (net_kern s) @ [io_of (fd d) (cur_op s d)]"
    using perform_answer [OF K, of "fd d" "cur_op s d" "net_kern s"] room r by (auto simp: io_answer_def)
  let ?s1 = "s\<lparr>net_kern := k1\<rparr>"
  obtain d1 where d1: "server_advance_step ?s1 d = Inr d1" "in_step s d1" "fd d1 = fd d"
      "position s d1 = (position s d + 1) mod length (schedule s)"
      "step d1 = 0 \<longleftrightarrow> (step d = 0 \<and> n d + 1 < op_n (cur_op s d)) \<or> position s d + 1 = length (schedule s)"
    using server_stepping.advance_position [of ?s1 d] wf at by auto
  have enter: "server_readwrite K \<lparr>ev_events = last_epoll d, ev_data = p\<rparr> s =
      (if step d1 = 0 then Inr (server_unregister K p d1 ?s1) else config_wait K p d1 ?s1)"
    using d le r a(1) d1(1) cur_op_sz [OF wf at] wf at
    by (cases "is_write (cur_op s d)") (simp_all add: server_readwrite_def eop_at_in_step perform_def wait_for_def Let_def
        EPOLLIN_def EPOLLOUT_def EPOLLHUP_def EPOLLERR_def del: bind_r_Inr)
  show ?thesis
  proof (cases "step d1 = 0")
    case True
    obtain k where k: "close_conn K p d1 ?s1 = s\<lparr>conn_heap := (conn_heap s)(p := None), net_kern := k\<rparr>"
      using close_conn_eq [of K p d1 ?s1] by auto
    have "log k = log k1" "room k1 \<le> room k" using close_conn_io [OF K, of p d1 ?s1] k by simp_all
    with that [of "s\<lparr>conn_heap := (conn_heap s)(p := None), net_kern := k\<rparr>" d1] True enter k a d1 wf
    show ?thesis by (simp add: server_unregister_def)
  next
    case False
    obtain k where k: "config_wait K p d1 ?s1 =
        Inr (s\<lparr>conn_heap := (conn_heap s)(p := Some (d1\<lparr>last_epoll := wait_for (cur_op s d1)\<rparr>)), net_kern := k\<rparr>)"
      using config_wait_eq [of ?s1 d1 K p] wf d1(2) by auto
    have "log k = log k1" "room k1 \<le> room k" using config_wait_io [OF K k] by simp_all
    with that [of "s\<lparr>conn_heap := (conn_heap s)(p := Some (d1\<lparr>last_epoll := wait_for (cur_op s d1)\<rparr>)), net_kern := k\<rparr>" d1]
      False enter k a d1 wf
    show ?thesis by simp
  qed
qed

lemma serve_to_end:
  assumes K: "kernel_io K log room" and wf: "wf_ops s" and d: "conn_heap s p = Some d" and c: "conn_ok s d"
    and more: "step d = 0 \<longrightarrow> \<not> n d + 1 < op_n (cur_op s d)" and fin: "position s d + m = length (schedule s)"
    and room: "m \<le> room (net_kern s)"
  shows "\<exists>s'. serve K p m s = Inr s' \<and> conn_heap s' p = None \<and>
    log (net_kern s') = log (net_kern s) @ map (io_of (fd d)) (drop (position s d) (schedule s))"
  using wf d c more fin room
proof (induction m arbitrary: s d)
  case 0
  with sched_at(1) [of s d] show ?case by (simp add: conn_ok_def)
next
  case (Suc m)
  have at: "in_step s d" using Suc.prems(3) by (simp add: conn_ok_def)
  note pos = sched_at [OF Suc.prems(1) at]
  obtain s1 d1 where s1: "server_readwrite K \<lparr>ev_events = last_epoll d, ev_data = p\<rparr> s = Inr s1"
      "log (net_kern s1) = log (net_kern s) @ [io_of (fd d) (cur_op s d)]" "room (net_kern s) - 1 \<le> room (net_kern s1)"
      "wf_ops s1" "schedule s1 = schedule s" "fd d1 = fd d" "in_step s d1"
      "position s d1 = (position s d + 1) mod length (schedule s)"
      "step d1 = 0 \<longleftrightarrow> (step d = 0 \<and> n d + 1 < op_n (cur_op s d)) \<or> position s d + 1 = length (schedule s)"
      "conn_heap s1 p = (if step d1 = 0 then None else Some (d1\<lparr>last_epoll := wait_for (cur_op s d1)\<rparr>))"
      "in_step s1 = in_step s" "cur_op s1 = cur_op s" "position s1 = position s"
    by (rule server_readwrite_step [OF K Suc.prems(1,2,3)]) (use Suc.prems(6) in simp, blast)
  have drop: "drop (position s d) (schedule s) = cur_op s d # drop (position s d + 1) (schedule s)"
    using pos by (simp add: Cons_nth_drop_Suc [symmetric])
  show ?case
  proof (cases m)
    case 0
    with Suc.prems(5) have "position s d + 1 = length (schedule s)" by simp
    with 0 s1 Suc.prems(2) drop show ?thesis by simp
  next
    case (Suc m')
    with Suc.prems(4,5) s1(9) have ne: "step d1 \<noteq> 0" by simp
    let ?d = "d1\<lparr>last_epoll := wait_for (cur_op s d1)\<rparr>"
    have ps: "position s ?d = position s d + 1" using s1(8) Suc Suc.prems(5) by (simp add: position_def)
    have "\<exists>s'. serve K p m s1 = Inr s' \<and> conn_heap s' p = None \<and>
        log (net_kern s') = log (net_kern s1) @ map (io_of (fd ?d)) (drop (position s1 ?d) (schedule s1))"
    proof (rule Suc.IH)
      show "step ?d = 0 \<longrightarrow> \<not> n ?d + 1 < op_n (cur_op s1 ?d)" using ne by simp
      show "conn_heap s1 p = Some ?d" using s1(10) ne by simp
      show "position s1 ?d + m = length (schedule s1)" using ps s1(5,13) Suc.prems(5) by simp
      show "m \<le> room (net_kern s1)" using s1(3) Suc.prems(6) by simp
      show "conn_ok s1 ?d" using conn_ok_last_epoll [of s1 d1] s1(7,11,12) by simp
    qed (rule s1(4))
    with s1 Suc.prems(2) drop ps show ?thesis by auto
  qed
qed

text \<open>
  C26. How long the server serves a connection. When the sequence starts with a single
  repetition, the server performs the whole schedule, once, in order, and closes the
  connection. When it starts with more than one, as in the usage text and in the test script,
  the server closes the connection after the very first operation, since it is still at step 0.
\<close>

theorem server_connection_life:
  assumes "kernel_io K log room" "wf_ops s"
    "conn_heap s p = Some \<lparr>step = 0, n = 0, last_epoll = wait_for (eops s ! 0), fd = f\<rparr>"
    "length (schedule s) \<le> room (net_kern s)"
  shows "\<exists>s'. serve K p (if op_n (eops s ! 0) = 1 then length (schedule s) else 1) s = Inr s' \<and> conn_heap s' p = None \<and>
    log (net_kern s') = log (net_kern s) @
      map (io_of f) (if op_n (eops s ! 0) = 1 then schedule s else [hd (schedule s)])"
proof -
  let ?d = "\<lparr>step = 0, n = 0, last_epoll = wait_for (eops s ! 0), fd = f\<rparr>"
  have at: "in_step s ?d" by (rule in_step_start [OF assms(2)])
  have c: "conn_ok s ?d" using at by (simp add: conn_ok_def cur_op_def)
  have pos: "position s ?d = 0" by (simp add: position_def)
  have cur: "cur_op s ?d = eops s ! 0" by (simp add: cur_op_def)
  note len = sched_at [OF assms(2) at, unfolded pos cur]
  have room: "0 < room (net_kern s)" using assms(4) len(1) by linarith
  show ?thesis
  proof (cases "op_n (eops s ! 0) = 1")
    case True
    with serve_to_end [OF assms(1-3) c, of "length (schedule s)"] assms(4) pos cur show ?thesis by simp
  next
    case False
    then have "1 < op_n (eops s ! 0)" using at cur by (simp add: in_step_def word_less_nat_alt word_unat_eq_iff)
    moreover obtain s1 d1 where "server_readwrite K \<lparr>ev_events = last_epoll ?d, ev_data = p\<rparr> s = Inr s1"
        "log (net_kern s1) = log (net_kern s) @ [io_of (fd ?d) (cur_op s ?d)]"
        "step d1 = 0 \<longleftrightarrow> (step ?d = 0 \<and> n ?d + 1 < op_n (cur_op s ?d)) \<or> position s ?d + 1 = length (schedule s)"
        "conn_heap s1 p = (if step d1 = 0 then None else Some (d1\<lparr>last_epoll := wait_for (cur_op s d1)\<rparr>))"
      by (rule server_readwrite_step [OF assms(1-3) c room]) blast
    moreover have "hd (schedule s) = eops s ! 0" using len by (simp add: hd_conv_nth)
    ultimately show ?thesis using False assms(3) cur by simp
  qed
qed

section \<open>Witnesses\<close>

text \<open>A kernel with a budget of successful calls and their log, and a net with one open connection.\<close>

definition budget_call :: "io \<Rightarrow> nat \<times> io list \<Rightarrow> int \<times> nat \<times> io list" where
  "budget_call x k = (if fst k = 0 then (- 1, k) else (0, fst k - 1, snd k @ [x]))"

definition budget_kernel :: "(nat \<times> io list) kernel" where
  "budget_kernel = \<lparr>k_socket = (\<lambda>_ k. (3, k)), k_setsockopt = (\<lambda>_ _ k. (0, k)), k_bind = (\<lambda>_ _ k. (0, k)),
     k_listen = (\<lambda>_ _ k. (0, k)), k_connect = (\<lambda>_ _ k. (0, k)), k_getfl = (\<lambda>_ k. (2, k)), k_setfl = (\<lambda>_ _ k. (0, k)),
     k_epoll_create = (\<lambda>k. (4, k)), k_epoll_ctl = (\<lambda>_ _ _ _ k. (0, k)),
     k_epoll_wait = (\<lambda>_ _ _ k. (Some [], k)), k_accept = (\<lambda>_ k. (6, k)),
     k_read = (\<lambda>_ _ k. (None, k)), k_write = (\<lambda>_ _ k. (- 1, k)),
     k_send = (\<lambda>f sz. budget_call (f, False, sz)), k_recv = (\<lambda>f sz. budget_call (f, True, sz)),
     k_close = (\<lambda>_ k. (0, k)), k_errno = (\<lambda>_. EAGAIN), k_malloc = (\<lambda>k. (True, k))\<rparr>"

definition demo_conn :: conn_data where
  "demo_conn = \<lparr>step = 0, n = 0, last_epoll = EPOLLOUT, fd = 5\<rparr>"

definition demo_net :: "u64 \<Rightarrow> (nat \<times> io list) net" where
  "demo_net reps = \<lparr>eops = [\<lparr>op_n = reps, op_sz = 16, is_write = False\<rparr>, \<lparr>op_n = 2, op_sz = 8, is_write = True\<rparr>],
     eops_sz = 2, sbuf_size = 17, conn_heap = [1 \<mapsto> demo_conn], next_ptr = 2, epoll_fd = 4, nconn = 1, net_kern = (4, [])\<rparr>"

lemma budget_kernel_io: "kernel_io budget_kernel snd fst"
  by (simp add: kernel_io_def budget_kernel_def budget_call_def io_answer_def)

lemma demo_net_wf: "reps \<noteq> 0 \<Longrightarrow> wf_ops (demo_net reps)"
  by (auto simp: wf_ops_def demo_net_def dest!: less_2_cases)

lemma demo_net_ok: "reps \<noteq> 0 \<Longrightarrow> net_ok (demo_net reps)"
  using demo_net_wf [of reps]
  by (simp add: net_ok_def) (auto simp: demo_net_def demo_conn_def conn_ok_def in_step_def cur_op_def wait_for_def
      word_neq_0_conv split: if_splits)

lemma demo_event: "conn_heap (demo_net reps) 1 = Some demo_conn" "event_for demo_conn \<lparr>ev_events = EPOLLOUT, ev_data = 1\<rparr>"
  by (simp_all add: demo_net_def event_for_def demo_conn_def EPOLLOUT_def EPOLLHUP_def EPOLLERR_def)

lemma demo_batch: "batch_ok (demo_net reps) [\<lparr>ev_events = EPOLLOUT, ev_data = 1\<rparr>]"
  using demo_event by (simp add: batch_ok_def event_ok_def)

theorem server_handles_batch_witness:
  "\<exists>s'. server_events budget_kernel 3 [\<lparr>ev_events = EPOLLOUT, ev_data = 1\<rparr>] (demo_net 1) = Inr s' \<and> net_ok s'"
  using server_handles_batch [where s = "demo_net 1" and K = budget_kernel and lsock = 3, OF demo_net_ok demo_batch]
  by (simp del: server_events.simps)

theorem client_follows_schedule_witness:
  "\<exists>s'. client_readwrite budget_kernel 5 \<lparr>ev_events = EPOLLOUT, ev_data = 1\<rparr> (demo_net 1) = Inr s' \<and>
    snd (net_kern s') = [(5, False, 16), (5, True, 8), (5, True, 8), (5, False, 16)]"
proof -
  have s: "schedule (demo_net 1) = [\<lparr>op_n = 1, op_sz = 16, is_write = False\<rparr>,
      \<lparr>op_n = 2, op_sz = 8, is_write = True\<rparr>, \<lparr>op_n = 2, op_sz = 8, is_write = True\<rparr>]"
    by (simp add: schedule_def demo_net_def) (simp add: numeral_2_eq_2)
  have p: "position (demo_net 1) demo_conn = 0" by (simp add: position_def demo_conn_def)
  have upt: "[0..<4] = [0, 1, 2, 3 :: nat]" by (simp add: eval_nat_numeral)
  have c: "cyclic (demo_net 1) 0 4 = schedule (demo_net 1) @ [hd (schedule (demo_net 1))]"
    by (simp add: cyclic_def s upt)
  let ?ev = "\<lparr>ev_events = EPOLLOUT, ev_data = 1\<rparr>" and ?log = "[(5, False, 16), (5, True, 8), (5, True, 8), (5, False, 16)] :: io list"
  have run: "performs budget_kernel (fd demo_conn) (cyclic (demo_net 1) (position (demo_net 1) demo_conn) 4) (net_kern (demo_net 1)) =
      ([0, 0, 0, 0], 0, ?log)"
    by (simp add: p c s) (simp add: demo_net_def demo_conn_def perform_def budget_kernel_def budget_call_def)
  have stop: "perform budget_kernel (fd demo_conn)
      (schedule (demo_net 1) ! ((position (demo_net 1) demo_conn + 4) mod length (schedule (demo_net 1)))) (0, ?log) = (- 1, 0, ?log)"
    by (simp add: perform_def budget_kernel_def budget_call_def)
  have errno: "k_errno budget_kernel k = EAGAIN" for k by (simp add: budget_kernel_def)
  have "\<exists>d' s'. client_readwrite budget_kernel 5 ?ev (demo_net 1) = Inr s' \<and>
      config_wait budget_kernel 1 d' ((demo_net 1)\<lparr>net_kern := (0, ?log)\<rparr>) = Inr s'"
    using client_follows_schedule [where s = "demo_net 1" and ev = ?ev and d = demo_conn, OF demo_net_ok _ _ _ run _ stop] demo_event
    errno by (force simp: EPOLLOUT_def EPOLLHUP_def EPOLLERR_def)
  then show ?thesis using config_wait_io [OF budget_kernel_io] by fastforce
qed

text \<open>A peer that has closed its side, and a sequence that only receives.\<close>

definition eof_kernel :: "(nat \<times> io list) kernel" where
  "eof_kernel = budget_kernel\<lparr>k_recv := \<lambda>f sz k. (0, k)\<rparr>"

definition reader_conn :: conn_data where
  "reader_conn = demo_conn\<lparr>last_epoll := EPOLLIN\<rparr>"

definition reader_net :: "(nat \<times> io list) net" where
  "reader_net = (demo_net 1)\<lparr>eops := [\<lparr>op_n = 3, op_sz = 8, is_write = True\<rparr>], eops_sz := 1, conn_heap := [1 \<mapsto> reader_conn]\<rparr>"

lemma reader_net_ok: "net_ok reader_net"
  by (auto simp: reader_net_def reader_conn_def demo_net_def demo_conn_def net_ok_def wf_ops_def conn_ok_def in_step_def
      cur_op_def wait_for_def split: if_splits)

theorem client_spins_at_end_of_file_witness:
  "client_readwrite eof_kernel 1000 \<lparr>ev_events = EPOLLIN, ev_data = 1\<rparr> reader_net = Inl Starved"
proof (rule client_spins_at_end_of_file [where at_eof = "\<lambda>k. True", OF reader_net_ok])
  show "conn_heap reader_net (ev_data \<lparr>ev_events = EPOLLIN, ev_data = 1\<rparr>) = Some reader_conn" by (simp add: reader_net_def)
  show "event_for reader_conn \<lparr>ev_events = EPOLLIN, ev_data = 1\<rparr>"
    by (simp add: event_for_def reader_conn_def EPOLLIN_def EPOLLHUP_def EPOLLERR_def)
  show "list_all is_write (schedule reader_net)" by (simp add: schedule_def reader_net_def list_all_iff)
qed (simp_all add: eof_kernel_def EPOLLIN_def EPOLLHUP_def EPOLLERR_def)

text \<open>A kernel on which every fifth call fails.\<close>

definition fifth_fails :: "io \<Rightarrow> nat \<times> io list \<Rightarrow> int \<times> nat \<times> io list" where
  "fifth_fails x k = (if fst k mod 5 = 0 then (- 1, fst k + 1, snd k) else (0, fst k + 1, snd k @ [x]))"

definition bursty_kernel :: "(nat \<times> io list) kernel" where
  "bursty_kernel = budget_kernel\<lparr>k_send := \<lambda>f sz. fifth_fails (f, False, sz), k_recv := \<lambda>f sz. fifth_fails (f, True, sz)\<rparr>"

lemma bursty_perform:
  "fst (perform bursty_kernel f op k) = (if fst k mod 5 = 0 then - 1 else 0) \<and> fst (snd (perform bursty_kernel f op k)) = fst k + 1"
  by (simp add: perform_def bursty_kernel_def fifth_fails_def)

lemma bursty_runs_dry: "runs_dry bursty_kernel s 5"
proof -
  have "- 1 \<in> set (fst (performs bursty_kernel f ops k))" if "length ops = m" "(fst k + j) mod 5 = 0" "j < m" for f ops k m j
    using that
  proof (induction ops arbitrary: k m j)
    case (Cons op ops)
    note p = bursty_perform [of f op k]
    show ?case
    proof (cases j)
      case 0
      with Cons.prems p show ?thesis by (simp add: split_beta)
    next
      case (Suc j')
      with Cons.IH [of "m - 1" "snd (perform bursty_kernel f op k)" j'] Cons.prems p show ?thesis by (simp add: split_beta)
    qed
  qed simp
  moreover have "(fst k + (4 * fst k) mod 5) mod 5 = 0" for k :: "nat \<times> io list" by presburger
  moreover have "length (cyclic s i 5) = 5" for i by (simp add: cyclic_def)
  ultimately show ?thesis unfolding runs_dry_def by (metis mod_less_divisor zero_less_numeral)
qed

theorem client_turn_ok_witness:
  "\<exists>s'. bind_r (client_events bursty_kernel 5 [\<lparr>ev_events = EPOLLOUT, ev_data = 1\<rparr>] (demo_net 1))
    (top_up bursty_kernel (Some \<lparr>sa_family = AF_INET, sin_port = 0, sin_addr = ''x''\<rparr>) 1) = Inr s' \<and> net_ok s'"
  using client_turn_ok [where s = "demo_net 1" and K = bursty_kernel and calls = 5 and missing = 1 and
      addr = "\<lparr>sa_family = AF_INET, sin_port = 0, sin_addr = ''x''\<rparr>", OF demo_net_ok demo_batch] bursty_runs_dry
  by (simp add: demo_net_def del: client_events.simps top_up.simps bind_r_Inr split: sum.splits)

theorem server_connection_life_witness:
  "(\<exists>s'. serve budget_kernel 1 3 (demo_net 1) = Inr s' \<and> snd (net_kern s') = [(5, False, 16), (5, True, 8), (5, True, 8)]) \<and>
   (\<exists>s'. serve budget_kernel 1 1 (demo_net 2) = Inr s' \<and> conn_heap s' 1 = None \<and> snd (net_kern s') = [(5, False, 16)])"
proof -
  have s: "schedule (demo_net 1) = [\<lparr>op_n = 1, op_sz = 16, is_write = False\<rparr>,
      \<lparr>op_n = 2, op_sz = 8, is_write = True\<rparr>, \<lparr>op_n = 2, op_sz = 8, is_write = True\<rparr>]"
    "schedule (demo_net 2) = [\<lparr>op_n = 2, op_sz = 16, is_write = False\<rparr>, \<lparr>op_n = 2, op_sz = 16, is_write = False\<rparr>,
      \<lparr>op_n = 2, op_sz = 8, is_write = True\<rparr>, \<lparr>op_n = 2, op_sz = 8, is_write = True\<rparr>]"
    by (simp_all add: schedule_def demo_net_def) (simp_all add: numeral_2_eq_2)
  have h: "conn_heap (demo_net r) 1 = Some \<lparr>step = 0, n = 0, last_epoll = wait_for (eops (demo_net r) ! 0), fd = 5\<rparr>" for r
    by (simp add: demo_net_def demo_conn_def wait_for_def)
  have k: "net_kern (demo_net r) = (4, [])" "op_n (eops (demo_net r) ! 0) = r" for r by (simp_all add: demo_net_def)
  have "\<exists>s'. serve budget_kernel 1 3 (demo_net 1) = Inr s' \<and> snd (net_kern s') = [(5, False, 16), (5, True, 8), (5, True, 8)]"
    using server_connection_life [OF budget_kernel_io demo_net_wf [of 1] h] s(1) k
    by (auto simp: io_of_def numeral_3_eq_3 simp del: serve.simps)
  moreover have "\<exists>s'. serve budget_kernel 1 1 (demo_net 2) = Inr s' \<and> conn_heap s' 1 = None \<and> snd (net_kern s') = [(5, False, 16)]"
    using server_connection_life [OF budget_kernel_io demo_net_wf [of 2] h] s(2) k
    by (auto simp: io_of_def simp del: serve.simps)
  ultimately show ?thesis by blast
qed

end
