(* ===== verification/CSB_NetMain.thy ===== *)
theory CSB_NetMain
  imports CSB_Net_Proofs
begin

text \<open>
  The main functions of bench/network/client.c and bench/network/server.c. The command line is
  the list of results of \<open>getopt\<close>, each an option character with its argument, which
  \<open>getopt\<close> makes NULL for an option without one, or '?' for an option it does not know.
  Returning a code from main is \<open>Inl (Exit code)\<close>. The client's \<open>signal\<close> call is left out.
\<close>

record net_options =
  o_port :: u64
  o_host :: "string option"
  o_program :: "string option"
  o_prog_file :: "string option"
  use_ipv6 :: bool
  retry_on_fail :: bool
  only_once :: bool

definition default_options :: net_options where
  "default_options = \<lparr>o_port = 10000, o_host = None, o_program = None, o_prog_file = None,
     use_ipv6 = False, retry_on_fail = False, only_once = False\<rparr>"

definition port_option :: "string option \<Rightarrow> net_options \<Rightarrow> net_options result" where
  "port_option arg opts =
     bind_r (deref arg) (\<lambda>a. if strtoul_erange 0 a then Inl (Exit (- 1)) else Inr (opts\<lparr>o_port := fst (strtoul 0 a)\<rparr>))"

text \<open>The switch statements: '6' falls through to 'P' and, in the client, 'O' to 'F'.\<close>

definition server_option :: "char \<Rightarrow> string option \<Rightarrow> net_options \<Rightarrow> net_options result" where
  "server_option opt arg opts =
     (if opt = CHR ''p'' then port_option arg opts
      else if opt = CHR ''6'' then Inr (opts\<lparr>use_ipv6 := True, o_program := arg\<rparr>)
      else if opt = CHR ''P'' then Inr (opts\<lparr>o_program := arg\<rparr>)
      else if opt = CHR ''F'' then Inr (opts\<lparr>o_prog_file := arg\<rparr>)
      else Inl (Exit (- 1)))"

definition client_option :: "char \<Rightarrow> string option \<Rightarrow> net_options \<Rightarrow> net_options result" where
  "client_option opt arg opts =
     (if opt = CHR ''h'' then Inr (opts\<lparr>o_host := arg\<rparr>)
      else if opt = CHR ''p'' then port_option arg opts
      else if opt = CHR ''6'' then Inr (opts\<lparr>use_ipv6 := True, o_program := arg\<rparr>)
      else if opt = CHR ''P'' then Inr (opts\<lparr>o_program := arg\<rparr>)
      else if opt = CHR ''R'' then Inr (opts\<lparr>retry_on_fail := True\<rparr>)
      else if opt = CHR ''O'' then Inr (opts\<lparr>only_once := True, o_prog_file := arg\<rparr>)
      else if opt = CHR ''F'' then Inr (opts\<lparr>o_prog_file := arg\<rparr>)
      else Inl (Exit (- 1)))"

fun scan_options ::
  "(char \<Rightarrow> string option \<Rightarrow> net_options \<Rightarrow> net_options result) \<Rightarrow> (char \<times> string option) list \<Rightarrow>
   net_options \<Rightarrow> net_options result" where
  "scan_options option [] opts = Inr opts"
| "scan_options option ((opt, arg) # rest) opts = bind_r (option opt arg opts) (scan_options option rest)"

text \<open>\<open>-P\<close> or \<open>-F\<close>; \<open>load\<close> is \<open>load_prog_file\<close> on the system's files. The exit code 80 is 'P'.\<close>

definition choose_program :: "(string \<Rightarrow> string option) \<Rightarrow> net_options \<Rightarrow> string result" where
  "choose_program load opts =
     (if o_program opts \<noteq> None \<and> o_prog_file opts \<noteq> None then Inl (Exit 1)
      else case (case o_prog_file opts of Some path \<Rightarrow> load path | None \<Rightarrow> o_program opts) of
             None \<Rightarrow> Inl (Exit 80) | Some program \<Rightarrow> Inr program)"

text \<open>
  The call of \<open>parse_ops\<close>, whose result is stored in the unsigned \<open>eops_sz\<close>, the test
  \<open>eops_sz < 0\<close> and the size of the buffer.
\<close>

definition load_eops :: "string \<Rightarrow> (extracted_op list \<times> u64 \<times> u64) result" where
  "load_eops program =
     (let (r, ops) = parse_ops program MAX_EOPS;
          array = ops @ replicate (MAX_EOPS - length ops) \<lparr>op_n = 0, op_sz = 0, is_write = False\<rparr>;
          sz = word_of_int r
      in if sz < 0 then Inl (Exit 80)
         else bind_r (get_max_buffer_size array sz) (\<lambda>max_sz. Inr (array, sz, max_sz + 1)))"

definition server_start ::
  "'k kernel \<Rightarrow> (string \<Rightarrow> string option) \<Rightarrow> (char \<times> string option) list \<Rightarrow> 'k \<Rightarrow> (int \<times> 'k net) result" where
  "server_start K load options k =
     bind_r (scan_options server_option options default_options) (\<lambda>opts.
     bind_r (choose_program load opts) (\<lambda>program.
     bind_r (load_eops program) (\<lambda>(array, sz, buf).
       let (ok, k1) = k_malloc K k in
       c_assert ok
        (let (efd, k2) = k_epoll_create K k1 in
         if efd = - 1 then Inl (Exit 1)
         else let family = (if use_ipv6 opts then AF_INET6 else AF_INET); (lsock, k3) = k_socket K family k2 in
           if lsock = - 1 then Inl (Exit 1)
           else let k4 = snd (k_setsockopt K lsock SO_REUSEPORT k3);
                    (r1, k5) = k_bind K lsock \<lparr>sa_family = family, sin_port = htons (ucast (o_port opts)), sin_addr = INADDR_ANY\<rparr> k4 in
             if r1 = - 1 then Inl (Exit 2)
             else let (r2, k6) = k_listen K lsock 50 k5 in
               if r2 = - 1 then Inl (Exit 2)
               else let (r3, k7) = k_epoll_ctl K efd EPOLL_CTL_ADD lsock \<lparr>ev_events = EPOLLIN, ev_data = 0\<rparr> k6 in
                 if r3 = - 1 then Inl (Exit (- 1))
                 else Inr (lsock, \<lparr>eops = array, eops_sz = sz, sbuf_size = buf, conn_heap = Map.empty, next_ptr = 1,
                   epoll_fd = efd, nconn = 0, net_kern = k7\<rparr>)))))"

text \<open>The server's main, which never returns: its state after \<open>turns\<close> turns.\<close>

definition server_main ::
  "'k kernel \<Rightarrow> (string \<Rightarrow> string option) \<Rightarrow> (char \<times> string option) list \<Rightarrow> nat \<Rightarrow> 'k \<Rightarrow> 'k net result" where
  "server_main K load options turns k =
     bind_r (server_start K load options k) (\<lambda>(lsock, s). server_turns K lsock turns s)"

text \<open>
  The loop over the results of \<open>getaddrinfo\<close>, pairs of a family and an address: the first of
  the wanted family. None is the NULL that remains when there is none.
\<close>

fun pick_address :: "bool \<Rightarrow> u64 \<Rightarrow> (int \<times> string) list \<Rightarrow> sockaddr option" where
  "pick_address ipv6 port [] = None"
| "pick_address ipv6 port ((family, addr) # rest) =
     (if family = AF_INET
      then if ipv6 then pick_address ipv6 port rest
           else Some \<lparr>sa_family = family, sin_port = htons (ucast port), sin_addr = addr\<rparr>
      else if family = AF_INET6
      then if \<not> ipv6 then pick_address ipv6 port rest
           else Some \<lparr>sa_family = family, sin_port = htons (ucast port), sin_addr = addr\<rparr>
      else pick_address ipv6 port rest)"

fun register_all :: "'k kernel \<Rightarrow> sockaddr option \<Rightarrow> bool \<Rightarrow> nat \<Rightarrow> nat \<Rightarrow> 'k net \<Rightarrow> 'k net result" where
  "register_all K serv_addr retry tries 0 s = Inr s"
| "register_all K serv_addr retry tries (Suc missing) s =
     bind_r (register_new K serv_addr retry tries s) (\<lambda>(ok, s1).
       if ok then register_all K serv_addr retry tries missing s1 else Inl (Exit (- 1)))"

definition num_conn :: u64 where "num_conn = 1"

definition client_main ::
  "'k kernel \<Rightarrow> (string \<Rightarrow> int \<times> (int \<times> string) list) \<Rightarrow> (string \<Rightarrow> string option) \<Rightarrow> nat \<Rightarrow> nat \<Rightarrow> nat \<Rightarrow>
   (char \<times> string option) list \<Rightarrow> 'k \<Rightarrow> 'k net result" where
  "client_main K os_getaddrinfo load tries calls turns options k =
     bind_r (scan_options client_option options default_options) (\<lambda>opts.
     bind_r (choose_program load opts) (\<lambda>program.
     bind_r (load_eops program) (\<lambda>(array, sz, buf).
       let (ok, k1) = k_malloc K k in
       c_assert ok
        (case o_host opts of
           None \<Rightarrow> Inl (Exit 1)
         | Some host \<Rightarrow>
             let (r, addrs) = os_getaddrinfo host in
             if r = - 1 then Inl (Exit 1)
             else let serv_addr = pick_address (use_ipv6 opts) (o_port opts) addrs; (efd, k2) = k_epoll_create K k1 in
               if efd = - 1 then Inl (Exit 1)
               else let s = \<lparr>eops = array, eops_sz = sz, sbuf_size = buf, conn_heap = Map.empty, next_ptr = 1,
                   epoll_fd = efd, nconn = 0, net_kern = k2\<rparr> in
                 bind_r (register_all K serv_addr (retry_on_fail opts) tries (unat num_conn) s) (\<lambda>s1.
                   client_loop K serv_addr calls num_conn (only_once opts) turns s1)))))"

section \<open>Malformed programs\<close>

lemma parse_loop_err: "snd (parse_loop free str) \<in> {None, Some (- 1), Some (- 2)}"
  by (induction free str rule: parse_loop.induct) (auto simp: Let_def split: prod.splits)

lemma length_parse_loop: "length (fst (parse_loop free str)) \<le> free"
  by (induction free str rule: parse_loop.induct) (auto simp: Let_def split: prod.splits)

lemma load_eops_malformed:
  assumes "fst (parse_ops program MAX_EOPS) < 0"
  shows "load_eops program = Inl Undefined"
proof -
  obtain ops e where p: "parse_loop MAX_EOPS program = (ops, e)" by fastforce
  have e: "e = Some (- 1) \<or> e = Some (- 2)" using parse_loop_err [of MAX_EOPS program] assms p
    by (auto simp: parse_ops_def split: option.splits)
  have l: "length ops \<le> MAX_EOPS" using length_parse_loop [of MAX_EOPS program] p by simp
  have u: "unat (- 1 :: u64) = 2 ^ 64 - 1" "unat (- 2 :: u64) = 2 ^ 64 - 2"
    by (simp_all add: unsigned_minus_1_eq_mask mask_eq_exp_minus_1 unat_minus_one)
  show ?thesis using e
    by (elim disjE) (use l u in \<open>simp_all add: load_eops_def parse_ops_def p get_max_buffer_size_def Let_def\<close>, simp_all add: MAX_EOPS_def)
qed

text \<open>
  C32. A malformed operation sequence goes undetected: the error code of \<open>parse_ops\<close> becomes a
  huge \<open>size_t\<close>, the test for a negative one never holds, and both programs, instead of
  reporting the error, read beyond the array of operations.
\<close>

theorem malformed_program_undetected:
  assumes "fst (parse_ops program MAX_EOPS) < 0"
  shows "server_start K load [(CHR ''P'', Some program)] k = Inl Undefined \<and>
    client_main K resolve load tries calls turns [(CHR ''h'', host), (CHR ''P'', Some program)] k = Inl Undefined"
  using load_eops_malformed [OF assms]
  by (simp_all add: server_start_def client_main_def server_option_def client_option_def choose_program_def default_options_def)

theorem malformed_program_undetected_witness:
  "server_start budget_kernel (\<lambda>_. None) [(CHR ''P'', Some ''2r8;'')] (0, []) = Inl Undefined"
proof -
  have m: "MAX_EOPS = Suc 127" by (simp add: MAX_EOPS_def)
  have "fst (parse_ops ''2r8;'' MAX_EOPS) = - 2"
    unfolding parse_ops_def m parse_loop.simps
    by (simp add: strtoul_def split_sign_def split_radix_def is_digit_in_def digit_of_def is_space_def Let_def)
  then show ?thesis
    using malformed_program_undetected [where program = "''2r8;''" and K = budget_kernel and load = "\<lambda>_. None"] by simp
qed

text \<open>
  Flags drop the operation sequence: \<open>-6\<close> falls through to \<open>-P\<close> and the client's \<open>-O\<close>
  to \<open>-F\<close>, each with a NULL argument, so \<open>-6\<close> after \<open>-P\<close> and \<open>-O\<close> after \<open>-F\<close> leave the
  programs without a sequence and both exit with code 80.
\<close>

lemma flags_drop_program:
  "server_main K load [(CHR ''P'', Some program), (CHR ''6'', None)] turns k = Inl (Exit 80) \<and>
   client_main K resolve load tries calls turns [(CHR ''P'', Some program), (CHR ''6'', None)] k = Inl (Exit 80) \<and>
   client_main K resolve load tries calls turns [(CHR ''F'', Some path), (CHR ''O'', None)] k = Inl (Exit 80)"
  by (simp add: server_main_def server_start_def client_main_def server_option_def client_option_def
      choose_program_def default_options_def)

section \<open>Well-formed programs\<close>

definition usable_ops :: "extracted_op list \<Rightarrow> bool" where
  "usable_ops ops \<longleftrightarrow> ops \<noteq> [] \<and> list_all (\<lambda>op. op_n op \<noteq> 0 \<and> op_sz op \<noteq> - 1) ops"

text \<open>A server or client state that follows the (first 128 entries of the) given operations.\<close>

definition follows :: "extracted_op list \<Rightarrow> 'k net \<Rightarrow> bool" where
  "follows ops s \<longleftrightarrow> net_ok s \<and>
     schedule s = concat (map (\<lambda>op. replicate (unat (op_n op)) op) (take MAX_EOPS ops))"

lemma max_buffer_in:
  "foldl (\<lambda>max_sz op. if op_sz op > max_sz then op_sz op else max_sz) m xs \<in> insert m (op_sz ` set xs)"
proof (induction xs arbitrary: m)
  case (Cons x xs)
  from Cons [of "if op_sz x > m then op_sz x else m"] show ?case by (auto split: if_splits)
qed simp

lemma load_eops_render:
  assumes "usable_ops ops"
  obtains array buf where "load_eops (render_ops ops) = Inr (array, of_nat (min MAX_EOPS (length ops)), buf)"
    "take (min MAX_EOPS (length ops)) array = take MAX_EOPS ops" "length array = MAX_EOPS"
    "\<And>i. i < min MAX_EOPS (length ops) \<Longrightarrow> op_n (array ! i) \<noteq> 0 \<and> op_sz (array ! i) < buf"
proof -
  let ?m = "min MAX_EOPS (length ops)"
  let ?z = "\<lparr>op_n = 0, op_sz = 0, is_write = False\<rparr>"
  let ?a = "take MAX_EOPS ops @ replicate (MAX_EOPS - ?m) ?z"
  have u: "unat (of_nat ?m :: u64) = ?m" by (simp add: unsigned_of_nat take_bit_nat_eq_self_iff MAX_EOPS_def)
  have a: "length ?a = MAX_EOPS" "take ?m ?a = take MAX_EOPS ops" by (simp_all add: min_def)
  define max_sz where "max_sz = foldl (\<lambda>max_sz op. if op_sz op > max_sz then op_sz op else max_sz) 0 (take ?m ?a)"
  have g: "get_max_buffer_size ?a (of_nat ?m) = Inr max_sz"
    unfolding get_max_buffer_size_def u max_sz_def a(1) by (simp add: min_def)
  have "load_eops (render_ops ops) = Inr (?a, of_nat ?m, max_sz + 1)"
    using g by (simp add: load_eops_def parse_ops_def parse_loop_render Let_def min.commute)
  moreover have "op_n (?a ! i) \<noteq> 0 \<and> op_sz (?a ! i) < max_sz + 1" if i: "i < ?m" for i
  proof -
    have in': "?a ! i = ops ! i" "ops ! i \<in> set ops" using i by (auto simp: nth_append)
    have "max_sz \<noteq> - 1" using max_buffer_in [of 0 "take ?m ?a"] assms a(2)
      by (auto simp: max_sz_def usable_ops_def list_all_iff dest: in_set_takeD)
    then have "unat (max_sz + 1) = unat max_sz + 1" by (metis Suc_eq_plus1 unatSuc add.commute add_eq_0_iff)
    moreover have "op_sz (?a ! i) \<le> max_sz" using get_max_buffer_size_ge [OF g] i u by simp
    ultimately show ?thesis using in' assms
      by (auto simp: usable_ops_def list_all_iff word_less_nat_alt word_le_nat_alt)
  qed
  ultimately show ?thesis using that [of ?a "max_sz + 1"] a by blast
qed

lemma follows_start:
  assumes "usable_ops ops" "load_eops (render_ops ops) = Inr (array, sz, buf)"
    "eops s = array" "eops_sz s = sz" "sbuf_size s = buf" "conn_heap s = Map.empty" "next_ptr s = 1"
  shows "follows ops s"
proof -
  let ?m = "min MAX_EOPS (length ops)"
  have l: "take ?m array = take MAX_EOPS ops" "length array = MAX_EOPS" "sz = of_nat ?m"
    "\<And>i. i < ?m \<Longrightarrow> op_n (array ! i) \<noteq> 0 \<and> op_sz (array ! i) < buf"
    using load_eops_render [OF assms(1)] assms(2) by fastforce+
  have u: "unat sz = ?m" unfolding l(3) by (simp add: unsigned_of_nat take_bit_nat_eq_self_iff MAX_EOPS_def)
  have "0 < ?m" using assms(1) by (simp add: usable_ops_def MAX_EOPS_def)
  with u have "0 < sz" by (simp add: word_less_nat_alt)
  with l u assms show ?thesis by (auto simp: follows_def net_ok_def wf_ops_def schedule_def)
qed

text \<open>
  C31. From the command line to the first turn, on any kernel: given a sequence of at least one
  operation, with no empty repetition counts, each failing call of the start has its exit code
  (a failed allocation fails the assertion), and if none fails the server is ready, without
  connections, on the socket and the epoll descriptor it got, and follows the schedule of the
  first 128 entries of the sequence.
\<close>

theorem server_start_follows_program:
  assumes "usable_ops ops" "k_malloc K k = (ok, k1)" "k_epoll_create K k1 = (efd, k2)" "k_socket K AF_INET k2 = (lsock, k3)"
    "k_setsockopt K lsock SO_REUSEPORT k3 = (ro, k4)"
    "k_bind K lsock \<lparr>sa_family = AF_INET, sin_port = htons 10000, sin_addr = INADDR_ANY\<rparr> k4 = (rb, k5)"
    "k_listen K lsock 50 k5 = (rl, k6)" "k_epoll_ctl K efd EPOLL_CTL_ADD lsock \<lparr>ev_events = EPOLLIN, ev_data = 0\<rparr> k6 = (rc, k7)"
  shows "\<exists>s. net_ok s \<and> schedule s = concat (map (\<lambda>op. replicate (unat (op_n op)) op) (take 128 ops)) \<and>
    conn_heap s = Map.empty \<and> epoll_fd s = efd \<and> net_kern s = k7 \<and>
    server_start K load [(CHR ''P'', Some (render_ops ops))] k =
      (if \<not> ok then Inl Assert_failed
       else if efd = - 1 \<or> lsock = - 1 then Inl (Exit 1)
       else if rb = - 1 \<or> rl = - 1 then Inl (Exit 2)
       else if rc = - 1 then Inl (Exit (- 1))
       else Inr (lsock, s))"
proof -
  obtain array sz buf where l: "load_eops (render_ops ops) = Inr (array, sz, buf)"
    using load_eops_render [OF assms(1)] by metis
  let ?s = "\<lparr>eops = array, eops_sz = sz, sbuf_size = buf, conn_heap = Map.empty, next_ptr = 1,
    epoll_fd = efd, nconn = 0, net_kern = k7\<rparr>"
  have "follows ops ?s" by (rule follows_start [OF assms(1) l]) simp_all
  with assms(2-) show ?thesis
    by (intro exI [of _ ?s]) (simp add: follows_def MAX_EOPS_def server_start_def server_option_def choose_program_def
        default_options_def l c_assert_def)
qed

definition demo_ops :: "extracted_op list" where
  "demo_ops = [\<lparr>op_n = 1, op_sz = 1024, is_write = False\<rparr>, \<lparr>op_n = 2, op_sz = 32, is_write = True\<rparr>]"

lemma demo_ops: "usable_ops demo_ops" "render_ops demo_ops = ''1r1024-2w32''"
  by (simp_all add: usable_ops_def demo_ops_def render_op_def decimal.simps)

theorem server_start_follows_program_witness:
  "\<exists>s. server_start budget_kernel (\<lambda>_. None) [(CHR ''P'', Some ''1r1024-2w32'')] (0, []) = Inr (3, s) \<and>
    schedule s = [\<lparr>op_n = 1, op_sz = 1024, is_write = False\<rparr>,
      \<lparr>op_n = 2, op_sz = 32, is_write = True\<rparr>, \<lparr>op_n = 2, op_sz = 32, is_write = True\<rparr>]"
proof -
  have s: "concat (map (\<lambda>op. replicate (unat (op_n op)) op) (take 128 demo_ops)) =
      [\<lparr>op_n = 1, op_sz = 1024, is_write = False\<rparr>, \<lparr>op_n = 2, op_sz = 32, is_write = True\<rparr>, \<lparr>op_n = 2, op_sz = 32, is_write = True\<rparr>]"
    by (simp add: demo_ops_def) (simp add: numeral_2_eq_2)
  have calls: "k_malloc budget_kernel k = (True, k)" "k_epoll_create budget_kernel k = (4, k)" "k_socket budget_kernel f k = (3, k)"
    "k_setsockopt budget_kernel fd opt k = (0, k)" "k_bind budget_kernel fd a k = (0, k)" "k_listen budget_kernel fd b k = (0, k)"
    "k_epoll_ctl budget_kernel e c fd ev k = (0, k)" for k f fd opt a b e c ev by (simp_all add: budget_kernel_def)
  from server_start_follows_program [where k = "(0, [])" and load = "\<lambda>_. None", OF demo_ops(1) calls]
  show ?thesis by (simp only: s demo_ops(2)) auto
qed

text \<open>
  A host that cannot be resolved crashes the client: \<open>getaddrinfo\<close> reports failures with
  other codes than the -1 that is tested for, and with no address of the wanted family the
  client reads through a null pointer.
\<close>

lemma unresolved_host_crashes_client:
  assumes "usable_ops ops" "fst (resolve host) \<noteq> - 1" "AF_INET \<notin> fst ` set (snd (resolve host))"
    "fst (k_malloc K k) \<and> fst (k_epoll_create K (snd (k_malloc K k))) \<noteq> - 1"
    "fst (k_malloc K (snd (k_epoll_create K (snd (k_malloc K k)))))"
  shows "client_main K resolve load tries calls turns [(CHR ''h'', Some host), (CHR ''P'', Some (render_ops ops))] k = Inl Undefined"
proof -
  obtain array sz buf where l: "load_eops (render_ops ops) = Inr (array, sz, buf)"
    using load_eops_render [OF assms(1)] by metis
  have wf: "wf_ops s" if "eops s = array" "eops_sz s = sz" "sbuf_size s = buf" "conn_heap s = Map.empty" "next_ptr s = 1"
    for s :: "'a net" using follows_start [OF assms(1) l that] by (simp add: follows_def net_ok_def)
  have no: "pick_address False port addrs = None" if "AF_INET \<notin> fst ` set addrs" for port addrs
    using that by (induction False port addrs rule: pick_address.induct) (auto simp: AF_INET6_def)
  obtain r addrs k1 efd k2 k3 where "resolve host = (r, addrs)" "k_malloc K k = (True, k1)"
      "k_epoll_create K k1 = (efd, k2)" "k_malloc K k2 = (True, k3)"
    using assms(4,5) by (metis prod.collapse)
  then show ?thesis
    using assms(2-) no [OF assms(3)]
    by (simp add: client_main_def client_option_def choose_program_def default_options_def l num_conn_def
        register_new_def deref_def Let_def eop_at_0 wf)
qed

lemma unresolved_host_crashes_client_example:
  "client_main budget_kernel (\<lambda>_. (- 2, [])) (\<lambda>_. None) 1 1 1
     [(CHR ''h'', Some ''nowhere''), (CHR ''P'', Some ''1r1024-2w32'')] (0, []) = Inl Undefined"
  using unresolved_host_crashes_client [OF demo_ops(1), of "\<lambda>_. (- 2, [])" "''nowhere''" budget_kernel "(0, [])" "\<lambda>_. None" 1 1 1]
  by (simp add: demo_ops(2) budget_kernel_def)

end
