(* ===== verification/CSB_NetAddr.thy ===== *)
theory CSB_NetAddr
  imports CSB_Libc CSB_Kernel
begin

text \<open>
  bench/include/CSB/bm_network.h: the addresses to connect and to bind to, read from the
  environment. \<open>getenv\<close> and \<open>inet_pton\<close> are parameters: the value of a variable, and the
  result code with the address in network byte order. \<open>errno\<close> is an argument: the function tests
  it after \<open>strtoul\<close>, which sets it on overflow and otherwise leaves it as it was. The function
  returns only with \<open>errno\<close> as it found it.
\<close>

definition ERANGE :: int where "ERANGE = 34"

definition parse_net_addr ::
  "(string \<Rightarrow> string option) \<Rightarrow> (int \<Rightarrow> string \<Rightarrow> int \<times> string) \<Rightarrow> string \<Rightarrow> string \<Rightarrow> u16 \<Rightarrow> int \<Rightarrow>
   sockaddr \<times> bool \<Rightarrow> (sockaddr \<times> bool) result" where
  "parse_net_addr os_getenv os_inet_pton addr_env port_env port0 errno st =
     (let (dst, initialized) = st in
      bind_r
       (case os_getenv addr_env of
          None \<Rightarrow> Inr (dst, initialized)
        | Some conn_addr_str \<Rightarrow>
            let (r, bytes) = os_inet_pton AF_INET conn_addr_str in
            if r = 1 then Inr (dst\<lparr>sa_family := AF_INET, sin_port := htons port0, sin_addr := bytes\<rparr>, True)
            else Inl (Exit (- 1)))
       (\<lambda>(dst1, initialized1).
         case os_getenv port_env of
           None \<Rightarrow> Inr (dst1, initialized1)
         | Some conn_port_str \<Rightarrow>
             if \<not> initialized1 then Inr (dst1, initialized1)
             else if (if strtoul_erange 0 conn_port_str then ERANGE else errno) = ERANGE then Inl (Exit (- 1))
             else Inr (dst1\<lparr>sin_port := htons (ucast (fst (strtoul 0 conn_port_str)))\<rparr>, True)))"

lemma number_ends_Nil: "number_ends []"
  by (simp add: number_ends_def)

text \<open>
  C36. The address that a target connects or binds to, from the environment: a numeric address
  with a decimal port is that address with that port in network byte order; a port of 65536 or
  more is taken modulo 65536 without notice, one that does not fit 64 bits ends the process. So
  does any port when \<open>errno\<close> happens to be ERANGE before the call, since it is not cleared.
\<close>

theorem parse_net_addr_port:
  assumes "getenv av = Some a" "pton AF_INET a = (1, bytes)" "getenv pv = Some (decimal p)"
  shows "parse_net_addr getenv pton av pv port0 errno (dst, init) =
    (if p < 2 ^ 64 \<and> errno \<noteq> ERANGE
     then Inr (\<lparr>sa_family = AF_INET, sin_port = htons (of_nat (p mod 65536)), sin_addr = bytes\<rparr>, True)
     else Inl (Exit (- 1)))"
proof -
  have "(of_nat (p mod 65536) :: u16) = ucast (of_nat p :: u64)"
    by (simp add: word_unat_eq_iff unsigned_ucast_eq unsigned_of_nat take_bit_eq_mod mod_mod_cancel)
  with assms strtoul_decimal [of 0 "[]" p] strtoul_erange_decimal [of 0 "[]" p] number_ends_Nil show ?thesis
    by (cases dst) (simp add: parse_net_addr_def)
qed

theorem parse_net_addr_port_witness:
  "parse_net_addr [''A'' \<mapsto> ''127.0.0.1'', ''P'' \<mapsto> ''70000''] (\<lambda>_ _. (1, ''x'')) ''A'' ''P'' 0 0
     (\<lparr>sa_family = 0, sin_port = 0, sin_addr = []\<rparr>, False) =
   Inr (\<lparr>sa_family = AF_INET, sin_port = htons 4464, sin_addr = ''x''\<rparr>, True) \<and>
   parse_net_addr [''A'' \<mapsto> ''127.0.0.1'', ''P'' \<mapsto> ''80''] (\<lambda>_ _. (1, ''x'')) ''A'' ''P'' 0 ERANGE
     (\<lparr>sa_family = 0, sin_port = 0, sin_addr = []\<rparr>, False) = Inl (Exit (- 1))"
proof -
  have "decimal 70000 = ''70000''" "decimal 80 = ''80''" by (simp_all add: decimal.simps)
  then show ?thesis
    using parse_net_addr_port [of "[''A'' \<mapsto> ''127.0.0.1'', ''P'' \<mapsto> ''70000'']" "''A''" "''127.0.0.1''"
        "\<lambda>_ _. (1, ''x'')" "''x''" "''P''" 70000 0 0]
      parse_net_addr_port [of "[''A'' \<mapsto> ''127.0.0.1'', ''P'' \<mapsto> ''80'']" "''A''" "''127.0.0.1''"
        "\<lambda>_ _. (1, ''x'')" "''x''" "''P''" 80 0 ERANGE] by (simp add: ERANGE_def)
qed

end
