(* ===== verification/CSB_Results.thy ===== *)
theory CSB_Results
  imports CSB_Run_Proofs CSB_Empty CSB_Redis
begin

text \<open>
  What the measured phase records of one thread, for targets whose results depend on the
  thread's own context only: a law about one registration and one dispatch, stated over the
  results so far, carries over to the results that the thread has recorded in any reachable
  state, under every interleaving with the other threads.
\<close>

type_synonym op_log = "(nat \<times> nat \<times> nat \<times> nat \<times> bm_op_res) list"

definition results_of :: "nat \<Rightarrow> op_log \<Rightarrow> bm_op_res list" where
  "results_of tid log = map (\<lambda>(_, _, _, _, r). r) (filter (\<lambda>(tid', _). tid' = tid) log)"

lemma results_of_simps [simp]:
  "results_of tid [] = []" "results_of tid (log @ log') = results_of tid log @ results_of tid log'"
  "results_of tid ((tid', op, bg, e, r) # log) = (if tid' = tid then r # results_of tid log else results_of tid log)"
  by (simp_all add: results_of_def)

lemma length_results_of: "length (results_of tid log) = length (ops_of tid log)"
  by (simp add: results_of_def ops_of_def)

locale history_target =
  fixes T :: "('c, 'w) bm_target" and hist :: "'c \<Rightarrow> bm_op_res list \<Rightarrow> bool"
  assumes reg_hist: "bm_target_reg T tid c w = Inr (c', w') \<Longrightarrow> hist c' []"
    and dispatch_hist: "hist c rs \<Longrightarrow> bm_dispatch_operation T op c w = Inr (r, c', w') \<Longrightarrow> hist c' (rs @ [r])"

text \<open>What the laws give for a thread at each point of \<open>run\<close>, with the results recorded so far.\<close>

definition thread_history :: "('c \<Rightarrow> bm_op_res list \<Rightarrow> bool) \<Rightarrow> 'c thread \<Rightarrow> bm_op_res list \<Rightarrow> bool" where
  "thread_history hist t rs \<longleftrightarrow>
     (if t_pc t = T_start then rs = []
      else (\<exists>c. hist c rs) \<and> (t_pc t = T_end \<longrightarrow> hist (t_ctx t) (rs @ [t_result t])) \<and>
        (t_pc t \<noteq> T_end \<and> t_pc t \<noteq> T_done \<longrightarrow> hist (t_ctx t) rs))"

definition histories :: "('c \<Rightarrow> bm_op_res list \<Rightarrow> bool) \<Rightarrow> ('c, 'w) phase \<Rightarrow> bool" where
  "histories hist s \<longleftrightarrow> (\<forall>tid < length (threads s). thread_history hist (threads s ! tid) (results_of tid (ops_log s)))"

lemma histories_set_thread:
  assumes "histories hist s" "thread_history hist t (results_of tid (ops_log s'))" "threads s' = threads s"
    and "\<And>j. j \<noteq> tid \<Longrightarrow> results_of j (ops_log s') = results_of j (ops_log s)"
  shows "histories hist (set_thread tid t s')"
proof -
  have "thread_history hist ((threads s)[tid := t] ! j) (results_of j (ops_log s'))" if "j < length (threads s)" for j
    using assms that by (cases "j = tid") (auto simp: histories_def)
  then show ?thesis using assms(3) by (simp add: histories_def set_thread_def)
qed

lemma histories_release:
  assumes "histories hist s" "all_at pc s" "pc \<notin> {T_start, T_end, T_done}" "pc' \<notin> {T_start, T_end, T_done}"
    and "threads s' = threads s" "ops_log s' = ops_log s"
  shows "histories hist (release pc' s')"
  using assms by (auto simp: histories_def release_def all_at_def list_all_length thread_history_def)

context history_target
begin

lemma histories_run_step:
  assumes "run_step T clk tid s = Some (Inr s')" "histories hist s" "tid < length (threads s)"
  shows "histories hist s'"
proof -
  have h: "thread_history hist (threads s ! tid) (results_of tid (ops_log s))" using assms(2,3) by (simp add: histories_def)
  from assms(1) show ?thesis
  proof (cases rule: run_step_cases)
    case (reg c w)
    with h reg_hist [OF reg(2)] show ?thesis by (auto intro!: histories_set_thread [OF assms(2)] simp: thread_history_def)
  next
    case (dispatch r c w)
    with h dispatch_hist [OF _ dispatch(2)] show ?thesis
      by (auto intro!: histories_set_thread [OF assms(2)] simp: thread_history_def)
  qed (use h in \<open>auto intro!: histories_set_thread [OF assms(2)] simp: thread_history_def\<close>)
qed

lemma histories_main_step:
  assumes "bm_phase_run_step z clk s = Some (Inr s')" "histories hist s" "flow s"
  shows "histories hist s'"
  using assms(1)
proof (cases rule: main_step_cases)
  case create
  have "ops_log s = []" using assms(3) create(1) by (simp add: flow_def stage_defs)
  with create assms(2) show ?thesis
    by (auto simp: histories_def nth_append new_thread_def thread_history_def less_Suc_eq)
next
  case start
  then show ?thesis by (auto intro!: histories_release [OF assms(2)])
next
  case stop
  then show ?thesis by (auto intro!: histories_release [OF assms(2)])
qed (use assms(2) in \<open>auto simp: histories_def elim!: add_durations_frame\<close>)

lemma histories_step: "phase_step T z clk s s' \<Longrightarrow> histories hist s \<Longrightarrow> flow s \<Longrightarrow> histories hist s'"
  by (erule phase_stepE) (auto simp: histories_def [of hist "s\<lparr>moment := m\<rparr>" for m] histories_def [of hist s]
      intro: histories_main_step histories_run_step)

lemma histories_reachable: "reachable T z clk b s \<Longrightarrow> \<not> g_stop b \<Longrightarrow> histories hist s"
proof (induction rule: reachable.induct)
  case (start m)
  then show ?case by (simp add: histories_def start_phase_def)
qed (blast intro: histories_step flow_reachable)

lemma recorded_history:
  assumes "reachable T z clk b s" "\<not> g_stop b" "tid < length (threads s)" "results_of tid (ops_log s) \<noteq> []"
  shows "\<exists>c. hist c (results_of tid (ops_log s))"
  using histories_reachable [OF assms(1,2)] assms(3,4) by (auto simp: histories_def thread_history_def split: if_splits)

end

interpretation empty_results: history_target bm_empty "\<lambda>c rs. \<forall>r \<in> set rs. r = \<lparr>op_count = 1, succ_count = 1\<rparr>"
  by unfold_locales (auto simp: bm_empty_def empty_dispatch_result)

interpretation redis_results: history_target "bm_server_redis K" "\<lambda>c rs. \<forall>r \<in> set rs. res_ok 20 r" for K
  by unfold_locales (auto simp: bm_server_redis_def dest: redis_dispatch_res)

section \<open>Totals over the threads\<close>

text \<open>The recorded operation count splits into those of the threads.\<close>

lemma sum_list_by_thread:
  assumes "\<forall>(tid, _) \<in> set log. tid < m"
  shows "sum_list (map (\<lambda>(_, _, _, _, r). op_count r) log) = (\<Sum>tid < m. sum_list (map op_count (results_of tid log)))"
  using assms
proof (induction log)
  case (Cons x log)
  obtain tid op bg e r where x: "x = (tid, op, bg, e, r)" by (cases x)
  have "(\<Sum>j < m. sum_list (map op_count (results_of j (x # log)))) =
      (\<Sum>j < m. (if tid = j then op_count r else 0) + sum_list (map op_count (results_of j log)))"
    by (rule sum.cong) (simp_all add: x)
  also have "\<dots> = op_count r + (\<Sum>j < m. sum_list (map op_count (results_of j log)))"
    using Cons.prems by (simp add: x sum.distrib)
  finally show ?case using Cons by (simp add: x)
qed simp

lemma summary_count:
  "os_count (op_summary rng (map (snd \<circ> snd) (samples clk log))) = sum_list (map (\<lambda>(_, _, _, _, r). op_count r) log)"
  by (induction log) (auto simp: op_summary_def samples_def taken_def)

end
