(* ===== verification/CSB_Syz.thy ===== *)
theory CSB_Syz
  imports CSB_Kernel
begin

text \<open>
  The bodies of the generated targets (bench/targets/*/syz/*.h) are straight-line C made of a
  handful of statements: copying a literal or storing a number into the thread's mapping, a
  \<open>syscall\<close>, counting its result, and keeping its result in a register. This theory has these
  statements as a datatype, their execution on memory, registers and counters over an
  arbitrary kernel, and an executable check that a body stays inside its memory, whose
  soundness is proved.

  Addresses in the generated code are constants plus \<open>PTR_OFFSET\<close>, which moves the range
  [\<open>MMAP_OFFSET\<close>, \<open>MMAP_OFFSET + MMAP_LENGTH\<close>) onto the mapping of the thread. A direct access
  outside the mapping is \<open>Undefined\<close>, and so is a system call that is handed a pointer outside
  the mapping or a buffer that is shorter than the size that goes with it: the kernel would
  read or write past the end of the mapping or of the write buffer. What the kernel does inside
  the buffers, including writes to memory, is up to the kernel. The machine is little-endian.
\<close>

type_synonym mem = "u64 \<Rightarrow> u8"

text \<open>The system calls that the bodies make, \<open>__NR_*\<close>.\<close>

datatype sysno =
  NR_accept | NR_bind | NR_clock_gettime | NR_close | NR_dup | NR_epoll_create1 | NR_faccessat |
  NR_faccessat2 | NR_fadvise64 | NR_fallocate | NR_fcntl | NR_fdatasync | NR_fstatfs | NR_fsync |
  NR_ftruncate | NR_getdents64 | NR_getpeername | NR_getrusage | NR_io_getevents | NR_ioctl |
  NR_listen | NR_lseek | NR_newfstatat | NR_openat | NR_ppoll | NR_pread64 | NR_pwrite64 | NR_read |
  NR_readahead | NR_readlinkat | NR_recvfrom | NR_renameat | NR_sendto | NR_setsockopt |
  NR_shutdown | NR_socket | NR_sync_file_range | NR_unlinkat | NR_write

datatype operand =
    Imm u64
  | Ptr u64     \<comment> \<open>constant + PTR\_OFFSET\<close>
  | Reg nat     \<comment> \<open>r[i]\<close>
  | Dir_fd      \<comment> \<open>ctx->dirfd\<close>
  | Write_buf   \<comment> \<open>ctx->writeBuffer\<close>
  | Bind6_arg   \<comment> \<open>ctx->bind6\_arg\<close>
  | Be16 u16    \<comment> \<open>htobe16(constant)\<close>
  | Be32 u32    \<comment> \<open>htobe32(constant)\<close>

datatype stmt =
    Memcpy u64 string nat           \<comment> \<open>memcpy(dst, "literal", n)\<close>
  | Memset u64 u8 nat
  | Store nat u64 operand           \<comment> \<open>*(uintN\_t* )(dst) = value, N in bytes\<close>
  | Syscall sysno "operand list"    \<comment> \<open>res = syscall(\_\_NR\_name, ...)\<close>
  | Count                           \<comment> \<open>if (res == -1) num\_failed++ else num\_succeeded++\<close>
  | Close_reg nat                   \<comment> \<open>close(r[i]), not counted\<close>
  | Save_res nat                    \<comment> \<open>if (res != -1) r[i] = res\<close>
  | Load_reg nat u64                \<comment> \<open>if (res != -1) r[i] = *(uint64\_t* )(src)\<close>

definition MMAP_OFFSET :: u64 where "MMAP_OFFSET = 0x20000000"
definition MMAP_LENGTH :: nat where "MMAP_LENGTH = 0x1000000"
definition abort_on_fail :: bool where "abort_on_fail = False"

text \<open>The operating system as the targets use it; \<open>alloc\<close> and \<open>mmap\<close> return an address.\<close>

record 'k sys_kernel =
  os_syscall :: "sysno \<Rightarrow> u64 list \<Rightarrow> mem \<Rightarrow> 'k \<Rightarrow> u64 \<times> mem \<times> 'k"
  os_mkdtemp :: "string \<Rightarrow> 'k \<Rightarrow> string option \<times> 'k"
  os_chmod :: "string option \<Rightarrow> 'k \<Rightarrow> 'k"
  os_open_dir :: "string option \<Rightarrow> 'k \<Rightarrow> int \<times> 'k"
  os_mkdirat :: "int \<Rightarrow> string \<Rightarrow> 'k \<Rightarrow> 'k"
  os_openat :: "int \<Rightarrow> string \<Rightarrow> 'k \<Rightarrow> int \<times> 'k"
  os_ftruncate :: "int \<Rightarrow> u64 \<Rightarrow> 'k \<Rightarrow> int \<times> 'k"
  os_close :: "int \<Rightarrow> 'k \<Rightarrow> 'k"
  os_mmap :: "nat \<Rightarrow> 'k \<Rightarrow> (u64 \<times> mem) \<times> 'k"
  os_malloc :: "u64 \<Rightarrow> 'k \<Rightarrow> u64 \<times> 'k"

text \<open>What a body works on: the constants of the thread and the changing state.\<close>

record place =
  mapping :: u64
  dir_fd :: int
  write_buf :: u64
  write_len :: nat   \<comment> \<open>the bytes that writeBuffer has\<close>
  bind6_ptr :: u64

record 'k machine =
  memory :: mem
  regs :: "u64 list"
  res :: u64
  succeeded :: int
  failed :: int
  os :: 'k

definition at_offset :: "place \<Rightarrow> u64 \<Rightarrow> u64" where
  "at_offset e a = a + (mapping e - MMAP_OFFSET)"

definition accessible :: "place \<Rightarrow> u64 \<Rightarrow> nat \<Rightarrow> bool" where
  "accessible e p len \<longleftrightarrow> unat (p - mapping e) + len \<le> MMAP_LENGTH"

definition poke :: "u64 \<Rightarrow> u8 list \<Rightarrow> mem \<Rightarrow> mem" where
  "poke p bs m = (\<lambda>q. if unat (q - p) < length bs then bs ! unat (q - p) else m q)"

definition store_bytes :: "place \<Rightarrow> u64 \<Rightarrow> u8 list \<Rightarrow> 'k machine \<Rightarrow> 'k machine result" where
  "store_bytes e a bs s =
     (let p = at_offset e a in
      if accessible e p (length bs) then Inr (s\<lparr>memory := poke p bs (memory s)\<rparr>) else Inl Undefined)"

definition literal_bytes :: "string \<Rightarrow> u8 list" where
  "literal_bytes s = map of_char s @ [0]"

definition with_nul :: "string \<Rightarrow> string" where
  "with_nul s = s @ [CHR 0x00]"

definition le_bytes :: "nat \<Rightarrow> u64 \<Rightarrow> u8 list" where
  "le_bytes w v = map (\<lambda>i. ucast (drop_bit (8 * i) v)) [0..<w]"

definition peek :: "u64 \<Rightarrow> nat \<Rightarrow> mem \<Rightarrow> u8 list" where
  "peek p len m = map (\<lambda>i. m (p + of_nat i)) [0..<len]"

definition le_word :: "u8 list \<Rightarrow> u64" where
  "le_word bs = foldr (\<lambda>b v. push_bit 8 v OR ucast b) bs 0"

definition htobe32 :: "u32 \<Rightarrow> u32" where
  "htobe32 x = push_bit 16 (ucast (htons (ucast x))) OR ucast (htons (ucast (drop_bit 16 x)))"

definition reg_at :: "'k machine \<Rightarrow> nat \<Rightarrow> u64 result" where
  "reg_at s i = (if i < length (regs s) then Inr (regs s ! i) else Inl Undefined)"

fun operand_value :: "place \<Rightarrow> 'k machine \<Rightarrow> operand \<Rightarrow> u64 result" where
  "operand_value e s (Imm v) = Inr v"
| "operand_value e s (Ptr a) = Inr (at_offset e a)"
| "operand_value e s (Reg i) = reg_at s i"
| "operand_value e s Dir_fd = Inr (word_of_int (dir_fd e))"
| "operand_value e s Write_buf = Inr (write_buf e)"
| "operand_value e s Bind6_arg = Inr (bind6_ptr e)"
| "operand_value e s (Be16 x) = Inr (ucast (htons x))"
| "operand_value e s (Be32 x) = Inr (ucast (htobe32 x))"

fun operand_values :: "place \<Rightarrow> 'k machine \<Rightarrow> operand list \<Rightarrow> u64 list result" where
  "operand_values e s [] = Inr []"
| "operand_values e s (x # xs) = bind_r (operand_value e s x) (\<lambda>v. bind_r (operand_values e s xs) (\<lambda>vs. Inr (v # vs)))"

text \<open>The counters are of type \<open>int\<close>.\<close>

definition int_inc :: "int \<Rightarrow> int result" where
  "int_inc n = (if n < 2 ^ 31 - 1 then Inr (n + 1) else Inl Undefined)"

definition count_res :: "'k machine \<Rightarrow> 'k machine result" where
  "count_res s =
     (if res s = - 1 then c_assert (\<not> abort_on_fail) (bind_r (int_inc (failed s)) (\<lambda>c. Inr (s\<lparr>failed := c\<rparr>)))
      else bind_r (int_inc (succeeded s)) (\<lambda>c. Inr (s\<lparr>succeeded := c\<rparr>)))"

text \<open>
  The pointers and buffers of a system call. In the calls of \<open>buffer_calls\<close> a buffer is followed
  by its size; \<open>bind6_arg\<close> points to a \<open>struct sockaddr_in6\<close> of 28 bytes.
\<close>

definition buffer_calls :: "sysno list" where
  "buffer_calls = [NR_read, NR_write, NR_pread64, NR_pwrite64, NR_getdents64, NR_recvfrom, NR_sendto,
     NR_readlinkat, NR_setsockopt, NR_bind]"

fun pointer_in :: "place \<Rightarrow> operand \<Rightarrow> bool" where
  "pointer_in e (Ptr a) \<longleftrightarrow> accessible e (at_offset e a) 1"
| "pointer_in e x \<longleftrightarrow> True"

fun buffers_fit :: "place \<Rightarrow> operand list \<Rightarrow> bool" where
  "buffers_fit e (Ptr a # Imm n # xs) \<longleftrightarrow> accessible e (at_offset e a) (unat n) \<and> buffers_fit e xs"
| "buffers_fit e (Write_buf # Imm n # xs) \<longleftrightarrow> unat n \<le> write_len e \<and> buffers_fit e xs"
| "buffers_fit e (Write_buf # xs) \<longleftrightarrow> False"
| "buffers_fit e (Bind6_arg # Imm n # xs) \<longleftrightarrow> unat n \<le> 28 \<and> buffers_fit e xs"
| "buffers_fit e (x # xs) \<longleftrightarrow> buffers_fit e xs"
| "buffers_fit e [] \<longleftrightarrow> True"

definition call_in_bounds :: "place \<Rightarrow> sysno \<Rightarrow> operand list \<Rightarrow> bool" where
  "call_in_bounds e name xs \<longleftrightarrow> list_all (pointer_in e) xs \<and> (name \<in> set buffer_calls \<longrightarrow> buffers_fit e xs)"

fun exec_stmt :: "'k sys_kernel \<Rightarrow> place \<Rightarrow> stmt \<Rightarrow> 'k machine \<Rightarrow> 'k machine result" where
  "exec_stmt K e (Memcpy a lit len) s =
     (if len > length (literal_bytes lit) then Inl Undefined else store_bytes e a (take len (literal_bytes lit)) s)"
| "exec_stmt K e (Memset a b len) s = store_bytes e a (replicate len b) s"
| "exec_stmt K e (Store w a x) s = bind_r (operand_value e s x) (\<lambda>v. store_bytes e a (le_bytes w v) s)"
| "exec_stmt K e (Syscall name xs) s =
     bind_r (operand_values e s xs) (\<lambda>vs.
       if \<not> call_in_bounds e name xs then Inl Undefined
       else let (r, m, k) = os_syscall K name vs (memory s) (os s) in Inr (s\<lparr>res := r, memory := m, os := k\<rparr>))"
| "exec_stmt K e Count s = count_res s"
| "exec_stmt K e (Close_reg i) s = bind_r (reg_at s i) (\<lambda>v. Inr (s\<lparr>os := os_close K (sint (ucast v :: u32)) (os s)\<rparr>))"
| "exec_stmt K e (Save_res i) s =
     (if res s = - 1 then Inr s
      else if i < length (regs s) then Inr (s\<lparr>regs := (regs s)[i := res s]\<rparr>) else Inl Undefined)"
| "exec_stmt K e (Load_reg i a) s =
     (if res s = - 1 then Inr s
      else if i < length (regs s) \<and> accessible e (at_offset e a) 8
        then Inr (s\<lparr>regs := (regs s)[i := le_word (peek (at_offset e a) 8 (memory s))]\<rparr>) else Inl Undefined)"

fun exec_body :: "'k sys_kernel \<Rightarrow> place \<Rightarrow> stmt list \<Rightarrow> 'k machine \<Rightarrow> 'k machine result" where
  "exec_body K e [] s = Inr s"
| "exec_body K e (c # cs) s = bind_r (exec_stmt K e c s) (exec_body K e cs)"

section \<open>The static check\<close>

definition in_mapping :: "u64 \<Rightarrow> nat \<Rightarrow> bool" where
  "in_mapping a len \<longleftrightarrow> unat (a - MMAP_OFFSET) + len \<le> MMAP_LENGTH"

fun operand_ok :: "nat \<Rightarrow> operand \<Rightarrow> bool" where
  "operand_ok nregs (Reg i) \<longleftrightarrow> i < nregs"
| "operand_ok nregs (Ptr a) \<longleftrightarrow> in_mapping a 1"
| "operand_ok nregs x \<longleftrightarrow> True"

text \<open>A buffer is followed by its size; it fits into the mapping or the write buffer.\<close>

fun buffers_ok :: "nat \<Rightarrow> operand list \<Rightarrow> bool" where
  "buffers_ok maxw (Ptr a # Imm n # xs) \<longleftrightarrow> in_mapping a (unat n) \<and> buffers_ok maxw xs"
| "buffers_ok maxw (Write_buf # Imm n # xs) \<longleftrightarrow> unat n \<le> maxw \<and> buffers_ok maxw xs"
| "buffers_ok maxw (Write_buf # xs) \<longleftrightarrow> False"
| "buffers_ok maxw (Bind6_arg # Imm n # xs) \<longleftrightarrow> unat n \<le> 28 \<and> buffers_ok maxw xs"
| "buffers_ok maxw (x # xs) \<longleftrightarrow> buffers_ok maxw xs"
| "buffers_ok maxw [] \<longleftrightarrow> True"

fun stmt_ok :: "nat \<Rightarrow> nat \<Rightarrow> stmt \<Rightarrow> bool" where
  "stmt_ok nregs maxw (Memcpy a lit len) \<longleftrightarrow> len \<le> length lit + 1 \<and> in_mapping a len"
| "stmt_ok nregs maxw (Memset a b len) \<longleftrightarrow> in_mapping a len"
| "stmt_ok nregs maxw (Store w a x) \<longleftrightarrow> in_mapping a w \<and> operand_ok nregs x"
| "stmt_ok nregs maxw (Syscall name xs) \<longleftrightarrow>
     list_all (operand_ok nregs) xs \<and> (name \<in> set buffer_calls \<longrightarrow> buffers_ok maxw xs)"
| "stmt_ok nregs maxw Count \<longleftrightarrow> True"
| "stmt_ok nregs maxw (Save_res i) \<longleftrightarrow> i < nregs"
| "stmt_ok nregs maxw (Close_reg i) \<longleftrightarrow> i < nregs"
| "stmt_ok nregs maxw (Load_reg i a) \<longleftrightarrow> i < nregs \<and> in_mapping a 8"

definition body_ok :: "nat \<Rightarrow> nat \<Rightarrow> stmt list \<Rightarrow> bool" where
  "body_ok nregs maxw cs \<longleftrightarrow> list_all (stmt_ok nregs maxw) cs"

text \<open>Every system call is counted, right after it.\<close>

fun counted :: "stmt list \<Rightarrow> bool" where
  "counted (Syscall name xs # Count # cs) \<longleftrightarrow> counted cs"
| "counted (Syscall name xs # cs) \<longleftrightarrow> False"
| "counted (Count # cs) \<longleftrightarrow> False"
| "counted (c # cs) \<longleftrightarrow> counted cs"
| "counted [] \<longleftrightarrow> True"

definition calls :: "stmt list \<Rightarrow> nat" where
  "calls cs = length (filter (\<lambda>c. case c of Syscall _ _ \<Rightarrow> True | _ \<Rightarrow> False) cs)"

definition counts :: "stmt list \<Rightarrow> nat" where
  "counts cs = length (filter (\<lambda>c. c = Count) cs)"

lemma calls_simps [simp]:
  "calls [] = 0" "calls (Syscall name xs # cs) = Suc (calls cs)" "calls (Count # cs) = calls cs"
  "calls (Memcpy a l k # cs) = calls cs" "calls (Memset a b k # cs) = calls cs" "calls (Store w a x # cs) = calls cs"
  "calls (Save_res i # cs) = calls cs" "calls (Close_reg i # cs) = calls cs" "calls (Load_reg i a # cs) = calls cs" "calls (cs @ cs') = calls cs + calls cs'"
  by (simp_all add: calls_def)

lemma counts_simps [simp]:
  "counts [] = 0" "counts (Count # cs) = Suc (counts cs)" "c \<noteq> Count \<Longrightarrow> counts (c # cs) = counts cs"
  by (simp_all add: counts_def)

lemma counted_counts: "counted cs \<Longrightarrow> counts cs = calls cs"
  by (induction cs rule: counted.induct) simp_all

lemma body_ok_simps [simp]:
  "body_ok nregs maxw []" "body_ok nregs maxw (c # cs) \<longleftrightarrow> stmt_ok nregs maxw c \<and> body_ok nregs maxw cs"
  "body_ok nregs maxw (cs @ cs') \<longleftrightarrow> body_ok nregs maxw cs \<and> body_ok nregs maxw cs'"
  by (auto simp: body_ok_def)

section \<open>Soundness of the check\<close>

lemma accessible_in_mapping: "in_mapping a len \<Longrightarrow> accessible e (at_offset e a) len"
  by (simp add: in_mapping_def accessible_def at_offset_def algebra_simps)

lemma store_bytes_ok: "in_mapping a (length bs) \<Longrightarrow> store_bytes e a bs s = Inr (s\<lparr>memory := poke (at_offset e a) bs (memory s)\<rparr>)"
  by (simp add: store_bytes_def accessible_in_mapping)

lemma length_literal [simp]: "length (literal_bytes lit) = length lit + 1"
  by (simp add: literal_bytes_def)

lemma operand_value_ok: "operand_ok (length (regs s)) x \<Longrightarrow> \<exists>v. operand_value e s x = Inr v"
  by (cases x) (simp_all add: reg_at_def)

lemma operand_values_ok: "list_all (operand_ok (length (regs s))) xs \<Longrightarrow> \<exists>vs. operand_values e s xs = Inr vs"
  by (induction xs) (auto dest: operand_value_ok [of s _ e])

text \<open>The state after a statement: the counters say how many results have been counted.\<close>

definition counters_ok :: "nat \<Rightarrow> 'k machine \<Rightarrow> bool" where
  "counters_ok room s \<longleftrightarrow> 0 \<le> succeeded s \<and> 0 \<le> failed s \<and> succeeded s + failed s + int room < 2 ^ 31"

lemma buffers_ok_fit: "buffers_ok (write_len e) xs \<Longrightarrow> buffers_fit e xs"
  by (induction "write_len e" xs rule: buffers_ok.induct) (simp_all add: accessible_in_mapping)

lemma pointers_ok_in: "list_all (operand_ok nregs) xs \<Longrightarrow> list_all (pointer_in e) xs"
proof (induction xs)
  case (Cons x xs)
  then show ?case by (cases x) (simp_all add: accessible_in_mapping)
qed simp

lemma stmt_ok_in_bounds: "stmt_ok nregs (write_len e) (Syscall name xs) \<Longrightarrow> call_in_bounds e name xs"
  using pointers_ok_in [of nregs xs e] by (auto simp: call_in_bounds_def buffers_ok_fit)

lemma exec_stmt_ok:
  assumes "stmt_ok (length (regs s)) (write_len e) c" "counters_ok (counts [c] + room) s"
  shows "\<exists>s'. exec_stmt K e c s = Inr s' \<and> length (regs s') = length (regs s) \<and> counters_ok room s' \<and>
    succeeded s' + failed s' = succeeded s + failed s + int (counts [c]) \<and>
    succeeded s \<le> succeeded s' \<and> failed s \<le> failed s'"
proof (cases c)
  case (Memcpy a lit len)
  with assms(1) have len: "len \<le> length (literal_bytes lit)" "in_mapping a len" by (simp_all add: length_literal)
  then have "exec_stmt K e c s = Inr (s\<lparr>memory := poke (at_offset e a) (take len (literal_bytes lit)) (memory s)\<rparr>)"
    using Memcpy store_bytes_ok [of a "take len (literal_bytes lit)" e s] by simp
  with Memcpy assms(2) show ?thesis by (simp add: counters_ok_def)
next
  case (Memset a b len)
  with assms store_bytes_ok [of a "replicate len b" e s] show ?thesis by (simp add: counters_ok_def)
next
  case (Store w a x)
  with assms operand_value_ok [of s x e] obtain v where "operand_value e s x = Inr v" by auto
  with Store assms store_bytes_ok [of a "le_bytes w v" e s] show ?thesis by (simp add: counters_ok_def le_bytes_def)
next
  case (Syscall name xs)
  with assms operand_values_ok [of s xs e] obtain vs where "operand_values e s xs = Inr vs" by auto
  with Syscall assms(2) stmt_ok_in_bounds [of "length (regs s)" e name xs] assms(1) show ?thesis
    by (auto simp: counters_ok_def Let_def split: prod.splits)
next
  case Count
  with assms(2) show ?thesis
    by (auto simp: count_res_def abort_on_fail_def int_inc_def counters_ok_def)
next
  case (Close_reg i)
  with assms show ?thesis by (simp add: reg_at_def counters_ok_def)
next
  case (Save_res i)
  with assms show ?thesis by (auto simp: counters_ok_def)
next
  case (Load_reg i a)
  with assms accessible_in_mapping [of a 8 e] show ?thesis by (auto simp: counters_ok_def)
qed

lemma counts_Cons: "counts (c # cs) = counts [c] + counts cs"
  by (simp add: counts_def)

lemma exec_body_ok:
  assumes "body_ok (length (regs s)) (write_len e) cs" "counters_ok (counts cs + room) s"
  shows "\<exists>s'. exec_body K e cs s = Inr s' \<and> length (regs s') = length (regs s) \<and> counters_ok room s' \<and>
    succeeded s' + failed s' = succeeded s + failed s + int (counts cs) \<and>
    succeeded s \<le> succeeded s' \<and> failed s \<le> failed s'"
  using assms
proof (induction cs arbitrary: s)
  case (Cons c cs)
  have "counters_ok (counts [c] + (counts cs + room)) s" using Cons.prems(2) by (simp add: counts_Cons [of c cs] add.assoc)
  with exec_stmt_ok [of s e c "counts cs + room" K] Cons.prems(1)
  obtain s1 where s1: "exec_stmt K e c s = Inr s1" "length (regs s1) = length (regs s)" "counters_ok (counts cs + room) s1"
      "succeeded s1 + failed s1 = succeeded s + failed s + int (counts [c])" "succeeded s \<le> succeeded s1" "failed s \<le> failed s1"
    by auto
  with Cons.IH [of s1] Cons.prems(1) show ?case by (fastforce simp: counts_Cons [of c cs])
qed simp

end
