(* ===== verification/CSB_SyzTarget.thy ===== *)
theory CSB_SyzTarget
  imports CSB_Syz CSB_Target CSB_NetAddr
begin

text \<open>
  The generated targets around the bodies (bench/targets/*/min_*.h). Up to the name of the
  target all the files of a directory are the same text, so a target is a template applied to
  a name and a body. The three templates differ in what is set up (the mysql one has no
  network addresses and no write buffer) and in where the registers live: in an array shared
  by all threads (mysql), in an array of the thread's context allocated at registration
  (mysql_v2), or in a local array of the dispatch function (rocksdb).
\<close>

datatype family = Mysql | Mysql_v2 | Rocksdb

record syz_prog =
  prog_name :: string
  prog_family :: family
  subdirs :: "string list"
  filenames :: "string list"
  filesizes :: "u64 list"
  max_write_buffer :: u64
  init_regs :: "u64 list"
  reg_body :: "stmt list"
  dereg_body :: "stmt list"
  body :: "stmt list"

text \<open>The statements of a program: at registration, at deregistration, and of a dispatch.\<close>

abbreviation num_regs :: "syz_prog \<Rightarrow> nat" where
  "num_regs P \<equiv> length (init_regs P)"

text \<open>\<open>thread_ctx_s\<close>; the mapping is an address with the memory behind it, NULL is \<open>None\<close>.\<close>

record syz_ctx =
  s_tid :: u64
  iteration :: u64
  aggregation_threads :: bool
  s_regs :: "u64 list option"
  tmpdir :: "string option"
  s_dirfd :: int
  num_succeeded :: int
  num_failed :: int
  mmap_offsets :: u64
  s_memory :: mem
  writeBuffer :: u64
  connect4_arg :: "sockaddr option"
  connect6_arg :: "sockaddr option"
  bind4_arg :: "sockaddr option"
  bind6_arg :: "sockaddr option"
  bind6_at :: u64   \<comment> \<open>the pointer \<open>bind6_arg\<close>\<close>

text \<open>The globals of a target; \<open>r_unique\<close> is the shared register array of the mysql template.\<close>

record 'k syz_world =
  op_name_tbl :: "string option"
  r_unique :: "u64 list"
  g_conn_port :: u16
  g_bind_port :: u16
  bm_connect_addr :: "sockaddr \<times> bool"
  bm_bind_addr :: "sockaddr \<times> bool"
  g_errno :: int   \<comment> \<open>errno, as \<open>bm_target_init\<close> finds it\<close>
  s_os :: 'k

definition SYZ_MAX_NAME_LEN :: nat where "SYZ_MAX_NAME_LEN = 20"
definition NUM_SYSCALLS :: nat where "NUM_SYSCALLS = 1"

section \<open>Setting up the directory\<close>

text \<open>
  \<open>_mkdir\<close>: the paths it passes to \<open>mkdirat\<close>. \<open>snprintf\<close> cuts the path to the 255 characters
  that fit the buffer; an empty path reads before the buffer.
\<close>

definition mkdir_paths :: "string \<Rightarrow> string list result" where
  "mkdir_paths dir =
     (let tmp0 = take 255 dir in
      if tmp0 = [] then Inl Undefined
      else let tmp = (if last tmp0 = CHR ''/'' then butlast tmp0 else tmp0)
        in Inr (map (\<lambda>i. take i tmp) (filter (\<lambda>i. tmp ! i = CHR ''/'') [1..<length tmp]) @ [tmp]))"

fun mkdirs :: "'k sys_kernel \<Rightarrow> int \<Rightarrow> string list \<Rightarrow> 'k \<Rightarrow> 'k" where
  "mkdirs K fd [] k = k"
| "mkdirs K fd (p # ps) k = mkdirs K fd ps (os_mkdirat K fd p k)"

fun init_subdirs :: "'k sys_kernel \<Rightarrow> int \<Rightarrow> string list \<Rightarrow> 'k \<Rightarrow> 'k result" where
  "init_subdirs K fd [] k = Inr k"
| "init_subdirs K fd (dir # dirs) k =
     bind_r (mkdir_paths dir) (\<lambda>ps. init_subdirs K fd dirs (mkdirs K fd ps k))"

text \<open>The loop that creates the files; a file that cannot be opened is skipped.\<close>

fun create_files :: "'k sys_kernel \<Rightarrow> int \<Rightarrow> (string \<times> u64) list \<Rightarrow> 'k \<Rightarrow> 'k result" where
  "create_files K fd [] k = Inr k"
| "create_files K fd ((name, len) # rest) k =
     (let (fd_trunc, k1) = os_openat K fd name k in
      if fd_trunc < 0 then create_files K fd rest k1
      else let (ret_ft, k2) = os_ftruncate K fd_trunc len k1 in
        c_assert (ret_ft = 0) (create_files K fd rest (os_close K fd_trunc k2)))"

section \<open>One run of the body\<close>

definition fresh_regs :: "syz_prog \<Rightarrow> u64 list" where
  "fresh_regs P = init_regs P"

definition load_regs :: "syz_prog \<Rightarrow> syz_ctx \<Rightarrow> 'k syz_world \<Rightarrow> u64 list" where
  "load_regs P ctx w =
     (case prog_family P of
        Mysql \<Rightarrow> r_unique w
      | Mysql_v2 \<Rightarrow> (case s_regs ctx of None \<Rightarrow> [] | Some r \<Rightarrow> r)
      | Rocksdb \<Rightarrow> fresh_regs P)"

definition store_regs :: "syz_prog \<Rightarrow> u64 list \<Rightarrow> syz_ctx \<times> 'k syz_world \<Rightarrow> syz_ctx \<times> 'k syz_world" where
  "store_regs P r st =
     (let (ctx, w) = st in
      case prog_family P of
        Mysql \<Rightarrow> (ctx, w\<lparr>r_unique := r\<rparr>)
      | Mysql_v2 \<Rightarrow> (ctx\<lparr>s_regs := map_option (\<lambda>_. r) (s_regs ctx)\<rparr>, w)
      | Rocksdb \<Rightarrow> (ctx, w))"

abbreviation place_of :: "syz_prog \<Rightarrow> syz_ctx \<Rightarrow> place" where
  "place_of P ctx \<equiv> \<lparr>mapping = mmap_offsets ctx, dir_fd = s_dirfd ctx, write_buf = writeBuffer ctx,
     write_len = unat (max_write_buffer P), bind6_ptr = bind6_at ctx\<rparr>"

abbreviation machine_of :: "syz_prog \<Rightarrow> syz_ctx \<Rightarrow> 'k syz_world \<Rightarrow> 'k machine" where
  "machine_of P ctx w \<equiv> \<lparr>memory = s_memory ctx, regs = load_regs P ctx w, res = 0,
     succeeded = num_succeeded ctx, failed = num_failed ctx, os = s_os w\<rparr>"

text \<open>Running a list of statements in the context of a thread.\<close>

definition run_stmts ::
  "'k sys_kernel \<Rightarrow> syz_prog \<Rightarrow> stmt list \<Rightarrow> syz_ctx \<Rightarrow> 'k syz_world \<Rightarrow> (syz_ctx \<times> 'k syz_world) result" where
  "run_stmts K P cs ctx w =
     bind_r (exec_body K (place_of P ctx) cs (machine_of P ctx w))
      (\<lambda>s. Inr (store_regs P (regs s)
         (ctx\<lparr>s_memory := memory s, num_succeeded := succeeded s, num_failed := failed s\<rparr>, w\<lparr>s_os := os s\<rparr>)))"

text \<open>\<open>bm_dispatch_operation_<name>_prog\<close>, the function of the syz file.\<close>

definition run_body :: "'k sys_kernel \<Rightarrow> syz_prog \<Rightarrow> syz_ctx \<Rightarrow> 'k syz_world \<Rightarrow> (syz_ctx \<times> 'k syz_world) result" where
  "run_body K P ctx w = run_stmts K P (body P) ctx w"

section \<open>The target's functions\<close>

text \<open>\<open>snprintf\<close> cuts the name to the space the caller offers.\<close>

definition syz_get_op_name :: "nat \<Rightarrow> nat \<Rightarrow> 'k syz_world \<Rightarrow> string result" where
  "syz_get_op_name len op_id w =
     c_assert (len \<ge> SYZ_MAX_NAME_LEN) (c_assert (op_id = 0)
       (case op_name_tbl w of None \<Rightarrow> Inl Undefined | Some name \<Rightarrow> Inr (take (len - 1) name)))"

definition syz_init ::
  "(string \<Rightarrow> string option) \<Rightarrow> (int \<Rightarrow> string \<Rightarrow> int \<times> string) \<Rightarrow> syz_prog \<Rightarrow> u64 \<Rightarrow> u64 \<Rightarrow>
   'k syz_world \<Rightarrow> 'k syz_world result" where
  "syz_init os_getenv os_inet_pton P init_size num_threads w =
     (let w1 = w\<lparr>op_name_tbl := Some (prog_name P)\<rparr> in
      if prog_family P = Mysql then Inr w1
      else c_assert (init_size \<le> 65535)
       (let port = ucast init_size; w2 = w1\<lparr>g_conn_port := port, g_bind_port := port\<rparr> in
        bind_r (parse_net_addr os_getenv os_inet_pton ''BM_SYS_CONNECT_ADDR'' ''BM_SYS_CONNECT_PORT'' port (g_errno w2) (bm_connect_addr w2))
          (\<lambda>c. bind_r (parse_net_addr os_getenv os_inet_pton ''BM_SYS_BIND_ADDR'' ''BM_SYS_BIND_PORT'' port (g_errno w2) (bm_bind_addr w2))
          (\<lambda>b. Inr (w2\<lparr>bm_connect_addr := c, bm_bind_addr := b\<rparr>)))))"

definition INADDR_LOOPBACK :: string where
  "INADDR_LOOPBACK = [CHR 0x7F, CHR 0x00, CHR 0x00, CHR 0x01]"

definition in6addr_loopback :: string where
  "in6addr_loopback = replicate 15 (CHR 0x00) @ [CHR 0x01]"

definition in6addr_any :: string where
  "in6addr_any = replicate 16 (CHR 0x00)"

text \<open>
  The address of an IPv4 argument: the one given in the environment or a new one. An IPv6
  address is written without a test for NULL.
\<close>

definition socket4_arg :: "'k sys_kernel \<Rightarrow> sockaddr \<times> bool \<Rightarrow> string \<Rightarrow> u16 \<Rightarrow> 'k \<Rightarrow> (sockaddr \<times> 'k) result" where
  "socket4_arg K given addr port k =
     (if snd given then Inr (fst given, k)
      else let (p, k1) = os_malloc K 16 k in
        c_assert (p \<noteq> 0) (Inr (\<lparr>sa_family = AF_INET, sin_port = htons port, sin_addr = addr\<rparr>, k1)))"

definition socket6_arg :: "'k sys_kernel \<Rightarrow> string \<Rightarrow> u16 \<Rightarrow> 'k \<Rightarrow> (sockaddr \<times> u64 \<times> 'k) result" where
  "socket6_arg K addr port k =
     (let (p, k1) = os_malloc K 28 k in
      if p = 0 then Inl Undefined else Inr (\<lparr>sa_family = AF_INET6, sin_port = htons port, sin_addr = addr\<rparr>, p, k1))"

text \<open>The bytes of \<open>struct sockaddr_in6\<close> that are written: family, port and address.\<close>

definition put_sockaddr6 :: "u64 \<Rightarrow> sockaddr \<Rightarrow> mem \<Rightarrow> mem" where
  "put_sockaddr6 p a m =
     poke (p + 8) (map of_char (sin_addr a))
      (poke p (le_bytes 2 (word_of_int (sa_family a)) @ le_bytes 2 (ucast (sin_port a))) m)"

text \<open>The write buffer, which is allocated but not filled, and the socket addresses.\<close>

definition setup_buffers :: "'k sys_kernel \<Rightarrow> syz_prog \<Rightarrow> syz_ctx \<Rightarrow> 'k syz_world \<Rightarrow> (syz_ctx \<times> 'k syz_world) result" where
  "setup_buffers K P ctx w =
     (let (wb, k1) = os_malloc K (max_write_buffer P) (s_os w) in
      bind_r (socket4_arg K (bm_connect_addr w) INADDR_LOOPBACK (g_conn_port w) k1) (\<lambda>(c4, k2).
      bind_r (socket4_arg K (bm_bind_addr w) INADDR_ANY (g_bind_port w) k2) (\<lambda>(b4, k3).
      bind_r (socket6_arg K in6addr_loopback (g_conn_port w) k3) (\<lambda>(c6, p6, k4).
      bind_r (socket6_arg K in6addr_any (g_bind_port w) k4) (\<lambda>(b6, q6, k5).
      Inr (ctx\<lparr>writeBuffer := wb, connect4_arg := Some c4, connect6_arg := Some c6, bind4_arg := Some b4, bind6_arg := Some b6,
          bind6_at := q6, s_memory := put_sockaddr6 q6 b6 (put_sockaddr6 p6 c6 (s_memory ctx))\<rparr>,
        w\<lparr>s_os := k5\<rparr>))))))"

text \<open>
  \<open>bm_target_reg_<name>_prog\<close> of the mysql\_v2 template: it allocates and fills the registers, if
  there are any, and executes its own statements, which some network targets have.
\<close>

definition alloc_regs :: "'k sys_kernel \<Rightarrow> syz_prog \<Rightarrow> syz_ctx \<Rightarrow> 'k syz_world \<Rightarrow> (syz_ctx \<times> 'k syz_world) result" where
  "alloc_regs K P ctx w =
     (if num_regs P = 0 then Inr (ctx, w)
      else let (p, k) = os_malloc K (8 * of_nat (num_regs P)) (s_os w) in
        if p = 0 then Inl Undefined else Inr (ctx\<lparr>s_regs := Some (fresh_regs P)\<rparr>, w\<lparr>s_os := k\<rparr>))"

definition reg_prog :: "'k sys_kernel \<Rightarrow> syz_prog \<Rightarrow> syz_ctx \<Rightarrow> 'k syz_world \<Rightarrow> (syz_ctx \<times> 'k syz_world) result" where
  "reg_prog K P ctx w =
     (if prog_family P \<noteq> Mysql_v2 then Inr (ctx, w)
      else bind_r (alloc_regs K P ctx w) (\<lambda>(ctx1, w1). run_stmts K P (reg_body P) ctx1 w1))"

definition reset_counters :: "syz_ctx \<Rightarrow> syz_ctx" where
  "reset_counters ctx = ctx\<lparr>num_succeeded := 0, num_failed := 0\<rparr>"

definition syz_reg :: "'k sys_kernel \<Rightarrow> syz_prog \<Rightarrow> u64 \<Rightarrow> syz_ctx \<Rightarrow> 'k syz_world \<Rightarrow> (syz_ctx \<times> 'k syz_world) result" where
  "syz_reg K P tid ctx w =
     (let (dir, k1) = os_mkdtemp K (''./syzkaller_'' @ prog_name P @ ''.XXXXXX'') (s_os w);
          k2 = os_chmod K dir k1;
          (dfd, k3) = os_open_dir K dir k2
      in bind_r (init_subdirs K dfd (subdirs P) k3) (\<lambda>k4.
         c_assert (length (filenames P) = length (filesizes P))
          (bind_r (create_files K dfd (zip (filenames P) (filesizes P)) k4) (\<lambda>k5.
           let ((addr, m), k6) = os_mmap K MMAP_LENGTH k5 in
           c_assert (addr \<noteq> - 1) (c_assert (addr \<noteq> 0)
            (let ctx1 = (reset_counters ctx)\<lparr>s_tid := tid, aggregation_threads := False, tmpdir := dir, s_dirfd := dfd,
                   mmap_offsets := addr, s_memory := m\<rparr>;
                 w1 = w\<lparr>s_os := k6\<rparr>
             in bind_r (if prog_family P = Mysql then Inr (ctx1, w1) else setup_buffers K P ctx1 w1) (\<lambda>(ctx2, w2).
                bind_r (reg_prog K P ctx2 w2) (\<lambda>(ctx3, w3).
                bind_r (run_body K P ctx3 w3) (\<lambda>(ctx4, w4).
                Inr (reset_counters ctx4, w4))))))))))"

text \<open>
  \<open>bm_target_dereg\<close>: the pointers it frees and clears. The mysql\_v2 template leaves the pointer
  of the registers dangling; the rocksdb one frees nothing but the directory name and the
  write buffer.
\<close>

definition syz_dereg :: "'k sys_kernel \<Rightarrow> syz_prog \<Rightarrow> u64 \<Rightarrow> syz_ctx \<Rightarrow> 'k syz_world \<Rightarrow> (syz_ctx \<times> 'k syz_world) result" where
  "syz_dereg K P tid ctx w =
     (case prog_family P of
        Mysql \<Rightarrow> Inr (ctx\<lparr>tmpdir := None\<rparr>, w)
      | Rocksdb \<Rightarrow> Inr (ctx\<lparr>tmpdir := None, writeBuffer := 0\<rparr>, w)
      | Mysql_v2 \<Rightarrow> bind_r (run_stmts K P (dereg_body P) ctx w) (\<lambda>(ctx1, w1).
          Inr (ctx1\<lparr>s_regs := None, tmpdir := None, writeBuffer := 0,
            connect4_arg := (if snd (bm_connect_addr w) then connect4_arg ctx1 else None),
            bind4_arg := (if snd (bm_bind_addr w) then bind4_arg ctx1 else None),
            connect6_arg := None, bind6_arg := None, bind6_at := 0\<rparr>, w1)))"

text \<open>\<open>bm_dispatch_operation\<close>: the counters of the context, added up as \<open>int\<close>.\<close>

definition syz_dispatch :: "'k sys_kernel \<Rightarrow> syz_prog \<Rightarrow> nat \<Rightarrow> syz_ctx \<Rightarrow> 'k syz_world \<Rightarrow>
    (bm_op_res \<times> syz_ctx \<times> 'k syz_world) result" where
  "syz_dispatch K P op_id ctx w =
     bind_r (run_body K P ctx w) (\<lambda>(ctx1, w1).
       if num_succeeded ctx1 + num_failed ctx1 \<ge> 2 ^ 31 then Inl Undefined
       else Inr (\<lparr>op_count = word_of_int (num_succeeded ctx1 + num_failed ctx1), succ_count = word_of_int (num_succeeded ctx1)\<rparr>,
         ctx1\<lparr>iteration := iteration ctx1 + 1\<rparr>, w1))"

definition syz_target ::
  "(string \<Rightarrow> string option) \<Rightarrow> (int \<Rightarrow> string \<Rightarrow> int \<times> string) \<Rightarrow> 'k sys_kernel \<Rightarrow> syz_prog \<Rightarrow>
   (syz_ctx, 'k syz_world) bm_target" where
  "syz_target os_getenv os_inet_pton K P = \<lparr>bm_target_get_name = prog_name P, bm_target_op_count = NUM_SYSCALLS,
     bm_target_get_op_name = syz_get_op_name, bm_target_init = syz_init os_getenv os_inet_pton P,
     bm_target_reg = syz_reg K P, bm_dispatch_operation = syz_dispatch K P, bm_target_dereg = syz_dereg K P,
     bm_target_destroy = (\<lambda>num_threads w. Inr w), bm_target_extra_info = []\<rparr>"

end
