(* ===== verification/CSB_Syz_Proofs.thy ===== *)
theory CSB_Syz_Proofs
  imports CSB_SyzTarget
begin

text \<open>
  Properties of the generated targets for any program that passes the static check: a dispatch
  returns, stays inside its memory and counts every system call; the counters, which are never
  reset between dispatches, make the reported results cumulative; registration leaves a
  context on which dispatches work; and the directories are created parents first.
\<close>

section \<open>Counting\<close>

lemma count_res_mono:
  "count_res s = Inr s' \<Longrightarrow> succeeded s \<le> succeeded s' \<and> failed s \<le> failed s' \<and> length (regs s') = length (regs s) \<and>
    succeeded s' + failed s' = succeeded s + failed s + 1"
  by (auto simp: count_res_def int_inc_def split: if_splits)

lemma exec_stmt_mono:
  assumes "exec_stmt K e c s = Inr s'"
  shows "succeeded s \<le> succeeded s' \<and> failed s \<le> failed s' \<and> length (regs s') = length (regs s) \<and>
    succeeded s' + failed s' = succeeded s + failed s + int (counts [c])"
proof (cases c)
  case (Syscall name xs)
  then obtain vs where vs: "operand_values e s xs = Inr vs" using assms by auto
  obtain r m k where "os_syscall K name vs (memory s) (os s) = (r, m, k)" by (cases "os_syscall K name vs (memory s) (os s)")
  with Syscall vs assms show ?thesis by (auto split: if_splits)
next
  case Count
  with assms count_res_mono [of s s'] show ?thesis by simp
qed (use assms in \<open>auto simp: store_bytes_def Let_def split: if_splits\<close>)

lemma exec_body_mono:
  "exec_body K e cs s = Inr s' \<Longrightarrow> succeeded s \<le> succeeded s' \<and> failed s \<le> failed s' \<and> length (regs s') = length (regs s) \<and>
    succeeded s' + failed s' = succeeded s + failed s + int (counts cs)"
proof (induction cs arbitrary: s)
  case (Cons c cs)
  then obtain s1 where "exec_stmt K e c s = Inr s1" "exec_body K e cs s1 = Inr s'" by auto
  with exec_stmt_mono [of K e c s s1] Cons.IH [of s1] show ?case by (simp add: counts_Cons [of c cs])
qed simp

lemma exec_stmt_faults:
  assumes "exec_stmt K e c s = Inl f"
  shows "f = Undefined"
proof -
  have vs: "operand_values e s xs = Inl f \<Longrightarrow> f = Undefined" for xs f
  proof (induction xs)
    case (Cons x xs)
    then show ?case by (cases x; cases "operand_values e s xs") (auto simp: reg_at_def split: if_splits)
  qed simp
  show ?thesis
  proof (cases c)
    case (Store w a x)
    with assms show ?thesis by (cases x) (auto simp: store_bytes_def reg_at_def Let_def split: if_splits)
  next
    case (Syscall name xs)
    with assms vs [of xs] show ?thesis by (cases "operand_values e s xs") (auto split: prod.splits if_splits)
  qed (use assms in \<open>auto simp: store_bytes_def reg_at_def count_res_def int_inc_def abort_on_fail_def Let_def split: if_splits\<close>)
qed

lemma exec_body_faults: "exec_body K e cs s = Inl f \<Longrightarrow> f = Undefined"
proof (induction cs arbitrary: s)
  case (Cons c cs)
  then show ?case by (cases "exec_stmt K e c s") (auto dest: exec_stmt_faults)
qed simp

lemma run_stmts_mono:
  assumes "run_stmts K P cs ctx w = Inr (ctx', w')"
  shows "num_succeeded ctx \<le> num_succeeded ctx' \<and> num_failed ctx \<le> num_failed ctx' \<and>
    num_succeeded ctx' + num_failed ctx' = num_succeeded ctx + num_failed ctx + int (counts cs) \<and>
    length (load_regs P ctx' w') = length (load_regs P ctx w)"
  using assms by (auto simp: run_stmts_def store_regs_def load_regs_def fresh_regs_def
      split: family.splits option.splits dest!: exec_body_mono)

lemma run_body_mono:
  assumes "run_body K P ctx w = Inr (ctx', w')"
  shows "num_succeeded ctx \<le> num_succeeded ctx' \<and> num_failed ctx \<le> num_failed ctx' \<and>
    num_succeeded ctx' + num_failed ctx' = num_succeeded ctx + num_failed ctx + int (counts (body P)) \<and>
    length (load_regs P ctx' w') = length (load_regs P ctx w)"
  using run_stmts_mono assms by (simp add: run_body_def)

definition counters_nonneg :: "syz_ctx \<Rightarrow> 'k syz_world \<Rightarrow> bool" where
  "counters_nonneg ctx w \<longleftrightarrow> 0 \<le> num_succeeded ctx \<and> 0 \<le> num_failed ctx"

lemma unat_of_int: "0 \<le> n \<Longrightarrow> n < 2 ^ 31 \<Longrightarrow> unat (word_of_int n :: u64) = nat n"
  by (simp add: unat_eq_nat_uint uint_word_of_int)

lemma unat_of_int_add:
  "0 \<le> a \<Longrightarrow> 0 \<le> b \<Longrightarrow> a + b < 2 ^ 31 \<Longrightarrow> unat (word_of_int a + word_of_int b :: u64) = nat (a + b)"
  using unat_of_int [of "a + b"] by simp

interpretation syz: counting_target "syz_dispatch K P" counters_nonneg for K :: "'k sys_kernel" and P
proof
  fix op c w r c' w'
  assume "counters_nonneg c w" "syz_dispatch K P op c w = Inr (r, c', w')"
  then show "counters_nonneg c' w'" "unat (succ_count r) \<le> unat (op_count r)"
    by (auto simp: syz_dispatch_def counters_nonneg_def unat_of_int unat_of_int_add nat_mono dest!: run_body_mono split: if_splits prod.splits)
qed

section \<open>Dispatches\<close>

definition prog_ok :: "syz_prog \<Rightarrow> bool" where
  "prog_ok P \<longleftrightarrow> body_ok (num_regs P) (unat (max_write_buffer P)) (body P) \<and> counted (body P) \<and>
     body_ok (num_regs P) (unat (max_write_buffer P)) (reg_body P) \<and> counted (reg_body P) \<and>
     body_ok (num_regs P) (unat (max_write_buffer P)) (dereg_body P) \<and> counts (dereg_body P) = 0 \<and>
     length (filenames P) = length (filesizes P) \<and> list_all (\<lambda>d. d \<noteq> []) (subdirs P)"

definition ctx_ok :: "syz_prog \<Rightarrow> syz_ctx \<Rightarrow> 'k syz_world \<Rightarrow> bool" where
  "ctx_ok P ctx w \<longleftrightarrow> length (load_regs P ctx w) = num_regs P \<and> counters_nonneg ctx w"

definition counted_results :: "syz_ctx \<Rightarrow> int" where
  "counted_results ctx = num_succeeded ctx + num_failed ctx"

lemma run_stmts_ok:
  assumes cs: "body_ok (num_regs P) (unat (max_write_buffer P)) cs" and c: "ctx_ok P ctx w" and room: "counted_results ctx + int (counts cs) < 2 ^ 31"
  shows "\<exists>ctx' w'. run_stmts K P cs ctx w = Inr (ctx', w') \<and> ctx_ok P ctx' w' \<and> counted_results ctx' = counted_results ctx + int (counts cs)"
proof -
  have "body_ok (length (regs (machine_of P ctx w))) (write_len (place_of P ctx)) cs" using cs c by (simp add: ctx_ok_def)
  moreover have "counters_ok (counts cs + 0) (machine_of P ctx w)"
    using c room by (simp add: counters_ok_def ctx_ok_def counters_nonneg_def counted_results_def)
  ultimately obtain s' where "exec_body K (place_of P ctx) cs (machine_of P ctx w) = Inr s'" using exec_body_ok by blast
  then obtain ctx' w' where r: "run_stmts K P cs ctx w = Inr (ctx', w')" by (auto simp: run_stmts_def) (metis surj_pair)
  with run_stmts_mono [OF r] c show ?thesis by (auto simp: ctx_ok_def counters_nonneg_def counted_results_def)
qed

lemma run_body_ok:
  assumes P: "prog_ok P" and c: "ctx_ok P ctx w" and room: "counted_results ctx + int (calls (body P)) < 2 ^ 31"
  shows "\<exists>ctx' w'. run_body K P ctx w = Inr (ctx', w') \<and> ctx_ok P ctx' w' \<and> counted_results ctx' = counted_results ctx + int (calls (body P))"
  using assms run_stmts_ok [of P "body P" ctx w K]
  by (simp add: run_body_def prog_ok_def counted_counts)

lemma run_body_faults: "run_body K P ctx w = Inl f \<Longrightarrow> f = Undefined"
  by (cases "exec_body K (place_of P ctx) (body P) (machine_of P ctx w)")
    (auto simp: run_body_def run_stmts_def dest: exec_body_faults)

lemma syz_dispatch_ok:
  assumes "prog_ok P" "ctx_ok P ctx w" "counted_results ctx + int (calls (body P)) < 2 ^ 31"
  shows "\<exists>r ctx' w'. syz_dispatch K P op ctx w = Inr (r, ctx', w') \<and> ctx_ok P ctx' w' \<and>
    counted_results ctx' = counted_results ctx + int (calls (body P)) \<and> unat (op_count r) = nat (counted_results ctx') \<and>
    unat (succ_count r) = nat (num_succeeded ctx')"
proof -
  obtain ctx' w' where "run_body K P ctx w = Inr (ctx', w')" "ctx_ok P ctx' w'"
      "counted_results ctx' = counted_results ctx + int (calls (body P))"
    using run_body_ok [OF assms] by blast
  moreover from this have "0 \<le> num_succeeded ctx'" "0 \<le> num_failed ctx'" "num_succeeded ctx' + num_failed ctx' < 2 ^ 31"
    using assms(3) by (auto simp: ctx_ok_def counters_nonneg_def counted_results_def)
  moreover from this have u: "unat (word_of_int (num_succeeded ctx') + word_of_int (num_failed ctx') :: u64) = nat (counted_results ctx')"
      "unat (word_of_int (num_succeeded ctx') :: u64) = nat (num_succeeded ctx')"
    by (simp_all add: counted_results_def unat_of_int unat_of_int_add)
  moreover have "ctx_ok P (ctx'\<lparr>iteration := i\<rparr>) w' = ctx_ok P ctx' w'" "counted_results (ctx'\<lparr>iteration := i\<rparr>) = counted_results ctx'" for i
    by (simp_all add: ctx_ok_def load_regs_def counters_nonneg_def counted_results_def cong: family.case_cong)
  ultimately show ?thesis by (simp add: syz_dispatch_def)
qed

lemma syz_dispatch_overflow:
  assumes "prog_ok P" "counted_results ctx + int (calls (body P)) \<ge> 2 ^ 31"
  shows "syz_dispatch K P op ctx w = Inl Undefined"
proof (cases "run_body K P ctx w")
  case (Inl f)
  then show ?thesis using run_body_faults [OF Inl] by (simp add: syz_dispatch_def)
next
  case (Inr st)
  obtain ctx' w' where st: "st = (ctx', w')" by fastforce
  have "counts (body P) = calls (body P)" using assms(1) counted_counts by (simp add: prog_ok_def)
  with run_body_mono [OF Inr [unfolded st]] assms(2) have "2 ^ 31 \<le> num_succeeded ctx' + num_failed ctx'" by (simp add: counted_results_def)
  then show ?thesis by (simp add: syz_dispatch_def Inr st)
qed

lemma dispatches_cumulate:
  assumes P: "prog_ok P" and c: "ctx_ok P ctx w"
  shows "case dispatch_all (syz_dispatch K P) (replicate k op) ctx w of
      Inr (rs, ctx', w') \<Rightarrow> (0 < k \<longrightarrow> counted_results ctx + int (k * calls (body P)) < 2 ^ 31) \<and>
        map (unat \<circ> op_count) rs = map (\<lambda>j. nat (counted_results ctx) + (j + 1) * calls (body P)) [0..<k]
    | Inl f \<Rightarrow> f = Undefined \<and> 2 ^ 31 \<le> counted_results ctx + int (k * calls (body P))"
  using c
proof (induction k arbitrary: ctx w)
  case (Suc k)
  let ?n = "calls (body P)"
  have t: "0 \<le> counted_results ctx" using Suc.prems by (simp add: ctx_ok_def counters_nonneg_def counted_results_def)
  show ?case
  proof (cases "counted_results ctx + int ?n < 2 ^ 31")
    case False
    have "int ?n \<le> int (Suc k * ?n)" by simp
    with False have "2 ^ 31 \<le> counted_results ctx + int (Suc k * ?n)" by linarith
    with False syz_dispatch_overflow [OF P, of ctx K op w] show ?thesis by (simp del: of_nat_mult mult_Suc)
  next
    case True
    then obtain r c1 w1 where d: "syz_dispatch K P op ctx w = Inr (r, c1, w1)" "ctx_ok P c1 w1"
        "counted_results c1 = counted_results ctx + int ?n" "unat (op_count r) = nat (counted_results c1)"
      using syz_dispatch_ok [OF P Suc.prems] by blast
    have n: "nat (counted_results c1) = nat (counted_results ctx) + ?n" using d(3) t by simp
    have up: "map f [0..<Suc k] = f 0 # map (\<lambda>j. f (Suc j)) [0..<k]" for f :: "nat \<Rightarrow> nat"
      by (simp add: upt_conv_Cons map_Suc_upt [symmetric] del: upt_Suc)
    show ?thesis
    proof (cases "dispatch_all (syz_dispatch K P) (replicate k op) c1 w1")
      case (Inl f)
      with Suc.IH [OF d(2)] d show ?thesis by (simp add: algebra_simps)
    next
      case (Inr q)
      obtain rs c2 w2 where q: "q = (rs, c2, w2)" by (cases q)
      from Suc.IH [OF d(2)] Inr q
      have ih: "0 < k \<longrightarrow> counted_results c1 + int (k * ?n) < 2 ^ 31"
        "map (unat \<circ> op_count) rs = map (\<lambda>j. nat (counted_results c1) + (j + 1) * ?n) [0..<k]" by simp_all
      have "counted_results ctx + int (Suc k * ?n) < 2 ^ 31" using ih(1) True d(3) by (cases k) (simp_all add: algebra_simps)
      moreover have "map (unat \<circ> op_count) (r # rs) = map (\<lambda>j. nat (counted_results ctx) + (j + 1) * ?n) [0..<Suc k]"
        unfolding up by (simp add: ih(2)[unfolded o_def] o_def d(4) n algebra_simps)
      ultimately show ?thesis using d(1) Inr q by simp
    qed
  qed
qed simp

text \<open>
  The results of a generated target are cumulative. The counters of a thread are not reset
  between dispatches, so for a body of n system calls the j-th dispatch reports j * n
  operations instead of n, until, once 2147483648 calls have been counted, adding up the
  counters overflows \<open>int\<close>.
\<close>

lemma syz_results_cumulate:
  assumes "prog_ok P" "ctx_ok P ctx w" "num_succeeded ctx = 0" "num_failed ctx = 0"
  shows "case dispatch_all (syz_dispatch K P) (replicate k op) ctx w of
      Inr (rs, ctx', w') \<Rightarrow> k * calls (body P) < 2 ^ 31 \<and>
        map (unat \<circ> op_count) rs = map (\<lambda>j. (j + 1) * calls (body P)) [0..<k]
    | Inl f \<Rightarrow> f = Undefined \<and> 2 ^ 31 \<le> k * calls (body P)"
proof -
  have t: "counted_results ctx = 0" using assms(3,4) by (simp add: counted_results_def)
  have "k = 0 \<Longrightarrow> k * calls (body P) < 2 ^ 31" by simp
  moreover have "int m < 2 ^ 31 \<longleftrightarrow> m < 2 ^ 31" "2 ^ 31 \<le> int m \<longleftrightarrow> 2 ^ 31 \<le> m" for m by simp_all
  ultimately show ?thesis
    using dispatches_cumulate [OF assms(1,2), where K = K and k = k and op = op]
    by (cases "k = 0") (auto simp: t simp del: of_nat_mult split: sum.splits)
qed

section \<open>Registration\<close>

lemma in_take_sorted:
  assumes "sorted_wrt (<) xs" "j < length xs" "i \<in> set xs" "i < xs ! j"
  shows "(i :: nat) \<in> set (take j xs)"
proof -
  obtain m where m: "m < length xs" "xs ! m = i" using assms(3) by (auto simp: in_set_conv_nth)
  have "m < j"
  proof (rule ccontr)
    assume "\<not> m < j"
    then have "xs ! j \<le> xs ! m" using assms(1) m(1) by (cases "m = j") (auto simp: sorted_wrt_iff_nth_less intro: less_imp_le)
    with assms(4) m(2) show False by simp
  qed
  with m show ?thesis by (auto simp: in_set_conv_nth)
qed

text \<open>
  The directories are created parents first: for a path that fits the buffer, \<open>_mkdir\<close>
  ends with the path itself, without a trailing slash, and before every path that it passes to
  \<open>mkdirat\<close> it has passed each of its proper ancestors.
\<close>

lemma mkdir_parents_first:
  assumes "dir \<noteq> []" "length dir \<le> 255"
  defines "d \<equiv> (if last dir = CHR ''/'' then butlast dir else dir)"
  shows "\<exists>ps. mkdir_paths dir = Inr (ps @ [d]) \<and>
    (\<forall>j i. j \<le> length ps \<and> 0 < i \<and> i < length ((ps @ [d]) ! j) \<and> (ps @ [d]) ! j ! i = CHR ''/'' \<longrightarrow>
       take i ((ps @ [d]) ! j) \<in> set (take j (ps @ [d])))"
proof -
  define xs where "xs = filter (\<lambda>i. d ! i = CHR ''/'') [1..<length d]"
  let ?ps = "map (\<lambda>i. take i d) xs"
  have "mkdir_paths dir = Inr (?ps @ [d])" using assms(1,2) by (simp add: mkdir_paths_def d_def xs_def Let_def)
  moreover have "take i ((?ps @ [d]) ! j) \<in> set (take j (?ps @ [d]))"
    if "j \<le> length ?ps" "0 < i" "i < length ((?ps @ [d]) ! j)" "(?ps @ [d]) ! j ! i = CHR ''/''" for i j
  proof (cases "j < length xs")
    case True
    have at: "(?ps @ [d]) ! j = take (xs ! j) d" using True by (simp add: nth_append)
    have lt: "i < xs ! j" "i < length d" using that(3) at by simp_all
    then have "d ! i = CHR ''/''" using that(4) at by simp
    with that(2) lt have "i \<in> set xs" by (simp add: xs_def)
    moreover have "sorted_wrt (<) xs" unfolding xs_def by (rule sorted_wrt_filter) simp
    ultimately have "i \<in> set (take j xs)" using in_take_sorted True lt(1) by blast
    then have "take i d \<in> (\<lambda>i. take i d) ` set (take j xs)" by (rule imageI)
    with True lt(1) at show ?thesis by (simp add: take_map min_def)
  next
    case False
    with that(1) have j: "j = length xs" by simp
    with that have "i \<in> set xs" by (simp add: xs_def nth_append)
    with j show ?thesis by (simp add: nth_append)
  qed
  ultimately show ?thesis by (intro exI [of _ ?ps]) auto
qed

text \<open>What registration needs of the operating system.\<close>

definition os_cooperates :: "'k sys_kernel \<Rightarrow> bool" where
  "os_cooperates K \<longleftrightarrow> (\<forall>len k. len \<noteq> 0 \<longrightarrow> fst (os_malloc K len k) \<noteq> 0) \<and>
     (\<forall>k. fst (fst (os_mmap K MMAP_LENGTH k)) \<noteq> - 1 \<and> fst (fst (os_mmap K MMAP_LENGTH k)) \<noteq> 0) \<and>
     (\<forall>fd len k. fst (os_ftruncate K fd len k) = 0)"

lemma init_subdirs_ok: "list_all (\<lambda>d. d \<noteq> []) dirs \<Longrightarrow> \<exists>k'. init_subdirs K fd dirs k = Inr k'"
  by (induction dirs arbitrary: k) (auto simp: mkdir_paths_def Let_def)

lemma create_files_ok: "os_cooperates K \<Longrightarrow> \<exists>k'. create_files K fd files k = Inr k'"
proof (induction files arbitrary: k)
  case (Cons f files)
  obtain name len where f: "f = (name, len)" by fastforce
  obtain fd1 k1 where o: "os_openat K fd name k = (fd1, k1)" by fastforce
  obtain r k2 where t: "os_ftruncate K fd1 len k1 = (r, k2)" by fastforce
  have "r = 0" using Cons.prems t by (metis os_cooperates_def fst_conv)
  with Cons f o t show ?case by simp
qed simp

lemma os_malloc_ok: "os_cooperates K \<Longrightarrow> os_malloc K len k = (p, k') \<Longrightarrow> len \<noteq> 0 \<Longrightarrow> p \<noteq> 0"
  by (metis os_cooperates_def fst_conv)

lemma socket_args_ok:
  assumes "os_cooperates K"
  shows "\<exists>a k'. socket4_arg K given addr port k = Inr (a, k')" "\<exists>a p k'. socket6_arg K addr port k = Inr (a, p, k')"
  using os_malloc_ok [OF assms] by (auto simp: socket4_arg_def socket6_arg_def split: prod.splits)

lemma setup_buffers_ok:
  assumes "os_cooperates K"
  shows "\<exists>ctx' w'. setup_buffers K P ctx w = Inr (ctx', w') \<and> num_succeeded ctx' = num_succeeded ctx \<and>
    num_failed ctx' = num_failed ctx \<and> s_regs ctx' = s_regs ctx \<and> r_unique w' = r_unique w"
proof -
  obtain wb k1 where 1: "os_malloc K (max_write_buffer P) (s_os w) = (wb, k1)" by fastforce
  obtain c4 k2 where 2: "socket4_arg K (bm_connect_addr w) INADDR_LOOPBACK (g_conn_port w) k1 = Inr (c4, k2)"
    using socket_args_ok [OF assms] by blast
  obtain b4 k3 where 3: "socket4_arg K (bm_bind_addr w) INADDR_ANY (g_bind_port w) k2 = Inr (b4, k3)"
    using socket_args_ok [OF assms] by blast
  obtain c6 p6 k4 where 4: "socket6_arg K in6addr_loopback (g_conn_port w) k3 = Inr (c6, p6, k4)"
    using socket_args_ok [OF assms] by blast
  obtain b6 q6 k5 where 5: "socket6_arg K in6addr_any (g_bind_port w) k4 = Inr (b6, q6, k5)"
    using socket_args_ok [OF assms] by blast
  show ?thesis by (simp add: setup_buffers_def 1 2 3 4 5)
qed

lemma alloc_regs_ok:
  assumes K: "os_cooperates K" and r: "num_regs P < 2 ^ 32" and s: "s_regs ctx = None" "prog_family P = Mysql_v2"
  shows "\<exists>ctx' w'. alloc_regs K P ctx w = Inr (ctx', w') \<and> num_succeeded ctx' = num_succeeded ctx \<and>
    num_failed ctx' = num_failed ctx \<and> length (load_regs P ctx' w') = num_regs P"
proof (cases "num_regs P = 0")
  case True
  with s show ?thesis by (simp add: alloc_regs_def load_regs_def)
next
  case False
  obtain p k where p: "os_malloc K (8 * of_nat (num_regs P)) (s_os w) = (p, k)" by fastforce
  have "unat (8 * of_nat (num_regs P) :: u64) = 8 * num_regs P"
    using r unat_of_nat [of "8 * num_regs P", where 'a = 64] by simp
  then have "(8 * of_nat (num_regs P) :: u64) \<noteq> 0" using False by (metis mult_eq_0_iff unat_0 zero_neq_numeral)
  with os_malloc_ok [OF K p] False s show ?thesis by (simp add: alloc_regs_def p load_regs_def fresh_regs_def)
qed

lemma reg_prog_ok:
  assumes K: "os_cooperates K" and P: "prog_ok P" and r: "num_regs P < 2 ^ 32"
    and m: "prog_family P = Mysql \<longrightarrow> length (r_unique w) = num_regs P" and s: "s_regs ctx = None"
    and z: "num_succeeded ctx = 0" "num_failed ctx = 0" and room: "calls (reg_body P) < 2 ^ 31"
  shows "\<exists>ctx' w'. reg_prog K P ctx w = Inr (ctx', w') \<and> ctx_ok P ctx' w' \<and> counted_results ctx' \<le> int (calls (reg_body P))"
proof (cases "prog_family P = Mysql_v2")
  case False
  with m z have "ctx_ok P ctx w"
    by (cases "prog_family P") (simp_all add: ctx_ok_def load_regs_def fresh_regs_def counters_nonneg_def)
  with False z show ?thesis by (simp add: reg_prog_def counted_results_def)
next
  case True
  obtain c1 w1 where 1: "alloc_regs K P ctx w = Inr (c1, w1)" "ctx_ok P c1 w1" "counted_results c1 = 0"
    using alloc_regs_ok [OF K r s True, of w] z by (auto simp: ctx_ok_def counters_nonneg_def counted_results_def)
  have "body_ok (num_regs P) (unat (max_write_buffer P)) (reg_body P)" "counts (reg_body P) = calls (reg_body P)"
    using P by (simp_all add: prog_ok_def counted_counts)
  with run_stmts_ok [of P "reg_body P" c1 w1 K] 1 True room show ?thesis
    by (fastforce simp: reg_prog_def)
qed

lemma syz_reg_ok:
  assumes "os_cooperates K" "prog_ok P" "calls (reg_body P) + calls (body P) < 2 ^ 31" "num_regs P < 2 ^ 32"
    "prog_family P = Mysql \<longrightarrow> length (r_unique w) = num_regs P" "s_regs ctx = None"
  shows "\<exists>ctx' w'. syz_reg K P tid ctx w = Inr (ctx', w') \<and> ctx_ok P ctx' w' \<and>
    num_succeeded ctx' = 0 \<and> num_failed ctx' = 0"
proof -
  obtain dir k1 where 1: "os_mkdtemp K (''./syzkaller_'' @ prog_name P @ ''.XXXXXX'') (s_os w) = (dir, k1)" by fastforce
  obtain dfd k3 where 3: "os_open_dir K dir (os_chmod K dir k1) = (dfd, k3)" by fastforce
  obtain k4 where 4: "init_subdirs K dfd (subdirs P) k3 = Inr k4"
    using init_subdirs_ok [of "subdirs P" K dfd k3] assms(2) by (auto simp: prog_ok_def)
  obtain k5 where 5: "create_files K dfd (zip (filenames P) (filesizes P)) k4 = Inr k5"
    using create_files_ok [OF assms(1)] by blast
  obtain addr m k6 where 6: "os_mmap K MMAP_LENGTH k5 = ((addr, m), k6)" by (metis prod.collapse)
  have a: "addr \<noteq> - 1" "addr \<noteq> 0" using assms(1) 6 by (metis os_cooperates_def fst_conv)+
  define c1 where "c1 = (reset_counters ctx)\<lparr>s_tid := tid, aggregation_threads := False, tmpdir := dir, s_dirfd := dfd,
    mmap_offsets := addr, s_memory := m\<rparr>"
  have c1: "num_succeeded c1 = 0" "num_failed c1 = 0" "s_regs c1 = None"
    using assms(6) by (simp_all add: c1_def reset_counters_def)
  let ?w = "w\<lparr>s_os := k6\<rparr>"
  obtain c2 w2 where 7: "(if prog_family P = Mysql then Inr (c1, ?w) else setup_buffers K P c1 ?w) = Inr (c2, w2)"
      "num_succeeded c2 = 0" "num_failed c2 = 0" "s_regs c2 = None" "r_unique w2 = r_unique w"
    using setup_buffers_ok [OF assms(1), of P c1 ?w] c1 by (cases "prog_family P = Mysql") auto
  obtain c3 w3 where 8: "reg_prog K P c2 w2 = Inr (c3, w3)" "ctx_ok P c3 w3" "counted_results c3 \<le> int (calls (reg_body P))"
    using reg_prog_ok [OF assms(1,2,4), of w2 c2] 7 assms(3,5) by auto
  have "counted_results c3 + int (calls (body P)) < 2 ^ 31" using 8(3) assms(3) by simp
  then obtain c4 w4 where 9: "run_body K P c3 w3 = Inr (c4, w4)" "ctx_ok P c4 w4"
    using run_body_ok [OF assms(2) 8(2), of K] by blast
  have "ctx_ok P (reset_counters c4) w4" using 9(2)
    by (simp add: ctx_ok_def reset_counters_def counters_nonneg_def load_regs_def cong: family.case_cong)
  moreover have "length (filenames P) = length (filesizes P)" using assms(2) by (simp add: prog_ok_def)
  then have "syz_reg K P tid ctx w = Inr (reset_counters c4, w4)"
    unfolding syz_reg_def
    by (simp only: 1 3 4 5 6 a 7(1) 8(1) 9(1) Let_def prod.case bind_r.simps c_assert_True simp_thms flip: c1_def)
  ultimately show ?thesis by (simp add: reset_counters_def)
qed

text \<open>
  C23. Registration of a thread on a cooperating system returns, for every program that passes
  the check: it leaves a context with counters at zero on which the body can be dispatched.
\<close>

theorem syz_reg_prepares:
  assumes "os_cooperates K" "prog_ok P" "calls (reg_body P) + calls (body P) < 2 ^ 31" "num_regs P < 2 ^ 32"
    "prog_family P = Mysql \<longrightarrow> length (r_unique w) = num_regs P" "s_regs ctx = None"
  shows "\<exists>ctx' w'. syz_reg K P tid ctx w = Inr (ctx', w') \<and> ctx_ok P ctx' w' \<and>
    num_succeeded ctx' = 0 \<and> num_failed ctx' = 0"
  by (rule syz_reg_ok [OF assms])

text \<open>
  Deregistration returns as well, and leaves no directory name, register array or buffer
  behind, except in the mysql template, which keeps its buffers.
\<close>

lemma syz_dereg_ok:
  assumes "prog_ok P" "ctx_ok P ctx w" "counted_results ctx < 2 ^ 31"
  shows "\<exists>ctx' w'. syz_dereg K P tid ctx w = Inr (ctx', w') \<and> tmpdir ctx' = None \<and>
    (prog_family P = Mysql_v2 \<longrightarrow> s_regs ctx' = None) \<and> (prog_family P \<noteq> Mysql \<longrightarrow> writeBuffer ctx' = 0)"
proof (cases "prog_family P")
  case Mysql_v2
  have "body_ok (num_regs P) (unat (max_write_buffer P)) (dereg_body P)" "counts (dereg_body P) = 0"
    using assms(1) by (simp_all add: prog_ok_def)
  then obtain c1 w1 where "run_stmts K P (dereg_body P) ctx w = Inr (c1, w1)"
    using run_stmts_ok [of P "dereg_body P" ctx w K] assms(2,3) by auto
  with Mysql_v2 show ?thesis by (simp add: syz_dereg_def)
qed (simp_all add: syz_dereg_def)

lemma counted_append: "counted cs \<Longrightarrow> counted (cs @ cs') = counted cs'"
  by (induction cs rule: counted.induct) simp_all

text \<open>Evaluation of the check on a concrete program.\<close>

lemma in_mapping_of_nat:
  assumes "0x20000000 \<le> n" "n + len \<le> 0x21000000"
  shows "in_mapping (of_nat n) len"
proof -
  have n: "unat (of_nat n :: u64) = n" using assms(2) by (intro of_nat_inverse) simp_all
  then have "(0x20000000 :: u64) \<le> of_nat n" using assms(1) by (simp add: word_le_nat_alt)
  then have "unat (of_nat n - 0x20000000 :: u64) = n - 0x20000000" using n by (simp add: unat_sub)
  then show ?thesis using assms by (simp add: in_mapping_def MMAP_OFFSET_def MMAP_LENGTH_def)
qed

lemmas prog_checks = in_mapping_of_nat [where n = "numeral a" for a, unfolded of_nat_numeral] buffer_calls_def with_nul_def

end
