(* ===== verification/CSB_Syz_Live.thy ===== *)
theory CSB_Syz_Live
  imports CSB_Benchmark CSB_Syz_Proofs
begin

text \<open>
  A benchmark of a generated target can always end: as long as the counters of the threads
  have room for the dispatches that have begun, the process can go on from any state of the
  measured phase to its end.
\<close>

text \<open>The part of \<open>ctx_ok\<close> that depends on the shared registers only through their number.\<close>

definition shared_ok :: "syz_prog \<Rightarrow> 'k syz_world \<Rightarrow> bool" where
  "shared_ok P w \<longleftrightarrow> (prog_family P = Mysql \<longrightarrow> length (r_unique w) = num_regs P)"

lemma load_regs_world: "shared_ok P w \<Longrightarrow> shared_ok P w' \<Longrightarrow> ctx_ok P ctx w = ctx_ok P ctx w'"
  by (auto simp: ctx_ok_def shared_ok_def load_regs_def counters_nonneg_def split: family.splits)

lemma ctx_ok_shared: "ctx_ok P ctx w \<Longrightarrow> shared_ok P w"
  by (auto simp: ctx_ok_def shared_ok_def load_regs_def)

text \<open>What is pending of a thread, and whether its counters have room for it.\<close>

definition pending :: "syz_prog \<Rightarrow> thread_pc \<Rightarrow> nat" where
  "pending P pc = (if pc \<in> {T_begin, T_dispatch} then calls (body P) else 0)"

definition thread_room :: "syz_prog \<Rightarrow> 'k syz_world \<Rightarrow> syz_ctx thread \<Rightarrow> bool" where
  "thread_room P w t \<longleftrightarrow>
     (case t_pc t of T_start \<Rightarrow> s_regs (t_ctx t) = None
      | T_done \<Rightarrow> True
      | pc \<Rightarrow> ctx_ok P (t_ctx t) w \<and> counted_results (t_ctx t) + int (pending P pc) < 2 ^ 31)"

definition sound_target :: "'k sys_kernel \<Rightarrow> syz_prog \<Rightarrow> bool" where
  "sound_target K P \<longleftrightarrow> os_cooperates K \<and> prog_ok P \<and> calls (reg_body P) + calls (body P) < 2 ^ 31 \<and> num_regs P < 2 ^ 32"

definition room_for_begun :: "'k sys_kernel \<Rightarrow> syz_prog \<Rightarrow> syz_ctx \<Rightarrow> (syz_ctx, 'k syz_world) phase \<Rightarrow> bool" where
  "room_for_begun K P z s \<longleftrightarrow> sound_target K P \<and> s_regs z = None \<and> shared_ok P (world (bench s)) \<and>
     list_all (thread_room P (world (bench s))) (threads s)"

lemma thread_room_world: "shared_ok P w \<Longrightarrow> shared_ok P w' \<Longrightarrow> thread_room P w = thread_room P w'"
  using load_regs_world [of P w w'] by (auto simp: thread_room_def fun_eq_iff split: thread_pc.splits)

lemma room_set_thread:
  assumes "room_for_begun K P z s" "shared_ok P w" "thread_room P w t" "threads s' = threads s" "world (bench s') = w"
  shows "room_for_begun K P z (set_thread tid t s')"
proof -
  have "list_all (thread_room P w) (threads s)"
    using assms(1,2) thread_room_world [of P "world (bench s)" w] by (simp add: room_for_begun_def)
  then show ?thesis using assms by (simp add: room_for_begun_def set_thread_def list_all_update)
qed

lemma syz_reg_room:
  assumes "sound_target K P" "shared_ok P w" "s_regs ctx = None"
  shows "\<exists>ctx' w'. syz_reg K P tid ctx w = Inr (ctx', w') \<and> ctx_ok P ctx' w' \<and> counted_results ctx' = 0"
  using syz_reg_ok [of K P w ctx tid] assms by (auto simp: sound_target_def shared_ok_def counted_results_def)

lemma syz_dereg_shared: "syz_dereg K P tid ctx w = Inr (ctx', w') \<Longrightarrow> shared_ok P w \<Longrightarrow> shared_ok P w'"
  by (auto simp: syz_dereg_def shared_ok_def split: family.splits)

interpretation finishing: finishing_target "syz_target genv pton K P" z "room_for_begun K P z" for genv pton K P z
proof
  fix s :: "(syz_ctx, 'a syz_world) phase" and tid
  assume r: "room_for_begun K P z s" and tid: "tid < length (threads s)"
  let ?t = "threads s ! tid" and ?w = "world (bench s)"
  have t: "thread_room P ?w ?t" using r tid by (simp add: room_for_begun_def list_all_length)
  have S: "sound_target K P" "shared_ok P ?w" using r by (simp_all add: room_for_begun_def)
  show "\<exists>x. bm_target_reg (syz_target genv pton K P) (of_nat tid) (t_ctx ?t) ?w = Inr x" if "t_pc ?t = T_start"
    using syz_reg_room [OF S, of "t_ctx ?t" "of_nat tid"] t that by (auto simp: syz_target_def thread_room_def)
  show "\<exists>x. bm_dispatch_operation (syz_target genv pton K P) (t_op ?t) (t_ctx ?t) ?w = Inr x" if "t_pc ?t = T_dispatch"
    using syz_dispatch_ok [of P "t_ctx ?t" ?w K "t_op ?t"] t that S
    by (auto simp: syz_target_def thread_room_def pending_def sound_target_def)
  show "\<exists>x. bm_target_dereg (syz_target genv pton K P) (of_nat tid) (t_ctx ?t) ?w = Inr x" if "t_pc ?t = T_dereg"
    using syz_dereg_ok [of P "t_ctx ?t" ?w K "of_nat tid"] t that S
    by (auto simp: syz_target_def thread_room_def pending_def sound_target_def)
  show "room_for_begun K P z s'" if step: "run_step (syz_target genv pton K P) clk tid s = Some (Inr s')"
    "t_pc ?t = T_check \<longrightarrow> g_stop (bench s)" for clk s'
    using step(1)
  proof (cases rule: run_step_cases)
    case (reg c w)
    with syz_reg_room [OF S, of "t_ctx ?t" "of_nat tid"] t have "ctx_ok P c w" "counted_results c = 0"
      by (auto simp: syz_target_def thread_room_def)
    with reg(3) show ?thesis
      by (auto intro!: room_set_thread [OF r ctx_ok_shared] simp: thread_room_def pending_def)
  next
    case check
    with t step(2) show ?thesis by (auto intro!: room_set_thread [OF r S(2)] simp: thread_room_def pending_def)
  next
    case pick
    with t show ?thesis by (auto intro!: room_set_thread [OF r S(2)] simp: thread_room_def pending_def)
  next
    case (dispatch r' c w)
    have "counted_results (t_ctx ?t) + int (calls (body P)) < 2 ^ 31" "ctx_ok P (t_ctx ?t) ?w" "prog_ok P"
      using t dispatch(1) S(1) by (simp_all add: thread_room_def pending_def sound_target_def)
    with syz_dispatch_ok [of P "t_ctx ?t" ?w K "t_op ?t"] dispatch(2) have "ctx_ok P c w" "counted_results c < 2 ^ 31"
      by (auto simp: syz_target_def)
    with dispatch(3) show ?thesis
      by (auto intro!: room_set_thread [OF r ctx_ok_shared] simp: thread_room_def pending_def)
  next
    case (finish stats)
    with t show ?thesis by (auto intro!: room_set_thread [OF r S(2)] simp: thread_room_def pending_def)
  next
    case (dereg c w)
    have "shared_ok P w" using syz_dereg_shared dereg(2) S(2) by (simp add: syz_target_def)
    with dereg(3) show ?thesis by (auto intro!: room_set_thread [OF r] simp: thread_room_def)
  qed
next
  fix s s' :: "(syz_ctx, 'a syz_world) phase" and clk
  assume r: "room_for_begun K P z s" and step: "bm_phase_run_step z clk s = Some (Inr s')"
  have new: "thread_room P w (new_thread z)" for w :: "'a syz_world"
    using r by (simp add: thread_room_def new_thread_def room_for_begun_def)
  from step show "room_for_begun K P z s'"
    by (cases rule: main_step_cases)
      (use r new in \<open>auto simp: room_for_begun_def thread_room_def release_def all_at_def list_all_iff pending_def
        elim!: add_durations_frame\<close>)
qed

text \<open>The start of the phase is such a state.\<close>

lemma room_at_start:
  "sound_target K P \<Longrightarrow> s_regs z = None \<Longrightarrow> shared_ok P (world b) \<Longrightarrow> room_for_begun K P z (start_phase b m)"
  by (simp add: room_for_begun_def start_phase_def)

text \<open>
  C18. A benchmark of a generated target that passes the check can end, on a system on which its
  registrations succeed: from every reachable state of the measured phase in which the
  counters of the threads have room for the dispatches that have begun, the process can go on
  to the end of the phase. \<open>room_at_start\<close> gives the state at the start.
\<close>

theorem syz_run_can_finish:
  assumes "bm_phase_warmup lib (syz_target genv pton K P) globals = Inr b" and "wf_params (g_params globals)"
    and "\<not> g_stop globals" and "op_dist_len (g_params globals) = NUM_SYSCALLS" and "\<And>m. normal_time (wall clk m)"
    and "reachable (syz_target genv pton K P) z clk b s"
    and "room_for_begun K P z s"
  shows "\<exists>s'. (phase_step (syz_target genv pton K P) z clk)\<^sup>*\<^sup>* s s' \<and> main_pc s' = M_done"
proof -
  have "op_dist_len (g_params globals) = bm_target_op_count (syz_target genv pton K P)"
    using assms(4) by (simp add: syz_target_def)
  then show ?thesis
    using finishing.phase_can_finish [OF warmup_can_run [OF assms(1-3) _ assms(5)] assms(6,7)] by blast
qed

end
