(* ===== verification/CSB_Syz_Files.thy ===== *)
theory CSB_Syz_Files
  imports CSB_Syz_Proofs
begin

text \<open>
  The files that the setup of a generated target creates and the files that its statements
  open, read off what the kernel gets to see during registration (bm\_target\_reg in
  bench/targets/*/min_*.h): a kernel that keeps the paths is wrapped around any other one.
\<close>

text \<open>The C string at an address, as far as the kernel reads a path (\<open>PATH_MAX\<close>).\<close>

definition PATH_MAX :: nat where "PATH_MAX = 4096"

definition path_string :: "mem \<Rightarrow> u64 \<Rightarrow> string" where
  "path_string m p = map (\<lambda>b. char_of (unat b)) (takeWhile (\<lambda>b. b \<noteq> 0) (peek p PATH_MAX m))"

text \<open>
  A kernel that also keeps the paths that registration creates and the paths that system calls
  open. It does what \<open>K\<close> does.
\<close>

type_synonym 'k tapped = "'k \<times> string list \<times> string list"

definition path_of_call :: "sysno \<Rightarrow> u64 list \<Rightarrow> mem \<Rightarrow> string list" where
  "path_of_call name vs m = (if name = NR_openat then case vs of fd # p # ys \<Rightarrow> [path_string m p] | _ \<Rightarrow> [] else [])"

definition tap :: "'k sys_kernel \<Rightarrow> 'k tapped sys_kernel" where
  "tap K = \<lparr>os_syscall = (\<lambda>name vs m (k, cr, op). let (r, m', k') = os_syscall K name vs m k in (r, m', k', cr, op @ path_of_call name vs m)),
     os_mkdtemp = (\<lambda>template (k, log). let (r, k') = os_mkdtemp K template k in (r, k', log)),
     os_chmod = (\<lambda>path (k, log). (os_chmod K path k, log)),
     os_open_dir = (\<lambda>path (k, log). let (r, k') = os_open_dir K path k in (r, k', log)),
     os_mkdirat = (\<lambda>fd path (k, log). (os_mkdirat K fd path k, log)),
     os_openat = (\<lambda>fd path (k, cr, op). let (r, k') = os_openat K fd path k in (r, k', cr @ [path], op)),
     os_ftruncate = (\<lambda>fd len (k, log). let (r, k') = os_ftruncate K fd len k in (r, k', log)),
     os_close = (\<lambda>fd (k, log). (os_close K fd k, log)),
     os_mmap = (\<lambda>len (k, log). let (r, k') = os_mmap K len k in (r, k', log)),
     os_malloc = (\<lambda>len (k, log). let (r, k') = os_malloc K len k in (r, k', log))\<rparr>"

text \<open>
  The paths that a body passes to \<open>openat\<close>: known when the statement right before the call copies
  them to the address that the call gets, and \<open>None\<close> otherwise. The first argument is the path
  that has just been copied.
\<close>

definition copied_path :: "u64 \<Rightarrow> string \<Rightarrow> nat \<Rightarrow> (u64 \<times> string) option" where
  "copied_path a lit len = (let path = takeWhile (\<lambda>c. c \<noteq> CHR 0x00) lit in
     if length path < len \<and> length path < PATH_MAX then Some (a, path) else None)"

definition path_given :: "(u64 \<times> string) option \<Rightarrow> operand list \<Rightarrow> string option list" where
  "path_given m xs = (case xs of fd # x # ys \<Rightarrow>
     [case m of None \<Rightarrow> None | Some (a, path) \<Rightarrow> if x = Ptr a then Some path else None] | _ \<Rightarrow> [])"

fun opened_in :: "(u64 \<times> string) option \<Rightarrow> stmt list \<Rightarrow> string option list" where
  "opened_in m [] = []"
| "opened_in m (Memcpy a lit len # cs) = opened_in (copied_path a lit len) cs"
| "opened_in m (Syscall name xs # cs) = (if name = NR_openat then path_given m xs else []) @ opened_in None cs"
| "opened_in m (c # cs) = opened_in None cs"

fun copied :: "(u64 \<times> string) option \<Rightarrow> stmt list \<Rightarrow> (u64 \<times> string) option" where
  "copied m [] = m"
| "copied m (Memcpy a lit len # cs) = copied (copied_path a lit len) cs"
| "copied m (c # cs) = copied None cs"

lemma opened_in_append: "opened_in m (cs @ cs') = opened_in m cs @ opened_in (copied m cs) cs'"
  by (induction m cs rule: opened_in.induct) simp_all

lemma opened_in_other: "name \<noteq> NR_openat \<Longrightarrow> opened_in m (Syscall name xs # cs) = opened_in None cs"
  by simp

lemma path_given_copied:
  "path_given (copied_path a lit len) (fd # Ptr a # ys) =
   [let path = takeWhile (\<lambda>c. c \<noteq> CHR 0x00) lit in if length path < len \<and> length path < PATH_MAX then Some path else None]"
  by (simp add: copied_path_def path_given_def Let_def)

lemma path_given_None: "path_given None (fd # x # ys) = [None]"
  by (simp add: path_given_def)

definition opened :: "syz_prog \<Rightarrow> string option list" where
  "opened P = (if prog_family P = Mysql_v2 then opened_in None (reg_body P) else []) @ opened_in None (body P)"

text \<open>The names of a path; \<open>./a//b/\<close> and \<open>a/b\<close> are the same path.\<close>

fun names_after :: "string \<Rightarrow> string \<Rightarrow> string list" where
  "names_after n [] = [n]"
| "names_after n (c # cs) = (if c = CHR ''/'' then n # names_after [] cs else names_after (n @ [c]) cs)"

definition path_names :: "string \<Rightarrow> bool \<times> string list" where
  "path_names p = (take 1 p = ''/'', filter (\<lambda>n. n \<noteq> [] \<and> n \<noteq> ''.'') (names_after [] p))"

text \<open>Each file created is another one than each file opened, and has the name of one less its last character.\<close>

definition misses :: "string list \<Rightarrow> string list \<Rightarrow> bool" where
  "misses created opens \<longleftrightarrow>
     list_all (\<lambda>f. path_names f \<notin> set (map path_names opens) \<and> list_ex (\<lambda>p. p \<noteq> [] \<and> f = butlast p) opens) created"

definition setup_misses :: "syz_prog \<Rightarrow> bool" where
  "setup_misses P \<longleftrightarrow> None \<notin> set (opened P) \<and> misses (filenames P) (map the (opened P))"

subsection \<open>The static list is what the kernel gets to see\<close>

definition log_matches :: "string option list \<Rightarrow> string list \<Rightarrow> bool" where
  "log_matches qs ps \<longleftrightarrow> list_all2 (\<lambda>q p. q = None \<or> q = Some p) qs ps"

definition just_copied :: "place \<Rightarrow> (u64 \<times> string) option \<Rightarrow> mem \<Rightarrow> bool" where
  "just_copied e c m \<longleftrightarrow> (case c of None \<Rightarrow> True | Some (a, path) \<Rightarrow> path_string m (at_offset e a) = path)"

lemma log_matches_simps [simp]:
  "log_matches [] []" "log_matches qs ps \<Longrightarrow> log_matches qs' ps' \<Longrightarrow> log_matches (qs @ qs') (ps @ ps')"
  by (simp_all add: log_matches_def list_all2_appendI)

lemma log_matches_known: "None \<notin> set qs \<Longrightarrow> log_matches qs ps \<Longrightarrow> ps = map the qs"
  unfolding log_matches_def
proof (induction qs arbitrary: ps)
  case (Cons q qs)
  then show ?case by (cases ps) auto
qed simp

lemma unat_of_char: "unat (of_char c :: u8) = of_char c"
proof -
  have "(of_char c :: u8) = of_nat (of_char c)" by (simp add: of_char_def)
  then have "unat (of_char c :: u8) = unat (of_nat (of_char c) :: u8)" by (rule arg_cong)
  also have "\<dots> = of_char c mod 256" unfolding unat_of_nat by simp
  finally show ?thesis by simp
qed

lemma of_char_zero: "(of_char c :: u8) = 0 \<longleftrightarrow> c = CHR 0x00"
proof -
  have "(of_char c :: u8) = 0 \<longleftrightarrow> (of_char c :: nat) = of_char (CHR 0x00)" by (simp add: unat_eq_0 [symmetric] unat_of_char)
  then show ?thesis by (simp only: of_char_eq_iff)
qed

lemma peek_poke:
  assumes "k \<le> length bs" "length bs < 2 ^ 64"
  shows "peek p k (poke p bs m) = take k bs"
proof (rule nth_equalityI)
  fix i assume "i < length (peek p k (poke p bs m))"
  then have i: "i < k" by (simp add: peek_def)
  then have "unat (of_nat i :: u64) = i" using assms by (simp add: unat_of_nat take_bit_nat_eq_self)
  with i assms show "peek p k (poke p bs m) ! i = take k bs ! i" by (simp add: peek_def poke_def)
qed (use assms in \<open>simp add: peek_def\<close>)

lemma takeWhile_peek_poke:
  assumes n: "length (takeWhile Q bs) = n" "n < length bs" "n < k" "length bs < 2 ^ 64"
  shows "takeWhile Q (peek p k (poke p bs m)) = takeWhile Q bs"
proof -
  have "peek p k (poke p bs m) = peek p (Suc n) (poke p bs m) @ map (\<lambda>i. poke p bs m (p + of_nat i)) [Suc n..<k]"
    using n(3) upt_add_eq_append [of 0 "Suc n" "k - Suc n"] by (simp add: peek_def flip: map_append)
  also have "peek p (Suc n) (poke p bs m) = take (Suc n) bs" using n(2,4) by (simp add: peek_poke)
  also have "take (Suc n) bs = takeWhile Q bs @ [bs ! n]"
    using n(1,2) by (metis takeWhile_eq_take take_Suc_conv_app_nth)
  finally have "peek p k (poke p bs m) = takeWhile Q bs @ bs ! n # map (\<lambda>i. poke p bs m (p + of_nat i)) [Suc n..<k]" by simp
  moreover have "\<not> Q (bs ! n)" using n(1,2) nth_length_takeWhile by blast
  moreover have "\<forall>b \<in> set (takeWhile Q bs). Q b" by (meson set_takeWhileD)
  ultimately show ?thesis by (simp add: takeWhile_append2)
qed

lemma char_of_unat: "char_of (unat (of_char c :: u8)) = (c :: char)"
  by (simp add: unat_of_char)

lemma takeWhile_take: "takeWhile Q (take n xs) = take n (takeWhile Q xs)"
proof (induction xs arbitrary: n)
  case (Cons x xs)
  then show ?case by (cases n) simp_all
qed simp

lemma path_string_copied:
  assumes "copied_path a lit len = Some (b, path)" "len \<le> length lit + 1" "len < 2 ^ 64"
  shows "path_string (poke p (take len (literal_bytes lit)) m) p = path" "b = a"
proof -
  let ?bs = "take len (literal_bytes lit)"
  let ?path = "takeWhile (\<lambda>c. c \<noteq> CHR 0x00) lit"
  have p: "path = ?path" "length ?path < len" "length ?path < PATH_MAX" "b = a"
    using assms(1) by (simp_all add: copied_path_def Let_def split: if_splits)
  have all: "takeWhile (\<lambda>b. b \<noteq> 0) (literal_bytes lit) = map of_char ?path"
    by (simp add: literal_bytes_def takeWhile_append takeWhile_map comp_def of_char_zero)
       (induction lit; simp add: of_char_zero)
  have tw: "takeWhile (\<lambda>b. b \<noteq> 0) ?bs = map of_char ?path"
    using p(2) by (simp add: takeWhile_take all)
  then have "length (takeWhile (\<lambda>b. b \<noteq> 0) ?bs) = length ?path" by simp
  moreover have "length ?bs = len" using assms(2) by simp
  ultimately have "takeWhile (\<lambda>b. b \<noteq> 0) (peek p PATH_MAX (poke p ?bs m)) = map of_char ?path"
    using takeWhile_peek_poke [of "\<lambda>b. b \<noteq> 0" ?bs "length ?path" PATH_MAX p m] p(2,3) assms(3) tw by simp
  then show "path_string (poke p (take len (literal_bytes lit)) m) p = path"
    by (simp add: path_string_def p(1) comp_def char_of_unat)
  show "b = a" by (fact p(4))
qed

lemma tap_simps:
  "os_syscall (tap K) name vs m (k, cr, op) =
     (let (r, m', k') = os_syscall K name vs m k in (r, m', k', cr, op @ path_of_call name vs m))"
  "os_mkdtemp (tap K) template (k, log) = (let (r, k') = os_mkdtemp K template k in (r, k', log))"
  "os_chmod (tap K) dir (k, log) = (os_chmod K dir k, log)"
  "os_open_dir (tap K) dir (k, log) = (let (r, k') = os_open_dir K dir k in (r, k', log))"
  "os_mkdirat (tap K) fd path (k, log) = (os_mkdirat K fd path k, log)"
  "os_openat (tap K) fd path (k, cr, op) = (let (r, k') = os_openat K fd path k in (r, k', cr @ [path], op))"
  "os_ftruncate (tap K) fd sz (k, log) = (let (r, k') = os_ftruncate K fd sz k in (r, k', log))"
  "os_close (tap K) fd (k, log) = (os_close K fd k, log)"
  "os_mmap (tap K) n (k, log) = (let (r, k') = os_mmap K n k in (r, k', log))"
  "os_malloc (tap K) sz (k, log) = (let (r, k') = os_malloc K sz k in (r, k', log))"
  by (simp_all add: tap_def)

definition created_log :: "'k tapped \<Rightarrow> string list" where "created_log x = fst (snd x)"
definition opened_log :: "'k tapped \<Rightarrow> string list" where "opened_log x = snd (snd x)"

lemma path_given_sound:
  assumes vs: "operand_values e s xs = Inr vs" and m: "just_copied e m (memory s)"
  shows "log_matches (path_given m xs) (path_of_call NR_openat vs (memory s))"
proof (cases xs)
  case (Cons fd xs')
  show ?thesis
  proof (cases xs')
    case Nil
    with vs Cons obtain v where "vs = [v]" by auto
    with Cons Nil show ?thesis by (simp add: path_given_def path_of_call_def)
  next
    case (Cons x ys)
    with vs \<open>xs = fd # xs'\<close> obtain v p vs' where v: "vs = v # p # vs'" "operand_value e s x = Inr p" by auto
    with m show ?thesis
      by (auto simp: \<open>xs = fd # xs'\<close> Cons path_given_def path_of_call_def log_matches_def just_copied_def split: option.splits)
  qed
qed (use vs in \<open>simp add: path_given_def path_of_call_def\<close>)

lemma just_copied_None [simp]: "just_copied e None mem"
  by (simp add: just_copied_def)

lemma exec_memcpy_logs:
  assumes "exec_stmt K e (Memcpy a lit len) s = Inr s'"
  shows "os s' = os s \<and> just_copied e (copied_path a lit len) (memory s')"
proof -
  have b: "len \<le> length lit + 1" "accessible e (at_offset e a) len"
      "s' = s\<lparr>memory := poke (at_offset e a) (take len (literal_bytes lit)) (memory s)\<rparr>"
    using assms by (auto simp: store_bytes_def Let_def split: if_splits)
  have "len < 2 ^ 64" using b(2) by (simp add: accessible_def MMAP_LENGTH_def)
  then have c: "copied_path a lit len = Some (a', path) \<Longrightarrow> path_string (memory s') (at_offset e a') = path" for a' path
    using b(3) path_string_copied [OF _ b(1), of a a' path] by simp
  show ?thesis
  proof (cases "copied_path a lit len")
    case (Some x)
    with b(3) c [of "fst x" "snd x"] show ?thesis by (cases x) (simp add: just_copied_def)
  qed (use b(3) in simp)
qed

lemma exec_stmt_logs:
  assumes x: "exec_stmt (tap K) e c s = Inr s'" and m: "just_copied e m (memory s)"
  shows "created_log (os s') = created_log (os s) \<and> just_copied e (copied m [c]) (memory s') \<and>
    (\<exists>l. opened_log (os s') = opened_log (os s) @ l \<and> log_matches (opened_in m [c]) l)"
proof (cases c)
  case (Memcpy a lit len)
  with x exec_memcpy_logs [of "tap K" e a lit len s s'] show ?thesis by simp
next
  case (Syscall name xs)
  with x obtain vs where vs: "operand_values e s xs = Inr vs" by auto
  obtain k cr op where o: "os s = (k, cr, op)" by (cases "os s")
  obtain r m' k' where r: "os_syscall K name vs (memory s) k = (r, m', k')" by (cases "os_syscall K name vs (memory s) k")
  have "os s' = (k', cr, op @ path_of_call name vs (memory s))"
    using x Syscall vs o r by (auto simp: tap_simps split: if_splits)
  moreover have "log_matches (opened_in m [c]) (path_of_call name vs (memory s))"
    using path_given_sound [OF vs m] Syscall by (simp add: path_of_call_def)
  ultimately show ?thesis using o Syscall by (simp add: created_log_def opened_log_def)
next
  case Count
  with x show ?thesis by (auto simp: count_res_def split: if_splits)
next
  case (Close_reg i)
  with x show ?thesis by (cases "os s") (auto simp: tap_simps created_log_def opened_log_def)
qed (use x in \<open>auto simp: store_bytes_def Let_def split: if_splits\<close>)

lemma exec_body_logs:
  assumes "exec_body (tap K) e cs s = Inr s'" "just_copied e m (memory s)"
  shows "created_log (os s') = created_log (os s) \<and>
    (\<exists>l. opened_log (os s') = opened_log (os s) @ l \<and> log_matches (opened_in m cs) l)"
  using assms
proof (induction cs arbitrary: s m)
  case (Cons c cs)
  then obtain s1 where s1: "exec_stmt (tap K) e c s = Inr s1" "exec_body (tap K) e cs s1 = Inr s'" by auto
  from exec_stmt_logs [OF s1(1) Cons.prems(2)] obtain l where
    l: "created_log (os s1) = created_log (os s)" "just_copied e (copied m [c]) (memory s1)"
      "opened_log (os s1) = opened_log (os s) @ l" "log_matches (opened_in m [c]) l" by auto
  from Cons.IH [OF s1(2) l(2)] l(1,3,4) opened_in_append [of m "[c]" cs] show ?case by fastforce
qed simp

subsection \<open>Registration\<close>

lemma mkdirs_logs: "snd (mkdirs (tap K) fd ps x) = snd x"
  by (induction ps arbitrary: x) (auto simp: tap_simps)

lemma init_subdirs_logs: "init_subdirs (tap K) fd dirs x = Inr x' \<Longrightarrow> snd x' = snd x"
proof (induction dirs arbitrary: x)
  case (Cons dir dirs)
  then obtain ps where "init_subdirs (tap K) fd dirs (mkdirs (tap K) fd ps x) = Inr x'" by auto
  from Cons.IH [OF this] show ?case by (simp add: mkdirs_logs)
qed simp

lemma create_files_logs:
  "create_files (tap K) fd files x = Inr x' \<Longrightarrow>
   created_log x' = created_log x @ map fst files \<and> opened_log x' = opened_log x"
proof (induction files arbitrary: x)
  case (Cons f files)
  obtain name len where f: "f = (name, len)" by fastforce
  obtain k cr op where x: "x = (k, cr, op)" by (cases x)
  obtain fd1 k1 where o: "os_openat K fd name k = (fd1, k1)" by fastforce
  obtain r k2 where r: "os_ftruncate K fd1 len k1 = (r, k2)" by fastforce
  let ?y = "if fd1 < 0 then (k1, cr @ [name], op) else (os_close K fd1 k2, cr @ [name], op)"
  have "create_files (tap K) fd files ?y = Inr x'"
    using Cons.prems f x o r by (auto simp: tap_simps c_assert_def split: if_splits)
  from Cons.IH [OF this] x f show ?case by (simp add: created_log_def opened_log_def split: if_splits)
qed simp

lemma tap_malloc: "os_malloc (tap K) n x = (p, x') \<Longrightarrow> snd x' = snd x"
  by (cases x) (auto simp: tap_simps split: prod.splits)

lemma socket_args_log:
  "socket4_arg (tap K) given addr port x = Inr (a, x') \<Longrightarrow> snd x' = snd x"
  "socket6_arg (tap K) addr port x = Inr (b, p, x') \<Longrightarrow> snd x' = snd x"
  by (auto simp: socket4_arg_def socket6_arg_def c_assert_def tap_malloc split: if_splits prod.splits)

lemma setup_buffers_logs:
  assumes "setup_buffers (tap K) P ctx w = Inr (ctx', w')"
  shows "snd (s_os w') = snd (s_os w)"
proof -
  obtain wb k1 where 1: "os_malloc (tap K) (max_write_buffer P) (s_os w) = (wb, k1)" by (metis surj_pair)
  obtain c4 k2 b4 k3 c6 p6 k4 b6 q6 k5 where 2:
      "socket4_arg (tap K) (bm_connect_addr w) INADDR_LOOPBACK (g_conn_port w) k1 = Inr (c4, k2)"
      "socket4_arg (tap K) (bm_bind_addr w) INADDR_ANY (g_bind_port w) k2 = Inr (b4, k3)"
      "socket6_arg (tap K) in6addr_loopback (g_conn_port w) k3 = Inr (c6, p6, k4)"
      "socket6_arg (tap K) in6addr_any (g_bind_port w) k4 = Inr (b6, q6, k5)" "w' = w\<lparr>s_os := k5\<rparr>"
    using assms 1 unfolding setup_buffers_def by (clarsimp split: prod.splits)
  from 2(5) have "snd (s_os w') = snd k5" by simp
  with socket_args_log(1) [OF 2(1)] socket_args_log(1) [OF 2(2)] socket_args_log(2) [OF 2(3)] socket_args_log(2) [OF 2(4)]
    tap_malloc [OF 1] show ?thesis by simp
qed

lemma run_stmts_logs:
  assumes "run_stmts (tap K) P cs ctx w = Inr (ctx', w')"
  shows "created_log (s_os w') = created_log (s_os w) \<and>
    (\<exists>l. opened_log (s_os w') = opened_log (s_os w) @ l \<and> log_matches (opened_in None cs) l)"
proof -
  from assms obtain s where s: "exec_body (tap K) (place_of P ctx) cs (machine_of P ctx w) = Inr s"
      "store_regs P (regs s) (ctx\<lparr>s_memory := memory s, num_succeeded := succeeded s, num_failed := failed s\<rparr>, w\<lparr>s_os := os s\<rparr>) = (ctx', w')"
    by (auto simp: run_stmts_def)
  have "s_os w' = os s" using s(2) by (cases "prog_family P") (auto simp: store_regs_def)
  with exec_body_logs [OF s(1), of None] show ?thesis by simp
qed

lemma alloc_regs_logs: "alloc_regs (tap K) P ctx w = Inr (ctx', w') \<Longrightarrow> snd (s_os w') = snd (s_os w)"
  by (auto simp: alloc_regs_def dest!: tap_malloc split: if_splits prod.splits)

lemma reg_prog_logs:
  assumes "reg_prog (tap K) P ctx w = Inr (ctx', w')"
  shows "created_log (s_os w') = created_log (s_os w) \<and> (\<exists>l. opened_log (s_os w') = opened_log (s_os w) @ l \<and>
    log_matches (if prog_family P = Mysql_v2 then opened_in None (reg_body P) else []) l)"
proof (cases "prog_family P = Mysql_v2")
  case True
  with assms obtain c1 w1 where 1: "alloc_regs (tap K) P ctx w = Inr (c1, w1)" "run_stmts (tap K) P (reg_body P) c1 w1 = Inr (ctx', w')"
    by (auto simp: reg_prog_def)
  from alloc_regs_logs [OF 1(1)] run_stmts_logs [OF 1(2)] True show ?thesis
    by (simp add: created_log_def opened_log_def)
qed (use assms in \<open>simp add: reg_prog_def\<close>)

text \<open>Registration creates the files of the list, in order, and then opens what the statements open.\<close>

lemma syz_reg_logs:
  assumes "syz_reg (tap K) P tid ctx w = Inr (ctx', w')"
  shows "\<exists>l. snd (s_os w') = (created_log (s_os w) @ filenames P, opened_log (s_os w) @ l) \<and> log_matches (opened P) l"
proof -
  obtain dir k1 where 1: "os_mkdtemp (tap K) (''./syzkaller_'' @ prog_name P @ ''.XXXXXX'') (s_os w) = (dir, k1)" by (metis surj_pair)
  obtain dfd k3 where 3: "os_open_dir (tap K) dir (os_chmod (tap K) dir k1) = (dfd, k3)" by (metis surj_pair)
  have k3: "snd k3 = snd (s_os w)"
    using 1 3 by (cases "s_os w"; cases k1) (auto simp: tap_simps split: prod.splits)
  note a = assms [unfolded syz_reg_def 1 Let_def prod.case 3]
  obtain k4 where 4: "init_subdirs (tap K) dfd (subdirs P) k3 = Inr k4"
    using a by (cases "init_subdirs (tap K) dfd (subdirs P) k3") simp_all
  note a = a [unfolded 4 bind_r.simps]
  have n: "length (filenames P) = length (filesizes P)"
    by (rule ccontr) (use a in \<open>simp add: c_assert_def\<close>)
  note a = a [unfolded n c_assert_True]
  obtain k5 where 5: "create_files (tap K) dfd (zip (filenames P) (filesizes P)) k4 = Inr k5"
    using a by (cases "create_files (tap K) dfd (zip (filenames P) (filesizes P)) k4") simp_all
  obtain addr m k6 where 6: "os_mmap (tap K) MMAP_LENGTH k5 = ((addr, m), k6)" by (metis surj_pair)
  note a = a [unfolded 5 bind_r.simps 6 prod.case]
  have ad: "addr \<noteq> - 1" "addr \<noteq> 0" by (rule ccontr, use a in \<open>simp add: c_assert_def\<close>)+
  define c1 where "c1 = (reset_counters ctx)\<lparr>s_tid := tid, aggregation_threads := False, tmpdir := dir, s_dirfd := dfd,
    mmap_offsets := addr, s_memory := m\<rparr>"
  note a = a [unfolded not_False_eq_True c_assert_True ad simp_thms, folded c1_def]
  have k6: "created_log k6 = created_log (s_os w) @ filenames P" "opened_log k6 = opened_log (s_os w)"
  proof -
    have "snd k6 = snd k5" using 6 by (cases k5) (auto simp: tap_simps split: prod.splits)
    with create_files_logs [OF 5] init_subdirs_logs [OF 4] k3 n
    show "created_log k6 = created_log (s_os w) @ filenames P" "opened_log k6 = opened_log (s_os w)"
      by (simp_all add: created_log_def opened_log_def)
  qed
  obtain c2 w2 where 7: "(if prog_family P = Mysql then Inr (c1, w\<lparr>s_os := k6\<rparr>) else setup_buffers (tap K) P c1 (w\<lparr>s_os := k6\<rparr>)) = Inr (c2, w2)"
    using a by (cases "if prog_family P = Mysql then Inr (c1, w\<lparr>s_os := k6\<rparr>) else setup_buffers (tap K) P c1 (w\<lparr>s_os := k6\<rparr>)")
      (simp_all del: if_split add: split_beta, metis surj_pair)
  note a = a [unfolded 7 bind_r.simps prod.case]
  obtain c3 w3 where 8: "reg_prog (tap K) P c2 w2 = Inr (c3, w3)"
    using a by (cases "reg_prog (tap K) P c2 w2") (simp_all, metis surj_pair)
  note a = a [unfolded 8 bind_r.simps prod.case]
  from a obtain c4 where 9: "run_body (tap K) P c3 w3 = Inr (c4, w')" by auto
  have w2: "snd (s_os w2) = snd k6" using 7 setup_buffers_logs [of K P c1 "w\<lparr>s_os := k6\<rparr>" c2 w2] by (auto split: if_splits)
  from reg_prog_logs [OF 8] run_stmts_logs [OF 9 [unfolded run_body_def]] obtain l l' where
    l: "created_log (s_os w') = created_log (s_os w2)" "opened_log (s_os w') = opened_log (s_os w2) @ l @ l'"
      "log_matches (if prog_family P = Mysql_v2 then opened_in None (reg_body P) else []) l" "log_matches (opened_in None (body P)) l'"
    by auto
  have "log_matches (opened P) (l @ l')" using l(3,4) by (simp add: opened_def)
  moreover have "snd (s_os w') = (created_log (s_os w) @ filenames P, opened_log (s_os w) @ l @ l')"
    using l(1,2) k6 w2 by (simp add: created_log_def opened_log_def prod_eq_iff)
  ultimately show ?thesis by blast
qed

lemma os_cooperates_tap: "os_cooperates K \<Longrightarrow> os_cooperates (tap K)"
  by (auto simp: os_cooperates_def tap_simps split: prod.splits) (metis fst_conv)+

text \<open>What registration creates and opens, for a program that passes the check.\<close>

lemma syz_reg_misses:
  assumes "os_cooperates K" "prog_ok P" "calls (reg_body P) + calls (body P) < 2 ^ 31" "num_regs P < 2 ^ 32"
    "prog_family P = Mysql \<longrightarrow> length (r_unique w) = num_regs P" "s_regs ctx = None"
    "setup_misses P" "s_os w = (k, [], [])"
  shows "\<exists>ctx' w' k' opens. syz_reg (tap K) P tid ctx w = Inr (ctx', w') \<and> s_os w' = (k', filenames P, opens) \<and>
    misses (filenames P) opens"
proof -
  obtain ctx' w' where r: "syz_reg (tap K) P tid ctx w = Inr (ctx', w')"
    using syz_reg_ok [OF os_cooperates_tap [OF assms(1)] assms(2-6)] by blast
  from syz_reg_logs [OF r] assms(8) obtain l where
    l: "snd (s_os w') = (filenames P, l)" "log_matches (opened P) l" by (auto simp: created_log_def opened_log_def)
  have "l = map the (opened P)" using assms(7) l(2) by (simp add: setup_misses_def log_matches_known)
  with r l(1) assms(7) show ?thesis by (cases "s_os w'") (auto simp: setup_misses_def)
qed

lemmas open_checks = opened_in_other path_given_copied path_given_None PATH_MAX_def

end
