(* ===== verification/CSB_Progs_Mysql.thy ===== *)
theory CSB_Progs_Mysql
  imports CSB_Syz_Files
begin

text \<open>
  Bodies of generated targets of bench/targets/mysql, statement by statement in the order of the
  files syz/<name>.h, and the targets made of them (the files <name>.h). Each passes the check.
\<close>

section \<open>min\_mysql\_close\_dup\_0\_0\<close>

definition min_mysql_close_dup_0_0_body1 :: "stmt list" where
  "min_mysql_close_dup_0_0_body1 = [
    Memcpy 0x200b9700 (with_nul ''./var/tmp/'') 11,
    Syscall NR_openat [Dir_fd, Ptr 0x200b9700, Imm 0x484002, Imm 0x1ff], Count, Save_res 0,
    Syscall NR_dup [Reg 0], Count, Save_res 1, Syscall NR_close [Reg 0], Count,
    Syscall NR_fcntl [Reg 1, Imm 3, Imm 0], Count, Memcpy 0x200b9740 (with_nul ''./var/tmp/'') 11,
    Syscall NR_openat [Dir_fd, Ptr 0x200b9740, Imm 0x484002, Imm 0x1ff], Count, Save_res 2,
    Syscall NR_dup [Reg 2], Count, Save_res 3, Syscall NR_close [Reg 2], Count,
    Syscall NR_fcntl [Reg 3, Imm 3, Imm 0], Count, Memcpy 0x200b9a40 (with_nul ''./var/tmp/'') 11,
    Syscall NR_openat [Dir_fd, Ptr 0x200b9a40, Imm 0x484002, Imm 0x1ff], Count, Save_res 4,
    Syscall NR_dup [Reg 4], Count, Save_res 5, Syscall NR_close [Reg 4], Count, Syscall NR_close [Reg 5], Count,
    Memcpy 0x200ea3c0 (with_nul ''./var/tmp/'') 11,
    Syscall NR_openat [Dir_fd, Ptr 0x200ea3c0, Imm 0x484002, Imm 0x1ff], Count, Save_res 6,
    Syscall NR_dup [Reg 6], Count, Save_res 7, Syscall NR_close [Reg 6], Count]"

definition min_mysql_close_dup_0_0_body2 :: "stmt list" where
  "min_mysql_close_dup_0_0_body2 = [
    Syscall NR_fcntl [Reg 7, Imm 3, Imm 0], Count, Memcpy 0x20622880 (with_nul ''./var/tmp/'') 11,
    Syscall NR_openat [Dir_fd, Ptr 0x20622880, Imm 0x484002, Imm 0x1ff], Count, Save_res 8,
    Syscall NR_dup [Reg 8], Count, Save_res 9, Syscall NR_close [Reg 8], Count,
    Syscall NR_fcntl [Reg 9, Imm 3, Imm 0], Count]"

definition min_mysql_close_dup_0_0_regs :: "u64 list" where
  "min_mysql_close_dup_0_0_regs = replicate 10 (- 1)"

definition min_mysql_close_dup_0_0 :: syz_prog where
  "min_mysql_close_dup_0_0 = \<lparr>prog_name = ''min_mysql_close_dup_0_0'', prog_family = Mysql,
     subdirs = [''var/tmp'', ''./var/tmp/''],
     filenames = [''./var/tmp''], filesizes = [0],
     max_write_buffer = 0, init_regs = min_mysql_close_dup_0_0_regs,
     reg_body = [], dereg_body = [],
     body = min_mysql_close_dup_0_0_body1 @ min_mysql_close_dup_0_0_body2\<rparr>"

definition min_mysql_close_dup_0_0_target where
  "min_mysql_close_dup_0_0_target os_getenv os_inet_pton K = syz_target os_getenv os_inet_pton K min_mysql_close_dup_0_0"

lemmas min_mysql_close_dup_0_0_defs =
  min_mysql_close_dup_0_0_def min_mysql_close_dup_0_0_regs_def min_mysql_close_dup_0_0_body1_def
  min_mysql_close_dup_0_0_body2_def

lemma min_mysql_close_dup_0_0_ok: "prog_ok min_mysql_close_dup_0_0" "calls (body min_mysql_close_dup_0_0) = 20"
  by (simp_all add: prog_ok_def min_mysql_close_dup_0_0_defs prog_checks)

section \<open>min\_mysql\_getdents64\_close\_0\_0\<close>

definition min_mysql_getdents64_close_0_0_body1 :: "stmt list" where
  "min_mysql_getdents64_close_0_0_body1 = [
    Memcpy 0x2050a700 (with_nul ''./#innodb_redo/'') 16,
    Syscall NR_newfstatat [Dir_fd, Ptr 0x2050a700, Ptr 0x2050a740, Imm 0], Count,
    Memcpy 0x2050a7c0 (with_nul ''./#innodb_redo/'') 16,
    Syscall NR_openat [Dir_fd, Ptr 0x2050a7c0, Imm 0x84800, Imm 0x1ff], Count, Save_res 0,
    Syscall NR_getdents64 [Reg 0, Ptr 0x2050a8c0, Imm 0x32], Count,
    Syscall NR_getdents64 [Reg 0, Ptr 0x2050a900, Imm 0xe], Count, Syscall NR_close [Reg 0], Count,
    Memcpy 0x2050a940 (with_nul ''./#innodb_redo/'') 16,
    Syscall NR_openat [Dir_fd, Ptr 0x2050a940, Imm 0x84800, Imm 0x1ff], Count, Save_res 1,
    Syscall NR_getdents64 [Reg 1, Ptr 0x2050aa40, Imm 0x85], Count,
    Syscall NR_getdents64 [Reg 1, Ptr 0x2050ab00, Imm 0xf3], Count, Syscall NR_close [Reg 1], Count,
    Memcpy 0x20553040 (with_nul ''./#innodb_redo/'') 16,
    Syscall NR_openat [Dir_fd, Ptr 0x20553040, Imm 0x84800, Imm 0x1ff], Count, Save_res 2]"

definition min_mysql_getdents64_close_0_0_body2 :: "stmt list" where
  "min_mysql_getdents64_close_0_0_body2 = [
    Syscall NR_getdents64 [Reg 2, Ptr 0x20553140, Imm 0xc0], Count,
    Syscall NR_getdents64 [Reg 2, Ptr 0x20553200, Imm 0x9e], Count, Syscall NR_close [Reg 2], Count]"

definition min_mysql_getdents64_close_0_0 :: syz_prog where
  "min_mysql_getdents64_close_0_0 = \<lparr>prog_name = ''min_mysql_getdents64_close_0_0'', prog_family = Mysql,
     subdirs = [''#innodb_redo'', ''./#innodb_redo/''],
     filenames = [''./#innodb_redo''], filesizes = [0],
     max_write_buffer = 0, init_regs = replicate 3 (- 1),
     reg_body = [], dereg_body = [],
     body = min_mysql_getdents64_close_0_0_body1 @ min_mysql_getdents64_close_0_0_body2\<rparr>"

definition min_mysql_getdents64_close_0_0_target where
  "min_mysql_getdents64_close_0_0_target os_getenv os_inet_pton K = syz_target os_getenv os_inet_pton K min_mysql_getdents64_close_0_0"

lemmas min_mysql_getdents64_close_0_0_defs =
  min_mysql_getdents64_close_0_0_def min_mysql_getdents64_close_0_0_body1_def
  min_mysql_getdents64_close_0_0_body2_def

lemma min_mysql_getdents64_close_0_0_ok: "prog_ok min_mysql_getdents64_close_0_0" "calls (body min_mysql_getdents64_close_0_0) = 13"
  by (simp_all add: prog_ok_def min_mysql_getdents64_close_0_0_defs prog_checks)

section \<open>min\_mysql\_lseek\_read\_1\_0\<close>

definition min_mysql_lseek_read_1_0_body1 :: "stmt list" where
  "min_mysql_lseek_read_1_0_body1 = [
    Memcpy 0x2034fbc0 (with_nul ''./var/lib/mysql//public_key.pem'') 32,
    Syscall NR_openat [Dir_fd, Ptr 0x2034fbc0, Imm 0x40, Imm 0x1ff], Count, Save_res 0,
    Syscall NR_lseek [Reg 0, Imm 0, Imm 1], Count, Syscall NR_lseek [Reg 0, Imm 0, Imm 1], Count,
    Syscall NR_lseek [Reg 0, Imm 0, Imm 1], Count, Syscall NR_lseek [Reg 0, Imm 0, Imm 1], Count,
    Syscall NR_lseek [Reg 0, Imm 0, Imm 0], Count, Syscall NR_read [Reg 0, Ptr 0x2034fcc0, Imm 0x1c4], Count,
    Syscall NR_lseek [Reg 0, Imm 0, Imm 0], Count, Syscall NR_read [Reg 0, Ptr 0x2034ff80, Imm 0x1c4], Count,
    Syscall NR_lseek [Reg 0, Imm 0x1c4, Imm 0], Count, Syscall NR_close [Reg 0], Count,
    Memcpy 0x20350940 (with_nul ''./var/lib/mysql//public_key.pem'') 32,
    Syscall NR_openat [Dir_fd, Ptr 0x20350940, Imm 0x40, Imm 0x1ff], Count, Save_res 1,
    Syscall NR_lseek [Reg 1, Imm 0, Imm 1], Count, Syscall NR_lseek [Reg 1, Imm 0, Imm 1], Count,
    Syscall NR_lseek [Reg 1, Imm 0, Imm 1], Count, Syscall NR_lseek [Reg 1, Imm 0, Imm 1], Count]"

definition min_mysql_lseek_read_1_0_body2 :: "stmt list" where
  "min_mysql_lseek_read_1_0_body2 = [
    Syscall NR_lseek [Reg 1, Imm 0, Imm 0], Count, Syscall NR_read [Reg 1, Ptr 0x20350a40, Imm 0x1c4], Count,
    Syscall NR_lseek [Reg 1, Imm 0, Imm 0], Count, Syscall NR_read [Reg 1, Ptr 0x20350d00, Imm 0x1c4], Count,
    Syscall NR_lseek [Reg 1, Imm 0x1c4, Imm 0], Count, Syscall NR_close [Reg 1], Count]"

definition min_mysql_lseek_read_1_0 :: syz_prog where
  "min_mysql_lseek_read_1_0 = \<lparr>prog_name = ''min_mysql_lseek_read_1_0'', prog_family = Mysql,
     subdirs = [''var/lib/mysql''],
     filenames = [''./var/lib/mysql//public_key.pe''], filesizes = [0],
     max_write_buffer = 0, init_regs = replicate 2 (- 1),
     reg_body = [], dereg_body = [],
     body = min_mysql_lseek_read_1_0_body1 @ min_mysql_lseek_read_1_0_body2\<rparr>"

definition min_mysql_lseek_read_1_0_target where
  "min_mysql_lseek_read_1_0_target os_getenv os_inet_pton K = syz_target os_getenv os_inet_pton K min_mysql_lseek_read_1_0"

lemmas min_mysql_lseek_read_1_0_defs =
  min_mysql_lseek_read_1_0_def min_mysql_lseek_read_1_0_body1_def min_mysql_lseek_read_1_0_body2_def

lemma min_mysql_lseek_read_1_0_ok: "prog_ok min_mysql_lseek_read_1_0" "calls (body min_mysql_lseek_read_1_0) = 22"
  by (simp_all add: prog_ok_def min_mysql_lseek_read_1_0_defs prog_checks)

lemma min_mysql_lseek_read_1_0_misses: "setup_misses min_mysql_lseek_read_1_0" "filenames min_mysql_lseek_read_1_0 \<noteq> []" "reg_body min_mysql_lseek_read_1_0 = []" "num_regs min_mysql_lseek_read_1_0 < 2 ^ 32"
  by (simp_all add: setup_misses_def opened_def misses_def path_names_def min_mysql_lseek_read_1_0_defs prog_checks open_checks)

section \<open>min\_mysql\_read\_close\_0\_0\<close>

definition min_mysql_read_close_0_0_body1 :: "stmt list" where
  "min_mysql_read_close_0_0_body1 = [
    Memcpy 0x20366c80 (with_nul ''./etc/pki/tls/cert.pem'') 23,
    Syscall NR_openat [Dir_fd, Ptr 0x20366c80, Imm 0x40, Imm 0x1ff], Count, Save_res 0,
    Syscall NR_read [Reg 0, Ptr 0x2036b000, Imm 0x1000], Count,
    Syscall NR_read [Reg 0, Ptr 0x2036c000, Imm 0x1000], Count,
    Syscall NR_read [Reg 0, Ptr 0x2036d000, Imm 0x1000], Count,
    Syscall NR_read [Reg 0, Ptr 0x2036e000, Imm 0x1000], Count,
    Syscall NR_read [Reg 0, Ptr 0x2036f000, Imm 0x1000], Count,
    Syscall NR_read [Reg 0, Ptr 0x20370000, Imm 0x1000], Count,
    Syscall NR_read [Reg 0, Ptr 0x20371000, Imm 0x1000], Count,
    Syscall NR_read [Reg 0, Ptr 0x20372000, Imm 0x1000], Count,
    Syscall NR_read [Reg 0, Ptr 0x20373000, Imm 0x1000], Count,
    Syscall NR_read [Reg 0, Ptr 0x20374000, Imm 0x1000], Count,
    Syscall NR_read [Reg 0, Ptr 0x20375000, Imm 0x1000], Count,
    Syscall NR_read [Reg 0, Ptr 0x20376000, Imm 0x1000], Count]"

definition min_mysql_read_close_0_0_body2 :: "stmt list" where
  "min_mysql_read_close_0_0_body2 = [
    Syscall NR_read [Reg 0, Ptr 0x20377000, Imm 0x1000], Count,
    Syscall NR_read [Reg 0, Ptr 0x20378000, Imm 0x1000], Count,
    Syscall NR_read [Reg 0, Ptr 0x20379000, Imm 0x1000], Count,
    Syscall NR_read [Reg 0, Ptr 0x2037a000, Imm 0x1000], Count,
    Syscall NR_read [Reg 0, Ptr 0x2037b000, Imm 0x1000], Count,
    Syscall NR_read [Reg 0, Ptr 0x2037c000, Imm 0x1000], Count,
    Syscall NR_read [Reg 0, Ptr 0x2037d000, Imm 0x1000], Count,
    Syscall NR_read [Reg 0, Ptr 0x2037e000, Imm 0x1000], Count,
    Syscall NR_read [Reg 0, Ptr 0x2037f000, Imm 0x1000], Count,
    Syscall NR_read [Reg 0, Ptr 0x20380000, Imm 0x1000], Count,
    Syscall NR_read [Reg 0, Ptr 0x20381000, Imm 0x1000], Count,
    Syscall NR_read [Reg 0, Ptr 0x20382000, Imm 0x1000], Count,
    Syscall NR_read [Reg 0, Ptr 0x20383000, Imm 0x1000], Count,
    Syscall NR_read [Reg 0, Ptr 0x20384000, Imm 0x1000], Count]"

definition min_mysql_read_close_0_0_body3 :: "stmt list" where
  "min_mysql_read_close_0_0_body3 = [
    Syscall NR_read [Reg 0, Ptr 0x20385000, Imm 0x1000], Count,
    Syscall NR_read [Reg 0, Ptr 0x20386000, Imm 0x1000], Count,
    Syscall NR_read [Reg 0, Ptr 0x20387000, Imm 0x1000], Count,
    Syscall NR_read [Reg 0, Ptr 0x20388000, Imm 0x1000], Count,
    Syscall NR_read [Reg 0, Ptr 0x20389000, Imm 0x1000], Count,
    Syscall NR_read [Reg 0, Ptr 0x2038a000, Imm 0x1000], Count,
    Syscall NR_read [Reg 0, Ptr 0x2038b000, Imm 0x1000], Count,
    Syscall NR_read [Reg 0, Ptr 0x2038c000, Imm 0x1000], Count,
    Syscall NR_read [Reg 0, Ptr 0x2038d000, Imm 0x1000], Count,
    Syscall NR_read [Reg 0, Ptr 0x2038e000, Imm 0x1000], Count,
    Syscall NR_read [Reg 0, Ptr 0x2038f000, Imm 0x1000], Count,
    Syscall NR_read [Reg 0, Ptr 0x20390000, Imm 0x1000], Count,
    Syscall NR_read [Reg 0, Ptr 0x20391000, Imm 0x1000], Count,
    Syscall NR_read [Reg 0, Ptr 0x20392000, Imm 0x1000], Count]"

definition min_mysql_read_close_0_0_body4 :: "stmt list" where
  "min_mysql_read_close_0_0_body4 = [
    Syscall NR_read [Reg 0, Ptr 0x20393000, Imm 0x1000], Count,
    Syscall NR_read [Reg 0, Ptr 0x20394000, Imm 0x1000], Count,
    Syscall NR_read [Reg 0, Ptr 0x20395000, Imm 0x1000], Count,
    Syscall NR_read [Reg 0, Ptr 0x20396000, Imm 0x1000], Count,
    Syscall NR_read [Reg 0, Ptr 0x20397000, Imm 0x1000], Count,
    Syscall NR_read [Reg 0, Ptr 0x20398000, Imm 0x1000], Count,
    Syscall NR_read [Reg 0, Ptr 0x20399000, Imm 0x1000], Count,
    Syscall NR_read [Reg 0, Ptr 0x2039a000, Imm 0x1000], Count,
    Syscall NR_read [Reg 0, Ptr 0x2039b000, Imm 0x1000], Count,
    Syscall NR_read [Reg 0, Ptr 0x2039c000, Imm 0x1000], Count,
    Syscall NR_read [Reg 0, Ptr 0x2039d000, Imm 0x1000], Count,
    Syscall NR_read [Reg 0, Ptr 0x2039e000, Imm 0x1000], Count,
    Syscall NR_read [Reg 0, Ptr 0x2039f000, Imm 0x1000], Count,
    Syscall NR_read [Reg 0, Ptr 0x203a0000, Imm 0x1000], Count]"

definition min_mysql_read_close_0_0_body5 :: "stmt list" where
  "min_mysql_read_close_0_0_body5 = [
    Syscall NR_read [Reg 0, Ptr 0x203a1000, Imm 0x1000], Count,
    Syscall NR_read [Reg 0, Ptr 0x203a2000, Imm 0x1000], Count,
    Syscall NR_read [Reg 0, Ptr 0x203a3000, Imm 0x1000], Count,
    Syscall NR_read [Reg 0, Ptr 0x203a4000, Imm 0x1000], Count,
    Syscall NR_read [Reg 0, Ptr 0x203a5000, Imm 0x1000], Count,
    Syscall NR_read [Reg 0, Ptr 0x203a6000, Imm 0x1000], Count,
    Syscall NR_read [Reg 0, Ptr 0x203a7000, Imm 0xd6e], Count, Syscall NR_read [Reg 0, Ptr 0x20366d80, Imm 0],
    Count, Syscall NR_close [Reg 0], Count]"

definition min_mysql_read_close_0_0 :: syz_prog where
  "min_mysql_read_close_0_0 = \<lparr>prog_name = ''min_mysql_read_close_0_0'', prog_family = Mysql,
     subdirs = [''etc/pki/tls''],
     filenames = [''./etc/pki/tls/cert.pe''], filesizes = [0],
     max_write_buffer = 0, init_regs = replicate 1 (- 1),
     reg_body = [], dereg_body = [],
     body = min_mysql_read_close_0_0_body1 @ min_mysql_read_close_0_0_body2 @ min_mysql_read_close_0_0_body3 @
       min_mysql_read_close_0_0_body4 @ min_mysql_read_close_0_0_body5\<rparr>"

definition min_mysql_read_close_0_0_target where
  "min_mysql_read_close_0_0_target os_getenv os_inet_pton K = syz_target os_getenv os_inet_pton K min_mysql_read_close_0_0"

lemmas min_mysql_read_close_0_0_defs =
  min_mysql_read_close_0_0_def min_mysql_read_close_0_0_body1_def min_mysql_read_close_0_0_body2_def
  min_mysql_read_close_0_0_body3_def min_mysql_read_close_0_0_body4_def min_mysql_read_close_0_0_body5_def

lemma min_mysql_read_close_0_0_ok: "prog_ok min_mysql_read_close_0_0" "calls (body min_mysql_read_close_0_0) = 64"
  by (simp_all add: prog_ok_def min_mysql_read_close_0_0_defs prog_checks)

lemma min_mysql_read_close_0_0_misses: "setup_misses min_mysql_read_close_0_0" "filenames min_mysql_read_close_0_0 \<noteq> []" "reg_body min_mysql_read_close_0_0 = []" "num_regs min_mysql_read_close_0_0 < 2 ^ 32"
  by (simp_all add: setup_misses_def opened_def misses_def path_names_def min_mysql_read_close_0_0_defs prog_checks open_checks)

end
