(* ===== verification/CSB_Progs_Rocksdb.thy ===== *)
theory CSB_Progs_Rocksdb
  imports CSB_Syz_Files
begin

text \<open>
  Bodies of generated targets of bench/targets/rocksdb, statement by statement in the order of the
  files syz/<name>.h, and the targets made of them (the files <name>.h). Each passes the check.
\<close>

section \<open>min\_rocks\_read\_openat\_0\_0\<close>

definition min_rocks_read_openat_0_0_body :: "stmt list" where
  "min_rocks_read_openat_0_0_body = [
    Memcpy 0x20002c80 (with_nul ''./proc/self/status'') 19,
    Syscall NR_openat [Dir_fd, Ptr 0x20002c80, Imm 0x40, Imm 0x1ff], Count, Save_res 0,
    Syscall NR_read [Reg 0, Ptr 0x20002d80, Imm 0x400], Count,
    Syscall NR_read [Reg 0, Ptr 0x20003180, Imm 0x400], Count,
    Syscall NR_read [Reg 0, Ptr 0x20003240, Imm 0x400], Count, Syscall NR_close [Reg 0], Count,
    Memcpy 0x20003600 (with_nul ''./proc/self/status'') 19,
    Syscall NR_openat [Dir_fd, Ptr 0x20003600, Imm 0x40, Imm 0x1ff], Count, Save_res 1,
    Syscall NR_read [Reg 1, Ptr 0x20003700, Imm 0x400], Count,
    Syscall NR_read [Reg 1, Ptr 0x20003b00, Imm 0x400], Count,
    Syscall NR_read [Reg 1, Ptr 0x20003bc0, Imm 0x400], Count, Syscall NR_close [Reg 1], Count]"

definition min_rocks_read_openat_0_0 :: syz_prog where
  "min_rocks_read_openat_0_0 = \<lparr>prog_name = ''min_rocks_read_openat_0_0'', prog_family = Rocksdb,
     subdirs = [''proc/self''],
     filenames = [''./proc/self/statu''], filesizes = [0],
     max_write_buffer = 0, init_regs = replicate 2 (- 1),
     reg_body = [], dereg_body = [],
     body = min_rocks_read_openat_0_0_body\<rparr>"

definition min_rocks_read_openat_0_0_target where
  "min_rocks_read_openat_0_0_target os_getenv os_inet_pton K = syz_target os_getenv os_inet_pton K min_rocks_read_openat_0_0"

lemmas min_rocks_read_openat_0_0_defs =
  min_rocks_read_openat_0_0_def min_rocks_read_openat_0_0_body_def

lemma min_rocks_read_openat_0_0_ok: "prog_ok min_rocks_read_openat_0_0" "calls (body min_rocks_read_openat_0_0) = 10"
  by (simp_all add: prog_ok_def min_rocks_read_openat_0_0_defs prog_checks)

lemma min_rocks_read_openat_0_0_misses: "setup_misses min_rocks_read_openat_0_0" "filenames min_rocks_read_openat_0_0 \<noteq> []" "reg_body min_rocks_read_openat_0_0 = []" "num_regs min_rocks_read_openat_0_0 < 2 ^ 32"
  by (simp_all add: setup_misses_def opened_def misses_def path_names_def min_rocks_read_openat_0_0_defs prog_checks open_checks)

section \<open>min\_rocks\_write\_fcntl\_8\_0\<close>

definition min_rocks_write_fcntl_8_0_body :: "stmt list" where
  "min_rocks_write_fcntl_8_0_body = [
    Memcpy 0x20008400 (with_nul ''./tmp/rocksdb_db/LOG'') 21,
    Syscall NR_faccessat [Dir_fd, Ptr 0x20008400, Imm 0], Count,
    Memcpy 0x20008440 (with_nul ''/tmp/rocksdb_db/LOG'') 20,
    Memcpy 0x20008480 (with_nul ''/tmp/rocksdb_db/LOG.old.1773051343949204'') 41,
    Syscall NR_renameat [Imm 0xffffff9c, Ptr 0x20008440, Imm 0xffffff9c, Ptr 0x20008480], Count,
    Memcpy 0x200084c0 (with_nul ''./tmp/rocksdb_db/LOG'') 21,
    Syscall NR_openat [Dir_fd, Ptr 0x200084c0, Imm 0x80241, Imm 0x1ff], Count, Save_res 0,
    Syscall NR_fcntl [Reg 0, Imm 1, Imm 0], Count, Syscall NR_fcntl [Reg 0, Imm 2, Imm 1], Count,
    Syscall NR_fstatfs [Reg 0, Ptr 0x20008500], Count, Syscall NR_sync_file_range [Reg 0, Imm 0, Imm 0, Imm 0],
    Count, Syscall NR_write [Reg 0, Write_buf, Imm 0x36], Count,
    Syscall NR_write [Reg 0, Write_buf, Imm 0x722e], Count, Syscall NR_write [Reg 0, Write_buf, Imm 0xcf],
    Count, Syscall NR_write [Reg 0, Write_buf, Imm 0x12b], Count, Syscall NR_write [Reg 0, Write_buf, Imm 0x34],
    Count, Syscall NR_write [Reg 0, Write_buf, Imm 0x60], Count, Syscall NR_write [Reg 0, Write_buf, Imm 0x4a],
    Count, Syscall NR_close [Reg 0], Count]"

definition min_rocks_write_fcntl_8_0 :: syz_prog where
  "min_rocks_write_fcntl_8_0 = \<lparr>prog_name = ''min_rocks_write_fcntl_8_0'', prog_family = Rocksdb,
     subdirs = [''tmp/rocksdb_db''],
     filenames = [''./tmp/rocksdb_db/LO''], filesizes = [0],
     max_write_buffer = 29230, init_regs = replicate 1 (- 1),
     reg_body = [], dereg_body = [],
     body = min_rocks_write_fcntl_8_0_body\<rparr>"

definition min_rocks_write_fcntl_8_0_target where
  "min_rocks_write_fcntl_8_0_target os_getenv os_inet_pton K = syz_target os_getenv os_inet_pton K min_rocks_write_fcntl_8_0"

lemmas min_rocks_write_fcntl_8_0_defs =
  min_rocks_write_fcntl_8_0_def min_rocks_write_fcntl_8_0_body_def

lemma min_rocks_write_fcntl_8_0_ok: "prog_ok min_rocks_write_fcntl_8_0" "calls (body min_rocks_write_fcntl_8_0) = 15"
  by (simp_all add: prog_ok_def min_rocks_write_fcntl_8_0_defs prog_checks)

lemma min_rocks_write_fcntl_8_0_misses: "setup_misses min_rocks_write_fcntl_8_0" "filenames min_rocks_write_fcntl_8_0 \<noteq> []" "reg_body min_rocks_write_fcntl_8_0 = []" "num_regs min_rocks_write_fcntl_8_0 < 2 ^ 32"
  by (simp_all add: setup_misses_def opened_def misses_def path_names_def min_rocks_write_fcntl_8_0_defs prog_checks open_checks)

section \<open>min\_rocks\_fcntl\_read\_0\_0\<close>

definition min_rocks_fcntl_read_0_0_body1 :: "stmt list" where
  "min_rocks_fcntl_read_0_0_body1 = [
    Memcpy 0x20009a80 (with_nul ''./tmp/rocksdb_db/CURRENT'') 25,
    Syscall NR_faccessat [Dir_fd, Ptr 0x20009a80, Imm 0], Count,
    Memcpy 0x20009ac0 (with_nul ''./tmp/rocksdb_db/CURRENT'') 25,
    Syscall NR_openat [Dir_fd, Ptr 0x20009ac0, Imm 0x80040, Imm 0x1ff], Count, Save_res 0,
    Syscall NR_fcntl [Reg 0, Imm 1, Imm 0], Count, Syscall NR_fcntl [Reg 0, Imm 2, Imm 1], Count,
    Syscall NR_close [Reg 0], Count, Memcpy 0x20009b00 (with_nul ''./tmp/rocksdb_db/CURRENT'') 25,
    Syscall NR_openat [Dir_fd, Ptr 0x20009b00, Imm 0x80040, Imm 0x1ff], Count, Save_res 1,
    Syscall NR_fcntl [Reg 1, Imm 1, Imm 0], Count, Syscall NR_fcntl [Reg 1, Imm 2, Imm 1], Count,
    Syscall NR_fcntl [Reg 1, Imm 3, Imm 0], Count, Syscall NR_read [Reg 1, Ptr 0x20009c00, Imm 0x2000], Count,
    Syscall NR_read [Reg 1, Ptr 0x20009c40, Imm 0x1000], Count,
    Syscall NR_read [Reg 1, Ptr 0x20009c80, Imm 0x2000], Count, Syscall NR_close [Reg 1], Count,
    Memcpy 0x20d33400 (with_nul ''./tmp/rocksdb_db/000034.dbtmp'') 30,
    Syscall NR_openat [Dir_fd, Ptr 0x20d33400, Imm 0x80241, Imm 0x1ff], Count, Save_res 2,
    Syscall NR_fcntl [Reg 2, Imm 1, Imm 0], Count]"

definition min_rocks_fcntl_read_0_0_body2 :: "stmt list" where
  "min_rocks_fcntl_read_0_0_body2 = [
    Syscall NR_fcntl [Reg 2, Imm 2, Imm 1], Count, Syscall NR_fstatfs [Reg 2, Ptr 0x20d33440], Count,
    Syscall NR_sync_file_range [Reg 2, Imm 0, Imm 0, Imm 0], Count,
    Syscall NR_write [Reg 2, Write_buf, Imm 0x10], Count, Syscall NR_fdatasync [Reg 2], Count,
    Syscall NR_close [Reg 2], Count, Memcpy 0x20d33540 (with_nul ''/tmp/rocksdb_db/000034.dbtmp'') 29,
    Memcpy 0x20d33580 (with_nul ''/tmp/rocksdb_db/CURRENT'') 24,
    Syscall NR_renameat [Imm 0xffffff9c, Ptr 0x20d33540, Imm 0xffffff9c, Ptr 0x20d33580], Count]"

definition min_rocks_fcntl_read_0_0 :: syz_prog where
  "min_rocks_fcntl_read_0_0 = \<lparr>prog_name = ''min_rocks_fcntl_read_0_0'', prog_family = Rocksdb,
     subdirs = [''tmp/rocksdb_db''],
     filenames = [''./tmp/rocksdb_db/CURREN''], filesizes = [0],
     max_write_buffer = 16, init_regs = replicate 3 (- 1),
     reg_body = [], dereg_body = [],
     body = min_rocks_fcntl_read_0_0_body1 @ min_rocks_fcntl_read_0_0_body2\<rparr>"

definition min_rocks_fcntl_read_0_0_target where
  "min_rocks_fcntl_read_0_0_target os_getenv os_inet_pton K = syz_target os_getenv os_inet_pton K min_rocks_fcntl_read_0_0"

lemmas min_rocks_fcntl_read_0_0_defs =
  min_rocks_fcntl_read_0_0_def min_rocks_fcntl_read_0_0_body1_def min_rocks_fcntl_read_0_0_body2_def

lemma min_rocks_fcntl_read_0_0_ok: "prog_ok min_rocks_fcntl_read_0_0" "calls (body min_rocks_fcntl_read_0_0) = 22"
  by (simp_all add: prog_ok_def min_rocks_fcntl_read_0_0_defs prog_checks)

lemma min_rocks_fcntl_read_0_0_misses: "setup_misses min_rocks_fcntl_read_0_0" "filenames min_rocks_fcntl_read_0_0 \<noteq> []" "reg_body min_rocks_fcntl_read_0_0 = []" "num_regs min_rocks_fcntl_read_0_0 < 2 ^ 32"
  by (simp_all add: setup_misses_def opened_def misses_def path_names_def min_rocks_fcntl_read_0_0_defs prog_checks open_checks)

section \<open>min\_rocks\_write\_fcntl\_9\_0\<close>

definition min_rocks_write_fcntl_9_0_body1 :: "stmt list" where
  "min_rocks_write_fcntl_9_0_body1 = [
    Memcpy 0x20c84b00 (with_nul ''./tmp/rocksdb_db/000032.sst'') 28,
    Syscall NR_openat [Dir_fd, Ptr 0x20c84b00, Imm 0x80241, Imm 0x1ff], Count, Save_res 0,
    Syscall NR_fcntl [Reg 0, Imm 1, Imm 0], Count, Syscall NR_fcntl [Reg 0, Imm 2, Imm 1], Count,
    Syscall NR_fstatfs [Reg 0, Ptr 0x20c84b40], Count, Syscall NR_sync_file_range [Reg 0, Imm 0, Imm 0, Imm 0],
    Count, Store 8 0x20c84bc0 (Imm 0), Syscall NR_fcntl [Reg 0, Imm 0x40c, Ptr 0x20c84bc0], Count,
    Syscall NR_write [Reg 0, Write_buf, Imm 0x100000], Count, Syscall NR_write [Reg 0, Write_buf, Imm 0x100000],
    Count, Syscall NR_write [Reg 0, Write_buf, Imm 0x100000], Count,
    Syscall NR_write [Reg 0, Write_buf, Imm 0x100000], Count, Syscall NR_write [Reg 0, Write_buf, Imm 0xbb95a],
    Count, Syscall NR_fdatasync [Reg 0], Count, Syscall NR_close [Reg 0], Count,
    Memcpy 0x20d24b40 (with_nul ''./tmp/rocksdb_db/000032.sst'') 28,
    Syscall NR_openat [Dir_fd, Ptr 0x20d24b40, Imm 0x80040, Imm 0x1ff], Count, Save_res 1,
    Syscall NR_fcntl [Reg 1, Imm 1, Imm 0], Count]"

definition min_rocks_write_fcntl_9_0_body2 :: "stmt list" where
  "min_rocks_write_fcntl_9_0_body2 = [
    Syscall NR_fcntl [Reg 1, Imm 2, Imm 1], Count, Syscall NR_fadvise64 [Reg 1, Imm 0, Imm 0, Imm 1], Count,
    Syscall NR_readahead [Reg 1, Imm 0x4b4d9f, Imm 0x6bbb], Count,
    Syscall NR_pread64 [Reg 1, Ptr 0x20d24c40, Imm 0x35, Imm 0x4bb925], Count,
    Syscall NR_pread64 [Reg 1, Ptr 0x20d24c80, Imm 0x43, Imm 0x4bb8e2], Count,
    Syscall NR_pread64 [Reg 1, Ptr 0x20d24d00, Imm 0x3cb, Imm 0x4bb517], Count,
    Syscall NR_pread64 [Reg 1, Ptr 0x20d25100, Imm 0x6778, Imm 0x4b4d9f], Count, Close_reg 1]"

definition min_rocks_write_fcntl_9_0 :: syz_prog where
  "min_rocks_write_fcntl_9_0 = \<lparr>prog_name = ''min_rocks_write_fcntl_9_0'', prog_family = Rocksdb,
     subdirs = [''tmp/rocksdb_db''],
     filenames = [''./tmp/rocksdb_db/000032.ss''], filesizes = [4962650],
     max_write_buffer = 1048576, init_regs = replicate 2 (- 1),
     reg_body = [], dereg_body = [],
     body = min_rocks_write_fcntl_9_0_body1 @ min_rocks_write_fcntl_9_0_body2\<rparr>"

definition min_rocks_write_fcntl_9_0_target where
  "min_rocks_write_fcntl_9_0_target os_getenv os_inet_pton K = syz_target os_getenv os_inet_pton K min_rocks_write_fcntl_9_0"

lemmas min_rocks_write_fcntl_9_0_defs =
  min_rocks_write_fcntl_9_0_def min_rocks_write_fcntl_9_0_body1_def min_rocks_write_fcntl_9_0_body2_def

lemma min_rocks_write_fcntl_9_0_ok: "prog_ok min_rocks_write_fcntl_9_0" "calls (body min_rocks_write_fcntl_9_0) = 22"
  by (simp_all add: prog_ok_def min_rocks_write_fcntl_9_0_defs prog_checks)

lemma min_rocks_write_fcntl_9_0_misses: "setup_misses min_rocks_write_fcntl_9_0" "filenames min_rocks_write_fcntl_9_0 \<noteq> []" "reg_body min_rocks_write_fcntl_9_0 = []" "num_regs min_rocks_write_fcntl_9_0 < 2 ^ 32"
  by (simp_all add: setup_misses_def opened_def misses_def path_names_def min_rocks_write_fcntl_9_0_defs prog_checks open_checks)

section \<open>min\_rocks\_fcntl\_pread64\_0\_0\<close>

definition min_rocks_fcntl_pread64_0_0_body1 :: "stmt list" where
  "min_rocks_fcntl_pread64_0_0_body1 = [
    Memcpy 0x20f2c780 (with_nul ''./tmp/rocksdb_db/000038.sst'') 28,
    Syscall NR_openat [Dir_fd, Ptr 0x20f2c780, Imm 0x80241, Imm 0x1ff], Count, Save_res 0,
    Syscall NR_fcntl [Reg 0, Imm 1, Imm 0], Count, Syscall NR_fcntl [Reg 0, Imm 2, Imm 1], Count,
    Syscall NR_fstatfs [Reg 0, Ptr 0x20f2c7c0], Count, Syscall NR_sync_file_range [Reg 0, Imm 0, Imm 0, Imm 0],
    Count, Store 8 0x20f2c800 (Imm 0), Syscall NR_fcntl [Reg 0, Imm 0x40c, Ptr 0x20f2c800], Count,
    Syscall NR_write [Reg 0, Write_buf, Imm 0x100000], Count, Syscall NR_write [Reg 0, Write_buf, Imm 0xe9c02],
    Count, Syscall NR_fdatasync [Reg 0], Count, Syscall NR_close [Reg 0], Count,
    Memcpy 0x20f6c840 (with_nul ''./tmp/rocksdb_db/000038.sst'') 28,
    Syscall NR_openat [Dir_fd, Ptr 0x20f6c840, Imm 0x80040, Imm 0x1ff], Count, Save_res 1,
    Syscall NR_fcntl [Reg 1, Imm 1, Imm 0], Count, Syscall NR_fcntl [Reg 1, Imm 2, Imm 1], Count,
    Syscall NR_fadvise64 [Reg 1, Imm 0, Imm 0, Imm 1], Count,
    Syscall NR_readahead [Reg 1, Imm 0x1e6c87, Imm 0x2f7b], Count]"

definition min_rocks_fcntl_pread64_0_0_body2 :: "stmt list" where
  "min_rocks_fcntl_pread64_0_0_body2 = [
    Syscall NR_pread64 [Reg 1, Ptr 0x20f6c940, Imm 0x35, Imm 0x1e9bcd], Count,
    Syscall NR_pread64 [Reg 1, Ptr 0x20f6c980, Imm 0x40, Imm 0x1e9b8d], Count,
    Syscall NR_pread64 [Reg 1, Ptr 0x20f6c9c0, Imm 0x3e4, Imm 0x1e97a9], Count,
    Syscall NR_pread64 [Reg 1, Ptr 0x20f6cdc0, Imm 0x2b22, Imm 0x1e6c87], Count,
    Memcpy 0x20f70540 (with_nul ''./tmp/rocksdb_db/000038.sst'') 28,
    Syscall NR_newfstatat [Dir_fd, Ptr 0x20f70540, Ptr 0x20f70580, Imm 0], Count, Close_reg 1]"

definition min_rocks_fcntl_pread64_0_0 :: syz_prog where
  "min_rocks_fcntl_pread64_0_0 = \<lparr>prog_name = ''min_rocks_fcntl_pread64_0_0'', prog_family = Rocksdb,
     subdirs = [''tmp/rocksdb_db''],
     filenames = [''./tmp/rocksdb_db/000038.ss''], filesizes = [2006018],
     max_write_buffer = 1048576, init_regs = replicate 2 (- 1),
     reg_body = [], dereg_body = [],
     body = min_rocks_fcntl_pread64_0_0_body1 @ min_rocks_fcntl_pread64_0_0_body2\<rparr>"

definition min_rocks_fcntl_pread64_0_0_target where
  "min_rocks_fcntl_pread64_0_0_target os_getenv os_inet_pton K = syz_target os_getenv os_inet_pton K min_rocks_fcntl_pread64_0_0"

lemmas min_rocks_fcntl_pread64_0_0_defs =
  min_rocks_fcntl_pread64_0_0_def min_rocks_fcntl_pread64_0_0_body1_def
  min_rocks_fcntl_pread64_0_0_body2_def

lemma min_rocks_fcntl_pread64_0_0_ok: "prog_ok min_rocks_fcntl_pread64_0_0" "calls (body min_rocks_fcntl_pread64_0_0) = 20"
  by (simp_all add: prog_ok_def min_rocks_fcntl_pread64_0_0_defs prog_checks)

lemma min_rocks_fcntl_pread64_0_0_misses: "setup_misses min_rocks_fcntl_pread64_0_0" "filenames min_rocks_fcntl_pread64_0_0 \<noteq> []" "reg_body min_rocks_fcntl_pread64_0_0 = []" "num_regs min_rocks_fcntl_pread64_0_0 < 2 ^ 32"
  by (simp_all add: setup_misses_def opened_def misses_def path_names_def min_rocks_fcntl_pread64_0_0_defs prog_checks open_checks)

section \<open>min\_rocks\_read\_openat\_2\_0\<close>

definition min_rocks_read_openat_2_0_body1 :: "stmt list" where
  "min_rocks_read_openat_2_0_body1 = [
    Memcpy 0x20d38500 (with_nul ''/proc/cpuinfo'') 14, Syscall NR_openat [Dir_fd, Ptr 0x20d38500, Imm 0, Imm 0],
    Count, Save_res 0, Syscall NR_read [Reg 0, Ptr 0x20d38600, Imm 0x400], Count,
    Syscall NR_read [Reg 0, Ptr 0x20d38a00, Imm 0x400], Count,
    Syscall NR_read [Reg 0, Ptr 0x20d38e00, Imm 0x400], Count,
    Syscall NR_read [Reg 0, Ptr 0x20d39200, Imm 0x400], Count,
    Syscall NR_read [Reg 0, Ptr 0x20d39600, Imm 0x400], Count,
    Syscall NR_read [Reg 0, Ptr 0x20d39a00, Imm 0x400], Count,
    Syscall NR_read [Reg 0, Ptr 0x20d39e00, Imm 0x400], Count,
    Syscall NR_read [Reg 0, Ptr 0x20d3a200, Imm 0x400], Count,
    Syscall NR_read [Reg 0, Ptr 0x20d3a600, Imm 0x400], Count,
    Syscall NR_read [Reg 0, Ptr 0x20d3aa00, Imm 0x400], Count,
    Syscall NR_read [Reg 0, Ptr 0x20d3ae00, Imm 0x400], Count,
    Syscall NR_read [Reg 0, Ptr 0x20d3b200, Imm 0x400], Count]"

definition min_rocks_read_openat_2_0_body2 :: "stmt list" where
  "min_rocks_read_openat_2_0_body2 = [
    Syscall NR_read [Reg 0, Ptr 0x20d3b600, Imm 0x400], Count,
    Syscall NR_read [Reg 0, Ptr 0x20d3ba00, Imm 0x400], Count,
    Syscall NR_read [Reg 0, Ptr 0x20d3be00, Imm 0x400], Count,
    Syscall NR_read [Reg 0, Ptr 0x20d3c200, Imm 0x400], Count,
    Syscall NR_read [Reg 0, Ptr 0x20d3c600, Imm 0x400], Count,
    Syscall NR_read [Reg 0, Ptr 0x20d3ca00, Imm 0x400], Count,
    Syscall NR_read [Reg 0, Ptr 0x20d3ce00, Imm 0x400], Count,
    Syscall NR_read [Reg 0, Ptr 0x20d3d200, Imm 0x400], Count,
    Syscall NR_read [Reg 0, Ptr 0x20d3d600, Imm 0x400], Count,
    Syscall NR_read [Reg 0, Ptr 0x20d3da00, Imm 0x400], Count,
    Syscall NR_read [Reg 0, Ptr 0x20d3de00, Imm 0x400], Count,
    Syscall NR_read [Reg 0, Ptr 0x20d3e200, Imm 0x400], Count,
    Syscall NR_read [Reg 0, Ptr 0x20d3e600, Imm 0x400], Count,
    Syscall NR_read [Reg 0, Ptr 0x20d3ea00, Imm 0x400], Count]"

definition min_rocks_read_openat_2_0_body3 :: "stmt list" where
  "min_rocks_read_openat_2_0_body3 = [
    Syscall NR_read [Reg 0, Ptr 0x20d3ee00, Imm 0x400], Count,
    Syscall NR_read [Reg 0, Ptr 0x20d3f200, Imm 0x400], Count,
    Syscall NR_read [Reg 0, Ptr 0x20d3f600, Imm 0x400], Count,
    Syscall NR_read [Reg 0, Ptr 0x20d3fa00, Imm 0x400], Count,
    Syscall NR_read [Reg 0, Ptr 0x20d3fe00, Imm 0x400], Count,
    Syscall NR_read [Reg 0, Ptr 0x20d40200, Imm 0x400], Count,
    Syscall NR_read [Reg 0, Ptr 0x20d404c0, Imm 0x400], Count, Syscall NR_close [Reg 0], Count]"

definition min_rocks_read_openat_2_0 :: syz_prog where
  "min_rocks_read_openat_2_0 = \<lparr>prog_name = ''min_rocks_read_openat_2_0'', prog_family = Rocksdb,
     subdirs = [],
     filenames = [], filesizes = [],
     max_write_buffer = 0, init_regs = replicate 1 (- 1),
     reg_body = [], dereg_body = [],
     body = min_rocks_read_openat_2_0_body1 @ min_rocks_read_openat_2_0_body2 @ min_rocks_read_openat_2_0_body3\<rparr>"

definition min_rocks_read_openat_2_0_target where
  "min_rocks_read_openat_2_0_target os_getenv os_inet_pton K = syz_target os_getenv os_inet_pton K min_rocks_read_openat_2_0"

lemmas min_rocks_read_openat_2_0_defs =
  min_rocks_read_openat_2_0_def min_rocks_read_openat_2_0_body1_def min_rocks_read_openat_2_0_body2_def
  min_rocks_read_openat_2_0_body3_def

lemma min_rocks_read_openat_2_0_ok: "prog_ok min_rocks_read_openat_2_0" "calls (body min_rocks_read_openat_2_0) = 35"
  by (simp_all add: prog_ok_def min_rocks_read_openat_2_0_defs prog_checks)

end
