(* ===== verification/CSB_Progs_Mysql_v2a.thy ===== *)
theory CSB_Progs_Mysql_v2a
  imports CSB_Syz_Files
begin

text \<open>
  Bodies of generated targets of bench/targets/mysql\_v2, statement by statement in the order of the
  files syz/<name>.h, and the targets made of them (the files <name>.h). Each passes the check.
\<close>

section \<open>min\_mysql\_epoll\_create1\_missing\_0\_0\<close>

definition min_mysql_epoll_create1_missing_0_0_body :: "stmt list" where
  "min_mysql_epoll_create1_missing_0_0_body = [
    Syscall NR_epoll_create1 [Imm 0x80000], Count]"

definition min_mysql_epoll_create1_missing_0_0 :: syz_prog where
  "min_mysql_epoll_create1_missing_0_0 = \<lparr>prog_name = ''min_mysql_epoll_create1_missing_0_0'', prog_family = Mysql_v2,
     subdirs = [],
     filenames = [], filesizes = [],
     max_write_buffer = 0, init_regs = [],
     reg_body = [], dereg_body = [],
     body = min_mysql_epoll_create1_missing_0_0_body\<rparr>"

definition min_mysql_epoll_create1_missing_0_0_target where
  "min_mysql_epoll_create1_missing_0_0_target os_getenv os_inet_pton K = syz_target os_getenv os_inet_pton K min_mysql_epoll_create1_missing_0_0"

lemmas min_mysql_epoll_create1_missing_0_0_defs =
  min_mysql_epoll_create1_missing_0_0_def min_mysql_epoll_create1_missing_0_0_body_def

lemma min_mysql_epoll_create1_missing_0_0_ok: "prog_ok min_mysql_epoll_create1_missing_0_0" "calls (body min_mysql_epoll_create1_missing_0_0) = 1"
  by (simp_all add: prog_ok_def min_mysql_epoll_create1_missing_0_0_defs prog_checks)

section \<open>min\_mysql\_read\_write\_0\_0\<close>

definition min_mysql_read_write_0_0_body1 :: "stmt list" where
  "min_mysql_read_write_0_0_body1 = [
    Memcpy 0x2004d600 (with_nul ''./var/lib/mysql/ib_buffer_pool'') 31,
    Syscall NR_readlinkat [Dir_fd, Ptr 0x2004d600, Ptr 0x2004d640, Imm 0x3ff], Count,
    Memcpy 0x2004d800 (with_nul ''./var/lib/mysql/ib_buffer_pool'') 31,
    Syscall NR_openat [Dir_fd, Ptr 0x2004d800, Imm 0x40, Imm 0x1ff], Count, Save_res 0,
    Syscall NR_read [Reg 0, Ptr 0x2004d900, Imm 0x1000], Count,
    Syscall NR_read [Reg 0, Ptr 0x2004e880, Imm 0x1000], Count, Syscall NR_lseek [Reg 0, Imm 0, Imm 0], Count,
    Syscall NR_read [Reg 0, Ptr 0x2004e8c0, Imm 0x1000], Count, Syscall NR_close [Reg 0], Count,
    Memcpy 0x20884200 (with_nul ''./var/lib/mysql/ib_buffer_pool'') 31,
    Syscall NR_readlinkat [Dir_fd, Ptr 0x20884200, Ptr 0x20884240, Imm 0x3ff], Count,
    Memcpy 0x20884300 (with_nul ''./var/lib/mysql/ib_buffer_pool.incomplete'') 42,
    Syscall NR_openat [Dir_fd, Ptr 0x20884300, Imm 0x241, Imm 0x1ff], Count, Save_res 1,
    Syscall NR_write [Reg 1, Write_buf, Imm 0x1000], Count, Syscall NR_write [Reg 1, Write_buf, Imm 0x60],
    Count, Syscall NR_close [Reg 1], Count]"

definition min_mysql_read_write_0_0_body2 :: "stmt list" where
  "min_mysql_read_write_0_0_body2 = [
    Memcpy 0x20885580 (with_nul ''./var/lib/mysql/ib_buffer_pool'') 31,
    Syscall NR_unlinkat [Dir_fd, Ptr 0x20885580, Imm 0], Count,
    Memcpy 0x20885640 (with_nul ''/var/lib/mysql/ib_buffer_pool.incomplete'') 41,
    Memcpy 0x20885680 (with_nul ''/var/lib/mysql/ib_buffer_pool'') 30,
    Syscall NR_renameat [Imm 0xffffff9c, Ptr 0x20885640, Imm 0xffffff9c, Ptr 0x20885680], Count]"

definition min_mysql_read_write_0_0 :: syz_prog where
  "min_mysql_read_write_0_0 = \<lparr>prog_name = ''min_mysql_read_write_0_0'', prog_family = Mysql_v2,
     subdirs = [''var/lib/mysql'', ''./var/lib/mysql/ib_buffer_pool''],
     filenames = [''./var/lib/mysql/ib_buffer_poo''], filesizes = [0],
     max_write_buffer = 4096, init_regs = replicate 2 (- 1),
     reg_body = [], dereg_body = [],
     body = min_mysql_read_write_0_0_body1 @ min_mysql_read_write_0_0_body2\<rparr>"

definition min_mysql_read_write_0_0_target where
  "min_mysql_read_write_0_0_target os_getenv os_inet_pton K = syz_target os_getenv os_inet_pton K min_mysql_read_write_0_0"

lemmas min_mysql_read_write_0_0_defs =
  min_mysql_read_write_0_0_def min_mysql_read_write_0_0_body1_def min_mysql_read_write_0_0_body2_def

lemma min_mysql_read_write_0_0_ok: "prog_ok min_mysql_read_write_0_0" "calls (body min_mysql_read_write_0_0) = 14"
  by (simp_all add: prog_ok_def min_mysql_read_write_0_0_defs prog_checks)

lemma min_mysql_read_write_0_0_misses: "setup_misses min_mysql_read_write_0_0" "filenames min_mysql_read_write_0_0 \<noteq> []" "reg_body min_mysql_read_write_0_0 = []" "num_regs min_mysql_read_write_0_0 < 2 ^ 32"
  by (simp_all add: setup_misses_def opened_def misses_def path_names_def min_mysql_read_write_0_0_defs prog_checks open_checks)

section \<open>min\_mysql\_lseek\_fcntl\_17\_0\<close>

definition min_mysql_lseek_fcntl_17_0_body1 :: "stmt list" where
  "min_mysql_lseek_fcntl_17_0_body1 = [
    Memcpy 0x2019e100 (with_nul ''./#ib_16384_1.dblwr'') 20,
    Syscall NR_openat [Dir_fd, Ptr 0x2019e100, Imm 0x42, Imm 0x1ff], Count, Save_res 0,
    Syscall NR_fcntl [Reg 0, Imm 4, Imm 0x10000], Count, Store 2 0x2019e140 (Imm 1), Store 2 0x2019e142 (Imm 0),
    Store 8 0x2019e148 (Imm 0), Store 8 0x2019e150 (Imm 0), Store 4 0x2019e158 (Imm 0),
    Syscall NR_fcntl [Reg 0, Imm 6, Ptr 0x2019e140], Count, Syscall NR_lseek [Reg 0, Imm 0, Imm 1], Count,
    Syscall NR_lseek [Reg 0, Imm 0, Imm 2], Count, Syscall NR_lseek [Reg 0, Imm 0, Imm 0], Count,
    Syscall NR_lseek [Reg 0, Imm 0, Imm 1], Count, Syscall NR_lseek [Reg 0, Imm 0, Imm 2], Count,
    Syscall NR_lseek [Reg 0, Imm 0, Imm 0], Count, Syscall NR_lseek [Reg 0, Imm 0, Imm 1], Count,
    Syscall NR_lseek [Reg 0, Imm 0, Imm 2], Count, Syscall NR_lseek [Reg 0, Imm 0, Imm 0], Count,
    Syscall NR_lseek [Reg 0, Imm 0, Imm 1], Count, Syscall NR_lseek [Reg 0, Imm 0, Imm 2], Count]"

definition min_mysql_lseek_fcntl_17_0_body2 :: "stmt list" where
  "min_mysql_lseek_fcntl_17_0_body2 = [
    Syscall NR_lseek [Reg 0, Imm 0, Imm 0], Count,
    Syscall NR_pwrite64 [Reg 0, Write_buf, Imm 0x4000, Imm 0x194000], Count,
    Syscall NR_lseek [Reg 0, Imm 0, Imm 1], Count, Syscall NR_lseek [Reg 0, Imm 0, Imm 2], Count,
    Syscall NR_lseek [Reg 0, Imm 0, Imm 0], Count]"

definition min_mysql_lseek_fcntl_17_0 :: syz_prog where
  "min_mysql_lseek_fcntl_17_0 = \<lparr>prog_name = ''min_mysql_lseek_fcntl_17_0'', prog_family = Mysql_v2,
     subdirs = [''.''],
     filenames = [''./#ib_16384_1.dblw''], filesizes = [1671168],
     max_write_buffer = 16384, init_regs = replicate 1 (- 1),
     reg_body = [], dereg_body = [],
     body = min_mysql_lseek_fcntl_17_0_body1 @ min_mysql_lseek_fcntl_17_0_body2\<rparr>"

definition min_mysql_lseek_fcntl_17_0_target where
  "min_mysql_lseek_fcntl_17_0_target os_getenv os_inet_pton K = syz_target os_getenv os_inet_pton K min_mysql_lseek_fcntl_17_0"

lemmas min_mysql_lseek_fcntl_17_0_defs =
  min_mysql_lseek_fcntl_17_0_def min_mysql_lseek_fcntl_17_0_body1_def min_mysql_lseek_fcntl_17_0_body2_def

lemma min_mysql_lseek_fcntl_17_0_ok: "prog_ok min_mysql_lseek_fcntl_17_0" "calls (body min_mysql_lseek_fcntl_17_0) = 19"
  by (simp_all add: prog_ok_def min_mysql_lseek_fcntl_17_0_defs prog_checks)

lemma min_mysql_lseek_fcntl_17_0_misses: "setup_misses min_mysql_lseek_fcntl_17_0" "filenames min_mysql_lseek_fcntl_17_0 \<noteq> []" "reg_body min_mysql_lseek_fcntl_17_0 = []" "num_regs min_mysql_lseek_fcntl_17_0 < 2 ^ 32"
  by (simp_all add: setup_misses_def opened_def misses_def path_names_def min_mysql_lseek_fcntl_17_0_defs prog_checks open_checks)

section \<open>min\_mysql\_lseek\_pwrite64\_26\_0\<close>

definition min_mysql_lseek_pwrite64_26_0_body1 :: "stmt list" where
  "min_mysql_lseek_pwrite64_26_0_body1 = [
    Memcpy 0x2019dec0 (with_nul ''./#ib_16384_0.dblwr'') 20,
    Syscall NR_openat [Dir_fd, Ptr 0x2019dec0, Imm 0x42, Imm 0x1ff], Count, Save_res 0,
    Syscall NR_fcntl [Reg 0, Imm 4, Imm 0x10000], Count, Store 2 0x2019df00 (Imm 1), Store 2 0x2019df02 (Imm 0),
    Store 8 0x2019df08 (Imm 0), Store 8 0x2019df10 (Imm 0), Store 4 0x2019df18 (Imm 0),
    Syscall NR_fcntl [Reg 0, Imm 6, Ptr 0x2019df00], Count, Syscall NR_lseek [Reg 0, Imm 0, Imm 1], Count,
    Syscall NR_lseek [Reg 0, Imm 0, Imm 2], Count, Syscall NR_lseek [Reg 0, Imm 0, Imm 0], Count,
    Syscall NR_lseek [Reg 0, Imm 0, Imm 1], Count, Syscall NR_lseek [Reg 0, Imm 0, Imm 2], Count,
    Syscall NR_lseek [Reg 0, Imm 0, Imm 0], Count, Syscall NR_lseek [Reg 0, Imm 0, Imm 1], Count,
    Syscall NR_lseek [Reg 0, Imm 0, Imm 2], Count, Syscall NR_lseek [Reg 0, Imm 0, Imm 0], Count,
    Syscall NR_lseek [Reg 0, Imm 0, Imm 1], Count, Syscall NR_lseek [Reg 0, Imm 0, Imm 2], Count]"

definition min_mysql_lseek_pwrite64_26_0_body2 :: "stmt list" where
  "min_mysql_lseek_pwrite64_26_0_body2 = [
    Syscall NR_lseek [Reg 0, Imm 0, Imm 0], Count,
    Syscall NR_pwrite64 [Reg 0, Write_buf, Imm 0x4000, Imm 0x70000], Count,
    Syscall NR_pwrite64 [Reg 0, Write_buf, Imm 0x4000, Imm 0x70000], Count,
    Syscall NR_lseek [Reg 0, Imm 0, Imm 1], Count, Syscall NR_lseek [Reg 0, Imm 0, Imm 2], Count,
    Syscall NR_lseek [Reg 0, Imm 0, Imm 0], Count]"

definition min_mysql_lseek_pwrite64_26_0 :: syz_prog where
  "min_mysql_lseek_pwrite64_26_0 = \<lparr>prog_name = ''min_mysql_lseek_pwrite64_26_0'', prog_family = Mysql_v2,
     subdirs = [''.''],
     filenames = [''./#ib_16384_0.dblw''], filesizes = [475136],
     max_write_buffer = 16384, init_regs = replicate 1 (- 1),
     reg_body = [], dereg_body = [],
     body = min_mysql_lseek_pwrite64_26_0_body1 @ min_mysql_lseek_pwrite64_26_0_body2\<rparr>"

definition min_mysql_lseek_pwrite64_26_0_target where
  "min_mysql_lseek_pwrite64_26_0_target os_getenv os_inet_pton K = syz_target os_getenv os_inet_pton K min_mysql_lseek_pwrite64_26_0"

lemmas min_mysql_lseek_pwrite64_26_0_defs =
  min_mysql_lseek_pwrite64_26_0_def min_mysql_lseek_pwrite64_26_0_body1_def
  min_mysql_lseek_pwrite64_26_0_body2_def

lemma min_mysql_lseek_pwrite64_26_0_ok: "prog_ok min_mysql_lseek_pwrite64_26_0" "calls (body min_mysql_lseek_pwrite64_26_0) = 20"
  by (simp_all add: prog_ok_def min_mysql_lseek_pwrite64_26_0_defs prog_checks)

lemma min_mysql_lseek_pwrite64_26_0_misses: "setup_misses min_mysql_lseek_pwrite64_26_0" "filenames min_mysql_lseek_pwrite64_26_0 \<noteq> []" "reg_body min_mysql_lseek_pwrite64_26_0 = []" "num_regs min_mysql_lseek_pwrite64_26_0 < 2 ^ 32"
  by (simp_all add: setup_misses_def opened_def misses_def path_names_def min_mysql_lseek_pwrite64_26_0_defs prog_checks open_checks)

section \<open>min\_mysql\_close\_openat\_0\_0\<close>

definition min_mysql_close_openat_0_0_body1 :: "stmt list" where
  "min_mysql_close_openat_0_0_body1 = [
    Memcpy 0x2012dd80 (with_nul ''./var/tmp/'') 11,
    Syscall NR_openat [Dir_fd, Ptr 0x2012dd80, Imm 0x484002, Imm 0x1ff], Count, Save_res 0,
    Syscall NR_dup [Reg 0], Count, Save_res 1, Syscall NR_close [Reg 0], Count,
    Syscall NR_fcntl [Reg 1, Imm 3, Imm 0], Count, Memcpy 0x2012ddc0 (with_nul ''./var/tmp/'') 11,
    Syscall NR_openat [Dir_fd, Ptr 0x2012ddc0, Imm 0x484002, Imm 0x1ff], Count, Save_res 2,
    Syscall NR_dup [Reg 2], Count, Save_res 3, Syscall NR_close [Reg 2], Count,
    Syscall NR_fcntl [Reg 3, Imm 3, Imm 0], Count, Memcpy 0x2012e0c0 (with_nul ''./var/tmp/'') 11,
    Syscall NR_openat [Dir_fd, Ptr 0x2012e0c0, Imm 0x484002, Imm 0x1ff], Count, Save_res 4,
    Syscall NR_dup [Reg 4], Count, Save_res 5, Syscall NR_close [Reg 4], Count, Syscall NR_close [Reg 5], Count,
    Memcpy 0x20131e00 (with_nul ''./var/tmp/'') 11,
    Syscall NR_openat [Dir_fd, Ptr 0x20131e00, Imm 0x484002, Imm 0x1ff], Count, Save_res 6,
    Syscall NR_dup [Reg 6], Count, Save_res 7, Syscall NR_close [Reg 6], Count]"

definition min_mysql_close_openat_0_0_body2 :: "stmt list" where
  "min_mysql_close_openat_0_0_body2 = [
    Syscall NR_fcntl [Reg 7, Imm 3, Imm 0], Count, Memcpy 0x201d1000 (with_nul ''./var/tmp/'') 11,
    Syscall NR_openat [Dir_fd, Ptr 0x201d1000, Imm 0x484002, Imm 0x1ff], Count, Save_res 8,
    Syscall NR_dup [Reg 8], Count, Save_res 9, Syscall NR_close [Reg 8], Count,
    Syscall NR_fcntl [Reg 9, Imm 3, Imm 0], Count]"

definition min_mysql_close_openat_0_0_regs :: "u64 list" where
  "min_mysql_close_openat_0_0_regs = replicate 10 (- 1)"

definition min_mysql_close_openat_0_0 :: syz_prog where
  "min_mysql_close_openat_0_0 = \<lparr>prog_name = ''min_mysql_close_openat_0_0'', prog_family = Mysql_v2,
     subdirs = [''var/tmp'', ''./var/tmp/''],
     filenames = [''./var/tmp''], filesizes = [0],
     max_write_buffer = 0, init_regs = min_mysql_close_openat_0_0_regs,
     reg_body = [], dereg_body = [],
     body = min_mysql_close_openat_0_0_body1 @ min_mysql_close_openat_0_0_body2\<rparr>"

definition min_mysql_close_openat_0_0_target where
  "min_mysql_close_openat_0_0_target os_getenv os_inet_pton K = syz_target os_getenv os_inet_pton K min_mysql_close_openat_0_0"

lemmas min_mysql_close_openat_0_0_defs =
  min_mysql_close_openat_0_0_def min_mysql_close_openat_0_0_regs_def min_mysql_close_openat_0_0_body1_def
  min_mysql_close_openat_0_0_body2_def

lemma min_mysql_close_openat_0_0_ok: "prog_ok min_mysql_close_openat_0_0" "calls (body min_mysql_close_openat_0_0) = 20"
  by (simp_all add: prog_ok_def min_mysql_close_openat_0_0_defs prog_checks)

section \<open>min\_mysql\_lseek\_pwrite64\_25\_0\<close>

definition min_mysql_lseek_pwrite64_25_0_body1 :: "stmt list" where
  "min_mysql_lseek_pwrite64_25_0_body1 = [
    Memcpy 0x2019dec0 (with_nul ''./#ib_16384_0.dblwr'') 20,
    Syscall NR_openat [Dir_fd, Ptr 0x2019dec0, Imm 0x42, Imm 0x1ff], Count, Save_res 0,
    Syscall NR_fcntl [Reg 0, Imm 4, Imm 0x10000], Count, Store 2 0x2019df00 (Imm 1), Store 2 0x2019df02 (Imm 0),
    Store 8 0x2019df08 (Imm 0), Store 8 0x2019df10 (Imm 0), Store 4 0x2019df18 (Imm 0),
    Syscall NR_fcntl [Reg 0, Imm 6, Ptr 0x2019df00], Count, Syscall NR_lseek [Reg 0, Imm 0, Imm 1], Count,
    Syscall NR_lseek [Reg 0, Imm 0, Imm 2], Count, Syscall NR_lseek [Reg 0, Imm 0, Imm 0], Count,
    Syscall NR_lseek [Reg 0, Imm 0, Imm 1], Count, Syscall NR_lseek [Reg 0, Imm 0, Imm 2], Count,
    Syscall NR_lseek [Reg 0, Imm 0, Imm 0], Count, Syscall NR_lseek [Reg 0, Imm 0, Imm 1], Count,
    Syscall NR_lseek [Reg 0, Imm 0, Imm 2], Count, Syscall NR_lseek [Reg 0, Imm 0, Imm 0], Count,
    Syscall NR_lseek [Reg 0, Imm 0, Imm 1], Count, Syscall NR_lseek [Reg 0, Imm 0, Imm 2], Count]"

definition min_mysql_lseek_pwrite64_25_0_body2 :: "stmt list" where
  "min_mysql_lseek_pwrite64_25_0_body2 = [
    Syscall NR_lseek [Reg 0, Imm 0, Imm 0], Count,
    Syscall NR_pwrite64 [Reg 0, Write_buf, Imm 0x4000, Imm 0x60000], Count,
    Syscall NR_pwrite64 [Reg 0, Write_buf, Imm 0x4000, Imm 0x30000], Count,
    Syscall NR_pwrite64 [Reg 0, Write_buf, Imm 0x4000, Imm 0x180000], Count,
    Syscall NR_lseek [Reg 0, Imm 0, Imm 1], Count, Syscall NR_lseek [Reg 0, Imm 0, Imm 2], Count,
    Syscall NR_lseek [Reg 0, Imm 0, Imm 0], Count]"

definition min_mysql_lseek_pwrite64_25_0 :: syz_prog where
  "min_mysql_lseek_pwrite64_25_0 = \<lparr>prog_name = ''min_mysql_lseek_pwrite64_25_0'', prog_family = Mysql_v2,
     subdirs = [''.''],
     filenames = [''./#ib_16384_0.dblw''], filesizes = [1589248],
     max_write_buffer = 16384, init_regs = replicate 1 (- 1),
     reg_body = [], dereg_body = [],
     body = min_mysql_lseek_pwrite64_25_0_body1 @ min_mysql_lseek_pwrite64_25_0_body2\<rparr>"

definition min_mysql_lseek_pwrite64_25_0_target where
  "min_mysql_lseek_pwrite64_25_0_target os_getenv os_inet_pton K = syz_target os_getenv os_inet_pton K min_mysql_lseek_pwrite64_25_0"

lemmas min_mysql_lseek_pwrite64_25_0_defs =
  min_mysql_lseek_pwrite64_25_0_def min_mysql_lseek_pwrite64_25_0_body1_def
  min_mysql_lseek_pwrite64_25_0_body2_def

lemma min_mysql_lseek_pwrite64_25_0_ok: "prog_ok min_mysql_lseek_pwrite64_25_0" "calls (body min_mysql_lseek_pwrite64_25_0) = 21"
  by (simp_all add: prog_ok_def min_mysql_lseek_pwrite64_25_0_defs prog_checks)

lemma min_mysql_lseek_pwrite64_25_0_misses: "setup_misses min_mysql_lseek_pwrite64_25_0" "filenames min_mysql_lseek_pwrite64_25_0 \<noteq> []" "reg_body min_mysql_lseek_pwrite64_25_0 = []" "num_regs min_mysql_lseek_pwrite64_25_0 < 2 ^ 32"
  by (simp_all add: setup_misses_def opened_def misses_def path_names_def min_mysql_lseek_pwrite64_25_0_defs prog_checks open_checks)

section \<open>min\_mysql\_newfstatat\_getdents64\_0\_0\<close>

definition min_mysql_newfstatat_getdents64_0_0_body1 :: "stmt list" where
  "min_mysql_newfstatat_getdents64_0_0_body1 = [
    Memcpy 0x2010c340 (with_nul ''./var/lib/mysql/performance_schema'') 35,
    Syscall NR_newfstatat [Dir_fd, Ptr 0x2010c340, Ptr 0x2010c380, Imm 0], Count,
    Memcpy 0x20113180 (with_nul ''./var/lib/mysql/performance_schema'') 35,
    Syscall NR_openat [Dir_fd, Ptr 0x20113180, Imm 0x84800, Imm 0x1ff], Count, Save_res 0,
    Memcpy 0x20113280 (with_nul ''./var/lib/mysql/performance_schema'') 35,
    Syscall NR_newfstatat [Dir_fd, Ptr 0x20113280, Ptr 0x201132c0, Imm 0], Count,
    Syscall NR_getdents64 [Reg 0, Ptr 0x20113340, Imm 0x8000], Count,
    Syscall NR_getdents64 [Reg 0, Ptr 0x2011d880, Imm 0x8000], Count]"

definition min_mysql_newfstatat_getdents64_0_0_body2 :: "stmt list" where
  "min_mysql_newfstatat_getdents64_0_0_body2 = [
    Syscall NR_close [Reg 0], Count, Memcpy 0x20154640 (with_nul ''./var/lib/mysql/performance_schema'') 35,
    Syscall NR_newfstatat [Dir_fd, Ptr 0x20154640, Ptr 0x20154680, Imm 0], Count,
    Memcpy 0x20154700 (with_nul ''./var/lib/mysql/performance_schema'') 35,
    Syscall NR_newfstatat [Dir_fd, Ptr 0x20154700, Ptr 0x20154740, Imm 0], Count,
    Memcpy 0x2019b540 (with_nul ''./var/lib/mysql/performance_schema'') 35,
    Syscall NR_newfstatat [Dir_fd, Ptr 0x2019b540, Ptr 0x2019b580, Imm 0], Count,
    Memcpy 0x2019b600 (with_nul ''./var/lib/mysql/performance_schema'') 35,
    Syscall NR_newfstatat [Dir_fd, Ptr 0x2019b600, Ptr 0x2019b640, Imm 0], Count]"

definition min_mysql_newfstatat_getdents64_0_0 :: syz_prog where
  "min_mysql_newfstatat_getdents64_0_0 = \<lparr>prog_name = ''min_mysql_newfstatat_getdents64_0_0'', prog_family = Mysql_v2,
     subdirs = [''var/lib/mysql'', ''./var/lib/mysql/performance_schema''],
     filenames = [''./var/lib/mysql/performance_schem''], filesizes = [0],
     max_write_buffer = 0, init_regs = replicate 1 (- 1),
     reg_body = [], dereg_body = [],
     body = min_mysql_newfstatat_getdents64_0_0_body1 @ min_mysql_newfstatat_getdents64_0_0_body2\<rparr>"

definition min_mysql_newfstatat_getdents64_0_0_target where
  "min_mysql_newfstatat_getdents64_0_0_target os_getenv os_inet_pton K = syz_target os_getenv os_inet_pton K min_mysql_newfstatat_getdents64_0_0"

lemmas min_mysql_newfstatat_getdents64_0_0_defs =
  min_mysql_newfstatat_getdents64_0_0_def min_mysql_newfstatat_getdents64_0_0_body1_def
  min_mysql_newfstatat_getdents64_0_0_body2_def

lemma min_mysql_newfstatat_getdents64_0_0_ok: "prog_ok min_mysql_newfstatat_getdents64_0_0" "calls (body min_mysql_newfstatat_getdents64_0_0) = 10"
  by (simp_all add: prog_ok_def min_mysql_newfstatat_getdents64_0_0_defs prog_checks)

lemma min_mysql_newfstatat_getdents64_0_0_misses: "setup_misses min_mysql_newfstatat_getdents64_0_0" "filenames min_mysql_newfstatat_getdents64_0_0 \<noteq> []" "reg_body min_mysql_newfstatat_getdents64_0_0 = []" "num_regs min_mysql_newfstatat_getdents64_0_0 < 2 ^ 32"
  by (simp_all add: setup_misses_def opened_def misses_def path_names_def min_mysql_newfstatat_getdents64_0_0_defs prog_checks open_checks)

end
