(* ===== verification/CSB_Progs_Mysql_v2b.thy ===== *)
theory CSB_Progs_Mysql_v2b
  imports CSB_Syz_Files
begin

text \<open>
  Bodies of generated targets of bench/targets/mysql\_v2, statement by statement in the order of the
  files syz/<name>.h, and the targets made of them (the files <name>.h). Each passes the check.
\<close>

section \<open>min\_mysql\_lseek\_pwrite64\_20\_0\<close>

definition min_mysql_lseek_pwrite64_20_0_body1 :: "stmt list" where
  "min_mysql_lseek_pwrite64_20_0_body1 = [
    Memcpy 0x2019dec0 (with_nul ''./#ib_16384_0.dblwr'') 20,
    Syscall NR_openat [Dir_fd, Ptr 0x2019dec0, Imm 0x42, Imm 0x1ff], Count, Save_res 0,
    Syscall NR_fcntl [Reg 0, Imm 4, Imm 0x10000], Count, Store 2 0x2019df00 (Imm 1), Store 2 0x2019df02 (Imm 0),
    Store 8 0x2019df08 (Imm 0), Store 8 0x2019df10 (Imm 0), Store 4 0x2019df18 (Imm 0),
    Syscall NR_fcntl [Reg 0, Imm 6, Ptr 0x2019df00], Count, Syscall NR_lseek [Reg 0, Imm 0, Imm 1], Count,
    Syscall NR_lseek [Reg 0, Imm 0, Imm 2], Count, Syscall NR_lseek [Reg 0, Imm 0, Imm 0], Count,
    Syscall NR_lseek [Reg 0, Imm 0, Imm 1], Count, Syscall NR_lseek [Reg 0, Imm 0, Imm 2], Count,
    Syscall NR_lseek [Reg 0, Imm 0, Imm 0], Count, Syscall NR_lseek [Reg 0, Imm 0, Imm 1], Count,
    Syscall NR_lseek [Reg 0, Imm 0, Imm 2], Count, Syscall NR_lseek [Reg 0, Imm 0, Imm 0], Count,
    Syscall NR_lseek [Reg 0, Imm 0, Imm 1], Count, Syscall NR_lseek [Reg 0, Imm 0, Imm 2], Count]"

definition min_mysql_lseek_pwrite64_20_0_body2 :: "stmt list" where
  "min_mysql_lseek_pwrite64_20_0_body2 = [
    Syscall NR_lseek [Reg 0, Imm 0, Imm 0], Count,
    Syscall NR_pwrite64 [Reg 0, Write_buf, Imm 0x4000, Imm 0x150000], Count,
    Syscall NR_pwrite64 [Reg 0, Write_buf, Imm 0x4000, Imm 0x30000], Count,
    Syscall NR_pwrite64 [Reg 0, Write_buf, Imm 0x4000, Imm 0x100000], Count,
    Syscall NR_pwrite64 [Reg 0, Write_buf, Imm 0x4000, Imm 0x140000], Count,
    Syscall NR_pwrite64 [Reg 0, Write_buf, Imm 0x4000, Imm 0x180000], Count,
    Syscall NR_pwrite64 [Reg 0, Write_buf, Imm 0x4000, Imm 0x160000], Count,
    Syscall NR_pwrite64 [Reg 0, Write_buf, Imm 0x4000, Imm 0xd0000], Count,
    Syscall NR_pwrite64 [Reg 0, Write_buf, Imm 0x4000, Imm 0x170000], Count,
    Syscall NR_pwrite64 [Reg 0, Write_buf, Imm 0x4000, Imm 0x180000], Count,
    Syscall NR_pwrite64 [Reg 0, Write_buf, Imm 0x4000, Imm 0x180000], Count,
    Syscall NR_pwrite64 [Reg 0, Write_buf, Imm 0x4000, Imm 0xc0000], Count,
    Syscall NR_pwrite64 [Reg 0, Write_buf, Imm 0x4000, Imm 0x10000], Count]"

definition min_mysql_lseek_pwrite64_20_0_body3 :: "stmt list" where
  "min_mysql_lseek_pwrite64_20_0_body3 = [
    Syscall NR_pwrite64 [Reg 0, Write_buf, Imm 0x4000, Imm 0x50000], Count,
    Syscall NR_pwrite64 [Reg 0, Write_buf, Imm 0x4000, Imm 0xc0000], Count,
    Syscall NR_lseek [Reg 0, Imm 0, Imm 1], Count, Syscall NR_lseek [Reg 0, Imm 0, Imm 2], Count,
    Syscall NR_lseek [Reg 0, Imm 0, Imm 0], Count]"

definition min_mysql_lseek_pwrite64_20_0 :: syz_prog where
  "min_mysql_lseek_pwrite64_20_0 = \<lparr>prog_name = ''min_mysql_lseek_pwrite64_20_0'', prog_family = Mysql_v2,
     subdirs = [''.''],
     filenames = [''./#ib_16384_0.dblw''], filesizes = [1589248],
     max_write_buffer = 16384, init_regs = replicate 1 (- 1),
     reg_body = [], dereg_body = [],
     body = min_mysql_lseek_pwrite64_20_0_body1 @ min_mysql_lseek_pwrite64_20_0_body2 @
       min_mysql_lseek_pwrite64_20_0_body3\<rparr>"

definition min_mysql_lseek_pwrite64_20_0_target where
  "min_mysql_lseek_pwrite64_20_0_target os_getenv os_inet_pton K = syz_target os_getenv os_inet_pton K min_mysql_lseek_pwrite64_20_0"

lemmas min_mysql_lseek_pwrite64_20_0_defs =
  min_mysql_lseek_pwrite64_20_0_def min_mysql_lseek_pwrite64_20_0_body1_def
  min_mysql_lseek_pwrite64_20_0_body2_def min_mysql_lseek_pwrite64_20_0_body3_def

lemma min_mysql_lseek_pwrite64_20_0_ok: "prog_ok min_mysql_lseek_pwrite64_20_0" "calls (body min_mysql_lseek_pwrite64_20_0) = 32"
  by (simp_all add: prog_ok_def min_mysql_lseek_pwrite64_20_0_defs prog_checks)

lemma min_mysql_lseek_pwrite64_20_0_misses: "setup_misses min_mysql_lseek_pwrite64_20_0" "filenames min_mysql_lseek_pwrite64_20_0 \<noteq> []" "reg_body min_mysql_lseek_pwrite64_20_0 = []" "num_regs min_mysql_lseek_pwrite64_20_0 < 2 ^ 32"
  by (simp_all add: setup_misses_def opened_def misses_def path_names_def min_mysql_lseek_pwrite64_20_0_defs prog_checks open_checks)

section \<open>min\_mysql\_pwrite64\_lseek\_3\_0\<close>

definition min_mysql_pwrite64_lseek_3_0_body1 :: "stmt list" where
  "min_mysql_pwrite64_lseek_3_0_body1 = [
    Memcpy 0x2019dec0 (with_nul ''./#ib_16384_0.dblwr'') 20,
    Syscall NR_openat [Dir_fd, Ptr 0x2019dec0, Imm 0x42, Imm 0x1ff], Count, Save_res 0,
    Syscall NR_fcntl [Reg 0, Imm 4, Imm 0x10000], Count, Store 2 0x2019df00 (Imm 1), Store 2 0x2019df02 (Imm 0),
    Store 8 0x2019df08 (Imm 0), Store 8 0x2019df10 (Imm 0), Store 4 0x2019df18 (Imm 0),
    Syscall NR_fcntl [Reg 0, Imm 6, Ptr 0x2019df00], Count, Syscall NR_lseek [Reg 0, Imm 0, Imm 1], Count,
    Syscall NR_lseek [Reg 0, Imm 0, Imm 2], Count, Syscall NR_lseek [Reg 0, Imm 0, Imm 0], Count,
    Syscall NR_lseek [Reg 0, Imm 0, Imm 1], Count, Syscall NR_lseek [Reg 0, Imm 0, Imm 2], Count,
    Syscall NR_lseek [Reg 0, Imm 0, Imm 0], Count, Syscall NR_lseek [Reg 0, Imm 0, Imm 1], Count,
    Syscall NR_lseek [Reg 0, Imm 0, Imm 2], Count, Syscall NR_lseek [Reg 0, Imm 0, Imm 0], Count,
    Syscall NR_lseek [Reg 0, Imm 0, Imm 1], Count, Syscall NR_lseek [Reg 0, Imm 0, Imm 2], Count]"

definition min_mysql_pwrite64_lseek_3_0_body2 :: "stmt list" where
  "min_mysql_pwrite64_lseek_3_0_body2 = [
    Syscall NR_lseek [Reg 0, Imm 0, Imm 0], Count,
    Syscall NR_pwrite64 [Reg 0, Write_buf, Imm 0x4000, Imm 0x70000], Count,
    Syscall NR_pwrite64 [Reg 0, Write_buf, Imm 0x4000, Imm 0xd0000], Count,
    Syscall NR_pwrite64 [Reg 0, Write_buf, Imm 0x4000, Imm 0x160000], Count,
    Syscall NR_pwrite64 [Reg 0, Write_buf, Imm 0x4000, Imm 0x150000], Count,
    Syscall NR_pwrite64 [Reg 0, Write_buf, Imm 0x4000, Imm 0x40000], Count,
    Syscall NR_pwrite64 [Reg 0, Write_buf, Imm 0x4000, Imm 0x150000], Count,
    Syscall NR_pwrite64 [Reg 0, Write_buf, Imm 0x4000, Imm 0x80000], Count,
    Syscall NR_pwrite64 [Reg 0, Write_buf, Imm 0x4000, Imm 0x120000], Count,
    Syscall NR_pwrite64 [Reg 0, Write_buf, Imm 0x4000, Imm 0x160000], Count,
    Syscall NR_pwrite64 [Reg 0, Write_buf, Imm 0x4000, Imm 0x40000], Count,
    Syscall NR_pwrite64 [Reg 0, Write_buf, Imm 0x4000, Imm 0x30000], Count,
    Syscall NR_pwrite64 [Reg 0, Write_buf, Imm 0x4000, Imm 0x20000], Count]"

definition min_mysql_pwrite64_lseek_3_0_body3 :: "stmt list" where
  "min_mysql_pwrite64_lseek_3_0_body3 = [
    Syscall NR_pwrite64 [Reg 0, Write_buf, Imm 0x4000, Imm 0x180000], Count,
    Syscall NR_pwrite64 [Reg 0, Write_buf, Imm 0x4000, Imm 0xc0000], Count,
    Syscall NR_pwrite64 [Reg 0, Write_buf, Imm 0x4000, Imm 0x90000], Count,
    Syscall NR_pwrite64 [Reg 0, Write_buf, Imm 0x4000, Imm 0x20000], Count,
    Syscall NR_pwrite64 [Reg 0, Write_buf, Imm 0x4000, Imm 0x160000], Count,
    Syscall NR_lseek [Reg 0, Imm 0, Imm 1], Count, Syscall NR_lseek [Reg 0, Imm 0, Imm 2], Count,
    Syscall NR_lseek [Reg 0, Imm 0, Imm 0], Count]"

definition min_mysql_pwrite64_lseek_3_0 :: syz_prog where
  "min_mysql_pwrite64_lseek_3_0 = \<lparr>prog_name = ''min_mysql_pwrite64_lseek_3_0'', prog_family = Mysql_v2,
     subdirs = [''.''],
     filenames = [''./#ib_16384_0.dblw''], filesizes = [1589248],
     max_write_buffer = 16384, init_regs = replicate 1 (- 1),
     reg_body = [], dereg_body = [],
     body = min_mysql_pwrite64_lseek_3_0_body1 @ min_mysql_pwrite64_lseek_3_0_body2 @
       min_mysql_pwrite64_lseek_3_0_body3\<rparr>"

definition min_mysql_pwrite64_lseek_3_0_target where
  "min_mysql_pwrite64_lseek_3_0_target os_getenv os_inet_pton K = syz_target os_getenv os_inet_pton K min_mysql_pwrite64_lseek_3_0"

lemmas min_mysql_pwrite64_lseek_3_0_defs =
  min_mysql_pwrite64_lseek_3_0_def min_mysql_pwrite64_lseek_3_0_body1_def
  min_mysql_pwrite64_lseek_3_0_body2_def min_mysql_pwrite64_lseek_3_0_body3_def

lemma min_mysql_pwrite64_lseek_3_0_ok: "prog_ok min_mysql_pwrite64_lseek_3_0" "calls (body min_mysql_pwrite64_lseek_3_0) = 35"
  by (simp_all add: prog_ok_def min_mysql_pwrite64_lseek_3_0_defs prog_checks)

lemma min_mysql_pwrite64_lseek_3_0_misses: "setup_misses min_mysql_pwrite64_lseek_3_0" "filenames min_mysql_pwrite64_lseek_3_0 \<noteq> []" "reg_body min_mysql_pwrite64_lseek_3_0 = []" "num_regs min_mysql_pwrite64_lseek_3_0 < 2 ^ 32"
  by (simp_all add: setup_misses_def opened_def misses_def path_names_def min_mysql_pwrite64_lseek_3_0_defs prog_checks open_checks)

section \<open>min\_mysql\_pwrite64\_fcntl\_0\_0\<close>

definition min_mysql_pwrite64_fcntl_0_0_body1 :: "stmt list" where
  "min_mysql_pwrite64_fcntl_0_0_body1 = [
    Memcpy 0x20b2dec0 (with_nul ''./ibtmp1'') 9,
    Syscall NR_newfstatat [Dir_fd, Ptr 0x20b2dec0, Ptr 0x20b2df00, Imm 0], Count,
    Memcpy 0x20b2df80 (with_nul ''./ibtmp1'') 9,
    Syscall NR_newfstatat [Dir_fd, Ptr 0x20b2df80, Ptr 0x20b2dfc0, Imm 0], Count,
    Memcpy 0x20b2e040 (with_nul ''./ibtmp1'') 9,
    Syscall NR_openat [Dir_fd, Ptr 0x20b2e040, Imm 0x42, Imm 0x1ff], Count, Save_res 0,
    Syscall NR_fcntl [Reg 0, Imm 4, Imm 0x10000], Count, Store 2 0x20b2e080 (Imm 1), Store 2 0x20b2e082 (Imm 0),
    Store 8 0x20b2e088 (Imm 0), Store 8 0x20b2e090 (Imm 0), Store 4 0x20b2e098 (Imm 0),
    Syscall NR_fcntl [Reg 0, Imm 6, Ptr 0x20b2e080], Count,
    Syscall NR_pwrite64 [Reg 0, Write_buf, Imm 0x100000, Imm 0], Count]"

definition min_mysql_pwrite64_fcntl_0_0_body2 :: "stmt list" where
  "min_mysql_pwrite64_fcntl_0_0_body2 = [
    Syscall NR_pwrite64 [Reg 0, Write_buf, Imm 0x100000, Imm 0x100000], Count,
    Syscall NR_pwrite64 [Reg 0, Write_buf, Imm 0x100000, Imm 0x200000], Count,
    Syscall NR_pwrite64 [Reg 0, Write_buf, Imm 0x100000, Imm 0x300000], Count,
    Syscall NR_pwrite64 [Reg 0, Write_buf, Imm 0x100000, Imm 0x400000], Count,
    Syscall NR_pwrite64 [Reg 0, Write_buf, Imm 0x100000, Imm 0x500000], Count,
    Syscall NR_pwrite64 [Reg 0, Write_buf, Imm 0x100000, Imm 0x600000], Count,
    Syscall NR_pwrite64 [Reg 0, Write_buf, Imm 0x100000, Imm 0x700000], Count,
    Syscall NR_pwrite64 [Reg 0, Write_buf, Imm 0x100000, Imm 0x800000], Count,
    Syscall NR_pwrite64 [Reg 0, Write_buf, Imm 0x100000, Imm 0x900000], Count,
    Syscall NR_pwrite64 [Reg 0, Write_buf, Imm 0x100000, Imm 0xa00000], Count,
    Syscall NR_pwrite64 [Reg 0, Write_buf, Imm 0x100000, Imm 0xb00000], Count, Syscall NR_fsync [Reg 0], Count,
    Syscall NR_ioctl [Reg 0, Imm 0x40049502, Ptr 0x20cafc40], Count]"

definition min_mysql_pwrite64_fcntl_0_0_body3 :: "stmt list" where
  "min_mysql_pwrite64_fcntl_0_0_body3 = [
    Syscall NR_close [Reg 0], Count, Memcpy 0x20cafc80 (with_nul ''./ibtmp1'') 9,
    Syscall NR_newfstatat [Dir_fd, Ptr 0x20cafc80, Ptr 0x20cafcc0, Imm 0], Count,
    Memcpy 0x20cafd40 (with_nul ''./ibtmp1'') 9,
    Syscall NR_openat [Dir_fd, Ptr 0x20cafd40, Imm 0x42, Imm 0x1ff], Count, Save_res 1,
    Syscall NR_fcntl [Reg 1, Imm 4, Imm 0x10000], Count, Store 2 0x20cafd80 (Imm 1), Store 2 0x20cafd82 (Imm 0),
    Store 8 0x20cafd88 (Imm 0), Store 8 0x20cafd90 (Imm 0), Store 4 0x20cafd98 (Imm 0),
    Syscall NR_fcntl [Reg 1, Imm 6, Ptr 0x20cafd80], Count]"

definition min_mysql_pwrite64_fcntl_0_0 :: syz_prog where
  "min_mysql_pwrite64_fcntl_0_0 = \<lparr>prog_name = ''min_mysql_pwrite64_fcntl_0_0'', prog_family = Mysql_v2,
     subdirs = [''.''],
     filenames = [''./ibtmp''], filesizes = [12582912],
     max_write_buffer = 1048576, init_regs = replicate 2 (- 1),
     reg_body = [], dereg_body = [],
     body = min_mysql_pwrite64_fcntl_0_0_body1 @ min_mysql_pwrite64_fcntl_0_0_body2 @
       min_mysql_pwrite64_fcntl_0_0_body3\<rparr>"

definition min_mysql_pwrite64_fcntl_0_0_target where
  "min_mysql_pwrite64_fcntl_0_0_target os_getenv os_inet_pton K = syz_target os_getenv os_inet_pton K min_mysql_pwrite64_fcntl_0_0"

lemmas min_mysql_pwrite64_fcntl_0_0_defs =
  min_mysql_pwrite64_fcntl_0_0_def min_mysql_pwrite64_fcntl_0_0_body1_def
  min_mysql_pwrite64_fcntl_0_0_body2_def min_mysql_pwrite64_fcntl_0_0_body3_def

lemma min_mysql_pwrite64_fcntl_0_0_ok: "prog_ok min_mysql_pwrite64_fcntl_0_0" "calls (body min_mysql_pwrite64_fcntl_0_0) = 24"
  by (simp_all add: prog_ok_def min_mysql_pwrite64_fcntl_0_0_defs prog_checks)

lemma min_mysql_pwrite64_fcntl_0_0_misses: "setup_misses min_mysql_pwrite64_fcntl_0_0" "filenames min_mysql_pwrite64_fcntl_0_0 \<noteq> []" "reg_body min_mysql_pwrite64_fcntl_0_0 = []" "num_regs min_mysql_pwrite64_fcntl_0_0 < 2 ^ 32"
  by (simp_all add: setup_misses_def opened_def misses_def path_names_def min_mysql_pwrite64_fcntl_0_0_defs prog_checks open_checks)

section \<open>min\_mysql\_pread64\_lseek\_0\_0\<close>

definition min_mysql_pread64_lseek_0_0_body1 :: "stmt list" where
  "min_mysql_pread64_lseek_0_0_body1 = [
    Memcpy 0x2010ba00 (with_nul ''./ibdata1'') 10,
    Syscall NR_newfstatat [Dir_fd, Ptr 0x2010ba00, Ptr 0x2010ba40, Imm 0], Count,
    Memcpy 0x2010bac0 (with_nul ''./ibdata1'') 10,
    Syscall NR_openat [Dir_fd, Ptr 0x2010bac0, Imm 0x42, Imm 0x1ff], Count, Save_res 0,
    Syscall NR_close [Reg 0], Count, Memcpy 0x20133f40 (with_nul ''./ibdata1'') 10,
    Syscall NR_openat [Dir_fd, Ptr 0x20133f40, Imm 0x42, Imm 0x1ff], Count, Save_res 1,
    Syscall NR_fcntl [Reg 1, Imm 4, Imm 0x10000], Count, Store 2 0x20133f80 (Imm 1), Store 2 0x20133f82 (Imm 0),
    Store 8 0x20133f88 (Imm 0), Store 8 0x20133f90 (Imm 0), Store 4 0x20133f98 (Imm 0),
    Syscall NR_fcntl [Reg 1, Imm 6, Ptr 0x20133f80], Count, Syscall NR_lseek [Reg 1, Imm 0, Imm 1], Count,
    Syscall NR_lseek [Reg 1, Imm 0, Imm 2], Count, Syscall NR_lseek [Reg 1, Imm 0, Imm 0], Count]"

definition min_mysql_pread64_lseek_0_0_body2 :: "stmt list" where
  "min_mysql_pread64_lseek_0_0_body2 = [
    Syscall NR_ioctl [Reg 1, Imm 0x40049502, Ptr 0x20134000], Count,
    Syscall NR_pread64 [Reg 1, Ptr 0x201341c0, Imm 0x10000, Imm 0], Count, Syscall NR_close [Reg 1], Count,
    Memcpy 0x2019dc80 (with_nul ''./ibdata1'') 10,
    Syscall NR_newfstatat [Dir_fd, Ptr 0x2019dc80, Ptr 0x2019dcc0, Imm 0], Count,
    Memcpy 0x201a7480 (with_nul ''./ibdata1'') 10,
    Syscall NR_openat [Dir_fd, Ptr 0x201a7480, Imm 0x40, Imm 0x1ff], Count, Save_res 2,
    Syscall NR_lseek [Reg 2, Imm 0, Imm 1], Count, Syscall NR_lseek [Reg 2, Imm 0, Imm 2], Count,
    Syscall NR_lseek [Reg 2, Imm 0, Imm 0], Count, Syscall NR_pread64 [Reg 2, Ptr 0x201a7500, Imm 0x400, Imm 0],
    Count, Syscall NR_pread64 [Reg 2, Ptr 0x201a7900, Imm 0x4000, Imm 0], Count, Syscall NR_close [Reg 2],
    Count, Memcpy 0x201ab900 (with_nul ''./ibdata1'') 10,
    Syscall NR_openat [Dir_fd, Ptr 0x201ab900, Imm 0x42, Imm 0x1ff], Count, Save_res 3]"

definition min_mysql_pread64_lseek_0_0_body3 :: "stmt list" where
  "min_mysql_pread64_lseek_0_0_body3 = [
    Syscall NR_fcntl [Reg 3, Imm 4, Imm 0x10000], Count, Store 2 0x201ab940 (Imm 1), Store 2 0x201ab942 (Imm 0),
    Store 8 0x201ab948 (Imm 0), Store 8 0x201ab950 (Imm 0), Store 4 0x201ab958 (Imm 0),
    Syscall NR_fcntl [Reg 3, Imm 6, Ptr 0x201ab940], Count,
    Syscall NR_pread64 [Reg 3, Ptr 0x201ab9c0, Imm 0x4000, Imm 0x14000], Count,
    Syscall NR_pread64 [Reg 3, Ptr 0x201d1040, Imm 0x4000, Imm 0x1c000], Count,
    Syscall NR_pread64 [Reg 3, Ptr 0x201d5040, Imm 0x4000, Imm 0xc000], Count,
    Syscall NR_pread64 [Reg 3, Ptr 0x201d9040, Imm 0x4000, Imm 0x8000], Count,
    Syscall NR_pread64 [Reg 3, Ptr 0x201dd040, Imm 0x4000, Imm 0x10000], Count,
    Syscall NR_pread64 [Reg 3, Ptr 0x201e1c80, Imm 0x4000, Imm 0x18000], Count,
    Syscall NR_pread64 [Reg 3, Ptr 0x201e5c80, Imm 0x4000, Imm 0x14000], Count,
    Syscall NR_pread64 [Reg 3, Ptr 0x20cdbc40, Imm 0x4000, Imm 0], Count]"

definition min_mysql_pread64_lseek_0_0 :: syz_prog where
  "min_mysql_pread64_lseek_0_0 = \<lparr>prog_name = ''min_mysql_pread64_lseek_0_0'', prog_family = Mysql_v2,
     subdirs = [''.''],
     filenames = [''./ibdata''], filesizes = [131072],
     max_write_buffer = 0, init_regs = replicate 4 (- 1),
     reg_body = [], dereg_body = [],
     body = min_mysql_pread64_lseek_0_0_body1 @ min_mysql_pread64_lseek_0_0_body2 @
       min_mysql_pread64_lseek_0_0_body3\<rparr>"

definition min_mysql_pread64_lseek_0_0_target where
  "min_mysql_pread64_lseek_0_0_target os_getenv os_inet_pton K = syz_target os_getenv os_inet_pton K min_mysql_pread64_lseek_0_0"

lemmas min_mysql_pread64_lseek_0_0_defs =
  min_mysql_pread64_lseek_0_0_def min_mysql_pread64_lseek_0_0_body1_def
  min_mysql_pread64_lseek_0_0_body2_def min_mysql_pread64_lseek_0_0_body3_def

lemma min_mysql_pread64_lseek_0_0_ok: "prog_ok min_mysql_pread64_lseek_0_0" "calls (body min_mysql_pread64_lseek_0_0) = 31"
  by (simp_all add: prog_ok_def min_mysql_pread64_lseek_0_0_defs prog_checks)

lemma min_mysql_pread64_lseek_0_0_misses: "setup_misses min_mysql_pread64_lseek_0_0" "filenames min_mysql_pread64_lseek_0_0 \<noteq> []" "reg_body min_mysql_pread64_lseek_0_0 = []" "num_regs min_mysql_pread64_lseek_0_0 < 2 ^ 32"
  by (simp_all add: setup_misses_def opened_def misses_def path_names_def min_mysql_pread64_lseek_0_0_defs prog_checks open_checks)

section \<open>min\_mysql\_faccessat2\_missing\_1\_0\<close>

definition min_mysql_faccessat2_missing_1_0_body1 :: "stmt list" where
  "min_mysql_faccessat2_missing_1_0_body1 = [
    Memcpy 0x203c4d80 (with_nul ''./var/lib/mysql/sbtest/'') 24,
    Syscall NR_faccessat2 [Dir_fd, Ptr 0x203c4d80, Imm 0, Imm 0x200], Count,
    Memcpy 0x2049da40 (with_nul ''./var/lib/mysql/sbtest/'') 24,
    Syscall NR_faccessat2 [Dir_fd, Ptr 0x2049da40, Imm 0, Imm 0x200], Count,
    Memcpy 0x207338c0 (with_nul ''./var/lib/mysql/sbtest/'') 24,
    Syscall NR_faccessat2 [Dir_fd, Ptr 0x207338c0, Imm 0, Imm 0x200], Count,
    Memcpy 0x207a4d00 (with_nul ''./var/lib/mysql/sbtest/'') 24,
    Syscall NR_faccessat2 [Dir_fd, Ptr 0x207a4d00, Imm 0, Imm 0x200], Count,
    Memcpy 0x20857fc0 (with_nul ''./var/lib/mysql/sbtest/'') 24,
    Syscall NR_faccessat2 [Dir_fd, Ptr 0x20857fc0, Imm 0, Imm 0x200], Count,
    Memcpy 0x208c2780 (with_nul ''./var/lib/mysql/sbtest/'') 24,
    Syscall NR_faccessat2 [Dir_fd, Ptr 0x208c2780, Imm 0, Imm 0x200], Count,
    Memcpy 0x209794c0 (with_nul ''./var/lib/mysql/sbtest/'') 24,
    Syscall NR_faccessat2 [Dir_fd, Ptr 0x209794c0, Imm 0, Imm 0x200], Count,
    Memcpy 0x209e3300 (with_nul ''./var/lib/mysql/sbtest/'') 24,
    Syscall NR_faccessat2 [Dir_fd, Ptr 0x209e3300, Imm 0, Imm 0x200], Count,
    Memcpy 0x20a9ed40 (with_nul ''./var/lib/mysql/sbtest/'') 24,
    Syscall NR_faccessat2 [Dir_fd, Ptr 0x20a9ed40, Imm 0, Imm 0x200], Count,
    Memcpy 0x20b09380 (with_nul ''./var/lib/mysql/sbtest/'') 24,
    Syscall NR_faccessat2 [Dir_fd, Ptr 0x20b09380, Imm 0, Imm 0x200], Count,
    Memcpy 0x20bc2bc0 (with_nul ''./var/lib/mysql/sbtest/'') 24,
    Syscall NR_faccessat2 [Dir_fd, Ptr 0x20bc2bc0, Imm 0, Imm 0x200], Count]"

definition min_mysql_faccessat2_missing_1_0_body2 :: "stmt list" where
  "min_mysql_faccessat2_missing_1_0_body2 = [
    Memcpy 0x20c2fe00 (with_nul ''./var/lib/mysql/sbtest/'') 24,
    Syscall NR_faccessat2 [Dir_fd, Ptr 0x20c2fe00, Imm 0, Imm 0x200], Count,
    Memcpy 0x20ce7640 (with_nul ''./var/lib/mysql/sbtest/'') 24,
    Syscall NR_faccessat2 [Dir_fd, Ptr 0x20ce7640, Imm 0, Imm 0x200], Count,
    Memcpy 0x20d51280 (with_nul ''./var/lib/mysql/sbtest/'') 24,
    Syscall NR_faccessat2 [Dir_fd, Ptr 0x20d51280, Imm 0, Imm 0x200], Count,
    Memcpy 0x20e0c0c0 (with_nul ''./var/lib/mysql/sbtest/'') 24,
    Syscall NR_faccessat2 [Dir_fd, Ptr 0x20e0c0c0, Imm 0, Imm 0x200], Count,
    Memcpy 0x20e76900 (with_nul ''./var/lib/mysql/sbtest/'') 24,
    Syscall NR_faccessat2 [Dir_fd, Ptr 0x20e76900, Imm 0, Imm 0x200], Count,
    Memcpy 0x20f327c0 (with_nul ''./var/lib/mysql/sbtest/'') 24,
    Syscall NR_faccessat2 [Dir_fd, Ptr 0x20f327c0, Imm 0, Imm 0x200], Count,
    Memcpy 0x20fa2400 (with_nul ''./var/lib/mysql/sbtest/'') 24,
    Syscall NR_faccessat2 [Dir_fd, Ptr 0x20fa2400, Imm 0, Imm 0x200], Count,
    Memcpy 0x200624c0 (with_nul ''./var/lib/mysql/sbtest/'') 24,
    Syscall NR_faccessat2 [Dir_fd, Ptr 0x200624c0, Imm 0, Imm 0x200], Count,
    Memcpy 0x200cd280 (with_nul ''./var/lib/mysql/sbtest/'') 24,
    Syscall NR_faccessat2 [Dir_fd, Ptr 0x200cd280, Imm 0, Imm 0x200], Count,
    Memcpy 0x20183c40 (with_nul ''./var/lib/mysql/sbtest/'') 24,
    Syscall NR_faccessat2 [Dir_fd, Ptr 0x20183c40, Imm 0, Imm 0x200], Count,
    Memcpy 0x201ec880 (with_nul ''./var/lib/mysql/sbtest/'') 24,
    Syscall NR_faccessat2 [Dir_fd, Ptr 0x201ec880, Imm 0, Imm 0x200], Count,
    Memcpy 0x202a6500 (with_nul ''./var/lib/mysql/sbtest/'') 24,
    Syscall NR_faccessat2 [Dir_fd, Ptr 0x202a6500, Imm 0, Imm 0x200], Count]"

definition min_mysql_faccessat2_missing_1_0_body3 :: "stmt list" where
  "min_mysql_faccessat2_missing_1_0_body3 = [
    Memcpy 0x20312780 (with_nul ''./var/lib/mysql/sbtest/'') 24,
    Syscall NR_faccessat2 [Dir_fd, Ptr 0x20312780, Imm 0, Imm 0x200], Count,
    Memcpy 0x203c8180 (with_nul ''./var/lib/mysql/sbtest/'') 24,
    Syscall NR_faccessat2 [Dir_fd, Ptr 0x203c8180, Imm 0, Imm 0x200], Count,
    Memcpy 0x20435200 (with_nul ''./var/lib/mysql/sbtest/'') 24,
    Syscall NR_faccessat2 [Dir_fd, Ptr 0x20435200, Imm 0, Imm 0x200], Count,
    Memcpy 0x204ed280 (with_nul ''./var/lib/mysql/sbtest/'') 24,
    Syscall NR_faccessat2 [Dir_fd, Ptr 0x204ed280, Imm 0, Imm 0x200], Count,
    Memcpy 0x20557c80 (with_nul ''./var/lib/mysql/sbtest/'') 24,
    Syscall NR_faccessat2 [Dir_fd, Ptr 0x20557c80, Imm 0, Imm 0x200], Count,
    Memcpy 0x20615c00 (with_nul ''./var/lib/mysql/sbtest/'') 24,
    Syscall NR_faccessat2 [Dir_fd, Ptr 0x20615c00, Imm 0, Imm 0x200], Count,
    Memcpy 0x20683a00 (with_nul ''./var/lib/mysql/sbtest/'') 24,
    Syscall NR_faccessat2 [Dir_fd, Ptr 0x20683a00, Imm 0, Imm 0x200], Count,
    Memcpy 0x207390c0 (with_nul ''./var/lib/mysql/sbtest/'') 24,
    Syscall NR_faccessat2 [Dir_fd, Ptr 0x207390c0, Imm 0, Imm 0x200], Count,
    Memcpy 0x207a3700 (with_nul ''./var/lib/mysql/sbtest/'') 24,
    Syscall NR_faccessat2 [Dir_fd, Ptr 0x207a3700, Imm 0, Imm 0x200], Count,
    Memcpy 0x2085d140 (with_nul ''./var/lib/mysql/sbtest/'') 24,
    Syscall NR_faccessat2 [Dir_fd, Ptr 0x2085d140, Imm 0, Imm 0x200], Count,
    Memcpy 0x208c9580 (with_nul ''./var/lib/mysql/sbtest/'') 24,
    Syscall NR_faccessat2 [Dir_fd, Ptr 0x208c9580, Imm 0, Imm 0x200], Count,
    Memcpy 0x209b26c0 (with_nul ''./var/lib/mysql/sbtest/'') 24,
    Syscall NR_faccessat2 [Dir_fd, Ptr 0x209b26c0, Imm 0, Imm 0x200], Count]"

definition min_mysql_faccessat2_missing_1_0_body4 :: "stmt list" where
  "min_mysql_faccessat2_missing_1_0_body4 = [
    Memcpy 0x20a1c380 (with_nul ''./var/lib/mysql/sbtest/'') 24,
    Syscall NR_faccessat2 [Dir_fd, Ptr 0x20a1c380, Imm 0, Imm 0x200], Count,
    Memcpy 0x20ad5740 (with_nul ''./var/lib/mysql/sbtest/'') 24,
    Syscall NR_faccessat2 [Dir_fd, Ptr 0x20ad5740, Imm 0, Imm 0x200], Count,
    Memcpy 0x20b4be00 (with_nul ''./var/lib/mysql/sbtest/'') 24,
    Syscall NR_faccessat2 [Dir_fd, Ptr 0x20b4be00, Imm 0, Imm 0x200], Count,
    Memcpy 0x20c044c0 (with_nul ''./var/lib/mysql/sbtest/'') 24,
    Syscall NR_faccessat2 [Dir_fd, Ptr 0x20c044c0, Imm 0, Imm 0x200], Count,
    Memcpy 0x20c6ea80 (with_nul ''./var/lib/mysql/sbtest/'') 24,
    Syscall NR_faccessat2 [Dir_fd, Ptr 0x20c6ea80, Imm 0, Imm 0x200], Count]"

definition min_mysql_faccessat2_missing_1_0 :: syz_prog where
  "min_mysql_faccessat2_missing_1_0 = \<lparr>prog_name = ''min_mysql_faccessat2_missing_1_0'', prog_family = Mysql_v2,
     subdirs = [''var/lib/mysql/sbtest''],
     filenames = [], filesizes = [],
     max_write_buffer = 0, init_regs = [],
     reg_body = [], dereg_body = [],
     body = min_mysql_faccessat2_missing_1_0_body1 @ min_mysql_faccessat2_missing_1_0_body2 @
       min_mysql_faccessat2_missing_1_0_body3 @ min_mysql_faccessat2_missing_1_0_body4\<rparr>"

definition min_mysql_faccessat2_missing_1_0_target where
  "min_mysql_faccessat2_missing_1_0_target os_getenv os_inet_pton K = syz_target os_getenv os_inet_pton K min_mysql_faccessat2_missing_1_0"

lemmas min_mysql_faccessat2_missing_1_0_defs =
  min_mysql_faccessat2_missing_1_0_def min_mysql_faccessat2_missing_1_0_body1_def
  min_mysql_faccessat2_missing_1_0_body2_def min_mysql_faccessat2_missing_1_0_body3_def
  min_mysql_faccessat2_missing_1_0_body4_def

lemma min_mysql_faccessat2_missing_1_0_ok: "prog_ok min_mysql_faccessat2_missing_1_0" "calls (body min_mysql_faccessat2_missing_1_0) = 40"
  by (simp_all add: prog_ok_def min_mysql_faccessat2_missing_1_0_defs prog_checks)

section \<open>min\_mysql\_newfstatat\_missing\_0\_0\<close>

definition min_mysql_newfstatat_missing_0_0_body1 :: "stmt list" where
  "min_mysql_newfstatat_missing_0_0_body1 = [
    Memset 0x2010c180 0 1, Syscall NR_newfstatat [Dir_fd, Ptr 0x2010c180, Ptr 0x2010c1c0, Imm 0x1000], Count,
    Memset 0x2010e6c0 0 1, Syscall NR_newfstatat [Dir_fd, Ptr 0x2010e6c0, Ptr 0x2010e700, Imm 0x1000], Count]"

definition min_mysql_newfstatat_missing_0_0_body2 :: "stmt list" where
  "min_mysql_newfstatat_missing_0_0_body2 = [
    Memset 0x20111a00 0 1, Syscall NR_newfstatat [Dir_fd, Ptr 0x20111a00, Ptr 0x20111a40, Imm 0x1000], Count,
    Memset 0x20111e80 0 1, Syscall NR_newfstatat [Dir_fd, Ptr 0x20111e80, Ptr 0x20111ec0, Imm 0x1000], Count,
    Memset 0x20112b00 0 1, Syscall NR_newfstatat [Dir_fd, Ptr 0x20112b00, Ptr 0x20112b40, Imm 0x1000], Count]"

definition min_mysql_newfstatat_missing_0_0_body3 :: "stmt list" where
  "min_mysql_newfstatat_missing_0_0_body3 = [
    Memset 0x20112e00 0 1, Syscall NR_newfstatat [Dir_fd, Ptr 0x20112e00, Ptr 0x20112e40, Imm 0x1000], Count,
    Memset 0x201131c0 0 1, Syscall NR_newfstatat [Dir_fd, Ptr 0x201131c0, Ptr 0x20113200, Imm 0x1000], Count,
    Memset 0x2011d9c0 0 1, Syscall NR_newfstatat [Dir_fd, Ptr 0x2011d9c0, Ptr 0x2011da00, Imm 0x1000], Count]"

definition min_mysql_newfstatat_missing_0_0_body4 :: "stmt list" where
  "min_mysql_newfstatat_missing_0_0_body4 = [
    Memset 0x20121ac0 0 1, Syscall NR_newfstatat [Dir_fd, Ptr 0x20121ac0, Ptr 0x20121b00, Imm 0x1000], Count,
    Memset 0x20125bc0 0 1, Syscall NR_newfstatat [Dir_fd, Ptr 0x20125bc0, Ptr 0x20125c00, Imm 0x1000], Count,
    Memset 0x20129cc0 0 1, Syscall NR_newfstatat [Dir_fd, Ptr 0x20129cc0, Ptr 0x20129d00, Imm 0x1000], Count]"

definition min_mysql_newfstatat_missing_0_0_body5 :: "stmt list" where
  "min_mysql_newfstatat_missing_0_0_body5 = [
    Memset 0x20154440 0 1, Syscall NR_newfstatat [Dir_fd, Ptr 0x20154440, Ptr 0x20154480, Imm 0x1000], Count,
    Memset 0x2019b340 0 1, Syscall NR_newfstatat [Dir_fd, Ptr 0x2019b340, Ptr 0x2019b380, Imm 0x1000], Count,
    Memset 0x2019e2c0 0 1, Syscall NR_newfstatat [Dir_fd, Ptr 0x2019e2c0, Ptr 0x2019e300, Imm 0x1000], Count]"

definition min_mysql_newfstatat_missing_0_0_body6 :: "stmt list" where
  "min_mysql_newfstatat_missing_0_0_body6 = [
    Memset 0x2019e640 0 1, Syscall NR_newfstatat [Dir_fd, Ptr 0x2019e640, Ptr 0x2019e680, Imm 0x1000], Count,
    Memset 0x2019e900 0 1, Syscall NR_newfstatat [Dir_fd, Ptr 0x2019e900, Ptr 0x2019e940, Imm 0x1000], Count,
    Memset 0x201a6a00 0 1, Syscall NR_newfstatat [Dir_fd, Ptr 0x201a6a00, Ptr 0x201a6a40, Imm 0x1000], Count]"

definition min_mysql_newfstatat_missing_0_0_body7 :: "stmt list" where
  "min_mysql_newfstatat_missing_0_0_body7 = [
    Memset 0x20cb0140 0 1, Syscall NR_newfstatat [Dir_fd, Ptr 0x20cb0140, Ptr 0x20cb0180, Imm 0x1000], Count,
    Memset 0x20cdfdc0 0 1, Syscall NR_newfstatat [Dir_fd, Ptr 0x20cdfdc0, Ptr 0x20cdfe00, Imm 0x1000], Count,
    Memset 0x20f93fc0 0 1, Syscall NR_newfstatat [Dir_fd, Ptr 0x20f93fc0, Ptr 0x20f94000, Imm 0x1000], Count]"

definition min_mysql_newfstatat_missing_0_0 :: syz_prog where
  "min_mysql_newfstatat_missing_0_0 = \<lparr>prog_name = ''min_mysql_newfstatat_missing_0_0'', prog_family = Mysql_v2,
     subdirs = [''.''],
     filenames = [], filesizes = [],
     max_write_buffer = 0, init_regs = [],
     reg_body = [], dereg_body = [],
     body = min_mysql_newfstatat_missing_0_0_body1 @ min_mysql_newfstatat_missing_0_0_body2 @
       min_mysql_newfstatat_missing_0_0_body3 @ min_mysql_newfstatat_missing_0_0_body4 @
       min_mysql_newfstatat_missing_0_0_body5 @ min_mysql_newfstatat_missing_0_0_body6 @
       min_mysql_newfstatat_missing_0_0_body7\<rparr>"

definition min_mysql_newfstatat_missing_0_0_target where
  "min_mysql_newfstatat_missing_0_0_target os_getenv os_inet_pton K = syz_target os_getenv os_inet_pton K min_mysql_newfstatat_missing_0_0"

lemmas min_mysql_newfstatat_missing_0_0_defs =
  min_mysql_newfstatat_missing_0_0_def min_mysql_newfstatat_missing_0_0_body1_def
  min_mysql_newfstatat_missing_0_0_body2_def min_mysql_newfstatat_missing_0_0_body3_def
  min_mysql_newfstatat_missing_0_0_body4_def min_mysql_newfstatat_missing_0_0_body5_def
  min_mysql_newfstatat_missing_0_0_body6_def min_mysql_newfstatat_missing_0_0_body7_def

lemma min_mysql_newfstatat_missing_0_0_ok: "prog_ok min_mysql_newfstatat_missing_0_0" "calls (body min_mysql_newfstatat_missing_0_0) = 20"
  by (simp_all add: prog_ok_def min_mysql_newfstatat_missing_0_0_defs prog_checks)

end
