(* ===== verification/CSB_Progs_Mysql_c.thy ===== *)
theory CSB_Progs_Mysql_c
  imports CSB_Syz_Files
begin

text \<open>
  Bodies of generated targets of bench/targets/mysql, statement by statement in the order of the
  files syz/<name>.h, and the targets made of them (the files <name>.h). Each passes the check.
\<close>

section \<open>min\_mysql\_openat\_fsync\_0\_2\<close>

definition min_mysql_openat_fsync_0_2_body1 :: "stmt list" where
  "min_mysql_openat_fsync_0_2_body1 = [
    Memcpy 0x20000340 (with_nul ''./#innodb_redo'') 15,
    Syscall NR_openat [Dir_fd, Ptr 0x20000340, Imm 0x40, Imm 0x1ff], Count, Save_res 0,
    Syscall NR_fsync [Reg 0], Count, Syscall NR_close [Reg 0], Count,
    Memcpy 0x20000600 (with_nul ''./#innodb_redo'') 15,
    Syscall NR_openat [Dir_fd, Ptr 0x20000600, Imm 0x40, Imm 0x1ff], Count, Save_res 1,
    Syscall NR_fsync [Reg 1], Count, Syscall NR_close [Reg 1], Count,
    Memcpy 0x200008c0 (with_nul ''./#innodb_redo'') 15,
    Syscall NR_openat [Dir_fd, Ptr 0x200008c0, Imm 0x40, Imm 0x1ff], Count, Save_res 2,
    Syscall NR_fsync [Reg 2], Count, Syscall NR_close [Reg 2], Count,
    Memcpy 0x20000b80 (with_nul ''./#innodb_redo'') 15,
    Syscall NR_openat [Dir_fd, Ptr 0x20000b80, Imm 0x40, Imm 0x1ff], Count, Save_res 3,
    Syscall NR_fsync [Reg 3], Count, Syscall NR_close [Reg 3], Count,
    Memcpy 0x20000e40 (with_nul ''./#innodb_redo'') 15,
    Syscall NR_openat [Dir_fd, Ptr 0x20000e40, Imm 0x40, Imm 0x1ff], Count, Save_res 4,
    Syscall NR_fsync [Reg 4], Count, Syscall NR_close [Reg 4], Count]"

definition min_mysql_openat_fsync_0_2_body2 :: "stmt list" where
  "min_mysql_openat_fsync_0_2_body2 = [
    Memcpy 0x20002100 (with_nul ''./#innodb_redo'') 15,
    Syscall NR_openat [Dir_fd, Ptr 0x20002100, Imm 0x40, Imm 0x1ff], Count, Save_res 5,
    Syscall NR_fsync [Reg 5], Count, Syscall NR_close [Reg 5], Count,
    Memcpy 0x200023c0 (with_nul ''./#innodb_redo'') 15,
    Syscall NR_openat [Dir_fd, Ptr 0x200023c0, Imm 0x40, Imm 0x1ff], Count, Save_res 6,
    Syscall NR_fsync [Reg 6], Count, Syscall NR_close [Reg 6], Count,
    Memcpy 0x20002680 (with_nul ''./#innodb_redo'') 15,
    Syscall NR_openat [Dir_fd, Ptr 0x20002680, Imm 0x40, Imm 0x1ff], Count, Save_res 7,
    Syscall NR_fsync [Reg 7], Count, Syscall NR_close [Reg 7], Count,
    Memcpy 0x20002940 (with_nul ''./#innodb_redo'') 15,
    Syscall NR_openat [Dir_fd, Ptr 0x20002940, Imm 0x40, Imm 0x1ff], Count, Save_res 8,
    Syscall NR_fsync [Reg 8], Count, Syscall NR_close [Reg 8], Count,
    Memcpy 0x20002c00 (with_nul ''./#innodb_redo'') 15,
    Syscall NR_openat [Dir_fd, Ptr 0x20002c00, Imm 0x40, Imm 0x1ff], Count, Save_res 9,
    Syscall NR_fsync [Reg 9], Count, Syscall NR_close [Reg 9], Count,
    Memcpy 0x20002ec0 (with_nul ''./#innodb_redo'') 15,
    Syscall NR_openat [Dir_fd, Ptr 0x20002ec0, Imm 0x40, Imm 0x1ff], Count, Save_res 10]"

definition min_mysql_openat_fsync_0_2_body3 :: "stmt list" where
  "min_mysql_openat_fsync_0_2_body3 = [
    Syscall NR_fsync [Reg 10], Count, Syscall NR_close [Reg 10], Count,
    Memcpy 0x20003180 (with_nul ''./#innodb_redo'') 15,
    Syscall NR_openat [Dir_fd, Ptr 0x20003180, Imm 0x40, Imm 0x1ff], Count, Save_res 11,
    Syscall NR_fsync [Reg 11], Count, Syscall NR_close [Reg 11], Count,
    Memcpy 0x20003480 (with_nul ''./#innodb_redo'') 15,
    Syscall NR_openat [Dir_fd, Ptr 0x20003480, Imm 0x40, Imm 0x1ff], Count, Save_res 12,
    Syscall NR_fsync [Reg 12], Count, Syscall NR_close [Reg 12], Count,
    Memcpy 0x20003740 (with_nul ''./#innodb_redo'') 15,
    Syscall NR_openat [Dir_fd, Ptr 0x20003740, Imm 0x40, Imm 0x1ff], Count, Save_res 13,
    Syscall NR_fsync [Reg 13], Count, Syscall NR_close [Reg 13], Count,
    Memcpy 0x20003a00 (with_nul ''./#innodb_redo'') 15,
    Syscall NR_openat [Dir_fd, Ptr 0x20003a00, Imm 0x40, Imm 0x1ff], Count, Save_res 14,
    Syscall NR_fsync [Reg 14], Count, Syscall NR_close [Reg 14], Count,
    Memcpy 0x20003cc0 (with_nul ''./#innodb_redo'') 15,
    Syscall NR_openat [Dir_fd, Ptr 0x20003cc0, Imm 0x40, Imm 0x1ff], Count, Save_res 15,
    Syscall NR_fsync [Reg 15], Count, Syscall NR_close [Reg 15], Count]"

definition min_mysql_openat_fsync_0_2_body4 :: "stmt list" where
  "min_mysql_openat_fsync_0_2_body4 = [
    Memcpy 0x20003f80 (with_nul ''./#innodb_redo'') 15,
    Syscall NR_openat [Dir_fd, Ptr 0x20003f80, Imm 0x40, Imm 0x1ff], Count, Save_res 16,
    Syscall NR_fsync [Reg 16], Count, Syscall NR_close [Reg 16], Count,
    Memcpy 0x20004240 (with_nul ''./#innodb_redo'') 15,
    Syscall NR_openat [Dir_fd, Ptr 0x20004240, Imm 0x40, Imm 0x1ff], Count, Save_res 17,
    Syscall NR_fsync [Reg 17], Count, Syscall NR_close [Reg 17], Count,
    Memcpy 0x20004500 (with_nul ''./#innodb_redo'') 15,
    Syscall NR_openat [Dir_fd, Ptr 0x20004500, Imm 0x40, Imm 0x1ff], Count, Save_res 18,
    Syscall NR_fsync [Reg 18], Count, Syscall NR_close [Reg 18], Count,
    Memcpy 0x200047c0 (with_nul ''./#innodb_redo'') 15,
    Syscall NR_openat [Dir_fd, Ptr 0x200047c0, Imm 0x40, Imm 0x1ff], Count, Save_res 19,
    Syscall NR_fsync [Reg 19], Count, Syscall NR_close [Reg 19], Count,
    Memcpy 0x20004a80 (with_nul ''./#innodb_redo'') 15,
    Syscall NR_openat [Dir_fd, Ptr 0x20004a80, Imm 0x40, Imm 0x1ff], Count, Save_res 20,
    Syscall NR_fsync [Reg 20], Count, Syscall NR_close [Reg 20], Count,
    Memcpy 0x20004d40 (with_nul ''./#innodb_redo'') 15,
    Syscall NR_openat [Dir_fd, Ptr 0x20004d40, Imm 0x40, Imm 0x1ff], Count, Save_res 21]"

definition min_mysql_openat_fsync_0_2_body5 :: "stmt list" where
  "min_mysql_openat_fsync_0_2_body5 = [
    Syscall NR_fsync [Reg 21], Count, Syscall NR_close [Reg 21], Count,
    Memcpy 0x20005000 (with_nul ''./#innodb_redo'') 15,
    Syscall NR_openat [Dir_fd, Ptr 0x20005000, Imm 0x40, Imm 0x1ff], Count, Save_res 22,
    Syscall NR_fsync [Reg 22], Count, Syscall NR_close [Reg 22], Count,
    Memcpy 0x200052c0 (with_nul ''./#innodb_redo'') 15,
    Syscall NR_openat [Dir_fd, Ptr 0x200052c0, Imm 0x40, Imm 0x1ff], Count, Save_res 23,
    Syscall NR_fsync [Reg 23], Count, Syscall NR_close [Reg 23], Count,
    Memcpy 0x20005580 (with_nul ''./#innodb_redo'') 15,
    Syscall NR_openat [Dir_fd, Ptr 0x20005580, Imm 0x40, Imm 0x1ff], Count, Save_res 24,
    Syscall NR_fsync [Reg 24], Count, Syscall NR_close [Reg 24], Count,
    Memcpy 0x20005840 (with_nul ''./#innodb_redo'') 15,
    Syscall NR_openat [Dir_fd, Ptr 0x20005840, Imm 0x40, Imm 0x1ff], Count, Save_res 25,
    Syscall NR_fsync [Reg 25], Count, Syscall NR_close [Reg 25], Count,
    Memcpy 0x20005b40 (with_nul ''./#innodb_redo'') 15,
    Syscall NR_openat [Dir_fd, Ptr 0x20005b40, Imm 0x40, Imm 0x1ff], Count, Save_res 26,
    Syscall NR_fsync [Reg 26], Count, Syscall NR_close [Reg 26], Count]"

definition min_mysql_openat_fsync_0_2_body6 :: "stmt list" where
  "min_mysql_openat_fsync_0_2_body6 = [
    Memcpy 0x20005e40 (with_nul ''./#innodb_redo'') 15,
    Syscall NR_openat [Dir_fd, Ptr 0x20005e40, Imm 0x40, Imm 0x1ff], Count, Save_res 27,
    Syscall NR_fsync [Reg 27], Count, Syscall NR_close [Reg 27], Count,
    Memcpy 0x20006100 (with_nul ''./#innodb_redo'') 15,
    Syscall NR_openat [Dir_fd, Ptr 0x20006100, Imm 0x40, Imm 0x1ff], Count, Save_res 28,
    Syscall NR_fsync [Reg 28], Count, Syscall NR_close [Reg 28], Count,
    Memcpy 0x200063c0 (with_nul ''./#innodb_redo'') 15,
    Syscall NR_openat [Dir_fd, Ptr 0x200063c0, Imm 0x40, Imm 0x1ff], Count, Save_res 29,
    Syscall NR_fsync [Reg 29], Count, Syscall NR_close [Reg 29], Count,
    Memcpy 0x20006680 (with_nul ''./#innodb_redo'') 15,
    Syscall NR_openat [Dir_fd, Ptr 0x20006680, Imm 0x40, Imm 0x1ff], Count, Save_res 30,
    Syscall NR_fsync [Reg 30], Count, Syscall NR_close [Reg 30], Count]"

definition min_mysql_openat_fsync_0_2_regs :: "u64 list" where
  "min_mysql_openat_fsync_0_2_regs = replicate 31 (- 1)"

definition min_mysql_openat_fsync_0_2 :: syz_prog where
  "min_mysql_openat_fsync_0_2 = \<lparr>prog_name = ''min_mysql_openat_fsync_0_2'', prog_family = Mysql,
     subdirs = [''.''],
     filenames = [''./#innodb_red''], filesizes = [0],
     max_write_buffer = 0, init_regs = min_mysql_openat_fsync_0_2_regs,
     reg_body = [], dereg_body = [],
     body = min_mysql_openat_fsync_0_2_body1 @ min_mysql_openat_fsync_0_2_body2 @
       min_mysql_openat_fsync_0_2_body3 @ min_mysql_openat_fsync_0_2_body4 @
       min_mysql_openat_fsync_0_2_body5 @ min_mysql_openat_fsync_0_2_body6\<rparr>"

definition min_mysql_openat_fsync_0_2_target where
  "min_mysql_openat_fsync_0_2_target os_getenv os_inet_pton K = syz_target os_getenv os_inet_pton K min_mysql_openat_fsync_0_2"

lemmas min_mysql_openat_fsync_0_2_defs =
  min_mysql_openat_fsync_0_2_def min_mysql_openat_fsync_0_2_regs_def min_mysql_openat_fsync_0_2_body1_def
  min_mysql_openat_fsync_0_2_body2_def min_mysql_openat_fsync_0_2_body3_def
  min_mysql_openat_fsync_0_2_body4_def min_mysql_openat_fsync_0_2_body5_def
  min_mysql_openat_fsync_0_2_body6_def

lemma min_mysql_openat_fsync_0_2_ok: "prog_ok min_mysql_openat_fsync_0_2" "calls (body min_mysql_openat_fsync_0_2) = 93"
  by (simp_all add: prog_ok_def min_mysql_openat_fsync_0_2_defs prog_checks)

lemma min_mysql_openat_fsync_0_2_misses: "setup_misses min_mysql_openat_fsync_0_2" "filenames min_mysql_openat_fsync_0_2 \<noteq> []" "reg_body min_mysql_openat_fsync_0_2 = []" "num_regs min_mysql_openat_fsync_0_2 < 2 ^ 32"
  by (simp_all add: setup_misses_def opened_def misses_def path_names_def min_mysql_openat_fsync_0_2_defs prog_checks open_checks)

section \<open>min\_mysql\_newfstatat\_openat\_0\_1\<close>

definition min_mysql_newfstatat_openat_0_1_body1 :: "stmt list" where
  "min_mysql_newfstatat_openat_0_1_body1 = [
    Memcpy 0x20000640 (with_nul ''.'') 2, Syscall NR_newfstatat [Dir_fd, Ptr 0x20000640, Ptr 0x20000680, Imm 0],
    Count, Memcpy 0x20000740 (with_nul ''.'') 2,
    Syscall NR_newfstatat [Dir_fd, Ptr 0x20000740, Ptr 0x20000780, Imm 0], Count,
    Memcpy 0x20000840 (with_nul ''.'') 2, Syscall NR_newfstatat [Dir_fd, Ptr 0x20000840, Ptr 0x20000880, Imm 0],
    Count]"

definition min_mysql_newfstatat_openat_0_1_body2 :: "stmt list" where
  "min_mysql_newfstatat_openat_0_1_body2 = [
    Memcpy 0x20000940 (with_nul ''.'') 2, Syscall NR_newfstatat [Dir_fd, Ptr 0x20000940, Ptr 0x20000980, Imm 0],
    Count, Memcpy 0x201c8100 (with_nul ''.'') 2,
    Syscall NR_newfstatat [Dir_fd, Ptr 0x201c8100, Ptr 0x201c8140, Imm 0], Count,
    Memcpy 0x201ecc40 (with_nul ''.'') 2, Syscall NR_newfstatat [Dir_fd, Ptr 0x201ecc40, Ptr 0x201ecc80, Imm 0],
    Count]"

definition min_mysql_newfstatat_openat_0_1_body3 :: "stmt list" where
  "min_mysql_newfstatat_openat_0_1_body3 = [
    Memcpy 0x201ecf00 (with_nul ''.'') 2, Syscall NR_newfstatat [Dir_fd, Ptr 0x201ecf00, Ptr 0x201ecf40, Imm 0],
    Count, Memcpy 0x20273180 (with_nul ''.'') 2,
    Syscall NR_newfstatat [Dir_fd, Ptr 0x20273180, Ptr 0x202731c0, Imm 0], Count,
    Memcpy 0x20273300 (with_nul ''.'') 2, Syscall NR_newfstatat [Dir_fd, Ptr 0x20273300, Ptr 0x20273340, Imm 0],
    Count]"

definition min_mysql_newfstatat_openat_0_1_body4 :: "stmt list" where
  "min_mysql_newfstatat_openat_0_1_body4 = [
    Memcpy 0x20273480 (with_nul ''.'') 2, Syscall NR_newfstatat [Dir_fd, Ptr 0x20273480, Ptr 0x202734c0, Imm 0],
    Count, Memcpy 0x20273600 (with_nul ''.'') 2,
    Syscall NR_newfstatat [Dir_fd, Ptr 0x20273600, Ptr 0x20273640, Imm 0], Count,
    Memcpy 0x20273780 (with_nul ''.'') 2, Syscall NR_newfstatat [Dir_fd, Ptr 0x20273780, Ptr 0x202737c0, Imm 0],
    Count]"

definition min_mysql_newfstatat_openat_0_1_body5 :: "stmt list" where
  "min_mysql_newfstatat_openat_0_1_body5 = [
    Memcpy 0x20273900 (with_nul ''.'') 2, Syscall NR_newfstatat [Dir_fd, Ptr 0x20273900, Ptr 0x20273940, Imm 0],
    Count, Memcpy 0x20273a80 (with_nul ''.'') 2,
    Syscall NR_newfstatat [Dir_fd, Ptr 0x20273a80, Ptr 0x20273ac0, Imm 0], Count,
    Memcpy 0x20273c00 (with_nul ''.'') 2, Syscall NR_newfstatat [Dir_fd, Ptr 0x20273c00, Ptr 0x20273c40, Imm 0],
    Count]"

definition min_mysql_newfstatat_openat_0_1_body6 :: "stmt list" where
  "min_mysql_newfstatat_openat_0_1_body6 = [
    Memcpy 0x20273d80 (with_nul ''.'') 2, Syscall NR_newfstatat [Dir_fd, Ptr 0x20273d80, Ptr 0x20273dc0, Imm 0],
    Count, Memcpy 0x20273f00 (with_nul ''.'') 2,
    Syscall NR_newfstatat [Dir_fd, Ptr 0x20273f00, Ptr 0x20273f40, Imm 0], Count,
    Memcpy 0x20294fc0 (with_nul ''.'') 2, Syscall NR_newfstatat [Dir_fd, Ptr 0x20294fc0, Ptr 0x20505080, Imm 0],
    Count]"

definition min_mysql_newfstatat_openat_0_1_body7 :: "stmt list" where
  "min_mysql_newfstatat_openat_0_1_body7 = [
    Memcpy 0x205051c0 (with_nul ''.'') 2, Syscall NR_newfstatat [Dir_fd, Ptr 0x205051c0, Ptr 0x20505200, Imm 0],
    Count, Memcpy 0x20505340 (with_nul ''.'') 2,
    Syscall NR_newfstatat [Dir_fd, Ptr 0x20505340, Ptr 0x20505380, Imm 0], Count,
    Memcpy 0x205054c0 (with_nul ''.'') 2, Syscall NR_newfstatat [Dir_fd, Ptr 0x205054c0, Ptr 0x20505500, Imm 0],
    Count]"

definition min_mysql_newfstatat_openat_0_1_body8 :: "stmt list" where
  "min_mysql_newfstatat_openat_0_1_body8 = [
    Memcpy 0x20505640 (with_nul ''.'') 2, Syscall NR_newfstatat [Dir_fd, Ptr 0x20505640, Ptr 0x20505680, Imm 0],
    Count, Memcpy 0x205057c0 (with_nul ''.'') 2,
    Syscall NR_newfstatat [Dir_fd, Ptr 0x205057c0, Ptr 0x20505800, Imm 0], Count,
    Memcpy 0x20505940 (with_nul ''.'') 2, Syscall NR_newfstatat [Dir_fd, Ptr 0x20505940, Ptr 0x20505980, Imm 0],
    Count]"

definition min_mysql_newfstatat_openat_0_1_body9 :: "stmt list" where
  "min_mysql_newfstatat_openat_0_1_body9 = [
    Memcpy 0x20505ac0 (with_nul ''.'') 2, Syscall NR_newfstatat [Dir_fd, Ptr 0x20505ac0, Ptr 0x20505b00, Imm 0],
    Count, Memcpy 0x20505c40 (with_nul ''.'') 2,
    Syscall NR_newfstatat [Dir_fd, Ptr 0x20505c40, Ptr 0x20505c80, Imm 0], Count,
    Memcpy 0x20505dc0 (with_nul ''.'') 2, Syscall NR_newfstatat [Dir_fd, Ptr 0x20505dc0, Ptr 0x20505e00, Imm 0],
    Count]"

definition min_mysql_newfstatat_openat_0_1_body10 :: "stmt list" where
  "min_mysql_newfstatat_openat_0_1_body10 = [
    Memcpy 0x20505f40 (with_nul ''.'') 2, Syscall NR_newfstatat [Dir_fd, Ptr 0x20505f40, Ptr 0x20505f80, Imm 0],
    Count, Memcpy 0x205060c0 (with_nul ''.'') 2,
    Syscall NR_newfstatat [Dir_fd, Ptr 0x205060c0, Ptr 0x20506100, Imm 0], Count,
    Memcpy 0x20506240 (with_nul ''.'') 2, Syscall NR_newfstatat [Dir_fd, Ptr 0x20506240, Ptr 0x20506280, Imm 0],
    Count]"

definition min_mysql_newfstatat_openat_0_1_body11 :: "stmt list" where
  "min_mysql_newfstatat_openat_0_1_body11 = [
    Memcpy 0x20509ec0 (with_nul ''.'') 2, Syscall NR_newfstatat [Dir_fd, Ptr 0x20509ec0, Ptr 0x20509f00, Imm 0],
    Count, Memcpy 0x2050a180 (with_nul ''.'') 2,
    Syscall NR_newfstatat [Dir_fd, Ptr 0x2050a180, Ptr 0x2050a1c0, Imm 0], Count,
    Memcpy 0x206baa80 (with_nul ''.'') 2, Syscall NR_openat [Dir_fd, Ptr 0x206baa80, Imm 0x40, Imm 0x1ff],
    Count, Save_res 0, Syscall NR_fsync [Reg 0], Count, Syscall NR_close [Reg 0], Count]"

definition min_mysql_newfstatat_openat_0_1_body12 :: "stmt list" where
  "min_mysql_newfstatat_openat_0_1_body12 = [
    Memcpy 0x206bae00 (with_nul ''.'') 2, Syscall NR_newfstatat [Dir_fd, Ptr 0x206bae00, Ptr 0x206bae40, Imm 0],
    Count, Memcpy 0x206baf00 (with_nul ''.'') 2,
    Syscall NR_newfstatat [Dir_fd, Ptr 0x206baf00, Ptr 0x206baf40, Imm 0], Count,
    Memcpy 0x2089bd40 (with_nul ''.'') 2, Syscall NR_newfstatat [Dir_fd, Ptr 0x2089bd40, Ptr 0x2089bd80, Imm 0],
    Count]"

definition min_mysql_newfstatat_openat_0_1_body13 :: "stmt list" where
  "min_mysql_newfstatat_openat_0_1_body13 = [
    Memcpy 0x20e215c0 (with_nul ''.'') 2, Syscall NR_newfstatat [Dir_fd, Ptr 0x20e215c0, Ptr 0x20e21600, Imm 0],
    Count, Memcpy 0x20e21c00 (with_nul ''.'') 2,
    Syscall NR_newfstatat [Dir_fd, Ptr 0x20e21c00, Ptr 0x20e21c40, Imm 0], Count]"

definition min_mysql_newfstatat_openat_0_1 :: syz_prog where
  "min_mysql_newfstatat_openat_0_1 = \<lparr>prog_name = ''min_mysql_newfstatat_openat_0_1'', prog_family = Mysql,
     subdirs = [''.''],
     filenames = [''''], filesizes = [0],
     max_write_buffer = 0, init_regs = replicate 1 (- 1),
     reg_body = [], dereg_body = [],
     body = min_mysql_newfstatat_openat_0_1_body1 @ min_mysql_newfstatat_openat_0_1_body2 @
       min_mysql_newfstatat_openat_0_1_body3 @ min_mysql_newfstatat_openat_0_1_body4 @
       min_mysql_newfstatat_openat_0_1_body5 @ min_mysql_newfstatat_openat_0_1_body6 @
       min_mysql_newfstatat_openat_0_1_body7 @ min_mysql_newfstatat_openat_0_1_body8 @
       min_mysql_newfstatat_openat_0_1_body9 @ min_mysql_newfstatat_openat_0_1_body10 @
       min_mysql_newfstatat_openat_0_1_body11 @ min_mysql_newfstatat_openat_0_1_body12 @
       min_mysql_newfstatat_openat_0_1_body13\<rparr>"

definition min_mysql_newfstatat_openat_0_1_target where
  "min_mysql_newfstatat_openat_0_1_target os_getenv os_inet_pton K = syz_target os_getenv os_inet_pton K min_mysql_newfstatat_openat_0_1"

lemma min_mysql_newfstatat_openat_0_1_body1_ok: "body_ok (Suc 0) 0 min_mysql_newfstatat_openat_0_1_body1" "counted min_mysql_newfstatat_openat_0_1_body1" "calls min_mysql_newfstatat_openat_0_1_body1 = 3" "opened_in m min_mysql_newfstatat_openat_0_1_body1 = []"
  by (simp_all add: min_mysql_newfstatat_openat_0_1_body1_def prog_checks open_checks)

lemma min_mysql_newfstatat_openat_0_1_body2_ok: "body_ok (Suc 0) 0 min_mysql_newfstatat_openat_0_1_body2" "counted min_mysql_newfstatat_openat_0_1_body2" "calls min_mysql_newfstatat_openat_0_1_body2 = 3" "opened_in m min_mysql_newfstatat_openat_0_1_body2 = []"
  by (simp_all add: min_mysql_newfstatat_openat_0_1_body2_def prog_checks open_checks)

lemma min_mysql_newfstatat_openat_0_1_body3_ok: "body_ok (Suc 0) 0 min_mysql_newfstatat_openat_0_1_body3" "counted min_mysql_newfstatat_openat_0_1_body3" "calls min_mysql_newfstatat_openat_0_1_body3 = 3" "opened_in m min_mysql_newfstatat_openat_0_1_body3 = []"
  by (simp_all add: min_mysql_newfstatat_openat_0_1_body3_def prog_checks open_checks)

lemma min_mysql_newfstatat_openat_0_1_body4_ok: "body_ok (Suc 0) 0 min_mysql_newfstatat_openat_0_1_body4" "counted min_mysql_newfstatat_openat_0_1_body4" "calls min_mysql_newfstatat_openat_0_1_body4 = 3" "opened_in m min_mysql_newfstatat_openat_0_1_body4 = []"
  by (simp_all add: min_mysql_newfstatat_openat_0_1_body4_def prog_checks open_checks)

lemma min_mysql_newfstatat_openat_0_1_body5_ok: "body_ok (Suc 0) 0 min_mysql_newfstatat_openat_0_1_body5" "counted min_mysql_newfstatat_openat_0_1_body5" "calls min_mysql_newfstatat_openat_0_1_body5 = 3" "opened_in m min_mysql_newfstatat_openat_0_1_body5 = []"
  by (simp_all add: min_mysql_newfstatat_openat_0_1_body5_def prog_checks open_checks)

lemma min_mysql_newfstatat_openat_0_1_body6_ok: "body_ok (Suc 0) 0 min_mysql_newfstatat_openat_0_1_body6" "counted min_mysql_newfstatat_openat_0_1_body6" "calls min_mysql_newfstatat_openat_0_1_body6 = 3" "opened_in m min_mysql_newfstatat_openat_0_1_body6 = []"
  by (simp_all add: min_mysql_newfstatat_openat_0_1_body6_def prog_checks open_checks)

lemma min_mysql_newfstatat_openat_0_1_body7_ok: "body_ok (Suc 0) 0 min_mysql_newfstatat_openat_0_1_body7" "counted min_mysql_newfstatat_openat_0_1_body7" "calls min_mysql_newfstatat_openat_0_1_body7 = 3" "opened_in m min_mysql_newfstatat_openat_0_1_body7 = []"
  by (simp_all add: min_mysql_newfstatat_openat_0_1_body7_def prog_checks open_checks)

lemma min_mysql_newfstatat_openat_0_1_body8_ok: "body_ok (Suc 0) 0 min_mysql_newfstatat_openat_0_1_body8" "counted min_mysql_newfstatat_openat_0_1_body8" "calls min_mysql_newfstatat_openat_0_1_body8 = 3" "opened_in m min_mysql_newfstatat_openat_0_1_body8 = []"
  by (simp_all add: min_mysql_newfstatat_openat_0_1_body8_def prog_checks open_checks)

lemma min_mysql_newfstatat_openat_0_1_body9_ok: "body_ok (Suc 0) 0 min_mysql_newfstatat_openat_0_1_body9" "counted min_mysql_newfstatat_openat_0_1_body9" "calls min_mysql_newfstatat_openat_0_1_body9 = 3" "opened_in m min_mysql_newfstatat_openat_0_1_body9 = []"
  by (simp_all add: min_mysql_newfstatat_openat_0_1_body9_def prog_checks open_checks)

lemma min_mysql_newfstatat_openat_0_1_body10_ok: "body_ok (Suc 0) 0 min_mysql_newfstatat_openat_0_1_body10" "counted min_mysql_newfstatat_openat_0_1_body10" "calls min_mysql_newfstatat_openat_0_1_body10 = 3" "opened_in m min_mysql_newfstatat_openat_0_1_body10 = []"
  by (simp_all add: min_mysql_newfstatat_openat_0_1_body10_def prog_checks open_checks)

lemma min_mysql_newfstatat_openat_0_1_body11_ok: "body_ok (Suc 0) 0 min_mysql_newfstatat_openat_0_1_body11" "counted min_mysql_newfstatat_openat_0_1_body11" "calls min_mysql_newfstatat_openat_0_1_body11 = 5" "opened_in m min_mysql_newfstatat_openat_0_1_body11 = [Some ''.'']"
  by (simp_all add: min_mysql_newfstatat_openat_0_1_body11_def prog_checks open_checks)

lemma min_mysql_newfstatat_openat_0_1_body12_ok: "body_ok (Suc 0) 0 min_mysql_newfstatat_openat_0_1_body12" "counted min_mysql_newfstatat_openat_0_1_body12" "calls min_mysql_newfstatat_openat_0_1_body12 = 3" "opened_in m min_mysql_newfstatat_openat_0_1_body12 = []"
  by (simp_all add: min_mysql_newfstatat_openat_0_1_body12_def prog_checks open_checks)

lemma min_mysql_newfstatat_openat_0_1_body13_ok: "body_ok (Suc 0) 0 min_mysql_newfstatat_openat_0_1_body13" "counted min_mysql_newfstatat_openat_0_1_body13" "calls min_mysql_newfstatat_openat_0_1_body13 = 2" "opened_in m min_mysql_newfstatat_openat_0_1_body13 = []"
  by (simp_all add: min_mysql_newfstatat_openat_0_1_body13_def prog_checks open_checks)

lemmas min_mysql_newfstatat_openat_0_1_bodies =
  min_mysql_newfstatat_openat_0_1_body1_ok min_mysql_newfstatat_openat_0_1_body2_ok
  min_mysql_newfstatat_openat_0_1_body3_ok min_mysql_newfstatat_openat_0_1_body4_ok
  min_mysql_newfstatat_openat_0_1_body5_ok min_mysql_newfstatat_openat_0_1_body6_ok
  min_mysql_newfstatat_openat_0_1_body7_ok min_mysql_newfstatat_openat_0_1_body8_ok
  min_mysql_newfstatat_openat_0_1_body9_ok min_mysql_newfstatat_openat_0_1_body10_ok
  min_mysql_newfstatat_openat_0_1_body11_ok min_mysql_newfstatat_openat_0_1_body12_ok
  min_mysql_newfstatat_openat_0_1_body13_ok

lemma min_mysql_newfstatat_openat_0_1_ok: "prog_ok min_mysql_newfstatat_openat_0_1" "calls (body min_mysql_newfstatat_openat_0_1) = 40"
  by (simp_all add: prog_ok_def counted_append prog_checks min_mysql_newfstatat_openat_0_1_def min_mysql_newfstatat_openat_0_1_bodies)

end
