(* ===== verification/CSB_Progs_Rocksdb_c.thy ===== *)
theory CSB_Progs_Rocksdb_c
  imports CSB_Syz_Files
begin

text \<open>
  Bodies of generated targets of bench/targets/rocksdb, statement by statement in the order of the
  files syz/<name>.h, and the targets made of them (the files <name>.h). Each passes the check.
\<close>

section \<open>min\_rocks\_write\_fcntl\_7\_0\<close>

definition min_rocks_write_fcntl_7_0_body1 :: "stmt list" where
  "min_rocks_write_fcntl_7_0_body1 = [
    Memcpy 0x20837d00 (with_nul ''./tmp/rocksdb_db/000040.sst'') 28,
    Syscall NR_openat [Dir_fd, Ptr 0x20837d00, Imm 0x80241, Imm 0x1ff], Count, Save_res 0,
    Syscall NR_fcntl [Reg 0, Imm 1, Imm 0], Count, Syscall NR_fcntl [Reg 0, Imm 2, Imm 1], Count,
    Syscall NR_fstatfs [Reg 0, Ptr 0x20837d40], Count, Syscall NR_sync_file_range [Reg 0, Imm 0, Imm 0, Imm 0],
    Count, Store 8 0x20837e00 (Imm 0), Syscall NR_fcntl [Reg 0, Imm 0x40c, Ptr 0x20837e00], Count,
    Syscall NR_fallocate [Reg 0, Imm 1, Imm 0, Imm 0x43a76e0], Count,
    Syscall NR_write [Reg 0, Write_buf, Imm 0x100000], Count, Syscall NR_write [Reg 0, Write_buf, Imm 0x100000],
    Count, Syscall NR_write [Reg 0, Write_buf, Imm 0x100000], Count,
    Syscall NR_write [Reg 0, Write_buf, Imm 0x100000], Count, Syscall NR_write [Reg 0, Write_buf, Imm 0x100000],
    Count, Syscall NR_write [Reg 0, Write_buf, Imm 0x100000], Count,
    Syscall NR_write [Reg 0, Write_buf, Imm 0x100000], Count]"

definition min_rocks_write_fcntl_7_0_body2 :: "stmt list" where
  "min_rocks_write_fcntl_7_0_body2 = [
    Syscall NR_write [Reg 0, Write_buf, Imm 0x100000], Count, Syscall NR_write [Reg 0, Write_buf, Imm 0x100000],
    Count, Syscall NR_write [Reg 0, Write_buf, Imm 0x100000], Count,
    Syscall NR_write [Reg 0, Write_buf, Imm 0x100000], Count, Syscall NR_write [Reg 0, Write_buf, Imm 0x100000],
    Count, Syscall NR_write [Reg 0, Write_buf, Imm 0x100000], Count,
    Syscall NR_write [Reg 0, Write_buf, Imm 0x100000], Count, Syscall NR_write [Reg 0, Write_buf, Imm 0x100000],
    Count, Syscall NR_write [Reg 0, Write_buf, Imm 0x100000], Count,
    Syscall NR_write [Reg 0, Write_buf, Imm 0x100000], Count, Syscall NR_write [Reg 0, Write_buf, Imm 0x100000],
    Count, Syscall NR_write [Reg 0, Write_buf, Imm 0x100000], Count,
    Syscall NR_write [Reg 0, Write_buf, Imm 0x100000], Count, Syscall NR_write [Reg 0, Write_buf, Imm 0x100000],
    Count]"

definition min_rocks_write_fcntl_7_0_body3 :: "stmt list" where
  "min_rocks_write_fcntl_7_0_body3 = [
    Syscall NR_write [Reg 0, Write_buf, Imm 0x100000], Count, Syscall NR_write [Reg 0, Write_buf, Imm 0x100000],
    Count, Syscall NR_write [Reg 0, Write_buf, Imm 0x100000], Count,
    Syscall NR_write [Reg 0, Write_buf, Imm 0x100000], Count, Syscall NR_write [Reg 0, Write_buf, Imm 0x100000],
    Count, Syscall NR_write [Reg 0, Write_buf, Imm 0x100000], Count,
    Syscall NR_write [Reg 0, Write_buf, Imm 0x100000], Count, Syscall NR_write [Reg 0, Write_buf, Imm 0x100000],
    Count, Syscall NR_write [Reg 0, Write_buf, Imm 0x100000], Count,
    Syscall NR_write [Reg 0, Write_buf, Imm 0x100000], Count, Syscall NR_write [Reg 0, Write_buf, Imm 0x100000],
    Count, Syscall NR_write [Reg 0, Write_buf, Imm 0x100000], Count,
    Syscall NR_write [Reg 0, Write_buf, Imm 0x100000], Count, Syscall NR_write [Reg 0, Write_buf, Imm 0x100000],
    Count]"

definition min_rocks_write_fcntl_7_0_body4 :: "stmt list" where
  "min_rocks_write_fcntl_7_0_body4 = [
    Syscall NR_write [Reg 0, Write_buf, Imm 0x100000], Count, Syscall NR_write [Reg 0, Write_buf, Imm 0x100000],
    Count, Syscall NR_write [Reg 0, Write_buf, Imm 0x100000], Count,
    Syscall NR_write [Reg 0, Write_buf, Imm 0x100000], Count, Syscall NR_write [Reg 0, Write_buf, Imm 0x100000],
    Count, Syscall NR_write [Reg 0, Write_buf, Imm 0x100000], Count,
    Syscall NR_write [Reg 0, Write_buf, Imm 0x100000], Count, Syscall NR_write [Reg 0, Write_buf, Imm 0x100000],
    Count, Syscall NR_write [Reg 0, Write_buf, Imm 0x100000], Count,
    Syscall NR_write [Reg 0, Write_buf, Imm 0x100000], Count, Syscall NR_write [Reg 0, Write_buf, Imm 0x100000],
    Count, Syscall NR_write [Reg 0, Write_buf, Imm 0x100000], Count,
    Syscall NR_write [Reg 0, Write_buf, Imm 0x100000], Count, Syscall NR_write [Reg 0, Write_buf, Imm 0x100000],
    Count]"

definition min_rocks_write_fcntl_7_0_body5 :: "stmt list" where
  "min_rocks_write_fcntl_7_0_body5 = [
    Syscall NR_write [Reg 0, Write_buf, Imm 0x100000], Count, Syscall NR_write [Reg 0, Write_buf, Imm 0x100000],
    Count, Syscall NR_write [Reg 0, Write_buf, Imm 0x100000], Count,
    Syscall NR_write [Reg 0, Write_buf, Imm 0x100000], Count, Syscall NR_write [Reg 0, Write_buf, Imm 0x100000],
    Count, Syscall NR_write [Reg 0, Write_buf, Imm 0x100000], Count,
    Syscall NR_write [Reg 0, Write_buf, Imm 0x100000], Count, Syscall NR_write [Reg 0, Write_buf, Imm 0x100000],
    Count, Syscall NR_write [Reg 0, Write_buf, Imm 0x100000], Count,
    Syscall NR_write [Reg 0, Write_buf, Imm 0x100000], Count, Syscall NR_write [Reg 0, Write_buf, Imm 0x100000],
    Count, Syscall NR_write [Reg 0, Write_buf, Imm 0x100000], Count,
    Syscall NR_write [Reg 0, Write_buf, Imm 0x80efb], Count, Syscall NR_fdatasync [Reg 0], Count,
    Syscall NR_ftruncate [Reg 0, Imm 0x3d80efb], Count]"

definition min_rocks_write_fcntl_7_0_body6 :: "stmt list" where
  "min_rocks_write_fcntl_7_0_body6 = [
    Syscall NR_close [Reg 0], Count, Memcpy 0x20ebb300 (with_nul ''./tmp/rocksdb_db/000040.sst'') 28,
    Syscall NR_newfstatat [Dir_fd, Ptr 0x20ebb300, Ptr 0x20ebb340, Imm 0], Count,
    Memcpy 0x20ebb400 (with_nul ''./tmp/rocksdb_db/000040.sst'') 28,
    Syscall NR_openat [Dir_fd, Ptr 0x20ebb400, Imm 0x80040, Imm 0x1ff], Count, Save_res 1,
    Syscall NR_fcntl [Reg 1, Imm 1, Imm 0], Count, Syscall NR_fcntl [Reg 1, Imm 2, Imm 1], Count,
    Syscall NR_fadvise64 [Reg 1, Imm 0, Imm 0, Imm 1], Count,
    Syscall NR_readahead [Reg 1, Imm 0x3d28383, Imm 0x58b78], Count,
    Syscall NR_pread64 [Reg 1, Ptr 0x20ebb500, Imm 0x35, Imm 0x3d80ec6], Count,
    Syscall NR_pread64 [Reg 1, Ptr 0x20ebb540, Imm 0x43, Imm 0x3d80e83], Count,
    Syscall NR_pread64 [Reg 1, Ptr 0x20ebb5c0, Imm 0x3e1, Imm 0x3d80aa2], Count,
    Syscall NR_pread64 [Reg 1, Ptr 0x20ebb9c0, Imm 0x5871f, Imm 0x3d28383], Count, Close_reg 1]"

definition min_rocks_write_fcntl_7_0 :: syz_prog where
  "min_rocks_write_fcntl_7_0 = \<lparr>prog_name = ''min_rocks_write_fcntl_7_0'', prog_family = Rocksdb,
     subdirs = [''tmp/rocksdb_db''],
     filenames = [''./tmp/rocksdb_db/000040.ss''], filesizes = [70940384],
     max_write_buffer = 1048576, init_regs = replicate 2 (- 1),
     reg_body = [], dereg_body = [],
     body = min_rocks_write_fcntl_7_0_body1 @ min_rocks_write_fcntl_7_0_body2 @ min_rocks_write_fcntl_7_0_body3 @
       min_rocks_write_fcntl_7_0_body4 @ min_rocks_write_fcntl_7_0_body5 @ min_rocks_write_fcntl_7_0_body6\<rparr>"

definition min_rocks_write_fcntl_7_0_target where
  "min_rocks_write_fcntl_7_0_target os_getenv os_inet_pton K = syz_target os_getenv os_inet_pton K min_rocks_write_fcntl_7_0"

lemmas min_rocks_write_fcntl_7_0_defs =
  min_rocks_write_fcntl_7_0_def min_rocks_write_fcntl_7_0_body1_def min_rocks_write_fcntl_7_0_body2_def
  min_rocks_write_fcntl_7_0_body3_def min_rocks_write_fcntl_7_0_body4_def
  min_rocks_write_fcntl_7_0_body5_def min_rocks_write_fcntl_7_0_body6_def

lemma min_rocks_write_fcntl_7_0_ok: "prog_ok min_rocks_write_fcntl_7_0" "calls (body min_rocks_write_fcntl_7_0) = 82"
  by (simp_all add: prog_ok_def min_rocks_write_fcntl_7_0_defs prog_checks)

lemma min_rocks_write_fcntl_7_0_misses: "setup_misses min_rocks_write_fcntl_7_0" "filenames min_rocks_write_fcntl_7_0 \<noteq> []" "reg_body min_rocks_write_fcntl_7_0 = []" "num_regs min_rocks_write_fcntl_7_0 < 2 ^ 32"
  by (simp_all add: setup_misses_def opened_def misses_def path_names_def min_rocks_write_fcntl_7_0_defs prog_checks open_checks)

section \<open>min\_rocks\_newfstatat\_missing\_0\_0\<close>

definition min_rocks_newfstatat_missing_0_0_body1 :: "stmt list" where
  "min_rocks_newfstatat_missing_0_0_body1 = [
    Memset 0x20000080 0 1, Syscall NR_newfstatat [Dir_fd, Ptr 0x20000080, Ptr 0x200000c0, Imm 0x1000], Count,
    Memset 0x200004c0 0 1, Syscall NR_newfstatat [Dir_fd, Ptr 0x200004c0, Ptr 0x20000500, Imm 0x1000], Count,
    Memset 0x20000900 0 1, Syscall NR_newfstatat [Dir_fd, Ptr 0x20000900, Ptr 0x20000940, Imm 0x1000], Count]"

definition min_rocks_newfstatat_missing_0_0_body2 :: "stmt list" where
  "min_rocks_newfstatat_missing_0_0_body2 = [
    Memset 0x20000d40 0 1, Syscall NR_newfstatat [Dir_fd, Ptr 0x20000d40, Ptr 0x20000d80, Imm 0x1000], Count,
    Memset 0x20001180 0 1, Syscall NR_newfstatat [Dir_fd, Ptr 0x20001180, Ptr 0x200011c0, Imm 0x1000], Count,
    Memset 0x200015c0 0 1, Syscall NR_newfstatat [Dir_fd, Ptr 0x200015c0, Ptr 0x20001600, Imm 0x1000], Count]"

definition min_rocks_newfstatat_missing_0_0_body3 :: "stmt list" where
  "min_rocks_newfstatat_missing_0_0_body3 = [
    Memset 0x20001a00 0 1, Syscall NR_newfstatat [Dir_fd, Ptr 0x20001a00, Ptr 0x20001a40, Imm 0x1000], Count,
    Memset 0x20001e40 0 1, Syscall NR_newfstatat [Dir_fd, Ptr 0x20001e40, Ptr 0x20001e80, Imm 0x1000], Count,
    Memset 0x20002280 0 1, Syscall NR_newfstatat [Dir_fd, Ptr 0x20002280, Ptr 0x200022c0, Imm 0x1000], Count]"

definition min_rocks_newfstatat_missing_0_0_body4 :: "stmt list" where
  "min_rocks_newfstatat_missing_0_0_body4 = [
    Memset 0x200026c0 0 1, Syscall NR_newfstatat [Dir_fd, Ptr 0x200026c0, Ptr 0x20002700, Imm 0x1000], Count,
    Memset 0x20002b00 0 1, Syscall NR_newfstatat [Dir_fd, Ptr 0x20002b00, Ptr 0x20002b40, Imm 0x1000], Count,
    Memset 0x20002cc0 0 1, Syscall NR_newfstatat [Dir_fd, Ptr 0x20002cc0, Ptr 0x20002d00, Imm 0x1000], Count]"

definition min_rocks_newfstatat_missing_0_0_body5 :: "stmt list" where
  "min_rocks_newfstatat_missing_0_0_body5 = [
    Memset 0x200032c0 0 1, Syscall NR_newfstatat [Dir_fd, Ptr 0x200032c0, Ptr 0x20003300, Imm 0x1000], Count,
    Memset 0x20003640 0 1, Syscall NR_newfstatat [Dir_fd, Ptr 0x20003640, Ptr 0x20003680, Imm 0x1000], Count,
    Memset 0x20007f00 0 1, Syscall NR_newfstatat [Dir_fd, Ptr 0x20007f00, Ptr 0x20007f40, Imm 0x1000], Count]"

definition min_rocks_newfstatat_missing_0_0_body6 :: "stmt list" where
  "min_rocks_newfstatat_missing_0_0_body6 = [
    Memset 0x20008080 0 1, Syscall NR_newfstatat [Dir_fd, Ptr 0x20008080, Ptr 0x200080c0, Imm 0x1000], Count,
    Memset 0x20008c00 0 1, Syscall NR_newfstatat [Dir_fd, Ptr 0x20008c00, Ptr 0x20008c40, Imm 0x1000], Count,
    Memset 0x20008cc0 0 1, Syscall NR_newfstatat [Dir_fd, Ptr 0x20008cc0, Ptr 0x20008d00, Imm 0x1000], Count]"

definition min_rocks_newfstatat_missing_0_0_body7 :: "stmt list" where
  "min_rocks_newfstatat_missing_0_0_body7 = [
    Memset 0x20009280 0 1, Syscall NR_newfstatat [Dir_fd, Ptr 0x20009280, Ptr 0x200092c0, Imm 0x1000], Count,
    Memset 0x20009b40 0 1, Syscall NR_newfstatat [Dir_fd, Ptr 0x20009b40, Ptr 0x20009b80, Imm 0x1000], Count,
    Memset 0x20009d40 0 1, Syscall NR_newfstatat [Dir_fd, Ptr 0x20009d40, Ptr 0x20009d80, Imm 0x1000], Count]"

definition min_rocks_newfstatat_missing_0_0_body8 :: "stmt list" where
  "min_rocks_newfstatat_missing_0_0_body8 = [
    Memset 0x20009f00 0 1, Syscall NR_newfstatat [Dir_fd, Ptr 0x20009f00, Ptr 0x20009f40, Imm 0x1000], Count,
    Memset 0x2003db00 0 1, Syscall NR_newfstatat [Dir_fd, Ptr 0x2003db00, Ptr 0x2003db40, Imm 0x1000], Count,
    Memset 0x2003dcc0 0 1, Syscall NR_newfstatat [Dir_fd, Ptr 0x2003dcc0, Ptr 0x2003dd00, Imm 0x1000], Count]"

definition min_rocks_newfstatat_missing_0_0_body9 :: "stmt list" where
  "min_rocks_newfstatat_missing_0_0_body9 = [
    Memset 0x2003e040 0 1, Syscall NR_newfstatat [Dir_fd, Ptr 0x2003e040, Ptr 0x2003e080, Imm 0x1000], Count,
    Memset 0x2003e200 0 1, Syscall NR_newfstatat [Dir_fd, Ptr 0x2003e200, Ptr 0x2003e240, Imm 0x1000], Count,
    Memset 0x20d24b80 0 1, Syscall NR_newfstatat [Dir_fd, Ptr 0x20d24b80, Ptr 0x20d24bc0, Imm 0x1000], Count]"

definition min_rocks_newfstatat_missing_0_0_body10 :: "stmt list" where
  "min_rocks_newfstatat_missing_0_0_body10 = [
    Memset 0x20d32cc0 0 1, Syscall NR_newfstatat [Dir_fd, Ptr 0x20d32cc0, Ptr 0x20d32d00, Imm 0x1000], Count,
    Memset 0x20d356c0 0 1, Syscall NR_newfstatat [Dir_fd, Ptr 0x20d356c0, Ptr 0x20d35700, Imm 0x1000], Count,
    Memset 0x20d37c40 0 1, Syscall NR_newfstatat [Dir_fd, Ptr 0x20d37c40, Ptr 0x20d37c80, Imm 0x1000], Count]"

definition min_rocks_newfstatat_missing_0_0_body11 :: "stmt list" where
  "min_rocks_newfstatat_missing_0_0_body11 = [
    Memset 0x20d37e40 0 1, Syscall NR_newfstatat [Dir_fd, Ptr 0x20d37e40, Ptr 0x20d37e80, Imm 0x1000], Count,
    Memset 0x20d38040 0 1, Syscall NR_newfstatat [Dir_fd, Ptr 0x20d38040, Ptr 0x20d38080, Imm 0x1000], Count,
    Memset 0x20d38540 0 1, Syscall NR_newfstatat [Dir_fd, Ptr 0x20d38540, Ptr 0x20d38580, Imm 0x1000], Count]"

definition min_rocks_newfstatat_missing_0_0_body12 :: "stmt list" where
  "min_rocks_newfstatat_missing_0_0_body12 = [
    Memset 0x20edcbc0 0 1, Syscall NR_newfstatat [Dir_fd, Ptr 0x20edcbc0, Ptr 0x20edcc00, Imm 0x1000], Count,
    Memset 0x20edcec0 0 1, Syscall NR_newfstatat [Dir_fd, Ptr 0x20edcec0, Ptr 0x20edcf00, Imm 0x1000], Count]"

definition min_rocks_newfstatat_missing_0_0 :: syz_prog where
  "min_rocks_newfstatat_missing_0_0 = \<lparr>prog_name = ''min_rocks_newfstatat_missing_0_0'', prog_family = Rocksdb,
     subdirs = [''.''],
     filenames = [], filesizes = [],
     max_write_buffer = 0, init_regs = [],
     reg_body = [], dereg_body = [],
     body = min_rocks_newfstatat_missing_0_0_body1 @ min_rocks_newfstatat_missing_0_0_body2 @
       min_rocks_newfstatat_missing_0_0_body3 @ min_rocks_newfstatat_missing_0_0_body4 @
       min_rocks_newfstatat_missing_0_0_body5 @ min_rocks_newfstatat_missing_0_0_body6 @
       min_rocks_newfstatat_missing_0_0_body7 @ min_rocks_newfstatat_missing_0_0_body8 @
       min_rocks_newfstatat_missing_0_0_body9 @ min_rocks_newfstatat_missing_0_0_body10 @
       min_rocks_newfstatat_missing_0_0_body11 @ min_rocks_newfstatat_missing_0_0_body12\<rparr>"

definition min_rocks_newfstatat_missing_0_0_target where
  "min_rocks_newfstatat_missing_0_0_target os_getenv os_inet_pton K = syz_target os_getenv os_inet_pton K min_rocks_newfstatat_missing_0_0"

lemma min_rocks_newfstatat_missing_0_0_body1_ok: "body_ok 0 0 min_rocks_newfstatat_missing_0_0_body1" "counted min_rocks_newfstatat_missing_0_0_body1" "calls min_rocks_newfstatat_missing_0_0_body1 = 3" "opened_in m min_rocks_newfstatat_missing_0_0_body1 = []"
  by (simp_all add: min_rocks_newfstatat_missing_0_0_body1_def prog_checks open_checks)

lemma min_rocks_newfstatat_missing_0_0_body2_ok: "body_ok 0 0 min_rocks_newfstatat_missing_0_0_body2" "counted min_rocks_newfstatat_missing_0_0_body2" "calls min_rocks_newfstatat_missing_0_0_body2 = 3" "opened_in m min_rocks_newfstatat_missing_0_0_body2 = []"
  by (simp_all add: min_rocks_newfstatat_missing_0_0_body2_def prog_checks open_checks)

lemma min_rocks_newfstatat_missing_0_0_body3_ok: "body_ok 0 0 min_rocks_newfstatat_missing_0_0_body3" "counted min_rocks_newfstatat_missing_0_0_body3" "calls min_rocks_newfstatat_missing_0_0_body3 = 3" "opened_in m min_rocks_newfstatat_missing_0_0_body3 = []"
  by (simp_all add: min_rocks_newfstatat_missing_0_0_body3_def prog_checks open_checks)

lemma min_rocks_newfstatat_missing_0_0_body4_ok: "body_ok 0 0 min_rocks_newfstatat_missing_0_0_body4" "counted min_rocks_newfstatat_missing_0_0_body4" "calls min_rocks_newfstatat_missing_0_0_body4 = 3" "opened_in m min_rocks_newfstatat_missing_0_0_body4 = []"
  by (simp_all add: min_rocks_newfstatat_missing_0_0_body4_def prog_checks open_checks)

lemma min_rocks_newfstatat_missing_0_0_body5_ok: "body_ok 0 0 min_rocks_newfstatat_missing_0_0_body5" "counted min_rocks_newfstatat_missing_0_0_body5" "calls min_rocks_newfstatat_missing_0_0_body5 = 3" "opened_in m min_rocks_newfstatat_missing_0_0_body5 = []"
  by (simp_all add: min_rocks_newfstatat_missing_0_0_body5_def prog_checks open_checks)

lemma min_rocks_newfstatat_missing_0_0_body6_ok: "body_ok 0 0 min_rocks_newfstatat_missing_0_0_body6" "counted min_rocks_newfstatat_missing_0_0_body6" "calls min_rocks_newfstatat_missing_0_0_body6 = 3" "opened_in m min_rocks_newfstatat_missing_0_0_body6 = []"
  by (simp_all add: min_rocks_newfstatat_missing_0_0_body6_def prog_checks open_checks)

lemma min_rocks_newfstatat_missing_0_0_body7_ok: "body_ok 0 0 min_rocks_newfstatat_missing_0_0_body7" "counted min_rocks_newfstatat_missing_0_0_body7" "calls min_rocks_newfstatat_missing_0_0_body7 = 3" "opened_in m min_rocks_newfstatat_missing_0_0_body7 = []"
  by (simp_all add: min_rocks_newfstatat_missing_0_0_body7_def prog_checks open_checks)

lemma min_rocks_newfstatat_missing_0_0_body8_ok: "body_ok 0 0 min_rocks_newfstatat_missing_0_0_body8" "counted min_rocks_newfstatat_missing_0_0_body8" "calls min_rocks_newfstatat_missing_0_0_body8 = 3" "opened_in m min_rocks_newfstatat_missing_0_0_body8 = []"
  by (simp_all add: min_rocks_newfstatat_missing_0_0_body8_def prog_checks open_checks)

lemma min_rocks_newfstatat_missing_0_0_body9_ok: "body_ok 0 0 min_rocks_newfstatat_missing_0_0_body9" "counted min_rocks_newfstatat_missing_0_0_body9" "calls min_rocks_newfstatat_missing_0_0_body9 = 3" "opened_in m min_rocks_newfstatat_missing_0_0_body9 = []"
  by (simp_all add: min_rocks_newfstatat_missing_0_0_body9_def prog_checks open_checks)

lemma min_rocks_newfstatat_missing_0_0_body10_ok: "body_ok 0 0 min_rocks_newfstatat_missing_0_0_body10" "counted min_rocks_newfstatat_missing_0_0_body10" "calls min_rocks_newfstatat_missing_0_0_body10 = 3" "opened_in m min_rocks_newfstatat_missing_0_0_body10 = []"
  by (simp_all add: min_rocks_newfstatat_missing_0_0_body10_def prog_checks open_checks)

lemma min_rocks_newfstatat_missing_0_0_body11_ok: "body_ok 0 0 min_rocks_newfstatat_missing_0_0_body11" "counted min_rocks_newfstatat_missing_0_0_body11" "calls min_rocks_newfstatat_missing_0_0_body11 = 3" "opened_in m min_rocks_newfstatat_missing_0_0_body11 = []"
  by (simp_all add: min_rocks_newfstatat_missing_0_0_body11_def prog_checks open_checks)

lemma min_rocks_newfstatat_missing_0_0_body12_ok: "body_ok 0 0 min_rocks_newfstatat_missing_0_0_body12" "counted min_rocks_newfstatat_missing_0_0_body12" "calls min_rocks_newfstatat_missing_0_0_body12 = 2" "opened_in m min_rocks_newfstatat_missing_0_0_body12 = []"
  by (simp_all add: min_rocks_newfstatat_missing_0_0_body12_def prog_checks open_checks)

lemmas min_rocks_newfstatat_missing_0_0_bodies =
  min_rocks_newfstatat_missing_0_0_body1_ok min_rocks_newfstatat_missing_0_0_body2_ok
  min_rocks_newfstatat_missing_0_0_body3_ok min_rocks_newfstatat_missing_0_0_body4_ok
  min_rocks_newfstatat_missing_0_0_body5_ok min_rocks_newfstatat_missing_0_0_body6_ok
  min_rocks_newfstatat_missing_0_0_body7_ok min_rocks_newfstatat_missing_0_0_body8_ok
  min_rocks_newfstatat_missing_0_0_body9_ok min_rocks_newfstatat_missing_0_0_body10_ok
  min_rocks_newfstatat_missing_0_0_body11_ok min_rocks_newfstatat_missing_0_0_body12_ok

lemma min_rocks_newfstatat_missing_0_0_ok: "prog_ok min_rocks_newfstatat_missing_0_0" "calls (body min_rocks_newfstatat_missing_0_0) = 35"
  by (simp_all add: prog_ok_def counted_append prog_checks min_rocks_newfstatat_missing_0_0_def min_rocks_newfstatat_missing_0_0_bodies)

end
