(* ===== verification/CSB_Progs_Mysql_v2c.thy ===== *)
theory CSB_Progs_Mysql_v2c
  imports CSB_Syz_Files
begin

text \<open>
  Bodies of generated targets of bench/targets/mysql\_v2, statement by statement in the order of the
  files syz/<name>.h, and the targets made of them (the files <name>.h). Each passes the check.
\<close>

section \<open>min\_mysql\_read\_openat\_1\_0\<close>

definition min_mysql_read_openat_1_0_body1 :: "stmt list" where
  "min_mysql_read_openat_1_0_body1 = [
    Memcpy 0x2035a1c0 (with_nul ''./etc/pki/tls/cert.pem'') 23,
    Syscall NR_openat [Dir_fd, Ptr 0x2035a1c0, Imm 0x40, Imm 0x1ff], Count, Save_res 0,
    Syscall NR_read [Reg 0, Ptr 0x2035a2c0, Imm 0x1000], Count,
    Syscall NR_read [Reg 0, Ptr 0x2035b340, Imm 0x1000], Count,
    Syscall NR_read [Reg 0, Ptr 0x2035c3c0, Imm 0x1000], Count,
    Syscall NR_read [Reg 0, Ptr 0x2035d440, Imm 0x1000], Count,
    Syscall NR_read [Reg 0, Ptr 0x2035e540, Imm 0x1000], Count,
    Syscall NR_read [Reg 0, Ptr 0x2035f640, Imm 0x1000], Count,
    Syscall NR_read [Reg 0, Ptr 0x203606c0, Imm 0x1000], Count,
    Syscall NR_read [Reg 0, Ptr 0x20361740, Imm 0x1000], Count,
    Syscall NR_read [Reg 0, Ptr 0x203627c0, Imm 0x1000], Count,
    Syscall NR_read [Reg 0, Ptr 0x20363840, Imm 0x1000], Count,
    Syscall NR_read [Reg 0, Ptr 0x203648c0, Imm 0x1000], Count,
    Syscall NR_read [Reg 0, Ptr 0x20365940, Imm 0x1000], Count]"

definition min_mysql_read_openat_1_0_body2 :: "stmt list" where
  "min_mysql_read_openat_1_0_body2 = [
    Syscall NR_read [Reg 0, Ptr 0x20366a40, Imm 0x1000], Count,
    Syscall NR_read [Reg 0, Ptr 0x20367ac0, Imm 0x1000], Count,
    Syscall NR_read [Reg 0, Ptr 0x20368b40, Imm 0x1000], Count,
    Syscall NR_read [Reg 0, Ptr 0x20369c40, Imm 0x1000], Count,
    Syscall NR_read [Reg 0, Ptr 0x2036acc0, Imm 0x1000], Count,
    Syscall NR_read [Reg 0, Ptr 0x2036bd40, Imm 0x1000], Count,
    Syscall NR_read [Reg 0, Ptr 0x2036ce40, Imm 0x1000], Count,
    Syscall NR_read [Reg 0, Ptr 0x2036dec0, Imm 0x1000], Count,
    Syscall NR_read [Reg 0, Ptr 0x2036efc0, Imm 0x1000], Count,
    Syscall NR_read [Reg 0, Ptr 0x20370040, Imm 0x1000], Count,
    Syscall NR_read [Reg 0, Ptr 0x203710c0, Imm 0x1000], Count,
    Syscall NR_read [Reg 0, Ptr 0x20372140, Imm 0x1000], Count,
    Syscall NR_read [Reg 0, Ptr 0x203731c0, Imm 0x1000], Count,
    Syscall NR_read [Reg 0, Ptr 0x20374240, Imm 0x1000], Count]"

definition min_mysql_read_openat_1_0_body3 :: "stmt list" where
  "min_mysql_read_openat_1_0_body3 = [
    Syscall NR_read [Reg 0, Ptr 0x203752c0, Imm 0x1000], Count,
    Syscall NR_read [Reg 0, Ptr 0x203763c0, Imm 0x1000], Count,
    Syscall NR_read [Reg 0, Ptr 0x203774c0, Imm 0x1000], Count,
    Syscall NR_read [Reg 0, Ptr 0x20378540, Imm 0x1000], Count,
    Syscall NR_read [Reg 0, Ptr 0x203795c0, Imm 0x1000], Count,
    Syscall NR_read [Reg 0, Ptr 0x2037a6c0, Imm 0x1000], Count,
    Syscall NR_read [Reg 0, Ptr 0x2037b740, Imm 0x1000], Count,
    Syscall NR_read [Reg 0, Ptr 0x2037c7c0, Imm 0x1000], Count,
    Syscall NR_read [Reg 0, Ptr 0x2037d840, Imm 0x1000], Count,
    Syscall NR_read [Reg 0, Ptr 0x2037e8c0, Imm 0x1000], Count,
    Syscall NR_read [Reg 0, Ptr 0x2037f9c0, Imm 0x1000], Count,
    Syscall NR_read [Reg 0, Ptr 0x203809c0, Imm 0x1000], Count,
    Syscall NR_read [Reg 0, Ptr 0x20381ac0, Imm 0x1000], Count,
    Syscall NR_read [Reg 0, Ptr 0x20382b40, Imm 0x1000], Count]"

definition min_mysql_read_openat_1_0_body4 :: "stmt list" where
  "min_mysql_read_openat_1_0_body4 = [
    Syscall NR_read [Reg 0, Ptr 0x20383bc0, Imm 0x1000], Count,
    Syscall NR_read [Reg 0, Ptr 0x20384c40, Imm 0x1000], Count,
    Syscall NR_read [Reg 0, Ptr 0x20385cc0, Imm 0x1000], Count,
    Syscall NR_read [Reg 0, Ptr 0x20386dc0, Imm 0x1000], Count,
    Syscall NR_read [Reg 0, Ptr 0x20387e40, Imm 0x1000], Count,
    Syscall NR_read [Reg 0, Ptr 0x20388ec0, Imm 0x1000], Count,
    Syscall NR_read [Reg 0, Ptr 0x20389f40, Imm 0x1000], Count,
    Syscall NR_read [Reg 0, Ptr 0x2038afc0, Imm 0x1000], Count,
    Syscall NR_read [Reg 0, Ptr 0x2038c040, Imm 0x1000], Count,
    Syscall NR_read [Reg 0, Ptr 0x2038d140, Imm 0x1000], Count,
    Syscall NR_read [Reg 0, Ptr 0x2038e1c0, Imm 0x1000], Count,
    Syscall NR_read [Reg 0, Ptr 0x2038f240, Imm 0x1000], Count,
    Syscall NR_read [Reg 0, Ptr 0x203902c0, Imm 0x1000], Count,
    Syscall NR_read [Reg 0, Ptr 0x20391340, Imm 0x1000], Count]"

definition min_mysql_read_openat_1_0_body5 :: "stmt list" where
  "min_mysql_read_openat_1_0_body5 = [
    Syscall NR_read [Reg 0, Ptr 0x20392440, Imm 0x1000], Count,
    Syscall NR_read [Reg 0, Ptr 0x20393540, Imm 0x1000], Count,
    Syscall NR_read [Reg 0, Ptr 0x20394540, Imm 0x1000], Count,
    Syscall NR_read [Reg 0, Ptr 0x20395640, Imm 0x1000], Count,
    Syscall NR_read [Reg 0, Ptr 0x203966c0, Imm 0x1000], Count,
    Syscall NR_read [Reg 0, Ptr 0x203977c0, Imm 0x1000], Count,
    Syscall NR_read [Reg 0, Ptr 0x20398840, Imm 0x1000], Count,
    Syscall NR_read [Reg 0, Ptr 0x20399640, Imm 0x1000], Count, Syscall NR_close [Reg 0], Count]"

definition min_mysql_read_openat_1_0 :: syz_prog where
  "min_mysql_read_openat_1_0 = \<lparr>prog_name = ''min_mysql_read_openat_1_0'', prog_family = Mysql_v2,
     subdirs = [''etc/pki/tls''],
     filenames = [''./etc/pki/tls/cert.pe''], filesizes = [0],
     max_write_buffer = 0, init_regs = replicate 1 (- 1),
     reg_body = [], dereg_body = [],
     body = min_mysql_read_openat_1_0_body1 @ min_mysql_read_openat_1_0_body2 @ min_mysql_read_openat_1_0_body3 @
       min_mysql_read_openat_1_0_body4 @ min_mysql_read_openat_1_0_body5\<rparr>"

definition min_mysql_read_openat_1_0_target where
  "min_mysql_read_openat_1_0_target os_getenv os_inet_pton K = syz_target os_getenv os_inet_pton K min_mysql_read_openat_1_0"

lemmas min_mysql_read_openat_1_0_defs =
  min_mysql_read_openat_1_0_def min_mysql_read_openat_1_0_body1_def min_mysql_read_openat_1_0_body2_def
  min_mysql_read_openat_1_0_body3_def min_mysql_read_openat_1_0_body4_def
  min_mysql_read_openat_1_0_body5_def

lemma min_mysql_read_openat_1_0_ok: "prog_ok min_mysql_read_openat_1_0" "calls (body min_mysql_read_openat_1_0) = 64"
  by (simp_all add: prog_ok_def min_mysql_read_openat_1_0_defs prog_checks)

lemma min_mysql_read_openat_1_0_misses: "setup_misses min_mysql_read_openat_1_0" "filenames min_mysql_read_openat_1_0 \<noteq> []" "reg_body min_mysql_read_openat_1_0 = []" "num_regs min_mysql_read_openat_1_0 < 2 ^ 32"
  by (simp_all add: setup_misses_def opened_def misses_def path_names_def min_mysql_read_openat_1_0_defs prog_checks open_checks)

section \<open>min\_mysql\_pread64\_fcntl\_9\_0\<close>

definition min_mysql_pread64_fcntl_9_0_body1 :: "stmt list" where
  "min_mysql_pread64_fcntl_9_0_body1 = [
    Memcpy 0x202334c0 (with_nul ''./undo_002'') 11,
    Syscall NR_openat [Dir_fd, Ptr 0x202334c0, Imm 0x42, Imm 0x1ff], Count, Save_res 0,
    Syscall NR_fcntl [Reg 0, Imm 4, Imm 0x10000], Count, Store 2 0x20233500 (Imm 1), Store 2 0x20233502 (Imm 0),
    Store 8 0x20233508 (Imm 0), Store 8 0x20233510 (Imm 0), Store 4 0x20233518 (Imm 0),
    Syscall NR_fcntl [Reg 0, Imm 6, Ptr 0x20233500], Count,
    Syscall NR_pread64 [Reg 0, Ptr 0x202539c0, Imm 0x4000, Imm 0x20c000], Count,
    Syscall NR_pread64 [Reg 0, Ptr 0x20267ac0, Imm 0x4000, Imm 0x590000], Count,
    Syscall NR_pread64 [Reg 0, Ptr 0x20273ac0, Imm 0x4000, Imm 0x514000], Count,
    Syscall NR_pread64 [Reg 0, Ptr 0x20277ac0, Imm 0x4000, Imm 0x1f0000], Count,
    Syscall NR_pread64 [Reg 0, Ptr 0x20287ac0, Imm 0x4000, Imm 0x5c0000], Count,
    Syscall NR_pread64 [Reg 0, Ptr 0x2029bb80, Imm 0x4000, Imm 0x1ec000], Count,
    Syscall NR_pread64 [Reg 0, Ptr 0x202a3b80, Imm 0x4000, Imm 0x52c000], Count,
    Syscall NR_pread64 [Reg 0, Ptr 0x202bfc80, Imm 0x4000, Imm 0x1d8000], Count]"

definition min_mysql_pread64_fcntl_9_0_body2 :: "stmt list" where
  "min_mysql_pread64_fcntl_9_0_body2 = [
    Syscall NR_pread64 [Reg 0, Ptr 0x202d3c80, Imm 0x4000, Imm 0x2b4000], Count,
    Syscall NR_pread64 [Reg 0, Ptr 0x202dfc80, Imm 0x4000, Imm 0x1c0000], Count,
    Syscall NR_pread64 [Reg 0, Ptr 0x202ebc80, Imm 0x4000, Imm 0x524000], Count,
    Syscall NR_pread64 [Reg 0, Ptr 0x202f3c80, Imm 0x4000, Imm 0x1b8000], Count,
    Syscall NR_pread64 [Reg 0, Ptr 0x2030fc80, Imm 0x4000, Imm 0x474000], Count,
    Syscall NR_pread64 [Reg 0, Ptr 0x20317d40, Imm 0x4000, Imm 0x4cc000], Count,
    Syscall NR_pread64 [Reg 0, Ptr 0x20327d40, Imm 0x4000, Imm 0x1a4000], Count,
    Syscall NR_pread64 [Reg 0, Ptr 0x20367d40, Imm 0x4000, Imm 0x5ac000], Count,
    Syscall NR_pread64 [Reg 0, Ptr 0x203c3e40, Imm 0x4000, Imm 0x50c000], Count,
    Syscall NR_pread64 [Reg 0, Ptr 0x203d48c0, Imm 0x4000, Imm 0x154000], Count,
    Syscall NR_pread64 [Reg 0, Ptr 0x203d88c0, Imm 0x4000, Imm 0x274000], Count,
    Syscall NR_pread64 [Reg 0, Ptr 0x203fc8c0, Imm 0x4000, Imm 0x148000], Count,
    Syscall NR_pread64 [Reg 0, Ptr 0x2040c8c0, Imm 0x4000, Imm 0x458000], Count]"

definition min_mysql_pread64_fcntl_9_0_body3 :: "stmt list" where
  "min_mysql_pread64_fcntl_9_0_body3 = [
    Syscall NR_pread64 [Reg 0, Ptr 0x204248c0, Imm 0x4000, Imm 0x580000], Count,
    Syscall NR_pread64 [Reg 0, Ptr 0x204348c0, Imm 0x4000, Imm 0x12c000], Count,
    Syscall NR_pread64 [Reg 0, Ptr 0x204448c0, Imm 0x4000, Imm 0x44c000], Count,
    Syscall NR_pread64 [Reg 0, Ptr 0x204548c0, Imm 0x4000, Imm 0x120000], Count,
    Syscall NR_pread64 [Reg 0, Ptr 0x204648c0, Imm 0x4000, Imm 0x2c4000], Count,
    Syscall NR_pread64 [Reg 0, Ptr 0x204708c0, Imm 0x4000, Imm 0x110000], Count,
    Syscall NR_pread64 [Reg 0, Ptr 0x204ac980, Imm 0x4000, Imm 0x2f0000], Count,
    Syscall NR_pread64 [Reg 0, Ptr 0x204b0980, Imm 0x4000, Imm 0xe8000], Count,
    Syscall NR_pread64 [Reg 0, Ptr 0x204c0980, Imm 0x4000, Imm 0x5a8000], Count,
    Syscall NR_pread64 [Reg 0, Ptr 0x204dca80, Imm 0x4000, Imm 0xe4000], Count,
    Syscall NR_pread64 [Reg 0, Ptr 0x204eca80, Imm 0x4000, Imm 0x5f0000], Count,
    Syscall NR_pread64 [Reg 0, Ptr 0x20508b40, Imm 0x4000, Imm 0xc8000], Count,
    Syscall NR_pread64 [Reg 0, Ptr 0x20518b40, Imm 0x4000, Imm 0x430000], Count]"

definition min_mysql_pread64_fcntl_9_0_body4 :: "stmt list" where
  "min_mysql_pread64_fcntl_9_0_body4 = [
    Syscall NR_pread64 [Reg 0, Ptr 0x20524b40, Imm 0x4000, Imm 0xc0000], Count,
    Syscall NR_pread64 [Reg 0, Ptr 0x20530b40, Imm 0x4000, Imm 0x5a0000], Count,
    Syscall NR_pread64 [Reg 0, Ptr 0x2053cb40, Imm 0x4000, Imm 0xb0000], Count,
    Syscall NR_pread64 [Reg 0, Ptr 0x20540b40, Imm 0x4000, Imm 0x59c000], Count,
    Syscall NR_pread64 [Reg 0, Ptr 0x20548b40, Imm 0x4000, Imm 0xa8000], Count,
    Syscall NR_pread64 [Reg 0, Ptr 0x2054cb40, Imm 0x4000, Imm 0x284000], Count,
    Syscall NR_pread64 [Reg 0, Ptr 0x20554b40, Imm 0x4000, Imm 0xa4000], Count,
    Syscall NR_pread64 [Reg 0, Ptr 0x2055cb40, Imm 0x4000, Imm 0x444000], Count,
    Syscall NR_pread64 [Reg 0, Ptr 0x20568b40, Imm 0x4000, Imm 0x9c000], Count,
    Syscall NR_pread64 [Reg 0, Ptr 0x20594b40, Imm 0x4000, Imm 0x2e8000], Count,
    Syscall NR_pread64 [Reg 0, Ptr 0x205a4b40, Imm 0x4000, Imm 0x80000], Count,
    Syscall NR_pread64 [Reg 0, Ptr 0x205acb40, Imm 0x4000, Imm 0x264000], Count,
    Syscall NR_pread64 [Reg 0, Ptr 0x205b8b40, Imm 0x4000, Imm 0x4e4000], Count]"

definition min_mysql_pread64_fcntl_9_0_body5 :: "stmt list" where
  "min_mysql_pread64_fcntl_9_0_body5 = [
    Syscall NR_pread64 [Reg 0, Ptr 0x205c4b40, Imm 0x4000, Imm 0x70000], Count,
    Syscall NR_pread64 [Reg 0, Ptr 0x205dcb40, Imm 0x4000, Imm 0x29c000], Count,
    Syscall NR_pread64 [Reg 0, Ptr 0x205e8b40, Imm 0x4000, Imm 0x60000], Count,
    Syscall NR_pread64 [Reg 0, Ptr 0x205f4b40, Imm 0x4000, Imm 0x2c0000], Count,
    Syscall NR_pread64 [Reg 0, Ptr 0x20600b40, Imm 0x4000, Imm 0x54000], Count,
    Syscall NR_pread64 [Reg 0, Ptr 0x20620b40, Imm 0x4000, Imm 0x410000], Count,
    Syscall NR_pread64 [Reg 0, Ptr 0x2062cb40, Imm 0x4000, Imm 0x40000], Count,
    Syscall NR_pread64 [Reg 0, Ptr 0x2063cb40, Imm 0x4000, Imm 0x558000], Count,
    Syscall NR_pread64 [Reg 0, Ptr 0x20654b40, Imm 0x4000, Imm 0x2c000], Count,
    Syscall NR_pread64 [Reg 0, Ptr 0x20664b40, Imm 0x4000, Imm 0x278000], Count,
    Syscall NR_pread64 [Reg 0, Ptr 0x2067cb40, Imm 0x4000, Imm 0x1c000], Count,
    Syscall NR_pread64 [Reg 0, Ptr 0x20688b40, Imm 0x4000, Imm 0x2d0000], Count,
    Syscall NR_pread64 [Reg 0, Ptr 0x20698b40, Imm 0x4000, Imm 0x4dc000], Count]"

definition min_mysql_pread64_fcntl_9_0 :: syz_prog where
  "min_mysql_pread64_fcntl_9_0 = \<lparr>prog_name = ''min_mysql_pread64_fcntl_9_0'', prog_family = Mysql_v2,
     subdirs = [''.''],
     filenames = [''./undo_00''], filesizes = [6242304],
     max_write_buffer = 0, init_regs = replicate 1 (- 1),
     reg_body = [], dereg_body = [],
     body = min_mysql_pread64_fcntl_9_0_body1 @ min_mysql_pread64_fcntl_9_0_body2 @
       min_mysql_pread64_fcntl_9_0_body3 @ min_mysql_pread64_fcntl_9_0_body4 @
       min_mysql_pread64_fcntl_9_0_body5\<rparr>"

definition min_mysql_pread64_fcntl_9_0_target where
  "min_mysql_pread64_fcntl_9_0_target os_getenv os_inet_pton K = syz_target os_getenv os_inet_pton K min_mysql_pread64_fcntl_9_0"

lemmas min_mysql_pread64_fcntl_9_0_defs =
  min_mysql_pread64_fcntl_9_0_def min_mysql_pread64_fcntl_9_0_body1_def
  min_mysql_pread64_fcntl_9_0_body2_def min_mysql_pread64_fcntl_9_0_body3_def
  min_mysql_pread64_fcntl_9_0_body4_def min_mysql_pread64_fcntl_9_0_body5_def

lemma min_mysql_pread64_fcntl_9_0_ok: "prog_ok min_mysql_pread64_fcntl_9_0" "calls (body min_mysql_pread64_fcntl_9_0) = 63"
  by (simp_all add: prog_ok_def min_mysql_pread64_fcntl_9_0_defs prog_checks)

lemma min_mysql_pread64_fcntl_9_0_misses: "setup_misses min_mysql_pread64_fcntl_9_0" "filenames min_mysql_pread64_fcntl_9_0 \<noteq> []" "reg_body min_mysql_pread64_fcntl_9_0 = []" "num_regs min_mysql_pread64_fcntl_9_0 < 2 ^ 32"
  by (simp_all add: setup_misses_def opened_def misses_def path_names_def min_mysql_pread64_fcntl_9_0_defs prog_checks open_checks)

section \<open>min\_mysql\_pread64\_fcntl\_8\_0\<close>

definition min_mysql_pread64_fcntl_8_0_body1 :: "stmt list" where
  "min_mysql_pread64_fcntl_8_0_body1 = [
    Memcpy 0x2020e8c0 (with_nul ''./undo_001'') 11,
    Syscall NR_openat [Dir_fd, Ptr 0x2020e8c0, Imm 0x42, Imm 0x1ff], Count, Save_res 0,
    Syscall NR_fcntl [Reg 0, Imm 4, Imm 0x10000], Count, Store 2 0x2020e900 (Imm 1), Store 2 0x2020e902 (Imm 0),
    Store 8 0x2020e908 (Imm 0), Store 8 0x2020e910 (Imm 0), Store 4 0x2020e918 (Imm 0),
    Syscall NR_fcntl [Reg 0, Imm 6, Ptr 0x2020e900], Count,
    Syscall NR_pread64 [Reg 0, Ptr 0x206d4c40, Imm 0x4000, Imm 0x204000], Count,
    Syscall NR_pread64 [Reg 0, Ptr 0x206dcc40, Imm 0x4000, Imm 0x218000], Count,
    Syscall NR_pread64 [Reg 0, Ptr 0x206e8c40, Imm 0x4000, Imm 0x498000], Count,
    Syscall NR_pread64 [Reg 0, Ptr 0x20700d00, Imm 0x4000, Imm 0x1ec000], Count,
    Syscall NR_pread64 [Reg 0, Ptr 0x20710d00, Imm 0x4000, Imm 0x48c000], Count,
    Syscall NR_pread64 [Reg 0, Ptr 0x20728d00, Imm 0x4000, Imm 0x1dc000], Count,
    Syscall NR_pread64 [Reg 0, Ptr 0x2074ce00, Imm 0x4000, Imm 0x7e4000], Count,
    Syscall NR_pread64 [Reg 0, Ptr 0x2075ce00, Imm 0x4000, Imm 0x484000], Count]"

definition min_mysql_pread64_fcntl_8_0_body2 :: "stmt list" where
  "min_mysql_pread64_fcntl_8_0_body2 = [
    Syscall NR_pread64 [Reg 0, Ptr 0x20768e00, Imm 0x4000, Imm 0x1bc000], Count,
    Syscall NR_pread64 [Reg 0, Ptr 0x20788ec0, Imm 0x4000, Imm 0x2dc000], Count,
    Syscall NR_pread64 [Reg 0, Ptr 0x207a5940, Imm 0x4000, Imm 0x760000], Count,
    Syscall NR_pread64 [Reg 0, Ptr 0x207c1940, Imm 0x4000, Imm 0x1a4000], Count,
    Syscall NR_pread64 [Reg 0, Ptr 0x207c5940, Imm 0x4000, Imm 0x7b8000], Count,
    Syscall NR_pread64 [Reg 0, Ptr 0x207c9940, Imm 0x4000, Imm 0x2a4000], Count,
    Syscall NR_pread64 [Reg 0, Ptr 0x207d5940, Imm 0x4000, Imm 0x198000], Count,
    Syscall NR_pread64 [Reg 0, Ptr 0x207e1940, Imm 0x4000, Imm 0x234000], Count,
    Syscall NR_pread64 [Reg 0, Ptr 0x207e9940, Imm 0x4000, Imm 0x18c000], Count,
    Syscall NR_pread64 [Reg 0, Ptr 0x207f1940, Imm 0x4000, Imm 0x7b4000], Count,
    Syscall NR_pread64 [Reg 0, Ptr 0x207f9940, Imm 0x4000, Imm 0x184000], Count,
    Syscall NR_pread64 [Reg 0, Ptr 0x20809940, Imm 0x4000, Imm 0x7dc000], Count,
    Syscall NR_pread64 [Reg 0, Ptr 0x20815940, Imm 0x4000, Imm 0x178000], Count]"

definition min_mysql_pread64_fcntl_8_0_body3 :: "stmt list" where
  "min_mysql_pread64_fcntl_8_0_body3 = [
    Syscall NR_pread64 [Reg 0, Ptr 0x20845a40, Imm 0x4000, Imm 0x7fc000], Count,
    Syscall NR_pread64 [Reg 0, Ptr 0x20855a40, Imm 0x4000, Imm 0x154000], Count,
    Syscall NR_pread64 [Reg 0, Ptr 0x20865a40, Imm 0x4000, Imm 0x7cc000], Count,
    Syscall NR_pread64 [Reg 0, Ptr 0x20875a40, Imm 0x4000, Imm 0x144000], Count,
    Syscall NR_pread64 [Reg 0, Ptr 0x20885a40, Imm 0x4000, Imm 0x7a8000], Count,
    Syscall NR_pread64 [Reg 0, Ptr 0x20895a40, Imm 0x4000, Imm 0x464000], Count,
    Syscall NR_pread64 [Reg 0, Ptr 0x208c5a40, Imm 0x4000, Imm 0x134000], Count,
    Syscall NR_pread64 [Reg 0, Ptr 0x208d9b00, Imm 0x4000, Imm 0x2b8000], Count,
    Syscall NR_pread64 [Reg 0, Ptr 0x208e9b00, Imm 0x4000, Imm 0x114000], Count,
    Syscall NR_pread64 [Reg 0, Ptr 0x20935c00, Imm 0x4000, Imm 0x2b4000], Count,
    Syscall NR_pread64 [Reg 0, Ptr 0x20945c00, Imm 0x4000, Imm 0xe4000], Count,
    Syscall NR_pread64 [Reg 0, Ptr 0x2094dc00, Imm 0x4000, Imm 0x228000], Count,
    Syscall NR_pread64 [Reg 0, Ptr 0x20959c00, Imm 0x4000, Imm 0x750000], Count]"

definition min_mysql_pread64_fcntl_8_0_body4 :: "stmt list" where
  "min_mysql_pread64_fcntl_8_0_body4 = [
    Syscall NR_pread64 [Reg 0, Ptr 0x20965c00, Imm 0x4000, Imm 0xd8000], Count,
    Syscall NR_pread64 [Reg 0, Ptr 0x209b1cc0, Imm 0x4000, Imm 0x778000], Count,
    Syscall NR_pread64 [Reg 0, Ptr 0x209c1cc0, Imm 0x4000, Imm 0x454000], Count,
    Syscall NR_pread64 [Reg 0, Ptr 0x209cdcc0, Imm 0x4000, Imm 0xa0000], Count,
    Syscall NR_pread64 [Reg 0, Ptr 0x209d9cc0, Imm 0x4000, Imm 0x28c000], Count,
    Syscall NR_pread64 [Reg 0, Ptr 0x209e9cc0, Imm 0x4000, Imm 0x98000], Count,
    Syscall NR_pread64 [Reg 0, Ptr 0x20a51dc0, Imm 0x4000, Imm 0x7f4000], Count,
    Syscall NR_pread64 [Reg 0, Ptr 0x20a5ddc0, Imm 0x4000, Imm 0x64000], Count,
    Syscall NR_pread64 [Reg 0, Ptr 0x20a61dc0, Imm 0x4000, Imm 0x430000], Count,
    Syscall NR_pread64 [Reg 0, Ptr 0x20a65dc0, Imm 0x4000, Imm 0x58000], Count,
    Syscall NR_pread64 [Reg 0, Ptr 0x20a71dc0, Imm 0x4000, Imm 0x42c000], Count,
    Syscall NR_pread64 [Reg 0, Ptr 0x20a8ddc0, Imm 0x4000, Imm 0x54000], Count,
    Syscall NR_pread64 [Reg 0, Ptr 0x20a99e80, Imm 0x4000, Imm 0x428000], Count]"

definition min_mysql_pread64_fcntl_8_0_body5 :: "stmt list" where
  "min_mysql_pread64_fcntl_8_0_body5 = [
    Syscall NR_pread64 [Reg 0, Ptr 0x20aa5e80, Imm 0x4000, Imm 0x3c000], Count,
    Syscall NR_pread64 [Reg 0, Ptr 0x20ab5e80, Imm 0x4000, Imm 0x2c8000], Count,
    Syscall NR_pread64 [Reg 0, Ptr 0x20abde80, Imm 0x4000, Imm 0x30000], Count,
    Syscall NR_pread64 [Reg 0, Ptr 0x20ac5e80, Imm 0x4000, Imm 0x2e4000], Count,
    Syscall NR_pread64 [Reg 0, Ptr 0x20acde80, Imm 0x4000, Imm 0x4a4000], Count,
    Syscall NR_pread64 [Reg 0, Ptr 0x20ad5e80, Imm 0x4000, Imm 0x28000], Count,
    Syscall NR_pread64 [Reg 0, Ptr 0x20adde80, Imm 0x4000, Imm 0x424000], Count,
    Syscall NR_pread64 [Reg 0, Ptr 0x20ae5e80, Imm 0x4000, Imm 0x4a0000], Count,
    Syscall NR_pread64 [Reg 0, Ptr 0x20aede80, Imm 0x4000, Imm 0x1c000], Count,
    Syscall NR_pread64 [Reg 0, Ptr 0x20af1e80, Imm 0x4000, Imm 0x220000], Count,
    Syscall NR_pread64 [Reg 0, Ptr 0x20af5e80, Imm 0x4000, Imm 0x764000], Count,
    Syscall NR_pread64 [Reg 0, Ptr 0x20afde80, Imm 0x4000, Imm 0x18000], Count,
    Syscall NR_pread64 [Reg 0, Ptr 0x20b11e80, Imm 0x4000, Imm 0x4ac000], Count,
    Syscall NR_pread64 [Reg 0, Ptr 0x20b19e80, Imm 0x4000, Imm 0x740000], Count]"

definition min_mysql_pread64_fcntl_8_0 :: syz_prog where
  "min_mysql_pread64_fcntl_8_0 = \<lparr>prog_name = ''min_mysql_pread64_fcntl_8_0'', prog_family = Mysql_v2,
     subdirs = [''.''],
     filenames = [''./undo_00''], filesizes = [8388608],
     max_write_buffer = 0, init_regs = replicate 1 (- 1),
     reg_body = [], dereg_body = [],
     body = min_mysql_pread64_fcntl_8_0_body1 @ min_mysql_pread64_fcntl_8_0_body2 @
       min_mysql_pread64_fcntl_8_0_body3 @ min_mysql_pread64_fcntl_8_0_body4 @
       min_mysql_pread64_fcntl_8_0_body5\<rparr>"

definition min_mysql_pread64_fcntl_8_0_target where
  "min_mysql_pread64_fcntl_8_0_target os_getenv os_inet_pton K = syz_target os_getenv os_inet_pton K min_mysql_pread64_fcntl_8_0"

lemmas min_mysql_pread64_fcntl_8_0_defs =
  min_mysql_pread64_fcntl_8_0_def min_mysql_pread64_fcntl_8_0_body1_def
  min_mysql_pread64_fcntl_8_0_body2_def min_mysql_pread64_fcntl_8_0_body3_def
  min_mysql_pread64_fcntl_8_0_body4_def min_mysql_pread64_fcntl_8_0_body5_def

lemma min_mysql_pread64_fcntl_8_0_ok: "prog_ok min_mysql_pread64_fcntl_8_0" "calls (body min_mysql_pread64_fcntl_8_0) = 64"
  by (simp_all add: prog_ok_def min_mysql_pread64_fcntl_8_0_defs prog_checks)

lemma min_mysql_pread64_fcntl_8_0_misses: "setup_misses min_mysql_pread64_fcntl_8_0" "filenames min_mysql_pread64_fcntl_8_0 \<noteq> []" "reg_body min_mysql_pread64_fcntl_8_0 = []" "num_regs min_mysql_pread64_fcntl_8_0 < 2 ^ 32"
  by (simp_all add: setup_misses_def opened_def misses_def path_names_def min_mysql_pread64_fcntl_8_0_defs prog_checks open_checks)

section \<open>min\_mysql\_openat\_fsync\_1\_0\<close>

definition min_mysql_openat_fsync_1_0_body1 :: "stmt list" where
  "min_mysql_openat_fsync_1_0_body1 = [
    Memcpy 0x201e1c40 (with_nul ''./#innodb_redo'') 15,
    Syscall NR_openat [Dir_fd, Ptr 0x201e1c40, Imm 0x40, Imm 0x1ff], Count, Save_res 0,
    Syscall NR_fsync [Reg 0], Count, Syscall NR_close [Reg 0], Count,
    Memcpy 0x20247980 (with_nul ''./#innodb_redo'') 15,
    Syscall NR_openat [Dir_fd, Ptr 0x20247980, Imm 0x40, Imm 0x1ff], Count, Save_res 1,
    Syscall NR_fsync [Reg 1], Count, Syscall NR_close [Reg 1], Count,
    Memcpy 0x2028fb40 (with_nul ''./#innodb_redo'') 15,
    Syscall NR_openat [Dir_fd, Ptr 0x2028fb40, Imm 0x40, Imm 0x1ff], Count, Save_res 2,
    Syscall NR_fsync [Reg 2], Count, Syscall NR_close [Reg 2], Count,
    Memcpy 0x20313d00 (with_nul ''./#innodb_redo'') 15,
    Syscall NR_openat [Dir_fd, Ptr 0x20313d00, Imm 0x40, Imm 0x1ff], Count, Save_res 3,
    Syscall NR_fsync [Reg 3], Count, Syscall NR_close [Reg 3], Count,
    Memcpy 0x204a0940 (with_nul ''./#innodb_redo'') 15,
    Syscall NR_openat [Dir_fd, Ptr 0x204a0940, Imm 0x40, Imm 0x1ff], Count, Save_res 4,
    Syscall NR_fsync [Reg 4], Count, Syscall NR_close [Reg 4], Count]"

definition min_mysql_openat_fsync_1_0_body2 :: "stmt list" where
  "min_mysql_openat_fsync_1_0_body2 = [
    Memcpy 0x20504b00 (with_nul ''./#innodb_redo'') 15,
    Syscall NR_openat [Dir_fd, Ptr 0x20504b00, Imm 0x40, Imm 0x1ff], Count, Save_res 5,
    Syscall NR_fsync [Reg 5], Count, Syscall NR_close [Reg 5], Count,
    Memcpy 0x20700cc0 (with_nul ''./#innodb_redo'') 15,
    Syscall NR_openat [Dir_fd, Ptr 0x20700cc0, Imm 0x40, Imm 0x1ff], Count, Save_res 6,
    Syscall NR_fsync [Reg 6], Count, Syscall NR_close [Reg 6], Count,
    Memcpy 0x20784e80 (with_nul ''./#innodb_redo'') 15,
    Syscall NR_openat [Dir_fd, Ptr 0x20784e80, Imm 0x40, Imm 0x1ff], Count, Save_res 7,
    Syscall NR_fsync [Reg 7], Count, Syscall NR_close [Reg 7], Count,
    Memcpy 0x208c9ac0 (with_nul ''./#innodb_redo'') 15,
    Syscall NR_openat [Dir_fd, Ptr 0x208c9ac0, Imm 0x40, Imm 0x1ff], Count, Save_res 8,
    Syscall NR_fsync [Reg 8], Count, Syscall NR_close [Reg 8], Count,
    Memcpy 0x209a9c80 (with_nul ''./#innodb_redo'') 15,
    Syscall NR_openat [Dir_fd, Ptr 0x209a9c80, Imm 0x40, Imm 0x1ff], Count, Save_res 9,
    Syscall NR_fsync [Reg 9], Count, Syscall NR_close [Reg 9], Count,
    Memcpy 0x20a95e40 (with_nul ''./#innodb_redo'') 15,
    Syscall NR_openat [Dir_fd, Ptr 0x20a95e40, Imm 0x40, Imm 0x1ff], Count, Save_res 10]"

definition min_mysql_openat_fsync_1_0_body3 :: "stmt list" where
  "min_mysql_openat_fsync_1_0_body3 = [
    Syscall NR_fsync [Reg 10], Count, Syscall NR_close [Reg 10], Count,
    Memcpy 0x20bee140 (with_nul ''./#innodb_redo'') 15,
    Syscall NR_openat [Dir_fd, Ptr 0x20bee140, Imm 0x40, Imm 0x1ff], Count, Save_res 11,
    Syscall NR_fsync [Reg 11], Count, Syscall NR_close [Reg 11], Count,
    Memcpy 0x20cafc00 (with_nul ''./#innodb_redo'') 15,
    Syscall NR_openat [Dir_fd, Ptr 0x20cafc00, Imm 0x40, Imm 0x1ff], Count, Save_res 12,
    Syscall NR_fsync [Reg 12], Count, Syscall NR_close [Reg 12], Count,
    Memcpy 0x20cb46c0 (with_nul ''./#innodb_redo'') 15,
    Syscall NR_openat [Dir_fd, Ptr 0x20cb46c0, Imm 0x40, Imm 0x1ff], Count, Save_res 13,
    Syscall NR_fsync [Reg 13], Count, Syscall NR_close [Reg 13], Count,
    Memcpy 0x20cb8b00 (with_nul ''./#innodb_redo'') 15,
    Syscall NR_openat [Dir_fd, Ptr 0x20cb8b00, Imm 0x40, Imm 0x1ff], Count, Save_res 14,
    Syscall NR_fsync [Reg 14], Count, Syscall NR_close [Reg 14], Count,
    Memcpy 0x20cbcf40 (with_nul ''./#innodb_redo'') 15,
    Syscall NR_openat [Dir_fd, Ptr 0x20cbcf40, Imm 0x40, Imm 0x1ff], Count, Save_res 15,
    Syscall NR_fsync [Reg 15], Count, Syscall NR_close [Reg 15], Count]"

definition min_mysql_openat_fsync_1_0_body4 :: "stmt list" where
  "min_mysql_openat_fsync_1_0_body4 = [
    Memcpy 0x20cc1380 (with_nul ''./#innodb_redo'') 15,
    Syscall NR_openat [Dir_fd, Ptr 0x20cc1380, Imm 0x40, Imm 0x1ff], Count, Save_res 16,
    Syscall NR_fsync [Reg 16], Count, Syscall NR_close [Reg 16], Count,
    Memcpy 0x20cc57c0 (with_nul ''./#innodb_redo'') 15,
    Syscall NR_openat [Dir_fd, Ptr 0x20cc57c0, Imm 0x40, Imm 0x1ff], Count, Save_res 17,
    Syscall NR_fsync [Reg 17], Count, Syscall NR_close [Reg 17], Count,
    Memcpy 0x20cc9c00 (with_nul ''./#innodb_redo'') 15,
    Syscall NR_openat [Dir_fd, Ptr 0x20cc9c00, Imm 0x40, Imm 0x1ff], Count, Save_res 18,
    Syscall NR_fsync [Reg 18], Count, Syscall NR_close [Reg 18], Count,
    Memcpy 0x20cce040 (with_nul ''./#innodb_redo'') 15,
    Syscall NR_openat [Dir_fd, Ptr 0x20cce040, Imm 0x40, Imm 0x1ff], Count, Save_res 19,
    Syscall NR_fsync [Reg 19], Count, Syscall NR_close [Reg 19], Count,
    Memcpy 0x20cd2480 (with_nul ''./#innodb_redo'') 15,
    Syscall NR_openat [Dir_fd, Ptr 0x20cd2480, Imm 0x40, Imm 0x1ff], Count, Save_res 20,
    Syscall NR_fsync [Reg 20], Count, Syscall NR_close [Reg 20], Count,
    Memcpy 0x20cd74c0 (with_nul ''./#innodb_redo'') 15,
    Syscall NR_openat [Dir_fd, Ptr 0x20cd74c0, Imm 0x40, Imm 0x1ff], Count, Save_res 21]"

definition min_mysql_openat_fsync_1_0_body5 :: "stmt list" where
  "min_mysql_openat_fsync_1_0_body5 = [
    Syscall NR_fsync [Reg 21], Count, Syscall NR_close [Reg 21], Count,
    Memcpy 0x20d08580 (with_nul ''./#innodb_redo'') 15,
    Syscall NR_openat [Dir_fd, Ptr 0x20d08580, Imm 0x40, Imm 0x1ff], Count, Save_res 22,
    Syscall NR_fsync [Reg 22], Count, Syscall NR_close [Reg 22], Count,
    Memcpy 0x20d58740 (with_nul ''./#innodb_redo'') 15,
    Syscall NR_openat [Dir_fd, Ptr 0x20d58740, Imm 0x40, Imm 0x1ff], Count, Save_res 23,
    Syscall NR_fsync [Reg 23], Count, Syscall NR_close [Reg 23], Count,
    Memcpy 0x20d58900 (with_nul ''./#innodb_redo'') 15,
    Syscall NR_openat [Dir_fd, Ptr 0x20d58900, Imm 0x40, Imm 0x1ff], Count, Save_res 24,
    Syscall NR_fsync [Reg 24], Count, Syscall NR_close [Reg 24], Count,
    Memcpy 0x20d5cac0 (with_nul ''./#innodb_redo'') 15,
    Syscall NR_openat [Dir_fd, Ptr 0x20d5cac0, Imm 0x40, Imm 0x1ff], Count, Save_res 25,
    Syscall NR_fsync [Reg 25], Count, Syscall NR_close [Reg 25], Count,
    Memcpy 0x20d6cc80 (with_nul ''./#innodb_redo'') 15,
    Syscall NR_openat [Dir_fd, Ptr 0x20d6cc80, Imm 0x40, Imm 0x1ff], Count, Save_res 26,
    Syscall NR_fsync [Reg 26], Count, Syscall NR_close [Reg 26], Count]"

definition min_mysql_openat_fsync_1_0_body6 :: "stmt list" where
  "min_mysql_openat_fsync_1_0_body6 = [
    Memcpy 0x20d8ce40 (with_nul ''./#innodb_redo'') 15,
    Syscall NR_openat [Dir_fd, Ptr 0x20d8ce40, Imm 0x40, Imm 0x1ff], Count, Save_res 27,
    Syscall NR_fsync [Reg 27], Count, Syscall NR_close [Reg 27], Count,
    Memcpy 0x20da9000 (with_nul ''./#innodb_redo'') 15,
    Syscall NR_openat [Dir_fd, Ptr 0x20da9000, Imm 0x40, Imm 0x1ff], Count, Save_res 28,
    Syscall NR_fsync [Reg 28], Count, Syscall NR_close [Reg 28], Count,
    Memcpy 0x20dc51c0 (with_nul ''./#innodb_redo'') 15,
    Syscall NR_openat [Dir_fd, Ptr 0x20dc51c0, Imm 0x40, Imm 0x1ff], Count, Save_res 29,
    Syscall NR_fsync [Reg 29], Count, Syscall NR_close [Reg 29], Count,
    Memcpy 0x20ded380 (with_nul ''./#innodb_redo'') 15,
    Syscall NR_openat [Dir_fd, Ptr 0x20ded380, Imm 0x40, Imm 0x1ff], Count, Save_res 30,
    Syscall NR_fsync [Reg 30], Count, Syscall NR_close [Reg 30], Count]"

definition min_mysql_openat_fsync_1_0_regs :: "u64 list" where
  "min_mysql_openat_fsync_1_0_regs = replicate 31 (- 1)"

definition min_mysql_openat_fsync_1_0 :: syz_prog where
  "min_mysql_openat_fsync_1_0 = \<lparr>prog_name = ''min_mysql_openat_fsync_1_0'', prog_family = Mysql_v2,
     subdirs = [''.''],
     filenames = [''./#innodb_red''], filesizes = [0],
     max_write_buffer = 0, init_regs = min_mysql_openat_fsync_1_0_regs,
     reg_body = [], dereg_body = [],
     body = min_mysql_openat_fsync_1_0_body1 @ min_mysql_openat_fsync_1_0_body2 @
       min_mysql_openat_fsync_1_0_body3 @ min_mysql_openat_fsync_1_0_body4 @
       min_mysql_openat_fsync_1_0_body5 @ min_mysql_openat_fsync_1_0_body6\<rparr>"

definition min_mysql_openat_fsync_1_0_target where
  "min_mysql_openat_fsync_1_0_target os_getenv os_inet_pton K = syz_target os_getenv os_inet_pton K min_mysql_openat_fsync_1_0"

lemmas min_mysql_openat_fsync_1_0_defs =
  min_mysql_openat_fsync_1_0_def min_mysql_openat_fsync_1_0_regs_def min_mysql_openat_fsync_1_0_body1_def
  min_mysql_openat_fsync_1_0_body2_def min_mysql_openat_fsync_1_0_body3_def
  min_mysql_openat_fsync_1_0_body4_def min_mysql_openat_fsync_1_0_body5_def
  min_mysql_openat_fsync_1_0_body6_def

lemma min_mysql_openat_fsync_1_0_ok: "prog_ok min_mysql_openat_fsync_1_0" "calls (body min_mysql_openat_fsync_1_0) = 93"
  by (simp_all add: prog_ok_def min_mysql_openat_fsync_1_0_defs prog_checks)

lemma min_mysql_openat_fsync_1_0_misses: "setup_misses min_mysql_openat_fsync_1_0" "filenames min_mysql_openat_fsync_1_0 \<noteq> []" "reg_body min_mysql_openat_fsync_1_0 = []" "num_regs min_mysql_openat_fsync_1_0 < 2 ^ 32"
  by (simp_all add: setup_misses_def opened_def misses_def path_names_def min_mysql_openat_fsync_1_0_defs prog_checks open_checks)

section \<open>min\_mysql\_openat\_fsync\_2\_0\<close>

definition min_mysql_openat_fsync_2_0_body1 :: "stmt list" where
  "min_mysql_openat_fsync_2_0_body1 = [
    Memcpy 0x2019ee80 (with_nul ''./#innodb_redo'') 15,
    Syscall NR_openat [Dir_fd, Ptr 0x2019ee80, Imm 0x40, Imm 0x1ff], Count, Save_res 0,
    Syscall NR_fsync [Reg 0], Count, Syscall NR_close [Reg 0], Count,
    Memcpy 0x2019f240 (with_nul ''./#innodb_redo'') 15,
    Syscall NR_openat [Dir_fd, Ptr 0x2019f240, Imm 0x40, Imm 0x1ff], Count, Save_res 1,
    Syscall NR_fsync [Reg 1], Count, Syscall NR_close [Reg 1], Count,
    Memcpy 0x2019f600 (with_nul ''./#innodb_redo'') 15,
    Syscall NR_openat [Dir_fd, Ptr 0x2019f600, Imm 0x40, Imm 0x1ff], Count, Save_res 2,
    Syscall NR_fsync [Reg 2], Count, Syscall NR_close [Reg 2], Count,
    Memcpy 0x2019f9c0 (with_nul ''./#innodb_redo'') 15,
    Syscall NR_openat [Dir_fd, Ptr 0x2019f9c0, Imm 0x40, Imm 0x1ff], Count, Save_res 3,
    Syscall NR_fsync [Reg 3], Count, Syscall NR_close [Reg 3], Count,
    Memcpy 0x2019fd80 (with_nul ''./#innodb_redo'') 15,
    Syscall NR_openat [Dir_fd, Ptr 0x2019fd80, Imm 0x40, Imm 0x1ff], Count, Save_res 4,
    Syscall NR_fsync [Reg 4], Count, Syscall NR_close [Reg 4], Count]"

definition min_mysql_openat_fsync_2_0_body2 :: "stmt list" where
  "min_mysql_openat_fsync_2_0_body2 = [
    Memcpy 0x201a0140 (with_nul ''./#innodb_redo'') 15,
    Syscall NR_openat [Dir_fd, Ptr 0x201a0140, Imm 0x40, Imm 0x1ff], Count, Save_res 5,
    Syscall NR_fsync [Reg 5], Count, Syscall NR_close [Reg 5], Count,
    Memcpy 0x201a0500 (with_nul ''./#innodb_redo'') 15,
    Syscall NR_openat [Dir_fd, Ptr 0x201a0500, Imm 0x40, Imm 0x1ff], Count, Save_res 6,
    Syscall NR_fsync [Reg 6], Count, Syscall NR_close [Reg 6], Count,
    Memcpy 0x201a08c0 (with_nul ''./#innodb_redo'') 15,
    Syscall NR_openat [Dir_fd, Ptr 0x201a08c0, Imm 0x40, Imm 0x1ff], Count, Save_res 7,
    Syscall NR_fsync [Reg 7], Count, Syscall NR_close [Reg 7], Count,
    Memcpy 0x201a0c80 (with_nul ''./#innodb_redo'') 15,
    Syscall NR_openat [Dir_fd, Ptr 0x201a0c80, Imm 0x40, Imm 0x1ff], Count, Save_res 8,
    Syscall NR_fsync [Reg 8], Count, Syscall NR_close [Reg 8], Count,
    Memcpy 0x201a1040 (with_nul ''./#innodb_redo'') 15,
    Syscall NR_openat [Dir_fd, Ptr 0x201a1040, Imm 0x40, Imm 0x1ff], Count, Save_res 9,
    Syscall NR_fsync [Reg 9], Count, Syscall NR_close [Reg 9], Count,
    Memcpy 0x201a1400 (with_nul ''./#innodb_redo'') 15,
    Syscall NR_openat [Dir_fd, Ptr 0x201a1400, Imm 0x40, Imm 0x1ff], Count, Save_res 10]"

definition min_mysql_openat_fsync_2_0_body3 :: "stmt list" where
  "min_mysql_openat_fsync_2_0_body3 = [
    Syscall NR_fsync [Reg 10], Count, Syscall NR_close [Reg 10], Count,
    Memcpy 0x201a17c0 (with_nul ''./#innodb_redo'') 15,
    Syscall NR_openat [Dir_fd, Ptr 0x201a17c0, Imm 0x40, Imm 0x1ff], Count, Save_res 11,
    Syscall NR_fsync [Reg 11], Count, Syscall NR_close [Reg 11], Count,
    Memcpy 0x201a1b80 (with_nul ''./#innodb_redo'') 15,
    Syscall NR_openat [Dir_fd, Ptr 0x201a1b80, Imm 0x40, Imm 0x1ff], Count, Save_res 12,
    Syscall NR_fsync [Reg 12], Count, Syscall NR_close [Reg 12], Count,
    Memcpy 0x201a1f40 (with_nul ''./#innodb_redo'') 15,
    Syscall NR_openat [Dir_fd, Ptr 0x201a1f40, Imm 0x40, Imm 0x1ff], Count, Save_res 13,
    Syscall NR_fsync [Reg 13], Count, Syscall NR_close [Reg 13], Count,
    Memcpy 0x201a2300 (with_nul ''./#innodb_redo'') 15,
    Syscall NR_openat [Dir_fd, Ptr 0x201a2300, Imm 0x40, Imm 0x1ff], Count, Save_res 14,
    Syscall NR_fsync [Reg 14], Count, Syscall NR_close [Reg 14], Count,
    Memcpy 0x201a26c0 (with_nul ''./#innodb_redo'') 15,
    Syscall NR_openat [Dir_fd, Ptr 0x201a26c0, Imm 0x40, Imm 0x1ff], Count, Save_res 15,
    Syscall NR_fsync [Reg 15], Count, Syscall NR_close [Reg 15], Count]"

definition min_mysql_openat_fsync_2_0_body4 :: "stmt list" where
  "min_mysql_openat_fsync_2_0_body4 = [
    Memcpy 0x201a2a80 (with_nul ''./#innodb_redo'') 15,
    Syscall NR_openat [Dir_fd, Ptr 0x201a2a80, Imm 0x40, Imm 0x1ff], Count, Save_res 16,
    Syscall NR_fsync [Reg 16], Count, Syscall NR_close [Reg 16], Count,
    Memcpy 0x201a2e40 (with_nul ''./#innodb_redo'') 15,
    Syscall NR_openat [Dir_fd, Ptr 0x201a2e40, Imm 0x40, Imm 0x1ff], Count, Save_res 17,
    Syscall NR_fsync [Reg 17], Count, Syscall NR_close [Reg 17], Count,
    Memcpy 0x201a3200 (with_nul ''./#innodb_redo'') 15,
    Syscall NR_openat [Dir_fd, Ptr 0x201a3200, Imm 0x40, Imm 0x1ff], Count, Save_res 18,
    Syscall NR_fsync [Reg 18], Count, Syscall NR_close [Reg 18], Count,
    Memcpy 0x201a35c0 (with_nul ''./#innodb_redo'') 15,
    Syscall NR_openat [Dir_fd, Ptr 0x201a35c0, Imm 0x40, Imm 0x1ff], Count, Save_res 19,
    Syscall NR_fsync [Reg 19], Count, Syscall NR_close [Reg 19], Count,
    Memcpy 0x201a3980 (with_nul ''./#innodb_redo'') 15,
    Syscall NR_openat [Dir_fd, Ptr 0x201a3980, Imm 0x40, Imm 0x1ff], Count, Save_res 20,
    Syscall NR_fsync [Reg 20], Count, Syscall NR_close [Reg 20], Count,
    Memcpy 0x201a3d40 (with_nul ''./#innodb_redo'') 15,
    Syscall NR_openat [Dir_fd, Ptr 0x201a3d40, Imm 0x40, Imm 0x1ff], Count, Save_res 21]"

definition min_mysql_openat_fsync_2_0_body5 :: "stmt list" where
  "min_mysql_openat_fsync_2_0_body5 = [
    Syscall NR_fsync [Reg 21], Count, Syscall NR_close [Reg 21], Count,
    Memcpy 0x201a4100 (with_nul ''./#innodb_redo'') 15,
    Syscall NR_openat [Dir_fd, Ptr 0x201a4100, Imm 0x40, Imm 0x1ff], Count, Save_res 22,
    Syscall NR_fsync [Reg 22], Count, Syscall NR_close [Reg 22], Count,
    Memcpy 0x201a44c0 (with_nul ''./#innodb_redo'') 15,
    Syscall NR_openat [Dir_fd, Ptr 0x201a44c0, Imm 0x40, Imm 0x1ff], Count, Save_res 23,
    Syscall NR_fsync [Reg 23], Count, Syscall NR_close [Reg 23], Count,
    Memcpy 0x201a4880 (with_nul ''./#innodb_redo'') 15,
    Syscall NR_openat [Dir_fd, Ptr 0x201a4880, Imm 0x40, Imm 0x1ff], Count, Save_res 24,
    Syscall NR_fsync [Reg 24], Count, Syscall NR_close [Reg 24], Count,
    Memcpy 0x201a4c40 (with_nul ''./#innodb_redo'') 15,
    Syscall NR_openat [Dir_fd, Ptr 0x201a4c40, Imm 0x40, Imm 0x1ff], Count, Save_res 25,
    Syscall NR_fsync [Reg 25], Count, Syscall NR_close [Reg 25], Count,
    Memcpy 0x201a5000 (with_nul ''./#innodb_redo'') 15,
    Syscall NR_openat [Dir_fd, Ptr 0x201a5000, Imm 0x40, Imm 0x1ff], Count, Save_res 26,
    Syscall NR_fsync [Reg 26], Count, Syscall NR_close [Reg 26], Count]"

definition min_mysql_openat_fsync_2_0_body6 :: "stmt list" where
  "min_mysql_openat_fsync_2_0_body6 = [
    Memcpy 0x201a53c0 (with_nul ''./#innodb_redo'') 15,
    Syscall NR_openat [Dir_fd, Ptr 0x201a53c0, Imm 0x40, Imm 0x1ff], Count, Save_res 27,
    Syscall NR_fsync [Reg 27], Count, Syscall NR_close [Reg 27], Count,
    Memcpy 0x201a5900 (with_nul ''./#innodb_redo'') 15,
    Syscall NR_openat [Dir_fd, Ptr 0x201a5900, Imm 0x40, Imm 0x1ff], Count, Save_res 28,
    Syscall NR_fsync [Reg 28], Count, Syscall NR_close [Reg 28], Count,
    Memcpy 0x201a65c0 (with_nul ''./#innodb_redo'') 15,
    Syscall NR_openat [Dir_fd, Ptr 0x201a65c0, Imm 0x40, Imm 0x1ff], Count, Save_res 29,
    Syscall NR_fsync [Reg 29], Count, Syscall NR_close [Reg 29], Count,
    Memcpy 0x201a6980 (with_nul ''./#innodb_redo'') 15,
    Syscall NR_openat [Dir_fd, Ptr 0x201a6980, Imm 0x40, Imm 0x1ff], Count, Save_res 30,
    Syscall NR_fsync [Reg 30], Count, Syscall NR_close [Reg 30], Count]"

definition min_mysql_openat_fsync_2_0_regs :: "u64 list" where
  "min_mysql_openat_fsync_2_0_regs = replicate 31 (- 1)"

definition min_mysql_openat_fsync_2_0 :: syz_prog where
  "min_mysql_openat_fsync_2_0 = \<lparr>prog_name = ''min_mysql_openat_fsync_2_0'', prog_family = Mysql_v2,
     subdirs = [''.''],
     filenames = [''./#innodb_red''], filesizes = [0],
     max_write_buffer = 0, init_regs = min_mysql_openat_fsync_2_0_regs,
     reg_body = [], dereg_body = [],
     body = min_mysql_openat_fsync_2_0_body1 @ min_mysql_openat_fsync_2_0_body2 @
       min_mysql_openat_fsync_2_0_body3 @ min_mysql_openat_fsync_2_0_body4 @
       min_mysql_openat_fsync_2_0_body5 @ min_mysql_openat_fsync_2_0_body6\<rparr>"

definition min_mysql_openat_fsync_2_0_target where
  "min_mysql_openat_fsync_2_0_target os_getenv os_inet_pton K = syz_target os_getenv os_inet_pton K min_mysql_openat_fsync_2_0"

lemmas min_mysql_openat_fsync_2_0_defs =
  min_mysql_openat_fsync_2_0_def min_mysql_openat_fsync_2_0_regs_def min_mysql_openat_fsync_2_0_body1_def
  min_mysql_openat_fsync_2_0_body2_def min_mysql_openat_fsync_2_0_body3_def
  min_mysql_openat_fsync_2_0_body4_def min_mysql_openat_fsync_2_0_body5_def
  min_mysql_openat_fsync_2_0_body6_def

lemma min_mysql_openat_fsync_2_0_ok: "prog_ok min_mysql_openat_fsync_2_0" "calls (body min_mysql_openat_fsync_2_0) = 93"
  by (simp_all add: prog_ok_def min_mysql_openat_fsync_2_0_defs prog_checks)

lemma min_mysql_openat_fsync_2_0_misses: "setup_misses min_mysql_openat_fsync_2_0" "filenames min_mysql_openat_fsync_2_0 \<noteq> []" "reg_body min_mysql_openat_fsync_2_0 = []" "num_regs min_mysql_openat_fsync_2_0 < 2 ^ 32"
  by (simp_all add: setup_misses_def opened_def misses_def path_names_def min_mysql_openat_fsync_2_0_defs prog_checks open_checks)

section \<open>min\_mysql\_fsync\_fcntl\_7\_0\<close>

definition min_mysql_fsync_fcntl_7_0_body1 :: "stmt list" where
  "min_mysql_fsync_fcntl_7_0_body1 = [
    Memcpy 0x2020e8c0 (with_nul ''./undo_001'') 11,
    Syscall NR_openat [Dir_fd, Ptr 0x2020e8c0, Imm 0x42, Imm 0x1ff], Count, Save_res 0,
    Syscall NR_fcntl [Reg 0, Imm 4, Imm 0x10000], Count, Store 2 0x2020e900 (Imm 1), Store 2 0x2020e902 (Imm 0),
    Store 8 0x2020e908 (Imm 0), Store 8 0x2020e910 (Imm 0), Store 4 0x2020e918 (Imm 0),
    Syscall NR_fcntl [Reg 0, Imm 6, Ptr 0x2020e900], Count, Syscall NR_fsync [Reg 0], Count,
    Syscall NR_fsync [Reg 0], Count, Syscall NR_fsync [Reg 0], Count, Syscall NR_fsync [Reg 0], Count,
    Syscall NR_fsync [Reg 0], Count, Syscall NR_fsync [Reg 0], Count, Syscall NR_fsync [Reg 0], Count,
    Syscall NR_fsync [Reg 0], Count, Syscall NR_fsync [Reg 0], Count, Syscall NR_fsync [Reg 0], Count,
    Syscall NR_fsync [Reg 0], Count, Syscall NR_fsync [Reg 0], Count, Syscall NR_fsync [Reg 0], Count,
    Syscall NR_fsync [Reg 0], Count, Syscall NR_fsync [Reg 0], Count, Syscall NR_fsync [Reg 0], Count,
    Syscall NR_fsync [Reg 0], Count]"

definition min_mysql_fsync_fcntl_7_0_body2 :: "stmt list" where
  "min_mysql_fsync_fcntl_7_0_body2 = [
    Syscall NR_fsync [Reg 0], Count, Syscall NR_fsync [Reg 0], Count, Syscall NR_fsync [Reg 0], Count,
    Syscall NR_fsync [Reg 0], Count, Syscall NR_fsync [Reg 0], Count, Syscall NR_fsync [Reg 0], Count,
    Syscall NR_fsync [Reg 0], Count, Syscall NR_fsync [Reg 0], Count, Syscall NR_fsync [Reg 0], Count,
    Syscall NR_fsync [Reg 0], Count, Syscall NR_fsync [Reg 0], Count, Syscall NR_fsync [Reg 0], Count,
    Syscall NR_fsync [Reg 0], Count, Syscall NR_fsync [Reg 0], Count, Syscall NR_fsync [Reg 0], Count,
    Syscall NR_fsync [Reg 0], Count, Syscall NR_fsync [Reg 0], Count, Syscall NR_fsync [Reg 0], Count,
    Syscall NR_fsync [Reg 0], Count, Syscall NR_fsync [Reg 0], Count, Syscall NR_fsync [Reg 0], Count,
    Syscall NR_fsync [Reg 0], Count, Syscall NR_fsync [Reg 0], Count, Syscall NR_fsync [Reg 0], Count,
    Syscall NR_fsync [Reg 0], Count, Syscall NR_fsync [Reg 0], Count, Syscall NR_fsync [Reg 0], Count]"

definition min_mysql_fsync_fcntl_7_0_body3 :: "stmt list" where
  "min_mysql_fsync_fcntl_7_0_body3 = [
    Syscall NR_fsync [Reg 0], Count, Syscall NR_fsync [Reg 0], Count, Syscall NR_fsync [Reg 0], Count,
    Syscall NR_fsync [Reg 0], Count, Syscall NR_fsync [Reg 0], Count, Syscall NR_fsync [Reg 0], Count,
    Syscall NR_fsync [Reg 0], Count, Syscall NR_fsync [Reg 0], Count, Syscall NR_fsync [Reg 0], Count,
    Syscall NR_fsync [Reg 0], Count, Syscall NR_fsync [Reg 0], Count, Syscall NR_fsync [Reg 0], Count,
    Syscall NR_fsync [Reg 0], Count, Syscall NR_fsync [Reg 0], Count, Syscall NR_fsync [Reg 0], Count,
    Syscall NR_fsync [Reg 0], Count, Syscall NR_fsync [Reg 0], Count, Syscall NR_fsync [Reg 0], Count,
    Syscall NR_fsync [Reg 0], Count, Syscall NR_fsync [Reg 0], Count, Syscall NR_fsync [Reg 0], Count,
    Syscall NR_fsync [Reg 0], Count, Syscall NR_fsync [Reg 0], Count, Syscall NR_fsync [Reg 0], Count,
    Syscall NR_fsync [Reg 0], Count, Syscall NR_fsync [Reg 0], Count, Syscall NR_fsync [Reg 0], Count]"

definition min_mysql_fsync_fcntl_7_0_body4 :: "stmt list" where
  "min_mysql_fsync_fcntl_7_0_body4 = [
    Syscall NR_fsync [Reg 0], Count, Syscall NR_fsync [Reg 0], Count, Syscall NR_fsync [Reg 0], Count,
    Syscall NR_fsync [Reg 0], Count, Syscall NR_fsync [Reg 0], Count, Syscall NR_fsync [Reg 0], Count,
    Syscall NR_fsync [Reg 0], Count, Syscall NR_fsync [Reg 0], Count, Syscall NR_fsync [Reg 0], Count,
    Syscall NR_fsync [Reg 0], Count, Syscall NR_fsync [Reg 0], Count, Syscall NR_fsync [Reg 0], Count,
    Syscall NR_fsync [Reg 0], Count, Syscall NR_fsync [Reg 0], Count, Syscall NR_fsync [Reg 0], Count,
    Syscall NR_fsync [Reg 0], Count, Syscall NR_fsync [Reg 0], Count, Syscall NR_fsync [Reg 0], Count,
    Syscall NR_fsync [Reg 0], Count, Syscall NR_fsync [Reg 0], Count, Syscall NR_fsync [Reg 0], Count,
    Syscall NR_fsync [Reg 0], Count, Syscall NR_fsync [Reg 0], Count, Syscall NR_fsync [Reg 0], Count,
    Syscall NR_fsync [Reg 0], Count, Syscall NR_fsync [Reg 0], Count, Syscall NR_fsync [Reg 0], Count]"

definition min_mysql_fsync_fcntl_7_0_body5 :: "stmt list" where
  "min_mysql_fsync_fcntl_7_0_body5 = [
    Syscall NR_fsync [Reg 0], Count, Syscall NR_fsync [Reg 0], Count, Syscall NR_fsync [Reg 0], Count,
    Syscall NR_fsync [Reg 0], Count, Syscall NR_fsync [Reg 0], Count, Syscall NR_fsync [Reg 0], Count,
    Syscall NR_fsync [Reg 0], Count, Syscall NR_fsync [Reg 0], Count, Syscall NR_fsync [Reg 0], Count,
    Syscall NR_fsync [Reg 0], Count, Syscall NR_fsync [Reg 0], Count, Syscall NR_fsync [Reg 0], Count,
    Syscall NR_fsync [Reg 0], Count, Syscall NR_fsync [Reg 0], Count, Syscall NR_fsync [Reg 0], Count,
    Syscall NR_fsync [Reg 0], Count, Syscall NR_fsync [Reg 0], Count, Syscall NR_fsync [Reg 0], Count,
    Syscall NR_fsync [Reg 0], Count, Syscall NR_fsync [Reg 0], Count, Syscall NR_fsync [Reg 0], Count,
    Syscall NR_fsync [Reg 0], Count, Syscall NR_fsync [Reg 0], Count, Syscall NR_fsync [Reg 0], Count,
    Syscall NR_fsync [Reg 0], Count, Syscall NR_fsync [Reg 0], Count, Syscall NR_fsync [Reg 0], Count]"

definition min_mysql_fsync_fcntl_7_0_body6 :: "stmt list" where
  "min_mysql_fsync_fcntl_7_0_body6 = [
    Syscall NR_fsync [Reg 0], Count, Syscall NR_fsync [Reg 0], Count, Syscall NR_fsync [Reg 0], Count,
    Syscall NR_fsync [Reg 0], Count, Syscall NR_fsync [Reg 0], Count, Syscall NR_fsync [Reg 0], Count,
    Syscall NR_fsync [Reg 0], Count, Syscall NR_fsync [Reg 0], Count, Syscall NR_fsync [Reg 0], Count,
    Syscall NR_fsync [Reg 0], Count, Syscall NR_fsync [Reg 0], Count, Syscall NR_fsync [Reg 0], Count,
    Syscall NR_fsync [Reg 0], Count, Syscall NR_fsync [Reg 0], Count, Syscall NR_fsync [Reg 0], Count,
    Syscall NR_fsync [Reg 0], Count, Syscall NR_fsync [Reg 0], Count, Syscall NR_fsync [Reg 0], Count,
    Syscall NR_fsync [Reg 0], Count, Syscall NR_fsync [Reg 0], Count, Syscall NR_fsync [Reg 0], Count,
    Syscall NR_fsync [Reg 0], Count, Syscall NR_fsync [Reg 0], Count, Syscall NR_fsync [Reg 0], Count]"

definition min_mysql_fsync_fcntl_7_0 :: syz_prog where
  "min_mysql_fsync_fcntl_7_0 = \<lparr>prog_name = ''min_mysql_fsync_fcntl_7_0'', prog_family = Mysql_v2,
     subdirs = [''.''],
     filenames = [''./undo_00''], filesizes = [0],
     max_write_buffer = 0, init_regs = replicate 1 (- 1),
     reg_body = [], dereg_body = [],
     body = min_mysql_fsync_fcntl_7_0_body1 @ min_mysql_fsync_fcntl_7_0_body2 @ min_mysql_fsync_fcntl_7_0_body3 @
       min_mysql_fsync_fcntl_7_0_body4 @ min_mysql_fsync_fcntl_7_0_body5 @ min_mysql_fsync_fcntl_7_0_body6\<rparr>"

definition min_mysql_fsync_fcntl_7_0_target where
  "min_mysql_fsync_fcntl_7_0_target os_getenv os_inet_pton K = syz_target os_getenv os_inet_pton K min_mysql_fsync_fcntl_7_0"

lemmas min_mysql_fsync_fcntl_7_0_defs =
  min_mysql_fsync_fcntl_7_0_def min_mysql_fsync_fcntl_7_0_body1_def min_mysql_fsync_fcntl_7_0_body2_def
  min_mysql_fsync_fcntl_7_0_body3_def min_mysql_fsync_fcntl_7_0_body4_def
  min_mysql_fsync_fcntl_7_0_body5_def min_mysql_fsync_fcntl_7_0_body6_def

lemma min_mysql_fsync_fcntl_7_0_ok: "prog_ok min_mysql_fsync_fcntl_7_0" "calls (body min_mysql_fsync_fcntl_7_0) = 152"
  by (simp_all add: prog_ok_def min_mysql_fsync_fcntl_7_0_defs prog_checks)

lemma min_mysql_fsync_fcntl_7_0_misses: "setup_misses min_mysql_fsync_fcntl_7_0" "filenames min_mysql_fsync_fcntl_7_0 \<noteq> []" "reg_body min_mysql_fsync_fcntl_7_0 = []" "num_regs min_mysql_fsync_fcntl_7_0 < 2 ^ 32"
  by (simp_all add: setup_misses_def opened_def misses_def path_names_def min_mysql_fsync_fcntl_7_0_defs prog_checks open_checks)

end
