(* ===== verification/CSB_Progs_Mysql_v2d.thy ===== *)
theory CSB_Progs_Mysql_v2d
  imports CSB_Syz_Files
begin

text \<open>
  Bodies of generated targets of bench/targets/mysql\_v2, statement by statement in the order of the
  files syz/<name>.h, and the targets made of them (the files <name>.h). Each passes the check.
\<close>

section \<open>min\_mysql\_fsync\_pwrite64\_0\_0\<close>

definition min_mysql_fsync_pwrite64_0_0_body1 :: "stmt list" where
  "min_mysql_fsync_pwrite64_0_0_body1 = [
    Memcpy 0x20b1a3c0 (with_nul ''./#innodb_redo/#ib_redo592'') 27,
    Syscall NR_newfstatat [Dir_fd, Ptr 0x20b1a3c0, Ptr 0x20b1a400, Imm 0], Count,
    Memcpy 0x20b1a480 (with_nul ''./#innodb_redo/#ib_redo592'') 27,
    Syscall NR_openat [Dir_fd, Ptr 0x20b1a480, Imm 0x42, Imm 0x1ff], Count, Save_res 0,
    Store 2 0x20b1a4c0 (Imm 1), Store 2 0x20b1a4c2 (Imm 0), Store 8 0x20b1a4c8 (Imm 0),
    Store 8 0x20b1a4d0 (Imm 0), Store 4 0x20b1a4d8 (Imm 0), Syscall NR_fcntl [Reg 0, Imm 6, Ptr 0x20b1a4c0],
    Count, Syscall NR_pwrite64 [Reg 0, Write_buf, Imm 0x200, Imm 0x600], Count, Syscall NR_fsync [Reg 0], Count,
    Syscall NR_fsync [Reg 0], Count, Syscall NR_close [Reg 0], Count]"

definition min_mysql_fsync_pwrite64_0_0_body2 :: "stmt list" where
  "min_mysql_fsync_pwrite64_0_0_body2 = [
    Memcpy 0x20555e80 (with_nul ''./#innodb_redo/#ib_redo592'') 27,
    Syscall NR_newfstatat [Dir_fd, Ptr 0x20555e80, Ptr 0x20555ec0, Imm 0], Count,
    Memcpy 0x20555fc0 (with_nul ''./#innodb_redo/#ib_redo592'') 27,
    Syscall NR_openat [Dir_fd, Ptr 0x20555fc0, Imm 0x42, Imm 0x1ff], Count, Save_res 1,
    Store 2 0x20556000 (Imm 1), Store 2 0x20556002 (Imm 0), Store 8 0x20556008 (Imm 0),
    Store 8 0x20556010 (Imm 0), Store 4 0x20556018 (Imm 0), Syscall NR_fcntl [Reg 1, Imm 6, Ptr 0x20556000],
    Count, Syscall NR_pwrite64 [Reg 1, Write_buf, Imm 0x200, Imm 0x200], Count, Syscall NR_fsync [Reg 1], Count,
    Syscall NR_fsync [Reg 1], Count, Syscall NR_close [Reg 1], Count,
    Memcpy 0x204355c0 (with_nul ''./#innodb_redo/#ib_redo592'') 27,
    Syscall NR_newfstatat [Dir_fd, Ptr 0x204355c0, Ptr 0x20435600, Imm 0], Count]"

definition min_mysql_fsync_pwrite64_0_0_body3 :: "stmt list" where
  "min_mysql_fsync_pwrite64_0_0_body3 = [
    Memcpy 0x20435680 (with_nul ''./#innodb_redo/#ib_redo592'') 27,
    Syscall NR_openat [Dir_fd, Ptr 0x20435680, Imm 0x42, Imm 0x1ff], Count, Save_res 2,
    Store 2 0x204356c0 (Imm 1), Store 2 0x204356c2 (Imm 0), Store 8 0x204356c8 (Imm 0),
    Store 8 0x204356d0 (Imm 0), Store 4 0x204356d8 (Imm 0), Syscall NR_fcntl [Reg 2, Imm 6, Ptr 0x204356c0],
    Count, Syscall NR_pwrite64 [Reg 2, Write_buf, Imm 0x200, Imm 0x600], Count, Syscall NR_fsync [Reg 2], Count,
    Syscall NR_fsync [Reg 2], Count, Syscall NR_close [Reg 2], Count,
    Memcpy 0x20557a40 (with_nul ''./#innodb_redo/#ib_redo592'') 27,
    Syscall NR_newfstatat [Dir_fd, Ptr 0x20557a40, Ptr 0x20557a80, Imm 0], Count,
    Memcpy 0x20557b00 (with_nul ''./#innodb_redo/#ib_redo592'') 27,
    Syscall NR_openat [Dir_fd, Ptr 0x20557b00, Imm 0x42, Imm 0x1ff], Count, Save_res 3,
    Store 2 0x20557b40 (Imm 1), Store 2 0x20557b42 (Imm 0), Store 8 0x20557b48 (Imm 0),
    Store 8 0x20557b50 (Imm 0), Store 4 0x20557b58 (Imm 0), Syscall NR_fcntl [Reg 3, Imm 6, Ptr 0x20557b40],
    Count]"

definition min_mysql_fsync_pwrite64_0_0_body4 :: "stmt list" where
  "min_mysql_fsync_pwrite64_0_0_body4 = [
    Syscall NR_pwrite64 [Reg 3, Write_buf, Imm 0x200, Imm 0x200], Count, Syscall NR_fsync [Reg 3], Count,
    Syscall NR_fsync [Reg 3], Count, Syscall NR_close [Reg 3], Count,
    Memcpy 0x20640a00 (with_nul ''./#innodb_redo/#ib_redo592'') 27,
    Syscall NR_newfstatat [Dir_fd, Ptr 0x20640a00, Ptr 0x20640a40, Imm 0], Count,
    Memcpy 0x20640ac0 (with_nul ''./#innodb_redo/#ib_redo592'') 27,
    Syscall NR_openat [Dir_fd, Ptr 0x20640ac0, Imm 0x42, Imm 0x1ff], Count, Save_res 4,
    Store 2 0x20640b00 (Imm 1), Store 2 0x20640b02 (Imm 0), Store 8 0x20640b08 (Imm 0),
    Store 8 0x20640b10 (Imm 0), Store 4 0x20640b18 (Imm 0), Syscall NR_fcntl [Reg 4, Imm 6, Ptr 0x20640b00],
    Count, Syscall NR_pwrite64 [Reg 4, Write_buf, Imm 0x200, Imm 0x600], Count, Syscall NR_fsync [Reg 4], Count,
    Syscall NR_fsync [Reg 4], Count]"

definition min_mysql_fsync_pwrite64_0_0_body5 :: "stmt list" where
  "min_mysql_fsync_pwrite64_0_0_body5 = [
    Syscall NR_close [Reg 4], Count, Memcpy 0x20cc4040 (with_nul ''./#innodb_redo/#ib_redo592'') 27,
    Syscall NR_newfstatat [Dir_fd, Ptr 0x20cc4040, Ptr 0x20cc4080, Imm 0], Count,
    Memcpy 0x20cc4180 (with_nul ''./#innodb_redo/#ib_redo592'') 27,
    Syscall NR_openat [Dir_fd, Ptr 0x20cc4180, Imm 0x42, Imm 0x1ff], Count, Save_res 5,
    Store 2 0x20cc41c0 (Imm 1), Store 2 0x20cc41c2 (Imm 0), Store 8 0x20cc41c8 (Imm 0),
    Store 8 0x20cc41d0 (Imm 0), Store 4 0x20cc41d8 (Imm 0), Syscall NR_fcntl [Reg 5, Imm 6, Ptr 0x20cc41c0],
    Count, Syscall NR_pwrite64 [Reg 5, Write_buf, Imm 0x200, Imm 0x200], Count, Syscall NR_fsync [Reg 5], Count,
    Syscall NR_fsync [Reg 5], Count, Syscall NR_close [Reg 5], Count]"

definition min_mysql_fsync_pwrite64_0_0_body6 :: "stmt list" where
  "min_mysql_fsync_pwrite64_0_0_body6 = [
    Memcpy 0x2024f900 (with_nul ''./#innodb_redo/#ib_redo592'') 27,
    Syscall NR_newfstatat [Dir_fd, Ptr 0x2024f900, Ptr 0x2024f940, Imm 0], Count,
    Memcpy 0x2024fa40 (with_nul ''./#innodb_redo/#ib_redo592'') 27,
    Syscall NR_openat [Dir_fd, Ptr 0x2024fa40, Imm 0x42, Imm 0x1ff], Count, Save_res 6,
    Store 2 0x2024fa80 (Imm 1), Store 2 0x2024fa82 (Imm 0), Store 8 0x2024fa88 (Imm 0),
    Store 8 0x2024fa90 (Imm 0), Store 4 0x2024fa98 (Imm 0), Syscall NR_fcntl [Reg 6, Imm 6, Ptr 0x2024fa80],
    Count, Syscall NR_pwrite64 [Reg 6, Write_buf, Imm 0x200, Imm 0x600], Count, Syscall NR_fsync [Reg 6], Count,
    Syscall NR_fsync [Reg 6], Count, Syscall NR_close [Reg 6], Count,
    Memcpy 0x2089d3c0 (with_nul ''./#innodb_redo/#ib_redo592'') 27,
    Syscall NR_newfstatat [Dir_fd, Ptr 0x2089d3c0, Ptr 0x2089d400, Imm 0], Count]"

definition min_mysql_fsync_pwrite64_0_0_body7 :: "stmt list" where
  "min_mysql_fsync_pwrite64_0_0_body7 = [
    Memcpy 0x2089d480 (with_nul ''./#innodb_redo/#ib_redo592'') 27,
    Syscall NR_openat [Dir_fd, Ptr 0x2089d480, Imm 0x42, Imm 0x1ff], Count, Save_res 7,
    Store 2 0x2089d540 (Imm 1), Store 2 0x2089d542 (Imm 0), Store 8 0x2089d548 (Imm 0),
    Store 8 0x2089d550 (Imm 0), Store 4 0x2089d558 (Imm 0), Syscall NR_fcntl [Reg 7, Imm 6, Ptr 0x2089d540],
    Count, Syscall NR_pwrite64 [Reg 7, Write_buf, Imm 0x200, Imm 0x200], Count, Syscall NR_fsync [Reg 7], Count,
    Syscall NR_fsync [Reg 7], Count, Syscall NR_close [Reg 7], Count,
    Memcpy 0x20e027c0 (with_nul ''./#innodb_redo/#ib_redo592'') 27,
    Syscall NR_newfstatat [Dir_fd, Ptr 0x20e027c0, Ptr 0x20e02800, Imm 0], Count,
    Memcpy 0x20e02880 (with_nul ''./#innodb_redo/#ib_redo592'') 27,
    Syscall NR_openat [Dir_fd, Ptr 0x20e02880, Imm 0x42, Imm 0x1ff], Count, Save_res 8,
    Store 2 0x20e028c0 (Imm 1), Store 2 0x20e028c2 (Imm 0), Store 8 0x20e028c8 (Imm 0),
    Store 8 0x20e028d0 (Imm 0), Store 4 0x20e028d8 (Imm 0), Syscall NR_fcntl [Reg 8, Imm 6, Ptr 0x20e028c0],
    Count]"

definition min_mysql_fsync_pwrite64_0_0_body8 :: "stmt list" where
  "min_mysql_fsync_pwrite64_0_0_body8 = [
    Syscall NR_pwrite64 [Reg 8, Write_buf, Imm 0x200, Imm 0x600], Count, Syscall NR_fsync [Reg 8], Count,
    Syscall NR_fsync [Reg 8], Count, Syscall NR_close [Reg 8], Count]"

definition min_mysql_fsync_pwrite64_0_0_regs :: "u64 list" where
  "min_mysql_fsync_pwrite64_0_0_regs = replicate 9 (- 1)"

definition min_mysql_fsync_pwrite64_0_0 :: syz_prog where
  "min_mysql_fsync_pwrite64_0_0 = \<lparr>prog_name = ''min_mysql_fsync_pwrite64_0_0'', prog_family = Mysql_v2,
     subdirs = [''#innodb_redo''],
     filenames = [''./#innodb_redo/#ib_redo59''], filesizes = [2048],
     max_write_buffer = 512, init_regs = min_mysql_fsync_pwrite64_0_0_regs,
     reg_body = [], dereg_body = [],
     body = min_mysql_fsync_pwrite64_0_0_body1 @ min_mysql_fsync_pwrite64_0_0_body2 @
       min_mysql_fsync_pwrite64_0_0_body3 @ min_mysql_fsync_pwrite64_0_0_body4 @
       min_mysql_fsync_pwrite64_0_0_body5 @ min_mysql_fsync_pwrite64_0_0_body6 @
       min_mysql_fsync_pwrite64_0_0_body7 @ min_mysql_fsync_pwrite64_0_0_body8\<rparr>"

definition min_mysql_fsync_pwrite64_0_0_target where
  "min_mysql_fsync_pwrite64_0_0_target os_getenv os_inet_pton K = syz_target os_getenv os_inet_pton K min_mysql_fsync_pwrite64_0_0"

lemmas min_mysql_fsync_pwrite64_0_0_defs =
  min_mysql_fsync_pwrite64_0_0_def min_mysql_fsync_pwrite64_0_0_regs_def
  min_mysql_fsync_pwrite64_0_0_body1_def min_mysql_fsync_pwrite64_0_0_body2_def
  min_mysql_fsync_pwrite64_0_0_body3_def min_mysql_fsync_pwrite64_0_0_body4_def
  min_mysql_fsync_pwrite64_0_0_body5_def min_mysql_fsync_pwrite64_0_0_body6_def
  min_mysql_fsync_pwrite64_0_0_body7_def min_mysql_fsync_pwrite64_0_0_body8_def

lemma min_mysql_fsync_pwrite64_0_0_ok: "prog_ok min_mysql_fsync_pwrite64_0_0" "calls (body min_mysql_fsync_pwrite64_0_0) = 63"
  by (simp_all add: prog_ok_def min_mysql_fsync_pwrite64_0_0_defs prog_checks)

lemma min_mysql_fsync_pwrite64_0_0_misses: "setup_misses min_mysql_fsync_pwrite64_0_0" "filenames min_mysql_fsync_pwrite64_0_0 \<noteq> []" "reg_body min_mysql_fsync_pwrite64_0_0 = []" "num_regs min_mysql_fsync_pwrite64_0_0 < 2 ^ 32"
  by (simp_all add: setup_misses_def opened_def misses_def path_names_def min_mysql_fsync_pwrite64_0_0_defs prog_checks open_checks)

section \<open>min\_mysql\_openat\_newfstatat\_0\_0\<close>

definition min_mysql_openat_newfstatat_0_0_body1 :: "stmt list" where
  "min_mysql_openat_newfstatat_0_0_body1 = [
    Memcpy 0x203c4940 (with_nul ''./sbtest'') 9,
    Syscall NR_newfstatat [Dir_fd, Ptr 0x203c4940, Ptr 0x203c4980, Imm 0], Count,
    Memcpy 0x203c4a80 (with_nul ''./sbtest'') 9,
    Syscall NR_openat [Dir_fd, Ptr 0x203c4a80, Imm 0x40, Imm 0x1ff], Count, Save_res 0,
    Syscall NR_fsync [Reg 0], Count, Syscall NR_close [Reg 0], Count,
    Memcpy 0x20733400 (with_nul ''./sbtest'') 9,
    Syscall NR_newfstatat [Dir_fd, Ptr 0x20733400, Ptr 0x20733440, Imm 0], Count,
    Memcpy 0x20733540 (with_nul ''./sbtest'') 9,
    Syscall NR_openat [Dir_fd, Ptr 0x20733540, Imm 0x40, Imm 0x1ff], Count, Save_res 1,
    Syscall NR_fsync [Reg 1], Count]"

definition min_mysql_openat_newfstatat_0_0_body2 :: "stmt list" where
  "min_mysql_openat_newfstatat_0_0_body2 = [
    Syscall NR_close [Reg 1], Count, Memcpy 0x20857980 (with_nul ''./sbtest'') 9,
    Syscall NR_newfstatat [Dir_fd, Ptr 0x20857980, Ptr 0x208579c0, Imm 0], Count,
    Memcpy 0x20857ec0 (with_nul ''./sbtest'') 9,
    Syscall NR_openat [Dir_fd, Ptr 0x20857ec0, Imm 0x40, Imm 0x1ff], Count, Save_res 2,
    Syscall NR_fsync [Reg 2], Count, Syscall NR_close [Reg 2], Count,
    Memcpy 0x20978e80 (with_nul ''./sbtest'') 9,
    Syscall NR_newfstatat [Dir_fd, Ptr 0x20978e80, Ptr 0x20978ec0, Imm 0], Count,
    Memcpy 0x209793c0 (with_nul ''./sbtest'') 9,
    Syscall NR_openat [Dir_fd, Ptr 0x209793c0, Imm 0x40, Imm 0x1ff], Count, Save_res 3,
    Syscall NR_fsync [Reg 3], Count]"

definition min_mysql_openat_newfstatat_0_0_body3 :: "stmt list" where
  "min_mysql_openat_newfstatat_0_0_body3 = [
    Syscall NR_close [Reg 3], Count, Memcpy 0x20a9e900 (with_nul ''./sbtest'') 9,
    Syscall NR_newfstatat [Dir_fd, Ptr 0x20a9e900, Ptr 0x20a9e940, Imm 0], Count,
    Memcpy 0x20a9ea40 (with_nul ''./sbtest'') 9,
    Syscall NR_openat [Dir_fd, Ptr 0x20a9ea40, Imm 0x40, Imm 0x1ff], Count, Save_res 4,
    Syscall NR_fsync [Reg 4], Count, Syscall NR_close [Reg 4], Count,
    Memcpy 0x20bc2780 (with_nul ''./sbtest'') 9,
    Syscall NR_newfstatat [Dir_fd, Ptr 0x20bc2780, Ptr 0x20bc27c0, Imm 0], Count,
    Memcpy 0x20bc28c0 (with_nul ''./sbtest'') 9,
    Syscall NR_openat [Dir_fd, Ptr 0x20bc28c0, Imm 0x40, Imm 0x1ff], Count, Save_res 5,
    Syscall NR_fsync [Reg 5], Count]"

definition min_mysql_openat_newfstatat_0_0_body4 :: "stmt list" where
  "min_mysql_openat_newfstatat_0_0_body4 = [
    Syscall NR_close [Reg 5], Count, Memcpy 0x20ce4a00 (with_nul ''./sbtest'') 9,
    Syscall NR_newfstatat [Dir_fd, Ptr 0x20ce4a00, Ptr 0x20ce4a40, Imm 0], Count,
    Memcpy 0x20ce4b40 (with_nul ''./sbtest'') 9,
    Syscall NR_openat [Dir_fd, Ptr 0x20ce4b40, Imm 0x40, Imm 0x1ff], Count, Save_res 6,
    Syscall NR_fsync [Reg 6], Count, Syscall NR_close [Reg 6], Count,
    Memcpy 0x20e0bc80 (with_nul ''./sbtest'') 9,
    Syscall NR_newfstatat [Dir_fd, Ptr 0x20e0bc80, Ptr 0x20e0bcc0, Imm 0], Count,
    Memcpy 0x20e0bdc0 (with_nul ''./sbtest'') 9,
    Syscall NR_openat [Dir_fd, Ptr 0x20e0bdc0, Imm 0x40, Imm 0x1ff], Count, Save_res 7,
    Syscall NR_fsync [Reg 7], Count]"

definition min_mysql_openat_newfstatat_0_0_body5 :: "stmt list" where
  "min_mysql_openat_newfstatat_0_0_body5 = [
    Syscall NR_close [Reg 7], Count, Memcpy 0x20f32100 (with_nul ''./sbtest'') 9,
    Syscall NR_newfstatat [Dir_fd, Ptr 0x20f32100, Ptr 0x20f32140, Imm 0], Count,
    Memcpy 0x20f32240 (with_nul ''./sbtest'') 9,
    Syscall NR_openat [Dir_fd, Ptr 0x20f32240, Imm 0x40, Imm 0x1ff], Count, Save_res 8,
    Syscall NR_fsync [Reg 8], Count, Syscall NR_close [Reg 8], Count,
    Memcpy 0x20061e80 (with_nul ''./sbtest'') 9,
    Syscall NR_newfstatat [Dir_fd, Ptr 0x20061e80, Ptr 0x20061ec0, Imm 0], Count,
    Memcpy 0x20061fc0 (with_nul ''./sbtest'') 9,
    Syscall NR_openat [Dir_fd, Ptr 0x20061fc0, Imm 0x40, Imm 0x1ff], Count, Save_res 9,
    Syscall NR_fsync [Reg 9], Count]"

definition min_mysql_openat_newfstatat_0_0_body6 :: "stmt list" where
  "min_mysql_openat_newfstatat_0_0_body6 = [
    Syscall NR_close [Reg 9], Count, Memcpy 0x20183800 (with_nul ''./sbtest'') 9,
    Syscall NR_newfstatat [Dir_fd, Ptr 0x20183800, Ptr 0x20183840, Imm 0], Count,
    Memcpy 0x20183940 (with_nul ''./sbtest'') 9,
    Syscall NR_openat [Dir_fd, Ptr 0x20183940, Imm 0x40, Imm 0x1ff], Count, Save_res 10,
    Syscall NR_fsync [Reg 10], Count, Syscall NR_close [Reg 10], Count,
    Memcpy 0x202a60c0 (with_nul ''./sbtest'') 9,
    Syscall NR_newfstatat [Dir_fd, Ptr 0x202a60c0, Ptr 0x202a6100, Imm 0], Count,
    Memcpy 0x202a6200 (with_nul ''./sbtest'') 9,
    Syscall NR_openat [Dir_fd, Ptr 0x202a6200, Imm 0x40, Imm 0x1ff], Count, Save_res 11,
    Syscall NR_fsync [Reg 11], Count]"

definition min_mysql_openat_newfstatat_0_0_body7 :: "stmt list" where
  "min_mysql_openat_newfstatat_0_0_body7 = [
    Syscall NR_close [Reg 11], Count, Memcpy 0x203c7140 (with_nul ''./sbtest'') 9,
    Syscall NR_newfstatat [Dir_fd, Ptr 0x203c7140, Ptr 0x203c7180, Imm 0], Count,
    Memcpy 0x203c7280 (with_nul ''./sbtest'') 9,
    Syscall NR_openat [Dir_fd, Ptr 0x203c7280, Imm 0x40, Imm 0x1ff], Count, Save_res 12,
    Syscall NR_fsync [Reg 12], Count, Syscall NR_close [Reg 12], Count,
    Memcpy 0x204ece40 (with_nul ''./sbtest'') 9,
    Syscall NR_newfstatat [Dir_fd, Ptr 0x204ece40, Ptr 0x204ece80, Imm 0], Count,
    Memcpy 0x204ecf80 (with_nul ''./sbtest'') 9,
    Syscall NR_openat [Dir_fd, Ptr 0x204ecf80, Imm 0x40, Imm 0x1ff], Count, Save_res 13,
    Syscall NR_fsync [Reg 13], Count]"

definition min_mysql_openat_newfstatat_0_0_body8 :: "stmt list" where
  "min_mysql_openat_newfstatat_0_0_body8 = [
    Syscall NR_close [Reg 13], Count, Memcpy 0x206155c0 (with_nul ''./sbtest'') 9,
    Syscall NR_newfstatat [Dir_fd, Ptr 0x206155c0, Ptr 0x20615600, Imm 0], Count,
    Memcpy 0x20615700 (with_nul ''./sbtest'') 9,
    Syscall NR_openat [Dir_fd, Ptr 0x20615700, Imm 0x40, Imm 0x1ff], Count, Save_res 14,
    Syscall NR_fsync [Reg 14], Count, Syscall NR_close [Reg 14], Count,
    Memcpy 0x20738c80 (with_nul ''./sbtest'') 9,
    Syscall NR_newfstatat [Dir_fd, Ptr 0x20738c80, Ptr 0x20738cc0, Imm 0], Count,
    Memcpy 0x20738dc0 (with_nul ''./sbtest'') 9,
    Syscall NR_openat [Dir_fd, Ptr 0x20738dc0, Imm 0x40, Imm 0x1ff], Count, Save_res 15,
    Syscall NR_fsync [Reg 15], Count]"

definition min_mysql_openat_newfstatat_0_0_body9 :: "stmt list" where
  "min_mysql_openat_newfstatat_0_0_body9 = [
    Syscall NR_close [Reg 15], Count, Memcpy 0x2085cd00 (with_nul ''./sbtest'') 9,
    Syscall NR_newfstatat [Dir_fd, Ptr 0x2085cd00, Ptr 0x2085cd40, Imm 0], Count,
    Memcpy 0x2085ce40 (with_nul ''./sbtest'') 9,
    Syscall NR_openat [Dir_fd, Ptr 0x2085ce40, Imm 0x40, Imm 0x1ff], Count, Save_res 16,
    Syscall NR_fsync [Reg 16], Count, Syscall NR_close [Reg 16], Count,
    Memcpy 0x209b1e80 (with_nul ''./sbtest'') 9,
    Syscall NR_newfstatat [Dir_fd, Ptr 0x209b1e80, Ptr 0x209b1ec0, Imm 0], Count,
    Memcpy 0x209b1fc0 (with_nul ''./sbtest'') 9,
    Syscall NR_openat [Dir_fd, Ptr 0x209b1fc0, Imm 0x40, Imm 0x1ff], Count, Save_res 17,
    Syscall NR_fsync [Reg 17], Count]"

definition min_mysql_openat_newfstatat_0_0_body10 :: "stmt list" where
  "min_mysql_openat_newfstatat_0_0_body10 = [
    Syscall NR_close [Reg 17], Count, Memcpy 0x20ad5100 (with_nul ''./sbtest'') 9,
    Syscall NR_newfstatat [Dir_fd, Ptr 0x20ad5100, Ptr 0x20ad5140, Imm 0], Count,
    Memcpy 0x20ad5240 (with_nul ''./sbtest'') 9,
    Syscall NR_openat [Dir_fd, Ptr 0x20ad5240, Imm 0x40, Imm 0x1ff], Count, Save_res 18,
    Syscall NR_fsync [Reg 18], Count, Syscall NR_close [Reg 18], Count,
    Memcpy 0x20c03e00 (with_nul ''./sbtest'') 9,
    Syscall NR_newfstatat [Dir_fd, Ptr 0x20c03e00, Ptr 0x20c03e40, Imm 0], Count,
    Memcpy 0x20c03f40 (with_nul ''./sbtest'') 9,
    Syscall NR_openat [Dir_fd, Ptr 0x20c03f40, Imm 0x40, Imm 0x1ff], Count, Save_res 19,
    Syscall NR_fsync [Reg 19], Count, Syscall NR_close [Reg 19], Count]"

definition min_mysql_openat_newfstatat_0_0_regs :: "u64 list" where
  "min_mysql_openat_newfstatat_0_0_regs = replicate 20 (- 1)"

definition min_mysql_openat_newfstatat_0_0 :: syz_prog where
  "min_mysql_openat_newfstatat_0_0 = \<lparr>prog_name = ''min_mysql_openat_newfstatat_0_0'', prog_family = Mysql_v2,
     subdirs = [''.''],
     filenames = [''./sbtes''], filesizes = [0],
     max_write_buffer = 0, init_regs = min_mysql_openat_newfstatat_0_0_regs,
     reg_body = [], dereg_body = [],
     body = min_mysql_openat_newfstatat_0_0_body1 @ min_mysql_openat_newfstatat_0_0_body2 @
       min_mysql_openat_newfstatat_0_0_body3 @ min_mysql_openat_newfstatat_0_0_body4 @
       min_mysql_openat_newfstatat_0_0_body5 @ min_mysql_openat_newfstatat_0_0_body6 @
       min_mysql_openat_newfstatat_0_0_body7 @ min_mysql_openat_newfstatat_0_0_body8 @
       min_mysql_openat_newfstatat_0_0_body9 @ min_mysql_openat_newfstatat_0_0_body10\<rparr>"

definition min_mysql_openat_newfstatat_0_0_target where
  "min_mysql_openat_newfstatat_0_0_target os_getenv os_inet_pton K = syz_target os_getenv os_inet_pton K min_mysql_openat_newfstatat_0_0"

lemmas min_mysql_openat_newfstatat_0_0_defs =
  min_mysql_openat_newfstatat_0_0_def min_mysql_openat_newfstatat_0_0_regs_def
  min_mysql_openat_newfstatat_0_0_body1_def min_mysql_openat_newfstatat_0_0_body2_def
  min_mysql_openat_newfstatat_0_0_body3_def min_mysql_openat_newfstatat_0_0_body4_def
  min_mysql_openat_newfstatat_0_0_body5_def min_mysql_openat_newfstatat_0_0_body6_def
  min_mysql_openat_newfstatat_0_0_body7_def min_mysql_openat_newfstatat_0_0_body8_def
  min_mysql_openat_newfstatat_0_0_body9_def min_mysql_openat_newfstatat_0_0_body10_def

lemma min_mysql_openat_newfstatat_0_0_ok: "prog_ok min_mysql_openat_newfstatat_0_0" "calls (body min_mysql_openat_newfstatat_0_0) = 80"
  by (simp_all add: prog_ok_def min_mysql_openat_newfstatat_0_0_defs prog_checks)

lemma min_mysql_openat_newfstatat_0_0_misses: "setup_misses min_mysql_openat_newfstatat_0_0" "filenames min_mysql_openat_newfstatat_0_0 \<noteq> []" "reg_body min_mysql_openat_newfstatat_0_0 = []" "num_regs min_mysql_openat_newfstatat_0_0 < 2 ^ 32"
  by (simp_all add: setup_misses_def opened_def misses_def path_names_def min_mysql_openat_newfstatat_0_0_defs prog_checks open_checks)

section \<open>min\_mysql\_lseek\_fallocate\_95\_0\<close>

definition min_mysql_lseek_fallocate_95_0_body1 :: "stmt list" where
  "min_mysql_lseek_fallocate_95_0_body1 = [
    Memcpy 0x20c6dd40 (with_nul ''./sbtest/sbtest20.ibd'') 22,
    Syscall NR_openat [Dir_fd, Ptr 0x20c6dd40, Imm 0x42, Imm 0x1ff], Count, Save_res 0,
    Syscall NR_fcntl [Reg 0, Imm 4, Imm 0x10000], Count, Store 2 0x20c6dd80 (Imm 1), Store 2 0x20c6dd82 (Imm 0),
    Store 8 0x20c6dd88 (Imm 0), Store 8 0x20c6dd90 (Imm 0), Store 4 0x20c6dd98 (Imm 0),
    Syscall NR_fcntl [Reg 0, Imm 6, Ptr 0x20c6dd80], Count, Syscall NR_lseek [Reg 0, Imm 0, Imm 1], Count,
    Syscall NR_lseek [Reg 0, Imm 0, Imm 2], Count, Syscall NR_lseek [Reg 0, Imm 0, Imm 0], Count,
    Syscall NR_fallocate [Reg 0, Imm 0, Imm 0x1c000, Imm 0x4000], Count, Syscall NR_lseek [Reg 0, Imm 0, Imm 1],
    Count, Syscall NR_lseek [Reg 0, Imm 0, Imm 2], Count, Syscall NR_lseek [Reg 0, Imm 0, Imm 0], Count,
    Syscall NR_lseek [Reg 0, Imm 0, Imm 1], Count, Syscall NR_lseek [Reg 0, Imm 0, Imm 2], Count,
    Syscall NR_lseek [Reg 0, Imm 0, Imm 0], Count, Syscall NR_fallocate [Reg 0, Imm 0, Imm 0x20000, Imm 0x4000],
    Count]"

definition min_mysql_lseek_fallocate_95_0_body2 :: "stmt list" where
  "min_mysql_lseek_fallocate_95_0_body2 = [
    Syscall NR_lseek [Reg 0, Imm 0, Imm 1], Count, Syscall NR_lseek [Reg 0, Imm 0, Imm 2], Count,
    Syscall NR_lseek [Reg 0, Imm 0, Imm 0], Count, Syscall NR_lseek [Reg 0, Imm 0, Imm 1], Count,
    Syscall NR_lseek [Reg 0, Imm 0, Imm 2], Count, Syscall NR_lseek [Reg 0, Imm 0, Imm 0], Count,
    Syscall NR_fallocate [Reg 0, Imm 0, Imm 0x24000, Imm 0x4000], Count, Syscall NR_lseek [Reg 0, Imm 0, Imm 1],
    Count, Syscall NR_lseek [Reg 0, Imm 0, Imm 2], Count, Syscall NR_lseek [Reg 0, Imm 0, Imm 0], Count,
    Syscall NR_lseek [Reg 0, Imm 0, Imm 1], Count, Syscall NR_lseek [Reg 0, Imm 0, Imm 2], Count,
    Syscall NR_lseek [Reg 0, Imm 0, Imm 0], Count, Syscall NR_fallocate [Reg 0, Imm 0, Imm 0x28000, Imm 0x4000],
    Count, Syscall NR_lseek [Reg 0, Imm 0, Imm 1], Count, Syscall NR_lseek [Reg 0, Imm 0, Imm 2], Count,
    Syscall NR_lseek [Reg 0, Imm 0, Imm 0], Count, Syscall NR_lseek [Reg 0, Imm 0, Imm 1], Count,
    Syscall NR_lseek [Reg 0, Imm 0, Imm 2], Count]"

definition min_mysql_lseek_fallocate_95_0_body3 :: "stmt list" where
  "min_mysql_lseek_fallocate_95_0_body3 = [
    Syscall NR_lseek [Reg 0, Imm 0, Imm 0], Count, Syscall NR_fallocate [Reg 0, Imm 0, Imm 0x2c000, Imm 0x4000],
    Count, Syscall NR_lseek [Reg 0, Imm 0, Imm 1], Count, Syscall NR_lseek [Reg 0, Imm 0, Imm 2], Count,
    Syscall NR_lseek [Reg 0, Imm 0, Imm 0], Count, Syscall NR_lseek [Reg 0, Imm 0, Imm 1], Count,
    Syscall NR_lseek [Reg 0, Imm 0, Imm 2], Count, Syscall NR_lseek [Reg 0, Imm 0, Imm 0], Count,
    Syscall NR_fallocate [Reg 0, Imm 0, Imm 0x30000, Imm 0x4000], Count, Syscall NR_lseek [Reg 0, Imm 0, Imm 1],
    Count, Syscall NR_lseek [Reg 0, Imm 0, Imm 2], Count, Syscall NR_lseek [Reg 0, Imm 0, Imm 0], Count,
    Syscall NR_lseek [Reg 0, Imm 0, Imm 1], Count, Syscall NR_lseek [Reg 0, Imm 0, Imm 2], Count,
    Syscall NR_lseek [Reg 0, Imm 0, Imm 0], Count, Syscall NR_fallocate [Reg 0, Imm 0, Imm 0x34000, Imm 0x4000],
    Count, Syscall NR_lseek [Reg 0, Imm 0, Imm 1], Count, Syscall NR_lseek [Reg 0, Imm 0, Imm 2], Count]"

definition min_mysql_lseek_fallocate_95_0_body4 :: "stmt list" where
  "min_mysql_lseek_fallocate_95_0_body4 = [
    Syscall NR_lseek [Reg 0, Imm 0, Imm 0], Count, Syscall NR_lseek [Reg 0, Imm 0, Imm 1], Count,
    Syscall NR_lseek [Reg 0, Imm 0, Imm 2], Count, Syscall NR_lseek [Reg 0, Imm 0, Imm 0], Count,
    Syscall NR_fallocate [Reg 0, Imm 0, Imm 0x38000, Imm 0x4000], Count, Syscall NR_lseek [Reg 0, Imm 0, Imm 1],
    Count, Syscall NR_lseek [Reg 0, Imm 0, Imm 2], Count, Syscall NR_lseek [Reg 0, Imm 0, Imm 0], Count,
    Syscall NR_lseek [Reg 0, Imm 0, Imm 1], Count, Syscall NR_lseek [Reg 0, Imm 0, Imm 2], Count,
    Syscall NR_lseek [Reg 0, Imm 0, Imm 0], Count, Syscall NR_fallocate [Reg 0, Imm 0, Imm 0x3c000, Imm 0x4000],
    Count, Syscall NR_lseek [Reg 0, Imm 0, Imm 1], Count, Syscall NR_lseek [Reg 0, Imm 0, Imm 2], Count,
    Syscall NR_lseek [Reg 0, Imm 0, Imm 0], Count, Syscall NR_lseek [Reg 0, Imm 0, Imm 1], Count,
    Syscall NR_lseek [Reg 0, Imm 0, Imm 2], Count, Syscall NR_lseek [Reg 0, Imm 0, Imm 0], Count]"

definition min_mysql_lseek_fallocate_95_0_body5 :: "stmt list" where
  "min_mysql_lseek_fallocate_95_0_body5 = [
    Syscall NR_fallocate [Reg 0, Imm 0, Imm 0x40000, Imm 0x4000], Count, Syscall NR_lseek [Reg 0, Imm 0, Imm 1],
    Count, Syscall NR_lseek [Reg 0, Imm 0, Imm 2], Count, Syscall NR_lseek [Reg 0, Imm 0, Imm 0], Count,
    Syscall NR_lseek [Reg 0, Imm 0, Imm 1], Count, Syscall NR_lseek [Reg 0, Imm 0, Imm 2], Count,
    Syscall NR_lseek [Reg 0, Imm 0, Imm 0], Count, Syscall NR_fallocate [Reg 0, Imm 0, Imm 0x44000, Imm 0x4000],
    Count, Syscall NR_lseek [Reg 0, Imm 0, Imm 1], Count, Syscall NR_lseek [Reg 0, Imm 0, Imm 2], Count,
    Syscall NR_lseek [Reg 0, Imm 0, Imm 0], Count, Syscall NR_lseek [Reg 0, Imm 0, Imm 1], Count,
    Syscall NR_lseek [Reg 0, Imm 0, Imm 2], Count, Syscall NR_lseek [Reg 0, Imm 0, Imm 0], Count,
    Syscall NR_fallocate [Reg 0, Imm 0, Imm 0x48000, Imm 0x4000], Count, Syscall NR_lseek [Reg 0, Imm 0, Imm 1],
    Count, Syscall NR_lseek [Reg 0, Imm 0, Imm 2], Count, Syscall NR_lseek [Reg 0, Imm 0, Imm 0], Count]"

definition min_mysql_lseek_fallocate_95_0_body6 :: "stmt list" where
  "min_mysql_lseek_fallocate_95_0_body6 = [
    Syscall NR_lseek [Reg 0, Imm 0, Imm 1], Count, Syscall NR_lseek [Reg 0, Imm 0, Imm 2], Count,
    Syscall NR_lseek [Reg 0, Imm 0, Imm 0], Count, Syscall NR_fallocate [Reg 0, Imm 0, Imm 0x4c000, Imm 0x4000],
    Count, Syscall NR_lseek [Reg 0, Imm 0, Imm 1], Count, Syscall NR_lseek [Reg 0, Imm 0, Imm 2], Count,
    Syscall NR_lseek [Reg 0, Imm 0, Imm 0], Count, Syscall NR_lseek [Reg 0, Imm 0, Imm 1], Count,
    Syscall NR_lseek [Reg 0, Imm 0, Imm 2], Count, Syscall NR_lseek [Reg 0, Imm 0, Imm 0], Count,
    Syscall NR_fallocate [Reg 0, Imm 0, Imm 0x50000, Imm 0x4000], Count, Syscall NR_lseek [Reg 0, Imm 0, Imm 1],
    Count, Syscall NR_lseek [Reg 0, Imm 0, Imm 2], Count, Syscall NR_lseek [Reg 0, Imm 0, Imm 0], Count,
    Syscall NR_lseek [Reg 0, Imm 0, Imm 1], Count, Syscall NR_lseek [Reg 0, Imm 0, Imm 2], Count,
    Syscall NR_lseek [Reg 0, Imm 0, Imm 0], Count, Syscall NR_fallocate [Reg 0, Imm 0, Imm 0x54000, Imm 0x4000],
    Count]"

definition min_mysql_lseek_fallocate_95_0_body7 :: "stmt list" where
  "min_mysql_lseek_fallocate_95_0_body7 = [
    Syscall NR_lseek [Reg 0, Imm 0, Imm 1], Count, Syscall NR_lseek [Reg 0, Imm 0, Imm 2], Count,
    Syscall NR_lseek [Reg 0, Imm 0, Imm 0], Count, Syscall NR_lseek [Reg 0, Imm 0, Imm 1], Count,
    Syscall NR_lseek [Reg 0, Imm 0, Imm 2], Count, Syscall NR_lseek [Reg 0, Imm 0, Imm 0], Count,
    Syscall NR_fallocate [Reg 0, Imm 0, Imm 0x58000, Imm 0x4000], Count, Syscall NR_lseek [Reg 0, Imm 0, Imm 1],
    Count, Syscall NR_lseek [Reg 0, Imm 0, Imm 2], Count, Syscall NR_lseek [Reg 0, Imm 0, Imm 0], Count,
    Syscall NR_fsync [Reg 0], Count, Syscall NR_fsync [Reg 0], Count]"

definition min_mysql_lseek_fallocate_95_0 :: syz_prog where
  "min_mysql_lseek_fallocate_95_0 = \<lparr>prog_name = ''min_mysql_lseek_fallocate_95_0'', prog_family = Mysql_v2,
     subdirs = [''sbtest''],
     filenames = [''./sbtest/sbtest20.ib''], filesizes = [376832],
     max_write_buffer = 0, init_regs = replicate 1 (- 1),
     reg_body = [], dereg_body = [],
     body = min_mysql_lseek_fallocate_95_0_body1 @ min_mysql_lseek_fallocate_95_0_body2 @
       min_mysql_lseek_fallocate_95_0_body3 @ min_mysql_lseek_fallocate_95_0_body4 @
       min_mysql_lseek_fallocate_95_0_body5 @ min_mysql_lseek_fallocate_95_0_body6 @
       min_mysql_lseek_fallocate_95_0_body7\<rparr>"

definition min_mysql_lseek_fallocate_95_0_target where
  "min_mysql_lseek_fallocate_95_0_target os_getenv os_inet_pton K = syz_target os_getenv os_inet_pton K min_mysql_lseek_fallocate_95_0"

lemmas min_mysql_lseek_fallocate_95_0_defs =
  min_mysql_lseek_fallocate_95_0_def min_mysql_lseek_fallocate_95_0_body1_def
  min_mysql_lseek_fallocate_95_0_body2_def min_mysql_lseek_fallocate_95_0_body3_def
  min_mysql_lseek_fallocate_95_0_body4_def min_mysql_lseek_fallocate_95_0_body5_def
  min_mysql_lseek_fallocate_95_0_body6_def min_mysql_lseek_fallocate_95_0_body7_def

lemma min_mysql_lseek_fallocate_95_0_ok: "prog_ok min_mysql_lseek_fallocate_95_0" "calls (body min_mysql_lseek_fallocate_95_0) = 117"
  by (simp_all add: prog_ok_def min_mysql_lseek_fallocate_95_0_defs prog_checks)

lemma min_mysql_lseek_fallocate_95_0_misses: "setup_misses min_mysql_lseek_fallocate_95_0" "filenames min_mysql_lseek_fallocate_95_0 \<noteq> []" "reg_body min_mysql_lseek_fallocate_95_0 = []" "num_regs min_mysql_lseek_fallocate_95_0 < 2 ^ 32"
  by (simp_all add: setup_misses_def opened_def misses_def path_names_def min_mysql_lseek_fallocate_95_0_defs prog_checks open_checks)

section \<open>min\_mysql\_lseek\_fallocate\_97\_0\<close>

definition min_mysql_lseek_fallocate_97_0_body1 :: "stmt list" where
  "min_mysql_lseek_fallocate_97_0_body1 = [
    Memcpy 0x20557540 (with_nul ''./sbtest/sbtest14.ibd'') 22,
    Syscall NR_openat [Dir_fd, Ptr 0x20557540, Imm 0x42, Imm 0x1ff], Count, Save_res 0,
    Syscall NR_fcntl [Reg 0, Imm 4, Imm 0x10000], Count, Store 2 0x20557580 (Imm 1), Store 2 0x20557582 (Imm 0),
    Store 8 0x20557588 (Imm 0), Store 8 0x20557590 (Imm 0), Store 4 0x20557598 (Imm 0),
    Syscall NR_fcntl [Reg 0, Imm 6, Ptr 0x20557580], Count, Syscall NR_lseek [Reg 0, Imm 0, Imm 1], Count,
    Syscall NR_lseek [Reg 0, Imm 0, Imm 2], Count, Syscall NR_lseek [Reg 0, Imm 0, Imm 0], Count,
    Syscall NR_fallocate [Reg 0, Imm 0, Imm 0x1c000, Imm 0x4000], Count, Syscall NR_lseek [Reg 0, Imm 0, Imm 1],
    Count, Syscall NR_lseek [Reg 0, Imm 0, Imm 2], Count, Syscall NR_lseek [Reg 0, Imm 0, Imm 0], Count,
    Syscall NR_lseek [Reg 0, Imm 0, Imm 1], Count, Syscall NR_lseek [Reg 0, Imm 0, Imm 2], Count,
    Syscall NR_lseek [Reg 0, Imm 0, Imm 0], Count, Syscall NR_fallocate [Reg 0, Imm 0, Imm 0x20000, Imm 0x4000],
    Count]"

definition min_mysql_lseek_fallocate_97_0_body2 :: "stmt list" where
  "min_mysql_lseek_fallocate_97_0_body2 = [
    Syscall NR_lseek [Reg 0, Imm 0, Imm 1], Count, Syscall NR_lseek [Reg 0, Imm 0, Imm 2], Count,
    Syscall NR_lseek [Reg 0, Imm 0, Imm 0], Count, Syscall NR_lseek [Reg 0, Imm 0, Imm 1], Count,
    Syscall NR_lseek [Reg 0, Imm 0, Imm 2], Count, Syscall NR_lseek [Reg 0, Imm 0, Imm 0], Count,
    Syscall NR_fallocate [Reg 0, Imm 0, Imm 0x24000, Imm 0x4000], Count, Syscall NR_lseek [Reg 0, Imm 0, Imm 1],
    Count, Syscall NR_lseek [Reg 0, Imm 0, Imm 2], Count, Syscall NR_lseek [Reg 0, Imm 0, Imm 0], Count,
    Syscall NR_lseek [Reg 0, Imm 0, Imm 1], Count, Syscall NR_lseek [Reg 0, Imm 0, Imm 2], Count,
    Syscall NR_lseek [Reg 0, Imm 0, Imm 0], Count, Syscall NR_fallocate [Reg 0, Imm 0, Imm 0x28000, Imm 0x4000],
    Count, Syscall NR_lseek [Reg 0, Imm 0, Imm 1], Count, Syscall NR_lseek [Reg 0, Imm 0, Imm 2], Count,
    Syscall NR_lseek [Reg 0, Imm 0, Imm 0], Count, Syscall NR_lseek [Reg 0, Imm 0, Imm 1], Count,
    Syscall NR_lseek [Reg 0, Imm 0, Imm 2], Count]"

definition min_mysql_lseek_fallocate_97_0_body3 :: "stmt list" where
  "min_mysql_lseek_fallocate_97_0_body3 = [
    Syscall NR_lseek [Reg 0, Imm 0, Imm 0], Count, Syscall NR_fallocate [Reg 0, Imm 0, Imm 0x2c000, Imm 0x4000],
    Count, Syscall NR_lseek [Reg 0, Imm 0, Imm 1], Count, Syscall NR_lseek [Reg 0, Imm 0, Imm 2], Count,
    Syscall NR_lseek [Reg 0, Imm 0, Imm 0], Count, Syscall NR_lseek [Reg 0, Imm 0, Imm 1], Count,
    Syscall NR_lseek [Reg 0, Imm 0, Imm 2], Count, Syscall NR_lseek [Reg 0, Imm 0, Imm 0], Count,
    Syscall NR_fallocate [Reg 0, Imm 0, Imm 0x30000, Imm 0x4000], Count, Syscall NR_lseek [Reg 0, Imm 0, Imm 1],
    Count, Syscall NR_lseek [Reg 0, Imm 0, Imm 2], Count, Syscall NR_lseek [Reg 0, Imm 0, Imm 0], Count,
    Syscall NR_lseek [Reg 0, Imm 0, Imm 1], Count, Syscall NR_lseek [Reg 0, Imm 0, Imm 2], Count,
    Syscall NR_lseek [Reg 0, Imm 0, Imm 0], Count, Syscall NR_fallocate [Reg 0, Imm 0, Imm 0x34000, Imm 0x4000],
    Count, Syscall NR_lseek [Reg 0, Imm 0, Imm 1], Count, Syscall NR_lseek [Reg 0, Imm 0, Imm 2], Count]"

definition min_mysql_lseek_fallocate_97_0_body4 :: "stmt list" where
  "min_mysql_lseek_fallocate_97_0_body4 = [
    Syscall NR_lseek [Reg 0, Imm 0, Imm 0], Count, Syscall NR_lseek [Reg 0, Imm 0, Imm 1], Count,
    Syscall NR_lseek [Reg 0, Imm 0, Imm 2], Count, Syscall NR_lseek [Reg 0, Imm 0, Imm 0], Count,
    Syscall NR_fallocate [Reg 0, Imm 0, Imm 0x38000, Imm 0x4000], Count, Syscall NR_lseek [Reg 0, Imm 0, Imm 1],
    Count, Syscall NR_lseek [Reg 0, Imm 0, Imm 2], Count, Syscall NR_lseek [Reg 0, Imm 0, Imm 0], Count,
    Syscall NR_lseek [Reg 0, Imm 0, Imm 1], Count, Syscall NR_lseek [Reg 0, Imm 0, Imm 2], Count,
    Syscall NR_lseek [Reg 0, Imm 0, Imm 0], Count, Syscall NR_fallocate [Reg 0, Imm 0, Imm 0x3c000, Imm 0x4000],
    Count, Syscall NR_lseek [Reg 0, Imm 0, Imm 1], Count, Syscall NR_lseek [Reg 0, Imm 0, Imm 2], Count,
    Syscall NR_lseek [Reg 0, Imm 0, Imm 0], Count, Syscall NR_lseek [Reg 0, Imm 0, Imm 1], Count,
    Syscall NR_lseek [Reg 0, Imm 0, Imm 2], Count, Syscall NR_lseek [Reg 0, Imm 0, Imm 0], Count]"

definition min_mysql_lseek_fallocate_97_0_body5 :: "stmt list" where
  "min_mysql_lseek_fallocate_97_0_body5 = [
    Syscall NR_fallocate [Reg 0, Imm 0, Imm 0x40000, Imm 0x4000], Count, Syscall NR_lseek [Reg 0, Imm 0, Imm 1],
    Count, Syscall NR_lseek [Reg 0, Imm 0, Imm 2], Count, Syscall NR_lseek [Reg 0, Imm 0, Imm 0], Count,
    Syscall NR_lseek [Reg 0, Imm 0, Imm 1], Count, Syscall NR_lseek [Reg 0, Imm 0, Imm 2], Count,
    Syscall NR_lseek [Reg 0, Imm 0, Imm 0], Count, Syscall NR_fallocate [Reg 0, Imm 0, Imm 0x44000, Imm 0x4000],
    Count, Syscall NR_lseek [Reg 0, Imm 0, Imm 1], Count, Syscall NR_lseek [Reg 0, Imm 0, Imm 2], Count,
    Syscall NR_lseek [Reg 0, Imm 0, Imm 0], Count, Syscall NR_lseek [Reg 0, Imm 0, Imm 1], Count,
    Syscall NR_lseek [Reg 0, Imm 0, Imm 2], Count, Syscall NR_lseek [Reg 0, Imm 0, Imm 0], Count,
    Syscall NR_fallocate [Reg 0, Imm 0, Imm 0x48000, Imm 0x4000], Count, Syscall NR_lseek [Reg 0, Imm 0, Imm 1],
    Count, Syscall NR_lseek [Reg 0, Imm 0, Imm 2], Count, Syscall NR_lseek [Reg 0, Imm 0, Imm 0], Count]"

definition min_mysql_lseek_fallocate_97_0_body6 :: "stmt list" where
  "min_mysql_lseek_fallocate_97_0_body6 = [
    Syscall NR_lseek [Reg 0, Imm 0, Imm 1], Count, Syscall NR_lseek [Reg 0, Imm 0, Imm 2], Count,
    Syscall NR_lseek [Reg 0, Imm 0, Imm 0], Count, Syscall NR_fallocate [Reg 0, Imm 0, Imm 0x4c000, Imm 0x4000],
    Count, Syscall NR_lseek [Reg 0, Imm 0, Imm 1], Count, Syscall NR_lseek [Reg 0, Imm 0, Imm 2], Count,
    Syscall NR_lseek [Reg 0, Imm 0, Imm 0], Count, Syscall NR_lseek [Reg 0, Imm 0, Imm 1], Count,
    Syscall NR_lseek [Reg 0, Imm 0, Imm 2], Count, Syscall NR_lseek [Reg 0, Imm 0, Imm 0], Count,
    Syscall NR_fallocate [Reg 0, Imm 0, Imm 0x50000, Imm 0x4000], Count, Syscall NR_lseek [Reg 0, Imm 0, Imm 1],
    Count, Syscall NR_lseek [Reg 0, Imm 0, Imm 2], Count, Syscall NR_lseek [Reg 0, Imm 0, Imm 0], Count,
    Syscall NR_lseek [Reg 0, Imm 0, Imm 1], Count, Syscall NR_lseek [Reg 0, Imm 0, Imm 2], Count,
    Syscall NR_lseek [Reg 0, Imm 0, Imm 0], Count, Syscall NR_fallocate [Reg 0, Imm 0, Imm 0x54000, Imm 0x4000],
    Count]"

definition min_mysql_lseek_fallocate_97_0_body7 :: "stmt list" where
  "min_mysql_lseek_fallocate_97_0_body7 = [
    Syscall NR_lseek [Reg 0, Imm 0, Imm 1], Count, Syscall NR_lseek [Reg 0, Imm 0, Imm 2], Count,
    Syscall NR_lseek [Reg 0, Imm 0, Imm 0], Count, Syscall NR_lseek [Reg 0, Imm 0, Imm 1], Count,
    Syscall NR_lseek [Reg 0, Imm 0, Imm 2], Count, Syscall NR_lseek [Reg 0, Imm 0, Imm 0], Count,
    Syscall NR_fallocate [Reg 0, Imm 0, Imm 0x58000, Imm 0x4000], Count, Syscall NR_lseek [Reg 0, Imm 0, Imm 1],
    Count, Syscall NR_lseek [Reg 0, Imm 0, Imm 2], Count, Syscall NR_lseek [Reg 0, Imm 0, Imm 0], Count,
    Syscall NR_fsync [Reg 0], Count, Syscall NR_fsync [Reg 0], Count]"

definition min_mysql_lseek_fallocate_97_0 :: syz_prog where
  "min_mysql_lseek_fallocate_97_0 = \<lparr>prog_name = ''min_mysql_lseek_fallocate_97_0'', prog_family = Mysql_v2,
     subdirs = [''sbtest''],
     filenames = [''./sbtest/sbtest14.ib''], filesizes = [376832],
     max_write_buffer = 0, init_regs = replicate 1 (- 1),
     reg_body = [], dereg_body = [],
     body = min_mysql_lseek_fallocate_97_0_body1 @ min_mysql_lseek_fallocate_97_0_body2 @
       min_mysql_lseek_fallocate_97_0_body3 @ min_mysql_lseek_fallocate_97_0_body4 @
       min_mysql_lseek_fallocate_97_0_body5 @ min_mysql_lseek_fallocate_97_0_body6 @
       min_mysql_lseek_fallocate_97_0_body7\<rparr>"

definition min_mysql_lseek_fallocate_97_0_target where
  "min_mysql_lseek_fallocate_97_0_target os_getenv os_inet_pton K = syz_target os_getenv os_inet_pton K min_mysql_lseek_fallocate_97_0"

lemmas min_mysql_lseek_fallocate_97_0_defs =
  min_mysql_lseek_fallocate_97_0_def min_mysql_lseek_fallocate_97_0_body1_def
  min_mysql_lseek_fallocate_97_0_body2_def min_mysql_lseek_fallocate_97_0_body3_def
  min_mysql_lseek_fallocate_97_0_body4_def min_mysql_lseek_fallocate_97_0_body5_def
  min_mysql_lseek_fallocate_97_0_body6_def min_mysql_lseek_fallocate_97_0_body7_def

lemma min_mysql_lseek_fallocate_97_0_ok: "prog_ok min_mysql_lseek_fallocate_97_0" "calls (body min_mysql_lseek_fallocate_97_0) = 117"
  by (simp_all add: prog_ok_def min_mysql_lseek_fallocate_97_0_defs prog_checks)

lemma min_mysql_lseek_fallocate_97_0_misses: "setup_misses min_mysql_lseek_fallocate_97_0" "filenames min_mysql_lseek_fallocate_97_0 \<noteq> []" "reg_body min_mysql_lseek_fallocate_97_0 = []" "num_regs min_mysql_lseek_fallocate_97_0 < 2 ^ 32"
  by (simp_all add: setup_misses_def opened_def misses_def path_names_def min_mysql_lseek_fallocate_97_0_defs prog_checks open_checks)

section \<open>min\_mysql\_lseek\_fallocate\_44\_0\<close>

definition min_mysql_lseek_fallocate_44_0_body1 :: "stmt list" where
  "min_mysql_lseek_fallocate_44_0_body1 = [
    Memcpy 0x201ec740 (with_nul ''./sbtest/sbtest11.ibd'') 22,
    Syscall NR_openat [Dir_fd, Ptr 0x201ec740, Imm 0x42, Imm 0x1ff], Count, Save_res 0,
    Syscall NR_fcntl [Reg 0, Imm 4, Imm 0x10000], Count, Store 2 0x201ec780 (Imm 1), Store 2 0x201ec782 (Imm 0),
    Store 8 0x201ec788 (Imm 0), Store 8 0x201ec790 (Imm 0), Store 4 0x201ec798 (Imm 0),
    Syscall NR_fcntl [Reg 0, Imm 6, Ptr 0x201ec780], Count, Syscall NR_lseek [Reg 0, Imm 0, Imm 1], Count,
    Syscall NR_lseek [Reg 0, Imm 0, Imm 2], Count, Syscall NR_lseek [Reg 0, Imm 0, Imm 0], Count,
    Syscall NR_fallocate [Reg 0, Imm 0, Imm 0x1c000, Imm 0x4000], Count, Syscall NR_lseek [Reg 0, Imm 0, Imm 1],
    Count, Syscall NR_lseek [Reg 0, Imm 0, Imm 2], Count, Syscall NR_lseek [Reg 0, Imm 0, Imm 0], Count,
    Syscall NR_lseek [Reg 0, Imm 0, Imm 1], Count, Syscall NR_lseek [Reg 0, Imm 0, Imm 2], Count,
    Syscall NR_lseek [Reg 0, Imm 0, Imm 0], Count, Syscall NR_fallocate [Reg 0, Imm 0, Imm 0x20000, Imm 0x4000],
    Count]"

definition min_mysql_lseek_fallocate_44_0_body2 :: "stmt list" where
  "min_mysql_lseek_fallocate_44_0_body2 = [
    Syscall NR_lseek [Reg 0, Imm 0, Imm 1], Count, Syscall NR_lseek [Reg 0, Imm 0, Imm 2], Count,
    Syscall NR_lseek [Reg 0, Imm 0, Imm 0], Count, Syscall NR_lseek [Reg 0, Imm 0, Imm 1], Count,
    Syscall NR_lseek [Reg 0, Imm 0, Imm 2], Count, Syscall NR_lseek [Reg 0, Imm 0, Imm 0], Count,
    Syscall NR_fallocate [Reg 0, Imm 0, Imm 0x24000, Imm 0x4000], Count, Syscall NR_lseek [Reg 0, Imm 0, Imm 1],
    Count, Syscall NR_lseek [Reg 0, Imm 0, Imm 2], Count, Syscall NR_lseek [Reg 0, Imm 0, Imm 0], Count,
    Syscall NR_lseek [Reg 0, Imm 0, Imm 1], Count, Syscall NR_lseek [Reg 0, Imm 0, Imm 2], Count,
    Syscall NR_lseek [Reg 0, Imm 0, Imm 0], Count, Syscall NR_fallocate [Reg 0, Imm 0, Imm 0x28000, Imm 0x4000],
    Count, Syscall NR_lseek [Reg 0, Imm 0, Imm 1], Count, Syscall NR_lseek [Reg 0, Imm 0, Imm 2], Count,
    Syscall NR_lseek [Reg 0, Imm 0, Imm 0], Count, Syscall NR_lseek [Reg 0, Imm 0, Imm 1], Count,
    Syscall NR_lseek [Reg 0, Imm 0, Imm 2], Count]"

definition min_mysql_lseek_fallocate_44_0_body3 :: "stmt list" where
  "min_mysql_lseek_fallocate_44_0_body3 = [
    Syscall NR_lseek [Reg 0, Imm 0, Imm 0], Count, Syscall NR_fallocate [Reg 0, Imm 0, Imm 0x2c000, Imm 0x4000],
    Count, Syscall NR_lseek [Reg 0, Imm 0, Imm 1], Count, Syscall NR_lseek [Reg 0, Imm 0, Imm 2], Count,
    Syscall NR_lseek [Reg 0, Imm 0, Imm 0], Count, Syscall NR_lseek [Reg 0, Imm 0, Imm 1], Count,
    Syscall NR_lseek [Reg 0, Imm 0, Imm 2], Count, Syscall NR_lseek [Reg 0, Imm 0, Imm 0], Count,
    Syscall NR_fallocate [Reg 0, Imm 0, Imm 0x30000, Imm 0x4000], Count, Syscall NR_lseek [Reg 0, Imm 0, Imm 1],
    Count, Syscall NR_lseek [Reg 0, Imm 0, Imm 2], Count, Syscall NR_lseek [Reg 0, Imm 0, Imm 0], Count,
    Syscall NR_lseek [Reg 0, Imm 0, Imm 1], Count, Syscall NR_lseek [Reg 0, Imm 0, Imm 2], Count,
    Syscall NR_lseek [Reg 0, Imm 0, Imm 0], Count, Syscall NR_fallocate [Reg 0, Imm 0, Imm 0x34000, Imm 0x4000],
    Count, Syscall NR_lseek [Reg 0, Imm 0, Imm 1], Count, Syscall NR_lseek [Reg 0, Imm 0, Imm 2], Count]"

definition min_mysql_lseek_fallocate_44_0_body4 :: "stmt list" where
  "min_mysql_lseek_fallocate_44_0_body4 = [
    Syscall NR_lseek [Reg 0, Imm 0, Imm 0], Count, Syscall NR_lseek [Reg 0, Imm 0, Imm 1], Count,
    Syscall NR_lseek [Reg 0, Imm 0, Imm 2], Count, Syscall NR_lseek [Reg 0, Imm 0, Imm 0], Count,
    Syscall NR_fallocate [Reg 0, Imm 0, Imm 0x38000, Imm 0x4000], Count, Syscall NR_lseek [Reg 0, Imm 0, Imm 1],
    Count, Syscall NR_lseek [Reg 0, Imm 0, Imm 2], Count, Syscall NR_lseek [Reg 0, Imm 0, Imm 0], Count,
    Syscall NR_lseek [Reg 0, Imm 0, Imm 1], Count, Syscall NR_lseek [Reg 0, Imm 0, Imm 2], Count,
    Syscall NR_lseek [Reg 0, Imm 0, Imm 0], Count, Syscall NR_fallocate [Reg 0, Imm 0, Imm 0x3c000, Imm 0x4000],
    Count, Syscall NR_lseek [Reg 0, Imm 0, Imm 1], Count, Syscall NR_lseek [Reg 0, Imm 0, Imm 2], Count,
    Syscall NR_lseek [Reg 0, Imm 0, Imm 0], Count, Syscall NR_lseek [Reg 0, Imm 0, Imm 1], Count,
    Syscall NR_lseek [Reg 0, Imm 0, Imm 2], Count, Syscall NR_lseek [Reg 0, Imm 0, Imm 0], Count]"

definition min_mysql_lseek_fallocate_44_0_body5 :: "stmt list" where
  "min_mysql_lseek_fallocate_44_0_body5 = [
    Syscall NR_fallocate [Reg 0, Imm 0, Imm 0x40000, Imm 0x4000], Count, Syscall NR_lseek [Reg 0, Imm 0, Imm 1],
    Count, Syscall NR_lseek [Reg 0, Imm 0, Imm 2], Count, Syscall NR_lseek [Reg 0, Imm 0, Imm 0], Count,
    Syscall NR_lseek [Reg 0, Imm 0, Imm 1], Count, Syscall NR_lseek [Reg 0, Imm 0, Imm 2], Count,
    Syscall NR_lseek [Reg 0, Imm 0, Imm 0], Count, Syscall NR_fallocate [Reg 0, Imm 0, Imm 0x44000, Imm 0x4000],
    Count, Syscall NR_lseek [Reg 0, Imm 0, Imm 1], Count, Syscall NR_lseek [Reg 0, Imm 0, Imm 2], Count,
    Syscall NR_lseek [Reg 0, Imm 0, Imm 0], Count, Syscall NR_lseek [Reg 0, Imm 0, Imm 1], Count,
    Syscall NR_lseek [Reg 0, Imm 0, Imm 2], Count, Syscall NR_lseek [Reg 0, Imm 0, Imm 0], Count,
    Syscall NR_fallocate [Reg 0, Imm 0, Imm 0x48000, Imm 0x4000], Count, Syscall NR_lseek [Reg 0, Imm 0, Imm 1],
    Count, Syscall NR_lseek [Reg 0, Imm 0, Imm 2], Count, Syscall NR_lseek [Reg 0, Imm 0, Imm 0], Count]"

definition min_mysql_lseek_fallocate_44_0_body6 :: "stmt list" where
  "min_mysql_lseek_fallocate_44_0_body6 = [
    Syscall NR_lseek [Reg 0, Imm 0, Imm 1], Count, Syscall NR_lseek [Reg 0, Imm 0, Imm 2], Count,
    Syscall NR_lseek [Reg 0, Imm 0, Imm 0], Count, Syscall NR_fallocate [Reg 0, Imm 0, Imm 0x4c000, Imm 0x4000],
    Count, Syscall NR_lseek [Reg 0, Imm 0, Imm 1], Count, Syscall NR_lseek [Reg 0, Imm 0, Imm 2], Count,
    Syscall NR_lseek [Reg 0, Imm 0, Imm 0], Count, Syscall NR_lseek [Reg 0, Imm 0, Imm 1], Count,
    Syscall NR_lseek [Reg 0, Imm 0, Imm 2], Count, Syscall NR_lseek [Reg 0, Imm 0, Imm 0], Count,
    Syscall NR_fallocate [Reg 0, Imm 0, Imm 0x50000, Imm 0x4000], Count, Syscall NR_lseek [Reg 0, Imm 0, Imm 1],
    Count, Syscall NR_lseek [Reg 0, Imm 0, Imm 2], Count, Syscall NR_lseek [Reg 0, Imm 0, Imm 0], Count,
    Syscall NR_lseek [Reg 0, Imm 0, Imm 1], Count, Syscall NR_lseek [Reg 0, Imm 0, Imm 2], Count,
    Syscall NR_lseek [Reg 0, Imm 0, Imm 0], Count, Syscall NR_fallocate [Reg 0, Imm 0, Imm 0x54000, Imm 0x4000],
    Count]"

definition min_mysql_lseek_fallocate_44_0_body7 :: "stmt list" where
  "min_mysql_lseek_fallocate_44_0_body7 = [
    Syscall NR_lseek [Reg 0, Imm 0, Imm 1], Count, Syscall NR_lseek [Reg 0, Imm 0, Imm 2], Count,
    Syscall NR_lseek [Reg 0, Imm 0, Imm 0], Count, Syscall NR_lseek [Reg 0, Imm 0, Imm 1], Count,
    Syscall NR_lseek [Reg 0, Imm 0, Imm 2], Count, Syscall NR_lseek [Reg 0, Imm 0, Imm 0], Count,
    Syscall NR_fallocate [Reg 0, Imm 0, Imm 0x58000, Imm 0x4000], Count, Syscall NR_lseek [Reg 0, Imm 0, Imm 1],
    Count, Syscall NR_lseek [Reg 0, Imm 0, Imm 2], Count, Syscall NR_lseek [Reg 0, Imm 0, Imm 0], Count,
    Syscall NR_fsync [Reg 0], Count, Syscall NR_fsync [Reg 0], Count, Syscall NR_fsync [Reg 0], Count]"

definition min_mysql_lseek_fallocate_44_0 :: syz_prog where
  "min_mysql_lseek_fallocate_44_0 = \<lparr>prog_name = ''min_mysql_lseek_fallocate_44_0'', prog_family = Mysql_v2,
     subdirs = [''sbtest''],
     filenames = [''./sbtest/sbtest11.ib''], filesizes = [376832],
     max_write_buffer = 0, init_regs = replicate 1 (- 1),
     reg_body = [], dereg_body = [],
     body = min_mysql_lseek_fallocate_44_0_body1 @ min_mysql_lseek_fallocate_44_0_body2 @
       min_mysql_lseek_fallocate_44_0_body3 @ min_mysql_lseek_fallocate_44_0_body4 @
       min_mysql_lseek_fallocate_44_0_body5 @ min_mysql_lseek_fallocate_44_0_body6 @
       min_mysql_lseek_fallocate_44_0_body7\<rparr>"

definition min_mysql_lseek_fallocate_44_0_target where
  "min_mysql_lseek_fallocate_44_0_target os_getenv os_inet_pton K = syz_target os_getenv os_inet_pton K min_mysql_lseek_fallocate_44_0"

lemmas min_mysql_lseek_fallocate_44_0_defs =
  min_mysql_lseek_fallocate_44_0_def min_mysql_lseek_fallocate_44_0_body1_def
  min_mysql_lseek_fallocate_44_0_body2_def min_mysql_lseek_fallocate_44_0_body3_def
  min_mysql_lseek_fallocate_44_0_body4_def min_mysql_lseek_fallocate_44_0_body5_def
  min_mysql_lseek_fallocate_44_0_body6_def min_mysql_lseek_fallocate_44_0_body7_def

lemma min_mysql_lseek_fallocate_44_0_ok: "prog_ok min_mysql_lseek_fallocate_44_0" "calls (body min_mysql_lseek_fallocate_44_0) = 118"
  by (simp_all add: prog_ok_def min_mysql_lseek_fallocate_44_0_defs prog_checks)

lemma min_mysql_lseek_fallocate_44_0_misses: "setup_misses min_mysql_lseek_fallocate_44_0" "filenames min_mysql_lseek_fallocate_44_0 \<noteq> []" "reg_body min_mysql_lseek_fallocate_44_0 = []" "num_regs min_mysql_lseek_fallocate_44_0 < 2 ^ 32"
  by (simp_all add: setup_misses_def opened_def misses_def path_names_def min_mysql_lseek_fallocate_44_0_defs prog_checks open_checks)

section \<open>min\_mysql\_lseek\_fallocate\_98\_0\<close>

definition min_mysql_lseek_fallocate_98_0_body1 :: "stmt list" where
  "min_mysql_lseek_fallocate_98_0_body1 = [
    Memcpy 0x20b09240 (with_nul ''./sbtest/sbtest5.ibd'') 21,
    Syscall NR_openat [Dir_fd, Ptr 0x20b09240, Imm 0x42, Imm 0x1ff], Count, Save_res 0,
    Syscall NR_fcntl [Reg 0, Imm 4, Imm 0x10000], Count, Store 2 0x20b09280 (Imm 1), Store 2 0x20b09282 (Imm 0),
    Store 8 0x20b09288 (Imm 0), Store 8 0x20b09290 (Imm 0), Store 4 0x20b09298 (Imm 0),
    Syscall NR_fcntl [Reg 0, Imm 6, Ptr 0x20b09280], Count, Syscall NR_lseek [Reg 0, Imm 0, Imm 1], Count,
    Syscall NR_lseek [Reg 0, Imm 0, Imm 2], Count, Syscall NR_lseek [Reg 0, Imm 0, Imm 0], Count,
    Syscall NR_fallocate [Reg 0, Imm 0, Imm 0x1c000, Imm 0x4000], Count, Syscall NR_lseek [Reg 0, Imm 0, Imm 1],
    Count, Syscall NR_lseek [Reg 0, Imm 0, Imm 2], Count, Syscall NR_lseek [Reg 0, Imm 0, Imm 0], Count,
    Syscall NR_lseek [Reg 0, Imm 0, Imm 1], Count, Syscall NR_lseek [Reg 0, Imm 0, Imm 2], Count,
    Syscall NR_lseek [Reg 0, Imm 0, Imm 0], Count, Syscall NR_fallocate [Reg 0, Imm 0, Imm 0x20000, Imm 0x4000],
    Count]"

definition min_mysql_lseek_fallocate_98_0_body2 :: "stmt list" where
  "min_mysql_lseek_fallocate_98_0_body2 = [
    Syscall NR_lseek [Reg 0, Imm 0, Imm 1], Count, Syscall NR_lseek [Reg 0, Imm 0, Imm 2], Count,
    Syscall NR_lseek [Reg 0, Imm 0, Imm 0], Count, Syscall NR_lseek [Reg 0, Imm 0, Imm 1], Count,
    Syscall NR_lseek [Reg 0, Imm 0, Imm 2], Count, Syscall NR_lseek [Reg 0, Imm 0, Imm 0], Count,
    Syscall NR_fallocate [Reg 0, Imm 0, Imm 0x24000, Imm 0x4000], Count, Syscall NR_lseek [Reg 0, Imm 0, Imm 1],
    Count, Syscall NR_lseek [Reg 0, Imm 0, Imm 2], Count, Syscall NR_lseek [Reg 0, Imm 0, Imm 0], Count,
    Syscall NR_lseek [Reg 0, Imm 0, Imm 1], Count, Syscall NR_lseek [Reg 0, Imm 0, Imm 2], Count,
    Syscall NR_lseek [Reg 0, Imm 0, Imm 0], Count, Syscall NR_fallocate [Reg 0, Imm 0, Imm 0x28000, Imm 0x4000],
    Count, Syscall NR_lseek [Reg 0, Imm 0, Imm 1], Count, Syscall NR_lseek [Reg 0, Imm 0, Imm 2], Count,
    Syscall NR_lseek [Reg 0, Imm 0, Imm 0], Count, Syscall NR_lseek [Reg 0, Imm 0, Imm 1], Count,
    Syscall NR_lseek [Reg 0, Imm 0, Imm 2], Count]"

definition min_mysql_lseek_fallocate_98_0_body3 :: "stmt list" where
  "min_mysql_lseek_fallocate_98_0_body3 = [
    Syscall NR_lseek [Reg 0, Imm 0, Imm 0], Count, Syscall NR_fallocate [Reg 0, Imm 0, Imm 0x2c000, Imm 0x4000],
    Count, Syscall NR_lseek [Reg 0, Imm 0, Imm 1], Count, Syscall NR_lseek [Reg 0, Imm 0, Imm 2], Count,
    Syscall NR_lseek [Reg 0, Imm 0, Imm 0], Count, Syscall NR_lseek [Reg 0, Imm 0, Imm 1], Count,
    Syscall NR_lseek [Reg 0, Imm 0, Imm 2], Count, Syscall NR_lseek [Reg 0, Imm 0, Imm 0], Count,
    Syscall NR_fallocate [Reg 0, Imm 0, Imm 0x30000, Imm 0x4000], Count, Syscall NR_lseek [Reg 0, Imm 0, Imm 1],
    Count, Syscall NR_lseek [Reg 0, Imm 0, Imm 2], Count, Syscall NR_lseek [Reg 0, Imm 0, Imm 0], Count,
    Syscall NR_lseek [Reg 0, Imm 0, Imm 1], Count, Syscall NR_lseek [Reg 0, Imm 0, Imm 2], Count,
    Syscall NR_lseek [Reg 0, Imm 0, Imm 0], Count, Syscall NR_fallocate [Reg 0, Imm 0, Imm 0x34000, Imm 0x4000],
    Count, Syscall NR_lseek [Reg 0, Imm 0, Imm 1], Count, Syscall NR_lseek [Reg 0, Imm 0, Imm 2], Count]"

definition min_mysql_lseek_fallocate_98_0_body4 :: "stmt list" where
  "min_mysql_lseek_fallocate_98_0_body4 = [
    Syscall NR_lseek [Reg 0, Imm 0, Imm 0], Count, Syscall NR_lseek [Reg 0, Imm 0, Imm 1], Count,
    Syscall NR_lseek [Reg 0, Imm 0, Imm 2], Count, Syscall NR_lseek [Reg 0, Imm 0, Imm 0], Count,
    Syscall NR_fallocate [Reg 0, Imm 0, Imm 0x38000, Imm 0x4000], Count, Syscall NR_lseek [Reg 0, Imm 0, Imm 1],
    Count, Syscall NR_lseek [Reg 0, Imm 0, Imm 2], Count, Syscall NR_lseek [Reg 0, Imm 0, Imm 0], Count,
    Syscall NR_lseek [Reg 0, Imm 0, Imm 1], Count, Syscall NR_lseek [Reg 0, Imm 0, Imm 2], Count,
    Syscall NR_lseek [Reg 0, Imm 0, Imm 0], Count, Syscall NR_fallocate [Reg 0, Imm 0, Imm 0x3c000, Imm 0x4000],
    Count, Syscall NR_lseek [Reg 0, Imm 0, Imm 1], Count, Syscall NR_lseek [Reg 0, Imm 0, Imm 2], Count,
    Syscall NR_lseek [Reg 0, Imm 0, Imm 0], Count, Syscall NR_lseek [Reg 0, Imm 0, Imm 1], Count,
    Syscall NR_lseek [Reg 0, Imm 0, Imm 2], Count, Syscall NR_lseek [Reg 0, Imm 0, Imm 0], Count]"

definition min_mysql_lseek_fallocate_98_0_body5 :: "stmt list" where
  "min_mysql_lseek_fallocate_98_0_body5 = [
    Syscall NR_fallocate [Reg 0, Imm 0, Imm 0x40000, Imm 0x4000], Count, Syscall NR_lseek [Reg 0, Imm 0, Imm 1],
    Count, Syscall NR_lseek [Reg 0, Imm 0, Imm 2], Count, Syscall NR_lseek [Reg 0, Imm 0, Imm 0], Count,
    Syscall NR_lseek [Reg 0, Imm 0, Imm 1], Count, Syscall NR_lseek [Reg 0, Imm 0, Imm 2], Count,
    Syscall NR_lseek [Reg 0, Imm 0, Imm 0], Count, Syscall NR_fallocate [Reg 0, Imm 0, Imm 0x44000, Imm 0x4000],
    Count, Syscall NR_lseek [Reg 0, Imm 0, Imm 1], Count, Syscall NR_lseek [Reg 0, Imm 0, Imm 2], Count,
    Syscall NR_lseek [Reg 0, Imm 0, Imm 0], Count, Syscall NR_lseek [Reg 0, Imm 0, Imm 1], Count,
    Syscall NR_lseek [Reg 0, Imm 0, Imm 2], Count, Syscall NR_lseek [Reg 0, Imm 0, Imm 0], Count,
    Syscall NR_fallocate [Reg 0, Imm 0, Imm 0x48000, Imm 0x4000], Count, Syscall NR_lseek [Reg 0, Imm 0, Imm 1],
    Count, Syscall NR_lseek [Reg 0, Imm 0, Imm 2], Count, Syscall NR_lseek [Reg 0, Imm 0, Imm 0], Count]"

definition min_mysql_lseek_fallocate_98_0_body6 :: "stmt list" where
  "min_mysql_lseek_fallocate_98_0_body6 = [
    Syscall NR_lseek [Reg 0, Imm 0, Imm 1], Count, Syscall NR_lseek [Reg 0, Imm 0, Imm 2], Count,
    Syscall NR_lseek [Reg 0, Imm 0, Imm 0], Count, Syscall NR_fallocate [Reg 0, Imm 0, Imm 0x4c000, Imm 0x4000],
    Count, Syscall NR_lseek [Reg 0, Imm 0, Imm 1], Count, Syscall NR_lseek [Reg 0, Imm 0, Imm 2], Count,
    Syscall NR_lseek [Reg 0, Imm 0, Imm 0], Count, Syscall NR_lseek [Reg 0, Imm 0, Imm 1], Count,
    Syscall NR_lseek [Reg 0, Imm 0, Imm 2], Count, Syscall NR_lseek [Reg 0, Imm 0, Imm 0], Count,
    Syscall NR_fallocate [Reg 0, Imm 0, Imm 0x50000, Imm 0x4000], Count, Syscall NR_lseek [Reg 0, Imm 0, Imm 1],
    Count, Syscall NR_lseek [Reg 0, Imm 0, Imm 2], Count, Syscall NR_lseek [Reg 0, Imm 0, Imm 0], Count,
    Syscall NR_lseek [Reg 0, Imm 0, Imm 1], Count, Syscall NR_lseek [Reg 0, Imm 0, Imm 2], Count,
    Syscall NR_lseek [Reg 0, Imm 0, Imm 0], Count, Syscall NR_fallocate [Reg 0, Imm 0, Imm 0x54000, Imm 0x4000],
    Count]"

definition min_mysql_lseek_fallocate_98_0_body7 :: "stmt list" where
  "min_mysql_lseek_fallocate_98_0_body7 = [
    Syscall NR_lseek [Reg 0, Imm 0, Imm 1], Count, Syscall NR_lseek [Reg 0, Imm 0, Imm 2], Count,
    Syscall NR_lseek [Reg 0, Imm 0, Imm 0], Count, Syscall NR_lseek [Reg 0, Imm 0, Imm 1], Count,
    Syscall NR_lseek [Reg 0, Imm 0, Imm 2], Count, Syscall NR_lseek [Reg 0, Imm 0, Imm 0], Count,
    Syscall NR_fallocate [Reg 0, Imm 0, Imm 0x58000, Imm 0x4000], Count, Syscall NR_lseek [Reg 0, Imm 0, Imm 1],
    Count, Syscall NR_lseek [Reg 0, Imm 0, Imm 2], Count, Syscall NR_lseek [Reg 0, Imm 0, Imm 0], Count,
    Syscall NR_fsync [Reg 0], Count, Syscall NR_fsync [Reg 0], Count, Syscall NR_fsync [Reg 0], Count]"

definition min_mysql_lseek_fallocate_98_0 :: syz_prog where
  "min_mysql_lseek_fallocate_98_0 = \<lparr>prog_name = ''min_mysql_lseek_fallocate_98_0'', prog_family = Mysql_v2,
     subdirs = [''sbtest''],
     filenames = [''./sbtest/sbtest5.ib''], filesizes = [376832],
     max_write_buffer = 0, init_regs = replicate 1 (- 1),
     reg_body = [], dereg_body = [],
     body = min_mysql_lseek_fallocate_98_0_body1 @ min_mysql_lseek_fallocate_98_0_body2 @
       min_mysql_lseek_fallocate_98_0_body3 @ min_mysql_lseek_fallocate_98_0_body4 @
       min_mysql_lseek_fallocate_98_0_body5 @ min_mysql_lseek_fallocate_98_0_body6 @
       min_mysql_lseek_fallocate_98_0_body7\<rparr>"

definition min_mysql_lseek_fallocate_98_0_target where
  "min_mysql_lseek_fallocate_98_0_target os_getenv os_inet_pton K = syz_target os_getenv os_inet_pton K min_mysql_lseek_fallocate_98_0"

lemmas min_mysql_lseek_fallocate_98_0_defs =
  min_mysql_lseek_fallocate_98_0_def min_mysql_lseek_fallocate_98_0_body1_def
  min_mysql_lseek_fallocate_98_0_body2_def min_mysql_lseek_fallocate_98_0_body3_def
  min_mysql_lseek_fallocate_98_0_body4_def min_mysql_lseek_fallocate_98_0_body5_def
  min_mysql_lseek_fallocate_98_0_body6_def min_mysql_lseek_fallocate_98_0_body7_def

lemma min_mysql_lseek_fallocate_98_0_ok: "prog_ok min_mysql_lseek_fallocate_98_0" "calls (body min_mysql_lseek_fallocate_98_0) = 118"
  by (simp_all add: prog_ok_def min_mysql_lseek_fallocate_98_0_defs prog_checks)

lemma min_mysql_lseek_fallocate_98_0_misses: "setup_misses min_mysql_lseek_fallocate_98_0" "filenames min_mysql_lseek_fallocate_98_0 \<noteq> []" "reg_body min_mysql_lseek_fallocate_98_0 = []" "num_regs min_mysql_lseek_fallocate_98_0 < 2 ^ 32"
  by (simp_all add: setup_misses_def opened_def misses_def path_names_def min_mysql_lseek_fallocate_98_0_defs prog_checks open_checks)

end
