(* ===== verification/CSB_Progs_Mysql_v2e.thy ===== *)
theory CSB_Progs_Mysql_v2e
  imports CSB_Syz_Files
begin

text \<open>
  Bodies of generated targets of bench/targets/mysql\_v2, statement by statement in the order of the
  files syz/<name>.h, and the targets made of them (the files <name>.h). Each passes the check.
\<close>

section \<open>min\_mysql\_lseek\_fallocate\_16\_0\<close>

definition min_mysql_lseek_fallocate_16_0_body1 :: "stmt list" where
  "min_mysql_lseek_fallocate_16_0_body1 = [
    Memcpy 0x208c8440 (with_nul ''./sbtest/sbtest17.ibd'') 22,
    Syscall NR_openat [Dir_fd, Ptr 0x208c8440, Imm 0x42, Imm 0x1ff], Count, Save_res 0,
    Syscall NR_fcntl [Reg 0, Imm 4, Imm 0x10000], Count, Store 2 0x208c8480 (Imm 1), Store 2 0x208c8482 (Imm 0),
    Store 8 0x208c8488 (Imm 0), Store 8 0x208c8490 (Imm 0), Store 4 0x208c8498 (Imm 0),
    Syscall NR_fcntl [Reg 0, Imm 6, Ptr 0x208c8480], Count, Syscall NR_lseek [Reg 0, Imm 0, Imm 1], Count,
    Syscall NR_lseek [Reg 0, Imm 0, Imm 2], Count, Syscall NR_lseek [Reg 0, Imm 0, Imm 0], Count,
    Syscall NR_fallocate [Reg 0, Imm 0, Imm 0x1c000, Imm 0x4000], Count, Syscall NR_lseek [Reg 0, Imm 0, Imm 1],
    Count, Syscall NR_lseek [Reg 0, Imm 0, Imm 2], Count, Syscall NR_lseek [Reg 0, Imm 0, Imm 0], Count,
    Syscall NR_lseek [Reg 0, Imm 0, Imm 1], Count, Syscall NR_lseek [Reg 0, Imm 0, Imm 2], Count,
    Syscall NR_lseek [Reg 0, Imm 0, Imm 0], Count, Syscall NR_fallocate [Reg 0, Imm 0, Imm 0x20000, Imm 0x4000],
    Count]"

definition min_mysql_lseek_fallocate_16_0_body2 :: "stmt list" where
  "min_mysql_lseek_fallocate_16_0_body2 = [
    Syscall NR_lseek [Reg 0, Imm 0, Imm 1], Count, Syscall NR_lseek [Reg 0, Imm 0, Imm 2], Count,
    Syscall NR_lseek [Reg 0, Imm 0, Imm 0], Count, Syscall NR_lseek [Reg 0, Imm 0, Imm 1], Count,
    Syscall NR_lseek [Reg 0, Imm 0, Imm 2], Count, Syscall NR_lseek [Reg 0, Imm 0, Imm 0], Count,
    Syscall NR_fallocate [Reg 0, Imm 0, Imm 0x24000, Imm 0x4000], Count, Syscall NR_lseek [Reg 0, Imm 0, Imm 1],
    Count, Syscall NR_lseek [Reg 0, Imm 0, Imm 2], Count, Syscall NR_lseek [Reg 0, Imm 0, Imm 0], Count,
    Syscall NR_lseek [Reg 0, Imm 0, Imm 1], Count, Syscall NR_lseek [Reg 0, Imm 0, Imm 2], Count,
    Syscall NR_lseek [Reg 0, Imm 0, Imm 0], Count, Syscall NR_fallocate [Reg 0, Imm 0, Imm 0x28000, Imm 0x4000],
    Count, Syscall NR_lseek [Reg 0, Imm 0, Imm 1], Count, Syscall NR_lseek [Reg 0, Imm 0, Imm 2], Count,
    Syscall NR_lseek [Reg 0, Imm 0, Imm 0], Count, Syscall NR_lseek [Reg 0, Imm 0, Imm 1], Count,
    Syscall NR_lseek [Reg 0, Imm 0, Imm 2], Count]"

definition min_mysql_lseek_fallocate_16_0_body3 :: "stmt list" where
  "min_mysql_lseek_fallocate_16_0_body3 = [
    Syscall NR_lseek [Reg 0, Imm 0, Imm 0], Count, Syscall NR_fallocate [Reg 0, Imm 0, Imm 0x2c000, Imm 0x4000],
    Count, Syscall NR_lseek [Reg 0, Imm 0, Imm 1], Count, Syscall NR_lseek [Reg 0, Imm 0, Imm 2], Count,
    Syscall NR_lseek [Reg 0, Imm 0, Imm 0], Count, Syscall NR_lseek [Reg 0, Imm 0, Imm 1], Count,
    Syscall NR_lseek [Reg 0, Imm 0, Imm 2], Count, Syscall NR_lseek [Reg 0, Imm 0, Imm 0], Count,
    Syscall NR_fallocate [Reg 0, Imm 0, Imm 0x30000, Imm 0x4000], Count, Syscall NR_lseek [Reg 0, Imm 0, Imm 1],
    Count, Syscall NR_lseek [Reg 0, Imm 0, Imm 2], Count, Syscall NR_lseek [Reg 0, Imm 0, Imm 0], Count,
    Syscall NR_lseek [Reg 0, Imm 0, Imm 1], Count, Syscall NR_lseek [Reg 0, Imm 0, Imm 2], Count,
    Syscall NR_lseek [Reg 0, Imm 0, Imm 0], Count, Syscall NR_fallocate [Reg 0, Imm 0, Imm 0x34000, Imm 0x4000],
    Count, Syscall NR_lseek [Reg 0, Imm 0, Imm 1], Count, Syscall NR_lseek [Reg 0, Imm 0, Imm 2], Count]"

definition min_mysql_lseek_fallocate_16_0_body4 :: "stmt list" where
  "min_mysql_lseek_fallocate_16_0_body4 = [
    Syscall NR_lseek [Reg 0, Imm 0, Imm 0], Count, Syscall NR_lseek [Reg 0, Imm 0, Imm 1], Count,
    Syscall NR_lseek [Reg 0, Imm 0, Imm 2], Count, Syscall NR_lseek [Reg 0, Imm 0, Imm 0], Count,
    Syscall NR_fallocate [Reg 0, Imm 0, Imm 0x38000, Imm 0x4000], Count, Syscall NR_lseek [Reg 0, Imm 0, Imm 1],
    Count, Syscall NR_lseek [Reg 0, Imm 0, Imm 2], Count, Syscall NR_lseek [Reg 0, Imm 0, Imm 0], Count,
    Syscall NR_lseek [Reg 0, Imm 0, Imm 1], Count, Syscall NR_lseek [Reg 0, Imm 0, Imm 2], Count,
    Syscall NR_lseek [Reg 0, Imm 0, Imm 0], Count, Syscall NR_fallocate [Reg 0, Imm 0, Imm 0x3c000, Imm 0x4000],
    Count, Syscall NR_lseek [Reg 0, Imm 0, Imm 1], Count, Syscall NR_lseek [Reg 0, Imm 0, Imm 2], Count,
    Syscall NR_lseek [Reg 0, Imm 0, Imm 0], Count, Syscall NR_lseek [Reg 0, Imm 0, Imm 1], Count,
    Syscall NR_lseek [Reg 0, Imm 0, Imm 2], Count, Syscall NR_lseek [Reg 0, Imm 0, Imm 0], Count]"

definition min_mysql_lseek_fallocate_16_0_body5 :: "stmt list" where
  "min_mysql_lseek_fallocate_16_0_body5 = [
    Syscall NR_fallocate [Reg 0, Imm 0, Imm 0x40000, Imm 0x4000], Count, Syscall NR_lseek [Reg 0, Imm 0, Imm 1],
    Count, Syscall NR_lseek [Reg 0, Imm 0, Imm 2], Count, Syscall NR_lseek [Reg 0, Imm 0, Imm 0], Count,
    Syscall NR_lseek [Reg 0, Imm 0, Imm 1], Count, Syscall NR_lseek [Reg 0, Imm 0, Imm 2], Count,
    Syscall NR_lseek [Reg 0, Imm 0, Imm 0], Count, Syscall NR_fallocate [Reg 0, Imm 0, Imm 0x44000, Imm 0x4000],
    Count, Syscall NR_lseek [Reg 0, Imm 0, Imm 1], Count, Syscall NR_lseek [Reg 0, Imm 0, Imm 2], Count,
    Syscall NR_lseek [Reg 0, Imm 0, Imm 0], Count, Syscall NR_lseek [Reg 0, Imm 0, Imm 1], Count,
    Syscall NR_lseek [Reg 0, Imm 0, Imm 2], Count, Syscall NR_lseek [Reg 0, Imm 0, Imm 0], Count,
    Syscall NR_fallocate [Reg 0, Imm 0, Imm 0x48000, Imm 0x4000], Count, Syscall NR_lseek [Reg 0, Imm 0, Imm 1],
    Count, Syscall NR_lseek [Reg 0, Imm 0, Imm 2], Count, Syscall NR_lseek [Reg 0, Imm 0, Imm 0], Count]"

definition min_mysql_lseek_fallocate_16_0_body6 :: "stmt list" where
  "min_mysql_lseek_fallocate_16_0_body6 = [
    Syscall NR_lseek [Reg 0, Imm 0, Imm 1], Count, Syscall NR_lseek [Reg 0, Imm 0, Imm 2], Count,
    Syscall NR_lseek [Reg 0, Imm 0, Imm 0], Count, Syscall NR_fallocate [Reg 0, Imm 0, Imm 0x4c000, Imm 0x4000],
    Count, Syscall NR_lseek [Reg 0, Imm 0, Imm 1], Count, Syscall NR_lseek [Reg 0, Imm 0, Imm 2], Count,
    Syscall NR_lseek [Reg 0, Imm 0, Imm 0], Count, Syscall NR_lseek [Reg 0, Imm 0, Imm 1], Count,
    Syscall NR_lseek [Reg 0, Imm 0, Imm 2], Count, Syscall NR_lseek [Reg 0, Imm 0, Imm 0], Count,
    Syscall NR_fallocate [Reg 0, Imm 0, Imm 0x50000, Imm 0x4000], Count, Syscall NR_lseek [Reg 0, Imm 0, Imm 1],
    Count, Syscall NR_lseek [Reg 0, Imm 0, Imm 2], Count, Syscall NR_lseek [Reg 0, Imm 0, Imm 0], Count,
    Syscall NR_lseek [Reg 0, Imm 0, Imm 1], Count, Syscall NR_lseek [Reg 0, Imm 0, Imm 2], Count,
    Syscall NR_lseek [Reg 0, Imm 0, Imm 0], Count, Syscall NR_fallocate [Reg 0, Imm 0, Imm 0x54000, Imm 0x4000],
    Count]"

definition min_mysql_lseek_fallocate_16_0_body7 :: "stmt list" where
  "min_mysql_lseek_fallocate_16_0_body7 = [
    Syscall NR_lseek [Reg 0, Imm 0, Imm 1], Count, Syscall NR_lseek [Reg 0, Imm 0, Imm 2], Count,
    Syscall NR_lseek [Reg 0, Imm 0, Imm 0], Count, Syscall NR_lseek [Reg 0, Imm 0, Imm 1], Count,
    Syscall NR_lseek [Reg 0, Imm 0, Imm 2], Count, Syscall NR_lseek [Reg 0, Imm 0, Imm 0], Count,
    Syscall NR_fallocate [Reg 0, Imm 0, Imm 0x58000, Imm 0x4000], Count, Syscall NR_lseek [Reg 0, Imm 0, Imm 1],
    Count, Syscall NR_lseek [Reg 0, Imm 0, Imm 2], Count, Syscall NR_lseek [Reg 0, Imm 0, Imm 0], Count,
    Syscall NR_close [Reg 0], Count, Memcpy 0x20839ec0 (with_nul ''./sbtest/sbtest17.ibd'') 22,
    Syscall NR_unlinkat [Dir_fd, Ptr 0x20839ec0, Imm 0], Count]"

definition min_mysql_lseek_fallocate_16_0 :: syz_prog where
  "min_mysql_lseek_fallocate_16_0 = \<lparr>prog_name = ''min_mysql_lseek_fallocate_16_0'', prog_family = Mysql_v2,
     subdirs = [''sbtest''],
     filenames = [''./sbtest/sbtest17.ib''], filesizes = [376832],
     max_write_buffer = 0, init_regs = replicate 1 (- 1),
     reg_body = [], dereg_body = [],
     body = min_mysql_lseek_fallocate_16_0_body1 @ min_mysql_lseek_fallocate_16_0_body2 @
       min_mysql_lseek_fallocate_16_0_body3 @ min_mysql_lseek_fallocate_16_0_body4 @
       min_mysql_lseek_fallocate_16_0_body5 @ min_mysql_lseek_fallocate_16_0_body6 @
       min_mysql_lseek_fallocate_16_0_body7\<rparr>"

definition min_mysql_lseek_fallocate_16_0_target where
  "min_mysql_lseek_fallocate_16_0_target os_getenv os_inet_pton K = syz_target os_getenv os_inet_pton K min_mysql_lseek_fallocate_16_0"

lemmas min_mysql_lseek_fallocate_16_0_defs =
  min_mysql_lseek_fallocate_16_0_def min_mysql_lseek_fallocate_16_0_body1_def
  min_mysql_lseek_fallocate_16_0_body2_def min_mysql_lseek_fallocate_16_0_body3_def
  min_mysql_lseek_fallocate_16_0_body4_def min_mysql_lseek_fallocate_16_0_body5_def
  min_mysql_lseek_fallocate_16_0_body6_def min_mysql_lseek_fallocate_16_0_body7_def

lemma min_mysql_lseek_fallocate_16_0_ok: "prog_ok min_mysql_lseek_fallocate_16_0" "calls (body min_mysql_lseek_fallocate_16_0) = 117"
  by (simp_all add: prog_ok_def min_mysql_lseek_fallocate_16_0_defs prog_checks)

lemma min_mysql_lseek_fallocate_16_0_misses: "setup_misses min_mysql_lseek_fallocate_16_0" "filenames min_mysql_lseek_fallocate_16_0 \<noteq> []" "reg_body min_mysql_lseek_fallocate_16_0 = []" "num_regs min_mysql_lseek_fallocate_16_0 < 2 ^ 32"
  by (simp_all add: setup_misses_def opened_def misses_def path_names_def min_mysql_lseek_fallocate_16_0_defs prog_checks open_checks)

section \<open>min\_mysql\_lseek\_fallocate\_24\_0\<close>

definition min_mysql_lseek_fallocate_24_0_body1 :: "stmt list" where
  "min_mysql_lseek_fallocate_24_0_body1 = [
    Memcpy 0x207a35c0 (with_nul ''./sbtest/sbtest16.ibd'') 22,
    Syscall NR_openat [Dir_fd, Ptr 0x207a35c0, Imm 0x42, Imm 0x1ff], Count, Save_res 0,
    Syscall NR_fcntl [Reg 0, Imm 4, Imm 0x10000], Count, Store 2 0x207a3600 (Imm 1), Store 2 0x207a3602 (Imm 0),
    Store 8 0x207a3608 (Imm 0), Store 8 0x207a3610 (Imm 0), Store 4 0x207a3618 (Imm 0),
    Syscall NR_fcntl [Reg 0, Imm 6, Ptr 0x207a3600], Count, Syscall NR_lseek [Reg 0, Imm 0, Imm 1], Count,
    Syscall NR_lseek [Reg 0, Imm 0, Imm 2], Count, Syscall NR_lseek [Reg 0, Imm 0, Imm 0], Count,
    Syscall NR_fallocate [Reg 0, Imm 0, Imm 0x1c000, Imm 0x4000], Count, Syscall NR_lseek [Reg 0, Imm 0, Imm 1],
    Count, Syscall NR_lseek [Reg 0, Imm 0, Imm 2], Count, Syscall NR_lseek [Reg 0, Imm 0, Imm 0], Count,
    Syscall NR_lseek [Reg 0, Imm 0, Imm 1], Count, Syscall NR_lseek [Reg 0, Imm 0, Imm 2], Count,
    Syscall NR_lseek [Reg 0, Imm 0, Imm 0], Count, Syscall NR_fallocate [Reg 0, Imm 0, Imm 0x20000, Imm 0x4000],
    Count]"

definition min_mysql_lseek_fallocate_24_0_body2 :: "stmt list" where
  "min_mysql_lseek_fallocate_24_0_body2 = [
    Syscall NR_lseek [Reg 0, Imm 0, Imm 1], Count, Syscall NR_lseek [Reg 0, Imm 0, Imm 2], Count,
    Syscall NR_lseek [Reg 0, Imm 0, Imm 0], Count, Syscall NR_lseek [Reg 0, Imm 0, Imm 1], Count,
    Syscall NR_lseek [Reg 0, Imm 0, Imm 2], Count, Syscall NR_lseek [Reg 0, Imm 0, Imm 0], Count,
    Syscall NR_fallocate [Reg 0, Imm 0, Imm 0x24000, Imm 0x4000], Count, Syscall NR_lseek [Reg 0, Imm 0, Imm 1],
    Count, Syscall NR_lseek [Reg 0, Imm 0, Imm 2], Count, Syscall NR_lseek [Reg 0, Imm 0, Imm 0], Count,
    Syscall NR_lseek [Reg 0, Imm 0, Imm 1], Count, Syscall NR_lseek [Reg 0, Imm 0, Imm 2], Count,
    Syscall NR_lseek [Reg 0, Imm 0, Imm 0], Count, Syscall NR_fallocate [Reg 0, Imm 0, Imm 0x28000, Imm 0x4000],
    Count, Syscall NR_lseek [Reg 0, Imm 0, Imm 1], Count, Syscall NR_lseek [Reg 0, Imm 0, Imm 2], Count,
    Syscall NR_lseek [Reg 0, Imm 0, Imm 0], Count, Syscall NR_lseek [Reg 0, Imm 0, Imm 1], Count,
    Syscall NR_lseek [Reg 0, Imm 0, Imm 2], Count]"

definition min_mysql_lseek_fallocate_24_0_body3 :: "stmt list" where
  "min_mysql_lseek_fallocate_24_0_body3 = [
    Syscall NR_lseek [Reg 0, Imm 0, Imm 0], Count, Syscall NR_fallocate [Reg 0, Imm 0, Imm 0x2c000, Imm 0x4000],
    Count, Syscall NR_lseek [Reg 0, Imm 0, Imm 1], Count, Syscall NR_lseek [Reg 0, Imm 0, Imm 2], Count,
    Syscall NR_lseek [Reg 0, Imm 0, Imm 0], Count, Syscall NR_lseek [Reg 0, Imm 0, Imm 1], Count,
    Syscall NR_lseek [Reg 0, Imm 0, Imm 2], Count, Syscall NR_lseek [Reg 0, Imm 0, Imm 0], Count,
    Syscall NR_fallocate [Reg 0, Imm 0, Imm 0x30000, Imm 0x4000], Count, Syscall NR_lseek [Reg 0, Imm 0, Imm 1],
    Count, Syscall NR_lseek [Reg 0, Imm 0, Imm 2], Count, Syscall NR_lseek [Reg 0, Imm 0, Imm 0], Count,
    Syscall NR_lseek [Reg 0, Imm 0, Imm 1], Count, Syscall NR_lseek [Reg 0, Imm 0, Imm 2], Count,
    Syscall NR_lseek [Reg 0, Imm 0, Imm 0], Count, Syscall NR_fallocate [Reg 0, Imm 0, Imm 0x34000, Imm 0x4000],
    Count, Syscall NR_lseek [Reg 0, Imm 0, Imm 1], Count, Syscall NR_lseek [Reg 0, Imm 0, Imm 2], Count]"

definition min_mysql_lseek_fallocate_24_0_body4 :: "stmt list" where
  "min_mysql_lseek_fallocate_24_0_body4 = [
    Syscall NR_lseek [Reg 0, Imm 0, Imm 0], Count, Syscall NR_lseek [Reg 0, Imm 0, Imm 1], Count,
    Syscall NR_lseek [Reg 0, Imm 0, Imm 2], Count, Syscall NR_lseek [Reg 0, Imm 0, Imm 0], Count,
    Syscall NR_fallocate [Reg 0, Imm 0, Imm 0x38000, Imm 0x4000], Count, Syscall NR_lseek [Reg 0, Imm 0, Imm 1],
    Count, Syscall NR_lseek [Reg 0, Imm 0, Imm 2], Count, Syscall NR_lseek [Reg 0, Imm 0, Imm 0], Count,
    Syscall NR_lseek [Reg 0, Imm 0, Imm 1], Count, Syscall NR_lseek [Reg 0, Imm 0, Imm 2], Count,
    Syscall NR_lseek [Reg 0, Imm 0, Imm 0], Count, Syscall NR_fallocate [Reg 0, Imm 0, Imm 0x3c000, Imm 0x4000],
    Count, Syscall NR_lseek [Reg 0, Imm 0, Imm 1], Count, Syscall NR_lseek [Reg 0, Imm 0, Imm 2], Count,
    Syscall NR_lseek [Reg 0, Imm 0, Imm 0], Count, Syscall NR_lseek [Reg 0, Imm 0, Imm 1], Count,
    Syscall NR_lseek [Reg 0, Imm 0, Imm 2], Count, Syscall NR_lseek [Reg 0, Imm 0, Imm 0], Count]"

definition min_mysql_lseek_fallocate_24_0_body5 :: "stmt list" where
  "min_mysql_lseek_fallocate_24_0_body5 = [
    Syscall NR_fallocate [Reg 0, Imm 0, Imm 0x40000, Imm 0x4000], Count, Syscall NR_lseek [Reg 0, Imm 0, Imm 1],
    Count, Syscall NR_lseek [Reg 0, Imm 0, Imm 2], Count, Syscall NR_lseek [Reg 0, Imm 0, Imm 0], Count,
    Syscall NR_lseek [Reg 0, Imm 0, Imm 1], Count, Syscall NR_lseek [Reg 0, Imm 0, Imm 2], Count,
    Syscall NR_lseek [Reg 0, Imm 0, Imm 0], Count, Syscall NR_fallocate [Reg 0, Imm 0, Imm 0x44000, Imm 0x4000],
    Count, Syscall NR_lseek [Reg 0, Imm 0, Imm 1], Count, Syscall NR_lseek [Reg 0, Imm 0, Imm 2], Count,
    Syscall NR_lseek [Reg 0, Imm 0, Imm 0], Count, Syscall NR_lseek [Reg 0, Imm 0, Imm 1], Count,
    Syscall NR_lseek [Reg 0, Imm 0, Imm 2], Count, Syscall NR_lseek [Reg 0, Imm 0, Imm 0], Count,
    Syscall NR_fallocate [Reg 0, Imm 0, Imm 0x48000, Imm 0x4000], Count, Syscall NR_lseek [Reg 0, Imm 0, Imm 1],
    Count, Syscall NR_lseek [Reg 0, Imm 0, Imm 2], Count, Syscall NR_lseek [Reg 0, Imm 0, Imm 0], Count]"

definition min_mysql_lseek_fallocate_24_0_body6 :: "stmt list" where
  "min_mysql_lseek_fallocate_24_0_body6 = [
    Syscall NR_lseek [Reg 0, Imm 0, Imm 1], Count, Syscall NR_lseek [Reg 0, Imm 0, Imm 2], Count,
    Syscall NR_lseek [Reg 0, Imm 0, Imm 0], Count, Syscall NR_fallocate [Reg 0, Imm 0, Imm 0x4c000, Imm 0x4000],
    Count, Syscall NR_lseek [Reg 0, Imm 0, Imm 1], Count, Syscall NR_lseek [Reg 0, Imm 0, Imm 2], Count,
    Syscall NR_lseek [Reg 0, Imm 0, Imm 0], Count, Syscall NR_lseek [Reg 0, Imm 0, Imm 1], Count,
    Syscall NR_lseek [Reg 0, Imm 0, Imm 2], Count, Syscall NR_lseek [Reg 0, Imm 0, Imm 0], Count,
    Syscall NR_fallocate [Reg 0, Imm 0, Imm 0x50000, Imm 0x4000], Count, Syscall NR_lseek [Reg 0, Imm 0, Imm 1],
    Count, Syscall NR_lseek [Reg 0, Imm 0, Imm 2], Count, Syscall NR_lseek [Reg 0, Imm 0, Imm 0], Count,
    Syscall NR_lseek [Reg 0, Imm 0, Imm 1], Count, Syscall NR_lseek [Reg 0, Imm 0, Imm 2], Count,
    Syscall NR_lseek [Reg 0, Imm 0, Imm 0], Count, Syscall NR_fallocate [Reg 0, Imm 0, Imm 0x54000, Imm 0x4000],
    Count]"

definition min_mysql_lseek_fallocate_24_0_body7 :: "stmt list" where
  "min_mysql_lseek_fallocate_24_0_body7 = [
    Syscall NR_lseek [Reg 0, Imm 0, Imm 1], Count, Syscall NR_lseek [Reg 0, Imm 0, Imm 2], Count,
    Syscall NR_lseek [Reg 0, Imm 0, Imm 0], Count, Syscall NR_lseek [Reg 0, Imm 0, Imm 1], Count,
    Syscall NR_lseek [Reg 0, Imm 0, Imm 2], Count, Syscall NR_lseek [Reg 0, Imm 0, Imm 0], Count,
    Syscall NR_fallocate [Reg 0, Imm 0, Imm 0x58000, Imm 0x4000], Count, Syscall NR_lseek [Reg 0, Imm 0, Imm 1],
    Count, Syscall NR_lseek [Reg 0, Imm 0, Imm 2], Count, Syscall NR_lseek [Reg 0, Imm 0, Imm 0], Count,
    Syscall NR_pwrite64 [Reg 0, Write_buf, Imm 0x4000, Imm 0x50000], Count, Syscall NR_fsync [Reg 0], Count]"

definition min_mysql_lseek_fallocate_24_0 :: syz_prog where
  "min_mysql_lseek_fallocate_24_0 = \<lparr>prog_name = ''min_mysql_lseek_fallocate_24_0'', prog_family = Mysql_v2,
     subdirs = [''sbtest''],
     filenames = [''./sbtest/sbtest16.ib''], filesizes = [376832],
     max_write_buffer = 16384, init_regs = replicate 1 (- 1),
     reg_body = [], dereg_body = [],
     body = min_mysql_lseek_fallocate_24_0_body1 @ min_mysql_lseek_fallocate_24_0_body2 @
       min_mysql_lseek_fallocate_24_0_body3 @ min_mysql_lseek_fallocate_24_0_body4 @
       min_mysql_lseek_fallocate_24_0_body5 @ min_mysql_lseek_fallocate_24_0_body6 @
       min_mysql_lseek_fallocate_24_0_body7\<rparr>"

definition min_mysql_lseek_fallocate_24_0_target where
  "min_mysql_lseek_fallocate_24_0_target os_getenv os_inet_pton K = syz_target os_getenv os_inet_pton K min_mysql_lseek_fallocate_24_0"

lemmas min_mysql_lseek_fallocate_24_0_defs =
  min_mysql_lseek_fallocate_24_0_def min_mysql_lseek_fallocate_24_0_body1_def
  min_mysql_lseek_fallocate_24_0_body2_def min_mysql_lseek_fallocate_24_0_body3_def
  min_mysql_lseek_fallocate_24_0_body4_def min_mysql_lseek_fallocate_24_0_body5_def
  min_mysql_lseek_fallocate_24_0_body6_def min_mysql_lseek_fallocate_24_0_body7_def

lemma min_mysql_lseek_fallocate_24_0_ok: "prog_ok min_mysql_lseek_fallocate_24_0" "calls (body min_mysql_lseek_fallocate_24_0) = 117"
  by (simp_all add: prog_ok_def min_mysql_lseek_fallocate_24_0_defs prog_checks)

lemma min_mysql_lseek_fallocate_24_0_misses: "setup_misses min_mysql_lseek_fallocate_24_0" "filenames min_mysql_lseek_fallocate_24_0 \<noteq> []" "reg_body min_mysql_lseek_fallocate_24_0 = []" "num_regs min_mysql_lseek_fallocate_24_0 < 2 ^ 32"
  by (simp_all add: setup_misses_def opened_def misses_def path_names_def min_mysql_lseek_fallocate_24_0_defs prog_checks open_checks)

section \<open>min\_mysql\_lseek\_fallocate\_26\_0\<close>

definition min_mysql_lseek_fallocate_26_0_body1 :: "stmt list" where
  "min_mysql_lseek_fallocate_26_0_body1 = [
    Memcpy 0x20557540 (with_nul ''./sbtest/sbtest14.ibd'') 22,
    Syscall NR_openat [Dir_fd, Ptr 0x20557540, Imm 0x42, Imm 0x1ff], Count, Save_res 0,
    Syscall NR_fcntl [Reg 0, Imm 4, Imm 0x10000], Count, Store 2 0x20557580 (Imm 1), Store 2 0x20557582 (Imm 0),
    Store 8 0x20557588 (Imm 0), Store 8 0x20557590 (Imm 0), Store 4 0x20557598 (Imm 0),
    Syscall NR_fcntl [Reg 0, Imm 6, Ptr 0x20557580], Count, Syscall NR_lseek [Reg 0, Imm 0, Imm 1], Count,
    Syscall NR_lseek [Reg 0, Imm 0, Imm 2], Count, Syscall NR_lseek [Reg 0, Imm 0, Imm 0], Count,
    Syscall NR_fallocate [Reg 0, Imm 0, Imm 0x1c000, Imm 0x4000], Count, Syscall NR_lseek [Reg 0, Imm 0, Imm 1],
    Count, Syscall NR_lseek [Reg 0, Imm 0, Imm 2], Count, Syscall NR_lseek [Reg 0, Imm 0, Imm 0], Count,
    Syscall NR_lseek [Reg 0, Imm 0, Imm 1], Count, Syscall NR_lseek [Reg 0, Imm 0, Imm 2], Count,
    Syscall NR_lseek [Reg 0, Imm 0, Imm 0], Count, Syscall NR_fallocate [Reg 0, Imm 0, Imm 0x20000, Imm 0x4000],
    Count]"

definition min_mysql_lseek_fallocate_26_0_body2 :: "stmt list" where
  "min_mysql_lseek_fallocate_26_0_body2 = [
    Syscall NR_lseek [Reg 0, Imm 0, Imm 1], Count, Syscall NR_lseek [Reg 0, Imm 0, Imm 2], Count,
    Syscall NR_lseek [Reg 0, Imm 0, Imm 0], Count, Syscall NR_lseek [Reg 0, Imm 0, Imm 1], Count,
    Syscall NR_lseek [Reg 0, Imm 0, Imm 2], Count, Syscall NR_lseek [Reg 0, Imm 0, Imm 0], Count,
    Syscall NR_fallocate [Reg 0, Imm 0, Imm 0x24000, Imm 0x4000], Count, Syscall NR_lseek [Reg 0, Imm 0, Imm 1],
    Count, Syscall NR_lseek [Reg 0, Imm 0, Imm 2], Count, Syscall NR_lseek [Reg 0, Imm 0, Imm 0], Count,
    Syscall NR_lseek [Reg 0, Imm 0, Imm 1], Count, Syscall NR_lseek [Reg 0, Imm 0, Imm 2], Count,
    Syscall NR_lseek [Reg 0, Imm 0, Imm 0], Count, Syscall NR_fallocate [Reg 0, Imm 0, Imm 0x28000, Imm 0x4000],
    Count, Syscall NR_lseek [Reg 0, Imm 0, Imm 1], Count, Syscall NR_lseek [Reg 0, Imm 0, Imm 2], Count,
    Syscall NR_lseek [Reg 0, Imm 0, Imm 0], Count, Syscall NR_lseek [Reg 0, Imm 0, Imm 1], Count,
    Syscall NR_lseek [Reg 0, Imm 0, Imm 2], Count]"

definition min_mysql_lseek_fallocate_26_0_body3 :: "stmt list" where
  "min_mysql_lseek_fallocate_26_0_body3 = [
    Syscall NR_lseek [Reg 0, Imm 0, Imm 0], Count, Syscall NR_fallocate [Reg 0, Imm 0, Imm 0x2c000, Imm 0x4000],
    Count, Syscall NR_lseek [Reg 0, Imm 0, Imm 1], Count, Syscall NR_lseek [Reg 0, Imm 0, Imm 2], Count,
    Syscall NR_lseek [Reg 0, Imm 0, Imm 0], Count, Syscall NR_lseek [Reg 0, Imm 0, Imm 1], Count,
    Syscall NR_lseek [Reg 0, Imm 0, Imm 2], Count, Syscall NR_lseek [Reg 0, Imm 0, Imm 0], Count,
    Syscall NR_fallocate [Reg 0, Imm 0, Imm 0x30000, Imm 0x4000], Count, Syscall NR_lseek [Reg 0, Imm 0, Imm 1],
    Count, Syscall NR_lseek [Reg 0, Imm 0, Imm 2], Count, Syscall NR_lseek [Reg 0, Imm 0, Imm 0], Count,
    Syscall NR_lseek [Reg 0, Imm 0, Imm 1], Count, Syscall NR_lseek [Reg 0, Imm 0, Imm 2], Count,
    Syscall NR_lseek [Reg 0, Imm 0, Imm 0], Count, Syscall NR_fallocate [Reg 0, Imm 0, Imm 0x34000, Imm 0x4000],
    Count, Syscall NR_lseek [Reg 0, Imm 0, Imm 1], Count, Syscall NR_lseek [Reg 0, Imm 0, Imm 2], Count]"

definition min_mysql_lseek_fallocate_26_0_body4 :: "stmt list" where
  "min_mysql_lseek_fallocate_26_0_body4 = [
    Syscall NR_lseek [Reg 0, Imm 0, Imm 0], Count, Syscall NR_lseek [Reg 0, Imm 0, Imm 1], Count,
    Syscall NR_lseek [Reg 0, Imm 0, Imm 2], Count, Syscall NR_lseek [Reg 0, Imm 0, Imm 0], Count,
    Syscall NR_fallocate [Reg 0, Imm 0, Imm 0x38000, Imm 0x4000], Count, Syscall NR_lseek [Reg 0, Imm 0, Imm 1],
    Count, Syscall NR_lseek [Reg 0, Imm 0, Imm 2], Count, Syscall NR_lseek [Reg 0, Imm 0, Imm 0], Count,
    Syscall NR_lseek [Reg 0, Imm 0, Imm 1], Count, Syscall NR_lseek [Reg 0, Imm 0, Imm 2], Count,
    Syscall NR_lseek [Reg 0, Imm 0, Imm 0], Count, Syscall NR_fallocate [Reg 0, Imm 0, Imm 0x3c000, Imm 0x4000],
    Count, Syscall NR_lseek [Reg 0, Imm 0, Imm 1], Count, Syscall NR_lseek [Reg 0, Imm 0, Imm 2], Count,
    Syscall NR_lseek [Reg 0, Imm 0, Imm 0], Count, Syscall NR_lseek [Reg 0, Imm 0, Imm 1], Count,
    Syscall NR_lseek [Reg 0, Imm 0, Imm 2], Count, Syscall NR_lseek [Reg 0, Imm 0, Imm 0], Count]"

definition min_mysql_lseek_fallocate_26_0_body5 :: "stmt list" where
  "min_mysql_lseek_fallocate_26_0_body5 = [
    Syscall NR_fallocate [Reg 0, Imm 0, Imm 0x40000, Imm 0x4000], Count, Syscall NR_lseek [Reg 0, Imm 0, Imm 1],
    Count, Syscall NR_lseek [Reg 0, Imm 0, Imm 2], Count, Syscall NR_lseek [Reg 0, Imm 0, Imm 0], Count,
    Syscall NR_lseek [Reg 0, Imm 0, Imm 1], Count, Syscall NR_lseek [Reg 0, Imm 0, Imm 2], Count,
    Syscall NR_lseek [Reg 0, Imm 0, Imm 0], Count, Syscall NR_fallocate [Reg 0, Imm 0, Imm 0x44000, Imm 0x4000],
    Count, Syscall NR_lseek [Reg 0, Imm 0, Imm 1], Count, Syscall NR_lseek [Reg 0, Imm 0, Imm 2], Count,
    Syscall NR_lseek [Reg 0, Imm 0, Imm 0], Count, Syscall NR_lseek [Reg 0, Imm 0, Imm 1], Count,
    Syscall NR_lseek [Reg 0, Imm 0, Imm 2], Count, Syscall NR_lseek [Reg 0, Imm 0, Imm 0], Count,
    Syscall NR_fallocate [Reg 0, Imm 0, Imm 0x48000, Imm 0x4000], Count, Syscall NR_lseek [Reg 0, Imm 0, Imm 1],
    Count, Syscall NR_lseek [Reg 0, Imm 0, Imm 2], Count, Syscall NR_lseek [Reg 0, Imm 0, Imm 0], Count]"

definition min_mysql_lseek_fallocate_26_0_body6 :: "stmt list" where
  "min_mysql_lseek_fallocate_26_0_body6 = [
    Syscall NR_lseek [Reg 0, Imm 0, Imm 1], Count, Syscall NR_lseek [Reg 0, Imm 0, Imm 2], Count,
    Syscall NR_lseek [Reg 0, Imm 0, Imm 0], Count, Syscall NR_fallocate [Reg 0, Imm 0, Imm 0x4c000, Imm 0x4000],
    Count, Syscall NR_lseek [Reg 0, Imm 0, Imm 1], Count, Syscall NR_lseek [Reg 0, Imm 0, Imm 2], Count,
    Syscall NR_lseek [Reg 0, Imm 0, Imm 0], Count, Syscall NR_lseek [Reg 0, Imm 0, Imm 1], Count,
    Syscall NR_lseek [Reg 0, Imm 0, Imm 2], Count, Syscall NR_lseek [Reg 0, Imm 0, Imm 0], Count,
    Syscall NR_fallocate [Reg 0, Imm 0, Imm 0x50000, Imm 0x4000], Count, Syscall NR_lseek [Reg 0, Imm 0, Imm 1],
    Count, Syscall NR_lseek [Reg 0, Imm 0, Imm 2], Count, Syscall NR_lseek [Reg 0, Imm 0, Imm 0], Count,
    Syscall NR_lseek [Reg 0, Imm 0, Imm 1], Count, Syscall NR_lseek [Reg 0, Imm 0, Imm 2], Count,
    Syscall NR_lseek [Reg 0, Imm 0, Imm 0], Count, Syscall NR_fallocate [Reg 0, Imm 0, Imm 0x54000, Imm 0x4000],
    Count]"

definition min_mysql_lseek_fallocate_26_0_body7 :: "stmt list" where
  "min_mysql_lseek_fallocate_26_0_body7 = [
    Syscall NR_lseek [Reg 0, Imm 0, Imm 1], Count, Syscall NR_lseek [Reg 0, Imm 0, Imm 2], Count,
    Syscall NR_lseek [Reg 0, Imm 0, Imm 0], Count, Syscall NR_lseek [Reg 0, Imm 0, Imm 1], Count,
    Syscall NR_lseek [Reg 0, Imm 0, Imm 2], Count, Syscall NR_lseek [Reg 0, Imm 0, Imm 0], Count,
    Syscall NR_fallocate [Reg 0, Imm 0, Imm 0x58000, Imm 0x4000], Count, Syscall NR_lseek [Reg 0, Imm 0, Imm 1],
    Count, Syscall NR_lseek [Reg 0, Imm 0, Imm 2], Count, Syscall NR_lseek [Reg 0, Imm 0, Imm 0], Count,
    Syscall NR_pwrite64 [Reg 0, Write_buf, Imm 0x4000, Imm 0x50000], Count, Syscall NR_fsync [Reg 0], Count]"

definition min_mysql_lseek_fallocate_26_0 :: syz_prog where
  "min_mysql_lseek_fallocate_26_0 = \<lparr>prog_name = ''min_mysql_lseek_fallocate_26_0'', prog_family = Mysql_v2,
     subdirs = [''sbtest''],
     filenames = [''./sbtest/sbtest14.ib''], filesizes = [376832],
     max_write_buffer = 16384, init_regs = replicate 1 (- 1),
     reg_body = [], dereg_body = [],
     body = min_mysql_lseek_fallocate_26_0_body1 @ min_mysql_lseek_fallocate_26_0_body2 @
       min_mysql_lseek_fallocate_26_0_body3 @ min_mysql_lseek_fallocate_26_0_body4 @
       min_mysql_lseek_fallocate_26_0_body5 @ min_mysql_lseek_fallocate_26_0_body6 @
       min_mysql_lseek_fallocate_26_0_body7\<rparr>"

definition min_mysql_lseek_fallocate_26_0_target where
  "min_mysql_lseek_fallocate_26_0_target os_getenv os_inet_pton K = syz_target os_getenv os_inet_pton K min_mysql_lseek_fallocate_26_0"

lemmas min_mysql_lseek_fallocate_26_0_defs =
  min_mysql_lseek_fallocate_26_0_def min_mysql_lseek_fallocate_26_0_body1_def
  min_mysql_lseek_fallocate_26_0_body2_def min_mysql_lseek_fallocate_26_0_body3_def
  min_mysql_lseek_fallocate_26_0_body4_def min_mysql_lseek_fallocate_26_0_body5_def
  min_mysql_lseek_fallocate_26_0_body6_def min_mysql_lseek_fallocate_26_0_body7_def

lemma min_mysql_lseek_fallocate_26_0_ok: "prog_ok min_mysql_lseek_fallocate_26_0" "calls (body min_mysql_lseek_fallocate_26_0) = 117"
  by (simp_all add: prog_ok_def min_mysql_lseek_fallocate_26_0_defs prog_checks)

lemma min_mysql_lseek_fallocate_26_0_misses: "setup_misses min_mysql_lseek_fallocate_26_0" "filenames min_mysql_lseek_fallocate_26_0 \<noteq> []" "reg_body min_mysql_lseek_fallocate_26_0 = []" "num_regs min_mysql_lseek_fallocate_26_0 < 2 ^ 32"
  by (simp_all add: setup_misses_def opened_def misses_def path_names_def min_mysql_lseek_fallocate_26_0_defs prog_checks open_checks)

section \<open>min\_mysql\_lseek\_fallocate\_35\_0\<close>

definition min_mysql_lseek_fallocate_35_0_body1 :: "stmt list" where
  "min_mysql_lseek_fallocate_35_0_body1 = [
    Memcpy 0x20b09240 (with_nul ''./sbtest/sbtest5.ibd'') 21,
    Syscall NR_openat [Dir_fd, Ptr 0x20b09240, Imm 0x42, Imm 0x1ff], Count, Save_res 0,
    Syscall NR_fcntl [Reg 0, Imm 4, Imm 0x10000], Count, Store 2 0x20b09280 (Imm 1), Store 2 0x20b09282 (Imm 0),
    Store 8 0x20b09288 (Imm 0), Store 8 0x20b09290 (Imm 0), Store 4 0x20b09298 (Imm 0),
    Syscall NR_fcntl [Reg 0, Imm 6, Ptr 0x20b09280], Count, Syscall NR_lseek [Reg 0, Imm 0, Imm 1], Count,
    Syscall NR_lseek [Reg 0, Imm 0, Imm 2], Count, Syscall NR_lseek [Reg 0, Imm 0, Imm 0], Count,
    Syscall NR_fallocate [Reg 0, Imm 0, Imm 0x1c000, Imm 0x4000], Count, Syscall NR_lseek [Reg 0, Imm 0, Imm 1],
    Count, Syscall NR_lseek [Reg 0, Imm 0, Imm 2], Count, Syscall NR_lseek [Reg 0, Imm 0, Imm 0], Count,
    Syscall NR_lseek [Reg 0, Imm 0, Imm 1], Count, Syscall NR_lseek [Reg 0, Imm 0, Imm 2], Count,
    Syscall NR_lseek [Reg 0, Imm 0, Imm 0], Count, Syscall NR_fallocate [Reg 0, Imm 0, Imm 0x20000, Imm 0x4000],
    Count]"

definition min_mysql_lseek_fallocate_35_0_body2 :: "stmt list" where
  "min_mysql_lseek_fallocate_35_0_body2 = [
    Syscall NR_lseek [Reg 0, Imm 0, Imm 1], Count, Syscall NR_lseek [Reg 0, Imm 0, Imm 2], Count,
    Syscall NR_lseek [Reg 0, Imm 0, Imm 0], Count, Syscall NR_lseek [Reg 0, Imm 0, Imm 1], Count,
    Syscall NR_lseek [Reg 0, Imm 0, Imm 2], Count, Syscall NR_lseek [Reg 0, Imm 0, Imm 0], Count,
    Syscall NR_fallocate [Reg 0, Imm 0, Imm 0x24000, Imm 0x4000], Count, Syscall NR_lseek [Reg 0, Imm 0, Imm 1],
    Count, Syscall NR_lseek [Reg 0, Imm 0, Imm 2], Count, Syscall NR_lseek [Reg 0, Imm 0, Imm 0], Count,
    Syscall NR_lseek [Reg 0, Imm 0, Imm 1], Count, Syscall NR_lseek [Reg 0, Imm 0, Imm 2], Count,
    Syscall NR_lseek [Reg 0, Imm 0, Imm 0], Count, Syscall NR_fallocate [Reg 0, Imm 0, Imm 0x28000, Imm 0x4000],
    Count, Syscall NR_lseek [Reg 0, Imm 0, Imm 1], Count, Syscall NR_lseek [Reg 0, Imm 0, Imm 2], Count,
    Syscall NR_lseek [Reg 0, Imm 0, Imm 0], Count, Syscall NR_lseek [Reg 0, Imm 0, Imm 1], Count,
    Syscall NR_lseek [Reg 0, Imm 0, Imm 2], Count]"

definition min_mysql_lseek_fallocate_35_0_body3 :: "stmt list" where
  "min_mysql_lseek_fallocate_35_0_body3 = [
    Syscall NR_lseek [Reg 0, Imm 0, Imm 0], Count, Syscall NR_fallocate [Reg 0, Imm 0, Imm 0x2c000, Imm 0x4000],
    Count, Syscall NR_lseek [Reg 0, Imm 0, Imm 1], Count, Syscall NR_lseek [Reg 0, Imm 0, Imm 2], Count,
    Syscall NR_lseek [Reg 0, Imm 0, Imm 0], Count, Syscall NR_lseek [Reg 0, Imm 0, Imm 1], Count,
    Syscall NR_lseek [Reg 0, Imm 0, Imm 2], Count, Syscall NR_lseek [Reg 0, Imm 0, Imm 0], Count,
    Syscall NR_fallocate [Reg 0, Imm 0, Imm 0x30000, Imm 0x4000], Count, Syscall NR_lseek [Reg 0, Imm 0, Imm 1],
    Count, Syscall NR_lseek [Reg 0, Imm 0, Imm 2], Count, Syscall NR_lseek [Reg 0, Imm 0, Imm 0], Count,
    Syscall NR_lseek [Reg 0, Imm 0, Imm 1], Count, Syscall NR_lseek [Reg 0, Imm 0, Imm 2], Count,
    Syscall NR_lseek [Reg 0, Imm 0, Imm 0], Count, Syscall NR_fallocate [Reg 0, Imm 0, Imm 0x34000, Imm 0x4000],
    Count, Syscall NR_lseek [Reg 0, Imm 0, Imm 1], Count, Syscall NR_lseek [Reg 0, Imm 0, Imm 2], Count]"

definition min_mysql_lseek_fallocate_35_0_body4 :: "stmt list" where
  "min_mysql_lseek_fallocate_35_0_body4 = [
    Syscall NR_lseek [Reg 0, Imm 0, Imm 0], Count, Syscall NR_lseek [Reg 0, Imm 0, Imm 1], Count,
    Syscall NR_lseek [Reg 0, Imm 0, Imm 2], Count, Syscall NR_lseek [Reg 0, Imm 0, Imm 0], Count,
    Syscall NR_fallocate [Reg 0, Imm 0, Imm 0x38000, Imm 0x4000], Count, Syscall NR_lseek [Reg 0, Imm 0, Imm 1],
    Count, Syscall NR_lseek [Reg 0, Imm 0, Imm 2], Count, Syscall NR_lseek [Reg 0, Imm 0, Imm 0], Count,
    Syscall NR_lseek [Reg 0, Imm 0, Imm 1], Count, Syscall NR_lseek [Reg 0, Imm 0, Imm 2], Count,
    Syscall NR_lseek [Reg 0, Imm 0, Imm 0], Count, Syscall NR_fallocate [Reg 0, Imm 0, Imm 0x3c000, Imm 0x4000],
    Count, Syscall NR_lseek [Reg 0, Imm 0, Imm 1], Count, Syscall NR_lseek [Reg 0, Imm 0, Imm 2], Count,
    Syscall NR_lseek [Reg 0, Imm 0, Imm 0], Count, Syscall NR_lseek [Reg 0, Imm 0, Imm 1], Count,
    Syscall NR_lseek [Reg 0, Imm 0, Imm 2], Count, Syscall NR_lseek [Reg 0, Imm 0, Imm 0], Count]"

definition min_mysql_lseek_fallocate_35_0_body5 :: "stmt list" where
  "min_mysql_lseek_fallocate_35_0_body5 = [
    Syscall NR_fallocate [Reg 0, Imm 0, Imm 0x40000, Imm 0x4000], Count, Syscall NR_lseek [Reg 0, Imm 0, Imm 1],
    Count, Syscall NR_lseek [Reg 0, Imm 0, Imm 2], Count, Syscall NR_lseek [Reg 0, Imm 0, Imm 0], Count,
    Syscall NR_lseek [Reg 0, Imm 0, Imm 1], Count, Syscall NR_lseek [Reg 0, Imm 0, Imm 2], Count,
    Syscall NR_lseek [Reg 0, Imm 0, Imm 0], Count, Syscall NR_fallocate [Reg 0, Imm 0, Imm 0x44000, Imm 0x4000],
    Count, Syscall NR_lseek [Reg 0, Imm 0, Imm 1], Count, Syscall NR_lseek [Reg 0, Imm 0, Imm 2], Count,
    Syscall NR_lseek [Reg 0, Imm 0, Imm 0], Count, Syscall NR_lseek [Reg 0, Imm 0, Imm 1], Count,
    Syscall NR_lseek [Reg 0, Imm 0, Imm 2], Count, Syscall NR_lseek [Reg 0, Imm 0, Imm 0], Count,
    Syscall NR_fallocate [Reg 0, Imm 0, Imm 0x48000, Imm 0x4000], Count, Syscall NR_lseek [Reg 0, Imm 0, Imm 1],
    Count, Syscall NR_lseek [Reg 0, Imm 0, Imm 2], Count, Syscall NR_lseek [Reg 0, Imm 0, Imm 0], Count]"

definition min_mysql_lseek_fallocate_35_0_body6 :: "stmt list" where
  "min_mysql_lseek_fallocate_35_0_body6 = [
    Syscall NR_lseek [Reg 0, Imm 0, Imm 1], Count, Syscall NR_lseek [Reg 0, Imm 0, Imm 2], Count,
    Syscall NR_lseek [Reg 0, Imm 0, Imm 0], Count, Syscall NR_fallocate [Reg 0, Imm 0, Imm 0x4c000, Imm 0x4000],
    Count, Syscall NR_lseek [Reg 0, Imm 0, Imm 1], Count, Syscall NR_lseek [Reg 0, Imm 0, Imm 2], Count,
    Syscall NR_lseek [Reg 0, Imm 0, Imm 0], Count, Syscall NR_lseek [Reg 0, Imm 0, Imm 1], Count,
    Syscall NR_lseek [Reg 0, Imm 0, Imm 2], Count, Syscall NR_lseek [Reg 0, Imm 0, Imm 0], Count,
    Syscall NR_fallocate [Reg 0, Imm 0, Imm 0x50000, Imm 0x4000], Count, Syscall NR_lseek [Reg 0, Imm 0, Imm 1],
    Count, Syscall NR_lseek [Reg 0, Imm 0, Imm 2], Count, Syscall NR_lseek [Reg 0, Imm 0, Imm 0], Count,
    Syscall NR_lseek [Reg 0, Imm 0, Imm 1], Count, Syscall NR_lseek [Reg 0, Imm 0, Imm 2], Count,
    Syscall NR_lseek [Reg 0, Imm 0, Imm 0], Count, Syscall NR_fallocate [Reg 0, Imm 0, Imm 0x54000, Imm 0x4000],
    Count]"

definition min_mysql_lseek_fallocate_35_0_body7 :: "stmt list" where
  "min_mysql_lseek_fallocate_35_0_body7 = [
    Syscall NR_lseek [Reg 0, Imm 0, Imm 1], Count, Syscall NR_lseek [Reg 0, Imm 0, Imm 2], Count,
    Syscall NR_lseek [Reg 0, Imm 0, Imm 0], Count, Syscall NR_lseek [Reg 0, Imm 0, Imm 1], Count,
    Syscall NR_lseek [Reg 0, Imm 0, Imm 2], Count, Syscall NR_lseek [Reg 0, Imm 0, Imm 0], Count,
    Syscall NR_fallocate [Reg 0, Imm 0, Imm 0x58000, Imm 0x4000], Count, Syscall NR_lseek [Reg 0, Imm 0, Imm 1],
    Count, Syscall NR_lseek [Reg 0, Imm 0, Imm 2], Count, Syscall NR_lseek [Reg 0, Imm 0, Imm 0], Count,
    Syscall NR_pwrite64 [Reg 0, Write_buf, Imm 0x4000, Imm 0x50000], Count, Syscall NR_fsync [Reg 0], Count]"

definition min_mysql_lseek_fallocate_35_0 :: syz_prog where
  "min_mysql_lseek_fallocate_35_0 = \<lparr>prog_name = ''min_mysql_lseek_fallocate_35_0'', prog_family = Mysql_v2,
     subdirs = [''sbtest''],
     filenames = [''./sbtest/sbtest5.ib''], filesizes = [376832],
     max_write_buffer = 16384, init_regs = replicate 1 (- 1),
     reg_body = [], dereg_body = [],
     body = min_mysql_lseek_fallocate_35_0_body1 @ min_mysql_lseek_fallocate_35_0_body2 @
       min_mysql_lseek_fallocate_35_0_body3 @ min_mysql_lseek_fallocate_35_0_body4 @
       min_mysql_lseek_fallocate_35_0_body5 @ min_mysql_lseek_fallocate_35_0_body6 @
       min_mysql_lseek_fallocate_35_0_body7\<rparr>"

definition min_mysql_lseek_fallocate_35_0_target where
  "min_mysql_lseek_fallocate_35_0_target os_getenv os_inet_pton K = syz_target os_getenv os_inet_pton K min_mysql_lseek_fallocate_35_0"

lemmas min_mysql_lseek_fallocate_35_0_defs =
  min_mysql_lseek_fallocate_35_0_def min_mysql_lseek_fallocate_35_0_body1_def
  min_mysql_lseek_fallocate_35_0_body2_def min_mysql_lseek_fallocate_35_0_body3_def
  min_mysql_lseek_fallocate_35_0_body4_def min_mysql_lseek_fallocate_35_0_body5_def
  min_mysql_lseek_fallocate_35_0_body6_def min_mysql_lseek_fallocate_35_0_body7_def

lemma min_mysql_lseek_fallocate_35_0_ok: "prog_ok min_mysql_lseek_fallocate_35_0" "calls (body min_mysql_lseek_fallocate_35_0) = 117"
  by (simp_all add: prog_ok_def min_mysql_lseek_fallocate_35_0_defs prog_checks)

lemma min_mysql_lseek_fallocate_35_0_misses: "setup_misses min_mysql_lseek_fallocate_35_0" "filenames min_mysql_lseek_fallocate_35_0 \<noteq> []" "reg_body min_mysql_lseek_fallocate_35_0 = []" "num_regs min_mysql_lseek_fallocate_35_0 < 2 ^ 32"
  by (simp_all add: setup_misses_def opened_def misses_def path_names_def min_mysql_lseek_fallocate_35_0_defs prog_checks open_checks)

section \<open>min\_mysql\_lseek\_fallocate\_52\_0\<close>

definition min_mysql_lseek_fallocate_52_0_body1 :: "stmt list" where
  "min_mysql_lseek_fallocate_52_0_body1 = [
    Memcpy 0x208c2640 (with_nul ''./sbtest/sbtest3.ibd'') 21,
    Syscall NR_openat [Dir_fd, Ptr 0x208c2640, Imm 0x42, Imm 0x1ff], Count, Save_res 0,
    Syscall NR_fcntl [Reg 0, Imm 4, Imm 0x10000], Count, Store 2 0x208c2680 (Imm 1), Store 2 0x208c2682 (Imm 0),
    Store 8 0x208c2688 (Imm 0), Store 8 0x208c2690 (Imm 0), Store 4 0x208c2698 (Imm 0),
    Syscall NR_fcntl [Reg 0, Imm 6, Ptr 0x208c2680], Count, Syscall NR_lseek [Reg 0, Imm 0, Imm 1], Count,
    Syscall NR_lseek [Reg 0, Imm 0, Imm 2], Count, Syscall NR_lseek [Reg 0, Imm 0, Imm 0], Count,
    Syscall NR_fallocate [Reg 0, Imm 0, Imm 0x1c000, Imm 0x4000], Count, Syscall NR_lseek [Reg 0, Imm 0, Imm 1],
    Count, Syscall NR_lseek [Reg 0, Imm 0, Imm 2], Count, Syscall NR_lseek [Reg 0, Imm 0, Imm 0], Count,
    Syscall NR_lseek [Reg 0, Imm 0, Imm 1], Count, Syscall NR_lseek [Reg 0, Imm 0, Imm 2], Count,
    Syscall NR_lseek [Reg 0, Imm 0, Imm 0], Count, Syscall NR_fallocate [Reg 0, Imm 0, Imm 0x20000, Imm 0x4000],
    Count]"

definition min_mysql_lseek_fallocate_52_0_body2 :: "stmt list" where
  "min_mysql_lseek_fallocate_52_0_body2 = [
    Syscall NR_lseek [Reg 0, Imm 0, Imm 1], Count, Syscall NR_lseek [Reg 0, Imm 0, Imm 2], Count,
    Syscall NR_lseek [Reg 0, Imm 0, Imm 0], Count, Syscall NR_lseek [Reg 0, Imm 0, Imm 1], Count,
    Syscall NR_lseek [Reg 0, Imm 0, Imm 2], Count, Syscall NR_lseek [Reg 0, Imm 0, Imm 0], Count,
    Syscall NR_fallocate [Reg 0, Imm 0, Imm 0x24000, Imm 0x4000], Count, Syscall NR_lseek [Reg 0, Imm 0, Imm 1],
    Count, Syscall NR_lseek [Reg 0, Imm 0, Imm 2], Count, Syscall NR_lseek [Reg 0, Imm 0, Imm 0], Count,
    Syscall NR_lseek [Reg 0, Imm 0, Imm 1], Count, Syscall NR_lseek [Reg 0, Imm 0, Imm 2], Count,
    Syscall NR_lseek [Reg 0, Imm 0, Imm 0], Count, Syscall NR_fallocate [Reg 0, Imm 0, Imm 0x28000, Imm 0x4000],
    Count, Syscall NR_lseek [Reg 0, Imm 0, Imm 1], Count, Syscall NR_lseek [Reg 0, Imm 0, Imm 2], Count,
    Syscall NR_lseek [Reg 0, Imm 0, Imm 0], Count, Syscall NR_lseek [Reg 0, Imm 0, Imm 1], Count,
    Syscall NR_lseek [Reg 0, Imm 0, Imm 2], Count]"

definition min_mysql_lseek_fallocate_52_0_body3 :: "stmt list" where
  "min_mysql_lseek_fallocate_52_0_body3 = [
    Syscall NR_lseek [Reg 0, Imm 0, Imm 0], Count, Syscall NR_fallocate [Reg 0, Imm 0, Imm 0x2c000, Imm 0x4000],
    Count, Syscall NR_lseek [Reg 0, Imm 0, Imm 1], Count, Syscall NR_lseek [Reg 0, Imm 0, Imm 2], Count,
    Syscall NR_lseek [Reg 0, Imm 0, Imm 0], Count, Syscall NR_lseek [Reg 0, Imm 0, Imm 1], Count,
    Syscall NR_lseek [Reg 0, Imm 0, Imm 2], Count, Syscall NR_lseek [Reg 0, Imm 0, Imm 0], Count,
    Syscall NR_fallocate [Reg 0, Imm 0, Imm 0x30000, Imm 0x4000], Count, Syscall NR_lseek [Reg 0, Imm 0, Imm 1],
    Count, Syscall NR_lseek [Reg 0, Imm 0, Imm 2], Count, Syscall NR_lseek [Reg 0, Imm 0, Imm 0], Count,
    Syscall NR_lseek [Reg 0, Imm 0, Imm 1], Count, Syscall NR_lseek [Reg 0, Imm 0, Imm 2], Count,
    Syscall NR_lseek [Reg 0, Imm 0, Imm 0], Count, Syscall NR_fallocate [Reg 0, Imm 0, Imm 0x34000, Imm 0x4000],
    Count, Syscall NR_lseek [Reg 0, Imm 0, Imm 1], Count, Syscall NR_lseek [Reg 0, Imm 0, Imm 2], Count]"

definition min_mysql_lseek_fallocate_52_0_body4 :: "stmt list" where
  "min_mysql_lseek_fallocate_52_0_body4 = [
    Syscall NR_lseek [Reg 0, Imm 0, Imm 0], Count, Syscall NR_lseek [Reg 0, Imm 0, Imm 1], Count,
    Syscall NR_lseek [Reg 0, Imm 0, Imm 2], Count, Syscall NR_lseek [Reg 0, Imm 0, Imm 0], Count,
    Syscall NR_fallocate [Reg 0, Imm 0, Imm 0x38000, Imm 0x4000], Count, Syscall NR_lseek [Reg 0, Imm 0, Imm 1],
    Count, Syscall NR_lseek [Reg 0, Imm 0, Imm 2], Count, Syscall NR_lseek [Reg 0, Imm 0, Imm 0], Count,
    Syscall NR_lseek [Reg 0, Imm 0, Imm 1], Count, Syscall NR_lseek [Reg 0, Imm 0, Imm 2], Count,
    Syscall NR_lseek [Reg 0, Imm 0, Imm 0], Count, Syscall NR_fallocate [Reg 0, Imm 0, Imm 0x3c000, Imm 0x4000],
    Count, Syscall NR_lseek [Reg 0, Imm 0, Imm 1], Count, Syscall NR_lseek [Reg 0, Imm 0, Imm 2], Count,
    Syscall NR_lseek [Reg 0, Imm 0, Imm 0], Count, Syscall NR_lseek [Reg 0, Imm 0, Imm 1], Count,
    Syscall NR_lseek [Reg 0, Imm 0, Imm 2], Count, Syscall NR_lseek [Reg 0, Imm 0, Imm 0], Count]"

definition min_mysql_lseek_fallocate_52_0_body5 :: "stmt list" where
  "min_mysql_lseek_fallocate_52_0_body5 = [
    Syscall NR_fallocate [Reg 0, Imm 0, Imm 0x40000, Imm 0x4000], Count, Syscall NR_lseek [Reg 0, Imm 0, Imm 1],
    Count, Syscall NR_lseek [Reg 0, Imm 0, Imm 2], Count, Syscall NR_lseek [Reg 0, Imm 0, Imm 0], Count,
    Syscall NR_lseek [Reg 0, Imm 0, Imm 1], Count, Syscall NR_lseek [Reg 0, Imm 0, Imm 2], Count,
    Syscall NR_lseek [Reg 0, Imm 0, Imm 0], Count, Syscall NR_fallocate [Reg 0, Imm 0, Imm 0x44000, Imm 0x4000],
    Count, Syscall NR_lseek [Reg 0, Imm 0, Imm 1], Count, Syscall NR_lseek [Reg 0, Imm 0, Imm 2], Count,
    Syscall NR_lseek [Reg 0, Imm 0, Imm 0], Count, Syscall NR_lseek [Reg 0, Imm 0, Imm 1], Count,
    Syscall NR_lseek [Reg 0, Imm 0, Imm 2], Count, Syscall NR_lseek [Reg 0, Imm 0, Imm 0], Count,
    Syscall NR_fallocate [Reg 0, Imm 0, Imm 0x48000, Imm 0x4000], Count, Syscall NR_lseek [Reg 0, Imm 0, Imm 1],
    Count, Syscall NR_lseek [Reg 0, Imm 0, Imm 2], Count, Syscall NR_lseek [Reg 0, Imm 0, Imm 0], Count]"

definition min_mysql_lseek_fallocate_52_0_body6 :: "stmt list" where
  "min_mysql_lseek_fallocate_52_0_body6 = [
    Syscall NR_lseek [Reg 0, Imm 0, Imm 1], Count, Syscall NR_lseek [Reg 0, Imm 0, Imm 2], Count,
    Syscall NR_lseek [Reg 0, Imm 0, Imm 0], Count, Syscall NR_fallocate [Reg 0, Imm 0, Imm 0x4c000, Imm 0x4000],
    Count, Syscall NR_lseek [Reg 0, Imm 0, Imm 1], Count, Syscall NR_lseek [Reg 0, Imm 0, Imm 2], Count,
    Syscall NR_lseek [Reg 0, Imm 0, Imm 0], Count, Syscall NR_lseek [Reg 0, Imm 0, Imm 1], Count,
    Syscall NR_lseek [Reg 0, Imm 0, Imm 2], Count, Syscall NR_lseek [Reg 0, Imm 0, Imm 0], Count,
    Syscall NR_fallocate [Reg 0, Imm 0, Imm 0x50000, Imm 0x4000], Count, Syscall NR_lseek [Reg 0, Imm 0, Imm 1],
    Count, Syscall NR_lseek [Reg 0, Imm 0, Imm 2], Count, Syscall NR_lseek [Reg 0, Imm 0, Imm 0], Count,
    Syscall NR_lseek [Reg 0, Imm 0, Imm 1], Count, Syscall NR_lseek [Reg 0, Imm 0, Imm 2], Count,
    Syscall NR_lseek [Reg 0, Imm 0, Imm 0], Count, Syscall NR_fallocate [Reg 0, Imm 0, Imm 0x54000, Imm 0x4000],
    Count]"

definition min_mysql_lseek_fallocate_52_0_body7 :: "stmt list" where
  "min_mysql_lseek_fallocate_52_0_body7 = [
    Syscall NR_lseek [Reg 0, Imm 0, Imm 1], Count, Syscall NR_lseek [Reg 0, Imm 0, Imm 2], Count,
    Syscall NR_lseek [Reg 0, Imm 0, Imm 0], Count, Syscall NR_lseek [Reg 0, Imm 0, Imm 1], Count,
    Syscall NR_lseek [Reg 0, Imm 0, Imm 2], Count, Syscall NR_lseek [Reg 0, Imm 0, Imm 0], Count,
    Syscall NR_fallocate [Reg 0, Imm 0, Imm 0x58000, Imm 0x4000], Count, Syscall NR_lseek [Reg 0, Imm 0, Imm 1],
    Count, Syscall NR_lseek [Reg 0, Imm 0, Imm 2], Count, Syscall NR_lseek [Reg 0, Imm 0, Imm 0], Count,
    Syscall NR_fsync [Reg 0], Count, Syscall NR_fsync [Reg 0], Count, Syscall NR_fsync [Reg 0], Count,
    Syscall NR_fsync [Reg 0], Count]"

definition min_mysql_lseek_fallocate_52_0 :: syz_prog where
  "min_mysql_lseek_fallocate_52_0 = \<lparr>prog_name = ''min_mysql_lseek_fallocate_52_0'', prog_family = Mysql_v2,
     subdirs = [''sbtest''],
     filenames = [''./sbtest/sbtest3.ib''], filesizes = [376832],
     max_write_buffer = 0, init_regs = replicate 1 (- 1),
     reg_body = [], dereg_body = [],
     body = min_mysql_lseek_fallocate_52_0_body1 @ min_mysql_lseek_fallocate_52_0_body2 @
       min_mysql_lseek_fallocate_52_0_body3 @ min_mysql_lseek_fallocate_52_0_body4 @
       min_mysql_lseek_fallocate_52_0_body5 @ min_mysql_lseek_fallocate_52_0_body6 @
       min_mysql_lseek_fallocate_52_0_body7\<rparr>"

definition min_mysql_lseek_fallocate_52_0_target where
  "min_mysql_lseek_fallocate_52_0_target os_getenv os_inet_pton K = syz_target os_getenv os_inet_pton K min_mysql_lseek_fallocate_52_0"

lemmas min_mysql_lseek_fallocate_52_0_defs =
  min_mysql_lseek_fallocate_52_0_def min_mysql_lseek_fallocate_52_0_body1_def
  min_mysql_lseek_fallocate_52_0_body2_def min_mysql_lseek_fallocate_52_0_body3_def
  min_mysql_lseek_fallocate_52_0_body4_def min_mysql_lseek_fallocate_52_0_body5_def
  min_mysql_lseek_fallocate_52_0_body6_def min_mysql_lseek_fallocate_52_0_body7_def

lemma min_mysql_lseek_fallocate_52_0_ok: "prog_ok min_mysql_lseek_fallocate_52_0" "calls (body min_mysql_lseek_fallocate_52_0) = 119"
  by (simp_all add: prog_ok_def min_mysql_lseek_fallocate_52_0_defs prog_checks)

lemma min_mysql_lseek_fallocate_52_0_misses: "setup_misses min_mysql_lseek_fallocate_52_0" "filenames min_mysql_lseek_fallocate_52_0 \<noteq> []" "reg_body min_mysql_lseek_fallocate_52_0 = []" "num_regs min_mysql_lseek_fallocate_52_0 < 2 ^ 32"
  by (simp_all add: setup_misses_def opened_def misses_def path_names_def min_mysql_lseek_fallocate_52_0_defs prog_checks open_checks)

section \<open>min\_mysql\_lseek\_fallocate\_68\_0\<close>

definition min_mysql_lseek_fallocate_68_0_body1 :: "stmt list" where
  "min_mysql_lseek_fallocate_68_0_body1 = [
    Memcpy 0x20557540 (with_nul ''./sbtest/sbtest14.ibd'') 22,
    Syscall NR_openat [Dir_fd, Ptr 0x20557540, Imm 0x42, Imm 0x1ff], Count, Save_res 0,
    Syscall NR_fcntl [Reg 0, Imm 4, Imm 0x10000], Count, Store 2 0x20557580 (Imm 1), Store 2 0x20557582 (Imm 0),
    Store 8 0x20557588 (Imm 0), Store 8 0x20557590 (Imm 0), Store 4 0x20557598 (Imm 0),
    Syscall NR_fcntl [Reg 0, Imm 6, Ptr 0x20557580], Count, Syscall NR_lseek [Reg 0, Imm 0, Imm 1], Count,
    Syscall NR_lseek [Reg 0, Imm 0, Imm 2], Count, Syscall NR_lseek [Reg 0, Imm 0, Imm 0], Count,
    Syscall NR_fallocate [Reg 0, Imm 0, Imm 0x1c000, Imm 0x4000], Count, Syscall NR_lseek [Reg 0, Imm 0, Imm 1],
    Count, Syscall NR_lseek [Reg 0, Imm 0, Imm 2], Count, Syscall NR_lseek [Reg 0, Imm 0, Imm 0], Count,
    Syscall NR_lseek [Reg 0, Imm 0, Imm 1], Count, Syscall NR_lseek [Reg 0, Imm 0, Imm 2], Count,
    Syscall NR_lseek [Reg 0, Imm 0, Imm 0], Count, Syscall NR_fallocate [Reg 0, Imm 0, Imm 0x20000, Imm 0x4000],
    Count]"

definition min_mysql_lseek_fallocate_68_0_body2 :: "stmt list" where
  "min_mysql_lseek_fallocate_68_0_body2 = [
    Syscall NR_lseek [Reg 0, Imm 0, Imm 1], Count, Syscall NR_lseek [Reg 0, Imm 0, Imm 2], Count,
    Syscall NR_lseek [Reg 0, Imm 0, Imm 0], Count, Syscall NR_lseek [Reg 0, Imm 0, Imm 1], Count,
    Syscall NR_lseek [Reg 0, Imm 0, Imm 2], Count, Syscall NR_lseek [Reg 0, Imm 0, Imm 0], Count,
    Syscall NR_fallocate [Reg 0, Imm 0, Imm 0x24000, Imm 0x4000], Count, Syscall NR_lseek [Reg 0, Imm 0, Imm 1],
    Count, Syscall NR_lseek [Reg 0, Imm 0, Imm 2], Count, Syscall NR_lseek [Reg 0, Imm 0, Imm 0], Count,
    Syscall NR_lseek [Reg 0, Imm 0, Imm 1], Count, Syscall NR_lseek [Reg 0, Imm 0, Imm 2], Count,
    Syscall NR_lseek [Reg 0, Imm 0, Imm 0], Count, Syscall NR_fallocate [Reg 0, Imm 0, Imm 0x28000, Imm 0x4000],
    Count, Syscall NR_lseek [Reg 0, Imm 0, Imm 1], Count, Syscall NR_lseek [Reg 0, Imm 0, Imm 2], Count,
    Syscall NR_lseek [Reg 0, Imm 0, Imm 0], Count, Syscall NR_lseek [Reg 0, Imm 0, Imm 1], Count,
    Syscall NR_lseek [Reg 0, Imm 0, Imm 2], Count]"

definition min_mysql_lseek_fallocate_68_0_body3 :: "stmt list" where
  "min_mysql_lseek_fallocate_68_0_body3 = [
    Syscall NR_lseek [Reg 0, Imm 0, Imm 0], Count, Syscall NR_fallocate [Reg 0, Imm 0, Imm 0x2c000, Imm 0x4000],
    Count, Syscall NR_lseek [Reg 0, Imm 0, Imm 1], Count, Syscall NR_lseek [Reg 0, Imm 0, Imm 2], Count,
    Syscall NR_lseek [Reg 0, Imm 0, Imm 0], Count, Syscall NR_lseek [Reg 0, Imm 0, Imm 1], Count,
    Syscall NR_lseek [Reg 0, Imm 0, Imm 2], Count, Syscall NR_lseek [Reg 0, Imm 0, Imm 0], Count,
    Syscall NR_fallocate [Reg 0, Imm 0, Imm 0x30000, Imm 0x4000], Count, Syscall NR_lseek [Reg 0, Imm 0, Imm 1],
    Count, Syscall NR_lseek [Reg 0, Imm 0, Imm 2], Count, Syscall NR_lseek [Reg 0, Imm 0, Imm 0], Count,
    Syscall NR_lseek [Reg 0, Imm 0, Imm 1], Count, Syscall NR_lseek [Reg 0, Imm 0, Imm 2], Count,
    Syscall NR_lseek [Reg 0, Imm 0, Imm 0], Count, Syscall NR_fallocate [Reg 0, Imm 0, Imm 0x34000, Imm 0x4000],
    Count, Syscall NR_lseek [Reg 0, Imm 0, Imm 1], Count, Syscall NR_lseek [Reg 0, Imm 0, Imm 2], Count]"

definition min_mysql_lseek_fallocate_68_0_body4 :: "stmt list" where
  "min_mysql_lseek_fallocate_68_0_body4 = [
    Syscall NR_lseek [Reg 0, Imm 0, Imm 0], Count, Syscall NR_lseek [Reg 0, Imm 0, Imm 1], Count,
    Syscall NR_lseek [Reg 0, Imm 0, Imm 2], Count, Syscall NR_lseek [Reg 0, Imm 0, Imm 0], Count,
    Syscall NR_fallocate [Reg 0, Imm 0, Imm 0x38000, Imm 0x4000], Count, Syscall NR_lseek [Reg 0, Imm 0, Imm 1],
    Count, Syscall NR_lseek [Reg 0, Imm 0, Imm 2], Count, Syscall NR_lseek [Reg 0, Imm 0, Imm 0], Count,
    Syscall NR_lseek [Reg 0, Imm 0, Imm 1], Count, Syscall NR_lseek [Reg 0, Imm 0, Imm 2], Count,
    Syscall NR_lseek [Reg 0, Imm 0, Imm 0], Count, Syscall NR_fallocate [Reg 0, Imm 0, Imm 0x3c000, Imm 0x4000],
    Count, Syscall NR_lseek [Reg 0, Imm 0, Imm 1], Count, Syscall NR_lseek [Reg 0, Imm 0, Imm 2], Count,
    Syscall NR_lseek [Reg 0, Imm 0, Imm 0], Count, Syscall NR_lseek [Reg 0, Imm 0, Imm 1], Count,
    Syscall NR_lseek [Reg 0, Imm 0, Imm 2], Count, Syscall NR_lseek [Reg 0, Imm 0, Imm 0], Count]"

definition min_mysql_lseek_fallocate_68_0_body5 :: "stmt list" where
  "min_mysql_lseek_fallocate_68_0_body5 = [
    Syscall NR_fallocate [Reg 0, Imm 0, Imm 0x40000, Imm 0x4000], Count, Syscall NR_lseek [Reg 0, Imm 0, Imm 1],
    Count, Syscall NR_lseek [Reg 0, Imm 0, Imm 2], Count, Syscall NR_lseek [Reg 0, Imm 0, Imm 0], Count,
    Syscall NR_lseek [Reg 0, Imm 0, Imm 1], Count, Syscall NR_lseek [Reg 0, Imm 0, Imm 2], Count,
    Syscall NR_lseek [Reg 0, Imm 0, Imm 0], Count, Syscall NR_fallocate [Reg 0, Imm 0, Imm 0x44000, Imm 0x4000],
    Count, Syscall NR_lseek [Reg 0, Imm 0, Imm 1], Count, Syscall NR_lseek [Reg 0, Imm 0, Imm 2], Count,
    Syscall NR_lseek [Reg 0, Imm 0, Imm 0], Count, Syscall NR_lseek [Reg 0, Imm 0, Imm 1], Count,
    Syscall NR_lseek [Reg 0, Imm 0, Imm 2], Count, Syscall NR_lseek [Reg 0, Imm 0, Imm 0], Count,
    Syscall NR_fallocate [Reg 0, Imm 0, Imm 0x48000, Imm 0x4000], Count, Syscall NR_lseek [Reg 0, Imm 0, Imm 1],
    Count, Syscall NR_lseek [Reg 0, Imm 0, Imm 2], Count, Syscall NR_lseek [Reg 0, Imm 0, Imm 0], Count]"

definition min_mysql_lseek_fallocate_68_0_body6 :: "stmt list" where
  "min_mysql_lseek_fallocate_68_0_body6 = [
    Syscall NR_lseek [Reg 0, Imm 0, Imm 1], Count, Syscall NR_lseek [Reg 0, Imm 0, Imm 2], Count,
    Syscall NR_lseek [Reg 0, Imm 0, Imm 0], Count, Syscall NR_fallocate [Reg 0, Imm 0, Imm 0x4c000, Imm 0x4000],
    Count, Syscall NR_lseek [Reg 0, Imm 0, Imm 1], Count, Syscall NR_lseek [Reg 0, Imm 0, Imm 2], Count,
    Syscall NR_lseek [Reg 0, Imm 0, Imm 0], Count, Syscall NR_lseek [Reg 0, Imm 0, Imm 1], Count,
    Syscall NR_lseek [Reg 0, Imm 0, Imm 2], Count, Syscall NR_lseek [Reg 0, Imm 0, Imm 0], Count,
    Syscall NR_fallocate [Reg 0, Imm 0, Imm 0x50000, Imm 0x4000], Count, Syscall NR_lseek [Reg 0, Imm 0, Imm 1],
    Count, Syscall NR_lseek [Reg 0, Imm 0, Imm 2], Count, Syscall NR_lseek [Reg 0, Imm 0, Imm 0], Count,
    Syscall NR_lseek [Reg 0, Imm 0, Imm 1], Count, Syscall NR_lseek [Reg 0, Imm 0, Imm 2], Count,
    Syscall NR_lseek [Reg 0, Imm 0, Imm 0], Count, Syscall NR_fallocate [Reg 0, Imm 0, Imm 0x54000, Imm 0x4000],
    Count]"

definition min_mysql_lseek_fallocate_68_0_body7 :: "stmt list" where
  "min_mysql_lseek_fallocate_68_0_body7 = [
    Syscall NR_lseek [Reg 0, Imm 0, Imm 1], Count, Syscall NR_lseek [Reg 0, Imm 0, Imm 2], Count,
    Syscall NR_lseek [Reg 0, Imm 0, Imm 0], Count, Syscall NR_lseek [Reg 0, Imm 0, Imm 1], Count,
    Syscall NR_lseek [Reg 0, Imm 0, Imm 2], Count, Syscall NR_lseek [Reg 0, Imm 0, Imm 0], Count,
    Syscall NR_fallocate [Reg 0, Imm 0, Imm 0x58000, Imm 0x4000], Count, Syscall NR_lseek [Reg 0, Imm 0, Imm 1],
    Count, Syscall NR_lseek [Reg 0, Imm 0, Imm 2], Count, Syscall NR_lseek [Reg 0, Imm 0, Imm 0], Count,
    Syscall NR_fsync [Reg 0], Count, Syscall NR_fsync [Reg 0], Count, Syscall NR_fsync [Reg 0], Count,
    Syscall NR_fsync [Reg 0], Count]"

definition min_mysql_lseek_fallocate_68_0 :: syz_prog where
  "min_mysql_lseek_fallocate_68_0 = \<lparr>prog_name = ''min_mysql_lseek_fallocate_68_0'', prog_family = Mysql_v2,
     subdirs = [''sbtest''],
     filenames = [''./sbtest/sbtest14.ib''], filesizes = [376832],
     max_write_buffer = 0, init_regs = replicate 1 (- 1),
     reg_body = [], dereg_body = [],
     body = min_mysql_lseek_fallocate_68_0_body1 @ min_mysql_lseek_fallocate_68_0_body2 @
       min_mysql_lseek_fallocate_68_0_body3 @ min_mysql_lseek_fallocate_68_0_body4 @
       min_mysql_lseek_fallocate_68_0_body5 @ min_mysql_lseek_fallocate_68_0_body6 @
       min_mysql_lseek_fallocate_68_0_body7\<rparr>"

definition min_mysql_lseek_fallocate_68_0_target where
  "min_mysql_lseek_fallocate_68_0_target os_getenv os_inet_pton K = syz_target os_getenv os_inet_pton K min_mysql_lseek_fallocate_68_0"

lemmas min_mysql_lseek_fallocate_68_0_defs =
  min_mysql_lseek_fallocate_68_0_def min_mysql_lseek_fallocate_68_0_body1_def
  min_mysql_lseek_fallocate_68_0_body2_def min_mysql_lseek_fallocate_68_0_body3_def
  min_mysql_lseek_fallocate_68_0_body4_def min_mysql_lseek_fallocate_68_0_body5_def
  min_mysql_lseek_fallocate_68_0_body6_def min_mysql_lseek_fallocate_68_0_body7_def

lemma min_mysql_lseek_fallocate_68_0_ok: "prog_ok min_mysql_lseek_fallocate_68_0" "calls (body min_mysql_lseek_fallocate_68_0) = 119"
  by (simp_all add: prog_ok_def min_mysql_lseek_fallocate_68_0_defs prog_checks)

lemma min_mysql_lseek_fallocate_68_0_misses: "setup_misses min_mysql_lseek_fallocate_68_0" "filenames min_mysql_lseek_fallocate_68_0 \<noteq> []" "reg_body min_mysql_lseek_fallocate_68_0 = []" "num_regs min_mysql_lseek_fallocate_68_0 < 2 ^ 32"
  by (simp_all add: setup_misses_def opened_def misses_def path_names_def min_mysql_lseek_fallocate_68_0_defs prog_checks open_checks)

end
