(* ===== verification/CSB_Progs_Mysql_v2f.thy ===== *)
theory CSB_Progs_Mysql_v2f
  imports CSB_Syz_Files
begin

text \<open>
  Bodies of generated targets of bench/targets/mysql\_v2, statement by statement in the order of the
  files syz/<name>.h, and the targets made of them (the files <name>.h). Each passes the check.
\<close>

section \<open>min\_mysql\_lseek\_fallocate\_90\_0\<close>

definition min_mysql_lseek_fallocate_90_0_body1 :: "stmt list" where
  "min_mysql_lseek_fallocate_90_0_body1 = [
    Memcpy 0x209e31c0 (with_nul ''./sbtest/sbtest4.ibd'') 21,
    Syscall NR_openat [Dir_fd, Ptr 0x209e31c0, Imm 0x42, Imm 0x1ff], Count, Save_res 0,
    Syscall NR_fcntl [Reg 0, Imm 4, Imm 0x10000], Count, Store 2 0x209e3200 (Imm 1), Store 2 0x209e3202 (Imm 0),
    Store 8 0x209e3208 (Imm 0), Store 8 0x209e3210 (Imm 0), Store 4 0x209e3218 (Imm 0),
    Syscall NR_fcntl [Reg 0, Imm 6, Ptr 0x209e3200], Count, Syscall NR_lseek [Reg 0, Imm 0, Imm 1], Count,
    Syscall NR_lseek [Reg 0, Imm 0, Imm 2], Count, Syscall NR_lseek [Reg 0, Imm 0, Imm 0], Count,
    Syscall NR_fallocate [Reg 0, Imm 0, Imm 0x1c000, Imm 0x4000], Count, Syscall NR_lseek [Reg 0, Imm 0, Imm 1],
    Count, Syscall NR_lseek [Reg 0, Imm 0, Imm 2], Count, Syscall NR_lseek [Reg 0, Imm 0, Imm 0], Count,
    Syscall NR_lseek [Reg 0, Imm 0, Imm 1], Count, Syscall NR_lseek [Reg 0, Imm 0, Imm 2], Count,
    Syscall NR_lseek [Reg 0, Imm 0, Imm 0], Count, Syscall NR_fallocate [Reg 0, Imm 0, Imm 0x20000, Imm 0x4000],
    Count]"

definition min_mysql_lseek_fallocate_90_0_body2 :: "stmt list" where
  "min_mysql_lseek_fallocate_90_0_body2 = [
    Syscall NR_lseek [Reg 0, Imm 0, Imm 1], Count, Syscall NR_lseek [Reg 0, Imm 0, Imm 2], Count,
    Syscall NR_lseek [Reg 0, Imm 0, Imm 0], Count, Syscall NR_lseek [Reg 0, Imm 0, Imm 1], Count,
    Syscall NR_lseek [Reg 0, Imm 0, Imm 2], Count, Syscall NR_lseek [Reg 0, Imm 0, Imm 0], Count,
    Syscall NR_fallocate [Reg 0, Imm 0, Imm 0x24000, Imm 0x4000], Count, Syscall NR_lseek [Reg 0, Imm 0, Imm 1],
    Count, Syscall NR_lseek [Reg 0, Imm 0, Imm 2], Count, Syscall NR_lseek [Reg 0, Imm 0, Imm 0], Count,
    Syscall NR_lseek [Reg 0, Imm 0, Imm 1], Count, Syscall NR_lseek [Reg 0, Imm 0, Imm 2], Count,
    Syscall NR_lseek [Reg 0, Imm 0, Imm 0], Count, Syscall NR_fallocate [Reg 0, Imm 0, Imm 0x28000, Imm 0x4000],
    Count, Syscall NR_lseek [Reg 0, Imm 0, Imm 1], Count, Syscall NR_lseek [Reg 0, Imm 0, Imm 2], Count,
    Syscall NR_lseek [Reg 0, Imm 0, Imm 0], Count, Syscall NR_lseek [Reg 0, Imm 0, Imm 1], Count,
    Syscall NR_lseek [Reg 0, Imm 0, Imm 2], Count]"

definition min_mysql_lseek_fallocate_90_0_body3 :: "stmt list" where
  "min_mysql_lseek_fallocate_90_0_body3 = [
    Syscall NR_lseek [Reg 0, Imm 0, Imm 0], Count, Syscall NR_fallocate [Reg 0, Imm 0, Imm 0x2c000, Imm 0x4000],
    Count, Syscall NR_lseek [Reg 0, Imm 0, Imm 1], Count, Syscall NR_lseek [Reg 0, Imm 0, Imm 2], Count,
    Syscall NR_lseek [Reg 0, Imm 0, Imm 0], Count, Syscall NR_lseek [Reg 0, Imm 0, Imm 1], Count,
    Syscall NR_lseek [Reg 0, Imm 0, Imm 2], Count, Syscall NR_lseek [Reg 0, Imm 0, Imm 0], Count,
    Syscall NR_fallocate [Reg 0, Imm 0, Imm 0x30000, Imm 0x4000], Count, Syscall NR_lseek [Reg 0, Imm 0, Imm 1],
    Count, Syscall NR_lseek [Reg 0, Imm 0, Imm 2], Count, Syscall NR_lseek [Reg 0, Imm 0, Imm 0], Count,
    Syscall NR_lseek [Reg 0, Imm 0, Imm 1], Count, Syscall NR_lseek [Reg 0, Imm 0, Imm 2], Count,
    Syscall NR_lseek [Reg 0, Imm 0, Imm 0], Count, Syscall NR_fallocate [Reg 0, Imm 0, Imm 0x34000, Imm 0x4000],
    Count, Syscall NR_lseek [Reg 0, Imm 0, Imm 1], Count, Syscall NR_lseek [Reg 0, Imm 0, Imm 2], Count]"

definition min_mysql_lseek_fallocate_90_0_body4 :: "stmt list" where
  "min_mysql_lseek_fallocate_90_0_body4 = [
    Syscall NR_lseek [Reg 0, Imm 0, Imm 0], Count, Syscall NR_lseek [Reg 0, Imm 0, Imm 1], Count,
    Syscall NR_lseek [Reg 0, Imm 0, Imm 2], Count, Syscall NR_lseek [Reg 0, Imm 0, Imm 0], Count,
    Syscall NR_fallocate [Reg 0, Imm 0, Imm 0x38000, Imm 0x4000], Count, Syscall NR_lseek [Reg 0, Imm 0, Imm 1],
    Count, Syscall NR_lseek [Reg 0, Imm 0, Imm 2], Count, Syscall NR_lseek [Reg 0, Imm 0, Imm 0], Count,
    Syscall NR_lseek [Reg 0, Imm 0, Imm 1], Count, Syscall NR_lseek [Reg 0, Imm 0, Imm 2], Count,
    Syscall NR_lseek [Reg 0, Imm 0, Imm 0], Count, Syscall NR_fallocate [Reg 0, Imm 0, Imm 0x3c000, Imm 0x4000],
    Count, Syscall NR_lseek [Reg 0, Imm 0, Imm 1], Count, Syscall NR_lseek [Reg 0, Imm 0, Imm 2], Count,
    Syscall NR_lseek [Reg 0, Imm 0, Imm 0], Count, Syscall NR_lseek [Reg 0, Imm 0, Imm 1], Count,
    Syscall NR_lseek [Reg 0, Imm 0, Imm 2], Count, Syscall NR_lseek [Reg 0, Imm 0, Imm 0], Count]"

definition min_mysql_lseek_fallocate_90_0_body5 :: "stmt list" where
  "min_mysql_lseek_fallocate_90_0_body5 = [
    Syscall NR_fallocate [Reg 0, Imm 0, Imm 0x40000, Imm 0x4000], Count, Syscall NR_lseek [Reg 0, Imm 0, Imm 1],
    Count, Syscall NR_lseek [Reg 0, Imm 0, Imm 2], Count, Syscall NR_lseek [Reg 0, Imm 0, Imm 0], Count,
    Syscall NR_lseek [Reg 0, Imm 0, Imm 1], Count, Syscall NR_lseek [Reg 0, Imm 0, Imm 2], Count,
    Syscall NR_lseek [Reg 0, Imm 0, Imm 0], Count, Syscall NR_fallocate [Reg 0, Imm 0, Imm 0x44000, Imm 0x4000],
    Count, Syscall NR_lseek [Reg 0, Imm 0, Imm 1], Count, Syscall NR_lseek [Reg 0, Imm 0, Imm 2], Count,
    Syscall NR_lseek [Reg 0, Imm 0, Imm 0], Count, Syscall NR_lseek [Reg 0, Imm 0, Imm 1], Count,
    Syscall NR_lseek [Reg 0, Imm 0, Imm 2], Count, Syscall NR_lseek [Reg 0, Imm 0, Imm 0], Count,
    Syscall NR_fallocate [Reg 0, Imm 0, Imm 0x48000, Imm 0x4000], Count, Syscall NR_lseek [Reg 0, Imm 0, Imm 1],
    Count, Syscall NR_lseek [Reg 0, Imm 0, Imm 2], Count, Syscall NR_lseek [Reg 0, Imm 0, Imm 0], Count]"

definition min_mysql_lseek_fallocate_90_0_body6 :: "stmt list" where
  "min_mysql_lseek_fallocate_90_0_body6 = [
    Syscall NR_lseek [Reg 0, Imm 0, Imm 1], Count, Syscall NR_lseek [Reg 0, Imm 0, Imm 2], Count,
    Syscall NR_lseek [Reg 0, Imm 0, Imm 0], Count, Syscall NR_fallocate [Reg 0, Imm 0, Imm 0x4c000, Imm 0x4000],
    Count, Syscall NR_lseek [Reg 0, Imm 0, Imm 1], Count, Syscall NR_lseek [Reg 0, Imm 0, Imm 2], Count,
    Syscall NR_lseek [Reg 0, Imm 0, Imm 0], Count, Syscall NR_lseek [Reg 0, Imm 0, Imm 1], Count,
    Syscall NR_lseek [Reg 0, Imm 0, Imm 2], Count, Syscall NR_lseek [Reg 0, Imm 0, Imm 0], Count,
    Syscall NR_fallocate [Reg 0, Imm 0, Imm 0x50000, Imm 0x4000], Count, Syscall NR_lseek [Reg 0, Imm 0, Imm 1],
    Count, Syscall NR_lseek [Reg 0, Imm 0, Imm 2], Count, Syscall NR_lseek [Reg 0, Imm 0, Imm 0], Count,
    Syscall NR_lseek [Reg 0, Imm 0, Imm 1], Count, Syscall NR_lseek [Reg 0, Imm 0, Imm 2], Count,
    Syscall NR_lseek [Reg 0, Imm 0, Imm 0], Count, Syscall NR_fallocate [Reg 0, Imm 0, Imm 0x54000, Imm 0x4000],
    Count]"

definition min_mysql_lseek_fallocate_90_0_body7 :: "stmt list" where
  "min_mysql_lseek_fallocate_90_0_body7 = [
    Syscall NR_lseek [Reg 0, Imm 0, Imm 1], Count, Syscall NR_lseek [Reg 0, Imm 0, Imm 2], Count,
    Syscall NR_lseek [Reg 0, Imm 0, Imm 0], Count, Syscall NR_lseek [Reg 0, Imm 0, Imm 1], Count,
    Syscall NR_lseek [Reg 0, Imm 0, Imm 2], Count, Syscall NR_lseek [Reg 0, Imm 0, Imm 0], Count,
    Syscall NR_fallocate [Reg 0, Imm 0, Imm 0x58000, Imm 0x4000], Count, Syscall NR_lseek [Reg 0, Imm 0, Imm 1],
    Count, Syscall NR_lseek [Reg 0, Imm 0, Imm 2], Count, Syscall NR_lseek [Reg 0, Imm 0, Imm 0], Count,
    Syscall NR_fsync [Reg 0], Count, Syscall NR_fsync [Reg 0], Count, Syscall NR_fsync [Reg 0], Count,
    Syscall NR_fsync [Reg 0], Count]"

definition min_mysql_lseek_fallocate_90_0 :: syz_prog where
  "min_mysql_lseek_fallocate_90_0 = \<lparr>prog_name = ''min_mysql_lseek_fallocate_90_0'', prog_family = Mysql_v2,
     subdirs = [''sbtest''],
     filenames = [''./sbtest/sbtest4.ib''], filesizes = [376832],
     max_write_buffer = 0, init_regs = replicate 1 (- 1),
     reg_body = [], dereg_body = [],
     body = min_mysql_lseek_fallocate_90_0_body1 @ min_mysql_lseek_fallocate_90_0_body2 @
       min_mysql_lseek_fallocate_90_0_body3 @ min_mysql_lseek_fallocate_90_0_body4 @
       min_mysql_lseek_fallocate_90_0_body5 @ min_mysql_lseek_fallocate_90_0_body6 @
       min_mysql_lseek_fallocate_90_0_body7\<rparr>"

definition min_mysql_lseek_fallocate_90_0_target where
  "min_mysql_lseek_fallocate_90_0_target os_getenv os_inet_pton K = syz_target os_getenv os_inet_pton K min_mysql_lseek_fallocate_90_0"

lemmas min_mysql_lseek_fallocate_90_0_defs =
  min_mysql_lseek_fallocate_90_0_def min_mysql_lseek_fallocate_90_0_body1_def
  min_mysql_lseek_fallocate_90_0_body2_def min_mysql_lseek_fallocate_90_0_body3_def
  min_mysql_lseek_fallocate_90_0_body4_def min_mysql_lseek_fallocate_90_0_body5_def
  min_mysql_lseek_fallocate_90_0_body6_def min_mysql_lseek_fallocate_90_0_body7_def

lemma min_mysql_lseek_fallocate_90_0_ok: "prog_ok min_mysql_lseek_fallocate_90_0" "calls (body min_mysql_lseek_fallocate_90_0) = 119"
  by (simp_all add: prog_ok_def min_mysql_lseek_fallocate_90_0_defs prog_checks)

lemma min_mysql_lseek_fallocate_90_0_misses: "setup_misses min_mysql_lseek_fallocate_90_0" "filenames min_mysql_lseek_fallocate_90_0 \<noteq> []" "reg_body min_mysql_lseek_fallocate_90_0 = []" "num_regs min_mysql_lseek_fallocate_90_0 < 2 ^ 32"
  by (simp_all add: setup_misses_def opened_def misses_def path_names_def min_mysql_lseek_fallocate_90_0_defs prog_checks open_checks)

section \<open>min\_mysql\_lseek\_fallocate\_109\_0\<close>

definition min_mysql_lseek_fallocate_109_0_body1 :: "stmt list" where
  "min_mysql_lseek_fallocate_109_0_body1 = [
    Memcpy 0x20c2e4c0 (with_nul ''./sbtest/sbtest6.ibd'') 21,
    Syscall NR_openat [Dir_fd, Ptr 0x20c2e4c0, Imm 0x42, Imm 0x1ff], Count, Save_res 0,
    Syscall NR_fcntl [Reg 0, Imm 4, Imm 0x10000], Count, Store 2 0x20c2e500 (Imm 1), Store 2 0x20c2e502 (Imm 0),
    Store 8 0x20c2e508 (Imm 0), Store 8 0x20c2e510 (Imm 0), Store 4 0x20c2e518 (Imm 0),
    Syscall NR_fcntl [Reg 0, Imm 6, Ptr 0x20c2e500], Count, Syscall NR_lseek [Reg 0, Imm 0, Imm 1], Count,
    Syscall NR_lseek [Reg 0, Imm 0, Imm 2], Count, Syscall NR_lseek [Reg 0, Imm 0, Imm 0], Count,
    Syscall NR_fallocate [Reg 0, Imm 0, Imm 0x1c000, Imm 0x4000], Count, Syscall NR_lseek [Reg 0, Imm 0, Imm 1],
    Count, Syscall NR_lseek [Reg 0, Imm 0, Imm 2], Count, Syscall NR_lseek [Reg 0, Imm 0, Imm 0], Count,
    Syscall NR_lseek [Reg 0, Imm 0, Imm 1], Count, Syscall NR_lseek [Reg 0, Imm 0, Imm 2], Count,
    Syscall NR_lseek [Reg 0, Imm 0, Imm 0], Count, Syscall NR_fallocate [Reg 0, Imm 0, Imm 0x20000, Imm 0x4000],
    Count]"

definition min_mysql_lseek_fallocate_109_0_body2 :: "stmt list" where
  "min_mysql_lseek_fallocate_109_0_body2 = [
    Syscall NR_lseek [Reg 0, Imm 0, Imm 1], Count, Syscall NR_lseek [Reg 0, Imm 0, Imm 2], Count,
    Syscall NR_lseek [Reg 0, Imm 0, Imm 0], Count, Syscall NR_lseek [Reg 0, Imm 0, Imm 1], Count,
    Syscall NR_lseek [Reg 0, Imm 0, Imm 2], Count, Syscall NR_lseek [Reg 0, Imm 0, Imm 0], Count,
    Syscall NR_fallocate [Reg 0, Imm 0, Imm 0x24000, Imm 0x4000], Count, Syscall NR_lseek [Reg 0, Imm 0, Imm 1],
    Count, Syscall NR_lseek [Reg 0, Imm 0, Imm 2], Count, Syscall NR_lseek [Reg 0, Imm 0, Imm 0], Count,
    Syscall NR_lseek [Reg 0, Imm 0, Imm 1], Count, Syscall NR_lseek [Reg 0, Imm 0, Imm 2], Count,
    Syscall NR_lseek [Reg 0, Imm 0, Imm 0], Count, Syscall NR_fallocate [Reg 0, Imm 0, Imm 0x28000, Imm 0x4000],
    Count, Syscall NR_lseek [Reg 0, Imm 0, Imm 1], Count, Syscall NR_lseek [Reg 0, Imm 0, Imm 2], Count,
    Syscall NR_lseek [Reg 0, Imm 0, Imm 0], Count, Syscall NR_lseek [Reg 0, Imm 0, Imm 1], Count,
    Syscall NR_lseek [Reg 0, Imm 0, Imm 2], Count]"

definition min_mysql_lseek_fallocate_109_0_body3 :: "stmt list" where
  "min_mysql_lseek_fallocate_109_0_body3 = [
    Syscall NR_lseek [Reg 0, Imm 0, Imm 0], Count, Syscall NR_fallocate [Reg 0, Imm 0, Imm 0x2c000, Imm 0x4000],
    Count, Syscall NR_lseek [Reg 0, Imm 0, Imm 1], Count, Syscall NR_lseek [Reg 0, Imm 0, Imm 2], Count,
    Syscall NR_lseek [Reg 0, Imm 0, Imm 0], Count, Syscall NR_lseek [Reg 0, Imm 0, Imm 1], Count,
    Syscall NR_lseek [Reg 0, Imm 0, Imm 2], Count, Syscall NR_lseek [Reg 0, Imm 0, Imm 0], Count,
    Syscall NR_fallocate [Reg 0, Imm 0, Imm 0x30000, Imm 0x4000], Count, Syscall NR_lseek [Reg 0, Imm 0, Imm 1],
    Count, Syscall NR_lseek [Reg 0, Imm 0, Imm 2], Count, Syscall NR_lseek [Reg 0, Imm 0, Imm 0], Count,
    Syscall NR_lseek [Reg 0, Imm 0, Imm 1], Count, Syscall NR_lseek [Reg 0, Imm 0, Imm 2], Count,
    Syscall NR_lseek [Reg 0, Imm 0, Imm 0], Count, Syscall NR_fallocate [Reg 0, Imm 0, Imm 0x34000, Imm 0x4000],
    Count, Syscall NR_lseek [Reg 0, Imm 0, Imm 1], Count, Syscall NR_lseek [Reg 0, Imm 0, Imm 2], Count]"

definition min_mysql_lseek_fallocate_109_0_body4 :: "stmt list" where
  "min_mysql_lseek_fallocate_109_0_body4 = [
    Syscall NR_lseek [Reg 0, Imm 0, Imm 0], Count, Syscall NR_lseek [Reg 0, Imm 0, Imm 1], Count,
    Syscall NR_lseek [Reg 0, Imm 0, Imm 2], Count, Syscall NR_lseek [Reg 0, Imm 0, Imm 0], Count,
    Syscall NR_fallocate [Reg 0, Imm 0, Imm 0x38000, Imm 0x4000], Count, Syscall NR_lseek [Reg 0, Imm 0, Imm 1],
    Count, Syscall NR_lseek [Reg 0, Imm 0, Imm 2], Count, Syscall NR_lseek [Reg 0, Imm 0, Imm 0], Count,
    Syscall NR_lseek [Reg 0, Imm 0, Imm 1], Count, Syscall NR_lseek [Reg 0, Imm 0, Imm 2], Count,
    Syscall NR_lseek [Reg 0, Imm 0, Imm 0], Count, Syscall NR_fallocate [Reg 0, Imm 0, Imm 0x3c000, Imm 0x4000],
    Count, Syscall NR_lseek [Reg 0, Imm 0, Imm 1], Count, Syscall NR_lseek [Reg 0, Imm 0, Imm 2], Count,
    Syscall NR_lseek [Reg 0, Imm 0, Imm 0], Count, Syscall NR_lseek [Reg 0, Imm 0, Imm 1], Count,
    Syscall NR_lseek [Reg 0, Imm 0, Imm 2], Count, Syscall NR_lseek [Reg 0, Imm 0, Imm 0], Count]"

definition min_mysql_lseek_fallocate_109_0_body5 :: "stmt list" where
  "min_mysql_lseek_fallocate_109_0_body5 = [
    Syscall NR_fallocate [Reg 0, Imm 0, Imm 0x40000, Imm 0x4000], Count, Syscall NR_lseek [Reg 0, Imm 0, Imm 1],
    Count, Syscall NR_lseek [Reg 0, Imm 0, Imm 2], Count, Syscall NR_lseek [Reg 0, Imm 0, Imm 0], Count,
    Syscall NR_lseek [Reg 0, Imm 0, Imm 1], Count, Syscall NR_lseek [Reg 0, Imm 0, Imm 2], Count,
    Syscall NR_lseek [Reg 0, Imm 0, Imm 0], Count, Syscall NR_fallocate [Reg 0, Imm 0, Imm 0x44000, Imm 0x4000],
    Count, Syscall NR_lseek [Reg 0, Imm 0, Imm 1], Count, Syscall NR_lseek [Reg 0, Imm 0, Imm 2], Count,
    Syscall NR_lseek [Reg 0, Imm 0, Imm 0], Count, Syscall NR_lseek [Reg 0, Imm 0, Imm 1], Count,
    Syscall NR_lseek [Reg 0, Imm 0, Imm 2], Count, Syscall NR_lseek [Reg 0, Imm 0, Imm 0], Count,
    Syscall NR_fallocate [Reg 0, Imm 0, Imm 0x48000, Imm 0x4000], Count, Syscall NR_lseek [Reg 0, Imm 0, Imm 1],
    Count, Syscall NR_lseek [Reg 0, Imm 0, Imm 2], Count, Syscall NR_lseek [Reg 0, Imm 0, Imm 0], Count]"

definition min_mysql_lseek_fallocate_109_0_body6 :: "stmt list" where
  "min_mysql_lseek_fallocate_109_0_body6 = [
    Syscall NR_lseek [Reg 0, Imm 0, Imm 1], Count, Syscall NR_lseek [Reg 0, Imm 0, Imm 2], Count,
    Syscall NR_lseek [Reg 0, Imm 0, Imm 0], Count, Syscall NR_fallocate [Reg 0, Imm 0, Imm 0x4c000, Imm 0x4000],
    Count, Syscall NR_lseek [Reg 0, Imm 0, Imm 1], Count, Syscall NR_lseek [Reg 0, Imm 0, Imm 2], Count,
    Syscall NR_lseek [Reg 0, Imm 0, Imm 0], Count, Syscall NR_lseek [Reg 0, Imm 0, Imm 1], Count,
    Syscall NR_lseek [Reg 0, Imm 0, Imm 2], Count, Syscall NR_lseek [Reg 0, Imm 0, Imm 0], Count,
    Syscall NR_fallocate [Reg 0, Imm 0, Imm 0x50000, Imm 0x4000], Count, Syscall NR_lseek [Reg 0, Imm 0, Imm 1],
    Count, Syscall NR_lseek [Reg 0, Imm 0, Imm 2], Count, Syscall NR_lseek [Reg 0, Imm 0, Imm 0], Count,
    Syscall NR_lseek [Reg 0, Imm 0, Imm 1], Count, Syscall NR_lseek [Reg 0, Imm 0, Imm 2], Count,
    Syscall NR_lseek [Reg 0, Imm 0, Imm 0], Count, Syscall NR_fallocate [Reg 0, Imm 0, Imm 0x54000, Imm 0x4000],
    Count]"

definition min_mysql_lseek_fallocate_109_0_body7 :: "stmt list" where
  "min_mysql_lseek_fallocate_109_0_body7 = [
    Syscall NR_lseek [Reg 0, Imm 0, Imm 1], Count, Syscall NR_lseek [Reg 0, Imm 0, Imm 2], Count,
    Syscall NR_lseek [Reg 0, Imm 0, Imm 0], Count, Syscall NR_lseek [Reg 0, Imm 0, Imm 1], Count,
    Syscall NR_lseek [Reg 0, Imm 0, Imm 2], Count, Syscall NR_lseek [Reg 0, Imm 0, Imm 0], Count,
    Syscall NR_fallocate [Reg 0, Imm 0, Imm 0x58000, Imm 0x4000], Count, Syscall NR_lseek [Reg 0, Imm 0, Imm 1],
    Count, Syscall NR_lseek [Reg 0, Imm 0, Imm 2], Count, Syscall NR_lseek [Reg 0, Imm 0, Imm 0], Count,
    Syscall NR_fsync [Reg 0], Count, Syscall NR_fsync [Reg 0], Count, Syscall NR_fsync [Reg 0], Count,
    Syscall NR_fsync [Reg 0], Count, Syscall NR_fsync [Reg 0], Count]"

definition min_mysql_lseek_fallocate_109_0 :: syz_prog where
  "min_mysql_lseek_fallocate_109_0 = \<lparr>prog_name = ''min_mysql_lseek_fallocate_109_0'', prog_family = Mysql_v2,
     subdirs = [''sbtest''],
     filenames = [''./sbtest/sbtest6.ib''], filesizes = [376832],
     max_write_buffer = 0, init_regs = replicate 1 (- 1),
     reg_body = [], dereg_body = [],
     body = min_mysql_lseek_fallocate_109_0_body1 @ min_mysql_lseek_fallocate_109_0_body2 @
       min_mysql_lseek_fallocate_109_0_body3 @ min_mysql_lseek_fallocate_109_0_body4 @
       min_mysql_lseek_fallocate_109_0_body5 @ min_mysql_lseek_fallocate_109_0_body6 @
       min_mysql_lseek_fallocate_109_0_body7\<rparr>"

definition min_mysql_lseek_fallocate_109_0_target where
  "min_mysql_lseek_fallocate_109_0_target os_getenv os_inet_pton K = syz_target os_getenv os_inet_pton K min_mysql_lseek_fallocate_109_0"

lemmas min_mysql_lseek_fallocate_109_0_defs =
  min_mysql_lseek_fallocate_109_0_def min_mysql_lseek_fallocate_109_0_body1_def
  min_mysql_lseek_fallocate_109_0_body2_def min_mysql_lseek_fallocate_109_0_body3_def
  min_mysql_lseek_fallocate_109_0_body4_def min_mysql_lseek_fallocate_109_0_body5_def
  min_mysql_lseek_fallocate_109_0_body6_def min_mysql_lseek_fallocate_109_0_body7_def

lemma min_mysql_lseek_fallocate_109_0_ok: "prog_ok min_mysql_lseek_fallocate_109_0" "calls (body min_mysql_lseek_fallocate_109_0) = 120"
  by (simp_all add: prog_ok_def min_mysql_lseek_fallocate_109_0_defs prog_checks)

lemma min_mysql_lseek_fallocate_109_0_misses: "setup_misses min_mysql_lseek_fallocate_109_0" "filenames min_mysql_lseek_fallocate_109_0 \<noteq> []" "reg_body min_mysql_lseek_fallocate_109_0 = []" "num_regs min_mysql_lseek_fallocate_109_0 < 2 ^ 32"
  by (simp_all add: setup_misses_def opened_def misses_def path_names_def min_mysql_lseek_fallocate_109_0_defs prog_checks open_checks)

section \<open>min\_mysql\_lseek\_fallocate\_91\_0\<close>

definition min_mysql_lseek_fallocate_91_0_body1 :: "stmt list" where
  "min_mysql_lseek_fallocate_91_0_body1 = [
    Memcpy 0x20b4bcc0 (with_nul ''./sbtest/sbtest19.ibd'') 22,
    Syscall NR_openat [Dir_fd, Ptr 0x20b4bcc0, Imm 0x42, Imm 0x1ff], Count, Save_res 0,
    Syscall NR_fcntl [Reg 0, Imm 4, Imm 0x10000], Count, Store 2 0x20b4bd00 (Imm 1), Store 2 0x20b4bd02 (Imm 0),
    Store 8 0x20b4bd08 (Imm 0), Store 8 0x20b4bd10 (Imm 0), Store 4 0x20b4bd18 (Imm 0),
    Syscall NR_fcntl [Reg 0, Imm 6, Ptr 0x20b4bd00], Count, Syscall NR_lseek [Reg 0, Imm 0, Imm 1], Count,
    Syscall NR_lseek [Reg 0, Imm 0, Imm 2], Count, Syscall NR_lseek [Reg 0, Imm 0, Imm 0], Count,
    Syscall NR_fallocate [Reg 0, Imm 0, Imm 0x1c000, Imm 0x4000], Count, Syscall NR_lseek [Reg 0, Imm 0, Imm 1],
    Count, Syscall NR_lseek [Reg 0, Imm 0, Imm 2], Count, Syscall NR_lseek [Reg 0, Imm 0, Imm 0], Count,
    Syscall NR_lseek [Reg 0, Imm 0, Imm 1], Count, Syscall NR_lseek [Reg 0, Imm 0, Imm 2], Count,
    Syscall NR_lseek [Reg 0, Imm 0, Imm 0], Count, Syscall NR_fallocate [Reg 0, Imm 0, Imm 0x20000, Imm 0x4000],
    Count]"

definition min_mysql_lseek_fallocate_91_0_body2 :: "stmt list" where
  "min_mysql_lseek_fallocate_91_0_body2 = [
    Syscall NR_lseek [Reg 0, Imm 0, Imm 1], Count, Syscall NR_lseek [Reg 0, Imm 0, Imm 2], Count,
    Syscall NR_lseek [Reg 0, Imm 0, Imm 0], Count, Syscall NR_lseek [Reg 0, Imm 0, Imm 1], Count,
    Syscall NR_lseek [Reg 0, Imm 0, Imm 2], Count, Syscall NR_lseek [Reg 0, Imm 0, Imm 0], Count,
    Syscall NR_fallocate [Reg 0, Imm 0, Imm 0x24000, Imm 0x4000], Count, Syscall NR_lseek [Reg 0, Imm 0, Imm 1],
    Count, Syscall NR_lseek [Reg 0, Imm 0, Imm 2], Count, Syscall NR_lseek [Reg 0, Imm 0, Imm 0], Count,
    Syscall NR_lseek [Reg 0, Imm 0, Imm 1], Count, Syscall NR_lseek [Reg 0, Imm 0, Imm 2], Count,
    Syscall NR_lseek [Reg 0, Imm 0, Imm 0], Count, Syscall NR_fallocate [Reg 0, Imm 0, Imm 0x28000, Imm 0x4000],
    Count, Syscall NR_lseek [Reg 0, Imm 0, Imm 1], Count, Syscall NR_lseek [Reg 0, Imm 0, Imm 2], Count,
    Syscall NR_lseek [Reg 0, Imm 0, Imm 0], Count, Syscall NR_lseek [Reg 0, Imm 0, Imm 1], Count,
    Syscall NR_lseek [Reg 0, Imm 0, Imm 2], Count]"

definition min_mysql_lseek_fallocate_91_0_body3 :: "stmt list" where
  "min_mysql_lseek_fallocate_91_0_body3 = [
    Syscall NR_lseek [Reg 0, Imm 0, Imm 0], Count, Syscall NR_fallocate [Reg 0, Imm 0, Imm 0x2c000, Imm 0x4000],
    Count, Syscall NR_lseek [Reg 0, Imm 0, Imm 1], Count, Syscall NR_lseek [Reg 0, Imm 0, Imm 2], Count,
    Syscall NR_lseek [Reg 0, Imm 0, Imm 0], Count, Syscall NR_lseek [Reg 0, Imm 0, Imm 1], Count,
    Syscall NR_lseek [Reg 0, Imm 0, Imm 2], Count, Syscall NR_lseek [Reg 0, Imm 0, Imm 0], Count,
    Syscall NR_fallocate [Reg 0, Imm 0, Imm 0x30000, Imm 0x4000], Count, Syscall NR_lseek [Reg 0, Imm 0, Imm 1],
    Count, Syscall NR_lseek [Reg 0, Imm 0, Imm 2], Count, Syscall NR_lseek [Reg 0, Imm 0, Imm 0], Count,
    Syscall NR_lseek [Reg 0, Imm 0, Imm 1], Count, Syscall NR_lseek [Reg 0, Imm 0, Imm 2], Count,
    Syscall NR_lseek [Reg 0, Imm 0, Imm 0], Count, Syscall NR_fallocate [Reg 0, Imm 0, Imm 0x34000, Imm 0x4000],
    Count, Syscall NR_lseek [Reg 0, Imm 0, Imm 1], Count, Syscall NR_lseek [Reg 0, Imm 0, Imm 2], Count]"

definition min_mysql_lseek_fallocate_91_0_body4 :: "stmt list" where
  "min_mysql_lseek_fallocate_91_0_body4 = [
    Syscall NR_lseek [Reg 0, Imm 0, Imm 0], Count, Syscall NR_lseek [Reg 0, Imm 0, Imm 1], Count,
    Syscall NR_lseek [Reg 0, Imm 0, Imm 2], Count, Syscall NR_lseek [Reg 0, Imm 0, Imm 0], Count,
    Syscall NR_fallocate [Reg 0, Imm 0, Imm 0x38000, Imm 0x4000], Count, Syscall NR_lseek [Reg 0, Imm 0, Imm 1],
    Count, Syscall NR_lseek [Reg 0, Imm 0, Imm 2], Count, Syscall NR_lseek [Reg 0, Imm 0, Imm 0], Count,
    Syscall NR_lseek [Reg 0, Imm 0, Imm 1], Count, Syscall NR_lseek [Reg 0, Imm 0, Imm 2], Count,
    Syscall NR_lseek [Reg 0, Imm 0, Imm 0], Count, Syscall NR_fallocate [Reg 0, Imm 0, Imm 0x3c000, Imm 0x4000],
    Count, Syscall NR_lseek [Reg 0, Imm 0, Imm 1], Count, Syscall NR_lseek [Reg 0, Imm 0, Imm 2], Count,
    Syscall NR_lseek [Reg 0, Imm 0, Imm 0], Count, Syscall NR_lseek [Reg 0, Imm 0, Imm 1], Count,
    Syscall NR_lseek [Reg 0, Imm 0, Imm 2], Count, Syscall NR_lseek [Reg 0, Imm 0, Imm 0], Count]"

definition min_mysql_lseek_fallocate_91_0_body5 :: "stmt list" where
  "min_mysql_lseek_fallocate_91_0_body5 = [
    Syscall NR_fallocate [Reg 0, Imm 0, Imm 0x40000, Imm 0x4000], Count, Syscall NR_lseek [Reg 0, Imm 0, Imm 1],
    Count, Syscall NR_lseek [Reg 0, Imm 0, Imm 2], Count, Syscall NR_lseek [Reg 0, Imm 0, Imm 0], Count,
    Syscall NR_lseek [Reg 0, Imm 0, Imm 1], Count, Syscall NR_lseek [Reg 0, Imm 0, Imm 2], Count,
    Syscall NR_lseek [Reg 0, Imm 0, Imm 0], Count, Syscall NR_fallocate [Reg 0, Imm 0, Imm 0x44000, Imm 0x4000],
    Count, Syscall NR_lseek [Reg 0, Imm 0, Imm 1], Count, Syscall NR_lseek [Reg 0, Imm 0, Imm 2], Count,
    Syscall NR_lseek [Reg 0, Imm 0, Imm 0], Count, Syscall NR_lseek [Reg 0, Imm 0, Imm 1], Count,
    Syscall NR_lseek [Reg 0, Imm 0, Imm 2], Count, Syscall NR_lseek [Reg 0, Imm 0, Imm 0], Count,
    Syscall NR_fallocate [Reg 0, Imm 0, Imm 0x48000, Imm 0x4000], Count, Syscall NR_lseek [Reg 0, Imm 0, Imm 1],
    Count, Syscall NR_lseek [Reg 0, Imm 0, Imm 2], Count, Syscall NR_lseek [Reg 0, Imm 0, Imm 0], Count]"

definition min_mysql_lseek_fallocate_91_0_body6 :: "stmt list" where
  "min_mysql_lseek_fallocate_91_0_body6 = [
    Syscall NR_lseek [Reg 0, Imm 0, Imm 1], Count, Syscall NR_lseek [Reg 0, Imm 0, Imm 2], Count,
    Syscall NR_lseek [Reg 0, Imm 0, Imm 0], Count, Syscall NR_fallocate [Reg 0, Imm 0, Imm 0x4c000, Imm 0x4000],
    Count, Syscall NR_lseek [Reg 0, Imm 0, Imm 1], Count, Syscall NR_lseek [Reg 0, Imm 0, Imm 2], Count,
    Syscall NR_lseek [Reg 0, Imm 0, Imm 0], Count, Syscall NR_lseek [Reg 0, Imm 0, Imm 1], Count,
    Syscall NR_lseek [Reg 0, Imm 0, Imm 2], Count, Syscall NR_lseek [Reg 0, Imm 0, Imm 0], Count,
    Syscall NR_fallocate [Reg 0, Imm 0, Imm 0x50000, Imm 0x4000], Count, Syscall NR_lseek [Reg 0, Imm 0, Imm 1],
    Count, Syscall NR_lseek [Reg 0, Imm 0, Imm 2], Count, Syscall NR_lseek [Reg 0, Imm 0, Imm 0], Count,
    Syscall NR_lseek [Reg 0, Imm 0, Imm 1], Count, Syscall NR_lseek [Reg 0, Imm 0, Imm 2], Count,
    Syscall NR_lseek [Reg 0, Imm 0, Imm 0], Count, Syscall NR_fallocate [Reg 0, Imm 0, Imm 0x54000, Imm 0x4000],
    Count]"

definition min_mysql_lseek_fallocate_91_0_body7 :: "stmt list" where
  "min_mysql_lseek_fallocate_91_0_body7 = [
    Syscall NR_lseek [Reg 0, Imm 0, Imm 1], Count, Syscall NR_lseek [Reg 0, Imm 0, Imm 2], Count,
    Syscall NR_lseek [Reg 0, Imm 0, Imm 0], Count, Syscall NR_lseek [Reg 0, Imm 0, Imm 1], Count,
    Syscall NR_lseek [Reg 0, Imm 0, Imm 2], Count, Syscall NR_lseek [Reg 0, Imm 0, Imm 0], Count,
    Syscall NR_fallocate [Reg 0, Imm 0, Imm 0x58000, Imm 0x4000], Count, Syscall NR_lseek [Reg 0, Imm 0, Imm 1],
    Count, Syscall NR_lseek [Reg 0, Imm 0, Imm 2], Count, Syscall NR_lseek [Reg 0, Imm 0, Imm 0], Count,
    Syscall NR_fsync [Reg 0], Count, Syscall NR_fsync [Reg 0], Count, Syscall NR_fsync [Reg 0], Count,
    Syscall NR_fsync [Reg 0], Count, Syscall NR_fsync [Reg 0], Count]"

definition min_mysql_lseek_fallocate_91_0 :: syz_prog where
  "min_mysql_lseek_fallocate_91_0 = \<lparr>prog_name = ''min_mysql_lseek_fallocate_91_0'', prog_family = Mysql_v2,
     subdirs = [''sbtest''],
     filenames = [''./sbtest/sbtest19.ib''], filesizes = [376832],
     max_write_buffer = 0, init_regs = replicate 1 (- 1),
     reg_body = [], dereg_body = [],
     body = min_mysql_lseek_fallocate_91_0_body1 @ min_mysql_lseek_fallocate_91_0_body2 @
       min_mysql_lseek_fallocate_91_0_body3 @ min_mysql_lseek_fallocate_91_0_body4 @
       min_mysql_lseek_fallocate_91_0_body5 @ min_mysql_lseek_fallocate_91_0_body6 @
       min_mysql_lseek_fallocate_91_0_body7\<rparr>"

definition min_mysql_lseek_fallocate_91_0_target where
  "min_mysql_lseek_fallocate_91_0_target os_getenv os_inet_pton K = syz_target os_getenv os_inet_pton K min_mysql_lseek_fallocate_91_0"

lemmas min_mysql_lseek_fallocate_91_0_defs =
  min_mysql_lseek_fallocate_91_0_def min_mysql_lseek_fallocate_91_0_body1_def
  min_mysql_lseek_fallocate_91_0_body2_def min_mysql_lseek_fallocate_91_0_body3_def
  min_mysql_lseek_fallocate_91_0_body4_def min_mysql_lseek_fallocate_91_0_body5_def
  min_mysql_lseek_fallocate_91_0_body6_def min_mysql_lseek_fallocate_91_0_body7_def

lemma min_mysql_lseek_fallocate_91_0_ok: "prog_ok min_mysql_lseek_fallocate_91_0" "calls (body min_mysql_lseek_fallocate_91_0) = 120"
  by (simp_all add: prog_ok_def min_mysql_lseek_fallocate_91_0_defs prog_checks)

lemma min_mysql_lseek_fallocate_91_0_misses: "setup_misses min_mysql_lseek_fallocate_91_0" "filenames min_mysql_lseek_fallocate_91_0 \<noteq> []" "reg_body min_mysql_lseek_fallocate_91_0 = []" "num_regs min_mysql_lseek_fallocate_91_0 < 2 ^ 32"
  by (simp_all add: setup_misses_def opened_def misses_def path_names_def min_mysql_lseek_fallocate_91_0_defs prog_checks open_checks)

section \<open>min\_mysql\_lseek\_fallocate\_113\_0\<close>

definition min_mysql_lseek_fallocate_113_0_body1 :: "stmt list" where
  "min_mysql_lseek_fallocate_113_0_body1 = [
    Memcpy 0x204344c0 (with_nul ''./sbtest/sbtest13.ibd'') 22,
    Syscall NR_openat [Dir_fd, Ptr 0x204344c0, Imm 0x42, Imm 0x1ff], Count, Save_res 0,
    Syscall NR_fcntl [Reg 0, Imm 4, Imm 0x10000], Count, Store 2 0x20434500 (Imm 1), Store 2 0x20434502 (Imm 0),
    Store 8 0x20434508 (Imm 0), Store 8 0x20434510 (Imm 0), Store 4 0x20434518 (Imm 0),
    Syscall NR_fcntl [Reg 0, Imm 6, Ptr 0x20434500], Count, Syscall NR_lseek [Reg 0, Imm 0, Imm 1], Count,
    Syscall NR_lseek [Reg 0, Imm 0, Imm 2], Count, Syscall NR_lseek [Reg 0, Imm 0, Imm 0], Count,
    Syscall NR_fallocate [Reg 0, Imm 0, Imm 0x1c000, Imm 0x4000], Count, Syscall NR_lseek [Reg 0, Imm 0, Imm 1],
    Count, Syscall NR_lseek [Reg 0, Imm 0, Imm 2], Count, Syscall NR_lseek [Reg 0, Imm 0, Imm 0], Count,
    Syscall NR_lseek [Reg 0, Imm 0, Imm 1], Count, Syscall NR_lseek [Reg 0, Imm 0, Imm 2], Count,
    Syscall NR_lseek [Reg 0, Imm 0, Imm 0], Count, Syscall NR_fallocate [Reg 0, Imm 0, Imm 0x20000, Imm 0x4000],
    Count]"

definition min_mysql_lseek_fallocate_113_0_body2 :: "stmt list" where
  "min_mysql_lseek_fallocate_113_0_body2 = [
    Syscall NR_lseek [Reg 0, Imm 0, Imm 1], Count, Syscall NR_lseek [Reg 0, Imm 0, Imm 2], Count,
    Syscall NR_lseek [Reg 0, Imm 0, Imm 0], Count, Syscall NR_lseek [Reg 0, Imm 0, Imm 1], Count,
    Syscall NR_lseek [Reg 0, Imm 0, Imm 2], Count, Syscall NR_lseek [Reg 0, Imm 0, Imm 0], Count,
    Syscall NR_fallocate [Reg 0, Imm 0, Imm 0x24000, Imm 0x4000], Count, Syscall NR_lseek [Reg 0, Imm 0, Imm 1],
    Count, Syscall NR_lseek [Reg 0, Imm 0, Imm 2], Count, Syscall NR_lseek [Reg 0, Imm 0, Imm 0], Count,
    Syscall NR_lseek [Reg 0, Imm 0, Imm 1], Count, Syscall NR_lseek [Reg 0, Imm 0, Imm 2], Count,
    Syscall NR_lseek [Reg 0, Imm 0, Imm 0], Count, Syscall NR_fallocate [Reg 0, Imm 0, Imm 0x28000, Imm 0x4000],
    Count, Syscall NR_lseek [Reg 0, Imm 0, Imm 1], Count, Syscall NR_lseek [Reg 0, Imm 0, Imm 2], Count,
    Syscall NR_lseek [Reg 0, Imm 0, Imm 0], Count, Syscall NR_lseek [Reg 0, Imm 0, Imm 1], Count,
    Syscall NR_lseek [Reg 0, Imm 0, Imm 2], Count]"

definition min_mysql_lseek_fallocate_113_0_body3 :: "stmt list" where
  "min_mysql_lseek_fallocate_113_0_body3 = [
    Syscall NR_lseek [Reg 0, Imm 0, Imm 0], Count, Syscall NR_fallocate [Reg 0, Imm 0, Imm 0x2c000, Imm 0x4000],
    Count, Syscall NR_lseek [Reg 0, Imm 0, Imm 1], Count, Syscall NR_lseek [Reg 0, Imm 0, Imm 2], Count,
    Syscall NR_lseek [Reg 0, Imm 0, Imm 0], Count, Syscall NR_lseek [Reg 0, Imm 0, Imm 1], Count,
    Syscall NR_lseek [Reg 0, Imm 0, Imm 2], Count, Syscall NR_lseek [Reg 0, Imm 0, Imm 0], Count,
    Syscall NR_fallocate [Reg 0, Imm 0, Imm 0x30000, Imm 0x4000], Count, Syscall NR_lseek [Reg 0, Imm 0, Imm 1],
    Count, Syscall NR_lseek [Reg 0, Imm 0, Imm 2], Count, Syscall NR_lseek [Reg 0, Imm 0, Imm 0], Count,
    Syscall NR_lseek [Reg 0, Imm 0, Imm 1], Count, Syscall NR_lseek [Reg 0, Imm 0, Imm 2], Count,
    Syscall NR_lseek [Reg 0, Imm 0, Imm 0], Count, Syscall NR_fallocate [Reg 0, Imm 0, Imm 0x34000, Imm 0x4000],
    Count, Syscall NR_lseek [Reg 0, Imm 0, Imm 1], Count, Syscall NR_lseek [Reg 0, Imm 0, Imm 2], Count]"

definition min_mysql_lseek_fallocate_113_0_body4 :: "stmt list" where
  "min_mysql_lseek_fallocate_113_0_body4 = [
    Syscall NR_lseek [Reg 0, Imm 0, Imm 0], Count, Syscall NR_lseek [Reg 0, Imm 0, Imm 1], Count,
    Syscall NR_lseek [Reg 0, Imm 0, Imm 2], Count, Syscall NR_lseek [Reg 0, Imm 0, Imm 0], Count,
    Syscall NR_fallocate [Reg 0, Imm 0, Imm 0x38000, Imm 0x4000], Count, Syscall NR_lseek [Reg 0, Imm 0, Imm 1],
    Count, Syscall NR_lseek [Reg 0, Imm 0, Imm 2], Count, Syscall NR_lseek [Reg 0, Imm 0, Imm 0], Count,
    Syscall NR_lseek [Reg 0, Imm 0, Imm 1], Count, Syscall NR_lseek [Reg 0, Imm 0, Imm 2], Count,
    Syscall NR_lseek [Reg 0, Imm 0, Imm 0], Count, Syscall NR_fallocate [Reg 0, Imm 0, Imm 0x3c000, Imm 0x4000],
    Count, Syscall NR_lseek [Reg 0, Imm 0, Imm 1], Count, Syscall NR_lseek [Reg 0, Imm 0, Imm 2], Count,
    Syscall NR_lseek [Reg 0, Imm 0, Imm 0], Count, Syscall NR_lseek [Reg 0, Imm 0, Imm 1], Count,
    Syscall NR_lseek [Reg 0, Imm 0, Imm 2], Count, Syscall NR_lseek [Reg 0, Imm 0, Imm 0], Count]"

definition min_mysql_lseek_fallocate_113_0_body5 :: "stmt list" where
  "min_mysql_lseek_fallocate_113_0_body5 = [
    Syscall NR_fallocate [Reg 0, Imm 0, Imm 0x40000, Imm 0x4000], Count, Syscall NR_lseek [Reg 0, Imm 0, Imm 1],
    Count, Syscall NR_lseek [Reg 0, Imm 0, Imm 2], Count, Syscall NR_lseek [Reg 0, Imm 0, Imm 0], Count,
    Syscall NR_lseek [Reg 0, Imm 0, Imm 1], Count, Syscall NR_lseek [Reg 0, Imm 0, Imm 2], Count,
    Syscall NR_lseek [Reg 0, Imm 0, Imm 0], Count, Syscall NR_fallocate [Reg 0, Imm 0, Imm 0x44000, Imm 0x4000],
    Count, Syscall NR_lseek [Reg 0, Imm 0, Imm 1], Count, Syscall NR_lseek [Reg 0, Imm 0, Imm 2], Count,
    Syscall NR_lseek [Reg 0, Imm 0, Imm 0], Count, Syscall NR_lseek [Reg 0, Imm 0, Imm 1], Count,
    Syscall NR_lseek [Reg 0, Imm 0, Imm 2], Count, Syscall NR_lseek [Reg 0, Imm 0, Imm 0], Count,
    Syscall NR_fallocate [Reg 0, Imm 0, Imm 0x48000, Imm 0x4000], Count, Syscall NR_lseek [Reg 0, Imm 0, Imm 1],
    Count, Syscall NR_lseek [Reg 0, Imm 0, Imm 2], Count, Syscall NR_lseek [Reg 0, Imm 0, Imm 0], Count]"

definition min_mysql_lseek_fallocate_113_0_body6 :: "stmt list" where
  "min_mysql_lseek_fallocate_113_0_body6 = [
    Syscall NR_lseek [Reg 0, Imm 0, Imm 1], Count, Syscall NR_lseek [Reg 0, Imm 0, Imm 2], Count,
    Syscall NR_lseek [Reg 0, Imm 0, Imm 0], Count, Syscall NR_fallocate [Reg 0, Imm 0, Imm 0x4c000, Imm 0x4000],
    Count, Syscall NR_lseek [Reg 0, Imm 0, Imm 1], Count, Syscall NR_lseek [Reg 0, Imm 0, Imm 2], Count,
    Syscall NR_lseek [Reg 0, Imm 0, Imm 0], Count, Syscall NR_lseek [Reg 0, Imm 0, Imm 1], Count,
    Syscall NR_lseek [Reg 0, Imm 0, Imm 2], Count, Syscall NR_lseek [Reg 0, Imm 0, Imm 0], Count,
    Syscall NR_fallocate [Reg 0, Imm 0, Imm 0x50000, Imm 0x4000], Count, Syscall NR_lseek [Reg 0, Imm 0, Imm 1],
    Count, Syscall NR_lseek [Reg 0, Imm 0, Imm 2], Count, Syscall NR_lseek [Reg 0, Imm 0, Imm 0], Count,
    Syscall NR_lseek [Reg 0, Imm 0, Imm 1], Count, Syscall NR_lseek [Reg 0, Imm 0, Imm 2], Count,
    Syscall NR_lseek [Reg 0, Imm 0, Imm 0], Count, Syscall NR_fallocate [Reg 0, Imm 0, Imm 0x54000, Imm 0x4000],
    Count]"

definition min_mysql_lseek_fallocate_113_0_body7 :: "stmt list" where
  "min_mysql_lseek_fallocate_113_0_body7 = [
    Syscall NR_lseek [Reg 0, Imm 0, Imm 1], Count, Syscall NR_lseek [Reg 0, Imm 0, Imm 2], Count,
    Syscall NR_lseek [Reg 0, Imm 0, Imm 0], Count, Syscall NR_lseek [Reg 0, Imm 0, Imm 1], Count,
    Syscall NR_lseek [Reg 0, Imm 0, Imm 2], Count, Syscall NR_lseek [Reg 0, Imm 0, Imm 0], Count,
    Syscall NR_fallocate [Reg 0, Imm 0, Imm 0x58000, Imm 0x4000], Count, Syscall NR_lseek [Reg 0, Imm 0, Imm 1],
    Count, Syscall NR_lseek [Reg 0, Imm 0, Imm 2], Count, Syscall NR_lseek [Reg 0, Imm 0, Imm 0], Count,
    Syscall NR_fsync [Reg 0], Count, Syscall NR_fsync [Reg 0], Count, Syscall NR_fsync [Reg 0], Count,
    Syscall NR_fsync [Reg 0], Count, Syscall NR_fsync [Reg 0], Count, Syscall NR_fsync [Reg 0], Count]"

definition min_mysql_lseek_fallocate_113_0 :: syz_prog where
  "min_mysql_lseek_fallocate_113_0 = \<lparr>prog_name = ''min_mysql_lseek_fallocate_113_0'', prog_family = Mysql_v2,
     subdirs = [''sbtest''],
     filenames = [''./sbtest/sbtest13.ib''], filesizes = [376832],
     max_write_buffer = 0, init_regs = replicate 1 (- 1),
     reg_body = [], dereg_body = [],
     body = min_mysql_lseek_fallocate_113_0_body1 @ min_mysql_lseek_fallocate_113_0_body2 @
       min_mysql_lseek_fallocate_113_0_body3 @ min_mysql_lseek_fallocate_113_0_body4 @
       min_mysql_lseek_fallocate_113_0_body5 @ min_mysql_lseek_fallocate_113_0_body6 @
       min_mysql_lseek_fallocate_113_0_body7\<rparr>"

definition min_mysql_lseek_fallocate_113_0_target where
  "min_mysql_lseek_fallocate_113_0_target os_getenv os_inet_pton K = syz_target os_getenv os_inet_pton K min_mysql_lseek_fallocate_113_0"

lemmas min_mysql_lseek_fallocate_113_0_defs =
  min_mysql_lseek_fallocate_113_0_def min_mysql_lseek_fallocate_113_0_body1_def
  min_mysql_lseek_fallocate_113_0_body2_def min_mysql_lseek_fallocate_113_0_body3_def
  min_mysql_lseek_fallocate_113_0_body4_def min_mysql_lseek_fallocate_113_0_body5_def
  min_mysql_lseek_fallocate_113_0_body6_def min_mysql_lseek_fallocate_113_0_body7_def

lemma min_mysql_lseek_fallocate_113_0_ok: "prog_ok min_mysql_lseek_fallocate_113_0" "calls (body min_mysql_lseek_fallocate_113_0) = 121"
  by (simp_all add: prog_ok_def min_mysql_lseek_fallocate_113_0_defs prog_checks)

lemma min_mysql_lseek_fallocate_113_0_misses: "setup_misses min_mysql_lseek_fallocate_113_0" "filenames min_mysql_lseek_fallocate_113_0 \<noteq> []" "reg_body min_mysql_lseek_fallocate_113_0 = []" "num_regs min_mysql_lseek_fallocate_113_0 < 2 ^ 32"
  by (simp_all add: setup_misses_def opened_def misses_def path_names_def min_mysql_lseek_fallocate_113_0_defs prog_checks open_checks)

section \<open>min\_mysql\_lseek\_fallocate\_43\_0\<close>

definition min_mysql_lseek_fallocate_43_0_body1 :: "stmt list" where
  "min_mysql_lseek_fallocate_43_0_body1 = [
    Memcpy 0x209e31c0 (with_nul ''./sbtest/sbtest4.ibd'') 21,
    Syscall NR_openat [Dir_fd, Ptr 0x209e31c0, Imm 0x42, Imm 0x1ff], Count, Save_res 0,
    Syscall NR_fcntl [Reg 0, Imm 4, Imm 0x10000], Count, Store 2 0x209e3200 (Imm 1), Store 2 0x209e3202 (Imm 0),
    Store 8 0x209e3208 (Imm 0), Store 8 0x209e3210 (Imm 0), Store 4 0x209e3218 (Imm 0),
    Syscall NR_fcntl [Reg 0, Imm 6, Ptr 0x209e3200], Count, Syscall NR_lseek [Reg 0, Imm 0, Imm 1], Count,
    Syscall NR_lseek [Reg 0, Imm 0, Imm 2], Count, Syscall NR_lseek [Reg 0, Imm 0, Imm 0], Count,
    Syscall NR_fallocate [Reg 0, Imm 0, Imm 0x1c000, Imm 0x4000], Count, Syscall NR_lseek [Reg 0, Imm 0, Imm 1],
    Count, Syscall NR_lseek [Reg 0, Imm 0, Imm 2], Count, Syscall NR_lseek [Reg 0, Imm 0, Imm 0], Count,
    Syscall NR_lseek [Reg 0, Imm 0, Imm 1], Count, Syscall NR_lseek [Reg 0, Imm 0, Imm 2], Count,
    Syscall NR_lseek [Reg 0, Imm 0, Imm 0], Count, Syscall NR_fallocate [Reg 0, Imm 0, Imm 0x20000, Imm 0x4000],
    Count]"

definition min_mysql_lseek_fallocate_43_0_body2 :: "stmt list" where
  "min_mysql_lseek_fallocate_43_0_body2 = [
    Syscall NR_lseek [Reg 0, Imm 0, Imm 1], Count, Syscall NR_lseek [Reg 0, Imm 0, Imm 2], Count,
    Syscall NR_lseek [Reg 0, Imm 0, Imm 0], Count, Syscall NR_lseek [Reg 0, Imm 0, Imm 1], Count,
    Syscall NR_lseek [Reg 0, Imm 0, Imm 2], Count, Syscall NR_lseek [Reg 0, Imm 0, Imm 0], Count,
    Syscall NR_fallocate [Reg 0, Imm 0, Imm 0x24000, Imm 0x4000], Count, Syscall NR_lseek [Reg 0, Imm 0, Imm 1],
    Count, Syscall NR_lseek [Reg 0, Imm 0, Imm 2], Count, Syscall NR_lseek [Reg 0, Imm 0, Imm 0], Count,
    Syscall NR_lseek [Reg 0, Imm 0, Imm 1], Count, Syscall NR_lseek [Reg 0, Imm 0, Imm 2], Count,
    Syscall NR_lseek [Reg 0, Imm 0, Imm 0], Count, Syscall NR_fallocate [Reg 0, Imm 0, Imm 0x28000, Imm 0x4000],
    Count, Syscall NR_lseek [Reg 0, Imm 0, Imm 1], Count, Syscall NR_lseek [Reg 0, Imm 0, Imm 2], Count,
    Syscall NR_lseek [Reg 0, Imm 0, Imm 0], Count, Syscall NR_lseek [Reg 0, Imm 0, Imm 1], Count,
    Syscall NR_lseek [Reg 0, Imm 0, Imm 2], Count]"

definition min_mysql_lseek_fallocate_43_0_body3 :: "stmt list" where
  "min_mysql_lseek_fallocate_43_0_body3 = [
    Syscall NR_lseek [Reg 0, Imm 0, Imm 0], Count, Syscall NR_fallocate [Reg 0, Imm 0, Imm 0x2c000, Imm 0x4000],
    Count, Syscall NR_lseek [Reg 0, Imm 0, Imm 1], Count, Syscall NR_lseek [Reg 0, Imm 0, Imm 2], Count,
    Syscall NR_lseek [Reg 0, Imm 0, Imm 0], Count, Syscall NR_lseek [Reg 0, Imm 0, Imm 1], Count,
    Syscall NR_lseek [Reg 0, Imm 0, Imm 2], Count, Syscall NR_lseek [Reg 0, Imm 0, Imm 0], Count,
    Syscall NR_fallocate [Reg 0, Imm 0, Imm 0x30000, Imm 0x4000], Count, Syscall NR_lseek [Reg 0, Imm 0, Imm 1],
    Count, Syscall NR_lseek [Reg 0, Imm 0, Imm 2], Count, Syscall NR_lseek [Reg 0, Imm 0, Imm 0], Count,
    Syscall NR_lseek [Reg 0, Imm 0, Imm 1], Count, Syscall NR_lseek [Reg 0, Imm 0, Imm 2], Count,
    Syscall NR_lseek [Reg 0, Imm 0, Imm 0], Count, Syscall NR_fallocate [Reg 0, Imm 0, Imm 0x34000, Imm 0x4000],
    Count, Syscall NR_lseek [Reg 0, Imm 0, Imm 1], Count, Syscall NR_lseek [Reg 0, Imm 0, Imm 2], Count]"

definition min_mysql_lseek_fallocate_43_0_body4 :: "stmt list" where
  "min_mysql_lseek_fallocate_43_0_body4 = [
    Syscall NR_lseek [Reg 0, Imm 0, Imm 0], Count, Syscall NR_lseek [Reg 0, Imm 0, Imm 1], Count,
    Syscall NR_lseek [Reg 0, Imm 0, Imm 2], Count, Syscall NR_lseek [Reg 0, Imm 0, Imm 0], Count,
    Syscall NR_fallocate [Reg 0, Imm 0, Imm 0x38000, Imm 0x4000], Count, Syscall NR_lseek [Reg 0, Imm 0, Imm 1],
    Count, Syscall NR_lseek [Reg 0, Imm 0, Imm 2], Count, Syscall NR_lseek [Reg 0, Imm 0, Imm 0], Count,
    Syscall NR_lseek [Reg 0, Imm 0, Imm 1], Count, Syscall NR_lseek [Reg 0, Imm 0, Imm 2], Count,
    Syscall NR_lseek [Reg 0, Imm 0, Imm 0], Count, Syscall NR_fallocate [Reg 0, Imm 0, Imm 0x3c000, Imm 0x4000],
    Count, Syscall NR_lseek [Reg 0, Imm 0, Imm 1], Count, Syscall NR_lseek [Reg 0, Imm 0, Imm 2], Count,
    Syscall NR_lseek [Reg 0, Imm 0, Imm 0], Count, Syscall NR_lseek [Reg 0, Imm 0, Imm 1], Count,
    Syscall NR_lseek [Reg 0, Imm 0, Imm 2], Count, Syscall NR_lseek [Reg 0, Imm 0, Imm 0], Count]"

definition min_mysql_lseek_fallocate_43_0_body5 :: "stmt list" where
  "min_mysql_lseek_fallocate_43_0_body5 = [
    Syscall NR_fallocate [Reg 0, Imm 0, Imm 0x40000, Imm 0x4000], Count, Syscall NR_lseek [Reg 0, Imm 0, Imm 1],
    Count, Syscall NR_lseek [Reg 0, Imm 0, Imm 2], Count, Syscall NR_lseek [Reg 0, Imm 0, Imm 0], Count,
    Syscall NR_lseek [Reg 0, Imm 0, Imm 1], Count, Syscall NR_lseek [Reg 0, Imm 0, Imm 2], Count,
    Syscall NR_lseek [Reg 0, Imm 0, Imm 0], Count, Syscall NR_fallocate [Reg 0, Imm 0, Imm 0x44000, Imm 0x4000],
    Count, Syscall NR_lseek [Reg 0, Imm 0, Imm 1], Count, Syscall NR_lseek [Reg 0, Imm 0, Imm 2], Count,
    Syscall NR_lseek [Reg 0, Imm 0, Imm 0], Count, Syscall NR_lseek [Reg 0, Imm 0, Imm 1], Count,
    Syscall NR_lseek [Reg 0, Imm 0, Imm 2], Count, Syscall NR_lseek [Reg 0, Imm 0, Imm 0], Count,
    Syscall NR_fallocate [Reg 0, Imm 0, Imm 0x48000, Imm 0x4000], Count, Syscall NR_lseek [Reg 0, Imm 0, Imm 1],
    Count, Syscall NR_lseek [Reg 0, Imm 0, Imm 2], Count, Syscall NR_lseek [Reg 0, Imm 0, Imm 0], Count]"

definition min_mysql_lseek_fallocate_43_0_body6 :: "stmt list" where
  "min_mysql_lseek_fallocate_43_0_body6 = [
    Syscall NR_lseek [Reg 0, Imm 0, Imm 1], Count, Syscall NR_lseek [Reg 0, Imm 0, Imm 2], Count,
    Syscall NR_lseek [Reg 0, Imm 0, Imm 0], Count, Syscall NR_fallocate [Reg 0, Imm 0, Imm 0x4c000, Imm 0x4000],
    Count, Syscall NR_lseek [Reg 0, Imm 0, Imm 1], Count, Syscall NR_lseek [Reg 0, Imm 0, Imm 2], Count,
    Syscall NR_lseek [Reg 0, Imm 0, Imm 0], Count, Syscall NR_lseek [Reg 0, Imm 0, Imm 1], Count,
    Syscall NR_lseek [Reg 0, Imm 0, Imm 2], Count, Syscall NR_lseek [Reg 0, Imm 0, Imm 0], Count,
    Syscall NR_fallocate [Reg 0, Imm 0, Imm 0x50000, Imm 0x4000], Count, Syscall NR_lseek [Reg 0, Imm 0, Imm 1],
    Count, Syscall NR_lseek [Reg 0, Imm 0, Imm 2], Count, Syscall NR_lseek [Reg 0, Imm 0, Imm 0], Count,
    Syscall NR_lseek [Reg 0, Imm 0, Imm 1], Count, Syscall NR_lseek [Reg 0, Imm 0, Imm 2], Count,
    Syscall NR_lseek [Reg 0, Imm 0, Imm 0], Count, Syscall NR_fallocate [Reg 0, Imm 0, Imm 0x54000, Imm 0x4000],
    Count]"

definition min_mysql_lseek_fallocate_43_0_body7 :: "stmt list" where
  "min_mysql_lseek_fallocate_43_0_body7 = [
    Syscall NR_lseek [Reg 0, Imm 0, Imm 1], Count, Syscall NR_lseek [Reg 0, Imm 0, Imm 2], Count,
    Syscall NR_lseek [Reg 0, Imm 0, Imm 0], Count, Syscall NR_lseek [Reg 0, Imm 0, Imm 1], Count,
    Syscall NR_lseek [Reg 0, Imm 0, Imm 2], Count, Syscall NR_lseek [Reg 0, Imm 0, Imm 0], Count,
    Syscall NR_fallocate [Reg 0, Imm 0, Imm 0x58000, Imm 0x4000], Count, Syscall NR_lseek [Reg 0, Imm 0, Imm 1],
    Count, Syscall NR_lseek [Reg 0, Imm 0, Imm 2], Count, Syscall NR_lseek [Reg 0, Imm 0, Imm 0], Count,
    Syscall NR_fsync [Reg 0], Count, Syscall NR_fsync [Reg 0], Count, Syscall NR_fsync [Reg 0], Count,
    Syscall NR_fsync [Reg 0], Count, Syscall NR_fsync [Reg 0], Count, Syscall NR_fsync [Reg 0], Count,
    Syscall NR_fsync [Reg 0], Count]"

definition min_mysql_lseek_fallocate_43_0 :: syz_prog where
  "min_mysql_lseek_fallocate_43_0 = \<lparr>prog_name = ''min_mysql_lseek_fallocate_43_0'', prog_family = Mysql_v2,
     subdirs = [''sbtest''],
     filenames = [''./sbtest/sbtest4.ib''], filesizes = [376832],
     max_write_buffer = 0, init_regs = replicate 1 (- 1),
     reg_body = [], dereg_body = [],
     body = min_mysql_lseek_fallocate_43_0_body1 @ min_mysql_lseek_fallocate_43_0_body2 @
       min_mysql_lseek_fallocate_43_0_body3 @ min_mysql_lseek_fallocate_43_0_body4 @
       min_mysql_lseek_fallocate_43_0_body5 @ min_mysql_lseek_fallocate_43_0_body6 @
       min_mysql_lseek_fallocate_43_0_body7\<rparr>"

definition min_mysql_lseek_fallocate_43_0_target where
  "min_mysql_lseek_fallocate_43_0_target os_getenv os_inet_pton K = syz_target os_getenv os_inet_pton K min_mysql_lseek_fallocate_43_0"

lemmas min_mysql_lseek_fallocate_43_0_defs =
  min_mysql_lseek_fallocate_43_0_def min_mysql_lseek_fallocate_43_0_body1_def
  min_mysql_lseek_fallocate_43_0_body2_def min_mysql_lseek_fallocate_43_0_body3_def
  min_mysql_lseek_fallocate_43_0_body4_def min_mysql_lseek_fallocate_43_0_body5_def
  min_mysql_lseek_fallocate_43_0_body6_def min_mysql_lseek_fallocate_43_0_body7_def

lemma min_mysql_lseek_fallocate_43_0_ok: "prog_ok min_mysql_lseek_fallocate_43_0" "calls (body min_mysql_lseek_fallocate_43_0) = 122"
  by (simp_all add: prog_ok_def min_mysql_lseek_fallocate_43_0_defs prog_checks)

lemma min_mysql_lseek_fallocate_43_0_misses: "setup_misses min_mysql_lseek_fallocate_43_0" "filenames min_mysql_lseek_fallocate_43_0 \<noteq> []" "reg_body min_mysql_lseek_fallocate_43_0 = []" "num_regs min_mysql_lseek_fallocate_43_0 < 2 ^ 32"
  by (simp_all add: setup_misses_def opened_def misses_def path_names_def min_mysql_lseek_fallocate_43_0_defs prog_checks open_checks)

section \<open>min\_mysql\_lseek\_pwrite64\_0\_0\<close>

definition min_mysql_lseek_pwrite64_0_0_body1 :: "stmt list" where
  "min_mysql_lseek_pwrite64_0_0_body1 = [
    Memcpy 0x203c3080 (with_nul ''./sbtest/sbtest1.ibd'') 21,
    Syscall NR_newfstatat [Dir_fd, Ptr 0x203c3080, Ptr 0x203c30c0, Imm 0], Count,
    Memcpy 0x203c4a00 (with_nul ''./sbtest/sbtest1.ibd'') 21,
    Syscall NR_openat [Dir_fd, Ptr 0x203c4a00, Imm 0x42, Imm 0x1ff], Count, Save_res 0,
    Syscall NR_fcntl [Reg 0, Imm 4, Imm 0x10000], Count, Store 2 0x203c4a40 (Imm 1), Store 2 0x203c4a42 (Imm 0),
    Store 8 0x203c4a48 (Imm 0), Store 8 0x203c4a50 (Imm 0), Store 4 0x203c4a58 (Imm 0),
    Syscall NR_fcntl [Reg 0, Imm 6, Ptr 0x203c4a40], Count,
    Syscall NR_fallocate [Reg 0, Imm 0, Imm 0, Imm 0x1c000], Count,
    Syscall NR_ioctl [Reg 0, Imm 0x40049502, Ptr 0x203c4dc0], Count,
    Syscall NR_pwrite64 [Reg 0, Write_buf, Imm 0x1c000, Imm 0], Count, Syscall NR_fsync [Reg 0], Count,
    Syscall NR_pwrite64 [Reg 0, Write_buf, Imm 0x1c000, Imm 0], Count]"

definition min_mysql_lseek_pwrite64_0_0_body2 :: "stmt list" where
  "min_mysql_lseek_pwrite64_0_0_body2 = [
    Syscall NR_fallocate [Reg 0, Imm 3, Imm 0, Imm 0x4000], Count,
    Syscall NR_pwrite64 [Reg 0, Write_buf, Imm 0x4000, Imm 0], Count, Syscall NR_fsync [Reg 0], Count,
    Memcpy 0x20408dc0 (with_nul ''./sbtest/sbtest1.ibd'') 21,
    Syscall NR_newfstatat [Dir_fd, Ptr 0x20408dc0, Ptr 0x20408e00, Imm 0], Count, Syscall NR_close [Reg 0],
    Count, Memcpy 0x2049d700 (with_nul ''./sbtest/sbtest1.ibd'') 21,
    Syscall NR_openat [Dir_fd, Ptr 0x2049d700, Imm 0x42, Imm 0x1ff], Count, Save_res 1,
    Syscall NR_fcntl [Reg 1, Imm 4, Imm 0x10000], Count, Store 2 0x2049d940 (Imm 1), Store 2 0x2049d942 (Imm 0),
    Store 8 0x2049d948 (Imm 0), Store 8 0x2049d950 (Imm 0), Store 4 0x2049d958 (Imm 0),
    Syscall NR_fcntl [Reg 1, Imm 6, Ptr 0x2049d940], Count, Syscall NR_lseek [Reg 1, Imm 0, Imm 1], Count,
    Syscall NR_lseek [Reg 1, Imm 0, Imm 2], Count, Syscall NR_lseek [Reg 1, Imm 0, Imm 0], Count]"

definition min_mysql_lseek_pwrite64_0_0_body3 :: "stmt list" where
  "min_mysql_lseek_pwrite64_0_0_body3 = [
    Syscall NR_fallocate [Reg 1, Imm 0, Imm 0x1c000, Imm 0x4000], Count,
    Syscall NR_pwrite64 [Reg 1, Write_buf, Imm 0x4000, Imm 0x1c000], Count,
    Syscall NR_lseek [Reg 1, Imm 0, Imm 1], Count, Syscall NR_lseek [Reg 1, Imm 0, Imm 2], Count,
    Syscall NR_lseek [Reg 1, Imm 0, Imm 0], Count, Syscall NR_fsync [Reg 1], Count,
    Syscall NR_lseek [Reg 1, Imm 0, Imm 1], Count, Syscall NR_lseek [Reg 1, Imm 0, Imm 2], Count,
    Syscall NR_lseek [Reg 1, Imm 0, Imm 0], Count, Syscall NR_fallocate [Reg 1, Imm 0, Imm 0x20000, Imm 0x4000],
    Count, Syscall NR_pwrite64 [Reg 1, Write_buf, Imm 0x4000, Imm 0x20000], Count,
    Syscall NR_lseek [Reg 1, Imm 0, Imm 1], Count, Syscall NR_lseek [Reg 1, Imm 0, Imm 2], Count,
    Syscall NR_lseek [Reg 1, Imm 0, Imm 0], Count, Syscall NR_fsync [Reg 1], Count,
    Syscall NR_lseek [Reg 1, Imm 0, Imm 1], Count, Syscall NR_lseek [Reg 1, Imm 0, Imm 2], Count,
    Syscall NR_lseek [Reg 1, Imm 0, Imm 0], Count]"

definition min_mysql_lseek_pwrite64_0_0_body4 :: "stmt list" where
  "min_mysql_lseek_pwrite64_0_0_body4 = [
    Syscall NR_fallocate [Reg 1, Imm 0, Imm 0x24000, Imm 0x4000], Count,
    Syscall NR_pwrite64 [Reg 1, Write_buf, Imm 0x4000, Imm 0x24000], Count,
    Syscall NR_lseek [Reg 1, Imm 0, Imm 1], Count, Syscall NR_lseek [Reg 1, Imm 0, Imm 2], Count,
    Syscall NR_lseek [Reg 1, Imm 0, Imm 0], Count, Syscall NR_fsync [Reg 1], Count,
    Syscall NR_lseek [Reg 1, Imm 0, Imm 1], Count, Syscall NR_lseek [Reg 1, Imm 0, Imm 2], Count,
    Syscall NR_lseek [Reg 1, Imm 0, Imm 0], Count, Syscall NR_fallocate [Reg 1, Imm 0, Imm 0x28000, Imm 0x4000],
    Count, Syscall NR_pwrite64 [Reg 1, Write_buf, Imm 0x4000, Imm 0x28000], Count,
    Syscall NR_lseek [Reg 1, Imm 0, Imm 1], Count, Syscall NR_lseek [Reg 1, Imm 0, Imm 2], Count,
    Syscall NR_lseek [Reg 1, Imm 0, Imm 0], Count, Syscall NR_fsync [Reg 1], Count,
    Syscall NR_lseek [Reg 1, Imm 0, Imm 1], Count, Syscall NR_lseek [Reg 1, Imm 0, Imm 2], Count,
    Syscall NR_lseek [Reg 1, Imm 0, Imm 0], Count]"

definition min_mysql_lseek_pwrite64_0_0_body5 :: "stmt list" where
  "min_mysql_lseek_pwrite64_0_0_body5 = [
    Syscall NR_fallocate [Reg 1, Imm 0, Imm 0x2c000, Imm 0x4000], Count,
    Syscall NR_pwrite64 [Reg 1, Write_buf, Imm 0x4000, Imm 0x2c000], Count,
    Syscall NR_lseek [Reg 1, Imm 0, Imm 1], Count, Syscall NR_lseek [Reg 1, Imm 0, Imm 2], Count,
    Syscall NR_lseek [Reg 1, Imm 0, Imm 0], Count, Syscall NR_fsync [Reg 1], Count,
    Syscall NR_lseek [Reg 1, Imm 0, Imm 1], Count, Syscall NR_lseek [Reg 1, Imm 0, Imm 2], Count,
    Syscall NR_lseek [Reg 1, Imm 0, Imm 0], Count, Syscall NR_fallocate [Reg 1, Imm 0, Imm 0x30000, Imm 0x4000],
    Count, Syscall NR_pwrite64 [Reg 1, Write_buf, Imm 0x4000, Imm 0x30000], Count,
    Syscall NR_lseek [Reg 1, Imm 0, Imm 1], Count, Syscall NR_lseek [Reg 1, Imm 0, Imm 2], Count,
    Syscall NR_lseek [Reg 1, Imm 0, Imm 0], Count, Syscall NR_fsync [Reg 1], Count,
    Syscall NR_lseek [Reg 1, Imm 0, Imm 1], Count, Syscall NR_lseek [Reg 1, Imm 0, Imm 2], Count,
    Syscall NR_lseek [Reg 1, Imm 0, Imm 0], Count]"

definition min_mysql_lseek_pwrite64_0_0_body6 :: "stmt list" where
  "min_mysql_lseek_pwrite64_0_0_body6 = [
    Syscall NR_fallocate [Reg 1, Imm 0, Imm 0x34000, Imm 0x4000], Count,
    Syscall NR_pwrite64 [Reg 1, Write_buf, Imm 0x4000, Imm 0x34000], Count,
    Syscall NR_lseek [Reg 1, Imm 0, Imm 1], Count, Syscall NR_lseek [Reg 1, Imm 0, Imm 2], Count,
    Syscall NR_lseek [Reg 1, Imm 0, Imm 0], Count, Syscall NR_fsync [Reg 1], Count,
    Syscall NR_lseek [Reg 1, Imm 0, Imm 1], Count, Syscall NR_lseek [Reg 1, Imm 0, Imm 2], Count,
    Syscall NR_lseek [Reg 1, Imm 0, Imm 0], Count, Syscall NR_fallocate [Reg 1, Imm 0, Imm 0x38000, Imm 0x4000],
    Count, Syscall NR_pwrite64 [Reg 1, Write_buf, Imm 0x4000, Imm 0x38000], Count,
    Syscall NR_lseek [Reg 1, Imm 0, Imm 1], Count, Syscall NR_lseek [Reg 1, Imm 0, Imm 2], Count,
    Syscall NR_lseek [Reg 1, Imm 0, Imm 0], Count, Syscall NR_fsync [Reg 1], Count,
    Syscall NR_lseek [Reg 1, Imm 0, Imm 1], Count, Syscall NR_lseek [Reg 1, Imm 0, Imm 2], Count,
    Syscall NR_lseek [Reg 1, Imm 0, Imm 0], Count]"

definition min_mysql_lseek_pwrite64_0_0_body7 :: "stmt list" where
  "min_mysql_lseek_pwrite64_0_0_body7 = [
    Syscall NR_fallocate [Reg 1, Imm 0, Imm 0x3c000, Imm 0x4000], Count,
    Syscall NR_pwrite64 [Reg 1, Write_buf, Imm 0x4000, Imm 0x3c000], Count,
    Syscall NR_lseek [Reg 1, Imm 0, Imm 1], Count, Syscall NR_lseek [Reg 1, Imm 0, Imm 2], Count,
    Syscall NR_lseek [Reg 1, Imm 0, Imm 0], Count, Syscall NR_fsync [Reg 1], Count,
    Syscall NR_lseek [Reg 1, Imm 0, Imm 1], Count, Syscall NR_lseek [Reg 1, Imm 0, Imm 2], Count,
    Syscall NR_lseek [Reg 1, Imm 0, Imm 0], Count, Syscall NR_fallocate [Reg 1, Imm 0, Imm 0x40000, Imm 0x4000],
    Count, Syscall NR_pwrite64 [Reg 1, Write_buf, Imm 0x4000, Imm 0x40000], Count,
    Syscall NR_lseek [Reg 1, Imm 0, Imm 1], Count, Syscall NR_lseek [Reg 1, Imm 0, Imm 2], Count,
    Syscall NR_lseek [Reg 1, Imm 0, Imm 0], Count, Syscall NR_fsync [Reg 1], Count,
    Syscall NR_lseek [Reg 1, Imm 0, Imm 1], Count, Syscall NR_lseek [Reg 1, Imm 0, Imm 2], Count,
    Syscall NR_lseek [Reg 1, Imm 0, Imm 0], Count]"

definition min_mysql_lseek_pwrite64_0_0_body8 :: "stmt list" where
  "min_mysql_lseek_pwrite64_0_0_body8 = [
    Syscall NR_fallocate [Reg 1, Imm 0, Imm 0x44000, Imm 0x4000], Count,
    Syscall NR_pwrite64 [Reg 1, Write_buf, Imm 0x4000, Imm 0x44000], Count,
    Syscall NR_lseek [Reg 1, Imm 0, Imm 1], Count, Syscall NR_lseek [Reg 1, Imm 0, Imm 2], Count,
    Syscall NR_lseek [Reg 1, Imm 0, Imm 0], Count, Syscall NR_fsync [Reg 1], Count,
    Syscall NR_lseek [Reg 1, Imm 0, Imm 1], Count, Syscall NR_lseek [Reg 1, Imm 0, Imm 2], Count,
    Syscall NR_lseek [Reg 1, Imm 0, Imm 0], Count, Syscall NR_fallocate [Reg 1, Imm 0, Imm 0x48000, Imm 0x4000],
    Count, Syscall NR_pwrite64 [Reg 1, Write_buf, Imm 0x4000, Imm 0x48000], Count,
    Syscall NR_lseek [Reg 1, Imm 0, Imm 1], Count, Syscall NR_lseek [Reg 1, Imm 0, Imm 2], Count,
    Syscall NR_lseek [Reg 1, Imm 0, Imm 0], Count, Syscall NR_fsync [Reg 1], Count,
    Syscall NR_lseek [Reg 1, Imm 0, Imm 1], Count, Syscall NR_lseek [Reg 1, Imm 0, Imm 2], Count,
    Syscall NR_lseek [Reg 1, Imm 0, Imm 0], Count]"

definition min_mysql_lseek_pwrite64_0_0_body9 :: "stmt list" where
  "min_mysql_lseek_pwrite64_0_0_body9 = [
    Syscall NR_fallocate [Reg 1, Imm 0, Imm 0x4c000, Imm 0x4000], Count,
    Syscall NR_pwrite64 [Reg 1, Write_buf, Imm 0x4000, Imm 0x4c000], Count,
    Syscall NR_lseek [Reg 1, Imm 0, Imm 1], Count, Syscall NR_lseek [Reg 1, Imm 0, Imm 2], Count,
    Syscall NR_lseek [Reg 1, Imm 0, Imm 0], Count, Syscall NR_fsync [Reg 1], Count,
    Syscall NR_lseek [Reg 1, Imm 0, Imm 1], Count, Syscall NR_lseek [Reg 1, Imm 0, Imm 2], Count,
    Syscall NR_lseek [Reg 1, Imm 0, Imm 0], Count, Syscall NR_fallocate [Reg 1, Imm 0, Imm 0x50000, Imm 0x4000],
    Count, Syscall NR_pwrite64 [Reg 1, Write_buf, Imm 0x4000, Imm 0x50000], Count,
    Syscall NR_lseek [Reg 1, Imm 0, Imm 1], Count, Syscall NR_lseek [Reg 1, Imm 0, Imm 2], Count,
    Syscall NR_lseek [Reg 1, Imm 0, Imm 0], Count, Syscall NR_fsync [Reg 1], Count,
    Syscall NR_lseek [Reg 1, Imm 0, Imm 1], Count, Syscall NR_lseek [Reg 1, Imm 0, Imm 2], Count,
    Syscall NR_lseek [Reg 1, Imm 0, Imm 0], Count]"

definition min_mysql_lseek_pwrite64_0_0_body10 :: "stmt list" where
  "min_mysql_lseek_pwrite64_0_0_body10 = [
    Syscall NR_fallocate [Reg 1, Imm 0, Imm 0x54000, Imm 0x4000], Count,
    Syscall NR_pwrite64 [Reg 1, Write_buf, Imm 0x4000, Imm 0x54000], Count,
    Syscall NR_lseek [Reg 1, Imm 0, Imm 1], Count, Syscall NR_lseek [Reg 1, Imm 0, Imm 2], Count,
    Syscall NR_lseek [Reg 1, Imm 0, Imm 0], Count, Syscall NR_fsync [Reg 1], Count,
    Syscall NR_lseek [Reg 1, Imm 0, Imm 1], Count, Syscall NR_lseek [Reg 1, Imm 0, Imm 2], Count,
    Syscall NR_lseek [Reg 1, Imm 0, Imm 0], Count, Syscall NR_fallocate [Reg 1, Imm 0, Imm 0x58000, Imm 0x4000],
    Count, Syscall NR_pwrite64 [Reg 1, Write_buf, Imm 0x4000, Imm 0x58000], Count,
    Syscall NR_lseek [Reg 1, Imm 0, Imm 1], Count, Syscall NR_lseek [Reg 1, Imm 0, Imm 2], Count,
    Syscall NR_lseek [Reg 1, Imm 0, Imm 0], Count, Syscall NR_fsync [Reg 1], Count,
    Syscall NR_pread64 [Reg 1, Ptr 0x20725cc0, Imm 0x4000, Imm 0x50000], Count]"

definition min_mysql_lseek_pwrite64_0_0 :: syz_prog where
  "min_mysql_lseek_pwrite64_0_0 = \<lparr>prog_name = ''min_mysql_lseek_pwrite64_0_0'', prog_family = Mysql_v2,
     subdirs = [''sbtest''],
     filenames = [''./sbtest/sbtest1.ib''], filesizes = [376832],
     max_write_buffer = 114688, init_regs = replicate 2 (- 1),
     reg_body = [], dereg_body = [],
     body = min_mysql_lseek_pwrite64_0_0_body1 @ min_mysql_lseek_pwrite64_0_0_body2 @
       min_mysql_lseek_pwrite64_0_0_body3 @ min_mysql_lseek_pwrite64_0_0_body4 @
       min_mysql_lseek_pwrite64_0_0_body5 @ min_mysql_lseek_pwrite64_0_0_body6 @
       min_mysql_lseek_pwrite64_0_0_body7 @ min_mysql_lseek_pwrite64_0_0_body8 @
       min_mysql_lseek_pwrite64_0_0_body9 @ min_mysql_lseek_pwrite64_0_0_body10\<rparr>"

definition min_mysql_lseek_pwrite64_0_0_target where
  "min_mysql_lseek_pwrite64_0_0_target os_getenv os_inet_pton K = syz_target os_getenv os_inet_pton K min_mysql_lseek_pwrite64_0_0"

lemmas min_mysql_lseek_pwrite64_0_0_defs =
  min_mysql_lseek_pwrite64_0_0_def min_mysql_lseek_pwrite64_0_0_body1_def
  min_mysql_lseek_pwrite64_0_0_body2_def min_mysql_lseek_pwrite64_0_0_body3_def
  min_mysql_lseek_pwrite64_0_0_body4_def min_mysql_lseek_pwrite64_0_0_body5_def
  min_mysql_lseek_pwrite64_0_0_body6_def min_mysql_lseek_pwrite64_0_0_body7_def
  min_mysql_lseek_pwrite64_0_0_body8_def min_mysql_lseek_pwrite64_0_0_body9_def
  min_mysql_lseek_pwrite64_0_0_body10_def

lemma min_mysql_lseek_pwrite64_0_0_ok: "prog_ok min_mysql_lseek_pwrite64_0_0" "calls (body min_mysql_lseek_pwrite64_0_0) = 162"
  by (simp_all add: prog_ok_def min_mysql_lseek_pwrite64_0_0_defs prog_checks)

lemma min_mysql_lseek_pwrite64_0_0_misses: "setup_misses min_mysql_lseek_pwrite64_0_0" "filenames min_mysql_lseek_pwrite64_0_0 \<noteq> []" "reg_body min_mysql_lseek_pwrite64_0_0 = []" "num_regs min_mysql_lseek_pwrite64_0_0 < 2 ^ 32"
  by (simp_all add: setup_misses_def opened_def misses_def path_names_def min_mysql_lseek_pwrite64_0_0_defs prog_checks open_checks)

end
