(* ===== verification/CSB_Progs_Mysql_v2g.thy ===== *)
theory CSB_Progs_Mysql_v2g
  imports CSB_Syz_Files
begin

text \<open>
  Bodies of generated targets of bench/targets/mysql\_v2, statement by statement in the order of the
  files syz/<name>.h, and the targets made of them (the files <name>.h). Each passes the check.
\<close>

section \<open>min\_mysql\_lseek\_pwrite64\_13\_0\<close>

definition min_mysql_lseek_pwrite64_13_0_body1 :: "stmt list" where
  "min_mysql_lseek_pwrite64_13_0_body1 = [
    Memcpy 0x204e9f00 (with_nul ''./sbtest/sbtest14.ibd'') 22,
    Syscall NR_newfstatat [Dir_fd, Ptr 0x204e9f00, Ptr 0x204e9f40, Imm 0], Count,
    Memcpy 0x204ecf00 (with_nul ''./sbtest/sbtest14.ibd'') 22,
    Syscall NR_openat [Dir_fd, Ptr 0x204ecf00, Imm 0x42, Imm 0x1ff], Count, Save_res 0,
    Syscall NR_fcntl [Reg 0, Imm 4, Imm 0x10000], Count, Store 2 0x204ecf40 (Imm 1), Store 2 0x204ecf42 (Imm 0),
    Store 8 0x204ecf48 (Imm 0), Store 8 0x204ecf50 (Imm 0), Store 4 0x204ecf58 (Imm 0),
    Syscall NR_fcntl [Reg 0, Imm 6, Ptr 0x204ecf40], Count,
    Syscall NR_fallocate [Reg 0, Imm 0, Imm 0, Imm 0x1c000], Count,
    Syscall NR_ioctl [Reg 0, Imm 0x40049502, Ptr 0x204ed2c0], Count,
    Syscall NR_pwrite64 [Reg 0, Write_buf, Imm 0x1c000, Imm 0], Count, Syscall NR_fsync [Reg 0], Count,
    Syscall NR_pwrite64 [Reg 0, Write_buf, Imm 0x1c000, Imm 0], Count]"

definition min_mysql_lseek_pwrite64_13_0_body2 :: "stmt list" where
  "min_mysql_lseek_pwrite64_13_0_body2 = [
    Syscall NR_fallocate [Reg 0, Imm 3, Imm 0, Imm 0x4000], Count,
    Syscall NR_pwrite64 [Reg 0, Write_buf, Imm 0x4000, Imm 0], Count, Syscall NR_fsync [Reg 0], Count,
    Memcpy 0x205314c0 (with_nul ''./sbtest/sbtest14.ibd'') 22,
    Syscall NR_newfstatat [Dir_fd, Ptr 0x205314c0, Ptr 0x20531500, Imm 0], Count, Syscall NR_close [Reg 0],
    Count, Memcpy 0x20557540 (with_nul ''./sbtest/sbtest14.ibd'') 22,
    Syscall NR_openat [Dir_fd, Ptr 0x20557540, Imm 0x42, Imm 0x1ff], Count, Save_res 1,
    Syscall NR_fcntl [Reg 1, Imm 4, Imm 0x10000], Count, Store 2 0x20557580 (Imm 1), Store 2 0x20557582 (Imm 0),
    Store 8 0x20557588 (Imm 0), Store 8 0x20557590 (Imm 0), Store 4 0x20557598 (Imm 0),
    Syscall NR_fcntl [Reg 1, Imm 6, Ptr 0x20557580], Count, Syscall NR_lseek [Reg 1, Imm 0, Imm 1], Count,
    Syscall NR_lseek [Reg 1, Imm 0, Imm 2], Count, Syscall NR_lseek [Reg 1, Imm 0, Imm 0], Count]"

definition min_mysql_lseek_pwrite64_13_0_body3 :: "stmt list" where
  "min_mysql_lseek_pwrite64_13_0_body3 = [
    Syscall NR_fallocate [Reg 1, Imm 0, Imm 0x1c000, Imm 0x4000], Count,
    Syscall NR_pwrite64 [Reg 1, Write_buf, Imm 0x4000, Imm 0x1c000], Count,
    Syscall NR_lseek [Reg 1, Imm 0, Imm 1], Count, Syscall NR_lseek [Reg 1, Imm 0, Imm 2], Count,
    Syscall NR_lseek [Reg 1, Imm 0, Imm 0], Count, Syscall NR_fsync [Reg 1], Count,
    Syscall NR_lseek [Reg 1, Imm 0, Imm 1], Count, Syscall NR_lseek [Reg 1, Imm 0, Imm 2], Count,
    Syscall NR_lseek [Reg 1, Imm 0, Imm 0], Count, Syscall NR_fallocate [Reg 1, Imm 0, Imm 0x20000, Imm 0x4000],
    Count, Syscall NR_pwrite64 [Reg 1, Write_buf, Imm 0x4000, Imm 0x20000], Count,
    Syscall NR_lseek [Reg 1, Imm 0, Imm 1], Count, Syscall NR_lseek [Reg 1, Imm 0, Imm 2], Count,
    Syscall NR_lseek [Reg 1, Imm 0, Imm 0], Count, Syscall NR_fsync [Reg 1], Count,
    Syscall NR_lseek [Reg 1, Imm 0, Imm 1], Count, Syscall NR_lseek [Reg 1, Imm 0, Imm 2], Count,
    Syscall NR_lseek [Reg 1, Imm 0, Imm 0], Count]"

definition min_mysql_lseek_pwrite64_13_0_body4 :: "stmt list" where
  "min_mysql_lseek_pwrite64_13_0_body4 = [
    Syscall NR_fallocate [Reg 1, Imm 0, Imm 0x24000, Imm 0x4000], Count,
    Syscall NR_pwrite64 [Reg 1, Write_buf, Imm 0x4000, Imm 0x24000], Count,
    Syscall NR_lseek [Reg 1, Imm 0, Imm 1], Count, Syscall NR_lseek [Reg 1, Imm 0, Imm 2], Count,
    Syscall NR_lseek [Reg 1, Imm 0, Imm 0], Count, Syscall NR_fsync [Reg 1], Count,
    Syscall NR_lseek [Reg 1, Imm 0, Imm 1], Count, Syscall NR_lseek [Reg 1, Imm 0, Imm 2], Count,
    Syscall NR_lseek [Reg 1, Imm 0, Imm 0], Count, Syscall NR_fallocate [Reg 1, Imm 0, Imm 0x28000, Imm 0x4000],
    Count, Syscall NR_pwrite64 [Reg 1, Write_buf, Imm 0x4000, Imm 0x28000], Count,
    Syscall NR_lseek [Reg 1, Imm 0, Imm 1], Count, Syscall NR_lseek [Reg 1, Imm 0, Imm 2], Count,
    Syscall NR_lseek [Reg 1, Imm 0, Imm 0], Count, Syscall NR_fsync [Reg 1], Count,
    Syscall NR_lseek [Reg 1, Imm 0, Imm 1], Count, Syscall NR_lseek [Reg 1, Imm 0, Imm 2], Count,
    Syscall NR_lseek [Reg 1, Imm 0, Imm 0], Count]"

definition min_mysql_lseek_pwrite64_13_0_body5 :: "stmt list" where
  "min_mysql_lseek_pwrite64_13_0_body5 = [
    Syscall NR_fallocate [Reg 1, Imm 0, Imm 0x2c000, Imm 0x4000], Count,
    Syscall NR_pwrite64 [Reg 1, Write_buf, Imm 0x4000, Imm 0x2c000], Count,
    Syscall NR_lseek [Reg 1, Imm 0, Imm 1], Count, Syscall NR_lseek [Reg 1, Imm 0, Imm 2], Count,
    Syscall NR_lseek [Reg 1, Imm 0, Imm 0], Count, Syscall NR_fsync [Reg 1], Count,
    Syscall NR_lseek [Reg 1, Imm 0, Imm 1], Count, Syscall NR_lseek [Reg 1, Imm 0, Imm 2], Count,
    Syscall NR_lseek [Reg 1, Imm 0, Imm 0], Count, Syscall NR_fallocate [Reg 1, Imm 0, Imm 0x30000, Imm 0x4000],
    Count, Syscall NR_pwrite64 [Reg 1, Write_buf, Imm 0x4000, Imm 0x30000], Count,
    Syscall NR_lseek [Reg 1, Imm 0, Imm 1], Count, Syscall NR_lseek [Reg 1, Imm 0, Imm 2], Count,
    Syscall NR_lseek [Reg 1, Imm 0, Imm 0], Count, Syscall NR_fsync [Reg 1], Count,
    Syscall NR_lseek [Reg 1, Imm 0, Imm 1], Count, Syscall NR_lseek [Reg 1, Imm 0, Imm 2], Count,
    Syscall NR_lseek [Reg 1, Imm 0, Imm 0], Count]"

definition min_mysql_lseek_pwrite64_13_0_body6 :: "stmt list" where
  "min_mysql_lseek_pwrite64_13_0_body6 = [
    Syscall NR_fallocate [Reg 1, Imm 0, Imm 0x34000, Imm 0x4000], Count,
    Syscall NR_pwrite64 [Reg 1, Write_buf, Imm 0x4000, Imm 0x34000], Count,
    Syscall NR_lseek [Reg 1, Imm 0, Imm 1], Count, Syscall NR_lseek [Reg 1, Imm 0, Imm 2], Count,
    Syscall NR_lseek [Reg 1, Imm 0, Imm 0], Count, Syscall NR_fsync [Reg 1], Count,
    Syscall NR_lseek [Reg 1, Imm 0, Imm 1], Count, Syscall NR_lseek [Reg 1, Imm 0, Imm 2], Count,
    Syscall NR_lseek [Reg 1, Imm 0, Imm 0], Count, Syscall NR_fallocate [Reg 1, Imm 0, Imm 0x38000, Imm 0x4000],
    Count, Syscall NR_pwrite64 [Reg 1, Write_buf, Imm 0x4000, Imm 0x38000], Count,
    Syscall NR_lseek [Reg 1, Imm 0, Imm 1], Count, Syscall NR_lseek [Reg 1, Imm 0, Imm 2], Count,
    Syscall NR_lseek [Reg 1, Imm 0, Imm 0], Count, Syscall NR_fsync [Reg 1], Count,
    Syscall NR_lseek [Reg 1, Imm 0, Imm 1], Count, Syscall NR_lseek [Reg 1, Imm 0, Imm 2], Count,
    Syscall NR_lseek [Reg 1, Imm 0, Imm 0], Count]"

definition min_mysql_lseek_pwrite64_13_0_body7 :: "stmt list" where
  "min_mysql_lseek_pwrite64_13_0_body7 = [
    Syscall NR_fallocate [Reg 1, Imm 0, Imm 0x3c000, Imm 0x4000], Count,
    Syscall NR_pwrite64 [Reg 1, Write_buf, Imm 0x4000, Imm 0x3c000], Count,
    Syscall NR_lseek [Reg 1, Imm 0, Imm 1], Count, Syscall NR_lseek [Reg 1, Imm 0, Imm 2], Count,
    Syscall NR_lseek [Reg 1, Imm 0, Imm 0], Count, Syscall NR_fsync [Reg 1], Count,
    Syscall NR_lseek [Reg 1, Imm 0, Imm 1], Count, Syscall NR_lseek [Reg 1, Imm 0, Imm 2], Count,
    Syscall NR_lseek [Reg 1, Imm 0, Imm 0], Count, Syscall NR_fallocate [Reg 1, Imm 0, Imm 0x40000, Imm 0x4000],
    Count, Syscall NR_pwrite64 [Reg 1, Write_buf, Imm 0x4000, Imm 0x40000], Count,
    Syscall NR_lseek [Reg 1, Imm 0, Imm 1], Count, Syscall NR_lseek [Reg 1, Imm 0, Imm 2], Count,
    Syscall NR_lseek [Reg 1, Imm 0, Imm 0], Count, Syscall NR_fsync [Reg 1], Count,
    Syscall NR_lseek [Reg 1, Imm 0, Imm 1], Count, Syscall NR_lseek [Reg 1, Imm 0, Imm 2], Count,
    Syscall NR_lseek [Reg 1, Imm 0, Imm 0], Count]"

definition min_mysql_lseek_pwrite64_13_0_body8 :: "stmt list" where
  "min_mysql_lseek_pwrite64_13_0_body8 = [
    Syscall NR_fallocate [Reg 1, Imm 0, Imm 0x44000, Imm 0x4000], Count,
    Syscall NR_pwrite64 [Reg 1, Write_buf, Imm 0x4000, Imm 0x44000], Count,
    Syscall NR_lseek [Reg 1, Imm 0, Imm 1], Count, Syscall NR_lseek [Reg 1, Imm 0, Imm 2], Count,
    Syscall NR_lseek [Reg 1, Imm 0, Imm 0], Count, Syscall NR_fsync [Reg 1], Count,
    Syscall NR_lseek [Reg 1, Imm 0, Imm 1], Count, Syscall NR_lseek [Reg 1, Imm 0, Imm 2], Count,
    Syscall NR_lseek [Reg 1, Imm 0, Imm 0], Count, Syscall NR_fallocate [Reg 1, Imm 0, Imm 0x48000, Imm 0x4000],
    Count, Syscall NR_pwrite64 [Reg 1, Write_buf, Imm 0x4000, Imm 0x48000], Count,
    Syscall NR_lseek [Reg 1, Imm 0, Imm 1], Count, Syscall NR_lseek [Reg 1, Imm 0, Imm 2], Count,
    Syscall NR_lseek [Reg 1, Imm 0, Imm 0], Count, Syscall NR_fsync [Reg 1], Count,
    Syscall NR_lseek [Reg 1, Imm 0, Imm 1], Count, Syscall NR_lseek [Reg 1, Imm 0, Imm 2], Count,
    Syscall NR_lseek [Reg 1, Imm 0, Imm 0], Count]"

definition min_mysql_lseek_pwrite64_13_0_body9 :: "stmt list" where
  "min_mysql_lseek_pwrite64_13_0_body9 = [
    Syscall NR_fallocate [Reg 1, Imm 0, Imm 0x4c000, Imm 0x4000], Count,
    Syscall NR_pwrite64 [Reg 1, Write_buf, Imm 0x4000, Imm 0x4c000], Count,
    Syscall NR_lseek [Reg 1, Imm 0, Imm 1], Count, Syscall NR_lseek [Reg 1, Imm 0, Imm 2], Count,
    Syscall NR_lseek [Reg 1, Imm 0, Imm 0], Count, Syscall NR_fsync [Reg 1], Count,
    Syscall NR_lseek [Reg 1, Imm 0, Imm 1], Count, Syscall NR_lseek [Reg 1, Imm 0, Imm 2], Count,
    Syscall NR_lseek [Reg 1, Imm 0, Imm 0], Count, Syscall NR_fallocate [Reg 1, Imm 0, Imm 0x50000, Imm 0x4000],
    Count, Syscall NR_pwrite64 [Reg 1, Write_buf, Imm 0x4000, Imm 0x50000], Count,
    Syscall NR_lseek [Reg 1, Imm 0, Imm 1], Count, Syscall NR_lseek [Reg 1, Imm 0, Imm 2], Count,
    Syscall NR_lseek [Reg 1, Imm 0, Imm 0], Count, Syscall NR_fsync [Reg 1], Count,
    Syscall NR_lseek [Reg 1, Imm 0, Imm 1], Count, Syscall NR_lseek [Reg 1, Imm 0, Imm 2], Count,
    Syscall NR_lseek [Reg 1, Imm 0, Imm 0], Count]"

definition min_mysql_lseek_pwrite64_13_0_body10 :: "stmt list" where
  "min_mysql_lseek_pwrite64_13_0_body10 = [
    Syscall NR_fallocate [Reg 1, Imm 0, Imm 0x54000, Imm 0x4000], Count,
    Syscall NR_pwrite64 [Reg 1, Write_buf, Imm 0x4000, Imm 0x54000], Count,
    Syscall NR_lseek [Reg 1, Imm 0, Imm 1], Count, Syscall NR_lseek [Reg 1, Imm 0, Imm 2], Count,
    Syscall NR_lseek [Reg 1, Imm 0, Imm 0], Count, Syscall NR_fsync [Reg 1], Count,
    Syscall NR_lseek [Reg 1, Imm 0, Imm 1], Count, Syscall NR_lseek [Reg 1, Imm 0, Imm 2], Count,
    Syscall NR_lseek [Reg 1, Imm 0, Imm 0], Count, Syscall NR_fallocate [Reg 1, Imm 0, Imm 0x58000, Imm 0x4000],
    Count, Syscall NR_pwrite64 [Reg 1, Write_buf, Imm 0x4000, Imm 0x58000], Count,
    Syscall NR_lseek [Reg 1, Imm 0, Imm 1], Count, Syscall NR_lseek [Reg 1, Imm 0, Imm 2], Count,
    Syscall NR_lseek [Reg 1, Imm 0, Imm 0], Count, Syscall NR_fsync [Reg 1], Count,
    Syscall NR_pread64 [Reg 1, Ptr 0x20600200, Imm 0x4000, Imm 0x50000], Count]"

definition min_mysql_lseek_pwrite64_13_0 :: syz_prog where
  "min_mysql_lseek_pwrite64_13_0 = \<lparr>prog_name = ''min_mysql_lseek_pwrite64_13_0'', prog_family = Mysql_v2,
     subdirs = [''sbtest''],
     filenames = [''./sbtest/sbtest14.ib''], filesizes = [376832],
     max_write_buffer = 114688, init_regs = replicate 2 (- 1),
     reg_body = [], dereg_body = [],
     body = min_mysql_lseek_pwrite64_13_0_body1 @ min_mysql_lseek_pwrite64_13_0_body2 @
       min_mysql_lseek_pwrite64_13_0_body3 @ min_mysql_lseek_pwrite64_13_0_body4 @
       min_mysql_lseek_pwrite64_13_0_body5 @ min_mysql_lseek_pwrite64_13_0_body6 @
       min_mysql_lseek_pwrite64_13_0_body7 @ min_mysql_lseek_pwrite64_13_0_body8 @
       min_mysql_lseek_pwrite64_13_0_body9 @ min_mysql_lseek_pwrite64_13_0_body10\<rparr>"

definition min_mysql_lseek_pwrite64_13_0_target where
  "min_mysql_lseek_pwrite64_13_0_target os_getenv os_inet_pton K = syz_target os_getenv os_inet_pton K min_mysql_lseek_pwrite64_13_0"

lemmas min_mysql_lseek_pwrite64_13_0_defs =
  min_mysql_lseek_pwrite64_13_0_def min_mysql_lseek_pwrite64_13_0_body1_def
  min_mysql_lseek_pwrite64_13_0_body2_def min_mysql_lseek_pwrite64_13_0_body3_def
  min_mysql_lseek_pwrite64_13_0_body4_def min_mysql_lseek_pwrite64_13_0_body5_def
  min_mysql_lseek_pwrite64_13_0_body6_def min_mysql_lseek_pwrite64_13_0_body7_def
  min_mysql_lseek_pwrite64_13_0_body8_def min_mysql_lseek_pwrite64_13_0_body9_def
  min_mysql_lseek_pwrite64_13_0_body10_def

lemma min_mysql_lseek_pwrite64_13_0_ok: "prog_ok min_mysql_lseek_pwrite64_13_0" "calls (body min_mysql_lseek_pwrite64_13_0) = 162"
  by (simp_all add: prog_ok_def min_mysql_lseek_pwrite64_13_0_defs prog_checks)

lemma min_mysql_lseek_pwrite64_13_0_misses: "setup_misses min_mysql_lseek_pwrite64_13_0" "filenames min_mysql_lseek_pwrite64_13_0 \<noteq> []" "reg_body min_mysql_lseek_pwrite64_13_0 = []" "num_regs min_mysql_lseek_pwrite64_13_0 < 2 ^ 32"
  by (simp_all add: setup_misses_def opened_def misses_def path_names_def min_mysql_lseek_pwrite64_13_0_defs prog_checks open_checks)

section \<open>min\_mysql\_lseek\_pwrite64\_14\_0\<close>

definition min_mysql_lseek_pwrite64_14_0_body1 :: "stmt list" where
  "min_mysql_lseek_pwrite64_14_0_body1 = [
    Memcpy 0x2060ed00 (with_nul ''./sbtest/sbtest15.ibd'') 22,
    Syscall NR_newfstatat [Dir_fd, Ptr 0x2060ed00, Ptr 0x2060ed40, Imm 0], Count,
    Memcpy 0x20615680 (with_nul ''./sbtest/sbtest15.ibd'') 22,
    Syscall NR_openat [Dir_fd, Ptr 0x20615680, Imm 0x42, Imm 0x1ff], Count, Save_res 0,
    Syscall NR_fcntl [Reg 0, Imm 4, Imm 0x10000], Count, Store 2 0x206156c0 (Imm 1), Store 2 0x206156c2 (Imm 0),
    Store 8 0x206156c8 (Imm 0), Store 8 0x206156d0 (Imm 0), Store 4 0x206156d8 (Imm 0),
    Syscall NR_fcntl [Reg 0, Imm 6, Ptr 0x206156c0], Count,
    Syscall NR_fallocate [Reg 0, Imm 0, Imm 0, Imm 0x1c000], Count,
    Syscall NR_ioctl [Reg 0, Imm 0x40049502, Ptr 0x20615c40], Count,
    Syscall NR_pwrite64 [Reg 0, Write_buf, Imm 0x1c000, Imm 0], Count, Syscall NR_fsync [Reg 0], Count,
    Syscall NR_pwrite64 [Reg 0, Write_buf, Imm 0x1c000, Imm 0], Count]"

definition min_mysql_lseek_pwrite64_14_0_body2 :: "stmt list" where
  "min_mysql_lseek_pwrite64_14_0_body2 = [
    Syscall NR_fallocate [Reg 0, Imm 3, Imm 0, Imm 0x4000], Count,
    Syscall NR_pwrite64 [Reg 0, Write_buf, Imm 0x4000, Imm 0], Count, Syscall NR_fsync [Reg 0], Count,
    Memcpy 0x2065a440 (with_nul ''./sbtest/sbtest15.ibd'') 22,
    Syscall NR_newfstatat [Dir_fd, Ptr 0x2065a440, Ptr 0x2065a480, Imm 0], Count, Syscall NR_close [Reg 0],
    Count, Memcpy 0x20681cc0 (with_nul ''./sbtest/sbtest15.ibd'') 22,
    Syscall NR_openat [Dir_fd, Ptr 0x20681cc0, Imm 0x42, Imm 0x1ff], Count, Save_res 1,
    Syscall NR_fcntl [Reg 1, Imm 4, Imm 0x10000], Count, Store 2 0x20681d00 (Imm 1), Store 2 0x20681d02 (Imm 0),
    Store 8 0x20681d08 (Imm 0), Store 8 0x20681d10 (Imm 0), Store 4 0x20681d18 (Imm 0),
    Syscall NR_fcntl [Reg 1, Imm 6, Ptr 0x20681d00], Count, Syscall NR_lseek [Reg 1, Imm 0, Imm 1], Count,
    Syscall NR_lseek [Reg 1, Imm 0, Imm 2], Count, Syscall NR_lseek [Reg 1, Imm 0, Imm 0], Count]"

definition min_mysql_lseek_pwrite64_14_0_body3 :: "stmt list" where
  "min_mysql_lseek_pwrite64_14_0_body3 = [
    Syscall NR_fallocate [Reg 1, Imm 0, Imm 0x1c000, Imm 0x4000], Count,
    Syscall NR_pwrite64 [Reg 1, Write_buf, Imm 0x4000, Imm 0x1c000], Count,
    Syscall NR_lseek [Reg 1, Imm 0, Imm 1], Count, Syscall NR_lseek [Reg 1, Imm 0, Imm 2], Count,
    Syscall NR_lseek [Reg 1, Imm 0, Imm 0], Count, Syscall NR_fsync [Reg 1], Count,
    Syscall NR_lseek [Reg 1, Imm 0, Imm 1], Count, Syscall NR_lseek [Reg 1, Imm 0, Imm 2], Count,
    Syscall NR_lseek [Reg 1, Imm 0, Imm 0], Count, Syscall NR_fallocate [Reg 1, Imm 0, Imm 0x20000, Imm 0x4000],
    Count, Syscall NR_pwrite64 [Reg 1, Write_buf, Imm 0x4000, Imm 0x20000], Count,
    Syscall NR_lseek [Reg 1, Imm 0, Imm 1], Count, Syscall NR_lseek [Reg 1, Imm 0, Imm 2], Count,
    Syscall NR_lseek [Reg 1, Imm 0, Imm 0], Count, Syscall NR_fsync [Reg 1], Count,
    Syscall NR_lseek [Reg 1, Imm 0, Imm 1], Count, Syscall NR_lseek [Reg 1, Imm 0, Imm 2], Count,
    Syscall NR_lseek [Reg 1, Imm 0, Imm 0], Count]"

definition min_mysql_lseek_pwrite64_14_0_body4 :: "stmt list" where
  "min_mysql_lseek_pwrite64_14_0_body4 = [
    Syscall NR_fallocate [Reg 1, Imm 0, Imm 0x24000, Imm 0x4000], Count,
    Syscall NR_pwrite64 [Reg 1, Write_buf, Imm 0x4000, Imm 0x24000], Count,
    Syscall NR_lseek [Reg 1, Imm 0, Imm 1], Count, Syscall NR_lseek [Reg 1, Imm 0, Imm 2], Count,
    Syscall NR_lseek [Reg 1, Imm 0, Imm 0], Count, Syscall NR_fsync [Reg 1], Count,
    Syscall NR_lseek [Reg 1, Imm 0, Imm 1], Count, Syscall NR_lseek [Reg 1, Imm 0, Imm 2], Count,
    Syscall NR_lseek [Reg 1, Imm 0, Imm 0], Count, Syscall NR_fallocate [Reg 1, Imm 0, Imm 0x28000, Imm 0x4000],
    Count, Syscall NR_pwrite64 [Reg 1, Write_buf, Imm 0x4000, Imm 0x28000], Count,
    Syscall NR_lseek [Reg 1, Imm 0, Imm 1], Count, Syscall NR_lseek [Reg 1, Imm 0, Imm 2], Count,
    Syscall NR_lseek [Reg 1, Imm 0, Imm 0], Count, Syscall NR_fsync [Reg 1], Count,
    Syscall NR_lseek [Reg 1, Imm 0, Imm 1], Count, Syscall NR_lseek [Reg 1, Imm 0, Imm 2], Count,
    Syscall NR_lseek [Reg 1, Imm 0, Imm 0], Count]"

definition min_mysql_lseek_pwrite64_14_0_body5 :: "stmt list" where
  "min_mysql_lseek_pwrite64_14_0_body5 = [
    Syscall NR_fallocate [Reg 1, Imm 0, Imm 0x2c000, Imm 0x4000], Count,
    Syscall NR_pwrite64 [Reg 1, Write_buf, Imm 0x4000, Imm 0x2c000], Count,
    Syscall NR_lseek [Reg 1, Imm 0, Imm 1], Count, Syscall NR_lseek [Reg 1, Imm 0, Imm 2], Count,
    Syscall NR_lseek [Reg 1, Imm 0, Imm 0], Count, Syscall NR_fsync [Reg 1], Count,
    Syscall NR_lseek [Reg 1, Imm 0, Imm 1], Count, Syscall NR_lseek [Reg 1, Imm 0, Imm 2], Count,
    Syscall NR_lseek [Reg 1, Imm 0, Imm 0], Count, Syscall NR_fallocate [Reg 1, Imm 0, Imm 0x30000, Imm 0x4000],
    Count, Syscall NR_pwrite64 [Reg 1, Write_buf, Imm 0x4000, Imm 0x30000], Count,
    Syscall NR_lseek [Reg 1, Imm 0, Imm 1], Count, Syscall NR_lseek [Reg 1, Imm 0, Imm 2], Count,
    Syscall NR_lseek [Reg 1, Imm 0, Imm 0], Count, Syscall NR_fsync [Reg 1], Count,
    Syscall NR_lseek [Reg 1, Imm 0, Imm 1], Count, Syscall NR_lseek [Reg 1, Imm 0, Imm 2], Count,
    Syscall NR_lseek [Reg 1, Imm 0, Imm 0], Count]"

definition min_mysql_lseek_pwrite64_14_0_body6 :: "stmt list" where
  "min_mysql_lseek_pwrite64_14_0_body6 = [
    Syscall NR_fallocate [Reg 1, Imm 0, Imm 0x34000, Imm 0x4000], Count,
    Syscall NR_pwrite64 [Reg 1, Write_buf, Imm 0x4000, Imm 0x34000], Count,
    Syscall NR_lseek [Reg 1, Imm 0, Imm 1], Count, Syscall NR_lseek [Reg 1, Imm 0, Imm 2], Count,
    Syscall NR_lseek [Reg 1, Imm 0, Imm 0], Count, Syscall NR_fsync [Reg 1], Count,
    Syscall NR_lseek [Reg 1, Imm 0, Imm 1], Count, Syscall NR_lseek [Reg 1, Imm 0, Imm 2], Count,
    Syscall NR_lseek [Reg 1, Imm 0, Imm 0], Count, Syscall NR_fallocate [Reg 1, Imm 0, Imm 0x38000, Imm 0x4000],
    Count, Syscall NR_pwrite64 [Reg 1, Write_buf, Imm 0x4000, Imm 0x38000], Count,
    Syscall NR_lseek [Reg 1, Imm 0, Imm 1], Count, Syscall NR_lseek [Reg 1, Imm 0, Imm 2], Count,
    Syscall NR_lseek [Reg 1, Imm 0, Imm 0], Count, Syscall NR_fsync [Reg 1], Count,
    Syscall NR_lseek [Reg 1, Imm 0, Imm 1], Count, Syscall NR_lseek [Reg 1, Imm 0, Imm 2], Count,
    Syscall NR_lseek [Reg 1, Imm 0, Imm 0], Count]"

definition min_mysql_lseek_pwrite64_14_0_body7 :: "stmt list" where
  "min_mysql_lseek_pwrite64_14_0_body7 = [
    Syscall NR_fallocate [Reg 1, Imm 0, Imm 0x3c000, Imm 0x4000], Count,
    Syscall NR_pwrite64 [Reg 1, Write_buf, Imm 0x4000, Imm 0x3c000], Count,
    Syscall NR_lseek [Reg 1, Imm 0, Imm 1], Count, Syscall NR_lseek [Reg 1, Imm 0, Imm 2], Count,
    Syscall NR_lseek [Reg 1, Imm 0, Imm 0], Count, Syscall NR_fsync [Reg 1], Count,
    Syscall NR_lseek [Reg 1, Imm 0, Imm 1], Count, Syscall NR_lseek [Reg 1, Imm 0, Imm 2], Count,
    Syscall NR_lseek [Reg 1, Imm 0, Imm 0], Count, Syscall NR_fallocate [Reg 1, Imm 0, Imm 0x40000, Imm 0x4000],
    Count, Syscall NR_pwrite64 [Reg 1, Write_buf, Imm 0x4000, Imm 0x40000], Count,
    Syscall NR_lseek [Reg 1, Imm 0, Imm 1], Count, Syscall NR_lseek [Reg 1, Imm 0, Imm 2], Count,
    Syscall NR_lseek [Reg 1, Imm 0, Imm 0], Count, Syscall NR_fsync [Reg 1], Count,
    Syscall NR_lseek [Reg 1, Imm 0, Imm 1], Count, Syscall NR_lseek [Reg 1, Imm 0, Imm 2], Count,
    Syscall NR_lseek [Reg 1, Imm 0, Imm 0], Count]"

definition min_mysql_lseek_pwrite64_14_0_body8 :: "stmt list" where
  "min_mysql_lseek_pwrite64_14_0_body8 = [
    Syscall NR_fallocate [Reg 1, Imm 0, Imm 0x44000, Imm 0x4000], Count,
    Syscall NR_pwrite64 [Reg 1, Write_buf, Imm 0x4000, Imm 0x44000], Count,
    Syscall NR_lseek [Reg 1, Imm 0, Imm 1], Count, Syscall NR_lseek [Reg 1, Imm 0, Imm 2], Count,
    Syscall NR_lseek [Reg 1, Imm 0, Imm 0], Count, Syscall NR_fsync [Reg 1], Count,
    Syscall NR_lseek [Reg 1, Imm 0, Imm 1], Count, Syscall NR_lseek [Reg 1, Imm 0, Imm 2], Count,
    Syscall NR_lseek [Reg 1, Imm 0, Imm 0], Count, Syscall NR_fallocate [Reg 1, Imm 0, Imm 0x48000, Imm 0x4000],
    Count, Syscall NR_pwrite64 [Reg 1, Write_buf, Imm 0x4000, Imm 0x48000], Count,
    Syscall NR_lseek [Reg 1, Imm 0, Imm 1], Count, Syscall NR_lseek [Reg 1, Imm 0, Imm 2], Count,
    Syscall NR_lseek [Reg 1, Imm 0, Imm 0], Count, Syscall NR_fsync [Reg 1], Count,
    Syscall NR_lseek [Reg 1, Imm 0, Imm 1], Count, Syscall NR_lseek [Reg 1, Imm 0, Imm 2], Count,
    Syscall NR_lseek [Reg 1, Imm 0, Imm 0], Count]"

definition min_mysql_lseek_pwrite64_14_0_body9 :: "stmt list" where
  "min_mysql_lseek_pwrite64_14_0_body9 = [
    Syscall NR_fallocate [Reg 1, Imm 0, Imm 0x4c000, Imm 0x4000], Count,
    Syscall NR_pwrite64 [Reg 1, Write_buf, Imm 0x4000, Imm 0x4c000], Count,
    Syscall NR_lseek [Reg 1, Imm 0, Imm 1], Count, Syscall NR_lseek [Reg 1, Imm 0, Imm 2], Count,
    Syscall NR_lseek [Reg 1, Imm 0, Imm 0], Count, Syscall NR_fsync [Reg 1], Count,
    Syscall NR_lseek [Reg 1, Imm 0, Imm 1], Count, Syscall NR_lseek [Reg 1, Imm 0, Imm 2], Count,
    Syscall NR_lseek [Reg 1, Imm 0, Imm 0], Count, Syscall NR_fallocate [Reg 1, Imm 0, Imm 0x50000, Imm 0x4000],
    Count, Syscall NR_pwrite64 [Reg 1, Write_buf, Imm 0x4000, Imm 0x50000], Count,
    Syscall NR_lseek [Reg 1, Imm 0, Imm 1], Count, Syscall NR_lseek [Reg 1, Imm 0, Imm 2], Count,
    Syscall NR_lseek [Reg 1, Imm 0, Imm 0], Count, Syscall NR_fsync [Reg 1], Count,
    Syscall NR_lseek [Reg 1, Imm 0, Imm 1], Count, Syscall NR_lseek [Reg 1, Imm 0, Imm 2], Count,
    Syscall NR_lseek [Reg 1, Imm 0, Imm 0], Count]"

definition min_mysql_lseek_pwrite64_14_0_body10 :: "stmt list" where
  "min_mysql_lseek_pwrite64_14_0_body10 = [
    Syscall NR_fallocate [Reg 1, Imm 0, Imm 0x54000, Imm 0x4000], Count,
    Syscall NR_pwrite64 [Reg 1, Write_buf, Imm 0x4000, Imm 0x54000], Count,
    Syscall NR_lseek [Reg 1, Imm 0, Imm 1], Count, Syscall NR_lseek [Reg 1, Imm 0, Imm 2], Count,
    Syscall NR_lseek [Reg 1, Imm 0, Imm 0], Count, Syscall NR_fsync [Reg 1], Count,
    Syscall NR_lseek [Reg 1, Imm 0, Imm 1], Count, Syscall NR_lseek [Reg 1, Imm 0, Imm 2], Count,
    Syscall NR_lseek [Reg 1, Imm 0, Imm 0], Count, Syscall NR_fallocate [Reg 1, Imm 0, Imm 0x58000, Imm 0x4000],
    Count, Syscall NR_pwrite64 [Reg 1, Write_buf, Imm 0x4000, Imm 0x58000], Count,
    Syscall NR_lseek [Reg 1, Imm 0, Imm 1], Count, Syscall NR_lseek [Reg 1, Imm 0, Imm 2], Count,
    Syscall NR_lseek [Reg 1, Imm 0, Imm 0], Count, Syscall NR_fsync [Reg 1], Count,
    Syscall NR_pread64 [Reg 1, Ptr 0x2072cc00, Imm 0x4000, Imm 0x50000], Count]"

definition min_mysql_lseek_pwrite64_14_0 :: syz_prog where
  "min_mysql_lseek_pwrite64_14_0 = \<lparr>prog_name = ''min_mysql_lseek_pwrite64_14_0'', prog_family = Mysql_v2,
     subdirs = [''sbtest''],
     filenames = [''./sbtest/sbtest15.ib''], filesizes = [376832],
     max_write_buffer = 114688, init_regs = replicate 2 (- 1),
     reg_body = [], dereg_body = [],
     body = min_mysql_lseek_pwrite64_14_0_body1 @ min_mysql_lseek_pwrite64_14_0_body2 @
       min_mysql_lseek_pwrite64_14_0_body3 @ min_mysql_lseek_pwrite64_14_0_body4 @
       min_mysql_lseek_pwrite64_14_0_body5 @ min_mysql_lseek_pwrite64_14_0_body6 @
       min_mysql_lseek_pwrite64_14_0_body7 @ min_mysql_lseek_pwrite64_14_0_body8 @
       min_mysql_lseek_pwrite64_14_0_body9 @ min_mysql_lseek_pwrite64_14_0_body10\<rparr>"

definition min_mysql_lseek_pwrite64_14_0_target where
  "min_mysql_lseek_pwrite64_14_0_target os_getenv os_inet_pton K = syz_target os_getenv os_inet_pton K min_mysql_lseek_pwrite64_14_0"

lemmas min_mysql_lseek_pwrite64_14_0_defs =
  min_mysql_lseek_pwrite64_14_0_def min_mysql_lseek_pwrite64_14_0_body1_def
  min_mysql_lseek_pwrite64_14_0_body2_def min_mysql_lseek_pwrite64_14_0_body3_def
  min_mysql_lseek_pwrite64_14_0_body4_def min_mysql_lseek_pwrite64_14_0_body5_def
  min_mysql_lseek_pwrite64_14_0_body6_def min_mysql_lseek_pwrite64_14_0_body7_def
  min_mysql_lseek_pwrite64_14_0_body8_def min_mysql_lseek_pwrite64_14_0_body9_def
  min_mysql_lseek_pwrite64_14_0_body10_def

lemma min_mysql_lseek_pwrite64_14_0_ok: "prog_ok min_mysql_lseek_pwrite64_14_0" "calls (body min_mysql_lseek_pwrite64_14_0) = 162"
  by (simp_all add: prog_ok_def min_mysql_lseek_pwrite64_14_0_defs prog_checks)

lemma min_mysql_lseek_pwrite64_14_0_misses: "setup_misses min_mysql_lseek_pwrite64_14_0" "filenames min_mysql_lseek_pwrite64_14_0 \<noteq> []" "reg_body min_mysql_lseek_pwrite64_14_0 = []" "num_regs min_mysql_lseek_pwrite64_14_0 < 2 ^ 32"
  by (simp_all add: setup_misses_def opened_def misses_def path_names_def min_mysql_lseek_pwrite64_14_0_defs prog_checks open_checks)

section \<open>min\_mysql\_lseek\_pwrite64\_6\_0\<close>

definition min_mysql_lseek_pwrite64_6_0_body1 :: "stmt list" where
  "min_mysql_lseek_pwrite64_6_0_body1 = [
    Memcpy 0x20ce2f40 (with_nul ''./sbtest/sbtest7.ibd'') 21,
    Syscall NR_newfstatat [Dir_fd, Ptr 0x20ce2f40, Ptr 0x20ce2f80, Imm 0], Count,
    Memcpy 0x20ce4ac0 (with_nul ''./sbtest/sbtest7.ibd'') 21,
    Syscall NR_openat [Dir_fd, Ptr 0x20ce4ac0, Imm 0x42, Imm 0x1ff], Count, Save_res 0,
    Syscall NR_fcntl [Reg 0, Imm 4, Imm 0x10000], Count, Store 2 0x20ce4b00 (Imm 1), Store 2 0x20ce4b02 (Imm 0),
    Store 8 0x20ce4b08 (Imm 0), Store 8 0x20ce4b10 (Imm 0), Store 4 0x20ce4b18 (Imm 0),
    Syscall NR_fcntl [Reg 0, Imm 6, Ptr 0x20ce4b00], Count,
    Syscall NR_fallocate [Reg 0, Imm 0, Imm 0, Imm 0x1c000], Count,
    Syscall NR_ioctl [Reg 0, Imm 0x40049502, Ptr 0x20ce7680], Count,
    Syscall NR_pwrite64 [Reg 0, Write_buf, Imm 0x1c000, Imm 0], Count, Syscall NR_fsync [Reg 0], Count,
    Syscall NR_pwrite64 [Reg 0, Write_buf, Imm 0x1c000, Imm 0], Count]"

definition min_mysql_lseek_pwrite64_6_0_body2 :: "stmt list" where
  "min_mysql_lseek_pwrite64_6_0_body2 = [
    Syscall NR_fallocate [Reg 0, Imm 3, Imm 0, Imm 0x4000], Count,
    Syscall NR_pwrite64 [Reg 0, Write_buf, Imm 0x4000, Imm 0], Count, Syscall NR_fsync [Reg 0], Count,
    Memcpy 0x20d2b640 (with_nul ''./sbtest/sbtest7.ibd'') 21,
    Syscall NR_newfstatat [Dir_fd, Ptr 0x20d2b640, Ptr 0x20d2b680, Imm 0], Count, Syscall NR_close [Reg 0],
    Count, Memcpy 0x20d51140 (with_nul ''./sbtest/sbtest7.ibd'') 21,
    Syscall NR_openat [Dir_fd, Ptr 0x20d51140, Imm 0x42, Imm 0x1ff], Count, Save_res 1,
    Syscall NR_fcntl [Reg 1, Imm 4, Imm 0x10000], Count, Store 2 0x20d51180 (Imm 1), Store 2 0x20d51182 (Imm 0),
    Store 8 0x20d51188 (Imm 0), Store 8 0x20d51190 (Imm 0), Store 4 0x20d51198 (Imm 0),
    Syscall NR_fcntl [Reg 1, Imm 6, Ptr 0x20d51180], Count, Syscall NR_lseek [Reg 1, Imm 0, Imm 1], Count,
    Syscall NR_lseek [Reg 1, Imm 0, Imm 2], Count, Syscall NR_lseek [Reg 1, Imm 0, Imm 0], Count]"

definition min_mysql_lseek_pwrite64_6_0_body3 :: "stmt list" where
  "min_mysql_lseek_pwrite64_6_0_body3 = [
    Syscall NR_fallocate [Reg 1, Imm 0, Imm 0x1c000, Imm 0x4000], Count,
    Syscall NR_pwrite64 [Reg 1, Write_buf, Imm 0x4000, Imm 0x1c000], Count,
    Syscall NR_lseek [Reg 1, Imm 0, Imm 1], Count, Syscall NR_lseek [Reg 1, Imm 0, Imm 2], Count,
    Syscall NR_lseek [Reg 1, Imm 0, Imm 0], Count, Syscall NR_fsync [Reg 1], Count,
    Syscall NR_lseek [Reg 1, Imm 0, Imm 1], Count, Syscall NR_lseek [Reg 1, Imm 0, Imm 2], Count,
    Syscall NR_lseek [Reg 1, Imm 0, Imm 0], Count, Syscall NR_fallocate [Reg 1, Imm 0, Imm 0x20000, Imm 0x4000],
    Count, Syscall NR_pwrite64 [Reg 1, Write_buf, Imm 0x4000, Imm 0x20000], Count,
    Syscall NR_lseek [Reg 1, Imm 0, Imm 1], Count, Syscall NR_lseek [Reg 1, Imm 0, Imm 2], Count,
    Syscall NR_lseek [Reg 1, Imm 0, Imm 0], Count, Syscall NR_fsync [Reg 1], Count,
    Syscall NR_lseek [Reg 1, Imm 0, Imm 1], Count, Syscall NR_lseek [Reg 1, Imm 0, Imm 2], Count,
    Syscall NR_lseek [Reg 1, Imm 0, Imm 0], Count]"

definition min_mysql_lseek_pwrite64_6_0_body4 :: "stmt list" where
  "min_mysql_lseek_pwrite64_6_0_body4 = [
    Syscall NR_fallocate [Reg 1, Imm 0, Imm 0x24000, Imm 0x4000], Count,
    Syscall NR_pwrite64 [Reg 1, Write_buf, Imm 0x4000, Imm 0x24000], Count,
    Syscall NR_lseek [Reg 1, Imm 0, Imm 1], Count, Syscall NR_lseek [Reg 1, Imm 0, Imm 2], Count,
    Syscall NR_lseek [Reg 1, Imm 0, Imm 0], Count, Syscall NR_fsync [Reg 1], Count,
    Syscall NR_lseek [Reg 1, Imm 0, Imm 1], Count, Syscall NR_lseek [Reg 1, Imm 0, Imm 2], Count,
    Syscall NR_lseek [Reg 1, Imm 0, Imm 0], Count, Syscall NR_fallocate [Reg 1, Imm 0, Imm 0x28000, Imm 0x4000],
    Count, Syscall NR_pwrite64 [Reg 1, Write_buf, Imm 0x4000, Imm 0x28000], Count,
    Syscall NR_lseek [Reg 1, Imm 0, Imm 1], Count, Syscall NR_lseek [Reg 1, Imm 0, Imm 2], Count,
    Syscall NR_lseek [Reg 1, Imm 0, Imm 0], Count, Syscall NR_fsync [Reg 1], Count,
    Syscall NR_lseek [Reg 1, Imm 0, Imm 1], Count, Syscall NR_lseek [Reg 1, Imm 0, Imm 2], Count,
    Syscall NR_lseek [Reg 1, Imm 0, Imm 0], Count]"

definition min_mysql_lseek_pwrite64_6_0_body5 :: "stmt list" where
  "min_mysql_lseek_pwrite64_6_0_body5 = [
    Syscall NR_fallocate [Reg 1, Imm 0, Imm 0x2c000, Imm 0x4000], Count,
    Syscall NR_pwrite64 [Reg 1, Write_buf, Imm 0x4000, Imm 0x2c000], Count,
    Syscall NR_lseek [Reg 1, Imm 0, Imm 1], Count, Syscall NR_lseek [Reg 1, Imm 0, Imm 2], Count,
    Syscall NR_lseek [Reg 1, Imm 0, Imm 0], Count, Syscall NR_fsync [Reg 1], Count,
    Syscall NR_lseek [Reg 1, Imm 0, Imm 1], Count, Syscall NR_lseek [Reg 1, Imm 0, Imm 2], Count,
    Syscall NR_lseek [Reg 1, Imm 0, Imm 0], Count, Syscall NR_fallocate [Reg 1, Imm 0, Imm 0x30000, Imm 0x4000],
    Count, Syscall NR_pwrite64 [Reg 1, Write_buf, Imm 0x4000, Imm 0x30000], Count,
    Syscall NR_lseek [Reg 1, Imm 0, Imm 1], Count, Syscall NR_lseek [Reg 1, Imm 0, Imm 2], Count,
    Syscall NR_lseek [Reg 1, Imm 0, Imm 0], Count, Syscall NR_fsync [Reg 1], Count,
    Syscall NR_lseek [Reg 1, Imm 0, Imm 1], Count, Syscall NR_lseek [Reg 1, Imm 0, Imm 2], Count,
    Syscall NR_lseek [Reg 1, Imm 0, Imm 0], Count]"

definition min_mysql_lseek_pwrite64_6_0_body6 :: "stmt list" where
  "min_mysql_lseek_pwrite64_6_0_body6 = [
    Syscall NR_fallocate [Reg 1, Imm 0, Imm 0x34000, Imm 0x4000], Count,
    Syscall NR_pwrite64 [Reg 1, Write_buf, Imm 0x4000, Imm 0x34000], Count,
    Syscall NR_lseek [Reg 1, Imm 0, Imm 1], Count, Syscall NR_lseek [Reg 1, Imm 0, Imm 2], Count,
    Syscall NR_lseek [Reg 1, Imm 0, Imm 0], Count, Syscall NR_fsync [Reg 1], Count,
    Syscall NR_lseek [Reg 1, Imm 0, Imm 1], Count, Syscall NR_lseek [Reg 1, Imm 0, Imm 2], Count,
    Syscall NR_lseek [Reg 1, Imm 0, Imm 0], Count, Syscall NR_fallocate [Reg 1, Imm 0, Imm 0x38000, Imm 0x4000],
    Count, Syscall NR_pwrite64 [Reg 1, Write_buf, Imm 0x4000, Imm 0x38000], Count,
    Syscall NR_lseek [Reg 1, Imm 0, Imm 1], Count, Syscall NR_lseek [Reg 1, Imm 0, Imm 2], Count,
    Syscall NR_lseek [Reg 1, Imm 0, Imm 0], Count, Syscall NR_fsync [Reg 1], Count,
    Syscall NR_lseek [Reg 1, Imm 0, Imm 1], Count, Syscall NR_lseek [Reg 1, Imm 0, Imm 2], Count,
    Syscall NR_lseek [Reg 1, Imm 0, Imm 0], Count]"

definition min_mysql_lseek_pwrite64_6_0_body7 :: "stmt list" where
  "min_mysql_lseek_pwrite64_6_0_body7 = [
    Syscall NR_fallocate [Reg 1, Imm 0, Imm 0x3c000, Imm 0x4000], Count,
    Syscall NR_pwrite64 [Reg 1, Write_buf, Imm 0x4000, Imm 0x3c000], Count,
    Syscall NR_lseek [Reg 1, Imm 0, Imm 1], Count, Syscall NR_lseek [Reg 1, Imm 0, Imm 2], Count,
    Syscall NR_lseek [Reg 1, Imm 0, Imm 0], Count, Syscall NR_fsync [Reg 1], Count,
    Syscall NR_lseek [Reg 1, Imm 0, Imm 1], Count, Syscall NR_lseek [Reg 1, Imm 0, Imm 2], Count,
    Syscall NR_lseek [Reg 1, Imm 0, Imm 0], Count, Syscall NR_fallocate [Reg 1, Imm 0, Imm 0x40000, Imm 0x4000],
    Count, Syscall NR_pwrite64 [Reg 1, Write_buf, Imm 0x4000, Imm 0x40000], Count,
    Syscall NR_lseek [Reg 1, Imm 0, Imm 1], Count, Syscall NR_lseek [Reg 1, Imm 0, Imm 2], Count,
    Syscall NR_lseek [Reg 1, Imm 0, Imm 0], Count, Syscall NR_fsync [Reg 1], Count,
    Syscall NR_lseek [Reg 1, Imm 0, Imm 1], Count, Syscall NR_lseek [Reg 1, Imm 0, Imm 2], Count,
    Syscall NR_lseek [Reg 1, Imm 0, Imm 0], Count]"

definition min_mysql_lseek_pwrite64_6_0_body8 :: "stmt list" where
  "min_mysql_lseek_pwrite64_6_0_body8 = [
    Syscall NR_fallocate [Reg 1, Imm 0, Imm 0x44000, Imm 0x4000], Count,
    Syscall NR_pwrite64 [Reg 1, Write_buf, Imm 0x4000, Imm 0x44000], Count,
    Syscall NR_lseek [Reg 1, Imm 0, Imm 1], Count, Syscall NR_lseek [Reg 1, Imm 0, Imm 2], Count,
    Syscall NR_lseek [Reg 1, Imm 0, Imm 0], Count, Syscall NR_fsync [Reg 1], Count,
    Syscall NR_lseek [Reg 1, Imm 0, Imm 1], Count, Syscall NR_lseek [Reg 1, Imm 0, Imm 2], Count,
    Syscall NR_lseek [Reg 1, Imm 0, Imm 0], Count, Syscall NR_fallocate [Reg 1, Imm 0, Imm 0x48000, Imm 0x4000],
    Count, Syscall NR_pwrite64 [Reg 1, Write_buf, Imm 0x4000, Imm 0x48000], Count,
    Syscall NR_lseek [Reg 1, Imm 0, Imm 1], Count, Syscall NR_lseek [Reg 1, Imm 0, Imm 2], Count,
    Syscall NR_lseek [Reg 1, Imm 0, Imm 0], Count, Syscall NR_fsync [Reg 1], Count,
    Syscall NR_lseek [Reg 1, Imm 0, Imm 1], Count, Syscall NR_lseek [Reg 1, Imm 0, Imm 2], Count,
    Syscall NR_lseek [Reg 1, Imm 0, Imm 0], Count]"

definition min_mysql_lseek_pwrite64_6_0_body9 :: "stmt list" where
  "min_mysql_lseek_pwrite64_6_0_body9 = [
    Syscall NR_fallocate [Reg 1, Imm 0, Imm 0x4c000, Imm 0x4000], Count,
    Syscall NR_pwrite64 [Reg 1, Write_buf, Imm 0x4000, Imm 0x4c000], Count,
    Syscall NR_lseek [Reg 1, Imm 0, Imm 1], Count, Syscall NR_lseek [Reg 1, Imm 0, Imm 2], Count,
    Syscall NR_lseek [Reg 1, Imm 0, Imm 0], Count, Syscall NR_fsync [Reg 1], Count,
    Syscall NR_lseek [Reg 1, Imm 0, Imm 1], Count, Syscall NR_lseek [Reg 1, Imm 0, Imm 2], Count,
    Syscall NR_lseek [Reg 1, Imm 0, Imm 0], Count, Syscall NR_fallocate [Reg 1, Imm 0, Imm 0x50000, Imm 0x4000],
    Count, Syscall NR_pwrite64 [Reg 1, Write_buf, Imm 0x4000, Imm 0x50000], Count,
    Syscall NR_lseek [Reg 1, Imm 0, Imm 1], Count, Syscall NR_lseek [Reg 1, Imm 0, Imm 2], Count,
    Syscall NR_lseek [Reg 1, Imm 0, Imm 0], Count, Syscall NR_fsync [Reg 1], Count,
    Syscall NR_lseek [Reg 1, Imm 0, Imm 1], Count, Syscall NR_lseek [Reg 1, Imm 0, Imm 2], Count,
    Syscall NR_lseek [Reg 1, Imm 0, Imm 0], Count]"

definition min_mysql_lseek_pwrite64_6_0_body10 :: "stmt list" where
  "min_mysql_lseek_pwrite64_6_0_body10 = [
    Syscall NR_fallocate [Reg 1, Imm 0, Imm 0x54000, Imm 0x4000], Count,
    Syscall NR_pwrite64 [Reg 1, Write_buf, Imm 0x4000, Imm 0x54000], Count,
    Syscall NR_lseek [Reg 1, Imm 0, Imm 1], Count, Syscall NR_lseek [Reg 1, Imm 0, Imm 2], Count,
    Syscall NR_lseek [Reg 1, Imm 0, Imm 0], Count, Syscall NR_fsync [Reg 1], Count,
    Syscall NR_lseek [Reg 1, Imm 0, Imm 1], Count, Syscall NR_lseek [Reg 1, Imm 0, Imm 2], Count,
    Syscall NR_lseek [Reg 1, Imm 0, Imm 0], Count, Syscall NR_fallocate [Reg 1, Imm 0, Imm 0x58000, Imm 0x4000],
    Count, Syscall NR_pwrite64 [Reg 1, Write_buf, Imm 0x4000, Imm 0x58000], Count,
    Syscall NR_lseek [Reg 1, Imm 0, Imm 1], Count, Syscall NR_lseek [Reg 1, Imm 0, Imm 2], Count,
    Syscall NR_lseek [Reg 1, Imm 0, Imm 0], Count, Syscall NR_fsync [Reg 1], Count,
    Syscall NR_pread64 [Reg 1, Ptr 0x20dfd9c0, Imm 0x4000, Imm 0x50000], Count]"

definition min_mysql_lseek_pwrite64_6_0 :: syz_prog where
  "min_mysql_lseek_pwrite64_6_0 = \<lparr>prog_name = ''min_mysql_lseek_pwrite64_6_0'', prog_family = Mysql_v2,
     subdirs = [''sbtest''],
     filenames = [''./sbtest/sbtest7.ib''], filesizes = [376832],
     max_write_buffer = 114688, init_regs = replicate 2 (- 1),
     reg_body = [], dereg_body = [],
     body = min_mysql_lseek_pwrite64_6_0_body1 @ min_mysql_lseek_pwrite64_6_0_body2 @
       min_mysql_lseek_pwrite64_6_0_body3 @ min_mysql_lseek_pwrite64_6_0_body4 @
       min_mysql_lseek_pwrite64_6_0_body5 @ min_mysql_lseek_pwrite64_6_0_body6 @
       min_mysql_lseek_pwrite64_6_0_body7 @ min_mysql_lseek_pwrite64_6_0_body8 @
       min_mysql_lseek_pwrite64_6_0_body9 @ min_mysql_lseek_pwrite64_6_0_body10\<rparr>"

definition min_mysql_lseek_pwrite64_6_0_target where
  "min_mysql_lseek_pwrite64_6_0_target os_getenv os_inet_pton K = syz_target os_getenv os_inet_pton K min_mysql_lseek_pwrite64_6_0"

lemmas min_mysql_lseek_pwrite64_6_0_defs =
  min_mysql_lseek_pwrite64_6_0_def min_mysql_lseek_pwrite64_6_0_body1_def
  min_mysql_lseek_pwrite64_6_0_body2_def min_mysql_lseek_pwrite64_6_0_body3_def
  min_mysql_lseek_pwrite64_6_0_body4_def min_mysql_lseek_pwrite64_6_0_body5_def
  min_mysql_lseek_pwrite64_6_0_body6_def min_mysql_lseek_pwrite64_6_0_body7_def
  min_mysql_lseek_pwrite64_6_0_body8_def min_mysql_lseek_pwrite64_6_0_body9_def
  min_mysql_lseek_pwrite64_6_0_body10_def

lemma min_mysql_lseek_pwrite64_6_0_ok: "prog_ok min_mysql_lseek_pwrite64_6_0" "calls (body min_mysql_lseek_pwrite64_6_0) = 162"
  by (simp_all add: prog_ok_def min_mysql_lseek_pwrite64_6_0_defs prog_checks)

lemma min_mysql_lseek_pwrite64_6_0_misses: "setup_misses min_mysql_lseek_pwrite64_6_0" "filenames min_mysql_lseek_pwrite64_6_0 \<noteq> []" "reg_body min_mysql_lseek_pwrite64_6_0 = []" "num_regs min_mysql_lseek_pwrite64_6_0 < 2 ^ 32"
  by (simp_all add: setup_misses_def opened_def misses_def path_names_def min_mysql_lseek_pwrite64_6_0_defs prog_checks open_checks)

section \<open>min\_mysql\_lseek\_pwrite64\_9\_0\<close>

definition min_mysql_lseek_pwrite64_9_0_body1 :: "stmt list" where
  "min_mysql_lseek_pwrite64_9_0_body1 = [
    Memcpy 0x2005cd40 (with_nul ''./sbtest/sbtest10.ibd'') 22,
    Syscall NR_newfstatat [Dir_fd, Ptr 0x2005cd40, Ptr 0x2005cd80, Imm 0], Count,
    Memcpy 0x20061f40 (with_nul ''./sbtest/sbtest10.ibd'') 22,
    Syscall NR_openat [Dir_fd, Ptr 0x20061f40, Imm 0x42, Imm 0x1ff], Count, Save_res 0,
    Syscall NR_fcntl [Reg 0, Imm 4, Imm 0x10000], Count, Store 2 0x20061f80 (Imm 1), Store 2 0x20061f82 (Imm 0),
    Store 8 0x20061f88 (Imm 0), Store 8 0x20061f90 (Imm 0), Store 4 0x20061f98 (Imm 0),
    Syscall NR_fcntl [Reg 0, Imm 6, Ptr 0x20061f80], Count,
    Syscall NR_fallocate [Reg 0, Imm 0, Imm 0, Imm 0x1c000], Count,
    Syscall NR_ioctl [Reg 0, Imm 0x40049502, Ptr 0x20062500], Count,
    Syscall NR_pwrite64 [Reg 0, Write_buf, Imm 0x1c000, Imm 0], Count, Syscall NR_fsync [Reg 0], Count,
    Syscall NR_pwrite64 [Reg 0, Write_buf, Imm 0x1c000, Imm 0], Count]"

definition min_mysql_lseek_pwrite64_9_0_body2 :: "stmt list" where
  "min_mysql_lseek_pwrite64_9_0_body2 = [
    Syscall NR_fallocate [Reg 0, Imm 3, Imm 0, Imm 0x4000], Count,
    Syscall NR_pwrite64 [Reg 0, Write_buf, Imm 0x4000, Imm 0], Count, Syscall NR_fsync [Reg 0], Count,
    Memcpy 0x200a6740 (with_nul ''./sbtest/sbtest10.ibd'') 22,
    Syscall NR_newfstatat [Dir_fd, Ptr 0x200a6740, Ptr 0x200a6780, Imm 0], Count, Syscall NR_close [Reg 0],
    Count, Memcpy 0x200ccf40 (with_nul ''./sbtest/sbtest10.ibd'') 22,
    Syscall NR_openat [Dir_fd, Ptr 0x200ccf40, Imm 0x42, Imm 0x1ff], Count, Save_res 1,
    Syscall NR_fcntl [Reg 1, Imm 4, Imm 0x10000], Count, Store 2 0x200ccf80 (Imm 1), Store 2 0x200ccf82 (Imm 0),
    Store 8 0x200ccf88 (Imm 0), Store 8 0x200ccf90 (Imm 0), Store 4 0x200ccf98 (Imm 0),
    Syscall NR_fcntl [Reg 1, Imm 6, Ptr 0x200ccf80], Count, Syscall NR_lseek [Reg 1, Imm 0, Imm 1], Count,
    Syscall NR_lseek [Reg 1, Imm 0, Imm 2], Count, Syscall NR_lseek [Reg 1, Imm 0, Imm 0], Count]"

definition min_mysql_lseek_pwrite64_9_0_body3 :: "stmt list" where
  "min_mysql_lseek_pwrite64_9_0_body3 = [
    Syscall NR_fallocate [Reg 1, Imm 0, Imm 0x1c000, Imm 0x4000], Count,
    Syscall NR_pwrite64 [Reg 1, Write_buf, Imm 0x4000, Imm 0x1c000], Count,
    Syscall NR_lseek [Reg 1, Imm 0, Imm 1], Count, Syscall NR_lseek [Reg 1, Imm 0, Imm 2], Count,
    Syscall NR_lseek [Reg 1, Imm 0, Imm 0], Count, Syscall NR_fsync [Reg 1], Count,
    Syscall NR_lseek [Reg 1, Imm 0, Imm 1], Count, Syscall NR_lseek [Reg 1, Imm 0, Imm 2], Count,
    Syscall NR_lseek [Reg 1, Imm 0, Imm 0], Count, Syscall NR_fallocate [Reg 1, Imm 0, Imm 0x20000, Imm 0x4000],
    Count, Syscall NR_pwrite64 [Reg 1, Write_buf, Imm 0x4000, Imm 0x20000], Count,
    Syscall NR_lseek [Reg 1, Imm 0, Imm 1], Count, Syscall NR_lseek [Reg 1, Imm 0, Imm 2], Count,
    Syscall NR_lseek [Reg 1, Imm 0, Imm 0], Count, Syscall NR_fsync [Reg 1], Count,
    Syscall NR_lseek [Reg 1, Imm 0, Imm 1], Count, Syscall NR_lseek [Reg 1, Imm 0, Imm 2], Count,
    Syscall NR_lseek [Reg 1, Imm 0, Imm 0], Count]"

definition min_mysql_lseek_pwrite64_9_0_body4 :: "stmt list" where
  "min_mysql_lseek_pwrite64_9_0_body4 = [
    Syscall NR_fallocate [Reg 1, Imm 0, Imm 0x24000, Imm 0x4000], Count,
    Syscall NR_pwrite64 [Reg 1, Write_buf, Imm 0x4000, Imm 0x24000], Count,
    Syscall NR_lseek [Reg 1, Imm 0, Imm 1], Count, Syscall NR_lseek [Reg 1, Imm 0, Imm 2], Count,
    Syscall NR_lseek [Reg 1, Imm 0, Imm 0], Count, Syscall NR_fsync [Reg 1], Count,
    Syscall NR_lseek [Reg 1, Imm 0, Imm 1], Count, Syscall NR_lseek [Reg 1, Imm 0, Imm 2], Count,
    Syscall NR_lseek [Reg 1, Imm 0, Imm 0], Count, Syscall NR_fallocate [Reg 1, Imm 0, Imm 0x28000, Imm 0x4000],
    Count, Syscall NR_pwrite64 [Reg 1, Write_buf, Imm 0x4000, Imm 0x28000], Count,
    Syscall NR_lseek [Reg 1, Imm 0, Imm 1], Count, Syscall NR_lseek [Reg 1, Imm 0, Imm 2], Count,
    Syscall NR_lseek [Reg 1, Imm 0, Imm 0], Count, Syscall NR_fsync [Reg 1], Count,
    Syscall NR_lseek [Reg 1, Imm 0, Imm 1], Count, Syscall NR_lseek [Reg 1, Imm 0, Imm 2], Count,
    Syscall NR_lseek [Reg 1, Imm 0, Imm 0], Count]"

definition min_mysql_lseek_pwrite64_9_0_body5 :: "stmt list" where
  "min_mysql_lseek_pwrite64_9_0_body5 = [
    Syscall NR_fallocate [Reg 1, Imm 0, Imm 0x2c000, Imm 0x4000], Count,
    Syscall NR_pwrite64 [Reg 1, Write_buf, Imm 0x4000, Imm 0x2c000], Count,
    Syscall NR_lseek [Reg 1, Imm 0, Imm 1], Count, Syscall NR_lseek [Reg 1, Imm 0, Imm 2], Count,
    Syscall NR_lseek [Reg 1, Imm 0, Imm 0], Count, Syscall NR_fsync [Reg 1], Count,
    Syscall NR_lseek [Reg 1, Imm 0, Imm 1], Count, Syscall NR_lseek [Reg 1, Imm 0, Imm 2], Count,
    Syscall NR_lseek [Reg 1, Imm 0, Imm 0], Count, Syscall NR_fallocate [Reg 1, Imm 0, Imm 0x30000, Imm 0x4000],
    Count, Syscall NR_pwrite64 [Reg 1, Write_buf, Imm 0x4000, Imm 0x30000], Count,
    Syscall NR_lseek [Reg 1, Imm 0, Imm 1], Count, Syscall NR_lseek [Reg 1, Imm 0, Imm 2], Count,
    Syscall NR_lseek [Reg 1, Imm 0, Imm 0], Count, Syscall NR_fsync [Reg 1], Count,
    Syscall NR_lseek [Reg 1, Imm 0, Imm 1], Count, Syscall NR_lseek [Reg 1, Imm 0, Imm 2], Count,
    Syscall NR_lseek [Reg 1, Imm 0, Imm 0], Count]"

definition min_mysql_lseek_pwrite64_9_0_body6 :: "stmt list" where
  "min_mysql_lseek_pwrite64_9_0_body6 = [
    Syscall NR_fallocate [Reg 1, Imm 0, Imm 0x34000, Imm 0x4000], Count,
    Syscall NR_pwrite64 [Reg 1, Write_buf, Imm 0x4000, Imm 0x34000], Count,
    Syscall NR_lseek [Reg 1, Imm 0, Imm 1], Count, Syscall NR_lseek [Reg 1, Imm 0, Imm 2], Count,
    Syscall NR_lseek [Reg 1, Imm 0, Imm 0], Count, Syscall NR_fsync [Reg 1], Count,
    Syscall NR_lseek [Reg 1, Imm 0, Imm 1], Count, Syscall NR_lseek [Reg 1, Imm 0, Imm 2], Count,
    Syscall NR_lseek [Reg 1, Imm 0, Imm 0], Count, Syscall NR_fallocate [Reg 1, Imm 0, Imm 0x38000, Imm 0x4000],
    Count, Syscall NR_pwrite64 [Reg 1, Write_buf, Imm 0x4000, Imm 0x38000], Count,
    Syscall NR_lseek [Reg 1, Imm 0, Imm 1], Count, Syscall NR_lseek [Reg 1, Imm 0, Imm 2], Count,
    Syscall NR_lseek [Reg 1, Imm 0, Imm 0], Count, Syscall NR_fsync [Reg 1], Count,
    Syscall NR_lseek [Reg 1, Imm 0, Imm 1], Count, Syscall NR_lseek [Reg 1, Imm 0, Imm 2], Count,
    Syscall NR_lseek [Reg 1, Imm 0, Imm 0], Count]"

definition min_mysql_lseek_pwrite64_9_0_body7 :: "stmt list" where
  "min_mysql_lseek_pwrite64_9_0_body7 = [
    Syscall NR_fallocate [Reg 1, Imm 0, Imm 0x3c000, Imm 0x4000], Count,
    Syscall NR_pwrite64 [Reg 1, Write_buf, Imm 0x4000, Imm 0x3c000], Count,
    Syscall NR_lseek [Reg 1, Imm 0, Imm 1], Count, Syscall NR_lseek [Reg 1, Imm 0, Imm 2], Count,
    Syscall NR_lseek [Reg 1, Imm 0, Imm 0], Count, Syscall NR_fsync [Reg 1], Count,
    Syscall NR_lseek [Reg 1, Imm 0, Imm 1], Count, Syscall NR_lseek [Reg 1, Imm 0, Imm 2], Count,
    Syscall NR_lseek [Reg 1, Imm 0, Imm 0], Count, Syscall NR_fallocate [Reg 1, Imm 0, Imm 0x40000, Imm 0x4000],
    Count, Syscall NR_pwrite64 [Reg 1, Write_buf, Imm 0x4000, Imm 0x40000], Count,
    Syscall NR_lseek [Reg 1, Imm 0, Imm 1], Count, Syscall NR_lseek [Reg 1, Imm 0, Imm 2], Count,
    Syscall NR_lseek [Reg 1, Imm 0, Imm 0], Count, Syscall NR_fsync [Reg 1], Count,
    Syscall NR_lseek [Reg 1, Imm 0, Imm 1], Count, Syscall NR_lseek [Reg 1, Imm 0, Imm 2], Count,
    Syscall NR_lseek [Reg 1, Imm 0, Imm 0], Count]"

definition min_mysql_lseek_pwrite64_9_0_body8 :: "stmt list" where
  "min_mysql_lseek_pwrite64_9_0_body8 = [
    Syscall NR_fallocate [Reg 1, Imm 0, Imm 0x44000, Imm 0x4000], Count,
    Syscall NR_pwrite64 [Reg 1, Write_buf, Imm 0x4000, Imm 0x44000], Count,
    Syscall NR_lseek [Reg 1, Imm 0, Imm 1], Count, Syscall NR_lseek [Reg 1, Imm 0, Imm 2], Count,
    Syscall NR_lseek [Reg 1, Imm 0, Imm 0], Count, Syscall NR_fsync [Reg 1], Count,
    Syscall NR_lseek [Reg 1, Imm 0, Imm 1], Count, Syscall NR_lseek [Reg 1, Imm 0, Imm 2], Count,
    Syscall NR_lseek [Reg 1, Imm 0, Imm 0], Count, Syscall NR_fallocate [Reg 1, Imm 0, Imm 0x48000, Imm 0x4000],
    Count, Syscall NR_pwrite64 [Reg 1, Write_buf, Imm 0x4000, Imm 0x48000], Count,
    Syscall NR_lseek [Reg 1, Imm 0, Imm 1], Count, Syscall NR_lseek [Reg 1, Imm 0, Imm 2], Count,
    Syscall NR_lseek [Reg 1, Imm 0, Imm 0], Count, Syscall NR_fsync [Reg 1], Count,
    Syscall NR_lseek [Reg 1, Imm 0, Imm 1], Count, Syscall NR_lseek [Reg 1, Imm 0, Imm 2], Count,
    Syscall NR_lseek [Reg 1, Imm 0, Imm 0], Count]"

definition min_mysql_lseek_pwrite64_9_0_body9 :: "stmt list" where
  "min_mysql_lseek_pwrite64_9_0_body9 = [
    Syscall NR_fallocate [Reg 1, Imm 0, Imm 0x4c000, Imm 0x4000], Count,
    Syscall NR_pwrite64 [Reg 1, Write_buf, Imm 0x4000, Imm 0x4c000], Count,
    Syscall NR_lseek [Reg 1, Imm 0, Imm 1], Count, Syscall NR_lseek [Reg 1, Imm 0, Imm 2], Count,
    Syscall NR_lseek [Reg 1, Imm 0, Imm 0], Count, Syscall NR_fsync [Reg 1], Count,
    Syscall NR_lseek [Reg 1, Imm 0, Imm 1], Count, Syscall NR_lseek [Reg 1, Imm 0, Imm 2], Count,
    Syscall NR_lseek [Reg 1, Imm 0, Imm 0], Count, Syscall NR_fallocate [Reg 1, Imm 0, Imm 0x50000, Imm 0x4000],
    Count, Syscall NR_pwrite64 [Reg 1, Write_buf, Imm 0x4000, Imm 0x50000], Count,
    Syscall NR_lseek [Reg 1, Imm 0, Imm 1], Count, Syscall NR_lseek [Reg 1, Imm 0, Imm 2], Count,
    Syscall NR_lseek [Reg 1, Imm 0, Imm 0], Count, Syscall NR_fsync [Reg 1], Count,
    Syscall NR_lseek [Reg 1, Imm 0, Imm 1], Count, Syscall NR_lseek [Reg 1, Imm 0, Imm 2], Count,
    Syscall NR_lseek [Reg 1, Imm 0, Imm 0], Count]"

definition min_mysql_lseek_pwrite64_9_0_body10 :: "stmt list" where
  "min_mysql_lseek_pwrite64_9_0_body10 = [
    Syscall NR_fallocate [Reg 1, Imm 0, Imm 0x54000, Imm 0x4000], Count,
    Syscall NR_pwrite64 [Reg 1, Write_buf, Imm 0x4000, Imm 0x54000], Count,
    Syscall NR_lseek [Reg 1, Imm 0, Imm 1], Count, Syscall NR_lseek [Reg 1, Imm 0, Imm 2], Count,
    Syscall NR_lseek [Reg 1, Imm 0, Imm 0], Count, Syscall NR_fsync [Reg 1], Count,
    Syscall NR_lseek [Reg 1, Imm 0, Imm 1], Count, Syscall NR_lseek [Reg 1, Imm 0, Imm 2], Count,
    Syscall NR_lseek [Reg 1, Imm 0, Imm 0], Count, Syscall NR_fallocate [Reg 1, Imm 0, Imm 0x58000, Imm 0x4000],
    Count, Syscall NR_pwrite64 [Reg 1, Write_buf, Imm 0x4000, Imm 0x58000], Count,
    Syscall NR_lseek [Reg 1, Imm 0, Imm 1], Count, Syscall NR_lseek [Reg 1, Imm 0, Imm 2], Count,
    Syscall NR_lseek [Reg 1, Imm 0, Imm 0], Count, Syscall NR_fsync [Reg 1], Count,
    Syscall NR_pread64 [Reg 1, Ptr 0x20175d40, Imm 0x4000, Imm 0x50000], Count]"

definition min_mysql_lseek_pwrite64_9_0 :: syz_prog where
  "min_mysql_lseek_pwrite64_9_0 = \<lparr>prog_name = ''min_mysql_lseek_pwrite64_9_0'', prog_family = Mysql_v2,
     subdirs = [''sbtest''],
     filenames = [''./sbtest/sbtest10.ib''], filesizes = [376832],
     max_write_buffer = 114688, init_regs = replicate 2 (- 1),
     reg_body = [], dereg_body = [],
     body = min_mysql_lseek_pwrite64_9_0_body1 @ min_mysql_lseek_pwrite64_9_0_body2 @
       min_mysql_lseek_pwrite64_9_0_body3 @ min_mysql_lseek_pwrite64_9_0_body4 @
       min_mysql_lseek_pwrite64_9_0_body5 @ min_mysql_lseek_pwrite64_9_0_body6 @
       min_mysql_lseek_pwrite64_9_0_body7 @ min_mysql_lseek_pwrite64_9_0_body8 @
       min_mysql_lseek_pwrite64_9_0_body9 @ min_mysql_lseek_pwrite64_9_0_body10\<rparr>"

definition min_mysql_lseek_pwrite64_9_0_target where
  "min_mysql_lseek_pwrite64_9_0_target os_getenv os_inet_pton K = syz_target os_getenv os_inet_pton K min_mysql_lseek_pwrite64_9_0"

lemmas min_mysql_lseek_pwrite64_9_0_defs =
  min_mysql_lseek_pwrite64_9_0_def min_mysql_lseek_pwrite64_9_0_body1_def
  min_mysql_lseek_pwrite64_9_0_body2_def min_mysql_lseek_pwrite64_9_0_body3_def
  min_mysql_lseek_pwrite64_9_0_body4_def min_mysql_lseek_pwrite64_9_0_body5_def
  min_mysql_lseek_pwrite64_9_0_body6_def min_mysql_lseek_pwrite64_9_0_body7_def
  min_mysql_lseek_pwrite64_9_0_body8_def min_mysql_lseek_pwrite64_9_0_body9_def
  min_mysql_lseek_pwrite64_9_0_body10_def

lemma min_mysql_lseek_pwrite64_9_0_ok: "prog_ok min_mysql_lseek_pwrite64_9_0" "calls (body min_mysql_lseek_pwrite64_9_0) = 162"
  by (simp_all add: prog_ok_def min_mysql_lseek_pwrite64_9_0_defs prog_checks)

lemma min_mysql_lseek_pwrite64_9_0_misses: "setup_misses min_mysql_lseek_pwrite64_9_0" "filenames min_mysql_lseek_pwrite64_9_0 \<noteq> []" "reg_body min_mysql_lseek_pwrite64_9_0 = []" "num_regs min_mysql_lseek_pwrite64_9_0 < 2 ^ 32"
  by (simp_all add: setup_misses_def opened_def misses_def path_names_def min_mysql_lseek_pwrite64_9_0_defs prog_checks open_checks)

section \<open>min\_mysql\_lseek\_pwrite64\_2\_0\<close>

definition min_mysql_lseek_pwrite64_2_0_body1 :: "stmt list" where
  "min_mysql_lseek_pwrite64_2_0_body1 = [
    Memcpy 0x208535c0 (with_nul ''./sbtest/sbtest3.ibd'') 21,
    Syscall NR_newfstatat [Dir_fd, Ptr 0x208535c0, Ptr 0x20853600, Imm 0], Count,
    Memcpy 0x20857e40 (with_nul ''./sbtest/sbtest3.ibd'') 21,
    Syscall NR_openat [Dir_fd, Ptr 0x20857e40, Imm 0x42, Imm 0x1ff], Count, Save_res 0,
    Syscall NR_fcntl [Reg 0, Imm 4, Imm 0x10000], Count, Store 2 0x20857e80 (Imm 1), Store 2 0x20857e82 (Imm 0),
    Store 8 0x20857e88 (Imm 0), Store 8 0x20857e90 (Imm 0), Store 4 0x20857e98 (Imm 0),
    Syscall NR_fcntl [Reg 0, Imm 6, Ptr 0x20857e80], Count,
    Syscall NR_fallocate [Reg 0, Imm 0, Imm 0, Imm 0x1c000], Count,
    Syscall NR_ioctl [Reg 0, Imm 0x40049502, Ptr 0x20858000], Count,
    Syscall NR_pwrite64 [Reg 0, Write_buf, Imm 0x1c000, Imm 0], Count, Syscall NR_fsync [Reg 0], Count,
    Syscall NR_pwrite64 [Reg 0, Write_buf, Imm 0x1c000, Imm 0], Count]"

definition min_mysql_lseek_pwrite64_2_0_body2 :: "stmt list" where
  "min_mysql_lseek_pwrite64_2_0_body2 = [
    Syscall NR_fallocate [Reg 0, Imm 3, Imm 0, Imm 0x4000], Count,
    Syscall NR_pwrite64 [Reg 0, Write_buf, Imm 0x4000, Imm 0], Count, Syscall NR_fsync [Reg 0], Count,
    Memcpy 0x2089bfc0 (with_nul ''./sbtest/sbtest3.ibd'') 21,
    Syscall NR_newfstatat [Dir_fd, Ptr 0x2089bfc0, Ptr 0x2089c000, Imm 0], Count, Syscall NR_close [Reg 0],
    Count, Memcpy 0x208c2640 (with_nul ''./sbtest/sbtest3.ibd'') 21,
    Syscall NR_openat [Dir_fd, Ptr 0x208c2640, Imm 0x42, Imm 0x1ff], Count, Save_res 1,
    Syscall NR_fcntl [Reg 1, Imm 4, Imm 0x10000], Count, Store 2 0x208c2680 (Imm 1), Store 2 0x208c2682 (Imm 0),
    Store 8 0x208c2688 (Imm 0), Store 8 0x208c2690 (Imm 0), Store 4 0x208c2698 (Imm 0),
    Syscall NR_fcntl [Reg 1, Imm 6, Ptr 0x208c2680], Count, Syscall NR_lseek [Reg 1, Imm 0, Imm 1], Count,
    Syscall NR_lseek [Reg 1, Imm 0, Imm 2], Count, Syscall NR_lseek [Reg 1, Imm 0, Imm 0], Count]"

definition min_mysql_lseek_pwrite64_2_0_body3 :: "stmt list" where
  "min_mysql_lseek_pwrite64_2_0_body3 = [
    Syscall NR_fallocate [Reg 1, Imm 0, Imm 0x1c000, Imm 0x4000], Count,
    Syscall NR_pwrite64 [Reg 1, Write_buf, Imm 0x4000, Imm 0x1c000], Count,
    Syscall NR_lseek [Reg 1, Imm 0, Imm 1], Count, Syscall NR_lseek [Reg 1, Imm 0, Imm 2], Count,
    Syscall NR_lseek [Reg 1, Imm 0, Imm 0], Count, Syscall NR_fsync [Reg 1], Count,
    Syscall NR_lseek [Reg 1, Imm 0, Imm 1], Count, Syscall NR_lseek [Reg 1, Imm 0, Imm 2], Count,
    Syscall NR_lseek [Reg 1, Imm 0, Imm 0], Count, Syscall NR_fallocate [Reg 1, Imm 0, Imm 0x20000, Imm 0x4000],
    Count, Syscall NR_pwrite64 [Reg 1, Write_buf, Imm 0x4000, Imm 0x20000], Count,
    Syscall NR_lseek [Reg 1, Imm 0, Imm 1], Count, Syscall NR_lseek [Reg 1, Imm 0, Imm 2], Count,
    Syscall NR_lseek [Reg 1, Imm 0, Imm 0], Count, Syscall NR_fsync [Reg 1], Count,
    Syscall NR_lseek [Reg 1, Imm 0, Imm 1], Count, Syscall NR_lseek [Reg 1, Imm 0, Imm 2], Count,
    Syscall NR_lseek [Reg 1, Imm 0, Imm 0], Count]"

definition min_mysql_lseek_pwrite64_2_0_body4 :: "stmt list" where
  "min_mysql_lseek_pwrite64_2_0_body4 = [
    Syscall NR_fallocate [Reg 1, Imm 0, Imm 0x24000, Imm 0x4000], Count,
    Syscall NR_pwrite64 [Reg 1, Write_buf, Imm 0x4000, Imm 0x24000], Count,
    Syscall NR_lseek [Reg 1, Imm 0, Imm 1], Count, Syscall NR_lseek [Reg 1, Imm 0, Imm 2], Count,
    Syscall NR_lseek [Reg 1, Imm 0, Imm 0], Count, Syscall NR_fsync [Reg 1], Count,
    Syscall NR_lseek [Reg 1, Imm 0, Imm 1], Count, Syscall NR_lseek [Reg 1, Imm 0, Imm 2], Count,
    Syscall NR_lseek [Reg 1, Imm 0, Imm 0], Count, Syscall NR_fallocate [Reg 1, Imm 0, Imm 0x28000, Imm 0x4000],
    Count, Syscall NR_pwrite64 [Reg 1, Write_buf, Imm 0x4000, Imm 0x28000], Count,
    Syscall NR_lseek [Reg 1, Imm 0, Imm 1], Count, Syscall NR_lseek [Reg 1, Imm 0, Imm 2], Count,
    Syscall NR_lseek [Reg 1, Imm 0, Imm 0], Count, Syscall NR_fsync [Reg 1], Count,
    Syscall NR_lseek [Reg 1, Imm 0, Imm 1], Count, Syscall NR_lseek [Reg 1, Imm 0, Imm 2], Count,
    Syscall NR_lseek [Reg 1, Imm 0, Imm 0], Count]"

definition min_mysql_lseek_pwrite64_2_0_body5 :: "stmt list" where
  "min_mysql_lseek_pwrite64_2_0_body5 = [
    Syscall NR_fallocate [Reg 1, Imm 0, Imm 0x2c000, Imm 0x4000], Count,
    Syscall NR_pwrite64 [Reg 1, Write_buf, Imm 0x4000, Imm 0x2c000], Count,
    Syscall NR_lseek [Reg 1, Imm 0, Imm 1], Count, Syscall NR_lseek [Reg 1, Imm 0, Imm 2], Count,
    Syscall NR_lseek [Reg 1, Imm 0, Imm 0], Count, Syscall NR_fsync [Reg 1], Count,
    Syscall NR_lseek [Reg 1, Imm 0, Imm 1], Count, Syscall NR_lseek [Reg 1, Imm 0, Imm 2], Count,
    Syscall NR_lseek [Reg 1, Imm 0, Imm 0], Count, Syscall NR_fallocate [Reg 1, Imm 0, Imm 0x30000, Imm 0x4000],
    Count, Syscall NR_pwrite64 [Reg 1, Write_buf, Imm 0x4000, Imm 0x30000], Count,
    Syscall NR_lseek [Reg 1, Imm 0, Imm 1], Count, Syscall NR_lseek [Reg 1, Imm 0, Imm 2], Count,
    Syscall NR_lseek [Reg 1, Imm 0, Imm 0], Count, Syscall NR_fsync [Reg 1], Count,
    Syscall NR_lseek [Reg 1, Imm 0, Imm 1], Count, Syscall NR_lseek [Reg 1, Imm 0, Imm 2], Count,
    Syscall NR_lseek [Reg 1, Imm 0, Imm 0], Count]"

definition min_mysql_lseek_pwrite64_2_0_body6 :: "stmt list" where
  "min_mysql_lseek_pwrite64_2_0_body6 = [
    Syscall NR_fallocate [Reg 1, Imm 0, Imm 0x34000, Imm 0x4000], Count,
    Syscall NR_pwrite64 [Reg 1, Write_buf, Imm 0x4000, Imm 0x34000], Count,
    Syscall NR_lseek [Reg 1, Imm 0, Imm 1], Count, Syscall NR_lseek [Reg 1, Imm 0, Imm 2], Count,
    Syscall NR_lseek [Reg 1, Imm 0, Imm 0], Count, Syscall NR_fsync [Reg 1], Count,
    Syscall NR_lseek [Reg 1, Imm 0, Imm 1], Count, Syscall NR_lseek [Reg 1, Imm 0, Imm 2], Count,
    Syscall NR_lseek [Reg 1, Imm 0, Imm 0], Count, Syscall NR_fallocate [Reg 1, Imm 0, Imm 0x38000, Imm 0x4000],
    Count, Syscall NR_pwrite64 [Reg 1, Write_buf, Imm 0x4000, Imm 0x38000], Count,
    Syscall NR_lseek [Reg 1, Imm 0, Imm 1], Count, Syscall NR_lseek [Reg 1, Imm 0, Imm 2], Count,
    Syscall NR_lseek [Reg 1, Imm 0, Imm 0], Count, Syscall NR_fsync [Reg 1], Count,
    Syscall NR_lseek [Reg 1, Imm 0, Imm 1], Count, Syscall NR_lseek [Reg 1, Imm 0, Imm 2], Count,
    Syscall NR_lseek [Reg 1, Imm 0, Imm 0], Count]"

definition min_mysql_lseek_pwrite64_2_0_body7 :: "stmt list" where
  "min_mysql_lseek_pwrite64_2_0_body7 = [
    Syscall NR_fallocate [Reg 1, Imm 0, Imm 0x3c000, Imm 0x4000], Count,
    Syscall NR_pwrite64 [Reg 1, Write_buf, Imm 0x4000, Imm 0x3c000], Count,
    Syscall NR_lseek [Reg 1, Imm 0, Imm 1], Count, Syscall NR_lseek [Reg 1, Imm 0, Imm 2], Count,
    Syscall NR_lseek [Reg 1, Imm 0, Imm 0], Count, Syscall NR_fsync [Reg 1], Count,
    Syscall NR_lseek [Reg 1, Imm 0, Imm 1], Count, Syscall NR_lseek [Reg 1, Imm 0, Imm 2], Count,
    Syscall NR_lseek [Reg 1, Imm 0, Imm 0], Count, Syscall NR_fallocate [Reg 1, Imm 0, Imm 0x40000, Imm 0x4000],
    Count, Syscall NR_pwrite64 [Reg 1, Write_buf, Imm 0x4000, Imm 0x40000], Count,
    Syscall NR_lseek [Reg 1, Imm 0, Imm 1], Count, Syscall NR_lseek [Reg 1, Imm 0, Imm 2], Count,
    Syscall NR_lseek [Reg 1, Imm 0, Imm 0], Count, Syscall NR_fsync [Reg 1], Count,
    Syscall NR_lseek [Reg 1, Imm 0, Imm 1], Count, Syscall NR_lseek [Reg 1, Imm 0, Imm 2], Count,
    Syscall NR_lseek [Reg 1, Imm 0, Imm 0], Count]"

definition min_mysql_lseek_pwrite64_2_0_body8 :: "stmt list" where
  "min_mysql_lseek_pwrite64_2_0_body8 = [
    Syscall NR_fallocate [Reg 1, Imm 0, Imm 0x44000, Imm 0x4000], Count,
    Syscall NR_pwrite64 [Reg 1, Write_buf, Imm 0x4000, Imm 0x44000], Count,
    Syscall NR_lseek [Reg 1, Imm 0, Imm 1], Count, Syscall NR_lseek [Reg 1, Imm 0, Imm 2], Count,
    Syscall NR_lseek [Reg 1, Imm 0, Imm 0], Count, Syscall NR_fsync [Reg 1], Count,
    Syscall NR_lseek [Reg 1, Imm 0, Imm 1], Count, Syscall NR_lseek [Reg 1, Imm 0, Imm 2], Count,
    Syscall NR_lseek [Reg 1, Imm 0, Imm 0], Count, Syscall NR_fallocate [Reg 1, Imm 0, Imm 0x48000, Imm 0x4000],
    Count, Syscall NR_pwrite64 [Reg 1, Write_buf, Imm 0x4000, Imm 0x48000], Count,
    Syscall NR_lseek [Reg 1, Imm 0, Imm 1], Count, Syscall NR_lseek [Reg 1, Imm 0, Imm 2], Count,
    Syscall NR_lseek [Reg 1, Imm 0, Imm 0], Count, Syscall NR_fsync [Reg 1], Count,
    Syscall NR_lseek [Reg 1, Imm 0, Imm 1], Count, Syscall NR_lseek [Reg 1, Imm 0, Imm 2], Count,
    Syscall NR_lseek [Reg 1, Imm 0, Imm 0], Count]"

definition min_mysql_lseek_pwrite64_2_0_body9 :: "stmt list" where
  "min_mysql_lseek_pwrite64_2_0_body9 = [
    Syscall NR_fallocate [Reg 1, Imm 0, Imm 0x4c000, Imm 0x4000], Count,
    Syscall NR_pwrite64 [Reg 1, Write_buf, Imm 0x4000, Imm 0x4c000], Count,
    Syscall NR_lseek [Reg 1, Imm 0, Imm 1], Count, Syscall NR_lseek [Reg 1, Imm 0, Imm 2], Count,
    Syscall NR_lseek [Reg 1, Imm 0, Imm 0], Count, Syscall NR_fsync [Reg 1], Count,
    Syscall NR_lseek [Reg 1, Imm 0, Imm 1], Count, Syscall NR_lseek [Reg 1, Imm 0, Imm 2], Count,
    Syscall NR_lseek [Reg 1, Imm 0, Imm 0], Count, Syscall NR_fallocate [Reg 1, Imm 0, Imm 0x50000, Imm 0x4000],
    Count, Syscall NR_pwrite64 [Reg 1, Write_buf, Imm 0x4000, Imm 0x50000], Count,
    Syscall NR_lseek [Reg 1, Imm 0, Imm 1], Count, Syscall NR_lseek [Reg 1, Imm 0, Imm 2], Count,
    Syscall NR_lseek [Reg 1, Imm 0, Imm 0], Count, Syscall NR_fsync [Reg 1], Count,
    Syscall NR_lseek [Reg 1, Imm 0, Imm 1], Count, Syscall NR_lseek [Reg 1, Imm 0, Imm 2], Count,
    Syscall NR_lseek [Reg 1, Imm 0, Imm 0], Count]"

definition min_mysql_lseek_pwrite64_2_0_body10 :: "stmt list" where
  "min_mysql_lseek_pwrite64_2_0_body10 = [
    Syscall NR_fallocate [Reg 1, Imm 0, Imm 0x54000, Imm 0x4000], Count,
    Syscall NR_pwrite64 [Reg 1, Write_buf, Imm 0x4000, Imm 0x54000], Count,
    Syscall NR_lseek [Reg 1, Imm 0, Imm 1], Count, Syscall NR_lseek [Reg 1, Imm 0, Imm 2], Count,
    Syscall NR_lseek [Reg 1, Imm 0, Imm 0], Count, Syscall NR_fsync [Reg 1], Count,
    Syscall NR_lseek [Reg 1, Imm 0, Imm 1], Count, Syscall NR_lseek [Reg 1, Imm 0, Imm 2], Count,
    Syscall NR_lseek [Reg 1, Imm 0, Imm 0], Count, Syscall NR_fallocate [Reg 1, Imm 0, Imm 0x58000, Imm 0x4000],
    Count, Syscall NR_pwrite64 [Reg 1, Write_buf, Imm 0x4000, Imm 0x58000], Count,
    Syscall NR_lseek [Reg 1, Imm 0, Imm 1], Count, Syscall NR_lseek [Reg 1, Imm 0, Imm 2], Count,
    Syscall NR_lseek [Reg 1, Imm 0, Imm 0], Count, Syscall NR_fsync [Reg 1], Count,
    Syscall NR_pwrite64 [Reg 1, Write_buf, Imm 0x4000, Imm 0x50000], Count, Syscall NR_fsync [Reg 1], Count,
    Syscall NR_pread64 [Reg 1, Ptr 0x2096cac0, Imm 0x4000, Imm 0x50000], Count]"

definition min_mysql_lseek_pwrite64_2_0 :: syz_prog where
  "min_mysql_lseek_pwrite64_2_0 = \<lparr>prog_name = ''min_mysql_lseek_pwrite64_2_0'', prog_family = Mysql_v2,
     subdirs = [''sbtest''],
     filenames = [''./sbtest/sbtest3.ib''], filesizes = [376832],
     max_write_buffer = 114688, init_regs = replicate 2 (- 1),
     reg_body = [], dereg_body = [],
     body = min_mysql_lseek_pwrite64_2_0_body1 @ min_mysql_lseek_pwrite64_2_0_body2 @
       min_mysql_lseek_pwrite64_2_0_body3 @ min_mysql_lseek_pwrite64_2_0_body4 @
       min_mysql_lseek_pwrite64_2_0_body5 @ min_mysql_lseek_pwrite64_2_0_body6 @
       min_mysql_lseek_pwrite64_2_0_body7 @ min_mysql_lseek_pwrite64_2_0_body8 @
       min_mysql_lseek_pwrite64_2_0_body9 @ min_mysql_lseek_pwrite64_2_0_body10\<rparr>"

definition min_mysql_lseek_pwrite64_2_0_target where
  "min_mysql_lseek_pwrite64_2_0_target os_getenv os_inet_pton K = syz_target os_getenv os_inet_pton K min_mysql_lseek_pwrite64_2_0"

lemmas min_mysql_lseek_pwrite64_2_0_defs =
  min_mysql_lseek_pwrite64_2_0_def min_mysql_lseek_pwrite64_2_0_body1_def
  min_mysql_lseek_pwrite64_2_0_body2_def min_mysql_lseek_pwrite64_2_0_body3_def
  min_mysql_lseek_pwrite64_2_0_body4_def min_mysql_lseek_pwrite64_2_0_body5_def
  min_mysql_lseek_pwrite64_2_0_body6_def min_mysql_lseek_pwrite64_2_0_body7_def
  min_mysql_lseek_pwrite64_2_0_body8_def min_mysql_lseek_pwrite64_2_0_body9_def
  min_mysql_lseek_pwrite64_2_0_body10_def

lemma min_mysql_lseek_pwrite64_2_0_ok: "prog_ok min_mysql_lseek_pwrite64_2_0" "calls (body min_mysql_lseek_pwrite64_2_0) = 164"
  by (simp_all add: prog_ok_def min_mysql_lseek_pwrite64_2_0_defs prog_checks)

lemma min_mysql_lseek_pwrite64_2_0_misses: "setup_misses min_mysql_lseek_pwrite64_2_0" "filenames min_mysql_lseek_pwrite64_2_0 \<noteq> []" "reg_body min_mysql_lseek_pwrite64_2_0 = []" "num_regs min_mysql_lseek_pwrite64_2_0 < 2 ^ 32"
  by (simp_all add: setup_misses_def opened_def misses_def path_names_def min_mysql_lseek_pwrite64_2_0_defs prog_checks open_checks)

end
