(* ===== verification/CSB_Progs_Mysql_d.thy ===== *)
theory CSB_Progs_Mysql_d
  imports CSB_Syz_Files
begin

text \<open>
  Bodies of generated targets of bench/targets/mysql, statement by statement in the order of the
  files syz/<name>.h, and the targets made of them (the files <name>.h). Each passes the check.
\<close>

section \<open>min\_mysql\_read\_write\_0\_1\<close>

definition min_mysql_read_write_0_1_text1 :: string where
  "min_mysql_read_write_0_1_text1 = 
    ''487,21'' @ [CHR 0x0A] @ ''487,0'' @ [CHR 0x0A] @ ''487,18'' @ [CHR 0x0A] @ ''487,16'' @ [CHR 0x0A] @
    ''487,15'' @ [CHR 0x0A] @ ''487,14'' @ [CHR 0x0A] @ ''487,13'' @ [CHR 0x0A] @ ''487,11'' @ [CHR 0x0A] @
    ''487,10'' @ [CHR 0x0A] @ ''487,8'' @ [CHR 0x0A] @ ''487,7'' @ [CHR 0x0A] @ ''487,6'' @ [CHR 0x0A] @
    ''487,5'' @ [CHR 0x0A] @ ''487,4'' @ [CHR 0x0A] @ ''487,3'' @ [CHR 0x0A] @ ''487,2'' @ [CHR 0x0A] @
    ''487,1'' @ [CHR 0x0A] @ ''494,20'' @ [CHR 0x0A] @ ''494,21'' @ [CHR 0x0A] @ ''494,0'' @ [CHR 0x0A] @
    ''494,19'' @ [CHR 0x0A] @ ''494,18'' @ [CHR 0x0A] @ ''494,17'' @ [CHR 0x0A] @ ''494,16'' @ [CHR 0x0A] @
    ''494,15'' @ [CHR 0x0A] @ ''494,14'' @ [CHR 0x0A] @ ''494,13'' @ [CHR 0x0A] @ ''494,12'' @ [CHR 0x0A] @
    ''494,10'' @ [CHR 0x0A] @ ''494,9'' @ [CHR 0x0A] @ ''494,6'' @ [CHR 0x0A] @ ''494,5'' @ [CHR 0x0A] @
    ''494,4'' @ [CHR 0x0A] @ ''494,3'' @ [CHR 0x0A] @ ''494,2'' @ [CHR 0x0A] @ ''494,1'' @ [CHR 0x0A] @
    ''4294967294,1027'' @ [CHR 0x0A] @ ''4294967294,23'' @ [CHR 0x0A] @ ''4294967294,1021'' @ [CHR 0x0A] @
    ''4294967294,974'' @ [CHR 0x0A] @ ''4294967294,976'' @ [CHR 0x0A] @ ''4294967294,987'' @ [CHR 0x0A] @
    ''4294967294,1014'' @ [CHR 0x0A] @ ''4294967294,1018'' @ [CHR 0x0A] @ ''4294967294,1020'' @ [CHR 0x0A] @
    ''4294967294,1015'' @ [CHR 0x0A] @ ''493,21'' @ [CHR 0x0A] @ ''493,0'' @ [CHR 0x0A] @ ''493,18'' @
    [CHR 0x0A] @ ''4243767284,0'' @ [CHR 0x0A] @ ''4294967294,895'' @ [CHR 0x0A] @ ''482,20'' @ [CHR 0x0A] @
    ''482,21'' @ [CHR 0x0A] @ ''482,0'' @ [CHR 0x0A] @ ''481,21'' @ [CHR 0x0A] @ ''481,0'' @ [CHR 0x0A] @
    ''496,21'' @ [CHR 0x0A] @ ''496,0'' @ [CHR 0x0A] @ ''496,18'' @ [CHR 0x0A] @ ''496,17'' @ [CHR 0x0A] @
    ''496,15'' @ [CHR 0x0A] @ ''496,11'' @ [CHR 0x0A] @ ''495,21'' @ [CHR 0x0A] @ ''495,0'' @ [CHR 0x0A] @
    ''495,18'' @ [CHR 0x0A] @ ''495,17'' @ [CHR 0x0A] @ ''4294967294,525'' @ [CHR 0x0A] @
    ''4294967294,524'' @ [CHR 0x0A] @ ''4294967294,523'' @ [CHR 0x0A] @ ''4294967294,466'' @ [CHR 0x0A] @
    ''4294967294,472'' @ [CHR 0x0A] @ ''4294967294,452'' @ [CHR 0x0A] @ ''4294967294,402'' @ [CHR 0x0A] @
    ''4294967294,400'' @ [CHR 0x0A] @ ''4294967294,421'' @ [CHR 0x0A] @ ''4294967294,398'' @ [CHR 0x0A] @
    ''4294967294,406'' @ [CHR 0x0A] @ ''4294967294,416'' @ [CHR 0x0A] @ ''4294967294,410'' @ [CHR 0x0A] @
    ''4294967294,401'' @ [CHR 0x0A] @ ''4294967294,425'' @ [CHR 0x0A] @ ''4294967294,438'' @ [CHR 0x0A] @
    ''484,20'' @ [CHR 0x0A] @ ''484,21'' @ [CHR 0x0A] @ ''484,0'' @ [CHR 0x0A] @ ''484,18'' @ [CHR 0x0A] @
    ''484,17'' @ [CHR 0x0A] @ ''484,16'' @ [CHR 0x0A] @ ''483,21'' @ [CHR 0x0A] @ ''483,0'' @ [CHR 0x0A] @
    ''483,18'' @ [CHR 0x0A] @ ''498,21'' @ [CHR 0x0A] @ ''498,0'' @ [CHR 0x0A] @ ''498,17'' @ [CHR 0x0A] @
    ''498,16'' @ [CHR 0x0A] @ ''498,15'' @ [CHR 0x0A] @ ''498,11'' @ [CHR 0x0A] @ ''497,20'' @ [CHR 0x0A] @
    ''497,21'' @ [CHR 0x0A] @ ''497,0'' @ [CHR 0x0A] @ ''497,18'' @ [CHR 0x0A] @ ''497,16'' @ [CHR 0x0A] @
    ''497,15'' @ [CHR 0x0A] @ ''4294967294,186'' @ [CHR 0x0A] @ ''4294967294,129'' @ [CHR 0x0A] @
    ''4294967294,155'' @ [CHR 0x0A] @ ''4294967294,154'' @ [CHR 0x0A] @ ''4294967294,141'' @ [CHR 0x0A] @
    ''4294967294,140'' @ [CHR 0x0A] @ ''4294967294,139'' @ [CHR 0x0A] @ ''4294967294,138'' @ [CHR 0x0A] @
    ''4294967294,137'' @ [CHR 0x0A] @ ''4294967294,136'' @ [CHR 0x0A] @ ''4294967294,134'' @ [CHR 0x0A] @
    ''4294967294,133'' @ [CHR 0x0A] @ ''4294967279,2'' @ [CHR 0x0A] @ ''4294967279,0'' @ [CHR 0x0A] @
    ''4294967278,88'' @ [CHR 0x0A] @ ''4294967293,131'' @ [CHR 0x0A] @ ''4294967293,130'' @ [CHR 0x0A] @
    ''4294967293,129'' @ [CHR 0x0A] @ ''4294967293,128'' @ [CHR 0x0A] @ ''4294967279,4'' @ [CHR 0x0A] @
    ''4294967279,5'' @ [CHR 0x0A] @ ''4294967279,6'' @ [CHR 0x0A] @ ''4294967279,7'' @ [CHR 0x0A] @
    ''4294967279,8'' @ [CHR 0x0A] @ ''4294967279,9'' @ [CHR 0x0A] @ ''4294967279,10'' @ [CHR 0x0A] @
    ''4294967279,11'' @ [CHR 0x0A] @ ''4294967279,12'' @ [CHR 0x0A] @ ''4294967279,13'' @ [CHR 0x0A] @
    ''4294967279,14'' @ [CHR 0x0A] @ ''4294967279,15'' @ [CHR 0x0A] @ ''4294967279,16'' @ [CHR 0x0A] @
    ''4294967279,17'' @ [CHR 0x0A] @ ''4294967279,18'' @ [CHR 0x0A] @ ''4294967279,19'' @ [CHR 0x0A] @
    ''4294967279,20'' @ [CHR 0x0A] @ ''4294967279,21'' @ [CHR 0x0A] @ ''4294967279,22'' @ [CHR 0x0A] @
    ''4294967279,23'' @ [CHR 0x0A] @ ''4294967279,24'' @ [CHR 0x0A] @ ''4294967279,25'' @ [CHR 0x0A] @
    ''4294967279,26'' @ [CHR 0x0A] @ ''4294967279,27'' @ [CHR 0x0A] @ ''4294967279,28'' @ [CHR 0x0A] @
    ''486,20'' @ [CHR 0x0A] @ ''486,21'' @ [CHR 0x0A] @ ''486,0'' @ [CHR 0x0A] @ ''4294967278,2'' @
    [CHR 0x0A] @ ''486,19'' @ [CHR 0x0A] @ ''486,18'' @ [CHR 0x0A] @ ''486,17'' @ [CHR 0x0A] @ ''486,16'' @
    [CHR 0x0A] @ ''486,15'' @ [CHR 0x0A] @ ''486,14'' @ [CHR 0x0A] @ ''486,13'' @ [CHR 0x0A] @ ''486,12'' @
    [CHR 0x0A] @ ''486,11'' @ [CHR 0x0A] @ ''486,10'' @ [CHR 0x0A] @ ''486,9'' @ [CHR 0x0A] @ ''486,8'' @
    [CHR 0x0A] @ ''486,7'' @ [CHR 0x0A] @ ''486,6'' @ [CHR 0x0A] @ ''486,5'' @ [CHR 0x0A] @ ''486,4'' @
    [CHR 0x0A] @ ''486,3'' @ [CHR 0x0A] @ ''486,2'' @ [CHR 0x0A] @ ''486,1'' @ [CHR 0x0A] @
    ''4294967279,457'' @ [CHR 0x0A] @ ''4294967279,453'' @ [CHR 0x0A] @ ''4294967279,452'' @ [CHR 0x0A] @
    ''4294967279,451'' @ [CHR 0x0A] @ ''4294967279,450'' @ [CHR 0x0A] @ ''4294967279,449'' @ [CHR 0x0A] @
    ''4294967279,448'' @ [CHR 0x0A] @ ''4294967278,0'' @ [CHR 0x0A] @ ''4294967293,127'' @ [CHR 0x0A] @
    ''4294967293,126'' @ [CHR 0x0A] @ ''4294967293,125'' @ [CHR 0x0A] @ ''4294967293,124'' @ [CHR 0x0A] @
    ''4294967293,123'' @ [CHR 0x0A] @ ''4294967293,122'' @ [CHR 0x0A] @ ''4294967293,121'' @ [CHR 0x0A] @
    ''4294967293,120'' @ [CHR 0x0A] @ ''4294967293,119'' @ [CHR 0x0A] @ ''4294967293,118'' @ [CHR 0x0A] @
    ''4294967293,117'' @ [CHR 0x0A] @ ''4294967293,116'' @ [CHR 0x0A] @ ''4294967293,115'' @ [CHR 0x0A] @
    ''4294967293,114'' @ [CHR 0x0A] @ ''4294967293,113'' @ [CHR 0x0A] @ ''4294967293,112'' @ [CHR 0x0A] @
    ''4294967293,111'' @ [CHR 0x0A] @ ''4294967293,110'' @ [CHR 0x0A] @ ''4294967293,109'' @ [CHR 0x0A] @
    ''4294967293,108'' @ [CHR 0x0A] @ ''4294967293,107'' @ [CHR 0x0A] @ ''4294967293,106'' @ [CHR 0x0A] @
    ''485,21'' @ [CHR 0x0A] @ ''485,0'' @ [CHR 0x0A] @ ''485,18'' @ [CHR 0x0A] @ ''485,17'' @ [CHR 0x0A] @
    ''485,16'' @ [CHR 0x0A] @ ''485,15'' @ [CHR 0x0A] @ ''485,13'' @ [CHR 0x0A] @ ''485,12'' @ [CHR 0x0A] @
    ''485,11'' @ [CHR 0x0A] @ ''485,10'' @ [CHR 0x0A] @ ''485,8'' @ [CHR 0x0A] @ ''485,6'' @ [CHR 0x0A] @
    ''485,4'' @ [CHR 0x0A] @ ''485,3'' @ [CHR 0x0A] @ ''485,2'' @ [CHR 0x0A] @ ''485,1'' @ [CHR 0x0A] @
    ''4294967279,444'' @ [CHR 0x0A] @ ''4294967279,442'' @ [CHR 0x0A] @ ''4294967279,440'' @ [CHR 0x0A] @
    ''4294967279,439'' @ [CHR 0x0A] @ ''4294967279,435'' @ [CHR 0x0A] @ ''4294967279,433'' @ [CHR 0x0A] @
    ''4294967279,432'' @ [CHR 0x0A] @ ''4294967279,431'' @ [CHR 0x0A] @ ''4294967279,429'' @ [CHR 0x0A] @
    ''4294967279,383'' @ [CHR 0x0A] @ ''4294967279,382'' @ [CHR 0x0A] @ ''4294967279,381'' @ [CHR 0x0A] @
    ''4294967279,380'' @ [CHR 0x0A] @ ''4294967279,379'' @ [CHR 0x0A] @ ''4294967279,378'' @ [CHR 0x0A] @
    ''4294967279,377'' @ [CHR 0x0A] @ ''4294967278,447'' @ [CHR 0x0A] @ ''4294967278,446'' @ [CHR 0x0A] @
    ''4294967278,445'' @ [CHR 0x0A] @ ''4294967278,444'' @ [CHR 0x0A] @ ''4294967279,376'' @ [CHR 0x0A] @
    ''4294967279,375'' @ [CHR 0x0A] @ ''4294967279,374'' @ [CHR 0x0A] @ ''4294967278,443'' @ [CHR 0x0A] @
    ''4294967278,442'' @ [CHR 0x0A] @ ''4294967278,441'' @ [CHR 0x0A] @ ''4294967279,373'' @ [CHR 0x0A] @
    ''4294967279,372'' @ [CHR 0x0A] @ ''4294967279,371'' @ [CHR 0x0A] @ ''4294967279,370'' @ [CHR 0x0A] @
    ''4294967278,440'' @ [CHR 0x0A] @ ''4294967278,439'' @ [CHR 0x0A] @ ''4294967278,438'' @ [CHR 0x0A] @
    ''4294967278,437'' @ [CHR 0x0A] @ ''4294967278,436'' @ [CHR 0x0A] @ ''4294967278,435'' @ [CHR 0x0A] @
    ''4294967278,434'' @ [CHR 0x0A] @ ''4294967279,369'' @ [CHR 0x0A] @ ''4294967279,368'' @ [CHR 0x0A] @
    ''4294967278,433'' @ [CHR 0x0A] @ ''4294967279,367'' @ [CHR 0x0A] @ ''4294967278,432'' @ [CHR 0x0A] @
    ''4294967279,366'' @ [CHR 0x0A] @ ''4294967278,431'' @ [CHR 0x0A] @ ''4294967278,430'' @ [CHR 0x0A] @
    ''4294967278,429'' @ [CHR 0x0A] @ ''499,20'' @ [CHR 0x0A] @ ''499,21'' @ [CHR 0x0A] @ ''499,0'' @
    [CHR 0x0A] @ ''499,19'' @ [CHR 0x0A] @ ''499,18'' @ [CHR 0x0A] @ ''499,17'' @ [CHR 0x0A] @ ''499,16'' @
    [CHR 0x0A] @ ''499,15'' @ [CHR 0x0A] @ ''499,13'' @ [CHR 0x0A] @ ''499,12'' @ [CHR 0x0A] @ ''499,10'' @
    [CHR 0x0A] @ ''499,8'' @ [CHR 0x0A] @ ''499,7'' @ [CHR 0x0A] @ ''499,6'' @ [CHR 0x0A] @ ''499,5'' @
    [CHR 0x0A] @ ''499,4'' @ [CHR 0x0A] @ ''499,3'' @ [CHR 0x0A] @ ''499,2'' @ [CHR 0x0A] @ ''499,1'' @
    [CHR 0x0A] @ ''491,20'' @ [CHR 0x0A] @ ''491,21'' @ [CHR 0x0A] @ ''491,0'' @ [CHR 0x0A] @ ''491,19'' @
    [CHR 0x0A] @ ''491,18'' @ [CHR 0x0A] @ ''491,17'' @ [CHR 0x0A] @ ''491,16'' @ [CHR 0x0A] @ ''491,15'' @
    [CHR 0x0A] @ ''491,13'' @ [CHR 0x0A] @ ''491,12'' @ [CHR 0x0A] @ ''491,11'' @ [CHR 0x0A] @ ''491,8'' @
    [CHR 0x0A] @ ''491,7'' @ [CHR 0x0A] @ ''491,4'' @ [CHR 0x0A] @ ''491,3'' @ [CHR 0x0A] @ ''491,2'' @
    [CHR 0x0A] @ ''491,1'' @ [CHR 0x0A] @ ''4294967279,319'' @ [CHR 0x0A] @ ''4294967279,318'' @
    [CHR 0x0A] @ ''4294967279,317'' @ [CHR 0x0A] @ ''4294967279,316'' @ [CHR 0x0A] @ ''4294967279,315'' @
    [CHR 0x0A] @ ''4294967278,298'' @ [CHR 0x0A] @ ''4294967278,297'' @ [CHR 0x0A] @ ''4294967278,296'' @
    [CHR 0x0A] @ ''4294967278,295'' @ [CHR 0x0A] @ ''4294967278,294'' @ [CHR 0x0A] @ ''4294967278,293'' @
    [CHR 0x0A] @ ''4294967278,292'' @ [CHR 0x0A] @ ''4294967278,291'' @ [CHR 0x0A] @ ''4294967278,290'' @
    [CHR 0x0A] @ ''4294967278,289'' @ [CHR 0x0A] @ ''4294967278,319'' @ [CHR 0x0A] @ ''4294967278,318'' @
    [CHR 0x0A] @ ''4294967278,317'' @ [CHR 0x0A] @ ''4294967278,316'' @ [CHR 0x0A] @ ''4294967278,315'' @
    [CHR 0x0A] @ ''4294967278,309'' @ [CHR 0x0A] @ ''4294967279,140'' @ [CHR 0x0A] @ ''4294967278,255'' @
    [CHR 0x0A] @ ''4294967278,253'' @ [CHR 0x0A] @ ''4294967278,252'' @ [CHR 0x0A] @ ''4294967278,251'' @
    [CHR 0x0A] @ ''4294967278,250'' @ [CHR 0x0A] @ ''4294967278,248'' @ [CHR 0x0A] @ ''4294967278,246'' @
    [CHR 0x0A] @ ''4294967278,244'' @ [CHR 0x0A] @ ''4294967278,243'' @ [CHR 0x0A] @ ''4294967278,237'' @
    [CHR 0x0A] @ ''4294967278,236'' @ [CHR 0x0A] @ ''4294967278,235'' @ [CHR 0x0A] @ ''4294967278,231'' @
    [CHR 0x0A] @ ''4294967278,230'' @ [CHR 0x0A] @ ''4294967278,228'' @ [CHR 0x0A] @ ''4294967278,226'' @
    [CHR 0x0A] @ ''4294967278,225'' @ [CHR 0x0A] @ ''4294967278,224'' @ [CHR 0x0A] @ ''4294967278,222'' @
    [CHR 0x0A] @ ''4294967278,220'' @ [CHR 0x0A] @ ''4294967279,88'' @ [CHR 0x0A] @ ''480,21'' @
    [CHR 0x0A] @ ''480,0'' @ [CHR 0x0A] @ ''480,19'' @ [CHR 0x0A] @ ''480,18'' @ [CHR 0x0A] @ ''480,17'' @
    [CHR 0x0A] @ ''480,16'' @ [CHR 0x0A] @ ''480,14'' @ [CHR 0x0A] @ ''480,13'' @ [CHR 0x0A] @ ''480,12'' @
    [CHR 0x0A] @ ''480,10'' @ [CHR 0x0A] @ ''480,9'' @ [CHR 0x0A] @ ''480,8'' @ [CHR 0x0A] @ ''480,7'' @
    [CHR 0x0A] @ ''480,6'' @ [CHR 0x0A] @ ''480,5'' @ [CHR 0x0A] @ ''480,4'' @ [CHR 0x0A] @ ''480,3'' @
    [CHR 0x0A] @ ''480,2'' @ [CHR 0x0A] @ ''480,1'' @ [CHR 0x0A] @ ''4294967278,146'' @ [CHR 0x0A] @
    ''0,0'' @ [CHR 0x0A] @ ''4294967279,64'' @ [CHR 0x0A] @ ''4294967279,65'' @ [CHR 0x0A] @
    ''4294967279,66'' @ [CHR 0x0A] @ ''4294967279,67'' @ [CHR 0x0A] @ ''4294967279,68'' @ [CHR 0x0A] @
    ''4294967279,69'' @ [CHR 0x0A] @ ''4294967279,70'' @ [CHR 0x0A] @ ''4294967279,71'' @ [CHR 0x0A] @
    ''4294967279,72'' @ [CHR 0x0A] @ ''42''"

lemma length_min_mysql_read_write_0_1_text1: "length min_mysql_read_write_0_1_text1 = 4096"
  by (simp add: min_mysql_read_write_0_1_text1_def with_nul_def)

definition min_mysql_read_write_0_1_body1 :: "stmt list" where
  "min_mysql_read_write_0_1_body1 = [
    Memcpy 0x200001c0 (with_nul ''./var/lib/mysql/ib_buffer_pool'') 31,
    Syscall NR_readlinkat [Dir_fd, Ptr 0x200001c0, Ptr 0x20000200, Imm 0x80], Count,
    Memcpy 0x200002c0 (with_nul ''./var/lib/mysql/ib_buffer_pool'') 31,
    Syscall NR_openat [Dir_fd, Ptr 0x200002c0, Imm 0x40, Imm 0x1ff], Count, Save_res 0,
    Syscall NR_read [Reg 0, Ptr 0x200003c0, Imm 0xf44], Count, Syscall NR_read [Reg 0, Ptr 0x20001340, Imm 0],
    Count, Syscall NR_lseek [Reg 0, Imm 0, Imm 0], Count, Syscall NR_read [Reg 0, Ptr 0x20001380, Imm 0xf44],
    Count, Syscall NR_close [Reg 0], Count, Memcpy 0x2021e540 (with_nul ''./var/lib/mysql/ib_buffer_pool'') 31,
    Syscall NR_readlinkat [Dir_fd, Ptr 0x2021e540, Ptr 0x2021e580, Imm 0x80], Count,
    Memcpy 0x2021e640 (with_nul ''./var/lib/mysql/ib_buffer_pool.incomplete'') 42,
    Syscall NR_openat [Dir_fd, Ptr 0x2021e640, Imm 0x241, Imm 0x1ff], Count, Save_res 1,
    Memcpy 0x2021e740 min_mysql_read_write_0_1_text1 4096, Syscall NR_write [Reg 1, Ptr 0x2021e740, Imm 0x1000],
    Count,
    Memcpy 0x2021f740 (''94967279,73'' @ [CHR 0x0A] @ ''4294967279,74'' @ [CHR 0x0A] @ ''4294967279,75'' @ [CHR 0x0A] @ ''4294967279,76'' @ [CHR 0x0A] @ ''4294967279,77'' @ [CHR 0x0A] @ ''4294967279,78'' @ [CHR 0x0A] @ ''4294967279,79'' @ [CHR 0x0A]) 96,
    Syscall NR_write [Reg 1, Ptr 0x2021f740, Imm 0x60], Count, Syscall NR_close [Reg 1], Count]"

definition min_mysql_read_write_0_1_body2 :: "stmt list" where
  "min_mysql_read_write_0_1_body2 = [
    Memcpy 0x2021f7c0 (with_nul ''./var/lib/mysql/ib_buffer_pool'') 31,
    Syscall NR_unlinkat [Dir_fd, Ptr 0x2021f7c0, Imm 0], Count,
    Memcpy 0x2021f800 (with_nul ''/var/lib/mysql/ib_buffer_pool.incomplete'') 41,
    Memcpy 0x2021f840 (with_nul ''/var/lib/mysql/ib_buffer_pool'') 30,
    Syscall NR_renameat [Imm 0xffffff9c, Ptr 0x2021f800, Imm 0xffffff9c, Ptr 0x2021f840], Count]"

definition min_mysql_read_write_0_1 :: syz_prog where
  "min_mysql_read_write_0_1 = \<lparr>prog_name = ''min_mysql_read_write_0_1'', prog_family = Mysql,
     subdirs = [''var/lib/mysql'', ''./var/lib/mysql/ib_buffer_pool''],
     filenames = [''./var/lib/mysql/ib_buffer_poo''], filesizes = [0],
     max_write_buffer = 0, init_regs = replicate 2 (- 1),
     reg_body = [], dereg_body = [],
     body = min_mysql_read_write_0_1_body1 @ min_mysql_read_write_0_1_body2\<rparr>"

definition min_mysql_read_write_0_1_target where
  "min_mysql_read_write_0_1_target os_getenv os_inet_pton K = syz_target os_getenv os_inet_pton K min_mysql_read_write_0_1"

lemmas min_mysql_read_write_0_1_defs =
  min_mysql_read_write_0_1_def min_mysql_read_write_0_1_body1_def min_mysql_read_write_0_1_body2_def

lemma min_mysql_read_write_0_1_ok: "prog_ok min_mysql_read_write_0_1" "calls (body min_mysql_read_write_0_1) = 14"
  by (simp_all add: prog_ok_def min_mysql_read_write_0_1_defs prog_checks length_min_mysql_read_write_0_1_text1)

lemma min_mysql_read_write_0_1_misses: "setup_misses min_mysql_read_write_0_1" "filenames min_mysql_read_write_0_1 \<noteq> []" "reg_body min_mysql_read_write_0_1 = []" "num_regs min_mysql_read_write_0_1 < 2 ^ 32"
  by (simp_all add: setup_misses_def opened_def misses_def path_names_def min_mysql_read_write_0_1_defs prog_checks open_checks)

section \<open>min\_mysql\_newfstatat\_0\_1\<close>

definition min_mysql_newfstatat_0_1_body1 :: "stmt list" where
  "min_mysql_newfstatat_0_1_body1 = [
    Memset 0x20000500 0 1, Syscall NR_newfstatat [Dir_fd, Ptr 0x20000500, Ptr 0x20000540, Imm 0x1000], Count,
    Memset 0x20000940 0 1, Syscall NR_newfstatat [Dir_fd, Ptr 0x20000940, Ptr 0x20000980, Imm 0x1000], Count,
    Memset 0x20000d80 0 1, Syscall NR_newfstatat [Dir_fd, Ptr 0x20000d80, Ptr 0x20000dc0, Imm 0x1000], Count]"

definition min_mysql_newfstatat_0_1_body2 :: "stmt list" where
  "min_mysql_newfstatat_0_1_body2 = [
    Memset 0x20000e80 0 1, Syscall NR_newfstatat [Dir_fd, Ptr 0x20000e80, Ptr 0x20000ec0, Imm 0x1000], Count,
    Memset 0x20000f80 0 1, Syscall NR_newfstatat [Dir_fd, Ptr 0x20000f80, Ptr 0x20011680, Imm 0x1000], Count,
    Memset 0x20011a40 0 1, Syscall NR_newfstatat [Dir_fd, Ptr 0x20011a40, Ptr 0x20011a80, Imm 0x1000], Count]"

definition min_mysql_newfstatat_0_1_body3 :: "stmt list" where
  "min_mysql_newfstatat_0_1_body3 = [
    Memset 0x20011e80 0 1, Syscall NR_newfstatat [Dir_fd, Ptr 0x20011e80, Ptr 0x20011ec0, Imm 0x1000], Count,
    Memset 0x20011f80 0 1, Syscall NR_newfstatat [Dir_fd, Ptr 0x20011f80, Ptr 0x2002c340, Imm 0x1000], Count,
    Memset 0x2002c700 0 1, Syscall NR_newfstatat [Dir_fd, Ptr 0x2002c700, Ptr 0x2002c740, Imm 0x1000], Count]"

definition min_mysql_newfstatat_0_1_body4 :: "stmt list" where
  "min_mysql_newfstatat_0_1_body4 = [
    Memset 0x2002cb40 0 1, Syscall NR_newfstatat [Dir_fd, Ptr 0x2002cb40, Ptr 0x2002cb80, Imm 0x1000], Count,
    Memset 0x2002cf80 0 1, Syscall NR_newfstatat [Dir_fd, Ptr 0x2002cf80, Ptr 0x20040000, Imm 0x1000], Count,
    Memset 0x200403c0 0 1, Syscall NR_newfstatat [Dir_fd, Ptr 0x200403c0, Ptr 0x20040400, Imm 0x1000], Count]"

definition min_mysql_newfstatat_0_1_body5 :: "stmt list" where
  "min_mysql_newfstatat_0_1_body5 = [
    Memset 0x20040800 0 1, Syscall NR_newfstatat [Dir_fd, Ptr 0x20040800, Ptr 0x20040840, Imm 0x1000], Count,
    Memset 0x20040c40 0 1, Syscall NR_newfstatat [Dir_fd, Ptr 0x20040c40, Ptr 0x20040c80, Imm 0x1000], Count,
    Memset 0x20040d40 0 1, Syscall NR_newfstatat [Dir_fd, Ptr 0x20040d40, Ptr 0x20040d80, Imm 0x1000], Count]"

definition min_mysql_newfstatat_0_1_body6 :: "stmt list" where
  "min_mysql_newfstatat_0_1_body6 = [
    Memset 0x20040e40 0 1, Syscall NR_newfstatat [Dir_fd, Ptr 0x20040e40, Ptr 0x20040e80, Imm 0x1000], Count,
    Memset 0x20040f40 0 1, Syscall NR_newfstatat [Dir_fd, Ptr 0x20040f40, Ptr 0x20040f80, Imm 0x1000], Count,
    Memset 0x2005ad40 0 1, Syscall NR_newfstatat [Dir_fd, Ptr 0x2005ad40, Ptr 0x2005ad80, Imm 0x1000], Count]"

definition min_mysql_newfstatat_0_1_body7 :: "stmt list" where
  "min_mysql_newfstatat_0_1_body7 = [
    Memset 0x2005ae40 0 1, Syscall NR_newfstatat [Dir_fd, Ptr 0x2005ae40, Ptr 0x2005ae80, Imm 0x1000], Count,
    Memset 0x2005af40 0 1, Syscall NR_newfstatat [Dir_fd, Ptr 0x2005af40, Ptr 0x2005af80, Imm 0x1000], Count,
    Memset 0x20075a00 0 1, Syscall NR_newfstatat [Dir_fd, Ptr 0x20075a00, Ptr 0x20075a40, Imm 0x1000], Count]"

definition min_mysql_newfstatat_0_1_body8 :: "stmt list" where
  "min_mysql_newfstatat_0_1_body8 = [
    Memset 0x20075e40 0 1, Syscall NR_newfstatat [Dir_fd, Ptr 0x20075e40, Ptr 0x20075e80, Imm 0x1000], Count,
    Memset 0x20075f40 0 1, Syscall NR_newfstatat [Dir_fd, Ptr 0x20075f40, Ptr 0x20075f80, Imm 0x1000], Count,
    Memset 0x2008e6c0 0 1, Syscall NR_newfstatat [Dir_fd, Ptr 0x2008e6c0, Ptr 0x2008e700, Imm 0x1000], Count]"

definition min_mysql_newfstatat_0_1_body9 :: "stmt list" where
  "min_mysql_newfstatat_0_1_body9 = [
    Memset 0x2008eb00 0 1, Syscall NR_newfstatat [Dir_fd, Ptr 0x2008eb00, Ptr 0x2008eb40, Imm 0x1000], Count,
    Memset 0x2008ef40 0 1, Syscall NR_newfstatat [Dir_fd, Ptr 0x2008ef40, Ptr 0x2008ef80, Imm 0x1000], Count,
    Memset 0x200a9380 0 1, Syscall NR_newfstatat [Dir_fd, Ptr 0x200a9380, Ptr 0x200a93c0, Imm 0x1000], Count]"

definition min_mysql_newfstatat_0_1_body10 :: "stmt list" where
  "min_mysql_newfstatat_0_1_body10 = [
    Memset 0x200a97c0 0 1, Syscall NR_newfstatat [Dir_fd, Ptr 0x200a97c0, Ptr 0x200a9800, Imm 0x1000], Count,
    Memset 0x200a9c00 0 1, Syscall NR_newfstatat [Dir_fd, Ptr 0x200a9c00, Ptr 0x200a9c40, Imm 0x1000], Count,
    Memset 0x200a9d00 0 1, Syscall NR_newfstatat [Dir_fd, Ptr 0x200a9d00, Ptr 0x200a9d40, Imm 0x1000], Count]"

definition min_mysql_newfstatat_0_1_body11 :: "stmt list" where
  "min_mysql_newfstatat_0_1_body11 = [
    Memset 0x200a9e00 0 1, Syscall NR_newfstatat [Dir_fd, Ptr 0x200a9e00, Ptr 0x200a9e40, Imm 0x1000], Count,
    Memset 0x200a9f00 0 1, Syscall NR_newfstatat [Dir_fd, Ptr 0x200a9f00, Ptr 0x200a9f40, Imm 0x1000], Count,
    Memset 0x200bdd00 0 1, Syscall NR_newfstatat [Dir_fd, Ptr 0x200bdd00, Ptr 0x200bdd40, Imm 0x1000], Count]"

definition min_mysql_newfstatat_0_1_body12 :: "stmt list" where
  "min_mysql_newfstatat_0_1_body12 = [
    Memset 0x200bde00 0 1, Syscall NR_newfstatat [Dir_fd, Ptr 0x200bde00, Ptr 0x200bde40, Imm 0x1000], Count,
    Memset 0x200bdf00 0 1, Syscall NR_newfstatat [Dir_fd, Ptr 0x200bdf00, Ptr 0x200bdf40, Imm 0x1000], Count,
    Memset 0x200d79c0 0 1, Syscall NR_newfstatat [Dir_fd, Ptr 0x200d79c0, Ptr 0x200d7a00, Imm 0x1000], Count]"

definition min_mysql_newfstatat_0_1_body13 :: "stmt list" where
  "min_mysql_newfstatat_0_1_body13 = [
    Memset 0x200d7e00 0 1, Syscall NR_newfstatat [Dir_fd, Ptr 0x200d7e00, Ptr 0x200d7e40, Imm 0x1000], Count,
    Memset 0x200d7f00 0 1, Syscall NR_newfstatat [Dir_fd, Ptr 0x200d7f00, Ptr 0x200d7f40, Imm 0x1000], Count,
    Memset 0x200f0680 0 1, Syscall NR_newfstatat [Dir_fd, Ptr 0x200f0680, Ptr 0x200f06c0, Imm 0x1000], Count]"

definition min_mysql_newfstatat_0_1_body14 :: "stmt list" where
  "min_mysql_newfstatat_0_1_body14 = [
    Memset 0x200f0ac0 0 1, Syscall NR_newfstatat [Dir_fd, Ptr 0x200f0ac0, Ptr 0x200f0b00, Imm 0x1000], Count,
    Memset 0x200f0f00 0 1, Syscall NR_newfstatat [Dir_fd, Ptr 0x200f0f00, Ptr 0x200f0f40, Imm 0x1000], Count,
    Memset 0x2010a340 0 1, Syscall NR_newfstatat [Dir_fd, Ptr 0x2010a340, Ptr 0x2010a380, Imm 0x1000], Count]"

definition min_mysql_newfstatat_0_1_body15 :: "stmt list" where
  "min_mysql_newfstatat_0_1_body15 = [
    Memset 0x2010a780 0 1, Syscall NR_newfstatat [Dir_fd, Ptr 0x2010a780, Ptr 0x2010a7c0, Imm 0x1000], Count,
    Memset 0x2010abc0 0 1, Syscall NR_newfstatat [Dir_fd, Ptr 0x2010abc0, Ptr 0x2010ac00, Imm 0x1000], Count,
    Memset 0x2011e000 0 1, Syscall NR_newfstatat [Dir_fd, Ptr 0x2011e000, Ptr 0x2011e040, Imm 0x1000], Count]"

definition min_mysql_newfstatat_0_1_body16 :: "stmt list" where
  "min_mysql_newfstatat_0_1_body16 = [
    Memset 0x2011e440 0 1, Syscall NR_newfstatat [Dir_fd, Ptr 0x2011e440, Ptr 0x2011e480, Imm 0x1000], Count,
    Memset 0x2011e880 0 1, Syscall NR_newfstatat [Dir_fd, Ptr 0x2011e880, Ptr 0x2011e8c0, Imm 0x1000], Count,
    Memset 0x2011ecc0 0 1, Syscall NR_newfstatat [Dir_fd, Ptr 0x2011ecc0, Ptr 0x2011ed00, Imm 0x1000], Count]"

definition min_mysql_newfstatat_0_1_body17 :: "stmt list" where
  "min_mysql_newfstatat_0_1_body17 = [
    Memset 0x2011edc0 0 1, Syscall NR_newfstatat [Dir_fd, Ptr 0x2011edc0, Ptr 0x2011ee00, Imm 0x1000], Count,
    Memset 0x2011eec0 0 1, Syscall NR_newfstatat [Dir_fd, Ptr 0x2011eec0, Ptr 0x2011ef00, Imm 0x1000], Count,
    Memset 0x2011efc0 0 1, Syscall NR_newfstatat [Dir_fd, Ptr 0x2011efc0, Ptr 0x201389c0, Imm 0x1000], Count]"

definition min_mysql_newfstatat_0_1_body18 :: "stmt list" where
  "min_mysql_newfstatat_0_1_body18 = [
    Memset 0x20138dc0 0 1, Syscall NR_newfstatat [Dir_fd, Ptr 0x20138dc0, Ptr 0x20138e00, Imm 0x1000], Count,
    Memset 0x20138ec0 0 1, Syscall NR_newfstatat [Dir_fd, Ptr 0x20138ec0, Ptr 0x20138f00, Imm 0x1000], Count,
    Memset 0x20138fc0 0 1, Syscall NR_newfstatat [Dir_fd, Ptr 0x20138fc0, Ptr 0x20152680, Imm 0x1000], Count]"

definition min_mysql_newfstatat_0_1_body19 :: "stmt list" where
  "min_mysql_newfstatat_0_1_body19 = [
    Memset 0x20152a80 0 1, Syscall NR_newfstatat [Dir_fd, Ptr 0x20152a80, Ptr 0x20152ac0, Imm 0x1000], Count,
    Memset 0x20152ec0 0 1, Syscall NR_newfstatat [Dir_fd, Ptr 0x20152ec0, Ptr 0x20152f00, Imm 0x1000], Count,
    Memset 0x20152fc0 0 1, Syscall NR_newfstatat [Dir_fd, Ptr 0x20152fc0, Ptr 0x2016b340, Imm 0x1000], Count]"

definition min_mysql_newfstatat_0_1_body20 :: "stmt list" where
  "min_mysql_newfstatat_0_1_body20 = [
    Memset 0x2016b740 0 1, Syscall NR_newfstatat [Dir_fd, Ptr 0x2016b740, Ptr 0x2016b780, Imm 0x1000], Count,
    Memset 0x2016bb80 0 1, Syscall NR_newfstatat [Dir_fd, Ptr 0x2016bb80, Ptr 0x2016bbc0, Imm 0x1000], Count,
    Memset 0x2016bfc0 0 1, Syscall NR_newfstatat [Dir_fd, Ptr 0x2016bfc0, Ptr 0x2017f000, Imm 0x1000], Count]"

definition min_mysql_newfstatat_0_1_body21 :: "stmt list" where
  "min_mysql_newfstatat_0_1_body21 = [
    Memset 0x2017f400 0 1, Syscall NR_newfstatat [Dir_fd, Ptr 0x2017f400, Ptr 0x2017f440, Imm 0x1000], Count,
    Memset 0x201cf000 0 1, Syscall NR_newfstatat [Dir_fd, Ptr 0x201cf000, Ptr 0x201cf040, Imm 0x1000], Count,
    Memset 0x201cf780 0 1, Syscall NR_newfstatat [Dir_fd, Ptr 0x201cf780, Ptr 0x201cf7c0, Imm 0x1000], Count]"

definition min_mysql_newfstatat_0_1_body22 :: "stmt list" where
  "min_mysql_newfstatat_0_1_body22 = [
    Memset 0x201cfa40 0 1, Syscall NR_newfstatat [Dir_fd, Ptr 0x201cfa40, Ptr 0x201cfa80, Imm 0x1000], Count,
    Memset 0x201d02c0 0 1, Syscall NR_newfstatat [Dir_fd, Ptr 0x201d02c0, Ptr 0x201d0300, Imm 0x1000], Count,
    Memset 0x201d0380 0 1, Syscall NR_newfstatat [Dir_fd, Ptr 0x201d0380, Ptr 0x201d03c0, Imm 0x1000], Count]"

definition min_mysql_newfstatat_0_1_body23 :: "stmt list" where
  "min_mysql_newfstatat_0_1_body23 = [
    Memset 0x2020f740 0 1, Syscall NR_newfstatat [Dir_fd, Ptr 0x2020f740, Ptr 0x2020f780, Imm 0x1000], Count,
    Memset 0x202676c0 0 1, Syscall NR_newfstatat [Dir_fd, Ptr 0x202676c0, Ptr 0x20267700, Imm 0x1000], Count,
    Memset 0x20267dc0 0 1, Syscall NR_newfstatat [Dir_fd, Ptr 0x20267dc0, Ptr 0x20267e00, Imm 0x1000], Count]"

definition min_mysql_newfstatat_0_1_body24 :: "stmt list" where
  "min_mysql_newfstatat_0_1_body24 = [
    Memset 0x20267ec0 0 1, Syscall NR_newfstatat [Dir_fd, Ptr 0x20267ec0, Ptr 0x20267f00, Imm 0x1000], Count,
    Memset 0x2026e300 0 1, Syscall NR_newfstatat [Dir_fd, Ptr 0x2026e300, Ptr 0x2026e340, Imm 0x1000], Count,
    Memset 0x2026e680 0 1, Syscall NR_newfstatat [Dir_fd, Ptr 0x2026e680, Ptr 0x2026e6c0, Imm 0x1000], Count]"

definition min_mysql_newfstatat_0_1_body25 :: "stmt list" where
  "min_mysql_newfstatat_0_1_body25 = [
    Memset 0x2026ecc0 0 1, Syscall NR_newfstatat [Dir_fd, Ptr 0x2026ecc0, Ptr 0x2026ed00, Imm 0x1000], Count,
    Memset 0x20276c40 0 1, Syscall NR_newfstatat [Dir_fd, Ptr 0x20276c40, Ptr 0x20276c80, Imm 0x1000], Count,
    Memset 0x2034f440 0 1, Syscall NR_newfstatat [Dir_fd, Ptr 0x2034f440, Ptr 0x2034f480, Imm 0x1000], Count]"

definition min_mysql_newfstatat_0_1_body26 :: "stmt list" where
  "min_mysql_newfstatat_0_1_body26 = [
    Memset 0x2034fc00 0 1, Syscall NR_newfstatat [Dir_fd, Ptr 0x2034fc00, Ptr 0x2034fc40, Imm 0x1000], Count,
    Memset 0x2034fec0 0 1, Syscall NR_newfstatat [Dir_fd, Ptr 0x2034fec0, Ptr 0x2034ff00, Imm 0x1000], Count,
    Memset 0x203501c0 0 1, Syscall NR_newfstatat [Dir_fd, Ptr 0x203501c0, Ptr 0x20350200, Imm 0x1000], Count]"

definition min_mysql_newfstatat_0_1_body27 :: "stmt list" where
  "min_mysql_newfstatat_0_1_body27 = [
    Memset 0x20350980 0 1, Syscall NR_newfstatat [Dir_fd, Ptr 0x20350980, Ptr 0x203509c0, Imm 0x1000], Count,
    Memset 0x20350c40 0 1, Syscall NR_newfstatat [Dir_fd, Ptr 0x20350c40, Ptr 0x20350c80, Imm 0x1000], Count,
    Memset 0x203516c0 0 1, Syscall NR_newfstatat [Dir_fd, Ptr 0x203516c0, Ptr 0x20351700, Imm 0x1000], Count,
    Memset 0x20366cc0 0 1, Syscall NR_newfstatat [Dir_fd, Ptr 0x20366cc0, Ptr 0x20366d00, Imm 0x1000], Count]"

definition min_mysql_newfstatat_0_1 :: syz_prog where
  "min_mysql_newfstatat_0_1 = \<lparr>prog_name = ''min_mysql_newfstatat_0_1'', prog_family = Mysql,
     subdirs = [''.''],
     filenames = [], filesizes = [],
     max_write_buffer = 0, init_regs = [],
     reg_body = [], dereg_body = [],
     body = min_mysql_newfstatat_0_1_body1 @ min_mysql_newfstatat_0_1_body2 @ min_mysql_newfstatat_0_1_body3 @
       min_mysql_newfstatat_0_1_body4 @ min_mysql_newfstatat_0_1_body5 @ min_mysql_newfstatat_0_1_body6 @
       min_mysql_newfstatat_0_1_body7 @ min_mysql_newfstatat_0_1_body8 @ min_mysql_newfstatat_0_1_body9 @
       min_mysql_newfstatat_0_1_body10 @ min_mysql_newfstatat_0_1_body11 @ min_mysql_newfstatat_0_1_body12 @
       min_mysql_newfstatat_0_1_body13 @ min_mysql_newfstatat_0_1_body14 @ min_mysql_newfstatat_0_1_body15 @
       min_mysql_newfstatat_0_1_body16 @ min_mysql_newfstatat_0_1_body17 @ min_mysql_newfstatat_0_1_body18 @
       min_mysql_newfstatat_0_1_body19 @ min_mysql_newfstatat_0_1_body20 @ min_mysql_newfstatat_0_1_body21 @
       min_mysql_newfstatat_0_1_body22 @ min_mysql_newfstatat_0_1_body23 @ min_mysql_newfstatat_0_1_body24 @
       min_mysql_newfstatat_0_1_body25 @ min_mysql_newfstatat_0_1_body26 @ min_mysql_newfstatat_0_1_body27\<rparr>"

definition min_mysql_newfstatat_0_1_target where
  "min_mysql_newfstatat_0_1_target os_getenv os_inet_pton K = syz_target os_getenv os_inet_pton K min_mysql_newfstatat_0_1"

lemma min_mysql_newfstatat_0_1_body1_ok: "body_ok 0 0 min_mysql_newfstatat_0_1_body1" "counted min_mysql_newfstatat_0_1_body1" "calls min_mysql_newfstatat_0_1_body1 = 3" "opened_in m min_mysql_newfstatat_0_1_body1 = []"
  by (simp_all add: min_mysql_newfstatat_0_1_body1_def prog_checks open_checks)

lemma min_mysql_newfstatat_0_1_body2_ok: "body_ok 0 0 min_mysql_newfstatat_0_1_body2" "counted min_mysql_newfstatat_0_1_body2" "calls min_mysql_newfstatat_0_1_body2 = 3" "opened_in m min_mysql_newfstatat_0_1_body2 = []"
  by (simp_all add: min_mysql_newfstatat_0_1_body2_def prog_checks open_checks)

lemma min_mysql_newfstatat_0_1_body3_ok: "body_ok 0 0 min_mysql_newfstatat_0_1_body3" "counted min_mysql_newfstatat_0_1_body3" "calls min_mysql_newfstatat_0_1_body3 = 3" "opened_in m min_mysql_newfstatat_0_1_body3 = []"
  by (simp_all add: min_mysql_newfstatat_0_1_body3_def prog_checks open_checks)

lemma min_mysql_newfstatat_0_1_body4_ok: "body_ok 0 0 min_mysql_newfstatat_0_1_body4" "counted min_mysql_newfstatat_0_1_body4" "calls min_mysql_newfstatat_0_1_body4 = 3" "opened_in m min_mysql_newfstatat_0_1_body4 = []"
  by (simp_all add: min_mysql_newfstatat_0_1_body4_def prog_checks open_checks)

lemma min_mysql_newfstatat_0_1_body5_ok: "body_ok 0 0 min_mysql_newfstatat_0_1_body5" "counted min_mysql_newfstatat_0_1_body5" "calls min_mysql_newfstatat_0_1_body5 = 3" "opened_in m min_mysql_newfstatat_0_1_body5 = []"
  by (simp_all add: min_mysql_newfstatat_0_1_body5_def prog_checks open_checks)

lemma min_mysql_newfstatat_0_1_body6_ok: "body_ok 0 0 min_mysql_newfstatat_0_1_body6" "counted min_mysql_newfstatat_0_1_body6" "calls min_mysql_newfstatat_0_1_body6 = 3" "opened_in m min_mysql_newfstatat_0_1_body6 = []"
  by (simp_all add: min_mysql_newfstatat_0_1_body6_def prog_checks open_checks)

lemma min_mysql_newfstatat_0_1_body7_ok: "body_ok 0 0 min_mysql_newfstatat_0_1_body7" "counted min_mysql_newfstatat_0_1_body7" "calls min_mysql_newfstatat_0_1_body7 = 3" "opened_in m min_mysql_newfstatat_0_1_body7 = []"
  by (simp_all add: min_mysql_newfstatat_0_1_body7_def prog_checks open_checks)

lemma min_mysql_newfstatat_0_1_body8_ok: "body_ok 0 0 min_mysql_newfstatat_0_1_body8" "counted min_mysql_newfstatat_0_1_body8" "calls min_mysql_newfstatat_0_1_body8 = 3" "opened_in m min_mysql_newfstatat_0_1_body8 = []"
  by (simp_all add: min_mysql_newfstatat_0_1_body8_def prog_checks open_checks)

lemma min_mysql_newfstatat_0_1_body9_ok: "body_ok 0 0 min_mysql_newfstatat_0_1_body9" "counted min_mysql_newfstatat_0_1_body9" "calls min_mysql_newfstatat_0_1_body9 = 3" "opened_in m min_mysql_newfstatat_0_1_body9 = []"
  by (simp_all add: min_mysql_newfstatat_0_1_body9_def prog_checks open_checks)

lemma min_mysql_newfstatat_0_1_body10_ok: "body_ok 0 0 min_mysql_newfstatat_0_1_body10" "counted min_mysql_newfstatat_0_1_body10" "calls min_mysql_newfstatat_0_1_body10 = 3" "opened_in m min_mysql_newfstatat_0_1_body10 = []"
  by (simp_all add: min_mysql_newfstatat_0_1_body10_def prog_checks open_checks)

lemma min_mysql_newfstatat_0_1_body11_ok: "body_ok 0 0 min_mysql_newfstatat_0_1_body11" "counted min_mysql_newfstatat_0_1_body11" "calls min_mysql_newfstatat_0_1_body11 = 3" "opened_in m min_mysql_newfstatat_0_1_body11 = []"
  by (simp_all add: min_mysql_newfstatat_0_1_body11_def prog_checks open_checks)

lemma min_mysql_newfstatat_0_1_body12_ok: "body_ok 0 0 min_mysql_newfstatat_0_1_body12" "counted min_mysql_newfstatat_0_1_body12" "calls min_mysql_newfstatat_0_1_body12 = 3" "opened_in m min_mysql_newfstatat_0_1_body12 = []"
  by (simp_all add: min_mysql_newfstatat_0_1_body12_def prog_checks open_checks)

lemma min_mysql_newfstatat_0_1_body13_ok: "body_ok 0 0 min_mysql_newfstatat_0_1_body13" "counted min_mysql_newfstatat_0_1_body13" "calls min_mysql_newfstatat_0_1_body13 = 3" "opened_in m min_mysql_newfstatat_0_1_body13 = []"
  by (simp_all add: min_mysql_newfstatat_0_1_body13_def prog_checks open_checks)

lemma min_mysql_newfstatat_0_1_body14_ok: "body_ok 0 0 min_mysql_newfstatat_0_1_body14" "counted min_mysql_newfstatat_0_1_body14" "calls min_mysql_newfstatat_0_1_body14 = 3" "opened_in m min_mysql_newfstatat_0_1_body14 = []"
  by (simp_all add: min_mysql_newfstatat_0_1_body14_def prog_checks open_checks)

lemma min_mysql_newfstatat_0_1_body15_ok: "body_ok 0 0 min_mysql_newfstatat_0_1_body15" "counted min_mysql_newfstatat_0_1_body15" "calls min_mysql_newfstatat_0_1_body15 = 3" "opened_in m min_mysql_newfstatat_0_1_body15 = []"
  by (simp_all add: min_mysql_newfstatat_0_1_body15_def prog_checks open_checks)

lemma min_mysql_newfstatat_0_1_body16_ok: "body_ok 0 0 min_mysql_newfstatat_0_1_body16" "counted min_mysql_newfstatat_0_1_body16" "calls min_mysql_newfstatat_0_1_body16 = 3" "opened_in m min_mysql_newfstatat_0_1_body16 = []"
  by (simp_all add: min_mysql_newfstatat_0_1_body16_def prog_checks open_checks)

lemma min_mysql_newfstatat_0_1_body17_ok: "body_ok 0 0 min_mysql_newfstatat_0_1_body17" "counted min_mysql_newfstatat_0_1_body17" "calls min_mysql_newfstatat_0_1_body17 = 3" "opened_in m min_mysql_newfstatat_0_1_body17 = []"
  by (simp_all add: min_mysql_newfstatat_0_1_body17_def prog_checks open_checks)

lemma min_mysql_newfstatat_0_1_body18_ok: "body_ok 0 0 min_mysql_newfstatat_0_1_body18" "counted min_mysql_newfstatat_0_1_body18" "calls min_mysql_newfstatat_0_1_body18 = 3" "opened_in m min_mysql_newfstatat_0_1_body18 = []"
  by (simp_all add: min_mysql_newfstatat_0_1_body18_def prog_checks open_checks)

lemma min_mysql_newfstatat_0_1_body19_ok: "body_ok 0 0 min_mysql_newfstatat_0_1_body19" "counted min_mysql_newfstatat_0_1_body19" "calls min_mysql_newfstatat_0_1_body19 = 3" "opened_in m min_mysql_newfstatat_0_1_body19 = []"
  by (simp_all add: min_mysql_newfstatat_0_1_body19_def prog_checks open_checks)

lemma min_mysql_newfstatat_0_1_body20_ok: "body_ok 0 0 min_mysql_newfstatat_0_1_body20" "counted min_mysql_newfstatat_0_1_body20" "calls min_mysql_newfstatat_0_1_body20 = 3" "opened_in m min_mysql_newfstatat_0_1_body20 = []"
  by (simp_all add: min_mysql_newfstatat_0_1_body20_def prog_checks open_checks)

lemma min_mysql_newfstatat_0_1_body21_ok: "body_ok 0 0 min_mysql_newfstatat_0_1_body21" "counted min_mysql_newfstatat_0_1_body21" "calls min_mysql_newfstatat_0_1_body21 = 3" "opened_in m min_mysql_newfstatat_0_1_body21 = []"
  by (simp_all add: min_mysql_newfstatat_0_1_body21_def prog_checks open_checks)

lemma min_mysql_newfstatat_0_1_body22_ok: "body_ok 0 0 min_mysql_newfstatat_0_1_body22" "counted min_mysql_newfstatat_0_1_body22" "calls min_mysql_newfstatat_0_1_body22 = 3" "opened_in m min_mysql_newfstatat_0_1_body22 = []"
  by (simp_all add: min_mysql_newfstatat_0_1_body22_def prog_checks open_checks)

lemma min_mysql_newfstatat_0_1_body23_ok: "body_ok 0 0 min_mysql_newfstatat_0_1_body23" "counted min_mysql_newfstatat_0_1_body23" "calls min_mysql_newfstatat_0_1_body23 = 3" "opened_in m min_mysql_newfstatat_0_1_body23 = []"
  by (simp_all add: min_mysql_newfstatat_0_1_body23_def prog_checks open_checks)

lemma min_mysql_newfstatat_0_1_body24_ok: "body_ok 0 0 min_mysql_newfstatat_0_1_body24" "counted min_mysql_newfstatat_0_1_body24" "calls min_mysql_newfstatat_0_1_body24 = 3" "opened_in m min_mysql_newfstatat_0_1_body24 = []"
  by (simp_all add: min_mysql_newfstatat_0_1_body24_def prog_checks open_checks)

lemma min_mysql_newfstatat_0_1_body25_ok: "body_ok 0 0 min_mysql_newfstatat_0_1_body25" "counted min_mysql_newfstatat_0_1_body25" "calls min_mysql_newfstatat_0_1_body25 = 3" "opened_in m min_mysql_newfstatat_0_1_body25 = []"
  by (simp_all add: min_mysql_newfstatat_0_1_body25_def prog_checks open_checks)

lemma min_mysql_newfstatat_0_1_body26_ok: "body_ok 0 0 min_mysql_newfstatat_0_1_body26" "counted min_mysql_newfstatat_0_1_body26" "calls min_mysql_newfstatat_0_1_body26 = 3" "opened_in m min_mysql_newfstatat_0_1_body26 = []"
  by (simp_all add: min_mysql_newfstatat_0_1_body26_def prog_checks open_checks)

lemma min_mysql_newfstatat_0_1_body27_ok: "body_ok 0 0 min_mysql_newfstatat_0_1_body27" "counted min_mysql_newfstatat_0_1_body27" "calls min_mysql_newfstatat_0_1_body27 = 4" "opened_in m min_mysql_newfstatat_0_1_body27 = []"
  by (simp_all add: min_mysql_newfstatat_0_1_body27_def prog_checks open_checks)

lemmas min_mysql_newfstatat_0_1_bodies =
  min_mysql_newfstatat_0_1_body1_ok min_mysql_newfstatat_0_1_body2_ok min_mysql_newfstatat_0_1_body3_ok
  min_mysql_newfstatat_0_1_body4_ok min_mysql_newfstatat_0_1_body5_ok min_mysql_newfstatat_0_1_body6_ok
  min_mysql_newfstatat_0_1_body7_ok min_mysql_newfstatat_0_1_body8_ok min_mysql_newfstatat_0_1_body9_ok
  min_mysql_newfstatat_0_1_body10_ok min_mysql_newfstatat_0_1_body11_ok min_mysql_newfstatat_0_1_body12_ok
  min_mysql_newfstatat_0_1_body13_ok min_mysql_newfstatat_0_1_body14_ok min_mysql_newfstatat_0_1_body15_ok
  min_mysql_newfstatat_0_1_body16_ok min_mysql_newfstatat_0_1_body17_ok min_mysql_newfstatat_0_1_body18_ok
  min_mysql_newfstatat_0_1_body19_ok min_mysql_newfstatat_0_1_body20_ok min_mysql_newfstatat_0_1_body21_ok
  min_mysql_newfstatat_0_1_body22_ok min_mysql_newfstatat_0_1_body23_ok min_mysql_newfstatat_0_1_body24_ok
  min_mysql_newfstatat_0_1_body25_ok min_mysql_newfstatat_0_1_body26_ok min_mysql_newfstatat_0_1_body27_ok

lemma min_mysql_newfstatat_0_1_ok: "prog_ok min_mysql_newfstatat_0_1" "calls (body min_mysql_newfstatat_0_1) = 82"
  by (simp_all add: prog_ok_def counted_append prog_checks min_mysql_newfstatat_0_1_def min_mysql_newfstatat_0_1_bodies)

end
