(* ===== verification/CSB_Progs_Net_a.thy ===== *)
theory CSB_Progs_Net_a
  imports CSB_Syz_Files
begin

text \<open>
  Bodies of generated targets of bench/targets/mysql\_v2, statement by statement in the order of the
  files syz/<name>.h, and the targets made of them (the files <name>.h). Each passes the check.
\<close>

section \<open>min\_mysql\_recvfrom\_sendto\_0\_0\<close>

definition min_mysql_recvfrom_sendto_0_0_body1 :: "stmt list" where
  "min_mysql_recvfrom_sendto_0_0_body1 = [
    Syscall NR_getrusage [Imm 0, Ptr 0x205bfd40], Count, Load_reg 2 0x205bfd40, Store 4 0x203e7640 (Imm 0x80),
    Syscall NR_accept [Reg 0, Ptr 0x203e7600, Ptr 0x203e7640], Count, Save_res 3, Store 2 0x203e7800 (Imm 1),
    Store 2 0x203e7802 (Imm 0), Store 2 0x203e7804 (Imm 0), Store 1 0x203e7806 (Imm 0),
    Store 1 0x203e7807 (Imm 0), Store 1 0x203e7808 (Imm 0), Store 2 0x203e780a (Imm 0),
    Syscall NR_setsockopt [Reg 3, Imm 6, Imm 1, Ptr 0x203e7800, Imm 4], Count, Store 4 0x203e78c0 (Imm 0x80),
    Syscall NR_getpeername [Reg 3, Ptr 0x203e7840, Ptr 0x203e78c0], Count, Store 4 0x203e7900 (Imm 1),
    Syscall NR_setsockopt [Reg 3, Imm 1, Imm 9, Ptr 0x203e7900, Imm 4], Count]"

definition min_mysql_recvfrom_sendto_0_0_body2 :: "stmt list" where
  "min_mysql_recvfrom_sendto_0_0_body2 = [
    Syscall NR_sendto [Reg 3, Write_buf, Imm 0x4e, Imm 0x40, Imm 0, Imm 0], Count,
    Syscall NR_recvfrom [Reg 3, Ptr 0x203e79c0, Imm 4, Imm 0x40, Imm 0, Imm 0], Count,
    Store 4 0x203e7a00 (Reg 3), Store 2 0x203e7a04 (Imm 3), Store 2 0x203e7a06 (Imm 0),
    Store 8 0x203e7a40 (Reg 2), Store 8 0x203e7a48 (Imm 0), Store 8 0x203e7a80 (Imm 1),
    Syscall NR_ppoll [Ptr 0x203e7a00, Imm 1, Ptr 0x203e7a40, Ptr 0x203e7a80, Imm 8], Count,
    Syscall NR_recvfrom [Reg 3, Ptr 0x203e7ac0, Imm 4, Imm 0x40, Imm 0, Imm 0], Count,
    Syscall NR_recvfrom [Reg 3, Ptr 0x203e7b00, Imm 0x9a, Imm 0x40, Imm 0, Imm 0], Count,
    Syscall NR_sendto [Reg 3, Write_buf, Imm 0x16, Imm 0x40, Imm 0, Imm 0], Count,
    Syscall NR_recvfrom [Reg 3, Ptr 0x203e7c00, Imm 4, Imm 0x40, Imm 0, Imm 0], Count]"

definition min_mysql_recvfrom_sendto_0_0_body3 :: "stmt list" where
  "min_mysql_recvfrom_sendto_0_0_body3 = [
    Store 4 0x203e7c40 (Reg 3), Store 2 0x203e7c44 (Imm 3), Store 2 0x203e7c46 (Imm 0),
    Store 8 0x203e7c80 (Imm 0x7080), Store 8 0x203e7c88 (Imm 0), Store 8 0x203e7cc0 (Imm 1),
    Syscall NR_ppoll [Ptr 0x203e7c40, Imm 1, Ptr 0x203e7c80, Ptr 0x203e7cc0, Imm 8], Count,
    Syscall NR_recvfrom [Reg 3, Ptr 0x203e7d00, Imm 4, Imm 0x40, Imm 0, Imm 0], Count,
    Syscall NR_recvfrom [Reg 3, Ptr 0x203e7d40, Imm 0x1f, Imm 0x40, Imm 0, Imm 0], Count,
    Syscall NR_sendto [Reg 3, Write_buf, Imm 0xb, Imm 0x40, Imm 0, Imm 0], Count,
    Syscall NR_recvfrom [Reg 3, Ptr 0x20448e40, Imm 4, Imm 0x40, Imm 0, Imm 0], Count,
    Store 4 0x20448e80 (Reg 3), Store 2 0x20448e84 (Imm 3), Store 2 0x20448e86 (Imm 0),
    Store 8 0x20448ec0 (Imm 0x7080), Store 8 0x20448ec8 (Imm 0), Store 8 0x20448f00 (Imm 1),
    Syscall NR_ppoll [Ptr 0x20448e80, Imm 1, Ptr 0x20448ec0, Ptr 0x20448f00, Imm 8], Count,
    Syscall NR_recvfrom [Reg 3, Ptr 0x20448f40, Imm 4, Imm 0x40, Imm 0, Imm 0], Count]"

definition min_mysql_recvfrom_sendto_0_0_body4 :: "stmt list" where
  "min_mysql_recvfrom_sendto_0_0_body4 = [
    Syscall NR_recvfrom [Reg 3, Ptr 0x20448f80, Imm 0x1f, Imm 0x40, Imm 0, Imm 0], Count,
    Syscall NR_sendto [Reg 3, Write_buf, Imm 0xb, Imm 0x40, Imm 0, Imm 0], Count,
    Syscall NR_recvfrom [Reg 3, Ptr 0x20508640, Imm 4, Imm 0x40, Imm 0, Imm 0], Count,
    Store 4 0x20508680 (Reg 3), Store 2 0x20508684 (Imm 3), Store 2 0x20508686 (Imm 0),
    Store 8 0x205086c0 (Imm 0x7080), Store 8 0x205086c8 (Imm 0), Store 8 0x20508700 (Imm 1),
    Syscall NR_ppoll [Ptr 0x20508680, Imm 1, Ptr 0x205086c0, Ptr 0x20508700, Imm 8], Count,
    Syscall NR_recvfrom [Reg 3, Ptr 0x20508740, Imm 4, Imm 0x40, Imm 0, Imm 0], Count,
    Syscall NR_recvfrom [Reg 3, Ptr 0x20508780, Imm 0x1f, Imm 0x40, Imm 0, Imm 0], Count,
    Syscall NR_sendto [Reg 3, Write_buf, Imm 0xb, Imm 0x40, Imm 0, Imm 0], Count,
    Syscall NR_recvfrom [Reg 3, Ptr 0x205aa1c0, Imm 4, Imm 0x40, Imm 0, Imm 0], Count,
    Syscall NR_recvfrom [Reg 3, Ptr 0x205aa200, Imm 0x1f, Imm 0x40, Imm 0, Imm 0], Count]"

definition min_mysql_recvfrom_sendto_0_0_body5 :: "stmt list" where
  "min_mysql_recvfrom_sendto_0_0_body5 = [
    Syscall NR_sendto [Reg 3, Write_buf, Imm 0xb, Imm 0x40, Imm 0, Imm 0], Count,
    Syscall NR_recvfrom [Reg 3, Ptr 0x2063f900, Imm 4, Imm 0x40, Imm 0, Imm 0], Count,
    Syscall NR_recvfrom [Reg 3, Ptr 0x2063f940, Imm 0x1f, Imm 0x40, Imm 0, Imm 0], Count,
    Syscall NR_sendto [Reg 3, Write_buf, Imm 0xb, Imm 0x40, Imm 0, Imm 0], Count,
    Syscall NR_recvfrom [Reg 3, Ptr 0x206ce400, Imm 4, Imm 0x40, Imm 0, Imm 0], Count,
    Syscall NR_recvfrom [Reg 3, Ptr 0x206ce440, Imm 0x1f, Imm 0x40, Imm 0, Imm 0], Count,
    Syscall NR_sendto [Reg 3, Write_buf, Imm 0xb, Imm 0x40, Imm 0, Imm 0], Count,
    Syscall NR_recvfrom [Reg 3, Ptr 0x2075f340, Imm 4, Imm 0x40, Imm 0, Imm 0], Count,
    Syscall NR_recvfrom [Reg 3, Ptr 0x2075f380, Imm 0x1f, Imm 0x40, Imm 0, Imm 0], Count,
    Syscall NR_sendto [Reg 3, Write_buf, Imm 0xb, Imm 0x40, Imm 0, Imm 0], Count]"

definition min_mysql_recvfrom_sendto_0_0_body6 :: "stmt list" where
  "min_mysql_recvfrom_sendto_0_0_body6 = [
    Syscall NR_recvfrom [Reg 3, Ptr 0x20766700, Imm 4, Imm 0x40, Imm 0, Imm 0], Count,
    Syscall NR_recvfrom [Reg 3, Ptr 0x20766740, Imm 0x1f, Imm 0x40, Imm 0, Imm 0], Count,
    Syscall NR_sendto [Reg 3, Write_buf, Imm 0xb, Imm 0x40, Imm 0, Imm 0], Count,
    Syscall NR_recvfrom [Reg 3, Ptr 0x2076bec0, Imm 4, Imm 0x40, Imm 0, Imm 0], Count,
    Syscall NR_recvfrom [Reg 3, Ptr 0x2076bf00, Imm 0x1f, Imm 0x40, Imm 0, Imm 0], Count,
    Syscall NR_sendto [Reg 3, Write_buf, Imm 0xb, Imm 0x40, Imm 0, Imm 0], Count,
    Syscall NR_recvfrom [Reg 3, Ptr 0x20777e80, Imm 4, Imm 0x40, Imm 0, Imm 0], Count,
    Syscall NR_recvfrom [Reg 3, Ptr 0x20777ec0, Imm 0x20, Imm 0x40, Imm 0, Imm 0], Count,
    Syscall NR_sendto [Reg 3, Write_buf, Imm 0xb, Imm 0x40, Imm 0, Imm 0], Count,
    Syscall NR_recvfrom [Reg 3, Ptr 0x2077f440, Imm 4, Imm 0x40, Imm 0, Imm 0], Count]"

definition min_mysql_recvfrom_sendto_0_0_body7 :: "stmt list" where
  "min_mysql_recvfrom_sendto_0_0_body7 = [
    Syscall NR_recvfrom [Reg 3, Ptr 0x2077f480, Imm 0x20, Imm 0x40, Imm 0, Imm 0], Count,
    Syscall NR_sendto [Reg 3, Write_buf, Imm 0xb, Imm 0x40, Imm 0, Imm 0], Count,
    Syscall NR_recvfrom [Reg 3, Ptr 0x20788680, Imm 4, Imm 0x40, Imm 0, Imm 0], Count,
    Syscall NR_recvfrom [Reg 3, Ptr 0x207886c0, Imm 0x20, Imm 0x40, Imm 0, Imm 0], Count,
    Syscall NR_sendto [Reg 3, Write_buf, Imm 0xb, Imm 0x40, Imm 0, Imm 0], Count,
    Syscall NR_recvfrom [Reg 3, Ptr 0x207d2900, Imm 4, Imm 0x40, Imm 0, Imm 0], Count,
    Syscall NR_recvfrom [Reg 3, Ptr 0x207d2940, Imm 0x20, Imm 0x40, Imm 0, Imm 0], Count,
    Syscall NR_sendto [Reg 3, Write_buf, Imm 0xb, Imm 0x40, Imm 0, Imm 0], Count,
    Syscall NR_recvfrom [Reg 3, Ptr 0x207d7d40, Imm 4, Imm 0x40, Imm 0, Imm 0], Count,
    Syscall NR_recvfrom [Reg 3, Ptr 0x207d7d80, Imm 0x20, Imm 0x40, Imm 0, Imm 0], Count]"

definition min_mysql_recvfrom_sendto_0_0_body8 :: "stmt list" where
  "min_mysql_recvfrom_sendto_0_0_body8 = [
    Syscall NR_sendto [Reg 3, Write_buf, Imm 0xb, Imm 0x40, Imm 0, Imm 0], Count,
    Syscall NR_recvfrom [Reg 3, Ptr 0x207ddc80, Imm 4, Imm 0x40, Imm 0, Imm 0], Count,
    Syscall NR_recvfrom [Reg 3, Ptr 0x207ddcc0, Imm 0x20, Imm 0x40, Imm 0, Imm 0], Count,
    Syscall NR_sendto [Reg 3, Write_buf, Imm 0xb, Imm 0x40, Imm 0, Imm 0], Count,
    Syscall NR_recvfrom [Reg 3, Ptr 0x207e2a40, Imm 4, Imm 0x40, Imm 0, Imm 0], Count,
    Syscall NR_recvfrom [Reg 3, Ptr 0x207e2a80, Imm 0x20, Imm 0x40, Imm 0, Imm 0], Count,
    Syscall NR_sendto [Reg 3, Write_buf, Imm 0xb, Imm 0x40, Imm 0, Imm 0], Count,
    Syscall NR_recvfrom [Reg 3, Ptr 0x208367c0, Imm 4, Imm 0x40, Imm 0, Imm 0], Count,
    Syscall NR_recvfrom [Reg 3, Ptr 0x20836800, Imm 0x20, Imm 0x40, Imm 0, Imm 0], Count,
    Syscall NR_sendto [Reg 3, Write_buf, Imm 0xb, Imm 0x40, Imm 0, Imm 0], Count]"

definition min_mysql_recvfrom_sendto_0_0_body9 :: "stmt list" where
  "min_mysql_recvfrom_sendto_0_0_body9 = [
    Syscall NR_recvfrom [Reg 3, Ptr 0x2083b600, Imm 4, Imm 0x40, Imm 0, Imm 0], Count,
    Syscall NR_recvfrom [Reg 3, Ptr 0x2083b640, Imm 0x20, Imm 0x40, Imm 0, Imm 0], Count,
    Syscall NR_sendto [Reg 3, Write_buf, Imm 0xb, Imm 0x40, Imm 0, Imm 0], Count,
    Syscall NR_recvfrom [Reg 3, Ptr 0x20842240, Imm 4, Imm 0x40, Imm 0, Imm 0], Count,
    Syscall NR_recvfrom [Reg 3, Ptr 0x20842280, Imm 0x20, Imm 0x40, Imm 0, Imm 0], Count,
    Syscall NR_sendto [Reg 3, Write_buf, Imm 0xb, Imm 0x40, Imm 0, Imm 0], Count,
    Syscall NR_recvfrom [Reg 3, Ptr 0x20848400, Imm 4, Imm 0x40, Imm 0, Imm 0], Count,
    Syscall NR_recvfrom [Reg 3, Ptr 0x20848440, Imm 0x20, Imm 0x40, Imm 0, Imm 0], Count,
    Syscall NR_sendto [Reg 3, Write_buf, Imm 0xb, Imm 0x40, Imm 0, Imm 0], Count]"

definition min_mysql_recvfrom_sendto_0_0_body10 :: "stmt list" where
  "min_mysql_recvfrom_sendto_0_0_body10 = [
    Syscall NR_recvfrom [Reg 3, Ptr 0x2084cfc0, Imm 4, Imm 0x40, Imm 0, Imm 0], Count,
    Store 4 0x2084d000 (Reg 3), Store 2 0x2084d004 (Imm 3), Store 2 0x2084d006 (Imm 0),
    Store 8 0x2084d040 (Imm 0x7080), Store 8 0x2084d048 (Imm 0), Store 8 0x2084d080 (Imm 1),
    Syscall NR_ppoll [Ptr 0x2084d000, Imm 1, Ptr 0x2084d040, Ptr 0x2084d080, Imm 8], Count,
    Syscall NR_recvfrom [Reg 3, Ptr 0x2084d0c0, Imm 4, Imm 0x40, Imm 0, Imm 0], Count,
    Syscall NR_recvfrom [Reg 3, Ptr 0x2084d100, Imm 1, Imm 0x40, Imm 0, Imm 0], Count,
    Syscall NR_shutdown [Reg 3, Imm 2], Count, Syscall NR_close [Reg 3], Count]"

definition min_mysql_recvfrom_sendto_0_0_regs :: "u64 list" where
  "min_mysql_recvfrom_sendto_0_0_regs = [- 1, - 1, 0, - 1]"

definition min_mysql_recvfrom_sendto_0_0_reg_body :: "stmt list" where
  "min_mysql_recvfrom_sendto_0_0_reg_body = [
    Syscall NR_socket [Imm 0xa, Imm 1, Imm 6], Count, Save_res 0, Store 4 0x2033fd40 (Imm 1),
    Syscall NR_setsockopt [Reg 0, Imm 1, Imm 2, Ptr 0x2033fd40, Imm 4], Count, Store 4 0x2033fd80 (Imm 0),
    Syscall NR_setsockopt [Reg 0, Imm 0x29, Imm 0x1a, Ptr 0x2033fd80, Imm 4], Count,
    Store 2 0x2033fdc0 (Imm 0xa), Store 2 0x2033fdc2 (Be16 0xcea), Store 4 0x2033fdc4 (Be32 0),
    Memset 0x2033fdc8 0 16, Store 4 0x2033fdd8 (Imm 0), Syscall NR_bind [Reg 0, Bind6_arg, Imm 28], Count,
    Syscall NR_listen [Reg 0, Imm 0xfa0], Count, Syscall NR_socket [Imm 1, Imm 1, Imm 0], Count, Save_res 1,
    Store 4 0x20341ec0 (Imm 1), Syscall NR_setsockopt [Reg 1, Imm 1, Imm 2, Ptr 0x20341ec0, Imm 4], Count,
    Store 2 0x20341f00 (Imm 1), Memcpy 0x20341f02 (''/var/lib/mysql/mysql.sock'' @ replicate 83 (CHR 0x00)) 108,
    Syscall NR_bind [Reg 1, Ptr 0x20341f00, Imm 2], Count, Syscall NR_listen [Reg 1, Imm 0xfa0], Count]"

definition min_mysql_recvfrom_sendto_0_0_dereg_body :: "stmt list" where
  "min_mysql_recvfrom_sendto_0_0_dereg_body = [Close_reg 0, Close_reg 1]"

definition min_mysql_recvfrom_sendto_0_0 :: syz_prog where
  "min_mysql_recvfrom_sendto_0_0 = \<lparr>prog_name = ''min_mysql_recvfrom_sendto_0_0'', prog_family = Mysql_v2,
     subdirs = [],
     filenames = [], filesizes = [],
     max_write_buffer = 78, init_regs = min_mysql_recvfrom_sendto_0_0_regs,
     reg_body = min_mysql_recvfrom_sendto_0_0_reg_body, dereg_body = min_mysql_recvfrom_sendto_0_0_dereg_body,
     body = min_mysql_recvfrom_sendto_0_0_body1 @ min_mysql_recvfrom_sendto_0_0_body2 @
       min_mysql_recvfrom_sendto_0_0_body3 @ min_mysql_recvfrom_sendto_0_0_body4 @
       min_mysql_recvfrom_sendto_0_0_body5 @ min_mysql_recvfrom_sendto_0_0_body6 @
       min_mysql_recvfrom_sendto_0_0_body7 @ min_mysql_recvfrom_sendto_0_0_body8 @
       min_mysql_recvfrom_sendto_0_0_body9 @ min_mysql_recvfrom_sendto_0_0_body10\<rparr>"

definition min_mysql_recvfrom_sendto_0_0_netops_accept :: "string list" where
  "min_mysql_recvfrom_sendto_0_0_netops_accept = [
    ''1w78-3r162-1w22-3r39-1w11-3r39-1w11-3r39-'' @ ''1w11-2r35-1w11-2r35-1w11-2r35-1w11-2r35-'' @
    ''1w11-2r35-1w11-2r35-1w11-2r36-1w11-2r36-'' @ ''1w11-2r36-1w11-2r36-1w11-2r36-1w11-2r36-'' @
    ''1w11-2r36-1w11-2r36-1w11-2r36-1w11-2r36-'' @ ''1w11-2r36-1w11-3r9'']"

definition min_mysql_recvfrom_sendto_0_0_target where
  "min_mysql_recvfrom_sendto_0_0_target os_getenv os_inet_pton K = syz_target os_getenv os_inet_pton K min_mysql_recvfrom_sendto_0_0"

lemmas min_mysql_recvfrom_sendto_0_0_defs =
  min_mysql_recvfrom_sendto_0_0_def min_mysql_recvfrom_sendto_0_0_regs_def
  min_mysql_recvfrom_sendto_0_0_reg_body_def min_mysql_recvfrom_sendto_0_0_dereg_body_def
  min_mysql_recvfrom_sendto_0_0_body1_def min_mysql_recvfrom_sendto_0_0_body2_def
  min_mysql_recvfrom_sendto_0_0_body3_def min_mysql_recvfrom_sendto_0_0_body4_def
  min_mysql_recvfrom_sendto_0_0_body5_def min_mysql_recvfrom_sendto_0_0_body6_def
  min_mysql_recvfrom_sendto_0_0_body7_def min_mysql_recvfrom_sendto_0_0_body8_def
  min_mysql_recvfrom_sendto_0_0_body9_def min_mysql_recvfrom_sendto_0_0_body10_def

lemma min_mysql_recvfrom_sendto_0_0_ok: "prog_ok min_mysql_recvfrom_sendto_0_0" "calls (body min_mysql_recvfrom_sendto_0_0) = 83"
  by (simp_all add: prog_ok_def min_mysql_recvfrom_sendto_0_0_defs prog_checks)

end
