(* ===== verification/CSB_Progs_Net_b.thy ===== *)
theory CSB_Progs_Net_b
  imports CSB_Syz_Files
begin

text \<open>
  Bodies of generated targets of bench/targets/mysql\_v2, statement by statement in the order of the
  files syz/<name>.h, and the targets made of them (the files <name>.h). Each passes the check.
\<close>

section \<open>min\_mysql\_recvfrom\_sendto\_32\_0\<close>

definition min_mysql_recvfrom_sendto_32_0_body1 :: "stmt list" where
  "min_mysql_recvfrom_sendto_32_0_body1 = [
    Store 4 0x203c2880 (Imm 0x80), Syscall NR_accept [Reg 0, Ptr 0x203c2840, Ptr 0x203c2880], Count, Save_res 2,
    Store 2 0x203c2a40 (Imm 1), Store 2 0x203c2a42 (Imm 0), Store 2 0x203c2a44 (Imm 0),
    Store 1 0x203c2a46 (Imm 0), Store 1 0x203c2a47 (Imm 0), Store 1 0x203c2a48 (Imm 0),
    Store 2 0x203c2a4a (Imm 0), Syscall NR_setsockopt [Reg 2, Imm 6, Imm 1, Ptr 0x203c2a40, Imm 4], Count,
    Store 4 0x203c2b00 (Imm 0x80), Syscall NR_getpeername [Reg 2, Ptr 0x203c2a80, Ptr 0x203c2b00], Count,
    Store 4 0x203c2b40 (Imm 1), Syscall NR_setsockopt [Reg 2, Imm 1, Imm 9, Ptr 0x203c2b40, Imm 4], Count,
    Syscall NR_sendto [Reg 2, Write_buf, Imm 0x4e, Imm 0x40, Imm 0, Imm 0], Count,
    Syscall NR_recvfrom [Reg 2, Ptr 0x203c2c00, Imm 4, Imm 0x40, Imm 0, Imm 0], Count]"

definition min_mysql_recvfrom_sendto_32_0_body2 :: "stmt list" where
  "min_mysql_recvfrom_sendto_32_0_body2 = [
    Store 4 0x203c2c40 (Reg 2), Store 2 0x203c2c44 (Imm 3), Store 2 0x203c2c46 (Imm 0),
    Store 8 0x203c2c80 (Imm 0xa), Store 8 0x203c2c88 (Imm 0), Store 8 0x203c2cc0 (Imm 1),
    Syscall NR_ppoll [Ptr 0x203c2c40, Imm 1, Ptr 0x203c2c80, Ptr 0x203c2cc0, Imm 8], Count,
    Syscall NR_recvfrom [Reg 2, Ptr 0x203c2d00, Imm 4, Imm 0x40, Imm 0, Imm 0], Count,
    Syscall NR_recvfrom [Reg 2, Ptr 0x203c2d40, Imm 0x9a, Imm 0x40, Imm 0, Imm 0], Count,
    Syscall NR_sendto [Reg 2, Write_buf, Imm 0x16, Imm 0x40, Imm 0, Imm 0], Count,
    Syscall NR_recvfrom [Reg 2, Ptr 0x203c2e40, Imm 4, Imm 0x40, Imm 0, Imm 0], Count,
    Store 4 0x203c2e80 (Reg 2), Store 2 0x203c2e84 (Imm 3), Store 2 0x203c2e86 (Imm 0),
    Store 8 0x203c2ec0 (Imm 0x7080), Store 8 0x203c2ec8 (Imm 0), Store 8 0x203c2f00 (Imm 1),
    Syscall NR_ppoll [Ptr 0x203c2e80, Imm 1, Ptr 0x203c2ec0, Ptr 0x203c2f00, Imm 8], Count,
    Syscall NR_recvfrom [Reg 2, Ptr 0x203c2f40, Imm 4, Imm 0x40, Imm 0, Imm 0], Count]"

definition min_mysql_recvfrom_sendto_32_0_body3 :: "stmt list" where
  "min_mysql_recvfrom_sendto_32_0_body3 = [
    Syscall NR_recvfrom [Reg 2, Ptr 0x203c2f80, Imm 0xd4, Imm 0x40, Imm 0, Imm 0], Count,
    Syscall NR_sendto [Reg 2, Write_buf, Imm 0xb, Imm 0x40, Imm 0, Imm 0], Count,
    Syscall NR_recvfrom [Reg 2, Ptr 0x20410140, Imm 4, Imm 0x40, Imm 0, Imm 0], Count,
    Store 4 0x20430440 (Reg 2), Store 2 0x20430444 (Imm 3), Store 2 0x20430446 (Imm 0),
    Store 8 0x20430480 (Imm 0x7080), Store 8 0x20430488 (Imm 0), Store 8 0x204304c0 (Imm 1),
    Syscall NR_ppoll [Ptr 0x20430440, Imm 1, Ptr 0x20430480, Ptr 0x204304c0, Imm 8], Count,
    Syscall NR_recvfrom [Reg 2, Ptr 0x20430500, Imm 4, Imm 0x40, Imm 0, Imm 0], Count,
    Syscall NR_recvfrom [Reg 2, Ptr 0x204305c0, Imm 0x2edb5, Imm 0x40, Imm 0, Imm 0], Count,
    Syscall NR_recvfrom [Reg 2, Ptr 0x20450600, Imm 0x12339, Imm 0x40, Imm 0, Imm 0], Count,
    Syscall NR_sendto [Reg 2, Write_buf, Imm 0x37, Imm 0x40, Imm 0, Imm 0], Count]"

definition min_mysql_recvfrom_sendto_32_0_body4 :: "stmt list" where
  "min_mysql_recvfrom_sendto_32_0_body4 = [
    Syscall NR_recvfrom [Reg 2, Ptr 0x2070b640, Imm 4, Imm 0x40, Imm 0, Imm 0], Count,
    Store 4 0x2070b680 (Reg 2), Store 2 0x2070b684 (Imm 3), Store 2 0x2070b686 (Imm 0),
    Store 8 0x2070b6c0 (Imm 0x7080), Store 8 0x2070b6c8 (Imm 0), Store 8 0x2070b700 (Imm 1),
    Syscall NR_ppoll [Ptr 0x2070b680, Imm 1, Ptr 0x2070b6c0, Ptr 0x2070b700, Imm 8], Count,
    Syscall NR_recvfrom [Reg 2, Ptr 0x2070b740, Imm 4, Imm 0x40, Imm 0, Imm 0], Count,
    Syscall NR_recvfrom [Reg 2, Ptr 0x2070b780, Imm 0x21, Imm 0x40, Imm 0, Imm 0], Count,
    Syscall NR_sendto [Reg 2, Write_buf, Imm 0x32, Imm 0x40, Imm 0, Imm 0], Count,
    Syscall NR_recvfrom [Reg 2, Ptr 0x2072fc00, Imm 4, Imm 0x40, Imm 0, Imm 0], Count,
    Syscall NR_recvfrom [Reg 2, Ptr 0x2072fc40, Imm 0xd4, Imm 0x40, Imm 0, Imm 0], Count,
    Syscall NR_sendto [Reg 2, Write_buf, Imm 0xb, Imm 0x40, Imm 0, Imm 0], Count]"

definition min_mysql_recvfrom_sendto_32_0_body5 :: "stmt list" where
  "min_mysql_recvfrom_sendto_32_0_body5 = [
    Syscall NR_recvfrom [Reg 2, Ptr 0x2077e2c0, Imm 4, Imm 0x40, Imm 0, Imm 0], Count,
    Store 4 0x2077e300 (Reg 2), Store 2 0x2077e304 (Imm 3), Store 2 0x2077e306 (Imm 0),
    Store 8 0x2077e340 (Imm 0x7080), Store 8 0x2077e348 (Imm 0), Store 8 0x2077e380 (Imm 1),
    Syscall NR_ppoll [Ptr 0x2077e300, Imm 1, Ptr 0x2077e340, Ptr 0x2077e380, Imm 8], Count,
    Syscall NR_recvfrom [Reg 2, Ptr 0x2077e3c0, Imm 4, Imm 0x40, Imm 0, Imm 0], Count,
    Syscall NR_recvfrom [Reg 2, Ptr 0x2077e400, Imm 0x2edbe, Imm 0x40, Imm 0, Imm 0], Count,
    Syscall NR_sendto [Reg 2, Write_buf, Imm 0x37, Imm 0x40, Imm 0, Imm 0], Count,
    Syscall NR_recvfrom [Reg 2, Ptr 0x2082d7c0, Imm 4, Imm 0x40, Imm 0, Imm 0], Count,
    Syscall NR_recvfrom [Reg 2, Ptr 0x2082d800, Imm 0x21, Imm 0x40, Imm 0, Imm 0], Count,
    Syscall NR_sendto [Reg 2, Write_buf, Imm 0x32, Imm 0x40, Imm 0, Imm 0], Count,
    Syscall NR_recvfrom [Reg 2, Ptr 0x20853480, Imm 4, Imm 0x40, Imm 0, Imm 0], Count]"

definition min_mysql_recvfrom_sendto_32_0_body6 :: "stmt list" where
  "min_mysql_recvfrom_sendto_32_0_body6 = [
    Syscall NR_recvfrom [Reg 2, Ptr 0x208534c0, Imm 0xd4, Imm 0x40, Imm 0, Imm 0], Count,
    Syscall NR_sendto [Reg 2, Write_buf, Imm 0xb, Imm 0x40, Imm 0, Imm 0], Count,
    Syscall NR_recvfrom [Reg 2, Ptr 0x208a2540, Imm 4, Imm 0x40, Imm 0, Imm 0], Count,
    Store 4 0x208a2580 (Reg 2), Store 2 0x208a2584 (Imm 3), Store 2 0x208a2586 (Imm 0),
    Store 8 0x208a25c0 (Imm 0x7080), Store 8 0x208a25c8 (Imm 0), Store 8 0x208a2600 (Imm 1),
    Syscall NR_ppoll [Ptr 0x208a2580, Imm 1, Ptr 0x208a25c0, Ptr 0x208a2600, Imm 8], Count,
    Syscall NR_recvfrom [Reg 2, Ptr 0x208a2640, Imm 4, Imm 0x40, Imm 0, Imm 0], Count,
    Syscall NR_recvfrom [Reg 2, Ptr 0x208a2680, Imm 0x2edb4, Imm 0x40, Imm 0, Imm 0], Count,
    Syscall NR_sendto [Reg 2, Write_buf, Imm 0x37, Imm 0x40, Imm 0, Imm 0], Count,
    Syscall NR_recvfrom [Reg 2, Ptr 0x20950040, Imm 4, Imm 0x40, Imm 0, Imm 0], Count,
    Syscall NR_recvfrom [Reg 2, Ptr 0x20950080, Imm 0x21, Imm 0x40, Imm 0, Imm 0], Count]"

definition min_mysql_recvfrom_sendto_32_0_body7 :: "stmt list" where
  "min_mysql_recvfrom_sendto_32_0_body7 = [
    Syscall NR_sendto [Reg 2, Write_buf, Imm 0x32, Imm 0x40, Imm 0, Imm 0], Count,
    Syscall NR_recvfrom [Reg 2, Ptr 0x20975000, Imm 4, Imm 0x40, Imm 0, Imm 0], Count,
    Syscall NR_recvfrom [Reg 2, Ptr 0x20975040, Imm 0xd4, Imm 0x40, Imm 0, Imm 0], Count,
    Syscall NR_sendto [Reg 2, Write_buf, Imm 0xb, Imm 0x40, Imm 0, Imm 0], Count,
    Syscall NR_recvfrom [Reg 2, Ptr 0x209c30c0, Imm 4, Imm 0x40, Imm 0, Imm 0], Count,
    Store 4 0x209c3100 (Reg 2), Store 2 0x209c3104 (Imm 3), Store 2 0x209c3106 (Imm 0),
    Store 8 0x209c3140 (Imm 0x7080), Store 8 0x209c3148 (Imm 0), Store 8 0x209c3180 (Imm 1),
    Syscall NR_ppoll [Ptr 0x209c3100, Imm 1, Ptr 0x209c3140, Ptr 0x209c3180, Imm 8], Count,
    Syscall NR_recvfrom [Reg 2, Ptr 0x209c31c0, Imm 4, Imm 0x40, Imm 0, Imm 0], Count,
    Syscall NR_recvfrom [Reg 2, Ptr 0x209c3200, Imm 0x2edbc, Imm 0x40, Imm 0, Imm 0], Count,
    Syscall NR_sendto [Reg 2, Write_buf, Imm 0x37, Imm 0x40, Imm 0, Imm 0], Count]"

definition min_mysql_recvfrom_sendto_32_0_body8 :: "stmt list" where
  "min_mysql_recvfrom_sendto_32_0_body8 = [
    Syscall NR_recvfrom [Reg 2, Ptr 0x20a761c0, Imm 4, Imm 0x40, Imm 0, Imm 0], Count,
    Syscall NR_recvfrom [Reg 2, Ptr 0x20a76200, Imm 0x21, Imm 0x40, Imm 0, Imm 0], Count,
    Syscall NR_sendto [Reg 2, Write_buf, Imm 0x32, Imm 0x40, Imm 0, Imm 0], Count,
    Syscall NR_recvfrom [Reg 2, Ptr 0x20a99e80, Imm 4, Imm 0x40, Imm 0, Imm 0], Count,
    Syscall NR_recvfrom [Reg 2, Ptr 0x20a99ec0, Imm 0xd4, Imm 0x40, Imm 0, Imm 0], Count,
    Syscall NR_sendto [Reg 2, Write_buf, Imm 0xb, Imm 0x40, Imm 0, Imm 0], Count,
    Syscall NR_recvfrom [Reg 2, Ptr 0x20ae90c0, Imm 4, Imm 0x40, Imm 0, Imm 0], Count,
    Store 4 0x20ae9100 (Reg 2), Store 2 0x20ae9104 (Imm 3), Store 2 0x20ae9106 (Imm 0),
    Store 8 0x20ae9140 (Imm 0x7080), Store 8 0x20ae9148 (Imm 0), Store 8 0x20ae9180 (Imm 1),
    Syscall NR_ppoll [Ptr 0x20ae9100, Imm 1, Ptr 0x20ae9140, Ptr 0x20ae9180, Imm 8], Count,
    Syscall NR_recvfrom [Reg 2, Ptr 0x20ae91c0, Imm 4, Imm 0x40, Imm 0, Imm 0], Count]"

definition min_mysql_recvfrom_sendto_32_0_body9 :: "stmt list" where
  "min_mysql_recvfrom_sendto_32_0_body9 = [
    Syscall NR_recvfrom [Reg 2, Ptr 0x20ae9200, Imm 0x2edbe, Imm 0x40, Imm 0, Imm 0], Count,
    Syscall NR_sendto [Reg 2, Write_buf, Imm 0x37, Imm 0x40, Imm 0, Imm 0], Count,
    Syscall NR_recvfrom [Reg 2, Ptr 0x20b99040, Imm 4, Imm 0x40, Imm 0, Imm 0], Count,
    Syscall NR_recvfrom [Reg 2, Ptr 0x20b99080, Imm 0x21, Imm 0x40, Imm 0, Imm 0], Count,
    Syscall NR_sendto [Reg 2, Write_buf, Imm 0x32, Imm 0x40, Imm 0, Imm 0], Count,
    Syscall NR_recvfrom [Reg 2, Ptr 0x20bbe100, Imm 4, Imm 0x40, Imm 0, Imm 0], Count,
    Syscall NR_recvfrom [Reg 2, Ptr 0x20bbe140, Imm 0xd4, Imm 0x40, Imm 0, Imm 0], Count,
    Syscall NR_sendto [Reg 2, Write_buf, Imm 0xb, Imm 0x40, Imm 0, Imm 0], Count,
    Syscall NR_recvfrom [Reg 2, Ptr 0x20c0e3c0, Imm 4, Imm 0x40, Imm 0, Imm 0], Count]"

definition min_mysql_recvfrom_sendto_32_0_body10 :: "stmt list" where
  "min_mysql_recvfrom_sendto_32_0_body10 = [
    Store 4 0x20c0e400 (Reg 2), Store 2 0x20c0e404 (Imm 3), Store 2 0x20c0e406 (Imm 0),
    Store 8 0x20c0e440 (Imm 0x7080), Store 8 0x20c0e448 (Imm 0), Store 8 0x20c0e480 (Imm 1),
    Syscall NR_ppoll [Ptr 0x20c0e400, Imm 1, Ptr 0x20c0e440, Ptr 0x20c0e480, Imm 8], Count,
    Syscall NR_recvfrom [Reg 2, Ptr 0x20c0e4c0, Imm 4, Imm 0x40, Imm 0, Imm 0], Count,
    Syscall NR_recvfrom [Reg 2, Ptr 0x20c0e500, Imm 0x2edc9, Imm 0x40, Imm 0, Imm 0], Count,
    Syscall NR_sendto [Reg 2, Write_buf, Imm 0x37, Imm 0x40, Imm 0, Imm 0], Count,
    Syscall NR_recvfrom [Reg 2, Ptr 0x20cbe2c0, Imm 4, Imm 0x40, Imm 0, Imm 0], Count,
    Syscall NR_recvfrom [Reg 2, Ptr 0x20cbe300, Imm 0x21, Imm 0x40, Imm 0, Imm 0], Count,
    Syscall NR_sendto [Reg 2, Write_buf, Imm 0x32, Imm 0x40, Imm 0, Imm 0], Count,
    Syscall NR_recvfrom [Reg 2, Ptr 0x20ce2e00, Imm 4, Imm 0x40, Imm 0, Imm 0], Count,
    Syscall NR_recvfrom [Reg 2, Ptr 0x20ce2e40, Imm 0xd4, Imm 0x40, Imm 0, Imm 0], Count]"

definition min_mysql_recvfrom_sendto_32_0_body11 :: "stmt list" where
  "min_mysql_recvfrom_sendto_32_0_body11 = [
    Syscall NR_sendto [Reg 2, Write_buf, Imm 0xb, Imm 0x40, Imm 0, Imm 0], Count,
    Syscall NR_recvfrom [Reg 2, Ptr 0x20d31040, Imm 4, Imm 0x40, Imm 0, Imm 0], Count,
    Store 4 0x20d31080 (Reg 2), Store 2 0x20d31084 (Imm 3), Store 2 0x20d31086 (Imm 0),
    Store 8 0x20d310c0 (Imm 0x7080), Store 8 0x20d310c8 (Imm 0), Store 8 0x20d31100 (Imm 1),
    Syscall NR_ppoll [Ptr 0x20d31080, Imm 1, Ptr 0x20d310c0, Ptr 0x20d31100, Imm 8], Count,
    Syscall NR_recvfrom [Reg 2, Ptr 0x20d31140, Imm 4, Imm 0x40, Imm 0, Imm 0], Count,
    Syscall NR_recvfrom [Reg 2, Ptr 0x20d31180, Imm 0x2edc2, Imm 0x40, Imm 0, Imm 0], Count,
    Syscall NR_sendto [Reg 2, Write_buf, Imm 0x37, Imm 0x40, Imm 0, Imm 0], Count,
    Syscall NR_recvfrom [Reg 2, Ptr 0x20de3340, Imm 4, Imm 0x40, Imm 0, Imm 0], Count,
    Syscall NR_recvfrom [Reg 2, Ptr 0x20de3380, Imm 0x21, Imm 0x40, Imm 0, Imm 0], Count,
    Syscall NR_sendto [Reg 2, Write_buf, Imm 0x32, Imm 0x40, Imm 0, Imm 0], Count]"

definition min_mysql_recvfrom_sendto_32_0_body12 :: "stmt list" where
  "min_mysql_recvfrom_sendto_32_0_body12 = [
    Syscall NR_recvfrom [Reg 2, Ptr 0x20e07680, Imm 4, Imm 0x40, Imm 0, Imm 0], Count,
    Syscall NR_recvfrom [Reg 2, Ptr 0x20e076c0, Imm 0xd4, Imm 0x40, Imm 0, Imm 0], Count,
    Syscall NR_sendto [Reg 2, Write_buf, Imm 0xb, Imm 0x40, Imm 0, Imm 0], Count,
    Syscall NR_recvfrom [Reg 2, Ptr 0x20e562c0, Imm 4, Imm 0x40, Imm 0, Imm 0], Count,
    Store 4 0x20e56300 (Reg 2), Store 2 0x20e56304 (Imm 3), Store 2 0x20e56306 (Imm 0),
    Store 8 0x20e56340 (Imm 0x7080), Store 8 0x20e56348 (Imm 0), Store 8 0x20e56380 (Imm 1),
    Syscall NR_ppoll [Ptr 0x20e56300, Imm 1, Ptr 0x20e56340, Ptr 0x20e56380, Imm 8], Count,
    Syscall NR_recvfrom [Reg 2, Ptr 0x20e563c0, Imm 4, Imm 0x40, Imm 0, Imm 0], Count,
    Syscall NR_recvfrom [Reg 2, Ptr 0x20e56400, Imm 0x2eda9, Imm 0x40, Imm 0, Imm 0], Count,
    Syscall NR_sendto [Reg 2, Write_buf, Imm 0x37, Imm 0x40, Imm 0, Imm 0], Count,
    Syscall NR_recvfrom [Reg 2, Ptr 0x20f04ec0, Imm 4, Imm 0x40, Imm 0, Imm 0], Count]"

definition min_mysql_recvfrom_sendto_32_0_body13 :: "stmt list" where
  "min_mysql_recvfrom_sendto_32_0_body13 = [
    Syscall NR_recvfrom [Reg 2, Ptr 0x20f04f00, Imm 0x21, Imm 0x40, Imm 0, Imm 0], Count,
    Syscall NR_sendto [Reg 2, Write_buf, Imm 0x32, Imm 0x40, Imm 0, Imm 0], Count,
    Syscall NR_recvfrom [Reg 2, Ptr 0x20f2f700, Imm 4, Imm 0x40, Imm 0, Imm 0], Count,
    Syscall NR_recvfrom [Reg 2, Ptr 0x20f2f740, Imm 0xd4, Imm 0x40, Imm 0, Imm 0], Count,
    Syscall NR_sendto [Reg 2, Write_buf, Imm 0xb, Imm 0x40, Imm 0, Imm 0], Count,
    Syscall NR_recvfrom [Reg 2, Ptr 0x20f821c0, Imm 4, Imm 0x40, Imm 0, Imm 0], Count,
    Store 4 0x20f82200 (Reg 2), Store 2 0x20f82204 (Imm 3), Store 2 0x20f82206 (Imm 0),
    Store 8 0x20f82240 (Imm 0x7080), Store 8 0x20f82248 (Imm 0), Store 8 0x20f82280 (Imm 1),
    Syscall NR_ppoll [Ptr 0x20f82200, Imm 1, Ptr 0x20f82240, Ptr 0x20f82280, Imm 8], Count,
    Syscall NR_recvfrom [Reg 2, Ptr 0x20f822c0, Imm 4, Imm 0x40, Imm 0, Imm 0], Count,
    Syscall NR_recvfrom [Reg 2, Ptr 0x20f82300, Imm 0x2edc4, Imm 0x40, Imm 0, Imm 0], Count]"

definition min_mysql_recvfrom_sendto_32_0_body14 :: "stmt list" where
  "min_mysql_recvfrom_sendto_32_0_body14 = [
    Syscall NR_sendto [Reg 2, Write_buf, Imm 0x37, Imm 0x40, Imm 0, Imm 0], Count,
    Syscall NR_recvfrom [Reg 2, Ptr 0x2002ffc0, Imm 4, Imm 0x40, Imm 0, Imm 0], Count,
    Syscall NR_recvfrom [Reg 2, Ptr 0x20030000, Imm 0x21, Imm 0x40, Imm 0, Imm 0], Count,
    Syscall NR_sendto [Reg 2, Write_buf, Imm 0x32, Imm 0x40, Imm 0, Imm 0], Count,
    Syscall NR_recvfrom [Reg 2, Ptr 0x2005cc00, Imm 4, Imm 0x40, Imm 0, Imm 0], Count,
    Syscall NR_recvfrom [Reg 2, Ptr 0x2005cc40, Imm 0xd5, Imm 0x40, Imm 0, Imm 0], Count,
    Syscall NR_sendto [Reg 2, Write_buf, Imm 0xb, Imm 0x40, Imm 0, Imm 0], Count,
    Syscall NR_recvfrom [Reg 2, Ptr 0x200ace40, Imm 4, Imm 0x40, Imm 0, Imm 0], Count,
    Store 4 0x200ace80 (Reg 2), Store 2 0x200ace84 (Imm 3), Store 2 0x200ace86 (Imm 0),
    Store 8 0x200acec0 (Imm 0x7080), Store 8 0x200acec8 (Imm 0), Store 8 0x200acf00 (Imm 1),
    Syscall NR_ppoll [Ptr 0x200ace80, Imm 1, Ptr 0x200acec0, Ptr 0x200acf00, Imm 8], Count]"

definition min_mysql_recvfrom_sendto_32_0_body15 :: "stmt list" where
  "min_mysql_recvfrom_sendto_32_0_body15 = [
    Syscall NR_recvfrom [Reg 2, Ptr 0x200acf40, Imm 4, Imm 0x40, Imm 0, Imm 0], Count,
    Syscall NR_recvfrom [Reg 2, Ptr 0x200acf80, Imm 0x2edc2, Imm 0x40, Imm 0, Imm 0], Count,
    Syscall NR_sendto [Reg 2, Write_buf, Imm 0x37, Imm 0x40, Imm 0, Imm 0], Count,
    Syscall NR_recvfrom [Reg 2, Ptr 0x2015ac40, Imm 4, Imm 0x40, Imm 0, Imm 0], Count,
    Store 4 0x2015ac80 (Reg 2), Store 2 0x2015ac84 (Imm 3), Store 2 0x2015ac86 (Imm 0),
    Store 8 0x2015acc0 (Imm 0x7080), Store 8 0x2015acc8 (Imm 0), Store 8 0x2015ad00 (Imm 1),
    Syscall NR_ppoll [Ptr 0x2015ac80, Imm 1, Ptr 0x2015acc0, Ptr 0x2015ad00, Imm 8], Count,
    Syscall NR_recvfrom [Reg 2, Ptr 0x2015ad40, Imm 4, Imm 0x40, Imm 0, Imm 0], Count,
    Syscall NR_recvfrom [Reg 2, Ptr 0x2015ad80, Imm 0x23, Imm 0x40, Imm 0, Imm 0], Count,
    Syscall NR_sendto [Reg 2, Write_buf, Imm 0x32, Imm 0x40, Imm 0, Imm 0], Count,
    Syscall NR_recvfrom [Reg 2, Ptr 0x20180980, Imm 4, Imm 0x40, Imm 0, Imm 0], Count]"

definition min_mysql_recvfrom_sendto_32_0_body16 :: "stmt list" where
  "min_mysql_recvfrom_sendto_32_0_body16 = [
    Syscall NR_recvfrom [Reg 2, Ptr 0x201809c0, Imm 0xd5, Imm 0x40, Imm 0, Imm 0], Count,
    Syscall NR_sendto [Reg 2, Write_buf, Imm 0xb, Imm 0x40, Imm 0, Imm 0], Count,
    Syscall NR_recvfrom [Reg 2, Ptr 0x201cc640, Imm 4, Imm 0x40, Imm 0, Imm 0], Count,
    Store 4 0x201cc680 (Reg 2), Store 2 0x201cc684 (Imm 3), Store 2 0x201cc686 (Imm 0),
    Store 8 0x201cc6c0 (Imm 0x7080), Store 8 0x201cc6c8 (Imm 0), Store 8 0x201cc700 (Imm 1),
    Syscall NR_ppoll [Ptr 0x201cc680, Imm 1, Ptr 0x201cc6c0, Ptr 0x201cc700, Imm 8], Count,
    Syscall NR_recvfrom [Reg 2, Ptr 0x201cc740, Imm 4, Imm 0x40, Imm 0, Imm 0], Count,
    Syscall NR_recvfrom [Reg 2, Ptr 0x201cc780, Imm 0x2edbb, Imm 0x40, Imm 0, Imm 0], Count,
    Syscall NR_sendto [Reg 2, Write_buf, Imm 0x37, Imm 0x40, Imm 0, Imm 0], Count,
    Syscall NR_recvfrom [Reg 2, Ptr 0x2027b1c0, Imm 4, Imm 0x40, Imm 0, Imm 0], Count,
    Syscall NR_recvfrom [Reg 2, Ptr 0x2027b200, Imm 0x23, Imm 0x40, Imm 0, Imm 0], Count]"

definition min_mysql_recvfrom_sendto_32_0_body17 :: "stmt list" where
  "min_mysql_recvfrom_sendto_32_0_body17 = [
    Syscall NR_sendto [Reg 2, Write_buf, Imm 0x32, Imm 0x40, Imm 0, Imm 0], Count,
    Syscall NR_recvfrom [Reg 2, Ptr 0x202a33c0, Imm 4, Imm 0x40, Imm 0, Imm 0], Count,
    Store 4 0x202a3400 (Reg 2), Store 2 0x202a3404 (Imm 3), Store 2 0x202a3406 (Imm 0),
    Store 8 0x202a3440 (Imm 0x7080), Store 8 0x202a3448 (Imm 0), Store 8 0x202a3480 (Imm 1),
    Syscall NR_ppoll [Ptr 0x202a3400, Imm 1, Ptr 0x202a3440, Ptr 0x202a3480, Imm 8], Count,
    Syscall NR_recvfrom [Reg 2, Ptr 0x202a34c0, Imm 4, Imm 0x40, Imm 0, Imm 0], Count,
    Syscall NR_recvfrom [Reg 2, Ptr 0x202a3500, Imm 0xd5, Imm 0x40, Imm 0, Imm 0], Count,
    Syscall NR_sendto [Reg 2, Write_buf, Imm 0xb, Imm 0x40, Imm 0, Imm 0], Count,
    Syscall NR_recvfrom [Reg 2, Ptr 0x202f2540, Imm 4, Imm 0x40, Imm 0, Imm 0], Count]"

definition min_mysql_recvfrom_sendto_32_0_body18 :: "stmt list" where
  "min_mysql_recvfrom_sendto_32_0_body18 = [
    Store 4 0x202f2580 (Reg 2), Store 2 0x202f2584 (Imm 3), Store 2 0x202f2586 (Imm 0),
    Store 8 0x202f25c0 (Imm 0x7080), Store 8 0x202f25c8 (Imm 0), Store 8 0x202f2600 (Imm 1),
    Syscall NR_ppoll [Ptr 0x202f2580, Imm 1, Ptr 0x202f25c0, Ptr 0x202f2600, Imm 8], Count,
    Syscall NR_recvfrom [Reg 2, Ptr 0x202f2640, Imm 4, Imm 0x40, Imm 0, Imm 0], Count,
    Syscall NR_recvfrom [Reg 2, Ptr 0x202f2680, Imm 0x2edbf, Imm 0x40, Imm 0, Imm 0], Count,
    Syscall NR_sendto [Reg 2, Write_buf, Imm 0x37, Imm 0x40, Imm 0, Imm 0], Count,
    Syscall NR_recvfrom [Reg 2, Ptr 0x203a2280, Imm 4, Imm 0x40, Imm 0, Imm 0], Count,
    Syscall NR_recvfrom [Reg 2, Ptr 0x203a22c0, Imm 0x23, Imm 0x40, Imm 0, Imm 0], Count,
    Syscall NR_sendto [Reg 2, Write_buf, Imm 0x32, Imm 0x40, Imm 0, Imm 0], Count,
    Syscall NR_recvfrom [Reg 2, Ptr 0x203c4d40, Imm 4, Imm 0x40, Imm 0, Imm 0], Count,
    Syscall NR_recvfrom [Reg 2, Ptr 0x203c4d80, Imm 0xd5, Imm 0x40, Imm 0, Imm 0], Count]"

definition min_mysql_recvfrom_sendto_32_0_body19 :: "stmt list" where
  "min_mysql_recvfrom_sendto_32_0_body19 = [
    Syscall NR_sendto [Reg 2, Write_buf, Imm 0xb, Imm 0x40, Imm 0, Imm 0], Count,
    Syscall NR_recvfrom [Reg 2, Ptr 0x204143c0, Imm 4, Imm 0x40, Imm 0, Imm 0], Count,
    Store 4 0x20414400 (Reg 2), Store 2 0x20414404 (Imm 3), Store 2 0x20414406 (Imm 0),
    Store 8 0x20414440 (Imm 0x7080), Store 8 0x20414448 (Imm 0), Store 8 0x20414480 (Imm 1),
    Syscall NR_ppoll [Ptr 0x20414400, Imm 1, Ptr 0x20414440, Ptr 0x20414480, Imm 8], Count,
    Syscall NR_recvfrom [Reg 2, Ptr 0x204144c0, Imm 4, Imm 0x40, Imm 0, Imm 0], Count,
    Syscall NR_recvfrom [Reg 2, Ptr 0x20414500, Imm 0x2edb9, Imm 0x40, Imm 0, Imm 0], Count,
    Syscall NR_sendto [Reg 2, Write_buf, Imm 0x37, Imm 0x40, Imm 0, Imm 0], Count,
    Syscall NR_recvfrom [Reg 2, Ptr 0x204c4100, Imm 4, Imm 0x40, Imm 0, Imm 0], Count,
    Syscall NR_recvfrom [Reg 2, Ptr 0x204c4140, Imm 0x23, Imm 0x40, Imm 0, Imm 0], Count,
    Syscall NR_sendto [Reg 2, Write_buf, Imm 0x32, Imm 0x40, Imm 0, Imm 0], Count]"

definition min_mysql_recvfrom_sendto_32_0_body20 :: "stmt list" where
  "min_mysql_recvfrom_sendto_32_0_body20 = [
    Syscall NR_recvfrom [Reg 2, Ptr 0x204e9dc0, Imm 4, Imm 0x40, Imm 0, Imm 0], Count,
    Syscall NR_recvfrom [Reg 2, Ptr 0x204e9e00, Imm 0xd5, Imm 0x40, Imm 0, Imm 0], Count,
    Syscall NR_sendto [Reg 2, Write_buf, Imm 0xb, Imm 0x40, Imm 0, Imm 0], Count,
    Syscall NR_recvfrom [Reg 2, Ptr 0x20537440, Imm 4, Imm 0x40, Imm 0, Imm 0], Count,
    Store 4 0x20537480 (Reg 2), Store 2 0x20537484 (Imm 3), Store 2 0x20537486 (Imm 0),
    Store 8 0x205374c0 (Imm 0x7080), Store 8 0x205374c8 (Imm 0), Store 8 0x20537500 (Imm 1),
    Syscall NR_ppoll [Ptr 0x20537480, Imm 1, Ptr 0x205374c0, Ptr 0x20537500, Imm 8], Count,
    Syscall NR_recvfrom [Reg 2, Ptr 0x20537540, Imm 4, Imm 0x40, Imm 0, Imm 0], Count,
    Syscall NR_recvfrom [Reg 2, Ptr 0x20537580, Imm 0x2edbc, Imm 0x40, Imm 0, Imm 0], Count,
    Syscall NR_sendto [Reg 2, Write_buf, Imm 0x37, Imm 0x40, Imm 0, Imm 0], Count,
    Syscall NR_recvfrom [Reg 2, Ptr 0x205e5b80, Imm 4, Imm 0x40, Imm 0, Imm 0], Count]"

definition min_mysql_recvfrom_sendto_32_0_body21 :: "stmt list" where
  "min_mysql_recvfrom_sendto_32_0_body21 = [
    Syscall NR_recvfrom [Reg 2, Ptr 0x205e5bc0, Imm 0x23, Imm 0x40, Imm 0, Imm 0], Count,
    Syscall NR_sendto [Reg 2, Write_buf, Imm 0x32, Imm 0x40, Imm 0, Imm 0], Count,
    Syscall NR_recvfrom [Reg 2, Ptr 0x2060b0c0, Imm 4, Imm 0x40, Imm 0, Imm 0], Count,
    Syscall NR_recvfrom [Reg 2, Ptr 0x2060b100, Imm 0xd5, Imm 0x40, Imm 0, Imm 0], Count,
    Syscall NR_sendto [Reg 2, Write_buf, Imm 0xb, Imm 0x40, Imm 0, Imm 0], Count,
    Syscall NR_recvfrom [Reg 2, Ptr 0x20661bc0, Imm 4, Imm 0x40, Imm 0, Imm 0], Count,
    Store 4 0x20661c00 (Reg 2), Store 2 0x20661c04 (Imm 3), Store 2 0x20661c06 (Imm 0),
    Store 8 0x20661c40 (Imm 0x7080), Store 8 0x20661c48 (Imm 0), Store 8 0x20661c80 (Imm 1),
    Syscall NR_ppoll [Ptr 0x20661c00, Imm 1, Ptr 0x20661c40, Ptr 0x20661c80, Imm 8], Count,
    Syscall NR_recvfrom [Reg 2, Ptr 0x20661cc0, Imm 4, Imm 0x40, Imm 0, Imm 0], Count,
    Syscall NR_recvfrom [Reg 2, Ptr 0x20661d00, Imm 0x2ed98, Imm 0x40, Imm 0, Imm 0], Count]"

definition min_mysql_recvfrom_sendto_32_0_body22 :: "stmt list" where
  "min_mysql_recvfrom_sendto_32_0_body22 = [
    Syscall NR_sendto [Reg 2, Write_buf, Imm 0x37, Imm 0x40, Imm 0, Imm 0], Count,
    Syscall NR_recvfrom [Reg 2, Ptr 0x20710180, Imm 4, Imm 0x40, Imm 0, Imm 0], Count,
    Syscall NR_recvfrom [Reg 2, Ptr 0x207101c0, Imm 0x23, Imm 0x40, Imm 0, Imm 0], Count,
    Syscall NR_sendto [Reg 2, Write_buf, Imm 0x32, Imm 0x40, Imm 0, Imm 0], Count,
    Syscall NR_recvfrom [Reg 2, Ptr 0x20737280, Imm 4, Imm 0x40, Imm 0, Imm 0], Count,
    Syscall NR_recvfrom [Reg 2, Ptr 0x207372c0, Imm 0xd5, Imm 0x40, Imm 0, Imm 0], Count,
    Syscall NR_sendto [Reg 2, Write_buf, Imm 0xb, Imm 0x40, Imm 0, Imm 0], Count,
    Syscall NR_recvfrom [Reg 2, Ptr 0x207834c0, Imm 4, Imm 0x40, Imm 0, Imm 0], Count,
    Store 4 0x20783500 (Reg 2), Store 2 0x20783504 (Imm 3), Store 2 0x20783506 (Imm 0),
    Store 8 0x20783540 (Imm 0x7080), Store 8 0x20783548 (Imm 0), Store 8 0x20783580 (Imm 1),
    Syscall NR_ppoll [Ptr 0x20783500, Imm 1, Ptr 0x20783540, Ptr 0x20783580, Imm 8], Count]"

definition min_mysql_recvfrom_sendto_32_0_body23 :: "stmt list" where
  "min_mysql_recvfrom_sendto_32_0_body23 = [
    Syscall NR_recvfrom [Reg 2, Ptr 0x207835c0, Imm 4, Imm 0x40, Imm 0, Imm 0], Count,
    Syscall NR_recvfrom [Reg 2, Ptr 0x20783600, Imm 0x2edaf, Imm 0x40, Imm 0, Imm 0], Count,
    Syscall NR_sendto [Reg 2, Write_buf, Imm 0x37, Imm 0x40, Imm 0, Imm 0], Count,
    Syscall NR_recvfrom [Reg 2, Ptr 0x20834600, Imm 4, Imm 0x40, Imm 0, Imm 0], Count,
    Syscall NR_recvfrom [Reg 2, Ptr 0x20834640, Imm 0x23, Imm 0x40, Imm 0, Imm 0], Count,
    Syscall NR_sendto [Reg 2, Write_buf, Imm 0x32, Imm 0x40, Imm 0, Imm 0], Count,
    Syscall NR_recvfrom [Reg 2, Ptr 0x2085a500, Imm 4, Imm 0x40, Imm 0, Imm 0], Count,
    Syscall NR_recvfrom [Reg 2, Ptr 0x2085a540, Imm 0xd5, Imm 0x40, Imm 0, Imm 0], Count,
    Syscall NR_sendto [Reg 2, Write_buf, Imm 0xb, Imm 0x40, Imm 0, Imm 0], Count]"

definition min_mysql_recvfrom_sendto_32_0_body24 :: "stmt list" where
  "min_mysql_recvfrom_sendto_32_0_body24 = [
    Syscall NR_recvfrom [Reg 2, Ptr 0x208a8340, Imm 4, Imm 0x40, Imm 0, Imm 0], Count,
    Store 4 0x208a8380 (Reg 2), Store 2 0x208a8384 (Imm 3), Store 2 0x208a8386 (Imm 0),
    Store 8 0x208a83c0 (Imm 0x7080), Store 8 0x208a83c8 (Imm 0), Store 8 0x208a8400 (Imm 1),
    Syscall NR_ppoll [Ptr 0x208a8380, Imm 1, Ptr 0x208a83c0, Ptr 0x208a8400, Imm 8], Count,
    Syscall NR_recvfrom [Reg 2, Ptr 0x208a8440, Imm 4, Imm 0x40, Imm 0, Imm 0], Count,
    Syscall NR_recvfrom [Reg 2, Ptr 0x208a8480, Imm 0x2edc1, Imm 0x40, Imm 0, Imm 0], Count,
    Syscall NR_sendto [Reg 2, Write_buf, Imm 0x37, Imm 0x40, Imm 0, Imm 0], Count,
    Syscall NR_recvfrom [Reg 2, Ptr 0x20955c80, Imm 4, Imm 0x40, Imm 0, Imm 0], Count,
    Syscall NR_recvfrom [Reg 2, Ptr 0x20955cc0, Imm 0x23, Imm 0x40, Imm 0, Imm 0], Count,
    Syscall NR_sendto [Reg 2, Write_buf, Imm 0x32, Imm 0x40, Imm 0, Imm 0], Count,
    Syscall NR_recvfrom [Reg 2, Ptr 0x209ae000, Imm 4, Imm 0x40, Imm 0, Imm 0], Count]"

definition min_mysql_recvfrom_sendto_32_0_body25 :: "stmt list" where
  "min_mysql_recvfrom_sendto_32_0_body25 = [
    Syscall NR_recvfrom [Reg 2, Ptr 0x209ae040, Imm 0xd5, Imm 0x40, Imm 0, Imm 0], Count,
    Syscall NR_sendto [Reg 2, Write_buf, Imm 0xb, Imm 0x40, Imm 0, Imm 0], Count,
    Syscall NR_recvfrom [Reg 2, Ptr 0x209fb940, Imm 4, Imm 0x40, Imm 0, Imm 0], Count,
    Store 4 0x209fb980 (Reg 2), Store 2 0x209fb984 (Imm 3), Store 2 0x209fb986 (Imm 0),
    Store 8 0x209fb9c0 (Imm 0x7080), Store 8 0x209fb9c8 (Imm 0), Store 8 0x209fba00 (Imm 1),
    Syscall NR_ppoll [Ptr 0x209fb980, Imm 1, Ptr 0x209fb9c0, Ptr 0x209fba00, Imm 8], Count,
    Syscall NR_recvfrom [Reg 2, Ptr 0x209fba40, Imm 4, Imm 0x40, Imm 0, Imm 0], Count,
    Syscall NR_recvfrom [Reg 2, Ptr 0x209fba80, Imm 0x2edb1, Imm 0x40, Imm 0, Imm 0], Count,
    Syscall NR_sendto [Reg 2, Write_buf, Imm 0x37, Imm 0x40, Imm 0, Imm 0], Count,
    Syscall NR_recvfrom [Reg 2, Ptr 0x20aabc00, Imm 4, Imm 0x40, Imm 0, Imm 0], Count,
    Syscall NR_recvfrom [Reg 2, Ptr 0x20aabc40, Imm 0x23, Imm 0x40, Imm 0, Imm 0], Count]"

definition min_mysql_recvfrom_sendto_32_0_body26 :: "stmt list" where
  "min_mysql_recvfrom_sendto_32_0_body26 = [
    Syscall NR_sendto [Reg 2, Write_buf, Imm 0x32, Imm 0x40, Imm 0, Imm 0], Count,
    Syscall NR_recvfrom [Reg 2, Ptr 0x20ad0e80, Imm 4, Imm 0x40, Imm 0, Imm 0], Count,
    Syscall NR_recvfrom [Reg 2, Ptr 0x20ad0ec0, Imm 0xd5, Imm 0x40, Imm 0, Imm 0], Count,
    Syscall NR_sendto [Reg 2, Write_buf, Imm 0xb, Imm 0x40, Imm 0, Imm 0], Count,
    Syscall NR_recvfrom [Reg 2, Ptr 0x20b2bbc0, Imm 4, Imm 0x40, Imm 0, Imm 0], Count,
    Store 4 0x20b2bc00 (Reg 2), Store 2 0x20b2bc04 (Imm 3), Store 2 0x20b2bc06 (Imm 0),
    Store 8 0x20b2bc40 (Imm 0x7080), Store 8 0x20b2bc48 (Imm 0), Store 8 0x20b2bc80 (Imm 1),
    Syscall NR_ppoll [Ptr 0x20b2bc00, Imm 1, Ptr 0x20b2bc40, Ptr 0x20b2bc80, Imm 8], Count,
    Syscall NR_recvfrom [Reg 2, Ptr 0x20b2bcc0, Imm 4, Imm 0x40, Imm 0, Imm 0], Count,
    Syscall NR_recvfrom [Reg 2, Ptr 0x20b2bd00, Imm 0x2edbf, Imm 0x40, Imm 0, Imm 0], Count,
    Syscall NR_sendto [Reg 2, Write_buf, Imm 0x37, Imm 0x40, Imm 0, Imm 0], Count]"

definition min_mysql_recvfrom_sendto_32_0_body27 :: "stmt list" where
  "min_mysql_recvfrom_sendto_32_0_body27 = [
    Syscall NR_recvfrom [Reg 2, Ptr 0x20bd96c0, Imm 4, Imm 0x40, Imm 0, Imm 0], Count,
    Syscall NR_recvfrom [Reg 2, Ptr 0x20bd9700, Imm 0x23, Imm 0x40, Imm 0, Imm 0], Count,
    Syscall NR_sendto [Reg 2, Write_buf, Imm 0x32, Imm 0x40, Imm 0, Imm 0], Count,
    Syscall NR_recvfrom [Reg 2, Ptr 0x20bffb80, Imm 4, Imm 0x40, Imm 0, Imm 0], Count,
    Syscall NR_recvfrom [Reg 2, Ptr 0x20bffbc0, Imm 0xd5, Imm 0x40, Imm 0, Imm 0], Count,
    Syscall NR_sendto [Reg 2, Write_buf, Imm 0xb, Imm 0x40, Imm 0, Imm 0], Count,
    Syscall NR_recvfrom [Reg 2, Ptr 0x20c4dc40, Imm 4, Imm 0x40, Imm 0, Imm 0], Count,
    Store 4 0x20c4dc80 (Reg 2), Store 2 0x20c4dc84 (Imm 3), Store 2 0x20c4dc86 (Imm 0),
    Store 8 0x20c4dcc0 (Imm 0x7080), Store 8 0x20c4dcc8 (Imm 0), Store 8 0x20c4dd00 (Imm 1),
    Syscall NR_ppoll [Ptr 0x20c4dc80, Imm 1, Ptr 0x20c4dcc0, Ptr 0x20c4dd00, Imm 8], Count,
    Syscall NR_recvfrom [Reg 2, Ptr 0x20c4dd40, Imm 4, Imm 0x40, Imm 0, Imm 0], Count]"

definition min_mysql_recvfrom_sendto_32_0_body28 :: "stmt list" where
  "min_mysql_recvfrom_sendto_32_0_body28 = [
    Syscall NR_recvfrom [Reg 2, Ptr 0x20c4dd80, Imm 0x2edc5, Imm 0x40, Imm 0, Imm 0], Count,
    Syscall NR_sendto [Reg 2, Write_buf, Imm 0x37, Imm 0x40, Imm 0, Imm 0], Count,
    Syscall NR_recvfrom [Reg 2, Ptr 0x20cfb5c0, Imm 4, Imm 0x40, Imm 0, Imm 0], Count,
    Syscall NR_recvfrom [Reg 2, Ptr 0x20cfb600, Imm 0x23, Imm 0x40, Imm 0, Imm 0], Count,
    Syscall NR_sendto [Reg 2, Write_buf, Imm 0x32, Imm 0x40, Imm 0, Imm 0], Count,
    Syscall NR_recvfrom [Reg 2, Ptr 0x20d21980, Imm 4, Imm 0x40, Imm 0, Imm 0], Count,
    Syscall NR_recvfrom [Reg 2, Ptr 0x20d219c0, Imm 1, Imm 0x40, Imm 0, Imm 0], Count,
    Syscall NR_shutdown [Reg 2, Imm 2], Count, Syscall NR_close [Reg 2], Count]"

definition min_mysql_recvfrom_sendto_32_0_regs :: "u64 list" where
  "min_mysql_recvfrom_sendto_32_0_regs = replicate 3 (- 1)"

definition min_mysql_recvfrom_sendto_32_0_reg_body :: "stmt list" where
  "min_mysql_recvfrom_sendto_32_0_reg_body = [
    Syscall NR_socket [Imm 0xa, Imm 1, Imm 6], Count, Save_res 0, Store 4 0x2033fd40 (Imm 1),
    Syscall NR_setsockopt [Reg 0, Imm 1, Imm 2, Ptr 0x2033fd40, Imm 4], Count, Store 4 0x2033fd80 (Imm 0),
    Syscall NR_setsockopt [Reg 0, Imm 0x29, Imm 0x1a, Ptr 0x2033fd80, Imm 4], Count,
    Store 2 0x2033fdc0 (Imm 0xa), Store 2 0x2033fdc2 (Be16 0xcea), Store 4 0x2033fdc4 (Be32 0),
    Memset 0x2033fdc8 0 16, Store 4 0x2033fdd8 (Imm 0), Syscall NR_bind [Reg 0, Bind6_arg, Imm 28], Count,
    Syscall NR_listen [Reg 0, Imm 0xfa0], Count, Syscall NR_socket [Imm 1, Imm 1, Imm 0], Count, Save_res 1,
    Store 4 0x20341ec0 (Imm 1), Syscall NR_setsockopt [Reg 1, Imm 1, Imm 2, Ptr 0x20341ec0, Imm 4], Count,
    Store 2 0x20341f00 (Imm 1), Memcpy 0x20341f02 (''/var/lib/mysql/mysql.sock'' @ replicate 83 (CHR 0x00)) 108,
    Syscall NR_bind [Reg 1, Ptr 0x20341f00, Imm 2], Count, Syscall NR_listen [Reg 1, Imm 0xfa0], Count]"

definition min_mysql_recvfrom_sendto_32_0_dereg_body :: "stmt list" where
  "min_mysql_recvfrom_sendto_32_0_dereg_body = [Close_reg 0, Close_reg 1]"

definition min_mysql_recvfrom_sendto_32_0 :: syz_prog where
  "min_mysql_recvfrom_sendto_32_0 = \<lparr>prog_name = ''min_mysql_recvfrom_sendto_32_0'', prog_family = Mysql_v2,
     subdirs = [],
     filenames = [], filesizes = [],
     max_write_buffer = 78, init_regs = min_mysql_recvfrom_sendto_32_0_regs,
     reg_body = min_mysql_recvfrom_sendto_32_0_reg_body, dereg_body = min_mysql_recvfrom_sendto_32_0_dereg_body,
     body = min_mysql_recvfrom_sendto_32_0_body1 @ min_mysql_recvfrom_sendto_32_0_body2 @
       min_mysql_recvfrom_sendto_32_0_body3 @ min_mysql_recvfrom_sendto_32_0_body4 @
       min_mysql_recvfrom_sendto_32_0_body5 @ min_mysql_recvfrom_sendto_32_0_body6 @
       min_mysql_recvfrom_sendto_32_0_body7 @ min_mysql_recvfrom_sendto_32_0_body8 @
       min_mysql_recvfrom_sendto_32_0_body9 @ min_mysql_recvfrom_sendto_32_0_body10 @
       min_mysql_recvfrom_sendto_32_0_body11 @ min_mysql_recvfrom_sendto_32_0_body12 @
       min_mysql_recvfrom_sendto_32_0_body13 @ min_mysql_recvfrom_sendto_32_0_body14 @
       min_mysql_recvfrom_sendto_32_0_body15 @ min_mysql_recvfrom_sendto_32_0_body16 @
       min_mysql_recvfrom_sendto_32_0_body17 @ min_mysql_recvfrom_sendto_32_0_body18 @
       min_mysql_recvfrom_sendto_32_0_body19 @ min_mysql_recvfrom_sendto_32_0_body20 @
       min_mysql_recvfrom_sendto_32_0_body21 @ min_mysql_recvfrom_sendto_32_0_body22 @
       min_mysql_recvfrom_sendto_32_0_body23 @ min_mysql_recvfrom_sendto_32_0_body24 @
       min_mysql_recvfrom_sendto_32_0_body25 @ min_mysql_recvfrom_sendto_32_0_body26 @
       min_mysql_recvfrom_sendto_32_0_body27 @ min_mysql_recvfrom_sendto_32_0_body28\<rparr>"

definition min_mysql_recvfrom_sendto_32_0_netops_accept :: "string list" where
  "min_mysql_recvfrom_sendto_32_0_netops_accept = [
    ''1w78-3r162-1w22-3r220-1w11-4r266486-1w55-3r41-'' @
    ''1w50-2r216-1w11-3r191942-1w55-2r37-1w50-2r216-'' @
    ''1w11-3r191932-1w55-2r37-1w50-2r216-1w11-3r191940-'' @
    ''1w55-2r37-1w50-2r216-1w11-3r191942-1w55-2r37-'' @ ''1w50-2r216-1w11-3r191953-1w55-2r37-1w50-2r216-'' @
    ''1w11-3r191946-1w55-2r37-1w50-2r216-1w11-3r191921-'' @
    ''1w55-2r37-1w50-2r216-1w11-3r191948-1w55-2r37-'' @ ''1w50-2r217-1w11-3r191946-1w55-3r43-1w50-2r217-'' @
    ''1w11-3r191939-1w55-2r39-1w50-3r221-1w11-3r191943-'' @
    ''1w55-2r39-1w50-2r217-1w11-3r191937-1w55-2r39-'' @ ''1w50-2r217-1w11-3r191940-1w55-2r39-1w50-2r217-'' @
    ''1w11-3r191904-1w55-2r39-1w50-2r217-1w11-3r191927-'' @
    ''1w55-2r39-1w50-2r217-1w11-3r191945-1w55-2r39-'' @ ''1w50-2r217-1w11-3r191929-1w55-2r39-1w50-2r217-'' @
    ''1w11-3r191943-1w55-2r39-1w50-2r217-1w11-3r191949-'' @ ''1w55-2r39-1w50-2r5'']"

definition min_mysql_recvfrom_sendto_32_0_target where
  "min_mysql_recvfrom_sendto_32_0_target os_getenv os_inet_pton K = syz_target os_getenv os_inet_pton K min_mysql_recvfrom_sendto_32_0"

lemma min_mysql_recvfrom_sendto_32_0_body1_ok: "body_ok 3 78 min_mysql_recvfrom_sendto_32_0_body1" "counted min_mysql_recvfrom_sendto_32_0_body1" "calls min_mysql_recvfrom_sendto_32_0_body1 = 6" "opened_in m min_mysql_recvfrom_sendto_32_0_body1 = []"
  by (simp_all add: min_mysql_recvfrom_sendto_32_0_body1_def prog_checks open_checks)

lemma min_mysql_recvfrom_sendto_32_0_body2_ok: "body_ok 3 78 min_mysql_recvfrom_sendto_32_0_body2" "counted min_mysql_recvfrom_sendto_32_0_body2" "calls min_mysql_recvfrom_sendto_32_0_body2 = 7" "opened_in m min_mysql_recvfrom_sendto_32_0_body2 = []"
  by (simp_all add: min_mysql_recvfrom_sendto_32_0_body2_def prog_checks open_checks)

lemma min_mysql_recvfrom_sendto_32_0_body3_ok: "body_ok 3 78 min_mysql_recvfrom_sendto_32_0_body3" "counted min_mysql_recvfrom_sendto_32_0_body3" "calls min_mysql_recvfrom_sendto_32_0_body3 = 8" "opened_in m min_mysql_recvfrom_sendto_32_0_body3 = []"
  by (simp_all add: min_mysql_recvfrom_sendto_32_0_body3_def prog_checks open_checks)

lemma min_mysql_recvfrom_sendto_32_0_body4_ok: "body_ok 3 78 min_mysql_recvfrom_sendto_32_0_body4" "counted min_mysql_recvfrom_sendto_32_0_body4" "calls min_mysql_recvfrom_sendto_32_0_body4 = 8" "opened_in m min_mysql_recvfrom_sendto_32_0_body4 = []"
  by (simp_all add: min_mysql_recvfrom_sendto_32_0_body4_def prog_checks open_checks)

lemma min_mysql_recvfrom_sendto_32_0_body5_ok: "body_ok 3 78 min_mysql_recvfrom_sendto_32_0_body5" "counted min_mysql_recvfrom_sendto_32_0_body5" "calls min_mysql_recvfrom_sendto_32_0_body5 = 9" "opened_in m min_mysql_recvfrom_sendto_32_0_body5 = []"
  by (simp_all add: min_mysql_recvfrom_sendto_32_0_body5_def prog_checks open_checks)

lemma min_mysql_recvfrom_sendto_32_0_body6_ok: "body_ok 3 78 min_mysql_recvfrom_sendto_32_0_body6" "counted min_mysql_recvfrom_sendto_32_0_body6" "calls min_mysql_recvfrom_sendto_32_0_body6 = 9" "opened_in m min_mysql_recvfrom_sendto_32_0_body6 = []"
  by (simp_all add: min_mysql_recvfrom_sendto_32_0_body6_def prog_checks open_checks)

lemma min_mysql_recvfrom_sendto_32_0_body7_ok: "body_ok 3 78 min_mysql_recvfrom_sendto_32_0_body7" "counted min_mysql_recvfrom_sendto_32_0_body7" "calls min_mysql_recvfrom_sendto_32_0_body7 = 9" "opened_in m min_mysql_recvfrom_sendto_32_0_body7 = []"
  by (simp_all add: min_mysql_recvfrom_sendto_32_0_body7_def prog_checks open_checks)

lemma min_mysql_recvfrom_sendto_32_0_body8_ok: "body_ok 3 78 min_mysql_recvfrom_sendto_32_0_body8" "counted min_mysql_recvfrom_sendto_32_0_body8" "calls min_mysql_recvfrom_sendto_32_0_body8 = 9" "opened_in m min_mysql_recvfrom_sendto_32_0_body8 = []"
  by (simp_all add: min_mysql_recvfrom_sendto_32_0_body8_def prog_checks open_checks)

lemma min_mysql_recvfrom_sendto_32_0_body9_ok: "body_ok 3 78 min_mysql_recvfrom_sendto_32_0_body9" "counted min_mysql_recvfrom_sendto_32_0_body9" "calls min_mysql_recvfrom_sendto_32_0_body9 = 9" "opened_in m min_mysql_recvfrom_sendto_32_0_body9 = []"
  by (simp_all add: min_mysql_recvfrom_sendto_32_0_body9_def prog_checks open_checks)

lemma min_mysql_recvfrom_sendto_32_0_body10_ok: "body_ok 3 78 min_mysql_recvfrom_sendto_32_0_body10" "counted min_mysql_recvfrom_sendto_32_0_body10" "calls min_mysql_recvfrom_sendto_32_0_body10 = 9" "opened_in m min_mysql_recvfrom_sendto_32_0_body10 = []"
  by (simp_all add: min_mysql_recvfrom_sendto_32_0_body10_def prog_checks open_checks)

lemma min_mysql_recvfrom_sendto_32_0_body11_ok: "body_ok 3 78 min_mysql_recvfrom_sendto_32_0_body11" "counted min_mysql_recvfrom_sendto_32_0_body11" "calls min_mysql_recvfrom_sendto_32_0_body11 = 9" "opened_in m min_mysql_recvfrom_sendto_32_0_body11 = []"
  by (simp_all add: min_mysql_recvfrom_sendto_32_0_body11_def prog_checks open_checks)

lemma min_mysql_recvfrom_sendto_32_0_body12_ok: "body_ok 3 78 min_mysql_recvfrom_sendto_32_0_body12" "counted min_mysql_recvfrom_sendto_32_0_body12" "calls min_mysql_recvfrom_sendto_32_0_body12 = 9" "opened_in m min_mysql_recvfrom_sendto_32_0_body12 = []"
  by (simp_all add: min_mysql_recvfrom_sendto_32_0_body12_def prog_checks open_checks)

lemma min_mysql_recvfrom_sendto_32_0_body13_ok: "body_ok 3 78 min_mysql_recvfrom_sendto_32_0_body13" "counted min_mysql_recvfrom_sendto_32_0_body13" "calls min_mysql_recvfrom_sendto_32_0_body13 = 9" "opened_in m min_mysql_recvfrom_sendto_32_0_body13 = []"
  by (simp_all add: min_mysql_recvfrom_sendto_32_0_body13_def prog_checks open_checks)

lemma min_mysql_recvfrom_sendto_32_0_body14_ok: "body_ok 3 78 min_mysql_recvfrom_sendto_32_0_body14" "counted min_mysql_recvfrom_sendto_32_0_body14" "calls min_mysql_recvfrom_sendto_32_0_body14 = 9" "opened_in m min_mysql_recvfrom_sendto_32_0_body14 = []"
  by (simp_all add: min_mysql_recvfrom_sendto_32_0_body14_def prog_checks open_checks)

lemma min_mysql_recvfrom_sendto_32_0_body15_ok: "body_ok 3 78 min_mysql_recvfrom_sendto_32_0_body15" "counted min_mysql_recvfrom_sendto_32_0_body15" "calls min_mysql_recvfrom_sendto_32_0_body15 = 9" "opened_in m min_mysql_recvfrom_sendto_32_0_body15 = []"
  by (simp_all add: min_mysql_recvfrom_sendto_32_0_body15_def prog_checks open_checks)

lemma min_mysql_recvfrom_sendto_32_0_body16_ok: "body_ok 3 78 min_mysql_recvfrom_sendto_32_0_body16" "counted min_mysql_recvfrom_sendto_32_0_body16" "calls min_mysql_recvfrom_sendto_32_0_body16 = 9" "opened_in m min_mysql_recvfrom_sendto_32_0_body16 = []"
  by (simp_all add: min_mysql_recvfrom_sendto_32_0_body16_def prog_checks open_checks)

lemma min_mysql_recvfrom_sendto_32_0_body17_ok: "body_ok 3 78 min_mysql_recvfrom_sendto_32_0_body17" "counted min_mysql_recvfrom_sendto_32_0_body17" "calls min_mysql_recvfrom_sendto_32_0_body17 = 7" "opened_in m min_mysql_recvfrom_sendto_32_0_body17 = []"
  by (simp_all add: min_mysql_recvfrom_sendto_32_0_body17_def prog_checks open_checks)

lemma min_mysql_recvfrom_sendto_32_0_body18_ok: "body_ok 3 78 min_mysql_recvfrom_sendto_32_0_body18" "counted min_mysql_recvfrom_sendto_32_0_body18" "calls min_mysql_recvfrom_sendto_32_0_body18 = 9" "opened_in m min_mysql_recvfrom_sendto_32_0_body18 = []"
  by (simp_all add: min_mysql_recvfrom_sendto_32_0_body18_def prog_checks open_checks)

lemma min_mysql_recvfrom_sendto_32_0_body19_ok: "body_ok 3 78 min_mysql_recvfrom_sendto_32_0_body19" "counted min_mysql_recvfrom_sendto_32_0_body19" "calls min_mysql_recvfrom_sendto_32_0_body19 = 9" "opened_in m min_mysql_recvfrom_sendto_32_0_body19 = []"
  by (simp_all add: min_mysql_recvfrom_sendto_32_0_body19_def prog_checks open_checks)

lemma min_mysql_recvfrom_sendto_32_0_body20_ok: "body_ok 3 78 min_mysql_recvfrom_sendto_32_0_body20" "counted min_mysql_recvfrom_sendto_32_0_body20" "calls min_mysql_recvfrom_sendto_32_0_body20 = 9" "opened_in m min_mysql_recvfrom_sendto_32_0_body20 = []"
  by (simp_all add: min_mysql_recvfrom_sendto_32_0_body20_def prog_checks open_checks)

lemma min_mysql_recvfrom_sendto_32_0_body21_ok: "body_ok 3 78 min_mysql_recvfrom_sendto_32_0_body21" "counted min_mysql_recvfrom_sendto_32_0_body21" "calls min_mysql_recvfrom_sendto_32_0_body21 = 9" "opened_in m min_mysql_recvfrom_sendto_32_0_body21 = []"
  by (simp_all add: min_mysql_recvfrom_sendto_32_0_body21_def prog_checks open_checks)

lemma min_mysql_recvfrom_sendto_32_0_body22_ok: "body_ok 3 78 min_mysql_recvfrom_sendto_32_0_body22" "counted min_mysql_recvfrom_sendto_32_0_body22" "calls min_mysql_recvfrom_sendto_32_0_body22 = 9" "opened_in m min_mysql_recvfrom_sendto_32_0_body22 = []"
  by (simp_all add: min_mysql_recvfrom_sendto_32_0_body22_def prog_checks open_checks)

lemma min_mysql_recvfrom_sendto_32_0_body23_ok: "body_ok 3 78 min_mysql_recvfrom_sendto_32_0_body23" "counted min_mysql_recvfrom_sendto_32_0_body23" "calls min_mysql_recvfrom_sendto_32_0_body23 = 9" "opened_in m min_mysql_recvfrom_sendto_32_0_body23 = []"
  by (simp_all add: min_mysql_recvfrom_sendto_32_0_body23_def prog_checks open_checks)

lemma min_mysql_recvfrom_sendto_32_0_body24_ok: "body_ok 3 78 min_mysql_recvfrom_sendto_32_0_body24" "counted min_mysql_recvfrom_sendto_32_0_body24" "calls min_mysql_recvfrom_sendto_32_0_body24 = 9" "opened_in m min_mysql_recvfrom_sendto_32_0_body24 = []"
  by (simp_all add: min_mysql_recvfrom_sendto_32_0_body24_def prog_checks open_checks)

lemma min_mysql_recvfrom_sendto_32_0_body25_ok: "body_ok 3 78 min_mysql_recvfrom_sendto_32_0_body25" "counted min_mysql_recvfrom_sendto_32_0_body25" "calls min_mysql_recvfrom_sendto_32_0_body25 = 9" "opened_in m min_mysql_recvfrom_sendto_32_0_body25 = []"
  by (simp_all add: min_mysql_recvfrom_sendto_32_0_body25_def prog_checks open_checks)

lemma min_mysql_recvfrom_sendto_32_0_body26_ok: "body_ok 3 78 min_mysql_recvfrom_sendto_32_0_body26" "counted min_mysql_recvfrom_sendto_32_0_body26" "calls min_mysql_recvfrom_sendto_32_0_body26 = 9" "opened_in m min_mysql_recvfrom_sendto_32_0_body26 = []"
  by (simp_all add: min_mysql_recvfrom_sendto_32_0_body26_def prog_checks open_checks)

lemma min_mysql_recvfrom_sendto_32_0_body27_ok: "body_ok 3 78 min_mysql_recvfrom_sendto_32_0_body27" "counted min_mysql_recvfrom_sendto_32_0_body27" "calls min_mysql_recvfrom_sendto_32_0_body27 = 9" "opened_in m min_mysql_recvfrom_sendto_32_0_body27 = []"
  by (simp_all add: min_mysql_recvfrom_sendto_32_0_body27_def prog_checks open_checks)

lemma min_mysql_recvfrom_sendto_32_0_body28_ok: "body_ok 3 78 min_mysql_recvfrom_sendto_32_0_body28" "counted min_mysql_recvfrom_sendto_32_0_body28" "calls min_mysql_recvfrom_sendto_32_0_body28 = 9" "opened_in m min_mysql_recvfrom_sendto_32_0_body28 = []"
  by (simp_all add: min_mysql_recvfrom_sendto_32_0_body28_def prog_checks open_checks)

lemmas min_mysql_recvfrom_sendto_32_0_defs =
  min_mysql_recvfrom_sendto_32_0_def min_mysql_recvfrom_sendto_32_0_regs_def
  min_mysql_recvfrom_sendto_32_0_reg_body_def min_mysql_recvfrom_sendto_32_0_dereg_body_def
  min_mysql_recvfrom_sendto_32_0_body1_def min_mysql_recvfrom_sendto_32_0_body2_def
  min_mysql_recvfrom_sendto_32_0_body3_def min_mysql_recvfrom_sendto_32_0_body4_def
  min_mysql_recvfrom_sendto_32_0_body5_def min_mysql_recvfrom_sendto_32_0_body6_def
  min_mysql_recvfrom_sendto_32_0_body7_def min_mysql_recvfrom_sendto_32_0_body8_def
  min_mysql_recvfrom_sendto_32_0_body9_def min_mysql_recvfrom_sendto_32_0_body10_def
  min_mysql_recvfrom_sendto_32_0_body11_def min_mysql_recvfrom_sendto_32_0_body12_def
  min_mysql_recvfrom_sendto_32_0_body13_def min_mysql_recvfrom_sendto_32_0_body14_def
  min_mysql_recvfrom_sendto_32_0_body15_def min_mysql_recvfrom_sendto_32_0_body16_def
  min_mysql_recvfrom_sendto_32_0_body17_def min_mysql_recvfrom_sendto_32_0_body18_def
  min_mysql_recvfrom_sendto_32_0_body19_def min_mysql_recvfrom_sendto_32_0_body20_def
  min_mysql_recvfrom_sendto_32_0_body21_def min_mysql_recvfrom_sendto_32_0_body22_def
  min_mysql_recvfrom_sendto_32_0_body23_def min_mysql_recvfrom_sendto_32_0_body24_def
  min_mysql_recvfrom_sendto_32_0_body25_def min_mysql_recvfrom_sendto_32_0_body26_def
  min_mysql_recvfrom_sendto_32_0_body27_def min_mysql_recvfrom_sendto_32_0_body28_def

lemmas min_mysql_recvfrom_sendto_32_0_bodies =
  min_mysql_recvfrom_sendto_32_0_body1_ok min_mysql_recvfrom_sendto_32_0_body2_ok
  min_mysql_recvfrom_sendto_32_0_body3_ok min_mysql_recvfrom_sendto_32_0_body4_ok
  min_mysql_recvfrom_sendto_32_0_body5_ok min_mysql_recvfrom_sendto_32_0_body6_ok
  min_mysql_recvfrom_sendto_32_0_body7_ok min_mysql_recvfrom_sendto_32_0_body8_ok
  min_mysql_recvfrom_sendto_32_0_body9_ok min_mysql_recvfrom_sendto_32_0_body10_ok
  min_mysql_recvfrom_sendto_32_0_body11_ok min_mysql_recvfrom_sendto_32_0_body12_ok
  min_mysql_recvfrom_sendto_32_0_body13_ok min_mysql_recvfrom_sendto_32_0_body14_ok
  min_mysql_recvfrom_sendto_32_0_body15_ok min_mysql_recvfrom_sendto_32_0_body16_ok
  min_mysql_recvfrom_sendto_32_0_body17_ok min_mysql_recvfrom_sendto_32_0_body18_ok
  min_mysql_recvfrom_sendto_32_0_body19_ok min_mysql_recvfrom_sendto_32_0_body20_ok
  min_mysql_recvfrom_sendto_32_0_body21_ok min_mysql_recvfrom_sendto_32_0_body22_ok
  min_mysql_recvfrom_sendto_32_0_body23_ok min_mysql_recvfrom_sendto_32_0_body24_ok
  min_mysql_recvfrom_sendto_32_0_body25_ok min_mysql_recvfrom_sendto_32_0_body26_ok
  min_mysql_recvfrom_sendto_32_0_body27_ok min_mysql_recvfrom_sendto_32_0_body28_ok

lemma min_mysql_recvfrom_sendto_32_0_ok: "prog_ok min_mysql_recvfrom_sendto_32_0" "calls (body min_mysql_recvfrom_sendto_32_0) = 243"
  by (simp_all add: prog_ok_def counted_append prog_checks min_mysql_recvfrom_sendto_32_0_def min_mysql_recvfrom_sendto_32_0_regs_def min_mysql_recvfrom_sendto_32_0_reg_body_def min_mysql_recvfrom_sendto_32_0_dereg_body_def min_mysql_recvfrom_sendto_32_0_bodies)

end
