(* ===== verification/CSB_Progs_Mysql_v2h.thy ===== *)
theory CSB_Progs_Mysql_v2h
  imports CSB_Syz_Files
begin

text \<open>
  Bodies of generated targets of bench/targets/mysql\_v2, statement by statement in the order of the
  files syz/<name>.h, and the targets made of them (the files <name>.h). Each passes the check.
\<close>

section \<open>min\_mysql\_io\_getevents\_clock\_gettime\_17\_0\<close>

definition min_mysql_io_getevents_clock_gettime_17_0_body1 :: "stmt list" where
  "min_mysql_io_getevents_clock_gettime_17_0_body1 = [
    Syscall NR_clock_gettime [Imm 3, Ptr 0x20050d00], Count, Load_reg 0 0x20050d00, Store 8 0x201a5980 (Reg 0),
    Store 8 0x201a5988 (Imm 0x1dcd6500),
    Syscall NR_io_getevents [Imm 0xffffbc167000, Imm 1, Imm 0x100, Ptr 0x201a5940, Ptr 0x201a5980], Count,
    Store 8 0x203c8000 (Reg 0), Store 8 0x203c8008 (Imm 0x1dcd6500),
    Syscall NR_io_getevents [Imm 0xffffbc167000, Imm 1, Imm 0x100, Ptr 0x203c7fc0, Ptr 0x203c8000], Count,
    Store 8 0x2078d080 (Reg 0), Store 8 0x2078d088 (Imm 0x1dcd6500),
    Syscall NR_io_getevents [Imm 0xffffbc167000, Imm 1, Imm 0x100, Ptr 0x2078d040, Ptr 0x2078d080], Count,
    Store 8 0x20c8e300 (Reg 0), Store 8 0x20c8e308 (Imm 0x1dcd6500),
    Syscall NR_io_getevents [Imm 0xffffbc167000, Imm 1, Imm 0x100, Ptr 0x20c8e2c0, Ptr 0x20c8e300], Count,
    Store 8 0x20cd2900 (Reg 0), Store 8 0x20cd2908 (Imm 0x1dcd6500),
    Syscall NR_io_getevents [Imm 0xffffbc167000, Imm 1, Imm 0x100, Ptr 0x20cd28c0, Ptr 0x20cd2900], Count]"

definition min_mysql_io_getevents_clock_gettime_17_0_body2 :: "stmt list" where
  "min_mysql_io_getevents_clock_gettime_17_0_body2 = [
    Store 8 0x20e59680 (Reg 0), Store 8 0x20e59688 (Imm 0x1dcd6500),
    Syscall NR_io_getevents [Imm 0xffffbc167000, Imm 1, Imm 0x100, Ptr 0x20e59640, Ptr 0x20e59680], Count,
    Store 8 0x200301c0 (Reg 0), Store 8 0x200301c8 (Imm 0x1dcd6500),
    Syscall NR_io_getevents [Imm 0xffffbc167000, Imm 1, Imm 0x100, Ptr 0x20030180, Ptr 0x200301c0], Count,
    Store 8 0x20331240 (Reg 0), Store 8 0x20331248 (Imm 0x1dcd6500),
    Syscall NR_io_getevents [Imm 0xffffbc167000, Imm 1, Imm 0x100, Ptr 0x20331200, Ptr 0x20331240], Count,
    Store 8 0x203b2140 (Reg 0), Store 8 0x203b2148 (Imm 0x1dcd6500),
    Syscall NR_io_getevents [Imm 0xffffbc167000, Imm 1, Imm 0x100, Ptr 0x203b2100, Ptr 0x203b2140], Count,
    Store 8 0x203c07c0 (Reg 0), Store 8 0x203c07c8 (Imm 0x1dcd6500),
    Syscall NR_io_getevents [Imm 0xffffbc167000, Imm 1, Imm 0x100, Ptr 0x203c0780, Ptr 0x203c07c0], Count,
    Store 8 0x203c13c0 (Reg 0), Store 8 0x203c13c8 (Imm 0x1dcd6500),
    Syscall NR_io_getevents [Imm 0xffffbc167000, Imm 1, Imm 0x100, Ptr 0x203c1380, Ptr 0x203c13c0], Count]"

definition min_mysql_io_getevents_clock_gettime_17_0_body3 :: "stmt list" where
  "min_mysql_io_getevents_clock_gettime_17_0_body3 = [
    Store 8 0x203c1e40 (Reg 0), Store 8 0x203c1e48 (Imm 0x1dcd6500),
    Syscall NR_io_getevents [Imm 0xffffbc167000, Imm 1, Imm 0x100, Ptr 0x203c1e00, Ptr 0x203c1e40], Count,
    Store 8 0x2040b6c0 (Reg 0), Store 8 0x2040b6c8 (Imm 0x1dcd6500),
    Syscall NR_io_getevents [Imm 0xffffbc167000, Imm 1, Imm 0x100, Ptr 0x2040b680, Ptr 0x2040b6c0], Count,
    Store 8 0x205f4bc0 (Reg 0), Store 8 0x205f4bc8 (Imm 0x1dcd6500),
    Syscall NR_io_getevents [Imm 0xffffbc167000, Imm 1, Imm 0x100, Ptr 0x205f4b80, Ptr 0x205f4bc0], Count,
    Store 8 0x2070af40 (Reg 0), Store 8 0x2070af48 (Imm 0x1dcd6500),
    Syscall NR_io_getevents [Imm 0xffffbc167000, Imm 1, Imm 0x100, Ptr 0x2070af00, Ptr 0x2070af40], Count,
    Store 8 0x2077bdc0 (Reg 0), Store 8 0x2077bdc8 (Imm 0x1dcd6500),
    Syscall NR_io_getevents [Imm 0xffffbc167000, Imm 1, Imm 0x100, Ptr 0x2077bd80, Ptr 0x2077bdc0], Count,
    Store 8 0x208186c0 (Reg 0), Store 8 0x208186c8 (Imm 0x1dcd6500),
    Syscall NR_io_getevents [Imm 0xffffbc167000, Imm 1, Imm 0x100, Ptr 0x20818680, Ptr 0x208186c0], Count]"

definition min_mysql_io_getevents_clock_gettime_17_0_body4 :: "stmt list" where
  "min_mysql_io_getevents_clock_gettime_17_0_body4 = [
    Store 8 0x2089dc40 (Reg 0), Store 8 0x2089dc48 (Imm 0x1dcd6500),
    Syscall NR_io_getevents [Imm 0xffffbc167000, Imm 1, Imm 0x100, Ptr 0x2089dc00, Ptr 0x2089dc40], Count,
    Store 8 0x2093b940 (Reg 0), Store 8 0x2093b948 (Imm 0x1dcd6500),
    Syscall NR_io_getevents [Imm 0xffffbc167000, Imm 1, Imm 0x100, Ptr 0x2093b900, Ptr 0x2093b940], Count,
    Store 8 0x209787c0 (Reg 0), Store 8 0x209787c8 (Imm 0x1dcd6500),
    Syscall NR_io_getevents [Imm 0xffffbc167000, Imm 1, Imm 0x100, Ptr 0x20978780, Ptr 0x209787c0], Count,
    Store 8 0x20a3f9c0 (Reg 0), Store 8 0x20a3f9c8 (Imm 0x1dcd6500),
    Syscall NR_io_getevents [Imm 0xffffbc167000, Imm 1, Imm 0x100, Ptr 0x20a3f980, Ptr 0x20a3f9c0], Count,
    Store 8 0x20a9bc40 (Reg 0), Store 8 0x20a9bc48 (Imm 0x1dcd6500),
    Syscall NR_io_getevents [Imm 0xffffbc167000, Imm 1, Imm 0x100, Ptr 0x20a9bc00, Ptr 0x20a9bc40], Count,
    Store 8 0x20b5de40 (Reg 0), Store 8 0x20b5de48 (Imm 0x1dcd6500),
    Syscall NR_io_getevents [Imm 0xffffbc167000, Imm 1, Imm 0x100, Ptr 0x20b5de00, Ptr 0x20b5de40], Count]"

definition min_mysql_io_getevents_clock_gettime_17_0_body5 :: "stmt list" where
  "min_mysql_io_getevents_clock_gettime_17_0_body5 = [
    Store 8 0x20bc14c0 (Reg 0), Store 8 0x20bc14c8 (Imm 0x1dcd6500),
    Syscall NR_io_getevents [Imm 0xffffbc167000, Imm 1, Imm 0x100, Ptr 0x20bc1480, Ptr 0x20bc14c0], Count,
    Store 8 0x20c780c0 (Reg 0), Store 8 0x20c780c8 (Imm 0x1dcd6500),
    Syscall NR_io_getevents [Imm 0xffffbc167000, Imm 1, Imm 0x100, Ptr 0x20c78080, Ptr 0x20c780c0], Count,
    Store 8 0x20cddf00 (Reg 0), Store 8 0x20cddf08 (Imm 0x1dcd6500),
    Syscall NR_io_getevents [Imm 0xffffbc167000, Imm 1, Imm 0x100, Ptr 0x20cddec0, Ptr 0x20cddf00], Count,
    Store 8 0x20d90340 (Reg 0), Store 8 0x20d90348 (Imm 0x1dcd6500),
    Syscall NR_io_getevents [Imm 0xffffbc167000, Imm 1, Imm 0x100, Ptr 0x20d90300, Ptr 0x20d90340], Count,
    Store 8 0x20e01f80 (Reg 0), Store 8 0x20e01f88 (Imm 0x1dcd6500),
    Syscall NR_io_getevents [Imm 0xffffbc167000, Imm 1, Imm 0x100, Ptr 0x20e01f40, Ptr 0x20e01f80], Count,
    Store 8 0x20ea7dc0 (Reg 0), Store 8 0x20ea7dc8 (Imm 0x1dcd6500),
    Syscall NR_io_getevents [Imm 0xffffbc167000, Imm 1, Imm 0x100, Ptr 0x20ea7d80, Ptr 0x20ea7dc0], Count]"

definition min_mysql_io_getevents_clock_gettime_17_0_body6 :: "stmt list" where
  "min_mysql_io_getevents_clock_gettime_17_0_body6 = [
    Store 8 0x20f19380 (Reg 0), Store 8 0x20f19388 (Imm 0x1dcd6500),
    Syscall NR_io_getevents [Imm 0xffffbc167000, Imm 1, Imm 0x100, Ptr 0x20f19340, Ptr 0x20f19380], Count,
    Store 8 0x20fc0a40 (Reg 0), Store 8 0x20fc0a48 (Imm 0x1dcd6500),
    Syscall NR_io_getevents [Imm 0xffffbc167000, Imm 1, Imm 0x100, Ptr 0x20fc0a00, Ptr 0x20fc0a40], Count,
    Store 8 0x2003e400 (Reg 0), Store 8 0x2003e408 (Imm 0x1dcd6500),
    Syscall NR_io_getevents [Imm 0xffffbc167000, Imm 1, Imm 0x100, Ptr 0x2003e3c0, Ptr 0x2003e400], Count,
    Store 8 0x200ee340 (Reg 0), Store 8 0x200ee348 (Imm 0x1dcd6500),
    Syscall NR_io_getevents [Imm 0xffffbc167000, Imm 1, Imm 0x100, Ptr 0x200ee300, Ptr 0x200ee340], Count,
    Store 8 0x2016d400 (Reg 0), Store 8 0x2016d408 (Imm 0x1dcd6500),
    Syscall NR_io_getevents [Imm 0xffffbc167000, Imm 1, Imm 0x100, Ptr 0x2016d3c0, Ptr 0x2016d400], Count,
    Store 8 0x202058c0 (Reg 0), Store 8 0x202058c8 (Imm 0x1dcd6500),
    Syscall NR_io_getevents [Imm 0xffffbc167000, Imm 1, Imm 0x100, Ptr 0x20205880, Ptr 0x202058c0], Count]"

definition min_mysql_io_getevents_clock_gettime_17_0_body7 :: "stmt list" where
  "min_mysql_io_getevents_clock_gettime_17_0_body7 = [
    Store 8 0x20283800 (Reg 0), Store 8 0x20283808 (Imm 0x1dcd6500),
    Syscall NR_io_getevents [Imm 0xffffbc167000, Imm 1, Imm 0x100, Ptr 0x202837c0, Ptr 0x20283800], Count,
    Store 8 0x20284640 (Reg 0), Store 8 0x20284648 (Imm 0x1dcd6500),
    Syscall NR_io_getevents [Imm 0xffffbc167000, Imm 1, Imm 0x100, Ptr 0x20284600, Ptr 0x20284640], Count,
    Store 8 0x20285ac0 (Reg 0), Store 8 0x20285ac8 (Imm 0x1dcd6500),
    Syscall NR_io_getevents [Imm 0xffffbc167000, Imm 1, Imm 0x100, Ptr 0x20285a80, Ptr 0x20285ac0], Count,
    Store 8 0x202f1e40 (Reg 0), Store 8 0x202f1e48 (Imm 0x1dcd6500),
    Syscall NR_io_getevents [Imm 0xffffbc167000, Imm 1, Imm 0x100, Ptr 0x202f1e00, Ptr 0x202f1e40], Count,
    Store 8 0x20395580 (Reg 0), Store 8 0x20395588 (Imm 0x1dcd6500),
    Syscall NR_io_getevents [Imm 0xffffbc167000, Imm 1, Imm 0x100, Ptr 0x20395540, Ptr 0x20395580], Count,
    Store 8 0x2040f4c0 (Reg 0), Store 8 0x2040f4c8 (Imm 0x1dcd6500),
    Syscall NR_io_getevents [Imm 0xffffbc167000, Imm 1, Imm 0x100, Ptr 0x2040f480, Ptr 0x2040f4c0], Count]"

definition min_mysql_io_getevents_clock_gettime_17_0_body8 :: "stmt list" where
  "min_mysql_io_getevents_clock_gettime_17_0_body8 = [
    Store 8 0x204aea00 (Reg 0), Store 8 0x204aea08 (Imm 0x1dcd6500),
    Syscall NR_io_getevents [Imm 0xffffbc167000, Imm 1, Imm 0x100, Ptr 0x204ae9c0, Ptr 0x204aea00], Count,
    Store 8 0x20532740 (Reg 0), Store 8 0x20532748 (Imm 0x1dcd6500),
    Syscall NR_io_getevents [Imm 0xffffbc167000, Imm 1, Imm 0x100, Ptr 0x20532700, Ptr 0x20532740], Count,
    Store 8 0x205c7280 (Reg 0), Store 8 0x205c7288 (Imm 0x1dcd6500),
    Syscall NR_io_getevents [Imm 0xffffbc167000, Imm 1, Imm 0x100, Ptr 0x205c7240, Ptr 0x205c7280], Count,
    Store 8 0x20635dc0 (Reg 0), Store 8 0x20635dc8 (Imm 0x1dcd6500),
    Syscall NR_io_getevents [Imm 0xffffbc167000, Imm 1, Imm 0x100, Ptr 0x20635d80, Ptr 0x20635dc0], Count,
    Store 8 0x206cbf80 (Reg 0), Store 8 0x206cbf88 (Imm 0x1dcd6500),
    Syscall NR_io_getevents [Imm 0xffffbc167000, Imm 1, Imm 0x100, Ptr 0x206cbf40, Ptr 0x206cbf80], Count,
    Store 8 0x20731f80 (Reg 0), Store 8 0x20731f88 (Imm 0x1dcd6500),
    Syscall NR_io_getevents [Imm 0xffffbc167000, Imm 1, Imm 0x100, Ptr 0x20731f40, Ptr 0x20731f80], Count]"

definition min_mysql_io_getevents_clock_gettime_17_0_body9 :: "stmt list" where
  "min_mysql_io_getevents_clock_gettime_17_0_body9 = [
    Store 8 0x207eda00 (Reg 0), Store 8 0x207eda08 (Imm 0x1dcd6500),
    Syscall NR_io_getevents [Imm 0xffffbc167000, Imm 1, Imm 0x100, Ptr 0x207ed9c0, Ptr 0x207eda00], Count,
    Store 8 0x20855e00 (Reg 0), Store 8 0x20855e08 (Imm 0x1dcd6500),
    Syscall NR_io_getevents [Imm 0xffffbc167000, Imm 1, Imm 0x100, Ptr 0x20855dc0, Ptr 0x20855e00], Count,
    Store 8 0x20907080 (Reg 0), Store 8 0x20907088 (Imm 0x1dcd6500),
    Syscall NR_io_getevents [Imm 0xffffbc167000, Imm 1, Imm 0x100, Ptr 0x20907040, Ptr 0x20907080], Count,
    Store 8 0x20974a80 (Reg 0), Store 8 0x20974a88 (Imm 0x1dcd6500),
    Syscall NR_io_getevents [Imm 0xffffbc167000, Imm 1, Imm 0x100, Ptr 0x20974a40, Ptr 0x20974a80], Count,
    Store 8 0x20a34300 (Reg 0), Store 8 0x20a34308 (Imm 0x1dcd6500),
    Syscall NR_io_getevents [Imm 0xffffbc167000, Imm 1, Imm 0x100, Ptr 0x20a342c0, Ptr 0x20a34300], Count,
    Store 8 0x20ab4200 (Reg 0), Store 8 0x20ab4208 (Imm 0x1dcd6500),
    Syscall NR_io_getevents [Imm 0xffffbc167000, Imm 1, Imm 0x100, Ptr 0x20ab41c0, Ptr 0x20ab4200], Count]"

definition min_mysql_io_getevents_clock_gettime_17_0_body10 :: "stmt list" where
  "min_mysql_io_getevents_clock_gettime_17_0_body10 = [
    Store 8 0x20b2b4c0 (Reg 0), Store 8 0x20b2b4c8 (Imm 0x1dcd6500),
    Syscall NR_io_getevents [Imm 0xffffbc167000, Imm 1, Imm 0x100, Ptr 0x20b2b480, Ptr 0x20b2b4c0], Count,
    Store 8 0x20bcdbc0 (Reg 0), Store 8 0x20bcdbc8 (Imm 0x1dcd6500),
    Syscall NR_io_getevents [Imm 0xffffbc167000, Imm 1, Imm 0x100, Ptr 0x20bcdb80, Ptr 0x20bcdbc0], Count,
    Store 8 0x20c49940 (Reg 0), Store 8 0x20c49948 (Imm 0x1dcd6500),
    Syscall NR_io_getevents [Imm 0xffffbc167000, Imm 1, Imm 0x100, Ptr 0x20c49900, Ptr 0x20c49940], Count,
    Store 8 0x20cd3640 (Reg 0), Store 8 0x20cd3648 (Imm 0x1dcd6500),
    Syscall NR_io_getevents [Imm 0xffffbc167000, Imm 1, Imm 0x100, Ptr 0x20cd3600, Ptr 0x20cd3640], Count,
    Store 8 0x20d21b40 (Reg 0), Store 8 0x20d21b48 (Imm 0x1dcd6500),
    Syscall NR_io_getevents [Imm 0xffffbc167000, Imm 1, Imm 0x100, Ptr 0x20d21b00, Ptr 0x20d21b40], Count,
    Store 8 0x20d22980 (Reg 0), Store 8 0x20d22988 (Imm 0x1dcd6500),
    Syscall NR_io_getevents [Imm 0xffffbc167000, Imm 1, Imm 0x100, Ptr 0x20d22940, Ptr 0x20d22980], Count]"

definition min_mysql_io_getevents_clock_gettime_17_0_body11 :: "stmt list" where
  "min_mysql_io_getevents_clock_gettime_17_0_body11 = [
    Store 8 0x20d23400 (Reg 0), Store 8 0x20d23408 (Imm 0x1dcd6500),
    Syscall NR_io_getevents [Imm 0xffffbc167000, Imm 1, Imm 0x100, Ptr 0x20d233c0, Ptr 0x20d23400], Count,
    Store 8 0x20d24040 (Reg 0), Store 8 0x20d24048 (Imm 0x1dcd6500),
    Syscall NR_io_getevents [Imm 0xffffbc167000, Imm 1, Imm 0x100, Ptr 0x20d24000, Ptr 0x20d24040], Count,
    Store 8 0x20d24ac0 (Reg 0), Store 8 0x20d24ac8 (Imm 0x1dcd6500),
    Syscall NR_io_getevents [Imm 0xffffbc167000, Imm 1, Imm 0x100, Ptr 0x20d24a80, Ptr 0x20d24ac0], Count,
    Store 8 0x20d25700 (Reg 0), Store 8 0x20d25708 (Imm 0x1dcd6500),
    Syscall NR_io_getevents [Imm 0xffffbc167000, Imm 1, Imm 0x100, Ptr 0x20d256c0, Ptr 0x20d25700], Count,
    Store 8 0x20ef5680 (Reg 0), Store 8 0x20ef5688 (Imm 0x1dcd6500),
    Syscall NR_io_getevents [Imm 0xffffbc167000, Imm 1, Imm 0x100, Ptr 0x20ef5640, Ptr 0x20ef5680], Count,
    Store 8 0x2012a6c0 (Reg 0), Store 8 0x2012a6c8 (Imm 0x1dcd6500),
    Syscall NR_io_getevents [Imm 0xffffbc167000, Imm 1, Imm 0x100, Ptr 0x2012a680, Ptr 0x2012a6c0], Count]"

definition min_mysql_io_getevents_clock_gettime_17_0_body12 :: "stmt list" where
  "min_mysql_io_getevents_clock_gettime_17_0_body12 = [
    Store 8 0x2035b280 (Reg 0), Store 8 0x2035b288 (Imm 0x1dcd6500),
    Syscall NR_io_getevents [Imm 0xffffbc167000, Imm 1, Imm 0x100, Ptr 0x2035b240, Ptr 0x2035b280], Count,
    Store 8 0x20567940 (Reg 0), Store 8 0x20567948 (Imm 0x1dcd6500),
    Syscall NR_io_getevents [Imm 0xffffbc167000, Imm 1, Imm 0x100, Ptr 0x20567900, Ptr 0x20567940], Count,
    Store 8 0x20798500 (Reg 0), Store 8 0x20798508 (Imm 0x1dcd6500),
    Syscall NR_io_getevents [Imm 0xffffbc167000, Imm 1, Imm 0x100, Ptr 0x207984c0, Ptr 0x20798500], Count,
    Store 8 0x209e52c0 (Reg 0), Store 8 0x209e52c8 (Imm 0x1dcd6500),
    Syscall NR_io_getevents [Imm 0xffffbc167000, Imm 1, Imm 0x100, Ptr 0x209e5280, Ptr 0x209e52c0], Count,
    Store 8 0x20c29fc0 (Reg 0), Store 8 0x20c29fc8 (Imm 0x1dcd6500),
    Syscall NR_io_getevents [Imm 0xffffbc167000, Imm 1, Imm 0x100, Ptr 0x20c29f80, Ptr 0x20c29fc0], Count,
    Store 8 0x20e4e9c0 (Reg 0), Store 8 0x20e4e9c8 (Imm 0x1dcd6500),
    Syscall NR_io_getevents [Imm 0xffffbc167000, Imm 1, Imm 0x100, Ptr 0x20e4e980, Ptr 0x20e4e9c0], Count]"

definition min_mysql_io_getevents_clock_gettime_17_0_body13 :: "stmt list" where
  "min_mysql_io_getevents_clock_gettime_17_0_body13 = [
    Store 8 0x20081040 (Reg 0), Store 8 0x20081048 (Imm 0x1dcd6500),
    Syscall NR_io_getevents [Imm 0xffffbc167000, Imm 1, Imm 0x100, Ptr 0x20081000, Ptr 0x20081040], Count,
    Store 8 0x2026d500 (Reg 0), Store 8 0x2026d508 (Imm 0x1dcd6500),
    Syscall NR_io_getevents [Imm 0xffffbc167000, Imm 1, Imm 0x100, Ptr 0x2026d4c0, Ptr 0x2026d500], Count,
    Store 8 0x204719c0 (Reg 0), Store 8 0x204719c8 (Imm 0x1dcd6500),
    Syscall NR_io_getevents [Imm 0xffffbc167000, Imm 1, Imm 0x100, Ptr 0x20471980, Ptr 0x204719c0], Count,
    Store 8 0x20661e80 (Reg 0), Store 8 0x20661e88 (Imm 0x1dcd6500),
    Syscall NR_io_getevents [Imm 0xffffbc167000, Imm 1, Imm 0x100, Ptr 0x20661e40, Ptr 0x20661e80], Count,
    Store 8 0x2087a7c0 (Reg 0), Store 8 0x2087a7c8 (Imm 0x1dcd6500),
    Syscall NR_io_getevents [Imm 0xffffbc167000, Imm 1, Imm 0x100, Ptr 0x2087a780, Ptr 0x2087a7c0], Count,
    Store 8 0x20aa0400 (Reg 0), Store 8 0x20aa0408 (Imm 0x1dcd6500),
    Syscall NR_io_getevents [Imm 0xffffbc167000, Imm 1, Imm 0x100, Ptr 0x20aa03c0, Ptr 0x20aa0400], Count]"

definition min_mysql_io_getevents_clock_gettime_17_0_body14 :: "stmt list" where
  "min_mysql_io_getevents_clock_gettime_17_0_body14 = [
    Store 8 0x20b1a940 (Reg 0), Store 8 0x20b1a948 (Imm 0x1dcd6500),
    Syscall NR_io_getevents [Imm 0xffffbc167000, Imm 1, Imm 0x100, Ptr 0x20b1a900, Ptr 0x20b1a940], Count,
    Store 8 0x20be6380 (Reg 0), Store 8 0x20be6388 (Imm 0x1dcd6500),
    Syscall NR_io_getevents [Imm 0xffffbc167000, Imm 1, Imm 0x100, Ptr 0x20be6340, Ptr 0x20be6380], Count,
    Store 8 0x20b82e80 (Reg 0), Store 8 0x20b82e88 (Imm 0x1dcd6500),
    Syscall NR_io_getevents [Imm 0xffffbc167000, Imm 1, Imm 0x100, Ptr 0x20b82e40, Ptr 0x20b82e80], Count,
    Store 8 0x20b4ca40 (Reg 0), Store 8 0x20b4ca48 (Imm 0x1dcd6500),
    Syscall NR_io_getevents [Imm 0xffffbc167000, Imm 1, Imm 0x100, Ptr 0x20b4ca00, Ptr 0x20b4ca40], Count,
    Store 8 0x207d27c0 (Reg 0), Store 8 0x207d27c8 (Imm 0x1dcd6500),
    Syscall NR_io_getevents [Imm 0xffffbc167000, Imm 1, Imm 0x100, Ptr 0x207d2780, Ptr 0x207d27c0], Count,
    Store 8 0x2095f500 (Reg 0), Store 8 0x2095f508 (Imm 0x1dcd6500),
    Syscall NR_io_getevents [Imm 0xffffbc167000, Imm 1, Imm 0x100, Ptr 0x2095f4c0, Ptr 0x2095f500], Count]"

definition min_mysql_io_getevents_clock_gettime_17_0_body15 :: "stmt list" where
  "min_mysql_io_getevents_clock_gettime_17_0_body15 = [
    Store 8 0x200519c0 (Reg 0), Store 8 0x200519c8 (Imm 0x1dcd6500),
    Syscall NR_io_getevents [Imm 0xffffbc167000, Imm 1, Imm 0x100, Ptr 0x20051980, Ptr 0x200519c0], Count,
    Store 8 0x20992ac0 (Reg 0), Store 8 0x20992ac8 (Imm 0x1dcd6500),
    Syscall NR_io_getevents [Imm 0xffffbc167000, Imm 1, Imm 0x100, Ptr 0x20992a80, Ptr 0x20992ac0], Count,
    Store 8 0x2053d9c0 (Reg 0), Store 8 0x2053d9c8 (Imm 0x1dcd6500),
    Syscall NR_io_getevents [Imm 0xffffbc167000, Imm 1, Imm 0x100, Ptr 0x2053d980, Ptr 0x2053d9c0], Count,
    Store 8 0x2012e880 (Reg 0), Store 8 0x2012e888 (Imm 0x1dcd6500),
    Syscall NR_io_getevents [Imm 0xffffbc167000, Imm 1, Imm 0x100, Ptr 0x2012e840, Ptr 0x2012e880], Count,
    Store 8 0x20e39fc0 (Reg 0), Store 8 0x20e39fc8 (Imm 0x1dcd6500),
    Syscall NR_io_getevents [Imm 0xffffbc167000, Imm 1, Imm 0x100, Ptr 0x20e39f80, Ptr 0x20e39fc0], Count,
    Store 8 0x20cfb7c0 (Reg 0), Store 8 0x20cfb7c8 (Imm 0x1dcd6500),
    Syscall NR_io_getevents [Imm 0xffffbc167000, Imm 1, Imm 0x100, Ptr 0x20cfb780, Ptr 0x20cfb7c0], Count]"

definition min_mysql_io_getevents_clock_gettime_17_0_body16 :: "stmt list" where
  "min_mysql_io_getevents_clock_gettime_17_0_body16 = [
    Store 8 0x20b54940 (Reg 0), Store 8 0x20b54948 (Imm 0x1dcd6500),
    Syscall NR_io_getevents [Imm 0xffffbc167000, Imm 1, Imm 0x100, Ptr 0x20b54900, Ptr 0x20b54940], Count,
    Store 8 0x20aaf740 (Reg 0), Store 8 0x20aaf748 (Imm 0x1dcd6500),
    Syscall NR_io_getevents [Imm 0xffffbc167000, Imm 1, Imm 0x100, Ptr 0x20aaf700, Ptr 0x20aaf740], Count,
    Store 8 0x20be7000 (Reg 0), Store 8 0x20be7008 (Imm 0x1dcd6500),
    Syscall NR_io_getevents [Imm 0xffffbc167000, Imm 1, Imm 0x100, Ptr 0x20be6fc0, Ptr 0x20be7000], Count,
    Store 8 0x20574600 (Reg 0), Store 8 0x20574608 (Imm 0x1dcd6500),
    Syscall NR_io_getevents [Imm 0xffffbc167000, Imm 1, Imm 0x100, Ptr 0x205745c0, Ptr 0x20574600], Count,
    Store 8 0x20e03680 (Reg 0), Store 8 0x20e03688 (Imm 0x1dcd6500),
    Syscall NR_io_getevents [Imm 0xffffbc167000, Imm 1, Imm 0x100, Ptr 0x20e03640, Ptr 0x20e03680], Count,
    Store 8 0x20c747c0 (Reg 0), Store 8 0x20c747c8 (Imm 0x1dcd6500),
    Syscall NR_io_getevents [Imm 0xffffbc167000, Imm 1, Imm 0x100, Ptr 0x20c74780, Ptr 0x20c747c0], Count]"

definition min_mysql_io_getevents_clock_gettime_17_0_body17 :: "stmt list" where
  "min_mysql_io_getevents_clock_gettime_17_0_body17 = [
    Store 8 0x20956b40 (Reg 0), Store 8 0x20956b48 (Imm 0x1dcd6500),
    Syscall NR_io_getevents [Imm 0xffffbc167000, Imm 1, Imm 0x100, Ptr 0x20956b00, Ptr 0x20956b40], Count,
    Store 8 0x2005dd80 (Reg 0), Store 8 0x2005dd88 (Imm 0x1dcd6500),
    Syscall NR_io_getevents [Imm 0xffffbc167000, Imm 1, Imm 0x100, Ptr 0x2005dd40, Ptr 0x2005dd80], Count,
    Store 8 0x20dab380 (Reg 0), Store 8 0x20dab388 (Imm 0x1dcd6500),
    Syscall NR_io_getevents [Imm 0xffffbc167000, Imm 1, Imm 0x100, Ptr 0x20dab340, Ptr 0x20dab380], Count,
    Store 8 0x2064b300 (Reg 0), Store 8 0x2064b308 (Imm 0x1dcd6500),
    Syscall NR_io_getevents [Imm 0xffffbc167000, Imm 1, Imm 0x100, Ptr 0x2064b2c0, Ptr 0x2064b300], Count,
    Store 8 0x20555dc0 (Reg 0), Store 8 0x20555dc8 (Imm 0x1dcd6500),
    Syscall NR_io_getevents [Imm 0xffffbc167000, Imm 1, Imm 0x100, Ptr 0x20555d80, Ptr 0x20555dc0], Count,
    Store 8 0x20b9ffc0 (Reg 0), Store 8 0x20b9ffc8 (Imm 0x1dcd6500),
    Syscall NR_io_getevents [Imm 0xffffbc167000, Imm 1, Imm 0x100, Ptr 0x20b9ff80, Ptr 0x20b9ffc0], Count]"

definition min_mysql_io_getevents_clock_gettime_17_0_body18 :: "stmt list" where
  "min_mysql_io_getevents_clock_gettime_17_0_body18 = [
    Store 8 0x20cdc280 (Reg 0), Store 8 0x20cdc288 (Imm 0x1dcd6500),
    Syscall NR_io_getevents [Imm 0xffffbc167000, Imm 1, Imm 0x100, Ptr 0x20cdc240, Ptr 0x20cdc280], Count,
    Store 8 0x20365980 (Reg 0), Store 8 0x20365988 (Imm 0x1dcd6500),
    Syscall NR_io_getevents [Imm 0xffffbc167000, Imm 1, Imm 0x100, Ptr 0x20365940, Ptr 0x20365980], Count,
    Store 8 0x2007f780 (Reg 0), Store 8 0x2007f788 (Imm 0x1dcd6500),
    Syscall NR_io_getevents [Imm 0xffffbc167000, Imm 1, Imm 0x100, Ptr 0x2007f740, Ptr 0x2007f780], Count,
    Store 8 0x2015fe40 (Reg 0), Store 8 0x2015fe48 (Imm 0x1dcd6500),
    Syscall NR_io_getevents [Imm 0xffffbc167000, Imm 1, Imm 0x100, Ptr 0x2015fe00, Ptr 0x2015fe40], Count,
    Store 8 0x20828780 (Reg 0), Store 8 0x20828788 (Imm 0x1dcd6500),
    Syscall NR_io_getevents [Imm 0xffffbc167000, Imm 1, Imm 0x100, Ptr 0x20828740, Ptr 0x20828780], Count,
    Store 8 0x208e8d00 (Reg 0), Store 8 0x208e8d08 (Imm 0x1dcd6500),
    Syscall NR_io_getevents [Imm 0xffffbc167000, Imm 1, Imm 0x100, Ptr 0x208e8cc0, Ptr 0x208e8d00], Count]"

definition min_mysql_io_getevents_clock_gettime_17_0_body19 :: "stmt list" where
  "min_mysql_io_getevents_clock_gettime_17_0_body19 = [
    Store 8 0x208e9700 (Reg 0), Store 8 0x208e9708 (Imm 0x1dcd6500),
    Syscall NR_io_getevents [Imm 0xffffbc167000, Imm 1, Imm 0x100, Ptr 0x208e96c0, Ptr 0x208e9700], Count,
    Store 8 0x20056e40 (Reg 0), Store 8 0x20056e48 (Imm 0x1dcd6500),
    Syscall NR_io_getevents [Imm 0xffffbc167000, Imm 1, Imm 0x100, Ptr 0x20056e00, Ptr 0x20056e40], Count,
    Store 8 0x20fa2340 (Reg 0), Store 8 0x20fa2348 (Imm 0x1dcd6500),
    Syscall NR_io_getevents [Imm 0xffffbc167000, Imm 1, Imm 0x100, Ptr 0x20fa2300, Ptr 0x20fa2340], Count,
    Store 8 0x20602740 (Reg 0), Store 8 0x20602748 (Imm 0x1dcd6500),
    Syscall NR_io_getevents [Imm 0xffffbc167000, Imm 1, Imm 0x100, Ptr 0x20602700, Ptr 0x20602740], Count,
    Store 8 0x20603140 (Reg 0), Store 8 0x20603148 (Imm 0x1dcd6500),
    Syscall NR_io_getevents [Imm 0xffffbc167000, Imm 1, Imm 0x100, Ptr 0x20603100, Ptr 0x20603140], Count,
    Store 8 0x20960c40 (Reg 0), Store 8 0x20960c48 (Imm 0x1dcd6500),
    Syscall NR_io_getevents [Imm 0xffffbc167000, Imm 1, Imm 0x100, Ptr 0x20960c00, Ptr 0x20960c40], Count]"

definition min_mysql_io_getevents_clock_gettime_17_0_body20 :: "stmt list" where
  "min_mysql_io_getevents_clock_gettime_17_0_body20 = [
    Store 8 0x20e1c580 (Reg 0), Store 8 0x20e1c588 (Imm 0x1dcd6500),
    Syscall NR_io_getevents [Imm 0xffffbc167000, Imm 1, Imm 0x100, Ptr 0x20e1c540, Ptr 0x20e1c580], Count,
    Store 8 0x20b51940 (Reg 0), Store 8 0x20b51948 (Imm 0x1dcd6500),
    Syscall NR_io_getevents [Imm 0xffffbc167000, Imm 1, Imm 0x100, Ptr 0x20b51900, Ptr 0x20b51940], Count,
    Store 8 0x20b875c0 (Reg 0), Store 8 0x20b875c8 (Imm 0x1dcd6500),
    Syscall NR_io_getevents [Imm 0xffffbc167000, Imm 1, Imm 0x100, Ptr 0x20b87580, Ptr 0x20b875c0], Count,
    Store 8 0x202d2cc0 (Reg 0), Store 8 0x202d2cc8 (Imm 0x1dcd6500),
    Syscall NR_io_getevents [Imm 0xffffbc167000, Imm 1, Imm 0x100, Ptr 0x202d2c80, Ptr 0x202d2cc0], Count,
    Store 8 0x203e84c0 (Reg 0), Store 8 0x203e84c8 (Imm 0x1dcd6500),
    Syscall NR_io_getevents [Imm 0xffffbc167000, Imm 1, Imm 0x100, Ptr 0x203e8480, Ptr 0x203e84c0], Count,
    Store 8 0x203f5e40 (Reg 0), Store 8 0x203f5e48 (Imm 0x1dcd6500),
    Syscall NR_io_getevents [Imm 0xffffbc167000, Imm 1, Imm 0x100, Ptr 0x203f5e00, Ptr 0x203f5e40], Count]"

definition min_mysql_io_getevents_clock_gettime_17_0_body21 :: "stmt list" where
  "min_mysql_io_getevents_clock_gettime_17_0_body21 = [
    Store 8 0x20447c40 (Reg 0), Store 8 0x20447c48 (Imm 0x1dcd6500),
    Syscall NR_io_getevents [Imm 0xffffbc167000, Imm 1, Imm 0x100, Ptr 0x20447c00, Ptr 0x20447c40], Count,
    Store 8 0x20449940 (Reg 0), Store 8 0x20449948 (Imm 0x1dcd6500),
    Syscall NR_io_getevents [Imm 0xffffbc167000, Imm 1, Imm 0x100, Ptr 0x20449900, Ptr 0x20449940], Count,
    Store 8 0x2044a5c0 (Reg 0), Store 8 0x2044a5c8 (Imm 0x1dcd6500),
    Syscall NR_io_getevents [Imm 0xffffbc167000, Imm 1, Imm 0x100, Ptr 0x2044a580, Ptr 0x2044a5c0], Count,
    Store 8 0x204a0440 (Reg 0), Store 8 0x204a0448 (Imm 0x1dcd6500),
    Syscall NR_io_getevents [Imm 0xffffbc167000, Imm 1, Imm 0x100, Ptr 0x204a0400, Ptr 0x204a0440], Count,
    Store 8 0x204ada80 (Reg 0), Store 8 0x204ada88 (Imm 0x1dcd6500),
    Syscall NR_io_getevents [Imm 0xffffbc167000, Imm 1, Imm 0x100, Ptr 0x204ada40, Ptr 0x204ada80], Count,
    Store 8 0x204b1d80 (Reg 0), Store 8 0x204b1d88 (Imm 0x1dcd6500),
    Syscall NR_io_getevents [Imm 0xffffbc167000, Imm 1, Imm 0x100, Ptr 0x204b1d40, Ptr 0x204b1d80], Count]"

definition min_mysql_io_getevents_clock_gettime_17_0_body22 :: "stmt list" where
  "min_mysql_io_getevents_clock_gettime_17_0_body22 = [
    Store 8 0x20503940 (Reg 0), Store 8 0x20503948 (Imm 0x1dcd6500),
    Syscall NR_io_getevents [Imm 0xffffbc167000, Imm 1, Imm 0x100, Ptr 0x20503900, Ptr 0x20503940], Count,
    Store 8 0x20509900 (Reg 0), Store 8 0x20509908 (Imm 0x1dcd6500),
    Syscall NR_io_getevents [Imm 0xffffbc167000, Imm 1, Imm 0x100, Ptr 0x205098c0, Ptr 0x20509900], Count,
    Store 8 0x20553040 (Reg 0), Store 8 0x20553048 (Imm 0x1dcd6500),
    Syscall NR_io_getevents [Imm 0xffffbc167000, Imm 1, Imm 0x100, Ptr 0x20553000, Ptr 0x20553040], Count,
    Store 8 0x205576c0 (Reg 0), Store 8 0x205576c8 (Imm 0x1dcd6500),
    Syscall NR_io_getevents [Imm 0xffffbc167000, Imm 1, Imm 0x100, Ptr 0x20557680, Ptr 0x205576c0], Count,
    Store 8 0x205a9540 (Reg 0), Store 8 0x205a9548 (Imm 0x1dcd6500),
    Syscall NR_io_getevents [Imm 0xffffbc167000, Imm 1, Imm 0x100, Ptr 0x205a9500, Ptr 0x205a9540], Count,
    Store 8 0x205dbd80 (Reg 0), Store 8 0x205dbd88 (Imm 0x1dcd6500),
    Syscall NR_io_getevents [Imm 0xffffbc167000, Imm 1, Imm 0x100, Ptr 0x205dbd40, Ptr 0x205dbd80], Count]"

definition min_mysql_io_getevents_clock_gettime_17_0_body23 :: "stmt list" where
  "min_mysql_io_getevents_clock_gettime_17_0_body23 = [
    Store 8 0x205f46c0 (Reg 0), Store 8 0x205f46c8 (Imm 0x1dcd6500),
    Syscall NR_io_getevents [Imm 0xffffbc167000, Imm 1, Imm 0x100, Ptr 0x205f4680, Ptr 0x205f46c0], Count,
    Store 8 0x2063e140 (Reg 0), Store 8 0x2063e148 (Imm 0x1dcd6500),
    Syscall NR_io_getevents [Imm 0xffffbc167000, Imm 1, Imm 0x100, Ptr 0x2063e100, Ptr 0x2063e140], Count,
    Store 8 0x2063f000 (Reg 0), Store 8 0x2063f008 (Imm 0x1dcd6500),
    Syscall NR_io_getevents [Imm 0xffffbc167000, Imm 1, Imm 0x100, Ptr 0x2063efc0, Ptr 0x2063f000], Count,
    Store 8 0x20641500 (Reg 0), Store 8 0x20641508 (Imm 0x1dcd6500),
    Syscall NR_io_getevents [Imm 0xffffbc167000, Imm 1, Imm 0x100, Ptr 0x206414c0, Ptr 0x20641500], Count,
    Store 8 0x206824c0 (Reg 0), Store 8 0x206824c8 (Imm 0x1dcd6500),
    Syscall NR_io_getevents [Imm 0xffffbc167000, Imm 1, Imm 0x100, Ptr 0x20682480, Ptr 0x206824c0], Count,
    Store 8 0x206839c0 (Reg 0), Store 8 0x206839c8 (Imm 0x1dcd6500),
    Syscall NR_io_getevents [Imm 0xffffbc167000, Imm 1, Imm 0x100, Ptr 0x20683980, Ptr 0x206839c0], Count]"

definition min_mysql_io_getevents_clock_gettime_17_0_body24 :: "stmt list" where
  "min_mysql_io_getevents_clock_gettime_17_0_body24 = [
    Store 8 0x20684600 (Reg 0), Store 8 0x20684608 (Imm 0x1dcd6500),
    Syscall NR_io_getevents [Imm 0xffffbc167000, Imm 1, Imm 0x100, Ptr 0x206845c0, Ptr 0x20684600], Count,
    Store 8 0x2070f5c0 (Reg 0), Store 8 0x2070f5c8 (Imm 0x1dcd6500),
    Syscall NR_io_getevents [Imm 0xffffbc167000, Imm 1, Imm 0x100, Ptr 0x2070f580, Ptr 0x2070f5c0], Count,
    Store 8 0x20715100 (Reg 0), Store 8 0x20715108 (Imm 0x1dcd6500),
    Syscall NR_io_getevents [Imm 0xffffbc167000, Imm 1, Imm 0x100, Ptr 0x207150c0, Ptr 0x20715100], Count,
    Store 8 0x2074eb80 (Reg 0), Store 8 0x2074eb88 (Imm 0x1dcd6500),
    Syscall NR_io_getevents [Imm 0xffffbc167000, Imm 1, Imm 0x100, Ptr 0x2074eb40, Ptr 0x2074eb80], Count,
    Store 8 0x20772600 (Reg 0), Store 8 0x20772608 (Imm 0x1dcd6500),
    Syscall NR_io_getevents [Imm 0xffffbc167000, Imm 1, Imm 0x100, Ptr 0x207725c0, Ptr 0x20772600], Count,
    Store 8 0x207ce840 (Reg 0), Store 8 0x207ce848 (Imm 0x1dcd6500),
    Syscall NR_io_getevents [Imm 0xffffbc167000, Imm 1, Imm 0x100, Ptr 0x207ce800, Ptr 0x207ce840], Count]"

definition min_mysql_io_getevents_clock_gettime_17_0_body25 :: "stmt list" where
  "min_mysql_io_getevents_clock_gettime_17_0_body25 = [
    Store 8 0x207d9600 (Reg 0), Store 8 0x207d9608 (Imm 0x1dcd6500),
    Syscall NR_io_getevents [Imm 0xffffbc167000, Imm 1, Imm 0x100, Ptr 0x207d95c0, Ptr 0x207d9600], Count,
    Store 8 0x2082c080 (Reg 0), Store 8 0x2082c088 (Imm 0x1dcd6500),
    Syscall NR_io_getevents [Imm 0xffffbc167000, Imm 1, Imm 0x100, Ptr 0x2082c040, Ptr 0x2082c080], Count,
    Store 8 0x20847580 (Reg 0), Store 8 0x20847588 (Imm 0x1dcd6500),
    Syscall NR_io_getevents [Imm 0xffffbc167000, Imm 1, Imm 0x100, Ptr 0x20847540, Ptr 0x20847580], Count,
    Store 8 0x2084da40 (Reg 0), Store 8 0x2084da48 (Imm 0x1dcd6500),
    Syscall NR_io_getevents [Imm 0xffffbc167000, Imm 1, Imm 0x100, Ptr 0x2084da00, Ptr 0x2084da40], Count,
    Store 8 0x20882cc0 (Reg 0), Store 8 0x20882cc8 (Imm 0x1dcd6500),
    Syscall NR_io_getevents [Imm 0xffffbc167000, Imm 1, Imm 0x100, Ptr 0x20882c80, Ptr 0x20882cc0], Count,
    Store 8 0x20b3f080 (Reg 0), Store 8 0x20b3f088 (Imm 0x1dcd6500),
    Syscall NR_io_getevents [Imm 0xffffbc167000, Imm 1, Imm 0x100, Ptr 0x20b3f040, Ptr 0x20b3f080], Count]"

definition min_mysql_io_getevents_clock_gettime_17_0_body26 :: "stmt list" where
  "min_mysql_io_getevents_clock_gettime_17_0_body26 = [
    Store 8 0x20d83800 (Reg 0), Store 8 0x20d83808 (Imm 0x1dcd6500),
    Syscall NR_io_getevents [Imm 0xffffbc167000, Imm 1, Imm 0x100, Ptr 0x20d837c0, Ptr 0x20d83800], Count,
    Store 8 0x20fdce00 (Reg 0), Store 8 0x20fdce08 (Imm 0x1dcd6500),
    Syscall NR_io_getevents [Imm 0xffffbc167000, Imm 1, Imm 0x100, Ptr 0x20fdcdc0, Ptr 0x20fdce00], Count,
    Store 8 0x20297100 (Reg 0), Store 8 0x20297108 (Imm 0x1dcd6500),
    Syscall NR_io_getevents [Imm 0xffffbc167000, Imm 1, Imm 0x100, Ptr 0x202970c0, Ptr 0x20297100], Count,
    Store 8 0x20550bc0 (Reg 0), Store 8 0x20550bc8 (Imm 0x1dcd6500),
    Syscall NR_io_getevents [Imm 0xffffbc167000, Imm 1, Imm 0x100, Ptr 0x20550b80, Ptr 0x20550bc0], Count,
    Store 8 0x2080ad00 (Reg 0), Store 8 0x2080ad08 (Imm 0x1dcd6500),
    Syscall NR_io_getevents [Imm 0xffffbc167000, Imm 1, Imm 0x100, Ptr 0x2080acc0, Ptr 0x2080ad00], Count,
    Store 8 0x20ae9240 (Reg 0), Store 8 0x20ae9248 (Imm 0x1dcd6500),
    Syscall NR_io_getevents [Imm 0xffffbc167000, Imm 1, Imm 0x100, Ptr 0x20ae9200, Ptr 0x20ae9240], Count]"

definition min_mysql_io_getevents_clock_gettime_17_0_body27 :: "stmt list" where
  "min_mysql_io_getevents_clock_gettime_17_0_body27 = [
    Store 8 0x20da3680 (Reg 0), Store 8 0x20da3688 (Imm 0x1dcd6500),
    Syscall NR_io_getevents [Imm 0xffffbc167000, Imm 1, Imm 0x100, Ptr 0x20da3640, Ptr 0x20da3680], Count,
    Store 8 0x20e249c0 (Reg 0), Store 8 0x20e249c8 (Imm 0x1dcd6500),
    Syscall NR_io_getevents [Imm 0xffffbc167000, Imm 1, Imm 0x100, Ptr 0x20e24980, Ptr 0x20e249c0], Count]"

definition min_mysql_io_getevents_clock_gettime_17_0 :: syz_prog where
  "min_mysql_io_getevents_clock_gettime_17_0 = \<lparr>prog_name = ''min_mysql_io_getevents_clock_gettime_17_0'', prog_family = Mysql_v2,
     subdirs = [],
     filenames = [], filesizes = [],
     max_write_buffer = 0, init_regs = replicate 1 0,
     reg_body = [], dereg_body = [],
     body = min_mysql_io_getevents_clock_gettime_17_0_body1 @ min_mysql_io_getevents_clock_gettime_17_0_body2 @
       min_mysql_io_getevents_clock_gettime_17_0_body3 @ min_mysql_io_getevents_clock_gettime_17_0_body4 @
       min_mysql_io_getevents_clock_gettime_17_0_body5 @ min_mysql_io_getevents_clock_gettime_17_0_body6 @
       min_mysql_io_getevents_clock_gettime_17_0_body7 @ min_mysql_io_getevents_clock_gettime_17_0_body8 @
       min_mysql_io_getevents_clock_gettime_17_0_body9 @ min_mysql_io_getevents_clock_gettime_17_0_body10 @
       min_mysql_io_getevents_clock_gettime_17_0_body11 @ min_mysql_io_getevents_clock_gettime_17_0_body12 @
       min_mysql_io_getevents_clock_gettime_17_0_body13 @ min_mysql_io_getevents_clock_gettime_17_0_body14 @
       min_mysql_io_getevents_clock_gettime_17_0_body15 @ min_mysql_io_getevents_clock_gettime_17_0_body16 @
       min_mysql_io_getevents_clock_gettime_17_0_body17 @ min_mysql_io_getevents_clock_gettime_17_0_body18 @
       min_mysql_io_getevents_clock_gettime_17_0_body19 @ min_mysql_io_getevents_clock_gettime_17_0_body20 @
       min_mysql_io_getevents_clock_gettime_17_0_body21 @ min_mysql_io_getevents_clock_gettime_17_0_body22 @
       min_mysql_io_getevents_clock_gettime_17_0_body23 @ min_mysql_io_getevents_clock_gettime_17_0_body24 @
       min_mysql_io_getevents_clock_gettime_17_0_body25 @ min_mysql_io_getevents_clock_gettime_17_0_body26 @
       min_mysql_io_getevents_clock_gettime_17_0_body27\<rparr>"

definition min_mysql_io_getevents_clock_gettime_17_0_target where
  "min_mysql_io_getevents_clock_gettime_17_0_target os_getenv os_inet_pton K = syz_target os_getenv os_inet_pton K min_mysql_io_getevents_clock_gettime_17_0"

lemma min_mysql_io_getevents_clock_gettime_17_0_body1_ok: "body_ok (Suc 0) 0 min_mysql_io_getevents_clock_gettime_17_0_body1" "counted min_mysql_io_getevents_clock_gettime_17_0_body1" "calls min_mysql_io_getevents_clock_gettime_17_0_body1 = 6" "opened_in m min_mysql_io_getevents_clock_gettime_17_0_body1 = []"
  by (simp_all add: min_mysql_io_getevents_clock_gettime_17_0_body1_def prog_checks open_checks)

lemma min_mysql_io_getevents_clock_gettime_17_0_body2_ok: "body_ok (Suc 0) 0 min_mysql_io_getevents_clock_gettime_17_0_body2" "counted min_mysql_io_getevents_clock_gettime_17_0_body2" "calls min_mysql_io_getevents_clock_gettime_17_0_body2 = 6" "opened_in m min_mysql_io_getevents_clock_gettime_17_0_body2 = []"
  by (simp_all add: min_mysql_io_getevents_clock_gettime_17_0_body2_def prog_checks open_checks)

lemma min_mysql_io_getevents_clock_gettime_17_0_body3_ok: "body_ok (Suc 0) 0 min_mysql_io_getevents_clock_gettime_17_0_body3" "counted min_mysql_io_getevents_clock_gettime_17_0_body3" "calls min_mysql_io_getevents_clock_gettime_17_0_body3 = 6" "opened_in m min_mysql_io_getevents_clock_gettime_17_0_body3 = []"
  by (simp_all add: min_mysql_io_getevents_clock_gettime_17_0_body3_def prog_checks open_checks)

lemma min_mysql_io_getevents_clock_gettime_17_0_body4_ok: "body_ok (Suc 0) 0 min_mysql_io_getevents_clock_gettime_17_0_body4" "counted min_mysql_io_getevents_clock_gettime_17_0_body4" "calls min_mysql_io_getevents_clock_gettime_17_0_body4 = 6" "opened_in m min_mysql_io_getevents_clock_gettime_17_0_body4 = []"
  by (simp_all add: min_mysql_io_getevents_clock_gettime_17_0_body4_def prog_checks open_checks)

lemma min_mysql_io_getevents_clock_gettime_17_0_body5_ok: "body_ok (Suc 0) 0 min_mysql_io_getevents_clock_gettime_17_0_body5" "counted min_mysql_io_getevents_clock_gettime_17_0_body5" "calls min_mysql_io_getevents_clock_gettime_17_0_body5 = 6" "opened_in m min_mysql_io_getevents_clock_gettime_17_0_body5 = []"
  by (simp_all add: min_mysql_io_getevents_clock_gettime_17_0_body5_def prog_checks open_checks)

lemma min_mysql_io_getevents_clock_gettime_17_0_body6_ok: "body_ok (Suc 0) 0 min_mysql_io_getevents_clock_gettime_17_0_body6" "counted min_mysql_io_getevents_clock_gettime_17_0_body6" "calls min_mysql_io_getevents_clock_gettime_17_0_body6 = 6" "opened_in m min_mysql_io_getevents_clock_gettime_17_0_body6 = []"
  by (simp_all add: min_mysql_io_getevents_clock_gettime_17_0_body6_def prog_checks open_checks)

lemma min_mysql_io_getevents_clock_gettime_17_0_body7_ok: "body_ok (Suc 0) 0 min_mysql_io_getevents_clock_gettime_17_0_body7" "counted min_mysql_io_getevents_clock_gettime_17_0_body7" "calls min_mysql_io_getevents_clock_gettime_17_0_body7 = 6" "opened_in m min_mysql_io_getevents_clock_gettime_17_0_body7 = []"
  by (simp_all add: min_mysql_io_getevents_clock_gettime_17_0_body7_def prog_checks open_checks)

lemma min_mysql_io_getevents_clock_gettime_17_0_body8_ok: "body_ok (Suc 0) 0 min_mysql_io_getevents_clock_gettime_17_0_body8" "counted min_mysql_io_getevents_clock_gettime_17_0_body8" "calls min_mysql_io_getevents_clock_gettime_17_0_body8 = 6" "opened_in m min_mysql_io_getevents_clock_gettime_17_0_body8 = []"
  by (simp_all add: min_mysql_io_getevents_clock_gettime_17_0_body8_def prog_checks open_checks)

lemma min_mysql_io_getevents_clock_gettime_17_0_body9_ok: "body_ok (Suc 0) 0 min_mysql_io_getevents_clock_gettime_17_0_body9" "counted min_mysql_io_getevents_clock_gettime_17_0_body9" "calls min_mysql_io_getevents_clock_gettime_17_0_body9 = 6" "opened_in m min_mysql_io_getevents_clock_gettime_17_0_body9 = []"
  by (simp_all add: min_mysql_io_getevents_clock_gettime_17_0_body9_def prog_checks open_checks)

lemma min_mysql_io_getevents_clock_gettime_17_0_body10_ok: "body_ok (Suc 0) 0 min_mysql_io_getevents_clock_gettime_17_0_body10" "counted min_mysql_io_getevents_clock_gettime_17_0_body10" "calls min_mysql_io_getevents_clock_gettime_17_0_body10 = 6" "opened_in m min_mysql_io_getevents_clock_gettime_17_0_body10 = []"
  by (simp_all add: min_mysql_io_getevents_clock_gettime_17_0_body10_def prog_checks open_checks)

lemma min_mysql_io_getevents_clock_gettime_17_0_body11_ok: "body_ok (Suc 0) 0 min_mysql_io_getevents_clock_gettime_17_0_body11" "counted min_mysql_io_getevents_clock_gettime_17_0_body11" "calls min_mysql_io_getevents_clock_gettime_17_0_body11 = 6" "opened_in m min_mysql_io_getevents_clock_gettime_17_0_body11 = []"
  by (simp_all add: min_mysql_io_getevents_clock_gettime_17_0_body11_def prog_checks open_checks)

lemma min_mysql_io_getevents_clock_gettime_17_0_body12_ok: "body_ok (Suc 0) 0 min_mysql_io_getevents_clock_gettime_17_0_body12" "counted min_mysql_io_getevents_clock_gettime_17_0_body12" "calls min_mysql_io_getevents_clock_gettime_17_0_body12 = 6" "opened_in m min_mysql_io_getevents_clock_gettime_17_0_body12 = []"
  by (simp_all add: min_mysql_io_getevents_clock_gettime_17_0_body12_def prog_checks open_checks)

lemma min_mysql_io_getevents_clock_gettime_17_0_body13_ok: "body_ok (Suc 0) 0 min_mysql_io_getevents_clock_gettime_17_0_body13" "counted min_mysql_io_getevents_clock_gettime_17_0_body13" "calls min_mysql_io_getevents_clock_gettime_17_0_body13 = 6" "opened_in m min_mysql_io_getevents_clock_gettime_17_0_body13 = []"
  by (simp_all add: min_mysql_io_getevents_clock_gettime_17_0_body13_def prog_checks open_checks)

lemma min_mysql_io_getevents_clock_gettime_17_0_body14_ok: "body_ok (Suc 0) 0 min_mysql_io_getevents_clock_gettime_17_0_body14" "counted min_mysql_io_getevents_clock_gettime_17_0_body14" "calls min_mysql_io_getevents_clock_gettime_17_0_body14 = 6" "opened_in m min_mysql_io_getevents_clock_gettime_17_0_body14 = []"
  by (simp_all add: min_mysql_io_getevents_clock_gettime_17_0_body14_def prog_checks open_checks)

lemma min_mysql_io_getevents_clock_gettime_17_0_body15_ok: "body_ok (Suc 0) 0 min_mysql_io_getevents_clock_gettime_17_0_body15" "counted min_mysql_io_getevents_clock_gettime_17_0_body15" "calls min_mysql_io_getevents_clock_gettime_17_0_body15 = 6" "opened_in m min_mysql_io_getevents_clock_gettime_17_0_body15 = []"
  by (simp_all add: min_mysql_io_getevents_clock_gettime_17_0_body15_def prog_checks open_checks)

lemma min_mysql_io_getevents_clock_gettime_17_0_body16_ok: "body_ok (Suc 0) 0 min_mysql_io_getevents_clock_gettime_17_0_body16" "counted min_mysql_io_getevents_clock_gettime_17_0_body16" "calls min_mysql_io_getevents_clock_gettime_17_0_body16 = 6" "opened_in m min_mysql_io_getevents_clock_gettime_17_0_body16 = []"
  by (simp_all add: min_mysql_io_getevents_clock_gettime_17_0_body16_def prog_checks open_checks)

lemma min_mysql_io_getevents_clock_gettime_17_0_body17_ok: "body_ok (Suc 0) 0 min_mysql_io_getevents_clock_gettime_17_0_body17" "counted min_mysql_io_getevents_clock_gettime_17_0_body17" "calls min_mysql_io_getevents_clock_gettime_17_0_body17 = 6" "opened_in m min_mysql_io_getevents_clock_gettime_17_0_body17 = []"
  by (simp_all add: min_mysql_io_getevents_clock_gettime_17_0_body17_def prog_checks open_checks)

lemma min_mysql_io_getevents_clock_gettime_17_0_body18_ok: "body_ok (Suc 0) 0 min_mysql_io_getevents_clock_gettime_17_0_body18" "counted min_mysql_io_getevents_clock_gettime_17_0_body18" "calls min_mysql_io_getevents_clock_gettime_17_0_body18 = 6" "opened_in m min_mysql_io_getevents_clock_gettime_17_0_body18 = []"
  by (simp_all add: min_mysql_io_getevents_clock_gettime_17_0_body18_def prog_checks open_checks)

lemma min_mysql_io_getevents_clock_gettime_17_0_body19_ok: "body_ok (Suc 0) 0 min_mysql_io_getevents_clock_gettime_17_0_body19" "counted min_mysql_io_getevents_clock_gettime_17_0_body19" "calls min_mysql_io_getevents_clock_gettime_17_0_body19 = 6" "opened_in m min_mysql_io_getevents_clock_gettime_17_0_body19 = []"
  by (simp_all add: min_mysql_io_getevents_clock_gettime_17_0_body19_def prog_checks open_checks)

lemma min_mysql_io_getevents_clock_gettime_17_0_body20_ok: "body_ok (Suc 0) 0 min_mysql_io_getevents_clock_gettime_17_0_body20" "counted min_mysql_io_getevents_clock_gettime_17_0_body20" "calls min_mysql_io_getevents_clock_gettime_17_0_body20 = 6" "opened_in m min_mysql_io_getevents_clock_gettime_17_0_body20 = []"
  by (simp_all add: min_mysql_io_getevents_clock_gettime_17_0_body20_def prog_checks open_checks)

lemma min_mysql_io_getevents_clock_gettime_17_0_body21_ok: "body_ok (Suc 0) 0 min_mysql_io_getevents_clock_gettime_17_0_body21" "counted min_mysql_io_getevents_clock_gettime_17_0_body21" "calls min_mysql_io_getevents_clock_gettime_17_0_body21 = 6" "opened_in m min_mysql_io_getevents_clock_gettime_17_0_body21 = []"
  by (simp_all add: min_mysql_io_getevents_clock_gettime_17_0_body21_def prog_checks open_checks)

lemma min_mysql_io_getevents_clock_gettime_17_0_body22_ok: "body_ok (Suc 0) 0 min_mysql_io_getevents_clock_gettime_17_0_body22" "counted min_mysql_io_getevents_clock_gettime_17_0_body22" "calls min_mysql_io_getevents_clock_gettime_17_0_body22 = 6" "opened_in m min_mysql_io_getevents_clock_gettime_17_0_body22 = []"
  by (simp_all add: min_mysql_io_getevents_clock_gettime_17_0_body22_def prog_checks open_checks)

lemma min_mysql_io_getevents_clock_gettime_17_0_body23_ok: "body_ok (Suc 0) 0 min_mysql_io_getevents_clock_gettime_17_0_body23" "counted min_mysql_io_getevents_clock_gettime_17_0_body23" "calls min_mysql_io_getevents_clock_gettime_17_0_body23 = 6" "opened_in m min_mysql_io_getevents_clock_gettime_17_0_body23 = []"
  by (simp_all add: min_mysql_io_getevents_clock_gettime_17_0_body23_def prog_checks open_checks)

lemma min_mysql_io_getevents_clock_gettime_17_0_body24_ok: "body_ok (Suc 0) 0 min_mysql_io_getevents_clock_gettime_17_0_body24" "counted min_mysql_io_getevents_clock_gettime_17_0_body24" "calls min_mysql_io_getevents_clock_gettime_17_0_body24 = 6" "opened_in m min_mysql_io_getevents_clock_gettime_17_0_body24 = []"
  by (simp_all add: min_mysql_io_getevents_clock_gettime_17_0_body24_def prog_checks open_checks)

lemma min_mysql_io_getevents_clock_gettime_17_0_body25_ok: "body_ok (Suc 0) 0 min_mysql_io_getevents_clock_gettime_17_0_body25" "counted min_mysql_io_getevents_clock_gettime_17_0_body25" "calls min_mysql_io_getevents_clock_gettime_17_0_body25 = 6" "opened_in m min_mysql_io_getevents_clock_gettime_17_0_body25 = []"
  by (simp_all add: min_mysql_io_getevents_clock_gettime_17_0_body25_def prog_checks open_checks)

lemma min_mysql_io_getevents_clock_gettime_17_0_body26_ok: "body_ok (Suc 0) 0 min_mysql_io_getevents_clock_gettime_17_0_body26" "counted min_mysql_io_getevents_clock_gettime_17_0_body26" "calls min_mysql_io_getevents_clock_gettime_17_0_body26 = 6" "opened_in m min_mysql_io_getevents_clock_gettime_17_0_body26 = []"
  by (simp_all add: min_mysql_io_getevents_clock_gettime_17_0_body26_def prog_checks open_checks)

lemma min_mysql_io_getevents_clock_gettime_17_0_body27_ok: "body_ok (Suc 0) 0 min_mysql_io_getevents_clock_gettime_17_0_body27" "counted min_mysql_io_getevents_clock_gettime_17_0_body27" "calls min_mysql_io_getevents_clock_gettime_17_0_body27 = 2" "opened_in m min_mysql_io_getevents_clock_gettime_17_0_body27 = []"
  by (simp_all add: min_mysql_io_getevents_clock_gettime_17_0_body27_def prog_checks open_checks)

lemmas min_mysql_io_getevents_clock_gettime_17_0_bodies =
  min_mysql_io_getevents_clock_gettime_17_0_body1_ok min_mysql_io_getevents_clock_gettime_17_0_body2_ok
  min_mysql_io_getevents_clock_gettime_17_0_body3_ok min_mysql_io_getevents_clock_gettime_17_0_body4_ok
  min_mysql_io_getevents_clock_gettime_17_0_body5_ok min_mysql_io_getevents_clock_gettime_17_0_body6_ok
  min_mysql_io_getevents_clock_gettime_17_0_body7_ok min_mysql_io_getevents_clock_gettime_17_0_body8_ok
  min_mysql_io_getevents_clock_gettime_17_0_body9_ok min_mysql_io_getevents_clock_gettime_17_0_body10_ok
  min_mysql_io_getevents_clock_gettime_17_0_body11_ok min_mysql_io_getevents_clock_gettime_17_0_body12_ok
  min_mysql_io_getevents_clock_gettime_17_0_body13_ok min_mysql_io_getevents_clock_gettime_17_0_body14_ok
  min_mysql_io_getevents_clock_gettime_17_0_body15_ok min_mysql_io_getevents_clock_gettime_17_0_body16_ok
  min_mysql_io_getevents_clock_gettime_17_0_body17_ok min_mysql_io_getevents_clock_gettime_17_0_body18_ok
  min_mysql_io_getevents_clock_gettime_17_0_body19_ok min_mysql_io_getevents_clock_gettime_17_0_body20_ok
  min_mysql_io_getevents_clock_gettime_17_0_body21_ok min_mysql_io_getevents_clock_gettime_17_0_body22_ok
  min_mysql_io_getevents_clock_gettime_17_0_body23_ok min_mysql_io_getevents_clock_gettime_17_0_body24_ok
  min_mysql_io_getevents_clock_gettime_17_0_body25_ok min_mysql_io_getevents_clock_gettime_17_0_body26_ok
  min_mysql_io_getevents_clock_gettime_17_0_body27_ok

lemma min_mysql_io_getevents_clock_gettime_17_0_ok: "prog_ok min_mysql_io_getevents_clock_gettime_17_0" "calls (body min_mysql_io_getevents_clock_gettime_17_0) = 158"
  by (simp_all add: prog_ok_def counted_append prog_checks min_mysql_io_getevents_clock_gettime_17_0_def min_mysql_io_getevents_clock_gettime_17_0_bodies)

section \<open>min\_mysql\_io\_getevents\_clock\_gettime\_10\_0\<close>

definition min_mysql_io_getevents_clock_gettime_10_0_body1 :: "stmt list" where
  "min_mysql_io_getevents_clock_gettime_10_0_body1 = [
    Syscall NR_clock_gettime [Imm 3, Ptr 0x20050d00], Count, Load_reg 0 0x20050d00, Store 8 0x201a5d00 (Reg 0),
    Store 8 0x201a5d08 (Imm 0x1dcd6500),
    Syscall NR_io_getevents [Imm 0xffffbb817000, Imm 1, Imm 0x100, Ptr 0x201a5cc0, Ptr 0x201a5d00], Count,
    Store 8 0x203c8380 (Reg 0), Store 8 0x203c8388 (Imm 0x1dcd6500),
    Syscall NR_io_getevents [Imm 0xffffbb817000, Imm 1, Imm 0x100, Ptr 0x203c8340, Ptr 0x203c8380], Count,
    Store 8 0x2078d400 (Reg 0), Store 8 0x2078d408 (Imm 0x1dcd6500),
    Syscall NR_io_getevents [Imm 0xffffbb817000, Imm 1, Imm 0x100, Ptr 0x2078d3c0, Ptr 0x2078d400], Count,
    Store 8 0x20c8e680 (Reg 0), Store 8 0x20c8e688 (Imm 0x1dcd6500),
    Syscall NR_io_getevents [Imm 0xffffbb817000, Imm 1, Imm 0x100, Ptr 0x20c8e640, Ptr 0x20c8e680], Count,
    Store 8 0x20cd2d80 (Reg 0), Store 8 0x20cd2d88 (Imm 0x1dcd6500),
    Syscall NR_io_getevents [Imm 0xffffbb817000, Imm 1, Imm 0x100, Ptr 0x20cd2d40, Ptr 0x20cd2d80], Count]"

definition min_mysql_io_getevents_clock_gettime_10_0_body2 :: "stmt list" where
  "min_mysql_io_getevents_clock_gettime_10_0_body2 = [
    Store 8 0x20e69a00 (Reg 0), Store 8 0x20e69a08 (Imm 0x1dcd6500),
    Syscall NR_io_getevents [Imm 0xffffbb817000, Imm 1, Imm 0x100, Ptr 0x20e699c0, Ptr 0x20e69a00], Count,
    Store 8 0x20038540 (Reg 0), Store 8 0x20038548 (Imm 0x1dcd6500),
    Syscall NR_io_getevents [Imm 0xffffbb817000, Imm 1, Imm 0x100, Ptr 0x20038500, Ptr 0x20038540], Count,
    Store 8 0x20331940 (Reg 0), Store 8 0x20331948 (Imm 0x1dcd6500),
    Syscall NR_io_getevents [Imm 0xffffbb817000, Imm 1, Imm 0x100, Ptr 0x20331900, Ptr 0x20331940], Count,
    Store 8 0x203b2740 (Reg 0), Store 8 0x203b2748 (Imm 0x1dcd6500),
    Syscall NR_io_getevents [Imm 0xffffbb817000, Imm 1, Imm 0x100, Ptr 0x203b2700, Ptr 0x203b2740], Count,
    Store 8 0x203c0b40 (Reg 0), Store 8 0x203c0b48 (Imm 0x1dcd6500),
    Syscall NR_io_getevents [Imm 0xffffbb817000, Imm 1, Imm 0x100, Ptr 0x203c0b00, Ptr 0x203c0b40], Count,
    Store 8 0x203c1740 (Reg 0), Store 8 0x203c1748 (Imm 0x1dcd6500),
    Syscall NR_io_getevents [Imm 0xffffbb817000, Imm 1, Imm 0x100, Ptr 0x203c1700, Ptr 0x203c1740], Count]"

definition min_mysql_io_getevents_clock_gettime_10_0_body3 :: "stmt list" where
  "min_mysql_io_getevents_clock_gettime_10_0_body3 = [
    Store 8 0x203c21c0 (Reg 0), Store 8 0x203c21c8 (Imm 0x1dcd6500),
    Syscall NR_io_getevents [Imm 0xffffbb817000, Imm 1, Imm 0x100, Ptr 0x203c2180, Ptr 0x203c21c0], Count,
    Store 8 0x2040ba40 (Reg 0), Store 8 0x2040ba48 (Imm 0x1dcd6500),
    Syscall NR_io_getevents [Imm 0xffffbb817000, Imm 1, Imm 0x100, Ptr 0x2040ba00, Ptr 0x2040ba40], Count,
    Store 8 0x205f4f40 (Reg 0), Store 8 0x205f4f48 (Imm 0x1dcd6500),
    Syscall NR_io_getevents [Imm 0xffffbb817000, Imm 1, Imm 0x100, Ptr 0x205f4f00, Ptr 0x205f4f40], Count,
    Store 8 0x2070b2c0 (Reg 0), Store 8 0x2070b2c8 (Imm 0x1dcd6500),
    Syscall NR_io_getevents [Imm 0xffffbb817000, Imm 1, Imm 0x100, Ptr 0x2070b280, Ptr 0x2070b2c0], Count,
    Store 8 0x2077c140 (Reg 0), Store 8 0x2077c148 (Imm 0x1dcd6500),
    Syscall NR_io_getevents [Imm 0xffffbb817000, Imm 1, Imm 0x100, Ptr 0x2077c100, Ptr 0x2077c140], Count,
    Store 8 0x20818a40 (Reg 0), Store 8 0x20818a48 (Imm 0x1dcd6500),
    Syscall NR_io_getevents [Imm 0xffffbb817000, Imm 1, Imm 0x100, Ptr 0x20818a00, Ptr 0x20818a40], Count]"

definition min_mysql_io_getevents_clock_gettime_10_0_body4 :: "stmt list" where
  "min_mysql_io_getevents_clock_gettime_10_0_body4 = [
    Store 8 0x2089dfc0 (Reg 0), Store 8 0x2089dfc8 (Imm 0x1dcd6500),
    Syscall NR_io_getevents [Imm 0xffffbb817000, Imm 1, Imm 0x100, Ptr 0x2089df80, Ptr 0x2089dfc0], Count,
    Store 8 0x2093bcc0 (Reg 0), Store 8 0x2093bcc8 (Imm 0x1dcd6500),
    Syscall NR_io_getevents [Imm 0xffffbb817000, Imm 1, Imm 0x100, Ptr 0x2093bc80, Ptr 0x2093bcc0], Count,
    Store 8 0x20978b40 (Reg 0), Store 8 0x20978b48 (Imm 0x1dcd6500),
    Syscall NR_io_getevents [Imm 0xffffbb817000, Imm 1, Imm 0x100, Ptr 0x20978b00, Ptr 0x20978b40], Count,
    Store 8 0x20a3fd40 (Reg 0), Store 8 0x20a3fd48 (Imm 0x1dcd6500),
    Syscall NR_io_getevents [Imm 0xffffbb817000, Imm 1, Imm 0x100, Ptr 0x20a3fd00, Ptr 0x20a3fd40], Count,
    Store 8 0x20a9e5c0 (Reg 0), Store 8 0x20a9e5c8 (Imm 0x1dcd6500),
    Syscall NR_io_getevents [Imm 0xffffbb817000, Imm 1, Imm 0x100, Ptr 0x20a9e580, Ptr 0x20a9e5c0], Count,
    Store 8 0x20b5e1c0 (Reg 0), Store 8 0x20b5e1c8 (Imm 0x1dcd6500),
    Syscall NR_io_getevents [Imm 0xffffbb817000, Imm 1, Imm 0x100, Ptr 0x20b5e180, Ptr 0x20b5e1c0], Count]"

definition min_mysql_io_getevents_clock_gettime_10_0_body5 :: "stmt list" where
  "min_mysql_io_getevents_clock_gettime_10_0_body5 = [
    Store 8 0x20bc1840 (Reg 0), Store 8 0x20bc1848 (Imm 0x1dcd6500),
    Syscall NR_io_getevents [Imm 0xffffbb817000, Imm 1, Imm 0x100, Ptr 0x20bc1800, Ptr 0x20bc1840], Count,
    Store 8 0x20c78440 (Reg 0), Store 8 0x20c78448 (Imm 0x1dcd6500),
    Syscall NR_io_getevents [Imm 0xffffbb817000, Imm 1, Imm 0x100, Ptr 0x20c78400, Ptr 0x20c78440], Count,
    Store 8 0x20cde280 (Reg 0), Store 8 0x20cde288 (Imm 0x1dcd6500),
    Syscall NR_io_getevents [Imm 0xffffbb817000, Imm 1, Imm 0x100, Ptr 0x20cde240, Ptr 0x20cde280], Count,
    Store 8 0x20d906c0 (Reg 0), Store 8 0x20d906c8 (Imm 0x1dcd6500),
    Syscall NR_io_getevents [Imm 0xffffbb817000, Imm 1, Imm 0x100, Ptr 0x20d90680, Ptr 0x20d906c0], Count,
    Store 8 0x20e02300 (Reg 0), Store 8 0x20e02308 (Imm 0x1dcd6500),
    Syscall NR_io_getevents [Imm 0xffffbb817000, Imm 1, Imm 0x100, Ptr 0x20e022c0, Ptr 0x20e02300], Count,
    Store 8 0x20ea8140 (Reg 0), Store 8 0x20ea8148 (Imm 0x1dcd6500),
    Syscall NR_io_getevents [Imm 0xffffbb817000, Imm 1, Imm 0x100, Ptr 0x20ea8100, Ptr 0x20ea8140], Count]"

definition min_mysql_io_getevents_clock_gettime_10_0_body6 :: "stmt list" where
  "min_mysql_io_getevents_clock_gettime_10_0_body6 = [
    Store 8 0x20f19700 (Reg 0), Store 8 0x20f19708 (Imm 0x1dcd6500),
    Syscall NR_io_getevents [Imm 0xffffbb817000, Imm 1, Imm 0x100, Ptr 0x20f196c0, Ptr 0x20f19700], Count,
    Store 8 0x20fc4dc0 (Reg 0), Store 8 0x20fc4dc8 (Imm 0x1dcd6500),
    Syscall NR_io_getevents [Imm 0xffffbb817000, Imm 1, Imm 0x100, Ptr 0x20fc4d80, Ptr 0x20fc4dc0], Count,
    Store 8 0x20044200 (Reg 0), Store 8 0x20044208 (Imm 0x1dcd6500),
    Syscall NR_io_getevents [Imm 0xffffbb817000, Imm 1, Imm 0x100, Ptr 0x200441c0, Ptr 0x20044200], Count,
    Store 8 0x200ee6c0 (Reg 0), Store 8 0x200ee6c8 (Imm 0x1dcd6500),
    Syscall NR_io_getevents [Imm 0xffffbb817000, Imm 1, Imm 0x100, Ptr 0x200ee680, Ptr 0x200ee6c0], Count,
    Store 8 0x2016d780 (Reg 0), Store 8 0x2016d788 (Imm 0x1dcd6500),
    Syscall NR_io_getevents [Imm 0xffffbb817000, Imm 1, Imm 0x100, Ptr 0x2016d740, Ptr 0x2016d780], Count,
    Store 8 0x20205c40 (Reg 0), Store 8 0x20205c48 (Imm 0x1dcd6500),
    Syscall NR_io_getevents [Imm 0xffffbb817000, Imm 1, Imm 0x100, Ptr 0x20205c00, Ptr 0x20205c40], Count]"

definition min_mysql_io_getevents_clock_gettime_10_0_body7 :: "stmt list" where
  "min_mysql_io_getevents_clock_gettime_10_0_body7 = [
    Store 8 0x20283b80 (Reg 0), Store 8 0x20283b88 (Imm 0x1dcd6500),
    Syscall NR_io_getevents [Imm 0xffffbb817000, Imm 1, Imm 0x100, Ptr 0x20283b40, Ptr 0x20283b80], Count,
    Store 8 0x202849c0 (Reg 0), Store 8 0x202849c8 (Imm 0x1dcd6500),
    Syscall NR_io_getevents [Imm 0xffffbb817000, Imm 1, Imm 0x100, Ptr 0x20284980, Ptr 0x202849c0], Count,
    Store 8 0x20285e40 (Reg 0), Store 8 0x20285e48 (Imm 0x1dcd6500),
    Syscall NR_io_getevents [Imm 0xffffbb817000, Imm 1, Imm 0x100, Ptr 0x20285e00, Ptr 0x20285e40], Count,
    Store 8 0x202f21c0 (Reg 0), Store 8 0x202f21c8 (Imm 0x1dcd6500),
    Syscall NR_io_getevents [Imm 0xffffbb817000, Imm 1, Imm 0x100, Ptr 0x202f2180, Ptr 0x202f21c0], Count,
    Store 8 0x20395900 (Reg 0), Store 8 0x20395908 (Imm 0x1dcd6500),
    Syscall NR_io_getevents [Imm 0xffffbb817000, Imm 1, Imm 0x100, Ptr 0x203958c0, Ptr 0x20395900], Count,
    Store 8 0x20410040 (Reg 0), Store 8 0x20410048 (Imm 0x1dcd6500),
    Syscall NR_io_getevents [Imm 0xffffbb817000, Imm 1, Imm 0x100, Ptr 0x20410000, Ptr 0x20410040], Count]"

definition min_mysql_io_getevents_clock_gettime_10_0_body8 :: "stmt list" where
  "min_mysql_io_getevents_clock_gettime_10_0_body8 = [
    Store 8 0x204aed80 (Reg 0), Store 8 0x204aed88 (Imm 0x1dcd6500),
    Syscall NR_io_getevents [Imm 0xffffbb817000, Imm 1, Imm 0x100, Ptr 0x204aed40, Ptr 0x204aed80], Count,
    Store 8 0x20532ac0 (Reg 0), Store 8 0x20532ac8 (Imm 0x1dcd6500),
    Syscall NR_io_getevents [Imm 0xffffbb817000, Imm 1, Imm 0x100, Ptr 0x20532a80, Ptr 0x20532ac0], Count,
    Store 8 0x205c7600 (Reg 0), Store 8 0x205c7608 (Imm 0x1dcd6500),
    Syscall NR_io_getevents [Imm 0xffffbb817000, Imm 1, Imm 0x100, Ptr 0x205c75c0, Ptr 0x205c7600], Count,
    Store 8 0x20636140 (Reg 0), Store 8 0x20636148 (Imm 0x1dcd6500),
    Syscall NR_io_getevents [Imm 0xffffbb817000, Imm 1, Imm 0x100, Ptr 0x20636100, Ptr 0x20636140], Count,
    Store 8 0x206cc300 (Reg 0), Store 8 0x206cc308 (Imm 0x1dcd6500),
    Syscall NR_io_getevents [Imm 0xffffbb817000, Imm 1, Imm 0x100, Ptr 0x206cc2c0, Ptr 0x206cc300], Count,
    Store 8 0x20732300 (Reg 0), Store 8 0x20732308 (Imm 0x1dcd6500),
    Syscall NR_io_getevents [Imm 0xffffbb817000, Imm 1, Imm 0x100, Ptr 0x207322c0, Ptr 0x20732300], Count]"

definition min_mysql_io_getevents_clock_gettime_10_0_body9 :: "stmt list" where
  "min_mysql_io_getevents_clock_gettime_10_0_body9 = [
    Store 8 0x207edd80 (Reg 0), Store 8 0x207edd88 (Imm 0x1dcd6500),
    Syscall NR_io_getevents [Imm 0xffffbb817000, Imm 1, Imm 0x100, Ptr 0x207edd40, Ptr 0x207edd80], Count,
    Store 8 0x20856180 (Reg 0), Store 8 0x20856188 (Imm 0x1dcd6500),
    Syscall NR_io_getevents [Imm 0xffffbb817000, Imm 1, Imm 0x100, Ptr 0x20856140, Ptr 0x20856180], Count,
    Store 8 0x20907400 (Reg 0), Store 8 0x20907408 (Imm 0x1dcd6500),
    Syscall NR_io_getevents [Imm 0xffffbb817000, Imm 1, Imm 0x100, Ptr 0x209073c0, Ptr 0x20907400], Count,
    Store 8 0x20974e00 (Reg 0), Store 8 0x20974e08 (Imm 0x1dcd6500),
    Syscall NR_io_getevents [Imm 0xffffbb817000, Imm 1, Imm 0x100, Ptr 0x20974dc0, Ptr 0x20974e00], Count,
    Store 8 0x20a35280 (Reg 0), Store 8 0x20a35288 (Imm 0x1dcd6500),
    Syscall NR_io_getevents [Imm 0xffffbb817000, Imm 1, Imm 0x100, Ptr 0x20a35240, Ptr 0x20a35280], Count,
    Store 8 0x20ab4580 (Reg 0), Store 8 0x20ab4588 (Imm 0x1dcd6500),
    Syscall NR_io_getevents [Imm 0xffffbb817000, Imm 1, Imm 0x100, Ptr 0x20ab4540, Ptr 0x20ab4580], Count]"

definition min_mysql_io_getevents_clock_gettime_10_0_body10 :: "stmt list" where
  "min_mysql_io_getevents_clock_gettime_10_0_body10 = [
    Store 8 0x20b2b840 (Reg 0), Store 8 0x20b2b848 (Imm 0x1dcd6500),
    Syscall NR_io_getevents [Imm 0xffffbb817000, Imm 1, Imm 0x100, Ptr 0x20b2b800, Ptr 0x20b2b840], Count,
    Store 8 0x20bcdf40 (Reg 0), Store 8 0x20bcdf48 (Imm 0x1dcd6500),
    Syscall NR_io_getevents [Imm 0xffffbb817000, Imm 1, Imm 0x100, Ptr 0x20bcdf00, Ptr 0x20bcdf40], Count,
    Store 8 0x20c49cc0 (Reg 0), Store 8 0x20c49cc8 (Imm 0x1dcd6500),
    Syscall NR_io_getevents [Imm 0xffffbb817000, Imm 1, Imm 0x100, Ptr 0x20c49c80, Ptr 0x20c49cc0], Count,
    Store 8 0x20cd39c0 (Reg 0), Store 8 0x20cd39c8 (Imm 0x1dcd6500),
    Syscall NR_io_getevents [Imm 0xffffbb817000, Imm 1, Imm 0x100, Ptr 0x20cd3980, Ptr 0x20cd39c0], Count,
    Store 8 0x20d21ec0 (Reg 0), Store 8 0x20d21ec8 (Imm 0x1dcd6500),
    Syscall NR_io_getevents [Imm 0xffffbb817000, Imm 1, Imm 0x100, Ptr 0x20d21e80, Ptr 0x20d21ec0], Count,
    Store 8 0x20d22d00 (Reg 0), Store 8 0x20d22d08 (Imm 0x1dcd6500),
    Syscall NR_io_getevents [Imm 0xffffbb817000, Imm 1, Imm 0x100, Ptr 0x20d22cc0, Ptr 0x20d22d00], Count]"

definition min_mysql_io_getevents_clock_gettime_10_0_body11 :: "stmt list" where
  "min_mysql_io_getevents_clock_gettime_10_0_body11 = [
    Store 8 0x20d23780 (Reg 0), Store 8 0x20d23788 (Imm 0x1dcd6500),
    Syscall NR_io_getevents [Imm 0xffffbb817000, Imm 1, Imm 0x100, Ptr 0x20d23740, Ptr 0x20d23780], Count,
    Store 8 0x20d243c0 (Reg 0), Store 8 0x20d243c8 (Imm 0x1dcd6500),
    Syscall NR_io_getevents [Imm 0xffffbb817000, Imm 1, Imm 0x100, Ptr 0x20d24380, Ptr 0x20d243c0], Count,
    Store 8 0x20d24e40 (Reg 0), Store 8 0x20d24e48 (Imm 0x1dcd6500),
    Syscall NR_io_getevents [Imm 0xffffbb817000, Imm 1, Imm 0x100, Ptr 0x20d24e00, Ptr 0x20d24e40], Count,
    Store 8 0x20d25a80 (Reg 0), Store 8 0x20d25a88 (Imm 0x1dcd6500),
    Syscall NR_io_getevents [Imm 0xffffbb817000, Imm 1, Imm 0x100, Ptr 0x20d25a40, Ptr 0x20d25a80], Count,
    Store 8 0x20ef5a00 (Reg 0), Store 8 0x20ef5a08 (Imm 0x1dcd6500),
    Syscall NR_io_getevents [Imm 0xffffbb817000, Imm 1, Imm 0x100, Ptr 0x20ef59c0, Ptr 0x20ef5a00], Count,
    Store 8 0x2012aa40 (Reg 0), Store 8 0x2012aa48 (Imm 0x1dcd6500),
    Syscall NR_io_getevents [Imm 0xffffbb817000, Imm 1, Imm 0x100, Ptr 0x2012aa00, Ptr 0x2012aa40], Count]"

definition min_mysql_io_getevents_clock_gettime_10_0_body12 :: "stmt list" where
  "min_mysql_io_getevents_clock_gettime_10_0_body12 = [
    Store 8 0x2035b600 (Reg 0), Store 8 0x2035b608 (Imm 0x1dcd6500),
    Syscall NR_io_getevents [Imm 0xffffbb817000, Imm 1, Imm 0x100, Ptr 0x2035b5c0, Ptr 0x2035b600], Count,
    Store 8 0x20567cc0 (Reg 0), Store 8 0x20567cc8 (Imm 0x1dcd6500),
    Syscall NR_io_getevents [Imm 0xffffbb817000, Imm 1, Imm 0x100, Ptr 0x20567c80, Ptr 0x20567cc0], Count,
    Store 8 0x20798880 (Reg 0), Store 8 0x20798888 (Imm 0x1dcd6500),
    Syscall NR_io_getevents [Imm 0xffffbb817000, Imm 1, Imm 0x100, Ptr 0x20798840, Ptr 0x20798880], Count,
    Store 8 0x209e5640 (Reg 0), Store 8 0x209e5648 (Imm 0x1dcd6500),
    Syscall NR_io_getevents [Imm 0xffffbb817000, Imm 1, Imm 0x100, Ptr 0x209e5600, Ptr 0x209e5640], Count,
    Store 8 0x20c2a2c0 (Reg 0), Store 8 0x20c2a2c8 (Imm 0x1dcd6500),
    Syscall NR_io_getevents [Imm 0xffffbb817000, Imm 1, Imm 0x100, Ptr 0x20c2a280, Ptr 0x20c2a2c0], Count,
    Store 8 0x20e4ecc0 (Reg 0), Store 8 0x20e4ecc8 (Imm 0x1dcd6500),
    Syscall NR_io_getevents [Imm 0xffffbb817000, Imm 1, Imm 0x100, Ptr 0x20e4ec80, Ptr 0x20e4ecc0], Count]"

definition min_mysql_io_getevents_clock_gettime_10_0_body13 :: "stmt list" where
  "min_mysql_io_getevents_clock_gettime_10_0_body13 = [
    Store 8 0x200812c0 (Reg 0), Store 8 0x200812c8 (Imm 0x1dcd6500),
    Syscall NR_io_getevents [Imm 0xffffbb817000, Imm 1, Imm 0x100, Ptr 0x20081280, Ptr 0x200812c0], Count,
    Store 8 0x2026d7c0 (Reg 0), Store 8 0x2026d7c8 (Imm 0x1dcd6500),
    Syscall NR_io_getevents [Imm 0xffffbb817000, Imm 1, Imm 0x100, Ptr 0x2026d780, Ptr 0x2026d7c0], Count,
    Store 8 0x20471cc0 (Reg 0), Store 8 0x20471cc8 (Imm 0x1dcd6500),
    Syscall NR_io_getevents [Imm 0xffffbb817000, Imm 1, Imm 0x100, Ptr 0x20471c80, Ptr 0x20471cc0], Count,
    Store 8 0x206621c0 (Reg 0), Store 8 0x206621c8 (Imm 0x1dcd6500),
    Syscall NR_io_getevents [Imm 0xffffbb817000, Imm 1, Imm 0x100, Ptr 0x20662180, Ptr 0x206621c0], Count,
    Store 8 0x2089ac80 (Reg 0), Store 8 0x2089ac88 (Imm 0x1dcd6500),
    Syscall NR_io_getevents [Imm 0xffffbb817000, Imm 1, Imm 0x100, Ptr 0x2089ac40, Ptr 0x2089ac80], Count,
    Store 8 0x20aa0740 (Reg 0), Store 8 0x20aa0748 (Imm 0x1dcd6500),
    Syscall NR_io_getevents [Imm 0xffffbb817000, Imm 1, Imm 0x100, Ptr 0x20aa0700, Ptr 0x20aa0740], Count]"

definition min_mysql_io_getevents_clock_gettime_10_0_body14 :: "stmt list" where
  "min_mysql_io_getevents_clock_gettime_10_0_body14 = [
    Store 8 0x20b1b080 (Reg 0), Store 8 0x20b1b088 (Imm 0x1dcd6500),
    Syscall NR_io_getevents [Imm 0xffffbb817000, Imm 1, Imm 0x100, Ptr 0x20b1b040, Ptr 0x20b1b080], Count,
    Store 8 0x20be6000 (Reg 0), Store 8 0x20be6008 (Imm 0x1dcd6500),
    Syscall NR_io_getevents [Imm 0xffffbb817000, Imm 1, Imm 0x100, Ptr 0x20be5fc0, Ptr 0x20be6000], Count,
    Store 8 0x20b82b00 (Reg 0), Store 8 0x20b82b08 (Imm 0x1dcd6500),
    Syscall NR_io_getevents [Imm 0xffffbb817000, Imm 1, Imm 0x100, Ptr 0x20b82ac0, Ptr 0x20b82b00], Count,
    Store 8 0x20b4c6c0 (Reg 0), Store 8 0x20b4c6c8 (Imm 0x1dcd6500),
    Syscall NR_io_getevents [Imm 0xffffbb817000, Imm 1, Imm 0x100, Ptr 0x20b4c680, Ptr 0x20b4c6c0], Count,
    Store 8 0x207cf800 (Reg 0), Store 8 0x207cf808 (Imm 0x1dcd6500),
    Syscall NR_io_getevents [Imm 0xffffbb817000, Imm 1, Imm 0x100, Ptr 0x207cf7c0, Ptr 0x207cf800], Count,
    Store 8 0x2095f180 (Reg 0), Store 8 0x2095f188 (Imm 0x1dcd6500),
    Syscall NR_io_getevents [Imm 0xffffbb817000, Imm 1, Imm 0x100, Ptr 0x2095f140, Ptr 0x2095f180], Count]"

definition min_mysql_io_getevents_clock_gettime_10_0_body15 :: "stmt list" where
  "min_mysql_io_getevents_clock_gettime_10_0_body15 = [
    Store 8 0x20051640 (Reg 0), Store 8 0x20051648 (Imm 0x1dcd6500),
    Syscall NR_io_getevents [Imm 0xffffbb817000, Imm 1, Imm 0x100, Ptr 0x20051600, Ptr 0x20051640], Count,
    Store 8 0x20992740 (Reg 0), Store 8 0x20992748 (Imm 0x1dcd6500),
    Syscall NR_io_getevents [Imm 0xffffbb817000, Imm 1, Imm 0x100, Ptr 0x20992700, Ptr 0x20992740], Count,
    Store 8 0x2053d640 (Reg 0), Store 8 0x2053d648 (Imm 0x1dcd6500),
    Syscall NR_io_getevents [Imm 0xffffbb817000, Imm 1, Imm 0x100, Ptr 0x2053d600, Ptr 0x2053d640], Count,
    Store 8 0x2012e500 (Reg 0), Store 8 0x2012e508 (Imm 0x1dcd6500),
    Syscall NR_io_getevents [Imm 0xffffbb817000, Imm 1, Imm 0x100, Ptr 0x2012e4c0, Ptr 0x2012e500], Count,
    Store 8 0x20e39c40 (Reg 0), Store 8 0x20e39c48 (Imm 0x1dcd6500),
    Syscall NR_io_getevents [Imm 0xffffbb817000, Imm 1, Imm 0x100, Ptr 0x20e39c00, Ptr 0x20e39c40], Count,
    Store 8 0x20cfb440 (Reg 0), Store 8 0x20cfb448 (Imm 0x1dcd6500),
    Syscall NR_io_getevents [Imm 0xffffbb817000, Imm 1, Imm 0x100, Ptr 0x20cfb400, Ptr 0x20cfb440], Count]"

definition min_mysql_io_getevents_clock_gettime_10_0_body16 :: "stmt list" where
  "min_mysql_io_getevents_clock_gettime_10_0_body16 = [
    Store 8 0x20b545c0 (Reg 0), Store 8 0x20b545c8 (Imm 0x1dcd6500),
    Syscall NR_io_getevents [Imm 0xffffbb817000, Imm 1, Imm 0x100, Ptr 0x20b54580, Ptr 0x20b545c0], Count,
    Store 8 0x20aaf3c0 (Reg 0), Store 8 0x20aaf3c8 (Imm 0x1dcd6500),
    Syscall NR_io_getevents [Imm 0xffffbb817000, Imm 1, Imm 0x100, Ptr 0x20aaf380, Ptr 0x20aaf3c0], Count,
    Store 8 0x20be6c80 (Reg 0), Store 8 0x20be6c88 (Imm 0x1dcd6500),
    Syscall NR_io_getevents [Imm 0xffffbb817000, Imm 1, Imm 0x100, Ptr 0x20be6c40, Ptr 0x20be6c80], Count,
    Store 8 0x20574280 (Reg 0), Store 8 0x20574288 (Imm 0x1dcd6500),
    Syscall NR_io_getevents [Imm 0xffffbb817000, Imm 1, Imm 0x100, Ptr 0x20574240, Ptr 0x20574280], Count,
    Store 8 0x20e03300 (Reg 0), Store 8 0x20e03308 (Imm 0x1dcd6500),
    Syscall NR_io_getevents [Imm 0xffffbb817000, Imm 1, Imm 0x100, Ptr 0x20e032c0, Ptr 0x20e03300], Count,
    Store 8 0x20c74440 (Reg 0), Store 8 0x20c74448 (Imm 0x1dcd6500),
    Syscall NR_io_getevents [Imm 0xffffbb817000, Imm 1, Imm 0x100, Ptr 0x20c74400, Ptr 0x20c74440], Count]"

definition min_mysql_io_getevents_clock_gettime_10_0_body17 :: "stmt list" where
  "min_mysql_io_getevents_clock_gettime_10_0_body17 = [
    Store 8 0x209567c0 (Reg 0), Store 8 0x209567c8 (Imm 0x1dcd6500),
    Syscall NR_io_getevents [Imm 0xffffbb817000, Imm 1, Imm 0x100, Ptr 0x20956780, Ptr 0x209567c0], Count,
    Store 8 0x2005da00 (Reg 0), Store 8 0x2005da08 (Imm 0x1dcd6500),
    Syscall NR_io_getevents [Imm 0xffffbb817000, Imm 1, Imm 0x100, Ptr 0x2005d9c0, Ptr 0x2005da00], Count,
    Store 8 0x20dab000 (Reg 0), Store 8 0x20dab008 (Imm 0x1dcd6500),
    Syscall NR_io_getevents [Imm 0xffffbb817000, Imm 1, Imm 0x100, Ptr 0x20daafc0, Ptr 0x20dab000], Count,
    Store 8 0x2064b000 (Reg 0), Store 8 0x2064b008 (Imm 0x1dcd6500),
    Syscall NR_io_getevents [Imm 0xffffbb817000, Imm 1, Imm 0x100, Ptr 0x2064afc0, Ptr 0x2064b000], Count,
    Store 8 0x20555ac0 (Reg 0), Store 8 0x20555ac8 (Imm 0x1dcd6500),
    Syscall NR_io_getevents [Imm 0xffffbb817000, Imm 1, Imm 0x100, Ptr 0x20555a80, Ptr 0x20555ac0], Count,
    Store 8 0x20b9fcc0 (Reg 0), Store 8 0x20b9fcc8 (Imm 0x1dcd6500),
    Syscall NR_io_getevents [Imm 0xffffbb817000, Imm 1, Imm 0x100, Ptr 0x20b9fc80, Ptr 0x20b9fcc0], Count]"

definition min_mysql_io_getevents_clock_gettime_10_0_body18 :: "stmt list" where
  "min_mysql_io_getevents_clock_gettime_10_0_body18 = [
    Store 8 0x20cdbf80 (Reg 0), Store 8 0x20cdbf88 (Imm 0x1dcd6500),
    Syscall NR_io_getevents [Imm 0xffffbb817000, Imm 1, Imm 0x100, Ptr 0x20cdbf40, Ptr 0x20cdbf80], Count,
    Store 8 0x20365680 (Reg 0), Store 8 0x20365688 (Imm 0x1dcd6500),
    Syscall NR_io_getevents [Imm 0xffffbb817000, Imm 1, Imm 0x100, Ptr 0x20365640, Ptr 0x20365680], Count,
    Store 8 0x2007f480 (Reg 0), Store 8 0x2007f488 (Imm 0x1dcd6500),
    Syscall NR_io_getevents [Imm 0xffffbb817000, Imm 1, Imm 0x100, Ptr 0x2007f440, Ptr 0x2007f480], Count,
    Store 8 0x2015fb40 (Reg 0), Store 8 0x2015fb48 (Imm 0x1dcd6500),
    Syscall NR_io_getevents [Imm 0xffffbb817000, Imm 1, Imm 0x100, Ptr 0x2015fb00, Ptr 0x2015fb40], Count,
    Store 8 0x20828480 (Reg 0), Store 8 0x20828488 (Imm 0x1dcd6500),
    Syscall NR_io_getevents [Imm 0xffffbb817000, Imm 1, Imm 0x100, Ptr 0x20828440, Ptr 0x20828480], Count,
    Store 8 0x208e8a00 (Reg 0), Store 8 0x208e8a08 (Imm 0x1dcd6500),
    Syscall NR_io_getevents [Imm 0xffffbb817000, Imm 1, Imm 0x100, Ptr 0x208e89c0, Ptr 0x208e8a00], Count]"

definition min_mysql_io_getevents_clock_gettime_10_0_body19 :: "stmt list" where
  "min_mysql_io_getevents_clock_gettime_10_0_body19 = [
    Store 8 0x208e9400 (Reg 0), Store 8 0x208e9408 (Imm 0x1dcd6500),
    Syscall NR_io_getevents [Imm 0xffffbb817000, Imm 1, Imm 0x100, Ptr 0x208e93c0, Ptr 0x208e9400], Count,
    Store 8 0x20056b40 (Reg 0), Store 8 0x20056b48 (Imm 0x1dcd6500),
    Syscall NR_io_getevents [Imm 0xffffbb817000, Imm 1, Imm 0x100, Ptr 0x20056b00, Ptr 0x20056b40], Count,
    Store 8 0x20fa2040 (Reg 0), Store 8 0x20fa2048 (Imm 0x1dcd6500),
    Syscall NR_io_getevents [Imm 0xffffbb817000, Imm 1, Imm 0x100, Ptr 0x20fa2000, Ptr 0x20fa2040], Count,
    Store 8 0x20602440 (Reg 0), Store 8 0x20602448 (Imm 0x1dcd6500),
    Syscall NR_io_getevents [Imm 0xffffbb817000, Imm 1, Imm 0x100, Ptr 0x20602400, Ptr 0x20602440], Count,
    Store 8 0x20602e40 (Reg 0), Store 8 0x20602e48 (Imm 0x1dcd6500),
    Syscall NR_io_getevents [Imm 0xffffbb817000, Imm 1, Imm 0x100, Ptr 0x20602e00, Ptr 0x20602e40], Count,
    Store 8 0x20960940 (Reg 0), Store 8 0x20960948 (Imm 0x1dcd6500),
    Syscall NR_io_getevents [Imm 0xffffbb817000, Imm 1, Imm 0x100, Ptr 0x20960900, Ptr 0x20960940], Count]"

definition min_mysql_io_getevents_clock_gettime_10_0_body20 :: "stmt list" where
  "min_mysql_io_getevents_clock_gettime_10_0_body20 = [
    Store 8 0x20e1c400 (Reg 0), Store 8 0x20e1c408 (Imm 0x1dcd6500),
    Syscall NR_io_getevents [Imm 0xffffbb817000, Imm 1, Imm 0x100, Ptr 0x20e1c3c0, Ptr 0x20e1c400], Count,
    Store 8 0x20b517c0 (Reg 0), Store 8 0x20b517c8 (Imm 0x1dcd6500),
    Syscall NR_io_getevents [Imm 0xffffbb817000, Imm 1, Imm 0x100, Ptr 0x20b51780, Ptr 0x20b517c0], Count,
    Store 8 0x20b872c0 (Reg 0), Store 8 0x20b872c8 (Imm 0x1dcd6500),
    Syscall NR_io_getevents [Imm 0xffffbb817000, Imm 1, Imm 0x100, Ptr 0x20b87280, Ptr 0x20b872c0], Count,
    Store 8 0x202d29c0 (Reg 0), Store 8 0x202d29c8 (Imm 0x1dcd6500),
    Syscall NR_io_getevents [Imm 0xffffbb817000, Imm 1, Imm 0x100, Ptr 0x202d2980, Ptr 0x202d29c0], Count,
    Store 8 0x203e81c0 (Reg 0), Store 8 0x203e81c8 (Imm 0x1dcd6500),
    Syscall NR_io_getevents [Imm 0xffffbb817000, Imm 1, Imm 0x100, Ptr 0x203e8180, Ptr 0x203e81c0], Count,
    Store 8 0x203f5b40 (Reg 0), Store 8 0x203f5b48 (Imm 0x1dcd6500),
    Syscall NR_io_getevents [Imm 0xffffbb817000, Imm 1, Imm 0x100, Ptr 0x203f5b00, Ptr 0x203f5b40], Count]"

definition min_mysql_io_getevents_clock_gettime_10_0_body21 :: "stmt list" where
  "min_mysql_io_getevents_clock_gettime_10_0_body21 = [
    Store 8 0x20447940 (Reg 0), Store 8 0x20447948 (Imm 0x1dcd6500),
    Syscall NR_io_getevents [Imm 0xffffbb817000, Imm 1, Imm 0x100, Ptr 0x20447900, Ptr 0x20447940], Count,
    Store 8 0x20449640 (Reg 0), Store 8 0x20449648 (Imm 0x1dcd6500),
    Syscall NR_io_getevents [Imm 0xffffbb817000, Imm 1, Imm 0x100, Ptr 0x20449600, Ptr 0x20449640], Count,
    Store 8 0x2044a2c0 (Reg 0), Store 8 0x2044a2c8 (Imm 0x1dcd6500),
    Syscall NR_io_getevents [Imm 0xffffbb817000, Imm 1, Imm 0x100, Ptr 0x2044a280, Ptr 0x2044a2c0], Count,
    Store 8 0x204a0140 (Reg 0), Store 8 0x204a0148 (Imm 0x1dcd6500),
    Syscall NR_io_getevents [Imm 0xffffbb817000, Imm 1, Imm 0x100, Ptr 0x204a0100, Ptr 0x204a0140], Count,
    Store 8 0x204ad780 (Reg 0), Store 8 0x204ad788 (Imm 0x1dcd6500),
    Syscall NR_io_getevents [Imm 0xffffbb817000, Imm 1, Imm 0x100, Ptr 0x204ad740, Ptr 0x204ad780], Count,
    Store 8 0x204b1a80 (Reg 0), Store 8 0x204b1a88 (Imm 0x1dcd6500),
    Syscall NR_io_getevents [Imm 0xffffbb817000, Imm 1, Imm 0x100, Ptr 0x204b1a40, Ptr 0x204b1a80], Count]"

definition min_mysql_io_getevents_clock_gettime_10_0_body22 :: "stmt list" where
  "min_mysql_io_getevents_clock_gettime_10_0_body22 = [
    Store 8 0x20503640 (Reg 0), Store 8 0x20503648 (Imm 0x1dcd6500),
    Syscall NR_io_getevents [Imm 0xffffbb817000, Imm 1, Imm 0x100, Ptr 0x20503600, Ptr 0x20503640], Count,
    Store 8 0x20509580 (Reg 0), Store 8 0x20509588 (Imm 0x1dcd6500),
    Syscall NR_io_getevents [Imm 0xffffbb817000, Imm 1, Imm 0x100, Ptr 0x20509540, Ptr 0x20509580], Count,
    Store 8 0x20552e40 (Reg 0), Store 8 0x20552e48 (Imm 0x1dcd6500),
    Syscall NR_io_getevents [Imm 0xffffbb817000, Imm 1, Imm 0x100, Ptr 0x20552e00, Ptr 0x20552e40], Count,
    Store 8 0x20557340 (Reg 0), Store 8 0x20557348 (Imm 0x1dcd6500),
    Syscall NR_io_getevents [Imm 0xffffbb817000, Imm 1, Imm 0x100, Ptr 0x20557300, Ptr 0x20557340], Count,
    Store 8 0x205a91c0 (Reg 0), Store 8 0x205a91c8 (Imm 0x1dcd6500),
    Syscall NR_io_getevents [Imm 0xffffbb817000, Imm 1, Imm 0x100, Ptr 0x205a9180, Ptr 0x205a91c0], Count,
    Store 8 0x205dba00 (Reg 0), Store 8 0x205dba08 (Imm 0x1dcd6500),
    Syscall NR_io_getevents [Imm 0xffffbb817000, Imm 1, Imm 0x100, Ptr 0x205db9c0, Ptr 0x205dba00], Count]"

definition min_mysql_io_getevents_clock_gettime_10_0_body23 :: "stmt list" where
  "min_mysql_io_getevents_clock_gettime_10_0_body23 = [
    Store 8 0x205f4340 (Reg 0), Store 8 0x205f4348 (Imm 0x1dcd6500),
    Syscall NR_io_getevents [Imm 0xffffbb817000, Imm 1, Imm 0x100, Ptr 0x205f4300, Ptr 0x205f4340], Count,
    Store 8 0x2063ddc0 (Reg 0), Store 8 0x2063ddc8 (Imm 0x1dcd6500),
    Syscall NR_io_getevents [Imm 0xffffbb817000, Imm 1, Imm 0x100, Ptr 0x2063dd80, Ptr 0x2063ddc0], Count,
    Store 8 0x2063ec80 (Reg 0), Store 8 0x2063ec88 (Imm 0x1dcd6500),
    Syscall NR_io_getevents [Imm 0xffffbb817000, Imm 1, Imm 0x100, Ptr 0x2063ec40, Ptr 0x2063ec80], Count,
    Store 8 0x20641180 (Reg 0), Store 8 0x20641188 (Imm 0x1dcd6500),
    Syscall NR_io_getevents [Imm 0xffffbb817000, Imm 1, Imm 0x100, Ptr 0x20641140, Ptr 0x20641180], Count,
    Store 8 0x20682140 (Reg 0), Store 8 0x20682148 (Imm 0x1dcd6500),
    Syscall NR_io_getevents [Imm 0xffffbb817000, Imm 1, Imm 0x100, Ptr 0x20682100, Ptr 0x20682140], Count,
    Store 8 0x20683640 (Reg 0), Store 8 0x20683648 (Imm 0x1dcd6500),
    Syscall NR_io_getevents [Imm 0xffffbb817000, Imm 1, Imm 0x100, Ptr 0x20683600, Ptr 0x20683640], Count]"

definition min_mysql_io_getevents_clock_gettime_10_0_body24 :: "stmt list" where
  "min_mysql_io_getevents_clock_gettime_10_0_body24 = [
    Store 8 0x20684280 (Reg 0), Store 8 0x20684288 (Imm 0x1dcd6500),
    Syscall NR_io_getevents [Imm 0xffffbb817000, Imm 1, Imm 0x100, Ptr 0x20684240, Ptr 0x20684280], Count,
    Store 8 0x2070f240 (Reg 0), Store 8 0x2070f248 (Imm 0x1dcd6500),
    Syscall NR_io_getevents [Imm 0xffffbb817000, Imm 1, Imm 0x100, Ptr 0x2070f200, Ptr 0x2070f240], Count,
    Store 8 0x20714d80 (Reg 0), Store 8 0x20714d88 (Imm 0x1dcd6500),
    Syscall NR_io_getevents [Imm 0xffffbb817000, Imm 1, Imm 0x100, Ptr 0x20714d40, Ptr 0x20714d80], Count,
    Store 8 0x2074e800 (Reg 0), Store 8 0x2074e808 (Imm 0x1dcd6500),
    Syscall NR_io_getevents [Imm 0xffffbb817000, Imm 1, Imm 0x100, Ptr 0x2074e7c0, Ptr 0x2074e800], Count,
    Store 8 0x20772280 (Reg 0), Store 8 0x20772288 (Imm 0x1dcd6500),
    Syscall NR_io_getevents [Imm 0xffffbb817000, Imm 1, Imm 0x100, Ptr 0x20772240, Ptr 0x20772280], Count,
    Store 8 0x207ce4c0 (Reg 0), Store 8 0x207ce4c8 (Imm 0x1dcd6500),
    Syscall NR_io_getevents [Imm 0xffffbb817000, Imm 1, Imm 0x100, Ptr 0x207ce480, Ptr 0x207ce4c0], Count]"

definition min_mysql_io_getevents_clock_gettime_10_0_body25 :: "stmt list" where
  "min_mysql_io_getevents_clock_gettime_10_0_body25 = [
    Store 8 0x207d9280 (Reg 0), Store 8 0x207d9288 (Imm 0x1dcd6500),
    Syscall NR_io_getevents [Imm 0xffffbb817000, Imm 1, Imm 0x100, Ptr 0x207d9240, Ptr 0x207d9280], Count,
    Store 8 0x2082bd00 (Reg 0), Store 8 0x2082bd08 (Imm 0x1dcd6500),
    Syscall NR_io_getevents [Imm 0xffffbb817000, Imm 1, Imm 0x100, Ptr 0x2082bcc0, Ptr 0x2082bd00], Count,
    Store 8 0x20847200 (Reg 0), Store 8 0x20847208 (Imm 0x1dcd6500),
    Syscall NR_io_getevents [Imm 0xffffbb817000, Imm 1, Imm 0x100, Ptr 0x208471c0, Ptr 0x20847200], Count,
    Store 8 0x2084d6c0 (Reg 0), Store 8 0x2084d6c8 (Imm 0x1dcd6500),
    Syscall NR_io_getevents [Imm 0xffffbb817000, Imm 1, Imm 0x100, Ptr 0x2084d680, Ptr 0x2084d6c0], Count,
    Store 8 0x20882ec0 (Reg 0), Store 8 0x20882ec8 (Imm 0x1dcd6500),
    Syscall NR_io_getevents [Imm 0xffffbb817000, Imm 1, Imm 0x100, Ptr 0x20882e80, Ptr 0x20882ec0], Count,
    Store 8 0x20b3ed00 (Reg 0), Store 8 0x20b3ed08 (Imm 0x1dcd6500),
    Syscall NR_io_getevents [Imm 0xffffbb817000, Imm 1, Imm 0x100, Ptr 0x20b3ecc0, Ptr 0x20b3ed00], Count]"

definition min_mysql_io_getevents_clock_gettime_10_0_body26 :: "stmt list" where
  "min_mysql_io_getevents_clock_gettime_10_0_body26 = [
    Store 8 0x20d83400 (Reg 0), Store 8 0x20d83408 (Imm 0x1dcd6500),
    Syscall NR_io_getevents [Imm 0xffffbb817000, Imm 1, Imm 0x100, Ptr 0x20d833c0, Ptr 0x20d83400], Count,
    Store 8 0x20fdca80 (Reg 0), Store 8 0x20fdca88 (Imm 0x1dcd6500),
    Syscall NR_io_getevents [Imm 0xffffbb817000, Imm 1, Imm 0x100, Ptr 0x20fdca40, Ptr 0x20fdca80], Count,
    Store 8 0x20296d00 (Reg 0), Store 8 0x20296d08 (Imm 0x1dcd6500),
    Syscall NR_io_getevents [Imm 0xffffbb817000, Imm 1, Imm 0x100, Ptr 0x20296cc0, Ptr 0x20296d00], Count,
    Store 8 0x20550840 (Reg 0), Store 8 0x20550848 (Imm 0x1dcd6500),
    Syscall NR_io_getevents [Imm 0xffffbb817000, Imm 1, Imm 0x100, Ptr 0x20550800, Ptr 0x20550840], Count,
    Store 8 0x2080aa00 (Reg 0), Store 8 0x2080aa08 (Imm 0x1dcd6500),
    Syscall NR_io_getevents [Imm 0xffffbb817000, Imm 1, Imm 0x100, Ptr 0x2080a9c0, Ptr 0x2080aa00], Count,
    Store 8 0x20ae8ec0 (Reg 0), Store 8 0x20ae8ec8 (Imm 0x1dcd6500),
    Syscall NR_io_getevents [Imm 0xffffbb817000, Imm 1, Imm 0x100, Ptr 0x20ae8e80, Ptr 0x20ae8ec0], Count]"

definition min_mysql_io_getevents_clock_gettime_10_0_body27 :: "stmt list" where
  "min_mysql_io_getevents_clock_gettime_10_0_body27 = [
    Store 8 0x20da3280 (Reg 0), Store 8 0x20da3288 (Imm 0x1dcd6500),
    Syscall NR_io_getevents [Imm 0xffffbb817000, Imm 1, Imm 0x100, Ptr 0x20da3240, Ptr 0x20da3280], Count,
    Store 8 0x20e245c0 (Reg 0), Store 8 0x20e245c8 (Imm 0x1dcd6500),
    Syscall NR_io_getevents [Imm 0xffffbb817000, Imm 1, Imm 0x100, Ptr 0x20e24580, Ptr 0x20e245c0], Count]"

definition min_mysql_io_getevents_clock_gettime_10_0 :: syz_prog where
  "min_mysql_io_getevents_clock_gettime_10_0 = \<lparr>prog_name = ''min_mysql_io_getevents_clock_gettime_10_0'', prog_family = Mysql_v2,
     subdirs = [],
     filenames = [], filesizes = [],
     max_write_buffer = 0, init_regs = replicate 1 0,
     reg_body = [], dereg_body = [],
     body = min_mysql_io_getevents_clock_gettime_10_0_body1 @ min_mysql_io_getevents_clock_gettime_10_0_body2 @
       min_mysql_io_getevents_clock_gettime_10_0_body3 @ min_mysql_io_getevents_clock_gettime_10_0_body4 @
       min_mysql_io_getevents_clock_gettime_10_0_body5 @ min_mysql_io_getevents_clock_gettime_10_0_body6 @
       min_mysql_io_getevents_clock_gettime_10_0_body7 @ min_mysql_io_getevents_clock_gettime_10_0_body8 @
       min_mysql_io_getevents_clock_gettime_10_0_body9 @ min_mysql_io_getevents_clock_gettime_10_0_body10 @
       min_mysql_io_getevents_clock_gettime_10_0_body11 @ min_mysql_io_getevents_clock_gettime_10_0_body12 @
       min_mysql_io_getevents_clock_gettime_10_0_body13 @ min_mysql_io_getevents_clock_gettime_10_0_body14 @
       min_mysql_io_getevents_clock_gettime_10_0_body15 @ min_mysql_io_getevents_clock_gettime_10_0_body16 @
       min_mysql_io_getevents_clock_gettime_10_0_body17 @ min_mysql_io_getevents_clock_gettime_10_0_body18 @
       min_mysql_io_getevents_clock_gettime_10_0_body19 @ min_mysql_io_getevents_clock_gettime_10_0_body20 @
       min_mysql_io_getevents_clock_gettime_10_0_body21 @ min_mysql_io_getevents_clock_gettime_10_0_body22 @
       min_mysql_io_getevents_clock_gettime_10_0_body23 @ min_mysql_io_getevents_clock_gettime_10_0_body24 @
       min_mysql_io_getevents_clock_gettime_10_0_body25 @ min_mysql_io_getevents_clock_gettime_10_0_body26 @
       min_mysql_io_getevents_clock_gettime_10_0_body27\<rparr>"

definition min_mysql_io_getevents_clock_gettime_10_0_target where
  "min_mysql_io_getevents_clock_gettime_10_0_target os_getenv os_inet_pton K = syz_target os_getenv os_inet_pton K min_mysql_io_getevents_clock_gettime_10_0"

lemma min_mysql_io_getevents_clock_gettime_10_0_body1_ok: "body_ok (Suc 0) 0 min_mysql_io_getevents_clock_gettime_10_0_body1" "counted min_mysql_io_getevents_clock_gettime_10_0_body1" "calls min_mysql_io_getevents_clock_gettime_10_0_body1 = 6" "opened_in m min_mysql_io_getevents_clock_gettime_10_0_body1 = []"
  by (simp_all add: min_mysql_io_getevents_clock_gettime_10_0_body1_def prog_checks open_checks)

lemma min_mysql_io_getevents_clock_gettime_10_0_body2_ok: "body_ok (Suc 0) 0 min_mysql_io_getevents_clock_gettime_10_0_body2" "counted min_mysql_io_getevents_clock_gettime_10_0_body2" "calls min_mysql_io_getevents_clock_gettime_10_0_body2 = 6" "opened_in m min_mysql_io_getevents_clock_gettime_10_0_body2 = []"
  by (simp_all add: min_mysql_io_getevents_clock_gettime_10_0_body2_def prog_checks open_checks)

lemma min_mysql_io_getevents_clock_gettime_10_0_body3_ok: "body_ok (Suc 0) 0 min_mysql_io_getevents_clock_gettime_10_0_body3" "counted min_mysql_io_getevents_clock_gettime_10_0_body3" "calls min_mysql_io_getevents_clock_gettime_10_0_body3 = 6" "opened_in m min_mysql_io_getevents_clock_gettime_10_0_body3 = []"
  by (simp_all add: min_mysql_io_getevents_clock_gettime_10_0_body3_def prog_checks open_checks)

lemma min_mysql_io_getevents_clock_gettime_10_0_body4_ok: "body_ok (Suc 0) 0 min_mysql_io_getevents_clock_gettime_10_0_body4" "counted min_mysql_io_getevents_clock_gettime_10_0_body4" "calls min_mysql_io_getevents_clock_gettime_10_0_body4 = 6" "opened_in m min_mysql_io_getevents_clock_gettime_10_0_body4 = []"
  by (simp_all add: min_mysql_io_getevents_clock_gettime_10_0_body4_def prog_checks open_checks)

lemma min_mysql_io_getevents_clock_gettime_10_0_body5_ok: "body_ok (Suc 0) 0 min_mysql_io_getevents_clock_gettime_10_0_body5" "counted min_mysql_io_getevents_clock_gettime_10_0_body5" "calls min_mysql_io_getevents_clock_gettime_10_0_body5 = 6" "opened_in m min_mysql_io_getevents_clock_gettime_10_0_body5 = []"
  by (simp_all add: min_mysql_io_getevents_clock_gettime_10_0_body5_def prog_checks open_checks)

lemma min_mysql_io_getevents_clock_gettime_10_0_body6_ok: "body_ok (Suc 0) 0 min_mysql_io_getevents_clock_gettime_10_0_body6" "counted min_mysql_io_getevents_clock_gettime_10_0_body6" "calls min_mysql_io_getevents_clock_gettime_10_0_body6 = 6" "opened_in m min_mysql_io_getevents_clock_gettime_10_0_body6 = []"
  by (simp_all add: min_mysql_io_getevents_clock_gettime_10_0_body6_def prog_checks open_checks)

lemma min_mysql_io_getevents_clock_gettime_10_0_body7_ok: "body_ok (Suc 0) 0 min_mysql_io_getevents_clock_gettime_10_0_body7" "counted min_mysql_io_getevents_clock_gettime_10_0_body7" "calls min_mysql_io_getevents_clock_gettime_10_0_body7 = 6" "opened_in m min_mysql_io_getevents_clock_gettime_10_0_body7 = []"
  by (simp_all add: min_mysql_io_getevents_clock_gettime_10_0_body7_def prog_checks open_checks)

lemma min_mysql_io_getevents_clock_gettime_10_0_body8_ok: "body_ok (Suc 0) 0 min_mysql_io_getevents_clock_gettime_10_0_body8" "counted min_mysql_io_getevents_clock_gettime_10_0_body8" "calls min_mysql_io_getevents_clock_gettime_10_0_body8 = 6" "opened_in m min_mysql_io_getevents_clock_gettime_10_0_body8 = []"
  by (simp_all add: min_mysql_io_getevents_clock_gettime_10_0_body8_def prog_checks open_checks)

lemma min_mysql_io_getevents_clock_gettime_10_0_body9_ok: "body_ok (Suc 0) 0 min_mysql_io_getevents_clock_gettime_10_0_body9" "counted min_mysql_io_getevents_clock_gettime_10_0_body9" "calls min_mysql_io_getevents_clock_gettime_10_0_body9 = 6" "opened_in m min_mysql_io_getevents_clock_gettime_10_0_body9 = []"
  by (simp_all add: min_mysql_io_getevents_clock_gettime_10_0_body9_def prog_checks open_checks)

lemma min_mysql_io_getevents_clock_gettime_10_0_body10_ok: "body_ok (Suc 0) 0 min_mysql_io_getevents_clock_gettime_10_0_body10" "counted min_mysql_io_getevents_clock_gettime_10_0_body10" "calls min_mysql_io_getevents_clock_gettime_10_0_body10 = 6" "opened_in m min_mysql_io_getevents_clock_gettime_10_0_body10 = []"
  by (simp_all add: min_mysql_io_getevents_clock_gettime_10_0_body10_def prog_checks open_checks)

lemma min_mysql_io_getevents_clock_gettime_10_0_body11_ok: "body_ok (Suc 0) 0 min_mysql_io_getevents_clock_gettime_10_0_body11" "counted min_mysql_io_getevents_clock_gettime_10_0_body11" "calls min_mysql_io_getevents_clock_gettime_10_0_body11 = 6" "opened_in m min_mysql_io_getevents_clock_gettime_10_0_body11 = []"
  by (simp_all add: min_mysql_io_getevents_clock_gettime_10_0_body11_def prog_checks open_checks)

lemma min_mysql_io_getevents_clock_gettime_10_0_body12_ok: "body_ok (Suc 0) 0 min_mysql_io_getevents_clock_gettime_10_0_body12" "counted min_mysql_io_getevents_clock_gettime_10_0_body12" "calls min_mysql_io_getevents_clock_gettime_10_0_body12 = 6" "opened_in m min_mysql_io_getevents_clock_gettime_10_0_body12 = []"
  by (simp_all add: min_mysql_io_getevents_clock_gettime_10_0_body12_def prog_checks open_checks)

lemma min_mysql_io_getevents_clock_gettime_10_0_body13_ok: "body_ok (Suc 0) 0 min_mysql_io_getevents_clock_gettime_10_0_body13" "counted min_mysql_io_getevents_clock_gettime_10_0_body13" "calls min_mysql_io_getevents_clock_gettime_10_0_body13 = 6" "opened_in m min_mysql_io_getevents_clock_gettime_10_0_body13 = []"
  by (simp_all add: min_mysql_io_getevents_clock_gettime_10_0_body13_def prog_checks open_checks)

lemma min_mysql_io_getevents_clock_gettime_10_0_body14_ok: "body_ok (Suc 0) 0 min_mysql_io_getevents_clock_gettime_10_0_body14" "counted min_mysql_io_getevents_clock_gettime_10_0_body14" "calls min_mysql_io_getevents_clock_gettime_10_0_body14 = 6" "opened_in m min_mysql_io_getevents_clock_gettime_10_0_body14 = []"
  by (simp_all add: min_mysql_io_getevents_clock_gettime_10_0_body14_def prog_checks open_checks)

lemma min_mysql_io_getevents_clock_gettime_10_0_body15_ok: "body_ok (Suc 0) 0 min_mysql_io_getevents_clock_gettime_10_0_body15" "counted min_mysql_io_getevents_clock_gettime_10_0_body15" "calls min_mysql_io_getevents_clock_gettime_10_0_body15 = 6" "opened_in m min_mysql_io_getevents_clock_gettime_10_0_body15 = []"
  by (simp_all add: min_mysql_io_getevents_clock_gettime_10_0_body15_def prog_checks open_checks)

lemma min_mysql_io_getevents_clock_gettime_10_0_body16_ok: "body_ok (Suc 0) 0 min_mysql_io_getevents_clock_gettime_10_0_body16" "counted min_mysql_io_getevents_clock_gettime_10_0_body16" "calls min_mysql_io_getevents_clock_gettime_10_0_body16 = 6" "opened_in m min_mysql_io_getevents_clock_gettime_10_0_body16 = []"
  by (simp_all add: min_mysql_io_getevents_clock_gettime_10_0_body16_def prog_checks open_checks)

lemma min_mysql_io_getevents_clock_gettime_10_0_body17_ok: "body_ok (Suc 0) 0 min_mysql_io_getevents_clock_gettime_10_0_body17" "counted min_mysql_io_getevents_clock_gettime_10_0_body17" "calls min_mysql_io_getevents_clock_gettime_10_0_body17 = 6" "opened_in m min_mysql_io_getevents_clock_gettime_10_0_body17 = []"
  by (simp_all add: min_mysql_io_getevents_clock_gettime_10_0_body17_def prog_checks open_checks)

lemma min_mysql_io_getevents_clock_gettime_10_0_body18_ok: "body_ok (Suc 0) 0 min_mysql_io_getevents_clock_gettime_10_0_body18" "counted min_mysql_io_getevents_clock_gettime_10_0_body18" "calls min_mysql_io_getevents_clock_gettime_10_0_body18 = 6" "opened_in m min_mysql_io_getevents_clock_gettime_10_0_body18 = []"
  by (simp_all add: min_mysql_io_getevents_clock_gettime_10_0_body18_def prog_checks open_checks)

lemma min_mysql_io_getevents_clock_gettime_10_0_body19_ok: "body_ok (Suc 0) 0 min_mysql_io_getevents_clock_gettime_10_0_body19" "counted min_mysql_io_getevents_clock_gettime_10_0_body19" "calls min_mysql_io_getevents_clock_gettime_10_0_body19 = 6" "opened_in m min_mysql_io_getevents_clock_gettime_10_0_body19 = []"
  by (simp_all add: min_mysql_io_getevents_clock_gettime_10_0_body19_def prog_checks open_checks)

lemma min_mysql_io_getevents_clock_gettime_10_0_body20_ok: "body_ok (Suc 0) 0 min_mysql_io_getevents_clock_gettime_10_0_body20" "counted min_mysql_io_getevents_clock_gettime_10_0_body20" "calls min_mysql_io_getevents_clock_gettime_10_0_body20 = 6" "opened_in m min_mysql_io_getevents_clock_gettime_10_0_body20 = []"
  by (simp_all add: min_mysql_io_getevents_clock_gettime_10_0_body20_def prog_checks open_checks)

lemma min_mysql_io_getevents_clock_gettime_10_0_body21_ok: "body_ok (Suc 0) 0 min_mysql_io_getevents_clock_gettime_10_0_body21" "counted min_mysql_io_getevents_clock_gettime_10_0_body21" "calls min_mysql_io_getevents_clock_gettime_10_0_body21 = 6" "opened_in m min_mysql_io_getevents_clock_gettime_10_0_body21 = []"
  by (simp_all add: min_mysql_io_getevents_clock_gettime_10_0_body21_def prog_checks open_checks)

lemma min_mysql_io_getevents_clock_gettime_10_0_body22_ok: "body_ok (Suc 0) 0 min_mysql_io_getevents_clock_gettime_10_0_body22" "counted min_mysql_io_getevents_clock_gettime_10_0_body22" "calls min_mysql_io_getevents_clock_gettime_10_0_body22 = 6" "opened_in m min_mysql_io_getevents_clock_gettime_10_0_body22 = []"
  by (simp_all add: min_mysql_io_getevents_clock_gettime_10_0_body22_def prog_checks open_checks)

lemma min_mysql_io_getevents_clock_gettime_10_0_body23_ok: "body_ok (Suc 0) 0 min_mysql_io_getevents_clock_gettime_10_0_body23" "counted min_mysql_io_getevents_clock_gettime_10_0_body23" "calls min_mysql_io_getevents_clock_gettime_10_0_body23 = 6" "opened_in m min_mysql_io_getevents_clock_gettime_10_0_body23 = []"
  by (simp_all add: min_mysql_io_getevents_clock_gettime_10_0_body23_def prog_checks open_checks)

lemma min_mysql_io_getevents_clock_gettime_10_0_body24_ok: "body_ok (Suc 0) 0 min_mysql_io_getevents_clock_gettime_10_0_body24" "counted min_mysql_io_getevents_clock_gettime_10_0_body24" "calls min_mysql_io_getevents_clock_gettime_10_0_body24 = 6" "opened_in m min_mysql_io_getevents_clock_gettime_10_0_body24 = []"
  by (simp_all add: min_mysql_io_getevents_clock_gettime_10_0_body24_def prog_checks open_checks)

lemma min_mysql_io_getevents_clock_gettime_10_0_body25_ok: "body_ok (Suc 0) 0 min_mysql_io_getevents_clock_gettime_10_0_body25" "counted min_mysql_io_getevents_clock_gettime_10_0_body25" "calls min_mysql_io_getevents_clock_gettime_10_0_body25 = 6" "opened_in m min_mysql_io_getevents_clock_gettime_10_0_body25 = []"
  by (simp_all add: min_mysql_io_getevents_clock_gettime_10_0_body25_def prog_checks open_checks)

lemma min_mysql_io_getevents_clock_gettime_10_0_body26_ok: "body_ok (Suc 0) 0 min_mysql_io_getevents_clock_gettime_10_0_body26" "counted min_mysql_io_getevents_clock_gettime_10_0_body26" "calls min_mysql_io_getevents_clock_gettime_10_0_body26 = 6" "opened_in m min_mysql_io_getevents_clock_gettime_10_0_body26 = []"
  by (simp_all add: min_mysql_io_getevents_clock_gettime_10_0_body26_def prog_checks open_checks)

lemma min_mysql_io_getevents_clock_gettime_10_0_body27_ok: "body_ok (Suc 0) 0 min_mysql_io_getevents_clock_gettime_10_0_body27" "counted min_mysql_io_getevents_clock_gettime_10_0_body27" "calls min_mysql_io_getevents_clock_gettime_10_0_body27 = 2" "opened_in m min_mysql_io_getevents_clock_gettime_10_0_body27 = []"
  by (simp_all add: min_mysql_io_getevents_clock_gettime_10_0_body27_def prog_checks open_checks)

lemmas min_mysql_io_getevents_clock_gettime_10_0_bodies =
  min_mysql_io_getevents_clock_gettime_10_0_body1_ok min_mysql_io_getevents_clock_gettime_10_0_body2_ok
  min_mysql_io_getevents_clock_gettime_10_0_body3_ok min_mysql_io_getevents_clock_gettime_10_0_body4_ok
  min_mysql_io_getevents_clock_gettime_10_0_body5_ok min_mysql_io_getevents_clock_gettime_10_0_body6_ok
  min_mysql_io_getevents_clock_gettime_10_0_body7_ok min_mysql_io_getevents_clock_gettime_10_0_body8_ok
  min_mysql_io_getevents_clock_gettime_10_0_body9_ok min_mysql_io_getevents_clock_gettime_10_0_body10_ok
  min_mysql_io_getevents_clock_gettime_10_0_body11_ok min_mysql_io_getevents_clock_gettime_10_0_body12_ok
  min_mysql_io_getevents_clock_gettime_10_0_body13_ok min_mysql_io_getevents_clock_gettime_10_0_body14_ok
  min_mysql_io_getevents_clock_gettime_10_0_body15_ok min_mysql_io_getevents_clock_gettime_10_0_body16_ok
  min_mysql_io_getevents_clock_gettime_10_0_body17_ok min_mysql_io_getevents_clock_gettime_10_0_body18_ok
  min_mysql_io_getevents_clock_gettime_10_0_body19_ok min_mysql_io_getevents_clock_gettime_10_0_body20_ok
  min_mysql_io_getevents_clock_gettime_10_0_body21_ok min_mysql_io_getevents_clock_gettime_10_0_body22_ok
  min_mysql_io_getevents_clock_gettime_10_0_body23_ok min_mysql_io_getevents_clock_gettime_10_0_body24_ok
  min_mysql_io_getevents_clock_gettime_10_0_body25_ok min_mysql_io_getevents_clock_gettime_10_0_body26_ok
  min_mysql_io_getevents_clock_gettime_10_0_body27_ok

lemma min_mysql_io_getevents_clock_gettime_10_0_ok: "prog_ok min_mysql_io_getevents_clock_gettime_10_0" "calls (body min_mysql_io_getevents_clock_gettime_10_0) = 158"
  by (simp_all add: prog_ok_def counted_append prog_checks min_mysql_io_getevents_clock_gettime_10_0_def min_mysql_io_getevents_clock_gettime_10_0_bodies)

end
