(* ===== verification/CSB_Progs_Mysql_v2i.thy ===== *)
theory CSB_Progs_Mysql_v2i
  imports CSB_Syz_Files
begin

text \<open>
  Bodies of generated targets of bench/targets/mysql\_v2, statement by statement in the order of the
  files syz/<name>.h, and the targets made of them (the files <name>.h). Each passes the check.
\<close>

section \<open>min\_mysql\_readlinkat\_missing\_14\_0\<close>

definition min_mysql_readlinkat_missing_14_0_body1 :: "stmt list" where
  "min_mysql_readlinkat_missing_14_0_body1 = [
    Memcpy 0x20d8e540 (with_nul ''./var/tmp'') 10,
    Syscall NR_readlinkat [Dir_fd, Ptr 0x20d8e540, Ptr 0x20d8e580, Imm 0x3ff], Count,
    Memcpy 0x20fad700 (with_nul ''./var/tmp'') 10,
    Syscall NR_readlinkat [Dir_fd, Ptr 0x20fad700, Ptr 0x20fad740, Imm 0x3ff], Count,
    Memcpy 0x200f6b00 (with_nul ''./var/tmp'') 10,
    Syscall NR_readlinkat [Dir_fd, Ptr 0x200f6b00, Ptr 0x200f6b40, Imm 0x3ff], Count,
    Memcpy 0x202be480 (with_nul ''./var/tmp'') 10,
    Syscall NR_readlinkat [Dir_fd, Ptr 0x202be480, Ptr 0x202be4c0, Imm 0x3ff], Count,
    Memcpy 0x205c2a80 (with_nul ''./var/tmp'') 10,
    Syscall NR_readlinkat [Dir_fd, Ptr 0x205c2a80, Ptr 0x205c2ac0, Imm 0x3ff], Count,
    Memcpy 0x20758900 (with_nul ''./var/tmp'') 10,
    Syscall NR_readlinkat [Dir_fd, Ptr 0x20758900, Ptr 0x20758940, Imm 0x3ff], Count,
    Memcpy 0x20933040 (with_nul ''./var/tmp'') 10,
    Syscall NR_readlinkat [Dir_fd, Ptr 0x20933040, Ptr 0x20933080, Imm 0x3ff], Count,
    Memcpy 0x20a77ec0 (with_nul ''./var/tmp'') 10,
    Syscall NR_readlinkat [Dir_fd, Ptr 0x20a77ec0, Ptr 0x20a77f00, Imm 0x3ff], Count,
    Memcpy 0x20ddffc0 (with_nul ''./var/tmp'') 10,
    Syscall NR_readlinkat [Dir_fd, Ptr 0x20ddffc0, Ptr 0x20de0000, Imm 0x3ff], Count]"

definition min_mysql_readlinkat_missing_14_0_body2 :: "stmt list" where
  "min_mysql_readlinkat_missing_14_0_body2 = [
    Memcpy 0x20f41180 (with_nul ''./var/tmp'') 10,
    Syscall NR_readlinkat [Dir_fd, Ptr 0x20f41180, Ptr 0x20f411c0, Imm 0x3ff], Count,
    Memcpy 0x200d4bc0 (with_nul ''./var/tmp'') 10,
    Syscall NR_readlinkat [Dir_fd, Ptr 0x200d4bc0, Ptr 0x200d4c00, Imm 0x3ff], Count,
    Memcpy 0x2018dec0 (with_nul ''./var/tmp'') 10,
    Syscall NR_readlinkat [Dir_fd, Ptr 0x2018dec0, Ptr 0x2018df00, Imm 0x3ff], Count,
    Memcpy 0x203d4780 (with_nul ''./var/tmp'') 10,
    Syscall NR_readlinkat [Dir_fd, Ptr 0x203d4780, Ptr 0x203d47c0, Imm 0x3ff], Count,
    Memcpy 0x20581880 (with_nul ''./var/tmp'') 10,
    Syscall NR_readlinkat [Dir_fd, Ptr 0x20581880, Ptr 0x205818c0, Imm 0x3ff], Count,
    Memcpy 0x2094e900 (with_nul ''./var/tmp'') 10,
    Syscall NR_readlinkat [Dir_fd, Ptr 0x2094e900, Ptr 0x2094e940, Imm 0x3ff], Count,
    Memcpy 0x209f7a80 (with_nul ''./var/tmp'') 10,
    Syscall NR_readlinkat [Dir_fd, Ptr 0x209f7a80, Ptr 0x209f7ac0, Imm 0x3ff], Count,
    Memcpy 0x20af9e40 (with_nul ''./var/tmp'') 10,
    Syscall NR_readlinkat [Dir_fd, Ptr 0x20af9e40, Ptr 0x20af9e80, Imm 0x3ff], Count,
    Memcpy 0x20c736c0 (with_nul ''./var/tmp'') 10,
    Syscall NR_readlinkat [Dir_fd, Ptr 0x20c736c0, Ptr 0x20c73700, Imm 0x3ff], Count,
    Memcpy 0x20185040 (with_nul ''./var/tmp'') 10,
    Syscall NR_readlinkat [Dir_fd, Ptr 0x20185040, Ptr 0x20185080, Imm 0x3ff], Count]"

definition min_mysql_readlinkat_missing_14_0_body3 :: "stmt list" where
  "min_mysql_readlinkat_missing_14_0_body3 = [
    Memcpy 0x20264040 (with_nul ''./var/tmp'') 10,
    Syscall NR_readlinkat [Dir_fd, Ptr 0x20264040, Ptr 0x20264080, Imm 0x3ff], Count,
    Memcpy 0x202f02c0 (with_nul ''./var/tmp'') 10,
    Syscall NR_readlinkat [Dir_fd, Ptr 0x202f02c0, Ptr 0x202f0300, Imm 0x3ff], Count,
    Memcpy 0x203b39c0 (with_nul ''./var/tmp'') 10,
    Syscall NR_readlinkat [Dir_fd, Ptr 0x203b39c0, Ptr 0x203b3a00, Imm 0x3ff], Count,
    Memcpy 0x2092b5c0 (with_nul ''./var/tmp'') 10,
    Syscall NR_readlinkat [Dir_fd, Ptr 0x2092b5c0, Ptr 0x2092b600, Imm 0x3ff], Count,
    Memcpy 0x20a0b100 (with_nul ''./var/tmp'') 10,
    Syscall NR_readlinkat [Dir_fd, Ptr 0x20a0b100, Ptr 0x20a0b140, Imm 0x3ff], Count,
    Memcpy 0x20a7d080 (with_nul ''./var/tmp'') 10,
    Syscall NR_readlinkat [Dir_fd, Ptr 0x20a7d080, Ptr 0x20a7d0c0, Imm 0x3ff], Count,
    Memcpy 0x20b35900 (with_nul ''./var/tmp'') 10,
    Syscall NR_readlinkat [Dir_fd, Ptr 0x20b35900, Ptr 0x20b35940, Imm 0x3ff], Count,
    Memcpy 0x20feb9c0 (with_nul ''./var/tmp'') 10,
    Syscall NR_readlinkat [Dir_fd, Ptr 0x20feb9c0, Ptr 0x20feba00, Imm 0x3ff], Count,
    Memcpy 0x20064200 (with_nul ''./var/tmp'') 10,
    Syscall NR_readlinkat [Dir_fd, Ptr 0x20064200, Ptr 0x20064240, Imm 0x3ff], Count,
    Memcpy 0x200b3500 (with_nul ''./var/tmp'') 10,
    Syscall NR_readlinkat [Dir_fd, Ptr 0x200b3500, Ptr 0x200b3540, Imm 0x3ff], Count]"

definition min_mysql_readlinkat_missing_14_0_body4 :: "stmt list" where
  "min_mysql_readlinkat_missing_14_0_body4 = [
    Memcpy 0x200e9dc0 (with_nul ''./var/tmp'') 10,
    Syscall NR_readlinkat [Dir_fd, Ptr 0x200e9dc0, Ptr 0x200e9e00, Imm 0x3ff], Count,
    Memcpy 0x20742e40 (with_nul ''./var/tmp'') 10,
    Syscall NR_readlinkat [Dir_fd, Ptr 0x20742e40, Ptr 0x20742e80, Imm 0x3ff], Count,
    Memcpy 0x207e8840 (with_nul ''./var/tmp'') 10,
    Syscall NR_readlinkat [Dir_fd, Ptr 0x207e8840, Ptr 0x207e8880, Imm 0x3ff], Count,
    Memcpy 0x2083bc40 (with_nul ''./var/tmp'') 10,
    Syscall NR_readlinkat [Dir_fd, Ptr 0x2083bc40, Ptr 0x2083bc80, Imm 0x3ff], Count,
    Memcpy 0x20880a40 (with_nul ''./var/tmp'') 10,
    Syscall NR_readlinkat [Dir_fd, Ptr 0x20880a40, Ptr 0x20880a80, Imm 0x3ff], Count,
    Memcpy 0x20c23140 (with_nul ''./var/tmp'') 10,
    Syscall NR_readlinkat [Dir_fd, Ptr 0x20c23140, Ptr 0x20c23180, Imm 0x3ff], Count,
    Memcpy 0x20d38500 (with_nul ''./var/tmp'') 10,
    Syscall NR_readlinkat [Dir_fd, Ptr 0x20d38500, Ptr 0x20d38540, Imm 0x3ff], Count,
    Memcpy 0x20e77cc0 (with_nul ''./var/tmp'') 10,
    Syscall NR_readlinkat [Dir_fd, Ptr 0x20e77cc0, Ptr 0x20e77d00, Imm 0x3ff], Count,
    Memcpy 0x20f55fc0 (with_nul ''./var/tmp'') 10,
    Syscall NR_readlinkat [Dir_fd, Ptr 0x20f55fc0, Ptr 0x20f56000, Imm 0x3ff], Count,
    Memcpy 0x20326e40 (with_nul ''./var/tmp'') 10,
    Syscall NR_readlinkat [Dir_fd, Ptr 0x20326e40, Ptr 0x20326e80, Imm 0x3ff], Count]"

definition min_mysql_readlinkat_missing_14_0_body5 :: "stmt list" where
  "min_mysql_readlinkat_missing_14_0_body5 = [
    Memcpy 0x20480840 (with_nul ''./var/tmp'') 10,
    Syscall NR_readlinkat [Dir_fd, Ptr 0x20480840, Ptr 0x20480880, Imm 0x3ff], Count,
    Memcpy 0x2090c1c0 (with_nul ''./var/tmp'') 10,
    Syscall NR_readlinkat [Dir_fd, Ptr 0x2090c1c0, Ptr 0x2090c200, Imm 0x3ff], Count,
    Memcpy 0x20a02000 (with_nul ''./var/tmp'') 10,
    Syscall NR_readlinkat [Dir_fd, Ptr 0x20a02000, Ptr 0x20a02040, Imm 0x3ff], Count,
    Memcpy 0x20b65d40 (with_nul ''./var/tmp'') 10,
    Syscall NR_readlinkat [Dir_fd, Ptr 0x20b65d40, Ptr 0x20b65d80, Imm 0x3ff], Count,
    Memcpy 0x20ca4c00 (with_nul ''./var/tmp'') 10,
    Syscall NR_readlinkat [Dir_fd, Ptr 0x20ca4c00, Ptr 0x20ca4c40, Imm 0x3ff], Count,
    Memcpy 0x20020280 (with_nul ''./var/tmp'') 10,
    Syscall NR_readlinkat [Dir_fd, Ptr 0x20020280, Ptr 0x200202c0, Imm 0x3ff], Count,
    Memcpy 0x2008fd80 (with_nul ''./var/tmp'') 10,
    Syscall NR_readlinkat [Dir_fd, Ptr 0x2008fd80, Ptr 0x2008fdc0, Imm 0x3ff], Count,
    Memcpy 0x20119280 (with_nul ''./var/tmp'') 10,
    Syscall NR_readlinkat [Dir_fd, Ptr 0x20119280, Ptr 0x201192c0, Imm 0x3ff], Count,
    Memcpy 0x20176c80 (with_nul ''./var/tmp'') 10,
    Syscall NR_readlinkat [Dir_fd, Ptr 0x20176c80, Ptr 0x20176cc0, Imm 0x3ff], Count,
    Memcpy 0x20982380 (with_nul ''./var/tmp'') 10,
    Syscall NR_readlinkat [Dir_fd, Ptr 0x20982380, Ptr 0x209823c0, Imm 0x3ff], Count]"

definition min_mysql_readlinkat_missing_14_0_body6 :: "stmt list" where
  "min_mysql_readlinkat_missing_14_0_body6 = [
    Memcpy 0x20a473c0 (with_nul ''./var/tmp'') 10,
    Syscall NR_readlinkat [Dir_fd, Ptr 0x20a473c0, Ptr 0x20a47400, Imm 0x3ff], Count,
    Memcpy 0x20b5d7c0 (with_nul ''./var/tmp'') 10,
    Syscall NR_readlinkat [Dir_fd, Ptr 0x20b5d7c0, Ptr 0x20b5d800, Imm 0x3ff], Count,
    Memcpy 0x20c4c580 (with_nul ''./var/tmp'') 10,
    Syscall NR_readlinkat [Dir_fd, Ptr 0x20c4c580, Ptr 0x20c4c5c0, Imm 0x3ff], Count,
    Memcpy 0x201333c0 (with_nul ''./var/tmp'') 10,
    Syscall NR_readlinkat [Dir_fd, Ptr 0x201333c0, Ptr 0x20133400, Imm 0x3ff], Count,
    Memcpy 0x201ac8c0 (with_nul ''./var/tmp'') 10,
    Syscall NR_readlinkat [Dir_fd, Ptr 0x201ac8c0, Ptr 0x201ac900, Imm 0x3ff], Count,
    Memcpy 0x202606c0 (with_nul ''./var/tmp'') 10,
    Syscall NR_readlinkat [Dir_fd, Ptr 0x202606c0, Ptr 0x20260700, Imm 0x3ff], Count,
    Memcpy 0x202f7600 (with_nul ''./var/tmp'') 10,
    Syscall NR_readlinkat [Dir_fd, Ptr 0x202f7600, Ptr 0x202f7640, Imm 0x3ff], Count,
    Memcpy 0x208c47c0 (with_nul ''./var/tmp'') 10,
    Syscall NR_readlinkat [Dir_fd, Ptr 0x208c47c0, Ptr 0x208c4800, Imm 0x3ff], Count,
    Memcpy 0x20974000 (with_nul ''./var/tmp'') 10,
    Syscall NR_readlinkat [Dir_fd, Ptr 0x20974000, Ptr 0x20974040, Imm 0x3ff], Count,
    Memcpy 0x20a4c040 (with_nul ''./var/tmp'') 10,
    Syscall NR_readlinkat [Dir_fd, Ptr 0x20a4c040, Ptr 0x20a4c080, Imm 0x3ff], Count]"

definition min_mysql_readlinkat_missing_14_0_body7 :: "stmt list" where
  "min_mysql_readlinkat_missing_14_0_body7 = [
    Memcpy 0x20b6a000 (with_nul ''./var/tmp'') 10,
    Syscall NR_readlinkat [Dir_fd, Ptr 0x20b6a000, Ptr 0x20b6a040, Imm 0x3ff], Count,
    Memcpy 0x200dea00 (with_nul ''./var/tmp'') 10,
    Syscall NR_readlinkat [Dir_fd, Ptr 0x200dea00, Ptr 0x200dea40, Imm 0x3ff], Count,
    Memcpy 0x20175480 (with_nul ''./var/tmp'') 10,
    Syscall NR_readlinkat [Dir_fd, Ptr 0x20175480, Ptr 0x201754c0, Imm 0x3ff], Count,
    Memcpy 0x2029f140 (with_nul ''./var/tmp'') 10,
    Syscall NR_readlinkat [Dir_fd, Ptr 0x2029f140, Ptr 0x2029f180, Imm 0x3ff], Count,
    Memcpy 0x2039bcc0 (with_nul ''./var/tmp'') 10,
    Syscall NR_readlinkat [Dir_fd, Ptr 0x2039bcc0, Ptr 0x2039bd00, Imm 0x3ff], Count,
    Memcpy 0x207b0d40 (with_nul ''./var/tmp'') 10,
    Syscall NR_readlinkat [Dir_fd, Ptr 0x207b0d40, Ptr 0x207b0d80, Imm 0x3ff], Count,
    Memcpy 0x207e9d40 (with_nul ''./var/tmp'') 10,
    Syscall NR_readlinkat [Dir_fd, Ptr 0x207e9d40, Ptr 0x207e9d80, Imm 0x3ff], Count,
    Memcpy 0x20d72900 (with_nul ''./var/tmp'') 10,
    Syscall NR_readlinkat [Dir_fd, Ptr 0x20d72900, Ptr 0x20d72940, Imm 0x3ff], Count,
    Memcpy 0x20dec440 (with_nul ''./var/tmp'') 10,
    Syscall NR_readlinkat [Dir_fd, Ptr 0x20dec440, Ptr 0x20dec480, Imm 0x3ff], Count,
    Memcpy 0x20e293c0 (with_nul ''./var/tmp'') 10,
    Syscall NR_readlinkat [Dir_fd, Ptr 0x20e293c0, Ptr 0x20e29400, Imm 0x3ff], Count]"

definition min_mysql_readlinkat_missing_14_0_body8 :: "stmt list" where
  "min_mysql_readlinkat_missing_14_0_body8 = [
    Memcpy 0x20e66a00 (with_nul ''./var/tmp'') 10,
    Syscall NR_readlinkat [Dir_fd, Ptr 0x20e66a00, Ptr 0x20e66a40, Imm 0x3ff], Count,
    Memcpy 0x204b7300 (with_nul ''./var/tmp'') 10,
    Syscall NR_readlinkat [Dir_fd, Ptr 0x204b7300, Ptr 0x204b7340, Imm 0x3ff], Count,
    Memcpy 0x2054eec0 (with_nul ''./var/tmp'') 10,
    Syscall NR_readlinkat [Dir_fd, Ptr 0x2054eec0, Ptr 0x2054ef00, Imm 0x3ff], Count,
    Memcpy 0x205a9dc0 (with_nul ''./var/tmp'') 10,
    Syscall NR_readlinkat [Dir_fd, Ptr 0x205a9dc0, Ptr 0x205a9e00, Imm 0x3ff], Count,
    Memcpy 0x20618bc0 (with_nul ''./var/tmp'') 10,
    Syscall NR_readlinkat [Dir_fd, Ptr 0x20618bc0, Ptr 0x20618c00, Imm 0x3ff], Count,
    Memcpy 0x20ce6a80 (with_nul ''./var/tmp'') 10,
    Syscall NR_readlinkat [Dir_fd, Ptr 0x20ce6a80, Ptr 0x20ce6ac0, Imm 0x3ff], Count,
    Memcpy 0x20ddd540 (with_nul ''./var/tmp'') 10,
    Syscall NR_readlinkat [Dir_fd, Ptr 0x20ddd540, Ptr 0x20ddd580, Imm 0x3ff], Count,
    Memcpy 0x20341100 (with_nul ''./var/tmp'') 10,
    Syscall NR_readlinkat [Dir_fd, Ptr 0x20341100, Ptr 0x20341140, Imm 0x3ff], Count,
    Memcpy 0x20451b40 (with_nul ''./var/tmp'') 10,
    Syscall NR_readlinkat [Dir_fd, Ptr 0x20451b40, Ptr 0x20451b80, Imm 0x3ff], Count,
    Memcpy 0x20531640 (with_nul ''./var/tmp'') 10,
    Syscall NR_readlinkat [Dir_fd, Ptr 0x20531640, Ptr 0x20531680, Imm 0x3ff], Count]"

definition min_mysql_readlinkat_missing_14_0_body9 :: "stmt list" where
  "min_mysql_readlinkat_missing_14_0_body9 = [
    Memcpy 0x20605fc0 (with_nul ''./var/tmp'') 10,
    Syscall NR_readlinkat [Dir_fd, Ptr 0x20605fc0, Ptr 0x20606000, Imm 0x3ff], Count,
    Memcpy 0x20a8a4c0 (with_nul ''./var/tmp'') 10,
    Syscall NR_readlinkat [Dir_fd, Ptr 0x20a8a4c0, Ptr 0x20a8a500, Imm 0x3ff], Count,
    Memcpy 0x20b40000 (with_nul ''./var/tmp'') 10,
    Syscall NR_readlinkat [Dir_fd, Ptr 0x20b40000, Ptr 0x20b40040, Imm 0x3ff], Count,
    Memcpy 0x20c03840 (with_nul ''./var/tmp'') 10,
    Syscall NR_readlinkat [Dir_fd, Ptr 0x20c03840, Ptr 0x20c03880, Imm 0x3ff], Count,
    Memcpy 0x20c8c3c0 (with_nul ''./var/tmp'') 10,
    Syscall NR_readlinkat [Dir_fd, Ptr 0x20c8c3c0, Ptr 0x20c8c400, Imm 0x3ff], Count,
    Memcpy 0x201cb000 (with_nul ''./var/tmp'') 10,
    Syscall NR_readlinkat [Dir_fd, Ptr 0x201cb000, Ptr 0x201cb040, Imm 0x3ff], Count,
    Memcpy 0x2025bc40 (with_nul ''./var/tmp'') 10,
    Syscall NR_readlinkat [Dir_fd, Ptr 0x2025bc40, Ptr 0x2025bc80, Imm 0x3ff], Count,
    Memcpy 0x203370c0 (with_nul ''./var/tmp'') 10,
    Syscall NR_readlinkat [Dir_fd, Ptr 0x203370c0, Ptr 0x20337100, Imm 0x3ff], Count,
    Memcpy 0x203bf740 (with_nul ''./var/tmp'') 10,
    Syscall NR_readlinkat [Dir_fd, Ptr 0x203bf740, Ptr 0x203bf780, Imm 0x3ff], Count,
    Memcpy 0x20b27880 (with_nul ''./var/tmp'') 10,
    Syscall NR_readlinkat [Dir_fd, Ptr 0x20b27880, Ptr 0x20b278c0, Imm 0x3ff], Count]"

definition min_mysql_readlinkat_missing_14_0_body10 :: "stmt list" where
  "min_mysql_readlinkat_missing_14_0_body10 = [
    Memcpy 0x20b62080 (with_nul ''./var/tmp'') 10,
    Syscall NR_readlinkat [Dir_fd, Ptr 0x20b62080, Ptr 0x20b620c0, Imm 0x3ff], Count,
    Memcpy 0x20bb7c40 (with_nul ''./var/tmp'') 10,
    Syscall NR_readlinkat [Dir_fd, Ptr 0x20bb7c40, Ptr 0x20bb7c80, Imm 0x3ff], Count,
    Memcpy 0x20c03440 (with_nul ''./var/tmp'') 10,
    Syscall NR_readlinkat [Dir_fd, Ptr 0x20c03440, Ptr 0x20c03480, Imm 0x3ff], Count,
    Memcpy 0x200f2700 (with_nul ''./var/tmp'') 10,
    Syscall NR_readlinkat [Dir_fd, Ptr 0x200f2700, Ptr 0x200f2740, Imm 0x3ff], Count,
    Memcpy 0x201f8080 (with_nul ''./var/tmp'') 10,
    Syscall NR_readlinkat [Dir_fd, Ptr 0x201f8080, Ptr 0x201f80c0, Imm 0x3ff], Count,
    Memcpy 0x202e1140 (with_nul ''./var/tmp'') 10,
    Syscall NR_readlinkat [Dir_fd, Ptr 0x202e1140, Ptr 0x202e1180, Imm 0x3ff], Count,
    Memcpy 0x20388e80 (with_nul ''./var/tmp'') 10,
    Syscall NR_readlinkat [Dir_fd, Ptr 0x20388e80, Ptr 0x20388ec0, Imm 0x3ff], Count,
    Memcpy 0x2090ee00 (with_nul ''./var/tmp'') 10,
    Syscall NR_readlinkat [Dir_fd, Ptr 0x2090ee00, Ptr 0x2090ee40, Imm 0x3ff], Count,
    Memcpy 0x20a94280 (with_nul ''./var/tmp'') 10,
    Syscall NR_readlinkat [Dir_fd, Ptr 0x20a94280, Ptr 0x20a942c0, Imm 0x3ff], Count,
    Memcpy 0x20ea7680 (with_nul ''./var/tmp'') 10,
    Syscall NR_readlinkat [Dir_fd, Ptr 0x20ea7680, Ptr 0x20ea76c0, Imm 0x3ff], Count]"

definition min_mysql_readlinkat_missing_14_0_body11 :: "stmt list" where
  "min_mysql_readlinkat_missing_14_0_body11 = [
    Memcpy 0x20f43ec0 (with_nul ''./var/tmp'') 10,
    Syscall NR_readlinkat [Dir_fd, Ptr 0x20f43ec0, Ptr 0x20f43f00, Imm 0x3ff], Count,
    Memcpy 0x200348c0 (with_nul ''./var/tmp'') 10,
    Syscall NR_readlinkat [Dir_fd, Ptr 0x200348c0, Ptr 0x20034900, Imm 0x3ff], Count,
    Memcpy 0x200fcf40 (with_nul ''./var/tmp'') 10,
    Syscall NR_readlinkat [Dir_fd, Ptr 0x200fcf40, Ptr 0x200fcf80, Imm 0x3ff], Count,
    Memcpy 0x206d3a80 (with_nul ''./var/tmp'') 10,
    Syscall NR_readlinkat [Dir_fd, Ptr 0x206d3a80, Ptr 0x206d3ac0, Imm 0x3ff], Count,
    Memcpy 0x207a4dc0 (with_nul ''./var/tmp'') 10,
    Syscall NR_readlinkat [Dir_fd, Ptr 0x207a4dc0, Ptr 0x207a4e00, Imm 0x3ff], Count,
    Memcpy 0x20caae40 (with_nul ''./var/tmp'') 10,
    Syscall NR_readlinkat [Dir_fd, Ptr 0x20caae40, Ptr 0x20caae80, Imm 0x3ff], Count,
    Memcpy 0x20db84c0 (with_nul ''./var/tmp'') 10,
    Syscall NR_readlinkat [Dir_fd, Ptr 0x20db84c0, Ptr 0x20db8500, Imm 0x3ff], Count,
    Memcpy 0x2035f8c0 (with_nul ''./var/tmp'') 10,
    Syscall NR_readlinkat [Dir_fd, Ptr 0x2035f8c0, Ptr 0x2035f900, Imm 0x3ff], Count,
    Memcpy 0x2040c100 (with_nul ''./var/tmp'') 10,
    Syscall NR_readlinkat [Dir_fd, Ptr 0x2040c100, Ptr 0x2040c140, Imm 0x3ff], Count,
    Memcpy 0x2050ae00 (with_nul ''./var/tmp'') 10,
    Syscall NR_readlinkat [Dir_fd, Ptr 0x2050ae00, Ptr 0x2050ae40, Imm 0x3ff], Count]"

definition min_mysql_readlinkat_missing_14_0_body12 :: "stmt list" where
  "min_mysql_readlinkat_missing_14_0_body12 = [
    Memcpy 0x205d4c00 (with_nul ''./var/tmp'') 10,
    Syscall NR_readlinkat [Dir_fd, Ptr 0x205d4c00, Ptr 0x205d4c40, Imm 0x3ff], Count,
    Memcpy 0x20abbf40 (with_nul ''./var/tmp'') 10,
    Syscall NR_readlinkat [Dir_fd, Ptr 0x20abbf40, Ptr 0x20abbf80, Imm 0x3ff], Count,
    Memcpy 0x20bb6880 (with_nul ''./var/tmp'') 10,
    Syscall NR_readlinkat [Dir_fd, Ptr 0x20bb6880, Ptr 0x20bb68c0, Imm 0x3ff], Count,
    Memcpy 0x20ca7a00 (with_nul ''./var/tmp'') 10,
    Syscall NR_readlinkat [Dir_fd, Ptr 0x20ca7a00, Ptr 0x20ca7a40, Imm 0x3ff], Count,
    Memcpy 0x20d5efc0 (with_nul ''./var/tmp'') 10,
    Syscall NR_readlinkat [Dir_fd, Ptr 0x20d5efc0, Ptr 0x20d5f000, Imm 0x3ff], Count,
    Memcpy 0x201f94c0 (with_nul ''./var/tmp'') 10,
    Syscall NR_readlinkat [Dir_fd, Ptr 0x201f94c0, Ptr 0x201f9500, Imm 0x3ff], Count,
    Memcpy 0x202d1b80 (with_nul ''./var/tmp'') 10,
    Syscall NR_readlinkat [Dir_fd, Ptr 0x202d1b80, Ptr 0x202d1bc0, Imm 0x3ff], Count,
    Memcpy 0x203aaa80 (with_nul ''./var/tmp'') 10,
    Syscall NR_readlinkat [Dir_fd, Ptr 0x203aaa80, Ptr 0x203aaac0, Imm 0x3ff], Count,
    Memcpy 0x204b7900 (with_nul ''./var/tmp'') 10,
    Syscall NR_readlinkat [Dir_fd, Ptr 0x204b7900, Ptr 0x204b7940, Imm 0x3ff], Count,
    Memcpy 0x209b0080 (with_nul ''./var/tmp'') 10,
    Syscall NR_readlinkat [Dir_fd, Ptr 0x209b0080, Ptr 0x209b00c0, Imm 0x3ff], Count]"

definition min_mysql_readlinkat_missing_14_0_body13 :: "stmt list" where
  "min_mysql_readlinkat_missing_14_0_body13 = [
    Memcpy 0x20a2e880 (with_nul ''./var/tmp'') 10,
    Syscall NR_readlinkat [Dir_fd, Ptr 0x20a2e880, Ptr 0x20a2e8c0, Imm 0x3ff], Count,
    Memcpy 0x20b5c200 (with_nul ''./var/tmp'') 10,
    Syscall NR_readlinkat [Dir_fd, Ptr 0x20b5c200, Ptr 0x20b5c240, Imm 0x3ff], Count,
    Memcpy 0x20bfcf00 (with_nul ''./var/tmp'') 10,
    Syscall NR_readlinkat [Dir_fd, Ptr 0x20bfcf00, Ptr 0x20bfcf40, Imm 0x3ff], Count,
    Memcpy 0x20196580 (with_nul ''./var/tmp'') 10,
    Syscall NR_readlinkat [Dir_fd, Ptr 0x20196580, Ptr 0x201965c0, Imm 0x3ff], Count,
    Memcpy 0x201e91c0 (with_nul ''./var/tmp'') 10,
    Syscall NR_readlinkat [Dir_fd, Ptr 0x201e91c0, Ptr 0x201e9200, Imm 0x3ff], Count,
    Memcpy 0x2025f580 (with_nul ''./var/tmp'') 10,
    Syscall NR_readlinkat [Dir_fd, Ptr 0x2025f580, Ptr 0x2025f5c0, Imm 0x3ff], Count,
    Memcpy 0x202c4c80 (with_nul ''./var/tmp'') 10,
    Syscall NR_readlinkat [Dir_fd, Ptr 0x202c4c80, Ptr 0x202c4cc0, Imm 0x3ff], Count,
    Memcpy 0x20942a40 (with_nul ''./var/tmp'') 10,
    Syscall NR_readlinkat [Dir_fd, Ptr 0x20942a40, Ptr 0x20942a80, Imm 0x3ff], Count,
    Memcpy 0x209a7340 (with_nul ''./var/tmp'') 10,
    Syscall NR_readlinkat [Dir_fd, Ptr 0x209a7340, Ptr 0x209a7380, Imm 0x3ff], Count,
    Memcpy 0x2000b740 (with_nul ''./var/tmp'') 10,
    Syscall NR_readlinkat [Dir_fd, Ptr 0x2000b740, Ptr 0x2000b780, Imm 0x3ff], Count]"

definition min_mysql_readlinkat_missing_14_0_body14 :: "stmt list" where
  "min_mysql_readlinkat_missing_14_0_body14 = [
    Memcpy 0x200b74c0 (with_nul ''./var/tmp'') 10,
    Syscall NR_readlinkat [Dir_fd, Ptr 0x200b74c0, Ptr 0x200b7500, Imm 0x3ff], Count,
    Memcpy 0x2011cc80 (with_nul ''./var/tmp'') 10,
    Syscall NR_readlinkat [Dir_fd, Ptr 0x2011cc80, Ptr 0x2011ccc0, Imm 0x3ff], Count,
    Memcpy 0x20176a80 (with_nul ''./var/tmp'') 10,
    Syscall NR_readlinkat [Dir_fd, Ptr 0x20176a80, Ptr 0x20176ac0, Imm 0x3ff], Count,
    Memcpy 0x205cb6c0 (with_nul ''./var/tmp'') 10,
    Syscall NR_readlinkat [Dir_fd, Ptr 0x205cb6c0, Ptr 0x205cb700, Imm 0x3ff], Count,
    Memcpy 0x206f6380 (with_nul ''./var/tmp'') 10,
    Syscall NR_readlinkat [Dir_fd, Ptr 0x206f6380, Ptr 0x206f63c0, Imm 0x3ff], Count,
    Memcpy 0x20b63fc0 (with_nul ''./var/tmp'') 10,
    Syscall NR_readlinkat [Dir_fd, Ptr 0x20b63fc0, Ptr 0x20b64000, Imm 0x3ff], Count,
    Memcpy 0x20c4ee40 (with_nul ''./var/tmp'') 10,
    Syscall NR_readlinkat [Dir_fd, Ptr 0x20c4ee40, Ptr 0x20c4ee80, Imm 0x3ff], Count,
    Memcpy 0x20d7bd00 (with_nul ''./var/tmp'') 10,
    Syscall NR_readlinkat [Dir_fd, Ptr 0x20d7bd00, Ptr 0x20d7bd40, Imm 0x3ff], Count,
    Memcpy 0x20e89600 (with_nul ''./var/tmp'') 10,
    Syscall NR_readlinkat [Dir_fd, Ptr 0x20e89600, Ptr 0x20e89640, Imm 0x3ff], Count,
    Memcpy 0x20473000 (with_nul ''./var/tmp'') 10,
    Syscall NR_readlinkat [Dir_fd, Ptr 0x20473000, Ptr 0x20473040, Imm 0x3ff], Count]"

definition min_mysql_readlinkat_missing_14_0_body15 :: "stmt list" where
  "min_mysql_readlinkat_missing_14_0_body15 = [
    Memcpy 0x205c1ac0 (with_nul ''./var/tmp'') 10,
    Syscall NR_readlinkat [Dir_fd, Ptr 0x205c1ac0, Ptr 0x205c1b00, Imm 0x3ff], Count,
    Memcpy 0x206f8400 (with_nul ''./var/tmp'') 10,
    Syscall NR_readlinkat [Dir_fd, Ptr 0x206f8400, Ptr 0x206f8440, Imm 0x3ff], Count,
    Memcpy 0x2080e2c0 (with_nul ''./var/tmp'') 10,
    Syscall NR_readlinkat [Dir_fd, Ptr 0x2080e2c0, Ptr 0x2080e300, Imm 0x3ff], Count,
    Memcpy 0x20ca4c80 (with_nul ''./var/tmp'') 10,
    Syscall NR_readlinkat [Dir_fd, Ptr 0x20ca4c80, Ptr 0x20ca4cc0, Imm 0x3ff], Count,
    Memcpy 0x20dd8bc0 (with_nul ''./var/tmp'') 10,
    Syscall NR_readlinkat [Dir_fd, Ptr 0x20dd8bc0, Ptr 0x20dd8c00, Imm 0x3ff], Count,
    Memcpy 0x203bb400 (with_nul ''./var/tmp'') 10,
    Syscall NR_readlinkat [Dir_fd, Ptr 0x203bb400, Ptr 0x203bb440, Imm 0x3ff], Count,
    Memcpy 0x20469d80 (with_nul ''./var/tmp'') 10,
    Syscall NR_readlinkat [Dir_fd, Ptr 0x20469d80, Ptr 0x20469dc0, Imm 0x3ff], Count,
    Memcpy 0x204c0fc0 (with_nul ''./var/tmp'') 10,
    Syscall NR_readlinkat [Dir_fd, Ptr 0x204c0fc0, Ptr 0x204c1000, Imm 0x3ff], Count,
    Memcpy 0x2050f180 (with_nul ''./var/tmp'') 10,
    Syscall NR_readlinkat [Dir_fd, Ptr 0x2050f180, Ptr 0x2050f1c0, Imm 0x3ff], Count,
    Memcpy 0x20ae5240 (with_nul ''./var/tmp'') 10,
    Syscall NR_readlinkat [Dir_fd, Ptr 0x20ae5240, Ptr 0x20ae5280, Imm 0x3ff], Count]"

definition min_mysql_readlinkat_missing_14_0_body16 :: "stmt list" where
  "min_mysql_readlinkat_missing_14_0_body16 = [
    Memcpy 0x20b66380 (with_nul ''./var/tmp'') 10,
    Syscall NR_readlinkat [Dir_fd, Ptr 0x20b66380, Ptr 0x20b663c0, Imm 0x3ff], Count,
    Memcpy 0x20bc1c00 (with_nul ''./var/tmp'') 10,
    Syscall NR_readlinkat [Dir_fd, Ptr 0x20bc1c00, Ptr 0x20bc1c40, Imm 0x3ff], Count,
    Memcpy 0x20c1e180 (with_nul ''./var/tmp'') 10,
    Syscall NR_readlinkat [Dir_fd, Ptr 0x20c1e180, Ptr 0x20c1e1c0, Imm 0x3ff], Count,
    Memcpy 0x2017dd40 (with_nul ''./var/tmp'') 10,
    Syscall NR_readlinkat [Dir_fd, Ptr 0x2017dd40, Ptr 0x2017dd80, Imm 0x3ff], Count,
    Memcpy 0x202726c0 (with_nul ''./var/tmp'') 10,
    Syscall NR_readlinkat [Dir_fd, Ptr 0x202726c0, Ptr 0x20272700, Imm 0x3ff], Count,
    Memcpy 0x202de240 (with_nul ''./var/tmp'') 10,
    Syscall NR_readlinkat [Dir_fd, Ptr 0x202de240, Ptr 0x202de280, Imm 0x3ff], Count,
    Memcpy 0x20364800 (with_nul ''./var/tmp'') 10,
    Syscall NR_readlinkat [Dir_fd, Ptr 0x20364800, Ptr 0x20364840, Imm 0x3ff], Count,
    Memcpy 0x20956bc0 (with_nul ''./var/tmp'') 10,
    Syscall NR_readlinkat [Dir_fd, Ptr 0x20956bc0, Ptr 0x20956c00, Imm 0x3ff], Count,
    Memcpy 0x209fcc80 (with_nul ''./var/tmp'') 10,
    Syscall NR_readlinkat [Dir_fd, Ptr 0x209fcc80, Ptr 0x209fccc0, Imm 0x3ff], Count,
    Memcpy 0x20a9b700 (with_nul ''./var/tmp'') 10,
    Syscall NR_readlinkat [Dir_fd, Ptr 0x20a9b700, Ptr 0x20a9b740, Imm 0x3ff], Count]"

definition min_mysql_readlinkat_missing_14_0_body17 :: "stmt list" where
  "min_mysql_readlinkat_missing_14_0_body17 = [
    Memcpy 0x20b55480 (with_nul ''./var/tmp'') 10,
    Syscall NR_readlinkat [Dir_fd, Ptr 0x20b55480, Ptr 0x20b554c0, Imm 0x3ff], Count,
    Memcpy 0x201049c0 (with_nul ''./var/tmp'') 10,
    Syscall NR_readlinkat [Dir_fd, Ptr 0x201049c0, Ptr 0x20104a00, Imm 0x3ff], Count,
    Memcpy 0x20182fc0 (with_nul ''./var/tmp'') 10,
    Syscall NR_readlinkat [Dir_fd, Ptr 0x20182fc0, Ptr 0x20183000, Imm 0x3ff], Count,
    Memcpy 0x2022da80 (with_nul ''./var/tmp'') 10,
    Syscall NR_readlinkat [Dir_fd, Ptr 0x2022da80, Ptr 0x2022dac0, Imm 0x3ff], Count,
    Memcpy 0x20296f80 (with_nul ''./var/tmp'') 10,
    Syscall NR_readlinkat [Dir_fd, Ptr 0x20296f80, Ptr 0x20296fc0, Imm 0x3ff], Count,
    Memcpy 0x20706c00 (with_nul ''./var/tmp'') 10,
    Syscall NR_readlinkat [Dir_fd, Ptr 0x20706c00, Ptr 0x20706c40, Imm 0x3ff], Count,
    Memcpy 0x20883680 (with_nul ''./var/tmp'') 10,
    Syscall NR_readlinkat [Dir_fd, Ptr 0x20883680, Ptr 0x208836c0, Imm 0x3ff], Count,
    Memcpy 0x20de6100 (with_nul ''./var/tmp'') 10,
    Syscall NR_readlinkat [Dir_fd, Ptr 0x20de6100, Ptr 0x20de6140, Imm 0x3ff], Count,
    Memcpy 0x20e41e00 (with_nul ''./var/tmp'') 10,
    Syscall NR_readlinkat [Dir_fd, Ptr 0x20e41e00, Ptr 0x20e41e40, Imm 0x3ff], Count,
    Memcpy 0x20e841c0 (with_nul ''./var/tmp'') 10,
    Syscall NR_readlinkat [Dir_fd, Ptr 0x20e841c0, Ptr 0x20e84200, Imm 0x3ff], Count]"

definition min_mysql_readlinkat_missing_14_0_body18 :: "stmt list" where
  "min_mysql_readlinkat_missing_14_0_body18 = [
    Memcpy 0x20eda400 (with_nul ''./var/tmp'') 10,
    Syscall NR_readlinkat [Dir_fd, Ptr 0x20eda400, Ptr 0x20eda440, Imm 0x3ff], Count,
    Memcpy 0x202c66c0 (with_nul ''./var/tmp'') 10,
    Syscall NR_readlinkat [Dir_fd, Ptr 0x202c66c0, Ptr 0x202c6700, Imm 0x3ff], Count,
    Memcpy 0x203e7580 (with_nul ''./var/tmp'') 10,
    Syscall NR_readlinkat [Dir_fd, Ptr 0x203e7580, Ptr 0x203e75c0, Imm 0x3ff], Count,
    Memcpy 0x2048e580 (with_nul ''./var/tmp'') 10,
    Syscall NR_readlinkat [Dir_fd, Ptr 0x2048e580, Ptr 0x2048e5c0, Imm 0x3ff], Count,
    Memcpy 0x20554600 (with_nul ''./var/tmp'') 10,
    Syscall NR_readlinkat [Dir_fd, Ptr 0x20554600, Ptr 0x20554640, Imm 0x3ff], Count,
    Memcpy 0x20a1a500 (with_nul ''./var/tmp'') 10,
    Syscall NR_readlinkat [Dir_fd, Ptr 0x20a1a500, Ptr 0x20a1a540, Imm 0x3ff], Count,
    Memcpy 0x20b365c0 (with_nul ''./var/tmp'') 10,
    Syscall NR_readlinkat [Dir_fd, Ptr 0x20b365c0, Ptr 0x20b36600, Imm 0x3ff], Count,
    Memcpy 0x20be72c0 (with_nul ''./var/tmp'') 10,
    Syscall NR_readlinkat [Dir_fd, Ptr 0x20be72c0, Ptr 0x20be7300, Imm 0x3ff], Count,
    Memcpy 0x20cceec0 (with_nul ''./var/tmp'') 10,
    Syscall NR_readlinkat [Dir_fd, Ptr 0x20cceec0, Ptr 0x20ccef00, Imm 0x3ff], Count,
    Memcpy 0x20fca800 (with_nul ''./var/tmp'') 10,
    Syscall NR_readlinkat [Dir_fd, Ptr 0x20fca800, Ptr 0x20fca840, Imm 0x3ff], Count]"

definition min_mysql_readlinkat_missing_14_0_body19 :: "stmt list" where
  "min_mysql_readlinkat_missing_14_0_body19 = [
    Memcpy 0x2018e000 (with_nul ''./var/tmp'') 10,
    Syscall NR_readlinkat [Dir_fd, Ptr 0x2018e000, Ptr 0x2018e040, Imm 0x3ff], Count,
    Memcpy 0x202d4480 (with_nul ''./var/tmp'') 10,
    Syscall NR_readlinkat [Dir_fd, Ptr 0x202d4480, Ptr 0x202d44c0, Imm 0x3ff], Count,
    Memcpy 0x203d5440 (with_nul ''./var/tmp'') 10,
    Syscall NR_readlinkat [Dir_fd, Ptr 0x203d5440, Ptr 0x203d5480, Imm 0x3ff], Count,
    Memcpy 0x20843ac0 (with_nul ''./var/tmp'') 10,
    Syscall NR_readlinkat [Dir_fd, Ptr 0x20843ac0, Ptr 0x20843b00, Imm 0x3ff], Count,
    Memcpy 0x2099c580 (with_nul ''./var/tmp'') 10,
    Syscall NR_readlinkat [Dir_fd, Ptr 0x2099c580, Ptr 0x2099c5c0, Imm 0x3ff], Count,
    Memcpy 0x20aaa700 (with_nul ''./var/tmp'') 10,
    Syscall NR_readlinkat [Dir_fd, Ptr 0x20aaa700, Ptr 0x20aaa740, Imm 0x3ff], Count,
    Memcpy 0x20b58400 (with_nul ''./var/tmp'') 10,
    Syscall NR_readlinkat [Dir_fd, Ptr 0x20b58400, Ptr 0x20b58440, Imm 0x3ff], Count,
    Memcpy 0x20032500 (with_nul ''./var/tmp'') 10,
    Syscall NR_readlinkat [Dir_fd, Ptr 0x20032500, Ptr 0x20032540, Imm 0x3ff], Count,
    Memcpy 0x2020fd00 (with_nul ''./var/tmp'') 10,
    Syscall NR_readlinkat [Dir_fd, Ptr 0x2020fd00, Ptr 0x2020fd40, Imm 0x3ff], Count,
    Memcpy 0x203a8dc0 (with_nul ''./var/tmp'') 10,
    Syscall NR_readlinkat [Dir_fd, Ptr 0x203a8dc0, Ptr 0x203a8e00, Imm 0x3ff], Count]"

definition min_mysql_readlinkat_missing_14_0_body20 :: "stmt list" where
  "min_mysql_readlinkat_missing_14_0_body20 = [
    Memcpy 0x204de540 (with_nul ''./var/tmp'') 10,
    Syscall NR_readlinkat [Dir_fd, Ptr 0x204de540, Ptr 0x204de580, Imm 0x3ff], Count,
    Memcpy 0x20d194c0 (with_nul ''./var/tmp'') 10,
    Syscall NR_readlinkat [Dir_fd, Ptr 0x20d194c0, Ptr 0x20d19500, Imm 0x3ff], Count,
    Memcpy 0x20d2d1c0 (with_nul ''./var/tmp'') 10,
    Syscall NR_readlinkat [Dir_fd, Ptr 0x20d2d1c0, Ptr 0x20d2d200, Imm 0x3ff], Count,
    Memcpy 0x20d36a40 (with_nul ''./var/tmp'') 10,
    Syscall NR_readlinkat [Dir_fd, Ptr 0x20d36a40, Ptr 0x20d36a80, Imm 0x3ff], Count,
    Memcpy 0x20d48e40 (with_nul ''./var/tmp'') 10,
    Syscall NR_readlinkat [Dir_fd, Ptr 0x20d48e40, Ptr 0x20d48e80, Imm 0x3ff], Count,
    Memcpy 0x2040eb00 (with_nul ''./var/tmp'') 10,
    Syscall NR_readlinkat [Dir_fd, Ptr 0x2040eb00, Ptr 0x2040eb40, Imm 0x3ff], Count,
    Memcpy 0x20452140 (with_nul ''./var/tmp'') 10,
    Syscall NR_readlinkat [Dir_fd, Ptr 0x20452140, Ptr 0x20452180, Imm 0x3ff], Count,
    Memcpy 0x20485fc0 (with_nul ''./var/tmp'') 10,
    Syscall NR_readlinkat [Dir_fd, Ptr 0x20485fc0, Ptr 0x20486000, Imm 0x3ff], Count,
    Memcpy 0x204aeb40 (with_nul ''./var/tmp'') 10,
    Syscall NR_readlinkat [Dir_fd, Ptr 0x204aeb40, Ptr 0x204aeb80, Imm 0x3ff], Count,
    Memcpy 0x20653d80 (with_nul ''./var/tmp'') 10,
    Syscall NR_readlinkat [Dir_fd, Ptr 0x20653d80, Ptr 0x20653dc0, Imm 0x3ff], Count]"

definition min_mysql_readlinkat_missing_14_0_body21 :: "stmt list" where
  "min_mysql_readlinkat_missing_14_0_body21 = [
    Memcpy 0x20789e80 (with_nul ''./var/tmp'') 10,
    Syscall NR_readlinkat [Dir_fd, Ptr 0x20789e80, Ptr 0x20789ec0, Imm 0x3ff], Count,
    Memcpy 0x20974600 (with_nul ''./var/tmp'') 10,
    Syscall NR_readlinkat [Dir_fd, Ptr 0x20974600, Ptr 0x20974640, Imm 0x3ff], Count,
    Memcpy 0x20ab3ec0 (with_nul ''./var/tmp'') 10,
    Syscall NR_readlinkat [Dir_fd, Ptr 0x20ab3ec0, Ptr 0x20ab3f00, Imm 0x3ff], Count,
    Memcpy 0x20f4b040 (with_nul ''./var/tmp'') 10,
    Syscall NR_readlinkat [Dir_fd, Ptr 0x20f4b040, Ptr 0x20f4b080, Imm 0x3ff], Count,
    Memcpy 0x20082f40 (with_nul ''./var/tmp'') 10,
    Syscall NR_readlinkat [Dir_fd, Ptr 0x20082f40, Ptr 0x20082f80, Imm 0x3ff], Count,
    Memcpy 0x20207c00 (with_nul ''./var/tmp'') 10,
    Syscall NR_readlinkat [Dir_fd, Ptr 0x20207c00, Ptr 0x20207c40, Imm 0x3ff], Count,
    Memcpy 0x20306500 (with_nul ''./var/tmp'') 10,
    Syscall NR_readlinkat [Dir_fd, Ptr 0x20306500, Ptr 0x20306540, Imm 0x3ff], Count,
    Memcpy 0x2077f980 (with_nul ''./var/tmp'') 10,
    Syscall NR_readlinkat [Dir_fd, Ptr 0x2077f980, Ptr 0x2077f9c0, Imm 0x3ff], Count,
    Memcpy 0x208b0cc0 (with_nul ''./var/tmp'') 10,
    Syscall NR_readlinkat [Dir_fd, Ptr 0x208b0cc0, Ptr 0x208b0d00, Imm 0x3ff], Count,
    Memcpy 0x20da8a00 (with_nul ''./var/tmp'') 10,
    Syscall NR_readlinkat [Dir_fd, Ptr 0x20da8a00, Ptr 0x20da8a40, Imm 0x3ff], Count]"

definition min_mysql_readlinkat_missing_14_0_body22 :: "stmt list" where
  "min_mysql_readlinkat_missing_14_0_body22 = [
    Memcpy 0x20ea2440 (with_nul ''./var/tmp'') 10,
    Syscall NR_readlinkat [Dir_fd, Ptr 0x20ea2440, Ptr 0x20ea2480, Imm 0x3ff], Count,
    Memcpy 0x20f79280 (with_nul ''./var/tmp'') 10,
    Syscall NR_readlinkat [Dir_fd, Ptr 0x20f79280, Ptr 0x20f792c0, Imm 0x3ff], Count,
    Memcpy 0x2004da40 (with_nul ''./var/tmp'') 10,
    Syscall NR_readlinkat [Dir_fd, Ptr 0x2004da40, Ptr 0x2004da80, Imm 0x3ff], Count,
    Memcpy 0x2054ff40 (with_nul ''./var/tmp'') 10,
    Syscall NR_readlinkat [Dir_fd, Ptr 0x2054ff40, Ptr 0x2054ff80, Imm 0x3ff], Count,
    Memcpy 0x206c6b80 (with_nul ''./var/tmp'') 10,
    Syscall NR_readlinkat [Dir_fd, Ptr 0x206c6b80, Ptr 0x206c6bc0, Imm 0x3ff], Count,
    Memcpy 0x207d1e80 (with_nul ''./var/tmp'') 10,
    Syscall NR_readlinkat [Dir_fd, Ptr 0x207d1e80, Ptr 0x207d1ec0, Imm 0x3ff], Count,
    Memcpy 0x208e7c80 (with_nul ''./var/tmp'') 10,
    Syscall NR_readlinkat [Dir_fd, Ptr 0x208e7c80, Ptr 0x208e7cc0, Imm 0x3ff], Count,
    Memcpy 0x20d696c0 (with_nul ''./var/tmp'') 10,
    Syscall NR_readlinkat [Dir_fd, Ptr 0x20d696c0, Ptr 0x20d69700, Imm 0x3ff], Count,
    Memcpy 0x20e6c000 (with_nul ''./var/tmp'') 10,
    Syscall NR_readlinkat [Dir_fd, Ptr 0x20e6c000, Ptr 0x20e6c040, Imm 0x3ff], Count,
    Memcpy 0x20f8b680 (with_nul ''./var/tmp'') 10,
    Syscall NR_readlinkat [Dir_fd, Ptr 0x20f8b680, Ptr 0x20f8b6c0, Imm 0x3ff], Count]"

definition min_mysql_readlinkat_missing_14_0_body23 :: "stmt list" where
  "min_mysql_readlinkat_missing_14_0_body23 = [
    Memcpy 0x20046040 (with_nul ''./var/tmp'') 10,
    Syscall NR_readlinkat [Dir_fd, Ptr 0x20046040, Ptr 0x20046080, Imm 0x3ff], Count,
    Memcpy 0x2002e740 (with_nul ''./var/tmp'') 10,
    Syscall NR_readlinkat [Dir_fd, Ptr 0x2002e740, Ptr 0x2002e780, Imm 0x3ff], Count,
    Memcpy 0x2011e400 (with_nul ''./var/tmp'') 10,
    Syscall NR_readlinkat [Dir_fd, Ptr 0x2011e400, Ptr 0x2011e440, Imm 0x3ff], Count,
    Memcpy 0x20285400 (with_nul ''./var/tmp'') 10,
    Syscall NR_readlinkat [Dir_fd, Ptr 0x20285400, Ptr 0x20285440, Imm 0x3ff], Count,
    Memcpy 0x20354a80 (with_nul ''./var/tmp'') 10,
    Syscall NR_readlinkat [Dir_fd, Ptr 0x20354a80, Ptr 0x20354ac0, Imm 0x3ff], Count,
    Memcpy 0x208719c0 (with_nul ''./var/tmp'') 10,
    Syscall NR_readlinkat [Dir_fd, Ptr 0x208719c0, Ptr 0x20871a00, Imm 0x3ff], Count,
    Memcpy 0x2099d640 (with_nul ''./var/tmp'') 10,
    Syscall NR_readlinkat [Dir_fd, Ptr 0x2099d640, Ptr 0x2099d680, Imm 0x3ff], Count,
    Memcpy 0x20b0a4c0 (with_nul ''./var/tmp'') 10,
    Syscall NR_readlinkat [Dir_fd, Ptr 0x20b0a4c0, Ptr 0x20b0a500, Imm 0x3ff], Count,
    Memcpy 0x20be8ac0 (with_nul ''./var/tmp'') 10,
    Syscall NR_readlinkat [Dir_fd, Ptr 0x20be8ac0, Ptr 0x20be8b00, Imm 0x3ff], Count,
    Memcpy 0x200dd440 (with_nul ''./var/tmp'') 10,
    Syscall NR_readlinkat [Dir_fd, Ptr 0x200dd440, Ptr 0x200dd480, Imm 0x3ff], Count]"

definition min_mysql_readlinkat_missing_14_0_body24 :: "stmt list" where
  "min_mysql_readlinkat_missing_14_0_body24 = [
    Memcpy 0x20272640 (with_nul ''./var/tmp'') 10,
    Syscall NR_readlinkat [Dir_fd, Ptr 0x20272640, Ptr 0x20272680, Imm 0x3ff], Count,
    Memcpy 0x203f9100 (with_nul ''./var/tmp'') 10,
    Syscall NR_readlinkat [Dir_fd, Ptr 0x203f9100, Ptr 0x203f9140, Imm 0x3ff], Count,
    Memcpy 0x204f5500 (with_nul ''./var/tmp'') 10,
    Syscall NR_readlinkat [Dir_fd, Ptr 0x204f5500, Ptr 0x204f5540, Imm 0x3ff], Count,
    Memcpy 0x2095d380 (with_nul ''./var/tmp'') 10,
    Syscall NR_readlinkat [Dir_fd, Ptr 0x2095d380, Ptr 0x2095d3c0, Imm 0x3ff], Count,
    Memcpy 0x20a50940 (with_nul ''./var/tmp'') 10,
    Syscall NR_readlinkat [Dir_fd, Ptr 0x20a50940, Ptr 0x20a50980, Imm 0x3ff], Count,
    Memcpy 0x20b21880 (with_nul ''./var/tmp'') 10,
    Syscall NR_readlinkat [Dir_fd, Ptr 0x20b21880, Ptr 0x20b218c0, Imm 0x3ff], Count,
    Memcpy 0x20bd9d80 (with_nul ''./var/tmp'') 10,
    Syscall NR_readlinkat [Dir_fd, Ptr 0x20bd9d80, Ptr 0x20bd9dc0, Imm 0x3ff], Count,
    Memcpy 0x200fd0c0 (with_nul ''./var/tmp'') 10,
    Syscall NR_readlinkat [Dir_fd, Ptr 0x200fd0c0, Ptr 0x200fd100, Imm 0x3ff], Count,
    Memcpy 0x201be9c0 (with_nul ''./var/tmp'') 10,
    Syscall NR_readlinkat [Dir_fd, Ptr 0x201be9c0, Ptr 0x201bea00, Imm 0x3ff], Count,
    Memcpy 0x20261840 (with_nul ''./var/tmp'') 10,
    Syscall NR_readlinkat [Dir_fd, Ptr 0x20261840, Ptr 0x20261880, Imm 0x3ff], Count]"

definition min_mysql_readlinkat_missing_14_0_body25 :: "stmt list" where
  "min_mysql_readlinkat_missing_14_0_body25 = [
    Memcpy 0x202ea800 (with_nul ''./var/tmp'') 10,
    Syscall NR_readlinkat [Dir_fd, Ptr 0x202ea800, Ptr 0x202ea840, Imm 0x3ff], Count,
    Memcpy 0x208025c0 (with_nul ''./var/tmp'') 10,
    Syscall NR_readlinkat [Dir_fd, Ptr 0x208025c0, Ptr 0x20802600, Imm 0x3ff], Count,
    Memcpy 0x208cb580 (with_nul ''./var/tmp'') 10,
    Syscall NR_readlinkat [Dir_fd, Ptr 0x208cb580, Ptr 0x208cb5c0, Imm 0x3ff], Count,
    Memcpy 0x20996a80 (with_nul ''./var/tmp'') 10,
    Syscall NR_readlinkat [Dir_fd, Ptr 0x20996a80, Ptr 0x20996ac0, Imm 0x3ff], Count,
    Memcpy 0x20a64800 (with_nul ''./var/tmp'') 10,
    Syscall NR_readlinkat [Dir_fd, Ptr 0x20a64800, Ptr 0x20a64840, Imm 0x3ff], Count,
    Memcpy 0x20ffbbc0 (with_nul ''./var/tmp'') 10,
    Syscall NR_readlinkat [Dir_fd, Ptr 0x20ffbbc0, Ptr 0x20ffbc00, Imm 0x3ff], Count,
    Memcpy 0x200c94c0 (with_nul ''./var/tmp'') 10,
    Syscall NR_readlinkat [Dir_fd, Ptr 0x200c94c0, Ptr 0x200c9500, Imm 0x3ff], Count,
    Memcpy 0x201cd880 (with_nul ''./var/tmp'') 10,
    Syscall NR_readlinkat [Dir_fd, Ptr 0x201cd880, Ptr 0x201cd8c0, Imm 0x3ff], Count,
    Memcpy 0x202977c0 (with_nul ''./var/tmp'') 10,
    Syscall NR_readlinkat [Dir_fd, Ptr 0x202977c0, Ptr 0x20297800, Imm 0x3ff], Count,
    Memcpy 0x206fad80 (with_nul ''./var/tmp'') 10,
    Syscall NR_readlinkat [Dir_fd, Ptr 0x206fad80, Ptr 0x206fadc0, Imm 0x3ff], Count]"

definition min_mysql_readlinkat_missing_14_0_body26 :: "stmt list" where
  "min_mysql_readlinkat_missing_14_0_body26 = [
    Memcpy 0x207fd800 (with_nul ''./var/tmp'') 10,
    Syscall NR_readlinkat [Dir_fd, Ptr 0x207fd800, Ptr 0x207fd840, Imm 0x3ff], Count,
    Memcpy 0x20931b80 (with_nul ''./var/tmp'') 10,
    Syscall NR_readlinkat [Dir_fd, Ptr 0x20931b80, Ptr 0x20931bc0, Imm 0x3ff], Count,
    Memcpy 0x20a26e80 (with_nul ''./var/tmp'') 10,
    Syscall NR_readlinkat [Dir_fd, Ptr 0x20a26e80, Ptr 0x20a26ec0, Imm 0x3ff], Count,
    Memcpy 0x20dda8c0 (with_nul ''./var/tmp'') 10,
    Syscall NR_readlinkat [Dir_fd, Ptr 0x20dda8c0, Ptr 0x20dda900, Imm 0x3ff], Count,
    Memcpy 0x20e86440 (with_nul ''./var/tmp'') 10,
    Syscall NR_readlinkat [Dir_fd, Ptr 0x20e86440, Ptr 0x20e86480, Imm 0x3ff], Count,
    Memcpy 0x20f284c0 (with_nul ''./var/tmp'') 10,
    Syscall NR_readlinkat [Dir_fd, Ptr 0x20f284c0, Ptr 0x20f28500, Imm 0x3ff], Count,
    Memcpy 0x20fddf80 (with_nul ''./var/tmp'') 10,
    Syscall NR_readlinkat [Dir_fd, Ptr 0x20fddf80, Ptr 0x20fddfc0, Imm 0x3ff], Count,
    Memcpy 0x2058c600 (with_nul ''./var/tmp'') 10,
    Syscall NR_readlinkat [Dir_fd, Ptr 0x2058c600, Ptr 0x2058c640, Imm 0x3ff], Count,
    Memcpy 0x2068bb40 (with_nul ''./var/tmp'') 10,
    Syscall NR_readlinkat [Dir_fd, Ptr 0x2068bb40, Ptr 0x2068bb80, Imm 0x3ff], Count,
    Memcpy 0x20893cc0 (with_nul ''./var/tmp'') 10,
    Syscall NR_readlinkat [Dir_fd, Ptr 0x20893cc0, Ptr 0x20893d00, Imm 0x3ff], Count]"

definition min_mysql_readlinkat_missing_14_0_body27 :: "stmt list" where
  "min_mysql_readlinkat_missing_14_0_body27 = [
    Memcpy 0x209fcf80 (with_nul ''./var/tmp'') 10,
    Syscall NR_readlinkat [Dir_fd, Ptr 0x209fcf80, Ptr 0x209fcfc0, Imm 0x3ff], Count,
    Memcpy 0x20df7040 (with_nul ''./var/tmp'') 10,
    Syscall NR_readlinkat [Dir_fd, Ptr 0x20df7040, Ptr 0x20df7080, Imm 0x3ff], Count,
    Memcpy 0x20f59440 (with_nul ''./var/tmp'') 10,
    Syscall NR_readlinkat [Dir_fd, Ptr 0x20f59440, Ptr 0x20f59480, Imm 0x3ff], Count,
    Memcpy 0x2057db00 (with_nul ''./var/tmp'') 10,
    Syscall NR_readlinkat [Dir_fd, Ptr 0x2057db00, Ptr 0x2057db40, Imm 0x3ff], Count,
    Memcpy 0x205a00c0 (with_nul ''./var/tmp'') 10,
    Syscall NR_readlinkat [Dir_fd, Ptr 0x205a00c0, Ptr 0x205a0100, Imm 0x3ff], Count,
    Memcpy 0x20c9bd40 (with_nul ''./var/tmp'') 10,
    Syscall NR_readlinkat [Dir_fd, Ptr 0x20c9bd40, Ptr 0x20c9bd80, Imm 0x3ff], Count,
    Memcpy 0x20ce2780 (with_nul ''./var/tmp'') 10,
    Syscall NR_readlinkat [Dir_fd, Ptr 0x20ce2780, Ptr 0x20ce27c0, Imm 0x3ff], Count,
    Memcpy 0x20d1d240 (with_nul ''./var/tmp'') 10,
    Syscall NR_readlinkat [Dir_fd, Ptr 0x20d1d240, Ptr 0x20d1d280, Imm 0x3ff], Count,
    Memcpy 0x20d58700 (with_nul ''./var/tmp'') 10,
    Syscall NR_readlinkat [Dir_fd, Ptr 0x20d58700, Ptr 0x20d58740, Imm 0x3ff], Count,
    Memcpy 0x2018ce00 (with_nul ''./var/tmp'') 10,
    Syscall NR_readlinkat [Dir_fd, Ptr 0x2018ce00, Ptr 0x2018ce40, Imm 0x3ff], Count]"

definition min_mysql_readlinkat_missing_14_0_body28 :: "stmt list" where
  "min_mysql_readlinkat_missing_14_0_body28 = [
    Memcpy 0x2032d480 (with_nul ''./var/tmp'') 10,
    Syscall NR_readlinkat [Dir_fd, Ptr 0x2032d480, Ptr 0x2032d4c0, Imm 0x3ff], Count,
    Memcpy 0x20492500 (with_nul ''./var/tmp'') 10,
    Syscall NR_readlinkat [Dir_fd, Ptr 0x20492500, Ptr 0x20492540, Imm 0x3ff], Count,
    Memcpy 0x20523780 (with_nul ''./var/tmp'') 10,
    Syscall NR_readlinkat [Dir_fd, Ptr 0x20523780, Ptr 0x205237c0, Imm 0x3ff], Count,
    Memcpy 0x2083a300 (with_nul ''./var/tmp'') 10,
    Syscall NR_readlinkat [Dir_fd, Ptr 0x2083a300, Ptr 0x2083a340, Imm 0x3ff], Count,
    Memcpy 0x2097ccc0 (with_nul ''./var/tmp'') 10,
    Syscall NR_readlinkat [Dir_fd, Ptr 0x2097ccc0, Ptr 0x2097cd00, Imm 0x3ff], Count,
    Memcpy 0x20a6ce80 (with_nul ''./var/tmp'') 10,
    Syscall NR_readlinkat [Dir_fd, Ptr 0x20a6ce80, Ptr 0x20a6cec0, Imm 0x3ff], Count,
    Memcpy 0x20b1c340 (with_nul ''./var/tmp'') 10,
    Syscall NR_readlinkat [Dir_fd, Ptr 0x20b1c340, Ptr 0x20b1c380, Imm 0x3ff], Count,
    Memcpy 0x20d5a040 (with_nul ''./var/tmp'') 10,
    Syscall NR_readlinkat [Dir_fd, Ptr 0x20d5a040, Ptr 0x20d5a080, Imm 0x3ff], Count,
    Memcpy 0x20f092c0 (with_nul ''./var/tmp'') 10,
    Syscall NR_readlinkat [Dir_fd, Ptr 0x20f092c0, Ptr 0x20f09300, Imm 0x3ff], Count,
    Memcpy 0x20fdad40 (with_nul ''./var/tmp'') 10,
    Syscall NR_readlinkat [Dir_fd, Ptr 0x20fdad40, Ptr 0x20fdad80, Imm 0x3ff], Count]"

definition min_mysql_readlinkat_missing_14_0_body29 :: "stmt list" where
  "min_mysql_readlinkat_missing_14_0_body29 = [
    Memcpy 0x201482c0 (with_nul ''./var/tmp'') 10,
    Syscall NR_readlinkat [Dir_fd, Ptr 0x201482c0, Ptr 0x20148300, Imm 0x3ff], Count,
    Memcpy 0x203cda00 (with_nul ''./var/tmp'') 10,
    Syscall NR_readlinkat [Dir_fd, Ptr 0x203cda00, Ptr 0x203cda40, Imm 0x3ff], Count,
    Memcpy 0x2050a940 (with_nul ''./var/tmp'') 10,
    Syscall NR_readlinkat [Dir_fd, Ptr 0x2050a940, Ptr 0x2050a980, Imm 0x3ff], Count,
    Memcpy 0x206cb900 (with_nul ''./var/tmp'') 10,
    Syscall NR_readlinkat [Dir_fd, Ptr 0x206cb900, Ptr 0x206cb940, Imm 0x3ff], Count,
    Memcpy 0x207d3000 (with_nul ''./var/tmp'') 10,
    Syscall NR_readlinkat [Dir_fd, Ptr 0x207d3000, Ptr 0x207d3040, Imm 0x3ff], Count,
    Memcpy 0x20b5a100 (with_nul ''./var/tmp'') 10,
    Syscall NR_readlinkat [Dir_fd, Ptr 0x20b5a100, Ptr 0x20b5a140, Imm 0x3ff], Count,
    Memcpy 0x20c68e00 (with_nul ''./var/tmp'') 10,
    Syscall NR_readlinkat [Dir_fd, Ptr 0x20c68e00, Ptr 0x20c68e40, Imm 0x3ff], Count,
    Memcpy 0x20dd5c40 (with_nul ''./var/tmp'') 10,
    Syscall NR_readlinkat [Dir_fd, Ptr 0x20dd5c40, Ptr 0x20dd5c80, Imm 0x3ff], Count,
    Memcpy 0x20ef5040 (with_nul ''./var/tmp'') 10,
    Syscall NR_readlinkat [Dir_fd, Ptr 0x20ef5040, Ptr 0x20ef5080, Imm 0x3ff], Count,
    Memcpy 0x2025d240 (with_nul ''./var/tmp'') 10,
    Syscall NR_readlinkat [Dir_fd, Ptr 0x2025d240, Ptr 0x2025d280, Imm 0x3ff], Count]"

definition min_mysql_readlinkat_missing_14_0_body30 :: "stmt list" where
  "min_mysql_readlinkat_missing_14_0_body30 = [
    Memcpy 0x2045b200 (with_nul ''./var/tmp'') 10,
    Syscall NR_readlinkat [Dir_fd, Ptr 0x2045b200, Ptr 0x2045b240, Imm 0x3ff], Count,
    Memcpy 0x205a6880 (with_nul ''./var/tmp'') 10,
    Syscall NR_readlinkat [Dir_fd, Ptr 0x205a6880, Ptr 0x205a68c0, Imm 0x3ff], Count,
    Memcpy 0x20749780 (with_nul ''./var/tmp'') 10,
    Syscall NR_readlinkat [Dir_fd, Ptr 0x20749780, Ptr 0x207497c0, Imm 0x3ff], Count,
    Memcpy 0x209ff2c0 (with_nul ''./var/tmp'') 10,
    Syscall NR_readlinkat [Dir_fd, Ptr 0x209ff2c0, Ptr 0x209ff300, Imm 0x3ff], Count,
    Memcpy 0x20bc94c0 (with_nul ''./var/tmp'') 10,
    Syscall NR_readlinkat [Dir_fd, Ptr 0x20bc94c0, Ptr 0x20bc9500, Imm 0x3ff], Count,
    Memcpy 0x20d1a940 (with_nul ''./var/tmp'') 10,
    Syscall NR_readlinkat [Dir_fd, Ptr 0x20d1a940, Ptr 0x20d1a980, Imm 0x3ff], Count,
    Memcpy 0x20e642c0 (with_nul ''./var/tmp'') 10,
    Syscall NR_readlinkat [Dir_fd, Ptr 0x20e642c0, Ptr 0x20e64300, Imm 0x3ff], Count,
    Memcpy 0x20150900 (with_nul ''./var/tmp'') 10,
    Syscall NR_readlinkat [Dir_fd, Ptr 0x20150900, Ptr 0x20150940, Imm 0x3ff], Count,
    Memcpy 0x20294740 (with_nul ''./var/tmp'') 10,
    Syscall NR_readlinkat [Dir_fd, Ptr 0x20294740, Ptr 0x20294780, Imm 0x3ff], Count,
    Memcpy 0x20477b40 (with_nul ''./var/tmp'') 10,
    Syscall NR_readlinkat [Dir_fd, Ptr 0x20477b40, Ptr 0x20477b80, Imm 0x3ff], Count]"

definition min_mysql_readlinkat_missing_14_0_body31 :: "stmt list" where
  "min_mysql_readlinkat_missing_14_0_body31 = [
    Memcpy 0x205c5140 (with_nul ''./var/tmp'') 10,
    Syscall NR_readlinkat [Dir_fd, Ptr 0x205c5140, Ptr 0x205c5180, Imm 0x3ff], Count,
    Memcpy 0x2091c0c0 (with_nul ''./var/tmp'') 10,
    Syscall NR_readlinkat [Dir_fd, Ptr 0x2091c0c0, Ptr 0x2091c100, Imm 0x3ff], Count,
    Memcpy 0x20a15f00 (with_nul ''./var/tmp'') 10,
    Syscall NR_readlinkat [Dir_fd, Ptr 0x20a15f00, Ptr 0x20a15f40, Imm 0x3ff], Count,
    Memcpy 0x20ba0480 (with_nul ''./var/tmp'') 10,
    Syscall NR_readlinkat [Dir_fd, Ptr 0x20ba0480, Ptr 0x20ba04c0, Imm 0x3ff], Count,
    Memcpy 0x20ce8e00 (with_nul ''./var/tmp'') 10,
    Syscall NR_readlinkat [Dir_fd, Ptr 0x20ce8e00, Ptr 0x20ce8e40, Imm 0x3ff], Count,
    Memcpy 0x200f1000 (with_nul ''./var/tmp'') 10,
    Syscall NR_readlinkat [Dir_fd, Ptr 0x200f1000, Ptr 0x200f1040, Imm 0x3ff], Count,
    Memcpy 0x201e9640 (with_nul ''./var/tmp'') 10,
    Syscall NR_readlinkat [Dir_fd, Ptr 0x201e9640, Ptr 0x201e9680, Imm 0x3ff], Count,
    Memcpy 0x2078c240 (with_nul ''./var/tmp'') 10,
    Syscall NR_readlinkat [Dir_fd, Ptr 0x2078c240, Ptr 0x2078c280, Imm 0x3ff], Count,
    Memcpy 0x2088b800 (with_nul ''./var/tmp'') 10,
    Syscall NR_readlinkat [Dir_fd, Ptr 0x2088b800, Ptr 0x2088b840, Imm 0x3ff], Count,
    Memcpy 0x209adbc0 (with_nul ''./var/tmp'') 10,
    Syscall NR_readlinkat [Dir_fd, Ptr 0x209adbc0, Ptr 0x209adc00, Imm 0x3ff], Count]"

definition min_mysql_readlinkat_missing_14_0_body32 :: "stmt list" where
  "min_mysql_readlinkat_missing_14_0_body32 = [
    Memcpy 0x20b150c0 (with_nul ''./var/tmp'') 10,
    Syscall NR_readlinkat [Dir_fd, Ptr 0x20b150c0, Ptr 0x20b15100, Imm 0x3ff], Count,
    Memcpy 0x20ea4100 (with_nul ''./var/tmp'') 10,
    Syscall NR_readlinkat [Dir_fd, Ptr 0x20ea4100, Ptr 0x20ea4140, Imm 0x3ff], Count,
    Memcpy 0x20f6c080 (with_nul ''./var/tmp'') 10,
    Syscall NR_readlinkat [Dir_fd, Ptr 0x20f6c080, Ptr 0x20f6c0c0, Imm 0x3ff], Count,
    Memcpy 0x200e3b00 (with_nul ''./var/tmp'') 10,
    Syscall NR_readlinkat [Dir_fd, Ptr 0x200e3b00, Ptr 0x200e3b40, Imm 0x3ff], Count,
    Memcpy 0x20232280 (with_nul ''./var/tmp'') 10,
    Syscall NR_readlinkat [Dir_fd, Ptr 0x20232280, Ptr 0x202322c0, Imm 0x3ff], Count,
    Memcpy 0x20669700 (with_nul ''./var/tmp'') 10,
    Syscall NR_readlinkat [Dir_fd, Ptr 0x20669700, Ptr 0x20669740, Imm 0x3ff], Count,
    Memcpy 0x2076d5c0 (with_nul ''./var/tmp'') 10,
    Syscall NR_readlinkat [Dir_fd, Ptr 0x2076d5c0, Ptr 0x2076d600, Imm 0x3ff], Count,
    Memcpy 0x20c0f7c0 (with_nul ''./var/tmp'') 10,
    Syscall NR_readlinkat [Dir_fd, Ptr 0x20c0f7c0, Ptr 0x20c0f800, Imm 0x3ff], Count,
    Memcpy 0x20cdfac0 (with_nul ''./var/tmp'') 10,
    Syscall NR_readlinkat [Dir_fd, Ptr 0x20cdfac0, Ptr 0x20cdfb00, Imm 0x3ff], Count,
    Memcpy 0x20e3f740 (with_nul ''./var/tmp'') 10,
    Syscall NR_readlinkat [Dir_fd, Ptr 0x20e3f740, Ptr 0x20e3f780, Imm 0x3ff], Count,
    Memcpy 0x20f70880 (with_nul ''./var/tmp'') 10,
    Syscall NR_readlinkat [Dir_fd, Ptr 0x20f70880, Ptr 0x20f708c0, Imm 0x3ff], Count]"

definition min_mysql_readlinkat_missing_14_0 :: syz_prog where
  "min_mysql_readlinkat_missing_14_0 = \<lparr>prog_name = ''min_mysql_readlinkat_missing_14_0'', prog_family = Mysql_v2,
     subdirs = [''var'', ''./var/tmp''],
     filenames = [], filesizes = [],
     max_write_buffer = 0, init_regs = [],
     reg_body = [], dereg_body = [],
     body = min_mysql_readlinkat_missing_14_0_body1 @ min_mysql_readlinkat_missing_14_0_body2 @
       min_mysql_readlinkat_missing_14_0_body3 @ min_mysql_readlinkat_missing_14_0_body4 @
       min_mysql_readlinkat_missing_14_0_body5 @ min_mysql_readlinkat_missing_14_0_body6 @
       min_mysql_readlinkat_missing_14_0_body7 @ min_mysql_readlinkat_missing_14_0_body8 @
       min_mysql_readlinkat_missing_14_0_body9 @ min_mysql_readlinkat_missing_14_0_body10 @
       min_mysql_readlinkat_missing_14_0_body11 @ min_mysql_readlinkat_missing_14_0_body12 @
       min_mysql_readlinkat_missing_14_0_body13 @ min_mysql_readlinkat_missing_14_0_body14 @
       min_mysql_readlinkat_missing_14_0_body15 @ min_mysql_readlinkat_missing_14_0_body16 @
       min_mysql_readlinkat_missing_14_0_body17 @ min_mysql_readlinkat_missing_14_0_body18 @
       min_mysql_readlinkat_missing_14_0_body19 @ min_mysql_readlinkat_missing_14_0_body20 @
       min_mysql_readlinkat_missing_14_0_body21 @ min_mysql_readlinkat_missing_14_0_body22 @
       min_mysql_readlinkat_missing_14_0_body23 @ min_mysql_readlinkat_missing_14_0_body24 @
       min_mysql_readlinkat_missing_14_0_body25 @ min_mysql_readlinkat_missing_14_0_body26 @
       min_mysql_readlinkat_missing_14_0_body27 @ min_mysql_readlinkat_missing_14_0_body28 @
       min_mysql_readlinkat_missing_14_0_body29 @ min_mysql_readlinkat_missing_14_0_body30 @
       min_mysql_readlinkat_missing_14_0_body31 @ min_mysql_readlinkat_missing_14_0_body32\<rparr>"

definition min_mysql_readlinkat_missing_14_0_target where
  "min_mysql_readlinkat_missing_14_0_target os_getenv os_inet_pton K = syz_target os_getenv os_inet_pton K min_mysql_readlinkat_missing_14_0"

lemma min_mysql_readlinkat_missing_14_0_body1_ok: "body_ok 0 0 min_mysql_readlinkat_missing_14_0_body1" "counted min_mysql_readlinkat_missing_14_0_body1" "calls min_mysql_readlinkat_missing_14_0_body1 = 9" "opened_in m min_mysql_readlinkat_missing_14_0_body1 = []"
  by (simp_all add: min_mysql_readlinkat_missing_14_0_body1_def prog_checks open_checks)

lemma min_mysql_readlinkat_missing_14_0_body2_ok: "body_ok 0 0 min_mysql_readlinkat_missing_14_0_body2" "counted min_mysql_readlinkat_missing_14_0_body2" "calls min_mysql_readlinkat_missing_14_0_body2 = 10" "opened_in m min_mysql_readlinkat_missing_14_0_body2 = []"
  by (simp_all add: min_mysql_readlinkat_missing_14_0_body2_def prog_checks open_checks)

lemma min_mysql_readlinkat_missing_14_0_body3_ok: "body_ok 0 0 min_mysql_readlinkat_missing_14_0_body3" "counted min_mysql_readlinkat_missing_14_0_body3" "calls min_mysql_readlinkat_missing_14_0_body3 = 10" "opened_in m min_mysql_readlinkat_missing_14_0_body3 = []"
  by (simp_all add: min_mysql_readlinkat_missing_14_0_body3_def prog_checks open_checks)

lemma min_mysql_readlinkat_missing_14_0_body4_ok: "body_ok 0 0 min_mysql_readlinkat_missing_14_0_body4" "counted min_mysql_readlinkat_missing_14_0_body4" "calls min_mysql_readlinkat_missing_14_0_body4 = 10" "opened_in m min_mysql_readlinkat_missing_14_0_body4 = []"
  by (simp_all add: min_mysql_readlinkat_missing_14_0_body4_def prog_checks open_checks)

lemma min_mysql_readlinkat_missing_14_0_body5_ok: "body_ok 0 0 min_mysql_readlinkat_missing_14_0_body5" "counted min_mysql_readlinkat_missing_14_0_body5" "calls min_mysql_readlinkat_missing_14_0_body5 = 10" "opened_in m min_mysql_readlinkat_missing_14_0_body5 = []"
  by (simp_all add: min_mysql_readlinkat_missing_14_0_body5_def prog_checks open_checks)

lemma min_mysql_readlinkat_missing_14_0_body6_ok: "body_ok 0 0 min_mysql_readlinkat_missing_14_0_body6" "counted min_mysql_readlinkat_missing_14_0_body6" "calls min_mysql_readlinkat_missing_14_0_body6 = 10" "opened_in m min_mysql_readlinkat_missing_14_0_body6 = []"
  by (simp_all add: min_mysql_readlinkat_missing_14_0_body6_def prog_checks open_checks)

lemma min_mysql_readlinkat_missing_14_0_body7_ok: "body_ok 0 0 min_mysql_readlinkat_missing_14_0_body7" "counted min_mysql_readlinkat_missing_14_0_body7" "calls min_mysql_readlinkat_missing_14_0_body7 = 10" "opened_in m min_mysql_readlinkat_missing_14_0_body7 = []"
  by (simp_all add: min_mysql_readlinkat_missing_14_0_body7_def prog_checks open_checks)

lemma min_mysql_readlinkat_missing_14_0_body8_ok: "body_ok 0 0 min_mysql_readlinkat_missing_14_0_body8" "counted min_mysql_readlinkat_missing_14_0_body8" "calls min_mysql_readlinkat_missing_14_0_body8 = 10" "opened_in m min_mysql_readlinkat_missing_14_0_body8 = []"
  by (simp_all add: min_mysql_readlinkat_missing_14_0_body8_def prog_checks open_checks)

lemma min_mysql_readlinkat_missing_14_0_body9_ok: "body_ok 0 0 min_mysql_readlinkat_missing_14_0_body9" "counted min_mysql_readlinkat_missing_14_0_body9" "calls min_mysql_readlinkat_missing_14_0_body9 = 10" "opened_in m min_mysql_readlinkat_missing_14_0_body9 = []"
  by (simp_all add: min_mysql_readlinkat_missing_14_0_body9_def prog_checks open_checks)

lemma min_mysql_readlinkat_missing_14_0_body10_ok: "body_ok 0 0 min_mysql_readlinkat_missing_14_0_body10" "counted min_mysql_readlinkat_missing_14_0_body10" "calls min_mysql_readlinkat_missing_14_0_body10 = 10" "opened_in m min_mysql_readlinkat_missing_14_0_body10 = []"
  by (simp_all add: min_mysql_readlinkat_missing_14_0_body10_def prog_checks open_checks)

lemma min_mysql_readlinkat_missing_14_0_body11_ok: "body_ok 0 0 min_mysql_readlinkat_missing_14_0_body11" "counted min_mysql_readlinkat_missing_14_0_body11" "calls min_mysql_readlinkat_missing_14_0_body11 = 10" "opened_in m min_mysql_readlinkat_missing_14_0_body11 = []"
  by (simp_all add: min_mysql_readlinkat_missing_14_0_body11_def prog_checks open_checks)

lemma min_mysql_readlinkat_missing_14_0_body12_ok: "body_ok 0 0 min_mysql_readlinkat_missing_14_0_body12" "counted min_mysql_readlinkat_missing_14_0_body12" "calls min_mysql_readlinkat_missing_14_0_body12 = 10" "opened_in m min_mysql_readlinkat_missing_14_0_body12 = []"
  by (simp_all add: min_mysql_readlinkat_missing_14_0_body12_def prog_checks open_checks)

lemma min_mysql_readlinkat_missing_14_0_body13_ok: "body_ok 0 0 min_mysql_readlinkat_missing_14_0_body13" "counted min_mysql_readlinkat_missing_14_0_body13" "calls min_mysql_readlinkat_missing_14_0_body13 = 10" "opened_in m min_mysql_readlinkat_missing_14_0_body13 = []"
  by (simp_all add: min_mysql_readlinkat_missing_14_0_body13_def prog_checks open_checks)

lemma min_mysql_readlinkat_missing_14_0_body14_ok: "body_ok 0 0 min_mysql_readlinkat_missing_14_0_body14" "counted min_mysql_readlinkat_missing_14_0_body14" "calls min_mysql_readlinkat_missing_14_0_body14 = 10" "opened_in m min_mysql_readlinkat_missing_14_0_body14 = []"
  by (simp_all add: min_mysql_readlinkat_missing_14_0_body14_def prog_checks open_checks)

lemma min_mysql_readlinkat_missing_14_0_body15_ok: "body_ok 0 0 min_mysql_readlinkat_missing_14_0_body15" "counted min_mysql_readlinkat_missing_14_0_body15" "calls min_mysql_readlinkat_missing_14_0_body15 = 10" "opened_in m min_mysql_readlinkat_missing_14_0_body15 = []"
  by (simp_all add: min_mysql_readlinkat_missing_14_0_body15_def prog_checks open_checks)

lemma min_mysql_readlinkat_missing_14_0_body16_ok: "body_ok 0 0 min_mysql_readlinkat_missing_14_0_body16" "counted min_mysql_readlinkat_missing_14_0_body16" "calls min_mysql_readlinkat_missing_14_0_body16 = 10" "opened_in m min_mysql_readlinkat_missing_14_0_body16 = []"
  by (simp_all add: min_mysql_readlinkat_missing_14_0_body16_def prog_checks open_checks)

lemma min_mysql_readlinkat_missing_14_0_body17_ok: "body_ok 0 0 min_mysql_readlinkat_missing_14_0_body17" "counted min_mysql_readlinkat_missing_14_0_body17" "calls min_mysql_readlinkat_missing_14_0_body17 = 10" "opened_in m min_mysql_readlinkat_missing_14_0_body17 = []"
  by (simp_all add: min_mysql_readlinkat_missing_14_0_body17_def prog_checks open_checks)

lemma min_mysql_readlinkat_missing_14_0_body18_ok: "body_ok 0 0 min_mysql_readlinkat_missing_14_0_body18" "counted min_mysql_readlinkat_missing_14_0_body18" "calls min_mysql_readlinkat_missing_14_0_body18 = 10" "opened_in m min_mysql_readlinkat_missing_14_0_body18 = []"
  by (simp_all add: min_mysql_readlinkat_missing_14_0_body18_def prog_checks open_checks)

lemma min_mysql_readlinkat_missing_14_0_body19_ok: "body_ok 0 0 min_mysql_readlinkat_missing_14_0_body19" "counted min_mysql_readlinkat_missing_14_0_body19" "calls min_mysql_readlinkat_missing_14_0_body19 = 10" "opened_in m min_mysql_readlinkat_missing_14_0_body19 = []"
  by (simp_all add: min_mysql_readlinkat_missing_14_0_body19_def prog_checks open_checks)

lemma min_mysql_readlinkat_missing_14_0_body20_ok: "body_ok 0 0 min_mysql_readlinkat_missing_14_0_body20" "counted min_mysql_readlinkat_missing_14_0_body20" "calls min_mysql_readlinkat_missing_14_0_body20 = 10" "opened_in m min_mysql_readlinkat_missing_14_0_body20 = []"
  by (simp_all add: min_mysql_readlinkat_missing_14_0_body20_def prog_checks open_checks)

lemma min_mysql_readlinkat_missing_14_0_body21_ok: "body_ok 0 0 min_mysql_readlinkat_missing_14_0_body21" "counted min_mysql_readlinkat_missing_14_0_body21" "calls min_mysql_readlinkat_missing_14_0_body21 = 10" "opened_in m min_mysql_readlinkat_missing_14_0_body21 = []"
  by (simp_all add: min_mysql_readlinkat_missing_14_0_body21_def prog_checks open_checks)

lemma min_mysql_readlinkat_missing_14_0_body22_ok: "body_ok 0 0 min_mysql_readlinkat_missing_14_0_body22" "counted min_mysql_readlinkat_missing_14_0_body22" "calls min_mysql_readlinkat_missing_14_0_body22 = 10" "opened_in m min_mysql_readlinkat_missing_14_0_body22 = []"
  by (simp_all add: min_mysql_readlinkat_missing_14_0_body22_def prog_checks open_checks)

lemma min_mysql_readlinkat_missing_14_0_body23_ok: "body_ok 0 0 min_mysql_readlinkat_missing_14_0_body23" "counted min_mysql_readlinkat_missing_14_0_body23" "calls min_mysql_readlinkat_missing_14_0_body23 = 10" "opened_in m min_mysql_readlinkat_missing_14_0_body23 = []"
  by (simp_all add: min_mysql_readlinkat_missing_14_0_body23_def prog_checks open_checks)

lemma min_mysql_readlinkat_missing_14_0_body24_ok: "body_ok 0 0 min_mysql_readlinkat_missing_14_0_body24" "counted min_mysql_readlinkat_missing_14_0_body24" "calls min_mysql_readlinkat_missing_14_0_body24 = 10" "opened_in m min_mysql_readlinkat_missing_14_0_body24 = []"
  by (simp_all add: min_mysql_readlinkat_missing_14_0_body24_def prog_checks open_checks)

lemma min_mysql_readlinkat_missing_14_0_body25_ok: "body_ok 0 0 min_mysql_readlinkat_missing_14_0_body25" "counted min_mysql_readlinkat_missing_14_0_body25" "calls min_mysql_readlinkat_missing_14_0_body25 = 10" "opened_in m min_mysql_readlinkat_missing_14_0_body25 = []"
  by (simp_all add: min_mysql_readlinkat_missing_14_0_body25_def prog_checks open_checks)

lemma min_mysql_readlinkat_missing_14_0_body26_ok: "body_ok 0 0 min_mysql_readlinkat_missing_14_0_body26" "counted min_mysql_readlinkat_missing_14_0_body26" "calls min_mysql_readlinkat_missing_14_0_body26 = 10" "opened_in m min_mysql_readlinkat_missing_14_0_body26 = []"
  by (simp_all add: min_mysql_readlinkat_missing_14_0_body26_def prog_checks open_checks)

lemma min_mysql_readlinkat_missing_14_0_body27_ok: "body_ok 0 0 min_mysql_readlinkat_missing_14_0_body27" "counted min_mysql_readlinkat_missing_14_0_body27" "calls min_mysql_readlinkat_missing_14_0_body27 = 10" "opened_in m min_mysql_readlinkat_missing_14_0_body27 = []"
  by (simp_all add: min_mysql_readlinkat_missing_14_0_body27_def prog_checks open_checks)

lemma min_mysql_readlinkat_missing_14_0_body28_ok: "body_ok 0 0 min_mysql_readlinkat_missing_14_0_body28" "counted min_mysql_readlinkat_missing_14_0_body28" "calls min_mysql_readlinkat_missing_14_0_body28 = 10" "opened_in m min_mysql_readlinkat_missing_14_0_body28 = []"
  by (simp_all add: min_mysql_readlinkat_missing_14_0_body28_def prog_checks open_checks)

lemma min_mysql_readlinkat_missing_14_0_body29_ok: "body_ok 0 0 min_mysql_readlinkat_missing_14_0_body29" "counted min_mysql_readlinkat_missing_14_0_body29" "calls min_mysql_readlinkat_missing_14_0_body29 = 10" "opened_in m min_mysql_readlinkat_missing_14_0_body29 = []"
  by (simp_all add: min_mysql_readlinkat_missing_14_0_body29_def prog_checks open_checks)

lemma min_mysql_readlinkat_missing_14_0_body30_ok: "body_ok 0 0 min_mysql_readlinkat_missing_14_0_body30" "counted min_mysql_readlinkat_missing_14_0_body30" "calls min_mysql_readlinkat_missing_14_0_body30 = 10" "opened_in m min_mysql_readlinkat_missing_14_0_body30 = []"
  by (simp_all add: min_mysql_readlinkat_missing_14_0_body30_def prog_checks open_checks)

lemma min_mysql_readlinkat_missing_14_0_body31_ok: "body_ok 0 0 min_mysql_readlinkat_missing_14_0_body31" "counted min_mysql_readlinkat_missing_14_0_body31" "calls min_mysql_readlinkat_missing_14_0_body31 = 10" "opened_in m min_mysql_readlinkat_missing_14_0_body31 = []"
  by (simp_all add: min_mysql_readlinkat_missing_14_0_body31_def prog_checks open_checks)

lemma min_mysql_readlinkat_missing_14_0_body32_ok: "body_ok 0 0 min_mysql_readlinkat_missing_14_0_body32" "counted min_mysql_readlinkat_missing_14_0_body32" "calls min_mysql_readlinkat_missing_14_0_body32 = 11" "opened_in m min_mysql_readlinkat_missing_14_0_body32 = []"
  by (simp_all add: min_mysql_readlinkat_missing_14_0_body32_def prog_checks open_checks)

lemmas min_mysql_readlinkat_missing_14_0_bodies =
  min_mysql_readlinkat_missing_14_0_body1_ok min_mysql_readlinkat_missing_14_0_body2_ok
  min_mysql_readlinkat_missing_14_0_body3_ok min_mysql_readlinkat_missing_14_0_body4_ok
  min_mysql_readlinkat_missing_14_0_body5_ok min_mysql_readlinkat_missing_14_0_body6_ok
  min_mysql_readlinkat_missing_14_0_body7_ok min_mysql_readlinkat_missing_14_0_body8_ok
  min_mysql_readlinkat_missing_14_0_body9_ok min_mysql_readlinkat_missing_14_0_body10_ok
  min_mysql_readlinkat_missing_14_0_body11_ok min_mysql_readlinkat_missing_14_0_body12_ok
  min_mysql_readlinkat_missing_14_0_body13_ok min_mysql_readlinkat_missing_14_0_body14_ok
  min_mysql_readlinkat_missing_14_0_body15_ok min_mysql_readlinkat_missing_14_0_body16_ok
  min_mysql_readlinkat_missing_14_0_body17_ok min_mysql_readlinkat_missing_14_0_body18_ok
  min_mysql_readlinkat_missing_14_0_body19_ok min_mysql_readlinkat_missing_14_0_body20_ok
  min_mysql_readlinkat_missing_14_0_body21_ok min_mysql_readlinkat_missing_14_0_body22_ok
  min_mysql_readlinkat_missing_14_0_body23_ok min_mysql_readlinkat_missing_14_0_body24_ok
  min_mysql_readlinkat_missing_14_0_body25_ok min_mysql_readlinkat_missing_14_0_body26_ok
  min_mysql_readlinkat_missing_14_0_body27_ok min_mysql_readlinkat_missing_14_0_body28_ok
  min_mysql_readlinkat_missing_14_0_body29_ok min_mysql_readlinkat_missing_14_0_body30_ok
  min_mysql_readlinkat_missing_14_0_body31_ok min_mysql_readlinkat_missing_14_0_body32_ok

lemma min_mysql_readlinkat_missing_14_0_ok: "prog_ok min_mysql_readlinkat_missing_14_0" "calls (body min_mysql_readlinkat_missing_14_0) = 320"
  by (simp_all add: prog_ok_def counted_append prog_checks min_mysql_readlinkat_missing_14_0_def min_mysql_readlinkat_missing_14_0_bodies)

end
