(* ===== verification/CSB_Progs_Mysql_v2j.thy ===== *)
theory CSB_Progs_Mysql_v2j
  imports CSB_Syz_Files
begin

text \<open>
  Bodies of generated targets of bench/targets/mysql\_v2, statement by statement in the order of the
  files syz/<name>.h, and the targets made of them (the files <name>.h). Each passes the check.
\<close>

section \<open>min\_mysql\_openat\_lseek\_26\_0\<close>

definition min_mysql_openat_lseek_26_0_body1 :: "stmt list" where
  "min_mysql_openat_lseek_26_0_body1 = [
    Memcpy 0x20d12800 (with_nul ''./var/tmp/'') 11,
    Syscall NR_openat [Dir_fd, Ptr 0x20d12800, Imm 0x484002, Imm 0x1ff], Count,
    Memcpy 0x20f7e840 (with_nul ''./var/tmp/'') 11,
    Syscall NR_openat [Dir_fd, Ptr 0x20f7e840, Imm 0x484002, Imm 0x1ff], Count, Save_res 0,
    Syscall NR_lseek [Reg 0, Imm 0, Imm 0], Count, Memcpy 0x200e4880 (with_nul ''./var/tmp/'') 11,
    Syscall NR_openat [Dir_fd, Ptr 0x200e4880, Imm 0x484002, Imm 0x1ff], Count,
    Memcpy 0x202b8240 (with_nul ''./var/tmp/'') 11,
    Syscall NR_openat [Dir_fd, Ptr 0x202b8240, Imm 0x484002, Imm 0x1ff], Count, Save_res 1,
    Syscall NR_lseek [Reg 1, Imm 0, Imm 0], Count, Memcpy 0x205c28c0 (with_nul ''./var/tmp/'') 11,
    Syscall NR_openat [Dir_fd, Ptr 0x205c28c0, Imm 0x484002, Imm 0x1ff], Count,
    Memcpy 0x2074f600 (with_nul ''./var/tmp/'') 11,
    Syscall NR_openat [Dir_fd, Ptr 0x2074f600, Imm 0x484002, Imm 0x1ff], Count, Save_res 2,
    Syscall NR_lseek [Reg 2, Imm 0, Imm 0], Count, Memcpy 0x20943800 (with_nul ''./var/tmp/'') 11,
    Syscall NR_openat [Dir_fd, Ptr 0x20943800, Imm 0x484002, Imm 0x1ff], Count,
    Memcpy 0x20a87680 (with_nul ''./var/tmp/'') 11,
    Syscall NR_openat [Dir_fd, Ptr 0x20a87680, Imm 0x484002, Imm 0x1ff], Count, Save_res 3]"

definition min_mysql_openat_lseek_26_0_body2 :: "stmt list" where
  "min_mysql_openat_lseek_26_0_body2 = [
    Syscall NR_lseek [Reg 3, Imm 0, Imm 0], Count, Memcpy 0x20ebeb80 (with_nul ''./var/tmp/'') 11,
    Syscall NR_openat [Dir_fd, Ptr 0x20ebeb80, Imm 0x484002, Imm 0x1ff], Count,
    Memcpy 0x2003e740 (with_nul ''./var/tmp/'') 11,
    Syscall NR_openat [Dir_fd, Ptr 0x2003e740, Imm 0x484002, Imm 0x1ff], Count, Save_res 4,
    Syscall NR_lseek [Reg 4, Imm 0, Imm 0], Count, Memcpy 0x20162780 (with_nul ''./var/tmp/'') 11,
    Syscall NR_openat [Dir_fd, Ptr 0x20162780, Imm 0x484002, Imm 0x1ff], Count,
    Memcpy 0x201e7200 (with_nul ''./var/tmp/'') 11,
    Syscall NR_openat [Dir_fd, Ptr 0x201e7200, Imm 0x484002, Imm 0x1ff], Count, Save_res 5,
    Syscall NR_lseek [Reg 5, Imm 0, Imm 0], Count, Memcpy 0x202a7080 (with_nul ''./var/tmp/'') 11,
    Syscall NR_openat [Dir_fd, Ptr 0x202a7080, Imm 0x484002, Imm 0x1ff], Count,
    Memcpy 0x203edf80 (with_nul ''./var/tmp/'') 11,
    Syscall NR_openat [Dir_fd, Ptr 0x203edf80, Imm 0x484002, Imm 0x1ff], Count, Save_res 6,
    Syscall NR_lseek [Reg 6, Imm 0, Imm 0], Count, Memcpy 0x2094e780 (with_nul ''./var/tmp/'') 11,
    Syscall NR_openat [Dir_fd, Ptr 0x2094e780, Imm 0x484002, Imm 0x1ff], Count,
    Memcpy 0x209f7880 (with_nul ''./var/tmp/'') 11,
    Syscall NR_openat [Dir_fd, Ptr 0x209f7880, Imm 0x484002, Imm 0x1ff], Count, Save_res 7]"

definition min_mysql_openat_lseek_26_0_body3 :: "stmt list" where
  "min_mysql_openat_lseek_26_0_body3 = [
    Syscall NR_lseek [Reg 7, Imm 0, Imm 0], Count, Memcpy 0x20af5ac0 (with_nul ''./var/tmp/'') 11,
    Syscall NR_openat [Dir_fd, Ptr 0x20af5ac0, Imm 0x484002, Imm 0x1ff], Count,
    Memcpy 0x20c67600 (with_nul ''./var/tmp/'') 11,
    Syscall NR_openat [Dir_fd, Ptr 0x20c67600, Imm 0x484002, Imm 0x1ff], Count, Save_res 8,
    Syscall NR_lseek [Reg 8, Imm 0, Imm 0], Count, Memcpy 0x201a3a80 (with_nul ''./var/tmp/'') 11,
    Syscall NR_openat [Dir_fd, Ptr 0x201a3a80, Imm 0x484002, Imm 0x1ff], Count,
    Memcpy 0x2027b8c0 (with_nul ''./var/tmp/'') 11,
    Syscall NR_openat [Dir_fd, Ptr 0x2027b8c0, Imm 0x484002, Imm 0x1ff], Count, Save_res 9,
    Syscall NR_lseek [Reg 9, Imm 0, Imm 0], Count, Memcpy 0x202fe640 (with_nul ''./var/tmp/'') 11,
    Syscall NR_openat [Dir_fd, Ptr 0x202fe640, Imm 0x484002, Imm 0x1ff], Count,
    Memcpy 0x203c5a80 (with_nul ''./var/tmp/'') 11,
    Syscall NR_openat [Dir_fd, Ptr 0x203c5a80, Imm 0x484002, Imm 0x1ff], Count, Save_res 10,
    Syscall NR_lseek [Reg 10, Imm 0, Imm 0], Count, Memcpy 0x2092f840 (with_nul ''./var/tmp/'') 11,
    Syscall NR_openat [Dir_fd, Ptr 0x2092f840, Imm 0x484002, Imm 0x1ff], Count,
    Memcpy 0x20a12240 (with_nul ''./var/tmp/'') 11,
    Syscall NR_openat [Dir_fd, Ptr 0x20a12240, Imm 0x484002, Imm 0x1ff], Count, Save_res 11]"

definition min_mysql_openat_lseek_26_0_body4 :: "stmt list" where
  "min_mysql_openat_lseek_26_0_body4 = [
    Syscall NR_lseek [Reg 11, Imm 0, Imm 0], Count, Memcpy 0x20a7cf80 (with_nul ''./var/tmp/'') 11,
    Syscall NR_openat [Dir_fd, Ptr 0x20a7cf80, Imm 0x484002, Imm 0x1ff], Count,
    Memcpy 0x20b35740 (with_nul ''./var/tmp/'') 11,
    Syscall NR_openat [Dir_fd, Ptr 0x20b35740, Imm 0x484002, Imm 0x1ff], Count, Save_res 12,
    Syscall NR_lseek [Reg 12, Imm 0, Imm 0], Count, Memcpy 0x20ff2000 (with_nul ''./var/tmp/'') 11,
    Syscall NR_openat [Dir_fd, Ptr 0x20ff2000, Imm 0x484002, Imm 0x1ff], Count,
    Memcpy 0x20065840 (with_nul ''./var/tmp/'') 11,
    Syscall NR_openat [Dir_fd, Ptr 0x20065840, Imm 0x484002, Imm 0x1ff], Count, Save_res 13,
    Syscall NR_lseek [Reg 13, Imm 0, Imm 0], Count, Memcpy 0x200bfd40 (with_nul ''./var/tmp/'') 11,
    Syscall NR_openat [Dir_fd, Ptr 0x200bfd40, Imm 0x484002, Imm 0x1ff], Count,
    Memcpy 0x200f3700 (with_nul ''./var/tmp/'') 11,
    Syscall NR_openat [Dir_fd, Ptr 0x200f3700, Imm 0x484002, Imm 0x1ff], Count, Save_res 14,
    Syscall NR_lseek [Reg 14, Imm 0, Imm 0], Count, Memcpy 0x2076f240 (with_nul ''./var/tmp/'') 11,
    Syscall NR_openat [Dir_fd, Ptr 0x2076f240, Imm 0x484002, Imm 0x1ff], Count,
    Memcpy 0x20802180 (with_nul ''./var/tmp/'') 11,
    Syscall NR_openat [Dir_fd, Ptr 0x20802180, Imm 0x484002, Imm 0x1ff], Count, Save_res 15]"

definition min_mysql_openat_lseek_26_0_body5 :: "stmt list" where
  "min_mysql_openat_lseek_26_0_body5 = [
    Syscall NR_lseek [Reg 15, Imm 0, Imm 0], Count, Memcpy 0x2086f7c0 (with_nul ''./var/tmp/'') 11,
    Syscall NR_openat [Dir_fd, Ptr 0x2086f7c0, Imm 0x484002, Imm 0x1ff], Count,
    Memcpy 0x208b2a80 (with_nul ''./var/tmp/'') 11,
    Syscall NR_openat [Dir_fd, Ptr 0x208b2a80, Imm 0x484002, Imm 0x1ff], Count, Save_res 16,
    Syscall NR_lseek [Reg 16, Imm 0, Imm 0], Count, Memcpy 0x20045380 (with_nul ''./var/tmp/'') 11,
    Syscall NR_openat [Dir_fd, Ptr 0x20045380, Imm 0x484002, Imm 0x1ff], Count,
    Memcpy 0x20091b00 (with_nul ''./var/tmp/'') 11,
    Syscall NR_openat [Dir_fd, Ptr 0x20091b00, Imm 0x484002, Imm 0x1ff], Count, Save_res 17,
    Syscall NR_lseek [Reg 17, Imm 0, Imm 0], Count, Memcpy 0x200d0ec0 (with_nul ''./var/tmp/'') 11,
    Syscall NR_openat [Dir_fd, Ptr 0x200d0ec0, Imm 0x484002, Imm 0x1ff], Count,
    Memcpy 0x2011c640 (with_nul ''./var/tmp/'') 11,
    Syscall NR_openat [Dir_fd, Ptr 0x2011c640, Imm 0x484002, Imm 0x1ff], Count, Save_res 18,
    Syscall NR_lseek [Reg 18, Imm 0, Imm 0], Count, Memcpy 0x2066cec0 (with_nul ''./var/tmp/'') 11,
    Syscall NR_openat [Dir_fd, Ptr 0x2066cec0, Imm 0x484002, Imm 0x1ff], Count,
    Memcpy 0x20702b00 (with_nul ''./var/tmp/'') 11,
    Syscall NR_openat [Dir_fd, Ptr 0x20702b00, Imm 0x484002, Imm 0x1ff], Count, Save_res 19]"

definition min_mysql_openat_lseek_26_0_body6 :: "stmt list" where
  "min_mysql_openat_lseek_26_0_body6 = [
    Syscall NR_lseek [Reg 19, Imm 0, Imm 0], Count, Memcpy 0x207544c0 (with_nul ''./var/tmp/'') 11,
    Syscall NR_openat [Dir_fd, Ptr 0x207544c0, Imm 0x484002, Imm 0x1ff], Count,
    Memcpy 0x2078d400 (with_nul ''./var/tmp/'') 11,
    Syscall NR_openat [Dir_fd, Ptr 0x2078d400, Imm 0x484002, Imm 0x1ff], Count, Save_res 20,
    Syscall NR_lseek [Reg 20, Imm 0, Imm 0], Count, Memcpy 0x20a5b100 (with_nul ''./var/tmp/'') 11,
    Syscall NR_openat [Dir_fd, Ptr 0x20a5b100, Imm 0x484002, Imm 0x1ff], Count,
    Memcpy 0x20b8a280 (with_nul ''./var/tmp/'') 11,
    Syscall NR_openat [Dir_fd, Ptr 0x20b8a280, Imm 0x484002, Imm 0x1ff], Count, Save_res 21,
    Syscall NR_lseek [Reg 21, Imm 0, Imm 0], Count, Memcpy 0x200472c0 (with_nul ''./var/tmp/'') 11,
    Syscall NR_openat [Dir_fd, Ptr 0x200472c0, Imm 0x484002, Imm 0x1ff], Count,
    Memcpy 0x200bc380 (with_nul ''./var/tmp/'') 11,
    Syscall NR_openat [Dir_fd, Ptr 0x200bc380, Imm 0x484002, Imm 0x1ff], Count, Save_res 22,
    Syscall NR_lseek [Reg 22, Imm 0, Imm 0], Count, Memcpy 0x20153500 (with_nul ''./var/tmp/'') 11,
    Syscall NR_openat [Dir_fd, Ptr 0x20153500, Imm 0x484002, Imm 0x1ff], Count,
    Memcpy 0x201928c0 (with_nul ''./var/tmp/'') 11,
    Syscall NR_openat [Dir_fd, Ptr 0x201928c0, Imm 0x484002, Imm 0x1ff], Count, Save_res 23]"

definition min_mysql_openat_lseek_26_0_body7 :: "stmt list" where
  "min_mysql_openat_lseek_26_0_body7 = [
    Syscall NR_lseek [Reg 23, Imm 0, Imm 0], Count, Memcpy 0x207b4bc0 (with_nul ''./var/tmp/'') 11,
    Syscall NR_openat [Dir_fd, Ptr 0x207b4bc0, Imm 0x484002, Imm 0x1ff], Count,
    Memcpy 0x20819c80 (with_nul ''./var/tmp/'') 11,
    Syscall NR_openat [Dir_fd, Ptr 0x20819c80, Imm 0x484002, Imm 0x1ff], Count, Save_res 24,
    Syscall NR_lseek [Reg 24, Imm 0, Imm 0], Count, Memcpy 0x20e36c00 (with_nul ''./var/tmp/'') 11,
    Syscall NR_openat [Dir_fd, Ptr 0x20e36c00, Imm 0x484002, Imm 0x1ff], Count,
    Memcpy 0x20f0c640 (with_nul ''./var/tmp/'') 11,
    Syscall NR_openat [Dir_fd, Ptr 0x20f0c640, Imm 0x484002, Imm 0x1ff], Count, Save_res 25,
    Syscall NR_lseek [Reg 25, Imm 0, Imm 0], Count, Memcpy 0x20f7f100 (with_nul ''./var/tmp/'') 11,
    Syscall NR_openat [Dir_fd, Ptr 0x20f7f100, Imm 0x484002, Imm 0x1ff], Count,
    Memcpy 0x20044280 (with_nul ''./var/tmp/'') 11,
    Syscall NR_openat [Dir_fd, Ptr 0x20044280, Imm 0x484002, Imm 0x1ff], Count, Save_res 26,
    Syscall NR_lseek [Reg 26, Imm 0, Imm 0], Count, Memcpy 0x20478280 (with_nul ''./var/tmp/'') 11,
    Syscall NR_openat [Dir_fd, Ptr 0x20478280, Imm 0x484002, Imm 0x1ff], Count,
    Memcpy 0x205811c0 (with_nul ''./var/tmp/'') 11,
    Syscall NR_openat [Dir_fd, Ptr 0x205811c0, Imm 0x484002, Imm 0x1ff], Count, Save_res 27]"

definition min_mysql_openat_lseek_26_0_body8 :: "stmt list" where
  "min_mysql_openat_lseek_26_0_body8 = [
    Syscall NR_lseek [Reg 27, Imm 0, Imm 0], Count, Memcpy 0x2066f8c0 (with_nul ''./var/tmp/'') 11,
    Syscall NR_openat [Dir_fd, Ptr 0x2066f8c0, Imm 0x484002, Imm 0x1ff], Count,
    Memcpy 0x20759440 (with_nul ''./var/tmp/'') 11,
    Syscall NR_openat [Dir_fd, Ptr 0x20759440, Imm 0x484002, Imm 0x1ff], Count, Save_res 28,
    Syscall NR_lseek [Reg 28, Imm 0, Imm 0], Count, Memcpy 0x20b018c0 (with_nul ''./var/tmp/'') 11,
    Syscall NR_openat [Dir_fd, Ptr 0x20b018c0, Imm 0x484002, Imm 0x1ff], Count,
    Memcpy 0x20c80040 (with_nul ''./var/tmp/'') 11,
    Syscall NR_openat [Dir_fd, Ptr 0x20c80040, Imm 0x484002, Imm 0x1ff], Count, Save_res 29,
    Syscall NR_lseek [Reg 29, Imm 0, Imm 0], Count, Memcpy 0x20db4cc0 (with_nul ''./var/tmp/'') 11,
    Syscall NR_openat [Dir_fd, Ptr 0x20db4cc0, Imm 0x484002, Imm 0x1ff], Count,
    Memcpy 0x20eaf480 (with_nul ''./var/tmp/'') 11,
    Syscall NR_openat [Dir_fd, Ptr 0x20eaf480, Imm 0x484002, Imm 0x1ff], Count, Save_res 30,
    Syscall NR_lseek [Reg 30, Imm 0, Imm 0], Count, Memcpy 0x202c3980 (with_nul ''./var/tmp/'') 11,
    Syscall NR_openat [Dir_fd, Ptr 0x202c3980, Imm 0x484002, Imm 0x1ff], Count,
    Memcpy 0x20412700 (with_nul ''./var/tmp/'') 11,
    Syscall NR_openat [Dir_fd, Ptr 0x20412700, Imm 0x484002, Imm 0x1ff], Count, Save_res 31]"

definition min_mysql_openat_lseek_26_0_body9 :: "stmt list" where
  "min_mysql_openat_lseek_26_0_body9 = [
    Syscall NR_lseek [Reg 31, Imm 0, Imm 0], Count, Memcpy 0x2054fc00 (with_nul ''./var/tmp/'') 11,
    Syscall NR_openat [Dir_fd, Ptr 0x2054fc00, Imm 0x484002, Imm 0x1ff], Count,
    Memcpy 0x20607ec0 (with_nul ''./var/tmp/'') 11,
    Syscall NR_openat [Dir_fd, Ptr 0x20607ec0, Imm 0x484002, Imm 0x1ff], Count, Save_res 32,
    Syscall NR_lseek [Reg 32, Imm 0, Imm 0], Count, Memcpy 0x209cf0c0 (with_nul ''./var/tmp/'') 11,
    Syscall NR_openat [Dir_fd, Ptr 0x209cf0c0, Imm 0x484002, Imm 0x1ff], Count,
    Memcpy 0x20ad2580 (with_nul ''./var/tmp/'') 11,
    Syscall NR_openat [Dir_fd, Ptr 0x20ad2580, Imm 0x484002, Imm 0x1ff], Count, Save_res 33,
    Syscall NR_lseek [Reg 33, Imm 0, Imm 0], Count, Memcpy 0x20bffcc0 (with_nul ''./var/tmp/'') 11,
    Syscall NR_openat [Dir_fd, Ptr 0x20bffcc0, Imm 0x484002, Imm 0x1ff], Count,
    Memcpy 0x20cc4000 (with_nul ''./var/tmp/'') 11,
    Syscall NR_openat [Dir_fd, Ptr 0x20cc4000, Imm 0x484002, Imm 0x1ff], Count, Save_res 34,
    Syscall NR_lseek [Reg 34, Imm 0, Imm 0], Count, Memcpy 0x20137900 (with_nul ''./var/tmp/'') 11,
    Syscall NR_openat [Dir_fd, Ptr 0x20137900, Imm 0x484002, Imm 0x1ff], Count,
    Memcpy 0x2023ba40 (with_nul ''./var/tmp/'') 11,
    Syscall NR_openat [Dir_fd, Ptr 0x2023ba40, Imm 0x484002, Imm 0x1ff], Count, Save_res 35]"

definition min_mysql_openat_lseek_26_0_body10 :: "stmt list" where
  "min_mysql_openat_lseek_26_0_body10 = [
    Syscall NR_lseek [Reg 35, Imm 0, Imm 0], Count, Memcpy 0x20c54240 (with_nul ''./var/tmp/'') 11,
    Syscall NR_openat [Dir_fd, Ptr 0x20c54240, Imm 0x484002, Imm 0x1ff], Count,
    Memcpy 0x20d3db40 (with_nul ''./var/tmp/'') 11,
    Syscall NR_openat [Dir_fd, Ptr 0x20d3db40, Imm 0x484002, Imm 0x1ff], Count, Save_res 36,
    Syscall NR_lseek [Reg 36, Imm 0, Imm 0], Count, Memcpy 0x20e5c800 (with_nul ''./var/tmp/'') 11,
    Syscall NR_openat [Dir_fd, Ptr 0x20e5c800, Imm 0x484002, Imm 0x1ff], Count,
    Memcpy 0x20f2d540 (with_nul ''./var/tmp/'') 11,
    Syscall NR_openat [Dir_fd, Ptr 0x20f2d540, Imm 0x484002, Imm 0x1ff], Count, Save_res 37,
    Syscall NR_lseek [Reg 37, Imm 0, Imm 0], Count, Memcpy 0x20350c00 (with_nul ''./var/tmp/'') 11,
    Syscall NR_openat [Dir_fd, Ptr 0x20350c00, Imm 0x484002, Imm 0x1ff], Count,
    Memcpy 0x20475080 (with_nul ''./var/tmp/'') 11,
    Syscall NR_openat [Dir_fd, Ptr 0x20475080, Imm 0x484002, Imm 0x1ff], Count, Save_res 38,
    Syscall NR_lseek [Reg 38, Imm 0, Imm 0], Count, Memcpy 0x20577f40 (with_nul ''./var/tmp/'') 11,
    Syscall NR_openat [Dir_fd, Ptr 0x20577f40, Imm 0x484002, Imm 0x1ff], Count,
    Memcpy 0x20643a00 (with_nul ''./var/tmp/'') 11,
    Syscall NR_openat [Dir_fd, Ptr 0x20643a00, Imm 0x484002, Imm 0x1ff], Count, Save_res 39]"

definition min_mysql_openat_lseek_26_0_body11 :: "stmt list" where
  "min_mysql_openat_lseek_26_0_body11 = [
    Syscall NR_lseek [Reg 39, Imm 0, Imm 0], Count, Memcpy 0x20b2da80 (with_nul ''./var/tmp/'') 11,
    Syscall NR_openat [Dir_fd, Ptr 0x20b2da80, Imm 0x484002, Imm 0x1ff], Count,
    Memcpy 0x20beb5c0 (with_nul ''./var/tmp/'') 11,
    Syscall NR_openat [Dir_fd, Ptr 0x20beb5c0, Imm 0x484002, Imm 0x1ff], Count, Save_res 40,
    Syscall NR_lseek [Reg 40, Imm 0, Imm 0], Count, Memcpy 0x20cbdf40 (with_nul ''./var/tmp/'') 11,
    Syscall NR_openat [Dir_fd, Ptr 0x20cbdf40, Imm 0x484002, Imm 0x1ff], Count,
    Memcpy 0x20d63f00 (with_nul ''./var/tmp/'') 11,
    Syscall NR_openat [Dir_fd, Ptr 0x20d63f00, Imm 0x484002, Imm 0x1ff], Count, Save_res 41,
    Syscall NR_lseek [Reg 41, Imm 0, Imm 0], Count, Memcpy 0x20272c40 (with_nul ''./var/tmp/'') 11,
    Syscall NR_openat [Dir_fd, Ptr 0x20272c40, Imm 0x484002, Imm 0x1ff], Count,
    Memcpy 0x2033d640 (with_nul ''./var/tmp/'') 11,
    Syscall NR_openat [Dir_fd, Ptr 0x2033d640, Imm 0x484002, Imm 0x1ff], Count, Save_res 42,
    Syscall NR_lseek [Reg 42, Imm 0, Imm 0], Count, Memcpy 0x2040e240 (with_nul ''./var/tmp/'') 11,
    Syscall NR_openat [Dir_fd, Ptr 0x2040e240, Imm 0x484002, Imm 0x1ff], Count,
    Memcpy 0x20487480 (with_nul ''./var/tmp/'') 11,
    Syscall NR_openat [Dir_fd, Ptr 0x20487480, Imm 0x484002, Imm 0x1ff], Count, Save_res 43]"

definition min_mysql_openat_lseek_26_0_body12 :: "stmt list" where
  "min_mysql_openat_lseek_26_0_body12 = [
    Syscall NR_lseek [Reg 43, Imm 0, Imm 0], Count, Memcpy 0x20b4ef80 (with_nul ''./var/tmp/'') 11,
    Syscall NR_openat [Dir_fd, Ptr 0x20b4ef80, Imm 0x484002, Imm 0x1ff], Count,
    Memcpy 0x20ba3b40 (with_nul ''./var/tmp/'') 11,
    Syscall NR_openat [Dir_fd, Ptr 0x20ba3b40, Imm 0x484002, Imm 0x1ff], Count, Save_res 44,
    Syscall NR_lseek [Reg 44, Imm 0, Imm 0], Count, Memcpy 0x20bedac0 (with_nul ''./var/tmp/'') 11,
    Syscall NR_openat [Dir_fd, Ptr 0x20bedac0, Imm 0x484002, Imm 0x1ff], Count,
    Memcpy 0x20c6cbc0 (with_nul ''./var/tmp/'') 11,
    Syscall NR_openat [Dir_fd, Ptr 0x20c6cbc0, Imm 0x484002, Imm 0x1ff], Count, Save_res 45,
    Syscall NR_lseek [Reg 45, Imm 0, Imm 0], Count, Memcpy 0x20056f00 (with_nul ''./var/tmp/'') 11,
    Syscall NR_openat [Dir_fd, Ptr 0x20056f00, Imm 0x484002, Imm 0x1ff], Count,
    Memcpy 0x20170c00 (with_nul ''./var/tmp/'') 11,
    Syscall NR_openat [Dir_fd, Ptr 0x20170c00, Imm 0x484002, Imm 0x1ff], Count, Save_res 46,
    Syscall NR_lseek [Reg 46, Imm 0, Imm 0], Count, Memcpy 0x202572c0 (with_nul ''./var/tmp/'') 11,
    Syscall NR_openat [Dir_fd, Ptr 0x202572c0, Imm 0x484002, Imm 0x1ff], Count,
    Memcpy 0x20339180 (with_nul ''./var/tmp/'') 11,
    Syscall NR_openat [Dir_fd, Ptr 0x20339180, Imm 0x484002, Imm 0x1ff], Count, Save_res 47]"

definition min_mysql_openat_lseek_26_0_body13 :: "stmt list" where
  "min_mysql_openat_lseek_26_0_body13 = [
    Syscall NR_lseek [Reg 47, Imm 0, Imm 0], Count, Memcpy 0x2085b140 (with_nul ''./var/tmp/'') 11,
    Syscall NR_openat [Dir_fd, Ptr 0x2085b140, Imm 0x484002, Imm 0x1ff], Count,
    Memcpy 0x209aef80 (with_nul ''./var/tmp/'') 11,
    Syscall NR_openat [Dir_fd, Ptr 0x209aef80, Imm 0x484002, Imm 0x1ff], Count, Save_res 48,
    Syscall NR_lseek [Reg 48, Imm 0, Imm 0], Count, Memcpy 0x20ba20c0 (with_nul ''./var/tmp/'') 11,
    Syscall NR_openat [Dir_fd, Ptr 0x20ba20c0, Imm 0x484002, Imm 0x1ff], Count,
    Memcpy 0x20ccc480 (with_nul ''./var/tmp/'') 11,
    Syscall NR_openat [Dir_fd, Ptr 0x20ccc480, Imm 0x484002, Imm 0x1ff], Count, Save_res 49,
    Syscall NR_lseek [Reg 49, Imm 0, Imm 0], Count, Memcpy 0x2057e480 (with_nul ''./var/tmp/'') 11,
    Syscall NR_openat [Dir_fd, Ptr 0x2057e480, Imm 0x484002, Imm 0x1ff], Count,
    Memcpy 0x205ef940 (with_nul ''./var/tmp/'') 11,
    Syscall NR_openat [Dir_fd, Ptr 0x205ef940, Imm 0x484002, Imm 0x1ff], Count, Save_res 50,
    Syscall NR_lseek [Reg 50, Imm 0, Imm 0], Count, Memcpy 0x206b0e80 (with_nul ''./var/tmp/'') 11,
    Syscall NR_openat [Dir_fd, Ptr 0x206b0e80, Imm 0x484002, Imm 0x1ff], Count,
    Memcpy 0x20782bc0 (with_nul ''./var/tmp/'') 11,
    Syscall NR_openat [Dir_fd, Ptr 0x20782bc0, Imm 0x484002, Imm 0x1ff], Count, Save_res 51]"

definition min_mysql_openat_lseek_26_0_body14 :: "stmt list" where
  "min_mysql_openat_lseek_26_0_body14 = [
    Syscall NR_lseek [Reg 51, Imm 0, Imm 0], Count, Memcpy 0x20c96cc0 (with_nul ''./var/tmp/'') 11,
    Syscall NR_openat [Dir_fd, Ptr 0x20c96cc0, Imm 0x484002, Imm 0x1ff], Count,
    Memcpy 0x20d9d080 (with_nul ''./var/tmp/'') 11,
    Syscall NR_openat [Dir_fd, Ptr 0x20d9d080, Imm 0x484002, Imm 0x1ff], Count, Save_res 52,
    Syscall NR_lseek [Reg 52, Imm 0, Imm 0], Count, Memcpy 0x20ef6fc0 (with_nul ''./var/tmp/'') 11,
    Syscall NR_openat [Dir_fd, Ptr 0x20ef6fc0, Imm 0x484002, Imm 0x1ff], Count,
    Memcpy 0x20fd9c00 (with_nul ''./var/tmp/'') 11,
    Syscall NR_openat [Dir_fd, Ptr 0x20fd9c00, Imm 0x484002, Imm 0x1ff], Count, Save_res 53,
    Syscall NR_lseek [Reg 53, Imm 0, Imm 0], Count, Memcpy 0x20497080 (with_nul ''./var/tmp/'') 11,
    Syscall NR_openat [Dir_fd, Ptr 0x20497080, Imm 0x484002, Imm 0x1ff], Count,
    Memcpy 0x205851c0 (with_nul ''./var/tmp/'') 11,
    Syscall NR_openat [Dir_fd, Ptr 0x205851c0, Imm 0x484002, Imm 0x1ff], Count, Save_res 54,
    Syscall NR_lseek [Reg 54, Imm 0, Imm 0], Count, Memcpy 0x2067f200 (with_nul ''./var/tmp/'') 11,
    Syscall NR_openat [Dir_fd, Ptr 0x2067f200, Imm 0x484002, Imm 0x1ff], Count,
    Memcpy 0x206d7980 (with_nul ''./var/tmp/'') 11,
    Syscall NR_openat [Dir_fd, Ptr 0x206d7980, Imm 0x484002, Imm 0x1ff], Count, Save_res 55]"

definition min_mysql_openat_lseek_26_0_body15 :: "stmt list" where
  "min_mysql_openat_lseek_26_0_body15 = [
    Syscall NR_lseek [Reg 55, Imm 0, Imm 0], Count, Memcpy 0x20b3d8c0 (with_nul ''./var/tmp/'') 11,
    Syscall NR_openat [Dir_fd, Ptr 0x20b3d8c0, Imm 0x484002, Imm 0x1ff], Count,
    Memcpy 0x20c32200 (with_nul ''./var/tmp/'') 11,
    Syscall NR_openat [Dir_fd, Ptr 0x20c32200, Imm 0x484002, Imm 0x1ff], Count, Save_res 56,
    Syscall NR_lseek [Reg 56, Imm 0, Imm 0], Count, Memcpy 0x20d406c0 (with_nul ''./var/tmp/'') 11,
    Syscall NR_openat [Dir_fd, Ptr 0x20d406c0, Imm 0x484002, Imm 0x1ff], Count,
    Memcpy 0x20dbff80 (with_nul ''./var/tmp/'') 11,
    Syscall NR_openat [Dir_fd, Ptr 0x20dbff80, Imm 0x484002, Imm 0x1ff], Count, Save_res 57,
    Syscall NR_lseek [Reg 57, Imm 0, Imm 0], Count, Memcpy 0x202f0300 (with_nul ''./var/tmp/'') 11,
    Syscall NR_openat [Dir_fd, Ptr 0x202f0300, Imm 0x484002, Imm 0x1ff], Count,
    Memcpy 0x203aa9c0 (with_nul ''./var/tmp/'') 11,
    Syscall NR_openat [Dir_fd, Ptr 0x203aa9c0, Imm 0x484002, Imm 0x1ff], Count, Save_res 58,
    Syscall NR_lseek [Reg 58, Imm 0, Imm 0], Count, Memcpy 0x204dde00 (with_nul ''./var/tmp/'') 11,
    Syscall NR_openat [Dir_fd, Ptr 0x204dde00, Imm 0x484002, Imm 0x1ff], Count,
    Memcpy 0x20587340 (with_nul ''./var/tmp/'') 11,
    Syscall NR_openat [Dir_fd, Ptr 0x20587340, Imm 0x484002, Imm 0x1ff], Count, Save_res 59]"

definition min_mysql_openat_lseek_26_0_body16 :: "stmt list" where
  "min_mysql_openat_lseek_26_0_body16 = [
    Syscall NR_lseek [Reg 59, Imm 0, Imm 0], Count, Memcpy 0x20a1a6c0 (with_nul ''./var/tmp/'') 11,
    Syscall NR_openat [Dir_fd, Ptr 0x20a1a6c0, Imm 0x484002, Imm 0x1ff], Count,
    Memcpy 0x20b114c0 (with_nul ''./var/tmp/'') 11,
    Syscall NR_openat [Dir_fd, Ptr 0x20b114c0, Imm 0x484002, Imm 0x1ff], Count, Save_res 60,
    Syscall NR_lseek [Reg 60, Imm 0, Imm 0], Count, Memcpy 0x20bf1440 (with_nul ''./var/tmp/'') 11,
    Syscall NR_openat [Dir_fd, Ptr 0x20bf1440, Imm 0x484002, Imm 0x1ff], Count,
    Memcpy 0x20cd04c0 (with_nul ''./var/tmp/'') 11,
    Syscall NR_openat [Dir_fd, Ptr 0x20cd04c0, Imm 0x484002, Imm 0x1ff], Count, Save_res 61,
    Syscall NR_lseek [Reg 61, Imm 0, Imm 0], Count, Memcpy 0x203d1cc0 (with_nul ''./var/tmp/'') 11,
    Syscall NR_openat [Dir_fd, Ptr 0x203d1cc0, Imm 0x484002, Imm 0x1ff], Count,
    Memcpy 0x20549a80 (with_nul ''./var/tmp/'') 11,
    Syscall NR_openat [Dir_fd, Ptr 0x20549a80, Imm 0x484002, Imm 0x1ff], Count, Save_res 62,
    Syscall NR_lseek [Reg 62, Imm 0, Imm 0], Count, Memcpy 0x206a4400 (with_nul ''./var/tmp/'') 11,
    Syscall NR_openat [Dir_fd, Ptr 0x206a4400, Imm 0x484002, Imm 0x1ff], Count,
    Memcpy 0x207df280 (with_nul ''./var/tmp/'') 11,
    Syscall NR_openat [Dir_fd, Ptr 0x207df280, Imm 0x484002, Imm 0x1ff], Count, Save_res 63]"

definition min_mysql_openat_lseek_26_0_body17 :: "stmt list" where
  "min_mysql_openat_lseek_26_0_body17 = [
    Syscall NR_lseek [Reg 63, Imm 0, Imm 0], Count, Memcpy 0x20b0da40 (with_nul ''./var/tmp/'') 11,
    Syscall NR_openat [Dir_fd, Ptr 0x20b0da40, Imm 0x484002, Imm 0x1ff], Count,
    Memcpy 0x20bfb540 (with_nul ''./var/tmp/'') 11,
    Syscall NR_openat [Dir_fd, Ptr 0x20bfb540, Imm 0x484002, Imm 0x1ff], Count, Save_res 64,
    Syscall NR_lseek [Reg 64, Imm 0, Imm 0], Count, Memcpy 0x20d98680 (with_nul ''./var/tmp/'') 11,
    Syscall NR_openat [Dir_fd, Ptr 0x20d98680, Imm 0x484002, Imm 0x1ff], Count,
    Memcpy 0x20e95040 (with_nul ''./var/tmp/'') 11,
    Syscall NR_openat [Dir_fd, Ptr 0x20e95040, Imm 0x484002, Imm 0x1ff], Count, Save_res 65,
    Syscall NR_lseek [Reg 65, Imm 0, Imm 0], Count, Memcpy 0x203d7180 (with_nul ''./var/tmp/'') 11,
    Syscall NR_openat [Dir_fd, Ptr 0x203d7180, Imm 0x484002, Imm 0x1ff], Count,
    Memcpy 0x204cd680 (with_nul ''./var/tmp/'') 11,
    Syscall NR_openat [Dir_fd, Ptr 0x204cd680, Imm 0x484002, Imm 0x1ff], Count, Save_res 66,
    Syscall NR_lseek [Reg 66, Imm 0, Imm 0], Count, Memcpy 0x20610940 (with_nul ''./var/tmp/'') 11,
    Syscall NR_openat [Dir_fd, Ptr 0x20610940, Imm 0x484002, Imm 0x1ff], Count,
    Memcpy 0x2072e000 (with_nul ''./var/tmp/'') 11,
    Syscall NR_openat [Dir_fd, Ptr 0x2072e000, Imm 0x484002, Imm 0x1ff], Count, Save_res 67]"

definition min_mysql_openat_lseek_26_0_body18 :: "stmt list" where
  "min_mysql_openat_lseek_26_0_body18 = [
    Syscall NR_lseek [Reg 67, Imm 0, Imm 0], Count, Memcpy 0x20b77300 (with_nul ''./var/tmp/'') 11,
    Syscall NR_openat [Dir_fd, Ptr 0x20b77300, Imm 0x484002, Imm 0x1ff], Count,
    Memcpy 0x20c7e300 (with_nul ''./var/tmp/'') 11,
    Syscall NR_openat [Dir_fd, Ptr 0x20c7e300, Imm 0x484002, Imm 0x1ff], Count, Save_res 68,
    Syscall NR_lseek [Reg 68, Imm 0, Imm 0], Count, Memcpy 0x20dac200 (with_nul ''./var/tmp/'') 11,
    Syscall NR_openat [Dir_fd, Ptr 0x20dac200, Imm 0x484002, Imm 0x1ff], Count,
    Memcpy 0x20ead8c0 (with_nul ''./var/tmp/'') 11,
    Syscall NR_openat [Dir_fd, Ptr 0x20ead8c0, Imm 0x484002, Imm 0x1ff], Count, Save_res 69,
    Syscall NR_lseek [Reg 69, Imm 0, Imm 0], Count, Memcpy 0x2044f880 (with_nul ''./var/tmp/'') 11,
    Syscall NR_openat [Dir_fd, Ptr 0x2044f880, Imm 0x484002, Imm 0x1ff], Count,
    Memcpy 0x20576f00 (with_nul ''./var/tmp/'') 11,
    Syscall NR_openat [Dir_fd, Ptr 0x20576f00, Imm 0x484002, Imm 0x1ff], Count, Save_res 70,
    Syscall NR_lseek [Reg 70, Imm 0, Imm 0], Count, Memcpy 0x206f8280 (with_nul ''./var/tmp/'') 11,
    Syscall NR_openat [Dir_fd, Ptr 0x206f8280, Imm 0x484002, Imm 0x1ff], Count,
    Memcpy 0x2080e100 (with_nul ''./var/tmp/'') 11,
    Syscall NR_openat [Dir_fd, Ptr 0x2080e100, Imm 0x484002, Imm 0x1ff], Count, Save_res 71]"

definition min_mysql_openat_lseek_26_0_body19 :: "stmt list" where
  "min_mysql_openat_lseek_26_0_body19 = [
    Syscall NR_lseek [Reg 71, Imm 0, Imm 0], Count, Memcpy 0x20db9880 (with_nul ''./var/tmp/'') 11,
    Syscall NR_openat [Dir_fd, Ptr 0x20db9880, Imm 0x484002, Imm 0x1ff], Count,
    Memcpy 0x20ec36c0 (with_nul ''./var/tmp/'') 11,
    Syscall NR_openat [Dir_fd, Ptr 0x20ec36c0, Imm 0x484002, Imm 0x1ff], Count, Save_res 72,
    Syscall NR_lseek [Reg 72, Imm 0, Imm 0], Count, Memcpy 0x203d6ec0 (with_nul ''./var/tmp/'') 11,
    Syscall NR_openat [Dir_fd, Ptr 0x203d6ec0, Imm 0x484002, Imm 0x1ff], Count,
    Memcpy 0x20471880 (with_nul ''./var/tmp/'') 11,
    Syscall NR_openat [Dir_fd, Ptr 0x20471880, Imm 0x484002, Imm 0x1ff], Count, Save_res 73,
    Syscall NR_lseek [Reg 73, Imm 0, Imm 0], Count, Memcpy 0x20ae51c0 (with_nul ''./var/tmp/'') 11,
    Syscall NR_openat [Dir_fd, Ptr 0x20ae51c0, Imm 0x484002, Imm 0x1ff], Count,
    Memcpy 0x20b72e80 (with_nul ''./var/tmp/'') 11,
    Syscall NR_openat [Dir_fd, Ptr 0x20b72e80, Imm 0x484002, Imm 0x1ff], Count, Save_res 74,
    Syscall NR_lseek [Reg 74, Imm 0, Imm 0], Count, Memcpy 0x20bd00c0 (with_nul ''./var/tmp/'') 11,
    Syscall NR_openat [Dir_fd, Ptr 0x20bd00c0, Imm 0x484002, Imm 0x1ff], Count,
    Memcpy 0x20c28900 (with_nul ''./var/tmp/'') 11,
    Syscall NR_openat [Dir_fd, Ptr 0x20c28900, Imm 0x484002, Imm 0x1ff], Count, Save_res 75]"

definition min_mysql_openat_lseek_26_0_body20 :: "stmt list" where
  "min_mysql_openat_lseek_26_0_body20 = [
    Syscall NR_lseek [Reg 75, Imm 0, Imm 0], Count, Memcpy 0x20170200 (with_nul ''./var/tmp/'') 11,
    Syscall NR_openat [Dir_fd, Ptr 0x20170200, Imm 0x484002, Imm 0x1ff], Count,
    Memcpy 0x20272600 (with_nul ''./var/tmp/'') 11,
    Syscall NR_openat [Dir_fd, Ptr 0x20272600, Imm 0x484002, Imm 0x1ff], Count, Save_res 76,
    Syscall NR_lseek [Reg 76, Imm 0, Imm 0], Count, Memcpy 0x202ddd80 (with_nul ''./var/tmp/'') 11,
    Syscall NR_openat [Dir_fd, Ptr 0x202ddd80, Imm 0x484002, Imm 0x1ff], Count,
    Memcpy 0x20364580 (with_nul ''./var/tmp/'') 11,
    Syscall NR_openat [Dir_fd, Ptr 0x20364580, Imm 0x484002, Imm 0x1ff], Count, Save_res 77,
    Syscall NR_lseek [Reg 77, Imm 0, Imm 0], Count, Memcpy 0x209b1980 (with_nul ''./var/tmp/'') 11,
    Syscall NR_openat [Dir_fd, Ptr 0x209b1980, Imm 0x484002, Imm 0x1ff], Count,
    Memcpy 0x20a34300 (with_nul ''./var/tmp/'') 11,
    Syscall NR_openat [Dir_fd, Ptr 0x20a34300, Imm 0x484002, Imm 0x1ff], Count, Save_res 78,
    Syscall NR_lseek [Reg 78, Imm 0, Imm 0], Count, Memcpy 0x20af3700 (with_nul ''./var/tmp/'') 11,
    Syscall NR_openat [Dir_fd, Ptr 0x20af3700, Imm 0x484002, Imm 0x1ff], Count,
    Memcpy 0x20b8c440 (with_nul ''./var/tmp/'') 11,
    Syscall NR_openat [Dir_fd, Ptr 0x20b8c440, Imm 0x484002, Imm 0x1ff], Count, Save_res 79]"

definition min_mysql_openat_lseek_26_0_body21 :: "stmt list" where
  "min_mysql_openat_lseek_26_0_body21 = [
    Syscall NR_lseek [Reg 79, Imm 0, Imm 0], Count, Memcpy 0x2011b900 (with_nul ''./var/tmp/'') 11,
    Syscall NR_openat [Dir_fd, Ptr 0x2011b900, Imm 0x484002, Imm 0x1ff], Count,
    Memcpy 0x201d93c0 (with_nul ''./var/tmp/'') 11,
    Syscall NR_openat [Dir_fd, Ptr 0x201d93c0, Imm 0x484002, Imm 0x1ff], Count, Save_res 80,
    Syscall NR_lseek [Reg 80, Imm 0, Imm 0], Count, Memcpy 0x2025d180 (with_nul ''./var/tmp/'') 11,
    Syscall NR_openat [Dir_fd, Ptr 0x2025d180, Imm 0x484002, Imm 0x1ff], Count,
    Memcpy 0x202e6a80 (with_nul ''./var/tmp/'') 11,
    Syscall NR_openat [Dir_fd, Ptr 0x202e6a80, Imm 0x484002, Imm 0x1ff], Count, Save_res 81,
    Syscall NR_lseek [Reg 81, Imm 0, Imm 0], Count, Memcpy 0x2074a680 (with_nul ''./var/tmp/'') 11,
    Syscall NR_openat [Dir_fd, Ptr 0x2074a680, Imm 0x484002, Imm 0x1ff], Count,
    Memcpy 0x208acc40 (with_nul ''./var/tmp/'') 11,
    Syscall NR_openat [Dir_fd, Ptr 0x208acc40, Imm 0x484002, Imm 0x1ff], Count, Save_res 82,
    Syscall NR_lseek [Reg 82, Imm 0, Imm 0], Count, Memcpy 0x20969480 (with_nul ''./var/tmp/'') 11,
    Syscall NR_openat [Dir_fd, Ptr 0x20969480, Imm 0x484002, Imm 0x1ff], Count,
    Memcpy 0x20a4cd40 (with_nul ''./var/tmp/'') 11,
    Syscall NR_openat [Dir_fd, Ptr 0x20a4cd40, Imm 0x484002, Imm 0x1ff], Count, Save_res 83]"

definition min_mysql_openat_lseek_26_0_body22 :: "stmt list" where
  "min_mysql_openat_lseek_26_0_body22 = [
    Syscall NR_lseek [Reg 83, Imm 0, Imm 0], Count, Memcpy 0x20009280 (with_nul ''./var/tmp/'') 11,
    Syscall NR_openat [Dir_fd, Ptr 0x20009280, Imm 0x484002, Imm 0x1ff], Count,
    Memcpy 0x200a6100 (with_nul ''./var/tmp/'') 11,
    Syscall NR_openat [Dir_fd, Ptr 0x200a6100, Imm 0x484002, Imm 0x1ff], Count, Save_res 84,
    Syscall NR_lseek [Reg 84, Imm 0, Imm 0], Count, Memcpy 0x2017c200 (with_nul ''./var/tmp/'') 11,
    Syscall NR_openat [Dir_fd, Ptr 0x2017c200, Imm 0x484002, Imm 0x1ff], Count,
    Memcpy 0x201f9c80 (with_nul ''./var/tmp/'') 11,
    Syscall NR_openat [Dir_fd, Ptr 0x201f9c80, Imm 0x484002, Imm 0x1ff], Count, Save_res 85,
    Syscall NR_lseek [Reg 85, Imm 0, Imm 0], Count, Memcpy 0x206fb300 (with_nul ''./var/tmp/'') 11,
    Syscall NR_openat [Dir_fd, Ptr 0x206fb300, Imm 0x484002, Imm 0x1ff], Count,
    Memcpy 0x207fe740 (with_nul ''./var/tmp/'') 11,
    Syscall NR_openat [Dir_fd, Ptr 0x207fe740, Imm 0x484002, Imm 0x1ff], Count, Save_res 86,
    Syscall NR_lseek [Reg 86, Imm 0, Imm 0], Count, Memcpy 0x208d7200 (with_nul ''./var/tmp/'') 11,
    Syscall NR_openat [Dir_fd, Ptr 0x208d7200, Imm 0x484002, Imm 0x1ff], Count,
    Memcpy 0x2095a240 (with_nul ''./var/tmp/'') 11,
    Syscall NR_openat [Dir_fd, Ptr 0x2095a240, Imm 0x484002, Imm 0x1ff], Count, Save_res 87]"

definition min_mysql_openat_lseek_26_0_body23 :: "stmt list" where
  "min_mysql_openat_lseek_26_0_body23 = [
    Syscall NR_lseek [Reg 87, Imm 0, Imm 0], Count, Memcpy 0x20ea3600 (with_nul ''./var/tmp/'') 11,
    Syscall NR_openat [Dir_fd, Ptr 0x20ea3600, Imm 0x484002, Imm 0x1ff], Count,
    Memcpy 0x20f88880 (with_nul ''./var/tmp/'') 11,
    Syscall NR_openat [Dir_fd, Ptr 0x20f88880, Imm 0x484002, Imm 0x1ff], Count, Save_res 88,
    Syscall NR_lseek [Reg 88, Imm 0, Imm 0], Count, Memcpy 0x201612c0 (with_nul ''./var/tmp/'') 11,
    Syscall NR_openat [Dir_fd, Ptr 0x201612c0, Imm 0x484002, Imm 0x1ff], Count,
    Memcpy 0x20288800 (with_nul ''./var/tmp/'') 11,
    Syscall NR_openat [Dir_fd, Ptr 0x20288800, Imm 0x484002, Imm 0x1ff], Count, Save_res 89,
    Syscall NR_lseek [Reg 89, Imm 0, Imm 0], Count, Memcpy 0x206d6b80 (with_nul ''./var/tmp/'') 11,
    Syscall NR_openat [Dir_fd, Ptr 0x206d6b80, Imm 0x484002, Imm 0x1ff], Count,
    Memcpy 0x207944c0 (with_nul ''./var/tmp/'') 11,
    Syscall NR_openat [Dir_fd, Ptr 0x207944c0, Imm 0x484002, Imm 0x1ff], Count, Save_res 90,
    Syscall NR_lseek [Reg 90, Imm 0, Imm 0], Count, Memcpy 0x20e6e400 (with_nul ''./var/tmp/'') 11,
    Syscall NR_openat [Dir_fd, Ptr 0x20e6e400, Imm 0x484002, Imm 0x1ff], Count,
    Memcpy 0x20f7dc40 (with_nul ''./var/tmp/'') 11,
    Syscall NR_openat [Dir_fd, Ptr 0x20f7dc40, Imm 0x484002, Imm 0x1ff], Count, Save_res 91]"

definition min_mysql_openat_lseek_26_0_body24 :: "stmt list" where
  "min_mysql_openat_lseek_26_0_body24 = [
    Syscall NR_lseek [Reg 91, Imm 0, Imm 0], Count, Memcpy 0x2016e100 (with_nul ''./var/tmp/'') 11,
    Syscall NR_openat [Dir_fd, Ptr 0x2016e100, Imm 0x484002, Imm 0x1ff], Count,
    Memcpy 0x202c8b40 (with_nul ''./var/tmp/'') 11,
    Syscall NR_openat [Dir_fd, Ptr 0x202c8b40, Imm 0x484002, Imm 0x1ff], Count, Save_res 92,
    Syscall NR_lseek [Reg 92, Imm 0, Imm 0], Count, Memcpy 0x207ea780 (with_nul ''./var/tmp/'') 11,
    Syscall NR_openat [Dir_fd, Ptr 0x207ea780, Imm 0x484002, Imm 0x1ff], Count,
    Memcpy 0x20983ec0 (with_nul ''./var/tmp/'') 11,
    Syscall NR_openat [Dir_fd, Ptr 0x20983ec0, Imm 0x484002, Imm 0x1ff], Count, Save_res 93,
    Syscall NR_lseek [Reg 93, Imm 0, Imm 0], Count, Memcpy 0x20b39640 (with_nul ''./var/tmp/'') 11,
    Syscall NR_openat [Dir_fd, Ptr 0x20b39640, Imm 0x484002, Imm 0x1ff], Count,
    Memcpy 0x20c80e40 (with_nul ''./var/tmp/'') 11,
    Syscall NR_openat [Dir_fd, Ptr 0x20c80e40, Imm 0x484002, Imm 0x1ff], Count, Save_res 94,
    Syscall NR_lseek [Reg 94, Imm 0, Imm 0], Count, Memcpy 0x20e7be80 (with_nul ''./var/tmp/'') 11,
    Syscall NR_openat [Dir_fd, Ptr 0x20e7be80, Imm 0x484002, Imm 0x1ff], Count,
    Memcpy 0x20fedb00 (with_nul ''./var/tmp/'') 11,
    Syscall NR_openat [Dir_fd, Ptr 0x20fedb00, Imm 0x484002, Imm 0x1ff], Count, Save_res 95]"

definition min_mysql_openat_lseek_26_0_body25 :: "stmt list" where
  "min_mysql_openat_lseek_26_0_body25 = [
    Syscall NR_lseek [Reg 95, Imm 0, Imm 0], Count, Memcpy 0x2018eb40 (with_nul ''./var/tmp/'') 11,
    Syscall NR_openat [Dir_fd, Ptr 0x2018eb40, Imm 0x484002, Imm 0x1ff], Count,
    Memcpy 0x202f3b40 (with_nul ''./var/tmp/'') 11,
    Syscall NR_openat [Dir_fd, Ptr 0x202f3b40, Imm 0x484002, Imm 0x1ff], Count, Save_res 96,
    Syscall NR_lseek [Reg 96, Imm 0, Imm 0], Count, Memcpy 0x20be3e80 (with_nul ''./var/tmp/'') 11,
    Syscall NR_openat [Dir_fd, Ptr 0x20be3e80, Imm 0x484002, Imm 0x1ff], Count,
    Memcpy 0x20c252c0 (with_nul ''./var/tmp/'') 11,
    Syscall NR_openat [Dir_fd, Ptr 0x20c252c0, Imm 0x484002, Imm 0x1ff], Count, Save_res 97,
    Syscall NR_lseek [Reg 97, Imm 0, Imm 0], Count, Memcpy 0x20c44e40 (with_nul ''./var/tmp/'') 11,
    Syscall NR_openat [Dir_fd, Ptr 0x20c44e40, Imm 0x484002, Imm 0x1ff], Count,
    Memcpy 0x20c66740 (with_nul ''./var/tmp/'') 11,
    Syscall NR_openat [Dir_fd, Ptr 0x20c66740, Imm 0x484002, Imm 0x1ff], Count, Save_res 98,
    Syscall NR_lseek [Reg 98, Imm 0, Imm 0], Count, Memcpy 0x20047e80 (with_nul ''./var/tmp/'') 11,
    Syscall NR_openat [Dir_fd, Ptr 0x20047e80, Imm 0x484002, Imm 0x1ff], Count,
    Memcpy 0x201816c0 (with_nul ''./var/tmp/'') 11,
    Syscall NR_openat [Dir_fd, Ptr 0x201816c0, Imm 0x484002, Imm 0x1ff], Count, Save_res 99]"

definition min_mysql_openat_lseek_26_0_body26 :: "stmt list" where
  "min_mysql_openat_lseek_26_0_body26 = [
    Syscall NR_lseek [Reg 99, Imm 0, Imm 0], Count, Memcpy 0x202fdd40 (with_nul ''./var/tmp/'') 11,
    Syscall NR_openat [Dir_fd, Ptr 0x202fdd40, Imm 0x484002, Imm 0x1ff], Count,
    Memcpy 0x2037c740 (with_nul ''./var/tmp/'') 11,
    Syscall NR_openat [Dir_fd, Ptr 0x2037c740, Imm 0x484002, Imm 0x1ff], Count, Save_res 100,
    Syscall NR_lseek [Reg 100, Imm 0, Imm 0], Count, Memcpy 0x207dcb40 (with_nul ''./var/tmp/'') 11,
    Syscall NR_openat [Dir_fd, Ptr 0x207dcb40, Imm 0x484002, Imm 0x1ff], Count,
    Memcpy 0x208ed600 (with_nul ''./var/tmp/'') 11,
    Syscall NR_openat [Dir_fd, Ptr 0x208ed600, Imm 0x484002, Imm 0x1ff], Count, Save_res 101,
    Syscall NR_lseek [Reg 101, Imm 0, Imm 0], Count, Memcpy 0x209ee380 (with_nul ''./var/tmp/'') 11,
    Syscall NR_openat [Dir_fd, Ptr 0x209ee380, Imm 0x484002, Imm 0x1ff], Count,
    Memcpy 0x20a68b00 (with_nul ''./var/tmp/'') 11,
    Syscall NR_openat [Dir_fd, Ptr 0x20a68b00, Imm 0x484002, Imm 0x1ff], Count, Save_res 102,
    Syscall NR_lseek [Reg 102, Imm 0, Imm 0], Count, Memcpy 0x20dea900 (with_nul ''./var/tmp/'') 11,
    Syscall NR_openat [Dir_fd, Ptr 0x20dea900, Imm 0x484002, Imm 0x1ff], Count,
    Memcpy 0x20ed8640 (with_nul ''./var/tmp/'') 11,
    Syscall NR_openat [Dir_fd, Ptr 0x20ed8640, Imm 0x484002, Imm 0x1ff], Count, Save_res 103]"

definition min_mysql_openat_lseek_26_0_body27 :: "stmt list" where
  "min_mysql_openat_lseek_26_0_body27 = [
    Syscall NR_lseek [Reg 103, Imm 0, Imm 0], Count, Memcpy 0x20fbba80 (with_nul ''./var/tmp/'') 11,
    Syscall NR_openat [Dir_fd, Ptr 0x20fbba80, Imm 0x484002, Imm 0x1ff], Count,
    Memcpy 0x20086bc0 (with_nul ''./var/tmp/'') 11,
    Syscall NR_openat [Dir_fd, Ptr 0x20086bc0, Imm 0x484002, Imm 0x1ff], Count, Save_res 104,
    Syscall NR_lseek [Reg 104, Imm 0, Imm 0], Count, Memcpy 0x20634700 (with_nul ''./var/tmp/'') 11,
    Syscall NR_openat [Dir_fd, Ptr 0x20634700, Imm 0x484002, Imm 0x1ff], Count,
    Memcpy 0x20745640 (with_nul ''./var/tmp/'') 11,
    Syscall NR_openat [Dir_fd, Ptr 0x20745640, Imm 0x484002, Imm 0x1ff], Count, Save_res 105,
    Syscall NR_lseek [Reg 105, Imm 0, Imm 0], Count, Memcpy 0x208a6ec0 (with_nul ''./var/tmp/'') 11,
    Syscall NR_openat [Dir_fd, Ptr 0x208a6ec0, Imm 0x484002, Imm 0x1ff], Count,
    Memcpy 0x209729c0 (with_nul ''./var/tmp/'') 11,
    Syscall NR_openat [Dir_fd, Ptr 0x209729c0, Imm 0x484002, Imm 0x1ff], Count, Save_res 106,
    Syscall NR_lseek [Reg 106, Imm 0, Imm 0], Count, Memcpy 0x200a4240 (with_nul ''./var/tmp/'') 11,
    Syscall NR_openat [Dir_fd, Ptr 0x200a4240, Imm 0x484002, Imm 0x1ff], Count,
    Memcpy 0x200cbb00 (with_nul ''./var/tmp/'') 11,
    Syscall NR_openat [Dir_fd, Ptr 0x200cbb00, Imm 0x484002, Imm 0x1ff], Count, Save_res 107]"

definition min_mysql_openat_lseek_26_0_body28 :: "stmt list" where
  "min_mysql_openat_lseek_26_0_body28 = [
    Syscall NR_lseek [Reg 107, Imm 0, Imm 0], Count, Memcpy 0x200e7c00 (with_nul ''./var/tmp/'') 11,
    Syscall NR_openat [Dir_fd, Ptr 0x200e7c00, Imm 0x484002, Imm 0x1ff], Count,
    Memcpy 0x20107300 (with_nul ''./var/tmp/'') 11,
    Syscall NR_openat [Dir_fd, Ptr 0x20107300, Imm 0x484002, Imm 0x1ff], Count, Save_res 108,
    Syscall NR_lseek [Reg 108, Imm 0, Imm 0], Count, Memcpy 0x2034bec0 (with_nul ''./var/tmp/'') 11,
    Syscall NR_openat [Dir_fd, Ptr 0x2034bec0, Imm 0x484002, Imm 0x1ff], Count,
    Memcpy 0x20496380 (with_nul ''./var/tmp/'') 11,
    Syscall NR_openat [Dir_fd, Ptr 0x20496380, Imm 0x484002, Imm 0x1ff], Count, Save_res 109,
    Syscall NR_lseek [Reg 109, Imm 0, Imm 0], Count, Memcpy 0x20594440 (with_nul ''./var/tmp/'') 11,
    Syscall NR_openat [Dir_fd, Ptr 0x20594440, Imm 0x484002, Imm 0x1ff], Count,
    Memcpy 0x206b0700 (with_nul ''./var/tmp/'') 11,
    Syscall NR_openat [Dir_fd, Ptr 0x206b0700, Imm 0x484002, Imm 0x1ff], Count, Save_res 110,
    Syscall NR_lseek [Reg 110, Imm 0, Imm 0], Count, Memcpy 0x20a35b40 (with_nul ''./var/tmp/'') 11,
    Syscall NR_openat [Dir_fd, Ptr 0x20a35b40, Imm 0x484002, Imm 0x1ff], Count,
    Memcpy 0x20b34d00 (with_nul ''./var/tmp/'') 11,
    Syscall NR_openat [Dir_fd, Ptr 0x20b34d00, Imm 0x484002, Imm 0x1ff], Count, Save_res 111]"

definition min_mysql_openat_lseek_26_0_body29 :: "stmt list" where
  "min_mysql_openat_lseek_26_0_body29 = [
    Syscall NR_lseek [Reg 111, Imm 0, Imm 0], Count, Memcpy 0x20f5c2c0 (with_nul ''./var/tmp/'') 11,
    Syscall NR_openat [Dir_fd, Ptr 0x20f5c2c0, Imm 0x484002, Imm 0x1ff], Count,
    Memcpy 0x20004100 (with_nul ''./var/tmp/'') 11,
    Syscall NR_openat [Dir_fd, Ptr 0x20004100, Imm 0x484002, Imm 0x1ff], Count, Save_res 112,
    Syscall NR_lseek [Reg 112, Imm 0, Imm 0], Count, Memcpy 0x20119d40 (with_nul ''./var/tmp/'') 11,
    Syscall NR_openat [Dir_fd, Ptr 0x20119d40, Imm 0x484002, Imm 0x1ff], Count,
    Memcpy 0x2023b580 (with_nul ''./var/tmp/'') 11,
    Syscall NR_openat [Dir_fd, Ptr 0x2023b580, Imm 0x484002, Imm 0x1ff], Count, Save_res 113,
    Syscall NR_lseek [Reg 113, Imm 0, Imm 0], Count, Memcpy 0x206f8ac0 (with_nul ''./var/tmp/'') 11,
    Syscall NR_openat [Dir_fd, Ptr 0x206f8ac0, Imm 0x484002, Imm 0x1ff], Count,
    Memcpy 0x207ea040 (with_nul ''./var/tmp/'') 11,
    Syscall NR_openat [Dir_fd, Ptr 0x207ea040, Imm 0x484002, Imm 0x1ff], Count, Save_res 114,
    Syscall NR_lseek [Reg 114, Imm 0, Imm 0], Count, Memcpy 0x20957140 (with_nul ''./var/tmp/'') 11,
    Syscall NR_openat [Dir_fd, Ptr 0x20957140, Imm 0x484002, Imm 0x1ff], Count,
    Memcpy 0x20a541c0 (with_nul ''./var/tmp/'') 11,
    Syscall NR_openat [Dir_fd, Ptr 0x20a541c0, Imm 0x484002, Imm 0x1ff], Count, Save_res 115]"

definition min_mysql_openat_lseek_26_0_body30 :: "stmt list" where
  "min_mysql_openat_lseek_26_0_body30 = [
    Syscall NR_lseek [Reg 115, Imm 0, Imm 0], Count, Memcpy 0x20f91500 (with_nul ''./var/tmp/'') 11,
    Syscall NR_openat [Dir_fd, Ptr 0x20f91500, Imm 0x484002, Imm 0x1ff], Count,
    Memcpy 0x200d1a40 (with_nul ''./var/tmp/'') 11,
    Syscall NR_openat [Dir_fd, Ptr 0x200d1a40, Imm 0x484002, Imm 0x1ff], Count, Save_res 116,
    Syscall NR_lseek [Reg 116, Imm 0, Imm 0], Count, Memcpy 0x202d9c80 (with_nul ''./var/tmp/'') 11,
    Syscall NR_openat [Dir_fd, Ptr 0x202d9c80, Imm 0x484002, Imm 0x1ff], Count,
    Memcpy 0x203f3ec0 (with_nul ''./var/tmp/'') 11,
    Syscall NR_openat [Dir_fd, Ptr 0x203f3ec0, Imm 0x484002, Imm 0x1ff], Count, Save_res 117,
    Syscall NR_lseek [Reg 117, Imm 0, Imm 0], Count, Memcpy 0x20908700 (with_nul ''./var/tmp/'') 11,
    Syscall NR_openat [Dir_fd, Ptr 0x20908700, Imm 0x484002, Imm 0x1ff], Count,
    Memcpy 0x209f1fc0 (with_nul ''./var/tmp/'') 11,
    Syscall NR_openat [Dir_fd, Ptr 0x209f1fc0, Imm 0x484002, Imm 0x1ff], Count, Save_res 118,
    Syscall NR_lseek [Reg 118, Imm 0, Imm 0], Count, Memcpy 0x200b3240 (with_nul ''./var/tmp/'') 11,
    Syscall NR_openat [Dir_fd, Ptr 0x200b3240, Imm 0x484002, Imm 0x1ff], Count,
    Memcpy 0x2016bc80 (with_nul ''./var/tmp/'') 11,
    Syscall NR_openat [Dir_fd, Ptr 0x2016bc80, Imm 0x484002, Imm 0x1ff], Count, Save_res 119]"

definition min_mysql_openat_lseek_26_0_body31 :: "stmt list" where
  "min_mysql_openat_lseek_26_0_body31 = [
    Syscall NR_lseek [Reg 119, Imm 0, Imm 0], Count, Memcpy 0x20222a00 (with_nul ''./var/tmp/'') 11,
    Syscall NR_openat [Dir_fd, Ptr 0x20222a00, Imm 0x484002, Imm 0x1ff], Count,
    Memcpy 0x202af400 (with_nul ''./var/tmp/'') 11,
    Syscall NR_openat [Dir_fd, Ptr 0x202af400, Imm 0x484002, Imm 0x1ff], Count, Save_res 120,
    Syscall NR_lseek [Reg 120, Imm 0, Imm 0], Count, Memcpy 0x207e0240 (with_nul ''./var/tmp/'') 11,
    Syscall NR_openat [Dir_fd, Ptr 0x207e0240, Imm 0x484002, Imm 0x1ff], Count,
    Memcpy 0x208894c0 (with_nul ''./var/tmp/'') 11,
    Syscall NR_openat [Dir_fd, Ptr 0x208894c0, Imm 0x484002, Imm 0x1ff], Count, Save_res 121,
    Syscall NR_lseek [Reg 121, Imm 0, Imm 0], Count, Memcpy 0x2096b640 (with_nul ''./var/tmp/'') 11,
    Syscall NR_openat [Dir_fd, Ptr 0x2096b640, Imm 0x484002, Imm 0x1ff], Count,
    Memcpy 0x20a16e80 (with_nul ''./var/tmp/'') 11,
    Syscall NR_openat [Dir_fd, Ptr 0x20a16e80, Imm 0x484002, Imm 0x1ff], Count, Save_res 122,
    Syscall NR_lseek [Reg 122, Imm 0, Imm 0], Count, Memcpy 0x20019480 (with_nul ''./var/tmp/'') 11,
    Syscall NR_openat [Dir_fd, Ptr 0x20019480, Imm 0x484002, Imm 0x1ff], Count,
    Memcpy 0x200da280 (with_nul ''./var/tmp/'') 11,
    Syscall NR_openat [Dir_fd, Ptr 0x200da280, Imm 0x484002, Imm 0x1ff], Count, Save_res 123]"

definition min_mysql_openat_lseek_26_0_body32 :: "stmt list" where
  "min_mysql_openat_lseek_26_0_body32 = [
    Syscall NR_lseek [Reg 123, Imm 0, Imm 0], Count, Memcpy 0x202045c0 (with_nul ''./var/tmp/'') 11,
    Syscall NR_openat [Dir_fd, Ptr 0x202045c0, Imm 0x484002, Imm 0x1ff], Count,
    Memcpy 0x202ae680 (with_nul ''./var/tmp/'') 11,
    Syscall NR_openat [Dir_fd, Ptr 0x202ae680, Imm 0x484002, Imm 0x1ff], Count, Save_res 124,
    Syscall NR_lseek [Reg 124, Imm 0, Imm 0], Count, Memcpy 0x2081a6c0 (with_nul ''./var/tmp/'') 11,
    Syscall NR_openat [Dir_fd, Ptr 0x2081a6c0, Imm 0x484002, Imm 0x1ff], Count,
    Memcpy 0x20933200 (with_nul ''./var/tmp/'') 11,
    Syscall NR_openat [Dir_fd, Ptr 0x20933200, Imm 0x484002, Imm 0x1ff], Count, Save_res 125,
    Syscall NR_lseek [Reg 125, Imm 0, Imm 0], Count, Memcpy 0x20a5b9c0 (with_nul ''./var/tmp/'') 11,
    Syscall NR_openat [Dir_fd, Ptr 0x20a5b9c0, Imm 0x484002, Imm 0x1ff], Count,
    Memcpy 0x20aea9c0 (with_nul ''./var/tmp/'') 11,
    Syscall NR_openat [Dir_fd, Ptr 0x20aea9c0, Imm 0x484002, Imm 0x1ff], Count, Save_res 126,
    Syscall NR_lseek [Reg 126, Imm 0, Imm 0], Count, Memcpy 0x2013dc80 (with_nul ''./var/tmp/'') 11,
    Syscall NR_openat [Dir_fd, Ptr 0x2013dc80, Imm 0x484002, Imm 0x1ff], Count,
    Memcpy 0x20217f00 (with_nul ''./var/tmp/'') 11,
    Syscall NR_openat [Dir_fd, Ptr 0x20217f00, Imm 0x484002, Imm 0x1ff], Count, Save_res 127]"

definition min_mysql_openat_lseek_26_0_body33 :: "stmt list" where
  "min_mysql_openat_lseek_26_0_body33 = [
    Syscall NR_lseek [Reg 127, Imm 0, Imm 0], Count, Memcpy 0x202e7700 (with_nul ''./var/tmp/'') 11,
    Syscall NR_openat [Dir_fd, Ptr 0x202e7700, Imm 0x484002, Imm 0x1ff], Count,
    Memcpy 0x203ba400 (with_nul ''./var/tmp/'') 11,
    Syscall NR_openat [Dir_fd, Ptr 0x203ba400, Imm 0x484002, Imm 0x1ff], Count, Save_res 128,
    Syscall NR_lseek [Reg 128, Imm 0, Imm 0], Count, Memcpy 0x207023c0 (with_nul ''./var/tmp/'') 11,
    Syscall NR_openat [Dir_fd, Ptr 0x207023c0, Imm 0x484002, Imm 0x1ff], Count,
    Memcpy 0x208fbf40 (with_nul ''./var/tmp/'') 11,
    Syscall NR_openat [Dir_fd, Ptr 0x208fbf40, Imm 0x484002, Imm 0x1ff], Count, Save_res 129,
    Syscall NR_lseek [Reg 129, Imm 0, Imm 0], Count, Memcpy 0x20ab9840 (with_nul ''./var/tmp/'') 11,
    Syscall NR_openat [Dir_fd, Ptr 0x20ab9840, Imm 0x484002, Imm 0x1ff], Count,
    Memcpy 0x20bfea00 (with_nul ''./var/tmp/'') 11,
    Syscall NR_openat [Dir_fd, Ptr 0x20bfea00, Imm 0x484002, Imm 0x1ff], Count, Save_res 130,
    Syscall NR_lseek [Reg 130, Imm 0, Imm 0], Count, Memcpy 0x20eff840 (with_nul ''./var/tmp/'') 11,
    Syscall NR_openat [Dir_fd, Ptr 0x20eff840, Imm 0x484002, Imm 0x1ff], Count,
    Memcpy 0x20075080 (with_nul ''./var/tmp/'') 11,
    Syscall NR_openat [Dir_fd, Ptr 0x20075080, Imm 0x484002, Imm 0x1ff], Count, Save_res 131]"

definition min_mysql_openat_lseek_26_0_body34 :: "stmt list" where
  "min_mysql_openat_lseek_26_0_body34 = [
    Syscall NR_lseek [Reg 131, Imm 0, Imm 0], Count, Memcpy 0x201a8a00 (with_nul ''./var/tmp/'') 11,
    Syscall NR_openat [Dir_fd, Ptr 0x201a8a00, Imm 0x484002, Imm 0x1ff], Count,
    Memcpy 0x202e1580 (with_nul ''./var/tmp/'') 11,
    Syscall NR_openat [Dir_fd, Ptr 0x202e1580, Imm 0x484002, Imm 0x1ff], Count, Save_res 132,
    Syscall NR_lseek [Reg 132, Imm 0, Imm 0], Count, Memcpy 0x20cd5ec0 (with_nul ''./var/tmp/'') 11,
    Syscall NR_openat [Dir_fd, Ptr 0x20cd5ec0, Imm 0x484002, Imm 0x1ff], Count,
    Memcpy 0x20d13640 (with_nul ''./var/tmp/'') 11,
    Syscall NR_openat [Dir_fd, Ptr 0x20d13640, Imm 0x484002, Imm 0x1ff], Count, Save_res 133,
    Syscall NR_lseek [Reg 133, Imm 0, Imm 0], Count, Memcpy 0x2012cdc0 (with_nul ''./var/tmp/'') 11,
    Syscall NR_openat [Dir_fd, Ptr 0x2012cdc0, Imm 0x484002, Imm 0x1ff], Count,
    Memcpy 0x202c7740 (with_nul ''./var/tmp/'') 11,
    Syscall NR_openat [Dir_fd, Ptr 0x202c7740, Imm 0x484002, Imm 0x1ff], Count, Save_res 134,
    Syscall NR_lseek [Reg 134, Imm 0, Imm 0], Count, Memcpy 0x20bce2c0 (with_nul ''./var/tmp/'') 11,
    Syscall NR_openat [Dir_fd, Ptr 0x20bce2c0, Imm 0x484002, Imm 0x1ff], Count,
    Memcpy 0x20c3c4c0 (with_nul ''./var/tmp/'') 11,
    Syscall NR_openat [Dir_fd, Ptr 0x20c3c4c0, Imm 0x484002, Imm 0x1ff], Count, Save_res 135]"

definition min_mysql_openat_lseek_26_0_body35 :: "stmt list" where
  "min_mysql_openat_lseek_26_0_body35 = [
    Syscall NR_lseek [Reg 135, Imm 0, Imm 0], Count, Memcpy 0x20213f80 (with_nul ''./var/tmp/'') 11,
    Syscall NR_openat [Dir_fd, Ptr 0x20213f80, Imm 0x484002, Imm 0x1ff], Count,
    Memcpy 0x202430c0 (with_nul ''./var/tmp/'') 11,
    Syscall NR_openat [Dir_fd, Ptr 0x202430c0, Imm 0x484002, Imm 0x1ff], Count, Save_res 136,
    Syscall NR_lseek [Reg 136, Imm 0, Imm 0], Count, Memcpy 0x205d66c0 (with_nul ''./var/tmp/'') 11,
    Syscall NR_openat [Dir_fd, Ptr 0x205d66c0, Imm 0x484002, Imm 0x1ff], Count,
    Memcpy 0x2075d540 (with_nul ''./var/tmp/'') 11,
    Syscall NR_openat [Dir_fd, Ptr 0x2075d540, Imm 0x484002, Imm 0x1ff], Count, Save_res 137,
    Syscall NR_lseek [Reg 137, Imm 0, Imm 0], Count, Memcpy 0x208998c0 (with_nul ''./var/tmp/'') 11,
    Syscall NR_openat [Dir_fd, Ptr 0x208998c0, Imm 0x484002, Imm 0x1ff], Count,
    Memcpy 0x209357c0 (with_nul ''./var/tmp/'') 11,
    Syscall NR_openat [Dir_fd, Ptr 0x209357c0, Imm 0x484002, Imm 0x1ff], Count, Save_res 138,
    Syscall NR_lseek [Reg 138, Imm 0, Imm 0], Count, Memcpy 0x20d82cc0 (with_nul ''./var/tmp/'') 11,
    Syscall NR_openat [Dir_fd, Ptr 0x20d82cc0, Imm 0x484002, Imm 0x1ff], Count,
    Memcpy 0x20ebcfc0 (with_nul ''./var/tmp/'') 11,
    Syscall NR_openat [Dir_fd, Ptr 0x20ebcfc0, Imm 0x484002, Imm 0x1ff], Count, Save_res 139]"

definition min_mysql_openat_lseek_26_0_body36 :: "stmt list" where
  "min_mysql_openat_lseek_26_0_body36 = [
    Syscall NR_lseek [Reg 139, Imm 0, Imm 0], Count, Memcpy 0x20241980 (with_nul ''./var/tmp/'') 11,
    Syscall NR_openat [Dir_fd, Ptr 0x20241980, Imm 0x484002, Imm 0x1ff], Count,
    Memcpy 0x20440380 (with_nul ''./var/tmp/'') 11,
    Syscall NR_openat [Dir_fd, Ptr 0x20440380, Imm 0x484002, Imm 0x1ff], Count, Save_res 140,
    Syscall NR_lseek [Reg 140, Imm 0, Imm 0], Count, Memcpy 0x20949500 (with_nul ''./var/tmp/'') 11,
    Syscall NR_openat [Dir_fd, Ptr 0x20949500, Imm 0x484002, Imm 0x1ff], Count,
    Memcpy 0x20a1db40 (with_nul ''./var/tmp/'') 11,
    Syscall NR_openat [Dir_fd, Ptr 0x20a1db40, Imm 0x484002, Imm 0x1ff], Count, Save_res 141,
    Syscall NR_lseek [Reg 141, Imm 0, Imm 0], Count, Memcpy 0x20bf1840 (with_nul ''./var/tmp/'') 11,
    Syscall NR_openat [Dir_fd, Ptr 0x20bf1840, Imm 0x484002, Imm 0x1ff], Count,
    Memcpy 0x20ce0780 (with_nul ''./var/tmp/'') 11,
    Syscall NR_openat [Dir_fd, Ptr 0x20ce0780, Imm 0x484002, Imm 0x1ff], Count, Save_res 142,
    Syscall NR_lseek [Reg 142, Imm 0, Imm 0], Count, Memcpy 0x200e8000 (with_nul ''./var/tmp/'') 11,
    Syscall NR_openat [Dir_fd, Ptr 0x200e8000, Imm 0x484002, Imm 0x1ff], Count,
    Memcpy 0x201fd900 (with_nul ''./var/tmp/'') 11,
    Syscall NR_openat [Dir_fd, Ptr 0x201fd900, Imm 0x484002, Imm 0x1ff], Count, Save_res 143]"

definition min_mysql_openat_lseek_26_0_body37 :: "stmt list" where
  "min_mysql_openat_lseek_26_0_body37 = [
    Syscall NR_lseek [Reg 143, Imm 0, Imm 0], Count, Memcpy 0x203d62c0 (with_nul ''./var/tmp/'') 11,
    Syscall NR_openat [Dir_fd, Ptr 0x203d62c0, Imm 0x484002, Imm 0x1ff], Count,
    Memcpy 0x205254c0 (with_nul ''./var/tmp/'') 11,
    Syscall NR_openat [Dir_fd, Ptr 0x205254c0, Imm 0x484002, Imm 0x1ff], Count, Save_res 144,
    Syscall NR_lseek [Reg 144, Imm 0, Imm 0], Count, Memcpy 0x20932500 (with_nul ''./var/tmp/'') 11,
    Syscall NR_openat [Dir_fd, Ptr 0x20932500, Imm 0x484002, Imm 0x1ff], Count,
    Memcpy 0x20a37c40 (with_nul ''./var/tmp/'') 11,
    Syscall NR_openat [Dir_fd, Ptr 0x20a37c40, Imm 0x484002, Imm 0x1ff], Count, Save_res 145,
    Syscall NR_lseek [Reg 145, Imm 0, Imm 0], Count, Memcpy 0x20be1b40 (with_nul ''./var/tmp/'') 11,
    Syscall NR_openat [Dir_fd, Ptr 0x20be1b40, Imm 0x484002, Imm 0x1ff], Count,
    Memcpy 0x20d0a700 (with_nul ''./var/tmp/'') 11,
    Syscall NR_openat [Dir_fd, Ptr 0x20d0a700, Imm 0x484002, Imm 0x1ff], Count, Save_res 146,
    Syscall NR_lseek [Reg 146, Imm 0, Imm 0], Count, Memcpy 0x20168e80 (with_nul ''./var/tmp/'') 11,
    Syscall NR_openat [Dir_fd, Ptr 0x20168e80, Imm 0x484002, Imm 0x1ff], Count,
    Memcpy 0x202af5c0 (with_nul ''./var/tmp/'') 11,
    Syscall NR_openat [Dir_fd, Ptr 0x202af5c0, Imm 0x484002, Imm 0x1ff], Count, Save_res 147]"

definition min_mysql_openat_lseek_26_0_body38 :: "stmt list" where
  "min_mysql_openat_lseek_26_0_body38 = [
    Syscall NR_lseek [Reg 147, Imm 0, Imm 0], Count, Memcpy 0x203f7880 (with_nul ''./var/tmp/'') 11,
    Syscall NR_openat [Dir_fd, Ptr 0x203f7880, Imm 0x484002, Imm 0x1ff], Count,
    Memcpy 0x204e2bc0 (with_nul ''./var/tmp/'') 11,
    Syscall NR_openat [Dir_fd, Ptr 0x204e2bc0, Imm 0x484002, Imm 0x1ff], Count, Save_res 148,
    Syscall NR_lseek [Reg 148, Imm 0, Imm 0], Count, Memcpy 0x209199c0 (with_nul ''./var/tmp/'') 11,
    Syscall NR_openat [Dir_fd, Ptr 0x209199c0, Imm 0x484002, Imm 0x1ff], Count,
    Memcpy 0x20a76600 (with_nul ''./var/tmp/'') 11,
    Syscall NR_openat [Dir_fd, Ptr 0x20a76600, Imm 0x484002, Imm 0x1ff], Count, Save_res 149,
    Syscall NR_lseek [Reg 149, Imm 0, Imm 0], Count, Memcpy 0x20f190c0 (with_nul ''./var/tmp/'') 11,
    Syscall NR_openat [Dir_fd, Ptr 0x20f190c0, Imm 0x484002, Imm 0x1ff], Count,
    Memcpy 0x2001ea40 (with_nul ''./var/tmp/'') 11,
    Syscall NR_openat [Dir_fd, Ptr 0x2001ea40, Imm 0x484002, Imm 0x1ff], Count, Save_res 150,
    Syscall NR_lseek [Reg 150, Imm 0, Imm 0], Count, Memcpy 0x201c5ec0 (with_nul ''./var/tmp/'') 11,
    Syscall NR_openat [Dir_fd, Ptr 0x201c5ec0, Imm 0x484002, Imm 0x1ff], Count,
    Memcpy 0x2021c1c0 (with_nul ''./var/tmp/'') 11,
    Syscall NR_openat [Dir_fd, Ptr 0x2021c1c0, Imm 0x484002, Imm 0x1ff], Count, Save_res 151]"

definition min_mysql_openat_lseek_26_0_body39 :: "stmt list" where
  "min_mysql_openat_lseek_26_0_body39 = [
    Syscall NR_lseek [Reg 151, Imm 0, Imm 0], Count, Memcpy 0x2063f080 (with_nul ''./var/tmp/'') 11,
    Syscall NR_openat [Dir_fd, Ptr 0x2063f080, Imm 0x484002, Imm 0x1ff], Count,
    Memcpy 0x20761e00 (with_nul ''./var/tmp/'') 11,
    Syscall NR_openat [Dir_fd, Ptr 0x20761e00, Imm 0x484002, Imm 0x1ff], Count, Save_res 152,
    Syscall NR_lseek [Reg 152, Imm 0, Imm 0], Count, Memcpy 0x208b8e80 (with_nul ''./var/tmp/'') 11,
    Syscall NR_openat [Dir_fd, Ptr 0x208b8e80, Imm 0x484002, Imm 0x1ff], Count,
    Memcpy 0x209dc500 (with_nul ''./var/tmp/'') 11,
    Syscall NR_openat [Dir_fd, Ptr 0x209dc500, Imm 0x484002, Imm 0x1ff], Count, Save_res 153,
    Syscall NR_lseek [Reg 153, Imm 0, Imm 0], Count, Memcpy 0x20e10d80 (with_nul ''./var/tmp/'') 11,
    Syscall NR_openat [Dir_fd, Ptr 0x20e10d80, Imm 0x484002, Imm 0x1ff], Count,
    Memcpy 0x20f63280 (with_nul ''./var/tmp/'') 11,
    Syscall NR_openat [Dir_fd, Ptr 0x20f63280, Imm 0x484002, Imm 0x1ff], Count, Save_res 154,
    Syscall NR_lseek [Reg 154, Imm 0, Imm 0], Count, Memcpy 0x2004bfc0 (with_nul ''./var/tmp/'') 11,
    Syscall NR_openat [Dir_fd, Ptr 0x2004bfc0, Imm 0x484002, Imm 0x1ff], Count, Save_res 155,
    Syscall NR_close [Reg 155], Count]"

definition min_mysql_openat_lseek_26_0_body40 :: "stmt list" where
  "min_mysql_openat_lseek_26_0_body40 = [
    Memcpy 0x200e7340 (with_nul ''./var/tmp/'') 11,
    Syscall NR_openat [Dir_fd, Ptr 0x200e7340, Imm 0x484002, Imm 0x1ff], Count,
    Memcpy 0x201b1d80 (with_nul ''./var/tmp/'') 11,
    Syscall NR_openat [Dir_fd, Ptr 0x201b1d80, Imm 0x484002, Imm 0x1ff], Count, Save_res 156,
    Syscall NR_lseek [Reg 156, Imm 0, Imm 0], Count]"

definition min_mysql_openat_lseek_26_0_regs :: "u64 list" where
  "min_mysql_openat_lseek_26_0_regs = replicate 157 (- 1)"

definition min_mysql_openat_lseek_26_0 :: syz_prog where
  "min_mysql_openat_lseek_26_0 = \<lparr>prog_name = ''min_mysql_openat_lseek_26_0'', prog_family = Mysql_v2,
     subdirs = [''var/tmp'', ''./var/tmp/''],
     filenames = [''./var/tmp''], filesizes = [0],
     max_write_buffer = 0, init_regs = min_mysql_openat_lseek_26_0_regs,
     reg_body = [], dereg_body = [],
     body = min_mysql_openat_lseek_26_0_body1 @ min_mysql_openat_lseek_26_0_body2 @
       min_mysql_openat_lseek_26_0_body3 @ min_mysql_openat_lseek_26_0_body4 @
       min_mysql_openat_lseek_26_0_body5 @ min_mysql_openat_lseek_26_0_body6 @
       min_mysql_openat_lseek_26_0_body7 @ min_mysql_openat_lseek_26_0_body8 @
       min_mysql_openat_lseek_26_0_body9 @ min_mysql_openat_lseek_26_0_body10 @
       min_mysql_openat_lseek_26_0_body11 @ min_mysql_openat_lseek_26_0_body12 @
       min_mysql_openat_lseek_26_0_body13 @ min_mysql_openat_lseek_26_0_body14 @
       min_mysql_openat_lseek_26_0_body15 @ min_mysql_openat_lseek_26_0_body16 @
       min_mysql_openat_lseek_26_0_body17 @ min_mysql_openat_lseek_26_0_body18 @
       min_mysql_openat_lseek_26_0_body19 @ min_mysql_openat_lseek_26_0_body20 @
       min_mysql_openat_lseek_26_0_body21 @ min_mysql_openat_lseek_26_0_body22 @
       min_mysql_openat_lseek_26_0_body23 @ min_mysql_openat_lseek_26_0_body24 @
       min_mysql_openat_lseek_26_0_body25 @ min_mysql_openat_lseek_26_0_body26 @
       min_mysql_openat_lseek_26_0_body27 @ min_mysql_openat_lseek_26_0_body28 @
       min_mysql_openat_lseek_26_0_body29 @ min_mysql_openat_lseek_26_0_body30 @
       min_mysql_openat_lseek_26_0_body31 @ min_mysql_openat_lseek_26_0_body32 @
       min_mysql_openat_lseek_26_0_body33 @ min_mysql_openat_lseek_26_0_body34 @
       min_mysql_openat_lseek_26_0_body35 @ min_mysql_openat_lseek_26_0_body36 @
       min_mysql_openat_lseek_26_0_body37 @ min_mysql_openat_lseek_26_0_body38 @
       min_mysql_openat_lseek_26_0_body39 @ min_mysql_openat_lseek_26_0_body40\<rparr>"

definition min_mysql_openat_lseek_26_0_target where
  "min_mysql_openat_lseek_26_0_target os_getenv os_inet_pton K = syz_target os_getenv os_inet_pton K min_mysql_openat_lseek_26_0"

lemma min_mysql_openat_lseek_26_0_body1_ok: "body_ok 157 0 min_mysql_openat_lseek_26_0_body1" "counted min_mysql_openat_lseek_26_0_body1" "calls min_mysql_openat_lseek_26_0_body1 = 11" "opened_in m min_mysql_openat_lseek_26_0_body1 = [
      Some ''./var/tmp/'', Some ''./var/tmp/'', Some ''./var/tmp/'', Some ''./var/tmp/'', Some ''./var/tmp/'',
      Some ''./var/tmp/'', Some ''./var/tmp/'', Some ''./var/tmp/'']"
  by (simp_all add: min_mysql_openat_lseek_26_0_body1_def prog_checks open_checks)

lemma min_mysql_openat_lseek_26_0_body2_ok: "body_ok 157 0 min_mysql_openat_lseek_26_0_body2" "counted min_mysql_openat_lseek_26_0_body2" "calls min_mysql_openat_lseek_26_0_body2 = 12" "opened_in m min_mysql_openat_lseek_26_0_body2 = [
      Some ''./var/tmp/'', Some ''./var/tmp/'', Some ''./var/tmp/'', Some ''./var/tmp/'', Some ''./var/tmp/'',
      Some ''./var/tmp/'', Some ''./var/tmp/'', Some ''./var/tmp/'']"
  by (simp_all add: min_mysql_openat_lseek_26_0_body2_def prog_checks open_checks)

lemma min_mysql_openat_lseek_26_0_body3_ok: "body_ok 157 0 min_mysql_openat_lseek_26_0_body3" "counted min_mysql_openat_lseek_26_0_body3" "calls min_mysql_openat_lseek_26_0_body3 = 12" "opened_in m min_mysql_openat_lseek_26_0_body3 = [
      Some ''./var/tmp/'', Some ''./var/tmp/'', Some ''./var/tmp/'', Some ''./var/tmp/'', Some ''./var/tmp/'',
      Some ''./var/tmp/'', Some ''./var/tmp/'', Some ''./var/tmp/'']"
  by (simp_all add: min_mysql_openat_lseek_26_0_body3_def prog_checks open_checks)

lemma min_mysql_openat_lseek_26_0_body4_ok: "body_ok 157 0 min_mysql_openat_lseek_26_0_body4" "counted min_mysql_openat_lseek_26_0_body4" "calls min_mysql_openat_lseek_26_0_body4 = 12" "opened_in m min_mysql_openat_lseek_26_0_body4 = [
      Some ''./var/tmp/'', Some ''./var/tmp/'', Some ''./var/tmp/'', Some ''./var/tmp/'', Some ''./var/tmp/'',
      Some ''./var/tmp/'', Some ''./var/tmp/'', Some ''./var/tmp/'']"
  by (simp_all add: min_mysql_openat_lseek_26_0_body4_def prog_checks open_checks)

lemma min_mysql_openat_lseek_26_0_body5_ok: "body_ok 157 0 min_mysql_openat_lseek_26_0_body5" "counted min_mysql_openat_lseek_26_0_body5" "calls min_mysql_openat_lseek_26_0_body5 = 12" "opened_in m min_mysql_openat_lseek_26_0_body5 = [
      Some ''./var/tmp/'', Some ''./var/tmp/'', Some ''./var/tmp/'', Some ''./var/tmp/'', Some ''./var/tmp/'',
      Some ''./var/tmp/'', Some ''./var/tmp/'', Some ''./var/tmp/'']"
  by (simp_all add: min_mysql_openat_lseek_26_0_body5_def prog_checks open_checks)

lemma min_mysql_openat_lseek_26_0_body6_ok: "body_ok 157 0 min_mysql_openat_lseek_26_0_body6" "counted min_mysql_openat_lseek_26_0_body6" "calls min_mysql_openat_lseek_26_0_body6 = 12" "opened_in m min_mysql_openat_lseek_26_0_body6 = [
      Some ''./var/tmp/'', Some ''./var/tmp/'', Some ''./var/tmp/'', Some ''./var/tmp/'', Some ''./var/tmp/'',
      Some ''./var/tmp/'', Some ''./var/tmp/'', Some ''./var/tmp/'']"
  by (simp_all add: min_mysql_openat_lseek_26_0_body6_def prog_checks open_checks)

lemma min_mysql_openat_lseek_26_0_body7_ok: "body_ok 157 0 min_mysql_openat_lseek_26_0_body7" "counted min_mysql_openat_lseek_26_0_body7" "calls min_mysql_openat_lseek_26_0_body7 = 12" "opened_in m min_mysql_openat_lseek_26_0_body7 = [
      Some ''./var/tmp/'', Some ''./var/tmp/'', Some ''./var/tmp/'', Some ''./var/tmp/'', Some ''./var/tmp/'',
      Some ''./var/tmp/'', Some ''./var/tmp/'', Some ''./var/tmp/'']"
  by (simp_all add: min_mysql_openat_lseek_26_0_body7_def prog_checks open_checks)

lemma min_mysql_openat_lseek_26_0_body8_ok: "body_ok 157 0 min_mysql_openat_lseek_26_0_body8" "counted min_mysql_openat_lseek_26_0_body8" "calls min_mysql_openat_lseek_26_0_body8 = 12" "opened_in m min_mysql_openat_lseek_26_0_body8 = [
      Some ''./var/tmp/'', Some ''./var/tmp/'', Some ''./var/tmp/'', Some ''./var/tmp/'', Some ''./var/tmp/'',
      Some ''./var/tmp/'', Some ''./var/tmp/'', Some ''./var/tmp/'']"
  by (simp_all add: min_mysql_openat_lseek_26_0_body8_def prog_checks open_checks)

lemma min_mysql_openat_lseek_26_0_body9_ok: "body_ok 157 0 min_mysql_openat_lseek_26_0_body9" "counted min_mysql_openat_lseek_26_0_body9" "calls min_mysql_openat_lseek_26_0_body9 = 12" "opened_in m min_mysql_openat_lseek_26_0_body9 = [
      Some ''./var/tmp/'', Some ''./var/tmp/'', Some ''./var/tmp/'', Some ''./var/tmp/'', Some ''./var/tmp/'',
      Some ''./var/tmp/'', Some ''./var/tmp/'', Some ''./var/tmp/'']"
  by (simp_all add: min_mysql_openat_lseek_26_0_body9_def prog_checks open_checks)

lemma min_mysql_openat_lseek_26_0_body10_ok: "body_ok 157 0 min_mysql_openat_lseek_26_0_body10" "counted min_mysql_openat_lseek_26_0_body10" "calls min_mysql_openat_lseek_26_0_body10 = 12" "opened_in m min_mysql_openat_lseek_26_0_body10 = [
      Some ''./var/tmp/'', Some ''./var/tmp/'', Some ''./var/tmp/'', Some ''./var/tmp/'', Some ''./var/tmp/'',
      Some ''./var/tmp/'', Some ''./var/tmp/'', Some ''./var/tmp/'']"
  by (simp_all add: min_mysql_openat_lseek_26_0_body10_def prog_checks open_checks)

lemma min_mysql_openat_lseek_26_0_body11_ok: "body_ok 157 0 min_mysql_openat_lseek_26_0_body11" "counted min_mysql_openat_lseek_26_0_body11" "calls min_mysql_openat_lseek_26_0_body11 = 12" "opened_in m min_mysql_openat_lseek_26_0_body11 = [
      Some ''./var/tmp/'', Some ''./var/tmp/'', Some ''./var/tmp/'', Some ''./var/tmp/'', Some ''./var/tmp/'',
      Some ''./var/tmp/'', Some ''./var/tmp/'', Some ''./var/tmp/'']"
  by (simp_all add: min_mysql_openat_lseek_26_0_body11_def prog_checks open_checks)

lemma min_mysql_openat_lseek_26_0_body12_ok: "body_ok 157 0 min_mysql_openat_lseek_26_0_body12" "counted min_mysql_openat_lseek_26_0_body12" "calls min_mysql_openat_lseek_26_0_body12 = 12" "opened_in m min_mysql_openat_lseek_26_0_body12 = [
      Some ''./var/tmp/'', Some ''./var/tmp/'', Some ''./var/tmp/'', Some ''./var/tmp/'', Some ''./var/tmp/'',
      Some ''./var/tmp/'', Some ''./var/tmp/'', Some ''./var/tmp/'']"
  by (simp_all add: min_mysql_openat_lseek_26_0_body12_def prog_checks open_checks)

lemma min_mysql_openat_lseek_26_0_body13_ok: "body_ok 157 0 min_mysql_openat_lseek_26_0_body13" "counted min_mysql_openat_lseek_26_0_body13" "calls min_mysql_openat_lseek_26_0_body13 = 12" "opened_in m min_mysql_openat_lseek_26_0_body13 = [
      Some ''./var/tmp/'', Some ''./var/tmp/'', Some ''./var/tmp/'', Some ''./var/tmp/'', Some ''./var/tmp/'',
      Some ''./var/tmp/'', Some ''./var/tmp/'', Some ''./var/tmp/'']"
  by (simp_all add: min_mysql_openat_lseek_26_0_body13_def prog_checks open_checks)

lemma min_mysql_openat_lseek_26_0_body14_ok: "body_ok 157 0 min_mysql_openat_lseek_26_0_body14" "counted min_mysql_openat_lseek_26_0_body14" "calls min_mysql_openat_lseek_26_0_body14 = 12" "opened_in m min_mysql_openat_lseek_26_0_body14 = [
      Some ''./var/tmp/'', Some ''./var/tmp/'', Some ''./var/tmp/'', Some ''./var/tmp/'', Some ''./var/tmp/'',
      Some ''./var/tmp/'', Some ''./var/tmp/'', Some ''./var/tmp/'']"
  by (simp_all add: min_mysql_openat_lseek_26_0_body14_def prog_checks open_checks)

lemma min_mysql_openat_lseek_26_0_body15_ok: "body_ok 157 0 min_mysql_openat_lseek_26_0_body15" "counted min_mysql_openat_lseek_26_0_body15" "calls min_mysql_openat_lseek_26_0_body15 = 12" "opened_in m min_mysql_openat_lseek_26_0_body15 = [
      Some ''./var/tmp/'', Some ''./var/tmp/'', Some ''./var/tmp/'', Some ''./var/tmp/'', Some ''./var/tmp/'',
      Some ''./var/tmp/'', Some ''./var/tmp/'', Some ''./var/tmp/'']"
  by (simp_all add: min_mysql_openat_lseek_26_0_body15_def prog_checks open_checks)

lemma min_mysql_openat_lseek_26_0_body16_ok: "body_ok 157 0 min_mysql_openat_lseek_26_0_body16" "counted min_mysql_openat_lseek_26_0_body16" "calls min_mysql_openat_lseek_26_0_body16 = 12" "opened_in m min_mysql_openat_lseek_26_0_body16 = [
      Some ''./var/tmp/'', Some ''./var/tmp/'', Some ''./var/tmp/'', Some ''./var/tmp/'', Some ''./var/tmp/'',
      Some ''./var/tmp/'', Some ''./var/tmp/'', Some ''./var/tmp/'']"
  by (simp_all add: min_mysql_openat_lseek_26_0_body16_def prog_checks open_checks)

lemma min_mysql_openat_lseek_26_0_body17_ok: "body_ok 157 0 min_mysql_openat_lseek_26_0_body17" "counted min_mysql_openat_lseek_26_0_body17" "calls min_mysql_openat_lseek_26_0_body17 = 12" "opened_in m min_mysql_openat_lseek_26_0_body17 = [
      Some ''./var/tmp/'', Some ''./var/tmp/'', Some ''./var/tmp/'', Some ''./var/tmp/'', Some ''./var/tmp/'',
      Some ''./var/tmp/'', Some ''./var/tmp/'', Some ''./var/tmp/'']"
  by (simp_all add: min_mysql_openat_lseek_26_0_body17_def prog_checks open_checks)

lemma min_mysql_openat_lseek_26_0_body18_ok: "body_ok 157 0 min_mysql_openat_lseek_26_0_body18" "counted min_mysql_openat_lseek_26_0_body18" "calls min_mysql_openat_lseek_26_0_body18 = 12" "opened_in m min_mysql_openat_lseek_26_0_body18 = [
      Some ''./var/tmp/'', Some ''./var/tmp/'', Some ''./var/tmp/'', Some ''./var/tmp/'', Some ''./var/tmp/'',
      Some ''./var/tmp/'', Some ''./var/tmp/'', Some ''./var/tmp/'']"
  by (simp_all add: min_mysql_openat_lseek_26_0_body18_def prog_checks open_checks)

lemma min_mysql_openat_lseek_26_0_body19_ok: "body_ok 157 0 min_mysql_openat_lseek_26_0_body19" "counted min_mysql_openat_lseek_26_0_body19" "calls min_mysql_openat_lseek_26_0_body19 = 12" "opened_in m min_mysql_openat_lseek_26_0_body19 = [
      Some ''./var/tmp/'', Some ''./var/tmp/'', Some ''./var/tmp/'', Some ''./var/tmp/'', Some ''./var/tmp/'',
      Some ''./var/tmp/'', Some ''./var/tmp/'', Some ''./var/tmp/'']"
  by (simp_all add: min_mysql_openat_lseek_26_0_body19_def prog_checks open_checks)

lemma min_mysql_openat_lseek_26_0_body20_ok: "body_ok 157 0 min_mysql_openat_lseek_26_0_body20" "counted min_mysql_openat_lseek_26_0_body20" "calls min_mysql_openat_lseek_26_0_body20 = 12" "opened_in m min_mysql_openat_lseek_26_0_body20 = [
      Some ''./var/tmp/'', Some ''./var/tmp/'', Some ''./var/tmp/'', Some ''./var/tmp/'', Some ''./var/tmp/'',
      Some ''./var/tmp/'', Some ''./var/tmp/'', Some ''./var/tmp/'']"
  by (simp_all add: min_mysql_openat_lseek_26_0_body20_def prog_checks open_checks)

lemma min_mysql_openat_lseek_26_0_body21_ok: "body_ok 157 0 min_mysql_openat_lseek_26_0_body21" "counted min_mysql_openat_lseek_26_0_body21" "calls min_mysql_openat_lseek_26_0_body21 = 12" "opened_in m min_mysql_openat_lseek_26_0_body21 = [
      Some ''./var/tmp/'', Some ''./var/tmp/'', Some ''./var/tmp/'', Some ''./var/tmp/'', Some ''./var/tmp/'',
      Some ''./var/tmp/'', Some ''./var/tmp/'', Some ''./var/tmp/'']"
  by (simp_all add: min_mysql_openat_lseek_26_0_body21_def prog_checks open_checks)

lemma min_mysql_openat_lseek_26_0_body22_ok: "body_ok 157 0 min_mysql_openat_lseek_26_0_body22" "counted min_mysql_openat_lseek_26_0_body22" "calls min_mysql_openat_lseek_26_0_body22 = 12" "opened_in m min_mysql_openat_lseek_26_0_body22 = [
      Some ''./var/tmp/'', Some ''./var/tmp/'', Some ''./var/tmp/'', Some ''./var/tmp/'', Some ''./var/tmp/'',
      Some ''./var/tmp/'', Some ''./var/tmp/'', Some ''./var/tmp/'']"
  by (simp_all add: min_mysql_openat_lseek_26_0_body22_def prog_checks open_checks)

lemma min_mysql_openat_lseek_26_0_body23_ok: "body_ok 157 0 min_mysql_openat_lseek_26_0_body23" "counted min_mysql_openat_lseek_26_0_body23" "calls min_mysql_openat_lseek_26_0_body23 = 12" "opened_in m min_mysql_openat_lseek_26_0_body23 = [
      Some ''./var/tmp/'', Some ''./var/tmp/'', Some ''./var/tmp/'', Some ''./var/tmp/'', Some ''./var/tmp/'',
      Some ''./var/tmp/'', Some ''./var/tmp/'', Some ''./var/tmp/'']"
  by (simp_all add: min_mysql_openat_lseek_26_0_body23_def prog_checks open_checks)

lemma min_mysql_openat_lseek_26_0_body24_ok: "body_ok 157 0 min_mysql_openat_lseek_26_0_body24" "counted min_mysql_openat_lseek_26_0_body24" "calls min_mysql_openat_lseek_26_0_body24 = 12" "opened_in m min_mysql_openat_lseek_26_0_body24 = [
      Some ''./var/tmp/'', Some ''./var/tmp/'', Some ''./var/tmp/'', Some ''./var/tmp/'', Some ''./var/tmp/'',
      Some ''./var/tmp/'', Some ''./var/tmp/'', Some ''./var/tmp/'']"
  by (simp_all add: min_mysql_openat_lseek_26_0_body24_def prog_checks open_checks)

lemma min_mysql_openat_lseek_26_0_body25_ok: "body_ok 157 0 min_mysql_openat_lseek_26_0_body25" "counted min_mysql_openat_lseek_26_0_body25" "calls min_mysql_openat_lseek_26_0_body25 = 12" "opened_in m min_mysql_openat_lseek_26_0_body25 = [
      Some ''./var/tmp/'', Some ''./var/tmp/'', Some ''./var/tmp/'', Some ''./var/tmp/'', Some ''./var/tmp/'',
      Some ''./var/tmp/'', Some ''./var/tmp/'', Some ''./var/tmp/'']"
  by (simp_all add: min_mysql_openat_lseek_26_0_body25_def prog_checks open_checks)

lemma min_mysql_openat_lseek_26_0_body26_ok: "body_ok 157 0 min_mysql_openat_lseek_26_0_body26" "counted min_mysql_openat_lseek_26_0_body26" "calls min_mysql_openat_lseek_26_0_body26 = 12" "opened_in m min_mysql_openat_lseek_26_0_body26 = [
      Some ''./var/tmp/'', Some ''./var/tmp/'', Some ''./var/tmp/'', Some ''./var/tmp/'', Some ''./var/tmp/'',
      Some ''./var/tmp/'', Some ''./var/tmp/'', Some ''./var/tmp/'']"
  by (simp_all add: min_mysql_openat_lseek_26_0_body26_def prog_checks open_checks)

lemma min_mysql_openat_lseek_26_0_body27_ok: "body_ok 157 0 min_mysql_openat_lseek_26_0_body27" "counted min_mysql_openat_lseek_26_0_body27" "calls min_mysql_openat_lseek_26_0_body27 = 12" "opened_in m min_mysql_openat_lseek_26_0_body27 = [
      Some ''./var/tmp/'', Some ''./var/tmp/'', Some ''./var/tmp/'', Some ''./var/tmp/'', Some ''./var/tmp/'',
      Some ''./var/tmp/'', Some ''./var/tmp/'', Some ''./var/tmp/'']"
  by (simp_all add: min_mysql_openat_lseek_26_0_body27_def prog_checks open_checks)

lemma min_mysql_openat_lseek_26_0_body28_ok: "body_ok 157 0 min_mysql_openat_lseek_26_0_body28" "counted min_mysql_openat_lseek_26_0_body28" "calls min_mysql_openat_lseek_26_0_body28 = 12" "opened_in m min_mysql_openat_lseek_26_0_body28 = [
      Some ''./var/tmp/'', Some ''./var/tmp/'', Some ''./var/tmp/'', Some ''./var/tmp/'', Some ''./var/tmp/'',
      Some ''./var/tmp/'', Some ''./var/tmp/'', Some ''./var/tmp/'']"
  by (simp_all add: min_mysql_openat_lseek_26_0_body28_def prog_checks open_checks)

lemma min_mysql_openat_lseek_26_0_body29_ok: "body_ok 157 0 min_mysql_openat_lseek_26_0_body29" "counted min_mysql_openat_lseek_26_0_body29" "calls min_mysql_openat_lseek_26_0_body29 = 12" "opened_in m min_mysql_openat_lseek_26_0_body29 = [
      Some ''./var/tmp/'', Some ''./var/tmp/'', Some ''./var/tmp/'', Some ''./var/tmp/'', Some ''./var/tmp/'',
      Some ''./var/tmp/'', Some ''./var/tmp/'', Some ''./var/tmp/'']"
  by (simp_all add: min_mysql_openat_lseek_26_0_body29_def prog_checks open_checks)

lemma min_mysql_openat_lseek_26_0_body30_ok: "body_ok 157 0 min_mysql_openat_lseek_26_0_body30" "counted min_mysql_openat_lseek_26_0_body30" "calls min_mysql_openat_lseek_26_0_body30 = 12" "opened_in m min_mysql_openat_lseek_26_0_body30 = [
      Some ''./var/tmp/'', Some ''./var/tmp/'', Some ''./var/tmp/'', Some ''./var/tmp/'', Some ''./var/tmp/'',
      Some ''./var/tmp/'', Some ''./var/tmp/'', Some ''./var/tmp/'']"
  by (simp_all add: min_mysql_openat_lseek_26_0_body30_def prog_checks open_checks)

lemma min_mysql_openat_lseek_26_0_body31_ok: "body_ok 157 0 min_mysql_openat_lseek_26_0_body31" "counted min_mysql_openat_lseek_26_0_body31" "calls min_mysql_openat_lseek_26_0_body31 = 12" "opened_in m min_mysql_openat_lseek_26_0_body31 = [
      Some ''./var/tmp/'', Some ''./var/tmp/'', Some ''./var/tmp/'', Some ''./var/tmp/'', Some ''./var/tmp/'',
      Some ''./var/tmp/'', Some ''./var/tmp/'', Some ''./var/tmp/'']"
  by (simp_all add: min_mysql_openat_lseek_26_0_body31_def prog_checks open_checks)

lemma min_mysql_openat_lseek_26_0_body32_ok: "body_ok 157 0 min_mysql_openat_lseek_26_0_body32" "counted min_mysql_openat_lseek_26_0_body32" "calls min_mysql_openat_lseek_26_0_body32 = 12" "opened_in m min_mysql_openat_lseek_26_0_body32 = [
      Some ''./var/tmp/'', Some ''./var/tmp/'', Some ''./var/tmp/'', Some ''./var/tmp/'', Some ''./var/tmp/'',
      Some ''./var/tmp/'', Some ''./var/tmp/'', Some ''./var/tmp/'']"
  by (simp_all add: min_mysql_openat_lseek_26_0_body32_def prog_checks open_checks)

lemma min_mysql_openat_lseek_26_0_body33_ok: "body_ok 157 0 min_mysql_openat_lseek_26_0_body33" "counted min_mysql_openat_lseek_26_0_body33" "calls min_mysql_openat_lseek_26_0_body33 = 12" "opened_in m min_mysql_openat_lseek_26_0_body33 = [
      Some ''./var/tmp/'', Some ''./var/tmp/'', Some ''./var/tmp/'', Some ''./var/tmp/'', Some ''./var/tmp/'',
      Some ''./var/tmp/'', Some ''./var/tmp/'', Some ''./var/tmp/'']"
  by (simp_all add: min_mysql_openat_lseek_26_0_body33_def prog_checks open_checks)

lemma min_mysql_openat_lseek_26_0_body34_ok: "body_ok 157 0 min_mysql_openat_lseek_26_0_body34" "counted min_mysql_openat_lseek_26_0_body34" "calls min_mysql_openat_lseek_26_0_body34 = 12" "opened_in m min_mysql_openat_lseek_26_0_body34 = [
      Some ''./var/tmp/'', Some ''./var/tmp/'', Some ''./var/tmp/'', Some ''./var/tmp/'', Some ''./var/tmp/'',
      Some ''./var/tmp/'', Some ''./var/tmp/'', Some ''./var/tmp/'']"
  by (simp_all add: min_mysql_openat_lseek_26_0_body34_def prog_checks open_checks)

lemma min_mysql_openat_lseek_26_0_body35_ok: "body_ok 157 0 min_mysql_openat_lseek_26_0_body35" "counted min_mysql_openat_lseek_26_0_body35" "calls min_mysql_openat_lseek_26_0_body35 = 12" "opened_in m min_mysql_openat_lseek_26_0_body35 = [
      Some ''./var/tmp/'', Some ''./var/tmp/'', Some ''./var/tmp/'', Some ''./var/tmp/'', Some ''./var/tmp/'',
      Some ''./var/tmp/'', Some ''./var/tmp/'', Some ''./var/tmp/'']"
  by (simp_all add: min_mysql_openat_lseek_26_0_body35_def prog_checks open_checks)

lemma min_mysql_openat_lseek_26_0_body36_ok: "body_ok 157 0 min_mysql_openat_lseek_26_0_body36" "counted min_mysql_openat_lseek_26_0_body36" "calls min_mysql_openat_lseek_26_0_body36 = 12" "opened_in m min_mysql_openat_lseek_26_0_body36 = [
      Some ''./var/tmp/'', Some ''./var/tmp/'', Some ''./var/tmp/'', Some ''./var/tmp/'', Some ''./var/tmp/'',
      Some ''./var/tmp/'', Some ''./var/tmp/'', Some ''./var/tmp/'']"
  by (simp_all add: min_mysql_openat_lseek_26_0_body36_def prog_checks open_checks)

lemma min_mysql_openat_lseek_26_0_body37_ok: "body_ok 157 0 min_mysql_openat_lseek_26_0_body37" "counted min_mysql_openat_lseek_26_0_body37" "calls min_mysql_openat_lseek_26_0_body37 = 12" "opened_in m min_mysql_openat_lseek_26_0_body37 = [
      Some ''./var/tmp/'', Some ''./var/tmp/'', Some ''./var/tmp/'', Some ''./var/tmp/'', Some ''./var/tmp/'',
      Some ''./var/tmp/'', Some ''./var/tmp/'', Some ''./var/tmp/'']"
  by (simp_all add: min_mysql_openat_lseek_26_0_body37_def prog_checks open_checks)

lemma min_mysql_openat_lseek_26_0_body38_ok: "body_ok 157 0 min_mysql_openat_lseek_26_0_body38" "counted min_mysql_openat_lseek_26_0_body38" "calls min_mysql_openat_lseek_26_0_body38 = 12" "opened_in m min_mysql_openat_lseek_26_0_body38 = [
      Some ''./var/tmp/'', Some ''./var/tmp/'', Some ''./var/tmp/'', Some ''./var/tmp/'', Some ''./var/tmp/'',
      Some ''./var/tmp/'', Some ''./var/tmp/'', Some ''./var/tmp/'']"
  by (simp_all add: min_mysql_openat_lseek_26_0_body38_def prog_checks open_checks)

lemma min_mysql_openat_lseek_26_0_body39_ok: "body_ok 157 0 min_mysql_openat_lseek_26_0_body39" "counted min_mysql_openat_lseek_26_0_body39" "calls min_mysql_openat_lseek_26_0_body39 = 12" "opened_in m min_mysql_openat_lseek_26_0_body39 = [
      Some ''./var/tmp/'', Some ''./var/tmp/'', Some ''./var/tmp/'', Some ''./var/tmp/'', Some ''./var/tmp/'',
      Some ''./var/tmp/'', Some ''./var/tmp/'']"
  by (simp_all add: min_mysql_openat_lseek_26_0_body39_def prog_checks open_checks)

lemma min_mysql_openat_lseek_26_0_body40_ok: "body_ok 157 0 min_mysql_openat_lseek_26_0_body40" "counted min_mysql_openat_lseek_26_0_body40" "calls min_mysql_openat_lseek_26_0_body40 = 3" "opened_in m min_mysql_openat_lseek_26_0_body40 = [Some ''./var/tmp/'', Some ''./var/tmp/'']"
  by (simp_all add: min_mysql_openat_lseek_26_0_body40_def prog_checks open_checks)

lemmas min_mysql_openat_lseek_26_0_bodies =
  min_mysql_openat_lseek_26_0_body1_ok min_mysql_openat_lseek_26_0_body2_ok
  min_mysql_openat_lseek_26_0_body3_ok min_mysql_openat_lseek_26_0_body4_ok
  min_mysql_openat_lseek_26_0_body5_ok min_mysql_openat_lseek_26_0_body6_ok
  min_mysql_openat_lseek_26_0_body7_ok min_mysql_openat_lseek_26_0_body8_ok
  min_mysql_openat_lseek_26_0_body9_ok min_mysql_openat_lseek_26_0_body10_ok
  min_mysql_openat_lseek_26_0_body11_ok min_mysql_openat_lseek_26_0_body12_ok
  min_mysql_openat_lseek_26_0_body13_ok min_mysql_openat_lseek_26_0_body14_ok
  min_mysql_openat_lseek_26_0_body15_ok min_mysql_openat_lseek_26_0_body16_ok
  min_mysql_openat_lseek_26_0_body17_ok min_mysql_openat_lseek_26_0_body18_ok
  min_mysql_openat_lseek_26_0_body19_ok min_mysql_openat_lseek_26_0_body20_ok
  min_mysql_openat_lseek_26_0_body21_ok min_mysql_openat_lseek_26_0_body22_ok
  min_mysql_openat_lseek_26_0_body23_ok min_mysql_openat_lseek_26_0_body24_ok
  min_mysql_openat_lseek_26_0_body25_ok min_mysql_openat_lseek_26_0_body26_ok
  min_mysql_openat_lseek_26_0_body27_ok min_mysql_openat_lseek_26_0_body28_ok
  min_mysql_openat_lseek_26_0_body29_ok min_mysql_openat_lseek_26_0_body30_ok
  min_mysql_openat_lseek_26_0_body31_ok min_mysql_openat_lseek_26_0_body32_ok
  min_mysql_openat_lseek_26_0_body33_ok min_mysql_openat_lseek_26_0_body34_ok
  min_mysql_openat_lseek_26_0_body35_ok min_mysql_openat_lseek_26_0_body36_ok
  min_mysql_openat_lseek_26_0_body37_ok min_mysql_openat_lseek_26_0_body38_ok
  min_mysql_openat_lseek_26_0_body39_ok min_mysql_openat_lseek_26_0_body40_ok

lemma min_mysql_openat_lseek_26_0_ok: "prog_ok min_mysql_openat_lseek_26_0" "calls (body min_mysql_openat_lseek_26_0) = 470"
  by (simp_all add: prog_ok_def counted_append prog_checks min_mysql_openat_lseek_26_0_def min_mysql_openat_lseek_26_0_regs_def min_mysql_openat_lseek_26_0_bodies)

end
