(* ===== verification/CSB_Progs_Rocksdb_d.thy ===== *)
theory CSB_Progs_Rocksdb_d
  imports CSB_Syz_Files
begin

text \<open>
  Bodies of generated targets of bench/targets/rocksdb, statement by statement in the order of the
  files syz/<name>.h, and the targets made of them (the files <name>.h). Each passes the check.
\<close>

section \<open>min\_rocks\_pread64\_fcntl\_67\_0\<close>

definition min_rocks_pread64_fcntl_67_0_body1 :: "stmt list" where
  "min_rocks_pread64_fcntl_67_0_body1 = [
    Memcpy 0x20d24b40 (with_nul ''./tmp/rocksdb_db/000032.sst'') 28,
    Syscall NR_openat [Dir_fd, Ptr 0x20d24b40, Imm 0x80040, Imm 0x1ff], Count, Save_res 0,
    Syscall NR_fcntl [Reg 0, Imm 1, Imm 0], Count, Syscall NR_fcntl [Reg 0, Imm 2, Imm 1], Count,
    Syscall NR_pread64 [Reg 0, Ptr 0x20cf5300, Imm 0x8a5, Imm 0x36fb8b], Count,
    Syscall NR_pread64 [Reg 0, Ptr 0x20d252c0, Imm 0x8a7, Imm 0x2a192b], Count,
    Syscall NR_pread64 [Reg 0, Ptr 0x20d4dd80, Imm 0x8a5, Imm 0x17f0c9], Count,
    Syscall NR_pread64 [Reg 0, Ptr 0x20d6f680, Imm 0x8a8, Imm 0x4ab219], Count,
    Syscall NR_pread64 [Reg 0, Ptr 0x20d939c0, Imm 0x8a5, Imm 0x247c6e], Count,
    Syscall NR_pread64 [Reg 0, Ptr 0x20d95c00, Imm 0x8aa, Imm 0x285fdb], Count,
    Syscall NR_pread64 [Reg 0, Ptr 0x20e73bc0, Imm 0x8ab, Imm 0x400b69], Count,
    Syscall NR_pread64 [Reg 0, Ptr 0x20e86f40, Imm 0x8a8, Imm 0x8d36c], Count,
    Syscall NR_pread64 [Reg 0, Ptr 0x20e92b80, Imm 0x8a7, Imm 0x15a69], Count]"

definition min_rocks_pread64_fcntl_67_0_body2 :: "stmt list" where
  "min_rocks_pread64_fcntl_67_0_body2 = [
    Syscall NR_pread64 [Reg 0, Ptr 0x20eba2c0, Imm 0x8aa, Imm 0x1939ef], Count,
    Syscall NR_pread64 [Reg 0, Ptr 0x20ee7980, Imm 0x8a8, Imm 0xfed5e], Count,
    Syscall NR_pread64 [Reg 0, Ptr 0x20f09d80, Imm 0x8a7, Imm 0x33d68f], Count,
    Syscall NR_pread64 [Reg 0, Ptr 0x20f35b00, Imm 0x8a6, Imm 0x374975], Count,
    Syscall NR_pread64 [Reg 0, Ptr 0x20f3dac0, Imm 0x8a9, Imm 0x2e64e4], Count,
    Syscall NR_pread64 [Reg 0, Ptr 0x20f50e80, Imm 0x8ac, Imm 0x38671f], Count,
    Syscall NR_pread64 [Reg 0, Ptr 0x20f6ec00, Imm 0x8aa, Imm 0x39b8e0], Count,
    Syscall NR_pread64 [Reg 0, Ptr 0x20fadcc0, Imm 0x8a7, Imm 0xfa816], Count,
    Syscall NR_pread64 [Reg 0, Ptr 0x20fbcc80, Imm 0x8b1, Imm 0x301e54], Count,
    Syscall NR_pread64 [Reg 0, Ptr 0x20fc4400, Imm 0x8ab, Imm 0x43c3cf], Count,
    Syscall NR_pread64 [Reg 0, Ptr 0x20ffc980, Imm 0x8ac, Imm 0x3eeddb], Count,
    Syscall NR_pread64 [Reg 0, Ptr 0x20019a00, Imm 0x8a7, Imm 0x1e0713], Count,
    Syscall NR_pread64 [Reg 0, Ptr 0x200509c0, Imm 0x8a3, Imm 0x9f99c], Count]"

definition min_rocks_pread64_fcntl_67_0_body3 :: "stmt list" where
  "min_rocks_pread64_fcntl_67_0_body3 = [
    Syscall NR_pread64 [Reg 0, Ptr 0x2006cf40, Imm 0x8aa, Imm 0x18840c], Count,
    Syscall NR_pread64 [Reg 0, Ptr 0x2007ad00, Imm 0x8a9, Imm 0x361f3], Count,
    Syscall NR_pread64 [Reg 0, Ptr 0x20080280, Imm 0x8a8, Imm 0x275c26], Count,
    Syscall NR_pread64 [Reg 0, Ptr 0x201417c0, Imm 0x8a0, Imm 0x29976d], Count,
    Syscall NR_pread64 [Reg 0, Ptr 0x2014ffc0, Imm 0x8a1, Imm 0x19e706], Count,
    Syscall NR_pread64 [Reg 0, Ptr 0x20163c00, Imm 0x8a9, Imm 0x10f9af], Count,
    Syscall NR_pread64 [Reg 0, Ptr 0x20178a40, Imm 0x8a5, Imm 0x1438ad], Count,
    Syscall NR_pread64 [Reg 0, Ptr 0x2018fa00, Imm 0x8a8, Imm 0x9334], Count,
    Syscall NR_pread64 [Reg 0, Ptr 0x2019bf00, Imm 0x8a3, Imm 0xc9cf8], Count,
    Syscall NR_pread64 [Reg 0, Ptr 0x201a0b80, Imm 0x8a8, Imm 0x32146a], Count,
    Syscall NR_pread64 [Reg 0, Ptr 0x201c3fc0, Imm 0x8a6, Imm 0x420a34], Count,
    Syscall NR_pread64 [Reg 0, Ptr 0x201d6300, Imm 0x8aa, Imm 0x333ac1], Count,
    Syscall NR_pread64 [Reg 0, Ptr 0x201da740, Imm 0x8a3, Imm 0x2e5c41], Count]"

definition min_rocks_pread64_fcntl_67_0_body4 :: "stmt list" where
  "min_rocks_pread64_fcntl_67_0_body4 = [
    Syscall NR_pread64 [Reg 0, Ptr 0x20215d00, Imm 0x8a9, Imm 0x45f676], Count,
    Syscall NR_pread64 [Reg 0, Ptr 0x20229140, Imm 0x8a2, Imm 0x3189ec], Count,
    Syscall NR_pread64 [Reg 0, Ptr 0x20238940, Imm 0x8a4, Imm 0x98088], Count,
    Syscall NR_pread64 [Reg 0, Ptr 0x20251240, Imm 0x8af, Imm 0x18ebfb], Count,
    Syscall NR_pread64 [Reg 0, Ptr 0x20272c40, Imm 0x8a7, Imm 0x1bee6b], Count,
    Syscall NR_pread64 [Reg 0, Ptr 0x2027cec0, Imm 0x8a1, Imm 0x14c30f], Count,
    Syscall NR_pread64 [Reg 0, Ptr 0x202cca00, Imm 0x8a4, Imm 0x283d35], Count,
    Syscall NR_pread64 [Reg 0, Ptr 0x2030c180, Imm 0x8a9, Imm 0x1b8683], Count,
    Syscall NR_pread64 [Reg 0, Ptr 0x20319780, Imm 0x8ac, Imm 0x30cb73], Count,
    Syscall NR_pread64 [Reg 0, Ptr 0x20363380, Imm 0x8a8, Imm 0x2635db], Count,
    Syscall NR_pread64 [Reg 0, Ptr 0x20374580, Imm 0x8a7, Imm 0x260aa1], Count,
    Syscall NR_pread64 [Reg 0, Ptr 0x2037bd80, Imm 0x8a8, Imm 0x43ddc6], Count,
    Syscall NR_pread64 [Reg 0, Ptr 0x203824c0, Imm 0x8a6, Imm 0x194b3d], Count]"

definition min_rocks_pread64_fcntl_67_0_body5 :: "stmt list" where
  "min_rocks_pread64_fcntl_67_0_body5 = [
    Syscall NR_pread64 [Reg 0, Ptr 0x2039d880, Imm 0x8aa, Imm 0x1e9a24], Count,
    Syscall NR_pread64 [Reg 0, Ptr 0x2040ba40, Imm 0x8a6, Imm 0x1c704c], Count,
    Syscall NR_pread64 [Reg 0, Ptr 0x2042ed40, Imm 0x8a3, Imm 0x1ba07e], Count,
    Syscall NR_pread64 [Reg 0, Ptr 0x204331c0, Imm 0x8af, Imm 0x319b38], Count,
    Syscall NR_pread64 [Reg 0, Ptr 0x204722c0, Imm 0x8a4, Imm 0x2f9c80], Count,
    Syscall NR_pread64 [Reg 0, Ptr 0x20478900, Imm 0x8a6, Imm 0x19aa6d], Count,
    Syscall NR_pread64 [Reg 0, Ptr 0x20486fc0, Imm 0x8a7, Imm 0x41f03c], Count,
    Syscall NR_pread64 [Reg 0, Ptr 0x204b5a00, Imm 0x8a5, Imm 0x37b9fb], Count,
    Syscall NR_pread64 [Reg 0, Ptr 0x204bb800, Imm 0x8a6, Imm 0x2bf567], Count,
    Syscall NR_pread64 [Reg 0, Ptr 0x204f86c0, Imm 0x8a5, Imm 0x290453], Count,
    Syscall NR_pread64 [Reg 0, Ptr 0x20545500, Imm 0x8aa, Imm 0x23a404], Count,
    Syscall NR_pread64 [Reg 0, Ptr 0x20548880, Imm 0x8a5, Imm 0x306c3f], Count,
    Syscall NR_pread64 [Reg 0, Ptr 0x2058acc0, Imm 0x8ac, Imm 0x12cd1f], Count]"

definition min_rocks_pread64_fcntl_67_0_body6 :: "stmt list" where
  "min_rocks_pread64_fcntl_67_0_body6 = [
    Syscall NR_pread64 [Reg 0, Ptr 0x20595000, Imm 0x8a9, Imm 0x129085], Count,
    Syscall NR_pread64 [Reg 0, Ptr 0x205a1480, Imm 0x8a8, Imm 0x2dc8ff], Count,
    Syscall NR_pread64 [Reg 0, Ptr 0x205aae40, Imm 0x8a7, Imm 0x4666f1], Count,
    Syscall NR_pread64 [Reg 0, Ptr 0x205c6c00, Imm 0x8a6, Imm 0x1b5294], Count,
    Syscall NR_pread64 [Reg 0, Ptr 0x205eb200, Imm 0x8a4, Imm 0xba1e8], Count,
    Syscall NR_pread64 [Reg 0, Ptr 0x205f2100, Imm 0x8af, Imm 0xffeae], Count,
    Syscall NR_pread64 [Reg 0, Ptr 0x20629ac0, Imm 0x8ac, Imm 0x2fadcb], Count,
    Syscall NR_pread64 [Reg 0, Ptr 0x2062f900, Imm 0x8a3, Imm 0x4e76c], Count,
    Syscall NR_pread64 [Reg 0, Ptr 0x2063fa00, Imm 0x8a6, Imm 0x61646], Count,
    Syscall NR_pread64 [Reg 0, Ptr 0x2065e140, Imm 0x8a5, Imm 0x296c2a], Count,
    Syscall NR_pread64 [Reg 0, Ptr 0x2067ad80, Imm 0x8a6, Imm 0x33436b], Count,
    Syscall NR_pread64 [Reg 0, Ptr 0x206b36c0, Imm 0x8a3, Imm 0x423e28], Count,
    Syscall NR_pread64 [Reg 0, Ptr 0x206dd280, Imm 0x8a8, Imm 0x356d3c], Count]"

definition min_rocks_pread64_fcntl_67_0_body7 :: "stmt list" where
  "min_rocks_pread64_fcntl_67_0_body7 = [
    Syscall NR_pread64 [Reg 0, Ptr 0x2071e500, Imm 0x8a4, Imm 0x195c8c], Count,
    Syscall NR_pread64 [Reg 0, Ptr 0x2074bc80, Imm 0x8aa, Imm 0x342468], Count,
    Syscall NR_pread64 [Reg 0, Ptr 0x20773600, Imm 0x8a7, Imm 0x1662ab], Count,
    Syscall NR_pread64 [Reg 0, Ptr 0x207a2540, Imm 0x8a3, Imm 0x407bf1], Count,
    Syscall NR_pread64 [Reg 0, Ptr 0x207b9dc0, Imm 0x8a6, Imm 0x3b3e69], Count,
    Syscall NR_pread64 [Reg 0, Ptr 0x207c7480, Imm 0x8a2, Imm 0x209037], Count,
    Syscall NR_pread64 [Reg 0, Ptr 0x207e3940, Imm 0x8a8, Imm 0xf7cce], Count,
    Syscall NR_pread64 [Reg 0, Ptr 0x2081d380, Imm 0x8a8, Imm 0xcd0da], Count,
    Syscall NR_pread64 [Reg 0, Ptr 0x20829700, Imm 0x8a4, Imm 0x34d171], Count,
    Syscall NR_pread64 [Reg 0, Ptr 0x20886ec0, Imm 0x8ad, Imm 0x3f55ad], Count,
    Syscall NR_pread64 [Reg 0, Ptr 0x2089f780, Imm 0x8a3, Imm 0x9ce61], Count,
    Syscall NR_pread64 [Reg 0, Ptr 0x208dadc0, Imm 0x8a3, Imm 0x2a2a7b], Count,
    Syscall NR_pread64 [Reg 0, Ptr 0x208f3600, Imm 0x8b2, Imm 0xa2d7e], Count]"

definition min_rocks_pread64_fcntl_67_0_body8 :: "stmt list" where
  "min_rocks_pread64_fcntl_67_0_body8 = [
    Syscall NR_pread64 [Reg 0, Ptr 0x2091bf40, Imm 0x8a4, Imm 0x2d83aa], Count,
    Syscall NR_pread64 [Reg 0, Ptr 0x209247c0, Imm 0x8a1, Imm 0x3959b1], Count,
    Syscall NR_pread64 [Reg 0, Ptr 0x2092ae40, Imm 0x8a1, Imm 0x44e178], Count,
    Syscall NR_pread64 [Reg 0, Ptr 0x2093e100, Imm 0x8ab, Imm 0x1cd821], Count,
    Syscall NR_pread64 [Reg 0, Ptr 0x209551c0, Imm 0x8a6, Imm 0x27f7f4], Count,
    Syscall NR_pread64 [Reg 0, Ptr 0x20960540, Imm 0x8a8, Imm 0x11dac9], Count,
    Syscall NR_pread64 [Reg 0, Ptr 0x2099f640, Imm 0x8a7, Imm 0], Count,
    Syscall NR_pread64 [Reg 0, Ptr 0x209d6700, Imm 0x8ad, Imm 0x235ebd], Count,
    Syscall NR_pread64 [Reg 0, Ptr 0x20a2bc00, Imm 0x8a6, Imm 0x1404c0], Count,
    Syscall NR_pread64 [Reg 0, Ptr 0x20a30080, Imm 0x8a7, Imm 0x430ddc], Count,
    Syscall NR_pread64 [Reg 0, Ptr 0x20a3ce40, Imm 0x8a6, Imm 0x388128], Count,
    Syscall NR_pread64 [Reg 0, Ptr 0x20a44580, Imm 0x8ad, Imm 0x1ba921], Count,
    Syscall NR_pread64 [Reg 0, Ptr 0x20a5f100, Imm 0x8a9, Imm 0x41546e], Count]"

definition min_rocks_pread64_fcntl_67_0_body9 :: "stmt list" where
  "min_rocks_pread64_fcntl_67_0_body9 = [
    Syscall NR_pread64 [Reg 0, Ptr 0x20a73740, Imm 0x8a4, Imm 0x458e97], Count,
    Syscall NR_pread64 [Reg 0, Ptr 0x20a77bc0, Imm 0x8a7, Imm 0x1cb57d], Count,
    Syscall NR_pread64 [Reg 0, Ptr 0x20a8b940, Imm 0x8a5, Imm 0x362315], Count,
    Syscall NR_pread64 [Reg 0, Ptr 0x20aaa700, Imm 0x8a3, Imm 0x3ecb3e], Count,
    Syscall NR_pread64 [Reg 0, Ptr 0x20ab8f40, Imm 0x8aa, Imm 0xecfb5], Count,
    Syscall NR_pread64 [Reg 0, Ptr 0x20ac4200, Imm 0x8a8, Imm 0x3ff169], Count,
    Syscall NR_pread64 [Reg 0, Ptr 0x20ae6d00, Imm 0x8ac, Imm 0x384474], Count,
    Syscall NR_pread64 [Reg 0, Ptr 0x20b042c0, Imm 0x8aa, Imm 0x1c92e1], Count,
    Syscall NR_pread64 [Reg 0, Ptr 0x20b186c0, Imm 0x8a9, Imm 0x3db20], Count,
    Syscall NR_pread64 [Reg 0, Ptr 0x20b2b900, Imm 0x8ad, Imm 0x153c45], Count,
    Syscall NR_pread64 [Reg 0, Ptr 0x20b386c0, Imm 0x8a7, Imm 0x2134ab], Count,
    Syscall NR_pread64 [Reg 0, Ptr 0x20b3a940, Imm 0x8a8, Imm 0x493e0e], Count,
    Syscall NR_pread64 [Reg 0, Ptr 0x20b407c0, Imm 0x8a4, Imm 0x3acddf], Count]"

definition min_rocks_pread64_fcntl_67_0_body10 :: "stmt list" where
  "min_rocks_pread64_fcntl_67_0_body10 = [
    Syscall NR_pread64 [Reg 0, Ptr 0x20b490c0, Imm 0x8aa, Imm 0x4050a6], Count,
    Syscall NR_pread64 [Reg 0, Ptr 0x20b4b300, Imm 0x8a4, Imm 0xe9d5], Count,
    Syscall NR_pread64 [Reg 0, Ptr 0x20b598c0, Imm 0x8a6, Imm 0x39e95], Count,
    Syscall NR_pread64 [Reg 0, Ptr 0x20b69980, Imm 0x8a8, Imm 0x363462], Count,
    Syscall NR_pread64 [Reg 0, Ptr 0x20b6bc00, Imm 0x8a7, Imm 0x36b64b], Count,
    Syscall NR_pread64 [Reg 0, Ptr 0x20baac80, Imm 0x8a5, Imm 0x20a17e], Count,
    Syscall NR_pread64 [Reg 0, Ptr 0x20bb81c0, Imm 0x8a1, Imm 0x3f446a], Count,
    Syscall NR_pread64 [Reg 0, Ptr 0x20bce800, Imm 0x8a4, Imm 0xcfc26], Count,
    Syscall NR_pread64 [Reg 0, Ptr 0x20bfb500, Imm 0x8a4, Imm 0x45dc85], Count,
    Syscall NR_pread64 [Reg 0, Ptr 0x20bfe000, Imm 0x8a9, Imm 0x3a1817], Count,
    Syscall NR_pread64 [Reg 0, Ptr 0x20c03e00, Imm 0x8ad, Imm 0xbc47e], Count,
    Syscall NR_pread64 [Reg 0, Ptr 0x20c18c40, Imm 0x8a7, Imm 0x34699e], Count,
    Syscall NR_pread64 [Reg 0, Ptr 0x20c51e40, Imm 0x8a6, Imm 0x393708], Count]"

definition min_rocks_pread64_fcntl_67_0_body11 :: "stmt list" where
  "min_rocks_pread64_fcntl_67_0_body11 = [
    Syscall NR_pread64 [Reg 0, Ptr 0x20c5f440, Imm 0x8ab, Imm 0x1faf13], Count,
    Syscall NR_pread64 [Reg 0, Ptr 0x20c68e80, Imm 0x8a9, Imm 0x16bb2], Count,
    Syscall NR_pread64 [Reg 0, Ptr 0x20c86dc0, Imm 0x8a7, Imm 0xdcc00], Count,
    Syscall NR_pread64 [Reg 0, Ptr 0x20c9d400, Imm 0x8a3, Imm 0x456353], Count,
    Syscall NR_pread64 [Reg 0, Ptr 0x20ccf880, Imm 0x8af, Imm 0x1c4daa], Count,
    Syscall NR_pread64 [Reg 0, Ptr 0x20d02440, Imm 0x8a6, Imm 0x13b6df], Count,
    Syscall NR_pread64 [Reg 0, Ptr 0x20d1e800, Imm 0x8aa, Imm 0x3fe00d], Count,
    Syscall NR_pread64 [Reg 0, Ptr 0x20d28b00, Imm 0x8a3, Imm 0x3e8609], Count,
    Syscall NR_pread64 [Reg 0, Ptr 0x20d2b580, Imm 0x8a4, Imm 0x36ea43], Count,
    Syscall NR_pread64 [Reg 0, Ptr 0x20d52e80, Imm 0x8a6, Imm 0x3d0083], Count,
    Syscall NR_pread64 [Reg 0, Ptr 0x20d9f600, Imm 0x8b4, Imm 0xb87e8], Count,
    Syscall NR_pread64 [Reg 0, Ptr 0x20dd31c0, Imm 0x8ac, Imm 0x22dccb], Count,
    Syscall NR_pread64 [Reg 0, Ptr 0x20dee4c0, Imm 0x8af, Imm 0x39a786], Count]"

definition min_rocks_pread64_fcntl_67_0_body12 :: "stmt list" where
  "min_rocks_pread64_fcntl_67_0_body12 = [
    Syscall NR_pread64 [Reg 0, Ptr 0x20df5d40, Imm 0x8a4, Imm 0x3dd042], Count,
    Syscall NR_pread64 [Reg 0, Ptr 0x20e19a80, Imm 0x8a3, Imm 0x2d3e6b], Count,
    Syscall NR_pread64 [Reg 0, Ptr 0x20e3acc0, Imm 0x8ac, Imm 0x31ca7], Count,
    Syscall NR_pread64 [Reg 0, Ptr 0x20e60300, Imm 0x8a8, Imm 0x4dec4], Count,
    Syscall NR_pread64 [Reg 0, Ptr 0x20e74940, Imm 0x8aa, Imm 0xa9e17], Count,
    Syscall NR_pread64 [Reg 0, Ptr 0x20e91800, Imm 0x8a6, Imm 0x4a41a5], Count,
    Syscall NR_pread64 [Reg 0, Ptr 0x20e94bc0, Imm 0x8aa, Imm 0x285fdb], Count,
    Syscall NR_pread64 [Reg 0, Ptr 0x20eeff80, Imm 0x8a6, Imm 0x33b3f6], Count,
    Syscall NR_pread64 [Reg 0, Ptr 0x20ef7780, Imm 0x8a8, Imm 0x17665b], Count,
    Syscall NR_pread64 [Reg 0, Ptr 0x20f01200, Imm 0x8a3, Imm 0x20aa23], Count,
    Syscall NR_pread64 [Reg 0, Ptr 0x20f37140, Imm 0x8a6, Imm 0x71155], Count,
    Syscall NR_pread64 [Reg 0, Ptr 0x20f3b5c0, Imm 0x8a7, Imm 0x2683c7], Count,
    Syscall NR_pread64 [Reg 0, Ptr 0x20f6bfc0, Imm 0x8a5, Imm 0x106f2b], Count]"

definition min_rocks_pread64_fcntl_67_0_body13 :: "stmt list" where
  "min_rocks_pread64_fcntl_67_0_body13 = [
    Syscall NR_pread64 [Reg 0, Ptr 0x20f8f380, Imm 0x8a9, Imm 0x27aa05], Count,
    Syscall NR_pread64 [Reg 0, Ptr 0x20fadc40, Imm 0x8af, Imm 0x385e70], Count,
    Syscall NR_pread64 [Reg 0, Ptr 0x20fba100, Imm 0x8a6, Imm 0x291e47], Count,
    Syscall NR_pread64 [Reg 0, Ptr 0x20fc9000, Imm 0x8a3, Imm 0x30ee15], Count,
    Syscall NR_pread64 [Reg 0, Ptr 0x20013280, Imm 0x8a6, Imm 0x22ba2b], Count,
    Syscall NR_pread64 [Reg 0, Ptr 0x200391c0, Imm 0x8a5, Imm 0x88591], Count,
    Syscall NR_pread64 [Reg 0, Ptr 0x2005c780, Imm 0x8a3, Imm 0x16969e], Count,
    Syscall NR_pread64 [Reg 0, Ptr 0x200c7b80, Imm 0x8a5, Imm 0x3b94f6], Count,
    Syscall NR_pread64 [Reg 0, Ptr 0x200f48c0, Imm 0x8a7, Imm 0x21e1c9], Count,
    Syscall NR_pread64 [Reg 0, Ptr 0x201115c0, Imm 0x8ab, Imm 0x442bbe], Count,
    Syscall NR_pread64 [Reg 0, Ptr 0x20119ec0, Imm 0x8ac, Imm 0xef250], Count,
    Syscall NR_pread64 [Reg 0, Ptr 0x20130580, Imm 0x8ad, Imm 0x22e577], Count,
    Syscall NR_pread64 [Reg 0, Ptr 0x2013ecc0, Imm 0x8a8, Imm 0x120609], Count]"

definition min_rocks_pread64_fcntl_67_0_body14 :: "stmt list" where
  "min_rocks_pread64_fcntl_67_0_body14 = [
    Syscall NR_pread64 [Reg 0, Ptr 0x2018a040, Imm 0x8a7, Imm 0x6eeba], Count,
    Syscall NR_pread64 [Reg 0, Ptr 0x2018e4c0, Imm 0x8a4, Imm 0x3f6700], Count,
    Syscall NR_pread64 [Reg 0, Ptr 0x2020ea40, Imm 0x8b2, Imm 0x4795ef], Count,
    Syscall NR_pread64 [Reg 0, Ptr 0x2021ea40, Imm 0x8ab, Imm 0x48884e], Count,
    Syscall NR_pread64 [Reg 0, Ptr 0x20224080, Imm 0x8a5, Imm 0x2ea184], Count,
    Syscall NR_pread64 [Reg 0, Ptr 0x2025cbc0, Imm 0x8a7, Imm 0x38c67b], Count,
    Syscall NR_pread64 [Reg 0, Ptr 0x2029a300, Imm 0x8a7, Imm 0x2a9b09], Count,
    Syscall NR_pread64 [Reg 0, Ptr 0x202cb5c0, Imm 0x8ad, Imm 0x25bcb1], Count,
    Syscall NR_pread64 [Reg 0, Ptr 0x202da4c0, Imm 0x8a8, Imm 0x11b82d], Count,
    Syscall NR_pread64 [Reg 0, Ptr 0x202f7300, Imm 0x8a6, Imm 0x19aa6d], Count,
    Syscall NR_pread64 [Reg 0, Ptr 0x20308e00, Imm 0x8af, Imm 0x29202], Count,
    Syscall NR_pread64 [Reg 0, Ptr 0x20317c80, Imm 0x8ac, Imm 0x3c98b5], Count,
    Syscall NR_pread64 [Reg 0, Ptr 0x20331640, Imm 0x8b0, Imm 0x2ee6b5], Count]"

definition min_rocks_pread64_fcntl_67_0_body15 :: "stmt list" where
  "min_rocks_pread64_fcntl_67_0_body15 = [
    Syscall NR_pread64 [Reg 0, Ptr 0x20340f00, Imm 0x8a6, Imm 0x8519e], Count,
    Syscall NR_pread64 [Reg 0, Ptr 0x20343a00, Imm 0x8a5, Imm 0x167ca1], Count,
    Syscall NR_pread64 [Reg 0, Ptr 0x203a54c0, Imm 0x8ae, Imm 0x3d5fb2], Count,
    Syscall NR_pread64 [Reg 0, Ptr 0x203d4c00, Imm 0x8ad, Imm 0x27d54e], Count,
    Syscall NR_pread64 [Reg 0, Ptr 0x203e4d40, Imm 0x8a4, Imm 0x261bec], Count,
    Syscall NR_pread64 [Reg 0, Ptr 0x20404e00, Imm 0x8a6, Imm 0x47f528], Count,
    Syscall NR_pread64 [Reg 0, Ptr 0x2040b540, Imm 0x8a8, Imm 0x5a5c7], Count,
    Syscall NR_pread64 [Reg 0, Ptr 0x20410b40, Imm 0x8a5, Imm 0x24148f], Count,
    Syscall NR_pread64 [Reg 0, Ptr 0x204624c0, Imm 0x8a8, Imm 0x4212da], Count,
    Syscall NR_pread64 [Reg 0, Ptr 0x20474f80, Imm 0x8af, Imm 0x1368f7], Count,
    Syscall NR_pread64 [Reg 0, Ptr 0x204a5200, Imm 0x8aa, Imm 0x2d470e], Count,
    Syscall NR_pread64 [Reg 0, Ptr 0x204e1140, Imm 0x8a5, Imm 0x162eb9], Count,
    Syscall NR_pread64 [Reg 0, Ptr 0x204f3380, Imm 0x8a1, Imm 0x4784aa], Count]"

definition min_rocks_pread64_fcntl_67_0_body16 :: "stmt list" where
  "min_rocks_pread64_fcntl_67_0_body16 = [
    Syscall NR_pread64 [Reg 0, Ptr 0x204fab40, Imm 0x8a9, Imm 0x2c7750], Count,
    Syscall NR_pread64 [Reg 0, Ptr 0x20502340, Imm 0x8a5, Imm 0x943ee], Count,
    Syscall NR_pread64 [Reg 0, Ptr 0x20534480, Imm 0x8b2, Imm 0x15be24], Count,
    Syscall NR_pread64 [Reg 0, Ptr 0x20543b40, Imm 0x8a5, Imm 0x3679b0], Count,
    Syscall NR_pread64 [Reg 0, Ptr 0x2054dd00, Imm 0x8ad, Imm 0x358fe3], Count,
    Syscall NR_pread64 [Reg 0, Ptr 0x20550840, Imm 0x8a7, Imm 0xe089c], Count,
    Syscall NR_pread64 [Reg 0, Ptr 0x2055aa80, Imm 0x8af, Imm 0x183607], Count,
    Syscall NR_pread64 [Reg 0, Ptr 0x2055d580, Imm 0x8a7, Imm 0x20c421], Count,
    Syscall NR_pread64 [Reg 0, Ptr 0x2056c5c0, Imm 0x8a9, Imm 0x2b143f], Count,
    Syscall NR_pread64 [Reg 0, Ptr 0x2057b500, Imm 0x8a4, Imm 0x274ad9], Count,
    Syscall NR_pread64 [Reg 0, Ptr 0x20587a00, Imm 0x8a3, Imm 0x355bf3], Count,
    Syscall NR_pread64 [Reg 0, Ptr 0x20594740, Imm 0x8ad, Imm 0x2378be], Count,
    Syscall NR_pread64 [Reg 0, Ptr 0x205a8d00, Imm 0x8af, Imm 0x3c9006], Count]"

definition min_rocks_pread64_fcntl_67_0_body17 :: "stmt list" where
  "min_rocks_pread64_fcntl_67_0_body17 = [
    Syscall NR_pread64 [Reg 0, Ptr 0x205ae200, Imm 0x8a9, Imm 0x2e1f9c], Count,
    Syscall NR_pread64 [Reg 0, Ptr 0x20606500, Imm 0x8a4, Imm 0x212362], Count,
    Syscall NR_pread64 [Reg 0, Ptr 0x20662140, Imm 0x8a4, Imm 0x41b3a6], Count,
    Syscall NR_pread64 [Reg 0, Ptr 0x20669100, Imm 0x8a9, Imm 0x2e64e4], Count,
    Syscall NR_pread64 [Reg 0, Ptr 0x20673480, Imm 0x8a7, Imm 0x1f9dbd], Count,
    Syscall NR_pread64 [Reg 0, Ptr 0x206b9dc0, Imm 0x8ac, Imm 0x484bb1], Count,
    Syscall NR_pread64 [Reg 0, Ptr 0x206ca780, Imm 0x8aa, Imm 0x335d63], Count,
    Syscall NR_pread64 [Reg 0, Ptr 0x206e7540, Imm 0x8a3, Imm 0x1d6b45], Count,
    Syscall NR_pread64 [Reg 0, Ptr 0x206ea040, Imm 0x8a7, Imm 0xe1143], Count,
    Syscall NR_pread64 [Reg 0, Ptr 0x207309c0, Imm 0x8a4, Imm 0x35a9e4], Count,
    Syscall NR_pread64 [Reg 0, Ptr 0x20773f80, Imm 0x8a5, Imm 0x48cd8d], Count,
    Syscall NR_pread64 [Reg 0, Ptr 0x207b6480, Imm 0x8a4, Imm 0xe33e4], Count,
    Syscall NR_pread64 [Reg 0, Ptr 0x207f6f00, Imm 0x8a6, Imm 0x1e6eeb], Count]"

definition min_rocks_pread64_fcntl_67_0_body18 :: "stmt list" where
  "min_rocks_pread64_fcntl_67_0_body18 = [
    Syscall NR_pread64 [Reg 0, Ptr 0x2081f840, Imm 0x8a8, Imm 0x418857], Count,
    Syscall NR_pread64 [Reg 0, Ptr 0x2084b000, Imm 0x8a7, Imm 0x3c2820], Count,
    Syscall NR_pread64 [Reg 0, Ptr 0x208866c0, Imm 0x8a5, Imm 0x2179eb], Count,
    Syscall NR_pread64 [Reg 0, Ptr 0x2088ff80, Imm 0x8ac, Imm 0x3e26d5], Count,
    Syscall NR_pread64 [Reg 0, Ptr 0x20892b00, Imm 0x8a3, Imm 0x423e28], Count,
    Syscall NR_pread64 [Reg 0, Ptr 0x2092d200, Imm 0x8a6, Imm 0x3b132a], Count,
    Syscall NR_pread64 [Reg 0, Ptr 0x20986d00, Imm 0x8aa, Imm 0x253ad5], Count,
    Syscall NR_pread64 [Reg 0, Ptr 0x209dee80, Imm 0x8a5, Imm 0x11a6e1], Count,
    Syscall NR_pread64 [Reg 0, Ptr 0x20a08000, Imm 0x8ad, Imm 0x16d33a], Count,
    Syscall NR_pread64 [Reg 0, Ptr 0x20a2b240, Imm 0x8b1, Imm 0x2deba5], Count,
    Syscall NR_pread64 [Reg 0, Ptr 0x20a53300, Imm 0x8a3, Imm 0x1febaf], Count,
    Syscall NR_pread64 [Reg 0, Ptr 0x20a722c0, Imm 0x8a8, Imm 0xfed5e], Count,
    Syscall NR_pread64 [Reg 0, Ptr 0x20a79a40, Imm 0x8a5, Imm 0xf279], Count]"

definition min_rocks_pread64_fcntl_67_0_body19 :: "stmt list" where
  "min_rocks_pread64_fcntl_67_0_body19 = [
    Syscall NR_pread64 [Reg 0, Ptr 0x20a7ce00, Imm 0x8a3, Imm 0x469ae5], Count,
    Syscall NR_pread64 [Reg 0, Ptr 0x20a81240, Imm 0x8a9, Imm 0x79bd6], Count,
    Syscall NR_pread64 [Reg 0, Ptr 0x20a9ef80, Imm 0x8ac, Imm 0x46ced8], Count,
    Syscall NR_pread64 [Reg 0, Ptr 0x20aabd00, Imm 0x8b0, Imm 0x3527ef], Count,
    Syscall NR_pread64 [Reg 0, Ptr 0x20ace100, Imm 0x8b3, Imm 0x210964], Count,
    Syscall NR_pread64 [Reg 0, Ptr 0x20b0c900, Imm 0x8a8, Imm 0x473f67], Count,
    Syscall NR_pread64 [Reg 0, Ptr 0x20b0f3c0, Imm 0x8b1, Imm 0x2f158], Count,
    Syscall NR_pread64 [Reg 0, Ptr 0x20b11ec0, Imm 0x8aa, Imm 0x4865ae], Count,
    Syscall NR_pread64 [Reg 0, Ptr 0x20b163c0, Imm 0x8a4, Imm 0x3c3973], Count,
    Syscall NR_pread64 [Reg 0, Ptr 0x20b2b1c0, Imm 0x8a4, Imm 0xf0c4b], Count,
    Syscall NR_pread64 [Reg 0, Ptr 0x20b46600, Imm 0x8ad, Imm 0x153c45], Count,
    Syscall NR_pread64 [Reg 0, Ptr 0x20b4dec0, Imm 0x8aa, Imm 0x417fad], Count,
    Syscall NR_pread64 [Reg 0, Ptr 0x20b71a80, Imm 0x8ad, Imm 0x3da4f9], Count]"

definition min_rocks_pread64_fcntl_67_0_body20 :: "stmt list" where
  "min_rocks_pread64_fcntl_67_0_body20 = [
    Syscall NR_pread64 [Reg 0, Ptr 0x20c46d80, Imm 0x8a6, Imm 0x46e8d1], Count,
    Syscall NR_pread64 [Reg 0, Ptr 0x20c91080, Imm 0x8ab, Imm 0x31080b], Count,
    Syscall NR_pread64 [Reg 0, Ptr 0x20ca2900, Imm 0x8a6, Imm 0x3c16d2], Count,
    Syscall NR_pread64 [Reg 0, Ptr 0x20cc2140, Imm 0x8a3, Imm 0x3fc61b], Count,
    Syscall NR_pread64 [Reg 0, Ptr 0x20cce640, Imm 0x8a5, Imm 0xa8cc8], Count,
    Syscall NR_pread64 [Reg 0, Ptr 0x20ce7f00, Imm 0x8aa, Imm 0x3ba641], Count,
    Syscall NR_pread64 [Reg 0, Ptr 0x20cf3a40, Imm 0x8a7, Imm 0x450cba], Count,
    Syscall NR_pread64 [Reg 0, Ptr 0x20d1e540, Imm 0x8a7, Imm 0x27cca7], Count,
    Syscall NR_pread64 [Reg 0, Ptr 0x20d3b380, Imm 0x8a3, Imm 0x246274], Count,
    Syscall NR_pread64 [Reg 0, Ptr 0x20d46e80, Imm 0x8a6, Imm 0x42eb3e], Count,
    Syscall NR_pread64 [Reg 0, Ptr 0x20d854c0, Imm 0x8ab, Imm 0x13e21c], Count,
    Syscall NR_pread64 [Reg 0, Ptr 0x20d98980, Imm 0x8a4, Imm 0xc1b1e], Count,
    Syscall NR_pread64 [Reg 0, Ptr 0x20da8a40, Imm 0x8ac, Imm 0x3d6860], Count]"

definition min_rocks_pread64_fcntl_67_0_body21 :: "stmt list" where
  "min_rocks_pread64_fcntl_67_0_body21 = [
    Syscall NR_pread64 [Reg 0, Ptr 0x20dc6a40, Imm 0x8a9, Imm 0x443469], Count,
    Syscall NR_pread64 [Reg 0, Ptr 0x20dcc0c0, Imm 0x8a6, Imm 0x316749], Count,
    Syscall NR_pread64 [Reg 0, Ptr 0x20ddc8c0, Imm 0x8a9, Imm 0x339152], Count,
    Syscall NR_pread64 [Reg 0, Ptr 0x20ddfc80, Imm 0x8a6, Imm 0x487700], Count,
    Syscall NR_pread64 [Reg 0, Ptr 0x20dee280, Imm 0x8a4, Imm 0x2fd075], Count,
    Syscall NR_pread64 [Reg 0, Ptr 0x20df1600, Imm 0x8a8, Imm 0x1da7dd], Count,
    Syscall NR_pread64 [Reg 0, Ptr 0x20e2dc00, Imm 0x8a6, Imm 0xbefd6], Count,
    Syscall NR_pread64 [Reg 0, Ptr 0x20e7b480, Imm 0x8a7, Imm 0x13ae38], Count,
    Syscall NR_pread64 [Reg 0, Ptr 0x20e8e900, Imm 0x8aa, Imm 0x1382ed], Count,
    Syscall NR_pread64 [Reg 0, Ptr 0x20ea6040, Imm 0x8a9, Imm 0xf8576], Count,
    Syscall NR_pread64 [Reg 0, Ptr 0x20eb4f40, Imm 0x8a4, Imm 0x194299], Count,
    Syscall NR_pread64 [Reg 0, Ptr 0x20f13a40, Imm 0x8a9, Imm 0x3f9ada], Count,
    Syscall NR_pread64 [Reg 0, Ptr 0x20f26540, Imm 0x8a9, Imm 0x87ce8], Count]"

definition min_rocks_pread64_fcntl_67_0_body22 :: "stmt list" where
  "min_rocks_pread64_fcntl_67_0_body22 = [
    Syscall NR_pread64 [Reg 0, Ptr 0x20f45580, Imm 0x8a6, Imm 0x494f58], Count,
    Syscall NR_pread64 [Reg 0, Ptr 0x20f4a240, Imm 0x8a7, Imm 0x38e06e], Count,
    Syscall NR_pread64 [Reg 0, Ptr 0x20f63480, Imm 0x8a9, Imm 0x181363], Count,
    Syscall NR_pread64 [Reg 0, Ptr 0x20fb7b00, Imm 0x8a8, Imm 0x1d2eb0], Count,
    Syscall NR_pread64 [Reg 0, Ptr 0x20fec040, Imm 0x8ad, Imm 0x11dc7], Count,
    Syscall NR_pread64 [Reg 0, Ptr 0x20ff5b00, Imm 0x8ad, Imm 0x33ed], Count,
    Syscall NR_pread64 [Reg 0, Ptr 0x2002f900, Imm 0x8aa, Imm 0x2e2845], Count,
    Syscall NR_pread64 [Reg 0, Ptr 0x20035fc0, Imm 0x8a5, Imm 0x2716f8], Count,
    Syscall NR_pread64 [Reg 0, Ptr 0x20047940, Imm 0x8a6, Imm 0x113ef8], Count,
    Syscall NR_pread64 [Reg 0, Ptr 0x20082500, Imm 0x8a8, Imm 0x234d71], Count,
    Syscall NR_pread64 [Reg 0, Ptr 0x2009ea80, Imm 0x8a7, Imm 0x7f25d], Count,
    Syscall NR_pread64 [Reg 0, Ptr 0x200a1540, Imm 0x8ae, Imm 0x3ac531], Count,
    Syscall NR_pread64 [Reg 0, Ptr 0x200a3780, Imm 0x8a5, Imm 0x2afa41], Count]"

definition min_rocks_pread64_fcntl_67_0_body23 :: "stmt list" where
  "min_rocks_pread64_fcntl_67_0_body23 = [
    Syscall NR_pread64 [Reg 0, Ptr 0x200aafc0, Imm 0x8a8, Imm 0x4dec4], Count,
    Syscall NR_pread64 [Reg 0, Ptr 0x200ba840, Imm 0x8a7, Imm 0x344fb0], Count,
    Syscall NR_pread64 [Reg 0, Ptr 0x201307c0, Imm 0x8a8, Imm 0x707f], Count,
    Syscall NR_pread64 [Reg 0, Ptr 0x201519c0, Imm 0x8a3, Imm 0xec712], Count,
    Syscall NR_pread64 [Reg 0, Ptr 0x201d3b40, Imm 0x8a2, Imm 0x1371a6], Count,
    Syscall NR_pread64 [Reg 0, Ptr 0x2020b580, Imm 0x8a6, Imm 0x3f5e5a], Count,
    Syscall NR_pread64 [Reg 0, Ptr 0x2020e040, Imm 0x8a7, Imm 0x21030], Count,
    Syscall NR_pread64 [Reg 0, Ptr 0x20214740, Imm 0x8ab, Imm 0x19efa7], Count,
    Syscall NR_pread64 [Reg 0, Ptr 0x20230bc0, Imm 0x8aa, Imm 0x10ce5d], Count,
    Syscall NR_pread64 [Reg 0, Ptr 0x20235000, Imm 0x8a1, Imm 0x3611d0], Count,
    Syscall NR_pread64 [Reg 0, Ptr 0x2025bf80, Imm 0x8a2, Imm 0x3abc8f], Count,
    Syscall NR_pread64 [Reg 0, Ptr 0x202bb200, Imm 0x8b3, Imm 0x414310], Count,
    Syscall NR_pread64 [Reg 0, Ptr 0x202d4d40, Imm 0x8a9, Imm 0x74deb], Count]"

definition min_rocks_pread64_fcntl_67_0_body24 :: "stmt list" where
  "min_rocks_pread64_fcntl_67_0_body24 = [
    Syscall NR_pread64 [Reg 0, Ptr 0x202e78c0, Imm 0x8b0, Imm 0x1bcbca], Count,
    Syscall NR_pread64 [Reg 0, Ptr 0x20310980, Imm 0x8a4, Imm 0x29cb54], Count,
    Syscall NR_pread64 [Reg 0, Ptr 0x2031a300, Imm 0x8a2, Imm 0x276d6f], Count,
    Syscall NR_pread64 [Reg 0, Ptr 0x2034b440, Imm 0x8ab, Imm 0x49eb20], Count,
    Syscall NR_pread64 [Reg 0, Ptr 0x2035b540, Imm 0x8a3, Imm 0x3ca161], Count,
    Syscall NR_pread64 [Reg 0, Ptr 0x20383640, Imm 0x8ab, Imm 0x1dc1d5], Count,
    Syscall NR_pread64 [Reg 0, Ptr 0x203a6900, Imm 0x8ad, Imm 0x8a82e], Count,
    Syscall NR_pread64 [Reg 0, Ptr 0x203bc1c0, Imm 0x8ad, Imm 0x10c75], Count,
    Syscall NR_pread64 [Reg 0, Ptr 0x203cd280, Imm 0x8a4, Imm 0x2ede11], Count,
    Syscall NR_pread64 [Reg 0, Ptr 0x203e4b40, Imm 0x8a5, Imm 0x2d247b], Count,
    Syscall NR_pread64 [Reg 0, Ptr 0x203fa940, Imm 0x8a7, Imm 0x1e43a9], Count,
    Syscall NR_pread64 [Reg 0, Ptr 0x203ffe80, Imm 0x8a2, Imm 0x12aa84], Count,
    Syscall NR_pread64 [Reg 0, Ptr 0x2041f5c0, Imm 0x8ab, Imm 0x207ee5], Count]"

definition min_rocks_pread64_fcntl_67_0_body25 :: "stmt list" where
  "min_rocks_pread64_fcntl_67_0_body25 = [
    Syscall NR_pread64 [Reg 0, Ptr 0x204331c0, Imm 0x8a6, Imm 0x16515f], Count,
    Syscall NR_pread64 [Reg 0, Ptr 0x204a10c0, Imm 0x8ad, Imm 0x3beb83], Count,
    Syscall NR_pread64 [Reg 0, Ptr 0x204b8a40, Imm 0x8a3, Imm 0x1ba07e], Count,
    Syscall NR_pread64 [Reg 0, Ptr 0x204c2cc0, Imm 0x8a5, Imm 0x137a48], Count,
    Syscall NR_pread64 [Reg 0, Ptr 0x204f2300, Imm 0x8a7, Imm 0x1e88db], Count,
    Syscall NR_pread64 [Reg 0, Ptr 0x204f91c0, Imm 0x8a8, Imm 0x803ab], Count,
    Syscall NR_pread64 [Reg 0, Ptr 0x2050f7c0, Imm 0x8a9, Imm 0xbb330], Count,
    Syscall NR_pread64 [Reg 0, Ptr 0x20512200, Imm 0x8a5, Imm 0x490a21], Count,
    Syscall NR_pread64 [Reg 0, Ptr 0x20532c80, Imm 0x8a8, Imm 0xa502e], Count,
    Syscall NR_pread64 [Reg 0, Ptr 0x205469c0, Imm 0x8ac, Imm 0x16fe7e], Count,
    Syscall NR_pread64 [Reg 0, Ptr 0x20581340, Imm 0x8ab, Imm 0x185ad], Count,
    Syscall NR_pread64 [Reg 0, Ptr 0x205bc0c0, Imm 0x8b3, Imm 0x440916], Count,
    Syscall NR_pread64 [Reg 0, Ptr 0x205ca740, Imm 0x8a7, Imm 0x11479e], Count]"

definition min_rocks_pread64_fcntl_67_0_body26 :: "stmt list" where
  "min_rocks_pread64_fcntl_67_0_body26 = [
    Syscall NR_pread64 [Reg 0, Ptr 0x205dd180, Imm 0x8a5, Imm 0x21a538], Count,
    Syscall NR_pread64 [Reg 0, Ptr 0x205eeb80, Imm 0x8a7, Imm 0x33d68f], Count,
    Syscall NR_pread64 [Reg 0, Ptr 0x20610500, Imm 0x8a5, Imm 0x4a4a4b], Count,
    Syscall NR_pread64 [Reg 0, Ptr 0x20695600, Imm 0x8a9, Imm 0x3320c0], Count,
    Syscall NR_pread64 [Reg 0, Ptr 0x206d8380, Imm 0x8a7, Imm 0x28adc9], Count,
    Syscall NR_pread64 [Reg 0, Ptr 0x206fea80, Imm 0x8a6, Imm 0x383328], Count,
    Syscall NR_pread64 [Reg 0, Ptr 0x20732600, Imm 0x8a9, Imm 0x20763c], Count,
    Syscall NR_pread64 [Reg 0, Ptr 0x20765100, Imm 0x8a9, Imm 0x2c65f9], Count,
    Syscall NR_pread64 [Reg 0, Ptr 0x2078d300, Imm 0x8a5, Imm 0x21c7d4], Count,
    Syscall NR_pread64 [Reg 0, Ptr 0x207c29c0, Imm 0x8a6, Imm 0x3ae7dd], Count,
    Syscall NR_pread64 [Reg 0, Ptr 0x20828180, Imm 0x8ab, Imm 0xf14ef], Count,
    Syscall NR_pread64 [Reg 0, Ptr 0x2082df40, Imm 0x8ab, Imm 0x19f852], Count,
    Syscall NR_pread64 [Reg 0, Ptr 0x20838a40, Imm 0x8a6, Imm 0x6bac4], Count]"

definition min_rocks_pread64_fcntl_67_0_body27 :: "stmt list" where
  "min_rocks_pread64_fcntl_67_0_body27 = [
    Syscall NR_pread64 [Reg 0, Ptr 0x208ba500, Imm 0x8a9, Imm 0x16375e], Count,
    Syscall NR_pread64 [Reg 0, Ptr 0x208f58c0, Imm 0x8ab, Imm 0x20ef68], Count,
    Syscall NR_pread64 [Reg 0, Ptr 0x208ffbc0, Imm 0x8a8, Imm 0x120609], Count,
    Syscall NR_pread64 [Reg 0, Ptr 0x20929d40, Imm 0x8a6, Imm 0xa6a23], Count,
    Syscall NR_pread64 [Reg 0, Ptr 0x20953780, Imm 0x8a7, Imm 0x31195b], Count,
    Syscall NR_pread64 [Reg 0, Ptr 0x20994280, Imm 0x8a6, Imm 0x1be5c5], Count,
    Syscall NR_pread64 [Reg 0, Ptr 0x209b77c0, Imm 0x8a9, Imm 0x51b4f], Count,
    Syscall NR_pread64 [Reg 0, Ptr 0x209da340, Imm 0x8a8, Imm 0x2c99f7], Count,
    Syscall NR_pread64 [Reg 0, Ptr 0x20a35f40, Imm 0x8a5, Imm 0x212c06], Count,
    Syscall NR_pread64 [Reg 0, Ptr 0x20a82bc0, Imm 0x8a5, Imm 0x2940de], Count,
    Syscall NR_pread64 [Reg 0, Ptr 0x20ab71c0, Imm 0x8ab, Imm 0x41e791], Count,
    Syscall NR_pread64 [Reg 0, Ptr 0x20ad6940, Imm 0x8a8, Imm 0x23f1fa], Count,
    Syscall NR_pread64 [Reg 0, Ptr 0x20afc0c0, Imm 0x8a8, Imm 0xce231], Count]"

definition min_rocks_pread64_fcntl_67_0_body28 :: "stmt list" where
  "min_rocks_pread64_fcntl_67_0_body28 = [
    Syscall NR_pread64 [Reg 0, Ptr 0x20b4e500, Imm 0x8aa, Imm 0x25777a], Count,
    Syscall NR_pread64 [Reg 0, Ptr 0x20b6f6c0, Imm 0x8a6, Imm 0x381083], Count,
    Syscall NR_pread64 [Reg 0, Ptr 0x20b843c0, Imm 0x8a5, Imm 0x2cab46], Count,
    Syscall NR_pread64 [Reg 0, Ptr 0x20b9f840, Imm 0x8a5, Imm 0x137c5], Count,
    Syscall NR_pread64 [Reg 0, Ptr 0x20c0b9c0, Imm 0x8a7, Imm 0x41f03c], Count,
    Syscall NR_pread64 [Reg 0, Ptr 0x20c186c0, Imm 0x8b2, Imm 0x4ac369], Count,
    Syscall NR_pread64 [Reg 0, Ptr 0x20c1a900, Imm 0x8ab, Imm 0x36d8ed], Count,
    Syscall NR_pread64 [Reg 0, Ptr 0x20c34e00, Imm 0x8ad, Imm 0x29b15b], Count,
    Syscall NR_pread64 [Reg 0, Ptr 0x20cb6a40, Imm 0x8ad, Imm 0x13a58b], Count,
    Syscall NR_pread64 [Reg 0, Ptr 0x20d0a800, Imm 0x8ab, Imm 0x82ef9], Count,
    Syscall NR_pread64 [Reg 0, Ptr 0x20d205c0, Imm 0x8a6, Imm 0x23b561], Count,
    Syscall NR_pread64 [Reg 0, Ptr 0x20d44b80, Imm 0x8ac, Imm 0x46ac34], Count,
    Syscall NR_pread64 [Reg 0, Ptr 0x20d52980, Imm 0x8b0, Imm 0x4540ae], Count]"

definition min_rocks_pread64_fcntl_67_0_body29 :: "stmt list" where
  "min_rocks_pread64_fcntl_67_0_body29 = [
    Syscall NR_pread64 [Reg 0, Ptr 0x20d75f40, Imm 0x8a9, Imm 0x11fd60], Count,
    Syscall NR_pread64 [Reg 0, Ptr 0x20d83d40, Imm 0x8af, Imm 0x179a3f], Count,
    Syscall NR_pread64 [Reg 0, Ptr 0x20dabc80, Imm 0x8a6, Imm 0x49694b], Count,
    Syscall NR_pread64 [Reg 0, Ptr 0x20db34c0, Imm 0x8a9, Imm 0x28ea5c], Count,
    Syscall NR_pread64 [Reg 0, Ptr 0x20ddc640, Imm 0x8a4, Imm 0x2d83aa], Count,
    Syscall NR_pread64 [Reg 0, Ptr 0x20e02c40, Imm 0x8a4, Imm 0x3f51e], Count,
    Syscall NR_pread64 [Reg 0, Ptr 0x20e23f00, Imm 0x8b0, Imm 0x378eaa], Count,
    Syscall NR_pread64 [Reg 0, Ptr 0x20e7c800, Imm 0x8a7, Imm 0x1e3b02], Count,
    Syscall NR_pread64 [Reg 0, Ptr 0x20e9da80, Imm 0x8a3, Imm 0x288b2c], Count,
    Syscall NR_pread64 [Reg 0, Ptr 0x20ec0480, Imm 0x8a8, Imm 0x13c82a], Count,
    Syscall NR_pread64 [Reg 0, Ptr 0x20ee6b40, Imm 0x8a7, Imm 0x2134ab], Count,
    Syscall NR_pread64 [Reg 0, Ptr 0x20ee9e80, Imm 0x8b0, Imm 0x38ac75], Count,
    Syscall NR_pread64 [Reg 0, Ptr 0x20f0b9c0, Imm 0x8a5, Imm 0x148f2c], Count]"

definition min_rocks_pread64_fcntl_67_0_body30 :: "stmt list" where
  "min_rocks_pread64_fcntl_67_0_body30 = [
    Syscall NR_pread64 [Reg 0, Ptr 0x20f4b480, Imm 0x8aa, Imm 0x2ceb2], Count,
    Syscall NR_pread64 [Reg 0, Ptr 0x20f65640, Imm 0x8a6, Imm 0x1c8198], Count,
    Syscall NR_pread64 [Reg 0, Ptr 0x20f6ef80, Imm 0x8a3, Imm 0x4a86d1], Count,
    Syscall NR_pread64 [Reg 0, Ptr 0x20f8b4c0, Imm 0x8b0, Imm 0xf6b7b], Count,
    Syscall NR_pread64 [Reg 0, Ptr 0x20fe2640, Imm 0x8ae, Imm 0x2e9032], Count,
    Syscall NR_pread64 [Reg 0, Ptr 0x20fe5980, Imm 0x8a1, Imm 0x3f446a], Count,
    Syscall NR_pread64 [Reg 0, Ptr 0x20fe9e00, Imm 0x8ab, Imm 0x2f095d], Count,
    Syscall NR_pread64 [Reg 0, Ptr 0x20ff7b80, Imm 0x8aa, Imm 0x67582], Count,
    Syscall NR_pread64 [Reg 0, Ptr 0x20ffc8c0, Imm 0x8a3, Imm 0xdeea5], Count,
    Syscall NR_pread64 [Reg 0, Ptr 0x20070bc0, Imm 0x8a8, Imm 0x11c979], Count,
    Syscall NR_pread64 [Reg 0, Ptr 0x20092680, Imm 0x8a7, Imm 0x249663], Count,
    Syscall NR_pread64 [Reg 0, Ptr 0x200a2f80, Imm 0x8a5, Imm 0x1b49ef], Count,
    Syscall NR_pread64 [Reg 0, Ptr 0x200a6280, Imm 0x8aa, Imm 0x42a605], Count]"

definition min_rocks_pread64_fcntl_67_0_body31 :: "stmt list" where
  "min_rocks_pread64_fcntl_67_0_body31 = [
    Syscall NR_pread64 [Reg 0, Ptr 0x200ba480, Imm 0x8af, Imm 0x436483], Count,
    Syscall NR_pread64 [Reg 0, Ptr 0x2012a680, Imm 0x8a7, Imm 0x3db64b], Count,
    Syscall NR_pread64 [Reg 0, Ptr 0x20137d40, Imm 0x8ab, Imm 0x1cc6c9], Count,
    Syscall NR_pread64 [Reg 0, Ptr 0x2018dc80, Imm 0x8a8, Imm 0x977e0], Count,
    Syscall NR_pread64 [Reg 0, Ptr 0x201bc340, Imm 0x8a5, Imm 0x1f7283], Count,
    Syscall NR_pread64 [Reg 0, Ptr 0x201f5e80, Imm 0x8a1, Imm 0x7be71], Count,
    Syscall NR_pread64 [Reg 0, Ptr 0x2020d740, Imm 0x8ac, Imm 0x4036aa], Count,
    Syscall NR_pread64 [Reg 0, Ptr 0x20238d40, Imm 0x8a6, Imm 0x391463], Count,
    Syscall NR_pread64 [Reg 0, Ptr 0x20265ac0, Imm 0x8ac, Imm 0x40fdc9], Count,
    Syscall NR_pread64 [Reg 0, Ptr 0x202a9f40, Imm 0x8a9, Imm 0xd6ca9], Count,
    Syscall NR_pread64 [Reg 0, Ptr 0x202cf480, Imm 0x8a7, Imm 0x243731], Count,
    Syscall NR_pread64 [Reg 0, Ptr 0x203388c0, Imm 0x8a4, Imm 0xa8424], Count,
    Syscall NR_pread64 [Reg 0, Ptr 0x2035a380, Imm 0x8aa, Imm 0x57a88], Count]"

definition min_rocks_pread64_fcntl_67_0_body32 :: "stmt list" where
  "min_rocks_pread64_fcntl_67_0_body32 = [
    Syscall NR_pread64 [Reg 0, Ptr 0x2038d5c0, Imm 0x8a6, Imm 0x398d97], Count,
    Syscall NR_pread64 [Reg 0, Ptr 0x20399a40, Imm 0x8b2, Imm 0x312aa8], Count,
    Syscall NR_pread64 [Reg 0, Ptr 0x203ce900, Imm 0x8aa, Imm 0x73c9a], Count,
    Syscall NR_pread64 [Reg 0, Ptr 0x20434ec0, Imm 0x8a5, Imm 0x49017c], Count,
    Syscall NR_pread64 [Reg 0, Ptr 0x2046f240, Imm 0x8a7, Imm 0x3401cf], Count,
    Syscall NR_pread64 [Reg 0, Ptr 0x20492e80, Imm 0x8ab, Imm 0x2a7862], Count,
    Syscall NR_pread64 [Reg 0, Ptr 0x204b7dc0, Imm 0x8a9, Imm 0x42903], Count,
    Syscall NR_pread64 [Reg 0, Ptr 0x204cf540, Imm 0x8a5, Imm 0x3fa383], Count,
    Syscall NR_pread64 [Reg 0, Ptr 0x205165c0, Imm 0x8a5, Imm 0x463301], Count,
    Syscall NR_pread64 [Reg 0, Ptr 0x2054e040, Imm 0x8aa, Imm 0x253ad5], Count,
    Syscall NR_pread64 [Reg 0, Ptr 0x2056a600, Imm 0x8aa, Imm 0x2f79dc], Count,
    Syscall NR_pread64 [Reg 0, Ptr 0x20577340, Imm 0x8a7, Imm 0x3dbef2], Count,
    Syscall NR_pread64 [Reg 0, Ptr 0x20596cc0, Imm 0x8a9, Imm 0x10c5b4], Count]"

definition min_rocks_pread64_fcntl_67_0_body33 :: "stmt list" where
  "min_rocks_pread64_fcntl_67_0_body33 = [
    Syscall NR_pread64 [Reg 0, Ptr 0x205cf200, Imm 0x8a8, Imm 0x2b9623], Count,
    Syscall NR_pread64 [Reg 0, Ptr 0x205fffc0, Imm 0x8a5, Imm 0x1c33b4], Count,
    Syscall NR_pread64 [Reg 0, Ptr 0x2062f080, Imm 0x8ab, Imm 0x2425d8], Count,
    Syscall NR_pread64 [Reg 0, Ptr 0x20634600, Imm 0x8aa, Imm 0x2ac03], Count,
    Syscall NR_pread64 [Reg 0, Ptr 0x206479c0, Imm 0x8a6, Imm 0x19bbc1], Count,
    Syscall NR_pread64 [Reg 0, Ptr 0x2066ea80, Imm 0x8ab, Imm 0x3d9c4e], Count,
    Syscall NR_pread64 [Reg 0, Ptr 0x2069fa00, Imm 0x8a3, Imm 0x2a2a7b], Count,
    Syscall NR_pread64 [Reg 0, Ptr 0x206f0f00, Imm 0x8a8, Imm 0x408d41], Count,
    Syscall NR_pread64 [Reg 0, Ptr 0x206f9840, Imm 0x8a8, Imm 0x24f597], Count,
    Syscall NR_pread64 [Reg 0, Ptr 0x206fba80, Imm 0x8ab, Imm 0x386fcb], Count,
    Syscall NR_pread64 [Reg 0, Ptr 0x2070edc0, Imm 0x8a9, Imm 0x4a38fc], Count,
    Syscall NR_pread64 [Reg 0, Ptr 0x207a0ac0, Imm 0x8a3, Imm 0x10dfb2], Count,
    Syscall NR_pread64 [Reg 0, Ptr 0x20810b80, Imm 0x8ab, Imm 0x686d5], Count]"

definition min_rocks_pread64_fcntl_67_0_body34 :: "stmt list" where
  "min_rocks_pread64_fcntl_67_0_body34 = [
    Syscall NR_pread64 [Reg 0, Ptr 0x2083fdc0, Imm 0x8a3, Imm 0x25d6b6], Count,
    Syscall NR_pread64 [Reg 0, Ptr 0x20853b80, Imm 0x8a9, Imm 0x3f331b], Count,
    Syscall NR_pread64 [Reg 0, Ptr 0x2086eec0, Imm 0x8a6, Imm 0x40734b], Count,
    Syscall NR_pread64 [Reg 0, Ptr 0x20876700, Imm 0x8aa, Imm 0x31928e], Count,
    Syscall NR_pread64 [Reg 0, Ptr 0x208b6a40, Imm 0x8a6, Imm 0xa1385], Count,
    Syscall NR_pread64 [Reg 0, Ptr 0x208be1c0, Imm 0x8a7, Imm 0xfb0bd], Count,
    Syscall NR_pread64 [Reg 0, Ptr 0x208c0cc0, Imm 0x8a8, Imm 0xb6ded], Count,
    Syscall NR_pread64 [Reg 0, Ptr 0x208cd100, Imm 0x8a5, Imm 0x17f96e], Count,
    Syscall NR_pread64 [Reg 0, Ptr 0x208d7380, Imm 0x8a4, Imm 0x21b684], Count,
    Syscall NR_pread64 [Reg 0, Ptr 0x208f3000, Imm 0x8a6, Imm 0x15a42e], Count,
    Syscall NR_pread64 [Reg 0, Ptr 0x20945ac0, Imm 0x8a9, Imm 0x200e53], Count,
    Syscall NR_pread64 [Reg 0, Ptr 0x209d8900, Imm 0x8ab, Imm 0x32624c], Count,
    Syscall NR_pread64 [Reg 0, Ptr 0x209f1980, Imm 0x8a6, Imm 0x7b5cb], Count]"

definition min_rocks_pread64_fcntl_67_0_body35 :: "stmt list" where
  "min_rocks_pread64_fcntl_67_0_body35 = [
    Syscall NR_pread64 [Reg 0, Ptr 0x209f7800, Imm 0x8ad, Imm 0x3925ae], Count,
    Syscall NR_pread64 [Reg 0, Ptr 0x20a2ab40, Imm 0x8a8, Imm 0x28fbab], Count,
    Syscall NR_pread64 [Reg 0, Ptr 0x20a4e880, Imm 0x8a9, Imm 0x14f6ff], Count,
    Syscall NR_pread64 [Reg 0, Ptr 0x20a836c0, Imm 0x8a9, Imm 0x47c9df], Count,
    Syscall NR_pread64 [Reg 0, Ptr 0x20a86240, Imm 0x8a8, Imm 0x1f9515], Count,
    Syscall NR_pread64 [Reg 0, Ptr 0x20a92740, Imm 0x8a8, Imm 0x28009a], Count,
    Syscall NR_pread64 [Reg 0, Ptr 0x20a94a00, Imm 0x8a1, Imm 0x38cf22], Count,
    Syscall NR_pread64 [Reg 0, Ptr 0x20ab7ac0, Imm 0x8ac, Imm 0x437e82], Count,
    Syscall NR_pread64 [Reg 0, Ptr 0x20abf300, Imm 0x8a3, Imm 0x18955d], Count,
    Syscall NR_pread64 [Reg 0, Ptr 0x20b1b040, Imm 0x8a6, Imm 0x932a3], Count,
    Syscall NR_pread64 [Reg 0, Ptr 0x20b65180, Imm 0x8a1, Imm 0x19e706], Count,
    Syscall NR_pread64 [Reg 0, Ptr 0x20b67c40, Imm 0x8ab, Imm 0x19efa7], Count,
    Syscall NR_pread64 [Reg 0, Ptr 0x20b84000, Imm 0x8a5, Imm 0x33a2a3], Count]"

definition min_rocks_pread64_fcntl_67_0_body36 :: "stmt list" where
  "min_rocks_pread64_fcntl_67_0_body36 = [
    Syscall NR_pread64 [Reg 0, Ptr 0x20b91640, Imm 0x8a8, Imm 0x3889ce], Count,
    Syscall NR_pread64 [Reg 0, Ptr 0x20bc1f40, Imm 0x8a8, Imm 0x473f67], Count,
    Syscall NR_pread64 [Reg 0, Ptr 0x20bd6cc0, Imm 0x8a5, Imm 0x1dca80], Count,
    Syscall NR_pread64 [Reg 0, Ptr 0x20c22a40, Imm 0x8a5, Imm 0x1f4747], Count,
    Syscall NR_pread64 [Reg 0, Ptr 0x20c34bc0, Imm 0x8a5, Imm 0x29ff3e], Count,
    Syscall NR_pread64 [Reg 0, Ptr 0x20c88ac0, Imm 0x8a9, Imm 0x22187], Count,
    Syscall NR_pread64 [Reg 0, Ptr 0x20c8be40, Imm 0x8af, Imm 0xd52a9], Count,
    Syscall NR_pread64 [Reg 0, Ptr 0x20ca0c40, Imm 0x8a8, Imm 0x450412], Count,
    Syscall NR_pread64 [Reg 0, Ptr 0x20d05c00, Imm 0x8ad, Imm 0x35d52a], Count,
    Syscall NR_pread64 [Reg 0, Ptr 0x20d188c0, Imm 0x8af, Imm 0xadab5], Count,
    Syscall NR_pread64 [Reg 0, Ptr 0x20db55c0, Imm 0x8af, Imm 0x39a786], Count,
    Syscall NR_pread64 [Reg 0, Ptr 0x20dcd700, Imm 0x8a8, Imm 0x120609], Count,
    Syscall NR_pread64 [Reg 0, Ptr 0x20de3dc0, Imm 0x8a5, Imm 0x1ca434], Count]"

definition min_rocks_pread64_fcntl_67_0_body37 :: "stmt list" where
  "min_rocks_pread64_fcntl_67_0_body37 = [
    Syscall NR_pread64 [Reg 0, Ptr 0x20e27800, Imm 0x8a7, Imm 0x7fb04], Count,
    Syscall NR_pread64 [Reg 0, Ptr 0x20e324c0, Imm 0x8a4, Imm 0x35a9e4], Count,
    Syscall NR_pread64 [Reg 0, Ptr 0x20e37180, Imm 0x8ab, Imm 0x37636b], Count,
    Syscall NR_pread64 [Reg 0, Ptr 0x20e4d940, Imm 0x8a6, Imm 0x37c2a0], Count,
    Syscall NR_pread64 [Reg 0, Ptr 0x20e56180, Imm 0x8a8, Imm 0x422cda], Count,
    Syscall NR_pread64 [Reg 0, Ptr 0x20e941c0, Imm 0x8ad, Imm 0x46f177], Count,
    Syscall NR_pread64 [Reg 0, Ptr 0x20ea0580, Imm 0x8a8, Imm 0x3cdde8], Count,
    Syscall NR_pread64 [Reg 0, Ptr 0x20eb6440, Imm 0x8ab, Imm 0x185ad], Count,
    Syscall NR_pread64 [Reg 0, Ptr 0x20eca840, Imm 0x8a4, Imm 0x512ab], Count,
    Syscall NR_pread64 [Reg 0, Ptr 0x20eced00, Imm 0x8ad, Imm 0xbc47e], Count,
    Syscall NR_pread64 [Reg 0, Ptr 0x20ed2100, Imm 0x8a7, Imm 0x2d2d20], Count,
    Syscall NR_pread64 [Reg 0, Ptr 0x20f24dc0, Imm 0x8ad, Imm 0x21ea70], Count,
    Syscall NR_pread64 [Reg 0, Ptr 0x20f4e880, Imm 0x8ad, Imm 0x3beb83], Count]"

definition min_rocks_pread64_fcntl_67_0_body38 :: "stmt list" where
  "min_rocks_pread64_fcntl_67_0_body38 = [
    Syscall NR_pread64 [Reg 0, Ptr 0x20f56940, Imm 0x8a7, Imm 0x298ec6], Count,
    Syscall NR_pread64 [Reg 0, Ptr 0x20f5fa80, Imm 0x8a9, Imm 0x328d98], Count,
    Syscall NR_pread64 [Reg 0, Ptr 0x20f736c0, Imm 0x8a7, Imm 0x237017], Count,
    Syscall NR_pread64 [Reg 0, Ptr 0x20fa4940, Imm 0x8a5, Imm 0x409e98], Count,
    Syscall NR_pread64 [Reg 0, Ptr 0x20faea40, Imm 0x8a9, Imm 0xa58d6], Count,
    Syscall NR_pread64 [Reg 0, Ptr 0x20fdfe80, Imm 0x8a3, Imm 0x48f8d9], Count,
    Syscall NR_pread64 [Reg 0, Ptr 0x20027f40, Imm 0x8a8, Imm 0x262490], Count,
    Syscall NR_pread64 [Reg 0, Ptr 0x2002aa80, Imm 0x8a5, Imm 0x162eb9], Count,
    Syscall NR_pread64 [Reg 0, Ptr 0x2006be40, Imm 0x8a4, Imm 0x2cbc92], Count,
    Syscall NR_pread64 [Reg 0, Ptr 0x20073640, Imm 0x8a5, Imm 0x315ea4], Count,
    Syscall NR_pread64 [Reg 0, Ptr 0x200caec0, Imm 0x8ac, Imm 0x354a9e], Count,
    Syscall NR_pread64 [Reg 0, Ptr 0x200e4040, Imm 0x8a9, Imm 0x36ada2], Count,
    Syscall NR_pread64 [Reg 0, Ptr 0x20110600, Imm 0x8a4, Imm 0x23faa2], Count]"

definition min_rocks_pread64_fcntl_67_0_body39 :: "stmt list" where
  "min_rocks_pread64_fcntl_67_0_body39 = [
    Syscall NR_pread64 [Reg 0, Ptr 0x20123200, Imm 0x8ad, Imm 0x8a82e], Count,
    Syscall NR_pread64 [Reg 0, Ptr 0x2016c300, Imm 0x8a6, Imm 0x34c028], Count,
    Syscall NR_pread64 [Reg 0, Ptr 0x201c8980, Imm 0x8a3, Imm 0x2a1088], Count,
    Syscall NR_pread64 [Reg 0, Ptr 0x201df080, Imm 0x8a5, Imm 0x306c3f], Count,
    Syscall NR_pread64 [Reg 0, Ptr 0x201e1bc0, Imm 0x8ac, Imm 0x19907b], Count,
    Syscall NR_pread64 [Reg 0, Ptr 0x2020b540, Imm 0x8a3, Imm 0x3bda34], Count,
    Syscall NR_pread64 [Reg 0, Ptr 0x2023c080, Imm 0x8aa, Imm 0x23a404], Count,
    Syscall NR_pread64 [Reg 0, Ptr 0x20307ec0, Imm 0x8b3, Imm 0x23acae], Count,
    Syscall NR_pread64 [Reg 0, Ptr 0x20385f40, Imm 0x8a4, Imm 0x283d35], Count,
    Syscall NR_pread64 [Reg 0, Ptr 0x203a7880, Imm 0x8a8, Imm 0x43ddc6], Count,
    Syscall NR_pread64 [Reg 0, Ptr 0x203aabc0, Imm 0x8a8, Imm 0xce231], Count,
    Syscall NR_pread64 [Reg 0, Ptr 0x203af040, Imm 0x8a7, Imm 0xfa816], Count,
    Syscall NR_pread64 [Reg 0, Ptr 0x203b4dc0, Imm 0x8b2, Imm 0x15be24], Count]"

definition min_rocks_pread64_fcntl_67_0_body40 :: "stmt list" where
  "min_rocks_pread64_fcntl_67_0_body40 = [
    Syscall NR_pread64 [Reg 0, Ptr 0x203c6100, Imm 0x8a9, Imm 0x38e915], Count,
    Syscall NR_pread64 [Reg 0, Ptr 0x203c8300, Imm 0x8a6, Imm 0x43d520], Count,
    Syscall NR_pread64 [Reg 0, Ptr 0x203f4940, Imm 0x8aa, Imm 0x10ce5d], Count,
    Syscall NR_pread64 [Reg 0, Ptr 0x20411f80, Imm 0x8a4, Imm 0x1b1ead], Count,
    Syscall NR_pread64 [Reg 0, Ptr 0x2041ca00, Imm 0x8a9, Imm 0x7ad22], Count,
    Syscall NR_pread64 [Reg 0, Ptr 0x204430c0, Imm 0x8a6, Imm 0x13b6df], Count,
    Syscall NR_pread64 [Reg 0, Ptr 0x204586c0, Imm 0x8a5, Imm 0x93b49], Count,
    Syscall NR_pread64 [Reg 0, Ptr 0x20502080, Imm 0x8a7, Imm 0x197687], Count,
    Syscall NR_pread64 [Reg 0, Ptr 0x20524340, Imm 0x8a8, Imm 0x36685f], Count,
    Syscall NR_pread64 [Reg 0, Ptr 0x2057b3c0, Imm 0x8aa, Imm 0x3ba641], Count,
    Syscall NR_pread64 [Reg 0, Ptr 0x205abd40, Imm 0x8a9, Imm 0x2016fc], Count,
    Syscall NR_pread64 [Reg 0, Ptr 0x205c2b40, Imm 0x8ac, Imm 0x231977], Count,
    Syscall NR_pread64 [Reg 0, Ptr 0x20650380, Imm 0x8a3, Imm 0x3a4364], Count]"

definition min_rocks_pread64_fcntl_67_0_body41 :: "stmt list" where
  "min_rocks_pread64_fcntl_67_0_body41 = [
    Syscall NR_pread64 [Reg 0, Ptr 0x2065c700, Imm 0x8ab, Imm 0xb5c9a], Count,
    Syscall NR_pread64 [Reg 0, Ptr 0x206b75c0, Imm 0x8a5, Imm 0x106f2b], Count,
    Syscall NR_pread64 [Reg 0, Ptr 0x207031c0, Imm 0x8a6, Imm 0x2fea65], Count,
    Syscall NR_pread64 [Reg 0, Ptr 0x20711040, Imm 0x8ad, Imm 0x47480f], Count,
    Syscall NR_pread64 [Reg 0, Ptr 0x2071ddc0, Imm 0x8a9, Imm 0x8e4be], Count,
    Syscall NR_pread64 [Reg 0, Ptr 0x20720040, Imm 0x8ac, Imm 0x2a55b5], Count,
    Syscall NR_pread64 [Reg 0, Ptr 0x2075a380, Imm 0x8a3, Imm 0x17919c], Count,
    Syscall NR_pread64 [Reg 0, Ptr 0x2077bec0, Imm 0x8a6, Imm 0x33b3f6], Count,
    Syscall NR_pread64 [Reg 0, Ptr 0x20787200, Imm 0x8a9, Imm 0x2acef5], Count,
    Syscall NR_pread64 [Reg 0, Ptr 0x20789d40, Imm 0x8a8, Imm 0x3e2f81], Count,
    Syscall NR_pread64 [Reg 0, Ptr 0x2079d980, Imm 0x8a7, Imm 0x479ea1], Count,
    Syscall NR_pread64 [Reg 0, Ptr 0x207a72c0, Imm 0x8a7, Imm 0x2f3d4b], Count,
    Syscall NR_pread64 [Reg 0, Ptr 0x207b0480, Imm 0x8a7, Imm 0x17072a], Count]"

definition min_rocks_pread64_fcntl_67_0_body42 :: "stmt list" where
  "min_rocks_pread64_fcntl_67_0_body42 = [
    Syscall NR_pread64 [Reg 0, Ptr 0x20821a00, Imm 0x8b1, Imm 0x2b7c1d], Count,
    Syscall NR_pread64 [Reg 0, Ptr 0x20823c80, Imm 0x8a3, Imm 0x1d260d], Count,
    Syscall NR_pread64 [Reg 0, Ptr 0x20838100, Imm 0x8a6, Imm 0x388128], Count,
    Syscall NR_pread64 [Reg 0, Ptr 0x20890a40, Imm 0x8a7, Imm 0x2f1208], Count,
    Syscall NR_pread64 [Reg 0, Ptr 0x208a4e40, Imm 0x8a1, Imm 0x49d134], Count,
    Syscall NR_pread64 [Reg 0, Ptr 0x208ccf80, Imm 0x8a7, Imm 0xdcc00], Count,
    Syscall NR_pread64 [Reg 0, Ptr 0x208fb780, Imm 0x8a3, Imm 0x42fc89], Count,
    Syscall NR_pread64 [Reg 0, Ptr 0x20927cc0, Imm 0x8a8, Imm 0x344708], Count,
    Syscall NR_pread64 [Reg 0, Ptr 0x20950cc0, Imm 0x8a5, Imm 0xb0eaf], Count,
    Syscall NR_pread64 [Reg 0, Ptr 0x2098e240, Imm 0x8a5, Imm 0x232d7], Count,
    Syscall NR_pread64 [Reg 0, Ptr 0x209cae80, Imm 0x8aa, Imm 0x46898c], Count,
    Syscall NR_pread64 [Reg 0, Ptr 0x209df4c0, Imm 0x8a6, Imm 0x1b0d65], Count,
    Syscall NR_pread64 [Reg 0, Ptr 0x20a149c0, Imm 0x8a2, Imm 0x9bd17], Count]"

definition min_rocks_pread64_fcntl_67_0_body43 :: "stmt list" where
  "min_rocks_pread64_fcntl_67_0_body43 = [
    Syscall NR_pread64 [Reg 0, Ptr 0x20a16c40, Imm 0x8a7, Imm 0x1db085], Count,
    Syscall NR_pread64 [Reg 0, Ptr 0x20a46dc0, Imm 0x8b2, Imm 0x190ea3], Count,
    Syscall NR_pread64 [Reg 0, Ptr 0x20a81ac0, Imm 0x8a6, Imm 0x1ddbcc], Count,
    Syscall NR_pread64 [Reg 0, Ptr 0x20a980c0, Imm 0x8a3, Imm 0x31404], Count,
    Syscall NR_pread64 [Reg 0, Ptr 0x20ad8c80, Imm 0x8a7, Imm 0x1a2396], Count,
    Syscall NR_pread64 [Reg 0, Ptr 0x20aeeb40, Imm 0x8a3, Imm 0x24a7b0], Count,
    Syscall NR_pread64 [Reg 0, Ptr 0x20b17d80, Imm 0x8a7, Imm 0x16f5d7], Count,
    Syscall NR_pread64 [Reg 0, Ptr 0x20b2ddc0, Imm 0x8a3, Imm 0xd04ca], Count,
    Syscall NR_pread64 [Reg 0, Ptr 0x20b30880, Imm 0x8a9, Imm 0x1b8f2c], Count,
    Syscall NR_pread64 [Reg 0, Ptr 0x20b92a80, Imm 0x8a8, Imm 0x24e444], Count,
    Syscall NR_pread64 [Reg 0, Ptr 0x20bfb580, Imm 0x8a2, Imm 0x1f0ab1], Count,
    Syscall NR_pread64 [Reg 0, Ptr 0x20c002c0, Imm 0x8a4, Imm 0x3b69af], Count,
    Syscall NR_pread64 [Reg 0, Ptr 0x20c03640, Imm 0x8af, Imm 0x2dfcff], Count]"

definition min_rocks_pread64_fcntl_67_0_body44 :: "stmt list" where
  "min_rocks_pread64_fcntl_67_0_body44 = [
    Syscall NR_pread64 [Reg 0, Ptr 0x20c058c0, Imm 0x8aa, Imm 0x2e2845], Count,
    Syscall NR_pread64 [Reg 0, Ptr 0x20c10340, Imm 0x8aa, Imm 0xbcd2b], Count,
    Syscall NR_pread64 [Reg 0, Ptr 0x20c62800, Imm 0x8b0, Imm 0x378eaa], Count,
    Syscall NR_pread64 [Reg 0, Ptr 0x20c9c1c0, Imm 0x8ac, Imm 0x2a6fb6], Count,
    Syscall NR_pread64 [Reg 0, Ptr 0x20cc2940, Imm 0x8a5, Imm 0x11522], Count,
    Syscall NR_pread64 [Reg 0, Ptr 0x20d1e700, Imm 0x8a6, Imm 0x3f3bc4], Count,
    Syscall NR_pread64 [Reg 0, Ptr 0x20d211c0, Imm 0x8aa, Imm 0x18840c], Count,
    Syscall NR_pread64 [Reg 0, Ptr 0x20d99240, Imm 0x8a6, Imm 0x6bac4], Count,
    Syscall NR_pread64 [Reg 0, Ptr 0x20db7880, Imm 0x8a9, Imm 0x40c9dd], Count,
    Syscall NR_pread64 [Reg 0, Ptr 0x20dba380, Imm 0x8a6, Imm 0x423582], Count,
    Syscall NR_pread64 [Reg 0, Ptr 0x20e157c0, Imm 0x8b3, Imm 0x414310], Count,
    Syscall NR_pread64 [Reg 0, Ptr 0x20e61780, Imm 0x8a5, Imm 0x3984f2], Count,
    Syscall NR_pread64 [Reg 0, Ptr 0x20e816c0, Imm 0x8a9, Imm 0x66cd9], Count]"

definition min_rocks_pread64_fcntl_67_0_body45 :: "stmt list" where
  "min_rocks_pread64_fcntl_67_0_body45 = [
    Syscall NR_pread64 [Reg 0, Ptr 0x20e98700, Imm 0x8a7, Imm 0x35ddd7], Count,
    Syscall NR_pread64 [Reg 0, Ptr 0x20ee4580, Imm 0x8ac, Imm 0x103b3b], Count,
    Syscall NR_pread64 [Reg 0, Ptr 0x20effa80, Imm 0x8ae, Imm 0x2eaa29], Count,
    Syscall NR_pread64 [Reg 0, Ptr 0x20f01d00, Imm 0x8a7, Imm 0x289c78], Count,
    Syscall NR_pread64 [Reg 0, Ptr 0x20f03f80, Imm 0x8ad, Imm 0x392e5b], Count,
    Syscall NR_pread64 [Reg 0, Ptr 0x20f072c0, Imm 0x8a7, Imm 0x60d9f], Count,
    Syscall NR_pread64 [Reg 0, Ptr 0x20f1fc00, Imm 0x8af, Imm 0x6a0cb], Count,
    Syscall NR_pread64 [Reg 0, Ptr 0x20f52f80, Imm 0x8a2, Imm 0x351f4d], Count,
    Syscall NR_pread64 [Reg 0, Ptr 0x20f5da80, Imm 0x8a4, Imm 0xe792f], Count,
    Syscall NR_pread64 [Reg 0, Ptr 0x20f65b40, Imm 0x8a7, Imm 0x3ab3e8], Count,
    Syscall NR_pread64 [Reg 0, Ptr 0x20f93080, Imm 0x8a3, Imm 0xdeea5], Count,
    Syscall NR_pread64 [Reg 0, Ptr 0x20fcc240, Imm 0x8ab, Imm 0x24ecec], Count,
    Syscall NR_pread64 [Reg 0, Ptr 0x20fd7e40, Imm 0x8a8, Imm 0x707f], Count]"

definition min_rocks_pread64_fcntl_67_0_body46 :: "stmt list" where
  "min_rocks_pread64_fcntl_67_0_body46 = [
    Syscall NR_pread64 [Reg 0, Ptr 0x20009140, Imm 0x8ac, Imm 0x43b27a], Count,
    Syscall NR_pread64 [Reg 0, Ptr 0x2003a180, Imm 0x8a6, Imm 0x1be5c5], Count,
    Syscall NR_pread64 [Reg 0, Ptr 0x2004f700, Imm 0x8a7, Imm 0x29ba08], Count,
    Syscall NR_pread64 [Reg 0, Ptr 0x20060740, Imm 0x8ac, Imm 0x476e2], Count,
    Syscall NR_pread64 [Reg 0, Ptr 0x2008e840, Imm 0x8a4, Imm 0x122006], Count,
    Syscall NR_pread64 [Reg 0, Ptr 0x200a3640, Imm 0x8ab, Imm 0x2c20b8], Count,
    Syscall NR_pread64 [Reg 0, Ptr 0x200a7240, Imm 0x8a7, Imm 0x45ff1f], Count,
    Syscall NR_pread64 [Reg 0, Ptr 0x200ac780, Imm 0x8a8, Imm 0x26587b], Count,
    Syscall NR_pread64 [Reg 0, Ptr 0x200bfc00, Imm 0x8aa, Imm 0x9abc3], Count,
    Syscall NR_pread64 [Reg 0, Ptr 0x200c62c0, Imm 0x8a9, Imm 0x3db20], Count,
    Syscall NR_pread64 [Reg 0, Ptr 0x200dc0c0, Imm 0x8aa, Imm 0xb7695], Count,
    Syscall NR_pread64 [Reg 0, Ptr 0x200fc8c0, Imm 0x8a7, Imm 0x24db9d], Count,
    Syscall NR_pread64 [Reg 0, Ptr 0x20103880, Imm 0x8a4, Imm 0x14cbb0], Count]"

definition min_rocks_pread64_fcntl_67_0_body47 :: "stmt list" where
  "min_rocks_pread64_fcntl_67_0_body47 = [
    Syscall NR_pread64 [Reg 0, Ptr 0x20105b00, Imm 0x8a6, Imm 0x297d78], Count,
    Syscall NR_pread64 [Reg 0, Ptr 0x20113140, Imm 0x8a7, Imm 0x22d424], Count,
    Syscall NR_pread64 [Reg 0, Ptr 0x20118ec0, Imm 0x8a4, Imm 0x6a97a], Count,
    Syscall NR_pread64 [Reg 0, Ptr 0x2013f6c0, Imm 0x8a9, Imm 0x22187], Count,
    Syscall NR_pread64 [Reg 0, Ptr 0x201410c0, Imm 0x8a9, Imm 0x110258], Count,
    Syscall NR_pread64 [Reg 0, Ptr 0x201880c0, Imm 0x8a6, Imm 0x3250f9], Count,
    Syscall NR_pread64 [Reg 0, Ptr 0x20197040, Imm 0x8a5, Imm 0x442319], Count,
    Syscall NR_pread64 [Reg 0, Ptr 0x20198a40, Imm 0x8a8, Imm 0x3ff169], Count,
    Syscall NR_pread64 [Reg 0, Ptr 0x201ca4c0, Imm 0x8b0, Imm 0x2215b1], Count,
    Syscall NR_pread64 [Reg 0, Ptr 0x201cd8c0, Imm 0x8a7, Imm 0xfa816], Count, Close_reg 0]"

definition min_rocks_pread64_fcntl_67_0 :: syz_prog where
  "min_rocks_pread64_fcntl_67_0 = \<lparr>prog_name = ''min_rocks_pread64_fcntl_67_0'', prog_family = Rocksdb,
     subdirs = [''tmp/rocksdb_db''],
     filenames = [''./tmp/rocksdb_db/000032.ss''], filesizes = [4901915],
     max_write_buffer = 0, init_regs = replicate 1 (- 1),
     reg_body = [], dereg_body = [],
     body = min_rocks_pread64_fcntl_67_0_body1 @ min_rocks_pread64_fcntl_67_0_body2 @
       min_rocks_pread64_fcntl_67_0_body3 @ min_rocks_pread64_fcntl_67_0_body4 @
       min_rocks_pread64_fcntl_67_0_body5 @ min_rocks_pread64_fcntl_67_0_body6 @
       min_rocks_pread64_fcntl_67_0_body7 @ min_rocks_pread64_fcntl_67_0_body8 @
       min_rocks_pread64_fcntl_67_0_body9 @ min_rocks_pread64_fcntl_67_0_body10 @
       min_rocks_pread64_fcntl_67_0_body11 @ min_rocks_pread64_fcntl_67_0_body12 @
       min_rocks_pread64_fcntl_67_0_body13 @ min_rocks_pread64_fcntl_67_0_body14 @
       min_rocks_pread64_fcntl_67_0_body15 @ min_rocks_pread64_fcntl_67_0_body16 @
       min_rocks_pread64_fcntl_67_0_body17 @ min_rocks_pread64_fcntl_67_0_body18 @
       min_rocks_pread64_fcntl_67_0_body19 @ min_rocks_pread64_fcntl_67_0_body20 @
       min_rocks_pread64_fcntl_67_0_body21 @ min_rocks_pread64_fcntl_67_0_body22 @
       min_rocks_pread64_fcntl_67_0_body23 @ min_rocks_pread64_fcntl_67_0_body24 @
       min_rocks_pread64_fcntl_67_0_body25 @ min_rocks_pread64_fcntl_67_0_body26 @
       min_rocks_pread64_fcntl_67_0_body27 @ min_rocks_pread64_fcntl_67_0_body28 @
       min_rocks_pread64_fcntl_67_0_body29 @ min_rocks_pread64_fcntl_67_0_body30 @
       min_rocks_pread64_fcntl_67_0_body31 @ min_rocks_pread64_fcntl_67_0_body32 @
       min_rocks_pread64_fcntl_67_0_body33 @ min_rocks_pread64_fcntl_67_0_body34 @
       min_rocks_pread64_fcntl_67_0_body35 @ min_rocks_pread64_fcntl_67_0_body36 @
       min_rocks_pread64_fcntl_67_0_body37 @ min_rocks_pread64_fcntl_67_0_body38 @
       min_rocks_pread64_fcntl_67_0_body39 @ min_rocks_pread64_fcntl_67_0_body40 @
       min_rocks_pread64_fcntl_67_0_body41 @ min_rocks_pread64_fcntl_67_0_body42 @
       min_rocks_pread64_fcntl_67_0_body43 @ min_rocks_pread64_fcntl_67_0_body44 @
       min_rocks_pread64_fcntl_67_0_body45 @ min_rocks_pread64_fcntl_67_0_body46 @
       min_rocks_pread64_fcntl_67_0_body47\<rparr>"

definition min_rocks_pread64_fcntl_67_0_target where
  "min_rocks_pread64_fcntl_67_0_target os_getenv os_inet_pton K = syz_target os_getenv os_inet_pton K min_rocks_pread64_fcntl_67_0"

lemma min_rocks_pread64_fcntl_67_0_body1_ok: "body_ok (Suc 0) 0 min_rocks_pread64_fcntl_67_0_body1" "counted min_rocks_pread64_fcntl_67_0_body1" "calls min_rocks_pread64_fcntl_67_0_body1 = 12" "opened_in m min_rocks_pread64_fcntl_67_0_body1 = [Some ''./tmp/rocksdb_db/000032.sst'']"
  by (simp_all add: min_rocks_pread64_fcntl_67_0_body1_def prog_checks open_checks)

lemma min_rocks_pread64_fcntl_67_0_body2_ok: "body_ok (Suc 0) 0 min_rocks_pread64_fcntl_67_0_body2" "counted min_rocks_pread64_fcntl_67_0_body2" "calls min_rocks_pread64_fcntl_67_0_body2 = 13" "opened_in m min_rocks_pread64_fcntl_67_0_body2 = []"
  by (simp_all add: min_rocks_pread64_fcntl_67_0_body2_def prog_checks open_checks)

lemma min_rocks_pread64_fcntl_67_0_body3_ok: "body_ok (Suc 0) 0 min_rocks_pread64_fcntl_67_0_body3" "counted min_rocks_pread64_fcntl_67_0_body3" "calls min_rocks_pread64_fcntl_67_0_body3 = 13" "opened_in m min_rocks_pread64_fcntl_67_0_body3 = []"
  by (simp_all add: min_rocks_pread64_fcntl_67_0_body3_def prog_checks open_checks)

lemma min_rocks_pread64_fcntl_67_0_body4_ok: "body_ok (Suc 0) 0 min_rocks_pread64_fcntl_67_0_body4" "counted min_rocks_pread64_fcntl_67_0_body4" "calls min_rocks_pread64_fcntl_67_0_body4 = 13" "opened_in m min_rocks_pread64_fcntl_67_0_body4 = []"
  by (simp_all add: min_rocks_pread64_fcntl_67_0_body4_def prog_checks open_checks)

lemma min_rocks_pread64_fcntl_67_0_body5_ok: "body_ok (Suc 0) 0 min_rocks_pread64_fcntl_67_0_body5" "counted min_rocks_pread64_fcntl_67_0_body5" "calls min_rocks_pread64_fcntl_67_0_body5 = 13" "opened_in m min_rocks_pread64_fcntl_67_0_body5 = []"
  by (simp_all add: min_rocks_pread64_fcntl_67_0_body5_def prog_checks open_checks)

lemma min_rocks_pread64_fcntl_67_0_body6_ok: "body_ok (Suc 0) 0 min_rocks_pread64_fcntl_67_0_body6" "counted min_rocks_pread64_fcntl_67_0_body6" "calls min_rocks_pread64_fcntl_67_0_body6 = 13" "opened_in m min_rocks_pread64_fcntl_67_0_body6 = []"
  by (simp_all add: min_rocks_pread64_fcntl_67_0_body6_def prog_checks open_checks)

lemma min_rocks_pread64_fcntl_67_0_body7_ok: "body_ok (Suc 0) 0 min_rocks_pread64_fcntl_67_0_body7" "counted min_rocks_pread64_fcntl_67_0_body7" "calls min_rocks_pread64_fcntl_67_0_body7 = 13" "opened_in m min_rocks_pread64_fcntl_67_0_body7 = []"
  by (simp_all add: min_rocks_pread64_fcntl_67_0_body7_def prog_checks open_checks)

lemma min_rocks_pread64_fcntl_67_0_body8_ok: "body_ok (Suc 0) 0 min_rocks_pread64_fcntl_67_0_body8" "counted min_rocks_pread64_fcntl_67_0_body8" "calls min_rocks_pread64_fcntl_67_0_body8 = 13" "opened_in m min_rocks_pread64_fcntl_67_0_body8 = []"
  by (simp_all add: min_rocks_pread64_fcntl_67_0_body8_def prog_checks open_checks)

lemma min_rocks_pread64_fcntl_67_0_body9_ok: "body_ok (Suc 0) 0 min_rocks_pread64_fcntl_67_0_body9" "counted min_rocks_pread64_fcntl_67_0_body9" "calls min_rocks_pread64_fcntl_67_0_body9 = 13" "opened_in m min_rocks_pread64_fcntl_67_0_body9 = []"
  by (simp_all add: min_rocks_pread64_fcntl_67_0_body9_def prog_checks open_checks)

lemma min_rocks_pread64_fcntl_67_0_body10_ok: "body_ok (Suc 0) 0 min_rocks_pread64_fcntl_67_0_body10" "counted min_rocks_pread64_fcntl_67_0_body10" "calls min_rocks_pread64_fcntl_67_0_body10 = 13" "opened_in m min_rocks_pread64_fcntl_67_0_body10 = []"
  by (simp_all add: min_rocks_pread64_fcntl_67_0_body10_def prog_checks open_checks)

lemma min_rocks_pread64_fcntl_67_0_body11_ok: "body_ok (Suc 0) 0 min_rocks_pread64_fcntl_67_0_body11" "counted min_rocks_pread64_fcntl_67_0_body11" "calls min_rocks_pread64_fcntl_67_0_body11 = 13" "opened_in m min_rocks_pread64_fcntl_67_0_body11 = []"
  by (simp_all add: min_rocks_pread64_fcntl_67_0_body11_def prog_checks open_checks)

lemma min_rocks_pread64_fcntl_67_0_body12_ok: "body_ok (Suc 0) 0 min_rocks_pread64_fcntl_67_0_body12" "counted min_rocks_pread64_fcntl_67_0_body12" "calls min_rocks_pread64_fcntl_67_0_body12 = 13" "opened_in m min_rocks_pread64_fcntl_67_0_body12 = []"
  by (simp_all add: min_rocks_pread64_fcntl_67_0_body12_def prog_checks open_checks)

lemma min_rocks_pread64_fcntl_67_0_body13_ok: "body_ok (Suc 0) 0 min_rocks_pread64_fcntl_67_0_body13" "counted min_rocks_pread64_fcntl_67_0_body13" "calls min_rocks_pread64_fcntl_67_0_body13 = 13" "opened_in m min_rocks_pread64_fcntl_67_0_body13 = []"
  by (simp_all add: min_rocks_pread64_fcntl_67_0_body13_def prog_checks open_checks)

lemma min_rocks_pread64_fcntl_67_0_body14_ok: "body_ok (Suc 0) 0 min_rocks_pread64_fcntl_67_0_body14" "counted min_rocks_pread64_fcntl_67_0_body14" "calls min_rocks_pread64_fcntl_67_0_body14 = 13" "opened_in m min_rocks_pread64_fcntl_67_0_body14 = []"
  by (simp_all add: min_rocks_pread64_fcntl_67_0_body14_def prog_checks open_checks)

lemma min_rocks_pread64_fcntl_67_0_body15_ok: "body_ok (Suc 0) 0 min_rocks_pread64_fcntl_67_0_body15" "counted min_rocks_pread64_fcntl_67_0_body15" "calls min_rocks_pread64_fcntl_67_0_body15 = 13" "opened_in m min_rocks_pread64_fcntl_67_0_body15 = []"
  by (simp_all add: min_rocks_pread64_fcntl_67_0_body15_def prog_checks open_checks)

lemma min_rocks_pread64_fcntl_67_0_body16_ok: "body_ok (Suc 0) 0 min_rocks_pread64_fcntl_67_0_body16" "counted min_rocks_pread64_fcntl_67_0_body16" "calls min_rocks_pread64_fcntl_67_0_body16 = 13" "opened_in m min_rocks_pread64_fcntl_67_0_body16 = []"
  by (simp_all add: min_rocks_pread64_fcntl_67_0_body16_def prog_checks open_checks)

lemma min_rocks_pread64_fcntl_67_0_body17_ok: "body_ok (Suc 0) 0 min_rocks_pread64_fcntl_67_0_body17" "counted min_rocks_pread64_fcntl_67_0_body17" "calls min_rocks_pread64_fcntl_67_0_body17 = 13" "opened_in m min_rocks_pread64_fcntl_67_0_body17 = []"
  by (simp_all add: min_rocks_pread64_fcntl_67_0_body17_def prog_checks open_checks)

lemma min_rocks_pread64_fcntl_67_0_body18_ok: "body_ok (Suc 0) 0 min_rocks_pread64_fcntl_67_0_body18" "counted min_rocks_pread64_fcntl_67_0_body18" "calls min_rocks_pread64_fcntl_67_0_body18 = 13" "opened_in m min_rocks_pread64_fcntl_67_0_body18 = []"
  by (simp_all add: min_rocks_pread64_fcntl_67_0_body18_def prog_checks open_checks)

lemma min_rocks_pread64_fcntl_67_0_body19_ok: "body_ok (Suc 0) 0 min_rocks_pread64_fcntl_67_0_body19" "counted min_rocks_pread64_fcntl_67_0_body19" "calls min_rocks_pread64_fcntl_67_0_body19 = 13" "opened_in m min_rocks_pread64_fcntl_67_0_body19 = []"
  by (simp_all add: min_rocks_pread64_fcntl_67_0_body19_def prog_checks open_checks)

lemma min_rocks_pread64_fcntl_67_0_body20_ok: "body_ok (Suc 0) 0 min_rocks_pread64_fcntl_67_0_body20" "counted min_rocks_pread64_fcntl_67_0_body20" "calls min_rocks_pread64_fcntl_67_0_body20 = 13" "opened_in m min_rocks_pread64_fcntl_67_0_body20 = []"
  by (simp_all add: min_rocks_pread64_fcntl_67_0_body20_def prog_checks open_checks)

lemma min_rocks_pread64_fcntl_67_0_body21_ok: "body_ok (Suc 0) 0 min_rocks_pread64_fcntl_67_0_body21" "counted min_rocks_pread64_fcntl_67_0_body21" "calls min_rocks_pread64_fcntl_67_0_body21 = 13" "opened_in m min_rocks_pread64_fcntl_67_0_body21 = []"
  by (simp_all add: min_rocks_pread64_fcntl_67_0_body21_def prog_checks open_checks)

lemma min_rocks_pread64_fcntl_67_0_body22_ok: "body_ok (Suc 0) 0 min_rocks_pread64_fcntl_67_0_body22" "counted min_rocks_pread64_fcntl_67_0_body22" "calls min_rocks_pread64_fcntl_67_0_body22 = 13" "opened_in m min_rocks_pread64_fcntl_67_0_body22 = []"
  by (simp_all add: min_rocks_pread64_fcntl_67_0_body22_def prog_checks open_checks)

lemma min_rocks_pread64_fcntl_67_0_body23_ok: "body_ok (Suc 0) 0 min_rocks_pread64_fcntl_67_0_body23" "counted min_rocks_pread64_fcntl_67_0_body23" "calls min_rocks_pread64_fcntl_67_0_body23 = 13" "opened_in m min_rocks_pread64_fcntl_67_0_body23 = []"
  by (simp_all add: min_rocks_pread64_fcntl_67_0_body23_def prog_checks open_checks)

lemma min_rocks_pread64_fcntl_67_0_body24_ok: "body_ok (Suc 0) 0 min_rocks_pread64_fcntl_67_0_body24" "counted min_rocks_pread64_fcntl_67_0_body24" "calls min_rocks_pread64_fcntl_67_0_body24 = 13" "opened_in m min_rocks_pread64_fcntl_67_0_body24 = []"
  by (simp_all add: min_rocks_pread64_fcntl_67_0_body24_def prog_checks open_checks)

lemma min_rocks_pread64_fcntl_67_0_body25_ok: "body_ok (Suc 0) 0 min_rocks_pread64_fcntl_67_0_body25" "counted min_rocks_pread64_fcntl_67_0_body25" "calls min_rocks_pread64_fcntl_67_0_body25 = 13" "opened_in m min_rocks_pread64_fcntl_67_0_body25 = []"
  by (simp_all add: min_rocks_pread64_fcntl_67_0_body25_def prog_checks open_checks)

lemma min_rocks_pread64_fcntl_67_0_body26_ok: "body_ok (Suc 0) 0 min_rocks_pread64_fcntl_67_0_body26" "counted min_rocks_pread64_fcntl_67_0_body26" "calls min_rocks_pread64_fcntl_67_0_body26 = 13" "opened_in m min_rocks_pread64_fcntl_67_0_body26 = []"
  by (simp_all add: min_rocks_pread64_fcntl_67_0_body26_def prog_checks open_checks)

lemma min_rocks_pread64_fcntl_67_0_body27_ok: "body_ok (Suc 0) 0 min_rocks_pread64_fcntl_67_0_body27" "counted min_rocks_pread64_fcntl_67_0_body27" "calls min_rocks_pread64_fcntl_67_0_body27 = 13" "opened_in m min_rocks_pread64_fcntl_67_0_body27 = []"
  by (simp_all add: min_rocks_pread64_fcntl_67_0_body27_def prog_checks open_checks)

lemma min_rocks_pread64_fcntl_67_0_body28_ok: "body_ok (Suc 0) 0 min_rocks_pread64_fcntl_67_0_body28" "counted min_rocks_pread64_fcntl_67_0_body28" "calls min_rocks_pread64_fcntl_67_0_body28 = 13" "opened_in m min_rocks_pread64_fcntl_67_0_body28 = []"
  by (simp_all add: min_rocks_pread64_fcntl_67_0_body28_def prog_checks open_checks)

lemma min_rocks_pread64_fcntl_67_0_body29_ok: "body_ok (Suc 0) 0 min_rocks_pread64_fcntl_67_0_body29" "counted min_rocks_pread64_fcntl_67_0_body29" "calls min_rocks_pread64_fcntl_67_0_body29 = 13" "opened_in m min_rocks_pread64_fcntl_67_0_body29 = []"
  by (simp_all add: min_rocks_pread64_fcntl_67_0_body29_def prog_checks open_checks)

lemma min_rocks_pread64_fcntl_67_0_body30_ok: "body_ok (Suc 0) 0 min_rocks_pread64_fcntl_67_0_body30" "counted min_rocks_pread64_fcntl_67_0_body30" "calls min_rocks_pread64_fcntl_67_0_body30 = 13" "opened_in m min_rocks_pread64_fcntl_67_0_body30 = []"
  by (simp_all add: min_rocks_pread64_fcntl_67_0_body30_def prog_checks open_checks)

lemma min_rocks_pread64_fcntl_67_0_body31_ok: "body_ok (Suc 0) 0 min_rocks_pread64_fcntl_67_0_body31" "counted min_rocks_pread64_fcntl_67_0_body31" "calls min_rocks_pread64_fcntl_67_0_body31 = 13" "opened_in m min_rocks_pread64_fcntl_67_0_body31 = []"
  by (simp_all add: min_rocks_pread64_fcntl_67_0_body31_def prog_checks open_checks)

lemma min_rocks_pread64_fcntl_67_0_body32_ok: "body_ok (Suc 0) 0 min_rocks_pread64_fcntl_67_0_body32" "counted min_rocks_pread64_fcntl_67_0_body32" "calls min_rocks_pread64_fcntl_67_0_body32 = 13" "opened_in m min_rocks_pread64_fcntl_67_0_body32 = []"
  by (simp_all add: min_rocks_pread64_fcntl_67_0_body32_def prog_checks open_checks)

lemma min_rocks_pread64_fcntl_67_0_body33_ok: "body_ok (Suc 0) 0 min_rocks_pread64_fcntl_67_0_body33" "counted min_rocks_pread64_fcntl_67_0_body33" "calls min_rocks_pread64_fcntl_67_0_body33 = 13" "opened_in m min_rocks_pread64_fcntl_67_0_body33 = []"
  by (simp_all add: min_rocks_pread64_fcntl_67_0_body33_def prog_checks open_checks)

lemma min_rocks_pread64_fcntl_67_0_body34_ok: "body_ok (Suc 0) 0 min_rocks_pread64_fcntl_67_0_body34" "counted min_rocks_pread64_fcntl_67_0_body34" "calls min_rocks_pread64_fcntl_67_0_body34 = 13" "opened_in m min_rocks_pread64_fcntl_67_0_body34 = []"
  by (simp_all add: min_rocks_pread64_fcntl_67_0_body34_def prog_checks open_checks)

lemma min_rocks_pread64_fcntl_67_0_body35_ok: "body_ok (Suc 0) 0 min_rocks_pread64_fcntl_67_0_body35" "counted min_rocks_pread64_fcntl_67_0_body35" "calls min_rocks_pread64_fcntl_67_0_body35 = 13" "opened_in m min_rocks_pread64_fcntl_67_0_body35 = []"
  by (simp_all add: min_rocks_pread64_fcntl_67_0_body35_def prog_checks open_checks)

lemma min_rocks_pread64_fcntl_67_0_body36_ok: "body_ok (Suc 0) 0 min_rocks_pread64_fcntl_67_0_body36" "counted min_rocks_pread64_fcntl_67_0_body36" "calls min_rocks_pread64_fcntl_67_0_body36 = 13" "opened_in m min_rocks_pread64_fcntl_67_0_body36 = []"
  by (simp_all add: min_rocks_pread64_fcntl_67_0_body36_def prog_checks open_checks)

lemma min_rocks_pread64_fcntl_67_0_body37_ok: "body_ok (Suc 0) 0 min_rocks_pread64_fcntl_67_0_body37" "counted min_rocks_pread64_fcntl_67_0_body37" "calls min_rocks_pread64_fcntl_67_0_body37 = 13" "opened_in m min_rocks_pread64_fcntl_67_0_body37 = []"
  by (simp_all add: min_rocks_pread64_fcntl_67_0_body37_def prog_checks open_checks)

lemma min_rocks_pread64_fcntl_67_0_body38_ok: "body_ok (Suc 0) 0 min_rocks_pread64_fcntl_67_0_body38" "counted min_rocks_pread64_fcntl_67_0_body38" "calls min_rocks_pread64_fcntl_67_0_body38 = 13" "opened_in m min_rocks_pread64_fcntl_67_0_body38 = []"
  by (simp_all add: min_rocks_pread64_fcntl_67_0_body38_def prog_checks open_checks)

lemma min_rocks_pread64_fcntl_67_0_body39_ok: "body_ok (Suc 0) 0 min_rocks_pread64_fcntl_67_0_body39" "counted min_rocks_pread64_fcntl_67_0_body39" "calls min_rocks_pread64_fcntl_67_0_body39 = 13" "opened_in m min_rocks_pread64_fcntl_67_0_body39 = []"
  by (simp_all add: min_rocks_pread64_fcntl_67_0_body39_def prog_checks open_checks)

lemma min_rocks_pread64_fcntl_67_0_body40_ok: "body_ok (Suc 0) 0 min_rocks_pread64_fcntl_67_0_body40" "counted min_rocks_pread64_fcntl_67_0_body40" "calls min_rocks_pread64_fcntl_67_0_body40 = 13" "opened_in m min_rocks_pread64_fcntl_67_0_body40 = []"
  by (simp_all add: min_rocks_pread64_fcntl_67_0_body40_def prog_checks open_checks)

lemma min_rocks_pread64_fcntl_67_0_body41_ok: "body_ok (Suc 0) 0 min_rocks_pread64_fcntl_67_0_body41" "counted min_rocks_pread64_fcntl_67_0_body41" "calls min_rocks_pread64_fcntl_67_0_body41 = 13" "opened_in m min_rocks_pread64_fcntl_67_0_body41 = []"
  by (simp_all add: min_rocks_pread64_fcntl_67_0_body41_def prog_checks open_checks)

lemma min_rocks_pread64_fcntl_67_0_body42_ok: "body_ok (Suc 0) 0 min_rocks_pread64_fcntl_67_0_body42" "counted min_rocks_pread64_fcntl_67_0_body42" "calls min_rocks_pread64_fcntl_67_0_body42 = 13" "opened_in m min_rocks_pread64_fcntl_67_0_body42 = []"
  by (simp_all add: min_rocks_pread64_fcntl_67_0_body42_def prog_checks open_checks)

lemma min_rocks_pread64_fcntl_67_0_body43_ok: "body_ok (Suc 0) 0 min_rocks_pread64_fcntl_67_0_body43" "counted min_rocks_pread64_fcntl_67_0_body43" "calls min_rocks_pread64_fcntl_67_0_body43 = 13" "opened_in m min_rocks_pread64_fcntl_67_0_body43 = []"
  by (simp_all add: min_rocks_pread64_fcntl_67_0_body43_def prog_checks open_checks)

lemma min_rocks_pread64_fcntl_67_0_body44_ok: "body_ok (Suc 0) 0 min_rocks_pread64_fcntl_67_0_body44" "counted min_rocks_pread64_fcntl_67_0_body44" "calls min_rocks_pread64_fcntl_67_0_body44 = 13" "opened_in m min_rocks_pread64_fcntl_67_0_body44 = []"
  by (simp_all add: min_rocks_pread64_fcntl_67_0_body44_def prog_checks open_checks)

lemma min_rocks_pread64_fcntl_67_0_body45_ok: "body_ok (Suc 0) 0 min_rocks_pread64_fcntl_67_0_body45" "counted min_rocks_pread64_fcntl_67_0_body45" "calls min_rocks_pread64_fcntl_67_0_body45 = 13" "opened_in m min_rocks_pread64_fcntl_67_0_body45 = []"
  by (simp_all add: min_rocks_pread64_fcntl_67_0_body45_def prog_checks open_checks)

lemma min_rocks_pread64_fcntl_67_0_body46_ok: "body_ok (Suc 0) 0 min_rocks_pread64_fcntl_67_0_body46" "counted min_rocks_pread64_fcntl_67_0_body46" "calls min_rocks_pread64_fcntl_67_0_body46 = 13" "opened_in m min_rocks_pread64_fcntl_67_0_body46 = []"
  by (simp_all add: min_rocks_pread64_fcntl_67_0_body46_def prog_checks open_checks)

lemma min_rocks_pread64_fcntl_67_0_body47_ok: "body_ok (Suc 0) 0 min_rocks_pread64_fcntl_67_0_body47" "counted min_rocks_pread64_fcntl_67_0_body47" "calls min_rocks_pread64_fcntl_67_0_body47 = 10" "opened_in m min_rocks_pread64_fcntl_67_0_body47 = []"
  by (simp_all add: min_rocks_pread64_fcntl_67_0_body47_def prog_checks open_checks)

lemmas min_rocks_pread64_fcntl_67_0_bodies =
  min_rocks_pread64_fcntl_67_0_body1_ok min_rocks_pread64_fcntl_67_0_body2_ok
  min_rocks_pread64_fcntl_67_0_body3_ok min_rocks_pread64_fcntl_67_0_body4_ok
  min_rocks_pread64_fcntl_67_0_body5_ok min_rocks_pread64_fcntl_67_0_body6_ok
  min_rocks_pread64_fcntl_67_0_body7_ok min_rocks_pread64_fcntl_67_0_body8_ok
  min_rocks_pread64_fcntl_67_0_body9_ok min_rocks_pread64_fcntl_67_0_body10_ok
  min_rocks_pread64_fcntl_67_0_body11_ok min_rocks_pread64_fcntl_67_0_body12_ok
  min_rocks_pread64_fcntl_67_0_body13_ok min_rocks_pread64_fcntl_67_0_body14_ok
  min_rocks_pread64_fcntl_67_0_body15_ok min_rocks_pread64_fcntl_67_0_body16_ok
  min_rocks_pread64_fcntl_67_0_body17_ok min_rocks_pread64_fcntl_67_0_body18_ok
  min_rocks_pread64_fcntl_67_0_body19_ok min_rocks_pread64_fcntl_67_0_body20_ok
  min_rocks_pread64_fcntl_67_0_body21_ok min_rocks_pread64_fcntl_67_0_body22_ok
  min_rocks_pread64_fcntl_67_0_body23_ok min_rocks_pread64_fcntl_67_0_body24_ok
  min_rocks_pread64_fcntl_67_0_body25_ok min_rocks_pread64_fcntl_67_0_body26_ok
  min_rocks_pread64_fcntl_67_0_body27_ok min_rocks_pread64_fcntl_67_0_body28_ok
  min_rocks_pread64_fcntl_67_0_body29_ok min_rocks_pread64_fcntl_67_0_body30_ok
  min_rocks_pread64_fcntl_67_0_body31_ok min_rocks_pread64_fcntl_67_0_body32_ok
  min_rocks_pread64_fcntl_67_0_body33_ok min_rocks_pread64_fcntl_67_0_body34_ok
  min_rocks_pread64_fcntl_67_0_body35_ok min_rocks_pread64_fcntl_67_0_body36_ok
  min_rocks_pread64_fcntl_67_0_body37_ok min_rocks_pread64_fcntl_67_0_body38_ok
  min_rocks_pread64_fcntl_67_0_body39_ok min_rocks_pread64_fcntl_67_0_body40_ok
  min_rocks_pread64_fcntl_67_0_body41_ok min_rocks_pread64_fcntl_67_0_body42_ok
  min_rocks_pread64_fcntl_67_0_body43_ok min_rocks_pread64_fcntl_67_0_body44_ok
  min_rocks_pread64_fcntl_67_0_body45_ok min_rocks_pread64_fcntl_67_0_body46_ok
  min_rocks_pread64_fcntl_67_0_body47_ok

lemma min_rocks_pread64_fcntl_67_0_ok: "prog_ok min_rocks_pread64_fcntl_67_0" "calls (body min_rocks_pread64_fcntl_67_0) = 607"
  by (simp_all add: prog_ok_def counted_append prog_checks min_rocks_pread64_fcntl_67_0_def min_rocks_pread64_fcntl_67_0_bodies)

lemma min_rocks_pread64_fcntl_67_0_misses: "setup_misses min_rocks_pread64_fcntl_67_0" "filenames min_rocks_pread64_fcntl_67_0 \<noteq> []" "reg_body min_rocks_pread64_fcntl_67_0 = []" "num_regs min_rocks_pread64_fcntl_67_0 < 2 ^ 32"
  by (simp_all add: setup_misses_def opened_def misses_def path_names_def opened_in_append min_rocks_pread64_fcntl_67_0_def min_rocks_pread64_fcntl_67_0_bodies prog_checks open_checks)

end
