(* ===== verification/CSB_Progs_Rocksdb_e.thy ===== *)
theory CSB_Progs_Rocksdb_e
  imports CSB_Syz_Files
begin

text \<open>
  Bodies of generated targets of bench/targets/rocksdb, statement by statement in the order of the
  files syz/<name>.h, and the targets made of them (the files <name>.h). Each passes the check.
\<close>

section \<open>min\_rocks\_read\_fcntl\_0\_0\<close>

definition min_rocks_read_fcntl_0_0_body1 :: "stmt list" where
  "min_rocks_read_fcntl_0_0_body1 = [
    Memcpy 0x20009500 (with_nul ''./tmp/rocksdb_db/000028.log'') 28,
    Syscall NR_newfstatat [Dir_fd, Ptr 0x20009500, Ptr 0x20009540, Imm 0], Count,
    Memcpy 0x2003e1c0 (with_nul ''./tmp/rocksdb_db/000028.log'') 28,
    Syscall NR_openat [Dir_fd, Ptr 0x2003e1c0, Imm 0x80040, Imm 0x1ff], Count, Save_res 0,
    Syscall NR_fcntl [Reg 0, Imm 1, Imm 0], Count, Syscall NR_fcntl [Reg 0, Imm 2, Imm 1], Count,
    Syscall NR_fcntl [Reg 0, Imm 3, Imm 0], Count, Syscall NR_read [Reg 0, Ptr 0x2003e2c0, Imm 0x8000], Count,
    Syscall NR_read [Reg 0, Ptr 0x200462c0, Imm 0x8000], Count,
    Syscall NR_read [Reg 0, Ptr 0x2004e2c0, Imm 0x8000], Count,
    Syscall NR_read [Reg 0, Ptr 0x200562c0, Imm 0x8000], Count,
    Syscall NR_read [Reg 0, Ptr 0x2005e2c0, Imm 0x8000], Count,
    Syscall NR_read [Reg 0, Ptr 0x200662c0, Imm 0x8000], Count]"

definition min_rocks_read_fcntl_0_0_body2 :: "stmt list" where
  "min_rocks_read_fcntl_0_0_body2 = [
    Syscall NR_read [Reg 0, Ptr 0x2006e2c0, Imm 0x8000], Count,
    Syscall NR_read [Reg 0, Ptr 0x200762c0, Imm 0x8000], Count,
    Syscall NR_read [Reg 0, Ptr 0x2007e2c0, Imm 0x8000], Count,
    Syscall NR_read [Reg 0, Ptr 0x200862c0, Imm 0x8000], Count,
    Syscall NR_read [Reg 0, Ptr 0x2008e2c0, Imm 0x8000], Count,
    Syscall NR_read [Reg 0, Ptr 0x200962c0, Imm 0x8000], Count,
    Syscall NR_read [Reg 0, Ptr 0x2009e2c0, Imm 0x8000], Count,
    Syscall NR_read [Reg 0, Ptr 0x200a62c0, Imm 0x8000], Count,
    Syscall NR_read [Reg 0, Ptr 0x200ae2c0, Imm 0x8000], Count,
    Syscall NR_read [Reg 0, Ptr 0x200b62c0, Imm 0x8000], Count,
    Syscall NR_read [Reg 0, Ptr 0x200be2c0, Imm 0x8000], Count,
    Syscall NR_read [Reg 0, Ptr 0x200c62c0, Imm 0x8000], Count,
    Syscall NR_read [Reg 0, Ptr 0x200ce2c0, Imm 0x8000], Count,
    Syscall NR_read [Reg 0, Ptr 0x200d62c0, Imm 0x8000], Count]"

definition min_rocks_read_fcntl_0_0_body3 :: "stmt list" where
  "min_rocks_read_fcntl_0_0_body3 = [
    Syscall NR_read [Reg 0, Ptr 0x200de2c0, Imm 0x8000], Count,
    Syscall NR_read [Reg 0, Ptr 0x200e62c0, Imm 0x8000], Count,
    Syscall NR_read [Reg 0, Ptr 0x200ee2c0, Imm 0x8000], Count,
    Syscall NR_read [Reg 0, Ptr 0x200f62c0, Imm 0x8000], Count,
    Syscall NR_read [Reg 0, Ptr 0x200fe2c0, Imm 0x8000], Count,
    Syscall NR_read [Reg 0, Ptr 0x201062c0, Imm 0x8000], Count,
    Syscall NR_read [Reg 0, Ptr 0x2010e2c0, Imm 0x8000], Count,
    Syscall NR_read [Reg 0, Ptr 0x201162c0, Imm 0x8000], Count,
    Syscall NR_read [Reg 0, Ptr 0x2011e2c0, Imm 0x8000], Count,
    Syscall NR_read [Reg 0, Ptr 0x201262c0, Imm 0x8000], Count,
    Syscall NR_read [Reg 0, Ptr 0x2012e2c0, Imm 0x8000], Count,
    Syscall NR_read [Reg 0, Ptr 0x201362c0, Imm 0x8000], Count,
    Syscall NR_read [Reg 0, Ptr 0x2013e2c0, Imm 0x8000], Count,
    Syscall NR_read [Reg 0, Ptr 0x201462c0, Imm 0x8000], Count]"

definition min_rocks_read_fcntl_0_0_body4 :: "stmt list" where
  "min_rocks_read_fcntl_0_0_body4 = [
    Syscall NR_read [Reg 0, Ptr 0x2014e2c0, Imm 0x8000], Count,
    Syscall NR_read [Reg 0, Ptr 0x201562c0, Imm 0x8000], Count,
    Syscall NR_read [Reg 0, Ptr 0x2015e2c0, Imm 0x8000], Count,
    Syscall NR_read [Reg 0, Ptr 0x201662c0, Imm 0x8000], Count,
    Syscall NR_read [Reg 0, Ptr 0x2016e2c0, Imm 0x8000], Count,
    Syscall NR_read [Reg 0, Ptr 0x201762c0, Imm 0x8000], Count,
    Syscall NR_read [Reg 0, Ptr 0x2017e2c0, Imm 0x8000], Count,
    Syscall NR_read [Reg 0, Ptr 0x201862c0, Imm 0x8000], Count,
    Syscall NR_read [Reg 0, Ptr 0x2018e2c0, Imm 0x8000], Count,
    Syscall NR_read [Reg 0, Ptr 0x201962c0, Imm 0x8000], Count,
    Syscall NR_read [Reg 0, Ptr 0x2019e2c0, Imm 0x8000], Count,
    Syscall NR_read [Reg 0, Ptr 0x201a62c0, Imm 0x8000], Count,
    Syscall NR_read [Reg 0, Ptr 0x201ae2c0, Imm 0x8000], Count,
    Syscall NR_read [Reg 0, Ptr 0x201b62c0, Imm 0x8000], Count]"

definition min_rocks_read_fcntl_0_0_body5 :: "stmt list" where
  "min_rocks_read_fcntl_0_0_body5 = [
    Syscall NR_read [Reg 0, Ptr 0x201be2c0, Imm 0x8000], Count,
    Syscall NR_read [Reg 0, Ptr 0x201c62c0, Imm 0x8000], Count,
    Syscall NR_read [Reg 0, Ptr 0x201ce2c0, Imm 0x8000], Count,
    Syscall NR_read [Reg 0, Ptr 0x201d62c0, Imm 0x8000], Count,
    Syscall NR_read [Reg 0, Ptr 0x201de2c0, Imm 0x8000], Count,
    Syscall NR_read [Reg 0, Ptr 0x201e62c0, Imm 0x8000], Count,
    Syscall NR_read [Reg 0, Ptr 0x201ee2c0, Imm 0x8000], Count,
    Syscall NR_read [Reg 0, Ptr 0x201f62c0, Imm 0x8000], Count,
    Syscall NR_read [Reg 0, Ptr 0x201fe2c0, Imm 0x8000], Count,
    Syscall NR_read [Reg 0, Ptr 0x202062c0, Imm 0x8000], Count,
    Syscall NR_read [Reg 0, Ptr 0x2020e2c0, Imm 0x8000], Count,
    Syscall NR_read [Reg 0, Ptr 0x202162c0, Imm 0x8000], Count,
    Syscall NR_read [Reg 0, Ptr 0x2021e2c0, Imm 0x8000], Count,
    Syscall NR_read [Reg 0, Ptr 0x202262c0, Imm 0x8000], Count]"

definition min_rocks_read_fcntl_0_0_body6 :: "stmt list" where
  "min_rocks_read_fcntl_0_0_body6 = [
    Syscall NR_read [Reg 0, Ptr 0x2022e2c0, Imm 0x8000], Count,
    Syscall NR_read [Reg 0, Ptr 0x202362c0, Imm 0x8000], Count,
    Syscall NR_read [Reg 0, Ptr 0x2023e2c0, Imm 0x8000], Count,
    Syscall NR_read [Reg 0, Ptr 0x202462c0, Imm 0x8000], Count,
    Syscall NR_read [Reg 0, Ptr 0x2024e2c0, Imm 0x8000], Count,
    Syscall NR_read [Reg 0, Ptr 0x202562c0, Imm 0x8000], Count,
    Syscall NR_read [Reg 0, Ptr 0x2025e2c0, Imm 0x8000], Count,
    Syscall NR_read [Reg 0, Ptr 0x202662c0, Imm 0x8000], Count,
    Syscall NR_read [Reg 0, Ptr 0x2026e2c0, Imm 0x8000], Count,
    Syscall NR_read [Reg 0, Ptr 0x202762c0, Imm 0x8000], Count,
    Syscall NR_read [Reg 0, Ptr 0x2027e2c0, Imm 0x8000], Count,
    Syscall NR_read [Reg 0, Ptr 0x202862c0, Imm 0x8000], Count,
    Syscall NR_read [Reg 0, Ptr 0x2028e2c0, Imm 0x8000], Count,
    Syscall NR_read [Reg 0, Ptr 0x202962c0, Imm 0x8000], Count]"

definition min_rocks_read_fcntl_0_0_body7 :: "stmt list" where
  "min_rocks_read_fcntl_0_0_body7 = [
    Syscall NR_read [Reg 0, Ptr 0x2029e2c0, Imm 0x8000], Count,
    Syscall NR_read [Reg 0, Ptr 0x202a62c0, Imm 0x8000], Count,
    Syscall NR_read [Reg 0, Ptr 0x202ae2c0, Imm 0x8000], Count,
    Syscall NR_read [Reg 0, Ptr 0x202b62c0, Imm 0x8000], Count,
    Syscall NR_read [Reg 0, Ptr 0x202be2c0, Imm 0x8000], Count,
    Syscall NR_read [Reg 0, Ptr 0x202c62c0, Imm 0x8000], Count,
    Syscall NR_read [Reg 0, Ptr 0x202ce2c0, Imm 0x8000], Count,
    Syscall NR_read [Reg 0, Ptr 0x202d62c0, Imm 0x8000], Count,
    Syscall NR_read [Reg 0, Ptr 0x202de2c0, Imm 0x8000], Count,
    Syscall NR_read [Reg 0, Ptr 0x202e62c0, Imm 0x8000], Count,
    Syscall NR_read [Reg 0, Ptr 0x202ee2c0, Imm 0x8000], Count,
    Syscall NR_read [Reg 0, Ptr 0x202f62c0, Imm 0x8000], Count,
    Syscall NR_read [Reg 0, Ptr 0x202fe2c0, Imm 0x8000], Count,
    Syscall NR_read [Reg 0, Ptr 0x203062c0, Imm 0x8000], Count]"

definition min_rocks_read_fcntl_0_0_body8 :: "stmt list" where
  "min_rocks_read_fcntl_0_0_body8 = [
    Syscall NR_read [Reg 0, Ptr 0x2030e2c0, Imm 0x8000], Count,
    Syscall NR_read [Reg 0, Ptr 0x203162c0, Imm 0x8000], Count,
    Syscall NR_read [Reg 0, Ptr 0x2031e2c0, Imm 0x8000], Count,
    Syscall NR_read [Reg 0, Ptr 0x203262c0, Imm 0x8000], Count,
    Syscall NR_read [Reg 0, Ptr 0x2032e2c0, Imm 0x8000], Count,
    Syscall NR_read [Reg 0, Ptr 0x203362c0, Imm 0x8000], Count,
    Syscall NR_read [Reg 0, Ptr 0x2033e2c0, Imm 0x8000], Count,
    Syscall NR_read [Reg 0, Ptr 0x203462c0, Imm 0x8000], Count,
    Syscall NR_read [Reg 0, Ptr 0x2034e2c0, Imm 0x8000], Count,
    Syscall NR_read [Reg 0, Ptr 0x203562c0, Imm 0x8000], Count,
    Syscall NR_read [Reg 0, Ptr 0x2035e2c0, Imm 0x8000], Count,
    Syscall NR_read [Reg 0, Ptr 0x203662c0, Imm 0x8000], Count,
    Syscall NR_read [Reg 0, Ptr 0x2036e2c0, Imm 0x8000], Count,
    Syscall NR_read [Reg 0, Ptr 0x203762c0, Imm 0x8000], Count]"

definition min_rocks_read_fcntl_0_0_body9 :: "stmt list" where
  "min_rocks_read_fcntl_0_0_body9 = [
    Syscall NR_read [Reg 0, Ptr 0x2037e2c0, Imm 0x8000], Count,
    Syscall NR_read [Reg 0, Ptr 0x203862c0, Imm 0x8000], Count,
    Syscall NR_read [Reg 0, Ptr 0x2038e2c0, Imm 0x8000], Count,
    Syscall NR_read [Reg 0, Ptr 0x203962c0, Imm 0x8000], Count,
    Syscall NR_read [Reg 0, Ptr 0x2039e2c0, Imm 0x8000], Count,
    Syscall NR_read [Reg 0, Ptr 0x203a62c0, Imm 0x8000], Count,
    Syscall NR_read [Reg 0, Ptr 0x203ae2c0, Imm 0x8000], Count,
    Syscall NR_read [Reg 0, Ptr 0x203b62c0, Imm 0x8000], Count,
    Syscall NR_read [Reg 0, Ptr 0x203be2c0, Imm 0x8000], Count,
    Syscall NR_read [Reg 0, Ptr 0x203c62c0, Imm 0x8000], Count,
    Syscall NR_read [Reg 0, Ptr 0x203ce2c0, Imm 0x8000], Count,
    Syscall NR_read [Reg 0, Ptr 0x203d62c0, Imm 0x8000], Count,
    Syscall NR_read [Reg 0, Ptr 0x203de2c0, Imm 0x8000], Count,
    Syscall NR_read [Reg 0, Ptr 0x203e62c0, Imm 0x8000], Count]"

definition min_rocks_read_fcntl_0_0_body10 :: "stmt list" where
  "min_rocks_read_fcntl_0_0_body10 = [
    Syscall NR_read [Reg 0, Ptr 0x203ee2c0, Imm 0x8000], Count,
    Syscall NR_read [Reg 0, Ptr 0x203f62c0, Imm 0x8000], Count,
    Syscall NR_read [Reg 0, Ptr 0x203fe2c0, Imm 0x8000], Count,
    Syscall NR_read [Reg 0, Ptr 0x204062c0, Imm 0x8000], Count,
    Syscall NR_read [Reg 0, Ptr 0x2040e2c0, Imm 0x8000], Count,
    Syscall NR_read [Reg 0, Ptr 0x204162c0, Imm 0x8000], Count,
    Syscall NR_read [Reg 0, Ptr 0x2041e2c0, Imm 0x8000], Count,
    Syscall NR_read [Reg 0, Ptr 0x204262c0, Imm 0x8000], Count,
    Syscall NR_read [Reg 0, Ptr 0x2042e2c0, Imm 0x8000], Count,
    Syscall NR_read [Reg 0, Ptr 0x204362c0, Imm 0x8000], Count,
    Syscall NR_read [Reg 0, Ptr 0x2043e2c0, Imm 0x8000], Count,
    Syscall NR_read [Reg 0, Ptr 0x204462c0, Imm 0x8000], Count,
    Syscall NR_read [Reg 0, Ptr 0x2044e2c0, Imm 0x8000], Count,
    Syscall NR_read [Reg 0, Ptr 0x204562c0, Imm 0x8000], Count]"

definition min_rocks_read_fcntl_0_0_body11 :: "stmt list" where
  "min_rocks_read_fcntl_0_0_body11 = [
    Syscall NR_read [Reg 0, Ptr 0x2045e2c0, Imm 0x8000], Count,
    Syscall NR_read [Reg 0, Ptr 0x204662c0, Imm 0x8000], Count,
    Syscall NR_read [Reg 0, Ptr 0x2046e2c0, Imm 0x8000], Count,
    Syscall NR_read [Reg 0, Ptr 0x204762c0, Imm 0x8000], Count,
    Syscall NR_read [Reg 0, Ptr 0x2047e2c0, Imm 0x8000], Count,
    Syscall NR_read [Reg 0, Ptr 0x204862c0, Imm 0x8000], Count,
    Syscall NR_read [Reg 0, Ptr 0x2048e2c0, Imm 0x8000], Count,
    Syscall NR_read [Reg 0, Ptr 0x204962c0, Imm 0x8000], Count,
    Syscall NR_read [Reg 0, Ptr 0x2049e2c0, Imm 0x8000], Count,
    Syscall NR_read [Reg 0, Ptr 0x204a62c0, Imm 0x8000], Count,
    Syscall NR_read [Reg 0, Ptr 0x204ae2c0, Imm 0x8000], Count,
    Syscall NR_read [Reg 0, Ptr 0x204b62c0, Imm 0x8000], Count,
    Syscall NR_read [Reg 0, Ptr 0x204be2c0, Imm 0x8000], Count,
    Syscall NR_read [Reg 0, Ptr 0x204c62c0, Imm 0x8000], Count]"

definition min_rocks_read_fcntl_0_0_body12 :: "stmt list" where
  "min_rocks_read_fcntl_0_0_body12 = [
    Syscall NR_read [Reg 0, Ptr 0x204ce2c0, Imm 0x8000], Count,
    Syscall NR_read [Reg 0, Ptr 0x204d62c0, Imm 0x8000], Count,
    Syscall NR_read [Reg 0, Ptr 0x204de2c0, Imm 0x8000], Count,
    Syscall NR_read [Reg 0, Ptr 0x204e62c0, Imm 0x8000], Count,
    Syscall NR_read [Reg 0, Ptr 0x204ee2c0, Imm 0x8000], Count,
    Syscall NR_read [Reg 0, Ptr 0x204f62c0, Imm 0x8000], Count,
    Syscall NR_read [Reg 0, Ptr 0x204fe2c0, Imm 0x8000], Count,
    Syscall NR_read [Reg 0, Ptr 0x205062c0, Imm 0x8000], Count,
    Syscall NR_read [Reg 0, Ptr 0x2050e2c0, Imm 0x8000], Count,
    Syscall NR_read [Reg 0, Ptr 0x205162c0, Imm 0x8000], Count,
    Syscall NR_read [Reg 0, Ptr 0x2051e2c0, Imm 0x8000], Count,
    Syscall NR_read [Reg 0, Ptr 0x205262c0, Imm 0x8000], Count,
    Syscall NR_read [Reg 0, Ptr 0x2052e2c0, Imm 0x8000], Count,
    Syscall NR_read [Reg 0, Ptr 0x205362c0, Imm 0x8000], Count]"

definition min_rocks_read_fcntl_0_0_body13 :: "stmt list" where
  "min_rocks_read_fcntl_0_0_body13 = [
    Syscall NR_read [Reg 0, Ptr 0x2053e2c0, Imm 0x8000], Count,
    Syscall NR_read [Reg 0, Ptr 0x205462c0, Imm 0x8000], Count,
    Syscall NR_read [Reg 0, Ptr 0x2054e2c0, Imm 0x8000], Count,
    Syscall NR_read [Reg 0, Ptr 0x205562c0, Imm 0x8000], Count,
    Syscall NR_read [Reg 0, Ptr 0x2055e2c0, Imm 0x8000], Count,
    Syscall NR_read [Reg 0, Ptr 0x205662c0, Imm 0x8000], Count,
    Syscall NR_read [Reg 0, Ptr 0x2056e2c0, Imm 0x8000], Count,
    Syscall NR_read [Reg 0, Ptr 0x205762c0, Imm 0x8000], Count,
    Syscall NR_read [Reg 0, Ptr 0x2057e2c0, Imm 0x8000], Count,
    Syscall NR_read [Reg 0, Ptr 0x205862c0, Imm 0x8000], Count,
    Syscall NR_read [Reg 0, Ptr 0x2058e2c0, Imm 0x8000], Count,
    Syscall NR_read [Reg 0, Ptr 0x205962c0, Imm 0x8000], Count,
    Syscall NR_read [Reg 0, Ptr 0x2059e2c0, Imm 0x8000], Count,
    Syscall NR_read [Reg 0, Ptr 0x205a62c0, Imm 0x8000], Count]"

definition min_rocks_read_fcntl_0_0_body14 :: "stmt list" where
  "min_rocks_read_fcntl_0_0_body14 = [
    Syscall NR_read [Reg 0, Ptr 0x205ae2c0, Imm 0x8000], Count,
    Syscall NR_read [Reg 0, Ptr 0x205b62c0, Imm 0x8000], Count,
    Syscall NR_read [Reg 0, Ptr 0x205be2c0, Imm 0x8000], Count,
    Syscall NR_read [Reg 0, Ptr 0x205c62c0, Imm 0x8000], Count,
    Syscall NR_read [Reg 0, Ptr 0x205ce2c0, Imm 0x8000], Count,
    Syscall NR_read [Reg 0, Ptr 0x205d62c0, Imm 0x8000], Count,
    Syscall NR_read [Reg 0, Ptr 0x205de2c0, Imm 0x8000], Count,
    Syscall NR_read [Reg 0, Ptr 0x205e62c0, Imm 0x8000], Count,
    Syscall NR_read [Reg 0, Ptr 0x205ee2c0, Imm 0x8000], Count,
    Syscall NR_read [Reg 0, Ptr 0x205f62c0, Imm 0x8000], Count,
    Syscall NR_read [Reg 0, Ptr 0x205fe2c0, Imm 0x8000], Count,
    Syscall NR_read [Reg 0, Ptr 0x206062c0, Imm 0x8000], Count,
    Syscall NR_read [Reg 0, Ptr 0x2060e2c0, Imm 0x8000], Count,
    Syscall NR_read [Reg 0, Ptr 0x206162c0, Imm 0x8000], Count]"

definition min_rocks_read_fcntl_0_0_body15 :: "stmt list" where
  "min_rocks_read_fcntl_0_0_body15 = [
    Syscall NR_read [Reg 0, Ptr 0x2061e2c0, Imm 0x8000], Count,
    Syscall NR_read [Reg 0, Ptr 0x206262c0, Imm 0x8000], Count,
    Syscall NR_read [Reg 0, Ptr 0x2062e2c0, Imm 0x8000], Count,
    Syscall NR_read [Reg 0, Ptr 0x206362c0, Imm 0x8000], Count,
    Syscall NR_read [Reg 0, Ptr 0x2063e2c0, Imm 0x8000], Count,
    Syscall NR_read [Reg 0, Ptr 0x206462c0, Imm 0x8000], Count,
    Syscall NR_read [Reg 0, Ptr 0x2064e2c0, Imm 0x8000], Count,
    Syscall NR_read [Reg 0, Ptr 0x206562c0, Imm 0x8000], Count,
    Syscall NR_read [Reg 0, Ptr 0x2065e2c0, Imm 0x8000], Count,
    Syscall NR_read [Reg 0, Ptr 0x206662c0, Imm 0x8000], Count,
    Syscall NR_read [Reg 0, Ptr 0x2066e2c0, Imm 0x8000], Count,
    Syscall NR_read [Reg 0, Ptr 0x206762c0, Imm 0x8000], Count,
    Syscall NR_read [Reg 0, Ptr 0x2067e2c0, Imm 0x8000], Count,
    Syscall NR_read [Reg 0, Ptr 0x206862c0, Imm 0x8000], Count]"

definition min_rocks_read_fcntl_0_0_body16 :: "stmt list" where
  "min_rocks_read_fcntl_0_0_body16 = [
    Syscall NR_read [Reg 0, Ptr 0x2068e2c0, Imm 0x8000], Count,
    Syscall NR_read [Reg 0, Ptr 0x206962c0, Imm 0x8000], Count,
    Syscall NR_read [Reg 0, Ptr 0x2069e2c0, Imm 0x8000], Count,
    Syscall NR_read [Reg 0, Ptr 0x206a62c0, Imm 0x8000], Count,
    Syscall NR_read [Reg 0, Ptr 0x206ae2c0, Imm 0x8000], Count,
    Syscall NR_read [Reg 0, Ptr 0x206b62c0, Imm 0x8000], Count,
    Syscall NR_read [Reg 0, Ptr 0x206be2c0, Imm 0x8000], Count,
    Syscall NR_read [Reg 0, Ptr 0x206c62c0, Imm 0x8000], Count,
    Syscall NR_read [Reg 0, Ptr 0x206ce2c0, Imm 0x8000], Count,
    Syscall NR_read [Reg 0, Ptr 0x206d62c0, Imm 0x8000], Count,
    Syscall NR_read [Reg 0, Ptr 0x206de2c0, Imm 0x8000], Count,
    Syscall NR_read [Reg 0, Ptr 0x206e62c0, Imm 0x8000], Count,
    Syscall NR_read [Reg 0, Ptr 0x206ee2c0, Imm 0x8000], Count,
    Syscall NR_read [Reg 0, Ptr 0x206f62c0, Imm 0x8000], Count]"

definition min_rocks_read_fcntl_0_0_body17 :: "stmt list" where
  "min_rocks_read_fcntl_0_0_body17 = [
    Syscall NR_read [Reg 0, Ptr 0x206fe2c0, Imm 0x8000], Count,
    Syscall NR_read [Reg 0, Ptr 0x207062c0, Imm 0x8000], Count,
    Syscall NR_read [Reg 0, Ptr 0x2070e2c0, Imm 0x8000], Count,
    Syscall NR_read [Reg 0, Ptr 0x207162c0, Imm 0x8000], Count,
    Syscall NR_read [Reg 0, Ptr 0x2071e2c0, Imm 0x8000], Count,
    Syscall NR_read [Reg 0, Ptr 0x207262c0, Imm 0x8000], Count,
    Syscall NR_read [Reg 0, Ptr 0x2072e2c0, Imm 0x8000], Count,
    Syscall NR_read [Reg 0, Ptr 0x207362c0, Imm 0x8000], Count,
    Syscall NR_read [Reg 0, Ptr 0x2073e2c0, Imm 0x8000], Count,
    Syscall NR_read [Reg 0, Ptr 0x207462c0, Imm 0x8000], Count,
    Syscall NR_read [Reg 0, Ptr 0x2074e2c0, Imm 0x8000], Count,
    Syscall NR_read [Reg 0, Ptr 0x207562c0, Imm 0x8000], Count,
    Syscall NR_read [Reg 0, Ptr 0x2075e2c0, Imm 0x8000], Count,
    Syscall NR_read [Reg 0, Ptr 0x207662c0, Imm 0x8000], Count]"

definition min_rocks_read_fcntl_0_0_body18 :: "stmt list" where
  "min_rocks_read_fcntl_0_0_body18 = [
    Syscall NR_read [Reg 0, Ptr 0x2076e2c0, Imm 0x8000], Count,
    Syscall NR_read [Reg 0, Ptr 0x207762c0, Imm 0x8000], Count,
    Syscall NR_read [Reg 0, Ptr 0x2077e2c0, Imm 0x8000], Count,
    Syscall NR_read [Reg 0, Ptr 0x207862c0, Imm 0x8000], Count,
    Syscall NR_read [Reg 0, Ptr 0x2078e2c0, Imm 0x8000], Count,
    Syscall NR_read [Reg 0, Ptr 0x207962c0, Imm 0x8000], Count,
    Syscall NR_read [Reg 0, Ptr 0x2079e2c0, Imm 0x8000], Count,
    Syscall NR_read [Reg 0, Ptr 0x207a62c0, Imm 0x8000], Count,
    Syscall NR_read [Reg 0, Ptr 0x207ae2c0, Imm 0x8000], Count,
    Syscall NR_read [Reg 0, Ptr 0x207b62c0, Imm 0x8000], Count,
    Syscall NR_read [Reg 0, Ptr 0x207be2c0, Imm 0x8000], Count,
    Syscall NR_read [Reg 0, Ptr 0x207c62c0, Imm 0x8000], Count,
    Syscall NR_read [Reg 0, Ptr 0x207ce2c0, Imm 0x8000], Count,
    Syscall NR_read [Reg 0, Ptr 0x207d62c0, Imm 0x8000], Count]"

definition min_rocks_read_fcntl_0_0_body19 :: "stmt list" where
  "min_rocks_read_fcntl_0_0_body19 = [
    Syscall NR_read [Reg 0, Ptr 0x207de2c0, Imm 0x8000], Count,
    Syscall NR_read [Reg 0, Ptr 0x207e62c0, Imm 0x8000], Count,
    Syscall NR_read [Reg 0, Ptr 0x207ee2c0, Imm 0x8000], Count,
    Syscall NR_read [Reg 0, Ptr 0x207f62c0, Imm 0x8000], Count,
    Syscall NR_read [Reg 0, Ptr 0x207fe2c0, Imm 0x8000], Count,
    Syscall NR_read [Reg 0, Ptr 0x208062c0, Imm 0x8000], Count,
    Syscall NR_read [Reg 0, Ptr 0x2080e2c0, Imm 0x8000], Count,
    Syscall NR_read [Reg 0, Ptr 0x208162c0, Imm 0x8000], Count,
    Syscall NR_read [Reg 0, Ptr 0x2081e2c0, Imm 0x8000], Count,
    Syscall NR_read [Reg 0, Ptr 0x208262c0, Imm 0x8000], Count,
    Syscall NR_read [Reg 0, Ptr 0x2082e2c0, Imm 0x8000], Count,
    Syscall NR_read [Reg 0, Ptr 0x208362c0, Imm 0x8000], Count,
    Syscall NR_read [Reg 0, Ptr 0x2083e2c0, Imm 0x8000], Count,
    Syscall NR_read [Reg 0, Ptr 0x208462c0, Imm 0x8000], Count]"

definition min_rocks_read_fcntl_0_0_body20 :: "stmt list" where
  "min_rocks_read_fcntl_0_0_body20 = [
    Syscall NR_read [Reg 0, Ptr 0x2084e2c0, Imm 0x8000], Count,
    Syscall NR_read [Reg 0, Ptr 0x208562c0, Imm 0x8000], Count,
    Syscall NR_read [Reg 0, Ptr 0x2085e2c0, Imm 0x8000], Count,
    Syscall NR_read [Reg 0, Ptr 0x208662c0, Imm 0x8000], Count,
    Syscall NR_read [Reg 0, Ptr 0x2086e2c0, Imm 0x8000], Count,
    Syscall NR_read [Reg 0, Ptr 0x208762c0, Imm 0x8000], Count,
    Syscall NR_read [Reg 0, Ptr 0x2087e2c0, Imm 0x8000], Count,
    Syscall NR_read [Reg 0, Ptr 0x208862c0, Imm 0x8000], Count,
    Syscall NR_read [Reg 0, Ptr 0x2088e2c0, Imm 0x8000], Count,
    Syscall NR_read [Reg 0, Ptr 0x208962c0, Imm 0x8000], Count,
    Syscall NR_read [Reg 0, Ptr 0x2089e2c0, Imm 0x8000], Count,
    Syscall NR_read [Reg 0, Ptr 0x208a62c0, Imm 0x8000], Count,
    Syscall NR_read [Reg 0, Ptr 0x208ae2c0, Imm 0x8000], Count,
    Syscall NR_read [Reg 0, Ptr 0x208b62c0, Imm 0x8000], Count]"

definition min_rocks_read_fcntl_0_0_body21 :: "stmt list" where
  "min_rocks_read_fcntl_0_0_body21 = [
    Syscall NR_read [Reg 0, Ptr 0x208be2c0, Imm 0x8000], Count,
    Syscall NR_read [Reg 0, Ptr 0x208c62c0, Imm 0x8000], Count,
    Syscall NR_read [Reg 0, Ptr 0x208ce2c0, Imm 0x8000], Count,
    Syscall NR_read [Reg 0, Ptr 0x208d62c0, Imm 0x8000], Count,
    Syscall NR_read [Reg 0, Ptr 0x208de2c0, Imm 0x8000], Count,
    Syscall NR_read [Reg 0, Ptr 0x208e62c0, Imm 0x8000], Count,
    Syscall NR_read [Reg 0, Ptr 0x208ee2c0, Imm 0x8000], Count,
    Syscall NR_read [Reg 0, Ptr 0x208f62c0, Imm 0x8000], Count,
    Syscall NR_read [Reg 0, Ptr 0x208fe2c0, Imm 0x8000], Count,
    Syscall NR_read [Reg 0, Ptr 0x209062c0, Imm 0x8000], Count,
    Syscall NR_read [Reg 0, Ptr 0x2090e2c0, Imm 0x8000], Count,
    Syscall NR_read [Reg 0, Ptr 0x209162c0, Imm 0x8000], Count,
    Syscall NR_read [Reg 0, Ptr 0x2091e2c0, Imm 0x8000], Count,
    Syscall NR_read [Reg 0, Ptr 0x209262c0, Imm 0x8000], Count]"

definition min_rocks_read_fcntl_0_0_body22 :: "stmt list" where
  "min_rocks_read_fcntl_0_0_body22 = [
    Syscall NR_read [Reg 0, Ptr 0x2092e2c0, Imm 0x8000], Count,
    Syscall NR_read [Reg 0, Ptr 0x209362c0, Imm 0x8000], Count,
    Syscall NR_read [Reg 0, Ptr 0x2093e2c0, Imm 0x8000], Count,
    Syscall NR_read [Reg 0, Ptr 0x209462c0, Imm 0x8000], Count,
    Syscall NR_read [Reg 0, Ptr 0x2094e2c0, Imm 0x8000], Count,
    Syscall NR_read [Reg 0, Ptr 0x209562c0, Imm 0x8000], Count,
    Syscall NR_read [Reg 0, Ptr 0x2095e2c0, Imm 0x8000], Count,
    Syscall NR_read [Reg 0, Ptr 0x209662c0, Imm 0x8000], Count,
    Syscall NR_read [Reg 0, Ptr 0x2096e2c0, Imm 0x8000], Count,
    Syscall NR_read [Reg 0, Ptr 0x209762c0, Imm 0x8000], Count,
    Syscall NR_read [Reg 0, Ptr 0x2097e2c0, Imm 0x8000], Count,
    Syscall NR_read [Reg 0, Ptr 0x209862c0, Imm 0x8000], Count,
    Syscall NR_read [Reg 0, Ptr 0x2098e2c0, Imm 0x8000], Count,
    Syscall NR_read [Reg 0, Ptr 0x209962c0, Imm 0x8000], Count]"

definition min_rocks_read_fcntl_0_0_body23 :: "stmt list" where
  "min_rocks_read_fcntl_0_0_body23 = [
    Syscall NR_read [Reg 0, Ptr 0x2099e2c0, Imm 0x8000], Count,
    Syscall NR_read [Reg 0, Ptr 0x209a62c0, Imm 0x8000], Count,
    Syscall NR_read [Reg 0, Ptr 0x209ae2c0, Imm 0x8000], Count,
    Syscall NR_read [Reg 0, Ptr 0x209b62c0, Imm 0x8000], Count,
    Syscall NR_read [Reg 0, Ptr 0x209be2c0, Imm 0x8000], Count,
    Syscall NR_read [Reg 0, Ptr 0x209c62c0, Imm 0x8000], Count,
    Syscall NR_read [Reg 0, Ptr 0x209ce2c0, Imm 0x8000], Count,
    Syscall NR_read [Reg 0, Ptr 0x209d62c0, Imm 0x8000], Count,
    Syscall NR_read [Reg 0, Ptr 0x209de2c0, Imm 0x8000], Count,
    Syscall NR_read [Reg 0, Ptr 0x209e62c0, Imm 0x8000], Count,
    Syscall NR_read [Reg 0, Ptr 0x209ee2c0, Imm 0x8000], Count,
    Syscall NR_read [Reg 0, Ptr 0x209f62c0, Imm 0x8000], Count,
    Syscall NR_read [Reg 0, Ptr 0x209fe2c0, Imm 0x8000], Count,
    Syscall NR_read [Reg 0, Ptr 0x20a062c0, Imm 0x8000], Count]"

definition min_rocks_read_fcntl_0_0_body24 :: "stmt list" where
  "min_rocks_read_fcntl_0_0_body24 = [
    Syscall NR_read [Reg 0, Ptr 0x20a0e2c0, Imm 0x8000], Count,
    Syscall NR_read [Reg 0, Ptr 0x20a162c0, Imm 0x8000], Count,
    Syscall NR_read [Reg 0, Ptr 0x20a1e2c0, Imm 0x8000], Count,
    Syscall NR_read [Reg 0, Ptr 0x20a262c0, Imm 0x8000], Count,
    Syscall NR_read [Reg 0, Ptr 0x20a2e2c0, Imm 0x8000], Count,
    Syscall NR_read [Reg 0, Ptr 0x20a362c0, Imm 0x8000], Count,
    Syscall NR_read [Reg 0, Ptr 0x20a3e2c0, Imm 0x8000], Count,
    Syscall NR_read [Reg 0, Ptr 0x20a462c0, Imm 0x8000], Count,
    Syscall NR_read [Reg 0, Ptr 0x20a4e2c0, Imm 0x8000], Count,
    Syscall NR_read [Reg 0, Ptr 0x20a562c0, Imm 0x8000], Count,
    Syscall NR_read [Reg 0, Ptr 0x20a5e2c0, Imm 0x8000], Count,
    Syscall NR_read [Reg 0, Ptr 0x20a662c0, Imm 0x8000], Count,
    Syscall NR_read [Reg 0, Ptr 0x20a6e2c0, Imm 0x8000], Count,
    Syscall NR_read [Reg 0, Ptr 0x20a762c0, Imm 0x8000], Count]"

definition min_rocks_read_fcntl_0_0_body25 :: "stmt list" where
  "min_rocks_read_fcntl_0_0_body25 = [
    Syscall NR_read [Reg 0, Ptr 0x20a7e2c0, Imm 0x8000], Count,
    Syscall NR_read [Reg 0, Ptr 0x20a862c0, Imm 0x8000], Count,
    Syscall NR_read [Reg 0, Ptr 0x20a8e2c0, Imm 0x8000], Count,
    Syscall NR_read [Reg 0, Ptr 0x20a962c0, Imm 0x8000], Count,
    Syscall NR_read [Reg 0, Ptr 0x20a9e2c0, Imm 0x8000], Count,
    Syscall NR_read [Reg 0, Ptr 0x20aa62c0, Imm 0x8000], Count,
    Syscall NR_read [Reg 0, Ptr 0x20aae2c0, Imm 0x8000], Count,
    Syscall NR_read [Reg 0, Ptr 0x20ab62c0, Imm 0x8000], Count,
    Syscall NR_read [Reg 0, Ptr 0x20abe2c0, Imm 0x8000], Count,
    Syscall NR_read [Reg 0, Ptr 0x20ac62c0, Imm 0x8000], Count,
    Syscall NR_read [Reg 0, Ptr 0x20ace2c0, Imm 0x8000], Count,
    Syscall NR_read [Reg 0, Ptr 0x20ad62c0, Imm 0x8000], Count,
    Syscall NR_read [Reg 0, Ptr 0x20ade2c0, Imm 0x8000], Count,
    Syscall NR_read [Reg 0, Ptr 0x20ae62c0, Imm 0x8000], Count]"

definition min_rocks_read_fcntl_0_0_body26 :: "stmt list" where
  "min_rocks_read_fcntl_0_0_body26 = [
    Syscall NR_read [Reg 0, Ptr 0x20aee2c0, Imm 0x8000], Count,
    Syscall NR_read [Reg 0, Ptr 0x20af62c0, Imm 0x8000], Count,
    Syscall NR_read [Reg 0, Ptr 0x20afe2c0, Imm 0x8000], Count,
    Syscall NR_read [Reg 0, Ptr 0x20b062c0, Imm 0x8000], Count,
    Syscall NR_read [Reg 0, Ptr 0x20b0e2c0, Imm 0x8000], Count,
    Syscall NR_read [Reg 0, Ptr 0x20b162c0, Imm 0x8000], Count,
    Syscall NR_read [Reg 0, Ptr 0x20b1e2c0, Imm 0x8000], Count,
    Syscall NR_read [Reg 0, Ptr 0x20b262c0, Imm 0x8000], Count,
    Syscall NR_read [Reg 0, Ptr 0x20b2e2c0, Imm 0x8000], Count,
    Syscall NR_read [Reg 0, Ptr 0x20b362c0, Imm 0x8000], Count,
    Syscall NR_read [Reg 0, Ptr 0x20b3e2c0, Imm 0x8000], Count,
    Syscall NR_read [Reg 0, Ptr 0x20b462c0, Imm 0x8000], Count,
    Syscall NR_read [Reg 0, Ptr 0x20b4e2c0, Imm 0x8000], Count,
    Syscall NR_read [Reg 0, Ptr 0x20b562c0, Imm 0x8000], Count]"

definition min_rocks_read_fcntl_0_0_body27 :: "stmt list" where
  "min_rocks_read_fcntl_0_0_body27 = [
    Syscall NR_read [Reg 0, Ptr 0x20b5e2c0, Imm 0x8000], Count,
    Syscall NR_read [Reg 0, Ptr 0x20b662c0, Imm 0x8000], Count,
    Syscall NR_read [Reg 0, Ptr 0x20b6e2c0, Imm 0x8000], Count,
    Syscall NR_read [Reg 0, Ptr 0x20b762c0, Imm 0x8000], Count,
    Syscall NR_read [Reg 0, Ptr 0x20b7e2c0, Imm 0x8000], Count,
    Syscall NR_read [Reg 0, Ptr 0x20b862c0, Imm 0x8000], Count,
    Syscall NR_read [Reg 0, Ptr 0x20b8e2c0, Imm 0x8000], Count,
    Syscall NR_read [Reg 0, Ptr 0x20b962c0, Imm 0x8000], Count,
    Syscall NR_read [Reg 0, Ptr 0x20b9e2c0, Imm 0x8000], Count,
    Syscall NR_read [Reg 0, Ptr 0x20ba62c0, Imm 0x8000], Count,
    Syscall NR_read [Reg 0, Ptr 0x20bae2c0, Imm 0x8000], Count,
    Syscall NR_read [Reg 0, Ptr 0x20bb62c0, Imm 0x8000], Count,
    Syscall NR_read [Reg 0, Ptr 0x20bbe2c0, Imm 0x8000], Count,
    Syscall NR_read [Reg 0, Ptr 0x20bc62c0, Imm 0x8000], Count]"

definition min_rocks_read_fcntl_0_0_body28 :: "stmt list" where
  "min_rocks_read_fcntl_0_0_body28 = [
    Syscall NR_read [Reg 0, Ptr 0x20bce2c0, Imm 0x8000], Count,
    Syscall NR_read [Reg 0, Ptr 0x20bd62c0, Imm 0x8000], Count,
    Syscall NR_read [Reg 0, Ptr 0x20bde2c0, Imm 0x8000], Count,
    Syscall NR_read [Reg 0, Ptr 0x20be62c0, Imm 0x8000], Count,
    Syscall NR_read [Reg 0, Ptr 0x20bee2c0, Imm 0x8000], Count,
    Syscall NR_read [Reg 0, Ptr 0x20bf62c0, Imm 0x8000], Count,
    Syscall NR_read [Reg 0, Ptr 0x20bfe2c0, Imm 0x8000], Count,
    Syscall NR_read [Reg 0, Ptr 0x20c062c0, Imm 0x8000], Count,
    Syscall NR_read [Reg 0, Ptr 0x20c0e2c0, Imm 0x8000], Count,
    Syscall NR_read [Reg 0, Ptr 0x20c162c0, Imm 0x8000], Count,
    Syscall NR_read [Reg 0, Ptr 0x20c1e2c0, Imm 0x8000], Count,
    Syscall NR_read [Reg 0, Ptr 0x20c262c0, Imm 0x8000], Count,
    Syscall NR_read [Reg 0, Ptr 0x20c2e2c0, Imm 0x8000], Count,
    Syscall NR_read [Reg 0, Ptr 0x20c362c0, Imm 0x8000], Count]"

definition min_rocks_read_fcntl_0_0_body29 :: "stmt list" where
  "min_rocks_read_fcntl_0_0_body29 = [
    Syscall NR_read [Reg 0, Ptr 0x20c3e2c0, Imm 0x8000], Count,
    Syscall NR_read [Reg 0, Ptr 0x20c462c0, Imm 0x8000], Count,
    Syscall NR_read [Reg 0, Ptr 0x20c4e2c0, Imm 0x8000], Count,
    Syscall NR_read [Reg 0, Ptr 0x20c562c0, Imm 0x8000], Count,
    Syscall NR_read [Reg 0, Ptr 0x20c5e2c0, Imm 0x8000], Count,
    Syscall NR_read [Reg 0, Ptr 0x20c662c0, Imm 0x8000], Count,
    Syscall NR_read [Reg 0, Ptr 0x20c6e2c0, Imm 0x8000], Count,
    Syscall NR_read [Reg 0, Ptr 0x20c762c0, Imm 0x8000], Count,
    Syscall NR_read [Reg 0, Ptr 0x20c7e2c0, Imm 0x8000], Count,
    Syscall NR_read [Reg 0, Ptr 0x20c862c0, Imm 0x8000], Count,
    Syscall NR_read [Reg 0, Ptr 0x20c8e2c0, Imm 0x8000], Count,
    Syscall NR_read [Reg 0, Ptr 0x20c962c0, Imm 0x8000], Count,
    Syscall NR_read [Reg 0, Ptr 0x20c9e2c0, Imm 0x8000], Count,
    Syscall NR_read [Reg 0, Ptr 0x20ca62c0, Imm 0x8000], Count]"

definition min_rocks_read_fcntl_0_0_body30 :: "stmt list" where
  "min_rocks_read_fcntl_0_0_body30 = [
    Syscall NR_read [Reg 0, Ptr 0x20cae2c0, Imm 0x8000], Count,
    Syscall NR_read [Reg 0, Ptr 0x20cb62c0, Imm 0x8000], Count,
    Syscall NR_read [Reg 0, Ptr 0x20cbe2c0, Imm 0x8000], Count,
    Syscall NR_read [Reg 0, Ptr 0x20cc62c0, Imm 0x8000], Count,
    Syscall NR_read [Reg 0, Ptr 0x20cce2c0, Imm 0x8000], Count,
    Syscall NR_read [Reg 0, Ptr 0x20cd62c0, Imm 0x8000], Count,
    Syscall NR_read [Reg 0, Ptr 0x20cde2c0, Imm 0x8000], Count,
    Syscall NR_read [Reg 0, Ptr 0x20ce62c0, Imm 0x8000], Count,
    Syscall NR_read [Reg 0, Ptr 0x20cee2c0, Imm 0x8000], Count,
    Syscall NR_read [Reg 0, Ptr 0x20cf62c0, Imm 0x8000], Count,
    Syscall NR_read [Reg 0, Ptr 0x20cfe2c0, Imm 0x8000], Count,
    Syscall NR_read [Reg 0, Ptr 0x20d062c0, Imm 0x8000], Count,
    Syscall NR_read [Reg 0, Ptr 0x20d0e2c0, Imm 0x8000], Count,
    Syscall NR_read [Reg 0, Ptr 0x20d162c0, Imm 0x8000], Count]"

definition min_rocks_read_fcntl_0_0_body31 :: "stmt list" where
  "min_rocks_read_fcntl_0_0_body31 = [
    Syscall NR_read [Reg 0, Ptr 0x20d1e2c0, Imm 0x8000], Count,
    Syscall NR_read [Reg 0, Ptr 0x20d262c0, Imm 0x8000], Count,
    Syscall NR_read [Reg 0, Ptr 0x20d2e2c0, Imm 0x8000], Count,
    Syscall NR_read [Reg 0, Ptr 0x20d362c0, Imm 0x8000], Count,
    Syscall NR_read [Reg 0, Ptr 0x20d3e2c0, Imm 0x8000], Count,
    Syscall NR_read [Reg 0, Ptr 0x20d462c0, Imm 0x8000], Count,
    Syscall NR_read [Reg 0, Ptr 0x20d4e2c0, Imm 0x8000], Count,
    Syscall NR_read [Reg 0, Ptr 0x20d562c0, Imm 0x8000], Count,
    Syscall NR_read [Reg 0, Ptr 0x20d5e2c0, Imm 0x8000], Count,
    Syscall NR_read [Reg 0, Ptr 0x20d662c0, Imm 0x8000], Count,
    Syscall NR_read [Reg 0, Ptr 0x20d6e2c0, Imm 0x8000], Count,
    Syscall NR_read [Reg 0, Ptr 0x20d762c0, Imm 0x8000], Count,
    Syscall NR_read [Reg 0, Ptr 0x20d7e2c0, Imm 0x8000], Count,
    Syscall NR_read [Reg 0, Ptr 0x20d862c0, Imm 0x8000], Count]"

definition min_rocks_read_fcntl_0_0_body32 :: "stmt list" where
  "min_rocks_read_fcntl_0_0_body32 = [
    Syscall NR_read [Reg 0, Ptr 0x20d8e2c0, Imm 0x8000], Count,
    Syscall NR_read [Reg 0, Ptr 0x20d962c0, Imm 0x8000], Count,
    Syscall NR_read [Reg 0, Ptr 0x20d9e2c0, Imm 0x8000], Count,
    Syscall NR_read [Reg 0, Ptr 0x20da62c0, Imm 0x8000], Count,
    Syscall NR_read [Reg 0, Ptr 0x20dae2c0, Imm 0x8000], Count,
    Syscall NR_read [Reg 0, Ptr 0x20db62c0, Imm 0x8000], Count,
    Syscall NR_read [Reg 0, Ptr 0x20dbe2c0, Imm 0x8000], Count,
    Syscall NR_read [Reg 0, Ptr 0x20dc62c0, Imm 0x8000], Count,
    Syscall NR_read [Reg 0, Ptr 0x20dce2c0, Imm 0x8000], Count,
    Syscall NR_read [Reg 0, Ptr 0x20dd62c0, Imm 0x8000], Count,
    Syscall NR_read [Reg 0, Ptr 0x20dde2c0, Imm 0x8000], Count,
    Syscall NR_read [Reg 0, Ptr 0x20de62c0, Imm 0x8000], Count,
    Syscall NR_read [Reg 0, Ptr 0x20dee2c0, Imm 0x8000], Count,
    Syscall NR_read [Reg 0, Ptr 0x20df62c0, Imm 0x8000], Count]"

definition min_rocks_read_fcntl_0_0_body33 :: "stmt list" where
  "min_rocks_read_fcntl_0_0_body33 = [
    Syscall NR_read [Reg 0, Ptr 0x20dfe2c0, Imm 0x8000], Count,
    Syscall NR_read [Reg 0, Ptr 0x20e062c0, Imm 0x8000], Count,
    Syscall NR_read [Reg 0, Ptr 0x20e0e2c0, Imm 0x8000], Count,
    Syscall NR_read [Reg 0, Ptr 0x20e162c0, Imm 0x8000], Count,
    Syscall NR_read [Reg 0, Ptr 0x20e1e2c0, Imm 0x8000], Count,
    Syscall NR_read [Reg 0, Ptr 0x20e262c0, Imm 0x8000], Count,
    Syscall NR_read [Reg 0, Ptr 0x20e2e2c0, Imm 0x8000], Count,
    Syscall NR_read [Reg 0, Ptr 0x20e362c0, Imm 0x8000], Count,
    Syscall NR_read [Reg 0, Ptr 0x20e3e2c0, Imm 0x8000], Count,
    Syscall NR_read [Reg 0, Ptr 0x20e462c0, Imm 0x8000], Count,
    Syscall NR_read [Reg 0, Ptr 0x20e4e2c0, Imm 0x8000], Count,
    Syscall NR_read [Reg 0, Ptr 0x20e562c0, Imm 0x8000], Count,
    Syscall NR_read [Reg 0, Ptr 0x20e5e2c0, Imm 0x8000], Count,
    Syscall NR_read [Reg 0, Ptr 0x20e662c0, Imm 0x8000], Count]"

definition min_rocks_read_fcntl_0_0_body34 :: "stmt list" where
  "min_rocks_read_fcntl_0_0_body34 = [
    Syscall NR_read [Reg 0, Ptr 0x20e6e2c0, Imm 0x8000], Count,
    Syscall NR_read [Reg 0, Ptr 0x20e762c0, Imm 0x8000], Count,
    Syscall NR_read [Reg 0, Ptr 0x20e7e2c0, Imm 0x8000], Count,
    Syscall NR_read [Reg 0, Ptr 0x20e862c0, Imm 0x8000], Count,
    Syscall NR_read [Reg 0, Ptr 0x20e8e2c0, Imm 0x8000], Count,
    Syscall NR_read [Reg 0, Ptr 0x20e962c0, Imm 0x8000], Count,
    Syscall NR_read [Reg 0, Ptr 0x20e9e2c0, Imm 0x8000], Count,
    Syscall NR_read [Reg 0, Ptr 0x20ea62c0, Imm 0x8000], Count,
    Syscall NR_read [Reg 0, Ptr 0x20eae2c0, Imm 0x8000], Count,
    Syscall NR_read [Reg 0, Ptr 0x20eb62c0, Imm 0x8000], Count,
    Syscall NR_read [Reg 0, Ptr 0x20ebe2c0, Imm 0x8000], Count,
    Syscall NR_read [Reg 0, Ptr 0x20ec62c0, Imm 0x8000], Count,
    Syscall NR_read [Reg 0, Ptr 0x20ece2c0, Imm 0x8000], Count,
    Syscall NR_read [Reg 0, Ptr 0x20ed62c0, Imm 0x8000], Count]"

definition min_rocks_read_fcntl_0_0_body35 :: "stmt list" where
  "min_rocks_read_fcntl_0_0_body35 = [
    Syscall NR_read [Reg 0, Ptr 0x20ede2c0, Imm 0x8000], Count,
    Syscall NR_read [Reg 0, Ptr 0x20ee62c0, Imm 0x8000], Count,
    Syscall NR_read [Reg 0, Ptr 0x20eee2c0, Imm 0x8000], Count,
    Syscall NR_read [Reg 0, Ptr 0x20ef62c0, Imm 0x8000], Count,
    Syscall NR_read [Reg 0, Ptr 0x20efe2c0, Imm 0x8000], Count,
    Syscall NR_read [Reg 0, Ptr 0x20f062c0, Imm 0x8000], Count,
    Syscall NR_read [Reg 0, Ptr 0x20f0e2c0, Imm 0x8000], Count,
    Syscall NR_read [Reg 0, Ptr 0x20f162c0, Imm 0x8000], Count,
    Syscall NR_read [Reg 0, Ptr 0x20f1e2c0, Imm 0x8000], Count,
    Syscall NR_read [Reg 0, Ptr 0x20f262c0, Imm 0x8000], Count,
    Syscall NR_read [Reg 0, Ptr 0x20f2e2c0, Imm 0x8000], Count,
    Syscall NR_read [Reg 0, Ptr 0x20f362c0, Imm 0x8000], Count,
    Syscall NR_read [Reg 0, Ptr 0x20f3e2c0, Imm 0x8000], Count,
    Syscall NR_read [Reg 0, Ptr 0x20f462c0, Imm 0x8000], Count]"

definition min_rocks_read_fcntl_0_0_body36 :: "stmt list" where
  "min_rocks_read_fcntl_0_0_body36 = [
    Syscall NR_read [Reg 0, Ptr 0x20f4e2c0, Imm 0x8000], Count,
    Syscall NR_read [Reg 0, Ptr 0x20f562c0, Imm 0x8000], Count,
    Syscall NR_read [Reg 0, Ptr 0x20f5e2c0, Imm 0x8000], Count,
    Syscall NR_read [Reg 0, Ptr 0x20f662c0, Imm 0x8000], Count,
    Syscall NR_read [Reg 0, Ptr 0x20f6e2c0, Imm 0x8000], Count,
    Syscall NR_read [Reg 0, Ptr 0x20f762c0, Imm 0x8000], Count,
    Syscall NR_read [Reg 0, Ptr 0x20f7e2c0, Imm 0x8000], Count,
    Syscall NR_read [Reg 0, Ptr 0x20f862c0, Imm 0x8000], Count,
    Syscall NR_read [Reg 0, Ptr 0x20f8e2c0, Imm 0x8000], Count,
    Syscall NR_read [Reg 0, Ptr 0x20f962c0, Imm 0x8000], Count,
    Syscall NR_read [Reg 0, Ptr 0x20f9e2c0, Imm 0x8000], Count,
    Syscall NR_read [Reg 0, Ptr 0x20fa62c0, Imm 0x8000], Count,
    Syscall NR_read [Reg 0, Ptr 0x20fae2c0, Imm 0x8000], Count,
    Syscall NR_read [Reg 0, Ptr 0x20fb62c0, Imm 0x8000], Count]"

definition min_rocks_read_fcntl_0_0_body37 :: "stmt list" where
  "min_rocks_read_fcntl_0_0_body37 = [
    Syscall NR_read [Reg 0, Ptr 0x20fbe2c0, Imm 0x8000], Count,
    Syscall NR_read [Reg 0, Ptr 0x20fc62c0, Imm 0x8000], Count,
    Syscall NR_read [Reg 0, Ptr 0x20fce2c0, Imm 0x8000], Count,
    Syscall NR_read [Reg 0, Ptr 0x20fd62c0, Imm 0x8000], Count,
    Syscall NR_read [Reg 0, Ptr 0x20fde2c0, Imm 0x8000], Count,
    Syscall NR_read [Reg 0, Ptr 0x20fe62c0, Imm 0x8000], Count,
    Syscall NR_read [Reg 0, Ptr 0x20fee2c0, Imm 0x8000], Count,
    Syscall NR_read [Reg 0, Ptr 0x20ff62c0, Imm 0x8000], Count,
    Syscall NR_read [Reg 0, Ptr 0x20000000, Imm 0x8000], Count,
    Syscall NR_read [Reg 0, Ptr 0x20008000, Imm 0x8000], Count,
    Syscall NR_read [Reg 0, Ptr 0x20010000, Imm 0x8000], Count,
    Syscall NR_read [Reg 0, Ptr 0x20018000, Imm 0x8000], Count,
    Syscall NR_read [Reg 0, Ptr 0x20020000, Imm 0x8000], Count,
    Syscall NR_read [Reg 0, Ptr 0x20028000, Imm 0x8000], Count]"

definition min_rocks_read_fcntl_0_0_body38 :: "stmt list" where
  "min_rocks_read_fcntl_0_0_body38 = [
    Syscall NR_read [Reg 0, Ptr 0x20030000, Imm 0x8000], Count,
    Syscall NR_read [Reg 0, Ptr 0x20038000, Imm 0x8000], Count,
    Syscall NR_read [Reg 0, Ptr 0x20040000, Imm 0x8000], Count,
    Syscall NR_read [Reg 0, Ptr 0x20048000, Imm 0x8000], Count,
    Syscall NR_read [Reg 0, Ptr 0x20050000, Imm 0x8000], Count,
    Syscall NR_read [Reg 0, Ptr 0x20058000, Imm 0x8000], Count,
    Syscall NR_read [Reg 0, Ptr 0x20060000, Imm 0x8000], Count,
    Syscall NR_read [Reg 0, Ptr 0x20068000, Imm 0x8000], Count,
    Syscall NR_read [Reg 0, Ptr 0x20070000, Imm 0x8000], Count,
    Syscall NR_read [Reg 0, Ptr 0x20078000, Imm 0x8000], Count,
    Syscall NR_read [Reg 0, Ptr 0x20080000, Imm 0x8000], Count,
    Syscall NR_read [Reg 0, Ptr 0x20088000, Imm 0x8000], Count,
    Syscall NR_read [Reg 0, Ptr 0x20090000, Imm 0x8000], Count,
    Syscall NR_read [Reg 0, Ptr 0x20098000, Imm 0x8000], Count]"

definition min_rocks_read_fcntl_0_0_body39 :: "stmt list" where
  "min_rocks_read_fcntl_0_0_body39 = [
    Syscall NR_read [Reg 0, Ptr 0x200a0000, Imm 0x8000], Count,
    Syscall NR_read [Reg 0, Ptr 0x200a8000, Imm 0x8000], Count,
    Syscall NR_read [Reg 0, Ptr 0x200b0000, Imm 0x8000], Count,
    Syscall NR_read [Reg 0, Ptr 0x200b8000, Imm 0x8000], Count,
    Syscall NR_read [Reg 0, Ptr 0x200c0000, Imm 0x8000], Count,
    Syscall NR_read [Reg 0, Ptr 0x200c8000, Imm 0x8000], Count,
    Syscall NR_read [Reg 0, Ptr 0x200d0000, Imm 0x8000], Count,
    Syscall NR_read [Reg 0, Ptr 0x200d8000, Imm 0x8000], Count,
    Syscall NR_read [Reg 0, Ptr 0x200e0000, Imm 0x8000], Count,
    Syscall NR_read [Reg 0, Ptr 0x200e8000, Imm 0x8000], Count,
    Syscall NR_read [Reg 0, Ptr 0x200f0000, Imm 0x8000], Count,
    Syscall NR_read [Reg 0, Ptr 0x200f8000, Imm 0x8000], Count,
    Syscall NR_read [Reg 0, Ptr 0x20100000, Imm 0x8000], Count,
    Syscall NR_read [Reg 0, Ptr 0x20108000, Imm 0x8000], Count]"

definition min_rocks_read_fcntl_0_0_body40 :: "stmt list" where
  "min_rocks_read_fcntl_0_0_body40 = [
    Syscall NR_read [Reg 0, Ptr 0x20110000, Imm 0x8000], Count,
    Syscall NR_read [Reg 0, Ptr 0x20118000, Imm 0x8000], Count,
    Syscall NR_read [Reg 0, Ptr 0x20120000, Imm 0x8000], Count,
    Syscall NR_read [Reg 0, Ptr 0x20128000, Imm 0x8000], Count,
    Syscall NR_read [Reg 0, Ptr 0x20130000, Imm 0x8000], Count,
    Syscall NR_read [Reg 0, Ptr 0x20138000, Imm 0x8000], Count,
    Syscall NR_read [Reg 0, Ptr 0x20140000, Imm 0x8000], Count,
    Syscall NR_read [Reg 0, Ptr 0x20148000, Imm 0x8000], Count,
    Syscall NR_read [Reg 0, Ptr 0x20150000, Imm 0x8000], Count,
    Syscall NR_read [Reg 0, Ptr 0x20158000, Imm 0x8000], Count,
    Syscall NR_read [Reg 0, Ptr 0x20160000, Imm 0x8000], Count,
    Syscall NR_read [Reg 0, Ptr 0x20168000, Imm 0x8000], Count,
    Syscall NR_read [Reg 0, Ptr 0x20170000, Imm 0x8000], Count,
    Syscall NR_read [Reg 0, Ptr 0x20178000, Imm 0x8000], Count]"

definition min_rocks_read_fcntl_0_0_body41 :: "stmt list" where
  "min_rocks_read_fcntl_0_0_body41 = [
    Syscall NR_read [Reg 0, Ptr 0x20180000, Imm 0x8000], Count,
    Syscall NR_read [Reg 0, Ptr 0x20188000, Imm 0x8000], Count,
    Syscall NR_read [Reg 0, Ptr 0x20190000, Imm 0x8000], Count,
    Syscall NR_read [Reg 0, Ptr 0x20198000, Imm 0x8000], Count,
    Syscall NR_read [Reg 0, Ptr 0x201a0000, Imm 0x8000], Count,
    Syscall NR_read [Reg 0, Ptr 0x201a8000, Imm 0x8000], Count,
    Syscall NR_read [Reg 0, Ptr 0x201b0000, Imm 0x8000], Count,
    Syscall NR_read [Reg 0, Ptr 0x201b8000, Imm 0x8000], Count,
    Syscall NR_read [Reg 0, Ptr 0x201c0000, Imm 0x8000], Count,
    Syscall NR_read [Reg 0, Ptr 0x201c8000, Imm 0x8000], Count,
    Syscall NR_read [Reg 0, Ptr 0x201d0000, Imm 0x8000], Count,
    Syscall NR_read [Reg 0, Ptr 0x201d8000, Imm 0x8000], Count,
    Syscall NR_read [Reg 0, Ptr 0x201e0000, Imm 0x8000], Count,
    Syscall NR_read [Reg 0, Ptr 0x201e8000, Imm 0x8000], Count]"

definition min_rocks_read_fcntl_0_0_body42 :: "stmt list" where
  "min_rocks_read_fcntl_0_0_body42 = [
    Syscall NR_read [Reg 0, Ptr 0x201f0000, Imm 0x8000], Count,
    Syscall NR_read [Reg 0, Ptr 0x201f8000, Imm 0x8000], Count,
    Syscall NR_read [Reg 0, Ptr 0x20200000, Imm 0x8000], Count,
    Syscall NR_read [Reg 0, Ptr 0x20208000, Imm 0x8000], Count,
    Syscall NR_read [Reg 0, Ptr 0x20210000, Imm 0x8000], Count,
    Syscall NR_read [Reg 0, Ptr 0x20218000, Imm 0x8000], Count,
    Syscall NR_read [Reg 0, Ptr 0x20220000, Imm 0x8000], Count,
    Syscall NR_read [Reg 0, Ptr 0x20228000, Imm 0x8000], Count,
    Syscall NR_read [Reg 0, Ptr 0x20230000, Imm 0x8000], Count,
    Syscall NR_read [Reg 0, Ptr 0x20238000, Imm 0x8000], Count,
    Syscall NR_read [Reg 0, Ptr 0x20240000, Imm 0x8000], Count,
    Syscall NR_read [Reg 0, Ptr 0x20248000, Imm 0x8000], Count,
    Syscall NR_read [Reg 0, Ptr 0x20250000, Imm 0x8000], Count,
    Syscall NR_read [Reg 0, Ptr 0x20258000, Imm 0x8000], Count]"

definition min_rocks_read_fcntl_0_0_body43 :: "stmt list" where
  "min_rocks_read_fcntl_0_0_body43 = [
    Syscall NR_read [Reg 0, Ptr 0x20260000, Imm 0x8000], Count,
    Syscall NR_read [Reg 0, Ptr 0x20268000, Imm 0x8000], Count,
    Syscall NR_read [Reg 0, Ptr 0x20270000, Imm 0x8000], Count,
    Syscall NR_read [Reg 0, Ptr 0x20278000, Imm 0x8000], Count,
    Syscall NR_read [Reg 0, Ptr 0x20280000, Imm 0x8000], Count,
    Syscall NR_read [Reg 0, Ptr 0x20288000, Imm 0x8000], Count,
    Syscall NR_read [Reg 0, Ptr 0x20290000, Imm 0x8000], Count,
    Syscall NR_read [Reg 0, Ptr 0x20298000, Imm 0x8000], Count,
    Syscall NR_read [Reg 0, Ptr 0x202a0000, Imm 0x8000], Count,
    Syscall NR_read [Reg 0, Ptr 0x202a8000, Imm 0x8000], Count,
    Syscall NR_read [Reg 0, Ptr 0x202b0000, Imm 0x8000], Count,
    Syscall NR_read [Reg 0, Ptr 0x202b8000, Imm 0x8000], Count,
    Syscall NR_read [Reg 0, Ptr 0x202c0000, Imm 0x8000], Count,
    Syscall NR_read [Reg 0, Ptr 0x202c8000, Imm 0x8000], Count]"

definition min_rocks_read_fcntl_0_0_body44 :: "stmt list" where
  "min_rocks_read_fcntl_0_0_body44 = [
    Syscall NR_read [Reg 0, Ptr 0x202d0000, Imm 0x8000], Count,
    Syscall NR_read [Reg 0, Ptr 0x202d8000, Imm 0x8000], Count,
    Syscall NR_read [Reg 0, Ptr 0x202e0000, Imm 0x8000], Count,
    Syscall NR_read [Reg 0, Ptr 0x202e8000, Imm 0x8000], Count,
    Syscall NR_read [Reg 0, Ptr 0x202f0000, Imm 0x8000], Count,
    Syscall NR_read [Reg 0, Ptr 0x202f8000, Imm 0x8000], Count,
    Syscall NR_read [Reg 0, Ptr 0x20300000, Imm 0x8000], Count,
    Syscall NR_read [Reg 0, Ptr 0x20308000, Imm 0x8000], Count,
    Syscall NR_read [Reg 0, Ptr 0x20310000, Imm 0x8000], Count,
    Syscall NR_read [Reg 0, Ptr 0x20318000, Imm 0x8000], Count,
    Syscall NR_read [Reg 0, Ptr 0x20320000, Imm 0x8000], Count,
    Syscall NR_read [Reg 0, Ptr 0x20328000, Imm 0x8000], Count,
    Syscall NR_read [Reg 0, Ptr 0x20330000, Imm 0x8000], Count,
    Syscall NR_read [Reg 0, Ptr 0x20338000, Imm 0x8000], Count]"

definition min_rocks_read_fcntl_0_0_body45 :: "stmt list" where
  "min_rocks_read_fcntl_0_0_body45 = [
    Syscall NR_read [Reg 0, Ptr 0x20340000, Imm 0x8000], Count,
    Syscall NR_read [Reg 0, Ptr 0x20348000, Imm 0x8000], Count,
    Syscall NR_read [Reg 0, Ptr 0x20350000, Imm 0x8000], Count,
    Syscall NR_read [Reg 0, Ptr 0x20358000, Imm 0x8000], Count,
    Syscall NR_read [Reg 0, Ptr 0x20360000, Imm 0x8000], Count,
    Syscall NR_read [Reg 0, Ptr 0x20368000, Imm 0x8000], Count,
    Syscall NR_read [Reg 0, Ptr 0x20370000, Imm 0x8000], Count,
    Syscall NR_read [Reg 0, Ptr 0x20378000, Imm 0x8000], Count,
    Syscall NR_read [Reg 0, Ptr 0x20380000, Imm 0x8000], Count,
    Syscall NR_read [Reg 0, Ptr 0x20388000, Imm 0x8000], Count,
    Syscall NR_read [Reg 0, Ptr 0x20390000, Imm 0x8000], Count,
    Syscall NR_read [Reg 0, Ptr 0x20398000, Imm 0x8000], Count,
    Syscall NR_read [Reg 0, Ptr 0x203a0000, Imm 0x8000], Count,
    Syscall NR_read [Reg 0, Ptr 0x203a8000, Imm 0x8000], Count]"

definition min_rocks_read_fcntl_0_0_body46 :: "stmt list" where
  "min_rocks_read_fcntl_0_0_body46 = [
    Syscall NR_read [Reg 0, Ptr 0x203b0000, Imm 0x8000], Count,
    Syscall NR_read [Reg 0, Ptr 0x203b8000, Imm 0x8000], Count,
    Syscall NR_read [Reg 0, Ptr 0x203c0000, Imm 0x8000], Count,
    Syscall NR_read [Reg 0, Ptr 0x203c8000, Imm 0x8000], Count,
    Syscall NR_read [Reg 0, Ptr 0x203d0000, Imm 0x8000], Count,
    Syscall NR_read [Reg 0, Ptr 0x203d8000, Imm 0x8000], Count,
    Syscall NR_read [Reg 0, Ptr 0x203e0000, Imm 0x8000], Count,
    Syscall NR_read [Reg 0, Ptr 0x203e8000, Imm 0x8000], Count,
    Syscall NR_read [Reg 0, Ptr 0x203f0000, Imm 0x8000], Count,
    Syscall NR_read [Reg 0, Ptr 0x203f8000, Imm 0x8000], Count,
    Syscall NR_read [Reg 0, Ptr 0x20400000, Imm 0x8000], Count,
    Syscall NR_read [Reg 0, Ptr 0x20408000, Imm 0x8000], Count,
    Syscall NR_read [Reg 0, Ptr 0x20410000, Imm 0x8000], Count,
    Syscall NR_read [Reg 0, Ptr 0x20418000, Imm 0x8000], Count]"

definition min_rocks_read_fcntl_0_0_body47 :: "stmt list" where
  "min_rocks_read_fcntl_0_0_body47 = [
    Syscall NR_read [Reg 0, Ptr 0x20420000, Imm 0x8000], Count,
    Syscall NR_read [Reg 0, Ptr 0x20428000, Imm 0x8000], Count,
    Syscall NR_read [Reg 0, Ptr 0x20430000, Imm 0x8000], Count,
    Syscall NR_read [Reg 0, Ptr 0x20438000, Imm 0x8000], Count,
    Syscall NR_read [Reg 0, Ptr 0x20440000, Imm 0x8000], Count,
    Syscall NR_read [Reg 0, Ptr 0x20448000, Imm 0x8000], Count,
    Syscall NR_read [Reg 0, Ptr 0x20450000, Imm 0x8000], Count,
    Syscall NR_read [Reg 0, Ptr 0x20458000, Imm 0x8000], Count,
    Syscall NR_read [Reg 0, Ptr 0x20460000, Imm 0x8000], Count,
    Syscall NR_read [Reg 0, Ptr 0x20468000, Imm 0x8000], Count,
    Syscall NR_read [Reg 0, Ptr 0x20470000, Imm 0x8000], Count,
    Syscall NR_read [Reg 0, Ptr 0x20478000, Imm 0x8000], Count,
    Syscall NR_read [Reg 0, Ptr 0x20480000, Imm 0x8000], Count,
    Syscall NR_read [Reg 0, Ptr 0x20488000, Imm 0x8000], Count]"

definition min_rocks_read_fcntl_0_0_body48 :: "stmt list" where
  "min_rocks_read_fcntl_0_0_body48 = [
    Syscall NR_read [Reg 0, Ptr 0x20490000, Imm 0x8000], Count,
    Syscall NR_read [Reg 0, Ptr 0x20498000, Imm 0x8000], Count,
    Syscall NR_read [Reg 0, Ptr 0x204a0000, Imm 0x8000], Count,
    Syscall NR_read [Reg 0, Ptr 0x204a8000, Imm 0x8000], Count,
    Syscall NR_read [Reg 0, Ptr 0x204b0000, Imm 0x8000], Count,
    Syscall NR_read [Reg 0, Ptr 0x204b8000, Imm 0x8000], Count,
    Syscall NR_read [Reg 0, Ptr 0x204c0000, Imm 0x8000], Count,
    Syscall NR_read [Reg 0, Ptr 0x204c8000, Imm 0x8000], Count,
    Syscall NR_read [Reg 0, Ptr 0x204d0000, Imm 0x8000], Count,
    Syscall NR_read [Reg 0, Ptr 0x204d8000, Imm 0x8000], Count,
    Syscall NR_read [Reg 0, Ptr 0x204e0000, Imm 0x8000], Count,
    Syscall NR_read [Reg 0, Ptr 0x204e8000, Imm 0x8000], Count,
    Syscall NR_read [Reg 0, Ptr 0x204f0000, Imm 0x8000], Count,
    Syscall NR_read [Reg 0, Ptr 0x204f8000, Imm 0x8000], Count]"

definition min_rocks_read_fcntl_0_0_body49 :: "stmt list" where
  "min_rocks_read_fcntl_0_0_body49 = [
    Syscall NR_read [Reg 0, Ptr 0x20500000, Imm 0x8000], Count,
    Syscall NR_read [Reg 0, Ptr 0x20508000, Imm 0x8000], Count,
    Syscall NR_read [Reg 0, Ptr 0x20510000, Imm 0x8000], Count,
    Syscall NR_read [Reg 0, Ptr 0x20518000, Imm 0x8000], Count,
    Syscall NR_read [Reg 0, Ptr 0x20520000, Imm 0x8000], Count,
    Syscall NR_read [Reg 0, Ptr 0x20528000, Imm 0x8000], Count,
    Syscall NR_read [Reg 0, Ptr 0x20530000, Imm 0x8000], Count,
    Syscall NR_read [Reg 0, Ptr 0x20538000, Imm 0x8000], Count,
    Syscall NR_read [Reg 0, Ptr 0x20540000, Imm 0x8000], Count,
    Syscall NR_read [Reg 0, Ptr 0x20548000, Imm 0x8000], Count,
    Syscall NR_read [Reg 0, Ptr 0x20550000, Imm 0x8000], Count,
    Syscall NR_read [Reg 0, Ptr 0x20558000, Imm 0x8000], Count,
    Syscall NR_read [Reg 0, Ptr 0x20560000, Imm 0x8000], Count,
    Syscall NR_read [Reg 0, Ptr 0x20568000, Imm 0x8000], Count]"

definition min_rocks_read_fcntl_0_0_body50 :: "stmt list" where
  "min_rocks_read_fcntl_0_0_body50 = [
    Syscall NR_read [Reg 0, Ptr 0x20570000, Imm 0x8000], Count,
    Syscall NR_read [Reg 0, Ptr 0x20578000, Imm 0x8000], Count,
    Syscall NR_read [Reg 0, Ptr 0x20580000, Imm 0x8000], Count,
    Syscall NR_read [Reg 0, Ptr 0x20588000, Imm 0x8000], Count,
    Syscall NR_read [Reg 0, Ptr 0x20590000, Imm 0x8000], Count,
    Syscall NR_read [Reg 0, Ptr 0x20598000, Imm 0x8000], Count,
    Syscall NR_read [Reg 0, Ptr 0x205a0000, Imm 0x8000], Count,
    Syscall NR_read [Reg 0, Ptr 0x205a8000, Imm 0x8000], Count,
    Syscall NR_read [Reg 0, Ptr 0x205b0000, Imm 0x8000], Count,
    Syscall NR_read [Reg 0, Ptr 0x205b8000, Imm 0x8000], Count,
    Syscall NR_read [Reg 0, Ptr 0x205c0000, Imm 0x8000], Count,
    Syscall NR_read [Reg 0, Ptr 0x205c8000, Imm 0x8000], Count,
    Syscall NR_read [Reg 0, Ptr 0x205d0000, Imm 0x8000], Count,
    Syscall NR_read [Reg 0, Ptr 0x205d8000, Imm 0x8000], Count]"

definition min_rocks_read_fcntl_0_0_body51 :: "stmt list" where
  "min_rocks_read_fcntl_0_0_body51 = [
    Syscall NR_read [Reg 0, Ptr 0x205e0000, Imm 0x8000], Count,
    Syscall NR_read [Reg 0, Ptr 0x205e8000, Imm 0x8000], Count,
    Syscall NR_read [Reg 0, Ptr 0x205f0000, Imm 0x8000], Count,
    Syscall NR_read [Reg 0, Ptr 0x205f8000, Imm 0x8000], Count,
    Syscall NR_read [Reg 0, Ptr 0x20600000, Imm 0x8000], Count,
    Syscall NR_read [Reg 0, Ptr 0x20608000, Imm 0x8000], Count,
    Syscall NR_read [Reg 0, Ptr 0x20610000, Imm 0x8000], Count,
    Syscall NR_read [Reg 0, Ptr 0x20618000, Imm 0x8000], Count,
    Syscall NR_read [Reg 0, Ptr 0x20620000, Imm 0x8000], Count,
    Syscall NR_read [Reg 0, Ptr 0x20628000, Imm 0x8000], Count,
    Syscall NR_read [Reg 0, Ptr 0x20630000, Imm 0x8000], Count,
    Syscall NR_read [Reg 0, Ptr 0x20638000, Imm 0x8000], Count,
    Syscall NR_read [Reg 0, Ptr 0x20640000, Imm 0x8000], Count,
    Syscall NR_read [Reg 0, Ptr 0x20648000, Imm 0x8000], Count]"

definition min_rocks_read_fcntl_0_0_body52 :: "stmt list" where
  "min_rocks_read_fcntl_0_0_body52 = [
    Syscall NR_read [Reg 0, Ptr 0x20650000, Imm 0x8000], Count,
    Syscall NR_read [Reg 0, Ptr 0x20658000, Imm 0x8000], Count,
    Syscall NR_read [Reg 0, Ptr 0x20660000, Imm 0x8000], Count,
    Syscall NR_read [Reg 0, Ptr 0x20668000, Imm 0x8000], Count,
    Syscall NR_read [Reg 0, Ptr 0x20670000, Imm 0x8000], Count,
    Syscall NR_read [Reg 0, Ptr 0x20678000, Imm 0x8000], Count,
    Syscall NR_read [Reg 0, Ptr 0x20680000, Imm 0x8000], Count,
    Syscall NR_read [Reg 0, Ptr 0x20688000, Imm 0x8000], Count,
    Syscall NR_read [Reg 0, Ptr 0x20690000, Imm 0x8000], Count,
    Syscall NR_read [Reg 0, Ptr 0x20698000, Imm 0x8000], Count,
    Syscall NR_read [Reg 0, Ptr 0x206a0000, Imm 0x8000], Count,
    Syscall NR_read [Reg 0, Ptr 0x206a8000, Imm 0x8000], Count,
    Syscall NR_read [Reg 0, Ptr 0x206b0000, Imm 0x8000], Count,
    Syscall NR_read [Reg 0, Ptr 0x206b8000, Imm 0x8000], Count]"

definition min_rocks_read_fcntl_0_0_body53 :: "stmt list" where
  "min_rocks_read_fcntl_0_0_body53 = [
    Syscall NR_read [Reg 0, Ptr 0x206c0000, Imm 0x8000], Count,
    Syscall NR_read [Reg 0, Ptr 0x206c8000, Imm 0x8000], Count,
    Syscall NR_read [Reg 0, Ptr 0x206d0000, Imm 0x8000], Count,
    Syscall NR_read [Reg 0, Ptr 0x206d8000, Imm 0x8000], Count,
    Syscall NR_read [Reg 0, Ptr 0x206e0000, Imm 0x8000], Count,
    Syscall NR_read [Reg 0, Ptr 0x206e8000, Imm 0x8000], Count,
    Syscall NR_read [Reg 0, Ptr 0x206f0000, Imm 0x8000], Count,
    Syscall NR_read [Reg 0, Ptr 0x206f8000, Imm 0x8000], Count,
    Syscall NR_read [Reg 0, Ptr 0x20700000, Imm 0x8000], Count,
    Syscall NR_read [Reg 0, Ptr 0x20708000, Imm 0x8000], Count,
    Syscall NR_read [Reg 0, Ptr 0x20710000, Imm 0x8000], Count,
    Syscall NR_read [Reg 0, Ptr 0x20718000, Imm 0x8000], Count,
    Syscall NR_read [Reg 0, Ptr 0x20720000, Imm 0x8000], Count,
    Syscall NR_read [Reg 0, Ptr 0x20728000, Imm 0x8000], Count]"

definition min_rocks_read_fcntl_0_0_body54 :: "stmt list" where
  "min_rocks_read_fcntl_0_0_body54 = [
    Syscall NR_read [Reg 0, Ptr 0x20730000, Imm 0x8000], Count,
    Syscall NR_read [Reg 0, Ptr 0x20738000, Imm 0x8000], Count,
    Syscall NR_read [Reg 0, Ptr 0x20740000, Imm 0x8000], Count,
    Syscall NR_read [Reg 0, Ptr 0x20748000, Imm 0x8000], Count,
    Syscall NR_read [Reg 0, Ptr 0x20750000, Imm 0x8000], Count,
    Syscall NR_read [Reg 0, Ptr 0x20758000, Imm 0x8000], Count,
    Syscall NR_read [Reg 0, Ptr 0x20760000, Imm 0x8000], Count,
    Syscall NR_read [Reg 0, Ptr 0x20768000, Imm 0x8000], Count,
    Syscall NR_read [Reg 0, Ptr 0x20770000, Imm 0x8000], Count,
    Syscall NR_read [Reg 0, Ptr 0x20778000, Imm 0x8000], Count,
    Syscall NR_read [Reg 0, Ptr 0x20780000, Imm 0x8000], Count,
    Syscall NR_read [Reg 0, Ptr 0x20788000, Imm 0x8000], Count,
    Syscall NR_read [Reg 0, Ptr 0x20790000, Imm 0x8000], Count,
    Syscall NR_read [Reg 0, Ptr 0x20798000, Imm 0x8000], Count]"

definition min_rocks_read_fcntl_0_0_body55 :: "stmt list" where
  "min_rocks_read_fcntl_0_0_body55 = [
    Syscall NR_read [Reg 0, Ptr 0x207a0000, Imm 0x8000], Count,
    Syscall NR_read [Reg 0, Ptr 0x207a8000, Imm 0x8000], Count,
    Syscall NR_read [Reg 0, Ptr 0x207b0000, Imm 0x8000], Count,
    Syscall NR_read [Reg 0, Ptr 0x207b8000, Imm 0x8000], Count,
    Syscall NR_read [Reg 0, Ptr 0x207c0000, Imm 0x8000], Count,
    Syscall NR_read [Reg 0, Ptr 0x207c8000, Imm 0x8000], Count,
    Syscall NR_read [Reg 0, Ptr 0x207d0000, Imm 0x8000], Count,
    Syscall NR_read [Reg 0, Ptr 0x207d8000, Imm 0x8000], Count,
    Syscall NR_read [Reg 0, Ptr 0x207e0000, Imm 0x8000], Count,
    Syscall NR_read [Reg 0, Ptr 0x207e8000, Imm 0x8000], Count,
    Syscall NR_read [Reg 0, Ptr 0x207f0000, Imm 0x8000], Count,
    Syscall NR_read [Reg 0, Ptr 0x207f8000, Imm 0x8000], Count,
    Syscall NR_read [Reg 0, Ptr 0x20800000, Imm 0x8000], Count,
    Syscall NR_read [Reg 0, Ptr 0x20808000, Imm 0x8000], Count]"

definition min_rocks_read_fcntl_0_0_body56 :: "stmt list" where
  "min_rocks_read_fcntl_0_0_body56 = [
    Syscall NR_read [Reg 0, Ptr 0x20810000, Imm 0x8000], Count,
    Syscall NR_read [Reg 0, Ptr 0x20818000, Imm 0x8000], Count,
    Syscall NR_read [Reg 0, Ptr 0x20820000, Imm 0x8000], Count,
    Syscall NR_read [Reg 0, Ptr 0x20828000, Imm 0x8000], Count,
    Syscall NR_read [Reg 0, Ptr 0x20830000, Imm 0x8000], Count,
    Syscall NR_read [Reg 0, Ptr 0x20838000, Imm 0x8000], Count,
    Syscall NR_read [Reg 0, Ptr 0x20840000, Imm 0x8000], Count,
    Syscall NR_read [Reg 0, Ptr 0x20848000, Imm 0x8000], Count,
    Syscall NR_read [Reg 0, Ptr 0x20850000, Imm 0x8000], Count,
    Syscall NR_read [Reg 0, Ptr 0x20858000, Imm 0x8000], Count,
    Syscall NR_read [Reg 0, Ptr 0x20860000, Imm 0x8000], Count,
    Syscall NR_read [Reg 0, Ptr 0x20868000, Imm 0x8000], Count,
    Syscall NR_read [Reg 0, Ptr 0x20870000, Imm 0x8000], Count,
    Syscall NR_read [Reg 0, Ptr 0x20878000, Imm 0x8000], Count]"

definition min_rocks_read_fcntl_0_0_body57 :: "stmt list" where
  "min_rocks_read_fcntl_0_0_body57 = [
    Syscall NR_read [Reg 0, Ptr 0x20880000, Imm 0x8000], Count,
    Syscall NR_read [Reg 0, Ptr 0x20888000, Imm 0x8000], Count,
    Syscall NR_read [Reg 0, Ptr 0x20890000, Imm 0x8000], Count,
    Syscall NR_read [Reg 0, Ptr 0x20898000, Imm 0x8000], Count,
    Syscall NR_read [Reg 0, Ptr 0x208a0000, Imm 0x8000], Count,
    Syscall NR_read [Reg 0, Ptr 0x208a8000, Imm 0x8000], Count,
    Syscall NR_read [Reg 0, Ptr 0x208b0000, Imm 0x8000], Count,
    Syscall NR_read [Reg 0, Ptr 0x208b8000, Imm 0x8000], Count,
    Syscall NR_read [Reg 0, Ptr 0x208c0000, Imm 0x8000], Count,
    Syscall NR_read [Reg 0, Ptr 0x208c8000, Imm 0x8000], Count,
    Syscall NR_read [Reg 0, Ptr 0x208d0000, Imm 0x8000], Count,
    Syscall NR_read [Reg 0, Ptr 0x208d8000, Imm 0x8000], Count,
    Syscall NR_read [Reg 0, Ptr 0x208e0000, Imm 0x8000], Count,
    Syscall NR_read [Reg 0, Ptr 0x208e8000, Imm 0x8000], Count]"

definition min_rocks_read_fcntl_0_0_body58 :: "stmt list" where
  "min_rocks_read_fcntl_0_0_body58 = [
    Syscall NR_read [Reg 0, Ptr 0x208f0000, Imm 0x8000], Count,
    Syscall NR_read [Reg 0, Ptr 0x208f8000, Imm 0x8000], Count,
    Syscall NR_read [Reg 0, Ptr 0x20900000, Imm 0x8000], Count,
    Syscall NR_read [Reg 0, Ptr 0x20908000, Imm 0x8000], Count,
    Syscall NR_read [Reg 0, Ptr 0x20910000, Imm 0x8000], Count,
    Syscall NR_read [Reg 0, Ptr 0x20918000, Imm 0x8000], Count,
    Syscall NR_read [Reg 0, Ptr 0x20920000, Imm 0x8000], Count,
    Syscall NR_read [Reg 0, Ptr 0x20928000, Imm 0x8000], Count,
    Syscall NR_read [Reg 0, Ptr 0x20930000, Imm 0x8000], Count,
    Syscall NR_read [Reg 0, Ptr 0x20938000, Imm 0x8000], Count,
    Syscall NR_read [Reg 0, Ptr 0x20940000, Imm 0x8000], Count,
    Syscall NR_read [Reg 0, Ptr 0x20948000, Imm 0x8000], Count,
    Syscall NR_read [Reg 0, Ptr 0x20950000, Imm 0x8000], Count,
    Syscall NR_read [Reg 0, Ptr 0x20958000, Imm 0x8000], Count]"

definition min_rocks_read_fcntl_0_0_body59 :: "stmt list" where
  "min_rocks_read_fcntl_0_0_body59 = [
    Syscall NR_read [Reg 0, Ptr 0x20960000, Imm 0x8000], Count,
    Syscall NR_read [Reg 0, Ptr 0x20968000, Imm 0x8000], Count,
    Syscall NR_read [Reg 0, Ptr 0x20970000, Imm 0x8000], Count,
    Syscall NR_read [Reg 0, Ptr 0x20978000, Imm 0x8000], Count,
    Syscall NR_read [Reg 0, Ptr 0x20980000, Imm 0x8000], Count,
    Syscall NR_read [Reg 0, Ptr 0x20988000, Imm 0x8000], Count,
    Syscall NR_read [Reg 0, Ptr 0x20990000, Imm 0x8000], Count,
    Syscall NR_read [Reg 0, Ptr 0x20998000, Imm 0x8000], Count,
    Syscall NR_read [Reg 0, Ptr 0x209a0000, Imm 0x8000], Count,
    Syscall NR_read [Reg 0, Ptr 0x209a8000, Imm 0x8000], Count,
    Syscall NR_read [Reg 0, Ptr 0x209b0000, Imm 0x8000], Count,
    Syscall NR_read [Reg 0, Ptr 0x209b8000, Imm 0x8000], Count,
    Syscall NR_read [Reg 0, Ptr 0x209c0000, Imm 0x8000], Count,
    Syscall NR_read [Reg 0, Ptr 0x209c8000, Imm 0x8000], Count]"

definition min_rocks_read_fcntl_0_0_body60 :: "stmt list" where
  "min_rocks_read_fcntl_0_0_body60 = [
    Syscall NR_read [Reg 0, Ptr 0x209d0000, Imm 0x8000], Count,
    Syscall NR_read [Reg 0, Ptr 0x209d8000, Imm 0x8000], Count,
    Syscall NR_read [Reg 0, Ptr 0x209e0000, Imm 0x8000], Count,
    Syscall NR_read [Reg 0, Ptr 0x209e8000, Imm 0x8000], Count,
    Syscall NR_read [Reg 0, Ptr 0x209f0000, Imm 0x8000], Count,
    Syscall NR_read [Reg 0, Ptr 0x209f8000, Imm 0x8000], Count,
    Syscall NR_read [Reg 0, Ptr 0x20a00000, Imm 0x8000], Count,
    Syscall NR_read [Reg 0, Ptr 0x20a08000, Imm 0x8000], Count,
    Syscall NR_read [Reg 0, Ptr 0x20a10000, Imm 0x8000], Count,
    Syscall NR_read [Reg 0, Ptr 0x20a18000, Imm 0x8000], Count,
    Syscall NR_read [Reg 0, Ptr 0x20a20000, Imm 0x8000], Count,
    Syscall NR_read [Reg 0, Ptr 0x20a28000, Imm 0x8000], Count,
    Syscall NR_read [Reg 0, Ptr 0x20a30000, Imm 0x8000], Count,
    Syscall NR_read [Reg 0, Ptr 0x20a38000, Imm 0x8000], Count]"

definition min_rocks_read_fcntl_0_0_body61 :: "stmt list" where
  "min_rocks_read_fcntl_0_0_body61 = [
    Syscall NR_read [Reg 0, Ptr 0x20a40000, Imm 0x8000], Count,
    Syscall NR_read [Reg 0, Ptr 0x20a48000, Imm 0x8000], Count,
    Syscall NR_read [Reg 0, Ptr 0x20a50000, Imm 0x8000], Count,
    Syscall NR_read [Reg 0, Ptr 0x20a58000, Imm 0x8000], Count,
    Syscall NR_read [Reg 0, Ptr 0x20a60000, Imm 0x8000], Count,
    Syscall NR_read [Reg 0, Ptr 0x20a68000, Imm 0x8000], Count,
    Syscall NR_read [Reg 0, Ptr 0x20a70000, Imm 0x8000], Count,
    Syscall NR_read [Reg 0, Ptr 0x20a78000, Imm 0x8000], Count,
    Syscall NR_read [Reg 0, Ptr 0x20a80000, Imm 0x8000], Count,
    Syscall NR_read [Reg 0, Ptr 0x20a88000, Imm 0x8000], Count,
    Syscall NR_read [Reg 0, Ptr 0x20a90000, Imm 0x8000], Count,
    Syscall NR_read [Reg 0, Ptr 0x20a98000, Imm 0x8000], Count,
    Syscall NR_read [Reg 0, Ptr 0x20aa0000, Imm 0x8000], Count,
    Syscall NR_read [Reg 0, Ptr 0x20aa8000, Imm 0x8000], Count]"

definition min_rocks_read_fcntl_0_0_body62 :: "stmt list" where
  "min_rocks_read_fcntl_0_0_body62 = [
    Syscall NR_read [Reg 0, Ptr 0x20ab0000, Imm 0x8000], Count,
    Syscall NR_read [Reg 0, Ptr 0x20ab8000, Imm 0x8000], Count,
    Syscall NR_read [Reg 0, Ptr 0x20ac0000, Imm 0x8000], Count,
    Syscall NR_read [Reg 0, Ptr 0x20ac8000, Imm 0x8000], Count,
    Syscall NR_read [Reg 0, Ptr 0x20ad0000, Imm 0x8000], Count,
    Syscall NR_read [Reg 0, Ptr 0x20ad8000, Imm 0x8000], Count,
    Syscall NR_read [Reg 0, Ptr 0x20ae0000, Imm 0x8000], Count,
    Syscall NR_read [Reg 0, Ptr 0x20ae8000, Imm 0x8000], Count,
    Syscall NR_read [Reg 0, Ptr 0x20af0000, Imm 0x8000], Count,
    Syscall NR_read [Reg 0, Ptr 0x20af8000, Imm 0x8000], Count,
    Syscall NR_read [Reg 0, Ptr 0x20b00000, Imm 0x8000], Count,
    Syscall NR_read [Reg 0, Ptr 0x20b08000, Imm 0x8000], Count,
    Syscall NR_read [Reg 0, Ptr 0x20b10000, Imm 0x8000], Count,
    Syscall NR_read [Reg 0, Ptr 0x20b18000, Imm 0x8000], Count]"

definition min_rocks_read_fcntl_0_0_body63 :: "stmt list" where
  "min_rocks_read_fcntl_0_0_body63 = [
    Syscall NR_read [Reg 0, Ptr 0x20b20000, Imm 0x8000], Count,
    Syscall NR_read [Reg 0, Ptr 0x20b28000, Imm 0x8000], Count,
    Syscall NR_read [Reg 0, Ptr 0x20b30000, Imm 0x8000], Count,
    Syscall NR_read [Reg 0, Ptr 0x20b38000, Imm 0x8000], Count,
    Syscall NR_read [Reg 0, Ptr 0x20b40000, Imm 0x8000], Count,
    Syscall NR_read [Reg 0, Ptr 0x20b48000, Imm 0x8000], Count,
    Syscall NR_read [Reg 0, Ptr 0x20b50000, Imm 0x8000], Count,
    Syscall NR_read [Reg 0, Ptr 0x20b58000, Imm 0x8000], Count,
    Syscall NR_read [Reg 0, Ptr 0x20b60000, Imm 0x8000], Count,
    Syscall NR_read [Reg 0, Ptr 0x20b68000, Imm 0x8000], Count,
    Syscall NR_read [Reg 0, Ptr 0x20b70000, Imm 0x8000], Count,
    Syscall NR_read [Reg 0, Ptr 0x20b78000, Imm 0x8000], Count,
    Syscall NR_read [Reg 0, Ptr 0x20b80000, Imm 0x8000], Count,
    Syscall NR_read [Reg 0, Ptr 0x20b88000, Imm 0x8000], Count]"

definition min_rocks_read_fcntl_0_0_body64 :: "stmt list" where
  "min_rocks_read_fcntl_0_0_body64 = [
    Syscall NR_read [Reg 0, Ptr 0x20b90000, Imm 0x8000], Count,
    Syscall NR_read [Reg 0, Ptr 0x20b98000, Imm 0x8000], Count,
    Syscall NR_read [Reg 0, Ptr 0x20ba0000, Imm 0x8000], Count,
    Syscall NR_read [Reg 0, Ptr 0x20ba8000, Imm 0x8000], Count,
    Syscall NR_read [Reg 0, Ptr 0x20bb0000, Imm 0x8000], Count,
    Syscall NR_read [Reg 0, Ptr 0x20bb8000, Imm 0x8000], Count,
    Syscall NR_read [Reg 0, Ptr 0x20bc0000, Imm 0x8000], Count,
    Syscall NR_read [Reg 0, Ptr 0x20bc8000, Imm 0x8000], Count,
    Syscall NR_read [Reg 0, Ptr 0x20bd0000, Imm 0x8000], Count,
    Syscall NR_read [Reg 0, Ptr 0x20bd8000, Imm 0x8000], Count,
    Syscall NR_read [Reg 0, Ptr 0x20be0000, Imm 0x8000], Count,
    Syscall NR_read [Reg 0, Ptr 0x20be8000, Imm 0x8000], Count,
    Syscall NR_read [Reg 0, Ptr 0x20bf0000, Imm 0x8000], Count,
    Syscall NR_read [Reg 0, Ptr 0x20bf8000, Imm 0x8000], Count]"

definition min_rocks_read_fcntl_0_0_body65 :: "stmt list" where
  "min_rocks_read_fcntl_0_0_body65 = [
    Syscall NR_read [Reg 0, Ptr 0x20c00000, Imm 0x8000], Count,
    Syscall NR_read [Reg 0, Ptr 0x20c08000, Imm 0x8000], Count,
    Syscall NR_read [Reg 0, Ptr 0x20c10000, Imm 0x8000], Count,
    Syscall NR_read [Reg 0, Ptr 0x20c18000, Imm 0x8000], Count,
    Syscall NR_read [Reg 0, Ptr 0x20c20000, Imm 0x8000], Count,
    Syscall NR_read [Reg 0, Ptr 0x20c28000, Imm 0x8000], Count,
    Syscall NR_read [Reg 0, Ptr 0x20c30000, Imm 0x8000], Count,
    Syscall NR_read [Reg 0, Ptr 0x20c38000, Imm 0x8000], Count,
    Syscall NR_read [Reg 0, Ptr 0x20c40000, Imm 0x8000], Count,
    Syscall NR_read [Reg 0, Ptr 0x20c48000, Imm 0x8000], Count,
    Syscall NR_read [Reg 0, Ptr 0x20c50000, Imm 0x8000], Count,
    Syscall NR_read [Reg 0, Ptr 0x20c58000, Imm 0x8000], Count,
    Syscall NR_read [Reg 0, Ptr 0x20c60000, Imm 0x8000], Count,
    Syscall NR_read [Reg 0, Ptr 0x20c68000, Imm 0x8000], Count]"

definition min_rocks_read_fcntl_0_0_body66 :: "stmt list" where
  "min_rocks_read_fcntl_0_0_body66 = [
    Syscall NR_read [Reg 0, Ptr 0x20c70000, Imm 0x8000], Count,
    Syscall NR_read [Reg 0, Ptr 0x20c78000, Imm 0x8000], Count,
    Syscall NR_read [Reg 0, Ptr 0x20c80000, Imm 0x8000], Count,
    Syscall NR_read [Reg 0, Ptr 0x20c88000, Imm 0x8000], Count,
    Syscall NR_read [Reg 0, Ptr 0x20c90000, Imm 0x8000], Count,
    Syscall NR_read [Reg 0, Ptr 0x20c98000, Imm 0x8000], Count,
    Syscall NR_read [Reg 0, Ptr 0x20ca0000, Imm 0x8000], Count,
    Syscall NR_read [Reg 0, Ptr 0x20ca8000, Imm 0x8000], Count,
    Syscall NR_read [Reg 0, Ptr 0x20cb0000, Imm 0x8000], Count,
    Syscall NR_read [Reg 0, Ptr 0x20cb8000, Imm 0x8000], Count,
    Syscall NR_read [Reg 0, Ptr 0x20cc0000, Imm 0x8000], Count,
    Syscall NR_read [Reg 0, Ptr 0x20cc8000, Imm 0x8000], Count,
    Syscall NR_read [Reg 0, Ptr 0x20cd0000, Imm 0x8000], Count,
    Syscall NR_read [Reg 0, Ptr 0x20cd8000, Imm 0x8000], Count]"

definition min_rocks_read_fcntl_0_0_body67 :: "stmt list" where
  "min_rocks_read_fcntl_0_0_body67 = [
    Syscall NR_read [Reg 0, Ptr 0x20ce0000, Imm 0x8000], Count,
    Syscall NR_read [Reg 0, Ptr 0x20ce8000, Imm 0x8000], Count,
    Syscall NR_read [Reg 0, Ptr 0x20cf0000, Imm 0x8000], Count,
    Syscall NR_read [Reg 0, Ptr 0x20cf8000, Imm 0x8000], Count,
    Syscall NR_read [Reg 0, Ptr 0x20d00000, Imm 0x8000], Count,
    Syscall NR_read [Reg 0, Ptr 0x20d08000, Imm 0x8000], Count,
    Syscall NR_read [Reg 0, Ptr 0x20d10000, Imm 0x8000], Count,
    Syscall NR_read [Reg 0, Ptr 0x20d18000, Imm 0x8000], Count,
    Syscall NR_read [Reg 0, Ptr 0x20d20000, Imm 0x8000], Count,
    Syscall NR_read [Reg 0, Ptr 0x20d28000, Imm 0x8000], Count,
    Syscall NR_read [Reg 0, Ptr 0x20d30000, Imm 0x8000], Count,
    Syscall NR_read [Reg 0, Ptr 0x20d38000, Imm 0x8000], Count,
    Syscall NR_read [Reg 0, Ptr 0x20d40000, Imm 0x8000], Count,
    Syscall NR_read [Reg 0, Ptr 0x20d48000, Imm 0x8000], Count]"

definition min_rocks_read_fcntl_0_0_body68 :: "stmt list" where
  "min_rocks_read_fcntl_0_0_body68 = [
    Syscall NR_read [Reg 0, Ptr 0x20d50000, Imm 0x8000], Count,
    Syscall NR_read [Reg 0, Ptr 0x20d58000, Imm 0x8000], Count,
    Syscall NR_read [Reg 0, Ptr 0x20d60000, Imm 0x8000], Count,
    Syscall NR_read [Reg 0, Ptr 0x20d68000, Imm 0x8000], Count,
    Syscall NR_read [Reg 0, Ptr 0x20d70000, Imm 0x8000], Count,
    Syscall NR_read [Reg 0, Ptr 0x20d78000, Imm 0x8000], Count,
    Syscall NR_read [Reg 0, Ptr 0x20d80000, Imm 0x8000], Count,
    Syscall NR_read [Reg 0, Ptr 0x20d88000, Imm 0x8000], Count,
    Syscall NR_read [Reg 0, Ptr 0x20d90000, Imm 0x8000], Count,
    Syscall NR_read [Reg 0, Ptr 0x20d98000, Imm 0x8000], Count,
    Syscall NR_read [Reg 0, Ptr 0x20da0000, Imm 0x8000], Count,
    Syscall NR_read [Reg 0, Ptr 0x20da8000, Imm 0x8000], Count,
    Syscall NR_read [Reg 0, Ptr 0x20db0000, Imm 0x8000], Count,
    Syscall NR_read [Reg 0, Ptr 0x20db8000, Imm 0x8000], Count]"

definition min_rocks_read_fcntl_0_0_body69 :: "stmt list" where
  "min_rocks_read_fcntl_0_0_body69 = [
    Syscall NR_read [Reg 0, Ptr 0x20dc0000, Imm 0x8000], Count,
    Syscall NR_read [Reg 0, Ptr 0x20dc8000, Imm 0x8000], Count,
    Syscall NR_read [Reg 0, Ptr 0x20dd0000, Imm 0x8000], Count,
    Syscall NR_read [Reg 0, Ptr 0x20dd8000, Imm 0x8000], Count,
    Syscall NR_read [Reg 0, Ptr 0x20de0000, Imm 0x8000], Count,
    Syscall NR_read [Reg 0, Ptr 0x20de8000, Imm 0x8000], Count,
    Syscall NR_read [Reg 0, Ptr 0x20df0000, Imm 0x8000], Count,
    Syscall NR_read [Reg 0, Ptr 0x20df8000, Imm 0x8000], Count,
    Syscall NR_read [Reg 0, Ptr 0x20e00000, Imm 0x8000], Count,
    Syscall NR_read [Reg 0, Ptr 0x20e08000, Imm 0x8000], Count,
    Syscall NR_read [Reg 0, Ptr 0x20e10000, Imm 0x8000], Count,
    Syscall NR_read [Reg 0, Ptr 0x20e18000, Imm 0x8000], Count,
    Syscall NR_read [Reg 0, Ptr 0x20e20000, Imm 0x8000], Count,
    Syscall NR_read [Reg 0, Ptr 0x20e28000, Imm 0x8000], Count]"

definition min_rocks_read_fcntl_0_0_body70 :: "stmt list" where
  "min_rocks_read_fcntl_0_0_body70 = [
    Syscall NR_read [Reg 0, Ptr 0x20e30000, Imm 0x8000], Count,
    Syscall NR_read [Reg 0, Ptr 0x20e38000, Imm 0x8000], Count,
    Syscall NR_read [Reg 0, Ptr 0x20e40000, Imm 0x8000], Count,
    Syscall NR_read [Reg 0, Ptr 0x20e48000, Imm 0x8000], Count,
    Syscall NR_read [Reg 0, Ptr 0x20e50000, Imm 0x8000], Count,
    Syscall NR_read [Reg 0, Ptr 0x20e58000, Imm 0x8000], Count,
    Syscall NR_read [Reg 0, Ptr 0x20e60000, Imm 0x8000], Count,
    Syscall NR_read [Reg 0, Ptr 0x20e68000, Imm 0x8000], Count,
    Syscall NR_read [Reg 0, Ptr 0x20e70000, Imm 0x8000], Count,
    Syscall NR_read [Reg 0, Ptr 0x20e78000, Imm 0x8000], Count,
    Syscall NR_read [Reg 0, Ptr 0x20e80000, Imm 0x8000], Count,
    Syscall NR_read [Reg 0, Ptr 0x20e88000, Imm 0x8000], Count,
    Syscall NR_read [Reg 0, Ptr 0x20e90000, Imm 0x8000], Count,
    Syscall NR_read [Reg 0, Ptr 0x20e98000, Imm 0x8000], Count]"

definition min_rocks_read_fcntl_0_0_body71 :: "stmt list" where
  "min_rocks_read_fcntl_0_0_body71 = [
    Syscall NR_read [Reg 0, Ptr 0x20ea0000, Imm 0x8000], Count,
    Syscall NR_read [Reg 0, Ptr 0x20ea8000, Imm 0x8000], Count,
    Syscall NR_read [Reg 0, Ptr 0x20eb0000, Imm 0x8000], Count,
    Syscall NR_read [Reg 0, Ptr 0x20eb8000, Imm 0x8000], Count,
    Syscall NR_read [Reg 0, Ptr 0x20ec0000, Imm 0x8000], Count,
    Syscall NR_read [Reg 0, Ptr 0x20ec8000, Imm 0x8000], Count,
    Syscall NR_read [Reg 0, Ptr 0x20ed0000, Imm 0x8000], Count,
    Syscall NR_read [Reg 0, Ptr 0x20ed8000, Imm 0x8000], Count,
    Syscall NR_read [Reg 0, Ptr 0x20ee0000, Imm 0x8000], Count,
    Syscall NR_read [Reg 0, Ptr 0x20ee8000, Imm 0x8000], Count,
    Syscall NR_read [Reg 0, Ptr 0x20ef0000, Imm 0x8000], Count,
    Syscall NR_read [Reg 0, Ptr 0x20ef8000, Imm 0x8000], Count,
    Syscall NR_read [Reg 0, Ptr 0x20f00000, Imm 0x8000], Count,
    Syscall NR_read [Reg 0, Ptr 0x20f08000, Imm 0x8000], Count]"

definition min_rocks_read_fcntl_0_0_body72 :: "stmt list" where
  "min_rocks_read_fcntl_0_0_body72 = [
    Syscall NR_read [Reg 0, Ptr 0x20f10000, Imm 0x8000], Count,
    Syscall NR_read [Reg 0, Ptr 0x20f18000, Imm 0x8000], Count,
    Syscall NR_read [Reg 0, Ptr 0x20f20000, Imm 0x8000], Count,
    Syscall NR_read [Reg 0, Ptr 0x20f28000, Imm 0x8000], Count,
    Syscall NR_read [Reg 0, Ptr 0x20f30000, Imm 0x8000], Count,
    Syscall NR_read [Reg 0, Ptr 0x20f38000, Imm 0x8000], Count,
    Syscall NR_read [Reg 0, Ptr 0x20f40000, Imm 0x8000], Count,
    Syscall NR_read [Reg 0, Ptr 0x20f48000, Imm 0x8000], Count,
    Syscall NR_read [Reg 0, Ptr 0x20f50000, Imm 0x8000], Count,
    Syscall NR_read [Reg 0, Ptr 0x20f58000, Imm 0x8000], Count,
    Syscall NR_read [Reg 0, Ptr 0x20f60000, Imm 0x8000], Count,
    Syscall NR_read [Reg 0, Ptr 0x20f68000, Imm 0x8000], Count,
    Syscall NR_read [Reg 0, Ptr 0x20f70000, Imm 0x8000], Count,
    Syscall NR_read [Reg 0, Ptr 0x20f78000, Imm 0x8000], Count]"

definition min_rocks_read_fcntl_0_0_body73 :: "stmt list" where
  "min_rocks_read_fcntl_0_0_body73 = [
    Syscall NR_read [Reg 0, Ptr 0x20f80000, Imm 0x8000], Count,
    Syscall NR_read [Reg 0, Ptr 0x20f88000, Imm 0x8000], Count,
    Syscall NR_read [Reg 0, Ptr 0x20f90000, Imm 0x8000], Count,
    Syscall NR_read [Reg 0, Ptr 0x20f98000, Imm 0x8000], Count,
    Syscall NR_read [Reg 0, Ptr 0x20fa0000, Imm 0x8000], Count,
    Syscall NR_read [Reg 0, Ptr 0x20fa8000, Imm 0x8000], Count,
    Syscall NR_read [Reg 0, Ptr 0x20fb0000, Imm 0x8000], Count,
    Syscall NR_read [Reg 0, Ptr 0x20fb8000, Imm 0x8000], Count,
    Syscall NR_read [Reg 0, Ptr 0x20fc0000, Imm 0x8000], Count,
    Syscall NR_read [Reg 0, Ptr 0x20fc8000, Imm 0x8000], Count,
    Syscall NR_read [Reg 0, Ptr 0x20fd0000, Imm 0x8000], Count,
    Syscall NR_read [Reg 0, Ptr 0x20fd8000, Imm 0x8000], Count,
    Syscall NR_read [Reg 0, Ptr 0x20fe0000, Imm 0x8000], Count,
    Syscall NR_read [Reg 0, Ptr 0x20fe8000, Imm 0x8000], Count]"

definition min_rocks_read_fcntl_0_0_body74 :: "stmt list" where
  "min_rocks_read_fcntl_0_0_body74 = [
    Syscall NR_read [Reg 0, Ptr 0x20ff0000, Imm 0x8000], Count,
    Syscall NR_read [Reg 0, Ptr 0x20ff8000, Imm 0x8000], Count,
    Syscall NR_read [Reg 0, Ptr 0x20000000, Imm 0x8000], Count,
    Syscall NR_read [Reg 0, Ptr 0x20008000, Imm 0x8000], Count,
    Syscall NR_read [Reg 0, Ptr 0x20010000, Imm 0x8000], Count,
    Syscall NR_read [Reg 0, Ptr 0x20018000, Imm 0x8000], Count,
    Syscall NR_read [Reg 0, Ptr 0x20020000, Imm 0x8000], Count,
    Syscall NR_read [Reg 0, Ptr 0x20028000, Imm 0x8000], Count,
    Syscall NR_read [Reg 0, Ptr 0x20030000, Imm 0x8000], Count,
    Syscall NR_read [Reg 0, Ptr 0x20038000, Imm 0x8000], Count,
    Syscall NR_read [Reg 0, Ptr 0x20040000, Imm 0x8000], Count,
    Syscall NR_read [Reg 0, Ptr 0x20048000, Imm 0x8000], Count,
    Syscall NR_read [Reg 0, Ptr 0x20050000, Imm 0x8000], Count,
    Syscall NR_read [Reg 0, Ptr 0x20058000, Imm 0x8000], Count]"

definition min_rocks_read_fcntl_0_0_body75 :: "stmt list" where
  "min_rocks_read_fcntl_0_0_body75 = [
    Syscall NR_read [Reg 0, Ptr 0x20060000, Imm 0x8000], Count,
    Syscall NR_read [Reg 0, Ptr 0x20068000, Imm 0x8000], Count,
    Syscall NR_read [Reg 0, Ptr 0x20070000, Imm 0x8000], Count,
    Syscall NR_read [Reg 0, Ptr 0x20078000, Imm 0x8000], Count,
    Syscall NR_read [Reg 0, Ptr 0x20080000, Imm 0x8000], Count,
    Syscall NR_read [Reg 0, Ptr 0x20088000, Imm 0x8000], Count,
    Syscall NR_read [Reg 0, Ptr 0x20090000, Imm 0x8000], Count,
    Syscall NR_read [Reg 0, Ptr 0x20098000, Imm 0x8000], Count,
    Syscall NR_read [Reg 0, Ptr 0x200a0000, Imm 0x8000], Count,
    Syscall NR_read [Reg 0, Ptr 0x200a8000, Imm 0x8000], Count,
    Syscall NR_read [Reg 0, Ptr 0x200b0000, Imm 0x8000], Count,
    Syscall NR_read [Reg 0, Ptr 0x200b8000, Imm 0x8000], Count,
    Syscall NR_read [Reg 0, Ptr 0x200c0000, Imm 0x8000], Count,
    Syscall NR_read [Reg 0, Ptr 0x200c8000, Imm 0x8000], Count]"

definition min_rocks_read_fcntl_0_0_body76 :: "stmt list" where
  "min_rocks_read_fcntl_0_0_body76 = [
    Syscall NR_read [Reg 0, Ptr 0x200d0000, Imm 0x8000], Count,
    Syscall NR_read [Reg 0, Ptr 0x200d8000, Imm 0x8000], Count,
    Syscall NR_read [Reg 0, Ptr 0x200e0000, Imm 0x8000], Count,
    Syscall NR_read [Reg 0, Ptr 0x200e8000, Imm 0x8000], Count,
    Syscall NR_read [Reg 0, Ptr 0x200f0000, Imm 0x8000], Count,
    Syscall NR_read [Reg 0, Ptr 0x200f8000, Imm 0x8000], Count,
    Syscall NR_read [Reg 0, Ptr 0x20100000, Imm 0x8000], Count,
    Syscall NR_read [Reg 0, Ptr 0x20108000, Imm 0x8000], Count,
    Syscall NR_read [Reg 0, Ptr 0x20110000, Imm 0x8000], Count,
    Syscall NR_read [Reg 0, Ptr 0x20118000, Imm 0x8000], Count,
    Syscall NR_read [Reg 0, Ptr 0x20120000, Imm 0x8000], Count,
    Syscall NR_read [Reg 0, Ptr 0x20128000, Imm 0x8000], Count,
    Syscall NR_read [Reg 0, Ptr 0x20130000, Imm 0x8000], Count,
    Syscall NR_read [Reg 0, Ptr 0x20138000, Imm 0x8000], Count]"

definition min_rocks_read_fcntl_0_0_body77 :: "stmt list" where
  "min_rocks_read_fcntl_0_0_body77 = [
    Syscall NR_read [Reg 0, Ptr 0x20140000, Imm 0x8000], Count,
    Syscall NR_read [Reg 0, Ptr 0x20148000, Imm 0x8000], Count,
    Syscall NR_read [Reg 0, Ptr 0x20150000, Imm 0x8000], Count,
    Syscall NR_read [Reg 0, Ptr 0x20158000, Imm 0x8000], Count,
    Syscall NR_read [Reg 0, Ptr 0x20160000, Imm 0x8000], Count,
    Syscall NR_read [Reg 0, Ptr 0x20168000, Imm 0x8000], Count,
    Syscall NR_read [Reg 0, Ptr 0x20170000, Imm 0x8000], Count,
    Syscall NR_read [Reg 0, Ptr 0x20178000, Imm 0x8000], Count,
    Syscall NR_read [Reg 0, Ptr 0x20180000, Imm 0x8000], Count,
    Syscall NR_read [Reg 0, Ptr 0x20188000, Imm 0x8000], Count,
    Syscall NR_read [Reg 0, Ptr 0x20190000, Imm 0x8000], Count,
    Syscall NR_read [Reg 0, Ptr 0x20198000, Imm 0x8000], Count,
    Syscall NR_read [Reg 0, Ptr 0x201a0000, Imm 0x8000], Count,
    Syscall NR_read [Reg 0, Ptr 0x201a8000, Imm 0x8000], Count]"

definition min_rocks_read_fcntl_0_0_body78 :: "stmt list" where
  "min_rocks_read_fcntl_0_0_body78 = [
    Syscall NR_read [Reg 0, Ptr 0x201b0000, Imm 0x8000], Count,
    Syscall NR_read [Reg 0, Ptr 0x201b8000, Imm 0x8000], Count,
    Syscall NR_read [Reg 0, Ptr 0x201c0000, Imm 0x8000], Count,
    Syscall NR_read [Reg 0, Ptr 0x201c8000, Imm 0x8000], Count,
    Syscall NR_read [Reg 0, Ptr 0x201d0000, Imm 0x8000], Count,
    Syscall NR_read [Reg 0, Ptr 0x201d8000, Imm 0x8000], Count,
    Syscall NR_read [Reg 0, Ptr 0x201e0000, Imm 0x8000], Count,
    Syscall NR_read [Reg 0, Ptr 0x201e8000, Imm 0x8000], Count,
    Syscall NR_read [Reg 0, Ptr 0x201f0000, Imm 0x8000], Count,
    Syscall NR_read [Reg 0, Ptr 0x201f8000, Imm 0x8000], Count,
    Syscall NR_read [Reg 0, Ptr 0x20200000, Imm 0x8000], Count,
    Syscall NR_read [Reg 0, Ptr 0x20208000, Imm 0x8000], Count,
    Syscall NR_read [Reg 0, Ptr 0x20210000, Imm 0x8000], Count,
    Syscall NR_read [Reg 0, Ptr 0x20218000, Imm 0x8000], Count]"

definition min_rocks_read_fcntl_0_0_body79 :: "stmt list" where
  "min_rocks_read_fcntl_0_0_body79 = [
    Syscall NR_read [Reg 0, Ptr 0x20220000, Imm 0x8000], Count,
    Syscall NR_read [Reg 0, Ptr 0x20228000, Imm 0x8000], Count,
    Syscall NR_read [Reg 0, Ptr 0x20230000, Imm 0x8000], Count,
    Syscall NR_read [Reg 0, Ptr 0x20238000, Imm 0x8000], Count,
    Syscall NR_read [Reg 0, Ptr 0x20240000, Imm 0x8000], Count,
    Syscall NR_read [Reg 0, Ptr 0x20248000, Imm 0x8000], Count,
    Syscall NR_read [Reg 0, Ptr 0x20250000, Imm 0x8000], Count,
    Syscall NR_read [Reg 0, Ptr 0x20258000, Imm 0x8000], Count,
    Syscall NR_read [Reg 0, Ptr 0x20260000, Imm 0x8000], Count,
    Syscall NR_read [Reg 0, Ptr 0x20268000, Imm 0x8000], Count,
    Syscall NR_read [Reg 0, Ptr 0x20270000, Imm 0x8000], Count,
    Syscall NR_read [Reg 0, Ptr 0x20278000, Imm 0x8000], Count,
    Syscall NR_read [Reg 0, Ptr 0x20280000, Imm 0x8000], Count,
    Syscall NR_read [Reg 0, Ptr 0x20288000, Imm 0x8000], Count]"

definition min_rocks_read_fcntl_0_0_body80 :: "stmt list" where
  "min_rocks_read_fcntl_0_0_body80 = [
    Syscall NR_read [Reg 0, Ptr 0x20290000, Imm 0x8000], Count,
    Syscall NR_read [Reg 0, Ptr 0x20298000, Imm 0x8000], Count,
    Syscall NR_read [Reg 0, Ptr 0x202a0000, Imm 0x8000], Count,
    Syscall NR_read [Reg 0, Ptr 0x202a8000, Imm 0x8000], Count,
    Syscall NR_read [Reg 0, Ptr 0x202b0000, Imm 0x8000], Count,
    Syscall NR_read [Reg 0, Ptr 0x202b8000, Imm 0x8000], Count,
    Syscall NR_read [Reg 0, Ptr 0x202c0000, Imm 0x8000], Count,
    Syscall NR_read [Reg 0, Ptr 0x202c8000, Imm 0x8000], Count,
    Syscall NR_read [Reg 0, Ptr 0x202d0000, Imm 0x8000], Count,
    Syscall NR_read [Reg 0, Ptr 0x202d8000, Imm 0x8000], Count,
    Syscall NR_read [Reg 0, Ptr 0x202e0000, Imm 0x8000], Count,
    Syscall NR_read [Reg 0, Ptr 0x202e8000, Imm 0x8000], Count,
    Syscall NR_read [Reg 0, Ptr 0x202f0000, Imm 0x8000], Count,
    Syscall NR_read [Reg 0, Ptr 0x202f8000, Imm 0x8000], Count]"

definition min_rocks_read_fcntl_0_0_body81 :: "stmt list" where
  "min_rocks_read_fcntl_0_0_body81 = [
    Syscall NR_read [Reg 0, Ptr 0x20300000, Imm 0x8000], Count,
    Syscall NR_read [Reg 0, Ptr 0x20308000, Imm 0x8000], Count,
    Syscall NR_read [Reg 0, Ptr 0x20310000, Imm 0x8000], Count,
    Syscall NR_read [Reg 0, Ptr 0x20318000, Imm 0x8000], Count,
    Syscall NR_read [Reg 0, Ptr 0x20320000, Imm 0x8000], Count,
    Syscall NR_read [Reg 0, Ptr 0x20328000, Imm 0x8000], Count,
    Syscall NR_read [Reg 0, Ptr 0x20330000, Imm 0x8000], Count,
    Syscall NR_read [Reg 0, Ptr 0x20338000, Imm 0x8000], Count,
    Syscall NR_read [Reg 0, Ptr 0x20340000, Imm 0x8000], Count,
    Syscall NR_read [Reg 0, Ptr 0x20348000, Imm 0x8000], Count,
    Syscall NR_read [Reg 0, Ptr 0x20350000, Imm 0x8000], Count,
    Syscall NR_read [Reg 0, Ptr 0x20358000, Imm 0x8000], Count,
    Syscall NR_read [Reg 0, Ptr 0x20360000, Imm 0x8000], Count,
    Syscall NR_read [Reg 0, Ptr 0x20368000, Imm 0x8000], Count]"

definition min_rocks_read_fcntl_0_0_body82 :: "stmt list" where
  "min_rocks_read_fcntl_0_0_body82 = [
    Syscall NR_read [Reg 0, Ptr 0x20370000, Imm 0x8000], Count,
    Syscall NR_read [Reg 0, Ptr 0x20378000, Imm 0x8000], Count,
    Syscall NR_read [Reg 0, Ptr 0x20380000, Imm 0x8000], Count,
    Syscall NR_read [Reg 0, Ptr 0x20388000, Imm 0x8000], Count,
    Syscall NR_read [Reg 0, Ptr 0x20390000, Imm 0x8000], Count,
    Syscall NR_read [Reg 0, Ptr 0x20398000, Imm 0x8000], Count,
    Syscall NR_read [Reg 0, Ptr 0x203a0000, Imm 0x8000], Count,
    Syscall NR_read [Reg 0, Ptr 0x203a8000, Imm 0x8000], Count,
    Syscall NR_read [Reg 0, Ptr 0x203b0000, Imm 0x8000], Count,
    Syscall NR_read [Reg 0, Ptr 0x203b8000, Imm 0x8000], Count,
    Syscall NR_read [Reg 0, Ptr 0x203c0000, Imm 0x8000], Count,
    Syscall NR_read [Reg 0, Ptr 0x203c8000, Imm 0x8000], Count,
    Syscall NR_read [Reg 0, Ptr 0x203d0000, Imm 0x8000], Count,
    Syscall NR_read [Reg 0, Ptr 0x203d8000, Imm 0x8000], Count]"

definition min_rocks_read_fcntl_0_0_body83 :: "stmt list" where
  "min_rocks_read_fcntl_0_0_body83 = [
    Syscall NR_read [Reg 0, Ptr 0x203e0000, Imm 0x8000], Count,
    Syscall NR_read [Reg 0, Ptr 0x203e8000, Imm 0x8000], Count,
    Syscall NR_read [Reg 0, Ptr 0x203f0000, Imm 0x8000], Count,
    Syscall NR_read [Reg 0, Ptr 0x203f8000, Imm 0x8000], Count,
    Syscall NR_read [Reg 0, Ptr 0x20400000, Imm 0x8000], Count,
    Syscall NR_read [Reg 0, Ptr 0x20408000, Imm 0x8000], Count,
    Syscall NR_read [Reg 0, Ptr 0x20410000, Imm 0x8000], Count,
    Syscall NR_read [Reg 0, Ptr 0x20418000, Imm 0x8000], Count,
    Syscall NR_read [Reg 0, Ptr 0x20420000, Imm 0x8000], Count,
    Syscall NR_read [Reg 0, Ptr 0x20428000, Imm 0x8000], Count,
    Syscall NR_read [Reg 0, Ptr 0x20430000, Imm 0x8000], Count,
    Syscall NR_read [Reg 0, Ptr 0x20438000, Imm 0x8000], Count,
    Syscall NR_read [Reg 0, Ptr 0x20440000, Imm 0x8000], Count,
    Syscall NR_read [Reg 0, Ptr 0x20448000, Imm 0x8000], Count]"

definition min_rocks_read_fcntl_0_0_body84 :: "stmt list" where
  "min_rocks_read_fcntl_0_0_body84 = [
    Syscall NR_read [Reg 0, Ptr 0x20450000, Imm 0x8000], Count,
    Syscall NR_read [Reg 0, Ptr 0x20458000, Imm 0x8000], Count,
    Syscall NR_read [Reg 0, Ptr 0x20460000, Imm 0x8000], Count,
    Syscall NR_read [Reg 0, Ptr 0x20468000, Imm 0x8000], Count,
    Syscall NR_read [Reg 0, Ptr 0x20470000, Imm 0x8000], Count,
    Syscall NR_read [Reg 0, Ptr 0x20478000, Imm 0x8000], Count,
    Syscall NR_read [Reg 0, Ptr 0x20480000, Imm 0x8000], Count,
    Syscall NR_read [Reg 0, Ptr 0x20488000, Imm 0x8000], Count,
    Syscall NR_read [Reg 0, Ptr 0x20490000, Imm 0x8000], Count,
    Syscall NR_read [Reg 0, Ptr 0x20498000, Imm 0x8000], Count,
    Syscall NR_read [Reg 0, Ptr 0x204a0000, Imm 0x8000], Count,
    Syscall NR_read [Reg 0, Ptr 0x204a8000, Imm 0x8000], Count,
    Syscall NR_read [Reg 0, Ptr 0x204b0000, Imm 0x8000], Count,
    Syscall NR_read [Reg 0, Ptr 0x204b8000, Imm 0x8000], Count]"

definition min_rocks_read_fcntl_0_0_body85 :: "stmt list" where
  "min_rocks_read_fcntl_0_0_body85 = [
    Syscall NR_read [Reg 0, Ptr 0x204c0000, Imm 0x8000], Count,
    Syscall NR_read [Reg 0, Ptr 0x204c8000, Imm 0x8000], Count,
    Syscall NR_read [Reg 0, Ptr 0x204d0000, Imm 0x8000], Count,
    Syscall NR_read [Reg 0, Ptr 0x204d8000, Imm 0x8000], Count,
    Syscall NR_read [Reg 0, Ptr 0x204e0000, Imm 0x8000], Count,
    Syscall NR_read [Reg 0, Ptr 0x204e8000, Imm 0x8000], Count,
    Syscall NR_read [Reg 0, Ptr 0x204f0000, Imm 0x8000], Count,
    Syscall NR_read [Reg 0, Ptr 0x204f8000, Imm 0x8000], Count,
    Syscall NR_read [Reg 0, Ptr 0x20500000, Imm 0x8000], Count,
    Syscall NR_read [Reg 0, Ptr 0x20508000, Imm 0x8000], Count,
    Syscall NR_read [Reg 0, Ptr 0x20510000, Imm 0x8000], Count,
    Syscall NR_read [Reg 0, Ptr 0x20518000, Imm 0x8000], Count,
    Syscall NR_read [Reg 0, Ptr 0x20520000, Imm 0x8000], Count,
    Syscall NR_read [Reg 0, Ptr 0x20528000, Imm 0x8000], Count]"

definition min_rocks_read_fcntl_0_0_body86 :: "stmt list" where
  "min_rocks_read_fcntl_0_0_body86 = [
    Syscall NR_read [Reg 0, Ptr 0x20530000, Imm 0x8000], Count,
    Syscall NR_read [Reg 0, Ptr 0x20538000, Imm 0x8000], Count,
    Syscall NR_read [Reg 0, Ptr 0x20540000, Imm 0x8000], Count,
    Syscall NR_read [Reg 0, Ptr 0x20548000, Imm 0x8000], Count,
    Syscall NR_read [Reg 0, Ptr 0x20550000, Imm 0x8000], Count,
    Syscall NR_read [Reg 0, Ptr 0x20558000, Imm 0x8000], Count,
    Syscall NR_read [Reg 0, Ptr 0x20560000, Imm 0x8000], Count,
    Syscall NR_read [Reg 0, Ptr 0x20568000, Imm 0x8000], Count,
    Syscall NR_read [Reg 0, Ptr 0x20570000, Imm 0x8000], Count,
    Syscall NR_read [Reg 0, Ptr 0x20578000, Imm 0x8000], Count,
    Syscall NR_read [Reg 0, Ptr 0x20580000, Imm 0x8000], Count,
    Syscall NR_read [Reg 0, Ptr 0x20588000, Imm 0x8000], Count,
    Syscall NR_read [Reg 0, Ptr 0x20590000, Imm 0x8000], Count,
    Syscall NR_read [Reg 0, Ptr 0x20598000, Imm 0x8000], Count]"

definition min_rocks_read_fcntl_0_0_body87 :: "stmt list" where
  "min_rocks_read_fcntl_0_0_body87 = [
    Syscall NR_read [Reg 0, Ptr 0x205a0000, Imm 0x8000], Count,
    Syscall NR_read [Reg 0, Ptr 0x205a8000, Imm 0x8000], Count,
    Syscall NR_read [Reg 0, Ptr 0x205b0000, Imm 0x8000], Count,
    Syscall NR_read [Reg 0, Ptr 0x205b8000, Imm 0x8000], Count,
    Syscall NR_read [Reg 0, Ptr 0x205c0000, Imm 0x8000], Count,
    Syscall NR_read [Reg 0, Ptr 0x205c8000, Imm 0x8000], Count,
    Syscall NR_read [Reg 0, Ptr 0x205d0000, Imm 0x8000], Count,
    Syscall NR_read [Reg 0, Ptr 0x205d8000, Imm 0x8000], Count,
    Syscall NR_read [Reg 0, Ptr 0x205e0000, Imm 0x8000], Count,
    Syscall NR_read [Reg 0, Ptr 0x205e8000, Imm 0x8000], Count,
    Syscall NR_read [Reg 0, Ptr 0x205f0000, Imm 0x8000], Count,
    Syscall NR_read [Reg 0, Ptr 0x205f8000, Imm 0x8000], Count,
    Syscall NR_read [Reg 0, Ptr 0x20600000, Imm 0x8000], Count,
    Syscall NR_read [Reg 0, Ptr 0x20608000, Imm 0x8000], Count]"

definition min_rocks_read_fcntl_0_0_body88 :: "stmt list" where
  "min_rocks_read_fcntl_0_0_body88 = [
    Syscall NR_read [Reg 0, Ptr 0x20610000, Imm 0x8000], Count,
    Syscall NR_read [Reg 0, Ptr 0x20618000, Imm 0x8000], Count,
    Syscall NR_read [Reg 0, Ptr 0x20620000, Imm 0x8000], Count,
    Syscall NR_read [Reg 0, Ptr 0x20628000, Imm 0x8000], Count,
    Syscall NR_read [Reg 0, Ptr 0x20630000, Imm 0x8000], Count,
    Syscall NR_read [Reg 0, Ptr 0x20638000, Imm 0x8000], Count,
    Syscall NR_read [Reg 0, Ptr 0x20640000, Imm 0x8000], Count,
    Syscall NR_read [Reg 0, Ptr 0x20648000, Imm 0x8000], Count,
    Syscall NR_read [Reg 0, Ptr 0x20650000, Imm 0x8000], Count,
    Syscall NR_read [Reg 0, Ptr 0x20658000, Imm 0x8000], Count,
    Syscall NR_read [Reg 0, Ptr 0x20660000, Imm 0x8000], Count,
    Syscall NR_read [Reg 0, Ptr 0x20668000, Imm 0x8000], Count,
    Syscall NR_read [Reg 0, Ptr 0x20670000, Imm 0x8000], Count,
    Syscall NR_read [Reg 0, Ptr 0x20678000, Imm 0x8000], Count]"

definition min_rocks_read_fcntl_0_0_body89 :: "stmt list" where
  "min_rocks_read_fcntl_0_0_body89 = [
    Syscall NR_read [Reg 0, Ptr 0x20680000, Imm 0x8000], Count,
    Syscall NR_read [Reg 0, Ptr 0x20688000, Imm 0x8000], Count,
    Syscall NR_read [Reg 0, Ptr 0x20690000, Imm 0x8000], Count,
    Syscall NR_read [Reg 0, Ptr 0x20698000, Imm 0x8000], Count,
    Syscall NR_read [Reg 0, Ptr 0x206a0000, Imm 0x8000], Count,
    Syscall NR_read [Reg 0, Ptr 0x206a8000, Imm 0x8000], Count,
    Syscall NR_read [Reg 0, Ptr 0x206b0000, Imm 0x8000], Count,
    Syscall NR_read [Reg 0, Ptr 0x206b8000, Imm 0x8000], Count,
    Syscall NR_read [Reg 0, Ptr 0x206c0000, Imm 0x8000], Count,
    Syscall NR_read [Reg 0, Ptr 0x206c8000, Imm 0x8000], Count,
    Syscall NR_read [Reg 0, Ptr 0x206d0000, Imm 0x8000], Count,
    Syscall NR_read [Reg 0, Ptr 0x206d8000, Imm 0x8000], Count,
    Syscall NR_read [Reg 0, Ptr 0x206e0000, Imm 0x8000], Count,
    Syscall NR_read [Reg 0, Ptr 0x206e8000, Imm 0x8000], Count]"

definition min_rocks_read_fcntl_0_0_body90 :: "stmt list" where
  "min_rocks_read_fcntl_0_0_body90 = [
    Syscall NR_read [Reg 0, Ptr 0x206f0000, Imm 0x8000], Count,
    Syscall NR_read [Reg 0, Ptr 0x206f8000, Imm 0x8000], Count,
    Syscall NR_read [Reg 0, Ptr 0x20700000, Imm 0x8000], Count,
    Syscall NR_read [Reg 0, Ptr 0x20708000, Imm 0x8000], Count,
    Syscall NR_read [Reg 0, Ptr 0x20710000, Imm 0x8000], Count,
    Syscall NR_read [Reg 0, Ptr 0x20718000, Imm 0x8000], Count,
    Syscall NR_read [Reg 0, Ptr 0x20720000, Imm 0x8000], Count,
    Syscall NR_read [Reg 0, Ptr 0x20728000, Imm 0x8000], Count,
    Syscall NR_read [Reg 0, Ptr 0x20730000, Imm 0x8000], Count,
    Syscall NR_read [Reg 0, Ptr 0x20738000, Imm 0x8000], Count,
    Syscall NR_read [Reg 0, Ptr 0x20740000, Imm 0x8000], Count,
    Syscall NR_read [Reg 0, Ptr 0x20748000, Imm 0x8000], Count,
    Syscall NR_read [Reg 0, Ptr 0x20750000, Imm 0x8000], Count,
    Syscall NR_read [Reg 0, Ptr 0x20758000, Imm 0x8000], Count]"

definition min_rocks_read_fcntl_0_0_body91 :: "stmt list" where
  "min_rocks_read_fcntl_0_0_body91 = [
    Syscall NR_read [Reg 0, Ptr 0x20760000, Imm 0x8000], Count,
    Syscall NR_read [Reg 0, Ptr 0x20768000, Imm 0x8000], Count,
    Syscall NR_read [Reg 0, Ptr 0x20770000, Imm 0x8000], Count,
    Syscall NR_read [Reg 0, Ptr 0x20778000, Imm 0x8000], Count,
    Syscall NR_read [Reg 0, Ptr 0x20780000, Imm 0x8000], Count,
    Syscall NR_read [Reg 0, Ptr 0x20788000, Imm 0x8000], Count,
    Syscall NR_read [Reg 0, Ptr 0x20790000, Imm 0x8000], Count,
    Syscall NR_read [Reg 0, Ptr 0x20798000, Imm 0x8000], Count,
    Syscall NR_read [Reg 0, Ptr 0x207a0000, Imm 0x8000], Count,
    Syscall NR_read [Reg 0, Ptr 0x207a8000, Imm 0x8000], Count,
    Syscall NR_read [Reg 0, Ptr 0x207b0000, Imm 0x8000], Count,
    Syscall NR_read [Reg 0, Ptr 0x207b8000, Imm 0x8000], Count,
    Syscall NR_read [Reg 0, Ptr 0x207c0000, Imm 0x8000], Count,
    Syscall NR_read [Reg 0, Ptr 0x207c8000, Imm 0x8000], Count]"

definition min_rocks_read_fcntl_0_0_body92 :: "stmt list" where
  "min_rocks_read_fcntl_0_0_body92 = [
    Syscall NR_read [Reg 0, Ptr 0x207d0000, Imm 0x8000], Count,
    Syscall NR_read [Reg 0, Ptr 0x207d8000, Imm 0x8000], Count,
    Syscall NR_read [Reg 0, Ptr 0x207e0000, Imm 0x8000], Count,
    Syscall NR_read [Reg 0, Ptr 0x207e8000, Imm 0x8000], Count,
    Syscall NR_read [Reg 0, Ptr 0x207f0000, Imm 0x8000], Count,
    Syscall NR_read [Reg 0, Ptr 0x207f8000, Imm 0x8000], Count,
    Syscall NR_read [Reg 0, Ptr 0x20800000, Imm 0x8000], Count,
    Syscall NR_read [Reg 0, Ptr 0x20808000, Imm 0x8000], Count,
    Syscall NR_read [Reg 0, Ptr 0x20810000, Imm 0x8000], Count,
    Syscall NR_read [Reg 0, Ptr 0x20818000, Imm 0x8000], Count,
    Syscall NR_read [Reg 0, Ptr 0x20820000, Imm 0x8000], Count,
    Syscall NR_read [Reg 0, Ptr 0x20828000, Imm 0x8000], Count,
    Syscall NR_read [Reg 0, Ptr 0x20830000, Imm 0x8000], Count,
    Syscall NR_read [Reg 0, Ptr 0x20838000, Imm 0x8000], Count]"

definition min_rocks_read_fcntl_0_0_body93 :: "stmt list" where
  "min_rocks_read_fcntl_0_0_body93 = [
    Syscall NR_read [Reg 0, Ptr 0x20840000, Imm 0x8000], Count,
    Syscall NR_read [Reg 0, Ptr 0x20848000, Imm 0x8000], Count,
    Syscall NR_read [Reg 0, Ptr 0x20850000, Imm 0x8000], Count,
    Syscall NR_read [Reg 0, Ptr 0x20858000, Imm 0x8000], Count,
    Syscall NR_read [Reg 0, Ptr 0x20860000, Imm 0x8000], Count,
    Syscall NR_read [Reg 0, Ptr 0x20868000, Imm 0x8000], Count,
    Syscall NR_read [Reg 0, Ptr 0x20870000, Imm 0x8000], Count,
    Syscall NR_read [Reg 0, Ptr 0x20878000, Imm 0x8000], Count,
    Syscall NR_read [Reg 0, Ptr 0x20880000, Imm 0x8000], Count,
    Syscall NR_read [Reg 0, Ptr 0x20888000, Imm 0x8000], Count,
    Syscall NR_read [Reg 0, Ptr 0x20890000, Imm 0x8000], Count,
    Syscall NR_read [Reg 0, Ptr 0x20898000, Imm 0x8000], Count,
    Syscall NR_read [Reg 0, Ptr 0x208a0000, Imm 0x8000], Count,
    Syscall NR_read [Reg 0, Ptr 0x208a8000, Imm 0x8000], Count]"

definition min_rocks_read_fcntl_0_0_body94 :: "stmt list" where
  "min_rocks_read_fcntl_0_0_body94 = [
    Syscall NR_read [Reg 0, Ptr 0x208b0000, Imm 0x8000], Count,
    Syscall NR_read [Reg 0, Ptr 0x208b8000, Imm 0x8000], Count,
    Syscall NR_read [Reg 0, Ptr 0x208c0000, Imm 0x8000], Count,
    Syscall NR_read [Reg 0, Ptr 0x208c8000, Imm 0x8000], Count,
    Syscall NR_read [Reg 0, Ptr 0x208d0000, Imm 0x8000], Count,
    Syscall NR_read [Reg 0, Ptr 0x208d8000, Imm 0x8000], Count,
    Syscall NR_read [Reg 0, Ptr 0x208e0000, Imm 0x8000], Count,
    Syscall NR_read [Reg 0, Ptr 0x208e8000, Imm 0x8000], Count,
    Syscall NR_read [Reg 0, Ptr 0x208f0000, Imm 0x8000], Count,
    Syscall NR_read [Reg 0, Ptr 0x208f8000, Imm 0x8000], Count,
    Syscall NR_read [Reg 0, Ptr 0x20900000, Imm 0x8000], Count,
    Syscall NR_read [Reg 0, Ptr 0x20908000, Imm 0x8000], Count,
    Syscall NR_read [Reg 0, Ptr 0x20910000, Imm 0x8000], Count,
    Syscall NR_read [Reg 0, Ptr 0x20918000, Imm 0x8000], Count]"

definition min_rocks_read_fcntl_0_0_body95 :: "stmt list" where
  "min_rocks_read_fcntl_0_0_body95 = [
    Syscall NR_read [Reg 0, Ptr 0x20920000, Imm 0x8000], Count,
    Syscall NR_read [Reg 0, Ptr 0x20928000, Imm 0x8000], Count,
    Syscall NR_read [Reg 0, Ptr 0x20930000, Imm 0x8000], Count,
    Syscall NR_read [Reg 0, Ptr 0x20938000, Imm 0x8000], Count,
    Syscall NR_read [Reg 0, Ptr 0x20940000, Imm 0x8000], Count,
    Syscall NR_read [Reg 0, Ptr 0x20948000, Imm 0x8000], Count,
    Syscall NR_read [Reg 0, Ptr 0x20950000, Imm 0x8000], Count,
    Syscall NR_read [Reg 0, Ptr 0x20958000, Imm 0x8000], Count,
    Syscall NR_read [Reg 0, Ptr 0x20960000, Imm 0x8000], Count,
    Syscall NR_read [Reg 0, Ptr 0x20968000, Imm 0x8000], Count,
    Syscall NR_read [Reg 0, Ptr 0x20970000, Imm 0x8000], Count,
    Syscall NR_read [Reg 0, Ptr 0x20978000, Imm 0x8000], Count,
    Syscall NR_read [Reg 0, Ptr 0x20980000, Imm 0x8000], Count,
    Syscall NR_read [Reg 0, Ptr 0x20988000, Imm 0x8000], Count]"

definition min_rocks_read_fcntl_0_0_body96 :: "stmt list" where
  "min_rocks_read_fcntl_0_0_body96 = [
    Syscall NR_read [Reg 0, Ptr 0x20990000, Imm 0x8000], Count,
    Syscall NR_read [Reg 0, Ptr 0x20998000, Imm 0x8000], Count,
    Syscall NR_read [Reg 0, Ptr 0x209a0000, Imm 0x8000], Count,
    Syscall NR_read [Reg 0, Ptr 0x209a8000, Imm 0x8000], Count,
    Syscall NR_read [Reg 0, Ptr 0x209b0000, Imm 0x8000], Count,
    Syscall NR_read [Reg 0, Ptr 0x209b8000, Imm 0x8000], Count,
    Syscall NR_read [Reg 0, Ptr 0x209c0000, Imm 0x8000], Count,
    Syscall NR_read [Reg 0, Ptr 0x209c8000, Imm 0x8000], Count,
    Syscall NR_read [Reg 0, Ptr 0x209d0000, Imm 0x8000], Count,
    Syscall NR_read [Reg 0, Ptr 0x209d8000, Imm 0x8000], Count,
    Syscall NR_read [Reg 0, Ptr 0x209e0000, Imm 0x8000], Count,
    Syscall NR_read [Reg 0, Ptr 0x209e8000, Imm 0x8000], Count,
    Syscall NR_read [Reg 0, Ptr 0x209f0000, Imm 0x8000], Count,
    Syscall NR_read [Reg 0, Ptr 0x209f8000, Imm 0x8000], Count]"

definition min_rocks_read_fcntl_0_0_body97 :: "stmt list" where
  "min_rocks_read_fcntl_0_0_body97 = [
    Syscall NR_read [Reg 0, Ptr 0x20a00000, Imm 0x8000], Count,
    Syscall NR_read [Reg 0, Ptr 0x20a08000, Imm 0x8000], Count,
    Syscall NR_read [Reg 0, Ptr 0x20a10000, Imm 0x8000], Count,
    Syscall NR_read [Reg 0, Ptr 0x20a18000, Imm 0x8000], Count,
    Syscall NR_read [Reg 0, Ptr 0x20a20000, Imm 0x8000], Count,
    Syscall NR_read [Reg 0, Ptr 0x20a28000, Imm 0x8000], Count,
    Syscall NR_read [Reg 0, Ptr 0x20a30000, Imm 0x8000], Count,
    Syscall NR_read [Reg 0, Ptr 0x20a38000, Imm 0x8000], Count,
    Syscall NR_read [Reg 0, Ptr 0x20a40000, Imm 0x8000], Count,
    Syscall NR_read [Reg 0, Ptr 0x20a48000, Imm 0x8000], Count,
    Syscall NR_read [Reg 0, Ptr 0x20a50000, Imm 0x8000], Count,
    Syscall NR_read [Reg 0, Ptr 0x20a58000, Imm 0x8000], Count,
    Syscall NR_read [Reg 0, Ptr 0x20a60000, Imm 0x8000], Count,
    Syscall NR_read [Reg 0, Ptr 0x20a68000, Imm 0x8000], Count]"

definition min_rocks_read_fcntl_0_0_body98 :: "stmt list" where
  "min_rocks_read_fcntl_0_0_body98 = [
    Syscall NR_read [Reg 0, Ptr 0x20a70000, Imm 0x8000], Count,
    Syscall NR_read [Reg 0, Ptr 0x20a78000, Imm 0x8000], Count,
    Syscall NR_read [Reg 0, Ptr 0x20a80000, Imm 0x8000], Count,
    Syscall NR_read [Reg 0, Ptr 0x20a88000, Imm 0x8000], Count,
    Syscall NR_read [Reg 0, Ptr 0x20a90000, Imm 0x8000], Count,
    Syscall NR_read [Reg 0, Ptr 0x20a98000, Imm 0x8000], Count,
    Syscall NR_read [Reg 0, Ptr 0x20aa0000, Imm 0x8000], Count,
    Syscall NR_read [Reg 0, Ptr 0x20aa8000, Imm 0x8000], Count,
    Syscall NR_read [Reg 0, Ptr 0x20ab0000, Imm 0x8000], Count,
    Syscall NR_read [Reg 0, Ptr 0x20ab8000, Imm 0x8000], Count,
    Syscall NR_read [Reg 0, Ptr 0x20ac0000, Imm 0x8000], Count,
    Syscall NR_read [Reg 0, Ptr 0x20ac8000, Imm 0x8000], Count,
    Syscall NR_read [Reg 0, Ptr 0x20ad0000, Imm 0x8000], Count,
    Syscall NR_read [Reg 0, Ptr 0x20ad8000, Imm 0x8000], Count]"

definition min_rocks_read_fcntl_0_0_body99 :: "stmt list" where
  "min_rocks_read_fcntl_0_0_body99 = [
    Syscall NR_read [Reg 0, Ptr 0x20ae0000, Imm 0x8000], Count,
    Syscall NR_read [Reg 0, Ptr 0x20ae8000, Imm 0x8000], Count,
    Syscall NR_read [Reg 0, Ptr 0x20af0000, Imm 0x8000], Count,
    Syscall NR_read [Reg 0, Ptr 0x20af8000, Imm 0x8000], Count,
    Syscall NR_read [Reg 0, Ptr 0x20b00000, Imm 0x8000], Count,
    Syscall NR_read [Reg 0, Ptr 0x20b08000, Imm 0x8000], Count,
    Syscall NR_read [Reg 0, Ptr 0x20b10000, Imm 0x8000], Count,
    Syscall NR_read [Reg 0, Ptr 0x20b18000, Imm 0x8000], Count,
    Syscall NR_read [Reg 0, Ptr 0x20b20000, Imm 0x8000], Count,
    Syscall NR_read [Reg 0, Ptr 0x20b28000, Imm 0x8000], Count,
    Syscall NR_read [Reg 0, Ptr 0x20b30000, Imm 0x8000], Count,
    Syscall NR_read [Reg 0, Ptr 0x20b38000, Imm 0x8000], Count,
    Syscall NR_read [Reg 0, Ptr 0x20b40000, Imm 0x8000], Count,
    Syscall NR_read [Reg 0, Ptr 0x20b48000, Imm 0x8000], Count]"

definition min_rocks_read_fcntl_0_0_body100 :: "stmt list" where
  "min_rocks_read_fcntl_0_0_body100 = [
    Syscall NR_read [Reg 0, Ptr 0x20b50000, Imm 0x8000], Count,
    Syscall NR_read [Reg 0, Ptr 0x20b58000, Imm 0x8000], Count,
    Syscall NR_read [Reg 0, Ptr 0x20b60000, Imm 0x8000], Count,
    Syscall NR_read [Reg 0, Ptr 0x20b68000, Imm 0x8000], Count,
    Syscall NR_read [Reg 0, Ptr 0x20b70000, Imm 0x8000], Count,
    Syscall NR_read [Reg 0, Ptr 0x20b78000, Imm 0x8000], Count,
    Syscall NR_read [Reg 0, Ptr 0x20b80000, Imm 0x8000], Count,
    Syscall NR_read [Reg 0, Ptr 0x20b88000, Imm 0x8000], Count,
    Syscall NR_read [Reg 0, Ptr 0x20b90000, Imm 0x8000], Count,
    Syscall NR_read [Reg 0, Ptr 0x20b98000, Imm 0x8000], Count,
    Syscall NR_read [Reg 0, Ptr 0x20ba0000, Imm 0x8000], Count,
    Syscall NR_read [Reg 0, Ptr 0x20ba8000, Imm 0x8000], Count,
    Syscall NR_read [Reg 0, Ptr 0x20bb0000, Imm 0x8000], Count,
    Syscall NR_read [Reg 0, Ptr 0x20bb8000, Imm 0x8000], Count]"

definition min_rocks_read_fcntl_0_0_body101 :: "stmt list" where
  "min_rocks_read_fcntl_0_0_body101 = [
    Syscall NR_read [Reg 0, Ptr 0x20bc0000, Imm 0x8000], Count,
    Syscall NR_read [Reg 0, Ptr 0x20bc8000, Imm 0x8000], Count,
    Syscall NR_read [Reg 0, Ptr 0x20bd0000, Imm 0x8000], Count,
    Syscall NR_read [Reg 0, Ptr 0x20bd8000, Imm 0x8000], Count,
    Syscall NR_read [Reg 0, Ptr 0x20be0000, Imm 0x8000], Count,
    Syscall NR_read [Reg 0, Ptr 0x20be8000, Imm 0x8000], Count,
    Syscall NR_read [Reg 0, Ptr 0x20bf0000, Imm 0x8000], Count,
    Syscall NR_read [Reg 0, Ptr 0x20bf8000, Imm 0x8000], Count,
    Syscall NR_read [Reg 0, Ptr 0x20c00000, Imm 0x8000], Count,
    Syscall NR_read [Reg 0, Ptr 0x20c08000, Imm 0x8000], Count,
    Syscall NR_read [Reg 0, Ptr 0x20c10000, Imm 0x8000], Count,
    Syscall NR_read [Reg 0, Ptr 0x20c18000, Imm 0x8000], Count,
    Syscall NR_read [Reg 0, Ptr 0x20c20000, Imm 0x8000], Count,
    Syscall NR_read [Reg 0, Ptr 0x20c28000, Imm 0x8000], Count]"

definition min_rocks_read_fcntl_0_0_body102 :: "stmt list" where
  "min_rocks_read_fcntl_0_0_body102 = [
    Syscall NR_read [Reg 0, Ptr 0x20c30000, Imm 0x8000], Count,
    Syscall NR_read [Reg 0, Ptr 0x20c38000, Imm 0x8000], Count,
    Syscall NR_read [Reg 0, Ptr 0x20c40000, Imm 0x8000], Count,
    Syscall NR_read [Reg 0, Ptr 0x20c48000, Imm 0x8000], Count,
    Syscall NR_read [Reg 0, Ptr 0x20c50000, Imm 0x8000], Count,
    Syscall NR_read [Reg 0, Ptr 0x20c58000, Imm 0x8000], Count,
    Syscall NR_read [Reg 0, Ptr 0x20c60000, Imm 0x8000], Count,
    Syscall NR_read [Reg 0, Ptr 0x20c68000, Imm 0x8000], Count,
    Syscall NR_read [Reg 0, Ptr 0x20c70000, Imm 0x8000], Count,
    Syscall NR_read [Reg 0, Ptr 0x20c78000, Imm 0x8000], Count,
    Syscall NR_read [Reg 0, Ptr 0x20c80000, Imm 0x8000], Count,
    Syscall NR_read [Reg 0, Ptr 0x20c84a00, Imm 0x3000], Count]"

definition min_rocks_read_fcntl_0_0_body103 :: "stmt list" where
  "min_rocks_read_fcntl_0_0_body103 = [
    Memcpy 0x20c84a40 (with_nul ''./tmp/rocksdb_db/000028.log'') 28,
    Syscall NR_newfstatat [Dir_fd, Ptr 0x20c84a40, Ptr 0x20c84a80, Imm 0], Count, Syscall NR_close [Reg 0],
    Count, Memcpy 0x20d32bc0 (with_nul ''./tmp/rocksdb_db/000028.log'') 28,
    Syscall NR_newfstatat [Dir_fd, Ptr 0x20d32bc0, Ptr 0x20d32c00, Imm 0], Count,
    Memcpy 0x20d32c80 (with_nul ''./tmp/rocksdb_db/000028.log'') 28,
    Syscall NR_openat [Dir_fd, Ptr 0x20d32c80, Imm 0x80441, Imm 0x1ff], Count, Save_res 1,
    Syscall NR_fcntl [Reg 1, Imm 1, Imm 0], Count, Syscall NR_fcntl [Reg 1, Imm 2, Imm 1], Count,
    Syscall NR_fstatfs [Reg 1, Ptr 0x20d32d80], Count, Syscall NR_sync_file_range [Reg 1, Imm 0, Imm 0, Imm 0],
    Count, Syscall NR_ftruncate [Reg 1, Imm 0x2c449da], Count, Syscall NR_close [Reg 1], Count,
    Memcpy 0x20d38180 (with_nul ''./tmp/rocksdb_db/000028.log'') 28,
    Syscall NR_unlinkat [Dir_fd, Ptr 0x20d38180, Imm 0], Count]"

definition min_rocks_read_fcntl_0_0 :: syz_prog where
  "min_rocks_read_fcntl_0_0 = \<lparr>prog_name = ''min_rocks_read_fcntl_0_0'', prog_family = Rocksdb,
     subdirs = [''tmp/rocksdb_db''],
     filenames = [''./tmp/rocksdb_db/000028.lo''], filesizes = [0],
     max_write_buffer = 0, init_regs = replicate 2 (- 1),
     reg_body = [], dereg_body = [],
     body = min_rocks_read_fcntl_0_0_body1 @ min_rocks_read_fcntl_0_0_body2 @ min_rocks_read_fcntl_0_0_body3 @
       min_rocks_read_fcntl_0_0_body4 @ min_rocks_read_fcntl_0_0_body5 @ min_rocks_read_fcntl_0_0_body6 @
       min_rocks_read_fcntl_0_0_body7 @ min_rocks_read_fcntl_0_0_body8 @ min_rocks_read_fcntl_0_0_body9 @
       min_rocks_read_fcntl_0_0_body10 @ min_rocks_read_fcntl_0_0_body11 @ min_rocks_read_fcntl_0_0_body12 @
       min_rocks_read_fcntl_0_0_body13 @ min_rocks_read_fcntl_0_0_body14 @ min_rocks_read_fcntl_0_0_body15 @
       min_rocks_read_fcntl_0_0_body16 @ min_rocks_read_fcntl_0_0_body17 @ min_rocks_read_fcntl_0_0_body18 @
       min_rocks_read_fcntl_0_0_body19 @ min_rocks_read_fcntl_0_0_body20 @ min_rocks_read_fcntl_0_0_body21 @
       min_rocks_read_fcntl_0_0_body22 @ min_rocks_read_fcntl_0_0_body23 @ min_rocks_read_fcntl_0_0_body24 @
       min_rocks_read_fcntl_0_0_body25 @ min_rocks_read_fcntl_0_0_body26 @ min_rocks_read_fcntl_0_0_body27 @
       min_rocks_read_fcntl_0_0_body28 @ min_rocks_read_fcntl_0_0_body29 @ min_rocks_read_fcntl_0_0_body30 @
       min_rocks_read_fcntl_0_0_body31 @ min_rocks_read_fcntl_0_0_body32 @ min_rocks_read_fcntl_0_0_body33 @
       min_rocks_read_fcntl_0_0_body34 @ min_rocks_read_fcntl_0_0_body35 @ min_rocks_read_fcntl_0_0_body36 @
       min_rocks_read_fcntl_0_0_body37 @ min_rocks_read_fcntl_0_0_body38 @ min_rocks_read_fcntl_0_0_body39 @
       min_rocks_read_fcntl_0_0_body40 @ min_rocks_read_fcntl_0_0_body41 @ min_rocks_read_fcntl_0_0_body42 @
       min_rocks_read_fcntl_0_0_body43 @ min_rocks_read_fcntl_0_0_body44 @ min_rocks_read_fcntl_0_0_body45 @
       min_rocks_read_fcntl_0_0_body46 @ min_rocks_read_fcntl_0_0_body47 @ min_rocks_read_fcntl_0_0_body48 @
       min_rocks_read_fcntl_0_0_body49 @ min_rocks_read_fcntl_0_0_body50 @ min_rocks_read_fcntl_0_0_body51 @
       min_rocks_read_fcntl_0_0_body52 @ min_rocks_read_fcntl_0_0_body53 @ min_rocks_read_fcntl_0_0_body54 @
       min_rocks_read_fcntl_0_0_body55 @ min_rocks_read_fcntl_0_0_body56 @ min_rocks_read_fcntl_0_0_body57 @
       min_rocks_read_fcntl_0_0_body58 @ min_rocks_read_fcntl_0_0_body59 @ min_rocks_read_fcntl_0_0_body60 @
       min_rocks_read_fcntl_0_0_body61 @ min_rocks_read_fcntl_0_0_body62 @ min_rocks_read_fcntl_0_0_body63 @
       min_rocks_read_fcntl_0_0_body64 @ min_rocks_read_fcntl_0_0_body65 @ min_rocks_read_fcntl_0_0_body66 @
       min_rocks_read_fcntl_0_0_body67 @ min_rocks_read_fcntl_0_0_body68 @ min_rocks_read_fcntl_0_0_body69 @
       min_rocks_read_fcntl_0_0_body70 @ min_rocks_read_fcntl_0_0_body71 @ min_rocks_read_fcntl_0_0_body72 @
       min_rocks_read_fcntl_0_0_body73 @ min_rocks_read_fcntl_0_0_body74 @ min_rocks_read_fcntl_0_0_body75 @
       min_rocks_read_fcntl_0_0_body76 @ min_rocks_read_fcntl_0_0_body77 @ min_rocks_read_fcntl_0_0_body78 @
       min_rocks_read_fcntl_0_0_body79 @ min_rocks_read_fcntl_0_0_body80 @ min_rocks_read_fcntl_0_0_body81 @
       min_rocks_read_fcntl_0_0_body82 @ min_rocks_read_fcntl_0_0_body83 @ min_rocks_read_fcntl_0_0_body84 @
       min_rocks_read_fcntl_0_0_body85 @ min_rocks_read_fcntl_0_0_body86 @ min_rocks_read_fcntl_0_0_body87 @
       min_rocks_read_fcntl_0_0_body88 @ min_rocks_read_fcntl_0_0_body89 @ min_rocks_read_fcntl_0_0_body90 @
       min_rocks_read_fcntl_0_0_body91 @ min_rocks_read_fcntl_0_0_body92 @ min_rocks_read_fcntl_0_0_body93 @
       min_rocks_read_fcntl_0_0_body94 @ min_rocks_read_fcntl_0_0_body95 @ min_rocks_read_fcntl_0_0_body96 @
       min_rocks_read_fcntl_0_0_body97 @ min_rocks_read_fcntl_0_0_body98 @ min_rocks_read_fcntl_0_0_body99 @
       min_rocks_read_fcntl_0_0_body100 @ min_rocks_read_fcntl_0_0_body101 @
       min_rocks_read_fcntl_0_0_body102 @ min_rocks_read_fcntl_0_0_body103\<rparr>"

definition min_rocks_read_fcntl_0_0_target where
  "min_rocks_read_fcntl_0_0_target os_getenv os_inet_pton K = syz_target os_getenv os_inet_pton K min_rocks_read_fcntl_0_0"

lemma min_rocks_read_fcntl_0_0_body1_ok: "body_ok 2 0 min_rocks_read_fcntl_0_0_body1" "counted min_rocks_read_fcntl_0_0_body1" "calls min_rocks_read_fcntl_0_0_body1 = 11" "opened_in m min_rocks_read_fcntl_0_0_body1 = [Some ''./tmp/rocksdb_db/000028.log'']"
  by (simp_all add: min_rocks_read_fcntl_0_0_body1_def prog_checks open_checks)

lemma min_rocks_read_fcntl_0_0_body2_ok: "body_ok 2 0 min_rocks_read_fcntl_0_0_body2" "counted min_rocks_read_fcntl_0_0_body2" "calls min_rocks_read_fcntl_0_0_body2 = 14" "opened_in m min_rocks_read_fcntl_0_0_body2 = []"
  by (simp_all add: min_rocks_read_fcntl_0_0_body2_def prog_checks open_checks)

lemma min_rocks_read_fcntl_0_0_body3_ok: "body_ok 2 0 min_rocks_read_fcntl_0_0_body3" "counted min_rocks_read_fcntl_0_0_body3" "calls min_rocks_read_fcntl_0_0_body3 = 14" "opened_in m min_rocks_read_fcntl_0_0_body3 = []"
  by (simp_all add: min_rocks_read_fcntl_0_0_body3_def prog_checks open_checks)

lemma min_rocks_read_fcntl_0_0_body4_ok: "body_ok 2 0 min_rocks_read_fcntl_0_0_body4" "counted min_rocks_read_fcntl_0_0_body4" "calls min_rocks_read_fcntl_0_0_body4 = 14" "opened_in m min_rocks_read_fcntl_0_0_body4 = []"
  by (simp_all add: min_rocks_read_fcntl_0_0_body4_def prog_checks open_checks)

lemma min_rocks_read_fcntl_0_0_body5_ok: "body_ok 2 0 min_rocks_read_fcntl_0_0_body5" "counted min_rocks_read_fcntl_0_0_body5" "calls min_rocks_read_fcntl_0_0_body5 = 14" "opened_in m min_rocks_read_fcntl_0_0_body5 = []"
  by (simp_all add: min_rocks_read_fcntl_0_0_body5_def prog_checks open_checks)

lemma min_rocks_read_fcntl_0_0_body6_ok: "body_ok 2 0 min_rocks_read_fcntl_0_0_body6" "counted min_rocks_read_fcntl_0_0_body6" "calls min_rocks_read_fcntl_0_0_body6 = 14" "opened_in m min_rocks_read_fcntl_0_0_body6 = []"
  by (simp_all add: min_rocks_read_fcntl_0_0_body6_def prog_checks open_checks)

lemma min_rocks_read_fcntl_0_0_body7_ok: "body_ok 2 0 min_rocks_read_fcntl_0_0_body7" "counted min_rocks_read_fcntl_0_0_body7" "calls min_rocks_read_fcntl_0_0_body7 = 14" "opened_in m min_rocks_read_fcntl_0_0_body7 = []"
  by (simp_all add: min_rocks_read_fcntl_0_0_body7_def prog_checks open_checks)

lemma min_rocks_read_fcntl_0_0_body8_ok: "body_ok 2 0 min_rocks_read_fcntl_0_0_body8" "counted min_rocks_read_fcntl_0_0_body8" "calls min_rocks_read_fcntl_0_0_body8 = 14" "opened_in m min_rocks_read_fcntl_0_0_body8 = []"
  by (simp_all add: min_rocks_read_fcntl_0_0_body8_def prog_checks open_checks)

lemma min_rocks_read_fcntl_0_0_body9_ok: "body_ok 2 0 min_rocks_read_fcntl_0_0_body9" "counted min_rocks_read_fcntl_0_0_body9" "calls min_rocks_read_fcntl_0_0_body9 = 14" "opened_in m min_rocks_read_fcntl_0_0_body9 = []"
  by (simp_all add: min_rocks_read_fcntl_0_0_body9_def prog_checks open_checks)

lemma min_rocks_read_fcntl_0_0_body10_ok: "body_ok 2 0 min_rocks_read_fcntl_0_0_body10" "counted min_rocks_read_fcntl_0_0_body10" "calls min_rocks_read_fcntl_0_0_body10 = 14" "opened_in m min_rocks_read_fcntl_0_0_body10 = []"
  by (simp_all add: min_rocks_read_fcntl_0_0_body10_def prog_checks open_checks)

lemma min_rocks_read_fcntl_0_0_body11_ok: "body_ok 2 0 min_rocks_read_fcntl_0_0_body11" "counted min_rocks_read_fcntl_0_0_body11" "calls min_rocks_read_fcntl_0_0_body11 = 14" "opened_in m min_rocks_read_fcntl_0_0_body11 = []"
  by (simp_all add: min_rocks_read_fcntl_0_0_body11_def prog_checks open_checks)

lemma min_rocks_read_fcntl_0_0_body12_ok: "body_ok 2 0 min_rocks_read_fcntl_0_0_body12" "counted min_rocks_read_fcntl_0_0_body12" "calls min_rocks_read_fcntl_0_0_body12 = 14" "opened_in m min_rocks_read_fcntl_0_0_body12 = []"
  by (simp_all add: min_rocks_read_fcntl_0_0_body12_def prog_checks open_checks)

lemma min_rocks_read_fcntl_0_0_body13_ok: "body_ok 2 0 min_rocks_read_fcntl_0_0_body13" "counted min_rocks_read_fcntl_0_0_body13" "calls min_rocks_read_fcntl_0_0_body13 = 14" "opened_in m min_rocks_read_fcntl_0_0_body13 = []"
  by (simp_all add: min_rocks_read_fcntl_0_0_body13_def prog_checks open_checks)

lemma min_rocks_read_fcntl_0_0_body14_ok: "body_ok 2 0 min_rocks_read_fcntl_0_0_body14" "counted min_rocks_read_fcntl_0_0_body14" "calls min_rocks_read_fcntl_0_0_body14 = 14" "opened_in m min_rocks_read_fcntl_0_0_body14 = []"
  by (simp_all add: min_rocks_read_fcntl_0_0_body14_def prog_checks open_checks)

lemma min_rocks_read_fcntl_0_0_body15_ok: "body_ok 2 0 min_rocks_read_fcntl_0_0_body15" "counted min_rocks_read_fcntl_0_0_body15" "calls min_rocks_read_fcntl_0_0_body15 = 14" "opened_in m min_rocks_read_fcntl_0_0_body15 = []"
  by (simp_all add: min_rocks_read_fcntl_0_0_body15_def prog_checks open_checks)

lemma min_rocks_read_fcntl_0_0_body16_ok: "body_ok 2 0 min_rocks_read_fcntl_0_0_body16" "counted min_rocks_read_fcntl_0_0_body16" "calls min_rocks_read_fcntl_0_0_body16 = 14" "opened_in m min_rocks_read_fcntl_0_0_body16 = []"
  by (simp_all add: min_rocks_read_fcntl_0_0_body16_def prog_checks open_checks)

lemma min_rocks_read_fcntl_0_0_body17_ok: "body_ok 2 0 min_rocks_read_fcntl_0_0_body17" "counted min_rocks_read_fcntl_0_0_body17" "calls min_rocks_read_fcntl_0_0_body17 = 14" "opened_in m min_rocks_read_fcntl_0_0_body17 = []"
  by (simp_all add: min_rocks_read_fcntl_0_0_body17_def prog_checks open_checks)

lemma min_rocks_read_fcntl_0_0_body18_ok: "body_ok 2 0 min_rocks_read_fcntl_0_0_body18" "counted min_rocks_read_fcntl_0_0_body18" "calls min_rocks_read_fcntl_0_0_body18 = 14" "opened_in m min_rocks_read_fcntl_0_0_body18 = []"
  by (simp_all add: min_rocks_read_fcntl_0_0_body18_def prog_checks open_checks)

lemma min_rocks_read_fcntl_0_0_body19_ok: "body_ok 2 0 min_rocks_read_fcntl_0_0_body19" "counted min_rocks_read_fcntl_0_0_body19" "calls min_rocks_read_fcntl_0_0_body19 = 14" "opened_in m min_rocks_read_fcntl_0_0_body19 = []"
  by (simp_all add: min_rocks_read_fcntl_0_0_body19_def prog_checks open_checks)

lemma min_rocks_read_fcntl_0_0_body20_ok: "body_ok 2 0 min_rocks_read_fcntl_0_0_body20" "counted min_rocks_read_fcntl_0_0_body20" "calls min_rocks_read_fcntl_0_0_body20 = 14" "opened_in m min_rocks_read_fcntl_0_0_body20 = []"
  by (simp_all add: min_rocks_read_fcntl_0_0_body20_def prog_checks open_checks)

lemma min_rocks_read_fcntl_0_0_body21_ok: "body_ok 2 0 min_rocks_read_fcntl_0_0_body21" "counted min_rocks_read_fcntl_0_0_body21" "calls min_rocks_read_fcntl_0_0_body21 = 14" "opened_in m min_rocks_read_fcntl_0_0_body21 = []"
  by (simp_all add: min_rocks_read_fcntl_0_0_body21_def prog_checks open_checks)

lemma min_rocks_read_fcntl_0_0_body22_ok: "body_ok 2 0 min_rocks_read_fcntl_0_0_body22" "counted min_rocks_read_fcntl_0_0_body22" "calls min_rocks_read_fcntl_0_0_body22 = 14" "opened_in m min_rocks_read_fcntl_0_0_body22 = []"
  by (simp_all add: min_rocks_read_fcntl_0_0_body22_def prog_checks open_checks)

lemma min_rocks_read_fcntl_0_0_body23_ok: "body_ok 2 0 min_rocks_read_fcntl_0_0_body23" "counted min_rocks_read_fcntl_0_0_body23" "calls min_rocks_read_fcntl_0_0_body23 = 14" "opened_in m min_rocks_read_fcntl_0_0_body23 = []"
  by (simp_all add: min_rocks_read_fcntl_0_0_body23_def prog_checks open_checks)

lemma min_rocks_read_fcntl_0_0_body24_ok: "body_ok 2 0 min_rocks_read_fcntl_0_0_body24" "counted min_rocks_read_fcntl_0_0_body24" "calls min_rocks_read_fcntl_0_0_body24 = 14" "opened_in m min_rocks_read_fcntl_0_0_body24 = []"
  by (simp_all add: min_rocks_read_fcntl_0_0_body24_def prog_checks open_checks)

lemma min_rocks_read_fcntl_0_0_body25_ok: "body_ok 2 0 min_rocks_read_fcntl_0_0_body25" "counted min_rocks_read_fcntl_0_0_body25" "calls min_rocks_read_fcntl_0_0_body25 = 14" "opened_in m min_rocks_read_fcntl_0_0_body25 = []"
  by (simp_all add: min_rocks_read_fcntl_0_0_body25_def prog_checks open_checks)

lemma min_rocks_read_fcntl_0_0_body26_ok: "body_ok 2 0 min_rocks_read_fcntl_0_0_body26" "counted min_rocks_read_fcntl_0_0_body26" "calls min_rocks_read_fcntl_0_0_body26 = 14" "opened_in m min_rocks_read_fcntl_0_0_body26 = []"
  by (simp_all add: min_rocks_read_fcntl_0_0_body26_def prog_checks open_checks)

lemma min_rocks_read_fcntl_0_0_body27_ok: "body_ok 2 0 min_rocks_read_fcntl_0_0_body27" "counted min_rocks_read_fcntl_0_0_body27" "calls min_rocks_read_fcntl_0_0_body27 = 14" "opened_in m min_rocks_read_fcntl_0_0_body27 = []"
  by (simp_all add: min_rocks_read_fcntl_0_0_body27_def prog_checks open_checks)

lemma min_rocks_read_fcntl_0_0_body28_ok: "body_ok 2 0 min_rocks_read_fcntl_0_0_body28" "counted min_rocks_read_fcntl_0_0_body28" "calls min_rocks_read_fcntl_0_0_body28 = 14" "opened_in m min_rocks_read_fcntl_0_0_body28 = []"
  by (simp_all add: min_rocks_read_fcntl_0_0_body28_def prog_checks open_checks)

lemma min_rocks_read_fcntl_0_0_body29_ok: "body_ok 2 0 min_rocks_read_fcntl_0_0_body29" "counted min_rocks_read_fcntl_0_0_body29" "calls min_rocks_read_fcntl_0_0_body29 = 14" "opened_in m min_rocks_read_fcntl_0_0_body29 = []"
  by (simp_all add: min_rocks_read_fcntl_0_0_body29_def prog_checks open_checks)

lemma min_rocks_read_fcntl_0_0_body30_ok: "body_ok 2 0 min_rocks_read_fcntl_0_0_body30" "counted min_rocks_read_fcntl_0_0_body30" "calls min_rocks_read_fcntl_0_0_body30 = 14" "opened_in m min_rocks_read_fcntl_0_0_body30 = []"
  by (simp_all add: min_rocks_read_fcntl_0_0_body30_def prog_checks open_checks)

lemma min_rocks_read_fcntl_0_0_body31_ok: "body_ok 2 0 min_rocks_read_fcntl_0_0_body31" "counted min_rocks_read_fcntl_0_0_body31" "calls min_rocks_read_fcntl_0_0_body31 = 14" "opened_in m min_rocks_read_fcntl_0_0_body31 = []"
  by (simp_all add: min_rocks_read_fcntl_0_0_body31_def prog_checks open_checks)

lemma min_rocks_read_fcntl_0_0_body32_ok: "body_ok 2 0 min_rocks_read_fcntl_0_0_body32" "counted min_rocks_read_fcntl_0_0_body32" "calls min_rocks_read_fcntl_0_0_body32 = 14" "opened_in m min_rocks_read_fcntl_0_0_body32 = []"
  by (simp_all add: min_rocks_read_fcntl_0_0_body32_def prog_checks open_checks)

lemma min_rocks_read_fcntl_0_0_body33_ok: "body_ok 2 0 min_rocks_read_fcntl_0_0_body33" "counted min_rocks_read_fcntl_0_0_body33" "calls min_rocks_read_fcntl_0_0_body33 = 14" "opened_in m min_rocks_read_fcntl_0_0_body33 = []"
  by (simp_all add: min_rocks_read_fcntl_0_0_body33_def prog_checks open_checks)

lemma min_rocks_read_fcntl_0_0_body34_ok: "body_ok 2 0 min_rocks_read_fcntl_0_0_body34" "counted min_rocks_read_fcntl_0_0_body34" "calls min_rocks_read_fcntl_0_0_body34 = 14" "opened_in m min_rocks_read_fcntl_0_0_body34 = []"
  by (simp_all add: min_rocks_read_fcntl_0_0_body34_def prog_checks open_checks)

lemma min_rocks_read_fcntl_0_0_body35_ok: "body_ok 2 0 min_rocks_read_fcntl_0_0_body35" "counted min_rocks_read_fcntl_0_0_body35" "calls min_rocks_read_fcntl_0_0_body35 = 14" "opened_in m min_rocks_read_fcntl_0_0_body35 = []"
  by (simp_all add: min_rocks_read_fcntl_0_0_body35_def prog_checks open_checks)

lemma min_rocks_read_fcntl_0_0_body36_ok: "body_ok 2 0 min_rocks_read_fcntl_0_0_body36" "counted min_rocks_read_fcntl_0_0_body36" "calls min_rocks_read_fcntl_0_0_body36 = 14" "opened_in m min_rocks_read_fcntl_0_0_body36 = []"
  by (simp_all add: min_rocks_read_fcntl_0_0_body36_def prog_checks open_checks)

lemma min_rocks_read_fcntl_0_0_body37_ok: "body_ok 2 0 min_rocks_read_fcntl_0_0_body37" "counted min_rocks_read_fcntl_0_0_body37" "calls min_rocks_read_fcntl_0_0_body37 = 14" "opened_in m min_rocks_read_fcntl_0_0_body37 = []"
  by (simp_all add: min_rocks_read_fcntl_0_0_body37_def prog_checks open_checks)

lemma min_rocks_read_fcntl_0_0_body38_ok: "body_ok 2 0 min_rocks_read_fcntl_0_0_body38" "counted min_rocks_read_fcntl_0_0_body38" "calls min_rocks_read_fcntl_0_0_body38 = 14" "opened_in m min_rocks_read_fcntl_0_0_body38 = []"
  by (simp_all add: min_rocks_read_fcntl_0_0_body38_def prog_checks open_checks)

lemma min_rocks_read_fcntl_0_0_body39_ok: "body_ok 2 0 min_rocks_read_fcntl_0_0_body39" "counted min_rocks_read_fcntl_0_0_body39" "calls min_rocks_read_fcntl_0_0_body39 = 14" "opened_in m min_rocks_read_fcntl_0_0_body39 = []"
  by (simp_all add: min_rocks_read_fcntl_0_0_body39_def prog_checks open_checks)

lemma min_rocks_read_fcntl_0_0_body40_ok: "body_ok 2 0 min_rocks_read_fcntl_0_0_body40" "counted min_rocks_read_fcntl_0_0_body40" "calls min_rocks_read_fcntl_0_0_body40 = 14" "opened_in m min_rocks_read_fcntl_0_0_body40 = []"
  by (simp_all add: min_rocks_read_fcntl_0_0_body40_def prog_checks open_checks)

lemma min_rocks_read_fcntl_0_0_body41_ok: "body_ok 2 0 min_rocks_read_fcntl_0_0_body41" "counted min_rocks_read_fcntl_0_0_body41" "calls min_rocks_read_fcntl_0_0_body41 = 14" "opened_in m min_rocks_read_fcntl_0_0_body41 = []"
  by (simp_all add: min_rocks_read_fcntl_0_0_body41_def prog_checks open_checks)

lemma min_rocks_read_fcntl_0_0_body42_ok: "body_ok 2 0 min_rocks_read_fcntl_0_0_body42" "counted min_rocks_read_fcntl_0_0_body42" "calls min_rocks_read_fcntl_0_0_body42 = 14" "opened_in m min_rocks_read_fcntl_0_0_body42 = []"
  by (simp_all add: min_rocks_read_fcntl_0_0_body42_def prog_checks open_checks)

lemma min_rocks_read_fcntl_0_0_body43_ok: "body_ok 2 0 min_rocks_read_fcntl_0_0_body43" "counted min_rocks_read_fcntl_0_0_body43" "calls min_rocks_read_fcntl_0_0_body43 = 14" "opened_in m min_rocks_read_fcntl_0_0_body43 = []"
  by (simp_all add: min_rocks_read_fcntl_0_0_body43_def prog_checks open_checks)

lemma min_rocks_read_fcntl_0_0_body44_ok: "body_ok 2 0 min_rocks_read_fcntl_0_0_body44" "counted min_rocks_read_fcntl_0_0_body44" "calls min_rocks_read_fcntl_0_0_body44 = 14" "opened_in m min_rocks_read_fcntl_0_0_body44 = []"
  by (simp_all add: min_rocks_read_fcntl_0_0_body44_def prog_checks open_checks)

lemma min_rocks_read_fcntl_0_0_body45_ok: "body_ok 2 0 min_rocks_read_fcntl_0_0_body45" "counted min_rocks_read_fcntl_0_0_body45" "calls min_rocks_read_fcntl_0_0_body45 = 14" "opened_in m min_rocks_read_fcntl_0_0_body45 = []"
  by (simp_all add: min_rocks_read_fcntl_0_0_body45_def prog_checks open_checks)

lemma min_rocks_read_fcntl_0_0_body46_ok: "body_ok 2 0 min_rocks_read_fcntl_0_0_body46" "counted min_rocks_read_fcntl_0_0_body46" "calls min_rocks_read_fcntl_0_0_body46 = 14" "opened_in m min_rocks_read_fcntl_0_0_body46 = []"
  by (simp_all add: min_rocks_read_fcntl_0_0_body46_def prog_checks open_checks)

lemma min_rocks_read_fcntl_0_0_body47_ok: "body_ok 2 0 min_rocks_read_fcntl_0_0_body47" "counted min_rocks_read_fcntl_0_0_body47" "calls min_rocks_read_fcntl_0_0_body47 = 14" "opened_in m min_rocks_read_fcntl_0_0_body47 = []"
  by (simp_all add: min_rocks_read_fcntl_0_0_body47_def prog_checks open_checks)

lemma min_rocks_read_fcntl_0_0_body48_ok: "body_ok 2 0 min_rocks_read_fcntl_0_0_body48" "counted min_rocks_read_fcntl_0_0_body48" "calls min_rocks_read_fcntl_0_0_body48 = 14" "opened_in m min_rocks_read_fcntl_0_0_body48 = []"
  by (simp_all add: min_rocks_read_fcntl_0_0_body48_def prog_checks open_checks)

lemma min_rocks_read_fcntl_0_0_body49_ok: "body_ok 2 0 min_rocks_read_fcntl_0_0_body49" "counted min_rocks_read_fcntl_0_0_body49" "calls min_rocks_read_fcntl_0_0_body49 = 14" "opened_in m min_rocks_read_fcntl_0_0_body49 = []"
  by (simp_all add: min_rocks_read_fcntl_0_0_body49_def prog_checks open_checks)

lemma min_rocks_read_fcntl_0_0_body50_ok: "body_ok 2 0 min_rocks_read_fcntl_0_0_body50" "counted min_rocks_read_fcntl_0_0_body50" "calls min_rocks_read_fcntl_0_0_body50 = 14" "opened_in m min_rocks_read_fcntl_0_0_body50 = []"
  by (simp_all add: min_rocks_read_fcntl_0_0_body50_def prog_checks open_checks)

lemma min_rocks_read_fcntl_0_0_body51_ok: "body_ok 2 0 min_rocks_read_fcntl_0_0_body51" "counted min_rocks_read_fcntl_0_0_body51" "calls min_rocks_read_fcntl_0_0_body51 = 14" "opened_in m min_rocks_read_fcntl_0_0_body51 = []"
  by (simp_all add: min_rocks_read_fcntl_0_0_body51_def prog_checks open_checks)

lemma min_rocks_read_fcntl_0_0_body52_ok: "body_ok 2 0 min_rocks_read_fcntl_0_0_body52" "counted min_rocks_read_fcntl_0_0_body52" "calls min_rocks_read_fcntl_0_0_body52 = 14" "opened_in m min_rocks_read_fcntl_0_0_body52 = []"
  by (simp_all add: min_rocks_read_fcntl_0_0_body52_def prog_checks open_checks)

lemma min_rocks_read_fcntl_0_0_body53_ok: "body_ok 2 0 min_rocks_read_fcntl_0_0_body53" "counted min_rocks_read_fcntl_0_0_body53" "calls min_rocks_read_fcntl_0_0_body53 = 14" "opened_in m min_rocks_read_fcntl_0_0_body53 = []"
  by (simp_all add: min_rocks_read_fcntl_0_0_body53_def prog_checks open_checks)

lemma min_rocks_read_fcntl_0_0_body54_ok: "body_ok 2 0 min_rocks_read_fcntl_0_0_body54" "counted min_rocks_read_fcntl_0_0_body54" "calls min_rocks_read_fcntl_0_0_body54 = 14" "opened_in m min_rocks_read_fcntl_0_0_body54 = []"
  by (simp_all add: min_rocks_read_fcntl_0_0_body54_def prog_checks open_checks)

lemma min_rocks_read_fcntl_0_0_body55_ok: "body_ok 2 0 min_rocks_read_fcntl_0_0_body55" "counted min_rocks_read_fcntl_0_0_body55" "calls min_rocks_read_fcntl_0_0_body55 = 14" "opened_in m min_rocks_read_fcntl_0_0_body55 = []"
  by (simp_all add: min_rocks_read_fcntl_0_0_body55_def prog_checks open_checks)

lemma min_rocks_read_fcntl_0_0_body56_ok: "body_ok 2 0 min_rocks_read_fcntl_0_0_body56" "counted min_rocks_read_fcntl_0_0_body56" "calls min_rocks_read_fcntl_0_0_body56 = 14" "opened_in m min_rocks_read_fcntl_0_0_body56 = []"
  by (simp_all add: min_rocks_read_fcntl_0_0_body56_def prog_checks open_checks)

lemma min_rocks_read_fcntl_0_0_body57_ok: "body_ok 2 0 min_rocks_read_fcntl_0_0_body57" "counted min_rocks_read_fcntl_0_0_body57" "calls min_rocks_read_fcntl_0_0_body57 = 14" "opened_in m min_rocks_read_fcntl_0_0_body57 = []"
  by (simp_all add: min_rocks_read_fcntl_0_0_body57_def prog_checks open_checks)

lemma min_rocks_read_fcntl_0_0_body58_ok: "body_ok 2 0 min_rocks_read_fcntl_0_0_body58" "counted min_rocks_read_fcntl_0_0_body58" "calls min_rocks_read_fcntl_0_0_body58 = 14" "opened_in m min_rocks_read_fcntl_0_0_body58 = []"
  by (simp_all add: min_rocks_read_fcntl_0_0_body58_def prog_checks open_checks)

lemma min_rocks_read_fcntl_0_0_body59_ok: "body_ok 2 0 min_rocks_read_fcntl_0_0_body59" "counted min_rocks_read_fcntl_0_0_body59" "calls min_rocks_read_fcntl_0_0_body59 = 14" "opened_in m min_rocks_read_fcntl_0_0_body59 = []"
  by (simp_all add: min_rocks_read_fcntl_0_0_body59_def prog_checks open_checks)

lemma min_rocks_read_fcntl_0_0_body60_ok: "body_ok 2 0 min_rocks_read_fcntl_0_0_body60" "counted min_rocks_read_fcntl_0_0_body60" "calls min_rocks_read_fcntl_0_0_body60 = 14" "opened_in m min_rocks_read_fcntl_0_0_body60 = []"
  by (simp_all add: min_rocks_read_fcntl_0_0_body60_def prog_checks open_checks)

lemma min_rocks_read_fcntl_0_0_body61_ok: "body_ok 2 0 min_rocks_read_fcntl_0_0_body61" "counted min_rocks_read_fcntl_0_0_body61" "calls min_rocks_read_fcntl_0_0_body61 = 14" "opened_in m min_rocks_read_fcntl_0_0_body61 = []"
  by (simp_all add: min_rocks_read_fcntl_0_0_body61_def prog_checks open_checks)

lemma min_rocks_read_fcntl_0_0_body62_ok: "body_ok 2 0 min_rocks_read_fcntl_0_0_body62" "counted min_rocks_read_fcntl_0_0_body62" "calls min_rocks_read_fcntl_0_0_body62 = 14" "opened_in m min_rocks_read_fcntl_0_0_body62 = []"
  by (simp_all add: min_rocks_read_fcntl_0_0_body62_def prog_checks open_checks)

lemma min_rocks_read_fcntl_0_0_body63_ok: "body_ok 2 0 min_rocks_read_fcntl_0_0_body63" "counted min_rocks_read_fcntl_0_0_body63" "calls min_rocks_read_fcntl_0_0_body63 = 14" "opened_in m min_rocks_read_fcntl_0_0_body63 = []"
  by (simp_all add: min_rocks_read_fcntl_0_0_body63_def prog_checks open_checks)

lemma min_rocks_read_fcntl_0_0_body64_ok: "body_ok 2 0 min_rocks_read_fcntl_0_0_body64" "counted min_rocks_read_fcntl_0_0_body64" "calls min_rocks_read_fcntl_0_0_body64 = 14" "opened_in m min_rocks_read_fcntl_0_0_body64 = []"
  by (simp_all add: min_rocks_read_fcntl_0_0_body64_def prog_checks open_checks)

lemma min_rocks_read_fcntl_0_0_body65_ok: "body_ok 2 0 min_rocks_read_fcntl_0_0_body65" "counted min_rocks_read_fcntl_0_0_body65" "calls min_rocks_read_fcntl_0_0_body65 = 14" "opened_in m min_rocks_read_fcntl_0_0_body65 = []"
  by (simp_all add: min_rocks_read_fcntl_0_0_body65_def prog_checks open_checks)

lemma min_rocks_read_fcntl_0_0_body66_ok: "body_ok 2 0 min_rocks_read_fcntl_0_0_body66" "counted min_rocks_read_fcntl_0_0_body66" "calls min_rocks_read_fcntl_0_0_body66 = 14" "opened_in m min_rocks_read_fcntl_0_0_body66 = []"
  by (simp_all add: min_rocks_read_fcntl_0_0_body66_def prog_checks open_checks)

lemma min_rocks_read_fcntl_0_0_body67_ok: "body_ok 2 0 min_rocks_read_fcntl_0_0_body67" "counted min_rocks_read_fcntl_0_0_body67" "calls min_rocks_read_fcntl_0_0_body67 = 14" "opened_in m min_rocks_read_fcntl_0_0_body67 = []"
  by (simp_all add: min_rocks_read_fcntl_0_0_body67_def prog_checks open_checks)

lemma min_rocks_read_fcntl_0_0_body68_ok: "body_ok 2 0 min_rocks_read_fcntl_0_0_body68" "counted min_rocks_read_fcntl_0_0_body68" "calls min_rocks_read_fcntl_0_0_body68 = 14" "opened_in m min_rocks_read_fcntl_0_0_body68 = []"
  by (simp_all add: min_rocks_read_fcntl_0_0_body68_def prog_checks open_checks)

lemma min_rocks_read_fcntl_0_0_body69_ok: "body_ok 2 0 min_rocks_read_fcntl_0_0_body69" "counted min_rocks_read_fcntl_0_0_body69" "calls min_rocks_read_fcntl_0_0_body69 = 14" "opened_in m min_rocks_read_fcntl_0_0_body69 = []"
  by (simp_all add: min_rocks_read_fcntl_0_0_body69_def prog_checks open_checks)

lemma min_rocks_read_fcntl_0_0_body70_ok: "body_ok 2 0 min_rocks_read_fcntl_0_0_body70" "counted min_rocks_read_fcntl_0_0_body70" "calls min_rocks_read_fcntl_0_0_body70 = 14" "opened_in m min_rocks_read_fcntl_0_0_body70 = []"
  by (simp_all add: min_rocks_read_fcntl_0_0_body70_def prog_checks open_checks)

lemma min_rocks_read_fcntl_0_0_body71_ok: "body_ok 2 0 min_rocks_read_fcntl_0_0_body71" "counted min_rocks_read_fcntl_0_0_body71" "calls min_rocks_read_fcntl_0_0_body71 = 14" "opened_in m min_rocks_read_fcntl_0_0_body71 = []"
  by (simp_all add: min_rocks_read_fcntl_0_0_body71_def prog_checks open_checks)

lemma min_rocks_read_fcntl_0_0_body72_ok: "body_ok 2 0 min_rocks_read_fcntl_0_0_body72" "counted min_rocks_read_fcntl_0_0_body72" "calls min_rocks_read_fcntl_0_0_body72 = 14" "opened_in m min_rocks_read_fcntl_0_0_body72 = []"
  by (simp_all add: min_rocks_read_fcntl_0_0_body72_def prog_checks open_checks)

lemma min_rocks_read_fcntl_0_0_body73_ok: "body_ok 2 0 min_rocks_read_fcntl_0_0_body73" "counted min_rocks_read_fcntl_0_0_body73" "calls min_rocks_read_fcntl_0_0_body73 = 14" "opened_in m min_rocks_read_fcntl_0_0_body73 = []"
  by (simp_all add: min_rocks_read_fcntl_0_0_body73_def prog_checks open_checks)

lemma min_rocks_read_fcntl_0_0_body74_ok: "body_ok 2 0 min_rocks_read_fcntl_0_0_body74" "counted min_rocks_read_fcntl_0_0_body74" "calls min_rocks_read_fcntl_0_0_body74 = 14" "opened_in m min_rocks_read_fcntl_0_0_body74 = []"
  by (simp_all add: min_rocks_read_fcntl_0_0_body74_def prog_checks open_checks)

lemma min_rocks_read_fcntl_0_0_body75_ok: "body_ok 2 0 min_rocks_read_fcntl_0_0_body75" "counted min_rocks_read_fcntl_0_0_body75" "calls min_rocks_read_fcntl_0_0_body75 = 14" "opened_in m min_rocks_read_fcntl_0_0_body75 = []"
  by (simp_all add: min_rocks_read_fcntl_0_0_body75_def prog_checks open_checks)

lemma min_rocks_read_fcntl_0_0_body76_ok: "body_ok 2 0 min_rocks_read_fcntl_0_0_body76" "counted min_rocks_read_fcntl_0_0_body76" "calls min_rocks_read_fcntl_0_0_body76 = 14" "opened_in m min_rocks_read_fcntl_0_0_body76 = []"
  by (simp_all add: min_rocks_read_fcntl_0_0_body76_def prog_checks open_checks)

lemma min_rocks_read_fcntl_0_0_body77_ok: "body_ok 2 0 min_rocks_read_fcntl_0_0_body77" "counted min_rocks_read_fcntl_0_0_body77" "calls min_rocks_read_fcntl_0_0_body77 = 14" "opened_in m min_rocks_read_fcntl_0_0_body77 = []"
  by (simp_all add: min_rocks_read_fcntl_0_0_body77_def prog_checks open_checks)

lemma min_rocks_read_fcntl_0_0_body78_ok: "body_ok 2 0 min_rocks_read_fcntl_0_0_body78" "counted min_rocks_read_fcntl_0_0_body78" "calls min_rocks_read_fcntl_0_0_body78 = 14" "opened_in m min_rocks_read_fcntl_0_0_body78 = []"
  by (simp_all add: min_rocks_read_fcntl_0_0_body78_def prog_checks open_checks)

lemma min_rocks_read_fcntl_0_0_body79_ok: "body_ok 2 0 min_rocks_read_fcntl_0_0_body79" "counted min_rocks_read_fcntl_0_0_body79" "calls min_rocks_read_fcntl_0_0_body79 = 14" "opened_in m min_rocks_read_fcntl_0_0_body79 = []"
  by (simp_all add: min_rocks_read_fcntl_0_0_body79_def prog_checks open_checks)

lemma min_rocks_read_fcntl_0_0_body80_ok: "body_ok 2 0 min_rocks_read_fcntl_0_0_body80" "counted min_rocks_read_fcntl_0_0_body80" "calls min_rocks_read_fcntl_0_0_body80 = 14" "opened_in m min_rocks_read_fcntl_0_0_body80 = []"
  by (simp_all add: min_rocks_read_fcntl_0_0_body80_def prog_checks open_checks)

lemma min_rocks_read_fcntl_0_0_body81_ok: "body_ok 2 0 min_rocks_read_fcntl_0_0_body81" "counted min_rocks_read_fcntl_0_0_body81" "calls min_rocks_read_fcntl_0_0_body81 = 14" "opened_in m min_rocks_read_fcntl_0_0_body81 = []"
  by (simp_all add: min_rocks_read_fcntl_0_0_body81_def prog_checks open_checks)

lemma min_rocks_read_fcntl_0_0_body82_ok: "body_ok 2 0 min_rocks_read_fcntl_0_0_body82" "counted min_rocks_read_fcntl_0_0_body82" "calls min_rocks_read_fcntl_0_0_body82 = 14" "opened_in m min_rocks_read_fcntl_0_0_body82 = []"
  by (simp_all add: min_rocks_read_fcntl_0_0_body82_def prog_checks open_checks)

lemma min_rocks_read_fcntl_0_0_body83_ok: "body_ok 2 0 min_rocks_read_fcntl_0_0_body83" "counted min_rocks_read_fcntl_0_0_body83" "calls min_rocks_read_fcntl_0_0_body83 = 14" "opened_in m min_rocks_read_fcntl_0_0_body83 = []"
  by (simp_all add: min_rocks_read_fcntl_0_0_body83_def prog_checks open_checks)

lemma min_rocks_read_fcntl_0_0_body84_ok: "body_ok 2 0 min_rocks_read_fcntl_0_0_body84" "counted min_rocks_read_fcntl_0_0_body84" "calls min_rocks_read_fcntl_0_0_body84 = 14" "opened_in m min_rocks_read_fcntl_0_0_body84 = []"
  by (simp_all add: min_rocks_read_fcntl_0_0_body84_def prog_checks open_checks)

lemma min_rocks_read_fcntl_0_0_body85_ok: "body_ok 2 0 min_rocks_read_fcntl_0_0_body85" "counted min_rocks_read_fcntl_0_0_body85" "calls min_rocks_read_fcntl_0_0_body85 = 14" "opened_in m min_rocks_read_fcntl_0_0_body85 = []"
  by (simp_all add: min_rocks_read_fcntl_0_0_body85_def prog_checks open_checks)

lemma min_rocks_read_fcntl_0_0_body86_ok: "body_ok 2 0 min_rocks_read_fcntl_0_0_body86" "counted min_rocks_read_fcntl_0_0_body86" "calls min_rocks_read_fcntl_0_0_body86 = 14" "opened_in m min_rocks_read_fcntl_0_0_body86 = []"
  by (simp_all add: min_rocks_read_fcntl_0_0_body86_def prog_checks open_checks)

lemma min_rocks_read_fcntl_0_0_body87_ok: "body_ok 2 0 min_rocks_read_fcntl_0_0_body87" "counted min_rocks_read_fcntl_0_0_body87" "calls min_rocks_read_fcntl_0_0_body87 = 14" "opened_in m min_rocks_read_fcntl_0_0_body87 = []"
  by (simp_all add: min_rocks_read_fcntl_0_0_body87_def prog_checks open_checks)

lemma min_rocks_read_fcntl_0_0_body88_ok: "body_ok 2 0 min_rocks_read_fcntl_0_0_body88" "counted min_rocks_read_fcntl_0_0_body88" "calls min_rocks_read_fcntl_0_0_body88 = 14" "opened_in m min_rocks_read_fcntl_0_0_body88 = []"
  by (simp_all add: min_rocks_read_fcntl_0_0_body88_def prog_checks open_checks)

lemma min_rocks_read_fcntl_0_0_body89_ok: "body_ok 2 0 min_rocks_read_fcntl_0_0_body89" "counted min_rocks_read_fcntl_0_0_body89" "calls min_rocks_read_fcntl_0_0_body89 = 14" "opened_in m min_rocks_read_fcntl_0_0_body89 = []"
  by (simp_all add: min_rocks_read_fcntl_0_0_body89_def prog_checks open_checks)

lemma min_rocks_read_fcntl_0_0_body90_ok: "body_ok 2 0 min_rocks_read_fcntl_0_0_body90" "counted min_rocks_read_fcntl_0_0_body90" "calls min_rocks_read_fcntl_0_0_body90 = 14" "opened_in m min_rocks_read_fcntl_0_0_body90 = []"
  by (simp_all add: min_rocks_read_fcntl_0_0_body90_def prog_checks open_checks)

lemma min_rocks_read_fcntl_0_0_body91_ok: "body_ok 2 0 min_rocks_read_fcntl_0_0_body91" "counted min_rocks_read_fcntl_0_0_body91" "calls min_rocks_read_fcntl_0_0_body91 = 14" "opened_in m min_rocks_read_fcntl_0_0_body91 = []"
  by (simp_all add: min_rocks_read_fcntl_0_0_body91_def prog_checks open_checks)

lemma min_rocks_read_fcntl_0_0_body92_ok: "body_ok 2 0 min_rocks_read_fcntl_0_0_body92" "counted min_rocks_read_fcntl_0_0_body92" "calls min_rocks_read_fcntl_0_0_body92 = 14" "opened_in m min_rocks_read_fcntl_0_0_body92 = []"
  by (simp_all add: min_rocks_read_fcntl_0_0_body92_def prog_checks open_checks)

lemma min_rocks_read_fcntl_0_0_body93_ok: "body_ok 2 0 min_rocks_read_fcntl_0_0_body93" "counted min_rocks_read_fcntl_0_0_body93" "calls min_rocks_read_fcntl_0_0_body93 = 14" "opened_in m min_rocks_read_fcntl_0_0_body93 = []"
  by (simp_all add: min_rocks_read_fcntl_0_0_body93_def prog_checks open_checks)

lemma min_rocks_read_fcntl_0_0_body94_ok: "body_ok 2 0 min_rocks_read_fcntl_0_0_body94" "counted min_rocks_read_fcntl_0_0_body94" "calls min_rocks_read_fcntl_0_0_body94 = 14" "opened_in m min_rocks_read_fcntl_0_0_body94 = []"
  by (simp_all add: min_rocks_read_fcntl_0_0_body94_def prog_checks open_checks)

lemma min_rocks_read_fcntl_0_0_body95_ok: "body_ok 2 0 min_rocks_read_fcntl_0_0_body95" "counted min_rocks_read_fcntl_0_0_body95" "calls min_rocks_read_fcntl_0_0_body95 = 14" "opened_in m min_rocks_read_fcntl_0_0_body95 = []"
  by (simp_all add: min_rocks_read_fcntl_0_0_body95_def prog_checks open_checks)

lemma min_rocks_read_fcntl_0_0_body96_ok: "body_ok 2 0 min_rocks_read_fcntl_0_0_body96" "counted min_rocks_read_fcntl_0_0_body96" "calls min_rocks_read_fcntl_0_0_body96 = 14" "opened_in m min_rocks_read_fcntl_0_0_body96 = []"
  by (simp_all add: min_rocks_read_fcntl_0_0_body96_def prog_checks open_checks)

lemma min_rocks_read_fcntl_0_0_body97_ok: "body_ok 2 0 min_rocks_read_fcntl_0_0_body97" "counted min_rocks_read_fcntl_0_0_body97" "calls min_rocks_read_fcntl_0_0_body97 = 14" "opened_in m min_rocks_read_fcntl_0_0_body97 = []"
  by (simp_all add: min_rocks_read_fcntl_0_0_body97_def prog_checks open_checks)

lemma min_rocks_read_fcntl_0_0_body98_ok: "body_ok 2 0 min_rocks_read_fcntl_0_0_body98" "counted min_rocks_read_fcntl_0_0_body98" "calls min_rocks_read_fcntl_0_0_body98 = 14" "opened_in m min_rocks_read_fcntl_0_0_body98 = []"
  by (simp_all add: min_rocks_read_fcntl_0_0_body98_def prog_checks open_checks)

lemma min_rocks_read_fcntl_0_0_body99_ok: "body_ok 2 0 min_rocks_read_fcntl_0_0_body99" "counted min_rocks_read_fcntl_0_0_body99" "calls min_rocks_read_fcntl_0_0_body99 = 14" "opened_in m min_rocks_read_fcntl_0_0_body99 = []"
  by (simp_all add: min_rocks_read_fcntl_0_0_body99_def prog_checks open_checks)

lemma min_rocks_read_fcntl_0_0_body100_ok: "body_ok 2 0 min_rocks_read_fcntl_0_0_body100" "counted min_rocks_read_fcntl_0_0_body100" "calls min_rocks_read_fcntl_0_0_body100 = 14" "opened_in m min_rocks_read_fcntl_0_0_body100 = []"
  by (simp_all add: min_rocks_read_fcntl_0_0_body100_def prog_checks open_checks)

lemma min_rocks_read_fcntl_0_0_body101_ok: "body_ok 2 0 min_rocks_read_fcntl_0_0_body101" "counted min_rocks_read_fcntl_0_0_body101" "calls min_rocks_read_fcntl_0_0_body101 = 14" "opened_in m min_rocks_read_fcntl_0_0_body101 = []"
  by (simp_all add: min_rocks_read_fcntl_0_0_body101_def prog_checks open_checks)

lemma min_rocks_read_fcntl_0_0_body102_ok: "body_ok 2 0 min_rocks_read_fcntl_0_0_body102" "counted min_rocks_read_fcntl_0_0_body102" "calls min_rocks_read_fcntl_0_0_body102 = 12" "opened_in m min_rocks_read_fcntl_0_0_body102 = []"
  by (simp_all add: min_rocks_read_fcntl_0_0_body102_def prog_checks open_checks)

lemma min_rocks_read_fcntl_0_0_body103_ok: "body_ok 2 0 min_rocks_read_fcntl_0_0_body103" "counted min_rocks_read_fcntl_0_0_body103" "calls min_rocks_read_fcntl_0_0_body103 = 11" "opened_in m min_rocks_read_fcntl_0_0_body103 = [Some ''./tmp/rocksdb_db/000028.log'']"
  by (simp_all add: min_rocks_read_fcntl_0_0_body103_def prog_checks open_checks)

lemmas min_rocks_read_fcntl_0_0_bodies =
  min_rocks_read_fcntl_0_0_body1_ok min_rocks_read_fcntl_0_0_body2_ok min_rocks_read_fcntl_0_0_body3_ok
  min_rocks_read_fcntl_0_0_body4_ok min_rocks_read_fcntl_0_0_body5_ok min_rocks_read_fcntl_0_0_body6_ok
  min_rocks_read_fcntl_0_0_body7_ok min_rocks_read_fcntl_0_0_body8_ok min_rocks_read_fcntl_0_0_body9_ok
  min_rocks_read_fcntl_0_0_body10_ok min_rocks_read_fcntl_0_0_body11_ok min_rocks_read_fcntl_0_0_body12_ok
  min_rocks_read_fcntl_0_0_body13_ok min_rocks_read_fcntl_0_0_body14_ok min_rocks_read_fcntl_0_0_body15_ok
  min_rocks_read_fcntl_0_0_body16_ok min_rocks_read_fcntl_0_0_body17_ok min_rocks_read_fcntl_0_0_body18_ok
  min_rocks_read_fcntl_0_0_body19_ok min_rocks_read_fcntl_0_0_body20_ok min_rocks_read_fcntl_0_0_body21_ok
  min_rocks_read_fcntl_0_0_body22_ok min_rocks_read_fcntl_0_0_body23_ok min_rocks_read_fcntl_0_0_body24_ok
  min_rocks_read_fcntl_0_0_body25_ok min_rocks_read_fcntl_0_0_body26_ok min_rocks_read_fcntl_0_0_body27_ok
  min_rocks_read_fcntl_0_0_body28_ok min_rocks_read_fcntl_0_0_body29_ok min_rocks_read_fcntl_0_0_body30_ok
  min_rocks_read_fcntl_0_0_body31_ok min_rocks_read_fcntl_0_0_body32_ok min_rocks_read_fcntl_0_0_body33_ok
  min_rocks_read_fcntl_0_0_body34_ok min_rocks_read_fcntl_0_0_body35_ok min_rocks_read_fcntl_0_0_body36_ok
  min_rocks_read_fcntl_0_0_body37_ok min_rocks_read_fcntl_0_0_body38_ok min_rocks_read_fcntl_0_0_body39_ok
  min_rocks_read_fcntl_0_0_body40_ok min_rocks_read_fcntl_0_0_body41_ok min_rocks_read_fcntl_0_0_body42_ok
  min_rocks_read_fcntl_0_0_body43_ok min_rocks_read_fcntl_0_0_body44_ok min_rocks_read_fcntl_0_0_body45_ok
  min_rocks_read_fcntl_0_0_body46_ok min_rocks_read_fcntl_0_0_body47_ok min_rocks_read_fcntl_0_0_body48_ok
  min_rocks_read_fcntl_0_0_body49_ok min_rocks_read_fcntl_0_0_body50_ok min_rocks_read_fcntl_0_0_body51_ok
  min_rocks_read_fcntl_0_0_body52_ok min_rocks_read_fcntl_0_0_body53_ok min_rocks_read_fcntl_0_0_body54_ok
  min_rocks_read_fcntl_0_0_body55_ok min_rocks_read_fcntl_0_0_body56_ok min_rocks_read_fcntl_0_0_body57_ok
  min_rocks_read_fcntl_0_0_body58_ok min_rocks_read_fcntl_0_0_body59_ok min_rocks_read_fcntl_0_0_body60_ok
  min_rocks_read_fcntl_0_0_body61_ok min_rocks_read_fcntl_0_0_body62_ok min_rocks_read_fcntl_0_0_body63_ok
  min_rocks_read_fcntl_0_0_body64_ok min_rocks_read_fcntl_0_0_body65_ok min_rocks_read_fcntl_0_0_body66_ok
  min_rocks_read_fcntl_0_0_body67_ok min_rocks_read_fcntl_0_0_body68_ok min_rocks_read_fcntl_0_0_body69_ok
  min_rocks_read_fcntl_0_0_body70_ok min_rocks_read_fcntl_0_0_body71_ok min_rocks_read_fcntl_0_0_body72_ok
  min_rocks_read_fcntl_0_0_body73_ok min_rocks_read_fcntl_0_0_body74_ok min_rocks_read_fcntl_0_0_body75_ok
  min_rocks_read_fcntl_0_0_body76_ok min_rocks_read_fcntl_0_0_body77_ok min_rocks_read_fcntl_0_0_body78_ok
  min_rocks_read_fcntl_0_0_body79_ok min_rocks_read_fcntl_0_0_body80_ok min_rocks_read_fcntl_0_0_body81_ok
  min_rocks_read_fcntl_0_0_body82_ok min_rocks_read_fcntl_0_0_body83_ok min_rocks_read_fcntl_0_0_body84_ok
  min_rocks_read_fcntl_0_0_body85_ok min_rocks_read_fcntl_0_0_body86_ok min_rocks_read_fcntl_0_0_body87_ok
  min_rocks_read_fcntl_0_0_body88_ok min_rocks_read_fcntl_0_0_body89_ok min_rocks_read_fcntl_0_0_body90_ok
  min_rocks_read_fcntl_0_0_body91_ok min_rocks_read_fcntl_0_0_body92_ok min_rocks_read_fcntl_0_0_body93_ok
  min_rocks_read_fcntl_0_0_body94_ok min_rocks_read_fcntl_0_0_body95_ok min_rocks_read_fcntl_0_0_body96_ok
  min_rocks_read_fcntl_0_0_body97_ok min_rocks_read_fcntl_0_0_body98_ok min_rocks_read_fcntl_0_0_body99_ok
  min_rocks_read_fcntl_0_0_body100_ok min_rocks_read_fcntl_0_0_body101_ok
  min_rocks_read_fcntl_0_0_body102_ok min_rocks_read_fcntl_0_0_body103_ok

lemma min_rocks_read_fcntl_0_0_ok: "prog_ok min_rocks_read_fcntl_0_0" "calls (body min_rocks_read_fcntl_0_0) = 1434"
  by (simp_all add: prog_ok_def counted_append prog_checks min_rocks_read_fcntl_0_0_def min_rocks_read_fcntl_0_0_bodies)

lemma min_rocks_read_fcntl_0_0_misses: "setup_misses min_rocks_read_fcntl_0_0" "filenames min_rocks_read_fcntl_0_0 \<noteq> []" "reg_body min_rocks_read_fcntl_0_0 = []" "num_regs min_rocks_read_fcntl_0_0 < 2 ^ 32"
  by (simp_all add: setup_misses_def opened_def misses_def path_names_def opened_in_append min_rocks_read_fcntl_0_0_def min_rocks_read_fcntl_0_0_bodies prog_checks open_checks)

end
