(* ===== verification/CSB_Progs_Mysql_v2k.thy ===== *)
theory CSB_Progs_Mysql_v2k
  imports CSB_Syz_Files
begin

text \<open>
  Bodies of generated targets of bench/targets/mysql\_v2, statement by statement in the order of the
  files syz/<name>.h, and the targets made of them (the files <name>.h). Each passes the check.
\<close>

section \<open>min\_mysql\_pread64\_write\_29\_0\<close>

definition min_mysql_pread64_write_29_0_body1 :: "stmt list" where
  "min_mysql_pread64_write_29_0_body1 = [
    Memcpy 0x20d12800 (with_nul ''./var/tmp/'') 11,
    Syscall NR_openat [Dir_fd, Ptr 0x20d12800, Imm 0x484002, Imm 0x1ff], Count, Save_res 0,
    Memcpy 0x20e48b80 (with_nul ''./var/tmp/'') 11,
    Syscall NR_faccessat2 [Dir_fd, Ptr 0x20e48b80, Imm 0, Imm 0x200], Count,
    Syscall NR_write [Reg 0, Write_buf, Imm 0x927c], Count,
    Syscall NR_pread64 [Reg 0, Ptr 0x20f088c0, Imm 0x4000, Imm 0], Count,
    Syscall NR_pread64 [Reg 0, Ptr 0x20f45840, Imm 0x130b, Imm 0x7f71], Count,
    Syscall NR_pread64 [Reg 0, Ptr 0x20f62980, Imm 0x4000, Imm 0x3efd], Count,
    Syscall NR_pread64 [Reg 0, Ptr 0x20f6d600, Imm 0x1482, Imm 0x7dfa], Count, Syscall NR_close [Reg 0], Count,
    Memcpy 0x20f7e840 (with_nul ''./var/tmp/'') 11,
    Syscall NR_openat [Dir_fd, Ptr 0x20f7e840, Imm 0x484002, Imm 0x1ff], Count, Save_res 1,
    Memcpy 0x20fe3f00 (with_nul ''./var/tmp/'') 11,
    Syscall NR_faccessat2 [Dir_fd, Ptr 0x20fe3f00, Imm 0, Imm 0x200], Count,
    Syscall NR_write [Reg 1, Write_buf, Imm 0x3264], Count, Syscall NR_lseek [Reg 1, Imm 0, Imm 0], Count,
    Syscall NR_read [Reg 1, Ptr 0x20083340, Imm 0x3264], Count]"

definition min_mysql_pread64_write_29_0_body2 :: "stmt list" where
  "min_mysql_pread64_write_29_0_body2 = [
    Syscall NR_close [Reg 1], Count, Memcpy 0x200e4880 (with_nul ''./var/tmp/'') 11,
    Syscall NR_openat [Dir_fd, Ptr 0x200e4880, Imm 0x484002, Imm 0x1ff], Count, Save_res 2,
    Memcpy 0x2020e140 (with_nul ''./var/tmp/'') 11,
    Syscall NR_faccessat2 [Dir_fd, Ptr 0x2020e140, Imm 0, Imm 0x200], Count,
    Syscall NR_write [Reg 2, Write_buf, Imm 0x90ec], Count,
    Syscall NR_pread64 [Reg 2, Ptr 0x20280600, Imm 0x4000, Imm 0], Count,
    Syscall NR_pread64 [Reg 2, Ptr 0x2029af80, Imm 0x1164, Imm 0x7f88], Count,
    Syscall NR_pread64 [Reg 2, Ptr 0x202a4b40, Imm 0x4000, Imm 0x3fc4], Count, Syscall NR_close [Reg 2], Count,
    Memcpy 0x202b8240 (with_nul ''./var/tmp/'') 11,
    Syscall NR_openat [Dir_fd, Ptr 0x202b8240, Imm 0x484002, Imm 0x1ff], Count, Save_res 3,
    Memcpy 0x2030a5c0 (with_nul ''./var/tmp/'') 11,
    Syscall NR_faccessat2 [Dir_fd, Ptr 0x2030a5c0, Imm 0, Imm 0x200], Count,
    Syscall NR_write [Reg 3, Write_buf, Imm 0x30d4], Count, Syscall NR_lseek [Reg 3, Imm 0, Imm 0], Count,
    Syscall NR_read [Reg 3, Ptr 0x20391e80, Imm 0x30d4], Count, Syscall NR_close [Reg 3], Count]"

definition min_mysql_pread64_write_29_0_body3 :: "stmt list" where
  "min_mysql_pread64_write_29_0_body3 = [
    Memcpy 0x205c28c0 (with_nul ''./var/tmp/'') 11,
    Syscall NR_openat [Dir_fd, Ptr 0x205c28c0, Imm 0x484002, Imm 0x1ff], Count, Save_res 4,
    Memcpy 0x20650180 (with_nul ''./var/tmp/'') 11,
    Syscall NR_faccessat2 [Dir_fd, Ptr 0x20650180, Imm 0, Imm 0x200], Count,
    Syscall NR_write [Reg 4, Write_buf, Imm 0x927c], Count,
    Syscall NR_pread64 [Reg 4, Ptr 0x206b5b40, Imm 0x4000, Imm 0], Count,
    Syscall NR_pread64 [Reg 4, Ptr 0x206eb000, Imm 0x130b, Imm 0x7f71], Count,
    Syscall NR_pread64 [Reg 4, Ptr 0x206f6e80, Imm 0x4000, Imm 0x3efd], Count,
    Syscall NR_pread64 [Reg 4, Ptr 0x2071e240, Imm 0x1482, Imm 0x7dfa], Count, Syscall NR_close [Reg 4], Count,
    Memcpy 0x2074f600 (with_nul ''./var/tmp/'') 11,
    Syscall NR_openat [Dir_fd, Ptr 0x2074f600, Imm 0x484002, Imm 0x1ff], Count, Save_res 5,
    Memcpy 0x207cf880 (with_nul ''./var/tmp/'') 11,
    Syscall NR_faccessat2 [Dir_fd, Ptr 0x207cf880, Imm 0, Imm 0x200], Count,
    Syscall NR_write [Reg 5, Write_buf, Imm 0x3264], Count, Syscall NR_lseek [Reg 5, Imm 0, Imm 0], Count,
    Syscall NR_read [Reg 5, Ptr 0x20850980, Imm 0x3264], Count]"

definition min_mysql_pread64_write_29_0_body4 :: "stmt list" where
  "min_mysql_pread64_write_29_0_body4 = [
    Syscall NR_close [Reg 5], Count, Memcpy 0x20943800 (with_nul ''./var/tmp/'') 11,
    Syscall NR_openat [Dir_fd, Ptr 0x20943800, Imm 0x484002, Imm 0x1ff], Count, Save_res 6,
    Memcpy 0x209c4500 (with_nul ''./var/tmp/'') 11,
    Syscall NR_faccessat2 [Dir_fd, Ptr 0x209c4500, Imm 0, Imm 0x200], Count,
    Syscall NR_write [Reg 6, Write_buf, Imm 0x90ec], Count,
    Syscall NR_pread64 [Reg 6, Ptr 0x20a1f340, Imm 0x4000, Imm 0], Count,
    Syscall NR_pread64 [Reg 6, Ptr 0x20a47180, Imm 0x1164, Imm 0x7f88], Count,
    Syscall NR_pread64 [Reg 6, Ptr 0x20a583c0, Imm 0x4000, Imm 0x3fc4], Count, Syscall NR_close [Reg 6], Count,
    Memcpy 0x20a87680 (with_nul ''./var/tmp/'') 11,
    Syscall NR_openat [Dir_fd, Ptr 0x20a87680, Imm 0x484002, Imm 0x1ff], Count, Save_res 7,
    Memcpy 0x20aae440 (with_nul ''./var/tmp/'') 11,
    Syscall NR_faccessat2 [Dir_fd, Ptr 0x20aae440, Imm 0, Imm 0x200], Count,
    Syscall NR_write [Reg 7, Write_buf, Imm 0x30d4], Count, Syscall NR_lseek [Reg 7, Imm 0, Imm 0], Count,
    Syscall NR_read [Reg 7, Ptr 0x20ad5e00, Imm 0x30d4], Count, Syscall NR_close [Reg 7], Count]"

definition min_mysql_pread64_write_29_0_body5 :: "stmt list" where
  "min_mysql_pread64_write_29_0_body5 = [
    Memcpy 0x20ebeb80 (with_nul ''./var/tmp/'') 11,
    Syscall NR_openat [Dir_fd, Ptr 0x20ebeb80, Imm 0x484002, Imm 0x1ff], Count, Save_res 8,
    Memcpy 0x20f23a80 (with_nul ''./var/tmp/'') 11,
    Syscall NR_faccessat2 [Dir_fd, Ptr 0x20f23a80, Imm 0, Imm 0x200], Count,
    Syscall NR_write [Reg 8, Write_buf, Imm 0x927c], Count,
    Syscall NR_pread64 [Reg 8, Ptr 0x20f68340, Imm 0x4000, Imm 0], Count,
    Syscall NR_pread64 [Reg 8, Ptr 0x20f9a8c0, Imm 0x130b, Imm 0x7f71], Count,
    Syscall NR_pread64 [Reg 8, Ptr 0x20fc1680, Imm 0x4000, Imm 0x3efd], Count,
    Syscall NR_pread64 [Reg 8, Ptr 0x20ffce00, Imm 0x1482, Imm 0x7dfa], Count, Syscall NR_close [Reg 8], Count,
    Memcpy 0x2003e740 (with_nul ''./var/tmp/'') 11,
    Syscall NR_openat [Dir_fd, Ptr 0x2003e740, Imm 0x484002, Imm 0x1ff], Count, Save_res 9,
    Memcpy 0x200814c0 (with_nul ''./var/tmp/'') 11,
    Syscall NR_faccessat2 [Dir_fd, Ptr 0x200814c0, Imm 0, Imm 0x200], Count,
    Syscall NR_write [Reg 9, Write_buf, Imm 0x3264], Count, Syscall NR_lseek [Reg 9, Imm 0, Imm 0], Count,
    Syscall NR_read [Reg 9, Ptr 0x200cf4c0, Imm 0x3264], Count]"

definition min_mysql_pread64_write_29_0_body6 :: "stmt list" where
  "min_mysql_pread64_write_29_0_body6 = [
    Syscall NR_close [Reg 9], Count, Memcpy 0x20162780 (with_nul ''./var/tmp/'') 11,
    Syscall NR_openat [Dir_fd, Ptr 0x20162780, Imm 0x484002, Imm 0x1ff], Count, Save_res 10,
    Memcpy 0x2018d780 (with_nul ''./var/tmp/'') 11,
    Syscall NR_faccessat2 [Dir_fd, Ptr 0x2018d780, Imm 0, Imm 0x200], Count,
    Syscall NR_write [Reg 10, Write_buf, Imm 0x90ec], Count,
    Syscall NR_pread64 [Reg 10, Ptr 0x201a96c0, Imm 0x4000, Imm 0], Count,
    Syscall NR_pread64 [Reg 10, Ptr 0x201bcec0, Imm 0x1164, Imm 0x7f88], Count,
    Syscall NR_pread64 [Reg 10, Ptr 0x201cc000, Imm 0x4000, Imm 0x3fc4], Count, Syscall NR_close [Reg 10],
    Count, Memcpy 0x201e7200 (with_nul ''./var/tmp/'') 11,
    Syscall NR_openat [Dir_fd, Ptr 0x201e7200, Imm 0x484002, Imm 0x1ff], Count, Save_res 11,
    Memcpy 0x201f8280 (with_nul ''./var/tmp/'') 11,
    Syscall NR_faccessat2 [Dir_fd, Ptr 0x201f8280, Imm 0, Imm 0x200], Count,
    Syscall NR_write [Reg 11, Write_buf, Imm 0x30d4], Count, Syscall NR_lseek [Reg 11, Imm 0, Imm 0], Count,
    Syscall NR_read [Reg 11, Ptr 0x20208c40, Imm 0x30d4], Count, Syscall NR_close [Reg 11], Count]"

definition min_mysql_pread64_write_29_0_body7 :: "stmt list" where
  "min_mysql_pread64_write_29_0_body7 = [
    Memcpy 0x202a7080 (with_nul ''./var/tmp/'') 11,
    Syscall NR_openat [Dir_fd, Ptr 0x202a7080, Imm 0x484002, Imm 0x1ff], Count, Save_res 12,
    Memcpy 0x202f5dc0 (with_nul ''./var/tmp/'') 11,
    Syscall NR_faccessat2 [Dir_fd, Ptr 0x202f5dc0, Imm 0, Imm 0x200], Count,
    Syscall NR_write [Reg 12, Write_buf, Imm 0x927c], Count,
    Syscall NR_pread64 [Reg 12, Ptr 0x2032ea40, Imm 0x4000, Imm 0], Count,
    Syscall NR_pread64 [Reg 12, Ptr 0x20340780, Imm 0x130b, Imm 0x7f71], Count,
    Syscall NR_pread64 [Reg 12, Ptr 0x20361580, Imm 0x4000, Imm 0x3efd], Count,
    Syscall NR_pread64 [Reg 12, Ptr 0x20382f00, Imm 0x1482, Imm 0x7dfa], Count, Syscall NR_close [Reg 12],
    Count, Memcpy 0x203edf80 (with_nul ''./var/tmp/'') 11,
    Syscall NR_openat [Dir_fd, Ptr 0x203edf80, Imm 0x484002, Imm 0x1ff], Count, Save_res 13,
    Memcpy 0x2048b200 (with_nul ''./var/tmp/'') 11,
    Syscall NR_faccessat2 [Dir_fd, Ptr 0x2048b200, Imm 0, Imm 0x200], Count,
    Syscall NR_write [Reg 13, Write_buf, Imm 0x3264], Count, Syscall NR_lseek [Reg 13, Imm 0, Imm 0], Count,
    Syscall NR_read [Reg 13, Ptr 0x2050d6c0, Imm 0x3264], Count]"

definition min_mysql_pread64_write_29_0_body8 :: "stmt list" where
  "min_mysql_pread64_write_29_0_body8 = [
    Syscall NR_close [Reg 13], Count, Memcpy 0x2094e780 (with_nul ''./var/tmp/'') 11,
    Syscall NR_openat [Dir_fd, Ptr 0x2094e780, Imm 0x484002, Imm 0x1ff], Count, Save_res 14,
    Memcpy 0x2096c2c0 (with_nul ''./var/tmp/'') 11,
    Syscall NR_faccessat2 [Dir_fd, Ptr 0x2096c2c0, Imm 0, Imm 0x200], Count,
    Syscall NR_write [Reg 14, Write_buf, Imm 0x927c], Count,
    Syscall NR_pread64 [Reg 14, Ptr 0x20981ec0, Imm 0x4000, Imm 0], Count,
    Syscall NR_pread64 [Reg 14, Ptr 0x209a5fc0, Imm 0x130b, Imm 0x7f71], Count,
    Syscall NR_pread64 [Reg 14, Ptr 0x209c1480, Imm 0x4000, Imm 0x3efd], Count,
    Syscall NR_pread64 [Reg 14, Ptr 0x209cde00, Imm 0x1482, Imm 0x7dfa], Count, Syscall NR_close [Reg 14],
    Count, Memcpy 0x209f7880 (with_nul ''./var/tmp/'') 11,
    Syscall NR_openat [Dir_fd, Ptr 0x209f7880, Imm 0x484002, Imm 0x1ff], Count, Save_res 15,
    Memcpy 0x20a22280 (with_nul ''./var/tmp/'') 11,
    Syscall NR_faccessat2 [Dir_fd, Ptr 0x20a22280, Imm 0, Imm 0x200], Count,
    Syscall NR_write [Reg 15, Write_buf, Imm 0x3264], Count, Syscall NR_lseek [Reg 15, Imm 0, Imm 0], Count,
    Syscall NR_read [Reg 15, Ptr 0x20a6e640, Imm 0x3264], Count]"

definition min_mysql_pread64_write_29_0_body9 :: "stmt list" where
  "min_mysql_pread64_write_29_0_body9 = [
    Syscall NR_close [Reg 15], Count, Memcpy 0x20af5ac0 (with_nul ''./var/tmp/'') 11,
    Syscall NR_openat [Dir_fd, Ptr 0x20af5ac0, Imm 0x484002, Imm 0x1ff], Count, Save_res 16,
    Memcpy 0x20b5c880 (with_nul ''./var/tmp/'') 11,
    Syscall NR_faccessat2 [Dir_fd, Ptr 0x20b5c880, Imm 0, Imm 0x200], Count,
    Syscall NR_write [Reg 16, Write_buf, Imm 0x90ec], Count,
    Syscall NR_pread64 [Reg 16, Ptr 0x20ba65c0, Imm 0x4000, Imm 0], Count,
    Syscall NR_pread64 [Reg 16, Ptr 0x20bd63c0, Imm 0x1164, Imm 0x7f88], Count,
    Syscall NR_pread64 [Reg 16, Ptr 0x20c10940, Imm 0x4000, Imm 0x3fc4], Count, Syscall NR_close [Reg 16],
    Count, Memcpy 0x20c67600 (with_nul ''./var/tmp/'') 11,
    Syscall NR_openat [Dir_fd, Ptr 0x20c67600, Imm 0x484002, Imm 0x1ff], Count, Save_res 17,
    Memcpy 0x20ce3140 (with_nul ''./var/tmp/'') 11,
    Syscall NR_faccessat2 [Dir_fd, Ptr 0x20ce3140, Imm 0, Imm 0x200], Count,
    Syscall NR_write [Reg 17, Write_buf, Imm 0x30d4], Count, Syscall NR_lseek [Reg 17, Imm 0, Imm 0], Count,
    Syscall NR_read [Reg 17, Ptr 0x20d635c0, Imm 0x30d4], Count, Syscall NR_close [Reg 17], Count]"

definition min_mysql_pread64_write_29_0_body10 :: "stmt list" where
  "min_mysql_pread64_write_29_0_body10 = [
    Memcpy 0x201a3a80 (with_nul ''./var/tmp/'') 11,
    Syscall NR_openat [Dir_fd, Ptr 0x201a3a80, Imm 0x484002, Imm 0x1ff], Count, Save_res 18,
    Memcpy 0x20205940 (with_nul ''./var/tmp/'') 11,
    Syscall NR_faccessat2 [Dir_fd, Ptr 0x20205940, Imm 0, Imm 0x200], Count,
    Syscall NR_write [Reg 18, Write_buf, Imm 0x927c], Count,
    Syscall NR_pread64 [Reg 18, Ptr 0x20234640, Imm 0x4000, Imm 0], Count,
    Syscall NR_pread64 [Reg 18, Ptr 0x20240e40, Imm 0x130b, Imm 0x7f71], Count,
    Syscall NR_pread64 [Reg 18, Ptr 0x20250240, Imm 0x4000, Imm 0x3efd], Count,
    Syscall NR_pread64 [Reg 18, Ptr 0x2025fe80, Imm 0x1482, Imm 0x7dfa], Count, Syscall NR_close [Reg 18],
    Count, Memcpy 0x2027b8c0 (with_nul ''./var/tmp/'') 11,
    Syscall NR_openat [Dir_fd, Ptr 0x2027b8c0, Imm 0x484002, Imm 0x1ff], Count, Save_res 19,
    Memcpy 0x202a3cc0 (with_nul ''./var/tmp/'') 11,
    Syscall NR_faccessat2 [Dir_fd, Ptr 0x202a3cc0, Imm 0, Imm 0x200], Count,
    Syscall NR_write [Reg 19, Write_buf, Imm 0x3264], Count, Syscall NR_lseek [Reg 19, Imm 0, Imm 0], Count,
    Syscall NR_read [Reg 19, Ptr 0x202cab40, Imm 0x3264], Count]"

definition min_mysql_pread64_write_29_0_body11 :: "stmt list" where
  "min_mysql_pread64_write_29_0_body11 = [
    Syscall NR_close [Reg 19], Count, Memcpy 0x202fe640 (with_nul ''./var/tmp/'') 11,
    Syscall NR_openat [Dir_fd, Ptr 0x202fe640, Imm 0x484002, Imm 0x1ff], Count, Save_res 20,
    Memcpy 0x20353500 (with_nul ''./var/tmp/'') 11,
    Syscall NR_faccessat2 [Dir_fd, Ptr 0x20353500, Imm 0, Imm 0x200], Count,
    Syscall NR_write [Reg 20, Write_buf, Imm 0x90ec], Count,
    Syscall NR_pread64 [Reg 20, Ptr 0x203796c0, Imm 0x4000, Imm 0], Count,
    Syscall NR_pread64 [Reg 20, Ptr 0x2038d780, Imm 0x1164, Imm 0x7f88], Count,
    Syscall NR_pread64 [Reg 20, Ptr 0x203a3e00, Imm 0x4000, Imm 0x3fc4], Count, Syscall NR_close [Reg 20],
    Count, Memcpy 0x203c5a80 (with_nul ''./var/tmp/'') 11,
    Syscall NR_openat [Dir_fd, Ptr 0x203c5a80, Imm 0x484002, Imm 0x1ff], Count, Save_res 21,
    Memcpy 0x203f6000 (with_nul ''./var/tmp/'') 11,
    Syscall NR_faccessat2 [Dir_fd, Ptr 0x203f6000, Imm 0, Imm 0x200], Count,
    Syscall NR_write [Reg 21, Write_buf, Imm 0x30d4], Count, Syscall NR_lseek [Reg 21, Imm 0, Imm 0], Count,
    Syscall NR_read [Reg 21, Ptr 0x20429b40, Imm 0x30d4], Count, Syscall NR_close [Reg 21], Count]"

definition min_mysql_pread64_write_29_0_body12 :: "stmt list" where
  "min_mysql_pread64_write_29_0_body12 = [
    Memcpy 0x2092f840 (with_nul ''./var/tmp/'') 11,
    Syscall NR_openat [Dir_fd, Ptr 0x2092f840, Imm 0x484002, Imm 0x1ff], Count, Save_res 22,
    Memcpy 0x2094ff80 (with_nul ''./var/tmp/'') 11,
    Syscall NR_faccessat2 [Dir_fd, Ptr 0x2094ff80, Imm 0, Imm 0x200], Count,
    Syscall NR_write [Reg 22, Write_buf, Imm 0x927c], Count,
    Syscall NR_pread64 [Reg 22, Ptr 0x20986980, Imm 0x4000, Imm 0], Count,
    Syscall NR_pread64 [Reg 22, Ptr 0x209be340, Imm 0x130b, Imm 0x7f71], Count,
    Syscall NR_pread64 [Reg 22, Ptr 0x209dc140, Imm 0x4000, Imm 0x3efd], Count,
    Syscall NR_pread64 [Reg 22, Ptr 0x209f1bc0, Imm 0x1482, Imm 0x7dfa], Count, Syscall NR_close [Reg 22],
    Count, Memcpy 0x20a12240 (with_nul ''./var/tmp/'') 11,
    Syscall NR_openat [Dir_fd, Ptr 0x20a12240, Imm 0x484002, Imm 0x1ff], Count, Save_res 23,
    Memcpy 0x20a1fac0 (with_nul ''./var/tmp/'') 11,
    Syscall NR_faccessat2 [Dir_fd, Ptr 0x20a1fac0, Imm 0, Imm 0x200], Count,
    Syscall NR_write [Reg 23, Write_buf, Imm 0x3264], Count, Syscall NR_lseek [Reg 23, Imm 0, Imm 0], Count,
    Syscall NR_read [Reg 23, Ptr 0x20a491c0, Imm 0x3264], Count]"

definition min_mysql_pread64_write_29_0_body13 :: "stmt list" where
  "min_mysql_pread64_write_29_0_body13 = [
    Syscall NR_close [Reg 23], Count, Memcpy 0x20a7cf80 (with_nul ''./var/tmp/'') 11,
    Syscall NR_openat [Dir_fd, Ptr 0x20a7cf80, Imm 0x484002, Imm 0x1ff], Count, Save_res 24,
    Memcpy 0x20a87ec0 (with_nul ''./var/tmp/'') 11,
    Syscall NR_faccessat2 [Dir_fd, Ptr 0x20a87ec0, Imm 0, Imm 0x200], Count,
    Syscall NR_write [Reg 24, Write_buf, Imm 0x90ec], Count,
    Syscall NR_pread64 [Reg 24, Ptr 0x20abaf80, Imm 0x4000, Imm 0], Count,
    Syscall NR_pread64 [Reg 24, Ptr 0x20adedc0, Imm 0x1164, Imm 0x7f88], Count,
    Syscall NR_pread64 [Reg 24, Ptr 0x20b0cc00, Imm 0x4000, Imm 0x3fc4], Count, Syscall NR_close [Reg 24],
    Count, Memcpy 0x20b35740 (with_nul ''./var/tmp/'') 11,
    Syscall NR_openat [Dir_fd, Ptr 0x20b35740, Imm 0x484002, Imm 0x1ff], Count, Save_res 25,
    Memcpy 0x20b4cf40 (with_nul ''./var/tmp/'') 11,
    Syscall NR_faccessat2 [Dir_fd, Ptr 0x20b4cf40, Imm 0, Imm 0x200], Count,
    Syscall NR_write [Reg 25, Write_buf, Imm 0x30d4], Count, Syscall NR_lseek [Reg 25, Imm 0, Imm 0], Count,
    Syscall NR_read [Reg 25, Ptr 0x20b6a380, Imm 0x30d4], Count, Syscall NR_close [Reg 25], Count]"

definition min_mysql_pread64_write_29_0_body14 :: "stmt list" where
  "min_mysql_pread64_write_29_0_body14 = [
    Memcpy 0x20ff2000 (with_nul ''./var/tmp/'') 11,
    Syscall NR_openat [Dir_fd, Ptr 0x20ff2000, Imm 0x484002, Imm 0x1ff], Count, Save_res 26,
    Memcpy 0x2000d840 (with_nul ''./var/tmp/'') 11,
    Syscall NR_faccessat2 [Dir_fd, Ptr 0x2000d840, Imm 0, Imm 0x200], Count,
    Syscall NR_write [Reg 26, Write_buf, Imm 0x927c], Count,
    Syscall NR_pread64 [Reg 26, Ptr 0x2001cb00, Imm 0x4000, Imm 0], Count,
    Syscall NR_pread64 [Reg 26, Ptr 0x20022440, Imm 0x130b, Imm 0x7f71], Count,
    Syscall NR_pread64 [Reg 26, Ptr 0x2002ce40, Imm 0x4000, Imm 0x3efd], Count,
    Syscall NR_pread64 [Reg 26, Ptr 0x20047280, Imm 0x1482, Imm 0x7dfa], Count, Syscall NR_close [Reg 26],
    Count, Memcpy 0x20065840 (with_nul ''./var/tmp/'') 11,
    Syscall NR_openat [Dir_fd, Ptr 0x20065840, Imm 0x484002, Imm 0x1ff], Count, Save_res 27,
    Memcpy 0x20076940 (with_nul ''./var/tmp/'') 11,
    Syscall NR_faccessat2 [Dir_fd, Ptr 0x20076940, Imm 0, Imm 0x200], Count,
    Syscall NR_write [Reg 27, Write_buf, Imm 0x3264], Count, Syscall NR_lseek [Reg 27, Imm 0, Imm 0], Count,
    Syscall NR_read [Reg 27, Ptr 0x20083cc0, Imm 0x3264], Count]"

definition min_mysql_pread64_write_29_0_body15 :: "stmt list" where
  "min_mysql_pread64_write_29_0_body15 = [
    Syscall NR_close [Reg 27], Count, Memcpy 0x200bfd40 (with_nul ''./var/tmp/'') 11,
    Syscall NR_openat [Dir_fd, Ptr 0x200bfd40, Imm 0x484002, Imm 0x1ff], Count, Save_res 28,
    Memcpy 0x200ce200 (with_nul ''./var/tmp/'') 11,
    Syscall NR_faccessat2 [Dir_fd, Ptr 0x200ce200, Imm 0, Imm 0x200], Count,
    Syscall NR_write [Reg 28, Write_buf, Imm 0x90ec], Count,
    Syscall NR_pread64 [Reg 28, Ptr 0x200dd100, Imm 0x4000, Imm 0], Count,
    Syscall NR_pread64 [Reg 28, Ptr 0x200e1740, Imm 0x1164, Imm 0x7f88], Count,
    Syscall NR_pread64 [Reg 28, Ptr 0x200e5240, Imm 0x4000, Imm 0x3fc4], Count, Syscall NR_close [Reg 28],
    Count, Memcpy 0x200f3700 (with_nul ''./var/tmp/'') 11,
    Syscall NR_openat [Dir_fd, Ptr 0x200f3700, Imm 0x484002, Imm 0x1ff], Count, Save_res 29,
    Memcpy 0x20136b40 (with_nul ''./var/tmp/'') 11,
    Syscall NR_faccessat2 [Dir_fd, Ptr 0x20136b40, Imm 0, Imm 0x200], Count,
    Syscall NR_write [Reg 29, Write_buf, Imm 0x30d4], Count, Syscall NR_lseek [Reg 29, Imm 0, Imm 0], Count,
    Syscall NR_read [Reg 29, Ptr 0x20165a00, Imm 0x30d4], Count, Syscall NR_close [Reg 29], Count]"

definition min_mysql_pread64_write_29_0_body16 :: "stmt list" where
  "min_mysql_pread64_write_29_0_body16 = [
    Memcpy 0x2076f240 (with_nul ''./var/tmp/'') 11,
    Syscall NR_openat [Dir_fd, Ptr 0x2076f240, Imm 0x484002, Imm 0x1ff], Count, Save_res 30,
    Memcpy 0x207c0980 (with_nul ''./var/tmp/'') 11,
    Syscall NR_faccessat2 [Dir_fd, Ptr 0x207c0980, Imm 0, Imm 0x200], Count,
    Syscall NR_write [Reg 30, Write_buf, Imm 0x927c], Count,
    Syscall NR_pread64 [Reg 30, Ptr 0x207e4580, Imm 0x4000, Imm 0], Count,
    Syscall NR_pread64 [Reg 30, Ptr 0x207e8ac0, Imm 0x130b, Imm 0x7f71], Count,
    Syscall NR_pread64 [Reg 30, Ptr 0x207ea280, Imm 0x4000, Imm 0x3efd], Count,
    Syscall NR_pread64 [Reg 30, Ptr 0x207f5000, Imm 0x1482, Imm 0x7dfa], Count, Syscall NR_close [Reg 30],
    Count, Memcpy 0x20802180 (with_nul ''./var/tmp/'') 11,
    Syscall NR_openat [Dir_fd, Ptr 0x20802180, Imm 0x484002, Imm 0x1ff], Count, Save_res 31,
    Memcpy 0x20825180 (with_nul ''./var/tmp/'') 11,
    Syscall NR_faccessat2 [Dir_fd, Ptr 0x20825180, Imm 0, Imm 0x200], Count,
    Syscall NR_write [Reg 31, Write_buf, Imm 0x3264], Count, Syscall NR_lseek [Reg 31, Imm 0, Imm 0], Count,
    Syscall NR_read [Reg 31, Ptr 0x20838400, Imm 0x3264], Count]"

definition min_mysql_pread64_write_29_0_body17 :: "stmt list" where
  "min_mysql_pread64_write_29_0_body17 = [
    Syscall NR_close [Reg 31], Count, Memcpy 0x2086f7c0 (with_nul ''./var/tmp/'') 11,
    Syscall NR_openat [Dir_fd, Ptr 0x2086f7c0, Imm 0x484002, Imm 0x1ff], Count, Save_res 32,
    Memcpy 0x20884dc0 (with_nul ''./var/tmp/'') 11,
    Syscall NR_faccessat2 [Dir_fd, Ptr 0x20884dc0, Imm 0, Imm 0x200], Count,
    Syscall NR_write [Reg 32, Write_buf, Imm 0x90ec], Count,
    Syscall NR_pread64 [Reg 32, Ptr 0x208919c0, Imm 0x4000, Imm 0], Count,
    Syscall NR_pread64 [Reg 32, Ptr 0x20897c80, Imm 0x1164, Imm 0x7f88], Count,
    Syscall NR_pread64 [Reg 32, Ptr 0x2089c0c0, Imm 0x4000, Imm 0x3fc4], Count, Syscall NR_close [Reg 32],
    Count, Memcpy 0x208b2a80 (with_nul ''./var/tmp/'') 11,
    Syscall NR_openat [Dir_fd, Ptr 0x208b2a80, Imm 0x484002, Imm 0x1ff], Count, Save_res 33,
    Memcpy 0x208c5700 (with_nul ''./var/tmp/'') 11,
    Syscall NR_faccessat2 [Dir_fd, Ptr 0x208c5700, Imm 0, Imm 0x200], Count,
    Syscall NR_write [Reg 33, Write_buf, Imm 0x30d4], Count, Syscall NR_lseek [Reg 33, Imm 0, Imm 0], Count,
    Syscall NR_read [Reg 33, Ptr 0x208f8640, Imm 0x30d4], Count, Syscall NR_close [Reg 33], Count]"

definition min_mysql_pread64_write_29_0_body18 :: "stmt list" where
  "min_mysql_pread64_write_29_0_body18 = [
    Memcpy 0x20045380 (with_nul ''./var/tmp/'') 11,
    Syscall NR_openat [Dir_fd, Ptr 0x20045380, Imm 0x484002, Imm 0x1ff], Count, Save_res 34,
    Memcpy 0x20046c80 (with_nul ''./var/tmp/'') 11,
    Syscall NR_faccessat2 [Dir_fd, Ptr 0x20046c80, Imm 0, Imm 0x200], Count,
    Syscall NR_write [Reg 34, Write_buf, Imm 0x927c], Count,
    Syscall NR_pread64 [Reg 34, Ptr 0x2006b940, Imm 0x4000, Imm 0], Count,
    Syscall NR_pread64 [Reg 34, Ptr 0x20077f40, Imm 0x130b, Imm 0x7f71], Count,
    Syscall NR_pread64 [Reg 34, Ptr 0x200819c0, Imm 0x4000, Imm 0x3efd], Count,
    Syscall NR_pread64 [Reg 34, Ptr 0x2008a100, Imm 0x1482, Imm 0x7dfa], Count, Syscall NR_close [Reg 34],
    Count, Memcpy 0x20091b00 (with_nul ''./var/tmp/'') 11,
    Syscall NR_openat [Dir_fd, Ptr 0x20091b00, Imm 0x484002, Imm 0x1ff], Count, Save_res 35,
    Memcpy 0x20098380 (with_nul ''./var/tmp/'') 11,
    Syscall NR_faccessat2 [Dir_fd, Ptr 0x20098380, Imm 0, Imm 0x200], Count,
    Syscall NR_write [Reg 35, Write_buf, Imm 0x3264], Count, Syscall NR_lseek [Reg 35, Imm 0, Imm 0], Count,
    Syscall NR_read [Reg 35, Ptr 0x200a4e80, Imm 0x3264], Count]"

definition min_mysql_pread64_write_29_0_body19 :: "stmt list" where
  "min_mysql_pread64_write_29_0_body19 = [
    Syscall NR_close [Reg 35], Count, Memcpy 0x200d0ec0 (with_nul ''./var/tmp/'') 11,
    Syscall NR_openat [Dir_fd, Ptr 0x200d0ec0, Imm 0x484002, Imm 0x1ff], Count, Save_res 36,
    Memcpy 0x200d6540 (with_nul ''./var/tmp/'') 11,
    Syscall NR_faccessat2 [Dir_fd, Ptr 0x200d6540, Imm 0, Imm 0x200], Count,
    Syscall NR_write [Reg 36, Write_buf, Imm 0x90ec], Count,
    Syscall NR_pread64 [Reg 36, Ptr 0x200fbc00, Imm 0x4000, Imm 0], Count,
    Syscall NR_pread64 [Reg 36, Ptr 0x20108dc0, Imm 0x1164, Imm 0x7f88], Count,
    Syscall NR_pread64 [Reg 36, Ptr 0x20111340, Imm 0x4000, Imm 0x3fc4], Count, Syscall NR_close [Reg 36],
    Count, Memcpy 0x2011c640 (with_nul ''./var/tmp/'') 11,
    Syscall NR_openat [Dir_fd, Ptr 0x2011c640, Imm 0x484002, Imm 0x1ff], Count, Save_res 37,
    Memcpy 0x20122d00 (with_nul ''./var/tmp/'') 11,
    Syscall NR_faccessat2 [Dir_fd, Ptr 0x20122d00, Imm 0, Imm 0x200], Count,
    Syscall NR_write [Reg 37, Write_buf, Imm 0x30d4], Count, Syscall NR_lseek [Reg 37, Imm 0, Imm 0], Count,
    Syscall NR_read [Reg 37, Ptr 0x2012f400, Imm 0x30d4], Count, Syscall NR_close [Reg 37], Count]"

definition min_mysql_pread64_write_29_0_body20 :: "stmt list" where
  "min_mysql_pread64_write_29_0_body20 = [
    Memcpy 0x2066cec0 (with_nul ''./var/tmp/'') 11,
    Syscall NR_openat [Dir_fd, Ptr 0x2066cec0, Imm 0x484002, Imm 0x1ff], Count, Save_res 38,
    Memcpy 0x206acf00 (with_nul ''./var/tmp/'') 11,
    Syscall NR_faccessat2 [Dir_fd, Ptr 0x206acf00, Imm 0, Imm 0x200], Count,
    Syscall NR_write [Reg 38, Write_buf, Imm 0x927c], Count,
    Syscall NR_pread64 [Reg 38, Ptr 0x206c4dc0, Imm 0x4000, Imm 0], Count,
    Syscall NR_pread64 [Reg 38, Ptr 0x206d0b80, Imm 0x130b, Imm 0x7f71], Count,
    Syscall NR_pread64 [Reg 38, Ptr 0x206dd640, Imm 0x4000, Imm 0x3efd], Count,
    Syscall NR_pread64 [Reg 38, Ptr 0x206ead80, Imm 0x1482, Imm 0x7dfa], Count, Syscall NR_close [Reg 38],
    Count, Memcpy 0x20702b00 (with_nul ''./var/tmp/'') 11,
    Syscall NR_openat [Dir_fd, Ptr 0x20702b00, Imm 0x484002, Imm 0x1ff], Count, Save_res 39,
    Memcpy 0x207198c0 (with_nul ''./var/tmp/'') 11,
    Syscall NR_faccessat2 [Dir_fd, Ptr 0x207198c0, Imm 0, Imm 0x200], Count,
    Syscall NR_write [Reg 39, Write_buf, Imm 0x3264], Count, Syscall NR_lseek [Reg 39, Imm 0, Imm 0], Count,
    Syscall NR_read [Reg 39, Ptr 0x2072bf80, Imm 0x3264], Count]"

definition min_mysql_pread64_write_29_0_body21 :: "stmt list" where
  "min_mysql_pread64_write_29_0_body21 = [
    Syscall NR_close [Reg 39], Count, Memcpy 0x207544c0 (with_nul ''./var/tmp/'') 11,
    Syscall NR_openat [Dir_fd, Ptr 0x207544c0, Imm 0x484002, Imm 0x1ff], Count, Save_res 40,
    Memcpy 0x20769180 (with_nul ''./var/tmp/'') 11,
    Syscall NR_faccessat2 [Dir_fd, Ptr 0x20769180, Imm 0, Imm 0x200], Count,
    Syscall NR_write [Reg 40, Write_buf, Imm 0x90ec], Count,
    Syscall NR_pread64 [Reg 40, Ptr 0x2077aac0, Imm 0x4000, Imm 0], Count,
    Syscall NR_pread64 [Reg 40, Ptr 0x2077ed40, Imm 0x1164, Imm 0x7f88], Count,
    Syscall NR_pread64 [Reg 40, Ptr 0x20783040, Imm 0x4000, Imm 0x3fc4], Count, Syscall NR_close [Reg 40],
    Count, Memcpy 0x2078d400 (with_nul ''./var/tmp/'') 11,
    Syscall NR_openat [Dir_fd, Ptr 0x2078d400, Imm 0x484002, Imm 0x1ff], Count, Save_res 41,
    Memcpy 0x20799ac0 (with_nul ''./var/tmp/'') 11,
    Syscall NR_faccessat2 [Dir_fd, Ptr 0x20799ac0, Imm 0, Imm 0x200], Count,
    Syscall NR_write [Reg 41, Write_buf, Imm 0x30d4], Count, Syscall NR_lseek [Reg 41, Imm 0, Imm 0], Count,
    Syscall NR_read [Reg 41, Ptr 0x207a01c0, Imm 0x30d4], Count, Syscall NR_close [Reg 41], Count]"

definition min_mysql_pread64_write_29_0_body22 :: "stmt list" where
  "min_mysql_pread64_write_29_0_body22 = [
    Memcpy 0x20a5b100 (with_nul ''./var/tmp/'') 11,
    Syscall NR_openat [Dir_fd, Ptr 0x20a5b100, Imm 0x484002, Imm 0x1ff], Count, Save_res 42,
    Memcpy 0x20aaedc0 (with_nul ''./var/tmp/'') 11,
    Syscall NR_faccessat2 [Dir_fd, Ptr 0x20aaedc0, Imm 0, Imm 0x200], Count,
    Syscall NR_write [Reg 42, Write_buf, Imm 0x927c], Count,
    Syscall NR_pread64 [Reg 42, Ptr 0x20af38c0, Imm 0x4000, Imm 0], Count,
    Syscall NR_pread64 [Reg 42, Ptr 0x20b0cd80, Imm 0x130b, Imm 0x7f71], Count,
    Syscall NR_pread64 [Reg 42, Ptr 0x20b38180, Imm 0x4000, Imm 0x3efd], Count,
    Syscall NR_pread64 [Reg 42, Ptr 0x20b55cc0, Imm 0x1482, Imm 0x7dfa], Count, Syscall NR_close [Reg 42],
    Count, Memcpy 0x20b8a280 (with_nul ''./var/tmp/'') 11,
    Syscall NR_openat [Dir_fd, Ptr 0x20b8a280, Imm 0x484002, Imm 0x1ff], Count, Save_res 43,
    Memcpy 0x20c07d00 (with_nul ''./var/tmp/'') 11,
    Syscall NR_faccessat2 [Dir_fd, Ptr 0x20c07d00, Imm 0, Imm 0x200], Count,
    Syscall NR_write [Reg 43, Write_buf, Imm 0x3264], Count, Syscall NR_lseek [Reg 43, Imm 0, Imm 0], Count,
    Syscall NR_read [Reg 43, Ptr 0x20c8d580, Imm 0x3264], Count]"

definition min_mysql_pread64_write_29_0_body23 :: "stmt list" where
  "min_mysql_pread64_write_29_0_body23 = [
    Syscall NR_close [Reg 43], Count, Memcpy 0x200472c0 (with_nul ''./var/tmp/'') 11,
    Syscall NR_openat [Dir_fd, Ptr 0x200472c0, Imm 0x484002, Imm 0x1ff], Count, Save_res 44,
    Memcpy 0x20065c80 (with_nul ''./var/tmp/'') 11,
    Syscall NR_faccessat2 [Dir_fd, Ptr 0x20065c80, Imm 0, Imm 0x200], Count,
    Syscall NR_write [Reg 44, Write_buf, Imm 0x927c], Count,
    Syscall NR_pread64 [Reg 44, Ptr 0x20076cc0, Imm 0x4000, Imm 0], Count,
    Syscall NR_pread64 [Reg 44, Ptr 0x20081280, Imm 0x130b, Imm 0x7f71], Count,
    Syscall NR_pread64 [Reg 44, Ptr 0x20088b00, Imm 0x4000, Imm 0x3efd], Count,
    Syscall NR_pread64 [Reg 44, Ptr 0x20098f00, Imm 0x1482, Imm 0x7dfa], Count, Syscall NR_close [Reg 44],
    Count, Memcpy 0x200bc380 (with_nul ''./var/tmp/'') 11,
    Syscall NR_openat [Dir_fd, Ptr 0x200bc380, Imm 0x484002, Imm 0x1ff], Count, Save_res 45,
    Memcpy 0x200de3c0 (with_nul ''./var/tmp/'') 11,
    Syscall NR_faccessat2 [Dir_fd, Ptr 0x200de3c0, Imm 0, Imm 0x200], Count,
    Syscall NR_write [Reg 45, Write_buf, Imm 0x3264], Count, Syscall NR_lseek [Reg 45, Imm 0, Imm 0], Count,
    Syscall NR_read [Reg 45, Ptr 0x200f6f00, Imm 0x3264], Count]"

definition min_mysql_pread64_write_29_0_body24 :: "stmt list" where
  "min_mysql_pread64_write_29_0_body24 = [
    Syscall NR_close [Reg 45], Count, Memcpy 0x20153500 (with_nul ''./var/tmp/'') 11,
    Syscall NR_openat [Dir_fd, Ptr 0x20153500, Imm 0x484002, Imm 0x1ff], Count, Save_res 46,
    Memcpy 0x201664c0 (with_nul ''./var/tmp/'') 11,
    Syscall NR_faccessat2 [Dir_fd, Ptr 0x201664c0, Imm 0, Imm 0x200], Count,
    Syscall NR_write [Reg 46, Write_buf, Imm 0x90ec], Count,
    Syscall NR_pread64 [Reg 46, Ptr 0x20172bc0, Imm 0x4000, Imm 0], Count,
    Syscall NR_pread64 [Reg 46, Ptr 0x2017d080, Imm 0x1164, Imm 0x7f88], Count,
    Syscall NR_pread64 [Reg 46, Ptr 0x20184780, Imm 0x4000, Imm 0x3fc4], Count, Syscall NR_close [Reg 46],
    Count, Memcpy 0x201928c0 (with_nul ''./var/tmp/'') 11,
    Syscall NR_openat [Dir_fd, Ptr 0x201928c0, Imm 0x484002, Imm 0x1ff], Count, Save_res 47,
    Memcpy 0x2019cd00 (with_nul ''./var/tmp/'') 11,
    Syscall NR_faccessat2 [Dir_fd, Ptr 0x2019cd00, Imm 0, Imm 0x200], Count,
    Syscall NR_write [Reg 47, Write_buf, Imm 0x30d4], Count, Syscall NR_lseek [Reg 47, Imm 0, Imm 0], Count,
    Syscall NR_read [Reg 47, Ptr 0x201a1200, Imm 0x30d4], Count, Syscall NR_close [Reg 47], Count]"

definition min_mysql_pread64_write_29_0_body25 :: "stmt list" where
  "min_mysql_pread64_write_29_0_body25 = [
    Memcpy 0x207b4bc0 (with_nul ''./var/tmp/'') 11,
    Syscall NR_openat [Dir_fd, Ptr 0x207b4bc0, Imm 0x484002, Imm 0x1ff], Count, Save_res 48,
    Memcpy 0x207d3c40 (with_nul ''./var/tmp/'') 11,
    Syscall NR_faccessat2 [Dir_fd, Ptr 0x207d3c40, Imm 0, Imm 0x200], Count,
    Syscall NR_write [Reg 48, Write_buf, Imm 0x927c], Count,
    Syscall NR_pread64 [Reg 48, Ptr 0x207f1b80, Imm 0x4000, Imm 0], Count,
    Syscall NR_pread64 [Reg 48, Ptr 0x20800040, Imm 0x130b, Imm 0x7f71], Count,
    Syscall NR_pread64 [Reg 48, Ptr 0x20807940, Imm 0x4000, Imm 0x3efd], Count,
    Syscall NR_pread64 [Reg 48, Ptr 0x2080ebc0, Imm 0x1482, Imm 0x7dfa], Count, Syscall NR_close [Reg 48],
    Count, Memcpy 0x20819c80 (with_nul ''./var/tmp/'') 11,
    Syscall NR_openat [Dir_fd, Ptr 0x20819c80, Imm 0x484002, Imm 0x1ff], Count, Save_res 49,
    Memcpy 0x2084bf00 (with_nul ''./var/tmp/'') 11,
    Syscall NR_faccessat2 [Dir_fd, Ptr 0x2084bf00, Imm 0, Imm 0x200], Count,
    Syscall NR_write [Reg 49, Write_buf, Imm 0x3264], Count, Syscall NR_lseek [Reg 49, Imm 0, Imm 0], Count,
    Syscall NR_read [Reg 49, Ptr 0x20877d40, Imm 0x3264], Count]"

definition min_mysql_pread64_write_29_0_body26 :: "stmt list" where
  "min_mysql_pread64_write_29_0_body26 = [
    Syscall NR_close [Reg 49], Count, Memcpy 0x20e36c00 (with_nul ''./var/tmp/'') 11,
    Syscall NR_openat [Dir_fd, Ptr 0x20e36c00, Imm 0x484002, Imm 0x1ff], Count, Save_res 50,
    Memcpy 0x20e5e200 (with_nul ''./var/tmp/'') 11,
    Syscall NR_faccessat2 [Dir_fd, Ptr 0x20e5e200, Imm 0, Imm 0x200], Count,
    Syscall NR_write [Reg 50, Write_buf, Imm 0x927c], Count,
    Syscall NR_pread64 [Reg 50, Ptr 0x20eabfc0, Imm 0x4000, Imm 0], Count,
    Syscall NR_pread64 [Reg 50, Ptr 0x20eca8c0, Imm 0x130b, Imm 0x7f71], Count,
    Syscall NR_pread64 [Reg 50, Ptr 0x20ee4900, Imm 0x4000, Imm 0x3efd], Count,
    Syscall NR_pread64 [Reg 50, Ptr 0x20efc6c0, Imm 0x1482, Imm 0x7dfa], Count, Syscall NR_close [Reg 50],
    Count, Memcpy 0x20f0c640 (with_nul ''./var/tmp/'') 11,
    Syscall NR_openat [Dir_fd, Ptr 0x20f0c640, Imm 0x484002, Imm 0x1ff], Count, Save_res 51,
    Memcpy 0x20f17800 (with_nul ''./var/tmp/'') 11,
    Syscall NR_faccessat2 [Dir_fd, Ptr 0x20f17800, Imm 0, Imm 0x200], Count,
    Syscall NR_write [Reg 51, Write_buf, Imm 0x3264], Count, Syscall NR_lseek [Reg 51, Imm 0, Imm 0], Count,
    Syscall NR_read [Reg 51, Ptr 0x20f46500, Imm 0x3264], Count]"

definition min_mysql_pread64_write_29_0_body27 :: "stmt list" where
  "min_mysql_pread64_write_29_0_body27 = [
    Syscall NR_close [Reg 51], Count, Memcpy 0x20f7f100 (with_nul ''./var/tmp/'') 11,
    Syscall NR_openat [Dir_fd, Ptr 0x20f7f100, Imm 0x484002, Imm 0x1ff], Count, Save_res 52,
    Memcpy 0x20fad040 (with_nul ''./var/tmp/'') 11,
    Syscall NR_faccessat2 [Dir_fd, Ptr 0x20fad040, Imm 0, Imm 0x200], Count,
    Syscall NR_write [Reg 52, Write_buf, Imm 0x90ec], Count,
    Syscall NR_pread64 [Reg 52, Ptr 0x20ff0bc0, Imm 0x4000, Imm 0], Count,
    Syscall NR_pread64 [Reg 52, Ptr 0x20017440, Imm 0x1164, Imm 0x7f88], Count,
    Syscall NR_pread64 [Reg 52, Ptr 0x2002aac0, Imm 0x4000, Imm 0x3fc4], Count, Syscall NR_close [Reg 52],
    Count, Memcpy 0x20044280 (with_nul ''./var/tmp/'') 11,
    Syscall NR_openat [Dir_fd, Ptr 0x20044280, Imm 0x484002, Imm 0x1ff], Count, Save_res 53,
    Memcpy 0x20057240 (with_nul ''./var/tmp/'') 11,
    Syscall NR_faccessat2 [Dir_fd, Ptr 0x20057240, Imm 0, Imm 0x200], Count,
    Syscall NR_write [Reg 53, Write_buf, Imm 0x30d4], Count, Syscall NR_lseek [Reg 53, Imm 0, Imm 0], Count,
    Syscall NR_read [Reg 53, Ptr 0x20082540, Imm 0x30d4], Count, Syscall NR_close [Reg 53], Count]"

definition min_mysql_pread64_write_29_0_body28 :: "stmt list" where
  "min_mysql_pread64_write_29_0_body28 = [
    Memcpy 0x20478280 (with_nul ''./var/tmp/'') 11,
    Syscall NR_openat [Dir_fd, Ptr 0x20478280, Imm 0x484002, Imm 0x1ff], Count, Save_res 54,
    Memcpy 0x204d64c0 (with_nul ''./var/tmp/'') 11,
    Syscall NR_faccessat2 [Dir_fd, Ptr 0x204d64c0, Imm 0, Imm 0x200], Count,
    Syscall NR_write [Reg 54, Write_buf, Imm 0x927c], Count,
    Syscall NR_pread64 [Reg 54, Ptr 0x2051b500, Imm 0x4000, Imm 0], Count,
    Syscall NR_pread64 [Reg 54, Ptr 0x20530e00, Imm 0x130b, Imm 0x7f71], Count,
    Syscall NR_pread64 [Reg 54, Ptr 0x20547bc0, Imm 0x4000, Imm 0x3efd], Count,
    Syscall NR_pread64 [Reg 54, Ptr 0x20562800, Imm 0x1482, Imm 0x7dfa], Count, Syscall NR_close [Reg 54],
    Count, Memcpy 0x205811c0 (with_nul ''./var/tmp/'') 11,
    Syscall NR_openat [Dir_fd, Ptr 0x205811c0, Imm 0x484002, Imm 0x1ff], Count, Save_res 55,
    Memcpy 0x205d3700 (with_nul ''./var/tmp/'') 11,
    Syscall NR_faccessat2 [Dir_fd, Ptr 0x205d3700, Imm 0, Imm 0x200], Count,
    Syscall NR_write [Reg 55, Write_buf, Imm 0x3264], Count, Syscall NR_lseek [Reg 55, Imm 0, Imm 0], Count,
    Syscall NR_read [Reg 55, Ptr 0x2060b600, Imm 0x3264], Count]"

definition min_mysql_pread64_write_29_0_body29 :: "stmt list" where
  "min_mysql_pread64_write_29_0_body29 = [
    Syscall NR_close [Reg 55], Count, Memcpy 0x2066f8c0 (with_nul ''./var/tmp/'') 11,
    Syscall NR_openat [Dir_fd, Ptr 0x2066f8c0, Imm 0x484002, Imm 0x1ff], Count, Save_res 56,
    Memcpy 0x206cb840 (with_nul ''./var/tmp/'') 11,
    Syscall NR_faccessat2 [Dir_fd, Ptr 0x206cb840, Imm 0, Imm 0x200], Count,
    Syscall NR_write [Reg 56, Write_buf, Imm 0x90ec], Count,
    Syscall NR_pread64 [Reg 56, Ptr 0x20707dc0, Imm 0x4000, Imm 0], Count,
    Syscall NR_pread64 [Reg 56, Ptr 0x20724440, Imm 0x1164, Imm 0x7f88], Count,
    Syscall NR_pread64 [Reg 56, Ptr 0x20739380, Imm 0x4000, Imm 0x3fc4], Count, Syscall NR_close [Reg 56],
    Count, Memcpy 0x20759440 (with_nul ''./var/tmp/'') 11,
    Syscall NR_openat [Dir_fd, Ptr 0x20759440, Imm 0x484002, Imm 0x1ff], Count, Save_res 57,
    Memcpy 0x207837c0 (with_nul ''./var/tmp/'') 11,
    Syscall NR_faccessat2 [Dir_fd, Ptr 0x207837c0, Imm 0, Imm 0x200], Count,
    Syscall NR_write [Reg 57, Write_buf, Imm 0x30d4], Count, Syscall NR_lseek [Reg 57, Imm 0, Imm 0], Count,
    Syscall NR_read [Reg 57, Ptr 0x207af600, Imm 0x30d4], Count, Syscall NR_close [Reg 57], Count]"

definition min_mysql_pread64_write_29_0_body30 :: "stmt list" where
  "min_mysql_pread64_write_29_0_body30 = [
    Memcpy 0x20b018c0 (with_nul ''./var/tmp/'') 11,
    Syscall NR_openat [Dir_fd, Ptr 0x20b018c0, Imm 0x484002, Imm 0x1ff], Count, Save_res 58,
    Memcpy 0x20b83680 (with_nul ''./var/tmp/'') 11,
    Syscall NR_faccessat2 [Dir_fd, Ptr 0x20b83680, Imm 0, Imm 0x200], Count,
    Syscall NR_write [Reg 58, Write_buf, Imm 0x927c], Count,
    Syscall NR_pread64 [Reg 58, Ptr 0x20bdd440, Imm 0x4000, Imm 0], Count,
    Syscall NR_pread64 [Reg 58, Ptr 0x20c05cc0, Imm 0x130b, Imm 0x7f71], Count,
    Syscall NR_pread64 [Reg 58, Ptr 0x20c25640, Imm 0x4000, Imm 0x3efd], Count,
    Syscall NR_pread64 [Reg 58, Ptr 0x20c49540, Imm 0x1482, Imm 0x7dfa], Count, Syscall NR_close [Reg 58],
    Count, Memcpy 0x20c80040 (with_nul ''./var/tmp/'') 11,
    Syscall NR_openat [Dir_fd, Ptr 0x20c80040, Imm 0x484002, Imm 0x1ff], Count, Save_res 59,
    Memcpy 0x20cc1500 (with_nul ''./var/tmp/'') 11,
    Syscall NR_faccessat2 [Dir_fd, Ptr 0x20cc1500, Imm 0, Imm 0x200], Count,
    Syscall NR_write [Reg 59, Write_buf, Imm 0x3264], Count, Syscall NR_lseek [Reg 59, Imm 0, Imm 0], Count,
    Syscall NR_read [Reg 59, Ptr 0x20d1ad40, Imm 0x3264], Count]"

definition min_mysql_pread64_write_29_0_body31 :: "stmt list" where
  "min_mysql_pread64_write_29_0_body31 = [
    Syscall NR_close [Reg 59], Count, Memcpy 0x20db4cc0 (with_nul ''./var/tmp/'') 11,
    Syscall NR_openat [Dir_fd, Ptr 0x20db4cc0, Imm 0x484002, Imm 0x1ff], Count, Save_res 60,
    Memcpy 0x20e0a600 (with_nul ''./var/tmp/'') 11,
    Syscall NR_faccessat2 [Dir_fd, Ptr 0x20e0a600, Imm 0, Imm 0x200], Count,
    Syscall NR_write [Reg 60, Write_buf, Imm 0x90ec], Count,
    Syscall NR_pread64 [Reg 60, Ptr 0x20e48140, Imm 0x4000, Imm 0], Count,
    Syscall NR_pread64 [Reg 60, Ptr 0x20e5b680, Imm 0x1164, Imm 0x7f88], Count,
    Syscall NR_pread64 [Reg 60, Ptr 0x20e7e3c0, Imm 0x4000, Imm 0x3fc4], Count, Syscall NR_close [Reg 60],
    Count, Memcpy 0x20eaf480 (with_nul ''./var/tmp/'') 11,
    Syscall NR_openat [Dir_fd, Ptr 0x20eaf480, Imm 0x484002, Imm 0x1ff], Count, Save_res 61,
    Memcpy 0x20edc680 (with_nul ''./var/tmp/'') 11,
    Syscall NR_faccessat2 [Dir_fd, Ptr 0x20edc680, Imm 0, Imm 0x200], Count,
    Syscall NR_write [Reg 61, Write_buf, Imm 0x30d4], Count, Syscall NR_lseek [Reg 61, Imm 0, Imm 0], Count,
    Syscall NR_read [Reg 61, Ptr 0x20eff080, Imm 0x30d4], Count, Syscall NR_close [Reg 61], Count]"

definition min_mysql_pread64_write_29_0_body32 :: "stmt list" where
  "min_mysql_pread64_write_29_0_body32 = [
    Memcpy 0x202c3980 (with_nul ''./var/tmp/'') 11,
    Syscall NR_openat [Dir_fd, Ptr 0x202c3980, Imm 0x484002, Imm 0x1ff], Count, Save_res 62,
    Memcpy 0x2030ec80 (with_nul ''./var/tmp/'') 11,
    Syscall NR_faccessat2 [Dir_fd, Ptr 0x2030ec80, Imm 0, Imm 0x200], Count,
    Syscall NR_write [Reg 62, Write_buf, Imm 0x927c], Count,
    Syscall NR_pread64 [Reg 62, Ptr 0x20346540, Imm 0x4000, Imm 0], Count,
    Syscall NR_pread64 [Reg 62, Ptr 0x20377940, Imm 0x130b, Imm 0x7f71], Count,
    Syscall NR_pread64 [Reg 62, Ptr 0x20397cc0, Imm 0x4000, Imm 0x3efd], Count,
    Syscall NR_pread64 [Reg 62, Ptr 0x203d2240, Imm 0x1482, Imm 0x7dfa], Count, Syscall NR_close [Reg 62],
    Count, Memcpy 0x20412700 (with_nul ''./var/tmp/'') 11,
    Syscall NR_openat [Dir_fd, Ptr 0x20412700, Imm 0x484002, Imm 0x1ff], Count, Save_res 63,
    Memcpy 0x2046e6c0 (with_nul ''./var/tmp/'') 11,
    Syscall NR_faccessat2 [Dir_fd, Ptr 0x2046e6c0, Imm 0, Imm 0x200], Count,
    Syscall NR_write [Reg 63, Write_buf, Imm 0x3264], Count, Syscall NR_lseek [Reg 63, Imm 0, Imm 0], Count,
    Syscall NR_read [Reg 63, Ptr 0x204c7180, Imm 0x3264], Count]"

definition min_mysql_pread64_write_29_0_body33 :: "stmt list" where
  "min_mysql_pread64_write_29_0_body33 = [
    Syscall NR_close [Reg 63], Count, Memcpy 0x2054fc00 (with_nul ''./var/tmp/'') 11,
    Syscall NR_openat [Dir_fd, Ptr 0x2054fc00, Imm 0x484002, Imm 0x1ff], Count, Save_res 64,
    Memcpy 0x20589b40 (with_nul ''./var/tmp/'') 11,
    Syscall NR_faccessat2 [Dir_fd, Ptr 0x20589b40, Imm 0, Imm 0x200], Count,
    Syscall NR_write [Reg 64, Write_buf, Imm 0x90ec], Count,
    Syscall NR_pread64 [Reg 64, Ptr 0x205be940, Imm 0x4000, Imm 0], Count,
    Syscall NR_pread64 [Reg 64, Ptr 0x205d0480, Imm 0x1164, Imm 0x7f88], Count,
    Syscall NR_pread64 [Reg 64, Ptr 0x205d9b80, Imm 0x4000, Imm 0x3fc4], Count, Syscall NR_close [Reg 64],
    Count, Memcpy 0x20607ec0 (with_nul ''./var/tmp/'') 11,
    Syscall NR_openat [Dir_fd, Ptr 0x20607ec0, Imm 0x484002, Imm 0x1ff], Count, Save_res 65,
    Memcpy 0x2064fa40 (with_nul ''./var/tmp/'') 11,
    Syscall NR_faccessat2 [Dir_fd, Ptr 0x2064fa40, Imm 0, Imm 0x200], Count,
    Syscall NR_write [Reg 65, Write_buf, Imm 0x30d4], Count, Syscall NR_lseek [Reg 65, Imm 0, Imm 0], Count,
    Syscall NR_read [Reg 65, Ptr 0x2066a540, Imm 0x30d4], Count, Syscall NR_close [Reg 65], Count]"

definition min_mysql_pread64_write_29_0_body34 :: "stmt list" where
  "min_mysql_pread64_write_29_0_body34 = [
    Memcpy 0x209cf0c0 (with_nul ''./var/tmp/'') 11,
    Syscall NR_openat [Dir_fd, Ptr 0x209cf0c0, Imm 0x484002, Imm 0x1ff], Count, Save_res 66,
    Memcpy 0x20a0d500 (with_nul ''./var/tmp/'') 11,
    Syscall NR_faccessat2 [Dir_fd, Ptr 0x20a0d500, Imm 0, Imm 0x200], Count,
    Syscall NR_write [Reg 66, Write_buf, Imm 0x927c], Count,
    Syscall NR_pread64 [Reg 66, Ptr 0x20a38d80, Imm 0x4000, Imm 0], Count,
    Syscall NR_pread64 [Reg 66, Ptr 0x20a5e7c0, Imm 0x130b, Imm 0x7f71], Count,
    Syscall NR_pread64 [Reg 66, Ptr 0x20a78400, Imm 0x4000, Imm 0x3efd], Count,
    Syscall NR_pread64 [Reg 66, Ptr 0x20a92b40, Imm 0x1482, Imm 0x7dfa], Count, Syscall NR_close [Reg 66],
    Count, Memcpy 0x20ad2580 (with_nul ''./var/tmp/'') 11,
    Syscall NR_openat [Dir_fd, Ptr 0x20ad2580, Imm 0x484002, Imm 0x1ff], Count, Save_res 67,
    Memcpy 0x20b1bc00 (with_nul ''./var/tmp/'') 11,
    Syscall NR_faccessat2 [Dir_fd, Ptr 0x20b1bc00, Imm 0, Imm 0x200], Count,
    Syscall NR_write [Reg 67, Write_buf, Imm 0x3264], Count, Syscall NR_lseek [Reg 67, Imm 0, Imm 0], Count,
    Syscall NR_read [Reg 67, Ptr 0x20b83e40, Imm 0x3264], Count]"

definition min_mysql_pread64_write_29_0_body35 :: "stmt list" where
  "min_mysql_pread64_write_29_0_body35 = [
    Syscall NR_close [Reg 67], Count, Memcpy 0x20bffcc0 (with_nul ''./var/tmp/'') 11,
    Syscall NR_openat [Dir_fd, Ptr 0x20bffcc0, Imm 0x484002, Imm 0x1ff], Count, Save_res 68,
    Memcpy 0x20c55580 (with_nul ''./var/tmp/'') 11,
    Syscall NR_faccessat2 [Dir_fd, Ptr 0x20c55580, Imm 0, Imm 0x200], Count,
    Syscall NR_write [Reg 68, Write_buf, Imm 0x90ec], Count,
    Syscall NR_pread64 [Reg 68, Ptr 0x20c82ec0, Imm 0x4000, Imm 0], Count,
    Syscall NR_pread64 [Reg 68, Ptr 0x20c95940, Imm 0x1164, Imm 0x7f88], Count,
    Syscall NR_pread64 [Reg 68, Ptr 0x20c9e940, Imm 0x4000, Imm 0x3fc4], Count, Syscall NR_close [Reg 68],
    Count, Memcpy 0x20cc4000 (with_nul ''./var/tmp/'') 11,
    Syscall NR_openat [Dir_fd, Ptr 0x20cc4000, Imm 0x484002, Imm 0x1ff], Count, Save_res 69,
    Memcpy 0x20cfd440 (with_nul ''./var/tmp/'') 11,
    Syscall NR_faccessat2 [Dir_fd, Ptr 0x20cfd440, Imm 0, Imm 0x200], Count,
    Syscall NR_write [Reg 69, Write_buf, Imm 0x30d4], Count, Syscall NR_lseek [Reg 69, Imm 0, Imm 0], Count,
    Syscall NR_read [Reg 69, Ptr 0x20d2a3c0, Imm 0x30d4], Count, Syscall NR_close [Reg 69], Count]"

definition min_mysql_pread64_write_29_0_body36 :: "stmt list" where
  "min_mysql_pread64_write_29_0_body36 = [
    Memcpy 0x20137900 (with_nul ''./var/tmp/'') 11,
    Syscall NR_openat [Dir_fd, Ptr 0x20137900, Imm 0x484002, Imm 0x1ff], Count, Save_res 70,
    Memcpy 0x2019e700 (with_nul ''./var/tmp/'') 11,
    Syscall NR_faccessat2 [Dir_fd, Ptr 0x2019e700, Imm 0, Imm 0x200], Count,
    Syscall NR_write [Reg 70, Write_buf, Imm 0x90ec], Count,
    Syscall NR_pread64 [Reg 70, Ptr 0x201ed500, Imm 0x4000, Imm 0], Count,
    Syscall NR_pread64 [Reg 70, Ptr 0x201f8180, Imm 0x1164, Imm 0x7f88], Count,
    Syscall NR_pread64 [Reg 70, Ptr 0x20211540, Imm 0x4000, Imm 0x3fc4], Count, Syscall NR_close [Reg 70],
    Count, Memcpy 0x2023ba40 (with_nul ''./var/tmp/'') 11,
    Syscall NR_openat [Dir_fd, Ptr 0x2023ba40, Imm 0x484002, Imm 0x1ff], Count, Save_res 71,
    Memcpy 0x202886c0 (with_nul ''./var/tmp/'') 11,
    Syscall NR_faccessat2 [Dir_fd, Ptr 0x202886c0, Imm 0, Imm 0x200], Count,
    Syscall NR_write [Reg 71, Write_buf, Imm 0x30d4], Count, Syscall NR_lseek [Reg 71, Imm 0, Imm 0], Count,
    Syscall NR_read [Reg 71, Ptr 0x202df2c0, Imm 0x30d4], Count, Syscall NR_close [Reg 71], Count]"

definition min_mysql_pread64_write_29_0_body37 :: "stmt list" where
  "min_mysql_pread64_write_29_0_body37 = [
    Memcpy 0x20c54240 (with_nul ''./var/tmp/'') 11,
    Syscall NR_openat [Dir_fd, Ptr 0x20c54240, Imm 0x484002, Imm 0x1ff], Count, Save_res 72,
    Memcpy 0x20c727c0 (with_nul ''./var/tmp/'') 11,
    Syscall NR_faccessat2 [Dir_fd, Ptr 0x20c727c0, Imm 0, Imm 0x200], Count,
    Syscall NR_write [Reg 72, Write_buf, Imm 0x927c], Count,
    Syscall NR_pread64 [Reg 72, Ptr 0x20ca0e00, Imm 0x4000, Imm 0], Count,
    Syscall NR_pread64 [Reg 72, Ptr 0x20ccaec0, Imm 0x130b, Imm 0x7f71], Count,
    Syscall NR_pread64 [Reg 72, Ptr 0x20cec100, Imm 0x4000, Imm 0x3efd], Count,
    Syscall NR_pread64 [Reg 72, Ptr 0x20cfa740, Imm 0x1482, Imm 0x7dfa], Count, Syscall NR_close [Reg 72],
    Count, Memcpy 0x20d3db40 (with_nul ''./var/tmp/'') 11,
    Syscall NR_openat [Dir_fd, Ptr 0x20d3db40, Imm 0x484002, Imm 0x1ff], Count, Save_res 73,
    Memcpy 0x20d8dc40 (with_nul ''./var/tmp/'') 11,
    Syscall NR_faccessat2 [Dir_fd, Ptr 0x20d8dc40, Imm 0, Imm 0x200], Count,
    Syscall NR_write [Reg 73, Write_buf, Imm 0x3264], Count, Syscall NR_lseek [Reg 73, Imm 0, Imm 0], Count,
    Syscall NR_read [Reg 73, Ptr 0x20dcfd80, Imm 0x3264], Count]"

definition min_mysql_pread64_write_29_0_body38 :: "stmt list" where
  "min_mysql_pread64_write_29_0_body38 = [
    Syscall NR_close [Reg 73], Count, Memcpy 0x20e5c800 (with_nul ''./var/tmp/'') 11,
    Syscall NR_openat [Dir_fd, Ptr 0x20e5c800, Imm 0x484002, Imm 0x1ff], Count, Save_res 74,
    Memcpy 0x20e9fe80 (with_nul ''./var/tmp/'') 11,
    Syscall NR_faccessat2 [Dir_fd, Ptr 0x20e9fe80, Imm 0, Imm 0x200], Count,
    Syscall NR_write [Reg 74, Write_buf, Imm 0x90ec], Count,
    Syscall NR_pread64 [Reg 74, Ptr 0x20ed6d80, Imm 0x4000, Imm 0], Count,
    Syscall NR_pread64 [Reg 74, Ptr 0x20ef1600, Imm 0x1164, Imm 0x7f88], Count,
    Syscall NR_pread64 [Reg 74, Ptr 0x20f05040, Imm 0x4000, Imm 0x3fc4], Count, Syscall NR_close [Reg 74],
    Count, Memcpy 0x20f2d540 (with_nul ''./var/tmp/'') 11,
    Syscall NR_openat [Dir_fd, Ptr 0x20f2d540, Imm 0x484002, Imm 0x1ff], Count, Save_res 75,
    Memcpy 0x20f7b8c0 (with_nul ''./var/tmp/'') 11,
    Syscall NR_faccessat2 [Dir_fd, Ptr 0x20f7b8c0, Imm 0, Imm 0x200], Count,
    Syscall NR_write [Reg 75, Write_buf, Imm 0x30d4], Count, Syscall NR_lseek [Reg 75, Imm 0, Imm 0], Count,
    Syscall NR_read [Reg 75, Ptr 0x20fb5880, Imm 0x30d4], Count, Syscall NR_close [Reg 75], Count]"

definition min_mysql_pread64_write_29_0_body39 :: "stmt list" where
  "min_mysql_pread64_write_29_0_body39 = [
    Memcpy 0x20350c00 (with_nul ''./var/tmp/'') 11,
    Syscall NR_openat [Dir_fd, Ptr 0x20350c00, Imm 0x484002, Imm 0x1ff], Count, Save_res 76,
    Memcpy 0x203b0380 (with_nul ''./var/tmp/'') 11,
    Syscall NR_faccessat2 [Dir_fd, Ptr 0x203b0380, Imm 0, Imm 0x200], Count,
    Syscall NR_write [Reg 76, Write_buf, Imm 0x927c], Count,
    Syscall NR_pread64 [Reg 76, Ptr 0x20409e00, Imm 0x4000, Imm 0], Count,
    Syscall NR_pread64 [Reg 76, Ptr 0x20415b00, Imm 0x130b, Imm 0x7f71], Count,
    Syscall NR_pread64 [Reg 76, Ptr 0x20424680, Imm 0x4000, Imm 0x3efd], Count,
    Syscall NR_pread64 [Reg 76, Ptr 0x20439d00, Imm 0x1482, Imm 0x7dfa], Count, Syscall NR_close [Reg 76],
    Count, Memcpy 0x20475080 (with_nul ''./var/tmp/'') 11,
    Syscall NR_openat [Dir_fd, Ptr 0x20475080, Imm 0x484002, Imm 0x1ff], Count, Save_res 77,
    Memcpy 0x204ce300 (with_nul ''./var/tmp/'') 11,
    Syscall NR_faccessat2 [Dir_fd, Ptr 0x204ce300, Imm 0, Imm 0x200], Count,
    Syscall NR_write [Reg 77, Write_buf, Imm 0x3264], Count, Syscall NR_lseek [Reg 77, Imm 0, Imm 0], Count,
    Syscall NR_read [Reg 77, Ptr 0x20504600, Imm 0x3264], Count]"

definition min_mysql_pread64_write_29_0_body40 :: "stmt list" where
  "min_mysql_pread64_write_29_0_body40 = [
    Syscall NR_close [Reg 77], Count, Memcpy 0x20577f40 (with_nul ''./var/tmp/'') 11,
    Syscall NR_openat [Dir_fd, Ptr 0x20577f40, Imm 0x484002, Imm 0x1ff], Count, Save_res 78,
    Memcpy 0x205d0d40 (with_nul ''./var/tmp/'') 11,
    Syscall NR_faccessat2 [Dir_fd, Ptr 0x205d0d40, Imm 0, Imm 0x200], Count,
    Syscall NR_write [Reg 78, Write_buf, Imm 0x90ec], Count,
    Syscall NR_pread64 [Reg 78, Ptr 0x205ef480, Imm 0x4000, Imm 0], Count,
    Syscall NR_pread64 [Reg 78, Ptr 0x20600d00, Imm 0x1164, Imm 0x7f88], Count,
    Syscall NR_pread64 [Reg 78, Ptr 0x206065c0, Imm 0x4000, Imm 0x3fc4], Count, Syscall NR_close [Reg 78],
    Count, Memcpy 0x20643a00 (with_nul ''./var/tmp/'') 11,
    Syscall NR_openat [Dir_fd, Ptr 0x20643a00, Imm 0x484002, Imm 0x1ff], Count, Save_res 79,
    Memcpy 0x20672980 (with_nul ''./var/tmp/'') 11,
    Syscall NR_faccessat2 [Dir_fd, Ptr 0x20672980, Imm 0, Imm 0x200], Count,
    Syscall NR_write [Reg 79, Write_buf, Imm 0x30d4], Count, Syscall NR_lseek [Reg 79, Imm 0, Imm 0], Count,
    Syscall NR_read [Reg 79, Ptr 0x20696040, Imm 0x30d4], Count, Syscall NR_close [Reg 79], Count]"

definition min_mysql_pread64_write_29_0_body41 :: "stmt list" where
  "min_mysql_pread64_write_29_0_body41 = [
    Memcpy 0x20b2da80 (with_nul ''./var/tmp/'') 11,
    Syscall NR_openat [Dir_fd, Ptr 0x20b2da80, Imm 0x484002, Imm 0x1ff], Count, Save_res 80,
    Memcpy 0x20b61e80 (with_nul ''./var/tmp/'') 11,
    Syscall NR_faccessat2 [Dir_fd, Ptr 0x20b61e80, Imm 0, Imm 0x200], Count,
    Syscall NR_write [Reg 80, Write_buf, Imm 0x927c], Count,
    Syscall NR_pread64 [Reg 80, Ptr 0x20b8cc80, Imm 0x4000, Imm 0], Count,
    Syscall NR_pread64 [Reg 80, Ptr 0x20b9e580, Imm 0x130b, Imm 0x7f71], Count,
    Syscall NR_pread64 [Reg 80, Ptr 0x20bb7580, Imm 0x4000, Imm 0x3efd], Count,
    Syscall NR_pread64 [Reg 80, Ptr 0x20bc6f40, Imm 0x1482, Imm 0x7dfa], Count, Syscall NR_close [Reg 80],
    Count, Memcpy 0x20beb5c0 (with_nul ''./var/tmp/'') 11,
    Syscall NR_openat [Dir_fd, Ptr 0x20beb5c0, Imm 0x484002, Imm 0x1ff], Count, Save_res 81,
    Memcpy 0x20c11500 (with_nul ''./var/tmp/'') 11,
    Syscall NR_faccessat2 [Dir_fd, Ptr 0x20c11500, Imm 0, Imm 0x200], Count,
    Syscall NR_write [Reg 81, Write_buf, Imm 0x3264], Count, Syscall NR_lseek [Reg 81, Imm 0, Imm 0], Count,
    Syscall NR_read [Reg 81, Ptr 0x20c4d8c0, Imm 0x3264], Count]"

definition min_mysql_pread64_write_29_0_body42 :: "stmt list" where
  "min_mysql_pread64_write_29_0_body42 = [
    Syscall NR_close [Reg 81], Count, Memcpy 0x20cbdf40 (with_nul ''./var/tmp/'') 11,
    Syscall NR_openat [Dir_fd, Ptr 0x20cbdf40, Imm 0x484002, Imm 0x1ff], Count, Save_res 82,
    Memcpy 0x20d1c080 (with_nul ''./var/tmp/'') 11,
    Syscall NR_faccessat2 [Dir_fd, Ptr 0x20d1c080, Imm 0, Imm 0x200], Count,
    Syscall NR_write [Reg 82, Write_buf, Imm 0x90ec], Count,
    Syscall NR_pread64 [Reg 82, Ptr 0x20d3bf80, Imm 0x4000, Imm 0], Count,
    Syscall NR_pread64 [Reg 82, Ptr 0x20d41780, Imm 0x1164, Imm 0x7f88], Count,
    Syscall NR_pread64 [Reg 82, Ptr 0x20d4d040, Imm 0x4000, Imm 0x3fc4], Count, Syscall NR_close [Reg 82],
    Count, Memcpy 0x20d63f00 (with_nul ''./var/tmp/'') 11,
    Syscall NR_openat [Dir_fd, Ptr 0x20d63f00, Imm 0x484002, Imm 0x1ff], Count, Save_res 83,
    Memcpy 0x20d7c700 (with_nul ''./var/tmp/'') 11,
    Syscall NR_faccessat2 [Dir_fd, Ptr 0x20d7c700, Imm 0, Imm 0x200], Count,
    Syscall NR_write [Reg 83, Write_buf, Imm 0x30d4], Count, Syscall NR_lseek [Reg 83, Imm 0, Imm 0], Count,
    Syscall NR_read [Reg 83, Ptr 0x20d8fc00, Imm 0x30d4], Count, Syscall NR_close [Reg 83], Count]"

definition min_mysql_pread64_write_29_0_body43 :: "stmt list" where
  "min_mysql_pread64_write_29_0_body43 = [
    Memcpy 0x20272c40 (with_nul ''./var/tmp/'') 11,
    Syscall NR_openat [Dir_fd, Ptr 0x20272c40, Imm 0x484002, Imm 0x1ff], Count, Save_res 84,
    Memcpy 0x202c7940 (with_nul ''./var/tmp/'') 11,
    Syscall NR_faccessat2 [Dir_fd, Ptr 0x202c7940, Imm 0, Imm 0x200], Count,
    Syscall NR_write [Reg 84, Write_buf, Imm 0x927c], Count,
    Syscall NR_pread64 [Reg 84, Ptr 0x202ef6c0, Imm 0x4000, Imm 0], Count,
    Syscall NR_pread64 [Reg 84, Ptr 0x202fc780, Imm 0x130b, Imm 0x7f71], Count,
    Syscall NR_pread64 [Reg 84, Ptr 0x203071c0, Imm 0x4000, Imm 0x3efd], Count,
    Syscall NR_pread64 [Reg 84, Ptr 0x20311780, Imm 0x1482, Imm 0x7dfa], Count, Syscall NR_close [Reg 84],
    Count, Memcpy 0x2033d640 (with_nul ''./var/tmp/'') 11,
    Syscall NR_openat [Dir_fd, Ptr 0x2033d640, Imm 0x484002, Imm 0x1ff], Count, Save_res 85,
    Memcpy 0x20367e40 (with_nul ''./var/tmp/'') 11,
    Syscall NR_faccessat2 [Dir_fd, Ptr 0x20367e40, Imm 0, Imm 0x200], Count,
    Syscall NR_write [Reg 85, Write_buf, Imm 0x3264], Count, Syscall NR_lseek [Reg 85, Imm 0, Imm 0], Count,
    Syscall NR_read [Reg 85, Ptr 0x203aba80, Imm 0x3264], Count]"

definition min_mysql_pread64_write_29_0_body44 :: "stmt list" where
  "min_mysql_pread64_write_29_0_body44 = [
    Memcpy 0x2040e240 (with_nul ''./var/tmp/'') 11,
    Syscall NR_openat [Dir_fd, Ptr 0x2040e240, Imm 0x484002, Imm 0x1ff], Count, Save_res 86,
    Memcpy 0x20448640 (with_nul ''./var/tmp/'') 11,
    Syscall NR_faccessat2 [Dir_fd, Ptr 0x20448640, Imm 0, Imm 0x200], Count,
    Syscall NR_write [Reg 86, Write_buf, Imm 0x90ec], Count,
    Syscall NR_pread64 [Reg 86, Ptr 0x20468180, Imm 0x4000, Imm 0], Count,
    Syscall NR_pread64 [Reg 86, Ptr 0x2046f4c0, Imm 0x1164, Imm 0x7f88], Count,
    Syscall NR_pread64 [Reg 86, Ptr 0x20476b40, Imm 0x4000, Imm 0x3fc4], Count, Syscall NR_close [Reg 86],
    Count, Memcpy 0x20487480 (with_nul ''./var/tmp/'') 11,
    Syscall NR_openat [Dir_fd, Ptr 0x20487480, Imm 0x484002, Imm 0x1ff], Count, Save_res 87,
    Memcpy 0x204a0a80 (with_nul ''./var/tmp/'') 11,
    Syscall NR_faccessat2 [Dir_fd, Ptr 0x204a0a80, Imm 0, Imm 0x200], Count,
    Syscall NR_write [Reg 87, Write_buf, Imm 0x30d4], Count, Syscall NR_lseek [Reg 87, Imm 0, Imm 0], Count,
    Syscall NR_read [Reg 87, Ptr 0x204ad980, Imm 0x30d4], Count, Syscall NR_close [Reg 87], Count]"

definition min_mysql_pread64_write_29_0_body45 :: "stmt list" where
  "min_mysql_pread64_write_29_0_body45 = [
    Memcpy 0x20b4ef80 (with_nul ''./var/tmp/'') 11,
    Syscall NR_openat [Dir_fd, Ptr 0x20b4ef80, Imm 0x484002, Imm 0x1ff], Count, Save_res 88,
    Memcpy 0x20b676c0 (with_nul ''./var/tmp/'') 11,
    Syscall NR_faccessat2 [Dir_fd, Ptr 0x20b676c0, Imm 0, Imm 0x200], Count,
    Syscall NR_write [Reg 88, Write_buf, Imm 0x927c], Count,
    Syscall NR_pread64 [Reg 88, Ptr 0x20b880c0, Imm 0x4000, Imm 0], Count,
    Syscall NR_pread64 [Reg 88, Ptr 0x20b8d7c0, Imm 0x130b, Imm 0x7f71], Count,
    Syscall NR_pread64 [Reg 88, Ptr 0x20b96140, Imm 0x4000, Imm 0x3efd], Count,
    Syscall NR_pread64 [Reg 88, Ptr 0x20b9ba80, Imm 0x1482, Imm 0x7dfa], Count, Syscall NR_close [Reg 88],
    Count, Memcpy 0x20ba3b40 (with_nul ''./var/tmp/'') 11,
    Syscall NR_openat [Dir_fd, Ptr 0x20ba3b40, Imm 0x484002, Imm 0x1ff], Count, Save_res 89,
    Memcpy 0x20badfc0 (with_nul ''./var/tmp/'') 11,
    Syscall NR_faccessat2 [Dir_fd, Ptr 0x20badfc0, Imm 0, Imm 0x200], Count,
    Syscall NR_write [Reg 89, Write_buf, Imm 0x3264], Count, Syscall NR_lseek [Reg 89, Imm 0, Imm 0], Count,
    Syscall NR_read [Reg 89, Ptr 0x20bbe640, Imm 0x3264], Count]"

definition min_mysql_pread64_write_29_0_body46 :: "stmt list" where
  "min_mysql_pread64_write_29_0_body46 = [
    Syscall NR_close [Reg 89], Count, Memcpy 0x20bedac0 (with_nul ''./var/tmp/'') 11,
    Syscall NR_openat [Dir_fd, Ptr 0x20bedac0, Imm 0x484002, Imm 0x1ff], Count, Save_res 90,
    Memcpy 0x20c0c580 (with_nul ''./var/tmp/'') 11,
    Syscall NR_faccessat2 [Dir_fd, Ptr 0x20c0c580, Imm 0, Imm 0x200], Count,
    Syscall NR_write [Reg 90, Write_buf, Imm 0x90ec], Count,
    Syscall NR_pread64 [Reg 90, Ptr 0x20c2bfc0, Imm 0x4000, Imm 0], Count,
    Syscall NR_pread64 [Reg 90, Ptr 0x20c373c0, Imm 0x1164, Imm 0x7f88], Count,
    Syscall NR_pread64 [Reg 90, Ptr 0x20c42c40, Imm 0x4000, Imm 0x3fc4], Count, Syscall NR_close [Reg 90],
    Count, Memcpy 0x20c6cbc0 (with_nul ''./var/tmp/'') 11,
    Syscall NR_openat [Dir_fd, Ptr 0x20c6cbc0, Imm 0x484002, Imm 0x1ff], Count, Save_res 91,
    Memcpy 0x20ca18c0 (with_nul ''./var/tmp/'') 11,
    Syscall NR_faccessat2 [Dir_fd, Ptr 0x20ca18c0, Imm 0, Imm 0x200], Count,
    Syscall NR_write [Reg 91, Write_buf, Imm 0x30d4], Count, Syscall NR_lseek [Reg 91, Imm 0, Imm 0], Count,
    Syscall NR_read [Reg 91, Ptr 0x20ccc4c0, Imm 0x30d4], Count, Syscall NR_close [Reg 91], Count]"

definition min_mysql_pread64_write_29_0_body47 :: "stmt list" where
  "min_mysql_pread64_write_29_0_body47 = [
    Memcpy 0x20056f00 (with_nul ''./var/tmp/'') 11,
    Syscall NR_openat [Dir_fd, Ptr 0x20056f00, Imm 0x484002, Imm 0x1ff], Count, Save_res 92,
    Memcpy 0x200a3780 (with_nul ''./var/tmp/'') 11,
    Syscall NR_faccessat2 [Dir_fd, Ptr 0x200a3780, Imm 0, Imm 0x200], Count,
    Syscall NR_write [Reg 92, Write_buf, Imm 0x927c], Count,
    Syscall NR_pread64 [Reg 92, Ptr 0x200dd1c0, Imm 0x4000, Imm 0], Count,
    Syscall NR_pread64 [Reg 92, Ptr 0x200f1080, Imm 0x130b, Imm 0x7f71], Count,
    Syscall NR_pread64 [Reg 92, Ptr 0x200fbdc0, Imm 0x4000, Imm 0x3efd], Count,
    Syscall NR_pread64 [Reg 92, Ptr 0x20142240, Imm 0x1482, Imm 0x7dfa], Count, Syscall NR_close [Reg 92],
    Count, Memcpy 0x20170c00 (with_nul ''./var/tmp/'') 11,
    Syscall NR_openat [Dir_fd, Ptr 0x20170c00, Imm 0x484002, Imm 0x1ff], Count, Save_res 93,
    Memcpy 0x201aab40 (with_nul ''./var/tmp/'') 11,
    Syscall NR_faccessat2 [Dir_fd, Ptr 0x201aab40, Imm 0, Imm 0x200], Count,
    Syscall NR_write [Reg 93, Write_buf, Imm 0x3264], Count, Syscall NR_lseek [Reg 93, Imm 0, Imm 0], Count,
    Syscall NR_read [Reg 93, Ptr 0x201f4cc0, Imm 0x3264], Count]"

definition min_mysql_pread64_write_29_0_body48 :: "stmt list" where
  "min_mysql_pread64_write_29_0_body48 = [
    Syscall NR_close [Reg 93], Count, Memcpy 0x202572c0 (with_nul ''./var/tmp/'') 11,
    Syscall NR_openat [Dir_fd, Ptr 0x202572c0, Imm 0x484002, Imm 0x1ff], Count, Save_res 94,
    Memcpy 0x2029a100 (with_nul ''./var/tmp/'') 11,
    Syscall NR_faccessat2 [Dir_fd, Ptr 0x2029a100, Imm 0, Imm 0x200], Count,
    Syscall NR_write [Reg 94, Write_buf, Imm 0x90ec], Count,
    Syscall NR_pread64 [Reg 94, Ptr 0x202d26c0, Imm 0x4000, Imm 0], Count,
    Syscall NR_pread64 [Reg 94, Ptr 0x202eb600, Imm 0x1164, Imm 0x7f88], Count,
    Syscall NR_pread64 [Reg 94, Ptr 0x202ff4c0, Imm 0x4000, Imm 0x3fc4], Count, Syscall NR_close [Reg 94],
    Count, Memcpy 0x20339180 (with_nul ''./var/tmp/'') 11,
    Syscall NR_openat [Dir_fd, Ptr 0x20339180, Imm 0x484002, Imm 0x1ff], Count, Save_res 95,
    Memcpy 0x20367a80 (with_nul ''./var/tmp/'') 11,
    Syscall NR_faccessat2 [Dir_fd, Ptr 0x20367a80, Imm 0, Imm 0x200], Count,
    Syscall NR_write [Reg 95, Write_buf, Imm 0x30d4], Count, Syscall NR_lseek [Reg 95, Imm 0, Imm 0], Count,
    Syscall NR_read [Reg 95, Ptr 0x203a1480, Imm 0x30d4], Count, Syscall NR_close [Reg 95], Count]"

definition min_mysql_pread64_write_29_0_body49 :: "stmt list" where
  "min_mysql_pread64_write_29_0_body49 = [
    Memcpy 0x2085b140 (with_nul ''./var/tmp/'') 11,
    Syscall NR_openat [Dir_fd, Ptr 0x2085b140, Imm 0x484002, Imm 0x1ff], Count, Save_res 96,
    Memcpy 0x208addc0 (with_nul ''./var/tmp/'') 11,
    Syscall NR_faccessat2 [Dir_fd, Ptr 0x208addc0, Imm 0, Imm 0x200], Count,
    Syscall NR_write [Reg 96, Write_buf, Imm 0x927c], Count,
    Syscall NR_pread64 [Reg 96, Ptr 0x208f2c40, Imm 0x4000, Imm 0], Count,
    Syscall NR_pread64 [Reg 96, Ptr 0x209043c0, Imm 0x130b, Imm 0x7f71], Count,
    Syscall NR_pread64 [Reg 96, Ptr 0x20926b00, Imm 0x4000, Imm 0x3efd], Count,
    Syscall NR_pread64 [Reg 96, Ptr 0x209567c0, Imm 0x1482, Imm 0x7dfa], Count, Syscall NR_close [Reg 96],
    Count, Memcpy 0x209aef80 (with_nul ''./var/tmp/'') 11,
    Syscall NR_openat [Dir_fd, Ptr 0x209aef80, Imm 0x484002, Imm 0x1ff], Count, Save_res 97,
    Memcpy 0x20a1d580 (with_nul ''./var/tmp/'') 11,
    Syscall NR_faccessat2 [Dir_fd, Ptr 0x20a1d580, Imm 0, Imm 0x200], Count,
    Syscall NR_write [Reg 97, Write_buf, Imm 0x3264], Count, Syscall NR_lseek [Reg 97, Imm 0, Imm 0], Count,
    Syscall NR_read [Reg 97, Ptr 0x20ab53c0, Imm 0x3264], Count]"

definition min_mysql_pread64_write_29_0_body50 :: "stmt list" where
  "min_mysql_pread64_write_29_0_body50 = [
    Syscall NR_close [Reg 97], Count, Memcpy 0x20ba20c0 (with_nul ''./var/tmp/'') 11,
    Syscall NR_openat [Dir_fd, Ptr 0x20ba20c0, Imm 0x484002, Imm 0x1ff], Count, Save_res 98,
    Memcpy 0x20c20500 (with_nul ''./var/tmp/'') 11,
    Syscall NR_faccessat2 [Dir_fd, Ptr 0x20c20500, Imm 0, Imm 0x200], Count,
    Syscall NR_write [Reg 98, Write_buf, Imm 0x90ec], Count,
    Syscall NR_pread64 [Reg 98, Ptr 0x20c5f040, Imm 0x4000, Imm 0], Count,
    Syscall NR_pread64 [Reg 98, Ptr 0x20c70f00, Imm 0x1164, Imm 0x7f88], Count,
    Syscall NR_pread64 [Reg 98, Ptr 0x20c95180, Imm 0x4000, Imm 0x3fc4], Count, Syscall NR_close [Reg 98],
    Count, Memcpy 0x20ccc480 (with_nul ''./var/tmp/'') 11,
    Syscall NR_openat [Dir_fd, Ptr 0x20ccc480, Imm 0x484002, Imm 0x1ff], Count, Save_res 99,
    Memcpy 0x20d38980 (with_nul ''./var/tmp/'') 11,
    Syscall NR_faccessat2 [Dir_fd, Ptr 0x20d38980, Imm 0, Imm 0x200], Count,
    Syscall NR_write [Reg 99, Write_buf, Imm 0x30d4], Count, Syscall NR_lseek [Reg 99, Imm 0, Imm 0], Count,
    Syscall NR_read [Reg 99, Ptr 0x20d82040, Imm 0x30d4], Count, Syscall NR_close [Reg 99], Count]"

definition min_mysql_pread64_write_29_0_body51 :: "stmt list" where
  "min_mysql_pread64_write_29_0_body51 = [
    Memcpy 0x2057e480 (with_nul ''./var/tmp/'') 11,
    Syscall NR_openat [Dir_fd, Ptr 0x2057e480, Imm 0x484002, Imm 0x1ff], Count, Save_res 100,
    Memcpy 0x205a0bc0 (with_nul ''./var/tmp/'') 11,
    Syscall NR_faccessat2 [Dir_fd, Ptr 0x205a0bc0, Imm 0, Imm 0x200], Count,
    Syscall NR_write [Reg 100, Write_buf, Imm 0x927c], Count,
    Syscall NR_pread64 [Reg 100, Ptr 0x205bfa00, Imm 0x4000, Imm 0], Count,
    Syscall NR_pread64 [Reg 100, Ptr 0x205cd780, Imm 0x130b, Imm 0x7f71], Count,
    Syscall NR_pread64 [Reg 100, Ptr 0x205d5c40, Imm 0x4000, Imm 0x3efd], Count,
    Syscall NR_pread64 [Reg 100, Ptr 0x205e3780, Imm 0x1482, Imm 0x7dfa], Count, Syscall NR_close [Reg 100],
    Count, Memcpy 0x205ef940 (with_nul ''./var/tmp/'') 11,
    Syscall NR_openat [Dir_fd, Ptr 0x205ef940, Imm 0x484002, Imm 0x1ff], Count, Save_res 101,
    Memcpy 0x2062dd00 (with_nul ''./var/tmp/'') 11,
    Syscall NR_faccessat2 [Dir_fd, Ptr 0x2062dd00, Imm 0, Imm 0x200], Count,
    Syscall NR_write [Reg 101, Write_buf, Imm 0x3264], Count, Syscall NR_lseek [Reg 101, Imm 0, Imm 0], Count,
    Syscall NR_read [Reg 101, Ptr 0x20642500, Imm 0x3264], Count]"

definition min_mysql_pread64_write_29_0_body52 :: "stmt list" where
  "min_mysql_pread64_write_29_0_body52 = [
    Syscall NR_close [Reg 101], Count, Memcpy 0x206b0e80 (with_nul ''./var/tmp/'') 11,
    Syscall NR_openat [Dir_fd, Ptr 0x206b0e80, Imm 0x484002, Imm 0x1ff], Count, Save_res 102,
    Memcpy 0x2070dac0 (with_nul ''./var/tmp/'') 11,
    Syscall NR_faccessat2 [Dir_fd, Ptr 0x2070dac0, Imm 0, Imm 0x200], Count,
    Syscall NR_write [Reg 102, Write_buf, Imm 0x90ec], Count,
    Syscall NR_pread64 [Reg 102, Ptr 0x20747a80, Imm 0x4000, Imm 0], Count,
    Syscall NR_pread64 [Reg 102, Ptr 0x20755480, Imm 0x1164, Imm 0x7f88], Count,
    Syscall NR_pread64 [Reg 102, Ptr 0x2076b040, Imm 0x4000, Imm 0x3fc4], Count, Syscall NR_close [Reg 102],
    Count, Memcpy 0x20782bc0 (with_nul ''./var/tmp/'') 11,
    Syscall NR_openat [Dir_fd, Ptr 0x20782bc0, Imm 0x484002, Imm 0x1ff], Count, Save_res 103,
    Memcpy 0x207be200 (with_nul ''./var/tmp/'') 11,
    Syscall NR_faccessat2 [Dir_fd, Ptr 0x207be200, Imm 0, Imm 0x200], Count,
    Syscall NR_write [Reg 103, Write_buf, Imm 0x30d4], Count, Syscall NR_lseek [Reg 103, Imm 0, Imm 0], Count,
    Syscall NR_read [Reg 103, Ptr 0x207e3400, Imm 0x30d4], Count, Syscall NR_close [Reg 103], Count]"

definition min_mysql_pread64_write_29_0_body53 :: "stmt list" where
  "min_mysql_pread64_write_29_0_body53 = [
    Memcpy 0x20c96cc0 (with_nul ''./var/tmp/'') 11,
    Syscall NR_openat [Dir_fd, Ptr 0x20c96cc0, Imm 0x484002, Imm 0x1ff], Count, Save_res 104,
    Memcpy 0x20ccc180 (with_nul ''./var/tmp/'') 11,
    Syscall NR_faccessat2 [Dir_fd, Ptr 0x20ccc180, Imm 0, Imm 0x200], Count,
    Syscall NR_write [Reg 104, Write_buf, Imm 0x927c], Count,
    Syscall NR_pread64 [Reg 104, Ptr 0x20d077c0, Imm 0x4000, Imm 0], Count,
    Syscall NR_pread64 [Reg 104, Ptr 0x20d1cfc0, Imm 0x130b, Imm 0x7f71], Count,
    Syscall NR_pread64 [Reg 104, Ptr 0x20d39300, Imm 0x4000, Imm 0x3efd], Count,
    Syscall NR_pread64 [Reg 104, Ptr 0x20d62580, Imm 0x1482, Imm 0x7dfa], Count, Syscall NR_close [Reg 104],
    Count, Memcpy 0x20d9d080 (with_nul ''./var/tmp/'') 11,
    Syscall NR_openat [Dir_fd, Ptr 0x20d9d080, Imm 0x484002, Imm 0x1ff], Count, Save_res 105,
    Memcpy 0x20e0a040 (with_nul ''./var/tmp/'') 11,
    Syscall NR_faccessat2 [Dir_fd, Ptr 0x20e0a040, Imm 0, Imm 0x200], Count,
    Syscall NR_write [Reg 105, Write_buf, Imm 0x3264], Count, Syscall NR_lseek [Reg 105, Imm 0, Imm 0], Count,
    Syscall NR_read [Reg 105, Ptr 0x20e697c0, Imm 0x3264], Count]"

definition min_mysql_pread64_write_29_0_body54 :: "stmt list" where
  "min_mysql_pread64_write_29_0_body54 = [
    Syscall NR_close [Reg 105], Count, Memcpy 0x20ef6fc0 (with_nul ''./var/tmp/'') 11,
    Syscall NR_openat [Dir_fd, Ptr 0x20ef6fc0, Imm 0x484002, Imm 0x1ff], Count, Save_res 106,
    Memcpy 0x20f4e280 (with_nul ''./var/tmp/'') 11,
    Syscall NR_faccessat2 [Dir_fd, Ptr 0x20f4e280, Imm 0, Imm 0x200], Count,
    Syscall NR_write [Reg 106, Write_buf, Imm 0x90ec], Count,
    Syscall NR_pread64 [Reg 106, Ptr 0x20f88ac0, Imm 0x4000, Imm 0], Count,
    Syscall NR_pread64 [Reg 106, Ptr 0x20f96180, Imm 0x1164, Imm 0x7f88], Count,
    Syscall NR_pread64 [Reg 106, Ptr 0x20faf500, Imm 0x4000, Imm 0x3fc4], Count, Syscall NR_close [Reg 106],
    Count, Memcpy 0x20fd9c00 (with_nul ''./var/tmp/'') 11,
    Syscall NR_openat [Dir_fd, Ptr 0x20fd9c00, Imm 0x484002, Imm 0x1ff], Count, Save_res 107,
    Memcpy 0x2001db40 (with_nul ''./var/tmp/'') 11,
    Syscall NR_faccessat2 [Dir_fd, Ptr 0x2001db40, Imm 0, Imm 0x200], Count,
    Syscall NR_write [Reg 107, Write_buf, Imm 0x30d4], Count, Syscall NR_lseek [Reg 107, Imm 0, Imm 0], Count,
    Syscall NR_read [Reg 107, Ptr 0x20073380, Imm 0x30d4], Count, Syscall NR_close [Reg 107], Count]"

definition min_mysql_pread64_write_29_0_body55 :: "stmt list" where
  "min_mysql_pread64_write_29_0_body55 = [
    Memcpy 0x20497080 (with_nul ''./var/tmp/'') 11,
    Syscall NR_openat [Dir_fd, Ptr 0x20497080, Imm 0x484002, Imm 0x1ff], Count, Save_res 108,
    Memcpy 0x204d1040 (with_nul ''./var/tmp/'') 11,
    Syscall NR_faccessat2 [Dir_fd, Ptr 0x204d1040, Imm 0, Imm 0x200], Count,
    Syscall NR_write [Reg 108, Write_buf, Imm 0x927c], Count,
    Syscall NR_pread64 [Reg 108, Ptr 0x204fe940, Imm 0x4000, Imm 0], Count,
    Syscall NR_pread64 [Reg 108, Ptr 0x2050b100, Imm 0x130b, Imm 0x7f71], Count,
    Syscall NR_pread64 [Reg 108, Ptr 0x20531d80, Imm 0x4000, Imm 0x3efd], Count,
    Syscall NR_pread64 [Reg 108, Ptr 0x2055a640, Imm 0x1482, Imm 0x7dfa], Count, Syscall NR_close [Reg 108],
    Count, Memcpy 0x205851c0 (with_nul ''./var/tmp/'') 11,
    Syscall NR_openat [Dir_fd, Ptr 0x205851c0, Imm 0x484002, Imm 0x1ff], Count, Save_res 109,
    Memcpy 0x205c0ec0 (with_nul ''./var/tmp/'') 11,
    Syscall NR_faccessat2 [Dir_fd, Ptr 0x205c0ec0, Imm 0, Imm 0x200], Count,
    Syscall NR_write [Reg 109, Write_buf, Imm 0x3264], Count, Syscall NR_lseek [Reg 109, Imm 0, Imm 0], Count,
    Syscall NR_read [Reg 109, Ptr 0x205f1640, Imm 0x3264], Count]"

definition min_mysql_pread64_write_29_0_body56 :: "stmt list" where
  "min_mysql_pread64_write_29_0_body56 = [
    Syscall NR_close [Reg 109], Count, Memcpy 0x2067f200 (with_nul ''./var/tmp/'') 11,
    Syscall NR_openat [Dir_fd, Ptr 0x2067f200, Imm 0x484002, Imm 0x1ff], Count, Save_res 110,
    Memcpy 0x206a0c40 (with_nul ''./var/tmp/'') 11,
    Syscall NR_faccessat2 [Dir_fd, Ptr 0x206a0c40, Imm 0, Imm 0x200], Count,
    Syscall NR_write [Reg 110, Write_buf, Imm 0x90ec], Count,
    Syscall NR_pread64 [Reg 110, Ptr 0x206b15c0, Imm 0x4000, Imm 0], Count,
    Syscall NR_pread64 [Reg 110, Ptr 0x206bbc40, Imm 0x1164, Imm 0x7f88], Count,
    Syscall NR_pread64 [Reg 110, Ptr 0x206c68c0, Imm 0x4000, Imm 0x3fc4], Count, Syscall NR_close [Reg 110],
    Count, Memcpy 0x206d7980 (with_nul ''./var/tmp/'') 11,
    Syscall NR_openat [Dir_fd, Ptr 0x206d7980, Imm 0x484002, Imm 0x1ff], Count, Save_res 111,
    Memcpy 0x206e6b80 (with_nul ''./var/tmp/'') 11,
    Syscall NR_faccessat2 [Dir_fd, Ptr 0x206e6b80, Imm 0, Imm 0x200], Count,
    Syscall NR_write [Reg 111, Write_buf, Imm 0x30d4], Count, Syscall NR_lseek [Reg 111, Imm 0, Imm 0], Count,
    Syscall NR_read [Reg 111, Ptr 0x206ee080, Imm 0x30d4], Count, Syscall NR_close [Reg 111], Count]"

definition min_mysql_pread64_write_29_0_body57 :: "stmt list" where
  "min_mysql_pread64_write_29_0_body57 = [
    Memcpy 0x20b3d8c0 (with_nul ''./var/tmp/'') 11,
    Syscall NR_openat [Dir_fd, Ptr 0x20b3d8c0, Imm 0x484002, Imm 0x1ff], Count, Save_res 112,
    Memcpy 0x20bb2380 (with_nul ''./var/tmp/'') 11,
    Syscall NR_faccessat2 [Dir_fd, Ptr 0x20bb2380, Imm 0, Imm 0x200], Count,
    Syscall NR_write [Reg 112, Write_buf, Imm 0x927c], Count,
    Syscall NR_pread64 [Reg 112, Ptr 0x20bdba40, Imm 0x4000, Imm 0], Count,
    Syscall NR_pread64 [Reg 112, Ptr 0x20bef540, Imm 0x130b, Imm 0x7f71], Count,
    Syscall NR_pread64 [Reg 112, Ptr 0x20bf7f40, Imm 0x4000, Imm 0x3efd], Count,
    Syscall NR_pread64 [Reg 112, Ptr 0x20c10380, Imm 0x1482, Imm 0x7dfa], Count, Syscall NR_close [Reg 112],
    Count, Memcpy 0x20c32200 (with_nul ''./var/tmp/'') 11,
    Syscall NR_openat [Dir_fd, Ptr 0x20c32200, Imm 0x484002, Imm 0x1ff], Count, Save_res 113,
    Memcpy 0x20c87d80 (with_nul ''./var/tmp/'') 11,
    Syscall NR_faccessat2 [Dir_fd, Ptr 0x20c87d80, Imm 0, Imm 0x200], Count,
    Syscall NR_write [Reg 113, Write_buf, Imm 0x3264], Count, Syscall NR_lseek [Reg 113, Imm 0, Imm 0], Count,
    Syscall NR_read [Reg 113, Ptr 0x20ca4640, Imm 0x3264], Count]"

definition min_mysql_pread64_write_29_0_body58 :: "stmt list" where
  "min_mysql_pread64_write_29_0_body58 = [
    Syscall NR_close [Reg 113], Count, Memcpy 0x20d406c0 (with_nul ''./var/tmp/'') 11,
    Syscall NR_openat [Dir_fd, Ptr 0x20d406c0, Imm 0x484002, Imm 0x1ff], Count, Save_res 114,
    Memcpy 0x20d670c0 (with_nul ''./var/tmp/'') 11,
    Syscall NR_faccessat2 [Dir_fd, Ptr 0x20d670c0, Imm 0, Imm 0x200], Count,
    Syscall NR_write [Reg 114, Write_buf, Imm 0x90ec], Count,
    Syscall NR_pread64 [Reg 114, Ptr 0x20d7b200, Imm 0x4000, Imm 0], Count,
    Syscall NR_pread64 [Reg 114, Ptr 0x20d8ba00, Imm 0x1164, Imm 0x7f88], Count,
    Syscall NR_pread64 [Reg 114, Ptr 0x20d93240, Imm 0x4000, Imm 0x3fc4], Count, Syscall NR_close [Reg 114],
    Count, Memcpy 0x20dbff80 (with_nul ''./var/tmp/'') 11,
    Syscall NR_openat [Dir_fd, Ptr 0x20dbff80, Imm 0x484002, Imm 0x1ff], Count, Save_res 115,
    Memcpy 0x20dd3d00 (with_nul ''./var/tmp/'') 11,
    Syscall NR_faccessat2 [Dir_fd, Ptr 0x20dd3d00, Imm 0, Imm 0x200], Count,
    Syscall NR_write [Reg 115, Write_buf, Imm 0x30d4], Count, Syscall NR_lseek [Reg 115, Imm 0, Imm 0], Count,
    Syscall NR_read [Reg 115, Ptr 0x20de3e80, Imm 0x30d4], Count, Syscall NR_close [Reg 115], Count]"

definition min_mysql_pread64_write_29_0_body59 :: "stmt list" where
  "min_mysql_pread64_write_29_0_body59 = [
    Memcpy 0x202f0300 (with_nul ''./var/tmp/'') 11,
    Syscall NR_openat [Dir_fd, Ptr 0x202f0300, Imm 0x484002, Imm 0x1ff], Count, Save_res 116,
    Memcpy 0x2032fac0 (with_nul ''./var/tmp/'') 11,
    Syscall NR_faccessat2 [Dir_fd, Ptr 0x2032fac0, Imm 0, Imm 0x200], Count,
    Syscall NR_write [Reg 116, Write_buf, Imm 0x927c], Count,
    Syscall NR_pread64 [Reg 116, Ptr 0x2035fbc0, Imm 0x4000, Imm 0], Count,
    Syscall NR_pread64 [Reg 116, Ptr 0x20375e00, Imm 0x130b, Imm 0x7f71], Count,
    Syscall NR_pread64 [Reg 116, Ptr 0x20382140, Imm 0x4000, Imm 0x3efd], Count,
    Syscall NR_pread64 [Reg 116, Ptr 0x20399040, Imm 0x1482, Imm 0x7dfa], Count, Syscall NR_close [Reg 116],
    Count, Memcpy 0x203aa9c0 (with_nul ''./var/tmp/'') 11,
    Syscall NR_openat [Dir_fd, Ptr 0x203aa9c0, Imm 0x484002, Imm 0x1ff], Count, Save_res 117,
    Memcpy 0x203e0a00 (with_nul ''./var/tmp/'') 11,
    Syscall NR_faccessat2 [Dir_fd, Ptr 0x203e0a00, Imm 0, Imm 0x200], Count,
    Syscall NR_write [Reg 117, Write_buf, Imm 0x3264], Count, Syscall NR_lseek [Reg 117, Imm 0, Imm 0], Count,
    Syscall NR_read [Reg 117, Ptr 0x20443980, Imm 0x3264], Count]"

definition min_mysql_pread64_write_29_0_body60 :: "stmt list" where
  "min_mysql_pread64_write_29_0_body60 = [
    Syscall NR_close [Reg 117], Count, Memcpy 0x204dde00 (with_nul ''./var/tmp/'') 11,
    Syscall NR_openat [Dir_fd, Ptr 0x204dde00, Imm 0x484002, Imm 0x1ff], Count, Save_res 118,
    Memcpy 0x20515680 (with_nul ''./var/tmp/'') 11,
    Syscall NR_faccessat2 [Dir_fd, Ptr 0x20515680, Imm 0, Imm 0x200], Count,
    Syscall NR_write [Reg 118, Write_buf, Imm 0x90ec], Count,
    Syscall NR_pread64 [Reg 118, Ptr 0x2054cc00, Imm 0x4000, Imm 0], Count,
    Syscall NR_pread64 [Reg 118, Ptr 0x2055b440, Imm 0x1164, Imm 0x7f88], Count,
    Syscall NR_pread64 [Reg 118, Ptr 0x20573180, Imm 0x4000, Imm 0x3fc4], Count, Syscall NR_close [Reg 118],
    Count, Memcpy 0x20587340 (with_nul ''./var/tmp/'') 11,
    Syscall NR_openat [Dir_fd, Ptr 0x20587340, Imm 0x484002, Imm 0x1ff], Count, Save_res 119,
    Memcpy 0x2059a540 (with_nul ''./var/tmp/'') 11,
    Syscall NR_faccessat2 [Dir_fd, Ptr 0x2059a540, Imm 0, Imm 0x200], Count,
    Syscall NR_write [Reg 119, Write_buf, Imm 0x30d4], Count, Syscall NR_lseek [Reg 119, Imm 0, Imm 0], Count,
    Syscall NR_read [Reg 119, Ptr 0x205b5480, Imm 0x30d4], Count, Syscall NR_close [Reg 119], Count]"

definition min_mysql_pread64_write_29_0_body61 :: "stmt list" where
  "min_mysql_pread64_write_29_0_body61 = [
    Memcpy 0x20a1a6c0 (with_nul ''./var/tmp/'') 11,
    Syscall NR_openat [Dir_fd, Ptr 0x20a1a6c0, Imm 0x484002, Imm 0x1ff], Count, Save_res 120,
    Memcpy 0x20a47200 (with_nul ''./var/tmp/'') 11,
    Syscall NR_faccessat2 [Dir_fd, Ptr 0x20a47200, Imm 0, Imm 0x200], Count,
    Syscall NR_write [Reg 120, Write_buf, Imm 0x927c], Count,
    Syscall NR_pread64 [Reg 120, Ptr 0x20a7ac00, Imm 0x4000, Imm 0], Count,
    Syscall NR_pread64 [Reg 120, Ptr 0x20a91580, Imm 0x130b, Imm 0x7f71], Count,
    Syscall NR_pread64 [Reg 120, Ptr 0x20aa9300, Imm 0x4000, Imm 0x3efd], Count,
    Syscall NR_pread64 [Reg 120, Ptr 0x20ac3ac0, Imm 0x1482, Imm 0x7dfa], Count, Syscall NR_close [Reg 120],
    Count, Memcpy 0x20b114c0 (with_nul ''./var/tmp/'') 11,
    Syscall NR_openat [Dir_fd, Ptr 0x20b114c0, Imm 0x484002, Imm 0x1ff], Count, Save_res 121,
    Memcpy 0x20b5af00 (with_nul ''./var/tmp/'') 11,
    Syscall NR_faccessat2 [Dir_fd, Ptr 0x20b5af00, Imm 0, Imm 0x200], Count,
    Syscall NR_write [Reg 121, Write_buf, Imm 0x3264], Count, Syscall NR_lseek [Reg 121, Imm 0, Imm 0], Count,
    Syscall NR_read [Reg 121, Ptr 0x20b84b80, Imm 0x3264], Count]"

definition min_mysql_pread64_write_29_0_body62 :: "stmt list" where
  "min_mysql_pread64_write_29_0_body62 = [
    Syscall NR_close [Reg 121], Count, Memcpy 0x20bf1440 (with_nul ''./var/tmp/'') 11,
    Syscall NR_openat [Dir_fd, Ptr 0x20bf1440, Imm 0x484002, Imm 0x1ff], Count, Save_res 122,
    Memcpy 0x20c23cc0 (with_nul ''./var/tmp/'') 11,
    Syscall NR_faccessat2 [Dir_fd, Ptr 0x20c23cc0, Imm 0, Imm 0x200], Count,
    Syscall NR_write [Reg 122, Write_buf, Imm 0x90ec], Count,
    Syscall NR_pread64 [Reg 122, Ptr 0x20c61ac0, Imm 0x4000, Imm 0], Count,
    Syscall NR_pread64 [Reg 122, Ptr 0x20c81940, Imm 0x1164, Imm 0x7f88], Count,
    Syscall NR_pread64 [Reg 122, Ptr 0x20c9d8c0, Imm 0x4000, Imm 0x3fc4], Count, Syscall NR_close [Reg 122],
    Count, Memcpy 0x20cd04c0 (with_nul ''./var/tmp/'') 11,
    Syscall NR_openat [Dir_fd, Ptr 0x20cd04c0, Imm 0x484002, Imm 0x1ff], Count, Save_res 123,
    Memcpy 0x20cf9e00 (with_nul ''./var/tmp/'') 11,
    Syscall NR_faccessat2 [Dir_fd, Ptr 0x20cf9e00, Imm 0, Imm 0x200], Count,
    Syscall NR_write [Reg 123, Write_buf, Imm 0x30d4], Count, Syscall NR_lseek [Reg 123, Imm 0, Imm 0], Count,
    Syscall NR_read [Reg 123, Ptr 0x20d24bc0, Imm 0x30d4], Count, Syscall NR_close [Reg 123], Count]"

definition min_mysql_pread64_write_29_0_body63 :: "stmt list" where
  "min_mysql_pread64_write_29_0_body63 = [
    Memcpy 0x203d1cc0 (with_nul ''./var/tmp/'') 11,
    Syscall NR_openat [Dir_fd, Ptr 0x203d1cc0, Imm 0x484002, Imm 0x1ff], Count, Save_res 124,
    Memcpy 0x2041bf80 (with_nul ''./var/tmp/'') 11,
    Syscall NR_faccessat2 [Dir_fd, Ptr 0x2041bf80, Imm 0, Imm 0x200], Count,
    Syscall NR_write [Reg 124, Write_buf, Imm 0x927c], Count,
    Syscall NR_pread64 [Reg 124, Ptr 0x20463900, Imm 0x4000, Imm 0], Count,
    Syscall NR_pread64 [Reg 124, Ptr 0x2049e080, Imm 0x130b, Imm 0x7f71], Count,
    Syscall NR_pread64 [Reg 124, Ptr 0x204eb280, Imm 0x4000, Imm 0x3efd], Count,
    Syscall NR_pread64 [Reg 124, Ptr 0x2050a1c0, Imm 0x1482, Imm 0x7dfa], Count, Syscall NR_close [Reg 124],
    Count, Memcpy 0x20549a80 (with_nul ''./var/tmp/'') 11,
    Syscall NR_openat [Dir_fd, Ptr 0x20549a80, Imm 0x484002, Imm 0x1ff], Count, Save_res 125,
    Memcpy 0x2059d400 (with_nul ''./var/tmp/'') 11,
    Syscall NR_faccessat2 [Dir_fd, Ptr 0x2059d400, Imm 0, Imm 0x200], Count,
    Syscall NR_write [Reg 125, Write_buf, Imm 0x3264], Count, Syscall NR_lseek [Reg 125, Imm 0, Imm 0], Count,
    Syscall NR_read [Reg 125, Ptr 0x20604200, Imm 0x3264], Count]"

definition min_mysql_pread64_write_29_0_body64 :: "stmt list" where
  "min_mysql_pread64_write_29_0_body64 = [
    Syscall NR_close [Reg 125], Count, Memcpy 0x206a4400 (with_nul ''./var/tmp/'') 11,
    Syscall NR_openat [Dir_fd, Ptr 0x206a4400, Imm 0x484002, Imm 0x1ff], Count, Save_res 126,
    Memcpy 0x206f5c40 (with_nul ''./var/tmp/'') 11,
    Syscall NR_faccessat2 [Dir_fd, Ptr 0x206f5c40, Imm 0, Imm 0x200], Count,
    Syscall NR_write [Reg 126, Write_buf, Imm 0x90ec], Count,
    Syscall NR_pread64 [Reg 126, Ptr 0x20761200, Imm 0x4000, Imm 0], Count,
    Syscall NR_pread64 [Reg 126, Ptr 0x2078df40, Imm 0x1164, Imm 0x7f88], Count,
    Syscall NR_pread64 [Reg 126, Ptr 0x207b2500, Imm 0x4000, Imm 0x3fc4], Count, Syscall NR_close [Reg 126],
    Count, Memcpy 0x207df280 (with_nul ''./var/tmp/'') 11,
    Syscall NR_openat [Dir_fd, Ptr 0x207df280, Imm 0x484002, Imm 0x1ff], Count, Save_res 127,
    Memcpy 0x2081ad00 (with_nul ''./var/tmp/'') 11,
    Syscall NR_faccessat2 [Dir_fd, Ptr 0x2081ad00, Imm 0, Imm 0x200], Count,
    Syscall NR_write [Reg 127, Write_buf, Imm 0x30d4], Count, Syscall NR_lseek [Reg 127, Imm 0, Imm 0], Count,
    Syscall NR_read [Reg 127, Ptr 0x2088d340, Imm 0x30d4], Count, Syscall NR_close [Reg 127], Count]"

definition min_mysql_pread64_write_29_0_body65 :: "stmt list" where
  "min_mysql_pread64_write_29_0_body65 = [
    Memcpy 0x20b0da40 (with_nul ''./var/tmp/'') 11,
    Syscall NR_openat [Dir_fd, Ptr 0x20b0da40, Imm 0x484002, Imm 0x1ff], Count, Save_res 128,
    Memcpy 0x20b47ec0 (with_nul ''./var/tmp/'') 11,
    Syscall NR_faccessat2 [Dir_fd, Ptr 0x20b47ec0, Imm 0, Imm 0x200], Count,
    Syscall NR_write [Reg 128, Write_buf, Imm 0x927c], Count,
    Syscall NR_pread64 [Reg 128, Ptr 0x20b6a000, Imm 0x4000, Imm 0], Count,
    Syscall NR_pread64 [Reg 128, Ptr 0x20b7a800, Imm 0x130b, Imm 0x7f71], Count,
    Syscall NR_pread64 [Reg 128, Ptr 0x20b956c0, Imm 0x4000, Imm 0x3efd], Count,
    Syscall NR_pread64 [Reg 128, Ptr 0x20bc6800, Imm 0x1482, Imm 0x7dfa], Count,
    Memcpy 0x20bfb540 (with_nul ''./var/tmp/'') 11,
    Syscall NR_openat [Dir_fd, Ptr 0x20bfb540, Imm 0x484002, Imm 0x1ff], Count, Save_res 129,
    Memcpy 0x20c82180 (with_nul ''./var/tmp/'') 11,
    Syscall NR_faccessat2 [Dir_fd, Ptr 0x20c82180, Imm 0, Imm 0x200], Count,
    Syscall NR_write [Reg 129, Write_buf, Imm 0x3264], Count, Syscall NR_lseek [Reg 129, Imm 0, Imm 0], Count,
    Syscall NR_read [Reg 129, Ptr 0x20ce5100, Imm 0x3264], Count, Syscall NR_close [Reg 129], Count]"

definition min_mysql_pread64_write_29_0_body66 :: "stmt list" where
  "min_mysql_pread64_write_29_0_body66 = [
    Memcpy 0x20d98680 (with_nul ''./var/tmp/'') 11,
    Syscall NR_openat [Dir_fd, Ptr 0x20d98680, Imm 0x484002, Imm 0x1ff], Count, Save_res 130,
    Memcpy 0x20de5880 (with_nul ''./var/tmp/'') 11,
    Syscall NR_faccessat2 [Dir_fd, Ptr 0x20de5880, Imm 0, Imm 0x200], Count,
    Syscall NR_write [Reg 130, Write_buf, Imm 0x90ec], Count,
    Syscall NR_pread64 [Reg 130, Ptr 0x20e20140, Imm 0x4000, Imm 0], Count,
    Syscall NR_pread64 [Reg 130, Ptr 0x20e39000, Imm 0x1164, Imm 0x7f88], Count,
    Syscall NR_pread64 [Reg 130, Ptr 0x20e57d00, Imm 0x4000, Imm 0x3fc4], Count, Syscall NR_close [Reg 130],
    Count, Memcpy 0x20e95040 (with_nul ''./var/tmp/'') 11,
    Syscall NR_openat [Dir_fd, Ptr 0x20e95040, Imm 0x484002, Imm 0x1ff], Count, Save_res 131,
    Memcpy 0x20ee8a40 (with_nul ''./var/tmp/'') 11,
    Syscall NR_faccessat2 [Dir_fd, Ptr 0x20ee8a40, Imm 0, Imm 0x200], Count,
    Syscall NR_write [Reg 131, Write_buf, Imm 0x30d4], Count, Syscall NR_lseek [Reg 131, Imm 0, Imm 0], Count,
    Syscall NR_read [Reg 131, Ptr 0x20f26ac0, Imm 0x30d4], Count, Syscall NR_close [Reg 131], Count]"

definition min_mysql_pread64_write_29_0_body67 :: "stmt list" where
  "min_mysql_pread64_write_29_0_body67 = [
    Memcpy 0x203d7180 (with_nul ''./var/tmp/'') 11,
    Syscall NR_openat [Dir_fd, Ptr 0x203d7180, Imm 0x484002, Imm 0x1ff], Count, Save_res 132,
    Memcpy 0x2042d740 (with_nul ''./var/tmp/'') 11,
    Syscall NR_faccessat2 [Dir_fd, Ptr 0x2042d740, Imm 0, Imm 0x200], Count,
    Syscall NR_write [Reg 132, Write_buf, Imm 0x927c], Count,
    Syscall NR_pread64 [Reg 132, Ptr 0x20474a00, Imm 0x4000, Imm 0], Count,
    Syscall NR_pread64 [Reg 132, Ptr 0x20491180, Imm 0x130b, Imm 0x7f71], Count,
    Syscall NR_pread64 [Reg 132, Ptr 0x204a5080, Imm 0x4000, Imm 0x3efd], Count,
    Syscall NR_pread64 [Reg 132, Ptr 0x204b36c0, Imm 0x1482, Imm 0x7dfa], Count, Syscall NR_close [Reg 132],
    Count, Memcpy 0x204cd680 (with_nul ''./var/tmp/'') 11,
    Syscall NR_openat [Dir_fd, Ptr 0x204cd680, Imm 0x484002, Imm 0x1ff], Count, Save_res 133,
    Memcpy 0x2050d740 (with_nul ''./var/tmp/'') 11,
    Syscall NR_faccessat2 [Dir_fd, Ptr 0x2050d740, Imm 0, Imm 0x200], Count,
    Syscall NR_write [Reg 133, Write_buf, Imm 0x3264], Count, Syscall NR_lseek [Reg 133, Imm 0, Imm 0], Count,
    Syscall NR_read [Reg 133, Ptr 0x20589600, Imm 0x3264], Count]"

definition min_mysql_pread64_write_29_0_body68 :: "stmt list" where
  "min_mysql_pread64_write_29_0_body68 = [
    Syscall NR_close [Reg 133], Count, Memcpy 0x20610940 (with_nul ''./var/tmp/'') 11,
    Syscall NR_openat [Dir_fd, Ptr 0x20610940, Imm 0x484002, Imm 0x1ff], Count, Save_res 134,
    Memcpy 0x2068b540 (with_nul ''./var/tmp/'') 11,
    Syscall NR_faccessat2 [Dir_fd, Ptr 0x2068b540, Imm 0, Imm 0x200], Count,
    Syscall NR_write [Reg 134, Write_buf, Imm 0x90ec], Count,
    Syscall NR_pread64 [Reg 134, Ptr 0x206dc400, Imm 0x4000, Imm 0], Count,
    Syscall NR_pread64 [Reg 134, Ptr 0x206f1f80, Imm 0x1164, Imm 0x7f88], Count,
    Syscall NR_pread64 [Reg 134, Ptr 0x20711e00, Imm 0x4000, Imm 0x3fc4], Count, Syscall NR_close [Reg 134],
    Count, Memcpy 0x2072e000 (with_nul ''./var/tmp/'') 11,
    Syscall NR_openat [Dir_fd, Ptr 0x2072e000, Imm 0x484002, Imm 0x1ff], Count, Save_res 135,
    Memcpy 0x20753e80 (with_nul ''./var/tmp/'') 11,
    Syscall NR_faccessat2 [Dir_fd, Ptr 0x20753e80, Imm 0, Imm 0x200], Count,
    Syscall NR_write [Reg 135, Write_buf, Imm 0x30d4], Count, Syscall NR_lseek [Reg 135, Imm 0, Imm 0], Count,
    Syscall NR_read [Reg 135, Ptr 0x207bd380, Imm 0x30d4], Count, Syscall NR_close [Reg 135], Count]"

definition min_mysql_pread64_write_29_0_body69 :: "stmt list" where
  "min_mysql_pread64_write_29_0_body69 = [
    Memcpy 0x20b77300 (with_nul ''./var/tmp/'') 11,
    Syscall NR_openat [Dir_fd, Ptr 0x20b77300, Imm 0x484002, Imm 0x1ff], Count, Save_res 136,
    Memcpy 0x20bb7040 (with_nul ''./var/tmp/'') 11,
    Syscall NR_faccessat2 [Dir_fd, Ptr 0x20bb7040, Imm 0, Imm 0x200], Count,
    Syscall NR_write [Reg 136, Write_buf, Imm 0x927c], Count,
    Syscall NR_pread64 [Reg 136, Ptr 0x20bf7a00, Imm 0x4000, Imm 0], Count,
    Syscall NR_pread64 [Reg 136, Ptr 0x20c05e00, Imm 0x130b, Imm 0x7f71], Count,
    Syscall NR_pread64 [Reg 136, Ptr 0x20c24c80, Imm 0x4000, Imm 0x3efd], Count,
    Syscall NR_pread64 [Reg 136, Ptr 0x20c454c0, Imm 0x1482, Imm 0x7dfa], Count, Syscall NR_close [Reg 136],
    Count, Memcpy 0x20c7e300 (with_nul ''./var/tmp/'') 11,
    Syscall NR_openat [Dir_fd, Ptr 0x20c7e300, Imm 0x484002, Imm 0x1ff], Count, Save_res 137,
    Memcpy 0x20cba300 (with_nul ''./var/tmp/'') 11,
    Syscall NR_faccessat2 [Dir_fd, Ptr 0x20cba300, Imm 0, Imm 0x200], Count,
    Syscall NR_write [Reg 137, Write_buf, Imm 0x3264], Count, Syscall NR_lseek [Reg 137, Imm 0, Imm 0], Count,
    Syscall NR_read [Reg 137, Ptr 0x20d10d00, Imm 0x3264], Count]"

definition min_mysql_pread64_write_29_0_body70 :: "stmt list" where
  "min_mysql_pread64_write_29_0_body70 = [
    Syscall NR_close [Reg 137], Count, Memcpy 0x20dac200 (with_nul ''./var/tmp/'') 11,
    Syscall NR_openat [Dir_fd, Ptr 0x20dac200, Imm 0x484002, Imm 0x1ff], Count, Save_res 138,
    Memcpy 0x20e1b6c0 (with_nul ''./var/tmp/'') 11,
    Syscall NR_faccessat2 [Dir_fd, Ptr 0x20e1b6c0, Imm 0, Imm 0x200], Count,
    Syscall NR_write [Reg 138, Write_buf, Imm 0x90ec], Count,
    Syscall NR_pread64 [Reg 138, Ptr 0x20e59800, Imm 0x4000, Imm 0], Count,
    Syscall NR_pread64 [Reg 138, Ptr 0x20e692c0, Imm 0x1164, Imm 0x7f88], Count,
    Syscall NR_pread64 [Reg 138, Ptr 0x20e821c0, Imm 0x4000, Imm 0x3fc4], Count, Syscall NR_close [Reg 138],
    Count, Memcpy 0x20ead8c0 (with_nul ''./var/tmp/'') 11,
    Syscall NR_openat [Dir_fd, Ptr 0x20ead8c0, Imm 0x484002, Imm 0x1ff], Count, Save_res 139,
    Memcpy 0x20eef800 (with_nul ''./var/tmp/'') 11,
    Syscall NR_faccessat2 [Dir_fd, Ptr 0x20eef800, Imm 0, Imm 0x200], Count,
    Syscall NR_write [Reg 139, Write_buf, Imm 0x30d4], Count, Syscall NR_lseek [Reg 139, Imm 0, Imm 0], Count,
    Syscall NR_read [Reg 139, Ptr 0x20f17fc0, Imm 0x30d4], Count, Syscall NR_close [Reg 139], Count]"

definition min_mysql_pread64_write_29_0_body71 :: "stmt list" where
  "min_mysql_pread64_write_29_0_body71 = [
    Memcpy 0x2044f880 (with_nul ''./var/tmp/'') 11,
    Syscall NR_openat [Dir_fd, Ptr 0x2044f880, Imm 0x484002, Imm 0x1ff], Count, Save_res 140,
    Memcpy 0x20498dc0 (with_nul ''./var/tmp/'') 11,
    Syscall NR_faccessat2 [Dir_fd, Ptr 0x20498dc0, Imm 0, Imm 0x200], Count,
    Syscall NR_write [Reg 140, Write_buf, Imm 0x927c], Count,
    Syscall NR_pread64 [Reg 140, Ptr 0x204e8700, Imm 0x4000, Imm 0], Count,
    Syscall NR_pread64 [Reg 140, Ptr 0x204f6d00, Imm 0x130b, Imm 0x7f71], Count,
    Syscall NR_pread64 [Reg 140, Ptr 0x20532bc0, Imm 0x4000, Imm 0x3efd], Count,
    Syscall NR_pread64 [Reg 140, Ptr 0x20552940, Imm 0x1482, Imm 0x7dfa], Count, Syscall NR_close [Reg 140],
    Count, Memcpy 0x20576f00 (with_nul ''./var/tmp/'') 11,
    Syscall NR_openat [Dir_fd, Ptr 0x20576f00, Imm 0x484002, Imm 0x1ff], Count, Save_res 141,
    Memcpy 0x205f0fc0 (with_nul ''./var/tmp/'') 11,
    Syscall NR_faccessat2 [Dir_fd, Ptr 0x205f0fc0, Imm 0, Imm 0x200], Count,
    Syscall NR_write [Reg 141, Write_buf, Imm 0x3264], Count, Syscall NR_lseek [Reg 141, Imm 0, Imm 0], Count,
    Syscall NR_read [Reg 141, Ptr 0x2066ab40, Imm 0x3264], Count]"

definition min_mysql_pread64_write_29_0_body72 :: "stmt list" where
  "min_mysql_pread64_write_29_0_body72 = [
    Syscall NR_close [Reg 141], Count, Memcpy 0x206f8280 (with_nul ''./var/tmp/'') 11,
    Syscall NR_openat [Dir_fd, Ptr 0x206f8280, Imm 0x484002, Imm 0x1ff], Count, Save_res 142,
    Memcpy 0x20768300 (with_nul ''./var/tmp/'') 11,
    Syscall NR_faccessat2 [Dir_fd, Ptr 0x20768300, Imm 0, Imm 0x200], Count,
    Syscall NR_write [Reg 142, Write_buf, Imm 0x90ec], Count,
    Syscall NR_pread64 [Reg 142, Ptr 0x207a5400, Imm 0x4000, Imm 0], Count,
    Syscall NR_pread64 [Reg 142, Ptr 0x207d5040, Imm 0x1164, Imm 0x7f88], Count,
    Syscall NR_pread64 [Reg 142, Ptr 0x207ef5c0, Imm 0x4000, Imm 0x3fc4], Count, Syscall NR_close [Reg 142],
    Count, Memcpy 0x2080e100 (with_nul ''./var/tmp/'') 11,
    Syscall NR_openat [Dir_fd, Ptr 0x2080e100, Imm 0x484002, Imm 0x1ff], Count, Save_res 143,
    Memcpy 0x208810c0 (with_nul ''./var/tmp/'') 11,
    Syscall NR_faccessat2 [Dir_fd, Ptr 0x208810c0, Imm 0, Imm 0x200], Count,
    Syscall NR_write [Reg 143, Write_buf, Imm 0x30d4], Count, Syscall NR_lseek [Reg 143, Imm 0, Imm 0], Count,
    Syscall NR_read [Reg 143, Ptr 0x208ede80, Imm 0x30d4], Count, Syscall NR_close [Reg 143], Count]"

definition min_mysql_pread64_write_29_0_body73 :: "stmt list" where
  "min_mysql_pread64_write_29_0_body73 = [
    Memcpy 0x20db9880 (with_nul ''./var/tmp/'') 11,
    Syscall NR_openat [Dir_fd, Ptr 0x20db9880, Imm 0x484002, Imm 0x1ff], Count, Save_res 144,
    Memcpy 0x20dff040 (with_nul ''./var/tmp/'') 11,
    Syscall NR_faccessat2 [Dir_fd, Ptr 0x20dff040, Imm 0, Imm 0x200], Count,
    Syscall NR_write [Reg 144, Write_buf, Imm 0x90ec], Count,
    Syscall NR_pread64 [Reg 144, Ptr 0x20e574c0, Imm 0x4000, Imm 0], Count,
    Syscall NR_pread64 [Reg 144, Ptr 0x20e79100, Imm 0x1164, Imm 0x7f88], Count,
    Syscall NR_pread64 [Reg 144, Ptr 0x20e9a000, Imm 0x4000, Imm 0x3fc4], Count, Syscall NR_close [Reg 144],
    Count, Memcpy 0x20ec36c0 (with_nul ''./var/tmp/'') 11,
    Syscall NR_openat [Dir_fd, Ptr 0x20ec36c0, Imm 0x484002, Imm 0x1ff], Count, Save_res 145,
    Memcpy 0x20ef1600 (with_nul ''./var/tmp/'') 11,
    Syscall NR_faccessat2 [Dir_fd, Ptr 0x20ef1600, Imm 0, Imm 0x200], Count,
    Syscall NR_write [Reg 145, Write_buf, Imm 0x30d4], Count, Syscall NR_lseek [Reg 145, Imm 0, Imm 0], Count,
    Syscall NR_read [Reg 145, Ptr 0x20f26ac0, Imm 0x30d4], Count, Syscall NR_close [Reg 145], Count]"

definition min_mysql_pread64_write_29_0_body74 :: "stmt list" where
  "min_mysql_pread64_write_29_0_body74 = [
    Memcpy 0x203d6ec0 (with_nul ''./var/tmp/'') 11,
    Syscall NR_openat [Dir_fd, Ptr 0x203d6ec0, Imm 0x484002, Imm 0x1ff], Count, Save_res 146,
    Memcpy 0x20404b00 (with_nul ''./var/tmp/'') 11,
    Syscall NR_faccessat2 [Dir_fd, Ptr 0x20404b00, Imm 0, Imm 0x200], Count,
    Syscall NR_write [Reg 146, Write_buf, Imm 0x90ec], Count,
    Syscall NR_pread64 [Reg 146, Ptr 0x2044ea80, Imm 0x4000, Imm 0], Count,
    Syscall NR_pread64 [Reg 146, Ptr 0x20458040, Imm 0x1164, Imm 0x7f88], Count,
    Syscall NR_pread64 [Reg 146, Ptr 0x20461a40, Imm 0x4000, Imm 0x3fc4], Count, Syscall NR_close [Reg 146],
    Count, Memcpy 0x20471880 (with_nul ''./var/tmp/'') 11,
    Syscall NR_openat [Dir_fd, Ptr 0x20471880, Imm 0x484002, Imm 0x1ff], Count, Save_res 147,
    Memcpy 0x20487bc0 (with_nul ''./var/tmp/'') 11,
    Syscall NR_faccessat2 [Dir_fd, Ptr 0x20487bc0, Imm 0, Imm 0x200], Count,
    Syscall NR_write [Reg 147, Write_buf, Imm 0x30d4], Count, Syscall NR_lseek [Reg 147, Imm 0, Imm 0], Count,
    Syscall NR_read [Reg 147, Ptr 0x204a3c40, Imm 0x30d4], Count, Syscall NR_close [Reg 147], Count]"

definition min_mysql_pread64_write_29_0_body75 :: "stmt list" where
  "min_mysql_pread64_write_29_0_body75 = [
    Memcpy 0x20ae51c0 (with_nul ''./var/tmp/'') 11,
    Syscall NR_openat [Dir_fd, Ptr 0x20ae51c0, Imm 0x484002, Imm 0x1ff], Count, Save_res 148,
    Memcpy 0x20b1a040 (with_nul ''./var/tmp/'') 11,
    Syscall NR_faccessat2 [Dir_fd, Ptr 0x20b1a040, Imm 0, Imm 0x200], Count,
    Syscall NR_write [Reg 148, Write_buf, Imm 0x927c], Count,
    Syscall NR_pread64 [Reg 148, Ptr 0x20b336c0, Imm 0x4000, Imm 0], Count,
    Syscall NR_pread64 [Reg 148, Ptr 0x20b48b40, Imm 0x130b, Imm 0x7f71], Count,
    Syscall NR_pread64 [Reg 148, Ptr 0x20b509c0, Imm 0x4000, Imm 0x3efd], Count,
    Syscall NR_pread64 [Reg 148, Ptr 0x20b55e40, Imm 0x1482, Imm 0x7dfa], Count, Syscall NR_close [Reg 148],
    Count, Memcpy 0x20b72e80 (with_nul ''./var/tmp/'') 11,
    Syscall NR_openat [Dir_fd, Ptr 0x20b72e80, Imm 0x484002, Imm 0x1ff], Count, Save_res 149,
    Memcpy 0x20b85e40 (with_nul ''./var/tmp/'') 11,
    Syscall NR_faccessat2 [Dir_fd, Ptr 0x20b85e40, Imm 0, Imm 0x200], Count,
    Syscall NR_write [Reg 149, Write_buf, Imm 0x3264], Count, Syscall NR_lseek [Reg 149, Imm 0, Imm 0], Count,
    Syscall NR_read [Reg 149, Ptr 0x20b9c600, Imm 0x3264], Count]"

definition min_mysql_pread64_write_29_0_body76 :: "stmt list" where
  "min_mysql_pread64_write_29_0_body76 = [
    Syscall NR_close [Reg 149], Count, Memcpy 0x20bd00c0 (with_nul ''./var/tmp/'') 11,
    Syscall NR_openat [Dir_fd, Ptr 0x20bd00c0, Imm 0x484002, Imm 0x1ff], Count, Save_res 150,
    Memcpy 0x20bf0000 (with_nul ''./var/tmp/'') 11,
    Syscall NR_faccessat2 [Dir_fd, Ptr 0x20bf0000, Imm 0, Imm 0x200], Count,
    Syscall NR_write [Reg 150, Write_buf, Imm 0x90ec], Count,
    Syscall NR_pread64 [Reg 150, Ptr 0x20c08340, Imm 0x4000, Imm 0], Count,
    Syscall NR_pread64 [Reg 150, Ptr 0x20c0cbc0, Imm 0x1164, Imm 0x7f88], Count,
    Syscall NR_pread64 [Reg 150, Ptr 0x20c15580, Imm 0x4000, Imm 0x3fc4], Count, Syscall NR_close [Reg 150],
    Count, Memcpy 0x20c28900 (with_nul ''./var/tmp/'') 11,
    Syscall NR_openat [Dir_fd, Ptr 0x20c28900, Imm 0x484002, Imm 0x1ff], Count, Save_res 151,
    Memcpy 0x20c39480 (with_nul ''./var/tmp/'') 11,
    Syscall NR_faccessat2 [Dir_fd, Ptr 0x20c39480, Imm 0, Imm 0x200], Count,
    Syscall NR_write [Reg 151, Write_buf, Imm 0x30d4], Count, Syscall NR_lseek [Reg 151, Imm 0, Imm 0], Count,
    Syscall NR_read [Reg 151, Ptr 0x20c4a3c0, Imm 0x30d4], Count, Syscall NR_close [Reg 151], Count]"

definition min_mysql_pread64_write_29_0_body77 :: "stmt list" where
  "min_mysql_pread64_write_29_0_body77 = [
    Memcpy 0x20170200 (with_nul ''./var/tmp/'') 11,
    Syscall NR_openat [Dir_fd, Ptr 0x20170200, Imm 0x484002, Imm 0x1ff], Count, Save_res 152,
    Memcpy 0x201aa200 (with_nul ''./var/tmp/'') 11,
    Syscall NR_faccessat2 [Dir_fd, Ptr 0x201aa200, Imm 0, Imm 0x200], Count,
    Syscall NR_write [Reg 152, Write_buf, Imm 0x927c], Count,
    Syscall NR_pread64 [Reg 152, Ptr 0x201fc900, Imm 0x4000, Imm 0], Count,
    Syscall NR_pread64 [Reg 152, Ptr 0x2021ed80, Imm 0x130b, Imm 0x7f71], Count,
    Syscall NR_pread64 [Reg 152, Ptr 0x2023d1c0, Imm 0x4000, Imm 0x3efd], Count,
    Syscall NR_pread64 [Reg 152, Ptr 0x20250040, Imm 0x1482, Imm 0x7dfa], Count, Syscall NR_close [Reg 152],
    Count, Memcpy 0x20272600 (with_nul ''./var/tmp/'') 11,
    Syscall NR_openat [Dir_fd, Ptr 0x20272600, Imm 0x484002, Imm 0x1ff], Count, Save_res 153,
    Memcpy 0x2029ed40 (with_nul ''./var/tmp/'') 11,
    Syscall NR_faccessat2 [Dir_fd, Ptr 0x2029ed40, Imm 0, Imm 0x200], Count,
    Syscall NR_write [Reg 153, Write_buf, Imm 0x3264], Count, Syscall NR_lseek [Reg 153, Imm 0, Imm 0], Count,
    Syscall NR_read [Reg 153, Ptr 0x202bc700, Imm 0x3264], Count]"

definition min_mysql_pread64_write_29_0_body78 :: "stmt list" where
  "min_mysql_pread64_write_29_0_body78 = [
    Syscall NR_close [Reg 153], Count, Memcpy 0x202ddd80 (with_nul ''./var/tmp/'') 11,
    Syscall NR_openat [Dir_fd, Ptr 0x202ddd80, Imm 0x484002, Imm 0x1ff], Count, Save_res 154,
    Memcpy 0x2030a8c0 (with_nul ''./var/tmp/'') 11,
    Syscall NR_faccessat2 [Dir_fd, Ptr 0x2030a8c0, Imm 0, Imm 0x200], Count,
    Syscall NR_write [Reg 154, Write_buf, Imm 0x90ec], Count,
    Syscall NR_pread64 [Reg 154, Ptr 0x20337440, Imm 0x4000, Imm 0], Count,
    Syscall NR_pread64 [Reg 154, Ptr 0x203517c0, Imm 0x1164, Imm 0x7f88], Count,
    Syscall NR_pread64 [Reg 154, Ptr 0x2035ae80, Imm 0x4000, Imm 0x3fc4], Count, Syscall NR_close [Reg 154],
    Count, Memcpy 0x20364580 (with_nul ''./var/tmp/'') 11,
    Syscall NR_openat [Dir_fd, Ptr 0x20364580, Imm 0x484002, Imm 0x1ff], Count, Save_res 155,
    Memcpy 0x20374900 (with_nul ''./var/tmp/'') 11,
    Syscall NR_faccessat2 [Dir_fd, Ptr 0x20374900, Imm 0, Imm 0x200], Count,
    Syscall NR_write [Reg 155, Write_buf, Imm 0x30d4], Count, Syscall NR_lseek [Reg 155, Imm 0, Imm 0], Count,
    Syscall NR_read [Reg 155, Ptr 0x2038da40, Imm 0x30d4], Count, Syscall NR_close [Reg 155], Count]"

definition min_mysql_pread64_write_29_0_body79 :: "stmt list" where
  "min_mysql_pread64_write_29_0_body79 = [
    Memcpy 0x209b1980 (with_nul ''./var/tmp/'') 11,
    Syscall NR_openat [Dir_fd, Ptr 0x209b1980, Imm 0x484002, Imm 0x1ff], Count, Save_res 156,
    Memcpy 0x209dc240 (with_nul ''./var/tmp/'') 11,
    Syscall NR_faccessat2 [Dir_fd, Ptr 0x209dc240, Imm 0, Imm 0x200], Count,
    Syscall NR_write [Reg 156, Write_buf, Imm 0x927c], Count,
    Syscall NR_pread64 [Reg 156, Ptr 0x209f2200, Imm 0x4000, Imm 0], Count,
    Syscall NR_pread64 [Reg 156, Ptr 0x20a00100, Imm 0x130b, Imm 0x7f71], Count,
    Syscall NR_pread64 [Reg 156, Ptr 0x20a07d80, Imm 0x4000, Imm 0x3efd], Count,
    Syscall NR_pread64 [Reg 156, Ptr 0x20a1c0c0, Imm 0x1482, Imm 0x7dfa], Count, Syscall NR_close [Reg 156],
    Count, Memcpy 0x20a34300 (with_nul ''./var/tmp/'') 11,
    Syscall NR_openat [Dir_fd, Ptr 0x20a34300, Imm 0x484002, Imm 0x1ff], Count, Save_res 157,
    Memcpy 0x20a48bc0 (with_nul ''./var/tmp/'') 11,
    Syscall NR_faccessat2 [Dir_fd, Ptr 0x20a48bc0, Imm 0, Imm 0x200], Count,
    Syscall NR_write [Reg 157, Write_buf, Imm 0x3264], Count, Syscall NR_lseek [Reg 157, Imm 0, Imm 0], Count,
    Syscall NR_read [Reg 157, Ptr 0x20a79600, Imm 0x3264], Count]"

definition min_mysql_pread64_write_29_0_body80 :: "stmt list" where
  "min_mysql_pread64_write_29_0_body80 = [
    Syscall NR_close [Reg 157], Count, Memcpy 0x20af3700 (with_nul ''./var/tmp/'') 11,
    Syscall NR_openat [Dir_fd, Ptr 0x20af3700, Imm 0x484002, Imm 0x1ff], Count, Save_res 158,
    Memcpy 0x20b1ee00 (with_nul ''./var/tmp/'') 11,
    Syscall NR_faccessat2 [Dir_fd, Ptr 0x20b1ee00, Imm 0, Imm 0x200], Count,
    Syscall NR_write [Reg 158, Write_buf, Imm 0x90ec], Count,
    Syscall NR_pread64 [Reg 158, Ptr 0x20b58980, Imm 0x4000, Imm 0], Count,
    Syscall NR_pread64 [Reg 158, Ptr 0x20b63640, Imm 0x1164, Imm 0x7f88], Count,
    Syscall NR_pread64 [Reg 158, Ptr 0x20b717c0, Imm 0x4000, Imm 0x3fc4], Count, Syscall NR_close [Reg 158],
    Count, Memcpy 0x20b8c440 (with_nul ''./var/tmp/'') 11,
    Syscall NR_openat [Dir_fd, Ptr 0x20b8c440, Imm 0x484002, Imm 0x1ff], Count, Save_res 159,
    Memcpy 0x20ba4480 (with_nul ''./var/tmp/'') 11,
    Syscall NR_faccessat2 [Dir_fd, Ptr 0x20ba4480, Imm 0, Imm 0x200], Count,
    Syscall NR_write [Reg 159, Write_buf, Imm 0x30d4], Count, Syscall NR_lseek [Reg 159, Imm 0, Imm 0], Count,
    Syscall NR_read [Reg 159, Ptr 0x20bc1ac0, Imm 0x30d4], Count, Syscall NR_close [Reg 159], Count]"

definition min_mysql_pread64_write_29_0_body81 :: "stmt list" where
  "min_mysql_pread64_write_29_0_body81 = [
    Memcpy 0x2011b900 (with_nul ''./var/tmp/'') 11,
    Syscall NR_openat [Dir_fd, Ptr 0x2011b900, Imm 0x484002, Imm 0x1ff], Count, Save_res 160,
    Memcpy 0x20148940 (with_nul ''./var/tmp/'') 11,
    Syscall NR_faccessat2 [Dir_fd, Ptr 0x20148940, Imm 0, Imm 0x200], Count,
    Syscall NR_write [Reg 160, Write_buf, Imm 0x927c], Count,
    Syscall NR_pread64 [Reg 160, Ptr 0x2015e140, Imm 0x4000, Imm 0], Count,
    Syscall NR_pread64 [Reg 160, Ptr 0x2017dac0, Imm 0x130b, Imm 0x7f71], Count,
    Syscall NR_pread64 [Reg 160, Ptr 0x20194180, Imm 0x4000, Imm 0x3efd], Count,
    Syscall NR_pread64 [Reg 160, Ptr 0x201b2200, Imm 0x1482, Imm 0x7dfa], Count, Syscall NR_close [Reg 160],
    Count, Memcpy 0x201d93c0 (with_nul ''./var/tmp/'') 11,
    Syscall NR_openat [Dir_fd, Ptr 0x201d93c0, Imm 0x484002, Imm 0x1ff], Count, Save_res 161,
    Memcpy 0x201fa200 (with_nul ''./var/tmp/'') 11,
    Syscall NR_faccessat2 [Dir_fd, Ptr 0x201fa200, Imm 0, Imm 0x200], Count,
    Syscall NR_write [Reg 161, Write_buf, Imm 0x3264], Count, Syscall NR_lseek [Reg 161, Imm 0, Imm 0], Count,
    Syscall NR_read [Reg 161, Ptr 0x202138c0, Imm 0x3264], Count]"

definition min_mysql_pread64_write_29_0_body82 :: "stmt list" where
  "min_mysql_pread64_write_29_0_body82 = [
    Syscall NR_close [Reg 161], Count, Memcpy 0x2025d180 (with_nul ''./var/tmp/'') 11,
    Syscall NR_openat [Dir_fd, Ptr 0x2025d180, Imm 0x484002, Imm 0x1ff], Count, Save_res 162,
    Memcpy 0x2027a480 (with_nul ''./var/tmp/'') 11,
    Syscall NR_faccessat2 [Dir_fd, Ptr 0x2027a480, Imm 0, Imm 0x200], Count,
    Syscall NR_write [Reg 162, Write_buf, Imm 0x90ec], Count,
    Syscall NR_pread64 [Reg 162, Ptr 0x20292d80, Imm 0x4000, Imm 0], Count,
    Syscall NR_pread64 [Reg 162, Ptr 0x202ad440, Imm 0x1164, Imm 0x7f88], Count,
    Syscall NR_pread64 [Reg 162, Ptr 0x202b7c80, Imm 0x4000, Imm 0x3fc4], Count, Syscall NR_close [Reg 162],
    Count, Memcpy 0x202e6a80 (with_nul ''./var/tmp/'') 11,
    Syscall NR_openat [Dir_fd, Ptr 0x202e6a80, Imm 0x484002, Imm 0x1ff], Count, Save_res 163,
    Memcpy 0x20304e00 (with_nul ''./var/tmp/'') 11,
    Syscall NR_faccessat2 [Dir_fd, Ptr 0x20304e00, Imm 0, Imm 0x200], Count,
    Syscall NR_write [Reg 163, Write_buf, Imm 0x30d4], Count, Syscall NR_lseek [Reg 163, Imm 0, Imm 0], Count,
    Syscall NR_read [Reg 163, Ptr 0x20317a80, Imm 0x30d4], Count, Syscall NR_close [Reg 163], Count]"

definition min_mysql_pread64_write_29_0_body83 :: "stmt list" where
  "min_mysql_pread64_write_29_0_body83 = [
    Memcpy 0x2074a680 (with_nul ''./var/tmp/'') 11,
    Syscall NR_openat [Dir_fd, Ptr 0x2074a680, Imm 0x484002, Imm 0x1ff], Count, Save_res 164,
    Memcpy 0x207d6e00 (with_nul ''./var/tmp/'') 11,
    Syscall NR_faccessat2 [Dir_fd, Ptr 0x207d6e00, Imm 0, Imm 0x200], Count,
    Syscall NR_write [Reg 164, Write_buf, Imm 0x927c], Count,
    Syscall NR_pread64 [Reg 164, Ptr 0x2082ce40, Imm 0x4000, Imm 0], Count,
    Syscall NR_pread64 [Reg 164, Ptr 0x2085f680, Imm 0x130b, Imm 0x7f71], Count,
    Syscall NR_pread64 [Reg 164, Ptr 0x2087a340, Imm 0x4000, Imm 0x3efd], Count,
    Syscall NR_pread64 [Reg 164, Ptr 0x2088f6c0, Imm 0x1482, Imm 0x7dfa], Count, Syscall NR_close [Reg 164],
    Count, Memcpy 0x208acc40 (with_nul ''./var/tmp/'') 11,
    Syscall NR_openat [Dir_fd, Ptr 0x208acc40, Imm 0x484002, Imm 0x1ff], Count, Save_res 165,
    Memcpy 0x208de0c0 (with_nul ''./var/tmp/'') 11,
    Syscall NR_faccessat2 [Dir_fd, Ptr 0x208de0c0, Imm 0, Imm 0x200], Count,
    Syscall NR_write [Reg 165, Write_buf, Imm 0x3264], Count, Syscall NR_lseek [Reg 165, Imm 0, Imm 0], Count,
    Syscall NR_read [Reg 165, Ptr 0x20913bc0, Imm 0x3264], Count]"

definition min_mysql_pread64_write_29_0_body84 :: "stmt list" where
  "min_mysql_pread64_write_29_0_body84 = [
    Syscall NR_close [Reg 165], Count, Memcpy 0x20969480 (with_nul ''./var/tmp/'') 11,
    Syscall NR_openat [Dir_fd, Ptr 0x20969480, Imm 0x484002, Imm 0x1ff], Count, Save_res 166,
    Memcpy 0x209b2500 (with_nul ''./var/tmp/'') 11,
    Syscall NR_faccessat2 [Dir_fd, Ptr 0x209b2500, Imm 0, Imm 0x200], Count,
    Syscall NR_write [Reg 166, Write_buf, Imm 0x90ec], Count,
    Syscall NR_pread64 [Reg 166, Ptr 0x209f0700, Imm 0x4000, Imm 0], Count,
    Syscall NR_pread64 [Reg 166, Ptr 0x20a18040, Imm 0x1164, Imm 0x7f88], Count,
    Syscall NR_pread64 [Reg 166, Ptr 0x20a34980, Imm 0x4000, Imm 0x3fc4], Count, Syscall NR_close [Reg 166],
    Count, Memcpy 0x20a4cd40 (with_nul ''./var/tmp/'') 11,
    Syscall NR_openat [Dir_fd, Ptr 0x20a4cd40, Imm 0x484002, Imm 0x1ff], Count, Save_res 167,
    Memcpy 0x20a6d840 (with_nul ''./var/tmp/'') 11,
    Syscall NR_faccessat2 [Dir_fd, Ptr 0x20a6d840, Imm 0, Imm 0x200], Count,
    Syscall NR_write [Reg 167, Write_buf, Imm 0x30d4], Count, Syscall NR_lseek [Reg 167, Imm 0, Imm 0], Count,
    Syscall NR_read [Reg 167, Ptr 0x20aa2a00, Imm 0x30d4], Count, Syscall NR_close [Reg 167], Count]"

definition min_mysql_pread64_write_29_0_body85 :: "stmt list" where
  "min_mysql_pread64_write_29_0_body85 = [
    Memcpy 0x20009280 (with_nul ''./var/tmp/'') 11,
    Syscall NR_openat [Dir_fd, Ptr 0x20009280, Imm 0x484002, Imm 0x1ff], Count, Save_res 168,
    Memcpy 0x2002b940 (with_nul ''./var/tmp/'') 11,
    Syscall NR_faccessat2 [Dir_fd, Ptr 0x2002b940, Imm 0, Imm 0x200], Count,
    Syscall NR_write [Reg 168, Write_buf, Imm 0x927c], Count,
    Syscall NR_pread64 [Reg 168, Ptr 0x2004f340, Imm 0x4000, Imm 0], Count,
    Syscall NR_pread64 [Reg 168, Ptr 0x20057580, Imm 0x130b, Imm 0x7f71], Count,
    Syscall NR_pread64 [Reg 168, Ptr 0x20075dc0, Imm 0x4000, Imm 0x3efd], Count,
    Syscall NR_pread64 [Reg 168, Ptr 0x20088340, Imm 0x1482, Imm 0x7dfa], Count, Syscall NR_close [Reg 168],
    Count, Memcpy 0x200a6100 (with_nul ''./var/tmp/'') 11,
    Syscall NR_openat [Dir_fd, Ptr 0x200a6100, Imm 0x484002, Imm 0x1ff], Count, Save_res 169,
    Memcpy 0x200c0b40 (with_nul ''./var/tmp/'') 11,
    Syscall NR_faccessat2 [Dir_fd, Ptr 0x200c0b40, Imm 0, Imm 0x200], Count,
    Syscall NR_write [Reg 169, Write_buf, Imm 0x3264], Count, Syscall NR_lseek [Reg 169, Imm 0, Imm 0], Count,
    Syscall NR_read [Reg 169, Ptr 0x200eaec0, Imm 0x3264], Count]"

definition min_mysql_pread64_write_29_0_body86 :: "stmt list" where
  "min_mysql_pread64_write_29_0_body86 = [
    Syscall NR_close [Reg 169], Count, Memcpy 0x2017c200 (with_nul ''./var/tmp/'') 11,
    Syscall NR_openat [Dir_fd, Ptr 0x2017c200, Imm 0x484002, Imm 0x1ff], Count, Save_res 170,
    Memcpy 0x2018e700 (with_nul ''./var/tmp/'') 11,
    Syscall NR_faccessat2 [Dir_fd, Ptr 0x2018e700, Imm 0, Imm 0x200], Count,
    Syscall NR_write [Reg 170, Write_buf, Imm 0x90ec], Count,
    Syscall NR_pread64 [Reg 170, Ptr 0x201b3800, Imm 0x4000, Imm 0], Count,
    Syscall NR_pread64 [Reg 170, Ptr 0x201beb40, Imm 0x1164, Imm 0x7f88], Count,
    Syscall NR_pread64 [Reg 170, Ptr 0x201d9840, Imm 0x4000, Imm 0x3fc4], Count, Syscall NR_close [Reg 170],
    Count, Memcpy 0x201f9c80 (with_nul ''./var/tmp/'') 11,
    Syscall NR_openat [Dir_fd, Ptr 0x201f9c80, Imm 0x484002, Imm 0x1ff], Count, Save_res 171,
    Memcpy 0x2020d4c0 (with_nul ''./var/tmp/'') 11,
    Syscall NR_faccessat2 [Dir_fd, Ptr 0x2020d4c0, Imm 0, Imm 0x200], Count,
    Syscall NR_write [Reg 171, Write_buf, Imm 0x30d4], Count, Syscall NR_lseek [Reg 171, Imm 0, Imm 0], Count,
    Syscall NR_read [Reg 171, Ptr 0x20215980, Imm 0x30d4], Count, Syscall NR_close [Reg 171], Count]"

definition min_mysql_pread64_write_29_0_body87 :: "stmt list" where
  "min_mysql_pread64_write_29_0_body87 = [
    Memcpy 0x206fb300 (with_nul ''./var/tmp/'') 11,
    Syscall NR_openat [Dir_fd, Ptr 0x206fb300, Imm 0x484002, Imm 0x1ff], Count, Save_res 172,
    Memcpy 0x20721f00 (with_nul ''./var/tmp/'') 11,
    Syscall NR_faccessat2 [Dir_fd, Ptr 0x20721f00, Imm 0, Imm 0x200], Count,
    Syscall NR_write [Reg 172, Write_buf, Imm 0x927c], Count,
    Syscall NR_pread64 [Reg 172, Ptr 0x2075b000, Imm 0x4000, Imm 0], Count,
    Syscall NR_pread64 [Reg 172, Ptr 0x2076a880, Imm 0x130b, Imm 0x7f71], Count,
    Syscall NR_pread64 [Reg 172, Ptr 0x20790dc0, Imm 0x4000, Imm 0x3efd], Count,
    Syscall NR_pread64 [Reg 172, Ptr 0x207b1d00, Imm 0x1482, Imm 0x7dfa], Count, Syscall NR_close [Reg 172],
    Count, Memcpy 0x207fe740 (with_nul ''./var/tmp/'') 11,
    Syscall NR_openat [Dir_fd, Ptr 0x207fe740, Imm 0x484002, Imm 0x1ff], Count, Save_res 173,
    Memcpy 0x2082b900 (with_nul ''./var/tmp/'') 11,
    Syscall NR_faccessat2 [Dir_fd, Ptr 0x2082b900, Imm 0, Imm 0x200], Count,
    Syscall NR_write [Reg 173, Write_buf, Imm 0x3264], Count, Syscall NR_lseek [Reg 173, Imm 0, Imm 0], Count,
    Syscall NR_read [Reg 173, Ptr 0x208578c0, Imm 0x3264], Count]"

definition min_mysql_pread64_write_29_0_body88 :: "stmt list" where
  "min_mysql_pread64_write_29_0_body88 = [
    Syscall NR_close [Reg 173], Count, Memcpy 0x208d7200 (with_nul ''./var/tmp/'') 11,
    Syscall NR_openat [Dir_fd, Ptr 0x208d7200, Imm 0x484002, Imm 0x1ff], Count, Save_res 174,
    Memcpy 0x20900d80 (with_nul ''./var/tmp/'') 11,
    Syscall NR_faccessat2 [Dir_fd, Ptr 0x20900d80, Imm 0, Imm 0x200], Count,
    Syscall NR_write [Reg 174, Write_buf, Imm 0x90ec], Count,
    Syscall NR_pread64 [Reg 174, Ptr 0x20920f00, Imm 0x4000, Imm 0], Count,
    Syscall NR_pread64 [Reg 174, Ptr 0x209308c0, Imm 0x1164, Imm 0x7f88], Count,
    Syscall NR_pread64 [Reg 174, Ptr 0x2093f600, Imm 0x4000, Imm 0x3fc4], Count, Syscall NR_close [Reg 174],
    Count, Memcpy 0x2095a240 (with_nul ''./var/tmp/'') 11,
    Syscall NR_openat [Dir_fd, Ptr 0x2095a240, Imm 0x484002, Imm 0x1ff], Count, Save_res 175,
    Memcpy 0x20978940 (with_nul ''./var/tmp/'') 11,
    Syscall NR_faccessat2 [Dir_fd, Ptr 0x20978940, Imm 0, Imm 0x200], Count,
    Syscall NR_write [Reg 175, Write_buf, Imm 0x30d4], Count, Syscall NR_lseek [Reg 175, Imm 0, Imm 0], Count,
    Syscall NR_read [Reg 175, Ptr 0x209a4980, Imm 0x30d4], Count, Syscall NR_close [Reg 175], Count]"

definition min_mysql_pread64_write_29_0_body89 :: "stmt list" where
  "min_mysql_pread64_write_29_0_body89 = [
    Memcpy 0x20ea3600 (with_nul ''./var/tmp/'') 11,
    Syscall NR_openat [Dir_fd, Ptr 0x20ea3600, Imm 0x484002, Imm 0x1ff], Count, Save_res 176,
    Memcpy 0x20ee3180 (with_nul ''./var/tmp/'') 11,
    Syscall NR_faccessat2 [Dir_fd, Ptr 0x20ee3180, Imm 0, Imm 0x200], Count,
    Syscall NR_write [Reg 176, Write_buf, Imm 0x927c], Count,
    Syscall NR_pread64 [Reg 176, Ptr 0x20f18e00, Imm 0x4000, Imm 0], Count,
    Syscall NR_pread64 [Reg 176, Ptr 0x20f3d580, Imm 0x130b, Imm 0x7f71], Count,
    Syscall NR_pread64 [Reg 176, Ptr 0x20f50680, Imm 0x4000, Imm 0x3efd], Count,
    Syscall NR_pread64 [Reg 176, Ptr 0x20f5d780, Imm 0x1482, Imm 0x7dfa], Count, Syscall NR_close [Reg 176],
    Count, Memcpy 0x20f88880 (with_nul ''./var/tmp/'') 11,
    Syscall NR_openat [Dir_fd, Ptr 0x20f88880, Imm 0x484002, Imm 0x1ff], Count, Save_res 177,
    Memcpy 0x20fdaf40 (with_nul ''./var/tmp/'') 11,
    Syscall NR_faccessat2 [Dir_fd, Ptr 0x20fdaf40, Imm 0, Imm 0x200], Count,
    Syscall NR_write [Reg 177, Write_buf, Imm 0x3264], Count, Syscall NR_lseek [Reg 177, Imm 0, Imm 0], Count,
    Syscall NR_read [Reg 177, Ptr 0x200a6240, Imm 0x3264], Count]"

definition min_mysql_pread64_write_29_0_body90 :: "stmt list" where
  "min_mysql_pread64_write_29_0_body90 = [
    Syscall NR_close [Reg 177], Count, Memcpy 0x201612c0 (with_nul ''./var/tmp/'') 11,
    Syscall NR_openat [Dir_fd, Ptr 0x201612c0, Imm 0x484002, Imm 0x1ff], Count, Save_res 178,
    Memcpy 0x201c4600 (with_nul ''./var/tmp/'') 11,
    Syscall NR_faccessat2 [Dir_fd, Ptr 0x201c4600, Imm 0, Imm 0x200], Count,
    Syscall NR_write [Reg 178, Write_buf, Imm 0x90ec], Count,
    Syscall NR_pread64 [Reg 178, Ptr 0x20208fc0, Imm 0x4000, Imm 0], Count,
    Syscall NR_pread64 [Reg 178, Ptr 0x20238540, Imm 0x1164, Imm 0x7f88], Count,
    Syscall NR_pread64 [Reg 178, Ptr 0x20257880, Imm 0x4000, Imm 0x3fc4], Count, Syscall NR_close [Reg 178],
    Count, Memcpy 0x20288800 (with_nul ''./var/tmp/'') 11,
    Syscall NR_openat [Dir_fd, Ptr 0x20288800, Imm 0x484002, Imm 0x1ff], Count, Save_res 179,
    Memcpy 0x202cc080 (with_nul ''./var/tmp/'') 11,
    Syscall NR_faccessat2 [Dir_fd, Ptr 0x202cc080, Imm 0, Imm 0x200], Count,
    Syscall NR_write [Reg 179, Write_buf, Imm 0x30d4], Count, Syscall NR_lseek [Reg 179, Imm 0, Imm 0], Count,
    Syscall NR_read [Reg 179, Ptr 0x2033e800, Imm 0x30d4], Count, Syscall NR_close [Reg 179], Count]"

definition min_mysql_pread64_write_29_0_body91 :: "stmt list" where
  "min_mysql_pread64_write_29_0_body91 = [
    Memcpy 0x206d6b80 (with_nul ''./var/tmp/'') 11,
    Syscall NR_openat [Dir_fd, Ptr 0x206d6b80, Imm 0x484002, Imm 0x1ff], Count, Save_res 180,
    Memcpy 0x2070d4c0 (with_nul ''./var/tmp/'') 11,
    Syscall NR_faccessat2 [Dir_fd, Ptr 0x2070d4c0, Imm 0, Imm 0x200], Count,
    Syscall NR_write [Reg 180, Write_buf, Imm 0x927c], Count,
    Syscall NR_pread64 [Reg 180, Ptr 0x20739a00, Imm 0x4000, Imm 0], Count,
    Syscall NR_pread64 [Reg 180, Ptr 0x207447c0, Imm 0x130b, Imm 0x7f71], Count,
    Syscall NR_pread64 [Reg 180, Ptr 0x2074b640, Imm 0x4000, Imm 0x3efd], Count,
    Syscall NR_pread64 [Reg 180, Ptr 0x2075e140, Imm 0x1482, Imm 0x7dfa], Count, Syscall NR_close [Reg 180],
    Count, Memcpy 0x207944c0 (with_nul ''./var/tmp/'') 11,
    Syscall NR_openat [Dir_fd, Ptr 0x207944c0, Imm 0x484002, Imm 0x1ff], Count, Save_res 181,
    Memcpy 0x207e0c00 (with_nul ''./var/tmp/'') 11,
    Syscall NR_faccessat2 [Dir_fd, Ptr 0x207e0c00, Imm 0, Imm 0x200], Count,
    Syscall NR_write [Reg 181, Write_buf, Imm 0x3264], Count, Syscall NR_lseek [Reg 181, Imm 0, Imm 0], Count,
    Syscall NR_read [Reg 181, Ptr 0x2081bd80, Imm 0x3264], Count]"

definition min_mysql_pread64_write_29_0_body92 :: "stmt list" where
  "min_mysql_pread64_write_29_0_body92 = [
    Syscall NR_close [Reg 181], Count, Memcpy 0x20e6e400 (with_nul ''./var/tmp/'') 11,
    Syscall NR_openat [Dir_fd, Ptr 0x20e6e400, Imm 0x484002, Imm 0x1ff], Count, Save_res 182,
    Memcpy 0x20e8ce80 (with_nul ''./var/tmp/'') 11,
    Syscall NR_faccessat2 [Dir_fd, Ptr 0x20e8ce80, Imm 0, Imm 0x200], Count,
    Syscall NR_write [Reg 182, Write_buf, Imm 0x927c], Count,
    Syscall NR_pread64 [Reg 182, Ptr 0x20ec7940, Imm 0x4000, Imm 0], Count,
    Syscall NR_pread64 [Reg 182, Ptr 0x20f06b80, Imm 0x130b, Imm 0x7f71], Count,
    Syscall NR_pread64 [Reg 182, Ptr 0x20f1c300, Imm 0x4000, Imm 0x3efd], Count,
    Syscall NR_pread64 [Reg 182, Ptr 0x20f41340, Imm 0x1482, Imm 0x7dfa], Count, Syscall NR_close [Reg 182],
    Count, Memcpy 0x20f7dc40 (with_nul ''./var/tmp/'') 11,
    Syscall NR_openat [Dir_fd, Ptr 0x20f7dc40, Imm 0x484002, Imm 0x1ff], Count, Save_res 183,
    Memcpy 0x20fc7080 (with_nul ''./var/tmp/'') 11,
    Syscall NR_faccessat2 [Dir_fd, Ptr 0x20fc7080, Imm 0, Imm 0x200], Count,
    Syscall NR_write [Reg 183, Write_buf, Imm 0x3264], Count, Syscall NR_lseek [Reg 183, Imm 0, Imm 0], Count,
    Syscall NR_read [Reg 183, Ptr 0x2000ec40, Imm 0x3264], Count]"

definition min_mysql_pread64_write_29_0_body93 :: "stmt list" where
  "min_mysql_pread64_write_29_0_body93 = [
    Syscall NR_close [Reg 183], Count, Memcpy 0x2016e100 (with_nul ''./var/tmp/'') 11,
    Syscall NR_openat [Dir_fd, Ptr 0x2016e100, Imm 0x484002, Imm 0x1ff], Count, Save_res 184,
    Memcpy 0x201dafc0 (with_nul ''./var/tmp/'') 11,
    Syscall NR_faccessat2 [Dir_fd, Ptr 0x201dafc0, Imm 0, Imm 0x200], Count,
    Syscall NR_write [Reg 184, Write_buf, Imm 0x90ec], Count,
    Syscall NR_pread64 [Reg 184, Ptr 0x2022db00, Imm 0x4000, Imm 0], Count,
    Syscall NR_pread64 [Reg 184, Ptr 0x202551c0, Imm 0x1164, Imm 0x7f88], Count,
    Syscall NR_pread64 [Reg 184, Ptr 0x2027eb80, Imm 0x4000, Imm 0x3fc4], Count, Syscall NR_close [Reg 184],
    Count, Memcpy 0x202c8b40 (with_nul ''./var/tmp/'') 11,
    Syscall NR_openat [Dir_fd, Ptr 0x202c8b40, Imm 0x484002, Imm 0x1ff], Count, Save_res 185,
    Memcpy 0x2034ba40 (with_nul ''./var/tmp/'') 11,
    Syscall NR_faccessat2 [Dir_fd, Ptr 0x2034ba40, Imm 0, Imm 0x200], Count,
    Syscall NR_write [Reg 185, Write_buf, Imm 0x30d4], Count, Syscall NR_lseek [Reg 185, Imm 0, Imm 0], Count,
    Syscall NR_read [Reg 185, Ptr 0x203a1800, Imm 0x30d4], Count, Syscall NR_close [Reg 185], Count]"

definition min_mysql_pread64_write_29_0_body94 :: "stmt list" where
  "min_mysql_pread64_write_29_0_body94 = [
    Memcpy 0x207ea780 (with_nul ''./var/tmp/'') 11,
    Syscall NR_openat [Dir_fd, Ptr 0x207ea780, Imm 0x484002, Imm 0x1ff], Count, Save_res 186,
    Memcpy 0x2087d580 (with_nul ''./var/tmp/'') 11,
    Syscall NR_faccessat2 [Dir_fd, Ptr 0x2087d580, Imm 0, Imm 0x200], Count,
    Syscall NR_write [Reg 186, Write_buf, Imm 0x8ca0], Count,
    Syscall NR_pread64 [Reg 186, Ptr 0x208bb0c0, Imm 0x4000, Imm 0], Count,
    Syscall NR_pread64 [Reg 186, Ptr 0x208dd700, Imm 0xd2f, Imm 0x7f71], Count,
    Syscall NR_pread64 [Reg 186, Ptr 0x208ffdc0, Imm 0x4000, Imm 0x3efd], Count,
    Syscall NR_pread64 [Reg 186, Ptr 0x2091a040, Imm 0xea6, Imm 0x7dfa], Count, Syscall NR_close [Reg 186],
    Count, Memcpy 0x20983ec0 (with_nul ''./var/tmp/'') 11,
    Syscall NR_openat [Dir_fd, Ptr 0x20983ec0, Imm 0x484002, Imm 0x1ff], Count, Save_res 187,
    Memcpy 0x209f1600 (with_nul ''./var/tmp/'') 11,
    Syscall NR_faccessat2 [Dir_fd, Ptr 0x209f1600, Imm 0, Imm 0x200], Count,
    Syscall NR_write [Reg 187, Write_buf, Imm 0x3060], Count, Syscall NR_lseek [Reg 187, Imm 0, Imm 0], Count,
    Syscall NR_read [Reg 187, Ptr 0x20a3b6c0, Imm 0x3060], Count]"

definition min_mysql_pread64_write_29_0_body95 :: "stmt list" where
  "min_mysql_pread64_write_29_0_body95 = [
    Syscall NR_close [Reg 187], Count, Memcpy 0x20b39640 (with_nul ''./var/tmp/'') 11,
    Syscall NR_openat [Dir_fd, Ptr 0x20b39640, Imm 0x484002, Imm 0x1ff], Count, Save_res 188,
    Memcpy 0x20bb3780 (with_nul ''./var/tmp/'') 11,
    Syscall NR_faccessat2 [Dir_fd, Ptr 0x20bb3780, Imm 0, Imm 0x200], Count,
    Syscall NR_write [Reg 188, Write_buf, Imm 0x90ec], Count,
    Syscall NR_pread64 [Reg 188, Ptr 0x20bee4c0, Imm 0x4000, Imm 0], Count,
    Syscall NR_pread64 [Reg 188, Ptr 0x20c0a3c0, Imm 0x1164, Imm 0x7f88], Count,
    Syscall NR_pread64 [Reg 188, Ptr 0x20c227c0, Imm 0x4000, Imm 0x3fc4], Count, Syscall NR_close [Reg 188],
    Count, Memcpy 0x20c80e40 (with_nul ''./var/tmp/'') 11,
    Syscall NR_openat [Dir_fd, Ptr 0x20c80e40, Imm 0x484002, Imm 0x1ff], Count, Save_res 189,
    Memcpy 0x20cc0700 (with_nul ''./var/tmp/'') 11,
    Syscall NR_faccessat2 [Dir_fd, Ptr 0x20cc0700, Imm 0, Imm 0x200], Count,
    Syscall NR_write [Reg 189, Write_buf, Imm 0x30d4], Count, Syscall NR_lseek [Reg 189, Imm 0, Imm 0], Count,
    Syscall NR_read [Reg 189, Ptr 0x20ce4080, Imm 0x30d4], Count, Syscall NR_close [Reg 189], Count]"

definition min_mysql_pread64_write_29_0_body96 :: "stmt list" where
  "min_mysql_pread64_write_29_0_body96 = [
    Memcpy 0x20e7be80 (with_nul ''./var/tmp/'') 11,
    Syscall NR_openat [Dir_fd, Ptr 0x20e7be80, Imm 0x484002, Imm 0x1ff], Count, Save_res 190,
    Memcpy 0x20ee5080 (with_nul ''./var/tmp/'') 11,
    Syscall NR_faccessat2 [Dir_fd, Ptr 0x20ee5080, Imm 0, Imm 0x200], Count,
    Syscall NR_write [Reg 190, Write_buf, Imm 0x927c], Count,
    Syscall NR_pread64 [Reg 190, Ptr 0x20f37580, Imm 0x4000, Imm 0], Count,
    Syscall NR_pread64 [Reg 190, Ptr 0x20f6aac0, Imm 0x130b, Imm 0x7f71], Count,
    Syscall NR_pread64 [Reg 190, Ptr 0x20f8b580, Imm 0x4000, Imm 0x3efd], Count,
    Syscall NR_pread64 [Reg 190, Ptr 0x20fab080, Imm 0x1482, Imm 0x7dfa], Count, Syscall NR_close [Reg 190],
    Count, Memcpy 0x20fedb00 (with_nul ''./var/tmp/'') 11,
    Syscall NR_openat [Dir_fd, Ptr 0x20fedb00, Imm 0x484002, Imm 0x1ff], Count, Save_res 191,
    Memcpy 0x20050900 (with_nul ''./var/tmp/'') 11,
    Syscall NR_faccessat2 [Dir_fd, Ptr 0x20050900, Imm 0, Imm 0x200], Count,
    Syscall NR_write [Reg 191, Write_buf, Imm 0x3264], Count, Syscall NR_lseek [Reg 191, Imm 0, Imm 0], Count,
    Syscall NR_read [Reg 191, Ptr 0x200b2fc0, Imm 0x3264], Count]"

definition min_mysql_pread64_write_29_0_body97 :: "stmt list" where
  "min_mysql_pread64_write_29_0_body97 = [
    Syscall NR_close [Reg 191], Count, Memcpy 0x2018eb40 (with_nul ''./var/tmp/'') 11,
    Syscall NR_openat [Dir_fd, Ptr 0x2018eb40, Imm 0x484002, Imm 0x1ff], Count, Save_res 192,
    Memcpy 0x20224d80 (with_nul ''./var/tmp/'') 11,
    Syscall NR_faccessat2 [Dir_fd, Ptr 0x20224d80, Imm 0, Imm 0x200], Count,
    Syscall NR_write [Reg 192, Write_buf, Imm 0x90ec], Count,
    Syscall NR_pread64 [Reg 192, Ptr 0x20279f00, Imm 0x4000, Imm 0], Count,
    Syscall NR_pread64 [Reg 192, Ptr 0x202a0480, Imm 0x1164, Imm 0x7f88], Count,
    Syscall NR_pread64 [Reg 192, Ptr 0x202ae280, Imm 0x4000, Imm 0x3fc4], Count, Syscall NR_close [Reg 192],
    Count, Memcpy 0x202f3b40 (with_nul ''./var/tmp/'') 11,
    Syscall NR_openat [Dir_fd, Ptr 0x202f3b40, Imm 0x484002, Imm 0x1ff], Count, Save_res 193,
    Memcpy 0x20343900 (with_nul ''./var/tmp/'') 11,
    Syscall NR_faccessat2 [Dir_fd, Ptr 0x20343900, Imm 0, Imm 0x200], Count,
    Syscall NR_write [Reg 193, Write_buf, Imm 0x30d4], Count, Syscall NR_lseek [Reg 193, Imm 0, Imm 0], Count,
    Syscall NR_read [Reg 193, Ptr 0x20384d40, Imm 0x30d4], Count, Syscall NR_close [Reg 193], Count]"

definition min_mysql_pread64_write_29_0_body98 :: "stmt list" where
  "min_mysql_pread64_write_29_0_body98 = [
    Memcpy 0x20be3e80 (with_nul ''./var/tmp/'') 11,
    Syscall NR_openat [Dir_fd, Ptr 0x20be3e80, Imm 0x484002, Imm 0x1ff], Count, Save_res 194,
    Memcpy 0x20bf7440 (with_nul ''./var/tmp/'') 11,
    Syscall NR_faccessat2 [Dir_fd, Ptr 0x20bf7440, Imm 0, Imm 0x200], Count,
    Syscall NR_write [Reg 194, Write_buf, Imm 0x927c], Count,
    Syscall NR_pread64 [Reg 194, Ptr 0x20c0de80, Imm 0x4000, Imm 0], Count,
    Syscall NR_pread64 [Reg 194, Ptr 0x20c1c380, Imm 0x130b, Imm 0x7f71], Count,
    Syscall NR_pread64 [Reg 194, Ptr 0x20c1f180, Imm 0x4000, Imm 0x3efd], Count,
    Syscall NR_pread64 [Reg 194, Ptr 0x20c23300, Imm 0x1482, Imm 0x7dfa], Count, Syscall NR_close [Reg 194],
    Count, Memcpy 0x20c252c0 (with_nul ''./var/tmp/'') 11,
    Syscall NR_openat [Dir_fd, Ptr 0x20c252c0, Imm 0x484002, Imm 0x1ff], Count, Save_res 195,
    Memcpy 0x20c291c0 (with_nul ''./var/tmp/'') 11,
    Syscall NR_faccessat2 [Dir_fd, Ptr 0x20c291c0, Imm 0, Imm 0x200], Count,
    Syscall NR_write [Reg 195, Write_buf, Imm 0x3264], Count, Syscall NR_lseek [Reg 195, Imm 0, Imm 0], Count,
    Syscall NR_read [Reg 195, Ptr 0x20c2fd00, Imm 0x3264], Count]"

definition min_mysql_pread64_write_29_0_body99 :: "stmt list" where
  "min_mysql_pread64_write_29_0_body99 = [
    Syscall NR_close [Reg 195], Count, Memcpy 0x20c44e40 (with_nul ''./var/tmp/'') 11,
    Syscall NR_openat [Dir_fd, Ptr 0x20c44e40, Imm 0x484002, Imm 0x1ff], Count, Save_res 196,
    Memcpy 0x20c4e100 (with_nul ''./var/tmp/'') 11,
    Syscall NR_faccessat2 [Dir_fd, Ptr 0x20c4e100, Imm 0, Imm 0x200], Count,
    Syscall NR_write [Reg 196, Write_buf, Imm 0x90ec], Count,
    Syscall NR_pread64 [Reg 196, Ptr 0x20c57300, Imm 0x4000, Imm 0], Count,
    Syscall NR_pread64 [Reg 196, Ptr 0x20c5b380, Imm 0x1164, Imm 0x7f88], Count,
    Syscall NR_pread64 [Reg 196, Ptr 0x20c5c540, Imm 0x4000, Imm 0x3fc4], Count, Syscall NR_close [Reg 196],
    Count, Memcpy 0x20c66740 (with_nul ''./var/tmp/'') 11,
    Syscall NR_openat [Dir_fd, Ptr 0x20c66740, Imm 0x484002, Imm 0x1ff], Count, Save_res 197,
    Memcpy 0x20c66880 (with_nul ''./var/tmp/'') 11,
    Syscall NR_faccessat2 [Dir_fd, Ptr 0x20c66880, Imm 0, Imm 0x200], Count,
    Syscall NR_write [Reg 197, Write_buf, Imm 0x30d4], Count, Syscall NR_lseek [Reg 197, Imm 0, Imm 0], Count,
    Syscall NR_read [Reg 197, Ptr 0x20c6cbc0, Imm 0x30d4], Count, Syscall NR_close [Reg 197], Count]"

definition min_mysql_pread64_write_29_0_body100 :: "stmt list" where
  "min_mysql_pread64_write_29_0_body100 = [
    Memcpy 0x20047e80 (with_nul ''./var/tmp/'') 11,
    Syscall NR_openat [Dir_fd, Ptr 0x20047e80, Imm 0x484002, Imm 0x1ff], Count, Save_res 198,
    Memcpy 0x20092fc0 (with_nul ''./var/tmp/'') 11,
    Syscall NR_faccessat2 [Dir_fd, Ptr 0x20092fc0, Imm 0, Imm 0x200], Count,
    Syscall NR_write [Reg 198, Write_buf, Imm 0x927c], Count,
    Syscall NR_pread64 [Reg 198, Ptr 0x200e7cc0, Imm 0x4000, Imm 0], Count,
    Syscall NR_pread64 [Reg 198, Ptr 0x20104cc0, Imm 0x130b, Imm 0x7f71], Count,
    Syscall NR_pread64 [Reg 198, Ptr 0x2012c680, Imm 0x4000, Imm 0x3efd], Count,
    Syscall NR_pread64 [Reg 198, Ptr 0x20141380, Imm 0x1482, Imm 0x7dfa], Count, Syscall NR_close [Reg 198],
    Count, Memcpy 0x201816c0 (with_nul ''./var/tmp/'') 11,
    Syscall NR_openat [Dir_fd, Ptr 0x201816c0, Imm 0x484002, Imm 0x1ff], Count, Save_res 199,
    Memcpy 0x201d3680 (with_nul ''./var/tmp/'') 11,
    Syscall NR_faccessat2 [Dir_fd, Ptr 0x201d3680, Imm 0, Imm 0x200], Count,
    Syscall NR_write [Reg 199, Write_buf, Imm 0x3264], Count, Syscall NR_lseek [Reg 199, Imm 0, Imm 0], Count,
    Syscall NR_read [Reg 199, Ptr 0x2024c340, Imm 0x3264], Count]"

definition min_mysql_pread64_write_29_0_body101 :: "stmt list" where
  "min_mysql_pread64_write_29_0_body101 = [
    Syscall NR_close [Reg 199], Count, Memcpy 0x202fdd40 (with_nul ''./var/tmp/'') 11,
    Syscall NR_openat [Dir_fd, Ptr 0x202fdd40, Imm 0x484002, Imm 0x1ff], Count, Save_res 200,
    Memcpy 0x203308c0 (with_nul ''./var/tmp/'') 11,
    Syscall NR_faccessat2 [Dir_fd, Ptr 0x203308c0, Imm 0, Imm 0x200], Count,
    Syscall NR_write [Reg 200, Write_buf, Imm 0x90ec], Count,
    Syscall NR_pread64 [Reg 200, Ptr 0x20356480, Imm 0x4000, Imm 0], Count,
    Syscall NR_pread64 [Reg 200, Ptr 0x20361600, Imm 0x1164, Imm 0x7f88], Count,
    Syscall NR_pread64 [Reg 200, Ptr 0x2036c300, Imm 0x4000, Imm 0x3fc4], Count, Syscall NR_close [Reg 200],
    Count, Memcpy 0x2037c740 (with_nul ''./var/tmp/'') 11,
    Syscall NR_openat [Dir_fd, Ptr 0x2037c740, Imm 0x484002, Imm 0x1ff], Count, Save_res 201,
    Memcpy 0x20387c40 (with_nul ''./var/tmp/'') 11,
    Syscall NR_faccessat2 [Dir_fd, Ptr 0x20387c40, Imm 0, Imm 0x200], Count,
    Syscall NR_write [Reg 201, Write_buf, Imm 0x30d4], Count, Syscall NR_lseek [Reg 201, Imm 0, Imm 0], Count,
    Syscall NR_read [Reg 201, Ptr 0x203914c0, Imm 0x30d4], Count, Syscall NR_close [Reg 201], Count]"

definition min_mysql_pread64_write_29_0_body102 :: "stmt list" where
  "min_mysql_pread64_write_29_0_body102 = [
    Memcpy 0x207dcb40 (with_nul ''./var/tmp/'') 11,
    Syscall NR_openat [Dir_fd, Ptr 0x207dcb40, Imm 0x484002, Imm 0x1ff], Count, Save_res 202,
    Memcpy 0x2082ab00 (with_nul ''./var/tmp/'') 11,
    Syscall NR_faccessat2 [Dir_fd, Ptr 0x2082ab00, Imm 0, Imm 0x200], Count,
    Syscall NR_write [Reg 202, Write_buf, Imm 0x927c], Count,
    Syscall NR_pread64 [Reg 202, Ptr 0x20863ec0, Imm 0x4000, Imm 0], Count,
    Syscall NR_pread64 [Reg 202, Ptr 0x2089e100, Imm 0x130b, Imm 0x7f71], Count,
    Syscall NR_pread64 [Reg 202, Ptr 0x208b0f80, Imm 0x4000, Imm 0x3efd], Count,
    Syscall NR_pread64 [Reg 202, Ptr 0x208ccd80, Imm 0x1482, Imm 0x7dfa], Count, Syscall NR_close [Reg 202],
    Count, Memcpy 0x208ed600 (with_nul ''./var/tmp/'') 11,
    Syscall NR_openat [Dir_fd, Ptr 0x208ed600, Imm 0x484002, Imm 0x1ff], Count, Save_res 203,
    Memcpy 0x2093ca80 (with_nul ''./var/tmp/'') 11,
    Syscall NR_faccessat2 [Dir_fd, Ptr 0x2093ca80, Imm 0, Imm 0x200], Count,
    Syscall NR_write [Reg 203, Write_buf, Imm 0x3264], Count, Syscall NR_lseek [Reg 203, Imm 0, Imm 0], Count,
    Syscall NR_read [Reg 203, Ptr 0x2098c340, Imm 0x3264], Count]"

definition min_mysql_pread64_write_29_0_body103 :: "stmt list" where
  "min_mysql_pread64_write_29_0_body103 = [
    Syscall NR_close [Reg 203], Count, Memcpy 0x209ee380 (with_nul ''./var/tmp/'') 11,
    Syscall NR_openat [Dir_fd, Ptr 0x209ee380, Imm 0x484002, Imm 0x1ff], Count, Save_res 204,
    Memcpy 0x20a16fc0 (with_nul ''./var/tmp/'') 11,
    Syscall NR_faccessat2 [Dir_fd, Ptr 0x20a16fc0, Imm 0, Imm 0x200], Count,
    Syscall NR_write [Reg 204, Write_buf, Imm 0x90ec], Count,
    Syscall NR_pread64 [Reg 204, Ptr 0x20a33f00, Imm 0x4000, Imm 0], Count,
    Syscall NR_pread64 [Reg 204, Ptr 0x20a41b80, Imm 0x1164, Imm 0x7f88], Count,
    Syscall NR_pread64 [Reg 204, Ptr 0x20a49800, Imm 0x4000, Imm 0x3fc4], Count, Syscall NR_close [Reg 204],
    Count, Memcpy 0x20a68b00 (with_nul ''./var/tmp/'') 11,
    Syscall NR_openat [Dir_fd, Ptr 0x20a68b00, Imm 0x484002, Imm 0x1ff], Count, Save_res 205,
    Memcpy 0x20aa75c0 (with_nul ''./var/tmp/'') 11,
    Syscall NR_faccessat2 [Dir_fd, Ptr 0x20aa75c0, Imm 0, Imm 0x200], Count,
    Syscall NR_write [Reg 205, Write_buf, Imm 0x30d4], Count, Syscall NR_lseek [Reg 205, Imm 0, Imm 0], Count,
    Syscall NR_read [Reg 205, Ptr 0x20ac8cc0, Imm 0x30d4], Count, Syscall NR_close [Reg 205], Count]"

definition min_mysql_pread64_write_29_0_body104 :: "stmt list" where
  "min_mysql_pread64_write_29_0_body104 = [
    Memcpy 0x20dea900 (with_nul ''./var/tmp/'') 11,
    Syscall NR_openat [Dir_fd, Ptr 0x20dea900, Imm 0x484002, Imm 0x1ff], Count, Save_res 206,
    Memcpy 0x20e2fc40 (with_nul ''./var/tmp/'') 11,
    Syscall NR_faccessat2 [Dir_fd, Ptr 0x20e2fc40, Imm 0, Imm 0x200], Count,
    Syscall NR_write [Reg 206, Write_buf, Imm 0x927c], Count,
    Syscall NR_pread64 [Reg 206, Ptr 0x20e85800, Imm 0x4000, Imm 0], Count,
    Syscall NR_pread64 [Reg 206, Ptr 0x20e98400, Imm 0x130b, Imm 0x7f71], Count,
    Syscall NR_pread64 [Reg 206, Ptr 0x20eb4a80, Imm 0x4000, Imm 0x3efd], Count,
    Syscall NR_pread64 [Reg 206, Ptr 0x20ec2840, Imm 0x1482, Imm 0x7dfa], Count, Syscall NR_close [Reg 206],
    Count, Memcpy 0x20ed8640 (with_nul ''./var/tmp/'') 11,
    Syscall NR_openat [Dir_fd, Ptr 0x20ed8640, Imm 0x484002, Imm 0x1ff], Count, Save_res 207,
    Memcpy 0x20eff040 (with_nul ''./var/tmp/'') 11,
    Syscall NR_faccessat2 [Dir_fd, Ptr 0x20eff040, Imm 0, Imm 0x200], Count,
    Syscall NR_write [Reg 207, Write_buf, Imm 0x3264], Count, Syscall NR_lseek [Reg 207, Imm 0, Imm 0], Count,
    Syscall NR_read [Reg 207, Ptr 0x20f3fb00, Imm 0x3264], Count]"

definition min_mysql_pread64_write_29_0_body105 :: "stmt list" where
  "min_mysql_pread64_write_29_0_body105 = [
    Syscall NR_close [Reg 207], Count, Memcpy 0x20fbba80 (with_nul ''./var/tmp/'') 11,
    Syscall NR_openat [Dir_fd, Ptr 0x20fbba80, Imm 0x484002, Imm 0x1ff], Count, Save_res 208,
    Memcpy 0x20ff6f00 (with_nul ''./var/tmp/'') 11,
    Syscall NR_faccessat2 [Dir_fd, Ptr 0x20ff6f00, Imm 0, Imm 0x200], Count,
    Syscall NR_write [Reg 208, Write_buf, Imm 0x90ec], Count,
    Syscall NR_pread64 [Reg 208, Ptr 0x20048680, Imm 0x4000, Imm 0], Count,
    Syscall NR_pread64 [Reg 208, Ptr 0x200566c0, Imm 0x1164, Imm 0x7f88], Count,
    Syscall NR_pread64 [Reg 208, Ptr 0x2006d580, Imm 0x4000, Imm 0x3fc4], Count, Syscall NR_close [Reg 208],
    Count, Memcpy 0x20086bc0 (with_nul ''./var/tmp/'') 11,
    Syscall NR_openat [Dir_fd, Ptr 0x20086bc0, Imm 0x484002, Imm 0x1ff], Count, Save_res 209,
    Memcpy 0x200a1340 (with_nul ''./var/tmp/'') 11,
    Syscall NR_faccessat2 [Dir_fd, Ptr 0x200a1340, Imm 0, Imm 0x200], Count,
    Syscall NR_write [Reg 209, Write_buf, Imm 0x30d4], Count, Syscall NR_lseek [Reg 209, Imm 0, Imm 0], Count,
    Syscall NR_read [Reg 209, Ptr 0x200c4e40, Imm 0x30d4], Count, Syscall NR_close [Reg 209], Count]"

definition min_mysql_pread64_write_29_0_body106 :: "stmt list" where
  "min_mysql_pread64_write_29_0_body106 = [
    Memcpy 0x20634700 (with_nul ''./var/tmp/'') 11,
    Syscall NR_openat [Dir_fd, Ptr 0x20634700, Imm 0x484002, Imm 0x1ff], Count, Save_res 210,
    Memcpy 0x206b01c0 (with_nul ''./var/tmp/'') 11,
    Syscall NR_faccessat2 [Dir_fd, Ptr 0x206b01c0, Imm 0, Imm 0x200], Count,
    Syscall NR_write [Reg 210, Write_buf, Imm 0x927c], Count,
    Syscall NR_pread64 [Reg 210, Ptr 0x206ed840, Imm 0x4000, Imm 0], Count,
    Syscall NR_pread64 [Reg 210, Ptr 0x20701840, Imm 0x130b, Imm 0x7f71], Count,
    Syscall NR_pread64 [Reg 210, Ptr 0x2070cc40, Imm 0x4000, Imm 0x3efd], Count,
    Syscall NR_pread64 [Reg 210, Ptr 0x20724140, Imm 0x1482, Imm 0x7dfa], Count, Syscall NR_close [Reg 210],
    Count, Memcpy 0x20745640 (with_nul ''./var/tmp/'') 11,
    Syscall NR_openat [Dir_fd, Ptr 0x20745640, Imm 0x484002, Imm 0x1ff], Count, Save_res 211,
    Memcpy 0x2079a580 (with_nul ''./var/tmp/'') 11,
    Syscall NR_faccessat2 [Dir_fd, Ptr 0x2079a580, Imm 0, Imm 0x200], Count,
    Syscall NR_write [Reg 211, Write_buf, Imm 0x3264], Count, Syscall NR_lseek [Reg 211, Imm 0, Imm 0], Count,
    Syscall NR_read [Reg 211, Ptr 0x207f5ec0, Imm 0x3264], Count]"

definition min_mysql_pread64_write_29_0_body107 :: "stmt list" where
  "min_mysql_pread64_write_29_0_body107 = [
    Syscall NR_close [Reg 211], Count, Memcpy 0x208a6ec0 (with_nul ''./var/tmp/'') 11,
    Syscall NR_openat [Dir_fd, Ptr 0x208a6ec0, Imm 0x484002, Imm 0x1ff], Count, Save_res 212,
    Memcpy 0x208fc780 (with_nul ''./var/tmp/'') 11,
    Syscall NR_faccessat2 [Dir_fd, Ptr 0x208fc780, Imm 0, Imm 0x200], Count,
    Syscall NR_write [Reg 212, Write_buf, Imm 0x90ec], Count,
    Syscall NR_pread64 [Reg 212, Ptr 0x20929f00, Imm 0x4000, Imm 0], Count,
    Syscall NR_pread64 [Reg 212, Ptr 0x2093de80, Imm 0x1164, Imm 0x7f88], Count,
    Syscall NR_pread64 [Reg 212, Ptr 0x2094ed00, Imm 0x4000, Imm 0x3fc4], Count, Syscall NR_close [Reg 212],
    Count, Memcpy 0x209729c0 (with_nul ''./var/tmp/'') 11,
    Syscall NR_openat [Dir_fd, Ptr 0x209729c0, Imm 0x484002, Imm 0x1ff], Count, Save_res 213,
    Memcpy 0x20993400 (with_nul ''./var/tmp/'') 11,
    Syscall NR_faccessat2 [Dir_fd, Ptr 0x20993400, Imm 0, Imm 0x200], Count,
    Syscall NR_write [Reg 213, Write_buf, Imm 0x30d4], Count, Syscall NR_lseek [Reg 213, Imm 0, Imm 0], Count,
    Syscall NR_read [Reg 213, Ptr 0x209a7fc0, Imm 0x30d4], Count, Syscall NR_close [Reg 213], Count]"

definition min_mysql_pread64_write_29_0_body108 :: "stmt list" where
  "min_mysql_pread64_write_29_0_body108 = [
    Memcpy 0x200a4240 (with_nul ''./var/tmp/'') 11,
    Syscall NR_openat [Dir_fd, Ptr 0x200a4240, Imm 0x484002, Imm 0x1ff], Count, Save_res 214,
    Memcpy 0x200a5ec0 (with_nul ''./var/tmp/'') 11,
    Syscall NR_faccessat2 [Dir_fd, Ptr 0x200a5ec0, Imm 0, Imm 0x200], Count,
    Syscall NR_write [Reg 214, Write_buf, Imm 0x927c], Count,
    Syscall NR_pread64 [Reg 214, Ptr 0x200b00c0, Imm 0x4000, Imm 0], Count,
    Syscall NR_pread64 [Reg 214, Ptr 0x200b45c0, Imm 0x130b, Imm 0x7f71], Count,
    Syscall NR_pread64 [Reg 214, Ptr 0x200b7cc0, Imm 0x4000, Imm 0x3efd], Count,
    Syscall NR_pread64 [Reg 214, Ptr 0x200bc600, Imm 0x1482, Imm 0x7dfa], Count, Syscall NR_close [Reg 214],
    Count, Memcpy 0x200cbb00 (with_nul ''./var/tmp/'') 11,
    Syscall NR_openat [Dir_fd, Ptr 0x200cbb00, Imm 0x484002, Imm 0x1ff], Count, Save_res 215,
    Memcpy 0x200d4940 (with_nul ''./var/tmp/'') 11,
    Syscall NR_faccessat2 [Dir_fd, Ptr 0x200d4940, Imm 0, Imm 0x200], Count,
    Syscall NR_write [Reg 215, Write_buf, Imm 0x3264], Count, Syscall NR_lseek [Reg 215, Imm 0, Imm 0], Count,
    Syscall NR_read [Reg 215, Ptr 0x200d7f40, Imm 0x3264], Count]"

definition min_mysql_pread64_write_29_0_body109 :: "stmt list" where
  "min_mysql_pread64_write_29_0_body109 = [
    Syscall NR_close [Reg 215], Count, Memcpy 0x200e7c00 (with_nul ''./var/tmp/'') 11,
    Syscall NR_openat [Dir_fd, Ptr 0x200e7c00, Imm 0x484002, Imm 0x1ff], Count, Save_res 216,
    Memcpy 0x200e7d40 (with_nul ''./var/tmp/'') 11,
    Syscall NR_faccessat2 [Dir_fd, Ptr 0x200e7d40, Imm 0, Imm 0x200], Count,
    Syscall NR_write [Reg 216, Write_buf, Imm 0x90ec], Count,
    Syscall NR_pread64 [Reg 216, Ptr 0x200f0fc0, Imm 0x4000, Imm 0], Count,
    Syscall NR_pread64 [Reg 216, Ptr 0x200f5040, Imm 0x1164, Imm 0x7f88], Count,
    Syscall NR_pread64 [Reg 216, Ptr 0x200f6200, Imm 0x4000, Imm 0x3fc4], Count, Syscall NR_close [Reg 216],
    Count, Memcpy 0x20107300 (with_nul ''./var/tmp/'') 11,
    Syscall NR_openat [Dir_fd, Ptr 0x20107300, Imm 0x484002, Imm 0x1ff], Count, Save_res 217,
    Memcpy 0x2010c5c0 (with_nul ''./var/tmp/'') 11,
    Syscall NR_faccessat2 [Dir_fd, Ptr 0x2010c5c0, Imm 0, Imm 0x200], Count,
    Syscall NR_write [Reg 217, Write_buf, Imm 0x30d4], Count, Syscall NR_lseek [Reg 217, Imm 0, Imm 0], Count,
    Syscall NR_read [Reg 217, Ptr 0x2010f740, Imm 0x30d4], Count, Syscall NR_close [Reg 217], Count]"

definition min_mysql_pread64_write_29_0_body110 :: "stmt list" where
  "min_mysql_pread64_write_29_0_body110 = [
    Memcpy 0x2034bec0 (with_nul ''./var/tmp/'') 11,
    Syscall NR_openat [Dir_fd, Ptr 0x2034bec0, Imm 0x484002, Imm 0x1ff], Count, Save_res 218,
    Memcpy 0x2035a040 (with_nul ''./var/tmp/'') 11,
    Syscall NR_faccessat2 [Dir_fd, Ptr 0x2035a040, Imm 0, Imm 0x200], Count,
    Syscall NR_write [Reg 218, Write_buf, Imm 0x927c], Count,
    Syscall NR_pread64 [Reg 218, Ptr 0x20390a00, Imm 0x4000, Imm 0], Count,
    Syscall NR_pread64 [Reg 218, Ptr 0x203a3140, Imm 0x130b, Imm 0x7f71], Count,
    Syscall NR_pread64 [Reg 218, Ptr 0x203d5280, Imm 0x4000, Imm 0x3efd], Count,
    Syscall NR_pread64 [Reg 218, Ptr 0x2041ef00, Imm 0x1482, Imm 0x7dfa], Count, Syscall NR_close [Reg 218],
    Count, Memcpy 0x20496380 (with_nul ''./var/tmp/'') 11,
    Syscall NR_openat [Dir_fd, Ptr 0x20496380, Imm 0x484002, Imm 0x1ff], Count, Save_res 219,
    Memcpy 0x204e85c0 (with_nul ''./var/tmp/'') 11,
    Syscall NR_faccessat2 [Dir_fd, Ptr 0x204e85c0, Imm 0, Imm 0x200], Count,
    Syscall NR_write [Reg 219, Write_buf, Imm 0x3264], Count, Syscall NR_lseek [Reg 219, Imm 0, Imm 0], Count,
    Syscall NR_read [Reg 219, Ptr 0x2050ad40, Imm 0x3264], Count]"

definition min_mysql_pread64_write_29_0_body111 :: "stmt list" where
  "min_mysql_pread64_write_29_0_body111 = [
    Syscall NR_close [Reg 219], Count, Memcpy 0x20594440 (with_nul ''./var/tmp/'') 11,
    Syscall NR_openat [Dir_fd, Ptr 0x20594440, Imm 0x484002, Imm 0x1ff], Count, Save_res 220,
    Memcpy 0x205bdfc0 (with_nul ''./var/tmp/'') 11,
    Syscall NR_faccessat2 [Dir_fd, Ptr 0x205bdfc0, Imm 0, Imm 0x200], Count,
    Syscall NR_write [Reg 220, Write_buf, Imm 0x90ec], Count,
    Syscall NR_pread64 [Reg 220, Ptr 0x205ebcc0, Imm 0x4000, Imm 0], Count,
    Syscall NR_pread64 [Reg 220, Ptr 0x20604840, Imm 0x1164, Imm 0x7f88], Count,
    Syscall NR_pread64 [Reg 220, Ptr 0x20631140, Imm 0x4000, Imm 0x3fc4], Count, Syscall NR_close [Reg 220],
    Count, Memcpy 0x206b0700 (with_nul ''./var/tmp/'') 11,
    Syscall NR_openat [Dir_fd, Ptr 0x206b0700, Imm 0x484002, Imm 0x1ff], Count, Save_res 221,
    Memcpy 0x20702740 (with_nul ''./var/tmp/'') 11,
    Syscall NR_faccessat2 [Dir_fd, Ptr 0x20702740, Imm 0, Imm 0x200], Count,
    Syscall NR_write [Reg 221, Write_buf, Imm 0x30d4], Count, Syscall NR_lseek [Reg 221, Imm 0, Imm 0], Count,
    Syscall NR_read [Reg 221, Ptr 0x2071f5c0, Imm 0x30d4], Count, Syscall NR_close [Reg 221], Count]"

definition min_mysql_pread64_write_29_0_body112 :: "stmt list" where
  "min_mysql_pread64_write_29_0_body112 = [
    Memcpy 0x20a35b40 (with_nul ''./var/tmp/'') 11,
    Syscall NR_openat [Dir_fd, Ptr 0x20a35b40, Imm 0x484002, Imm 0x1ff], Count, Save_res 222,
    Memcpy 0x20aa0100 (with_nul ''./var/tmp/'') 11,
    Syscall NR_faccessat2 [Dir_fd, Ptr 0x20aa0100, Imm 0, Imm 0x200], Count,
    Syscall NR_write [Reg 222, Write_buf, Imm 0x90ec], Count,
    Syscall NR_pread64 [Reg 222, Ptr 0x20ae4e00, Imm 0x4000, Imm 0], Count,
    Syscall NR_pread64 [Reg 222, Ptr 0x20b02f80, Imm 0x1164, Imm 0x7f88], Count,
    Syscall NR_pread64 [Reg 222, Ptr 0x20b10e00, Imm 0x4000, Imm 0x3fc4], Count, Syscall NR_close [Reg 222],
    Count, Memcpy 0x20b34d00 (with_nul ''./var/tmp/'') 11,
    Syscall NR_openat [Dir_fd, Ptr 0x20b34d00, Imm 0x484002, Imm 0x1ff], Count, Save_res 223,
    Memcpy 0x20ba6c80 (with_nul ''./var/tmp/'') 11,
    Syscall NR_faccessat2 [Dir_fd, Ptr 0x20ba6c80, Imm 0, Imm 0x200], Count,
    Syscall NR_write [Reg 223, Write_buf, Imm 0x30d4], Count, Syscall NR_lseek [Reg 223, Imm 0, Imm 0], Count,
    Syscall NR_read [Reg 223, Ptr 0x20c16480, Imm 0x30d4], Count, Syscall NR_close [Reg 223], Count]"

definition min_mysql_pread64_write_29_0_body113 :: "stmt list" where
  "min_mysql_pread64_write_29_0_body113 = [
    Memcpy 0x20f5c2c0 (with_nul ''./var/tmp/'') 11,
    Syscall NR_openat [Dir_fd, Ptr 0x20f5c2c0, Imm 0x484002, Imm 0x1ff], Count, Save_res 224,
    Memcpy 0x20f84380 (with_nul ''./var/tmp/'') 11,
    Syscall NR_faccessat2 [Dir_fd, Ptr 0x20f84380, Imm 0, Imm 0x200], Count,
    Syscall NR_write [Reg 224, Write_buf, Imm 0x927c], Count,
    Syscall NR_pread64 [Reg 224, Ptr 0x20fa4dc0, Imm 0x4000, Imm 0], Count,
    Syscall NR_pread64 [Reg 224, Ptr 0x20fbc680, Imm 0x130b, Imm 0x7f71], Count,
    Syscall NR_pread64 [Reg 224, Ptr 0x20fd8300, Imm 0x4000, Imm 0x3efd], Count,
    Syscall NR_pread64 [Reg 224, Ptr 0x20fe9a80, Imm 0x1482, Imm 0x7dfa], Count, Syscall NR_close [Reg 224],
    Count, Memcpy 0x20004100 (with_nul ''./var/tmp/'') 11,
    Syscall NR_openat [Dir_fd, Ptr 0x20004100, Imm 0x484002, Imm 0x1ff], Count, Save_res 225,
    Memcpy 0x2004b8c0 (with_nul ''./var/tmp/'') 11,
    Syscall NR_faccessat2 [Dir_fd, Ptr 0x2004b8c0, Imm 0, Imm 0x200], Count,
    Syscall NR_write [Reg 225, Write_buf, Imm 0x3264], Count, Syscall NR_lseek [Reg 225, Imm 0, Imm 0], Count,
    Syscall NR_read [Reg 225, Ptr 0x2009bdc0, Imm 0x3264], Count]"

definition min_mysql_pread64_write_29_0_body114 :: "stmt list" where
  "min_mysql_pread64_write_29_0_body114 = [
    Syscall NR_close [Reg 225], Count, Memcpy 0x20119d40 (with_nul ''./var/tmp/'') 11,
    Syscall NR_openat [Dir_fd, Ptr 0x20119d40, Imm 0x484002, Imm 0x1ff], Count, Save_res 226,
    Memcpy 0x20189a00 (with_nul ''./var/tmp/'') 11,
    Syscall NR_faccessat2 [Dir_fd, Ptr 0x20189a00, Imm 0, Imm 0x200], Count,
    Syscall NR_write [Reg 226, Write_buf, Imm 0x90ec], Count,
    Syscall NR_pread64 [Reg 226, Ptr 0x201d1c80, Imm 0x4000, Imm 0], Count,
    Syscall NR_pread64 [Reg 226, Ptr 0x201f3800, Imm 0x1164, Imm 0x7f88], Count,
    Syscall NR_pread64 [Reg 226, Ptr 0x2021c6c0, Imm 0x4000, Imm 0x3fc4], Count, Syscall NR_close [Reg 226],
    Count, Memcpy 0x2023b580 (with_nul ''./var/tmp/'') 11,
    Syscall NR_openat [Dir_fd, Ptr 0x2023b580, Imm 0x484002, Imm 0x1ff], Count, Save_res 227,
    Memcpy 0x20284fc0 (with_nul ''./var/tmp/'') 11,
    Syscall NR_faccessat2 [Dir_fd, Ptr 0x20284fc0, Imm 0, Imm 0x200], Count,
    Syscall NR_write [Reg 227, Write_buf, Imm 0x30d4], Count, Syscall NR_lseek [Reg 227, Imm 0, Imm 0], Count,
    Syscall NR_read [Reg 227, Ptr 0x202e1ac0, Imm 0x30d4], Count, Syscall NR_close [Reg 227], Count]"

definition min_mysql_pread64_write_29_0_body115 :: "stmt list" where
  "min_mysql_pread64_write_29_0_body115 = [
    Memcpy 0x206f8ac0 (with_nul ''./var/tmp/'') 11,
    Syscall NR_openat [Dir_fd, Ptr 0x206f8ac0, Imm 0x484002, Imm 0x1ff], Count, Save_res 228,
    Memcpy 0x20736ec0 (with_nul ''./var/tmp/'') 11,
    Syscall NR_faccessat2 [Dir_fd, Ptr 0x20736ec0, Imm 0, Imm 0x200], Count,
    Syscall NR_write [Reg 228, Write_buf, Imm 0x927c], Count,
    Syscall NR_pread64 [Reg 228, Ptr 0x2076d400, Imm 0x4000, Imm 0], Count,
    Syscall NR_pread64 [Reg 228, Ptr 0x2077dfc0, Imm 0x130b, Imm 0x7f71], Count,
    Syscall NR_pread64 [Reg 228, Ptr 0x2079a4c0, Imm 0x4000, Imm 0x3efd], Count,
    Syscall NR_pread64 [Reg 228, Ptr 0x207ba440, Imm 0x1482, Imm 0x7dfa], Count, Syscall NR_close [Reg 228],
    Count, Memcpy 0x207ea040 (with_nul ''./var/tmp/'') 11,
    Syscall NR_openat [Dir_fd, Ptr 0x207ea040, Imm 0x484002, Imm 0x1ff], Count, Save_res 229,
    Memcpy 0x20851f00 (with_nul ''./var/tmp/'') 11,
    Syscall NR_faccessat2 [Dir_fd, Ptr 0x20851f00, Imm 0, Imm 0x200], Count,
    Syscall NR_write [Reg 229, Write_buf, Imm 0x3264], Count, Syscall NR_lseek [Reg 229, Imm 0, Imm 0], Count,
    Syscall NR_read [Reg 229, Ptr 0x208b6880, Imm 0x3264], Count]"

definition min_mysql_pread64_write_29_0_body116 :: "stmt list" where
  "min_mysql_pread64_write_29_0_body116 = [
    Syscall NR_close [Reg 229], Count, Memcpy 0x20957140 (with_nul ''./var/tmp/'') 11,
    Syscall NR_openat [Dir_fd, Ptr 0x20957140, Imm 0x484002, Imm 0x1ff], Count, Save_res 230,
    Memcpy 0x209a71c0 (with_nul ''./var/tmp/'') 11,
    Syscall NR_faccessat2 [Dir_fd, Ptr 0x209a71c0, Imm 0, Imm 0x200], Count,
    Syscall NR_write [Reg 230, Write_buf, Imm 0x90ec], Count,
    Syscall NR_pread64 [Reg 230, Ptr 0x209f9400, Imm 0x4000, Imm 0], Count,
    Syscall NR_pread64 [Reg 230, Ptr 0x20a07280, Imm 0x1164, Imm 0x7f88], Count,
    Syscall NR_pread64 [Reg 230, Ptr 0x20a2d640, Imm 0x4000, Imm 0x3fc4], Count, Syscall NR_close [Reg 230],
    Count, Memcpy 0x20a541c0 (with_nul ''./var/tmp/'') 11,
    Syscall NR_openat [Dir_fd, Ptr 0x20a541c0, Imm 0x484002, Imm 0x1ff], Count, Save_res 231,
    Memcpy 0x20abd100 (with_nul ''./var/tmp/'') 11,
    Syscall NR_faccessat2 [Dir_fd, Ptr 0x20abd100, Imm 0, Imm 0x200], Count,
    Syscall NR_write [Reg 231, Write_buf, Imm 0x30d4], Count, Syscall NR_lseek [Reg 231, Imm 0, Imm 0], Count,
    Syscall NR_read [Reg 231, Ptr 0x20b37900, Imm 0x30d4], Count, Syscall NR_close [Reg 231], Count]"

definition min_mysql_pread64_write_29_0_body117 :: "stmt list" where
  "min_mysql_pread64_write_29_0_body117 = [
    Memcpy 0x20f91500 (with_nul ''./var/tmp/'') 11,
    Syscall NR_openat [Dir_fd, Ptr 0x20f91500, Imm 0x484002, Imm 0x1ff], Count, Save_res 232,
    Memcpy 0x20ff6040 (with_nul ''./var/tmp/'') 11,
    Syscall NR_faccessat2 [Dir_fd, Ptr 0x20ff6040, Imm 0, Imm 0x200], Count,
    Syscall NR_write [Reg 232, Write_buf, Imm 0x927c], Count,
    Syscall NR_pread64 [Reg 232, Ptr 0x20039d40, Imm 0x4000, Imm 0], Count,
    Syscall NR_pread64 [Reg 232, Ptr 0x200496c0, Imm 0x130b, Imm 0x7f71], Count,
    Syscall NR_pread64 [Reg 232, Ptr 0x20066480, Imm 0x4000, Imm 0x3efd], Count,
    Syscall NR_pread64 [Reg 232, Ptr 0x20080100, Imm 0x1482, Imm 0x7dfa], Count, Syscall NR_close [Reg 232],
    Count, Memcpy 0x200d1a40 (with_nul ''./var/tmp/'') 11,
    Syscall NR_openat [Dir_fd, Ptr 0x200d1a40, Imm 0x484002, Imm 0x1ff], Count, Save_res 233,
    Memcpy 0x20150640 (with_nul ''./var/tmp/'') 11,
    Syscall NR_faccessat2 [Dir_fd, Ptr 0x20150640, Imm 0, Imm 0x200], Count,
    Syscall NR_write [Reg 233, Write_buf, Imm 0x3264], Count, Syscall NR_lseek [Reg 233, Imm 0, Imm 0], Count,
    Syscall NR_read [Reg 233, Ptr 0x201ba100, Imm 0x3264], Count]"

definition min_mysql_pread64_write_29_0_body118 :: "stmt list" where
  "min_mysql_pread64_write_29_0_body118 = [
    Syscall NR_close [Reg 233], Count, Memcpy 0x202d9c80 (with_nul ''./var/tmp/'') 11,
    Syscall NR_openat [Dir_fd, Ptr 0x202d9c80, Imm 0x484002, Imm 0x1ff], Count, Save_res 234,
    Memcpy 0x203380c0 (with_nul ''./var/tmp/'') 11,
    Syscall NR_faccessat2 [Dir_fd, Ptr 0x203380c0, Imm 0, Imm 0x200], Count,
    Syscall NR_write [Reg 234, Write_buf, Imm 0x90ec], Count,
    Syscall NR_pread64 [Reg 234, Ptr 0x20363d80, Imm 0x4000, Imm 0], Count,
    Syscall NR_pread64 [Reg 234, Ptr 0x203779c0, Imm 0x1164, Imm 0x7f88], Count,
    Syscall NR_pread64 [Reg 234, Ptr 0x2039ec80, Imm 0x4000, Imm 0x3fc4], Count, Syscall NR_close [Reg 234],
    Count, Memcpy 0x203f3ec0 (with_nul ''./var/tmp/'') 11,
    Syscall NR_openat [Dir_fd, Ptr 0x203f3ec0, Imm 0x484002, Imm 0x1ff], Count, Save_res 235,
    Memcpy 0x2044f240 (with_nul ''./var/tmp/'') 11,
    Syscall NR_faccessat2 [Dir_fd, Ptr 0x2044f240, Imm 0, Imm 0x200], Count,
    Syscall NR_write [Reg 235, Write_buf, Imm 0x30d4], Count, Syscall NR_lseek [Reg 235, Imm 0, Imm 0], Count,
    Syscall NR_read [Reg 235, Ptr 0x204a5880, Imm 0x30d4], Count, Syscall NR_close [Reg 235], Count]"

definition min_mysql_pread64_write_29_0_body119 :: "stmt list" where
  "min_mysql_pread64_write_29_0_body119 = [
    Memcpy 0x20908700 (with_nul ''./var/tmp/'') 11,
    Syscall NR_openat [Dir_fd, Ptr 0x20908700, Imm 0x484002, Imm 0x1ff], Count, Save_res 236,
    Memcpy 0x2093dfc0 (with_nul ''./var/tmp/'') 11,
    Syscall NR_faccessat2 [Dir_fd, Ptr 0x2093dfc0, Imm 0, Imm 0x200], Count,
    Syscall NR_write [Reg 236, Write_buf, Imm 0x927c], Count,
    Syscall NR_pread64 [Reg 236, Ptr 0x20974780, Imm 0x4000, Imm 0], Count,
    Syscall NR_pread64 [Reg 236, Ptr 0x20986a40, Imm 0x130b, Imm 0x7f71], Count,
    Syscall NR_pread64 [Reg 236, Ptr 0x20999000, Imm 0x4000, Imm 0x3efd], Count,
    Syscall NR_pread64 [Reg 236, Ptr 0x209aa380, Imm 0x1482, Imm 0x7dfa], Count, Syscall NR_close [Reg 236],
    Count, Memcpy 0x209f1fc0 (with_nul ''./var/tmp/'') 11,
    Syscall NR_openat [Dir_fd, Ptr 0x209f1fc0, Imm 0x484002, Imm 0x1ff], Count, Save_res 237,
    Memcpy 0x20a34640 (with_nul ''./var/tmp/'') 11,
    Syscall NR_faccessat2 [Dir_fd, Ptr 0x20a34640, Imm 0, Imm 0x200], Count,
    Syscall NR_write [Reg 237, Write_buf, Imm 0x3264], Count, Syscall NR_lseek [Reg 237, Imm 0, Imm 0], Count,
    Syscall NR_read [Reg 237, Ptr 0x20a6fd80, Imm 0x3264], Count]"

definition min_mysql_pread64_write_29_0_body120 :: "stmt list" where
  "min_mysql_pread64_write_29_0_body120 = [
    Syscall NR_close [Reg 237], Count, Memcpy 0x200b3240 (with_nul ''./var/tmp/'') 11,
    Syscall NR_openat [Dir_fd, Ptr 0x200b3240, Imm 0x484002, Imm 0x1ff], Count, Save_res 238,
    Memcpy 0x200d14c0 (with_nul ''./var/tmp/'') 11,
    Syscall NR_faccessat2 [Dir_fd, Ptr 0x200d14c0, Imm 0, Imm 0x200], Count,
    Syscall NR_write [Reg 238, Write_buf, Imm 0x927c], Count,
    Syscall NR_pread64 [Reg 238, Ptr 0x200f9040, Imm 0x4000, Imm 0], Count,
    Syscall NR_pread64 [Reg 238, Ptr 0x20108cc0, Imm 0x130b, Imm 0x7f71], Count,
    Syscall NR_pread64 [Reg 238, Ptr 0x2011f580, Imm 0x4000, Imm 0x3efd], Count,
    Syscall NR_pread64 [Reg 238, Ptr 0x20146b00, Imm 0x1482, Imm 0x7dfa], Count, Syscall NR_close [Reg 238],
    Count, Memcpy 0x2016bc80 (with_nul ''./var/tmp/'') 11,
    Syscall NR_openat [Dir_fd, Ptr 0x2016bc80, Imm 0x484002, Imm 0x1ff], Count, Save_res 239,
    Memcpy 0x201a2300 (with_nul ''./var/tmp/'') 11,
    Syscall NR_faccessat2 [Dir_fd, Ptr 0x201a2300, Imm 0, Imm 0x200], Count,
    Syscall NR_write [Reg 239, Write_buf, Imm 0x3264], Count, Syscall NR_lseek [Reg 239, Imm 0, Imm 0], Count,
    Syscall NR_read [Reg 239, Ptr 0x201c8500, Imm 0x3264], Count]"

definition min_mysql_pread64_write_29_0_body121 :: "stmt list" where
  "min_mysql_pread64_write_29_0_body121 = [
    Syscall NR_close [Reg 239], Count, Memcpy 0x20222a00 (with_nul ''./var/tmp/'') 11,
    Syscall NR_openat [Dir_fd, Ptr 0x20222a00, Imm 0x484002, Imm 0x1ff], Count, Save_res 240,
    Memcpy 0x20247a80 (with_nul ''./var/tmp/'') 11,
    Syscall NR_faccessat2 [Dir_fd, Ptr 0x20247a80, Imm 0, Imm 0x200], Count,
    Syscall NR_write [Reg 240, Write_buf, Imm 0x90ec], Count,
    Syscall NR_pread64 [Reg 240, Ptr 0x2025d7c0, Imm 0x4000, Imm 0], Count,
    Syscall NR_pread64 [Reg 240, Ptr 0x2026ef40, Imm 0x1164, Imm 0x7f88], Count,
    Syscall NR_pread64 [Reg 240, Ptr 0x20275780, Imm 0x4000, Imm 0x3fc4], Count, Syscall NR_close [Reg 240],
    Count, Memcpy 0x202af400 (with_nul ''./var/tmp/'') 11,
    Syscall NR_openat [Dir_fd, Ptr 0x202af400, Imm 0x484002, Imm 0x1ff], Count, Save_res 241,
    Memcpy 0x202d5600 (with_nul ''./var/tmp/'') 11,
    Syscall NR_faccessat2 [Dir_fd, Ptr 0x202d5600, Imm 0, Imm 0x200], Count,
    Syscall NR_write [Reg 241, Write_buf, Imm 0x30d4], Count, Syscall NR_lseek [Reg 241, Imm 0, Imm 0], Count,
    Syscall NR_read [Reg 241, Ptr 0x202f3c40, Imm 0x30d4], Count, Syscall NR_close [Reg 241], Count]"

definition min_mysql_pread64_write_29_0_body122 :: "stmt list" where
  "min_mysql_pread64_write_29_0_body122 = [
    Memcpy 0x207e0240 (with_nul ''./var/tmp/'') 11,
    Syscall NR_openat [Dir_fd, Ptr 0x207e0240, Imm 0x484002, Imm 0x1ff], Count, Save_res 242,
    Memcpy 0x20802540 (with_nul ''./var/tmp/'') 11,
    Syscall NR_faccessat2 [Dir_fd, Ptr 0x20802540, Imm 0, Imm 0x200], Count,
    Syscall NR_write [Reg 242, Write_buf, Imm 0x927c], Count,
    Syscall NR_pread64 [Reg 242, Ptr 0x20830d00, Imm 0x4000, Imm 0], Count,
    Syscall NR_pread64 [Reg 242, Ptr 0x20840880, Imm 0x130b, Imm 0x7f71], Count,
    Syscall NR_pread64 [Reg 242, Ptr 0x20857480, Imm 0x4000, Imm 0x3efd], Count,
    Syscall NR_pread64 [Reg 242, Ptr 0x208657c0, Imm 0x1482, Imm 0x7dfa], Count, Syscall NR_close [Reg 242],
    Count, Memcpy 0x208894c0 (with_nul ''./var/tmp/'') 11,
    Syscall NR_openat [Dir_fd, Ptr 0x208894c0, Imm 0x484002, Imm 0x1ff], Count, Save_res 243,
    Memcpy 0x208be400 (with_nul ''./var/tmp/'') 11,
    Syscall NR_faccessat2 [Dir_fd, Ptr 0x208be400, Imm 0, Imm 0x200], Count,
    Syscall NR_write [Reg 243, Write_buf, Imm 0x3264], Count, Syscall NR_lseek [Reg 243, Imm 0, Imm 0], Count,
    Syscall NR_read [Reg 243, Ptr 0x208fb100, Imm 0x3264], Count]"

definition min_mysql_pread64_write_29_0_body123 :: "stmt list" where
  "min_mysql_pread64_write_29_0_body123 = [
    Syscall NR_close [Reg 243], Count, Memcpy 0x2096b640 (with_nul ''./var/tmp/'') 11,
    Syscall NR_openat [Dir_fd, Ptr 0x2096b640, Imm 0x484002, Imm 0x1ff], Count, Save_res 244,
    Memcpy 0x20996940 (with_nul ''./var/tmp/'') 11,
    Syscall NR_faccessat2 [Dir_fd, Ptr 0x20996940, Imm 0, Imm 0x200], Count,
    Syscall NR_write [Reg 244, Write_buf, Imm 0x90ec], Count,
    Syscall NR_pread64 [Reg 244, Ptr 0x209c6cc0, Imm 0x4000, Imm 0], Count,
    Syscall NR_pread64 [Reg 244, Ptr 0x209dcb80, Imm 0x1164, Imm 0x7f88], Count,
    Syscall NR_pread64 [Reg 244, Ptr 0x209f4400, Imm 0x4000, Imm 0x3fc4], Count, Syscall NR_close [Reg 244],
    Count, Memcpy 0x20a16e80 (with_nul ''./var/tmp/'') 11,
    Syscall NR_openat [Dir_fd, Ptr 0x20a16e80, Imm 0x484002, Imm 0x1ff], Count, Save_res 245,
    Memcpy 0x20a5b380 (with_nul ''./var/tmp/'') 11,
    Syscall NR_faccessat2 [Dir_fd, Ptr 0x20a5b380, Imm 0, Imm 0x200], Count,
    Syscall NR_write [Reg 245, Write_buf, Imm 0x30d4], Count, Syscall NR_lseek [Reg 245, Imm 0, Imm 0], Count,
    Syscall NR_read [Reg 245, Ptr 0x20a87a00, Imm 0x30d4], Count, Syscall NR_close [Reg 245], Count]"

definition min_mysql_pread64_write_29_0_body124 :: "stmt list" where
  "min_mysql_pread64_write_29_0_body124 = [
    Memcpy 0x20019480 (with_nul ''./var/tmp/'') 11,
    Syscall NR_openat [Dir_fd, Ptr 0x20019480, Imm 0x484002, Imm 0x1ff], Count, Save_res 246,
    Memcpy 0x20068900 (with_nul ''./var/tmp/'') 11,
    Syscall NR_faccessat2 [Dir_fd, Ptr 0x20068900, Imm 0, Imm 0x200], Count,
    Syscall NR_write [Reg 246, Write_buf, Imm 0x927c], Count,
    Syscall NR_pread64 [Reg 246, Ptr 0x2009ab80, Imm 0x4000, Imm 0], Count,
    Syscall NR_pread64 [Reg 246, Ptr 0x200a67c0, Imm 0x130b, Imm 0x7f71], Count,
    Syscall NR_pread64 [Reg 246, Ptr 0x200b12c0, Imm 0x4000, Imm 0x3efd], Count,
    Syscall NR_pread64 [Reg 246, Ptr 0x200becc0, Imm 0x1482, Imm 0x7dfa], Count, Syscall NR_close [Reg 246],
    Count, Memcpy 0x200da280 (with_nul ''./var/tmp/'') 11,
    Syscall NR_openat [Dir_fd, Ptr 0x200da280, Imm 0x484002, Imm 0x1ff], Count, Save_res 247,
    Memcpy 0x2012e2c0 (with_nul ''./var/tmp/'') 11,
    Syscall NR_faccessat2 [Dir_fd, Ptr 0x2012e2c0, Imm 0, Imm 0x200], Count,
    Syscall NR_write [Reg 247, Write_buf, Imm 0x3264], Count, Syscall NR_lseek [Reg 247, Imm 0, Imm 0], Count,
    Syscall NR_read [Reg 247, Ptr 0x2017cc80, Imm 0x3264], Count]"

definition min_mysql_pread64_write_29_0_body125 :: "stmt list" where
  "min_mysql_pread64_write_29_0_body125 = [
    Syscall NR_close [Reg 247], Count, Memcpy 0x202045c0 (with_nul ''./var/tmp/'') 11,
    Syscall NR_openat [Dir_fd, Ptr 0x202045c0, Imm 0x484002, Imm 0x1ff], Count, Save_res 248,
    Memcpy 0x2026a980 (with_nul ''./var/tmp/'') 11,
    Syscall NR_faccessat2 [Dir_fd, Ptr 0x2026a980, Imm 0, Imm 0x200], Count,
    Syscall NR_write [Reg 248, Write_buf, Imm 0x90ec], Count,
    Syscall NR_pread64 [Reg 248, Ptr 0x202857c0, Imm 0x4000, Imm 0], Count,
    Syscall NR_pread64 [Reg 248, Ptr 0x2028fd80, Imm 0x1164, Imm 0x7f88], Count,
    Syscall NR_pread64 [Reg 248, Ptr 0x2029aac0, Imm 0x4000, Imm 0x3fc4], Count, Syscall NR_close [Reg 248],
    Count, Memcpy 0x202ae680 (with_nul ''./var/tmp/'') 11,
    Syscall NR_openat [Dir_fd, Ptr 0x202ae680, Imm 0x484002, Imm 0x1ff], Count, Save_res 249,
    Memcpy 0x202c3980 (with_nul ''./var/tmp/'') 11,
    Syscall NR_faccessat2 [Dir_fd, Ptr 0x202c3980, Imm 0, Imm 0x200], Count,
    Syscall NR_write [Reg 249, Write_buf, Imm 0x30d4], Count, Syscall NR_lseek [Reg 249, Imm 0, Imm 0], Count,
    Syscall NR_read [Reg 249, Ptr 0x202d4780, Imm 0x30d4], Count, Syscall NR_close [Reg 249], Count]"

definition min_mysql_pread64_write_29_0_body126 :: "stmt list" where
  "min_mysql_pread64_write_29_0_body126 = [
    Memcpy 0x2081a6c0 (with_nul ''./var/tmp/'') 11,
    Syscall NR_openat [Dir_fd, Ptr 0x2081a6c0, Imm 0x484002, Imm 0x1ff], Count, Save_res 250,
    Memcpy 0x20870600 (with_nul ''./var/tmp/'') 11,
    Syscall NR_faccessat2 [Dir_fd, Ptr 0x20870600, Imm 0, Imm 0x200], Count,
    Syscall NR_write [Reg 250, Write_buf, Imm 0x927c], Count,
    Syscall NR_pread64 [Reg 250, Ptr 0x208cc780, Imm 0x4000, Imm 0], Count,
    Syscall NR_pread64 [Reg 250, Ptr 0x208defc0, Imm 0x130b, Imm 0x7f71], Count,
    Syscall NR_pread64 [Reg 250, Ptr 0x208ec840, Imm 0x4000, Imm 0x3efd], Count,
    Syscall NR_pread64 [Reg 250, Ptr 0x208fe000, Imm 0x1482, Imm 0x7dfa], Count, Syscall NR_close [Reg 250],
    Count, Memcpy 0x20933200 (with_nul ''./var/tmp/'') 11,
    Syscall NR_openat [Dir_fd, Ptr 0x20933200, Imm 0x484002, Imm 0x1ff], Count, Save_res 251,
    Memcpy 0x209a1c80 (with_nul ''./var/tmp/'') 11,
    Syscall NR_faccessat2 [Dir_fd, Ptr 0x209a1c80, Imm 0, Imm 0x200], Count,
    Syscall NR_write [Reg 251, Write_buf, Imm 0x3264], Count, Syscall NR_lseek [Reg 251, Imm 0, Imm 0], Count,
    Syscall NR_read [Reg 251, Ptr 0x209f25c0, Imm 0x3264], Count]"

definition min_mysql_pread64_write_29_0_body127 :: "stmt list" where
  "min_mysql_pread64_write_29_0_body127 = [
    Syscall NR_close [Reg 251], Count, Memcpy 0x20a5b9c0 (with_nul ''./var/tmp/'') 11,
    Syscall NR_openat [Dir_fd, Ptr 0x20a5b9c0, Imm 0x484002, Imm 0x1ff], Count, Save_res 252,
    Memcpy 0x20a910c0 (with_nul ''./var/tmp/'') 11,
    Syscall NR_faccessat2 [Dir_fd, Ptr 0x20a910c0, Imm 0, Imm 0x200], Count,
    Syscall NR_write [Reg 252, Write_buf, Imm 0x90ec], Count,
    Syscall NR_pread64 [Reg 252, Ptr 0x20ac5340, Imm 0x4000, Imm 0], Count,
    Syscall NR_pread64 [Reg 252, Ptr 0x20ad4d80, Imm 0x1164, Imm 0x7f88], Count,
    Syscall NR_pread64 [Reg 252, Ptr 0x20ada9c0, Imm 0x4000, Imm 0x3fc4], Count, Syscall NR_close [Reg 252],
    Count, Memcpy 0x20aea9c0 (with_nul ''./var/tmp/'') 11,
    Syscall NR_openat [Dir_fd, Ptr 0x20aea9c0, Imm 0x484002, Imm 0x1ff], Count, Save_res 253,
    Memcpy 0x20af3480 (with_nul ''./var/tmp/'') 11,
    Syscall NR_faccessat2 [Dir_fd, Ptr 0x20af3480, Imm 0, Imm 0x200], Count,
    Syscall NR_write [Reg 253, Write_buf, Imm 0x30d4], Count, Syscall NR_lseek [Reg 253, Imm 0, Imm 0], Count,
    Syscall NR_read [Reg 253, Ptr 0x20b01d40, Imm 0x30d4], Count, Syscall NR_close [Reg 253], Count]"

definition min_mysql_pread64_write_29_0_body128 :: "stmt list" where
  "min_mysql_pread64_write_29_0_body128 = [
    Memcpy 0x2013dc80 (with_nul ''./var/tmp/'') 11,
    Syscall NR_openat [Dir_fd, Ptr 0x2013dc80, Imm 0x484002, Imm 0x1ff], Count, Save_res 254,
    Memcpy 0x2015a280 (with_nul ''./var/tmp/'') 11,
    Syscall NR_faccessat2 [Dir_fd, Ptr 0x2015a280, Imm 0, Imm 0x200], Count,
    Syscall NR_write [Reg 254, Write_buf, Imm 0x927c], Count,
    Syscall NR_pread64 [Reg 254, Ptr 0x2017b5c0, Imm 0x4000, Imm 0], Count,
    Syscall NR_pread64 [Reg 254, Ptr 0x2019f780, Imm 0x130b, Imm 0x7f71], Count,
    Syscall NR_pread64 [Reg 254, Ptr 0x201ab500, Imm 0x4000, Imm 0x3efd], Count,
    Syscall NR_pread64 [Reg 254, Ptr 0x201c64c0, Imm 0x1482, Imm 0x7dfa], Count, Syscall NR_close [Reg 254],
    Count, Memcpy 0x20217f00 (with_nul ''./var/tmp/'') 11,
    Syscall NR_openat [Dir_fd, Ptr 0x20217f00, Imm 0x484002, Imm 0x1ff], Count, Save_res 255,
    Memcpy 0x20259a40 (with_nul ''./var/tmp/'') 11,
    Syscall NR_faccessat2 [Dir_fd, Ptr 0x20259a40, Imm 0, Imm 0x200], Count,
    Syscall NR_write [Reg 255, Write_buf, Imm 0x3264], Count, Syscall NR_lseek [Reg 255, Imm 0, Imm 0], Count,
    Syscall NR_read [Reg 255, Ptr 0x20282b00, Imm 0x3264], Count]"

definition min_mysql_pread64_write_29_0_body129 :: "stmt list" where
  "min_mysql_pread64_write_29_0_body129 = [
    Syscall NR_close [Reg 255], Count, Memcpy 0x202e7700 (with_nul ''./var/tmp/'') 11,
    Syscall NR_openat [Dir_fd, Ptr 0x202e7700, Imm 0x484002, Imm 0x1ff], Count, Save_res 256,
    Memcpy 0x2030e5c0 (with_nul ''./var/tmp/'') 11,
    Syscall NR_faccessat2 [Dir_fd, Ptr 0x2030e5c0, Imm 0, Imm 0x200], Count,
    Syscall NR_write [Reg 256, Write_buf, Imm 0x90ec], Count,
    Syscall NR_pread64 [Reg 256, Ptr 0x20338500, Imm 0x4000, Imm 0], Count,
    Syscall NR_pread64 [Reg 256, Ptr 0x20350a00, Imm 0x1164, Imm 0x7f88], Count,
    Syscall NR_pread64 [Reg 256, Ptr 0x203733c0, Imm 0x4000, Imm 0x3fc4], Count, Syscall NR_close [Reg 256],
    Count, Memcpy 0x203ba400 (with_nul ''./var/tmp/'') 11,
    Syscall NR_openat [Dir_fd, Ptr 0x203ba400, Imm 0x484002, Imm 0x1ff], Count, Save_res 257,
    Memcpy 0x203fd5c0 (with_nul ''./var/tmp/'') 11,
    Syscall NR_faccessat2 [Dir_fd, Ptr 0x203fd5c0, Imm 0, Imm 0x200], Count,
    Syscall NR_write [Reg 257, Write_buf, Imm 0x30d4], Count, Syscall NR_lseek [Reg 257, Imm 0, Imm 0], Count,
    Syscall NR_read [Reg 257, Ptr 0x20426b40, Imm 0x30d4], Count, Syscall NR_close [Reg 257], Count]"

definition min_mysql_pread64_write_29_0_body130 :: "stmt list" where
  "min_mysql_pread64_write_29_0_body130 = [
    Memcpy 0x207023c0 (with_nul ''./var/tmp/'') 11,
    Syscall NR_openat [Dir_fd, Ptr 0x207023c0, Imm 0x484002, Imm 0x1ff], Count, Save_res 258,
    Memcpy 0x2079c180 (with_nul ''./var/tmp/'') 11,
    Syscall NR_faccessat2 [Dir_fd, Ptr 0x2079c180, Imm 0, Imm 0x200], Count,
    Syscall NR_write [Reg 258, Write_buf, Imm 0x927c], Count,
    Syscall NR_pread64 [Reg 258, Ptr 0x20817980, Imm 0x4000, Imm 0], Count,
    Syscall NR_pread64 [Reg 258, Ptr 0x20850740, Imm 0x130b, Imm 0x7f71], Count,
    Syscall NR_pread64 [Reg 258, Ptr 0x20871280, Imm 0x4000, Imm 0x3efd], Count,
    Syscall NR_pread64 [Reg 258, Ptr 0x2089f700, Imm 0x1482, Imm 0x7dfa], Count, Syscall NR_close [Reg 258],
    Count, Memcpy 0x208fbf40 (with_nul ''./var/tmp/'') 11,
    Syscall NR_openat [Dir_fd, Ptr 0x208fbf40, Imm 0x484002, Imm 0x1ff], Count, Save_res 259,
    Memcpy 0x2098d500 (with_nul ''./var/tmp/'') 11,
    Syscall NR_faccessat2 [Dir_fd, Ptr 0x2098d500, Imm 0, Imm 0x200], Count,
    Syscall NR_write [Reg 259, Write_buf, Imm 0x3264], Count, Syscall NR_lseek [Reg 259, Imm 0, Imm 0], Count,
    Syscall NR_read [Reg 259, Ptr 0x209dab80, Imm 0x3264], Count]"

definition min_mysql_pread64_write_29_0_body131 :: "stmt list" where
  "min_mysql_pread64_write_29_0_body131 = [
    Syscall NR_close [Reg 259], Count, Memcpy 0x20ab9840 (with_nul ''./var/tmp/'') 11,
    Syscall NR_openat [Dir_fd, Ptr 0x20ab9840, Imm 0x484002, Imm 0x1ff], Count, Save_res 260,
    Memcpy 0x20b28c40 (with_nul ''./var/tmp/'') 11,
    Syscall NR_faccessat2 [Dir_fd, Ptr 0x20b28c40, Imm 0, Imm 0x200], Count,
    Syscall NR_write [Reg 260, Write_buf, Imm 0x90ec], Count,
    Syscall NR_pread64 [Reg 260, Ptr 0x20b88e00, Imm 0x4000, Imm 0], Count,
    Syscall NR_pread64 [Reg 260, Ptr 0x20baec40, Imm 0x1164, Imm 0x7f88], Count,
    Syscall NR_pread64 [Reg 260, Ptr 0x20bc3f00, Imm 0x4000, Imm 0x3fc4], Count, Syscall NR_close [Reg 260],
    Count, Memcpy 0x20bfea00 (with_nul ''./var/tmp/'') 11,
    Syscall NR_openat [Dir_fd, Ptr 0x20bfea00, Imm 0x484002, Imm 0x1ff], Count, Save_res 261,
    Memcpy 0x20c36d80 (with_nul ''./var/tmp/'') 11,
    Syscall NR_faccessat2 [Dir_fd, Ptr 0x20c36d80, Imm 0, Imm 0x200], Count,
    Syscall NR_write [Reg 261, Write_buf, Imm 0x30d4], Count, Syscall NR_lseek [Reg 261, Imm 0, Imm 0], Count,
    Syscall NR_read [Reg 261, Ptr 0x20c60a00, Imm 0x30d4], Count, Syscall NR_close [Reg 261], Count]"

definition min_mysql_pread64_write_29_0_body132 :: "stmt list" where
  "min_mysql_pread64_write_29_0_body132 = [
    Memcpy 0x20eff840 (with_nul ''./var/tmp/'') 11,
    Syscall NR_openat [Dir_fd, Ptr 0x20eff840, Imm 0x484002, Imm 0x1ff], Count, Save_res 262,
    Memcpy 0x20f7bf80 (with_nul ''./var/tmp/'') 11,
    Syscall NR_faccessat2 [Dir_fd, Ptr 0x20f7bf80, Imm 0, Imm 0x200], Count,
    Syscall NR_write [Reg 262, Write_buf, Imm 0x927c], Count,
    Syscall NR_pread64 [Reg 262, Ptr 0x20fe4b80, Imm 0x4000, Imm 0], Count,
    Syscall NR_pread64 [Reg 262, Ptr 0x20012dc0, Imm 0x130b, Imm 0x7f71], Count,
    Syscall NR_pread64 [Reg 262, Ptr 0x2002bb00, Imm 0x4000, Imm 0x3efd], Count,
    Syscall NR_pread64 [Reg 262, Ptr 0x2004ff00, Imm 0x1482, Imm 0x7dfa], Count, Syscall NR_close [Reg 262],
    Count, Memcpy 0x20075080 (with_nul ''./var/tmp/'') 11,
    Syscall NR_openat [Dir_fd, Ptr 0x20075080, Imm 0x484002, Imm 0x1ff], Count, Save_res 263,
    Memcpy 0x200a9200 (with_nul ''./var/tmp/'') 11,
    Syscall NR_faccessat2 [Dir_fd, Ptr 0x200a9200, Imm 0, Imm 0x200], Count,
    Syscall NR_write [Reg 263, Write_buf, Imm 0x3264], Count, Syscall NR_lseek [Reg 263, Imm 0, Imm 0], Count,
    Syscall NR_read [Reg 263, Ptr 0x20102ac0, Imm 0x3264], Count]"

definition min_mysql_pread64_write_29_0_body133 :: "stmt list" where
  "min_mysql_pread64_write_29_0_body133 = [
    Syscall NR_close [Reg 263], Count, Memcpy 0x201a8a00 (with_nul ''./var/tmp/'') 11,
    Syscall NR_openat [Dir_fd, Ptr 0x201a8a00, Imm 0x484002, Imm 0x1ff], Count, Save_res 264,
    Memcpy 0x20221480 (with_nul ''./var/tmp/'') 11,
    Syscall NR_faccessat2 [Dir_fd, Ptr 0x20221480, Imm 0, Imm 0x200], Count,
    Syscall NR_write [Reg 264, Write_buf, Imm 0x90ec], Count,
    Syscall NR_pread64 [Reg 264, Ptr 0x2028c980, Imm 0x4000, Imm 0], Count,
    Syscall NR_pread64 [Reg 264, Ptr 0x202b01c0, Imm 0x1164, Imm 0x7f88], Count,
    Syscall NR_pread64 [Reg 264, Ptr 0x202bef80, Imm 0x4000, Imm 0x3fc4], Count, Syscall NR_close [Reg 264],
    Count, Memcpy 0x202e1580 (with_nul ''./var/tmp/'') 11,
    Syscall NR_openat [Dir_fd, Ptr 0x202e1580, Imm 0x484002, Imm 0x1ff], Count, Save_res 265,
    Memcpy 0x20340480 (with_nul ''./var/tmp/'') 11,
    Syscall NR_faccessat2 [Dir_fd, Ptr 0x20340480, Imm 0, Imm 0x200], Count,
    Syscall NR_write [Reg 265, Write_buf, Imm 0x30d4], Count, Syscall NR_lseek [Reg 265, Imm 0, Imm 0], Count,
    Syscall NR_read [Reg 265, Ptr 0x20376200, Imm 0x30d4], Count, Syscall NR_close [Reg 265], Count]"

definition min_mysql_pread64_write_29_0_body134 :: "stmt list" where
  "min_mysql_pread64_write_29_0_body134 = [
    Memcpy 0x20cd5ec0 (with_nul ''./var/tmp/'') 11,
    Syscall NR_openat [Dir_fd, Ptr 0x20cd5ec0, Imm 0x484002, Imm 0x1ff], Count, Save_res 266,
    Memcpy 0x20ce2800 (with_nul ''./var/tmp/'') 11,
    Syscall NR_faccessat2 [Dir_fd, Ptr 0x20ce2800, Imm 0, Imm 0x200], Count,
    Syscall NR_write [Reg 266, Write_buf, Imm 0x90ec], Count,
    Syscall NR_pread64 [Reg 266, Ptr 0x20cf65c0, Imm 0x4000, Imm 0], Count,
    Syscall NR_pread64 [Reg 266, Ptr 0x20cfd900, Imm 0x1164, Imm 0x7f88], Count,
    Syscall NR_pread64 [Reg 266, Ptr 0x20d01dc0, Imm 0x4000, Imm 0x3fc4], Count, Syscall NR_close [Reg 266],
    Count, Memcpy 0x20d13640 (with_nul ''./var/tmp/'') 11,
    Syscall NR_openat [Dir_fd, Ptr 0x20d13640, Imm 0x484002, Imm 0x1ff], Count, Save_res 267,
    Memcpy 0x20d16b80 (with_nul ''./var/tmp/'') 11,
    Syscall NR_faccessat2 [Dir_fd, Ptr 0x20d16b80, Imm 0, Imm 0x200], Count,
    Syscall NR_write [Reg 267, Write_buf, Imm 0x30d4], Count, Syscall NR_lseek [Reg 267, Imm 0, Imm 0], Count,
    Syscall NR_read [Reg 267, Ptr 0x20d1d440, Imm 0x30d4], Count, Syscall NR_close [Reg 267], Count]"

definition min_mysql_pread64_write_29_0_body135 :: "stmt list" where
  "min_mysql_pread64_write_29_0_body135 = [
    Memcpy 0x2012cdc0 (with_nul ''./var/tmp/'') 11,
    Syscall NR_openat [Dir_fd, Ptr 0x2012cdc0, Imm 0x484002, Imm 0x1ff], Count, Save_res 268,
    Memcpy 0x201ac640 (with_nul ''./var/tmp/'') 11,
    Syscall NR_faccessat2 [Dir_fd, Ptr 0x201ac640, Imm 0, Imm 0x200], Count,
    Syscall NR_write [Reg 268, Write_buf, Imm 0x927c], Count,
    Syscall NR_pread64 [Reg 268, Ptr 0x201f5c80, Imm 0x4000, Imm 0], Count,
    Syscall NR_pread64 [Reg 268, Ptr 0x20209500, Imm 0x130b, Imm 0x7f71], Count,
    Syscall NR_pread64 [Reg 268, Ptr 0x20230380, Imm 0x4000, Imm 0x3efd], Count,
    Syscall NR_pread64 [Reg 268, Ptr 0x202763c0, Imm 0x1482, Imm 0x7dfa], Count, Syscall NR_close [Reg 268],
    Count, Memcpy 0x202c7740 (with_nul ''./var/tmp/'') 11,
    Syscall NR_openat [Dir_fd, Ptr 0x202c7740, Imm 0x484002, Imm 0x1ff], Count, Save_res 269,
    Memcpy 0x2034a100 (with_nul ''./var/tmp/'') 11,
    Syscall NR_faccessat2 [Dir_fd, Ptr 0x2034a100, Imm 0, Imm 0x200], Count,
    Syscall NR_write [Reg 269, Write_buf, Imm 0x3264], Count, Syscall NR_lseek [Reg 269, Imm 0, Imm 0], Count,
    Syscall NR_read [Reg 269, Ptr 0x2038bec0, Imm 0x3264], Count]"

definition min_mysql_pread64_write_29_0_body136 :: "stmt list" where
  "min_mysql_pread64_write_29_0_body136 = [
    Syscall NR_close [Reg 269], Count, Memcpy 0x20bce2c0 (with_nul ''./var/tmp/'') 11,
    Syscall NR_openat [Dir_fd, Ptr 0x20bce2c0, Imm 0x484002, Imm 0x1ff], Count, Save_res 270,
    Memcpy 0x20bce9c0 (with_nul ''./var/tmp/'') 11,
    Syscall NR_faccessat2 [Dir_fd, Ptr 0x20bce9c0, Imm 0, Imm 0x200], Count,
    Syscall NR_write [Reg 270, Write_buf, Imm 0x927c], Count,
    Syscall NR_pread64 [Reg 270, Ptr 0x20c11d40, Imm 0x4000, Imm 0], Count,
    Syscall NR_pread64 [Reg 270, Ptr 0x20c27640, Imm 0x130b, Imm 0x7f71], Count,
    Syscall NR_pread64 [Reg 270, Ptr 0x20c2f340, Imm 0x4000, Imm 0x3efd], Count,
    Syscall NR_pread64 [Reg 270, Ptr 0x20c37a00, Imm 0x1482, Imm 0x7dfa], Count,
    Memcpy 0x20c3c4c0 (with_nul ''./var/tmp/'') 11,
    Syscall NR_openat [Dir_fd, Ptr 0x20c3c4c0, Imm 0x484002, Imm 0x1ff], Count, Save_res 271,
    Memcpy 0x20c4f500 (with_nul ''./var/tmp/'') 11,
    Syscall NR_faccessat2 [Dir_fd, Ptr 0x20c4f500, Imm 0, Imm 0x200], Count,
    Syscall NR_write [Reg 271, Write_buf, Imm 0x3264], Count, Syscall NR_lseek [Reg 271, Imm 0, Imm 0], Count,
    Syscall NR_read [Reg 271, Ptr 0x20c68180, Imm 0x3264], Count]"

definition min_mysql_pread64_write_29_0_body137 :: "stmt list" where
  "min_mysql_pread64_write_29_0_body137 = [
    Syscall NR_close [Reg 271], Count, Memcpy 0x20213f80 (with_nul ''./var/tmp/'') 11,
    Syscall NR_openat [Dir_fd, Ptr 0x20213f80, Imm 0x484002, Imm 0x1ff], Count, Save_res 272,
    Memcpy 0x202140c0 (with_nul ''./var/tmp/'') 11,
    Syscall NR_faccessat2 [Dir_fd, Ptr 0x202140c0, Imm 0, Imm 0x200], Count,
    Syscall NR_write [Reg 272, Write_buf, Imm 0x90ec], Count,
    Syscall NR_pread64 [Reg 272, Ptr 0x2021d300, Imm 0x4000, Imm 0], Count,
    Syscall NR_pread64 [Reg 272, Ptr 0x20221500, Imm 0x1164, Imm 0x7f88], Count,
    Syscall NR_pread64 [Reg 272, Ptr 0x202227c0, Imm 0x4000, Imm 0x3fc4], Count, Syscall NR_close [Reg 272],
    Count, Memcpy 0x202430c0 (with_nul ''./var/tmp/'') 11,
    Syscall NR_openat [Dir_fd, Ptr 0x202430c0, Imm 0x484002, Imm 0x1ff], Count, Save_res 273,
    Memcpy 0x20250d80 (with_nul ''./var/tmp/'') 11,
    Syscall NR_faccessat2 [Dir_fd, Ptr 0x20250d80, Imm 0, Imm 0x200], Count,
    Syscall NR_write [Reg 273, Write_buf, Imm 0x30d4], Count, Syscall NR_lseek [Reg 273, Imm 0, Imm 0], Count,
    Syscall NR_read [Reg 273, Ptr 0x20254100, Imm 0x30d4], Count, Syscall NR_close [Reg 273], Count]"

definition min_mysql_pread64_write_29_0_body138 :: "stmt list" where
  "min_mysql_pread64_write_29_0_body138 = [
    Memcpy 0x205d66c0 (with_nul ''./var/tmp/'') 11,
    Syscall NR_openat [Dir_fd, Ptr 0x205d66c0, Imm 0x484002, Imm 0x1ff], Count, Save_res 274,
    Memcpy 0x20644f80 (with_nul ''./var/tmp/'') 11,
    Syscall NR_faccessat2 [Dir_fd, Ptr 0x20644f80, Imm 0, Imm 0x200], Count,
    Syscall NR_write [Reg 274, Write_buf, Imm 0x927c], Count,
    Syscall NR_pread64 [Reg 274, Ptr 0x206c4080, Imm 0x4000, Imm 0], Count,
    Syscall NR_pread64 [Reg 274, Ptr 0x206d66c0, Imm 0x130b, Imm 0x7f71], Count,
    Syscall NR_pread64 [Reg 274, Ptr 0x206edc80, Imm 0x4000, Imm 0x3efd], Count,
    Syscall NR_pread64 [Reg 274, Ptr 0x20716c00, Imm 0x1482, Imm 0x7dfa], Count, Syscall NR_close [Reg 274],
    Count, Memcpy 0x2075d540 (with_nul ''./var/tmp/'') 11,
    Syscall NR_openat [Dir_fd, Ptr 0x2075d540, Imm 0x484002, Imm 0x1ff], Count, Save_res 275,
    Memcpy 0x207b6b80 (with_nul ''./var/tmp/'') 11,
    Syscall NR_faccessat2 [Dir_fd, Ptr 0x207b6b80, Imm 0, Imm 0x200], Count,
    Syscall NR_write [Reg 275, Write_buf, Imm 0x3264], Count, Syscall NR_lseek [Reg 275, Imm 0, Imm 0], Count,
    Syscall NR_read [Reg 275, Ptr 0x207fb400, Imm 0x3264], Count]"

definition min_mysql_pread64_write_29_0_body139 :: "stmt list" where
  "min_mysql_pread64_write_29_0_body139 = [
    Syscall NR_close [Reg 275], Count, Memcpy 0x208998c0 (with_nul ''./var/tmp/'') 11,
    Syscall NR_openat [Dir_fd, Ptr 0x208998c0, Imm 0x484002, Imm 0x1ff], Count, Save_res 276,
    Memcpy 0x208ec3c0 (with_nul ''./var/tmp/'') 11,
    Syscall NR_faccessat2 [Dir_fd, Ptr 0x208ec3c0, Imm 0, Imm 0x200], Count,
    Syscall NR_write [Reg 276, Write_buf, Imm 0x90ec], Count,
    Syscall NR_pread64 [Reg 276, Ptr 0x2090b3c0, Imm 0x4000, Imm 0], Count,
    Syscall NR_pread64 [Reg 276, Ptr 0x20913780, Imm 0x1164, Imm 0x7f88], Count,
    Syscall NR_pread64 [Reg 276, Ptr 0x2091e400, Imm 0x4000, Imm 0x3fc4], Count, Syscall NR_close [Reg 276],
    Count, Memcpy 0x209357c0 (with_nul ''./var/tmp/'') 11,
    Syscall NR_openat [Dir_fd, Ptr 0x209357c0, Imm 0x484002, Imm 0x1ff], Count, Save_res 277,
    Memcpy 0x20956500 (with_nul ''./var/tmp/'') 11,
    Syscall NR_faccessat2 [Dir_fd, Ptr 0x20956500, Imm 0, Imm 0x200], Count,
    Syscall NR_write [Reg 277, Write_buf, Imm 0x30d4], Count, Syscall NR_lseek [Reg 277, Imm 0, Imm 0], Count,
    Syscall NR_read [Reg 277, Ptr 0x2096ce80, Imm 0x30d4], Count, Syscall NR_close [Reg 277], Count]"

definition min_mysql_pread64_write_29_0_body140 :: "stmt list" where
  "min_mysql_pread64_write_29_0_body140 = [
    Memcpy 0x20d82cc0 (with_nul ''./var/tmp/'') 11,
    Syscall NR_openat [Dir_fd, Ptr 0x20d82cc0, Imm 0x484002, Imm 0x1ff], Count, Save_res 278,
    Memcpy 0x20dcf740 (with_nul ''./var/tmp/'') 11,
    Syscall NR_faccessat2 [Dir_fd, Ptr 0x20dcf740, Imm 0, Imm 0x200], Count,
    Syscall NR_write [Reg 278, Write_buf, Imm 0x927c], Count,
    Syscall NR_pread64 [Reg 278, Ptr 0x20e0e3c0, Imm 0x4000, Imm 0], Count,
    Syscall NR_pread64 [Reg 278, Ptr 0x20e41980, Imm 0x130b, Imm 0x7f71], Count,
    Syscall NR_pread64 [Reg 278, Ptr 0x20e68f00, Imm 0x4000, Imm 0x3efd], Count,
    Syscall NR_pread64 [Reg 278, Ptr 0x20e84d80, Imm 0x1482, Imm 0x7dfa], Count, Syscall NR_close [Reg 278],
    Count, Memcpy 0x20ebcfc0 (with_nul ''./var/tmp/'') 11,
    Syscall NR_openat [Dir_fd, Ptr 0x20ebcfc0, Imm 0x484002, Imm 0x1ff], Count, Save_res 279,
    Memcpy 0x20ef9a80 (with_nul ''./var/tmp/'') 11,
    Syscall NR_faccessat2 [Dir_fd, Ptr 0x20ef9a80, Imm 0, Imm 0x200], Count,
    Syscall NR_write [Reg 279, Write_buf, Imm 0x3264], Count, Syscall NR_lseek [Reg 279, Imm 0, Imm 0], Count,
    Syscall NR_read [Reg 279, Ptr 0x20f56bc0, Imm 0x3264], Count]"

definition min_mysql_pread64_write_29_0_body141 :: "stmt list" where
  "min_mysql_pread64_write_29_0_body141 = [
    Syscall NR_close [Reg 279], Count, Memcpy 0x20241980 (with_nul ''./var/tmp/'') 11,
    Syscall NR_openat [Dir_fd, Ptr 0x20241980, Imm 0x484002, Imm 0x1ff], Count, Save_res 280,
    Memcpy 0x2026c340 (with_nul ''./var/tmp/'') 11,
    Syscall NR_faccessat2 [Dir_fd, Ptr 0x2026c340, Imm 0, Imm 0x200], Count,
    Syscall NR_write [Reg 280, Write_buf, Imm 0x90ec], Count,
    Syscall NR_pread64 [Reg 280, Ptr 0x20375d00, Imm 0x4000, Imm 0], Count,
    Syscall NR_pread64 [Reg 280, Ptr 0x203b05c0, Imm 0x1164, Imm 0x7f88], Count,
    Syscall NR_pread64 [Reg 280, Ptr 0x203f0940, Imm 0x4000, Imm 0x3fc4], Count, Syscall NR_close [Reg 280],
    Count, Memcpy 0x20440380 (with_nul ''./var/tmp/'') 11,
    Syscall NR_openat [Dir_fd, Ptr 0x20440380, Imm 0x484002, Imm 0x1ff], Count, Save_res 281,
    Memcpy 0x2045b0c0 (with_nul ''./var/tmp/'') 11,
    Syscall NR_faccessat2 [Dir_fd, Ptr 0x2045b0c0, Imm 0, Imm 0x200], Count,
    Syscall NR_write [Reg 281, Write_buf, Imm 0x30d4], Count, Syscall NR_lseek [Reg 281, Imm 0, Imm 0], Count,
    Syscall NR_read [Reg 281, Ptr 0x204b3a00, Imm 0x30d4], Count, Syscall NR_close [Reg 281], Count]"

definition min_mysql_pread64_write_29_0_body142 :: "stmt list" where
  "min_mysql_pread64_write_29_0_body142 = [
    Memcpy 0x20949500 (with_nul ''./var/tmp/'') 11,
    Syscall NR_openat [Dir_fd, Ptr 0x20949500, Imm 0x484002, Imm 0x1ff], Count, Save_res 282,
    Memcpy 0x2096d900 (with_nul ''./var/tmp/'') 11,
    Syscall NR_faccessat2 [Dir_fd, Ptr 0x2096d900, Imm 0, Imm 0x200], Count,
    Syscall NR_write [Reg 282, Write_buf, Imm 0x927c], Count,
    Syscall NR_pread64 [Reg 282, Ptr 0x20997ac0, Imm 0x4000, Imm 0], Count,
    Syscall NR_pread64 [Reg 282, Ptr 0x209a4580, Imm 0x130b, Imm 0x7f71], Count,
    Syscall NR_pread64 [Reg 282, Ptr 0x209d2e40, Imm 0x4000, Imm 0x3efd], Count,
    Syscall NR_pread64 [Reg 282, Ptr 0x209f8980, Imm 0x1482, Imm 0x7dfa], Count, Syscall NR_close [Reg 282],
    Count, Memcpy 0x20a1db40 (with_nul ''./var/tmp/'') 11,
    Syscall NR_openat [Dir_fd, Ptr 0x20a1db40, Imm 0x484002, Imm 0x1ff], Count, Save_res 283,
    Memcpy 0x20a45d40 (with_nul ''./var/tmp/'') 11,
    Syscall NR_faccessat2 [Dir_fd, Ptr 0x20a45d40, Imm 0, Imm 0x200], Count,
    Syscall NR_write [Reg 283, Write_buf, Imm 0x3264], Count, Syscall NR_lseek [Reg 283, Imm 0, Imm 0], Count,
    Syscall NR_read [Reg 283, Ptr 0x20ac0640, Imm 0x3264], Count]"

definition min_mysql_pread64_write_29_0_body143 :: "stmt list" where
  "min_mysql_pread64_write_29_0_body143 = [
    Syscall NR_close [Reg 283], Count, Memcpy 0x20bf1840 (with_nul ''./var/tmp/'') 11,
    Syscall NR_openat [Dir_fd, Ptr 0x20bf1840, Imm 0x484002, Imm 0x1ff], Count, Save_res 284,
    Memcpy 0x20c2ef40 (with_nul ''./var/tmp/'') 11,
    Syscall NR_faccessat2 [Dir_fd, Ptr 0x20c2ef40, Imm 0, Imm 0x200], Count,
    Syscall NR_write [Reg 284, Write_buf, Imm 0x90ec], Count,
    Syscall NR_pread64 [Reg 284, Ptr 0x20c563c0, Imm 0x4000, Imm 0], Count,
    Syscall NR_pread64 [Reg 284, Ptr 0x20c73940, Imm 0x1164, Imm 0x7f88], Count,
    Syscall NR_pread64 [Reg 284, Ptr 0x20c9a880, Imm 0x4000, Imm 0x3fc4], Count, Syscall NR_close [Reg 284],
    Count, Memcpy 0x20ce0780 (with_nul ''./var/tmp/'') 11,
    Syscall NR_openat [Dir_fd, Ptr 0x20ce0780, Imm 0x484002, Imm 0x1ff], Count, Save_res 285,
    Memcpy 0x20d2a7c0 (with_nul ''./var/tmp/'') 11,
    Syscall NR_faccessat2 [Dir_fd, Ptr 0x20d2a7c0, Imm 0, Imm 0x200], Count,
    Syscall NR_write [Reg 285, Write_buf, Imm 0x30d4], Count, Syscall NR_lseek [Reg 285, Imm 0, Imm 0], Count,
    Syscall NR_read [Reg 285, Ptr 0x20d9f000, Imm 0x30d4], Count, Syscall NR_close [Reg 285], Count]"

definition min_mysql_pread64_write_29_0_body144 :: "stmt list" where
  "min_mysql_pread64_write_29_0_body144 = [
    Memcpy 0x200e8000 (with_nul ''./var/tmp/'') 11,
    Syscall NR_openat [Dir_fd, Ptr 0x200e8000, Imm 0x484002, Imm 0x1ff], Count, Save_res 286,
    Memcpy 0x20138100 (with_nul ''./var/tmp/'') 11,
    Syscall NR_faccessat2 [Dir_fd, Ptr 0x20138100, Imm 0, Imm 0x200], Count,
    Syscall NR_write [Reg 286, Write_buf, Imm 0x927c], Count,
    Syscall NR_pread64 [Reg 286, Ptr 0x20159840, Imm 0x4000, Imm 0], Count,
    Syscall NR_pread64 [Reg 286, Ptr 0x201712c0, Imm 0x130b, Imm 0x7f71], Count,
    Syscall NR_pread64 [Reg 286, Ptr 0x20199cc0, Imm 0x4000, Imm 0x3efd], Count,
    Syscall NR_pread64 [Reg 286, Ptr 0x201b7b00, Imm 0x1482, Imm 0x7dfa], Count, Syscall NR_close [Reg 286],
    Count, Memcpy 0x201fd900 (with_nul ''./var/tmp/'') 11,
    Syscall NR_openat [Dir_fd, Ptr 0x201fd900, Imm 0x484002, Imm 0x1ff], Count, Save_res 287,
    Memcpy 0x20272d40 (with_nul ''./var/tmp/'') 11,
    Syscall NR_faccessat2 [Dir_fd, Ptr 0x20272d40, Imm 0, Imm 0x200], Count,
    Syscall NR_write [Reg 287, Write_buf, Imm 0x3264], Count, Syscall NR_lseek [Reg 287, Imm 0, Imm 0], Count,
    Syscall NR_read [Reg 287, Ptr 0x202d9100, Imm 0x3264], Count]"

definition min_mysql_pread64_write_29_0_body145 :: "stmt list" where
  "min_mysql_pread64_write_29_0_body145 = [
    Syscall NR_close [Reg 287], Count, Memcpy 0x203d62c0 (with_nul ''./var/tmp/'') 11,
    Syscall NR_openat [Dir_fd, Ptr 0x203d62c0, Imm 0x484002, Imm 0x1ff], Count, Save_res 288,
    Memcpy 0x20450d40 (with_nul ''./var/tmp/'') 11,
    Syscall NR_faccessat2 [Dir_fd, Ptr 0x20450d40, Imm 0, Imm 0x200], Count,
    Syscall NR_write [Reg 288, Write_buf, Imm 0x90ec], Count,
    Syscall NR_pread64 [Reg 288, Ptr 0x20489740, Imm 0x4000, Imm 0], Count,
    Syscall NR_pread64 [Reg 288, Ptr 0x204a7880, Imm 0x1164, Imm 0x7f88], Count,
    Syscall NR_pread64 [Reg 288, Ptr 0x204d6d40, Imm 0x4000, Imm 0x3fc4], Count, Syscall NR_close [Reg 288],
    Count, Memcpy 0x205254c0 (with_nul ''./var/tmp/'') 11,
    Syscall NR_openat [Dir_fd, Ptr 0x205254c0, Imm 0x484002, Imm 0x1ff], Count, Save_res 289,
    Memcpy 0x20593fc0 (with_nul ''./var/tmp/'') 11,
    Syscall NR_faccessat2 [Dir_fd, Ptr 0x20593fc0, Imm 0, Imm 0x200], Count,
    Syscall NR_write [Reg 289, Write_buf, Imm 0x30d4], Count, Syscall NR_lseek [Reg 289, Imm 0, Imm 0], Count,
    Syscall NR_read [Reg 289, Ptr 0x205e99c0, Imm 0x30d4], Count, Syscall NR_close [Reg 289], Count]"

definition min_mysql_pread64_write_29_0_body146 :: "stmt list" where
  "min_mysql_pread64_write_29_0_body146 = [
    Memcpy 0x20932500 (with_nul ''./var/tmp/'') 11,
    Syscall NR_openat [Dir_fd, Ptr 0x20932500, Imm 0x484002, Imm 0x1ff], Count, Save_res 290,
    Memcpy 0x20986000 (with_nul ''./var/tmp/'') 11,
    Syscall NR_faccessat2 [Dir_fd, Ptr 0x20986000, Imm 0, Imm 0x200], Count,
    Syscall NR_write [Reg 290, Write_buf, Imm 0x927c], Count,
    Syscall NR_pread64 [Reg 290, Ptr 0x209cad00, Imm 0x4000, Imm 0], Count,
    Syscall NR_pread64 [Reg 290, Ptr 0x209e16c0, Imm 0x130b, Imm 0x7f71], Count,
    Syscall NR_pread64 [Reg 290, Ptr 0x209f31c0, Imm 0x4000, Imm 0x3efd], Count,
    Syscall NR_pread64 [Reg 290, Ptr 0x20a09ac0, Imm 0x1482, Imm 0x7dfa], Count, Syscall NR_close [Reg 290],
    Count, Memcpy 0x20a37c40 (with_nul ''./var/tmp/'') 11,
    Syscall NR_openat [Dir_fd, Ptr 0x20a37c40, Imm 0x484002, Imm 0x1ff], Count, Save_res 291,
    Memcpy 0x20abb380 (with_nul ''./var/tmp/'') 11,
    Syscall NR_faccessat2 [Dir_fd, Ptr 0x20abb380, Imm 0, Imm 0x200], Count,
    Syscall NR_write [Reg 291, Write_buf, Imm 0x3264], Count, Syscall NR_lseek [Reg 291, Imm 0, Imm 0], Count,
    Syscall NR_read [Reg 291, Ptr 0x20b16680, Imm 0x3264], Count]"

definition min_mysql_pread64_write_29_0_body147 :: "stmt list" where
  "min_mysql_pread64_write_29_0_body147 = [
    Syscall NR_close [Reg 291], Count, Memcpy 0x20be1b40 (with_nul ''./var/tmp/'') 11,
    Syscall NR_openat [Dir_fd, Ptr 0x20be1b40, Imm 0x484002, Imm 0x1ff], Count, Save_res 292,
    Memcpy 0x20c71dc0 (with_nul ''./var/tmp/'') 11,
    Syscall NR_faccessat2 [Dir_fd, Ptr 0x20c71dc0, Imm 0, Imm 0x200], Count,
    Syscall NR_write [Reg 292, Write_buf, Imm 0x90ec], Count,
    Syscall NR_pread64 [Reg 292, Ptr 0x20cbac80, Imm 0x4000, Imm 0], Count,
    Syscall NR_pread64 [Reg 292, Ptr 0x20cd4b40, Imm 0x1164, Imm 0x7f88], Count,
    Syscall NR_pread64 [Reg 292, Ptr 0x20ce1c00, Imm 0x4000, Imm 0x3fc4], Count, Syscall NR_close [Reg 292],
    Count, Memcpy 0x20d0a700 (with_nul ''./var/tmp/'') 11,
    Syscall NR_openat [Dir_fd, Ptr 0x20d0a700, Imm 0x484002, Imm 0x1ff], Count, Save_res 293,
    Memcpy 0x20d64bc0 (with_nul ''./var/tmp/'') 11,
    Syscall NR_faccessat2 [Dir_fd, Ptr 0x20d64bc0, Imm 0, Imm 0x200], Count,
    Syscall NR_write [Reg 293, Write_buf, Imm 0x30d4], Count, Syscall NR_lseek [Reg 293, Imm 0, Imm 0], Count,
    Syscall NR_read [Reg 293, Ptr 0x20db6000, Imm 0x30d4], Count, Syscall NR_close [Reg 293], Count]"

definition min_mysql_pread64_write_29_0_body148 :: "stmt list" where
  "min_mysql_pread64_write_29_0_body148 = [
    Memcpy 0x20168e80 (with_nul ''./var/tmp/'') 11,
    Syscall NR_openat [Dir_fd, Ptr 0x20168e80, Imm 0x484002, Imm 0x1ff], Count, Save_res 294,
    Memcpy 0x201ded00 (with_nul ''./var/tmp/'') 11,
    Syscall NR_faccessat2 [Dir_fd, Ptr 0x201ded00, Imm 0, Imm 0x200], Count,
    Syscall NR_write [Reg 294, Write_buf, Imm 0x927c], Count,
    Syscall NR_pread64 [Reg 294, Ptr 0x20205700, Imm 0x4000, Imm 0], Count,
    Syscall NR_pread64 [Reg 294, Ptr 0x2021c380, Imm 0x130b, Imm 0x7f71], Count,
    Syscall NR_pread64 [Reg 294, Ptr 0x20231400, Imm 0x4000, Imm 0x3efd], Count,
    Syscall NR_pread64 [Reg 294, Ptr 0x202718c0, Imm 0x1482, Imm 0x7dfa], Count, Syscall NR_close [Reg 294],
    Count, Memcpy 0x202af5c0 (with_nul ''./var/tmp/'') 11,
    Syscall NR_openat [Dir_fd, Ptr 0x202af5c0, Imm 0x484002, Imm 0x1ff], Count, Save_res 295,
    Memcpy 0x2031b7c0 (with_nul ''./var/tmp/'') 11,
    Syscall NR_faccessat2 [Dir_fd, Ptr 0x2031b7c0, Imm 0, Imm 0x200], Count,
    Syscall NR_write [Reg 295, Write_buf, Imm 0x3264], Count, Syscall NR_lseek [Reg 295, Imm 0, Imm 0], Count,
    Syscall NR_read [Reg 295, Ptr 0x2037af40, Imm 0x3264], Count]"

definition min_mysql_pread64_write_29_0_body149 :: "stmt list" where
  "min_mysql_pread64_write_29_0_body149 = [
    Syscall NR_close [Reg 295], Count, Memcpy 0x203f7880 (with_nul ''./var/tmp/'') 11,
    Syscall NR_openat [Dir_fd, Ptr 0x203f7880, Imm 0x484002, Imm 0x1ff], Count, Save_res 296,
    Memcpy 0x20484a40 (with_nul ''./var/tmp/'') 11,
    Syscall NR_faccessat2 [Dir_fd, Ptr 0x20484a40, Imm 0, Imm 0x200], Count,
    Syscall NR_write [Reg 296, Write_buf, Imm 0x90ec], Count,
    Syscall NR_pread64 [Reg 296, Ptr 0x204b3b80, Imm 0x4000, Imm 0], Count,
    Syscall NR_pread64 [Reg 296, Ptr 0x204be6c0, Imm 0x1164, Imm 0x7f88], Count,
    Syscall NR_pread64 [Reg 296, Ptr 0x204c3400, Imm 0x4000, Imm 0x3fc4], Count, Syscall NR_close [Reg 296],
    Count, Memcpy 0x204e2bc0 (with_nul ''./var/tmp/'') 11,
    Syscall NR_openat [Dir_fd, Ptr 0x204e2bc0, Imm 0x484002, Imm 0x1ff], Count, Save_res 297,
    Memcpy 0x205420c0 (with_nul ''./var/tmp/'') 11,
    Syscall NR_faccessat2 [Dir_fd, Ptr 0x205420c0, Imm 0, Imm 0x200], Count,
    Syscall NR_write [Reg 297, Write_buf, Imm 0x30d4], Count, Syscall NR_lseek [Reg 297, Imm 0, Imm 0], Count,
    Syscall NR_read [Reg 297, Ptr 0x20574200, Imm 0x30d4], Count, Syscall NR_close [Reg 297], Count]"

definition min_mysql_pread64_write_29_0_body150 :: "stmt list" where
  "min_mysql_pread64_write_29_0_body150 = [
    Memcpy 0x209199c0 (with_nul ''./var/tmp/'') 11,
    Syscall NR_openat [Dir_fd, Ptr 0x209199c0, Imm 0x484002, Imm 0x1ff], Count, Save_res 298,
    Memcpy 0x20987540 (with_nul ''./var/tmp/'') 11,
    Syscall NR_faccessat2 [Dir_fd, Ptr 0x20987540, Imm 0, Imm 0x200], Count,
    Syscall NR_write [Reg 298, Write_buf, Imm 0x927c], Count,
    Syscall NR_pread64 [Reg 298, Ptr 0x209b93c0, Imm 0x4000, Imm 0], Count,
    Syscall NR_pread64 [Reg 298, Ptr 0x209c8b80, Imm 0x130b, Imm 0x7f71], Count,
    Syscall NR_pread64 [Reg 298, Ptr 0x209e4e00, Imm 0x4000, Imm 0x3efd], Count,
    Syscall NR_pread64 [Reg 298, Ptr 0x20a1d440, Imm 0x1482, Imm 0x7dfa], Count, Syscall NR_close [Reg 298],
    Count, Memcpy 0x20a76600 (with_nul ''./var/tmp/'') 11,
    Syscall NR_openat [Dir_fd, Ptr 0x20a76600, Imm 0x484002, Imm 0x1ff], Count, Save_res 299,
    Memcpy 0x20b06a40 (with_nul ''./var/tmp/'') 11,
    Syscall NR_faccessat2 [Dir_fd, Ptr 0x20b06a40, Imm 0, Imm 0x200], Count,
    Syscall NR_write [Reg 299, Write_buf, Imm 0x3264], Count, Syscall NR_lseek [Reg 299, Imm 0, Imm 0], Count,
    Syscall NR_read [Reg 299, Ptr 0x20b51ec0, Imm 0x3264], Count]"

definition min_mysql_pread64_write_29_0_body151 :: "stmt list" where
  "min_mysql_pread64_write_29_0_body151 = [
    Syscall NR_close [Reg 299], Count, Memcpy 0x20f190c0 (with_nul ''./var/tmp/'') 11,
    Syscall NR_openat [Dir_fd, Ptr 0x20f190c0, Imm 0x484002, Imm 0x1ff], Count, Save_res 300,
    Memcpy 0x20f3bdc0 (with_nul ''./var/tmp/'') 11,
    Syscall NR_faccessat2 [Dir_fd, Ptr 0x20f3bdc0, Imm 0, Imm 0x200], Count,
    Syscall NR_write [Reg 300, Write_buf, Imm 0x927c], Count,
    Syscall NR_pread64 [Reg 300, Ptr 0x20f67ec0, Imm 0x4000, Imm 0], Count,
    Syscall NR_pread64 [Reg 300, Ptr 0x20f7a980, Imm 0x130b, Imm 0x7f71], Count,
    Syscall NR_pread64 [Reg 300, Ptr 0x20faf980, Imm 0x4000, Imm 0x3efd], Count,
    Syscall NR_pread64 [Reg 300, Ptr 0x20fd6800, Imm 0x1482, Imm 0x7dfa], Count, Syscall NR_close [Reg 300],
    Count, Memcpy 0x2001ea40 (with_nul ''./var/tmp/'') 11,
    Syscall NR_openat [Dir_fd, Ptr 0x2001ea40, Imm 0x484002, Imm 0x1ff], Count, Save_res 301,
    Memcpy 0x2005fb40 (with_nul ''./var/tmp/'') 11,
    Syscall NR_faccessat2 [Dir_fd, Ptr 0x2005fb40, Imm 0, Imm 0x200], Count,
    Syscall NR_write [Reg 301, Write_buf, Imm 0x3264], Count, Syscall NR_lseek [Reg 301, Imm 0, Imm 0], Count,
    Syscall NR_read [Reg 301, Ptr 0x200b0bc0, Imm 0x3264], Count]"

definition min_mysql_pread64_write_29_0_body152 :: "stmt list" where
  "min_mysql_pread64_write_29_0_body152 = [
    Syscall NR_close [Reg 301], Count, Memcpy 0x201c5ec0 (with_nul ''./var/tmp/'') 11,
    Syscall NR_openat [Dir_fd, Ptr 0x201c5ec0, Imm 0x484002, Imm 0x1ff], Count, Save_res 302,
    Memcpy 0x201da4c0 (with_nul ''./var/tmp/'') 11,
    Syscall NR_faccessat2 [Dir_fd, Ptr 0x201da4c0, Imm 0, Imm 0x200], Count,
    Syscall NR_write [Reg 302, Write_buf, Imm 0x90ec], Count,
    Syscall NR_pread64 [Reg 302, Ptr 0x201e9f80, Imm 0x4000, Imm 0], Count,
    Syscall NR_pread64 [Reg 302, Ptr 0x201f4500, Imm 0x1164, Imm 0x7f88], Count,
    Syscall NR_pread64 [Reg 302, Ptr 0x201f6080, Imm 0x4000, Imm 0x3fc4], Count, Syscall NR_close [Reg 302],
    Count, Memcpy 0x2021c1c0 (with_nul ''./var/tmp/'') 11,
    Syscall NR_openat [Dir_fd, Ptr 0x2021c1c0, Imm 0x484002, Imm 0x1ff], Count, Save_res 303,
    Memcpy 0x20261d80 (with_nul ''./var/tmp/'') 11,
    Syscall NR_faccessat2 [Dir_fd, Ptr 0x20261d80, Imm 0, Imm 0x200], Count,
    Syscall NR_write [Reg 303, Write_buf, Imm 0x30d4], Count, Syscall NR_lseek [Reg 303, Imm 0, Imm 0], Count,
    Syscall NR_read [Reg 303, Ptr 0x202be080, Imm 0x30d4], Count, Syscall NR_close [Reg 303], Count]"

definition min_mysql_pread64_write_29_0_body153 :: "stmt list" where
  "min_mysql_pread64_write_29_0_body153 = [
    Memcpy 0x2063f080 (with_nul ''./var/tmp/'') 11,
    Syscall NR_openat [Dir_fd, Ptr 0x2063f080, Imm 0x484002, Imm 0x1ff], Count, Save_res 304,
    Memcpy 0x2066efc0 (with_nul ''./var/tmp/'') 11,
    Syscall NR_faccessat2 [Dir_fd, Ptr 0x2066efc0, Imm 0, Imm 0x200], Count,
    Syscall NR_write [Reg 304, Write_buf, Imm 0x927c], Count,
    Syscall NR_pread64 [Reg 304, Ptr 0x206c7b40, Imm 0x4000, Imm 0], Count,
    Syscall NR_pread64 [Reg 304, Ptr 0x206f2980, Imm 0x130b, Imm 0x7f71], Count,
    Syscall NR_pread64 [Reg 304, Ptr 0x207086c0, Imm 0x4000, Imm 0x3efd], Count,
    Syscall NR_pread64 [Reg 304, Ptr 0x2072fd40, Imm 0x1482, Imm 0x7dfa], Count, Syscall NR_close [Reg 304],
    Count, Memcpy 0x20761e00 (with_nul ''./var/tmp/'') 11,
    Syscall NR_openat [Dir_fd, Ptr 0x20761e00, Imm 0x484002, Imm 0x1ff], Count, Save_res 305,
    Memcpy 0x2078d3c0 (with_nul ''./var/tmp/'') 11,
    Syscall NR_faccessat2 [Dir_fd, Ptr 0x2078d3c0, Imm 0, Imm 0x200], Count,
    Syscall NR_write [Reg 305, Write_buf, Imm 0x3264], Count, Syscall NR_lseek [Reg 305, Imm 0, Imm 0], Count,
    Syscall NR_read [Reg 305, Ptr 0x207eec80, Imm 0x3264], Count]"

definition min_mysql_pread64_write_29_0_body154 :: "stmt list" where
  "min_mysql_pread64_write_29_0_body154 = [
    Syscall NR_close [Reg 305], Count, Memcpy 0x208b8e80 (with_nul ''./var/tmp/'') 11,
    Syscall NR_openat [Dir_fd, Ptr 0x208b8e80, Imm 0x484002, Imm 0x1ff], Count, Save_res 306,
    Memcpy 0x20912300 (with_nul ''./var/tmp/'') 11,
    Syscall NR_faccessat2 [Dir_fd, Ptr 0x20912300, Imm 0, Imm 0x200], Count,
    Syscall NR_write [Reg 306, Write_buf, Imm 0x90ec], Count,
    Syscall NR_pread64 [Reg 306, Ptr 0x2096b800, Imm 0x4000, Imm 0], Count,
    Syscall NR_pread64 [Reg 306, Ptr 0x2097d580, Imm 0x1164, Imm 0x7f88], Count,
    Syscall NR_pread64 [Reg 306, Ptr 0x209aaa00, Imm 0x4000, Imm 0x3fc4], Count, Syscall NR_close [Reg 306],
    Count, Memcpy 0x209dc500 (with_nul ''./var/tmp/'') 11,
    Syscall NR_openat [Dir_fd, Ptr 0x209dc500, Imm 0x484002, Imm 0x1ff], Count, Save_res 307,
    Memcpy 0x20a20f40 (with_nul ''./var/tmp/'') 11,
    Syscall NR_faccessat2 [Dir_fd, Ptr 0x20a20f40, Imm 0, Imm 0x200], Count,
    Syscall NR_write [Reg 307, Write_buf, Imm 0x30d4], Count, Syscall NR_lseek [Reg 307, Imm 0, Imm 0], Count,
    Syscall NR_read [Reg 307, Ptr 0x20a4e180, Imm 0x30d4], Count, Syscall NR_close [Reg 307], Count]"

definition min_mysql_pread64_write_29_0_body155 :: "stmt list" where
  "min_mysql_pread64_write_29_0_body155 = [
    Memcpy 0x20e10d80 (with_nul ''./var/tmp/'') 11,
    Syscall NR_openat [Dir_fd, Ptr 0x20e10d80, Imm 0x484002, Imm 0x1ff], Count, Save_res 308,
    Memcpy 0x20e685c0 (with_nul ''./var/tmp/'') 11,
    Syscall NR_faccessat2 [Dir_fd, Ptr 0x20e685c0, Imm 0, Imm 0x200], Count,
    Syscall NR_write [Reg 308, Write_buf, Imm 0x927c], Count,
    Syscall NR_pread64 [Reg 308, Ptr 0x20ea0e00, Imm 0x4000, Imm 0], Count,
    Syscall NR_pread64 [Reg 308, Ptr 0x20ec9e40, Imm 0x130b, Imm 0x7f71], Count,
    Syscall NR_pread64 [Reg 308, Ptr 0x20ee2d00, Imm 0x4000, Imm 0x3efd], Count,
    Syscall NR_pread64 [Reg 308, Ptr 0x20f17900, Imm 0x1482, Imm 0x7dfa], Count, Syscall NR_close [Reg 308],
    Count, Memcpy 0x20f63280 (with_nul ''./var/tmp/'') 11,
    Syscall NR_openat [Dir_fd, Ptr 0x20f63280, Imm 0x484002, Imm 0x1ff], Count, Save_res 309,
    Memcpy 0x20fbedc0 (with_nul ''./var/tmp/'') 11,
    Syscall NR_faccessat2 [Dir_fd, Ptr 0x20fbedc0, Imm 0, Imm 0x200], Count,
    Syscall NR_write [Reg 309, Write_buf, Imm 0x3264], Count, Syscall NR_lseek [Reg 309, Imm 0, Imm 0], Count,
    Syscall NR_read [Reg 309, Ptr 0x2002b2c0, Imm 0x3264], Count]"

definition min_mysql_pread64_write_29_0_body156 :: "stmt list" where
  "min_mysql_pread64_write_29_0_body156 = [
    Memcpy 0x200e7340 (with_nul ''./var/tmp/'') 11,
    Syscall NR_openat [Dir_fd, Ptr 0x200e7340, Imm 0x484002, Imm 0x1ff], Count, Save_res 310,
    Memcpy 0x20128a00 (with_nul ''./var/tmp/'') 11,
    Syscall NR_faccessat2 [Dir_fd, Ptr 0x20128a00, Imm 0, Imm 0x200], Count,
    Syscall NR_write [Reg 310, Write_buf, Imm 0x90ec], Count,
    Syscall NR_pread64 [Reg 310, Ptr 0x20155080, Imm 0x4000, Imm 0], Count,
    Syscall NR_pread64 [Reg 310, Ptr 0x2016ce00, Imm 0x1164, Imm 0x7f88], Count,
    Syscall NR_pread64 [Reg 310, Ptr 0x20182a00, Imm 0x4000, Imm 0x3fc4], Count, Syscall NR_close [Reg 310],
    Count, Memcpy 0x201b1d80 (with_nul ''./var/tmp/'') 11,
    Syscall NR_openat [Dir_fd, Ptr 0x201b1d80, Imm 0x484002, Imm 0x1ff], Count, Save_res 311,
    Memcpy 0x201ced80 (with_nul ''./var/tmp/'') 11,
    Syscall NR_faccessat2 [Dir_fd, Ptr 0x201ced80, Imm 0, Imm 0x200], Count,
    Syscall NR_write [Reg 311, Write_buf, Imm 0x30d4], Count, Syscall NR_lseek [Reg 311, Imm 0, Imm 0], Count,
    Syscall NR_read [Reg 311, Ptr 0x201f7200, Imm 0x30d4], Count, Syscall NR_close [Reg 311], Count]"

definition min_mysql_pread64_write_29_0_regs :: "u64 list" where
  "min_mysql_pread64_write_29_0_regs = replicate 312 (- 1)"

definition min_mysql_pread64_write_29_0 :: syz_prog where
  "min_mysql_pread64_write_29_0 = \<lparr>prog_name = ''min_mysql_pread64_write_29_0'', prog_family = Mysql_v2,
     subdirs = [''var/tmp'', ''./var/tmp/''],
     filenames = [''./var/tmp''], filesizes = [37500],
     max_write_buffer = 37500, init_regs = min_mysql_pread64_write_29_0_regs,
     reg_body = [], dereg_body = [],
     body = min_mysql_pread64_write_29_0_body1 @ min_mysql_pread64_write_29_0_body2 @
       min_mysql_pread64_write_29_0_body3 @ min_mysql_pread64_write_29_0_body4 @
       min_mysql_pread64_write_29_0_body5 @ min_mysql_pread64_write_29_0_body6 @
       min_mysql_pread64_write_29_0_body7 @ min_mysql_pread64_write_29_0_body8 @
       min_mysql_pread64_write_29_0_body9 @ min_mysql_pread64_write_29_0_body10 @
       min_mysql_pread64_write_29_0_body11 @ min_mysql_pread64_write_29_0_body12 @
       min_mysql_pread64_write_29_0_body13 @ min_mysql_pread64_write_29_0_body14 @
       min_mysql_pread64_write_29_0_body15 @ min_mysql_pread64_write_29_0_body16 @
       min_mysql_pread64_write_29_0_body17 @ min_mysql_pread64_write_29_0_body18 @
       min_mysql_pread64_write_29_0_body19 @ min_mysql_pread64_write_29_0_body20 @
       min_mysql_pread64_write_29_0_body21 @ min_mysql_pread64_write_29_0_body22 @
       min_mysql_pread64_write_29_0_body23 @ min_mysql_pread64_write_29_0_body24 @
       min_mysql_pread64_write_29_0_body25 @ min_mysql_pread64_write_29_0_body26 @
       min_mysql_pread64_write_29_0_body27 @ min_mysql_pread64_write_29_0_body28 @
       min_mysql_pread64_write_29_0_body29 @ min_mysql_pread64_write_29_0_body30 @
       min_mysql_pread64_write_29_0_body31 @ min_mysql_pread64_write_29_0_body32 @
       min_mysql_pread64_write_29_0_body33 @ min_mysql_pread64_write_29_0_body34 @
       min_mysql_pread64_write_29_0_body35 @ min_mysql_pread64_write_29_0_body36 @
       min_mysql_pread64_write_29_0_body37 @ min_mysql_pread64_write_29_0_body38 @
       min_mysql_pread64_write_29_0_body39 @ min_mysql_pread64_write_29_0_body40 @
       min_mysql_pread64_write_29_0_body41 @ min_mysql_pread64_write_29_0_body42 @
       min_mysql_pread64_write_29_0_body43 @ min_mysql_pread64_write_29_0_body44 @
       min_mysql_pread64_write_29_0_body45 @ min_mysql_pread64_write_29_0_body46 @
       min_mysql_pread64_write_29_0_body47 @ min_mysql_pread64_write_29_0_body48 @
       min_mysql_pread64_write_29_0_body49 @ min_mysql_pread64_write_29_0_body50 @
       min_mysql_pread64_write_29_0_body51 @ min_mysql_pread64_write_29_0_body52 @
       min_mysql_pread64_write_29_0_body53 @ min_mysql_pread64_write_29_0_body54 @
       min_mysql_pread64_write_29_0_body55 @ min_mysql_pread64_write_29_0_body56 @
       min_mysql_pread64_write_29_0_body57 @ min_mysql_pread64_write_29_0_body58 @
       min_mysql_pread64_write_29_0_body59 @ min_mysql_pread64_write_29_0_body60 @
       min_mysql_pread64_write_29_0_body61 @ min_mysql_pread64_write_29_0_body62 @
       min_mysql_pread64_write_29_0_body63 @ min_mysql_pread64_write_29_0_body64 @
       min_mysql_pread64_write_29_0_body65 @ min_mysql_pread64_write_29_0_body66 @
       min_mysql_pread64_write_29_0_body67 @ min_mysql_pread64_write_29_0_body68 @
       min_mysql_pread64_write_29_0_body69 @ min_mysql_pread64_write_29_0_body70 @
       min_mysql_pread64_write_29_0_body71 @ min_mysql_pread64_write_29_0_body72 @
       min_mysql_pread64_write_29_0_body73 @ min_mysql_pread64_write_29_0_body74 @
       min_mysql_pread64_write_29_0_body75 @ min_mysql_pread64_write_29_0_body76 @
       min_mysql_pread64_write_29_0_body77 @ min_mysql_pread64_write_29_0_body78 @
       min_mysql_pread64_write_29_0_body79 @ min_mysql_pread64_write_29_0_body80 @
       min_mysql_pread64_write_29_0_body81 @ min_mysql_pread64_write_29_0_body82 @
       min_mysql_pread64_write_29_0_body83 @ min_mysql_pread64_write_29_0_body84 @
       min_mysql_pread64_write_29_0_body85 @ min_mysql_pread64_write_29_0_body86 @
       min_mysql_pread64_write_29_0_body87 @ min_mysql_pread64_write_29_0_body88 @
       min_mysql_pread64_write_29_0_body89 @ min_mysql_pread64_write_29_0_body90 @
       min_mysql_pread64_write_29_0_body91 @ min_mysql_pread64_write_29_0_body92 @
       min_mysql_pread64_write_29_0_body93 @ min_mysql_pread64_write_29_0_body94 @
       min_mysql_pread64_write_29_0_body95 @ min_mysql_pread64_write_29_0_body96 @
       min_mysql_pread64_write_29_0_body97 @ min_mysql_pread64_write_29_0_body98 @
       min_mysql_pread64_write_29_0_body99 @ min_mysql_pread64_write_29_0_body100 @
       min_mysql_pread64_write_29_0_body101 @ min_mysql_pread64_write_29_0_body102 @
       min_mysql_pread64_write_29_0_body103 @ min_mysql_pread64_write_29_0_body104 @
       min_mysql_pread64_write_29_0_body105 @ min_mysql_pread64_write_29_0_body106 @
       min_mysql_pread64_write_29_0_body107 @ min_mysql_pread64_write_29_0_body108 @
       min_mysql_pread64_write_29_0_body109 @ min_mysql_pread64_write_29_0_body110 @
       min_mysql_pread64_write_29_0_body111 @ min_mysql_pread64_write_29_0_body112 @
       min_mysql_pread64_write_29_0_body113 @ min_mysql_pread64_write_29_0_body114 @
       min_mysql_pread64_write_29_0_body115 @ min_mysql_pread64_write_29_0_body116 @
       min_mysql_pread64_write_29_0_body117 @ min_mysql_pread64_write_29_0_body118 @
       min_mysql_pread64_write_29_0_body119 @ min_mysql_pread64_write_29_0_body120 @
       min_mysql_pread64_write_29_0_body121 @ min_mysql_pread64_write_29_0_body122 @
       min_mysql_pread64_write_29_0_body123 @ min_mysql_pread64_write_29_0_body124 @
       min_mysql_pread64_write_29_0_body125 @ min_mysql_pread64_write_29_0_body126 @
       min_mysql_pread64_write_29_0_body127 @ min_mysql_pread64_write_29_0_body128 @
       min_mysql_pread64_write_29_0_body129 @ min_mysql_pread64_write_29_0_body130 @
       min_mysql_pread64_write_29_0_body131 @ min_mysql_pread64_write_29_0_body132 @
       min_mysql_pread64_write_29_0_body133 @ min_mysql_pread64_write_29_0_body134 @
       min_mysql_pread64_write_29_0_body135 @ min_mysql_pread64_write_29_0_body136 @
       min_mysql_pread64_write_29_0_body137 @ min_mysql_pread64_write_29_0_body138 @
       min_mysql_pread64_write_29_0_body139 @ min_mysql_pread64_write_29_0_body140 @
       min_mysql_pread64_write_29_0_body141 @ min_mysql_pread64_write_29_0_body142 @
       min_mysql_pread64_write_29_0_body143 @ min_mysql_pread64_write_29_0_body144 @
       min_mysql_pread64_write_29_0_body145 @ min_mysql_pread64_write_29_0_body146 @
       min_mysql_pread64_write_29_0_body147 @ min_mysql_pread64_write_29_0_body148 @
       min_mysql_pread64_write_29_0_body149 @ min_mysql_pread64_write_29_0_body150 @
       min_mysql_pread64_write_29_0_body151 @ min_mysql_pread64_write_29_0_body152 @
       min_mysql_pread64_write_29_0_body153 @ min_mysql_pread64_write_29_0_body154 @
       min_mysql_pread64_write_29_0_body155 @ min_mysql_pread64_write_29_0_body156\<rparr>"

definition min_mysql_pread64_write_29_0_target where
  "min_mysql_pread64_write_29_0_target os_getenv os_inet_pton K = syz_target os_getenv os_inet_pton K min_mysql_pread64_write_29_0"

lemma min_mysql_pread64_write_29_0_body1_ok: "body_ok 312 37500 min_mysql_pread64_write_29_0_body1" "counted min_mysql_pread64_write_29_0_body1" "calls min_mysql_pread64_write_29_0_body1 = 13" "opened_in m min_mysql_pread64_write_29_0_body1 = [Some ''./var/tmp/'', Some ''./var/tmp/'']"
  by (simp_all add: min_mysql_pread64_write_29_0_body1_def prog_checks open_checks)

lemma min_mysql_pread64_write_29_0_body2_ok: "body_ok 312 37500 min_mysql_pread64_write_29_0_body2" "counted min_mysql_pread64_write_29_0_body2" "calls min_mysql_pread64_write_29_0_body2 = 14" "opened_in m min_mysql_pread64_write_29_0_body2 = [Some ''./var/tmp/'', Some ''./var/tmp/'']"
  by (simp_all add: min_mysql_pread64_write_29_0_body2_def prog_checks open_checks)

lemma min_mysql_pread64_write_29_0_body3_ok: "body_ok 312 37500 min_mysql_pread64_write_29_0_body3" "counted min_mysql_pread64_write_29_0_body3" "calls min_mysql_pread64_write_29_0_body3 = 13" "opened_in m min_mysql_pread64_write_29_0_body3 = [Some ''./var/tmp/'', Some ''./var/tmp/'']"
  by (simp_all add: min_mysql_pread64_write_29_0_body3_def prog_checks open_checks)

lemma min_mysql_pread64_write_29_0_body4_ok: "body_ok 312 37500 min_mysql_pread64_write_29_0_body4" "counted min_mysql_pread64_write_29_0_body4" "calls min_mysql_pread64_write_29_0_body4 = 14" "opened_in m min_mysql_pread64_write_29_0_body4 = [Some ''./var/tmp/'', Some ''./var/tmp/'']"
  by (simp_all add: min_mysql_pread64_write_29_0_body4_def prog_checks open_checks)

lemma min_mysql_pread64_write_29_0_body5_ok: "body_ok 312 37500 min_mysql_pread64_write_29_0_body5" "counted min_mysql_pread64_write_29_0_body5" "calls min_mysql_pread64_write_29_0_body5 = 13" "opened_in m min_mysql_pread64_write_29_0_body5 = [Some ''./var/tmp/'', Some ''./var/tmp/'']"
  by (simp_all add: min_mysql_pread64_write_29_0_body5_def prog_checks open_checks)

lemma min_mysql_pread64_write_29_0_body6_ok: "body_ok 312 37500 min_mysql_pread64_write_29_0_body6" "counted min_mysql_pread64_write_29_0_body6" "calls min_mysql_pread64_write_29_0_body6 = 14" "opened_in m min_mysql_pread64_write_29_0_body6 = [Some ''./var/tmp/'', Some ''./var/tmp/'']"
  by (simp_all add: min_mysql_pread64_write_29_0_body6_def prog_checks open_checks)

lemma min_mysql_pread64_write_29_0_body7_ok: "body_ok 312 37500 min_mysql_pread64_write_29_0_body7" "counted min_mysql_pread64_write_29_0_body7" "calls min_mysql_pread64_write_29_0_body7 = 13" "opened_in m min_mysql_pread64_write_29_0_body7 = [Some ''./var/tmp/'', Some ''./var/tmp/'']"
  by (simp_all add: min_mysql_pread64_write_29_0_body7_def prog_checks open_checks)

lemma min_mysql_pread64_write_29_0_body8_ok: "body_ok 312 37500 min_mysql_pread64_write_29_0_body8" "counted min_mysql_pread64_write_29_0_body8" "calls min_mysql_pread64_write_29_0_body8 = 14" "opened_in m min_mysql_pread64_write_29_0_body8 = [Some ''./var/tmp/'', Some ''./var/tmp/'']"
  by (simp_all add: min_mysql_pread64_write_29_0_body8_def prog_checks open_checks)

lemma min_mysql_pread64_write_29_0_body9_ok: "body_ok 312 37500 min_mysql_pread64_write_29_0_body9" "counted min_mysql_pread64_write_29_0_body9" "calls min_mysql_pread64_write_29_0_body9 = 14" "opened_in m min_mysql_pread64_write_29_0_body9 = [Some ''./var/tmp/'', Some ''./var/tmp/'']"
  by (simp_all add: min_mysql_pread64_write_29_0_body9_def prog_checks open_checks)

lemma min_mysql_pread64_write_29_0_body10_ok: "body_ok 312 37500 min_mysql_pread64_write_29_0_body10" "counted min_mysql_pread64_write_29_0_body10" "calls min_mysql_pread64_write_29_0_body10 = 13" "opened_in m min_mysql_pread64_write_29_0_body10 = [Some ''./var/tmp/'', Some ''./var/tmp/'']"
  by (simp_all add: min_mysql_pread64_write_29_0_body10_def prog_checks open_checks)

lemma min_mysql_pread64_write_29_0_body11_ok: "body_ok 312 37500 min_mysql_pread64_write_29_0_body11" "counted min_mysql_pread64_write_29_0_body11" "calls min_mysql_pread64_write_29_0_body11 = 14" "opened_in m min_mysql_pread64_write_29_0_body11 = [Some ''./var/tmp/'', Some ''./var/tmp/'']"
  by (simp_all add: min_mysql_pread64_write_29_0_body11_def prog_checks open_checks)

lemma min_mysql_pread64_write_29_0_body12_ok: "body_ok 312 37500 min_mysql_pread64_write_29_0_body12" "counted min_mysql_pread64_write_29_0_body12" "calls min_mysql_pread64_write_29_0_body12 = 13" "opened_in m min_mysql_pread64_write_29_0_body12 = [Some ''./var/tmp/'', Some ''./var/tmp/'']"
  by (simp_all add: min_mysql_pread64_write_29_0_body12_def prog_checks open_checks)

lemma min_mysql_pread64_write_29_0_body13_ok: "body_ok 312 37500 min_mysql_pread64_write_29_0_body13" "counted min_mysql_pread64_write_29_0_body13" "calls min_mysql_pread64_write_29_0_body13 = 14" "opened_in m min_mysql_pread64_write_29_0_body13 = [Some ''./var/tmp/'', Some ''./var/tmp/'']"
  by (simp_all add: min_mysql_pread64_write_29_0_body13_def prog_checks open_checks)

lemma min_mysql_pread64_write_29_0_body14_ok: "body_ok 312 37500 min_mysql_pread64_write_29_0_body14" "counted min_mysql_pread64_write_29_0_body14" "calls min_mysql_pread64_write_29_0_body14 = 13" "opened_in m min_mysql_pread64_write_29_0_body14 = [Some ''./var/tmp/'', Some ''./var/tmp/'']"
  by (simp_all add: min_mysql_pread64_write_29_0_body14_def prog_checks open_checks)

lemma min_mysql_pread64_write_29_0_body15_ok: "body_ok 312 37500 min_mysql_pread64_write_29_0_body15" "counted min_mysql_pread64_write_29_0_body15" "calls min_mysql_pread64_write_29_0_body15 = 14" "opened_in m min_mysql_pread64_write_29_0_body15 = [Some ''./var/tmp/'', Some ''./var/tmp/'']"
  by (simp_all add: min_mysql_pread64_write_29_0_body15_def prog_checks open_checks)

lemma min_mysql_pread64_write_29_0_body16_ok: "body_ok 312 37500 min_mysql_pread64_write_29_0_body16" "counted min_mysql_pread64_write_29_0_body16" "calls min_mysql_pread64_write_29_0_body16 = 13" "opened_in m min_mysql_pread64_write_29_0_body16 = [Some ''./var/tmp/'', Some ''./var/tmp/'']"
  by (simp_all add: min_mysql_pread64_write_29_0_body16_def prog_checks open_checks)

lemma min_mysql_pread64_write_29_0_body17_ok: "body_ok 312 37500 min_mysql_pread64_write_29_0_body17" "counted min_mysql_pread64_write_29_0_body17" "calls min_mysql_pread64_write_29_0_body17 = 14" "opened_in m min_mysql_pread64_write_29_0_body17 = [Some ''./var/tmp/'', Some ''./var/tmp/'']"
  by (simp_all add: min_mysql_pread64_write_29_0_body17_def prog_checks open_checks)

lemma min_mysql_pread64_write_29_0_body18_ok: "body_ok 312 37500 min_mysql_pread64_write_29_0_body18" "counted min_mysql_pread64_write_29_0_body18" "calls min_mysql_pread64_write_29_0_body18 = 13" "opened_in m min_mysql_pread64_write_29_0_body18 = [Some ''./var/tmp/'', Some ''./var/tmp/'']"
  by (simp_all add: min_mysql_pread64_write_29_0_body18_def prog_checks open_checks)

lemma min_mysql_pread64_write_29_0_body19_ok: "body_ok 312 37500 min_mysql_pread64_write_29_0_body19" "counted min_mysql_pread64_write_29_0_body19" "calls min_mysql_pread64_write_29_0_body19 = 14" "opened_in m min_mysql_pread64_write_29_0_body19 = [Some ''./var/tmp/'', Some ''./var/tmp/'']"
  by (simp_all add: min_mysql_pread64_write_29_0_body19_def prog_checks open_checks)

lemma min_mysql_pread64_write_29_0_body20_ok: "body_ok 312 37500 min_mysql_pread64_write_29_0_body20" "counted min_mysql_pread64_write_29_0_body20" "calls min_mysql_pread64_write_29_0_body20 = 13" "opened_in m min_mysql_pread64_write_29_0_body20 = [Some ''./var/tmp/'', Some ''./var/tmp/'']"
  by (simp_all add: min_mysql_pread64_write_29_0_body20_def prog_checks open_checks)

lemma min_mysql_pread64_write_29_0_body21_ok: "body_ok 312 37500 min_mysql_pread64_write_29_0_body21" "counted min_mysql_pread64_write_29_0_body21" "calls min_mysql_pread64_write_29_0_body21 = 14" "opened_in m min_mysql_pread64_write_29_0_body21 = [Some ''./var/tmp/'', Some ''./var/tmp/'']"
  by (simp_all add: min_mysql_pread64_write_29_0_body21_def prog_checks open_checks)

lemma min_mysql_pread64_write_29_0_body22_ok: "body_ok 312 37500 min_mysql_pread64_write_29_0_body22" "counted min_mysql_pread64_write_29_0_body22" "calls min_mysql_pread64_write_29_0_body22 = 13" "opened_in m min_mysql_pread64_write_29_0_body22 = [Some ''./var/tmp/'', Some ''./var/tmp/'']"
  by (simp_all add: min_mysql_pread64_write_29_0_body22_def prog_checks open_checks)

lemma min_mysql_pread64_write_29_0_body23_ok: "body_ok 312 37500 min_mysql_pread64_write_29_0_body23" "counted min_mysql_pread64_write_29_0_body23" "calls min_mysql_pread64_write_29_0_body23 = 14" "opened_in m min_mysql_pread64_write_29_0_body23 = [Some ''./var/tmp/'', Some ''./var/tmp/'']"
  by (simp_all add: min_mysql_pread64_write_29_0_body23_def prog_checks open_checks)

lemma min_mysql_pread64_write_29_0_body24_ok: "body_ok 312 37500 min_mysql_pread64_write_29_0_body24" "counted min_mysql_pread64_write_29_0_body24" "calls min_mysql_pread64_write_29_0_body24 = 14" "opened_in m min_mysql_pread64_write_29_0_body24 = [Some ''./var/tmp/'', Some ''./var/tmp/'']"
  by (simp_all add: min_mysql_pread64_write_29_0_body24_def prog_checks open_checks)

lemma min_mysql_pread64_write_29_0_body25_ok: "body_ok 312 37500 min_mysql_pread64_write_29_0_body25" "counted min_mysql_pread64_write_29_0_body25" "calls min_mysql_pread64_write_29_0_body25 = 13" "opened_in m min_mysql_pread64_write_29_0_body25 = [Some ''./var/tmp/'', Some ''./var/tmp/'']"
  by (simp_all add: min_mysql_pread64_write_29_0_body25_def prog_checks open_checks)

lemma min_mysql_pread64_write_29_0_body26_ok: "body_ok 312 37500 min_mysql_pread64_write_29_0_body26" "counted min_mysql_pread64_write_29_0_body26" "calls min_mysql_pread64_write_29_0_body26 = 14" "opened_in m min_mysql_pread64_write_29_0_body26 = [Some ''./var/tmp/'', Some ''./var/tmp/'']"
  by (simp_all add: min_mysql_pread64_write_29_0_body26_def prog_checks open_checks)

lemma min_mysql_pread64_write_29_0_body27_ok: "body_ok 312 37500 min_mysql_pread64_write_29_0_body27" "counted min_mysql_pread64_write_29_0_body27" "calls min_mysql_pread64_write_29_0_body27 = 14" "opened_in m min_mysql_pread64_write_29_0_body27 = [Some ''./var/tmp/'', Some ''./var/tmp/'']"
  by (simp_all add: min_mysql_pread64_write_29_0_body27_def prog_checks open_checks)

lemma min_mysql_pread64_write_29_0_body28_ok: "body_ok 312 37500 min_mysql_pread64_write_29_0_body28" "counted min_mysql_pread64_write_29_0_body28" "calls min_mysql_pread64_write_29_0_body28 = 13" "opened_in m min_mysql_pread64_write_29_0_body28 = [Some ''./var/tmp/'', Some ''./var/tmp/'']"
  by (simp_all add: min_mysql_pread64_write_29_0_body28_def prog_checks open_checks)

lemma min_mysql_pread64_write_29_0_body29_ok: "body_ok 312 37500 min_mysql_pread64_write_29_0_body29" "counted min_mysql_pread64_write_29_0_body29" "calls min_mysql_pread64_write_29_0_body29 = 14" "opened_in m min_mysql_pread64_write_29_0_body29 = [Some ''./var/tmp/'', Some ''./var/tmp/'']"
  by (simp_all add: min_mysql_pread64_write_29_0_body29_def prog_checks open_checks)

lemma min_mysql_pread64_write_29_0_body30_ok: "body_ok 312 37500 min_mysql_pread64_write_29_0_body30" "counted min_mysql_pread64_write_29_0_body30" "calls min_mysql_pread64_write_29_0_body30 = 13" "opened_in m min_mysql_pread64_write_29_0_body30 = [Some ''./var/tmp/'', Some ''./var/tmp/'']"
  by (simp_all add: min_mysql_pread64_write_29_0_body30_def prog_checks open_checks)

lemma min_mysql_pread64_write_29_0_body31_ok: "body_ok 312 37500 min_mysql_pread64_write_29_0_body31" "counted min_mysql_pread64_write_29_0_body31" "calls min_mysql_pread64_write_29_0_body31 = 14" "opened_in m min_mysql_pread64_write_29_0_body31 = [Some ''./var/tmp/'', Some ''./var/tmp/'']"
  by (simp_all add: min_mysql_pread64_write_29_0_body31_def prog_checks open_checks)

lemma min_mysql_pread64_write_29_0_body32_ok: "body_ok 312 37500 min_mysql_pread64_write_29_0_body32" "counted min_mysql_pread64_write_29_0_body32" "calls min_mysql_pread64_write_29_0_body32 = 13" "opened_in m min_mysql_pread64_write_29_0_body32 = [Some ''./var/tmp/'', Some ''./var/tmp/'']"
  by (simp_all add: min_mysql_pread64_write_29_0_body32_def prog_checks open_checks)

lemma min_mysql_pread64_write_29_0_body33_ok: "body_ok 312 37500 min_mysql_pread64_write_29_0_body33" "counted min_mysql_pread64_write_29_0_body33" "calls min_mysql_pread64_write_29_0_body33 = 14" "opened_in m min_mysql_pread64_write_29_0_body33 = [Some ''./var/tmp/'', Some ''./var/tmp/'']"
  by (simp_all add: min_mysql_pread64_write_29_0_body33_def prog_checks open_checks)

lemma min_mysql_pread64_write_29_0_body34_ok: "body_ok 312 37500 min_mysql_pread64_write_29_0_body34" "counted min_mysql_pread64_write_29_0_body34" "calls min_mysql_pread64_write_29_0_body34 = 13" "opened_in m min_mysql_pread64_write_29_0_body34 = [Some ''./var/tmp/'', Some ''./var/tmp/'']"
  by (simp_all add: min_mysql_pread64_write_29_0_body34_def prog_checks open_checks)

lemma min_mysql_pread64_write_29_0_body35_ok: "body_ok 312 37500 min_mysql_pread64_write_29_0_body35" "counted min_mysql_pread64_write_29_0_body35" "calls min_mysql_pread64_write_29_0_body35 = 14" "opened_in m min_mysql_pread64_write_29_0_body35 = [Some ''./var/tmp/'', Some ''./var/tmp/'']"
  by (simp_all add: min_mysql_pread64_write_29_0_body35_def prog_checks open_checks)

lemma min_mysql_pread64_write_29_0_body36_ok: "body_ok 312 37500 min_mysql_pread64_write_29_0_body36" "counted min_mysql_pread64_write_29_0_body36" "calls min_mysql_pread64_write_29_0_body36 = 13" "opened_in m min_mysql_pread64_write_29_0_body36 = [Some ''./var/tmp/'', Some ''./var/tmp/'']"
  by (simp_all add: min_mysql_pread64_write_29_0_body36_def prog_checks open_checks)

lemma min_mysql_pread64_write_29_0_body37_ok: "body_ok 312 37500 min_mysql_pread64_write_29_0_body37" "counted min_mysql_pread64_write_29_0_body37" "calls min_mysql_pread64_write_29_0_body37 = 13" "opened_in m min_mysql_pread64_write_29_0_body37 = [Some ''./var/tmp/'', Some ''./var/tmp/'']"
  by (simp_all add: min_mysql_pread64_write_29_0_body37_def prog_checks open_checks)

lemma min_mysql_pread64_write_29_0_body38_ok: "body_ok 312 37500 min_mysql_pread64_write_29_0_body38" "counted min_mysql_pread64_write_29_0_body38" "calls min_mysql_pread64_write_29_0_body38 = 14" "opened_in m min_mysql_pread64_write_29_0_body38 = [Some ''./var/tmp/'', Some ''./var/tmp/'']"
  by (simp_all add: min_mysql_pread64_write_29_0_body38_def prog_checks open_checks)

lemma min_mysql_pread64_write_29_0_body39_ok: "body_ok 312 37500 min_mysql_pread64_write_29_0_body39" "counted min_mysql_pread64_write_29_0_body39" "calls min_mysql_pread64_write_29_0_body39 = 13" "opened_in m min_mysql_pread64_write_29_0_body39 = [Some ''./var/tmp/'', Some ''./var/tmp/'']"
  by (simp_all add: min_mysql_pread64_write_29_0_body39_def prog_checks open_checks)

lemma min_mysql_pread64_write_29_0_body40_ok: "body_ok 312 37500 min_mysql_pread64_write_29_0_body40" "counted min_mysql_pread64_write_29_0_body40" "calls min_mysql_pread64_write_29_0_body40 = 14" "opened_in m min_mysql_pread64_write_29_0_body40 = [Some ''./var/tmp/'', Some ''./var/tmp/'']"
  by (simp_all add: min_mysql_pread64_write_29_0_body40_def prog_checks open_checks)

lemma min_mysql_pread64_write_29_0_body41_ok: "body_ok 312 37500 min_mysql_pread64_write_29_0_body41" "counted min_mysql_pread64_write_29_0_body41" "calls min_mysql_pread64_write_29_0_body41 = 13" "opened_in m min_mysql_pread64_write_29_0_body41 = [Some ''./var/tmp/'', Some ''./var/tmp/'']"
  by (simp_all add: min_mysql_pread64_write_29_0_body41_def prog_checks open_checks)

lemma min_mysql_pread64_write_29_0_body42_ok: "body_ok 312 37500 min_mysql_pread64_write_29_0_body42" "counted min_mysql_pread64_write_29_0_body42" "calls min_mysql_pread64_write_29_0_body42 = 14" "opened_in m min_mysql_pread64_write_29_0_body42 = [Some ''./var/tmp/'', Some ''./var/tmp/'']"
  by (simp_all add: min_mysql_pread64_write_29_0_body42_def prog_checks open_checks)

lemma min_mysql_pread64_write_29_0_body43_ok: "body_ok 312 37500 min_mysql_pread64_write_29_0_body43" "counted min_mysql_pread64_write_29_0_body43" "calls min_mysql_pread64_write_29_0_body43 = 13" "opened_in m min_mysql_pread64_write_29_0_body43 = [Some ''./var/tmp/'', Some ''./var/tmp/'']"
  by (simp_all add: min_mysql_pread64_write_29_0_body43_def prog_checks open_checks)

lemma min_mysql_pread64_write_29_0_body44_ok: "body_ok 312 37500 min_mysql_pread64_write_29_0_body44" "counted min_mysql_pread64_write_29_0_body44" "calls min_mysql_pread64_write_29_0_body44 = 13" "opened_in m min_mysql_pread64_write_29_0_body44 = [Some ''./var/tmp/'', Some ''./var/tmp/'']"
  by (simp_all add: min_mysql_pread64_write_29_0_body44_def prog_checks open_checks)

lemma min_mysql_pread64_write_29_0_body45_ok: "body_ok 312 37500 min_mysql_pread64_write_29_0_body45" "counted min_mysql_pread64_write_29_0_body45" "calls min_mysql_pread64_write_29_0_body45 = 13" "opened_in m min_mysql_pread64_write_29_0_body45 = [Some ''./var/tmp/'', Some ''./var/tmp/'']"
  by (simp_all add: min_mysql_pread64_write_29_0_body45_def prog_checks open_checks)

lemma min_mysql_pread64_write_29_0_body46_ok: "body_ok 312 37500 min_mysql_pread64_write_29_0_body46" "counted min_mysql_pread64_write_29_0_body46" "calls min_mysql_pread64_write_29_0_body46 = 14" "opened_in m min_mysql_pread64_write_29_0_body46 = [Some ''./var/tmp/'', Some ''./var/tmp/'']"
  by (simp_all add: min_mysql_pread64_write_29_0_body46_def prog_checks open_checks)

lemma min_mysql_pread64_write_29_0_body47_ok: "body_ok 312 37500 min_mysql_pread64_write_29_0_body47" "counted min_mysql_pread64_write_29_0_body47" "calls min_mysql_pread64_write_29_0_body47 = 13" "opened_in m min_mysql_pread64_write_29_0_body47 = [Some ''./var/tmp/'', Some ''./var/tmp/'']"
  by (simp_all add: min_mysql_pread64_write_29_0_body47_def prog_checks open_checks)

lemma min_mysql_pread64_write_29_0_body48_ok: "body_ok 312 37500 min_mysql_pread64_write_29_0_body48" "counted min_mysql_pread64_write_29_0_body48" "calls min_mysql_pread64_write_29_0_body48 = 14" "opened_in m min_mysql_pread64_write_29_0_body48 = [Some ''./var/tmp/'', Some ''./var/tmp/'']"
  by (simp_all add: min_mysql_pread64_write_29_0_body48_def prog_checks open_checks)

lemma min_mysql_pread64_write_29_0_body49_ok: "body_ok 312 37500 min_mysql_pread64_write_29_0_body49" "counted min_mysql_pread64_write_29_0_body49" "calls min_mysql_pread64_write_29_0_body49 = 13" "opened_in m min_mysql_pread64_write_29_0_body49 = [Some ''./var/tmp/'', Some ''./var/tmp/'']"
  by (simp_all add: min_mysql_pread64_write_29_0_body49_def prog_checks open_checks)

lemma min_mysql_pread64_write_29_0_body50_ok: "body_ok 312 37500 min_mysql_pread64_write_29_0_body50" "counted min_mysql_pread64_write_29_0_body50" "calls min_mysql_pread64_write_29_0_body50 = 14" "opened_in m min_mysql_pread64_write_29_0_body50 = [Some ''./var/tmp/'', Some ''./var/tmp/'']"
  by (simp_all add: min_mysql_pread64_write_29_0_body50_def prog_checks open_checks)

lemma min_mysql_pread64_write_29_0_body51_ok: "body_ok 312 37500 min_mysql_pread64_write_29_0_body51" "counted min_mysql_pread64_write_29_0_body51" "calls min_mysql_pread64_write_29_0_body51 = 13" "opened_in m min_mysql_pread64_write_29_0_body51 = [Some ''./var/tmp/'', Some ''./var/tmp/'']"
  by (simp_all add: min_mysql_pread64_write_29_0_body51_def prog_checks open_checks)

lemma min_mysql_pread64_write_29_0_body52_ok: "body_ok 312 37500 min_mysql_pread64_write_29_0_body52" "counted min_mysql_pread64_write_29_0_body52" "calls min_mysql_pread64_write_29_0_body52 = 14" "opened_in m min_mysql_pread64_write_29_0_body52 = [Some ''./var/tmp/'', Some ''./var/tmp/'']"
  by (simp_all add: min_mysql_pread64_write_29_0_body52_def prog_checks open_checks)

lemma min_mysql_pread64_write_29_0_body53_ok: "body_ok 312 37500 min_mysql_pread64_write_29_0_body53" "counted min_mysql_pread64_write_29_0_body53" "calls min_mysql_pread64_write_29_0_body53 = 13" "opened_in m min_mysql_pread64_write_29_0_body53 = [Some ''./var/tmp/'', Some ''./var/tmp/'']"
  by (simp_all add: min_mysql_pread64_write_29_0_body53_def prog_checks open_checks)

lemma min_mysql_pread64_write_29_0_body54_ok: "body_ok 312 37500 min_mysql_pread64_write_29_0_body54" "counted min_mysql_pread64_write_29_0_body54" "calls min_mysql_pread64_write_29_0_body54 = 14" "opened_in m min_mysql_pread64_write_29_0_body54 = [Some ''./var/tmp/'', Some ''./var/tmp/'']"
  by (simp_all add: min_mysql_pread64_write_29_0_body54_def prog_checks open_checks)

lemma min_mysql_pread64_write_29_0_body55_ok: "body_ok 312 37500 min_mysql_pread64_write_29_0_body55" "counted min_mysql_pread64_write_29_0_body55" "calls min_mysql_pread64_write_29_0_body55 = 13" "opened_in m min_mysql_pread64_write_29_0_body55 = [Some ''./var/tmp/'', Some ''./var/tmp/'']"
  by (simp_all add: min_mysql_pread64_write_29_0_body55_def prog_checks open_checks)

lemma min_mysql_pread64_write_29_0_body56_ok: "body_ok 312 37500 min_mysql_pread64_write_29_0_body56" "counted min_mysql_pread64_write_29_0_body56" "calls min_mysql_pread64_write_29_0_body56 = 14" "opened_in m min_mysql_pread64_write_29_0_body56 = [Some ''./var/tmp/'', Some ''./var/tmp/'']"
  by (simp_all add: min_mysql_pread64_write_29_0_body56_def prog_checks open_checks)

lemma min_mysql_pread64_write_29_0_body57_ok: "body_ok 312 37500 min_mysql_pread64_write_29_0_body57" "counted min_mysql_pread64_write_29_0_body57" "calls min_mysql_pread64_write_29_0_body57 = 13" "opened_in m min_mysql_pread64_write_29_0_body57 = [Some ''./var/tmp/'', Some ''./var/tmp/'']"
  by (simp_all add: min_mysql_pread64_write_29_0_body57_def prog_checks open_checks)

lemma min_mysql_pread64_write_29_0_body58_ok: "body_ok 312 37500 min_mysql_pread64_write_29_0_body58" "counted min_mysql_pread64_write_29_0_body58" "calls min_mysql_pread64_write_29_0_body58 = 14" "opened_in m min_mysql_pread64_write_29_0_body58 = [Some ''./var/tmp/'', Some ''./var/tmp/'']"
  by (simp_all add: min_mysql_pread64_write_29_0_body58_def prog_checks open_checks)

lemma min_mysql_pread64_write_29_0_body59_ok: "body_ok 312 37500 min_mysql_pread64_write_29_0_body59" "counted min_mysql_pread64_write_29_0_body59" "calls min_mysql_pread64_write_29_0_body59 = 13" "opened_in m min_mysql_pread64_write_29_0_body59 = [Some ''./var/tmp/'', Some ''./var/tmp/'']"
  by (simp_all add: min_mysql_pread64_write_29_0_body59_def prog_checks open_checks)

lemma min_mysql_pread64_write_29_0_body60_ok: "body_ok 312 37500 min_mysql_pread64_write_29_0_body60" "counted min_mysql_pread64_write_29_0_body60" "calls min_mysql_pread64_write_29_0_body60 = 14" "opened_in m min_mysql_pread64_write_29_0_body60 = [Some ''./var/tmp/'', Some ''./var/tmp/'']"
  by (simp_all add: min_mysql_pread64_write_29_0_body60_def prog_checks open_checks)

lemma min_mysql_pread64_write_29_0_body61_ok: "body_ok 312 37500 min_mysql_pread64_write_29_0_body61" "counted min_mysql_pread64_write_29_0_body61" "calls min_mysql_pread64_write_29_0_body61 = 13" "opened_in m min_mysql_pread64_write_29_0_body61 = [Some ''./var/tmp/'', Some ''./var/tmp/'']"
  by (simp_all add: min_mysql_pread64_write_29_0_body61_def prog_checks open_checks)

lemma min_mysql_pread64_write_29_0_body62_ok: "body_ok 312 37500 min_mysql_pread64_write_29_0_body62" "counted min_mysql_pread64_write_29_0_body62" "calls min_mysql_pread64_write_29_0_body62 = 14" "opened_in m min_mysql_pread64_write_29_0_body62 = [Some ''./var/tmp/'', Some ''./var/tmp/'']"
  by (simp_all add: min_mysql_pread64_write_29_0_body62_def prog_checks open_checks)

lemma min_mysql_pread64_write_29_0_body63_ok: "body_ok 312 37500 min_mysql_pread64_write_29_0_body63" "counted min_mysql_pread64_write_29_0_body63" "calls min_mysql_pread64_write_29_0_body63 = 13" "opened_in m min_mysql_pread64_write_29_0_body63 = [Some ''./var/tmp/'', Some ''./var/tmp/'']"
  by (simp_all add: min_mysql_pread64_write_29_0_body63_def prog_checks open_checks)

lemma min_mysql_pread64_write_29_0_body64_ok: "body_ok 312 37500 min_mysql_pread64_write_29_0_body64" "counted min_mysql_pread64_write_29_0_body64" "calls min_mysql_pread64_write_29_0_body64 = 14" "opened_in m min_mysql_pread64_write_29_0_body64 = [Some ''./var/tmp/'', Some ''./var/tmp/'']"
  by (simp_all add: min_mysql_pread64_write_29_0_body64_def prog_checks open_checks)

lemma min_mysql_pread64_write_29_0_body65_ok: "body_ok 312 37500 min_mysql_pread64_write_29_0_body65" "counted min_mysql_pread64_write_29_0_body65" "calls min_mysql_pread64_write_29_0_body65 = 13" "opened_in m min_mysql_pread64_write_29_0_body65 = [Some ''./var/tmp/'', Some ''./var/tmp/'']"
  by (simp_all add: min_mysql_pread64_write_29_0_body65_def prog_checks open_checks)

lemma min_mysql_pread64_write_29_0_body66_ok: "body_ok 312 37500 min_mysql_pread64_write_29_0_body66" "counted min_mysql_pread64_write_29_0_body66" "calls min_mysql_pread64_write_29_0_body66 = 13" "opened_in m min_mysql_pread64_write_29_0_body66 = [Some ''./var/tmp/'', Some ''./var/tmp/'']"
  by (simp_all add: min_mysql_pread64_write_29_0_body66_def prog_checks open_checks)

lemma min_mysql_pread64_write_29_0_body67_ok: "body_ok 312 37500 min_mysql_pread64_write_29_0_body67" "counted min_mysql_pread64_write_29_0_body67" "calls min_mysql_pread64_write_29_0_body67 = 13" "opened_in m min_mysql_pread64_write_29_0_body67 = [Some ''./var/tmp/'', Some ''./var/tmp/'']"
  by (simp_all add: min_mysql_pread64_write_29_0_body67_def prog_checks open_checks)

lemma min_mysql_pread64_write_29_0_body68_ok: "body_ok 312 37500 min_mysql_pread64_write_29_0_body68" "counted min_mysql_pread64_write_29_0_body68" "calls min_mysql_pread64_write_29_0_body68 = 14" "opened_in m min_mysql_pread64_write_29_0_body68 = [Some ''./var/tmp/'', Some ''./var/tmp/'']"
  by (simp_all add: min_mysql_pread64_write_29_0_body68_def prog_checks open_checks)

lemma min_mysql_pread64_write_29_0_body69_ok: "body_ok 312 37500 min_mysql_pread64_write_29_0_body69" "counted min_mysql_pread64_write_29_0_body69" "calls min_mysql_pread64_write_29_0_body69 = 13" "opened_in m min_mysql_pread64_write_29_0_body69 = [Some ''./var/tmp/'', Some ''./var/tmp/'']"
  by (simp_all add: min_mysql_pread64_write_29_0_body69_def prog_checks open_checks)

lemma min_mysql_pread64_write_29_0_body70_ok: "body_ok 312 37500 min_mysql_pread64_write_29_0_body70" "counted min_mysql_pread64_write_29_0_body70" "calls min_mysql_pread64_write_29_0_body70 = 14" "opened_in m min_mysql_pread64_write_29_0_body70 = [Some ''./var/tmp/'', Some ''./var/tmp/'']"
  by (simp_all add: min_mysql_pread64_write_29_0_body70_def prog_checks open_checks)

lemma min_mysql_pread64_write_29_0_body71_ok: "body_ok 312 37500 min_mysql_pread64_write_29_0_body71" "counted min_mysql_pread64_write_29_0_body71" "calls min_mysql_pread64_write_29_0_body71 = 13" "opened_in m min_mysql_pread64_write_29_0_body71 = [Some ''./var/tmp/'', Some ''./var/tmp/'']"
  by (simp_all add: min_mysql_pread64_write_29_0_body71_def prog_checks open_checks)

lemma min_mysql_pread64_write_29_0_body72_ok: "body_ok 312 37500 min_mysql_pread64_write_29_0_body72" "counted min_mysql_pread64_write_29_0_body72" "calls min_mysql_pread64_write_29_0_body72 = 14" "opened_in m min_mysql_pread64_write_29_0_body72 = [Some ''./var/tmp/'', Some ''./var/tmp/'']"
  by (simp_all add: min_mysql_pread64_write_29_0_body72_def prog_checks open_checks)

lemma min_mysql_pread64_write_29_0_body73_ok: "body_ok 312 37500 min_mysql_pread64_write_29_0_body73" "counted min_mysql_pread64_write_29_0_body73" "calls min_mysql_pread64_write_29_0_body73 = 13" "opened_in m min_mysql_pread64_write_29_0_body73 = [Some ''./var/tmp/'', Some ''./var/tmp/'']"
  by (simp_all add: min_mysql_pread64_write_29_0_body73_def prog_checks open_checks)

lemma min_mysql_pread64_write_29_0_body74_ok: "body_ok 312 37500 min_mysql_pread64_write_29_0_body74" "counted min_mysql_pread64_write_29_0_body74" "calls min_mysql_pread64_write_29_0_body74 = 13" "opened_in m min_mysql_pread64_write_29_0_body74 = [Some ''./var/tmp/'', Some ''./var/tmp/'']"
  by (simp_all add: min_mysql_pread64_write_29_0_body74_def prog_checks open_checks)

lemma min_mysql_pread64_write_29_0_body75_ok: "body_ok 312 37500 min_mysql_pread64_write_29_0_body75" "counted min_mysql_pread64_write_29_0_body75" "calls min_mysql_pread64_write_29_0_body75 = 13" "opened_in m min_mysql_pread64_write_29_0_body75 = [Some ''./var/tmp/'', Some ''./var/tmp/'']"
  by (simp_all add: min_mysql_pread64_write_29_0_body75_def prog_checks open_checks)

lemma min_mysql_pread64_write_29_0_body76_ok: "body_ok 312 37500 min_mysql_pread64_write_29_0_body76" "counted min_mysql_pread64_write_29_0_body76" "calls min_mysql_pread64_write_29_0_body76 = 14" "opened_in m min_mysql_pread64_write_29_0_body76 = [Some ''./var/tmp/'', Some ''./var/tmp/'']"
  by (simp_all add: min_mysql_pread64_write_29_0_body76_def prog_checks open_checks)

lemma min_mysql_pread64_write_29_0_body77_ok: "body_ok 312 37500 min_mysql_pread64_write_29_0_body77" "counted min_mysql_pread64_write_29_0_body77" "calls min_mysql_pread64_write_29_0_body77 = 13" "opened_in m min_mysql_pread64_write_29_0_body77 = [Some ''./var/tmp/'', Some ''./var/tmp/'']"
  by (simp_all add: min_mysql_pread64_write_29_0_body77_def prog_checks open_checks)

lemma min_mysql_pread64_write_29_0_body78_ok: "body_ok 312 37500 min_mysql_pread64_write_29_0_body78" "counted min_mysql_pread64_write_29_0_body78" "calls min_mysql_pread64_write_29_0_body78 = 14" "opened_in m min_mysql_pread64_write_29_0_body78 = [Some ''./var/tmp/'', Some ''./var/tmp/'']"
  by (simp_all add: min_mysql_pread64_write_29_0_body78_def prog_checks open_checks)

lemma min_mysql_pread64_write_29_0_body79_ok: "body_ok 312 37500 min_mysql_pread64_write_29_0_body79" "counted min_mysql_pread64_write_29_0_body79" "calls min_mysql_pread64_write_29_0_body79 = 13" "opened_in m min_mysql_pread64_write_29_0_body79 = [Some ''./var/tmp/'', Some ''./var/tmp/'']"
  by (simp_all add: min_mysql_pread64_write_29_0_body79_def prog_checks open_checks)

lemma min_mysql_pread64_write_29_0_body80_ok: "body_ok 312 37500 min_mysql_pread64_write_29_0_body80" "counted min_mysql_pread64_write_29_0_body80" "calls min_mysql_pread64_write_29_0_body80 = 14" "opened_in m min_mysql_pread64_write_29_0_body80 = [Some ''./var/tmp/'', Some ''./var/tmp/'']"
  by (simp_all add: min_mysql_pread64_write_29_0_body80_def prog_checks open_checks)

lemma min_mysql_pread64_write_29_0_body81_ok: "body_ok 312 37500 min_mysql_pread64_write_29_0_body81" "counted min_mysql_pread64_write_29_0_body81" "calls min_mysql_pread64_write_29_0_body81 = 13" "opened_in m min_mysql_pread64_write_29_0_body81 = [Some ''./var/tmp/'', Some ''./var/tmp/'']"
  by (simp_all add: min_mysql_pread64_write_29_0_body81_def prog_checks open_checks)

lemma min_mysql_pread64_write_29_0_body82_ok: "body_ok 312 37500 min_mysql_pread64_write_29_0_body82" "counted min_mysql_pread64_write_29_0_body82" "calls min_mysql_pread64_write_29_0_body82 = 14" "opened_in m min_mysql_pread64_write_29_0_body82 = [Some ''./var/tmp/'', Some ''./var/tmp/'']"
  by (simp_all add: min_mysql_pread64_write_29_0_body82_def prog_checks open_checks)

lemma min_mysql_pread64_write_29_0_body83_ok: "body_ok 312 37500 min_mysql_pread64_write_29_0_body83" "counted min_mysql_pread64_write_29_0_body83" "calls min_mysql_pread64_write_29_0_body83 = 13" "opened_in m min_mysql_pread64_write_29_0_body83 = [Some ''./var/tmp/'', Some ''./var/tmp/'']"
  by (simp_all add: min_mysql_pread64_write_29_0_body83_def prog_checks open_checks)

lemma min_mysql_pread64_write_29_0_body84_ok: "body_ok 312 37500 min_mysql_pread64_write_29_0_body84" "counted min_mysql_pread64_write_29_0_body84" "calls min_mysql_pread64_write_29_0_body84 = 14" "opened_in m min_mysql_pread64_write_29_0_body84 = [Some ''./var/tmp/'', Some ''./var/tmp/'']"
  by (simp_all add: min_mysql_pread64_write_29_0_body84_def prog_checks open_checks)

lemma min_mysql_pread64_write_29_0_body85_ok: "body_ok 312 37500 min_mysql_pread64_write_29_0_body85" "counted min_mysql_pread64_write_29_0_body85" "calls min_mysql_pread64_write_29_0_body85 = 13" "opened_in m min_mysql_pread64_write_29_0_body85 = [Some ''./var/tmp/'', Some ''./var/tmp/'']"
  by (simp_all add: min_mysql_pread64_write_29_0_body85_def prog_checks open_checks)

lemma min_mysql_pread64_write_29_0_body86_ok: "body_ok 312 37500 min_mysql_pread64_write_29_0_body86" "counted min_mysql_pread64_write_29_0_body86" "calls min_mysql_pread64_write_29_0_body86 = 14" "opened_in m min_mysql_pread64_write_29_0_body86 = [Some ''./var/tmp/'', Some ''./var/tmp/'']"
  by (simp_all add: min_mysql_pread64_write_29_0_body86_def prog_checks open_checks)

lemma min_mysql_pread64_write_29_0_body87_ok: "body_ok 312 37500 min_mysql_pread64_write_29_0_body87" "counted min_mysql_pread64_write_29_0_body87" "calls min_mysql_pread64_write_29_0_body87 = 13" "opened_in m min_mysql_pread64_write_29_0_body87 = [Some ''./var/tmp/'', Some ''./var/tmp/'']"
  by (simp_all add: min_mysql_pread64_write_29_0_body87_def prog_checks open_checks)

lemma min_mysql_pread64_write_29_0_body88_ok: "body_ok 312 37500 min_mysql_pread64_write_29_0_body88" "counted min_mysql_pread64_write_29_0_body88" "calls min_mysql_pread64_write_29_0_body88 = 14" "opened_in m min_mysql_pread64_write_29_0_body88 = [Some ''./var/tmp/'', Some ''./var/tmp/'']"
  by (simp_all add: min_mysql_pread64_write_29_0_body88_def prog_checks open_checks)

lemma min_mysql_pread64_write_29_0_body89_ok: "body_ok 312 37500 min_mysql_pread64_write_29_0_body89" "counted min_mysql_pread64_write_29_0_body89" "calls min_mysql_pread64_write_29_0_body89 = 13" "opened_in m min_mysql_pread64_write_29_0_body89 = [Some ''./var/tmp/'', Some ''./var/tmp/'']"
  by (simp_all add: min_mysql_pread64_write_29_0_body89_def prog_checks open_checks)

lemma min_mysql_pread64_write_29_0_body90_ok: "body_ok 312 37500 min_mysql_pread64_write_29_0_body90" "counted min_mysql_pread64_write_29_0_body90" "calls min_mysql_pread64_write_29_0_body90 = 14" "opened_in m min_mysql_pread64_write_29_0_body90 = [Some ''./var/tmp/'', Some ''./var/tmp/'']"
  by (simp_all add: min_mysql_pread64_write_29_0_body90_def prog_checks open_checks)

lemma min_mysql_pread64_write_29_0_body91_ok: "body_ok 312 37500 min_mysql_pread64_write_29_0_body91" "counted min_mysql_pread64_write_29_0_body91" "calls min_mysql_pread64_write_29_0_body91 = 13" "opened_in m min_mysql_pread64_write_29_0_body91 = [Some ''./var/tmp/'', Some ''./var/tmp/'']"
  by (simp_all add: min_mysql_pread64_write_29_0_body91_def prog_checks open_checks)

lemma min_mysql_pread64_write_29_0_body92_ok: "body_ok 312 37500 min_mysql_pread64_write_29_0_body92" "counted min_mysql_pread64_write_29_0_body92" "calls min_mysql_pread64_write_29_0_body92 = 14" "opened_in m min_mysql_pread64_write_29_0_body92 = [Some ''./var/tmp/'', Some ''./var/tmp/'']"
  by (simp_all add: min_mysql_pread64_write_29_0_body92_def prog_checks open_checks)

lemma min_mysql_pread64_write_29_0_body93_ok: "body_ok 312 37500 min_mysql_pread64_write_29_0_body93" "counted min_mysql_pread64_write_29_0_body93" "calls min_mysql_pread64_write_29_0_body93 = 14" "opened_in m min_mysql_pread64_write_29_0_body93 = [Some ''./var/tmp/'', Some ''./var/tmp/'']"
  by (simp_all add: min_mysql_pread64_write_29_0_body93_def prog_checks open_checks)

lemma min_mysql_pread64_write_29_0_body94_ok: "body_ok 312 37500 min_mysql_pread64_write_29_0_body94" "counted min_mysql_pread64_write_29_0_body94" "calls min_mysql_pread64_write_29_0_body94 = 13" "opened_in m min_mysql_pread64_write_29_0_body94 = [Some ''./var/tmp/'', Some ''./var/tmp/'']"
  by (simp_all add: min_mysql_pread64_write_29_0_body94_def prog_checks open_checks)

lemma min_mysql_pread64_write_29_0_body95_ok: "body_ok 312 37500 min_mysql_pread64_write_29_0_body95" "counted min_mysql_pread64_write_29_0_body95" "calls min_mysql_pread64_write_29_0_body95 = 14" "opened_in m min_mysql_pread64_write_29_0_body95 = [Some ''./var/tmp/'', Some ''./var/tmp/'']"
  by (simp_all add: min_mysql_pread64_write_29_0_body95_def prog_checks open_checks)

lemma min_mysql_pread64_write_29_0_body96_ok: "body_ok 312 37500 min_mysql_pread64_write_29_0_body96" "counted min_mysql_pread64_write_29_0_body96" "calls min_mysql_pread64_write_29_0_body96 = 13" "opened_in m min_mysql_pread64_write_29_0_body96 = [Some ''./var/tmp/'', Some ''./var/tmp/'']"
  by (simp_all add: min_mysql_pread64_write_29_0_body96_def prog_checks open_checks)

lemma min_mysql_pread64_write_29_0_body97_ok: "body_ok 312 37500 min_mysql_pread64_write_29_0_body97" "counted min_mysql_pread64_write_29_0_body97" "calls min_mysql_pread64_write_29_0_body97 = 14" "opened_in m min_mysql_pread64_write_29_0_body97 = [Some ''./var/tmp/'', Some ''./var/tmp/'']"
  by (simp_all add: min_mysql_pread64_write_29_0_body97_def prog_checks open_checks)

lemma min_mysql_pread64_write_29_0_body98_ok: "body_ok 312 37500 min_mysql_pread64_write_29_0_body98" "counted min_mysql_pread64_write_29_0_body98" "calls min_mysql_pread64_write_29_0_body98 = 13" "opened_in m min_mysql_pread64_write_29_0_body98 = [Some ''./var/tmp/'', Some ''./var/tmp/'']"
  by (simp_all add: min_mysql_pread64_write_29_0_body98_def prog_checks open_checks)

lemma min_mysql_pread64_write_29_0_body99_ok: "body_ok 312 37500 min_mysql_pread64_write_29_0_body99" "counted min_mysql_pread64_write_29_0_body99" "calls min_mysql_pread64_write_29_0_body99 = 14" "opened_in m min_mysql_pread64_write_29_0_body99 = [Some ''./var/tmp/'', Some ''./var/tmp/'']"
  by (simp_all add: min_mysql_pread64_write_29_0_body99_def prog_checks open_checks)

lemma min_mysql_pread64_write_29_0_body100_ok: "body_ok 312 37500 min_mysql_pread64_write_29_0_body100" "counted min_mysql_pread64_write_29_0_body100" "calls min_mysql_pread64_write_29_0_body100 = 13" "opened_in m min_mysql_pread64_write_29_0_body100 = [Some ''./var/tmp/'', Some ''./var/tmp/'']"
  by (simp_all add: min_mysql_pread64_write_29_0_body100_def prog_checks open_checks)

lemma min_mysql_pread64_write_29_0_body101_ok: "body_ok 312 37500 min_mysql_pread64_write_29_0_body101" "counted min_mysql_pread64_write_29_0_body101" "calls min_mysql_pread64_write_29_0_body101 = 14" "opened_in m min_mysql_pread64_write_29_0_body101 = [Some ''./var/tmp/'', Some ''./var/tmp/'']"
  by (simp_all add: min_mysql_pread64_write_29_0_body101_def prog_checks open_checks)

lemma min_mysql_pread64_write_29_0_body102_ok: "body_ok 312 37500 min_mysql_pread64_write_29_0_body102" "counted min_mysql_pread64_write_29_0_body102" "calls min_mysql_pread64_write_29_0_body102 = 13" "opened_in m min_mysql_pread64_write_29_0_body102 = [Some ''./var/tmp/'', Some ''./var/tmp/'']"
  by (simp_all add: min_mysql_pread64_write_29_0_body102_def prog_checks open_checks)

lemma min_mysql_pread64_write_29_0_body103_ok: "body_ok 312 37500 min_mysql_pread64_write_29_0_body103" "counted min_mysql_pread64_write_29_0_body103" "calls min_mysql_pread64_write_29_0_body103 = 14" "opened_in m min_mysql_pread64_write_29_0_body103 = [Some ''./var/tmp/'', Some ''./var/tmp/'']"
  by (simp_all add: min_mysql_pread64_write_29_0_body103_def prog_checks open_checks)

lemma min_mysql_pread64_write_29_0_body104_ok: "body_ok 312 37500 min_mysql_pread64_write_29_0_body104" "counted min_mysql_pread64_write_29_0_body104" "calls min_mysql_pread64_write_29_0_body104 = 13" "opened_in m min_mysql_pread64_write_29_0_body104 = [Some ''./var/tmp/'', Some ''./var/tmp/'']"
  by (simp_all add: min_mysql_pread64_write_29_0_body104_def prog_checks open_checks)

lemma min_mysql_pread64_write_29_0_body105_ok: "body_ok 312 37500 min_mysql_pread64_write_29_0_body105" "counted min_mysql_pread64_write_29_0_body105" "calls min_mysql_pread64_write_29_0_body105 = 14" "opened_in m min_mysql_pread64_write_29_0_body105 = [Some ''./var/tmp/'', Some ''./var/tmp/'']"
  by (simp_all add: min_mysql_pread64_write_29_0_body105_def prog_checks open_checks)

lemma min_mysql_pread64_write_29_0_body106_ok: "body_ok 312 37500 min_mysql_pread64_write_29_0_body106" "counted min_mysql_pread64_write_29_0_body106" "calls min_mysql_pread64_write_29_0_body106 = 13" "opened_in m min_mysql_pread64_write_29_0_body106 = [Some ''./var/tmp/'', Some ''./var/tmp/'']"
  by (simp_all add: min_mysql_pread64_write_29_0_body106_def prog_checks open_checks)

lemma min_mysql_pread64_write_29_0_body107_ok: "body_ok 312 37500 min_mysql_pread64_write_29_0_body107" "counted min_mysql_pread64_write_29_0_body107" "calls min_mysql_pread64_write_29_0_body107 = 14" "opened_in m min_mysql_pread64_write_29_0_body107 = [Some ''./var/tmp/'', Some ''./var/tmp/'']"
  by (simp_all add: min_mysql_pread64_write_29_0_body107_def prog_checks open_checks)

lemma min_mysql_pread64_write_29_0_body108_ok: "body_ok 312 37500 min_mysql_pread64_write_29_0_body108" "counted min_mysql_pread64_write_29_0_body108" "calls min_mysql_pread64_write_29_0_body108 = 13" "opened_in m min_mysql_pread64_write_29_0_body108 = [Some ''./var/tmp/'', Some ''./var/tmp/'']"
  by (simp_all add: min_mysql_pread64_write_29_0_body108_def prog_checks open_checks)

lemma min_mysql_pread64_write_29_0_body109_ok: "body_ok 312 37500 min_mysql_pread64_write_29_0_body109" "counted min_mysql_pread64_write_29_0_body109" "calls min_mysql_pread64_write_29_0_body109 = 14" "opened_in m min_mysql_pread64_write_29_0_body109 = [Some ''./var/tmp/'', Some ''./var/tmp/'']"
  by (simp_all add: min_mysql_pread64_write_29_0_body109_def prog_checks open_checks)

lemma min_mysql_pread64_write_29_0_body110_ok: "body_ok 312 37500 min_mysql_pread64_write_29_0_body110" "counted min_mysql_pread64_write_29_0_body110" "calls min_mysql_pread64_write_29_0_body110 = 13" "opened_in m min_mysql_pread64_write_29_0_body110 = [Some ''./var/tmp/'', Some ''./var/tmp/'']"
  by (simp_all add: min_mysql_pread64_write_29_0_body110_def prog_checks open_checks)

lemma min_mysql_pread64_write_29_0_body111_ok: "body_ok 312 37500 min_mysql_pread64_write_29_0_body111" "counted min_mysql_pread64_write_29_0_body111" "calls min_mysql_pread64_write_29_0_body111 = 14" "opened_in m min_mysql_pread64_write_29_0_body111 = [Some ''./var/tmp/'', Some ''./var/tmp/'']"
  by (simp_all add: min_mysql_pread64_write_29_0_body111_def prog_checks open_checks)

lemma min_mysql_pread64_write_29_0_body112_ok: "body_ok 312 37500 min_mysql_pread64_write_29_0_body112" "counted min_mysql_pread64_write_29_0_body112" "calls min_mysql_pread64_write_29_0_body112 = 13" "opened_in m min_mysql_pread64_write_29_0_body112 = [Some ''./var/tmp/'', Some ''./var/tmp/'']"
  by (simp_all add: min_mysql_pread64_write_29_0_body112_def prog_checks open_checks)

lemma min_mysql_pread64_write_29_0_body113_ok: "body_ok 312 37500 min_mysql_pread64_write_29_0_body113" "counted min_mysql_pread64_write_29_0_body113" "calls min_mysql_pread64_write_29_0_body113 = 13" "opened_in m min_mysql_pread64_write_29_0_body113 = [Some ''./var/tmp/'', Some ''./var/tmp/'']"
  by (simp_all add: min_mysql_pread64_write_29_0_body113_def prog_checks open_checks)

lemma min_mysql_pread64_write_29_0_body114_ok: "body_ok 312 37500 min_mysql_pread64_write_29_0_body114" "counted min_mysql_pread64_write_29_0_body114" "calls min_mysql_pread64_write_29_0_body114 = 14" "opened_in m min_mysql_pread64_write_29_0_body114 = [Some ''./var/tmp/'', Some ''./var/tmp/'']"
  by (simp_all add: min_mysql_pread64_write_29_0_body114_def prog_checks open_checks)

lemma min_mysql_pread64_write_29_0_body115_ok: "body_ok 312 37500 min_mysql_pread64_write_29_0_body115" "counted min_mysql_pread64_write_29_0_body115" "calls min_mysql_pread64_write_29_0_body115 = 13" "opened_in m min_mysql_pread64_write_29_0_body115 = [Some ''./var/tmp/'', Some ''./var/tmp/'']"
  by (simp_all add: min_mysql_pread64_write_29_0_body115_def prog_checks open_checks)

lemma min_mysql_pread64_write_29_0_body116_ok: "body_ok 312 37500 min_mysql_pread64_write_29_0_body116" "counted min_mysql_pread64_write_29_0_body116" "calls min_mysql_pread64_write_29_0_body116 = 14" "opened_in m min_mysql_pread64_write_29_0_body116 = [Some ''./var/tmp/'', Some ''./var/tmp/'']"
  by (simp_all add: min_mysql_pread64_write_29_0_body116_def prog_checks open_checks)

lemma min_mysql_pread64_write_29_0_body117_ok: "body_ok 312 37500 min_mysql_pread64_write_29_0_body117" "counted min_mysql_pread64_write_29_0_body117" "calls min_mysql_pread64_write_29_0_body117 = 13" "opened_in m min_mysql_pread64_write_29_0_body117 = [Some ''./var/tmp/'', Some ''./var/tmp/'']"
  by (simp_all add: min_mysql_pread64_write_29_0_body117_def prog_checks open_checks)

lemma min_mysql_pread64_write_29_0_body118_ok: "body_ok 312 37500 min_mysql_pread64_write_29_0_body118" "counted min_mysql_pread64_write_29_0_body118" "calls min_mysql_pread64_write_29_0_body118 = 14" "opened_in m min_mysql_pread64_write_29_0_body118 = [Some ''./var/tmp/'', Some ''./var/tmp/'']"
  by (simp_all add: min_mysql_pread64_write_29_0_body118_def prog_checks open_checks)

lemma min_mysql_pread64_write_29_0_body119_ok: "body_ok 312 37500 min_mysql_pread64_write_29_0_body119" "counted min_mysql_pread64_write_29_0_body119" "calls min_mysql_pread64_write_29_0_body119 = 13" "opened_in m min_mysql_pread64_write_29_0_body119 = [Some ''./var/tmp/'', Some ''./var/tmp/'']"
  by (simp_all add: min_mysql_pread64_write_29_0_body119_def prog_checks open_checks)

lemma min_mysql_pread64_write_29_0_body120_ok: "body_ok 312 37500 min_mysql_pread64_write_29_0_body120" "counted min_mysql_pread64_write_29_0_body120" "calls min_mysql_pread64_write_29_0_body120 = 14" "opened_in m min_mysql_pread64_write_29_0_body120 = [Some ''./var/tmp/'', Some ''./var/tmp/'']"
  by (simp_all add: min_mysql_pread64_write_29_0_body120_def prog_checks open_checks)

lemma min_mysql_pread64_write_29_0_body121_ok: "body_ok 312 37500 min_mysql_pread64_write_29_0_body121" "counted min_mysql_pread64_write_29_0_body121" "calls min_mysql_pread64_write_29_0_body121 = 14" "opened_in m min_mysql_pread64_write_29_0_body121 = [Some ''./var/tmp/'', Some ''./var/tmp/'']"
  by (simp_all add: min_mysql_pread64_write_29_0_body121_def prog_checks open_checks)

lemma min_mysql_pread64_write_29_0_body122_ok: "body_ok 312 37500 min_mysql_pread64_write_29_0_body122" "counted min_mysql_pread64_write_29_0_body122" "calls min_mysql_pread64_write_29_0_body122 = 13" "opened_in m min_mysql_pread64_write_29_0_body122 = [Some ''./var/tmp/'', Some ''./var/tmp/'']"
  by (simp_all add: min_mysql_pread64_write_29_0_body122_def prog_checks open_checks)

lemma min_mysql_pread64_write_29_0_body123_ok: "body_ok 312 37500 min_mysql_pread64_write_29_0_body123" "counted min_mysql_pread64_write_29_0_body123" "calls min_mysql_pread64_write_29_0_body123 = 14" "opened_in m min_mysql_pread64_write_29_0_body123 = [Some ''./var/tmp/'', Some ''./var/tmp/'']"
  by (simp_all add: min_mysql_pread64_write_29_0_body123_def prog_checks open_checks)

lemma min_mysql_pread64_write_29_0_body124_ok: "body_ok 312 37500 min_mysql_pread64_write_29_0_body124" "counted min_mysql_pread64_write_29_0_body124" "calls min_mysql_pread64_write_29_0_body124 = 13" "opened_in m min_mysql_pread64_write_29_0_body124 = [Some ''./var/tmp/'', Some ''./var/tmp/'']"
  by (simp_all add: min_mysql_pread64_write_29_0_body124_def prog_checks open_checks)

lemma min_mysql_pread64_write_29_0_body125_ok: "body_ok 312 37500 min_mysql_pread64_write_29_0_body125" "counted min_mysql_pread64_write_29_0_body125" "calls min_mysql_pread64_write_29_0_body125 = 14" "opened_in m min_mysql_pread64_write_29_0_body125 = [Some ''./var/tmp/'', Some ''./var/tmp/'']"
  by (simp_all add: min_mysql_pread64_write_29_0_body125_def prog_checks open_checks)

lemma min_mysql_pread64_write_29_0_body126_ok: "body_ok 312 37500 min_mysql_pread64_write_29_0_body126" "counted min_mysql_pread64_write_29_0_body126" "calls min_mysql_pread64_write_29_0_body126 = 13" "opened_in m min_mysql_pread64_write_29_0_body126 = [Some ''./var/tmp/'', Some ''./var/tmp/'']"
  by (simp_all add: min_mysql_pread64_write_29_0_body126_def prog_checks open_checks)

lemma min_mysql_pread64_write_29_0_body127_ok: "body_ok 312 37500 min_mysql_pread64_write_29_0_body127" "counted min_mysql_pread64_write_29_0_body127" "calls min_mysql_pread64_write_29_0_body127 = 14" "opened_in m min_mysql_pread64_write_29_0_body127 = [Some ''./var/tmp/'', Some ''./var/tmp/'']"
  by (simp_all add: min_mysql_pread64_write_29_0_body127_def prog_checks open_checks)

lemma min_mysql_pread64_write_29_0_body128_ok: "body_ok 312 37500 min_mysql_pread64_write_29_0_body128" "counted min_mysql_pread64_write_29_0_body128" "calls min_mysql_pread64_write_29_0_body128 = 13" "opened_in m min_mysql_pread64_write_29_0_body128 = [Some ''./var/tmp/'', Some ''./var/tmp/'']"
  by (simp_all add: min_mysql_pread64_write_29_0_body128_def prog_checks open_checks)

lemma min_mysql_pread64_write_29_0_body129_ok: "body_ok 312 37500 min_mysql_pread64_write_29_0_body129" "counted min_mysql_pread64_write_29_0_body129" "calls min_mysql_pread64_write_29_0_body129 = 14" "opened_in m min_mysql_pread64_write_29_0_body129 = [Some ''./var/tmp/'', Some ''./var/tmp/'']"
  by (simp_all add: min_mysql_pread64_write_29_0_body129_def prog_checks open_checks)

lemma min_mysql_pread64_write_29_0_body130_ok: "body_ok 312 37500 min_mysql_pread64_write_29_0_body130" "counted min_mysql_pread64_write_29_0_body130" "calls min_mysql_pread64_write_29_0_body130 = 13" "opened_in m min_mysql_pread64_write_29_0_body130 = [Some ''./var/tmp/'', Some ''./var/tmp/'']"
  by (simp_all add: min_mysql_pread64_write_29_0_body130_def prog_checks open_checks)

lemma min_mysql_pread64_write_29_0_body131_ok: "body_ok 312 37500 min_mysql_pread64_write_29_0_body131" "counted min_mysql_pread64_write_29_0_body131" "calls min_mysql_pread64_write_29_0_body131 = 14" "opened_in m min_mysql_pread64_write_29_0_body131 = [Some ''./var/tmp/'', Some ''./var/tmp/'']"
  by (simp_all add: min_mysql_pread64_write_29_0_body131_def prog_checks open_checks)

lemma min_mysql_pread64_write_29_0_body132_ok: "body_ok 312 37500 min_mysql_pread64_write_29_0_body132" "counted min_mysql_pread64_write_29_0_body132" "calls min_mysql_pread64_write_29_0_body132 = 13" "opened_in m min_mysql_pread64_write_29_0_body132 = [Some ''./var/tmp/'', Some ''./var/tmp/'']"
  by (simp_all add: min_mysql_pread64_write_29_0_body132_def prog_checks open_checks)

lemma min_mysql_pread64_write_29_0_body133_ok: "body_ok 312 37500 min_mysql_pread64_write_29_0_body133" "counted min_mysql_pread64_write_29_0_body133" "calls min_mysql_pread64_write_29_0_body133 = 14" "opened_in m min_mysql_pread64_write_29_0_body133 = [Some ''./var/tmp/'', Some ''./var/tmp/'']"
  by (simp_all add: min_mysql_pread64_write_29_0_body133_def prog_checks open_checks)

lemma min_mysql_pread64_write_29_0_body134_ok: "body_ok 312 37500 min_mysql_pread64_write_29_0_body134" "counted min_mysql_pread64_write_29_0_body134" "calls min_mysql_pread64_write_29_0_body134 = 13" "opened_in m min_mysql_pread64_write_29_0_body134 = [Some ''./var/tmp/'', Some ''./var/tmp/'']"
  by (simp_all add: min_mysql_pread64_write_29_0_body134_def prog_checks open_checks)

lemma min_mysql_pread64_write_29_0_body135_ok: "body_ok 312 37500 min_mysql_pread64_write_29_0_body135" "counted min_mysql_pread64_write_29_0_body135" "calls min_mysql_pread64_write_29_0_body135 = 13" "opened_in m min_mysql_pread64_write_29_0_body135 = [Some ''./var/tmp/'', Some ''./var/tmp/'']"
  by (simp_all add: min_mysql_pread64_write_29_0_body135_def prog_checks open_checks)

lemma min_mysql_pread64_write_29_0_body136_ok: "body_ok 312 37500 min_mysql_pread64_write_29_0_body136" "counted min_mysql_pread64_write_29_0_body136" "calls min_mysql_pread64_write_29_0_body136 = 13" "opened_in m min_mysql_pread64_write_29_0_body136 = [Some ''./var/tmp/'', Some ''./var/tmp/'']"
  by (simp_all add: min_mysql_pread64_write_29_0_body136_def prog_checks open_checks)

lemma min_mysql_pread64_write_29_0_body137_ok: "body_ok 312 37500 min_mysql_pread64_write_29_0_body137" "counted min_mysql_pread64_write_29_0_body137" "calls min_mysql_pread64_write_29_0_body137 = 14" "opened_in m min_mysql_pread64_write_29_0_body137 = [Some ''./var/tmp/'', Some ''./var/tmp/'']"
  by (simp_all add: min_mysql_pread64_write_29_0_body137_def prog_checks open_checks)

lemma min_mysql_pread64_write_29_0_body138_ok: "body_ok 312 37500 min_mysql_pread64_write_29_0_body138" "counted min_mysql_pread64_write_29_0_body138" "calls min_mysql_pread64_write_29_0_body138 = 13" "opened_in m min_mysql_pread64_write_29_0_body138 = [Some ''./var/tmp/'', Some ''./var/tmp/'']"
  by (simp_all add: min_mysql_pread64_write_29_0_body138_def prog_checks open_checks)

lemma min_mysql_pread64_write_29_0_body139_ok: "body_ok 312 37500 min_mysql_pread64_write_29_0_body139" "counted min_mysql_pread64_write_29_0_body139" "calls min_mysql_pread64_write_29_0_body139 = 14" "opened_in m min_mysql_pread64_write_29_0_body139 = [Some ''./var/tmp/'', Some ''./var/tmp/'']"
  by (simp_all add: min_mysql_pread64_write_29_0_body139_def prog_checks open_checks)

lemma min_mysql_pread64_write_29_0_body140_ok: "body_ok 312 37500 min_mysql_pread64_write_29_0_body140" "counted min_mysql_pread64_write_29_0_body140" "calls min_mysql_pread64_write_29_0_body140 = 13" "opened_in m min_mysql_pread64_write_29_0_body140 = [Some ''./var/tmp/'', Some ''./var/tmp/'']"
  by (simp_all add: min_mysql_pread64_write_29_0_body140_def prog_checks open_checks)

lemma min_mysql_pread64_write_29_0_body141_ok: "body_ok 312 37500 min_mysql_pread64_write_29_0_body141" "counted min_mysql_pread64_write_29_0_body141" "calls min_mysql_pread64_write_29_0_body141 = 14" "opened_in m min_mysql_pread64_write_29_0_body141 = [Some ''./var/tmp/'', Some ''./var/tmp/'']"
  by (simp_all add: min_mysql_pread64_write_29_0_body141_def prog_checks open_checks)

lemma min_mysql_pread64_write_29_0_body142_ok: "body_ok 312 37500 min_mysql_pread64_write_29_0_body142" "counted min_mysql_pread64_write_29_0_body142" "calls min_mysql_pread64_write_29_0_body142 = 13" "opened_in m min_mysql_pread64_write_29_0_body142 = [Some ''./var/tmp/'', Some ''./var/tmp/'']"
  by (simp_all add: min_mysql_pread64_write_29_0_body142_def prog_checks open_checks)

lemma min_mysql_pread64_write_29_0_body143_ok: "body_ok 312 37500 min_mysql_pread64_write_29_0_body143" "counted min_mysql_pread64_write_29_0_body143" "calls min_mysql_pread64_write_29_0_body143 = 14" "opened_in m min_mysql_pread64_write_29_0_body143 = [Some ''./var/tmp/'', Some ''./var/tmp/'']"
  by (simp_all add: min_mysql_pread64_write_29_0_body143_def prog_checks open_checks)

lemma min_mysql_pread64_write_29_0_body144_ok: "body_ok 312 37500 min_mysql_pread64_write_29_0_body144" "counted min_mysql_pread64_write_29_0_body144" "calls min_mysql_pread64_write_29_0_body144 = 13" "opened_in m min_mysql_pread64_write_29_0_body144 = [Some ''./var/tmp/'', Some ''./var/tmp/'']"
  by (simp_all add: min_mysql_pread64_write_29_0_body144_def prog_checks open_checks)

lemma min_mysql_pread64_write_29_0_body145_ok: "body_ok 312 37500 min_mysql_pread64_write_29_0_body145" "counted min_mysql_pread64_write_29_0_body145" "calls min_mysql_pread64_write_29_0_body145 = 14" "opened_in m min_mysql_pread64_write_29_0_body145 = [Some ''./var/tmp/'', Some ''./var/tmp/'']"
  by (simp_all add: min_mysql_pread64_write_29_0_body145_def prog_checks open_checks)

lemma min_mysql_pread64_write_29_0_body146_ok: "body_ok 312 37500 min_mysql_pread64_write_29_0_body146" "counted min_mysql_pread64_write_29_0_body146" "calls min_mysql_pread64_write_29_0_body146 = 13" "opened_in m min_mysql_pread64_write_29_0_body146 = [Some ''./var/tmp/'', Some ''./var/tmp/'']"
  by (simp_all add: min_mysql_pread64_write_29_0_body146_def prog_checks open_checks)

lemma min_mysql_pread64_write_29_0_body147_ok: "body_ok 312 37500 min_mysql_pread64_write_29_0_body147" "counted min_mysql_pread64_write_29_0_body147" "calls min_mysql_pread64_write_29_0_body147 = 14" "opened_in m min_mysql_pread64_write_29_0_body147 = [Some ''./var/tmp/'', Some ''./var/tmp/'']"
  by (simp_all add: min_mysql_pread64_write_29_0_body147_def prog_checks open_checks)

lemma min_mysql_pread64_write_29_0_body148_ok: "body_ok 312 37500 min_mysql_pread64_write_29_0_body148" "counted min_mysql_pread64_write_29_0_body148" "calls min_mysql_pread64_write_29_0_body148 = 13" "opened_in m min_mysql_pread64_write_29_0_body148 = [Some ''./var/tmp/'', Some ''./var/tmp/'']"
  by (simp_all add: min_mysql_pread64_write_29_0_body148_def prog_checks open_checks)

lemma min_mysql_pread64_write_29_0_body149_ok: "body_ok 312 37500 min_mysql_pread64_write_29_0_body149" "counted min_mysql_pread64_write_29_0_body149" "calls min_mysql_pread64_write_29_0_body149 = 14" "opened_in m min_mysql_pread64_write_29_0_body149 = [Some ''./var/tmp/'', Some ''./var/tmp/'']"
  by (simp_all add: min_mysql_pread64_write_29_0_body149_def prog_checks open_checks)

lemma min_mysql_pread64_write_29_0_body150_ok: "body_ok 312 37500 min_mysql_pread64_write_29_0_body150" "counted min_mysql_pread64_write_29_0_body150" "calls min_mysql_pread64_write_29_0_body150 = 13" "opened_in m min_mysql_pread64_write_29_0_body150 = [Some ''./var/tmp/'', Some ''./var/tmp/'']"
  by (simp_all add: min_mysql_pread64_write_29_0_body150_def prog_checks open_checks)

lemma min_mysql_pread64_write_29_0_body151_ok: "body_ok 312 37500 min_mysql_pread64_write_29_0_body151" "counted min_mysql_pread64_write_29_0_body151" "calls min_mysql_pread64_write_29_0_body151 = 14" "opened_in m min_mysql_pread64_write_29_0_body151 = [Some ''./var/tmp/'', Some ''./var/tmp/'']"
  by (simp_all add: min_mysql_pread64_write_29_0_body151_def prog_checks open_checks)

lemma min_mysql_pread64_write_29_0_body152_ok: "body_ok 312 37500 min_mysql_pread64_write_29_0_body152" "counted min_mysql_pread64_write_29_0_body152" "calls min_mysql_pread64_write_29_0_body152 = 14" "opened_in m min_mysql_pread64_write_29_0_body152 = [Some ''./var/tmp/'', Some ''./var/tmp/'']"
  by (simp_all add: min_mysql_pread64_write_29_0_body152_def prog_checks open_checks)

lemma min_mysql_pread64_write_29_0_body153_ok: "body_ok 312 37500 min_mysql_pread64_write_29_0_body153" "counted min_mysql_pread64_write_29_0_body153" "calls min_mysql_pread64_write_29_0_body153 = 13" "opened_in m min_mysql_pread64_write_29_0_body153 = [Some ''./var/tmp/'', Some ''./var/tmp/'']"
  by (simp_all add: min_mysql_pread64_write_29_0_body153_def prog_checks open_checks)

lemma min_mysql_pread64_write_29_0_body154_ok: "body_ok 312 37500 min_mysql_pread64_write_29_0_body154" "counted min_mysql_pread64_write_29_0_body154" "calls min_mysql_pread64_write_29_0_body154 = 14" "opened_in m min_mysql_pread64_write_29_0_body154 = [Some ''./var/tmp/'', Some ''./var/tmp/'']"
  by (simp_all add: min_mysql_pread64_write_29_0_body154_def prog_checks open_checks)

lemma min_mysql_pread64_write_29_0_body155_ok: "body_ok 312 37500 min_mysql_pread64_write_29_0_body155" "counted min_mysql_pread64_write_29_0_body155" "calls min_mysql_pread64_write_29_0_body155 = 13" "opened_in m min_mysql_pread64_write_29_0_body155 = [Some ''./var/tmp/'', Some ''./var/tmp/'']"
  by (simp_all add: min_mysql_pread64_write_29_0_body155_def prog_checks open_checks)

lemma min_mysql_pread64_write_29_0_body156_ok: "body_ok 312 37500 min_mysql_pread64_write_29_0_body156" "counted min_mysql_pread64_write_29_0_body156" "calls min_mysql_pread64_write_29_0_body156 = 13" "opened_in m min_mysql_pread64_write_29_0_body156 = [Some ''./var/tmp/'', Some ''./var/tmp/'']"
  by (simp_all add: min_mysql_pread64_write_29_0_body156_def prog_checks open_checks)

lemmas min_mysql_pread64_write_29_0_bodies =
  min_mysql_pread64_write_29_0_body1_ok min_mysql_pread64_write_29_0_body2_ok
  min_mysql_pread64_write_29_0_body3_ok min_mysql_pread64_write_29_0_body4_ok
  min_mysql_pread64_write_29_0_body5_ok min_mysql_pread64_write_29_0_body6_ok
  min_mysql_pread64_write_29_0_body7_ok min_mysql_pread64_write_29_0_body8_ok
  min_mysql_pread64_write_29_0_body9_ok min_mysql_pread64_write_29_0_body10_ok
  min_mysql_pread64_write_29_0_body11_ok min_mysql_pread64_write_29_0_body12_ok
  min_mysql_pread64_write_29_0_body13_ok min_mysql_pread64_write_29_0_body14_ok
  min_mysql_pread64_write_29_0_body15_ok min_mysql_pread64_write_29_0_body16_ok
  min_mysql_pread64_write_29_0_body17_ok min_mysql_pread64_write_29_0_body18_ok
  min_mysql_pread64_write_29_0_body19_ok min_mysql_pread64_write_29_0_body20_ok
  min_mysql_pread64_write_29_0_body21_ok min_mysql_pread64_write_29_0_body22_ok
  min_mysql_pread64_write_29_0_body23_ok min_mysql_pread64_write_29_0_body24_ok
  min_mysql_pread64_write_29_0_body25_ok min_mysql_pread64_write_29_0_body26_ok
  min_mysql_pread64_write_29_0_body27_ok min_mysql_pread64_write_29_0_body28_ok
  min_mysql_pread64_write_29_0_body29_ok min_mysql_pread64_write_29_0_body30_ok
  min_mysql_pread64_write_29_0_body31_ok min_mysql_pread64_write_29_0_body32_ok
  min_mysql_pread64_write_29_0_body33_ok min_mysql_pread64_write_29_0_body34_ok
  min_mysql_pread64_write_29_0_body35_ok min_mysql_pread64_write_29_0_body36_ok
  min_mysql_pread64_write_29_0_body37_ok min_mysql_pread64_write_29_0_body38_ok
  min_mysql_pread64_write_29_0_body39_ok min_mysql_pread64_write_29_0_body40_ok
  min_mysql_pread64_write_29_0_body41_ok min_mysql_pread64_write_29_0_body42_ok
  min_mysql_pread64_write_29_0_body43_ok min_mysql_pread64_write_29_0_body44_ok
  min_mysql_pread64_write_29_0_body45_ok min_mysql_pread64_write_29_0_body46_ok
  min_mysql_pread64_write_29_0_body47_ok min_mysql_pread64_write_29_0_body48_ok
  min_mysql_pread64_write_29_0_body49_ok min_mysql_pread64_write_29_0_body50_ok
  min_mysql_pread64_write_29_0_body51_ok min_mysql_pread64_write_29_0_body52_ok
  min_mysql_pread64_write_29_0_body53_ok min_mysql_pread64_write_29_0_body54_ok
  min_mysql_pread64_write_29_0_body55_ok min_mysql_pread64_write_29_0_body56_ok
  min_mysql_pread64_write_29_0_body57_ok min_mysql_pread64_write_29_0_body58_ok
  min_mysql_pread64_write_29_0_body59_ok min_mysql_pread64_write_29_0_body60_ok
  min_mysql_pread64_write_29_0_body61_ok min_mysql_pread64_write_29_0_body62_ok
  min_mysql_pread64_write_29_0_body63_ok min_mysql_pread64_write_29_0_body64_ok
  min_mysql_pread64_write_29_0_body65_ok min_mysql_pread64_write_29_0_body66_ok
  min_mysql_pread64_write_29_0_body67_ok min_mysql_pread64_write_29_0_body68_ok
  min_mysql_pread64_write_29_0_body69_ok min_mysql_pread64_write_29_0_body70_ok
  min_mysql_pread64_write_29_0_body71_ok min_mysql_pread64_write_29_0_body72_ok
  min_mysql_pread64_write_29_0_body73_ok min_mysql_pread64_write_29_0_body74_ok
  min_mysql_pread64_write_29_0_body75_ok min_mysql_pread64_write_29_0_body76_ok
  min_mysql_pread64_write_29_0_body77_ok min_mysql_pread64_write_29_0_body78_ok
  min_mysql_pread64_write_29_0_body79_ok min_mysql_pread64_write_29_0_body80_ok
  min_mysql_pread64_write_29_0_body81_ok min_mysql_pread64_write_29_0_body82_ok
  min_mysql_pread64_write_29_0_body83_ok min_mysql_pread64_write_29_0_body84_ok
  min_mysql_pread64_write_29_0_body85_ok min_mysql_pread64_write_29_0_body86_ok
  min_mysql_pread64_write_29_0_body87_ok min_mysql_pread64_write_29_0_body88_ok
  min_mysql_pread64_write_29_0_body89_ok min_mysql_pread64_write_29_0_body90_ok
  min_mysql_pread64_write_29_0_body91_ok min_mysql_pread64_write_29_0_body92_ok
  min_mysql_pread64_write_29_0_body93_ok min_mysql_pread64_write_29_0_body94_ok
  min_mysql_pread64_write_29_0_body95_ok min_mysql_pread64_write_29_0_body96_ok
  min_mysql_pread64_write_29_0_body97_ok min_mysql_pread64_write_29_0_body98_ok
  min_mysql_pread64_write_29_0_body99_ok min_mysql_pread64_write_29_0_body100_ok
  min_mysql_pread64_write_29_0_body101_ok min_mysql_pread64_write_29_0_body102_ok
  min_mysql_pread64_write_29_0_body103_ok min_mysql_pread64_write_29_0_body104_ok
  min_mysql_pread64_write_29_0_body105_ok min_mysql_pread64_write_29_0_body106_ok
  min_mysql_pread64_write_29_0_body107_ok min_mysql_pread64_write_29_0_body108_ok
  min_mysql_pread64_write_29_0_body109_ok min_mysql_pread64_write_29_0_body110_ok
  min_mysql_pread64_write_29_0_body111_ok min_mysql_pread64_write_29_0_body112_ok
  min_mysql_pread64_write_29_0_body113_ok min_mysql_pread64_write_29_0_body114_ok
  min_mysql_pread64_write_29_0_body115_ok min_mysql_pread64_write_29_0_body116_ok
  min_mysql_pread64_write_29_0_body117_ok min_mysql_pread64_write_29_0_body118_ok
  min_mysql_pread64_write_29_0_body119_ok min_mysql_pread64_write_29_0_body120_ok
  min_mysql_pread64_write_29_0_body121_ok min_mysql_pread64_write_29_0_body122_ok
  min_mysql_pread64_write_29_0_body123_ok min_mysql_pread64_write_29_0_body124_ok
  min_mysql_pread64_write_29_0_body125_ok min_mysql_pread64_write_29_0_body126_ok
  min_mysql_pread64_write_29_0_body127_ok min_mysql_pread64_write_29_0_body128_ok
  min_mysql_pread64_write_29_0_body129_ok min_mysql_pread64_write_29_0_body130_ok
  min_mysql_pread64_write_29_0_body131_ok min_mysql_pread64_write_29_0_body132_ok
  min_mysql_pread64_write_29_0_body133_ok min_mysql_pread64_write_29_0_body134_ok
  min_mysql_pread64_write_29_0_body135_ok min_mysql_pread64_write_29_0_body136_ok
  min_mysql_pread64_write_29_0_body137_ok min_mysql_pread64_write_29_0_body138_ok
  min_mysql_pread64_write_29_0_body139_ok min_mysql_pread64_write_29_0_body140_ok
  min_mysql_pread64_write_29_0_body141_ok min_mysql_pread64_write_29_0_body142_ok
  min_mysql_pread64_write_29_0_body143_ok min_mysql_pread64_write_29_0_body144_ok
  min_mysql_pread64_write_29_0_body145_ok min_mysql_pread64_write_29_0_body146_ok
  min_mysql_pread64_write_29_0_body147_ok min_mysql_pread64_write_29_0_body148_ok
  min_mysql_pread64_write_29_0_body149_ok min_mysql_pread64_write_29_0_body150_ok
  min_mysql_pread64_write_29_0_body151_ok min_mysql_pread64_write_29_0_body152_ok
  min_mysql_pread64_write_29_0_body153_ok min_mysql_pread64_write_29_0_body154_ok
  min_mysql_pread64_write_29_0_body155_ok min_mysql_pread64_write_29_0_body156_ok

lemma min_mysql_pread64_write_29_0_ok: "prog_ok min_mysql_pread64_write_29_0" "calls (body min_mysql_pread64_write_29_0) = 2103"
  by (simp_all add: prog_ok_def counted_append prog_checks min_mysql_pread64_write_29_0_def min_mysql_pread64_write_29_0_regs_def min_mysql_pread64_write_29_0_bodies)

end
