(* ===== verification/CSB_Progs_Rocksdb_g_p1.thy ===== *)
theory CSB_Progs_Rocksdb_g_p1
  imports CSB_Syz_Files
begin

text \<open>
  Statements of min\_rocks\_write\_fcntl\_0\_0 (bench/targets/rocksdb), in the
  order of the file; the program is put together in CSB\_Progs\_Rocksdb\_g.
\<close>

definition min_rocks_write_fcntl_0_0_body1 :: "stmt list" where
  "min_rocks_write_fcntl_0_0_body1 = [
    Memcpy 0x20d32dc0 (with_nul ''./tmp/rocksdb_db/000033.log'') 28,
    Syscall NR_openat [Dir_fd, Ptr 0x20d32dc0, Imm 0x80241, Imm 0x1ff], Count, Save_res 0,
    Syscall NR_fcntl [Reg 0, Imm 1, Imm 0], Count, Syscall NR_fcntl [Reg 0, Imm 2, Imm 1], Count,
    Store 8 0x20d32f00 (Imm 0), Syscall NR_fcntl [Reg 0, Imm 0x40c, Ptr 0x20d32f00], Count,
    Syscall NR_fallocate [Reg 0, Imm 1, Imm 0, Imm 0x4666666], Count,
    Syscall NR_write [Reg 0, Write_buf, Imm 0x8a], Count, Syscall NR_write [Reg 0, Write_buf, Imm 0x8a], Count,
    Syscall NR_write [Reg 0, Write_buf, Imm 0x8a], Count, Syscall NR_write [Reg 0, Write_buf, Imm 0x8a], Count,
    Syscall NR_write [Reg 0, Write_buf, Imm 0x8a], Count, Syscall NR_write [Reg 0, Write_buf, Imm 0x8a], Count,
    Syscall NR_write [Reg 0, Write_buf, Imm 0x8a], Count, Syscall NR_write [Reg 0, Write_buf, Imm 0x8a], Count,
    Syscall NR_write [Reg 0, Write_buf, Imm 0x8a], Count]"

definition min_rocks_write_fcntl_0_0_body2 :: "stmt list" where
  "min_rocks_write_fcntl_0_0_body2 = [
    Syscall NR_write [Reg 0, Write_buf, Imm 0x8a], Count, Syscall NR_write [Reg 0, Write_buf, Imm 0x8a], Count,
    Syscall NR_write [Reg 0, Write_buf, Imm 0x8a], Count, Syscall NR_write [Reg 0, Write_buf, Imm 0x8a], Count,
    Syscall NR_write [Reg 0, Write_buf, Imm 0x8a], Count, Syscall NR_write [Reg 0, Write_buf, Imm 0x8a], Count,
    Syscall NR_write [Reg 0, Write_buf, Imm 0x8a], Count, Syscall NR_write [Reg 0, Write_buf, Imm 0x8a], Count,
    Syscall NR_write [Reg 0, Write_buf, Imm 0x8a], Count, Syscall NR_write [Reg 0, Write_buf, Imm 0x8a], Count,
    Syscall NR_write [Reg 0, Write_buf, Imm 0x8a], Count, Syscall NR_write [Reg 0, Write_buf, Imm 0x8a], Count,
    Syscall NR_write [Reg 0, Write_buf, Imm 0x8a], Count, Syscall NR_write [Reg 0, Write_buf, Imm 0x8a], Count]"

definition min_rocks_write_fcntl_0_0_body3 :: "stmt list" where
  "min_rocks_write_fcntl_0_0_body3 = [
    Syscall NR_write [Reg 0, Write_buf, Imm 0x8a], Count, Syscall NR_write [Reg 0, Write_buf, Imm 0x8a], Count,
    Syscall NR_write [Reg 0, Write_buf, Imm 0x8a], Count, Syscall NR_write [Reg 0, Write_buf, Imm 0x8a], Count,
    Syscall NR_write [Reg 0, Write_buf, Imm 0x8a], Count, Syscall NR_write [Reg 0, Write_buf, Imm 0x8a], Count,
    Syscall NR_write [Reg 0, Write_buf, Imm 0x8a], Count, Syscall NR_write [Reg 0, Write_buf, Imm 0x8a], Count,
    Syscall NR_write [Reg 0, Write_buf, Imm 0x8a], Count, Syscall NR_write [Reg 0, Write_buf, Imm 0x8a], Count,
    Syscall NR_write [Reg 0, Write_buf, Imm 0x8a], Count, Syscall NR_write [Reg 0, Write_buf, Imm 0x8a], Count,
    Syscall NR_write [Reg 0, Write_buf, Imm 0x8a], Count, Syscall NR_write [Reg 0, Write_buf, Imm 0x8a], Count]"

definition min_rocks_write_fcntl_0_0_body4 :: "stmt list" where
  "min_rocks_write_fcntl_0_0_body4 = [
    Syscall NR_write [Reg 0, Write_buf, Imm 0x8a], Count, Syscall NR_write [Reg 0, Write_buf, Imm 0x8a], Count,
    Syscall NR_write [Reg 0, Write_buf, Imm 0x8a], Count, Syscall NR_write [Reg 0, Write_buf, Imm 0x8a], Count,
    Syscall NR_write [Reg 0, Write_buf, Imm 0x8a], Count, Syscall NR_write [Reg 0, Write_buf, Imm 0x8a], Count,
    Syscall NR_write [Reg 0, Write_buf, Imm 0x8a], Count, Syscall NR_write [Reg 0, Write_buf, Imm 0x8a], Count,
    Syscall NR_write [Reg 0, Write_buf, Imm 0x8a], Count, Syscall NR_write [Reg 0, Write_buf, Imm 0x8a], Count,
    Syscall NR_write [Reg 0, Write_buf, Imm 0x8a], Count, Syscall NR_write [Reg 0, Write_buf, Imm 0x8a], Count,
    Syscall NR_write [Reg 0, Write_buf, Imm 0x8a], Count, Syscall NR_write [Reg 0, Write_buf, Imm 0x8a], Count]"

definition min_rocks_write_fcntl_0_0_body5 :: "stmt list" where
  "min_rocks_write_fcntl_0_0_body5 = [
    Syscall NR_write [Reg 0, Write_buf, Imm 0x8a], Count, Syscall NR_write [Reg 0, Write_buf, Imm 0x8a], Count,
    Syscall NR_write [Reg 0, Write_buf, Imm 0x8a], Count, Syscall NR_write [Reg 0, Write_buf, Imm 0x8a], Count,
    Syscall NR_write [Reg 0, Write_buf, Imm 0x8a], Count, Syscall NR_write [Reg 0, Write_buf, Imm 0x8a], Count,
    Syscall NR_write [Reg 0, Write_buf, Imm 0x8a], Count, Syscall NR_write [Reg 0, Write_buf, Imm 0x8a], Count,
    Syscall NR_write [Reg 0, Write_buf, Imm 0x8a], Count, Syscall NR_write [Reg 0, Write_buf, Imm 0x8a], Count,
    Syscall NR_write [Reg 0, Write_buf, Imm 0x8a], Count, Syscall NR_write [Reg 0, Write_buf, Imm 0x8a], Count,
    Syscall NR_write [Reg 0, Write_buf, Imm 0x8a], Count, Syscall NR_write [Reg 0, Write_buf, Imm 0x8a], Count]"

definition min_rocks_write_fcntl_0_0_body6 :: "stmt list" where
  "min_rocks_write_fcntl_0_0_body6 = [
    Syscall NR_write [Reg 0, Write_buf, Imm 0x8a], Count, Syscall NR_write [Reg 0, Write_buf, Imm 0x8a], Count,
    Syscall NR_write [Reg 0, Write_buf, Imm 0x8a], Count, Syscall NR_write [Reg 0, Write_buf, Imm 0x8a], Count,
    Syscall NR_write [Reg 0, Write_buf, Imm 0x8a], Count, Syscall NR_write [Reg 0, Write_buf, Imm 0x8a], Count,
    Syscall NR_write [Reg 0, Write_buf, Imm 0x8a], Count, Syscall NR_write [Reg 0, Write_buf, Imm 0x8a], Count,
    Syscall NR_write [Reg 0, Write_buf, Imm 0x8a], Count, Syscall NR_write [Reg 0, Write_buf, Imm 0x8a], Count,
    Syscall NR_write [Reg 0, Write_buf, Imm 0x8a], Count, Syscall NR_write [Reg 0, Write_buf, Imm 0x8a], Count,
    Syscall NR_write [Reg 0, Write_buf, Imm 0x8a], Count, Syscall NR_write [Reg 0, Write_buf, Imm 0x8a], Count]"

definition min_rocks_write_fcntl_0_0_body7 :: "stmt list" where
  "min_rocks_write_fcntl_0_0_body7 = [
    Syscall NR_write [Reg 0, Write_buf, Imm 0x8a], Count, Syscall NR_write [Reg 0, Write_buf, Imm 0x8a], Count,
    Syscall NR_write [Reg 0, Write_buf, Imm 0x8a], Count, Syscall NR_write [Reg 0, Write_buf, Imm 0x8a], Count,
    Syscall NR_write [Reg 0, Write_buf, Imm 0x8a], Count, Syscall NR_write [Reg 0, Write_buf, Imm 0x8a], Count,
    Syscall NR_write [Reg 0, Write_buf, Imm 0x8a], Count, Syscall NR_write [Reg 0, Write_buf, Imm 0x8a], Count,
    Syscall NR_write [Reg 0, Write_buf, Imm 0x8a], Count, Syscall NR_write [Reg 0, Write_buf, Imm 0x8a], Count,
    Syscall NR_write [Reg 0, Write_buf, Imm 0x8a], Count, Syscall NR_write [Reg 0, Write_buf, Imm 0x8a], Count,
    Syscall NR_write [Reg 0, Write_buf, Imm 0x8a], Count, Syscall NR_write [Reg 0, Write_buf, Imm 0x8a], Count]"

definition min_rocks_write_fcntl_0_0_body8 :: "stmt list" where
  "min_rocks_write_fcntl_0_0_body8 = [
    Syscall NR_write [Reg 0, Write_buf, Imm 0x8a], Count, Syscall NR_write [Reg 0, Write_buf, Imm 0x8a], Count,
    Syscall NR_write [Reg 0, Write_buf, Imm 0x8a], Count, Syscall NR_write [Reg 0, Write_buf, Imm 0x8a], Count,
    Syscall NR_write [Reg 0, Write_buf, Imm 0x8a], Count, Syscall NR_write [Reg 0, Write_buf, Imm 0x8a], Count,
    Syscall NR_write [Reg 0, Write_buf, Imm 0x8a], Count, Syscall NR_write [Reg 0, Write_buf, Imm 0x8a], Count,
    Syscall NR_write [Reg 0, Write_buf, Imm 0x8a], Count, Syscall NR_write [Reg 0, Write_buf, Imm 0x8a], Count,
    Syscall NR_write [Reg 0, Write_buf, Imm 0x8a], Count, Syscall NR_write [Reg 0, Write_buf, Imm 0x8a], Count,
    Syscall NR_write [Reg 0, Write_buf, Imm 0x8a], Count, Syscall NR_write [Reg 0, Write_buf, Imm 0x8a], Count]"

definition min_rocks_write_fcntl_0_0_body9 :: "stmt list" where
  "min_rocks_write_fcntl_0_0_body9 = [
    Syscall NR_write [Reg 0, Write_buf, Imm 0x8a], Count, Syscall NR_write [Reg 0, Write_buf, Imm 0x8a], Count,
    Syscall NR_write [Reg 0, Write_buf, Imm 0x8a], Count, Syscall NR_write [Reg 0, Write_buf, Imm 0x8a], Count,
    Syscall NR_write [Reg 0, Write_buf, Imm 0x8a], Count, Syscall NR_write [Reg 0, Write_buf, Imm 0x8a], Count,
    Syscall NR_write [Reg 0, Write_buf, Imm 0x8a], Count, Syscall NR_write [Reg 0, Write_buf, Imm 0x8a], Count,
    Syscall NR_write [Reg 0, Write_buf, Imm 0x8a], Count, Syscall NR_write [Reg 0, Write_buf, Imm 0x8a], Count,
    Syscall NR_write [Reg 0, Write_buf, Imm 0x8a], Count, Syscall NR_write [Reg 0, Write_buf, Imm 0x8a], Count,
    Syscall NR_write [Reg 0, Write_buf, Imm 0x8a], Count, Syscall NR_write [Reg 0, Write_buf, Imm 0x8a], Count]"

definition min_rocks_write_fcntl_0_0_body10 :: "stmt list" where
  "min_rocks_write_fcntl_0_0_body10 = [
    Syscall NR_write [Reg 0, Write_buf, Imm 0x8a], Count, Syscall NR_write [Reg 0, Write_buf, Imm 0x8a], Count,
    Syscall NR_write [Reg 0, Write_buf, Imm 0x8a], Count, Syscall NR_write [Reg 0, Write_buf, Imm 0x8a], Count,
    Syscall NR_write [Reg 0, Write_buf, Imm 0x8a], Count, Syscall NR_write [Reg 0, Write_buf, Imm 0x8a], Count,
    Syscall NR_write [Reg 0, Write_buf, Imm 0x8a], Count, Syscall NR_write [Reg 0, Write_buf, Imm 0x8a], Count,
    Syscall NR_write [Reg 0, Write_buf, Imm 0x8a], Count, Syscall NR_write [Reg 0, Write_buf, Imm 0x8a], Count,
    Syscall NR_write [Reg 0, Write_buf, Imm 0x8a], Count, Syscall NR_write [Reg 0, Write_buf, Imm 0x8a], Count,
    Syscall NR_write [Reg 0, Write_buf, Imm 0x8a], Count, Syscall NR_write [Reg 0, Write_buf, Imm 0x8a], Count]"

definition min_rocks_write_fcntl_0_0_body11 :: "stmt list" where
  "min_rocks_write_fcntl_0_0_body11 = [
    Syscall NR_write [Reg 0, Write_buf, Imm 0x8a], Count, Syscall NR_write [Reg 0, Write_buf, Imm 0x8a], Count,
    Syscall NR_write [Reg 0, Write_buf, Imm 0x8a], Count, Syscall NR_write [Reg 0, Write_buf, Imm 0x8a], Count,
    Syscall NR_write [Reg 0, Write_buf, Imm 0x8a], Count, Syscall NR_write [Reg 0, Write_buf, Imm 0x8a], Count,
    Syscall NR_write [Reg 0, Write_buf, Imm 0x8a], Count, Syscall NR_write [Reg 0, Write_buf, Imm 0x8a], Count,
    Syscall NR_write [Reg 0, Write_buf, Imm 0x8a], Count, Syscall NR_write [Reg 0, Write_buf, Imm 0x8a], Count,
    Syscall NR_write [Reg 0, Write_buf, Imm 0x8a], Count, Syscall NR_write [Reg 0, Write_buf, Imm 0x8a], Count,
    Syscall NR_write [Reg 0, Write_buf, Imm 0x8a], Count, Syscall NR_write [Reg 0, Write_buf, Imm 0x8a], Count]"

definition min_rocks_write_fcntl_0_0_body12 :: "stmt list" where
  "min_rocks_write_fcntl_0_0_body12 = [
    Syscall NR_write [Reg 0, Write_buf, Imm 0x8a], Count, Syscall NR_write [Reg 0, Write_buf, Imm 0x8a], Count,
    Syscall NR_write [Reg 0, Write_buf, Imm 0x8a], Count, Syscall NR_write [Reg 0, Write_buf, Imm 0x8a], Count,
    Syscall NR_write [Reg 0, Write_buf, Imm 0x8a], Count, Syscall NR_write [Reg 0, Write_buf, Imm 0x8a], Count,
    Syscall NR_write [Reg 0, Write_buf, Imm 0x8a], Count, Syscall NR_write [Reg 0, Write_buf, Imm 0x8a], Count,
    Syscall NR_write [Reg 0, Write_buf, Imm 0x8a], Count, Syscall NR_write [Reg 0, Write_buf, Imm 0x8a], Count,
    Syscall NR_write [Reg 0, Write_buf, Imm 0x8a], Count, Syscall NR_write [Reg 0, Write_buf, Imm 0x8a], Count,
    Syscall NR_write [Reg 0, Write_buf, Imm 0x8a], Count, Syscall NR_write [Reg 0, Write_buf, Imm 0x8a], Count]"

definition min_rocks_write_fcntl_0_0_body13 :: "stmt list" where
  "min_rocks_write_fcntl_0_0_body13 = [
    Syscall NR_write [Reg 0, Write_buf, Imm 0x8a], Count, Syscall NR_write [Reg 0, Write_buf, Imm 0x8a], Count,
    Syscall NR_write [Reg 0, Write_buf, Imm 0x8a], Count, Syscall NR_write [Reg 0, Write_buf, Imm 0x8a], Count,
    Syscall NR_write [Reg 0, Write_buf, Imm 0x8a], Count, Syscall NR_write [Reg 0, Write_buf, Imm 0x8a], Count,
    Syscall NR_write [Reg 0, Write_buf, Imm 0x8a], Count, Syscall NR_write [Reg 0, Write_buf, Imm 0x8a], Count,
    Syscall NR_write [Reg 0, Write_buf, Imm 0x8a], Count, Syscall NR_write [Reg 0, Write_buf, Imm 0x8a], Count,
    Syscall NR_write [Reg 0, Write_buf, Imm 0x8a], Count, Syscall NR_write [Reg 0, Write_buf, Imm 0x8a], Count,
    Syscall NR_write [Reg 0, Write_buf, Imm 0x8a], Count, Syscall NR_write [Reg 0, Write_buf, Imm 0x8a], Count]"

definition min_rocks_write_fcntl_0_0_body14 :: "stmt list" where
  "min_rocks_write_fcntl_0_0_body14 = [
    Syscall NR_write [Reg 0, Write_buf, Imm 0x8a], Count, Syscall NR_write [Reg 0, Write_buf, Imm 0x8a], Count,
    Syscall NR_write [Reg 0, Write_buf, Imm 0x8a], Count, Syscall NR_write [Reg 0, Write_buf, Imm 0x8a], Count,
    Syscall NR_write [Reg 0, Write_buf, Imm 0x8a], Count, Syscall NR_write [Reg 0, Write_buf, Imm 0x8a], Count,
    Syscall NR_write [Reg 0, Write_buf, Imm 0x8a], Count, Syscall NR_write [Reg 0, Write_buf, Imm 0x8a], Count,
    Syscall NR_write [Reg 0, Write_buf, Imm 0x8a], Count, Syscall NR_write [Reg 0, Write_buf, Imm 0x8a], Count,
    Syscall NR_write [Reg 0, Write_buf, Imm 0x8a], Count, Syscall NR_write [Reg 0, Write_buf, Imm 0x8a], Count,
    Syscall NR_write [Reg 0, Write_buf, Imm 0x8a], Count, Syscall NR_write [Reg 0, Write_buf, Imm 0x8a], Count]"

definition min_rocks_write_fcntl_0_0_body15 :: "stmt list" where
  "min_rocks_write_fcntl_0_0_body15 = [
    Syscall NR_write [Reg 0, Write_buf, Imm 0x8a], Count, Syscall NR_write [Reg 0, Write_buf, Imm 0x8a], Count,
    Syscall NR_write [Reg 0, Write_buf, Imm 0x8a], Count, Syscall NR_write [Reg 0, Write_buf, Imm 0x8a], Count,
    Syscall NR_write [Reg 0, Write_buf, Imm 0x8a], Count, Syscall NR_write [Reg 0, Write_buf, Imm 0x8a], Count,
    Syscall NR_write [Reg 0, Write_buf, Imm 0x8a], Count, Syscall NR_write [Reg 0, Write_buf, Imm 0x8a], Count,
    Syscall NR_write [Reg 0, Write_buf, Imm 0x8a], Count, Syscall NR_write [Reg 0, Write_buf, Imm 0x8a], Count,
    Syscall NR_write [Reg 0, Write_buf, Imm 0x8a], Count, Syscall NR_write [Reg 0, Write_buf, Imm 0x8a], Count,
    Syscall NR_write [Reg 0, Write_buf, Imm 0x8a], Count, Syscall NR_write [Reg 0, Write_buf, Imm 0x8a], Count]"

definition min_rocks_write_fcntl_0_0_body16 :: "stmt list" where
  "min_rocks_write_fcntl_0_0_body16 = [
    Syscall NR_write [Reg 0, Write_buf, Imm 0x8a], Count, Syscall NR_write [Reg 0, Write_buf, Imm 0x8a], Count,
    Syscall NR_write [Reg 0, Write_buf, Imm 0x8a], Count, Syscall NR_write [Reg 0, Write_buf, Imm 0x8a], Count,
    Syscall NR_write [Reg 0, Write_buf, Imm 0x8a], Count, Syscall NR_write [Reg 0, Write_buf, Imm 0x8a], Count,
    Syscall NR_write [Reg 0, Write_buf, Imm 0x8a], Count, Syscall NR_write [Reg 0, Write_buf, Imm 0x8a], Count,
    Syscall NR_write [Reg 0, Write_buf, Imm 0x8a], Count, Syscall NR_write [Reg 0, Write_buf, Imm 0x8a], Count,
    Syscall NR_write [Reg 0, Write_buf, Imm 0x8a], Count, Syscall NR_write [Reg 0, Write_buf, Imm 0x8a], Count,
    Syscall NR_write [Reg 0, Write_buf, Imm 0x8a], Count, Syscall NR_write [Reg 0, Write_buf, Imm 0x8a], Count]"

definition min_rocks_write_fcntl_0_0_body17 :: "stmt list" where
  "min_rocks_write_fcntl_0_0_body17 = [
    Syscall NR_write [Reg 0, Write_buf, Imm 0x8a], Count, Syscall NR_write [Reg 0, Write_buf, Imm 0x8a], Count,
    Syscall NR_write [Reg 0, Write_buf, Imm 0x8a], Count, Syscall NR_write [Reg 0, Write_buf, Imm 0x8a], Count,
    Syscall NR_write [Reg 0, Write_buf, Imm 0x8a], Count, Syscall NR_write [Reg 0, Write_buf, Imm 0x91], Count,
    Syscall NR_write [Reg 0, Write_buf, Imm 0x8a], Count, Syscall NR_write [Reg 0, Write_buf, Imm 0x8a], Count,
    Syscall NR_write [Reg 0, Write_buf, Imm 0x8a], Count, Syscall NR_write [Reg 0, Write_buf, Imm 0x8a], Count,
    Syscall NR_write [Reg 0, Write_buf, Imm 0x8a], Count, Syscall NR_write [Reg 0, Write_buf, Imm 0x8a], Count,
    Syscall NR_write [Reg 0, Write_buf, Imm 0x8a], Count, Syscall NR_write [Reg 0, Write_buf, Imm 0x8a], Count]"

definition min_rocks_write_fcntl_0_0_body18 :: "stmt list" where
  "min_rocks_write_fcntl_0_0_body18 = [
    Syscall NR_write [Reg 0, Write_buf, Imm 0x8a], Count, Syscall NR_write [Reg 0, Write_buf, Imm 0x8a], Count,
    Syscall NR_write [Reg 0, Write_buf, Imm 0x8a], Count, Syscall NR_write [Reg 0, Write_buf, Imm 0x8a], Count,
    Syscall NR_write [Reg 0, Write_buf, Imm 0x8a], Count, Syscall NR_write [Reg 0, Write_buf, Imm 0x8a], Count,
    Syscall NR_write [Reg 0, Write_buf, Imm 0x8a], Count, Syscall NR_write [Reg 0, Write_buf, Imm 0x8a], Count,
    Syscall NR_write [Reg 0, Write_buf, Imm 0x8a], Count, Syscall NR_write [Reg 0, Write_buf, Imm 0x8a], Count,
    Syscall NR_write [Reg 0, Write_buf, Imm 0x8a], Count, Syscall NR_write [Reg 0, Write_buf, Imm 0x8a], Count,
    Syscall NR_write [Reg 0, Write_buf, Imm 0x8a], Count, Syscall NR_write [Reg 0, Write_buf, Imm 0x8a], Count]"

definition min_rocks_write_fcntl_0_0_body19 :: "stmt list" where
  "min_rocks_write_fcntl_0_0_body19 = [
    Syscall NR_write [Reg 0, Write_buf, Imm 0x8a], Count, Syscall NR_write [Reg 0, Write_buf, Imm 0x8a], Count,
    Syscall NR_write [Reg 0, Write_buf, Imm 0x8a], Count, Syscall NR_write [Reg 0, Write_buf, Imm 0x8a], Count,
    Syscall NR_write [Reg 0, Write_buf, Imm 0x8a], Count, Syscall NR_write [Reg 0, Write_buf, Imm 0x8a], Count,
    Syscall NR_write [Reg 0, Write_buf, Imm 0x8a], Count, Syscall NR_write [Reg 0, Write_buf, Imm 0x8a], Count,
    Syscall NR_write [Reg 0, Write_buf, Imm 0x8a], Count, Syscall NR_write [Reg 0, Write_buf, Imm 0x8a], Count,
    Syscall NR_write [Reg 0, Write_buf, Imm 0x8a], Count, Syscall NR_write [Reg 0, Write_buf, Imm 0x8a], Count,
    Syscall NR_write [Reg 0, Write_buf, Imm 0x8a], Count, Syscall NR_write [Reg 0, Write_buf, Imm 0x8a], Count]"

definition min_rocks_write_fcntl_0_0_body20 :: "stmt list" where
  "min_rocks_write_fcntl_0_0_body20 = [
    Syscall NR_write [Reg 0, Write_buf, Imm 0x8a], Count, Syscall NR_write [Reg 0, Write_buf, Imm 0x8a], Count,
    Syscall NR_write [Reg 0, Write_buf, Imm 0x8a], Count, Syscall NR_write [Reg 0, Write_buf, Imm 0x8a], Count,
    Syscall NR_write [Reg 0, Write_buf, Imm 0x8a], Count, Syscall NR_write [Reg 0, Write_buf, Imm 0x8a], Count,
    Syscall NR_write [Reg 0, Write_buf, Imm 0x8a], Count, Syscall NR_write [Reg 0, Write_buf, Imm 0x8a], Count,
    Syscall NR_write [Reg 0, Write_buf, Imm 0x8a], Count, Syscall NR_write [Reg 0, Write_buf, Imm 0x8a], Count,
    Syscall NR_write [Reg 0, Write_buf, Imm 0x8a], Count, Syscall NR_write [Reg 0, Write_buf, Imm 0x8a], Count,
    Syscall NR_write [Reg 0, Write_buf, Imm 0x8a], Count, Syscall NR_write [Reg 0, Write_buf, Imm 0x8a], Count]"

definition min_rocks_write_fcntl_0_0_body21 :: "stmt list" where
  "min_rocks_write_fcntl_0_0_body21 = [
    Syscall NR_write [Reg 0, Write_buf, Imm 0x8a], Count, Syscall NR_write [Reg 0, Write_buf, Imm 0x8a], Count,
    Syscall NR_write [Reg 0, Write_buf, Imm 0x8a], Count, Syscall NR_write [Reg 0, Write_buf, Imm 0x8a], Count,
    Syscall NR_write [Reg 0, Write_buf, Imm 0x8a], Count, Syscall NR_write [Reg 0, Write_buf, Imm 0x8a], Count,
    Syscall NR_write [Reg 0, Write_buf, Imm 0x8a], Count, Syscall NR_write [Reg 0, Write_buf, Imm 0x8a], Count,
    Syscall NR_write [Reg 0, Write_buf, Imm 0x8a], Count, Syscall NR_write [Reg 0, Write_buf, Imm 0x8a], Count,
    Syscall NR_write [Reg 0, Write_buf, Imm 0x8a], Count, Syscall NR_write [Reg 0, Write_buf, Imm 0x8a], Count,
    Syscall NR_write [Reg 0, Write_buf, Imm 0x8a], Count, Syscall NR_write [Reg 0, Write_buf, Imm 0x8a], Count]"

definition min_rocks_write_fcntl_0_0_body22 :: "stmt list" where
  "min_rocks_write_fcntl_0_0_body22 = [
    Syscall NR_write [Reg 0, Write_buf, Imm 0x8a], Count, Syscall NR_write [Reg 0, Write_buf, Imm 0x8a], Count,
    Syscall NR_write [Reg 0, Write_buf, Imm 0x8a], Count, Syscall NR_write [Reg 0, Write_buf, Imm 0x8a], Count,
    Syscall NR_write [Reg 0, Write_buf, Imm 0x8a], Count, Syscall NR_write [Reg 0, Write_buf, Imm 0x8a], Count,
    Syscall NR_write [Reg 0, Write_buf, Imm 0x8a], Count, Syscall NR_write [Reg 0, Write_buf, Imm 0x8a], Count,
    Syscall NR_write [Reg 0, Write_buf, Imm 0x8a], Count, Syscall NR_write [Reg 0, Write_buf, Imm 0x8a], Count,
    Syscall NR_write [Reg 0, Write_buf, Imm 0x8a], Count, Syscall NR_write [Reg 0, Write_buf, Imm 0x8a], Count,
    Syscall NR_write [Reg 0, Write_buf, Imm 0x8a], Count, Syscall NR_write [Reg 0, Write_buf, Imm 0x8a], Count]"

definition min_rocks_write_fcntl_0_0_body23 :: "stmt list" where
  "min_rocks_write_fcntl_0_0_body23 = [
    Syscall NR_write [Reg 0, Write_buf, Imm 0x8a], Count, Syscall NR_write [Reg 0, Write_buf, Imm 0x8a], Count,
    Syscall NR_write [Reg 0, Write_buf, Imm 0x8a], Count, Syscall NR_write [Reg 0, Write_buf, Imm 0x8a], Count,
    Syscall NR_write [Reg 0, Write_buf, Imm 0x8a], Count, Syscall NR_write [Reg 0, Write_buf, Imm 0x8a], Count,
    Syscall NR_write [Reg 0, Write_buf, Imm 0x8a], Count, Syscall NR_write [Reg 0, Write_buf, Imm 0x8a], Count,
    Syscall NR_write [Reg 0, Write_buf, Imm 0x8a], Count, Syscall NR_write [Reg 0, Write_buf, Imm 0x8a], Count,
    Syscall NR_write [Reg 0, Write_buf, Imm 0x8a], Count, Syscall NR_write [Reg 0, Write_buf, Imm 0x8a], Count,
    Syscall NR_write [Reg 0, Write_buf, Imm 0x8a], Count, Syscall NR_write [Reg 0, Write_buf, Imm 0x8a], Count]"

definition min_rocks_write_fcntl_0_0_body24 :: "stmt list" where
  "min_rocks_write_fcntl_0_0_body24 = [
    Syscall NR_write [Reg 0, Write_buf, Imm 0x8a], Count, Syscall NR_write [Reg 0, Write_buf, Imm 0x8a], Count,
    Syscall NR_write [Reg 0, Write_buf, Imm 0x8a], Count, Syscall NR_write [Reg 0, Write_buf, Imm 0x8a], Count,
    Syscall NR_write [Reg 0, Write_buf, Imm 0x8a], Count, Syscall NR_write [Reg 0, Write_buf, Imm 0x8a], Count,
    Syscall NR_write [Reg 0, Write_buf, Imm 0x8a], Count, Syscall NR_write [Reg 0, Write_buf, Imm 0x8a], Count,
    Syscall NR_write [Reg 0, Write_buf, Imm 0x8a], Count, Syscall NR_write [Reg 0, Write_buf, Imm 0x8a], Count,
    Syscall NR_write [Reg 0, Write_buf, Imm 0x8a], Count, Syscall NR_write [Reg 0, Write_buf, Imm 0x8a], Count,
    Syscall NR_write [Reg 0, Write_buf, Imm 0x8a], Count, Syscall NR_write [Reg 0, Write_buf, Imm 0x8a], Count]"

definition min_rocks_write_fcntl_0_0_body25 :: "stmt list" where
  "min_rocks_write_fcntl_0_0_body25 = [
    Syscall NR_write [Reg 0, Write_buf, Imm 0x8a], Count, Syscall NR_write [Reg 0, Write_buf, Imm 0x8a], Count,
    Syscall NR_write [Reg 0, Write_buf, Imm 0x8a], Count, Syscall NR_write [Reg 0, Write_buf, Imm 0x8a], Count,
    Syscall NR_write [Reg 0, Write_buf, Imm 0x8a], Count, Syscall NR_write [Reg 0, Write_buf, Imm 0x8a], Count,
    Syscall NR_write [Reg 0, Write_buf, Imm 0x8a], Count, Syscall NR_write [Reg 0, Write_buf, Imm 0x8a], Count,
    Syscall NR_write [Reg 0, Write_buf, Imm 0x8a], Count, Syscall NR_write [Reg 0, Write_buf, Imm 0x8a], Count,
    Syscall NR_write [Reg 0, Write_buf, Imm 0x8a], Count, Syscall NR_write [Reg 0, Write_buf, Imm 0x8a], Count,
    Syscall NR_write [Reg 0, Write_buf, Imm 0x8a], Count, Syscall NR_write [Reg 0, Write_buf, Imm 0x8a], Count]"

definition min_rocks_write_fcntl_0_0_body26 :: "stmt list" where
  "min_rocks_write_fcntl_0_0_body26 = [
    Syscall NR_write [Reg 0, Write_buf, Imm 0x8a], Count, Syscall NR_write [Reg 0, Write_buf, Imm 0x8a], Count,
    Syscall NR_write [Reg 0, Write_buf, Imm 0x8a], Count, Syscall NR_write [Reg 0, Write_buf, Imm 0x8a], Count,
    Syscall NR_write [Reg 0, Write_buf, Imm 0x8a], Count, Syscall NR_write [Reg 0, Write_buf, Imm 0x8a], Count,
    Syscall NR_write [Reg 0, Write_buf, Imm 0x8a], Count, Syscall NR_write [Reg 0, Write_buf, Imm 0x8a], Count,
    Syscall NR_write [Reg 0, Write_buf, Imm 0x8a], Count, Syscall NR_write [Reg 0, Write_buf, Imm 0x8a], Count,
    Syscall NR_write [Reg 0, Write_buf, Imm 0x8a], Count, Syscall NR_write [Reg 0, Write_buf, Imm 0x8a], Count,
    Syscall NR_write [Reg 0, Write_buf, Imm 0x8a], Count, Syscall NR_write [Reg 0, Write_buf, Imm 0x8a], Count]"

definition min_rocks_write_fcntl_0_0_body27 :: "stmt list" where
  "min_rocks_write_fcntl_0_0_body27 = [
    Syscall NR_write [Reg 0, Write_buf, Imm 0x8a], Count, Syscall NR_write [Reg 0, Write_buf, Imm 0x8a], Count,
    Syscall NR_write [Reg 0, Write_buf, Imm 0x8a], Count, Syscall NR_write [Reg 0, Write_buf, Imm 0x8a], Count,
    Syscall NR_write [Reg 0, Write_buf, Imm 0x8a], Count, Syscall NR_write [Reg 0, Write_buf, Imm 0x8a], Count,
    Syscall NR_write [Reg 0, Write_buf, Imm 0x8a], Count, Syscall NR_write [Reg 0, Write_buf, Imm 0x8a], Count,
    Syscall NR_write [Reg 0, Write_buf, Imm 0x8a], Count, Syscall NR_write [Reg 0, Write_buf, Imm 0x8a], Count,
    Syscall NR_write [Reg 0, Write_buf, Imm 0x8a], Count, Syscall NR_write [Reg 0, Write_buf, Imm 0x8a], Count,
    Syscall NR_write [Reg 0, Write_buf, Imm 0x8a], Count, Syscall NR_write [Reg 0, Write_buf, Imm 0x8a], Count]"

definition min_rocks_write_fcntl_0_0_body28 :: "stmt list" where
  "min_rocks_write_fcntl_0_0_body28 = [
    Syscall NR_write [Reg 0, Write_buf, Imm 0x8a], Count, Syscall NR_write [Reg 0, Write_buf, Imm 0x8a], Count,
    Syscall NR_write [Reg 0, Write_buf, Imm 0x8a], Count, Syscall NR_write [Reg 0, Write_buf, Imm 0x8a], Count,
    Syscall NR_write [Reg 0, Write_buf, Imm 0x8a], Count, Syscall NR_write [Reg 0, Write_buf, Imm 0x8a], Count,
    Syscall NR_write [Reg 0, Write_buf, Imm 0x8a], Count, Syscall NR_write [Reg 0, Write_buf, Imm 0x8a], Count,
    Syscall NR_write [Reg 0, Write_buf, Imm 0x8a], Count, Syscall NR_write [Reg 0, Write_buf, Imm 0x8a], Count,
    Syscall NR_write [Reg 0, Write_buf, Imm 0x8a], Count, Syscall NR_write [Reg 0, Write_buf, Imm 0x8a], Count,
    Syscall NR_write [Reg 0, Write_buf, Imm 0x8a], Count, Syscall NR_write [Reg 0, Write_buf, Imm 0x8a], Count]"

definition min_rocks_write_fcntl_0_0_body29 :: "stmt list" where
  "min_rocks_write_fcntl_0_0_body29 = [
    Syscall NR_write [Reg 0, Write_buf, Imm 0x8a], Count, Syscall NR_write [Reg 0, Write_buf, Imm 0x8a], Count,
    Syscall NR_write [Reg 0, Write_buf, Imm 0x8a], Count, Syscall NR_write [Reg 0, Write_buf, Imm 0x8a], Count,
    Syscall NR_write [Reg 0, Write_buf, Imm 0x8a], Count, Syscall NR_write [Reg 0, Write_buf, Imm 0x8a], Count,
    Syscall NR_write [Reg 0, Write_buf, Imm 0x8a], Count, Syscall NR_write [Reg 0, Write_buf, Imm 0x8a], Count,
    Syscall NR_write [Reg 0, Write_buf, Imm 0x8a], Count, Syscall NR_write [Reg 0, Write_buf, Imm 0x8a], Count,
    Syscall NR_write [Reg 0, Write_buf, Imm 0x8a], Count, Syscall NR_write [Reg 0, Write_buf, Imm 0x8a], Count,
    Syscall NR_write [Reg 0, Write_buf, Imm 0x8a], Count, Syscall NR_write [Reg 0, Write_buf, Imm 0x8a], Count]"

definition min_rocks_write_fcntl_0_0_body30 :: "stmt list" where
  "min_rocks_write_fcntl_0_0_body30 = [
    Syscall NR_write [Reg 0, Write_buf, Imm 0x8a], Count, Syscall NR_write [Reg 0, Write_buf, Imm 0x8a], Count,
    Syscall NR_write [Reg 0, Write_buf, Imm 0x8a], Count, Syscall NR_write [Reg 0, Write_buf, Imm 0x8a], Count,
    Syscall NR_write [Reg 0, Write_buf, Imm 0x8a], Count, Syscall NR_write [Reg 0, Write_buf, Imm 0x8a], Count,
    Syscall NR_write [Reg 0, Write_buf, Imm 0x8a], Count, Syscall NR_write [Reg 0, Write_buf, Imm 0x8a], Count,
    Syscall NR_write [Reg 0, Write_buf, Imm 0x8a], Count, Syscall NR_write [Reg 0, Write_buf, Imm 0x8a], Count,
    Syscall NR_write [Reg 0, Write_buf, Imm 0x8a], Count, Syscall NR_write [Reg 0, Write_buf, Imm 0x8a], Count,
    Syscall NR_write [Reg 0, Write_buf, Imm 0x8a], Count, Syscall NR_write [Reg 0, Write_buf, Imm 0x8a], Count]"

definition min_rocks_write_fcntl_0_0_body31 :: "stmt list" where
  "min_rocks_write_fcntl_0_0_body31 = [
    Syscall NR_write [Reg 0, Write_buf, Imm 0x8a], Count, Syscall NR_write [Reg 0, Write_buf, Imm 0x8a], Count,
    Syscall NR_write [Reg 0, Write_buf, Imm 0x8a], Count, Syscall NR_write [Reg 0, Write_buf, Imm 0x8a], Count,
    Syscall NR_write [Reg 0, Write_buf, Imm 0x8a], Count, Syscall NR_write [Reg 0, Write_buf, Imm 0x8a], Count,
    Syscall NR_write [Reg 0, Write_buf, Imm 0x8a], Count, Syscall NR_write [Reg 0, Write_buf, Imm 0x8a], Count,
    Syscall NR_write [Reg 0, Write_buf, Imm 0x8a], Count, Syscall NR_write [Reg 0, Write_buf, Imm 0x8a], Count,
    Syscall NR_write [Reg 0, Write_buf, Imm 0x8a], Count, Syscall NR_write [Reg 0, Write_buf, Imm 0x8a], Count,
    Syscall NR_write [Reg 0, Write_buf, Imm 0x8a], Count, Syscall NR_write [Reg 0, Write_buf, Imm 0x8a], Count]"

definition min_rocks_write_fcntl_0_0_body32 :: "stmt list" where
  "min_rocks_write_fcntl_0_0_body32 = [
    Syscall NR_write [Reg 0, Write_buf, Imm 0x8a], Count, Syscall NR_write [Reg 0, Write_buf, Imm 0x8a], Count,
    Syscall NR_write [Reg 0, Write_buf, Imm 0x8a], Count, Syscall NR_write [Reg 0, Write_buf, Imm 0x8a], Count,
    Syscall NR_write [Reg 0, Write_buf, Imm 0x8a], Count, Syscall NR_write [Reg 0, Write_buf, Imm 0x8a], Count,
    Syscall NR_write [Reg 0, Write_buf, Imm 0x8a], Count, Syscall NR_write [Reg 0, Write_buf, Imm 0x8a], Count,
    Syscall NR_write [Reg 0, Write_buf, Imm 0x8a], Count, Syscall NR_write [Reg 0, Write_buf, Imm 0x8a], Count,
    Syscall NR_write [Reg 0, Write_buf, Imm 0x8a], Count, Syscall NR_write [Reg 0, Write_buf, Imm 0x8a], Count,
    Syscall NR_write [Reg 0, Write_buf, Imm 0x8a], Count, Syscall NR_write [Reg 0, Write_buf, Imm 0x8a], Count]"

definition min_rocks_write_fcntl_0_0_body33 :: "stmt list" where
  "min_rocks_write_fcntl_0_0_body33 = [
    Syscall NR_write [Reg 0, Write_buf, Imm 0x8a], Count, Syscall NR_write [Reg 0, Write_buf, Imm 0x8a], Count,
    Syscall NR_write [Reg 0, Write_buf, Imm 0x8a], Count, Syscall NR_write [Reg 0, Write_buf, Imm 0x8a], Count,
    Syscall NR_write [Reg 0, Write_buf, Imm 0x8a], Count, Syscall NR_write [Reg 0, Write_buf, Imm 0x8a], Count,
    Syscall NR_write [Reg 0, Write_buf, Imm 0x8a], Count, Syscall NR_write [Reg 0, Write_buf, Imm 0x8a], Count,
    Syscall NR_write [Reg 0, Write_buf, Imm 0x8a], Count, Syscall NR_write [Reg 0, Write_buf, Imm 0x8a], Count,
    Syscall NR_write [Reg 0, Write_buf, Imm 0x8a], Count, Syscall NR_write [Reg 0, Write_buf, Imm 0x8a], Count,
    Syscall NR_write [Reg 0, Write_buf, Imm 0x8a], Count, Syscall NR_write [Reg 0, Write_buf, Imm 0x8a], Count]"

definition min_rocks_write_fcntl_0_0_body34 :: "stmt list" where
  "min_rocks_write_fcntl_0_0_body34 = [
    Syscall NR_write [Reg 0, Write_buf, Imm 0x8a], Count, Syscall NR_write [Reg 0, Write_buf, Imm 0x8a], Count,
    Syscall NR_write [Reg 0, Write_buf, Imm 0x8a], Count, Syscall NR_write [Reg 0, Write_buf, Imm 0x8a], Count,
    Syscall NR_write [Reg 0, Write_buf, Imm 0x8a], Count, Syscall NR_write [Reg 0, Write_buf, Imm 0x90], Count,
    Syscall NR_write [Reg 0, Write_buf, Imm 0x8a], Count, Syscall NR_write [Reg 0, Write_buf, Imm 0x8a], Count,
    Syscall NR_write [Reg 0, Write_buf, Imm 0x8a], Count, Syscall NR_write [Reg 0, Write_buf, Imm 0x8a], Count,
    Syscall NR_write [Reg 0, Write_buf, Imm 0x8a], Count, Syscall NR_write [Reg 0, Write_buf, Imm 0x8a], Count,
    Syscall NR_write [Reg 0, Write_buf, Imm 0x8a], Count, Syscall NR_write [Reg 0, Write_buf, Imm 0x8a], Count]"

definition min_rocks_write_fcntl_0_0_body35 :: "stmt list" where
  "min_rocks_write_fcntl_0_0_body35 = [
    Syscall NR_write [Reg 0, Write_buf, Imm 0x8a], Count, Syscall NR_write [Reg 0, Write_buf, Imm 0x8a], Count,
    Syscall NR_write [Reg 0, Write_buf, Imm 0x8a], Count, Syscall NR_write [Reg 0, Write_buf, Imm 0x8a], Count,
    Syscall NR_write [Reg 0, Write_buf, Imm 0x8a], Count, Syscall NR_write [Reg 0, Write_buf, Imm 0x8a], Count,
    Syscall NR_write [Reg 0, Write_buf, Imm 0x8a], Count, Syscall NR_write [Reg 0, Write_buf, Imm 0x8a], Count,
    Syscall NR_write [Reg 0, Write_buf, Imm 0x8a], Count, Syscall NR_write [Reg 0, Write_buf, Imm 0x8a], Count,
    Syscall NR_write [Reg 0, Write_buf, Imm 0x8a], Count, Syscall NR_write [Reg 0, Write_buf, Imm 0x8a], Count,
    Syscall NR_write [Reg 0, Write_buf, Imm 0x8a], Count, Syscall NR_write [Reg 0, Write_buf, Imm 0x8a], Count]"

definition min_rocks_write_fcntl_0_0_body36 :: "stmt list" where
  "min_rocks_write_fcntl_0_0_body36 = [
    Syscall NR_write [Reg 0, Write_buf, Imm 0x8a], Count, Syscall NR_write [Reg 0, Write_buf, Imm 0x8a], Count,
    Syscall NR_write [Reg 0, Write_buf, Imm 0x8a], Count, Syscall NR_write [Reg 0, Write_buf, Imm 0x8a], Count,
    Syscall NR_write [Reg 0, Write_buf, Imm 0x8a], Count, Syscall NR_write [Reg 0, Write_buf, Imm 0x8a], Count,
    Syscall NR_write [Reg 0, Write_buf, Imm 0x8a], Count, Syscall NR_write [Reg 0, Write_buf, Imm 0x8a], Count,
    Syscall NR_write [Reg 0, Write_buf, Imm 0x8a], Count, Syscall NR_write [Reg 0, Write_buf, Imm 0x8a], Count,
    Syscall NR_write [Reg 0, Write_buf, Imm 0x8a], Count, Syscall NR_write [Reg 0, Write_buf, Imm 0x8a], Count,
    Syscall NR_write [Reg 0, Write_buf, Imm 0x8a], Count, Syscall NR_write [Reg 0, Write_buf, Imm 0x8a], Count]"

definition min_rocks_write_fcntl_0_0_body37 :: "stmt list" where
  "min_rocks_write_fcntl_0_0_body37 = [
    Syscall NR_write [Reg 0, Write_buf, Imm 0x8a], Count, Syscall NR_write [Reg 0, Write_buf, Imm 0x8a], Count,
    Syscall NR_write [Reg 0, Write_buf, Imm 0x8a], Count, Syscall NR_write [Reg 0, Write_buf, Imm 0x8a], Count,
    Syscall NR_write [Reg 0, Write_buf, Imm 0x8a], Count, Syscall NR_write [Reg 0, Write_buf, Imm 0x8a], Count,
    Syscall NR_write [Reg 0, Write_buf, Imm 0x8a], Count, Syscall NR_write [Reg 0, Write_buf, Imm 0x8a], Count,
    Syscall NR_write [Reg 0, Write_buf, Imm 0x8a], Count, Syscall NR_write [Reg 0, Write_buf, Imm 0x8a], Count,
    Syscall NR_write [Reg 0, Write_buf, Imm 0x8a], Count, Syscall NR_write [Reg 0, Write_buf, Imm 0x8a], Count,
    Syscall NR_write [Reg 0, Write_buf, Imm 0x8a], Count, Syscall NR_write [Reg 0, Write_buf, Imm 0x8a], Count]"

definition min_rocks_write_fcntl_0_0_body38 :: "stmt list" where
  "min_rocks_write_fcntl_0_0_body38 = [
    Syscall NR_write [Reg 0, Write_buf, Imm 0x8a], Count, Syscall NR_write [Reg 0, Write_buf, Imm 0x8a], Count,
    Syscall NR_write [Reg 0, Write_buf, Imm 0x8a], Count, Syscall NR_write [Reg 0, Write_buf, Imm 0x8a], Count,
    Syscall NR_write [Reg 0, Write_buf, Imm 0x8a], Count, Syscall NR_write [Reg 0, Write_buf, Imm 0x8a], Count,
    Syscall NR_write [Reg 0, Write_buf, Imm 0x8a], Count, Syscall NR_write [Reg 0, Write_buf, Imm 0x8a], Count,
    Syscall NR_write [Reg 0, Write_buf, Imm 0x8a], Count, Syscall NR_write [Reg 0, Write_buf, Imm 0x8a], Count,
    Syscall NR_write [Reg 0, Write_buf, Imm 0x8a], Count, Syscall NR_write [Reg 0, Write_buf, Imm 0x8a], Count,
    Syscall NR_write [Reg 0, Write_buf, Imm 0x8a], Count, Syscall NR_write [Reg 0, Write_buf, Imm 0x8a], Count]"

definition min_rocks_write_fcntl_0_0_body39 :: "stmt list" where
  "min_rocks_write_fcntl_0_0_body39 = [
    Syscall NR_write [Reg 0, Write_buf, Imm 0x8a], Count, Syscall NR_write [Reg 0, Write_buf, Imm 0x8a], Count,
    Syscall NR_write [Reg 0, Write_buf, Imm 0x8a], Count, Syscall NR_write [Reg 0, Write_buf, Imm 0x8a], Count,
    Syscall NR_write [Reg 0, Write_buf, Imm 0x8a], Count, Syscall NR_write [Reg 0, Write_buf, Imm 0x8a], Count,
    Syscall NR_write [Reg 0, Write_buf, Imm 0x8a], Count, Syscall NR_write [Reg 0, Write_buf, Imm 0x8a], Count,
    Syscall NR_write [Reg 0, Write_buf, Imm 0x8a], Count, Syscall NR_write [Reg 0, Write_buf, Imm 0x8a], Count,
    Syscall NR_write [Reg 0, Write_buf, Imm 0x8a], Count, Syscall NR_write [Reg 0, Write_buf, Imm 0x8a], Count,
    Syscall NR_write [Reg 0, Write_buf, Imm 0x8a], Count, Syscall NR_write [Reg 0, Write_buf, Imm 0x8a], Count]"

definition min_rocks_write_fcntl_0_0_body40 :: "stmt list" where
  "min_rocks_write_fcntl_0_0_body40 = [
    Syscall NR_write [Reg 0, Write_buf, Imm 0x8a], Count, Syscall NR_write [Reg 0, Write_buf, Imm 0x8a], Count,
    Syscall NR_write [Reg 0, Write_buf, Imm 0x8a], Count, Syscall NR_write [Reg 0, Write_buf, Imm 0x8a], Count,
    Syscall NR_write [Reg 0, Write_buf, Imm 0x8a], Count, Syscall NR_write [Reg 0, Write_buf, Imm 0x8a], Count,
    Syscall NR_write [Reg 0, Write_buf, Imm 0x8a], Count, Syscall NR_write [Reg 0, Write_buf, Imm 0x8a], Count,
    Syscall NR_write [Reg 0, Write_buf, Imm 0x8a], Count, Syscall NR_write [Reg 0, Write_buf, Imm 0x8a], Count,
    Syscall NR_write [Reg 0, Write_buf, Imm 0x8a], Count, Syscall NR_write [Reg 0, Write_buf, Imm 0x8a], Count,
    Syscall NR_write [Reg 0, Write_buf, Imm 0x8a], Count, Syscall NR_write [Reg 0, Write_buf, Imm 0x8a], Count]"

definition min_rocks_write_fcntl_0_0_body41 :: "stmt list" where
  "min_rocks_write_fcntl_0_0_body41 = [
    Syscall NR_write [Reg 0, Write_buf, Imm 0x8a], Count, Syscall NR_write [Reg 0, Write_buf, Imm 0x8a], Count,
    Syscall NR_write [Reg 0, Write_buf, Imm 0x8a], Count, Syscall NR_write [Reg 0, Write_buf, Imm 0x8a], Count,
    Syscall NR_write [Reg 0, Write_buf, Imm 0x8a], Count, Syscall NR_write [Reg 0, Write_buf, Imm 0x8a], Count,
    Syscall NR_write [Reg 0, Write_buf, Imm 0x8a], Count, Syscall NR_write [Reg 0, Write_buf, Imm 0x8a], Count,
    Syscall NR_write [Reg 0, Write_buf, Imm 0x8a], Count, Syscall NR_write [Reg 0, Write_buf, Imm 0x8a], Count,
    Syscall NR_write [Reg 0, Write_buf, Imm 0x8a], Count, Syscall NR_write [Reg 0, Write_buf, Imm 0x8a], Count,
    Syscall NR_write [Reg 0, Write_buf, Imm 0x8a], Count, Syscall NR_write [Reg 0, Write_buf, Imm 0x8a], Count]"

definition min_rocks_write_fcntl_0_0_body42 :: "stmt list" where
  "min_rocks_write_fcntl_0_0_body42 = [
    Syscall NR_write [Reg 0, Write_buf, Imm 0x8a], Count, Syscall NR_write [Reg 0, Write_buf, Imm 0x8a], Count,
    Syscall NR_write [Reg 0, Write_buf, Imm 0x8a], Count, Syscall NR_write [Reg 0, Write_buf, Imm 0x8a], Count,
    Syscall NR_write [Reg 0, Write_buf, Imm 0x8a], Count, Syscall NR_write [Reg 0, Write_buf, Imm 0x8a], Count,
    Syscall NR_write [Reg 0, Write_buf, Imm 0x8a], Count, Syscall NR_write [Reg 0, Write_buf, Imm 0x8a], Count,
    Syscall NR_write [Reg 0, Write_buf, Imm 0x8a], Count, Syscall NR_write [Reg 0, Write_buf, Imm 0x8a], Count,
    Syscall NR_write [Reg 0, Write_buf, Imm 0x8a], Count, Syscall NR_write [Reg 0, Write_buf, Imm 0x8a], Count,
    Syscall NR_write [Reg 0, Write_buf, Imm 0x8a], Count, Syscall NR_write [Reg 0, Write_buf, Imm 0x8a], Count]"

definition min_rocks_write_fcntl_0_0_body43 :: "stmt list" where
  "min_rocks_write_fcntl_0_0_body43 = [
    Syscall NR_write [Reg 0, Write_buf, Imm 0x8a], Count, Syscall NR_write [Reg 0, Write_buf, Imm 0x8a], Count,
    Syscall NR_write [Reg 0, Write_buf, Imm 0x8a], Count, Syscall NR_write [Reg 0, Write_buf, Imm 0x8a], Count,
    Syscall NR_write [Reg 0, Write_buf, Imm 0x8a], Count, Syscall NR_write [Reg 0, Write_buf, Imm 0x8a], Count,
    Syscall NR_write [Reg 0, Write_buf, Imm 0x8a], Count, Syscall NR_write [Reg 0, Write_buf, Imm 0x8a], Count,
    Syscall NR_write [Reg 0, Write_buf, Imm 0x8a], Count, Syscall NR_write [Reg 0, Write_buf, Imm 0x8a], Count,
    Syscall NR_write [Reg 0, Write_buf, Imm 0x8a], Count, Syscall NR_write [Reg 0, Write_buf, Imm 0x8a], Count,
    Syscall NR_write [Reg 0, Write_buf, Imm 0x8a], Count, Syscall NR_write [Reg 0, Write_buf, Imm 0x8a], Count]"

definition min_rocks_write_fcntl_0_0_body44 :: "stmt list" where
  "min_rocks_write_fcntl_0_0_body44 = [
    Syscall NR_write [Reg 0, Write_buf, Imm 0x8a], Count, Syscall NR_write [Reg 0, Write_buf, Imm 0x8a], Count,
    Syscall NR_write [Reg 0, Write_buf, Imm 0x8a], Count, Syscall NR_write [Reg 0, Write_buf, Imm 0x8a], Count,
    Syscall NR_write [Reg 0, Write_buf, Imm 0x8a], Count, Syscall NR_write [Reg 0, Write_buf, Imm 0x8a], Count,
    Syscall NR_write [Reg 0, Write_buf, Imm 0x8a], Count, Syscall NR_write [Reg 0, Write_buf, Imm 0x8a], Count,
    Syscall NR_write [Reg 0, Write_buf, Imm 0x8a], Count, Syscall NR_write [Reg 0, Write_buf, Imm 0x8a], Count,
    Syscall NR_write [Reg 0, Write_buf, Imm 0x8a], Count, Syscall NR_write [Reg 0, Write_buf, Imm 0x8a], Count,
    Syscall NR_write [Reg 0, Write_buf, Imm 0x8a], Count, Syscall NR_write [Reg 0, Write_buf, Imm 0x8a], Count]"

definition min_rocks_write_fcntl_0_0_body45 :: "stmt list" where
  "min_rocks_write_fcntl_0_0_body45 = [
    Syscall NR_write [Reg 0, Write_buf, Imm 0x8a], Count, Syscall NR_write [Reg 0, Write_buf, Imm 0x8a], Count,
    Syscall NR_write [Reg 0, Write_buf, Imm 0x8a], Count, Syscall NR_write [Reg 0, Write_buf, Imm 0x8a], Count,
    Syscall NR_write [Reg 0, Write_buf, Imm 0x8a], Count, Syscall NR_write [Reg 0, Write_buf, Imm 0x8a], Count,
    Syscall NR_write [Reg 0, Write_buf, Imm 0x8a], Count, Syscall NR_write [Reg 0, Write_buf, Imm 0x8a], Count,
    Syscall NR_write [Reg 0, Write_buf, Imm 0x8a], Count, Syscall NR_write [Reg 0, Write_buf, Imm 0x8a], Count,
    Syscall NR_write [Reg 0, Write_buf, Imm 0x8a], Count, Syscall NR_write [Reg 0, Write_buf, Imm 0x8a], Count,
    Syscall NR_write [Reg 0, Write_buf, Imm 0x8a], Count, Syscall NR_write [Reg 0, Write_buf, Imm 0x8a], Count]"

definition min_rocks_write_fcntl_0_0_body46 :: "stmt list" where
  "min_rocks_write_fcntl_0_0_body46 = [
    Syscall NR_write [Reg 0, Write_buf, Imm 0x8a], Count, Syscall NR_write [Reg 0, Write_buf, Imm 0x8a], Count,
    Syscall NR_write [Reg 0, Write_buf, Imm 0x8a], Count, Syscall NR_write [Reg 0, Write_buf, Imm 0x8a], Count,
    Syscall NR_write [Reg 0, Write_buf, Imm 0x8a], Count, Syscall NR_write [Reg 0, Write_buf, Imm 0x8a], Count,
    Syscall NR_write [Reg 0, Write_buf, Imm 0x8a], Count, Syscall NR_write [Reg 0, Write_buf, Imm 0x8a], Count,
    Syscall NR_write [Reg 0, Write_buf, Imm 0x8a], Count, Syscall NR_write [Reg 0, Write_buf, Imm 0x8a], Count,
    Syscall NR_write [Reg 0, Write_buf, Imm 0x8a], Count, Syscall NR_write [Reg 0, Write_buf, Imm 0x8a], Count,
    Syscall NR_write [Reg 0, Write_buf, Imm 0x8a], Count, Syscall NR_write [Reg 0, Write_buf, Imm 0x8a], Count]"

definition min_rocks_write_fcntl_0_0_body47 :: "stmt list" where
  "min_rocks_write_fcntl_0_0_body47 = [
    Syscall NR_write [Reg 0, Write_buf, Imm 0x8a], Count, Syscall NR_write [Reg 0, Write_buf, Imm 0x8a], Count,
    Syscall NR_write [Reg 0, Write_buf, Imm 0x8a], Count, Syscall NR_write [Reg 0, Write_buf, Imm 0x8a], Count,
    Syscall NR_write [Reg 0, Write_buf, Imm 0x8a], Count, Syscall NR_write [Reg 0, Write_buf, Imm 0x8a], Count,
    Syscall NR_write [Reg 0, Write_buf, Imm 0x8a], Count, Syscall NR_write [Reg 0, Write_buf, Imm 0x8a], Count,
    Syscall NR_write [Reg 0, Write_buf, Imm 0x8a], Count, Syscall NR_write [Reg 0, Write_buf, Imm 0x8a], Count,
    Syscall NR_write [Reg 0, Write_buf, Imm 0x8a], Count, Syscall NR_write [Reg 0, Write_buf, Imm 0x8a], Count,
    Syscall NR_write [Reg 0, Write_buf, Imm 0x8a], Count, Syscall NR_write [Reg 0, Write_buf, Imm 0x8a], Count]"

definition min_rocks_write_fcntl_0_0_body48 :: "stmt list" where
  "min_rocks_write_fcntl_0_0_body48 = [
    Syscall NR_write [Reg 0, Write_buf, Imm 0x8a], Count, Syscall NR_write [Reg 0, Write_buf, Imm 0x8a], Count,
    Syscall NR_write [Reg 0, Write_buf, Imm 0x8a], Count, Syscall NR_write [Reg 0, Write_buf, Imm 0x8a], Count,
    Syscall NR_write [Reg 0, Write_buf, Imm 0x8a], Count, Syscall NR_write [Reg 0, Write_buf, Imm 0x8a], Count,
    Syscall NR_write [Reg 0, Write_buf, Imm 0x8a], Count, Syscall NR_write [Reg 0, Write_buf, Imm 0x8a], Count,
    Syscall NR_write [Reg 0, Write_buf, Imm 0x8a], Count, Syscall NR_write [Reg 0, Write_buf, Imm 0x8a], Count,
    Syscall NR_write [Reg 0, Write_buf, Imm 0x8a], Count, Syscall NR_write [Reg 0, Write_buf, Imm 0x8a], Count,
    Syscall NR_write [Reg 0, Write_buf, Imm 0x8a], Count, Syscall NR_write [Reg 0, Write_buf, Imm 0x8a], Count]"

definition min_rocks_write_fcntl_0_0_body49 :: "stmt list" where
  "min_rocks_write_fcntl_0_0_body49 = [
    Syscall NR_write [Reg 0, Write_buf, Imm 0x8a], Count, Syscall NR_write [Reg 0, Write_buf, Imm 0x8a], Count,
    Syscall NR_write [Reg 0, Write_buf, Imm 0x8a], Count, Syscall NR_write [Reg 0, Write_buf, Imm 0x8a], Count,
    Syscall NR_write [Reg 0, Write_buf, Imm 0x8a], Count, Syscall NR_write [Reg 0, Write_buf, Imm 0x8a], Count,
    Syscall NR_write [Reg 0, Write_buf, Imm 0x8a], Count, Syscall NR_write [Reg 0, Write_buf, Imm 0x8a], Count,
    Syscall NR_write [Reg 0, Write_buf, Imm 0x8a], Count, Syscall NR_write [Reg 0, Write_buf, Imm 0x8a], Count,
    Syscall NR_write [Reg 0, Write_buf, Imm 0x8a], Count, Syscall NR_write [Reg 0, Write_buf, Imm 0x8a], Count,
    Syscall NR_write [Reg 0, Write_buf, Imm 0x8a], Count, Syscall NR_write [Reg 0, Write_buf, Imm 0x8a], Count]"

definition min_rocks_write_fcntl_0_0_body50 :: "stmt list" where
  "min_rocks_write_fcntl_0_0_body50 = [
    Syscall NR_write [Reg 0, Write_buf, Imm 0x8a], Count, Syscall NR_write [Reg 0, Write_buf, Imm 0x8a], Count,
    Syscall NR_write [Reg 0, Write_buf, Imm 0x8a], Count, Syscall NR_write [Reg 0, Write_buf, Imm 0x8a], Count,
    Syscall NR_write [Reg 0, Write_buf, Imm 0x8a], Count, Syscall NR_write [Reg 0, Write_buf, Imm 0x8a], Count,
    Syscall NR_write [Reg 0, Write_buf, Imm 0x8a], Count, Syscall NR_write [Reg 0, Write_buf, Imm 0x8a], Count,
    Syscall NR_write [Reg 0, Write_buf, Imm 0x8a], Count, Syscall NR_write [Reg 0, Write_buf, Imm 0x8a], Count,
    Syscall NR_write [Reg 0, Write_buf, Imm 0x8a], Count, Syscall NR_write [Reg 0, Write_buf, Imm 0x8a], Count,
    Syscall NR_write [Reg 0, Write_buf, Imm 0x8a], Count, Syscall NR_write [Reg 0, Write_buf, Imm 0x8a], Count]"

definition min_rocks_write_fcntl_0_0_body51 :: "stmt list" where
  "min_rocks_write_fcntl_0_0_body51 = [
    Syscall NR_write [Reg 0, Write_buf, Imm 0x8a], Count, Syscall NR_write [Reg 0, Write_buf, Imm 0x8a], Count,
    Syscall NR_write [Reg 0, Write_buf, Imm 0x8a], Count, Syscall NR_write [Reg 0, Write_buf, Imm 0x8a], Count,
    Syscall NR_write [Reg 0, Write_buf, Imm 0x91], Count, Syscall NR_write [Reg 0, Write_buf, Imm 0x8a], Count,
    Syscall NR_write [Reg 0, Write_buf, Imm 0x8a], Count, Syscall NR_write [Reg 0, Write_buf, Imm 0x8a], Count,
    Syscall NR_write [Reg 0, Write_buf, Imm 0x8a], Count, Syscall NR_write [Reg 0, Write_buf, Imm 0x8a], Count,
    Syscall NR_write [Reg 0, Write_buf, Imm 0x8a], Count, Syscall NR_write [Reg 0, Write_buf, Imm 0x8a], Count,
    Syscall NR_write [Reg 0, Write_buf, Imm 0x8a], Count, Syscall NR_write [Reg 0, Write_buf, Imm 0x8a], Count]"

definition min_rocks_write_fcntl_0_0_body52 :: "stmt list" where
  "min_rocks_write_fcntl_0_0_body52 = [
    Syscall NR_write [Reg 0, Write_buf, Imm 0x8a], Count, Syscall NR_write [Reg 0, Write_buf, Imm 0x8a], Count,
    Syscall NR_write [Reg 0, Write_buf, Imm 0x8a], Count, Syscall NR_write [Reg 0, Write_buf, Imm 0x8a], Count,
    Syscall NR_write [Reg 0, Write_buf, Imm 0x8a], Count, Syscall NR_write [Reg 0, Write_buf, Imm 0x8a], Count,
    Syscall NR_write [Reg 0, Write_buf, Imm 0x8a], Count, Syscall NR_write [Reg 0, Write_buf, Imm 0x8a], Count,
    Syscall NR_write [Reg 0, Write_buf, Imm 0x8a], Count, Syscall NR_write [Reg 0, Write_buf, Imm 0x8a], Count,
    Syscall NR_write [Reg 0, Write_buf, Imm 0x8a], Count, Syscall NR_write [Reg 0, Write_buf, Imm 0x8a], Count,
    Syscall NR_write [Reg 0, Write_buf, Imm 0x8a], Count, Syscall NR_write [Reg 0, Write_buf, Imm 0x8a], Count]"

definition min_rocks_write_fcntl_0_0_body53 :: "stmt list" where
  "min_rocks_write_fcntl_0_0_body53 = [
    Syscall NR_write [Reg 0, Write_buf, Imm 0x8a], Count, Syscall NR_write [Reg 0, Write_buf, Imm 0x8a], Count,
    Syscall NR_write [Reg 0, Write_buf, Imm 0x8a], Count, Syscall NR_write [Reg 0, Write_buf, Imm 0x8a], Count,
    Syscall NR_write [Reg 0, Write_buf, Imm 0x8a], Count, Syscall NR_write [Reg 0, Write_buf, Imm 0x8a], Count,
    Syscall NR_write [Reg 0, Write_buf, Imm 0x8a], Count, Syscall NR_write [Reg 0, Write_buf, Imm 0x8a], Count,
    Syscall NR_write [Reg 0, Write_buf, Imm 0x8a], Count, Syscall NR_write [Reg 0, Write_buf, Imm 0x8a], Count,
    Syscall NR_write [Reg 0, Write_buf, Imm 0x8a], Count, Syscall NR_write [Reg 0, Write_buf, Imm 0x8a], Count,
    Syscall NR_write [Reg 0, Write_buf, Imm 0x8a], Count, Syscall NR_write [Reg 0, Write_buf, Imm 0x8a], Count]"

definition min_rocks_write_fcntl_0_0_body54 :: "stmt list" where
  "min_rocks_write_fcntl_0_0_body54 = [
    Syscall NR_write [Reg 0, Write_buf, Imm 0x8a], Count, Syscall NR_write [Reg 0, Write_buf, Imm 0x8a], Count,
    Syscall NR_write [Reg 0, Write_buf, Imm 0x8a], Count, Syscall NR_write [Reg 0, Write_buf, Imm 0x8a], Count,
    Syscall NR_write [Reg 0, Write_buf, Imm 0x8a], Count, Syscall NR_write [Reg 0, Write_buf, Imm 0x8a], Count,
    Syscall NR_write [Reg 0, Write_buf, Imm 0x8a], Count, Syscall NR_write [Reg 0, Write_buf, Imm 0x8a], Count,
    Syscall NR_write [Reg 0, Write_buf, Imm 0x8a], Count, Syscall NR_write [Reg 0, Write_buf, Imm 0x8a], Count,
    Syscall NR_write [Reg 0, Write_buf, Imm 0x8a], Count, Syscall NR_write [Reg 0, Write_buf, Imm 0x8a], Count,
    Syscall NR_write [Reg 0, Write_buf, Imm 0x8a], Count, Syscall NR_write [Reg 0, Write_buf, Imm 0x8a], Count]"

definition min_rocks_write_fcntl_0_0_body55 :: "stmt list" where
  "min_rocks_write_fcntl_0_0_body55 = [
    Syscall NR_write [Reg 0, Write_buf, Imm 0x8a], Count, Syscall NR_write [Reg 0, Write_buf, Imm 0x8a], Count,
    Syscall NR_write [Reg 0, Write_buf, Imm 0x8a], Count, Syscall NR_write [Reg 0, Write_buf, Imm 0x8a], Count,
    Syscall NR_write [Reg 0, Write_buf, Imm 0x8a], Count, Syscall NR_write [Reg 0, Write_buf, Imm 0x8a], Count,
    Syscall NR_write [Reg 0, Write_buf, Imm 0x8a], Count, Syscall NR_write [Reg 0, Write_buf, Imm 0x8a], Count,
    Syscall NR_write [Reg 0, Write_buf, Imm 0x8a], Count, Syscall NR_write [Reg 0, Write_buf, Imm 0x8a], Count,
    Syscall NR_write [Reg 0, Write_buf, Imm 0x8a], Count, Syscall NR_write [Reg 0, Write_buf, Imm 0x8a], Count,
    Syscall NR_write [Reg 0, Write_buf, Imm 0x8a], Count, Syscall NR_write [Reg 0, Write_buf, Imm 0x8a], Count]"

definition min_rocks_write_fcntl_0_0_body56 :: "stmt list" where
  "min_rocks_write_fcntl_0_0_body56 = [
    Syscall NR_write [Reg 0, Write_buf, Imm 0x8a], Count, Syscall NR_write [Reg 0, Write_buf, Imm 0x8a], Count,
    Syscall NR_write [Reg 0, Write_buf, Imm 0x8a], Count, Syscall NR_write [Reg 0, Write_buf, Imm 0x8a], Count,
    Syscall NR_write [Reg 0, Write_buf, Imm 0x8a], Count, Syscall NR_write [Reg 0, Write_buf, Imm 0x8a], Count,
    Syscall NR_write [Reg 0, Write_buf, Imm 0x8a], Count, Syscall NR_write [Reg 0, Write_buf, Imm 0x8a], Count,
    Syscall NR_write [Reg 0, Write_buf, Imm 0x8a], Count, Syscall NR_write [Reg 0, Write_buf, Imm 0x8a], Count,
    Syscall NR_write [Reg 0, Write_buf, Imm 0x8a], Count, Syscall NR_write [Reg 0, Write_buf, Imm 0x8a], Count,
    Syscall NR_write [Reg 0, Write_buf, Imm 0x8a], Count, Syscall NR_write [Reg 0, Write_buf, Imm 0x8a], Count]"

definition min_rocks_write_fcntl_0_0_body57 :: "stmt list" where
  "min_rocks_write_fcntl_0_0_body57 = [
    Syscall NR_write [Reg 0, Write_buf, Imm 0x8a], Count, Syscall NR_write [Reg 0, Write_buf, Imm 0x8a], Count,
    Syscall NR_write [Reg 0, Write_buf, Imm 0x8a], Count, Syscall NR_write [Reg 0, Write_buf, Imm 0x8a], Count,
    Syscall NR_write [Reg 0, Write_buf, Imm 0x8a], Count, Syscall NR_write [Reg 0, Write_buf, Imm 0x8a], Count,
    Syscall NR_write [Reg 0, Write_buf, Imm 0x8a], Count, Syscall NR_write [Reg 0, Write_buf, Imm 0x8a], Count,
    Syscall NR_write [Reg 0, Write_buf, Imm 0x8a], Count, Syscall NR_write [Reg 0, Write_buf, Imm 0x8a], Count,
    Syscall NR_write [Reg 0, Write_buf, Imm 0x8a], Count, Syscall NR_write [Reg 0, Write_buf, Imm 0x8a], Count,
    Syscall NR_write [Reg 0, Write_buf, Imm 0x8a], Count, Syscall NR_write [Reg 0, Write_buf, Imm 0x8a], Count]"

definition min_rocks_write_fcntl_0_0_body58 :: "stmt list" where
  "min_rocks_write_fcntl_0_0_body58 = [
    Syscall NR_write [Reg 0, Write_buf, Imm 0x8a], Count, Syscall NR_write [Reg 0, Write_buf, Imm 0x8a], Count,
    Syscall NR_write [Reg 0, Write_buf, Imm 0x8a], Count, Syscall NR_write [Reg 0, Write_buf, Imm 0x8a], Count,
    Syscall NR_write [Reg 0, Write_buf, Imm 0x8a], Count, Syscall NR_write [Reg 0, Write_buf, Imm 0x8a], Count,
    Syscall NR_write [Reg 0, Write_buf, Imm 0x8a], Count, Syscall NR_write [Reg 0, Write_buf, Imm 0x8a], Count,
    Syscall NR_write [Reg 0, Write_buf, Imm 0x8a], Count, Syscall NR_write [Reg 0, Write_buf, Imm 0x8a], Count,
    Syscall NR_write [Reg 0, Write_buf, Imm 0x8a], Count, Syscall NR_write [Reg 0, Write_buf, Imm 0x8a], Count,
    Syscall NR_write [Reg 0, Write_buf, Imm 0x8a], Count, Syscall NR_write [Reg 0, Write_buf, Imm 0x8a], Count]"

definition min_rocks_write_fcntl_0_0_body59 :: "stmt list" where
  "min_rocks_write_fcntl_0_0_body59 = [
    Syscall NR_write [Reg 0, Write_buf, Imm 0x8a], Count, Syscall NR_write [Reg 0, Write_buf, Imm 0x8a], Count,
    Syscall NR_write [Reg 0, Write_buf, Imm 0x8a], Count, Syscall NR_write [Reg 0, Write_buf, Imm 0x8a], Count,
    Syscall NR_write [Reg 0, Write_buf, Imm 0x8a], Count, Syscall NR_write [Reg 0, Write_buf, Imm 0x8a], Count,
    Syscall NR_write [Reg 0, Write_buf, Imm 0x8a], Count, Syscall NR_write [Reg 0, Write_buf, Imm 0x8a], Count,
    Syscall NR_write [Reg 0, Write_buf, Imm 0x8a], Count, Syscall NR_write [Reg 0, Write_buf, Imm 0x8a], Count,
    Syscall NR_write [Reg 0, Write_buf, Imm 0x8a], Count, Syscall NR_write [Reg 0, Write_buf, Imm 0x8a], Count,
    Syscall NR_write [Reg 0, Write_buf, Imm 0x8a], Count, Syscall NR_write [Reg 0, Write_buf, Imm 0x8a], Count]"

definition min_rocks_write_fcntl_0_0_body60 :: "stmt list" where
  "min_rocks_write_fcntl_0_0_body60 = [
    Syscall NR_write [Reg 0, Write_buf, Imm 0x8a], Count, Syscall NR_write [Reg 0, Write_buf, Imm 0x8a], Count,
    Syscall NR_write [Reg 0, Write_buf, Imm 0x8a], Count, Syscall NR_write [Reg 0, Write_buf, Imm 0x8a], Count,
    Syscall NR_write [Reg 0, Write_buf, Imm 0x8a], Count, Syscall NR_write [Reg 0, Write_buf, Imm 0x8a], Count,
    Syscall NR_write [Reg 0, Write_buf, Imm 0x8a], Count, Syscall NR_write [Reg 0, Write_buf, Imm 0x8a], Count,
    Syscall NR_write [Reg 0, Write_buf, Imm 0x8a], Count, Syscall NR_write [Reg 0, Write_buf, Imm 0x8a], Count,
    Syscall NR_write [Reg 0, Write_buf, Imm 0x8a], Count, Syscall NR_write [Reg 0, Write_buf, Imm 0x8a], Count,
    Syscall NR_write [Reg 0, Write_buf, Imm 0x8a], Count, Syscall NR_write [Reg 0, Write_buf, Imm 0x8a], Count]"

definition min_rocks_write_fcntl_0_0_body61 :: "stmt list" where
  "min_rocks_write_fcntl_0_0_body61 = [
    Syscall NR_write [Reg 0, Write_buf, Imm 0x8a], Count, Syscall NR_write [Reg 0, Write_buf, Imm 0x8a], Count,
    Syscall NR_write [Reg 0, Write_buf, Imm 0x8a], Count, Syscall NR_write [Reg 0, Write_buf, Imm 0x8a], Count,
    Syscall NR_write [Reg 0, Write_buf, Imm 0x8a], Count, Syscall NR_write [Reg 0, Write_buf, Imm 0x8a], Count,
    Syscall NR_write [Reg 0, Write_buf, Imm 0x8a], Count, Syscall NR_write [Reg 0, Write_buf, Imm 0x8a], Count,
    Syscall NR_write [Reg 0, Write_buf, Imm 0x8a], Count, Syscall NR_write [Reg 0, Write_buf, Imm 0x8a], Count,
    Syscall NR_write [Reg 0, Write_buf, Imm 0x8a], Count, Syscall NR_write [Reg 0, Write_buf, Imm 0x8a], Count,
    Syscall NR_write [Reg 0, Write_buf, Imm 0x8a], Count, Syscall NR_write [Reg 0, Write_buf, Imm 0x8a], Count]"

definition min_rocks_write_fcntl_0_0_body62 :: "stmt list" where
  "min_rocks_write_fcntl_0_0_body62 = [
    Syscall NR_write [Reg 0, Write_buf, Imm 0x8a], Count, Syscall NR_write [Reg 0, Write_buf, Imm 0x8a], Count,
    Syscall NR_write [Reg 0, Write_buf, Imm 0x8a], Count, Syscall NR_write [Reg 0, Write_buf, Imm 0x8a], Count,
    Syscall NR_write [Reg 0, Write_buf, Imm 0x8a], Count, Syscall NR_write [Reg 0, Write_buf, Imm 0x8a], Count,
    Syscall NR_write [Reg 0, Write_buf, Imm 0x8a], Count, Syscall NR_write [Reg 0, Write_buf, Imm 0x8a], Count,
    Syscall NR_write [Reg 0, Write_buf, Imm 0x8a], Count, Syscall NR_write [Reg 0, Write_buf, Imm 0x8a], Count,
    Syscall NR_write [Reg 0, Write_buf, Imm 0x8a], Count, Syscall NR_write [Reg 0, Write_buf, Imm 0x8a], Count,
    Syscall NR_write [Reg 0, Write_buf, Imm 0x8a], Count, Syscall NR_write [Reg 0, Write_buf, Imm 0x8a], Count]"

definition min_rocks_write_fcntl_0_0_body63 :: "stmt list" where
  "min_rocks_write_fcntl_0_0_body63 = [
    Syscall NR_write [Reg 0, Write_buf, Imm 0x8a], Count, Syscall NR_write [Reg 0, Write_buf, Imm 0x8a], Count,
    Syscall NR_write [Reg 0, Write_buf, Imm 0x8a], Count, Syscall NR_write [Reg 0, Write_buf, Imm 0x8a], Count,
    Syscall NR_write [Reg 0, Write_buf, Imm 0x8a], Count, Syscall NR_write [Reg 0, Write_buf, Imm 0x8a], Count,
    Syscall NR_write [Reg 0, Write_buf, Imm 0x8a], Count, Syscall NR_write [Reg 0, Write_buf, Imm 0x8a], Count,
    Syscall NR_write [Reg 0, Write_buf, Imm 0x8a], Count, Syscall NR_write [Reg 0, Write_buf, Imm 0x8a], Count,
    Syscall NR_write [Reg 0, Write_buf, Imm 0x8a], Count, Syscall NR_write [Reg 0, Write_buf, Imm 0x8a], Count,
    Syscall NR_write [Reg 0, Write_buf, Imm 0x8a], Count, Syscall NR_write [Reg 0, Write_buf, Imm 0x8a], Count]"

definition min_rocks_write_fcntl_0_0_body64 :: "stmt list" where
  "min_rocks_write_fcntl_0_0_body64 = [
    Syscall NR_write [Reg 0, Write_buf, Imm 0x8a], Count, Syscall NR_write [Reg 0, Write_buf, Imm 0x8a], Count,
    Syscall NR_write [Reg 0, Write_buf, Imm 0x8a], Count, Syscall NR_write [Reg 0, Write_buf, Imm 0x8a], Count,
    Syscall NR_write [Reg 0, Write_buf, Imm 0x8a], Count, Syscall NR_write [Reg 0, Write_buf, Imm 0x8a], Count,
    Syscall NR_write [Reg 0, Write_buf, Imm 0x8a], Count, Syscall NR_write [Reg 0, Write_buf, Imm 0x8a], Count,
    Syscall NR_write [Reg 0, Write_buf, Imm 0x8a], Count, Syscall NR_write [Reg 0, Write_buf, Imm 0x8a], Count,
    Syscall NR_write [Reg 0, Write_buf, Imm 0x8a], Count, Syscall NR_write [Reg 0, Write_buf, Imm 0x8a], Count,
    Syscall NR_write [Reg 0, Write_buf, Imm 0x8a], Count, Syscall NR_write [Reg 0, Write_buf, Imm 0x8a], Count]"

definition min_rocks_write_fcntl_0_0_body65 :: "stmt list" where
  "min_rocks_write_fcntl_0_0_body65 = [
    Syscall NR_write [Reg 0, Write_buf, Imm 0x8a], Count, Syscall NR_write [Reg 0, Write_buf, Imm 0x8a], Count,
    Syscall NR_write [Reg 0, Write_buf, Imm 0x8a], Count, Syscall NR_write [Reg 0, Write_buf, Imm 0x8a], Count,
    Syscall NR_write [Reg 0, Write_buf, Imm 0x8a], Count, Syscall NR_write [Reg 0, Write_buf, Imm 0x8a], Count,
    Syscall NR_write [Reg 0, Write_buf, Imm 0x8a], Count, Syscall NR_write [Reg 0, Write_buf, Imm 0x8a], Count,
    Syscall NR_write [Reg 0, Write_buf, Imm 0x8a], Count, Syscall NR_write [Reg 0, Write_buf, Imm 0x8a], Count,
    Syscall NR_write [Reg 0, Write_buf, Imm 0x8a], Count, Syscall NR_write [Reg 0, Write_buf, Imm 0x8a], Count,
    Syscall NR_write [Reg 0, Write_buf, Imm 0x8a], Count, Syscall NR_write [Reg 0, Write_buf, Imm 0x8a], Count]"

definition min_rocks_write_fcntl_0_0_body66 :: "stmt list" where
  "min_rocks_write_fcntl_0_0_body66 = [
    Syscall NR_write [Reg 0, Write_buf, Imm 0x8a], Count, Syscall NR_write [Reg 0, Write_buf, Imm 0x8a], Count,
    Syscall NR_write [Reg 0, Write_buf, Imm 0x8a], Count, Syscall NR_write [Reg 0, Write_buf, Imm 0x8a], Count,
    Syscall NR_write [Reg 0, Write_buf, Imm 0x8a], Count, Syscall NR_write [Reg 0, Write_buf, Imm 0x8a], Count,
    Syscall NR_write [Reg 0, Write_buf, Imm 0x8a], Count, Syscall NR_write [Reg 0, Write_buf, Imm 0x8a], Count,
    Syscall NR_write [Reg 0, Write_buf, Imm 0x8a], Count, Syscall NR_write [Reg 0, Write_buf, Imm 0x8a], Count,
    Syscall NR_write [Reg 0, Write_buf, Imm 0x8a], Count, Syscall NR_write [Reg 0, Write_buf, Imm 0x8a], Count,
    Syscall NR_write [Reg 0, Write_buf, Imm 0x8a], Count, Syscall NR_write [Reg 0, Write_buf, Imm 0x8a], Count]"

definition min_rocks_write_fcntl_0_0_body67 :: "stmt list" where
  "min_rocks_write_fcntl_0_0_body67 = [
    Syscall NR_write [Reg 0, Write_buf, Imm 0x8a], Count, Syscall NR_write [Reg 0, Write_buf, Imm 0x8a], Count,
    Syscall NR_write [Reg 0, Write_buf, Imm 0x8a], Count, Syscall NR_write [Reg 0, Write_buf, Imm 0x8a], Count,
    Syscall NR_write [Reg 0, Write_buf, Imm 0x8a], Count, Syscall NR_write [Reg 0, Write_buf, Imm 0x8a], Count,
    Syscall NR_write [Reg 0, Write_buf, Imm 0x8a], Count, Syscall NR_write [Reg 0, Write_buf, Imm 0x8a], Count,
    Syscall NR_write [Reg 0, Write_buf, Imm 0x8a], Count, Syscall NR_write [Reg 0, Write_buf, Imm 0x8a], Count,
    Syscall NR_write [Reg 0, Write_buf, Imm 0x8a], Count, Syscall NR_write [Reg 0, Write_buf, Imm 0x8a], Count,
    Syscall NR_write [Reg 0, Write_buf, Imm 0x8a], Count, Syscall NR_write [Reg 0, Write_buf, Imm 0x8a], Count]"

definition min_rocks_write_fcntl_0_0_body68 :: "stmt list" where
  "min_rocks_write_fcntl_0_0_body68 = [
    Syscall NR_write [Reg 0, Write_buf, Imm 0x8a], Count, Syscall NR_write [Reg 0, Write_buf, Imm 0x8a], Count,
    Syscall NR_write [Reg 0, Write_buf, Imm 0x8a], Count, Syscall NR_write [Reg 0, Write_buf, Imm 0x91], Count,
    Syscall NR_write [Reg 0, Write_buf, Imm 0x8a], Count, Syscall NR_write [Reg 0, Write_buf, Imm 0x8a], Count,
    Syscall NR_write [Reg 0, Write_buf, Imm 0x8a], Count, Syscall NR_write [Reg 0, Write_buf, Imm 0x8a], Count,
    Syscall NR_write [Reg 0, Write_buf, Imm 0x8a], Count, Syscall NR_write [Reg 0, Write_buf, Imm 0x8a], Count,
    Syscall NR_write [Reg 0, Write_buf, Imm 0x8a], Count, Syscall NR_write [Reg 0, Write_buf, Imm 0x8a], Count,
    Syscall NR_write [Reg 0, Write_buf, Imm 0x8a], Count, Syscall NR_write [Reg 0, Write_buf, Imm 0x8a], Count]"

definition min_rocks_write_fcntl_0_0_body69 :: "stmt list" where
  "min_rocks_write_fcntl_0_0_body69 = [
    Syscall NR_write [Reg 0, Write_buf, Imm 0x8a], Count, Syscall NR_write [Reg 0, Write_buf, Imm 0x8a], Count,
    Syscall NR_write [Reg 0, Write_buf, Imm 0x8a], Count, Syscall NR_write [Reg 0, Write_buf, Imm 0x8a], Count,
    Syscall NR_write [Reg 0, Write_buf, Imm 0x8a], Count, Syscall NR_write [Reg 0, Write_buf, Imm 0x8a], Count,
    Syscall NR_write [Reg 0, Write_buf, Imm 0x8a], Count, Syscall NR_write [Reg 0, Write_buf, Imm 0x8a], Count,
    Syscall NR_write [Reg 0, Write_buf, Imm 0x8a], Count, Syscall NR_write [Reg 0, Write_buf, Imm 0x8a], Count,
    Syscall NR_write [Reg 0, Write_buf, Imm 0x8a], Count, Syscall NR_write [Reg 0, Write_buf, Imm 0x8a], Count,
    Syscall NR_write [Reg 0, Write_buf, Imm 0x8a], Count, Syscall NR_write [Reg 0, Write_buf, Imm 0x8a], Count]"

definition min_rocks_write_fcntl_0_0_body70 :: "stmt list" where
  "min_rocks_write_fcntl_0_0_body70 = [
    Syscall NR_write [Reg 0, Write_buf, Imm 0x8a], Count, Syscall NR_write [Reg 0, Write_buf, Imm 0x8a], Count,
    Syscall NR_write [Reg 0, Write_buf, Imm 0x8a], Count, Syscall NR_write [Reg 0, Write_buf, Imm 0x8a], Count,
    Syscall NR_write [Reg 0, Write_buf, Imm 0x8a], Count, Syscall NR_write [Reg 0, Write_buf, Imm 0x8a], Count,
    Syscall NR_write [Reg 0, Write_buf, Imm 0x8a], Count, Syscall NR_write [Reg 0, Write_buf, Imm 0x8a], Count,
    Syscall NR_write [Reg 0, Write_buf, Imm 0x8a], Count, Syscall NR_write [Reg 0, Write_buf, Imm 0x8a], Count,
    Syscall NR_write [Reg 0, Write_buf, Imm 0x8a], Count, Syscall NR_write [Reg 0, Write_buf, Imm 0x8a], Count,
    Syscall NR_write [Reg 0, Write_buf, Imm 0x8a], Count, Syscall NR_write [Reg 0, Write_buf, Imm 0x8a], Count]"

definition min_rocks_write_fcntl_0_0_body71 :: "stmt list" where
  "min_rocks_write_fcntl_0_0_body71 = [
    Syscall NR_write [Reg 0, Write_buf, Imm 0x8a], Count, Syscall NR_write [Reg 0, Write_buf, Imm 0x8a], Count,
    Syscall NR_write [Reg 0, Write_buf, Imm 0x8a], Count, Syscall NR_write [Reg 0, Write_buf, Imm 0x8a], Count,
    Syscall NR_write [Reg 0, Write_buf, Imm 0x8a], Count, Syscall NR_write [Reg 0, Write_buf, Imm 0x8a], Count,
    Syscall NR_write [Reg 0, Write_buf, Imm 0x8a], Count, Syscall NR_write [Reg 0, Write_buf, Imm 0x8a], Count,
    Syscall NR_write [Reg 0, Write_buf, Imm 0x8a], Count, Syscall NR_write [Reg 0, Write_buf, Imm 0x8a], Count,
    Syscall NR_write [Reg 0, Write_buf, Imm 0x8a], Count, Syscall NR_write [Reg 0, Write_buf, Imm 0x8a], Count,
    Syscall NR_write [Reg 0, Write_buf, Imm 0x8a], Count, Syscall NR_write [Reg 0, Write_buf, Imm 0x8a], Count]"

definition min_rocks_write_fcntl_0_0_body72 :: "stmt list" where
  "min_rocks_write_fcntl_0_0_body72 = [
    Syscall NR_write [Reg 0, Write_buf, Imm 0x8a], Count, Syscall NR_write [Reg 0, Write_buf, Imm 0x8a], Count,
    Syscall NR_write [Reg 0, Write_buf, Imm 0x8a], Count, Syscall NR_write [Reg 0, Write_buf, Imm 0x8a], Count,
    Syscall NR_write [Reg 0, Write_buf, Imm 0x8a], Count, Syscall NR_write [Reg 0, Write_buf, Imm 0x8a], Count,
    Syscall NR_write [Reg 0, Write_buf, Imm 0x8a], Count, Syscall NR_write [Reg 0, Write_buf, Imm 0x8a], Count,
    Syscall NR_write [Reg 0, Write_buf, Imm 0x8a], Count, Syscall NR_write [Reg 0, Write_buf, Imm 0x8a], Count,
    Syscall NR_write [Reg 0, Write_buf, Imm 0x8a], Count, Syscall NR_write [Reg 0, Write_buf, Imm 0x8a], Count,
    Syscall NR_write [Reg 0, Write_buf, Imm 0x8a], Count, Syscall NR_write [Reg 0, Write_buf, Imm 0x8a], Count]"

definition min_rocks_write_fcntl_0_0_body73 :: "stmt list" where
  "min_rocks_write_fcntl_0_0_body73 = [
    Syscall NR_write [Reg 0, Write_buf, Imm 0x8a], Count, Syscall NR_write [Reg 0, Write_buf, Imm 0x8a], Count,
    Syscall NR_write [Reg 0, Write_buf, Imm 0x8a], Count, Syscall NR_write [Reg 0, Write_buf, Imm 0x8a], Count,
    Syscall NR_write [Reg 0, Write_buf, Imm 0x8a], Count, Syscall NR_write [Reg 0, Write_buf, Imm 0x8a], Count,
    Syscall NR_write [Reg 0, Write_buf, Imm 0x8a], Count, Syscall NR_write [Reg 0, Write_buf, Imm 0x8a], Count,
    Syscall NR_write [Reg 0, Write_buf, Imm 0x8a], Count, Syscall NR_write [Reg 0, Write_buf, Imm 0x8a], Count,
    Syscall NR_write [Reg 0, Write_buf, Imm 0x8a], Count, Syscall NR_write [Reg 0, Write_buf, Imm 0x8a], Count,
    Syscall NR_write [Reg 0, Write_buf, Imm 0x8a], Count, Syscall NR_write [Reg 0, Write_buf, Imm 0x8a], Count]"

definition min_rocks_write_fcntl_0_0_body74 :: "stmt list" where
  "min_rocks_write_fcntl_0_0_body74 = [
    Syscall NR_write [Reg 0, Write_buf, Imm 0x8a], Count, Syscall NR_write [Reg 0, Write_buf, Imm 0x8a], Count,
    Syscall NR_write [Reg 0, Write_buf, Imm 0x8a], Count, Syscall NR_write [Reg 0, Write_buf, Imm 0x8a], Count,
    Syscall NR_write [Reg 0, Write_buf, Imm 0x8a], Count, Syscall NR_write [Reg 0, Write_buf, Imm 0x8a], Count,
    Syscall NR_write [Reg 0, Write_buf, Imm 0x8a], Count, Syscall NR_write [Reg 0, Write_buf, Imm 0x8a], Count,
    Syscall NR_write [Reg 0, Write_buf, Imm 0x8a], Count, Syscall NR_write [Reg 0, Write_buf, Imm 0x8a], Count,
    Syscall NR_write [Reg 0, Write_buf, Imm 0x8a], Count, Syscall NR_write [Reg 0, Write_buf, Imm 0x8a], Count,
    Syscall NR_write [Reg 0, Write_buf, Imm 0x8a], Count, Syscall NR_write [Reg 0, Write_buf, Imm 0x8a], Count]"

definition min_rocks_write_fcntl_0_0_body75 :: "stmt list" where
  "min_rocks_write_fcntl_0_0_body75 = [
    Syscall NR_write [Reg 0, Write_buf, Imm 0x8a], Count, Syscall NR_write [Reg 0, Write_buf, Imm 0x8a], Count,
    Syscall NR_write [Reg 0, Write_buf, Imm 0x8a], Count, Syscall NR_write [Reg 0, Write_buf, Imm 0x8a], Count,
    Syscall NR_write [Reg 0, Write_buf, Imm 0x8a], Count, Syscall NR_write [Reg 0, Write_buf, Imm 0x8a], Count,
    Syscall NR_write [Reg 0, Write_buf, Imm 0x8a], Count, Syscall NR_write [Reg 0, Write_buf, Imm 0x8a], Count,
    Syscall NR_write [Reg 0, Write_buf, Imm 0x8a], Count, Syscall NR_write [Reg 0, Write_buf, Imm 0x8a], Count,
    Syscall NR_write [Reg 0, Write_buf, Imm 0x8a], Count, Syscall NR_write [Reg 0, Write_buf, Imm 0x8a], Count,
    Syscall NR_write [Reg 0, Write_buf, Imm 0x8a], Count, Syscall NR_write [Reg 0, Write_buf, Imm 0x8a], Count]"

definition min_rocks_write_fcntl_0_0_body76 :: "stmt list" where
  "min_rocks_write_fcntl_0_0_body76 = [
    Syscall NR_write [Reg 0, Write_buf, Imm 0x8a], Count, Syscall NR_write [Reg 0, Write_buf, Imm 0x8a], Count,
    Syscall NR_write [Reg 0, Write_buf, Imm 0x8a], Count, Syscall NR_write [Reg 0, Write_buf, Imm 0x8a], Count,
    Syscall NR_write [Reg 0, Write_buf, Imm 0x8a], Count, Syscall NR_write [Reg 0, Write_buf, Imm 0x8a], Count,
    Syscall NR_write [Reg 0, Write_buf, Imm 0x8a], Count, Syscall NR_write [Reg 0, Write_buf, Imm 0x8a], Count,
    Syscall NR_write [Reg 0, Write_buf, Imm 0x8a], Count, Syscall NR_write [Reg 0, Write_buf, Imm 0x8a], Count,
    Syscall NR_write [Reg 0, Write_buf, Imm 0x8a], Count, Syscall NR_write [Reg 0, Write_buf, Imm 0x8a], Count,
    Syscall NR_write [Reg 0, Write_buf, Imm 0x8a], Count, Syscall NR_write [Reg 0, Write_buf, Imm 0x8a], Count]"

definition min_rocks_write_fcntl_0_0_body77 :: "stmt list" where
  "min_rocks_write_fcntl_0_0_body77 = [
    Syscall NR_write [Reg 0, Write_buf, Imm 0x8a], Count, Syscall NR_write [Reg 0, Write_buf, Imm 0x8a], Count,
    Syscall NR_write [Reg 0, Write_buf, Imm 0x8a], Count, Syscall NR_write [Reg 0, Write_buf, Imm 0x8a], Count,
    Syscall NR_write [Reg 0, Write_buf, Imm 0x8a], Count, Syscall NR_write [Reg 0, Write_buf, Imm 0x8a], Count,
    Syscall NR_write [Reg 0, Write_buf, Imm 0x8a], Count, Syscall NR_write [Reg 0, Write_buf, Imm 0x8a], Count,
    Syscall NR_write [Reg 0, Write_buf, Imm 0x8a], Count, Syscall NR_write [Reg 0, Write_buf, Imm 0x8a], Count,
    Syscall NR_write [Reg 0, Write_buf, Imm 0x8a], Count, Syscall NR_write [Reg 0, Write_buf, Imm 0x8a], Count,
    Syscall NR_write [Reg 0, Write_buf, Imm 0x8a], Count, Syscall NR_write [Reg 0, Write_buf, Imm 0x8a], Count]"

definition min_rocks_write_fcntl_0_0_body78 :: "stmt list" where
  "min_rocks_write_fcntl_0_0_body78 = [
    Syscall NR_write [Reg 0, Write_buf, Imm 0x8a], Count, Syscall NR_write [Reg 0, Write_buf, Imm 0x8a], Count,
    Syscall NR_write [Reg 0, Write_buf, Imm 0x8a], Count, Syscall NR_write [Reg 0, Write_buf, Imm 0x8a], Count,
    Syscall NR_write [Reg 0, Write_buf, Imm 0x8a], Count, Syscall NR_write [Reg 0, Write_buf, Imm 0x8a], Count,
    Syscall NR_write [Reg 0, Write_buf, Imm 0x8a], Count, Syscall NR_write [Reg 0, Write_buf, Imm 0x8a], Count,
    Syscall NR_write [Reg 0, Write_buf, Imm 0x8a], Count, Syscall NR_write [Reg 0, Write_buf, Imm 0x8a], Count,
    Syscall NR_write [Reg 0, Write_buf, Imm 0x8a], Count, Syscall NR_write [Reg 0, Write_buf, Imm 0x8a], Count,
    Syscall NR_write [Reg 0, Write_buf, Imm 0x8a], Count, Syscall NR_write [Reg 0, Write_buf, Imm 0x8a], Count]"

definition min_rocks_write_fcntl_0_0_body79 :: "stmt list" where
  "min_rocks_write_fcntl_0_0_body79 = [
    Syscall NR_write [Reg 0, Write_buf, Imm 0x8a], Count, Syscall NR_write [Reg 0, Write_buf, Imm 0x8a], Count,
    Syscall NR_write [Reg 0, Write_buf, Imm 0x8a], Count, Syscall NR_write [Reg 0, Write_buf, Imm 0x8a], Count,
    Syscall NR_write [Reg 0, Write_buf, Imm 0x8a], Count, Syscall NR_write [Reg 0, Write_buf, Imm 0x8a], Count,
    Syscall NR_write [Reg 0, Write_buf, Imm 0x8a], Count, Syscall NR_write [Reg 0, Write_buf, Imm 0x8a], Count,
    Syscall NR_write [Reg 0, Write_buf, Imm 0x8a], Count, Syscall NR_write [Reg 0, Write_buf, Imm 0x8a], Count,
    Syscall NR_write [Reg 0, Write_buf, Imm 0x8a], Count, Syscall NR_write [Reg 0, Write_buf, Imm 0x8a], Count,
    Syscall NR_write [Reg 0, Write_buf, Imm 0x8a], Count, Syscall NR_write [Reg 0, Write_buf, Imm 0x8a], Count]"

definition min_rocks_write_fcntl_0_0_body80 :: "stmt list" where
  "min_rocks_write_fcntl_0_0_body80 = [
    Syscall NR_write [Reg 0, Write_buf, Imm 0x8a], Count, Syscall NR_write [Reg 0, Write_buf, Imm 0x8a], Count,
    Syscall NR_write [Reg 0, Write_buf, Imm 0x8a], Count, Syscall NR_write [Reg 0, Write_buf, Imm 0x8a], Count,
    Syscall NR_write [Reg 0, Write_buf, Imm 0x8a], Count, Syscall NR_write [Reg 0, Write_buf, Imm 0x8a], Count,
    Syscall NR_write [Reg 0, Write_buf, Imm 0x8a], Count, Syscall NR_write [Reg 0, Write_buf, Imm 0x8a], Count,
    Syscall NR_write [Reg 0, Write_buf, Imm 0x8a], Count, Syscall NR_write [Reg 0, Write_buf, Imm 0x8a], Count,
    Syscall NR_write [Reg 0, Write_buf, Imm 0x8a], Count, Syscall NR_write [Reg 0, Write_buf, Imm 0x8a], Count,
    Syscall NR_write [Reg 0, Write_buf, Imm 0x8a], Count, Syscall NR_write [Reg 0, Write_buf, Imm 0x8a], Count]"

definition min_rocks_write_fcntl_0_0_body81 :: "stmt list" where
  "min_rocks_write_fcntl_0_0_body81 = [
    Syscall NR_write [Reg 0, Write_buf, Imm 0x8a], Count, Syscall NR_write [Reg 0, Write_buf, Imm 0x8a], Count,
    Syscall NR_write [Reg 0, Write_buf, Imm 0x8a], Count, Syscall NR_write [Reg 0, Write_buf, Imm 0x8a], Count,
    Syscall NR_write [Reg 0, Write_buf, Imm 0x8a], Count, Syscall NR_write [Reg 0, Write_buf, Imm 0x8a], Count,
    Syscall NR_write [Reg 0, Write_buf, Imm 0x8a], Count, Syscall NR_write [Reg 0, Write_buf, Imm 0x8a], Count,
    Syscall NR_write [Reg 0, Write_buf, Imm 0x8a], Count, Syscall NR_write [Reg 0, Write_buf, Imm 0x8a], Count,
    Syscall NR_write [Reg 0, Write_buf, Imm 0x8a], Count, Syscall NR_write [Reg 0, Write_buf, Imm 0x8a], Count,
    Syscall NR_write [Reg 0, Write_buf, Imm 0x8a], Count, Syscall NR_write [Reg 0, Write_buf, Imm 0x8a], Count]"

definition min_rocks_write_fcntl_0_0_body82 :: "stmt list" where
  "min_rocks_write_fcntl_0_0_body82 = [
    Syscall NR_write [Reg 0, Write_buf, Imm 0x8a], Count, Syscall NR_write [Reg 0, Write_buf, Imm 0x8a], Count,
    Syscall NR_write [Reg 0, Write_buf, Imm 0x8a], Count, Syscall NR_write [Reg 0, Write_buf, Imm 0x8a], Count,
    Syscall NR_write [Reg 0, Write_buf, Imm 0x8a], Count, Syscall NR_write [Reg 0, Write_buf, Imm 0x8a], Count,
    Syscall NR_write [Reg 0, Write_buf, Imm 0x8a], Count, Syscall NR_write [Reg 0, Write_buf, Imm 0x8a], Count,
    Syscall NR_write [Reg 0, Write_buf, Imm 0x8a], Count, Syscall NR_write [Reg 0, Write_buf, Imm 0x8a], Count,
    Syscall NR_write [Reg 0, Write_buf, Imm 0x8a], Count, Syscall NR_write [Reg 0, Write_buf, Imm 0x8a], Count,
    Syscall NR_write [Reg 0, Write_buf, Imm 0x8a], Count, Syscall NR_write [Reg 0, Write_buf, Imm 0x8a], Count]"

definition min_rocks_write_fcntl_0_0_body83 :: "stmt list" where
  "min_rocks_write_fcntl_0_0_body83 = [
    Syscall NR_write [Reg 0, Write_buf, Imm 0x8a], Count, Syscall NR_write [Reg 0, Write_buf, Imm 0x8a], Count,
    Syscall NR_write [Reg 0, Write_buf, Imm 0x8a], Count, Syscall NR_write [Reg 0, Write_buf, Imm 0x8a], Count,
    Syscall NR_write [Reg 0, Write_buf, Imm 0x8a], Count, Syscall NR_write [Reg 0, Write_buf, Imm 0x8a], Count,
    Syscall NR_write [Reg 0, Write_buf, Imm 0x8a], Count, Syscall NR_write [Reg 0, Write_buf, Imm 0x8a], Count,
    Syscall NR_write [Reg 0, Write_buf, Imm 0x8a], Count, Syscall NR_write [Reg 0, Write_buf, Imm 0x8a], Count,
    Syscall NR_write [Reg 0, Write_buf, Imm 0x8a], Count, Syscall NR_write [Reg 0, Write_buf, Imm 0x8a], Count,
    Syscall NR_write [Reg 0, Write_buf, Imm 0x8a], Count, Syscall NR_write [Reg 0, Write_buf, Imm 0x8a], Count]"

definition min_rocks_write_fcntl_0_0_body84 :: "stmt list" where
  "min_rocks_write_fcntl_0_0_body84 = [
    Syscall NR_write [Reg 0, Write_buf, Imm 0x8a], Count, Syscall NR_write [Reg 0, Write_buf, Imm 0x8a], Count,
    Syscall NR_write [Reg 0, Write_buf, Imm 0x8a], Count, Syscall NR_write [Reg 0, Write_buf, Imm 0x8a], Count,
    Syscall NR_write [Reg 0, Write_buf, Imm 0x8a], Count, Syscall NR_write [Reg 0, Write_buf, Imm 0x8a], Count,
    Syscall NR_write [Reg 0, Write_buf, Imm 0x8a], Count, Syscall NR_write [Reg 0, Write_buf, Imm 0x8a], Count,
    Syscall NR_write [Reg 0, Write_buf, Imm 0x8a], Count, Syscall NR_write [Reg 0, Write_buf, Imm 0x8a], Count,
    Syscall NR_write [Reg 0, Write_buf, Imm 0x8a], Count, Syscall NR_write [Reg 0, Write_buf, Imm 0x8a], Count,
    Syscall NR_write [Reg 0, Write_buf, Imm 0x8a], Count, Syscall NR_write [Reg 0, Write_buf, Imm 0x8a], Count]"

definition min_rocks_write_fcntl_0_0_body85 :: "stmt list" where
  "min_rocks_write_fcntl_0_0_body85 = [
    Syscall NR_write [Reg 0, Write_buf, Imm 0x8a], Count, Syscall NR_write [Reg 0, Write_buf, Imm 0x8a], Count,
    Syscall NR_write [Reg 0, Write_buf, Imm 0x8a], Count, Syscall NR_write [Reg 0, Write_buf, Imm 0x91], Count,
    Syscall NR_write [Reg 0, Write_buf, Imm 0x8a], Count, Syscall NR_write [Reg 0, Write_buf, Imm 0x8a], Count,
    Syscall NR_write [Reg 0, Write_buf, Imm 0x8a], Count, Syscall NR_write [Reg 0, Write_buf, Imm 0x8a], Count,
    Syscall NR_write [Reg 0, Write_buf, Imm 0x8a], Count, Syscall NR_write [Reg 0, Write_buf, Imm 0x8a], Count,
    Syscall NR_write [Reg 0, Write_buf, Imm 0x8a], Count, Syscall NR_write [Reg 0, Write_buf, Imm 0x8a], Count,
    Syscall NR_write [Reg 0, Write_buf, Imm 0x8a], Count, Syscall NR_write [Reg 0, Write_buf, Imm 0x8a], Count]"

definition min_rocks_write_fcntl_0_0_body86 :: "stmt list" where
  "min_rocks_write_fcntl_0_0_body86 = [
    Syscall NR_write [Reg 0, Write_buf, Imm 0x8a], Count, Syscall NR_write [Reg 0, Write_buf, Imm 0x8a], Count,
    Syscall NR_write [Reg 0, Write_buf, Imm 0x8a], Count, Syscall NR_write [Reg 0, Write_buf, Imm 0x8a], Count,
    Syscall NR_write [Reg 0, Write_buf, Imm 0x8a], Count, Syscall NR_write [Reg 0, Write_buf, Imm 0x8a], Count,
    Syscall NR_write [Reg 0, Write_buf, Imm 0x8a], Count, Syscall NR_write [Reg 0, Write_buf, Imm 0x8a], Count,
    Syscall NR_write [Reg 0, Write_buf, Imm 0x8a], Count, Syscall NR_write [Reg 0, Write_buf, Imm 0x8a], Count,
    Syscall NR_write [Reg 0, Write_buf, Imm 0x8a], Count, Syscall NR_write [Reg 0, Write_buf, Imm 0x8a], Count,
    Syscall NR_write [Reg 0, Write_buf, Imm 0x8a], Count, Syscall NR_write [Reg 0, Write_buf, Imm 0x8a], Count]"

definition min_rocks_write_fcntl_0_0_body87 :: "stmt list" where
  "min_rocks_write_fcntl_0_0_body87 = [
    Syscall NR_write [Reg 0, Write_buf, Imm 0x8a], Count, Syscall NR_write [Reg 0, Write_buf, Imm 0x8a], Count,
    Syscall NR_write [Reg 0, Write_buf, Imm 0x8a], Count, Syscall NR_write [Reg 0, Write_buf, Imm 0x8a], Count,
    Syscall NR_write [Reg 0, Write_buf, Imm 0x8a], Count, Syscall NR_write [Reg 0, Write_buf, Imm 0x8a], Count,
    Syscall NR_write [Reg 0, Write_buf, Imm 0x8a], Count, Syscall NR_write [Reg 0, Write_buf, Imm 0x8a], Count,
    Syscall NR_write [Reg 0, Write_buf, Imm 0x8a], Count, Syscall NR_write [Reg 0, Write_buf, Imm 0x8a], Count,
    Syscall NR_write [Reg 0, Write_buf, Imm 0x8a], Count, Syscall NR_write [Reg 0, Write_buf, Imm 0x8a], Count,
    Syscall NR_write [Reg 0, Write_buf, Imm 0x8a], Count, Syscall NR_write [Reg 0, Write_buf, Imm 0x8a], Count]"

definition min_rocks_write_fcntl_0_0_body88 :: "stmt list" where
  "min_rocks_write_fcntl_0_0_body88 = [
    Syscall NR_write [Reg 0, Write_buf, Imm 0x8a], Count, Syscall NR_write [Reg 0, Write_buf, Imm 0x8a], Count,
    Syscall NR_write [Reg 0, Write_buf, Imm 0x8a], Count, Syscall NR_write [Reg 0, Write_buf, Imm 0x8a], Count,
    Syscall NR_write [Reg 0, Write_buf, Imm 0x8a], Count, Syscall NR_write [Reg 0, Write_buf, Imm 0x8a], Count,
    Syscall NR_write [Reg 0, Write_buf, Imm 0x8a], Count, Syscall NR_write [Reg 0, Write_buf, Imm 0x8a], Count,
    Syscall NR_write [Reg 0, Write_buf, Imm 0x8a], Count, Syscall NR_write [Reg 0, Write_buf, Imm 0x8a], Count,
    Syscall NR_write [Reg 0, Write_buf, Imm 0x8a], Count, Syscall NR_write [Reg 0, Write_buf, Imm 0x8a], Count,
    Syscall NR_write [Reg 0, Write_buf, Imm 0x8a], Count, Syscall NR_write [Reg 0, Write_buf, Imm 0x8a], Count]"

definition min_rocks_write_fcntl_0_0_body89 :: "stmt list" where
  "min_rocks_write_fcntl_0_0_body89 = [
    Syscall NR_write [Reg 0, Write_buf, Imm 0x8a], Count, Syscall NR_write [Reg 0, Write_buf, Imm 0x8a], Count,
    Syscall NR_write [Reg 0, Write_buf, Imm 0x8a], Count, Syscall NR_write [Reg 0, Write_buf, Imm 0x8a], Count,
    Syscall NR_write [Reg 0, Write_buf, Imm 0x8a], Count, Syscall NR_write [Reg 0, Write_buf, Imm 0x8a], Count,
    Syscall NR_write [Reg 0, Write_buf, Imm 0x8a], Count, Syscall NR_write [Reg 0, Write_buf, Imm 0x8a], Count,
    Syscall NR_write [Reg 0, Write_buf, Imm 0x8a], Count, Syscall NR_write [Reg 0, Write_buf, Imm 0x8a], Count,
    Syscall NR_write [Reg 0, Write_buf, Imm 0x8a], Count, Syscall NR_write [Reg 0, Write_buf, Imm 0x8a], Count,
    Syscall NR_write [Reg 0, Write_buf, Imm 0x8a], Count, Syscall NR_write [Reg 0, Write_buf, Imm 0x8a], Count]"

definition min_rocks_write_fcntl_0_0_body90 :: "stmt list" where
  "min_rocks_write_fcntl_0_0_body90 = [
    Syscall NR_write [Reg 0, Write_buf, Imm 0x8a], Count, Syscall NR_write [Reg 0, Write_buf, Imm 0x8a], Count,
    Syscall NR_write [Reg 0, Write_buf, Imm 0x8a], Count, Syscall NR_write [Reg 0, Write_buf, Imm 0x8a], Count,
    Syscall NR_write [Reg 0, Write_buf, Imm 0x8a], Count, Syscall NR_write [Reg 0, Write_buf, Imm 0x8a], Count,
    Syscall NR_write [Reg 0, Write_buf, Imm 0x8a], Count, Syscall NR_write [Reg 0, Write_buf, Imm 0x8a], Count,
    Syscall NR_write [Reg 0, Write_buf, Imm 0x8a], Count, Syscall NR_write [Reg 0, Write_buf, Imm 0x8a], Count,
    Syscall NR_write [Reg 0, Write_buf, Imm 0x8a], Count, Syscall NR_write [Reg 0, Write_buf, Imm 0x8a], Count,
    Syscall NR_write [Reg 0, Write_buf, Imm 0x8a], Count, Syscall NR_write [Reg 0, Write_buf, Imm 0x8a], Count]"

definition min_rocks_write_fcntl_0_0_body91 :: "stmt list" where
  "min_rocks_write_fcntl_0_0_body91 = [
    Syscall NR_write [Reg 0, Write_buf, Imm 0x8a], Count, Syscall NR_write [Reg 0, Write_buf, Imm 0x8a], Count,
    Syscall NR_write [Reg 0, Write_buf, Imm 0x8a], Count, Syscall NR_write [Reg 0, Write_buf, Imm 0x8a], Count,
    Syscall NR_write [Reg 0, Write_buf, Imm 0x8a], Count, Syscall NR_write [Reg 0, Write_buf, Imm 0x8a], Count,
    Syscall NR_write [Reg 0, Write_buf, Imm 0x8a], Count, Syscall NR_write [Reg 0, Write_buf, Imm 0x8a], Count,
    Syscall NR_write [Reg 0, Write_buf, Imm 0x8a], Count, Syscall NR_write [Reg 0, Write_buf, Imm 0x8a], Count,
    Syscall NR_write [Reg 0, Write_buf, Imm 0x8a], Count, Syscall NR_write [Reg 0, Write_buf, Imm 0x8a], Count,
    Syscall NR_write [Reg 0, Write_buf, Imm 0x8a], Count, Syscall NR_write [Reg 0, Write_buf, Imm 0x8a], Count]"

definition min_rocks_write_fcntl_0_0_body92 :: "stmt list" where
  "min_rocks_write_fcntl_0_0_body92 = [
    Syscall NR_write [Reg 0, Write_buf, Imm 0x8a], Count, Syscall NR_write [Reg 0, Write_buf, Imm 0x8a], Count,
    Syscall NR_write [Reg 0, Write_buf, Imm 0x8a], Count, Syscall NR_write [Reg 0, Write_buf, Imm 0x8a], Count,
    Syscall NR_write [Reg 0, Write_buf, Imm 0x8a], Count, Syscall NR_write [Reg 0, Write_buf, Imm 0x8a], Count,
    Syscall NR_write [Reg 0, Write_buf, Imm 0x8a], Count, Syscall NR_write [Reg 0, Write_buf, Imm 0x8a], Count,
    Syscall NR_write [Reg 0, Write_buf, Imm 0x8a], Count, Syscall NR_write [Reg 0, Write_buf, Imm 0x8a], Count,
    Syscall NR_write [Reg 0, Write_buf, Imm 0x8a], Count, Syscall NR_write [Reg 0, Write_buf, Imm 0x8a], Count,
    Syscall NR_write [Reg 0, Write_buf, Imm 0x8a], Count, Syscall NR_write [Reg 0, Write_buf, Imm 0x8a], Count]"

definition min_rocks_write_fcntl_0_0_body93 :: "stmt list" where
  "min_rocks_write_fcntl_0_0_body93 = [
    Syscall NR_write [Reg 0, Write_buf, Imm 0x8a], Count, Syscall NR_write [Reg 0, Write_buf, Imm 0x8a], Count,
    Syscall NR_write [Reg 0, Write_buf, Imm 0x8a], Count, Syscall NR_write [Reg 0, Write_buf, Imm 0x8a], Count,
    Syscall NR_write [Reg 0, Write_buf, Imm 0x8a], Count, Syscall NR_write [Reg 0, Write_buf, Imm 0x8a], Count,
    Syscall NR_write [Reg 0, Write_buf, Imm 0x8a], Count, Syscall NR_write [Reg 0, Write_buf, Imm 0x8a], Count,
    Syscall NR_write [Reg 0, Write_buf, Imm 0x8a], Count, Syscall NR_write [Reg 0, Write_buf, Imm 0x8a], Count,
    Syscall NR_write [Reg 0, Write_buf, Imm 0x8a], Count, Syscall NR_write [Reg 0, Write_buf, Imm 0x8a], Count,
    Syscall NR_write [Reg 0, Write_buf, Imm 0x8a], Count, Syscall NR_write [Reg 0, Write_buf, Imm 0x8a], Count]"

definition min_rocks_write_fcntl_0_0_body94 :: "stmt list" where
  "min_rocks_write_fcntl_0_0_body94 = [
    Syscall NR_write [Reg 0, Write_buf, Imm 0x8a], Count, Syscall NR_write [Reg 0, Write_buf, Imm 0x8a], Count,
    Syscall NR_write [Reg 0, Write_buf, Imm 0x8a], Count, Syscall NR_write [Reg 0, Write_buf, Imm 0x8a], Count,
    Syscall NR_write [Reg 0, Write_buf, Imm 0x8a], Count, Syscall NR_write [Reg 0, Write_buf, Imm 0x8a], Count,
    Syscall NR_write [Reg 0, Write_buf, Imm 0x8a], Count, Syscall NR_write [Reg 0, Write_buf, Imm 0x8a], Count,
    Syscall NR_write [Reg 0, Write_buf, Imm 0x8a], Count, Syscall NR_write [Reg 0, Write_buf, Imm 0x8a], Count,
    Syscall NR_write [Reg 0, Write_buf, Imm 0x8a], Count, Syscall NR_write [Reg 0, Write_buf, Imm 0x8a], Count,
    Syscall NR_write [Reg 0, Write_buf, Imm 0x8a], Count, Syscall NR_write [Reg 0, Write_buf, Imm 0x8a], Count]"

definition min_rocks_write_fcntl_0_0_body95 :: "stmt list" where
  "min_rocks_write_fcntl_0_0_body95 = [
    Syscall NR_write [Reg 0, Write_buf, Imm 0x8a], Count, Syscall NR_write [Reg 0, Write_buf, Imm 0x8a], Count,
    Syscall NR_write [Reg 0, Write_buf, Imm 0x8a], Count, Syscall NR_write [Reg 0, Write_buf, Imm 0x8a], Count,
    Syscall NR_write [Reg 0, Write_buf, Imm 0x8a], Count, Syscall NR_write [Reg 0, Write_buf, Imm 0x8a], Count,
    Syscall NR_write [Reg 0, Write_buf, Imm 0x8a], Count, Syscall NR_write [Reg 0, Write_buf, Imm 0x8a], Count,
    Syscall NR_write [Reg 0, Write_buf, Imm 0x8a], Count, Syscall NR_write [Reg 0, Write_buf, Imm 0x8a], Count,
    Syscall NR_write [Reg 0, Write_buf, Imm 0x8a], Count, Syscall NR_write [Reg 0, Write_buf, Imm 0x8a], Count,
    Syscall NR_write [Reg 0, Write_buf, Imm 0x8a], Count, Syscall NR_write [Reg 0, Write_buf, Imm 0x8a], Count]"

definition min_rocks_write_fcntl_0_0_body96 :: "stmt list" where
  "min_rocks_write_fcntl_0_0_body96 = [
    Syscall NR_write [Reg 0, Write_buf, Imm 0x8a], Count, Syscall NR_write [Reg 0, Write_buf, Imm 0x8a], Count,
    Syscall NR_write [Reg 0, Write_buf, Imm 0x8a], Count, Syscall NR_write [Reg 0, Write_buf, Imm 0x8a], Count,
    Syscall NR_write [Reg 0, Write_buf, Imm 0x8a], Count, Syscall NR_write [Reg 0, Write_buf, Imm 0x8a], Count,
    Syscall NR_write [Reg 0, Write_buf, Imm 0x8a], Count, Syscall NR_write [Reg 0, Write_buf, Imm 0x8a], Count,
    Syscall NR_write [Reg 0, Write_buf, Imm 0x8a], Count, Syscall NR_write [Reg 0, Write_buf, Imm 0x8a], Count,
    Syscall NR_write [Reg 0, Write_buf, Imm 0x8a], Count, Syscall NR_write [Reg 0, Write_buf, Imm 0x8a], Count,
    Syscall NR_write [Reg 0, Write_buf, Imm 0x8a], Count, Syscall NR_write [Reg 0, Write_buf, Imm 0x8a], Count]"

definition min_rocks_write_fcntl_0_0_body97 :: "stmt list" where
  "min_rocks_write_fcntl_0_0_body97 = [
    Syscall NR_write [Reg 0, Write_buf, Imm 0x8a], Count, Syscall NR_write [Reg 0, Write_buf, Imm 0x8a], Count,
    Syscall NR_write [Reg 0, Write_buf, Imm 0x8a], Count, Syscall NR_write [Reg 0, Write_buf, Imm 0x8a], Count,
    Syscall NR_write [Reg 0, Write_buf, Imm 0x8a], Count, Syscall NR_write [Reg 0, Write_buf, Imm 0x8a], Count,
    Syscall NR_write [Reg 0, Write_buf, Imm 0x8a], Count, Syscall NR_write [Reg 0, Write_buf, Imm 0x8a], Count,
    Syscall NR_write [Reg 0, Write_buf, Imm 0x8a], Count, Syscall NR_write [Reg 0, Write_buf, Imm 0x8a], Count,
    Syscall NR_write [Reg 0, Write_buf, Imm 0x8a], Count, Syscall NR_write [Reg 0, Write_buf, Imm 0x8a], Count,
    Syscall NR_write [Reg 0, Write_buf, Imm 0x8a], Count, Syscall NR_write [Reg 0, Write_buf, Imm 0x8a], Count]"

definition min_rocks_write_fcntl_0_0_body98 :: "stmt list" where
  "min_rocks_write_fcntl_0_0_body98 = [
    Syscall NR_write [Reg 0, Write_buf, Imm 0x8a], Count, Syscall NR_write [Reg 0, Write_buf, Imm 0x8a], Count,
    Syscall NR_write [Reg 0, Write_buf, Imm 0x8a], Count, Syscall NR_write [Reg 0, Write_buf, Imm 0x8a], Count,
    Syscall NR_write [Reg 0, Write_buf, Imm 0x8a], Count, Syscall NR_write [Reg 0, Write_buf, Imm 0x8a], Count,
    Syscall NR_write [Reg 0, Write_buf, Imm 0x8a], Count, Syscall NR_write [Reg 0, Write_buf, Imm 0x8a], Count,
    Syscall NR_write [Reg 0, Write_buf, Imm 0x8a], Count, Syscall NR_write [Reg 0, Write_buf, Imm 0x8a], Count,
    Syscall NR_write [Reg 0, Write_buf, Imm 0x8a], Count, Syscall NR_write [Reg 0, Write_buf, Imm 0x8a], Count,
    Syscall NR_write [Reg 0, Write_buf, Imm 0x8a], Count, Syscall NR_write [Reg 0, Write_buf, Imm 0x8a], Count]"

definition min_rocks_write_fcntl_0_0_body99 :: "stmt list" where
  "min_rocks_write_fcntl_0_0_body99 = [
    Syscall NR_write [Reg 0, Write_buf, Imm 0x8a], Count, Syscall NR_write [Reg 0, Write_buf, Imm 0x8a], Count,
    Syscall NR_write [Reg 0, Write_buf, Imm 0x8a], Count, Syscall NR_write [Reg 0, Write_buf, Imm 0x8a], Count,
    Syscall NR_write [Reg 0, Write_buf, Imm 0x8a], Count, Syscall NR_write [Reg 0, Write_buf, Imm 0x8a], Count,
    Syscall NR_write [Reg 0, Write_buf, Imm 0x8a], Count, Syscall NR_write [Reg 0, Write_buf, Imm 0x8a], Count,
    Syscall NR_write [Reg 0, Write_buf, Imm 0x8a], Count, Syscall NR_write [Reg 0, Write_buf, Imm 0x8a], Count,
    Syscall NR_write [Reg 0, Write_buf, Imm 0x8a], Count, Syscall NR_write [Reg 0, Write_buf, Imm 0x8a], Count,
    Syscall NR_write [Reg 0, Write_buf, Imm 0x8a], Count, Syscall NR_write [Reg 0, Write_buf, Imm 0x8a], Count]"

definition min_rocks_write_fcntl_0_0_body100 :: "stmt list" where
  "min_rocks_write_fcntl_0_0_body100 = [
    Syscall NR_write [Reg 0, Write_buf, Imm 0x8a], Count, Syscall NR_write [Reg 0, Write_buf, Imm 0x8a], Count,
    Syscall NR_write [Reg 0, Write_buf, Imm 0x8a], Count, Syscall NR_write [Reg 0, Write_buf, Imm 0x8a], Count,
    Syscall NR_write [Reg 0, Write_buf, Imm 0x8a], Count, Syscall NR_write [Reg 0, Write_buf, Imm 0x8a], Count,
    Syscall NR_write [Reg 0, Write_buf, Imm 0x8a], Count, Syscall NR_write [Reg 0, Write_buf, Imm 0x8a], Count,
    Syscall NR_write [Reg 0, Write_buf, Imm 0x8a], Count, Syscall NR_write [Reg 0, Write_buf, Imm 0x8a], Count,
    Syscall NR_write [Reg 0, Write_buf, Imm 0x8a], Count, Syscall NR_write [Reg 0, Write_buf, Imm 0x8a], Count,
    Syscall NR_write [Reg 0, Write_buf, Imm 0x8a], Count, Syscall NR_write [Reg 0, Write_buf, Imm 0x8a], Count]"

definition min_rocks_write_fcntl_0_0_body101 :: "stmt list" where
  "min_rocks_write_fcntl_0_0_body101 = [
    Syscall NR_write [Reg 0, Write_buf, Imm 0x8a], Count, Syscall NR_write [Reg 0, Write_buf, Imm 0x8a], Count,
    Syscall NR_write [Reg 0, Write_buf, Imm 0x8a], Count, Syscall NR_write [Reg 0, Write_buf, Imm 0x8a], Count,
    Syscall NR_write [Reg 0, Write_buf, Imm 0x8a], Count, Syscall NR_write [Reg 0, Write_buf, Imm 0x8a], Count,
    Syscall NR_write [Reg 0, Write_buf, Imm 0x8a], Count, Syscall NR_write [Reg 0, Write_buf, Imm 0x8a], Count,
    Syscall NR_write [Reg 0, Write_buf, Imm 0x8a], Count, Syscall NR_write [Reg 0, Write_buf, Imm 0x8a], Count,
    Syscall NR_write [Reg 0, Write_buf, Imm 0x8a], Count, Syscall NR_write [Reg 0, Write_buf, Imm 0x8a], Count,
    Syscall NR_write [Reg 0, Write_buf, Imm 0x8a], Count, Syscall NR_write [Reg 0, Write_buf, Imm 0x8a], Count]"

definition min_rocks_write_fcntl_0_0_body102 :: "stmt list" where
  "min_rocks_write_fcntl_0_0_body102 = [
    Syscall NR_write [Reg 0, Write_buf, Imm 0x8a], Count, Syscall NR_write [Reg 0, Write_buf, Imm 0x8a], Count,
    Syscall NR_write [Reg 0, Write_buf, Imm 0x91], Count, Syscall NR_write [Reg 0, Write_buf, Imm 0x8a], Count,
    Syscall NR_write [Reg 0, Write_buf, Imm 0x8a], Count, Syscall NR_write [Reg 0, Write_buf, Imm 0x8a], Count,
    Syscall NR_write [Reg 0, Write_buf, Imm 0x8a], Count, Syscall NR_write [Reg 0, Write_buf, Imm 0x8a], Count,
    Syscall NR_write [Reg 0, Write_buf, Imm 0x8a], Count, Syscall NR_write [Reg 0, Write_buf, Imm 0x8a], Count,
    Syscall NR_write [Reg 0, Write_buf, Imm 0x8a], Count, Syscall NR_write [Reg 0, Write_buf, Imm 0x8a], Count,
    Syscall NR_write [Reg 0, Write_buf, Imm 0x8a], Count, Syscall NR_write [Reg 0, Write_buf, Imm 0x8a], Count]"

definition min_rocks_write_fcntl_0_0_body103 :: "stmt list" where
  "min_rocks_write_fcntl_0_0_body103 = [
    Syscall NR_write [Reg 0, Write_buf, Imm 0x8a], Count, Syscall NR_write [Reg 0, Write_buf, Imm 0x8a], Count,
    Syscall NR_write [Reg 0, Write_buf, Imm 0x8a], Count, Syscall NR_write [Reg 0, Write_buf, Imm 0x8a], Count,
    Syscall NR_write [Reg 0, Write_buf, Imm 0x8a], Count, Syscall NR_write [Reg 0, Write_buf, Imm 0x8a], Count,
    Syscall NR_write [Reg 0, Write_buf, Imm 0x8a], Count, Syscall NR_write [Reg 0, Write_buf, Imm 0x8a], Count,
    Syscall NR_write [Reg 0, Write_buf, Imm 0x8a], Count, Syscall NR_write [Reg 0, Write_buf, Imm 0x8a], Count,
    Syscall NR_write [Reg 0, Write_buf, Imm 0x8a], Count, Syscall NR_write [Reg 0, Write_buf, Imm 0x8a], Count,
    Syscall NR_write [Reg 0, Write_buf, Imm 0x8a], Count, Syscall NR_write [Reg 0, Write_buf, Imm 0x8a], Count]"

definition min_rocks_write_fcntl_0_0_body104 :: "stmt list" where
  "min_rocks_write_fcntl_0_0_body104 = [
    Syscall NR_write [Reg 0, Write_buf, Imm 0x8a], Count, Syscall NR_write [Reg 0, Write_buf, Imm 0x8a], Count,
    Syscall NR_write [Reg 0, Write_buf, Imm 0x8a], Count, Syscall NR_write [Reg 0, Write_buf, Imm 0x8a], Count,
    Syscall NR_write [Reg 0, Write_buf, Imm 0x8a], Count, Syscall NR_write [Reg 0, Write_buf, Imm 0x8a], Count,
    Syscall NR_write [Reg 0, Write_buf, Imm 0x8a], Count, Syscall NR_write [Reg 0, Write_buf, Imm 0x8a], Count,
    Syscall NR_write [Reg 0, Write_buf, Imm 0x8a], Count, Syscall NR_write [Reg 0, Write_buf, Imm 0x8a], Count,
    Syscall NR_write [Reg 0, Write_buf, Imm 0x8a], Count, Syscall NR_write [Reg 0, Write_buf, Imm 0x8a], Count,
    Syscall NR_write [Reg 0, Write_buf, Imm 0x8a], Count, Syscall NR_write [Reg 0, Write_buf, Imm 0x8a], Count]"

definition min_rocks_write_fcntl_0_0_body105 :: "stmt list" where
  "min_rocks_write_fcntl_0_0_body105 = [
    Syscall NR_write [Reg 0, Write_buf, Imm 0x8a], Count, Syscall NR_write [Reg 0, Write_buf, Imm 0x8a], Count,
    Syscall NR_write [Reg 0, Write_buf, Imm 0x8a], Count, Syscall NR_write [Reg 0, Write_buf, Imm 0x8a], Count,
    Syscall NR_write [Reg 0, Write_buf, Imm 0x8a], Count, Syscall NR_write [Reg 0, Write_buf, Imm 0x8a], Count,
    Syscall NR_write [Reg 0, Write_buf, Imm 0x8a], Count, Syscall NR_write [Reg 0, Write_buf, Imm 0x8a], Count,
    Syscall NR_write [Reg 0, Write_buf, Imm 0x8a], Count, Syscall NR_write [Reg 0, Write_buf, Imm 0x8a], Count,
    Syscall NR_write [Reg 0, Write_buf, Imm 0x8a], Count, Syscall NR_write [Reg 0, Write_buf, Imm 0x8a], Count,
    Syscall NR_write [Reg 0, Write_buf, Imm 0x8a], Count, Syscall NR_write [Reg 0, Write_buf, Imm 0x8a], Count]"

definition min_rocks_write_fcntl_0_0_body106 :: "stmt list" where
  "min_rocks_write_fcntl_0_0_body106 = [
    Syscall NR_write [Reg 0, Write_buf, Imm 0x8a], Count, Syscall NR_write [Reg 0, Write_buf, Imm 0x8a], Count,
    Syscall NR_write [Reg 0, Write_buf, Imm 0x8a], Count, Syscall NR_write [Reg 0, Write_buf, Imm 0x8a], Count,
    Syscall NR_write [Reg 0, Write_buf, Imm 0x8a], Count, Syscall NR_write [Reg 0, Write_buf, Imm 0x8a], Count,
    Syscall NR_write [Reg 0, Write_buf, Imm 0x8a], Count, Syscall NR_write [Reg 0, Write_buf, Imm 0x8a], Count,
    Syscall NR_write [Reg 0, Write_buf, Imm 0x8a], Count, Syscall NR_write [Reg 0, Write_buf, Imm 0x8a], Count,
    Syscall NR_write [Reg 0, Write_buf, Imm 0x8a], Count, Syscall NR_write [Reg 0, Write_buf, Imm 0x8a], Count,
    Syscall NR_write [Reg 0, Write_buf, Imm 0x8a], Count, Syscall NR_write [Reg 0, Write_buf, Imm 0x8a], Count]"

definition min_rocks_write_fcntl_0_0_body107 :: "stmt list" where
  "min_rocks_write_fcntl_0_0_body107 = [
    Syscall NR_write [Reg 0, Write_buf, Imm 0x8a], Count, Syscall NR_write [Reg 0, Write_buf, Imm 0x8a], Count,
    Syscall NR_write [Reg 0, Write_buf, Imm 0x8a], Count, Syscall NR_write [Reg 0, Write_buf, Imm 0x8a], Count,
    Syscall NR_write [Reg 0, Write_buf, Imm 0x8a], Count, Syscall NR_write [Reg 0, Write_buf, Imm 0x8a], Count,
    Syscall NR_write [Reg 0, Write_buf, Imm 0x8a], Count, Syscall NR_write [Reg 0, Write_buf, Imm 0x8a], Count,
    Syscall NR_write [Reg 0, Write_buf, Imm 0x8a], Count, Syscall NR_write [Reg 0, Write_buf, Imm 0x8a], Count,
    Syscall NR_write [Reg 0, Write_buf, Imm 0x8a], Count, Syscall NR_write [Reg 0, Write_buf, Imm 0x8a], Count,
    Syscall NR_write [Reg 0, Write_buf, Imm 0x8a], Count, Syscall NR_write [Reg 0, Write_buf, Imm 0x8a], Count]"

definition min_rocks_write_fcntl_0_0_body108 :: "stmt list" where
  "min_rocks_write_fcntl_0_0_body108 = [
    Syscall NR_write [Reg 0, Write_buf, Imm 0x8a], Count, Syscall NR_write [Reg 0, Write_buf, Imm 0x8a], Count,
    Syscall NR_write [Reg 0, Write_buf, Imm 0x8a], Count, Syscall NR_write [Reg 0, Write_buf, Imm 0x8a], Count,
    Syscall NR_write [Reg 0, Write_buf, Imm 0x8a], Count, Syscall NR_write [Reg 0, Write_buf, Imm 0x8a], Count,
    Syscall NR_write [Reg 0, Write_buf, Imm 0x8a], Count, Syscall NR_write [Reg 0, Write_buf, Imm 0x8a], Count,
    Syscall NR_write [Reg 0, Write_buf, Imm 0x8a], Count, Syscall NR_write [Reg 0, Write_buf, Imm 0x8a], Count,
    Syscall NR_write [Reg 0, Write_buf, Imm 0x8a], Count, Syscall NR_write [Reg 0, Write_buf, Imm 0x8a], Count,
    Syscall NR_write [Reg 0, Write_buf, Imm 0x8a], Count, Syscall NR_write [Reg 0, Write_buf, Imm 0x8a], Count]"

definition min_rocks_write_fcntl_0_0_body109 :: "stmt list" where
  "min_rocks_write_fcntl_0_0_body109 = [
    Syscall NR_write [Reg 0, Write_buf, Imm 0x8a], Count, Syscall NR_write [Reg 0, Write_buf, Imm 0x8a], Count,
    Syscall NR_write [Reg 0, Write_buf, Imm 0x8a], Count, Syscall NR_write [Reg 0, Write_buf, Imm 0x8a], Count,
    Syscall NR_write [Reg 0, Write_buf, Imm 0x8a], Count, Syscall NR_write [Reg 0, Write_buf, Imm 0x8a], Count,
    Syscall NR_write [Reg 0, Write_buf, Imm 0x8a], Count, Syscall NR_write [Reg 0, Write_buf, Imm 0x8a], Count,
    Syscall NR_write [Reg 0, Write_buf, Imm 0x8a], Count, Syscall NR_write [Reg 0, Write_buf, Imm 0x8a], Count,
    Syscall NR_write [Reg 0, Write_buf, Imm 0x8a], Count, Syscall NR_write [Reg 0, Write_buf, Imm 0x8a], Count,
    Syscall NR_write [Reg 0, Write_buf, Imm 0x8a], Count, Syscall NR_write [Reg 0, Write_buf, Imm 0x8a], Count]"

definition min_rocks_write_fcntl_0_0_body110 :: "stmt list" where
  "min_rocks_write_fcntl_0_0_body110 = [
    Syscall NR_write [Reg 0, Write_buf, Imm 0x8a], Count, Syscall NR_write [Reg 0, Write_buf, Imm 0x8a], Count,
    Syscall NR_write [Reg 0, Write_buf, Imm 0x8a], Count, Syscall NR_write [Reg 0, Write_buf, Imm 0x8a], Count,
    Syscall NR_write [Reg 0, Write_buf, Imm 0x8a], Count, Syscall NR_write [Reg 0, Write_buf, Imm 0x8a], Count,
    Syscall NR_write [Reg 0, Write_buf, Imm 0x8a], Count, Syscall NR_write [Reg 0, Write_buf, Imm 0x8a], Count,
    Syscall NR_write [Reg 0, Write_buf, Imm 0x8a], Count, Syscall NR_write [Reg 0, Write_buf, Imm 0x8a], Count,
    Syscall NR_write [Reg 0, Write_buf, Imm 0x8a], Count, Syscall NR_write [Reg 0, Write_buf, Imm 0x8a], Count,
    Syscall NR_write [Reg 0, Write_buf, Imm 0x8a], Count, Syscall NR_write [Reg 0, Write_buf, Imm 0x8a], Count]"

definition min_rocks_write_fcntl_0_0_body111 :: "stmt list" where
  "min_rocks_write_fcntl_0_0_body111 = [
    Syscall NR_write [Reg 0, Write_buf, Imm 0x8a], Count, Syscall NR_write [Reg 0, Write_buf, Imm 0x8a], Count,
    Syscall NR_write [Reg 0, Write_buf, Imm 0x8a], Count, Syscall NR_write [Reg 0, Write_buf, Imm 0x8a], Count,
    Syscall NR_write [Reg 0, Write_buf, Imm 0x8a], Count, Syscall NR_write [Reg 0, Write_buf, Imm 0x8a], Count,
    Syscall NR_write [Reg 0, Write_buf, Imm 0x8a], Count, Syscall NR_write [Reg 0, Write_buf, Imm 0x8a], Count,
    Syscall NR_write [Reg 0, Write_buf, Imm 0x8a], Count, Syscall NR_write [Reg 0, Write_buf, Imm 0x8a], Count,
    Syscall NR_write [Reg 0, Write_buf, Imm 0x8a], Count, Syscall NR_write [Reg 0, Write_buf, Imm 0x8a], Count,
    Syscall NR_write [Reg 0, Write_buf, Imm 0x8a], Count, Syscall NR_write [Reg 0, Write_buf, Imm 0x8a], Count]"

definition min_rocks_write_fcntl_0_0_body112 :: "stmt list" where
  "min_rocks_write_fcntl_0_0_body112 = [
    Syscall NR_write [Reg 0, Write_buf, Imm 0x8a], Count, Syscall NR_write [Reg 0, Write_buf, Imm 0x8a], Count,
    Syscall NR_write [Reg 0, Write_buf, Imm 0x8a], Count, Syscall NR_write [Reg 0, Write_buf, Imm 0x8a], Count,
    Syscall NR_write [Reg 0, Write_buf, Imm 0x8a], Count, Syscall NR_write [Reg 0, Write_buf, Imm 0x8a], Count,
    Syscall NR_write [Reg 0, Write_buf, Imm 0x8a], Count, Syscall NR_write [Reg 0, Write_buf, Imm 0x8a], Count,
    Syscall NR_write [Reg 0, Write_buf, Imm 0x8a], Count, Syscall NR_write [Reg 0, Write_buf, Imm 0x8a], Count,
    Syscall NR_write [Reg 0, Write_buf, Imm 0x8a], Count, Syscall NR_write [Reg 0, Write_buf, Imm 0x8a], Count,
    Syscall NR_write [Reg 0, Write_buf, Imm 0x8a], Count, Syscall NR_write [Reg 0, Write_buf, Imm 0x8a], Count]"

definition min_rocks_write_fcntl_0_0_body113 :: "stmt list" where
  "min_rocks_write_fcntl_0_0_body113 = [
    Syscall NR_write [Reg 0, Write_buf, Imm 0x8a], Count, Syscall NR_write [Reg 0, Write_buf, Imm 0x8a], Count,
    Syscall NR_write [Reg 0, Write_buf, Imm 0x8a], Count, Syscall NR_write [Reg 0, Write_buf, Imm 0x8a], Count,
    Syscall NR_write [Reg 0, Write_buf, Imm 0x8a], Count, Syscall NR_write [Reg 0, Write_buf, Imm 0x8a], Count,
    Syscall NR_write [Reg 0, Write_buf, Imm 0x8a], Count, Syscall NR_write [Reg 0, Write_buf, Imm 0x8a], Count,
    Syscall NR_write [Reg 0, Write_buf, Imm 0x8a], Count, Syscall NR_write [Reg 0, Write_buf, Imm 0x8a], Count,
    Syscall NR_write [Reg 0, Write_buf, Imm 0x8a], Count, Syscall NR_write [Reg 0, Write_buf, Imm 0x8a], Count,
    Syscall NR_write [Reg 0, Write_buf, Imm 0x8a], Count, Syscall NR_write [Reg 0, Write_buf, Imm 0x8a], Count]"

definition min_rocks_write_fcntl_0_0_body114 :: "stmt list" where
  "min_rocks_write_fcntl_0_0_body114 = [
    Syscall NR_write [Reg 0, Write_buf, Imm 0x8a], Count, Syscall NR_write [Reg 0, Write_buf, Imm 0x8a], Count,
    Syscall NR_write [Reg 0, Write_buf, Imm 0x8a], Count, Syscall NR_write [Reg 0, Write_buf, Imm 0x8a], Count,
    Syscall NR_write [Reg 0, Write_buf, Imm 0x8a], Count, Syscall NR_write [Reg 0, Write_buf, Imm 0x8a], Count,
    Syscall NR_write [Reg 0, Write_buf, Imm 0x8a], Count, Syscall NR_write [Reg 0, Write_buf, Imm 0x8a], Count,
    Syscall NR_write [Reg 0, Write_buf, Imm 0x8a], Count, Syscall NR_write [Reg 0, Write_buf, Imm 0x8a], Count,
    Syscall NR_write [Reg 0, Write_buf, Imm 0x8a], Count, Syscall NR_write [Reg 0, Write_buf, Imm 0x8a], Count,
    Syscall NR_write [Reg 0, Write_buf, Imm 0x8a], Count, Syscall NR_write [Reg 0, Write_buf, Imm 0x8a], Count]"

definition min_rocks_write_fcntl_0_0_body115 :: "stmt list" where
  "min_rocks_write_fcntl_0_0_body115 = [
    Syscall NR_write [Reg 0, Write_buf, Imm 0x8a], Count, Syscall NR_write [Reg 0, Write_buf, Imm 0x8a], Count,
    Syscall NR_write [Reg 0, Write_buf, Imm 0x8a], Count, Syscall NR_write [Reg 0, Write_buf, Imm 0x8a], Count,
    Syscall NR_write [Reg 0, Write_buf, Imm 0x8a], Count, Syscall NR_write [Reg 0, Write_buf, Imm 0x8a], Count,
    Syscall NR_write [Reg 0, Write_buf, Imm 0x8a], Count, Syscall NR_write [Reg 0, Write_buf, Imm 0x8a], Count,
    Syscall NR_write [Reg 0, Write_buf, Imm 0x8a], Count, Syscall NR_write [Reg 0, Write_buf, Imm 0x8a], Count,
    Syscall NR_write [Reg 0, Write_buf, Imm 0x8a], Count, Syscall NR_write [Reg 0, Write_buf, Imm 0x8a], Count,
    Syscall NR_write [Reg 0, Write_buf, Imm 0x8a], Count, Syscall NR_write [Reg 0, Write_buf, Imm 0x8a], Count]"

definition min_rocks_write_fcntl_0_0_body116 :: "stmt list" where
  "min_rocks_write_fcntl_0_0_body116 = [
    Syscall NR_write [Reg 0, Write_buf, Imm 0x8a], Count, Syscall NR_write [Reg 0, Write_buf, Imm 0x8a], Count,
    Syscall NR_write [Reg 0, Write_buf, Imm 0x8a], Count, Syscall NR_write [Reg 0, Write_buf, Imm 0x8a], Count,
    Syscall NR_write [Reg 0, Write_buf, Imm 0x8a], Count, Syscall NR_write [Reg 0, Write_buf, Imm 0x8a], Count,
    Syscall NR_write [Reg 0, Write_buf, Imm 0x8a], Count, Syscall NR_write [Reg 0, Write_buf, Imm 0x8a], Count,
    Syscall NR_write [Reg 0, Write_buf, Imm 0x8a], Count, Syscall NR_write [Reg 0, Write_buf, Imm 0x8a], Count,
    Syscall NR_write [Reg 0, Write_buf, Imm 0x8a], Count, Syscall NR_write [Reg 0, Write_buf, Imm 0x8a], Count,
    Syscall NR_write [Reg 0, Write_buf, Imm 0x8a], Count, Syscall NR_write [Reg 0, Write_buf, Imm 0x8a], Count]"

definition min_rocks_write_fcntl_0_0_body117 :: "stmt list" where
  "min_rocks_write_fcntl_0_0_body117 = [
    Syscall NR_write [Reg 0, Write_buf, Imm 0x8a], Count, Syscall NR_write [Reg 0, Write_buf, Imm 0x8a], Count,
    Syscall NR_write [Reg 0, Write_buf, Imm 0x8a], Count, Syscall NR_write [Reg 0, Write_buf, Imm 0x8a], Count,
    Syscall NR_write [Reg 0, Write_buf, Imm 0x8a], Count, Syscall NR_write [Reg 0, Write_buf, Imm 0x8a], Count,
    Syscall NR_write [Reg 0, Write_buf, Imm 0x8a], Count, Syscall NR_write [Reg 0, Write_buf, Imm 0x8a], Count,
    Syscall NR_write [Reg 0, Write_buf, Imm 0x8a], Count, Syscall NR_write [Reg 0, Write_buf, Imm 0x8a], Count,
    Syscall NR_write [Reg 0, Write_buf, Imm 0x8a], Count, Syscall NR_write [Reg 0, Write_buf, Imm 0x8a], Count,
    Syscall NR_write [Reg 0, Write_buf, Imm 0x8a], Count, Syscall NR_write [Reg 0, Write_buf, Imm 0x8a], Count]"

definition min_rocks_write_fcntl_0_0_body118 :: "stmt list" where
  "min_rocks_write_fcntl_0_0_body118 = [
    Syscall NR_write [Reg 0, Write_buf, Imm 0x8a], Count, Syscall NR_write [Reg 0, Write_buf, Imm 0x8a], Count,
    Syscall NR_write [Reg 0, Write_buf, Imm 0x8a], Count, Syscall NR_write [Reg 0, Write_buf, Imm 0x8a], Count,
    Syscall NR_write [Reg 0, Write_buf, Imm 0x8a], Count, Syscall NR_write [Reg 0, Write_buf, Imm 0x8a], Count,
    Syscall NR_write [Reg 0, Write_buf, Imm 0x8a], Count, Syscall NR_write [Reg 0, Write_buf, Imm 0x8a], Count,
    Syscall NR_write [Reg 0, Write_buf, Imm 0x8a], Count, Syscall NR_write [Reg 0, Write_buf, Imm 0x8a], Count,
    Syscall NR_write [Reg 0, Write_buf, Imm 0x8a], Count, Syscall NR_write [Reg 0, Write_buf, Imm 0x8a], Count,
    Syscall NR_write [Reg 0, Write_buf, Imm 0x8a], Count, Syscall NR_write [Reg 0, Write_buf, Imm 0x8a], Count]"

definition min_rocks_write_fcntl_0_0_body119 :: "stmt list" where
  "min_rocks_write_fcntl_0_0_body119 = [
    Syscall NR_write [Reg 0, Write_buf, Imm 0x8a], Count, Syscall NR_write [Reg 0, Write_buf, Imm 0x8a], Count,
    Syscall NR_write [Reg 0, Write_buf, Imm 0x90], Count, Syscall NR_write [Reg 0, Write_buf, Imm 0x8a], Count,
    Syscall NR_write [Reg 0, Write_buf, Imm 0x8a], Count, Syscall NR_write [Reg 0, Write_buf, Imm 0x8a], Count,
    Syscall NR_write [Reg 0, Write_buf, Imm 0x8a], Count, Syscall NR_write [Reg 0, Write_buf, Imm 0x8a], Count,
    Syscall NR_write [Reg 0, Write_buf, Imm 0x8a], Count, Syscall NR_write [Reg 0, Write_buf, Imm 0x8a], Count,
    Syscall NR_write [Reg 0, Write_buf, Imm 0x8a], Count, Syscall NR_write [Reg 0, Write_buf, Imm 0x8a], Count,
    Syscall NR_write [Reg 0, Write_buf, Imm 0x8a], Count, Syscall NR_write [Reg 0, Write_buf, Imm 0x8a], Count]"

definition min_rocks_write_fcntl_0_0_body120 :: "stmt list" where
  "min_rocks_write_fcntl_0_0_body120 = [
    Syscall NR_write [Reg 0, Write_buf, Imm 0x8a], Count, Syscall NR_write [Reg 0, Write_buf, Imm 0x8a], Count,
    Syscall NR_write [Reg 0, Write_buf, Imm 0x8a], Count, Syscall NR_write [Reg 0, Write_buf, Imm 0x8a], Count,
    Syscall NR_write [Reg 0, Write_buf, Imm 0x8a], Count, Syscall NR_write [Reg 0, Write_buf, Imm 0x8a], Count,
    Syscall NR_write [Reg 0, Write_buf, Imm 0x8a], Count, Syscall NR_write [Reg 0, Write_buf, Imm 0x8a], Count,
    Syscall NR_write [Reg 0, Write_buf, Imm 0x8a], Count, Syscall NR_write [Reg 0, Write_buf, Imm 0x8a], Count,
    Syscall NR_write [Reg 0, Write_buf, Imm 0x8a], Count, Syscall NR_write [Reg 0, Write_buf, Imm 0x8a], Count,
    Syscall NR_write [Reg 0, Write_buf, Imm 0x8a], Count, Syscall NR_write [Reg 0, Write_buf, Imm 0x8a], Count]"

lemma min_rocks_write_fcntl_0_0_body1_ok: "body_ok (Suc 0) 145 min_rocks_write_fcntl_0_0_body1" "counted min_rocks_write_fcntl_0_0_body1" "calls min_rocks_write_fcntl_0_0_body1 = 14" "opened_in m min_rocks_write_fcntl_0_0_body1 = [Some ''./tmp/rocksdb_db/000033.log'']"
  by (simp_all add: min_rocks_write_fcntl_0_0_body1_def prog_checks open_checks)

lemma min_rocks_write_fcntl_0_0_body2_ok: "body_ok (Suc 0) 145 min_rocks_write_fcntl_0_0_body2" "counted min_rocks_write_fcntl_0_0_body2" "calls min_rocks_write_fcntl_0_0_body2 = 14" "opened_in m min_rocks_write_fcntl_0_0_body2 = []"
  by (simp_all add: min_rocks_write_fcntl_0_0_body2_def prog_checks open_checks)

lemma min_rocks_write_fcntl_0_0_body3_ok: "body_ok (Suc 0) 145 min_rocks_write_fcntl_0_0_body3" "counted min_rocks_write_fcntl_0_0_body3" "calls min_rocks_write_fcntl_0_0_body3 = 14" "opened_in m min_rocks_write_fcntl_0_0_body3 = []"
  by (simp_all add: min_rocks_write_fcntl_0_0_body3_def prog_checks open_checks)

lemma min_rocks_write_fcntl_0_0_body4_ok: "body_ok (Suc 0) 145 min_rocks_write_fcntl_0_0_body4" "counted min_rocks_write_fcntl_0_0_body4" "calls min_rocks_write_fcntl_0_0_body4 = 14" "opened_in m min_rocks_write_fcntl_0_0_body4 = []"
  by (simp_all add: min_rocks_write_fcntl_0_0_body4_def prog_checks open_checks)

lemma min_rocks_write_fcntl_0_0_body5_ok: "body_ok (Suc 0) 145 min_rocks_write_fcntl_0_0_body5" "counted min_rocks_write_fcntl_0_0_body5" "calls min_rocks_write_fcntl_0_0_body5 = 14" "opened_in m min_rocks_write_fcntl_0_0_body5 = []"
  by (simp_all add: min_rocks_write_fcntl_0_0_body5_def prog_checks open_checks)

lemma min_rocks_write_fcntl_0_0_body6_ok: "body_ok (Suc 0) 145 min_rocks_write_fcntl_0_0_body6" "counted min_rocks_write_fcntl_0_0_body6" "calls min_rocks_write_fcntl_0_0_body6 = 14" "opened_in m min_rocks_write_fcntl_0_0_body6 = []"
  by (simp_all add: min_rocks_write_fcntl_0_0_body6_def prog_checks open_checks)

lemma min_rocks_write_fcntl_0_0_body7_ok: "body_ok (Suc 0) 145 min_rocks_write_fcntl_0_0_body7" "counted min_rocks_write_fcntl_0_0_body7" "calls min_rocks_write_fcntl_0_0_body7 = 14" "opened_in m min_rocks_write_fcntl_0_0_body7 = []"
  by (simp_all add: min_rocks_write_fcntl_0_0_body7_def prog_checks open_checks)

lemma min_rocks_write_fcntl_0_0_body8_ok: "body_ok (Suc 0) 145 min_rocks_write_fcntl_0_0_body8" "counted min_rocks_write_fcntl_0_0_body8" "calls min_rocks_write_fcntl_0_0_body8 = 14" "opened_in m min_rocks_write_fcntl_0_0_body8 = []"
  by (simp_all add: min_rocks_write_fcntl_0_0_body8_def prog_checks open_checks)

lemma min_rocks_write_fcntl_0_0_body9_ok: "body_ok (Suc 0) 145 min_rocks_write_fcntl_0_0_body9" "counted min_rocks_write_fcntl_0_0_body9" "calls min_rocks_write_fcntl_0_0_body9 = 14" "opened_in m min_rocks_write_fcntl_0_0_body9 = []"
  by (simp_all add: min_rocks_write_fcntl_0_0_body9_def prog_checks open_checks)

lemma min_rocks_write_fcntl_0_0_body10_ok: "body_ok (Suc 0) 145 min_rocks_write_fcntl_0_0_body10" "counted min_rocks_write_fcntl_0_0_body10" "calls min_rocks_write_fcntl_0_0_body10 = 14" "opened_in m min_rocks_write_fcntl_0_0_body10 = []"
  by (simp_all add: min_rocks_write_fcntl_0_0_body10_def prog_checks open_checks)

lemma min_rocks_write_fcntl_0_0_body11_ok: "body_ok (Suc 0) 145 min_rocks_write_fcntl_0_0_body11" "counted min_rocks_write_fcntl_0_0_body11" "calls min_rocks_write_fcntl_0_0_body11 = 14" "opened_in m min_rocks_write_fcntl_0_0_body11 = []"
  by (simp_all add: min_rocks_write_fcntl_0_0_body11_def prog_checks open_checks)

lemma min_rocks_write_fcntl_0_0_body12_ok: "body_ok (Suc 0) 145 min_rocks_write_fcntl_0_0_body12" "counted min_rocks_write_fcntl_0_0_body12" "calls min_rocks_write_fcntl_0_0_body12 = 14" "opened_in m min_rocks_write_fcntl_0_0_body12 = []"
  by (simp_all add: min_rocks_write_fcntl_0_0_body12_def prog_checks open_checks)

lemma min_rocks_write_fcntl_0_0_body13_ok: "body_ok (Suc 0) 145 min_rocks_write_fcntl_0_0_body13" "counted min_rocks_write_fcntl_0_0_body13" "calls min_rocks_write_fcntl_0_0_body13 = 14" "opened_in m min_rocks_write_fcntl_0_0_body13 = []"
  by (simp_all add: min_rocks_write_fcntl_0_0_body13_def prog_checks open_checks)

lemma min_rocks_write_fcntl_0_0_body14_ok: "body_ok (Suc 0) 145 min_rocks_write_fcntl_0_0_body14" "counted min_rocks_write_fcntl_0_0_body14" "calls min_rocks_write_fcntl_0_0_body14 = 14" "opened_in m min_rocks_write_fcntl_0_0_body14 = []"
  by (simp_all add: min_rocks_write_fcntl_0_0_body14_def prog_checks open_checks)

lemma min_rocks_write_fcntl_0_0_body15_ok: "body_ok (Suc 0) 145 min_rocks_write_fcntl_0_0_body15" "counted min_rocks_write_fcntl_0_0_body15" "calls min_rocks_write_fcntl_0_0_body15 = 14" "opened_in m min_rocks_write_fcntl_0_0_body15 = []"
  by (simp_all add: min_rocks_write_fcntl_0_0_body15_def prog_checks open_checks)

lemma min_rocks_write_fcntl_0_0_body16_ok: "body_ok (Suc 0) 145 min_rocks_write_fcntl_0_0_body16" "counted min_rocks_write_fcntl_0_0_body16" "calls min_rocks_write_fcntl_0_0_body16 = 14" "opened_in m min_rocks_write_fcntl_0_0_body16 = []"
  by (simp_all add: min_rocks_write_fcntl_0_0_body16_def prog_checks open_checks)

lemma min_rocks_write_fcntl_0_0_body17_ok: "body_ok (Suc 0) 145 min_rocks_write_fcntl_0_0_body17" "counted min_rocks_write_fcntl_0_0_body17" "calls min_rocks_write_fcntl_0_0_body17 = 14" "opened_in m min_rocks_write_fcntl_0_0_body17 = []"
  by (simp_all add: min_rocks_write_fcntl_0_0_body17_def prog_checks open_checks)

lemma min_rocks_write_fcntl_0_0_body18_ok: "body_ok (Suc 0) 145 min_rocks_write_fcntl_0_0_body18" "counted min_rocks_write_fcntl_0_0_body18" "calls min_rocks_write_fcntl_0_0_body18 = 14" "opened_in m min_rocks_write_fcntl_0_0_body18 = []"
  by (simp_all add: min_rocks_write_fcntl_0_0_body18_def prog_checks open_checks)

lemma min_rocks_write_fcntl_0_0_body19_ok: "body_ok (Suc 0) 145 min_rocks_write_fcntl_0_0_body19" "counted min_rocks_write_fcntl_0_0_body19" "calls min_rocks_write_fcntl_0_0_body19 = 14" "opened_in m min_rocks_write_fcntl_0_0_body19 = []"
  by (simp_all add: min_rocks_write_fcntl_0_0_body19_def prog_checks open_checks)

lemma min_rocks_write_fcntl_0_0_body20_ok: "body_ok (Suc 0) 145 min_rocks_write_fcntl_0_0_body20" "counted min_rocks_write_fcntl_0_0_body20" "calls min_rocks_write_fcntl_0_0_body20 = 14" "opened_in m min_rocks_write_fcntl_0_0_body20 = []"
  by (simp_all add: min_rocks_write_fcntl_0_0_body20_def prog_checks open_checks)

lemma min_rocks_write_fcntl_0_0_body21_ok: "body_ok (Suc 0) 145 min_rocks_write_fcntl_0_0_body21" "counted min_rocks_write_fcntl_0_0_body21" "calls min_rocks_write_fcntl_0_0_body21 = 14" "opened_in m min_rocks_write_fcntl_0_0_body21 = []"
  by (simp_all add: min_rocks_write_fcntl_0_0_body21_def prog_checks open_checks)

lemma min_rocks_write_fcntl_0_0_body22_ok: "body_ok (Suc 0) 145 min_rocks_write_fcntl_0_0_body22" "counted min_rocks_write_fcntl_0_0_body22" "calls min_rocks_write_fcntl_0_0_body22 = 14" "opened_in m min_rocks_write_fcntl_0_0_body22 = []"
  by (simp_all add: min_rocks_write_fcntl_0_0_body22_def prog_checks open_checks)

lemma min_rocks_write_fcntl_0_0_body23_ok: "body_ok (Suc 0) 145 min_rocks_write_fcntl_0_0_body23" "counted min_rocks_write_fcntl_0_0_body23" "calls min_rocks_write_fcntl_0_0_body23 = 14" "opened_in m min_rocks_write_fcntl_0_0_body23 = []"
  by (simp_all add: min_rocks_write_fcntl_0_0_body23_def prog_checks open_checks)

lemma min_rocks_write_fcntl_0_0_body24_ok: "body_ok (Suc 0) 145 min_rocks_write_fcntl_0_0_body24" "counted min_rocks_write_fcntl_0_0_body24" "calls min_rocks_write_fcntl_0_0_body24 = 14" "opened_in m min_rocks_write_fcntl_0_0_body24 = []"
  by (simp_all add: min_rocks_write_fcntl_0_0_body24_def prog_checks open_checks)

lemma min_rocks_write_fcntl_0_0_body25_ok: "body_ok (Suc 0) 145 min_rocks_write_fcntl_0_0_body25" "counted min_rocks_write_fcntl_0_0_body25" "calls min_rocks_write_fcntl_0_0_body25 = 14" "opened_in m min_rocks_write_fcntl_0_0_body25 = []"
  by (simp_all add: min_rocks_write_fcntl_0_0_body25_def prog_checks open_checks)

lemma min_rocks_write_fcntl_0_0_body26_ok: "body_ok (Suc 0) 145 min_rocks_write_fcntl_0_0_body26" "counted min_rocks_write_fcntl_0_0_body26" "calls min_rocks_write_fcntl_0_0_body26 = 14" "opened_in m min_rocks_write_fcntl_0_0_body26 = []"
  by (simp_all add: min_rocks_write_fcntl_0_0_body26_def prog_checks open_checks)

lemma min_rocks_write_fcntl_0_0_body27_ok: "body_ok (Suc 0) 145 min_rocks_write_fcntl_0_0_body27" "counted min_rocks_write_fcntl_0_0_body27" "calls min_rocks_write_fcntl_0_0_body27 = 14" "opened_in m min_rocks_write_fcntl_0_0_body27 = []"
  by (simp_all add: min_rocks_write_fcntl_0_0_body27_def prog_checks open_checks)

lemma min_rocks_write_fcntl_0_0_body28_ok: "body_ok (Suc 0) 145 min_rocks_write_fcntl_0_0_body28" "counted min_rocks_write_fcntl_0_0_body28" "calls min_rocks_write_fcntl_0_0_body28 = 14" "opened_in m min_rocks_write_fcntl_0_0_body28 = []"
  by (simp_all add: min_rocks_write_fcntl_0_0_body28_def prog_checks open_checks)

lemma min_rocks_write_fcntl_0_0_body29_ok: "body_ok (Suc 0) 145 min_rocks_write_fcntl_0_0_body29" "counted min_rocks_write_fcntl_0_0_body29" "calls min_rocks_write_fcntl_0_0_body29 = 14" "opened_in m min_rocks_write_fcntl_0_0_body29 = []"
  by (simp_all add: min_rocks_write_fcntl_0_0_body29_def prog_checks open_checks)

lemma min_rocks_write_fcntl_0_0_body30_ok: "body_ok (Suc 0) 145 min_rocks_write_fcntl_0_0_body30" "counted min_rocks_write_fcntl_0_0_body30" "calls min_rocks_write_fcntl_0_0_body30 = 14" "opened_in m min_rocks_write_fcntl_0_0_body30 = []"
  by (simp_all add: min_rocks_write_fcntl_0_0_body30_def prog_checks open_checks)

lemma min_rocks_write_fcntl_0_0_body31_ok: "body_ok (Suc 0) 145 min_rocks_write_fcntl_0_0_body31" "counted min_rocks_write_fcntl_0_0_body31" "calls min_rocks_write_fcntl_0_0_body31 = 14" "opened_in m min_rocks_write_fcntl_0_0_body31 = []"
  by (simp_all add: min_rocks_write_fcntl_0_0_body31_def prog_checks open_checks)

lemma min_rocks_write_fcntl_0_0_body32_ok: "body_ok (Suc 0) 145 min_rocks_write_fcntl_0_0_body32" "counted min_rocks_write_fcntl_0_0_body32" "calls min_rocks_write_fcntl_0_0_body32 = 14" "opened_in m min_rocks_write_fcntl_0_0_body32 = []"
  by (simp_all add: min_rocks_write_fcntl_0_0_body32_def prog_checks open_checks)

lemma min_rocks_write_fcntl_0_0_body33_ok: "body_ok (Suc 0) 145 min_rocks_write_fcntl_0_0_body33" "counted min_rocks_write_fcntl_0_0_body33" "calls min_rocks_write_fcntl_0_0_body33 = 14" "opened_in m min_rocks_write_fcntl_0_0_body33 = []"
  by (simp_all add: min_rocks_write_fcntl_0_0_body33_def prog_checks open_checks)

lemma min_rocks_write_fcntl_0_0_body34_ok: "body_ok (Suc 0) 145 min_rocks_write_fcntl_0_0_body34" "counted min_rocks_write_fcntl_0_0_body34" "calls min_rocks_write_fcntl_0_0_body34 = 14" "opened_in m min_rocks_write_fcntl_0_0_body34 = []"
  by (simp_all add: min_rocks_write_fcntl_0_0_body34_def prog_checks open_checks)

lemma min_rocks_write_fcntl_0_0_body35_ok: "body_ok (Suc 0) 145 min_rocks_write_fcntl_0_0_body35" "counted min_rocks_write_fcntl_0_0_body35" "calls min_rocks_write_fcntl_0_0_body35 = 14" "opened_in m min_rocks_write_fcntl_0_0_body35 = []"
  by (simp_all add: min_rocks_write_fcntl_0_0_body35_def prog_checks open_checks)

lemma min_rocks_write_fcntl_0_0_body36_ok: "body_ok (Suc 0) 145 min_rocks_write_fcntl_0_0_body36" "counted min_rocks_write_fcntl_0_0_body36" "calls min_rocks_write_fcntl_0_0_body36 = 14" "opened_in m min_rocks_write_fcntl_0_0_body36 = []"
  by (simp_all add: min_rocks_write_fcntl_0_0_body36_def prog_checks open_checks)

lemma min_rocks_write_fcntl_0_0_body37_ok: "body_ok (Suc 0) 145 min_rocks_write_fcntl_0_0_body37" "counted min_rocks_write_fcntl_0_0_body37" "calls min_rocks_write_fcntl_0_0_body37 = 14" "opened_in m min_rocks_write_fcntl_0_0_body37 = []"
  by (simp_all add: min_rocks_write_fcntl_0_0_body37_def prog_checks open_checks)

lemma min_rocks_write_fcntl_0_0_body38_ok: "body_ok (Suc 0) 145 min_rocks_write_fcntl_0_0_body38" "counted min_rocks_write_fcntl_0_0_body38" "calls min_rocks_write_fcntl_0_0_body38 = 14" "opened_in m min_rocks_write_fcntl_0_0_body38 = []"
  by (simp_all add: min_rocks_write_fcntl_0_0_body38_def prog_checks open_checks)

lemma min_rocks_write_fcntl_0_0_body39_ok: "body_ok (Suc 0) 145 min_rocks_write_fcntl_0_0_body39" "counted min_rocks_write_fcntl_0_0_body39" "calls min_rocks_write_fcntl_0_0_body39 = 14" "opened_in m min_rocks_write_fcntl_0_0_body39 = []"
  by (simp_all add: min_rocks_write_fcntl_0_0_body39_def prog_checks open_checks)

lemma min_rocks_write_fcntl_0_0_body40_ok: "body_ok (Suc 0) 145 min_rocks_write_fcntl_0_0_body40" "counted min_rocks_write_fcntl_0_0_body40" "calls min_rocks_write_fcntl_0_0_body40 = 14" "opened_in m min_rocks_write_fcntl_0_0_body40 = []"
  by (simp_all add: min_rocks_write_fcntl_0_0_body40_def prog_checks open_checks)

lemma min_rocks_write_fcntl_0_0_body41_ok: "body_ok (Suc 0) 145 min_rocks_write_fcntl_0_0_body41" "counted min_rocks_write_fcntl_0_0_body41" "calls min_rocks_write_fcntl_0_0_body41 = 14" "opened_in m min_rocks_write_fcntl_0_0_body41 = []"
  by (simp_all add: min_rocks_write_fcntl_0_0_body41_def prog_checks open_checks)

lemma min_rocks_write_fcntl_0_0_body42_ok: "body_ok (Suc 0) 145 min_rocks_write_fcntl_0_0_body42" "counted min_rocks_write_fcntl_0_0_body42" "calls min_rocks_write_fcntl_0_0_body42 = 14" "opened_in m min_rocks_write_fcntl_0_0_body42 = []"
  by (simp_all add: min_rocks_write_fcntl_0_0_body42_def prog_checks open_checks)

lemma min_rocks_write_fcntl_0_0_body43_ok: "body_ok (Suc 0) 145 min_rocks_write_fcntl_0_0_body43" "counted min_rocks_write_fcntl_0_0_body43" "calls min_rocks_write_fcntl_0_0_body43 = 14" "opened_in m min_rocks_write_fcntl_0_0_body43 = []"
  by (simp_all add: min_rocks_write_fcntl_0_0_body43_def prog_checks open_checks)

lemma min_rocks_write_fcntl_0_0_body44_ok: "body_ok (Suc 0) 145 min_rocks_write_fcntl_0_0_body44" "counted min_rocks_write_fcntl_0_0_body44" "calls min_rocks_write_fcntl_0_0_body44 = 14" "opened_in m min_rocks_write_fcntl_0_0_body44 = []"
  by (simp_all add: min_rocks_write_fcntl_0_0_body44_def prog_checks open_checks)

lemma min_rocks_write_fcntl_0_0_body45_ok: "body_ok (Suc 0) 145 min_rocks_write_fcntl_0_0_body45" "counted min_rocks_write_fcntl_0_0_body45" "calls min_rocks_write_fcntl_0_0_body45 = 14" "opened_in m min_rocks_write_fcntl_0_0_body45 = []"
  by (simp_all add: min_rocks_write_fcntl_0_0_body45_def prog_checks open_checks)

lemma min_rocks_write_fcntl_0_0_body46_ok: "body_ok (Suc 0) 145 min_rocks_write_fcntl_0_0_body46" "counted min_rocks_write_fcntl_0_0_body46" "calls min_rocks_write_fcntl_0_0_body46 = 14" "opened_in m min_rocks_write_fcntl_0_0_body46 = []"
  by (simp_all add: min_rocks_write_fcntl_0_0_body46_def prog_checks open_checks)

lemma min_rocks_write_fcntl_0_0_body47_ok: "body_ok (Suc 0) 145 min_rocks_write_fcntl_0_0_body47" "counted min_rocks_write_fcntl_0_0_body47" "calls min_rocks_write_fcntl_0_0_body47 = 14" "opened_in m min_rocks_write_fcntl_0_0_body47 = []"
  by (simp_all add: min_rocks_write_fcntl_0_0_body47_def prog_checks open_checks)

lemma min_rocks_write_fcntl_0_0_body48_ok: "body_ok (Suc 0) 145 min_rocks_write_fcntl_0_0_body48" "counted min_rocks_write_fcntl_0_0_body48" "calls min_rocks_write_fcntl_0_0_body48 = 14" "opened_in m min_rocks_write_fcntl_0_0_body48 = []"
  by (simp_all add: min_rocks_write_fcntl_0_0_body48_def prog_checks open_checks)

lemma min_rocks_write_fcntl_0_0_body49_ok: "body_ok (Suc 0) 145 min_rocks_write_fcntl_0_0_body49" "counted min_rocks_write_fcntl_0_0_body49" "calls min_rocks_write_fcntl_0_0_body49 = 14" "opened_in m min_rocks_write_fcntl_0_0_body49 = []"
  by (simp_all add: min_rocks_write_fcntl_0_0_body49_def prog_checks open_checks)

lemma min_rocks_write_fcntl_0_0_body50_ok: "body_ok (Suc 0) 145 min_rocks_write_fcntl_0_0_body50" "counted min_rocks_write_fcntl_0_0_body50" "calls min_rocks_write_fcntl_0_0_body50 = 14" "opened_in m min_rocks_write_fcntl_0_0_body50 = []"
  by (simp_all add: min_rocks_write_fcntl_0_0_body50_def prog_checks open_checks)

lemma min_rocks_write_fcntl_0_0_body51_ok: "body_ok (Suc 0) 145 min_rocks_write_fcntl_0_0_body51" "counted min_rocks_write_fcntl_0_0_body51" "calls min_rocks_write_fcntl_0_0_body51 = 14" "opened_in m min_rocks_write_fcntl_0_0_body51 = []"
  by (simp_all add: min_rocks_write_fcntl_0_0_body51_def prog_checks open_checks)

lemma min_rocks_write_fcntl_0_0_body52_ok: "body_ok (Suc 0) 145 min_rocks_write_fcntl_0_0_body52" "counted min_rocks_write_fcntl_0_0_body52" "calls min_rocks_write_fcntl_0_0_body52 = 14" "opened_in m min_rocks_write_fcntl_0_0_body52 = []"
  by (simp_all add: min_rocks_write_fcntl_0_0_body52_def prog_checks open_checks)

lemma min_rocks_write_fcntl_0_0_body53_ok: "body_ok (Suc 0) 145 min_rocks_write_fcntl_0_0_body53" "counted min_rocks_write_fcntl_0_0_body53" "calls min_rocks_write_fcntl_0_0_body53 = 14" "opened_in m min_rocks_write_fcntl_0_0_body53 = []"
  by (simp_all add: min_rocks_write_fcntl_0_0_body53_def prog_checks open_checks)

lemma min_rocks_write_fcntl_0_0_body54_ok: "body_ok (Suc 0) 145 min_rocks_write_fcntl_0_0_body54" "counted min_rocks_write_fcntl_0_0_body54" "calls min_rocks_write_fcntl_0_0_body54 = 14" "opened_in m min_rocks_write_fcntl_0_0_body54 = []"
  by (simp_all add: min_rocks_write_fcntl_0_0_body54_def prog_checks open_checks)

lemma min_rocks_write_fcntl_0_0_body55_ok: "body_ok (Suc 0) 145 min_rocks_write_fcntl_0_0_body55" "counted min_rocks_write_fcntl_0_0_body55" "calls min_rocks_write_fcntl_0_0_body55 = 14" "opened_in m min_rocks_write_fcntl_0_0_body55 = []"
  by (simp_all add: min_rocks_write_fcntl_0_0_body55_def prog_checks open_checks)

lemma min_rocks_write_fcntl_0_0_body56_ok: "body_ok (Suc 0) 145 min_rocks_write_fcntl_0_0_body56" "counted min_rocks_write_fcntl_0_0_body56" "calls min_rocks_write_fcntl_0_0_body56 = 14" "opened_in m min_rocks_write_fcntl_0_0_body56 = []"
  by (simp_all add: min_rocks_write_fcntl_0_0_body56_def prog_checks open_checks)

lemma min_rocks_write_fcntl_0_0_body57_ok: "body_ok (Suc 0) 145 min_rocks_write_fcntl_0_0_body57" "counted min_rocks_write_fcntl_0_0_body57" "calls min_rocks_write_fcntl_0_0_body57 = 14" "opened_in m min_rocks_write_fcntl_0_0_body57 = []"
  by (simp_all add: min_rocks_write_fcntl_0_0_body57_def prog_checks open_checks)

lemma min_rocks_write_fcntl_0_0_body58_ok: "body_ok (Suc 0) 145 min_rocks_write_fcntl_0_0_body58" "counted min_rocks_write_fcntl_0_0_body58" "calls min_rocks_write_fcntl_0_0_body58 = 14" "opened_in m min_rocks_write_fcntl_0_0_body58 = []"
  by (simp_all add: min_rocks_write_fcntl_0_0_body58_def prog_checks open_checks)

lemma min_rocks_write_fcntl_0_0_body59_ok: "body_ok (Suc 0) 145 min_rocks_write_fcntl_0_0_body59" "counted min_rocks_write_fcntl_0_0_body59" "calls min_rocks_write_fcntl_0_0_body59 = 14" "opened_in m min_rocks_write_fcntl_0_0_body59 = []"
  by (simp_all add: min_rocks_write_fcntl_0_0_body59_def prog_checks open_checks)

lemma min_rocks_write_fcntl_0_0_body60_ok: "body_ok (Suc 0) 145 min_rocks_write_fcntl_0_0_body60" "counted min_rocks_write_fcntl_0_0_body60" "calls min_rocks_write_fcntl_0_0_body60 = 14" "opened_in m min_rocks_write_fcntl_0_0_body60 = []"
  by (simp_all add: min_rocks_write_fcntl_0_0_body60_def prog_checks open_checks)

lemma min_rocks_write_fcntl_0_0_body61_ok: "body_ok (Suc 0) 145 min_rocks_write_fcntl_0_0_body61" "counted min_rocks_write_fcntl_0_0_body61" "calls min_rocks_write_fcntl_0_0_body61 = 14" "opened_in m min_rocks_write_fcntl_0_0_body61 = []"
  by (simp_all add: min_rocks_write_fcntl_0_0_body61_def prog_checks open_checks)

lemma min_rocks_write_fcntl_0_0_body62_ok: "body_ok (Suc 0) 145 min_rocks_write_fcntl_0_0_body62" "counted min_rocks_write_fcntl_0_0_body62" "calls min_rocks_write_fcntl_0_0_body62 = 14" "opened_in m min_rocks_write_fcntl_0_0_body62 = []"
  by (simp_all add: min_rocks_write_fcntl_0_0_body62_def prog_checks open_checks)

lemma min_rocks_write_fcntl_0_0_body63_ok: "body_ok (Suc 0) 145 min_rocks_write_fcntl_0_0_body63" "counted min_rocks_write_fcntl_0_0_body63" "calls min_rocks_write_fcntl_0_0_body63 = 14" "opened_in m min_rocks_write_fcntl_0_0_body63 = []"
  by (simp_all add: min_rocks_write_fcntl_0_0_body63_def prog_checks open_checks)

lemma min_rocks_write_fcntl_0_0_body64_ok: "body_ok (Suc 0) 145 min_rocks_write_fcntl_0_0_body64" "counted min_rocks_write_fcntl_0_0_body64" "calls min_rocks_write_fcntl_0_0_body64 = 14" "opened_in m min_rocks_write_fcntl_0_0_body64 = []"
  by (simp_all add: min_rocks_write_fcntl_0_0_body64_def prog_checks open_checks)

lemma min_rocks_write_fcntl_0_0_body65_ok: "body_ok (Suc 0) 145 min_rocks_write_fcntl_0_0_body65" "counted min_rocks_write_fcntl_0_0_body65" "calls min_rocks_write_fcntl_0_0_body65 = 14" "opened_in m min_rocks_write_fcntl_0_0_body65 = []"
  by (simp_all add: min_rocks_write_fcntl_0_0_body65_def prog_checks open_checks)

lemma min_rocks_write_fcntl_0_0_body66_ok: "body_ok (Suc 0) 145 min_rocks_write_fcntl_0_0_body66" "counted min_rocks_write_fcntl_0_0_body66" "calls min_rocks_write_fcntl_0_0_body66 = 14" "opened_in m min_rocks_write_fcntl_0_0_body66 = []"
  by (simp_all add: min_rocks_write_fcntl_0_0_body66_def prog_checks open_checks)

lemma min_rocks_write_fcntl_0_0_body67_ok: "body_ok (Suc 0) 145 min_rocks_write_fcntl_0_0_body67" "counted min_rocks_write_fcntl_0_0_body67" "calls min_rocks_write_fcntl_0_0_body67 = 14" "opened_in m min_rocks_write_fcntl_0_0_body67 = []"
  by (simp_all add: min_rocks_write_fcntl_0_0_body67_def prog_checks open_checks)

lemma min_rocks_write_fcntl_0_0_body68_ok: "body_ok (Suc 0) 145 min_rocks_write_fcntl_0_0_body68" "counted min_rocks_write_fcntl_0_0_body68" "calls min_rocks_write_fcntl_0_0_body68 = 14" "opened_in m min_rocks_write_fcntl_0_0_body68 = []"
  by (simp_all add: min_rocks_write_fcntl_0_0_body68_def prog_checks open_checks)

lemma min_rocks_write_fcntl_0_0_body69_ok: "body_ok (Suc 0) 145 min_rocks_write_fcntl_0_0_body69" "counted min_rocks_write_fcntl_0_0_body69" "calls min_rocks_write_fcntl_0_0_body69 = 14" "opened_in m min_rocks_write_fcntl_0_0_body69 = []"
  by (simp_all add: min_rocks_write_fcntl_0_0_body69_def prog_checks open_checks)

lemma min_rocks_write_fcntl_0_0_body70_ok: "body_ok (Suc 0) 145 min_rocks_write_fcntl_0_0_body70" "counted min_rocks_write_fcntl_0_0_body70" "calls min_rocks_write_fcntl_0_0_body70 = 14" "opened_in m min_rocks_write_fcntl_0_0_body70 = []"
  by (simp_all add: min_rocks_write_fcntl_0_0_body70_def prog_checks open_checks)

lemma min_rocks_write_fcntl_0_0_body71_ok: "body_ok (Suc 0) 145 min_rocks_write_fcntl_0_0_body71" "counted min_rocks_write_fcntl_0_0_body71" "calls min_rocks_write_fcntl_0_0_body71 = 14" "opened_in m min_rocks_write_fcntl_0_0_body71 = []"
  by (simp_all add: min_rocks_write_fcntl_0_0_body71_def prog_checks open_checks)

lemma min_rocks_write_fcntl_0_0_body72_ok: "body_ok (Suc 0) 145 min_rocks_write_fcntl_0_0_body72" "counted min_rocks_write_fcntl_0_0_body72" "calls min_rocks_write_fcntl_0_0_body72 = 14" "opened_in m min_rocks_write_fcntl_0_0_body72 = []"
  by (simp_all add: min_rocks_write_fcntl_0_0_body72_def prog_checks open_checks)

lemma min_rocks_write_fcntl_0_0_body73_ok: "body_ok (Suc 0) 145 min_rocks_write_fcntl_0_0_body73" "counted min_rocks_write_fcntl_0_0_body73" "calls min_rocks_write_fcntl_0_0_body73 = 14" "opened_in m min_rocks_write_fcntl_0_0_body73 = []"
  by (simp_all add: min_rocks_write_fcntl_0_0_body73_def prog_checks open_checks)

lemma min_rocks_write_fcntl_0_0_body74_ok: "body_ok (Suc 0) 145 min_rocks_write_fcntl_0_0_body74" "counted min_rocks_write_fcntl_0_0_body74" "calls min_rocks_write_fcntl_0_0_body74 = 14" "opened_in m min_rocks_write_fcntl_0_0_body74 = []"
  by (simp_all add: min_rocks_write_fcntl_0_0_body74_def prog_checks open_checks)

lemma min_rocks_write_fcntl_0_0_body75_ok: "body_ok (Suc 0) 145 min_rocks_write_fcntl_0_0_body75" "counted min_rocks_write_fcntl_0_0_body75" "calls min_rocks_write_fcntl_0_0_body75 = 14" "opened_in m min_rocks_write_fcntl_0_0_body75 = []"
  by (simp_all add: min_rocks_write_fcntl_0_0_body75_def prog_checks open_checks)

lemma min_rocks_write_fcntl_0_0_body76_ok: "body_ok (Suc 0) 145 min_rocks_write_fcntl_0_0_body76" "counted min_rocks_write_fcntl_0_0_body76" "calls min_rocks_write_fcntl_0_0_body76 = 14" "opened_in m min_rocks_write_fcntl_0_0_body76 = []"
  by (simp_all add: min_rocks_write_fcntl_0_0_body76_def prog_checks open_checks)

lemma min_rocks_write_fcntl_0_0_body77_ok: "body_ok (Suc 0) 145 min_rocks_write_fcntl_0_0_body77" "counted min_rocks_write_fcntl_0_0_body77" "calls min_rocks_write_fcntl_0_0_body77 = 14" "opened_in m min_rocks_write_fcntl_0_0_body77 = []"
  by (simp_all add: min_rocks_write_fcntl_0_0_body77_def prog_checks open_checks)

lemma min_rocks_write_fcntl_0_0_body78_ok: "body_ok (Suc 0) 145 min_rocks_write_fcntl_0_0_body78" "counted min_rocks_write_fcntl_0_0_body78" "calls min_rocks_write_fcntl_0_0_body78 = 14" "opened_in m min_rocks_write_fcntl_0_0_body78 = []"
  by (simp_all add: min_rocks_write_fcntl_0_0_body78_def prog_checks open_checks)

lemma min_rocks_write_fcntl_0_0_body79_ok: "body_ok (Suc 0) 145 min_rocks_write_fcntl_0_0_body79" "counted min_rocks_write_fcntl_0_0_body79" "calls min_rocks_write_fcntl_0_0_body79 = 14" "opened_in m min_rocks_write_fcntl_0_0_body79 = []"
  by (simp_all add: min_rocks_write_fcntl_0_0_body79_def prog_checks open_checks)

lemma min_rocks_write_fcntl_0_0_body80_ok: "body_ok (Suc 0) 145 min_rocks_write_fcntl_0_0_body80" "counted min_rocks_write_fcntl_0_0_body80" "calls min_rocks_write_fcntl_0_0_body80 = 14" "opened_in m min_rocks_write_fcntl_0_0_body80 = []"
  by (simp_all add: min_rocks_write_fcntl_0_0_body80_def prog_checks open_checks)

lemma min_rocks_write_fcntl_0_0_body81_ok: "body_ok (Suc 0) 145 min_rocks_write_fcntl_0_0_body81" "counted min_rocks_write_fcntl_0_0_body81" "calls min_rocks_write_fcntl_0_0_body81 = 14" "opened_in m min_rocks_write_fcntl_0_0_body81 = []"
  by (simp_all add: min_rocks_write_fcntl_0_0_body81_def prog_checks open_checks)

lemma min_rocks_write_fcntl_0_0_body82_ok: "body_ok (Suc 0) 145 min_rocks_write_fcntl_0_0_body82" "counted min_rocks_write_fcntl_0_0_body82" "calls min_rocks_write_fcntl_0_0_body82 = 14" "opened_in m min_rocks_write_fcntl_0_0_body82 = []"
  by (simp_all add: min_rocks_write_fcntl_0_0_body82_def prog_checks open_checks)

lemma min_rocks_write_fcntl_0_0_body83_ok: "body_ok (Suc 0) 145 min_rocks_write_fcntl_0_0_body83" "counted min_rocks_write_fcntl_0_0_body83" "calls min_rocks_write_fcntl_0_0_body83 = 14" "opened_in m min_rocks_write_fcntl_0_0_body83 = []"
  by (simp_all add: min_rocks_write_fcntl_0_0_body83_def prog_checks open_checks)

lemma min_rocks_write_fcntl_0_0_body84_ok: "body_ok (Suc 0) 145 min_rocks_write_fcntl_0_0_body84" "counted min_rocks_write_fcntl_0_0_body84" "calls min_rocks_write_fcntl_0_0_body84 = 14" "opened_in m min_rocks_write_fcntl_0_0_body84 = []"
  by (simp_all add: min_rocks_write_fcntl_0_0_body84_def prog_checks open_checks)

lemma min_rocks_write_fcntl_0_0_body85_ok: "body_ok (Suc 0) 145 min_rocks_write_fcntl_0_0_body85" "counted min_rocks_write_fcntl_0_0_body85" "calls min_rocks_write_fcntl_0_0_body85 = 14" "opened_in m min_rocks_write_fcntl_0_0_body85 = []"
  by (simp_all add: min_rocks_write_fcntl_0_0_body85_def prog_checks open_checks)

lemma min_rocks_write_fcntl_0_0_body86_ok: "body_ok (Suc 0) 145 min_rocks_write_fcntl_0_0_body86" "counted min_rocks_write_fcntl_0_0_body86" "calls min_rocks_write_fcntl_0_0_body86 = 14" "opened_in m min_rocks_write_fcntl_0_0_body86 = []"
  by (simp_all add: min_rocks_write_fcntl_0_0_body86_def prog_checks open_checks)

lemma min_rocks_write_fcntl_0_0_body87_ok: "body_ok (Suc 0) 145 min_rocks_write_fcntl_0_0_body87" "counted min_rocks_write_fcntl_0_0_body87" "calls min_rocks_write_fcntl_0_0_body87 = 14" "opened_in m min_rocks_write_fcntl_0_0_body87 = []"
  by (simp_all add: min_rocks_write_fcntl_0_0_body87_def prog_checks open_checks)

lemma min_rocks_write_fcntl_0_0_body88_ok: "body_ok (Suc 0) 145 min_rocks_write_fcntl_0_0_body88" "counted min_rocks_write_fcntl_0_0_body88" "calls min_rocks_write_fcntl_0_0_body88 = 14" "opened_in m min_rocks_write_fcntl_0_0_body88 = []"
  by (simp_all add: min_rocks_write_fcntl_0_0_body88_def prog_checks open_checks)

lemma min_rocks_write_fcntl_0_0_body89_ok: "body_ok (Suc 0) 145 min_rocks_write_fcntl_0_0_body89" "counted min_rocks_write_fcntl_0_0_body89" "calls min_rocks_write_fcntl_0_0_body89 = 14" "opened_in m min_rocks_write_fcntl_0_0_body89 = []"
  by (simp_all add: min_rocks_write_fcntl_0_0_body89_def prog_checks open_checks)

lemma min_rocks_write_fcntl_0_0_body90_ok: "body_ok (Suc 0) 145 min_rocks_write_fcntl_0_0_body90" "counted min_rocks_write_fcntl_0_0_body90" "calls min_rocks_write_fcntl_0_0_body90 = 14" "opened_in m min_rocks_write_fcntl_0_0_body90 = []"
  by (simp_all add: min_rocks_write_fcntl_0_0_body90_def prog_checks open_checks)

lemma min_rocks_write_fcntl_0_0_body91_ok: "body_ok (Suc 0) 145 min_rocks_write_fcntl_0_0_body91" "counted min_rocks_write_fcntl_0_0_body91" "calls min_rocks_write_fcntl_0_0_body91 = 14" "opened_in m min_rocks_write_fcntl_0_0_body91 = []"
  by (simp_all add: min_rocks_write_fcntl_0_0_body91_def prog_checks open_checks)

lemma min_rocks_write_fcntl_0_0_body92_ok: "body_ok (Suc 0) 145 min_rocks_write_fcntl_0_0_body92" "counted min_rocks_write_fcntl_0_0_body92" "calls min_rocks_write_fcntl_0_0_body92 = 14" "opened_in m min_rocks_write_fcntl_0_0_body92 = []"
  by (simp_all add: min_rocks_write_fcntl_0_0_body92_def prog_checks open_checks)

lemma min_rocks_write_fcntl_0_0_body93_ok: "body_ok (Suc 0) 145 min_rocks_write_fcntl_0_0_body93" "counted min_rocks_write_fcntl_0_0_body93" "calls min_rocks_write_fcntl_0_0_body93 = 14" "opened_in m min_rocks_write_fcntl_0_0_body93 = []"
  by (simp_all add: min_rocks_write_fcntl_0_0_body93_def prog_checks open_checks)

lemma min_rocks_write_fcntl_0_0_body94_ok: "body_ok (Suc 0) 145 min_rocks_write_fcntl_0_0_body94" "counted min_rocks_write_fcntl_0_0_body94" "calls min_rocks_write_fcntl_0_0_body94 = 14" "opened_in m min_rocks_write_fcntl_0_0_body94 = []"
  by (simp_all add: min_rocks_write_fcntl_0_0_body94_def prog_checks open_checks)

lemma min_rocks_write_fcntl_0_0_body95_ok: "body_ok (Suc 0) 145 min_rocks_write_fcntl_0_0_body95" "counted min_rocks_write_fcntl_0_0_body95" "calls min_rocks_write_fcntl_0_0_body95 = 14" "opened_in m min_rocks_write_fcntl_0_0_body95 = []"
  by (simp_all add: min_rocks_write_fcntl_0_0_body95_def prog_checks open_checks)

lemma min_rocks_write_fcntl_0_0_body96_ok: "body_ok (Suc 0) 145 min_rocks_write_fcntl_0_0_body96" "counted min_rocks_write_fcntl_0_0_body96" "calls min_rocks_write_fcntl_0_0_body96 = 14" "opened_in m min_rocks_write_fcntl_0_0_body96 = []"
  by (simp_all add: min_rocks_write_fcntl_0_0_body96_def prog_checks open_checks)

lemma min_rocks_write_fcntl_0_0_body97_ok: "body_ok (Suc 0) 145 min_rocks_write_fcntl_0_0_body97" "counted min_rocks_write_fcntl_0_0_body97" "calls min_rocks_write_fcntl_0_0_body97 = 14" "opened_in m min_rocks_write_fcntl_0_0_body97 = []"
  by (simp_all add: min_rocks_write_fcntl_0_0_body97_def prog_checks open_checks)

lemma min_rocks_write_fcntl_0_0_body98_ok: "body_ok (Suc 0) 145 min_rocks_write_fcntl_0_0_body98" "counted min_rocks_write_fcntl_0_0_body98" "calls min_rocks_write_fcntl_0_0_body98 = 14" "opened_in m min_rocks_write_fcntl_0_0_body98 = []"
  by (simp_all add: min_rocks_write_fcntl_0_0_body98_def prog_checks open_checks)

lemma min_rocks_write_fcntl_0_0_body99_ok: "body_ok (Suc 0) 145 min_rocks_write_fcntl_0_0_body99" "counted min_rocks_write_fcntl_0_0_body99" "calls min_rocks_write_fcntl_0_0_body99 = 14" "opened_in m min_rocks_write_fcntl_0_0_body99 = []"
  by (simp_all add: min_rocks_write_fcntl_0_0_body99_def prog_checks open_checks)

lemma min_rocks_write_fcntl_0_0_body100_ok: "body_ok (Suc 0) 145 min_rocks_write_fcntl_0_0_body100" "counted min_rocks_write_fcntl_0_0_body100" "calls min_rocks_write_fcntl_0_0_body100 = 14" "opened_in m min_rocks_write_fcntl_0_0_body100 = []"
  by (simp_all add: min_rocks_write_fcntl_0_0_body100_def prog_checks open_checks)

lemma min_rocks_write_fcntl_0_0_body101_ok: "body_ok (Suc 0) 145 min_rocks_write_fcntl_0_0_body101" "counted min_rocks_write_fcntl_0_0_body101" "calls min_rocks_write_fcntl_0_0_body101 = 14" "opened_in m min_rocks_write_fcntl_0_0_body101 = []"
  by (simp_all add: min_rocks_write_fcntl_0_0_body101_def prog_checks open_checks)

lemma min_rocks_write_fcntl_0_0_body102_ok: "body_ok (Suc 0) 145 min_rocks_write_fcntl_0_0_body102" "counted min_rocks_write_fcntl_0_0_body102" "calls min_rocks_write_fcntl_0_0_body102 = 14" "opened_in m min_rocks_write_fcntl_0_0_body102 = []"
  by (simp_all add: min_rocks_write_fcntl_0_0_body102_def prog_checks open_checks)

lemma min_rocks_write_fcntl_0_0_body103_ok: "body_ok (Suc 0) 145 min_rocks_write_fcntl_0_0_body103" "counted min_rocks_write_fcntl_0_0_body103" "calls min_rocks_write_fcntl_0_0_body103 = 14" "opened_in m min_rocks_write_fcntl_0_0_body103 = []"
  by (simp_all add: min_rocks_write_fcntl_0_0_body103_def prog_checks open_checks)

lemma min_rocks_write_fcntl_0_0_body104_ok: "body_ok (Suc 0) 145 min_rocks_write_fcntl_0_0_body104" "counted min_rocks_write_fcntl_0_0_body104" "calls min_rocks_write_fcntl_0_0_body104 = 14" "opened_in m min_rocks_write_fcntl_0_0_body104 = []"
  by (simp_all add: min_rocks_write_fcntl_0_0_body104_def prog_checks open_checks)

lemma min_rocks_write_fcntl_0_0_body105_ok: "body_ok (Suc 0) 145 min_rocks_write_fcntl_0_0_body105" "counted min_rocks_write_fcntl_0_0_body105" "calls min_rocks_write_fcntl_0_0_body105 = 14" "opened_in m min_rocks_write_fcntl_0_0_body105 = []"
  by (simp_all add: min_rocks_write_fcntl_0_0_body105_def prog_checks open_checks)

lemma min_rocks_write_fcntl_0_0_body106_ok: "body_ok (Suc 0) 145 min_rocks_write_fcntl_0_0_body106" "counted min_rocks_write_fcntl_0_0_body106" "calls min_rocks_write_fcntl_0_0_body106 = 14" "opened_in m min_rocks_write_fcntl_0_0_body106 = []"
  by (simp_all add: min_rocks_write_fcntl_0_0_body106_def prog_checks open_checks)

lemma min_rocks_write_fcntl_0_0_body107_ok: "body_ok (Suc 0) 145 min_rocks_write_fcntl_0_0_body107" "counted min_rocks_write_fcntl_0_0_body107" "calls min_rocks_write_fcntl_0_0_body107 = 14" "opened_in m min_rocks_write_fcntl_0_0_body107 = []"
  by (simp_all add: min_rocks_write_fcntl_0_0_body107_def prog_checks open_checks)

lemma min_rocks_write_fcntl_0_0_body108_ok: "body_ok (Suc 0) 145 min_rocks_write_fcntl_0_0_body108" "counted min_rocks_write_fcntl_0_0_body108" "calls min_rocks_write_fcntl_0_0_body108 = 14" "opened_in m min_rocks_write_fcntl_0_0_body108 = []"
  by (simp_all add: min_rocks_write_fcntl_0_0_body108_def prog_checks open_checks)

lemma min_rocks_write_fcntl_0_0_body109_ok: "body_ok (Suc 0) 145 min_rocks_write_fcntl_0_0_body109" "counted min_rocks_write_fcntl_0_0_body109" "calls min_rocks_write_fcntl_0_0_body109 = 14" "opened_in m min_rocks_write_fcntl_0_0_body109 = []"
  by (simp_all add: min_rocks_write_fcntl_0_0_body109_def prog_checks open_checks)

lemma min_rocks_write_fcntl_0_0_body110_ok: "body_ok (Suc 0) 145 min_rocks_write_fcntl_0_0_body110" "counted min_rocks_write_fcntl_0_0_body110" "calls min_rocks_write_fcntl_0_0_body110 = 14" "opened_in m min_rocks_write_fcntl_0_0_body110 = []"
  by (simp_all add: min_rocks_write_fcntl_0_0_body110_def prog_checks open_checks)

lemma min_rocks_write_fcntl_0_0_body111_ok: "body_ok (Suc 0) 145 min_rocks_write_fcntl_0_0_body111" "counted min_rocks_write_fcntl_0_0_body111" "calls min_rocks_write_fcntl_0_0_body111 = 14" "opened_in m min_rocks_write_fcntl_0_0_body111 = []"
  by (simp_all add: min_rocks_write_fcntl_0_0_body111_def prog_checks open_checks)

lemma min_rocks_write_fcntl_0_0_body112_ok: "body_ok (Suc 0) 145 min_rocks_write_fcntl_0_0_body112" "counted min_rocks_write_fcntl_0_0_body112" "calls min_rocks_write_fcntl_0_0_body112 = 14" "opened_in m min_rocks_write_fcntl_0_0_body112 = []"
  by (simp_all add: min_rocks_write_fcntl_0_0_body112_def prog_checks open_checks)

lemma min_rocks_write_fcntl_0_0_body113_ok: "body_ok (Suc 0) 145 min_rocks_write_fcntl_0_0_body113" "counted min_rocks_write_fcntl_0_0_body113" "calls min_rocks_write_fcntl_0_0_body113 = 14" "opened_in m min_rocks_write_fcntl_0_0_body113 = []"
  by (simp_all add: min_rocks_write_fcntl_0_0_body113_def prog_checks open_checks)

lemma min_rocks_write_fcntl_0_0_body114_ok: "body_ok (Suc 0) 145 min_rocks_write_fcntl_0_0_body114" "counted min_rocks_write_fcntl_0_0_body114" "calls min_rocks_write_fcntl_0_0_body114 = 14" "opened_in m min_rocks_write_fcntl_0_0_body114 = []"
  by (simp_all add: min_rocks_write_fcntl_0_0_body114_def prog_checks open_checks)

lemma min_rocks_write_fcntl_0_0_body115_ok: "body_ok (Suc 0) 145 min_rocks_write_fcntl_0_0_body115" "counted min_rocks_write_fcntl_0_0_body115" "calls min_rocks_write_fcntl_0_0_body115 = 14" "opened_in m min_rocks_write_fcntl_0_0_body115 = []"
  by (simp_all add: min_rocks_write_fcntl_0_0_body115_def prog_checks open_checks)

lemma min_rocks_write_fcntl_0_0_body116_ok: "body_ok (Suc 0) 145 min_rocks_write_fcntl_0_0_body116" "counted min_rocks_write_fcntl_0_0_body116" "calls min_rocks_write_fcntl_0_0_body116 = 14" "opened_in m min_rocks_write_fcntl_0_0_body116 = []"
  by (simp_all add: min_rocks_write_fcntl_0_0_body116_def prog_checks open_checks)

lemma min_rocks_write_fcntl_0_0_body117_ok: "body_ok (Suc 0) 145 min_rocks_write_fcntl_0_0_body117" "counted min_rocks_write_fcntl_0_0_body117" "calls min_rocks_write_fcntl_0_0_body117 = 14" "opened_in m min_rocks_write_fcntl_0_0_body117 = []"
  by (simp_all add: min_rocks_write_fcntl_0_0_body117_def prog_checks open_checks)

lemma min_rocks_write_fcntl_0_0_body118_ok: "body_ok (Suc 0) 145 min_rocks_write_fcntl_0_0_body118" "counted min_rocks_write_fcntl_0_0_body118" "calls min_rocks_write_fcntl_0_0_body118 = 14" "opened_in m min_rocks_write_fcntl_0_0_body118 = []"
  by (simp_all add: min_rocks_write_fcntl_0_0_body118_def prog_checks open_checks)

lemma min_rocks_write_fcntl_0_0_body119_ok: "body_ok (Suc 0) 145 min_rocks_write_fcntl_0_0_body119" "counted min_rocks_write_fcntl_0_0_body119" "calls min_rocks_write_fcntl_0_0_body119 = 14" "opened_in m min_rocks_write_fcntl_0_0_body119 = []"
  by (simp_all add: min_rocks_write_fcntl_0_0_body119_def prog_checks open_checks)

lemma min_rocks_write_fcntl_0_0_body120_ok: "body_ok (Suc 0) 145 min_rocks_write_fcntl_0_0_body120" "counted min_rocks_write_fcntl_0_0_body120" "calls min_rocks_write_fcntl_0_0_body120 = 14" "opened_in m min_rocks_write_fcntl_0_0_body120 = []"
  by (simp_all add: min_rocks_write_fcntl_0_0_body120_def prog_checks open_checks)

end
