(* ===== verification/CSB_Progs_Rocksdb_g_p2.thy ===== *)
theory CSB_Progs_Rocksdb_g_p2
  imports CSB_Syz_Files
begin

text \<open>
  Statements of min\_rocks\_write\_fcntl\_0\_0 (bench/targets/rocksdb), in the
  order of the file; the program is put together in CSB\_Progs\_Rocksdb\_g.
\<close>

definition min_rocks_write_fcntl_0_0_body121 :: "stmt list" where
  "min_rocks_write_fcntl_0_0_body121 = [
    Syscall NR_write [Reg 0, Write_buf, Imm 0x8a], Count, Syscall NR_write [Reg 0, Write_buf, Imm 0x8a], Count,
    Syscall NR_write [Reg 0, Write_buf, Imm 0x8a], Count, Syscall NR_write [Reg 0, Write_buf, Imm 0x8a], Count,
    Syscall NR_write [Reg 0, Write_buf, Imm 0x8a], Count, Syscall NR_write [Reg 0, Write_buf, Imm 0x8a], Count,
    Syscall NR_write [Reg 0, Write_buf, Imm 0x8a], Count, Syscall NR_write [Reg 0, Write_buf, Imm 0x8a], Count,
    Syscall NR_write [Reg 0, Write_buf, Imm 0x8a], Count, Syscall NR_write [Reg 0, Write_buf, Imm 0x8a], Count,
    Syscall NR_write [Reg 0, Write_buf, Imm 0x8a], Count, Syscall NR_write [Reg 0, Write_buf, Imm 0x8a], Count,
    Syscall NR_write [Reg 0, Write_buf, Imm 0x8a], Count, Syscall NR_write [Reg 0, Write_buf, Imm 0x8a], Count]"

definition min_rocks_write_fcntl_0_0_body122 :: "stmt list" where
  "min_rocks_write_fcntl_0_0_body122 = [
    Syscall NR_write [Reg 0, Write_buf, Imm 0x8a], Count, Syscall NR_write [Reg 0, Write_buf, Imm 0x8a], Count,
    Syscall NR_write [Reg 0, Write_buf, Imm 0x8a], Count, Syscall NR_write [Reg 0, Write_buf, Imm 0x8a], Count,
    Syscall NR_write [Reg 0, Write_buf, Imm 0x8a], Count, Syscall NR_write [Reg 0, Write_buf, Imm 0x8a], Count,
    Syscall NR_write [Reg 0, Write_buf, Imm 0x8a], Count, Syscall NR_write [Reg 0, Write_buf, Imm 0x8a], Count,
    Syscall NR_write [Reg 0, Write_buf, Imm 0x8a], Count, Syscall NR_write [Reg 0, Write_buf, Imm 0x8a], Count,
    Syscall NR_write [Reg 0, Write_buf, Imm 0x8a], Count, Syscall NR_write [Reg 0, Write_buf, Imm 0x8a], Count,
    Syscall NR_write [Reg 0, Write_buf, Imm 0x8a], Count, Syscall NR_write [Reg 0, Write_buf, Imm 0x8a], Count]"

definition min_rocks_write_fcntl_0_0_body123 :: "stmt list" where
  "min_rocks_write_fcntl_0_0_body123 = [
    Syscall NR_write [Reg 0, Write_buf, Imm 0x8a], Count, Syscall NR_write [Reg 0, Write_buf, Imm 0x8a], Count,
    Syscall NR_write [Reg 0, Write_buf, Imm 0x8a], Count, Syscall NR_write [Reg 0, Write_buf, Imm 0x8a], Count,
    Syscall NR_write [Reg 0, Write_buf, Imm 0x8a], Count, Syscall NR_write [Reg 0, Write_buf, Imm 0x8a], Count,
    Syscall NR_write [Reg 0, Write_buf, Imm 0x8a], Count, Syscall NR_write [Reg 0, Write_buf, Imm 0x8a], Count,
    Syscall NR_write [Reg 0, Write_buf, Imm 0x8a], Count, Syscall NR_write [Reg 0, Write_buf, Imm 0x8a], Count,
    Syscall NR_write [Reg 0, Write_buf, Imm 0x8a], Count, Syscall NR_write [Reg 0, Write_buf, Imm 0x8a], Count,
    Syscall NR_write [Reg 0, Write_buf, Imm 0x8a], Count, Syscall NR_write [Reg 0, Write_buf, Imm 0x8a], Count]"

definition min_rocks_write_fcntl_0_0_body124 :: "stmt list" where
  "min_rocks_write_fcntl_0_0_body124 = [
    Syscall NR_write [Reg 0, Write_buf, Imm 0x8a], Count, Syscall NR_write [Reg 0, Write_buf, Imm 0x8a], Count,
    Syscall NR_write [Reg 0, Write_buf, Imm 0x8a], Count, Syscall NR_write [Reg 0, Write_buf, Imm 0x8a], Count,
    Syscall NR_write [Reg 0, Write_buf, Imm 0x8a], Count, Syscall NR_write [Reg 0, Write_buf, Imm 0x8a], Count,
    Syscall NR_write [Reg 0, Write_buf, Imm 0x8a], Count, Syscall NR_write [Reg 0, Write_buf, Imm 0x8a], Count,
    Syscall NR_write [Reg 0, Write_buf, Imm 0x8a], Count, Syscall NR_write [Reg 0, Write_buf, Imm 0x8a], Count,
    Syscall NR_write [Reg 0, Write_buf, Imm 0x8a], Count, Syscall NR_write [Reg 0, Write_buf, Imm 0x8a], Count,
    Syscall NR_write [Reg 0, Write_buf, Imm 0x8a], Count, Syscall NR_write [Reg 0, Write_buf, Imm 0x8a], Count]"

definition min_rocks_write_fcntl_0_0_body125 :: "stmt list" where
  "min_rocks_write_fcntl_0_0_body125 = [
    Syscall NR_write [Reg 0, Write_buf, Imm 0x8a], Count, Syscall NR_write [Reg 0, Write_buf, Imm 0x8a], Count,
    Syscall NR_write [Reg 0, Write_buf, Imm 0x8a], Count, Syscall NR_write [Reg 0, Write_buf, Imm 0x8a], Count,
    Syscall NR_write [Reg 0, Write_buf, Imm 0x8a], Count, Syscall NR_write [Reg 0, Write_buf, Imm 0x8a], Count,
    Syscall NR_write [Reg 0, Write_buf, Imm 0x8a], Count, Syscall NR_write [Reg 0, Write_buf, Imm 0x8a], Count,
    Syscall NR_write [Reg 0, Write_buf, Imm 0x8a], Count, Syscall NR_write [Reg 0, Write_buf, Imm 0x8a], Count,
    Syscall NR_write [Reg 0, Write_buf, Imm 0x8a], Count, Syscall NR_write [Reg 0, Write_buf, Imm 0x8a], Count,
    Syscall NR_write [Reg 0, Write_buf, Imm 0x8a], Count, Syscall NR_write [Reg 0, Write_buf, Imm 0x8a], Count]"

definition min_rocks_write_fcntl_0_0_body126 :: "stmt list" where
  "min_rocks_write_fcntl_0_0_body126 = [
    Syscall NR_write [Reg 0, Write_buf, Imm 0x8a], Count, Syscall NR_write [Reg 0, Write_buf, Imm 0x8a], Count,
    Syscall NR_write [Reg 0, Write_buf, Imm 0x8a], Count, Syscall NR_write [Reg 0, Write_buf, Imm 0x8a], Count,
    Syscall NR_write [Reg 0, Write_buf, Imm 0x8a], Count, Syscall NR_write [Reg 0, Write_buf, Imm 0x8a], Count,
    Syscall NR_write [Reg 0, Write_buf, Imm 0x8a], Count, Syscall NR_write [Reg 0, Write_buf, Imm 0x8a], Count,
    Syscall NR_write [Reg 0, Write_buf, Imm 0x8a], Count, Syscall NR_write [Reg 0, Write_buf, Imm 0x8a], Count,
    Syscall NR_write [Reg 0, Write_buf, Imm 0x8a], Count, Syscall NR_write [Reg 0, Write_buf, Imm 0x8a], Count,
    Syscall NR_write [Reg 0, Write_buf, Imm 0x8a], Count, Syscall NR_write [Reg 0, Write_buf, Imm 0x8a], Count]"

definition min_rocks_write_fcntl_0_0_body127 :: "stmt list" where
  "min_rocks_write_fcntl_0_0_body127 = [
    Syscall NR_write [Reg 0, Write_buf, Imm 0x8a], Count, Syscall NR_write [Reg 0, Write_buf, Imm 0x8a], Count,
    Syscall NR_write [Reg 0, Write_buf, Imm 0x8a], Count, Syscall NR_write [Reg 0, Write_buf, Imm 0x8a], Count,
    Syscall NR_write [Reg 0, Write_buf, Imm 0x8a], Count, Syscall NR_write [Reg 0, Write_buf, Imm 0x8a], Count,
    Syscall NR_write [Reg 0, Write_buf, Imm 0x8a], Count, Syscall NR_write [Reg 0, Write_buf, Imm 0x8a], Count,
    Syscall NR_write [Reg 0, Write_buf, Imm 0x8a], Count, Syscall NR_write [Reg 0, Write_buf, Imm 0x8a], Count,
    Syscall NR_write [Reg 0, Write_buf, Imm 0x8a], Count, Syscall NR_write [Reg 0, Write_buf, Imm 0x8a], Count,
    Syscall NR_write [Reg 0, Write_buf, Imm 0x8a], Count, Syscall NR_write [Reg 0, Write_buf, Imm 0x8a], Count]"

definition min_rocks_write_fcntl_0_0_body128 :: "stmt list" where
  "min_rocks_write_fcntl_0_0_body128 = [
    Syscall NR_write [Reg 0, Write_buf, Imm 0x8a], Count, Syscall NR_write [Reg 0, Write_buf, Imm 0x8a], Count,
    Syscall NR_write [Reg 0, Write_buf, Imm 0x8a], Count, Syscall NR_write [Reg 0, Write_buf, Imm 0x8a], Count,
    Syscall NR_write [Reg 0, Write_buf, Imm 0x8a], Count, Syscall NR_write [Reg 0, Write_buf, Imm 0x8a], Count,
    Syscall NR_write [Reg 0, Write_buf, Imm 0x8a], Count, Syscall NR_write [Reg 0, Write_buf, Imm 0x8a], Count,
    Syscall NR_write [Reg 0, Write_buf, Imm 0x8a], Count, Syscall NR_write [Reg 0, Write_buf, Imm 0x8a], Count,
    Syscall NR_write [Reg 0, Write_buf, Imm 0x8a], Count, Syscall NR_write [Reg 0, Write_buf, Imm 0x8a], Count,
    Syscall NR_write [Reg 0, Write_buf, Imm 0x8a], Count, Syscall NR_write [Reg 0, Write_buf, Imm 0x8a], Count]"

definition min_rocks_write_fcntl_0_0_body129 :: "stmt list" where
  "min_rocks_write_fcntl_0_0_body129 = [
    Syscall NR_write [Reg 0, Write_buf, Imm 0x8a], Count, Syscall NR_write [Reg 0, Write_buf, Imm 0x8a], Count,
    Syscall NR_write [Reg 0, Write_buf, Imm 0x8a], Count, Syscall NR_write [Reg 0, Write_buf, Imm 0x8a], Count,
    Syscall NR_write [Reg 0, Write_buf, Imm 0x8a], Count, Syscall NR_write [Reg 0, Write_buf, Imm 0x8a], Count,
    Syscall NR_write [Reg 0, Write_buf, Imm 0x8a], Count, Syscall NR_write [Reg 0, Write_buf, Imm 0x8a], Count,
    Syscall NR_write [Reg 0, Write_buf, Imm 0x8a], Count, Syscall NR_write [Reg 0, Write_buf, Imm 0x8a], Count,
    Syscall NR_write [Reg 0, Write_buf, Imm 0x8a], Count, Syscall NR_write [Reg 0, Write_buf, Imm 0x8a], Count,
    Syscall NR_write [Reg 0, Write_buf, Imm 0x8a], Count, Syscall NR_write [Reg 0, Write_buf, Imm 0x8a], Count]"

definition min_rocks_write_fcntl_0_0_body130 :: "stmt list" where
  "min_rocks_write_fcntl_0_0_body130 = [
    Syscall NR_write [Reg 0, Write_buf, Imm 0x8a], Count, Syscall NR_write [Reg 0, Write_buf, Imm 0x8a], Count,
    Syscall NR_write [Reg 0, Write_buf, Imm 0x8a], Count, Syscall NR_write [Reg 0, Write_buf, Imm 0x8a], Count,
    Syscall NR_write [Reg 0, Write_buf, Imm 0x8a], Count, Syscall NR_write [Reg 0, Write_buf, Imm 0x8a], Count,
    Syscall NR_write [Reg 0, Write_buf, Imm 0x8a], Count, Syscall NR_write [Reg 0, Write_buf, Imm 0x8a], Count,
    Syscall NR_write [Reg 0, Write_buf, Imm 0x8a], Count, Syscall NR_write [Reg 0, Write_buf, Imm 0x8a], Count,
    Syscall NR_write [Reg 0, Write_buf, Imm 0x8a], Count, Syscall NR_write [Reg 0, Write_buf, Imm 0x8a], Count,
    Syscall NR_write [Reg 0, Write_buf, Imm 0x8a], Count, Syscall NR_write [Reg 0, Write_buf, Imm 0x8a], Count]"

definition min_rocks_write_fcntl_0_0_body131 :: "stmt list" where
  "min_rocks_write_fcntl_0_0_body131 = [
    Syscall NR_write [Reg 0, Write_buf, Imm 0x8a], Count, Syscall NR_write [Reg 0, Write_buf, Imm 0x8a], Count,
    Syscall NR_write [Reg 0, Write_buf, Imm 0x8a], Count, Syscall NR_write [Reg 0, Write_buf, Imm 0x8a], Count,
    Syscall NR_write [Reg 0, Write_buf, Imm 0x8a], Count, Syscall NR_write [Reg 0, Write_buf, Imm 0x8a], Count,
    Syscall NR_write [Reg 0, Write_buf, Imm 0x8a], Count, Syscall NR_write [Reg 0, Write_buf, Imm 0x8a], Count,
    Syscall NR_write [Reg 0, Write_buf, Imm 0x8a], Count, Syscall NR_write [Reg 0, Write_buf, Imm 0x8a], Count,
    Syscall NR_write [Reg 0, Write_buf, Imm 0x8a], Count, Syscall NR_write [Reg 0, Write_buf, Imm 0x8a], Count,
    Syscall NR_write [Reg 0, Write_buf, Imm 0x8a], Count, Syscall NR_write [Reg 0, Write_buf, Imm 0x8a], Count]"

definition min_rocks_write_fcntl_0_0_body132 :: "stmt list" where
  "min_rocks_write_fcntl_0_0_body132 = [
    Syscall NR_write [Reg 0, Write_buf, Imm 0x8a], Count, Syscall NR_write [Reg 0, Write_buf, Imm 0x8a], Count,
    Syscall NR_write [Reg 0, Write_buf, Imm 0x8a], Count, Syscall NR_write [Reg 0, Write_buf, Imm 0x8a], Count,
    Syscall NR_write [Reg 0, Write_buf, Imm 0x8a], Count, Syscall NR_write [Reg 0, Write_buf, Imm 0x8a], Count,
    Syscall NR_write [Reg 0, Write_buf, Imm 0x8a], Count, Syscall NR_write [Reg 0, Write_buf, Imm 0x8a], Count,
    Syscall NR_write [Reg 0, Write_buf, Imm 0x8a], Count, Syscall NR_write [Reg 0, Write_buf, Imm 0x8a], Count,
    Syscall NR_write [Reg 0, Write_buf, Imm 0x8a], Count, Syscall NR_write [Reg 0, Write_buf, Imm 0x8a], Count,
    Syscall NR_write [Reg 0, Write_buf, Imm 0x8a], Count, Syscall NR_write [Reg 0, Write_buf, Imm 0x8a], Count]"

definition min_rocks_write_fcntl_0_0_body133 :: "stmt list" where
  "min_rocks_write_fcntl_0_0_body133 = [
    Syscall NR_write [Reg 0, Write_buf, Imm 0x8a], Count, Syscall NR_write [Reg 0, Write_buf, Imm 0x8a], Count,
    Syscall NR_write [Reg 0, Write_buf, Imm 0x8a], Count, Syscall NR_write [Reg 0, Write_buf, Imm 0x8a], Count,
    Syscall NR_write [Reg 0, Write_buf, Imm 0x8a], Count, Syscall NR_write [Reg 0, Write_buf, Imm 0x8a], Count,
    Syscall NR_write [Reg 0, Write_buf, Imm 0x8a], Count, Syscall NR_write [Reg 0, Write_buf, Imm 0x8a], Count,
    Syscall NR_write [Reg 0, Write_buf, Imm 0x8a], Count, Syscall NR_write [Reg 0, Write_buf, Imm 0x8a], Count,
    Syscall NR_write [Reg 0, Write_buf, Imm 0x8a], Count, Syscall NR_write [Reg 0, Write_buf, Imm 0x8a], Count,
    Syscall NR_write [Reg 0, Write_buf, Imm 0x8a], Count, Syscall NR_write [Reg 0, Write_buf, Imm 0x8a], Count]"

definition min_rocks_write_fcntl_0_0_body134 :: "stmt list" where
  "min_rocks_write_fcntl_0_0_body134 = [
    Syscall NR_write [Reg 0, Write_buf, Imm 0x8a], Count, Syscall NR_write [Reg 0, Write_buf, Imm 0x8a], Count,
    Syscall NR_write [Reg 0, Write_buf, Imm 0x8a], Count, Syscall NR_write [Reg 0, Write_buf, Imm 0x8a], Count,
    Syscall NR_write [Reg 0, Write_buf, Imm 0x8a], Count, Syscall NR_write [Reg 0, Write_buf, Imm 0x8a], Count,
    Syscall NR_write [Reg 0, Write_buf, Imm 0x8a], Count, Syscall NR_write [Reg 0, Write_buf, Imm 0x8a], Count,
    Syscall NR_write [Reg 0, Write_buf, Imm 0x8a], Count, Syscall NR_write [Reg 0, Write_buf, Imm 0x8a], Count,
    Syscall NR_write [Reg 0, Write_buf, Imm 0x8a], Count, Syscall NR_write [Reg 0, Write_buf, Imm 0x8a], Count,
    Syscall NR_write [Reg 0, Write_buf, Imm 0x8a], Count, Syscall NR_write [Reg 0, Write_buf, Imm 0x8a], Count]"

definition min_rocks_write_fcntl_0_0_body135 :: "stmt list" where
  "min_rocks_write_fcntl_0_0_body135 = [
    Syscall NR_write [Reg 0, Write_buf, Imm 0x8a], Count, Syscall NR_write [Reg 0, Write_buf, Imm 0x8a], Count,
    Syscall NR_write [Reg 0, Write_buf, Imm 0x8a], Count, Syscall NR_write [Reg 0, Write_buf, Imm 0x8a], Count,
    Syscall NR_write [Reg 0, Write_buf, Imm 0x8a], Count, Syscall NR_write [Reg 0, Write_buf, Imm 0x8a], Count,
    Syscall NR_write [Reg 0, Write_buf, Imm 0x8a], Count, Syscall NR_write [Reg 0, Write_buf, Imm 0x8a], Count,
    Syscall NR_write [Reg 0, Write_buf, Imm 0x8a], Count, Syscall NR_write [Reg 0, Write_buf, Imm 0x8a], Count,
    Syscall NR_write [Reg 0, Write_buf, Imm 0x8a], Count, Syscall NR_write [Reg 0, Write_buf, Imm 0x8a], Count,
    Syscall NR_write [Reg 0, Write_buf, Imm 0x8a], Count, Syscall NR_write [Reg 0, Write_buf, Imm 0x8a], Count]"

definition min_rocks_write_fcntl_0_0_body136 :: "stmt list" where
  "min_rocks_write_fcntl_0_0_body136 = [
    Syscall NR_write [Reg 0, Write_buf, Imm 0x8a], Count, Syscall NR_write [Reg 0, Write_buf, Imm 0x91], Count,
    Syscall NR_write [Reg 0, Write_buf, Imm 0x8a], Count, Syscall NR_write [Reg 0, Write_buf, Imm 0x8a], Count,
    Syscall NR_write [Reg 0, Write_buf, Imm 0x8a], Count, Syscall NR_write [Reg 0, Write_buf, Imm 0x8a], Count,
    Syscall NR_write [Reg 0, Write_buf, Imm 0x8a], Count, Syscall NR_write [Reg 0, Write_buf, Imm 0x8a], Count,
    Syscall NR_write [Reg 0, Write_buf, Imm 0x8a], Count, Syscall NR_write [Reg 0, Write_buf, Imm 0x8a], Count,
    Syscall NR_write [Reg 0, Write_buf, Imm 0x8a], Count, Syscall NR_write [Reg 0, Write_buf, Imm 0x8a], Count,
    Syscall NR_write [Reg 0, Write_buf, Imm 0x8a], Count, Syscall NR_write [Reg 0, Write_buf, Imm 0x8a], Count]"

definition min_rocks_write_fcntl_0_0_body137 :: "stmt list" where
  "min_rocks_write_fcntl_0_0_body137 = [
    Syscall NR_write [Reg 0, Write_buf, Imm 0x8a], Count, Syscall NR_write [Reg 0, Write_buf, Imm 0x8a], Count,
    Syscall NR_write [Reg 0, Write_buf, Imm 0x8a], Count, Syscall NR_write [Reg 0, Write_buf, Imm 0x8a], Count,
    Syscall NR_write [Reg 0, Write_buf, Imm 0x8a], Count, Syscall NR_write [Reg 0, Write_buf, Imm 0x8a], Count,
    Syscall NR_write [Reg 0, Write_buf, Imm 0x8a], Count, Syscall NR_write [Reg 0, Write_buf, Imm 0x8a], Count,
    Syscall NR_write [Reg 0, Write_buf, Imm 0x8a], Count, Syscall NR_write [Reg 0, Write_buf, Imm 0x8a], Count,
    Syscall NR_write [Reg 0, Write_buf, Imm 0x8a], Count, Syscall NR_write [Reg 0, Write_buf, Imm 0x8a], Count,
    Syscall NR_write [Reg 0, Write_buf, Imm 0x8a], Count, Syscall NR_write [Reg 0, Write_buf, Imm 0x8a], Count]"

definition min_rocks_write_fcntl_0_0_body138 :: "stmt list" where
  "min_rocks_write_fcntl_0_0_body138 = [
    Syscall NR_write [Reg 0, Write_buf, Imm 0x8a], Count, Syscall NR_write [Reg 0, Write_buf, Imm 0x8a], Count,
    Syscall NR_write [Reg 0, Write_buf, Imm 0x8a], Count, Syscall NR_write [Reg 0, Write_buf, Imm 0x8a], Count,
    Syscall NR_write [Reg 0, Write_buf, Imm 0x8a], Count, Syscall NR_write [Reg 0, Write_buf, Imm 0x8a], Count,
    Syscall NR_write [Reg 0, Write_buf, Imm 0x8a], Count, Syscall NR_write [Reg 0, Write_buf, Imm 0x8a], Count,
    Syscall NR_write [Reg 0, Write_buf, Imm 0x8a], Count, Syscall NR_write [Reg 0, Write_buf, Imm 0x8a], Count,
    Syscall NR_write [Reg 0, Write_buf, Imm 0x8a], Count, Syscall NR_write [Reg 0, Write_buf, Imm 0x8a], Count,
    Syscall NR_write [Reg 0, Write_buf, Imm 0x8a], Count, Syscall NR_write [Reg 0, Write_buf, Imm 0x8a], Count]"

definition min_rocks_write_fcntl_0_0_body139 :: "stmt list" where
  "min_rocks_write_fcntl_0_0_body139 = [
    Syscall NR_write [Reg 0, Write_buf, Imm 0x8a], Count, Syscall NR_write [Reg 0, Write_buf, Imm 0x8a], Count,
    Syscall NR_write [Reg 0, Write_buf, Imm 0x8a], Count, Syscall NR_write [Reg 0, Write_buf, Imm 0x8a], Count,
    Syscall NR_write [Reg 0, Write_buf, Imm 0x8a], Count, Syscall NR_write [Reg 0, Write_buf, Imm 0x8a], Count,
    Syscall NR_write [Reg 0, Write_buf, Imm 0x8a], Count, Syscall NR_write [Reg 0, Write_buf, Imm 0x8a], Count,
    Syscall NR_write [Reg 0, Write_buf, Imm 0x8a], Count, Syscall NR_write [Reg 0, Write_buf, Imm 0x8a], Count,
    Syscall NR_write [Reg 0, Write_buf, Imm 0x8a], Count, Syscall NR_write [Reg 0, Write_buf, Imm 0x8a], Count,
    Syscall NR_write [Reg 0, Write_buf, Imm 0x8a], Count, Syscall NR_write [Reg 0, Write_buf, Imm 0x8a], Count]"

definition min_rocks_write_fcntl_0_0_body140 :: "stmt list" where
  "min_rocks_write_fcntl_0_0_body140 = [
    Syscall NR_write [Reg 0, Write_buf, Imm 0x8a], Count, Syscall NR_write [Reg 0, Write_buf, Imm 0x8a], Count,
    Syscall NR_write [Reg 0, Write_buf, Imm 0x8a], Count, Syscall NR_write [Reg 0, Write_buf, Imm 0x8a], Count,
    Syscall NR_write [Reg 0, Write_buf, Imm 0x8a], Count, Syscall NR_write [Reg 0, Write_buf, Imm 0x8a], Count,
    Syscall NR_write [Reg 0, Write_buf, Imm 0x8a], Count, Syscall NR_write [Reg 0, Write_buf, Imm 0x8a], Count,
    Syscall NR_write [Reg 0, Write_buf, Imm 0x8a], Count, Syscall NR_write [Reg 0, Write_buf, Imm 0x8a], Count,
    Syscall NR_write [Reg 0, Write_buf, Imm 0x8a], Count, Syscall NR_write [Reg 0, Write_buf, Imm 0x8a], Count,
    Syscall NR_write [Reg 0, Write_buf, Imm 0x8a], Count, Syscall NR_write [Reg 0, Write_buf, Imm 0x8a], Count]"

definition min_rocks_write_fcntl_0_0_body141 :: "stmt list" where
  "min_rocks_write_fcntl_0_0_body141 = [
    Syscall NR_write [Reg 0, Write_buf, Imm 0x8a], Count, Syscall NR_write [Reg 0, Write_buf, Imm 0x8a], Count,
    Syscall NR_write [Reg 0, Write_buf, Imm 0x8a], Count, Syscall NR_write [Reg 0, Write_buf, Imm 0x8a], Count,
    Syscall NR_write [Reg 0, Write_buf, Imm 0x8a], Count, Syscall NR_write [Reg 0, Write_buf, Imm 0x8a], Count,
    Syscall NR_write [Reg 0, Write_buf, Imm 0x8a], Count, Syscall NR_write [Reg 0, Write_buf, Imm 0x8a], Count,
    Syscall NR_write [Reg 0, Write_buf, Imm 0x8a], Count, Syscall NR_write [Reg 0, Write_buf, Imm 0x8a], Count,
    Syscall NR_write [Reg 0, Write_buf, Imm 0x8a], Count, Syscall NR_write [Reg 0, Write_buf, Imm 0x8a], Count,
    Syscall NR_write [Reg 0, Write_buf, Imm 0x8a], Count, Syscall NR_write [Reg 0, Write_buf, Imm 0x8a], Count]"

definition min_rocks_write_fcntl_0_0_body142 :: "stmt list" where
  "min_rocks_write_fcntl_0_0_body142 = [
    Syscall NR_write [Reg 0, Write_buf, Imm 0x8a], Count, Syscall NR_write [Reg 0, Write_buf, Imm 0x8a], Count,
    Syscall NR_write [Reg 0, Write_buf, Imm 0x8a], Count, Syscall NR_write [Reg 0, Write_buf, Imm 0x8a], Count,
    Syscall NR_write [Reg 0, Write_buf, Imm 0x8a], Count, Syscall NR_write [Reg 0, Write_buf, Imm 0x8a], Count,
    Syscall NR_write [Reg 0, Write_buf, Imm 0x8a], Count, Syscall NR_write [Reg 0, Write_buf, Imm 0x8a], Count,
    Syscall NR_write [Reg 0, Write_buf, Imm 0x8a], Count, Syscall NR_write [Reg 0, Write_buf, Imm 0x8a], Count,
    Syscall NR_write [Reg 0, Write_buf, Imm 0x8a], Count, Syscall NR_write [Reg 0, Write_buf, Imm 0x8a], Count,
    Syscall NR_write [Reg 0, Write_buf, Imm 0x8a], Count, Syscall NR_write [Reg 0, Write_buf, Imm 0x8a], Count]"

definition min_rocks_write_fcntl_0_0_body143 :: "stmt list" where
  "min_rocks_write_fcntl_0_0_body143 = [
    Syscall NR_write [Reg 0, Write_buf, Imm 0x8a], Count, Syscall NR_write [Reg 0, Write_buf, Imm 0x8a], Count,
    Syscall NR_write [Reg 0, Write_buf, Imm 0x8a], Count, Syscall NR_write [Reg 0, Write_buf, Imm 0x8a], Count,
    Syscall NR_write [Reg 0, Write_buf, Imm 0x8a], Count, Syscall NR_write [Reg 0, Write_buf, Imm 0x8a], Count,
    Syscall NR_write [Reg 0, Write_buf, Imm 0x8a], Count, Syscall NR_write [Reg 0, Write_buf, Imm 0x8a], Count,
    Syscall NR_write [Reg 0, Write_buf, Imm 0x8a], Count, Syscall NR_write [Reg 0, Write_buf, Imm 0x8a], Count,
    Syscall NR_write [Reg 0, Write_buf, Imm 0x8a], Count, Syscall NR_write [Reg 0, Write_buf, Imm 0x8a], Count,
    Syscall NR_write [Reg 0, Write_buf, Imm 0x8a], Count, Syscall NR_write [Reg 0, Write_buf, Imm 0x8a], Count]"

definition min_rocks_write_fcntl_0_0_body144 :: "stmt list" where
  "min_rocks_write_fcntl_0_0_body144 = [
    Syscall NR_write [Reg 0, Write_buf, Imm 0x8a], Count, Syscall NR_write [Reg 0, Write_buf, Imm 0x8a], Count,
    Syscall NR_write [Reg 0, Write_buf, Imm 0x8a], Count, Syscall NR_write [Reg 0, Write_buf, Imm 0x8a], Count,
    Syscall NR_write [Reg 0, Write_buf, Imm 0x8a], Count, Syscall NR_write [Reg 0, Write_buf, Imm 0x8a], Count,
    Syscall NR_write [Reg 0, Write_buf, Imm 0x8a], Count, Syscall NR_write [Reg 0, Write_buf, Imm 0x8a], Count,
    Syscall NR_write [Reg 0, Write_buf, Imm 0x8a], Count, Syscall NR_write [Reg 0, Write_buf, Imm 0x8a], Count,
    Syscall NR_write [Reg 0, Write_buf, Imm 0x8a], Count, Syscall NR_write [Reg 0, Write_buf, Imm 0x8a], Count,
    Syscall NR_write [Reg 0, Write_buf, Imm 0x8a], Count, Syscall NR_write [Reg 0, Write_buf, Imm 0x8a], Count]"

definition min_rocks_write_fcntl_0_0_body145 :: "stmt list" where
  "min_rocks_write_fcntl_0_0_body145 = [
    Syscall NR_write [Reg 0, Write_buf, Imm 0x8a], Count, Syscall NR_write [Reg 0, Write_buf, Imm 0x8a], Count,
    Syscall NR_write [Reg 0, Write_buf, Imm 0x8a], Count, Syscall NR_write [Reg 0, Write_buf, Imm 0x8a], Count,
    Syscall NR_write [Reg 0, Write_buf, Imm 0x8a], Count, Syscall NR_write [Reg 0, Write_buf, Imm 0x8a], Count,
    Syscall NR_write [Reg 0, Write_buf, Imm 0x8a], Count, Syscall NR_write [Reg 0, Write_buf, Imm 0x8a], Count,
    Syscall NR_write [Reg 0, Write_buf, Imm 0x8a], Count, Syscall NR_write [Reg 0, Write_buf, Imm 0x8a], Count,
    Syscall NR_write [Reg 0, Write_buf, Imm 0x8a], Count, Syscall NR_write [Reg 0, Write_buf, Imm 0x8a], Count,
    Syscall NR_write [Reg 0, Write_buf, Imm 0x8a], Count, Syscall NR_write [Reg 0, Write_buf, Imm 0x8a], Count]"

definition min_rocks_write_fcntl_0_0_body146 :: "stmt list" where
  "min_rocks_write_fcntl_0_0_body146 = [
    Syscall NR_write [Reg 0, Write_buf, Imm 0x8a], Count, Syscall NR_write [Reg 0, Write_buf, Imm 0x8a], Count,
    Syscall NR_write [Reg 0, Write_buf, Imm 0x8a], Count, Syscall NR_write [Reg 0, Write_buf, Imm 0x8a], Count,
    Syscall NR_write [Reg 0, Write_buf, Imm 0x8a], Count, Syscall NR_write [Reg 0, Write_buf, Imm 0x8a], Count,
    Syscall NR_write [Reg 0, Write_buf, Imm 0x8a], Count, Syscall NR_write [Reg 0, Write_buf, Imm 0x8a], Count,
    Syscall NR_write [Reg 0, Write_buf, Imm 0x8a], Count, Syscall NR_write [Reg 0, Write_buf, Imm 0x8a], Count,
    Syscall NR_write [Reg 0, Write_buf, Imm 0x8a], Count, Syscall NR_write [Reg 0, Write_buf, Imm 0x8a], Count,
    Syscall NR_write [Reg 0, Write_buf, Imm 0x8a], Count, Syscall NR_write [Reg 0, Write_buf, Imm 0x8a], Count]"

definition min_rocks_write_fcntl_0_0_body147 :: "stmt list" where
  "min_rocks_write_fcntl_0_0_body147 = [
    Syscall NR_write [Reg 0, Write_buf, Imm 0x8a], Count, Syscall NR_write [Reg 0, Write_buf, Imm 0x8a], Count,
    Syscall NR_write [Reg 0, Write_buf, Imm 0x8a], Count, Syscall NR_write [Reg 0, Write_buf, Imm 0x8a], Count,
    Syscall NR_write [Reg 0, Write_buf, Imm 0x8a], Count, Syscall NR_write [Reg 0, Write_buf, Imm 0x8a], Count,
    Syscall NR_write [Reg 0, Write_buf, Imm 0x8a], Count, Syscall NR_write [Reg 0, Write_buf, Imm 0x8a], Count,
    Syscall NR_write [Reg 0, Write_buf, Imm 0x8a], Count, Syscall NR_write [Reg 0, Write_buf, Imm 0x8a], Count,
    Syscall NR_write [Reg 0, Write_buf, Imm 0x8a], Count, Syscall NR_write [Reg 0, Write_buf, Imm 0x8a], Count,
    Syscall NR_write [Reg 0, Write_buf, Imm 0x8a], Count, Syscall NR_write [Reg 0, Write_buf, Imm 0x8a], Count]"

definition min_rocks_write_fcntl_0_0_body148 :: "stmt list" where
  "min_rocks_write_fcntl_0_0_body148 = [
    Syscall NR_write [Reg 0, Write_buf, Imm 0x8a], Count, Syscall NR_write [Reg 0, Write_buf, Imm 0x8a], Count,
    Syscall NR_write [Reg 0, Write_buf, Imm 0x8a], Count, Syscall NR_write [Reg 0, Write_buf, Imm 0x8a], Count,
    Syscall NR_write [Reg 0, Write_buf, Imm 0x8a], Count, Syscall NR_write [Reg 0, Write_buf, Imm 0x8a], Count,
    Syscall NR_write [Reg 0, Write_buf, Imm 0x8a], Count, Syscall NR_write [Reg 0, Write_buf, Imm 0x8a], Count,
    Syscall NR_write [Reg 0, Write_buf, Imm 0x8a], Count, Syscall NR_write [Reg 0, Write_buf, Imm 0x8a], Count,
    Syscall NR_write [Reg 0, Write_buf, Imm 0x8a], Count, Syscall NR_write [Reg 0, Write_buf, Imm 0x8a], Count,
    Syscall NR_write [Reg 0, Write_buf, Imm 0x8a], Count, Syscall NR_write [Reg 0, Write_buf, Imm 0x8a], Count]"

definition min_rocks_write_fcntl_0_0_body149 :: "stmt list" where
  "min_rocks_write_fcntl_0_0_body149 = [
    Syscall NR_write [Reg 0, Write_buf, Imm 0x8a], Count, Syscall NR_write [Reg 0, Write_buf, Imm 0x8a], Count,
    Syscall NR_write [Reg 0, Write_buf, Imm 0x8a], Count, Syscall NR_write [Reg 0, Write_buf, Imm 0x8a], Count,
    Syscall NR_write [Reg 0, Write_buf, Imm 0x8a], Count, Syscall NR_write [Reg 0, Write_buf, Imm 0x8a], Count,
    Syscall NR_write [Reg 0, Write_buf, Imm 0x8a], Count, Syscall NR_write [Reg 0, Write_buf, Imm 0x8a], Count,
    Syscall NR_write [Reg 0, Write_buf, Imm 0x8a], Count, Syscall NR_write [Reg 0, Write_buf, Imm 0x8a], Count,
    Syscall NR_write [Reg 0, Write_buf, Imm 0x8a], Count, Syscall NR_write [Reg 0, Write_buf, Imm 0x8a], Count,
    Syscall NR_write [Reg 0, Write_buf, Imm 0x8a], Count, Syscall NR_write [Reg 0, Write_buf, Imm 0x8a], Count]"

definition min_rocks_write_fcntl_0_0_body150 :: "stmt list" where
  "min_rocks_write_fcntl_0_0_body150 = [
    Syscall NR_write [Reg 0, Write_buf, Imm 0x8a], Count, Syscall NR_write [Reg 0, Write_buf, Imm 0x8a], Count,
    Syscall NR_write [Reg 0, Write_buf, Imm 0x8a], Count, Syscall NR_write [Reg 0, Write_buf, Imm 0x8a], Count,
    Syscall NR_write [Reg 0, Write_buf, Imm 0x8a], Count, Syscall NR_write [Reg 0, Write_buf, Imm 0x8a], Count,
    Syscall NR_write [Reg 0, Write_buf, Imm 0x8a], Count, Syscall NR_write [Reg 0, Write_buf, Imm 0x8a], Count,
    Syscall NR_write [Reg 0, Write_buf, Imm 0x8a], Count, Syscall NR_write [Reg 0, Write_buf, Imm 0x8a], Count,
    Syscall NR_write [Reg 0, Write_buf, Imm 0x8a], Count, Syscall NR_write [Reg 0, Write_buf, Imm 0x8a], Count,
    Syscall NR_write [Reg 0, Write_buf, Imm 0x8a], Count, Syscall NR_write [Reg 0, Write_buf, Imm 0x8a], Count]"

definition min_rocks_write_fcntl_0_0_body151 :: "stmt list" where
  "min_rocks_write_fcntl_0_0_body151 = [
    Syscall NR_write [Reg 0, Write_buf, Imm 0x8a], Count, Syscall NR_write [Reg 0, Write_buf, Imm 0x8a], Count,
    Syscall NR_write [Reg 0, Write_buf, Imm 0x8a], Count, Syscall NR_write [Reg 0, Write_buf, Imm 0x8a], Count,
    Syscall NR_write [Reg 0, Write_buf, Imm 0x8a], Count, Syscall NR_write [Reg 0, Write_buf, Imm 0x8a], Count,
    Syscall NR_write [Reg 0, Write_buf, Imm 0x8a], Count, Syscall NR_write [Reg 0, Write_buf, Imm 0x8a], Count,
    Syscall NR_write [Reg 0, Write_buf, Imm 0x8a], Count, Syscall NR_write [Reg 0, Write_buf, Imm 0x8a], Count,
    Syscall NR_write [Reg 0, Write_buf, Imm 0x8a], Count, Syscall NR_write [Reg 0, Write_buf, Imm 0x8a], Count,
    Syscall NR_write [Reg 0, Write_buf, Imm 0x8a], Count, Syscall NR_write [Reg 0, Write_buf, Imm 0x8a], Count]"

definition min_rocks_write_fcntl_0_0_body152 :: "stmt list" where
  "min_rocks_write_fcntl_0_0_body152 = [
    Syscall NR_write [Reg 0, Write_buf, Imm 0x8a], Count, Syscall NR_write [Reg 0, Write_buf, Imm 0x8a], Count,
    Syscall NR_write [Reg 0, Write_buf, Imm 0x8a], Count, Syscall NR_write [Reg 0, Write_buf, Imm 0x8a], Count,
    Syscall NR_write [Reg 0, Write_buf, Imm 0x8a], Count, Syscall NR_write [Reg 0, Write_buf, Imm 0x8a], Count,
    Syscall NR_write [Reg 0, Write_buf, Imm 0x8a], Count, Syscall NR_write [Reg 0, Write_buf, Imm 0x8a], Count,
    Syscall NR_write [Reg 0, Write_buf, Imm 0x8a], Count, Syscall NR_write [Reg 0, Write_buf, Imm 0x8a], Count,
    Syscall NR_write [Reg 0, Write_buf, Imm 0x8a], Count, Syscall NR_write [Reg 0, Write_buf, Imm 0x8a], Count,
    Syscall NR_write [Reg 0, Write_buf, Imm 0x8a], Count, Syscall NR_write [Reg 0, Write_buf, Imm 0x8a], Count]"

definition min_rocks_write_fcntl_0_0_body153 :: "stmt list" where
  "min_rocks_write_fcntl_0_0_body153 = [
    Syscall NR_write [Reg 0, Write_buf, Imm 0x91], Count, Syscall NR_write [Reg 0, Write_buf, Imm 0x8a], Count,
    Syscall NR_write [Reg 0, Write_buf, Imm 0x8a], Count, Syscall NR_write [Reg 0, Write_buf, Imm 0x8a], Count,
    Syscall NR_write [Reg 0, Write_buf, Imm 0x8a], Count, Syscall NR_write [Reg 0, Write_buf, Imm 0x8a], Count,
    Syscall NR_write [Reg 0, Write_buf, Imm 0x8a], Count, Syscall NR_write [Reg 0, Write_buf, Imm 0x8a], Count,
    Syscall NR_write [Reg 0, Write_buf, Imm 0x8a], Count, Syscall NR_write [Reg 0, Write_buf, Imm 0x8a], Count,
    Syscall NR_write [Reg 0, Write_buf, Imm 0x8a], Count, Syscall NR_write [Reg 0, Write_buf, Imm 0x8a], Count,
    Syscall NR_write [Reg 0, Write_buf, Imm 0x8a], Count, Syscall NR_write [Reg 0, Write_buf, Imm 0x8a], Count]"

definition min_rocks_write_fcntl_0_0_body154 :: "stmt list" where
  "min_rocks_write_fcntl_0_0_body154 = [
    Syscall NR_write [Reg 0, Write_buf, Imm 0x8a], Count, Syscall NR_write [Reg 0, Write_buf, Imm 0x8a], Count,
    Syscall NR_write [Reg 0, Write_buf, Imm 0x8a], Count, Syscall NR_write [Reg 0, Write_buf, Imm 0x8a], Count,
    Syscall NR_write [Reg 0, Write_buf, Imm 0x8a], Count, Syscall NR_write [Reg 0, Write_buf, Imm 0x8a], Count,
    Syscall NR_write [Reg 0, Write_buf, Imm 0x8a], Count, Syscall NR_write [Reg 0, Write_buf, Imm 0x8a], Count,
    Syscall NR_write [Reg 0, Write_buf, Imm 0x8a], Count, Syscall NR_write [Reg 0, Write_buf, Imm 0x8a], Count,
    Syscall NR_write [Reg 0, Write_buf, Imm 0x8a], Count, Syscall NR_write [Reg 0, Write_buf, Imm 0x8a], Count,
    Syscall NR_write [Reg 0, Write_buf, Imm 0x8a], Count, Syscall NR_write [Reg 0, Write_buf, Imm 0x8a], Count]"

definition min_rocks_write_fcntl_0_0_body155 :: "stmt list" where
  "min_rocks_write_fcntl_0_0_body155 = [
    Syscall NR_write [Reg 0, Write_buf, Imm 0x8a], Count, Syscall NR_write [Reg 0, Write_buf, Imm 0x8a], Count,
    Syscall NR_write [Reg 0, Write_buf, Imm 0x8a], Count, Syscall NR_write [Reg 0, Write_buf, Imm 0x8a], Count,
    Syscall NR_write [Reg 0, Write_buf, Imm 0x8a], Count, Syscall NR_write [Reg 0, Write_buf, Imm 0x8a], Count,
    Syscall NR_write [Reg 0, Write_buf, Imm 0x8a], Count, Syscall NR_write [Reg 0, Write_buf, Imm 0x8a], Count,
    Syscall NR_write [Reg 0, Write_buf, Imm 0x8a], Count, Syscall NR_write [Reg 0, Write_buf, Imm 0x8a], Count,
    Syscall NR_write [Reg 0, Write_buf, Imm 0x8a], Count, Syscall NR_write [Reg 0, Write_buf, Imm 0x8a], Count,
    Syscall NR_write [Reg 0, Write_buf, Imm 0x8a], Count, Syscall NR_write [Reg 0, Write_buf, Imm 0x8a], Count]"

definition min_rocks_write_fcntl_0_0_body156 :: "stmt list" where
  "min_rocks_write_fcntl_0_0_body156 = [
    Syscall NR_write [Reg 0, Write_buf, Imm 0x8a], Count, Syscall NR_write [Reg 0, Write_buf, Imm 0x8a], Count,
    Syscall NR_write [Reg 0, Write_buf, Imm 0x8a], Count, Syscall NR_write [Reg 0, Write_buf, Imm 0x8a], Count,
    Syscall NR_write [Reg 0, Write_buf, Imm 0x8a], Count, Syscall NR_write [Reg 0, Write_buf, Imm 0x8a], Count,
    Syscall NR_write [Reg 0, Write_buf, Imm 0x8a], Count, Syscall NR_write [Reg 0, Write_buf, Imm 0x8a], Count,
    Syscall NR_write [Reg 0, Write_buf, Imm 0x8a], Count, Syscall NR_write [Reg 0, Write_buf, Imm 0x8a], Count,
    Syscall NR_write [Reg 0, Write_buf, Imm 0x8a], Count, Syscall NR_write [Reg 0, Write_buf, Imm 0x8a], Count,
    Syscall NR_write [Reg 0, Write_buf, Imm 0x8a], Count, Syscall NR_write [Reg 0, Write_buf, Imm 0x8a], Count]"

definition min_rocks_write_fcntl_0_0_body157 :: "stmt list" where
  "min_rocks_write_fcntl_0_0_body157 = [
    Syscall NR_write [Reg 0, Write_buf, Imm 0x8a], Count, Syscall NR_write [Reg 0, Write_buf, Imm 0x8a], Count,
    Syscall NR_write [Reg 0, Write_buf, Imm 0x8a], Count, Syscall NR_write [Reg 0, Write_buf, Imm 0x8a], Count,
    Syscall NR_write [Reg 0, Write_buf, Imm 0x8a], Count, Syscall NR_write [Reg 0, Write_buf, Imm 0x8a], Count,
    Syscall NR_write [Reg 0, Write_buf, Imm 0x8a], Count, Syscall NR_write [Reg 0, Write_buf, Imm 0x8a], Count,
    Syscall NR_write [Reg 0, Write_buf, Imm 0x8a], Count, Syscall NR_write [Reg 0, Write_buf, Imm 0x8a], Count,
    Syscall NR_write [Reg 0, Write_buf, Imm 0x8a], Count, Syscall NR_write [Reg 0, Write_buf, Imm 0x8a], Count,
    Syscall NR_write [Reg 0, Write_buf, Imm 0x8a], Count, Syscall NR_write [Reg 0, Write_buf, Imm 0x8a], Count]"

definition min_rocks_write_fcntl_0_0_body158 :: "stmt list" where
  "min_rocks_write_fcntl_0_0_body158 = [
    Syscall NR_write [Reg 0, Write_buf, Imm 0x8a], Count, Syscall NR_write [Reg 0, Write_buf, Imm 0x8a], Count,
    Syscall NR_write [Reg 0, Write_buf, Imm 0x8a], Count, Syscall NR_write [Reg 0, Write_buf, Imm 0x8a], Count,
    Syscall NR_write [Reg 0, Write_buf, Imm 0x8a], Count, Syscall NR_write [Reg 0, Write_buf, Imm 0x8a], Count,
    Syscall NR_write [Reg 0, Write_buf, Imm 0x8a], Count, Syscall NR_write [Reg 0, Write_buf, Imm 0x8a], Count,
    Syscall NR_write [Reg 0, Write_buf, Imm 0x8a], Count, Syscall NR_write [Reg 0, Write_buf, Imm 0x8a], Count,
    Syscall NR_write [Reg 0, Write_buf, Imm 0x8a], Count, Syscall NR_write [Reg 0, Write_buf, Imm 0x8a], Count,
    Syscall NR_write [Reg 0, Write_buf, Imm 0x8a], Count, Syscall NR_write [Reg 0, Write_buf, Imm 0x8a], Count]"

definition min_rocks_write_fcntl_0_0_body159 :: "stmt list" where
  "min_rocks_write_fcntl_0_0_body159 = [
    Syscall NR_write [Reg 0, Write_buf, Imm 0x8a], Count, Syscall NR_write [Reg 0, Write_buf, Imm 0x8a], Count,
    Syscall NR_write [Reg 0, Write_buf, Imm 0x8a], Count, Syscall NR_write [Reg 0, Write_buf, Imm 0x8a], Count,
    Syscall NR_write [Reg 0, Write_buf, Imm 0x8a], Count, Syscall NR_write [Reg 0, Write_buf, Imm 0x8a], Count,
    Syscall NR_write [Reg 0, Write_buf, Imm 0x8a], Count, Syscall NR_write [Reg 0, Write_buf, Imm 0x8a], Count,
    Syscall NR_write [Reg 0, Write_buf, Imm 0x8a], Count, Syscall NR_write [Reg 0, Write_buf, Imm 0x8a], Count,
    Syscall NR_write [Reg 0, Write_buf, Imm 0x8a], Count, Syscall NR_write [Reg 0, Write_buf, Imm 0x8a], Count,
    Syscall NR_write [Reg 0, Write_buf, Imm 0x8a], Count, Syscall NR_write [Reg 0, Write_buf, Imm 0x8a], Count]"

definition min_rocks_write_fcntl_0_0_body160 :: "stmt list" where
  "min_rocks_write_fcntl_0_0_body160 = [
    Syscall NR_write [Reg 0, Write_buf, Imm 0x8a], Count, Syscall NR_write [Reg 0, Write_buf, Imm 0x8a], Count,
    Syscall NR_write [Reg 0, Write_buf, Imm 0x8a], Count, Syscall NR_write [Reg 0, Write_buf, Imm 0x8a], Count,
    Syscall NR_write [Reg 0, Write_buf, Imm 0x8a], Count, Syscall NR_write [Reg 0, Write_buf, Imm 0x8a], Count,
    Syscall NR_write [Reg 0, Write_buf, Imm 0x8a], Count, Syscall NR_write [Reg 0, Write_buf, Imm 0x8a], Count,
    Syscall NR_write [Reg 0, Write_buf, Imm 0x8a], Count, Syscall NR_write [Reg 0, Write_buf, Imm 0x8a], Count,
    Syscall NR_write [Reg 0, Write_buf, Imm 0x8a], Count, Syscall NR_write [Reg 0, Write_buf, Imm 0x8a], Count,
    Syscall NR_write [Reg 0, Write_buf, Imm 0x8a], Count, Syscall NR_write [Reg 0, Write_buf, Imm 0x8a], Count]"

definition min_rocks_write_fcntl_0_0_body161 :: "stmt list" where
  "min_rocks_write_fcntl_0_0_body161 = [
    Syscall NR_write [Reg 0, Write_buf, Imm 0x8a], Count, Syscall NR_write [Reg 0, Write_buf, Imm 0x8a], Count,
    Syscall NR_write [Reg 0, Write_buf, Imm 0x8a], Count, Syscall NR_write [Reg 0, Write_buf, Imm 0x8a], Count,
    Syscall NR_write [Reg 0, Write_buf, Imm 0x8a], Count, Syscall NR_write [Reg 0, Write_buf, Imm 0x8a], Count,
    Syscall NR_write [Reg 0, Write_buf, Imm 0x8a], Count, Syscall NR_write [Reg 0, Write_buf, Imm 0x8a], Count,
    Syscall NR_write [Reg 0, Write_buf, Imm 0x8a], Count, Syscall NR_write [Reg 0, Write_buf, Imm 0x8a], Count,
    Syscall NR_write [Reg 0, Write_buf, Imm 0x8a], Count, Syscall NR_write [Reg 0, Write_buf, Imm 0x8a], Count,
    Syscall NR_write [Reg 0, Write_buf, Imm 0x8a], Count, Syscall NR_write [Reg 0, Write_buf, Imm 0x8a], Count]"

definition min_rocks_write_fcntl_0_0_body162 :: "stmt list" where
  "min_rocks_write_fcntl_0_0_body162 = [
    Syscall NR_write [Reg 0, Write_buf, Imm 0x8a], Count, Syscall NR_write [Reg 0, Write_buf, Imm 0x8a], Count,
    Syscall NR_write [Reg 0, Write_buf, Imm 0x8a], Count, Syscall NR_write [Reg 0, Write_buf, Imm 0x8a], Count,
    Syscall NR_write [Reg 0, Write_buf, Imm 0x8a], Count, Syscall NR_write [Reg 0, Write_buf, Imm 0x8a], Count,
    Syscall NR_write [Reg 0, Write_buf, Imm 0x8a], Count, Syscall NR_write [Reg 0, Write_buf, Imm 0x8a], Count,
    Syscall NR_write [Reg 0, Write_buf, Imm 0x8a], Count, Syscall NR_write [Reg 0, Write_buf, Imm 0x8a], Count,
    Syscall NR_write [Reg 0, Write_buf, Imm 0x8a], Count, Syscall NR_write [Reg 0, Write_buf, Imm 0x8a], Count,
    Syscall NR_write [Reg 0, Write_buf, Imm 0x8a], Count, Syscall NR_write [Reg 0, Write_buf, Imm 0x8a], Count]"

definition min_rocks_write_fcntl_0_0_body163 :: "stmt list" where
  "min_rocks_write_fcntl_0_0_body163 = [
    Syscall NR_write [Reg 0, Write_buf, Imm 0x8a], Count, Syscall NR_write [Reg 0, Write_buf, Imm 0x8a], Count,
    Syscall NR_write [Reg 0, Write_buf, Imm 0x8a], Count, Syscall NR_write [Reg 0, Write_buf, Imm 0x8a], Count,
    Syscall NR_write [Reg 0, Write_buf, Imm 0x8a], Count, Syscall NR_write [Reg 0, Write_buf, Imm 0x8a], Count,
    Syscall NR_write [Reg 0, Write_buf, Imm 0x8a], Count, Syscall NR_write [Reg 0, Write_buf, Imm 0x8a], Count,
    Syscall NR_write [Reg 0, Write_buf, Imm 0x8a], Count, Syscall NR_write [Reg 0, Write_buf, Imm 0x8a], Count,
    Syscall NR_write [Reg 0, Write_buf, Imm 0x8a], Count, Syscall NR_write [Reg 0, Write_buf, Imm 0x8a], Count,
    Syscall NR_write [Reg 0, Write_buf, Imm 0x8a], Count, Syscall NR_write [Reg 0, Write_buf, Imm 0x8a], Count]"

definition min_rocks_write_fcntl_0_0_body164 :: "stmt list" where
  "min_rocks_write_fcntl_0_0_body164 = [
    Syscall NR_write [Reg 0, Write_buf, Imm 0x8a], Count, Syscall NR_write [Reg 0, Write_buf, Imm 0x8a], Count,
    Syscall NR_write [Reg 0, Write_buf, Imm 0x8a], Count, Syscall NR_write [Reg 0, Write_buf, Imm 0x8a], Count,
    Syscall NR_write [Reg 0, Write_buf, Imm 0x8a], Count, Syscall NR_write [Reg 0, Write_buf, Imm 0x8a], Count,
    Syscall NR_write [Reg 0, Write_buf, Imm 0x8a], Count, Syscall NR_write [Reg 0, Write_buf, Imm 0x8a], Count,
    Syscall NR_write [Reg 0, Write_buf, Imm 0x8a], Count, Syscall NR_write [Reg 0, Write_buf, Imm 0x8a], Count,
    Syscall NR_write [Reg 0, Write_buf, Imm 0x8a], Count, Syscall NR_write [Reg 0, Write_buf, Imm 0x8a], Count,
    Syscall NR_write [Reg 0, Write_buf, Imm 0x8a], Count, Syscall NR_write [Reg 0, Write_buf, Imm 0x8a], Count]"

definition min_rocks_write_fcntl_0_0_body165 :: "stmt list" where
  "min_rocks_write_fcntl_0_0_body165 = [
    Syscall NR_write [Reg 0, Write_buf, Imm 0x8a], Count, Syscall NR_write [Reg 0, Write_buf, Imm 0x8a], Count,
    Syscall NR_write [Reg 0, Write_buf, Imm 0x8a], Count, Syscall NR_write [Reg 0, Write_buf, Imm 0x8a], Count,
    Syscall NR_write [Reg 0, Write_buf, Imm 0x8a], Count, Syscall NR_write [Reg 0, Write_buf, Imm 0x8a], Count,
    Syscall NR_write [Reg 0, Write_buf, Imm 0x8a], Count, Syscall NR_write [Reg 0, Write_buf, Imm 0x8a], Count,
    Syscall NR_write [Reg 0, Write_buf, Imm 0x8a], Count, Syscall NR_write [Reg 0, Write_buf, Imm 0x8a], Count,
    Syscall NR_write [Reg 0, Write_buf, Imm 0x8a], Count, Syscall NR_write [Reg 0, Write_buf, Imm 0x8a], Count,
    Syscall NR_write [Reg 0, Write_buf, Imm 0x8a], Count, Syscall NR_write [Reg 0, Write_buf, Imm 0x8a], Count]"

definition min_rocks_write_fcntl_0_0_body166 :: "stmt list" where
  "min_rocks_write_fcntl_0_0_body166 = [
    Syscall NR_write [Reg 0, Write_buf, Imm 0x8a], Count, Syscall NR_write [Reg 0, Write_buf, Imm 0x8a], Count,
    Syscall NR_write [Reg 0, Write_buf, Imm 0x8a], Count, Syscall NR_write [Reg 0, Write_buf, Imm 0x8a], Count,
    Syscall NR_write [Reg 0, Write_buf, Imm 0x8a], Count, Syscall NR_write [Reg 0, Write_buf, Imm 0x8a], Count,
    Syscall NR_write [Reg 0, Write_buf, Imm 0x8a], Count, Syscall NR_write [Reg 0, Write_buf, Imm 0x8a], Count,
    Syscall NR_write [Reg 0, Write_buf, Imm 0x8a], Count, Syscall NR_write [Reg 0, Write_buf, Imm 0x8a], Count,
    Syscall NR_write [Reg 0, Write_buf, Imm 0x8a], Count, Syscall NR_write [Reg 0, Write_buf, Imm 0x8a], Count,
    Syscall NR_write [Reg 0, Write_buf, Imm 0x8a], Count, Syscall NR_write [Reg 0, Write_buf, Imm 0x8a], Count]"

definition min_rocks_write_fcntl_0_0_body167 :: "stmt list" where
  "min_rocks_write_fcntl_0_0_body167 = [
    Syscall NR_write [Reg 0, Write_buf, Imm 0x8a], Count, Syscall NR_write [Reg 0, Write_buf, Imm 0x8a], Count,
    Syscall NR_write [Reg 0, Write_buf, Imm 0x8a], Count, Syscall NR_write [Reg 0, Write_buf, Imm 0x8a], Count,
    Syscall NR_write [Reg 0, Write_buf, Imm 0x8a], Count, Syscall NR_write [Reg 0, Write_buf, Imm 0x8a], Count,
    Syscall NR_write [Reg 0, Write_buf, Imm 0x8a], Count, Syscall NR_write [Reg 0, Write_buf, Imm 0x8a], Count,
    Syscall NR_write [Reg 0, Write_buf, Imm 0x8a], Count, Syscall NR_write [Reg 0, Write_buf, Imm 0x8a], Count,
    Syscall NR_write [Reg 0, Write_buf, Imm 0x8a], Count, Syscall NR_write [Reg 0, Write_buf, Imm 0x8a], Count,
    Syscall NR_write [Reg 0, Write_buf, Imm 0x8a], Count, Syscall NR_write [Reg 0, Write_buf, Imm 0x8a], Count]"

definition min_rocks_write_fcntl_0_0_body168 :: "stmt list" where
  "min_rocks_write_fcntl_0_0_body168 = [
    Syscall NR_write [Reg 0, Write_buf, Imm 0x8a], Count, Syscall NR_write [Reg 0, Write_buf, Imm 0x8a], Count,
    Syscall NR_write [Reg 0, Write_buf, Imm 0x8a], Count, Syscall NR_write [Reg 0, Write_buf, Imm 0x8a], Count,
    Syscall NR_write [Reg 0, Write_buf, Imm 0x8a], Count, Syscall NR_write [Reg 0, Write_buf, Imm 0x8a], Count,
    Syscall NR_write [Reg 0, Write_buf, Imm 0x8a], Count, Syscall NR_write [Reg 0, Write_buf, Imm 0x8a], Count,
    Syscall NR_write [Reg 0, Write_buf, Imm 0x8a], Count, Syscall NR_write [Reg 0, Write_buf, Imm 0x8a], Count,
    Syscall NR_write [Reg 0, Write_buf, Imm 0x8a], Count, Syscall NR_write [Reg 0, Write_buf, Imm 0x8a], Count,
    Syscall NR_write [Reg 0, Write_buf, Imm 0x8a], Count, Syscall NR_write [Reg 0, Write_buf, Imm 0x8a], Count]"

definition min_rocks_write_fcntl_0_0_body169 :: "stmt list" where
  "min_rocks_write_fcntl_0_0_body169 = [
    Syscall NR_write [Reg 0, Write_buf, Imm 0x8a], Count, Syscall NR_write [Reg 0, Write_buf, Imm 0x8a], Count,
    Syscall NR_write [Reg 0, Write_buf, Imm 0x8a], Count, Syscall NR_write [Reg 0, Write_buf, Imm 0x8a], Count,
    Syscall NR_write [Reg 0, Write_buf, Imm 0x8a], Count, Syscall NR_write [Reg 0, Write_buf, Imm 0x8a], Count,
    Syscall NR_write [Reg 0, Write_buf, Imm 0x8a], Count, Syscall NR_write [Reg 0, Write_buf, Imm 0x8a], Count,
    Syscall NR_write [Reg 0, Write_buf, Imm 0x8a], Count, Syscall NR_write [Reg 0, Write_buf, Imm 0x8a], Count,
    Syscall NR_write [Reg 0, Write_buf, Imm 0x8a], Count, Syscall NR_write [Reg 0, Write_buf, Imm 0x8a], Count,
    Syscall NR_write [Reg 0, Write_buf, Imm 0x8a], Count, Syscall NR_write [Reg 0, Write_buf, Imm 0x8a], Count]"

definition min_rocks_write_fcntl_0_0_body170 :: "stmt list" where
  "min_rocks_write_fcntl_0_0_body170 = [
    Syscall NR_write [Reg 0, Write_buf, Imm 0x91], Count, Syscall NR_write [Reg 0, Write_buf, Imm 0x8a], Count,
    Syscall NR_write [Reg 0, Write_buf, Imm 0x8a], Count, Syscall NR_write [Reg 0, Write_buf, Imm 0x8a], Count,
    Syscall NR_write [Reg 0, Write_buf, Imm 0x8a], Count, Syscall NR_write [Reg 0, Write_buf, Imm 0x8a], Count,
    Syscall NR_write [Reg 0, Write_buf, Imm 0x8a], Count, Syscall NR_write [Reg 0, Write_buf, Imm 0x8a], Count,
    Syscall NR_write [Reg 0, Write_buf, Imm 0x8a], Count, Syscall NR_write [Reg 0, Write_buf, Imm 0x8a], Count,
    Syscall NR_write [Reg 0, Write_buf, Imm 0x8a], Count, Syscall NR_write [Reg 0, Write_buf, Imm 0x8a], Count,
    Syscall NR_write [Reg 0, Write_buf, Imm 0x8a], Count, Syscall NR_write [Reg 0, Write_buf, Imm 0x8a], Count]"

definition min_rocks_write_fcntl_0_0_body171 :: "stmt list" where
  "min_rocks_write_fcntl_0_0_body171 = [
    Syscall NR_write [Reg 0, Write_buf, Imm 0x8a], Count, Syscall NR_write [Reg 0, Write_buf, Imm 0x8a], Count,
    Syscall NR_write [Reg 0, Write_buf, Imm 0x8a], Count, Syscall NR_write [Reg 0, Write_buf, Imm 0x8a], Count,
    Syscall NR_write [Reg 0, Write_buf, Imm 0x8a], Count, Syscall NR_write [Reg 0, Write_buf, Imm 0x8a], Count,
    Syscall NR_write [Reg 0, Write_buf, Imm 0x8a], Count, Syscall NR_write [Reg 0, Write_buf, Imm 0x8a], Count,
    Syscall NR_write [Reg 0, Write_buf, Imm 0x8a], Count, Syscall NR_write [Reg 0, Write_buf, Imm 0x8a], Count,
    Syscall NR_write [Reg 0, Write_buf, Imm 0x8a], Count, Syscall NR_write [Reg 0, Write_buf, Imm 0x8a], Count,
    Syscall NR_write [Reg 0, Write_buf, Imm 0x8a], Count, Syscall NR_write [Reg 0, Write_buf, Imm 0x8a], Count]"

definition min_rocks_write_fcntl_0_0_body172 :: "stmt list" where
  "min_rocks_write_fcntl_0_0_body172 = [
    Syscall NR_write [Reg 0, Write_buf, Imm 0x8a], Count, Syscall NR_write [Reg 0, Write_buf, Imm 0x8a], Count,
    Syscall NR_write [Reg 0, Write_buf, Imm 0x8a], Count, Syscall NR_write [Reg 0, Write_buf, Imm 0x8a], Count,
    Syscall NR_write [Reg 0, Write_buf, Imm 0x8a], Count, Syscall NR_write [Reg 0, Write_buf, Imm 0x8a], Count,
    Syscall NR_write [Reg 0, Write_buf, Imm 0x8a], Count, Syscall NR_write [Reg 0, Write_buf, Imm 0x8a], Count,
    Syscall NR_write [Reg 0, Write_buf, Imm 0x8a], Count, Syscall NR_write [Reg 0, Write_buf, Imm 0x8a], Count,
    Syscall NR_write [Reg 0, Write_buf, Imm 0x8a], Count, Syscall NR_write [Reg 0, Write_buf, Imm 0x8a], Count,
    Syscall NR_write [Reg 0, Write_buf, Imm 0x8a], Count, Syscall NR_write [Reg 0, Write_buf, Imm 0x8a], Count]"

definition min_rocks_write_fcntl_0_0_body173 :: "stmt list" where
  "min_rocks_write_fcntl_0_0_body173 = [
    Syscall NR_write [Reg 0, Write_buf, Imm 0x8a], Count, Syscall NR_write [Reg 0, Write_buf, Imm 0x8a], Count,
    Syscall NR_write [Reg 0, Write_buf, Imm 0x8a], Count, Syscall NR_write [Reg 0, Write_buf, Imm 0x8a], Count,
    Syscall NR_write [Reg 0, Write_buf, Imm 0x8a], Count, Syscall NR_write [Reg 0, Write_buf, Imm 0x8a], Count,
    Syscall NR_write [Reg 0, Write_buf, Imm 0x8a], Count, Syscall NR_write [Reg 0, Write_buf, Imm 0x8a], Count,
    Syscall NR_write [Reg 0, Write_buf, Imm 0x8a], Count, Syscall NR_write [Reg 0, Write_buf, Imm 0x8a], Count,
    Syscall NR_write [Reg 0, Write_buf, Imm 0x8a], Count, Syscall NR_write [Reg 0, Write_buf, Imm 0x8a], Count,
    Syscall NR_write [Reg 0, Write_buf, Imm 0x8a], Count, Syscall NR_write [Reg 0, Write_buf, Imm 0x8a], Count]"

definition min_rocks_write_fcntl_0_0_body174 :: "stmt list" where
  "min_rocks_write_fcntl_0_0_body174 = [
    Syscall NR_write [Reg 0, Write_buf, Imm 0x8a], Count, Syscall NR_write [Reg 0, Write_buf, Imm 0x8a], Count,
    Syscall NR_write [Reg 0, Write_buf, Imm 0x8a], Count, Syscall NR_write [Reg 0, Write_buf, Imm 0x8a], Count,
    Syscall NR_write [Reg 0, Write_buf, Imm 0x8a], Count, Syscall NR_write [Reg 0, Write_buf, Imm 0x8a], Count,
    Syscall NR_write [Reg 0, Write_buf, Imm 0x8a], Count, Syscall NR_write [Reg 0, Write_buf, Imm 0x8a], Count,
    Syscall NR_write [Reg 0, Write_buf, Imm 0x8a], Count, Syscall NR_write [Reg 0, Write_buf, Imm 0x8a], Count,
    Syscall NR_write [Reg 0, Write_buf, Imm 0x8a], Count, Syscall NR_write [Reg 0, Write_buf, Imm 0x8a], Count,
    Syscall NR_write [Reg 0, Write_buf, Imm 0x8a], Count, Syscall NR_write [Reg 0, Write_buf, Imm 0x8a], Count]"

definition min_rocks_write_fcntl_0_0_body175 :: "stmt list" where
  "min_rocks_write_fcntl_0_0_body175 = [
    Syscall NR_write [Reg 0, Write_buf, Imm 0x8a], Count, Syscall NR_write [Reg 0, Write_buf, Imm 0x8a], Count,
    Syscall NR_write [Reg 0, Write_buf, Imm 0x8a], Count, Syscall NR_write [Reg 0, Write_buf, Imm 0x8a], Count,
    Syscall NR_write [Reg 0, Write_buf, Imm 0x8a], Count, Syscall NR_write [Reg 0, Write_buf, Imm 0x8a], Count,
    Syscall NR_write [Reg 0, Write_buf, Imm 0x8a], Count, Syscall NR_write [Reg 0, Write_buf, Imm 0x8a], Count,
    Syscall NR_write [Reg 0, Write_buf, Imm 0x8a], Count, Syscall NR_write [Reg 0, Write_buf, Imm 0x8a], Count,
    Syscall NR_write [Reg 0, Write_buf, Imm 0x8a], Count, Syscall NR_write [Reg 0, Write_buf, Imm 0x8a], Count,
    Syscall NR_write [Reg 0, Write_buf, Imm 0x8a], Count, Syscall NR_write [Reg 0, Write_buf, Imm 0x8a], Count]"

definition min_rocks_write_fcntl_0_0_body176 :: "stmt list" where
  "min_rocks_write_fcntl_0_0_body176 = [
    Syscall NR_write [Reg 0, Write_buf, Imm 0x8a], Count, Syscall NR_write [Reg 0, Write_buf, Imm 0x8a], Count,
    Syscall NR_write [Reg 0, Write_buf, Imm 0x8a], Count, Syscall NR_write [Reg 0, Write_buf, Imm 0x8a], Count,
    Syscall NR_write [Reg 0, Write_buf, Imm 0x8a], Count, Syscall NR_write [Reg 0, Write_buf, Imm 0x8a], Count,
    Syscall NR_write [Reg 0, Write_buf, Imm 0x8a], Count, Syscall NR_write [Reg 0, Write_buf, Imm 0x8a], Count,
    Syscall NR_write [Reg 0, Write_buf, Imm 0x8a], Count, Syscall NR_write [Reg 0, Write_buf, Imm 0x8a], Count,
    Syscall NR_write [Reg 0, Write_buf, Imm 0x8a], Count, Syscall NR_write [Reg 0, Write_buf, Imm 0x8a], Count,
    Syscall NR_write [Reg 0, Write_buf, Imm 0x8a], Count, Syscall NR_write [Reg 0, Write_buf, Imm 0x8a], Count]"

definition min_rocks_write_fcntl_0_0_body177 :: "stmt list" where
  "min_rocks_write_fcntl_0_0_body177 = [
    Syscall NR_write [Reg 0, Write_buf, Imm 0x8a], Count, Syscall NR_write [Reg 0, Write_buf, Imm 0x8a], Count,
    Syscall NR_write [Reg 0, Write_buf, Imm 0x8a], Count, Syscall NR_write [Reg 0, Write_buf, Imm 0x8a], Count,
    Syscall NR_write [Reg 0, Write_buf, Imm 0x8a], Count, Syscall NR_write [Reg 0, Write_buf, Imm 0x8a], Count,
    Syscall NR_write [Reg 0, Write_buf, Imm 0x8a], Count, Syscall NR_write [Reg 0, Write_buf, Imm 0x8a], Count,
    Syscall NR_write [Reg 0, Write_buf, Imm 0x8a], Count, Syscall NR_write [Reg 0, Write_buf, Imm 0x8a], Count,
    Syscall NR_write [Reg 0, Write_buf, Imm 0x8a], Count, Syscall NR_write [Reg 0, Write_buf, Imm 0x8a], Count,
    Syscall NR_write [Reg 0, Write_buf, Imm 0x8a], Count, Syscall NR_write [Reg 0, Write_buf, Imm 0x8a], Count]"

definition min_rocks_write_fcntl_0_0_body178 :: "stmt list" where
  "min_rocks_write_fcntl_0_0_body178 = [
    Syscall NR_write [Reg 0, Write_buf, Imm 0x8a], Count, Syscall NR_write [Reg 0, Write_buf, Imm 0x8a], Count,
    Syscall NR_write [Reg 0, Write_buf, Imm 0x8a], Count, Syscall NR_write [Reg 0, Write_buf, Imm 0x8a], Count,
    Syscall NR_write [Reg 0, Write_buf, Imm 0x8a], Count, Syscall NR_write [Reg 0, Write_buf, Imm 0x8a], Count,
    Syscall NR_write [Reg 0, Write_buf, Imm 0x8a], Count, Syscall NR_write [Reg 0, Write_buf, Imm 0x8a], Count,
    Syscall NR_write [Reg 0, Write_buf, Imm 0x8a], Count, Syscall NR_write [Reg 0, Write_buf, Imm 0x8a], Count,
    Syscall NR_write [Reg 0, Write_buf, Imm 0x8a], Count, Syscall NR_write [Reg 0, Write_buf, Imm 0x8a], Count,
    Syscall NR_write [Reg 0, Write_buf, Imm 0x8a], Count, Syscall NR_write [Reg 0, Write_buf, Imm 0x8a], Count]"

definition min_rocks_write_fcntl_0_0_body179 :: "stmt list" where
  "min_rocks_write_fcntl_0_0_body179 = [
    Syscall NR_write [Reg 0, Write_buf, Imm 0x8a], Count, Syscall NR_write [Reg 0, Write_buf, Imm 0x8a], Count,
    Syscall NR_write [Reg 0, Write_buf, Imm 0x8a], Count, Syscall NR_write [Reg 0, Write_buf, Imm 0x8a], Count,
    Syscall NR_write [Reg 0, Write_buf, Imm 0x8a], Count, Syscall NR_write [Reg 0, Write_buf, Imm 0x8a], Count,
    Syscall NR_write [Reg 0, Write_buf, Imm 0x8a], Count, Syscall NR_write [Reg 0, Write_buf, Imm 0x8a], Count,
    Syscall NR_write [Reg 0, Write_buf, Imm 0x8a], Count, Syscall NR_write [Reg 0, Write_buf, Imm 0x8a], Count,
    Syscall NR_write [Reg 0, Write_buf, Imm 0x8a], Count, Syscall NR_write [Reg 0, Write_buf, Imm 0x8a], Count,
    Syscall NR_write [Reg 0, Write_buf, Imm 0x8a], Count, Syscall NR_write [Reg 0, Write_buf, Imm 0x8a], Count]"

definition min_rocks_write_fcntl_0_0_body180 :: "stmt list" where
  "min_rocks_write_fcntl_0_0_body180 = [
    Syscall NR_write [Reg 0, Write_buf, Imm 0x8a], Count, Syscall NR_write [Reg 0, Write_buf, Imm 0x8a], Count,
    Syscall NR_write [Reg 0, Write_buf, Imm 0x8a], Count, Syscall NR_write [Reg 0, Write_buf, Imm 0x8a], Count,
    Syscall NR_write [Reg 0, Write_buf, Imm 0x8a], Count, Syscall NR_write [Reg 0, Write_buf, Imm 0x8a], Count,
    Syscall NR_write [Reg 0, Write_buf, Imm 0x8a], Count, Syscall NR_write [Reg 0, Write_buf, Imm 0x8a], Count,
    Syscall NR_write [Reg 0, Write_buf, Imm 0x8a], Count, Syscall NR_write [Reg 0, Write_buf, Imm 0x8a], Count,
    Syscall NR_write [Reg 0, Write_buf, Imm 0x8a], Count, Syscall NR_write [Reg 0, Write_buf, Imm 0x8a], Count,
    Syscall NR_write [Reg 0, Write_buf, Imm 0x8a], Count, Syscall NR_write [Reg 0, Write_buf, Imm 0x8a], Count]"

definition min_rocks_write_fcntl_0_0_body181 :: "stmt list" where
  "min_rocks_write_fcntl_0_0_body181 = [
    Syscall NR_write [Reg 0, Write_buf, Imm 0x8a], Count, Syscall NR_write [Reg 0, Write_buf, Imm 0x8a], Count,
    Syscall NR_write [Reg 0, Write_buf, Imm 0x8a], Count, Syscall NR_write [Reg 0, Write_buf, Imm 0x8a], Count,
    Syscall NR_write [Reg 0, Write_buf, Imm 0x8a], Count, Syscall NR_write [Reg 0, Write_buf, Imm 0x8a], Count,
    Syscall NR_write [Reg 0, Write_buf, Imm 0x8a], Count, Syscall NR_write [Reg 0, Write_buf, Imm 0x8a], Count,
    Syscall NR_write [Reg 0, Write_buf, Imm 0x8a], Count, Syscall NR_write [Reg 0, Write_buf, Imm 0x8a], Count,
    Syscall NR_write [Reg 0, Write_buf, Imm 0x8a], Count, Syscall NR_write [Reg 0, Write_buf, Imm 0x8a], Count,
    Syscall NR_write [Reg 0, Write_buf, Imm 0x8a], Count, Syscall NR_write [Reg 0, Write_buf, Imm 0x8a], Count]"

definition min_rocks_write_fcntl_0_0_body182 :: "stmt list" where
  "min_rocks_write_fcntl_0_0_body182 = [
    Syscall NR_write [Reg 0, Write_buf, Imm 0x8a], Count, Syscall NR_write [Reg 0, Write_buf, Imm 0x8a], Count,
    Syscall NR_write [Reg 0, Write_buf, Imm 0x8a], Count, Syscall NR_write [Reg 0, Write_buf, Imm 0x8a], Count,
    Syscall NR_write [Reg 0, Write_buf, Imm 0x8a], Count, Syscall NR_write [Reg 0, Write_buf, Imm 0x8a], Count,
    Syscall NR_write [Reg 0, Write_buf, Imm 0x8a], Count, Syscall NR_write [Reg 0, Write_buf, Imm 0x8a], Count,
    Syscall NR_write [Reg 0, Write_buf, Imm 0x8a], Count, Syscall NR_write [Reg 0, Write_buf, Imm 0x8a], Count,
    Syscall NR_write [Reg 0, Write_buf, Imm 0x8a], Count, Syscall NR_write [Reg 0, Write_buf, Imm 0x8a], Count,
    Syscall NR_write [Reg 0, Write_buf, Imm 0x8a], Count, Syscall NR_write [Reg 0, Write_buf, Imm 0x8a], Count]"

definition min_rocks_write_fcntl_0_0_body183 :: "stmt list" where
  "min_rocks_write_fcntl_0_0_body183 = [
    Syscall NR_write [Reg 0, Write_buf, Imm 0x8a], Count, Syscall NR_write [Reg 0, Write_buf, Imm 0x8a], Count,
    Syscall NR_write [Reg 0, Write_buf, Imm 0x8a], Count, Syscall NR_write [Reg 0, Write_buf, Imm 0x8a], Count,
    Syscall NR_write [Reg 0, Write_buf, Imm 0x8a], Count, Syscall NR_write [Reg 0, Write_buf, Imm 0x8a], Count,
    Syscall NR_write [Reg 0, Write_buf, Imm 0x8a], Count, Syscall NR_write [Reg 0, Write_buf, Imm 0x8a], Count,
    Syscall NR_write [Reg 0, Write_buf, Imm 0x8a], Count, Syscall NR_write [Reg 0, Write_buf, Imm 0x8a], Count,
    Syscall NR_write [Reg 0, Write_buf, Imm 0x8a], Count, Syscall NR_write [Reg 0, Write_buf, Imm 0x8a], Count,
    Syscall NR_write [Reg 0, Write_buf, Imm 0x8a], Count, Syscall NR_write [Reg 0, Write_buf, Imm 0x8a], Count]"

definition min_rocks_write_fcntl_0_0_body184 :: "stmt list" where
  "min_rocks_write_fcntl_0_0_body184 = [
    Syscall NR_write [Reg 0, Write_buf, Imm 0x8a], Count, Syscall NR_write [Reg 0, Write_buf, Imm 0x8a], Count,
    Syscall NR_write [Reg 0, Write_buf, Imm 0x8a], Count, Syscall NR_write [Reg 0, Write_buf, Imm 0x8a], Count,
    Syscall NR_write [Reg 0, Write_buf, Imm 0x8a], Count, Syscall NR_write [Reg 0, Write_buf, Imm 0x8a], Count,
    Syscall NR_write [Reg 0, Write_buf, Imm 0x8a], Count, Syscall NR_write [Reg 0, Write_buf, Imm 0x8a], Count,
    Syscall NR_write [Reg 0, Write_buf, Imm 0x8a], Count, Syscall NR_write [Reg 0, Write_buf, Imm 0x8a], Count,
    Syscall NR_write [Reg 0, Write_buf, Imm 0x8a], Count, Syscall NR_write [Reg 0, Write_buf, Imm 0x8a], Count,
    Syscall NR_write [Reg 0, Write_buf, Imm 0x8a], Count, Syscall NR_write [Reg 0, Write_buf, Imm 0x8a], Count]"

definition min_rocks_write_fcntl_0_0_body185 :: "stmt list" where
  "min_rocks_write_fcntl_0_0_body185 = [
    Syscall NR_write [Reg 0, Write_buf, Imm 0x8a], Count, Syscall NR_write [Reg 0, Write_buf, Imm 0x8a], Count,
    Syscall NR_write [Reg 0, Write_buf, Imm 0x8a], Count, Syscall NR_write [Reg 0, Write_buf, Imm 0x8a], Count,
    Syscall NR_write [Reg 0, Write_buf, Imm 0x8a], Count, Syscall NR_write [Reg 0, Write_buf, Imm 0x8a], Count,
    Syscall NR_write [Reg 0, Write_buf, Imm 0x8a], Count, Syscall NR_write [Reg 0, Write_buf, Imm 0x8a], Count,
    Syscall NR_write [Reg 0, Write_buf, Imm 0x8a], Count, Syscall NR_write [Reg 0, Write_buf, Imm 0x8a], Count,
    Syscall NR_write [Reg 0, Write_buf, Imm 0x8a], Count, Syscall NR_write [Reg 0, Write_buf, Imm 0x8a], Count,
    Syscall NR_write [Reg 0, Write_buf, Imm 0x8a], Count, Syscall NR_write [Reg 0, Write_buf, Imm 0x8a], Count]"

definition min_rocks_write_fcntl_0_0_body186 :: "stmt list" where
  "min_rocks_write_fcntl_0_0_body186 = [
    Syscall NR_write [Reg 0, Write_buf, Imm 0x8a], Count, Syscall NR_write [Reg 0, Write_buf, Imm 0x8a], Count,
    Syscall NR_write [Reg 0, Write_buf, Imm 0x8a], Count, Syscall NR_write [Reg 0, Write_buf, Imm 0x8a], Count,
    Syscall NR_write [Reg 0, Write_buf, Imm 0x8a], Count, Syscall NR_write [Reg 0, Write_buf, Imm 0x8a], Count,
    Syscall NR_write [Reg 0, Write_buf, Imm 0x8a], Count, Syscall NR_write [Reg 0, Write_buf, Imm 0x8a], Count,
    Syscall NR_write [Reg 0, Write_buf, Imm 0x8a], Count, Syscall NR_write [Reg 0, Write_buf, Imm 0x8a], Count,
    Syscall NR_write [Reg 0, Write_buf, Imm 0x8a], Count, Syscall NR_write [Reg 0, Write_buf, Imm 0x8a], Count,
    Syscall NR_write [Reg 0, Write_buf, Imm 0x8a], Count, Syscall NR_write [Reg 0, Write_buf, Imm 0x91], Count]"

definition min_rocks_write_fcntl_0_0_body187 :: "stmt list" where
  "min_rocks_write_fcntl_0_0_body187 = [
    Syscall NR_write [Reg 0, Write_buf, Imm 0x8a], Count, Syscall NR_write [Reg 0, Write_buf, Imm 0x8a], Count,
    Syscall NR_write [Reg 0, Write_buf, Imm 0x8a], Count, Syscall NR_write [Reg 0, Write_buf, Imm 0x8a], Count,
    Syscall NR_write [Reg 0, Write_buf, Imm 0x8a], Count, Syscall NR_write [Reg 0, Write_buf, Imm 0x8a], Count,
    Syscall NR_write [Reg 0, Write_buf, Imm 0x8a], Count, Syscall NR_write [Reg 0, Write_buf, Imm 0x8a], Count,
    Syscall NR_write [Reg 0, Write_buf, Imm 0x8a], Count, Syscall NR_write [Reg 0, Write_buf, Imm 0x8a], Count,
    Syscall NR_write [Reg 0, Write_buf, Imm 0x8a], Count, Syscall NR_write [Reg 0, Write_buf, Imm 0x8a], Count,
    Syscall NR_write [Reg 0, Write_buf, Imm 0x8a], Count, Syscall NR_write [Reg 0, Write_buf, Imm 0x8a], Count]"

definition min_rocks_write_fcntl_0_0_body188 :: "stmt list" where
  "min_rocks_write_fcntl_0_0_body188 = [
    Syscall NR_write [Reg 0, Write_buf, Imm 0x8a], Count, Syscall NR_write [Reg 0, Write_buf, Imm 0x8a], Count,
    Syscall NR_write [Reg 0, Write_buf, Imm 0x8a], Count, Syscall NR_write [Reg 0, Write_buf, Imm 0x8a], Count,
    Syscall NR_write [Reg 0, Write_buf, Imm 0x8a], Count, Syscall NR_write [Reg 0, Write_buf, Imm 0x8a], Count,
    Syscall NR_write [Reg 0, Write_buf, Imm 0x8a], Count, Syscall NR_write [Reg 0, Write_buf, Imm 0x8a], Count,
    Syscall NR_write [Reg 0, Write_buf, Imm 0x8a], Count, Syscall NR_write [Reg 0, Write_buf, Imm 0x8a], Count,
    Syscall NR_write [Reg 0, Write_buf, Imm 0x8a], Count, Syscall NR_write [Reg 0, Write_buf, Imm 0x8a], Count,
    Syscall NR_write [Reg 0, Write_buf, Imm 0x8a], Count, Syscall NR_write [Reg 0, Write_buf, Imm 0x8a], Count]"

definition min_rocks_write_fcntl_0_0_body189 :: "stmt list" where
  "min_rocks_write_fcntl_0_0_body189 = [
    Syscall NR_write [Reg 0, Write_buf, Imm 0x8a], Count, Syscall NR_write [Reg 0, Write_buf, Imm 0x8a], Count,
    Syscall NR_write [Reg 0, Write_buf, Imm 0x8a], Count, Syscall NR_write [Reg 0, Write_buf, Imm 0x8a], Count,
    Syscall NR_write [Reg 0, Write_buf, Imm 0x8a], Count, Syscall NR_write [Reg 0, Write_buf, Imm 0x8a], Count,
    Syscall NR_write [Reg 0, Write_buf, Imm 0x8a], Count, Syscall NR_write [Reg 0, Write_buf, Imm 0x8a], Count,
    Syscall NR_write [Reg 0, Write_buf, Imm 0x8a], Count, Syscall NR_write [Reg 0, Write_buf, Imm 0x8a], Count,
    Syscall NR_write [Reg 0, Write_buf, Imm 0x8a], Count, Syscall NR_write [Reg 0, Write_buf, Imm 0x8a], Count,
    Syscall NR_write [Reg 0, Write_buf, Imm 0x8a], Count, Syscall NR_write [Reg 0, Write_buf, Imm 0x8a], Count]"

definition min_rocks_write_fcntl_0_0_body190 :: "stmt list" where
  "min_rocks_write_fcntl_0_0_body190 = [
    Syscall NR_write [Reg 0, Write_buf, Imm 0x8a], Count, Syscall NR_write [Reg 0, Write_buf, Imm 0x8a], Count,
    Syscall NR_write [Reg 0, Write_buf, Imm 0x8a], Count, Syscall NR_write [Reg 0, Write_buf, Imm 0x8a], Count,
    Syscall NR_write [Reg 0, Write_buf, Imm 0x8a], Count, Syscall NR_write [Reg 0, Write_buf, Imm 0x8a], Count,
    Syscall NR_write [Reg 0, Write_buf, Imm 0x8a], Count, Syscall NR_write [Reg 0, Write_buf, Imm 0x8a], Count,
    Syscall NR_write [Reg 0, Write_buf, Imm 0x8a], Count, Syscall NR_write [Reg 0, Write_buf, Imm 0x8a], Count,
    Syscall NR_write [Reg 0, Write_buf, Imm 0x8a], Count, Syscall NR_write [Reg 0, Write_buf, Imm 0x8a], Count,
    Syscall NR_write [Reg 0, Write_buf, Imm 0x8a], Count, Syscall NR_write [Reg 0, Write_buf, Imm 0x8a], Count]"

definition min_rocks_write_fcntl_0_0_body191 :: "stmt list" where
  "min_rocks_write_fcntl_0_0_body191 = [
    Syscall NR_write [Reg 0, Write_buf, Imm 0x8a], Count, Syscall NR_write [Reg 0, Write_buf, Imm 0x8a], Count,
    Syscall NR_write [Reg 0, Write_buf, Imm 0x8a], Count, Syscall NR_write [Reg 0, Write_buf, Imm 0x8a], Count,
    Syscall NR_write [Reg 0, Write_buf, Imm 0x8a], Count, Syscall NR_write [Reg 0, Write_buf, Imm 0x8a], Count,
    Syscall NR_write [Reg 0, Write_buf, Imm 0x8a], Count, Syscall NR_write [Reg 0, Write_buf, Imm 0x8a], Count,
    Syscall NR_write [Reg 0, Write_buf, Imm 0x8a], Count, Syscall NR_write [Reg 0, Write_buf, Imm 0x8a], Count,
    Syscall NR_write [Reg 0, Write_buf, Imm 0x8a], Count, Syscall NR_write [Reg 0, Write_buf, Imm 0x8a], Count,
    Syscall NR_write [Reg 0, Write_buf, Imm 0x8a], Count, Syscall NR_write [Reg 0, Write_buf, Imm 0x8a], Count]"

definition min_rocks_write_fcntl_0_0_body192 :: "stmt list" where
  "min_rocks_write_fcntl_0_0_body192 = [
    Syscall NR_write [Reg 0, Write_buf, Imm 0x8a], Count, Syscall NR_write [Reg 0, Write_buf, Imm 0x8a], Count,
    Syscall NR_write [Reg 0, Write_buf, Imm 0x8a], Count, Syscall NR_write [Reg 0, Write_buf, Imm 0x8a], Count,
    Syscall NR_write [Reg 0, Write_buf, Imm 0x8a], Count, Syscall NR_write [Reg 0, Write_buf, Imm 0x8a], Count,
    Syscall NR_write [Reg 0, Write_buf, Imm 0x8a], Count, Syscall NR_write [Reg 0, Write_buf, Imm 0x8a], Count,
    Syscall NR_write [Reg 0, Write_buf, Imm 0x8a], Count, Syscall NR_write [Reg 0, Write_buf, Imm 0x8a], Count,
    Syscall NR_write [Reg 0, Write_buf, Imm 0x8a], Count, Syscall NR_write [Reg 0, Write_buf, Imm 0x8a], Count,
    Syscall NR_write [Reg 0, Write_buf, Imm 0x8a], Count, Syscall NR_write [Reg 0, Write_buf, Imm 0x8a], Count]"

definition min_rocks_write_fcntl_0_0_body193 :: "stmt list" where
  "min_rocks_write_fcntl_0_0_body193 = [
    Syscall NR_write [Reg 0, Write_buf, Imm 0x8a], Count, Syscall NR_write [Reg 0, Write_buf, Imm 0x8a], Count,
    Syscall NR_write [Reg 0, Write_buf, Imm 0x8a], Count, Syscall NR_write [Reg 0, Write_buf, Imm 0x8a], Count,
    Syscall NR_write [Reg 0, Write_buf, Imm 0x8a], Count, Syscall NR_write [Reg 0, Write_buf, Imm 0x8a], Count,
    Syscall NR_write [Reg 0, Write_buf, Imm 0x8a], Count, Syscall NR_write [Reg 0, Write_buf, Imm 0x8a], Count,
    Syscall NR_write [Reg 0, Write_buf, Imm 0x8a], Count, Syscall NR_write [Reg 0, Write_buf, Imm 0x8a], Count,
    Syscall NR_write [Reg 0, Write_buf, Imm 0x8a], Count, Syscall NR_write [Reg 0, Write_buf, Imm 0x8a], Count,
    Syscall NR_write [Reg 0, Write_buf, Imm 0x8a], Count, Syscall NR_write [Reg 0, Write_buf, Imm 0x8a], Count]"

definition min_rocks_write_fcntl_0_0_body194 :: "stmt list" where
  "min_rocks_write_fcntl_0_0_body194 = [
    Syscall NR_write [Reg 0, Write_buf, Imm 0x8a], Count, Syscall NR_write [Reg 0, Write_buf, Imm 0x8a], Count,
    Syscall NR_write [Reg 0, Write_buf, Imm 0x8a], Count, Syscall NR_write [Reg 0, Write_buf, Imm 0x8a], Count,
    Syscall NR_write [Reg 0, Write_buf, Imm 0x8a], Count, Syscall NR_write [Reg 0, Write_buf, Imm 0x8a], Count,
    Syscall NR_write [Reg 0, Write_buf, Imm 0x8a], Count, Syscall NR_write [Reg 0, Write_buf, Imm 0x8a], Count,
    Syscall NR_write [Reg 0, Write_buf, Imm 0x8a], Count, Syscall NR_write [Reg 0, Write_buf, Imm 0x8a], Count,
    Syscall NR_write [Reg 0, Write_buf, Imm 0x8a], Count, Syscall NR_write [Reg 0, Write_buf, Imm 0x8a], Count,
    Syscall NR_write [Reg 0, Write_buf, Imm 0x8a], Count, Syscall NR_write [Reg 0, Write_buf, Imm 0x8a], Count]"

definition min_rocks_write_fcntl_0_0_body195 :: "stmt list" where
  "min_rocks_write_fcntl_0_0_body195 = [
    Syscall NR_write [Reg 0, Write_buf, Imm 0x8a], Count, Syscall NR_write [Reg 0, Write_buf, Imm 0x8a], Count,
    Syscall NR_write [Reg 0, Write_buf, Imm 0x8a], Count, Syscall NR_write [Reg 0, Write_buf, Imm 0x8a], Count,
    Syscall NR_write [Reg 0, Write_buf, Imm 0x8a], Count, Syscall NR_write [Reg 0, Write_buf, Imm 0x8a], Count,
    Syscall NR_write [Reg 0, Write_buf, Imm 0x8a], Count, Syscall NR_write [Reg 0, Write_buf, Imm 0x8a], Count,
    Syscall NR_write [Reg 0, Write_buf, Imm 0x8a], Count, Syscall NR_write [Reg 0, Write_buf, Imm 0x8a], Count,
    Syscall NR_write [Reg 0, Write_buf, Imm 0x8a], Count, Syscall NR_write [Reg 0, Write_buf, Imm 0x8a], Count,
    Syscall NR_write [Reg 0, Write_buf, Imm 0x8a], Count, Syscall NR_write [Reg 0, Write_buf, Imm 0x8a], Count]"

definition min_rocks_write_fcntl_0_0_body196 :: "stmt list" where
  "min_rocks_write_fcntl_0_0_body196 = [
    Syscall NR_write [Reg 0, Write_buf, Imm 0x8a], Count, Syscall NR_write [Reg 0, Write_buf, Imm 0x8a], Count,
    Syscall NR_write [Reg 0, Write_buf, Imm 0x8a], Count, Syscall NR_write [Reg 0, Write_buf, Imm 0x8a], Count,
    Syscall NR_write [Reg 0, Write_buf, Imm 0x8a], Count, Syscall NR_write [Reg 0, Write_buf, Imm 0x8a], Count,
    Syscall NR_write [Reg 0, Write_buf, Imm 0x8a], Count, Syscall NR_write [Reg 0, Write_buf, Imm 0x8a], Count,
    Syscall NR_write [Reg 0, Write_buf, Imm 0x8a], Count, Syscall NR_write [Reg 0, Write_buf, Imm 0x8a], Count,
    Syscall NR_write [Reg 0, Write_buf, Imm 0x8a], Count, Syscall NR_write [Reg 0, Write_buf, Imm 0x8a], Count,
    Syscall NR_write [Reg 0, Write_buf, Imm 0x8a], Count, Syscall NR_write [Reg 0, Write_buf, Imm 0x8a], Count]"

definition min_rocks_write_fcntl_0_0_body197 :: "stmt list" where
  "min_rocks_write_fcntl_0_0_body197 = [
    Syscall NR_write [Reg 0, Write_buf, Imm 0x8a], Count, Syscall NR_write [Reg 0, Write_buf, Imm 0x8a], Count,
    Syscall NR_write [Reg 0, Write_buf, Imm 0x8a], Count, Syscall NR_write [Reg 0, Write_buf, Imm 0x8a], Count,
    Syscall NR_write [Reg 0, Write_buf, Imm 0x8a], Count, Syscall NR_write [Reg 0, Write_buf, Imm 0x8a], Count,
    Syscall NR_write [Reg 0, Write_buf, Imm 0x8a], Count, Syscall NR_write [Reg 0, Write_buf, Imm 0x8a], Count,
    Syscall NR_write [Reg 0, Write_buf, Imm 0x8a], Count, Syscall NR_write [Reg 0, Write_buf, Imm 0x8a], Count,
    Syscall NR_write [Reg 0, Write_buf, Imm 0x8a], Count, Syscall NR_write [Reg 0, Write_buf, Imm 0x8a], Count,
    Syscall NR_write [Reg 0, Write_buf, Imm 0x8a], Count, Syscall NR_write [Reg 0, Write_buf, Imm 0x8a], Count]"

definition min_rocks_write_fcntl_0_0_body198 :: "stmt list" where
  "min_rocks_write_fcntl_0_0_body198 = [
    Syscall NR_write [Reg 0, Write_buf, Imm 0x8a], Count, Syscall NR_write [Reg 0, Write_buf, Imm 0x8a], Count,
    Syscall NR_write [Reg 0, Write_buf, Imm 0x8a], Count, Syscall NR_write [Reg 0, Write_buf, Imm 0x8a], Count,
    Syscall NR_write [Reg 0, Write_buf, Imm 0x8a], Count, Syscall NR_write [Reg 0, Write_buf, Imm 0x8a], Count,
    Syscall NR_write [Reg 0, Write_buf, Imm 0x8a], Count, Syscall NR_write [Reg 0, Write_buf, Imm 0x8a], Count,
    Syscall NR_write [Reg 0, Write_buf, Imm 0x8a], Count, Syscall NR_write [Reg 0, Write_buf, Imm 0x8a], Count,
    Syscall NR_write [Reg 0, Write_buf, Imm 0x8a], Count, Syscall NR_write [Reg 0, Write_buf, Imm 0x8a], Count,
    Syscall NR_write [Reg 0, Write_buf, Imm 0x8a], Count, Syscall NR_write [Reg 0, Write_buf, Imm 0x8a], Count]"

definition min_rocks_write_fcntl_0_0_body199 :: "stmt list" where
  "min_rocks_write_fcntl_0_0_body199 = [
    Syscall NR_write [Reg 0, Write_buf, Imm 0x8a], Count, Syscall NR_write [Reg 0, Write_buf, Imm 0x8a], Count,
    Syscall NR_write [Reg 0, Write_buf, Imm 0x8a], Count, Syscall NR_write [Reg 0, Write_buf, Imm 0x8a], Count,
    Syscall NR_write [Reg 0, Write_buf, Imm 0x8a], Count, Syscall NR_write [Reg 0, Write_buf, Imm 0x8a], Count,
    Syscall NR_write [Reg 0, Write_buf, Imm 0x8a], Count, Syscall NR_write [Reg 0, Write_buf, Imm 0x8a], Count,
    Syscall NR_write [Reg 0, Write_buf, Imm 0x8a], Count, Syscall NR_write [Reg 0, Write_buf, Imm 0x8a], Count,
    Syscall NR_write [Reg 0, Write_buf, Imm 0x8a], Count, Syscall NR_write [Reg 0, Write_buf, Imm 0x8a], Count,
    Syscall NR_write [Reg 0, Write_buf, Imm 0x8a], Count, Syscall NR_write [Reg 0, Write_buf, Imm 0x8a], Count]"

definition min_rocks_write_fcntl_0_0_body200 :: "stmt list" where
  "min_rocks_write_fcntl_0_0_body200 = [
    Syscall NR_write [Reg 0, Write_buf, Imm 0x8a], Count, Syscall NR_write [Reg 0, Write_buf, Imm 0x8a], Count,
    Syscall NR_write [Reg 0, Write_buf, Imm 0x8a], Count, Syscall NR_write [Reg 0, Write_buf, Imm 0x8a], Count,
    Syscall NR_write [Reg 0, Write_buf, Imm 0x8a], Count, Syscall NR_write [Reg 0, Write_buf, Imm 0x8a], Count,
    Syscall NR_write [Reg 0, Write_buf, Imm 0x8a], Count, Syscall NR_write [Reg 0, Write_buf, Imm 0x8a], Count,
    Syscall NR_write [Reg 0, Write_buf, Imm 0x8a], Count, Syscall NR_write [Reg 0, Write_buf, Imm 0x8a], Count,
    Syscall NR_write [Reg 0, Write_buf, Imm 0x8a], Count, Syscall NR_write [Reg 0, Write_buf, Imm 0x8a], Count,
    Syscall NR_write [Reg 0, Write_buf, Imm 0x8a], Count, Syscall NR_write [Reg 0, Write_buf, Imm 0x8a], Count]"

definition min_rocks_write_fcntl_0_0_body201 :: "stmt list" where
  "min_rocks_write_fcntl_0_0_body201 = [
    Syscall NR_write [Reg 0, Write_buf, Imm 0x8a], Count, Syscall NR_write [Reg 0, Write_buf, Imm 0x8a], Count,
    Syscall NR_write [Reg 0, Write_buf, Imm 0x8a], Count, Syscall NR_write [Reg 0, Write_buf, Imm 0x8a], Count,
    Syscall NR_write [Reg 0, Write_buf, Imm 0x8a], Count, Syscall NR_write [Reg 0, Write_buf, Imm 0x8a], Count,
    Syscall NR_write [Reg 0, Write_buf, Imm 0x8a], Count, Syscall NR_write [Reg 0, Write_buf, Imm 0x8a], Count,
    Syscall NR_write [Reg 0, Write_buf, Imm 0x8a], Count, Syscall NR_write [Reg 0, Write_buf, Imm 0x8a], Count,
    Syscall NR_write [Reg 0, Write_buf, Imm 0x8a], Count, Syscall NR_write [Reg 0, Write_buf, Imm 0x8a], Count,
    Syscall NR_write [Reg 0, Write_buf, Imm 0x8a], Count, Syscall NR_write [Reg 0, Write_buf, Imm 0x8a], Count]"

definition min_rocks_write_fcntl_0_0_body202 :: "stmt list" where
  "min_rocks_write_fcntl_0_0_body202 = [
    Syscall NR_write [Reg 0, Write_buf, Imm 0x8a], Count, Syscall NR_write [Reg 0, Write_buf, Imm 0x8a], Count,
    Syscall NR_write [Reg 0, Write_buf, Imm 0x8a], Count, Syscall NR_write [Reg 0, Write_buf, Imm 0x8a], Count,
    Syscall NR_write [Reg 0, Write_buf, Imm 0x8a], Count, Syscall NR_write [Reg 0, Write_buf, Imm 0x8a], Count,
    Syscall NR_write [Reg 0, Write_buf, Imm 0x8a], Count, Syscall NR_write [Reg 0, Write_buf, Imm 0x8a], Count,
    Syscall NR_write [Reg 0, Write_buf, Imm 0x8a], Count, Syscall NR_write [Reg 0, Write_buf, Imm 0x8a], Count,
    Syscall NR_write [Reg 0, Write_buf, Imm 0x8a], Count, Syscall NR_write [Reg 0, Write_buf, Imm 0x8a], Count,
    Syscall NR_write [Reg 0, Write_buf, Imm 0x8a], Count, Syscall NR_write [Reg 0, Write_buf, Imm 0x8a], Count]"

definition min_rocks_write_fcntl_0_0_body203 :: "stmt list" where
  "min_rocks_write_fcntl_0_0_body203 = [
    Syscall NR_write [Reg 0, Write_buf, Imm 0x8a], Count, Syscall NR_write [Reg 0, Write_buf, Imm 0x8a], Count,
    Syscall NR_write [Reg 0, Write_buf, Imm 0x8a], Count, Syscall NR_write [Reg 0, Write_buf, Imm 0x8a], Count,
    Syscall NR_write [Reg 0, Write_buf, Imm 0x8a], Count, Syscall NR_write [Reg 0, Write_buf, Imm 0x8a], Count,
    Syscall NR_write [Reg 0, Write_buf, Imm 0x8a], Count, Syscall NR_write [Reg 0, Write_buf, Imm 0x8a], Count,
    Syscall NR_write [Reg 0, Write_buf, Imm 0x8a], Count, Syscall NR_write [Reg 0, Write_buf, Imm 0x8a], Count,
    Syscall NR_write [Reg 0, Write_buf, Imm 0x8a], Count, Syscall NR_write [Reg 0, Write_buf, Imm 0x8a], Count,
    Syscall NR_write [Reg 0, Write_buf, Imm 0x8a], Count, Syscall NR_write [Reg 0, Write_buf, Imm 0x90], Count]"

definition min_rocks_write_fcntl_0_0_body204 :: "stmt list" where
  "min_rocks_write_fcntl_0_0_body204 = [
    Syscall NR_write [Reg 0, Write_buf, Imm 0x8a], Count, Syscall NR_write [Reg 0, Write_buf, Imm 0x8a], Count,
    Syscall NR_write [Reg 0, Write_buf, Imm 0x8a], Count, Syscall NR_write [Reg 0, Write_buf, Imm 0x8a], Count,
    Syscall NR_write [Reg 0, Write_buf, Imm 0x8a], Count, Syscall NR_write [Reg 0, Write_buf, Imm 0x8a], Count,
    Syscall NR_write [Reg 0, Write_buf, Imm 0x8a], Count, Syscall NR_write [Reg 0, Write_buf, Imm 0x8a], Count,
    Syscall NR_write [Reg 0, Write_buf, Imm 0x8a], Count, Syscall NR_write [Reg 0, Write_buf, Imm 0x8a], Count,
    Syscall NR_write [Reg 0, Write_buf, Imm 0x8a], Count, Syscall NR_write [Reg 0, Write_buf, Imm 0x8a], Count,
    Syscall NR_write [Reg 0, Write_buf, Imm 0x8a], Count, Syscall NR_write [Reg 0, Write_buf, Imm 0x8a], Count]"

definition min_rocks_write_fcntl_0_0_body205 :: "stmt list" where
  "min_rocks_write_fcntl_0_0_body205 = [
    Syscall NR_write [Reg 0, Write_buf, Imm 0x8a], Count, Syscall NR_write [Reg 0, Write_buf, Imm 0x8a], Count,
    Syscall NR_write [Reg 0, Write_buf, Imm 0x8a], Count, Syscall NR_write [Reg 0, Write_buf, Imm 0x8a], Count,
    Syscall NR_write [Reg 0, Write_buf, Imm 0x8a], Count, Syscall NR_write [Reg 0, Write_buf, Imm 0x8a], Count,
    Syscall NR_write [Reg 0, Write_buf, Imm 0x8a], Count, Syscall NR_write [Reg 0, Write_buf, Imm 0x8a], Count,
    Syscall NR_write [Reg 0, Write_buf, Imm 0x8a], Count, Syscall NR_write [Reg 0, Write_buf, Imm 0x8a], Count,
    Syscall NR_write [Reg 0, Write_buf, Imm 0x8a], Count, Syscall NR_write [Reg 0, Write_buf, Imm 0x8a], Count,
    Syscall NR_write [Reg 0, Write_buf, Imm 0x8a], Count, Syscall NR_write [Reg 0, Write_buf, Imm 0x8a], Count]"

definition min_rocks_write_fcntl_0_0_body206 :: "stmt list" where
  "min_rocks_write_fcntl_0_0_body206 = [
    Syscall NR_write [Reg 0, Write_buf, Imm 0x8a], Count, Syscall NR_write [Reg 0, Write_buf, Imm 0x8a], Count,
    Syscall NR_write [Reg 0, Write_buf, Imm 0x8a], Count, Syscall NR_write [Reg 0, Write_buf, Imm 0x8a], Count,
    Syscall NR_write [Reg 0, Write_buf, Imm 0x8a], Count, Syscall NR_write [Reg 0, Write_buf, Imm 0x8a], Count,
    Syscall NR_write [Reg 0, Write_buf, Imm 0x8a], Count, Syscall NR_write [Reg 0, Write_buf, Imm 0x8a], Count,
    Syscall NR_write [Reg 0, Write_buf, Imm 0x8a], Count, Syscall NR_write [Reg 0, Write_buf, Imm 0x8a], Count,
    Syscall NR_write [Reg 0, Write_buf, Imm 0x8a], Count, Syscall NR_write [Reg 0, Write_buf, Imm 0x8a], Count,
    Syscall NR_write [Reg 0, Write_buf, Imm 0x8a], Count, Syscall NR_write [Reg 0, Write_buf, Imm 0x8a], Count]"

definition min_rocks_write_fcntl_0_0_body207 :: "stmt list" where
  "min_rocks_write_fcntl_0_0_body207 = [
    Syscall NR_write [Reg 0, Write_buf, Imm 0x8a], Count, Syscall NR_write [Reg 0, Write_buf, Imm 0x8a], Count,
    Syscall NR_write [Reg 0, Write_buf, Imm 0x8a], Count, Syscall NR_write [Reg 0, Write_buf, Imm 0x8a], Count,
    Syscall NR_write [Reg 0, Write_buf, Imm 0x8a], Count, Syscall NR_write [Reg 0, Write_buf, Imm 0x8a], Count,
    Syscall NR_write [Reg 0, Write_buf, Imm 0x8a], Count, Syscall NR_write [Reg 0, Write_buf, Imm 0x8a], Count,
    Syscall NR_write [Reg 0, Write_buf, Imm 0x8a], Count, Syscall NR_write [Reg 0, Write_buf, Imm 0x8a], Count,
    Syscall NR_write [Reg 0, Write_buf, Imm 0x8a], Count, Syscall NR_write [Reg 0, Write_buf, Imm 0x8a], Count,
    Syscall NR_write [Reg 0, Write_buf, Imm 0x8a], Count, Syscall NR_write [Reg 0, Write_buf, Imm 0x8a], Count]"

definition min_rocks_write_fcntl_0_0_body208 :: "stmt list" where
  "min_rocks_write_fcntl_0_0_body208 = [
    Syscall NR_write [Reg 0, Write_buf, Imm 0x8a], Count, Syscall NR_write [Reg 0, Write_buf, Imm 0x8a], Count,
    Syscall NR_write [Reg 0, Write_buf, Imm 0x8a], Count, Syscall NR_write [Reg 0, Write_buf, Imm 0x8a], Count,
    Syscall NR_write [Reg 0, Write_buf, Imm 0x8a], Count, Syscall NR_write [Reg 0, Write_buf, Imm 0x8a], Count,
    Syscall NR_write [Reg 0, Write_buf, Imm 0x8a], Count, Syscall NR_write [Reg 0, Write_buf, Imm 0x8a], Count,
    Syscall NR_write [Reg 0, Write_buf, Imm 0x8a], Count, Syscall NR_write [Reg 0, Write_buf, Imm 0x8a], Count,
    Syscall NR_write [Reg 0, Write_buf, Imm 0x8a], Count, Syscall NR_write [Reg 0, Write_buf, Imm 0x8a], Count,
    Syscall NR_write [Reg 0, Write_buf, Imm 0x8a], Count, Syscall NR_write [Reg 0, Write_buf, Imm 0x8a], Count]"

definition min_rocks_write_fcntl_0_0_body209 :: "stmt list" where
  "min_rocks_write_fcntl_0_0_body209 = [
    Syscall NR_write [Reg 0, Write_buf, Imm 0x8a], Count, Syscall NR_write [Reg 0, Write_buf, Imm 0x8a], Count,
    Syscall NR_write [Reg 0, Write_buf, Imm 0x8a], Count, Syscall NR_write [Reg 0, Write_buf, Imm 0x8a], Count,
    Syscall NR_write [Reg 0, Write_buf, Imm 0x8a], Count, Syscall NR_write [Reg 0, Write_buf, Imm 0x8a], Count,
    Syscall NR_write [Reg 0, Write_buf, Imm 0x8a], Count, Syscall NR_write [Reg 0, Write_buf, Imm 0x8a], Count,
    Syscall NR_write [Reg 0, Write_buf, Imm 0x8a], Count, Syscall NR_write [Reg 0, Write_buf, Imm 0x8a], Count,
    Syscall NR_write [Reg 0, Write_buf, Imm 0x8a], Count, Syscall NR_write [Reg 0, Write_buf, Imm 0x8a], Count,
    Syscall NR_write [Reg 0, Write_buf, Imm 0x8a], Count, Syscall NR_write [Reg 0, Write_buf, Imm 0x8a], Count]"

definition min_rocks_write_fcntl_0_0_body210 :: "stmt list" where
  "min_rocks_write_fcntl_0_0_body210 = [
    Syscall NR_write [Reg 0, Write_buf, Imm 0x8a], Count, Syscall NR_write [Reg 0, Write_buf, Imm 0x8a], Count,
    Syscall NR_write [Reg 0, Write_buf, Imm 0x8a], Count, Syscall NR_write [Reg 0, Write_buf, Imm 0x8a], Count,
    Syscall NR_write [Reg 0, Write_buf, Imm 0x8a], Count, Syscall NR_write [Reg 0, Write_buf, Imm 0x8a], Count,
    Syscall NR_write [Reg 0, Write_buf, Imm 0x8a], Count, Syscall NR_write [Reg 0, Write_buf, Imm 0x8a], Count,
    Syscall NR_write [Reg 0, Write_buf, Imm 0x8a], Count, Syscall NR_write [Reg 0, Write_buf, Imm 0x8a], Count,
    Syscall NR_write [Reg 0, Write_buf, Imm 0x8a], Count, Syscall NR_write [Reg 0, Write_buf, Imm 0x8a], Count,
    Syscall NR_write [Reg 0, Write_buf, Imm 0x8a], Count, Syscall NR_write [Reg 0, Write_buf, Imm 0x8a], Count]"

definition min_rocks_write_fcntl_0_0_body211 :: "stmt list" where
  "min_rocks_write_fcntl_0_0_body211 = [
    Syscall NR_write [Reg 0, Write_buf, Imm 0x8a], Count, Syscall NR_write [Reg 0, Write_buf, Imm 0x8a], Count,
    Syscall NR_write [Reg 0, Write_buf, Imm 0x8a], Count, Syscall NR_write [Reg 0, Write_buf, Imm 0x8a], Count,
    Syscall NR_write [Reg 0, Write_buf, Imm 0x8a], Count, Syscall NR_write [Reg 0, Write_buf, Imm 0x8a], Count,
    Syscall NR_write [Reg 0, Write_buf, Imm 0x8a], Count, Syscall NR_write [Reg 0, Write_buf, Imm 0x8a], Count,
    Syscall NR_write [Reg 0, Write_buf, Imm 0x8a], Count, Syscall NR_write [Reg 0, Write_buf, Imm 0x8a], Count,
    Syscall NR_write [Reg 0, Write_buf, Imm 0x8a], Count, Syscall NR_write [Reg 0, Write_buf, Imm 0x8a], Count,
    Syscall NR_write [Reg 0, Write_buf, Imm 0x8a], Count, Syscall NR_write [Reg 0, Write_buf, Imm 0x8a], Count]"

definition min_rocks_write_fcntl_0_0_body212 :: "stmt list" where
  "min_rocks_write_fcntl_0_0_body212 = [
    Syscall NR_write [Reg 0, Write_buf, Imm 0x8a], Count, Syscall NR_write [Reg 0, Write_buf, Imm 0x8a], Count,
    Syscall NR_write [Reg 0, Write_buf, Imm 0x8a], Count, Syscall NR_write [Reg 0, Write_buf, Imm 0x8a], Count,
    Syscall NR_write [Reg 0, Write_buf, Imm 0x8a], Count, Syscall NR_write [Reg 0, Write_buf, Imm 0x8a], Count,
    Syscall NR_write [Reg 0, Write_buf, Imm 0x8a], Count, Syscall NR_write [Reg 0, Write_buf, Imm 0x8a], Count,
    Syscall NR_write [Reg 0, Write_buf, Imm 0x8a], Count, Syscall NR_write [Reg 0, Write_buf, Imm 0x8a], Count,
    Syscall NR_write [Reg 0, Write_buf, Imm 0x8a], Count, Syscall NR_write [Reg 0, Write_buf, Imm 0x8a], Count,
    Syscall NR_write [Reg 0, Write_buf, Imm 0x8a], Count, Syscall NR_write [Reg 0, Write_buf, Imm 0x8a], Count]"

definition min_rocks_write_fcntl_0_0_body213 :: "stmt list" where
  "min_rocks_write_fcntl_0_0_body213 = [
    Syscall NR_write [Reg 0, Write_buf, Imm 0x8a], Count, Syscall NR_write [Reg 0, Write_buf, Imm 0x8a], Count,
    Syscall NR_write [Reg 0, Write_buf, Imm 0x8a], Count, Syscall NR_write [Reg 0, Write_buf, Imm 0x8a], Count,
    Syscall NR_write [Reg 0, Write_buf, Imm 0x8a], Count, Syscall NR_write [Reg 0, Write_buf, Imm 0x8a], Count,
    Syscall NR_write [Reg 0, Write_buf, Imm 0x8a], Count, Syscall NR_write [Reg 0, Write_buf, Imm 0x8a], Count,
    Syscall NR_write [Reg 0, Write_buf, Imm 0x8a], Count, Syscall NR_write [Reg 0, Write_buf, Imm 0x8a], Count,
    Syscall NR_write [Reg 0, Write_buf, Imm 0x8a], Count, Syscall NR_write [Reg 0, Write_buf, Imm 0x8a], Count,
    Syscall NR_write [Reg 0, Write_buf, Imm 0x8a], Count, Syscall NR_write [Reg 0, Write_buf, Imm 0x8a], Count]"

definition min_rocks_write_fcntl_0_0_body214 :: "stmt list" where
  "min_rocks_write_fcntl_0_0_body214 = [
    Syscall NR_write [Reg 0, Write_buf, Imm 0x8a], Count, Syscall NR_write [Reg 0, Write_buf, Imm 0x8a], Count,
    Syscall NR_write [Reg 0, Write_buf, Imm 0x8a], Count, Syscall NR_write [Reg 0, Write_buf, Imm 0x8a], Count,
    Syscall NR_write [Reg 0, Write_buf, Imm 0x8a], Count, Syscall NR_write [Reg 0, Write_buf, Imm 0x8a], Count,
    Syscall NR_write [Reg 0, Write_buf, Imm 0x8a], Count, Syscall NR_write [Reg 0, Write_buf, Imm 0x8a], Count,
    Syscall NR_write [Reg 0, Write_buf, Imm 0x8a], Count, Syscall NR_write [Reg 0, Write_buf, Imm 0x8a], Count,
    Syscall NR_write [Reg 0, Write_buf, Imm 0x8a], Count, Syscall NR_write [Reg 0, Write_buf, Imm 0x8a], Count,
    Syscall NR_write [Reg 0, Write_buf, Imm 0x8a], Count, Syscall NR_write [Reg 0, Write_buf, Imm 0x8a], Count]"

definition min_rocks_write_fcntl_0_0_body215 :: "stmt list" where
  "min_rocks_write_fcntl_0_0_body215 = [
    Syscall NR_write [Reg 0, Write_buf, Imm 0x8a], Count, Syscall NR_write [Reg 0, Write_buf, Imm 0x8a], Count,
    Syscall NR_write [Reg 0, Write_buf, Imm 0x8a], Count, Syscall NR_write [Reg 0, Write_buf, Imm 0x8a], Count,
    Syscall NR_write [Reg 0, Write_buf, Imm 0x8a], Count, Syscall NR_write [Reg 0, Write_buf, Imm 0x8a], Count,
    Syscall NR_write [Reg 0, Write_buf, Imm 0x8a], Count, Syscall NR_write [Reg 0, Write_buf, Imm 0x8a], Count,
    Syscall NR_write [Reg 0, Write_buf, Imm 0x8a], Count, Syscall NR_write [Reg 0, Write_buf, Imm 0x8a], Count,
    Syscall NR_write [Reg 0, Write_buf, Imm 0x8a], Count, Syscall NR_write [Reg 0, Write_buf, Imm 0x8a], Count,
    Syscall NR_write [Reg 0, Write_buf, Imm 0x8a], Count, Syscall NR_write [Reg 0, Write_buf, Imm 0x8a], Count]"

definition min_rocks_write_fcntl_0_0_body216 :: "stmt list" where
  "min_rocks_write_fcntl_0_0_body216 = [
    Syscall NR_write [Reg 0, Write_buf, Imm 0x8a], Count, Syscall NR_write [Reg 0, Write_buf, Imm 0x8a], Count,
    Syscall NR_write [Reg 0, Write_buf, Imm 0x8a], Count, Syscall NR_write [Reg 0, Write_buf, Imm 0x8a], Count,
    Syscall NR_write [Reg 0, Write_buf, Imm 0x8a], Count, Syscall NR_write [Reg 0, Write_buf, Imm 0x8a], Count,
    Syscall NR_write [Reg 0, Write_buf, Imm 0x8a], Count, Syscall NR_write [Reg 0, Write_buf, Imm 0x8a], Count,
    Syscall NR_write [Reg 0, Write_buf, Imm 0x8a], Count, Syscall NR_write [Reg 0, Write_buf, Imm 0x8a], Count,
    Syscall NR_write [Reg 0, Write_buf, Imm 0x8a], Count, Syscall NR_write [Reg 0, Write_buf, Imm 0x8a], Count,
    Syscall NR_write [Reg 0, Write_buf, Imm 0x8a], Count, Syscall NR_write [Reg 0, Write_buf, Imm 0x8a], Count]"

definition min_rocks_write_fcntl_0_0_body217 :: "stmt list" where
  "min_rocks_write_fcntl_0_0_body217 = [
    Syscall NR_write [Reg 0, Write_buf, Imm 0x8a], Count, Syscall NR_write [Reg 0, Write_buf, Imm 0x8a], Count,
    Syscall NR_write [Reg 0, Write_buf, Imm 0x8a], Count, Syscall NR_write [Reg 0, Write_buf, Imm 0x8a], Count,
    Syscall NR_write [Reg 0, Write_buf, Imm 0x8a], Count, Syscall NR_write [Reg 0, Write_buf, Imm 0x8a], Count,
    Syscall NR_write [Reg 0, Write_buf, Imm 0x8a], Count, Syscall NR_write [Reg 0, Write_buf, Imm 0x8a], Count,
    Syscall NR_write [Reg 0, Write_buf, Imm 0x8a], Count, Syscall NR_write [Reg 0, Write_buf, Imm 0x8a], Count,
    Syscall NR_write [Reg 0, Write_buf, Imm 0x8a], Count, Syscall NR_write [Reg 0, Write_buf, Imm 0x8a], Count,
    Syscall NR_write [Reg 0, Write_buf, Imm 0x8a], Count, Syscall NR_write [Reg 0, Write_buf, Imm 0x8a], Count]"

definition min_rocks_write_fcntl_0_0_body218 :: "stmt list" where
  "min_rocks_write_fcntl_0_0_body218 = [
    Syscall NR_write [Reg 0, Write_buf, Imm 0x8a], Count, Syscall NR_write [Reg 0, Write_buf, Imm 0x8a], Count,
    Syscall NR_write [Reg 0, Write_buf, Imm 0x8a], Count, Syscall NR_write [Reg 0, Write_buf, Imm 0x8a], Count,
    Syscall NR_write [Reg 0, Write_buf, Imm 0x8a], Count, Syscall NR_write [Reg 0, Write_buf, Imm 0x8a], Count,
    Syscall NR_write [Reg 0, Write_buf, Imm 0x8a], Count, Syscall NR_write [Reg 0, Write_buf, Imm 0x8a], Count,
    Syscall NR_write [Reg 0, Write_buf, Imm 0x8a], Count, Syscall NR_write [Reg 0, Write_buf, Imm 0x8a], Count,
    Syscall NR_write [Reg 0, Write_buf, Imm 0x8a], Count, Syscall NR_write [Reg 0, Write_buf, Imm 0x8a], Count,
    Syscall NR_write [Reg 0, Write_buf, Imm 0x8a], Count, Syscall NR_write [Reg 0, Write_buf, Imm 0x8a], Count]"

definition min_rocks_write_fcntl_0_0_body219 :: "stmt list" where
  "min_rocks_write_fcntl_0_0_body219 = [
    Syscall NR_write [Reg 0, Write_buf, Imm 0x8a], Count, Syscall NR_write [Reg 0, Write_buf, Imm 0x8a], Count,
    Syscall NR_write [Reg 0, Write_buf, Imm 0x8a], Count, Syscall NR_write [Reg 0, Write_buf, Imm 0x8a], Count,
    Syscall NR_write [Reg 0, Write_buf, Imm 0x8a], Count, Syscall NR_write [Reg 0, Write_buf, Imm 0x8a], Count,
    Syscall NR_write [Reg 0, Write_buf, Imm 0x8a], Count, Syscall NR_write [Reg 0, Write_buf, Imm 0x8a], Count,
    Syscall NR_write [Reg 0, Write_buf, Imm 0x8a], Count, Syscall NR_write [Reg 0, Write_buf, Imm 0x8a], Count,
    Syscall NR_write [Reg 0, Write_buf, Imm 0x8a], Count, Syscall NR_write [Reg 0, Write_buf, Imm 0x8a], Count,
    Syscall NR_write [Reg 0, Write_buf, Imm 0x8a], Count, Syscall NR_write [Reg 0, Write_buf, Imm 0x8a], Count]"

definition min_rocks_write_fcntl_0_0_body220 :: "stmt list" where
  "min_rocks_write_fcntl_0_0_body220 = [
    Syscall NR_write [Reg 0, Write_buf, Imm 0x8a], Count, Syscall NR_write [Reg 0, Write_buf, Imm 0x8a], Count,
    Syscall NR_write [Reg 0, Write_buf, Imm 0x8a], Count, Syscall NR_write [Reg 0, Write_buf, Imm 0x8a], Count,
    Syscall NR_write [Reg 0, Write_buf, Imm 0x8a], Count, Syscall NR_write [Reg 0, Write_buf, Imm 0x8a], Count,
    Syscall NR_write [Reg 0, Write_buf, Imm 0x8a], Count, Syscall NR_write [Reg 0, Write_buf, Imm 0x8a], Count,
    Syscall NR_write [Reg 0, Write_buf, Imm 0x8a], Count, Syscall NR_write [Reg 0, Write_buf, Imm 0x8a], Count,
    Syscall NR_write [Reg 0, Write_buf, Imm 0x8a], Count, Syscall NR_write [Reg 0, Write_buf, Imm 0x8a], Count,
    Syscall NR_write [Reg 0, Write_buf, Imm 0x91], Count, Syscall NR_write [Reg 0, Write_buf, Imm 0x8a], Count]"

definition min_rocks_write_fcntl_0_0_body221 :: "stmt list" where
  "min_rocks_write_fcntl_0_0_body221 = [
    Syscall NR_write [Reg 0, Write_buf, Imm 0x8a], Count, Syscall NR_write [Reg 0, Write_buf, Imm 0x8a], Count,
    Syscall NR_write [Reg 0, Write_buf, Imm 0x8a], Count, Syscall NR_write [Reg 0, Write_buf, Imm 0x8a], Count,
    Syscall NR_write [Reg 0, Write_buf, Imm 0x8a], Count, Syscall NR_write [Reg 0, Write_buf, Imm 0x8a], Count,
    Syscall NR_write [Reg 0, Write_buf, Imm 0x8a], Count, Syscall NR_write [Reg 0, Write_buf, Imm 0x8a], Count,
    Syscall NR_write [Reg 0, Write_buf, Imm 0x8a], Count, Syscall NR_write [Reg 0, Write_buf, Imm 0x8a], Count,
    Syscall NR_write [Reg 0, Write_buf, Imm 0x8a], Count, Syscall NR_write [Reg 0, Write_buf, Imm 0x8a], Count,
    Syscall NR_write [Reg 0, Write_buf, Imm 0x8a], Count, Syscall NR_write [Reg 0, Write_buf, Imm 0x8a], Count]"

definition min_rocks_write_fcntl_0_0_body222 :: "stmt list" where
  "min_rocks_write_fcntl_0_0_body222 = [
    Syscall NR_write [Reg 0, Write_buf, Imm 0x8a], Count, Syscall NR_write [Reg 0, Write_buf, Imm 0x8a], Count,
    Syscall NR_write [Reg 0, Write_buf, Imm 0x8a], Count, Syscall NR_write [Reg 0, Write_buf, Imm 0x8a], Count,
    Syscall NR_write [Reg 0, Write_buf, Imm 0x8a], Count, Syscall NR_write [Reg 0, Write_buf, Imm 0x8a], Count,
    Syscall NR_write [Reg 0, Write_buf, Imm 0x8a], Count, Syscall NR_write [Reg 0, Write_buf, Imm 0x8a], Count,
    Syscall NR_write [Reg 0, Write_buf, Imm 0x8a], Count, Syscall NR_write [Reg 0, Write_buf, Imm 0x8a], Count,
    Syscall NR_write [Reg 0, Write_buf, Imm 0x8a], Count, Syscall NR_write [Reg 0, Write_buf, Imm 0x8a], Count,
    Syscall NR_write [Reg 0, Write_buf, Imm 0x8a], Count, Syscall NR_write [Reg 0, Write_buf, Imm 0x8a], Count]"

definition min_rocks_write_fcntl_0_0_body223 :: "stmt list" where
  "min_rocks_write_fcntl_0_0_body223 = [
    Syscall NR_write [Reg 0, Write_buf, Imm 0x8a], Count, Syscall NR_write [Reg 0, Write_buf, Imm 0x8a], Count,
    Syscall NR_write [Reg 0, Write_buf, Imm 0x8a], Count, Syscall NR_write [Reg 0, Write_buf, Imm 0x8a], Count,
    Syscall NR_write [Reg 0, Write_buf, Imm 0x8a], Count, Syscall NR_write [Reg 0, Write_buf, Imm 0x8a], Count,
    Syscall NR_write [Reg 0, Write_buf, Imm 0x8a], Count, Syscall NR_write [Reg 0, Write_buf, Imm 0x8a], Count,
    Syscall NR_write [Reg 0, Write_buf, Imm 0x8a], Count, Syscall NR_write [Reg 0, Write_buf, Imm 0x8a], Count,
    Syscall NR_write [Reg 0, Write_buf, Imm 0x8a], Count, Syscall NR_write [Reg 0, Write_buf, Imm 0x8a], Count,
    Syscall NR_write [Reg 0, Write_buf, Imm 0x8a], Count, Syscall NR_write [Reg 0, Write_buf, Imm 0x8a], Count]"

definition min_rocks_write_fcntl_0_0_body224 :: "stmt list" where
  "min_rocks_write_fcntl_0_0_body224 = [
    Syscall NR_write [Reg 0, Write_buf, Imm 0x8a], Count, Syscall NR_write [Reg 0, Write_buf, Imm 0x8a], Count,
    Syscall NR_write [Reg 0, Write_buf, Imm 0x8a], Count, Syscall NR_write [Reg 0, Write_buf, Imm 0x8a], Count,
    Syscall NR_write [Reg 0, Write_buf, Imm 0x8a], Count, Syscall NR_write [Reg 0, Write_buf, Imm 0x8a], Count,
    Syscall NR_write [Reg 0, Write_buf, Imm 0x8a], Count, Syscall NR_write [Reg 0, Write_buf, Imm 0x8a], Count,
    Syscall NR_write [Reg 0, Write_buf, Imm 0x8a], Count, Syscall NR_write [Reg 0, Write_buf, Imm 0x8a], Count,
    Syscall NR_write [Reg 0, Write_buf, Imm 0x8a], Count, Syscall NR_write [Reg 0, Write_buf, Imm 0x8a], Count,
    Syscall NR_write [Reg 0, Write_buf, Imm 0x8a], Count, Syscall NR_write [Reg 0, Write_buf, Imm 0x8a], Count]"

definition min_rocks_write_fcntl_0_0_body225 :: "stmt list" where
  "min_rocks_write_fcntl_0_0_body225 = [
    Syscall NR_write [Reg 0, Write_buf, Imm 0x8a], Count, Syscall NR_write [Reg 0, Write_buf, Imm 0x8a], Count,
    Syscall NR_write [Reg 0, Write_buf, Imm 0x8a], Count, Syscall NR_write [Reg 0, Write_buf, Imm 0x8a], Count,
    Syscall NR_write [Reg 0, Write_buf, Imm 0x8a], Count, Syscall NR_write [Reg 0, Write_buf, Imm 0x8a], Count,
    Syscall NR_write [Reg 0, Write_buf, Imm 0x8a], Count, Syscall NR_write [Reg 0, Write_buf, Imm 0x8a], Count,
    Syscall NR_write [Reg 0, Write_buf, Imm 0x8a], Count, Syscall NR_write [Reg 0, Write_buf, Imm 0x8a], Count,
    Syscall NR_write [Reg 0, Write_buf, Imm 0x8a], Count, Syscall NR_write [Reg 0, Write_buf, Imm 0x8a], Count,
    Syscall NR_write [Reg 0, Write_buf, Imm 0x8a], Count, Syscall NR_write [Reg 0, Write_buf, Imm 0x8a], Count]"

definition min_rocks_write_fcntl_0_0_body226 :: "stmt list" where
  "min_rocks_write_fcntl_0_0_body226 = [
    Syscall NR_write [Reg 0, Write_buf, Imm 0x8a], Count, Syscall NR_write [Reg 0, Write_buf, Imm 0x8a], Count,
    Syscall NR_write [Reg 0, Write_buf, Imm 0x8a], Count, Syscall NR_write [Reg 0, Write_buf, Imm 0x8a], Count,
    Syscall NR_write [Reg 0, Write_buf, Imm 0x8a], Count, Syscall NR_write [Reg 0, Write_buf, Imm 0x8a], Count,
    Syscall NR_write [Reg 0, Write_buf, Imm 0x8a], Count, Syscall NR_write [Reg 0, Write_buf, Imm 0x8a], Count,
    Syscall NR_write [Reg 0, Write_buf, Imm 0x8a], Count, Syscall NR_write [Reg 0, Write_buf, Imm 0x8a], Count,
    Syscall NR_write [Reg 0, Write_buf, Imm 0x8a], Count, Syscall NR_write [Reg 0, Write_buf, Imm 0x8a], Count,
    Syscall NR_write [Reg 0, Write_buf, Imm 0x8a], Count, Syscall NR_write [Reg 0, Write_buf, Imm 0x8a], Count]"

definition min_rocks_write_fcntl_0_0_body227 :: "stmt list" where
  "min_rocks_write_fcntl_0_0_body227 = [
    Syscall NR_write [Reg 0, Write_buf, Imm 0x8a], Count, Syscall NR_write [Reg 0, Write_buf, Imm 0x8a], Count,
    Syscall NR_write [Reg 0, Write_buf, Imm 0x8a], Count, Syscall NR_write [Reg 0, Write_buf, Imm 0x8a], Count,
    Syscall NR_write [Reg 0, Write_buf, Imm 0x8a], Count, Syscall NR_write [Reg 0, Write_buf, Imm 0x8a], Count,
    Syscall NR_write [Reg 0, Write_buf, Imm 0x8a], Count, Syscall NR_write [Reg 0, Write_buf, Imm 0x8a], Count,
    Syscall NR_write [Reg 0, Write_buf, Imm 0x8a], Count, Syscall NR_write [Reg 0, Write_buf, Imm 0x8a], Count,
    Syscall NR_write [Reg 0, Write_buf, Imm 0x8a], Count, Syscall NR_write [Reg 0, Write_buf, Imm 0x8a], Count,
    Syscall NR_write [Reg 0, Write_buf, Imm 0x8a], Count, Syscall NR_write [Reg 0, Write_buf, Imm 0x8a], Count]"

definition min_rocks_write_fcntl_0_0_body228 :: "stmt list" where
  "min_rocks_write_fcntl_0_0_body228 = [
    Syscall NR_write [Reg 0, Write_buf, Imm 0x8a], Count, Syscall NR_write [Reg 0, Write_buf, Imm 0x8a], Count,
    Syscall NR_write [Reg 0, Write_buf, Imm 0x8a], Count, Syscall NR_write [Reg 0, Write_buf, Imm 0x8a], Count,
    Syscall NR_write [Reg 0, Write_buf, Imm 0x8a], Count, Syscall NR_write [Reg 0, Write_buf, Imm 0x8a], Count,
    Syscall NR_write [Reg 0, Write_buf, Imm 0x8a], Count, Syscall NR_write [Reg 0, Write_buf, Imm 0x8a], Count,
    Syscall NR_write [Reg 0, Write_buf, Imm 0x8a], Count, Syscall NR_write [Reg 0, Write_buf, Imm 0x8a], Count,
    Syscall NR_write [Reg 0, Write_buf, Imm 0x8a], Count, Syscall NR_write [Reg 0, Write_buf, Imm 0x8a], Count,
    Syscall NR_write [Reg 0, Write_buf, Imm 0x8a], Count, Syscall NR_write [Reg 0, Write_buf, Imm 0x8a], Count]"

definition min_rocks_write_fcntl_0_0_body229 :: "stmt list" where
  "min_rocks_write_fcntl_0_0_body229 = [
    Syscall NR_write [Reg 0, Write_buf, Imm 0x8a], Count, Syscall NR_write [Reg 0, Write_buf, Imm 0x8a], Count,
    Syscall NR_write [Reg 0, Write_buf, Imm 0x8a], Count, Syscall NR_write [Reg 0, Write_buf, Imm 0x8a], Count,
    Syscall NR_write [Reg 0, Write_buf, Imm 0x8a], Count, Syscall NR_write [Reg 0, Write_buf, Imm 0x8a], Count,
    Syscall NR_write [Reg 0, Write_buf, Imm 0x8a], Count, Syscall NR_write [Reg 0, Write_buf, Imm 0x8a], Count,
    Syscall NR_write [Reg 0, Write_buf, Imm 0x8a], Count, Syscall NR_write [Reg 0, Write_buf, Imm 0x8a], Count,
    Syscall NR_write [Reg 0, Write_buf, Imm 0x8a], Count, Syscall NR_write [Reg 0, Write_buf, Imm 0x8a], Count,
    Syscall NR_write [Reg 0, Write_buf, Imm 0x8a], Count, Syscall NR_write [Reg 0, Write_buf, Imm 0x8a], Count]"

definition min_rocks_write_fcntl_0_0_body230 :: "stmt list" where
  "min_rocks_write_fcntl_0_0_body230 = [
    Syscall NR_write [Reg 0, Write_buf, Imm 0x8a], Count, Syscall NR_write [Reg 0, Write_buf, Imm 0x8a], Count,
    Syscall NR_write [Reg 0, Write_buf, Imm 0x8a], Count, Syscall NR_write [Reg 0, Write_buf, Imm 0x8a], Count,
    Syscall NR_write [Reg 0, Write_buf, Imm 0x8a], Count, Syscall NR_write [Reg 0, Write_buf, Imm 0x8a], Count,
    Syscall NR_write [Reg 0, Write_buf, Imm 0x8a], Count, Syscall NR_write [Reg 0, Write_buf, Imm 0x8a], Count,
    Syscall NR_write [Reg 0, Write_buf, Imm 0x8a], Count, Syscall NR_write [Reg 0, Write_buf, Imm 0x8a], Count,
    Syscall NR_write [Reg 0, Write_buf, Imm 0x8a], Count, Syscall NR_write [Reg 0, Write_buf, Imm 0x8a], Count,
    Syscall NR_write [Reg 0, Write_buf, Imm 0x8a], Count, Syscall NR_write [Reg 0, Write_buf, Imm 0x8a], Count]"

definition min_rocks_write_fcntl_0_0_body231 :: "stmt list" where
  "min_rocks_write_fcntl_0_0_body231 = [
    Syscall NR_write [Reg 0, Write_buf, Imm 0x8a], Count, Syscall NR_write [Reg 0, Write_buf, Imm 0x8a], Count,
    Syscall NR_write [Reg 0, Write_buf, Imm 0x8a], Count, Syscall NR_write [Reg 0, Write_buf, Imm 0x8a], Count,
    Syscall NR_write [Reg 0, Write_buf, Imm 0x8a], Count, Syscall NR_write [Reg 0, Write_buf, Imm 0x8a], Count,
    Syscall NR_write [Reg 0, Write_buf, Imm 0x8a], Count, Syscall NR_write [Reg 0, Write_buf, Imm 0x8a], Count,
    Syscall NR_write [Reg 0, Write_buf, Imm 0x8a], Count, Syscall NR_write [Reg 0, Write_buf, Imm 0x8a], Count,
    Syscall NR_write [Reg 0, Write_buf, Imm 0x8a], Count, Syscall NR_write [Reg 0, Write_buf, Imm 0x8a], Count,
    Syscall NR_write [Reg 0, Write_buf, Imm 0x8a], Count, Syscall NR_write [Reg 0, Write_buf, Imm 0x8a], Count]"

definition min_rocks_write_fcntl_0_0_body232 :: "stmt list" where
  "min_rocks_write_fcntl_0_0_body232 = [
    Syscall NR_write [Reg 0, Write_buf, Imm 0x8a], Count, Syscall NR_write [Reg 0, Write_buf, Imm 0x8a], Count,
    Syscall NR_write [Reg 0, Write_buf, Imm 0x8a], Count, Syscall NR_write [Reg 0, Write_buf, Imm 0x8a], Count,
    Syscall NR_write [Reg 0, Write_buf, Imm 0x8a], Count, Syscall NR_write [Reg 0, Write_buf, Imm 0x8a], Count,
    Syscall NR_write [Reg 0, Write_buf, Imm 0x8a], Count, Syscall NR_write [Reg 0, Write_buf, Imm 0x8a], Count,
    Syscall NR_write [Reg 0, Write_buf, Imm 0x8a], Count, Syscall NR_write [Reg 0, Write_buf, Imm 0x8a], Count,
    Syscall NR_write [Reg 0, Write_buf, Imm 0x8a], Count, Syscall NR_write [Reg 0, Write_buf, Imm 0x8a], Count,
    Syscall NR_write [Reg 0, Write_buf, Imm 0x8a], Count, Syscall NR_write [Reg 0, Write_buf, Imm 0x8a], Count]"

definition min_rocks_write_fcntl_0_0_body233 :: "stmt list" where
  "min_rocks_write_fcntl_0_0_body233 = [
    Syscall NR_write [Reg 0, Write_buf, Imm 0x8a], Count, Syscall NR_write [Reg 0, Write_buf, Imm 0x8a], Count,
    Syscall NR_write [Reg 0, Write_buf, Imm 0x8a], Count, Syscall NR_write [Reg 0, Write_buf, Imm 0x8a], Count,
    Syscall NR_write [Reg 0, Write_buf, Imm 0x8a], Count, Syscall NR_write [Reg 0, Write_buf, Imm 0x8a], Count,
    Syscall NR_write [Reg 0, Write_buf, Imm 0x8a], Count, Syscall NR_write [Reg 0, Write_buf, Imm 0x8a], Count,
    Syscall NR_write [Reg 0, Write_buf, Imm 0x8a], Count, Syscall NR_write [Reg 0, Write_buf, Imm 0x8a], Count,
    Syscall NR_write [Reg 0, Write_buf, Imm 0x8a], Count, Syscall NR_write [Reg 0, Write_buf, Imm 0x8a], Count,
    Syscall NR_write [Reg 0, Write_buf, Imm 0x8a], Count, Syscall NR_write [Reg 0, Write_buf, Imm 0x8a], Count]"

definition min_rocks_write_fcntl_0_0_body234 :: "stmt list" where
  "min_rocks_write_fcntl_0_0_body234 = [
    Syscall NR_write [Reg 0, Write_buf, Imm 0x8a], Count, Syscall NR_write [Reg 0, Write_buf, Imm 0x8a], Count,
    Syscall NR_write [Reg 0, Write_buf, Imm 0x8a], Count, Syscall NR_write [Reg 0, Write_buf, Imm 0x8a], Count,
    Syscall NR_write [Reg 0, Write_buf, Imm 0x8a], Count, Syscall NR_write [Reg 0, Write_buf, Imm 0x8a], Count,
    Syscall NR_write [Reg 0, Write_buf, Imm 0x8a], Count, Syscall NR_write [Reg 0, Write_buf, Imm 0x8a], Count,
    Syscall NR_write [Reg 0, Write_buf, Imm 0x8a], Count, Syscall NR_write [Reg 0, Write_buf, Imm 0x8a], Count,
    Syscall NR_write [Reg 0, Write_buf, Imm 0x8a], Count, Syscall NR_write [Reg 0, Write_buf, Imm 0x8a], Count,
    Syscall NR_write [Reg 0, Write_buf, Imm 0x8a], Count, Syscall NR_write [Reg 0, Write_buf, Imm 0x8a], Count]"

definition min_rocks_write_fcntl_0_0_body235 :: "stmt list" where
  "min_rocks_write_fcntl_0_0_body235 = [
    Syscall NR_write [Reg 0, Write_buf, Imm 0x8a], Count, Syscall NR_write [Reg 0, Write_buf, Imm 0x8a], Count,
    Syscall NR_write [Reg 0, Write_buf, Imm 0x8a], Count, Syscall NR_write [Reg 0, Write_buf, Imm 0x8a], Count,
    Syscall NR_write [Reg 0, Write_buf, Imm 0x8a], Count, Syscall NR_write [Reg 0, Write_buf, Imm 0x8a], Count,
    Syscall NR_write [Reg 0, Write_buf, Imm 0x8a], Count, Syscall NR_write [Reg 0, Write_buf, Imm 0x8a], Count,
    Syscall NR_write [Reg 0, Write_buf, Imm 0x8a], Count, Syscall NR_write [Reg 0, Write_buf, Imm 0x8a], Count,
    Syscall NR_write [Reg 0, Write_buf, Imm 0x8a], Count, Syscall NR_write [Reg 0, Write_buf, Imm 0x8a], Count,
    Syscall NR_write [Reg 0, Write_buf, Imm 0x8a], Count, Syscall NR_write [Reg 0, Write_buf, Imm 0x8a], Count]"

definition min_rocks_write_fcntl_0_0_body236 :: "stmt list" where
  "min_rocks_write_fcntl_0_0_body236 = [
    Syscall NR_write [Reg 0, Write_buf, Imm 0x8a], Count, Syscall NR_write [Reg 0, Write_buf, Imm 0x8a], Count,
    Syscall NR_write [Reg 0, Write_buf, Imm 0x8a], Count, Syscall NR_write [Reg 0, Write_buf, Imm 0x8a], Count,
    Syscall NR_write [Reg 0, Write_buf, Imm 0x8a], Count, Syscall NR_write [Reg 0, Write_buf, Imm 0x8a], Count,
    Syscall NR_write [Reg 0, Write_buf, Imm 0x8a], Count, Syscall NR_write [Reg 0, Write_buf, Imm 0x8a], Count,
    Syscall NR_write [Reg 0, Write_buf, Imm 0x8a], Count, Syscall NR_write [Reg 0, Write_buf, Imm 0x8a], Count,
    Syscall NR_write [Reg 0, Write_buf, Imm 0x8a], Count, Syscall NR_write [Reg 0, Write_buf, Imm 0x8a], Count,
    Syscall NR_write [Reg 0, Write_buf, Imm 0x8a], Count, Syscall NR_write [Reg 0, Write_buf, Imm 0x8a], Count]"

definition min_rocks_write_fcntl_0_0_body237 :: "stmt list" where
  "min_rocks_write_fcntl_0_0_body237 = [
    Syscall NR_write [Reg 0, Write_buf, Imm 0x8a], Count, Syscall NR_write [Reg 0, Write_buf, Imm 0x8a], Count,
    Syscall NR_write [Reg 0, Write_buf, Imm 0x8a], Count, Syscall NR_write [Reg 0, Write_buf, Imm 0x8a], Count,
    Syscall NR_write [Reg 0, Write_buf, Imm 0x8a], Count, Syscall NR_write [Reg 0, Write_buf, Imm 0x8a], Count,
    Syscall NR_write [Reg 0, Write_buf, Imm 0x8a], Count, Syscall NR_write [Reg 0, Write_buf, Imm 0x8a], Count,
    Syscall NR_write [Reg 0, Write_buf, Imm 0x8a], Count, Syscall NR_write [Reg 0, Write_buf, Imm 0x8a], Count,
    Syscall NR_write [Reg 0, Write_buf, Imm 0x8a], Count, Syscall NR_write [Reg 0, Write_buf, Imm 0x91], Count,
    Syscall NR_write [Reg 0, Write_buf, Imm 0x8a], Count, Syscall NR_write [Reg 0, Write_buf, Imm 0x8a], Count]"

definition min_rocks_write_fcntl_0_0_body238 :: "stmt list" where
  "min_rocks_write_fcntl_0_0_body238 = [
    Syscall NR_write [Reg 0, Write_buf, Imm 0x8a], Count, Syscall NR_write [Reg 0, Write_buf, Imm 0x8a], Count,
    Syscall NR_write [Reg 0, Write_buf, Imm 0x8a], Count, Syscall NR_write [Reg 0, Write_buf, Imm 0x8a], Count,
    Syscall NR_write [Reg 0, Write_buf, Imm 0x8a], Count, Syscall NR_write [Reg 0, Write_buf, Imm 0x8a], Count,
    Syscall NR_write [Reg 0, Write_buf, Imm 0x8a], Count, Syscall NR_write [Reg 0, Write_buf, Imm 0x8a], Count,
    Syscall NR_write [Reg 0, Write_buf, Imm 0x8a], Count, Syscall NR_write [Reg 0, Write_buf, Imm 0x8a], Count,
    Syscall NR_write [Reg 0, Write_buf, Imm 0x8a], Count, Syscall NR_write [Reg 0, Write_buf, Imm 0x8a], Count,
    Syscall NR_write [Reg 0, Write_buf, Imm 0x8a], Count, Syscall NR_write [Reg 0, Write_buf, Imm 0x8a], Count]"

definition min_rocks_write_fcntl_0_0_body239 :: "stmt list" where
  "min_rocks_write_fcntl_0_0_body239 = [
    Syscall NR_write [Reg 0, Write_buf, Imm 0x8a], Count, Syscall NR_write [Reg 0, Write_buf, Imm 0x8a], Count,
    Syscall NR_write [Reg 0, Write_buf, Imm 0x8a], Count, Syscall NR_write [Reg 0, Write_buf, Imm 0x8a], Count,
    Syscall NR_write [Reg 0, Write_buf, Imm 0x8a], Count, Syscall NR_write [Reg 0, Write_buf, Imm 0x8a], Count,
    Syscall NR_write [Reg 0, Write_buf, Imm 0x8a], Count, Syscall NR_write [Reg 0, Write_buf, Imm 0x8a], Count,
    Syscall NR_write [Reg 0, Write_buf, Imm 0x8a], Count, Syscall NR_write [Reg 0, Write_buf, Imm 0x8a], Count,
    Syscall NR_write [Reg 0, Write_buf, Imm 0x8a], Count, Syscall NR_write [Reg 0, Write_buf, Imm 0x8a], Count,
    Syscall NR_write [Reg 0, Write_buf, Imm 0x8a], Count, Syscall NR_write [Reg 0, Write_buf, Imm 0x8a], Count]"

definition min_rocks_write_fcntl_0_0_body240 :: "stmt list" where
  "min_rocks_write_fcntl_0_0_body240 = [
    Syscall NR_write [Reg 0, Write_buf, Imm 0x8a], Count, Syscall NR_write [Reg 0, Write_buf, Imm 0x8a], Count,
    Syscall NR_write [Reg 0, Write_buf, Imm 0x8a], Count, Syscall NR_write [Reg 0, Write_buf, Imm 0x8a], Count,
    Syscall NR_write [Reg 0, Write_buf, Imm 0x8a], Count, Syscall NR_write [Reg 0, Write_buf, Imm 0x8a], Count,
    Syscall NR_write [Reg 0, Write_buf, Imm 0x8a], Count, Syscall NR_write [Reg 0, Write_buf, Imm 0x8a], Count,
    Syscall NR_write [Reg 0, Write_buf, Imm 0x8a], Count, Syscall NR_write [Reg 0, Write_buf, Imm 0x8a], Count,
    Syscall NR_write [Reg 0, Write_buf, Imm 0x8a], Count, Syscall NR_write [Reg 0, Write_buf, Imm 0x8a], Count,
    Syscall NR_write [Reg 0, Write_buf, Imm 0x8a], Count, Syscall NR_write [Reg 0, Write_buf, Imm 0x8a], Count]"

lemma min_rocks_write_fcntl_0_0_body121_ok: "body_ok (Suc 0) 145 min_rocks_write_fcntl_0_0_body121" "counted min_rocks_write_fcntl_0_0_body121" "calls min_rocks_write_fcntl_0_0_body121 = 14" "opened_in m min_rocks_write_fcntl_0_0_body121 = []"
  by (simp_all add: min_rocks_write_fcntl_0_0_body121_def prog_checks open_checks)

lemma min_rocks_write_fcntl_0_0_body122_ok: "body_ok (Suc 0) 145 min_rocks_write_fcntl_0_0_body122" "counted min_rocks_write_fcntl_0_0_body122" "calls min_rocks_write_fcntl_0_0_body122 = 14" "opened_in m min_rocks_write_fcntl_0_0_body122 = []"
  by (simp_all add: min_rocks_write_fcntl_0_0_body122_def prog_checks open_checks)

lemma min_rocks_write_fcntl_0_0_body123_ok: "body_ok (Suc 0) 145 min_rocks_write_fcntl_0_0_body123" "counted min_rocks_write_fcntl_0_0_body123" "calls min_rocks_write_fcntl_0_0_body123 = 14" "opened_in m min_rocks_write_fcntl_0_0_body123 = []"
  by (simp_all add: min_rocks_write_fcntl_0_0_body123_def prog_checks open_checks)

lemma min_rocks_write_fcntl_0_0_body124_ok: "body_ok (Suc 0) 145 min_rocks_write_fcntl_0_0_body124" "counted min_rocks_write_fcntl_0_0_body124" "calls min_rocks_write_fcntl_0_0_body124 = 14" "opened_in m min_rocks_write_fcntl_0_0_body124 = []"
  by (simp_all add: min_rocks_write_fcntl_0_0_body124_def prog_checks open_checks)

lemma min_rocks_write_fcntl_0_0_body125_ok: "body_ok (Suc 0) 145 min_rocks_write_fcntl_0_0_body125" "counted min_rocks_write_fcntl_0_0_body125" "calls min_rocks_write_fcntl_0_0_body125 = 14" "opened_in m min_rocks_write_fcntl_0_0_body125 = []"
  by (simp_all add: min_rocks_write_fcntl_0_0_body125_def prog_checks open_checks)

lemma min_rocks_write_fcntl_0_0_body126_ok: "body_ok (Suc 0) 145 min_rocks_write_fcntl_0_0_body126" "counted min_rocks_write_fcntl_0_0_body126" "calls min_rocks_write_fcntl_0_0_body126 = 14" "opened_in m min_rocks_write_fcntl_0_0_body126 = []"
  by (simp_all add: min_rocks_write_fcntl_0_0_body126_def prog_checks open_checks)

lemma min_rocks_write_fcntl_0_0_body127_ok: "body_ok (Suc 0) 145 min_rocks_write_fcntl_0_0_body127" "counted min_rocks_write_fcntl_0_0_body127" "calls min_rocks_write_fcntl_0_0_body127 = 14" "opened_in m min_rocks_write_fcntl_0_0_body127 = []"
  by (simp_all add: min_rocks_write_fcntl_0_0_body127_def prog_checks open_checks)

lemma min_rocks_write_fcntl_0_0_body128_ok: "body_ok (Suc 0) 145 min_rocks_write_fcntl_0_0_body128" "counted min_rocks_write_fcntl_0_0_body128" "calls min_rocks_write_fcntl_0_0_body128 = 14" "opened_in m min_rocks_write_fcntl_0_0_body128 = []"
  by (simp_all add: min_rocks_write_fcntl_0_0_body128_def prog_checks open_checks)

lemma min_rocks_write_fcntl_0_0_body129_ok: "body_ok (Suc 0) 145 min_rocks_write_fcntl_0_0_body129" "counted min_rocks_write_fcntl_0_0_body129" "calls min_rocks_write_fcntl_0_0_body129 = 14" "opened_in m min_rocks_write_fcntl_0_0_body129 = []"
  by (simp_all add: min_rocks_write_fcntl_0_0_body129_def prog_checks open_checks)

lemma min_rocks_write_fcntl_0_0_body130_ok: "body_ok (Suc 0) 145 min_rocks_write_fcntl_0_0_body130" "counted min_rocks_write_fcntl_0_0_body130" "calls min_rocks_write_fcntl_0_0_body130 = 14" "opened_in m min_rocks_write_fcntl_0_0_body130 = []"
  by (simp_all add: min_rocks_write_fcntl_0_0_body130_def prog_checks open_checks)

lemma min_rocks_write_fcntl_0_0_body131_ok: "body_ok (Suc 0) 145 min_rocks_write_fcntl_0_0_body131" "counted min_rocks_write_fcntl_0_0_body131" "calls min_rocks_write_fcntl_0_0_body131 = 14" "opened_in m min_rocks_write_fcntl_0_0_body131 = []"
  by (simp_all add: min_rocks_write_fcntl_0_0_body131_def prog_checks open_checks)

lemma min_rocks_write_fcntl_0_0_body132_ok: "body_ok (Suc 0) 145 min_rocks_write_fcntl_0_0_body132" "counted min_rocks_write_fcntl_0_0_body132" "calls min_rocks_write_fcntl_0_0_body132 = 14" "opened_in m min_rocks_write_fcntl_0_0_body132 = []"
  by (simp_all add: min_rocks_write_fcntl_0_0_body132_def prog_checks open_checks)

lemma min_rocks_write_fcntl_0_0_body133_ok: "body_ok (Suc 0) 145 min_rocks_write_fcntl_0_0_body133" "counted min_rocks_write_fcntl_0_0_body133" "calls min_rocks_write_fcntl_0_0_body133 = 14" "opened_in m min_rocks_write_fcntl_0_0_body133 = []"
  by (simp_all add: min_rocks_write_fcntl_0_0_body133_def prog_checks open_checks)

lemma min_rocks_write_fcntl_0_0_body134_ok: "body_ok (Suc 0) 145 min_rocks_write_fcntl_0_0_body134" "counted min_rocks_write_fcntl_0_0_body134" "calls min_rocks_write_fcntl_0_0_body134 = 14" "opened_in m min_rocks_write_fcntl_0_0_body134 = []"
  by (simp_all add: min_rocks_write_fcntl_0_0_body134_def prog_checks open_checks)

lemma min_rocks_write_fcntl_0_0_body135_ok: "body_ok (Suc 0) 145 min_rocks_write_fcntl_0_0_body135" "counted min_rocks_write_fcntl_0_0_body135" "calls min_rocks_write_fcntl_0_0_body135 = 14" "opened_in m min_rocks_write_fcntl_0_0_body135 = []"
  by (simp_all add: min_rocks_write_fcntl_0_0_body135_def prog_checks open_checks)

lemma min_rocks_write_fcntl_0_0_body136_ok: "body_ok (Suc 0) 145 min_rocks_write_fcntl_0_0_body136" "counted min_rocks_write_fcntl_0_0_body136" "calls min_rocks_write_fcntl_0_0_body136 = 14" "opened_in m min_rocks_write_fcntl_0_0_body136 = []"
  by (simp_all add: min_rocks_write_fcntl_0_0_body136_def prog_checks open_checks)

lemma min_rocks_write_fcntl_0_0_body137_ok: "body_ok (Suc 0) 145 min_rocks_write_fcntl_0_0_body137" "counted min_rocks_write_fcntl_0_0_body137" "calls min_rocks_write_fcntl_0_0_body137 = 14" "opened_in m min_rocks_write_fcntl_0_0_body137 = []"
  by (simp_all add: min_rocks_write_fcntl_0_0_body137_def prog_checks open_checks)

lemma min_rocks_write_fcntl_0_0_body138_ok: "body_ok (Suc 0) 145 min_rocks_write_fcntl_0_0_body138" "counted min_rocks_write_fcntl_0_0_body138" "calls min_rocks_write_fcntl_0_0_body138 = 14" "opened_in m min_rocks_write_fcntl_0_0_body138 = []"
  by (simp_all add: min_rocks_write_fcntl_0_0_body138_def prog_checks open_checks)

lemma min_rocks_write_fcntl_0_0_body139_ok: "body_ok (Suc 0) 145 min_rocks_write_fcntl_0_0_body139" "counted min_rocks_write_fcntl_0_0_body139" "calls min_rocks_write_fcntl_0_0_body139 = 14" "opened_in m min_rocks_write_fcntl_0_0_body139 = []"
  by (simp_all add: min_rocks_write_fcntl_0_0_body139_def prog_checks open_checks)

lemma min_rocks_write_fcntl_0_0_body140_ok: "body_ok (Suc 0) 145 min_rocks_write_fcntl_0_0_body140" "counted min_rocks_write_fcntl_0_0_body140" "calls min_rocks_write_fcntl_0_0_body140 = 14" "opened_in m min_rocks_write_fcntl_0_0_body140 = []"
  by (simp_all add: min_rocks_write_fcntl_0_0_body140_def prog_checks open_checks)

lemma min_rocks_write_fcntl_0_0_body141_ok: "body_ok (Suc 0) 145 min_rocks_write_fcntl_0_0_body141" "counted min_rocks_write_fcntl_0_0_body141" "calls min_rocks_write_fcntl_0_0_body141 = 14" "opened_in m min_rocks_write_fcntl_0_0_body141 = []"
  by (simp_all add: min_rocks_write_fcntl_0_0_body141_def prog_checks open_checks)

lemma min_rocks_write_fcntl_0_0_body142_ok: "body_ok (Suc 0) 145 min_rocks_write_fcntl_0_0_body142" "counted min_rocks_write_fcntl_0_0_body142" "calls min_rocks_write_fcntl_0_0_body142 = 14" "opened_in m min_rocks_write_fcntl_0_0_body142 = []"
  by (simp_all add: min_rocks_write_fcntl_0_0_body142_def prog_checks open_checks)

lemma min_rocks_write_fcntl_0_0_body143_ok: "body_ok (Suc 0) 145 min_rocks_write_fcntl_0_0_body143" "counted min_rocks_write_fcntl_0_0_body143" "calls min_rocks_write_fcntl_0_0_body143 = 14" "opened_in m min_rocks_write_fcntl_0_0_body143 = []"
  by (simp_all add: min_rocks_write_fcntl_0_0_body143_def prog_checks open_checks)

lemma min_rocks_write_fcntl_0_0_body144_ok: "body_ok (Suc 0) 145 min_rocks_write_fcntl_0_0_body144" "counted min_rocks_write_fcntl_0_0_body144" "calls min_rocks_write_fcntl_0_0_body144 = 14" "opened_in m min_rocks_write_fcntl_0_0_body144 = []"
  by (simp_all add: min_rocks_write_fcntl_0_0_body144_def prog_checks open_checks)

lemma min_rocks_write_fcntl_0_0_body145_ok: "body_ok (Suc 0) 145 min_rocks_write_fcntl_0_0_body145" "counted min_rocks_write_fcntl_0_0_body145" "calls min_rocks_write_fcntl_0_0_body145 = 14" "opened_in m min_rocks_write_fcntl_0_0_body145 = []"
  by (simp_all add: min_rocks_write_fcntl_0_0_body145_def prog_checks open_checks)

lemma min_rocks_write_fcntl_0_0_body146_ok: "body_ok (Suc 0) 145 min_rocks_write_fcntl_0_0_body146" "counted min_rocks_write_fcntl_0_0_body146" "calls min_rocks_write_fcntl_0_0_body146 = 14" "opened_in m min_rocks_write_fcntl_0_0_body146 = []"
  by (simp_all add: min_rocks_write_fcntl_0_0_body146_def prog_checks open_checks)

lemma min_rocks_write_fcntl_0_0_body147_ok: "body_ok (Suc 0) 145 min_rocks_write_fcntl_0_0_body147" "counted min_rocks_write_fcntl_0_0_body147" "calls min_rocks_write_fcntl_0_0_body147 = 14" "opened_in m min_rocks_write_fcntl_0_0_body147 = []"
  by (simp_all add: min_rocks_write_fcntl_0_0_body147_def prog_checks open_checks)

lemma min_rocks_write_fcntl_0_0_body148_ok: "body_ok (Suc 0) 145 min_rocks_write_fcntl_0_0_body148" "counted min_rocks_write_fcntl_0_0_body148" "calls min_rocks_write_fcntl_0_0_body148 = 14" "opened_in m min_rocks_write_fcntl_0_0_body148 = []"
  by (simp_all add: min_rocks_write_fcntl_0_0_body148_def prog_checks open_checks)

lemma min_rocks_write_fcntl_0_0_body149_ok: "body_ok (Suc 0) 145 min_rocks_write_fcntl_0_0_body149" "counted min_rocks_write_fcntl_0_0_body149" "calls min_rocks_write_fcntl_0_0_body149 = 14" "opened_in m min_rocks_write_fcntl_0_0_body149 = []"
  by (simp_all add: min_rocks_write_fcntl_0_0_body149_def prog_checks open_checks)

lemma min_rocks_write_fcntl_0_0_body150_ok: "body_ok (Suc 0) 145 min_rocks_write_fcntl_0_0_body150" "counted min_rocks_write_fcntl_0_0_body150" "calls min_rocks_write_fcntl_0_0_body150 = 14" "opened_in m min_rocks_write_fcntl_0_0_body150 = []"
  by (simp_all add: min_rocks_write_fcntl_0_0_body150_def prog_checks open_checks)

lemma min_rocks_write_fcntl_0_0_body151_ok: "body_ok (Suc 0) 145 min_rocks_write_fcntl_0_0_body151" "counted min_rocks_write_fcntl_0_0_body151" "calls min_rocks_write_fcntl_0_0_body151 = 14" "opened_in m min_rocks_write_fcntl_0_0_body151 = []"
  by (simp_all add: min_rocks_write_fcntl_0_0_body151_def prog_checks open_checks)

lemma min_rocks_write_fcntl_0_0_body152_ok: "body_ok (Suc 0) 145 min_rocks_write_fcntl_0_0_body152" "counted min_rocks_write_fcntl_0_0_body152" "calls min_rocks_write_fcntl_0_0_body152 = 14" "opened_in m min_rocks_write_fcntl_0_0_body152 = []"
  by (simp_all add: min_rocks_write_fcntl_0_0_body152_def prog_checks open_checks)

lemma min_rocks_write_fcntl_0_0_body153_ok: "body_ok (Suc 0) 145 min_rocks_write_fcntl_0_0_body153" "counted min_rocks_write_fcntl_0_0_body153" "calls min_rocks_write_fcntl_0_0_body153 = 14" "opened_in m min_rocks_write_fcntl_0_0_body153 = []"
  by (simp_all add: min_rocks_write_fcntl_0_0_body153_def prog_checks open_checks)

lemma min_rocks_write_fcntl_0_0_body154_ok: "body_ok (Suc 0) 145 min_rocks_write_fcntl_0_0_body154" "counted min_rocks_write_fcntl_0_0_body154" "calls min_rocks_write_fcntl_0_0_body154 = 14" "opened_in m min_rocks_write_fcntl_0_0_body154 = []"
  by (simp_all add: min_rocks_write_fcntl_0_0_body154_def prog_checks open_checks)

lemma min_rocks_write_fcntl_0_0_body155_ok: "body_ok (Suc 0) 145 min_rocks_write_fcntl_0_0_body155" "counted min_rocks_write_fcntl_0_0_body155" "calls min_rocks_write_fcntl_0_0_body155 = 14" "opened_in m min_rocks_write_fcntl_0_0_body155 = []"
  by (simp_all add: min_rocks_write_fcntl_0_0_body155_def prog_checks open_checks)

lemma min_rocks_write_fcntl_0_0_body156_ok: "body_ok (Suc 0) 145 min_rocks_write_fcntl_0_0_body156" "counted min_rocks_write_fcntl_0_0_body156" "calls min_rocks_write_fcntl_0_0_body156 = 14" "opened_in m min_rocks_write_fcntl_0_0_body156 = []"
  by (simp_all add: min_rocks_write_fcntl_0_0_body156_def prog_checks open_checks)

lemma min_rocks_write_fcntl_0_0_body157_ok: "body_ok (Suc 0) 145 min_rocks_write_fcntl_0_0_body157" "counted min_rocks_write_fcntl_0_0_body157" "calls min_rocks_write_fcntl_0_0_body157 = 14" "opened_in m min_rocks_write_fcntl_0_0_body157 = []"
  by (simp_all add: min_rocks_write_fcntl_0_0_body157_def prog_checks open_checks)

lemma min_rocks_write_fcntl_0_0_body158_ok: "body_ok (Suc 0) 145 min_rocks_write_fcntl_0_0_body158" "counted min_rocks_write_fcntl_0_0_body158" "calls min_rocks_write_fcntl_0_0_body158 = 14" "opened_in m min_rocks_write_fcntl_0_0_body158 = []"
  by (simp_all add: min_rocks_write_fcntl_0_0_body158_def prog_checks open_checks)

lemma min_rocks_write_fcntl_0_0_body159_ok: "body_ok (Suc 0) 145 min_rocks_write_fcntl_0_0_body159" "counted min_rocks_write_fcntl_0_0_body159" "calls min_rocks_write_fcntl_0_0_body159 = 14" "opened_in m min_rocks_write_fcntl_0_0_body159 = []"
  by (simp_all add: min_rocks_write_fcntl_0_0_body159_def prog_checks open_checks)

lemma min_rocks_write_fcntl_0_0_body160_ok: "body_ok (Suc 0) 145 min_rocks_write_fcntl_0_0_body160" "counted min_rocks_write_fcntl_0_0_body160" "calls min_rocks_write_fcntl_0_0_body160 = 14" "opened_in m min_rocks_write_fcntl_0_0_body160 = []"
  by (simp_all add: min_rocks_write_fcntl_0_0_body160_def prog_checks open_checks)

lemma min_rocks_write_fcntl_0_0_body161_ok: "body_ok (Suc 0) 145 min_rocks_write_fcntl_0_0_body161" "counted min_rocks_write_fcntl_0_0_body161" "calls min_rocks_write_fcntl_0_0_body161 = 14" "opened_in m min_rocks_write_fcntl_0_0_body161 = []"
  by (simp_all add: min_rocks_write_fcntl_0_0_body161_def prog_checks open_checks)

lemma min_rocks_write_fcntl_0_0_body162_ok: "body_ok (Suc 0) 145 min_rocks_write_fcntl_0_0_body162" "counted min_rocks_write_fcntl_0_0_body162" "calls min_rocks_write_fcntl_0_0_body162 = 14" "opened_in m min_rocks_write_fcntl_0_0_body162 = []"
  by (simp_all add: min_rocks_write_fcntl_0_0_body162_def prog_checks open_checks)

lemma min_rocks_write_fcntl_0_0_body163_ok: "body_ok (Suc 0) 145 min_rocks_write_fcntl_0_0_body163" "counted min_rocks_write_fcntl_0_0_body163" "calls min_rocks_write_fcntl_0_0_body163 = 14" "opened_in m min_rocks_write_fcntl_0_0_body163 = []"
  by (simp_all add: min_rocks_write_fcntl_0_0_body163_def prog_checks open_checks)

lemma min_rocks_write_fcntl_0_0_body164_ok: "body_ok (Suc 0) 145 min_rocks_write_fcntl_0_0_body164" "counted min_rocks_write_fcntl_0_0_body164" "calls min_rocks_write_fcntl_0_0_body164 = 14" "opened_in m min_rocks_write_fcntl_0_0_body164 = []"
  by (simp_all add: min_rocks_write_fcntl_0_0_body164_def prog_checks open_checks)

lemma min_rocks_write_fcntl_0_0_body165_ok: "body_ok (Suc 0) 145 min_rocks_write_fcntl_0_0_body165" "counted min_rocks_write_fcntl_0_0_body165" "calls min_rocks_write_fcntl_0_0_body165 = 14" "opened_in m min_rocks_write_fcntl_0_0_body165 = []"
  by (simp_all add: min_rocks_write_fcntl_0_0_body165_def prog_checks open_checks)

lemma min_rocks_write_fcntl_0_0_body166_ok: "body_ok (Suc 0) 145 min_rocks_write_fcntl_0_0_body166" "counted min_rocks_write_fcntl_0_0_body166" "calls min_rocks_write_fcntl_0_0_body166 = 14" "opened_in m min_rocks_write_fcntl_0_0_body166 = []"
  by (simp_all add: min_rocks_write_fcntl_0_0_body166_def prog_checks open_checks)

lemma min_rocks_write_fcntl_0_0_body167_ok: "body_ok (Suc 0) 145 min_rocks_write_fcntl_0_0_body167" "counted min_rocks_write_fcntl_0_0_body167" "calls min_rocks_write_fcntl_0_0_body167 = 14" "opened_in m min_rocks_write_fcntl_0_0_body167 = []"
  by (simp_all add: min_rocks_write_fcntl_0_0_body167_def prog_checks open_checks)

lemma min_rocks_write_fcntl_0_0_body168_ok: "body_ok (Suc 0) 145 min_rocks_write_fcntl_0_0_body168" "counted min_rocks_write_fcntl_0_0_body168" "calls min_rocks_write_fcntl_0_0_body168 = 14" "opened_in m min_rocks_write_fcntl_0_0_body168 = []"
  by (simp_all add: min_rocks_write_fcntl_0_0_body168_def prog_checks open_checks)

lemma min_rocks_write_fcntl_0_0_body169_ok: "body_ok (Suc 0) 145 min_rocks_write_fcntl_0_0_body169" "counted min_rocks_write_fcntl_0_0_body169" "calls min_rocks_write_fcntl_0_0_body169 = 14" "opened_in m min_rocks_write_fcntl_0_0_body169 = []"
  by (simp_all add: min_rocks_write_fcntl_0_0_body169_def prog_checks open_checks)

lemma min_rocks_write_fcntl_0_0_body170_ok: "body_ok (Suc 0) 145 min_rocks_write_fcntl_0_0_body170" "counted min_rocks_write_fcntl_0_0_body170" "calls min_rocks_write_fcntl_0_0_body170 = 14" "opened_in m min_rocks_write_fcntl_0_0_body170 = []"
  by (simp_all add: min_rocks_write_fcntl_0_0_body170_def prog_checks open_checks)

lemma min_rocks_write_fcntl_0_0_body171_ok: "body_ok (Suc 0) 145 min_rocks_write_fcntl_0_0_body171" "counted min_rocks_write_fcntl_0_0_body171" "calls min_rocks_write_fcntl_0_0_body171 = 14" "opened_in m min_rocks_write_fcntl_0_0_body171 = []"
  by (simp_all add: min_rocks_write_fcntl_0_0_body171_def prog_checks open_checks)

lemma min_rocks_write_fcntl_0_0_body172_ok: "body_ok (Suc 0) 145 min_rocks_write_fcntl_0_0_body172" "counted min_rocks_write_fcntl_0_0_body172" "calls min_rocks_write_fcntl_0_0_body172 = 14" "opened_in m min_rocks_write_fcntl_0_0_body172 = []"
  by (simp_all add: min_rocks_write_fcntl_0_0_body172_def prog_checks open_checks)

lemma min_rocks_write_fcntl_0_0_body173_ok: "body_ok (Suc 0) 145 min_rocks_write_fcntl_0_0_body173" "counted min_rocks_write_fcntl_0_0_body173" "calls min_rocks_write_fcntl_0_0_body173 = 14" "opened_in m min_rocks_write_fcntl_0_0_body173 = []"
  by (simp_all add: min_rocks_write_fcntl_0_0_body173_def prog_checks open_checks)

lemma min_rocks_write_fcntl_0_0_body174_ok: "body_ok (Suc 0) 145 min_rocks_write_fcntl_0_0_body174" "counted min_rocks_write_fcntl_0_0_body174" "calls min_rocks_write_fcntl_0_0_body174 = 14" "opened_in m min_rocks_write_fcntl_0_0_body174 = []"
  by (simp_all add: min_rocks_write_fcntl_0_0_body174_def prog_checks open_checks)

lemma min_rocks_write_fcntl_0_0_body175_ok: "body_ok (Suc 0) 145 min_rocks_write_fcntl_0_0_body175" "counted min_rocks_write_fcntl_0_0_body175" "calls min_rocks_write_fcntl_0_0_body175 = 14" "opened_in m min_rocks_write_fcntl_0_0_body175 = []"
  by (simp_all add: min_rocks_write_fcntl_0_0_body175_def prog_checks open_checks)

lemma min_rocks_write_fcntl_0_0_body176_ok: "body_ok (Suc 0) 145 min_rocks_write_fcntl_0_0_body176" "counted min_rocks_write_fcntl_0_0_body176" "calls min_rocks_write_fcntl_0_0_body176 = 14" "opened_in m min_rocks_write_fcntl_0_0_body176 = []"
  by (simp_all add: min_rocks_write_fcntl_0_0_body176_def prog_checks open_checks)

lemma min_rocks_write_fcntl_0_0_body177_ok: "body_ok (Suc 0) 145 min_rocks_write_fcntl_0_0_body177" "counted min_rocks_write_fcntl_0_0_body177" "calls min_rocks_write_fcntl_0_0_body177 = 14" "opened_in m min_rocks_write_fcntl_0_0_body177 = []"
  by (simp_all add: min_rocks_write_fcntl_0_0_body177_def prog_checks open_checks)

lemma min_rocks_write_fcntl_0_0_body178_ok: "body_ok (Suc 0) 145 min_rocks_write_fcntl_0_0_body178" "counted min_rocks_write_fcntl_0_0_body178" "calls min_rocks_write_fcntl_0_0_body178 = 14" "opened_in m min_rocks_write_fcntl_0_0_body178 = []"
  by (simp_all add: min_rocks_write_fcntl_0_0_body178_def prog_checks open_checks)

lemma min_rocks_write_fcntl_0_0_body179_ok: "body_ok (Suc 0) 145 min_rocks_write_fcntl_0_0_body179" "counted min_rocks_write_fcntl_0_0_body179" "calls min_rocks_write_fcntl_0_0_body179 = 14" "opened_in m min_rocks_write_fcntl_0_0_body179 = []"
  by (simp_all add: min_rocks_write_fcntl_0_0_body179_def prog_checks open_checks)

lemma min_rocks_write_fcntl_0_0_body180_ok: "body_ok (Suc 0) 145 min_rocks_write_fcntl_0_0_body180" "counted min_rocks_write_fcntl_0_0_body180" "calls min_rocks_write_fcntl_0_0_body180 = 14" "opened_in m min_rocks_write_fcntl_0_0_body180 = []"
  by (simp_all add: min_rocks_write_fcntl_0_0_body180_def prog_checks open_checks)

lemma min_rocks_write_fcntl_0_0_body181_ok: "body_ok (Suc 0) 145 min_rocks_write_fcntl_0_0_body181" "counted min_rocks_write_fcntl_0_0_body181" "calls min_rocks_write_fcntl_0_0_body181 = 14" "opened_in m min_rocks_write_fcntl_0_0_body181 = []"
  by (simp_all add: min_rocks_write_fcntl_0_0_body181_def prog_checks open_checks)

lemma min_rocks_write_fcntl_0_0_body182_ok: "body_ok (Suc 0) 145 min_rocks_write_fcntl_0_0_body182" "counted min_rocks_write_fcntl_0_0_body182" "calls min_rocks_write_fcntl_0_0_body182 = 14" "opened_in m min_rocks_write_fcntl_0_0_body182 = []"
  by (simp_all add: min_rocks_write_fcntl_0_0_body182_def prog_checks open_checks)

lemma min_rocks_write_fcntl_0_0_body183_ok: "body_ok (Suc 0) 145 min_rocks_write_fcntl_0_0_body183" "counted min_rocks_write_fcntl_0_0_body183" "calls min_rocks_write_fcntl_0_0_body183 = 14" "opened_in m min_rocks_write_fcntl_0_0_body183 = []"
  by (simp_all add: min_rocks_write_fcntl_0_0_body183_def prog_checks open_checks)

lemma min_rocks_write_fcntl_0_0_body184_ok: "body_ok (Suc 0) 145 min_rocks_write_fcntl_0_0_body184" "counted min_rocks_write_fcntl_0_0_body184" "calls min_rocks_write_fcntl_0_0_body184 = 14" "opened_in m min_rocks_write_fcntl_0_0_body184 = []"
  by (simp_all add: min_rocks_write_fcntl_0_0_body184_def prog_checks open_checks)

lemma min_rocks_write_fcntl_0_0_body185_ok: "body_ok (Suc 0) 145 min_rocks_write_fcntl_0_0_body185" "counted min_rocks_write_fcntl_0_0_body185" "calls min_rocks_write_fcntl_0_0_body185 = 14" "opened_in m min_rocks_write_fcntl_0_0_body185 = []"
  by (simp_all add: min_rocks_write_fcntl_0_0_body185_def prog_checks open_checks)

lemma min_rocks_write_fcntl_0_0_body186_ok: "body_ok (Suc 0) 145 min_rocks_write_fcntl_0_0_body186" "counted min_rocks_write_fcntl_0_0_body186" "calls min_rocks_write_fcntl_0_0_body186 = 14" "opened_in m min_rocks_write_fcntl_0_0_body186 = []"
  by (simp_all add: min_rocks_write_fcntl_0_0_body186_def prog_checks open_checks)

lemma min_rocks_write_fcntl_0_0_body187_ok: "body_ok (Suc 0) 145 min_rocks_write_fcntl_0_0_body187" "counted min_rocks_write_fcntl_0_0_body187" "calls min_rocks_write_fcntl_0_0_body187 = 14" "opened_in m min_rocks_write_fcntl_0_0_body187 = []"
  by (simp_all add: min_rocks_write_fcntl_0_0_body187_def prog_checks open_checks)

lemma min_rocks_write_fcntl_0_0_body188_ok: "body_ok (Suc 0) 145 min_rocks_write_fcntl_0_0_body188" "counted min_rocks_write_fcntl_0_0_body188" "calls min_rocks_write_fcntl_0_0_body188 = 14" "opened_in m min_rocks_write_fcntl_0_0_body188 = []"
  by (simp_all add: min_rocks_write_fcntl_0_0_body188_def prog_checks open_checks)

lemma min_rocks_write_fcntl_0_0_body189_ok: "body_ok (Suc 0) 145 min_rocks_write_fcntl_0_0_body189" "counted min_rocks_write_fcntl_0_0_body189" "calls min_rocks_write_fcntl_0_0_body189 = 14" "opened_in m min_rocks_write_fcntl_0_0_body189 = []"
  by (simp_all add: min_rocks_write_fcntl_0_0_body189_def prog_checks open_checks)

lemma min_rocks_write_fcntl_0_0_body190_ok: "body_ok (Suc 0) 145 min_rocks_write_fcntl_0_0_body190" "counted min_rocks_write_fcntl_0_0_body190" "calls min_rocks_write_fcntl_0_0_body190 = 14" "opened_in m min_rocks_write_fcntl_0_0_body190 = []"
  by (simp_all add: min_rocks_write_fcntl_0_0_body190_def prog_checks open_checks)

lemma min_rocks_write_fcntl_0_0_body191_ok: "body_ok (Suc 0) 145 min_rocks_write_fcntl_0_0_body191" "counted min_rocks_write_fcntl_0_0_body191" "calls min_rocks_write_fcntl_0_0_body191 = 14" "opened_in m min_rocks_write_fcntl_0_0_body191 = []"
  by (simp_all add: min_rocks_write_fcntl_0_0_body191_def prog_checks open_checks)

lemma min_rocks_write_fcntl_0_0_body192_ok: "body_ok (Suc 0) 145 min_rocks_write_fcntl_0_0_body192" "counted min_rocks_write_fcntl_0_0_body192" "calls min_rocks_write_fcntl_0_0_body192 = 14" "opened_in m min_rocks_write_fcntl_0_0_body192 = []"
  by (simp_all add: min_rocks_write_fcntl_0_0_body192_def prog_checks open_checks)

lemma min_rocks_write_fcntl_0_0_body193_ok: "body_ok (Suc 0) 145 min_rocks_write_fcntl_0_0_body193" "counted min_rocks_write_fcntl_0_0_body193" "calls min_rocks_write_fcntl_0_0_body193 = 14" "opened_in m min_rocks_write_fcntl_0_0_body193 = []"
  by (simp_all add: min_rocks_write_fcntl_0_0_body193_def prog_checks open_checks)

lemma min_rocks_write_fcntl_0_0_body194_ok: "body_ok (Suc 0) 145 min_rocks_write_fcntl_0_0_body194" "counted min_rocks_write_fcntl_0_0_body194" "calls min_rocks_write_fcntl_0_0_body194 = 14" "opened_in m min_rocks_write_fcntl_0_0_body194 = []"
  by (simp_all add: min_rocks_write_fcntl_0_0_body194_def prog_checks open_checks)

lemma min_rocks_write_fcntl_0_0_body195_ok: "body_ok (Suc 0) 145 min_rocks_write_fcntl_0_0_body195" "counted min_rocks_write_fcntl_0_0_body195" "calls min_rocks_write_fcntl_0_0_body195 = 14" "opened_in m min_rocks_write_fcntl_0_0_body195 = []"
  by (simp_all add: min_rocks_write_fcntl_0_0_body195_def prog_checks open_checks)

lemma min_rocks_write_fcntl_0_0_body196_ok: "body_ok (Suc 0) 145 min_rocks_write_fcntl_0_0_body196" "counted min_rocks_write_fcntl_0_0_body196" "calls min_rocks_write_fcntl_0_0_body196 = 14" "opened_in m min_rocks_write_fcntl_0_0_body196 = []"
  by (simp_all add: min_rocks_write_fcntl_0_0_body196_def prog_checks open_checks)

lemma min_rocks_write_fcntl_0_0_body197_ok: "body_ok (Suc 0) 145 min_rocks_write_fcntl_0_0_body197" "counted min_rocks_write_fcntl_0_0_body197" "calls min_rocks_write_fcntl_0_0_body197 = 14" "opened_in m min_rocks_write_fcntl_0_0_body197 = []"
  by (simp_all add: min_rocks_write_fcntl_0_0_body197_def prog_checks open_checks)

lemma min_rocks_write_fcntl_0_0_body198_ok: "body_ok (Suc 0) 145 min_rocks_write_fcntl_0_0_body198" "counted min_rocks_write_fcntl_0_0_body198" "calls min_rocks_write_fcntl_0_0_body198 = 14" "opened_in m min_rocks_write_fcntl_0_0_body198 = []"
  by (simp_all add: min_rocks_write_fcntl_0_0_body198_def prog_checks open_checks)

lemma min_rocks_write_fcntl_0_0_body199_ok: "body_ok (Suc 0) 145 min_rocks_write_fcntl_0_0_body199" "counted min_rocks_write_fcntl_0_0_body199" "calls min_rocks_write_fcntl_0_0_body199 = 14" "opened_in m min_rocks_write_fcntl_0_0_body199 = []"
  by (simp_all add: min_rocks_write_fcntl_0_0_body199_def prog_checks open_checks)

lemma min_rocks_write_fcntl_0_0_body200_ok: "body_ok (Suc 0) 145 min_rocks_write_fcntl_0_0_body200" "counted min_rocks_write_fcntl_0_0_body200" "calls min_rocks_write_fcntl_0_0_body200 = 14" "opened_in m min_rocks_write_fcntl_0_0_body200 = []"
  by (simp_all add: min_rocks_write_fcntl_0_0_body200_def prog_checks open_checks)

lemma min_rocks_write_fcntl_0_0_body201_ok: "body_ok (Suc 0) 145 min_rocks_write_fcntl_0_0_body201" "counted min_rocks_write_fcntl_0_0_body201" "calls min_rocks_write_fcntl_0_0_body201 = 14" "opened_in m min_rocks_write_fcntl_0_0_body201 = []"
  by (simp_all add: min_rocks_write_fcntl_0_0_body201_def prog_checks open_checks)

lemma min_rocks_write_fcntl_0_0_body202_ok: "body_ok (Suc 0) 145 min_rocks_write_fcntl_0_0_body202" "counted min_rocks_write_fcntl_0_0_body202" "calls min_rocks_write_fcntl_0_0_body202 = 14" "opened_in m min_rocks_write_fcntl_0_0_body202 = []"
  by (simp_all add: min_rocks_write_fcntl_0_0_body202_def prog_checks open_checks)

lemma min_rocks_write_fcntl_0_0_body203_ok: "body_ok (Suc 0) 145 min_rocks_write_fcntl_0_0_body203" "counted min_rocks_write_fcntl_0_0_body203" "calls min_rocks_write_fcntl_0_0_body203 = 14" "opened_in m min_rocks_write_fcntl_0_0_body203 = []"
  by (simp_all add: min_rocks_write_fcntl_0_0_body203_def prog_checks open_checks)

lemma min_rocks_write_fcntl_0_0_body204_ok: "body_ok (Suc 0) 145 min_rocks_write_fcntl_0_0_body204" "counted min_rocks_write_fcntl_0_0_body204" "calls min_rocks_write_fcntl_0_0_body204 = 14" "opened_in m min_rocks_write_fcntl_0_0_body204 = []"
  by (simp_all add: min_rocks_write_fcntl_0_0_body204_def prog_checks open_checks)

lemma min_rocks_write_fcntl_0_0_body205_ok: "body_ok (Suc 0) 145 min_rocks_write_fcntl_0_0_body205" "counted min_rocks_write_fcntl_0_0_body205" "calls min_rocks_write_fcntl_0_0_body205 = 14" "opened_in m min_rocks_write_fcntl_0_0_body205 = []"
  by (simp_all add: min_rocks_write_fcntl_0_0_body205_def prog_checks open_checks)

lemma min_rocks_write_fcntl_0_0_body206_ok: "body_ok (Suc 0) 145 min_rocks_write_fcntl_0_0_body206" "counted min_rocks_write_fcntl_0_0_body206" "calls min_rocks_write_fcntl_0_0_body206 = 14" "opened_in m min_rocks_write_fcntl_0_0_body206 = []"
  by (simp_all add: min_rocks_write_fcntl_0_0_body206_def prog_checks open_checks)

lemma min_rocks_write_fcntl_0_0_body207_ok: "body_ok (Suc 0) 145 min_rocks_write_fcntl_0_0_body207" "counted min_rocks_write_fcntl_0_0_body207" "calls min_rocks_write_fcntl_0_0_body207 = 14" "opened_in m min_rocks_write_fcntl_0_0_body207 = []"
  by (simp_all add: min_rocks_write_fcntl_0_0_body207_def prog_checks open_checks)

lemma min_rocks_write_fcntl_0_0_body208_ok: "body_ok (Suc 0) 145 min_rocks_write_fcntl_0_0_body208" "counted min_rocks_write_fcntl_0_0_body208" "calls min_rocks_write_fcntl_0_0_body208 = 14" "opened_in m min_rocks_write_fcntl_0_0_body208 = []"
  by (simp_all add: min_rocks_write_fcntl_0_0_body208_def prog_checks open_checks)

lemma min_rocks_write_fcntl_0_0_body209_ok: "body_ok (Suc 0) 145 min_rocks_write_fcntl_0_0_body209" "counted min_rocks_write_fcntl_0_0_body209" "calls min_rocks_write_fcntl_0_0_body209 = 14" "opened_in m min_rocks_write_fcntl_0_0_body209 = []"
  by (simp_all add: min_rocks_write_fcntl_0_0_body209_def prog_checks open_checks)

lemma min_rocks_write_fcntl_0_0_body210_ok: "body_ok (Suc 0) 145 min_rocks_write_fcntl_0_0_body210" "counted min_rocks_write_fcntl_0_0_body210" "calls min_rocks_write_fcntl_0_0_body210 = 14" "opened_in m min_rocks_write_fcntl_0_0_body210 = []"
  by (simp_all add: min_rocks_write_fcntl_0_0_body210_def prog_checks open_checks)

lemma min_rocks_write_fcntl_0_0_body211_ok: "body_ok (Suc 0) 145 min_rocks_write_fcntl_0_0_body211" "counted min_rocks_write_fcntl_0_0_body211" "calls min_rocks_write_fcntl_0_0_body211 = 14" "opened_in m min_rocks_write_fcntl_0_0_body211 = []"
  by (simp_all add: min_rocks_write_fcntl_0_0_body211_def prog_checks open_checks)

lemma min_rocks_write_fcntl_0_0_body212_ok: "body_ok (Suc 0) 145 min_rocks_write_fcntl_0_0_body212" "counted min_rocks_write_fcntl_0_0_body212" "calls min_rocks_write_fcntl_0_0_body212 = 14" "opened_in m min_rocks_write_fcntl_0_0_body212 = []"
  by (simp_all add: min_rocks_write_fcntl_0_0_body212_def prog_checks open_checks)

lemma min_rocks_write_fcntl_0_0_body213_ok: "body_ok (Suc 0) 145 min_rocks_write_fcntl_0_0_body213" "counted min_rocks_write_fcntl_0_0_body213" "calls min_rocks_write_fcntl_0_0_body213 = 14" "opened_in m min_rocks_write_fcntl_0_0_body213 = []"
  by (simp_all add: min_rocks_write_fcntl_0_0_body213_def prog_checks open_checks)

lemma min_rocks_write_fcntl_0_0_body214_ok: "body_ok (Suc 0) 145 min_rocks_write_fcntl_0_0_body214" "counted min_rocks_write_fcntl_0_0_body214" "calls min_rocks_write_fcntl_0_0_body214 = 14" "opened_in m min_rocks_write_fcntl_0_0_body214 = []"
  by (simp_all add: min_rocks_write_fcntl_0_0_body214_def prog_checks open_checks)

lemma min_rocks_write_fcntl_0_0_body215_ok: "body_ok (Suc 0) 145 min_rocks_write_fcntl_0_0_body215" "counted min_rocks_write_fcntl_0_0_body215" "calls min_rocks_write_fcntl_0_0_body215 = 14" "opened_in m min_rocks_write_fcntl_0_0_body215 = []"
  by (simp_all add: min_rocks_write_fcntl_0_0_body215_def prog_checks open_checks)

lemma min_rocks_write_fcntl_0_0_body216_ok: "body_ok (Suc 0) 145 min_rocks_write_fcntl_0_0_body216" "counted min_rocks_write_fcntl_0_0_body216" "calls min_rocks_write_fcntl_0_0_body216 = 14" "opened_in m min_rocks_write_fcntl_0_0_body216 = []"
  by (simp_all add: min_rocks_write_fcntl_0_0_body216_def prog_checks open_checks)

lemma min_rocks_write_fcntl_0_0_body217_ok: "body_ok (Suc 0) 145 min_rocks_write_fcntl_0_0_body217" "counted min_rocks_write_fcntl_0_0_body217" "calls min_rocks_write_fcntl_0_0_body217 = 14" "opened_in m min_rocks_write_fcntl_0_0_body217 = []"
  by (simp_all add: min_rocks_write_fcntl_0_0_body217_def prog_checks open_checks)

lemma min_rocks_write_fcntl_0_0_body218_ok: "body_ok (Suc 0) 145 min_rocks_write_fcntl_0_0_body218" "counted min_rocks_write_fcntl_0_0_body218" "calls min_rocks_write_fcntl_0_0_body218 = 14" "opened_in m min_rocks_write_fcntl_0_0_body218 = []"
  by (simp_all add: min_rocks_write_fcntl_0_0_body218_def prog_checks open_checks)

lemma min_rocks_write_fcntl_0_0_body219_ok: "body_ok (Suc 0) 145 min_rocks_write_fcntl_0_0_body219" "counted min_rocks_write_fcntl_0_0_body219" "calls min_rocks_write_fcntl_0_0_body219 = 14" "opened_in m min_rocks_write_fcntl_0_0_body219 = []"
  by (simp_all add: min_rocks_write_fcntl_0_0_body219_def prog_checks open_checks)

lemma min_rocks_write_fcntl_0_0_body220_ok: "body_ok (Suc 0) 145 min_rocks_write_fcntl_0_0_body220" "counted min_rocks_write_fcntl_0_0_body220" "calls min_rocks_write_fcntl_0_0_body220 = 14" "opened_in m min_rocks_write_fcntl_0_0_body220 = []"
  by (simp_all add: min_rocks_write_fcntl_0_0_body220_def prog_checks open_checks)

lemma min_rocks_write_fcntl_0_0_body221_ok: "body_ok (Suc 0) 145 min_rocks_write_fcntl_0_0_body221" "counted min_rocks_write_fcntl_0_0_body221" "calls min_rocks_write_fcntl_0_0_body221 = 14" "opened_in m min_rocks_write_fcntl_0_0_body221 = []"
  by (simp_all add: min_rocks_write_fcntl_0_0_body221_def prog_checks open_checks)

lemma min_rocks_write_fcntl_0_0_body222_ok: "body_ok (Suc 0) 145 min_rocks_write_fcntl_0_0_body222" "counted min_rocks_write_fcntl_0_0_body222" "calls min_rocks_write_fcntl_0_0_body222 = 14" "opened_in m min_rocks_write_fcntl_0_0_body222 = []"
  by (simp_all add: min_rocks_write_fcntl_0_0_body222_def prog_checks open_checks)

lemma min_rocks_write_fcntl_0_0_body223_ok: "body_ok (Suc 0) 145 min_rocks_write_fcntl_0_0_body223" "counted min_rocks_write_fcntl_0_0_body223" "calls min_rocks_write_fcntl_0_0_body223 = 14" "opened_in m min_rocks_write_fcntl_0_0_body223 = []"
  by (simp_all add: min_rocks_write_fcntl_0_0_body223_def prog_checks open_checks)

lemma min_rocks_write_fcntl_0_0_body224_ok: "body_ok (Suc 0) 145 min_rocks_write_fcntl_0_0_body224" "counted min_rocks_write_fcntl_0_0_body224" "calls min_rocks_write_fcntl_0_0_body224 = 14" "opened_in m min_rocks_write_fcntl_0_0_body224 = []"
  by (simp_all add: min_rocks_write_fcntl_0_0_body224_def prog_checks open_checks)

lemma min_rocks_write_fcntl_0_0_body225_ok: "body_ok (Suc 0) 145 min_rocks_write_fcntl_0_0_body225" "counted min_rocks_write_fcntl_0_0_body225" "calls min_rocks_write_fcntl_0_0_body225 = 14" "opened_in m min_rocks_write_fcntl_0_0_body225 = []"
  by (simp_all add: min_rocks_write_fcntl_0_0_body225_def prog_checks open_checks)

lemma min_rocks_write_fcntl_0_0_body226_ok: "body_ok (Suc 0) 145 min_rocks_write_fcntl_0_0_body226" "counted min_rocks_write_fcntl_0_0_body226" "calls min_rocks_write_fcntl_0_0_body226 = 14" "opened_in m min_rocks_write_fcntl_0_0_body226 = []"
  by (simp_all add: min_rocks_write_fcntl_0_0_body226_def prog_checks open_checks)

lemma min_rocks_write_fcntl_0_0_body227_ok: "body_ok (Suc 0) 145 min_rocks_write_fcntl_0_0_body227" "counted min_rocks_write_fcntl_0_0_body227" "calls min_rocks_write_fcntl_0_0_body227 = 14" "opened_in m min_rocks_write_fcntl_0_0_body227 = []"
  by (simp_all add: min_rocks_write_fcntl_0_0_body227_def prog_checks open_checks)

lemma min_rocks_write_fcntl_0_0_body228_ok: "body_ok (Suc 0) 145 min_rocks_write_fcntl_0_0_body228" "counted min_rocks_write_fcntl_0_0_body228" "calls min_rocks_write_fcntl_0_0_body228 = 14" "opened_in m min_rocks_write_fcntl_0_0_body228 = []"
  by (simp_all add: min_rocks_write_fcntl_0_0_body228_def prog_checks open_checks)

lemma min_rocks_write_fcntl_0_0_body229_ok: "body_ok (Suc 0) 145 min_rocks_write_fcntl_0_0_body229" "counted min_rocks_write_fcntl_0_0_body229" "calls min_rocks_write_fcntl_0_0_body229 = 14" "opened_in m min_rocks_write_fcntl_0_0_body229 = []"
  by (simp_all add: min_rocks_write_fcntl_0_0_body229_def prog_checks open_checks)

lemma min_rocks_write_fcntl_0_0_body230_ok: "body_ok (Suc 0) 145 min_rocks_write_fcntl_0_0_body230" "counted min_rocks_write_fcntl_0_0_body230" "calls min_rocks_write_fcntl_0_0_body230 = 14" "opened_in m min_rocks_write_fcntl_0_0_body230 = []"
  by (simp_all add: min_rocks_write_fcntl_0_0_body230_def prog_checks open_checks)

lemma min_rocks_write_fcntl_0_0_body231_ok: "body_ok (Suc 0) 145 min_rocks_write_fcntl_0_0_body231" "counted min_rocks_write_fcntl_0_0_body231" "calls min_rocks_write_fcntl_0_0_body231 = 14" "opened_in m min_rocks_write_fcntl_0_0_body231 = []"
  by (simp_all add: min_rocks_write_fcntl_0_0_body231_def prog_checks open_checks)

lemma min_rocks_write_fcntl_0_0_body232_ok: "body_ok (Suc 0) 145 min_rocks_write_fcntl_0_0_body232" "counted min_rocks_write_fcntl_0_0_body232" "calls min_rocks_write_fcntl_0_0_body232 = 14" "opened_in m min_rocks_write_fcntl_0_0_body232 = []"
  by (simp_all add: min_rocks_write_fcntl_0_0_body232_def prog_checks open_checks)

lemma min_rocks_write_fcntl_0_0_body233_ok: "body_ok (Suc 0) 145 min_rocks_write_fcntl_0_0_body233" "counted min_rocks_write_fcntl_0_0_body233" "calls min_rocks_write_fcntl_0_0_body233 = 14" "opened_in m min_rocks_write_fcntl_0_0_body233 = []"
  by (simp_all add: min_rocks_write_fcntl_0_0_body233_def prog_checks open_checks)

lemma min_rocks_write_fcntl_0_0_body234_ok: "body_ok (Suc 0) 145 min_rocks_write_fcntl_0_0_body234" "counted min_rocks_write_fcntl_0_0_body234" "calls min_rocks_write_fcntl_0_0_body234 = 14" "opened_in m min_rocks_write_fcntl_0_0_body234 = []"
  by (simp_all add: min_rocks_write_fcntl_0_0_body234_def prog_checks open_checks)

lemma min_rocks_write_fcntl_0_0_body235_ok: "body_ok (Suc 0) 145 min_rocks_write_fcntl_0_0_body235" "counted min_rocks_write_fcntl_0_0_body235" "calls min_rocks_write_fcntl_0_0_body235 = 14" "opened_in m min_rocks_write_fcntl_0_0_body235 = []"
  by (simp_all add: min_rocks_write_fcntl_0_0_body235_def prog_checks open_checks)

lemma min_rocks_write_fcntl_0_0_body236_ok: "body_ok (Suc 0) 145 min_rocks_write_fcntl_0_0_body236" "counted min_rocks_write_fcntl_0_0_body236" "calls min_rocks_write_fcntl_0_0_body236 = 14" "opened_in m min_rocks_write_fcntl_0_0_body236 = []"
  by (simp_all add: min_rocks_write_fcntl_0_0_body236_def prog_checks open_checks)

lemma min_rocks_write_fcntl_0_0_body237_ok: "body_ok (Suc 0) 145 min_rocks_write_fcntl_0_0_body237" "counted min_rocks_write_fcntl_0_0_body237" "calls min_rocks_write_fcntl_0_0_body237 = 14" "opened_in m min_rocks_write_fcntl_0_0_body237 = []"
  by (simp_all add: min_rocks_write_fcntl_0_0_body237_def prog_checks open_checks)

lemma min_rocks_write_fcntl_0_0_body238_ok: "body_ok (Suc 0) 145 min_rocks_write_fcntl_0_0_body238" "counted min_rocks_write_fcntl_0_0_body238" "calls min_rocks_write_fcntl_0_0_body238 = 14" "opened_in m min_rocks_write_fcntl_0_0_body238 = []"
  by (simp_all add: min_rocks_write_fcntl_0_0_body238_def prog_checks open_checks)

lemma min_rocks_write_fcntl_0_0_body239_ok: "body_ok (Suc 0) 145 min_rocks_write_fcntl_0_0_body239" "counted min_rocks_write_fcntl_0_0_body239" "calls min_rocks_write_fcntl_0_0_body239 = 14" "opened_in m min_rocks_write_fcntl_0_0_body239 = []"
  by (simp_all add: min_rocks_write_fcntl_0_0_body239_def prog_checks open_checks)

lemma min_rocks_write_fcntl_0_0_body240_ok: "body_ok (Suc 0) 145 min_rocks_write_fcntl_0_0_body240" "counted min_rocks_write_fcntl_0_0_body240" "calls min_rocks_write_fcntl_0_0_body240 = 14" "opened_in m min_rocks_write_fcntl_0_0_body240 = []"
  by (simp_all add: min_rocks_write_fcntl_0_0_body240_def prog_checks open_checks)

end
