(* ===== verification/CSB_Progs_Rocksdb_g_p3.thy ===== *)
theory CSB_Progs_Rocksdb_g_p3
  imports CSB_Syz_Files
begin

text \<open>
  Statements of min\_rocks\_write\_fcntl\_0\_0 (bench/targets/rocksdb), in the
  order of the file; the program is put together in CSB\_Progs\_Rocksdb\_g.
\<close>

definition min_rocks_write_fcntl_0_0_body241 :: "stmt list" where
  "min_rocks_write_fcntl_0_0_body241 = [
    Syscall NR_write [Reg 0, Write_buf, Imm 0x8a], Count, Syscall NR_write [Reg 0, Write_buf, Imm 0x8a], Count,
    Syscall NR_write [Reg 0, Write_buf, Imm 0x8a], Count, Syscall NR_write [Reg 0, Write_buf, Imm 0x8a], Count,
    Syscall NR_write [Reg 0, Write_buf, Imm 0x8a], Count, Syscall NR_write [Reg 0, Write_buf, Imm 0x8a], Count,
    Syscall NR_write [Reg 0, Write_buf, Imm 0x8a], Count, Syscall NR_write [Reg 0, Write_buf, Imm 0x8a], Count,
    Syscall NR_write [Reg 0, Write_buf, Imm 0x8a], Count, Syscall NR_write [Reg 0, Write_buf, Imm 0x8a], Count,
    Syscall NR_write [Reg 0, Write_buf, Imm 0x8a], Count, Syscall NR_write [Reg 0, Write_buf, Imm 0x8a], Count,
    Syscall NR_write [Reg 0, Write_buf, Imm 0x8a], Count, Syscall NR_write [Reg 0, Write_buf, Imm 0x8a], Count]"

definition min_rocks_write_fcntl_0_0_body242 :: "stmt list" where
  "min_rocks_write_fcntl_0_0_body242 = [
    Syscall NR_write [Reg 0, Write_buf, Imm 0x8a], Count, Syscall NR_write [Reg 0, Write_buf, Imm 0x8a], Count,
    Syscall NR_write [Reg 0, Write_buf, Imm 0x8a], Count, Syscall NR_write [Reg 0, Write_buf, Imm 0x8a], Count,
    Syscall NR_write [Reg 0, Write_buf, Imm 0x8a], Count, Syscall NR_write [Reg 0, Write_buf, Imm 0x8a], Count,
    Syscall NR_write [Reg 0, Write_buf, Imm 0x8a], Count, Syscall NR_write [Reg 0, Write_buf, Imm 0x8a], Count,
    Syscall NR_write [Reg 0, Write_buf, Imm 0x8a], Count, Syscall NR_write [Reg 0, Write_buf, Imm 0x8a], Count,
    Syscall NR_write [Reg 0, Write_buf, Imm 0x8a], Count, Syscall NR_write [Reg 0, Write_buf, Imm 0x8a], Count,
    Syscall NR_write [Reg 0, Write_buf, Imm 0x8a], Count, Syscall NR_write [Reg 0, Write_buf, Imm 0x8a], Count]"

definition min_rocks_write_fcntl_0_0_body243 :: "stmt list" where
  "min_rocks_write_fcntl_0_0_body243 = [
    Syscall NR_write [Reg 0, Write_buf, Imm 0x8a], Count, Syscall NR_write [Reg 0, Write_buf, Imm 0x8a], Count,
    Syscall NR_write [Reg 0, Write_buf, Imm 0x8a], Count, Syscall NR_write [Reg 0, Write_buf, Imm 0x8a], Count,
    Syscall NR_write [Reg 0, Write_buf, Imm 0x8a], Count, Syscall NR_write [Reg 0, Write_buf, Imm 0x8a], Count,
    Syscall NR_write [Reg 0, Write_buf, Imm 0x8a], Count, Syscall NR_write [Reg 0, Write_buf, Imm 0x8a], Count,
    Syscall NR_write [Reg 0, Write_buf, Imm 0x8a], Count, Syscall NR_write [Reg 0, Write_buf, Imm 0x8a], Count,
    Syscall NR_write [Reg 0, Write_buf, Imm 0x8a], Count, Syscall NR_write [Reg 0, Write_buf, Imm 0x8a], Count,
    Syscall NR_write [Reg 0, Write_buf, Imm 0x8a], Count, Syscall NR_write [Reg 0, Write_buf, Imm 0x8a], Count]"

definition min_rocks_write_fcntl_0_0_body244 :: "stmt list" where
  "min_rocks_write_fcntl_0_0_body244 = [
    Syscall NR_write [Reg 0, Write_buf, Imm 0x8a], Count, Syscall NR_write [Reg 0, Write_buf, Imm 0x8a], Count,
    Syscall NR_write [Reg 0, Write_buf, Imm 0x8a], Count, Syscall NR_write [Reg 0, Write_buf, Imm 0x8a], Count,
    Syscall NR_write [Reg 0, Write_buf, Imm 0x8a], Count, Syscall NR_write [Reg 0, Write_buf, Imm 0x8a], Count,
    Syscall NR_write [Reg 0, Write_buf, Imm 0x8a], Count, Syscall NR_write [Reg 0, Write_buf, Imm 0x8a], Count,
    Syscall NR_write [Reg 0, Write_buf, Imm 0x8a], Count, Syscall NR_write [Reg 0, Write_buf, Imm 0x8a], Count,
    Syscall NR_write [Reg 0, Write_buf, Imm 0x8a], Count, Syscall NR_write [Reg 0, Write_buf, Imm 0x8a], Count,
    Syscall NR_write [Reg 0, Write_buf, Imm 0x8a], Count, Syscall NR_write [Reg 0, Write_buf, Imm 0x8a], Count]"

definition min_rocks_write_fcntl_0_0_body245 :: "stmt list" where
  "min_rocks_write_fcntl_0_0_body245 = [
    Syscall NR_write [Reg 0, Write_buf, Imm 0x8a], Count, Syscall NR_write [Reg 0, Write_buf, Imm 0x8a], Count,
    Syscall NR_write [Reg 0, Write_buf, Imm 0x8a], Count, Syscall NR_write [Reg 0, Write_buf, Imm 0x8a], Count,
    Syscall NR_write [Reg 0, Write_buf, Imm 0x8a], Count, Syscall NR_write [Reg 0, Write_buf, Imm 0x8a], Count,
    Syscall NR_write [Reg 0, Write_buf, Imm 0x8a], Count, Syscall NR_write [Reg 0, Write_buf, Imm 0x8a], Count,
    Syscall NR_write [Reg 0, Write_buf, Imm 0x8a], Count, Syscall NR_write [Reg 0, Write_buf, Imm 0x8a], Count,
    Syscall NR_write [Reg 0, Write_buf, Imm 0x8a], Count, Syscall NR_write [Reg 0, Write_buf, Imm 0x8a], Count,
    Syscall NR_write [Reg 0, Write_buf, Imm 0x8a], Count, Syscall NR_write [Reg 0, Write_buf, Imm 0x8a], Count]"

definition min_rocks_write_fcntl_0_0_body246 :: "stmt list" where
  "min_rocks_write_fcntl_0_0_body246 = [
    Syscall NR_write [Reg 0, Write_buf, Imm 0x8a], Count, Syscall NR_write [Reg 0, Write_buf, Imm 0x8a], Count,
    Syscall NR_write [Reg 0, Write_buf, Imm 0x8a], Count, Syscall NR_write [Reg 0, Write_buf, Imm 0x8a], Count,
    Syscall NR_write [Reg 0, Write_buf, Imm 0x8a], Count, Syscall NR_write [Reg 0, Write_buf, Imm 0x8a], Count,
    Syscall NR_write [Reg 0, Write_buf, Imm 0x8a], Count, Syscall NR_write [Reg 0, Write_buf, Imm 0x8a], Count,
    Syscall NR_write [Reg 0, Write_buf, Imm 0x8a], Count, Syscall NR_write [Reg 0, Write_buf, Imm 0x8a], Count,
    Syscall NR_write [Reg 0, Write_buf, Imm 0x8a], Count, Syscall NR_write [Reg 0, Write_buf, Imm 0x8a], Count,
    Syscall NR_write [Reg 0, Write_buf, Imm 0x8a], Count, Syscall NR_write [Reg 0, Write_buf, Imm 0x8a], Count]"

definition min_rocks_write_fcntl_0_0_body247 :: "stmt list" where
  "min_rocks_write_fcntl_0_0_body247 = [
    Syscall NR_write [Reg 0, Write_buf, Imm 0x8a], Count, Syscall NR_write [Reg 0, Write_buf, Imm 0x8a], Count,
    Syscall NR_write [Reg 0, Write_buf, Imm 0x8a], Count, Syscall NR_write [Reg 0, Write_buf, Imm 0x8a], Count,
    Syscall NR_write [Reg 0, Write_buf, Imm 0x8a], Count, Syscall NR_write [Reg 0, Write_buf, Imm 0x8a], Count,
    Syscall NR_write [Reg 0, Write_buf, Imm 0x8a], Count, Syscall NR_write [Reg 0, Write_buf, Imm 0x8a], Count,
    Syscall NR_write [Reg 0, Write_buf, Imm 0x8a], Count, Syscall NR_write [Reg 0, Write_buf, Imm 0x8a], Count,
    Syscall NR_write [Reg 0, Write_buf, Imm 0x8a], Count, Syscall NR_write [Reg 0, Write_buf, Imm 0x8a], Count,
    Syscall NR_write [Reg 0, Write_buf, Imm 0x8a], Count, Syscall NR_write [Reg 0, Write_buf, Imm 0x8a], Count]"

definition min_rocks_write_fcntl_0_0_body248 :: "stmt list" where
  "min_rocks_write_fcntl_0_0_body248 = [
    Syscall NR_write [Reg 0, Write_buf, Imm 0x8a], Count, Syscall NR_write [Reg 0, Write_buf, Imm 0x8a], Count,
    Syscall NR_write [Reg 0, Write_buf, Imm 0x8a], Count, Syscall NR_write [Reg 0, Write_buf, Imm 0x8a], Count,
    Syscall NR_write [Reg 0, Write_buf, Imm 0x8a], Count, Syscall NR_write [Reg 0, Write_buf, Imm 0x8a], Count,
    Syscall NR_write [Reg 0, Write_buf, Imm 0x8a], Count, Syscall NR_write [Reg 0, Write_buf, Imm 0x8a], Count,
    Syscall NR_write [Reg 0, Write_buf, Imm 0x8a], Count, Syscall NR_write [Reg 0, Write_buf, Imm 0x8a], Count,
    Syscall NR_write [Reg 0, Write_buf, Imm 0x8a], Count, Syscall NR_write [Reg 0, Write_buf, Imm 0x8a], Count,
    Syscall NR_write [Reg 0, Write_buf, Imm 0x8a], Count, Syscall NR_write [Reg 0, Write_buf, Imm 0x8a], Count]"

definition min_rocks_write_fcntl_0_0_body249 :: "stmt list" where
  "min_rocks_write_fcntl_0_0_body249 = [
    Syscall NR_write [Reg 0, Write_buf, Imm 0x8a], Count, Syscall NR_write [Reg 0, Write_buf, Imm 0x8a], Count,
    Syscall NR_write [Reg 0, Write_buf, Imm 0x8a], Count, Syscall NR_write [Reg 0, Write_buf, Imm 0x8a], Count,
    Syscall NR_write [Reg 0, Write_buf, Imm 0x8a], Count, Syscall NR_write [Reg 0, Write_buf, Imm 0x8a], Count,
    Syscall NR_write [Reg 0, Write_buf, Imm 0x8a], Count, Syscall NR_write [Reg 0, Write_buf, Imm 0x8a], Count,
    Syscall NR_write [Reg 0, Write_buf, Imm 0x8a], Count, Syscall NR_write [Reg 0, Write_buf, Imm 0x8a], Count,
    Syscall NR_write [Reg 0, Write_buf, Imm 0x8a], Count, Syscall NR_write [Reg 0, Write_buf, Imm 0x8a], Count,
    Syscall NR_write [Reg 0, Write_buf, Imm 0x8a], Count, Syscall NR_write [Reg 0, Write_buf, Imm 0x8a], Count]"

definition min_rocks_write_fcntl_0_0_body250 :: "stmt list" where
  "min_rocks_write_fcntl_0_0_body250 = [
    Syscall NR_write [Reg 0, Write_buf, Imm 0x8a], Count, Syscall NR_write [Reg 0, Write_buf, Imm 0x8a], Count,
    Syscall NR_write [Reg 0, Write_buf, Imm 0x8a], Count, Syscall NR_write [Reg 0, Write_buf, Imm 0x8a], Count,
    Syscall NR_write [Reg 0, Write_buf, Imm 0x8a], Count, Syscall NR_write [Reg 0, Write_buf, Imm 0x8a], Count,
    Syscall NR_write [Reg 0, Write_buf, Imm 0x8a], Count, Syscall NR_write [Reg 0, Write_buf, Imm 0x8a], Count,
    Syscall NR_write [Reg 0, Write_buf, Imm 0x8a], Count, Syscall NR_write [Reg 0, Write_buf, Imm 0x8a], Count,
    Syscall NR_write [Reg 0, Write_buf, Imm 0x8a], Count, Syscall NR_write [Reg 0, Write_buf, Imm 0x8a], Count,
    Syscall NR_write [Reg 0, Write_buf, Imm 0x8a], Count, Syscall NR_write [Reg 0, Write_buf, Imm 0x8a], Count]"

definition min_rocks_write_fcntl_0_0_body251 :: "stmt list" where
  "min_rocks_write_fcntl_0_0_body251 = [
    Syscall NR_write [Reg 0, Write_buf, Imm 0x8a], Count, Syscall NR_write [Reg 0, Write_buf, Imm 0x8a], Count,
    Syscall NR_write [Reg 0, Write_buf, Imm 0x8a], Count, Syscall NR_write [Reg 0, Write_buf, Imm 0x8a], Count,
    Syscall NR_write [Reg 0, Write_buf, Imm 0x8a], Count, Syscall NR_write [Reg 0, Write_buf, Imm 0x8a], Count,
    Syscall NR_write [Reg 0, Write_buf, Imm 0x8a], Count, Syscall NR_write [Reg 0, Write_buf, Imm 0x8a], Count,
    Syscall NR_write [Reg 0, Write_buf, Imm 0x8a], Count, Syscall NR_write [Reg 0, Write_buf, Imm 0x8a], Count,
    Syscall NR_write [Reg 0, Write_buf, Imm 0x8a], Count, Syscall NR_write [Reg 0, Write_buf, Imm 0x8a], Count,
    Syscall NR_write [Reg 0, Write_buf, Imm 0x8a], Count, Syscall NR_write [Reg 0, Write_buf, Imm 0x8a], Count]"

definition min_rocks_write_fcntl_0_0_body252 :: "stmt list" where
  "min_rocks_write_fcntl_0_0_body252 = [
    Syscall NR_write [Reg 0, Write_buf, Imm 0x8a], Count, Syscall NR_write [Reg 0, Write_buf, Imm 0x8a], Count,
    Syscall NR_write [Reg 0, Write_buf, Imm 0x8a], Count, Syscall NR_write [Reg 0, Write_buf, Imm 0x8a], Count,
    Syscall NR_write [Reg 0, Write_buf, Imm 0x8a], Count, Syscall NR_write [Reg 0, Write_buf, Imm 0x8a], Count,
    Syscall NR_write [Reg 0, Write_buf, Imm 0x8a], Count, Syscall NR_write [Reg 0, Write_buf, Imm 0x8a], Count,
    Syscall NR_write [Reg 0, Write_buf, Imm 0x8a], Count, Syscall NR_write [Reg 0, Write_buf, Imm 0x8a], Count,
    Syscall NR_write [Reg 0, Write_buf, Imm 0x8a], Count, Syscall NR_write [Reg 0, Write_buf, Imm 0x8a], Count,
    Syscall NR_write [Reg 0, Write_buf, Imm 0x8a], Count, Syscall NR_write [Reg 0, Write_buf, Imm 0x8a], Count]"

definition min_rocks_write_fcntl_0_0_body253 :: "stmt list" where
  "min_rocks_write_fcntl_0_0_body253 = [
    Syscall NR_write [Reg 0, Write_buf, Imm 0x8a], Count, Syscall NR_write [Reg 0, Write_buf, Imm 0x8a], Count,
    Syscall NR_write [Reg 0, Write_buf, Imm 0x8a], Count, Syscall NR_write [Reg 0, Write_buf, Imm 0x8a], Count,
    Syscall NR_write [Reg 0, Write_buf, Imm 0x8a], Count, Syscall NR_write [Reg 0, Write_buf, Imm 0x8a], Count,
    Syscall NR_write [Reg 0, Write_buf, Imm 0x8a], Count, Syscall NR_write [Reg 0, Write_buf, Imm 0x8a], Count,
    Syscall NR_write [Reg 0, Write_buf, Imm 0x8a], Count, Syscall NR_write [Reg 0, Write_buf, Imm 0x8a], Count,
    Syscall NR_write [Reg 0, Write_buf, Imm 0x8a], Count, Syscall NR_write [Reg 0, Write_buf, Imm 0x8a], Count,
    Syscall NR_write [Reg 0, Write_buf, Imm 0x8a], Count, Syscall NR_write [Reg 0, Write_buf, Imm 0x8a], Count]"

definition min_rocks_write_fcntl_0_0_body254 :: "stmt list" where
  "min_rocks_write_fcntl_0_0_body254 = [
    Syscall NR_write [Reg 0, Write_buf, Imm 0x8a], Count, Syscall NR_write [Reg 0, Write_buf, Imm 0x8a], Count,
    Syscall NR_write [Reg 0, Write_buf, Imm 0x8a], Count, Syscall NR_write [Reg 0, Write_buf, Imm 0x8a], Count,
    Syscall NR_write [Reg 0, Write_buf, Imm 0x8a], Count, Syscall NR_write [Reg 0, Write_buf, Imm 0x8a], Count,
    Syscall NR_write [Reg 0, Write_buf, Imm 0x8a], Count, Syscall NR_write [Reg 0, Write_buf, Imm 0x8a], Count,
    Syscall NR_write [Reg 0, Write_buf, Imm 0x8a], Count, Syscall NR_write [Reg 0, Write_buf, Imm 0x8a], Count,
    Syscall NR_write [Reg 0, Write_buf, Imm 0x8a], Count, Syscall NR_write [Reg 0, Write_buf, Imm 0x91], Count,
    Syscall NR_write [Reg 0, Write_buf, Imm 0x8a], Count, Syscall NR_write [Reg 0, Write_buf, Imm 0x8a], Count]"

definition min_rocks_write_fcntl_0_0_body255 :: "stmt list" where
  "min_rocks_write_fcntl_0_0_body255 = [
    Syscall NR_write [Reg 0, Write_buf, Imm 0x8a], Count, Syscall NR_write [Reg 0, Write_buf, Imm 0x8a], Count,
    Syscall NR_write [Reg 0, Write_buf, Imm 0x8a], Count, Syscall NR_write [Reg 0, Write_buf, Imm 0x8a], Count,
    Syscall NR_write [Reg 0, Write_buf, Imm 0x8a], Count, Syscall NR_write [Reg 0, Write_buf, Imm 0x8a], Count,
    Syscall NR_write [Reg 0, Write_buf, Imm 0x8a], Count, Syscall NR_write [Reg 0, Write_buf, Imm 0x8a], Count,
    Syscall NR_write [Reg 0, Write_buf, Imm 0x8a], Count, Syscall NR_write [Reg 0, Write_buf, Imm 0x8a], Count,
    Syscall NR_write [Reg 0, Write_buf, Imm 0x8a], Count, Syscall NR_write [Reg 0, Write_buf, Imm 0x8a], Count,
    Syscall NR_write [Reg 0, Write_buf, Imm 0x8a], Count, Syscall NR_write [Reg 0, Write_buf, Imm 0x8a], Count]"

definition min_rocks_write_fcntl_0_0_body256 :: "stmt list" where
  "min_rocks_write_fcntl_0_0_body256 = [
    Syscall NR_write [Reg 0, Write_buf, Imm 0x8a], Count, Syscall NR_write [Reg 0, Write_buf, Imm 0x8a], Count,
    Syscall NR_write [Reg 0, Write_buf, Imm 0x8a], Count, Syscall NR_write [Reg 0, Write_buf, Imm 0x8a], Count,
    Syscall NR_write [Reg 0, Write_buf, Imm 0x8a], Count, Syscall NR_write [Reg 0, Write_buf, Imm 0x8a], Count,
    Syscall NR_write [Reg 0, Write_buf, Imm 0x8a], Count, Syscall NR_write [Reg 0, Write_buf, Imm 0x8a], Count,
    Syscall NR_write [Reg 0, Write_buf, Imm 0x8a], Count, Syscall NR_write [Reg 0, Write_buf, Imm 0x8a], Count,
    Syscall NR_write [Reg 0, Write_buf, Imm 0x8a], Count, Syscall NR_write [Reg 0, Write_buf, Imm 0x8a], Count,
    Syscall NR_write [Reg 0, Write_buf, Imm 0x8a], Count, Syscall NR_write [Reg 0, Write_buf, Imm 0x8a], Count]"

definition min_rocks_write_fcntl_0_0_body257 :: "stmt list" where
  "min_rocks_write_fcntl_0_0_body257 = [
    Syscall NR_write [Reg 0, Write_buf, Imm 0x8a], Count, Syscall NR_write [Reg 0, Write_buf, Imm 0x8a], Count,
    Syscall NR_write [Reg 0, Write_buf, Imm 0x8a], Count, Syscall NR_write [Reg 0, Write_buf, Imm 0x8a], Count,
    Syscall NR_write [Reg 0, Write_buf, Imm 0x8a], Count, Syscall NR_write [Reg 0, Write_buf, Imm 0x8a], Count,
    Syscall NR_write [Reg 0, Write_buf, Imm 0x8a], Count, Syscall NR_write [Reg 0, Write_buf, Imm 0x8a], Count,
    Syscall NR_write [Reg 0, Write_buf, Imm 0x8a], Count, Syscall NR_write [Reg 0, Write_buf, Imm 0x8a], Count,
    Syscall NR_write [Reg 0, Write_buf, Imm 0x8a], Count, Syscall NR_write [Reg 0, Write_buf, Imm 0x8a], Count,
    Syscall NR_write [Reg 0, Write_buf, Imm 0x8a], Count, Syscall NR_write [Reg 0, Write_buf, Imm 0x8a], Count]"

definition min_rocks_write_fcntl_0_0_body258 :: "stmt list" where
  "min_rocks_write_fcntl_0_0_body258 = [
    Syscall NR_write [Reg 0, Write_buf, Imm 0x8a], Count, Syscall NR_write [Reg 0, Write_buf, Imm 0x8a], Count,
    Syscall NR_write [Reg 0, Write_buf, Imm 0x8a], Count, Syscall NR_write [Reg 0, Write_buf, Imm 0x8a], Count,
    Syscall NR_write [Reg 0, Write_buf, Imm 0x8a], Count, Syscall NR_write [Reg 0, Write_buf, Imm 0x8a], Count,
    Syscall NR_write [Reg 0, Write_buf, Imm 0x8a], Count, Syscall NR_write [Reg 0, Write_buf, Imm 0x8a], Count,
    Syscall NR_write [Reg 0, Write_buf, Imm 0x8a], Count, Syscall NR_write [Reg 0, Write_buf, Imm 0x8a], Count,
    Syscall NR_write [Reg 0, Write_buf, Imm 0x8a], Count, Syscall NR_write [Reg 0, Write_buf, Imm 0x8a], Count,
    Syscall NR_write [Reg 0, Write_buf, Imm 0x8a], Count, Syscall NR_write [Reg 0, Write_buf, Imm 0x8a], Count]"

definition min_rocks_write_fcntl_0_0_body259 :: "stmt list" where
  "min_rocks_write_fcntl_0_0_body259 = [
    Syscall NR_write [Reg 0, Write_buf, Imm 0x8a], Count, Syscall NR_write [Reg 0, Write_buf, Imm 0x8a], Count,
    Syscall NR_write [Reg 0, Write_buf, Imm 0x8a], Count, Syscall NR_write [Reg 0, Write_buf, Imm 0x8a], Count,
    Syscall NR_write [Reg 0, Write_buf, Imm 0x8a], Count, Syscall NR_write [Reg 0, Write_buf, Imm 0x8a], Count,
    Syscall NR_write [Reg 0, Write_buf, Imm 0x8a], Count, Syscall NR_write [Reg 0, Write_buf, Imm 0x8a], Count,
    Syscall NR_write [Reg 0, Write_buf, Imm 0x8a], Count, Syscall NR_write [Reg 0, Write_buf, Imm 0x8a], Count,
    Syscall NR_write [Reg 0, Write_buf, Imm 0x8a], Count, Syscall NR_write [Reg 0, Write_buf, Imm 0x8a], Count,
    Syscall NR_write [Reg 0, Write_buf, Imm 0x8a], Count, Syscall NR_write [Reg 0, Write_buf, Imm 0x8a], Count]"

definition min_rocks_write_fcntl_0_0_body260 :: "stmt list" where
  "min_rocks_write_fcntl_0_0_body260 = [
    Syscall NR_write [Reg 0, Write_buf, Imm 0x8a], Count, Syscall NR_write [Reg 0, Write_buf, Imm 0x8a], Count,
    Syscall NR_write [Reg 0, Write_buf, Imm 0x8a], Count, Syscall NR_write [Reg 0, Write_buf, Imm 0x8a], Count,
    Syscall NR_write [Reg 0, Write_buf, Imm 0x8a], Count, Syscall NR_write [Reg 0, Write_buf, Imm 0x8a], Count,
    Syscall NR_write [Reg 0, Write_buf, Imm 0x8a], Count, Syscall NR_write [Reg 0, Write_buf, Imm 0x8a], Count,
    Syscall NR_write [Reg 0, Write_buf, Imm 0x8a], Count, Syscall NR_write [Reg 0, Write_buf, Imm 0x8a], Count,
    Syscall NR_write [Reg 0, Write_buf, Imm 0x8a], Count, Syscall NR_write [Reg 0, Write_buf, Imm 0x8a], Count,
    Syscall NR_write [Reg 0, Write_buf, Imm 0x8a], Count, Syscall NR_write [Reg 0, Write_buf, Imm 0x8a], Count]"

definition min_rocks_write_fcntl_0_0_body261 :: "stmt list" where
  "min_rocks_write_fcntl_0_0_body261 = [
    Syscall NR_write [Reg 0, Write_buf, Imm 0x8a], Count, Syscall NR_write [Reg 0, Write_buf, Imm 0x8a], Count,
    Syscall NR_write [Reg 0, Write_buf, Imm 0x8a], Count, Syscall NR_write [Reg 0, Write_buf, Imm 0x8a], Count,
    Syscall NR_write [Reg 0, Write_buf, Imm 0x8a], Count, Syscall NR_write [Reg 0, Write_buf, Imm 0x8a], Count,
    Syscall NR_write [Reg 0, Write_buf, Imm 0x8a], Count, Syscall NR_write [Reg 0, Write_buf, Imm 0x8a], Count,
    Syscall NR_write [Reg 0, Write_buf, Imm 0x8a], Count, Syscall NR_write [Reg 0, Write_buf, Imm 0x8a], Count,
    Syscall NR_write [Reg 0, Write_buf, Imm 0x8a], Count, Syscall NR_write [Reg 0, Write_buf, Imm 0x8a], Count,
    Syscall NR_write [Reg 0, Write_buf, Imm 0x8a], Count, Syscall NR_write [Reg 0, Write_buf, Imm 0x8a], Count]"

definition min_rocks_write_fcntl_0_0_body262 :: "stmt list" where
  "min_rocks_write_fcntl_0_0_body262 = [
    Syscall NR_write [Reg 0, Write_buf, Imm 0x8a], Count, Syscall NR_write [Reg 0, Write_buf, Imm 0x8a], Count,
    Syscall NR_write [Reg 0, Write_buf, Imm 0x8a], Count, Syscall NR_write [Reg 0, Write_buf, Imm 0x8a], Count,
    Syscall NR_write [Reg 0, Write_buf, Imm 0x8a], Count, Syscall NR_write [Reg 0, Write_buf, Imm 0x8a], Count,
    Syscall NR_write [Reg 0, Write_buf, Imm 0x8a], Count, Syscall NR_write [Reg 0, Write_buf, Imm 0x8a], Count,
    Syscall NR_write [Reg 0, Write_buf, Imm 0x8a], Count, Syscall NR_write [Reg 0, Write_buf, Imm 0x8a], Count,
    Syscall NR_write [Reg 0, Write_buf, Imm 0x8a], Count, Syscall NR_write [Reg 0, Write_buf, Imm 0x8a], Count,
    Syscall NR_write [Reg 0, Write_buf, Imm 0x8a], Count, Syscall NR_write [Reg 0, Write_buf, Imm 0x8a], Count]"

definition min_rocks_write_fcntl_0_0_body263 :: "stmt list" where
  "min_rocks_write_fcntl_0_0_body263 = [
    Syscall NR_write [Reg 0, Write_buf, Imm 0x8a], Count, Syscall NR_write [Reg 0, Write_buf, Imm 0x8a], Count,
    Syscall NR_write [Reg 0, Write_buf, Imm 0x8a], Count, Syscall NR_write [Reg 0, Write_buf, Imm 0x8a], Count,
    Syscall NR_write [Reg 0, Write_buf, Imm 0x8a], Count, Syscall NR_write [Reg 0, Write_buf, Imm 0x8a], Count,
    Syscall NR_write [Reg 0, Write_buf, Imm 0x8a], Count, Syscall NR_write [Reg 0, Write_buf, Imm 0x8a], Count,
    Syscall NR_write [Reg 0, Write_buf, Imm 0x8a], Count, Syscall NR_write [Reg 0, Write_buf, Imm 0x8a], Count,
    Syscall NR_write [Reg 0, Write_buf, Imm 0x8a], Count, Syscall NR_write [Reg 0, Write_buf, Imm 0x8a], Count,
    Syscall NR_write [Reg 0, Write_buf, Imm 0x8a], Count, Syscall NR_write [Reg 0, Write_buf, Imm 0x8a], Count]"

definition min_rocks_write_fcntl_0_0_body264 :: "stmt list" where
  "min_rocks_write_fcntl_0_0_body264 = [
    Syscall NR_write [Reg 0, Write_buf, Imm 0x8a], Count, Syscall NR_write [Reg 0, Write_buf, Imm 0x8a], Count,
    Syscall NR_write [Reg 0, Write_buf, Imm 0x8a], Count, Syscall NR_write [Reg 0, Write_buf, Imm 0x8a], Count,
    Syscall NR_write [Reg 0, Write_buf, Imm 0x8a], Count, Syscall NR_write [Reg 0, Write_buf, Imm 0x8a], Count,
    Syscall NR_write [Reg 0, Write_buf, Imm 0x8a], Count, Syscall NR_write [Reg 0, Write_buf, Imm 0x8a], Count,
    Syscall NR_write [Reg 0, Write_buf, Imm 0x8a], Count, Syscall NR_write [Reg 0, Write_buf, Imm 0x8a], Count,
    Syscall NR_write [Reg 0, Write_buf, Imm 0x8a], Count, Syscall NR_write [Reg 0, Write_buf, Imm 0x8a], Count,
    Syscall NR_write [Reg 0, Write_buf, Imm 0x8a], Count, Syscall NR_write [Reg 0, Write_buf, Imm 0x8a], Count]"

definition min_rocks_write_fcntl_0_0_body265 :: "stmt list" where
  "min_rocks_write_fcntl_0_0_body265 = [
    Syscall NR_write [Reg 0, Write_buf, Imm 0x8a], Count, Syscall NR_write [Reg 0, Write_buf, Imm 0x8a], Count,
    Syscall NR_write [Reg 0, Write_buf, Imm 0x8a], Count, Syscall NR_write [Reg 0, Write_buf, Imm 0x8a], Count,
    Syscall NR_write [Reg 0, Write_buf, Imm 0x8a], Count, Syscall NR_write [Reg 0, Write_buf, Imm 0x8a], Count,
    Syscall NR_write [Reg 0, Write_buf, Imm 0x8a], Count, Syscall NR_write [Reg 0, Write_buf, Imm 0x8a], Count,
    Syscall NR_write [Reg 0, Write_buf, Imm 0x8a], Count, Syscall NR_write [Reg 0, Write_buf, Imm 0x8a], Count,
    Syscall NR_write [Reg 0, Write_buf, Imm 0x8a], Count, Syscall NR_write [Reg 0, Write_buf, Imm 0x8a], Count,
    Syscall NR_write [Reg 0, Write_buf, Imm 0x8a], Count, Syscall NR_write [Reg 0, Write_buf, Imm 0x8a], Count]"

definition min_rocks_write_fcntl_0_0_body266 :: "stmt list" where
  "min_rocks_write_fcntl_0_0_body266 = [
    Syscall NR_write [Reg 0, Write_buf, Imm 0x8a], Count, Syscall NR_write [Reg 0, Write_buf, Imm 0x8a], Count,
    Syscall NR_write [Reg 0, Write_buf, Imm 0x8a], Count, Syscall NR_write [Reg 0, Write_buf, Imm 0x8a], Count,
    Syscall NR_write [Reg 0, Write_buf, Imm 0x8a], Count, Syscall NR_write [Reg 0, Write_buf, Imm 0x8a], Count,
    Syscall NR_write [Reg 0, Write_buf, Imm 0x8a], Count, Syscall NR_write [Reg 0, Write_buf, Imm 0x8a], Count,
    Syscall NR_write [Reg 0, Write_buf, Imm 0x8a], Count, Syscall NR_write [Reg 0, Write_buf, Imm 0x8a], Count,
    Syscall NR_write [Reg 0, Write_buf, Imm 0x8a], Count, Syscall NR_write [Reg 0, Write_buf, Imm 0x8a], Count,
    Syscall NR_write [Reg 0, Write_buf, Imm 0x8a], Count, Syscall NR_write [Reg 0, Write_buf, Imm 0x8a], Count]"

definition min_rocks_write_fcntl_0_0_body267 :: "stmt list" where
  "min_rocks_write_fcntl_0_0_body267 = [
    Syscall NR_write [Reg 0, Write_buf, Imm 0x8a], Count, Syscall NR_write [Reg 0, Write_buf, Imm 0x8a], Count,
    Syscall NR_write [Reg 0, Write_buf, Imm 0x8a], Count, Syscall NR_write [Reg 0, Write_buf, Imm 0x8a], Count,
    Syscall NR_write [Reg 0, Write_buf, Imm 0x8a], Count, Syscall NR_write [Reg 0, Write_buf, Imm 0x8a], Count,
    Syscall NR_write [Reg 0, Write_buf, Imm 0x8a], Count, Syscall NR_write [Reg 0, Write_buf, Imm 0x8a], Count,
    Syscall NR_write [Reg 0, Write_buf, Imm 0x8a], Count, Syscall NR_write [Reg 0, Write_buf, Imm 0x8a], Count,
    Syscall NR_write [Reg 0, Write_buf, Imm 0x8a], Count, Syscall NR_write [Reg 0, Write_buf, Imm 0x8a], Count,
    Syscall NR_write [Reg 0, Write_buf, Imm 0x8a], Count, Syscall NR_write [Reg 0, Write_buf, Imm 0x8a], Count]"

definition min_rocks_write_fcntl_0_0_body268 :: "stmt list" where
  "min_rocks_write_fcntl_0_0_body268 = [
    Syscall NR_write [Reg 0, Write_buf, Imm 0x8a], Count, Syscall NR_write [Reg 0, Write_buf, Imm 0x8a], Count,
    Syscall NR_write [Reg 0, Write_buf, Imm 0x8a], Count, Syscall NR_write [Reg 0, Write_buf, Imm 0x8a], Count,
    Syscall NR_write [Reg 0, Write_buf, Imm 0x8a], Count, Syscall NR_write [Reg 0, Write_buf, Imm 0x8a], Count,
    Syscall NR_write [Reg 0, Write_buf, Imm 0x8a], Count, Syscall NR_write [Reg 0, Write_buf, Imm 0x8a], Count,
    Syscall NR_write [Reg 0, Write_buf, Imm 0x8a], Count, Syscall NR_write [Reg 0, Write_buf, Imm 0x8a], Count,
    Syscall NR_write [Reg 0, Write_buf, Imm 0x8a], Count, Syscall NR_write [Reg 0, Write_buf, Imm 0x8a], Count,
    Syscall NR_write [Reg 0, Write_buf, Imm 0x8a], Count, Syscall NR_write [Reg 0, Write_buf, Imm 0x8a], Count]"

definition min_rocks_write_fcntl_0_0_body269 :: "stmt list" where
  "min_rocks_write_fcntl_0_0_body269 = [
    Syscall NR_write [Reg 0, Write_buf, Imm 0x8a], Count, Syscall NR_write [Reg 0, Write_buf, Imm 0x8a], Count,
    Syscall NR_write [Reg 0, Write_buf, Imm 0x8a], Count, Syscall NR_write [Reg 0, Write_buf, Imm 0x8a], Count,
    Syscall NR_write [Reg 0, Write_buf, Imm 0x8a], Count, Syscall NR_write [Reg 0, Write_buf, Imm 0x8a], Count,
    Syscall NR_write [Reg 0, Write_buf, Imm 0x8a], Count, Syscall NR_write [Reg 0, Write_buf, Imm 0x8a], Count,
    Syscall NR_write [Reg 0, Write_buf, Imm 0x8a], Count, Syscall NR_write [Reg 0, Write_buf, Imm 0x8a], Count,
    Syscall NR_write [Reg 0, Write_buf, Imm 0x8a], Count, Syscall NR_write [Reg 0, Write_buf, Imm 0x8a], Count,
    Syscall NR_write [Reg 0, Write_buf, Imm 0x8a], Count, Syscall NR_write [Reg 0, Write_buf, Imm 0x8a], Count]"

definition min_rocks_write_fcntl_0_0_body270 :: "stmt list" where
  "min_rocks_write_fcntl_0_0_body270 = [
    Syscall NR_write [Reg 0, Write_buf, Imm 0x8a], Count, Syscall NR_write [Reg 0, Write_buf, Imm 0x8a], Count,
    Syscall NR_write [Reg 0, Write_buf, Imm 0x8a], Count, Syscall NR_write [Reg 0, Write_buf, Imm 0x8a], Count,
    Syscall NR_write [Reg 0, Write_buf, Imm 0x8a], Count, Syscall NR_write [Reg 0, Write_buf, Imm 0x8a], Count,
    Syscall NR_write [Reg 0, Write_buf, Imm 0x8a], Count, Syscall NR_write [Reg 0, Write_buf, Imm 0x8a], Count,
    Syscall NR_write [Reg 0, Write_buf, Imm 0x8a], Count, Syscall NR_write [Reg 0, Write_buf, Imm 0x8a], Count,
    Syscall NR_write [Reg 0, Write_buf, Imm 0x8a], Count, Syscall NR_write [Reg 0, Write_buf, Imm 0x8a], Count,
    Syscall NR_write [Reg 0, Write_buf, Imm 0x8a], Count, Syscall NR_write [Reg 0, Write_buf, Imm 0x8a], Count]"

definition min_rocks_write_fcntl_0_0_body271 :: "stmt list" where
  "min_rocks_write_fcntl_0_0_body271 = [
    Syscall NR_write [Reg 0, Write_buf, Imm 0x8a], Count, Syscall NR_write [Reg 0, Write_buf, Imm 0x8a], Count,
    Syscall NR_write [Reg 0, Write_buf, Imm 0x8a], Count, Syscall NR_write [Reg 0, Write_buf, Imm 0x8a], Count,
    Syscall NR_write [Reg 0, Write_buf, Imm 0x8a], Count, Syscall NR_write [Reg 0, Write_buf, Imm 0x8a], Count,
    Syscall NR_write [Reg 0, Write_buf, Imm 0x8a], Count, Syscall NR_write [Reg 0, Write_buf, Imm 0x8a], Count,
    Syscall NR_write [Reg 0, Write_buf, Imm 0x8a], Count, Syscall NR_write [Reg 0, Write_buf, Imm 0x8a], Count,
    Syscall NR_write [Reg 0, Write_buf, Imm 0x91], Count, Syscall NR_write [Reg 0, Write_buf, Imm 0x8a], Count,
    Syscall NR_write [Reg 0, Write_buf, Imm 0x8a], Count, Syscall NR_write [Reg 0, Write_buf, Imm 0x8a], Count]"

definition min_rocks_write_fcntl_0_0_body272 :: "stmt list" where
  "min_rocks_write_fcntl_0_0_body272 = [
    Syscall NR_write [Reg 0, Write_buf, Imm 0x8a], Count, Syscall NR_write [Reg 0, Write_buf, Imm 0x8a], Count,
    Syscall NR_write [Reg 0, Write_buf, Imm 0x8a], Count, Syscall NR_write [Reg 0, Write_buf, Imm 0x8a], Count,
    Syscall NR_write [Reg 0, Write_buf, Imm 0x8a], Count, Syscall NR_write [Reg 0, Write_buf, Imm 0x8a], Count,
    Syscall NR_write [Reg 0, Write_buf, Imm 0x8a], Count, Syscall NR_write [Reg 0, Write_buf, Imm 0x8a], Count,
    Syscall NR_write [Reg 0, Write_buf, Imm 0x8a], Count, Syscall NR_write [Reg 0, Write_buf, Imm 0x8a], Count,
    Syscall NR_write [Reg 0, Write_buf, Imm 0x8a], Count, Syscall NR_write [Reg 0, Write_buf, Imm 0x8a], Count,
    Syscall NR_write [Reg 0, Write_buf, Imm 0x8a], Count, Syscall NR_write [Reg 0, Write_buf, Imm 0x8a], Count]"

definition min_rocks_write_fcntl_0_0_body273 :: "stmt list" where
  "min_rocks_write_fcntl_0_0_body273 = [
    Syscall NR_write [Reg 0, Write_buf, Imm 0x8a], Count, Syscall NR_write [Reg 0, Write_buf, Imm 0x8a], Count,
    Syscall NR_write [Reg 0, Write_buf, Imm 0x8a], Count, Syscall NR_write [Reg 0, Write_buf, Imm 0x8a], Count,
    Syscall NR_write [Reg 0, Write_buf, Imm 0x8a], Count, Syscall NR_write [Reg 0, Write_buf, Imm 0x8a], Count,
    Syscall NR_write [Reg 0, Write_buf, Imm 0x8a], Count, Syscall NR_write [Reg 0, Write_buf, Imm 0x8a], Count,
    Syscall NR_write [Reg 0, Write_buf, Imm 0x8a], Count, Syscall NR_write [Reg 0, Write_buf, Imm 0x8a], Count,
    Syscall NR_write [Reg 0, Write_buf, Imm 0x8a], Count, Syscall NR_write [Reg 0, Write_buf, Imm 0x8a], Count,
    Syscall NR_write [Reg 0, Write_buf, Imm 0x8a], Count, Syscall NR_write [Reg 0, Write_buf, Imm 0x8a], Count]"

definition min_rocks_write_fcntl_0_0_body274 :: "stmt list" where
  "min_rocks_write_fcntl_0_0_body274 = [
    Syscall NR_write [Reg 0, Write_buf, Imm 0x8a], Count, Syscall NR_write [Reg 0, Write_buf, Imm 0x8a], Count,
    Syscall NR_write [Reg 0, Write_buf, Imm 0x8a], Count, Syscall NR_write [Reg 0, Write_buf, Imm 0x8a], Count,
    Syscall NR_write [Reg 0, Write_buf, Imm 0x8a], Count, Syscall NR_write [Reg 0, Write_buf, Imm 0x8a], Count,
    Syscall NR_write [Reg 0, Write_buf, Imm 0x8a], Count, Syscall NR_write [Reg 0, Write_buf, Imm 0x8a], Count,
    Syscall NR_write [Reg 0, Write_buf, Imm 0x8a], Count, Syscall NR_write [Reg 0, Write_buf, Imm 0x8a], Count,
    Syscall NR_write [Reg 0, Write_buf, Imm 0x8a], Count, Syscall NR_write [Reg 0, Write_buf, Imm 0x8a], Count,
    Syscall NR_write [Reg 0, Write_buf, Imm 0x8a], Count, Syscall NR_write [Reg 0, Write_buf, Imm 0x8a], Count]"

definition min_rocks_write_fcntl_0_0_body275 :: "stmt list" where
  "min_rocks_write_fcntl_0_0_body275 = [
    Syscall NR_write [Reg 0, Write_buf, Imm 0x8a], Count, Syscall NR_write [Reg 0, Write_buf, Imm 0x8a], Count,
    Syscall NR_write [Reg 0, Write_buf, Imm 0x8a], Count, Syscall NR_write [Reg 0, Write_buf, Imm 0x8a], Count,
    Syscall NR_write [Reg 0, Write_buf, Imm 0x8a], Count, Syscall NR_write [Reg 0, Write_buf, Imm 0x8a], Count,
    Syscall NR_write [Reg 0, Write_buf, Imm 0x8a], Count, Syscall NR_write [Reg 0, Write_buf, Imm 0x8a], Count,
    Syscall NR_write [Reg 0, Write_buf, Imm 0x8a], Count, Syscall NR_write [Reg 0, Write_buf, Imm 0x8a], Count,
    Syscall NR_write [Reg 0, Write_buf, Imm 0x8a], Count, Syscall NR_write [Reg 0, Write_buf, Imm 0x8a], Count,
    Syscall NR_write [Reg 0, Write_buf, Imm 0x8a], Count, Syscall NR_write [Reg 0, Write_buf, Imm 0x8a], Count]"

definition min_rocks_write_fcntl_0_0_body276 :: "stmt list" where
  "min_rocks_write_fcntl_0_0_body276 = [
    Syscall NR_write [Reg 0, Write_buf, Imm 0x8a], Count, Syscall NR_write [Reg 0, Write_buf, Imm 0x8a], Count,
    Syscall NR_write [Reg 0, Write_buf, Imm 0x8a], Count, Syscall NR_write [Reg 0, Write_buf, Imm 0x8a], Count,
    Syscall NR_write [Reg 0, Write_buf, Imm 0x8a], Count, Syscall NR_write [Reg 0, Write_buf, Imm 0x8a], Count,
    Syscall NR_write [Reg 0, Write_buf, Imm 0x8a], Count, Syscall NR_write [Reg 0, Write_buf, Imm 0x8a], Count,
    Syscall NR_write [Reg 0, Write_buf, Imm 0x8a], Count, Syscall NR_write [Reg 0, Write_buf, Imm 0x8a], Count,
    Syscall NR_write [Reg 0, Write_buf, Imm 0x8a], Count, Syscall NR_write [Reg 0, Write_buf, Imm 0x8a], Count,
    Syscall NR_write [Reg 0, Write_buf, Imm 0x8a], Count, Syscall NR_write [Reg 0, Write_buf, Imm 0x8a], Count]"

definition min_rocks_write_fcntl_0_0_body277 :: "stmt list" where
  "min_rocks_write_fcntl_0_0_body277 = [
    Syscall NR_write [Reg 0, Write_buf, Imm 0x8a], Count, Syscall NR_write [Reg 0, Write_buf, Imm 0x8a], Count,
    Syscall NR_write [Reg 0, Write_buf, Imm 0x8a], Count, Syscall NR_write [Reg 0, Write_buf, Imm 0x8a], Count,
    Syscall NR_write [Reg 0, Write_buf, Imm 0x8a], Count, Syscall NR_write [Reg 0, Write_buf, Imm 0x8a], Count,
    Syscall NR_write [Reg 0, Write_buf, Imm 0x8a], Count, Syscall NR_write [Reg 0, Write_buf, Imm 0x8a], Count,
    Syscall NR_write [Reg 0, Write_buf, Imm 0x8a], Count, Syscall NR_write [Reg 0, Write_buf, Imm 0x8a], Count,
    Syscall NR_write [Reg 0, Write_buf, Imm 0x8a], Count, Syscall NR_write [Reg 0, Write_buf, Imm 0x8a], Count,
    Syscall NR_write [Reg 0, Write_buf, Imm 0x8a], Count, Syscall NR_write [Reg 0, Write_buf, Imm 0x8a], Count]"

definition min_rocks_write_fcntl_0_0_body278 :: "stmt list" where
  "min_rocks_write_fcntl_0_0_body278 = [
    Syscall NR_write [Reg 0, Write_buf, Imm 0x8a], Count, Syscall NR_write [Reg 0, Write_buf, Imm 0x8a], Count,
    Syscall NR_write [Reg 0, Write_buf, Imm 0x8a], Count, Syscall NR_write [Reg 0, Write_buf, Imm 0x8a], Count,
    Syscall NR_write [Reg 0, Write_buf, Imm 0x8a], Count, Syscall NR_write [Reg 0, Write_buf, Imm 0x8a], Count,
    Syscall NR_write [Reg 0, Write_buf, Imm 0x8a], Count, Syscall NR_write [Reg 0, Write_buf, Imm 0x8a], Count,
    Syscall NR_write [Reg 0, Write_buf, Imm 0x8a], Count, Syscall NR_write [Reg 0, Write_buf, Imm 0x8a], Count,
    Syscall NR_write [Reg 0, Write_buf, Imm 0x8a], Count, Syscall NR_write [Reg 0, Write_buf, Imm 0x8a], Count,
    Syscall NR_write [Reg 0, Write_buf, Imm 0x8a], Count, Syscall NR_write [Reg 0, Write_buf, Imm 0x8a], Count]"

definition min_rocks_write_fcntl_0_0_body279 :: "stmt list" where
  "min_rocks_write_fcntl_0_0_body279 = [
    Syscall NR_write [Reg 0, Write_buf, Imm 0x8a], Count, Syscall NR_write [Reg 0, Write_buf, Imm 0x8a], Count,
    Syscall NR_write [Reg 0, Write_buf, Imm 0x8a], Count, Syscall NR_write [Reg 0, Write_buf, Imm 0x8a], Count,
    Syscall NR_write [Reg 0, Write_buf, Imm 0x8a], Count, Syscall NR_write [Reg 0, Write_buf, Imm 0x8a], Count,
    Syscall NR_write [Reg 0, Write_buf, Imm 0x8a], Count, Syscall NR_write [Reg 0, Write_buf, Imm 0x8a], Count,
    Syscall NR_write [Reg 0, Write_buf, Imm 0x8a], Count, Syscall NR_write [Reg 0, Write_buf, Imm 0x8a], Count,
    Syscall NR_write [Reg 0, Write_buf, Imm 0x8a], Count, Syscall NR_write [Reg 0, Write_buf, Imm 0x8a], Count,
    Syscall NR_write [Reg 0, Write_buf, Imm 0x8a], Count, Syscall NR_write [Reg 0, Write_buf, Imm 0x8a], Count]"

definition min_rocks_write_fcntl_0_0_body280 :: "stmt list" where
  "min_rocks_write_fcntl_0_0_body280 = [
    Syscall NR_write [Reg 0, Write_buf, Imm 0x8a], Count, Syscall NR_write [Reg 0, Write_buf, Imm 0x8a], Count,
    Syscall NR_write [Reg 0, Write_buf, Imm 0x8a], Count, Syscall NR_write [Reg 0, Write_buf, Imm 0x8a], Count,
    Syscall NR_write [Reg 0, Write_buf, Imm 0x8a], Count, Syscall NR_write [Reg 0, Write_buf, Imm 0x8a], Count,
    Syscall NR_write [Reg 0, Write_buf, Imm 0x8a], Count, Syscall NR_write [Reg 0, Write_buf, Imm 0x8a], Count,
    Syscall NR_write [Reg 0, Write_buf, Imm 0x8a], Count, Syscall NR_write [Reg 0, Write_buf, Imm 0x8a], Count,
    Syscall NR_write [Reg 0, Write_buf, Imm 0x8a], Count, Syscall NR_write [Reg 0, Write_buf, Imm 0x8a], Count,
    Syscall NR_write [Reg 0, Write_buf, Imm 0x8a], Count, Syscall NR_write [Reg 0, Write_buf, Imm 0x8a], Count]"

definition min_rocks_write_fcntl_0_0_body281 :: "stmt list" where
  "min_rocks_write_fcntl_0_0_body281 = [
    Syscall NR_write [Reg 0, Write_buf, Imm 0x8a], Count, Syscall NR_write [Reg 0, Write_buf, Imm 0x8a], Count,
    Syscall NR_write [Reg 0, Write_buf, Imm 0x8a], Count, Syscall NR_write [Reg 0, Write_buf, Imm 0x8a], Count,
    Syscall NR_write [Reg 0, Write_buf, Imm 0x8a], Count, Syscall NR_write [Reg 0, Write_buf, Imm 0x8a], Count,
    Syscall NR_write [Reg 0, Write_buf, Imm 0x8a], Count, Syscall NR_write [Reg 0, Write_buf, Imm 0x8a], Count,
    Syscall NR_write [Reg 0, Write_buf, Imm 0x8a], Count, Syscall NR_write [Reg 0, Write_buf, Imm 0x8a], Count,
    Syscall NR_write [Reg 0, Write_buf, Imm 0x8a], Count, Syscall NR_write [Reg 0, Write_buf, Imm 0x8a], Count,
    Syscall NR_write [Reg 0, Write_buf, Imm 0x8a], Count, Syscall NR_write [Reg 0, Write_buf, Imm 0x8a], Count]"

definition min_rocks_write_fcntl_0_0_body282 :: "stmt list" where
  "min_rocks_write_fcntl_0_0_body282 = [
    Syscall NR_write [Reg 0, Write_buf, Imm 0x8a], Count, Syscall NR_write [Reg 0, Write_buf, Imm 0x8a], Count,
    Syscall NR_write [Reg 0, Write_buf, Imm 0x8a], Count, Syscall NR_write [Reg 0, Write_buf, Imm 0x8a], Count,
    Syscall NR_write [Reg 0, Write_buf, Imm 0x8a], Count, Syscall NR_write [Reg 0, Write_buf, Imm 0x8a], Count,
    Syscall NR_write [Reg 0, Write_buf, Imm 0x8a], Count, Syscall NR_write [Reg 0, Write_buf, Imm 0x8a], Count,
    Syscall NR_write [Reg 0, Write_buf, Imm 0x8a], Count, Syscall NR_write [Reg 0, Write_buf, Imm 0x8a], Count,
    Syscall NR_write [Reg 0, Write_buf, Imm 0x8a], Count, Syscall NR_write [Reg 0, Write_buf, Imm 0x8a], Count,
    Syscall NR_write [Reg 0, Write_buf, Imm 0x8a], Count, Syscall NR_write [Reg 0, Write_buf, Imm 0x8a], Count]"

definition min_rocks_write_fcntl_0_0_body283 :: "stmt list" where
  "min_rocks_write_fcntl_0_0_body283 = [
    Syscall NR_write [Reg 0, Write_buf, Imm 0x8a], Count, Syscall NR_write [Reg 0, Write_buf, Imm 0x8a], Count,
    Syscall NR_write [Reg 0, Write_buf, Imm 0x8a], Count, Syscall NR_write [Reg 0, Write_buf, Imm 0x8a], Count,
    Syscall NR_write [Reg 0, Write_buf, Imm 0x8a], Count, Syscall NR_write [Reg 0, Write_buf, Imm 0x8a], Count,
    Syscall NR_write [Reg 0, Write_buf, Imm 0x8a], Count, Syscall NR_write [Reg 0, Write_buf, Imm 0x8a], Count,
    Syscall NR_write [Reg 0, Write_buf, Imm 0x8a], Count, Syscall NR_write [Reg 0, Write_buf, Imm 0x8a], Count,
    Syscall NR_write [Reg 0, Write_buf, Imm 0x8a], Count, Syscall NR_write [Reg 0, Write_buf, Imm 0x8a], Count,
    Syscall NR_write [Reg 0, Write_buf, Imm 0x8a], Count, Syscall NR_write [Reg 0, Write_buf, Imm 0x8a], Count]"

definition min_rocks_write_fcntl_0_0_body284 :: "stmt list" where
  "min_rocks_write_fcntl_0_0_body284 = [
    Syscall NR_write [Reg 0, Write_buf, Imm 0x8a], Count, Syscall NR_write [Reg 0, Write_buf, Imm 0x8a], Count,
    Syscall NR_write [Reg 0, Write_buf, Imm 0x8a], Count, Syscall NR_write [Reg 0, Write_buf, Imm 0x8a], Count,
    Syscall NR_write [Reg 0, Write_buf, Imm 0x8a], Count, Syscall NR_write [Reg 0, Write_buf, Imm 0x8a], Count,
    Syscall NR_write [Reg 0, Write_buf, Imm 0x8a], Count, Syscall NR_write [Reg 0, Write_buf, Imm 0x8a], Count,
    Syscall NR_write [Reg 0, Write_buf, Imm 0x8a], Count, Syscall NR_write [Reg 0, Write_buf, Imm 0x8a], Count,
    Syscall NR_write [Reg 0, Write_buf, Imm 0x8a], Count, Syscall NR_write [Reg 0, Write_buf, Imm 0x8a], Count,
    Syscall NR_write [Reg 0, Write_buf, Imm 0x8a], Count, Syscall NR_write [Reg 0, Write_buf, Imm 0x8a], Count]"

definition min_rocks_write_fcntl_0_0_body285 :: "stmt list" where
  "min_rocks_write_fcntl_0_0_body285 = [
    Syscall NR_write [Reg 0, Write_buf, Imm 0x8a], Count, Syscall NR_write [Reg 0, Write_buf, Imm 0x8a], Count,
    Syscall NR_write [Reg 0, Write_buf, Imm 0x8a], Count, Syscall NR_write [Reg 0, Write_buf, Imm 0x8a], Count,
    Syscall NR_write [Reg 0, Write_buf, Imm 0x8a], Count, Syscall NR_write [Reg 0, Write_buf, Imm 0x8a], Count,
    Syscall NR_write [Reg 0, Write_buf, Imm 0x8a], Count, Syscall NR_write [Reg 0, Write_buf, Imm 0x8a], Count,
    Syscall NR_write [Reg 0, Write_buf, Imm 0x8a], Count, Syscall NR_write [Reg 0, Write_buf, Imm 0x8a], Count,
    Syscall NR_write [Reg 0, Write_buf, Imm 0x8a], Count, Syscall NR_write [Reg 0, Write_buf, Imm 0x8a], Count,
    Syscall NR_write [Reg 0, Write_buf, Imm 0x8a], Count, Syscall NR_write [Reg 0, Write_buf, Imm 0x8a], Count]"

definition min_rocks_write_fcntl_0_0_body286 :: "stmt list" where
  "min_rocks_write_fcntl_0_0_body286 = [
    Syscall NR_write [Reg 0, Write_buf, Imm 0x8a], Count, Syscall NR_write [Reg 0, Write_buf, Imm 0x8a], Count,
    Syscall NR_write [Reg 0, Write_buf, Imm 0x8a], Count, Syscall NR_write [Reg 0, Write_buf, Imm 0x8a], Count,
    Syscall NR_write [Reg 0, Write_buf, Imm 0x8a], Count, Syscall NR_write [Reg 0, Write_buf, Imm 0x8a], Count,
    Syscall NR_write [Reg 0, Write_buf, Imm 0x8a], Count, Syscall NR_write [Reg 0, Write_buf, Imm 0x8a], Count,
    Syscall NR_write [Reg 0, Write_buf, Imm 0x8a], Count, Syscall NR_write [Reg 0, Write_buf, Imm 0x8a], Count,
    Syscall NR_write [Reg 0, Write_buf, Imm 0x8a], Count, Syscall NR_write [Reg 0, Write_buf, Imm 0x8a], Count,
    Syscall NR_write [Reg 0, Write_buf, Imm 0x8a], Count, Syscall NR_write [Reg 0, Write_buf, Imm 0x8a], Count]"

definition min_rocks_write_fcntl_0_0_body287 :: "stmt list" where
  "min_rocks_write_fcntl_0_0_body287 = [
    Syscall NR_write [Reg 0, Write_buf, Imm 0x8a], Count, Syscall NR_write [Reg 0, Write_buf, Imm 0x8a], Count,
    Syscall NR_write [Reg 0, Write_buf, Imm 0x8a], Count, Syscall NR_write [Reg 0, Write_buf, Imm 0x8a], Count,
    Syscall NR_write [Reg 0, Write_buf, Imm 0x8a], Count, Syscall NR_write [Reg 0, Write_buf, Imm 0x8a], Count,
    Syscall NR_write [Reg 0, Write_buf, Imm 0x8a], Count, Syscall NR_write [Reg 0, Write_buf, Imm 0x8a], Count,
    Syscall NR_write [Reg 0, Write_buf, Imm 0x8a], Count, Syscall NR_write [Reg 0, Write_buf, Imm 0x8a], Count,
    Syscall NR_write [Reg 0, Write_buf, Imm 0x8a], Count, Syscall NR_write [Reg 0, Write_buf, Imm 0x8a], Count,
    Syscall NR_write [Reg 0, Write_buf, Imm 0x8a], Count, Syscall NR_write [Reg 0, Write_buf, Imm 0x8a], Count]"

definition min_rocks_write_fcntl_0_0_body288 :: "stmt list" where
  "min_rocks_write_fcntl_0_0_body288 = [
    Syscall NR_write [Reg 0, Write_buf, Imm 0x8a], Count, Syscall NR_write [Reg 0, Write_buf, Imm 0x8a], Count,
    Syscall NR_write [Reg 0, Write_buf, Imm 0x8a], Count, Syscall NR_write [Reg 0, Write_buf, Imm 0x8a], Count,
    Syscall NR_write [Reg 0, Write_buf, Imm 0x8a], Count, Syscall NR_write [Reg 0, Write_buf, Imm 0x8a], Count,
    Syscall NR_write [Reg 0, Write_buf, Imm 0x8a], Count, Syscall NR_write [Reg 0, Write_buf, Imm 0x8a], Count,
    Syscall NR_write [Reg 0, Write_buf, Imm 0x8a], Count, Syscall NR_write [Reg 0, Write_buf, Imm 0x8a], Count,
    Syscall NR_write [Reg 0, Write_buf, Imm 0x90], Count, Syscall NR_write [Reg 0, Write_buf, Imm 0x8a], Count,
    Syscall NR_write [Reg 0, Write_buf, Imm 0x8a], Count, Syscall NR_write [Reg 0, Write_buf, Imm 0x8a], Count]"

definition min_rocks_write_fcntl_0_0_body289 :: "stmt list" where
  "min_rocks_write_fcntl_0_0_body289 = [
    Syscall NR_write [Reg 0, Write_buf, Imm 0x8a], Count, Syscall NR_write [Reg 0, Write_buf, Imm 0x8a], Count,
    Syscall NR_write [Reg 0, Write_buf, Imm 0x8a], Count, Syscall NR_write [Reg 0, Write_buf, Imm 0x8a], Count,
    Syscall NR_write [Reg 0, Write_buf, Imm 0x8a], Count, Syscall NR_write [Reg 0, Write_buf, Imm 0x8a], Count,
    Syscall NR_write [Reg 0, Write_buf, Imm 0x8a], Count, Syscall NR_write [Reg 0, Write_buf, Imm 0x8a], Count,
    Syscall NR_write [Reg 0, Write_buf, Imm 0x8a], Count, Syscall NR_write [Reg 0, Write_buf, Imm 0x8a], Count,
    Syscall NR_write [Reg 0, Write_buf, Imm 0x8a], Count, Syscall NR_write [Reg 0, Write_buf, Imm 0x8a], Count,
    Syscall NR_write [Reg 0, Write_buf, Imm 0x8a], Count, Syscall NR_write [Reg 0, Write_buf, Imm 0x8a], Count]"

definition min_rocks_write_fcntl_0_0_body290 :: "stmt list" where
  "min_rocks_write_fcntl_0_0_body290 = [
    Syscall NR_write [Reg 0, Write_buf, Imm 0x8a], Count, Syscall NR_write [Reg 0, Write_buf, Imm 0x8a], Count,
    Syscall NR_write [Reg 0, Write_buf, Imm 0x8a], Count, Syscall NR_write [Reg 0, Write_buf, Imm 0x8a], Count,
    Syscall NR_write [Reg 0, Write_buf, Imm 0x8a], Count, Syscall NR_write [Reg 0, Write_buf, Imm 0x8a], Count,
    Syscall NR_write [Reg 0, Write_buf, Imm 0x8a], Count, Syscall NR_write [Reg 0, Write_buf, Imm 0x8a], Count,
    Syscall NR_write [Reg 0, Write_buf, Imm 0x8a], Count, Syscall NR_write [Reg 0, Write_buf, Imm 0x8a], Count,
    Syscall NR_write [Reg 0, Write_buf, Imm 0x8a], Count, Syscall NR_write [Reg 0, Write_buf, Imm 0x8a], Count,
    Syscall NR_write [Reg 0, Write_buf, Imm 0x8a], Count, Syscall NR_write [Reg 0, Write_buf, Imm 0x8a], Count]"

definition min_rocks_write_fcntl_0_0_body291 :: "stmt list" where
  "min_rocks_write_fcntl_0_0_body291 = [
    Syscall NR_write [Reg 0, Write_buf, Imm 0x8a], Count, Syscall NR_write [Reg 0, Write_buf, Imm 0x8a], Count,
    Syscall NR_write [Reg 0, Write_buf, Imm 0x8a], Count, Syscall NR_write [Reg 0, Write_buf, Imm 0x8a], Count,
    Syscall NR_write [Reg 0, Write_buf, Imm 0x8a], Count, Syscall NR_write [Reg 0, Write_buf, Imm 0x8a], Count,
    Syscall NR_write [Reg 0, Write_buf, Imm 0x8a], Count, Syscall NR_write [Reg 0, Write_buf, Imm 0x8a], Count,
    Syscall NR_write [Reg 0, Write_buf, Imm 0x8a], Count, Syscall NR_write [Reg 0, Write_buf, Imm 0x8a], Count,
    Syscall NR_write [Reg 0, Write_buf, Imm 0x8a], Count, Syscall NR_write [Reg 0, Write_buf, Imm 0x8a], Count,
    Syscall NR_write [Reg 0, Write_buf, Imm 0x8a], Count, Syscall NR_write [Reg 0, Write_buf, Imm 0x8a], Count]"

definition min_rocks_write_fcntl_0_0_body292 :: "stmt list" where
  "min_rocks_write_fcntl_0_0_body292 = [
    Syscall NR_write [Reg 0, Write_buf, Imm 0x8a], Count, Syscall NR_write [Reg 0, Write_buf, Imm 0x8a], Count,
    Syscall NR_write [Reg 0, Write_buf, Imm 0x8a], Count, Syscall NR_write [Reg 0, Write_buf, Imm 0x8a], Count,
    Syscall NR_write [Reg 0, Write_buf, Imm 0x8a], Count, Syscall NR_write [Reg 0, Write_buf, Imm 0x8a], Count,
    Syscall NR_write [Reg 0, Write_buf, Imm 0x8a], Count, Syscall NR_write [Reg 0, Write_buf, Imm 0x8a], Count,
    Syscall NR_write [Reg 0, Write_buf, Imm 0x8a], Count, Syscall NR_write [Reg 0, Write_buf, Imm 0x8a], Count,
    Syscall NR_write [Reg 0, Write_buf, Imm 0x8a], Count, Syscall NR_write [Reg 0, Write_buf, Imm 0x8a], Count,
    Syscall NR_write [Reg 0, Write_buf, Imm 0x8a], Count, Syscall NR_write [Reg 0, Write_buf, Imm 0x8a], Count]"

definition min_rocks_write_fcntl_0_0_body293 :: "stmt list" where
  "min_rocks_write_fcntl_0_0_body293 = [
    Syscall NR_write [Reg 0, Write_buf, Imm 0x8a], Count, Syscall NR_write [Reg 0, Write_buf, Imm 0x8a], Count,
    Syscall NR_write [Reg 0, Write_buf, Imm 0x8a], Count, Syscall NR_write [Reg 0, Write_buf, Imm 0x8a], Count,
    Syscall NR_write [Reg 0, Write_buf, Imm 0x8a], Count, Syscall NR_write [Reg 0, Write_buf, Imm 0x8a], Count,
    Syscall NR_write [Reg 0, Write_buf, Imm 0x8a], Count, Syscall NR_write [Reg 0, Write_buf, Imm 0x8a], Count,
    Syscall NR_write [Reg 0, Write_buf, Imm 0x8a], Count, Syscall NR_write [Reg 0, Write_buf, Imm 0x8a], Count,
    Syscall NR_write [Reg 0, Write_buf, Imm 0x8a], Count, Syscall NR_write [Reg 0, Write_buf, Imm 0x8a], Count,
    Syscall NR_write [Reg 0, Write_buf, Imm 0x8a], Count, Syscall NR_write [Reg 0, Write_buf, Imm 0x8a], Count]"

definition min_rocks_write_fcntl_0_0_body294 :: "stmt list" where
  "min_rocks_write_fcntl_0_0_body294 = [
    Syscall NR_write [Reg 0, Write_buf, Imm 0x8a], Count, Syscall NR_write [Reg 0, Write_buf, Imm 0x8a], Count,
    Syscall NR_write [Reg 0, Write_buf, Imm 0x8a], Count, Syscall NR_write [Reg 0, Write_buf, Imm 0x8a], Count,
    Syscall NR_write [Reg 0, Write_buf, Imm 0x8a], Count, Syscall NR_write [Reg 0, Write_buf, Imm 0x8a], Count,
    Syscall NR_write [Reg 0, Write_buf, Imm 0x8a], Count, Syscall NR_write [Reg 0, Write_buf, Imm 0x8a], Count,
    Syscall NR_write [Reg 0, Write_buf, Imm 0x8a], Count, Syscall NR_write [Reg 0, Write_buf, Imm 0x8a], Count,
    Syscall NR_write [Reg 0, Write_buf, Imm 0x8a], Count, Syscall NR_write [Reg 0, Write_buf, Imm 0x8a], Count,
    Syscall NR_write [Reg 0, Write_buf, Imm 0x8a], Count, Syscall NR_write [Reg 0, Write_buf, Imm 0x8a], Count]"

definition min_rocks_write_fcntl_0_0_body295 :: "stmt list" where
  "min_rocks_write_fcntl_0_0_body295 = [
    Syscall NR_write [Reg 0, Write_buf, Imm 0x8a], Count, Syscall NR_write [Reg 0, Write_buf, Imm 0x8a], Count,
    Syscall NR_write [Reg 0, Write_buf, Imm 0x8a], Count, Syscall NR_write [Reg 0, Write_buf, Imm 0x8a], Count,
    Syscall NR_write [Reg 0, Write_buf, Imm 0x8a], Count, Syscall NR_write [Reg 0, Write_buf, Imm 0x8a], Count,
    Syscall NR_write [Reg 0, Write_buf, Imm 0x8a], Count, Syscall NR_write [Reg 0, Write_buf, Imm 0x8a], Count,
    Syscall NR_write [Reg 0, Write_buf, Imm 0x8a], Count, Syscall NR_write [Reg 0, Write_buf, Imm 0x8a], Count,
    Syscall NR_write [Reg 0, Write_buf, Imm 0x8a], Count, Syscall NR_write [Reg 0, Write_buf, Imm 0x8a], Count,
    Syscall NR_write [Reg 0, Write_buf, Imm 0x8a], Count, Syscall NR_write [Reg 0, Write_buf, Imm 0x8a], Count]"

definition min_rocks_write_fcntl_0_0_body296 :: "stmt list" where
  "min_rocks_write_fcntl_0_0_body296 = [
    Syscall NR_write [Reg 0, Write_buf, Imm 0x8a], Count, Syscall NR_write [Reg 0, Write_buf, Imm 0x8a], Count,
    Syscall NR_write [Reg 0, Write_buf, Imm 0x8a], Count, Syscall NR_write [Reg 0, Write_buf, Imm 0x8a], Count,
    Syscall NR_write [Reg 0, Write_buf, Imm 0x8a], Count, Syscall NR_write [Reg 0, Write_buf, Imm 0x8a], Count,
    Syscall NR_write [Reg 0, Write_buf, Imm 0x8a], Count, Syscall NR_write [Reg 0, Write_buf, Imm 0x8a], Count,
    Syscall NR_write [Reg 0, Write_buf, Imm 0x8a], Count, Syscall NR_write [Reg 0, Write_buf, Imm 0x8a], Count,
    Syscall NR_write [Reg 0, Write_buf, Imm 0x8a], Count, Syscall NR_write [Reg 0, Write_buf, Imm 0x8a], Count,
    Syscall NR_write [Reg 0, Write_buf, Imm 0x8a], Count, Syscall NR_write [Reg 0, Write_buf, Imm 0x8a], Count]"

definition min_rocks_write_fcntl_0_0_body297 :: "stmt list" where
  "min_rocks_write_fcntl_0_0_body297 = [
    Syscall NR_write [Reg 0, Write_buf, Imm 0x8a], Count, Syscall NR_write [Reg 0, Write_buf, Imm 0x8a], Count,
    Syscall NR_write [Reg 0, Write_buf, Imm 0x8a], Count, Syscall NR_write [Reg 0, Write_buf, Imm 0x8a], Count,
    Syscall NR_write [Reg 0, Write_buf, Imm 0x8a], Count, Syscall NR_write [Reg 0, Write_buf, Imm 0x8a], Count,
    Syscall NR_write [Reg 0, Write_buf, Imm 0x8a], Count, Syscall NR_write [Reg 0, Write_buf, Imm 0x8a], Count,
    Syscall NR_write [Reg 0, Write_buf, Imm 0x8a], Count, Syscall NR_write [Reg 0, Write_buf, Imm 0x8a], Count,
    Syscall NR_write [Reg 0, Write_buf, Imm 0x8a], Count, Syscall NR_write [Reg 0, Write_buf, Imm 0x8a], Count,
    Syscall NR_write [Reg 0, Write_buf, Imm 0x8a], Count, Syscall NR_write [Reg 0, Write_buf, Imm 0x8a], Count]"

definition min_rocks_write_fcntl_0_0_body298 :: "stmt list" where
  "min_rocks_write_fcntl_0_0_body298 = [
    Syscall NR_write [Reg 0, Write_buf, Imm 0x8a], Count, Syscall NR_write [Reg 0, Write_buf, Imm 0x8a], Count,
    Syscall NR_write [Reg 0, Write_buf, Imm 0x8a], Count, Syscall NR_write [Reg 0, Write_buf, Imm 0x8a], Count,
    Syscall NR_write [Reg 0, Write_buf, Imm 0x8a], Count, Syscall NR_write [Reg 0, Write_buf, Imm 0x8a], Count,
    Syscall NR_write [Reg 0, Write_buf, Imm 0x8a], Count, Syscall NR_write [Reg 0, Write_buf, Imm 0x8a], Count,
    Syscall NR_write [Reg 0, Write_buf, Imm 0x8a], Count, Syscall NR_write [Reg 0, Write_buf, Imm 0x8a], Count,
    Syscall NR_write [Reg 0, Write_buf, Imm 0x8a], Count, Syscall NR_write [Reg 0, Write_buf, Imm 0x8a], Count,
    Syscall NR_write [Reg 0, Write_buf, Imm 0x8a], Count, Syscall NR_write [Reg 0, Write_buf, Imm 0x8a], Count]"

definition min_rocks_write_fcntl_0_0_body299 :: "stmt list" where
  "min_rocks_write_fcntl_0_0_body299 = [
    Syscall NR_write [Reg 0, Write_buf, Imm 0x8a], Count, Syscall NR_write [Reg 0, Write_buf, Imm 0x8a], Count,
    Syscall NR_write [Reg 0, Write_buf, Imm 0x8a], Count, Syscall NR_write [Reg 0, Write_buf, Imm 0x8a], Count,
    Syscall NR_write [Reg 0, Write_buf, Imm 0x8a], Count, Syscall NR_write [Reg 0, Write_buf, Imm 0x8a], Count,
    Syscall NR_write [Reg 0, Write_buf, Imm 0x8a], Count, Syscall NR_write [Reg 0, Write_buf, Imm 0x8a], Count,
    Syscall NR_write [Reg 0, Write_buf, Imm 0x8a], Count, Syscall NR_write [Reg 0, Write_buf, Imm 0x8a], Count,
    Syscall NR_write [Reg 0, Write_buf, Imm 0x8a], Count, Syscall NR_write [Reg 0, Write_buf, Imm 0x8a], Count,
    Syscall NR_write [Reg 0, Write_buf, Imm 0x8a], Count, Syscall NR_write [Reg 0, Write_buf, Imm 0x8a], Count]"

definition min_rocks_write_fcntl_0_0_body300 :: "stmt list" where
  "min_rocks_write_fcntl_0_0_body300 = [
    Syscall NR_write [Reg 0, Write_buf, Imm 0x8a], Count, Syscall NR_write [Reg 0, Write_buf, Imm 0x8a], Count,
    Syscall NR_write [Reg 0, Write_buf, Imm 0x8a], Count, Syscall NR_write [Reg 0, Write_buf, Imm 0x8a], Count,
    Syscall NR_write [Reg 0, Write_buf, Imm 0x8a], Count, Syscall NR_write [Reg 0, Write_buf, Imm 0x8a], Count,
    Syscall NR_write [Reg 0, Write_buf, Imm 0x8a], Count, Syscall NR_write [Reg 0, Write_buf, Imm 0x8a], Count,
    Syscall NR_write [Reg 0, Write_buf, Imm 0x8a], Count, Syscall NR_write [Reg 0, Write_buf, Imm 0x8a], Count,
    Syscall NR_write [Reg 0, Write_buf, Imm 0x8a], Count, Syscall NR_write [Reg 0, Write_buf, Imm 0x8a], Count,
    Syscall NR_write [Reg 0, Write_buf, Imm 0x8a], Count, Syscall NR_write [Reg 0, Write_buf, Imm 0x8a], Count]"

definition min_rocks_write_fcntl_0_0_body301 :: "stmt list" where
  "min_rocks_write_fcntl_0_0_body301 = [
    Syscall NR_write [Reg 0, Write_buf, Imm 0x8a], Count, Syscall NR_write [Reg 0, Write_buf, Imm 0x8a], Count,
    Syscall NR_write [Reg 0, Write_buf, Imm 0x8a], Count, Syscall NR_write [Reg 0, Write_buf, Imm 0x8a], Count,
    Syscall NR_write [Reg 0, Write_buf, Imm 0x8a], Count, Syscall NR_write [Reg 0, Write_buf, Imm 0x8a], Count,
    Syscall NR_write [Reg 0, Write_buf, Imm 0x8a], Count, Syscall NR_write [Reg 0, Write_buf, Imm 0x8a], Count,
    Syscall NR_write [Reg 0, Write_buf, Imm 0x8a], Count, Syscall NR_write [Reg 0, Write_buf, Imm 0x8a], Count,
    Syscall NR_write [Reg 0, Write_buf, Imm 0x8a], Count, Syscall NR_write [Reg 0, Write_buf, Imm 0x8a], Count,
    Syscall NR_write [Reg 0, Write_buf, Imm 0x8a], Count, Syscall NR_write [Reg 0, Write_buf, Imm 0x8a], Count]"

definition min_rocks_write_fcntl_0_0_body302 :: "stmt list" where
  "min_rocks_write_fcntl_0_0_body302 = [
    Syscall NR_write [Reg 0, Write_buf, Imm 0x8a], Count, Syscall NR_write [Reg 0, Write_buf, Imm 0x8a], Count,
    Syscall NR_write [Reg 0, Write_buf, Imm 0x8a], Count, Syscall NR_write [Reg 0, Write_buf, Imm 0x8a], Count,
    Syscall NR_write [Reg 0, Write_buf, Imm 0x8a], Count, Syscall NR_write [Reg 0, Write_buf, Imm 0x8a], Count,
    Syscall NR_write [Reg 0, Write_buf, Imm 0x8a], Count, Syscall NR_write [Reg 0, Write_buf, Imm 0x8a], Count,
    Syscall NR_write [Reg 0, Write_buf, Imm 0x8a], Count, Syscall NR_write [Reg 0, Write_buf, Imm 0x8a], Count,
    Syscall NR_write [Reg 0, Write_buf, Imm 0x8a], Count, Syscall NR_write [Reg 0, Write_buf, Imm 0x8a], Count,
    Syscall NR_write [Reg 0, Write_buf, Imm 0x8a], Count, Syscall NR_write [Reg 0, Write_buf, Imm 0x8a], Count]"

definition min_rocks_write_fcntl_0_0_body303 :: "stmt list" where
  "min_rocks_write_fcntl_0_0_body303 = [
    Syscall NR_write [Reg 0, Write_buf, Imm 0x8a], Count, Syscall NR_write [Reg 0, Write_buf, Imm 0x8a], Count,
    Syscall NR_write [Reg 0, Write_buf, Imm 0x8a], Count, Syscall NR_write [Reg 0, Write_buf, Imm 0x8a], Count,
    Syscall NR_write [Reg 0, Write_buf, Imm 0x8a], Count, Syscall NR_write [Reg 0, Write_buf, Imm 0x8a], Count,
    Syscall NR_write [Reg 0, Write_buf, Imm 0x8a], Count, Syscall NR_write [Reg 0, Write_buf, Imm 0x8a], Count,
    Syscall NR_write [Reg 0, Write_buf, Imm 0x8a], Count, Syscall NR_write [Reg 0, Write_buf, Imm 0x8a], Count,
    Syscall NR_write [Reg 0, Write_buf, Imm 0x8a], Count, Syscall NR_write [Reg 0, Write_buf, Imm 0x8a], Count,
    Syscall NR_write [Reg 0, Write_buf, Imm 0x8a], Count, Syscall NR_write [Reg 0, Write_buf, Imm 0x8a], Count]"

definition min_rocks_write_fcntl_0_0_body304 :: "stmt list" where
  "min_rocks_write_fcntl_0_0_body304 = [
    Syscall NR_write [Reg 0, Write_buf, Imm 0x8a], Count, Syscall NR_write [Reg 0, Write_buf, Imm 0x8a], Count,
    Syscall NR_write [Reg 0, Write_buf, Imm 0x8a], Count, Syscall NR_write [Reg 0, Write_buf, Imm 0x8a], Count,
    Syscall NR_write [Reg 0, Write_buf, Imm 0x8a], Count, Syscall NR_write [Reg 0, Write_buf, Imm 0x8a], Count,
    Syscall NR_write [Reg 0, Write_buf, Imm 0x8a], Count, Syscall NR_write [Reg 0, Write_buf, Imm 0x8a], Count,
    Syscall NR_write [Reg 0, Write_buf, Imm 0x8a], Count, Syscall NR_write [Reg 0, Write_buf, Imm 0x8a], Count,
    Syscall NR_write [Reg 0, Write_buf, Imm 0x8a], Count, Syscall NR_write [Reg 0, Write_buf, Imm 0x8a], Count,
    Syscall NR_write [Reg 0, Write_buf, Imm 0x8a], Count, Syscall NR_write [Reg 0, Write_buf, Imm 0x8a], Count]"

definition min_rocks_write_fcntl_0_0_body305 :: "stmt list" where
  "min_rocks_write_fcntl_0_0_body305 = [
    Syscall NR_write [Reg 0, Write_buf, Imm 0x8a], Count, Syscall NR_write [Reg 0, Write_buf, Imm 0x8a], Count,
    Syscall NR_write [Reg 0, Write_buf, Imm 0x8a], Count, Syscall NR_write [Reg 0, Write_buf, Imm 0x8a], Count,
    Syscall NR_write [Reg 0, Write_buf, Imm 0x8a], Count, Syscall NR_write [Reg 0, Write_buf, Imm 0x8a], Count,
    Syscall NR_write [Reg 0, Write_buf, Imm 0x8a], Count, Syscall NR_write [Reg 0, Write_buf, Imm 0x8a], Count,
    Syscall NR_write [Reg 0, Write_buf, Imm 0x8a], Count, Syscall NR_write [Reg 0, Write_buf, Imm 0x91], Count,
    Syscall NR_write [Reg 0, Write_buf, Imm 0x8a], Count, Syscall NR_write [Reg 0, Write_buf, Imm 0x8a], Count,
    Syscall NR_write [Reg 0, Write_buf, Imm 0x8a], Count, Syscall NR_write [Reg 0, Write_buf, Imm 0x8a], Count]"

definition min_rocks_write_fcntl_0_0_body306 :: "stmt list" where
  "min_rocks_write_fcntl_0_0_body306 = [
    Syscall NR_write [Reg 0, Write_buf, Imm 0x8a], Count, Syscall NR_write [Reg 0, Write_buf, Imm 0x8a], Count,
    Syscall NR_write [Reg 0, Write_buf, Imm 0x8a], Count, Syscall NR_write [Reg 0, Write_buf, Imm 0x8a], Count,
    Syscall NR_write [Reg 0, Write_buf, Imm 0x8a], Count, Syscall NR_write [Reg 0, Write_buf, Imm 0x8a], Count,
    Syscall NR_write [Reg 0, Write_buf, Imm 0x8a], Count, Syscall NR_write [Reg 0, Write_buf, Imm 0x8a], Count,
    Syscall NR_write [Reg 0, Write_buf, Imm 0x8a], Count, Syscall NR_write [Reg 0, Write_buf, Imm 0x8a], Count,
    Syscall NR_write [Reg 0, Write_buf, Imm 0x8a], Count, Syscall NR_write [Reg 0, Write_buf, Imm 0x8a], Count,
    Syscall NR_write [Reg 0, Write_buf, Imm 0x8a], Count, Syscall NR_write [Reg 0, Write_buf, Imm 0x8a], Count]"

definition min_rocks_write_fcntl_0_0_body307 :: "stmt list" where
  "min_rocks_write_fcntl_0_0_body307 = [
    Syscall NR_write [Reg 0, Write_buf, Imm 0x8a], Count, Syscall NR_write [Reg 0, Write_buf, Imm 0x8a], Count,
    Syscall NR_write [Reg 0, Write_buf, Imm 0x8a], Count, Syscall NR_write [Reg 0, Write_buf, Imm 0x8a], Count,
    Syscall NR_write [Reg 0, Write_buf, Imm 0x8a], Count, Syscall NR_write [Reg 0, Write_buf, Imm 0x8a], Count,
    Syscall NR_write [Reg 0, Write_buf, Imm 0x8a], Count, Syscall NR_write [Reg 0, Write_buf, Imm 0x8a], Count,
    Syscall NR_write [Reg 0, Write_buf, Imm 0x8a], Count, Syscall NR_write [Reg 0, Write_buf, Imm 0x8a], Count,
    Syscall NR_write [Reg 0, Write_buf, Imm 0x8a], Count, Syscall NR_write [Reg 0, Write_buf, Imm 0x8a], Count,
    Syscall NR_write [Reg 0, Write_buf, Imm 0x8a], Count, Syscall NR_write [Reg 0, Write_buf, Imm 0x8a], Count]"

definition min_rocks_write_fcntl_0_0_body308 :: "stmt list" where
  "min_rocks_write_fcntl_0_0_body308 = [
    Syscall NR_write [Reg 0, Write_buf, Imm 0x8a], Count, Syscall NR_write [Reg 0, Write_buf, Imm 0x8a], Count,
    Syscall NR_write [Reg 0, Write_buf, Imm 0x8a], Count, Syscall NR_write [Reg 0, Write_buf, Imm 0x8a], Count,
    Syscall NR_write [Reg 0, Write_buf, Imm 0x8a], Count, Syscall NR_write [Reg 0, Write_buf, Imm 0x8a], Count,
    Syscall NR_write [Reg 0, Write_buf, Imm 0x8a], Count, Syscall NR_write [Reg 0, Write_buf, Imm 0x8a], Count,
    Syscall NR_write [Reg 0, Write_buf, Imm 0x8a], Count, Syscall NR_write [Reg 0, Write_buf, Imm 0x8a], Count,
    Syscall NR_write [Reg 0, Write_buf, Imm 0x8a], Count, Syscall NR_write [Reg 0, Write_buf, Imm 0x8a], Count,
    Syscall NR_write [Reg 0, Write_buf, Imm 0x8a], Count, Syscall NR_write [Reg 0, Write_buf, Imm 0x8a], Count]"

definition min_rocks_write_fcntl_0_0_body309 :: "stmt list" where
  "min_rocks_write_fcntl_0_0_body309 = [
    Syscall NR_write [Reg 0, Write_buf, Imm 0x8a], Count, Syscall NR_write [Reg 0, Write_buf, Imm 0x8a], Count,
    Syscall NR_write [Reg 0, Write_buf, Imm 0x8a], Count, Syscall NR_write [Reg 0, Write_buf, Imm 0x8a], Count,
    Syscall NR_write [Reg 0, Write_buf, Imm 0x8a], Count, Syscall NR_write [Reg 0, Write_buf, Imm 0x8a], Count,
    Syscall NR_write [Reg 0, Write_buf, Imm 0x8a], Count, Syscall NR_write [Reg 0, Write_buf, Imm 0x8a], Count,
    Syscall NR_write [Reg 0, Write_buf, Imm 0x8a], Count, Syscall NR_write [Reg 0, Write_buf, Imm 0x8a], Count,
    Syscall NR_write [Reg 0, Write_buf, Imm 0x8a], Count, Syscall NR_write [Reg 0, Write_buf, Imm 0x8a], Count,
    Syscall NR_write [Reg 0, Write_buf, Imm 0x8a], Count, Syscall NR_write [Reg 0, Write_buf, Imm 0x8a], Count]"

definition min_rocks_write_fcntl_0_0_body310 :: "stmt list" where
  "min_rocks_write_fcntl_0_0_body310 = [
    Syscall NR_write [Reg 0, Write_buf, Imm 0x8a], Count, Syscall NR_write [Reg 0, Write_buf, Imm 0x8a], Count,
    Syscall NR_write [Reg 0, Write_buf, Imm 0x8a], Count, Syscall NR_write [Reg 0, Write_buf, Imm 0x8a], Count,
    Syscall NR_write [Reg 0, Write_buf, Imm 0x8a], Count, Syscall NR_write [Reg 0, Write_buf, Imm 0x8a], Count,
    Syscall NR_write [Reg 0, Write_buf, Imm 0x8a], Count, Syscall NR_write [Reg 0, Write_buf, Imm 0x8a], Count,
    Syscall NR_write [Reg 0, Write_buf, Imm 0x8a], Count, Syscall NR_write [Reg 0, Write_buf, Imm 0x8a], Count,
    Syscall NR_write [Reg 0, Write_buf, Imm 0x8a], Count, Syscall NR_write [Reg 0, Write_buf, Imm 0x8a], Count,
    Syscall NR_write [Reg 0, Write_buf, Imm 0x8a], Count, Syscall NR_write [Reg 0, Write_buf, Imm 0x8a], Count]"

definition min_rocks_write_fcntl_0_0_body311 :: "stmt list" where
  "min_rocks_write_fcntl_0_0_body311 = [
    Syscall NR_write [Reg 0, Write_buf, Imm 0x8a], Count, Syscall NR_write [Reg 0, Write_buf, Imm 0x8a], Count,
    Syscall NR_write [Reg 0, Write_buf, Imm 0x8a], Count, Syscall NR_write [Reg 0, Write_buf, Imm 0x8a], Count,
    Syscall NR_write [Reg 0, Write_buf, Imm 0x8a], Count, Syscall NR_write [Reg 0, Write_buf, Imm 0x8a], Count,
    Syscall NR_write [Reg 0, Write_buf, Imm 0x8a], Count, Syscall NR_write [Reg 0, Write_buf, Imm 0x8a], Count,
    Syscall NR_write [Reg 0, Write_buf, Imm 0x8a], Count, Syscall NR_write [Reg 0, Write_buf, Imm 0x8a], Count,
    Syscall NR_write [Reg 0, Write_buf, Imm 0x8a], Count, Syscall NR_write [Reg 0, Write_buf, Imm 0x8a], Count,
    Syscall NR_write [Reg 0, Write_buf, Imm 0x8a], Count, Syscall NR_write [Reg 0, Write_buf, Imm 0x8a], Count]"

definition min_rocks_write_fcntl_0_0_body312 :: "stmt list" where
  "min_rocks_write_fcntl_0_0_body312 = [
    Syscall NR_write [Reg 0, Write_buf, Imm 0x8a], Count, Syscall NR_write [Reg 0, Write_buf, Imm 0x8a], Count,
    Syscall NR_write [Reg 0, Write_buf, Imm 0x8a], Count, Syscall NR_write [Reg 0, Write_buf, Imm 0x8a], Count,
    Syscall NR_write [Reg 0, Write_buf, Imm 0x8a], Count, Syscall NR_write [Reg 0, Write_buf, Imm 0x8a], Count,
    Syscall NR_write [Reg 0, Write_buf, Imm 0x8a], Count, Syscall NR_write [Reg 0, Write_buf, Imm 0x8a], Count,
    Syscall NR_write [Reg 0, Write_buf, Imm 0x8a], Count, Syscall NR_write [Reg 0, Write_buf, Imm 0x8a], Count,
    Syscall NR_write [Reg 0, Write_buf, Imm 0x8a], Count, Syscall NR_write [Reg 0, Write_buf, Imm 0x8a], Count,
    Syscall NR_write [Reg 0, Write_buf, Imm 0x8a], Count, Syscall NR_write [Reg 0, Write_buf, Imm 0x8a], Count]"

definition min_rocks_write_fcntl_0_0_body313 :: "stmt list" where
  "min_rocks_write_fcntl_0_0_body313 = [
    Syscall NR_write [Reg 0, Write_buf, Imm 0x8a], Count, Syscall NR_write [Reg 0, Write_buf, Imm 0x8a], Count,
    Syscall NR_write [Reg 0, Write_buf, Imm 0x8a], Count, Syscall NR_write [Reg 0, Write_buf, Imm 0x8a], Count,
    Syscall NR_write [Reg 0, Write_buf, Imm 0x8a], Count, Syscall NR_write [Reg 0, Write_buf, Imm 0x8a], Count,
    Syscall NR_write [Reg 0, Write_buf, Imm 0x8a], Count, Syscall NR_write [Reg 0, Write_buf, Imm 0x8a], Count,
    Syscall NR_write [Reg 0, Write_buf, Imm 0x8a], Count, Syscall NR_write [Reg 0, Write_buf, Imm 0x8a], Count,
    Syscall NR_write [Reg 0, Write_buf, Imm 0x8a], Count, Syscall NR_write [Reg 0, Write_buf, Imm 0x8a], Count,
    Syscall NR_write [Reg 0, Write_buf, Imm 0x8a], Count, Syscall NR_write [Reg 0, Write_buf, Imm 0x8a], Count]"

definition min_rocks_write_fcntl_0_0_body314 :: "stmt list" where
  "min_rocks_write_fcntl_0_0_body314 = [
    Syscall NR_write [Reg 0, Write_buf, Imm 0x8a], Count, Syscall NR_write [Reg 0, Write_buf, Imm 0x8a], Count,
    Syscall NR_write [Reg 0, Write_buf, Imm 0x8a], Count, Syscall NR_write [Reg 0, Write_buf, Imm 0x8a], Count,
    Syscall NR_write [Reg 0, Write_buf, Imm 0x8a], Count, Syscall NR_write [Reg 0, Write_buf, Imm 0x8a], Count,
    Syscall NR_write [Reg 0, Write_buf, Imm 0x8a], Count, Syscall NR_write [Reg 0, Write_buf, Imm 0x8a], Count,
    Syscall NR_write [Reg 0, Write_buf, Imm 0x8a], Count, Syscall NR_write [Reg 0, Write_buf, Imm 0x8a], Count,
    Syscall NR_write [Reg 0, Write_buf, Imm 0x8a], Count, Syscall NR_write [Reg 0, Write_buf, Imm 0x8a], Count,
    Syscall NR_write [Reg 0, Write_buf, Imm 0x8a], Count, Syscall NR_write [Reg 0, Write_buf, Imm 0x8a], Count]"

definition min_rocks_write_fcntl_0_0_body315 :: "stmt list" where
  "min_rocks_write_fcntl_0_0_body315 = [
    Syscall NR_write [Reg 0, Write_buf, Imm 0x8a], Count, Syscall NR_write [Reg 0, Write_buf, Imm 0x8a], Count,
    Syscall NR_write [Reg 0, Write_buf, Imm 0x8a], Count, Syscall NR_write [Reg 0, Write_buf, Imm 0x8a], Count,
    Syscall NR_write [Reg 0, Write_buf, Imm 0x8a], Count, Syscall NR_write [Reg 0, Write_buf, Imm 0x8a], Count,
    Syscall NR_write [Reg 0, Write_buf, Imm 0x8a], Count, Syscall NR_write [Reg 0, Write_buf, Imm 0x8a], Count,
    Syscall NR_write [Reg 0, Write_buf, Imm 0x8a], Count, Syscall NR_write [Reg 0, Write_buf, Imm 0x8a], Count,
    Syscall NR_write [Reg 0, Write_buf, Imm 0x8a], Count, Syscall NR_write [Reg 0, Write_buf, Imm 0x8a], Count,
    Syscall NR_write [Reg 0, Write_buf, Imm 0x8a], Count, Syscall NR_write [Reg 0, Write_buf, Imm 0x8a], Count]"

definition min_rocks_write_fcntl_0_0_body316 :: "stmt list" where
  "min_rocks_write_fcntl_0_0_body316 = [
    Syscall NR_write [Reg 0, Write_buf, Imm 0x8a], Count, Syscall NR_write [Reg 0, Write_buf, Imm 0x8a], Count,
    Syscall NR_write [Reg 0, Write_buf, Imm 0x8a], Count, Syscall NR_write [Reg 0, Write_buf, Imm 0x8a], Count,
    Syscall NR_write [Reg 0, Write_buf, Imm 0x8a], Count, Syscall NR_write [Reg 0, Write_buf, Imm 0x8a], Count,
    Syscall NR_write [Reg 0, Write_buf, Imm 0x8a], Count, Syscall NR_write [Reg 0, Write_buf, Imm 0x8a], Count,
    Syscall NR_write [Reg 0, Write_buf, Imm 0x8a], Count, Syscall NR_write [Reg 0, Write_buf, Imm 0x8a], Count,
    Syscall NR_write [Reg 0, Write_buf, Imm 0x8a], Count, Syscall NR_write [Reg 0, Write_buf, Imm 0x8a], Count,
    Syscall NR_write [Reg 0, Write_buf, Imm 0x8a], Count, Syscall NR_write [Reg 0, Write_buf, Imm 0x8a], Count]"

definition min_rocks_write_fcntl_0_0_body317 :: "stmt list" where
  "min_rocks_write_fcntl_0_0_body317 = [
    Syscall NR_write [Reg 0, Write_buf, Imm 0x8a], Count, Syscall NR_write [Reg 0, Write_buf, Imm 0x8a], Count,
    Syscall NR_write [Reg 0, Write_buf, Imm 0x8a], Count, Syscall NR_write [Reg 0, Write_buf, Imm 0x8a], Count,
    Syscall NR_write [Reg 0, Write_buf, Imm 0x8a], Count, Syscall NR_write [Reg 0, Write_buf, Imm 0x8a], Count,
    Syscall NR_write [Reg 0, Write_buf, Imm 0x8a], Count, Syscall NR_write [Reg 0, Write_buf, Imm 0x8a], Count,
    Syscall NR_write [Reg 0, Write_buf, Imm 0x8a], Count, Syscall NR_write [Reg 0, Write_buf, Imm 0x8a], Count,
    Syscall NR_write [Reg 0, Write_buf, Imm 0x8a], Count, Syscall NR_write [Reg 0, Write_buf, Imm 0x8a], Count,
    Syscall NR_write [Reg 0, Write_buf, Imm 0x8a], Count, Syscall NR_write [Reg 0, Write_buf, Imm 0x8a], Count]"

definition min_rocks_write_fcntl_0_0_body318 :: "stmt list" where
  "min_rocks_write_fcntl_0_0_body318 = [
    Syscall NR_write [Reg 0, Write_buf, Imm 0x8a], Count, Syscall NR_write [Reg 0, Write_buf, Imm 0x8a], Count,
    Syscall NR_write [Reg 0, Write_buf, Imm 0x8a], Count, Syscall NR_write [Reg 0, Write_buf, Imm 0x8a], Count,
    Syscall NR_write [Reg 0, Write_buf, Imm 0x8a], Count, Syscall NR_write [Reg 0, Write_buf, Imm 0x8a], Count,
    Syscall NR_write [Reg 0, Write_buf, Imm 0x8a], Count, Syscall NR_write [Reg 0, Write_buf, Imm 0x8a], Count,
    Syscall NR_write [Reg 0, Write_buf, Imm 0x8a], Count, Syscall NR_write [Reg 0, Write_buf, Imm 0x8a], Count,
    Syscall NR_write [Reg 0, Write_buf, Imm 0x8a], Count, Syscall NR_write [Reg 0, Write_buf, Imm 0x8a], Count,
    Syscall NR_write [Reg 0, Write_buf, Imm 0x8a], Count, Syscall NR_write [Reg 0, Write_buf, Imm 0x8a], Count]"

definition min_rocks_write_fcntl_0_0_body319 :: "stmt list" where
  "min_rocks_write_fcntl_0_0_body319 = [
    Syscall NR_write [Reg 0, Write_buf, Imm 0x8a], Count, Syscall NR_write [Reg 0, Write_buf, Imm 0x8a], Count,
    Syscall NR_write [Reg 0, Write_buf, Imm 0x8a], Count, Syscall NR_write [Reg 0, Write_buf, Imm 0x8a], Count,
    Syscall NR_write [Reg 0, Write_buf, Imm 0x8a], Count, Syscall NR_write [Reg 0, Write_buf, Imm 0x8a], Count,
    Syscall NR_write [Reg 0, Write_buf, Imm 0x8a], Count, Syscall NR_write [Reg 0, Write_buf, Imm 0x8a], Count,
    Syscall NR_write [Reg 0, Write_buf, Imm 0x8a], Count, Syscall NR_write [Reg 0, Write_buf, Imm 0x8a], Count,
    Syscall NR_write [Reg 0, Write_buf, Imm 0x8a], Count, Syscall NR_write [Reg 0, Write_buf, Imm 0x8a], Count,
    Syscall NR_write [Reg 0, Write_buf, Imm 0x8a], Count, Syscall NR_write [Reg 0, Write_buf, Imm 0x8a], Count]"

definition min_rocks_write_fcntl_0_0_body320 :: "stmt list" where
  "min_rocks_write_fcntl_0_0_body320 = [
    Syscall NR_write [Reg 0, Write_buf, Imm 0x8a], Count, Syscall NR_write [Reg 0, Write_buf, Imm 0x8a], Count,
    Syscall NR_write [Reg 0, Write_buf, Imm 0x8a], Count, Syscall NR_write [Reg 0, Write_buf, Imm 0x8a], Count,
    Syscall NR_write [Reg 0, Write_buf, Imm 0x8a], Count, Syscall NR_write [Reg 0, Write_buf, Imm 0x8a], Count,
    Syscall NR_write [Reg 0, Write_buf, Imm 0x8a], Count, Syscall NR_write [Reg 0, Write_buf, Imm 0x8a], Count,
    Syscall NR_write [Reg 0, Write_buf, Imm 0x8a], Count, Syscall NR_write [Reg 0, Write_buf, Imm 0x8a], Count,
    Syscall NR_write [Reg 0, Write_buf, Imm 0x8a], Count, Syscall NR_write [Reg 0, Write_buf, Imm 0x8a], Count,
    Syscall NR_write [Reg 0, Write_buf, Imm 0x8a], Count, Syscall NR_write [Reg 0, Write_buf, Imm 0x8a], Count]"

definition min_rocks_write_fcntl_0_0_body321 :: "stmt list" where
  "min_rocks_write_fcntl_0_0_body321 = [
    Syscall NR_write [Reg 0, Write_buf, Imm 0x8a], Count, Syscall NR_write [Reg 0, Write_buf, Imm 0x8a], Count,
    Syscall NR_write [Reg 0, Write_buf, Imm 0x8a], Count, Syscall NR_write [Reg 0, Write_buf, Imm 0x8a], Count,
    Syscall NR_write [Reg 0, Write_buf, Imm 0x8a], Count, Syscall NR_write [Reg 0, Write_buf, Imm 0x8a], Count,
    Syscall NR_write [Reg 0, Write_buf, Imm 0x8a], Count, Syscall NR_write [Reg 0, Write_buf, Imm 0x8a], Count,
    Syscall NR_write [Reg 0, Write_buf, Imm 0x8a], Count, Syscall NR_write [Reg 0, Write_buf, Imm 0x8a], Count,
    Syscall NR_write [Reg 0, Write_buf, Imm 0x8a], Count, Syscall NR_write [Reg 0, Write_buf, Imm 0x8a], Count,
    Syscall NR_write [Reg 0, Write_buf, Imm 0x8a], Count, Syscall NR_write [Reg 0, Write_buf, Imm 0x8a], Count]"

definition min_rocks_write_fcntl_0_0_body322 :: "stmt list" where
  "min_rocks_write_fcntl_0_0_body322 = [
    Syscall NR_write [Reg 0, Write_buf, Imm 0x8a], Count, Syscall NR_write [Reg 0, Write_buf, Imm 0x8a], Count,
    Syscall NR_write [Reg 0, Write_buf, Imm 0x8a], Count, Syscall NR_write [Reg 0, Write_buf, Imm 0x8a], Count,
    Syscall NR_write [Reg 0, Write_buf, Imm 0x8a], Count, Syscall NR_write [Reg 0, Write_buf, Imm 0x8a], Count,
    Syscall NR_write [Reg 0, Write_buf, Imm 0x8a], Count, Syscall NR_write [Reg 0, Write_buf, Imm 0x8a], Count,
    Syscall NR_write [Reg 0, Write_buf, Imm 0x91], Count, Syscall NR_write [Reg 0, Write_buf, Imm 0x8a], Count,
    Syscall NR_write [Reg 0, Write_buf, Imm 0x8a], Count, Syscall NR_write [Reg 0, Write_buf, Imm 0x8a], Count,
    Syscall NR_write [Reg 0, Write_buf, Imm 0x8a], Count, Syscall NR_write [Reg 0, Write_buf, Imm 0x8a], Count]"

definition min_rocks_write_fcntl_0_0_body323 :: "stmt list" where
  "min_rocks_write_fcntl_0_0_body323 = [
    Syscall NR_write [Reg 0, Write_buf, Imm 0x8a], Count, Syscall NR_write [Reg 0, Write_buf, Imm 0x8a], Count,
    Syscall NR_write [Reg 0, Write_buf, Imm 0x8a], Count, Syscall NR_write [Reg 0, Write_buf, Imm 0x8a], Count,
    Syscall NR_write [Reg 0, Write_buf, Imm 0x8a], Count, Syscall NR_write [Reg 0, Write_buf, Imm 0x8a], Count,
    Syscall NR_write [Reg 0, Write_buf, Imm 0x8a], Count, Syscall NR_write [Reg 0, Write_buf, Imm 0x8a], Count,
    Syscall NR_write [Reg 0, Write_buf, Imm 0x8a], Count, Syscall NR_write [Reg 0, Write_buf, Imm 0x8a], Count,
    Syscall NR_write [Reg 0, Write_buf, Imm 0x8a], Count, Syscall NR_write [Reg 0, Write_buf, Imm 0x8a], Count,
    Syscall NR_write [Reg 0, Write_buf, Imm 0x8a], Count, Syscall NR_write [Reg 0, Write_buf, Imm 0x8a], Count]"

definition min_rocks_write_fcntl_0_0_body324 :: "stmt list" where
  "min_rocks_write_fcntl_0_0_body324 = [
    Syscall NR_write [Reg 0, Write_buf, Imm 0x8a], Count, Syscall NR_write [Reg 0, Write_buf, Imm 0x8a], Count,
    Syscall NR_write [Reg 0, Write_buf, Imm 0x8a], Count, Syscall NR_write [Reg 0, Write_buf, Imm 0x8a], Count,
    Syscall NR_write [Reg 0, Write_buf, Imm 0x8a], Count, Syscall NR_write [Reg 0, Write_buf, Imm 0x8a], Count,
    Syscall NR_write [Reg 0, Write_buf, Imm 0x8a], Count, Syscall NR_write [Reg 0, Write_buf, Imm 0x8a], Count,
    Syscall NR_write [Reg 0, Write_buf, Imm 0x8a], Count, Syscall NR_write [Reg 0, Write_buf, Imm 0x8a], Count,
    Syscall NR_write [Reg 0, Write_buf, Imm 0x8a], Count, Syscall NR_write [Reg 0, Write_buf, Imm 0x8a], Count,
    Syscall NR_write [Reg 0, Write_buf, Imm 0x8a], Count, Syscall NR_write [Reg 0, Write_buf, Imm 0x8a], Count]"

definition min_rocks_write_fcntl_0_0_body325 :: "stmt list" where
  "min_rocks_write_fcntl_0_0_body325 = [
    Syscall NR_write [Reg 0, Write_buf, Imm 0x8a], Count, Syscall NR_write [Reg 0, Write_buf, Imm 0x8a], Count,
    Syscall NR_write [Reg 0, Write_buf, Imm 0x8a], Count, Syscall NR_write [Reg 0, Write_buf, Imm 0x8a], Count,
    Syscall NR_write [Reg 0, Write_buf, Imm 0x8a], Count, Syscall NR_write [Reg 0, Write_buf, Imm 0x8a], Count,
    Syscall NR_write [Reg 0, Write_buf, Imm 0x8a], Count, Syscall NR_write [Reg 0, Write_buf, Imm 0x8a], Count,
    Syscall NR_write [Reg 0, Write_buf, Imm 0x8a], Count, Syscall NR_write [Reg 0, Write_buf, Imm 0x8a], Count,
    Syscall NR_write [Reg 0, Write_buf, Imm 0x8a], Count, Syscall NR_write [Reg 0, Write_buf, Imm 0x8a], Count,
    Syscall NR_write [Reg 0, Write_buf, Imm 0x8a], Count, Syscall NR_write [Reg 0, Write_buf, Imm 0x8a], Count]"

definition min_rocks_write_fcntl_0_0_body326 :: "stmt list" where
  "min_rocks_write_fcntl_0_0_body326 = [
    Syscall NR_write [Reg 0, Write_buf, Imm 0x8a], Count, Syscall NR_write [Reg 0, Write_buf, Imm 0x8a], Count,
    Syscall NR_write [Reg 0, Write_buf, Imm 0x8a], Count, Syscall NR_write [Reg 0, Write_buf, Imm 0x8a], Count,
    Syscall NR_write [Reg 0, Write_buf, Imm 0x8a], Count, Syscall NR_write [Reg 0, Write_buf, Imm 0x8a], Count,
    Syscall NR_write [Reg 0, Write_buf, Imm 0x8a], Count, Syscall NR_write [Reg 0, Write_buf, Imm 0x8a], Count,
    Syscall NR_write [Reg 0, Write_buf, Imm 0x8a], Count, Syscall NR_write [Reg 0, Write_buf, Imm 0x8a], Count,
    Syscall NR_write [Reg 0, Write_buf, Imm 0x8a], Count, Syscall NR_write [Reg 0, Write_buf, Imm 0x8a], Count,
    Syscall NR_write [Reg 0, Write_buf, Imm 0x8a], Count, Syscall NR_write [Reg 0, Write_buf, Imm 0x8a], Count]"

definition min_rocks_write_fcntl_0_0_body327 :: "stmt list" where
  "min_rocks_write_fcntl_0_0_body327 = [
    Syscall NR_write [Reg 0, Write_buf, Imm 0x8a], Count, Syscall NR_write [Reg 0, Write_buf, Imm 0x8a], Count,
    Syscall NR_write [Reg 0, Write_buf, Imm 0x8a], Count, Syscall NR_write [Reg 0, Write_buf, Imm 0x8a], Count,
    Syscall NR_write [Reg 0, Write_buf, Imm 0x8a], Count, Syscall NR_write [Reg 0, Write_buf, Imm 0x8a], Count,
    Syscall NR_write [Reg 0, Write_buf, Imm 0x8a], Count, Syscall NR_write [Reg 0, Write_buf, Imm 0x8a], Count,
    Syscall NR_write [Reg 0, Write_buf, Imm 0x8a], Count, Syscall NR_write [Reg 0, Write_buf, Imm 0x8a], Count,
    Syscall NR_write [Reg 0, Write_buf, Imm 0x8a], Count, Syscall NR_write [Reg 0, Write_buf, Imm 0x8a], Count,
    Syscall NR_write [Reg 0, Write_buf, Imm 0x8a], Count, Syscall NR_write [Reg 0, Write_buf, Imm 0x8a], Count]"

definition min_rocks_write_fcntl_0_0_body328 :: "stmt list" where
  "min_rocks_write_fcntl_0_0_body328 = [
    Syscall NR_write [Reg 0, Write_buf, Imm 0x8a], Count, Syscall NR_write [Reg 0, Write_buf, Imm 0x8a], Count,
    Syscall NR_write [Reg 0, Write_buf, Imm 0x8a], Count, Syscall NR_write [Reg 0, Write_buf, Imm 0x8a], Count,
    Syscall NR_write [Reg 0, Write_buf, Imm 0x8a], Count, Syscall NR_write [Reg 0, Write_buf, Imm 0x8a], Count,
    Syscall NR_write [Reg 0, Write_buf, Imm 0x8a], Count, Syscall NR_write [Reg 0, Write_buf, Imm 0x8a], Count,
    Syscall NR_write [Reg 0, Write_buf, Imm 0x8a], Count, Syscall NR_write [Reg 0, Write_buf, Imm 0x8a], Count,
    Syscall NR_write [Reg 0, Write_buf, Imm 0x8a], Count, Syscall NR_write [Reg 0, Write_buf, Imm 0x8a], Count,
    Syscall NR_write [Reg 0, Write_buf, Imm 0x8a], Count, Syscall NR_write [Reg 0, Write_buf, Imm 0x8a], Count]"

definition min_rocks_write_fcntl_0_0_body329 :: "stmt list" where
  "min_rocks_write_fcntl_0_0_body329 = [
    Syscall NR_write [Reg 0, Write_buf, Imm 0x8a], Count, Syscall NR_write [Reg 0, Write_buf, Imm 0x8a], Count,
    Syscall NR_write [Reg 0, Write_buf, Imm 0x8a], Count, Syscall NR_write [Reg 0, Write_buf, Imm 0x8a], Count,
    Syscall NR_write [Reg 0, Write_buf, Imm 0x8a], Count, Syscall NR_write [Reg 0, Write_buf, Imm 0x8a], Count,
    Syscall NR_write [Reg 0, Write_buf, Imm 0x8a], Count, Syscall NR_write [Reg 0, Write_buf, Imm 0x8a], Count,
    Syscall NR_write [Reg 0, Write_buf, Imm 0x8a], Count, Syscall NR_write [Reg 0, Write_buf, Imm 0x8a], Count,
    Syscall NR_write [Reg 0, Write_buf, Imm 0x8a], Count, Syscall NR_write [Reg 0, Write_buf, Imm 0x8a], Count,
    Syscall NR_write [Reg 0, Write_buf, Imm 0x8a], Count, Syscall NR_write [Reg 0, Write_buf, Imm 0x8a], Count]"

definition min_rocks_write_fcntl_0_0_body330 :: "stmt list" where
  "min_rocks_write_fcntl_0_0_body330 = [
    Syscall NR_write [Reg 0, Write_buf, Imm 0x8a], Count, Syscall NR_write [Reg 0, Write_buf, Imm 0x8a], Count,
    Syscall NR_write [Reg 0, Write_buf, Imm 0x8a], Count, Syscall NR_write [Reg 0, Write_buf, Imm 0x8a], Count,
    Syscall NR_write [Reg 0, Write_buf, Imm 0x8a], Count, Syscall NR_write [Reg 0, Write_buf, Imm 0x8a], Count,
    Syscall NR_write [Reg 0, Write_buf, Imm 0x8a], Count, Syscall NR_write [Reg 0, Write_buf, Imm 0x8a], Count,
    Syscall NR_write [Reg 0, Write_buf, Imm 0x8a], Count, Syscall NR_write [Reg 0, Write_buf, Imm 0x8a], Count,
    Syscall NR_write [Reg 0, Write_buf, Imm 0x8a], Count, Syscall NR_write [Reg 0, Write_buf, Imm 0x8a], Count,
    Syscall NR_write [Reg 0, Write_buf, Imm 0x8a], Count, Syscall NR_write [Reg 0, Write_buf, Imm 0x8a], Count]"

definition min_rocks_write_fcntl_0_0_body331 :: "stmt list" where
  "min_rocks_write_fcntl_0_0_body331 = [
    Syscall NR_write [Reg 0, Write_buf, Imm 0x8a], Count, Syscall NR_write [Reg 0, Write_buf, Imm 0x8a], Count,
    Syscall NR_write [Reg 0, Write_buf, Imm 0x8a], Count, Syscall NR_write [Reg 0, Write_buf, Imm 0x8a], Count,
    Syscall NR_write [Reg 0, Write_buf, Imm 0x8a], Count, Syscall NR_write [Reg 0, Write_buf, Imm 0x8a], Count,
    Syscall NR_write [Reg 0, Write_buf, Imm 0x8a], Count, Syscall NR_write [Reg 0, Write_buf, Imm 0x8a], Count,
    Syscall NR_write [Reg 0, Write_buf, Imm 0x8a], Count, Syscall NR_write [Reg 0, Write_buf, Imm 0x8a], Count,
    Syscall NR_write [Reg 0, Write_buf, Imm 0x8a], Count, Syscall NR_write [Reg 0, Write_buf, Imm 0x8a], Count,
    Syscall NR_write [Reg 0, Write_buf, Imm 0x8a], Count, Syscall NR_write [Reg 0, Write_buf, Imm 0x8a], Count]"

definition min_rocks_write_fcntl_0_0_body332 :: "stmt list" where
  "min_rocks_write_fcntl_0_0_body332 = [
    Syscall NR_write [Reg 0, Write_buf, Imm 0x8a], Count, Syscall NR_write [Reg 0, Write_buf, Imm 0x8a], Count,
    Syscall NR_write [Reg 0, Write_buf, Imm 0x8a], Count, Syscall NR_write [Reg 0, Write_buf, Imm 0x8a], Count,
    Syscall NR_write [Reg 0, Write_buf, Imm 0x8a], Count, Syscall NR_write [Reg 0, Write_buf, Imm 0x8a], Count,
    Syscall NR_write [Reg 0, Write_buf, Imm 0x8a], Count, Syscall NR_write [Reg 0, Write_buf, Imm 0x8a], Count,
    Syscall NR_write [Reg 0, Write_buf, Imm 0x8a], Count, Syscall NR_write [Reg 0, Write_buf, Imm 0x8a], Count,
    Syscall NR_write [Reg 0, Write_buf, Imm 0x8a], Count, Syscall NR_write [Reg 0, Write_buf, Imm 0x8a], Count,
    Syscall NR_write [Reg 0, Write_buf, Imm 0x8a], Count, Syscall NR_write [Reg 0, Write_buf, Imm 0x8a], Count]"

definition min_rocks_write_fcntl_0_0_body333 :: "stmt list" where
  "min_rocks_write_fcntl_0_0_body333 = [
    Syscall NR_write [Reg 0, Write_buf, Imm 0x8a], Count, Syscall NR_write [Reg 0, Write_buf, Imm 0x8a], Count,
    Syscall NR_write [Reg 0, Write_buf, Imm 0x8a], Count, Syscall NR_write [Reg 0, Write_buf, Imm 0x8a], Count,
    Syscall NR_write [Reg 0, Write_buf, Imm 0x8a], Count, Syscall NR_write [Reg 0, Write_buf, Imm 0x8a], Count,
    Syscall NR_write [Reg 0, Write_buf, Imm 0x8a], Count, Syscall NR_write [Reg 0, Write_buf, Imm 0x8a], Count,
    Syscall NR_write [Reg 0, Write_buf, Imm 0x8a], Count, Syscall NR_write [Reg 0, Write_buf, Imm 0x8a], Count,
    Syscall NR_write [Reg 0, Write_buf, Imm 0x8a], Count, Syscall NR_write [Reg 0, Write_buf, Imm 0x8a], Count,
    Syscall NR_write [Reg 0, Write_buf, Imm 0x8a], Count, Syscall NR_write [Reg 0, Write_buf, Imm 0x8a], Count]"

definition min_rocks_write_fcntl_0_0_body334 :: "stmt list" where
  "min_rocks_write_fcntl_0_0_body334 = [
    Syscall NR_write [Reg 0, Write_buf, Imm 0x8a], Count, Syscall NR_write [Reg 0, Write_buf, Imm 0x8a], Count,
    Syscall NR_write [Reg 0, Write_buf, Imm 0x8a], Count, Syscall NR_write [Reg 0, Write_buf, Imm 0x8a], Count,
    Syscall NR_write [Reg 0, Write_buf, Imm 0x8a], Count, Syscall NR_write [Reg 0, Write_buf, Imm 0x8a], Count,
    Syscall NR_write [Reg 0, Write_buf, Imm 0x8a], Count, Syscall NR_write [Reg 0, Write_buf, Imm 0x8a], Count,
    Syscall NR_write [Reg 0, Write_buf, Imm 0x8a], Count, Syscall NR_write [Reg 0, Write_buf, Imm 0x8a], Count,
    Syscall NR_write [Reg 0, Write_buf, Imm 0x8a], Count, Syscall NR_write [Reg 0, Write_buf, Imm 0x8a], Count,
    Syscall NR_write [Reg 0, Write_buf, Imm 0x8a], Count, Syscall NR_write [Reg 0, Write_buf, Imm 0x8a], Count]"

definition min_rocks_write_fcntl_0_0_body335 :: "stmt list" where
  "min_rocks_write_fcntl_0_0_body335 = [
    Syscall NR_write [Reg 0, Write_buf, Imm 0x8a], Count, Syscall NR_write [Reg 0, Write_buf, Imm 0x8a], Count,
    Syscall NR_write [Reg 0, Write_buf, Imm 0x8a], Count, Syscall NR_write [Reg 0, Write_buf, Imm 0x8a], Count,
    Syscall NR_write [Reg 0, Write_buf, Imm 0x8a], Count, Syscall NR_write [Reg 0, Write_buf, Imm 0x8a], Count,
    Syscall NR_write [Reg 0, Write_buf, Imm 0x8a], Count, Syscall NR_write [Reg 0, Write_buf, Imm 0x8a], Count,
    Syscall NR_write [Reg 0, Write_buf, Imm 0x8a], Count, Syscall NR_write [Reg 0, Write_buf, Imm 0x8a], Count,
    Syscall NR_write [Reg 0, Write_buf, Imm 0x8a], Count, Syscall NR_write [Reg 0, Write_buf, Imm 0x8a], Count,
    Syscall NR_write [Reg 0, Write_buf, Imm 0x8a], Count, Syscall NR_write [Reg 0, Write_buf, Imm 0x8a], Count]"

definition min_rocks_write_fcntl_0_0_body336 :: "stmt list" where
  "min_rocks_write_fcntl_0_0_body336 = [
    Syscall NR_write [Reg 0, Write_buf, Imm 0x8a], Count, Syscall NR_write [Reg 0, Write_buf, Imm 0x8a], Count,
    Syscall NR_write [Reg 0, Write_buf, Imm 0x8a], Count, Syscall NR_write [Reg 0, Write_buf, Imm 0x8a], Count,
    Syscall NR_write [Reg 0, Write_buf, Imm 0x8a], Count, Syscall NR_write [Reg 0, Write_buf, Imm 0x8a], Count,
    Syscall NR_write [Reg 0, Write_buf, Imm 0x8a], Count, Syscall NR_write [Reg 0, Write_buf, Imm 0x8a], Count,
    Syscall NR_write [Reg 0, Write_buf, Imm 0x8a], Count, Syscall NR_write [Reg 0, Write_buf, Imm 0x8a], Count,
    Syscall NR_write [Reg 0, Write_buf, Imm 0x8a], Count, Syscall NR_write [Reg 0, Write_buf, Imm 0x8a], Count,
    Syscall NR_write [Reg 0, Write_buf, Imm 0x8a], Count, Syscall NR_write [Reg 0, Write_buf, Imm 0x8a], Count]"

definition min_rocks_write_fcntl_0_0_body337 :: "stmt list" where
  "min_rocks_write_fcntl_0_0_body337 = [
    Syscall NR_write [Reg 0, Write_buf, Imm 0x8a], Count, Syscall NR_write [Reg 0, Write_buf, Imm 0x8a], Count,
    Syscall NR_write [Reg 0, Write_buf, Imm 0x8a], Count, Syscall NR_write [Reg 0, Write_buf, Imm 0x8a], Count,
    Syscall NR_write [Reg 0, Write_buf, Imm 0x8a], Count, Syscall NR_write [Reg 0, Write_buf, Imm 0x8a], Count,
    Syscall NR_write [Reg 0, Write_buf, Imm 0x8a], Count, Syscall NR_write [Reg 0, Write_buf, Imm 0x8a], Count,
    Syscall NR_write [Reg 0, Write_buf, Imm 0x8a], Count, Syscall NR_write [Reg 0, Write_buf, Imm 0x8a], Count,
    Syscall NR_write [Reg 0, Write_buf, Imm 0x8a], Count, Syscall NR_write [Reg 0, Write_buf, Imm 0x8a], Count,
    Syscall NR_write [Reg 0, Write_buf, Imm 0x8a], Count, Syscall NR_write [Reg 0, Write_buf, Imm 0x8a], Count]"

definition min_rocks_write_fcntl_0_0_body338 :: "stmt list" where
  "min_rocks_write_fcntl_0_0_body338 = [
    Syscall NR_write [Reg 0, Write_buf, Imm 0x8a], Count, Syscall NR_write [Reg 0, Write_buf, Imm 0x8a], Count,
    Syscall NR_write [Reg 0, Write_buf, Imm 0x8a], Count, Syscall NR_write [Reg 0, Write_buf, Imm 0x8a], Count,
    Syscall NR_write [Reg 0, Write_buf, Imm 0x8a], Count, Syscall NR_write [Reg 0, Write_buf, Imm 0x8a], Count,
    Syscall NR_write [Reg 0, Write_buf, Imm 0x8a], Count, Syscall NR_write [Reg 0, Write_buf, Imm 0x8a], Count,
    Syscall NR_write [Reg 0, Write_buf, Imm 0x8a], Count, Syscall NR_write [Reg 0, Write_buf, Imm 0x8a], Count,
    Syscall NR_write [Reg 0, Write_buf, Imm 0x8a], Count, Syscall NR_write [Reg 0, Write_buf, Imm 0x8a], Count,
    Syscall NR_write [Reg 0, Write_buf, Imm 0x8a], Count, Syscall NR_write [Reg 0, Write_buf, Imm 0x8a], Count]"

definition min_rocks_write_fcntl_0_0_body339 :: "stmt list" where
  "min_rocks_write_fcntl_0_0_body339 = [
    Syscall NR_write [Reg 0, Write_buf, Imm 0x8a], Count, Syscall NR_write [Reg 0, Write_buf, Imm 0x8a], Count,
    Syscall NR_write [Reg 0, Write_buf, Imm 0x8a], Count, Syscall NR_write [Reg 0, Write_buf, Imm 0x8a], Count,
    Syscall NR_write [Reg 0, Write_buf, Imm 0x8a], Count, Syscall NR_write [Reg 0, Write_buf, Imm 0x8a], Count,
    Syscall NR_write [Reg 0, Write_buf, Imm 0x8a], Count, Syscall NR_write [Reg 0, Write_buf, Imm 0x8a], Count,
    Syscall NR_write [Reg 0, Write_buf, Imm 0x91], Count, Syscall NR_write [Reg 0, Write_buf, Imm 0x8a], Count,
    Syscall NR_write [Reg 0, Write_buf, Imm 0x8a], Count, Syscall NR_write [Reg 0, Write_buf, Imm 0x8a], Count,
    Syscall NR_write [Reg 0, Write_buf, Imm 0x8a], Count, Syscall NR_write [Reg 0, Write_buf, Imm 0x8a], Count]"

definition min_rocks_write_fcntl_0_0_body340 :: "stmt list" where
  "min_rocks_write_fcntl_0_0_body340 = [
    Syscall NR_write [Reg 0, Write_buf, Imm 0x8a], Count, Syscall NR_write [Reg 0, Write_buf, Imm 0x8a], Count,
    Syscall NR_write [Reg 0, Write_buf, Imm 0x8a], Count, Syscall NR_write [Reg 0, Write_buf, Imm 0x8a], Count,
    Syscall NR_write [Reg 0, Write_buf, Imm 0x8a], Count, Syscall NR_write [Reg 0, Write_buf, Imm 0x8a], Count,
    Syscall NR_write [Reg 0, Write_buf, Imm 0x8a], Count, Syscall NR_write [Reg 0, Write_buf, Imm 0x8a], Count,
    Syscall NR_write [Reg 0, Write_buf, Imm 0x8a], Count, Syscall NR_write [Reg 0, Write_buf, Imm 0x8a], Count,
    Syscall NR_write [Reg 0, Write_buf, Imm 0x8a], Count, Syscall NR_write [Reg 0, Write_buf, Imm 0x8a], Count,
    Syscall NR_write [Reg 0, Write_buf, Imm 0x8a], Count, Syscall NR_write [Reg 0, Write_buf, Imm 0x8a], Count]"

definition min_rocks_write_fcntl_0_0_body341 :: "stmt list" where
  "min_rocks_write_fcntl_0_0_body341 = [
    Syscall NR_write [Reg 0, Write_buf, Imm 0x8a], Count, Syscall NR_write [Reg 0, Write_buf, Imm 0x8a], Count,
    Syscall NR_write [Reg 0, Write_buf, Imm 0x8a], Count, Syscall NR_write [Reg 0, Write_buf, Imm 0x8a], Count,
    Syscall NR_write [Reg 0, Write_buf, Imm 0x8a], Count, Syscall NR_write [Reg 0, Write_buf, Imm 0x8a], Count,
    Syscall NR_write [Reg 0, Write_buf, Imm 0x8a], Count, Syscall NR_write [Reg 0, Write_buf, Imm 0x8a], Count,
    Syscall NR_write [Reg 0, Write_buf, Imm 0x8a], Count, Syscall NR_write [Reg 0, Write_buf, Imm 0x8a], Count,
    Syscall NR_write [Reg 0, Write_buf, Imm 0x8a], Count, Syscall NR_write [Reg 0, Write_buf, Imm 0x8a], Count,
    Syscall NR_write [Reg 0, Write_buf, Imm 0x8a], Count, Syscall NR_write [Reg 0, Write_buf, Imm 0x8a], Count]"

definition min_rocks_write_fcntl_0_0_body342 :: "stmt list" where
  "min_rocks_write_fcntl_0_0_body342 = [
    Syscall NR_write [Reg 0, Write_buf, Imm 0x8a], Count, Syscall NR_write [Reg 0, Write_buf, Imm 0x8a], Count,
    Syscall NR_write [Reg 0, Write_buf, Imm 0x8a], Count, Syscall NR_write [Reg 0, Write_buf, Imm 0x8a], Count,
    Syscall NR_write [Reg 0, Write_buf, Imm 0x8a], Count, Syscall NR_write [Reg 0, Write_buf, Imm 0x8a], Count,
    Syscall NR_write [Reg 0, Write_buf, Imm 0x8a], Count, Syscall NR_write [Reg 0, Write_buf, Imm 0x8a], Count,
    Syscall NR_write [Reg 0, Write_buf, Imm 0x8a], Count, Syscall NR_write [Reg 0, Write_buf, Imm 0x8a], Count,
    Syscall NR_write [Reg 0, Write_buf, Imm 0x8a], Count, Syscall NR_write [Reg 0, Write_buf, Imm 0x8a], Count,
    Syscall NR_write [Reg 0, Write_buf, Imm 0x8a], Count, Syscall NR_write [Reg 0, Write_buf, Imm 0x8a], Count]"

definition min_rocks_write_fcntl_0_0_body343 :: "stmt list" where
  "min_rocks_write_fcntl_0_0_body343 = [
    Syscall NR_write [Reg 0, Write_buf, Imm 0x8a], Count, Syscall NR_write [Reg 0, Write_buf, Imm 0x8a], Count,
    Syscall NR_write [Reg 0, Write_buf, Imm 0x8a], Count, Syscall NR_write [Reg 0, Write_buf, Imm 0x8a], Count,
    Syscall NR_write [Reg 0, Write_buf, Imm 0x8a], Count, Syscall NR_write [Reg 0, Write_buf, Imm 0x8a], Count,
    Syscall NR_write [Reg 0, Write_buf, Imm 0x8a], Count, Syscall NR_write [Reg 0, Write_buf, Imm 0x8a], Count,
    Syscall NR_write [Reg 0, Write_buf, Imm 0x8a], Count, Syscall NR_write [Reg 0, Write_buf, Imm 0x8a], Count,
    Syscall NR_write [Reg 0, Write_buf, Imm 0x8a], Count, Syscall NR_write [Reg 0, Write_buf, Imm 0x8a], Count,
    Syscall NR_write [Reg 0, Write_buf, Imm 0x8a], Count, Syscall NR_write [Reg 0, Write_buf, Imm 0x8a], Count]"

definition min_rocks_write_fcntl_0_0_body344 :: "stmt list" where
  "min_rocks_write_fcntl_0_0_body344 = [
    Syscall NR_write [Reg 0, Write_buf, Imm 0x8a], Count, Syscall NR_write [Reg 0, Write_buf, Imm 0x8a], Count,
    Syscall NR_write [Reg 0, Write_buf, Imm 0x8a], Count, Syscall NR_write [Reg 0, Write_buf, Imm 0x8a], Count,
    Syscall NR_write [Reg 0, Write_buf, Imm 0x8a], Count, Syscall NR_write [Reg 0, Write_buf, Imm 0x8a], Count,
    Syscall NR_write [Reg 0, Write_buf, Imm 0x8a], Count, Syscall NR_write [Reg 0, Write_buf, Imm 0x8a], Count,
    Syscall NR_write [Reg 0, Write_buf, Imm 0x8a], Count, Syscall NR_write [Reg 0, Write_buf, Imm 0x8a], Count,
    Syscall NR_write [Reg 0, Write_buf, Imm 0x8a], Count, Syscall NR_write [Reg 0, Write_buf, Imm 0x8a], Count,
    Syscall NR_write [Reg 0, Write_buf, Imm 0x8a], Count, Syscall NR_write [Reg 0, Write_buf, Imm 0x8a], Count]"

definition min_rocks_write_fcntl_0_0_body345 :: "stmt list" where
  "min_rocks_write_fcntl_0_0_body345 = [
    Syscall NR_write [Reg 0, Write_buf, Imm 0x8a], Count, Syscall NR_write [Reg 0, Write_buf, Imm 0x8a], Count,
    Syscall NR_write [Reg 0, Write_buf, Imm 0x8a], Count, Syscall NR_write [Reg 0, Write_buf, Imm 0x8a], Count,
    Syscall NR_write [Reg 0, Write_buf, Imm 0x8a], Count, Syscall NR_write [Reg 0, Write_buf, Imm 0x8a], Count,
    Syscall NR_write [Reg 0, Write_buf, Imm 0x8a], Count, Syscall NR_write [Reg 0, Write_buf, Imm 0x8a], Count,
    Syscall NR_write [Reg 0, Write_buf, Imm 0x8a], Count, Syscall NR_write [Reg 0, Write_buf, Imm 0x8a], Count,
    Syscall NR_write [Reg 0, Write_buf, Imm 0x8a], Count, Syscall NR_write [Reg 0, Write_buf, Imm 0x8a], Count,
    Syscall NR_write [Reg 0, Write_buf, Imm 0x8a], Count, Syscall NR_write [Reg 0, Write_buf, Imm 0x8a], Count]"

definition min_rocks_write_fcntl_0_0_body346 :: "stmt list" where
  "min_rocks_write_fcntl_0_0_body346 = [
    Syscall NR_write [Reg 0, Write_buf, Imm 0x8a], Count, Syscall NR_write [Reg 0, Write_buf, Imm 0x8a], Count,
    Syscall NR_write [Reg 0, Write_buf, Imm 0x8a], Count, Syscall NR_write [Reg 0, Write_buf, Imm 0x8a], Count,
    Syscall NR_write [Reg 0, Write_buf, Imm 0x8a], Count, Syscall NR_write [Reg 0, Write_buf, Imm 0x8a], Count,
    Syscall NR_write [Reg 0, Write_buf, Imm 0x8a], Count, Syscall NR_write [Reg 0, Write_buf, Imm 0x8a], Count,
    Syscall NR_write [Reg 0, Write_buf, Imm 0x8a], Count, Syscall NR_write [Reg 0, Write_buf, Imm 0x8a], Count,
    Syscall NR_write [Reg 0, Write_buf, Imm 0x8a], Count, Syscall NR_write [Reg 0, Write_buf, Imm 0x8a], Count,
    Syscall NR_write [Reg 0, Write_buf, Imm 0x8a], Count, Syscall NR_write [Reg 0, Write_buf, Imm 0x8a], Count]"

definition min_rocks_write_fcntl_0_0_body347 :: "stmt list" where
  "min_rocks_write_fcntl_0_0_body347 = [
    Syscall NR_write [Reg 0, Write_buf, Imm 0x8a], Count, Syscall NR_write [Reg 0, Write_buf, Imm 0x8a], Count,
    Syscall NR_write [Reg 0, Write_buf, Imm 0x8a], Count, Syscall NR_write [Reg 0, Write_buf, Imm 0x8a], Count,
    Syscall NR_write [Reg 0, Write_buf, Imm 0x8a], Count, Syscall NR_write [Reg 0, Write_buf, Imm 0x8a], Count,
    Syscall NR_write [Reg 0, Write_buf, Imm 0x8a], Count, Syscall NR_write [Reg 0, Write_buf, Imm 0x8a], Count,
    Syscall NR_write [Reg 0, Write_buf, Imm 0x8a], Count, Syscall NR_write [Reg 0, Write_buf, Imm 0x8a], Count,
    Syscall NR_write [Reg 0, Write_buf, Imm 0x8a], Count, Syscall NR_write [Reg 0, Write_buf, Imm 0x8a], Count,
    Syscall NR_write [Reg 0, Write_buf, Imm 0x8a], Count, Syscall NR_write [Reg 0, Write_buf, Imm 0x8a], Count]"

definition min_rocks_write_fcntl_0_0_body348 :: "stmt list" where
  "min_rocks_write_fcntl_0_0_body348 = [
    Syscall NR_write [Reg 0, Write_buf, Imm 0x8a], Count, Syscall NR_write [Reg 0, Write_buf, Imm 0x8a], Count,
    Syscall NR_write [Reg 0, Write_buf, Imm 0x8a], Count, Syscall NR_write [Reg 0, Write_buf, Imm 0x8a], Count,
    Syscall NR_write [Reg 0, Write_buf, Imm 0x8a], Count, Syscall NR_write [Reg 0, Write_buf, Imm 0x8a], Count,
    Syscall NR_write [Reg 0, Write_buf, Imm 0x8a], Count, Syscall NR_write [Reg 0, Write_buf, Imm 0x8a], Count,
    Syscall NR_write [Reg 0, Write_buf, Imm 0x8a], Count, Syscall NR_write [Reg 0, Write_buf, Imm 0x8a], Count,
    Syscall NR_write [Reg 0, Write_buf, Imm 0x8a], Count, Syscall NR_write [Reg 0, Write_buf, Imm 0x8a], Count,
    Syscall NR_write [Reg 0, Write_buf, Imm 0x8a], Count, Syscall NR_write [Reg 0, Write_buf, Imm 0x8a], Count]"

definition min_rocks_write_fcntl_0_0_body349 :: "stmt list" where
  "min_rocks_write_fcntl_0_0_body349 = [
    Syscall NR_write [Reg 0, Write_buf, Imm 0x8a], Count, Syscall NR_write [Reg 0, Write_buf, Imm 0x8a], Count,
    Syscall NR_write [Reg 0, Write_buf, Imm 0x8a], Count, Syscall NR_write [Reg 0, Write_buf, Imm 0x8a], Count,
    Syscall NR_write [Reg 0, Write_buf, Imm 0x8a], Count, Syscall NR_write [Reg 0, Write_buf, Imm 0x8a], Count,
    Syscall NR_write [Reg 0, Write_buf, Imm 0x8a], Count, Syscall NR_write [Reg 0, Write_buf, Imm 0x8a], Count,
    Syscall NR_write [Reg 0, Write_buf, Imm 0x8a], Count, Syscall NR_write [Reg 0, Write_buf, Imm 0x8a], Count,
    Syscall NR_write [Reg 0, Write_buf, Imm 0x8a], Count, Syscall NR_write [Reg 0, Write_buf, Imm 0x8a], Count,
    Syscall NR_write [Reg 0, Write_buf, Imm 0x8a], Count, Syscall NR_write [Reg 0, Write_buf, Imm 0x8a], Count]"

definition min_rocks_write_fcntl_0_0_body350 :: "stmt list" where
  "min_rocks_write_fcntl_0_0_body350 = [
    Syscall NR_write [Reg 0, Write_buf, Imm 0x8a], Count, Syscall NR_write [Reg 0, Write_buf, Imm 0x8a], Count,
    Syscall NR_write [Reg 0, Write_buf, Imm 0x8a], Count, Syscall NR_write [Reg 0, Write_buf, Imm 0x8a], Count,
    Syscall NR_write [Reg 0, Write_buf, Imm 0x8a], Count, Syscall NR_write [Reg 0, Write_buf, Imm 0x8a], Count,
    Syscall NR_write [Reg 0, Write_buf, Imm 0x8a], Count, Syscall NR_write [Reg 0, Write_buf, Imm 0x8a], Count,
    Syscall NR_write [Reg 0, Write_buf, Imm 0x8a], Count, Syscall NR_write [Reg 0, Write_buf, Imm 0x8a], Count,
    Syscall NR_write [Reg 0, Write_buf, Imm 0x8a], Count, Syscall NR_write [Reg 0, Write_buf, Imm 0x8a], Count,
    Syscall NR_write [Reg 0, Write_buf, Imm 0x8a], Count, Syscall NR_write [Reg 0, Write_buf, Imm 0x8a], Count]"

definition min_rocks_write_fcntl_0_0_body351 :: "stmt list" where
  "min_rocks_write_fcntl_0_0_body351 = [
    Syscall NR_write [Reg 0, Write_buf, Imm 0x8a], Count, Syscall NR_write [Reg 0, Write_buf, Imm 0x8a], Count,
    Syscall NR_write [Reg 0, Write_buf, Imm 0x8a], Count, Syscall NR_write [Reg 0, Write_buf, Imm 0x8a], Count,
    Syscall NR_write [Reg 0, Write_buf, Imm 0x8a], Count, Syscall NR_write [Reg 0, Write_buf, Imm 0x8a], Count,
    Syscall NR_write [Reg 0, Write_buf, Imm 0x8a], Count, Syscall NR_write [Reg 0, Write_buf, Imm 0x8a], Count,
    Syscall NR_write [Reg 0, Write_buf, Imm 0x8a], Count, Syscall NR_write [Reg 0, Write_buf, Imm 0x8a], Count,
    Syscall NR_write [Reg 0, Write_buf, Imm 0x8a], Count, Syscall NR_write [Reg 0, Write_buf, Imm 0x8a], Count,
    Syscall NR_write [Reg 0, Write_buf, Imm 0x8a], Count, Syscall NR_write [Reg 0, Write_buf, Imm 0x8a], Count]"

definition min_rocks_write_fcntl_0_0_body352 :: "stmt list" where
  "min_rocks_write_fcntl_0_0_body352 = [
    Syscall NR_write [Reg 0, Write_buf, Imm 0x8a], Count, Syscall NR_write [Reg 0, Write_buf, Imm 0x8a], Count,
    Syscall NR_write [Reg 0, Write_buf, Imm 0x8a], Count, Syscall NR_write [Reg 0, Write_buf, Imm 0x8a], Count,
    Syscall NR_write [Reg 0, Write_buf, Imm 0x8a], Count, Syscall NR_write [Reg 0, Write_buf, Imm 0x8a], Count,
    Syscall NR_write [Reg 0, Write_buf, Imm 0x8a], Count, Syscall NR_write [Reg 0, Write_buf, Imm 0x8a], Count,
    Syscall NR_write [Reg 0, Write_buf, Imm 0x8a], Count, Syscall NR_write [Reg 0, Write_buf, Imm 0x8a], Count,
    Syscall NR_write [Reg 0, Write_buf, Imm 0x8a], Count, Syscall NR_write [Reg 0, Write_buf, Imm 0x8a], Count,
    Syscall NR_write [Reg 0, Write_buf, Imm 0x8a], Count, Syscall NR_write [Reg 0, Write_buf, Imm 0x8a], Count]"

definition min_rocks_write_fcntl_0_0_body353 :: "stmt list" where
  "min_rocks_write_fcntl_0_0_body353 = [
    Syscall NR_write [Reg 0, Write_buf, Imm 0x8a], Count, Syscall NR_write [Reg 0, Write_buf, Imm 0x8a], Count,
    Syscall NR_write [Reg 0, Write_buf, Imm 0x8a], Count, Syscall NR_write [Reg 0, Write_buf, Imm 0x8a], Count,
    Syscall NR_write [Reg 0, Write_buf, Imm 0x8a], Count, Syscall NR_write [Reg 0, Write_buf, Imm 0x8a], Count,
    Syscall NR_write [Reg 0, Write_buf, Imm 0x8a], Count, Syscall NR_write [Reg 0, Write_buf, Imm 0x8a], Count,
    Syscall NR_write [Reg 0, Write_buf, Imm 0x8a], Count, Syscall NR_write [Reg 0, Write_buf, Imm 0x8a], Count,
    Syscall NR_write [Reg 0, Write_buf, Imm 0x8a], Count, Syscall NR_write [Reg 0, Write_buf, Imm 0x8a], Count,
    Syscall NR_write [Reg 0, Write_buf, Imm 0x8a], Count, Syscall NR_write [Reg 0, Write_buf, Imm 0x8a], Count]"

definition min_rocks_write_fcntl_0_0_body354 :: "stmt list" where
  "min_rocks_write_fcntl_0_0_body354 = [
    Syscall NR_write [Reg 0, Write_buf, Imm 0x8a], Count, Syscall NR_write [Reg 0, Write_buf, Imm 0x8a], Count,
    Syscall NR_write [Reg 0, Write_buf, Imm 0x8a], Count, Syscall NR_write [Reg 0, Write_buf, Imm 0x8a], Count,
    Syscall NR_write [Reg 0, Write_buf, Imm 0x8a], Count, Syscall NR_write [Reg 0, Write_buf, Imm 0x8a], Count,
    Syscall NR_write [Reg 0, Write_buf, Imm 0x8a], Count, Syscall NR_write [Reg 0, Write_buf, Imm 0x8a], Count,
    Syscall NR_write [Reg 0, Write_buf, Imm 0x8a], Count, Syscall NR_write [Reg 0, Write_buf, Imm 0x8a], Count,
    Syscall NR_write [Reg 0, Write_buf, Imm 0x8a], Count, Syscall NR_write [Reg 0, Write_buf, Imm 0x8a], Count,
    Syscall NR_write [Reg 0, Write_buf, Imm 0x8a], Count, Syscall NR_write [Reg 0, Write_buf, Imm 0x8a], Count]"

definition min_rocks_write_fcntl_0_0_body355 :: "stmt list" where
  "min_rocks_write_fcntl_0_0_body355 = [
    Syscall NR_write [Reg 0, Write_buf, Imm 0x8a], Count, Syscall NR_write [Reg 0, Write_buf, Imm 0x8a], Count,
    Syscall NR_write [Reg 0, Write_buf, Imm 0x8a], Count, Syscall NR_write [Reg 0, Write_buf, Imm 0x8a], Count,
    Syscall NR_write [Reg 0, Write_buf, Imm 0x8a], Count, Syscall NR_write [Reg 0, Write_buf, Imm 0x8a], Count,
    Syscall NR_write [Reg 0, Write_buf, Imm 0x8a], Count, Syscall NR_write [Reg 0, Write_buf, Imm 0x8a], Count,
    Syscall NR_write [Reg 0, Write_buf, Imm 0x8a], Count, Syscall NR_write [Reg 0, Write_buf, Imm 0x8a], Count,
    Syscall NR_write [Reg 0, Write_buf, Imm 0x8a], Count, Syscall NR_write [Reg 0, Write_buf, Imm 0x8a], Count,
    Syscall NR_write [Reg 0, Write_buf, Imm 0x8a], Count, Syscall NR_write [Reg 0, Write_buf, Imm 0x8a], Count]"

definition min_rocks_write_fcntl_0_0_body356 :: "stmt list" where
  "min_rocks_write_fcntl_0_0_body356 = [
    Syscall NR_write [Reg 0, Write_buf, Imm 0x8a], Count, Syscall NR_write [Reg 0, Write_buf, Imm 0x8a], Count,
    Syscall NR_write [Reg 0, Write_buf, Imm 0x8a], Count, Syscall NR_write [Reg 0, Write_buf, Imm 0x8a], Count,
    Syscall NR_write [Reg 0, Write_buf, Imm 0x8a], Count, Syscall NR_write [Reg 0, Write_buf, Imm 0x8a], Count,
    Syscall NR_write [Reg 0, Write_buf, Imm 0x8a], Count, Syscall NR_write [Reg 0, Write_buf, Imm 0x91], Count,
    Syscall NR_write [Reg 0, Write_buf, Imm 0x8a], Count, Syscall NR_write [Reg 0, Write_buf, Imm 0x8a], Count,
    Syscall NR_write [Reg 0, Write_buf, Imm 0x8a], Count, Syscall NR_write [Reg 0, Write_buf, Imm 0x8a], Count,
    Syscall NR_write [Reg 0, Write_buf, Imm 0x8a], Count, Syscall NR_write [Reg 0, Write_buf, Imm 0x8a], Count]"

definition min_rocks_write_fcntl_0_0_body357 :: "stmt list" where
  "min_rocks_write_fcntl_0_0_body357 = [
    Syscall NR_write [Reg 0, Write_buf, Imm 0x8a], Count, Syscall NR_write [Reg 0, Write_buf, Imm 0x8a], Count,
    Syscall NR_write [Reg 0, Write_buf, Imm 0x8a], Count, Syscall NR_write [Reg 0, Write_buf, Imm 0x8a], Count,
    Syscall NR_write [Reg 0, Write_buf, Imm 0x8a], Count, Syscall NR_write [Reg 0, Write_buf, Imm 0x8a], Count,
    Syscall NR_write [Reg 0, Write_buf, Imm 0x8a], Count, Syscall NR_write [Reg 0, Write_buf, Imm 0x8a], Count,
    Syscall NR_write [Reg 0, Write_buf, Imm 0x8a], Count, Syscall NR_write [Reg 0, Write_buf, Imm 0x8a], Count,
    Syscall NR_write [Reg 0, Write_buf, Imm 0x8a], Count, Syscall NR_write [Reg 0, Write_buf, Imm 0x8a], Count,
    Syscall NR_write [Reg 0, Write_buf, Imm 0x8a], Count, Syscall NR_write [Reg 0, Write_buf, Imm 0x8a], Count]"

definition min_rocks_write_fcntl_0_0_body358 :: "stmt list" where
  "min_rocks_write_fcntl_0_0_body358 = [
    Syscall NR_write [Reg 0, Write_buf, Imm 0x8a], Count, Syscall NR_write [Reg 0, Write_buf, Imm 0x8a], Count,
    Syscall NR_write [Reg 0, Write_buf, Imm 0x8a], Count, Syscall NR_write [Reg 0, Write_buf, Imm 0x8a], Count,
    Syscall NR_write [Reg 0, Write_buf, Imm 0x8a], Count, Syscall NR_write [Reg 0, Write_buf, Imm 0x8a], Count,
    Syscall NR_write [Reg 0, Write_buf, Imm 0x8a], Count, Syscall NR_write [Reg 0, Write_buf, Imm 0x8a], Count,
    Syscall NR_write [Reg 0, Write_buf, Imm 0x8a], Count, Syscall NR_write [Reg 0, Write_buf, Imm 0x8a], Count,
    Syscall NR_write [Reg 0, Write_buf, Imm 0x8a], Count, Syscall NR_write [Reg 0, Write_buf, Imm 0x8a], Count,
    Syscall NR_write [Reg 0, Write_buf, Imm 0x8a], Count, Syscall NR_write [Reg 0, Write_buf, Imm 0x8a], Count]"

definition min_rocks_write_fcntl_0_0_body359 :: "stmt list" where
  "min_rocks_write_fcntl_0_0_body359 = [
    Syscall NR_write [Reg 0, Write_buf, Imm 0x8a], Count, Syscall NR_write [Reg 0, Write_buf, Imm 0x8a], Count,
    Syscall NR_write [Reg 0, Write_buf, Imm 0x8a], Count, Syscall NR_write [Reg 0, Write_buf, Imm 0x8a], Count,
    Syscall NR_write [Reg 0, Write_buf, Imm 0x8a], Count, Syscall NR_write [Reg 0, Write_buf, Imm 0x8a], Count,
    Syscall NR_write [Reg 0, Write_buf, Imm 0x8a], Count, Syscall NR_write [Reg 0, Write_buf, Imm 0x8a], Count,
    Syscall NR_write [Reg 0, Write_buf, Imm 0x8a], Count, Syscall NR_write [Reg 0, Write_buf, Imm 0x8a], Count,
    Syscall NR_write [Reg 0, Write_buf, Imm 0x8a], Count, Syscall NR_write [Reg 0, Write_buf, Imm 0x8a], Count,
    Syscall NR_write [Reg 0, Write_buf, Imm 0x8a], Count, Syscall NR_write [Reg 0, Write_buf, Imm 0x8a], Count]"

definition min_rocks_write_fcntl_0_0_body360 :: "stmt list" where
  "min_rocks_write_fcntl_0_0_body360 = [
    Syscall NR_write [Reg 0, Write_buf, Imm 0x8a], Count, Syscall NR_write [Reg 0, Write_buf, Imm 0x8a], Count,
    Syscall NR_write [Reg 0, Write_buf, Imm 0x8a], Count, Syscall NR_write [Reg 0, Write_buf, Imm 0x8a], Count,
    Syscall NR_write [Reg 0, Write_buf, Imm 0x8a], Count, Syscall NR_write [Reg 0, Write_buf, Imm 0x8a], Count,
    Syscall NR_write [Reg 0, Write_buf, Imm 0x8a], Count, Syscall NR_write [Reg 0, Write_buf, Imm 0x8a], Count,
    Syscall NR_write [Reg 0, Write_buf, Imm 0x8a], Count, Syscall NR_write [Reg 0, Write_buf, Imm 0x8a], Count,
    Syscall NR_write [Reg 0, Write_buf, Imm 0x8a], Count, Syscall NR_write [Reg 0, Write_buf, Imm 0x8a], Count,
    Syscall NR_write [Reg 0, Write_buf, Imm 0x8a], Count, Syscall NR_write [Reg 0, Write_buf, Imm 0x8a], Count]"

lemma min_rocks_write_fcntl_0_0_body241_ok: "body_ok (Suc 0) 145 min_rocks_write_fcntl_0_0_body241" "counted min_rocks_write_fcntl_0_0_body241" "calls min_rocks_write_fcntl_0_0_body241 = 14" "opened_in m min_rocks_write_fcntl_0_0_body241 = []"
  by (simp_all add: min_rocks_write_fcntl_0_0_body241_def prog_checks open_checks)

lemma min_rocks_write_fcntl_0_0_body242_ok: "body_ok (Suc 0) 145 min_rocks_write_fcntl_0_0_body242" "counted min_rocks_write_fcntl_0_0_body242" "calls min_rocks_write_fcntl_0_0_body242 = 14" "opened_in m min_rocks_write_fcntl_0_0_body242 = []"
  by (simp_all add: min_rocks_write_fcntl_0_0_body242_def prog_checks open_checks)

lemma min_rocks_write_fcntl_0_0_body243_ok: "body_ok (Suc 0) 145 min_rocks_write_fcntl_0_0_body243" "counted min_rocks_write_fcntl_0_0_body243" "calls min_rocks_write_fcntl_0_0_body243 = 14" "opened_in m min_rocks_write_fcntl_0_0_body243 = []"
  by (simp_all add: min_rocks_write_fcntl_0_0_body243_def prog_checks open_checks)

lemma min_rocks_write_fcntl_0_0_body244_ok: "body_ok (Suc 0) 145 min_rocks_write_fcntl_0_0_body244" "counted min_rocks_write_fcntl_0_0_body244" "calls min_rocks_write_fcntl_0_0_body244 = 14" "opened_in m min_rocks_write_fcntl_0_0_body244 = []"
  by (simp_all add: min_rocks_write_fcntl_0_0_body244_def prog_checks open_checks)

lemma min_rocks_write_fcntl_0_0_body245_ok: "body_ok (Suc 0) 145 min_rocks_write_fcntl_0_0_body245" "counted min_rocks_write_fcntl_0_0_body245" "calls min_rocks_write_fcntl_0_0_body245 = 14" "opened_in m min_rocks_write_fcntl_0_0_body245 = []"
  by (simp_all add: min_rocks_write_fcntl_0_0_body245_def prog_checks open_checks)

lemma min_rocks_write_fcntl_0_0_body246_ok: "body_ok (Suc 0) 145 min_rocks_write_fcntl_0_0_body246" "counted min_rocks_write_fcntl_0_0_body246" "calls min_rocks_write_fcntl_0_0_body246 = 14" "opened_in m min_rocks_write_fcntl_0_0_body246 = []"
  by (simp_all add: min_rocks_write_fcntl_0_0_body246_def prog_checks open_checks)

lemma min_rocks_write_fcntl_0_0_body247_ok: "body_ok (Suc 0) 145 min_rocks_write_fcntl_0_0_body247" "counted min_rocks_write_fcntl_0_0_body247" "calls min_rocks_write_fcntl_0_0_body247 = 14" "opened_in m min_rocks_write_fcntl_0_0_body247 = []"
  by (simp_all add: min_rocks_write_fcntl_0_0_body247_def prog_checks open_checks)

lemma min_rocks_write_fcntl_0_0_body248_ok: "body_ok (Suc 0) 145 min_rocks_write_fcntl_0_0_body248" "counted min_rocks_write_fcntl_0_0_body248" "calls min_rocks_write_fcntl_0_0_body248 = 14" "opened_in m min_rocks_write_fcntl_0_0_body248 = []"
  by (simp_all add: min_rocks_write_fcntl_0_0_body248_def prog_checks open_checks)

lemma min_rocks_write_fcntl_0_0_body249_ok: "body_ok (Suc 0) 145 min_rocks_write_fcntl_0_0_body249" "counted min_rocks_write_fcntl_0_0_body249" "calls min_rocks_write_fcntl_0_0_body249 = 14" "opened_in m min_rocks_write_fcntl_0_0_body249 = []"
  by (simp_all add: min_rocks_write_fcntl_0_0_body249_def prog_checks open_checks)

lemma min_rocks_write_fcntl_0_0_body250_ok: "body_ok (Suc 0) 145 min_rocks_write_fcntl_0_0_body250" "counted min_rocks_write_fcntl_0_0_body250" "calls min_rocks_write_fcntl_0_0_body250 = 14" "opened_in m min_rocks_write_fcntl_0_0_body250 = []"
  by (simp_all add: min_rocks_write_fcntl_0_0_body250_def prog_checks open_checks)

lemma min_rocks_write_fcntl_0_0_body251_ok: "body_ok (Suc 0) 145 min_rocks_write_fcntl_0_0_body251" "counted min_rocks_write_fcntl_0_0_body251" "calls min_rocks_write_fcntl_0_0_body251 = 14" "opened_in m min_rocks_write_fcntl_0_0_body251 = []"
  by (simp_all add: min_rocks_write_fcntl_0_0_body251_def prog_checks open_checks)

lemma min_rocks_write_fcntl_0_0_body252_ok: "body_ok (Suc 0) 145 min_rocks_write_fcntl_0_0_body252" "counted min_rocks_write_fcntl_0_0_body252" "calls min_rocks_write_fcntl_0_0_body252 = 14" "opened_in m min_rocks_write_fcntl_0_0_body252 = []"
  by (simp_all add: min_rocks_write_fcntl_0_0_body252_def prog_checks open_checks)

lemma min_rocks_write_fcntl_0_0_body253_ok: "body_ok (Suc 0) 145 min_rocks_write_fcntl_0_0_body253" "counted min_rocks_write_fcntl_0_0_body253" "calls min_rocks_write_fcntl_0_0_body253 = 14" "opened_in m min_rocks_write_fcntl_0_0_body253 = []"
  by (simp_all add: min_rocks_write_fcntl_0_0_body253_def prog_checks open_checks)

lemma min_rocks_write_fcntl_0_0_body254_ok: "body_ok (Suc 0) 145 min_rocks_write_fcntl_0_0_body254" "counted min_rocks_write_fcntl_0_0_body254" "calls min_rocks_write_fcntl_0_0_body254 = 14" "opened_in m min_rocks_write_fcntl_0_0_body254 = []"
  by (simp_all add: min_rocks_write_fcntl_0_0_body254_def prog_checks open_checks)

lemma min_rocks_write_fcntl_0_0_body255_ok: "body_ok (Suc 0) 145 min_rocks_write_fcntl_0_0_body255" "counted min_rocks_write_fcntl_0_0_body255" "calls min_rocks_write_fcntl_0_0_body255 = 14" "opened_in m min_rocks_write_fcntl_0_0_body255 = []"
  by (simp_all add: min_rocks_write_fcntl_0_0_body255_def prog_checks open_checks)

lemma min_rocks_write_fcntl_0_0_body256_ok: "body_ok (Suc 0) 145 min_rocks_write_fcntl_0_0_body256" "counted min_rocks_write_fcntl_0_0_body256" "calls min_rocks_write_fcntl_0_0_body256 = 14" "opened_in m min_rocks_write_fcntl_0_0_body256 = []"
  by (simp_all add: min_rocks_write_fcntl_0_0_body256_def prog_checks open_checks)

lemma min_rocks_write_fcntl_0_0_body257_ok: "body_ok (Suc 0) 145 min_rocks_write_fcntl_0_0_body257" "counted min_rocks_write_fcntl_0_0_body257" "calls min_rocks_write_fcntl_0_0_body257 = 14" "opened_in m min_rocks_write_fcntl_0_0_body257 = []"
  by (simp_all add: min_rocks_write_fcntl_0_0_body257_def prog_checks open_checks)

lemma min_rocks_write_fcntl_0_0_body258_ok: "body_ok (Suc 0) 145 min_rocks_write_fcntl_0_0_body258" "counted min_rocks_write_fcntl_0_0_body258" "calls min_rocks_write_fcntl_0_0_body258 = 14" "opened_in m min_rocks_write_fcntl_0_0_body258 = []"
  by (simp_all add: min_rocks_write_fcntl_0_0_body258_def prog_checks open_checks)

lemma min_rocks_write_fcntl_0_0_body259_ok: "body_ok (Suc 0) 145 min_rocks_write_fcntl_0_0_body259" "counted min_rocks_write_fcntl_0_0_body259" "calls min_rocks_write_fcntl_0_0_body259 = 14" "opened_in m min_rocks_write_fcntl_0_0_body259 = []"
  by (simp_all add: min_rocks_write_fcntl_0_0_body259_def prog_checks open_checks)

lemma min_rocks_write_fcntl_0_0_body260_ok: "body_ok (Suc 0) 145 min_rocks_write_fcntl_0_0_body260" "counted min_rocks_write_fcntl_0_0_body260" "calls min_rocks_write_fcntl_0_0_body260 = 14" "opened_in m min_rocks_write_fcntl_0_0_body260 = []"
  by (simp_all add: min_rocks_write_fcntl_0_0_body260_def prog_checks open_checks)

lemma min_rocks_write_fcntl_0_0_body261_ok: "body_ok (Suc 0) 145 min_rocks_write_fcntl_0_0_body261" "counted min_rocks_write_fcntl_0_0_body261" "calls min_rocks_write_fcntl_0_0_body261 = 14" "opened_in m min_rocks_write_fcntl_0_0_body261 = []"
  by (simp_all add: min_rocks_write_fcntl_0_0_body261_def prog_checks open_checks)

lemma min_rocks_write_fcntl_0_0_body262_ok: "body_ok (Suc 0) 145 min_rocks_write_fcntl_0_0_body262" "counted min_rocks_write_fcntl_0_0_body262" "calls min_rocks_write_fcntl_0_0_body262 = 14" "opened_in m min_rocks_write_fcntl_0_0_body262 = []"
  by (simp_all add: min_rocks_write_fcntl_0_0_body262_def prog_checks open_checks)

lemma min_rocks_write_fcntl_0_0_body263_ok: "body_ok (Suc 0) 145 min_rocks_write_fcntl_0_0_body263" "counted min_rocks_write_fcntl_0_0_body263" "calls min_rocks_write_fcntl_0_0_body263 = 14" "opened_in m min_rocks_write_fcntl_0_0_body263 = []"
  by (simp_all add: min_rocks_write_fcntl_0_0_body263_def prog_checks open_checks)

lemma min_rocks_write_fcntl_0_0_body264_ok: "body_ok (Suc 0) 145 min_rocks_write_fcntl_0_0_body264" "counted min_rocks_write_fcntl_0_0_body264" "calls min_rocks_write_fcntl_0_0_body264 = 14" "opened_in m min_rocks_write_fcntl_0_0_body264 = []"
  by (simp_all add: min_rocks_write_fcntl_0_0_body264_def prog_checks open_checks)

lemma min_rocks_write_fcntl_0_0_body265_ok: "body_ok (Suc 0) 145 min_rocks_write_fcntl_0_0_body265" "counted min_rocks_write_fcntl_0_0_body265" "calls min_rocks_write_fcntl_0_0_body265 = 14" "opened_in m min_rocks_write_fcntl_0_0_body265 = []"
  by (simp_all add: min_rocks_write_fcntl_0_0_body265_def prog_checks open_checks)

lemma min_rocks_write_fcntl_0_0_body266_ok: "body_ok (Suc 0) 145 min_rocks_write_fcntl_0_0_body266" "counted min_rocks_write_fcntl_0_0_body266" "calls min_rocks_write_fcntl_0_0_body266 = 14" "opened_in m min_rocks_write_fcntl_0_0_body266 = []"
  by (simp_all add: min_rocks_write_fcntl_0_0_body266_def prog_checks open_checks)

lemma min_rocks_write_fcntl_0_0_body267_ok: "body_ok (Suc 0) 145 min_rocks_write_fcntl_0_0_body267" "counted min_rocks_write_fcntl_0_0_body267" "calls min_rocks_write_fcntl_0_0_body267 = 14" "opened_in m min_rocks_write_fcntl_0_0_body267 = []"
  by (simp_all add: min_rocks_write_fcntl_0_0_body267_def prog_checks open_checks)

lemma min_rocks_write_fcntl_0_0_body268_ok: "body_ok (Suc 0) 145 min_rocks_write_fcntl_0_0_body268" "counted min_rocks_write_fcntl_0_0_body268" "calls min_rocks_write_fcntl_0_0_body268 = 14" "opened_in m min_rocks_write_fcntl_0_0_body268 = []"
  by (simp_all add: min_rocks_write_fcntl_0_0_body268_def prog_checks open_checks)

lemma min_rocks_write_fcntl_0_0_body269_ok: "body_ok (Suc 0) 145 min_rocks_write_fcntl_0_0_body269" "counted min_rocks_write_fcntl_0_0_body269" "calls min_rocks_write_fcntl_0_0_body269 = 14" "opened_in m min_rocks_write_fcntl_0_0_body269 = []"
  by (simp_all add: min_rocks_write_fcntl_0_0_body269_def prog_checks open_checks)

lemma min_rocks_write_fcntl_0_0_body270_ok: "body_ok (Suc 0) 145 min_rocks_write_fcntl_0_0_body270" "counted min_rocks_write_fcntl_0_0_body270" "calls min_rocks_write_fcntl_0_0_body270 = 14" "opened_in m min_rocks_write_fcntl_0_0_body270 = []"
  by (simp_all add: min_rocks_write_fcntl_0_0_body270_def prog_checks open_checks)

lemma min_rocks_write_fcntl_0_0_body271_ok: "body_ok (Suc 0) 145 min_rocks_write_fcntl_0_0_body271" "counted min_rocks_write_fcntl_0_0_body271" "calls min_rocks_write_fcntl_0_0_body271 = 14" "opened_in m min_rocks_write_fcntl_0_0_body271 = []"
  by (simp_all add: min_rocks_write_fcntl_0_0_body271_def prog_checks open_checks)

lemma min_rocks_write_fcntl_0_0_body272_ok: "body_ok (Suc 0) 145 min_rocks_write_fcntl_0_0_body272" "counted min_rocks_write_fcntl_0_0_body272" "calls min_rocks_write_fcntl_0_0_body272 = 14" "opened_in m min_rocks_write_fcntl_0_0_body272 = []"
  by (simp_all add: min_rocks_write_fcntl_0_0_body272_def prog_checks open_checks)

lemma min_rocks_write_fcntl_0_0_body273_ok: "body_ok (Suc 0) 145 min_rocks_write_fcntl_0_0_body273" "counted min_rocks_write_fcntl_0_0_body273" "calls min_rocks_write_fcntl_0_0_body273 = 14" "opened_in m min_rocks_write_fcntl_0_0_body273 = []"
  by (simp_all add: min_rocks_write_fcntl_0_0_body273_def prog_checks open_checks)

lemma min_rocks_write_fcntl_0_0_body274_ok: "body_ok (Suc 0) 145 min_rocks_write_fcntl_0_0_body274" "counted min_rocks_write_fcntl_0_0_body274" "calls min_rocks_write_fcntl_0_0_body274 = 14" "opened_in m min_rocks_write_fcntl_0_0_body274 = []"
  by (simp_all add: min_rocks_write_fcntl_0_0_body274_def prog_checks open_checks)

lemma min_rocks_write_fcntl_0_0_body275_ok: "body_ok (Suc 0) 145 min_rocks_write_fcntl_0_0_body275" "counted min_rocks_write_fcntl_0_0_body275" "calls min_rocks_write_fcntl_0_0_body275 = 14" "opened_in m min_rocks_write_fcntl_0_0_body275 = []"
  by (simp_all add: min_rocks_write_fcntl_0_0_body275_def prog_checks open_checks)

lemma min_rocks_write_fcntl_0_0_body276_ok: "body_ok (Suc 0) 145 min_rocks_write_fcntl_0_0_body276" "counted min_rocks_write_fcntl_0_0_body276" "calls min_rocks_write_fcntl_0_0_body276 = 14" "opened_in m min_rocks_write_fcntl_0_0_body276 = []"
  by (simp_all add: min_rocks_write_fcntl_0_0_body276_def prog_checks open_checks)

lemma min_rocks_write_fcntl_0_0_body277_ok: "body_ok (Suc 0) 145 min_rocks_write_fcntl_0_0_body277" "counted min_rocks_write_fcntl_0_0_body277" "calls min_rocks_write_fcntl_0_0_body277 = 14" "opened_in m min_rocks_write_fcntl_0_0_body277 = []"
  by (simp_all add: min_rocks_write_fcntl_0_0_body277_def prog_checks open_checks)

lemma min_rocks_write_fcntl_0_0_body278_ok: "body_ok (Suc 0) 145 min_rocks_write_fcntl_0_0_body278" "counted min_rocks_write_fcntl_0_0_body278" "calls min_rocks_write_fcntl_0_0_body278 = 14" "opened_in m min_rocks_write_fcntl_0_0_body278 = []"
  by (simp_all add: min_rocks_write_fcntl_0_0_body278_def prog_checks open_checks)

lemma min_rocks_write_fcntl_0_0_body279_ok: "body_ok (Suc 0) 145 min_rocks_write_fcntl_0_0_body279" "counted min_rocks_write_fcntl_0_0_body279" "calls min_rocks_write_fcntl_0_0_body279 = 14" "opened_in m min_rocks_write_fcntl_0_0_body279 = []"
  by (simp_all add: min_rocks_write_fcntl_0_0_body279_def prog_checks open_checks)

lemma min_rocks_write_fcntl_0_0_body280_ok: "body_ok (Suc 0) 145 min_rocks_write_fcntl_0_0_body280" "counted min_rocks_write_fcntl_0_0_body280" "calls min_rocks_write_fcntl_0_0_body280 = 14" "opened_in m min_rocks_write_fcntl_0_0_body280 = []"
  by (simp_all add: min_rocks_write_fcntl_0_0_body280_def prog_checks open_checks)

lemma min_rocks_write_fcntl_0_0_body281_ok: "body_ok (Suc 0) 145 min_rocks_write_fcntl_0_0_body281" "counted min_rocks_write_fcntl_0_0_body281" "calls min_rocks_write_fcntl_0_0_body281 = 14" "opened_in m min_rocks_write_fcntl_0_0_body281 = []"
  by (simp_all add: min_rocks_write_fcntl_0_0_body281_def prog_checks open_checks)

lemma min_rocks_write_fcntl_0_0_body282_ok: "body_ok (Suc 0) 145 min_rocks_write_fcntl_0_0_body282" "counted min_rocks_write_fcntl_0_0_body282" "calls min_rocks_write_fcntl_0_0_body282 = 14" "opened_in m min_rocks_write_fcntl_0_0_body282 = []"
  by (simp_all add: min_rocks_write_fcntl_0_0_body282_def prog_checks open_checks)

lemma min_rocks_write_fcntl_0_0_body283_ok: "body_ok (Suc 0) 145 min_rocks_write_fcntl_0_0_body283" "counted min_rocks_write_fcntl_0_0_body283" "calls min_rocks_write_fcntl_0_0_body283 = 14" "opened_in m min_rocks_write_fcntl_0_0_body283 = []"
  by (simp_all add: min_rocks_write_fcntl_0_0_body283_def prog_checks open_checks)

lemma min_rocks_write_fcntl_0_0_body284_ok: "body_ok (Suc 0) 145 min_rocks_write_fcntl_0_0_body284" "counted min_rocks_write_fcntl_0_0_body284" "calls min_rocks_write_fcntl_0_0_body284 = 14" "opened_in m min_rocks_write_fcntl_0_0_body284 = []"
  by (simp_all add: min_rocks_write_fcntl_0_0_body284_def prog_checks open_checks)

lemma min_rocks_write_fcntl_0_0_body285_ok: "body_ok (Suc 0) 145 min_rocks_write_fcntl_0_0_body285" "counted min_rocks_write_fcntl_0_0_body285" "calls min_rocks_write_fcntl_0_0_body285 = 14" "opened_in m min_rocks_write_fcntl_0_0_body285 = []"
  by (simp_all add: min_rocks_write_fcntl_0_0_body285_def prog_checks open_checks)

lemma min_rocks_write_fcntl_0_0_body286_ok: "body_ok (Suc 0) 145 min_rocks_write_fcntl_0_0_body286" "counted min_rocks_write_fcntl_0_0_body286" "calls min_rocks_write_fcntl_0_0_body286 = 14" "opened_in m min_rocks_write_fcntl_0_0_body286 = []"
  by (simp_all add: min_rocks_write_fcntl_0_0_body286_def prog_checks open_checks)

lemma min_rocks_write_fcntl_0_0_body287_ok: "body_ok (Suc 0) 145 min_rocks_write_fcntl_0_0_body287" "counted min_rocks_write_fcntl_0_0_body287" "calls min_rocks_write_fcntl_0_0_body287 = 14" "opened_in m min_rocks_write_fcntl_0_0_body287 = []"
  by (simp_all add: min_rocks_write_fcntl_0_0_body287_def prog_checks open_checks)

lemma min_rocks_write_fcntl_0_0_body288_ok: "body_ok (Suc 0) 145 min_rocks_write_fcntl_0_0_body288" "counted min_rocks_write_fcntl_0_0_body288" "calls min_rocks_write_fcntl_0_0_body288 = 14" "opened_in m min_rocks_write_fcntl_0_0_body288 = []"
  by (simp_all add: min_rocks_write_fcntl_0_0_body288_def prog_checks open_checks)

lemma min_rocks_write_fcntl_0_0_body289_ok: "body_ok (Suc 0) 145 min_rocks_write_fcntl_0_0_body289" "counted min_rocks_write_fcntl_0_0_body289" "calls min_rocks_write_fcntl_0_0_body289 = 14" "opened_in m min_rocks_write_fcntl_0_0_body289 = []"
  by (simp_all add: min_rocks_write_fcntl_0_0_body289_def prog_checks open_checks)

lemma min_rocks_write_fcntl_0_0_body290_ok: "body_ok (Suc 0) 145 min_rocks_write_fcntl_0_0_body290" "counted min_rocks_write_fcntl_0_0_body290" "calls min_rocks_write_fcntl_0_0_body290 = 14" "opened_in m min_rocks_write_fcntl_0_0_body290 = []"
  by (simp_all add: min_rocks_write_fcntl_0_0_body290_def prog_checks open_checks)

lemma min_rocks_write_fcntl_0_0_body291_ok: "body_ok (Suc 0) 145 min_rocks_write_fcntl_0_0_body291" "counted min_rocks_write_fcntl_0_0_body291" "calls min_rocks_write_fcntl_0_0_body291 = 14" "opened_in m min_rocks_write_fcntl_0_0_body291 = []"
  by (simp_all add: min_rocks_write_fcntl_0_0_body291_def prog_checks open_checks)

lemma min_rocks_write_fcntl_0_0_body292_ok: "body_ok (Suc 0) 145 min_rocks_write_fcntl_0_0_body292" "counted min_rocks_write_fcntl_0_0_body292" "calls min_rocks_write_fcntl_0_0_body292 = 14" "opened_in m min_rocks_write_fcntl_0_0_body292 = []"
  by (simp_all add: min_rocks_write_fcntl_0_0_body292_def prog_checks open_checks)

lemma min_rocks_write_fcntl_0_0_body293_ok: "body_ok (Suc 0) 145 min_rocks_write_fcntl_0_0_body293" "counted min_rocks_write_fcntl_0_0_body293" "calls min_rocks_write_fcntl_0_0_body293 = 14" "opened_in m min_rocks_write_fcntl_0_0_body293 = []"
  by (simp_all add: min_rocks_write_fcntl_0_0_body293_def prog_checks open_checks)

lemma min_rocks_write_fcntl_0_0_body294_ok: "body_ok (Suc 0) 145 min_rocks_write_fcntl_0_0_body294" "counted min_rocks_write_fcntl_0_0_body294" "calls min_rocks_write_fcntl_0_0_body294 = 14" "opened_in m min_rocks_write_fcntl_0_0_body294 = []"
  by (simp_all add: min_rocks_write_fcntl_0_0_body294_def prog_checks open_checks)

lemma min_rocks_write_fcntl_0_0_body295_ok: "body_ok (Suc 0) 145 min_rocks_write_fcntl_0_0_body295" "counted min_rocks_write_fcntl_0_0_body295" "calls min_rocks_write_fcntl_0_0_body295 = 14" "opened_in m min_rocks_write_fcntl_0_0_body295 = []"
  by (simp_all add: min_rocks_write_fcntl_0_0_body295_def prog_checks open_checks)

lemma min_rocks_write_fcntl_0_0_body296_ok: "body_ok (Suc 0) 145 min_rocks_write_fcntl_0_0_body296" "counted min_rocks_write_fcntl_0_0_body296" "calls min_rocks_write_fcntl_0_0_body296 = 14" "opened_in m min_rocks_write_fcntl_0_0_body296 = []"
  by (simp_all add: min_rocks_write_fcntl_0_0_body296_def prog_checks open_checks)

lemma min_rocks_write_fcntl_0_0_body297_ok: "body_ok (Suc 0) 145 min_rocks_write_fcntl_0_0_body297" "counted min_rocks_write_fcntl_0_0_body297" "calls min_rocks_write_fcntl_0_0_body297 = 14" "opened_in m min_rocks_write_fcntl_0_0_body297 = []"
  by (simp_all add: min_rocks_write_fcntl_0_0_body297_def prog_checks open_checks)

lemma min_rocks_write_fcntl_0_0_body298_ok: "body_ok (Suc 0) 145 min_rocks_write_fcntl_0_0_body298" "counted min_rocks_write_fcntl_0_0_body298" "calls min_rocks_write_fcntl_0_0_body298 = 14" "opened_in m min_rocks_write_fcntl_0_0_body298 = []"
  by (simp_all add: min_rocks_write_fcntl_0_0_body298_def prog_checks open_checks)

lemma min_rocks_write_fcntl_0_0_body299_ok: "body_ok (Suc 0) 145 min_rocks_write_fcntl_0_0_body299" "counted min_rocks_write_fcntl_0_0_body299" "calls min_rocks_write_fcntl_0_0_body299 = 14" "opened_in m min_rocks_write_fcntl_0_0_body299 = []"
  by (simp_all add: min_rocks_write_fcntl_0_0_body299_def prog_checks open_checks)

lemma min_rocks_write_fcntl_0_0_body300_ok: "body_ok (Suc 0) 145 min_rocks_write_fcntl_0_0_body300" "counted min_rocks_write_fcntl_0_0_body300" "calls min_rocks_write_fcntl_0_0_body300 = 14" "opened_in m min_rocks_write_fcntl_0_0_body300 = []"
  by (simp_all add: min_rocks_write_fcntl_0_0_body300_def prog_checks open_checks)

lemma min_rocks_write_fcntl_0_0_body301_ok: "body_ok (Suc 0) 145 min_rocks_write_fcntl_0_0_body301" "counted min_rocks_write_fcntl_0_0_body301" "calls min_rocks_write_fcntl_0_0_body301 = 14" "opened_in m min_rocks_write_fcntl_0_0_body301 = []"
  by (simp_all add: min_rocks_write_fcntl_0_0_body301_def prog_checks open_checks)

lemma min_rocks_write_fcntl_0_0_body302_ok: "body_ok (Suc 0) 145 min_rocks_write_fcntl_0_0_body302" "counted min_rocks_write_fcntl_0_0_body302" "calls min_rocks_write_fcntl_0_0_body302 = 14" "opened_in m min_rocks_write_fcntl_0_0_body302 = []"
  by (simp_all add: min_rocks_write_fcntl_0_0_body302_def prog_checks open_checks)

lemma min_rocks_write_fcntl_0_0_body303_ok: "body_ok (Suc 0) 145 min_rocks_write_fcntl_0_0_body303" "counted min_rocks_write_fcntl_0_0_body303" "calls min_rocks_write_fcntl_0_0_body303 = 14" "opened_in m min_rocks_write_fcntl_0_0_body303 = []"
  by (simp_all add: min_rocks_write_fcntl_0_0_body303_def prog_checks open_checks)

lemma min_rocks_write_fcntl_0_0_body304_ok: "body_ok (Suc 0) 145 min_rocks_write_fcntl_0_0_body304" "counted min_rocks_write_fcntl_0_0_body304" "calls min_rocks_write_fcntl_0_0_body304 = 14" "opened_in m min_rocks_write_fcntl_0_0_body304 = []"
  by (simp_all add: min_rocks_write_fcntl_0_0_body304_def prog_checks open_checks)

lemma min_rocks_write_fcntl_0_0_body305_ok: "body_ok (Suc 0) 145 min_rocks_write_fcntl_0_0_body305" "counted min_rocks_write_fcntl_0_0_body305" "calls min_rocks_write_fcntl_0_0_body305 = 14" "opened_in m min_rocks_write_fcntl_0_0_body305 = []"
  by (simp_all add: min_rocks_write_fcntl_0_0_body305_def prog_checks open_checks)

lemma min_rocks_write_fcntl_0_0_body306_ok: "body_ok (Suc 0) 145 min_rocks_write_fcntl_0_0_body306" "counted min_rocks_write_fcntl_0_0_body306" "calls min_rocks_write_fcntl_0_0_body306 = 14" "opened_in m min_rocks_write_fcntl_0_0_body306 = []"
  by (simp_all add: min_rocks_write_fcntl_0_0_body306_def prog_checks open_checks)

lemma min_rocks_write_fcntl_0_0_body307_ok: "body_ok (Suc 0) 145 min_rocks_write_fcntl_0_0_body307" "counted min_rocks_write_fcntl_0_0_body307" "calls min_rocks_write_fcntl_0_0_body307 = 14" "opened_in m min_rocks_write_fcntl_0_0_body307 = []"
  by (simp_all add: min_rocks_write_fcntl_0_0_body307_def prog_checks open_checks)

lemma min_rocks_write_fcntl_0_0_body308_ok: "body_ok (Suc 0) 145 min_rocks_write_fcntl_0_0_body308" "counted min_rocks_write_fcntl_0_0_body308" "calls min_rocks_write_fcntl_0_0_body308 = 14" "opened_in m min_rocks_write_fcntl_0_0_body308 = []"
  by (simp_all add: min_rocks_write_fcntl_0_0_body308_def prog_checks open_checks)

lemma min_rocks_write_fcntl_0_0_body309_ok: "body_ok (Suc 0) 145 min_rocks_write_fcntl_0_0_body309" "counted min_rocks_write_fcntl_0_0_body309" "calls min_rocks_write_fcntl_0_0_body309 = 14" "opened_in m min_rocks_write_fcntl_0_0_body309 = []"
  by (simp_all add: min_rocks_write_fcntl_0_0_body309_def prog_checks open_checks)

lemma min_rocks_write_fcntl_0_0_body310_ok: "body_ok (Suc 0) 145 min_rocks_write_fcntl_0_0_body310" "counted min_rocks_write_fcntl_0_0_body310" "calls min_rocks_write_fcntl_0_0_body310 = 14" "opened_in m min_rocks_write_fcntl_0_0_body310 = []"
  by (simp_all add: min_rocks_write_fcntl_0_0_body310_def prog_checks open_checks)

lemma min_rocks_write_fcntl_0_0_body311_ok: "body_ok (Suc 0) 145 min_rocks_write_fcntl_0_0_body311" "counted min_rocks_write_fcntl_0_0_body311" "calls min_rocks_write_fcntl_0_0_body311 = 14" "opened_in m min_rocks_write_fcntl_0_0_body311 = []"
  by (simp_all add: min_rocks_write_fcntl_0_0_body311_def prog_checks open_checks)

lemma min_rocks_write_fcntl_0_0_body312_ok: "body_ok (Suc 0) 145 min_rocks_write_fcntl_0_0_body312" "counted min_rocks_write_fcntl_0_0_body312" "calls min_rocks_write_fcntl_0_0_body312 = 14" "opened_in m min_rocks_write_fcntl_0_0_body312 = []"
  by (simp_all add: min_rocks_write_fcntl_0_0_body312_def prog_checks open_checks)

lemma min_rocks_write_fcntl_0_0_body313_ok: "body_ok (Suc 0) 145 min_rocks_write_fcntl_0_0_body313" "counted min_rocks_write_fcntl_0_0_body313" "calls min_rocks_write_fcntl_0_0_body313 = 14" "opened_in m min_rocks_write_fcntl_0_0_body313 = []"
  by (simp_all add: min_rocks_write_fcntl_0_0_body313_def prog_checks open_checks)

lemma min_rocks_write_fcntl_0_0_body314_ok: "body_ok (Suc 0) 145 min_rocks_write_fcntl_0_0_body314" "counted min_rocks_write_fcntl_0_0_body314" "calls min_rocks_write_fcntl_0_0_body314 = 14" "opened_in m min_rocks_write_fcntl_0_0_body314 = []"
  by (simp_all add: min_rocks_write_fcntl_0_0_body314_def prog_checks open_checks)

lemma min_rocks_write_fcntl_0_0_body315_ok: "body_ok (Suc 0) 145 min_rocks_write_fcntl_0_0_body315" "counted min_rocks_write_fcntl_0_0_body315" "calls min_rocks_write_fcntl_0_0_body315 = 14" "opened_in m min_rocks_write_fcntl_0_0_body315 = []"
  by (simp_all add: min_rocks_write_fcntl_0_0_body315_def prog_checks open_checks)

lemma min_rocks_write_fcntl_0_0_body316_ok: "body_ok (Suc 0) 145 min_rocks_write_fcntl_0_0_body316" "counted min_rocks_write_fcntl_0_0_body316" "calls min_rocks_write_fcntl_0_0_body316 = 14" "opened_in m min_rocks_write_fcntl_0_0_body316 = []"
  by (simp_all add: min_rocks_write_fcntl_0_0_body316_def prog_checks open_checks)

lemma min_rocks_write_fcntl_0_0_body317_ok: "body_ok (Suc 0) 145 min_rocks_write_fcntl_0_0_body317" "counted min_rocks_write_fcntl_0_0_body317" "calls min_rocks_write_fcntl_0_0_body317 = 14" "opened_in m min_rocks_write_fcntl_0_0_body317 = []"
  by (simp_all add: min_rocks_write_fcntl_0_0_body317_def prog_checks open_checks)

lemma min_rocks_write_fcntl_0_0_body318_ok: "body_ok (Suc 0) 145 min_rocks_write_fcntl_0_0_body318" "counted min_rocks_write_fcntl_0_0_body318" "calls min_rocks_write_fcntl_0_0_body318 = 14" "opened_in m min_rocks_write_fcntl_0_0_body318 = []"
  by (simp_all add: min_rocks_write_fcntl_0_0_body318_def prog_checks open_checks)

lemma min_rocks_write_fcntl_0_0_body319_ok: "body_ok (Suc 0) 145 min_rocks_write_fcntl_0_0_body319" "counted min_rocks_write_fcntl_0_0_body319" "calls min_rocks_write_fcntl_0_0_body319 = 14" "opened_in m min_rocks_write_fcntl_0_0_body319 = []"
  by (simp_all add: min_rocks_write_fcntl_0_0_body319_def prog_checks open_checks)

lemma min_rocks_write_fcntl_0_0_body320_ok: "body_ok (Suc 0) 145 min_rocks_write_fcntl_0_0_body320" "counted min_rocks_write_fcntl_0_0_body320" "calls min_rocks_write_fcntl_0_0_body320 = 14" "opened_in m min_rocks_write_fcntl_0_0_body320 = []"
  by (simp_all add: min_rocks_write_fcntl_0_0_body320_def prog_checks open_checks)

lemma min_rocks_write_fcntl_0_0_body321_ok: "body_ok (Suc 0) 145 min_rocks_write_fcntl_0_0_body321" "counted min_rocks_write_fcntl_0_0_body321" "calls min_rocks_write_fcntl_0_0_body321 = 14" "opened_in m min_rocks_write_fcntl_0_0_body321 = []"
  by (simp_all add: min_rocks_write_fcntl_0_0_body321_def prog_checks open_checks)

lemma min_rocks_write_fcntl_0_0_body322_ok: "body_ok (Suc 0) 145 min_rocks_write_fcntl_0_0_body322" "counted min_rocks_write_fcntl_0_0_body322" "calls min_rocks_write_fcntl_0_0_body322 = 14" "opened_in m min_rocks_write_fcntl_0_0_body322 = []"
  by (simp_all add: min_rocks_write_fcntl_0_0_body322_def prog_checks open_checks)

lemma min_rocks_write_fcntl_0_0_body323_ok: "body_ok (Suc 0) 145 min_rocks_write_fcntl_0_0_body323" "counted min_rocks_write_fcntl_0_0_body323" "calls min_rocks_write_fcntl_0_0_body323 = 14" "opened_in m min_rocks_write_fcntl_0_0_body323 = []"
  by (simp_all add: min_rocks_write_fcntl_0_0_body323_def prog_checks open_checks)

lemma min_rocks_write_fcntl_0_0_body324_ok: "body_ok (Suc 0) 145 min_rocks_write_fcntl_0_0_body324" "counted min_rocks_write_fcntl_0_0_body324" "calls min_rocks_write_fcntl_0_0_body324 = 14" "opened_in m min_rocks_write_fcntl_0_0_body324 = []"
  by (simp_all add: min_rocks_write_fcntl_0_0_body324_def prog_checks open_checks)

lemma min_rocks_write_fcntl_0_0_body325_ok: "body_ok (Suc 0) 145 min_rocks_write_fcntl_0_0_body325" "counted min_rocks_write_fcntl_0_0_body325" "calls min_rocks_write_fcntl_0_0_body325 = 14" "opened_in m min_rocks_write_fcntl_0_0_body325 = []"
  by (simp_all add: min_rocks_write_fcntl_0_0_body325_def prog_checks open_checks)

lemma min_rocks_write_fcntl_0_0_body326_ok: "body_ok (Suc 0) 145 min_rocks_write_fcntl_0_0_body326" "counted min_rocks_write_fcntl_0_0_body326" "calls min_rocks_write_fcntl_0_0_body326 = 14" "opened_in m min_rocks_write_fcntl_0_0_body326 = []"
  by (simp_all add: min_rocks_write_fcntl_0_0_body326_def prog_checks open_checks)

lemma min_rocks_write_fcntl_0_0_body327_ok: "body_ok (Suc 0) 145 min_rocks_write_fcntl_0_0_body327" "counted min_rocks_write_fcntl_0_0_body327" "calls min_rocks_write_fcntl_0_0_body327 = 14" "opened_in m min_rocks_write_fcntl_0_0_body327 = []"
  by (simp_all add: min_rocks_write_fcntl_0_0_body327_def prog_checks open_checks)

lemma min_rocks_write_fcntl_0_0_body328_ok: "body_ok (Suc 0) 145 min_rocks_write_fcntl_0_0_body328" "counted min_rocks_write_fcntl_0_0_body328" "calls min_rocks_write_fcntl_0_0_body328 = 14" "opened_in m min_rocks_write_fcntl_0_0_body328 = []"
  by (simp_all add: min_rocks_write_fcntl_0_0_body328_def prog_checks open_checks)

lemma min_rocks_write_fcntl_0_0_body329_ok: "body_ok (Suc 0) 145 min_rocks_write_fcntl_0_0_body329" "counted min_rocks_write_fcntl_0_0_body329" "calls min_rocks_write_fcntl_0_0_body329 = 14" "opened_in m min_rocks_write_fcntl_0_0_body329 = []"
  by (simp_all add: min_rocks_write_fcntl_0_0_body329_def prog_checks open_checks)

lemma min_rocks_write_fcntl_0_0_body330_ok: "body_ok (Suc 0) 145 min_rocks_write_fcntl_0_0_body330" "counted min_rocks_write_fcntl_0_0_body330" "calls min_rocks_write_fcntl_0_0_body330 = 14" "opened_in m min_rocks_write_fcntl_0_0_body330 = []"
  by (simp_all add: min_rocks_write_fcntl_0_0_body330_def prog_checks open_checks)

lemma min_rocks_write_fcntl_0_0_body331_ok: "body_ok (Suc 0) 145 min_rocks_write_fcntl_0_0_body331" "counted min_rocks_write_fcntl_0_0_body331" "calls min_rocks_write_fcntl_0_0_body331 = 14" "opened_in m min_rocks_write_fcntl_0_0_body331 = []"
  by (simp_all add: min_rocks_write_fcntl_0_0_body331_def prog_checks open_checks)

lemma min_rocks_write_fcntl_0_0_body332_ok: "body_ok (Suc 0) 145 min_rocks_write_fcntl_0_0_body332" "counted min_rocks_write_fcntl_0_0_body332" "calls min_rocks_write_fcntl_0_0_body332 = 14" "opened_in m min_rocks_write_fcntl_0_0_body332 = []"
  by (simp_all add: min_rocks_write_fcntl_0_0_body332_def prog_checks open_checks)

lemma min_rocks_write_fcntl_0_0_body333_ok: "body_ok (Suc 0) 145 min_rocks_write_fcntl_0_0_body333" "counted min_rocks_write_fcntl_0_0_body333" "calls min_rocks_write_fcntl_0_0_body333 = 14" "opened_in m min_rocks_write_fcntl_0_0_body333 = []"
  by (simp_all add: min_rocks_write_fcntl_0_0_body333_def prog_checks open_checks)

lemma min_rocks_write_fcntl_0_0_body334_ok: "body_ok (Suc 0) 145 min_rocks_write_fcntl_0_0_body334" "counted min_rocks_write_fcntl_0_0_body334" "calls min_rocks_write_fcntl_0_0_body334 = 14" "opened_in m min_rocks_write_fcntl_0_0_body334 = []"
  by (simp_all add: min_rocks_write_fcntl_0_0_body334_def prog_checks open_checks)

lemma min_rocks_write_fcntl_0_0_body335_ok: "body_ok (Suc 0) 145 min_rocks_write_fcntl_0_0_body335" "counted min_rocks_write_fcntl_0_0_body335" "calls min_rocks_write_fcntl_0_0_body335 = 14" "opened_in m min_rocks_write_fcntl_0_0_body335 = []"
  by (simp_all add: min_rocks_write_fcntl_0_0_body335_def prog_checks open_checks)

lemma min_rocks_write_fcntl_0_0_body336_ok: "body_ok (Suc 0) 145 min_rocks_write_fcntl_0_0_body336" "counted min_rocks_write_fcntl_0_0_body336" "calls min_rocks_write_fcntl_0_0_body336 = 14" "opened_in m min_rocks_write_fcntl_0_0_body336 = []"
  by (simp_all add: min_rocks_write_fcntl_0_0_body336_def prog_checks open_checks)

lemma min_rocks_write_fcntl_0_0_body337_ok: "body_ok (Suc 0) 145 min_rocks_write_fcntl_0_0_body337" "counted min_rocks_write_fcntl_0_0_body337" "calls min_rocks_write_fcntl_0_0_body337 = 14" "opened_in m min_rocks_write_fcntl_0_0_body337 = []"
  by (simp_all add: min_rocks_write_fcntl_0_0_body337_def prog_checks open_checks)

lemma min_rocks_write_fcntl_0_0_body338_ok: "body_ok (Suc 0) 145 min_rocks_write_fcntl_0_0_body338" "counted min_rocks_write_fcntl_0_0_body338" "calls min_rocks_write_fcntl_0_0_body338 = 14" "opened_in m min_rocks_write_fcntl_0_0_body338 = []"
  by (simp_all add: min_rocks_write_fcntl_0_0_body338_def prog_checks open_checks)

lemma min_rocks_write_fcntl_0_0_body339_ok: "body_ok (Suc 0) 145 min_rocks_write_fcntl_0_0_body339" "counted min_rocks_write_fcntl_0_0_body339" "calls min_rocks_write_fcntl_0_0_body339 = 14" "opened_in m min_rocks_write_fcntl_0_0_body339 = []"
  by (simp_all add: min_rocks_write_fcntl_0_0_body339_def prog_checks open_checks)

lemma min_rocks_write_fcntl_0_0_body340_ok: "body_ok (Suc 0) 145 min_rocks_write_fcntl_0_0_body340" "counted min_rocks_write_fcntl_0_0_body340" "calls min_rocks_write_fcntl_0_0_body340 = 14" "opened_in m min_rocks_write_fcntl_0_0_body340 = []"
  by (simp_all add: min_rocks_write_fcntl_0_0_body340_def prog_checks open_checks)

lemma min_rocks_write_fcntl_0_0_body341_ok: "body_ok (Suc 0) 145 min_rocks_write_fcntl_0_0_body341" "counted min_rocks_write_fcntl_0_0_body341" "calls min_rocks_write_fcntl_0_0_body341 = 14" "opened_in m min_rocks_write_fcntl_0_0_body341 = []"
  by (simp_all add: min_rocks_write_fcntl_0_0_body341_def prog_checks open_checks)

lemma min_rocks_write_fcntl_0_0_body342_ok: "body_ok (Suc 0) 145 min_rocks_write_fcntl_0_0_body342" "counted min_rocks_write_fcntl_0_0_body342" "calls min_rocks_write_fcntl_0_0_body342 = 14" "opened_in m min_rocks_write_fcntl_0_0_body342 = []"
  by (simp_all add: min_rocks_write_fcntl_0_0_body342_def prog_checks open_checks)

lemma min_rocks_write_fcntl_0_0_body343_ok: "body_ok (Suc 0) 145 min_rocks_write_fcntl_0_0_body343" "counted min_rocks_write_fcntl_0_0_body343" "calls min_rocks_write_fcntl_0_0_body343 = 14" "opened_in m min_rocks_write_fcntl_0_0_body343 = []"
  by (simp_all add: min_rocks_write_fcntl_0_0_body343_def prog_checks open_checks)

lemma min_rocks_write_fcntl_0_0_body344_ok: "body_ok (Suc 0) 145 min_rocks_write_fcntl_0_0_body344" "counted min_rocks_write_fcntl_0_0_body344" "calls min_rocks_write_fcntl_0_0_body344 = 14" "opened_in m min_rocks_write_fcntl_0_0_body344 = []"
  by (simp_all add: min_rocks_write_fcntl_0_0_body344_def prog_checks open_checks)

lemma min_rocks_write_fcntl_0_0_body345_ok: "body_ok (Suc 0) 145 min_rocks_write_fcntl_0_0_body345" "counted min_rocks_write_fcntl_0_0_body345" "calls min_rocks_write_fcntl_0_0_body345 = 14" "opened_in m min_rocks_write_fcntl_0_0_body345 = []"
  by (simp_all add: min_rocks_write_fcntl_0_0_body345_def prog_checks open_checks)

lemma min_rocks_write_fcntl_0_0_body346_ok: "body_ok (Suc 0) 145 min_rocks_write_fcntl_0_0_body346" "counted min_rocks_write_fcntl_0_0_body346" "calls min_rocks_write_fcntl_0_0_body346 = 14" "opened_in m min_rocks_write_fcntl_0_0_body346 = []"
  by (simp_all add: min_rocks_write_fcntl_0_0_body346_def prog_checks open_checks)

lemma min_rocks_write_fcntl_0_0_body347_ok: "body_ok (Suc 0) 145 min_rocks_write_fcntl_0_0_body347" "counted min_rocks_write_fcntl_0_0_body347" "calls min_rocks_write_fcntl_0_0_body347 = 14" "opened_in m min_rocks_write_fcntl_0_0_body347 = []"
  by (simp_all add: min_rocks_write_fcntl_0_0_body347_def prog_checks open_checks)

lemma min_rocks_write_fcntl_0_0_body348_ok: "body_ok (Suc 0) 145 min_rocks_write_fcntl_0_0_body348" "counted min_rocks_write_fcntl_0_0_body348" "calls min_rocks_write_fcntl_0_0_body348 = 14" "opened_in m min_rocks_write_fcntl_0_0_body348 = []"
  by (simp_all add: min_rocks_write_fcntl_0_0_body348_def prog_checks open_checks)

lemma min_rocks_write_fcntl_0_0_body349_ok: "body_ok (Suc 0) 145 min_rocks_write_fcntl_0_0_body349" "counted min_rocks_write_fcntl_0_0_body349" "calls min_rocks_write_fcntl_0_0_body349 = 14" "opened_in m min_rocks_write_fcntl_0_0_body349 = []"
  by (simp_all add: min_rocks_write_fcntl_0_0_body349_def prog_checks open_checks)

lemma min_rocks_write_fcntl_0_0_body350_ok: "body_ok (Suc 0) 145 min_rocks_write_fcntl_0_0_body350" "counted min_rocks_write_fcntl_0_0_body350" "calls min_rocks_write_fcntl_0_0_body350 = 14" "opened_in m min_rocks_write_fcntl_0_0_body350 = []"
  by (simp_all add: min_rocks_write_fcntl_0_0_body350_def prog_checks open_checks)

lemma min_rocks_write_fcntl_0_0_body351_ok: "body_ok (Suc 0) 145 min_rocks_write_fcntl_0_0_body351" "counted min_rocks_write_fcntl_0_0_body351" "calls min_rocks_write_fcntl_0_0_body351 = 14" "opened_in m min_rocks_write_fcntl_0_0_body351 = []"
  by (simp_all add: min_rocks_write_fcntl_0_0_body351_def prog_checks open_checks)

lemma min_rocks_write_fcntl_0_0_body352_ok: "body_ok (Suc 0) 145 min_rocks_write_fcntl_0_0_body352" "counted min_rocks_write_fcntl_0_0_body352" "calls min_rocks_write_fcntl_0_0_body352 = 14" "opened_in m min_rocks_write_fcntl_0_0_body352 = []"
  by (simp_all add: min_rocks_write_fcntl_0_0_body352_def prog_checks open_checks)

lemma min_rocks_write_fcntl_0_0_body353_ok: "body_ok (Suc 0) 145 min_rocks_write_fcntl_0_0_body353" "counted min_rocks_write_fcntl_0_0_body353" "calls min_rocks_write_fcntl_0_0_body353 = 14" "opened_in m min_rocks_write_fcntl_0_0_body353 = []"
  by (simp_all add: min_rocks_write_fcntl_0_0_body353_def prog_checks open_checks)

lemma min_rocks_write_fcntl_0_0_body354_ok: "body_ok (Suc 0) 145 min_rocks_write_fcntl_0_0_body354" "counted min_rocks_write_fcntl_0_0_body354" "calls min_rocks_write_fcntl_0_0_body354 = 14" "opened_in m min_rocks_write_fcntl_0_0_body354 = []"
  by (simp_all add: min_rocks_write_fcntl_0_0_body354_def prog_checks open_checks)

lemma min_rocks_write_fcntl_0_0_body355_ok: "body_ok (Suc 0) 145 min_rocks_write_fcntl_0_0_body355" "counted min_rocks_write_fcntl_0_0_body355" "calls min_rocks_write_fcntl_0_0_body355 = 14" "opened_in m min_rocks_write_fcntl_0_0_body355 = []"
  by (simp_all add: min_rocks_write_fcntl_0_0_body355_def prog_checks open_checks)

lemma min_rocks_write_fcntl_0_0_body356_ok: "body_ok (Suc 0) 145 min_rocks_write_fcntl_0_0_body356" "counted min_rocks_write_fcntl_0_0_body356" "calls min_rocks_write_fcntl_0_0_body356 = 14" "opened_in m min_rocks_write_fcntl_0_0_body356 = []"
  by (simp_all add: min_rocks_write_fcntl_0_0_body356_def prog_checks open_checks)

lemma min_rocks_write_fcntl_0_0_body357_ok: "body_ok (Suc 0) 145 min_rocks_write_fcntl_0_0_body357" "counted min_rocks_write_fcntl_0_0_body357" "calls min_rocks_write_fcntl_0_0_body357 = 14" "opened_in m min_rocks_write_fcntl_0_0_body357 = []"
  by (simp_all add: min_rocks_write_fcntl_0_0_body357_def prog_checks open_checks)

lemma min_rocks_write_fcntl_0_0_body358_ok: "body_ok (Suc 0) 145 min_rocks_write_fcntl_0_0_body358" "counted min_rocks_write_fcntl_0_0_body358" "calls min_rocks_write_fcntl_0_0_body358 = 14" "opened_in m min_rocks_write_fcntl_0_0_body358 = []"
  by (simp_all add: min_rocks_write_fcntl_0_0_body358_def prog_checks open_checks)

lemma min_rocks_write_fcntl_0_0_body359_ok: "body_ok (Suc 0) 145 min_rocks_write_fcntl_0_0_body359" "counted min_rocks_write_fcntl_0_0_body359" "calls min_rocks_write_fcntl_0_0_body359 = 14" "opened_in m min_rocks_write_fcntl_0_0_body359 = []"
  by (simp_all add: min_rocks_write_fcntl_0_0_body359_def prog_checks open_checks)

lemma min_rocks_write_fcntl_0_0_body360_ok: "body_ok (Suc 0) 145 min_rocks_write_fcntl_0_0_body360" "counted min_rocks_write_fcntl_0_0_body360" "calls min_rocks_write_fcntl_0_0_body360 = 14" "opened_in m min_rocks_write_fcntl_0_0_body360 = []"
  by (simp_all add: min_rocks_write_fcntl_0_0_body360_def prog_checks open_checks)

end
