(* ===== verification/CSB_Progs_Rocksdb_g_p4.thy ===== *)
theory CSB_Progs_Rocksdb_g_p4
  imports CSB_Syz_Files
begin

text \<open>
  Statements of min\_rocks\_write\_fcntl\_0\_0 (bench/targets/rocksdb), in the
  order of the file; the program is put together in CSB\_Progs\_Rocksdb\_g.
\<close>

definition min_rocks_write_fcntl_0_0_body361 :: "stmt list" where
  "min_rocks_write_fcntl_0_0_body361 = [
    Syscall NR_write [Reg 0, Write_buf, Imm 0x8a], Count, Syscall NR_write [Reg 0, Write_buf, Imm 0x8a], Count,
    Syscall NR_write [Reg 0, Write_buf, Imm 0x8a], Count, Syscall NR_write [Reg 0, Write_buf, Imm 0x8a], Count,
    Syscall NR_write [Reg 0, Write_buf, Imm 0x8a], Count, Syscall NR_write [Reg 0, Write_buf, Imm 0x8a], Count,
    Syscall NR_write [Reg 0, Write_buf, Imm 0x8a], Count, Syscall NR_write [Reg 0, Write_buf, Imm 0x8a], Count,
    Syscall NR_write [Reg 0, Write_buf, Imm 0x8a], Count, Syscall NR_write [Reg 0, Write_buf, Imm 0x8a], Count,
    Syscall NR_write [Reg 0, Write_buf, Imm 0x8a], Count, Syscall NR_write [Reg 0, Write_buf, Imm 0x8a], Count,
    Syscall NR_write [Reg 0, Write_buf, Imm 0x8a], Count, Syscall NR_write [Reg 0, Write_buf, Imm 0x8a], Count]"

definition min_rocks_write_fcntl_0_0_body362 :: "stmt list" where
  "min_rocks_write_fcntl_0_0_body362 = [
    Syscall NR_write [Reg 0, Write_buf, Imm 0x8a], Count, Syscall NR_write [Reg 0, Write_buf, Imm 0x8a], Count,
    Syscall NR_write [Reg 0, Write_buf, Imm 0x8a], Count, Syscall NR_write [Reg 0, Write_buf, Imm 0x8a], Count,
    Syscall NR_write [Reg 0, Write_buf, Imm 0x8a], Count, Syscall NR_write [Reg 0, Write_buf, Imm 0x8a], Count,
    Syscall NR_write [Reg 0, Write_buf, Imm 0x8a], Count, Syscall NR_write [Reg 0, Write_buf, Imm 0x8a], Count,
    Syscall NR_write [Reg 0, Write_buf, Imm 0x8a], Count, Syscall NR_write [Reg 0, Write_buf, Imm 0x8a], Count,
    Syscall NR_write [Reg 0, Write_buf, Imm 0x8a], Count, Syscall NR_write [Reg 0, Write_buf, Imm 0x8a], Count,
    Syscall NR_write [Reg 0, Write_buf, Imm 0x8a], Count, Syscall NR_write [Reg 0, Write_buf, Imm 0x8a], Count]"

definition min_rocks_write_fcntl_0_0_body363 :: "stmt list" where
  "min_rocks_write_fcntl_0_0_body363 = [
    Syscall NR_write [Reg 0, Write_buf, Imm 0x8a], Count, Syscall NR_write [Reg 0, Write_buf, Imm 0x8a], Count,
    Syscall NR_write [Reg 0, Write_buf, Imm 0x8a], Count, Syscall NR_write [Reg 0, Write_buf, Imm 0x8a], Count,
    Syscall NR_write [Reg 0, Write_buf, Imm 0x8a], Count, Syscall NR_write [Reg 0, Write_buf, Imm 0x8a], Count,
    Syscall NR_write [Reg 0, Write_buf, Imm 0x8a], Count, Syscall NR_write [Reg 0, Write_buf, Imm 0x8a], Count,
    Syscall NR_write [Reg 0, Write_buf, Imm 0x8a], Count, Syscall NR_write [Reg 0, Write_buf, Imm 0x8a], Count,
    Syscall NR_write [Reg 0, Write_buf, Imm 0x8a], Count, Syscall NR_write [Reg 0, Write_buf, Imm 0x8a], Count,
    Syscall NR_write [Reg 0, Write_buf, Imm 0x8a], Count, Syscall NR_write [Reg 0, Write_buf, Imm 0x8a], Count]"

definition min_rocks_write_fcntl_0_0_body364 :: "stmt list" where
  "min_rocks_write_fcntl_0_0_body364 = [
    Syscall NR_write [Reg 0, Write_buf, Imm 0x8a], Count, Syscall NR_write [Reg 0, Write_buf, Imm 0x8a], Count,
    Syscall NR_write [Reg 0, Write_buf, Imm 0x8a], Count, Syscall NR_write [Reg 0, Write_buf, Imm 0x8a], Count,
    Syscall NR_write [Reg 0, Write_buf, Imm 0x8a], Count, Syscall NR_write [Reg 0, Write_buf, Imm 0x8a], Count,
    Syscall NR_write [Reg 0, Write_buf, Imm 0x8a], Count, Syscall NR_write [Reg 0, Write_buf, Imm 0x8a], Count,
    Syscall NR_write [Reg 0, Write_buf, Imm 0x8a], Count, Syscall NR_write [Reg 0, Write_buf, Imm 0x8a], Count,
    Syscall NR_write [Reg 0, Write_buf, Imm 0x8a], Count, Syscall NR_write [Reg 0, Write_buf, Imm 0x8a], Count,
    Syscall NR_write [Reg 0, Write_buf, Imm 0x8a], Count, Syscall NR_write [Reg 0, Write_buf, Imm 0x8a], Count]"

definition min_rocks_write_fcntl_0_0_body365 :: "stmt list" where
  "min_rocks_write_fcntl_0_0_body365 = [
    Syscall NR_write [Reg 0, Write_buf, Imm 0x8a], Count, Syscall NR_write [Reg 0, Write_buf, Imm 0x8a], Count,
    Syscall NR_write [Reg 0, Write_buf, Imm 0x8a], Count, Syscall NR_write [Reg 0, Write_buf, Imm 0x8a], Count,
    Syscall NR_write [Reg 0, Write_buf, Imm 0x8a], Count, Syscall NR_write [Reg 0, Write_buf, Imm 0x8a], Count,
    Syscall NR_write [Reg 0, Write_buf, Imm 0x8a], Count, Syscall NR_write [Reg 0, Write_buf, Imm 0x8a], Count,
    Syscall NR_write [Reg 0, Write_buf, Imm 0x8a], Count, Syscall NR_write [Reg 0, Write_buf, Imm 0x8a], Count,
    Syscall NR_write [Reg 0, Write_buf, Imm 0x8a], Count, Syscall NR_write [Reg 0, Write_buf, Imm 0x8a], Count,
    Syscall NR_write [Reg 0, Write_buf, Imm 0x8a], Count, Syscall NR_write [Reg 0, Write_buf, Imm 0x8a], Count]"

definition min_rocks_write_fcntl_0_0_body366 :: "stmt list" where
  "min_rocks_write_fcntl_0_0_body366 = [
    Syscall NR_write [Reg 0, Write_buf, Imm 0x8a], Count, Syscall NR_write [Reg 0, Write_buf, Imm 0x8a], Count,
    Syscall NR_write [Reg 0, Write_buf, Imm 0x8a], Count, Syscall NR_write [Reg 0, Write_buf, Imm 0x8a], Count,
    Syscall NR_write [Reg 0, Write_buf, Imm 0x8a], Count, Syscall NR_write [Reg 0, Write_buf, Imm 0x8a], Count,
    Syscall NR_write [Reg 0, Write_buf, Imm 0x8a], Count, Syscall NR_write [Reg 0, Write_buf, Imm 0x8a], Count,
    Syscall NR_write [Reg 0, Write_buf, Imm 0x8a], Count, Syscall NR_write [Reg 0, Write_buf, Imm 0x8a], Count,
    Syscall NR_write [Reg 0, Write_buf, Imm 0x8a], Count, Syscall NR_write [Reg 0, Write_buf, Imm 0x8a], Count,
    Syscall NR_write [Reg 0, Write_buf, Imm 0x8a], Count, Syscall NR_write [Reg 0, Write_buf, Imm 0x8a], Count]"

definition min_rocks_write_fcntl_0_0_body367 :: "stmt list" where
  "min_rocks_write_fcntl_0_0_body367 = [
    Syscall NR_write [Reg 0, Write_buf, Imm 0x8a], Count, Syscall NR_write [Reg 0, Write_buf, Imm 0x8a], Count,
    Syscall NR_write [Reg 0, Write_buf, Imm 0x8a], Count, Syscall NR_write [Reg 0, Write_buf, Imm 0x8a], Count,
    Syscall NR_write [Reg 0, Write_buf, Imm 0x8a], Count, Syscall NR_write [Reg 0, Write_buf, Imm 0x8a], Count,
    Syscall NR_write [Reg 0, Write_buf, Imm 0x8a], Count, Syscall NR_write [Reg 0, Write_buf, Imm 0x8a], Count,
    Syscall NR_write [Reg 0, Write_buf, Imm 0x8a], Count, Syscall NR_write [Reg 0, Write_buf, Imm 0x8a], Count,
    Syscall NR_write [Reg 0, Write_buf, Imm 0x8a], Count, Syscall NR_write [Reg 0, Write_buf, Imm 0x8a], Count,
    Syscall NR_write [Reg 0, Write_buf, Imm 0x8a], Count, Syscall NR_write [Reg 0, Write_buf, Imm 0x8a], Count]"

definition min_rocks_write_fcntl_0_0_body368 :: "stmt list" where
  "min_rocks_write_fcntl_0_0_body368 = [
    Syscall NR_write [Reg 0, Write_buf, Imm 0x8a], Count, Syscall NR_write [Reg 0, Write_buf, Imm 0x8a], Count,
    Syscall NR_write [Reg 0, Write_buf, Imm 0x8a], Count, Syscall NR_write [Reg 0, Write_buf, Imm 0x8a], Count,
    Syscall NR_write [Reg 0, Write_buf, Imm 0x8a], Count, Syscall NR_write [Reg 0, Write_buf, Imm 0x8a], Count,
    Syscall NR_write [Reg 0, Write_buf, Imm 0x8a], Count, Syscall NR_write [Reg 0, Write_buf, Imm 0x8a], Count,
    Syscall NR_write [Reg 0, Write_buf, Imm 0x8a], Count, Syscall NR_write [Reg 0, Write_buf, Imm 0x8a], Count,
    Syscall NR_write [Reg 0, Write_buf, Imm 0x8a], Count, Syscall NR_write [Reg 0, Write_buf, Imm 0x8a], Count,
    Syscall NR_write [Reg 0, Write_buf, Imm 0x8a], Count, Syscall NR_write [Reg 0, Write_buf, Imm 0x8a], Count]"

definition min_rocks_write_fcntl_0_0_body369 :: "stmt list" where
  "min_rocks_write_fcntl_0_0_body369 = [
    Syscall NR_write [Reg 0, Write_buf, Imm 0x8a], Count, Syscall NR_write [Reg 0, Write_buf, Imm 0x8a], Count,
    Syscall NR_write [Reg 0, Write_buf, Imm 0x8a], Count, Syscall NR_write [Reg 0, Write_buf, Imm 0x8a], Count,
    Syscall NR_write [Reg 0, Write_buf, Imm 0x8a], Count, Syscall NR_write [Reg 0, Write_buf, Imm 0x8a], Count,
    Syscall NR_write [Reg 0, Write_buf, Imm 0x8a], Count, Syscall NR_write [Reg 0, Write_buf, Imm 0x8a], Count,
    Syscall NR_write [Reg 0, Write_buf, Imm 0x8a], Count, Syscall NR_write [Reg 0, Write_buf, Imm 0x8a], Count,
    Syscall NR_write [Reg 0, Write_buf, Imm 0x8a], Count, Syscall NR_write [Reg 0, Write_buf, Imm 0x8a], Count,
    Syscall NR_write [Reg 0, Write_buf, Imm 0x8a], Count, Syscall NR_write [Reg 0, Write_buf, Imm 0x8a], Count]"

definition min_rocks_write_fcntl_0_0_body370 :: "stmt list" where
  "min_rocks_write_fcntl_0_0_body370 = [
    Syscall NR_write [Reg 0, Write_buf, Imm 0x8a], Count, Syscall NR_write [Reg 0, Write_buf, Imm 0x8a], Count,
    Syscall NR_write [Reg 0, Write_buf, Imm 0x8a], Count, Syscall NR_write [Reg 0, Write_buf, Imm 0x8a], Count,
    Syscall NR_write [Reg 0, Write_buf, Imm 0x8a], Count, Syscall NR_write [Reg 0, Write_buf, Imm 0x8a], Count,
    Syscall NR_write [Reg 0, Write_buf, Imm 0x8a], Count, Syscall NR_write [Reg 0, Write_buf, Imm 0x8a], Count,
    Syscall NR_write [Reg 0, Write_buf, Imm 0x8a], Count, Syscall NR_write [Reg 0, Write_buf, Imm 0x8a], Count,
    Syscall NR_write [Reg 0, Write_buf, Imm 0x8a], Count, Syscall NR_write [Reg 0, Write_buf, Imm 0x8a], Count,
    Syscall NR_write [Reg 0, Write_buf, Imm 0x8a], Count, Syscall NR_write [Reg 0, Write_buf, Imm 0x8a], Count]"

definition min_rocks_write_fcntl_0_0_body371 :: "stmt list" where
  "min_rocks_write_fcntl_0_0_body371 = [
    Syscall NR_write [Reg 0, Write_buf, Imm 0x8a], Count, Syscall NR_write [Reg 0, Write_buf, Imm 0x8a], Count,
    Syscall NR_write [Reg 0, Write_buf, Imm 0x8a], Count, Syscall NR_write [Reg 0, Write_buf, Imm 0x8a], Count,
    Syscall NR_write [Reg 0, Write_buf, Imm 0x8a], Count, Syscall NR_write [Reg 0, Write_buf, Imm 0x8a], Count,
    Syscall NR_write [Reg 0, Write_buf, Imm 0x8a], Count, Syscall NR_write [Reg 0, Write_buf, Imm 0x8a], Count,
    Syscall NR_write [Reg 0, Write_buf, Imm 0x8a], Count, Syscall NR_write [Reg 0, Write_buf, Imm 0x8a], Count,
    Syscall NR_write [Reg 0, Write_buf, Imm 0x8a], Count, Syscall NR_write [Reg 0, Write_buf, Imm 0x8a], Count,
    Syscall NR_write [Reg 0, Write_buf, Imm 0x8a], Count, Syscall NR_write [Reg 0, Write_buf, Imm 0x8a], Count]"

definition min_rocks_write_fcntl_0_0_body372 :: "stmt list" where
  "min_rocks_write_fcntl_0_0_body372 = [
    Syscall NR_write [Reg 0, Write_buf, Imm 0x8a], Count, Syscall NR_write [Reg 0, Write_buf, Imm 0x8a], Count,
    Syscall NR_write [Reg 0, Write_buf, Imm 0x8a], Count, Syscall NR_write [Reg 0, Write_buf, Imm 0x8a], Count,
    Syscall NR_write [Reg 0, Write_buf, Imm 0x8a], Count, Syscall NR_write [Reg 0, Write_buf, Imm 0x8a], Count,
    Syscall NR_write [Reg 0, Write_buf, Imm 0x8a], Count, Syscall NR_write [Reg 0, Write_buf, Imm 0x8a], Count,
    Syscall NR_write [Reg 0, Write_buf, Imm 0x8a], Count, Syscall NR_write [Reg 0, Write_buf, Imm 0x8a], Count,
    Syscall NR_write [Reg 0, Write_buf, Imm 0x8a], Count, Syscall NR_write [Reg 0, Write_buf, Imm 0x8a], Count,
    Syscall NR_write [Reg 0, Write_buf, Imm 0x8a], Count, Syscall NR_write [Reg 0, Write_buf, Imm 0x8a], Count]"

definition min_rocks_write_fcntl_0_0_body373 :: "stmt list" where
  "min_rocks_write_fcntl_0_0_body373 = [
    Syscall NR_write [Reg 0, Write_buf, Imm 0x8a], Count, Syscall NR_write [Reg 0, Write_buf, Imm 0x8a], Count,
    Syscall NR_write [Reg 0, Write_buf, Imm 0x8a], Count, Syscall NR_write [Reg 0, Write_buf, Imm 0x8a], Count,
    Syscall NR_write [Reg 0, Write_buf, Imm 0x8a], Count, Syscall NR_write [Reg 0, Write_buf, Imm 0x8a], Count,
    Syscall NR_write [Reg 0, Write_buf, Imm 0x8a], Count, Syscall NR_write [Reg 0, Write_buf, Imm 0x90], Count,
    Syscall NR_write [Reg 0, Write_buf, Imm 0x8a], Count, Syscall NR_write [Reg 0, Write_buf, Imm 0x8a], Count,
    Syscall NR_write [Reg 0, Write_buf, Imm 0x8a], Count, Syscall NR_write [Reg 0, Write_buf, Imm 0x8a], Count,
    Syscall NR_write [Reg 0, Write_buf, Imm 0x8a], Count, Syscall NR_write [Reg 0, Write_buf, Imm 0x8a], Count]"

definition min_rocks_write_fcntl_0_0_body374 :: "stmt list" where
  "min_rocks_write_fcntl_0_0_body374 = [
    Syscall NR_write [Reg 0, Write_buf, Imm 0x8a], Count, Syscall NR_write [Reg 0, Write_buf, Imm 0x8a], Count,
    Syscall NR_write [Reg 0, Write_buf, Imm 0x8a], Count, Syscall NR_write [Reg 0, Write_buf, Imm 0x8a], Count,
    Syscall NR_write [Reg 0, Write_buf, Imm 0x8a], Count, Syscall NR_write [Reg 0, Write_buf, Imm 0x8a], Count,
    Syscall NR_write [Reg 0, Write_buf, Imm 0x8a], Count, Syscall NR_write [Reg 0, Write_buf, Imm 0x8a], Count,
    Syscall NR_write [Reg 0, Write_buf, Imm 0x8a], Count, Syscall NR_write [Reg 0, Write_buf, Imm 0x8a], Count,
    Syscall NR_write [Reg 0, Write_buf, Imm 0x8a], Count, Syscall NR_write [Reg 0, Write_buf, Imm 0x8a], Count,
    Syscall NR_write [Reg 0, Write_buf, Imm 0x8a], Count, Syscall NR_write [Reg 0, Write_buf, Imm 0x8a], Count]"

definition min_rocks_write_fcntl_0_0_body375 :: "stmt list" where
  "min_rocks_write_fcntl_0_0_body375 = [
    Syscall NR_write [Reg 0, Write_buf, Imm 0x8a], Count, Syscall NR_write [Reg 0, Write_buf, Imm 0x8a], Count,
    Syscall NR_write [Reg 0, Write_buf, Imm 0x8a], Count, Syscall NR_write [Reg 0, Write_buf, Imm 0x8a], Count,
    Syscall NR_write [Reg 0, Write_buf, Imm 0x8a], Count, Syscall NR_write [Reg 0, Write_buf, Imm 0x8a], Count,
    Syscall NR_write [Reg 0, Write_buf, Imm 0x8a], Count, Syscall NR_write [Reg 0, Write_buf, Imm 0x8a], Count,
    Syscall NR_write [Reg 0, Write_buf, Imm 0x8a], Count, Syscall NR_write [Reg 0, Write_buf, Imm 0x8a], Count,
    Syscall NR_write [Reg 0, Write_buf, Imm 0x8a], Count, Syscall NR_write [Reg 0, Write_buf, Imm 0x8a], Count,
    Syscall NR_write [Reg 0, Write_buf, Imm 0x8a], Count, Syscall NR_write [Reg 0, Write_buf, Imm 0x8a], Count]"

definition min_rocks_write_fcntl_0_0_body376 :: "stmt list" where
  "min_rocks_write_fcntl_0_0_body376 = [
    Syscall NR_write [Reg 0, Write_buf, Imm 0x8a], Count, Syscall NR_write [Reg 0, Write_buf, Imm 0x8a], Count,
    Syscall NR_write [Reg 0, Write_buf, Imm 0x8a], Count, Syscall NR_write [Reg 0, Write_buf, Imm 0x8a], Count,
    Syscall NR_write [Reg 0, Write_buf, Imm 0x8a], Count, Syscall NR_write [Reg 0, Write_buf, Imm 0x8a], Count,
    Syscall NR_write [Reg 0, Write_buf, Imm 0x8a], Count, Syscall NR_write [Reg 0, Write_buf, Imm 0x8a], Count,
    Syscall NR_write [Reg 0, Write_buf, Imm 0x8a], Count, Syscall NR_write [Reg 0, Write_buf, Imm 0x8a], Count,
    Syscall NR_write [Reg 0, Write_buf, Imm 0x8a], Count, Syscall NR_write [Reg 0, Write_buf, Imm 0x8a], Count,
    Syscall NR_write [Reg 0, Write_buf, Imm 0x8a], Count, Syscall NR_write [Reg 0, Write_buf, Imm 0x8a], Count]"

definition min_rocks_write_fcntl_0_0_body377 :: "stmt list" where
  "min_rocks_write_fcntl_0_0_body377 = [
    Syscall NR_write [Reg 0, Write_buf, Imm 0x8a], Count, Syscall NR_write [Reg 0, Write_buf, Imm 0x8a], Count,
    Syscall NR_write [Reg 0, Write_buf, Imm 0x8a], Count, Syscall NR_write [Reg 0, Write_buf, Imm 0x8a], Count,
    Syscall NR_write [Reg 0, Write_buf, Imm 0x8a], Count, Syscall NR_write [Reg 0, Write_buf, Imm 0x8a], Count,
    Syscall NR_write [Reg 0, Write_buf, Imm 0x8a], Count, Syscall NR_write [Reg 0, Write_buf, Imm 0x8a], Count,
    Syscall NR_write [Reg 0, Write_buf, Imm 0x8a], Count, Syscall NR_write [Reg 0, Write_buf, Imm 0x8a], Count,
    Syscall NR_write [Reg 0, Write_buf, Imm 0x8a], Count, Syscall NR_write [Reg 0, Write_buf, Imm 0x8a], Count,
    Syscall NR_write [Reg 0, Write_buf, Imm 0x8a], Count, Syscall NR_write [Reg 0, Write_buf, Imm 0x8a], Count]"

definition min_rocks_write_fcntl_0_0_body378 :: "stmt list" where
  "min_rocks_write_fcntl_0_0_body378 = [
    Syscall NR_write [Reg 0, Write_buf, Imm 0x8a], Count, Syscall NR_write [Reg 0, Write_buf, Imm 0x8a], Count,
    Syscall NR_write [Reg 0, Write_buf, Imm 0x8a], Count, Syscall NR_write [Reg 0, Write_buf, Imm 0x8a], Count,
    Syscall NR_write [Reg 0, Write_buf, Imm 0x8a], Count, Syscall NR_write [Reg 0, Write_buf, Imm 0x8a], Count,
    Syscall NR_write [Reg 0, Write_buf, Imm 0x8a], Count, Syscall NR_write [Reg 0, Write_buf, Imm 0x8a], Count,
    Syscall NR_write [Reg 0, Write_buf, Imm 0x8a], Count, Syscall NR_write [Reg 0, Write_buf, Imm 0x8a], Count,
    Syscall NR_write [Reg 0, Write_buf, Imm 0x8a], Count, Syscall NR_write [Reg 0, Write_buf, Imm 0x8a], Count,
    Syscall NR_write [Reg 0, Write_buf, Imm 0x8a], Count, Syscall NR_write [Reg 0, Write_buf, Imm 0x8a], Count]"

definition min_rocks_write_fcntl_0_0_body379 :: "stmt list" where
  "min_rocks_write_fcntl_0_0_body379 = [
    Syscall NR_write [Reg 0, Write_buf, Imm 0x8a], Count, Syscall NR_write [Reg 0, Write_buf, Imm 0x8a], Count,
    Syscall NR_write [Reg 0, Write_buf, Imm 0x8a], Count, Syscall NR_write [Reg 0, Write_buf, Imm 0x8a], Count,
    Syscall NR_write [Reg 0, Write_buf, Imm 0x8a], Count, Syscall NR_write [Reg 0, Write_buf, Imm 0x8a], Count,
    Syscall NR_write [Reg 0, Write_buf, Imm 0x8a], Count, Syscall NR_write [Reg 0, Write_buf, Imm 0x8a], Count,
    Syscall NR_write [Reg 0, Write_buf, Imm 0x8a], Count, Syscall NR_write [Reg 0, Write_buf, Imm 0x8a], Count,
    Syscall NR_write [Reg 0, Write_buf, Imm 0x8a], Count, Syscall NR_write [Reg 0, Write_buf, Imm 0x8a], Count,
    Syscall NR_write [Reg 0, Write_buf, Imm 0x8a], Count, Syscall NR_write [Reg 0, Write_buf, Imm 0x8a], Count]"

definition min_rocks_write_fcntl_0_0_body380 :: "stmt list" where
  "min_rocks_write_fcntl_0_0_body380 = [
    Syscall NR_write [Reg 0, Write_buf, Imm 0x8a], Count, Syscall NR_write [Reg 0, Write_buf, Imm 0x8a], Count,
    Syscall NR_write [Reg 0, Write_buf, Imm 0x8a], Count, Syscall NR_write [Reg 0, Write_buf, Imm 0x8a], Count,
    Syscall NR_write [Reg 0, Write_buf, Imm 0x8a], Count, Syscall NR_write [Reg 0, Write_buf, Imm 0x8a], Count,
    Syscall NR_write [Reg 0, Write_buf, Imm 0x8a], Count, Syscall NR_write [Reg 0, Write_buf, Imm 0x8a], Count,
    Syscall NR_write [Reg 0, Write_buf, Imm 0x8a], Count, Syscall NR_write [Reg 0, Write_buf, Imm 0x8a], Count,
    Syscall NR_write [Reg 0, Write_buf, Imm 0x8a], Count, Syscall NR_write [Reg 0, Write_buf, Imm 0x8a], Count,
    Syscall NR_write [Reg 0, Write_buf, Imm 0x8a], Count, Syscall NR_write [Reg 0, Write_buf, Imm 0x8a], Count]"

definition min_rocks_write_fcntl_0_0_body381 :: "stmt list" where
  "min_rocks_write_fcntl_0_0_body381 = [
    Syscall NR_write [Reg 0, Write_buf, Imm 0x8a], Count, Syscall NR_write [Reg 0, Write_buf, Imm 0x8a], Count,
    Syscall NR_write [Reg 0, Write_buf, Imm 0x8a], Count, Syscall NR_write [Reg 0, Write_buf, Imm 0x8a], Count,
    Syscall NR_write [Reg 0, Write_buf, Imm 0x8a], Count, Syscall NR_write [Reg 0, Write_buf, Imm 0x8a], Count,
    Syscall NR_write [Reg 0, Write_buf, Imm 0x8a], Count, Syscall NR_write [Reg 0, Write_buf, Imm 0x8a], Count,
    Syscall NR_write [Reg 0, Write_buf, Imm 0x8a], Count, Syscall NR_write [Reg 0, Write_buf, Imm 0x8a], Count,
    Syscall NR_write [Reg 0, Write_buf, Imm 0x8a], Count, Syscall NR_write [Reg 0, Write_buf, Imm 0x8a], Count,
    Syscall NR_write [Reg 0, Write_buf, Imm 0x8a], Count, Syscall NR_write [Reg 0, Write_buf, Imm 0x8a], Count]"

definition min_rocks_write_fcntl_0_0_body382 :: "stmt list" where
  "min_rocks_write_fcntl_0_0_body382 = [
    Syscall NR_write [Reg 0, Write_buf, Imm 0x8a], Count, Syscall NR_write [Reg 0, Write_buf, Imm 0x8a], Count,
    Syscall NR_write [Reg 0, Write_buf, Imm 0x8a], Count, Syscall NR_write [Reg 0, Write_buf, Imm 0x8a], Count,
    Syscall NR_write [Reg 0, Write_buf, Imm 0x8a], Count, Syscall NR_write [Reg 0, Write_buf, Imm 0x8a], Count,
    Syscall NR_write [Reg 0, Write_buf, Imm 0x8a], Count, Syscall NR_write [Reg 0, Write_buf, Imm 0x8a], Count,
    Syscall NR_write [Reg 0, Write_buf, Imm 0x8a], Count, Syscall NR_write [Reg 0, Write_buf, Imm 0x8a], Count,
    Syscall NR_write [Reg 0, Write_buf, Imm 0x8a], Count, Syscall NR_write [Reg 0, Write_buf, Imm 0x8a], Count,
    Syscall NR_write [Reg 0, Write_buf, Imm 0x8a], Count, Syscall NR_write [Reg 0, Write_buf, Imm 0x8a], Count]"

definition min_rocks_write_fcntl_0_0_body383 :: "stmt list" where
  "min_rocks_write_fcntl_0_0_body383 = [
    Syscall NR_write [Reg 0, Write_buf, Imm 0x8a], Count, Syscall NR_write [Reg 0, Write_buf, Imm 0x8a], Count,
    Syscall NR_write [Reg 0, Write_buf, Imm 0x8a], Count, Syscall NR_write [Reg 0, Write_buf, Imm 0x8a], Count,
    Syscall NR_write [Reg 0, Write_buf, Imm 0x8a], Count, Syscall NR_write [Reg 0, Write_buf, Imm 0x8a], Count,
    Syscall NR_write [Reg 0, Write_buf, Imm 0x8a], Count, Syscall NR_write [Reg 0, Write_buf, Imm 0x8a], Count,
    Syscall NR_write [Reg 0, Write_buf, Imm 0x8a], Count, Syscall NR_write [Reg 0, Write_buf, Imm 0x8a], Count,
    Syscall NR_write [Reg 0, Write_buf, Imm 0x8a], Count, Syscall NR_write [Reg 0, Write_buf, Imm 0x8a], Count,
    Syscall NR_write [Reg 0, Write_buf, Imm 0x8a], Count, Syscall NR_write [Reg 0, Write_buf, Imm 0x8a], Count]"

definition min_rocks_write_fcntl_0_0_body384 :: "stmt list" where
  "min_rocks_write_fcntl_0_0_body384 = [
    Syscall NR_write [Reg 0, Write_buf, Imm 0x8a], Count, Syscall NR_write [Reg 0, Write_buf, Imm 0x8a], Count,
    Syscall NR_write [Reg 0, Write_buf, Imm 0x8a], Count, Syscall NR_write [Reg 0, Write_buf, Imm 0x8a], Count,
    Syscall NR_write [Reg 0, Write_buf, Imm 0x8a], Count, Syscall NR_write [Reg 0, Write_buf, Imm 0x8a], Count,
    Syscall NR_write [Reg 0, Write_buf, Imm 0x8a], Count, Syscall NR_write [Reg 0, Write_buf, Imm 0x8a], Count,
    Syscall NR_write [Reg 0, Write_buf, Imm 0x8a], Count, Syscall NR_write [Reg 0, Write_buf, Imm 0x8a], Count,
    Syscall NR_write [Reg 0, Write_buf, Imm 0x8a], Count, Syscall NR_write [Reg 0, Write_buf, Imm 0x8a], Count,
    Syscall NR_write [Reg 0, Write_buf, Imm 0x8a], Count, Syscall NR_write [Reg 0, Write_buf, Imm 0x8a], Count]"

definition min_rocks_write_fcntl_0_0_body385 :: "stmt list" where
  "min_rocks_write_fcntl_0_0_body385 = [
    Syscall NR_write [Reg 0, Write_buf, Imm 0x8a], Count, Syscall NR_write [Reg 0, Write_buf, Imm 0x8a], Count,
    Syscall NR_write [Reg 0, Write_buf, Imm 0x8a], Count, Syscall NR_write [Reg 0, Write_buf, Imm 0x8a], Count,
    Syscall NR_write [Reg 0, Write_buf, Imm 0x8a], Count, Syscall NR_write [Reg 0, Write_buf, Imm 0x8a], Count,
    Syscall NR_write [Reg 0, Write_buf, Imm 0x8a], Count, Syscall NR_write [Reg 0, Write_buf, Imm 0x8a], Count,
    Syscall NR_write [Reg 0, Write_buf, Imm 0x8a], Count, Syscall NR_write [Reg 0, Write_buf, Imm 0x8a], Count,
    Syscall NR_write [Reg 0, Write_buf, Imm 0x8a], Count, Syscall NR_write [Reg 0, Write_buf, Imm 0x8a], Count,
    Syscall NR_write [Reg 0, Write_buf, Imm 0x8a], Count, Syscall NR_write [Reg 0, Write_buf, Imm 0x8a], Count]"

definition min_rocks_write_fcntl_0_0_body386 :: "stmt list" where
  "min_rocks_write_fcntl_0_0_body386 = [
    Syscall NR_write [Reg 0, Write_buf, Imm 0x8a], Count, Syscall NR_write [Reg 0, Write_buf, Imm 0x8a], Count,
    Syscall NR_write [Reg 0, Write_buf, Imm 0x8a], Count, Syscall NR_write [Reg 0, Write_buf, Imm 0x8a], Count,
    Syscall NR_write [Reg 0, Write_buf, Imm 0x8a], Count, Syscall NR_write [Reg 0, Write_buf, Imm 0x8a], Count,
    Syscall NR_write [Reg 0, Write_buf, Imm 0x8a], Count, Syscall NR_write [Reg 0, Write_buf, Imm 0x8a], Count,
    Syscall NR_write [Reg 0, Write_buf, Imm 0x8a], Count, Syscall NR_write [Reg 0, Write_buf, Imm 0x8a], Count,
    Syscall NR_write [Reg 0, Write_buf, Imm 0x8a], Count, Syscall NR_write [Reg 0, Write_buf, Imm 0x8a], Count,
    Syscall NR_write [Reg 0, Write_buf, Imm 0x8a], Count, Syscall NR_write [Reg 0, Write_buf, Imm 0x8a], Count]"

definition min_rocks_write_fcntl_0_0_body387 :: "stmt list" where
  "min_rocks_write_fcntl_0_0_body387 = [
    Syscall NR_write [Reg 0, Write_buf, Imm 0x8a], Count, Syscall NR_write [Reg 0, Write_buf, Imm 0x8a], Count,
    Syscall NR_write [Reg 0, Write_buf, Imm 0x8a], Count, Syscall NR_write [Reg 0, Write_buf, Imm 0x8a], Count,
    Syscall NR_write [Reg 0, Write_buf, Imm 0x8a], Count, Syscall NR_write [Reg 0, Write_buf, Imm 0x8a], Count,
    Syscall NR_write [Reg 0, Write_buf, Imm 0x8a], Count, Syscall NR_write [Reg 0, Write_buf, Imm 0x8a], Count,
    Syscall NR_write [Reg 0, Write_buf, Imm 0x8a], Count, Syscall NR_write [Reg 0, Write_buf, Imm 0x8a], Count,
    Syscall NR_write [Reg 0, Write_buf, Imm 0x8a], Count, Syscall NR_write [Reg 0, Write_buf, Imm 0x8a], Count,
    Syscall NR_write [Reg 0, Write_buf, Imm 0x8a], Count, Syscall NR_write [Reg 0, Write_buf, Imm 0x8a], Count]"

definition min_rocks_write_fcntl_0_0_body388 :: "stmt list" where
  "min_rocks_write_fcntl_0_0_body388 = [
    Syscall NR_write [Reg 0, Write_buf, Imm 0x8a], Count, Syscall NR_write [Reg 0, Write_buf, Imm 0x8a], Count,
    Syscall NR_write [Reg 0, Write_buf, Imm 0x8a], Count, Syscall NR_write [Reg 0, Write_buf, Imm 0x8a], Count,
    Syscall NR_write [Reg 0, Write_buf, Imm 0x8a], Count, Syscall NR_write [Reg 0, Write_buf, Imm 0x8a], Count,
    Syscall NR_write [Reg 0, Write_buf, Imm 0x8a], Count, Syscall NR_write [Reg 0, Write_buf, Imm 0x8a], Count,
    Syscall NR_write [Reg 0, Write_buf, Imm 0x8a], Count, Syscall NR_write [Reg 0, Write_buf, Imm 0x8a], Count,
    Syscall NR_write [Reg 0, Write_buf, Imm 0x8a], Count, Syscall NR_write [Reg 0, Write_buf, Imm 0x8a], Count,
    Syscall NR_write [Reg 0, Write_buf, Imm 0x8a], Count, Syscall NR_write [Reg 0, Write_buf, Imm 0x8a], Count]"

definition min_rocks_write_fcntl_0_0_body389 :: "stmt list" where
  "min_rocks_write_fcntl_0_0_body389 = [
    Syscall NR_write [Reg 0, Write_buf, Imm 0x8a], Count, Syscall NR_write [Reg 0, Write_buf, Imm 0x8a], Count,
    Syscall NR_write [Reg 0, Write_buf, Imm 0x8a], Count, Syscall NR_write [Reg 0, Write_buf, Imm 0x8a], Count,
    Syscall NR_write [Reg 0, Write_buf, Imm 0x8a], Count, Syscall NR_write [Reg 0, Write_buf, Imm 0x8a], Count,
    Syscall NR_write [Reg 0, Write_buf, Imm 0x8a], Count, Syscall NR_write [Reg 0, Write_buf, Imm 0x8a], Count,
    Syscall NR_write [Reg 0, Write_buf, Imm 0x8a], Count, Syscall NR_write [Reg 0, Write_buf, Imm 0x8a], Count,
    Syscall NR_write [Reg 0, Write_buf, Imm 0x8a], Count, Syscall NR_write [Reg 0, Write_buf, Imm 0x8a], Count,
    Syscall NR_write [Reg 0, Write_buf, Imm 0x8a], Count, Syscall NR_write [Reg 0, Write_buf, Imm 0x8a], Count]"

definition min_rocks_write_fcntl_0_0_body390 :: "stmt list" where
  "min_rocks_write_fcntl_0_0_body390 = [
    Syscall NR_write [Reg 0, Write_buf, Imm 0x8a], Count, Syscall NR_write [Reg 0, Write_buf, Imm 0x8a], Count,
    Syscall NR_write [Reg 0, Write_buf, Imm 0x8a], Count, Syscall NR_write [Reg 0, Write_buf, Imm 0x8a], Count,
    Syscall NR_write [Reg 0, Write_buf, Imm 0x8a], Count, Syscall NR_write [Reg 0, Write_buf, Imm 0x8a], Count,
    Syscall NR_write [Reg 0, Write_buf, Imm 0x91], Count, Syscall NR_write [Reg 0, Write_buf, Imm 0x8a], Count,
    Syscall NR_write [Reg 0, Write_buf, Imm 0x8a], Count, Syscall NR_write [Reg 0, Write_buf, Imm 0x8a], Count,
    Syscall NR_write [Reg 0, Write_buf, Imm 0x8a], Count, Syscall NR_write [Reg 0, Write_buf, Imm 0x8a], Count,
    Syscall NR_write [Reg 0, Write_buf, Imm 0x8a], Count, Syscall NR_write [Reg 0, Write_buf, Imm 0x8a], Count]"

definition min_rocks_write_fcntl_0_0_body391 :: "stmt list" where
  "min_rocks_write_fcntl_0_0_body391 = [
    Syscall NR_write [Reg 0, Write_buf, Imm 0x8a], Count, Syscall NR_write [Reg 0, Write_buf, Imm 0x8a], Count,
    Syscall NR_write [Reg 0, Write_buf, Imm 0x8a], Count, Syscall NR_write [Reg 0, Write_buf, Imm 0x8a], Count,
    Syscall NR_write [Reg 0, Write_buf, Imm 0x8a], Count, Syscall NR_write [Reg 0, Write_buf, Imm 0x8a], Count,
    Syscall NR_write [Reg 0, Write_buf, Imm 0x8a], Count, Syscall NR_write [Reg 0, Write_buf, Imm 0x8a], Count,
    Syscall NR_write [Reg 0, Write_buf, Imm 0x8a], Count, Syscall NR_write [Reg 0, Write_buf, Imm 0x8a], Count,
    Syscall NR_write [Reg 0, Write_buf, Imm 0x8a], Count, Syscall NR_write [Reg 0, Write_buf, Imm 0x8a], Count,
    Syscall NR_write [Reg 0, Write_buf, Imm 0x8a], Count, Syscall NR_write [Reg 0, Write_buf, Imm 0x8a], Count]"

definition min_rocks_write_fcntl_0_0_body392 :: "stmt list" where
  "min_rocks_write_fcntl_0_0_body392 = [
    Syscall NR_write [Reg 0, Write_buf, Imm 0x8a], Count, Syscall NR_write [Reg 0, Write_buf, Imm 0x8a], Count,
    Syscall NR_write [Reg 0, Write_buf, Imm 0x8a], Count, Syscall NR_write [Reg 0, Write_buf, Imm 0x8a], Count,
    Syscall NR_write [Reg 0, Write_buf, Imm 0x8a], Count, Syscall NR_write [Reg 0, Write_buf, Imm 0x8a], Count,
    Syscall NR_write [Reg 0, Write_buf, Imm 0x8a], Count, Syscall NR_write [Reg 0, Write_buf, Imm 0x8a], Count,
    Syscall NR_write [Reg 0, Write_buf, Imm 0x8a], Count, Syscall NR_write [Reg 0, Write_buf, Imm 0x8a], Count,
    Syscall NR_write [Reg 0, Write_buf, Imm 0x8a], Count, Syscall NR_write [Reg 0, Write_buf, Imm 0x8a], Count,
    Syscall NR_write [Reg 0, Write_buf, Imm 0x8a], Count, Syscall NR_write [Reg 0, Write_buf, Imm 0x8a], Count]"

definition min_rocks_write_fcntl_0_0_body393 :: "stmt list" where
  "min_rocks_write_fcntl_0_0_body393 = [
    Syscall NR_write [Reg 0, Write_buf, Imm 0x8a], Count, Syscall NR_write [Reg 0, Write_buf, Imm 0x8a], Count,
    Syscall NR_write [Reg 0, Write_buf, Imm 0x8a], Count, Syscall NR_write [Reg 0, Write_buf, Imm 0x8a], Count,
    Syscall NR_write [Reg 0, Write_buf, Imm 0x8a], Count, Syscall NR_write [Reg 0, Write_buf, Imm 0x8a], Count,
    Syscall NR_write [Reg 0, Write_buf, Imm 0x8a], Count, Syscall NR_write [Reg 0, Write_buf, Imm 0x8a], Count,
    Syscall NR_write [Reg 0, Write_buf, Imm 0x8a], Count, Syscall NR_write [Reg 0, Write_buf, Imm 0x8a], Count,
    Syscall NR_write [Reg 0, Write_buf, Imm 0x8a], Count, Syscall NR_write [Reg 0, Write_buf, Imm 0x8a], Count,
    Syscall NR_write [Reg 0, Write_buf, Imm 0x8a], Count, Syscall NR_write [Reg 0, Write_buf, Imm 0x8a], Count]"

definition min_rocks_write_fcntl_0_0_body394 :: "stmt list" where
  "min_rocks_write_fcntl_0_0_body394 = [
    Syscall NR_write [Reg 0, Write_buf, Imm 0x8a], Count, Syscall NR_write [Reg 0, Write_buf, Imm 0x8a], Count,
    Syscall NR_write [Reg 0, Write_buf, Imm 0x8a], Count, Syscall NR_write [Reg 0, Write_buf, Imm 0x8a], Count,
    Syscall NR_write [Reg 0, Write_buf, Imm 0x8a], Count, Syscall NR_write [Reg 0, Write_buf, Imm 0x8a], Count,
    Syscall NR_write [Reg 0, Write_buf, Imm 0x8a], Count, Syscall NR_write [Reg 0, Write_buf, Imm 0x8a], Count,
    Syscall NR_write [Reg 0, Write_buf, Imm 0x8a], Count, Syscall NR_write [Reg 0, Write_buf, Imm 0x8a], Count,
    Syscall NR_write [Reg 0, Write_buf, Imm 0x8a], Count, Syscall NR_write [Reg 0, Write_buf, Imm 0x8a], Count,
    Syscall NR_write [Reg 0, Write_buf, Imm 0x8a], Count, Syscall NR_write [Reg 0, Write_buf, Imm 0x8a], Count]"

definition min_rocks_write_fcntl_0_0_body395 :: "stmt list" where
  "min_rocks_write_fcntl_0_0_body395 = [
    Syscall NR_write [Reg 0, Write_buf, Imm 0x8a], Count, Syscall NR_write [Reg 0, Write_buf, Imm 0x8a], Count,
    Syscall NR_write [Reg 0, Write_buf, Imm 0x8a], Count, Syscall NR_write [Reg 0, Write_buf, Imm 0x8a], Count,
    Syscall NR_write [Reg 0, Write_buf, Imm 0x8a], Count, Syscall NR_write [Reg 0, Write_buf, Imm 0x8a], Count,
    Syscall NR_write [Reg 0, Write_buf, Imm 0x8a], Count, Syscall NR_write [Reg 0, Write_buf, Imm 0x8a], Count,
    Syscall NR_write [Reg 0, Write_buf, Imm 0x8a], Count, Syscall NR_write [Reg 0, Write_buf, Imm 0x8a], Count,
    Syscall NR_write [Reg 0, Write_buf, Imm 0x8a], Count, Syscall NR_write [Reg 0, Write_buf, Imm 0x8a], Count,
    Syscall NR_write [Reg 0, Write_buf, Imm 0x8a], Count, Syscall NR_write [Reg 0, Write_buf, Imm 0x8a], Count]"

definition min_rocks_write_fcntl_0_0_body396 :: "stmt list" where
  "min_rocks_write_fcntl_0_0_body396 = [
    Syscall NR_write [Reg 0, Write_buf, Imm 0x8a], Count, Syscall NR_write [Reg 0, Write_buf, Imm 0x8a], Count,
    Syscall NR_write [Reg 0, Write_buf, Imm 0x8a], Count, Syscall NR_write [Reg 0, Write_buf, Imm 0x8a], Count,
    Syscall NR_write [Reg 0, Write_buf, Imm 0x8a], Count, Syscall NR_write [Reg 0, Write_buf, Imm 0x8a], Count,
    Syscall NR_write [Reg 0, Write_buf, Imm 0x8a], Count, Syscall NR_write [Reg 0, Write_buf, Imm 0x8a], Count,
    Syscall NR_write [Reg 0, Write_buf, Imm 0x8a], Count, Syscall NR_write [Reg 0, Write_buf, Imm 0x8a], Count,
    Syscall NR_write [Reg 0, Write_buf, Imm 0x8a], Count, Syscall NR_write [Reg 0, Write_buf, Imm 0x8a], Count,
    Syscall NR_write [Reg 0, Write_buf, Imm 0x8a], Count, Syscall NR_write [Reg 0, Write_buf, Imm 0x8a], Count]"

definition min_rocks_write_fcntl_0_0_body397 :: "stmt list" where
  "min_rocks_write_fcntl_0_0_body397 = [
    Syscall NR_write [Reg 0, Write_buf, Imm 0x8a], Count, Syscall NR_write [Reg 0, Write_buf, Imm 0x8a], Count,
    Syscall NR_write [Reg 0, Write_buf, Imm 0x8a], Count, Syscall NR_write [Reg 0, Write_buf, Imm 0x8a], Count,
    Syscall NR_write [Reg 0, Write_buf, Imm 0x8a], Count, Syscall NR_write [Reg 0, Write_buf, Imm 0x8a], Count,
    Syscall NR_write [Reg 0, Write_buf, Imm 0x8a], Count, Syscall NR_write [Reg 0, Write_buf, Imm 0x8a], Count,
    Syscall NR_write [Reg 0, Write_buf, Imm 0x8a], Count, Syscall NR_write [Reg 0, Write_buf, Imm 0x8a], Count,
    Syscall NR_write [Reg 0, Write_buf, Imm 0x8a], Count, Syscall NR_write [Reg 0, Write_buf, Imm 0x8a], Count,
    Syscall NR_write [Reg 0, Write_buf, Imm 0x8a], Count, Syscall NR_write [Reg 0, Write_buf, Imm 0x8a], Count]"

definition min_rocks_write_fcntl_0_0_body398 :: "stmt list" where
  "min_rocks_write_fcntl_0_0_body398 = [
    Syscall NR_write [Reg 0, Write_buf, Imm 0x8a], Count, Syscall NR_write [Reg 0, Write_buf, Imm 0x8a], Count,
    Syscall NR_write [Reg 0, Write_buf, Imm 0x8a], Count, Syscall NR_write [Reg 0, Write_buf, Imm 0x8a], Count,
    Syscall NR_write [Reg 0, Write_buf, Imm 0x8a], Count, Syscall NR_write [Reg 0, Write_buf, Imm 0x8a], Count,
    Syscall NR_write [Reg 0, Write_buf, Imm 0x8a], Count, Syscall NR_write [Reg 0, Write_buf, Imm 0x8a], Count,
    Syscall NR_write [Reg 0, Write_buf, Imm 0x8a], Count, Syscall NR_write [Reg 0, Write_buf, Imm 0x8a], Count,
    Syscall NR_write [Reg 0, Write_buf, Imm 0x8a], Count, Syscall NR_write [Reg 0, Write_buf, Imm 0x8a], Count,
    Syscall NR_write [Reg 0, Write_buf, Imm 0x8a], Count, Syscall NR_write [Reg 0, Write_buf, Imm 0x8a], Count]"

definition min_rocks_write_fcntl_0_0_body399 :: "stmt list" where
  "min_rocks_write_fcntl_0_0_body399 = [
    Syscall NR_write [Reg 0, Write_buf, Imm 0x8a], Count, Syscall NR_write [Reg 0, Write_buf, Imm 0x8a], Count,
    Syscall NR_write [Reg 0, Write_buf, Imm 0x8a], Count, Syscall NR_write [Reg 0, Write_buf, Imm 0x8a], Count,
    Syscall NR_write [Reg 0, Write_buf, Imm 0x8a], Count, Syscall NR_write [Reg 0, Write_buf, Imm 0x8a], Count,
    Syscall NR_write [Reg 0, Write_buf, Imm 0x8a], Count, Syscall NR_write [Reg 0, Write_buf, Imm 0x8a], Count,
    Syscall NR_write [Reg 0, Write_buf, Imm 0x8a], Count, Syscall NR_write [Reg 0, Write_buf, Imm 0x8a], Count,
    Syscall NR_write [Reg 0, Write_buf, Imm 0x8a], Count, Syscall NR_write [Reg 0, Write_buf, Imm 0x8a], Count,
    Syscall NR_write [Reg 0, Write_buf, Imm 0x8a], Count, Syscall NR_write [Reg 0, Write_buf, Imm 0x8a], Count]"

definition min_rocks_write_fcntl_0_0_body400 :: "stmt list" where
  "min_rocks_write_fcntl_0_0_body400 = [
    Syscall NR_write [Reg 0, Write_buf, Imm 0x8a], Count, Syscall NR_write [Reg 0, Write_buf, Imm 0x8a], Count,
    Syscall NR_write [Reg 0, Write_buf, Imm 0x8a], Count, Syscall NR_write [Reg 0, Write_buf, Imm 0x8a], Count,
    Syscall NR_write [Reg 0, Write_buf, Imm 0x8a], Count, Syscall NR_write [Reg 0, Write_buf, Imm 0x8a], Count,
    Syscall NR_write [Reg 0, Write_buf, Imm 0x8a], Count, Syscall NR_write [Reg 0, Write_buf, Imm 0x8a], Count,
    Syscall NR_write [Reg 0, Write_buf, Imm 0x8a], Count, Syscall NR_write [Reg 0, Write_buf, Imm 0x8a], Count,
    Syscall NR_write [Reg 0, Write_buf, Imm 0x8a], Count, Syscall NR_write [Reg 0, Write_buf, Imm 0x8a], Count,
    Syscall NR_write [Reg 0, Write_buf, Imm 0x8a], Count, Syscall NR_write [Reg 0, Write_buf, Imm 0x8a], Count]"

definition min_rocks_write_fcntl_0_0_body401 :: "stmt list" where
  "min_rocks_write_fcntl_0_0_body401 = [
    Syscall NR_write [Reg 0, Write_buf, Imm 0x8a], Count, Syscall NR_write [Reg 0, Write_buf, Imm 0x8a], Count,
    Syscall NR_write [Reg 0, Write_buf, Imm 0x8a], Count, Syscall NR_write [Reg 0, Write_buf, Imm 0x8a], Count,
    Syscall NR_write [Reg 0, Write_buf, Imm 0x8a], Count, Syscall NR_write [Reg 0, Write_buf, Imm 0x8a], Count,
    Syscall NR_write [Reg 0, Write_buf, Imm 0x8a], Count, Syscall NR_write [Reg 0, Write_buf, Imm 0x8a], Count,
    Syscall NR_write [Reg 0, Write_buf, Imm 0x8a], Count, Syscall NR_write [Reg 0, Write_buf, Imm 0x8a], Count,
    Syscall NR_write [Reg 0, Write_buf, Imm 0x8a], Count, Syscall NR_write [Reg 0, Write_buf, Imm 0x8a], Count,
    Syscall NR_write [Reg 0, Write_buf, Imm 0x8a], Count, Syscall NR_write [Reg 0, Write_buf, Imm 0x8a], Count]"

definition min_rocks_write_fcntl_0_0_body402 :: "stmt list" where
  "min_rocks_write_fcntl_0_0_body402 = [
    Syscall NR_write [Reg 0, Write_buf, Imm 0x8a], Count, Syscall NR_write [Reg 0, Write_buf, Imm 0x8a], Count,
    Syscall NR_write [Reg 0, Write_buf, Imm 0x8a], Count, Syscall NR_write [Reg 0, Write_buf, Imm 0x8a], Count,
    Syscall NR_write [Reg 0, Write_buf, Imm 0x8a], Count, Syscall NR_write [Reg 0, Write_buf, Imm 0x8a], Count,
    Syscall NR_write [Reg 0, Write_buf, Imm 0x8a], Count, Syscall NR_write [Reg 0, Write_buf, Imm 0x8a], Count,
    Syscall NR_write [Reg 0, Write_buf, Imm 0x8a], Count, Syscall NR_write [Reg 0, Write_buf, Imm 0x8a], Count,
    Syscall NR_write [Reg 0, Write_buf, Imm 0x8a], Count, Syscall NR_write [Reg 0, Write_buf, Imm 0x8a], Count,
    Syscall NR_write [Reg 0, Write_buf, Imm 0x8a], Count, Syscall NR_write [Reg 0, Write_buf, Imm 0x8a], Count]"

definition min_rocks_write_fcntl_0_0_body403 :: "stmt list" where
  "min_rocks_write_fcntl_0_0_body403 = [
    Syscall NR_write [Reg 0, Write_buf, Imm 0x8a], Count, Syscall NR_write [Reg 0, Write_buf, Imm 0x8a], Count,
    Syscall NR_write [Reg 0, Write_buf, Imm 0x8a], Count, Syscall NR_write [Reg 0, Write_buf, Imm 0x8a], Count,
    Syscall NR_write [Reg 0, Write_buf, Imm 0x8a], Count, Syscall NR_write [Reg 0, Write_buf, Imm 0x8a], Count,
    Syscall NR_write [Reg 0, Write_buf, Imm 0x8a], Count, Syscall NR_write [Reg 0, Write_buf, Imm 0x8a], Count,
    Syscall NR_write [Reg 0, Write_buf, Imm 0x8a], Count, Syscall NR_write [Reg 0, Write_buf, Imm 0x8a], Count,
    Syscall NR_write [Reg 0, Write_buf, Imm 0x8a], Count, Syscall NR_write [Reg 0, Write_buf, Imm 0x8a], Count,
    Syscall NR_write [Reg 0, Write_buf, Imm 0x8a], Count, Syscall NR_write [Reg 0, Write_buf, Imm 0x8a], Count]"

definition min_rocks_write_fcntl_0_0_body404 :: "stmt list" where
  "min_rocks_write_fcntl_0_0_body404 = [
    Syscall NR_write [Reg 0, Write_buf, Imm 0x8a], Count, Syscall NR_write [Reg 0, Write_buf, Imm 0x8a], Count,
    Syscall NR_write [Reg 0, Write_buf, Imm 0x8a], Count, Syscall NR_write [Reg 0, Write_buf, Imm 0x8a], Count,
    Syscall NR_write [Reg 0, Write_buf, Imm 0x8a], Count, Syscall NR_write [Reg 0, Write_buf, Imm 0x8a], Count,
    Syscall NR_write [Reg 0, Write_buf, Imm 0x8a], Count, Syscall NR_write [Reg 0, Write_buf, Imm 0x8a], Count,
    Syscall NR_write [Reg 0, Write_buf, Imm 0x8a], Count, Syscall NR_write [Reg 0, Write_buf, Imm 0x8a], Count,
    Syscall NR_write [Reg 0, Write_buf, Imm 0x8a], Count, Syscall NR_write [Reg 0, Write_buf, Imm 0x8a], Count,
    Syscall NR_write [Reg 0, Write_buf, Imm 0x8a], Count, Syscall NR_write [Reg 0, Write_buf, Imm 0x8a], Count]"

definition min_rocks_write_fcntl_0_0_body405 :: "stmt list" where
  "min_rocks_write_fcntl_0_0_body405 = [
    Syscall NR_write [Reg 0, Write_buf, Imm 0x8a], Count, Syscall NR_write [Reg 0, Write_buf, Imm 0x8a], Count,
    Syscall NR_write [Reg 0, Write_buf, Imm 0x8a], Count, Syscall NR_write [Reg 0, Write_buf, Imm 0x8a], Count,
    Syscall NR_write [Reg 0, Write_buf, Imm 0x8a], Count, Syscall NR_write [Reg 0, Write_buf, Imm 0x8a], Count,
    Syscall NR_write [Reg 0, Write_buf, Imm 0x8a], Count, Syscall NR_write [Reg 0, Write_buf, Imm 0x8a], Count,
    Syscall NR_write [Reg 0, Write_buf, Imm 0x8a], Count, Syscall NR_write [Reg 0, Write_buf, Imm 0x8a], Count,
    Syscall NR_write [Reg 0, Write_buf, Imm 0x8a], Count, Syscall NR_write [Reg 0, Write_buf, Imm 0x8a], Count,
    Syscall NR_write [Reg 0, Write_buf, Imm 0x8a], Count, Syscall NR_write [Reg 0, Write_buf, Imm 0x8a], Count]"

definition min_rocks_write_fcntl_0_0_body406 :: "stmt list" where
  "min_rocks_write_fcntl_0_0_body406 = [
    Syscall NR_write [Reg 0, Write_buf, Imm 0x8a], Count, Syscall NR_write [Reg 0, Write_buf, Imm 0x8a], Count,
    Syscall NR_write [Reg 0, Write_buf, Imm 0x8a], Count, Syscall NR_write [Reg 0, Write_buf, Imm 0x8a], Count,
    Syscall NR_write [Reg 0, Write_buf, Imm 0x8a], Count, Syscall NR_write [Reg 0, Write_buf, Imm 0x8a], Count,
    Syscall NR_write [Reg 0, Write_buf, Imm 0x8a], Count, Syscall NR_write [Reg 0, Write_buf, Imm 0x8a], Count,
    Syscall NR_write [Reg 0, Write_buf, Imm 0x8a], Count, Syscall NR_write [Reg 0, Write_buf, Imm 0x8a], Count,
    Syscall NR_write [Reg 0, Write_buf, Imm 0x8a], Count, Syscall NR_write [Reg 0, Write_buf, Imm 0x8a], Count,
    Syscall NR_write [Reg 0, Write_buf, Imm 0x8a], Count, Syscall NR_write [Reg 0, Write_buf, Imm 0x8a], Count]"

definition min_rocks_write_fcntl_0_0_body407 :: "stmt list" where
  "min_rocks_write_fcntl_0_0_body407 = [
    Syscall NR_write [Reg 0, Write_buf, Imm 0x8a], Count, Syscall NR_write [Reg 0, Write_buf, Imm 0x8a], Count,
    Syscall NR_write [Reg 0, Write_buf, Imm 0x8a], Count, Syscall NR_write [Reg 0, Write_buf, Imm 0x8a], Count,
    Syscall NR_write [Reg 0, Write_buf, Imm 0x8a], Count, Syscall NR_write [Reg 0, Write_buf, Imm 0x91], Count,
    Syscall NR_write [Reg 0, Write_buf, Imm 0x8a], Count, Syscall NR_write [Reg 0, Write_buf, Imm 0x8a], Count,
    Syscall NR_write [Reg 0, Write_buf, Imm 0x8a], Count, Syscall NR_write [Reg 0, Write_buf, Imm 0x8a], Count,
    Syscall NR_write [Reg 0, Write_buf, Imm 0x8a], Count, Syscall NR_write [Reg 0, Write_buf, Imm 0x8a], Count,
    Syscall NR_write [Reg 0, Write_buf, Imm 0x8a], Count, Syscall NR_write [Reg 0, Write_buf, Imm 0x8a], Count]"

definition min_rocks_write_fcntl_0_0_body408 :: "stmt list" where
  "min_rocks_write_fcntl_0_0_body408 = [
    Syscall NR_write [Reg 0, Write_buf, Imm 0x8a], Count, Syscall NR_write [Reg 0, Write_buf, Imm 0x8a], Count,
    Syscall NR_write [Reg 0, Write_buf, Imm 0x8a], Count, Syscall NR_write [Reg 0, Write_buf, Imm 0x8a], Count,
    Syscall NR_write [Reg 0, Write_buf, Imm 0x8a], Count, Syscall NR_write [Reg 0, Write_buf, Imm 0x8a], Count,
    Syscall NR_write [Reg 0, Write_buf, Imm 0x8a], Count, Syscall NR_write [Reg 0, Write_buf, Imm 0x8a], Count,
    Syscall NR_write [Reg 0, Write_buf, Imm 0x8a], Count, Syscall NR_write [Reg 0, Write_buf, Imm 0x8a], Count,
    Syscall NR_write [Reg 0, Write_buf, Imm 0x8a], Count, Syscall NR_write [Reg 0, Write_buf, Imm 0x8a], Count,
    Syscall NR_write [Reg 0, Write_buf, Imm 0x8a], Count, Syscall NR_write [Reg 0, Write_buf, Imm 0x8a], Count]"

definition min_rocks_write_fcntl_0_0_body409 :: "stmt list" where
  "min_rocks_write_fcntl_0_0_body409 = [
    Syscall NR_write [Reg 0, Write_buf, Imm 0x8a], Count, Syscall NR_write [Reg 0, Write_buf, Imm 0x8a], Count,
    Syscall NR_write [Reg 0, Write_buf, Imm 0x8a], Count, Syscall NR_write [Reg 0, Write_buf, Imm 0x8a], Count,
    Syscall NR_write [Reg 0, Write_buf, Imm 0x8a], Count, Syscall NR_write [Reg 0, Write_buf, Imm 0x8a], Count,
    Syscall NR_write [Reg 0, Write_buf, Imm 0x8a], Count, Syscall NR_write [Reg 0, Write_buf, Imm 0x8a], Count,
    Syscall NR_write [Reg 0, Write_buf, Imm 0x8a], Count, Syscall NR_write [Reg 0, Write_buf, Imm 0x8a], Count,
    Syscall NR_write [Reg 0, Write_buf, Imm 0x8a], Count, Syscall NR_write [Reg 0, Write_buf, Imm 0x8a], Count,
    Syscall NR_write [Reg 0, Write_buf, Imm 0x8a], Count, Syscall NR_write [Reg 0, Write_buf, Imm 0x8a], Count]"

definition min_rocks_write_fcntl_0_0_body410 :: "stmt list" where
  "min_rocks_write_fcntl_0_0_body410 = [
    Syscall NR_write [Reg 0, Write_buf, Imm 0x8a], Count, Syscall NR_write [Reg 0, Write_buf, Imm 0x8a], Count,
    Syscall NR_write [Reg 0, Write_buf, Imm 0x8a], Count, Syscall NR_write [Reg 0, Write_buf, Imm 0x8a], Count,
    Syscall NR_write [Reg 0, Write_buf, Imm 0x8a], Count, Syscall NR_write [Reg 0, Write_buf, Imm 0x8a], Count,
    Syscall NR_write [Reg 0, Write_buf, Imm 0x8a], Count, Syscall NR_write [Reg 0, Write_buf, Imm 0x8a], Count,
    Syscall NR_write [Reg 0, Write_buf, Imm 0x8a], Count, Syscall NR_write [Reg 0, Write_buf, Imm 0x8a], Count,
    Syscall NR_write [Reg 0, Write_buf, Imm 0x8a], Count, Syscall NR_write [Reg 0, Write_buf, Imm 0x8a], Count,
    Syscall NR_write [Reg 0, Write_buf, Imm 0x8a], Count, Syscall NR_write [Reg 0, Write_buf, Imm 0x8a], Count]"

definition min_rocks_write_fcntl_0_0_body411 :: "stmt list" where
  "min_rocks_write_fcntl_0_0_body411 = [
    Syscall NR_write [Reg 0, Write_buf, Imm 0x8a], Count, Syscall NR_write [Reg 0, Write_buf, Imm 0x8a], Count,
    Syscall NR_write [Reg 0, Write_buf, Imm 0x8a], Count, Syscall NR_write [Reg 0, Write_buf, Imm 0x8a], Count,
    Syscall NR_write [Reg 0, Write_buf, Imm 0x8a], Count, Syscall NR_write [Reg 0, Write_buf, Imm 0x8a], Count,
    Syscall NR_write [Reg 0, Write_buf, Imm 0x8a], Count, Syscall NR_write [Reg 0, Write_buf, Imm 0x8a], Count,
    Syscall NR_write [Reg 0, Write_buf, Imm 0x8a], Count, Syscall NR_write [Reg 0, Write_buf, Imm 0x8a], Count,
    Syscall NR_write [Reg 0, Write_buf, Imm 0x8a], Count, Syscall NR_write [Reg 0, Write_buf, Imm 0x8a], Count,
    Syscall NR_write [Reg 0, Write_buf, Imm 0x8a], Count, Syscall NR_write [Reg 0, Write_buf, Imm 0x8a], Count]"

definition min_rocks_write_fcntl_0_0_body412 :: "stmt list" where
  "min_rocks_write_fcntl_0_0_body412 = [
    Syscall NR_write [Reg 0, Write_buf, Imm 0x8a], Count, Syscall NR_write [Reg 0, Write_buf, Imm 0x8a], Count,
    Syscall NR_write [Reg 0, Write_buf, Imm 0x8a], Count, Syscall NR_write [Reg 0, Write_buf, Imm 0x8a], Count,
    Syscall NR_write [Reg 0, Write_buf, Imm 0x8a], Count, Syscall NR_write [Reg 0, Write_buf, Imm 0x8a], Count,
    Syscall NR_write [Reg 0, Write_buf, Imm 0x8a], Count, Syscall NR_write [Reg 0, Write_buf, Imm 0x8a], Count,
    Syscall NR_write [Reg 0, Write_buf, Imm 0x8a], Count, Syscall NR_write [Reg 0, Write_buf, Imm 0x8a], Count,
    Syscall NR_write [Reg 0, Write_buf, Imm 0x8a], Count, Syscall NR_write [Reg 0, Write_buf, Imm 0x8a], Count,
    Syscall NR_write [Reg 0, Write_buf, Imm 0x8a], Count, Syscall NR_write [Reg 0, Write_buf, Imm 0x8a], Count]"

definition min_rocks_write_fcntl_0_0_body413 :: "stmt list" where
  "min_rocks_write_fcntl_0_0_body413 = [
    Syscall NR_write [Reg 0, Write_buf, Imm 0x8a], Count, Syscall NR_write [Reg 0, Write_buf, Imm 0x8a], Count,
    Syscall NR_write [Reg 0, Write_buf, Imm 0x8a], Count, Syscall NR_write [Reg 0, Write_buf, Imm 0x8a], Count,
    Syscall NR_write [Reg 0, Write_buf, Imm 0x8a], Count, Syscall NR_write [Reg 0, Write_buf, Imm 0x8a], Count,
    Syscall NR_write [Reg 0, Write_buf, Imm 0x8a], Count, Syscall NR_write [Reg 0, Write_buf, Imm 0x8a], Count,
    Syscall NR_write [Reg 0, Write_buf, Imm 0x8a], Count, Syscall NR_write [Reg 0, Write_buf, Imm 0x8a], Count,
    Syscall NR_write [Reg 0, Write_buf, Imm 0x8a], Count, Syscall NR_write [Reg 0, Write_buf, Imm 0x8a], Count,
    Syscall NR_write [Reg 0, Write_buf, Imm 0x8a], Count, Syscall NR_write [Reg 0, Write_buf, Imm 0x8a], Count]"

definition min_rocks_write_fcntl_0_0_body414 :: "stmt list" where
  "min_rocks_write_fcntl_0_0_body414 = [
    Syscall NR_write [Reg 0, Write_buf, Imm 0x8a], Count, Syscall NR_write [Reg 0, Write_buf, Imm 0x8a], Count,
    Syscall NR_write [Reg 0, Write_buf, Imm 0x8a], Count, Syscall NR_write [Reg 0, Write_buf, Imm 0x8a], Count,
    Syscall NR_write [Reg 0, Write_buf, Imm 0x8a], Count, Syscall NR_write [Reg 0, Write_buf, Imm 0x8a], Count,
    Syscall NR_write [Reg 0, Write_buf, Imm 0x8a], Count, Syscall NR_write [Reg 0, Write_buf, Imm 0x8a], Count,
    Syscall NR_write [Reg 0, Write_buf, Imm 0x8a], Count, Syscall NR_write [Reg 0, Write_buf, Imm 0x8a], Count,
    Syscall NR_write [Reg 0, Write_buf, Imm 0x8a], Count, Syscall NR_write [Reg 0, Write_buf, Imm 0x8a], Count,
    Syscall NR_write [Reg 0, Write_buf, Imm 0x8a], Count, Syscall NR_write [Reg 0, Write_buf, Imm 0x8a], Count]"

definition min_rocks_write_fcntl_0_0_body415 :: "stmt list" where
  "min_rocks_write_fcntl_0_0_body415 = [
    Syscall NR_write [Reg 0, Write_buf, Imm 0x8a], Count, Syscall NR_write [Reg 0, Write_buf, Imm 0x8a], Count,
    Syscall NR_write [Reg 0, Write_buf, Imm 0x8a], Count, Syscall NR_write [Reg 0, Write_buf, Imm 0x8a], Count,
    Syscall NR_write [Reg 0, Write_buf, Imm 0x8a], Count, Syscall NR_write [Reg 0, Write_buf, Imm 0x8a], Count,
    Syscall NR_write [Reg 0, Write_buf, Imm 0x8a], Count, Syscall NR_write [Reg 0, Write_buf, Imm 0x8a], Count,
    Syscall NR_write [Reg 0, Write_buf, Imm 0x8a], Count, Syscall NR_write [Reg 0, Write_buf, Imm 0x8a], Count,
    Syscall NR_write [Reg 0, Write_buf, Imm 0x8a], Count, Syscall NR_write [Reg 0, Write_buf, Imm 0x8a], Count,
    Syscall NR_write [Reg 0, Write_buf, Imm 0x8a], Count, Syscall NR_write [Reg 0, Write_buf, Imm 0x8a], Count]"

definition min_rocks_write_fcntl_0_0_body416 :: "stmt list" where
  "min_rocks_write_fcntl_0_0_body416 = [
    Syscall NR_write [Reg 0, Write_buf, Imm 0x8a], Count, Syscall NR_write [Reg 0, Write_buf, Imm 0x8a], Count,
    Syscall NR_write [Reg 0, Write_buf, Imm 0x8a], Count, Syscall NR_write [Reg 0, Write_buf, Imm 0x8a], Count,
    Syscall NR_write [Reg 0, Write_buf, Imm 0x8a], Count, Syscall NR_write [Reg 0, Write_buf, Imm 0x8a], Count,
    Syscall NR_write [Reg 0, Write_buf, Imm 0x8a], Count, Syscall NR_write [Reg 0, Write_buf, Imm 0x8a], Count,
    Syscall NR_write [Reg 0, Write_buf, Imm 0x8a], Count, Syscall NR_write [Reg 0, Write_buf, Imm 0x8a], Count,
    Syscall NR_write [Reg 0, Write_buf, Imm 0x8a], Count, Syscall NR_write [Reg 0, Write_buf, Imm 0x8a], Count,
    Syscall NR_write [Reg 0, Write_buf, Imm 0x8a], Count, Syscall NR_write [Reg 0, Write_buf, Imm 0x8a], Count]"

definition min_rocks_write_fcntl_0_0_body417 :: "stmt list" where
  "min_rocks_write_fcntl_0_0_body417 = [
    Syscall NR_write [Reg 0, Write_buf, Imm 0x8a], Count, Syscall NR_write [Reg 0, Write_buf, Imm 0x8a], Count,
    Syscall NR_write [Reg 0, Write_buf, Imm 0x8a], Count, Syscall NR_write [Reg 0, Write_buf, Imm 0x8a], Count,
    Syscall NR_write [Reg 0, Write_buf, Imm 0x8a], Count, Syscall NR_write [Reg 0, Write_buf, Imm 0x8a], Count,
    Syscall NR_write [Reg 0, Write_buf, Imm 0x8a], Count, Syscall NR_write [Reg 0, Write_buf, Imm 0x8a], Count,
    Syscall NR_write [Reg 0, Write_buf, Imm 0x8a], Count, Syscall NR_write [Reg 0, Write_buf, Imm 0x8a], Count,
    Syscall NR_write [Reg 0, Write_buf, Imm 0x8a], Count, Syscall NR_write [Reg 0, Write_buf, Imm 0x8a], Count,
    Syscall NR_write [Reg 0, Write_buf, Imm 0x8a], Count, Syscall NR_write [Reg 0, Write_buf, Imm 0x8a], Count]"

definition min_rocks_write_fcntl_0_0_body418 :: "stmt list" where
  "min_rocks_write_fcntl_0_0_body418 = [
    Syscall NR_write [Reg 0, Write_buf, Imm 0x8a], Count, Syscall NR_write [Reg 0, Write_buf, Imm 0x8a], Count,
    Syscall NR_write [Reg 0, Write_buf, Imm 0x8a], Count, Syscall NR_write [Reg 0, Write_buf, Imm 0x8a], Count,
    Syscall NR_write [Reg 0, Write_buf, Imm 0x8a], Count, Syscall NR_write [Reg 0, Write_buf, Imm 0x8a], Count,
    Syscall NR_write [Reg 0, Write_buf, Imm 0x8a], Count, Syscall NR_write [Reg 0, Write_buf, Imm 0x8a], Count,
    Syscall NR_write [Reg 0, Write_buf, Imm 0x8a], Count, Syscall NR_write [Reg 0, Write_buf, Imm 0x8a], Count,
    Syscall NR_write [Reg 0, Write_buf, Imm 0x8a], Count, Syscall NR_write [Reg 0, Write_buf, Imm 0x8a], Count,
    Syscall NR_write [Reg 0, Write_buf, Imm 0x8a], Count, Syscall NR_write [Reg 0, Write_buf, Imm 0x8a], Count]"

definition min_rocks_write_fcntl_0_0_body419 :: "stmt list" where
  "min_rocks_write_fcntl_0_0_body419 = [
    Syscall NR_write [Reg 0, Write_buf, Imm 0x8a], Count, Syscall NR_write [Reg 0, Write_buf, Imm 0x8a], Count,
    Syscall NR_write [Reg 0, Write_buf, Imm 0x8a], Count, Syscall NR_write [Reg 0, Write_buf, Imm 0x8a], Count,
    Syscall NR_write [Reg 0, Write_buf, Imm 0x8a], Count, Syscall NR_write [Reg 0, Write_buf, Imm 0x8a], Count,
    Syscall NR_write [Reg 0, Write_buf, Imm 0x8a], Count, Syscall NR_write [Reg 0, Write_buf, Imm 0x8a], Count,
    Syscall NR_write [Reg 0, Write_buf, Imm 0x8a], Count, Syscall NR_write [Reg 0, Write_buf, Imm 0x8a], Count,
    Syscall NR_write [Reg 0, Write_buf, Imm 0x8a], Count, Syscall NR_write [Reg 0, Write_buf, Imm 0x8a], Count,
    Syscall NR_write [Reg 0, Write_buf, Imm 0x8a], Count, Syscall NR_write [Reg 0, Write_buf, Imm 0x8a], Count]"

definition min_rocks_write_fcntl_0_0_body420 :: "stmt list" where
  "min_rocks_write_fcntl_0_0_body420 = [
    Syscall NR_write [Reg 0, Write_buf, Imm 0x8a], Count, Syscall NR_write [Reg 0, Write_buf, Imm 0x8a], Count,
    Syscall NR_write [Reg 0, Write_buf, Imm 0x8a], Count, Syscall NR_write [Reg 0, Write_buf, Imm 0x8a], Count,
    Syscall NR_write [Reg 0, Write_buf, Imm 0x8a], Count, Syscall NR_write [Reg 0, Write_buf, Imm 0x8a], Count,
    Syscall NR_write [Reg 0, Write_buf, Imm 0x8a], Count, Syscall NR_write [Reg 0, Write_buf, Imm 0x8a], Count,
    Syscall NR_write [Reg 0, Write_buf, Imm 0x8a], Count, Syscall NR_write [Reg 0, Write_buf, Imm 0x8a], Count,
    Syscall NR_write [Reg 0, Write_buf, Imm 0x8a], Count, Syscall NR_write [Reg 0, Write_buf, Imm 0x8a], Count,
    Syscall NR_write [Reg 0, Write_buf, Imm 0x8a], Count, Syscall NR_write [Reg 0, Write_buf, Imm 0x8a], Count]"

definition min_rocks_write_fcntl_0_0_body421 :: "stmt list" where
  "min_rocks_write_fcntl_0_0_body421 = [
    Syscall NR_write [Reg 0, Write_buf, Imm 0x8a], Count, Syscall NR_write [Reg 0, Write_buf, Imm 0x8a], Count,
    Syscall NR_write [Reg 0, Write_buf, Imm 0x8a], Count, Syscall NR_write [Reg 0, Write_buf, Imm 0x8a], Count,
    Syscall NR_write [Reg 0, Write_buf, Imm 0x8a], Count, Syscall NR_write [Reg 0, Write_buf, Imm 0x8a], Count,
    Syscall NR_write [Reg 0, Write_buf, Imm 0x8a], Count, Syscall NR_write [Reg 0, Write_buf, Imm 0x8a], Count,
    Syscall NR_write [Reg 0, Write_buf, Imm 0x8a], Count, Syscall NR_write [Reg 0, Write_buf, Imm 0x8a], Count,
    Syscall NR_write [Reg 0, Write_buf, Imm 0x8a], Count, Syscall NR_write [Reg 0, Write_buf, Imm 0x8a], Count,
    Syscall NR_write [Reg 0, Write_buf, Imm 0x8a], Count, Syscall NR_write [Reg 0, Write_buf, Imm 0x8a], Count]"

definition min_rocks_write_fcntl_0_0_body422 :: "stmt list" where
  "min_rocks_write_fcntl_0_0_body422 = [
    Syscall NR_write [Reg 0, Write_buf, Imm 0x8a], Count, Syscall NR_write [Reg 0, Write_buf, Imm 0x8a], Count,
    Syscall NR_write [Reg 0, Write_buf, Imm 0x8a], Count, Syscall NR_write [Reg 0, Write_buf, Imm 0x8a], Count,
    Syscall NR_write [Reg 0, Write_buf, Imm 0x8a], Count, Syscall NR_write [Reg 0, Write_buf, Imm 0x8a], Count,
    Syscall NR_write [Reg 0, Write_buf, Imm 0x8a], Count, Syscall NR_write [Reg 0, Write_buf, Imm 0x8a], Count,
    Syscall NR_write [Reg 0, Write_buf, Imm 0x8a], Count, Syscall NR_write [Reg 0, Write_buf, Imm 0x8a], Count,
    Syscall NR_write [Reg 0, Write_buf, Imm 0x8a], Count, Syscall NR_write [Reg 0, Write_buf, Imm 0x8a], Count,
    Syscall NR_write [Reg 0, Write_buf, Imm 0x8a], Count, Syscall NR_write [Reg 0, Write_buf, Imm 0x8a], Count]"

definition min_rocks_write_fcntl_0_0_body423 :: "stmt list" where
  "min_rocks_write_fcntl_0_0_body423 = [
    Syscall NR_write [Reg 0, Write_buf, Imm 0x8a], Count, Syscall NR_write [Reg 0, Write_buf, Imm 0x8a], Count,
    Syscall NR_write [Reg 0, Write_buf, Imm 0x8a], Count, Syscall NR_write [Reg 0, Write_buf, Imm 0x8a], Count,
    Syscall NR_write [Reg 0, Write_buf, Imm 0x8a], Count, Syscall NR_write [Reg 0, Write_buf, Imm 0x8a], Count,
    Syscall NR_write [Reg 0, Write_buf, Imm 0x8a], Count, Syscall NR_write [Reg 0, Write_buf, Imm 0x8a], Count,
    Syscall NR_write [Reg 0, Write_buf, Imm 0x8a], Count, Syscall NR_write [Reg 0, Write_buf, Imm 0x8a], Count,
    Syscall NR_write [Reg 0, Write_buf, Imm 0x8a], Count, Syscall NR_write [Reg 0, Write_buf, Imm 0x8a], Count,
    Syscall NR_write [Reg 0, Write_buf, Imm 0x8a], Count, Syscall NR_write [Reg 0, Write_buf, Imm 0x8a], Count]"

definition min_rocks_write_fcntl_0_0_body424 :: "stmt list" where
  "min_rocks_write_fcntl_0_0_body424 = [
    Syscall NR_write [Reg 0, Write_buf, Imm 0x8a], Count, Syscall NR_write [Reg 0, Write_buf, Imm 0x8a], Count,
    Syscall NR_write [Reg 0, Write_buf, Imm 0x8a], Count, Syscall NR_write [Reg 0, Write_buf, Imm 0x8a], Count,
    Syscall NR_write [Reg 0, Write_buf, Imm 0x8a], Count, Syscall NR_write [Reg 0, Write_buf, Imm 0x91], Count,
    Syscall NR_write [Reg 0, Write_buf, Imm 0x8a], Count, Syscall NR_write [Reg 0, Write_buf, Imm 0x8a], Count,
    Syscall NR_write [Reg 0, Write_buf, Imm 0x8a], Count, Syscall NR_write [Reg 0, Write_buf, Imm 0x8a], Count,
    Syscall NR_write [Reg 0, Write_buf, Imm 0x8a], Count, Syscall NR_write [Reg 0, Write_buf, Imm 0x8a], Count,
    Syscall NR_write [Reg 0, Write_buf, Imm 0x8a], Count, Syscall NR_write [Reg 0, Write_buf, Imm 0x8a], Count]"

definition min_rocks_write_fcntl_0_0_body425 :: "stmt list" where
  "min_rocks_write_fcntl_0_0_body425 = [
    Syscall NR_write [Reg 0, Write_buf, Imm 0x8a], Count, Syscall NR_write [Reg 0, Write_buf, Imm 0x8a], Count,
    Syscall NR_write [Reg 0, Write_buf, Imm 0x8a], Count, Syscall NR_write [Reg 0, Write_buf, Imm 0x8a], Count,
    Syscall NR_write [Reg 0, Write_buf, Imm 0x8a], Count, Syscall NR_write [Reg 0, Write_buf, Imm 0x8a], Count,
    Syscall NR_write [Reg 0, Write_buf, Imm 0x8a], Count, Syscall NR_write [Reg 0, Write_buf, Imm 0x8a], Count,
    Syscall NR_write [Reg 0, Write_buf, Imm 0x8a], Count, Syscall NR_write [Reg 0, Write_buf, Imm 0x8a], Count,
    Syscall NR_write [Reg 0, Write_buf, Imm 0x8a], Count, Syscall NR_write [Reg 0, Write_buf, Imm 0x8a], Count,
    Syscall NR_write [Reg 0, Write_buf, Imm 0x8a], Count, Syscall NR_write [Reg 0, Write_buf, Imm 0x8a], Count]"

definition min_rocks_write_fcntl_0_0_body426 :: "stmt list" where
  "min_rocks_write_fcntl_0_0_body426 = [
    Syscall NR_write [Reg 0, Write_buf, Imm 0x8a], Count, Syscall NR_write [Reg 0, Write_buf, Imm 0x8a], Count,
    Syscall NR_write [Reg 0, Write_buf, Imm 0x8a], Count, Syscall NR_write [Reg 0, Write_buf, Imm 0x8a], Count,
    Syscall NR_write [Reg 0, Write_buf, Imm 0x8a], Count, Syscall NR_write [Reg 0, Write_buf, Imm 0x8a], Count,
    Syscall NR_write [Reg 0, Write_buf, Imm 0x8a], Count, Syscall NR_write [Reg 0, Write_buf, Imm 0x8a], Count,
    Syscall NR_write [Reg 0, Write_buf, Imm 0x8a], Count, Syscall NR_write [Reg 0, Write_buf, Imm 0x8a], Count,
    Syscall NR_write [Reg 0, Write_buf, Imm 0x8a], Count, Syscall NR_write [Reg 0, Write_buf, Imm 0x8a], Count,
    Syscall NR_write [Reg 0, Write_buf, Imm 0x8a], Count, Syscall NR_write [Reg 0, Write_buf, Imm 0x8a], Count]"

definition min_rocks_write_fcntl_0_0_body427 :: "stmt list" where
  "min_rocks_write_fcntl_0_0_body427 = [
    Syscall NR_write [Reg 0, Write_buf, Imm 0x8a], Count, Syscall NR_write [Reg 0, Write_buf, Imm 0x8a], Count,
    Syscall NR_write [Reg 0, Write_buf, Imm 0x8a], Count, Syscall NR_write [Reg 0, Write_buf, Imm 0x8a], Count,
    Syscall NR_write [Reg 0, Write_buf, Imm 0x8a], Count, Syscall NR_write [Reg 0, Write_buf, Imm 0x8a], Count,
    Syscall NR_write [Reg 0, Write_buf, Imm 0x8a], Count, Syscall NR_write [Reg 0, Write_buf, Imm 0x8a], Count,
    Syscall NR_write [Reg 0, Write_buf, Imm 0x8a], Count, Syscall NR_write [Reg 0, Write_buf, Imm 0x8a], Count,
    Syscall NR_write [Reg 0, Write_buf, Imm 0x8a], Count, Syscall NR_write [Reg 0, Write_buf, Imm 0x8a], Count,
    Syscall NR_write [Reg 0, Write_buf, Imm 0x8a], Count, Syscall NR_write [Reg 0, Write_buf, Imm 0x8a], Count]"

definition min_rocks_write_fcntl_0_0_body428 :: "stmt list" where
  "min_rocks_write_fcntl_0_0_body428 = [
    Syscall NR_write [Reg 0, Write_buf, Imm 0x8a], Count, Syscall NR_write [Reg 0, Write_buf, Imm 0x8a], Count,
    Syscall NR_write [Reg 0, Write_buf, Imm 0x8a], Count, Syscall NR_write [Reg 0, Write_buf, Imm 0x8a], Count,
    Syscall NR_write [Reg 0, Write_buf, Imm 0x8a], Count, Syscall NR_write [Reg 0, Write_buf, Imm 0x8a], Count,
    Syscall NR_write [Reg 0, Write_buf, Imm 0x8a], Count, Syscall NR_write [Reg 0, Write_buf, Imm 0x8a], Count,
    Syscall NR_write [Reg 0, Write_buf, Imm 0x8a], Count, Syscall NR_write [Reg 0, Write_buf, Imm 0x8a], Count,
    Syscall NR_write [Reg 0, Write_buf, Imm 0x8a], Count, Syscall NR_write [Reg 0, Write_buf, Imm 0x8a], Count,
    Syscall NR_write [Reg 0, Write_buf, Imm 0x8a], Count, Syscall NR_write [Reg 0, Write_buf, Imm 0x8a], Count]"

definition min_rocks_write_fcntl_0_0_body429 :: "stmt list" where
  "min_rocks_write_fcntl_0_0_body429 = [
    Syscall NR_write [Reg 0, Write_buf, Imm 0x8a], Count, Syscall NR_write [Reg 0, Write_buf, Imm 0x8a], Count,
    Syscall NR_write [Reg 0, Write_buf, Imm 0x8a], Count, Syscall NR_write [Reg 0, Write_buf, Imm 0x8a], Count,
    Syscall NR_write [Reg 0, Write_buf, Imm 0x8a], Count, Syscall NR_write [Reg 0, Write_buf, Imm 0x8a], Count,
    Syscall NR_write [Reg 0, Write_buf, Imm 0x8a], Count, Syscall NR_write [Reg 0, Write_buf, Imm 0x8a], Count,
    Syscall NR_write [Reg 0, Write_buf, Imm 0x8a], Count, Syscall NR_write [Reg 0, Write_buf, Imm 0x8a], Count,
    Syscall NR_write [Reg 0, Write_buf, Imm 0x8a], Count, Syscall NR_write [Reg 0, Write_buf, Imm 0x8a], Count,
    Syscall NR_write [Reg 0, Write_buf, Imm 0x8a], Count, Syscall NR_write [Reg 0, Write_buf, Imm 0x8a], Count]"

definition min_rocks_write_fcntl_0_0_body430 :: "stmt list" where
  "min_rocks_write_fcntl_0_0_body430 = [
    Syscall NR_write [Reg 0, Write_buf, Imm 0x8a], Count, Syscall NR_write [Reg 0, Write_buf, Imm 0x8a], Count,
    Syscall NR_write [Reg 0, Write_buf, Imm 0x8a], Count, Syscall NR_write [Reg 0, Write_buf, Imm 0x8a], Count,
    Syscall NR_write [Reg 0, Write_buf, Imm 0x8a], Count, Syscall NR_write [Reg 0, Write_buf, Imm 0x8a], Count,
    Syscall NR_write [Reg 0, Write_buf, Imm 0x8a], Count, Syscall NR_write [Reg 0, Write_buf, Imm 0x8a], Count,
    Syscall NR_write [Reg 0, Write_buf, Imm 0x8a], Count, Syscall NR_write [Reg 0, Write_buf, Imm 0x8a], Count,
    Syscall NR_write [Reg 0, Write_buf, Imm 0x8a], Count, Syscall NR_write [Reg 0, Write_buf, Imm 0x8a], Count,
    Syscall NR_write [Reg 0, Write_buf, Imm 0x8a], Count, Syscall NR_write [Reg 0, Write_buf, Imm 0x8a], Count]"

definition min_rocks_write_fcntl_0_0_body431 :: "stmt list" where
  "min_rocks_write_fcntl_0_0_body431 = [
    Syscall NR_write [Reg 0, Write_buf, Imm 0x8a], Count, Syscall NR_write [Reg 0, Write_buf, Imm 0x8a], Count,
    Syscall NR_write [Reg 0, Write_buf, Imm 0x8a], Count, Syscall NR_write [Reg 0, Write_buf, Imm 0x8a], Count,
    Syscall NR_write [Reg 0, Write_buf, Imm 0x8a], Count, Syscall NR_write [Reg 0, Write_buf, Imm 0x8a], Count,
    Syscall NR_write [Reg 0, Write_buf, Imm 0x8a], Count, Syscall NR_write [Reg 0, Write_buf, Imm 0x8a], Count,
    Syscall NR_write [Reg 0, Write_buf, Imm 0x8a], Count, Syscall NR_write [Reg 0, Write_buf, Imm 0x8a], Count,
    Syscall NR_write [Reg 0, Write_buf, Imm 0x8a], Count, Syscall NR_write [Reg 0, Write_buf, Imm 0x8a], Count,
    Syscall NR_write [Reg 0, Write_buf, Imm 0x8a], Count, Syscall NR_write [Reg 0, Write_buf, Imm 0x8a], Count]"

definition min_rocks_write_fcntl_0_0_body432 :: "stmt list" where
  "min_rocks_write_fcntl_0_0_body432 = [
    Syscall NR_write [Reg 0, Write_buf, Imm 0x8a], Count, Syscall NR_write [Reg 0, Write_buf, Imm 0x8a], Count,
    Syscall NR_write [Reg 0, Write_buf, Imm 0x8a], Count, Syscall NR_write [Reg 0, Write_buf, Imm 0x8a], Count,
    Syscall NR_write [Reg 0, Write_buf, Imm 0x8a], Count, Syscall NR_write [Reg 0, Write_buf, Imm 0x8a], Count,
    Syscall NR_write [Reg 0, Write_buf, Imm 0x8a], Count, Syscall NR_write [Reg 0, Write_buf, Imm 0x8a], Count,
    Syscall NR_write [Reg 0, Write_buf, Imm 0x8a], Count, Syscall NR_write [Reg 0, Write_buf, Imm 0x8a], Count,
    Syscall NR_write [Reg 0, Write_buf, Imm 0x8a], Count, Syscall NR_write [Reg 0, Write_buf, Imm 0x8a], Count,
    Syscall NR_write [Reg 0, Write_buf, Imm 0x8a], Count, Syscall NR_write [Reg 0, Write_buf, Imm 0x8a], Count]"

definition min_rocks_write_fcntl_0_0_body433 :: "stmt list" where
  "min_rocks_write_fcntl_0_0_body433 = [
    Syscall NR_write [Reg 0, Write_buf, Imm 0x8a], Count, Syscall NR_write [Reg 0, Write_buf, Imm 0x8a], Count,
    Syscall NR_write [Reg 0, Write_buf, Imm 0x8a], Count, Syscall NR_write [Reg 0, Write_buf, Imm 0x8a], Count,
    Syscall NR_write [Reg 0, Write_buf, Imm 0x8a], Count, Syscall NR_write [Reg 0, Write_buf, Imm 0x8a], Count,
    Syscall NR_write [Reg 0, Write_buf, Imm 0x8a], Count, Syscall NR_write [Reg 0, Write_buf, Imm 0x8a], Count,
    Syscall NR_write [Reg 0, Write_buf, Imm 0x8a], Count, Syscall NR_write [Reg 0, Write_buf, Imm 0x8a], Count,
    Syscall NR_write [Reg 0, Write_buf, Imm 0x8a], Count, Syscall NR_write [Reg 0, Write_buf, Imm 0x8a], Count,
    Syscall NR_write [Reg 0, Write_buf, Imm 0x8a], Count, Syscall NR_write [Reg 0, Write_buf, Imm 0x8a], Count]"

definition min_rocks_write_fcntl_0_0_body434 :: "stmt list" where
  "min_rocks_write_fcntl_0_0_body434 = [
    Syscall NR_write [Reg 0, Write_buf, Imm 0x8a], Count, Syscall NR_write [Reg 0, Write_buf, Imm 0x8a], Count,
    Syscall NR_write [Reg 0, Write_buf, Imm 0x8a], Count, Syscall NR_write [Reg 0, Write_buf, Imm 0x8a], Count,
    Syscall NR_write [Reg 0, Write_buf, Imm 0x8a], Count, Syscall NR_write [Reg 0, Write_buf, Imm 0x8a], Count,
    Syscall NR_write [Reg 0, Write_buf, Imm 0x8a], Count, Syscall NR_write [Reg 0, Write_buf, Imm 0x8a], Count,
    Syscall NR_write [Reg 0, Write_buf, Imm 0x8a], Count, Syscall NR_write [Reg 0, Write_buf, Imm 0x8a], Count,
    Syscall NR_write [Reg 0, Write_buf, Imm 0x8a], Count, Syscall NR_write [Reg 0, Write_buf, Imm 0x8a], Count,
    Syscall NR_write [Reg 0, Write_buf, Imm 0x8a], Count, Syscall NR_write [Reg 0, Write_buf, Imm 0x8a], Count]"

definition min_rocks_write_fcntl_0_0_body435 :: "stmt list" where
  "min_rocks_write_fcntl_0_0_body435 = [
    Syscall NR_write [Reg 0, Write_buf, Imm 0x8a], Count, Syscall NR_write [Reg 0, Write_buf, Imm 0x8a], Count,
    Syscall NR_write [Reg 0, Write_buf, Imm 0x8a], Count, Syscall NR_write [Reg 0, Write_buf, Imm 0x8a], Count,
    Syscall NR_write [Reg 0, Write_buf, Imm 0x8a], Count, Syscall NR_write [Reg 0, Write_buf, Imm 0x8a], Count,
    Syscall NR_write [Reg 0, Write_buf, Imm 0x8a], Count, Syscall NR_write [Reg 0, Write_buf, Imm 0x8a], Count,
    Syscall NR_write [Reg 0, Write_buf, Imm 0x8a], Count, Syscall NR_write [Reg 0, Write_buf, Imm 0x8a], Count,
    Syscall NR_write [Reg 0, Write_buf, Imm 0x8a], Count, Syscall NR_write [Reg 0, Write_buf, Imm 0x8a], Count,
    Syscall NR_write [Reg 0, Write_buf, Imm 0x8a], Count, Syscall NR_write [Reg 0, Write_buf, Imm 0x8a], Count]"

definition min_rocks_write_fcntl_0_0_body436 :: "stmt list" where
  "min_rocks_write_fcntl_0_0_body436 = [
    Syscall NR_write [Reg 0, Write_buf, Imm 0x8a], Count, Syscall NR_write [Reg 0, Write_buf, Imm 0x8a], Count,
    Syscall NR_write [Reg 0, Write_buf, Imm 0x8a], Count, Syscall NR_write [Reg 0, Write_buf, Imm 0x8a], Count,
    Syscall NR_write [Reg 0, Write_buf, Imm 0x8a], Count, Syscall NR_write [Reg 0, Write_buf, Imm 0x8a], Count,
    Syscall NR_write [Reg 0, Write_buf, Imm 0x8a], Count, Syscall NR_write [Reg 0, Write_buf, Imm 0x8a], Count,
    Syscall NR_write [Reg 0, Write_buf, Imm 0x8a], Count, Syscall NR_write [Reg 0, Write_buf, Imm 0x8a], Count,
    Syscall NR_write [Reg 0, Write_buf, Imm 0x8a], Count, Syscall NR_write [Reg 0, Write_buf, Imm 0x8a], Count,
    Syscall NR_write [Reg 0, Write_buf, Imm 0x8a], Count, Syscall NR_write [Reg 0, Write_buf, Imm 0x8a], Count]"

definition min_rocks_write_fcntl_0_0_body437 :: "stmt list" where
  "min_rocks_write_fcntl_0_0_body437 = [
    Syscall NR_write [Reg 0, Write_buf, Imm 0x8a], Count, Syscall NR_write [Reg 0, Write_buf, Imm 0x8a], Count,
    Syscall NR_write [Reg 0, Write_buf, Imm 0x8a], Count, Syscall NR_write [Reg 0, Write_buf, Imm 0x8a], Count,
    Syscall NR_write [Reg 0, Write_buf, Imm 0x8a], Count, Syscall NR_write [Reg 0, Write_buf, Imm 0x8a], Count,
    Syscall NR_write [Reg 0, Write_buf, Imm 0x8a], Count, Syscall NR_write [Reg 0, Write_buf, Imm 0x8a], Count,
    Syscall NR_write [Reg 0, Write_buf, Imm 0x8a], Count, Syscall NR_write [Reg 0, Write_buf, Imm 0x8a], Count,
    Syscall NR_write [Reg 0, Write_buf, Imm 0x8a], Count, Syscall NR_write [Reg 0, Write_buf, Imm 0x8a], Count,
    Syscall NR_write [Reg 0, Write_buf, Imm 0x8a], Count, Syscall NR_write [Reg 0, Write_buf, Imm 0x8a], Count]"

definition min_rocks_write_fcntl_0_0_body438 :: "stmt list" where
  "min_rocks_write_fcntl_0_0_body438 = [
    Syscall NR_write [Reg 0, Write_buf, Imm 0x8a], Count, Syscall NR_write [Reg 0, Write_buf, Imm 0x8a], Count,
    Syscall NR_write [Reg 0, Write_buf, Imm 0x8a], Count, Syscall NR_write [Reg 0, Write_buf, Imm 0x8a], Count,
    Syscall NR_write [Reg 0, Write_buf, Imm 0x8a], Count, Syscall NR_write [Reg 0, Write_buf, Imm 0x8a], Count,
    Syscall NR_write [Reg 0, Write_buf, Imm 0x8a], Count, Syscall NR_write [Reg 0, Write_buf, Imm 0x8a], Count,
    Syscall NR_write [Reg 0, Write_buf, Imm 0x8a], Count, Syscall NR_write [Reg 0, Write_buf, Imm 0x8a], Count,
    Syscall NR_write [Reg 0, Write_buf, Imm 0x8a], Count, Syscall NR_write [Reg 0, Write_buf, Imm 0x8a], Count,
    Syscall NR_write [Reg 0, Write_buf, Imm 0x8a], Count, Syscall NR_write [Reg 0, Write_buf, Imm 0x8a], Count]"

definition min_rocks_write_fcntl_0_0_body439 :: "stmt list" where
  "min_rocks_write_fcntl_0_0_body439 = [
    Syscall NR_write [Reg 0, Write_buf, Imm 0x8a], Count, Syscall NR_write [Reg 0, Write_buf, Imm 0x8a], Count,
    Syscall NR_write [Reg 0, Write_buf, Imm 0x8a], Count, Syscall NR_write [Reg 0, Write_buf, Imm 0x8a], Count,
    Syscall NR_write [Reg 0, Write_buf, Imm 0x8a], Count, Syscall NR_write [Reg 0, Write_buf, Imm 0x8a], Count,
    Syscall NR_write [Reg 0, Write_buf, Imm 0x8a], Count, Syscall NR_write [Reg 0, Write_buf, Imm 0x8a], Count,
    Syscall NR_write [Reg 0, Write_buf, Imm 0x8a], Count, Syscall NR_write [Reg 0, Write_buf, Imm 0x8a], Count,
    Syscall NR_write [Reg 0, Write_buf, Imm 0x8a], Count, Syscall NR_write [Reg 0, Write_buf, Imm 0x8a], Count,
    Syscall NR_write [Reg 0, Write_buf, Imm 0x8a], Count, Syscall NR_write [Reg 0, Write_buf, Imm 0x8a], Count]"

definition min_rocks_write_fcntl_0_0_body440 :: "stmt list" where
  "min_rocks_write_fcntl_0_0_body440 = [
    Syscall NR_write [Reg 0, Write_buf, Imm 0x8a], Count, Syscall NR_write [Reg 0, Write_buf, Imm 0x8a], Count,
    Syscall NR_write [Reg 0, Write_buf, Imm 0x8a], Count, Syscall NR_write [Reg 0, Write_buf, Imm 0x8a], Count,
    Syscall NR_write [Reg 0, Write_buf, Imm 0x8a], Count, Syscall NR_write [Reg 0, Write_buf, Imm 0x8a], Count,
    Syscall NR_write [Reg 0, Write_buf, Imm 0x8a], Count, Syscall NR_write [Reg 0, Write_buf, Imm 0x8a], Count,
    Syscall NR_write [Reg 0, Write_buf, Imm 0x8a], Count, Syscall NR_write [Reg 0, Write_buf, Imm 0x8a], Count,
    Syscall NR_write [Reg 0, Write_buf, Imm 0x8a], Count, Syscall NR_write [Reg 0, Write_buf, Imm 0x8a], Count,
    Syscall NR_write [Reg 0, Write_buf, Imm 0x8a], Count, Syscall NR_write [Reg 0, Write_buf, Imm 0x8a], Count]"

definition min_rocks_write_fcntl_0_0_body441 :: "stmt list" where
  "min_rocks_write_fcntl_0_0_body441 = [
    Syscall NR_write [Reg 0, Write_buf, Imm 0x8a], Count, Syscall NR_write [Reg 0, Write_buf, Imm 0x8a], Count,
    Syscall NR_write [Reg 0, Write_buf, Imm 0x8a], Count, Syscall NR_write [Reg 0, Write_buf, Imm 0x8a], Count,
    Syscall NR_write [Reg 0, Write_buf, Imm 0x91], Count, Syscall NR_write [Reg 0, Write_buf, Imm 0x8a], Count,
    Syscall NR_write [Reg 0, Write_buf, Imm 0x8a], Count, Syscall NR_write [Reg 0, Write_buf, Imm 0x8a], Count,
    Syscall NR_write [Reg 0, Write_buf, Imm 0x8a], Count, Syscall NR_write [Reg 0, Write_buf, Imm 0x8a], Count,
    Syscall NR_write [Reg 0, Write_buf, Imm 0x8a], Count, Syscall NR_write [Reg 0, Write_buf, Imm 0x8a], Count,
    Syscall NR_write [Reg 0, Write_buf, Imm 0x8a], Count, Syscall NR_write [Reg 0, Write_buf, Imm 0x8a], Count]"

definition min_rocks_write_fcntl_0_0_body442 :: "stmt list" where
  "min_rocks_write_fcntl_0_0_body442 = [
    Syscall NR_write [Reg 0, Write_buf, Imm 0x8a], Count, Syscall NR_write [Reg 0, Write_buf, Imm 0x8a], Count,
    Syscall NR_write [Reg 0, Write_buf, Imm 0x8a], Count, Syscall NR_write [Reg 0, Write_buf, Imm 0x8a], Count,
    Syscall NR_write [Reg 0, Write_buf, Imm 0x8a], Count, Syscall NR_write [Reg 0, Write_buf, Imm 0x8a], Count,
    Syscall NR_write [Reg 0, Write_buf, Imm 0x8a], Count, Syscall NR_write [Reg 0, Write_buf, Imm 0x8a], Count,
    Syscall NR_write [Reg 0, Write_buf, Imm 0x8a], Count, Syscall NR_write [Reg 0, Write_buf, Imm 0x8a], Count,
    Syscall NR_write [Reg 0, Write_buf, Imm 0x8a], Count, Syscall NR_write [Reg 0, Write_buf, Imm 0x8a], Count,
    Syscall NR_write [Reg 0, Write_buf, Imm 0x8a], Count, Syscall NR_write [Reg 0, Write_buf, Imm 0x8a], Count]"

definition min_rocks_write_fcntl_0_0_body443 :: "stmt list" where
  "min_rocks_write_fcntl_0_0_body443 = [
    Syscall NR_write [Reg 0, Write_buf, Imm 0x8a], Count, Syscall NR_write [Reg 0, Write_buf, Imm 0x8a], Count,
    Syscall NR_write [Reg 0, Write_buf, Imm 0x8a], Count, Syscall NR_write [Reg 0, Write_buf, Imm 0x8a], Count,
    Syscall NR_write [Reg 0, Write_buf, Imm 0x8a], Count, Syscall NR_write [Reg 0, Write_buf, Imm 0x8a], Count,
    Syscall NR_write [Reg 0, Write_buf, Imm 0x8a], Count, Syscall NR_write [Reg 0, Write_buf, Imm 0x8a], Count,
    Syscall NR_write [Reg 0, Write_buf, Imm 0x8a], Count, Syscall NR_write [Reg 0, Write_buf, Imm 0x8a], Count,
    Syscall NR_write [Reg 0, Write_buf, Imm 0x8a], Count, Syscall NR_write [Reg 0, Write_buf, Imm 0x8a], Count,
    Syscall NR_write [Reg 0, Write_buf, Imm 0x8a], Count, Syscall NR_write [Reg 0, Write_buf, Imm 0x8a], Count]"

definition min_rocks_write_fcntl_0_0_body444 :: "stmt list" where
  "min_rocks_write_fcntl_0_0_body444 = [
    Syscall NR_write [Reg 0, Write_buf, Imm 0x8a], Count, Syscall NR_write [Reg 0, Write_buf, Imm 0x8a], Count,
    Syscall NR_write [Reg 0, Write_buf, Imm 0x8a], Count, Syscall NR_write [Reg 0, Write_buf, Imm 0x8a], Count,
    Syscall NR_write [Reg 0, Write_buf, Imm 0x8a], Count, Syscall NR_write [Reg 0, Write_buf, Imm 0x8a], Count,
    Syscall NR_write [Reg 0, Write_buf, Imm 0x8a], Count, Syscall NR_write [Reg 0, Write_buf, Imm 0x8a], Count,
    Syscall NR_write [Reg 0, Write_buf, Imm 0x8a], Count, Syscall NR_write [Reg 0, Write_buf, Imm 0x8a], Count,
    Syscall NR_write [Reg 0, Write_buf, Imm 0x8a], Count, Syscall NR_write [Reg 0, Write_buf, Imm 0x8a], Count,
    Syscall NR_write [Reg 0, Write_buf, Imm 0x8a], Count, Syscall NR_write [Reg 0, Write_buf, Imm 0x8a], Count]"

definition min_rocks_write_fcntl_0_0_body445 :: "stmt list" where
  "min_rocks_write_fcntl_0_0_body445 = [
    Syscall NR_write [Reg 0, Write_buf, Imm 0x8a], Count, Syscall NR_write [Reg 0, Write_buf, Imm 0x8a], Count,
    Syscall NR_write [Reg 0, Write_buf, Imm 0x8a], Count, Syscall NR_write [Reg 0, Write_buf, Imm 0x8a], Count,
    Syscall NR_write [Reg 0, Write_buf, Imm 0x8a], Count, Syscall NR_write [Reg 0, Write_buf, Imm 0x8a], Count,
    Syscall NR_write [Reg 0, Write_buf, Imm 0x8a], Count, Syscall NR_write [Reg 0, Write_buf, Imm 0x8a], Count,
    Syscall NR_write [Reg 0, Write_buf, Imm 0x8a], Count, Syscall NR_write [Reg 0, Write_buf, Imm 0x8a], Count,
    Syscall NR_write [Reg 0, Write_buf, Imm 0x8a], Count, Syscall NR_write [Reg 0, Write_buf, Imm 0x8a], Count,
    Syscall NR_write [Reg 0, Write_buf, Imm 0x8a], Count, Syscall NR_write [Reg 0, Write_buf, Imm 0x8a], Count]"

definition min_rocks_write_fcntl_0_0_body446 :: "stmt list" where
  "min_rocks_write_fcntl_0_0_body446 = [
    Syscall NR_write [Reg 0, Write_buf, Imm 0x8a], Count, Syscall NR_write [Reg 0, Write_buf, Imm 0x8a], Count,
    Syscall NR_write [Reg 0, Write_buf, Imm 0x8a], Count, Syscall NR_write [Reg 0, Write_buf, Imm 0x8a], Count,
    Syscall NR_write [Reg 0, Write_buf, Imm 0x8a], Count, Syscall NR_write [Reg 0, Write_buf, Imm 0x8a], Count,
    Syscall NR_write [Reg 0, Write_buf, Imm 0x8a], Count, Syscall NR_write [Reg 0, Write_buf, Imm 0x8a], Count,
    Syscall NR_write [Reg 0, Write_buf, Imm 0x8a], Count, Syscall NR_write [Reg 0, Write_buf, Imm 0x8a], Count,
    Syscall NR_write [Reg 0, Write_buf, Imm 0x8a], Count, Syscall NR_write [Reg 0, Write_buf, Imm 0x8a], Count,
    Syscall NR_write [Reg 0, Write_buf, Imm 0x8a], Count, Syscall NR_write [Reg 0, Write_buf, Imm 0x8a], Count]"

definition min_rocks_write_fcntl_0_0_body447 :: "stmt list" where
  "min_rocks_write_fcntl_0_0_body447 = [
    Syscall NR_write [Reg 0, Write_buf, Imm 0x8a], Count, Syscall NR_write [Reg 0, Write_buf, Imm 0x8a], Count,
    Syscall NR_write [Reg 0, Write_buf, Imm 0x8a], Count, Syscall NR_write [Reg 0, Write_buf, Imm 0x8a], Count,
    Syscall NR_write [Reg 0, Write_buf, Imm 0x8a], Count, Syscall NR_write [Reg 0, Write_buf, Imm 0x8a], Count,
    Syscall NR_write [Reg 0, Write_buf, Imm 0x8a], Count, Syscall NR_write [Reg 0, Write_buf, Imm 0x8a], Count,
    Syscall NR_write [Reg 0, Write_buf, Imm 0x8a], Count, Syscall NR_write [Reg 0, Write_buf, Imm 0x8a], Count,
    Syscall NR_write [Reg 0, Write_buf, Imm 0x8a], Count, Syscall NR_write [Reg 0, Write_buf, Imm 0x8a], Count,
    Syscall NR_write [Reg 0, Write_buf, Imm 0x8a], Count, Syscall NR_write [Reg 0, Write_buf, Imm 0x8a], Count]"

definition min_rocks_write_fcntl_0_0_body448 :: "stmt list" where
  "min_rocks_write_fcntl_0_0_body448 = [
    Syscall NR_write [Reg 0, Write_buf, Imm 0x8a], Count, Syscall NR_write [Reg 0, Write_buf, Imm 0x8a], Count,
    Syscall NR_write [Reg 0, Write_buf, Imm 0x8a], Count, Syscall NR_write [Reg 0, Write_buf, Imm 0x8a], Count,
    Syscall NR_write [Reg 0, Write_buf, Imm 0x8a], Count, Syscall NR_write [Reg 0, Write_buf, Imm 0x8a], Count,
    Syscall NR_write [Reg 0, Write_buf, Imm 0x8a], Count, Syscall NR_write [Reg 0, Write_buf, Imm 0x8a], Count,
    Syscall NR_write [Reg 0, Write_buf, Imm 0x8a], Count, Syscall NR_write [Reg 0, Write_buf, Imm 0x8a], Count,
    Syscall NR_write [Reg 0, Write_buf, Imm 0x8a], Count, Syscall NR_write [Reg 0, Write_buf, Imm 0x8a], Count,
    Syscall NR_write [Reg 0, Write_buf, Imm 0x8a], Count, Syscall NR_write [Reg 0, Write_buf, Imm 0x8a], Count]"

definition min_rocks_write_fcntl_0_0_body449 :: "stmt list" where
  "min_rocks_write_fcntl_0_0_body449 = [
    Syscall NR_write [Reg 0, Write_buf, Imm 0x8a], Count, Syscall NR_write [Reg 0, Write_buf, Imm 0x8a], Count,
    Syscall NR_write [Reg 0, Write_buf, Imm 0x8a], Count, Syscall NR_write [Reg 0, Write_buf, Imm 0x8a], Count,
    Syscall NR_write [Reg 0, Write_buf, Imm 0x8a], Count, Syscall NR_write [Reg 0, Write_buf, Imm 0x8a], Count,
    Syscall NR_write [Reg 0, Write_buf, Imm 0x8a], Count, Syscall NR_write [Reg 0, Write_buf, Imm 0x8a], Count,
    Syscall NR_write [Reg 0, Write_buf, Imm 0x8a], Count, Syscall NR_write [Reg 0, Write_buf, Imm 0x8a], Count,
    Syscall NR_write [Reg 0, Write_buf, Imm 0x8a], Count, Syscall NR_write [Reg 0, Write_buf, Imm 0x8a], Count,
    Syscall NR_write [Reg 0, Write_buf, Imm 0x8a], Count, Syscall NR_write [Reg 0, Write_buf, Imm 0x8a], Count]"

definition min_rocks_write_fcntl_0_0_body450 :: "stmt list" where
  "min_rocks_write_fcntl_0_0_body450 = [
    Syscall NR_write [Reg 0, Write_buf, Imm 0x8a], Count, Syscall NR_write [Reg 0, Write_buf, Imm 0x8a], Count,
    Syscall NR_write [Reg 0, Write_buf, Imm 0x8a], Count, Syscall NR_write [Reg 0, Write_buf, Imm 0x8a], Count,
    Syscall NR_write [Reg 0, Write_buf, Imm 0x8a], Count, Syscall NR_write [Reg 0, Write_buf, Imm 0x8a], Count,
    Syscall NR_write [Reg 0, Write_buf, Imm 0x8a], Count, Syscall NR_write [Reg 0, Write_buf, Imm 0x8a], Count,
    Syscall NR_write [Reg 0, Write_buf, Imm 0x8a], Count, Syscall NR_write [Reg 0, Write_buf, Imm 0x8a], Count,
    Syscall NR_write [Reg 0, Write_buf, Imm 0x8a], Count, Syscall NR_write [Reg 0, Write_buf, Imm 0x8a], Count,
    Syscall NR_write [Reg 0, Write_buf, Imm 0x8a], Count, Syscall NR_write [Reg 0, Write_buf, Imm 0x8a], Count]"

definition min_rocks_write_fcntl_0_0_body451 :: "stmt list" where
  "min_rocks_write_fcntl_0_0_body451 = [
    Syscall NR_write [Reg 0, Write_buf, Imm 0x8a], Count, Syscall NR_write [Reg 0, Write_buf, Imm 0x8a], Count,
    Syscall NR_write [Reg 0, Write_buf, Imm 0x8a], Count, Syscall NR_write [Reg 0, Write_buf, Imm 0x8a], Count,
    Syscall NR_write [Reg 0, Write_buf, Imm 0x8a], Count, Syscall NR_write [Reg 0, Write_buf, Imm 0x8a], Count,
    Syscall NR_write [Reg 0, Write_buf, Imm 0x8a], Count, Syscall NR_write [Reg 0, Write_buf, Imm 0x8a], Count,
    Syscall NR_write [Reg 0, Write_buf, Imm 0x8a], Count, Syscall NR_write [Reg 0, Write_buf, Imm 0x8a], Count,
    Syscall NR_write [Reg 0, Write_buf, Imm 0x8a], Count, Syscall NR_write [Reg 0, Write_buf, Imm 0x8a], Count,
    Syscall NR_write [Reg 0, Write_buf, Imm 0x8a], Count, Syscall NR_write [Reg 0, Write_buf, Imm 0x8a], Count]"

definition min_rocks_write_fcntl_0_0_body452 :: "stmt list" where
  "min_rocks_write_fcntl_0_0_body452 = [
    Syscall NR_write [Reg 0, Write_buf, Imm 0x8a], Count, Syscall NR_write [Reg 0, Write_buf, Imm 0x8a], Count,
    Syscall NR_write [Reg 0, Write_buf, Imm 0x8a], Count, Syscall NR_write [Reg 0, Write_buf, Imm 0x8a], Count,
    Syscall NR_write [Reg 0, Write_buf, Imm 0x8a], Count, Syscall NR_write [Reg 0, Write_buf, Imm 0x8a], Count,
    Syscall NR_write [Reg 0, Write_buf, Imm 0x8a], Count, Syscall NR_write [Reg 0, Write_buf, Imm 0x8a], Count,
    Syscall NR_write [Reg 0, Write_buf, Imm 0x8a], Count, Syscall NR_write [Reg 0, Write_buf, Imm 0x8a], Count,
    Syscall NR_write [Reg 0, Write_buf, Imm 0x8a], Count, Syscall NR_write [Reg 0, Write_buf, Imm 0x8a], Count,
    Syscall NR_write [Reg 0, Write_buf, Imm 0x8a], Count, Syscall NR_write [Reg 0, Write_buf, Imm 0x8a], Count]"

definition min_rocks_write_fcntl_0_0_body453 :: "stmt list" where
  "min_rocks_write_fcntl_0_0_body453 = [
    Syscall NR_write [Reg 0, Write_buf, Imm 0x8a], Count, Syscall NR_write [Reg 0, Write_buf, Imm 0x8a], Count,
    Syscall NR_write [Reg 0, Write_buf, Imm 0x8a], Count, Syscall NR_write [Reg 0, Write_buf, Imm 0x8a], Count,
    Syscall NR_write [Reg 0, Write_buf, Imm 0x8a], Count, Syscall NR_write [Reg 0, Write_buf, Imm 0x8a], Count,
    Syscall NR_write [Reg 0, Write_buf, Imm 0x8a], Count, Syscall NR_write [Reg 0, Write_buf, Imm 0x8a], Count,
    Syscall NR_write [Reg 0, Write_buf, Imm 0x8a], Count, Syscall NR_write [Reg 0, Write_buf, Imm 0x8a], Count,
    Syscall NR_write [Reg 0, Write_buf, Imm 0x8a], Count, Syscall NR_write [Reg 0, Write_buf, Imm 0x8a], Count,
    Syscall NR_write [Reg 0, Write_buf, Imm 0x8a], Count, Syscall NR_write [Reg 0, Write_buf, Imm 0x8a], Count]"

definition min_rocks_write_fcntl_0_0_body454 :: "stmt list" where
  "min_rocks_write_fcntl_0_0_body454 = [
    Syscall NR_write [Reg 0, Write_buf, Imm 0x8a], Count, Syscall NR_write [Reg 0, Write_buf, Imm 0x8a], Count,
    Syscall NR_write [Reg 0, Write_buf, Imm 0x8a], Count, Syscall NR_write [Reg 0, Write_buf, Imm 0x8a], Count,
    Syscall NR_write [Reg 0, Write_buf, Imm 0x8a], Count, Syscall NR_write [Reg 0, Write_buf, Imm 0x8a], Count,
    Syscall NR_write [Reg 0, Write_buf, Imm 0x8a], Count, Syscall NR_write [Reg 0, Write_buf, Imm 0x8a], Count,
    Syscall NR_write [Reg 0, Write_buf, Imm 0x8a], Count, Syscall NR_write [Reg 0, Write_buf, Imm 0x8a], Count,
    Syscall NR_write [Reg 0, Write_buf, Imm 0x8a], Count, Syscall NR_write [Reg 0, Write_buf, Imm 0x8a], Count,
    Syscall NR_write [Reg 0, Write_buf, Imm 0x8a], Count, Syscall NR_write [Reg 0, Write_buf, Imm 0x8a], Count]"

definition min_rocks_write_fcntl_0_0_body455 :: "stmt list" where
  "min_rocks_write_fcntl_0_0_body455 = [
    Syscall NR_write [Reg 0, Write_buf, Imm 0x8a], Count, Syscall NR_write [Reg 0, Write_buf, Imm 0x8a], Count,
    Syscall NR_write [Reg 0, Write_buf, Imm 0x8a], Count, Syscall NR_write [Reg 0, Write_buf, Imm 0x8a], Count,
    Syscall NR_write [Reg 0, Write_buf, Imm 0x8a], Count, Syscall NR_write [Reg 0, Write_buf, Imm 0x8a], Count,
    Syscall NR_write [Reg 0, Write_buf, Imm 0x8a], Count, Syscall NR_write [Reg 0, Write_buf, Imm 0x8a], Count,
    Syscall NR_write [Reg 0, Write_buf, Imm 0x8a], Count, Syscall NR_write [Reg 0, Write_buf, Imm 0x8a], Count,
    Syscall NR_write [Reg 0, Write_buf, Imm 0x8a], Count, Syscall NR_write [Reg 0, Write_buf, Imm 0x8a], Count,
    Syscall NR_write [Reg 0, Write_buf, Imm 0x8a], Count, Syscall NR_write [Reg 0, Write_buf, Imm 0x8a], Count]"

definition min_rocks_write_fcntl_0_0_body456 :: "stmt list" where
  "min_rocks_write_fcntl_0_0_body456 = [
    Syscall NR_write [Reg 0, Write_buf, Imm 0x8a], Count, Syscall NR_write [Reg 0, Write_buf, Imm 0x8a], Count,
    Syscall NR_write [Reg 0, Write_buf, Imm 0x8a], Count, Syscall NR_write [Reg 0, Write_buf, Imm 0x8a], Count,
    Syscall NR_write [Reg 0, Write_buf, Imm 0x8a], Count, Syscall NR_write [Reg 0, Write_buf, Imm 0x8a], Count,
    Syscall NR_write [Reg 0, Write_buf, Imm 0x8a], Count, Syscall NR_write [Reg 0, Write_buf, Imm 0x8a], Count,
    Syscall NR_write [Reg 0, Write_buf, Imm 0x8a], Count, Syscall NR_write [Reg 0, Write_buf, Imm 0x8a], Count,
    Syscall NR_write [Reg 0, Write_buf, Imm 0x8a], Count, Syscall NR_write [Reg 0, Write_buf, Imm 0x8a], Count,
    Syscall NR_write [Reg 0, Write_buf, Imm 0x8a], Count, Syscall NR_write [Reg 0, Write_buf, Imm 0x8a], Count]"

definition min_rocks_write_fcntl_0_0_body457 :: "stmt list" where
  "min_rocks_write_fcntl_0_0_body457 = [
    Syscall NR_write [Reg 0, Write_buf, Imm 0x8a], Count, Syscall NR_write [Reg 0, Write_buf, Imm 0x8a], Count,
    Syscall NR_write [Reg 0, Write_buf, Imm 0x8a], Count, Syscall NR_write [Reg 0, Write_buf, Imm 0x8a], Count,
    Syscall NR_write [Reg 0, Write_buf, Imm 0x8a], Count, Syscall NR_write [Reg 0, Write_buf, Imm 0x8a], Count,
    Syscall NR_write [Reg 0, Write_buf, Imm 0x8a], Count, Syscall NR_write [Reg 0, Write_buf, Imm 0x8a], Count,
    Syscall NR_write [Reg 0, Write_buf, Imm 0x8a], Count, Syscall NR_write [Reg 0, Write_buf, Imm 0x8a], Count,
    Syscall NR_write [Reg 0, Write_buf, Imm 0x8a], Count, Syscall NR_write [Reg 0, Write_buf, Imm 0x8a], Count,
    Syscall NR_write [Reg 0, Write_buf, Imm 0x8a], Count, Syscall NR_write [Reg 0, Write_buf, Imm 0x8a], Count]"

definition min_rocks_write_fcntl_0_0_body458 :: "stmt list" where
  "min_rocks_write_fcntl_0_0_body458 = [
    Syscall NR_write [Reg 0, Write_buf, Imm 0x8a], Count, Syscall NR_write [Reg 0, Write_buf, Imm 0x8a], Count,
    Syscall NR_write [Reg 0, Write_buf, Imm 0x8a], Count, Syscall NR_write [Reg 0, Write_buf, Imm 0x8a], Count,
    Syscall NR_write [Reg 0, Write_buf, Imm 0x90], Count, Syscall NR_write [Reg 0, Write_buf, Imm 0x8a], Count,
    Syscall NR_write [Reg 0, Write_buf, Imm 0x8a], Count, Syscall NR_write [Reg 0, Write_buf, Imm 0x8a], Count,
    Syscall NR_write [Reg 0, Write_buf, Imm 0x8a], Count, Syscall NR_write [Reg 0, Write_buf, Imm 0x8a], Count,
    Syscall NR_write [Reg 0, Write_buf, Imm 0x8a], Count, Syscall NR_write [Reg 0, Write_buf, Imm 0x8a], Count,
    Syscall NR_write [Reg 0, Write_buf, Imm 0x8a], Count, Syscall NR_write [Reg 0, Write_buf, Imm 0x8a], Count]"

definition min_rocks_write_fcntl_0_0_body459 :: "stmt list" where
  "min_rocks_write_fcntl_0_0_body459 = [
    Syscall NR_write [Reg 0, Write_buf, Imm 0x8a], Count, Syscall NR_write [Reg 0, Write_buf, Imm 0x8a], Count,
    Syscall NR_write [Reg 0, Write_buf, Imm 0x8a], Count, Syscall NR_write [Reg 0, Write_buf, Imm 0x8a], Count,
    Syscall NR_write [Reg 0, Write_buf, Imm 0x8a], Count, Syscall NR_write [Reg 0, Write_buf, Imm 0x8a], Count,
    Syscall NR_write [Reg 0, Write_buf, Imm 0x8a], Count, Syscall NR_write [Reg 0, Write_buf, Imm 0x8a], Count,
    Syscall NR_write [Reg 0, Write_buf, Imm 0x8a], Count, Syscall NR_write [Reg 0, Write_buf, Imm 0x8a], Count,
    Syscall NR_write [Reg 0, Write_buf, Imm 0x8a], Count, Syscall NR_write [Reg 0, Write_buf, Imm 0x8a], Count,
    Syscall NR_write [Reg 0, Write_buf, Imm 0x8a], Count, Syscall NR_write [Reg 0, Write_buf, Imm 0x8a], Count]"

definition min_rocks_write_fcntl_0_0_body460 :: "stmt list" where
  "min_rocks_write_fcntl_0_0_body460 = [
    Syscall NR_write [Reg 0, Write_buf, Imm 0x8a], Count, Syscall NR_write [Reg 0, Write_buf, Imm 0x8a], Count,
    Syscall NR_write [Reg 0, Write_buf, Imm 0x8a], Count, Syscall NR_write [Reg 0, Write_buf, Imm 0x8a], Count,
    Syscall NR_write [Reg 0, Write_buf, Imm 0x8a], Count, Syscall NR_write [Reg 0, Write_buf, Imm 0x8a], Count,
    Syscall NR_write [Reg 0, Write_buf, Imm 0x8a], Count, Syscall NR_write [Reg 0, Write_buf, Imm 0x8a], Count,
    Syscall NR_write [Reg 0, Write_buf, Imm 0x8a], Count, Syscall NR_write [Reg 0, Write_buf, Imm 0x8a], Count,
    Syscall NR_write [Reg 0, Write_buf, Imm 0x8a], Count, Syscall NR_write [Reg 0, Write_buf, Imm 0x8a], Count,
    Syscall NR_write [Reg 0, Write_buf, Imm 0x8a], Count, Syscall NR_write [Reg 0, Write_buf, Imm 0x8a], Count]"

definition min_rocks_write_fcntl_0_0_body461 :: "stmt list" where
  "min_rocks_write_fcntl_0_0_body461 = [
    Syscall NR_write [Reg 0, Write_buf, Imm 0x8a], Count, Syscall NR_write [Reg 0, Write_buf, Imm 0x8a], Count,
    Syscall NR_write [Reg 0, Write_buf, Imm 0x8a], Count, Syscall NR_write [Reg 0, Write_buf, Imm 0x8a], Count,
    Syscall NR_write [Reg 0, Write_buf, Imm 0x8a], Count, Syscall NR_write [Reg 0, Write_buf, Imm 0x8a], Count,
    Syscall NR_write [Reg 0, Write_buf, Imm 0x8a], Count, Syscall NR_write [Reg 0, Write_buf, Imm 0x8a], Count,
    Syscall NR_write [Reg 0, Write_buf, Imm 0x8a], Count, Syscall NR_write [Reg 0, Write_buf, Imm 0x8a], Count,
    Syscall NR_write [Reg 0, Write_buf, Imm 0x8a], Count, Syscall NR_write [Reg 0, Write_buf, Imm 0x8a], Count,
    Syscall NR_write [Reg 0, Write_buf, Imm 0x8a], Count, Syscall NR_write [Reg 0, Write_buf, Imm 0x8a], Count]"

definition min_rocks_write_fcntl_0_0_body462 :: "stmt list" where
  "min_rocks_write_fcntl_0_0_body462 = [
    Syscall NR_write [Reg 0, Write_buf, Imm 0x8a], Count, Syscall NR_write [Reg 0, Write_buf, Imm 0x8a], Count,
    Syscall NR_write [Reg 0, Write_buf, Imm 0x8a], Count, Syscall NR_write [Reg 0, Write_buf, Imm 0x8a], Count,
    Syscall NR_write [Reg 0, Write_buf, Imm 0x8a], Count, Syscall NR_write [Reg 0, Write_buf, Imm 0x8a], Count,
    Syscall NR_write [Reg 0, Write_buf, Imm 0x8a], Count, Syscall NR_write [Reg 0, Write_buf, Imm 0x8a], Count,
    Syscall NR_write [Reg 0, Write_buf, Imm 0x8a], Count, Syscall NR_write [Reg 0, Write_buf, Imm 0x8a], Count,
    Syscall NR_write [Reg 0, Write_buf, Imm 0x8a], Count, Syscall NR_write [Reg 0, Write_buf, Imm 0x8a], Count,
    Syscall NR_write [Reg 0, Write_buf, Imm 0x8a], Count, Syscall NR_write [Reg 0, Write_buf, Imm 0x8a], Count]"

definition min_rocks_write_fcntl_0_0_body463 :: "stmt list" where
  "min_rocks_write_fcntl_0_0_body463 = [
    Syscall NR_write [Reg 0, Write_buf, Imm 0x8a], Count, Syscall NR_write [Reg 0, Write_buf, Imm 0x8a], Count,
    Syscall NR_write [Reg 0, Write_buf, Imm 0x8a], Count, Syscall NR_write [Reg 0, Write_buf, Imm 0x8a], Count,
    Syscall NR_write [Reg 0, Write_buf, Imm 0x8a], Count, Syscall NR_write [Reg 0, Write_buf, Imm 0x8a], Count,
    Syscall NR_write [Reg 0, Write_buf, Imm 0x8a], Count, Syscall NR_write [Reg 0, Write_buf, Imm 0x8a], Count,
    Syscall NR_write [Reg 0, Write_buf, Imm 0x8a], Count, Syscall NR_write [Reg 0, Write_buf, Imm 0x8a], Count,
    Syscall NR_write [Reg 0, Write_buf, Imm 0x8a], Count, Syscall NR_write [Reg 0, Write_buf, Imm 0x8a], Count,
    Syscall NR_write [Reg 0, Write_buf, Imm 0x8a], Count, Syscall NR_write [Reg 0, Write_buf, Imm 0x8a], Count]"

definition min_rocks_write_fcntl_0_0_body464 :: "stmt list" where
  "min_rocks_write_fcntl_0_0_body464 = [
    Syscall NR_write [Reg 0, Write_buf, Imm 0x8a], Count, Syscall NR_write [Reg 0, Write_buf, Imm 0x8a], Count,
    Syscall NR_write [Reg 0, Write_buf, Imm 0x8a], Count, Syscall NR_write [Reg 0, Write_buf, Imm 0x8a], Count,
    Syscall NR_write [Reg 0, Write_buf, Imm 0x8a], Count, Syscall NR_write [Reg 0, Write_buf, Imm 0x8a], Count,
    Syscall NR_write [Reg 0, Write_buf, Imm 0x8a], Count, Syscall NR_write [Reg 0, Write_buf, Imm 0x8a], Count,
    Syscall NR_write [Reg 0, Write_buf, Imm 0x8a], Count, Syscall NR_write [Reg 0, Write_buf, Imm 0x8a], Count,
    Syscall NR_write [Reg 0, Write_buf, Imm 0x8a], Count, Syscall NR_write [Reg 0, Write_buf, Imm 0x8a], Count,
    Syscall NR_write [Reg 0, Write_buf, Imm 0x8a], Count, Syscall NR_write [Reg 0, Write_buf, Imm 0x8a], Count]"

definition min_rocks_write_fcntl_0_0_body465 :: "stmt list" where
  "min_rocks_write_fcntl_0_0_body465 = [
    Syscall NR_write [Reg 0, Write_buf, Imm 0x8a], Count, Syscall NR_write [Reg 0, Write_buf, Imm 0x8a], Count,
    Syscall NR_write [Reg 0, Write_buf, Imm 0x8a], Count, Syscall NR_write [Reg 0, Write_buf, Imm 0x8a], Count,
    Syscall NR_write [Reg 0, Write_buf, Imm 0x8a], Count, Syscall NR_write [Reg 0, Write_buf, Imm 0x8a], Count,
    Syscall NR_write [Reg 0, Write_buf, Imm 0x8a], Count, Syscall NR_write [Reg 0, Write_buf, Imm 0x8a], Count,
    Syscall NR_write [Reg 0, Write_buf, Imm 0x8a], Count, Syscall NR_write [Reg 0, Write_buf, Imm 0x8a], Count,
    Syscall NR_write [Reg 0, Write_buf, Imm 0x8a], Count, Syscall NR_write [Reg 0, Write_buf, Imm 0x8a], Count,
    Syscall NR_write [Reg 0, Write_buf, Imm 0x8a], Count, Syscall NR_write [Reg 0, Write_buf, Imm 0x8a], Count]"

definition min_rocks_write_fcntl_0_0_body466 :: "stmt list" where
  "min_rocks_write_fcntl_0_0_body466 = [
    Syscall NR_write [Reg 0, Write_buf, Imm 0x8a], Count, Syscall NR_write [Reg 0, Write_buf, Imm 0x8a], Count,
    Syscall NR_write [Reg 0, Write_buf, Imm 0x8a], Count, Syscall NR_write [Reg 0, Write_buf, Imm 0x8a], Count,
    Syscall NR_write [Reg 0, Write_buf, Imm 0x8a], Count, Syscall NR_write [Reg 0, Write_buf, Imm 0x8a], Count,
    Syscall NR_write [Reg 0, Write_buf, Imm 0x8a], Count, Syscall NR_write [Reg 0, Write_buf, Imm 0x8a], Count,
    Syscall NR_write [Reg 0, Write_buf, Imm 0x8a], Count, Syscall NR_write [Reg 0, Write_buf, Imm 0x8a], Count,
    Syscall NR_write [Reg 0, Write_buf, Imm 0x8a], Count, Syscall NR_write [Reg 0, Write_buf, Imm 0x8a], Count,
    Syscall NR_write [Reg 0, Write_buf, Imm 0x8a], Count, Syscall NR_write [Reg 0, Write_buf, Imm 0x8a], Count]"

definition min_rocks_write_fcntl_0_0_body467 :: "stmt list" where
  "min_rocks_write_fcntl_0_0_body467 = [
    Syscall NR_write [Reg 0, Write_buf, Imm 0x8a], Count, Syscall NR_write [Reg 0, Write_buf, Imm 0x8a], Count,
    Syscall NR_write [Reg 0, Write_buf, Imm 0x8a], Count, Syscall NR_write [Reg 0, Write_buf, Imm 0x8a], Count,
    Syscall NR_write [Reg 0, Write_buf, Imm 0x8a], Count, Syscall NR_write [Reg 0, Write_buf, Imm 0x8a], Count,
    Syscall NR_write [Reg 0, Write_buf, Imm 0x8a], Count, Syscall NR_write [Reg 0, Write_buf, Imm 0x8a], Count,
    Syscall NR_write [Reg 0, Write_buf, Imm 0x8a], Count, Syscall NR_write [Reg 0, Write_buf, Imm 0x8a], Count,
    Syscall NR_write [Reg 0, Write_buf, Imm 0x8a], Count, Syscall NR_write [Reg 0, Write_buf, Imm 0x8a], Count,
    Syscall NR_write [Reg 0, Write_buf, Imm 0x8a], Count, Syscall NR_write [Reg 0, Write_buf, Imm 0x8a], Count]"

definition min_rocks_write_fcntl_0_0_body468 :: "stmt list" where
  "min_rocks_write_fcntl_0_0_body468 = [
    Syscall NR_write [Reg 0, Write_buf, Imm 0x8a], Count, Syscall NR_write [Reg 0, Write_buf, Imm 0x8a], Count,
    Syscall NR_write [Reg 0, Write_buf, Imm 0x8a], Count, Syscall NR_write [Reg 0, Write_buf, Imm 0x8a], Count,
    Syscall NR_write [Reg 0, Write_buf, Imm 0x8a], Count, Syscall NR_write [Reg 0, Write_buf, Imm 0x8a], Count,
    Syscall NR_write [Reg 0, Write_buf, Imm 0x8a], Count, Syscall NR_write [Reg 0, Write_buf, Imm 0x8a], Count,
    Syscall NR_write [Reg 0, Write_buf, Imm 0x8a], Count, Syscall NR_write [Reg 0, Write_buf, Imm 0x8a], Count,
    Syscall NR_write [Reg 0, Write_buf, Imm 0x8a], Count, Syscall NR_write [Reg 0, Write_buf, Imm 0x8a], Count,
    Syscall NR_write [Reg 0, Write_buf, Imm 0x8a], Count, Syscall NR_write [Reg 0, Write_buf, Imm 0x8a], Count]"

definition min_rocks_write_fcntl_0_0_body469 :: "stmt list" where
  "min_rocks_write_fcntl_0_0_body469 = [
    Syscall NR_write [Reg 0, Write_buf, Imm 0x8a], Count, Syscall NR_write [Reg 0, Write_buf, Imm 0x8a], Count,
    Syscall NR_write [Reg 0, Write_buf, Imm 0x8a], Count, Syscall NR_write [Reg 0, Write_buf, Imm 0x8a], Count,
    Syscall NR_write [Reg 0, Write_buf, Imm 0x8a], Count, Syscall NR_write [Reg 0, Write_buf, Imm 0x8a], Count,
    Syscall NR_write [Reg 0, Write_buf, Imm 0x8a], Count, Syscall NR_write [Reg 0, Write_buf, Imm 0x8a], Count,
    Syscall NR_write [Reg 0, Write_buf, Imm 0x8a], Count, Syscall NR_write [Reg 0, Write_buf, Imm 0x8a], Count,
    Syscall NR_write [Reg 0, Write_buf, Imm 0x8a], Count, Syscall NR_write [Reg 0, Write_buf, Imm 0x8a], Count,
    Syscall NR_write [Reg 0, Write_buf, Imm 0x8a], Count, Syscall NR_write [Reg 0, Write_buf, Imm 0x8a], Count]"

definition min_rocks_write_fcntl_0_0_body470 :: "stmt list" where
  "min_rocks_write_fcntl_0_0_body470 = [
    Syscall NR_write [Reg 0, Write_buf, Imm 0x8a], Count, Syscall NR_write [Reg 0, Write_buf, Imm 0x8a], Count,
    Syscall NR_write [Reg 0, Write_buf, Imm 0x8a], Count, Syscall NR_write [Reg 0, Write_buf, Imm 0x8a], Count,
    Syscall NR_write [Reg 0, Write_buf, Imm 0x8a], Count, Syscall NR_write [Reg 0, Write_buf, Imm 0x8a], Count,
    Syscall NR_write [Reg 0, Write_buf, Imm 0x8a], Count, Syscall NR_write [Reg 0, Write_buf, Imm 0x8a], Count,
    Syscall NR_write [Reg 0, Write_buf, Imm 0x8a], Count, Syscall NR_write [Reg 0, Write_buf, Imm 0x8a], Count,
    Syscall NR_write [Reg 0, Write_buf, Imm 0x8a], Count, Syscall NR_write [Reg 0, Write_buf, Imm 0x8a], Count,
    Syscall NR_write [Reg 0, Write_buf, Imm 0x8a], Count, Syscall NR_write [Reg 0, Write_buf, Imm 0x8a], Count]"

definition min_rocks_write_fcntl_0_0_body471 :: "stmt list" where
  "min_rocks_write_fcntl_0_0_body471 = [
    Syscall NR_write [Reg 0, Write_buf, Imm 0x8a], Count, Syscall NR_write [Reg 0, Write_buf, Imm 0x8a], Count,
    Syscall NR_write [Reg 0, Write_buf, Imm 0x8a], Count, Syscall NR_write [Reg 0, Write_buf, Imm 0x8a], Count,
    Syscall NR_write [Reg 0, Write_buf, Imm 0x8a], Count, Syscall NR_write [Reg 0, Write_buf, Imm 0x8a], Count,
    Syscall NR_write [Reg 0, Write_buf, Imm 0x8a], Count, Syscall NR_write [Reg 0, Write_buf, Imm 0x8a], Count,
    Syscall NR_write [Reg 0, Write_buf, Imm 0x8a], Count, Syscall NR_write [Reg 0, Write_buf, Imm 0x8a], Count,
    Syscall NR_write [Reg 0, Write_buf, Imm 0x8a], Count, Syscall NR_write [Reg 0, Write_buf, Imm 0x8a], Count,
    Syscall NR_write [Reg 0, Write_buf, Imm 0x8a], Count, Syscall NR_write [Reg 0, Write_buf, Imm 0x8a], Count]"

definition min_rocks_write_fcntl_0_0_body472 :: "stmt list" where
  "min_rocks_write_fcntl_0_0_body472 = [
    Syscall NR_write [Reg 0, Write_buf, Imm 0x8a], Count, Syscall NR_write [Reg 0, Write_buf, Imm 0x8a], Count,
    Syscall NR_write [Reg 0, Write_buf, Imm 0x8a], Count, Syscall NR_write [Reg 0, Write_buf, Imm 0x8a], Count,
    Syscall NR_write [Reg 0, Write_buf, Imm 0x8a], Count, Syscall NR_write [Reg 0, Write_buf, Imm 0x8a], Count,
    Syscall NR_write [Reg 0, Write_buf, Imm 0x8a], Count, Syscall NR_write [Reg 0, Write_buf, Imm 0x8a], Count,
    Syscall NR_write [Reg 0, Write_buf, Imm 0x8a], Count, Syscall NR_write [Reg 0, Write_buf, Imm 0x8a], Count,
    Syscall NR_write [Reg 0, Write_buf, Imm 0x8a], Count, Syscall NR_write [Reg 0, Write_buf, Imm 0x8a], Count,
    Syscall NR_write [Reg 0, Write_buf, Imm 0x8a], Count, Syscall NR_write [Reg 0, Write_buf, Imm 0x8a], Count]"

definition min_rocks_write_fcntl_0_0_body473 :: "stmt list" where
  "min_rocks_write_fcntl_0_0_body473 = [
    Syscall NR_write [Reg 0, Write_buf, Imm 0x8a], Count, Syscall NR_write [Reg 0, Write_buf, Imm 0x8a], Count,
    Syscall NR_write [Reg 0, Write_buf, Imm 0x8a], Count, Syscall NR_write [Reg 0, Write_buf, Imm 0x8a], Count,
    Syscall NR_write [Reg 0, Write_buf, Imm 0x8a], Count, Syscall NR_write [Reg 0, Write_buf, Imm 0x8a], Count,
    Syscall NR_write [Reg 0, Write_buf, Imm 0x8a], Count, Syscall NR_write [Reg 0, Write_buf, Imm 0x8a], Count,
    Syscall NR_write [Reg 0, Write_buf, Imm 0x8a], Count, Syscall NR_write [Reg 0, Write_buf, Imm 0x8a], Count,
    Syscall NR_write [Reg 0, Write_buf, Imm 0x8a], Count, Syscall NR_write [Reg 0, Write_buf, Imm 0x8a], Count,
    Syscall NR_write [Reg 0, Write_buf, Imm 0x8a], Count, Syscall NR_write [Reg 0, Write_buf, Imm 0x8a], Count]"

definition min_rocks_write_fcntl_0_0_body474 :: "stmt list" where
  "min_rocks_write_fcntl_0_0_body474 = [
    Syscall NR_write [Reg 0, Write_buf, Imm 0x8a], Count, Syscall NR_write [Reg 0, Write_buf, Imm 0x8a], Count,
    Syscall NR_write [Reg 0, Write_buf, Imm 0x8a], Count, Syscall NR_write [Reg 0, Write_buf, Imm 0x8a], Count,
    Syscall NR_write [Reg 0, Write_buf, Imm 0x8a], Count, Syscall NR_write [Reg 0, Write_buf, Imm 0x8a], Count,
    Syscall NR_write [Reg 0, Write_buf, Imm 0x8a], Count, Syscall NR_write [Reg 0, Write_buf, Imm 0x8a], Count,
    Syscall NR_write [Reg 0, Write_buf, Imm 0x8a], Count, Syscall NR_write [Reg 0, Write_buf, Imm 0x8a], Count,
    Syscall NR_write [Reg 0, Write_buf, Imm 0x8a], Count, Syscall NR_write [Reg 0, Write_buf, Imm 0x8a], Count,
    Syscall NR_write [Reg 0, Write_buf, Imm 0x8a], Count, Syscall NR_write [Reg 0, Write_buf, Imm 0x8a], Count]"

definition min_rocks_write_fcntl_0_0_body475 :: "stmt list" where
  "min_rocks_write_fcntl_0_0_body475 = [
    Syscall NR_write [Reg 0, Write_buf, Imm 0x8a], Count, Syscall NR_write [Reg 0, Write_buf, Imm 0x8a], Count,
    Syscall NR_write [Reg 0, Write_buf, Imm 0x8a], Count, Syscall NR_write [Reg 0, Write_buf, Imm 0x91], Count,
    Syscall NR_write [Reg 0, Write_buf, Imm 0x8a], Count, Syscall NR_write [Reg 0, Write_buf, Imm 0x8a], Count,
    Syscall NR_write [Reg 0, Write_buf, Imm 0x8a], Count, Syscall NR_write [Reg 0, Write_buf, Imm 0x8a], Count,
    Syscall NR_write [Reg 0, Write_buf, Imm 0x8a], Count, Syscall NR_write [Reg 0, Write_buf, Imm 0x8a], Count,
    Close_reg 0]"

lemma min_rocks_write_fcntl_0_0_body361_ok: "body_ok (Suc 0) 145 min_rocks_write_fcntl_0_0_body361" "counted min_rocks_write_fcntl_0_0_body361" "calls min_rocks_write_fcntl_0_0_body361 = 14" "opened_in m min_rocks_write_fcntl_0_0_body361 = []"
  by (simp_all add: min_rocks_write_fcntl_0_0_body361_def prog_checks open_checks)

lemma min_rocks_write_fcntl_0_0_body362_ok: "body_ok (Suc 0) 145 min_rocks_write_fcntl_0_0_body362" "counted min_rocks_write_fcntl_0_0_body362" "calls min_rocks_write_fcntl_0_0_body362 = 14" "opened_in m min_rocks_write_fcntl_0_0_body362 = []"
  by (simp_all add: min_rocks_write_fcntl_0_0_body362_def prog_checks open_checks)

lemma min_rocks_write_fcntl_0_0_body363_ok: "body_ok (Suc 0) 145 min_rocks_write_fcntl_0_0_body363" "counted min_rocks_write_fcntl_0_0_body363" "calls min_rocks_write_fcntl_0_0_body363 = 14" "opened_in m min_rocks_write_fcntl_0_0_body363 = []"
  by (simp_all add: min_rocks_write_fcntl_0_0_body363_def prog_checks open_checks)

lemma min_rocks_write_fcntl_0_0_body364_ok: "body_ok (Suc 0) 145 min_rocks_write_fcntl_0_0_body364" "counted min_rocks_write_fcntl_0_0_body364" "calls min_rocks_write_fcntl_0_0_body364 = 14" "opened_in m min_rocks_write_fcntl_0_0_body364 = []"
  by (simp_all add: min_rocks_write_fcntl_0_0_body364_def prog_checks open_checks)

lemma min_rocks_write_fcntl_0_0_body365_ok: "body_ok (Suc 0) 145 min_rocks_write_fcntl_0_0_body365" "counted min_rocks_write_fcntl_0_0_body365" "calls min_rocks_write_fcntl_0_0_body365 = 14" "opened_in m min_rocks_write_fcntl_0_0_body365 = []"
  by (simp_all add: min_rocks_write_fcntl_0_0_body365_def prog_checks open_checks)

lemma min_rocks_write_fcntl_0_0_body366_ok: "body_ok (Suc 0) 145 min_rocks_write_fcntl_0_0_body366" "counted min_rocks_write_fcntl_0_0_body366" "calls min_rocks_write_fcntl_0_0_body366 = 14" "opened_in m min_rocks_write_fcntl_0_0_body366 = []"
  by (simp_all add: min_rocks_write_fcntl_0_0_body366_def prog_checks open_checks)

lemma min_rocks_write_fcntl_0_0_body367_ok: "body_ok (Suc 0) 145 min_rocks_write_fcntl_0_0_body367" "counted min_rocks_write_fcntl_0_0_body367" "calls min_rocks_write_fcntl_0_0_body367 = 14" "opened_in m min_rocks_write_fcntl_0_0_body367 = []"
  by (simp_all add: min_rocks_write_fcntl_0_0_body367_def prog_checks open_checks)

lemma min_rocks_write_fcntl_0_0_body368_ok: "body_ok (Suc 0) 145 min_rocks_write_fcntl_0_0_body368" "counted min_rocks_write_fcntl_0_0_body368" "calls min_rocks_write_fcntl_0_0_body368 = 14" "opened_in m min_rocks_write_fcntl_0_0_body368 = []"
  by (simp_all add: min_rocks_write_fcntl_0_0_body368_def prog_checks open_checks)

lemma min_rocks_write_fcntl_0_0_body369_ok: "body_ok (Suc 0) 145 min_rocks_write_fcntl_0_0_body369" "counted min_rocks_write_fcntl_0_0_body369" "calls min_rocks_write_fcntl_0_0_body369 = 14" "opened_in m min_rocks_write_fcntl_0_0_body369 = []"
  by (simp_all add: min_rocks_write_fcntl_0_0_body369_def prog_checks open_checks)

lemma min_rocks_write_fcntl_0_0_body370_ok: "body_ok (Suc 0) 145 min_rocks_write_fcntl_0_0_body370" "counted min_rocks_write_fcntl_0_0_body370" "calls min_rocks_write_fcntl_0_0_body370 = 14" "opened_in m min_rocks_write_fcntl_0_0_body370 = []"
  by (simp_all add: min_rocks_write_fcntl_0_0_body370_def prog_checks open_checks)

lemma min_rocks_write_fcntl_0_0_body371_ok: "body_ok (Suc 0) 145 min_rocks_write_fcntl_0_0_body371" "counted min_rocks_write_fcntl_0_0_body371" "calls min_rocks_write_fcntl_0_0_body371 = 14" "opened_in m min_rocks_write_fcntl_0_0_body371 = []"
  by (simp_all add: min_rocks_write_fcntl_0_0_body371_def prog_checks open_checks)

lemma min_rocks_write_fcntl_0_0_body372_ok: "body_ok (Suc 0) 145 min_rocks_write_fcntl_0_0_body372" "counted min_rocks_write_fcntl_0_0_body372" "calls min_rocks_write_fcntl_0_0_body372 = 14" "opened_in m min_rocks_write_fcntl_0_0_body372 = []"
  by (simp_all add: min_rocks_write_fcntl_0_0_body372_def prog_checks open_checks)

lemma min_rocks_write_fcntl_0_0_body373_ok: "body_ok (Suc 0) 145 min_rocks_write_fcntl_0_0_body373" "counted min_rocks_write_fcntl_0_0_body373" "calls min_rocks_write_fcntl_0_0_body373 = 14" "opened_in m min_rocks_write_fcntl_0_0_body373 = []"
  by (simp_all add: min_rocks_write_fcntl_0_0_body373_def prog_checks open_checks)

lemma min_rocks_write_fcntl_0_0_body374_ok: "body_ok (Suc 0) 145 min_rocks_write_fcntl_0_0_body374" "counted min_rocks_write_fcntl_0_0_body374" "calls min_rocks_write_fcntl_0_0_body374 = 14" "opened_in m min_rocks_write_fcntl_0_0_body374 = []"
  by (simp_all add: min_rocks_write_fcntl_0_0_body374_def prog_checks open_checks)

lemma min_rocks_write_fcntl_0_0_body375_ok: "body_ok (Suc 0) 145 min_rocks_write_fcntl_0_0_body375" "counted min_rocks_write_fcntl_0_0_body375" "calls min_rocks_write_fcntl_0_0_body375 = 14" "opened_in m min_rocks_write_fcntl_0_0_body375 = []"
  by (simp_all add: min_rocks_write_fcntl_0_0_body375_def prog_checks open_checks)

lemma min_rocks_write_fcntl_0_0_body376_ok: "body_ok (Suc 0) 145 min_rocks_write_fcntl_0_0_body376" "counted min_rocks_write_fcntl_0_0_body376" "calls min_rocks_write_fcntl_0_0_body376 = 14" "opened_in m min_rocks_write_fcntl_0_0_body376 = []"
  by (simp_all add: min_rocks_write_fcntl_0_0_body376_def prog_checks open_checks)

lemma min_rocks_write_fcntl_0_0_body377_ok: "body_ok (Suc 0) 145 min_rocks_write_fcntl_0_0_body377" "counted min_rocks_write_fcntl_0_0_body377" "calls min_rocks_write_fcntl_0_0_body377 = 14" "opened_in m min_rocks_write_fcntl_0_0_body377 = []"
  by (simp_all add: min_rocks_write_fcntl_0_0_body377_def prog_checks open_checks)

lemma min_rocks_write_fcntl_0_0_body378_ok: "body_ok (Suc 0) 145 min_rocks_write_fcntl_0_0_body378" "counted min_rocks_write_fcntl_0_0_body378" "calls min_rocks_write_fcntl_0_0_body378 = 14" "opened_in m min_rocks_write_fcntl_0_0_body378 = []"
  by (simp_all add: min_rocks_write_fcntl_0_0_body378_def prog_checks open_checks)

lemma min_rocks_write_fcntl_0_0_body379_ok: "body_ok (Suc 0) 145 min_rocks_write_fcntl_0_0_body379" "counted min_rocks_write_fcntl_0_0_body379" "calls min_rocks_write_fcntl_0_0_body379 = 14" "opened_in m min_rocks_write_fcntl_0_0_body379 = []"
  by (simp_all add: min_rocks_write_fcntl_0_0_body379_def prog_checks open_checks)

lemma min_rocks_write_fcntl_0_0_body380_ok: "body_ok (Suc 0) 145 min_rocks_write_fcntl_0_0_body380" "counted min_rocks_write_fcntl_0_0_body380" "calls min_rocks_write_fcntl_0_0_body380 = 14" "opened_in m min_rocks_write_fcntl_0_0_body380 = []"
  by (simp_all add: min_rocks_write_fcntl_0_0_body380_def prog_checks open_checks)

lemma min_rocks_write_fcntl_0_0_body381_ok: "body_ok (Suc 0) 145 min_rocks_write_fcntl_0_0_body381" "counted min_rocks_write_fcntl_0_0_body381" "calls min_rocks_write_fcntl_0_0_body381 = 14" "opened_in m min_rocks_write_fcntl_0_0_body381 = []"
  by (simp_all add: min_rocks_write_fcntl_0_0_body381_def prog_checks open_checks)

lemma min_rocks_write_fcntl_0_0_body382_ok: "body_ok (Suc 0) 145 min_rocks_write_fcntl_0_0_body382" "counted min_rocks_write_fcntl_0_0_body382" "calls min_rocks_write_fcntl_0_0_body382 = 14" "opened_in m min_rocks_write_fcntl_0_0_body382 = []"
  by (simp_all add: min_rocks_write_fcntl_0_0_body382_def prog_checks open_checks)

lemma min_rocks_write_fcntl_0_0_body383_ok: "body_ok (Suc 0) 145 min_rocks_write_fcntl_0_0_body383" "counted min_rocks_write_fcntl_0_0_body383" "calls min_rocks_write_fcntl_0_0_body383 = 14" "opened_in m min_rocks_write_fcntl_0_0_body383 = []"
  by (simp_all add: min_rocks_write_fcntl_0_0_body383_def prog_checks open_checks)

lemma min_rocks_write_fcntl_0_0_body384_ok: "body_ok (Suc 0) 145 min_rocks_write_fcntl_0_0_body384" "counted min_rocks_write_fcntl_0_0_body384" "calls min_rocks_write_fcntl_0_0_body384 = 14" "opened_in m min_rocks_write_fcntl_0_0_body384 = []"
  by (simp_all add: min_rocks_write_fcntl_0_0_body384_def prog_checks open_checks)

lemma min_rocks_write_fcntl_0_0_body385_ok: "body_ok (Suc 0) 145 min_rocks_write_fcntl_0_0_body385" "counted min_rocks_write_fcntl_0_0_body385" "calls min_rocks_write_fcntl_0_0_body385 = 14" "opened_in m min_rocks_write_fcntl_0_0_body385 = []"
  by (simp_all add: min_rocks_write_fcntl_0_0_body385_def prog_checks open_checks)

lemma min_rocks_write_fcntl_0_0_body386_ok: "body_ok (Suc 0) 145 min_rocks_write_fcntl_0_0_body386" "counted min_rocks_write_fcntl_0_0_body386" "calls min_rocks_write_fcntl_0_0_body386 = 14" "opened_in m min_rocks_write_fcntl_0_0_body386 = []"
  by (simp_all add: min_rocks_write_fcntl_0_0_body386_def prog_checks open_checks)

lemma min_rocks_write_fcntl_0_0_body387_ok: "body_ok (Suc 0) 145 min_rocks_write_fcntl_0_0_body387" "counted min_rocks_write_fcntl_0_0_body387" "calls min_rocks_write_fcntl_0_0_body387 = 14" "opened_in m min_rocks_write_fcntl_0_0_body387 = []"
  by (simp_all add: min_rocks_write_fcntl_0_0_body387_def prog_checks open_checks)

lemma min_rocks_write_fcntl_0_0_body388_ok: "body_ok (Suc 0) 145 min_rocks_write_fcntl_0_0_body388" "counted min_rocks_write_fcntl_0_0_body388" "calls min_rocks_write_fcntl_0_0_body388 = 14" "opened_in m min_rocks_write_fcntl_0_0_body388 = []"
  by (simp_all add: min_rocks_write_fcntl_0_0_body388_def prog_checks open_checks)

lemma min_rocks_write_fcntl_0_0_body389_ok: "body_ok (Suc 0) 145 min_rocks_write_fcntl_0_0_body389" "counted min_rocks_write_fcntl_0_0_body389" "calls min_rocks_write_fcntl_0_0_body389 = 14" "opened_in m min_rocks_write_fcntl_0_0_body389 = []"
  by (simp_all add: min_rocks_write_fcntl_0_0_body389_def prog_checks open_checks)

lemma min_rocks_write_fcntl_0_0_body390_ok: "body_ok (Suc 0) 145 min_rocks_write_fcntl_0_0_body390" "counted min_rocks_write_fcntl_0_0_body390" "calls min_rocks_write_fcntl_0_0_body390 = 14" "opened_in m min_rocks_write_fcntl_0_0_body390 = []"
  by (simp_all add: min_rocks_write_fcntl_0_0_body390_def prog_checks open_checks)

lemma min_rocks_write_fcntl_0_0_body391_ok: "body_ok (Suc 0) 145 min_rocks_write_fcntl_0_0_body391" "counted min_rocks_write_fcntl_0_0_body391" "calls min_rocks_write_fcntl_0_0_body391 = 14" "opened_in m min_rocks_write_fcntl_0_0_body391 = []"
  by (simp_all add: min_rocks_write_fcntl_0_0_body391_def prog_checks open_checks)

lemma min_rocks_write_fcntl_0_0_body392_ok: "body_ok (Suc 0) 145 min_rocks_write_fcntl_0_0_body392" "counted min_rocks_write_fcntl_0_0_body392" "calls min_rocks_write_fcntl_0_0_body392 = 14" "opened_in m min_rocks_write_fcntl_0_0_body392 = []"
  by (simp_all add: min_rocks_write_fcntl_0_0_body392_def prog_checks open_checks)

lemma min_rocks_write_fcntl_0_0_body393_ok: "body_ok (Suc 0) 145 min_rocks_write_fcntl_0_0_body393" "counted min_rocks_write_fcntl_0_0_body393" "calls min_rocks_write_fcntl_0_0_body393 = 14" "opened_in m min_rocks_write_fcntl_0_0_body393 = []"
  by (simp_all add: min_rocks_write_fcntl_0_0_body393_def prog_checks open_checks)

lemma min_rocks_write_fcntl_0_0_body394_ok: "body_ok (Suc 0) 145 min_rocks_write_fcntl_0_0_body394" "counted min_rocks_write_fcntl_0_0_body394" "calls min_rocks_write_fcntl_0_0_body394 = 14" "opened_in m min_rocks_write_fcntl_0_0_body394 = []"
  by (simp_all add: min_rocks_write_fcntl_0_0_body394_def prog_checks open_checks)

lemma min_rocks_write_fcntl_0_0_body395_ok: "body_ok (Suc 0) 145 min_rocks_write_fcntl_0_0_body395" "counted min_rocks_write_fcntl_0_0_body395" "calls min_rocks_write_fcntl_0_0_body395 = 14" "opened_in m min_rocks_write_fcntl_0_0_body395 = []"
  by (simp_all add: min_rocks_write_fcntl_0_0_body395_def prog_checks open_checks)

lemma min_rocks_write_fcntl_0_0_body396_ok: "body_ok (Suc 0) 145 min_rocks_write_fcntl_0_0_body396" "counted min_rocks_write_fcntl_0_0_body396" "calls min_rocks_write_fcntl_0_0_body396 = 14" "opened_in m min_rocks_write_fcntl_0_0_body396 = []"
  by (simp_all add: min_rocks_write_fcntl_0_0_body396_def prog_checks open_checks)

lemma min_rocks_write_fcntl_0_0_body397_ok: "body_ok (Suc 0) 145 min_rocks_write_fcntl_0_0_body397" "counted min_rocks_write_fcntl_0_0_body397" "calls min_rocks_write_fcntl_0_0_body397 = 14" "opened_in m min_rocks_write_fcntl_0_0_body397 = []"
  by (simp_all add: min_rocks_write_fcntl_0_0_body397_def prog_checks open_checks)

lemma min_rocks_write_fcntl_0_0_body398_ok: "body_ok (Suc 0) 145 min_rocks_write_fcntl_0_0_body398" "counted min_rocks_write_fcntl_0_0_body398" "calls min_rocks_write_fcntl_0_0_body398 = 14" "opened_in m min_rocks_write_fcntl_0_0_body398 = []"
  by (simp_all add: min_rocks_write_fcntl_0_0_body398_def prog_checks open_checks)

lemma min_rocks_write_fcntl_0_0_body399_ok: "body_ok (Suc 0) 145 min_rocks_write_fcntl_0_0_body399" "counted min_rocks_write_fcntl_0_0_body399" "calls min_rocks_write_fcntl_0_0_body399 = 14" "opened_in m min_rocks_write_fcntl_0_0_body399 = []"
  by (simp_all add: min_rocks_write_fcntl_0_0_body399_def prog_checks open_checks)

lemma min_rocks_write_fcntl_0_0_body400_ok: "body_ok (Suc 0) 145 min_rocks_write_fcntl_0_0_body400" "counted min_rocks_write_fcntl_0_0_body400" "calls min_rocks_write_fcntl_0_0_body400 = 14" "opened_in m min_rocks_write_fcntl_0_0_body400 = []"
  by (simp_all add: min_rocks_write_fcntl_0_0_body400_def prog_checks open_checks)

lemma min_rocks_write_fcntl_0_0_body401_ok: "body_ok (Suc 0) 145 min_rocks_write_fcntl_0_0_body401" "counted min_rocks_write_fcntl_0_0_body401" "calls min_rocks_write_fcntl_0_0_body401 = 14" "opened_in m min_rocks_write_fcntl_0_0_body401 = []"
  by (simp_all add: min_rocks_write_fcntl_0_0_body401_def prog_checks open_checks)

lemma min_rocks_write_fcntl_0_0_body402_ok: "body_ok (Suc 0) 145 min_rocks_write_fcntl_0_0_body402" "counted min_rocks_write_fcntl_0_0_body402" "calls min_rocks_write_fcntl_0_0_body402 = 14" "opened_in m min_rocks_write_fcntl_0_0_body402 = []"
  by (simp_all add: min_rocks_write_fcntl_0_0_body402_def prog_checks open_checks)

lemma min_rocks_write_fcntl_0_0_body403_ok: "body_ok (Suc 0) 145 min_rocks_write_fcntl_0_0_body403" "counted min_rocks_write_fcntl_0_0_body403" "calls min_rocks_write_fcntl_0_0_body403 = 14" "opened_in m min_rocks_write_fcntl_0_0_body403 = []"
  by (simp_all add: min_rocks_write_fcntl_0_0_body403_def prog_checks open_checks)

lemma min_rocks_write_fcntl_0_0_body404_ok: "body_ok (Suc 0) 145 min_rocks_write_fcntl_0_0_body404" "counted min_rocks_write_fcntl_0_0_body404" "calls min_rocks_write_fcntl_0_0_body404 = 14" "opened_in m min_rocks_write_fcntl_0_0_body404 = []"
  by (simp_all add: min_rocks_write_fcntl_0_0_body404_def prog_checks open_checks)

lemma min_rocks_write_fcntl_0_0_body405_ok: "body_ok (Suc 0) 145 min_rocks_write_fcntl_0_0_body405" "counted min_rocks_write_fcntl_0_0_body405" "calls min_rocks_write_fcntl_0_0_body405 = 14" "opened_in m min_rocks_write_fcntl_0_0_body405 = []"
  by (simp_all add: min_rocks_write_fcntl_0_0_body405_def prog_checks open_checks)

lemma min_rocks_write_fcntl_0_0_body406_ok: "body_ok (Suc 0) 145 min_rocks_write_fcntl_0_0_body406" "counted min_rocks_write_fcntl_0_0_body406" "calls min_rocks_write_fcntl_0_0_body406 = 14" "opened_in m min_rocks_write_fcntl_0_0_body406 = []"
  by (simp_all add: min_rocks_write_fcntl_0_0_body406_def prog_checks open_checks)

lemma min_rocks_write_fcntl_0_0_body407_ok: "body_ok (Suc 0) 145 min_rocks_write_fcntl_0_0_body407" "counted min_rocks_write_fcntl_0_0_body407" "calls min_rocks_write_fcntl_0_0_body407 = 14" "opened_in m min_rocks_write_fcntl_0_0_body407 = []"
  by (simp_all add: min_rocks_write_fcntl_0_0_body407_def prog_checks open_checks)

lemma min_rocks_write_fcntl_0_0_body408_ok: "body_ok (Suc 0) 145 min_rocks_write_fcntl_0_0_body408" "counted min_rocks_write_fcntl_0_0_body408" "calls min_rocks_write_fcntl_0_0_body408 = 14" "opened_in m min_rocks_write_fcntl_0_0_body408 = []"
  by (simp_all add: min_rocks_write_fcntl_0_0_body408_def prog_checks open_checks)

lemma min_rocks_write_fcntl_0_0_body409_ok: "body_ok (Suc 0) 145 min_rocks_write_fcntl_0_0_body409" "counted min_rocks_write_fcntl_0_0_body409" "calls min_rocks_write_fcntl_0_0_body409 = 14" "opened_in m min_rocks_write_fcntl_0_0_body409 = []"
  by (simp_all add: min_rocks_write_fcntl_0_0_body409_def prog_checks open_checks)

lemma min_rocks_write_fcntl_0_0_body410_ok: "body_ok (Suc 0) 145 min_rocks_write_fcntl_0_0_body410" "counted min_rocks_write_fcntl_0_0_body410" "calls min_rocks_write_fcntl_0_0_body410 = 14" "opened_in m min_rocks_write_fcntl_0_0_body410 = []"
  by (simp_all add: min_rocks_write_fcntl_0_0_body410_def prog_checks open_checks)

lemma min_rocks_write_fcntl_0_0_body411_ok: "body_ok (Suc 0) 145 min_rocks_write_fcntl_0_0_body411" "counted min_rocks_write_fcntl_0_0_body411" "calls min_rocks_write_fcntl_0_0_body411 = 14" "opened_in m min_rocks_write_fcntl_0_0_body411 = []"
  by (simp_all add: min_rocks_write_fcntl_0_0_body411_def prog_checks open_checks)

lemma min_rocks_write_fcntl_0_0_body412_ok: "body_ok (Suc 0) 145 min_rocks_write_fcntl_0_0_body412" "counted min_rocks_write_fcntl_0_0_body412" "calls min_rocks_write_fcntl_0_0_body412 = 14" "opened_in m min_rocks_write_fcntl_0_0_body412 = []"
  by (simp_all add: min_rocks_write_fcntl_0_0_body412_def prog_checks open_checks)

lemma min_rocks_write_fcntl_0_0_body413_ok: "body_ok (Suc 0) 145 min_rocks_write_fcntl_0_0_body413" "counted min_rocks_write_fcntl_0_0_body413" "calls min_rocks_write_fcntl_0_0_body413 = 14" "opened_in m min_rocks_write_fcntl_0_0_body413 = []"
  by (simp_all add: min_rocks_write_fcntl_0_0_body413_def prog_checks open_checks)

lemma min_rocks_write_fcntl_0_0_body414_ok: "body_ok (Suc 0) 145 min_rocks_write_fcntl_0_0_body414" "counted min_rocks_write_fcntl_0_0_body414" "calls min_rocks_write_fcntl_0_0_body414 = 14" "opened_in m min_rocks_write_fcntl_0_0_body414 = []"
  by (simp_all add: min_rocks_write_fcntl_0_0_body414_def prog_checks open_checks)

lemma min_rocks_write_fcntl_0_0_body415_ok: "body_ok (Suc 0) 145 min_rocks_write_fcntl_0_0_body415" "counted min_rocks_write_fcntl_0_0_body415" "calls min_rocks_write_fcntl_0_0_body415 = 14" "opened_in m min_rocks_write_fcntl_0_0_body415 = []"
  by (simp_all add: min_rocks_write_fcntl_0_0_body415_def prog_checks open_checks)

lemma min_rocks_write_fcntl_0_0_body416_ok: "body_ok (Suc 0) 145 min_rocks_write_fcntl_0_0_body416" "counted min_rocks_write_fcntl_0_0_body416" "calls min_rocks_write_fcntl_0_0_body416 = 14" "opened_in m min_rocks_write_fcntl_0_0_body416 = []"
  by (simp_all add: min_rocks_write_fcntl_0_0_body416_def prog_checks open_checks)

lemma min_rocks_write_fcntl_0_0_body417_ok: "body_ok (Suc 0) 145 min_rocks_write_fcntl_0_0_body417" "counted min_rocks_write_fcntl_0_0_body417" "calls min_rocks_write_fcntl_0_0_body417 = 14" "opened_in m min_rocks_write_fcntl_0_0_body417 = []"
  by (simp_all add: min_rocks_write_fcntl_0_0_body417_def prog_checks open_checks)

lemma min_rocks_write_fcntl_0_0_body418_ok: "body_ok (Suc 0) 145 min_rocks_write_fcntl_0_0_body418" "counted min_rocks_write_fcntl_0_0_body418" "calls min_rocks_write_fcntl_0_0_body418 = 14" "opened_in m min_rocks_write_fcntl_0_0_body418 = []"
  by (simp_all add: min_rocks_write_fcntl_0_0_body418_def prog_checks open_checks)

lemma min_rocks_write_fcntl_0_0_body419_ok: "body_ok (Suc 0) 145 min_rocks_write_fcntl_0_0_body419" "counted min_rocks_write_fcntl_0_0_body419" "calls min_rocks_write_fcntl_0_0_body419 = 14" "opened_in m min_rocks_write_fcntl_0_0_body419 = []"
  by (simp_all add: min_rocks_write_fcntl_0_0_body419_def prog_checks open_checks)

lemma min_rocks_write_fcntl_0_0_body420_ok: "body_ok (Suc 0) 145 min_rocks_write_fcntl_0_0_body420" "counted min_rocks_write_fcntl_0_0_body420" "calls min_rocks_write_fcntl_0_0_body420 = 14" "opened_in m min_rocks_write_fcntl_0_0_body420 = []"
  by (simp_all add: min_rocks_write_fcntl_0_0_body420_def prog_checks open_checks)

lemma min_rocks_write_fcntl_0_0_body421_ok: "body_ok (Suc 0) 145 min_rocks_write_fcntl_0_0_body421" "counted min_rocks_write_fcntl_0_0_body421" "calls min_rocks_write_fcntl_0_0_body421 = 14" "opened_in m min_rocks_write_fcntl_0_0_body421 = []"
  by (simp_all add: min_rocks_write_fcntl_0_0_body421_def prog_checks open_checks)

lemma min_rocks_write_fcntl_0_0_body422_ok: "body_ok (Suc 0) 145 min_rocks_write_fcntl_0_0_body422" "counted min_rocks_write_fcntl_0_0_body422" "calls min_rocks_write_fcntl_0_0_body422 = 14" "opened_in m min_rocks_write_fcntl_0_0_body422 = []"
  by (simp_all add: min_rocks_write_fcntl_0_0_body422_def prog_checks open_checks)

lemma min_rocks_write_fcntl_0_0_body423_ok: "body_ok (Suc 0) 145 min_rocks_write_fcntl_0_0_body423" "counted min_rocks_write_fcntl_0_0_body423" "calls min_rocks_write_fcntl_0_0_body423 = 14" "opened_in m min_rocks_write_fcntl_0_0_body423 = []"
  by (simp_all add: min_rocks_write_fcntl_0_0_body423_def prog_checks open_checks)

lemma min_rocks_write_fcntl_0_0_body424_ok: "body_ok (Suc 0) 145 min_rocks_write_fcntl_0_0_body424" "counted min_rocks_write_fcntl_0_0_body424" "calls min_rocks_write_fcntl_0_0_body424 = 14" "opened_in m min_rocks_write_fcntl_0_0_body424 = []"
  by (simp_all add: min_rocks_write_fcntl_0_0_body424_def prog_checks open_checks)

lemma min_rocks_write_fcntl_0_0_body425_ok: "body_ok (Suc 0) 145 min_rocks_write_fcntl_0_0_body425" "counted min_rocks_write_fcntl_0_0_body425" "calls min_rocks_write_fcntl_0_0_body425 = 14" "opened_in m min_rocks_write_fcntl_0_0_body425 = []"
  by (simp_all add: min_rocks_write_fcntl_0_0_body425_def prog_checks open_checks)

lemma min_rocks_write_fcntl_0_0_body426_ok: "body_ok (Suc 0) 145 min_rocks_write_fcntl_0_0_body426" "counted min_rocks_write_fcntl_0_0_body426" "calls min_rocks_write_fcntl_0_0_body426 = 14" "opened_in m min_rocks_write_fcntl_0_0_body426 = []"
  by (simp_all add: min_rocks_write_fcntl_0_0_body426_def prog_checks open_checks)

lemma min_rocks_write_fcntl_0_0_body427_ok: "body_ok (Suc 0) 145 min_rocks_write_fcntl_0_0_body427" "counted min_rocks_write_fcntl_0_0_body427" "calls min_rocks_write_fcntl_0_0_body427 = 14" "opened_in m min_rocks_write_fcntl_0_0_body427 = []"
  by (simp_all add: min_rocks_write_fcntl_0_0_body427_def prog_checks open_checks)

lemma min_rocks_write_fcntl_0_0_body428_ok: "body_ok (Suc 0) 145 min_rocks_write_fcntl_0_0_body428" "counted min_rocks_write_fcntl_0_0_body428" "calls min_rocks_write_fcntl_0_0_body428 = 14" "opened_in m min_rocks_write_fcntl_0_0_body428 = []"
  by (simp_all add: min_rocks_write_fcntl_0_0_body428_def prog_checks open_checks)

lemma min_rocks_write_fcntl_0_0_body429_ok: "body_ok (Suc 0) 145 min_rocks_write_fcntl_0_0_body429" "counted min_rocks_write_fcntl_0_0_body429" "calls min_rocks_write_fcntl_0_0_body429 = 14" "opened_in m min_rocks_write_fcntl_0_0_body429 = []"
  by (simp_all add: min_rocks_write_fcntl_0_0_body429_def prog_checks open_checks)

lemma min_rocks_write_fcntl_0_0_body430_ok: "body_ok (Suc 0) 145 min_rocks_write_fcntl_0_0_body430" "counted min_rocks_write_fcntl_0_0_body430" "calls min_rocks_write_fcntl_0_0_body430 = 14" "opened_in m min_rocks_write_fcntl_0_0_body430 = []"
  by (simp_all add: min_rocks_write_fcntl_0_0_body430_def prog_checks open_checks)

lemma min_rocks_write_fcntl_0_0_body431_ok: "body_ok (Suc 0) 145 min_rocks_write_fcntl_0_0_body431" "counted min_rocks_write_fcntl_0_0_body431" "calls min_rocks_write_fcntl_0_0_body431 = 14" "opened_in m min_rocks_write_fcntl_0_0_body431 = []"
  by (simp_all add: min_rocks_write_fcntl_0_0_body431_def prog_checks open_checks)

lemma min_rocks_write_fcntl_0_0_body432_ok: "body_ok (Suc 0) 145 min_rocks_write_fcntl_0_0_body432" "counted min_rocks_write_fcntl_0_0_body432" "calls min_rocks_write_fcntl_0_0_body432 = 14" "opened_in m min_rocks_write_fcntl_0_0_body432 = []"
  by (simp_all add: min_rocks_write_fcntl_0_0_body432_def prog_checks open_checks)

lemma min_rocks_write_fcntl_0_0_body433_ok: "body_ok (Suc 0) 145 min_rocks_write_fcntl_0_0_body433" "counted min_rocks_write_fcntl_0_0_body433" "calls min_rocks_write_fcntl_0_0_body433 = 14" "opened_in m min_rocks_write_fcntl_0_0_body433 = []"
  by (simp_all add: min_rocks_write_fcntl_0_0_body433_def prog_checks open_checks)

lemma min_rocks_write_fcntl_0_0_body434_ok: "body_ok (Suc 0) 145 min_rocks_write_fcntl_0_0_body434" "counted min_rocks_write_fcntl_0_0_body434" "calls min_rocks_write_fcntl_0_0_body434 = 14" "opened_in m min_rocks_write_fcntl_0_0_body434 = []"
  by (simp_all add: min_rocks_write_fcntl_0_0_body434_def prog_checks open_checks)

lemma min_rocks_write_fcntl_0_0_body435_ok: "body_ok (Suc 0) 145 min_rocks_write_fcntl_0_0_body435" "counted min_rocks_write_fcntl_0_0_body435" "calls min_rocks_write_fcntl_0_0_body435 = 14" "opened_in m min_rocks_write_fcntl_0_0_body435 = []"
  by (simp_all add: min_rocks_write_fcntl_0_0_body435_def prog_checks open_checks)

lemma min_rocks_write_fcntl_0_0_body436_ok: "body_ok (Suc 0) 145 min_rocks_write_fcntl_0_0_body436" "counted min_rocks_write_fcntl_0_0_body436" "calls min_rocks_write_fcntl_0_0_body436 = 14" "opened_in m min_rocks_write_fcntl_0_0_body436 = []"
  by (simp_all add: min_rocks_write_fcntl_0_0_body436_def prog_checks open_checks)

lemma min_rocks_write_fcntl_0_0_body437_ok: "body_ok (Suc 0) 145 min_rocks_write_fcntl_0_0_body437" "counted min_rocks_write_fcntl_0_0_body437" "calls min_rocks_write_fcntl_0_0_body437 = 14" "opened_in m min_rocks_write_fcntl_0_0_body437 = []"
  by (simp_all add: min_rocks_write_fcntl_0_0_body437_def prog_checks open_checks)

lemma min_rocks_write_fcntl_0_0_body438_ok: "body_ok (Suc 0) 145 min_rocks_write_fcntl_0_0_body438" "counted min_rocks_write_fcntl_0_0_body438" "calls min_rocks_write_fcntl_0_0_body438 = 14" "opened_in m min_rocks_write_fcntl_0_0_body438 = []"
  by (simp_all add: min_rocks_write_fcntl_0_0_body438_def prog_checks open_checks)

lemma min_rocks_write_fcntl_0_0_body439_ok: "body_ok (Suc 0) 145 min_rocks_write_fcntl_0_0_body439" "counted min_rocks_write_fcntl_0_0_body439" "calls min_rocks_write_fcntl_0_0_body439 = 14" "opened_in m min_rocks_write_fcntl_0_0_body439 = []"
  by (simp_all add: min_rocks_write_fcntl_0_0_body439_def prog_checks open_checks)

lemma min_rocks_write_fcntl_0_0_body440_ok: "body_ok (Suc 0) 145 min_rocks_write_fcntl_0_0_body440" "counted min_rocks_write_fcntl_0_0_body440" "calls min_rocks_write_fcntl_0_0_body440 = 14" "opened_in m min_rocks_write_fcntl_0_0_body440 = []"
  by (simp_all add: min_rocks_write_fcntl_0_0_body440_def prog_checks open_checks)

lemma min_rocks_write_fcntl_0_0_body441_ok: "body_ok (Suc 0) 145 min_rocks_write_fcntl_0_0_body441" "counted min_rocks_write_fcntl_0_0_body441" "calls min_rocks_write_fcntl_0_0_body441 = 14" "opened_in m min_rocks_write_fcntl_0_0_body441 = []"
  by (simp_all add: min_rocks_write_fcntl_0_0_body441_def prog_checks open_checks)

lemma min_rocks_write_fcntl_0_0_body442_ok: "body_ok (Suc 0) 145 min_rocks_write_fcntl_0_0_body442" "counted min_rocks_write_fcntl_0_0_body442" "calls min_rocks_write_fcntl_0_0_body442 = 14" "opened_in m min_rocks_write_fcntl_0_0_body442 = []"
  by (simp_all add: min_rocks_write_fcntl_0_0_body442_def prog_checks open_checks)

lemma min_rocks_write_fcntl_0_0_body443_ok: "body_ok (Suc 0) 145 min_rocks_write_fcntl_0_0_body443" "counted min_rocks_write_fcntl_0_0_body443" "calls min_rocks_write_fcntl_0_0_body443 = 14" "opened_in m min_rocks_write_fcntl_0_0_body443 = []"
  by (simp_all add: min_rocks_write_fcntl_0_0_body443_def prog_checks open_checks)

lemma min_rocks_write_fcntl_0_0_body444_ok: "body_ok (Suc 0) 145 min_rocks_write_fcntl_0_0_body444" "counted min_rocks_write_fcntl_0_0_body444" "calls min_rocks_write_fcntl_0_0_body444 = 14" "opened_in m min_rocks_write_fcntl_0_0_body444 = []"
  by (simp_all add: min_rocks_write_fcntl_0_0_body444_def prog_checks open_checks)

lemma min_rocks_write_fcntl_0_0_body445_ok: "body_ok (Suc 0) 145 min_rocks_write_fcntl_0_0_body445" "counted min_rocks_write_fcntl_0_0_body445" "calls min_rocks_write_fcntl_0_0_body445 = 14" "opened_in m min_rocks_write_fcntl_0_0_body445 = []"
  by (simp_all add: min_rocks_write_fcntl_0_0_body445_def prog_checks open_checks)

lemma min_rocks_write_fcntl_0_0_body446_ok: "body_ok (Suc 0) 145 min_rocks_write_fcntl_0_0_body446" "counted min_rocks_write_fcntl_0_0_body446" "calls min_rocks_write_fcntl_0_0_body446 = 14" "opened_in m min_rocks_write_fcntl_0_0_body446 = []"
  by (simp_all add: min_rocks_write_fcntl_0_0_body446_def prog_checks open_checks)

lemma min_rocks_write_fcntl_0_0_body447_ok: "body_ok (Suc 0) 145 min_rocks_write_fcntl_0_0_body447" "counted min_rocks_write_fcntl_0_0_body447" "calls min_rocks_write_fcntl_0_0_body447 = 14" "opened_in m min_rocks_write_fcntl_0_0_body447 = []"
  by (simp_all add: min_rocks_write_fcntl_0_0_body447_def prog_checks open_checks)

lemma min_rocks_write_fcntl_0_0_body448_ok: "body_ok (Suc 0) 145 min_rocks_write_fcntl_0_0_body448" "counted min_rocks_write_fcntl_0_0_body448" "calls min_rocks_write_fcntl_0_0_body448 = 14" "opened_in m min_rocks_write_fcntl_0_0_body448 = []"
  by (simp_all add: min_rocks_write_fcntl_0_0_body448_def prog_checks open_checks)

lemma min_rocks_write_fcntl_0_0_body449_ok: "body_ok (Suc 0) 145 min_rocks_write_fcntl_0_0_body449" "counted min_rocks_write_fcntl_0_0_body449" "calls min_rocks_write_fcntl_0_0_body449 = 14" "opened_in m min_rocks_write_fcntl_0_0_body449 = []"
  by (simp_all add: min_rocks_write_fcntl_0_0_body449_def prog_checks open_checks)

lemma min_rocks_write_fcntl_0_0_body450_ok: "body_ok (Suc 0) 145 min_rocks_write_fcntl_0_0_body450" "counted min_rocks_write_fcntl_0_0_body450" "calls min_rocks_write_fcntl_0_0_body450 = 14" "opened_in m min_rocks_write_fcntl_0_0_body450 = []"
  by (simp_all add: min_rocks_write_fcntl_0_0_body450_def prog_checks open_checks)

lemma min_rocks_write_fcntl_0_0_body451_ok: "body_ok (Suc 0) 145 min_rocks_write_fcntl_0_0_body451" "counted min_rocks_write_fcntl_0_0_body451" "calls min_rocks_write_fcntl_0_0_body451 = 14" "opened_in m min_rocks_write_fcntl_0_0_body451 = []"
  by (simp_all add: min_rocks_write_fcntl_0_0_body451_def prog_checks open_checks)

lemma min_rocks_write_fcntl_0_0_body452_ok: "body_ok (Suc 0) 145 min_rocks_write_fcntl_0_0_body452" "counted min_rocks_write_fcntl_0_0_body452" "calls min_rocks_write_fcntl_0_0_body452 = 14" "opened_in m min_rocks_write_fcntl_0_0_body452 = []"
  by (simp_all add: min_rocks_write_fcntl_0_0_body452_def prog_checks open_checks)

lemma min_rocks_write_fcntl_0_0_body453_ok: "body_ok (Suc 0) 145 min_rocks_write_fcntl_0_0_body453" "counted min_rocks_write_fcntl_0_0_body453" "calls min_rocks_write_fcntl_0_0_body453 = 14" "opened_in m min_rocks_write_fcntl_0_0_body453 = []"
  by (simp_all add: min_rocks_write_fcntl_0_0_body453_def prog_checks open_checks)

lemma min_rocks_write_fcntl_0_0_body454_ok: "body_ok (Suc 0) 145 min_rocks_write_fcntl_0_0_body454" "counted min_rocks_write_fcntl_0_0_body454" "calls min_rocks_write_fcntl_0_0_body454 = 14" "opened_in m min_rocks_write_fcntl_0_0_body454 = []"
  by (simp_all add: min_rocks_write_fcntl_0_0_body454_def prog_checks open_checks)

lemma min_rocks_write_fcntl_0_0_body455_ok: "body_ok (Suc 0) 145 min_rocks_write_fcntl_0_0_body455" "counted min_rocks_write_fcntl_0_0_body455" "calls min_rocks_write_fcntl_0_0_body455 = 14" "opened_in m min_rocks_write_fcntl_0_0_body455 = []"
  by (simp_all add: min_rocks_write_fcntl_0_0_body455_def prog_checks open_checks)

lemma min_rocks_write_fcntl_0_0_body456_ok: "body_ok (Suc 0) 145 min_rocks_write_fcntl_0_0_body456" "counted min_rocks_write_fcntl_0_0_body456" "calls min_rocks_write_fcntl_0_0_body456 = 14" "opened_in m min_rocks_write_fcntl_0_0_body456 = []"
  by (simp_all add: min_rocks_write_fcntl_0_0_body456_def prog_checks open_checks)

lemma min_rocks_write_fcntl_0_0_body457_ok: "body_ok (Suc 0) 145 min_rocks_write_fcntl_0_0_body457" "counted min_rocks_write_fcntl_0_0_body457" "calls min_rocks_write_fcntl_0_0_body457 = 14" "opened_in m min_rocks_write_fcntl_0_0_body457 = []"
  by (simp_all add: min_rocks_write_fcntl_0_0_body457_def prog_checks open_checks)

lemma min_rocks_write_fcntl_0_0_body458_ok: "body_ok (Suc 0) 145 min_rocks_write_fcntl_0_0_body458" "counted min_rocks_write_fcntl_0_0_body458" "calls min_rocks_write_fcntl_0_0_body458 = 14" "opened_in m min_rocks_write_fcntl_0_0_body458 = []"
  by (simp_all add: min_rocks_write_fcntl_0_0_body458_def prog_checks open_checks)

lemma min_rocks_write_fcntl_0_0_body459_ok: "body_ok (Suc 0) 145 min_rocks_write_fcntl_0_0_body459" "counted min_rocks_write_fcntl_0_0_body459" "calls min_rocks_write_fcntl_0_0_body459 = 14" "opened_in m min_rocks_write_fcntl_0_0_body459 = []"
  by (simp_all add: min_rocks_write_fcntl_0_0_body459_def prog_checks open_checks)

lemma min_rocks_write_fcntl_0_0_body460_ok: "body_ok (Suc 0) 145 min_rocks_write_fcntl_0_0_body460" "counted min_rocks_write_fcntl_0_0_body460" "calls min_rocks_write_fcntl_0_0_body460 = 14" "opened_in m min_rocks_write_fcntl_0_0_body460 = []"
  by (simp_all add: min_rocks_write_fcntl_0_0_body460_def prog_checks open_checks)

lemma min_rocks_write_fcntl_0_0_body461_ok: "body_ok (Suc 0) 145 min_rocks_write_fcntl_0_0_body461" "counted min_rocks_write_fcntl_0_0_body461" "calls min_rocks_write_fcntl_0_0_body461 = 14" "opened_in m min_rocks_write_fcntl_0_0_body461 = []"
  by (simp_all add: min_rocks_write_fcntl_0_0_body461_def prog_checks open_checks)

lemma min_rocks_write_fcntl_0_0_body462_ok: "body_ok (Suc 0) 145 min_rocks_write_fcntl_0_0_body462" "counted min_rocks_write_fcntl_0_0_body462" "calls min_rocks_write_fcntl_0_0_body462 = 14" "opened_in m min_rocks_write_fcntl_0_0_body462 = []"
  by (simp_all add: min_rocks_write_fcntl_0_0_body462_def prog_checks open_checks)

lemma min_rocks_write_fcntl_0_0_body463_ok: "body_ok (Suc 0) 145 min_rocks_write_fcntl_0_0_body463" "counted min_rocks_write_fcntl_0_0_body463" "calls min_rocks_write_fcntl_0_0_body463 = 14" "opened_in m min_rocks_write_fcntl_0_0_body463 = []"
  by (simp_all add: min_rocks_write_fcntl_0_0_body463_def prog_checks open_checks)

lemma min_rocks_write_fcntl_0_0_body464_ok: "body_ok (Suc 0) 145 min_rocks_write_fcntl_0_0_body464" "counted min_rocks_write_fcntl_0_0_body464" "calls min_rocks_write_fcntl_0_0_body464 = 14" "opened_in m min_rocks_write_fcntl_0_0_body464 = []"
  by (simp_all add: min_rocks_write_fcntl_0_0_body464_def prog_checks open_checks)

lemma min_rocks_write_fcntl_0_0_body465_ok: "body_ok (Suc 0) 145 min_rocks_write_fcntl_0_0_body465" "counted min_rocks_write_fcntl_0_0_body465" "calls min_rocks_write_fcntl_0_0_body465 = 14" "opened_in m min_rocks_write_fcntl_0_0_body465 = []"
  by (simp_all add: min_rocks_write_fcntl_0_0_body465_def prog_checks open_checks)

lemma min_rocks_write_fcntl_0_0_body466_ok: "body_ok (Suc 0) 145 min_rocks_write_fcntl_0_0_body466" "counted min_rocks_write_fcntl_0_0_body466" "calls min_rocks_write_fcntl_0_0_body466 = 14" "opened_in m min_rocks_write_fcntl_0_0_body466 = []"
  by (simp_all add: min_rocks_write_fcntl_0_0_body466_def prog_checks open_checks)

lemma min_rocks_write_fcntl_0_0_body467_ok: "body_ok (Suc 0) 145 min_rocks_write_fcntl_0_0_body467" "counted min_rocks_write_fcntl_0_0_body467" "calls min_rocks_write_fcntl_0_0_body467 = 14" "opened_in m min_rocks_write_fcntl_0_0_body467 = []"
  by (simp_all add: min_rocks_write_fcntl_0_0_body467_def prog_checks open_checks)

lemma min_rocks_write_fcntl_0_0_body468_ok: "body_ok (Suc 0) 145 min_rocks_write_fcntl_0_0_body468" "counted min_rocks_write_fcntl_0_0_body468" "calls min_rocks_write_fcntl_0_0_body468 = 14" "opened_in m min_rocks_write_fcntl_0_0_body468 = []"
  by (simp_all add: min_rocks_write_fcntl_0_0_body468_def prog_checks open_checks)

lemma min_rocks_write_fcntl_0_0_body469_ok: "body_ok (Suc 0) 145 min_rocks_write_fcntl_0_0_body469" "counted min_rocks_write_fcntl_0_0_body469" "calls min_rocks_write_fcntl_0_0_body469 = 14" "opened_in m min_rocks_write_fcntl_0_0_body469 = []"
  by (simp_all add: min_rocks_write_fcntl_0_0_body469_def prog_checks open_checks)

lemma min_rocks_write_fcntl_0_0_body470_ok: "body_ok (Suc 0) 145 min_rocks_write_fcntl_0_0_body470" "counted min_rocks_write_fcntl_0_0_body470" "calls min_rocks_write_fcntl_0_0_body470 = 14" "opened_in m min_rocks_write_fcntl_0_0_body470 = []"
  by (simp_all add: min_rocks_write_fcntl_0_0_body470_def prog_checks open_checks)

lemma min_rocks_write_fcntl_0_0_body471_ok: "body_ok (Suc 0) 145 min_rocks_write_fcntl_0_0_body471" "counted min_rocks_write_fcntl_0_0_body471" "calls min_rocks_write_fcntl_0_0_body471 = 14" "opened_in m min_rocks_write_fcntl_0_0_body471 = []"
  by (simp_all add: min_rocks_write_fcntl_0_0_body471_def prog_checks open_checks)

lemma min_rocks_write_fcntl_0_0_body472_ok: "body_ok (Suc 0) 145 min_rocks_write_fcntl_0_0_body472" "counted min_rocks_write_fcntl_0_0_body472" "calls min_rocks_write_fcntl_0_0_body472 = 14" "opened_in m min_rocks_write_fcntl_0_0_body472 = []"
  by (simp_all add: min_rocks_write_fcntl_0_0_body472_def prog_checks open_checks)

lemma min_rocks_write_fcntl_0_0_body473_ok: "body_ok (Suc 0) 145 min_rocks_write_fcntl_0_0_body473" "counted min_rocks_write_fcntl_0_0_body473" "calls min_rocks_write_fcntl_0_0_body473 = 14" "opened_in m min_rocks_write_fcntl_0_0_body473 = []"
  by (simp_all add: min_rocks_write_fcntl_0_0_body473_def prog_checks open_checks)

lemma min_rocks_write_fcntl_0_0_body474_ok: "body_ok (Suc 0) 145 min_rocks_write_fcntl_0_0_body474" "counted min_rocks_write_fcntl_0_0_body474" "calls min_rocks_write_fcntl_0_0_body474 = 14" "opened_in m min_rocks_write_fcntl_0_0_body474 = []"
  by (simp_all add: min_rocks_write_fcntl_0_0_body474_def prog_checks open_checks)

lemma min_rocks_write_fcntl_0_0_body475_ok: "body_ok (Suc 0) 145 min_rocks_write_fcntl_0_0_body475" "counted min_rocks_write_fcntl_0_0_body475" "calls min_rocks_write_fcntl_0_0_body475 = 10" "opened_in m min_rocks_write_fcntl_0_0_body475 = []"
  by (simp_all add: min_rocks_write_fcntl_0_0_body475_def prog_checks open_checks)

end
