(* ===== verification/CSB_Progs_Rocksdb_g.thy ===== *)
theory CSB_Progs_Rocksdb_g
  imports CSB_Progs_Rocksdb_g_p1 CSB_Progs_Rocksdb_g_p2 CSB_Progs_Rocksdb_g_p3 CSB_Progs_Rocksdb_g_p4
begin

text \<open>
  Bodies of generated targets of bench/targets/rocksdb, statement by statement in the order of the
  files syz/<name>.h, and the targets made of them (the files <name>.h). Each passes the check.
\<close>

section \<open>min\_rocks\_write\_fcntl\_0\_0\<close>

definition min_rocks_write_fcntl_0_0 :: syz_prog where
  "min_rocks_write_fcntl_0_0 = \<lparr>prog_name = ''min_rocks_write_fcntl_0_0'', prog_family = Rocksdb,
     subdirs = [''tmp/rocksdb_db''],
     filenames = [''./tmp/rocksdb_db/000033.lo''], filesizes = [73819750],
     max_write_buffer = 145, init_regs = replicate 1 (- 1),
     reg_body = [], dereg_body = [],
     body = min_rocks_write_fcntl_0_0_body1 @ min_rocks_write_fcntl_0_0_body2 @ min_rocks_write_fcntl_0_0_body3 @
       min_rocks_write_fcntl_0_0_body4 @ min_rocks_write_fcntl_0_0_body5 @ min_rocks_write_fcntl_0_0_body6 @
       min_rocks_write_fcntl_0_0_body7 @ min_rocks_write_fcntl_0_0_body8 @ min_rocks_write_fcntl_0_0_body9 @
       min_rocks_write_fcntl_0_0_body10 @ min_rocks_write_fcntl_0_0_body11 @
       min_rocks_write_fcntl_0_0_body12 @ min_rocks_write_fcntl_0_0_body13 @
       min_rocks_write_fcntl_0_0_body14 @ min_rocks_write_fcntl_0_0_body15 @
       min_rocks_write_fcntl_0_0_body16 @ min_rocks_write_fcntl_0_0_body17 @
       min_rocks_write_fcntl_0_0_body18 @ min_rocks_write_fcntl_0_0_body19 @
       min_rocks_write_fcntl_0_0_body20 @ min_rocks_write_fcntl_0_0_body21 @
       min_rocks_write_fcntl_0_0_body22 @ min_rocks_write_fcntl_0_0_body23 @
       min_rocks_write_fcntl_0_0_body24 @ min_rocks_write_fcntl_0_0_body25 @
       min_rocks_write_fcntl_0_0_body26 @ min_rocks_write_fcntl_0_0_body27 @
       min_rocks_write_fcntl_0_0_body28 @ min_rocks_write_fcntl_0_0_body29 @
       min_rocks_write_fcntl_0_0_body30 @ min_rocks_write_fcntl_0_0_body31 @
       min_rocks_write_fcntl_0_0_body32 @ min_rocks_write_fcntl_0_0_body33 @
       min_rocks_write_fcntl_0_0_body34 @ min_rocks_write_fcntl_0_0_body35 @
       min_rocks_write_fcntl_0_0_body36 @ min_rocks_write_fcntl_0_0_body37 @
       min_rocks_write_fcntl_0_0_body38 @ min_rocks_write_fcntl_0_0_body39 @
       min_rocks_write_fcntl_0_0_body40 @ min_rocks_write_fcntl_0_0_body41 @
       min_rocks_write_fcntl_0_0_body42 @ min_rocks_write_fcntl_0_0_body43 @
       min_rocks_write_fcntl_0_0_body44 @ min_rocks_write_fcntl_0_0_body45 @
       min_rocks_write_fcntl_0_0_body46 @ min_rocks_write_fcntl_0_0_body47 @
       min_rocks_write_fcntl_0_0_body48 @ min_rocks_write_fcntl_0_0_body49 @
       min_rocks_write_fcntl_0_0_body50 @ min_rocks_write_fcntl_0_0_body51 @
       min_rocks_write_fcntl_0_0_body52 @ min_rocks_write_fcntl_0_0_body53 @
       min_rocks_write_fcntl_0_0_body54 @ min_rocks_write_fcntl_0_0_body55 @
       min_rocks_write_fcntl_0_0_body56 @ min_rocks_write_fcntl_0_0_body57 @
       min_rocks_write_fcntl_0_0_body58 @ min_rocks_write_fcntl_0_0_body59 @
       min_rocks_write_fcntl_0_0_body60 @ min_rocks_write_fcntl_0_0_body61 @
       min_rocks_write_fcntl_0_0_body62 @ min_rocks_write_fcntl_0_0_body63 @
       min_rocks_write_fcntl_0_0_body64 @ min_rocks_write_fcntl_0_0_body65 @
       min_rocks_write_fcntl_0_0_body66 @ min_rocks_write_fcntl_0_0_body67 @
       min_rocks_write_fcntl_0_0_body68 @ min_rocks_write_fcntl_0_0_body69 @
       min_rocks_write_fcntl_0_0_body70 @ min_rocks_write_fcntl_0_0_body71 @
       min_rocks_write_fcntl_0_0_body72 @ min_rocks_write_fcntl_0_0_body73 @
       min_rocks_write_fcntl_0_0_body74 @ min_rocks_write_fcntl_0_0_body75 @
       min_rocks_write_fcntl_0_0_body76 @ min_rocks_write_fcntl_0_0_body77 @
       min_rocks_write_fcntl_0_0_body78 @ min_rocks_write_fcntl_0_0_body79 @
       min_rocks_write_fcntl_0_0_body80 @ min_rocks_write_fcntl_0_0_body81 @
       min_rocks_write_fcntl_0_0_body82 @ min_rocks_write_fcntl_0_0_body83 @
       min_rocks_write_fcntl_0_0_body84 @ min_rocks_write_fcntl_0_0_body85 @
       min_rocks_write_fcntl_0_0_body86 @ min_rocks_write_fcntl_0_0_body87 @
       min_rocks_write_fcntl_0_0_body88 @ min_rocks_write_fcntl_0_0_body89 @
       min_rocks_write_fcntl_0_0_body90 @ min_rocks_write_fcntl_0_0_body91 @
       min_rocks_write_fcntl_0_0_body92 @ min_rocks_write_fcntl_0_0_body93 @
       min_rocks_write_fcntl_0_0_body94 @ min_rocks_write_fcntl_0_0_body95 @
       min_rocks_write_fcntl_0_0_body96 @ min_rocks_write_fcntl_0_0_body97 @
       min_rocks_write_fcntl_0_0_body98 @ min_rocks_write_fcntl_0_0_body99 @
       min_rocks_write_fcntl_0_0_body100 @ min_rocks_write_fcntl_0_0_body101 @
       min_rocks_write_fcntl_0_0_body102 @ min_rocks_write_fcntl_0_0_body103 @
       min_rocks_write_fcntl_0_0_body104 @ min_rocks_write_fcntl_0_0_body105 @
       min_rocks_write_fcntl_0_0_body106 @ min_rocks_write_fcntl_0_0_body107 @
       min_rocks_write_fcntl_0_0_body108 @ min_rocks_write_fcntl_0_0_body109 @
       min_rocks_write_fcntl_0_0_body110 @ min_rocks_write_fcntl_0_0_body111 @
       min_rocks_write_fcntl_0_0_body112 @ min_rocks_write_fcntl_0_0_body113 @
       min_rocks_write_fcntl_0_0_body114 @ min_rocks_write_fcntl_0_0_body115 @
       min_rocks_write_fcntl_0_0_body116 @ min_rocks_write_fcntl_0_0_body117 @
       min_rocks_write_fcntl_0_0_body118 @ min_rocks_write_fcntl_0_0_body119 @
       min_rocks_write_fcntl_0_0_body120 @ min_rocks_write_fcntl_0_0_body121 @
       min_rocks_write_fcntl_0_0_body122 @ min_rocks_write_fcntl_0_0_body123 @
       min_rocks_write_fcntl_0_0_body124 @ min_rocks_write_fcntl_0_0_body125 @
       min_rocks_write_fcntl_0_0_body126 @ min_rocks_write_fcntl_0_0_body127 @
       min_rocks_write_fcntl_0_0_body128 @ min_rocks_write_fcntl_0_0_body129 @
       min_rocks_write_fcntl_0_0_body130 @ min_rocks_write_fcntl_0_0_body131 @
       min_rocks_write_fcntl_0_0_body132 @ min_rocks_write_fcntl_0_0_body133 @
       min_rocks_write_fcntl_0_0_body134 @ min_rocks_write_fcntl_0_0_body135 @
       min_rocks_write_fcntl_0_0_body136 @ min_rocks_write_fcntl_0_0_body137 @
       min_rocks_write_fcntl_0_0_body138 @ min_rocks_write_fcntl_0_0_body139 @
       min_rocks_write_fcntl_0_0_body140 @ min_rocks_write_fcntl_0_0_body141 @
       min_rocks_write_fcntl_0_0_body142 @ min_rocks_write_fcntl_0_0_body143 @
       min_rocks_write_fcntl_0_0_body144 @ min_rocks_write_fcntl_0_0_body145 @
       min_rocks_write_fcntl_0_0_body146 @ min_rocks_write_fcntl_0_0_body147 @
       min_rocks_write_fcntl_0_0_body148 @ min_rocks_write_fcntl_0_0_body149 @
       min_rocks_write_fcntl_0_0_body150 @ min_rocks_write_fcntl_0_0_body151 @
       min_rocks_write_fcntl_0_0_body152 @ min_rocks_write_fcntl_0_0_body153 @
       min_rocks_write_fcntl_0_0_body154 @ min_rocks_write_fcntl_0_0_body155 @
       min_rocks_write_fcntl_0_0_body156 @ min_rocks_write_fcntl_0_0_body157 @
       min_rocks_write_fcntl_0_0_body158 @ min_rocks_write_fcntl_0_0_body159 @
       min_rocks_write_fcntl_0_0_body160 @ min_rocks_write_fcntl_0_0_body161 @
       min_rocks_write_fcntl_0_0_body162 @ min_rocks_write_fcntl_0_0_body163 @
       min_rocks_write_fcntl_0_0_body164 @ min_rocks_write_fcntl_0_0_body165 @
       min_rocks_write_fcntl_0_0_body166 @ min_rocks_write_fcntl_0_0_body167 @
       min_rocks_write_fcntl_0_0_body168 @ min_rocks_write_fcntl_0_0_body169 @
       min_rocks_write_fcntl_0_0_body170 @ min_rocks_write_fcntl_0_0_body171 @
       min_rocks_write_fcntl_0_0_body172 @ min_rocks_write_fcntl_0_0_body173 @
       min_rocks_write_fcntl_0_0_body174 @ min_rocks_write_fcntl_0_0_body175 @
       min_rocks_write_fcntl_0_0_body176 @ min_rocks_write_fcntl_0_0_body177 @
       min_rocks_write_fcntl_0_0_body178 @ min_rocks_write_fcntl_0_0_body179 @
       min_rocks_write_fcntl_0_0_body180 @ min_rocks_write_fcntl_0_0_body181 @
       min_rocks_write_fcntl_0_0_body182 @ min_rocks_write_fcntl_0_0_body183 @
       min_rocks_write_fcntl_0_0_body184 @ min_rocks_write_fcntl_0_0_body185 @
       min_rocks_write_fcntl_0_0_body186 @ min_rocks_write_fcntl_0_0_body187 @
       min_rocks_write_fcntl_0_0_body188 @ min_rocks_write_fcntl_0_0_body189 @
       min_rocks_write_fcntl_0_0_body190 @ min_rocks_write_fcntl_0_0_body191 @
       min_rocks_write_fcntl_0_0_body192 @ min_rocks_write_fcntl_0_0_body193 @
       min_rocks_write_fcntl_0_0_body194 @ min_rocks_write_fcntl_0_0_body195 @
       min_rocks_write_fcntl_0_0_body196 @ min_rocks_write_fcntl_0_0_body197 @
       min_rocks_write_fcntl_0_0_body198 @ min_rocks_write_fcntl_0_0_body199 @
       min_rocks_write_fcntl_0_0_body200 @ min_rocks_write_fcntl_0_0_body201 @
       min_rocks_write_fcntl_0_0_body202 @ min_rocks_write_fcntl_0_0_body203 @
       min_rocks_write_fcntl_0_0_body204 @ min_rocks_write_fcntl_0_0_body205 @
       min_rocks_write_fcntl_0_0_body206 @ min_rocks_write_fcntl_0_0_body207 @
       min_rocks_write_fcntl_0_0_body208 @ min_rocks_write_fcntl_0_0_body209 @
       min_rocks_write_fcntl_0_0_body210 @ min_rocks_write_fcntl_0_0_body211 @
       min_rocks_write_fcntl_0_0_body212 @ min_rocks_write_fcntl_0_0_body213 @
       min_rocks_write_fcntl_0_0_body214 @ min_rocks_write_fcntl_0_0_body215 @
       min_rocks_write_fcntl_0_0_body216 @ min_rocks_write_fcntl_0_0_body217 @
       min_rocks_write_fcntl_0_0_body218 @ min_rocks_write_fcntl_0_0_body219 @
       min_rocks_write_fcntl_0_0_body220 @ min_rocks_write_fcntl_0_0_body221 @
       min_rocks_write_fcntl_0_0_body222 @ min_rocks_write_fcntl_0_0_body223 @
       min_rocks_write_fcntl_0_0_body224 @ min_rocks_write_fcntl_0_0_body225 @
       min_rocks_write_fcntl_0_0_body226 @ min_rocks_write_fcntl_0_0_body227 @
       min_rocks_write_fcntl_0_0_body228 @ min_rocks_write_fcntl_0_0_body229 @
       min_rocks_write_fcntl_0_0_body230 @ min_rocks_write_fcntl_0_0_body231 @
       min_rocks_write_fcntl_0_0_body232 @ min_rocks_write_fcntl_0_0_body233 @
       min_rocks_write_fcntl_0_0_body234 @ min_rocks_write_fcntl_0_0_body235 @
       min_rocks_write_fcntl_0_0_body236 @ min_rocks_write_fcntl_0_0_body237 @
       min_rocks_write_fcntl_0_0_body238 @ min_rocks_write_fcntl_0_0_body239 @
       min_rocks_write_fcntl_0_0_body240 @ min_rocks_write_fcntl_0_0_body241 @
       min_rocks_write_fcntl_0_0_body242 @ min_rocks_write_fcntl_0_0_body243 @
       min_rocks_write_fcntl_0_0_body244 @ min_rocks_write_fcntl_0_0_body245 @
       min_rocks_write_fcntl_0_0_body246 @ min_rocks_write_fcntl_0_0_body247 @
       min_rocks_write_fcntl_0_0_body248 @ min_rocks_write_fcntl_0_0_body249 @
       min_rocks_write_fcntl_0_0_body250 @ min_rocks_write_fcntl_0_0_body251 @
       min_rocks_write_fcntl_0_0_body252 @ min_rocks_write_fcntl_0_0_body253 @
       min_rocks_write_fcntl_0_0_body254 @ min_rocks_write_fcntl_0_0_body255 @
       min_rocks_write_fcntl_0_0_body256 @ min_rocks_write_fcntl_0_0_body257 @
       min_rocks_write_fcntl_0_0_body258 @ min_rocks_write_fcntl_0_0_body259 @
       min_rocks_write_fcntl_0_0_body260 @ min_rocks_write_fcntl_0_0_body261 @
       min_rocks_write_fcntl_0_0_body262 @ min_rocks_write_fcntl_0_0_body263 @
       min_rocks_write_fcntl_0_0_body264 @ min_rocks_write_fcntl_0_0_body265 @
       min_rocks_write_fcntl_0_0_body266 @ min_rocks_write_fcntl_0_0_body267 @
       min_rocks_write_fcntl_0_0_body268 @ min_rocks_write_fcntl_0_0_body269 @
       min_rocks_write_fcntl_0_0_body270 @ min_rocks_write_fcntl_0_0_body271 @
       min_rocks_write_fcntl_0_0_body272 @ min_rocks_write_fcntl_0_0_body273 @
       min_rocks_write_fcntl_0_0_body274 @ min_rocks_write_fcntl_0_0_body275 @
       min_rocks_write_fcntl_0_0_body276 @ min_rocks_write_fcntl_0_0_body277 @
       min_rocks_write_fcntl_0_0_body278 @ min_rocks_write_fcntl_0_0_body279 @
       min_rocks_write_fcntl_0_0_body280 @ min_rocks_write_fcntl_0_0_body281 @
       min_rocks_write_fcntl_0_0_body282 @ min_rocks_write_fcntl_0_0_body283 @
       min_rocks_write_fcntl_0_0_body284 @ min_rocks_write_fcntl_0_0_body285 @
       min_rocks_write_fcntl_0_0_body286 @ min_rocks_write_fcntl_0_0_body287 @
       min_rocks_write_fcntl_0_0_body288 @ min_rocks_write_fcntl_0_0_body289 @
       min_rocks_write_fcntl_0_0_body290 @ min_rocks_write_fcntl_0_0_body291 @
       min_rocks_write_fcntl_0_0_body292 @ min_rocks_write_fcntl_0_0_body293 @
       min_rocks_write_fcntl_0_0_body294 @ min_rocks_write_fcntl_0_0_body295 @
       min_rocks_write_fcntl_0_0_body296 @ min_rocks_write_fcntl_0_0_body297 @
       min_rocks_write_fcntl_0_0_body298 @ min_rocks_write_fcntl_0_0_body299 @
       min_rocks_write_fcntl_0_0_body300 @ min_rocks_write_fcntl_0_0_body301 @
       min_rocks_write_fcntl_0_0_body302 @ min_rocks_write_fcntl_0_0_body303 @
       min_rocks_write_fcntl_0_0_body304 @ min_rocks_write_fcntl_0_0_body305 @
       min_rocks_write_fcntl_0_0_body306 @ min_rocks_write_fcntl_0_0_body307 @
       min_rocks_write_fcntl_0_0_body308 @ min_rocks_write_fcntl_0_0_body309 @
       min_rocks_write_fcntl_0_0_body310 @ min_rocks_write_fcntl_0_0_body311 @
       min_rocks_write_fcntl_0_0_body312 @ min_rocks_write_fcntl_0_0_body313 @
       min_rocks_write_fcntl_0_0_body314 @ min_rocks_write_fcntl_0_0_body315 @
       min_rocks_write_fcntl_0_0_body316 @ min_rocks_write_fcntl_0_0_body317 @
       min_rocks_write_fcntl_0_0_body318 @ min_rocks_write_fcntl_0_0_body319 @
       min_rocks_write_fcntl_0_0_body320 @ min_rocks_write_fcntl_0_0_body321 @
       min_rocks_write_fcntl_0_0_body322 @ min_rocks_write_fcntl_0_0_body323 @
       min_rocks_write_fcntl_0_0_body324 @ min_rocks_write_fcntl_0_0_body325 @
       min_rocks_write_fcntl_0_0_body326 @ min_rocks_write_fcntl_0_0_body327 @
       min_rocks_write_fcntl_0_0_body328 @ min_rocks_write_fcntl_0_0_body329 @
       min_rocks_write_fcntl_0_0_body330 @ min_rocks_write_fcntl_0_0_body331 @
       min_rocks_write_fcntl_0_0_body332 @ min_rocks_write_fcntl_0_0_body333 @
       min_rocks_write_fcntl_0_0_body334 @ min_rocks_write_fcntl_0_0_body335 @
       min_rocks_write_fcntl_0_0_body336 @ min_rocks_write_fcntl_0_0_body337 @
       min_rocks_write_fcntl_0_0_body338 @ min_rocks_write_fcntl_0_0_body339 @
       min_rocks_write_fcntl_0_0_body340 @ min_rocks_write_fcntl_0_0_body341 @
       min_rocks_write_fcntl_0_0_body342 @ min_rocks_write_fcntl_0_0_body343 @
       min_rocks_write_fcntl_0_0_body344 @ min_rocks_write_fcntl_0_0_body345 @
       min_rocks_write_fcntl_0_0_body346 @ min_rocks_write_fcntl_0_0_body347 @
       min_rocks_write_fcntl_0_0_body348 @ min_rocks_write_fcntl_0_0_body349 @
       min_rocks_write_fcntl_0_0_body350 @ min_rocks_write_fcntl_0_0_body351 @
       min_rocks_write_fcntl_0_0_body352 @ min_rocks_write_fcntl_0_0_body353 @
       min_rocks_write_fcntl_0_0_body354 @ min_rocks_write_fcntl_0_0_body355 @
       min_rocks_write_fcntl_0_0_body356 @ min_rocks_write_fcntl_0_0_body357 @
       min_rocks_write_fcntl_0_0_body358 @ min_rocks_write_fcntl_0_0_body359 @
       min_rocks_write_fcntl_0_0_body360 @ min_rocks_write_fcntl_0_0_body361 @
       min_rocks_write_fcntl_0_0_body362 @ min_rocks_write_fcntl_0_0_body363 @
       min_rocks_write_fcntl_0_0_body364 @ min_rocks_write_fcntl_0_0_body365 @
       min_rocks_write_fcntl_0_0_body366 @ min_rocks_write_fcntl_0_0_body367 @
       min_rocks_write_fcntl_0_0_body368 @ min_rocks_write_fcntl_0_0_body369 @
       min_rocks_write_fcntl_0_0_body370 @ min_rocks_write_fcntl_0_0_body371 @
       min_rocks_write_fcntl_0_0_body372 @ min_rocks_write_fcntl_0_0_body373 @
       min_rocks_write_fcntl_0_0_body374 @ min_rocks_write_fcntl_0_0_body375 @
       min_rocks_write_fcntl_0_0_body376 @ min_rocks_write_fcntl_0_0_body377 @
       min_rocks_write_fcntl_0_0_body378 @ min_rocks_write_fcntl_0_0_body379 @
       min_rocks_write_fcntl_0_0_body380 @ min_rocks_write_fcntl_0_0_body381 @
       min_rocks_write_fcntl_0_0_body382 @ min_rocks_write_fcntl_0_0_body383 @
       min_rocks_write_fcntl_0_0_body384 @ min_rocks_write_fcntl_0_0_body385 @
       min_rocks_write_fcntl_0_0_body386 @ min_rocks_write_fcntl_0_0_body387 @
       min_rocks_write_fcntl_0_0_body388 @ min_rocks_write_fcntl_0_0_body389 @
       min_rocks_write_fcntl_0_0_body390 @ min_rocks_write_fcntl_0_0_body391 @
       min_rocks_write_fcntl_0_0_body392 @ min_rocks_write_fcntl_0_0_body393 @
       min_rocks_write_fcntl_0_0_body394 @ min_rocks_write_fcntl_0_0_body395 @
       min_rocks_write_fcntl_0_0_body396 @ min_rocks_write_fcntl_0_0_body397 @
       min_rocks_write_fcntl_0_0_body398 @ min_rocks_write_fcntl_0_0_body399 @
       min_rocks_write_fcntl_0_0_body400 @ min_rocks_write_fcntl_0_0_body401 @
       min_rocks_write_fcntl_0_0_body402 @ min_rocks_write_fcntl_0_0_body403 @
       min_rocks_write_fcntl_0_0_body404 @ min_rocks_write_fcntl_0_0_body405 @
       min_rocks_write_fcntl_0_0_body406 @ min_rocks_write_fcntl_0_0_body407 @
       min_rocks_write_fcntl_0_0_body408 @ min_rocks_write_fcntl_0_0_body409 @
       min_rocks_write_fcntl_0_0_body410 @ min_rocks_write_fcntl_0_0_body411 @
       min_rocks_write_fcntl_0_0_body412 @ min_rocks_write_fcntl_0_0_body413 @
       min_rocks_write_fcntl_0_0_body414 @ min_rocks_write_fcntl_0_0_body415 @
       min_rocks_write_fcntl_0_0_body416 @ min_rocks_write_fcntl_0_0_body417 @
       min_rocks_write_fcntl_0_0_body418 @ min_rocks_write_fcntl_0_0_body419 @
       min_rocks_write_fcntl_0_0_body420 @ min_rocks_write_fcntl_0_0_body421 @
       min_rocks_write_fcntl_0_0_body422 @ min_rocks_write_fcntl_0_0_body423 @
       min_rocks_write_fcntl_0_0_body424 @ min_rocks_write_fcntl_0_0_body425 @
       min_rocks_write_fcntl_0_0_body426 @ min_rocks_write_fcntl_0_0_body427 @
       min_rocks_write_fcntl_0_0_body428 @ min_rocks_write_fcntl_0_0_body429 @
       min_rocks_write_fcntl_0_0_body430 @ min_rocks_write_fcntl_0_0_body431 @
       min_rocks_write_fcntl_0_0_body432 @ min_rocks_write_fcntl_0_0_body433 @
       min_rocks_write_fcntl_0_0_body434 @ min_rocks_write_fcntl_0_0_body435 @
       min_rocks_write_fcntl_0_0_body436 @ min_rocks_write_fcntl_0_0_body437 @
       min_rocks_write_fcntl_0_0_body438 @ min_rocks_write_fcntl_0_0_body439 @
       min_rocks_write_fcntl_0_0_body440 @ min_rocks_write_fcntl_0_0_body441 @
       min_rocks_write_fcntl_0_0_body442 @ min_rocks_write_fcntl_0_0_body443 @
       min_rocks_write_fcntl_0_0_body444 @ min_rocks_write_fcntl_0_0_body445 @
       min_rocks_write_fcntl_0_0_body446 @ min_rocks_write_fcntl_0_0_body447 @
       min_rocks_write_fcntl_0_0_body448 @ min_rocks_write_fcntl_0_0_body449 @
       min_rocks_write_fcntl_0_0_body450 @ min_rocks_write_fcntl_0_0_body451 @
       min_rocks_write_fcntl_0_0_body452 @ min_rocks_write_fcntl_0_0_body453 @
       min_rocks_write_fcntl_0_0_body454 @ min_rocks_write_fcntl_0_0_body455 @
       min_rocks_write_fcntl_0_0_body456 @ min_rocks_write_fcntl_0_0_body457 @
       min_rocks_write_fcntl_0_0_body458 @ min_rocks_write_fcntl_0_0_body459 @
       min_rocks_write_fcntl_0_0_body460 @ min_rocks_write_fcntl_0_0_body461 @
       min_rocks_write_fcntl_0_0_body462 @ min_rocks_write_fcntl_0_0_body463 @
       min_rocks_write_fcntl_0_0_body464 @ min_rocks_write_fcntl_0_0_body465 @
       min_rocks_write_fcntl_0_0_body466 @ min_rocks_write_fcntl_0_0_body467 @
       min_rocks_write_fcntl_0_0_body468 @ min_rocks_write_fcntl_0_0_body469 @
       min_rocks_write_fcntl_0_0_body470 @ min_rocks_write_fcntl_0_0_body471 @
       min_rocks_write_fcntl_0_0_body472 @ min_rocks_write_fcntl_0_0_body473 @
       min_rocks_write_fcntl_0_0_body474 @ min_rocks_write_fcntl_0_0_body475\<rparr>"

definition min_rocks_write_fcntl_0_0_target where
  "min_rocks_write_fcntl_0_0_target os_getenv os_inet_pton K = syz_target os_getenv os_inet_pton K min_rocks_write_fcntl_0_0"

lemmas min_rocks_write_fcntl_0_0_bodies =
  min_rocks_write_fcntl_0_0_body1_ok min_rocks_write_fcntl_0_0_body2_ok min_rocks_write_fcntl_0_0_body3_ok
  min_rocks_write_fcntl_0_0_body4_ok min_rocks_write_fcntl_0_0_body5_ok min_rocks_write_fcntl_0_0_body6_ok
  min_rocks_write_fcntl_0_0_body7_ok min_rocks_write_fcntl_0_0_body8_ok min_rocks_write_fcntl_0_0_body9_ok
  min_rocks_write_fcntl_0_0_body10_ok min_rocks_write_fcntl_0_0_body11_ok
  min_rocks_write_fcntl_0_0_body12_ok min_rocks_write_fcntl_0_0_body13_ok
  min_rocks_write_fcntl_0_0_body14_ok min_rocks_write_fcntl_0_0_body15_ok
  min_rocks_write_fcntl_0_0_body16_ok min_rocks_write_fcntl_0_0_body17_ok
  min_rocks_write_fcntl_0_0_body18_ok min_rocks_write_fcntl_0_0_body19_ok
  min_rocks_write_fcntl_0_0_body20_ok min_rocks_write_fcntl_0_0_body21_ok
  min_rocks_write_fcntl_0_0_body22_ok min_rocks_write_fcntl_0_0_body23_ok
  min_rocks_write_fcntl_0_0_body24_ok min_rocks_write_fcntl_0_0_body25_ok
  min_rocks_write_fcntl_0_0_body26_ok min_rocks_write_fcntl_0_0_body27_ok
  min_rocks_write_fcntl_0_0_body28_ok min_rocks_write_fcntl_0_0_body29_ok
  min_rocks_write_fcntl_0_0_body30_ok min_rocks_write_fcntl_0_0_body31_ok
  min_rocks_write_fcntl_0_0_body32_ok min_rocks_write_fcntl_0_0_body33_ok
  min_rocks_write_fcntl_0_0_body34_ok min_rocks_write_fcntl_0_0_body35_ok
  min_rocks_write_fcntl_0_0_body36_ok min_rocks_write_fcntl_0_0_body37_ok
  min_rocks_write_fcntl_0_0_body38_ok min_rocks_write_fcntl_0_0_body39_ok
  min_rocks_write_fcntl_0_0_body40_ok min_rocks_write_fcntl_0_0_body41_ok
  min_rocks_write_fcntl_0_0_body42_ok min_rocks_write_fcntl_0_0_body43_ok
  min_rocks_write_fcntl_0_0_body44_ok min_rocks_write_fcntl_0_0_body45_ok
  min_rocks_write_fcntl_0_0_body46_ok min_rocks_write_fcntl_0_0_body47_ok
  min_rocks_write_fcntl_0_0_body48_ok min_rocks_write_fcntl_0_0_body49_ok
  min_rocks_write_fcntl_0_0_body50_ok min_rocks_write_fcntl_0_0_body51_ok
  min_rocks_write_fcntl_0_0_body52_ok min_rocks_write_fcntl_0_0_body53_ok
  min_rocks_write_fcntl_0_0_body54_ok min_rocks_write_fcntl_0_0_body55_ok
  min_rocks_write_fcntl_0_0_body56_ok min_rocks_write_fcntl_0_0_body57_ok
  min_rocks_write_fcntl_0_0_body58_ok min_rocks_write_fcntl_0_0_body59_ok
  min_rocks_write_fcntl_0_0_body60_ok min_rocks_write_fcntl_0_0_body61_ok
  min_rocks_write_fcntl_0_0_body62_ok min_rocks_write_fcntl_0_0_body63_ok
  min_rocks_write_fcntl_0_0_body64_ok min_rocks_write_fcntl_0_0_body65_ok
  min_rocks_write_fcntl_0_0_body66_ok min_rocks_write_fcntl_0_0_body67_ok
  min_rocks_write_fcntl_0_0_body68_ok min_rocks_write_fcntl_0_0_body69_ok
  min_rocks_write_fcntl_0_0_body70_ok min_rocks_write_fcntl_0_0_body71_ok
  min_rocks_write_fcntl_0_0_body72_ok min_rocks_write_fcntl_0_0_body73_ok
  min_rocks_write_fcntl_0_0_body74_ok min_rocks_write_fcntl_0_0_body75_ok
  min_rocks_write_fcntl_0_0_body76_ok min_rocks_write_fcntl_0_0_body77_ok
  min_rocks_write_fcntl_0_0_body78_ok min_rocks_write_fcntl_0_0_body79_ok
  min_rocks_write_fcntl_0_0_body80_ok min_rocks_write_fcntl_0_0_body81_ok
  min_rocks_write_fcntl_0_0_body82_ok min_rocks_write_fcntl_0_0_body83_ok
  min_rocks_write_fcntl_0_0_body84_ok min_rocks_write_fcntl_0_0_body85_ok
  min_rocks_write_fcntl_0_0_body86_ok min_rocks_write_fcntl_0_0_body87_ok
  min_rocks_write_fcntl_0_0_body88_ok min_rocks_write_fcntl_0_0_body89_ok
  min_rocks_write_fcntl_0_0_body90_ok min_rocks_write_fcntl_0_0_body91_ok
  min_rocks_write_fcntl_0_0_body92_ok min_rocks_write_fcntl_0_0_body93_ok
  min_rocks_write_fcntl_0_0_body94_ok min_rocks_write_fcntl_0_0_body95_ok
  min_rocks_write_fcntl_0_0_body96_ok min_rocks_write_fcntl_0_0_body97_ok
  min_rocks_write_fcntl_0_0_body98_ok min_rocks_write_fcntl_0_0_body99_ok
  min_rocks_write_fcntl_0_0_body100_ok min_rocks_write_fcntl_0_0_body101_ok
  min_rocks_write_fcntl_0_0_body102_ok min_rocks_write_fcntl_0_0_body103_ok
  min_rocks_write_fcntl_0_0_body104_ok min_rocks_write_fcntl_0_0_body105_ok
  min_rocks_write_fcntl_0_0_body106_ok min_rocks_write_fcntl_0_0_body107_ok
  min_rocks_write_fcntl_0_0_body108_ok min_rocks_write_fcntl_0_0_body109_ok
  min_rocks_write_fcntl_0_0_body110_ok min_rocks_write_fcntl_0_0_body111_ok
  min_rocks_write_fcntl_0_0_body112_ok min_rocks_write_fcntl_0_0_body113_ok
  min_rocks_write_fcntl_0_0_body114_ok min_rocks_write_fcntl_0_0_body115_ok
  min_rocks_write_fcntl_0_0_body116_ok min_rocks_write_fcntl_0_0_body117_ok
  min_rocks_write_fcntl_0_0_body118_ok min_rocks_write_fcntl_0_0_body119_ok
  min_rocks_write_fcntl_0_0_body120_ok min_rocks_write_fcntl_0_0_body121_ok
  min_rocks_write_fcntl_0_0_body122_ok min_rocks_write_fcntl_0_0_body123_ok
  min_rocks_write_fcntl_0_0_body124_ok min_rocks_write_fcntl_0_0_body125_ok
  min_rocks_write_fcntl_0_0_body126_ok min_rocks_write_fcntl_0_0_body127_ok
  min_rocks_write_fcntl_0_0_body128_ok min_rocks_write_fcntl_0_0_body129_ok
  min_rocks_write_fcntl_0_0_body130_ok min_rocks_write_fcntl_0_0_body131_ok
  min_rocks_write_fcntl_0_0_body132_ok min_rocks_write_fcntl_0_0_body133_ok
  min_rocks_write_fcntl_0_0_body134_ok min_rocks_write_fcntl_0_0_body135_ok
  min_rocks_write_fcntl_0_0_body136_ok min_rocks_write_fcntl_0_0_body137_ok
  min_rocks_write_fcntl_0_0_body138_ok min_rocks_write_fcntl_0_0_body139_ok
  min_rocks_write_fcntl_0_0_body140_ok min_rocks_write_fcntl_0_0_body141_ok
  min_rocks_write_fcntl_0_0_body142_ok min_rocks_write_fcntl_0_0_body143_ok
  min_rocks_write_fcntl_0_0_body144_ok min_rocks_write_fcntl_0_0_body145_ok
  min_rocks_write_fcntl_0_0_body146_ok min_rocks_write_fcntl_0_0_body147_ok
  min_rocks_write_fcntl_0_0_body148_ok min_rocks_write_fcntl_0_0_body149_ok
  min_rocks_write_fcntl_0_0_body150_ok min_rocks_write_fcntl_0_0_body151_ok
  min_rocks_write_fcntl_0_0_body152_ok min_rocks_write_fcntl_0_0_body153_ok
  min_rocks_write_fcntl_0_0_body154_ok min_rocks_write_fcntl_0_0_body155_ok
  min_rocks_write_fcntl_0_0_body156_ok min_rocks_write_fcntl_0_0_body157_ok
  min_rocks_write_fcntl_0_0_body158_ok min_rocks_write_fcntl_0_0_body159_ok
  min_rocks_write_fcntl_0_0_body160_ok min_rocks_write_fcntl_0_0_body161_ok
  min_rocks_write_fcntl_0_0_body162_ok min_rocks_write_fcntl_0_0_body163_ok
  min_rocks_write_fcntl_0_0_body164_ok min_rocks_write_fcntl_0_0_body165_ok
  min_rocks_write_fcntl_0_0_body166_ok min_rocks_write_fcntl_0_0_body167_ok
  min_rocks_write_fcntl_0_0_body168_ok min_rocks_write_fcntl_0_0_body169_ok
  min_rocks_write_fcntl_0_0_body170_ok min_rocks_write_fcntl_0_0_body171_ok
  min_rocks_write_fcntl_0_0_body172_ok min_rocks_write_fcntl_0_0_body173_ok
  min_rocks_write_fcntl_0_0_body174_ok min_rocks_write_fcntl_0_0_body175_ok
  min_rocks_write_fcntl_0_0_body176_ok min_rocks_write_fcntl_0_0_body177_ok
  min_rocks_write_fcntl_0_0_body178_ok min_rocks_write_fcntl_0_0_body179_ok
  min_rocks_write_fcntl_0_0_body180_ok min_rocks_write_fcntl_0_0_body181_ok
  min_rocks_write_fcntl_0_0_body182_ok min_rocks_write_fcntl_0_0_body183_ok
  min_rocks_write_fcntl_0_0_body184_ok min_rocks_write_fcntl_0_0_body185_ok
  min_rocks_write_fcntl_0_0_body186_ok min_rocks_write_fcntl_0_0_body187_ok
  min_rocks_write_fcntl_0_0_body188_ok min_rocks_write_fcntl_0_0_body189_ok
  min_rocks_write_fcntl_0_0_body190_ok min_rocks_write_fcntl_0_0_body191_ok
  min_rocks_write_fcntl_0_0_body192_ok min_rocks_write_fcntl_0_0_body193_ok
  min_rocks_write_fcntl_0_0_body194_ok min_rocks_write_fcntl_0_0_body195_ok
  min_rocks_write_fcntl_0_0_body196_ok min_rocks_write_fcntl_0_0_body197_ok
  min_rocks_write_fcntl_0_0_body198_ok min_rocks_write_fcntl_0_0_body199_ok
  min_rocks_write_fcntl_0_0_body200_ok min_rocks_write_fcntl_0_0_body201_ok
  min_rocks_write_fcntl_0_0_body202_ok min_rocks_write_fcntl_0_0_body203_ok
  min_rocks_write_fcntl_0_0_body204_ok min_rocks_write_fcntl_0_0_body205_ok
  min_rocks_write_fcntl_0_0_body206_ok min_rocks_write_fcntl_0_0_body207_ok
  min_rocks_write_fcntl_0_0_body208_ok min_rocks_write_fcntl_0_0_body209_ok
  min_rocks_write_fcntl_0_0_body210_ok min_rocks_write_fcntl_0_0_body211_ok
  min_rocks_write_fcntl_0_0_body212_ok min_rocks_write_fcntl_0_0_body213_ok
  min_rocks_write_fcntl_0_0_body214_ok min_rocks_write_fcntl_0_0_body215_ok
  min_rocks_write_fcntl_0_0_body216_ok min_rocks_write_fcntl_0_0_body217_ok
  min_rocks_write_fcntl_0_0_body218_ok min_rocks_write_fcntl_0_0_body219_ok
  min_rocks_write_fcntl_0_0_body220_ok min_rocks_write_fcntl_0_0_body221_ok
  min_rocks_write_fcntl_0_0_body222_ok min_rocks_write_fcntl_0_0_body223_ok
  min_rocks_write_fcntl_0_0_body224_ok min_rocks_write_fcntl_0_0_body225_ok
  min_rocks_write_fcntl_0_0_body226_ok min_rocks_write_fcntl_0_0_body227_ok
  min_rocks_write_fcntl_0_0_body228_ok min_rocks_write_fcntl_0_0_body229_ok
  min_rocks_write_fcntl_0_0_body230_ok min_rocks_write_fcntl_0_0_body231_ok
  min_rocks_write_fcntl_0_0_body232_ok min_rocks_write_fcntl_0_0_body233_ok
  min_rocks_write_fcntl_0_0_body234_ok min_rocks_write_fcntl_0_0_body235_ok
  min_rocks_write_fcntl_0_0_body236_ok min_rocks_write_fcntl_0_0_body237_ok
  min_rocks_write_fcntl_0_0_body238_ok min_rocks_write_fcntl_0_0_body239_ok
  min_rocks_write_fcntl_0_0_body240_ok min_rocks_write_fcntl_0_0_body241_ok
  min_rocks_write_fcntl_0_0_body242_ok min_rocks_write_fcntl_0_0_body243_ok
  min_rocks_write_fcntl_0_0_body244_ok min_rocks_write_fcntl_0_0_body245_ok
  min_rocks_write_fcntl_0_0_body246_ok min_rocks_write_fcntl_0_0_body247_ok
  min_rocks_write_fcntl_0_0_body248_ok min_rocks_write_fcntl_0_0_body249_ok
  min_rocks_write_fcntl_0_0_body250_ok min_rocks_write_fcntl_0_0_body251_ok
  min_rocks_write_fcntl_0_0_body252_ok min_rocks_write_fcntl_0_0_body253_ok
  min_rocks_write_fcntl_0_0_body254_ok min_rocks_write_fcntl_0_0_body255_ok
  min_rocks_write_fcntl_0_0_body256_ok min_rocks_write_fcntl_0_0_body257_ok
  min_rocks_write_fcntl_0_0_body258_ok min_rocks_write_fcntl_0_0_body259_ok
  min_rocks_write_fcntl_0_0_body260_ok min_rocks_write_fcntl_0_0_body261_ok
  min_rocks_write_fcntl_0_0_body262_ok min_rocks_write_fcntl_0_0_body263_ok
  min_rocks_write_fcntl_0_0_body264_ok min_rocks_write_fcntl_0_0_body265_ok
  min_rocks_write_fcntl_0_0_body266_ok min_rocks_write_fcntl_0_0_body267_ok
  min_rocks_write_fcntl_0_0_body268_ok min_rocks_write_fcntl_0_0_body269_ok
  min_rocks_write_fcntl_0_0_body270_ok min_rocks_write_fcntl_0_0_body271_ok
  min_rocks_write_fcntl_0_0_body272_ok min_rocks_write_fcntl_0_0_body273_ok
  min_rocks_write_fcntl_0_0_body274_ok min_rocks_write_fcntl_0_0_body275_ok
  min_rocks_write_fcntl_0_0_body276_ok min_rocks_write_fcntl_0_0_body277_ok
  min_rocks_write_fcntl_0_0_body278_ok min_rocks_write_fcntl_0_0_body279_ok
  min_rocks_write_fcntl_0_0_body280_ok min_rocks_write_fcntl_0_0_body281_ok
  min_rocks_write_fcntl_0_0_body282_ok min_rocks_write_fcntl_0_0_body283_ok
  min_rocks_write_fcntl_0_0_body284_ok min_rocks_write_fcntl_0_0_body285_ok
  min_rocks_write_fcntl_0_0_body286_ok min_rocks_write_fcntl_0_0_body287_ok
  min_rocks_write_fcntl_0_0_body288_ok min_rocks_write_fcntl_0_0_body289_ok
  min_rocks_write_fcntl_0_0_body290_ok min_rocks_write_fcntl_0_0_body291_ok
  min_rocks_write_fcntl_0_0_body292_ok min_rocks_write_fcntl_0_0_body293_ok
  min_rocks_write_fcntl_0_0_body294_ok min_rocks_write_fcntl_0_0_body295_ok
  min_rocks_write_fcntl_0_0_body296_ok min_rocks_write_fcntl_0_0_body297_ok
  min_rocks_write_fcntl_0_0_body298_ok min_rocks_write_fcntl_0_0_body299_ok
  min_rocks_write_fcntl_0_0_body300_ok min_rocks_write_fcntl_0_0_body301_ok
  min_rocks_write_fcntl_0_0_body302_ok min_rocks_write_fcntl_0_0_body303_ok
  min_rocks_write_fcntl_0_0_body304_ok min_rocks_write_fcntl_0_0_body305_ok
  min_rocks_write_fcntl_0_0_body306_ok min_rocks_write_fcntl_0_0_body307_ok
  min_rocks_write_fcntl_0_0_body308_ok min_rocks_write_fcntl_0_0_body309_ok
  min_rocks_write_fcntl_0_0_body310_ok min_rocks_write_fcntl_0_0_body311_ok
  min_rocks_write_fcntl_0_0_body312_ok min_rocks_write_fcntl_0_0_body313_ok
  min_rocks_write_fcntl_0_0_body314_ok min_rocks_write_fcntl_0_0_body315_ok
  min_rocks_write_fcntl_0_0_body316_ok min_rocks_write_fcntl_0_0_body317_ok
  min_rocks_write_fcntl_0_0_body318_ok min_rocks_write_fcntl_0_0_body319_ok
  min_rocks_write_fcntl_0_0_body320_ok min_rocks_write_fcntl_0_0_body321_ok
  min_rocks_write_fcntl_0_0_body322_ok min_rocks_write_fcntl_0_0_body323_ok
  min_rocks_write_fcntl_0_0_body324_ok min_rocks_write_fcntl_0_0_body325_ok
  min_rocks_write_fcntl_0_0_body326_ok min_rocks_write_fcntl_0_0_body327_ok
  min_rocks_write_fcntl_0_0_body328_ok min_rocks_write_fcntl_0_0_body329_ok
  min_rocks_write_fcntl_0_0_body330_ok min_rocks_write_fcntl_0_0_body331_ok
  min_rocks_write_fcntl_0_0_body332_ok min_rocks_write_fcntl_0_0_body333_ok
  min_rocks_write_fcntl_0_0_body334_ok min_rocks_write_fcntl_0_0_body335_ok
  min_rocks_write_fcntl_0_0_body336_ok min_rocks_write_fcntl_0_0_body337_ok
  min_rocks_write_fcntl_0_0_body338_ok min_rocks_write_fcntl_0_0_body339_ok
  min_rocks_write_fcntl_0_0_body340_ok min_rocks_write_fcntl_0_0_body341_ok
  min_rocks_write_fcntl_0_0_body342_ok min_rocks_write_fcntl_0_0_body343_ok
  min_rocks_write_fcntl_0_0_body344_ok min_rocks_write_fcntl_0_0_body345_ok
  min_rocks_write_fcntl_0_0_body346_ok min_rocks_write_fcntl_0_0_body347_ok
  min_rocks_write_fcntl_0_0_body348_ok min_rocks_write_fcntl_0_0_body349_ok
  min_rocks_write_fcntl_0_0_body350_ok min_rocks_write_fcntl_0_0_body351_ok
  min_rocks_write_fcntl_0_0_body352_ok min_rocks_write_fcntl_0_0_body353_ok
  min_rocks_write_fcntl_0_0_body354_ok min_rocks_write_fcntl_0_0_body355_ok
  min_rocks_write_fcntl_0_0_body356_ok min_rocks_write_fcntl_0_0_body357_ok
  min_rocks_write_fcntl_0_0_body358_ok min_rocks_write_fcntl_0_0_body359_ok
  min_rocks_write_fcntl_0_0_body360_ok min_rocks_write_fcntl_0_0_body361_ok
  min_rocks_write_fcntl_0_0_body362_ok min_rocks_write_fcntl_0_0_body363_ok
  min_rocks_write_fcntl_0_0_body364_ok min_rocks_write_fcntl_0_0_body365_ok
  min_rocks_write_fcntl_0_0_body366_ok min_rocks_write_fcntl_0_0_body367_ok
  min_rocks_write_fcntl_0_0_body368_ok min_rocks_write_fcntl_0_0_body369_ok
  min_rocks_write_fcntl_0_0_body370_ok min_rocks_write_fcntl_0_0_body371_ok
  min_rocks_write_fcntl_0_0_body372_ok min_rocks_write_fcntl_0_0_body373_ok
  min_rocks_write_fcntl_0_0_body374_ok min_rocks_write_fcntl_0_0_body375_ok
  min_rocks_write_fcntl_0_0_body376_ok min_rocks_write_fcntl_0_0_body377_ok
  min_rocks_write_fcntl_0_0_body378_ok min_rocks_write_fcntl_0_0_body379_ok
  min_rocks_write_fcntl_0_0_body380_ok min_rocks_write_fcntl_0_0_body381_ok
  min_rocks_write_fcntl_0_0_body382_ok min_rocks_write_fcntl_0_0_body383_ok
  min_rocks_write_fcntl_0_0_body384_ok min_rocks_write_fcntl_0_0_body385_ok
  min_rocks_write_fcntl_0_0_body386_ok min_rocks_write_fcntl_0_0_body387_ok
  min_rocks_write_fcntl_0_0_body388_ok min_rocks_write_fcntl_0_0_body389_ok
  min_rocks_write_fcntl_0_0_body390_ok min_rocks_write_fcntl_0_0_body391_ok
  min_rocks_write_fcntl_0_0_body392_ok min_rocks_write_fcntl_0_0_body393_ok
  min_rocks_write_fcntl_0_0_body394_ok min_rocks_write_fcntl_0_0_body395_ok
  min_rocks_write_fcntl_0_0_body396_ok min_rocks_write_fcntl_0_0_body397_ok
  min_rocks_write_fcntl_0_0_body398_ok min_rocks_write_fcntl_0_0_body399_ok
  min_rocks_write_fcntl_0_0_body400_ok min_rocks_write_fcntl_0_0_body401_ok
  min_rocks_write_fcntl_0_0_body402_ok min_rocks_write_fcntl_0_0_body403_ok
  min_rocks_write_fcntl_0_0_body404_ok min_rocks_write_fcntl_0_0_body405_ok
  min_rocks_write_fcntl_0_0_body406_ok min_rocks_write_fcntl_0_0_body407_ok
  min_rocks_write_fcntl_0_0_body408_ok min_rocks_write_fcntl_0_0_body409_ok
  min_rocks_write_fcntl_0_0_body410_ok min_rocks_write_fcntl_0_0_body411_ok
  min_rocks_write_fcntl_0_0_body412_ok min_rocks_write_fcntl_0_0_body413_ok
  min_rocks_write_fcntl_0_0_body414_ok min_rocks_write_fcntl_0_0_body415_ok
  min_rocks_write_fcntl_0_0_body416_ok min_rocks_write_fcntl_0_0_body417_ok
  min_rocks_write_fcntl_0_0_body418_ok min_rocks_write_fcntl_0_0_body419_ok
  min_rocks_write_fcntl_0_0_body420_ok min_rocks_write_fcntl_0_0_body421_ok
  min_rocks_write_fcntl_0_0_body422_ok min_rocks_write_fcntl_0_0_body423_ok
  min_rocks_write_fcntl_0_0_body424_ok min_rocks_write_fcntl_0_0_body425_ok
  min_rocks_write_fcntl_0_0_body426_ok min_rocks_write_fcntl_0_0_body427_ok
  min_rocks_write_fcntl_0_0_body428_ok min_rocks_write_fcntl_0_0_body429_ok
  min_rocks_write_fcntl_0_0_body430_ok min_rocks_write_fcntl_0_0_body431_ok
  min_rocks_write_fcntl_0_0_body432_ok min_rocks_write_fcntl_0_0_body433_ok
  min_rocks_write_fcntl_0_0_body434_ok min_rocks_write_fcntl_0_0_body435_ok
  min_rocks_write_fcntl_0_0_body436_ok min_rocks_write_fcntl_0_0_body437_ok
  min_rocks_write_fcntl_0_0_body438_ok min_rocks_write_fcntl_0_0_body439_ok
  min_rocks_write_fcntl_0_0_body440_ok min_rocks_write_fcntl_0_0_body441_ok
  min_rocks_write_fcntl_0_0_body442_ok min_rocks_write_fcntl_0_0_body443_ok
  min_rocks_write_fcntl_0_0_body444_ok min_rocks_write_fcntl_0_0_body445_ok
  min_rocks_write_fcntl_0_0_body446_ok min_rocks_write_fcntl_0_0_body447_ok
  min_rocks_write_fcntl_0_0_body448_ok min_rocks_write_fcntl_0_0_body449_ok
  min_rocks_write_fcntl_0_0_body450_ok min_rocks_write_fcntl_0_0_body451_ok
  min_rocks_write_fcntl_0_0_body452_ok min_rocks_write_fcntl_0_0_body453_ok
  min_rocks_write_fcntl_0_0_body454_ok min_rocks_write_fcntl_0_0_body455_ok
  min_rocks_write_fcntl_0_0_body456_ok min_rocks_write_fcntl_0_0_body457_ok
  min_rocks_write_fcntl_0_0_body458_ok min_rocks_write_fcntl_0_0_body459_ok
  min_rocks_write_fcntl_0_0_body460_ok min_rocks_write_fcntl_0_0_body461_ok
  min_rocks_write_fcntl_0_0_body462_ok min_rocks_write_fcntl_0_0_body463_ok
  min_rocks_write_fcntl_0_0_body464_ok min_rocks_write_fcntl_0_0_body465_ok
  min_rocks_write_fcntl_0_0_body466_ok min_rocks_write_fcntl_0_0_body467_ok
  min_rocks_write_fcntl_0_0_body468_ok min_rocks_write_fcntl_0_0_body469_ok
  min_rocks_write_fcntl_0_0_body470_ok min_rocks_write_fcntl_0_0_body471_ok
  min_rocks_write_fcntl_0_0_body472_ok min_rocks_write_fcntl_0_0_body473_ok
  min_rocks_write_fcntl_0_0_body474_ok min_rocks_write_fcntl_0_0_body475_ok

lemma min_rocks_write_fcntl_0_0_ok: "prog_ok min_rocks_write_fcntl_0_0" "calls (body min_rocks_write_fcntl_0_0) = 6646"
  by (simp_all add: prog_ok_def counted_append prog_checks min_rocks_write_fcntl_0_0_def min_rocks_write_fcntl_0_0_bodies)

lemma min_rocks_write_fcntl_0_0_misses: "setup_misses min_rocks_write_fcntl_0_0" "filenames min_rocks_write_fcntl_0_0 \<noteq> []" "reg_body min_rocks_write_fcntl_0_0 = []" "num_regs min_rocks_write_fcntl_0_0 < 2 ^ 32"
  by (simp_all add: setup_misses_def opened_def misses_def path_names_def opened_in_append min_rocks_write_fcntl_0_0_def min_rocks_write_fcntl_0_0_bodies prog_checks open_checks)

end
