(* ===== verification/CSB_Progs_Net_c_p1.thy ===== *)
theory CSB_Progs_Net_c_p1
  imports CSB_Syz_Files
begin

text \<open>
  Statements of min\_mysql\_recvfrom\_sendto\_20\_0 (bench/targets/mysql\_v2), in the
  order of the file; the program is put together in CSB\_Progs\_Net\_c.
\<close>

definition min_mysql_recvfrom_sendto_20_0_body1 :: "stmt list" where
  "min_mysql_recvfrom_sendto_20_0_body1 = [
    Store 4 0x20b314c0 (Imm 0x80), Syscall NR_accept [Reg 0, Ptr 0x20b31480, Ptr 0x20b314c0], Count, Save_res 2,
    Store 2 0x20b33500 (Imm 1), Store 2 0x20b33502 (Imm 0), Store 2 0x20b33504 (Imm 0),
    Store 1 0x20b33506 (Imm 0), Store 1 0x20b33507 (Imm 0), Store 1 0x20b33508 (Imm 0),
    Store 2 0x20b3350a (Imm 0), Syscall NR_setsockopt [Reg 2, Imm 6, Imm 1, Ptr 0x20b33500, Imm 4], Count,
    Store 4 0x20b339c0 (Imm 0x80), Syscall NR_getpeername [Reg 2, Ptr 0x20b33940, Ptr 0x20b339c0], Count,
    Store 4 0x20b33cc0 (Imm 1), Syscall NR_setsockopt [Reg 2, Imm 1, Imm 9, Ptr 0x20b33cc0, Imm 4], Count,
    Syscall NR_sendto [Reg 2, Write_buf, Imm 0x4e, Imm 0x40, Imm 0, Imm 0], Count,
    Syscall NR_recvfrom [Reg 2, Ptr 0x20b34e80, Imm 4, Imm 0x40, Imm 0, Imm 0], Count,
    Syscall NR_recvfrom [Reg 2, Ptr 0x20b35040, Imm 0x9a, Imm 0x40, Imm 0, Imm 0], Count]"

definition min_mysql_recvfrom_sendto_20_0_body2 :: "stmt list" where
  "min_mysql_recvfrom_sendto_20_0_body2 = [
    Syscall NR_sendto [Reg 2, Write_buf, Imm 0x16, Imm 0x40, Imm 0, Imm 0], Count,
    Syscall NR_recvfrom [Reg 2, Ptr 0x20b35880, Imm 4, Imm 0x40, Imm 0, Imm 0], Count,
    Syscall NR_recvfrom [Reg 2, Ptr 0x20b35c00, Imm 6, Imm 0x40, Imm 0, Imm 0], Count,
    Syscall NR_sendto [Reg 2, Write_buf, Imm 0x51, Imm 0x40, Imm 0, Imm 0], Count,
    Syscall NR_recvfrom [Reg 2, Ptr 0x20b36000, Imm 4, Imm 0x40, Imm 0, Imm 0], Count,
    Syscall NR_recvfrom [Reg 2, Ptr 0x20b36700, Imm 7, Imm 0x40, Imm 0, Imm 0], Count,
    Syscall NR_sendto [Reg 2, Write_buf, Imm 0x10, Imm 0x40, Imm 0, Imm 0], Count,
    Syscall NR_recvfrom [Reg 2, Ptr 0x20b36f00, Imm 4, Imm 0x40, Imm 0, Imm 0], Count,
    Syscall NR_recvfrom [Reg 2, Ptr 0x20b37100, Imm 0x21, Imm 0x40, Imm 0, Imm 0], Count,
    Syscall NR_sendto [Reg 2, Write_buf, Imm 0x5b, Imm 0x40, Imm 0, Imm 0], Count]"

definition min_mysql_recvfrom_sendto_20_0_body3 :: "stmt list" where
  "min_mysql_recvfrom_sendto_20_0_body3 = [
    Syscall NR_recvfrom [Reg 2, Ptr 0x20bb39c0, Imm 4, Imm 0x40, Imm 0, Imm 0], Count,
    Syscall NR_recvfrom [Reg 2, Ptr 0x20bb3ec0, Imm 0x21, Imm 0x40, Imm 0, Imm 0], Count,
    Syscall NR_sendto [Reg 2, Write_buf, Imm 0x5b, Imm 0x40, Imm 0, Imm 0], Count,
    Syscall NR_recvfrom [Reg 2, Ptr 0x20bb5e00, Imm 4, Imm 0x40, Imm 0, Imm 0], Count,
    Syscall NR_recvfrom [Reg 2, Ptr 0x20bb5f40, Imm 0x21, Imm 0x40, Imm 0, Imm 0], Count,
    Syscall NR_sendto [Reg 2, Write_buf, Imm 0x5b, Imm 0x40, Imm 0, Imm 0], Count,
    Syscall NR_recvfrom [Reg 2, Ptr 0x20bb7b00, Imm 4, Imm 0x40, Imm 0, Imm 0], Count,
    Syscall NR_recvfrom [Reg 2, Ptr 0x20bb7fc0, Imm 0x21, Imm 0x40, Imm 0, Imm 0], Count,
    Syscall NR_sendto [Reg 2, Write_buf, Imm 0x5b, Imm 0x40, Imm 0, Imm 0], Count,
    Syscall NR_recvfrom [Reg 2, Ptr 0x20bb9dc0, Imm 4, Imm 0x40, Imm 0, Imm 0], Count]"

definition min_mysql_recvfrom_sendto_20_0_body4 :: "stmt list" where
  "min_mysql_recvfrom_sendto_20_0_body4 = [
    Syscall NR_recvfrom [Reg 2, Ptr 0x20bba200, Imm 0x21, Imm 0x40, Imm 0, Imm 0], Count,
    Syscall NR_sendto [Reg 2, Write_buf, Imm 0x5b, Imm 0x40, Imm 0, Imm 0], Count,
    Syscall NR_recvfrom [Reg 2, Ptr 0x20bbb700, Imm 4, Imm 0x40, Imm 0, Imm 0], Count,
    Syscall NR_recvfrom [Reg 2, Ptr 0x20bbbe40, Imm 0x21, Imm 0x40, Imm 0, Imm 0], Count,
    Syscall NR_sendto [Reg 2, Write_buf, Imm 0x5b, Imm 0x40, Imm 0, Imm 0], Count,
    Syscall NR_recvfrom [Reg 2, Ptr 0x20bbdfc0, Imm 4, Imm 0x40, Imm 0, Imm 0], Count,
    Syscall NR_recvfrom [Reg 2, Ptr 0x20bbe380, Imm 0x21, Imm 0x40, Imm 0, Imm 0], Count,
    Syscall NR_sendto [Reg 2, Write_buf, Imm 0x5b, Imm 0x40, Imm 0, Imm 0], Count,
    Syscall NR_recvfrom [Reg 2, Ptr 0x20bbfc00, Imm 4, Imm 0x40, Imm 0, Imm 0], Count,
    Syscall NR_recvfrom [Reg 2, Ptr 0x20bc0280, Imm 0x21, Imm 0x40, Imm 0, Imm 0], Count]"

definition min_mysql_recvfrom_sendto_20_0_body5 :: "stmt list" where
  "min_mysql_recvfrom_sendto_20_0_body5 = [
    Syscall NR_sendto [Reg 2, Write_buf, Imm 0x5b, Imm 0x40, Imm 0, Imm 0], Count,
    Syscall NR_recvfrom [Reg 2, Ptr 0x20bc0d80, Imm 4, Imm 0x40, Imm 0, Imm 0], Count,
    Syscall NR_recvfrom [Reg 2, Ptr 0x20bc1580, Imm 0x21, Imm 0x40, Imm 0, Imm 0], Count,
    Syscall NR_sendto [Reg 2, Write_buf, Imm 0x5b, Imm 0x40, Imm 0, Imm 0], Count,
    Syscall NR_recvfrom [Reg 2, Ptr 0x20bc30c0, Imm 4, Imm 0x40, Imm 0, Imm 0], Count,
    Syscall NR_recvfrom [Reg 2, Ptr 0x20bc3780, Imm 0x22, Imm 0x40, Imm 0, Imm 0], Count,
    Syscall NR_sendto [Reg 2, Write_buf, Imm 0x5d, Imm 0x40, Imm 0, Imm 0], Count,
    Syscall NR_recvfrom [Reg 2, Ptr 0x20bc5340, Imm 4, Imm 0x40, Imm 0, Imm 0], Count,
    Syscall NR_recvfrom [Reg 2, Ptr 0x20bc5440, Imm 0x22, Imm 0x40, Imm 0, Imm 0], Count,
    Syscall NR_sendto [Reg 2, Write_buf, Imm 0x5d, Imm 0x40, Imm 0, Imm 0], Count]"

definition min_mysql_recvfrom_sendto_20_0_body6 :: "stmt list" where
  "min_mysql_recvfrom_sendto_20_0_body6 = [
    Syscall NR_recvfrom [Reg 2, Ptr 0x20bc7540, Imm 4, Imm 0x40, Imm 0, Imm 0], Count,
    Syscall NR_recvfrom [Reg 2, Ptr 0x20bc7640, Imm 0x22, Imm 0x40, Imm 0, Imm 0], Count,
    Syscall NR_sendto [Reg 2, Write_buf, Imm 0x5d, Imm 0x40, Imm 0, Imm 0], Count,
    Syscall NR_recvfrom [Reg 2, Ptr 0x20bc8980, Imm 4, Imm 0x40, Imm 0, Imm 0], Count,
    Syscall NR_recvfrom [Reg 2, Ptr 0x20bc8a40, Imm 0x22, Imm 0x40, Imm 0, Imm 0], Count,
    Syscall NR_sendto [Reg 2, Write_buf, Imm 0x5d, Imm 0x40, Imm 0, Imm 0], Count,
    Syscall NR_recvfrom [Reg 2, Ptr 0x20bcabc0, Imm 4, Imm 0x40, Imm 0, Imm 0], Count,
    Syscall NR_recvfrom [Reg 2, Ptr 0x20bcac80, Imm 0x22, Imm 0x40, Imm 0, Imm 0], Count,
    Syscall NR_sendto [Reg 2, Write_buf, Imm 0x5d, Imm 0x40, Imm 0, Imm 0], Count,
    Syscall NR_recvfrom [Reg 2, Ptr 0x20bcccc0, Imm 4, Imm 0x40, Imm 0, Imm 0], Count]"

definition min_mysql_recvfrom_sendto_20_0_body7 :: "stmt list" where
  "min_mysql_recvfrom_sendto_20_0_body7 = [
    Syscall NR_recvfrom [Reg 2, Ptr 0x20bccdc0, Imm 0x22, Imm 0x40, Imm 0, Imm 0], Count,
    Syscall NR_sendto [Reg 2, Write_buf, Imm 0x5d, Imm 0x40, Imm 0, Imm 0], Count,
    Syscall NR_recvfrom [Reg 2, Ptr 0x20bcf140, Imm 4, Imm 0x40, Imm 0, Imm 0], Count,
    Syscall NR_recvfrom [Reg 2, Ptr 0x20bcf340, Imm 0x22, Imm 0x40, Imm 0, Imm 0], Count,
    Syscall NR_sendto [Reg 2, Write_buf, Imm 0x5d, Imm 0x40, Imm 0, Imm 0], Count,
    Syscall NR_recvfrom [Reg 2, Ptr 0x20bd0e00, Imm 4, Imm 0x40, Imm 0, Imm 0], Count,
    Syscall NR_recvfrom [Reg 2, Ptr 0x20bd1340, Imm 0x22, Imm 0x40, Imm 0, Imm 0], Count,
    Syscall NR_sendto [Reg 2, Write_buf, Imm 0x5d, Imm 0x40, Imm 0, Imm 0], Count,
    Syscall NR_recvfrom [Reg 2, Ptr 0x20bd2e80, Imm 4, Imm 0x40, Imm 0, Imm 0], Count,
    Syscall NR_recvfrom [Reg 2, Ptr 0x20bd30c0, Imm 0x22, Imm 0x40, Imm 0, Imm 0], Count]"

definition min_mysql_recvfrom_sendto_20_0_body8 :: "stmt list" where
  "min_mysql_recvfrom_sendto_20_0_body8 = [
    Syscall NR_sendto [Reg 2, Write_buf, Imm 0x5d, Imm 0x40, Imm 0, Imm 0], Count,
    Syscall NR_recvfrom [Reg 2, Ptr 0x20bd4100, Imm 4, Imm 0x40, Imm 0, Imm 0], Count,
    Syscall NR_recvfrom [Reg 2, Ptr 0x20bd4440, Imm 0x22, Imm 0x40, Imm 0, Imm 0], Count,
    Syscall NR_sendto [Reg 2, Write_buf, Imm 0x5d, Imm 0x40, Imm 0, Imm 0], Count,
    Syscall NR_recvfrom [Reg 2, Ptr 0x20bd6040, Imm 4, Imm 0x40, Imm 0, Imm 0], Count,
    Syscall NR_recvfrom [Reg 2, Ptr 0x20bd64c0, Imm 0x22, Imm 0x40, Imm 0, Imm 0], Count,
    Syscall NR_sendto [Reg 2, Write_buf, Imm 0x5d, Imm 0x40, Imm 0, Imm 0], Count,
    Syscall NR_recvfrom [Reg 2, Ptr 0x20bd8440, Imm 4, Imm 0x40, Imm 0, Imm 0], Count,
    Syscall NR_recvfrom [Reg 2, Ptr 0x20bd88c0, Imm 0x2f, Imm 0x40, Imm 0, Imm 0], Count,
    Syscall NR_sendto [Reg 2, Write_buf, Imm 0x76, Imm 0x40, Imm 0, Imm 0], Count]"

definition min_mysql_recvfrom_sendto_20_0_body9 :: "stmt list" where
  "min_mysql_recvfrom_sendto_20_0_body9 = [
    Syscall NR_recvfrom [Reg 2, Ptr 0x20bd9c80, Imm 4, Imm 0x40, Imm 0, Imm 0], Count,
    Syscall NR_recvfrom [Reg 2, Ptr 0x20bda080, Imm 0x2f, Imm 0x40, Imm 0, Imm 0], Count,
    Syscall NR_sendto [Reg 2, Write_buf, Imm 0x76, Imm 0x40, Imm 0, Imm 0], Count,
    Syscall NR_recvfrom [Reg 2, Ptr 0x20bdac40, Imm 4, Imm 0x40, Imm 0, Imm 0], Count,
    Syscall NR_recvfrom [Reg 2, Ptr 0x20bdb1c0, Imm 0x2f, Imm 0x40, Imm 0, Imm 0], Count,
    Syscall NR_sendto [Reg 2, Write_buf, Imm 0x76, Imm 0x40, Imm 0, Imm 0], Count,
    Syscall NR_recvfrom [Reg 2, Ptr 0x20bdc040, Imm 4, Imm 0x40, Imm 0, Imm 0], Count,
    Syscall NR_recvfrom [Reg 2, Ptr 0x20bdc540, Imm 0x2f, Imm 0x40, Imm 0, Imm 0], Count,
    Syscall NR_sendto [Reg 2, Write_buf, Imm 0x76, Imm 0x40, Imm 0, Imm 0], Count,
    Syscall NR_recvfrom [Reg 2, Ptr 0x20bdd800, Imm 4, Imm 0x40, Imm 0, Imm 0], Count]"

definition min_mysql_recvfrom_sendto_20_0_body10 :: "stmt list" where
  "min_mysql_recvfrom_sendto_20_0_body10 = [
    Syscall NR_recvfrom [Reg 2, Ptr 0x20bddc40, Imm 0x2f, Imm 0x40, Imm 0, Imm 0], Count,
    Syscall NR_sendto [Reg 2, Write_buf, Imm 0x76, Imm 0x40, Imm 0, Imm 0], Count,
    Syscall NR_recvfrom [Reg 2, Ptr 0x20bdf000, Imm 4, Imm 0x40, Imm 0, Imm 0], Count,
    Syscall NR_recvfrom [Reg 2, Ptr 0x20bdf5c0, Imm 0x2f, Imm 0x40, Imm 0, Imm 0], Count,
    Syscall NR_sendto [Reg 2, Write_buf, Imm 0x76, Imm 0x40, Imm 0, Imm 0], Count,
    Syscall NR_recvfrom [Reg 2, Ptr 0x20be0140, Imm 4, Imm 0x40, Imm 0, Imm 0], Count,
    Syscall NR_recvfrom [Reg 2, Ptr 0x20be0580, Imm 0x2f, Imm 0x40, Imm 0, Imm 0], Count,
    Syscall NR_sendto [Reg 2, Write_buf, Imm 0x76, Imm 0x40, Imm 0, Imm 0], Count,
    Syscall NR_recvfrom [Reg 2, Ptr 0x20be15c0, Imm 4, Imm 0x40, Imm 0, Imm 0], Count,
    Syscall NR_recvfrom [Reg 2, Ptr 0x20be19c0, Imm 0x2f, Imm 0x40, Imm 0, Imm 0], Count]"

definition min_mysql_recvfrom_sendto_20_0_body11 :: "stmt list" where
  "min_mysql_recvfrom_sendto_20_0_body11 = [
    Syscall NR_sendto [Reg 2, Write_buf, Imm 0x76, Imm 0x40, Imm 0, Imm 0], Count,
    Syscall NR_recvfrom [Reg 2, Ptr 0x20be2900, Imm 4, Imm 0x40, Imm 0, Imm 0], Count,
    Syscall NR_recvfrom [Reg 2, Ptr 0x20be2cc0, Imm 0x2f, Imm 0x40, Imm 0, Imm 0], Count,
    Syscall NR_sendto [Reg 2, Write_buf, Imm 0x76, Imm 0x40, Imm 0, Imm 0], Count,
    Syscall NR_recvfrom [Reg 2, Ptr 0x20be4080, Imm 4, Imm 0x40, Imm 0, Imm 0], Count,
    Syscall NR_recvfrom [Reg 2, Ptr 0x20be4640, Imm 0x30, Imm 0x40, Imm 0, Imm 0], Count,
    Syscall NR_sendto [Reg 2, Write_buf, Imm 0x78, Imm 0x40, Imm 0, Imm 0], Count,
    Syscall NR_recvfrom [Reg 2, Ptr 0x20be5900, Imm 4, Imm 0x40, Imm 0, Imm 0], Count,
    Syscall NR_recvfrom [Reg 2, Ptr 0x20be5c00, Imm 0x30, Imm 0x40, Imm 0, Imm 0], Count,
    Syscall NR_sendto [Reg 2, Write_buf, Imm 0x78, Imm 0x40, Imm 0, Imm 0], Count]"

definition min_mysql_recvfrom_sendto_20_0_body12 :: "stmt list" where
  "min_mysql_recvfrom_sendto_20_0_body12 = [
    Syscall NR_recvfrom [Reg 2, Ptr 0x20be7500, Imm 4, Imm 0x40, Imm 0, Imm 0], Count,
    Syscall NR_recvfrom [Reg 2, Ptr 0x20be7800, Imm 0x30, Imm 0x40, Imm 0, Imm 0], Count,
    Syscall NR_sendto [Reg 2, Write_buf, Imm 0x78, Imm 0x40, Imm 0, Imm 0], Count,
    Syscall NR_recvfrom [Reg 2, Ptr 0x20be8800, Imm 4, Imm 0x40, Imm 0, Imm 0], Count,
    Syscall NR_recvfrom [Reg 2, Ptr 0x20be8b80, Imm 0x30, Imm 0x40, Imm 0, Imm 0], Count,
    Syscall NR_sendto [Reg 2, Write_buf, Imm 0x78, Imm 0x40, Imm 0, Imm 0], Count,
    Syscall NR_recvfrom [Reg 2, Ptr 0x20be9d00, Imm 4, Imm 0x40, Imm 0, Imm 0], Count,
    Syscall NR_recvfrom [Reg 2, Ptr 0x20be9fc0, Imm 0x30, Imm 0x40, Imm 0, Imm 0], Count,
    Syscall NR_sendto [Reg 2, Write_buf, Imm 0x78, Imm 0x40, Imm 0, Imm 0], Count,
    Syscall NR_recvfrom [Reg 2, Ptr 0x20beb540, Imm 4, Imm 0x40, Imm 0, Imm 0], Count]"

definition min_mysql_recvfrom_sendto_20_0_body13 :: "stmt list" where
  "min_mysql_recvfrom_sendto_20_0_body13 = [
    Syscall NR_recvfrom [Reg 2, Ptr 0x20beb780, Imm 0x30, Imm 0x40, Imm 0, Imm 0], Count,
    Syscall NR_sendto [Reg 2, Write_buf, Imm 0x78, Imm 0x40, Imm 0, Imm 0], Count,
    Syscall NR_recvfrom [Reg 2, Ptr 0x20bec580, Imm 4, Imm 0x40, Imm 0, Imm 0], Count,
    Syscall NR_recvfrom [Reg 2, Ptr 0x20bec8c0, Imm 0x30, Imm 0x40, Imm 0, Imm 0], Count,
    Syscall NR_sendto [Reg 2, Write_buf, Imm 0x78, Imm 0x40, Imm 0, Imm 0], Count,
    Syscall NR_recvfrom [Reg 2, Ptr 0x20bed9c0, Imm 4, Imm 0x40, Imm 0, Imm 0], Count,
    Syscall NR_recvfrom [Reg 2, Ptr 0x20bedd00, Imm 0x30, Imm 0x40, Imm 0, Imm 0], Count,
    Syscall NR_sendto [Reg 2, Write_buf, Imm 0x78, Imm 0x40, Imm 0, Imm 0], Count,
    Syscall NR_recvfrom [Reg 2, Ptr 0x20beed00, Imm 4, Imm 0x40, Imm 0, Imm 0], Count,
    Syscall NR_recvfrom [Reg 2, Ptr 0x20bef080, Imm 0x30, Imm 0x40, Imm 0, Imm 0], Count]"

definition min_mysql_recvfrom_sendto_20_0_body14 :: "stmt list" where
  "min_mysql_recvfrom_sendto_20_0_body14 = [
    Syscall NR_sendto [Reg 2, Write_buf, Imm 0x78, Imm 0x40, Imm 0, Imm 0], Count,
    Syscall NR_recvfrom [Reg 2, Ptr 0x20bf05c0, Imm 4, Imm 0x40, Imm 0, Imm 0], Count,
    Syscall NR_recvfrom [Reg 2, Ptr 0x20bf0980, Imm 0x30, Imm 0x40, Imm 0, Imm 0], Count,
    Syscall NR_sendto [Reg 2, Write_buf, Imm 0x78, Imm 0x40, Imm 0, Imm 0], Count,
    Syscall NR_recvfrom [Reg 2, Ptr 0x20bf1880, Imm 4, Imm 0x40, Imm 0, Imm 0], Count,
    Syscall NR_recvfrom [Reg 2, Ptr 0x20bf1c40, Imm 0x30, Imm 0x40, Imm 0, Imm 0], Count,
    Syscall NR_sendto [Reg 2, Write_buf, Imm 0x78, Imm 0x40, Imm 0, Imm 0], Count,
    Syscall NR_recvfrom [Reg 2, Ptr 0x20bf2c00, Imm 4, Imm 0x40, Imm 0, Imm 0], Count,
    Syscall NR_recvfrom [Reg 2, Ptr 0x20bf2f80, Imm 0x34, Imm 0x40, Imm 0, Imm 0], Count,
    Syscall NR_sendto [Reg 2, Write_buf, Imm 0x66, Imm 0x40, Imm 0, Imm 0], Count]"

definition min_mysql_recvfrom_sendto_20_0_body15 :: "stmt list" where
  "min_mysql_recvfrom_sendto_20_0_body15 = [
    Syscall NR_recvfrom [Reg 2, Ptr 0x20bf4000, Imm 4, Imm 0x40, Imm 0, Imm 0], Count,
    Syscall NR_recvfrom [Reg 2, Ptr 0x20bf4440, Imm 0x34, Imm 0x40, Imm 0, Imm 0], Count,
    Syscall NR_sendto [Reg 2, Write_buf, Imm 0x66, Imm 0x40, Imm 0, Imm 0], Count,
    Syscall NR_recvfrom [Reg 2, Ptr 0x20bf52c0, Imm 4, Imm 0x40, Imm 0, Imm 0], Count,
    Syscall NR_recvfrom [Reg 2, Ptr 0x20bf5700, Imm 0x34, Imm 0x40, Imm 0, Imm 0], Count,
    Syscall NR_sendto [Reg 2, Write_buf, Imm 0x66, Imm 0x40, Imm 0, Imm 0], Count,
    Syscall NR_recvfrom [Reg 2, Ptr 0x20bf6c80, Imm 4, Imm 0x40, Imm 0, Imm 0], Count,
    Syscall NR_recvfrom [Reg 2, Ptr 0x20bf7040, Imm 0x34, Imm 0x40, Imm 0, Imm 0], Count,
    Syscall NR_sendto [Reg 2, Write_buf, Imm 0x66, Imm 0x40, Imm 0, Imm 0], Count,
    Syscall NR_recvfrom [Reg 2, Ptr 0x20bf80c0, Imm 4, Imm 0x40, Imm 0, Imm 0], Count]"

definition min_mysql_recvfrom_sendto_20_0_body16 :: "stmt list" where
  "min_mysql_recvfrom_sendto_20_0_body16 = [
    Syscall NR_recvfrom [Reg 2, Ptr 0x20bf8480, Imm 0x34, Imm 0x40, Imm 0, Imm 0], Count,
    Syscall NR_sendto [Reg 2, Write_buf, Imm 0x66, Imm 0x40, Imm 0, Imm 0], Count,
    Syscall NR_recvfrom [Reg 2, Ptr 0x20bf9780, Imm 4, Imm 0x40, Imm 0, Imm 0], Count,
    Syscall NR_recvfrom [Reg 2, Ptr 0x20bf9b80, Imm 0x34, Imm 0x40, Imm 0, Imm 0], Count,
    Syscall NR_sendto [Reg 2, Write_buf, Imm 0x66, Imm 0x40, Imm 0, Imm 0], Count,
    Syscall NR_recvfrom [Reg 2, Ptr 0x20bfab00, Imm 4, Imm 0x40, Imm 0, Imm 0], Count,
    Syscall NR_recvfrom [Reg 2, Ptr 0x20bfaf40, Imm 0x34, Imm 0x40, Imm 0, Imm 0], Count,
    Syscall NR_sendto [Reg 2, Write_buf, Imm 0x66, Imm 0x40, Imm 0, Imm 0], Count,
    Syscall NR_recvfrom [Reg 2, Ptr 0x20bfc340, Imm 4, Imm 0x40, Imm 0, Imm 0], Count,
    Syscall NR_recvfrom [Reg 2, Ptr 0x20bfc700, Imm 0x34, Imm 0x40, Imm 0, Imm 0], Count]"

definition min_mysql_recvfrom_sendto_20_0_body17 :: "stmt list" where
  "min_mysql_recvfrom_sendto_20_0_body17 = [
    Syscall NR_sendto [Reg 2, Write_buf, Imm 0x66, Imm 0x40, Imm 0, Imm 0], Count,
    Syscall NR_recvfrom [Reg 2, Ptr 0x20bfd980, Imm 4, Imm 0x40, Imm 0, Imm 0], Count,
    Syscall NR_recvfrom [Reg 2, Ptr 0x20bfdd80, Imm 0x34, Imm 0x40, Imm 0, Imm 0], Count,
    Syscall NR_sendto [Reg 2, Write_buf, Imm 0x66, Imm 0x40, Imm 0, Imm 0], Count,
    Syscall NR_recvfrom [Reg 2, Ptr 0x20bfec80, Imm 4, Imm 0x40, Imm 0, Imm 0], Count,
    Syscall NR_recvfrom [Reg 2, Ptr 0x20bff080, Imm 0x35, Imm 0x40, Imm 0, Imm 0], Count,
    Syscall NR_sendto [Reg 2, Write_buf, Imm 0x66, Imm 0x40, Imm 0, Imm 0], Count,
    Syscall NR_recvfrom [Reg 2, Ptr 0x20bfff80, Imm 4, Imm 0x40, Imm 0, Imm 0], Count,
    Syscall NR_recvfrom [Reg 2, Ptr 0x20c00340, Imm 0x35, Imm 0x40, Imm 0, Imm 0], Count,
    Syscall NR_sendto [Reg 2, Write_buf, Imm 0x66, Imm 0x40, Imm 0, Imm 0], Count]"

definition min_mysql_recvfrom_sendto_20_0_body18 :: "stmt list" where
  "min_mysql_recvfrom_sendto_20_0_body18 = [
    Syscall NR_recvfrom [Reg 2, Ptr 0x20c01680, Imm 4, Imm 0x40, Imm 0, Imm 0], Count,
    Syscall NR_recvfrom [Reg 2, Ptr 0x20c01a80, Imm 0x35, Imm 0x40, Imm 0, Imm 0], Count,
    Syscall NR_sendto [Reg 2, Write_buf, Imm 0x66, Imm 0x40, Imm 0, Imm 0], Count,
    Syscall NR_recvfrom [Reg 2, Ptr 0x20c02980, Imm 4, Imm 0x40, Imm 0, Imm 0], Count,
    Syscall NR_recvfrom [Reg 2, Ptr 0x20c02d80, Imm 0x35, Imm 0x40, Imm 0, Imm 0], Count,
    Syscall NR_sendto [Reg 2, Write_buf, Imm 0x66, Imm 0x40, Imm 0, Imm 0], Count,
    Syscall NR_recvfrom [Reg 2, Ptr 0x20c03d40, Imm 4, Imm 0x40, Imm 0, Imm 0], Count,
    Syscall NR_recvfrom [Reg 2, Ptr 0x20c04140, Imm 0x35, Imm 0x40, Imm 0, Imm 0], Count,
    Syscall NR_sendto [Reg 2, Write_buf, Imm 0x66, Imm 0x40, Imm 0, Imm 0], Count,
    Syscall NR_recvfrom [Reg 2, Ptr 0x20c05340, Imm 4, Imm 0x40, Imm 0, Imm 0], Count]"

definition min_mysql_recvfrom_sendto_20_0_body19 :: "stmt list" where
  "min_mysql_recvfrom_sendto_20_0_body19 = [
    Syscall NR_recvfrom [Reg 2, Ptr 0x20c05700, Imm 0x35, Imm 0x40, Imm 0, Imm 0], Count,
    Syscall NR_sendto [Reg 2, Write_buf, Imm 0x66, Imm 0x40, Imm 0, Imm 0], Count,
    Syscall NR_recvfrom [Reg 2, Ptr 0x20c06b00, Imm 4, Imm 0x40, Imm 0, Imm 0], Count,
    Syscall NR_recvfrom [Reg 2, Ptr 0x20c06f80, Imm 0x35, Imm 0x40, Imm 0, Imm 0], Count,
    Syscall NR_sendto [Reg 2, Write_buf, Imm 0x66, Imm 0x40, Imm 0, Imm 0], Count,
    Syscall NR_recvfrom [Reg 2, Ptr 0x20c080c0, Imm 4, Imm 0x40, Imm 0, Imm 0], Count,
    Syscall NR_recvfrom [Reg 2, Ptr 0x20c08540, Imm 0x35, Imm 0x40, Imm 0, Imm 0], Count,
    Syscall NR_sendto [Reg 2, Write_buf, Imm 0x66, Imm 0x40, Imm 0, Imm 0], Count,
    Syscall NR_recvfrom [Reg 2, Ptr 0x20c095c0, Imm 4, Imm 0x40, Imm 0, Imm 0], Count,
    Syscall NR_recvfrom [Reg 2, Ptr 0x20c09a40, Imm 0x35, Imm 0x40, Imm 0, Imm 0], Count]"

definition min_mysql_recvfrom_sendto_20_0_body20 :: "stmt list" where
  "min_mysql_recvfrom_sendto_20_0_body20 = [
    Syscall NR_sendto [Reg 2, Write_buf, Imm 0x66, Imm 0x40, Imm 0, Imm 0], Count,
    Syscall NR_recvfrom [Reg 2, Ptr 0x20c0aa00, Imm 4, Imm 0x40, Imm 0, Imm 0], Count,
    Syscall NR_recvfrom [Reg 2, Ptr 0x20c0ae40, Imm 0x35, Imm 0x40, Imm 0, Imm 0], Count,
    Syscall NR_sendto [Reg 2, Write_buf, Imm 0x66, Imm 0x40, Imm 0, Imm 0], Count,
    Syscall NR_recvfrom [Reg 2, Ptr 0x20c0c200, Imm 4, Imm 0x40, Imm 0, Imm 0], Count,
    Syscall NR_recvfrom [Reg 2, Ptr 0x20c0c6c0, Imm 0x35, Imm 0x40, Imm 0, Imm 0], Count,
    Syscall NR_sendto [Reg 2, Write_buf, Imm 0x66, Imm 0x40, Imm 0, Imm 0], Count,
    Syscall NR_recvfrom [Reg 2, Ptr 0x20c0d800, Imm 4, Imm 0x40, Imm 0, Imm 0], Count,
    Syscall NR_recvfrom [Reg 2, Ptr 0x20c0dbc0, Imm 0x3a, Imm 0x40, Imm 0, Imm 0], Count,
    Syscall NR_sendto [Reg 2, Write_buf, Imm 0x76, Imm 0x40, Imm 0, Imm 0], Count]"

definition min_mysql_recvfrom_sendto_20_0_body21 :: "stmt list" where
  "min_mysql_recvfrom_sendto_20_0_body21 = [
    Syscall NR_recvfrom [Reg 2, Ptr 0x20c0eb80, Imm 4, Imm 0x40, Imm 0, Imm 0], Count,
    Syscall NR_recvfrom [Reg 2, Ptr 0x20c0ef00, Imm 0x3a, Imm 0x40, Imm 0, Imm 0], Count,
    Syscall NR_sendto [Reg 2, Write_buf, Imm 0x76, Imm 0x40, Imm 0, Imm 0], Count,
    Syscall NR_recvfrom [Reg 2, Ptr 0x20c0fe80, Imm 4, Imm 0x40, Imm 0, Imm 0], Count,
    Syscall NR_recvfrom [Reg 2, Ptr 0x20c102c0, Imm 0x3a, Imm 0x40, Imm 0, Imm 0], Count,
    Syscall NR_sendto [Reg 2, Write_buf, Imm 0x76, Imm 0x40, Imm 0, Imm 0], Count,
    Syscall NR_recvfrom [Reg 2, Ptr 0x20c11740, Imm 4, Imm 0x40, Imm 0, Imm 0], Count,
    Syscall NR_recvfrom [Reg 2, Ptr 0x20c11b00, Imm 0x3a, Imm 0x40, Imm 0, Imm 0], Count,
    Syscall NR_sendto [Reg 2, Write_buf, Imm 0x76, Imm 0x40, Imm 0, Imm 0], Count,
    Syscall NR_recvfrom [Reg 2, Ptr 0x20c12e80, Imm 4, Imm 0x40, Imm 0, Imm 0], Count]"

definition min_mysql_recvfrom_sendto_20_0_body22 :: "stmt list" where
  "min_mysql_recvfrom_sendto_20_0_body22 = [
    Syscall NR_recvfrom [Reg 2, Ptr 0x20c13240, Imm 0x3a, Imm 0x40, Imm 0, Imm 0], Count,
    Syscall NR_sendto [Reg 2, Write_buf, Imm 0x76, Imm 0x40, Imm 0, Imm 0], Count,
    Syscall NR_recvfrom [Reg 2, Ptr 0x20c14940, Imm 4, Imm 0x40, Imm 0, Imm 0], Count,
    Syscall NR_recvfrom [Reg 2, Ptr 0x20c14cc0, Imm 0x3a, Imm 0x40, Imm 0, Imm 0], Count,
    Syscall NR_sendto [Reg 2, Write_buf, Imm 0x76, Imm 0x40, Imm 0, Imm 0], Count,
    Syscall NR_recvfrom [Reg 2, Ptr 0x20c16040, Imm 4, Imm 0x40, Imm 0, Imm 0], Count,
    Syscall NR_recvfrom [Reg 2, Ptr 0x20c16440, Imm 0x3a, Imm 0x40, Imm 0, Imm 0], Count,
    Syscall NR_sendto [Reg 2, Write_buf, Imm 0x76, Imm 0x40, Imm 0, Imm 0], Count,
    Syscall NR_recvfrom [Reg 2, Ptr 0x20c17700, Imm 4, Imm 0x40, Imm 0, Imm 0], Count,
    Syscall NR_recvfrom [Reg 2, Ptr 0x20c17b40, Imm 0x3a, Imm 0x40, Imm 0, Imm 0], Count]"

definition min_mysql_recvfrom_sendto_20_0_body23 :: "stmt list" where
  "min_mysql_recvfrom_sendto_20_0_body23 = [
    Syscall NR_sendto [Reg 2, Write_buf, Imm 0x76, Imm 0x40, Imm 0, Imm 0], Count,
    Syscall NR_recvfrom [Reg 2, Ptr 0x20c18e00, Imm 4, Imm 0x40, Imm 0, Imm 0], Count,
    Syscall NR_recvfrom [Reg 2, Ptr 0x20c19280, Imm 0x3a, Imm 0x40, Imm 0, Imm 0], Count,
    Syscall NR_sendto [Reg 2, Write_buf, Imm 0x76, Imm 0x40, Imm 0, Imm 0], Count,
    Syscall NR_recvfrom [Reg 2, Ptr 0x20c1a440, Imm 4, Imm 0x40, Imm 0, Imm 0], Count,
    Syscall NR_recvfrom [Reg 2, Ptr 0x20c1a940, Imm 0x3b, Imm 0x40, Imm 0, Imm 0], Count,
    Syscall NR_sendto [Reg 2, Write_buf, Imm 0x78, Imm 0x40, Imm 0, Imm 0], Count,
    Syscall NR_recvfrom [Reg 2, Ptr 0x20c1ba40, Imm 4, Imm 0x40, Imm 0, Imm 0], Count,
    Syscall NR_recvfrom [Reg 2, Ptr 0x20c1bf00, Imm 0x3b, Imm 0x40, Imm 0, Imm 0], Count,
    Syscall NR_sendto [Reg 2, Write_buf, Imm 0x78, Imm 0x40, Imm 0, Imm 0], Count]"

definition min_mysql_recvfrom_sendto_20_0_body24 :: "stmt list" where
  "min_mysql_recvfrom_sendto_20_0_body24 = [
    Syscall NR_recvfrom [Reg 2, Ptr 0x20c1d000, Imm 4, Imm 0x40, Imm 0, Imm 0], Count,
    Syscall NR_recvfrom [Reg 2, Ptr 0x20c1d540, Imm 0x3b, Imm 0x40, Imm 0, Imm 0], Count,
    Syscall NR_sendto [Reg 2, Write_buf, Imm 0x78, Imm 0x40, Imm 0, Imm 0], Count,
    Syscall NR_recvfrom [Reg 2, Ptr 0x20c1ec00, Imm 4, Imm 0x40, Imm 0, Imm 0], Count,
    Syscall NR_recvfrom [Reg 2, Ptr 0x20c1f080, Imm 0x3b, Imm 0x40, Imm 0, Imm 0], Count,
    Syscall NR_sendto [Reg 2, Write_buf, Imm 0x78, Imm 0x40, Imm 0, Imm 0], Count,
    Syscall NR_recvfrom [Reg 2, Ptr 0x20c20240, Imm 4, Imm 0x40, Imm 0, Imm 0], Count,
    Syscall NR_recvfrom [Reg 2, Ptr 0x20c20740, Imm 0x3b, Imm 0x40, Imm 0, Imm 0], Count,
    Syscall NR_sendto [Reg 2, Write_buf, Imm 0x78, Imm 0x40, Imm 0, Imm 0], Count,
    Syscall NR_recvfrom [Reg 2, Ptr 0x20c21a40, Imm 4, Imm 0x40, Imm 0, Imm 0], Count]"

definition min_mysql_recvfrom_sendto_20_0_body25 :: "stmt list" where
  "min_mysql_recvfrom_sendto_20_0_body25 = [
    Syscall NR_recvfrom [Reg 2, Ptr 0x20c21dc0, Imm 0x3b, Imm 0x40, Imm 0, Imm 0], Count,
    Syscall NR_sendto [Reg 2, Write_buf, Imm 0x78, Imm 0x40, Imm 0, Imm 0], Count,
    Syscall NR_recvfrom [Reg 2, Ptr 0x20c23400, Imm 4, Imm 0x40, Imm 0, Imm 0], Count,
    Syscall NR_recvfrom [Reg 2, Ptr 0x20c237c0, Imm 0x3b, Imm 0x40, Imm 0, Imm 0], Count,
    Syscall NR_sendto [Reg 2, Write_buf, Imm 0x78, Imm 0x40, Imm 0, Imm 0], Count,
    Syscall NR_recvfrom [Reg 2, Ptr 0x20c24e80, Imm 4, Imm 0x40, Imm 0, Imm 0], Count,
    Syscall NR_recvfrom [Reg 2, Ptr 0x20c251c0, Imm 0x3b, Imm 0x40, Imm 0, Imm 0], Count,
    Syscall NR_sendto [Reg 2, Write_buf, Imm 0x78, Imm 0x40, Imm 0, Imm 0], Count,
    Syscall NR_recvfrom [Reg 2, Ptr 0x20c26580, Imm 4, Imm 0x40, Imm 0, Imm 0], Count,
    Syscall NR_recvfrom [Reg 2, Ptr 0x20c26940, Imm 0x3b, Imm 0x40, Imm 0, Imm 0], Count]"

definition min_mysql_recvfrom_sendto_20_0_body26 :: "stmt list" where
  "min_mysql_recvfrom_sendto_20_0_body26 = [
    Syscall NR_sendto [Reg 2, Write_buf, Imm 0x78, Imm 0x40, Imm 0, Imm 0], Count,
    Syscall NR_recvfrom [Reg 2, Ptr 0x20c27cc0, Imm 4, Imm 0x40, Imm 0, Imm 0], Count,
    Syscall NR_recvfrom [Reg 2, Ptr 0x20c28080, Imm 0x3b, Imm 0x40, Imm 0, Imm 0], Count,
    Syscall NR_sendto [Reg 2, Write_buf, Imm 0x78, Imm 0x40, Imm 0, Imm 0], Count,
    Syscall NR_recvfrom [Reg 2, Ptr 0x20c29480, Imm 4, Imm 0x40, Imm 0, Imm 0], Count,
    Syscall NR_recvfrom [Reg 2, Ptr 0x20c298c0, Imm 0x3b, Imm 0x40, Imm 0, Imm 0], Count,
    Syscall NR_sendto [Reg 2, Write_buf, Imm 0x78, Imm 0x40, Imm 0, Imm 0], Count,
    Syscall NR_recvfrom [Reg 2, Ptr 0x20c2b0c0, Imm 4, Imm 0x40, Imm 0, Imm 0], Count,
    Syscall NR_recvfrom [Reg 2, Ptr 0x20c2b500, Imm 0x43, Imm 0x40, Imm 0, Imm 0], Count,
    Syscall NR_sendto [Reg 2, Write_buf, Imm 0x76, Imm 0x40, Imm 0, Imm 0], Count]"

definition min_mysql_recvfrom_sendto_20_0_body27 :: "stmt list" where
  "min_mysql_recvfrom_sendto_20_0_body27 = [
    Syscall NR_recvfrom [Reg 2, Ptr 0x20c2cb00, Imm 4, Imm 0x40, Imm 0, Imm 0], Count,
    Syscall NR_recvfrom [Reg 2, Ptr 0x20c2cf00, Imm 0x43, Imm 0x40, Imm 0, Imm 0], Count,
    Syscall NR_sendto [Reg 2, Write_buf, Imm 0x76, Imm 0x40, Imm 0, Imm 0], Count,
    Syscall NR_recvfrom [Reg 2, Ptr 0x20c2e2c0, Imm 4, Imm 0x40, Imm 0, Imm 0], Count,
    Syscall NR_recvfrom [Reg 2, Ptr 0x20c2e640, Imm 0x43, Imm 0x40, Imm 0, Imm 0], Count,
    Syscall NR_sendto [Reg 2, Write_buf, Imm 0x76, Imm 0x40, Imm 0, Imm 0], Count,
    Syscall NR_recvfrom [Reg 2, Ptr 0x20c2f900, Imm 4, Imm 0x40, Imm 0, Imm 0], Count,
    Syscall NR_recvfrom [Reg 2, Ptr 0x20c2f9c0, Imm 0x43, Imm 0x40, Imm 0, Imm 0], Count,
    Syscall NR_sendto [Reg 2, Write_buf, Imm 0x76, Imm 0x40, Imm 0, Imm 0], Count,
    Syscall NR_recvfrom [Reg 2, Ptr 0x20c30480, Imm 4, Imm 0x40, Imm 0, Imm 0], Count]"

definition min_mysql_recvfrom_sendto_20_0_body28 :: "stmt list" where
  "min_mysql_recvfrom_sendto_20_0_body28 = [
    Syscall NR_recvfrom [Reg 2, Ptr 0x20c30640, Imm 0x43, Imm 0x40, Imm 0, Imm 0], Count,
    Syscall NR_sendto [Reg 2, Write_buf, Imm 0x76, Imm 0x40, Imm 0, Imm 0], Count,
    Syscall NR_recvfrom [Reg 2, Ptr 0x20c31400, Imm 4, Imm 0x40, Imm 0, Imm 0], Count,
    Syscall NR_recvfrom [Reg 2, Ptr 0x20c31700, Imm 0x43, Imm 0x40, Imm 0, Imm 0], Count,
    Syscall NR_sendto [Reg 2, Write_buf, Imm 0x76, Imm 0x40, Imm 0, Imm 0], Count,
    Syscall NR_recvfrom [Reg 2, Ptr 0x20c32640, Imm 4, Imm 0x40, Imm 0, Imm 0], Count,
    Syscall NR_recvfrom [Reg 2, Ptr 0x20c32a40, Imm 0x43, Imm 0x40, Imm 0, Imm 0], Count,
    Syscall NR_sendto [Reg 2, Write_buf, Imm 0x76, Imm 0x40, Imm 0, Imm 0], Count,
    Syscall NR_recvfrom [Reg 2, Ptr 0x20c33900, Imm 4, Imm 0x40, Imm 0, Imm 0], Count,
    Syscall NR_recvfrom [Reg 2, Ptr 0x20c33b80, Imm 0x43, Imm 0x40, Imm 0, Imm 0], Count]"

definition min_mysql_recvfrom_sendto_20_0_body29 :: "stmt list" where
  "min_mysql_recvfrom_sendto_20_0_body29 = [
    Syscall NR_sendto [Reg 2, Write_buf, Imm 0x76, Imm 0x40, Imm 0, Imm 0], Count,
    Syscall NR_recvfrom [Reg 2, Ptr 0x20c35000, Imm 4, Imm 0x40, Imm 0, Imm 0], Count,
    Syscall NR_recvfrom [Reg 2, Ptr 0x20c353c0, Imm 0x43, Imm 0x40, Imm 0, Imm 0], Count,
    Syscall NR_sendto [Reg 2, Write_buf, Imm 0x76, Imm 0x40, Imm 0, Imm 0], Count,
    Syscall NR_recvfrom [Reg 2, Ptr 0x20c361c0, Imm 4, Imm 0x40, Imm 0, Imm 0], Count,
    Syscall NR_recvfrom [Reg 2, Ptr 0x20c36580, Imm 0x44, Imm 0x40, Imm 0, Imm 0], Count,
    Syscall NR_sendto [Reg 2, Write_buf, Imm 0x78, Imm 0x40, Imm 0, Imm 0], Count,
    Syscall NR_recvfrom [Reg 2, Ptr 0x20c37580, Imm 4, Imm 0x40, Imm 0, Imm 0], Count,
    Syscall NR_recvfrom [Reg 2, Ptr 0x20c37900, Imm 0x44, Imm 0x40, Imm 0, Imm 0], Count,
    Syscall NR_sendto [Reg 2, Write_buf, Imm 0x78, Imm 0x40, Imm 0, Imm 0], Count]"

definition min_mysql_recvfrom_sendto_20_0_body30 :: "stmt list" where
  "min_mysql_recvfrom_sendto_20_0_body30 = [
    Syscall NR_recvfrom [Reg 2, Ptr 0x20c38740, Imm 4, Imm 0x40, Imm 0, Imm 0], Count,
    Syscall NR_recvfrom [Reg 2, Ptr 0x20c38ac0, Imm 0x44, Imm 0x40, Imm 0, Imm 0], Count,
    Syscall NR_sendto [Reg 2, Write_buf, Imm 0x78, Imm 0x40, Imm 0, Imm 0], Count,
    Syscall NR_recvfrom [Reg 2, Ptr 0x20c39b80, Imm 4, Imm 0x40, Imm 0, Imm 0], Count,
    Syscall NR_recvfrom [Reg 2, Ptr 0x20c39f40, Imm 0x44, Imm 0x40, Imm 0, Imm 0], Count,
    Syscall NR_sendto [Reg 2, Write_buf, Imm 0x78, Imm 0x40, Imm 0, Imm 0], Count,
    Syscall NR_recvfrom [Reg 2, Ptr 0x20c3b140, Imm 4, Imm 0x40, Imm 0, Imm 0], Count,
    Syscall NR_recvfrom [Reg 2, Ptr 0x20c3b340, Imm 0x44, Imm 0x40, Imm 0, Imm 0], Count,
    Syscall NR_sendto [Reg 2, Write_buf, Imm 0x78, Imm 0x40, Imm 0, Imm 0], Count,
    Syscall NR_recvfrom [Reg 2, Ptr 0x20c3c400, Imm 4, Imm 0x40, Imm 0, Imm 0], Count]"

definition min_mysql_recvfrom_sendto_20_0_body31 :: "stmt list" where
  "min_mysql_recvfrom_sendto_20_0_body31 = [
    Syscall NR_recvfrom [Reg 2, Ptr 0x20c3c680, Imm 0x44, Imm 0x40, Imm 0, Imm 0], Count,
    Syscall NR_sendto [Reg 2, Write_buf, Imm 0x78, Imm 0x40, Imm 0, Imm 0], Count,
    Syscall NR_recvfrom [Reg 2, Ptr 0x20c3d640, Imm 4, Imm 0x40, Imm 0, Imm 0], Count,
    Syscall NR_recvfrom [Reg 2, Ptr 0x20c3d8c0, Imm 0x44, Imm 0x40, Imm 0, Imm 0], Count,
    Syscall NR_sendto [Reg 2, Write_buf, Imm 0x78, Imm 0x40, Imm 0, Imm 0], Count,
    Syscall NR_recvfrom [Reg 2, Ptr 0x20c3e940, Imm 4, Imm 0x40, Imm 0, Imm 0], Count,
    Syscall NR_recvfrom [Reg 2, Ptr 0x20c3ec00, Imm 0x44, Imm 0x40, Imm 0, Imm 0], Count,
    Syscall NR_sendto [Reg 2, Write_buf, Imm 0x78, Imm 0x40, Imm 0, Imm 0], Count,
    Syscall NR_recvfrom [Reg 2, Ptr 0x20c3fcc0, Imm 4, Imm 0x40, Imm 0, Imm 0], Count,
    Syscall NR_recvfrom [Reg 2, Ptr 0x20c3ffc0, Imm 0x44, Imm 0x40, Imm 0, Imm 0], Count]"

definition min_mysql_recvfrom_sendto_20_0_body32 :: "stmt list" where
  "min_mysql_recvfrom_sendto_20_0_body32 = [
    Syscall NR_sendto [Reg 2, Write_buf, Imm 0x78, Imm 0x40, Imm 0, Imm 0], Count,
    Syscall NR_recvfrom [Reg 2, Ptr 0x20c40dc0, Imm 4, Imm 0x40, Imm 0, Imm 0], Count,
    Syscall NR_recvfrom [Reg 2, Ptr 0x20c411c0, Imm 0x44, Imm 0x40, Imm 0, Imm 0], Count,
    Syscall NR_sendto [Reg 2, Write_buf, Imm 0x78, Imm 0x40, Imm 0, Imm 0], Count,
    Syscall NR_recvfrom [Reg 2, Ptr 0x20c420c0, Imm 4, Imm 0x40, Imm 0, Imm 0], Count,
    Syscall NR_recvfrom [Reg 2, Ptr 0x20c42480, Imm 0x44, Imm 0x40, Imm 0, Imm 0], Count,
    Syscall NR_sendto [Reg 2, Write_buf, Imm 0x78, Imm 0x40, Imm 0, Imm 0], Count,
    Syscall NR_recvfrom [Reg 2, Ptr 0x20c43040, Imm 4, Imm 0x40, Imm 0, Imm 0], Count,
    Syscall NR_recvfrom [Reg 2, Ptr 0x20c43400, Imm 0x24, Imm 0x40, Imm 0, Imm 0], Count,
    Syscall NR_sendto [Reg 2, Write_buf, Imm 0x2b, Imm 0x40, Imm 0, Imm 0], Count]"

definition min_mysql_recvfrom_sendto_20_0_body33 :: "stmt list" where
  "min_mysql_recvfrom_sendto_20_0_body33 = [
    Syscall NR_recvfrom [Reg 2, Ptr 0x20c43f40, Imm 4, Imm 0x40, Imm 0, Imm 0], Count,
    Syscall NR_recvfrom [Reg 2, Ptr 0x20c44340, Imm 0x24, Imm 0x40, Imm 0, Imm 0], Count,
    Syscall NR_sendto [Reg 2, Write_buf, Imm 0x2b, Imm 0x40, Imm 0, Imm 0], Count,
    Syscall NR_recvfrom [Reg 2, Ptr 0x20c44e40, Imm 4, Imm 0x40, Imm 0, Imm 0], Count,
    Syscall NR_recvfrom [Reg 2, Ptr 0x20c45280, Imm 0x24, Imm 0x40, Imm 0, Imm 0], Count,
    Syscall NR_sendto [Reg 2, Write_buf, Imm 0x2b, Imm 0x40, Imm 0, Imm 0], Count,
    Syscall NR_recvfrom [Reg 2, Ptr 0x20c46280, Imm 4, Imm 0x40, Imm 0, Imm 0], Count,
    Syscall NR_recvfrom [Reg 2, Ptr 0x20c46640, Imm 0x24, Imm 0x40, Imm 0, Imm 0], Count,
    Syscall NR_sendto [Reg 2, Write_buf, Imm 0x2b, Imm 0x40, Imm 0, Imm 0], Count,
    Syscall NR_recvfrom [Reg 2, Ptr 0x20c47480, Imm 4, Imm 0x40, Imm 0, Imm 0], Count]"

definition min_mysql_recvfrom_sendto_20_0_body34 :: "stmt list" where
  "min_mysql_recvfrom_sendto_20_0_body34 = [
    Syscall NR_recvfrom [Reg 2, Ptr 0x20c47800, Imm 0x24, Imm 0x40, Imm 0, Imm 0], Count,
    Syscall NR_sendto [Reg 2, Write_buf, Imm 0x2b, Imm 0x40, Imm 0, Imm 0], Count,
    Syscall NR_recvfrom [Reg 2, Ptr 0x20c48940, Imm 4, Imm 0x40, Imm 0, Imm 0], Count,
    Syscall NR_recvfrom [Reg 2, Ptr 0x20c48c80, Imm 0x24, Imm 0x40, Imm 0, Imm 0], Count,
    Syscall NR_sendto [Reg 2, Write_buf, Imm 0x2b, Imm 0x40, Imm 0, Imm 0], Count,
    Syscall NR_recvfrom [Reg 2, Ptr 0x20c49b80, Imm 4, Imm 0x40, Imm 0, Imm 0], Count,
    Syscall NR_recvfrom [Reg 2, Ptr 0x20c49f40, Imm 0x24, Imm 0x40, Imm 0, Imm 0], Count,
    Syscall NR_sendto [Reg 2, Write_buf, Imm 0x2b, Imm 0x40, Imm 0, Imm 0], Count,
    Syscall NR_recvfrom [Reg 2, Ptr 0x20c4ad40, Imm 4, Imm 0x40, Imm 0, Imm 0], Count,
    Syscall NR_recvfrom [Reg 2, Ptr 0x20c4b140, Imm 0x24, Imm 0x40, Imm 0, Imm 0], Count]"

definition min_mysql_recvfrom_sendto_20_0_body35 :: "stmt list" where
  "min_mysql_recvfrom_sendto_20_0_body35 = [
    Syscall NR_sendto [Reg 2, Write_buf, Imm 0x2b, Imm 0x40, Imm 0, Imm 0], Count,
    Syscall NR_recvfrom [Reg 2, Ptr 0x20c4c500, Imm 4, Imm 0x40, Imm 0, Imm 0], Count,
    Syscall NR_recvfrom [Reg 2, Ptr 0x20c4c780, Imm 0x24, Imm 0x40, Imm 0, Imm 0], Count,
    Syscall NR_sendto [Reg 2, Write_buf, Imm 0x2b, Imm 0x40, Imm 0, Imm 0], Count,
    Syscall NR_recvfrom [Reg 2, Ptr 0x20c4d7c0, Imm 4, Imm 0x40, Imm 0, Imm 0], Count,
    Syscall NR_recvfrom [Reg 2, Ptr 0x20c4d940, Imm 0x25, Imm 0x40, Imm 0, Imm 0], Count,
    Syscall NR_sendto [Reg 2, Write_buf, Imm 0x2b, Imm 0x40, Imm 0, Imm 0], Count,
    Syscall NR_recvfrom [Reg 2, Ptr 0x20c4eac0, Imm 4, Imm 0x40, Imm 0, Imm 0], Count,
    Syscall NR_recvfrom [Reg 2, Ptr 0x20c4ed40, Imm 0x25, Imm 0x40, Imm 0, Imm 0], Count,
    Syscall NR_sendto [Reg 2, Write_buf, Imm 0x2b, Imm 0x40, Imm 0, Imm 0], Count]"

definition min_mysql_recvfrom_sendto_20_0_body36 :: "stmt list" where
  "min_mysql_recvfrom_sendto_20_0_body36 = [
    Syscall NR_recvfrom [Reg 2, Ptr 0x20c4ff40, Imm 4, Imm 0x40, Imm 0, Imm 0], Count,
    Syscall NR_recvfrom [Reg 2, Ptr 0x20c501c0, Imm 0x25, Imm 0x40, Imm 0, Imm 0], Count,
    Syscall NR_sendto [Reg 2, Write_buf, Imm 0x2b, Imm 0x40, Imm 0, Imm 0], Count,
    Syscall NR_recvfrom [Reg 2, Ptr 0x20c51380, Imm 4, Imm 0x40, Imm 0, Imm 0], Count,
    Syscall NR_recvfrom [Reg 2, Ptr 0x20c51700, Imm 0x25, Imm 0x40, Imm 0, Imm 0], Count,
    Syscall NR_sendto [Reg 2, Write_buf, Imm 0x2b, Imm 0x40, Imm 0, Imm 0], Count,
    Syscall NR_recvfrom [Reg 2, Ptr 0x20c52880, Imm 4, Imm 0x40, Imm 0, Imm 0], Count,
    Syscall NR_recvfrom [Reg 2, Ptr 0x20c52d40, Imm 0x25, Imm 0x40, Imm 0, Imm 0], Count,
    Syscall NR_sendto [Reg 2, Write_buf, Imm 0x2b, Imm 0x40, Imm 0, Imm 0], Count,
    Syscall NR_recvfrom [Reg 2, Ptr 0x20c539c0, Imm 4, Imm 0x40, Imm 0, Imm 0], Count]"

definition min_mysql_recvfrom_sendto_20_0_body37 :: "stmt list" where
  "min_mysql_recvfrom_sendto_20_0_body37 = [
    Syscall NR_recvfrom [Reg 2, Ptr 0x20c53e00, Imm 0x25, Imm 0x40, Imm 0, Imm 0], Count,
    Syscall NR_sendto [Reg 2, Write_buf, Imm 0x2b, Imm 0x40, Imm 0, Imm 0], Count,
    Syscall NR_recvfrom [Reg 2, Ptr 0x20c54c40, Imm 4, Imm 0x40, Imm 0, Imm 0], Count,
    Syscall NR_recvfrom [Reg 2, Ptr 0x20c55000, Imm 0x25, Imm 0x40, Imm 0, Imm 0], Count,
    Syscall NR_sendto [Reg 2, Write_buf, Imm 0x2b, Imm 0x40, Imm 0, Imm 0], Count,
    Syscall NR_recvfrom [Reg 2, Ptr 0x20c56140, Imm 4, Imm 0x40, Imm 0, Imm 0], Count,
    Syscall NR_recvfrom [Reg 2, Ptr 0x20c56740, Imm 0x25, Imm 0x40, Imm 0, Imm 0], Count,
    Syscall NR_sendto [Reg 2, Write_buf, Imm 0x2b, Imm 0x40, Imm 0, Imm 0], Count,
    Syscall NR_recvfrom [Reg 2, Ptr 0x20c57440, Imm 4, Imm 0x40, Imm 0, Imm 0], Count,
    Syscall NR_recvfrom [Reg 2, Ptr 0x20c57940, Imm 0x25, Imm 0x40, Imm 0, Imm 0], Count]"

definition min_mysql_recvfrom_sendto_20_0_body38 :: "stmt list" where
  "min_mysql_recvfrom_sendto_20_0_body38 = [
    Syscall NR_sendto [Reg 2, Write_buf, Imm 0x2b, Imm 0x40, Imm 0, Imm 0], Count,
    Syscall NR_recvfrom [Reg 2, Ptr 0x20c58b00, Imm 4, Imm 0x40, Imm 0, Imm 0], Count,
    Syscall NR_recvfrom [Reg 2, Ptr 0x20c59040, Imm 0x25, Imm 0x40, Imm 0, Imm 0], Count,
    Syscall NR_sendto [Reg 2, Write_buf, Imm 0x2b, Imm 0x40, Imm 0, Imm 0], Count,
    Syscall NR_recvfrom [Reg 2, Ptr 0x20c59ec0, Imm 4, Imm 0x40, Imm 0, Imm 0], Count,
    Syscall NR_recvfrom [Reg 2, Ptr 0x20c5a3c0, Imm 0x25, Imm 0x40, Imm 0, Imm 0], Count,
    Syscall NR_sendto [Reg 2, Write_buf, Imm 0x2b, Imm 0x40, Imm 0, Imm 0], Count,
    Syscall NR_recvfrom [Reg 2, Ptr 0x20c5b640, Imm 4, Imm 0x40, Imm 0, Imm 0], Count,
    Syscall NR_recvfrom [Reg 2, Ptr 0x20c5bb40, Imm 0x22, Imm 0x40, Imm 0, Imm 0], Count,
    Syscall NR_sendto [Reg 2, Write_buf, Imm 0x46, Imm 0x40, Imm 0, Imm 0], Count]"

definition min_mysql_recvfrom_sendto_20_0_body39 :: "stmt list" where
  "min_mysql_recvfrom_sendto_20_0_body39 = [
    Syscall NR_recvfrom [Reg 2, Ptr 0x20c5c8c0, Imm 4, Imm 0x40, Imm 0, Imm 0], Count,
    Syscall NR_recvfrom [Reg 2, Ptr 0x20c5cd00, Imm 0x22, Imm 0x40, Imm 0, Imm 0], Count,
    Syscall NR_sendto [Reg 2, Write_buf, Imm 0x46, Imm 0x40, Imm 0, Imm 0], Count,
    Syscall NR_recvfrom [Reg 2, Ptr 0x20c5d9c0, Imm 4, Imm 0x40, Imm 0, Imm 0], Count,
    Syscall NR_recvfrom [Reg 2, Ptr 0x20c5de40, Imm 0x22, Imm 0x40, Imm 0, Imm 0], Count,
    Syscall NR_sendto [Reg 2, Write_buf, Imm 0x46, Imm 0x40, Imm 0, Imm 0], Count,
    Syscall NR_recvfrom [Reg 2, Ptr 0x20c5ea00, Imm 4, Imm 0x40, Imm 0, Imm 0], Count,
    Syscall NR_recvfrom [Reg 2, Ptr 0x20c5ee80, Imm 0x22, Imm 0x40, Imm 0, Imm 0], Count,
    Syscall NR_sendto [Reg 2, Write_buf, Imm 0x46, Imm 0x40, Imm 0, Imm 0], Count,
    Syscall NR_recvfrom [Reg 2, Ptr 0x20c5fd80, Imm 4, Imm 0x40, Imm 0, Imm 0], Count]"

definition min_mysql_recvfrom_sendto_20_0_body40 :: "stmt list" where
  "min_mysql_recvfrom_sendto_20_0_body40 = [
    Syscall NR_recvfrom [Reg 2, Ptr 0x20c60140, Imm 0x22, Imm 0x40, Imm 0, Imm 0], Count,
    Syscall NR_sendto [Reg 2, Write_buf, Imm 0x46, Imm 0x40, Imm 0, Imm 0], Count,
    Syscall NR_recvfrom [Reg 2, Ptr 0x20c60d00, Imm 4, Imm 0x40, Imm 0, Imm 0], Count,
    Syscall NR_recvfrom [Reg 2, Ptr 0x20c610c0, Imm 0x22, Imm 0x40, Imm 0, Imm 0], Count,
    Syscall NR_sendto [Reg 2, Write_buf, Imm 0x46, Imm 0x40, Imm 0, Imm 0], Count,
    Syscall NR_recvfrom [Reg 2, Ptr 0x20c61d40, Imm 4, Imm 0x40, Imm 0, Imm 0], Count,
    Syscall NR_recvfrom [Reg 2, Ptr 0x20c62140, Imm 0x22, Imm 0x40, Imm 0, Imm 0], Count,
    Syscall NR_sendto [Reg 2, Write_buf, Imm 0x46, Imm 0x40, Imm 0, Imm 0], Count,
    Syscall NR_recvfrom [Reg 2, Ptr 0x20c62d00, Imm 4, Imm 0x40, Imm 0, Imm 0], Count,
    Syscall NR_recvfrom [Reg 2, Ptr 0x20c63140, Imm 0x22, Imm 0x40, Imm 0, Imm 0], Count]"

definition min_mysql_recvfrom_sendto_20_0_body41 :: "stmt list" where
  "min_mysql_recvfrom_sendto_20_0_body41 = [
    Syscall NR_sendto [Reg 2, Write_buf, Imm 0x46, Imm 0x40, Imm 0, Imm 0], Count,
    Syscall NR_recvfrom [Reg 2, Ptr 0x20c63d00, Imm 4, Imm 0x40, Imm 0, Imm 0], Count,
    Syscall NR_recvfrom [Reg 2, Ptr 0x20c64100, Imm 0x22, Imm 0x40, Imm 0, Imm 0], Count,
    Syscall NR_sendto [Reg 2, Write_buf, Imm 0x46, Imm 0x40, Imm 0, Imm 0], Count,
    Syscall NR_recvfrom [Reg 2, Ptr 0x20c65080, Imm 4, Imm 0x40, Imm 0, Imm 0], Count,
    Syscall NR_recvfrom [Reg 2, Ptr 0x20c65400, Imm 0x23, Imm 0x40, Imm 0, Imm 0], Count,
    Syscall NR_sendto [Reg 2, Write_buf, Imm 0x46, Imm 0x40, Imm 0, Imm 0], Count,
    Syscall NR_recvfrom [Reg 2, Ptr 0x20c66000, Imm 4, Imm 0x40, Imm 0, Imm 0], Count,
    Store 4 0x20c663c0 (Reg 2), Store 2 0x20c663c4 (Imm 3), Store 2 0x20c663c6 (Imm 0),
    Store 8 0x20c66400 (Imm 0x7080), Store 8 0x20c66408 (Imm 0), Store 8 0x20c66440 (Imm 1),
    Syscall NR_ppoll [Ptr 0x20c663c0, Imm 1, Ptr 0x20c66400, Ptr 0x20c66440, Imm 8], Count]"

definition min_mysql_recvfrom_sendto_20_0_body42 :: "stmt list" where
  "min_mysql_recvfrom_sendto_20_0_body42 = [
    Syscall NR_recvfrom [Reg 2, Ptr 0x20c666c0, Imm 4, Imm 0x40, Imm 0, Imm 0], Count,
    Syscall NR_recvfrom [Reg 2, Ptr 0x20c66840, Imm 0x23, Imm 0x40, Imm 0, Imm 0], Count,
    Syscall NR_sendto [Reg 2, Write_buf, Imm 0x46, Imm 0x40, Imm 0, Imm 0], Count,
    Syscall NR_recvfrom [Reg 2, Ptr 0x20c67740, Imm 4, Imm 0x40, Imm 0, Imm 0], Count,
    Syscall NR_recvfrom [Reg 2, Ptr 0x20c67900, Imm 0x23, Imm 0x40, Imm 0, Imm 0], Count,
    Syscall NR_sendto [Reg 2, Write_buf, Imm 0x46, Imm 0x40, Imm 0, Imm 0], Count,
    Syscall NR_recvfrom [Reg 2, Ptr 0x20c68840, Imm 4, Imm 0x40, Imm 0, Imm 0], Count,
    Syscall NR_recvfrom [Reg 2, Ptr 0x20c68a00, Imm 0x23, Imm 0x40, Imm 0, Imm 0], Count,
    Syscall NR_sendto [Reg 2, Write_buf, Imm 0x46, Imm 0x40, Imm 0, Imm 0], Count,
    Syscall NR_recvfrom [Reg 2, Ptr 0x20c69540, Imm 4, Imm 0x40, Imm 0, Imm 0], Count]"

definition min_mysql_recvfrom_sendto_20_0_body43 :: "stmt list" where
  "min_mysql_recvfrom_sendto_20_0_body43 = [
    Syscall NR_recvfrom [Reg 2, Ptr 0x20c69700, Imm 0x23, Imm 0x40, Imm 0, Imm 0], Count,
    Syscall NR_sendto [Reg 2, Write_buf, Imm 0x46, Imm 0x40, Imm 0, Imm 0], Count,
    Syscall NR_recvfrom [Reg 2, Ptr 0x20c6a280, Imm 4, Imm 0x40, Imm 0, Imm 0], Count,
    Syscall NR_recvfrom [Reg 2, Ptr 0x20c6a500, Imm 0x23, Imm 0x40, Imm 0, Imm 0], Count,
    Syscall NR_sendto [Reg 2, Write_buf, Imm 0x46, Imm 0x40, Imm 0, Imm 0], Count,
    Syscall NR_recvfrom [Reg 2, Ptr 0x20c6b0c0, Imm 4, Imm 0x40, Imm 0, Imm 0], Count,
    Syscall NR_recvfrom [Reg 2, Ptr 0x20c6b340, Imm 0x23, Imm 0x40, Imm 0, Imm 0], Count,
    Syscall NR_sendto [Reg 2, Write_buf, Imm 0x46, Imm 0x40, Imm 0, Imm 0], Count,
    Syscall NR_recvfrom [Reg 2, Ptr 0x20c6c0c0, Imm 4, Imm 0x40, Imm 0, Imm 0], Count,
    Syscall NR_recvfrom [Reg 2, Ptr 0x20c6c340, Imm 0x23, Imm 0x40, Imm 0, Imm 0], Count]"

definition min_mysql_recvfrom_sendto_20_0_body44 :: "stmt list" where
  "min_mysql_recvfrom_sendto_20_0_body44 = [
    Syscall NR_sendto [Reg 2, Write_buf, Imm 0x46, Imm 0x40, Imm 0, Imm 0], Count,
    Syscall NR_recvfrom [Reg 2, Ptr 0x20c6d440, Imm 4, Imm 0x40, Imm 0, Imm 0], Count,
    Syscall NR_recvfrom [Reg 2, Ptr 0x20c6d6c0, Imm 0x23, Imm 0x40, Imm 0, Imm 0], Count,
    Syscall NR_sendto [Reg 2, Write_buf, Imm 0x46, Imm 0x40, Imm 0, Imm 0], Count,
    Syscall NR_recvfrom [Reg 2, Ptr 0x20c6e2c0, Imm 4, Imm 0x40, Imm 0, Imm 0], Count,
    Syscall NR_recvfrom [Reg 2, Ptr 0x20c6e580, Imm 0x23, Imm 0x40, Imm 0, Imm 0], Count,
    Syscall NR_sendto [Reg 2, Write_buf, Imm 0x46, Imm 0x40, Imm 0, Imm 0], Count,
    Syscall NR_recvfrom [Reg 2, Ptr 0x20c6f440, Imm 4, Imm 0x40, Imm 0, Imm 0], Count,
    Syscall NR_recvfrom [Reg 2, Ptr 0x20c6f780, Imm 0x23, Imm 0x40, Imm 0, Imm 0], Count,
    Syscall NR_sendto [Reg 2, Write_buf, Imm 0x46, Imm 0x40, Imm 0, Imm 0], Count]"

definition min_mysql_recvfrom_sendto_20_0_body45 :: "stmt list" where
  "min_mysql_recvfrom_sendto_20_0_body45 = [
    Syscall NR_recvfrom [Reg 2, Ptr 0x20c703c0, Imm 4, Imm 0x40, Imm 0, Imm 0], Count,
    Syscall NR_recvfrom [Reg 2, Ptr 0x20c70740, Imm 0x1f, Imm 0x40, Imm 0, Imm 0], Count,
    Syscall NR_sendto [Reg 2, Write_buf, Imm 0x2b, Imm 0x40, Imm 0, Imm 0], Count,
    Syscall NR_recvfrom [Reg 2, Ptr 0x20c71680, Imm 4, Imm 0x40, Imm 0, Imm 0], Count,
    Syscall NR_recvfrom [Reg 2, Ptr 0x20c71a00, Imm 0x1f, Imm 0x40, Imm 0, Imm 0], Count,
    Syscall NR_sendto [Reg 2, Write_buf, Imm 0x2b, Imm 0x40, Imm 0, Imm 0], Count,
    Syscall NR_recvfrom [Reg 2, Ptr 0x20c72740, Imm 4, Imm 0x40, Imm 0, Imm 0], Count,
    Syscall NR_recvfrom [Reg 2, Ptr 0x20c72b00, Imm 0x1f, Imm 0x40, Imm 0, Imm 0], Count,
    Syscall NR_sendto [Reg 2, Write_buf, Imm 0x2b, Imm 0x40, Imm 0, Imm 0], Count,
    Syscall NR_recvfrom [Reg 2, Ptr 0x20c73940, Imm 4, Imm 0x40, Imm 0, Imm 0], Count]"

definition min_mysql_recvfrom_sendto_20_0_body46 :: "stmt list" where
  "min_mysql_recvfrom_sendto_20_0_body46 = [
    Syscall NR_recvfrom [Reg 2, Ptr 0x20c73d40, Imm 0x1f, Imm 0x40, Imm 0, Imm 0], Count,
    Syscall NR_sendto [Reg 2, Write_buf, Imm 0x2b, Imm 0x40, Imm 0, Imm 0], Count,
    Syscall NR_recvfrom [Reg 2, Ptr 0x20c74a80, Imm 4, Imm 0x40, Imm 0, Imm 0], Count,
    Syscall NR_recvfrom [Reg 2, Ptr 0x20c74f00, Imm 0x1f, Imm 0x40, Imm 0, Imm 0], Count,
    Syscall NR_sendto [Reg 2, Write_buf, Imm 0x2b, Imm 0x40, Imm 0, Imm 0], Count,
    Syscall NR_recvfrom [Reg 2, Ptr 0x20c76040, Imm 4, Imm 0x40, Imm 0, Imm 0], Count,
    Syscall NR_recvfrom [Reg 2, Ptr 0x20c76440, Imm 0x1f, Imm 0x40, Imm 0, Imm 0], Count,
    Syscall NR_sendto [Reg 2, Write_buf, Imm 0x2b, Imm 0x40, Imm 0, Imm 0], Count,
    Syscall NR_recvfrom [Reg 2, Ptr 0x20c772c0, Imm 4, Imm 0x40, Imm 0, Imm 0], Count,
    Syscall NR_recvfrom [Reg 2, Ptr 0x20c77640, Imm 0x1f, Imm 0x40, Imm 0, Imm 0], Count]"

definition min_mysql_recvfrom_sendto_20_0_body47 :: "stmt list" where
  "min_mysql_recvfrom_sendto_20_0_body47 = [
    Syscall NR_sendto [Reg 2, Write_buf, Imm 0x2b, Imm 0x40, Imm 0, Imm 0], Count,
    Syscall NR_recvfrom [Reg 2, Ptr 0x20c78480, Imm 4, Imm 0x40, Imm 0, Imm 0], Count,
    Syscall NR_recvfrom [Reg 2, Ptr 0x20c78800, Imm 0x1f, Imm 0x40, Imm 0, Imm 0], Count,
    Syscall NR_sendto [Reg 2, Write_buf, Imm 0x2b, Imm 0x40, Imm 0, Imm 0], Count,
    Syscall NR_recvfrom [Reg 2, Ptr 0x20c795c0, Imm 4, Imm 0x40, Imm 0, Imm 0], Count,
    Syscall NR_recvfrom [Reg 2, Ptr 0x20c799c0, Imm 0x1f, Imm 0x40, Imm 0, Imm 0], Count,
    Syscall NR_sendto [Reg 2, Write_buf, Imm 0x2b, Imm 0x40, Imm 0, Imm 0], Count,
    Syscall NR_recvfrom [Reg 2, Ptr 0x20c7a780, Imm 4, Imm 0x40, Imm 0, Imm 0], Count,
    Syscall NR_recvfrom [Reg 2, Ptr 0x20c7ac80, Imm 0x20, Imm 0x40, Imm 0, Imm 0], Count,
    Syscall NR_sendto [Reg 2, Write_buf, Imm 0x2b, Imm 0x40, Imm 0, Imm 0], Count]"

definition min_mysql_recvfrom_sendto_20_0_body48 :: "stmt list" where
  "min_mysql_recvfrom_sendto_20_0_body48 = [
    Syscall NR_recvfrom [Reg 2, Ptr 0x20c7bbc0, Imm 4, Imm 0x40, Imm 0, Imm 0], Count,
    Syscall NR_recvfrom [Reg 2, Ptr 0x20c7bfc0, Imm 0x20, Imm 0x40, Imm 0, Imm 0], Count,
    Syscall NR_sendto [Reg 2, Write_buf, Imm 0x2b, Imm 0x40, Imm 0, Imm 0], Count,
    Syscall NR_recvfrom [Reg 2, Ptr 0x20c7cf00, Imm 4, Imm 0x40, Imm 0, Imm 0], Count,
    Syscall NR_recvfrom [Reg 2, Ptr 0x20c7d280, Imm 0x20, Imm 0x40, Imm 0, Imm 0], Count,
    Syscall NR_sendto [Reg 2, Write_buf, Imm 0x2b, Imm 0x40, Imm 0, Imm 0], Count,
    Syscall NR_recvfrom [Reg 2, Ptr 0x20c7e3c0, Imm 4, Imm 0x40, Imm 0, Imm 0], Count,
    Syscall NR_recvfrom [Reg 2, Ptr 0x20c7e680, Imm 0x20, Imm 0x40, Imm 0, Imm 0], Count,
    Syscall NR_sendto [Reg 2, Write_buf, Imm 0x2b, Imm 0x40, Imm 0, Imm 0], Count,
    Syscall NR_recvfrom [Reg 2, Ptr 0x20c7f7c0, Imm 4, Imm 0x40, Imm 0, Imm 0], Count]"

definition min_mysql_recvfrom_sendto_20_0_body49 :: "stmt list" where
  "min_mysql_recvfrom_sendto_20_0_body49 = [
    Syscall NR_recvfrom [Reg 2, Ptr 0x20c7fb00, Imm 0x20, Imm 0x40, Imm 0, Imm 0], Count,
    Syscall NR_sendto [Reg 2, Write_buf, Imm 0x2b, Imm 0x40, Imm 0, Imm 0], Count,
    Syscall NR_recvfrom [Reg 2, Ptr 0x20c80cc0, Imm 4, Imm 0x40, Imm 0, Imm 0], Count,
    Syscall NR_recvfrom [Reg 2, Ptr 0x20c81000, Imm 0x20, Imm 0x40, Imm 0, Imm 0], Count,
    Syscall NR_sendto [Reg 2, Write_buf, Imm 0x2b, Imm 0x40, Imm 0, Imm 0], Count,
    Syscall NR_recvfrom [Reg 2, Ptr 0x20c81ec0, Imm 4, Imm 0x40, Imm 0, Imm 0], Count,
    Syscall NR_recvfrom [Reg 2, Ptr 0x20c821c0, Imm 0x20, Imm 0x40, Imm 0, Imm 0], Count,
    Syscall NR_sendto [Reg 2, Write_buf, Imm 0x2b, Imm 0x40, Imm 0, Imm 0], Count,
    Syscall NR_recvfrom [Reg 2, Ptr 0x20c830c0, Imm 4, Imm 0x40, Imm 0, Imm 0], Count,
    Syscall NR_recvfrom [Reg 2, Ptr 0x20c83400, Imm 0x20, Imm 0x40, Imm 0, Imm 0], Count]"

definition min_mysql_recvfrom_sendto_20_0_body50 :: "stmt list" where
  "min_mysql_recvfrom_sendto_20_0_body50 = [
    Syscall NR_sendto [Reg 2, Write_buf, Imm 0x2b, Imm 0x40, Imm 0, Imm 0], Count,
    Syscall NR_recvfrom [Reg 2, Ptr 0x20c843c0, Imm 4, Imm 0x40, Imm 0, Imm 0], Count,
    Syscall NR_recvfrom [Reg 2, Ptr 0x20c84740, Imm 0x20, Imm 0x40, Imm 0, Imm 0], Count,
    Syscall NR_sendto [Reg 2, Write_buf, Imm 0x2b, Imm 0x40, Imm 0, Imm 0], Count,
    Syscall NR_recvfrom [Reg 2, Ptr 0x20c85a40, Imm 4, Imm 0x40, Imm 0, Imm 0], Count,
    Syscall NR_recvfrom [Reg 2, Ptr 0x20c85dc0, Imm 0x20, Imm 0x40, Imm 0, Imm 0], Count,
    Syscall NR_sendto [Reg 2, Write_buf, Imm 0x2b, Imm 0x40, Imm 0, Imm 0], Count,
    Syscall NR_recvfrom [Reg 2, Ptr 0x20c86cc0, Imm 4, Imm 0x40, Imm 0, Imm 0], Count,
    Syscall NR_recvfrom [Reg 2, Ptr 0x20c87040, Imm 0x20, Imm 0x40, Imm 0, Imm 0], Count,
    Syscall NR_sendto [Reg 2, Write_buf, Imm 0x2b, Imm 0x40, Imm 0, Imm 0], Count]"

definition min_mysql_recvfrom_sendto_20_0_body51 :: "stmt list" where
  "min_mysql_recvfrom_sendto_20_0_body51 = [
    Syscall NR_recvfrom [Reg 2, Ptr 0x20c87e80, Imm 4, Imm 0x40, Imm 0, Imm 0], Count,
    Syscall NR_recvfrom [Reg 2, Ptr 0x20c88180, Imm 0x38, Imm 0x40, Imm 0, Imm 0], Count,
    Syscall NR_sendto [Reg 2, Write_buf, Imm 0x7c, Imm 0x40, Imm 0, Imm 0], Count,
    Syscall NR_recvfrom [Reg 2, Ptr 0x20c88e00, Imm 4, Imm 0x40, Imm 0, Imm 0], Count,
    Syscall NR_recvfrom [Reg 2, Ptr 0x20c89080, Imm 0x38, Imm 0x40, Imm 0, Imm 0], Count,
    Syscall NR_sendto [Reg 2, Write_buf, Imm 0x7c, Imm 0x40, Imm 0, Imm 0], Count,
    Syscall NR_recvfrom [Reg 2, Ptr 0x20c89f80, Imm 4, Imm 0x40, Imm 0, Imm 0], Count,
    Syscall NR_recvfrom [Reg 2, Ptr 0x20c8a200, Imm 0x38, Imm 0x40, Imm 0, Imm 0], Count,
    Syscall NR_sendto [Reg 2, Write_buf, Imm 0x7c, Imm 0x40, Imm 0, Imm 0], Count,
    Syscall NR_recvfrom [Reg 2, Ptr 0x20c8a7c0, Imm 4, Imm 0x40, Imm 0, Imm 0], Count]"

definition min_mysql_recvfrom_sendto_20_0_body52 :: "stmt list" where
  "min_mysql_recvfrom_sendto_20_0_body52 = [
    Syscall NR_recvfrom [Reg 2, Ptr 0x20c8a940, Imm 0x38, Imm 0x40, Imm 0, Imm 0], Count,
    Syscall NR_sendto [Reg 2, Write_buf, Imm 0x7c, Imm 0x40, Imm 0, Imm 0], Count,
    Syscall NR_recvfrom [Reg 2, Ptr 0x20c8b100, Imm 4, Imm 0x40, Imm 0, Imm 0], Count,
    Syscall NR_recvfrom [Reg 2, Ptr 0x20c8b200, Imm 0x38, Imm 0x40, Imm 0, Imm 0], Count,
    Syscall NR_sendto [Reg 2, Write_buf, Imm 0x7c, Imm 0x40, Imm 0, Imm 0], Count,
    Syscall NR_recvfrom [Reg 2, Ptr 0x20c8b980, Imm 4, Imm 0x40, Imm 0, Imm 0], Count,
    Syscall NR_recvfrom [Reg 2, Ptr 0x20c8bac0, Imm 0x38, Imm 0x40, Imm 0, Imm 0], Count,
    Syscall NR_sendto [Reg 2, Write_buf, Imm 0x7c, Imm 0x40, Imm 0, Imm 0], Count,
    Syscall NR_recvfrom [Reg 2, Ptr 0x20c8c180, Imm 4, Imm 0x40, Imm 0, Imm 0], Count,
    Syscall NR_recvfrom [Reg 2, Ptr 0x20c8c200, Imm 0x38, Imm 0x40, Imm 0, Imm 0], Count]"

definition min_mysql_recvfrom_sendto_20_0_body53 :: "stmt list" where
  "min_mysql_recvfrom_sendto_20_0_body53 = [
    Syscall NR_sendto [Reg 2, Write_buf, Imm 0x7c, Imm 0x40, Imm 0, Imm 0], Count,
    Syscall NR_recvfrom [Reg 2, Ptr 0x20c8ca40, Imm 4, Imm 0x40, Imm 0, Imm 0], Count,
    Syscall NR_recvfrom [Reg 2, Ptr 0x20c8cb00, Imm 0x38, Imm 0x40, Imm 0, Imm 0], Count,
    Syscall NR_sendto [Reg 2, Write_buf, Imm 0x7c, Imm 0x40, Imm 0, Imm 0], Count,
    Syscall NR_recvfrom [Reg 2, Ptr 0x20c8d0c0, Imm 4, Imm 0x40, Imm 0, Imm 0], Count,
    Syscall NR_recvfrom [Reg 2, Ptr 0x20c8d1c0, Imm 0x38, Imm 0x40, Imm 0, Imm 0], Count,
    Syscall NR_sendto [Reg 2, Write_buf, Imm 0x7c, Imm 0x40, Imm 0, Imm 0], Count,
    Syscall NR_recvfrom [Reg 2, Ptr 0x20c8d6c0, Imm 4, Imm 0x40, Imm 0, Imm 0], Count,
    Syscall NR_recvfrom [Reg 2, Ptr 0x20c8d940, Imm 0x39, Imm 0x40, Imm 0, Imm 0], Count,
    Syscall NR_sendto [Reg 2, Write_buf, Imm 0x7c, Imm 0x40, Imm 0, Imm 0], Count]"

definition min_mysql_recvfrom_sendto_20_0_body54 :: "stmt list" where
  "min_mysql_recvfrom_sendto_20_0_body54 = [
    Syscall NR_recvfrom [Reg 2, Ptr 0x20c8e040, Imm 4, Imm 0x40, Imm 0, Imm 0], Count,
    Store 4 0x20c8e400 (Reg 2), Store 2 0x20c8e404 (Imm 3), Store 2 0x20c8e406 (Imm 0),
    Store 8 0x20c8e440 (Imm 0x7080), Store 8 0x20c8e448 (Imm 0), Store 8 0x20c8e480 (Imm 1),
    Syscall NR_ppoll [Ptr 0x20c8e400, Imm 1, Ptr 0x20c8e440, Ptr 0x20c8e480, Imm 8], Count,
    Syscall NR_recvfrom [Reg 2, Ptr 0x20c8e580, Imm 4, Imm 0x40, Imm 0, Imm 0], Count,
    Syscall NR_recvfrom [Reg 2, Ptr 0x20c8e700, Imm 0x39, Imm 0x40, Imm 0, Imm 0], Count,
    Syscall NR_sendto [Reg 2, Write_buf, Imm 0x7c, Imm 0x40, Imm 0, Imm 0], Count,
    Syscall NR_recvfrom [Reg 2, Ptr 0x20c8ec80, Imm 4, Imm 0x40, Imm 0, Imm 0], Count,
    Syscall NR_recvfrom [Reg 2, Ptr 0x20c8ed80, Imm 0x39, Imm 0x40, Imm 0, Imm 0], Count,
    Syscall NR_sendto [Reg 2, Write_buf, Imm 0x7c, Imm 0x40, Imm 0, Imm 0], Count,
    Syscall NR_recvfrom [Reg 2, Ptr 0x20c8f100, Imm 4, Imm 0x40, Imm 0, Imm 0], Count]"

definition min_mysql_recvfrom_sendto_20_0_body55 :: "stmt list" where
  "min_mysql_recvfrom_sendto_20_0_body55 = [
    Syscall NR_recvfrom [Reg 2, Ptr 0x20c8f200, Imm 0x39, Imm 0x40, Imm 0, Imm 0], Count,
    Syscall NR_sendto [Reg 2, Write_buf, Imm 0x7c, Imm 0x40, Imm 0, Imm 0], Count,
    Syscall NR_recvfrom [Reg 2, Ptr 0x20c8f340, Imm 4, Imm 0x40, Imm 0, Imm 0], Count,
    Store 4 0x20c8f400 (Reg 2), Store 2 0x20c8f404 (Imm 3), Store 2 0x20c8f406 (Imm 0),
    Store 8 0x20c8f440 (Imm 0x7080), Store 8 0x20c8f448 (Imm 0), Store 8 0x20c8f480 (Imm 1),
    Syscall NR_ppoll [Ptr 0x20c8f400, Imm 1, Ptr 0x20c8f440, Ptr 0x20c8f480, Imm 8], Count,
    Syscall NR_recvfrom [Reg 2, Ptr 0x20c8f500, Imm 4, Imm 0x40, Imm 0, Imm 0], Count,
    Syscall NR_recvfrom [Reg 2, Ptr 0x20c8f580, Imm 0x39, Imm 0x40, Imm 0, Imm 0], Count,
    Syscall NR_sendto [Reg 2, Write_buf, Imm 0x7c, Imm 0x40, Imm 0, Imm 0], Count,
    Syscall NR_recvfrom [Reg 2, Ptr 0x20c8f740, Imm 4, Imm 0x40, Imm 0, Imm 0], Count]"

definition min_mysql_recvfrom_sendto_20_0_body56 :: "stmt list" where
  "min_mysql_recvfrom_sendto_20_0_body56 = [
    Store 4 0x20c8f780 (Reg 2), Store 2 0x20c8f784 (Imm 3), Store 2 0x20c8f786 (Imm 0),
    Store 8 0x20c8f7c0 (Imm 0x7080), Store 8 0x20c8f7c8 (Imm 0), Store 8 0x20c8f800 (Imm 1),
    Syscall NR_ppoll [Ptr 0x20c8f780, Imm 1, Ptr 0x20c8f7c0, Ptr 0x20c8f800, Imm 8], Count,
    Syscall NR_recvfrom [Reg 2, Ptr 0x20c8f840, Imm 4, Imm 0x40, Imm 0, Imm 0], Count,
    Syscall NR_recvfrom [Reg 2, Ptr 0x20c8f880, Imm 0x39, Imm 0x40, Imm 0, Imm 0], Count,
    Syscall NR_sendto [Reg 2, Write_buf, Imm 0x7c, Imm 0x40, Imm 0, Imm 0], Count,
    Syscall NR_recvfrom [Reg 2, Ptr 0x20c8fa00, Imm 4, Imm 0x40, Imm 0, Imm 0], Count,
    Syscall NR_recvfrom [Reg 2, Ptr 0x20c8fa40, Imm 0x39, Imm 0x40, Imm 0, Imm 0], Count,
    Syscall NR_sendto [Reg 2, Write_buf, Imm 0x7c, Imm 0x40, Imm 0, Imm 0], Count,
    Syscall NR_recvfrom [Reg 2, Ptr 0x20c8fb00, Imm 4, Imm 0x40, Imm 0, Imm 0], Count,
    Syscall NR_recvfrom [Reg 2, Ptr 0x20c8fb40, Imm 0x39, Imm 0x40, Imm 0, Imm 0], Count]"

definition min_mysql_recvfrom_sendto_20_0_body57 :: "stmt list" where
  "min_mysql_recvfrom_sendto_20_0_body57 = [
    Syscall NR_sendto [Reg 2, Write_buf, Imm 0x7c, Imm 0x40, Imm 0, Imm 0], Count,
    Syscall NR_recvfrom [Reg 2, Ptr 0x20c8fc00, Imm 4, Imm 0x40, Imm 0, Imm 0], Count,
    Syscall NR_recvfrom [Reg 2, Ptr 0x20c8fc40, Imm 0x39, Imm 0x40, Imm 0, Imm 0], Count,
    Syscall NR_sendto [Reg 2, Write_buf, Imm 0x7c, Imm 0x40, Imm 0, Imm 0], Count,
    Syscall NR_recvfrom [Reg 2, Ptr 0x20c8fd00, Imm 4, Imm 0x40, Imm 0, Imm 0], Count,
    Syscall NR_recvfrom [Reg 2, Ptr 0x20c8fd40, Imm 0x39, Imm 0x40, Imm 0, Imm 0], Count,
    Syscall NR_sendto [Reg 2, Write_buf, Imm 0x7c, Imm 0x40, Imm 0, Imm 0], Count,
    Syscall NR_recvfrom [Reg 2, Ptr 0x20c8fe00, Imm 4, Imm 0x40, Imm 0, Imm 0], Count,
    Syscall NR_recvfrom [Reg 2, Ptr 0x20c8fe40, Imm 0x39, Imm 0x40, Imm 0, Imm 0], Count,
    Syscall NR_sendto [Reg 2, Write_buf, Imm 0x7c, Imm 0x40, Imm 0, Imm 0], Count]"

definition min_mysql_recvfrom_sendto_20_0_body58 :: "stmt list" where
  "min_mysql_recvfrom_sendto_20_0_body58 = [
    Syscall NR_recvfrom [Reg 2, Ptr 0x20c8ff00, Imm 4, Imm 0x40, Imm 0, Imm 0], Count,
    Store 4 0x20c8ff40 (Reg 2), Store 2 0x20c8ff44 (Imm 3), Store 2 0x20c8ff46 (Imm 0),
    Store 8 0x20c8ff80 (Imm 0x7080), Store 8 0x20c8ff88 (Imm 0), Store 8 0x20c8ffc0 (Imm 1),
    Syscall NR_ppoll [Ptr 0x20c8ff40, Imm 1, Ptr 0x20c8ff80, Ptr 0x20c8ffc0, Imm 8], Count,
    Syscall NR_recvfrom [Reg 2, Ptr 0x20c903c0, Imm 4, Imm 0x40, Imm 0, Imm 0], Count,
    Syscall NR_recvfrom [Reg 2, Ptr 0x20c91880, Imm 8, Imm 0x40, Imm 0, Imm 0], Count,
    Syscall NR_sendto [Reg 2, Write_buf, Imm 0x18, Imm 0x40, Imm 0, Imm 0], Count,
    Syscall NR_recvfrom [Reg 2, Ptr 0x20c927c0, Imm 4, Imm 0x40, Imm 0, Imm 0], Count,
    Syscall NR_recvfrom [Reg 2, Ptr 0x20c92c00, Imm 0x18, Imm 0x40, Imm 0, Imm 0], Count,
    Syscall NR_sendto [Reg 2, Write_buf, Imm 0xbe, Imm 0x40, Imm 0, Imm 0], Count,
    Syscall NR_recvfrom [Reg 2, Ptr 0x20c94540, Imm 4, Imm 0x40, Imm 0, Imm 0], Count]"

definition min_mysql_recvfrom_sendto_20_0_body59 :: "stmt list" where
  "min_mysql_recvfrom_sendto_20_0_body59 = [
    Syscall NR_recvfrom [Reg 2, Ptr 0x20c95940, Imm 0x15, Imm 0x40, Imm 0, Imm 0], Count,
    Syscall NR_sendto [Reg 2, Write_buf, Imm 0xbe, Imm 0x40, Imm 0, Imm 0], Count,
    Syscall NR_recvfrom [Reg 2, Ptr 0x20c96d40, Imm 4, Imm 0x40, Imm 0, Imm 0], Count,
    Syscall NR_recvfrom [Reg 2, Ptr 0x20c98080, Imm 0x15, Imm 0x40, Imm 0, Imm 0], Count,
    Syscall NR_sendto [Reg 2, Write_buf, Imm 0xbe, Imm 0x40, Imm 0, Imm 0], Count,
    Syscall NR_recvfrom [Reg 2, Ptr 0x20c99500, Imm 4, Imm 0x40, Imm 0, Imm 0], Count,
    Syscall NR_recvfrom [Reg 2, Ptr 0x20c9a880, Imm 0x15, Imm 0x40, Imm 0, Imm 0], Count,
    Syscall NR_sendto [Reg 2, Write_buf, Imm 0xbe, Imm 0x40, Imm 0, Imm 0], Count,
    Syscall NR_recvfrom [Reg 2, Ptr 0x20c9bd00, Imm 4, Imm 0x40, Imm 0, Imm 0], Count,
    Syscall NR_recvfrom [Reg 2, Ptr 0x20c9d080, Imm 0x15, Imm 0x40, Imm 0, Imm 0], Count]"

definition min_mysql_recvfrom_sendto_20_0_body60 :: "stmt list" where
  "min_mysql_recvfrom_sendto_20_0_body60 = [
    Syscall NR_sendto [Reg 2, Write_buf, Imm 0xbe, Imm 0x40, Imm 0, Imm 0], Count,
    Syscall NR_recvfrom [Reg 2, Ptr 0x20c9e500, Imm 4, Imm 0x40, Imm 0, Imm 0], Count,
    Syscall NR_recvfrom [Reg 2, Ptr 0x20c9f880, Imm 0x15, Imm 0x40, Imm 0, Imm 0], Count,
    Syscall NR_sendto [Reg 2, Write_buf, Imm 0xbe, Imm 0x40, Imm 0, Imm 0], Count,
    Syscall NR_recvfrom [Reg 2, Ptr 0x20ca0d00, Imm 4, Imm 0x40, Imm 0, Imm 0], Count,
    Syscall NR_recvfrom [Reg 2, Ptr 0x20ca2080, Imm 0x15, Imm 0x40, Imm 0, Imm 0], Count,
    Syscall NR_sendto [Reg 2, Write_buf, Imm 0xbe, Imm 0x40, Imm 0, Imm 0], Count,
    Syscall NR_recvfrom [Reg 2, Ptr 0x20ca3500, Imm 4, Imm 0x40, Imm 0, Imm 0], Count,
    Syscall NR_recvfrom [Reg 2, Ptr 0x20ca4880, Imm 0x15, Imm 0x40, Imm 0, Imm 0], Count,
    Syscall NR_sendto [Reg 2, Write_buf, Imm 0xbe, Imm 0x40, Imm 0, Imm 0], Count]"

definition min_mysql_recvfrom_sendto_20_0_body61 :: "stmt list" where
  "min_mysql_recvfrom_sendto_20_0_body61 = [
    Syscall NR_recvfrom [Reg 2, Ptr 0x20ca5d00, Imm 4, Imm 0x40, Imm 0, Imm 0], Count,
    Syscall NR_recvfrom [Reg 2, Ptr 0x20ca7080, Imm 0x15, Imm 0x40, Imm 0, Imm 0], Count,
    Syscall NR_sendto [Reg 2, Write_buf, Imm 0xbe, Imm 0x40, Imm 0, Imm 0], Count,
    Syscall NR_recvfrom [Reg 2, Ptr 0x20ca8500, Imm 4, Imm 0x40, Imm 0, Imm 0], Count,
    Syscall NR_recvfrom [Reg 2, Ptr 0x20ca9880, Imm 0x15, Imm 0x40, Imm 0, Imm 0], Count,
    Syscall NR_sendto [Reg 2, Write_buf, Imm 0xbe, Imm 0x40, Imm 0, Imm 0], Count,
    Syscall NR_recvfrom [Reg 2, Ptr 0x20caad00, Imm 4, Imm 0x40, Imm 0, Imm 0], Count,
    Syscall NR_recvfrom [Reg 2, Ptr 0x20cac080, Imm 0x23, Imm 0x40, Imm 0, Imm 0], Count,
    Syscall NR_sendto [Reg 2, Write_buf, Imm 0x317a, Imm 0x40, Imm 0, Imm 0], Count,
    Syscall NR_recvfrom [Reg 2, Ptr 0x20ccea00, Imm 4, Imm 0x40, Imm 0, Imm 0], Count]"

definition min_mysql_recvfrom_sendto_20_0_body62 :: "stmt list" where
  "min_mysql_recvfrom_sendto_20_0_body62 = [
    Syscall NR_recvfrom [Reg 2, Ptr 0x20d08ec0, Imm 0x23, Imm 0x40, Imm 0, Imm 0], Count,
    Syscall NR_sendto [Reg 2, Write_buf, Imm 0x3c, Imm 0x40, Imm 0, Imm 0], Count,
    Syscall NR_recvfrom [Reg 2, Ptr 0x20d0d000, Imm 4, Imm 0x40, Imm 0, Imm 0], Count,
    Syscall NR_recvfrom [Reg 2, Ptr 0x20d0d700, Imm 0x23, Imm 0x40, Imm 0, Imm 0], Count,
    Syscall NR_sendto [Reg 2, Write_buf, Imm 0x3178, Imm 0x40, Imm 0, Imm 0], Count,
    Syscall NR_recvfrom [Reg 2, Ptr 0x20076f40, Imm 4, Imm 0x40, Imm 0, Imm 0], Count,
    Syscall NR_recvfrom [Reg 2, Ptr 0x200992c0, Imm 0x23, Imm 0x40, Imm 0, Imm 0], Count,
    Syscall NR_sendto [Reg 2, Write_buf, Imm 0x317a, Imm 0x40, Imm 0, Imm 0], Count,
    Syscall NR_recvfrom [Reg 2, Ptr 0x20376240, Imm 4, Imm 0x40, Imm 0, Imm 0], Count,
    Syscall NR_recvfrom [Reg 2, Ptr 0x20398680, Imm 0x18, Imm 0x40, Imm 0, Imm 0], Count]"

definition min_mysql_recvfrom_sendto_20_0_body63 :: "stmt list" where
  "min_mysql_recvfrom_sendto_20_0_body63 = [
    Syscall NR_sendto [Reg 2, Write_buf, Imm 0x34, Imm 0x40, Imm 0, Imm 0], Count,
    Syscall NR_recvfrom [Reg 2, Ptr 0x203a8d80, Imm 4, Imm 0x40, Imm 0, Imm 0], Count,
    Syscall NR_recvfrom [Reg 2, Ptr 0x203aca80, Imm 0x93, Imm 0x40, Imm 0, Imm 0], Count,
    Syscall NR_sendto [Reg 2, Write_buf, Imm 0x34, Imm 0x40, Imm 0, Imm 0], Count,
    Syscall NR_recvfrom [Reg 2, Ptr 0x203b00c0, Imm 4, Imm 0x40, Imm 0, Imm 0], Count,
    Syscall NR_recvfrom [Reg 2, Ptr 0x203b0740, Imm 0x18, Imm 0x40, Imm 0, Imm 0], Count,
    Syscall NR_sendto [Reg 2, Write_buf, Imm 0xb, Imm 0x40, Imm 0, Imm 0], Count,
    Syscall NR_recvfrom [Reg 2, Ptr 0x203b2840, Imm 4, Imm 0x40, Imm 0, Imm 0], Count,
    Syscall NR_recvfrom [Reg 2, Ptr 0x203b3100, Imm 0xdd, Imm 0x40, Imm 0, Imm 0], Count,
    Syscall NR_sendto [Reg 2, Write_buf, Imm 0xd, Imm 0x40, Imm 0, Imm 0], Count]"

definition min_mysql_recvfrom_sendto_20_0_body64 :: "stmt list" where
  "min_mysql_recvfrom_sendto_20_0_body64 = [
    Syscall NR_recvfrom [Reg 2, Ptr 0x203b6b80, Imm 4, Imm 0x40, Imm 0, Imm 0], Count,
    Syscall NR_recvfrom [Reg 2, Ptr 0x203b7180, Imm 0xb, Imm 0x40, Imm 0, Imm 0], Count,
    Syscall NR_sendto [Reg 2, Write_buf, Imm 0x18, Imm 0x40, Imm 0, Imm 0], Count,
    Syscall NR_recvfrom [Reg 2, Ptr 0x203c04c0, Imm 4, Imm 0x40, Imm 0, Imm 0], Count,
    Syscall NR_recvfrom [Reg 2, Ptr 0x203c0740, Imm 8, Imm 0x40, Imm 0, Imm 0], Count,
    Syscall NR_sendto [Reg 2, Write_buf, Imm 0x18, Imm 0x40, Imm 0, Imm 0], Count,
    Syscall NR_recvfrom [Reg 2, Ptr 0x203c10c0, Imm 4, Imm 0x40, Imm 0, Imm 0], Count,
    Syscall NR_recvfrom [Reg 2, Ptr 0x203c1540, Imm 0x18, Imm 0x40, Imm 0, Imm 0], Count,
    Syscall NR_sendto [Reg 2, Write_buf, Imm 0xc0, Imm 0x40, Imm 0, Imm 0], Count,
    Syscall NR_recvfrom [Reg 2, Ptr 0x203c23c0, Imm 4, Imm 0x40, Imm 0, Imm 0], Count]"

definition min_mysql_recvfrom_sendto_20_0_body65 :: "stmt list" where
  "min_mysql_recvfrom_sendto_20_0_body65 = [
    Syscall NR_recvfrom [Reg 2, Ptr 0x203c2b00, Imm 0x15, Imm 0x40, Imm 0, Imm 0], Count,
    Syscall NR_sendto [Reg 2, Write_buf, Imm 0xc0, Imm 0x40, Imm 0, Imm 0], Count,
    Syscall NR_recvfrom [Reg 2, Ptr 0x203c3f00, Imm 4, Imm 0x40, Imm 0, Imm 0], Count,
    Syscall NR_recvfrom [Reg 2, Ptr 0x203c4740, Imm 0x15, Imm 0x40, Imm 0, Imm 0], Count,
    Syscall NR_sendto [Reg 2, Write_buf, Imm 0xc0, Imm 0x40, Imm 0, Imm 0], Count,
    Syscall NR_recvfrom [Reg 2, Ptr 0x203c6040, Imm 4, Imm 0x40, Imm 0, Imm 0], Count,
    Syscall NR_recvfrom [Reg 2, Ptr 0x203c6bc0, Imm 0x15, Imm 0x40, Imm 0, Imm 0], Count,
    Syscall NR_sendto [Reg 2, Write_buf, Imm 0xc0, Imm 0x40, Imm 0, Imm 0], Count,
    Syscall NR_recvfrom [Reg 2, Ptr 0x203c85c0, Imm 4, Imm 0x40, Imm 0, Imm 0], Count,
    Syscall NR_recvfrom [Reg 2, Ptr 0x203c9240, Imm 0x15, Imm 0x40, Imm 0, Imm 0], Count]"

definition min_mysql_recvfrom_sendto_20_0_body66 :: "stmt list" where
  "min_mysql_recvfrom_sendto_20_0_body66 = [
    Syscall NR_sendto [Reg 2, Write_buf, Imm 0xc0, Imm 0x40, Imm 0, Imm 0], Count,
    Syscall NR_recvfrom [Reg 2, Ptr 0x203cad80, Imm 4, Imm 0x40, Imm 0, Imm 0], Count,
    Syscall NR_recvfrom [Reg 2, Ptr 0x203cba00, Imm 0x15, Imm 0x40, Imm 0, Imm 0], Count,
    Syscall NR_sendto [Reg 2, Write_buf, Imm 0xc0, Imm 0x40, Imm 0, Imm 0], Count,
    Syscall NR_recvfrom [Reg 2, Ptr 0x203cd580, Imm 4, Imm 0x40, Imm 0, Imm 0], Count,
    Syscall NR_recvfrom [Reg 2, Ptr 0x203ce200, Imm 0x15, Imm 0x40, Imm 0, Imm 0], Count,
    Syscall NR_sendto [Reg 2, Write_buf, Imm 0xc0, Imm 0x40, Imm 0, Imm 0], Count,
    Syscall NR_recvfrom [Reg 2, Ptr 0x203cfd80, Imm 4, Imm 0x40, Imm 0, Imm 0], Count,
    Syscall NR_recvfrom [Reg 2, Ptr 0x203d0a00, Imm 0x15, Imm 0x40, Imm 0, Imm 0], Count,
    Syscall NR_sendto [Reg 2, Write_buf, Imm 0xc0, Imm 0x40, Imm 0, Imm 0], Count]"

definition min_mysql_recvfrom_sendto_20_0_body67 :: "stmt list" where
  "min_mysql_recvfrom_sendto_20_0_body67 = [
    Syscall NR_recvfrom [Reg 2, Ptr 0x203d2580, Imm 4, Imm 0x40, Imm 0, Imm 0], Count,
    Syscall NR_recvfrom [Reg 2, Ptr 0x203d3200, Imm 0x15, Imm 0x40, Imm 0, Imm 0], Count,
    Syscall NR_sendto [Reg 2, Write_buf, Imm 0xc0, Imm 0x40, Imm 0, Imm 0], Count,
    Syscall NR_recvfrom [Reg 2, Ptr 0x203dae00, Imm 4, Imm 0x40, Imm 0, Imm 0], Count,
    Syscall NR_recvfrom [Reg 2, Ptr 0x203e1d00, Imm 0x15, Imm 0x40, Imm 0, Imm 0], Count,
    Syscall NR_sendto [Reg 2, Write_buf, Imm 0xc0, Imm 0x40, Imm 0, Imm 0], Count,
    Syscall NR_recvfrom [Reg 2, Ptr 0x203ec900, Imm 4, Imm 0x40, Imm 0, Imm 0], Count,
    Syscall NR_recvfrom [Reg 2, Ptr 0x203ed500, Imm 0x23, Imm 0x40, Imm 0, Imm 0], Count,
    Syscall NR_sendto [Reg 2, Write_buf, Imm 0x3178, Imm 0x40, Imm 0, Imm 0], Count,
    Syscall NR_recvfrom [Reg 2, Ptr 0x203fb480, Imm 4, Imm 0x40, Imm 0, Imm 0], Count]"

definition min_mysql_recvfrom_sendto_20_0_body68 :: "stmt list" where
  "min_mysql_recvfrom_sendto_20_0_body68 = [
    Syscall NR_recvfrom [Reg 2, Ptr 0x203fc100, Imm 0x23, Imm 0x40, Imm 0, Imm 0], Count,
    Syscall NR_sendto [Reg 2, Write_buf, Imm 0x3c, Imm 0x40, Imm 0, Imm 0], Count,
    Syscall NR_recvfrom [Reg 2, Ptr 0x2040ca00, Imm 4, Imm 0x40, Imm 0, Imm 0], Count,
    Syscall NR_recvfrom [Reg 2, Ptr 0x20410680, Imm 0x23, Imm 0x40, Imm 0, Imm 0], Count,
    Syscall NR_sendto [Reg 2, Write_buf, Imm 0x317a, Imm 0x40, Imm 0, Imm 0], Count,
    Syscall NR_recvfrom [Reg 2, Ptr 0x20716040, Imm 4, Imm 0x40, Imm 0, Imm 0], Count,
    Syscall NR_recvfrom [Reg 2, Ptr 0x2072ec40, Imm 0x23, Imm 0x40, Imm 0, Imm 0], Count,
    Syscall NR_sendto [Reg 2, Write_buf, Imm 0x317a, Imm 0x40, Imm 0, Imm 0], Count,
    Syscall NR_recvfrom [Reg 2, Ptr 0x20a53f40, Imm 4, Imm 0x40, Imm 0, Imm 0], Count,
    Syscall NR_recvfrom [Reg 2, Ptr 0x20a717c0, Imm 0x18, Imm 0x40, Imm 0, Imm 0], Count]"

definition min_mysql_recvfrom_sendto_20_0_body69 :: "stmt list" where
  "min_mysql_recvfrom_sendto_20_0_body69 = [
    Syscall NR_sendto [Reg 2, Write_buf, Imm 0x34, Imm 0x40, Imm 0, Imm 0], Count,
    Syscall NR_recvfrom [Reg 2, Ptr 0x20a8ad80, Imm 4, Imm 0x40, Imm 0, Imm 0], Count,
    Syscall NR_recvfrom [Reg 2, Ptr 0x20a9db80, Imm 0x93, Imm 0x40, Imm 0, Imm 0], Count,
    Syscall NR_sendto [Reg 2, Write_buf, Imm 0x34, Imm 0x40, Imm 0, Imm 0], Count,
    Syscall NR_recvfrom [Reg 2, Ptr 0x20ab1bc0, Imm 4, Imm 0x40, Imm 0, Imm 0], Count,
    Syscall NR_recvfrom [Reg 2, Ptr 0x20ac4980, Imm 0x18, Imm 0x40, Imm 0, Imm 0], Count,
    Syscall NR_sendto [Reg 2, Write_buf, Imm 0xb, Imm 0x40, Imm 0, Imm 0], Count,
    Syscall NR_recvfrom [Reg 2, Ptr 0x20ae28c0, Imm 4, Imm 0x40, Imm 0, Imm 0], Count,
    Syscall NR_recvfrom [Reg 2, Ptr 0x20ae6040, Imm 0xdd, Imm 0x40, Imm 0, Imm 0], Count,
    Syscall NR_sendto [Reg 2, Write_buf, Imm 0xd, Imm 0x40, Imm 0, Imm 0], Count]"

definition min_mysql_recvfrom_sendto_20_0_body70 :: "stmt list" where
  "min_mysql_recvfrom_sendto_20_0_body70 = [
    Syscall NR_recvfrom [Reg 2, Ptr 0x20af53c0, Imm 4, Imm 0x40, Imm 0, Imm 0], Count,
    Syscall NR_recvfrom [Reg 2, Ptr 0x20af5a40, Imm 0xb, Imm 0x40, Imm 0, Imm 0], Count,
    Syscall NR_sendto [Reg 2, Write_buf, Imm 0x18, Imm 0x40, Imm 0, Imm 0], Count,
    Syscall NR_recvfrom [Reg 2, Ptr 0x20b7dd00, Imm 4, Imm 0x40, Imm 0, Imm 0], Count,
    Syscall NR_recvfrom [Reg 2, Ptr 0x20b7e2c0, Imm 8, Imm 0x40, Imm 0, Imm 0], Count,
    Syscall NR_sendto [Reg 2, Write_buf, Imm 0x18, Imm 0x40, Imm 0, Imm 0], Count,
    Syscall NR_recvfrom [Reg 2, Ptr 0x20b7ec40, Imm 4, Imm 0x40, Imm 0, Imm 0], Count,
    Syscall NR_recvfrom [Reg 2, Ptr 0x20b7f200, Imm 0x18, Imm 0x40, Imm 0, Imm 0], Count,
    Syscall NR_sendto [Reg 2, Write_buf, Imm 0xc0, Imm 0x40, Imm 0, Imm 0], Count,
    Syscall NR_recvfrom [Reg 2, Ptr 0x20b7fe80, Imm 4, Imm 0x40, Imm 0, Imm 0], Count]"

definition min_mysql_recvfrom_sendto_20_0_body71 :: "stmt list" where
  "min_mysql_recvfrom_sendto_20_0_body71 = [
    Syscall NR_recvfrom [Reg 2, Ptr 0x20b806c0, Imm 0x15, Imm 0x40, Imm 0, Imm 0], Count,
    Syscall NR_sendto [Reg 2, Write_buf, Imm 0xc0, Imm 0x40, Imm 0, Imm 0], Count,
    Syscall NR_recvfrom [Reg 2, Ptr 0x20b81480, Imm 4, Imm 0x40, Imm 0, Imm 0], Count,
    Syscall NR_recvfrom [Reg 2, Ptr 0x20b81d80, Imm 0x15, Imm 0x40, Imm 0, Imm 0], Count,
    Syscall NR_sendto [Reg 2, Write_buf, Imm 0xc0, Imm 0x40, Imm 0, Imm 0], Count,
    Syscall NR_recvfrom [Reg 2, Ptr 0x20b83400, Imm 4, Imm 0x40, Imm 0, Imm 0], Count,
    Syscall NR_recvfrom [Reg 2, Ptr 0x20b83e80, Imm 0x15, Imm 0x40, Imm 0, Imm 0], Count,
    Syscall NR_sendto [Reg 2, Write_buf, Imm 0xc0, Imm 0x40, Imm 0, Imm 0], Count,
    Syscall NR_recvfrom [Reg 2, Ptr 0x20b85000, Imm 4, Imm 0x40, Imm 0, Imm 0], Count,
    Syscall NR_recvfrom [Reg 2, Ptr 0x20b85b80, Imm 0x15, Imm 0x40, Imm 0, Imm 0], Count]"

definition min_mysql_recvfrom_sendto_20_0_body72 :: "stmt list" where
  "min_mysql_recvfrom_sendto_20_0_body72 = [
    Syscall NR_sendto [Reg 2, Write_buf, Imm 0xc0, Imm 0x40, Imm 0, Imm 0], Count,
    Syscall NR_recvfrom [Reg 2, Ptr 0x20b86d80, Imm 4, Imm 0x40, Imm 0, Imm 0], Count,
    Syscall NR_recvfrom [Reg 2, Ptr 0x20b87a80, Imm 0x15, Imm 0x40, Imm 0, Imm 0], Count,
    Syscall NR_sendto [Reg 2, Write_buf, Imm 0xc0, Imm 0x40, Imm 0, Imm 0], Count,
    Syscall NR_recvfrom [Reg 2, Ptr 0x20b88fc0, Imm 4, Imm 0x40, Imm 0, Imm 0], Count,
    Syscall NR_recvfrom [Reg 2, Ptr 0x20b89dc0, Imm 0x15, Imm 0x40, Imm 0, Imm 0], Count,
    Syscall NR_sendto [Reg 2, Write_buf, Imm 0xc0, Imm 0x40, Imm 0, Imm 0], Count,
    Syscall NR_recvfrom [Reg 2, Ptr 0x20b94600, Imm 4, Imm 0x40, Imm 0, Imm 0], Count,
    Syscall NR_recvfrom [Reg 2, Ptr 0x20b95480, Imm 0x15, Imm 0x40, Imm 0, Imm 0], Count,
    Syscall NR_sendto [Reg 2, Write_buf, Imm 0xc0, Imm 0x40, Imm 0, Imm 0], Count]"

definition min_mysql_recvfrom_sendto_20_0_body73 :: "stmt list" where
  "min_mysql_recvfrom_sendto_20_0_body73 = [
    Syscall NR_recvfrom [Reg 2, Ptr 0x20b99a80, Imm 4, Imm 0x40, Imm 0, Imm 0], Count,
    Syscall NR_recvfrom [Reg 2, Ptr 0x20ba0a80, Imm 0x15, Imm 0x40, Imm 0, Imm 0], Count,
    Syscall NR_sendto [Reg 2, Write_buf, Imm 0xc0, Imm 0x40, Imm 0, Imm 0], Count,
    Syscall NR_recvfrom [Reg 2, Ptr 0x20ba4fc0, Imm 4, Imm 0x40, Imm 0, Imm 0], Count,
    Syscall NR_recvfrom [Reg 2, Ptr 0x20babec0, Imm 0x15, Imm 0x40, Imm 0, Imm 0], Count,
    Syscall NR_sendto [Reg 2, Write_buf, Imm 0xc0, Imm 0x40, Imm 0, Imm 0], Count,
    Syscall NR_recvfrom [Reg 2, Ptr 0x20bad4c0, Imm 4, Imm 0x40, Imm 0, Imm 0], Count,
    Syscall NR_recvfrom [Reg 2, Ptr 0x20bb1240, Imm 0x23, Imm 0x40, Imm 0, Imm 0], Count,
    Syscall NR_sendto [Reg 2, Write_buf, Imm 0x317a, Imm 0x40, Imm 0, Imm 0], Count,
    Syscall NR_recvfrom [Reg 2, Ptr 0x20be0080, Imm 4, Imm 0x40, Imm 0, Imm 0], Count]"

definition min_mysql_recvfrom_sendto_20_0_body74 :: "stmt list" where
  "min_mysql_recvfrom_sendto_20_0_body74 = [
    Syscall NR_recvfrom [Reg 2, Ptr 0x20bf6ac0, Imm 0x23, Imm 0x40, Imm 0, Imm 0], Count,
    Syscall NR_sendto [Reg 2, Write_buf, Imm 0x3c, Imm 0x40, Imm 0, Imm 0], Count,
    Syscall NR_recvfrom [Reg 2, Ptr 0x20c305c0, Imm 4, Imm 0x40, Imm 0, Imm 0], Count,
    Syscall NR_recvfrom [Reg 2, Ptr 0x20c3b540, Imm 0x23, Imm 0x40, Imm 0, Imm 0], Count,
    Syscall NR_sendto [Reg 2, Write_buf, Imm 0x3178, Imm 0x40, Imm 0, Imm 0], Count,
    Syscall NR_recvfrom [Reg 2, Ptr 0x20e80600, Imm 4, Imm 0x40, Imm 0, Imm 0], Count,
    Syscall NR_recvfrom [Reg 2, Ptr 0x20ea27c0, Imm 0x23, Imm 0x40, Imm 0, Imm 0], Count,
    Syscall NR_sendto [Reg 2, Write_buf, Imm 0x3178, Imm 0x40, Imm 0, Imm 0], Count,
    Syscall NR_recvfrom [Reg 2, Ptr 0x2012a400, Imm 4, Imm 0x40, Imm 0, Imm 0], Count,
    Syscall NR_recvfrom [Reg 2, Ptr 0x2013a380, Imm 0x18, Imm 0x40, Imm 0, Imm 0], Count]"

definition min_mysql_recvfrom_sendto_20_0_body75 :: "stmt list" where
  "min_mysql_recvfrom_sendto_20_0_body75 = [
    Syscall NR_sendto [Reg 2, Write_buf, Imm 0x34, Imm 0x40, Imm 0, Imm 0], Count,
    Syscall NR_recvfrom [Reg 2, Ptr 0x20166bc0, Imm 4, Imm 0x40, Imm 0, Imm 0], Count,
    Syscall NR_recvfrom [Reg 2, Ptr 0x2017bbc0, Imm 0x93, Imm 0x40, Imm 0, Imm 0], Count,
    Syscall NR_sendto [Reg 2, Write_buf, Imm 0x34, Imm 0x40, Imm 0, Imm 0], Count,
    Syscall NR_recvfrom [Reg 2, Ptr 0x20197380, Imm 4, Imm 0x40, Imm 0, Imm 0], Count,
    Syscall NR_recvfrom [Reg 2, Ptr 0x201a2300, Imm 0x18, Imm 0x40, Imm 0, Imm 0], Count,
    Syscall NR_sendto [Reg 2, Write_buf, Imm 0xb, Imm 0x40, Imm 0, Imm 0], Count,
    Syscall NR_recvfrom [Reg 2, Ptr 0x201c2900, Imm 4, Imm 0x40, Imm 0, Imm 0], Count,
    Syscall NR_recvfrom [Reg 2, Ptr 0x201d6440, Imm 0xdd, Imm 0x40, Imm 0, Imm 0], Count,
    Syscall NR_sendto [Reg 2, Write_buf, Imm 0xb, Imm 0x40, Imm 0, Imm 0], Count]"

definition min_mysql_recvfrom_sendto_20_0_body76 :: "stmt list" where
  "min_mysql_recvfrom_sendto_20_0_body76 = [
    Syscall NR_recvfrom [Reg 2, Ptr 0x201ead40, Imm 4, Imm 0x40, Imm 0, Imm 0], Count,
    Syscall NR_recvfrom [Reg 2, Ptr 0x201ee940, Imm 0xb, Imm 0x40, Imm 0, Imm 0], Count,
    Syscall NR_sendto [Reg 2, Write_buf, Imm 0x18, Imm 0x40, Imm 0, Imm 0], Count,
    Syscall NR_recvfrom [Reg 2, Ptr 0x2023e680, Imm 4, Imm 0x40, Imm 0, Imm 0], Count,
    Syscall NR_recvfrom [Reg 2, Ptr 0x2023f240, Imm 8, Imm 0x40, Imm 0, Imm 0], Count,
    Syscall NR_sendto [Reg 2, Write_buf, Imm 0x18, Imm 0x40, Imm 0, Imm 0], Count,
    Syscall NR_recvfrom [Reg 2, Ptr 0x202407c0, Imm 4, Imm 0x40, Imm 0, Imm 0], Count,
    Syscall NR_recvfrom [Reg 2, Ptr 0x202414c0, Imm 0x18, Imm 0x40, Imm 0, Imm 0], Count,
    Syscall NR_sendto [Reg 2, Write_buf, Imm 0xc0, Imm 0x40, Imm 0, Imm 0], Count,
    Syscall NR_recvfrom [Reg 2, Ptr 0x20242e40, Imm 4, Imm 0x40, Imm 0, Imm 0], Count]"

definition min_mysql_recvfrom_sendto_20_0_body77 :: "stmt list" where
  "min_mysql_recvfrom_sendto_20_0_body77 = [
    Syscall NR_recvfrom [Reg 2, Ptr 0x20243b40, Imm 0x15, Imm 0x40, Imm 0, Imm 0], Count,
    Syscall NR_sendto [Reg 2, Write_buf, Imm 0xc0, Imm 0x40, Imm 0, Imm 0], Count,
    Syscall NR_recvfrom [Reg 2, Ptr 0x20245640, Imm 4, Imm 0x40, Imm 0, Imm 0], Count,
    Syscall NR_recvfrom [Reg 2, Ptr 0x20246340, Imm 0x15, Imm 0x40, Imm 0, Imm 0], Count,
    Syscall NR_sendto [Reg 2, Write_buf, Imm 0xc0, Imm 0x40, Imm 0, Imm 0], Count,
    Syscall NR_recvfrom [Reg 2, Ptr 0x20247e40, Imm 4, Imm 0x40, Imm 0, Imm 0], Count,
    Syscall NR_recvfrom [Reg 2, Ptr 0x20248b40, Imm 0x15, Imm 0x40, Imm 0, Imm 0], Count,
    Syscall NR_sendto [Reg 2, Write_buf, Imm 0xc0, Imm 0x40, Imm 0, Imm 0], Count,
    Syscall NR_recvfrom [Reg 2, Ptr 0x2024a640, Imm 4, Imm 0x40, Imm 0, Imm 0], Count,
    Syscall NR_recvfrom [Reg 2, Ptr 0x2024b340, Imm 0x15, Imm 0x40, Imm 0, Imm 0], Count]"

definition min_mysql_recvfrom_sendto_20_0_body78 :: "stmt list" where
  "min_mysql_recvfrom_sendto_20_0_body78 = [
    Syscall NR_sendto [Reg 2, Write_buf, Imm 0xc0, Imm 0x40, Imm 0, Imm 0], Count,
    Syscall NR_recvfrom [Reg 2, Ptr 0x2024ce40, Imm 4, Imm 0x40, Imm 0, Imm 0], Count,
    Syscall NR_recvfrom [Reg 2, Ptr 0x2024db40, Imm 0x15, Imm 0x40, Imm 0, Imm 0], Count,
    Syscall NR_sendto [Reg 2, Write_buf, Imm 0xc0, Imm 0x40, Imm 0, Imm 0], Count,
    Syscall NR_recvfrom [Reg 2, Ptr 0x20252700, Imm 4, Imm 0x40, Imm 0, Imm 0], Count,
    Syscall NR_recvfrom [Reg 2, Ptr 0x202564c0, Imm 0x15, Imm 0x40, Imm 0, Imm 0], Count,
    Syscall NR_sendto [Reg 2, Write_buf, Imm 0xc0, Imm 0x40, Imm 0, Imm 0], Count,
    Syscall NR_recvfrom [Reg 2, Ptr 0x2025e0c0, Imm 4, Imm 0x40, Imm 0, Imm 0], Count,
    Syscall NR_recvfrom [Reg 2, Ptr 0x20261e00, Imm 0x15, Imm 0x40, Imm 0, Imm 0], Count,
    Syscall NR_sendto [Reg 2, Write_buf, Imm 0xc0, Imm 0x40, Imm 0, Imm 0], Count]"

definition min_mysql_recvfrom_sendto_20_0_body79 :: "stmt list" where
  "min_mysql_recvfrom_sendto_20_0_body79 = [
    Syscall NR_recvfrom [Reg 2, Ptr 0x202698c0, Imm 4, Imm 0x40, Imm 0, Imm 0], Count,
    Syscall NR_recvfrom [Reg 2, Ptr 0x20270640, Imm 0x15, Imm 0x40, Imm 0, Imm 0], Count,
    Syscall NR_sendto [Reg 2, Write_buf, Imm 0xc0, Imm 0x40, Imm 0, Imm 0], Count,
    Syscall NR_recvfrom [Reg 2, Ptr 0x20278900, Imm 4, Imm 0x40, Imm 0, Imm 0], Count,
    Syscall NR_recvfrom [Reg 2, Ptr 0x20288800, Imm 0x15, Imm 0x40, Imm 0, Imm 0], Count,
    Syscall NR_sendto [Reg 2, Write_buf, Imm 0xc0, Imm 0x40, Imm 0, Imm 0], Count,
    Syscall NR_recvfrom [Reg 2, Ptr 0x202b6a00, Imm 4, Imm 0x40, Imm 0, Imm 0], Count,
    Syscall NR_recvfrom [Reg 2, Ptr 0x202c9b40, Imm 0x23, Imm 0x40, Imm 0, Imm 0], Count,
    Syscall NR_sendto [Reg 2, Write_buf, Imm 0x317a, Imm 0x40, Imm 0, Imm 0], Count,
    Syscall NR_recvfrom [Reg 2, Ptr 0x20305a40, Imm 4, Imm 0x40, Imm 0, Imm 0], Count]"

definition min_mysql_recvfrom_sendto_20_0_body80 :: "stmt list" where
  "min_mysql_recvfrom_sendto_20_0_body80 = [
    Syscall NR_recvfrom [Reg 2, Ptr 0x20325740, Imm 0x23, Imm 0x40, Imm 0, Imm 0], Count,
    Syscall NR_sendto [Reg 2, Write_buf, Imm 0x3c, Imm 0x40, Imm 0, Imm 0], Count,
    Syscall NR_recvfrom [Reg 2, Ptr 0x20360180, Imm 4, Imm 0x40, Imm 0, Imm 0], Count,
    Syscall NR_recvfrom [Reg 2, Ptr 0x2037ed80, Imm 0x23, Imm 0x40, Imm 0, Imm 0], Count,
    Syscall NR_sendto [Reg 2, Write_buf, Imm 0x12f6, Imm 0x40, Imm 0, Imm 0], Count,
    Syscall NR_recvfrom [Reg 2, Ptr 0x203ede00, Imm 4, Imm 0x40, Imm 0, Imm 0], Count,
    Syscall NR_recvfrom [Reg 2, Ptr 0x2041b1c0, Imm 0x23, Imm 0x40, Imm 0, Imm 0], Count,
    Syscall NR_sendto [Reg 2, Write_buf, Imm 0x317a, Imm 0x40, Imm 0, Imm 0], Count,
    Syscall NR_recvfrom [Reg 2, Ptr 0x20738340, Imm 4, Imm 0x40, Imm 0, Imm 0], Count,
    Syscall NR_recvfrom [Reg 2, Ptr 0x207790c0, Imm 0x18, Imm 0x40, Imm 0, Imm 0], Count]"

definition min_mysql_recvfrom_sendto_20_0_body81 :: "stmt list" where
  "min_mysql_recvfrom_sendto_20_0_body81 = [
    Syscall NR_sendto [Reg 2, Write_buf, Imm 0x34, Imm 0x40, Imm 0, Imm 0], Count,
    Syscall NR_recvfrom [Reg 2, Ptr 0x207ca980, Imm 4, Imm 0x40, Imm 0, Imm 0], Count,
    Syscall NR_recvfrom [Reg 2, Ptr 0x207eb480, Imm 0x93, Imm 0x40, Imm 0, Imm 0], Count,
    Syscall NR_sendto [Reg 2, Write_buf, Imm 0x34, Imm 0x40, Imm 0, Imm 0], Count,
    Syscall NR_recvfrom [Reg 2, Ptr 0x2082ddc0, Imm 4, Imm 0x40, Imm 0, Imm 0], Count,
    Syscall NR_recvfrom [Reg 2, Ptr 0x20848500, Imm 0x15, Imm 0x40, Imm 0, Imm 0], Count,
    Syscall NR_sendto [Reg 2, Write_buf, Imm 0xb, Imm 0x40, Imm 0, Imm 0], Count,
    Syscall NR_recvfrom [Reg 2, Ptr 0x20875d80, Imm 4, Imm 0x40, Imm 0, Imm 0], Count,
    Syscall NR_recvfrom [Reg 2, Ptr 0x2088b880, Imm 0xd1, Imm 0x40, Imm 0, Imm 0], Count,
    Syscall NR_sendto [Reg 2, Write_buf, Imm 0xd, Imm 0x40, Imm 0, Imm 0], Count]"

definition min_mysql_recvfrom_sendto_20_0_body82 :: "stmt list" where
  "min_mysql_recvfrom_sendto_20_0_body82 = [
    Syscall NR_recvfrom [Reg 2, Ptr 0x208b1300, Imm 4, Imm 0x40, Imm 0, Imm 0], Count,
    Syscall NR_recvfrom [Reg 2, Ptr 0x208c49c0, Imm 0xb, Imm 0x40, Imm 0, Imm 0], Count,
    Syscall NR_sendto [Reg 2, Write_buf, Imm 0x18, Imm 0x40, Imm 0, Imm 0], Count,
    Syscall NR_recvfrom [Reg 2, Ptr 0x209142c0, Imm 4, Imm 0x40, Imm 0, Imm 0], Count,
    Syscall NR_recvfrom [Reg 2, Ptr 0x20914400, Imm 8, Imm 0x40, Imm 0, Imm 0], Count,
    Syscall NR_sendto [Reg 2, Write_buf, Imm 0x18, Imm 0x40, Imm 0, Imm 0], Count,
    Syscall NR_recvfrom [Reg 2, Ptr 0x20914900, Imm 4, Imm 0x40, Imm 0, Imm 0], Count,
    Syscall NR_recvfrom [Reg 2, Ptr 0x20914b80, Imm 0x18, Imm 0x40, Imm 0, Imm 0], Count,
    Syscall NR_sendto [Reg 2, Write_buf, Imm 0xc0, Imm 0x40, Imm 0, Imm 0], Count,
    Syscall NR_recvfrom [Reg 2, Ptr 0x20915280, Imm 4, Imm 0x40, Imm 0, Imm 0], Count]"

definition min_mysql_recvfrom_sendto_20_0_body83 :: "stmt list" where
  "min_mysql_recvfrom_sendto_20_0_body83 = [
    Syscall NR_recvfrom [Reg 2, Ptr 0x209155c0, Imm 0x15, Imm 0x40, Imm 0, Imm 0], Count,
    Syscall NR_sendto [Reg 2, Write_buf, Imm 0xc0, Imm 0x40, Imm 0, Imm 0], Count,
    Syscall NR_recvfrom [Reg 2, Ptr 0x20916040, Imm 4, Imm 0x40, Imm 0, Imm 0], Count,
    Syscall NR_recvfrom [Reg 2, Ptr 0x20916500, Imm 0x15, Imm 0x40, Imm 0, Imm 0], Count,
    Syscall NR_sendto [Reg 2, Write_buf, Imm 0xc0, Imm 0x40, Imm 0, Imm 0], Count,
    Syscall NR_recvfrom [Reg 2, Ptr 0x20916f40, Imm 4, Imm 0x40, Imm 0, Imm 0], Count,
    Syscall NR_recvfrom [Reg 2, Ptr 0x209174c0, Imm 0x15, Imm 0x40, Imm 0, Imm 0], Count,
    Syscall NR_sendto [Reg 2, Write_buf, Imm 0xc0, Imm 0x40, Imm 0, Imm 0], Count,
    Syscall NR_recvfrom [Reg 2, Ptr 0x20918140, Imm 4, Imm 0x40, Imm 0, Imm 0], Count,
    Syscall NR_recvfrom [Reg 2, Ptr 0x20918740, Imm 0x15, Imm 0x40, Imm 0, Imm 0], Count]"

definition min_mysql_recvfrom_sendto_20_0_body84 :: "stmt list" where
  "min_mysql_recvfrom_sendto_20_0_body84 = [
    Syscall NR_sendto [Reg 2, Write_buf, Imm 0xc0, Imm 0x40, Imm 0, Imm 0], Count,
    Syscall NR_recvfrom [Reg 2, Ptr 0x209193c0, Imm 4, Imm 0x40, Imm 0, Imm 0], Count,
    Syscall NR_recvfrom [Reg 2, Ptr 0x20919a00, Imm 0x15, Imm 0x40, Imm 0, Imm 0], Count,
    Syscall NR_sendto [Reg 2, Write_buf, Imm 0xc0, Imm 0x40, Imm 0, Imm 0], Count,
    Syscall NR_recvfrom [Reg 2, Ptr 0x2091a980, Imm 4, Imm 0x40, Imm 0, Imm 0], Count,
    Syscall NR_recvfrom [Reg 2, Ptr 0x2091b180, Imm 0x15, Imm 0x40, Imm 0, Imm 0], Count,
    Syscall NR_sendto [Reg 2, Write_buf, Imm 0xc0, Imm 0x40, Imm 0, Imm 0], Count,
    Syscall NR_recvfrom [Reg 2, Ptr 0x2091c440, Imm 4, Imm 0x40, Imm 0, Imm 0], Count,
    Syscall NR_recvfrom [Reg 2, Ptr 0x2091cd40, Imm 0x15, Imm 0x40, Imm 0, Imm 0], Count,
    Syscall NR_sendto [Reg 2, Write_buf, Imm 0xc0, Imm 0x40, Imm 0, Imm 0], Count]"

definition min_mysql_recvfrom_sendto_20_0_body85 :: "stmt list" where
  "min_mysql_recvfrom_sendto_20_0_body85 = [
    Syscall NR_recvfrom [Reg 2, Ptr 0x2091e3c0, Imm 4, Imm 0x40, Imm 0, Imm 0], Count,
    Syscall NR_recvfrom [Reg 2, Ptr 0x2091ef00, Imm 0x15, Imm 0x40, Imm 0, Imm 0], Count,
    Syscall NR_sendto [Reg 2, Write_buf, Imm 0xc0, Imm 0x40, Imm 0, Imm 0], Count,
    Syscall NR_recvfrom [Reg 2, Ptr 0x20920880, Imm 4, Imm 0x40, Imm 0, Imm 0], Count,
    Syscall NR_recvfrom [Reg 2, Ptr 0x209244c0, Imm 0x15, Imm 0x40, Imm 0, Imm 0], Count,
    Syscall NR_sendto [Reg 2, Write_buf, Imm 0xc0, Imm 0x40, Imm 0, Imm 0], Count,
    Syscall NR_recvfrom [Reg 2, Ptr 0x2092c1c0, Imm 4, Imm 0x40, Imm 0, Imm 0], Count,
    Syscall NR_recvfrom [Reg 2, Ptr 0x2092fe00, Imm 0x23, Imm 0x40, Imm 0, Imm 0], Count,
    Syscall NR_sendto [Reg 2, Write_buf, Imm 0x3178, Imm 0x40, Imm 0, Imm 0], Count,
    Syscall NR_recvfrom [Reg 2, Ptr 0x20938180, Imm 4, Imm 0x40, Imm 0, Imm 0], Count]"

definition min_mysql_recvfrom_sendto_20_0_body86 :: "stmt list" where
  "min_mysql_recvfrom_sendto_20_0_body86 = [
    Syscall NR_recvfrom [Reg 2, Ptr 0x2093be00, Imm 0x1d, Imm 0x40, Imm 0, Imm 0], Count,
    Syscall NR_sendto [Reg 2, Write_buf, Imm 0x3c, Imm 0x40, Imm 0, Imm 0], Count,
    Syscall NR_recvfrom [Reg 2, Ptr 0x209449c0, Imm 4, Imm 0x40, Imm 0, Imm 0], Count,
    Syscall NR_recvfrom [Reg 2, Ptr 0x2094e980, Imm 0x23, Imm 0x40, Imm 0, Imm 0], Count,
    Syscall NR_sendto [Reg 2, Write_buf, Imm 0x317a, Imm 0x40, Imm 0, Imm 0], Count,
    Syscall NR_recvfrom [Reg 2, Ptr 0x20acea00, Imm 4, Imm 0x40, Imm 0, Imm 0], Count,
    Syscall NR_recvfrom [Reg 2, Ptr 0x20aee680, Imm 0x1d, Imm 0x40, Imm 0, Imm 0], Count,
    Syscall NR_sendto [Reg 2, Write_buf, Imm 0x317a, Imm 0x40, Imm 0, Imm 0], Count,
    Syscall NR_recvfrom [Reg 2, Ptr 0x20dcb380, Imm 4, Imm 0x40, Imm 0, Imm 0], Count,
    Syscall NR_recvfrom [Reg 2, Ptr 0x20de61c0, Imm 0x18, Imm 0x40, Imm 0, Imm 0], Count]"

definition min_mysql_recvfrom_sendto_20_0_body87 :: "stmt list" where
  "min_mysql_recvfrom_sendto_20_0_body87 = [
    Syscall NR_sendto [Reg 2, Write_buf, Imm 0x34, Imm 0x40, Imm 0, Imm 0], Count,
    Syscall NR_recvfrom [Reg 2, Ptr 0x20e0e980, Imm 4, Imm 0x40, Imm 0, Imm 0], Count,
    Syscall NR_recvfrom [Reg 2, Ptr 0x20e25a40, Imm 0x93, Imm 0x40, Imm 0, Imm 0], Count,
    Syscall NR_sendto [Reg 2, Write_buf, Imm 0x34, Imm 0x40, Imm 0, Imm 0], Count,
    Syscall NR_recvfrom [Reg 2, Ptr 0x20e5a300, Imm 4, Imm 0x40, Imm 0, Imm 0], Count,
    Syscall NR_recvfrom [Reg 2, Ptr 0x20e6f240, Imm 0x18, Imm 0x40, Imm 0, Imm 0], Count,
    Syscall NR_sendto [Reg 2, Write_buf, Imm 0xb, Imm 0x40, Imm 0, Imm 0], Count,
    Syscall NR_recvfrom [Reg 2, Ptr 0x20ea7040, Imm 4, Imm 0x40, Imm 0, Imm 0], Count,
    Syscall NR_recvfrom [Reg 2, Ptr 0x20ec6c80, Imm 0xdd, Imm 0x40, Imm 0, Imm 0], Count,
    Syscall NR_sendto [Reg 2, Write_buf, Imm 0xb, Imm 0x40, Imm 0, Imm 0], Count]"

definition min_mysql_recvfrom_sendto_20_0_body88 :: "stmt list" where
  "min_mysql_recvfrom_sendto_20_0_body88 = [
    Syscall NR_recvfrom [Reg 2, Ptr 0x20eeb400, Imm 4, Imm 0x40, Imm 0, Imm 0], Count,
    Syscall NR_recvfrom [Reg 2, Ptr 0x20f02ac0, Imm 0xb, Imm 0x40, Imm 0, Imm 0], Count,
    Syscall NR_sendto [Reg 2, Write_buf, Imm 0x18, Imm 0x40, Imm 0, Imm 0], Count,
    Syscall NR_recvfrom [Reg 2, Ptr 0x200d4800, Imm 4, Imm 0x40, Imm 0, Imm 0], Count,
    Syscall NR_recvfrom [Reg 2, Ptr 0x200d9c80, Imm 8, Imm 0x40, Imm 0, Imm 0], Count,
    Syscall NR_sendto [Reg 2, Write_buf, Imm 0x18, Imm 0x40, Imm 0, Imm 0], Count,
    Syscall NR_recvfrom [Reg 2, Ptr 0x200f3880, Imm 4, Imm 0x40, Imm 0, Imm 0], Count,
    Syscall NR_recvfrom [Reg 2, Ptr 0x200f4e80, Imm 0x18, Imm 0x40, Imm 0, Imm 0], Count,
    Syscall NR_sendto [Reg 2, Write_buf, Imm 0xc0, Imm 0x40, Imm 0, Imm 0], Count,
    Syscall NR_recvfrom [Reg 2, Ptr 0x200ffc80, Imm 4, Imm 0x40, Imm 0, Imm 0], Count]"

definition min_mysql_recvfrom_sendto_20_0_body89 :: "stmt list" where
  "min_mysql_recvfrom_sendto_20_0_body89 = [
    Syscall NR_recvfrom [Reg 2, Ptr 0x20103340, Imm 0x15, Imm 0x40, Imm 0, Imm 0], Count,
    Syscall NR_sendto [Reg 2, Write_buf, Imm 0xc0, Imm 0x40, Imm 0, Imm 0], Count,
    Syscall NR_recvfrom [Reg 2, Ptr 0x2010d280, Imm 4, Imm 0x40, Imm 0, Imm 0], Count,
    Syscall NR_recvfrom [Reg 2, Ptr 0x20113a00, Imm 0x15, Imm 0x40, Imm 0, Imm 0], Count,
    Syscall NR_sendto [Reg 2, Write_buf, Imm 0xc0, Imm 0x40, Imm 0, Imm 0], Count,
    Syscall NR_recvfrom [Reg 2, Ptr 0x2011da80, Imm 4, Imm 0x40, Imm 0, Imm 0], Count,
    Syscall NR_recvfrom [Reg 2, Ptr 0x20124480, Imm 0x15, Imm 0x40, Imm 0, Imm 0], Count,
    Syscall NR_sendto [Reg 2, Write_buf, Imm 0xc0, Imm 0x40, Imm 0, Imm 0], Count,
    Syscall NR_recvfrom [Reg 2, Ptr 0x20128800, Imm 4, Imm 0x40, Imm 0, Imm 0], Count,
    Syscall NR_recvfrom [Reg 2, Ptr 0x20128f40, Imm 0x15, Imm 0x40, Imm 0, Imm 0], Count]"

definition min_mysql_recvfrom_sendto_20_0_body90 :: "stmt list" where
  "min_mysql_recvfrom_sendto_20_0_body90 = [
    Syscall NR_sendto [Reg 2, Write_buf, Imm 0xc0, Imm 0x40, Imm 0, Imm 0], Count,
    Syscall NR_recvfrom [Reg 2, Ptr 0x2012a0c0, Imm 4, Imm 0x40, Imm 0, Imm 0], Count,
    Syscall NR_recvfrom [Reg 2, Ptr 0x2012a8c0, Imm 0x15, Imm 0x40, Imm 0, Imm 0], Count,
    Syscall NR_sendto [Reg 2, Write_buf, Imm 0xc0, Imm 0x40, Imm 0, Imm 0], Count,
    Syscall NR_recvfrom [Reg 2, Ptr 0x2012be00, Imm 4, Imm 0x40, Imm 0, Imm 0], Count,
    Syscall NR_recvfrom [Reg 2, Ptr 0x2012c580, Imm 0x15, Imm 0x40, Imm 0, Imm 0], Count,
    Syscall NR_sendto [Reg 2, Write_buf, Imm 0xc0, Imm 0x40, Imm 0, Imm 0], Count,
    Syscall NR_recvfrom [Reg 2, Ptr 0x2012d780, Imm 4, Imm 0x40, Imm 0, Imm 0], Count,
    Syscall NR_recvfrom [Reg 2, Ptr 0x2012dfc0, Imm 0x15, Imm 0x40, Imm 0, Imm 0], Count,
    Syscall NR_sendto [Reg 2, Write_buf, Imm 0xc0, Imm 0x40, Imm 0, Imm 0], Count]"

definition min_mysql_recvfrom_sendto_20_0_body91 :: "stmt list" where
  "min_mysql_recvfrom_sendto_20_0_body91 = [
    Syscall NR_recvfrom [Reg 2, Ptr 0x2012f100, Imm 4, Imm 0x40, Imm 0, Imm 0], Count,
    Syscall NR_recvfrom [Reg 2, Ptr 0x20131640, Imm 0x15, Imm 0x40, Imm 0, Imm 0], Count,
    Syscall NR_sendto [Reg 2, Write_buf, Imm 0xc0, Imm 0x40, Imm 0, Imm 0], Count,
    Syscall NR_recvfrom [Reg 2, Ptr 0x20132200, Imm 4, Imm 0x40, Imm 0, Imm 0], Count,
    Syscall NR_recvfrom [Reg 2, Ptr 0x201328c0, Imm 0x15, Imm 0x40, Imm 0, Imm 0], Count,
    Syscall NR_sendto [Reg 2, Write_buf, Imm 0xc0, Imm 0x40, Imm 0, Imm 0], Count,
    Syscall NR_recvfrom [Reg 2, Ptr 0x20136480, Imm 4, Imm 0x40, Imm 0, Imm 0], Count,
    Syscall NR_recvfrom [Reg 2, Ptr 0x2013cb80, Imm 0x23, Imm 0x40, Imm 0, Imm 0], Count,
    Syscall NR_sendto [Reg 2, Write_buf, Imm 0x317a, Imm 0x40, Imm 0, Imm 0], Count,
    Syscall NR_recvfrom [Reg 2, Ptr 0x20149b00, Imm 4, Imm 0x40, Imm 0, Imm 0], Count]"

definition min_mysql_recvfrom_sendto_20_0_body92 :: "stmt list" where
  "min_mysql_recvfrom_sendto_20_0_body92 = [
    Syscall NR_recvfrom [Reg 2, Ptr 0x20153540, Imm 0x23, Imm 0x40, Imm 0, Imm 0], Count,
    Syscall NR_sendto [Reg 2, Write_buf, Imm 0x3c, Imm 0x40, Imm 0, Imm 0], Count,
    Syscall NR_recvfrom [Reg 2, Ptr 0x201542c0, Imm 4, Imm 0x40, Imm 0, Imm 0], Count,
    Syscall NR_recvfrom [Reg 2, Ptr 0x2015ab40, Imm 0x23, Imm 0x40, Imm 0, Imm 0], Count,
    Syscall NR_sendto [Reg 2, Write_buf, Imm 0x317a, Imm 0x40, Imm 0, Imm 0], Count,
    Syscall NR_recvfrom [Reg 2, Ptr 0x202ba480, Imm 4, Imm 0x40, Imm 0, Imm 0], Count,
    Syscall NR_recvfrom [Reg 2, Ptr 0x202c7380, Imm 0x23, Imm 0x40, Imm 0, Imm 0], Count,
    Syscall NR_sendto [Reg 2, Write_buf, Imm 0x317a, Imm 0x40, Imm 0, Imm 0], Count,
    Syscall NR_recvfrom [Reg 2, Ptr 0x2041f480, Imm 4, Imm 0x40, Imm 0, Imm 0], Count,
    Syscall NR_recvfrom [Reg 2, Ptr 0x2043a240, Imm 0x15, Imm 0x40, Imm 0, Imm 0], Count]"

definition min_mysql_recvfrom_sendto_20_0_body93 :: "stmt list" where
  "min_mysql_recvfrom_sendto_20_0_body93 = [
    Syscall NR_sendto [Reg 2, Write_buf, Imm 0x34, Imm 0x40, Imm 0, Imm 0], Count,
    Syscall NR_recvfrom [Reg 2, Ptr 0x2047c740, Imm 4, Imm 0x40, Imm 0, Imm 0], Count,
    Syscall NR_recvfrom [Reg 2, Ptr 0x204a6880, Imm 0x93, Imm 0x40, Imm 0, Imm 0], Count,
    Syscall NR_sendto [Reg 2, Write_buf, Imm 0x34, Imm 0x40, Imm 0, Imm 0], Count,
    Syscall NR_recvfrom [Reg 2, Ptr 0x204e47c0, Imm 4, Imm 0x40, Imm 0, Imm 0], Count,
    Syscall NR_recvfrom [Reg 2, Ptr 0x20511b00, Imm 0x18, Imm 0x40, Imm 0, Imm 0], Count,
    Syscall NR_sendto [Reg 2, Write_buf, Imm 0xb, Imm 0x40, Imm 0, Imm 0], Count,
    Syscall NR_recvfrom [Reg 2, Ptr 0x2052f500, Imm 4, Imm 0x40, Imm 0, Imm 0], Count,
    Syscall NR_recvfrom [Reg 2, Ptr 0x205487c0, Imm 0xdd, Imm 0x40, Imm 0, Imm 0], Count,
    Syscall NR_sendto [Reg 2, Write_buf, Imm 0xd, Imm 0x40, Imm 0, Imm 0], Count]"

definition min_mysql_recvfrom_sendto_20_0_body94 :: "stmt list" where
  "min_mysql_recvfrom_sendto_20_0_body94 = [
    Syscall NR_recvfrom [Reg 2, Ptr 0x2055d2c0, Imm 4, Imm 0x40, Imm 0, Imm 0], Count,
    Syscall NR_recvfrom [Reg 2, Ptr 0x2056b040, Imm 0xb, Imm 0x40, Imm 0, Imm 0], Count,
    Syscall NR_sendto [Reg 2, Write_buf, Imm 0x18, Imm 0x40, Imm 0, Imm 0], Count,
    Syscall NR_recvfrom [Reg 2, Ptr 0x2086b940, Imm 4, Imm 0x40, Imm 0, Imm 0], Count,
    Syscall NR_recvfrom [Reg 2, Ptr 0x2086ef40, Imm 8, Imm 0x40, Imm 0, Imm 0], Count,
    Syscall NR_sendto [Reg 2, Write_buf, Imm 0x18, Imm 0x40, Imm 0, Imm 0], Count,
    Syscall NR_recvfrom [Reg 2, Ptr 0x20873240, Imm 4, Imm 0x40, Imm 0, Imm 0], Count,
    Syscall NR_recvfrom [Reg 2, Ptr 0x20876b00, Imm 0x18, Imm 0x40, Imm 0, Imm 0], Count,
    Syscall NR_sendto [Reg 2, Write_buf, Imm 0xc0, Imm 0x40, Imm 0, Imm 0], Count,
    Syscall NR_recvfrom [Reg 2, Ptr 0x2087e040, Imm 4, Imm 0x40, Imm 0, Imm 0], Count]"

definition min_mysql_recvfrom_sendto_20_0_body95 :: "stmt list" where
  "min_mysql_recvfrom_sendto_20_0_body95 = [
    Syscall NR_recvfrom [Reg 2, Ptr 0x2087e880, Imm 0x15, Imm 0x40, Imm 0, Imm 0], Count,
    Syscall NR_sendto [Reg 2, Write_buf, Imm 0xc0, Imm 0x40, Imm 0, Imm 0], Count,
    Syscall NR_recvfrom [Reg 2, Ptr 0x2087f940, Imm 4, Imm 0x40, Imm 0, Imm 0], Count,
    Syscall NR_recvfrom [Reg 2, Ptr 0x208800c0, Imm 0x15, Imm 0x40, Imm 0, Imm 0], Count,
    Syscall NR_sendto [Reg 2, Write_buf, Imm 0xc0, Imm 0x40, Imm 0, Imm 0], Count,
    Syscall NR_recvfrom [Reg 2, Ptr 0x208811c0, Imm 4, Imm 0x40, Imm 0, Imm 0], Count,
    Syscall NR_recvfrom [Reg 2, Ptr 0x20883800, Imm 0x15, Imm 0x40, Imm 0, Imm 0], Count,
    Syscall NR_sendto [Reg 2, Write_buf, Imm 0xc0, Imm 0x40, Imm 0, Imm 0], Count,
    Syscall NR_recvfrom [Reg 2, Ptr 0x20891a00, Imm 4, Imm 0x40, Imm 0, Imm 0], Count,
    Syscall NR_recvfrom [Reg 2, Ptr 0x208a5800, Imm 0x15, Imm 0x40, Imm 0, Imm 0], Count]"

definition min_mysql_recvfrom_sendto_20_0_body96 :: "stmt list" where
  "min_mysql_recvfrom_sendto_20_0_body96 = [
    Syscall NR_sendto [Reg 2, Write_buf, Imm 0xc0, Imm 0x40, Imm 0, Imm 0], Count,
    Syscall NR_recvfrom [Reg 2, Ptr 0x208b6040, Imm 4, Imm 0x40, Imm 0, Imm 0], Count,
    Syscall NR_recvfrom [Reg 2, Ptr 0x208be3c0, Imm 0x15, Imm 0x40, Imm 0, Imm 0], Count,
    Syscall NR_sendto [Reg 2, Write_buf, Imm 0xc0, Imm 0x40, Imm 0, Imm 0], Count,
    Syscall NR_recvfrom [Reg 2, Ptr 0x208c1700, Imm 4, Imm 0x40, Imm 0, Imm 0], Count,
    Syscall NR_recvfrom [Reg 2, Ptr 0x208c1b80, Imm 0x15, Imm 0x40, Imm 0, Imm 0], Count,
    Syscall NR_sendto [Reg 2, Write_buf, Imm 0xc0, Imm 0x40, Imm 0, Imm 0], Count,
    Syscall NR_recvfrom [Reg 2, Ptr 0x208c5a80, Imm 4, Imm 0x40, Imm 0, Imm 0], Count,
    Syscall NR_recvfrom [Reg 2, Ptr 0x208c5f00, Imm 0x15, Imm 0x40, Imm 0, Imm 0], Count,
    Syscall NR_sendto [Reg 2, Write_buf, Imm 0xc0, Imm 0x40, Imm 0, Imm 0], Count]"

definition min_mysql_recvfrom_sendto_20_0_body97 :: "stmt list" where
  "min_mysql_recvfrom_sendto_20_0_body97 = [
    Syscall NR_recvfrom [Reg 2, Ptr 0x208d0100, Imm 4, Imm 0x40, Imm 0, Imm 0], Count,
    Syscall NR_recvfrom [Reg 2, Ptr 0x208d9b80, Imm 0x15, Imm 0x40, Imm 0, Imm 0], Count,
    Syscall NR_sendto [Reg 2, Write_buf, Imm 0xc0, Imm 0x40, Imm 0, Imm 0], Count,
    Syscall NR_recvfrom [Reg 2, Ptr 0x208e0780, Imm 4, Imm 0x40, Imm 0, Imm 0], Count,
    Syscall NR_recvfrom [Reg 2, Ptr 0x208e0b40, Imm 0x15, Imm 0x40, Imm 0, Imm 0], Count,
    Syscall NR_sendto [Reg 2, Write_buf, Imm 0xc0, Imm 0x40, Imm 0, Imm 0], Count,
    Syscall NR_recvfrom [Reg 2, Ptr 0x208e7980, Imm 4, Imm 0x40, Imm 0, Imm 0], Count,
    Syscall NR_recvfrom [Reg 2, Ptr 0x208f4280, Imm 0x1d, Imm 0x40, Imm 0, Imm 0], Count,
    Syscall NR_sendto [Reg 2, Write_buf, Imm 0x317a, Imm 0x40, Imm 0, Imm 0], Count,
    Syscall NR_recvfrom [Reg 2, Ptr 0x209010c0, Imm 4, Imm 0x40, Imm 0, Imm 0], Count]"

definition min_mysql_recvfrom_sendto_20_0_body98 :: "stmt list" where
  "min_mysql_recvfrom_sendto_20_0_body98 = [
    Syscall NR_recvfrom [Reg 2, Ptr 0x2090a600, Imm 0x23, Imm 0x40, Imm 0, Imm 0], Count,
    Syscall NR_sendto [Reg 2, Write_buf, Imm 0x3c, Imm 0x40, Imm 0, Imm 0], Count,
    Syscall NR_recvfrom [Reg 2, Ptr 0x2092b540, Imm 4, Imm 0x40, Imm 0, Imm 0], Count,
    Syscall NR_recvfrom [Reg 2, Ptr 0x20934c00, Imm 0x1d, Imm 0x40, Imm 0, Imm 0], Count,
    Syscall NR_sendto [Reg 2, Write_buf, Imm 0x317a, Imm 0x40, Imm 0, Imm 0], Count,
    Syscall NR_recvfrom [Reg 2, Ptr 0x20a7c780, Imm 4, Imm 0x40, Imm 0, Imm 0], Count,
    Syscall NR_recvfrom [Reg 2, Ptr 0x20a7d2c0, Imm 0x23, Imm 0x40, Imm 0, Imm 0], Count,
    Syscall NR_sendto [Reg 2, Write_buf, Imm 0x317a, Imm 0x40, Imm 0, Imm 0], Count,
    Syscall NR_recvfrom [Reg 2, Ptr 0x20be1a80, Imm 4, Imm 0x40, Imm 0, Imm 0], Count,
    Syscall NR_recvfrom [Reg 2, Ptr 0x20bee100, Imm 0x18, Imm 0x40, Imm 0, Imm 0], Count]"

definition min_mysql_recvfrom_sendto_20_0_body99 :: "stmt list" where
  "min_mysql_recvfrom_sendto_20_0_body99 = [
    Syscall NR_sendto [Reg 2, Write_buf, Imm 0x34, Imm 0x40, Imm 0, Imm 0], Count,
    Syscall NR_recvfrom [Reg 2, Ptr 0x20bf6a40, Imm 4, Imm 0x40, Imm 0, Imm 0], Count,
    Syscall NR_recvfrom [Reg 2, Ptr 0x20c07340, Imm 0x8d, Imm 0x40, Imm 0, Imm 0], Count,
    Syscall NR_sendto [Reg 2, Write_buf, Imm 0x34, Imm 0x40, Imm 0, Imm 0], Count,
    Syscall NR_recvfrom [Reg 2, Ptr 0x20c12400, Imm 4, Imm 0x40, Imm 0, Imm 0], Count,
    Syscall NR_recvfrom [Reg 2, Ptr 0x20c1d300, Imm 0x18, Imm 0x40, Imm 0, Imm 0], Count,
    Syscall NR_sendto [Reg 2, Write_buf, Imm 0xb, Imm 0x40, Imm 0, Imm 0], Count,
    Syscall NR_recvfrom [Reg 2, Ptr 0x20c28280, Imm 4, Imm 0x40, Imm 0, Imm 0], Count,
    Syscall NR_recvfrom [Reg 2, Ptr 0x20c2ef00, Imm 0xdd, Imm 0x40, Imm 0, Imm 0], Count,
    Syscall NR_sendto [Reg 2, Write_buf, Imm 0xd, Imm 0x40, Imm 0, Imm 0], Count]"

definition min_mysql_recvfrom_sendto_20_0_body100 :: "stmt list" where
  "min_mysql_recvfrom_sendto_20_0_body100 = [
    Syscall NR_recvfrom [Reg 2, Ptr 0x20c44d80, Imm 4, Imm 0x40, Imm 0, Imm 0], Count,
    Syscall NR_recvfrom [Reg 2, Ptr 0x20c4bd40, Imm 0xb, Imm 0x40, Imm 0, Imm 0], Count,
    Syscall NR_sendto [Reg 2, Write_buf, Imm 0x18, Imm 0x40, Imm 0, Imm 0], Count,
    Syscall NR_recvfrom [Reg 2, Ptr 0x20fa7a40, Imm 4, Imm 0x40, Imm 0, Imm 0], Count,
    Syscall NR_recvfrom [Reg 2, Ptr 0x20fb1a40, Imm 8, Imm 0x40, Imm 0, Imm 0], Count,
    Syscall NR_sendto [Reg 2, Write_buf, Imm 0x18, Imm 0x40, Imm 0, Imm 0], Count,
    Syscall NR_recvfrom [Reg 2, Ptr 0x20fc4300, Imm 4, Imm 0x40, Imm 0, Imm 0], Count,
    Syscall NR_recvfrom [Reg 2, Ptr 0x20fc5e40, Imm 0x18, Imm 0x40, Imm 0, Imm 0], Count,
    Syscall NR_sendto [Reg 2, Write_buf, Imm 0xc0, Imm 0x40, Imm 0, Imm 0], Count,
    Syscall NR_recvfrom [Reg 2, Ptr 0x20fcf440, Imm 4, Imm 0x40, Imm 0, Imm 0], Count]"

definition min_mysql_recvfrom_sendto_20_0_body101 :: "stmt list" where
  "min_mysql_recvfrom_sendto_20_0_body101 = [
    Syscall NR_recvfrom [Reg 2, Ptr 0x20fd23c0, Imm 0x15, Imm 0x40, Imm 0, Imm 0], Count,
    Syscall NR_sendto [Reg 2, Write_buf, Imm 0xc0, Imm 0x40, Imm 0, Imm 0], Count,
    Syscall NR_recvfrom [Reg 2, Ptr 0x20fd9e40, Imm 4, Imm 0x40, Imm 0, Imm 0], Count,
    Syscall NR_recvfrom [Reg 2, Ptr 0x20fdd600, Imm 0x15, Imm 0x40, Imm 0, Imm 0], Count,
    Syscall NR_sendto [Reg 2, Write_buf, Imm 0xc0, Imm 0x40, Imm 0, Imm 0], Count,
    Syscall NR_recvfrom [Reg 2, Ptr 0x20feb740, Imm 4, Imm 0x40, Imm 0, Imm 0], Count,
    Syscall NR_recvfrom [Reg 2, Ptr 0x20ff1ec0, Imm 0x15, Imm 0x40, Imm 0, Imm 0], Count,
    Syscall NR_sendto [Reg 2, Write_buf, Imm 0xc0, Imm 0x40, Imm 0, Imm 0], Count,
    Syscall NR_recvfrom [Reg 2, Ptr 0x200093c0, Imm 4, Imm 0x40, Imm 0, Imm 0], Count,
    Syscall NR_recvfrom [Reg 2, Ptr 0x2000d740, Imm 0x15, Imm 0x40, Imm 0, Imm 0], Count]"

definition min_mysql_recvfrom_sendto_20_0_body102 :: "stmt list" where
  "min_mysql_recvfrom_sendto_20_0_body102 = [
    Syscall NR_sendto [Reg 2, Write_buf, Imm 0xc0, Imm 0x40, Imm 0, Imm 0], Count,
    Syscall NR_recvfrom [Reg 2, Ptr 0x2001ca00, Imm 4, Imm 0x40, Imm 0, Imm 0], Count,
    Syscall NR_recvfrom [Reg 2, Ptr 0x20022340, Imm 0x15, Imm 0x40, Imm 0, Imm 0], Count,
    Syscall NR_sendto [Reg 2, Write_buf, Imm 0xc0, Imm 0x40, Imm 0, Imm 0], Count,
    Syscall NR_recvfrom [Reg 2, Ptr 0x20047180, Imm 4, Imm 0x40, Imm 0, Imm 0], Count,
    Syscall NR_recvfrom [Reg 2, Ptr 0x2005ad80, Imm 0x15, Imm 0x40, Imm 0, Imm 0], Count,
    Syscall NR_sendto [Reg 2, Write_buf, Imm 0xc0, Imm 0x40, Imm 0, Imm 0], Count,
    Syscall NR_recvfrom [Reg 2, Ptr 0x2006ed00, Imm 4, Imm 0x40, Imm 0, Imm 0], Count,
    Syscall NR_recvfrom [Reg 2, Ptr 0x20076340, Imm 0x15, Imm 0x40, Imm 0, Imm 0], Count,
    Syscall NR_sendto [Reg 2, Write_buf, Imm 0xc0, Imm 0x40, Imm 0, Imm 0], Count]"

definition min_mysql_recvfrom_sendto_20_0_body103 :: "stmt list" where
  "min_mysql_recvfrom_sendto_20_0_body103 = [
    Syscall NR_recvfrom [Reg 2, Ptr 0x20079f40, Imm 4, Imm 0x40, Imm 0, Imm 0], Count,
    Syscall NR_recvfrom [Reg 2, Ptr 0x2007d5c0, Imm 0x15, Imm 0x40, Imm 0, Imm 0], Count,
    Syscall NR_sendto [Reg 2, Write_buf, Imm 0xc0, Imm 0x40, Imm 0, Imm 0], Count,
    Syscall NR_recvfrom [Reg 2, Ptr 0x2008d5c0, Imm 4, Imm 0x40, Imm 0, Imm 0], Count,
    Syscall NR_recvfrom [Reg 2, Ptr 0x20093c00, Imm 0x15, Imm 0x40, Imm 0, Imm 0], Count,
    Syscall NR_sendto [Reg 2, Write_buf, Imm 0xc0, Imm 0x40, Imm 0, Imm 0], Count,
    Syscall NR_recvfrom [Reg 2, Ptr 0x200a6980, Imm 4, Imm 0x40, Imm 0, Imm 0], Count,
    Syscall NR_recvfrom [Reg 2, Ptr 0x200b0040, Imm 0x23, Imm 0x40, Imm 0, Imm 0], Count,
    Syscall NR_sendto [Reg 2, Write_buf, Imm 0x3178, Imm 0x40, Imm 0, Imm 0], Count,
    Syscall NR_recvfrom [Reg 2, Ptr 0x200bfe80, Imm 4, Imm 0x40, Imm 0, Imm 0], Count]"

definition min_mysql_recvfrom_sendto_20_0_body104 :: "stmt list" where
  "min_mysql_recvfrom_sendto_20_0_body104 = [
    Syscall NR_recvfrom [Reg 2, Ptr 0x200c93c0, Imm 0x1d, Imm 0x40, Imm 0, Imm 0], Count,
    Syscall NR_sendto [Reg 2, Write_buf, Imm 0x3c, Imm 0x40, Imm 0, Imm 0], Count,
    Syscall NR_recvfrom [Reg 2, Ptr 0x200cf940, Imm 4, Imm 0x40, Imm 0, Imm 0], Count,
    Syscall NR_recvfrom [Reg 2, Ptr 0x200dd080, Imm 0x1d, Imm 0x40, Imm 0, Imm 0], Count,
    Syscall NR_sendto [Reg 2, Write_buf, Imm 0x317a, Imm 0x40, Imm 0, Imm 0], Count,
    Syscall NR_recvfrom [Reg 2, Ptr 0x201a9fc0, Imm 4, Imm 0x40, Imm 0, Imm 0], Count,
    Syscall NR_recvfrom [Reg 2, Ptr 0x201ad400, Imm 0x23, Imm 0x40, Imm 0, Imm 0], Count,
    Syscall NR_sendto [Reg 2, Write_buf, Imm 0x317a, Imm 0x40, Imm 0, Imm 0], Count,
    Syscall NR_recvfrom [Reg 2, Ptr 0x20247a80, Imm 4, Imm 0x40, Imm 0, Imm 0], Count,
    Syscall NR_recvfrom [Reg 2, Ptr 0x202679c0, Imm 0x18, Imm 0x40, Imm 0, Imm 0], Count]"

definition min_mysql_recvfrom_sendto_20_0_body105 :: "stmt list" where
  "min_mysql_recvfrom_sendto_20_0_body105 = [
    Syscall NR_sendto [Reg 2, Write_buf, Imm 0x34, Imm 0x40, Imm 0, Imm 0], Count,
    Syscall NR_recvfrom [Reg 2, Ptr 0x20293f00, Imm 4, Imm 0x40, Imm 0, Imm 0], Count,
    Syscall NR_recvfrom [Reg 2, Ptr 0x202a6f00, Imm 0x93, Imm 0x40, Imm 0, Imm 0], Count,
    Syscall NR_sendto [Reg 2, Write_buf, Imm 0x34, Imm 0x40, Imm 0, Imm 0], Count,
    Syscall NR_recvfrom [Reg 2, Ptr 0x202b51c0, Imm 4, Imm 0x40, Imm 0, Imm 0], Count,
    Syscall NR_recvfrom [Reg 2, Ptr 0x202b7000, Imm 0x18, Imm 0x40, Imm 0, Imm 0], Count,
    Syscall NR_sendto [Reg 2, Write_buf, Imm 0xb, Imm 0x40, Imm 0, Imm 0], Count,
    Syscall NR_recvfrom [Reg 2, Ptr 0x202baa00, Imm 4, Imm 0x40, Imm 0, Imm 0], Count,
    Syscall NR_recvfrom [Reg 2, Ptr 0x202be940, Imm 0xdd, Imm 0x40, Imm 0, Imm 0], Count,
    Syscall NR_sendto [Reg 2, Write_buf, Imm 0xd, Imm 0x40, Imm 0, Imm 0], Count]"

definition min_mysql_recvfrom_sendto_20_0_body106 :: "stmt list" where
  "min_mysql_recvfrom_sendto_20_0_body106 = [
    Syscall NR_recvfrom [Reg 2, Ptr 0x202cfdc0, Imm 4, Imm 0x40, Imm 0, Imm 0], Count,
    Syscall NR_recvfrom [Reg 2, Ptr 0x202dff40, Imm 0xb, Imm 0x40, Imm 0, Imm 0], Count,
    Syscall NR_sendto [Reg 2, Write_buf, Imm 0x18, Imm 0x40, Imm 0, Imm 0], Count,
    Syscall NR_recvfrom [Reg 2, Ptr 0x2069cb80, Imm 4, Imm 0x40, Imm 0, Imm 0], Count,
    Syscall NR_recvfrom [Reg 2, Ptr 0x206b88c0, Imm 8, Imm 0x40, Imm 0, Imm 0], Count,
    Syscall NR_sendto [Reg 2, Write_buf, Imm 0x18, Imm 0x40, Imm 0, Imm 0], Count,
    Syscall NR_recvfrom [Reg 2, Ptr 0x206da340, Imm 4, Imm 0x40, Imm 0, Imm 0], Count,
    Syscall NR_recvfrom [Reg 2, Ptr 0x206ea1c0, Imm 0x15, Imm 0x40, Imm 0, Imm 0], Count,
    Syscall NR_sendto [Reg 2, Write_buf, Imm 0xc0, Imm 0x40, Imm 0, Imm 0], Count,
    Syscall NR_recvfrom [Reg 2, Ptr 0x20716080, Imm 4, Imm 0x40, Imm 0, Imm 0], Count]"

definition min_mysql_recvfrom_sendto_20_0_body107 :: "stmt list" where
  "min_mysql_recvfrom_sendto_20_0_body107 = [
    Syscall NR_recvfrom [Reg 2, Ptr 0x20722980, Imm 0x15, Imm 0x40, Imm 0, Imm 0], Count,
    Syscall NR_sendto [Reg 2, Write_buf, Imm 0xc0, Imm 0x40, Imm 0, Imm 0], Count,
    Syscall NR_recvfrom [Reg 2, Ptr 0x2073f4c0, Imm 4, Imm 0x40, Imm 0, Imm 0], Count,
    Syscall NR_recvfrom [Reg 2, Ptr 0x20743100, Imm 0x15, Imm 0x40, Imm 0, Imm 0], Count,
    Syscall NR_sendto [Reg 2, Write_buf, Imm 0xc0, Imm 0x40, Imm 0, Imm 0], Count,
    Syscall NR_recvfrom [Reg 2, Ptr 0x20756bc0, Imm 4, Imm 0x40, Imm 0, Imm 0], Count,
    Syscall NR_recvfrom [Reg 2, Ptr 0x207696c0, Imm 0x15, Imm 0x40, Imm 0, Imm 0], Count,
    Syscall NR_sendto [Reg 2, Write_buf, Imm 0xc0, Imm 0x40, Imm 0, Imm 0], Count,
    Syscall NR_recvfrom [Reg 2, Ptr 0x2078fe40, Imm 4, Imm 0x40, Imm 0, Imm 0], Count,
    Syscall NR_recvfrom [Reg 2, Ptr 0x207b4b00, Imm 0x15, Imm 0x40, Imm 0, Imm 0], Count]"

definition min_mysql_recvfrom_sendto_20_0_body108 :: "stmt list" where
  "min_mysql_recvfrom_sendto_20_0_body108 = [
    Syscall NR_sendto [Reg 2, Write_buf, Imm 0xc0, Imm 0x40, Imm 0, Imm 0], Count,
    Syscall NR_recvfrom [Reg 2, Ptr 0x207cf100, Imm 4, Imm 0x40, Imm 0, Imm 0], Count,
    Syscall NR_recvfrom [Reg 2, Ptr 0x207e4400, Imm 0x15, Imm 0x40, Imm 0, Imm 0], Count,
    Syscall NR_sendto [Reg 2, Write_buf, Imm 0xc0, Imm 0x40, Imm 0, Imm 0], Count,
    Syscall NR_recvfrom [Reg 2, Ptr 0x207ea1c0, Imm 4, Imm 0x40, Imm 0, Imm 0], Count,
    Syscall NR_recvfrom [Reg 2, Ptr 0x207f4f00, Imm 0x15, Imm 0x40, Imm 0, Imm 0], Count,
    Syscall NR_sendto [Reg 2, Write_buf, Imm 0xc0, Imm 0x40, Imm 0, Imm 0], Count,
    Syscall NR_recvfrom [Reg 2, Ptr 0x20802040, Imm 4, Imm 0x40, Imm 0, Imm 0], Count,
    Syscall NR_recvfrom [Reg 2, Ptr 0x2080ed80, Imm 0x15, Imm 0x40, Imm 0, Imm 0], Count,
    Syscall NR_sendto [Reg 2, Write_buf, Imm 0xc0, Imm 0x40, Imm 0, Imm 0], Count]"

definition min_mysql_recvfrom_sendto_20_0_body109 :: "stmt list" where
  "min_mysql_recvfrom_sendto_20_0_body109 = [
    Syscall NR_recvfrom [Reg 2, Ptr 0x20825100, Imm 4, Imm 0x40, Imm 0, Imm 0], Count,
    Syscall NR_recvfrom [Reg 2, Ptr 0x20828600, Imm 0x15, Imm 0x40, Imm 0, Imm 0], Count,
    Syscall NR_sendto [Reg 2, Write_buf, Imm 0xc0, Imm 0x40, Imm 0, Imm 0], Count,
    Syscall NR_recvfrom [Reg 2, Ptr 0x208383c0, Imm 4, Imm 0x40, Imm 0, Imm 0], Count,
    Syscall NR_recvfrom [Reg 2, Ptr 0x2083bd40, Imm 0x15, Imm 0x40, Imm 0, Imm 0], Count,
    Syscall NR_sendto [Reg 2, Write_buf, Imm 0xc0, Imm 0x40, Imm 0, Imm 0], Count,
    Syscall NR_recvfrom [Reg 2, Ptr 0x20848b00, Imm 4, Imm 0x40, Imm 0, Imm 0], Count,
    Syscall NR_recvfrom [Reg 2, Ptr 0x2084cf40, Imm 0x23, Imm 0x40, Imm 0, Imm 0], Count,
    Syscall NR_sendto [Reg 2, Write_buf, Imm 0x317a, Imm 0x40, Imm 0, Imm 0], Count,
    Syscall NR_recvfrom [Reg 2, Ptr 0x20855f40, Imm 4, Imm 0x40, Imm 0, Imm 0], Count]"

definition min_mysql_recvfrom_sendto_20_0_body110 :: "stmt list" where
  "min_mysql_recvfrom_sendto_20_0_body110 = [
    Syscall NR_recvfrom [Reg 2, Ptr 0x2085f500, Imm 0x23, Imm 0x40, Imm 0, Imm 0], Count,
    Syscall NR_sendto [Reg 2, Write_buf, Imm 0x3c, Imm 0x40, Imm 0, Imm 0], Count,
    Syscall NR_recvfrom [Reg 2, Ptr 0x2087b580, Imm 4, Imm 0x40, Imm 0, Imm 0], Count,
    Syscall NR_recvfrom [Reg 2, Ptr 0x20880d80, Imm 0x23, Imm 0x40, Imm 0, Imm 0], Count,
    Syscall NR_sendto [Reg 2, Write_buf, Imm 0x3178, Imm 0x40, Imm 0, Imm 0], Count,
    Syscall NR_recvfrom [Reg 2, Ptr 0x20922fc0, Imm 4, Imm 0x40, Imm 0, Imm 0], Count,
    Syscall NR_recvfrom [Reg 2, Ptr 0x20923280, Imm 0x1d, Imm 0x40, Imm 0, Imm 0], Count,
    Syscall NR_sendto [Reg 2, Write_buf, Imm 0x317a, Imm 0x40, Imm 0, Imm 0], Count,
    Syscall NR_recvfrom [Reg 2, Ptr 0x2098e040, Imm 4, Imm 0x40, Imm 0, Imm 0], Count,
    Syscall NR_recvfrom [Reg 2, Ptr 0x20994600, Imm 0x18, Imm 0x40, Imm 0, Imm 0], Count]"

definition min_mysql_recvfrom_sendto_20_0_body111 :: "stmt list" where
  "min_mysql_recvfrom_sendto_20_0_body111 = [
    Syscall NR_sendto [Reg 2, Write_buf, Imm 0x34, Imm 0x40, Imm 0, Imm 0], Count,
    Syscall NR_recvfrom [Reg 2, Ptr 0x209a1200, Imm 4, Imm 0x40, Imm 0, Imm 0], Count,
    Syscall NR_recvfrom [Reg 2, Ptr 0x209a4780, Imm 0x8d, Imm 0x40, Imm 0, Imm 0], Count,
    Syscall NR_sendto [Reg 2, Write_buf, Imm 0x34, Imm 0x40, Imm 0, Imm 0], Count,
    Syscall NR_recvfrom [Reg 2, Ptr 0x209a85c0, Imm 4, Imm 0x40, Imm 0, Imm 0], Count,
    Syscall NR_recvfrom [Reg 2, Ptr 0x209a8a00, Imm 0x15, Imm 0x40, Imm 0, Imm 0], Count,
    Syscall NR_sendto [Reg 2, Write_buf, Imm 0xb, Imm 0x40, Imm 0, Imm 0], Count,
    Syscall NR_recvfrom [Reg 2, Ptr 0x209a9ac0, Imm 4, Imm 0x40, Imm 0, Imm 0], Count,
    Syscall NR_recvfrom [Reg 2, Ptr 0x209a9f40, Imm 0xd1, Imm 0x40, Imm 0, Imm 0], Count,
    Syscall NR_sendto [Reg 2, Write_buf, Imm 0xb, Imm 0x40, Imm 0, Imm 0], Count]"

definition min_mysql_recvfrom_sendto_20_0_body112 :: "stmt list" where
  "min_mysql_recvfrom_sendto_20_0_body112 = [
    Syscall NR_recvfrom [Reg 2, Ptr 0x209aca00, Imm 4, Imm 0x40, Imm 0, Imm 0], Count,
    Syscall NR_recvfrom [Reg 2, Ptr 0x209acc40, Imm 0xb, Imm 0x40, Imm 0, Imm 0], Count,
    Syscall NR_sendto [Reg 2, Write_buf, Imm 0x18, Imm 0x40, Imm 0, Imm 0], Count,
    Syscall NR_recvfrom [Reg 2, Ptr 0x2000a640, Imm 4, Imm 0x40, Imm 0, Imm 0], Count,
    Syscall NR_recvfrom [Reg 2, Ptr 0x2000a740, Imm 8, Imm 0x40, Imm 0, Imm 0], Count,
    Syscall NR_sendto [Reg 2, Write_buf, Imm 0x18, Imm 0x40, Imm 0, Imm 0], Count,
    Syscall NR_recvfrom [Reg 2, Ptr 0x2000aa00, Imm 4, Imm 0x40, Imm 0, Imm 0], Count,
    Syscall NR_recvfrom [Reg 2, Ptr 0x2000ab00, Imm 0x18, Imm 0x40, Imm 0, Imm 0], Count,
    Syscall NR_sendto [Reg 2, Write_buf, Imm 0xc0, Imm 0x40, Imm 0, Imm 0], Count,
    Syscall NR_recvfrom [Reg 2, Ptr 0x2000af40, Imm 4, Imm 0x40, Imm 0, Imm 0], Count]"

definition min_mysql_recvfrom_sendto_20_0_body113 :: "stmt list" where
  "min_mysql_recvfrom_sendto_20_0_body113 = [
    Syscall NR_recvfrom [Reg 2, Ptr 0x2000b0c0, Imm 0x15, Imm 0x40, Imm 0, Imm 0], Count,
    Syscall NR_sendto [Reg 2, Write_buf, Imm 0xc0, Imm 0x40, Imm 0, Imm 0], Count,
    Syscall NR_recvfrom [Reg 2, Ptr 0x2000b540, Imm 4, Imm 0x40, Imm 0, Imm 0], Count,
    Syscall NR_recvfrom [Reg 2, Ptr 0x2000b700, Imm 0x15, Imm 0x40, Imm 0, Imm 0], Count,
    Syscall NR_sendto [Reg 2, Write_buf, Imm 0xc0, Imm 0x40, Imm 0, Imm 0], Count,
    Syscall NR_recvfrom [Reg 2, Ptr 0x2000bb80, Imm 4, Imm 0x40, Imm 0, Imm 0], Count,
    Syscall NR_recvfrom [Reg 2, Ptr 0x2000bd40, Imm 0x15, Imm 0x40, Imm 0, Imm 0], Count,
    Syscall NR_sendto [Reg 2, Write_buf, Imm 0xc0, Imm 0x40, Imm 0, Imm 0], Count,
    Syscall NR_recvfrom [Reg 2, Ptr 0x2000c1c0, Imm 4, Imm 0x40, Imm 0, Imm 0], Count,
    Syscall NR_recvfrom [Reg 2, Ptr 0x2000c280, Imm 0x15, Imm 0x40, Imm 0, Imm 0], Count]"

definition min_mysql_recvfrom_sendto_20_0_body114 :: "stmt list" where
  "min_mysql_recvfrom_sendto_20_0_body114 = [
    Syscall NR_sendto [Reg 2, Write_buf, Imm 0xc0, Imm 0x40, Imm 0, Imm 0], Count,
    Syscall NR_recvfrom [Reg 2, Ptr 0x2000c780, Imm 4, Imm 0x40, Imm 0, Imm 0], Count,
    Syscall NR_recvfrom [Reg 2, Ptr 0x2000c8c0, Imm 0x15, Imm 0x40, Imm 0, Imm 0], Count,
    Syscall NR_sendto [Reg 2, Write_buf, Imm 0xc0, Imm 0x40, Imm 0, Imm 0], Count,
    Syscall NR_recvfrom [Reg 2, Ptr 0x2000cd40, Imm 4, Imm 0x40, Imm 0, Imm 0], Count,
    Syscall NR_recvfrom [Reg 2, Ptr 0x2000cf00, Imm 0x15, Imm 0x40, Imm 0, Imm 0], Count,
    Syscall NR_sendto [Reg 2, Write_buf, Imm 0xc0, Imm 0x40, Imm 0, Imm 0], Count,
    Syscall NR_recvfrom [Reg 2, Ptr 0x2000d380, Imm 4, Imm 0x40, Imm 0, Imm 0], Count,
    Syscall NR_recvfrom [Reg 2, Ptr 0x2000d540, Imm 0x15, Imm 0x40, Imm 0, Imm 0], Count,
    Syscall NR_sendto [Reg 2, Write_buf, Imm 0xc0, Imm 0x40, Imm 0, Imm 0], Count]"

definition min_mysql_recvfrom_sendto_20_0_body115 :: "stmt list" where
  "min_mysql_recvfrom_sendto_20_0_body115 = [
    Syscall NR_recvfrom [Reg 2, Ptr 0x2000d9c0, Imm 4, Imm 0x40, Imm 0, Imm 0], Count,
    Syscall NR_recvfrom [Reg 2, Ptr 0x2000dac0, Imm 0x15, Imm 0x40, Imm 0, Imm 0], Count,
    Syscall NR_sendto [Reg 2, Write_buf, Imm 0xc0, Imm 0x40, Imm 0, Imm 0], Count,
    Syscall NR_recvfrom [Reg 2, Ptr 0x2000df80, Imm 4, Imm 0x40, Imm 0, Imm 0], Count,
    Syscall NR_recvfrom [Reg 2, Ptr 0x2000e0c0, Imm 0x15, Imm 0x40, Imm 0, Imm 0], Count,
    Syscall NR_sendto [Reg 2, Write_buf, Imm 0xc0, Imm 0x40, Imm 0, Imm 0], Count,
    Syscall NR_recvfrom [Reg 2, Ptr 0x2000e5c0, Imm 4, Imm 0x40, Imm 0, Imm 0], Count,
    Store 4 0x2000e700 (Reg 2), Store 2 0x2000e704 (Imm 3), Store 2 0x2000e706 (Imm 0),
    Store 8 0x2000e740 (Imm 0x7080), Store 8 0x2000e748 (Imm 0), Store 8 0x2000e780 (Imm 1),
    Syscall NR_ppoll [Ptr 0x2000e700, Imm 1, Ptr 0x2000e740, Ptr 0x2000e780, Imm 8], Count,
    Syscall NR_recvfrom [Reg 2, Ptr 0x2000e8c0, Imm 4, Imm 0x40, Imm 0, Imm 0], Count]"

definition min_mysql_recvfrom_sendto_20_0_body116 :: "stmt list" where
  "min_mysql_recvfrom_sendto_20_0_body116 = [
    Syscall NR_recvfrom [Reg 2, Ptr 0x20011b00, Imm 0x1d, Imm 0x40, Imm 0, Imm 0], Count,
    Syscall NR_sendto [Reg 2, Write_buf, Imm 0x3178, Imm 0x40, Imm 0, Imm 0], Count,
    Syscall NR_recvfrom [Reg 2, Ptr 0x20018340, Imm 4, Imm 0x40, Imm 0, Imm 0], Count,
    Store 4 0x2001b580 (Reg 2), Store 2 0x2001b584 (Imm 3), Store 2 0x2001b586 (Imm 0),
    Store 8 0x2001b5c0 (Imm 0x7080), Store 8 0x2001b5c8 (Imm 0), Store 8 0x2001b600 (Imm 1),
    Syscall NR_ppoll [Ptr 0x2001b580, Imm 1, Ptr 0x2001b5c0, Ptr 0x2001b600, Imm 8], Count,
    Syscall NR_recvfrom [Reg 2, Ptr 0x2001e840, Imm 4, Imm 0x40, Imm 0, Imm 0], Count,
    Syscall NR_recvfrom [Reg 2, Ptr 0x2001e940, Imm 0x1d, Imm 0x40, Imm 0, Imm 0], Count,
    Syscall NR_sendto [Reg 2, Write_buf, Imm 0x3c, Imm 0x40, Imm 0, Imm 0], Count,
    Syscall NR_recvfrom [Reg 2, Ptr 0x2001ec80, Imm 4, Imm 0x40, Imm 0, Imm 0], Count]"

definition min_mysql_recvfrom_sendto_20_0_body117 :: "stmt list" where
  "min_mysql_recvfrom_sendto_20_0_body117 = [
    Store 4 0x2001ee40 (Reg 2), Store 2 0x2001ee44 (Imm 3), Store 2 0x2001ee46 (Imm 0),
    Store 8 0x2001ee80 (Imm 0x7080), Store 8 0x2001ee88 (Imm 0), Store 8 0x2001eec0 (Imm 1),
    Syscall NR_ppoll [Ptr 0x2001ee40, Imm 1, Ptr 0x2001ee80, Ptr 0x2001eec0, Imm 8], Count,
    Syscall NR_recvfrom [Reg 2, Ptr 0x2001efc0, Imm 4, Imm 0x40, Imm 0, Imm 0], Count,
    Syscall NR_recvfrom [Reg 2, Ptr 0x200283c0, Imm 0x23, Imm 0x40, Imm 0, Imm 0], Count,
    Syscall NR_sendto [Reg 2, Write_buf, Imm 0x3178, Imm 0x40, Imm 0, Imm 0], Count,
    Syscall NR_recvfrom [Reg 2, Ptr 0x200ab380, Imm 4, Imm 0x40, Imm 0, Imm 0], Count,
    Store 4 0x200ae5c0 (Reg 2), Store 2 0x200ae5c4 (Imm 3), Store 2 0x200ae5c6 (Imm 0),
    Store 8 0x200ae600 (Imm 0x7080), Store 8 0x200ae608 (Imm 0), Store 8 0x200ae640 (Imm 1),
    Syscall NR_ppoll [Ptr 0x200ae5c0, Imm 1, Ptr 0x200ae600, Ptr 0x200ae640, Imm 8], Count,
    Syscall NR_recvfrom [Reg 2, Ptr 0x200b7840, Imm 4, Imm 0x40, Imm 0, Imm 0], Count]"

definition min_mysql_recvfrom_sendto_20_0_body118 :: "stmt list" where
  "min_mysql_recvfrom_sendto_20_0_body118 = [
    Syscall NR_recvfrom [Reg 2, Ptr 0x200beac0, Imm 0x23, Imm 0x40, Imm 0, Imm 0], Count,
    Syscall NR_sendto [Reg 2, Write_buf, Imm 0x3178, Imm 0x40, Imm 0, Imm 0], Count,
    Syscall NR_recvfrom [Reg 2, Ptr 0x20135640, Imm 4, Imm 0x40, Imm 0, Imm 0], Count,
    Syscall NR_recvfrom [Reg 2, Ptr 0x201356c0, Imm 0x18, Imm 0x40, Imm 0, Imm 0], Count,
    Syscall NR_sendto [Reg 2, Write_buf, Imm 0x34, Imm 0x40, Imm 0, Imm 0], Count,
    Syscall NR_recvfrom [Reg 2, Ptr 0x207a9140, Imm 4, Imm 0x40, Imm 0, Imm 0], Count,
    Syscall NR_recvfrom [Reg 2, Ptr 0x207a9180, Imm 0x8d, Imm 0x40, Imm 0, Imm 0], Count,
    Syscall NR_sendto [Reg 2, Write_buf, Imm 0x34, Imm 0x40, Imm 0, Imm 0], Count,
    Syscall NR_recvfrom [Reg 2, Ptr 0x207a9300, Imm 4, Imm 0x40, Imm 0, Imm 0], Count,
    Syscall NR_recvfrom [Reg 2, Ptr 0x207a9540, Imm 0x18, Imm 0x40, Imm 0, Imm 0], Count]"

definition min_mysql_recvfrom_sendto_20_0_body119 :: "stmt list" where
  "min_mysql_recvfrom_sendto_20_0_body119 = [
    Syscall NR_sendto [Reg 2, Write_buf, Imm 0xb, Imm 0x40, Imm 0, Imm 0], Count,
    Syscall NR_recvfrom [Reg 2, Ptr 0x207a95c0, Imm 4, Imm 0x40, Imm 0, Imm 0], Count,
    Syscall NR_recvfrom [Reg 2, Ptr 0x207a9600, Imm 0xdd, Imm 0x40, Imm 0, Imm 0], Count,
    Syscall NR_sendto [Reg 2, Write_buf, Imm 0xb, Imm 0x40, Imm 0, Imm 0], Count,
    Syscall NR_recvfrom [Reg 2, Ptr 0x207a9740, Imm 4, Imm 0x40, Imm 0, Imm 0], Count,
    Syscall NR_recvfrom [Reg 2, Ptr 0x207a9800, Imm 0xb, Imm 0x40, Imm 0, Imm 0], Count,
    Syscall NR_sendto [Reg 2, Write_buf, Imm 0x18, Imm 0x40, Imm 0, Imm 0], Count,
    Syscall NR_recvfrom [Reg 2, Ptr 0x20872a80, Imm 4, Imm 0x40, Imm 0, Imm 0], Count,
    Syscall NR_recvfrom [Reg 2, Ptr 0x20873400, Imm 8, Imm 0x40, Imm 0, Imm 0], Count,
    Syscall NR_sendto [Reg 2, Write_buf, Imm 0x18, Imm 0x40, Imm 0, Imm 0], Count]"

definition min_mysql_recvfrom_sendto_20_0_body120 :: "stmt list" where
  "min_mysql_recvfrom_sendto_20_0_body120 = [
    Syscall NR_recvfrom [Reg 2, Ptr 0x20874b00, Imm 4, Imm 0x40, Imm 0, Imm 0], Count,
    Syscall NR_recvfrom [Reg 2, Ptr 0x208755c0, Imm 0x18, Imm 0x40, Imm 0, Imm 0], Count,
    Syscall NR_sendto [Reg 2, Write_buf, Imm 0xc0, Imm 0x40, Imm 0, Imm 0], Count,
    Syscall NR_recvfrom [Reg 2, Ptr 0x20876dc0, Imm 4, Imm 0x40, Imm 0, Imm 0], Count,
    Syscall NR_recvfrom [Reg 2, Ptr 0x20877880, Imm 0x15, Imm 0x40, Imm 0, Imm 0], Count,
    Syscall NR_sendto [Reg 2, Write_buf, Imm 0xc0, Imm 0x40, Imm 0, Imm 0], Count,
    Syscall NR_recvfrom [Reg 2, Ptr 0x2087c240, Imm 4, Imm 0x40, Imm 0, Imm 0], Count,
    Syscall NR_recvfrom [Reg 2, Ptr 0x2087fe40, Imm 0x15, Imm 0x40, Imm 0, Imm 0], Count,
    Syscall NR_sendto [Reg 2, Write_buf, Imm 0xc0, Imm 0x40, Imm 0, Imm 0], Count,
    Syscall NR_recvfrom [Reg 2, Ptr 0x20884d80, Imm 4, Imm 0x40, Imm 0, Imm 0], Count]"

lemma min_mysql_recvfrom_sendto_20_0_body1_ok: "body_ok 3 12666 min_mysql_recvfrom_sendto_20_0_body1" "counted min_mysql_recvfrom_sendto_20_0_body1" "calls min_mysql_recvfrom_sendto_20_0_body1 = 7" "opened_in m min_mysql_recvfrom_sendto_20_0_body1 = []"
  by (simp_all add: min_mysql_recvfrom_sendto_20_0_body1_def prog_checks open_checks)

lemma min_mysql_recvfrom_sendto_20_0_body2_ok: "body_ok 3 12666 min_mysql_recvfrom_sendto_20_0_body2" "counted min_mysql_recvfrom_sendto_20_0_body2" "calls min_mysql_recvfrom_sendto_20_0_body2 = 10" "opened_in m min_mysql_recvfrom_sendto_20_0_body2 = []"
  by (simp_all add: min_mysql_recvfrom_sendto_20_0_body2_def prog_checks open_checks)

lemma min_mysql_recvfrom_sendto_20_0_body3_ok: "body_ok 3 12666 min_mysql_recvfrom_sendto_20_0_body3" "counted min_mysql_recvfrom_sendto_20_0_body3" "calls min_mysql_recvfrom_sendto_20_0_body3 = 10" "opened_in m min_mysql_recvfrom_sendto_20_0_body3 = []"
  by (simp_all add: min_mysql_recvfrom_sendto_20_0_body3_def prog_checks open_checks)

lemma min_mysql_recvfrom_sendto_20_0_body4_ok: "body_ok 3 12666 min_mysql_recvfrom_sendto_20_0_body4" "counted min_mysql_recvfrom_sendto_20_0_body4" "calls min_mysql_recvfrom_sendto_20_0_body4 = 10" "opened_in m min_mysql_recvfrom_sendto_20_0_body4 = []"
  by (simp_all add: min_mysql_recvfrom_sendto_20_0_body4_def prog_checks open_checks)

lemma min_mysql_recvfrom_sendto_20_0_body5_ok: "body_ok 3 12666 min_mysql_recvfrom_sendto_20_0_body5" "counted min_mysql_recvfrom_sendto_20_0_body5" "calls min_mysql_recvfrom_sendto_20_0_body5 = 10" "opened_in m min_mysql_recvfrom_sendto_20_0_body5 = []"
  by (simp_all add: min_mysql_recvfrom_sendto_20_0_body5_def prog_checks open_checks)

lemma min_mysql_recvfrom_sendto_20_0_body6_ok: "body_ok 3 12666 min_mysql_recvfrom_sendto_20_0_body6" "counted min_mysql_recvfrom_sendto_20_0_body6" "calls min_mysql_recvfrom_sendto_20_0_body6 = 10" "opened_in m min_mysql_recvfrom_sendto_20_0_body6 = []"
  by (simp_all add: min_mysql_recvfrom_sendto_20_0_body6_def prog_checks open_checks)

lemma min_mysql_recvfrom_sendto_20_0_body7_ok: "body_ok 3 12666 min_mysql_recvfrom_sendto_20_0_body7" "counted min_mysql_recvfrom_sendto_20_0_body7" "calls min_mysql_recvfrom_sendto_20_0_body7 = 10" "opened_in m min_mysql_recvfrom_sendto_20_0_body7 = []"
  by (simp_all add: min_mysql_recvfrom_sendto_20_0_body7_def prog_checks open_checks)

lemma min_mysql_recvfrom_sendto_20_0_body8_ok: "body_ok 3 12666 min_mysql_recvfrom_sendto_20_0_body8" "counted min_mysql_recvfrom_sendto_20_0_body8" "calls min_mysql_recvfrom_sendto_20_0_body8 = 10" "opened_in m min_mysql_recvfrom_sendto_20_0_body8 = []"
  by (simp_all add: min_mysql_recvfrom_sendto_20_0_body8_def prog_checks open_checks)

lemma min_mysql_recvfrom_sendto_20_0_body9_ok: "body_ok 3 12666 min_mysql_recvfrom_sendto_20_0_body9" "counted min_mysql_recvfrom_sendto_20_0_body9" "calls min_mysql_recvfrom_sendto_20_0_body9 = 10" "opened_in m min_mysql_recvfrom_sendto_20_0_body9 = []"
  by (simp_all add: min_mysql_recvfrom_sendto_20_0_body9_def prog_checks open_checks)

lemma min_mysql_recvfrom_sendto_20_0_body10_ok: "body_ok 3 12666 min_mysql_recvfrom_sendto_20_0_body10" "counted min_mysql_recvfrom_sendto_20_0_body10" "calls min_mysql_recvfrom_sendto_20_0_body10 = 10" "opened_in m min_mysql_recvfrom_sendto_20_0_body10 = []"
  by (simp_all add: min_mysql_recvfrom_sendto_20_0_body10_def prog_checks open_checks)

lemma min_mysql_recvfrom_sendto_20_0_body11_ok: "body_ok 3 12666 min_mysql_recvfrom_sendto_20_0_body11" "counted min_mysql_recvfrom_sendto_20_0_body11" "calls min_mysql_recvfrom_sendto_20_0_body11 = 10" "opened_in m min_mysql_recvfrom_sendto_20_0_body11 = []"
  by (simp_all add: min_mysql_recvfrom_sendto_20_0_body11_def prog_checks open_checks)

lemma min_mysql_recvfrom_sendto_20_0_body12_ok: "body_ok 3 12666 min_mysql_recvfrom_sendto_20_0_body12" "counted min_mysql_recvfrom_sendto_20_0_body12" "calls min_mysql_recvfrom_sendto_20_0_body12 = 10" "opened_in m min_mysql_recvfrom_sendto_20_0_body12 = []"
  by (simp_all add: min_mysql_recvfrom_sendto_20_0_body12_def prog_checks open_checks)

lemma min_mysql_recvfrom_sendto_20_0_body13_ok: "body_ok 3 12666 min_mysql_recvfrom_sendto_20_0_body13" "counted min_mysql_recvfrom_sendto_20_0_body13" "calls min_mysql_recvfrom_sendto_20_0_body13 = 10" "opened_in m min_mysql_recvfrom_sendto_20_0_body13 = []"
  by (simp_all add: min_mysql_recvfrom_sendto_20_0_body13_def prog_checks open_checks)

lemma min_mysql_recvfrom_sendto_20_0_body14_ok: "body_ok 3 12666 min_mysql_recvfrom_sendto_20_0_body14" "counted min_mysql_recvfrom_sendto_20_0_body14" "calls min_mysql_recvfrom_sendto_20_0_body14 = 10" "opened_in m min_mysql_recvfrom_sendto_20_0_body14 = []"
  by (simp_all add: min_mysql_recvfrom_sendto_20_0_body14_def prog_checks open_checks)

lemma min_mysql_recvfrom_sendto_20_0_body15_ok: "body_ok 3 12666 min_mysql_recvfrom_sendto_20_0_body15" "counted min_mysql_recvfrom_sendto_20_0_body15" "calls min_mysql_recvfrom_sendto_20_0_body15 = 10" "opened_in m min_mysql_recvfrom_sendto_20_0_body15 = []"
  by (simp_all add: min_mysql_recvfrom_sendto_20_0_body15_def prog_checks open_checks)

lemma min_mysql_recvfrom_sendto_20_0_body16_ok: "body_ok 3 12666 min_mysql_recvfrom_sendto_20_0_body16" "counted min_mysql_recvfrom_sendto_20_0_body16" "calls min_mysql_recvfrom_sendto_20_0_body16 = 10" "opened_in m min_mysql_recvfrom_sendto_20_0_body16 = []"
  by (simp_all add: min_mysql_recvfrom_sendto_20_0_body16_def prog_checks open_checks)

lemma min_mysql_recvfrom_sendto_20_0_body17_ok: "body_ok 3 12666 min_mysql_recvfrom_sendto_20_0_body17" "counted min_mysql_recvfrom_sendto_20_0_body17" "calls min_mysql_recvfrom_sendto_20_0_body17 = 10" "opened_in m min_mysql_recvfrom_sendto_20_0_body17 = []"
  by (simp_all add: min_mysql_recvfrom_sendto_20_0_body17_def prog_checks open_checks)

lemma min_mysql_recvfrom_sendto_20_0_body18_ok: "body_ok 3 12666 min_mysql_recvfrom_sendto_20_0_body18" "counted min_mysql_recvfrom_sendto_20_0_body18" "calls min_mysql_recvfrom_sendto_20_0_body18 = 10" "opened_in m min_mysql_recvfrom_sendto_20_0_body18 = []"
  by (simp_all add: min_mysql_recvfrom_sendto_20_0_body18_def prog_checks open_checks)

lemma min_mysql_recvfrom_sendto_20_0_body19_ok: "body_ok 3 12666 min_mysql_recvfrom_sendto_20_0_body19" "counted min_mysql_recvfrom_sendto_20_0_body19" "calls min_mysql_recvfrom_sendto_20_0_body19 = 10" "opened_in m min_mysql_recvfrom_sendto_20_0_body19 = []"
  by (simp_all add: min_mysql_recvfrom_sendto_20_0_body19_def prog_checks open_checks)

lemma min_mysql_recvfrom_sendto_20_0_body20_ok: "body_ok 3 12666 min_mysql_recvfrom_sendto_20_0_body20" "counted min_mysql_recvfrom_sendto_20_0_body20" "calls min_mysql_recvfrom_sendto_20_0_body20 = 10" "opened_in m min_mysql_recvfrom_sendto_20_0_body20 = []"
  by (simp_all add: min_mysql_recvfrom_sendto_20_0_body20_def prog_checks open_checks)

lemma min_mysql_recvfrom_sendto_20_0_body21_ok: "body_ok 3 12666 min_mysql_recvfrom_sendto_20_0_body21" "counted min_mysql_recvfrom_sendto_20_0_body21" "calls min_mysql_recvfrom_sendto_20_0_body21 = 10" "opened_in m min_mysql_recvfrom_sendto_20_0_body21 = []"
  by (simp_all add: min_mysql_recvfrom_sendto_20_0_body21_def prog_checks open_checks)

lemma min_mysql_recvfrom_sendto_20_0_body22_ok: "body_ok 3 12666 min_mysql_recvfrom_sendto_20_0_body22" "counted min_mysql_recvfrom_sendto_20_0_body22" "calls min_mysql_recvfrom_sendto_20_0_body22 = 10" "opened_in m min_mysql_recvfrom_sendto_20_0_body22 = []"
  by (simp_all add: min_mysql_recvfrom_sendto_20_0_body22_def prog_checks open_checks)

lemma min_mysql_recvfrom_sendto_20_0_body23_ok: "body_ok 3 12666 min_mysql_recvfrom_sendto_20_0_body23" "counted min_mysql_recvfrom_sendto_20_0_body23" "calls min_mysql_recvfrom_sendto_20_0_body23 = 10" "opened_in m min_mysql_recvfrom_sendto_20_0_body23 = []"
  by (simp_all add: min_mysql_recvfrom_sendto_20_0_body23_def prog_checks open_checks)

lemma min_mysql_recvfrom_sendto_20_0_body24_ok: "body_ok 3 12666 min_mysql_recvfrom_sendto_20_0_body24" "counted min_mysql_recvfrom_sendto_20_0_body24" "calls min_mysql_recvfrom_sendto_20_0_body24 = 10" "opened_in m min_mysql_recvfrom_sendto_20_0_body24 = []"
  by (simp_all add: min_mysql_recvfrom_sendto_20_0_body24_def prog_checks open_checks)

lemma min_mysql_recvfrom_sendto_20_0_body25_ok: "body_ok 3 12666 min_mysql_recvfrom_sendto_20_0_body25" "counted min_mysql_recvfrom_sendto_20_0_body25" "calls min_mysql_recvfrom_sendto_20_0_body25 = 10" "opened_in m min_mysql_recvfrom_sendto_20_0_body25 = []"
  by (simp_all add: min_mysql_recvfrom_sendto_20_0_body25_def prog_checks open_checks)

lemma min_mysql_recvfrom_sendto_20_0_body26_ok: "body_ok 3 12666 min_mysql_recvfrom_sendto_20_0_body26" "counted min_mysql_recvfrom_sendto_20_0_body26" "calls min_mysql_recvfrom_sendto_20_0_body26 = 10" "opened_in m min_mysql_recvfrom_sendto_20_0_body26 = []"
  by (simp_all add: min_mysql_recvfrom_sendto_20_0_body26_def prog_checks open_checks)

lemma min_mysql_recvfrom_sendto_20_0_body27_ok: "body_ok 3 12666 min_mysql_recvfrom_sendto_20_0_body27" "counted min_mysql_recvfrom_sendto_20_0_body27" "calls min_mysql_recvfrom_sendto_20_0_body27 = 10" "opened_in m min_mysql_recvfrom_sendto_20_0_body27 = []"
  by (simp_all add: min_mysql_recvfrom_sendto_20_0_body27_def prog_checks open_checks)

lemma min_mysql_recvfrom_sendto_20_0_body28_ok: "body_ok 3 12666 min_mysql_recvfrom_sendto_20_0_body28" "counted min_mysql_recvfrom_sendto_20_0_body28" "calls min_mysql_recvfrom_sendto_20_0_body28 = 10" "opened_in m min_mysql_recvfrom_sendto_20_0_body28 = []"
  by (simp_all add: min_mysql_recvfrom_sendto_20_0_body28_def prog_checks open_checks)

lemma min_mysql_recvfrom_sendto_20_0_body29_ok: "body_ok 3 12666 min_mysql_recvfrom_sendto_20_0_body29" "counted min_mysql_recvfrom_sendto_20_0_body29" "calls min_mysql_recvfrom_sendto_20_0_body29 = 10" "opened_in m min_mysql_recvfrom_sendto_20_0_body29 = []"
  by (simp_all add: min_mysql_recvfrom_sendto_20_0_body29_def prog_checks open_checks)

lemma min_mysql_recvfrom_sendto_20_0_body30_ok: "body_ok 3 12666 min_mysql_recvfrom_sendto_20_0_body30" "counted min_mysql_recvfrom_sendto_20_0_body30" "calls min_mysql_recvfrom_sendto_20_0_body30 = 10" "opened_in m min_mysql_recvfrom_sendto_20_0_body30 = []"
  by (simp_all add: min_mysql_recvfrom_sendto_20_0_body30_def prog_checks open_checks)

lemma min_mysql_recvfrom_sendto_20_0_body31_ok: "body_ok 3 12666 min_mysql_recvfrom_sendto_20_0_body31" "counted min_mysql_recvfrom_sendto_20_0_body31" "calls min_mysql_recvfrom_sendto_20_0_body31 = 10" "opened_in m min_mysql_recvfrom_sendto_20_0_body31 = []"
  by (simp_all add: min_mysql_recvfrom_sendto_20_0_body31_def prog_checks open_checks)

lemma min_mysql_recvfrom_sendto_20_0_body32_ok: "body_ok 3 12666 min_mysql_recvfrom_sendto_20_0_body32" "counted min_mysql_recvfrom_sendto_20_0_body32" "calls min_mysql_recvfrom_sendto_20_0_body32 = 10" "opened_in m min_mysql_recvfrom_sendto_20_0_body32 = []"
  by (simp_all add: min_mysql_recvfrom_sendto_20_0_body32_def prog_checks open_checks)

lemma min_mysql_recvfrom_sendto_20_0_body33_ok: "body_ok 3 12666 min_mysql_recvfrom_sendto_20_0_body33" "counted min_mysql_recvfrom_sendto_20_0_body33" "calls min_mysql_recvfrom_sendto_20_0_body33 = 10" "opened_in m min_mysql_recvfrom_sendto_20_0_body33 = []"
  by (simp_all add: min_mysql_recvfrom_sendto_20_0_body33_def prog_checks open_checks)

lemma min_mysql_recvfrom_sendto_20_0_body34_ok: "body_ok 3 12666 min_mysql_recvfrom_sendto_20_0_body34" "counted min_mysql_recvfrom_sendto_20_0_body34" "calls min_mysql_recvfrom_sendto_20_0_body34 = 10" "opened_in m min_mysql_recvfrom_sendto_20_0_body34 = []"
  by (simp_all add: min_mysql_recvfrom_sendto_20_0_body34_def prog_checks open_checks)

lemma min_mysql_recvfrom_sendto_20_0_body35_ok: "body_ok 3 12666 min_mysql_recvfrom_sendto_20_0_body35" "counted min_mysql_recvfrom_sendto_20_0_body35" "calls min_mysql_recvfrom_sendto_20_0_body35 = 10" "opened_in m min_mysql_recvfrom_sendto_20_0_body35 = []"
  by (simp_all add: min_mysql_recvfrom_sendto_20_0_body35_def prog_checks open_checks)

lemma min_mysql_recvfrom_sendto_20_0_body36_ok: "body_ok 3 12666 min_mysql_recvfrom_sendto_20_0_body36" "counted min_mysql_recvfrom_sendto_20_0_body36" "calls min_mysql_recvfrom_sendto_20_0_body36 = 10" "opened_in m min_mysql_recvfrom_sendto_20_0_body36 = []"
  by (simp_all add: min_mysql_recvfrom_sendto_20_0_body36_def prog_checks open_checks)

lemma min_mysql_recvfrom_sendto_20_0_body37_ok: "body_ok 3 12666 min_mysql_recvfrom_sendto_20_0_body37" "counted min_mysql_recvfrom_sendto_20_0_body37" "calls min_mysql_recvfrom_sendto_20_0_body37 = 10" "opened_in m min_mysql_recvfrom_sendto_20_0_body37 = []"
  by (simp_all add: min_mysql_recvfrom_sendto_20_0_body37_def prog_checks open_checks)

lemma min_mysql_recvfrom_sendto_20_0_body38_ok: "body_ok 3 12666 min_mysql_recvfrom_sendto_20_0_body38" "counted min_mysql_recvfrom_sendto_20_0_body38" "calls min_mysql_recvfrom_sendto_20_0_body38 = 10" "opened_in m min_mysql_recvfrom_sendto_20_0_body38 = []"
  by (simp_all add: min_mysql_recvfrom_sendto_20_0_body38_def prog_checks open_checks)

lemma min_mysql_recvfrom_sendto_20_0_body39_ok: "body_ok 3 12666 min_mysql_recvfrom_sendto_20_0_body39" "counted min_mysql_recvfrom_sendto_20_0_body39" "calls min_mysql_recvfrom_sendto_20_0_body39 = 10" "opened_in m min_mysql_recvfrom_sendto_20_0_body39 = []"
  by (simp_all add: min_mysql_recvfrom_sendto_20_0_body39_def prog_checks open_checks)

lemma min_mysql_recvfrom_sendto_20_0_body40_ok: "body_ok 3 12666 min_mysql_recvfrom_sendto_20_0_body40" "counted min_mysql_recvfrom_sendto_20_0_body40" "calls min_mysql_recvfrom_sendto_20_0_body40 = 10" "opened_in m min_mysql_recvfrom_sendto_20_0_body40 = []"
  by (simp_all add: min_mysql_recvfrom_sendto_20_0_body40_def prog_checks open_checks)

lemma min_mysql_recvfrom_sendto_20_0_body41_ok: "body_ok 3 12666 min_mysql_recvfrom_sendto_20_0_body41" "counted min_mysql_recvfrom_sendto_20_0_body41" "calls min_mysql_recvfrom_sendto_20_0_body41 = 9" "opened_in m min_mysql_recvfrom_sendto_20_0_body41 = []"
  by (simp_all add: min_mysql_recvfrom_sendto_20_0_body41_def prog_checks open_checks)

lemma min_mysql_recvfrom_sendto_20_0_body42_ok: "body_ok 3 12666 min_mysql_recvfrom_sendto_20_0_body42" "counted min_mysql_recvfrom_sendto_20_0_body42" "calls min_mysql_recvfrom_sendto_20_0_body42 = 10" "opened_in m min_mysql_recvfrom_sendto_20_0_body42 = []"
  by (simp_all add: min_mysql_recvfrom_sendto_20_0_body42_def prog_checks open_checks)

lemma min_mysql_recvfrom_sendto_20_0_body43_ok: "body_ok 3 12666 min_mysql_recvfrom_sendto_20_0_body43" "counted min_mysql_recvfrom_sendto_20_0_body43" "calls min_mysql_recvfrom_sendto_20_0_body43 = 10" "opened_in m min_mysql_recvfrom_sendto_20_0_body43 = []"
  by (simp_all add: min_mysql_recvfrom_sendto_20_0_body43_def prog_checks open_checks)

lemma min_mysql_recvfrom_sendto_20_0_body44_ok: "body_ok 3 12666 min_mysql_recvfrom_sendto_20_0_body44" "counted min_mysql_recvfrom_sendto_20_0_body44" "calls min_mysql_recvfrom_sendto_20_0_body44 = 10" "opened_in m min_mysql_recvfrom_sendto_20_0_body44 = []"
  by (simp_all add: min_mysql_recvfrom_sendto_20_0_body44_def prog_checks open_checks)

lemma min_mysql_recvfrom_sendto_20_0_body45_ok: "body_ok 3 12666 min_mysql_recvfrom_sendto_20_0_body45" "counted min_mysql_recvfrom_sendto_20_0_body45" "calls min_mysql_recvfrom_sendto_20_0_body45 = 10" "opened_in m min_mysql_recvfrom_sendto_20_0_body45 = []"
  by (simp_all add: min_mysql_recvfrom_sendto_20_0_body45_def prog_checks open_checks)

lemma min_mysql_recvfrom_sendto_20_0_body46_ok: "body_ok 3 12666 min_mysql_recvfrom_sendto_20_0_body46" "counted min_mysql_recvfrom_sendto_20_0_body46" "calls min_mysql_recvfrom_sendto_20_0_body46 = 10" "opened_in m min_mysql_recvfrom_sendto_20_0_body46 = []"
  by (simp_all add: min_mysql_recvfrom_sendto_20_0_body46_def prog_checks open_checks)

lemma min_mysql_recvfrom_sendto_20_0_body47_ok: "body_ok 3 12666 min_mysql_recvfrom_sendto_20_0_body47" "counted min_mysql_recvfrom_sendto_20_0_body47" "calls min_mysql_recvfrom_sendto_20_0_body47 = 10" "opened_in m min_mysql_recvfrom_sendto_20_0_body47 = []"
  by (simp_all add: min_mysql_recvfrom_sendto_20_0_body47_def prog_checks open_checks)

lemma min_mysql_recvfrom_sendto_20_0_body48_ok: "body_ok 3 12666 min_mysql_recvfrom_sendto_20_0_body48" "counted min_mysql_recvfrom_sendto_20_0_body48" "calls min_mysql_recvfrom_sendto_20_0_body48 = 10" "opened_in m min_mysql_recvfrom_sendto_20_0_body48 = []"
  by (simp_all add: min_mysql_recvfrom_sendto_20_0_body48_def prog_checks open_checks)

lemma min_mysql_recvfrom_sendto_20_0_body49_ok: "body_ok 3 12666 min_mysql_recvfrom_sendto_20_0_body49" "counted min_mysql_recvfrom_sendto_20_0_body49" "calls min_mysql_recvfrom_sendto_20_0_body49 = 10" "opened_in m min_mysql_recvfrom_sendto_20_0_body49 = []"
  by (simp_all add: min_mysql_recvfrom_sendto_20_0_body49_def prog_checks open_checks)

lemma min_mysql_recvfrom_sendto_20_0_body50_ok: "body_ok 3 12666 min_mysql_recvfrom_sendto_20_0_body50" "counted min_mysql_recvfrom_sendto_20_0_body50" "calls min_mysql_recvfrom_sendto_20_0_body50 = 10" "opened_in m min_mysql_recvfrom_sendto_20_0_body50 = []"
  by (simp_all add: min_mysql_recvfrom_sendto_20_0_body50_def prog_checks open_checks)

lemma min_mysql_recvfrom_sendto_20_0_body51_ok: "body_ok 3 12666 min_mysql_recvfrom_sendto_20_0_body51" "counted min_mysql_recvfrom_sendto_20_0_body51" "calls min_mysql_recvfrom_sendto_20_0_body51 = 10" "opened_in m min_mysql_recvfrom_sendto_20_0_body51 = []"
  by (simp_all add: min_mysql_recvfrom_sendto_20_0_body51_def prog_checks open_checks)

lemma min_mysql_recvfrom_sendto_20_0_body52_ok: "body_ok 3 12666 min_mysql_recvfrom_sendto_20_0_body52" "counted min_mysql_recvfrom_sendto_20_0_body52" "calls min_mysql_recvfrom_sendto_20_0_body52 = 10" "opened_in m min_mysql_recvfrom_sendto_20_0_body52 = []"
  by (simp_all add: min_mysql_recvfrom_sendto_20_0_body52_def prog_checks open_checks)

lemma min_mysql_recvfrom_sendto_20_0_body53_ok: "body_ok 3 12666 min_mysql_recvfrom_sendto_20_0_body53" "counted min_mysql_recvfrom_sendto_20_0_body53" "calls min_mysql_recvfrom_sendto_20_0_body53 = 10" "opened_in m min_mysql_recvfrom_sendto_20_0_body53 = []"
  by (simp_all add: min_mysql_recvfrom_sendto_20_0_body53_def prog_checks open_checks)

lemma min_mysql_recvfrom_sendto_20_0_body54_ok: "body_ok 3 12666 min_mysql_recvfrom_sendto_20_0_body54" "counted min_mysql_recvfrom_sendto_20_0_body54" "calls min_mysql_recvfrom_sendto_20_0_body54 = 9" "opened_in m min_mysql_recvfrom_sendto_20_0_body54 = []"
  by (simp_all add: min_mysql_recvfrom_sendto_20_0_body54_def prog_checks open_checks)

lemma min_mysql_recvfrom_sendto_20_0_body55_ok: "body_ok 3 12666 min_mysql_recvfrom_sendto_20_0_body55" "counted min_mysql_recvfrom_sendto_20_0_body55" "calls min_mysql_recvfrom_sendto_20_0_body55 = 8" "opened_in m min_mysql_recvfrom_sendto_20_0_body55 = []"
  by (simp_all add: min_mysql_recvfrom_sendto_20_0_body55_def prog_checks open_checks)

lemma min_mysql_recvfrom_sendto_20_0_body56_ok: "body_ok 3 12666 min_mysql_recvfrom_sendto_20_0_body56" "counted min_mysql_recvfrom_sendto_20_0_body56" "calls min_mysql_recvfrom_sendto_20_0_body56 = 9" "opened_in m min_mysql_recvfrom_sendto_20_0_body56 = []"
  by (simp_all add: min_mysql_recvfrom_sendto_20_0_body56_def prog_checks open_checks)

lemma min_mysql_recvfrom_sendto_20_0_body57_ok: "body_ok 3 12666 min_mysql_recvfrom_sendto_20_0_body57" "counted min_mysql_recvfrom_sendto_20_0_body57" "calls min_mysql_recvfrom_sendto_20_0_body57 = 10" "opened_in m min_mysql_recvfrom_sendto_20_0_body57 = []"
  by (simp_all add: min_mysql_recvfrom_sendto_20_0_body57_def prog_checks open_checks)

lemma min_mysql_recvfrom_sendto_20_0_body58_ok: "body_ok 3 12666 min_mysql_recvfrom_sendto_20_0_body58" "counted min_mysql_recvfrom_sendto_20_0_body58" "calls min_mysql_recvfrom_sendto_20_0_body58 = 9" "opened_in m min_mysql_recvfrom_sendto_20_0_body58 = []"
  by (simp_all add: min_mysql_recvfrom_sendto_20_0_body58_def prog_checks open_checks)

lemma min_mysql_recvfrom_sendto_20_0_body59_ok: "body_ok 3 12666 min_mysql_recvfrom_sendto_20_0_body59" "counted min_mysql_recvfrom_sendto_20_0_body59" "calls min_mysql_recvfrom_sendto_20_0_body59 = 10" "opened_in m min_mysql_recvfrom_sendto_20_0_body59 = []"
  by (simp_all add: min_mysql_recvfrom_sendto_20_0_body59_def prog_checks open_checks)

lemma min_mysql_recvfrom_sendto_20_0_body60_ok: "body_ok 3 12666 min_mysql_recvfrom_sendto_20_0_body60" "counted min_mysql_recvfrom_sendto_20_0_body60" "calls min_mysql_recvfrom_sendto_20_0_body60 = 10" "opened_in m min_mysql_recvfrom_sendto_20_0_body60 = []"
  by (simp_all add: min_mysql_recvfrom_sendto_20_0_body60_def prog_checks open_checks)

lemma min_mysql_recvfrom_sendto_20_0_body61_ok: "body_ok 3 12666 min_mysql_recvfrom_sendto_20_0_body61" "counted min_mysql_recvfrom_sendto_20_0_body61" "calls min_mysql_recvfrom_sendto_20_0_body61 = 10" "opened_in m min_mysql_recvfrom_sendto_20_0_body61 = []"
  by (simp_all add: min_mysql_recvfrom_sendto_20_0_body61_def prog_checks open_checks)

lemma min_mysql_recvfrom_sendto_20_0_body62_ok: "body_ok 3 12666 min_mysql_recvfrom_sendto_20_0_body62" "counted min_mysql_recvfrom_sendto_20_0_body62" "calls min_mysql_recvfrom_sendto_20_0_body62 = 10" "opened_in m min_mysql_recvfrom_sendto_20_0_body62 = []"
  by (simp_all add: min_mysql_recvfrom_sendto_20_0_body62_def prog_checks open_checks)

lemma min_mysql_recvfrom_sendto_20_0_body63_ok: "body_ok 3 12666 min_mysql_recvfrom_sendto_20_0_body63" "counted min_mysql_recvfrom_sendto_20_0_body63" "calls min_mysql_recvfrom_sendto_20_0_body63 = 10" "opened_in m min_mysql_recvfrom_sendto_20_0_body63 = []"
  by (simp_all add: min_mysql_recvfrom_sendto_20_0_body63_def prog_checks open_checks)

lemma min_mysql_recvfrom_sendto_20_0_body64_ok: "body_ok 3 12666 min_mysql_recvfrom_sendto_20_0_body64" "counted min_mysql_recvfrom_sendto_20_0_body64" "calls min_mysql_recvfrom_sendto_20_0_body64 = 10" "opened_in m min_mysql_recvfrom_sendto_20_0_body64 = []"
  by (simp_all add: min_mysql_recvfrom_sendto_20_0_body64_def prog_checks open_checks)

lemma min_mysql_recvfrom_sendto_20_0_body65_ok: "body_ok 3 12666 min_mysql_recvfrom_sendto_20_0_body65" "counted min_mysql_recvfrom_sendto_20_0_body65" "calls min_mysql_recvfrom_sendto_20_0_body65 = 10" "opened_in m min_mysql_recvfrom_sendto_20_0_body65 = []"
  by (simp_all add: min_mysql_recvfrom_sendto_20_0_body65_def prog_checks open_checks)

lemma min_mysql_recvfrom_sendto_20_0_body66_ok: "body_ok 3 12666 min_mysql_recvfrom_sendto_20_0_body66" "counted min_mysql_recvfrom_sendto_20_0_body66" "calls min_mysql_recvfrom_sendto_20_0_body66 = 10" "opened_in m min_mysql_recvfrom_sendto_20_0_body66 = []"
  by (simp_all add: min_mysql_recvfrom_sendto_20_0_body66_def prog_checks open_checks)

lemma min_mysql_recvfrom_sendto_20_0_body67_ok: "body_ok 3 12666 min_mysql_recvfrom_sendto_20_0_body67" "counted min_mysql_recvfrom_sendto_20_0_body67" "calls min_mysql_recvfrom_sendto_20_0_body67 = 10" "opened_in m min_mysql_recvfrom_sendto_20_0_body67 = []"
  by (simp_all add: min_mysql_recvfrom_sendto_20_0_body67_def prog_checks open_checks)

lemma min_mysql_recvfrom_sendto_20_0_body68_ok: "body_ok 3 12666 min_mysql_recvfrom_sendto_20_0_body68" "counted min_mysql_recvfrom_sendto_20_0_body68" "calls min_mysql_recvfrom_sendto_20_0_body68 = 10" "opened_in m min_mysql_recvfrom_sendto_20_0_body68 = []"
  by (simp_all add: min_mysql_recvfrom_sendto_20_0_body68_def prog_checks open_checks)

lemma min_mysql_recvfrom_sendto_20_0_body69_ok: "body_ok 3 12666 min_mysql_recvfrom_sendto_20_0_body69" "counted min_mysql_recvfrom_sendto_20_0_body69" "calls min_mysql_recvfrom_sendto_20_0_body69 = 10" "opened_in m min_mysql_recvfrom_sendto_20_0_body69 = []"
  by (simp_all add: min_mysql_recvfrom_sendto_20_0_body69_def prog_checks open_checks)

lemma min_mysql_recvfrom_sendto_20_0_body70_ok: "body_ok 3 12666 min_mysql_recvfrom_sendto_20_0_body70" "counted min_mysql_recvfrom_sendto_20_0_body70" "calls min_mysql_recvfrom_sendto_20_0_body70 = 10" "opened_in m min_mysql_recvfrom_sendto_20_0_body70 = []"
  by (simp_all add: min_mysql_recvfrom_sendto_20_0_body70_def prog_checks open_checks)

lemma min_mysql_recvfrom_sendto_20_0_body71_ok: "body_ok 3 12666 min_mysql_recvfrom_sendto_20_0_body71" "counted min_mysql_recvfrom_sendto_20_0_body71" "calls min_mysql_recvfrom_sendto_20_0_body71 = 10" "opened_in m min_mysql_recvfrom_sendto_20_0_body71 = []"
  by (simp_all add: min_mysql_recvfrom_sendto_20_0_body71_def prog_checks open_checks)

lemma min_mysql_recvfrom_sendto_20_0_body72_ok: "body_ok 3 12666 min_mysql_recvfrom_sendto_20_0_body72" "counted min_mysql_recvfrom_sendto_20_0_body72" "calls min_mysql_recvfrom_sendto_20_0_body72 = 10" "opened_in m min_mysql_recvfrom_sendto_20_0_body72 = []"
  by (simp_all add: min_mysql_recvfrom_sendto_20_0_body72_def prog_checks open_checks)

lemma min_mysql_recvfrom_sendto_20_0_body73_ok: "body_ok 3 12666 min_mysql_recvfrom_sendto_20_0_body73" "counted min_mysql_recvfrom_sendto_20_0_body73" "calls min_mysql_recvfrom_sendto_20_0_body73 = 10" "opened_in m min_mysql_recvfrom_sendto_20_0_body73 = []"
  by (simp_all add: min_mysql_recvfrom_sendto_20_0_body73_def prog_checks open_checks)

lemma min_mysql_recvfrom_sendto_20_0_body74_ok: "body_ok 3 12666 min_mysql_recvfrom_sendto_20_0_body74" "counted min_mysql_recvfrom_sendto_20_0_body74" "calls min_mysql_recvfrom_sendto_20_0_body74 = 10" "opened_in m min_mysql_recvfrom_sendto_20_0_body74 = []"
  by (simp_all add: min_mysql_recvfrom_sendto_20_0_body74_def prog_checks open_checks)

lemma min_mysql_recvfrom_sendto_20_0_body75_ok: "body_ok 3 12666 min_mysql_recvfrom_sendto_20_0_body75" "counted min_mysql_recvfrom_sendto_20_0_body75" "calls min_mysql_recvfrom_sendto_20_0_body75 = 10" "opened_in m min_mysql_recvfrom_sendto_20_0_body75 = []"
  by (simp_all add: min_mysql_recvfrom_sendto_20_0_body75_def prog_checks open_checks)

lemma min_mysql_recvfrom_sendto_20_0_body76_ok: "body_ok 3 12666 min_mysql_recvfrom_sendto_20_0_body76" "counted min_mysql_recvfrom_sendto_20_0_body76" "calls min_mysql_recvfrom_sendto_20_0_body76 = 10" "opened_in m min_mysql_recvfrom_sendto_20_0_body76 = []"
  by (simp_all add: min_mysql_recvfrom_sendto_20_0_body76_def prog_checks open_checks)

lemma min_mysql_recvfrom_sendto_20_0_body77_ok: "body_ok 3 12666 min_mysql_recvfrom_sendto_20_0_body77" "counted min_mysql_recvfrom_sendto_20_0_body77" "calls min_mysql_recvfrom_sendto_20_0_body77 = 10" "opened_in m min_mysql_recvfrom_sendto_20_0_body77 = []"
  by (simp_all add: min_mysql_recvfrom_sendto_20_0_body77_def prog_checks open_checks)

lemma min_mysql_recvfrom_sendto_20_0_body78_ok: "body_ok 3 12666 min_mysql_recvfrom_sendto_20_0_body78" "counted min_mysql_recvfrom_sendto_20_0_body78" "calls min_mysql_recvfrom_sendto_20_0_body78 = 10" "opened_in m min_mysql_recvfrom_sendto_20_0_body78 = []"
  by (simp_all add: min_mysql_recvfrom_sendto_20_0_body78_def prog_checks open_checks)

lemma min_mysql_recvfrom_sendto_20_0_body79_ok: "body_ok 3 12666 min_mysql_recvfrom_sendto_20_0_body79" "counted min_mysql_recvfrom_sendto_20_0_body79" "calls min_mysql_recvfrom_sendto_20_0_body79 = 10" "opened_in m min_mysql_recvfrom_sendto_20_0_body79 = []"
  by (simp_all add: min_mysql_recvfrom_sendto_20_0_body79_def prog_checks open_checks)

lemma min_mysql_recvfrom_sendto_20_0_body80_ok: "body_ok 3 12666 min_mysql_recvfrom_sendto_20_0_body80" "counted min_mysql_recvfrom_sendto_20_0_body80" "calls min_mysql_recvfrom_sendto_20_0_body80 = 10" "opened_in m min_mysql_recvfrom_sendto_20_0_body80 = []"
  by (simp_all add: min_mysql_recvfrom_sendto_20_0_body80_def prog_checks open_checks)

lemma min_mysql_recvfrom_sendto_20_0_body81_ok: "body_ok 3 12666 min_mysql_recvfrom_sendto_20_0_body81" "counted min_mysql_recvfrom_sendto_20_0_body81" "calls min_mysql_recvfrom_sendto_20_0_body81 = 10" "opened_in m min_mysql_recvfrom_sendto_20_0_body81 = []"
  by (simp_all add: min_mysql_recvfrom_sendto_20_0_body81_def prog_checks open_checks)

lemma min_mysql_recvfrom_sendto_20_0_body82_ok: "body_ok 3 12666 min_mysql_recvfrom_sendto_20_0_body82" "counted min_mysql_recvfrom_sendto_20_0_body82" "calls min_mysql_recvfrom_sendto_20_0_body82 = 10" "opened_in m min_mysql_recvfrom_sendto_20_0_body82 = []"
  by (simp_all add: min_mysql_recvfrom_sendto_20_0_body82_def prog_checks open_checks)

lemma min_mysql_recvfrom_sendto_20_0_body83_ok: "body_ok 3 12666 min_mysql_recvfrom_sendto_20_0_body83" "counted min_mysql_recvfrom_sendto_20_0_body83" "calls min_mysql_recvfrom_sendto_20_0_body83 = 10" "opened_in m min_mysql_recvfrom_sendto_20_0_body83 = []"
  by (simp_all add: min_mysql_recvfrom_sendto_20_0_body83_def prog_checks open_checks)

lemma min_mysql_recvfrom_sendto_20_0_body84_ok: "body_ok 3 12666 min_mysql_recvfrom_sendto_20_0_body84" "counted min_mysql_recvfrom_sendto_20_0_body84" "calls min_mysql_recvfrom_sendto_20_0_body84 = 10" "opened_in m min_mysql_recvfrom_sendto_20_0_body84 = []"
  by (simp_all add: min_mysql_recvfrom_sendto_20_0_body84_def prog_checks open_checks)

lemma min_mysql_recvfrom_sendto_20_0_body85_ok: "body_ok 3 12666 min_mysql_recvfrom_sendto_20_0_body85" "counted min_mysql_recvfrom_sendto_20_0_body85" "calls min_mysql_recvfrom_sendto_20_0_body85 = 10" "opened_in m min_mysql_recvfrom_sendto_20_0_body85 = []"
  by (simp_all add: min_mysql_recvfrom_sendto_20_0_body85_def prog_checks open_checks)

lemma min_mysql_recvfrom_sendto_20_0_body86_ok: "body_ok 3 12666 min_mysql_recvfrom_sendto_20_0_body86" "counted min_mysql_recvfrom_sendto_20_0_body86" "calls min_mysql_recvfrom_sendto_20_0_body86 = 10" "opened_in m min_mysql_recvfrom_sendto_20_0_body86 = []"
  by (simp_all add: min_mysql_recvfrom_sendto_20_0_body86_def prog_checks open_checks)

lemma min_mysql_recvfrom_sendto_20_0_body87_ok: "body_ok 3 12666 min_mysql_recvfrom_sendto_20_0_body87" "counted min_mysql_recvfrom_sendto_20_0_body87" "calls min_mysql_recvfrom_sendto_20_0_body87 = 10" "opened_in m min_mysql_recvfrom_sendto_20_0_body87 = []"
  by (simp_all add: min_mysql_recvfrom_sendto_20_0_body87_def prog_checks open_checks)

lemma min_mysql_recvfrom_sendto_20_0_body88_ok: "body_ok 3 12666 min_mysql_recvfrom_sendto_20_0_body88" "counted min_mysql_recvfrom_sendto_20_0_body88" "calls min_mysql_recvfrom_sendto_20_0_body88 = 10" "opened_in m min_mysql_recvfrom_sendto_20_0_body88 = []"
  by (simp_all add: min_mysql_recvfrom_sendto_20_0_body88_def prog_checks open_checks)

lemma min_mysql_recvfrom_sendto_20_0_body89_ok: "body_ok 3 12666 min_mysql_recvfrom_sendto_20_0_body89" "counted min_mysql_recvfrom_sendto_20_0_body89" "calls min_mysql_recvfrom_sendto_20_0_body89 = 10" "opened_in m min_mysql_recvfrom_sendto_20_0_body89 = []"
  by (simp_all add: min_mysql_recvfrom_sendto_20_0_body89_def prog_checks open_checks)

lemma min_mysql_recvfrom_sendto_20_0_body90_ok: "body_ok 3 12666 min_mysql_recvfrom_sendto_20_0_body90" "counted min_mysql_recvfrom_sendto_20_0_body90" "calls min_mysql_recvfrom_sendto_20_0_body90 = 10" "opened_in m min_mysql_recvfrom_sendto_20_0_body90 = []"
  by (simp_all add: min_mysql_recvfrom_sendto_20_0_body90_def prog_checks open_checks)

lemma min_mysql_recvfrom_sendto_20_0_body91_ok: "body_ok 3 12666 min_mysql_recvfrom_sendto_20_0_body91" "counted min_mysql_recvfrom_sendto_20_0_body91" "calls min_mysql_recvfrom_sendto_20_0_body91 = 10" "opened_in m min_mysql_recvfrom_sendto_20_0_body91 = []"
  by (simp_all add: min_mysql_recvfrom_sendto_20_0_body91_def prog_checks open_checks)

lemma min_mysql_recvfrom_sendto_20_0_body92_ok: "body_ok 3 12666 min_mysql_recvfrom_sendto_20_0_body92" "counted min_mysql_recvfrom_sendto_20_0_body92" "calls min_mysql_recvfrom_sendto_20_0_body92 = 10" "opened_in m min_mysql_recvfrom_sendto_20_0_body92 = []"
  by (simp_all add: min_mysql_recvfrom_sendto_20_0_body92_def prog_checks open_checks)

lemma min_mysql_recvfrom_sendto_20_0_body93_ok: "body_ok 3 12666 min_mysql_recvfrom_sendto_20_0_body93" "counted min_mysql_recvfrom_sendto_20_0_body93" "calls min_mysql_recvfrom_sendto_20_0_body93 = 10" "opened_in m min_mysql_recvfrom_sendto_20_0_body93 = []"
  by (simp_all add: min_mysql_recvfrom_sendto_20_0_body93_def prog_checks open_checks)

lemma min_mysql_recvfrom_sendto_20_0_body94_ok: "body_ok 3 12666 min_mysql_recvfrom_sendto_20_0_body94" "counted min_mysql_recvfrom_sendto_20_0_body94" "calls min_mysql_recvfrom_sendto_20_0_body94 = 10" "opened_in m min_mysql_recvfrom_sendto_20_0_body94 = []"
  by (simp_all add: min_mysql_recvfrom_sendto_20_0_body94_def prog_checks open_checks)

lemma min_mysql_recvfrom_sendto_20_0_body95_ok: "body_ok 3 12666 min_mysql_recvfrom_sendto_20_0_body95" "counted min_mysql_recvfrom_sendto_20_0_body95" "calls min_mysql_recvfrom_sendto_20_0_body95 = 10" "opened_in m min_mysql_recvfrom_sendto_20_0_body95 = []"
  by (simp_all add: min_mysql_recvfrom_sendto_20_0_body95_def prog_checks open_checks)

lemma min_mysql_recvfrom_sendto_20_0_body96_ok: "body_ok 3 12666 min_mysql_recvfrom_sendto_20_0_body96" "counted min_mysql_recvfrom_sendto_20_0_body96" "calls min_mysql_recvfrom_sendto_20_0_body96 = 10" "opened_in m min_mysql_recvfrom_sendto_20_0_body96 = []"
  by (simp_all add: min_mysql_recvfrom_sendto_20_0_body96_def prog_checks open_checks)

lemma min_mysql_recvfrom_sendto_20_0_body97_ok: "body_ok 3 12666 min_mysql_recvfrom_sendto_20_0_body97" "counted min_mysql_recvfrom_sendto_20_0_body97" "calls min_mysql_recvfrom_sendto_20_0_body97 = 10" "opened_in m min_mysql_recvfrom_sendto_20_0_body97 = []"
  by (simp_all add: min_mysql_recvfrom_sendto_20_0_body97_def prog_checks open_checks)

lemma min_mysql_recvfrom_sendto_20_0_body98_ok: "body_ok 3 12666 min_mysql_recvfrom_sendto_20_0_body98" "counted min_mysql_recvfrom_sendto_20_0_body98" "calls min_mysql_recvfrom_sendto_20_0_body98 = 10" "opened_in m min_mysql_recvfrom_sendto_20_0_body98 = []"
  by (simp_all add: min_mysql_recvfrom_sendto_20_0_body98_def prog_checks open_checks)

lemma min_mysql_recvfrom_sendto_20_0_body99_ok: "body_ok 3 12666 min_mysql_recvfrom_sendto_20_0_body99" "counted min_mysql_recvfrom_sendto_20_0_body99" "calls min_mysql_recvfrom_sendto_20_0_body99 = 10" "opened_in m min_mysql_recvfrom_sendto_20_0_body99 = []"
  by (simp_all add: min_mysql_recvfrom_sendto_20_0_body99_def prog_checks open_checks)

lemma min_mysql_recvfrom_sendto_20_0_body100_ok: "body_ok 3 12666 min_mysql_recvfrom_sendto_20_0_body100" "counted min_mysql_recvfrom_sendto_20_0_body100" "calls min_mysql_recvfrom_sendto_20_0_body100 = 10" "opened_in m min_mysql_recvfrom_sendto_20_0_body100 = []"
  by (simp_all add: min_mysql_recvfrom_sendto_20_0_body100_def prog_checks open_checks)

lemma min_mysql_recvfrom_sendto_20_0_body101_ok: "body_ok 3 12666 min_mysql_recvfrom_sendto_20_0_body101" "counted min_mysql_recvfrom_sendto_20_0_body101" "calls min_mysql_recvfrom_sendto_20_0_body101 = 10" "opened_in m min_mysql_recvfrom_sendto_20_0_body101 = []"
  by (simp_all add: min_mysql_recvfrom_sendto_20_0_body101_def prog_checks open_checks)

lemma min_mysql_recvfrom_sendto_20_0_body102_ok: "body_ok 3 12666 min_mysql_recvfrom_sendto_20_0_body102" "counted min_mysql_recvfrom_sendto_20_0_body102" "calls min_mysql_recvfrom_sendto_20_0_body102 = 10" "opened_in m min_mysql_recvfrom_sendto_20_0_body102 = []"
  by (simp_all add: min_mysql_recvfrom_sendto_20_0_body102_def prog_checks open_checks)

lemma min_mysql_recvfrom_sendto_20_0_body103_ok: "body_ok 3 12666 min_mysql_recvfrom_sendto_20_0_body103" "counted min_mysql_recvfrom_sendto_20_0_body103" "calls min_mysql_recvfrom_sendto_20_0_body103 = 10" "opened_in m min_mysql_recvfrom_sendto_20_0_body103 = []"
  by (simp_all add: min_mysql_recvfrom_sendto_20_0_body103_def prog_checks open_checks)

lemma min_mysql_recvfrom_sendto_20_0_body104_ok: "body_ok 3 12666 min_mysql_recvfrom_sendto_20_0_body104" "counted min_mysql_recvfrom_sendto_20_0_body104" "calls min_mysql_recvfrom_sendto_20_0_body104 = 10" "opened_in m min_mysql_recvfrom_sendto_20_0_body104 = []"
  by (simp_all add: min_mysql_recvfrom_sendto_20_0_body104_def prog_checks open_checks)

lemma min_mysql_recvfrom_sendto_20_0_body105_ok: "body_ok 3 12666 min_mysql_recvfrom_sendto_20_0_body105" "counted min_mysql_recvfrom_sendto_20_0_body105" "calls min_mysql_recvfrom_sendto_20_0_body105 = 10" "opened_in m min_mysql_recvfrom_sendto_20_0_body105 = []"
  by (simp_all add: min_mysql_recvfrom_sendto_20_0_body105_def prog_checks open_checks)

lemma min_mysql_recvfrom_sendto_20_0_body106_ok: "body_ok 3 12666 min_mysql_recvfrom_sendto_20_0_body106" "counted min_mysql_recvfrom_sendto_20_0_body106" "calls min_mysql_recvfrom_sendto_20_0_body106 = 10" "opened_in m min_mysql_recvfrom_sendto_20_0_body106 = []"
  by (simp_all add: min_mysql_recvfrom_sendto_20_0_body106_def prog_checks open_checks)

lemma min_mysql_recvfrom_sendto_20_0_body107_ok: "body_ok 3 12666 min_mysql_recvfrom_sendto_20_0_body107" "counted min_mysql_recvfrom_sendto_20_0_body107" "calls min_mysql_recvfrom_sendto_20_0_body107 = 10" "opened_in m min_mysql_recvfrom_sendto_20_0_body107 = []"
  by (simp_all add: min_mysql_recvfrom_sendto_20_0_body107_def prog_checks open_checks)

lemma min_mysql_recvfrom_sendto_20_0_body108_ok: "body_ok 3 12666 min_mysql_recvfrom_sendto_20_0_body108" "counted min_mysql_recvfrom_sendto_20_0_body108" "calls min_mysql_recvfrom_sendto_20_0_body108 = 10" "opened_in m min_mysql_recvfrom_sendto_20_0_body108 = []"
  by (simp_all add: min_mysql_recvfrom_sendto_20_0_body108_def prog_checks open_checks)

lemma min_mysql_recvfrom_sendto_20_0_body109_ok: "body_ok 3 12666 min_mysql_recvfrom_sendto_20_0_body109" "counted min_mysql_recvfrom_sendto_20_0_body109" "calls min_mysql_recvfrom_sendto_20_0_body109 = 10" "opened_in m min_mysql_recvfrom_sendto_20_0_body109 = []"
  by (simp_all add: min_mysql_recvfrom_sendto_20_0_body109_def prog_checks open_checks)

lemma min_mysql_recvfrom_sendto_20_0_body110_ok: "body_ok 3 12666 min_mysql_recvfrom_sendto_20_0_body110" "counted min_mysql_recvfrom_sendto_20_0_body110" "calls min_mysql_recvfrom_sendto_20_0_body110 = 10" "opened_in m min_mysql_recvfrom_sendto_20_0_body110 = []"
  by (simp_all add: min_mysql_recvfrom_sendto_20_0_body110_def prog_checks open_checks)

lemma min_mysql_recvfrom_sendto_20_0_body111_ok: "body_ok 3 12666 min_mysql_recvfrom_sendto_20_0_body111" "counted min_mysql_recvfrom_sendto_20_0_body111" "calls min_mysql_recvfrom_sendto_20_0_body111 = 10" "opened_in m min_mysql_recvfrom_sendto_20_0_body111 = []"
  by (simp_all add: min_mysql_recvfrom_sendto_20_0_body111_def prog_checks open_checks)

lemma min_mysql_recvfrom_sendto_20_0_body112_ok: "body_ok 3 12666 min_mysql_recvfrom_sendto_20_0_body112" "counted min_mysql_recvfrom_sendto_20_0_body112" "calls min_mysql_recvfrom_sendto_20_0_body112 = 10" "opened_in m min_mysql_recvfrom_sendto_20_0_body112 = []"
  by (simp_all add: min_mysql_recvfrom_sendto_20_0_body112_def prog_checks open_checks)

lemma min_mysql_recvfrom_sendto_20_0_body113_ok: "body_ok 3 12666 min_mysql_recvfrom_sendto_20_0_body113" "counted min_mysql_recvfrom_sendto_20_0_body113" "calls min_mysql_recvfrom_sendto_20_0_body113 = 10" "opened_in m min_mysql_recvfrom_sendto_20_0_body113 = []"
  by (simp_all add: min_mysql_recvfrom_sendto_20_0_body113_def prog_checks open_checks)

lemma min_mysql_recvfrom_sendto_20_0_body114_ok: "body_ok 3 12666 min_mysql_recvfrom_sendto_20_0_body114" "counted min_mysql_recvfrom_sendto_20_0_body114" "calls min_mysql_recvfrom_sendto_20_0_body114 = 10" "opened_in m min_mysql_recvfrom_sendto_20_0_body114 = []"
  by (simp_all add: min_mysql_recvfrom_sendto_20_0_body114_def prog_checks open_checks)

lemma min_mysql_recvfrom_sendto_20_0_body115_ok: "body_ok 3 12666 min_mysql_recvfrom_sendto_20_0_body115" "counted min_mysql_recvfrom_sendto_20_0_body115" "calls min_mysql_recvfrom_sendto_20_0_body115 = 9" "opened_in m min_mysql_recvfrom_sendto_20_0_body115 = []"
  by (simp_all add: min_mysql_recvfrom_sendto_20_0_body115_def prog_checks open_checks)

lemma min_mysql_recvfrom_sendto_20_0_body116_ok: "body_ok 3 12666 min_mysql_recvfrom_sendto_20_0_body116" "counted min_mysql_recvfrom_sendto_20_0_body116" "calls min_mysql_recvfrom_sendto_20_0_body116 = 8" "opened_in m min_mysql_recvfrom_sendto_20_0_body116 = []"
  by (simp_all add: min_mysql_recvfrom_sendto_20_0_body116_def prog_checks open_checks)

lemma min_mysql_recvfrom_sendto_20_0_body117_ok: "body_ok 3 12666 min_mysql_recvfrom_sendto_20_0_body117" "counted min_mysql_recvfrom_sendto_20_0_body117" "calls min_mysql_recvfrom_sendto_20_0_body117 = 7" "opened_in m min_mysql_recvfrom_sendto_20_0_body117 = []"
  by (simp_all add: min_mysql_recvfrom_sendto_20_0_body117_def prog_checks open_checks)

lemma min_mysql_recvfrom_sendto_20_0_body118_ok: "body_ok 3 12666 min_mysql_recvfrom_sendto_20_0_body118" "counted min_mysql_recvfrom_sendto_20_0_body118" "calls min_mysql_recvfrom_sendto_20_0_body118 = 10" "opened_in m min_mysql_recvfrom_sendto_20_0_body118 = []"
  by (simp_all add: min_mysql_recvfrom_sendto_20_0_body118_def prog_checks open_checks)

lemma min_mysql_recvfrom_sendto_20_0_body119_ok: "body_ok 3 12666 min_mysql_recvfrom_sendto_20_0_body119" "counted min_mysql_recvfrom_sendto_20_0_body119" "calls min_mysql_recvfrom_sendto_20_0_body119 = 10" "opened_in m min_mysql_recvfrom_sendto_20_0_body119 = []"
  by (simp_all add: min_mysql_recvfrom_sendto_20_0_body119_def prog_checks open_checks)

lemma min_mysql_recvfrom_sendto_20_0_body120_ok: "body_ok 3 12666 min_mysql_recvfrom_sendto_20_0_body120" "counted min_mysql_recvfrom_sendto_20_0_body120" "calls min_mysql_recvfrom_sendto_20_0_body120 = 10" "opened_in m min_mysql_recvfrom_sendto_20_0_body120 = []"
  by (simp_all add: min_mysql_recvfrom_sendto_20_0_body120_def prog_checks open_checks)

end
