(* ===== verification/CSB_Progs_Net_c_p2.thy ===== *)
theory CSB_Progs_Net_c_p2
  imports CSB_Syz_Files
begin

text \<open>
  Statements of min\_mysql\_recvfrom\_sendto\_20\_0 (bench/targets/mysql\_v2), in the
  order of the file; the program is put together in CSB\_Progs\_Net\_c.
\<close>

definition min_mysql_recvfrom_sendto_20_0_body121 :: "stmt list" where
  "min_mysql_recvfrom_sendto_20_0_body121 = [
    Syscall NR_recvfrom [Reg 2, Ptr 0x20885800, Imm 0x15, Imm 0x40, Imm 0, Imm 0], Count,
    Syscall NR_sendto [Reg 2, Write_buf, Imm 0xc0, Imm 0x40, Imm 0, Imm 0], Count,
    Syscall NR_recvfrom [Reg 2, Ptr 0x2088a040, Imm 4, Imm 0x40, Imm 0, Imm 0], Count,
    Syscall NR_recvfrom [Reg 2, Ptr 0x20890cc0, Imm 0x15, Imm 0x40, Imm 0, Imm 0], Count,
    Syscall NR_sendto [Reg 2, Write_buf, Imm 0xc0, Imm 0x40, Imm 0, Imm 0], Count,
    Syscall NR_recvfrom [Reg 2, Ptr 0x208a1780, Imm 4, Imm 0x40, Imm 0, Imm 0], Count,
    Syscall NR_recvfrom [Reg 2, Ptr 0x208ae1c0, Imm 0x15, Imm 0x40, Imm 0, Imm 0], Count,
    Syscall NR_sendto [Reg 2, Write_buf, Imm 0xc0, Imm 0x40, Imm 0, Imm 0], Count,
    Syscall NR_recvfrom [Reg 2, Ptr 0x208c4740, Imm 4, Imm 0x40, Imm 0, Imm 0], Count,
    Syscall NR_recvfrom [Reg 2, Ptr 0x208f7b00, Imm 0x15, Imm 0x40, Imm 0, Imm 0], Count]"

definition min_mysql_recvfrom_sendto_20_0_body122 :: "stmt list" where
  "min_mysql_recvfrom_sendto_20_0_body122 = [
    Syscall NR_sendto [Reg 2, Write_buf, Imm 0xc0, Imm 0x40, Imm 0, Imm 0], Count,
    Syscall NR_recvfrom [Reg 2, Ptr 0x20915e40, Imm 4, Imm 0x40, Imm 0, Imm 0], Count,
    Syscall NR_recvfrom [Reg 2, Ptr 0x2091d080, Imm 0x15, Imm 0x40, Imm 0, Imm 0], Count,
    Syscall NR_sendto [Reg 2, Write_buf, Imm 0xc0, Imm 0x40, Imm 0, Imm 0], Count,
    Syscall NR_recvfrom [Reg 2, Ptr 0x2094e800, Imm 4, Imm 0x40, Imm 0, Imm 0], Count,
    Syscall NR_recvfrom [Reg 2, Ptr 0x20961c40, Imm 0x15, Imm 0x40, Imm 0, Imm 0], Count,
    Syscall NR_sendto [Reg 2, Write_buf, Imm 0xc0, Imm 0x40, Imm 0, Imm 0], Count,
    Syscall NR_recvfrom [Reg 2, Ptr 0x209a3cc0, Imm 4, Imm 0x40, Imm 0, Imm 0], Count,
    Syscall NR_recvfrom [Reg 2, Ptr 0x209b8c00, Imm 0x15, Imm 0x40, Imm 0, Imm 0], Count,
    Syscall NR_sendto [Reg 2, Write_buf, Imm 0xc0, Imm 0x40, Imm 0, Imm 0], Count]"

definition min_mysql_recvfrom_sendto_20_0_body123 :: "stmt list" where
  "min_mysql_recvfrom_sendto_20_0_body123 = [
    Syscall NR_recvfrom [Reg 2, Ptr 0x209fd900, Imm 4, Imm 0x40, Imm 0, Imm 0], Count,
    Syscall NR_recvfrom [Reg 2, Ptr 0x20a14800, Imm 0x23, Imm 0x40, Imm 0, Imm 0], Count,
    Syscall NR_sendto [Reg 2, Write_buf, Imm 0x3178, Imm 0x40, Imm 0, Imm 0], Count,
    Syscall NR_recvfrom [Reg 2, Ptr 0x20a4b1c0, Imm 4, Imm 0x40, Imm 0, Imm 0], Count,
    Syscall NR_recvfrom [Reg 2, Ptr 0x20a5b300, Imm 0x23, Imm 0x40, Imm 0, Imm 0], Count,
    Syscall NR_sendto [Reg 2, Write_buf, Imm 0x3c, Imm 0x40, Imm 0, Imm 0], Count,
    Syscall NR_recvfrom [Reg 2, Ptr 0x20aaebc0, Imm 4, Imm 0x40, Imm 0, Imm 0], Count,
    Syscall NR_recvfrom [Reg 2, Ptr 0x20ac2780, Imm 0x1d, Imm 0x40, Imm 0, Imm 0], Count,
    Syscall NR_sendto [Reg 2, Write_buf, Imm 0x156a, Imm 0x40, Imm 0, Imm 0], Count,
    Syscall NR_recvfrom [Reg 2, Ptr 0x20b128c0, Imm 4, Imm 0x40, Imm 0, Imm 0], Count]"

definition min_mysql_recvfrom_sendto_20_0_body124 :: "stmt list" where
  "min_mysql_recvfrom_sendto_20_0_body124 = [
    Syscall NR_recvfrom [Reg 2, Ptr 0x20b3f480, Imm 0x1d, Imm 0x40, Imm 0, Imm 0], Count,
    Syscall NR_sendto [Reg 2, Write_buf, Imm 0x317a, Imm 0x40, Imm 0, Imm 0], Count,
    Syscall NR_recvfrom [Reg 2, Ptr 0x20db4fc0, Imm 4, Imm 0x40, Imm 0, Imm 0], Count,
    Syscall NR_recvfrom [Reg 2, Ptr 0x20dc2a40, Imm 0x18, Imm 0x40, Imm 0, Imm 0], Count,
    Syscall NR_sendto [Reg 2, Write_buf, Imm 0x34, Imm 0x40, Imm 0, Imm 0], Count,
    Syscall NR_recvfrom [Reg 2, Ptr 0x20e15dc0, Imm 4, Imm 0x40, Imm 0, Imm 0], Count,
    Syscall NR_recvfrom [Reg 2, Ptr 0x20e28c80, Imm 0x8d, Imm 0x40, Imm 0, Imm 0], Count,
    Syscall NR_sendto [Reg 2, Write_buf, Imm 0x34, Imm 0x40, Imm 0, Imm 0], Count,
    Syscall NR_recvfrom [Reg 2, Ptr 0x20e5dd40, Imm 4, Imm 0x40, Imm 0, Imm 0], Count,
    Syscall NR_recvfrom [Reg 2, Ptr 0x20e73dc0, Imm 0x15, Imm 0x40, Imm 0, Imm 0], Count]"

definition min_mysql_recvfrom_sendto_20_0_body125 :: "stmt list" where
  "min_mysql_recvfrom_sendto_20_0_body125 = [
    Syscall NR_sendto [Reg 2, Write_buf, Imm 0xb, Imm 0x40, Imm 0, Imm 0], Count,
    Syscall NR_recvfrom [Reg 2, Ptr 0x20e9a540, Imm 4, Imm 0x40, Imm 0, Imm 0], Count,
    Syscall NR_recvfrom [Reg 2, Ptr 0x20ea60c0, Imm 0xd1, Imm 0x40, Imm 0, Imm 0], Count,
    Syscall NR_sendto [Reg 2, Write_buf, Imm 0xb, Imm 0x40, Imm 0, Imm 0], Count,
    Syscall NR_recvfrom [Reg 2, Ptr 0x20eb5180, Imm 4, Imm 0x40, Imm 0, Imm 0], Count,
    Syscall NR_recvfrom [Reg 2, Ptr 0x20ec1c40, Imm 0xb, Imm 0x40, Imm 0, Imm 0], Count,
    Syscall NR_sendto [Reg 2, Write_buf, Imm 0x18, Imm 0x40, Imm 0, Imm 0], Count,
    Syscall NR_recvfrom [Reg 2, Ptr 0x201a6b80, Imm 4, Imm 0x40, Imm 0, Imm 0], Count,
    Syscall NR_recvfrom [Reg 2, Ptr 0x201aa640, Imm 8, Imm 0x40, Imm 0, Imm 0], Count,
    Syscall NR_sendto [Reg 2, Write_buf, Imm 0x18, Imm 0x40, Imm 0, Imm 0], Count]"

definition min_mysql_recvfrom_sendto_20_0_body126 :: "stmt list" where
  "min_mysql_recvfrom_sendto_20_0_body126 = [
    Syscall NR_recvfrom [Reg 2, Ptr 0x201ab900, Imm 4, Imm 0x40, Imm 0, Imm 0], Count,
    Syscall NR_recvfrom [Reg 2, Ptr 0x201ac300, Imm 0x15, Imm 0x40, Imm 0, Imm 0], Count,
    Syscall NR_sendto [Reg 2, Write_buf, Imm 0xc0, Imm 0x40, Imm 0, Imm 0], Count,
    Syscall NR_recvfrom [Reg 2, Ptr 0x201ad840, Imm 4, Imm 0x40, Imm 0, Imm 0], Count,
    Syscall NR_recvfrom [Reg 2, Ptr 0x201ae580, Imm 0x15, Imm 0x40, Imm 0, Imm 0], Count,
    Syscall NR_sendto [Reg 2, Write_buf, Imm 0xc0, Imm 0x40, Imm 0, Imm 0], Count,
    Syscall NR_recvfrom [Reg 2, Ptr 0x201afd40, Imm 4, Imm 0x40, Imm 0, Imm 0], Count,
    Syscall NR_recvfrom [Reg 2, Ptr 0x201b07c0, Imm 0x15, Imm 0x40, Imm 0, Imm 0], Count,
    Syscall NR_sendto [Reg 2, Write_buf, Imm 0xc0, Imm 0x40, Imm 0, Imm 0], Count,
    Syscall NR_recvfrom [Reg 2, Ptr 0x201b19c0, Imm 4, Imm 0x40, Imm 0, Imm 0], Count]"

definition min_mysql_recvfrom_sendto_20_0_body127 :: "stmt list" where
  "min_mysql_recvfrom_sendto_20_0_body127 = [
    Syscall NR_recvfrom [Reg 2, Ptr 0x201b26c0, Imm 0x15, Imm 0x40, Imm 0, Imm 0], Count,
    Syscall NR_sendto [Reg 2, Write_buf, Imm 0xc0, Imm 0x40, Imm 0, Imm 0], Count,
    Syscall NR_recvfrom [Reg 2, Ptr 0x201b38c0, Imm 4, Imm 0x40, Imm 0, Imm 0], Count,
    Syscall NR_recvfrom [Reg 2, Ptr 0x201b4300, Imm 0x15, Imm 0x40, Imm 0, Imm 0], Count,
    Syscall NR_sendto [Reg 2, Write_buf, Imm 0xc0, Imm 0x40, Imm 0, Imm 0], Count,
    Syscall NR_recvfrom [Reg 2, Ptr 0x201b5880, Imm 4, Imm 0x40, Imm 0, Imm 0], Count,
    Syscall NR_recvfrom [Reg 2, Ptr 0x201b6280, Imm 0x15, Imm 0x40, Imm 0, Imm 0], Count,
    Syscall NR_sendto [Reg 2, Write_buf, Imm 0xc0, Imm 0x40, Imm 0, Imm 0], Count,
    Syscall NR_recvfrom [Reg 2, Ptr 0x201b7600, Imm 4, Imm 0x40, Imm 0, Imm 0], Count,
    Syscall NR_recvfrom [Reg 2, Ptr 0x201b8000, Imm 0x15, Imm 0x40, Imm 0, Imm 0], Count]"

definition min_mysql_recvfrom_sendto_20_0_body128 :: "stmt list" where
  "min_mysql_recvfrom_sendto_20_0_body128 = [
    Syscall NR_sendto [Reg 2, Write_buf, Imm 0xc0, Imm 0x40, Imm 0, Imm 0], Count,
    Syscall NR_recvfrom [Reg 2, Ptr 0x201b9140, Imm 4, Imm 0x40, Imm 0, Imm 0], Count,
    Syscall NR_recvfrom [Reg 2, Ptr 0x201b9b40, Imm 0x15, Imm 0x40, Imm 0, Imm 0], Count,
    Syscall NR_sendto [Reg 2, Write_buf, Imm 0xc0, Imm 0x40, Imm 0, Imm 0], Count,
    Syscall NR_recvfrom [Reg 2, Ptr 0x201ddd40, Imm 4, Imm 0x40, Imm 0, Imm 0], Count,
    Syscall NR_recvfrom [Reg 2, Ptr 0x201de7c0, Imm 0x15, Imm 0x40, Imm 0, Imm 0], Count,
    Syscall NR_sendto [Reg 2, Write_buf, Imm 0xc0, Imm 0x40, Imm 0, Imm 0], Count,
    Syscall NR_recvfrom [Reg 2, Ptr 0x201e2a80, Imm 4, Imm 0x40, Imm 0, Imm 0], Count,
    Syscall NR_recvfrom [Reg 2, Ptr 0x201ec7c0, Imm 0x15, Imm 0x40, Imm 0, Imm 0], Count,
    Syscall NR_sendto [Reg 2, Write_buf, Imm 0xc0, Imm 0x40, Imm 0, Imm 0], Count]"

definition min_mysql_recvfrom_sendto_20_0_body129 :: "stmt list" where
  "min_mysql_recvfrom_sendto_20_0_body129 = [
    Syscall NR_recvfrom [Reg 2, Ptr 0x201f7000, Imm 4, Imm 0x40, Imm 0, Imm 0], Count,
    Syscall NR_recvfrom [Reg 2, Ptr 0x201fda40, Imm 0x23, Imm 0x40, Imm 0, Imm 0], Count,
    Syscall NR_sendto [Reg 2, Write_buf, Imm 0x317a, Imm 0x40, Imm 0, Imm 0], Count,
    Syscall NR_recvfrom [Reg 2, Ptr 0x20201d00, Imm 4, Imm 0x40, Imm 0, Imm 0], Count,
    Syscall NR_recvfrom [Reg 2, Ptr 0x20211700, Imm 0x1d, Imm 0x40, Imm 0, Imm 0], Count,
    Syscall NR_sendto [Reg 2, Write_buf, Imm 0x3b, Imm 0x40, Imm 0, Imm 0], Count,
    Syscall NR_recvfrom [Reg 2, Ptr 0x20227e00, Imm 4, Imm 0x40, Imm 0, Imm 0], Count,
    Syscall NR_recvfrom [Reg 2, Ptr 0x20229880, Imm 0x1d, Imm 0x40, Imm 0, Imm 0], Count,
    Syscall NR_sendto [Reg 2, Write_buf, Imm 0x3178, Imm 0x40, Imm 0, Imm 0], Count,
    Syscall NR_recvfrom [Reg 2, Ptr 0x2046f0c0, Imm 4, Imm 0x40, Imm 0, Imm 0], Count]"

definition min_mysql_recvfrom_sendto_20_0_body130 :: "stmt list" where
  "min_mysql_recvfrom_sendto_20_0_body130 = [
    Syscall NR_recvfrom [Reg 2, Ptr 0x2047be00, Imm 0x1d, Imm 0x40, Imm 0, Imm 0], Count,
    Syscall NR_sendto [Reg 2, Write_buf, Imm 0xb94, Imm 0x40, Imm 0, Imm 0], Count,
    Syscall NR_recvfrom [Reg 2, Ptr 0x204dd840, Imm 4, Imm 0x40, Imm 0, Imm 0], Count,
    Syscall NR_recvfrom [Reg 2, Ptr 0x204fd380, Imm 0x18, Imm 0x40, Imm 0, Imm 0], Count,
    Syscall NR_sendto [Reg 2, Write_buf, Imm 0x34, Imm 0x40, Imm 0, Imm 0], Count,
    Syscall NR_recvfrom [Reg 2, Ptr 0x20530700, Imm 4, Imm 0x40, Imm 0, Imm 0], Count,
    Syscall NR_recvfrom [Reg 2, Ptr 0x205360c0, Imm 0x93, Imm 0x40, Imm 0, Imm 0], Count,
    Syscall NR_sendto [Reg 2, Write_buf, Imm 0x34, Imm 0x40, Imm 0, Imm 0], Count,
    Syscall NR_recvfrom [Reg 2, Ptr 0x2055d200, Imm 4, Imm 0x40, Imm 0, Imm 0], Count,
    Syscall NR_recvfrom [Reg 2, Ptr 0x2057b180, Imm 0x18, Imm 0x40, Imm 0, Imm 0], Count]"

definition min_mysql_recvfrom_sendto_20_0_body131 :: "stmt list" where
  "min_mysql_recvfrom_sendto_20_0_body131 = [
    Syscall NR_sendto [Reg 2, Write_buf, Imm 0xb, Imm 0x40, Imm 0, Imm 0], Count,
    Syscall NR_recvfrom [Reg 2, Ptr 0x205c26c0, Imm 4, Imm 0x40, Imm 0, Imm 0], Count,
    Syscall NR_recvfrom [Reg 2, Ptr 0x205cffc0, Imm 0xdd, Imm 0x40, Imm 0, Imm 0], Count,
    Syscall NR_sendto [Reg 2, Write_buf, Imm 0xd, Imm 0x40, Imm 0, Imm 0], Count,
    Syscall NR_recvfrom [Reg 2, Ptr 0x20614540, Imm 4, Imm 0x40, Imm 0, Imm 0], Count,
    Syscall NR_recvfrom [Reg 2, Ptr 0x2062d400, Imm 0xb, Imm 0x40, Imm 0, Imm 0], Count,
    Syscall NR_sendto [Reg 2, Write_buf, Imm 0x18, Imm 0x40, Imm 0, Imm 0], Count,
    Syscall NR_recvfrom [Reg 2, Ptr 0x2094d000, Imm 4, Imm 0x40, Imm 0, Imm 0], Count,
    Syscall NR_recvfrom [Reg 2, Ptr 0x2094d0c0, Imm 8, Imm 0x40, Imm 0, Imm 0], Count,
    Syscall NR_sendto [Reg 2, Write_buf, Imm 0x18, Imm 0x40, Imm 0, Imm 0], Count]"

definition min_mysql_recvfrom_sendto_20_0_body132 :: "stmt list" where
  "min_mysql_recvfrom_sendto_20_0_body132 = [
    Syscall NR_recvfrom [Reg 2, Ptr 0x2094d400, Imm 4, Imm 0x40, Imm 0, Imm 0], Count,
    Syscall NR_recvfrom [Reg 2, Ptr 0x2094d580, Imm 0x15, Imm 0x40, Imm 0, Imm 0], Count,
    Syscall NR_sendto [Reg 2, Write_buf, Imm 0xc0, Imm 0x40, Imm 0, Imm 0], Count,
    Syscall NR_recvfrom [Reg 2, Ptr 0x2094dac0, Imm 4, Imm 0x40, Imm 0, Imm 0], Count,
    Syscall NR_recvfrom [Reg 2, Ptr 0x2094dd80, Imm 0x15, Imm 0x40, Imm 0, Imm 0], Count,
    Syscall NR_sendto [Reg 2, Write_buf, Imm 0xc0, Imm 0x40, Imm 0, Imm 0], Count,
    Syscall NR_recvfrom [Reg 2, Ptr 0x2094e580, Imm 4, Imm 0x40, Imm 0, Imm 0], Count,
    Syscall NR_recvfrom [Reg 2, Ptr 0x2094e900, Imm 0x15, Imm 0x40, Imm 0, Imm 0], Count,
    Syscall NR_sendto [Reg 2, Write_buf, Imm 0xc0, Imm 0x40, Imm 0, Imm 0], Count,
    Syscall NR_recvfrom [Reg 2, Ptr 0x2094f340, Imm 4, Imm 0x40, Imm 0, Imm 0], Count]"

definition min_mysql_recvfrom_sendto_20_0_body133 :: "stmt list" where
  "min_mysql_recvfrom_sendto_20_0_body133 = [
    Syscall NR_recvfrom [Reg 2, Ptr 0x2094f800, Imm 0x15, Imm 0x40, Imm 0, Imm 0], Count,
    Syscall NR_sendto [Reg 2, Write_buf, Imm 0xc0, Imm 0x40, Imm 0, Imm 0], Count,
    Syscall NR_recvfrom [Reg 2, Ptr 0x209506c0, Imm 4, Imm 0x40, Imm 0, Imm 0], Count,
    Syscall NR_recvfrom [Reg 2, Ptr 0x20950bc0, Imm 0x15, Imm 0x40, Imm 0, Imm 0], Count,
    Syscall NR_sendto [Reg 2, Write_buf, Imm 0xc0, Imm 0x40, Imm 0, Imm 0], Count,
    Syscall NR_recvfrom [Reg 2, Ptr 0x20951ac0, Imm 4, Imm 0x40, Imm 0, Imm 0], Count,
    Syscall NR_recvfrom [Reg 2, Ptr 0x209521c0, Imm 0x15, Imm 0x40, Imm 0, Imm 0], Count,
    Syscall NR_sendto [Reg 2, Write_buf, Imm 0xc0, Imm 0x40, Imm 0, Imm 0], Count,
    Syscall NR_recvfrom [Reg 2, Ptr 0x20953400, Imm 4, Imm 0x40, Imm 0, Imm 0], Count,
    Syscall NR_recvfrom [Reg 2, Ptr 0x20953b40, Imm 0x15, Imm 0x40, Imm 0, Imm 0], Count]"

definition min_mysql_recvfrom_sendto_20_0_body134 :: "stmt list" where
  "min_mysql_recvfrom_sendto_20_0_body134 = [
    Syscall NR_sendto [Reg 2, Write_buf, Imm 0xc0, Imm 0x40, Imm 0, Imm 0], Count,
    Syscall NR_recvfrom [Reg 2, Ptr 0x20954d00, Imm 4, Imm 0x40, Imm 0, Imm 0], Count,
    Syscall NR_recvfrom [Reg 2, Ptr 0x209554c0, Imm 0x15, Imm 0x40, Imm 0, Imm 0], Count,
    Syscall NR_sendto [Reg 2, Write_buf, Imm 0xc0, Imm 0x40, Imm 0, Imm 0], Count,
    Syscall NR_recvfrom [Reg 2, Ptr 0x20956740, Imm 4, Imm 0x40, Imm 0, Imm 0], Count,
    Syscall NR_recvfrom [Reg 2, Ptr 0x20956f80, Imm 0x15, Imm 0x40, Imm 0, Imm 0], Count,
    Syscall NR_sendto [Reg 2, Write_buf, Imm 0xc0, Imm 0x40, Imm 0, Imm 0], Count,
    Syscall NR_recvfrom [Reg 2, Ptr 0x20958200, Imm 4, Imm 0x40, Imm 0, Imm 0], Count,
    Syscall NR_recvfrom [Reg 2, Ptr 0x209589c0, Imm 0x15, Imm 0x40, Imm 0, Imm 0], Count,
    Syscall NR_sendto [Reg 2, Write_buf, Imm 0xc0, Imm 0x40, Imm 0, Imm 0], Count]"

definition min_mysql_recvfrom_sendto_20_0_body135 :: "stmt list" where
  "min_mysql_recvfrom_sendto_20_0_body135 = [
    Syscall NR_recvfrom [Reg 2, Ptr 0x20959c40, Imm 4, Imm 0x40, Imm 0, Imm 0], Count,
    Syscall NR_recvfrom [Reg 2, Ptr 0x2095a400, Imm 0x1d, Imm 0x40, Imm 0, Imm 0], Count,
    Syscall NR_sendto [Reg 2, Write_buf, Imm 0x317a, Imm 0x40, Imm 0, Imm 0], Count,
    Syscall NR_recvfrom [Reg 2, Ptr 0x2095ec80, Imm 4, Imm 0x40, Imm 0, Imm 0], Count,
    Syscall NR_recvfrom [Reg 2, Ptr 0x20965dc0, Imm 0x23, Imm 0x40, Imm 0, Imm 0], Count,
    Syscall NR_sendto [Reg 2, Write_buf, Imm 0x3c, Imm 0x40, Imm 0, Imm 0], Count,
    Syscall NR_recvfrom [Reg 2, Ptr 0x209703c0, Imm 4, Imm 0x40, Imm 0, Imm 0], Count,
    Syscall NR_recvfrom [Reg 2, Ptr 0x20973c00, Imm 0x1d, Imm 0x40, Imm 0, Imm 0], Count,
    Syscall NR_sendto [Reg 2, Write_buf, Imm 0x628, Imm 0x40, Imm 0, Imm 0], Count,
    Syscall NR_recvfrom [Reg 2, Ptr 0x2097e3c0, Imm 4, Imm 0x40, Imm 0, Imm 0], Count]"

definition min_mysql_recvfrom_sendto_20_0_body136 :: "stmt list" where
  "min_mysql_recvfrom_sendto_20_0_body136 = [
    Syscall NR_recvfrom [Reg 2, Ptr 0x2097eb00, Imm 0x23, Imm 0x40, Imm 0, Imm 0], Count,
    Syscall NR_sendto [Reg 2, Write_buf, Imm 0x317a, Imm 0x40, Imm 0, Imm 0], Count,
    Syscall NR_recvfrom [Reg 2, Ptr 0x20b3e340, Imm 4, Imm 0x40, Imm 0, Imm 0], Count,
    Syscall NR_recvfrom [Reg 2, Ptr 0x20b54b40, Imm 0x15, Imm 0x40, Imm 0, Imm 0], Count,
    Syscall NR_sendto [Reg 2, Write_buf, Imm 0x34, Imm 0x40, Imm 0, Imm 0], Count,
    Syscall NR_recvfrom [Reg 2, Ptr 0x20b82d80, Imm 4, Imm 0x40, Imm 0, Imm 0], Count,
    Syscall NR_recvfrom [Reg 2, Ptr 0x20ba0bc0, Imm 0x8d, Imm 0x40, Imm 0, Imm 0], Count,
    Syscall NR_sendto [Reg 2, Write_buf, Imm 0x34, Imm 0x40, Imm 0, Imm 0], Count,
    Syscall NR_recvfrom [Reg 2, Ptr 0x20bfc140, Imm 4, Imm 0x40, Imm 0, Imm 0], Count,
    Syscall NR_recvfrom [Reg 2, Ptr 0x20c14d00, Imm 0x18, Imm 0x40, Imm 0, Imm 0], Count]"

definition min_mysql_recvfrom_sendto_20_0_body137 :: "stmt list" where
  "min_mysql_recvfrom_sendto_20_0_body137 = [
    Syscall NR_sendto [Reg 2, Write_buf, Imm 0xb, Imm 0x40, Imm 0, Imm 0], Count,
    Syscall NR_recvfrom [Reg 2, Ptr 0x20c51a80, Imm 4, Imm 0x40, Imm 0, Imm 0], Count,
    Syscall NR_recvfrom [Reg 2, Ptr 0x20c6c000, Imm 0xdd, Imm 0x40, Imm 0, Imm 0], Count,
    Syscall NR_sendto [Reg 2, Write_buf, Imm 0xd, Imm 0x40, Imm 0, Imm 0], Count,
    Syscall NR_recvfrom [Reg 2, Ptr 0x20c90cc0, Imm 4, Imm 0x40, Imm 0, Imm 0], Count,
    Syscall NR_recvfrom [Reg 2, Ptr 0x20c9b9c0, Imm 0xb, Imm 0x40, Imm 0, Imm 0], Count,
    Syscall NR_sendto [Reg 2, Write_buf, Imm 0x18, Imm 0x40, Imm 0, Imm 0], Count,
    Syscall NR_recvfrom [Reg 2, Ptr 0x20e35540, Imm 4, Imm 0x40, Imm 0, Imm 0], Count,
    Syscall NR_recvfrom [Reg 2, Ptr 0x20e35d00, Imm 8, Imm 0x40, Imm 0, Imm 0], Count,
    Syscall NR_sendto [Reg 2, Write_buf, Imm 0x18, Imm 0x40, Imm 0, Imm 0], Count]"

definition min_mysql_recvfrom_sendto_20_0_body138 :: "stmt list" where
  "min_mysql_recvfrom_sendto_20_0_body138 = [
    Syscall NR_recvfrom [Reg 2, Ptr 0x20e36700, Imm 4, Imm 0x40, Imm 0, Imm 0], Count,
    Syscall NR_recvfrom [Reg 2, Ptr 0x20e36a00, Imm 0x18, Imm 0x40, Imm 0, Imm 0], Count,
    Syscall NR_sendto [Reg 2, Write_buf, Imm 0xc0, Imm 0x40, Imm 0, Imm 0], Count,
    Syscall NR_recvfrom [Reg 2, Ptr 0x20e489c0, Imm 4, Imm 0x40, Imm 0, Imm 0], Count,
    Syscall NR_recvfrom [Reg 2, Ptr 0x20e5a000, Imm 0x15, Imm 0x40, Imm 0, Imm 0], Count,
    Syscall NR_sendto [Reg 2, Write_buf, Imm 0xc0, Imm 0x40, Imm 0, Imm 0], Count,
    Syscall NR_recvfrom [Reg 2, Ptr 0x20e96c40, Imm 4, Imm 0x40, Imm 0, Imm 0], Count,
    Syscall NR_recvfrom [Reg 2, Ptr 0x20eb9a80, Imm 0x15, Imm 0x40, Imm 0, Imm 0], Count,
    Syscall NR_sendto [Reg 2, Write_buf, Imm 0xc0, Imm 0x40, Imm 0, Imm 0], Count,
    Syscall NR_recvfrom [Reg 2, Ptr 0x20ef0980, Imm 4, Imm 0x40, Imm 0, Imm 0], Count]"

definition min_mysql_recvfrom_sendto_20_0_body139 :: "stmt list" where
  "min_mysql_recvfrom_sendto_20_0_body139 = [
    Syscall NR_recvfrom [Reg 2, Ptr 0x20f00600, Imm 0x15, Imm 0x40, Imm 0, Imm 0], Count,
    Syscall NR_sendto [Reg 2, Write_buf, Imm 0xc0, Imm 0x40, Imm 0, Imm 0], Count,
    Syscall NR_recvfrom [Reg 2, Ptr 0x20f0c780, Imm 4, Imm 0x40, Imm 0, Imm 0], Count,
    Syscall NR_recvfrom [Reg 2, Ptr 0x20f13f80, Imm 0x15, Imm 0x40, Imm 0, Imm 0], Count,
    Syscall NR_sendto [Reg 2, Write_buf, Imm 0xc0, Imm 0x40, Imm 0, Imm 0], Count,
    Syscall NR_recvfrom [Reg 2, Ptr 0x20f270c0, Imm 4, Imm 0x40, Imm 0, Imm 0], Count,
    Syscall NR_recvfrom [Reg 2, Ptr 0x20f30980, Imm 0x15, Imm 0x40, Imm 0, Imm 0], Count,
    Syscall NR_sendto [Reg 2, Write_buf, Imm 0xc0, Imm 0x40, Imm 0, Imm 0], Count,
    Syscall NR_recvfrom [Reg 2, Ptr 0x20f4fd40, Imm 4, Imm 0x40, Imm 0, Imm 0], Count,
    Syscall NR_recvfrom [Reg 2, Ptr 0x20f5f8c0, Imm 0x15, Imm 0x40, Imm 0, Imm 0], Count]"

definition min_mysql_recvfrom_sendto_20_0_body140 :: "stmt list" where
  "min_mysql_recvfrom_sendto_20_0_body140 = [
    Syscall NR_sendto [Reg 2, Write_buf, Imm 0xc0, Imm 0x40, Imm 0, Imm 0], Count,
    Syscall NR_recvfrom [Reg 2, Ptr 0x20f72780, Imm 4, Imm 0x40, Imm 0, Imm 0], Count,
    Syscall NR_recvfrom [Reg 2, Ptr 0x20f75b00, Imm 0x15, Imm 0x40, Imm 0, Imm 0], Count,
    Syscall NR_sendto [Reg 2, Write_buf, Imm 0xc0, Imm 0x40, Imm 0, Imm 0], Count,
    Syscall NR_recvfrom [Reg 2, Ptr 0x20f8c480, Imm 4, Imm 0x40, Imm 0, Imm 0], Count,
    Syscall NR_recvfrom [Reg 2, Ptr 0x20f9aa40, Imm 0x15, Imm 0x40, Imm 0, Imm 0], Count,
    Syscall NR_sendto [Reg 2, Write_buf, Imm 0xc0, Imm 0x40, Imm 0, Imm 0], Count,
    Syscall NR_recvfrom [Reg 2, Ptr 0x20fde840, Imm 4, Imm 0x40, Imm 0, Imm 0], Count,
    Syscall NR_recvfrom [Reg 2, Ptr 0x20ff9d40, Imm 0x15, Imm 0x40, Imm 0, Imm 0], Count,
    Syscall NR_sendto [Reg 2, Write_buf, Imm 0xc0, Imm 0x40, Imm 0, Imm 0], Count]"

definition min_mysql_recvfrom_sendto_20_0_body141 :: "stmt list" where
  "min_mysql_recvfrom_sendto_20_0_body141 = [
    Syscall NR_recvfrom [Reg 2, Ptr 0x20032ac0, Imm 4, Imm 0x40, Imm 0, Imm 0], Count,
    Syscall NR_recvfrom [Reg 2, Ptr 0x20038fc0, Imm 0x23, Imm 0x40, Imm 0, Imm 0], Count,
    Syscall NR_sendto [Reg 2, Write_buf, Imm 0x317a, Imm 0x40, Imm 0, Imm 0], Count,
    Syscall NR_recvfrom [Reg 2, Ptr 0x20050c80, Imm 4, Imm 0x40, Imm 0, Imm 0], Count,
    Syscall NR_recvfrom [Reg 2, Ptr 0x20057180, Imm 0x1d, Imm 0x40, Imm 0, Imm 0], Count,
    Syscall NR_sendto [Reg 2, Write_buf, Imm 0x3c, Imm 0x40, Imm 0, Imm 0], Count,
    Syscall NR_recvfrom [Reg 2, Ptr 0x20076000, Imm 4, Imm 0x40, Imm 0, Imm 0], Count,
    Syscall NR_recvfrom [Reg 2, Ptr 0x20088740, Imm 0x23, Imm 0x40, Imm 0, Imm 0], Count,
    Syscall NR_sendto [Reg 2, Write_buf, Imm 0x3178, Imm 0x40, Imm 0, Imm 0], Count]"

definition min_mysql_recvfrom_sendto_20_0_body142 :: "stmt list" where
  "min_mysql_recvfrom_sendto_20_0_body142 = [
    Syscall NR_recvfrom [Reg 2, Ptr 0x200d0d00, Imm 4, Imm 0x40, Imm 0, Imm 0], Count,
    Store 4 0x200d0d80 (Reg 2), Store 2 0x200d0d84 (Imm 3), Store 2 0x200d0d86 (Imm 0),
    Store 8 0x200d0dc0 (Imm 0x7080), Store 8 0x200d0dc8 (Imm 0), Store 8 0x200d0e00 (Imm 1),
    Syscall NR_ppoll [Ptr 0x200d0d80, Imm 1, Ptr 0x200d0dc0, Ptr 0x200d0e00, Imm 8], Count,
    Syscall NR_recvfrom [Reg 2, Ptr 0x200d1140, Imm 4, Imm 0x40, Imm 0, Imm 0], Count,
    Syscall NR_recvfrom [Reg 2, Ptr 0x200d1180, Imm 0x23, Imm 0x40, Imm 0, Imm 0], Count,
    Syscall NR_sendto [Reg 2, Write_buf, Imm 0x3178, Imm 0x40, Imm 0, Imm 0], Count,
    Syscall NR_recvfrom [Reg 2, Ptr 0x200ecf80, Imm 4, Imm 0x40, Imm 0, Imm 0], Count,
    Syscall NR_recvfrom [Reg 2, Ptr 0x200ecfc0, Imm 0x18, Imm 0x40, Imm 0, Imm 0], Count,
    Syscall NR_sendto [Reg 2, Write_buf, Imm 0x34, Imm 0x40, Imm 0, Imm 0], Count,
    Syscall NR_recvfrom [Reg 2, Ptr 0x200ed040, Imm 4, Imm 0x40, Imm 0, Imm 0], Count]"

definition min_mysql_recvfrom_sendto_20_0_body143 :: "stmt list" where
  "min_mysql_recvfrom_sendto_20_0_body143 = [
    Syscall NR_recvfrom [Reg 2, Ptr 0x200ed080, Imm 0x93, Imm 0x40, Imm 0, Imm 0], Count,
    Syscall NR_sendto [Reg 2, Write_buf, Imm 0x34, Imm 0x40, Imm 0, Imm 0], Count,
    Syscall NR_recvfrom [Reg 2, Ptr 0x200ed580, Imm 4, Imm 0x40, Imm 0, Imm 0], Count,
    Syscall NR_recvfrom [Reg 2, Ptr 0x200ed7c0, Imm 0x15, Imm 0x40, Imm 0, Imm 0], Count,
    Syscall NR_sendto [Reg 2, Write_buf, Imm 0xb, Imm 0x40, Imm 0, Imm 0], Count,
    Syscall NR_recvfrom [Reg 2, Ptr 0x200ed840, Imm 4, Imm 0x40, Imm 0, Imm 0], Count,
    Syscall NR_recvfrom [Reg 2, Ptr 0x200ed880, Imm 0xd1, Imm 0x40, Imm 0, Imm 0], Count,
    Syscall NR_sendto [Reg 2, Write_buf, Imm 0xd, Imm 0x40, Imm 0, Imm 0], Count,
    Syscall NR_recvfrom [Reg 2, Ptr 0x200ed9c0, Imm 4, Imm 0x40, Imm 0, Imm 0], Count,
    Syscall NR_recvfrom [Reg 2, Ptr 0x200eda00, Imm 0xb, Imm 0x40, Imm 0, Imm 0], Count]"

definition min_mysql_recvfrom_sendto_20_0_body144 :: "stmt list" where
  "min_mysql_recvfrom_sendto_20_0_body144 = [
    Syscall NR_sendto [Reg 2, Write_buf, Imm 0x18, Imm 0x40, Imm 0, Imm 0], Count,
    Syscall NR_recvfrom [Reg 2, Ptr 0x202bfe80, Imm 4, Imm 0x40, Imm 0, Imm 0], Count,
    Syscall NR_recvfrom [Reg 2, Ptr 0x202c7780, Imm 8, Imm 0x40, Imm 0, Imm 0], Count,
    Syscall NR_sendto [Reg 2, Write_buf, Imm 0x18, Imm 0x40, Imm 0, Imm 0], Count,
    Syscall NR_recvfrom [Reg 2, Ptr 0x202f4040, Imm 4, Imm 0x40, Imm 0, Imm 0], Count,
    Syscall NR_recvfrom [Reg 2, Ptr 0x20309fc0, Imm 0x18, Imm 0x40, Imm 0, Imm 0], Count,
    Syscall NR_sendto [Reg 2, Write_buf, Imm 0xbe, Imm 0x40, Imm 0, Imm 0], Count,
    Syscall NR_recvfrom [Reg 2, Ptr 0x2031f240, Imm 4, Imm 0x40, Imm 0, Imm 0], Count,
    Syscall NR_recvfrom [Reg 2, Ptr 0x20339d00, Imm 0x15, Imm 0x40, Imm 0, Imm 0], Count,
    Syscall NR_sendto [Reg 2, Write_buf, Imm 0xbe, Imm 0x40, Imm 0, Imm 0], Count]"

definition min_mysql_recvfrom_sendto_20_0_body145 :: "stmt list" where
  "min_mysql_recvfrom_sendto_20_0_body145 = [
    Syscall NR_recvfrom [Reg 2, Ptr 0x20364b80, Imm 4, Imm 0x40, Imm 0, Imm 0], Count,
    Syscall NR_recvfrom [Reg 2, Ptr 0x20378840, Imm 0x15, Imm 0x40, Imm 0, Imm 0], Count,
    Syscall NR_sendto [Reg 2, Write_buf, Imm 0xbe, Imm 0x40, Imm 0, Imm 0], Count,
    Syscall NR_recvfrom [Reg 2, Ptr 0x203a5f80, Imm 4, Imm 0x40, Imm 0, Imm 0], Count,
    Syscall NR_recvfrom [Reg 2, Ptr 0x203affc0, Imm 0x15, Imm 0x40, Imm 0, Imm 0], Count,
    Syscall NR_sendto [Reg 2, Write_buf, Imm 0xbe, Imm 0x40, Imm 0, Imm 0], Count,
    Syscall NR_recvfrom [Reg 2, Ptr 0x203b7a40, Imm 4, Imm 0x40, Imm 0, Imm 0], Count,
    Syscall NR_recvfrom [Reg 2, Ptr 0x203be8c0, Imm 0x15, Imm 0x40, Imm 0, Imm 0], Count,
    Syscall NR_sendto [Reg 2, Write_buf, Imm 0xbe, Imm 0x40, Imm 0, Imm 0], Count,
    Syscall NR_recvfrom [Reg 2, Ptr 0x203d2500, Imm 4, Imm 0x40, Imm 0, Imm 0], Count]"

definition min_mysql_recvfrom_sendto_20_0_body146 :: "stmt list" where
  "min_mysql_recvfrom_sendto_20_0_body146 = [
    Syscall NR_recvfrom [Reg 2, Ptr 0x203d61c0, Imm 0x15, Imm 0x40, Imm 0, Imm 0], Count,
    Syscall NR_sendto [Reg 2, Write_buf, Imm 0xbe, Imm 0x40, Imm 0, Imm 0], Count,
    Syscall NR_recvfrom [Reg 2, Ptr 0x203e3cc0, Imm 4, Imm 0x40, Imm 0, Imm 0], Count,
    Syscall NR_recvfrom [Reg 2, Ptr 0x203e7b80, Imm 0x15, Imm 0x40, Imm 0, Imm 0], Count,
    Syscall NR_sendto [Reg 2, Write_buf, Imm 0xbe, Imm 0x40, Imm 0, Imm 0], Count,
    Syscall NR_recvfrom [Reg 2, Ptr 0x203ec280, Imm 4, Imm 0x40, Imm 0, Imm 0], Count,
    Syscall NR_recvfrom [Reg 2, Ptr 0x203ed080, Imm 0x15, Imm 0x40, Imm 0, Imm 0], Count,
    Syscall NR_sendto [Reg 2, Write_buf, Imm 0xbe, Imm 0x40, Imm 0, Imm 0], Count,
    Syscall NR_recvfrom [Reg 2, Ptr 0x203ee580, Imm 4, Imm 0x40, Imm 0, Imm 0], Count,
    Syscall NR_recvfrom [Reg 2, Ptr 0x203f3f00, Imm 0x15, Imm 0x40, Imm 0, Imm 0], Count]"

definition min_mysql_recvfrom_sendto_20_0_body147 :: "stmt list" where
  "min_mysql_recvfrom_sendto_20_0_body147 = [
    Syscall NR_sendto [Reg 2, Write_buf, Imm 0xbe, Imm 0x40, Imm 0, Imm 0], Count,
    Syscall NR_recvfrom [Reg 2, Ptr 0x204014c0, Imm 4, Imm 0x40, Imm 0, Imm 0], Count,
    Syscall NR_recvfrom [Reg 2, Ptr 0x2040b400, Imm 0x15, Imm 0x40, Imm 0, Imm 0], Count,
    Syscall NR_sendto [Reg 2, Write_buf, Imm 0xbe, Imm 0x40, Imm 0, Imm 0], Count,
    Syscall NR_recvfrom [Reg 2, Ptr 0x204219c0, Imm 4, Imm 0x40, Imm 0, Imm 0], Count,
    Syscall NR_recvfrom [Reg 2, Ptr 0x2042c840, Imm 0x1d, Imm 0x40, Imm 0, Imm 0], Count,
    Syscall NR_sendto [Reg 2, Write_buf, Imm 0x317a, Imm 0x40, Imm 0, Imm 0], Count,
    Syscall NR_recvfrom [Reg 2, Ptr 0x2043d180, Imm 4, Imm 0x40, Imm 0, Imm 0], Count,
    Syscall NR_recvfrom [Reg 2, Ptr 0x2043f2c0, Imm 0x1d, Imm 0x40, Imm 0, Imm 0], Count,
    Syscall NR_sendto [Reg 2, Write_buf, Imm 0x3c, Imm 0x40, Imm 0, Imm 0], Count]"

definition min_mysql_recvfrom_sendto_20_0_body148 :: "stmt list" where
  "min_mysql_recvfrom_sendto_20_0_body148 = [
    Syscall NR_recvfrom [Reg 2, Ptr 0x20478100, Imm 4, Imm 0x40, Imm 0, Imm 0], Count,
    Syscall NR_recvfrom [Reg 2, Ptr 0x20492880, Imm 0x1d, Imm 0x40, Imm 0, Imm 0], Count,
    Syscall NR_sendto [Reg 2, Write_buf, Imm 0x3178, Imm 0x40, Imm 0, Imm 0], Count,
    Syscall NR_recvfrom [Reg 2, Ptr 0x20666500, Imm 4, Imm 0x40, Imm 0, Imm 0], Count,
    Syscall NR_recvfrom [Reg 2, Ptr 0x20694380, Imm 0x1d, Imm 0x40, Imm 0, Imm 0], Count,
    Syscall NR_sendto [Reg 2, Write_buf, Imm 0x3178, Imm 0x40, Imm 0, Imm 0], Count,
    Syscall NR_recvfrom [Reg 2, Ptr 0x207d70c0, Imm 4, Imm 0x40, Imm 0, Imm 0], Count,
    Syscall NR_recvfrom [Reg 2, Ptr 0x207d9440, Imm 0x15, Imm 0x40, Imm 0, Imm 0], Count,
    Syscall NR_sendto [Reg 2, Write_buf, Imm 0x34, Imm 0x40, Imm 0, Imm 0], Count,
    Syscall NR_recvfrom [Reg 2, Ptr 0x207da880, Imm 4, Imm 0x40, Imm 0, Imm 0], Count]"

definition min_mysql_recvfrom_sendto_20_0_body149 :: "stmt list" where
  "min_mysql_recvfrom_sendto_20_0_body149 = [
    Syscall NR_recvfrom [Reg 2, Ptr 0x207e3ec0, Imm 0x93, Imm 0x40, Imm 0, Imm 0], Count,
    Syscall NR_sendto [Reg 2, Write_buf, Imm 0x34, Imm 0x40, Imm 0, Imm 0], Count,
    Syscall NR_recvfrom [Reg 2, Ptr 0x207ea640, Imm 4, Imm 0x40, Imm 0, Imm 0], Count,
    Syscall NR_recvfrom [Reg 2, Ptr 0x207ee8c0, Imm 0x15, Imm 0x40, Imm 0, Imm 0], Count,
    Syscall NR_sendto [Reg 2, Write_buf, Imm 0xb, Imm 0x40, Imm 0, Imm 0], Count,
    Syscall NR_recvfrom [Reg 2, Ptr 0x207f1540, Imm 4, Imm 0x40, Imm 0, Imm 0], Count,
    Syscall NR_recvfrom [Reg 2, Ptr 0x207f16c0, Imm 0xd1, Imm 0x40, Imm 0, Imm 0], Count,
    Syscall NR_sendto [Reg 2, Write_buf, Imm 0xd, Imm 0x40, Imm 0, Imm 0], Count,
    Syscall NR_recvfrom [Reg 2, Ptr 0x207f5680, Imm 4, Imm 0x40, Imm 0, Imm 0], Count,
    Syscall NR_recvfrom [Reg 2, Ptr 0x207f58c0, Imm 0xb, Imm 0x40, Imm 0, Imm 0], Count]"

definition min_mysql_recvfrom_sendto_20_0_body150 :: "stmt list" where
  "min_mysql_recvfrom_sendto_20_0_body150 = [
    Syscall NR_sendto [Reg 2, Write_buf, Imm 0x18, Imm 0x40, Imm 0, Imm 0], Count,
    Syscall NR_recvfrom [Reg 2, Ptr 0x20880000, Imm 4, Imm 0x40, Imm 0, Imm 0], Count,
    Syscall NR_recvfrom [Reg 2, Ptr 0x20880880, Imm 8, Imm 0x40, Imm 0, Imm 0], Count,
    Syscall NR_sendto [Reg 2, Write_buf, Imm 0x18, Imm 0x40, Imm 0, Imm 0], Count,
    Syscall NR_recvfrom [Reg 2, Ptr 0x20881f00, Imm 4, Imm 0x40, Imm 0, Imm 0], Count,
    Syscall NR_recvfrom [Reg 2, Ptr 0x208827c0, Imm 0x15, Imm 0x40, Imm 0, Imm 0], Count,
    Syscall NR_sendto [Reg 2, Write_buf, Imm 0xc0, Imm 0x40, Imm 0, Imm 0], Count,
    Syscall NR_recvfrom [Reg 2, Ptr 0x20883fc0, Imm 4, Imm 0x40, Imm 0, Imm 0], Count,
    Syscall NR_recvfrom [Reg 2, Ptr 0x208a48c0, Imm 0x15, Imm 0x40, Imm 0, Imm 0], Count,
    Syscall NR_sendto [Reg 2, Write_buf, Imm 0xc0, Imm 0x40, Imm 0, Imm 0], Count]"

definition min_mysql_recvfrom_sendto_20_0_body151 :: "stmt list" where
  "min_mysql_recvfrom_sendto_20_0_body151 = [
    Syscall NR_recvfrom [Reg 2, Ptr 0x208a92c0, Imm 4, Imm 0x40, Imm 0, Imm 0], Count,
    Syscall NR_recvfrom [Reg 2, Ptr 0x208ace40, Imm 0x15, Imm 0x40, Imm 0, Imm 0], Count,
    Syscall NR_sendto [Reg 2, Write_buf, Imm 0xc0, Imm 0x40, Imm 0, Imm 0], Count,
    Syscall NR_recvfrom [Reg 2, Ptr 0x208b3b80, Imm 4, Imm 0x40, Imm 0, Imm 0], Count,
    Syscall NR_recvfrom [Reg 2, Ptr 0x208b7600, Imm 0x15, Imm 0x40, Imm 0, Imm 0], Count,
    Syscall NR_sendto [Reg 2, Write_buf, Imm 0xc0, Imm 0x40, Imm 0, Imm 0], Count,
    Syscall NR_recvfrom [Reg 2, Ptr 0x208bf0c0, Imm 4, Imm 0x40, Imm 0, Imm 0], Count,
    Syscall NR_recvfrom [Reg 2, Ptr 0x208c13c0, Imm 0x15, Imm 0x40, Imm 0, Imm 0], Count,
    Syscall NR_sendto [Reg 2, Write_buf, Imm 0xc0, Imm 0x40, Imm 0, Imm 0], Count,
    Syscall NR_recvfrom [Reg 2, Ptr 0x208ebf80, Imm 4, Imm 0x40, Imm 0, Imm 0], Count]"

definition min_mysql_recvfrom_sendto_20_0_body152 :: "stmt list" where
  "min_mysql_recvfrom_sendto_20_0_body152 = [
    Syscall NR_recvfrom [Reg 2, Ptr 0x208f8e40, Imm 0x15, Imm 0x40, Imm 0, Imm 0], Count,
    Syscall NR_sendto [Reg 2, Write_buf, Imm 0xc0, Imm 0x40, Imm 0, Imm 0], Count,
    Syscall NR_recvfrom [Reg 2, Ptr 0x20915680, Imm 4, Imm 0x40, Imm 0, Imm 0], Count,
    Syscall NR_recvfrom [Reg 2, Ptr 0x20921f00, Imm 0x15, Imm 0x40, Imm 0, Imm 0], Count,
    Syscall NR_sendto [Reg 2, Write_buf, Imm 0xc0, Imm 0x40, Imm 0, Imm 0], Count,
    Syscall NR_recvfrom [Reg 2, Ptr 0x2094d480, Imm 4, Imm 0x40, Imm 0, Imm 0], Count,
    Syscall NR_recvfrom [Reg 2, Ptr 0x20962340, Imm 0x15, Imm 0x40, Imm 0, Imm 0], Count,
    Syscall NR_sendto [Reg 2, Write_buf, Imm 0xc0, Imm 0x40, Imm 0, Imm 0], Count,
    Syscall NR_recvfrom [Reg 2, Ptr 0x2097f680, Imm 4, Imm 0x40, Imm 0, Imm 0], Count,
    Syscall NR_recvfrom [Reg 2, Ptr 0x20992a00, Imm 0x15, Imm 0x40, Imm 0, Imm 0], Count]"

definition min_mysql_recvfrom_sendto_20_0_body153 :: "stmt list" where
  "min_mysql_recvfrom_sendto_20_0_body153 = [
    Syscall NR_sendto [Reg 2, Write_buf, Imm 0xc0, Imm 0x40, Imm 0, Imm 0], Count,
    Syscall NR_recvfrom [Reg 2, Ptr 0x209b4900, Imm 4, Imm 0x40, Imm 0, Imm 0], Count,
    Syscall NR_recvfrom [Reg 2, Ptr 0x209d1600, Imm 0x15, Imm 0x40, Imm 0, Imm 0], Count,
    Syscall NR_sendto [Reg 2, Write_buf, Imm 0xc0, Imm 0x40, Imm 0, Imm 0], Count,
    Syscall NR_recvfrom [Reg 2, Ptr 0x209f0140, Imm 4, Imm 0x40, Imm 0, Imm 0], Count,
    Syscall NR_recvfrom [Reg 2, Ptr 0x209fe080, Imm 0x1d, Imm 0x40, Imm 0, Imm 0], Count,
    Syscall NR_sendto [Reg 2, Write_buf, Imm 0x317a, Imm 0x40, Imm 0, Imm 0], Count,
    Syscall NR_recvfrom [Reg 2, Ptr 0x20a36740, Imm 4, Imm 0x40, Imm 0, Imm 0], Count,
    Syscall NR_recvfrom [Reg 2, Ptr 0x20a48d80, Imm 0x1d, Imm 0x40, Imm 0, Imm 0], Count,
    Syscall NR_sendto [Reg 2, Write_buf, Imm 0x3c, Imm 0x40, Imm 0, Imm 0], Count]"

definition min_mysql_recvfrom_sendto_20_0_body154 :: "stmt list" where
  "min_mysql_recvfrom_sendto_20_0_body154 = [
    Syscall NR_recvfrom [Reg 2, Ptr 0x20a81b80, Imm 4, Imm 0x40, Imm 0, Imm 0], Count,
    Syscall NR_recvfrom [Reg 2, Ptr 0x20a9ae00, Imm 0x23, Imm 0x40, Imm 0, Imm 0], Count,
    Syscall NR_sendto [Reg 2, Write_buf, Imm 0x3178, Imm 0x40, Imm 0, Imm 0], Count,
    Syscall NR_recvfrom [Reg 2, Ptr 0x20d35c80, Imm 4, Imm 0x40, Imm 0, Imm 0], Count,
    Syscall NR_recvfrom [Reg 2, Ptr 0x20d56d00, Imm 0x23, Imm 0x40, Imm 0, Imm 0], Count,
    Syscall NR_sendto [Reg 2, Write_buf, Imm 0x317a, Imm 0x40, Imm 0, Imm 0], Count,
    Syscall NR_recvfrom [Reg 2, Ptr 0x20f02580, Imm 4, Imm 0x40, Imm 0, Imm 0], Count,
    Syscall NR_recvfrom [Reg 2, Ptr 0x20f0be40, Imm 0x18, Imm 0x40, Imm 0, Imm 0], Count,
    Syscall NR_sendto [Reg 2, Write_buf, Imm 0x34, Imm 0x40, Imm 0, Imm 0], Count,
    Syscall NR_recvfrom [Reg 2, Ptr 0x20f1c680, Imm 4, Imm 0x40, Imm 0, Imm 0], Count]"

definition min_mysql_recvfrom_sendto_20_0_body155 :: "stmt list" where
  "min_mysql_recvfrom_sendto_20_0_body155 = [
    Syscall NR_recvfrom [Reg 2, Ptr 0x20f1fb80, Imm 0x8d, Imm 0x40, Imm 0, Imm 0], Count,
    Syscall NR_sendto [Reg 2, Write_buf, Imm 0x34, Imm 0x40, Imm 0, Imm 0], Count,
    Syscall NR_recvfrom [Reg 2, Ptr 0x200720c0, Imm 4, Imm 0x40, Imm 0, Imm 0], Count,
    Store 4 0x20072200 (Reg 2), Store 2 0x20072204 (Imm 3), Store 2 0x20072206 (Imm 0),
    Store 8 0x20072240 (Imm 0x7080), Store 8 0x20072248 (Imm 0), Store 8 0x20072280 (Imm 1),
    Syscall NR_ppoll [Ptr 0x20072200, Imm 1, Ptr 0x20072240, Ptr 0x20072280, Imm 8], Count,
    Syscall NR_recvfrom [Reg 2, Ptr 0x20072380, Imm 4, Imm 0x40, Imm 0, Imm 0], Count,
    Syscall NR_recvfrom [Reg 2, Ptr 0x200723c0, Imm 0x15, Imm 0x40, Imm 0, Imm 0], Count,
    Syscall NR_sendto [Reg 2, Write_buf, Imm 0xb, Imm 0x40, Imm 0, Imm 0], Count,
    Syscall NR_recvfrom [Reg 2, Ptr 0x200725c0, Imm 4, Imm 0x40, Imm 0, Imm 0], Count,
    Syscall NR_recvfrom [Reg 2, Ptr 0x20072600, Imm 0xd1, Imm 0x40, Imm 0, Imm 0], Count]"

definition min_mysql_recvfrom_sendto_20_0_body156 :: "stmt list" where
  "min_mysql_recvfrom_sendto_20_0_body156 = [
    Syscall NR_sendto [Reg 2, Write_buf, Imm 0xd, Imm 0x40, Imm 0, Imm 0], Count,
    Syscall NR_recvfrom [Reg 2, Ptr 0x20072800, Imm 4, Imm 0x40, Imm 0, Imm 0], Count,
    Syscall NR_recvfrom [Reg 2, Ptr 0x20072840, Imm 0xb, Imm 0x40, Imm 0, Imm 0], Count,
    Syscall NR_sendto [Reg 2, Write_buf, Imm 0x18, Imm 0x40, Imm 0, Imm 0], Count,
    Syscall NR_recvfrom [Reg 2, Ptr 0x20164d40, Imm 4, Imm 0x40, Imm 0, Imm 0], Count,
    Syscall NR_recvfrom [Reg 2, Ptr 0x20176880, Imm 8, Imm 0x40, Imm 0, Imm 0], Count,
    Syscall NR_sendto [Reg 2, Write_buf, Imm 0x18, Imm 0x40, Imm 0, Imm 0], Count,
    Syscall NR_recvfrom [Reg 2, Ptr 0x201a5080, Imm 4, Imm 0x40, Imm 0, Imm 0], Count,
    Syscall NR_recvfrom [Reg 2, Ptr 0x201b3800, Imm 0x18, Imm 0x40, Imm 0, Imm 0], Count,
    Syscall NR_sendto [Reg 2, Write_buf, Imm 0xbe, Imm 0x40, Imm 0, Imm 0], Count]"

definition min_mysql_recvfrom_sendto_20_0_body157 :: "stmt list" where
  "min_mysql_recvfrom_sendto_20_0_body157 = [
    Syscall NR_recvfrom [Reg 2, Ptr 0x201e5dc0, Imm 4, Imm 0x40, Imm 0, Imm 0], Count,
    Syscall NR_recvfrom [Reg 2, Ptr 0x202033c0, Imm 0x15, Imm 0x40, Imm 0, Imm 0], Count,
    Syscall NR_sendto [Reg 2, Write_buf, Imm 0xbe, Imm 0x40, Imm 0, Imm 0], Count,
    Syscall NR_recvfrom [Reg 2, Ptr 0x2024c080, Imm 4, Imm 0x40, Imm 0, Imm 0], Count,
    Syscall NR_recvfrom [Reg 2, Ptr 0x20272340, Imm 0x15, Imm 0x40, Imm 0, Imm 0], Count,
    Syscall NR_sendto [Reg 2, Write_buf, Imm 0xbe, Imm 0x40, Imm 0, Imm 0], Count,
    Syscall NR_recvfrom [Reg 2, Ptr 0x202a8480, Imm 4, Imm 0x40, Imm 0, Imm 0], Count,
    Syscall NR_recvfrom [Reg 2, Ptr 0x202b7680, Imm 0x15, Imm 0x40, Imm 0, Imm 0], Count,
    Syscall NR_sendto [Reg 2, Write_buf, Imm 0xbe, Imm 0x40, Imm 0, Imm 0], Count,
    Syscall NR_recvfrom [Reg 2, Ptr 0x202e9040, Imm 4, Imm 0x40, Imm 0, Imm 0], Count]"

definition min_mysql_recvfrom_sendto_20_0_body158 :: "stmt list" where
  "min_mysql_recvfrom_sendto_20_0_body158 = [
    Syscall NR_recvfrom [Reg 2, Ptr 0x20303680, Imm 0x15, Imm 0x40, Imm 0, Imm 0], Count,
    Syscall NR_sendto [Reg 2, Write_buf, Imm 0xbe, Imm 0x40, Imm 0, Imm 0], Count,
    Syscall NR_recvfrom [Reg 2, Ptr 0x20335440, Imm 4, Imm 0x40, Imm 0, Imm 0], Count,
    Syscall NR_recvfrom [Reg 2, Ptr 0x2034e640, Imm 0x15, Imm 0x40, Imm 0, Imm 0], Count,
    Syscall NR_sendto [Reg 2, Write_buf, Imm 0xbe, Imm 0x40, Imm 0, Imm 0], Count,
    Syscall NR_recvfrom [Reg 2, Ptr 0x2039fdc0, Imm 4, Imm 0x40, Imm 0, Imm 0], Count,
    Syscall NR_recvfrom [Reg 2, Ptr 0x203d7d80, Imm 0x15, Imm 0x40, Imm 0, Imm 0], Count,
    Syscall NR_sendto [Reg 2, Write_buf, Imm 0xbe, Imm 0x40, Imm 0, Imm 0], Count,
    Syscall NR_recvfrom [Reg 2, Ptr 0x20416f00, Imm 4, Imm 0x40, Imm 0, Imm 0], Count,
    Syscall NR_recvfrom [Reg 2, Ptr 0x20440500, Imm 0x15, Imm 0x40, Imm 0, Imm 0], Count]"

definition min_mysql_recvfrom_sendto_20_0_body159 :: "stmt list" where
  "min_mysql_recvfrom_sendto_20_0_body159 = [
    Syscall NR_sendto [Reg 2, Write_buf, Imm 0xbe, Imm 0x40, Imm 0, Imm 0], Count,
    Syscall NR_recvfrom [Reg 2, Ptr 0x20474a80, Imm 4, Imm 0x40, Imm 0, Imm 0], Count,
    Syscall NR_recvfrom [Reg 2, Ptr 0x20494740, Imm 0x15, Imm 0x40, Imm 0, Imm 0], Count,
    Syscall NR_sendto [Reg 2, Write_buf, Imm 0xbe, Imm 0x40, Imm 0, Imm 0], Count,
    Syscall NR_recvfrom [Reg 2, Ptr 0x204ceb00, Imm 4, Imm 0x40, Imm 0, Imm 0], Count,
    Syscall NR_recvfrom [Reg 2, Ptr 0x204f2a00, Imm 0x15, Imm 0x40, Imm 0, Imm 0], Count,
    Syscall NR_sendto [Reg 2, Write_buf, Imm 0xbe, Imm 0x40, Imm 0, Imm 0], Count,
    Syscall NR_recvfrom [Reg 2, Ptr 0x2051b900, Imm 4, Imm 0x40, Imm 0, Imm 0], Count,
    Syscall NR_recvfrom [Reg 2, Ptr 0x20538c00, Imm 0x1d, Imm 0x40, Imm 0, Imm 0], Count,
    Syscall NR_sendto [Reg 2, Write_buf, Imm 0x3178, Imm 0x40, Imm 0, Imm 0], Count]"

definition min_mysql_recvfrom_sendto_20_0_body160 :: "stmt list" where
  "min_mysql_recvfrom_sendto_20_0_body160 = [
    Syscall NR_recvfrom [Reg 2, Ptr 0x20566b80, Imm 4, Imm 0x40, Imm 0, Imm 0], Count,
    Syscall NR_recvfrom [Reg 2, Ptr 0x2057bbc0, Imm 0x23, Imm 0x40, Imm 0, Imm 0], Count,
    Syscall NR_sendto [Reg 2, Write_buf, Imm 0x3c, Imm 0x40, Imm 0, Imm 0], Count,
    Syscall NR_recvfrom [Reg 2, Ptr 0x205a29c0, Imm 4, Imm 0x40, Imm 0, Imm 0], Count,
    Syscall NR_recvfrom [Reg 2, Ptr 0x205b5700, Imm 0x1d, Imm 0x40, Imm 0, Imm 0], Count,
    Syscall NR_sendto [Reg 2, Write_buf, Imm 0x317a, Imm 0x40, Imm 0, Imm 0], Count,
    Syscall NR_recvfrom [Reg 2, Ptr 0x206f5500, Imm 4, Imm 0x40, Imm 0, Imm 0], Count,
    Syscall NR_recvfrom [Reg 2, Ptr 0x206f59c0, Imm 0x23, Imm 0x40, Imm 0, Imm 0], Count,
    Syscall NR_sendto [Reg 2, Write_buf, Imm 0x3178, Imm 0x40, Imm 0, Imm 0], Count,
    Syscall NR_recvfrom [Reg 2, Ptr 0x2076a8c0, Imm 4, Imm 0x40, Imm 0, Imm 0], Count]"

definition min_mysql_recvfrom_sendto_20_0_body161 :: "stmt list" where
  "min_mysql_recvfrom_sendto_20_0_body161 = [
    Syscall NR_recvfrom [Reg 2, Ptr 0x2076aa00, Imm 0x15, Imm 0x40, Imm 0, Imm 0], Count,
    Syscall NR_sendto [Reg 2, Write_buf, Imm 0x34, Imm 0x40, Imm 0, Imm 0], Count,
    Syscall NR_recvfrom [Reg 2, Ptr 0x2076b280, Imm 4, Imm 0x40, Imm 0, Imm 0], Count,
    Syscall NR_recvfrom [Reg 2, Ptr 0x2076e640, Imm 0x8d, Imm 0x40, Imm 0, Imm 0], Count,
    Syscall NR_sendto [Reg 2, Write_buf, Imm 0x34, Imm 0x40, Imm 0, Imm 0], Count,
    Syscall NR_recvfrom [Reg 2, Ptr 0x20771f40, Imm 4, Imm 0x40, Imm 0, Imm 0], Count,
    Syscall NR_recvfrom [Reg 2, Ptr 0x207721c0, Imm 0x15, Imm 0x40, Imm 0, Imm 0], Count,
    Syscall NR_sendto [Reg 2, Write_buf, Imm 0xb, Imm 0x40, Imm 0, Imm 0], Count,
    Syscall NR_recvfrom [Reg 2, Ptr 0x20775b80, Imm 4, Imm 0x40, Imm 0, Imm 0], Count,
    Syscall NR_recvfrom [Reg 2, Ptr 0x20775e00, Imm 0xd1, Imm 0x40, Imm 0, Imm 0], Count]"

definition min_mysql_recvfrom_sendto_20_0_body162 :: "stmt list" where
  "min_mysql_recvfrom_sendto_20_0_body162 = [
    Syscall NR_sendto [Reg 2, Write_buf, Imm 0xd, Imm 0x40, Imm 0, Imm 0], Count,
    Syscall NR_recvfrom [Reg 2, Ptr 0x20778200, Imm 4, Imm 0x40, Imm 0, Imm 0], Count,
    Syscall NR_recvfrom [Reg 2, Ptr 0x20778480, Imm 0xb, Imm 0x40, Imm 0, Imm 0], Count,
    Syscall NR_sendto [Reg 2, Write_buf, Imm 0x18, Imm 0x40, Imm 0, Imm 0], Count,
    Syscall NR_recvfrom [Reg 2, Ptr 0x2087f200, Imm 4, Imm 0x40, Imm 0, Imm 0], Count,
    Syscall NR_recvfrom [Reg 2, Ptr 0x2087fa80, Imm 8, Imm 0x40, Imm 0, Imm 0], Count,
    Syscall NR_sendto [Reg 2, Write_buf, Imm 0x18, Imm 0x40, Imm 0, Imm 0], Count,
    Syscall NR_recvfrom [Reg 2, Ptr 0x20880d80, Imm 4, Imm 0x40, Imm 0, Imm 0], Count,
    Syscall NR_recvfrom [Reg 2, Ptr 0x20884700, Imm 0x15, Imm 0x40, Imm 0, Imm 0], Count,
    Syscall NR_sendto [Reg 2, Write_buf, Imm 0xbe, Imm 0x40, Imm 0, Imm 0], Count]"

definition min_mysql_recvfrom_sendto_20_0_body163 :: "stmt list" where
  "min_mysql_recvfrom_sendto_20_0_body163 = [
    Syscall NR_recvfrom [Reg 2, Ptr 0x208a8a40, Imm 4, Imm 0x40, Imm 0, Imm 0], Count,
    Syscall NR_recvfrom [Reg 2, Ptr 0x208af580, Imm 0x15, Imm 0x40, Imm 0, Imm 0], Count,
    Syscall NR_sendto [Reg 2, Write_buf, Imm 0xbe, Imm 0x40, Imm 0, Imm 0], Count,
    Syscall NR_recvfrom [Reg 2, Ptr 0x208b0a00, Imm 4, Imm 0x40, Imm 0, Imm 0], Count,
    Syscall NR_recvfrom [Reg 2, Ptr 0x208b3840, Imm 0x15, Imm 0x40, Imm 0, Imm 0], Count,
    Syscall NR_sendto [Reg 2, Write_buf, Imm 0xbe, Imm 0x40, Imm 0, Imm 0], Count,
    Syscall NR_recvfrom [Reg 2, Ptr 0x208b4c00, Imm 4, Imm 0x40, Imm 0, Imm 0], Count,
    Syscall NR_recvfrom [Reg 2, Ptr 0x208b8580, Imm 0x15, Imm 0x40, Imm 0, Imm 0], Count,
    Syscall NR_sendto [Reg 2, Write_buf, Imm 0xbe, Imm 0x40, Imm 0, Imm 0], Count,
    Syscall NR_recvfrom [Reg 2, Ptr 0x208db8c0, Imm 4, Imm 0x40, Imm 0, Imm 0], Count]"

definition min_mysql_recvfrom_sendto_20_0_body164 :: "stmt list" where
  "min_mysql_recvfrom_sendto_20_0_body164 = [
    Syscall NR_recvfrom [Reg 2, Ptr 0x208e1340, Imm 0x15, Imm 0x40, Imm 0, Imm 0], Count,
    Syscall NR_sendto [Reg 2, Write_buf, Imm 0xbe, Imm 0x40, Imm 0, Imm 0], Count,
    Syscall NR_recvfrom [Reg 2, Ptr 0x20906440, Imm 4, Imm 0x40, Imm 0, Imm 0], Count,
    Syscall NR_recvfrom [Reg 2, Ptr 0x2090d4c0, Imm 0x15, Imm 0x40, Imm 0, Imm 0], Count,
    Syscall NR_sendto [Reg 2, Write_buf, Imm 0xbe, Imm 0x40, Imm 0, Imm 0], Count,
    Syscall NR_recvfrom [Reg 2, Ptr 0x2092a7c0, Imm 4, Imm 0x40, Imm 0, Imm 0], Count,
    Syscall NR_recvfrom [Reg 2, Ptr 0x209334c0, Imm 0x15, Imm 0x40, Imm 0, Imm 0], Count,
    Syscall NR_sendto [Reg 2, Write_buf, Imm 0xbe, Imm 0x40, Imm 0, Imm 0], Count,
    Syscall NR_recvfrom [Reg 2, Ptr 0x2094e780, Imm 4, Imm 0x40, Imm 0, Imm 0], Count,
    Syscall NR_recvfrom [Reg 2, Ptr 0x20969d80, Imm 0x15, Imm 0x40, Imm 0, Imm 0], Count]"

definition min_mysql_recvfrom_sendto_20_0_body165 :: "stmt list" where
  "min_mysql_recvfrom_sendto_20_0_body165 = [
    Syscall NR_sendto [Reg 2, Write_buf, Imm 0xbe, Imm 0x40, Imm 0, Imm 0], Count,
    Syscall NR_recvfrom [Reg 2, Ptr 0x20999f40, Imm 4, Imm 0x40, Imm 0, Imm 0], Count,
    Syscall NR_recvfrom [Reg 2, Ptr 0x209af940, Imm 0x15, Imm 0x40, Imm 0, Imm 0], Count,
    Syscall NR_sendto [Reg 2, Write_buf, Imm 0xbe, Imm 0x40, Imm 0, Imm 0], Count,
    Syscall NR_recvfrom [Reg 2, Ptr 0x209d7480, Imm 4, Imm 0x40, Imm 0, Imm 0], Count,
    Syscall NR_recvfrom [Reg 2, Ptr 0x209f6e80, Imm 0x15, Imm 0x40, Imm 0, Imm 0], Count,
    Syscall NR_sendto [Reg 2, Write_buf, Imm 0xbe, Imm 0x40, Imm 0, Imm 0], Count,
    Syscall NR_recvfrom [Reg 2, Ptr 0x20a1b180, Imm 4, Imm 0x40, Imm 0, Imm 0], Count,
    Syscall NR_recvfrom [Reg 2, Ptr 0x20a33c80, Imm 0x23, Imm 0x40, Imm 0, Imm 0], Count,
    Syscall NR_sendto [Reg 2, Write_buf, Imm 0x317a, Imm 0x40, Imm 0, Imm 0], Count]"

definition min_mysql_recvfrom_sendto_20_0_body166 :: "stmt list" where
  "min_mysql_recvfrom_sendto_20_0_body166 = [
    Syscall NR_recvfrom [Reg 2, Ptr 0x20a75040, Imm 4, Imm 0x40, Imm 0, Imm 0], Count,
    Syscall NR_recvfrom [Reg 2, Ptr 0x20a8d940, Imm 0x1d, Imm 0x40, Imm 0, Imm 0], Count,
    Syscall NR_sendto [Reg 2, Write_buf, Imm 0x3c, Imm 0x40, Imm 0, Imm 0], Count,
    Syscall NR_recvfrom [Reg 2, Ptr 0x20ad23c0, Imm 4, Imm 0x40, Imm 0, Imm 0], Count,
    Syscall NR_recvfrom [Reg 2, Ptr 0x20adeec0, Imm 0x1d, Imm 0x40, Imm 0, Imm 0], Count,
    Syscall NR_sendto [Reg 2, Write_buf, Imm 0x3178, Imm 0x40, Imm 0, Imm 0], Count,
    Syscall NR_recvfrom [Reg 2, Ptr 0x20cc0dc0, Imm 4, Imm 0x40, Imm 0, Imm 0], Count,
    Syscall NR_recvfrom [Reg 2, Ptr 0x20cd4d40, Imm 0x1d, Imm 0x40, Imm 0, Imm 0], Count,
    Syscall NR_sendto [Reg 2, Write_buf, Imm 0x317a, Imm 0x40, Imm 0, Imm 0], Count,
    Syscall NR_recvfrom [Reg 2, Ptr 0x20dd3cc0, Imm 4, Imm 0x40, Imm 0, Imm 0], Count]"

definition min_mysql_recvfrom_sendto_20_0_body167 :: "stmt list" where
  "min_mysql_recvfrom_sendto_20_0_body167 = [
    Syscall NR_recvfrom [Reg 2, Ptr 0x20de6900, Imm 0x18, Imm 0x40, Imm 0, Imm 0], Count,
    Syscall NR_sendto [Reg 2, Write_buf, Imm 0x34, Imm 0x40, Imm 0, Imm 0], Count,
    Syscall NR_recvfrom [Reg 2, Ptr 0x20df7140, Imm 4, Imm 0x40, Imm 0, Imm 0], Count,
    Syscall NR_recvfrom [Reg 2, Ptr 0x20dfbd00, Imm 0x93, Imm 0x40, Imm 0, Imm 0], Count,
    Syscall NR_sendto [Reg 2, Write_buf, Imm 0x34, Imm 0x40, Imm 0, Imm 0], Count,
    Syscall NR_recvfrom [Reg 2, Ptr 0x20e02cc0, Imm 4, Imm 0x40, Imm 0, Imm 0], Count,
    Syscall NR_recvfrom [Reg 2, Ptr 0x20e09680, Imm 0x15, Imm 0x40, Imm 0, Imm 0], Count,
    Syscall NR_sendto [Reg 2, Write_buf, Imm 0xb, Imm 0x40, Imm 0, Imm 0], Count,
    Syscall NR_recvfrom [Reg 2, Ptr 0x20e19580, Imm 4, Imm 0x40, Imm 0, Imm 0], Count,
    Syscall NR_recvfrom [Reg 2, Ptr 0x20e1c940, Imm 0xd1, Imm 0x40, Imm 0, Imm 0], Count]"

definition min_mysql_recvfrom_sendto_20_0_body168 :: "stmt list" where
  "min_mysql_recvfrom_sendto_20_0_body168 = [
    Syscall NR_sendto [Reg 2, Write_buf, Imm 0xb, Imm 0x40, Imm 0, Imm 0], Count,
    Syscall NR_recvfrom [Reg 2, Ptr 0x20e29340, Imm 4, Imm 0x40, Imm 0, Imm 0], Count,
    Syscall NR_recvfrom [Reg 2, Ptr 0x20e29480, Imm 0xb, Imm 0x40, Imm 0, Imm 0], Count,
    Syscall NR_sendto [Reg 2, Write_buf, Imm 0x18, Imm 0x40, Imm 0, Imm 0], Count,
    Syscall NR_recvfrom [Reg 2, Ptr 0x20f1f140, Imm 4, Imm 0x40, Imm 0, Imm 0], Count,
    Syscall NR_recvfrom [Reg 2, Ptr 0x20f1f680, Imm 8, Imm 0x40, Imm 0, Imm 0], Count,
    Syscall NR_sendto [Reg 2, Write_buf, Imm 0x18, Imm 0x40, Imm 0, Imm 0], Count,
    Syscall NR_recvfrom [Reg 2, Ptr 0x20f20980, Imm 4, Imm 0x40, Imm 0, Imm 0], Count,
    Syscall NR_recvfrom [Reg 2, Ptr 0x20f20fc0, Imm 0x18, Imm 0x40, Imm 0, Imm 0], Count,
    Syscall NR_sendto [Reg 2, Write_buf, Imm 0xbe, Imm 0x40, Imm 0, Imm 0], Count]"

definition min_mysql_recvfrom_sendto_20_0_body169 :: "stmt list" where
  "min_mysql_recvfrom_sendto_20_0_body169 = [
    Syscall NR_recvfrom [Reg 2, Ptr 0x20f22540, Imm 4, Imm 0x40, Imm 0, Imm 0], Count,
    Syscall NR_recvfrom [Reg 2, Ptr 0x20f22b80, Imm 0x15, Imm 0x40, Imm 0, Imm 0], Count,
    Syscall NR_sendto [Reg 2, Write_buf, Imm 0xbe, Imm 0x40, Imm 0, Imm 0], Count,
    Syscall NR_recvfrom [Reg 2, Ptr 0x20f24200, Imm 4, Imm 0x40, Imm 0, Imm 0], Count,
    Syscall NR_recvfrom [Reg 2, Ptr 0x20f24840, Imm 0x15, Imm 0x40, Imm 0, Imm 0], Count,
    Syscall NR_sendto [Reg 2, Write_buf, Imm 0xbe, Imm 0x40, Imm 0, Imm 0], Count,
    Syscall NR_recvfrom [Reg 2, Ptr 0x20f25ec0, Imm 4, Imm 0x40, Imm 0, Imm 0], Count,
    Syscall NR_recvfrom [Reg 2, Ptr 0x20f26500, Imm 0x15, Imm 0x40, Imm 0, Imm 0], Count,
    Syscall NR_sendto [Reg 2, Write_buf, Imm 0xbe, Imm 0x40, Imm 0, Imm 0], Count,
    Syscall NR_recvfrom [Reg 2, Ptr 0x20f27b80, Imm 4, Imm 0x40, Imm 0, Imm 0], Count]"

definition min_mysql_recvfrom_sendto_20_0_body170 :: "stmt list" where
  "min_mysql_recvfrom_sendto_20_0_body170 = [
    Syscall NR_recvfrom [Reg 2, Ptr 0x20f281c0, Imm 0x15, Imm 0x40, Imm 0, Imm 0], Count,
    Syscall NR_sendto [Reg 2, Write_buf, Imm 0xbe, Imm 0x40, Imm 0, Imm 0], Count,
    Syscall NR_recvfrom [Reg 2, Ptr 0x20f49880, Imm 4, Imm 0x40, Imm 0, Imm 0], Count,
    Syscall NR_recvfrom [Reg 2, Ptr 0x20f49fc0, Imm 0x15, Imm 0x40, Imm 0, Imm 0], Count,
    Syscall NR_sendto [Reg 2, Write_buf, Imm 0xbe, Imm 0x40, Imm 0, Imm 0], Count,
    Syscall NR_recvfrom [Reg 2, Ptr 0x20f4b840, Imm 4, Imm 0x40, Imm 0, Imm 0], Count,
    Syscall NR_recvfrom [Reg 2, Ptr 0x20f4bf00, Imm 0x15, Imm 0x40, Imm 0, Imm 0], Count,
    Syscall NR_sendto [Reg 2, Write_buf, Imm 0xbe, Imm 0x40, Imm 0, Imm 0], Count,
    Syscall NR_recvfrom [Reg 2, Ptr 0x20f56800, Imm 4, Imm 0x40, Imm 0, Imm 0], Count,
    Syscall NR_recvfrom [Reg 2, Ptr 0x20f56e80, Imm 0x15, Imm 0x40, Imm 0, Imm 0], Count]"

definition min_mysql_recvfrom_sendto_20_0_body171 :: "stmt list" where
  "min_mysql_recvfrom_sendto_20_0_body171 = [
    Syscall NR_sendto [Reg 2, Write_buf, Imm 0xbe, Imm 0x40, Imm 0, Imm 0], Count,
    Syscall NR_recvfrom [Reg 2, Ptr 0x20f81740, Imm 4, Imm 0x40, Imm 0, Imm 0], Count,
    Syscall NR_recvfrom [Reg 2, Ptr 0x20f82240, Imm 0x15, Imm 0x40, Imm 0, Imm 0], Count,
    Syscall NR_sendto [Reg 2, Write_buf, Imm 0xbe, Imm 0x40, Imm 0, Imm 0], Count,
    Syscall NR_recvfrom [Reg 2, Ptr 0x20f8dcc0, Imm 4, Imm 0x40, Imm 0, Imm 0], Count,
    Syscall NR_recvfrom [Reg 2, Ptr 0x20f91740, Imm 0x15, Imm 0x40, Imm 0, Imm 0], Count,
    Syscall NR_sendto [Reg 2, Write_buf, Imm 0xbe, Imm 0x40, Imm 0, Imm 0], Count,
    Syscall NR_recvfrom [Reg 2, Ptr 0x20faaec0, Imm 4, Imm 0x40, Imm 0, Imm 0], Count,
    Syscall NR_recvfrom [Reg 2, Ptr 0x20fbb880, Imm 0x1d, Imm 0x40, Imm 0, Imm 0], Count,
    Syscall NR_sendto [Reg 2, Write_buf, Imm 0x317a, Imm 0x40, Imm 0, Imm 0], Count]"

definition min_mysql_recvfrom_sendto_20_0_body172 :: "stmt list" where
  "min_mysql_recvfrom_sendto_20_0_body172 = [
    Syscall NR_recvfrom [Reg 2, Ptr 0x20fe6080, Imm 4, Imm 0x40, Imm 0, Imm 0], Count,
    Syscall NR_recvfrom [Reg 2, Ptr 0x2000f000, Imm 0x23, Imm 0x40, Imm 0, Imm 0], Count,
    Syscall NR_sendto [Reg 2, Write_buf, Imm 0x3c, Imm 0x40, Imm 0, Imm 0], Count,
    Syscall NR_recvfrom [Reg 2, Ptr 0x2004a440, Imm 4, Imm 0x40, Imm 0, Imm 0], Count,
    Syscall NR_recvfrom [Reg 2, Ptr 0x20067980, Imm 0x23, Imm 0x40, Imm 0, Imm 0], Count,
    Syscall NR_sendto [Reg 2, Write_buf, Imm 0x317a, Imm 0x40, Imm 0, Imm 0], Count,
    Syscall NR_recvfrom [Reg 2, Ptr 0x202ccb80, Imm 4, Imm 0x40, Imm 0, Imm 0], Count,
    Syscall NR_recvfrom [Reg 2, Ptr 0x202e6700, Imm 0x1d, Imm 0x40, Imm 0, Imm 0], Count,
    Syscall NR_sendto [Reg 2, Write_buf, Imm 0x3178, Imm 0x40, Imm 0, Imm 0], Count,
    Syscall NR_recvfrom [Reg 2, Ptr 0x204b2dc0, Imm 4, Imm 0x40, Imm 0, Imm 0], Count]"

definition min_mysql_recvfrom_sendto_20_0_body173 :: "stmt list" where
  "min_mysql_recvfrom_sendto_20_0_body173 = [
    Syscall NR_recvfrom [Reg 2, Ptr 0x204b3b80, Imm 0x15, Imm 0x40, Imm 0, Imm 0], Count,
    Syscall NR_sendto [Reg 2, Write_buf, Imm 0x34, Imm 0x40, Imm 0, Imm 0], Count,
    Syscall NR_recvfrom [Reg 2, Ptr 0x204b8040, Imm 4, Imm 0x40, Imm 0, Imm 0], Count,
    Syscall NR_recvfrom [Reg 2, Ptr 0x204c3a40, Imm 0x93, Imm 0x40, Imm 0, Imm 0], Count,
    Syscall NR_sendto [Reg 2, Write_buf, Imm 0x34, Imm 0x40, Imm 0, Imm 0], Count,
    Syscall NR_recvfrom [Reg 2, Ptr 0x204e0680, Imm 4, Imm 0x40, Imm 0, Imm 0], Count,
    Syscall NR_recvfrom [Reg 2, Ptr 0x204ea5c0, Imm 0x15, Imm 0x40, Imm 0, Imm 0], Count,
    Syscall NR_sendto [Reg 2, Write_buf, Imm 0xb, Imm 0x40, Imm 0, Imm 0], Count,
    Syscall NR_recvfrom [Reg 2, Ptr 0x20520300, Imm 4, Imm 0x40, Imm 0, Imm 0], Count,
    Syscall NR_recvfrom [Reg 2, Ptr 0x20525240, Imm 0xd1, Imm 0x40, Imm 0, Imm 0], Count]"

definition min_mysql_recvfrom_sendto_20_0_body174 :: "stmt list" where
  "min_mysql_recvfrom_sendto_20_0_body174 = [
    Syscall NR_sendto [Reg 2, Write_buf, Imm 0xd, Imm 0x40, Imm 0, Imm 0], Count,
    Syscall NR_recvfrom [Reg 2, Ptr 0x2054efc0, Imm 4, Imm 0x40, Imm 0, Imm 0], Count,
    Syscall NR_recvfrom [Reg 2, Ptr 0x205519c0, Imm 0xb, Imm 0x40, Imm 0, Imm 0], Count,
    Syscall NR_sendto [Reg 2, Write_buf, Imm 0x18, Imm 0x40, Imm 0, Imm 0], Count,
    Syscall NR_recvfrom [Reg 2, Ptr 0x2087b900, Imm 4, Imm 0x40, Imm 0, Imm 0], Count,
    Syscall NR_recvfrom [Reg 2, Ptr 0x2087bd80, Imm 8, Imm 0x40, Imm 0, Imm 0], Count,
    Syscall NR_sendto [Reg 2, Write_buf, Imm 0x18, Imm 0x40, Imm 0, Imm 0], Count,
    Syscall NR_recvfrom [Reg 2, Ptr 0x2087c480, Imm 4, Imm 0x40, Imm 0, Imm 0], Count,
    Syscall NR_recvfrom [Reg 2, Ptr 0x2087ca00, Imm 0x15, Imm 0x40, Imm 0, Imm 0], Count,
    Syscall NR_sendto [Reg 2, Write_buf, Imm 0xc0, Imm 0x40, Imm 0, Imm 0], Count]"

definition min_mysql_recvfrom_sendto_20_0_body175 :: "stmt list" where
  "min_mysql_recvfrom_sendto_20_0_body175 = [
    Syscall NR_recvfrom [Reg 2, Ptr 0x2087d280, Imm 4, Imm 0x40, Imm 0, Imm 0], Count,
    Syscall NR_recvfrom [Reg 2, Ptr 0x2087d8c0, Imm 0x15, Imm 0x40, Imm 0, Imm 0], Count,
    Syscall NR_sendto [Reg 2, Write_buf, Imm 0xc0, Imm 0x40, Imm 0, Imm 0], Count,
    Syscall NR_recvfrom [Reg 2, Ptr 0x2087e240, Imm 4, Imm 0x40, Imm 0, Imm 0], Count,
    Syscall NR_recvfrom [Reg 2, Ptr 0x2087e640, Imm 0x15, Imm 0x40, Imm 0, Imm 0], Count,
    Syscall NR_sendto [Reg 2, Write_buf, Imm 0xc0, Imm 0x40, Imm 0, Imm 0], Count,
    Syscall NR_recvfrom [Reg 2, Ptr 0x2087f180, Imm 4, Imm 0x40, Imm 0, Imm 0], Count,
    Syscall NR_recvfrom [Reg 2, Ptr 0x2087fb80, Imm 0x15, Imm 0x40, Imm 0, Imm 0], Count,
    Syscall NR_sendto [Reg 2, Write_buf, Imm 0xc0, Imm 0x40, Imm 0, Imm 0], Count,
    Syscall NR_recvfrom [Reg 2, Ptr 0x20882780, Imm 4, Imm 0x40, Imm 0, Imm 0], Count]"

definition min_mysql_recvfrom_sendto_20_0_body176 :: "stmt list" where
  "min_mysql_recvfrom_sendto_20_0_body176 = [
    Syscall NR_recvfrom [Reg 2, Ptr 0x20882d00, Imm 0x15, Imm 0x40, Imm 0, Imm 0], Count,
    Syscall NR_sendto [Reg 2, Write_buf, Imm 0xc0, Imm 0x40, Imm 0, Imm 0], Count,
    Syscall NR_recvfrom [Reg 2, Ptr 0x20883900, Imm 4, Imm 0x40, Imm 0, Imm 0], Count,
    Syscall NR_recvfrom [Reg 2, Ptr 0x20883e80, Imm 0x15, Imm 0x40, Imm 0, Imm 0], Count,
    Syscall NR_sendto [Reg 2, Write_buf, Imm 0xc0, Imm 0x40, Imm 0, Imm 0], Count,
    Syscall NR_recvfrom [Reg 2, Ptr 0x20884a80, Imm 4, Imm 0x40, Imm 0, Imm 0], Count,
    Syscall NR_recvfrom [Reg 2, Ptr 0x20885000, Imm 0x15, Imm 0x40, Imm 0, Imm 0], Count,
    Syscall NR_sendto [Reg 2, Write_buf, Imm 0xc0, Imm 0x40, Imm 0, Imm 0], Count,
    Syscall NR_recvfrom [Reg 2, Ptr 0x20885c80, Imm 4, Imm 0x40, Imm 0, Imm 0], Count,
    Syscall NR_recvfrom [Reg 2, Ptr 0x20886140, Imm 0x15, Imm 0x40, Imm 0, Imm 0], Count]"

definition min_mysql_recvfrom_sendto_20_0_body177 :: "stmt list" where
  "min_mysql_recvfrom_sendto_20_0_body177 = [
    Syscall NR_sendto [Reg 2, Write_buf, Imm 0xc0, Imm 0x40, Imm 0, Imm 0], Count,
    Syscall NR_recvfrom [Reg 2, Ptr 0x20886dc0, Imm 4, Imm 0x40, Imm 0, Imm 0], Count,
    Syscall NR_recvfrom [Reg 2, Ptr 0x20887f40, Imm 0x15, Imm 0x40, Imm 0, Imm 0], Count,
    Syscall NR_sendto [Reg 2, Write_buf, Imm 0xc0, Imm 0x40, Imm 0, Imm 0], Count,
    Syscall NR_recvfrom [Reg 2, Ptr 0x20891e00, Imm 4, Imm 0x40, Imm 0, Imm 0], Count,
    Syscall NR_recvfrom [Reg 2, Ptr 0x20892280, Imm 0x15, Imm 0x40, Imm 0, Imm 0], Count,
    Syscall NR_sendto [Reg 2, Write_buf, Imm 0xc0, Imm 0x40, Imm 0, Imm 0], Count,
    Syscall NR_recvfrom [Reg 2, Ptr 0x208b8d80, Imm 4, Imm 0x40, Imm 0, Imm 0], Count,
    Syscall NR_recvfrom [Reg 2, Ptr 0x208b9340, Imm 0x23, Imm 0x40, Imm 0, Imm 0], Count,
    Syscall NR_sendto [Reg 2, Write_buf, Imm 0x317a, Imm 0x40, Imm 0, Imm 0], Count]"

definition min_mysql_recvfrom_sendto_20_0_body178 :: "stmt list" where
  "min_mysql_recvfrom_sendto_20_0_body178 = [
    Syscall NR_recvfrom [Reg 2, Ptr 0x208c2400, Imm 4, Imm 0x40, Imm 0, Imm 0], Count,
    Syscall NR_recvfrom [Reg 2, Ptr 0x208c29c0, Imm 0x1d, Imm 0x40, Imm 0, Imm 0], Count,
    Syscall NR_sendto [Reg 2, Write_buf, Imm 0x3c, Imm 0x40, Imm 0, Imm 0], Count,
    Syscall NR_recvfrom [Reg 2, Ptr 0x208f2680, Imm 4, Imm 0x40, Imm 0, Imm 0], Count,
    Syscall NR_recvfrom [Reg 2, Ptr 0x209152c0, Imm 0x23, Imm 0x40, Imm 0, Imm 0], Count,
    Syscall NR_sendto [Reg 2, Write_buf, Imm 0x317a, Imm 0x40, Imm 0, Imm 0], Count,
    Syscall NR_recvfrom [Reg 2, Ptr 0x20a7c440, Imm 4, Imm 0x40, Imm 0, Imm 0], Count,
    Syscall NR_recvfrom [Reg 2, Ptr 0x20a99300, Imm 0x23, Imm 0x40, Imm 0, Imm 0], Count,
    Syscall NR_sendto [Reg 2, Write_buf, Imm 0x317a, Imm 0x40, Imm 0, Imm 0], Count,
    Syscall NR_recvfrom [Reg 2, Ptr 0x20bfcf00, Imm 4, Imm 0x40, Imm 0, Imm 0], Count]"

definition min_mysql_recvfrom_sendto_20_0_body179 :: "stmt list" where
  "min_mysql_recvfrom_sendto_20_0_body179 = [
    Syscall NR_recvfrom [Reg 2, Ptr 0x20c040c0, Imm 0x15, Imm 0x40, Imm 0, Imm 0], Count,
    Syscall NR_sendto [Reg 2, Write_buf, Imm 0x34, Imm 0x40, Imm 0, Imm 0], Count,
    Syscall NR_recvfrom [Reg 2, Ptr 0x20c0ec80, Imm 4, Imm 0x40, Imm 0, Imm 0], Count,
    Syscall NR_recvfrom [Reg 2, Ptr 0x20c12d40, Imm 0x93, Imm 0x40, Imm 0, Imm 0], Count,
    Syscall NR_sendto [Reg 2, Write_buf, Imm 0x34, Imm 0x40, Imm 0, Imm 0], Count,
    Syscall NR_recvfrom [Reg 2, Ptr 0x20c1ac40, Imm 4, Imm 0x40, Imm 0, Imm 0], Count,
    Syscall NR_recvfrom [Reg 2, Ptr 0x20c1bc80, Imm 0x18, Imm 0x40, Imm 0, Imm 0], Count,
    Syscall NR_sendto [Reg 2, Write_buf, Imm 0xb, Imm 0x40, Imm 0, Imm 0], Count,
    Syscall NR_recvfrom [Reg 2, Ptr 0x20c220c0, Imm 4, Imm 0x40, Imm 0, Imm 0], Count,
    Syscall NR_recvfrom [Reg 2, Ptr 0x20c22b80, Imm 0xdd, Imm 0x40, Imm 0, Imm 0], Count]"

definition min_mysql_recvfrom_sendto_20_0_body180 :: "stmt list" where
  "min_mysql_recvfrom_sendto_20_0_body180 = [
    Syscall NR_sendto [Reg 2, Write_buf, Imm 0xd, Imm 0x40, Imm 0, Imm 0], Count,
    Syscall NR_recvfrom [Reg 2, Ptr 0x20c24580, Imm 4, Imm 0x40, Imm 0, Imm 0], Count,
    Syscall NR_recvfrom [Reg 2, Ptr 0x20c250c0, Imm 0xb, Imm 0x40, Imm 0, Imm 0], Count,
    Syscall NR_sendto [Reg 2, Write_buf, Imm 0x18, Imm 0x40, Imm 0, Imm 0], Count,
    Syscall NR_recvfrom [Reg 2, Ptr 0x2005e980, Imm 4, Imm 0x40, Imm 0, Imm 0], Count,
    Syscall NR_recvfrom [Reg 2, Ptr 0x2005ebc0, Imm 8, Imm 0x40, Imm 0, Imm 0], Count,
    Syscall NR_sendto [Reg 2, Write_buf, Imm 0x18, Imm 0x40, Imm 0, Imm 0], Count,
    Syscall NR_recvfrom [Reg 2, Ptr 0x2005f180, Imm 4, Imm 0x40, Imm 0, Imm 0], Count,
    Syscall NR_recvfrom [Reg 2, Ptr 0x2005f540, Imm 0x15, Imm 0x40, Imm 0, Imm 0], Count,
    Syscall NR_sendto [Reg 2, Write_buf, Imm 0xc0, Imm 0x40, Imm 0, Imm 0], Count]"

definition min_mysql_recvfrom_sendto_20_0_body181 :: "stmt list" where
  "min_mysql_recvfrom_sendto_20_0_body181 = [
    Syscall NR_recvfrom [Reg 2, Ptr 0x2005fcc0, Imm 4, Imm 0x40, Imm 0, Imm 0], Count,
    Syscall NR_recvfrom [Reg 2, Ptr 0x20060040, Imm 0x15, Imm 0x40, Imm 0, Imm 0], Count,
    Syscall NR_sendto [Reg 2, Write_buf, Imm 0xc0, Imm 0x40, Imm 0, Imm 0], Count,
    Syscall NR_recvfrom [Reg 2, Ptr 0x20060b00, Imm 4, Imm 0x40, Imm 0, Imm 0], Count,
    Syscall NR_recvfrom [Reg 2, Ptr 0x20061080, Imm 0x15, Imm 0x40, Imm 0, Imm 0], Count,
    Syscall NR_sendto [Reg 2, Write_buf, Imm 0xc0, Imm 0x40, Imm 0, Imm 0], Count,
    Syscall NR_recvfrom [Reg 2, Ptr 0x20061b40, Imm 4, Imm 0x40, Imm 0, Imm 0], Count,
    Syscall NR_recvfrom [Reg 2, Ptr 0x20062040, Imm 0x15, Imm 0x40, Imm 0, Imm 0], Count,
    Syscall NR_sendto [Reg 2, Write_buf, Imm 0xc0, Imm 0x40, Imm 0, Imm 0], Count,
    Syscall NR_recvfrom [Reg 2, Ptr 0x20062bc0, Imm 4, Imm 0x40, Imm 0, Imm 0], Count]"

definition min_mysql_recvfrom_sendto_20_0_body182 :: "stmt list" where
  "min_mysql_recvfrom_sendto_20_0_body182 = [
    Syscall NR_recvfrom [Reg 2, Ptr 0x20062fc0, Imm 0x15, Imm 0x40, Imm 0, Imm 0], Count,
    Syscall NR_sendto [Reg 2, Write_buf, Imm 0xc0, Imm 0x40, Imm 0, Imm 0], Count,
    Syscall NR_recvfrom [Reg 2, Ptr 0x20063bc0, Imm 4, Imm 0x40, Imm 0, Imm 0], Count,
    Syscall NR_recvfrom [Reg 2, Ptr 0x20064140, Imm 0x15, Imm 0x40, Imm 0, Imm 0], Count,
    Syscall NR_sendto [Reg 2, Write_buf, Imm 0xc0, Imm 0x40, Imm 0, Imm 0], Count,
    Syscall NR_recvfrom [Reg 2, Ptr 0x20064b00, Imm 4, Imm 0x40, Imm 0, Imm 0], Count,
    Syscall NR_recvfrom [Reg 2, Ptr 0x20065080, Imm 0x15, Imm 0x40, Imm 0, Imm 0], Count,
    Syscall NR_sendto [Reg 2, Write_buf, Imm 0xc0, Imm 0x40, Imm 0, Imm 0], Count,
    Syscall NR_recvfrom [Reg 2, Ptr 0x200658c0, Imm 4, Imm 0x40, Imm 0, Imm 0], Count,
    Syscall NR_recvfrom [Reg 2, Ptr 0x20065ec0, Imm 0x15, Imm 0x40, Imm 0, Imm 0], Count]"

definition min_mysql_recvfrom_sendto_20_0_body183 :: "stmt list" where
  "min_mysql_recvfrom_sendto_20_0_body183 = [
    Syscall NR_sendto [Reg 2, Write_buf, Imm 0xc0, Imm 0x40, Imm 0, Imm 0], Count,
    Syscall NR_recvfrom [Reg 2, Ptr 0x200667c0, Imm 4, Imm 0x40, Imm 0, Imm 0], Count,
    Syscall NR_recvfrom [Reg 2, Ptr 0x20066c40, Imm 0x15, Imm 0x40, Imm 0, Imm 0], Count,
    Syscall NR_sendto [Reg 2, Write_buf, Imm 0xc0, Imm 0x40, Imm 0, Imm 0], Count,
    Syscall NR_recvfrom [Reg 2, Ptr 0x2006a700, Imm 4, Imm 0x40, Imm 0, Imm 0], Count,
    Syscall NR_recvfrom [Reg 2, Ptr 0x2006a9c0, Imm 0x15, Imm 0x40, Imm 0, Imm 0], Count,
    Syscall NR_sendto [Reg 2, Write_buf, Imm 0xc0, Imm 0x40, Imm 0, Imm 0], Count,
    Syscall NR_recvfrom [Reg 2, Ptr 0x20071640, Imm 4, Imm 0x40, Imm 0, Imm 0], Count,
    Syscall NR_recvfrom [Reg 2, Ptr 0x200719c0, Imm 0x1d, Imm 0x40, Imm 0, Imm 0], Count,
    Syscall NR_sendto [Reg 2, Write_buf, Imm 0x317a, Imm 0x40, Imm 0, Imm 0], Count]"

definition min_mysql_recvfrom_sendto_20_0_body184 :: "stmt list" where
  "min_mysql_recvfrom_sendto_20_0_body184 = [
    Syscall NR_recvfrom [Reg 2, Ptr 0x20082580, Imm 4, Imm 0x40, Imm 0, Imm 0], Count,
    Syscall NR_recvfrom [Reg 2, Ptr 0x200827c0, Imm 0x23, Imm 0x40, Imm 0, Imm 0], Count,
    Syscall NR_sendto [Reg 2, Write_buf, Imm 0x3c, Imm 0x40, Imm 0, Imm 0], Count,
    Syscall NR_recvfrom [Reg 2, Ptr 0x20088ac0, Imm 4, Imm 0x40, Imm 0, Imm 0], Count,
    Syscall NR_recvfrom [Reg 2, Ptr 0x20088dc0, Imm 0x1d, Imm 0x40, Imm 0, Imm 0], Count,
    Syscall NR_sendto [Reg 2, Write_buf, Imm 0x317a, Imm 0x40, Imm 0, Imm 0], Count,
    Syscall NR_recvfrom [Reg 2, Ptr 0x201ade80, Imm 4, Imm 0x40, Imm 0, Imm 0], Count,
    Syscall NR_recvfrom [Reg 2, Ptr 0x201b1400, Imm 0x1d, Imm 0x40, Imm 0, Imm 0], Count,
    Syscall NR_sendto [Reg 2, Write_buf, Imm 0x3178, Imm 0x40, Imm 0, Imm 0], Count,
    Syscall NR_recvfrom [Reg 2, Ptr 0x202b9740, Imm 4, Imm 0x40, Imm 0, Imm 0], Count]"

definition min_mysql_recvfrom_sendto_20_0_body185 :: "stmt list" where
  "min_mysql_recvfrom_sendto_20_0_body185 = [
    Syscall NR_recvfrom [Reg 2, Ptr 0x202bca40, Imm 0x18, Imm 0x40, Imm 0, Imm 0], Count,
    Syscall NR_sendto [Reg 2, Write_buf, Imm 0x34, Imm 0x40, Imm 0, Imm 0], Count,
    Syscall NR_recvfrom [Reg 2, Ptr 0x202c0680, Imm 4, Imm 0x40, Imm 0, Imm 0], Count,
    Syscall NR_recvfrom [Reg 2, Ptr 0x202c3a00, Imm 0x8d, Imm 0x40, Imm 0, Imm 0], Count,
    Syscall NR_sendto [Reg 2, Write_buf, Imm 0x34, Imm 0x40, Imm 0, Imm 0], Count,
    Syscall NR_recvfrom [Reg 2, Ptr 0x202cd880, Imm 4, Imm 0x40, Imm 0, Imm 0], Count,
    Syscall NR_recvfrom [Reg 2, Ptr 0x202d6ac0, Imm 0x18, Imm 0x40, Imm 0, Imm 0], Count,
    Syscall NR_sendto [Reg 2, Write_buf, Imm 0xb, Imm 0x40, Imm 0, Imm 0], Count,
    Syscall NR_recvfrom [Reg 2, Ptr 0x202e4340, Imm 4, Imm 0x40, Imm 0, Imm 0], Count,
    Syscall NR_recvfrom [Reg 2, Ptr 0x202eb6c0, Imm 0xdd, Imm 0x40, Imm 0, Imm 0], Count]"

definition min_mysql_recvfrom_sendto_20_0_body186 :: "stmt list" where
  "min_mysql_recvfrom_sendto_20_0_body186 = [
    Syscall NR_sendto [Reg 2, Write_buf, Imm 0xd, Imm 0x40, Imm 0, Imm 0], Count,
    Syscall NR_recvfrom [Reg 2, Ptr 0x202ec200, Imm 4, Imm 0x40, Imm 0, Imm 0], Count,
    Syscall NR_recvfrom [Reg 2, Ptr 0x202ec440, Imm 0xb, Imm 0x40, Imm 0, Imm 0], Count,
    Syscall NR_sendto [Reg 2, Write_buf, Imm 0x18, Imm 0x40, Imm 0, Imm 0], Count,
    Syscall NR_recvfrom [Reg 2, Ptr 0x2068f8c0, Imm 4, Imm 0x40, Imm 0, Imm 0], Count,
    Syscall NR_recvfrom [Reg 2, Ptr 0x206994c0, Imm 8, Imm 0x40, Imm 0, Imm 0], Count,
    Syscall NR_sendto [Reg 2, Write_buf, Imm 0x18, Imm 0x40, Imm 0, Imm 0], Count,
    Syscall NR_recvfrom [Reg 2, Ptr 0x206acd80, Imm 4, Imm 0x40, Imm 0, Imm 0], Count,
    Syscall NR_recvfrom [Reg 2, Ptr 0x206b89c0, Imm 0x15, Imm 0x40, Imm 0, Imm 0], Count,
    Syscall NR_sendto [Reg 2, Write_buf, Imm 0xc0, Imm 0x40, Imm 0, Imm 0], Count]"

definition min_mysql_recvfrom_sendto_20_0_body187 :: "stmt list" where
  "min_mysql_recvfrom_sendto_20_0_body187 = [
    Syscall NR_recvfrom [Reg 2, Ptr 0x206c2f00, Imm 4, Imm 0x40, Imm 0, Imm 0], Count,
    Syscall NR_recvfrom [Reg 2, Ptr 0x206c7540, Imm 0x15, Imm 0x40, Imm 0, Imm 0], Count,
    Syscall NR_sendto [Reg 2, Write_buf, Imm 0xc0, Imm 0x40, Imm 0, Imm 0], Count,
    Syscall NR_recvfrom [Reg 2, Ptr 0x206c89c0, Imm 4, Imm 0x40, Imm 0, Imm 0], Count,
    Syscall NR_recvfrom [Reg 2, Ptr 0x206c9340, Imm 0x15, Imm 0x40, Imm 0, Imm 0], Count,
    Syscall NR_sendto [Reg 2, Write_buf, Imm 0xc0, Imm 0x40, Imm 0, Imm 0], Count,
    Syscall NR_recvfrom [Reg 2, Ptr 0x206eb740, Imm 4, Imm 0x40, Imm 0, Imm 0], Count,
    Syscall NR_recvfrom [Reg 2, Ptr 0x206ee000, Imm 0x15, Imm 0x40, Imm 0, Imm 0], Count,
    Syscall NR_sendto [Reg 2, Write_buf, Imm 0xc0, Imm 0x40, Imm 0, Imm 0], Count,
    Syscall NR_recvfrom [Reg 2, Ptr 0x206ef640, Imm 4, Imm 0x40, Imm 0, Imm 0], Count]"

definition min_mysql_recvfrom_sendto_20_0_body188 :: "stmt list" where
  "min_mysql_recvfrom_sendto_20_0_body188 = [
    Syscall NR_recvfrom [Reg 2, Ptr 0x206f0140, Imm 0x15, Imm 0x40, Imm 0, Imm 0], Count,
    Syscall NR_sendto [Reg 2, Write_buf, Imm 0xc0, Imm 0x40, Imm 0, Imm 0], Count,
    Syscall NR_recvfrom [Reg 2, Ptr 0x206f1200, Imm 4, Imm 0x40, Imm 0, Imm 0], Count,
    Syscall NR_recvfrom [Reg 2, Ptr 0x206f1980, Imm 0x15, Imm 0x40, Imm 0, Imm 0], Count,
    Syscall NR_sendto [Reg 2, Write_buf, Imm 0xc0, Imm 0x40, Imm 0, Imm 0], Count,
    Syscall NR_recvfrom [Reg 2, Ptr 0x20712680, Imm 4, Imm 0x40, Imm 0, Imm 0], Count,
    Syscall NR_recvfrom [Reg 2, Ptr 0x20712c00, Imm 0x15, Imm 0x40, Imm 0, Imm 0], Count,
    Syscall NR_sendto [Reg 2, Write_buf, Imm 0xc0, Imm 0x40, Imm 0, Imm 0], Count,
    Syscall NR_recvfrom [Reg 2, Ptr 0x20713d00, Imm 4, Imm 0x40, Imm 0, Imm 0], Count,
    Syscall NR_recvfrom [Reg 2, Ptr 0x20714840, Imm 0x15, Imm 0x40, Imm 0, Imm 0], Count]"

definition min_mysql_recvfrom_sendto_20_0_body189 :: "stmt list" where
  "min_mysql_recvfrom_sendto_20_0_body189 = [
    Syscall NR_sendto [Reg 2, Write_buf, Imm 0xc0, Imm 0x40, Imm 0, Imm 0], Count,
    Syscall NR_recvfrom [Reg 2, Ptr 0x2071bb00, Imm 4, Imm 0x40, Imm 0, Imm 0], Count,
    Syscall NR_recvfrom [Reg 2, Ptr 0x20725600, Imm 0x15, Imm 0x40, Imm 0, Imm 0], Count,
    Syscall NR_sendto [Reg 2, Write_buf, Imm 0xc0, Imm 0x40, Imm 0, Imm 0], Count,
    Syscall NR_recvfrom [Reg 2, Ptr 0x207263c0, Imm 4, Imm 0x40, Imm 0, Imm 0], Count,
    Syscall NR_recvfrom [Reg 2, Ptr 0x2072d640, Imm 0x15, Imm 0x40, Imm 0, Imm 0], Count,
    Syscall NR_sendto [Reg 2, Write_buf, Imm 0xc0, Imm 0x40, Imm 0, Imm 0], Count,
    Syscall NR_recvfrom [Reg 2, Ptr 0x20731580, Imm 4, Imm 0x40, Imm 0, Imm 0], Count,
    Syscall NR_recvfrom [Reg 2, Ptr 0x20734940, Imm 0x23, Imm 0x40, Imm 0, Imm 0], Count,
    Syscall NR_sendto [Reg 2, Write_buf, Imm 0x3178, Imm 0x40, Imm 0, Imm 0], Count]"

definition min_mysql_recvfrom_sendto_20_0_body190 :: "stmt list" where
  "min_mysql_recvfrom_sendto_20_0_body190 = [
    Syscall NR_recvfrom [Reg 2, Ptr 0x20743d80, Imm 4, Imm 0x40, Imm 0, Imm 0], Count,
    Syscall NR_recvfrom [Reg 2, Ptr 0x20744c40, Imm 0x23, Imm 0x40, Imm 0, Imm 0], Count,
    Syscall NR_sendto [Reg 2, Write_buf, Imm 0x3c, Imm 0x40, Imm 0, Imm 0], Count,
    Syscall NR_recvfrom [Reg 2, Ptr 0x2076e300, Imm 4, Imm 0x40, Imm 0, Imm 0], Count,
    Syscall NR_recvfrom [Reg 2, Ptr 0x20774cc0, Imm 0x23, Imm 0x40, Imm 0, Imm 0], Count,
    Syscall NR_sendto [Reg 2, Write_buf, Imm 0x317a, Imm 0x40, Imm 0, Imm 0], Count,
    Syscall NR_recvfrom [Reg 2, Ptr 0x208e1bc0, Imm 4, Imm 0x40, Imm 0, Imm 0], Count,
    Syscall NR_recvfrom [Reg 2, Ptr 0x208e8480, Imm 0x23, Imm 0x40, Imm 0, Imm 0], Count,
    Syscall NR_sendto [Reg 2, Write_buf, Imm 0x3178, Imm 0x40, Imm 0, Imm 0], Count,
    Syscall NR_recvfrom [Reg 2, Ptr 0x209b9e80, Imm 4, Imm 0x40, Imm 0, Imm 0], Count]"

definition min_mysql_recvfrom_sendto_20_0_body191 :: "stmt list" where
  "min_mysql_recvfrom_sendto_20_0_body191 = [
    Syscall NR_recvfrom [Reg 2, Ptr 0x209bd240, Imm 0x15, Imm 0x40, Imm 0, Imm 0], Count,
    Syscall NR_sendto [Reg 2, Write_buf, Imm 0x34, Imm 0x40, Imm 0, Imm 0], Count,
    Syscall NR_recvfrom [Reg 2, Ptr 0x209cb1c0, Imm 4, Imm 0x40, Imm 0, Imm 0], Count,
    Syscall NR_recvfrom [Reg 2, Ptr 0x209cc800, Imm 0x8d, Imm 0x40, Imm 0, Imm 0], Count,
    Syscall NR_sendto [Reg 2, Write_buf, Imm 0x34, Imm 0x40, Imm 0, Imm 0], Count,
    Syscall NR_recvfrom [Reg 2, Ptr 0x209d4780, Imm 4, Imm 0x40, Imm 0, Imm 0], Count,
    Syscall NR_recvfrom [Reg 2, Ptr 0x209d4940, Imm 0x18, Imm 0x40, Imm 0, Imm 0], Count,
    Syscall NR_sendto [Reg 2, Write_buf, Imm 0xb, Imm 0x40, Imm 0, Imm 0], Count,
    Syscall NR_recvfrom [Reg 2, Ptr 0x209d5c00, Imm 4, Imm 0x40, Imm 0, Imm 0], Count,
    Syscall NR_recvfrom [Reg 2, Ptr 0x209d5f00, Imm 0xdd, Imm 0x40, Imm 0, Imm 0], Count]"

definition min_mysql_recvfrom_sendto_20_0_body192 :: "stmt list" where
  "min_mysql_recvfrom_sendto_20_0_body192 = [
    Syscall NR_sendto [Reg 2, Write_buf, Imm 0xd, Imm 0x40, Imm 0, Imm 0], Count,
    Syscall NR_recvfrom [Reg 2, Ptr 0x209d9b80, Imm 4, Imm 0x40, Imm 0, Imm 0], Count,
    Syscall NR_recvfrom [Reg 2, Ptr 0x209dcfc0, Imm 0xb, Imm 0x40, Imm 0, Imm 0], Count,
    Syscall NR_sendto [Reg 2, Write_buf, Imm 0x18, Imm 0x40, Imm 0, Imm 0], Count,
    Syscall NR_recvfrom [Reg 2, Ptr 0x20da60c0, Imm 4, Imm 0x40, Imm 0, Imm 0], Count,
    Syscall NR_recvfrom [Reg 2, Ptr 0x20da64c0, Imm 8, Imm 0x40, Imm 0, Imm 0], Count,
    Syscall NR_sendto [Reg 2, Write_buf, Imm 0x18, Imm 0x40, Imm 0, Imm 0], Count,
    Syscall NR_recvfrom [Reg 2, Ptr 0x20da7240, Imm 4, Imm 0x40, Imm 0, Imm 0], Count,
    Syscall NR_recvfrom [Reg 2, Ptr 0x20da76c0, Imm 0x15, Imm 0x40, Imm 0, Imm 0], Count,
    Syscall NR_sendto [Reg 2, Write_buf, Imm 0xbe, Imm 0x40, Imm 0, Imm 0], Count]"

definition min_mysql_recvfrom_sendto_20_0_body193 :: "stmt list" where
  "min_mysql_recvfrom_sendto_20_0_body193 = [
    Syscall NR_recvfrom [Reg 2, Ptr 0x20da8500, Imm 4, Imm 0x40, Imm 0, Imm 0], Count,
    Syscall NR_recvfrom [Reg 2, Ptr 0x20da8980, Imm 0x15, Imm 0x40, Imm 0, Imm 0], Count,
    Syscall NR_sendto [Reg 2, Write_buf, Imm 0xbe, Imm 0x40, Imm 0, Imm 0], Count,
    Syscall NR_recvfrom [Reg 2, Ptr 0x20da9840, Imm 4, Imm 0x40, Imm 0, Imm 0], Count,
    Syscall NR_recvfrom [Reg 2, Ptr 0x20da9d40, Imm 0x15, Imm 0x40, Imm 0, Imm 0], Count,
    Syscall NR_sendto [Reg 2, Write_buf, Imm 0xbe, Imm 0x40, Imm 0, Imm 0], Count,
    Syscall NR_recvfrom [Reg 2, Ptr 0x20daac40, Imm 4, Imm 0x40, Imm 0, Imm 0], Count,
    Syscall NR_recvfrom [Reg 2, Ptr 0x20dab140, Imm 0x15, Imm 0x40, Imm 0, Imm 0], Count,
    Syscall NR_sendto [Reg 2, Write_buf, Imm 0xbe, Imm 0x40, Imm 0, Imm 0], Count,
    Syscall NR_recvfrom [Reg 2, Ptr 0x20daf000, Imm 4, Imm 0x40, Imm 0, Imm 0], Count]"

definition min_mysql_recvfrom_sendto_20_0_body194 :: "stmt list" where
  "min_mysql_recvfrom_sendto_20_0_body194 = [
    Syscall NR_recvfrom [Reg 2, Ptr 0x20daf580, Imm 0x15, Imm 0x40, Imm 0, Imm 0], Count,
    Syscall NR_sendto [Reg 2, Write_buf, Imm 0xbe, Imm 0x40, Imm 0, Imm 0], Count,
    Syscall NR_recvfrom [Reg 2, Ptr 0x20db3400, Imm 4, Imm 0x40, Imm 0, Imm 0], Count,
    Syscall NR_recvfrom [Reg 2, Ptr 0x20db3980, Imm 0x15, Imm 0x40, Imm 0, Imm 0], Count,
    Syscall NR_sendto [Reg 2, Write_buf, Imm 0xbe, Imm 0x40, Imm 0, Imm 0], Count,
    Syscall NR_recvfrom [Reg 2, Ptr 0x20db4540, Imm 4, Imm 0x40, Imm 0, Imm 0], Count,
    Syscall NR_recvfrom [Reg 2, Ptr 0x20dbc6c0, Imm 0x15, Imm 0x40, Imm 0, Imm 0], Count,
    Syscall NR_sendto [Reg 2, Write_buf, Imm 0xbe, Imm 0x40, Imm 0, Imm 0], Count,
    Syscall NR_recvfrom [Reg 2, Ptr 0x20dc6680, Imm 4, Imm 0x40, Imm 0, Imm 0], Count,
    Syscall NR_recvfrom [Reg 2, Ptr 0x20dc6bc0, Imm 0x15, Imm 0x40, Imm 0, Imm 0], Count]"

definition min_mysql_recvfrom_sendto_20_0_body195 :: "stmt list" where
  "min_mysql_recvfrom_sendto_20_0_body195 = [
    Syscall NR_sendto [Reg 2, Write_buf, Imm 0xbe, Imm 0x40, Imm 0, Imm 0], Count,
    Syscall NR_recvfrom [Reg 2, Ptr 0x20dd0bc0, Imm 4, Imm 0x40, Imm 0, Imm 0], Count,
    Syscall NR_recvfrom [Reg 2, Ptr 0x20dd9480, Imm 0x15, Imm 0x40, Imm 0, Imm 0], Count,
    Syscall NR_sendto [Reg 2, Write_buf, Imm 0xbe, Imm 0x40, Imm 0, Imm 0], Count,
    Syscall NR_recvfrom [Reg 2, Ptr 0x20def400, Imm 4, Imm 0x40, Imm 0, Imm 0], Count,
    Syscall NR_recvfrom [Reg 2, Ptr 0x20df1e40, Imm 0x15, Imm 0x40, Imm 0, Imm 0], Count,
    Syscall NR_sendto [Reg 2, Write_buf, Imm 0xbe, Imm 0x40, Imm 0, Imm 0], Count,
    Syscall NR_recvfrom [Reg 2, Ptr 0x20e03a40, Imm 4, Imm 0x40, Imm 0, Imm 0], Count,
    Syscall NR_recvfrom [Reg 2, Ptr 0x20e179c0, Imm 0x1d, Imm 0x40, Imm 0, Imm 0], Count,
    Syscall NR_sendto [Reg 2, Write_buf, Imm 0x3178, Imm 0x40, Imm 0, Imm 0], Count]"

definition min_mysql_recvfrom_sendto_20_0_body196 :: "stmt list" where
  "min_mysql_recvfrom_sendto_20_0_body196 = [
    Syscall NR_recvfrom [Reg 2, Ptr 0x20e4c2c0, Imm 4, Imm 0x40, Imm 0, Imm 0], Count,
    Syscall NR_recvfrom [Reg 2, Ptr 0x20e59e00, Imm 0x1d, Imm 0x40, Imm 0, Imm 0], Count,
    Syscall NR_sendto [Reg 2, Write_buf, Imm 0x3c, Imm 0x40, Imm 0, Imm 0], Count,
    Syscall NR_recvfrom [Reg 2, Ptr 0x20e82500, Imm 4, Imm 0x40, Imm 0, Imm 0], Count,
    Syscall NR_recvfrom [Reg 2, Ptr 0x20e86c40, Imm 0x1d, Imm 0x40, Imm 0, Imm 0], Count,
    Syscall NR_sendto [Reg 2, Write_buf, Imm 0x3178, Imm 0x40, Imm 0, Imm 0], Count,
    Syscall NR_recvfrom [Reg 2, Ptr 0x20ffabc0, Imm 4, Imm 0x40, Imm 0, Imm 0], Count,
    Syscall NR_recvfrom [Reg 2, Ptr 0x2000aa00, Imm 0x23, Imm 0x40, Imm 0, Imm 0], Count,
    Syscall NR_sendto [Reg 2, Write_buf, Imm 0x3178, Imm 0x40, Imm 0, Imm 0], Count,
    Syscall NR_recvfrom [Reg 2, Ptr 0x200fef00, Imm 4, Imm 0x40, Imm 0, Imm 0], Count]"

definition min_mysql_recvfrom_sendto_20_0_body197 :: "stmt list" where
  "min_mysql_recvfrom_sendto_20_0_body197 = [
    Syscall NR_recvfrom [Reg 2, Ptr 0x201054c0, Imm 0x18, Imm 0x40, Imm 0, Imm 0], Count,
    Syscall NR_sendto [Reg 2, Write_buf, Imm 0x34, Imm 0x40, Imm 0, Imm 0], Count,
    Syscall NR_recvfrom [Reg 2, Ptr 0x2010c780, Imm 4, Imm 0x40, Imm 0, Imm 0], Count,
    Syscall NR_recvfrom [Reg 2, Ptr 0x2010ca80, Imm 0x8d, Imm 0x40, Imm 0, Imm 0], Count,
    Syscall NR_sendto [Reg 2, Write_buf, Imm 0x34, Imm 0x40, Imm 0, Imm 0], Count,
    Syscall NR_recvfrom [Reg 2, Ptr 0x2010da40, Imm 4, Imm 0x40, Imm 0, Imm 0], Count,
    Syscall NR_recvfrom [Reg 2, Ptr 0x2010e3c0, Imm 0x18, Imm 0x40, Imm 0, Imm 0], Count,
    Syscall NR_sendto [Reg 2, Write_buf, Imm 0xb, Imm 0x40, Imm 0, Imm 0], Count,
    Syscall NR_recvfrom [Reg 2, Ptr 0x2012e800, Imm 4, Imm 0x40, Imm 0, Imm 0], Count,
    Syscall NR_recvfrom [Reg 2, Ptr 0x20130a80, Imm 0xdd, Imm 0x40, Imm 0, Imm 0], Count]"

definition min_mysql_recvfrom_sendto_20_0_body198 :: "stmt list" where
  "min_mysql_recvfrom_sendto_20_0_body198 = [
    Syscall NR_sendto [Reg 2, Write_buf, Imm 0xd, Imm 0x40, Imm 0, Imm 0], Count,
    Syscall NR_recvfrom [Reg 2, Ptr 0x201311c0, Imm 4, Imm 0x40, Imm 0, Imm 0], Count,
    Syscall NR_recvfrom [Reg 2, Ptr 0x20131a00, Imm 0xb, Imm 0x40, Imm 0, Imm 0], Count,
    Syscall NR_sendto [Reg 2, Write_buf, Imm 0x18, Imm 0x40, Imm 0, Imm 0], Count,
    Syscall NR_recvfrom [Reg 2, Ptr 0x204fb740, Imm 4, Imm 0x40, Imm 0, Imm 0], Count,
    Syscall NR_recvfrom [Reg 2, Ptr 0x204fbe00, Imm 8, Imm 0x40, Imm 0, Imm 0], Count,
    Syscall NR_sendto [Reg 2, Write_buf, Imm 0x18, Imm 0x40, Imm 0, Imm 0], Count,
    Syscall NR_recvfrom [Reg 2, Ptr 0x204fcc80, Imm 4, Imm 0x40, Imm 0, Imm 0], Count,
    Syscall NR_recvfrom [Reg 2, Ptr 0x204fd380, Imm 0x15, Imm 0x40, Imm 0, Imm 0], Count,
    Syscall NR_sendto [Reg 2, Write_buf, Imm 0xc0, Imm 0x40, Imm 0, Imm 0], Count]"

definition min_mysql_recvfrom_sendto_20_0_body199 :: "stmt list" where
  "min_mysql_recvfrom_sendto_20_0_body199 = [
    Syscall NR_recvfrom [Reg 2, Ptr 0x204fe4c0, Imm 4, Imm 0x40, Imm 0, Imm 0], Count,
    Syscall NR_recvfrom [Reg 2, Ptr 0x204feb00, Imm 0x15, Imm 0x40, Imm 0, Imm 0], Count,
    Syscall NR_sendto [Reg 2, Write_buf, Imm 0xc0, Imm 0x40, Imm 0, Imm 0], Count,
    Syscall NR_recvfrom [Reg 2, Ptr 0x20508980, Imm 4, Imm 0x40, Imm 0, Imm 0], Count,
    Syscall NR_recvfrom [Reg 2, Ptr 0x2050cf80, Imm 0x15, Imm 0x40, Imm 0, Imm 0], Count,
    Syscall NR_sendto [Reg 2, Write_buf, Imm 0xc0, Imm 0x40, Imm 0, Imm 0], Count,
    Syscall NR_recvfrom [Reg 2, Ptr 0x20513200, Imm 4, Imm 0x40, Imm 0, Imm 0], Count,
    Syscall NR_recvfrom [Reg 2, Ptr 0x20513700, Imm 0x15, Imm 0x40, Imm 0, Imm 0], Count,
    Syscall NR_sendto [Reg 2, Write_buf, Imm 0xc0, Imm 0x40, Imm 0, Imm 0], Count,
    Syscall NR_recvfrom [Reg 2, Ptr 0x205145c0, Imm 4, Imm 0x40, Imm 0, Imm 0], Count]"

definition min_mysql_recvfrom_sendto_20_0_body200 :: "stmt list" where
  "min_mysql_recvfrom_sendto_20_0_body200 = [
    Syscall NR_recvfrom [Reg 2, Ptr 0x20514ac0, Imm 0x15, Imm 0x40, Imm 0, Imm 0], Count,
    Syscall NR_sendto [Reg 2, Write_buf, Imm 0xc0, Imm 0x40, Imm 0, Imm 0], Count,
    Syscall NR_recvfrom [Reg 2, Ptr 0x20538a40, Imm 4, Imm 0x40, Imm 0, Imm 0], Count,
    Syscall NR_recvfrom [Reg 2, Ptr 0x20539000, Imm 0x15, Imm 0x40, Imm 0, Imm 0], Count,
    Syscall NR_sendto [Reg 2, Write_buf, Imm 0xc0, Imm 0x40, Imm 0, Imm 0], Count,
    Syscall NR_recvfrom [Reg 2, Ptr 0x2053d100, Imm 4, Imm 0x40, Imm 0, Imm 0], Count,
    Syscall NR_recvfrom [Reg 2, Ptr 0x20540fc0, Imm 0x15, Imm 0x40, Imm 0, Imm 0], Count,
    Syscall NR_sendto [Reg 2, Write_buf, Imm 0xc0, Imm 0x40, Imm 0, Imm 0], Count,
    Syscall NR_recvfrom [Reg 2, Ptr 0x20541e80, Imm 4, Imm 0x40, Imm 0, Imm 0], Count,
    Syscall NR_recvfrom [Reg 2, Ptr 0x20542440, Imm 0x15, Imm 0x40, Imm 0, Imm 0], Count]"

definition min_mysql_recvfrom_sendto_20_0_body201 :: "stmt list" where
  "min_mysql_recvfrom_sendto_20_0_body201 = [
    Syscall NR_sendto [Reg 2, Write_buf, Imm 0xc0, Imm 0x40, Imm 0, Imm 0], Count,
    Syscall NR_recvfrom [Reg 2, Ptr 0x20563400, Imm 4, Imm 0x40, Imm 0, Imm 0], Count,
    Syscall NR_recvfrom [Reg 2, Ptr 0x20563900, Imm 0x15, Imm 0x40, Imm 0, Imm 0], Count,
    Syscall NR_sendto [Reg 2, Write_buf, Imm 0xc0, Imm 0x40, Imm 0, Imm 0], Count,
    Syscall NR_recvfrom [Reg 2, Ptr 0x20574240, Imm 4, Imm 0x40, Imm 0, Imm 0], Count,
    Syscall NR_recvfrom [Reg 2, Ptr 0x20577840, Imm 0x15, Imm 0x40, Imm 0, Imm 0], Count,
    Syscall NR_sendto [Reg 2, Write_buf, Imm 0xc0, Imm 0x40, Imm 0, Imm 0], Count,
    Syscall NR_recvfrom [Reg 2, Ptr 0x2057ec80, Imm 4, Imm 0x40, Imm 0, Imm 0], Count,
    Syscall NR_recvfrom [Reg 2, Ptr 0x2057f4c0, Imm 0x1d, Imm 0x40, Imm 0, Imm 0], Count,
    Syscall NR_sendto [Reg 2, Write_buf, Imm 0x3178, Imm 0x40, Imm 0, Imm 0], Count]"

definition min_mysql_recvfrom_sendto_20_0_body202 :: "stmt list" where
  "min_mysql_recvfrom_sendto_20_0_body202 = [
    Syscall NR_recvfrom [Reg 2, Ptr 0x20588580, Imm 4, Imm 0x40, Imm 0, Imm 0], Count,
    Syscall NR_recvfrom [Reg 2, Ptr 0x20588c00, Imm 0x23, Imm 0x40, Imm 0, Imm 0], Count,
    Syscall NR_sendto [Reg 2, Write_buf, Imm 0x3c, Imm 0x40, Imm 0, Imm 0], Count,
    Syscall NR_recvfrom [Reg 2, Ptr 0x205aa380, Imm 4, Imm 0x40, Imm 0, Imm 0], Count,
    Syscall NR_recvfrom [Reg 2, Ptr 0x205bb940, Imm 0x1d, Imm 0x40, Imm 0, Imm 0], Count,
    Syscall NR_sendto [Reg 2, Write_buf, Imm 0x3178, Imm 0x40, Imm 0, Imm 0], Count,
    Syscall NR_recvfrom [Reg 2, Ptr 0x2072ef40, Imm 4, Imm 0x40, Imm 0, Imm 0], Count,
    Syscall NR_recvfrom [Reg 2, Ptr 0x2073ed00, Imm 0x23, Imm 0x40, Imm 0, Imm 0], Count,
    Syscall NR_sendto [Reg 2, Write_buf, Imm 0x317a, Imm 0x40, Imm 0, Imm 0], Count,
    Syscall NR_recvfrom [Reg 2, Ptr 0x2088f700, Imm 4, Imm 0x40, Imm 0, Imm 0], Count]"

definition min_mysql_recvfrom_sendto_20_0_body203 :: "stmt list" where
  "min_mysql_recvfrom_sendto_20_0_body203 = [
    Syscall NR_recvfrom [Reg 2, Ptr 0x20895e40, Imm 0x15, Imm 0x40, Imm 0, Imm 0], Count,
    Syscall NR_sendto [Reg 2, Write_buf, Imm 0x34, Imm 0x40, Imm 0, Imm 0], Count,
    Syscall NR_recvfrom [Reg 2, Ptr 0x208a0300, Imm 4, Imm 0x40, Imm 0, Imm 0], Count,
    Syscall NR_recvfrom [Reg 2, Ptr 0x208a89c0, Imm 0x8d, Imm 0x40, Imm 0, Imm 0], Count,
    Syscall NR_sendto [Reg 2, Write_buf, Imm 0x34, Imm 0x40, Imm 0, Imm 0], Count,
    Syscall NR_recvfrom [Reg 2, Ptr 0x208dac40, Imm 4, Imm 0x40, Imm 0, Imm 0], Count,
    Syscall NR_recvfrom [Reg 2, Ptr 0x208fc000, Imm 0x18, Imm 0x40, Imm 0, Imm 0], Count,
    Syscall NR_sendto [Reg 2, Write_buf, Imm 0xb, Imm 0x40, Imm 0, Imm 0], Count,
    Syscall NR_recvfrom [Reg 2, Ptr 0x20939740, Imm 4, Imm 0x40, Imm 0, Imm 0], Count,
    Syscall NR_recvfrom [Reg 2, Ptr 0x20946880, Imm 0xdd, Imm 0x40, Imm 0, Imm 0], Count]"

definition min_mysql_recvfrom_sendto_20_0_body204 :: "stmt list" where
  "min_mysql_recvfrom_sendto_20_0_body204 = [
    Syscall NR_sendto [Reg 2, Write_buf, Imm 0xd, Imm 0x40, Imm 0, Imm 0], Count,
    Syscall NR_recvfrom [Reg 2, Ptr 0x2096b340, Imm 4, Imm 0x40, Imm 0, Imm 0], Count,
    Syscall NR_recvfrom [Reg 2, Ptr 0x20970ac0, Imm 0xb, Imm 0x40, Imm 0, Imm 0], Count,
    Syscall NR_sendto [Reg 2, Write_buf, Imm 0x18, Imm 0x40, Imm 0, Imm 0], Count,
    Syscall NR_recvfrom [Reg 2, Ptr 0x20e251c0, Imm 4, Imm 0x40, Imm 0, Imm 0], Count,
    Syscall NR_recvfrom [Reg 2, Ptr 0x20e25640, Imm 8, Imm 0x40, Imm 0, Imm 0], Count,
    Syscall NR_sendto [Reg 2, Write_buf, Imm 0x18, Imm 0x40, Imm 0, Imm 0], Count,
    Syscall NR_recvfrom [Reg 2, Ptr 0x20e25f80, Imm 4, Imm 0x40, Imm 0, Imm 0], Count,
    Syscall NR_recvfrom [Reg 2, Ptr 0x20e26480, Imm 0x15, Imm 0x40, Imm 0, Imm 0], Count,
    Syscall NR_sendto [Reg 2, Write_buf, Imm 0xbe, Imm 0x40, Imm 0, Imm 0], Count]"

definition min_mysql_recvfrom_sendto_20_0_body205 :: "stmt list" where
  "min_mysql_recvfrom_sendto_20_0_body205 = [
    Syscall NR_recvfrom [Reg 2, Ptr 0x20e26f00, Imm 4, Imm 0x40, Imm 0, Imm 0], Count,
    Syscall NR_recvfrom [Reg 2, Ptr 0x20e27380, Imm 0x15, Imm 0x40, Imm 0, Imm 0], Count,
    Syscall NR_sendto [Reg 2, Write_buf, Imm 0xbe, Imm 0x40, Imm 0, Imm 0], Count,
    Syscall NR_recvfrom [Reg 2, Ptr 0x20e27d80, Imm 4, Imm 0x40, Imm 0, Imm 0], Count,
    Syscall NR_recvfrom [Reg 2, Ptr 0x20e28040, Imm 0x15, Imm 0x40, Imm 0, Imm 0], Count,
    Syscall NR_sendto [Reg 2, Write_buf, Imm 0xbe, Imm 0x40, Imm 0, Imm 0], Count,
    Syscall NR_recvfrom [Reg 2, Ptr 0x20e28640, Imm 4, Imm 0x40, Imm 0, Imm 0], Count,
    Syscall NR_recvfrom [Reg 2, Ptr 0x20e28900, Imm 0x15, Imm 0x40, Imm 0, Imm 0], Count,
    Syscall NR_sendto [Reg 2, Write_buf, Imm 0xbe, Imm 0x40, Imm 0, Imm 0], Count,
    Syscall NR_recvfrom [Reg 2, Ptr 0x20e28ec0, Imm 4, Imm 0x40, Imm 0, Imm 0], Count]"

definition min_mysql_recvfrom_sendto_20_0_body206 :: "stmt list" where
  "min_mysql_recvfrom_sendto_20_0_body206 = [
    Syscall NR_recvfrom [Reg 2, Ptr 0x20e29140, Imm 0x15, Imm 0x40, Imm 0, Imm 0], Count,
    Syscall NR_sendto [Reg 2, Write_buf, Imm 0xbe, Imm 0x40, Imm 0, Imm 0], Count,
    Syscall NR_recvfrom [Reg 2, Ptr 0x20e297c0, Imm 4, Imm 0x40, Imm 0, Imm 0], Count,
    Syscall NR_recvfrom [Reg 2, Ptr 0x20e29a00, Imm 0x15, Imm 0x40, Imm 0, Imm 0], Count,
    Syscall NR_sendto [Reg 2, Write_buf, Imm 0xbe, Imm 0x40, Imm 0, Imm 0], Count,
    Syscall NR_recvfrom [Reg 2, Ptr 0x20e29f40, Imm 4, Imm 0x40, Imm 0, Imm 0], Count,
    Syscall NR_recvfrom [Reg 2, Ptr 0x20e2a200, Imm 0x15, Imm 0x40, Imm 0, Imm 0], Count,
    Syscall NR_sendto [Reg 2, Write_buf, Imm 0xbe, Imm 0x40, Imm 0, Imm 0], Count,
    Syscall NR_recvfrom [Reg 2, Ptr 0x20e2a7c0, Imm 4, Imm 0x40, Imm 0, Imm 0], Count,
    Syscall NR_recvfrom [Reg 2, Ptr 0x20e2a9c0, Imm 0x15, Imm 0x40, Imm 0, Imm 0], Count]"

definition min_mysql_recvfrom_sendto_20_0_body207 :: "stmt list" where
  "min_mysql_recvfrom_sendto_20_0_body207 = [
    Syscall NR_sendto [Reg 2, Write_buf, Imm 0xbe, Imm 0x40, Imm 0, Imm 0], Count,
    Syscall NR_recvfrom [Reg 2, Ptr 0x20e2b1c0, Imm 4, Imm 0x40, Imm 0, Imm 0], Count,
    Syscall NR_recvfrom [Reg 2, Ptr 0x20e2b340, Imm 0x15, Imm 0x40, Imm 0, Imm 0], Count,
    Syscall NR_sendto [Reg 2, Write_buf, Imm 0xbe, Imm 0x40, Imm 0, Imm 0], Count,
    Syscall NR_recvfrom [Reg 2, Ptr 0x20e2b800, Imm 4, Imm 0x40, Imm 0, Imm 0], Count,
    Syscall NR_recvfrom [Reg 2, Ptr 0x20e2bb40, Imm 0x15, Imm 0x40, Imm 0, Imm 0], Count,
    Syscall NR_sendto [Reg 2, Write_buf, Imm 0xbe, Imm 0x40, Imm 0, Imm 0], Count,
    Syscall NR_recvfrom [Reg 2, Ptr 0x20e2bfc0, Imm 4, Imm 0x40, Imm 0, Imm 0], Count,
    Syscall NR_recvfrom [Reg 2, Ptr 0x20e2c380, Imm 0x1d, Imm 0x40, Imm 0, Imm 0], Count,
    Syscall NR_sendto [Reg 2, Write_buf, Imm 0x317a, Imm 0x40, Imm 0, Imm 0], Count]"

definition min_mysql_recvfrom_sendto_20_0_body208 :: "stmt list" where
  "min_mysql_recvfrom_sendto_20_0_body208 = [
    Syscall NR_recvfrom [Reg 2, Ptr 0x20e32b80, Imm 4, Imm 0x40, Imm 0, Imm 0], Count,
    Syscall NR_recvfrom [Reg 2, Ptr 0x20e36b80, Imm 0x1d, Imm 0x40, Imm 0, Imm 0], Count,
    Syscall NR_sendto [Reg 2, Write_buf, Imm 0x3c, Imm 0x40, Imm 0, Imm 0], Count,
    Syscall NR_recvfrom [Reg 2, Ptr 0x20e37000, Imm 4, Imm 0x40, Imm 0, Imm 0], Count,
    Syscall NR_recvfrom [Reg 2, Ptr 0x20e3a2c0, Imm 0x1d, Imm 0x40, Imm 0, Imm 0], Count,
    Syscall NR_sendto [Reg 2, Write_buf, Imm 0x3178, Imm 0x40, Imm 0, Imm 0], Count,
    Syscall NR_recvfrom [Reg 2, Ptr 0x20ef13c0, Imm 4, Imm 0x40, Imm 0, Imm 0], Count,
    Syscall NR_recvfrom [Reg 2, Ptr 0x20ef1580, Imm 0x1d, Imm 0x40, Imm 0, Imm 0], Count,
    Syscall NR_sendto [Reg 2, Write_buf, Imm 0xb14, Imm 0x40, Imm 0, Imm 0], Count,
    Syscall NR_recvfrom [Reg 2, Ptr 0x20efec40, Imm 4, Imm 0x40, Imm 0, Imm 0], Count]"

definition min_mysql_recvfrom_sendto_20_0_body209 :: "stmt list" where
  "min_mysql_recvfrom_sendto_20_0_body209 = [
    Syscall NR_recvfrom [Reg 2, Ptr 0x20f01f00, Imm 0x15, Imm 0x40, Imm 0, Imm 0], Count,
    Syscall NR_sendto [Reg 2, Write_buf, Imm 0x34, Imm 0x40, Imm 0, Imm 0], Count,
    Syscall NR_recvfrom [Reg 2, Ptr 0x200f2900, Imm 4, Imm 0x40, Imm 0, Imm 0], Count,
    Syscall NR_recvfrom [Reg 2, Ptr 0x20112540, Imm 0x93, Imm 0x40, Imm 0, Imm 0], Count,
    Syscall NR_sendto [Reg 2, Write_buf, Imm 0x34, Imm 0x40, Imm 0, Imm 0], Count,
    Syscall NR_recvfrom [Reg 2, Ptr 0x2016ae80, Imm 4, Imm 0x40, Imm 0, Imm 0], Count,
    Syscall NR_recvfrom [Reg 2, Ptr 0x2017a240, Imm 0x18, Imm 0x40, Imm 0, Imm 0], Count,
    Syscall NR_sendto [Reg 2, Write_buf, Imm 0xb, Imm 0x40, Imm 0, Imm 0], Count,
    Syscall NR_recvfrom [Reg 2, Ptr 0x2019b0c0, Imm 4, Imm 0x40, Imm 0, Imm 0], Count,
    Syscall NR_recvfrom [Reg 2, Ptr 0x201b1280, Imm 0xdd, Imm 0x40, Imm 0, Imm 0], Count]"

definition min_mysql_recvfrom_sendto_20_0_body210 :: "stmt list" where
  "min_mysql_recvfrom_sendto_20_0_body210 = [
    Syscall NR_sendto [Reg 2, Write_buf, Imm 0xd, Imm 0x40, Imm 0, Imm 0], Count,
    Syscall NR_recvfrom [Reg 2, Ptr 0x201df380, Imm 4, Imm 0x40, Imm 0, Imm 0], Count,
    Syscall NR_recvfrom [Reg 2, Ptr 0x201f8180, Imm 0xb, Imm 0x40, Imm 0, Imm 0], Count,
    Syscall NR_sendto [Reg 2, Write_buf, Imm 0x18, Imm 0x40, Imm 0, Imm 0], Count,
    Syscall NR_recvfrom [Reg 2, Ptr 0x20705940, Imm 4, Imm 0x40, Imm 0, Imm 0], Count,
    Syscall NR_recvfrom [Reg 2, Ptr 0x20705a40, Imm 8, Imm 0x40, Imm 0, Imm 0], Count,
    Syscall NR_sendto [Reg 2, Write_buf, Imm 0x18, Imm 0x40, Imm 0, Imm 0], Count,
    Syscall NR_recvfrom [Reg 2, Ptr 0x20705d80, Imm 4, Imm 0x40, Imm 0, Imm 0], Count,
    Syscall NR_recvfrom [Reg 2, Ptr 0x20705f80, Imm 0x15, Imm 0x40, Imm 0, Imm 0], Count,
    Syscall NR_sendto [Reg 2, Write_buf, Imm 0xc0, Imm 0x40, Imm 0, Imm 0], Count]"

definition min_mysql_recvfrom_sendto_20_0_body211 :: "stmt list" where
  "min_mysql_recvfrom_sendto_20_0_body211 = [
    Syscall NR_recvfrom [Reg 2, Ptr 0x20706540, Imm 4, Imm 0x40, Imm 0, Imm 0], Count,
    Syscall NR_recvfrom [Reg 2, Ptr 0x20706940, Imm 0x15, Imm 0x40, Imm 0, Imm 0], Count,
    Syscall NR_sendto [Reg 2, Write_buf, Imm 0xc0, Imm 0x40, Imm 0, Imm 0], Count,
    Syscall NR_recvfrom [Reg 2, Ptr 0x207075c0, Imm 4, Imm 0x40, Imm 0, Imm 0], Count,
    Syscall NR_recvfrom [Reg 2, Ptr 0x20707b40, Imm 0x15, Imm 0x40, Imm 0, Imm 0], Count,
    Syscall NR_sendto [Reg 2, Write_buf, Imm 0xc0, Imm 0x40, Imm 0, Imm 0], Count,
    Syscall NR_recvfrom [Reg 2, Ptr 0x20708800, Imm 4, Imm 0x40, Imm 0, Imm 0], Count,
    Syscall NR_recvfrom [Reg 2, Ptr 0x20708fc0, Imm 0x15, Imm 0x40, Imm 0, Imm 0], Count,
    Syscall NR_sendto [Reg 2, Write_buf, Imm 0xc0, Imm 0x40, Imm 0, Imm 0], Count,
    Syscall NR_recvfrom [Reg 2, Ptr 0x20709ec0, Imm 4, Imm 0x40, Imm 0, Imm 0], Count]"

definition min_mysql_recvfrom_sendto_20_0_body212 :: "stmt list" where
  "min_mysql_recvfrom_sendto_20_0_body212 = [
    Syscall NR_recvfrom [Reg 2, Ptr 0x2070a800, Imm 0x15, Imm 0x40, Imm 0, Imm 0], Count,
    Syscall NR_sendto [Reg 2, Write_buf, Imm 0xc0, Imm 0x40, Imm 0, Imm 0], Count,
    Syscall NR_recvfrom [Reg 2, Ptr 0x2070b980, Imm 4, Imm 0x40, Imm 0, Imm 0], Count,
    Syscall NR_recvfrom [Reg 2, Ptr 0x2070c340, Imm 0x15, Imm 0x40, Imm 0, Imm 0], Count,
    Syscall NR_sendto [Reg 2, Write_buf, Imm 0xc0, Imm 0x40, Imm 0, Imm 0], Count,
    Syscall NR_recvfrom [Reg 2, Ptr 0x2070d800, Imm 4, Imm 0x40, Imm 0, Imm 0], Count,
    Syscall NR_recvfrom [Reg 2, Ptr 0x2070e300, Imm 0x15, Imm 0x40, Imm 0, Imm 0], Count,
    Syscall NR_sendto [Reg 2, Write_buf, Imm 0xc0, Imm 0x40, Imm 0, Imm 0], Count,
    Syscall NR_recvfrom [Reg 2, Ptr 0x2070f9c0, Imm 4, Imm 0x40, Imm 0, Imm 0], Count,
    Syscall NR_recvfrom [Reg 2, Ptr 0x20710580, Imm 0x15, Imm 0x40, Imm 0, Imm 0], Count]"

definition min_mysql_recvfrom_sendto_20_0_body213 :: "stmt list" where
  "min_mysql_recvfrom_sendto_20_0_body213 = [
    Syscall NR_sendto [Reg 2, Write_buf, Imm 0xc0, Imm 0x40, Imm 0, Imm 0], Count,
    Syscall NR_recvfrom [Reg 2, Ptr 0x20711d80, Imm 4, Imm 0x40, Imm 0, Imm 0], Count,
    Syscall NR_recvfrom [Reg 2, Ptr 0x20712a40, Imm 0x15, Imm 0x40, Imm 0, Imm 0], Count,
    Syscall NR_sendto [Reg 2, Write_buf, Imm 0xc0, Imm 0x40, Imm 0, Imm 0], Count,
    Syscall NR_recvfrom [Reg 2, Ptr 0x207143c0, Imm 4, Imm 0x40, Imm 0, Imm 0], Count,
    Syscall NR_recvfrom [Reg 2, Ptr 0x207150c0, Imm 0x15, Imm 0x40, Imm 0, Imm 0], Count,
    Syscall NR_sendto [Reg 2, Write_buf, Imm 0xc0, Imm 0x40, Imm 0, Imm 0], Count,
    Syscall NR_recvfrom [Reg 2, Ptr 0x20716ac0, Imm 4, Imm 0x40, Imm 0, Imm 0], Count,
    Syscall NR_recvfrom [Reg 2, Ptr 0x2071a900, Imm 0x23, Imm 0x40, Imm 0, Imm 0], Count,
    Syscall NR_sendto [Reg 2, Write_buf, Imm 0x3178, Imm 0x40, Imm 0, Imm 0], Count]"

definition min_mysql_recvfrom_sendto_20_0_body214 :: "stmt list" where
  "min_mysql_recvfrom_sendto_20_0_body214 = [
    Syscall NR_recvfrom [Reg 2, Ptr 0x20725a80, Imm 4, Imm 0x40, Imm 0, Imm 0], Count,
    Syscall NR_recvfrom [Reg 2, Ptr 0x20729740, Imm 0x23, Imm 0x40, Imm 0, Imm 0], Count,
    Syscall NR_sendto [Reg 2, Write_buf, Imm 0x3c, Imm 0x40, Imm 0, Imm 0], Count,
    Syscall NR_recvfrom [Reg 2, Ptr 0x207324c0, Imm 4, Imm 0x40, Imm 0, Imm 0], Count,
    Syscall NR_recvfrom [Reg 2, Ptr 0x20736080, Imm 0x1d, Imm 0x40, Imm 0, Imm 0], Count,
    Syscall NR_sendto [Reg 2, Write_buf, Imm 0x3178, Imm 0x40, Imm 0, Imm 0], Count,
    Syscall NR_recvfrom [Reg 2, Ptr 0x20949380, Imm 4, Imm 0x40, Imm 0, Imm 0], Count,
    Syscall NR_recvfrom [Reg 2, Ptr 0x2097bdc0, Imm 0x1d, Imm 0x40, Imm 0, Imm 0], Count,
    Syscall NR_sendto [Reg 2, Write_buf, Imm 0x317a, Imm 0x40, Imm 0, Imm 0], Count,
    Syscall NR_recvfrom [Reg 2, Ptr 0x20c8eb40, Imm 4, Imm 0x40, Imm 0, Imm 0], Count]"

definition min_mysql_recvfrom_sendto_20_0_body215 :: "stmt list" where
  "min_mysql_recvfrom_sendto_20_0_body215 = [
    Syscall NR_recvfrom [Reg 2, Ptr 0x20caac00, Imm 0x15, Imm 0x40, Imm 0, Imm 0], Count,
    Syscall NR_sendto [Reg 2, Write_buf, Imm 0x34, Imm 0x40, Imm 0, Imm 0], Count,
    Syscall NR_recvfrom [Reg 2, Ptr 0x20ce82c0, Imm 4, Imm 0x40, Imm 0, Imm 0], Count,
    Syscall NR_recvfrom [Reg 2, Ptr 0x20d0b100, Imm 0x93, Imm 0x40, Imm 0, Imm 0], Count,
    Syscall NR_sendto [Reg 2, Write_buf, Imm 0x34, Imm 0x40, Imm 0, Imm 0], Count,
    Syscall NR_recvfrom [Reg 2, Ptr 0x20d464c0, Imm 4, Imm 0x40, Imm 0, Imm 0], Count,
    Syscall NR_recvfrom [Reg 2, Ptr 0x20d65300, Imm 0x15, Imm 0x40, Imm 0, Imm 0], Count,
    Syscall NR_sendto [Reg 2, Write_buf, Imm 0xb, Imm 0x40, Imm 0, Imm 0], Count,
    Syscall NR_recvfrom [Reg 2, Ptr 0x20d90a40, Imm 4, Imm 0x40, Imm 0, Imm 0], Count,
    Syscall NR_recvfrom [Reg 2, Ptr 0x20da2440, Imm 0xd1, Imm 0x40, Imm 0, Imm 0], Count]"

definition min_mysql_recvfrom_sendto_20_0_body216 :: "stmt list" where
  "min_mysql_recvfrom_sendto_20_0_body216 = [
    Syscall NR_sendto [Reg 2, Write_buf, Imm 0xd, Imm 0x40, Imm 0, Imm 0], Count,
    Syscall NR_recvfrom [Reg 2, Ptr 0x20db98c0, Imm 4, Imm 0x40, Imm 0, Imm 0], Count,
    Syscall NR_recvfrom [Reg 2, Ptr 0x20dd5a80, Imm 0xb, Imm 0x40, Imm 0, Imm 0], Count,
    Syscall NR_sendto [Reg 2, Write_buf, Imm 0x18, Imm 0x40, Imm 0, Imm 0], Count,
    Syscall NR_recvfrom [Reg 2, Ptr 0x20e853c0, Imm 4, Imm 0x40, Imm 0, Imm 0], Count,
    Syscall NR_recvfrom [Reg 2, Ptr 0x20e85780, Imm 8, Imm 0x40, Imm 0, Imm 0], Count,
    Syscall NR_sendto [Reg 2, Write_buf, Imm 0x18, Imm 0x40, Imm 0, Imm 0], Count,
    Syscall NR_recvfrom [Reg 2, Ptr 0x20e85f40, Imm 4, Imm 0x40, Imm 0, Imm 0], Count,
    Syscall NR_recvfrom [Reg 2, Ptr 0x20e86380, Imm 0x18, Imm 0x40, Imm 0, Imm 0], Count,
    Syscall NR_sendto [Reg 2, Write_buf, Imm 0xbe, Imm 0x40, Imm 0, Imm 0], Count]"

definition min_mysql_recvfrom_sendto_20_0_body217 :: "stmt list" where
  "min_mysql_recvfrom_sendto_20_0_body217 = [
    Syscall NR_recvfrom [Reg 2, Ptr 0x20e86d00, Imm 4, Imm 0x40, Imm 0, Imm 0], Count,
    Syscall NR_recvfrom [Reg 2, Ptr 0x20e87240, Imm 0x15, Imm 0x40, Imm 0, Imm 0], Count,
    Syscall NR_sendto [Reg 2, Write_buf, Imm 0xbe, Imm 0x40, Imm 0, Imm 0], Count,
    Syscall NR_recvfrom [Reg 2, Ptr 0x20e87bc0, Imm 4, Imm 0x40, Imm 0, Imm 0], Count,
    Syscall NR_recvfrom [Reg 2, Ptr 0x20e881c0, Imm 0x15, Imm 0x40, Imm 0, Imm 0], Count,
    Syscall NR_sendto [Reg 2, Write_buf, Imm 0xbe, Imm 0x40, Imm 0, Imm 0], Count,
    Syscall NR_recvfrom [Reg 2, Ptr 0x20e88cc0, Imm 4, Imm 0x40, Imm 0, Imm 0], Count,
    Syscall NR_recvfrom [Reg 2, Ptr 0x20e89300, Imm 0x15, Imm 0x40, Imm 0, Imm 0], Count,
    Syscall NR_sendto [Reg 2, Write_buf, Imm 0xbe, Imm 0x40, Imm 0, Imm 0], Count,
    Syscall NR_recvfrom [Reg 2, Ptr 0x20e8a400, Imm 4, Imm 0x40, Imm 0, Imm 0], Count]"

definition min_mysql_recvfrom_sendto_20_0_body218 :: "stmt list" where
  "min_mysql_recvfrom_sendto_20_0_body218 = [
    Syscall NR_recvfrom [Reg 2, Ptr 0x20e8aa00, Imm 0x15, Imm 0x40, Imm 0, Imm 0], Count,
    Syscall NR_sendto [Reg 2, Write_buf, Imm 0xbe, Imm 0x40, Imm 0, Imm 0], Count,
    Syscall NR_recvfrom [Reg 2, Ptr 0x20e8ba00, Imm 4, Imm 0x40, Imm 0, Imm 0], Count,
    Syscall NR_recvfrom [Reg 2, Ptr 0x20e8c0c0, Imm 0x15, Imm 0x40, Imm 0, Imm 0], Count,
    Syscall NR_sendto [Reg 2, Write_buf, Imm 0xbe, Imm 0x40, Imm 0, Imm 0], Count,
    Syscall NR_recvfrom [Reg 2, Ptr 0x20e8d2c0, Imm 4, Imm 0x40, Imm 0, Imm 0], Count,
    Syscall NR_recvfrom [Reg 2, Ptr 0x20e8da80, Imm 0x15, Imm 0x40, Imm 0, Imm 0], Count,
    Syscall NR_sendto [Reg 2, Write_buf, Imm 0xbe, Imm 0x40, Imm 0, Imm 0], Count,
    Syscall NR_recvfrom [Reg 2, Ptr 0x20e94900, Imm 4, Imm 0x40, Imm 0, Imm 0], Count,
    Syscall NR_recvfrom [Reg 2, Ptr 0x20e94e80, Imm 0x15, Imm 0x40, Imm 0, Imm 0], Count]"

definition min_mysql_recvfrom_sendto_20_0_body219 :: "stmt list" where
  "min_mysql_recvfrom_sendto_20_0_body219 = [
    Syscall NR_sendto [Reg 2, Write_buf, Imm 0xbe, Imm 0x40, Imm 0, Imm 0], Count,
    Syscall NR_recvfrom [Reg 2, Ptr 0x20e9ee80, Imm 4, Imm 0x40, Imm 0, Imm 0], Count,
    Syscall NR_recvfrom [Reg 2, Ptr 0x20ea2580, Imm 0x15, Imm 0x40, Imm 0, Imm 0], Count,
    Syscall NR_sendto [Reg 2, Write_buf, Imm 0xbe, Imm 0x40, Imm 0, Imm 0], Count,
    Syscall NR_recvfrom [Reg 2, Ptr 0x20ea3140, Imm 4, Imm 0x40, Imm 0, Imm 0], Count,
    Syscall NR_recvfrom [Reg 2, Ptr 0x20ea3600, Imm 0x15, Imm 0x40, Imm 0, Imm 0], Count,
    Syscall NR_sendto [Reg 2, Write_buf, Imm 0xbe, Imm 0x40, Imm 0, Imm 0], Count,
    Syscall NR_recvfrom [Reg 2, Ptr 0x20ea7380, Imm 4, Imm 0x40, Imm 0, Imm 0], Count,
    Syscall NR_recvfrom [Reg 2, Ptr 0x20ea79c0, Imm 0x1d, Imm 0x40, Imm 0, Imm 0], Count,
    Syscall NR_sendto [Reg 2, Write_buf, Imm 0x317a, Imm 0x40, Imm 0, Imm 0], Count]"

definition min_mysql_recvfrom_sendto_20_0_body220 :: "stmt list" where
  "min_mysql_recvfrom_sendto_20_0_body220 = [
    Syscall NR_recvfrom [Reg 2, Ptr 0x20edc480, Imm 4, Imm 0x40, Imm 0, Imm 0], Count,
    Syscall NR_recvfrom [Reg 2, Ptr 0x20eecd80, Imm 0x1d, Imm 0x40, Imm 0, Imm 0], Count,
    Syscall NR_sendto [Reg 2, Write_buf, Imm 0x3c, Imm 0x40, Imm 0, Imm 0], Count,
    Syscall NR_recvfrom [Reg 2, Ptr 0x20f1e5c0, Imm 4, Imm 0x40, Imm 0, Imm 0], Count,
    Syscall NR_recvfrom [Reg 2, Ptr 0x20f2b400, Imm 0x23, Imm 0x40, Imm 0, Imm 0], Count,
    Syscall NR_sendto [Reg 2, Write_buf, Imm 0x317a, Imm 0x40, Imm 0, Imm 0], Count,
    Syscall NR_recvfrom [Reg 2, Ptr 0x200e0cc0, Imm 4, Imm 0x40, Imm 0, Imm 0], Count,
    Syscall NR_recvfrom [Reg 2, Ptr 0x200e9480, Imm 0x23, Imm 0x40, Imm 0, Imm 0], Count,
    Syscall NR_sendto [Reg 2, Write_buf, Imm 0x3178, Imm 0x40, Imm 0, Imm 0], Count,
    Syscall NR_recvfrom [Reg 2, Ptr 0x20222f00, Imm 4, Imm 0x40, Imm 0, Imm 0], Count]"

definition min_mysql_recvfrom_sendto_20_0_body221 :: "stmt list" where
  "min_mysql_recvfrom_sendto_20_0_body221 = [
    Syscall NR_recvfrom [Reg 2, Ptr 0x2022a780, Imm 0x15, Imm 0x40, Imm 0, Imm 0], Count,
    Syscall NR_sendto [Reg 2, Write_buf, Imm 0x34, Imm 0x40, Imm 0, Imm 0], Count,
    Syscall NR_recvfrom [Reg 2, Ptr 0x20233600, Imm 4, Imm 0x40, Imm 0, Imm 0], Count,
    Syscall NR_recvfrom [Reg 2, Ptr 0x20242b80, Imm 0x93, Imm 0x40, Imm 0, Imm 0], Count,
    Syscall NR_sendto [Reg 2, Write_buf, Imm 0x34, Imm 0x40, Imm 0, Imm 0], Count,
    Syscall NR_recvfrom [Reg 2, Ptr 0x20251a40, Imm 4, Imm 0x40, Imm 0, Imm 0], Count,
    Syscall NR_recvfrom [Reg 2, Ptr 0x20255c00, Imm 0x18, Imm 0x40, Imm 0, Imm 0], Count,
    Syscall NR_sendto [Reg 2, Write_buf, Imm 0xb, Imm 0x40, Imm 0, Imm 0], Count,
    Syscall NR_recvfrom [Reg 2, Ptr 0x2025c640, Imm 4, Imm 0x40, Imm 0, Imm 0], Count,
    Syscall NR_recvfrom [Reg 2, Ptr 0x2025fc40, Imm 0xdd, Imm 0x40, Imm 0, Imm 0], Count]"

definition min_mysql_recvfrom_sendto_20_0_body222 :: "stmt list" where
  "min_mysql_recvfrom_sendto_20_0_body222 = [
    Syscall NR_sendto [Reg 2, Write_buf, Imm 0xd, Imm 0x40, Imm 0, Imm 0], Count,
    Syscall NR_recvfrom [Reg 2, Ptr 0x20263cc0, Imm 4, Imm 0x40, Imm 0, Imm 0], Count,
    Syscall NR_recvfrom [Reg 2, Ptr 0x20263ec0, Imm 0xb, Imm 0x40, Imm 0, Imm 0], Count,
    Syscall NR_sendto [Reg 2, Write_buf, Imm 0x18, Imm 0x40, Imm 0, Imm 0], Count,
    Syscall NR_recvfrom [Reg 2, Ptr 0x203fea00, Imm 4, Imm 0x40, Imm 0, Imm 0], Count,
    Syscall NR_recvfrom [Reg 2, Ptr 0x20408a00, Imm 8, Imm 0x40, Imm 0, Imm 0], Count,
    Syscall NR_sendto [Reg 2, Write_buf, Imm 0x18, Imm 0x40, Imm 0, Imm 0], Count,
    Syscall NR_recvfrom [Reg 2, Ptr 0x2041b240, Imm 4, Imm 0x40, Imm 0, Imm 0], Count,
    Syscall NR_recvfrom [Reg 2, Ptr 0x20435640, Imm 0x18, Imm 0x40, Imm 0, Imm 0], Count,
    Syscall NR_sendto [Reg 2, Write_buf, Imm 0xc0, Imm 0x40, Imm 0, Imm 0], Count]"

definition min_mysql_recvfrom_sendto_20_0_body223 :: "stmt list" where
  "min_mysql_recvfrom_sendto_20_0_body223 = [
    Syscall NR_recvfrom [Reg 2, Ptr 0x204696c0, Imm 4, Imm 0x40, Imm 0, Imm 0], Count,
    Syscall NR_recvfrom [Reg 2, Ptr 0x204895c0, Imm 0x15, Imm 0x40, Imm 0, Imm 0], Count,
    Syscall NR_sendto [Reg 2, Write_buf, Imm 0xc0, Imm 0x40, Imm 0, Imm 0], Count,
    Syscall NR_recvfrom [Reg 2, Ptr 0x204a6880, Imm 4, Imm 0x40, Imm 0, Imm 0], Count,
    Syscall NR_recvfrom [Reg 2, Ptr 0x204b6640, Imm 0x15, Imm 0x40, Imm 0, Imm 0], Count,
    Syscall NR_sendto [Reg 2, Write_buf, Imm 0xc0, Imm 0x40, Imm 0, Imm 0], Count,
    Syscall NR_recvfrom [Reg 2, Ptr 0x204c10c0, Imm 4, Imm 0x40, Imm 0, Imm 0], Count,
    Syscall NR_recvfrom [Reg 2, Ptr 0x204c4b40, Imm 0x15, Imm 0x40, Imm 0, Imm 0], Count,
    Syscall NR_sendto [Reg 2, Write_buf, Imm 0xc0, Imm 0x40, Imm 0, Imm 0], Count,
    Syscall NR_recvfrom [Reg 2, Ptr 0x204ef740, Imm 4, Imm 0x40, Imm 0, Imm 0], Count]"

definition min_mysql_recvfrom_sendto_20_0_body224 :: "stmt list" where
  "min_mysql_recvfrom_sendto_20_0_body224 = [
    Syscall NR_recvfrom [Reg 2, Ptr 0x204fba40, Imm 0x15, Imm 0x40, Imm 0, Imm 0], Count,
    Syscall NR_sendto [Reg 2, Write_buf, Imm 0xc0, Imm 0x40, Imm 0, Imm 0], Count,
    Syscall NR_recvfrom [Reg 2, Ptr 0x2052d800, Imm 4, Imm 0x40, Imm 0, Imm 0], Count,
    Syscall NR_recvfrom [Reg 2, Ptr 0x20548780, Imm 0x15, Imm 0x40, Imm 0, Imm 0], Count,
    Syscall NR_sendto [Reg 2, Write_buf, Imm 0xc0, Imm 0x40, Imm 0, Imm 0], Count,
    Syscall NR_recvfrom [Reg 2, Ptr 0x20560340, Imm 4, Imm 0x40, Imm 0, Imm 0], Count,
    Syscall NR_recvfrom [Reg 2, Ptr 0x20571f40, Imm 0x15, Imm 0x40, Imm 0, Imm 0], Count,
    Syscall NR_sendto [Reg 2, Write_buf, Imm 0xc0, Imm 0x40, Imm 0, Imm 0], Count,
    Syscall NR_recvfrom [Reg 2, Ptr 0x2057e8c0, Imm 4, Imm 0x40, Imm 0, Imm 0], Count,
    Syscall NR_recvfrom [Reg 2, Ptr 0x20592780, Imm 0x15, Imm 0x40, Imm 0, Imm 0], Count]"

definition min_mysql_recvfrom_sendto_20_0_body225 :: "stmt list" where
  "min_mysql_recvfrom_sendto_20_0_body225 = [
    Syscall NR_sendto [Reg 2, Write_buf, Imm 0xc0, Imm 0x40, Imm 0, Imm 0], Count,
    Syscall NR_recvfrom [Reg 2, Ptr 0x205a5240, Imm 4, Imm 0x40, Imm 0, Imm 0], Count,
    Syscall NR_recvfrom [Reg 2, Ptr 0x205bc280, Imm 0x15, Imm 0x40, Imm 0, Imm 0], Count,
    Syscall NR_sendto [Reg 2, Write_buf, Imm 0xc0, Imm 0x40, Imm 0, Imm 0], Count,
    Syscall NR_recvfrom [Reg 2, Ptr 0x205cef40, Imm 4, Imm 0x40, Imm 0, Imm 0], Count,
    Syscall NR_recvfrom [Reg 2, Ptr 0x205d9ec0, Imm 0x15, Imm 0x40, Imm 0, Imm 0], Count,
    Syscall NR_sendto [Reg 2, Write_buf, Imm 0xc0, Imm 0x40, Imm 0, Imm 0], Count,
    Syscall NR_recvfrom [Reg 2, Ptr 0x205eeac0, Imm 4, Imm 0x40, Imm 0, Imm 0], Count,
    Syscall NR_recvfrom [Reg 2, Ptr 0x20612b80, Imm 0x1d, Imm 0x40, Imm 0, Imm 0], Count,
    Syscall NR_sendto [Reg 2, Write_buf, Imm 0x2238, Imm 0x40, Imm 0, Imm 0], Count]"

definition min_mysql_recvfrom_sendto_20_0_body226 :: "stmt list" where
  "min_mysql_recvfrom_sendto_20_0_body226 = [
    Syscall NR_recvfrom [Reg 2, Ptr 0x2062a300, Imm 4, Imm 0x40, Imm 0, Imm 0], Count,
    Syscall NR_recvfrom [Reg 2, Ptr 0x2062df80, Imm 0x23, Imm 0x40, Imm 0, Imm 0], Count,
    Syscall NR_sendto [Reg 2, Write_buf, Imm 0x3c, Imm 0x40, Imm 0, Imm 0], Count,
    Syscall NR_recvfrom [Reg 2, Ptr 0x2063b780, Imm 4, Imm 0x40, Imm 0, Imm 0], Count,
    Syscall NR_recvfrom [Reg 2, Ptr 0x20645940, Imm 0x1d, Imm 0x40, Imm 0, Imm 0], Count,
    Syscall NR_sendto [Reg 2, Write_buf, Imm 0x317a, Imm 0x40, Imm 0, Imm 0], Count,
    Syscall NR_recvfrom [Reg 2, Ptr 0x207e0bc0, Imm 4, Imm 0x40, Imm 0, Imm 0], Count,
    Syscall NR_recvfrom [Reg 2, Ptr 0x207efc80, Imm 0x23, Imm 0x40, Imm 0, Imm 0], Count,
    Syscall NR_sendto [Reg 2, Write_buf, Imm 0x3178, Imm 0x40, Imm 0, Imm 0], Count,
    Syscall NR_recvfrom [Reg 2, Ptr 0x209369c0, Imm 4, Imm 0x40, Imm 0, Imm 0], Count]"

definition min_mysql_recvfrom_sendto_20_0_body227 :: "stmt list" where
  "min_mysql_recvfrom_sendto_20_0_body227 = [
    Syscall NR_recvfrom [Reg 2, Ptr 0x20936d40, Imm 0x18, Imm 0x40, Imm 0, Imm 0], Count,
    Syscall NR_sendto [Reg 2, Write_buf, Imm 0x34, Imm 0x40, Imm 0, Imm 0], Count,
    Syscall NR_recvfrom [Reg 2, Ptr 0x20942840, Imm 4, Imm 0x40, Imm 0, Imm 0], Count,
    Syscall NR_recvfrom [Reg 2, Ptr 0x20945d40, Imm 0x8d, Imm 0x40, Imm 0, Imm 0], Count,
    Syscall NR_sendto [Reg 2, Write_buf, Imm 0x34, Imm 0x40, Imm 0, Imm 0], Count,
    Syscall NR_recvfrom [Reg 2, Ptr 0x20949fc0, Imm 4, Imm 0x40, Imm 0, Imm 0], Count,
    Syscall NR_recvfrom [Reg 2, Ptr 0x2094a340, Imm 0x15, Imm 0x40, Imm 0, Imm 0], Count,
    Syscall NR_sendto [Reg 2, Write_buf, Imm 0xb, Imm 0x40, Imm 0, Imm 0], Count,
    Syscall NR_recvfrom [Reg 2, Ptr 0x20954500, Imm 4, Imm 0x40, Imm 0, Imm 0], Count,
    Syscall NR_recvfrom [Reg 2, Ptr 0x209587c0, Imm 0xd1, Imm 0x40, Imm 0, Imm 0], Count]"

definition min_mysql_recvfrom_sendto_20_0_body228 :: "stmt list" where
  "min_mysql_recvfrom_sendto_20_0_body228 = [
    Syscall NR_sendto [Reg 2, Write_buf, Imm 0xd, Imm 0x40, Imm 0, Imm 0], Count,
    Syscall NR_recvfrom [Reg 2, Ptr 0x2095ea80, Imm 4, Imm 0x40, Imm 0, Imm 0], Count,
    Syscall NR_recvfrom [Reg 2, Ptr 0x20960080, Imm 0xb, Imm 0x40, Imm 0, Imm 0], Count,
    Syscall NR_sendto [Reg 2, Write_buf, Imm 0x18, Imm 0x40, Imm 0, Imm 0], Count,
    Syscall NR_recvfrom [Reg 2, Ptr 0x20ba1c40, Imm 4, Imm 0x40, Imm 0, Imm 0], Count,
    Syscall NR_recvfrom [Reg 2, Ptr 0x20ba2440, Imm 8, Imm 0x40, Imm 0, Imm 0], Count,
    Syscall NR_sendto [Reg 2, Write_buf, Imm 0x18, Imm 0x40, Imm 0, Imm 0], Count,
    Syscall NR_recvfrom [Reg 2, Ptr 0x20ba35c0, Imm 4, Imm 0x40, Imm 0, Imm 0], Count,
    Syscall NR_recvfrom [Reg 2, Ptr 0x20ba3e00, Imm 0x15, Imm 0x40, Imm 0, Imm 0], Count,
    Syscall NR_sendto [Reg 2, Write_buf, Imm 0xc0, Imm 0x40, Imm 0, Imm 0], Count]"

definition min_mysql_recvfrom_sendto_20_0_body229 :: "stmt list" where
  "min_mysql_recvfrom_sendto_20_0_body229 = [
    Syscall NR_recvfrom [Reg 2, Ptr 0x20ba51c0, Imm 4, Imm 0x40, Imm 0, Imm 0], Count,
    Syscall NR_recvfrom [Reg 2, Ptr 0x20ba5ac0, Imm 0x15, Imm 0x40, Imm 0, Imm 0], Count,
    Syscall NR_sendto [Reg 2, Write_buf, Imm 0xc0, Imm 0x40, Imm 0, Imm 0], Count,
    Syscall NR_recvfrom [Reg 2, Ptr 0x20ba6ec0, Imm 4, Imm 0x40, Imm 0, Imm 0], Count,
    Syscall NR_recvfrom [Reg 2, Ptr 0x20ba7840, Imm 0x15, Imm 0x40, Imm 0, Imm 0], Count,
    Syscall NR_sendto [Reg 2, Write_buf, Imm 0xc0, Imm 0x40, Imm 0, Imm 0], Count,
    Syscall NR_recvfrom [Reg 2, Ptr 0x20ba8cc0, Imm 4, Imm 0x40, Imm 0, Imm 0], Count,
    Syscall NR_recvfrom [Reg 2, Ptr 0x20ba9840, Imm 0x15, Imm 0x40, Imm 0, Imm 0], Count,
    Syscall NR_sendto [Reg 2, Write_buf, Imm 0xc0, Imm 0x40, Imm 0, Imm 0], Count,
    Syscall NR_recvfrom [Reg 2, Ptr 0x20bab000, Imm 4, Imm 0x40, Imm 0, Imm 0], Count]"

definition min_mysql_recvfrom_sendto_20_0_body230 :: "stmt list" where
  "min_mysql_recvfrom_sendto_20_0_body230 = [
    Syscall NR_recvfrom [Reg 2, Ptr 0x20baf140, Imm 0x15, Imm 0x40, Imm 0, Imm 0], Count,
    Syscall NR_sendto [Reg 2, Write_buf, Imm 0xc0, Imm 0x40, Imm 0, Imm 0], Count,
    Syscall NR_recvfrom [Reg 2, Ptr 0x20bb6600, Imm 4, Imm 0x40, Imm 0, Imm 0], Count,
    Syscall NR_recvfrom [Reg 2, Ptr 0x20bbd300, Imm 0x15, Imm 0x40, Imm 0, Imm 0], Count,
    Syscall NR_sendto [Reg 2, Write_buf, Imm 0xc0, Imm 0x40, Imm 0, Imm 0], Count,
    Syscall NR_recvfrom [Reg 2, Ptr 0x20bde440, Imm 4, Imm 0x40, Imm 0, Imm 0], Count,
    Syscall NR_recvfrom [Reg 2, Ptr 0x20be3f00, Imm 0x15, Imm 0x40, Imm 0, Imm 0], Count,
    Syscall NR_sendto [Reg 2, Write_buf, Imm 0xc0, Imm 0x40, Imm 0, Imm 0], Count,
    Syscall NR_recvfrom [Reg 2, Ptr 0x20be83c0, Imm 4, Imm 0x40, Imm 0, Imm 0], Count,
    Syscall NR_recvfrom [Reg 2, Ptr 0x20beef00, Imm 0x15, Imm 0x40, Imm 0, Imm 0], Count]"

definition min_mysql_recvfrom_sendto_20_0_body231 :: "stmt list" where
  "min_mysql_recvfrom_sendto_20_0_body231 = [
    Syscall NR_sendto [Reg 2, Write_buf, Imm 0xc0, Imm 0x40, Imm 0, Imm 0], Count,
    Syscall NR_recvfrom [Reg 2, Ptr 0x20c0f780, Imm 4, Imm 0x40, Imm 0, Imm 0], Count,
    Syscall NR_recvfrom [Reg 2, Ptr 0x20c18380, Imm 0x15, Imm 0x40, Imm 0, Imm 0], Count,
    Syscall NR_sendto [Reg 2, Write_buf, Imm 0xc0, Imm 0x40, Imm 0, Imm 0], Count,
    Syscall NR_recvfrom [Reg 2, Ptr 0x20c53280, Imm 4, Imm 0x40, Imm 0, Imm 0], Count,
    Syscall NR_recvfrom [Reg 2, Ptr 0x20c62480, Imm 0x15, Imm 0x40, Imm 0, Imm 0], Count,
    Syscall NR_sendto [Reg 2, Write_buf, Imm 0xc0, Imm 0x40, Imm 0, Imm 0], Count,
    Syscall NR_recvfrom [Reg 2, Ptr 0x20c945c0, Imm 4, Imm 0x40, Imm 0, Imm 0], Count,
    Syscall NR_recvfrom [Reg 2, Ptr 0x20c9c480, Imm 0x1d, Imm 0x40, Imm 0, Imm 0], Count,
    Syscall NR_sendto [Reg 2, Write_buf, Imm 0x317a, Imm 0x40, Imm 0, Imm 0], Count]"

definition min_mysql_recvfrom_sendto_20_0_body232 :: "stmt list" where
  "min_mysql_recvfrom_sendto_20_0_body232 = [
    Syscall NR_recvfrom [Reg 2, Ptr 0x20ccc2c0, Imm 4, Imm 0x40, Imm 0, Imm 0], Count,
    Syscall NR_recvfrom [Reg 2, Ptr 0x20cf5040, Imm 0x1d, Imm 0x40, Imm 0, Imm 0], Count,
    Syscall NR_sendto [Reg 2, Write_buf, Imm 0x3c, Imm 0x40, Imm 0, Imm 0], Count,
    Syscall NR_recvfrom [Reg 2, Ptr 0x20d2ba80, Imm 4, Imm 0x40, Imm 0, Imm 0], Count,
    Syscall NR_recvfrom [Reg 2, Ptr 0x20d45380, Imm 0x1d, Imm 0x40, Imm 0, Imm 0], Count,
    Syscall NR_sendto [Reg 2, Write_buf, Imm 0x317a, Imm 0x40, Imm 0, Imm 0], Count,
    Syscall NR_recvfrom [Reg 2, Ptr 0x20fa88c0, Imm 4, Imm 0x40, Imm 0, Imm 0], Count,
    Syscall NR_recvfrom [Reg 2, Ptr 0x20fc7940, Imm 0x1d, Imm 0x40, Imm 0, Imm 0], Count,
    Syscall NR_sendto [Reg 2, Write_buf, Imm 0x2f82, Imm 0x40, Imm 0, Imm 0], Count,
    Syscall NR_recvfrom [Reg 2, Ptr 0x201190c0, Imm 4, Imm 0x40, Imm 0, Imm 0], Count]"

definition min_mysql_recvfrom_sendto_20_0_body233 :: "stmt list" where
  "min_mysql_recvfrom_sendto_20_0_body233 = [
    Syscall NR_recvfrom [Reg 2, Ptr 0x2011cd00, Imm 0x15, Imm 0x40, Imm 0, Imm 0], Count,
    Syscall NR_sendto [Reg 2, Write_buf, Imm 0x34, Imm 0x40, Imm 0, Imm 0], Count,
    Syscall NR_recvfrom [Reg 2, Ptr 0x20122c40, Imm 4, Imm 0x40, Imm 0, Imm 0], Count,
    Syscall NR_recvfrom [Reg 2, Ptr 0x20123780, Imm 0x8d, Imm 0x40, Imm 0, Imm 0], Count,
    Syscall NR_sendto [Reg 2, Write_buf, Imm 0x34, Imm 0x40, Imm 0, Imm 0], Count,
    Syscall NR_recvfrom [Reg 2, Ptr 0x20127c40, Imm 4, Imm 0x40, Imm 0, Imm 0], Count,
    Syscall NR_recvfrom [Reg 2, Ptr 0x20128540, Imm 0x15, Imm 0x40, Imm 0, Imm 0], Count,
    Syscall NR_sendto [Reg 2, Write_buf, Imm 0xb, Imm 0x40, Imm 0, Imm 0], Count,
    Syscall NR_recvfrom [Reg 2, Ptr 0x201294c0, Imm 4, Imm 0x40, Imm 0, Imm 0], Count,
    Syscall NR_recvfrom [Reg 2, Ptr 0x2012bb40, Imm 0xd1, Imm 0x40, Imm 0, Imm 0], Count]"

definition min_mysql_recvfrom_sendto_20_0_body234 :: "stmt list" where
  "min_mysql_recvfrom_sendto_20_0_body234 = [
    Syscall NR_sendto [Reg 2, Write_buf, Imm 0xd, Imm 0x40, Imm 0, Imm 0], Count,
    Syscall NR_recvfrom [Reg 2, Ptr 0x2012fb40, Imm 4, Imm 0x40, Imm 0, Imm 0], Count,
    Syscall NR_recvfrom [Reg 2, Ptr 0x20130380, Imm 0xb, Imm 0x40, Imm 0, Imm 0], Count,
    Syscall NR_sendto [Reg 2, Write_buf, Imm 0x18, Imm 0x40, Imm 0, Imm 0], Count,
    Syscall NR_recvfrom [Reg 2, Ptr 0x2071a840, Imm 4, Imm 0x40, Imm 0, Imm 0], Count,
    Syscall NR_recvfrom [Reg 2, Ptr 0x2071aa40, Imm 8, Imm 0x40, Imm 0, Imm 0], Count,
    Syscall NR_sendto [Reg 2, Write_buf, Imm 0x18, Imm 0x40, Imm 0, Imm 0], Count,
    Syscall NR_recvfrom [Reg 2, Ptr 0x2071ad80, Imm 4, Imm 0x40, Imm 0, Imm 0], Count,
    Syscall NR_recvfrom [Reg 2, Ptr 0x2071b080, Imm 0x15, Imm 0x40, Imm 0, Imm 0], Count,
    Syscall NR_sendto [Reg 2, Write_buf, Imm 0xc0, Imm 0x40, Imm 0, Imm 0], Count]"

definition min_mysql_recvfrom_sendto_20_0_body235 :: "stmt list" where
  "min_mysql_recvfrom_sendto_20_0_body235 = [
    Syscall NR_recvfrom [Reg 2, Ptr 0x2071ba40, Imm 4, Imm 0x40, Imm 0, Imm 0], Count,
    Syscall NR_recvfrom [Reg 2, Ptr 0x2071be40, Imm 0x15, Imm 0x40, Imm 0, Imm 0], Count,
    Syscall NR_sendto [Reg 2, Write_buf, Imm 0xc0, Imm 0x40, Imm 0, Imm 0], Count,
    Syscall NR_recvfrom [Reg 2, Ptr 0x2071cc40, Imm 4, Imm 0x40, Imm 0, Imm 0], Count,
    Syscall NR_recvfrom [Reg 2, Ptr 0x2071d2c0, Imm 0x15, Imm 0x40, Imm 0, Imm 0], Count,
    Syscall NR_sendto [Reg 2, Write_buf, Imm 0xc0, Imm 0x40, Imm 0, Imm 0], Count,
    Syscall NR_recvfrom [Reg 2, Ptr 0x2071dd40, Imm 4, Imm 0x40, Imm 0, Imm 0], Count,
    Syscall NR_recvfrom [Reg 2, Ptr 0x2071e500, Imm 0x15, Imm 0x40, Imm 0, Imm 0], Count,
    Syscall NR_sendto [Reg 2, Write_buf, Imm 0xc0, Imm 0x40, Imm 0, Imm 0], Count,
    Syscall NR_recvfrom [Reg 2, Ptr 0x2071f000, Imm 4, Imm 0x40, Imm 0, Imm 0], Count]"

definition min_mysql_recvfrom_sendto_20_0_body236 :: "stmt list" where
  "min_mysql_recvfrom_sendto_20_0_body236 = [
    Syscall NR_recvfrom [Reg 2, Ptr 0x2071f7c0, Imm 0x15, Imm 0x40, Imm 0, Imm 0], Count,
    Syscall NR_sendto [Reg 2, Write_buf, Imm 0xc0, Imm 0x40, Imm 0, Imm 0], Count,
    Syscall NR_recvfrom [Reg 2, Ptr 0x20720280, Imm 4, Imm 0x40, Imm 0, Imm 0], Count,
    Syscall NR_recvfrom [Reg 2, Ptr 0x20720a40, Imm 0x15, Imm 0x40, Imm 0, Imm 0], Count,
    Syscall NR_sendto [Reg 2, Write_buf, Imm 0xc0, Imm 0x40, Imm 0, Imm 0], Count,
    Syscall NR_recvfrom [Reg 2, Ptr 0x20721540, Imm 4, Imm 0x40, Imm 0, Imm 0], Count,
    Syscall NR_recvfrom [Reg 2, Ptr 0x20721d00, Imm 0x15, Imm 0x40, Imm 0, Imm 0], Count,
    Syscall NR_sendto [Reg 2, Write_buf, Imm 0xc0, Imm 0x40, Imm 0, Imm 0], Count,
    Syscall NR_recvfrom [Reg 2, Ptr 0x20722800, Imm 4, Imm 0x40, Imm 0, Imm 0], Count,
    Syscall NR_recvfrom [Reg 2, Ptr 0x20723040, Imm 0x15, Imm 0x40, Imm 0, Imm 0], Count]"

definition min_mysql_recvfrom_sendto_20_0_body237 :: "stmt list" where
  "min_mysql_recvfrom_sendto_20_0_body237 = [
    Syscall NR_sendto [Reg 2, Write_buf, Imm 0xc0, Imm 0x40, Imm 0, Imm 0], Count,
    Syscall NR_recvfrom [Reg 2, Ptr 0x20723b40, Imm 4, Imm 0x40, Imm 0, Imm 0], Count,
    Syscall NR_recvfrom [Reg 2, Ptr 0x20724300, Imm 0x15, Imm 0x40, Imm 0, Imm 0], Count,
    Syscall NR_sendto [Reg 2, Write_buf, Imm 0xc0, Imm 0x40, Imm 0, Imm 0], Count,
    Syscall NR_recvfrom [Reg 2, Ptr 0x20724c80, Imm 4, Imm 0x40, Imm 0, Imm 0], Count,
    Syscall NR_recvfrom [Reg 2, Ptr 0x20728600, Imm 0x15, Imm 0x40, Imm 0, Imm 0], Count,
    Syscall NR_sendto [Reg 2, Write_buf, Imm 0xc0, Imm 0x40, Imm 0, Imm 0], Count,
    Syscall NR_recvfrom [Reg 2, Ptr 0x2072c280, Imm 4, Imm 0x40, Imm 0, Imm 0], Count,
    Syscall NR_recvfrom [Reg 2, Ptr 0x2072fa80, Imm 0x1d, Imm 0x40, Imm 0, Imm 0], Count,
    Syscall NR_sendto [Reg 2, Write_buf, Imm 0x3178, Imm 0x40, Imm 0, Imm 0], Count]"

definition min_mysql_recvfrom_sendto_20_0_body238 :: "stmt list" where
  "min_mysql_recvfrom_sendto_20_0_body238 = [
    Syscall NR_recvfrom [Reg 2, Ptr 0x20739140, Imm 4, Imm 0x40, Imm 0, Imm 0], Count,
    Syscall NR_recvfrom [Reg 2, Ptr 0x207395c0, Imm 0x1d, Imm 0x40, Imm 0, Imm 0], Count,
    Syscall NR_sendto [Reg 2, Write_buf, Imm 0x3c, Imm 0x40, Imm 0, Imm 0], Count,
    Syscall NR_recvfrom [Reg 2, Ptr 0x20753f80, Imm 4, Imm 0x40, Imm 0, Imm 0], Count,
    Syscall NR_recvfrom [Reg 2, Ptr 0x20759f80, Imm 0x1d, Imm 0x40, Imm 0, Imm 0], Count,
    Syscall NR_sendto [Reg 2, Write_buf, Imm 0x317a, Imm 0x40, Imm 0, Imm 0], Count,
    Syscall NR_recvfrom [Reg 2, Ptr 0x208f6fc0, Imm 4, Imm 0x40, Imm 0, Imm 0], Count,
    Syscall NR_recvfrom [Reg 2, Ptr 0x20906c80, Imm 0x1d, Imm 0x40, Imm 0, Imm 0], Count,
    Syscall NR_sendto [Reg 2, Write_buf, Imm 0x3178, Imm 0x40, Imm 0, Imm 0], Count,
    Syscall NR_recvfrom [Reg 2, Ptr 0x20a2c000, Imm 4, Imm 0x40, Imm 0, Imm 0], Count]"

definition min_mysql_recvfrom_sendto_20_0_body239 :: "stmt list" where
  "min_mysql_recvfrom_sendto_20_0_body239 = [
    Syscall NR_recvfrom [Reg 2, Ptr 0x20a36080, Imm 0x15, Imm 0x40, Imm 0, Imm 0], Count,
    Syscall NR_sendto [Reg 2, Write_buf, Imm 0x34, Imm 0x40, Imm 0, Imm 0], Count,
    Syscall NR_recvfrom [Reg 2, Ptr 0x20a49780, Imm 4, Imm 0x40, Imm 0, Imm 0], Count,
    Syscall NR_recvfrom [Reg 2, Ptr 0x20a50e40, Imm 0x93, Imm 0x40, Imm 0, Imm 0], Count,
    Syscall NR_sendto [Reg 2, Write_buf, Imm 0x34, Imm 0x40, Imm 0, Imm 0], Count,
    Syscall NR_recvfrom [Reg 2, Ptr 0x20a52100, Imm 4, Imm 0x40, Imm 0, Imm 0], Count,
    Syscall NR_recvfrom [Reg 2, Ptr 0x20a532c0, Imm 0x15, Imm 0x40, Imm 0, Imm 0], Count,
    Syscall NR_sendto [Reg 2, Write_buf, Imm 0xb, Imm 0x40, Imm 0, Imm 0], Count,
    Syscall NR_recvfrom [Reg 2, Ptr 0x20a546c0, Imm 4, Imm 0x40, Imm 0, Imm 0], Count,
    Syscall NR_recvfrom [Reg 2, Ptr 0x20a55b40, Imm 0xd1, Imm 0x40, Imm 0, Imm 0], Count]"

definition min_mysql_recvfrom_sendto_20_0_body240 :: "stmt list" where
  "min_mysql_recvfrom_sendto_20_0_body240 = [
    Syscall NR_sendto [Reg 2, Write_buf, Imm 0xd, Imm 0x40, Imm 0, Imm 0], Count,
    Syscall NR_recvfrom [Reg 2, Ptr 0x20a76d40, Imm 4, Imm 0x40, Imm 0, Imm 0], Count,
    Syscall NR_recvfrom [Reg 2, Ptr 0x20a79a00, Imm 0xb, Imm 0x40, Imm 0, Imm 0], Count,
    Syscall NR_sendto [Reg 2, Write_buf, Imm 0x18, Imm 0x40, Imm 0, Imm 0], Count,
    Syscall NR_recvfrom [Reg 2, Ptr 0x20da3e00, Imm 4, Imm 0x40, Imm 0, Imm 0], Count,
    Syscall NR_recvfrom [Reg 2, Ptr 0x20db3740, Imm 8, Imm 0x40, Imm 0, Imm 0], Count,
    Syscall NR_sendto [Reg 2, Write_buf, Imm 0x18, Imm 0x40, Imm 0, Imm 0], Count,
    Syscall NR_recvfrom [Reg 2, Ptr 0x20dccf40, Imm 4, Imm 0x40, Imm 0, Imm 0], Count,
    Syscall NR_recvfrom [Reg 2, Ptr 0x20dd07c0, Imm 0x18, Imm 0x40, Imm 0, Imm 0], Count,
    Syscall NR_sendto [Reg 2, Write_buf, Imm 0xbe, Imm 0x40, Imm 0, Imm 0], Count]"

lemma min_mysql_recvfrom_sendto_20_0_body121_ok: "body_ok 3 12666 min_mysql_recvfrom_sendto_20_0_body121" "counted min_mysql_recvfrom_sendto_20_0_body121" "calls min_mysql_recvfrom_sendto_20_0_body121 = 10" "opened_in m min_mysql_recvfrom_sendto_20_0_body121 = []"
  by (simp_all add: min_mysql_recvfrom_sendto_20_0_body121_def prog_checks open_checks)

lemma min_mysql_recvfrom_sendto_20_0_body122_ok: "body_ok 3 12666 min_mysql_recvfrom_sendto_20_0_body122" "counted min_mysql_recvfrom_sendto_20_0_body122" "calls min_mysql_recvfrom_sendto_20_0_body122 = 10" "opened_in m min_mysql_recvfrom_sendto_20_0_body122 = []"
  by (simp_all add: min_mysql_recvfrom_sendto_20_0_body122_def prog_checks open_checks)

lemma min_mysql_recvfrom_sendto_20_0_body123_ok: "body_ok 3 12666 min_mysql_recvfrom_sendto_20_0_body123" "counted min_mysql_recvfrom_sendto_20_0_body123" "calls min_mysql_recvfrom_sendto_20_0_body123 = 10" "opened_in m min_mysql_recvfrom_sendto_20_0_body123 = []"
  by (simp_all add: min_mysql_recvfrom_sendto_20_0_body123_def prog_checks open_checks)

lemma min_mysql_recvfrom_sendto_20_0_body124_ok: "body_ok 3 12666 min_mysql_recvfrom_sendto_20_0_body124" "counted min_mysql_recvfrom_sendto_20_0_body124" "calls min_mysql_recvfrom_sendto_20_0_body124 = 10" "opened_in m min_mysql_recvfrom_sendto_20_0_body124 = []"
  by (simp_all add: min_mysql_recvfrom_sendto_20_0_body124_def prog_checks open_checks)

lemma min_mysql_recvfrom_sendto_20_0_body125_ok: "body_ok 3 12666 min_mysql_recvfrom_sendto_20_0_body125" "counted min_mysql_recvfrom_sendto_20_0_body125" "calls min_mysql_recvfrom_sendto_20_0_body125 = 10" "opened_in m min_mysql_recvfrom_sendto_20_0_body125 = []"
  by (simp_all add: min_mysql_recvfrom_sendto_20_0_body125_def prog_checks open_checks)

lemma min_mysql_recvfrom_sendto_20_0_body126_ok: "body_ok 3 12666 min_mysql_recvfrom_sendto_20_0_body126" "counted min_mysql_recvfrom_sendto_20_0_body126" "calls min_mysql_recvfrom_sendto_20_0_body126 = 10" "opened_in m min_mysql_recvfrom_sendto_20_0_body126 = []"
  by (simp_all add: min_mysql_recvfrom_sendto_20_0_body126_def prog_checks open_checks)

lemma min_mysql_recvfrom_sendto_20_0_body127_ok: "body_ok 3 12666 min_mysql_recvfrom_sendto_20_0_body127" "counted min_mysql_recvfrom_sendto_20_0_body127" "calls min_mysql_recvfrom_sendto_20_0_body127 = 10" "opened_in m min_mysql_recvfrom_sendto_20_0_body127 = []"
  by (simp_all add: min_mysql_recvfrom_sendto_20_0_body127_def prog_checks open_checks)

lemma min_mysql_recvfrom_sendto_20_0_body128_ok: "body_ok 3 12666 min_mysql_recvfrom_sendto_20_0_body128" "counted min_mysql_recvfrom_sendto_20_0_body128" "calls min_mysql_recvfrom_sendto_20_0_body128 = 10" "opened_in m min_mysql_recvfrom_sendto_20_0_body128 = []"
  by (simp_all add: min_mysql_recvfrom_sendto_20_0_body128_def prog_checks open_checks)

lemma min_mysql_recvfrom_sendto_20_0_body129_ok: "body_ok 3 12666 min_mysql_recvfrom_sendto_20_0_body129" "counted min_mysql_recvfrom_sendto_20_0_body129" "calls min_mysql_recvfrom_sendto_20_0_body129 = 10" "opened_in m min_mysql_recvfrom_sendto_20_0_body129 = []"
  by (simp_all add: min_mysql_recvfrom_sendto_20_0_body129_def prog_checks open_checks)

lemma min_mysql_recvfrom_sendto_20_0_body130_ok: "body_ok 3 12666 min_mysql_recvfrom_sendto_20_0_body130" "counted min_mysql_recvfrom_sendto_20_0_body130" "calls min_mysql_recvfrom_sendto_20_0_body130 = 10" "opened_in m min_mysql_recvfrom_sendto_20_0_body130 = []"
  by (simp_all add: min_mysql_recvfrom_sendto_20_0_body130_def prog_checks open_checks)

lemma min_mysql_recvfrom_sendto_20_0_body131_ok: "body_ok 3 12666 min_mysql_recvfrom_sendto_20_0_body131" "counted min_mysql_recvfrom_sendto_20_0_body131" "calls min_mysql_recvfrom_sendto_20_0_body131 = 10" "opened_in m min_mysql_recvfrom_sendto_20_0_body131 = []"
  by (simp_all add: min_mysql_recvfrom_sendto_20_0_body131_def prog_checks open_checks)

lemma min_mysql_recvfrom_sendto_20_0_body132_ok: "body_ok 3 12666 min_mysql_recvfrom_sendto_20_0_body132" "counted min_mysql_recvfrom_sendto_20_0_body132" "calls min_mysql_recvfrom_sendto_20_0_body132 = 10" "opened_in m min_mysql_recvfrom_sendto_20_0_body132 = []"
  by (simp_all add: min_mysql_recvfrom_sendto_20_0_body132_def prog_checks open_checks)

lemma min_mysql_recvfrom_sendto_20_0_body133_ok: "body_ok 3 12666 min_mysql_recvfrom_sendto_20_0_body133" "counted min_mysql_recvfrom_sendto_20_0_body133" "calls min_mysql_recvfrom_sendto_20_0_body133 = 10" "opened_in m min_mysql_recvfrom_sendto_20_0_body133 = []"
  by (simp_all add: min_mysql_recvfrom_sendto_20_0_body133_def prog_checks open_checks)

lemma min_mysql_recvfrom_sendto_20_0_body134_ok: "body_ok 3 12666 min_mysql_recvfrom_sendto_20_0_body134" "counted min_mysql_recvfrom_sendto_20_0_body134" "calls min_mysql_recvfrom_sendto_20_0_body134 = 10" "opened_in m min_mysql_recvfrom_sendto_20_0_body134 = []"
  by (simp_all add: min_mysql_recvfrom_sendto_20_0_body134_def prog_checks open_checks)

lemma min_mysql_recvfrom_sendto_20_0_body135_ok: "body_ok 3 12666 min_mysql_recvfrom_sendto_20_0_body135" "counted min_mysql_recvfrom_sendto_20_0_body135" "calls min_mysql_recvfrom_sendto_20_0_body135 = 10" "opened_in m min_mysql_recvfrom_sendto_20_0_body135 = []"
  by (simp_all add: min_mysql_recvfrom_sendto_20_0_body135_def prog_checks open_checks)

lemma min_mysql_recvfrom_sendto_20_0_body136_ok: "body_ok 3 12666 min_mysql_recvfrom_sendto_20_0_body136" "counted min_mysql_recvfrom_sendto_20_0_body136" "calls min_mysql_recvfrom_sendto_20_0_body136 = 10" "opened_in m min_mysql_recvfrom_sendto_20_0_body136 = []"
  by (simp_all add: min_mysql_recvfrom_sendto_20_0_body136_def prog_checks open_checks)

lemma min_mysql_recvfrom_sendto_20_0_body137_ok: "body_ok 3 12666 min_mysql_recvfrom_sendto_20_0_body137" "counted min_mysql_recvfrom_sendto_20_0_body137" "calls min_mysql_recvfrom_sendto_20_0_body137 = 10" "opened_in m min_mysql_recvfrom_sendto_20_0_body137 = []"
  by (simp_all add: min_mysql_recvfrom_sendto_20_0_body137_def prog_checks open_checks)

lemma min_mysql_recvfrom_sendto_20_0_body138_ok: "body_ok 3 12666 min_mysql_recvfrom_sendto_20_0_body138" "counted min_mysql_recvfrom_sendto_20_0_body138" "calls min_mysql_recvfrom_sendto_20_0_body138 = 10" "opened_in m min_mysql_recvfrom_sendto_20_0_body138 = []"
  by (simp_all add: min_mysql_recvfrom_sendto_20_0_body138_def prog_checks open_checks)

lemma min_mysql_recvfrom_sendto_20_0_body139_ok: "body_ok 3 12666 min_mysql_recvfrom_sendto_20_0_body139" "counted min_mysql_recvfrom_sendto_20_0_body139" "calls min_mysql_recvfrom_sendto_20_0_body139 = 10" "opened_in m min_mysql_recvfrom_sendto_20_0_body139 = []"
  by (simp_all add: min_mysql_recvfrom_sendto_20_0_body139_def prog_checks open_checks)

lemma min_mysql_recvfrom_sendto_20_0_body140_ok: "body_ok 3 12666 min_mysql_recvfrom_sendto_20_0_body140" "counted min_mysql_recvfrom_sendto_20_0_body140" "calls min_mysql_recvfrom_sendto_20_0_body140 = 10" "opened_in m min_mysql_recvfrom_sendto_20_0_body140 = []"
  by (simp_all add: min_mysql_recvfrom_sendto_20_0_body140_def prog_checks open_checks)

lemma min_mysql_recvfrom_sendto_20_0_body141_ok: "body_ok 3 12666 min_mysql_recvfrom_sendto_20_0_body141" "counted min_mysql_recvfrom_sendto_20_0_body141" "calls min_mysql_recvfrom_sendto_20_0_body141 = 9" "opened_in m min_mysql_recvfrom_sendto_20_0_body141 = []"
  by (simp_all add: min_mysql_recvfrom_sendto_20_0_body141_def prog_checks open_checks)

lemma min_mysql_recvfrom_sendto_20_0_body142_ok: "body_ok 3 12666 min_mysql_recvfrom_sendto_20_0_body142" "counted min_mysql_recvfrom_sendto_20_0_body142" "calls min_mysql_recvfrom_sendto_20_0_body142 = 9" "opened_in m min_mysql_recvfrom_sendto_20_0_body142 = []"
  by (simp_all add: min_mysql_recvfrom_sendto_20_0_body142_def prog_checks open_checks)

lemma min_mysql_recvfrom_sendto_20_0_body143_ok: "body_ok 3 12666 min_mysql_recvfrom_sendto_20_0_body143" "counted min_mysql_recvfrom_sendto_20_0_body143" "calls min_mysql_recvfrom_sendto_20_0_body143 = 10" "opened_in m min_mysql_recvfrom_sendto_20_0_body143 = []"
  by (simp_all add: min_mysql_recvfrom_sendto_20_0_body143_def prog_checks open_checks)

lemma min_mysql_recvfrom_sendto_20_0_body144_ok: "body_ok 3 12666 min_mysql_recvfrom_sendto_20_0_body144" "counted min_mysql_recvfrom_sendto_20_0_body144" "calls min_mysql_recvfrom_sendto_20_0_body144 = 10" "opened_in m min_mysql_recvfrom_sendto_20_0_body144 = []"
  by (simp_all add: min_mysql_recvfrom_sendto_20_0_body144_def prog_checks open_checks)

lemma min_mysql_recvfrom_sendto_20_0_body145_ok: "body_ok 3 12666 min_mysql_recvfrom_sendto_20_0_body145" "counted min_mysql_recvfrom_sendto_20_0_body145" "calls min_mysql_recvfrom_sendto_20_0_body145 = 10" "opened_in m min_mysql_recvfrom_sendto_20_0_body145 = []"
  by (simp_all add: min_mysql_recvfrom_sendto_20_0_body145_def prog_checks open_checks)

lemma min_mysql_recvfrom_sendto_20_0_body146_ok: "body_ok 3 12666 min_mysql_recvfrom_sendto_20_0_body146" "counted min_mysql_recvfrom_sendto_20_0_body146" "calls min_mysql_recvfrom_sendto_20_0_body146 = 10" "opened_in m min_mysql_recvfrom_sendto_20_0_body146 = []"
  by (simp_all add: min_mysql_recvfrom_sendto_20_0_body146_def prog_checks open_checks)

lemma min_mysql_recvfrom_sendto_20_0_body147_ok: "body_ok 3 12666 min_mysql_recvfrom_sendto_20_0_body147" "counted min_mysql_recvfrom_sendto_20_0_body147" "calls min_mysql_recvfrom_sendto_20_0_body147 = 10" "opened_in m min_mysql_recvfrom_sendto_20_0_body147 = []"
  by (simp_all add: min_mysql_recvfrom_sendto_20_0_body147_def prog_checks open_checks)

lemma min_mysql_recvfrom_sendto_20_0_body148_ok: "body_ok 3 12666 min_mysql_recvfrom_sendto_20_0_body148" "counted min_mysql_recvfrom_sendto_20_0_body148" "calls min_mysql_recvfrom_sendto_20_0_body148 = 10" "opened_in m min_mysql_recvfrom_sendto_20_0_body148 = []"
  by (simp_all add: min_mysql_recvfrom_sendto_20_0_body148_def prog_checks open_checks)

lemma min_mysql_recvfrom_sendto_20_0_body149_ok: "body_ok 3 12666 min_mysql_recvfrom_sendto_20_0_body149" "counted min_mysql_recvfrom_sendto_20_0_body149" "calls min_mysql_recvfrom_sendto_20_0_body149 = 10" "opened_in m min_mysql_recvfrom_sendto_20_0_body149 = []"
  by (simp_all add: min_mysql_recvfrom_sendto_20_0_body149_def prog_checks open_checks)

lemma min_mysql_recvfrom_sendto_20_0_body150_ok: "body_ok 3 12666 min_mysql_recvfrom_sendto_20_0_body150" "counted min_mysql_recvfrom_sendto_20_0_body150" "calls min_mysql_recvfrom_sendto_20_0_body150 = 10" "opened_in m min_mysql_recvfrom_sendto_20_0_body150 = []"
  by (simp_all add: min_mysql_recvfrom_sendto_20_0_body150_def prog_checks open_checks)

lemma min_mysql_recvfrom_sendto_20_0_body151_ok: "body_ok 3 12666 min_mysql_recvfrom_sendto_20_0_body151" "counted min_mysql_recvfrom_sendto_20_0_body151" "calls min_mysql_recvfrom_sendto_20_0_body151 = 10" "opened_in m min_mysql_recvfrom_sendto_20_0_body151 = []"
  by (simp_all add: min_mysql_recvfrom_sendto_20_0_body151_def prog_checks open_checks)

lemma min_mysql_recvfrom_sendto_20_0_body152_ok: "body_ok 3 12666 min_mysql_recvfrom_sendto_20_0_body152" "counted min_mysql_recvfrom_sendto_20_0_body152" "calls min_mysql_recvfrom_sendto_20_0_body152 = 10" "opened_in m min_mysql_recvfrom_sendto_20_0_body152 = []"
  by (simp_all add: min_mysql_recvfrom_sendto_20_0_body152_def prog_checks open_checks)

lemma min_mysql_recvfrom_sendto_20_0_body153_ok: "body_ok 3 12666 min_mysql_recvfrom_sendto_20_0_body153" "counted min_mysql_recvfrom_sendto_20_0_body153" "calls min_mysql_recvfrom_sendto_20_0_body153 = 10" "opened_in m min_mysql_recvfrom_sendto_20_0_body153 = []"
  by (simp_all add: min_mysql_recvfrom_sendto_20_0_body153_def prog_checks open_checks)

lemma min_mysql_recvfrom_sendto_20_0_body154_ok: "body_ok 3 12666 min_mysql_recvfrom_sendto_20_0_body154" "counted min_mysql_recvfrom_sendto_20_0_body154" "calls min_mysql_recvfrom_sendto_20_0_body154 = 10" "opened_in m min_mysql_recvfrom_sendto_20_0_body154 = []"
  by (simp_all add: min_mysql_recvfrom_sendto_20_0_body154_def prog_checks open_checks)

lemma min_mysql_recvfrom_sendto_20_0_body155_ok: "body_ok 3 12666 min_mysql_recvfrom_sendto_20_0_body155" "counted min_mysql_recvfrom_sendto_20_0_body155" "calls min_mysql_recvfrom_sendto_20_0_body155 = 9" "opened_in m min_mysql_recvfrom_sendto_20_0_body155 = []"
  by (simp_all add: min_mysql_recvfrom_sendto_20_0_body155_def prog_checks open_checks)

lemma min_mysql_recvfrom_sendto_20_0_body156_ok: "body_ok 3 12666 min_mysql_recvfrom_sendto_20_0_body156" "counted min_mysql_recvfrom_sendto_20_0_body156" "calls min_mysql_recvfrom_sendto_20_0_body156 = 10" "opened_in m min_mysql_recvfrom_sendto_20_0_body156 = []"
  by (simp_all add: min_mysql_recvfrom_sendto_20_0_body156_def prog_checks open_checks)

lemma min_mysql_recvfrom_sendto_20_0_body157_ok: "body_ok 3 12666 min_mysql_recvfrom_sendto_20_0_body157" "counted min_mysql_recvfrom_sendto_20_0_body157" "calls min_mysql_recvfrom_sendto_20_0_body157 = 10" "opened_in m min_mysql_recvfrom_sendto_20_0_body157 = []"
  by (simp_all add: min_mysql_recvfrom_sendto_20_0_body157_def prog_checks open_checks)

lemma min_mysql_recvfrom_sendto_20_0_body158_ok: "body_ok 3 12666 min_mysql_recvfrom_sendto_20_0_body158" "counted min_mysql_recvfrom_sendto_20_0_body158" "calls min_mysql_recvfrom_sendto_20_0_body158 = 10" "opened_in m min_mysql_recvfrom_sendto_20_0_body158 = []"
  by (simp_all add: min_mysql_recvfrom_sendto_20_0_body158_def prog_checks open_checks)

lemma min_mysql_recvfrom_sendto_20_0_body159_ok: "body_ok 3 12666 min_mysql_recvfrom_sendto_20_0_body159" "counted min_mysql_recvfrom_sendto_20_0_body159" "calls min_mysql_recvfrom_sendto_20_0_body159 = 10" "opened_in m min_mysql_recvfrom_sendto_20_0_body159 = []"
  by (simp_all add: min_mysql_recvfrom_sendto_20_0_body159_def prog_checks open_checks)

lemma min_mysql_recvfrom_sendto_20_0_body160_ok: "body_ok 3 12666 min_mysql_recvfrom_sendto_20_0_body160" "counted min_mysql_recvfrom_sendto_20_0_body160" "calls min_mysql_recvfrom_sendto_20_0_body160 = 10" "opened_in m min_mysql_recvfrom_sendto_20_0_body160 = []"
  by (simp_all add: min_mysql_recvfrom_sendto_20_0_body160_def prog_checks open_checks)

lemma min_mysql_recvfrom_sendto_20_0_body161_ok: "body_ok 3 12666 min_mysql_recvfrom_sendto_20_0_body161" "counted min_mysql_recvfrom_sendto_20_0_body161" "calls min_mysql_recvfrom_sendto_20_0_body161 = 10" "opened_in m min_mysql_recvfrom_sendto_20_0_body161 = []"
  by (simp_all add: min_mysql_recvfrom_sendto_20_0_body161_def prog_checks open_checks)

lemma min_mysql_recvfrom_sendto_20_0_body162_ok: "body_ok 3 12666 min_mysql_recvfrom_sendto_20_0_body162" "counted min_mysql_recvfrom_sendto_20_0_body162" "calls min_mysql_recvfrom_sendto_20_0_body162 = 10" "opened_in m min_mysql_recvfrom_sendto_20_0_body162 = []"
  by (simp_all add: min_mysql_recvfrom_sendto_20_0_body162_def prog_checks open_checks)

lemma min_mysql_recvfrom_sendto_20_0_body163_ok: "body_ok 3 12666 min_mysql_recvfrom_sendto_20_0_body163" "counted min_mysql_recvfrom_sendto_20_0_body163" "calls min_mysql_recvfrom_sendto_20_0_body163 = 10" "opened_in m min_mysql_recvfrom_sendto_20_0_body163 = []"
  by (simp_all add: min_mysql_recvfrom_sendto_20_0_body163_def prog_checks open_checks)

lemma min_mysql_recvfrom_sendto_20_0_body164_ok: "body_ok 3 12666 min_mysql_recvfrom_sendto_20_0_body164" "counted min_mysql_recvfrom_sendto_20_0_body164" "calls min_mysql_recvfrom_sendto_20_0_body164 = 10" "opened_in m min_mysql_recvfrom_sendto_20_0_body164 = []"
  by (simp_all add: min_mysql_recvfrom_sendto_20_0_body164_def prog_checks open_checks)

lemma min_mysql_recvfrom_sendto_20_0_body165_ok: "body_ok 3 12666 min_mysql_recvfrom_sendto_20_0_body165" "counted min_mysql_recvfrom_sendto_20_0_body165" "calls min_mysql_recvfrom_sendto_20_0_body165 = 10" "opened_in m min_mysql_recvfrom_sendto_20_0_body165 = []"
  by (simp_all add: min_mysql_recvfrom_sendto_20_0_body165_def prog_checks open_checks)

lemma min_mysql_recvfrom_sendto_20_0_body166_ok: "body_ok 3 12666 min_mysql_recvfrom_sendto_20_0_body166" "counted min_mysql_recvfrom_sendto_20_0_body166" "calls min_mysql_recvfrom_sendto_20_0_body166 = 10" "opened_in m min_mysql_recvfrom_sendto_20_0_body166 = []"
  by (simp_all add: min_mysql_recvfrom_sendto_20_0_body166_def prog_checks open_checks)

lemma min_mysql_recvfrom_sendto_20_0_body167_ok: "body_ok 3 12666 min_mysql_recvfrom_sendto_20_0_body167" "counted min_mysql_recvfrom_sendto_20_0_body167" "calls min_mysql_recvfrom_sendto_20_0_body167 = 10" "opened_in m min_mysql_recvfrom_sendto_20_0_body167 = []"
  by (simp_all add: min_mysql_recvfrom_sendto_20_0_body167_def prog_checks open_checks)

lemma min_mysql_recvfrom_sendto_20_0_body168_ok: "body_ok 3 12666 min_mysql_recvfrom_sendto_20_0_body168" "counted min_mysql_recvfrom_sendto_20_0_body168" "calls min_mysql_recvfrom_sendto_20_0_body168 = 10" "opened_in m min_mysql_recvfrom_sendto_20_0_body168 = []"
  by (simp_all add: min_mysql_recvfrom_sendto_20_0_body168_def prog_checks open_checks)

lemma min_mysql_recvfrom_sendto_20_0_body169_ok: "body_ok 3 12666 min_mysql_recvfrom_sendto_20_0_body169" "counted min_mysql_recvfrom_sendto_20_0_body169" "calls min_mysql_recvfrom_sendto_20_0_body169 = 10" "opened_in m min_mysql_recvfrom_sendto_20_0_body169 = []"
  by (simp_all add: min_mysql_recvfrom_sendto_20_0_body169_def prog_checks open_checks)

lemma min_mysql_recvfrom_sendto_20_0_body170_ok: "body_ok 3 12666 min_mysql_recvfrom_sendto_20_0_body170" "counted min_mysql_recvfrom_sendto_20_0_body170" "calls min_mysql_recvfrom_sendto_20_0_body170 = 10" "opened_in m min_mysql_recvfrom_sendto_20_0_body170 = []"
  by (simp_all add: min_mysql_recvfrom_sendto_20_0_body170_def prog_checks open_checks)

lemma min_mysql_recvfrom_sendto_20_0_body171_ok: "body_ok 3 12666 min_mysql_recvfrom_sendto_20_0_body171" "counted min_mysql_recvfrom_sendto_20_0_body171" "calls min_mysql_recvfrom_sendto_20_0_body171 = 10" "opened_in m min_mysql_recvfrom_sendto_20_0_body171 = []"
  by (simp_all add: min_mysql_recvfrom_sendto_20_0_body171_def prog_checks open_checks)

lemma min_mysql_recvfrom_sendto_20_0_body172_ok: "body_ok 3 12666 min_mysql_recvfrom_sendto_20_0_body172" "counted min_mysql_recvfrom_sendto_20_0_body172" "calls min_mysql_recvfrom_sendto_20_0_body172 = 10" "opened_in m min_mysql_recvfrom_sendto_20_0_body172 = []"
  by (simp_all add: min_mysql_recvfrom_sendto_20_0_body172_def prog_checks open_checks)

lemma min_mysql_recvfrom_sendto_20_0_body173_ok: "body_ok 3 12666 min_mysql_recvfrom_sendto_20_0_body173" "counted min_mysql_recvfrom_sendto_20_0_body173" "calls min_mysql_recvfrom_sendto_20_0_body173 = 10" "opened_in m min_mysql_recvfrom_sendto_20_0_body173 = []"
  by (simp_all add: min_mysql_recvfrom_sendto_20_0_body173_def prog_checks open_checks)

lemma min_mysql_recvfrom_sendto_20_0_body174_ok: "body_ok 3 12666 min_mysql_recvfrom_sendto_20_0_body174" "counted min_mysql_recvfrom_sendto_20_0_body174" "calls min_mysql_recvfrom_sendto_20_0_body174 = 10" "opened_in m min_mysql_recvfrom_sendto_20_0_body174 = []"
  by (simp_all add: min_mysql_recvfrom_sendto_20_0_body174_def prog_checks open_checks)

lemma min_mysql_recvfrom_sendto_20_0_body175_ok: "body_ok 3 12666 min_mysql_recvfrom_sendto_20_0_body175" "counted min_mysql_recvfrom_sendto_20_0_body175" "calls min_mysql_recvfrom_sendto_20_0_body175 = 10" "opened_in m min_mysql_recvfrom_sendto_20_0_body175 = []"
  by (simp_all add: min_mysql_recvfrom_sendto_20_0_body175_def prog_checks open_checks)

lemma min_mysql_recvfrom_sendto_20_0_body176_ok: "body_ok 3 12666 min_mysql_recvfrom_sendto_20_0_body176" "counted min_mysql_recvfrom_sendto_20_0_body176" "calls min_mysql_recvfrom_sendto_20_0_body176 = 10" "opened_in m min_mysql_recvfrom_sendto_20_0_body176 = []"
  by (simp_all add: min_mysql_recvfrom_sendto_20_0_body176_def prog_checks open_checks)

lemma min_mysql_recvfrom_sendto_20_0_body177_ok: "body_ok 3 12666 min_mysql_recvfrom_sendto_20_0_body177" "counted min_mysql_recvfrom_sendto_20_0_body177" "calls min_mysql_recvfrom_sendto_20_0_body177 = 10" "opened_in m min_mysql_recvfrom_sendto_20_0_body177 = []"
  by (simp_all add: min_mysql_recvfrom_sendto_20_0_body177_def prog_checks open_checks)

lemma min_mysql_recvfrom_sendto_20_0_body178_ok: "body_ok 3 12666 min_mysql_recvfrom_sendto_20_0_body178" "counted min_mysql_recvfrom_sendto_20_0_body178" "calls min_mysql_recvfrom_sendto_20_0_body178 = 10" "opened_in m min_mysql_recvfrom_sendto_20_0_body178 = []"
  by (simp_all add: min_mysql_recvfrom_sendto_20_0_body178_def prog_checks open_checks)

lemma min_mysql_recvfrom_sendto_20_0_body179_ok: "body_ok 3 12666 min_mysql_recvfrom_sendto_20_0_body179" "counted min_mysql_recvfrom_sendto_20_0_body179" "calls min_mysql_recvfrom_sendto_20_0_body179 = 10" "opened_in m min_mysql_recvfrom_sendto_20_0_body179 = []"
  by (simp_all add: min_mysql_recvfrom_sendto_20_0_body179_def prog_checks open_checks)

lemma min_mysql_recvfrom_sendto_20_0_body180_ok: "body_ok 3 12666 min_mysql_recvfrom_sendto_20_0_body180" "counted min_mysql_recvfrom_sendto_20_0_body180" "calls min_mysql_recvfrom_sendto_20_0_body180 = 10" "opened_in m min_mysql_recvfrom_sendto_20_0_body180 = []"
  by (simp_all add: min_mysql_recvfrom_sendto_20_0_body180_def prog_checks open_checks)

lemma min_mysql_recvfrom_sendto_20_0_body181_ok: "body_ok 3 12666 min_mysql_recvfrom_sendto_20_0_body181" "counted min_mysql_recvfrom_sendto_20_0_body181" "calls min_mysql_recvfrom_sendto_20_0_body181 = 10" "opened_in m min_mysql_recvfrom_sendto_20_0_body181 = []"
  by (simp_all add: min_mysql_recvfrom_sendto_20_0_body181_def prog_checks open_checks)

lemma min_mysql_recvfrom_sendto_20_0_body182_ok: "body_ok 3 12666 min_mysql_recvfrom_sendto_20_0_body182" "counted min_mysql_recvfrom_sendto_20_0_body182" "calls min_mysql_recvfrom_sendto_20_0_body182 = 10" "opened_in m min_mysql_recvfrom_sendto_20_0_body182 = []"
  by (simp_all add: min_mysql_recvfrom_sendto_20_0_body182_def prog_checks open_checks)

lemma min_mysql_recvfrom_sendto_20_0_body183_ok: "body_ok 3 12666 min_mysql_recvfrom_sendto_20_0_body183" "counted min_mysql_recvfrom_sendto_20_0_body183" "calls min_mysql_recvfrom_sendto_20_0_body183 = 10" "opened_in m min_mysql_recvfrom_sendto_20_0_body183 = []"
  by (simp_all add: min_mysql_recvfrom_sendto_20_0_body183_def prog_checks open_checks)

lemma min_mysql_recvfrom_sendto_20_0_body184_ok: "body_ok 3 12666 min_mysql_recvfrom_sendto_20_0_body184" "counted min_mysql_recvfrom_sendto_20_0_body184" "calls min_mysql_recvfrom_sendto_20_0_body184 = 10" "opened_in m min_mysql_recvfrom_sendto_20_0_body184 = []"
  by (simp_all add: min_mysql_recvfrom_sendto_20_0_body184_def prog_checks open_checks)

lemma min_mysql_recvfrom_sendto_20_0_body185_ok: "body_ok 3 12666 min_mysql_recvfrom_sendto_20_0_body185" "counted min_mysql_recvfrom_sendto_20_0_body185" "calls min_mysql_recvfrom_sendto_20_0_body185 = 10" "opened_in m min_mysql_recvfrom_sendto_20_0_body185 = []"
  by (simp_all add: min_mysql_recvfrom_sendto_20_0_body185_def prog_checks open_checks)

lemma min_mysql_recvfrom_sendto_20_0_body186_ok: "body_ok 3 12666 min_mysql_recvfrom_sendto_20_0_body186" "counted min_mysql_recvfrom_sendto_20_0_body186" "calls min_mysql_recvfrom_sendto_20_0_body186 = 10" "opened_in m min_mysql_recvfrom_sendto_20_0_body186 = []"
  by (simp_all add: min_mysql_recvfrom_sendto_20_0_body186_def prog_checks open_checks)

lemma min_mysql_recvfrom_sendto_20_0_body187_ok: "body_ok 3 12666 min_mysql_recvfrom_sendto_20_0_body187" "counted min_mysql_recvfrom_sendto_20_0_body187" "calls min_mysql_recvfrom_sendto_20_0_body187 = 10" "opened_in m min_mysql_recvfrom_sendto_20_0_body187 = []"
  by (simp_all add: min_mysql_recvfrom_sendto_20_0_body187_def prog_checks open_checks)

lemma min_mysql_recvfrom_sendto_20_0_body188_ok: "body_ok 3 12666 min_mysql_recvfrom_sendto_20_0_body188" "counted min_mysql_recvfrom_sendto_20_0_body188" "calls min_mysql_recvfrom_sendto_20_0_body188 = 10" "opened_in m min_mysql_recvfrom_sendto_20_0_body188 = []"
  by (simp_all add: min_mysql_recvfrom_sendto_20_0_body188_def prog_checks open_checks)

lemma min_mysql_recvfrom_sendto_20_0_body189_ok: "body_ok 3 12666 min_mysql_recvfrom_sendto_20_0_body189" "counted min_mysql_recvfrom_sendto_20_0_body189" "calls min_mysql_recvfrom_sendto_20_0_body189 = 10" "opened_in m min_mysql_recvfrom_sendto_20_0_body189 = []"
  by (simp_all add: min_mysql_recvfrom_sendto_20_0_body189_def prog_checks open_checks)

lemma min_mysql_recvfrom_sendto_20_0_body190_ok: "body_ok 3 12666 min_mysql_recvfrom_sendto_20_0_body190" "counted min_mysql_recvfrom_sendto_20_0_body190" "calls min_mysql_recvfrom_sendto_20_0_body190 = 10" "opened_in m min_mysql_recvfrom_sendto_20_0_body190 = []"
  by (simp_all add: min_mysql_recvfrom_sendto_20_0_body190_def prog_checks open_checks)

lemma min_mysql_recvfrom_sendto_20_0_body191_ok: "body_ok 3 12666 min_mysql_recvfrom_sendto_20_0_body191" "counted min_mysql_recvfrom_sendto_20_0_body191" "calls min_mysql_recvfrom_sendto_20_0_body191 = 10" "opened_in m min_mysql_recvfrom_sendto_20_0_body191 = []"
  by (simp_all add: min_mysql_recvfrom_sendto_20_0_body191_def prog_checks open_checks)

lemma min_mysql_recvfrom_sendto_20_0_body192_ok: "body_ok 3 12666 min_mysql_recvfrom_sendto_20_0_body192" "counted min_mysql_recvfrom_sendto_20_0_body192" "calls min_mysql_recvfrom_sendto_20_0_body192 = 10" "opened_in m min_mysql_recvfrom_sendto_20_0_body192 = []"
  by (simp_all add: min_mysql_recvfrom_sendto_20_0_body192_def prog_checks open_checks)

lemma min_mysql_recvfrom_sendto_20_0_body193_ok: "body_ok 3 12666 min_mysql_recvfrom_sendto_20_0_body193" "counted min_mysql_recvfrom_sendto_20_0_body193" "calls min_mysql_recvfrom_sendto_20_0_body193 = 10" "opened_in m min_mysql_recvfrom_sendto_20_0_body193 = []"
  by (simp_all add: min_mysql_recvfrom_sendto_20_0_body193_def prog_checks open_checks)

lemma min_mysql_recvfrom_sendto_20_0_body194_ok: "body_ok 3 12666 min_mysql_recvfrom_sendto_20_0_body194" "counted min_mysql_recvfrom_sendto_20_0_body194" "calls min_mysql_recvfrom_sendto_20_0_body194 = 10" "opened_in m min_mysql_recvfrom_sendto_20_0_body194 = []"
  by (simp_all add: min_mysql_recvfrom_sendto_20_0_body194_def prog_checks open_checks)

lemma min_mysql_recvfrom_sendto_20_0_body195_ok: "body_ok 3 12666 min_mysql_recvfrom_sendto_20_0_body195" "counted min_mysql_recvfrom_sendto_20_0_body195" "calls min_mysql_recvfrom_sendto_20_0_body195 = 10" "opened_in m min_mysql_recvfrom_sendto_20_0_body195 = []"
  by (simp_all add: min_mysql_recvfrom_sendto_20_0_body195_def prog_checks open_checks)

lemma min_mysql_recvfrom_sendto_20_0_body196_ok: "body_ok 3 12666 min_mysql_recvfrom_sendto_20_0_body196" "counted min_mysql_recvfrom_sendto_20_0_body196" "calls min_mysql_recvfrom_sendto_20_0_body196 = 10" "opened_in m min_mysql_recvfrom_sendto_20_0_body196 = []"
  by (simp_all add: min_mysql_recvfrom_sendto_20_0_body196_def prog_checks open_checks)

lemma min_mysql_recvfrom_sendto_20_0_body197_ok: "body_ok 3 12666 min_mysql_recvfrom_sendto_20_0_body197" "counted min_mysql_recvfrom_sendto_20_0_body197" "calls min_mysql_recvfrom_sendto_20_0_body197 = 10" "opened_in m min_mysql_recvfrom_sendto_20_0_body197 = []"
  by (simp_all add: min_mysql_recvfrom_sendto_20_0_body197_def prog_checks open_checks)

lemma min_mysql_recvfrom_sendto_20_0_body198_ok: "body_ok 3 12666 min_mysql_recvfrom_sendto_20_0_body198" "counted min_mysql_recvfrom_sendto_20_0_body198" "calls min_mysql_recvfrom_sendto_20_0_body198 = 10" "opened_in m min_mysql_recvfrom_sendto_20_0_body198 = []"
  by (simp_all add: min_mysql_recvfrom_sendto_20_0_body198_def prog_checks open_checks)

lemma min_mysql_recvfrom_sendto_20_0_body199_ok: "body_ok 3 12666 min_mysql_recvfrom_sendto_20_0_body199" "counted min_mysql_recvfrom_sendto_20_0_body199" "calls min_mysql_recvfrom_sendto_20_0_body199 = 10" "opened_in m min_mysql_recvfrom_sendto_20_0_body199 = []"
  by (simp_all add: min_mysql_recvfrom_sendto_20_0_body199_def prog_checks open_checks)

lemma min_mysql_recvfrom_sendto_20_0_body200_ok: "body_ok 3 12666 min_mysql_recvfrom_sendto_20_0_body200" "counted min_mysql_recvfrom_sendto_20_0_body200" "calls min_mysql_recvfrom_sendto_20_0_body200 = 10" "opened_in m min_mysql_recvfrom_sendto_20_0_body200 = []"
  by (simp_all add: min_mysql_recvfrom_sendto_20_0_body200_def prog_checks open_checks)

lemma min_mysql_recvfrom_sendto_20_0_body201_ok: "body_ok 3 12666 min_mysql_recvfrom_sendto_20_0_body201" "counted min_mysql_recvfrom_sendto_20_0_body201" "calls min_mysql_recvfrom_sendto_20_0_body201 = 10" "opened_in m min_mysql_recvfrom_sendto_20_0_body201 = []"
  by (simp_all add: min_mysql_recvfrom_sendto_20_0_body201_def prog_checks open_checks)

lemma min_mysql_recvfrom_sendto_20_0_body202_ok: "body_ok 3 12666 min_mysql_recvfrom_sendto_20_0_body202" "counted min_mysql_recvfrom_sendto_20_0_body202" "calls min_mysql_recvfrom_sendto_20_0_body202 = 10" "opened_in m min_mysql_recvfrom_sendto_20_0_body202 = []"
  by (simp_all add: min_mysql_recvfrom_sendto_20_0_body202_def prog_checks open_checks)

lemma min_mysql_recvfrom_sendto_20_0_body203_ok: "body_ok 3 12666 min_mysql_recvfrom_sendto_20_0_body203" "counted min_mysql_recvfrom_sendto_20_0_body203" "calls min_mysql_recvfrom_sendto_20_0_body203 = 10" "opened_in m min_mysql_recvfrom_sendto_20_0_body203 = []"
  by (simp_all add: min_mysql_recvfrom_sendto_20_0_body203_def prog_checks open_checks)

lemma min_mysql_recvfrom_sendto_20_0_body204_ok: "body_ok 3 12666 min_mysql_recvfrom_sendto_20_0_body204" "counted min_mysql_recvfrom_sendto_20_0_body204" "calls min_mysql_recvfrom_sendto_20_0_body204 = 10" "opened_in m min_mysql_recvfrom_sendto_20_0_body204 = []"
  by (simp_all add: min_mysql_recvfrom_sendto_20_0_body204_def prog_checks open_checks)

lemma min_mysql_recvfrom_sendto_20_0_body205_ok: "body_ok 3 12666 min_mysql_recvfrom_sendto_20_0_body205" "counted min_mysql_recvfrom_sendto_20_0_body205" "calls min_mysql_recvfrom_sendto_20_0_body205 = 10" "opened_in m min_mysql_recvfrom_sendto_20_0_body205 = []"
  by (simp_all add: min_mysql_recvfrom_sendto_20_0_body205_def prog_checks open_checks)

lemma min_mysql_recvfrom_sendto_20_0_body206_ok: "body_ok 3 12666 min_mysql_recvfrom_sendto_20_0_body206" "counted min_mysql_recvfrom_sendto_20_0_body206" "calls min_mysql_recvfrom_sendto_20_0_body206 = 10" "opened_in m min_mysql_recvfrom_sendto_20_0_body206 = []"
  by (simp_all add: min_mysql_recvfrom_sendto_20_0_body206_def prog_checks open_checks)

lemma min_mysql_recvfrom_sendto_20_0_body207_ok: "body_ok 3 12666 min_mysql_recvfrom_sendto_20_0_body207" "counted min_mysql_recvfrom_sendto_20_0_body207" "calls min_mysql_recvfrom_sendto_20_0_body207 = 10" "opened_in m min_mysql_recvfrom_sendto_20_0_body207 = []"
  by (simp_all add: min_mysql_recvfrom_sendto_20_0_body207_def prog_checks open_checks)

lemma min_mysql_recvfrom_sendto_20_0_body208_ok: "body_ok 3 12666 min_mysql_recvfrom_sendto_20_0_body208" "counted min_mysql_recvfrom_sendto_20_0_body208" "calls min_mysql_recvfrom_sendto_20_0_body208 = 10" "opened_in m min_mysql_recvfrom_sendto_20_0_body208 = []"
  by (simp_all add: min_mysql_recvfrom_sendto_20_0_body208_def prog_checks open_checks)

lemma min_mysql_recvfrom_sendto_20_0_body209_ok: "body_ok 3 12666 min_mysql_recvfrom_sendto_20_0_body209" "counted min_mysql_recvfrom_sendto_20_0_body209" "calls min_mysql_recvfrom_sendto_20_0_body209 = 10" "opened_in m min_mysql_recvfrom_sendto_20_0_body209 = []"
  by (simp_all add: min_mysql_recvfrom_sendto_20_0_body209_def prog_checks open_checks)

lemma min_mysql_recvfrom_sendto_20_0_body210_ok: "body_ok 3 12666 min_mysql_recvfrom_sendto_20_0_body210" "counted min_mysql_recvfrom_sendto_20_0_body210" "calls min_mysql_recvfrom_sendto_20_0_body210 = 10" "opened_in m min_mysql_recvfrom_sendto_20_0_body210 = []"
  by (simp_all add: min_mysql_recvfrom_sendto_20_0_body210_def prog_checks open_checks)

lemma min_mysql_recvfrom_sendto_20_0_body211_ok: "body_ok 3 12666 min_mysql_recvfrom_sendto_20_0_body211" "counted min_mysql_recvfrom_sendto_20_0_body211" "calls min_mysql_recvfrom_sendto_20_0_body211 = 10" "opened_in m min_mysql_recvfrom_sendto_20_0_body211 = []"
  by (simp_all add: min_mysql_recvfrom_sendto_20_0_body211_def prog_checks open_checks)

lemma min_mysql_recvfrom_sendto_20_0_body212_ok: "body_ok 3 12666 min_mysql_recvfrom_sendto_20_0_body212" "counted min_mysql_recvfrom_sendto_20_0_body212" "calls min_mysql_recvfrom_sendto_20_0_body212 = 10" "opened_in m min_mysql_recvfrom_sendto_20_0_body212 = []"
  by (simp_all add: min_mysql_recvfrom_sendto_20_0_body212_def prog_checks open_checks)

lemma min_mysql_recvfrom_sendto_20_0_body213_ok: "body_ok 3 12666 min_mysql_recvfrom_sendto_20_0_body213" "counted min_mysql_recvfrom_sendto_20_0_body213" "calls min_mysql_recvfrom_sendto_20_0_body213 = 10" "opened_in m min_mysql_recvfrom_sendto_20_0_body213 = []"
  by (simp_all add: min_mysql_recvfrom_sendto_20_0_body213_def prog_checks open_checks)

lemma min_mysql_recvfrom_sendto_20_0_body214_ok: "body_ok 3 12666 min_mysql_recvfrom_sendto_20_0_body214" "counted min_mysql_recvfrom_sendto_20_0_body214" "calls min_mysql_recvfrom_sendto_20_0_body214 = 10" "opened_in m min_mysql_recvfrom_sendto_20_0_body214 = []"
  by (simp_all add: min_mysql_recvfrom_sendto_20_0_body214_def prog_checks open_checks)

lemma min_mysql_recvfrom_sendto_20_0_body215_ok: "body_ok 3 12666 min_mysql_recvfrom_sendto_20_0_body215" "counted min_mysql_recvfrom_sendto_20_0_body215" "calls min_mysql_recvfrom_sendto_20_0_body215 = 10" "opened_in m min_mysql_recvfrom_sendto_20_0_body215 = []"
  by (simp_all add: min_mysql_recvfrom_sendto_20_0_body215_def prog_checks open_checks)

lemma min_mysql_recvfrom_sendto_20_0_body216_ok: "body_ok 3 12666 min_mysql_recvfrom_sendto_20_0_body216" "counted min_mysql_recvfrom_sendto_20_0_body216" "calls min_mysql_recvfrom_sendto_20_0_body216 = 10" "opened_in m min_mysql_recvfrom_sendto_20_0_body216 = []"
  by (simp_all add: min_mysql_recvfrom_sendto_20_0_body216_def prog_checks open_checks)

lemma min_mysql_recvfrom_sendto_20_0_body217_ok: "body_ok 3 12666 min_mysql_recvfrom_sendto_20_0_body217" "counted min_mysql_recvfrom_sendto_20_0_body217" "calls min_mysql_recvfrom_sendto_20_0_body217 = 10" "opened_in m min_mysql_recvfrom_sendto_20_0_body217 = []"
  by (simp_all add: min_mysql_recvfrom_sendto_20_0_body217_def prog_checks open_checks)

lemma min_mysql_recvfrom_sendto_20_0_body218_ok: "body_ok 3 12666 min_mysql_recvfrom_sendto_20_0_body218" "counted min_mysql_recvfrom_sendto_20_0_body218" "calls min_mysql_recvfrom_sendto_20_0_body218 = 10" "opened_in m min_mysql_recvfrom_sendto_20_0_body218 = []"
  by (simp_all add: min_mysql_recvfrom_sendto_20_0_body218_def prog_checks open_checks)

lemma min_mysql_recvfrom_sendto_20_0_body219_ok: "body_ok 3 12666 min_mysql_recvfrom_sendto_20_0_body219" "counted min_mysql_recvfrom_sendto_20_0_body219" "calls min_mysql_recvfrom_sendto_20_0_body219 = 10" "opened_in m min_mysql_recvfrom_sendto_20_0_body219 = []"
  by (simp_all add: min_mysql_recvfrom_sendto_20_0_body219_def prog_checks open_checks)

lemma min_mysql_recvfrom_sendto_20_0_body220_ok: "body_ok 3 12666 min_mysql_recvfrom_sendto_20_0_body220" "counted min_mysql_recvfrom_sendto_20_0_body220" "calls min_mysql_recvfrom_sendto_20_0_body220 = 10" "opened_in m min_mysql_recvfrom_sendto_20_0_body220 = []"
  by (simp_all add: min_mysql_recvfrom_sendto_20_0_body220_def prog_checks open_checks)

lemma min_mysql_recvfrom_sendto_20_0_body221_ok: "body_ok 3 12666 min_mysql_recvfrom_sendto_20_0_body221" "counted min_mysql_recvfrom_sendto_20_0_body221" "calls min_mysql_recvfrom_sendto_20_0_body221 = 10" "opened_in m min_mysql_recvfrom_sendto_20_0_body221 = []"
  by (simp_all add: min_mysql_recvfrom_sendto_20_0_body221_def prog_checks open_checks)

lemma min_mysql_recvfrom_sendto_20_0_body222_ok: "body_ok 3 12666 min_mysql_recvfrom_sendto_20_0_body222" "counted min_mysql_recvfrom_sendto_20_0_body222" "calls min_mysql_recvfrom_sendto_20_0_body222 = 10" "opened_in m min_mysql_recvfrom_sendto_20_0_body222 = []"
  by (simp_all add: min_mysql_recvfrom_sendto_20_0_body222_def prog_checks open_checks)

lemma min_mysql_recvfrom_sendto_20_0_body223_ok: "body_ok 3 12666 min_mysql_recvfrom_sendto_20_0_body223" "counted min_mysql_recvfrom_sendto_20_0_body223" "calls min_mysql_recvfrom_sendto_20_0_body223 = 10" "opened_in m min_mysql_recvfrom_sendto_20_0_body223 = []"
  by (simp_all add: min_mysql_recvfrom_sendto_20_0_body223_def prog_checks open_checks)

lemma min_mysql_recvfrom_sendto_20_0_body224_ok: "body_ok 3 12666 min_mysql_recvfrom_sendto_20_0_body224" "counted min_mysql_recvfrom_sendto_20_0_body224" "calls min_mysql_recvfrom_sendto_20_0_body224 = 10" "opened_in m min_mysql_recvfrom_sendto_20_0_body224 = []"
  by (simp_all add: min_mysql_recvfrom_sendto_20_0_body224_def prog_checks open_checks)

lemma min_mysql_recvfrom_sendto_20_0_body225_ok: "body_ok 3 12666 min_mysql_recvfrom_sendto_20_0_body225" "counted min_mysql_recvfrom_sendto_20_0_body225" "calls min_mysql_recvfrom_sendto_20_0_body225 = 10" "opened_in m min_mysql_recvfrom_sendto_20_0_body225 = []"
  by (simp_all add: min_mysql_recvfrom_sendto_20_0_body225_def prog_checks open_checks)

lemma min_mysql_recvfrom_sendto_20_0_body226_ok: "body_ok 3 12666 min_mysql_recvfrom_sendto_20_0_body226" "counted min_mysql_recvfrom_sendto_20_0_body226" "calls min_mysql_recvfrom_sendto_20_0_body226 = 10" "opened_in m min_mysql_recvfrom_sendto_20_0_body226 = []"
  by (simp_all add: min_mysql_recvfrom_sendto_20_0_body226_def prog_checks open_checks)

lemma min_mysql_recvfrom_sendto_20_0_body227_ok: "body_ok 3 12666 min_mysql_recvfrom_sendto_20_0_body227" "counted min_mysql_recvfrom_sendto_20_0_body227" "calls min_mysql_recvfrom_sendto_20_0_body227 = 10" "opened_in m min_mysql_recvfrom_sendto_20_0_body227 = []"
  by (simp_all add: min_mysql_recvfrom_sendto_20_0_body227_def prog_checks open_checks)

lemma min_mysql_recvfrom_sendto_20_0_body228_ok: "body_ok 3 12666 min_mysql_recvfrom_sendto_20_0_body228" "counted min_mysql_recvfrom_sendto_20_0_body228" "calls min_mysql_recvfrom_sendto_20_0_body228 = 10" "opened_in m min_mysql_recvfrom_sendto_20_0_body228 = []"
  by (simp_all add: min_mysql_recvfrom_sendto_20_0_body228_def prog_checks open_checks)

lemma min_mysql_recvfrom_sendto_20_0_body229_ok: "body_ok 3 12666 min_mysql_recvfrom_sendto_20_0_body229" "counted min_mysql_recvfrom_sendto_20_0_body229" "calls min_mysql_recvfrom_sendto_20_0_body229 = 10" "opened_in m min_mysql_recvfrom_sendto_20_0_body229 = []"
  by (simp_all add: min_mysql_recvfrom_sendto_20_0_body229_def prog_checks open_checks)

lemma min_mysql_recvfrom_sendto_20_0_body230_ok: "body_ok 3 12666 min_mysql_recvfrom_sendto_20_0_body230" "counted min_mysql_recvfrom_sendto_20_0_body230" "calls min_mysql_recvfrom_sendto_20_0_body230 = 10" "opened_in m min_mysql_recvfrom_sendto_20_0_body230 = []"
  by (simp_all add: min_mysql_recvfrom_sendto_20_0_body230_def prog_checks open_checks)

lemma min_mysql_recvfrom_sendto_20_0_body231_ok: "body_ok 3 12666 min_mysql_recvfrom_sendto_20_0_body231" "counted min_mysql_recvfrom_sendto_20_0_body231" "calls min_mysql_recvfrom_sendto_20_0_body231 = 10" "opened_in m min_mysql_recvfrom_sendto_20_0_body231 = []"
  by (simp_all add: min_mysql_recvfrom_sendto_20_0_body231_def prog_checks open_checks)

lemma min_mysql_recvfrom_sendto_20_0_body232_ok: "body_ok 3 12666 min_mysql_recvfrom_sendto_20_0_body232" "counted min_mysql_recvfrom_sendto_20_0_body232" "calls min_mysql_recvfrom_sendto_20_0_body232 = 10" "opened_in m min_mysql_recvfrom_sendto_20_0_body232 = []"
  by (simp_all add: min_mysql_recvfrom_sendto_20_0_body232_def prog_checks open_checks)

lemma min_mysql_recvfrom_sendto_20_0_body233_ok: "body_ok 3 12666 min_mysql_recvfrom_sendto_20_0_body233" "counted min_mysql_recvfrom_sendto_20_0_body233" "calls min_mysql_recvfrom_sendto_20_0_body233 = 10" "opened_in m min_mysql_recvfrom_sendto_20_0_body233 = []"
  by (simp_all add: min_mysql_recvfrom_sendto_20_0_body233_def prog_checks open_checks)

lemma min_mysql_recvfrom_sendto_20_0_body234_ok: "body_ok 3 12666 min_mysql_recvfrom_sendto_20_0_body234" "counted min_mysql_recvfrom_sendto_20_0_body234" "calls min_mysql_recvfrom_sendto_20_0_body234 = 10" "opened_in m min_mysql_recvfrom_sendto_20_0_body234 = []"
  by (simp_all add: min_mysql_recvfrom_sendto_20_0_body234_def prog_checks open_checks)

lemma min_mysql_recvfrom_sendto_20_0_body235_ok: "body_ok 3 12666 min_mysql_recvfrom_sendto_20_0_body235" "counted min_mysql_recvfrom_sendto_20_0_body235" "calls min_mysql_recvfrom_sendto_20_0_body235 = 10" "opened_in m min_mysql_recvfrom_sendto_20_0_body235 = []"
  by (simp_all add: min_mysql_recvfrom_sendto_20_0_body235_def prog_checks open_checks)

lemma min_mysql_recvfrom_sendto_20_0_body236_ok: "body_ok 3 12666 min_mysql_recvfrom_sendto_20_0_body236" "counted min_mysql_recvfrom_sendto_20_0_body236" "calls min_mysql_recvfrom_sendto_20_0_body236 = 10" "opened_in m min_mysql_recvfrom_sendto_20_0_body236 = []"
  by (simp_all add: min_mysql_recvfrom_sendto_20_0_body236_def prog_checks open_checks)

lemma min_mysql_recvfrom_sendto_20_0_body237_ok: "body_ok 3 12666 min_mysql_recvfrom_sendto_20_0_body237" "counted min_mysql_recvfrom_sendto_20_0_body237" "calls min_mysql_recvfrom_sendto_20_0_body237 = 10" "opened_in m min_mysql_recvfrom_sendto_20_0_body237 = []"
  by (simp_all add: min_mysql_recvfrom_sendto_20_0_body237_def prog_checks open_checks)

lemma min_mysql_recvfrom_sendto_20_0_body238_ok: "body_ok 3 12666 min_mysql_recvfrom_sendto_20_0_body238" "counted min_mysql_recvfrom_sendto_20_0_body238" "calls min_mysql_recvfrom_sendto_20_0_body238 = 10" "opened_in m min_mysql_recvfrom_sendto_20_0_body238 = []"
  by (simp_all add: min_mysql_recvfrom_sendto_20_0_body238_def prog_checks open_checks)

lemma min_mysql_recvfrom_sendto_20_0_body239_ok: "body_ok 3 12666 min_mysql_recvfrom_sendto_20_0_body239" "counted min_mysql_recvfrom_sendto_20_0_body239" "calls min_mysql_recvfrom_sendto_20_0_body239 = 10" "opened_in m min_mysql_recvfrom_sendto_20_0_body239 = []"
  by (simp_all add: min_mysql_recvfrom_sendto_20_0_body239_def prog_checks open_checks)

lemma min_mysql_recvfrom_sendto_20_0_body240_ok: "body_ok 3 12666 min_mysql_recvfrom_sendto_20_0_body240" "counted min_mysql_recvfrom_sendto_20_0_body240" "calls min_mysql_recvfrom_sendto_20_0_body240 = 10" "opened_in m min_mysql_recvfrom_sendto_20_0_body240 = []"
  by (simp_all add: min_mysql_recvfrom_sendto_20_0_body240_def prog_checks open_checks)

end
