(* ===== verification/CSB_Progs_Net_c_p3.thy ===== *)
theory CSB_Progs_Net_c_p3
  imports CSB_Syz_Files
begin

text \<open>
  Statements of min\_mysql\_recvfrom\_sendto\_20\_0 (bench/targets/mysql\_v2), in the
  order of the file; the program is put together in CSB\_Progs\_Net\_c.
\<close>

definition min_mysql_recvfrom_sendto_20_0_body241 :: "stmt list" where
  "min_mysql_recvfrom_sendto_20_0_body241 = [
    Syscall NR_recvfrom [Reg 2, Ptr 0x20de0dc0, Imm 4, Imm 0x40, Imm 0, Imm 0], Count,
    Syscall NR_recvfrom [Reg 2, Ptr 0x20de3980, Imm 0x15, Imm 0x40, Imm 0, Imm 0], Count,
    Syscall NR_sendto [Reg 2, Write_buf, Imm 0xbe, Imm 0x40, Imm 0, Imm 0], Count,
    Syscall NR_recvfrom [Reg 2, Ptr 0x20de7980, Imm 4, Imm 0x40, Imm 0, Imm 0], Count,
    Syscall NR_recvfrom [Reg 2, Ptr 0x20dec1c0, Imm 0x15, Imm 0x40, Imm 0, Imm 0], Count,
    Syscall NR_sendto [Reg 2, Write_buf, Imm 0xbe, Imm 0x40, Imm 0, Imm 0], Count,
    Syscall NR_recvfrom [Reg 2, Ptr 0x20ded900, Imm 4, Imm 0x40, Imm 0, Imm 0], Count,
    Syscall NR_recvfrom [Reg 2, Ptr 0x20dee680, Imm 0x15, Imm 0x40, Imm 0, Imm 0], Count,
    Syscall NR_sendto [Reg 2, Write_buf, Imm 0xbe, Imm 0x40, Imm 0, Imm 0], Count,
    Syscall NR_recvfrom [Reg 2, Ptr 0x20df02c0, Imm 4, Imm 0x40, Imm 0, Imm 0], Count]"

definition min_mysql_recvfrom_sendto_20_0_body242 :: "stmt list" where
  "min_mysql_recvfrom_sendto_20_0_body242 = [
    Syscall NR_recvfrom [Reg 2, Ptr 0x20df1080, Imm 0x15, Imm 0x40, Imm 0, Imm 0], Count,
    Syscall NR_sendto [Reg 2, Write_buf, Imm 0xbe, Imm 0x40, Imm 0, Imm 0], Count,
    Syscall NR_recvfrom [Reg 2, Ptr 0x20df3e40, Imm 4, Imm 0x40, Imm 0, Imm 0], Count,
    Syscall NR_recvfrom [Reg 2, Ptr 0x20df4840, Imm 0x15, Imm 0x40, Imm 0, Imm 0], Count,
    Syscall NR_sendto [Reg 2, Write_buf, Imm 0xbe, Imm 0x40, Imm 0, Imm 0], Count,
    Syscall NR_recvfrom [Reg 2, Ptr 0x20df58c0, Imm 4, Imm 0x40, Imm 0, Imm 0], Count,
    Syscall NR_recvfrom [Reg 2, Ptr 0x20df61c0, Imm 0x15, Imm 0x40, Imm 0, Imm 0], Count,
    Syscall NR_sendto [Reg 2, Write_buf, Imm 0xbe, Imm 0x40, Imm 0, Imm 0], Count,
    Syscall NR_recvfrom [Reg 2, Ptr 0x20df6f00, Imm 4, Imm 0x40, Imm 0, Imm 0], Count,
    Syscall NR_recvfrom [Reg 2, Ptr 0x20e179c0, Imm 0x15, Imm 0x40, Imm 0, Imm 0], Count]"

definition min_mysql_recvfrom_sendto_20_0_body243 :: "stmt list" where
  "min_mysql_recvfrom_sendto_20_0_body243 = [
    Syscall NR_sendto [Reg 2, Write_buf, Imm 0xbe, Imm 0x40, Imm 0, Imm 0], Count,
    Syscall NR_recvfrom [Reg 2, Ptr 0x20e18980, Imm 4, Imm 0x40, Imm 0, Imm 0], Count,
    Syscall NR_recvfrom [Reg 2, Ptr 0x20e19340, Imm 0x15, Imm 0x40, Imm 0, Imm 0], Count,
    Syscall NR_sendto [Reg 2, Write_buf, Imm 0xbe, Imm 0x40, Imm 0, Imm 0], Count,
    Syscall NR_recvfrom [Reg 2, Ptr 0x20e19e40, Imm 4, Imm 0x40, Imm 0, Imm 0], Count,
    Syscall NR_recvfrom [Reg 2, Ptr 0x20e1a700, Imm 0x15, Imm 0x40, Imm 0, Imm 0], Count,
    Syscall NR_sendto [Reg 2, Write_buf, Imm 0xbe, Imm 0x40, Imm 0, Imm 0], Count,
    Syscall NR_recvfrom [Reg 2, Ptr 0x20e1b100, Imm 4, Imm 0x40, Imm 0, Imm 0], Count,
    Syscall NR_recvfrom [Reg 2, Ptr 0x20e24b40, Imm 0x1d, Imm 0x40, Imm 0, Imm 0], Count,
    Syscall NR_sendto [Reg 2, Write_buf, Imm 0x317a, Imm 0x40, Imm 0, Imm 0], Count]"

definition min_mysql_recvfrom_sendto_20_0_body244 :: "stmt list" where
  "min_mysql_recvfrom_sendto_20_0_body244 = [
    Syscall NR_recvfrom [Reg 2, Ptr 0x20e30200, Imm 4, Imm 0x40, Imm 0, Imm 0], Count,
    Syscall NR_recvfrom [Reg 2, Ptr 0x20e3a200, Imm 0x1d, Imm 0x40, Imm 0, Imm 0], Count,
    Syscall NR_sendto [Reg 2, Write_buf, Imm 0x3c, Imm 0x40, Imm 0, Imm 0], Count,
    Syscall NR_recvfrom [Reg 2, Ptr 0x20e44b80, Imm 4, Imm 0x40, Imm 0, Imm 0], Count,
    Syscall NR_recvfrom [Reg 2, Ptr 0x20e44e40, Imm 0x1d, Imm 0x40, Imm 0, Imm 0], Count,
    Syscall NR_sendto [Reg 2, Write_buf, Imm 0x317a, Imm 0x40, Imm 0, Imm 0], Count,
    Syscall NR_recvfrom [Reg 2, Ptr 0x20fdb140, Imm 4, Imm 0x40, Imm 0, Imm 0], Count,
    Syscall NR_recvfrom [Reg 2, Ptr 0x20fe8880, Imm 0x1d, Imm 0x40, Imm 0, Imm 0], Count,
    Syscall NR_sendto [Reg 2, Write_buf, Imm 0x3178, Imm 0x40, Imm 0, Imm 0], Count,
    Syscall NR_recvfrom [Reg 2, Ptr 0x20149cc0, Imm 4, Imm 0x40, Imm 0, Imm 0], Count]"

definition min_mysql_recvfrom_sendto_20_0_body245 :: "stmt list" where
  "min_mysql_recvfrom_sendto_20_0_body245 = [
    Syscall NR_recvfrom [Reg 2, Ptr 0x20155340, Imm 0x15, Imm 0x40, Imm 0, Imm 0], Count,
    Syscall NR_sendto [Reg 2, Write_buf, Imm 0x34, Imm 0x40, Imm 0, Imm 0], Count,
    Syscall NR_recvfrom [Reg 2, Ptr 0x2015dd80, Imm 4, Imm 0x40, Imm 0, Imm 0], Count,
    Syscall NR_recvfrom [Reg 2, Ptr 0x201612c0, Imm 0x8d, Imm 0x40, Imm 0, Imm 0], Count,
    Syscall NR_sendto [Reg 2, Write_buf, Imm 0x34, Imm 0x40, Imm 0, Imm 0], Count,
    Syscall NR_recvfrom [Reg 2, Ptr 0x20165900, Imm 4, Imm 0x40, Imm 0, Imm 0], Count,
    Syscall NR_recvfrom [Reg 2, Ptr 0x20165bc0, Imm 0x15, Imm 0x40, Imm 0, Imm 0], Count,
    Syscall NR_sendto [Reg 2, Write_buf, Imm 0xb, Imm 0x40, Imm 0, Imm 0], Count,
    Syscall NR_recvfrom [Reg 2, Ptr 0x20166b80, Imm 4, Imm 0x40, Imm 0, Imm 0], Count,
    Syscall NR_recvfrom [Reg 2, Ptr 0x20166f80, Imm 0xd1, Imm 0x40, Imm 0, Imm 0], Count]"

definition min_mysql_recvfrom_sendto_20_0_body246 :: "stmt list" where
  "min_mysql_recvfrom_sendto_20_0_body246 = [
    Syscall NR_sendto [Reg 2, Write_buf, Imm 0xd, Imm 0x40, Imm 0, Imm 0], Count,
    Syscall NR_recvfrom [Reg 2, Ptr 0x20168080, Imm 4, Imm 0x40, Imm 0, Imm 0], Count,
    Syscall NR_recvfrom [Reg 2, Ptr 0x20168440, Imm 0xb, Imm 0x40, Imm 0, Imm 0], Count,
    Syscall NR_sendto [Reg 2, Write_buf, Imm 0x18, Imm 0x40, Imm 0, Imm 0], Count,
    Syscall NR_recvfrom [Reg 2, Ptr 0x205a8040, Imm 4, Imm 0x40, Imm 0, Imm 0], Count,
    Syscall NR_recvfrom [Reg 2, Ptr 0x205aec40, Imm 8, Imm 0x40, Imm 0, Imm 0], Count,
    Syscall NR_sendto [Reg 2, Write_buf, Imm 0x18, Imm 0x40, Imm 0, Imm 0], Count,
    Syscall NR_recvfrom [Reg 2, Ptr 0x205ba000, Imm 4, Imm 0x40, Imm 0, Imm 0], Count,
    Syscall NR_recvfrom [Reg 2, Ptr 0x205c4180, Imm 0x15, Imm 0x40, Imm 0, Imm 0], Count,
    Syscall NR_sendto [Reg 2, Write_buf, Imm 0xc0, Imm 0x40, Imm 0, Imm 0], Count]"

definition min_mysql_recvfrom_sendto_20_0_body247 :: "stmt list" where
  "min_mysql_recvfrom_sendto_20_0_body247 = [
    Syscall NR_recvfrom [Reg 2, Ptr 0x205c7500, Imm 4, Imm 0x40, Imm 0, Imm 0], Count,
    Syscall NR_recvfrom [Reg 2, Ptr 0x205cadc0, Imm 0x15, Imm 0x40, Imm 0, Imm 0], Count,
    Syscall NR_sendto [Reg 2, Write_buf, Imm 0xc0, Imm 0x40, Imm 0, Imm 0], Count,
    Syscall NR_recvfrom [Reg 2, Ptr 0x205cd680, Imm 4, Imm 0x40, Imm 0, Imm 0], Count,
    Syscall NR_recvfrom [Reg 2, Ptr 0x205cdf80, Imm 0x15, Imm 0x40, Imm 0, Imm 0], Count,
    Syscall NR_sendto [Reg 2, Write_buf, Imm 0xc0, Imm 0x40, Imm 0, Imm 0], Count,
    Syscall NR_recvfrom [Reg 2, Ptr 0x205e1900, Imm 4, Imm 0x40, Imm 0, Imm 0], Count,
    Syscall NR_recvfrom [Reg 2, Ptr 0x205e9f00, Imm 0x15, Imm 0x40, Imm 0, Imm 0], Count,
    Syscall NR_sendto [Reg 2, Write_buf, Imm 0xc0, Imm 0x40, Imm 0, Imm 0], Count,
    Syscall NR_recvfrom [Reg 2, Ptr 0x20604300, Imm 4, Imm 0x40, Imm 0, Imm 0], Count]"

definition min_mysql_recvfrom_sendto_20_0_body248 :: "stmt list" where
  "min_mysql_recvfrom_sendto_20_0_body248 = [
    Syscall NR_recvfrom [Reg 2, Ptr 0x20608640, Imm 0x15, Imm 0x40, Imm 0, Imm 0], Count,
    Syscall NR_sendto [Reg 2, Write_buf, Imm 0xc0, Imm 0x40, Imm 0, Imm 0], Count,
    Syscall NR_recvfrom [Reg 2, Ptr 0x20617ac0, Imm 4, Imm 0x40, Imm 0, Imm 0], Count,
    Syscall NR_recvfrom [Reg 2, Ptr 0x2061c300, Imm 0x15, Imm 0x40, Imm 0, Imm 0], Count,
    Syscall NR_sendto [Reg 2, Write_buf, Imm 0xc0, Imm 0x40, Imm 0, Imm 0], Count,
    Syscall NR_recvfrom [Reg 2, Ptr 0x20622400, Imm 4, Imm 0x40, Imm 0, Imm 0], Count,
    Syscall NR_recvfrom [Reg 2, Ptr 0x2062a300, Imm 0x15, Imm 0x40, Imm 0, Imm 0], Count,
    Syscall NR_sendto [Reg 2, Write_buf, Imm 0xc0, Imm 0x40, Imm 0, Imm 0], Count,
    Syscall NR_recvfrom [Reg 2, Ptr 0x206548c0, Imm 4, Imm 0x40, Imm 0, Imm 0], Count,
    Syscall NR_recvfrom [Reg 2, Ptr 0x20654f00, Imm 0x15, Imm 0x40, Imm 0, Imm 0], Count]"

definition min_mysql_recvfrom_sendto_20_0_body249 :: "stmt list" where
  "min_mysql_recvfrom_sendto_20_0_body249 = [
    Syscall NR_sendto [Reg 2, Write_buf, Imm 0xc0, Imm 0x40, Imm 0, Imm 0], Count,
    Syscall NR_recvfrom [Reg 2, Ptr 0x2065f040, Imm 4, Imm 0x40, Imm 0, Imm 0], Count,
    Syscall NR_recvfrom [Reg 2, Ptr 0x20665980, Imm 0x15, Imm 0x40, Imm 0, Imm 0], Count,
    Syscall NR_sendto [Reg 2, Write_buf, Imm 0xc0, Imm 0x40, Imm 0, Imm 0], Count,
    Syscall NR_recvfrom [Reg 2, Ptr 0x206695c0, Imm 4, Imm 0x40, Imm 0, Imm 0], Count,
    Syscall NR_recvfrom [Reg 2, Ptr 0x20669c00, Imm 0x15, Imm 0x40, Imm 0, Imm 0], Count,
    Syscall NR_sendto [Reg 2, Write_buf, Imm 0xc0, Imm 0x40, Imm 0, Imm 0], Count,
    Syscall NR_recvfrom [Reg 2, Ptr 0x20688d40, Imm 4, Imm 0x40, Imm 0, Imm 0], Count,
    Syscall NR_recvfrom [Reg 2, Ptr 0x2069a4c0, Imm 0x1d, Imm 0x40, Imm 0, Imm 0], Count,
    Syscall NR_sendto [Reg 2, Write_buf, Imm 0x317a, Imm 0x40, Imm 0, Imm 0], Count]"

definition min_mysql_recvfrom_sendto_20_0_body250 :: "stmt list" where
  "min_mysql_recvfrom_sendto_20_0_body250 = [
    Syscall NR_recvfrom [Reg 2, Ptr 0x206baa40, Imm 4, Imm 0x40, Imm 0, Imm 0], Count,
    Syscall NR_recvfrom [Reg 2, Ptr 0x206c2180, Imm 0x1d, Imm 0x40, Imm 0, Imm 0], Count,
    Syscall NR_sendto [Reg 2, Write_buf, Imm 0x3c, Imm 0x40, Imm 0, Imm 0], Count,
    Syscall NR_recvfrom [Reg 2, Ptr 0x206c9bc0, Imm 4, Imm 0x40, Imm 0, Imm 0], Count,
    Syscall NR_recvfrom [Reg 2, Ptr 0x206ca240, Imm 0x1d, Imm 0x40, Imm 0, Imm 0], Count,
    Syscall NR_sendto [Reg 2, Write_buf, Imm 0x3178, Imm 0x40, Imm 0, Imm 0], Count,
    Syscall NR_recvfrom [Reg 2, Ptr 0x20844bc0, Imm 4, Imm 0x40, Imm 0, Imm 0], Count,
    Syscall NR_recvfrom [Reg 2, Ptr 0x208481c0, Imm 0x1d, Imm 0x40, Imm 0, Imm 0], Count,
    Syscall NR_sendto [Reg 2, Write_buf, Imm 0x3178, Imm 0x40, Imm 0, Imm 0], Count,
    Syscall NR_recvfrom [Reg 2, Ptr 0x209202c0, Imm 4, Imm 0x40, Imm 0, Imm 0], Count]"

definition min_mysql_recvfrom_sendto_20_0_body251 :: "stmt list" where
  "min_mysql_recvfrom_sendto_20_0_body251 = [
    Syscall NR_recvfrom [Reg 2, Ptr 0x209299c0, Imm 0x15, Imm 0x40, Imm 0, Imm 0], Count,
    Syscall NR_sendto [Reg 2, Write_buf, Imm 0x34, Imm 0x40, Imm 0, Imm 0], Count,
    Syscall NR_recvfrom [Reg 2, Ptr 0x20933b80, Imm 4, Imm 0x40, Imm 0, Imm 0], Count,
    Syscall NR_recvfrom [Reg 2, Ptr 0x20933fc0, Imm 0x8d, Imm 0x40, Imm 0, Imm 0], Count,
    Syscall NR_sendto [Reg 2, Write_buf, Imm 0x34, Imm 0x40, Imm 0, Imm 0], Count,
    Syscall NR_recvfrom [Reg 2, Ptr 0x20935280, Imm 4, Imm 0x40, Imm 0, Imm 0], Count,
    Syscall NR_recvfrom [Reg 2, Ptr 0x20935940, Imm 0x15, Imm 0x40, Imm 0, Imm 0], Count,
    Syscall NR_sendto [Reg 2, Write_buf, Imm 0xb, Imm 0x40, Imm 0, Imm 0], Count,
    Syscall NR_recvfrom [Reg 2, Ptr 0x20938880, Imm 4, Imm 0x40, Imm 0, Imm 0], Count,
    Syscall NR_recvfrom [Reg 2, Ptr 0x20939400, Imm 0xd1, Imm 0x40, Imm 0, Imm 0], Count]"

definition min_mysql_recvfrom_sendto_20_0_body252 :: "stmt list" where
  "min_mysql_recvfrom_sendto_20_0_body252 = [
    Syscall NR_sendto [Reg 2, Write_buf, Imm 0xd, Imm 0x40, Imm 0, Imm 0], Count,
    Syscall NR_recvfrom [Reg 2, Ptr 0x20947480, Imm 4, Imm 0x40, Imm 0, Imm 0], Count,
    Syscall NR_recvfrom [Reg 2, Ptr 0x20949540, Imm 0xb, Imm 0x40, Imm 0, Imm 0], Count,
    Syscall NR_sendto [Reg 2, Write_buf, Imm 0x18, Imm 0x40, Imm 0, Imm 0], Count,
    Syscall NR_recvfrom [Reg 2, Ptr 0x20cb1480, Imm 4, Imm 0x40, Imm 0, Imm 0], Count,
    Syscall NR_recvfrom [Reg 2, Ptr 0x20cd0280, Imm 8, Imm 0x40, Imm 0, Imm 0], Count,
    Syscall NR_sendto [Reg 2, Write_buf, Imm 0x18, Imm 0x40, Imm 0, Imm 0], Count,
    Syscall NR_recvfrom [Reg 2, Ptr 0x20ce8080, Imm 4, Imm 0x40, Imm 0, Imm 0], Count,
    Syscall NR_recvfrom [Reg 2, Ptr 0x20cf5d00, Imm 0x15, Imm 0x40, Imm 0, Imm 0], Count,
    Syscall NR_sendto [Reg 2, Write_buf, Imm 0xc0, Imm 0x40, Imm 0, Imm 0], Count]"

definition min_mysql_recvfrom_sendto_20_0_body253 :: "stmt list" where
  "min_mysql_recvfrom_sendto_20_0_body253 = [
    Syscall NR_recvfrom [Reg 2, Ptr 0x20d13d00, Imm 4, Imm 0x40, Imm 0, Imm 0], Count,
    Syscall NR_recvfrom [Reg 2, Ptr 0x20d1e940, Imm 0x15, Imm 0x40, Imm 0, Imm 0], Count,
    Syscall NR_sendto [Reg 2, Write_buf, Imm 0xc0, Imm 0x40, Imm 0, Imm 0], Count,
    Syscall NR_recvfrom [Reg 2, Ptr 0x20d3b680, Imm 4, Imm 0x40, Imm 0, Imm 0], Count,
    Syscall NR_recvfrom [Reg 2, Ptr 0x20d6b840, Imm 0x15, Imm 0x40, Imm 0, Imm 0], Count,
    Syscall NR_sendto [Reg 2, Write_buf, Imm 0xc0, Imm 0x40, Imm 0, Imm 0], Count,
    Syscall NR_recvfrom [Reg 2, Ptr 0x20d79300, Imm 4, Imm 0x40, Imm 0, Imm 0], Count,
    Syscall NR_recvfrom [Reg 2, Ptr 0x20d89180, Imm 0x15, Imm 0x40, Imm 0, Imm 0], Count,
    Syscall NR_sendto [Reg 2, Write_buf, Imm 0xc0, Imm 0x40, Imm 0, Imm 0], Count,
    Syscall NR_recvfrom [Reg 2, Ptr 0x20d96180, Imm 4, Imm 0x40, Imm 0, Imm 0], Count]"

definition min_mysql_recvfrom_sendto_20_0_body254 :: "stmt list" where
  "min_mysql_recvfrom_sendto_20_0_body254 = [
    Syscall NR_recvfrom [Reg 2, Ptr 0x20dacfc0, Imm 0x15, Imm 0x40, Imm 0, Imm 0], Count,
    Syscall NR_sendto [Reg 2, Write_buf, Imm 0xc0, Imm 0x40, Imm 0, Imm 0], Count,
    Syscall NR_recvfrom [Reg 2, Ptr 0x20dde2c0, Imm 4, Imm 0x40, Imm 0, Imm 0], Count,
    Syscall NR_recvfrom [Reg 2, Ptr 0x20defe00, Imm 0x15, Imm 0x40, Imm 0, Imm 0], Count,
    Syscall NR_sendto [Reg 2, Write_buf, Imm 0xc0, Imm 0x40, Imm 0, Imm 0], Count,
    Syscall NR_recvfrom [Reg 2, Ptr 0x20e036c0, Imm 4, Imm 0x40, Imm 0, Imm 0], Count,
    Syscall NR_recvfrom [Reg 2, Ptr 0x20e06b00, Imm 0x15, Imm 0x40, Imm 0, Imm 0], Count,
    Syscall NR_sendto [Reg 2, Write_buf, Imm 0xc0, Imm 0x40, Imm 0, Imm 0], Count,
    Syscall NR_recvfrom [Reg 2, Ptr 0x20e0b240, Imm 4, Imm 0x40, Imm 0, Imm 0], Count,
    Syscall NR_recvfrom [Reg 2, Ptr 0x20e0ee40, Imm 0x15, Imm 0x40, Imm 0, Imm 0], Count]"

definition min_mysql_recvfrom_sendto_20_0_body255 :: "stmt list" where
  "min_mysql_recvfrom_sendto_20_0_body255 = [
    Syscall NR_sendto [Reg 2, Write_buf, Imm 0xc0, Imm 0x40, Imm 0, Imm 0], Count,
    Syscall NR_recvfrom [Reg 2, Ptr 0x20e1e140, Imm 4, Imm 0x40, Imm 0, Imm 0], Count,
    Syscall NR_recvfrom [Reg 2, Ptr 0x20e2b080, Imm 0x15, Imm 0x40, Imm 0, Imm 0], Count,
    Syscall NR_sendto [Reg 2, Write_buf, Imm 0xc0, Imm 0x40, Imm 0, Imm 0], Count,
    Syscall NR_recvfrom [Reg 2, Ptr 0x20e3b800, Imm 4, Imm 0x40, Imm 0, Imm 0], Count,
    Syscall NR_recvfrom [Reg 2, Ptr 0x20e45080, Imm 0x15, Imm 0x40, Imm 0, Imm 0], Count,
    Syscall NR_sendto [Reg 2, Write_buf, Imm 0xc0, Imm 0x40, Imm 0, Imm 0], Count,
    Syscall NR_recvfrom [Reg 2, Ptr 0x20e4ef40, Imm 4, Imm 0x40, Imm 0, Imm 0], Count,
    Syscall NR_recvfrom [Reg 2, Ptr 0x20e55640, Imm 0x1d, Imm 0x40, Imm 0, Imm 0], Count,
    Syscall NR_sendto [Reg 2, Write_buf, Imm 0x317a, Imm 0x40, Imm 0, Imm 0], Count]"

definition min_mysql_recvfrom_sendto_20_0_body256 :: "stmt list" where
  "min_mysql_recvfrom_sendto_20_0_body256 = [
    Syscall NR_recvfrom [Reg 2, Ptr 0x20e6a600, Imm 4, Imm 0x40, Imm 0, Imm 0], Count,
    Syscall NR_recvfrom [Reg 2, Ptr 0x20e7dd80, Imm 0x1d, Imm 0x40, Imm 0, Imm 0], Count,
    Syscall NR_sendto [Reg 2, Write_buf, Imm 0x3c, Imm 0x40, Imm 0, Imm 0], Count,
    Syscall NR_recvfrom [Reg 2, Ptr 0x20eaf940, Imm 4, Imm 0x40, Imm 0, Imm 0], Count,
    Syscall NR_recvfrom [Reg 2, Ptr 0x20ebe080, Imm 0x1d, Imm 0x40, Imm 0, Imm 0], Count,
    Syscall NR_sendto [Reg 2, Write_buf, Imm 0x3178, Imm 0x40, Imm 0, Imm 0], Count,
    Syscall NR_recvfrom [Reg 2, Ptr 0x2000eec0, Imm 4, Imm 0x40, Imm 0, Imm 0], Count,
    Syscall NR_recvfrom [Reg 2, Ptr 0x200158c0, Imm 0x1d, Imm 0x40, Imm 0, Imm 0], Count,
    Syscall NR_sendto [Reg 2, Write_buf, Imm 0x317a, Imm 0x40, Imm 0, Imm 0], Count,
    Syscall NR_recvfrom [Reg 2, Ptr 0x2011fe80, Imm 4, Imm 0x40, Imm 0, Imm 0], Count]"

definition min_mysql_recvfrom_sendto_20_0_body257 :: "stmt list" where
  "min_mysql_recvfrom_sendto_20_0_body257 = [
    Syscall NR_recvfrom [Reg 2, Ptr 0x20123540, Imm 0x18, Imm 0x40, Imm 0, Imm 0], Count,
    Syscall NR_sendto [Reg 2, Write_buf, Imm 0x34, Imm 0x40, Imm 0, Imm 0], Count,
    Syscall NR_recvfrom [Reg 2, Ptr 0x20127340, Imm 4, Imm 0x40, Imm 0, Imm 0], Count,
    Syscall NR_recvfrom [Reg 2, Ptr 0x20127600, Imm 0x8d, Imm 0x40, Imm 0, Imm 0], Count,
    Syscall NR_sendto [Reg 2, Write_buf, Imm 0x34, Imm 0x40, Imm 0, Imm 0], Count,
    Syscall NR_recvfrom [Reg 2, Ptr 0x2012f100, Imm 4, Imm 0x40, Imm 0, Imm 0], Count,
    Syscall NR_recvfrom [Reg 2, Ptr 0x20132680, Imm 0x15, Imm 0x40, Imm 0, Imm 0], Count,
    Syscall NR_sendto [Reg 2, Write_buf, Imm 0xb, Imm 0x40, Imm 0, Imm 0], Count,
    Syscall NR_recvfrom [Reg 2, Ptr 0x20134d80, Imm 4, Imm 0x40, Imm 0, Imm 0], Count,
    Syscall NR_recvfrom [Reg 2, Ptr 0x20134e80, Imm 0xd1, Imm 0x40, Imm 0, Imm 0], Count]"

definition min_mysql_recvfrom_sendto_20_0_body258 :: "stmt list" where
  "min_mysql_recvfrom_sendto_20_0_body258 = [
    Syscall NR_sendto [Reg 2, Write_buf, Imm 0xd, Imm 0x40, Imm 0, Imm 0], Count,
    Syscall NR_recvfrom [Reg 2, Ptr 0x20135940, Imm 4, Imm 0x40, Imm 0, Imm 0], Count,
    Syscall NR_recvfrom [Reg 2, Ptr 0x20135a00, Imm 0xb, Imm 0x40, Imm 0, Imm 0], Count,
    Syscall NR_sendto [Reg 2, Write_buf, Imm 0x18, Imm 0x40, Imm 0, Imm 0], Count,
    Syscall NR_recvfrom [Reg 2, Ptr 0x20344a80, Imm 4, Imm 0x40, Imm 0, Imm 0], Count,
    Syscall NR_recvfrom [Reg 2, Ptr 0x20344fc0, Imm 8, Imm 0x40, Imm 0, Imm 0], Count,
    Syscall NR_sendto [Reg 2, Write_buf, Imm 0x18, Imm 0x40, Imm 0, Imm 0], Count,
    Syscall NR_recvfrom [Reg 2, Ptr 0x20345f00, Imm 4, Imm 0x40, Imm 0, Imm 0], Count,
    Syscall NR_recvfrom [Reg 2, Ptr 0x203464c0, Imm 0x18, Imm 0x40, Imm 0, Imm 0], Count,
    Syscall NR_sendto [Reg 2, Write_buf, Imm 0xbe, Imm 0x40, Imm 0, Imm 0], Count]"

definition min_mysql_recvfrom_sendto_20_0_body259 :: "stmt list" where
  "min_mysql_recvfrom_sendto_20_0_body259 = [
    Syscall NR_recvfrom [Reg 2, Ptr 0x203478c0, Imm 4, Imm 0x40, Imm 0, Imm 0], Count,
    Syscall NR_recvfrom [Reg 2, Ptr 0x20347f00, Imm 0x15, Imm 0x40, Imm 0, Imm 0], Count,
    Syscall NR_sendto [Reg 2, Write_buf, Imm 0xbe, Imm 0x40, Imm 0, Imm 0], Count,
    Syscall NR_recvfrom [Reg 2, Ptr 0x20349640, Imm 4, Imm 0x40, Imm 0, Imm 0], Count,
    Syscall NR_recvfrom [Reg 2, Ptr 0x20349dc0, Imm 0x15, Imm 0x40, Imm 0, Imm 0], Count,
    Syscall NR_sendto [Reg 2, Write_buf, Imm 0xbe, Imm 0x40, Imm 0, Imm 0], Count,
    Syscall NR_recvfrom [Reg 2, Ptr 0x2034b440, Imm 4, Imm 0x40, Imm 0, Imm 0], Count,
    Syscall NR_recvfrom [Reg 2, Ptr 0x2034bc00, Imm 0x15, Imm 0x40, Imm 0, Imm 0], Count,
    Syscall NR_sendto [Reg 2, Write_buf, Imm 0xbe, Imm 0x40, Imm 0, Imm 0], Count,
    Syscall NR_recvfrom [Reg 2, Ptr 0x2034d380, Imm 4, Imm 0x40, Imm 0, Imm 0], Count]"

definition min_mysql_recvfrom_sendto_20_0_body260 :: "stmt list" where
  "min_mysql_recvfrom_sendto_20_0_body260 = [
    Syscall NR_recvfrom [Reg 2, Ptr 0x2034db40, Imm 0x15, Imm 0x40, Imm 0, Imm 0], Count,
    Syscall NR_sendto [Reg 2, Write_buf, Imm 0xbe, Imm 0x40, Imm 0, Imm 0], Count,
    Syscall NR_recvfrom [Reg 2, Ptr 0x2034f2c0, Imm 4, Imm 0x40, Imm 0, Imm 0], Count,
    Syscall NR_recvfrom [Reg 2, Ptr 0x2034fa80, Imm 0x15, Imm 0x40, Imm 0, Imm 0], Count,
    Syscall NR_sendto [Reg 2, Write_buf, Imm 0xbe, Imm 0x40, Imm 0, Imm 0], Count,
    Syscall NR_recvfrom [Reg 2, Ptr 0x20351200, Imm 4, Imm 0x40, Imm 0, Imm 0], Count,
    Syscall NR_recvfrom [Reg 2, Ptr 0x203519c0, Imm 0x15, Imm 0x40, Imm 0, Imm 0], Count,
    Syscall NR_sendto [Reg 2, Write_buf, Imm 0xbe, Imm 0x40, Imm 0, Imm 0], Count,
    Syscall NR_recvfrom [Reg 2, Ptr 0x20353140, Imm 4, Imm 0x40, Imm 0, Imm 0], Count,
    Syscall NR_recvfrom [Reg 2, Ptr 0x20353900, Imm 0x15, Imm 0x40, Imm 0, Imm 0], Count]"

definition min_mysql_recvfrom_sendto_20_0_body261 :: "stmt list" where
  "min_mysql_recvfrom_sendto_20_0_body261 = [
    Syscall NR_sendto [Reg 2, Write_buf, Imm 0xbe, Imm 0x40, Imm 0, Imm 0], Count,
    Syscall NR_recvfrom [Reg 2, Ptr 0x2035e200, Imm 4, Imm 0x40, Imm 0, Imm 0], Count,
    Syscall NR_recvfrom [Reg 2, Ptr 0x2035ea40, Imm 0x15, Imm 0x40, Imm 0, Imm 0], Count,
    Syscall NR_sendto [Reg 2, Write_buf, Imm 0xbe, Imm 0x40, Imm 0, Imm 0], Count,
    Syscall NR_recvfrom [Reg 2, Ptr 0x20362fc0, Imm 4, Imm 0x40, Imm 0, Imm 0], Count,
    Syscall NR_recvfrom [Reg 2, Ptr 0x20369a00, Imm 0x15, Imm 0x40, Imm 0, Imm 0], Count,
    Syscall NR_sendto [Reg 2, Write_buf, Imm 0xbe, Imm 0x40, Imm 0, Imm 0], Count,
    Syscall NR_recvfrom [Reg 2, Ptr 0x20377040, Imm 4, Imm 0x40, Imm 0, Imm 0], Count,
    Syscall NR_recvfrom [Reg 2, Ptr 0x2037dac0, Imm 0x1d, Imm 0x40, Imm 0, Imm 0], Count,
    Syscall NR_sendto [Reg 2, Write_buf, Imm 0x317a, Imm 0x40, Imm 0, Imm 0], Count]"

definition min_mysql_recvfrom_sendto_20_0_body262 :: "stmt list" where
  "min_mysql_recvfrom_sendto_20_0_body262 = [
    Syscall NR_recvfrom [Reg 2, Ptr 0x203a4000, Imm 4, Imm 0x40, Imm 0, Imm 0], Count,
    Syscall NR_recvfrom [Reg 2, Ptr 0x203b5840, Imm 0x1d, Imm 0x40, Imm 0, Imm 0], Count,
    Syscall NR_sendto [Reg 2, Write_buf, Imm 0x3c, Imm 0x40, Imm 0, Imm 0], Count,
    Syscall NR_recvfrom [Reg 2, Ptr 0x203ca700, Imm 4, Imm 0x40, Imm 0, Imm 0], Count,
    Syscall NR_recvfrom [Reg 2, Ptr 0x203d47c0, Imm 0x23, Imm 0x40, Imm 0, Imm 0], Count,
    Syscall NR_sendto [Reg 2, Write_buf, Imm 0x3178, Imm 0x40, Imm 0, Imm 0], Count,
    Syscall NR_recvfrom [Reg 2, Ptr 0x20699640, Imm 4, Imm 0x40, Imm 0, Imm 0], Count,
    Syscall NR_recvfrom [Reg 2, Ptr 0x206a41c0, Imm 0x1d, Imm 0x40, Imm 0, Imm 0], Count,
    Syscall NR_sendto [Reg 2, Write_buf, Imm 0x3178, Imm 0x40, Imm 0, Imm 0], Count,
    Syscall NR_recvfrom [Reg 2, Ptr 0x208db500, Imm 4, Imm 0x40, Imm 0, Imm 0], Count]"

definition min_mysql_recvfrom_sendto_20_0_body263 :: "stmt list" where
  "min_mysql_recvfrom_sendto_20_0_body263 = [
    Syscall NR_recvfrom [Reg 2, Ptr 0x208e5680, Imm 0x15, Imm 0x40, Imm 0, Imm 0], Count,
    Syscall NR_sendto [Reg 2, Write_buf, Imm 0x34, Imm 0x40, Imm 0, Imm 0], Count,
    Syscall NR_recvfrom [Reg 2, Ptr 0x208f2a00, Imm 4, Imm 0x40, Imm 0, Imm 0], Count,
    Syscall NR_recvfrom [Reg 2, Ptr 0x208fd580, Imm 0x93, Imm 0x40, Imm 0, Imm 0], Count,
    Syscall NR_sendto [Reg 2, Write_buf, Imm 0x34, Imm 0x40, Imm 0, Imm 0], Count,
    Syscall NR_recvfrom [Reg 2, Ptr 0x20907900, Imm 4, Imm 0x40, Imm 0, Imm 0], Count,
    Syscall NR_recvfrom [Reg 2, Ptr 0x20909f40, Imm 0x15, Imm 0x40, Imm 0, Imm 0], Count,
    Syscall NR_sendto [Reg 2, Write_buf, Imm 0xb, Imm 0x40, Imm 0, Imm 0], Count,
    Syscall NR_recvfrom [Reg 2, Ptr 0x2092b380, Imm 4, Imm 0x40, Imm 0, Imm 0], Count,
    Syscall NR_recvfrom [Reg 2, Ptr 0x20939380, Imm 0xd1, Imm 0x40, Imm 0, Imm 0], Count]"

definition min_mysql_recvfrom_sendto_20_0_body264 :: "stmt list" where
  "min_mysql_recvfrom_sendto_20_0_body264 = [
    Syscall NR_sendto [Reg 2, Write_buf, Imm 0xd, Imm 0x40, Imm 0, Imm 0], Count,
    Syscall NR_recvfrom [Reg 2, Ptr 0x209570c0, Imm 4, Imm 0x40, Imm 0, Imm 0], Count,
    Syscall NR_recvfrom [Reg 2, Ptr 0x20966780, Imm 0xb, Imm 0x40, Imm 0, Imm 0], Count,
    Syscall NR_sendto [Reg 2, Write_buf, Imm 0x18, Imm 0x40, Imm 0, Imm 0], Count,
    Syscall NR_recvfrom [Reg 2, Ptr 0x20ad90c0, Imm 4, Imm 0x40, Imm 0, Imm 0], Count,
    Syscall NR_recvfrom [Reg 2, Ptr 0x20ad9940, Imm 8, Imm 0x40, Imm 0, Imm 0], Count,
    Syscall NR_sendto [Reg 2, Write_buf, Imm 0x18, Imm 0x40, Imm 0, Imm 0], Count,
    Syscall NR_recvfrom [Reg 2, Ptr 0x20adae40, Imm 4, Imm 0x40, Imm 0, Imm 0], Count,
    Syscall NR_recvfrom [Reg 2, Ptr 0x20adb700, Imm 0x18, Imm 0x40, Imm 0, Imm 0], Count,
    Syscall NR_sendto [Reg 2, Write_buf, Imm 0xbe, Imm 0x40, Imm 0, Imm 0], Count]"

definition min_mysql_recvfrom_sendto_20_0_body265 :: "stmt list" where
  "min_mysql_recvfrom_sendto_20_0_body265 = [
    Syscall NR_recvfrom [Reg 2, Ptr 0x20adcd00, Imm 4, Imm 0x40, Imm 0, Imm 0], Count,
    Syscall NR_recvfrom [Reg 2, Ptr 0x20add640, Imm 0x15, Imm 0x40, Imm 0, Imm 0], Count,
    Syscall NR_sendto [Reg 2, Write_buf, Imm 0xbe, Imm 0x40, Imm 0, Imm 0], Count,
    Syscall NR_recvfrom [Reg 2, Ptr 0x20adec40, Imm 4, Imm 0x40, Imm 0, Imm 0], Count,
    Syscall NR_recvfrom [Reg 2, Ptr 0x20adf580, Imm 0x15, Imm 0x40, Imm 0, Imm 0], Count,
    Syscall NR_sendto [Reg 2, Write_buf, Imm 0xbe, Imm 0x40, Imm 0, Imm 0], Count,
    Syscall NR_recvfrom [Reg 2, Ptr 0x20ae0b80, Imm 4, Imm 0x40, Imm 0, Imm 0], Count,
    Syscall NR_recvfrom [Reg 2, Ptr 0x20ae14c0, Imm 0x15, Imm 0x40, Imm 0, Imm 0], Count,
    Syscall NR_sendto [Reg 2, Write_buf, Imm 0xbe, Imm 0x40, Imm 0, Imm 0], Count,
    Syscall NR_recvfrom [Reg 2, Ptr 0x20ae29c0, Imm 4, Imm 0x40, Imm 0, Imm 0], Count]"

definition min_mysql_recvfrom_sendto_20_0_body266 :: "stmt list" where
  "min_mysql_recvfrom_sendto_20_0_body266 = [
    Syscall NR_recvfrom [Reg 2, Ptr 0x20ae6640, Imm 0x15, Imm 0x40, Imm 0, Imm 0], Count,
    Syscall NR_sendto [Reg 2, Write_buf, Imm 0xbe, Imm 0x40, Imm 0, Imm 0], Count,
    Syscall NR_recvfrom [Reg 2, Ptr 0x20af0f40, Imm 4, Imm 0x40, Imm 0, Imm 0], Count,
    Syscall NR_recvfrom [Reg 2, Ptr 0x20af49c0, Imm 0x15, Imm 0x40, Imm 0, Imm 0], Count,
    Syscall NR_sendto [Reg 2, Write_buf, Imm 0xbe, Imm 0x40, Imm 0, Imm 0], Count,
    Syscall NR_recvfrom [Reg 2, Ptr 0x20afeec0, Imm 4, Imm 0x40, Imm 0, Imm 0], Count,
    Syscall NR_recvfrom [Reg 2, Ptr 0x20b093c0, Imm 0x15, Imm 0x40, Imm 0, Imm 0], Count,
    Syscall NR_sendto [Reg 2, Write_buf, Imm 0xbe, Imm 0x40, Imm 0, Imm 0], Count,
    Syscall NR_recvfrom [Reg 2, Ptr 0x20b0d540, Imm 4, Imm 0x40, Imm 0, Imm 0], Count,
    Syscall NR_recvfrom [Reg 2, Ptr 0x20b0ddc0, Imm 0x15, Imm 0x40, Imm 0, Imm 0], Count]"

definition min_mysql_recvfrom_sendto_20_0_body267 :: "stmt list" where
  "min_mysql_recvfrom_sendto_20_0_body267 = [
    Syscall NR_sendto [Reg 2, Write_buf, Imm 0xbe, Imm 0x40, Imm 0, Imm 0], Count,
    Syscall NR_recvfrom [Reg 2, Ptr 0x20b2a640, Imm 4, Imm 0x40, Imm 0, Imm 0], Count,
    Syscall NR_recvfrom [Reg 2, Ptr 0x20b48300, Imm 0x15, Imm 0x40, Imm 0, Imm 0], Count,
    Syscall NR_sendto [Reg 2, Write_buf, Imm 0xbe, Imm 0x40, Imm 0, Imm 0], Count,
    Syscall NR_recvfrom [Reg 2, Ptr 0x20b6e480, Imm 4, Imm 0x40, Imm 0, Imm 0], Count,
    Syscall NR_recvfrom [Reg 2, Ptr 0x20b88280, Imm 0x15, Imm 0x40, Imm 0, Imm 0], Count,
    Syscall NR_sendto [Reg 2, Write_buf, Imm 0xbe, Imm 0x40, Imm 0, Imm 0], Count,
    Syscall NR_recvfrom [Reg 2, Ptr 0x20bd5280, Imm 4, Imm 0x40, Imm 0, Imm 0], Count,
    Syscall NR_recvfrom [Reg 2, Ptr 0x20bf1c80, Imm 0x1d, Imm 0x40, Imm 0, Imm 0], Count,
    Syscall NR_sendto [Reg 2, Write_buf, Imm 0x3178, Imm 0x40, Imm 0, Imm 0], Count]"

definition min_mysql_recvfrom_sendto_20_0_body268 :: "stmt list" where
  "min_mysql_recvfrom_sendto_20_0_body268 = [
    Syscall NR_recvfrom [Reg 2, Ptr 0x20c385c0, Imm 4, Imm 0x40, Imm 0, Imm 0], Count,
    Syscall NR_recvfrom [Reg 2, Ptr 0x20c5f600, Imm 0x1d, Imm 0x40, Imm 0, Imm 0], Count,
    Syscall NR_sendto [Reg 2, Write_buf, Imm 0x3c, Imm 0x40, Imm 0, Imm 0], Count,
    Syscall NR_recvfrom [Reg 2, Ptr 0x20cb8500, Imm 4, Imm 0x40, Imm 0, Imm 0], Count,
    Syscall NR_recvfrom [Reg 2, Ptr 0x20cda540, Imm 0x23, Imm 0x40, Imm 0, Imm 0], Count,
    Syscall NR_sendto [Reg 2, Write_buf, Imm 0x317a, Imm 0x40, Imm 0, Imm 0], Count,
    Syscall NR_recvfrom [Reg 2, Ptr 0x20f08a80, Imm 4, Imm 0x40, Imm 0, Imm 0], Count,
    Syscall NR_recvfrom [Reg 2, Ptr 0x20f269c0, Imm 0x1d, Imm 0x40, Imm 0, Imm 0], Count,
    Syscall NR_sendto [Reg 2, Write_buf, Imm 0x317a, Imm 0x40, Imm 0, Imm 0], Count,
    Syscall NR_recvfrom [Reg 2, Ptr 0x200b2d80, Imm 4, Imm 0x40, Imm 0, Imm 0], Count]"

definition min_mysql_recvfrom_sendto_20_0_body269 :: "stmt list" where
  "min_mysql_recvfrom_sendto_20_0_body269 = [
    Syscall NR_recvfrom [Reg 2, Ptr 0x200bfcc0, Imm 0x15, Imm 0x40, Imm 0, Imm 0], Count,
    Syscall NR_sendto [Reg 2, Write_buf, Imm 0x34, Imm 0x40, Imm 0, Imm 0], Count,
    Syscall NR_recvfrom [Reg 2, Ptr 0x200dd000, Imm 4, Imm 0x40, Imm 0, Imm 0], Count,
    Syscall NR_recvfrom [Reg 2, Ptr 0x200de500, Imm 0x8d, Imm 0x40, Imm 0, Imm 0], Count,
    Syscall NR_sendto [Reg 2, Write_buf, Imm 0x34, Imm 0x40, Imm 0, Imm 0], Count,
    Syscall NR_recvfrom [Reg 2, Ptr 0x200ecdc0, Imm 4, Imm 0x40, Imm 0, Imm 0], Count,
    Syscall NR_recvfrom [Reg 2, Ptr 0x200f6700, Imm 0x15, Imm 0x40, Imm 0, Imm 0], Count,
    Syscall NR_sendto [Reg 2, Write_buf, Imm 0xb, Imm 0x40, Imm 0, Imm 0], Count,
    Syscall NR_recvfrom [Reg 2, Ptr 0x2010c7c0, Imm 4, Imm 0x40, Imm 0, Imm 0], Count,
    Syscall NR_recvfrom [Reg 2, Ptr 0x2010fb40, Imm 0xd1, Imm 0x40, Imm 0, Imm 0], Count]"

definition min_mysql_recvfrom_sendto_20_0_body270 :: "stmt list" where
  "min_mysql_recvfrom_sendto_20_0_body270 = [
    Syscall NR_sendto [Reg 2, Write_buf, Imm 0xd, Imm 0x40, Imm 0, Imm 0], Count,
    Syscall NR_recvfrom [Reg 2, Ptr 0x2011ce80, Imm 4, Imm 0x40, Imm 0, Imm 0], Count,
    Syscall NR_recvfrom [Reg 2, Ptr 0x20126500, Imm 0xb, Imm 0x40, Imm 0, Imm 0], Count,
    Syscall NR_sendto [Reg 2, Write_buf, Imm 0x18, Imm 0x40, Imm 0, Imm 0], Count,
    Syscall NR_recvfrom [Reg 2, Ptr 0x202e97c0, Imm 4, Imm 0x40, Imm 0, Imm 0], Count,
    Syscall NR_recvfrom [Reg 2, Ptr 0x202e9e00, Imm 8, Imm 0x40, Imm 0, Imm 0], Count,
    Syscall NR_sendto [Reg 2, Write_buf, Imm 0x18, Imm 0x40, Imm 0, Imm 0], Count,
    Syscall NR_recvfrom [Reg 2, Ptr 0x202ea500, Imm 4, Imm 0x40, Imm 0, Imm 0], Count,
    Syscall NR_recvfrom [Reg 2, Ptr 0x202ea9c0, Imm 0x15, Imm 0x40, Imm 0, Imm 0], Count,
    Syscall NR_sendto [Reg 2, Write_buf, Imm 0xc0, Imm 0x40, Imm 0, Imm 0], Count]"

definition min_mysql_recvfrom_sendto_20_0_body271 :: "stmt list" where
  "min_mysql_recvfrom_sendto_20_0_body271 = [
    Syscall NR_recvfrom [Reg 2, Ptr 0x202eb380, Imm 4, Imm 0x40, Imm 0, Imm 0], Count,
    Syscall NR_recvfrom [Reg 2, Ptr 0x202ebbc0, Imm 0x15, Imm 0x40, Imm 0, Imm 0], Count,
    Syscall NR_sendto [Reg 2, Write_buf, Imm 0xc0, Imm 0x40, Imm 0, Imm 0], Count,
    Syscall NR_recvfrom [Reg 2, Ptr 0x202ec880, Imm 4, Imm 0x40, Imm 0, Imm 0], Count,
    Syscall NR_recvfrom [Reg 2, Ptr 0x202ed040, Imm 0x15, Imm 0x40, Imm 0, Imm 0], Count,
    Syscall NR_sendto [Reg 2, Write_buf, Imm 0xc0, Imm 0x40, Imm 0, Imm 0], Count,
    Syscall NR_recvfrom [Reg 2, Ptr 0x202edd00, Imm 4, Imm 0x40, Imm 0, Imm 0], Count,
    Syscall NR_recvfrom [Reg 2, Ptr 0x202ee500, Imm 0x15, Imm 0x40, Imm 0, Imm 0], Count,
    Syscall NR_sendto [Reg 2, Write_buf, Imm 0xc0, Imm 0x40, Imm 0, Imm 0], Count,
    Syscall NR_recvfrom [Reg 2, Ptr 0x202ef400, Imm 4, Imm 0x40, Imm 0, Imm 0], Count]"

definition min_mysql_recvfrom_sendto_20_0_body272 :: "stmt list" where
  "min_mysql_recvfrom_sendto_20_0_body272 = [
    Syscall NR_recvfrom [Reg 2, Ptr 0x202efd00, Imm 0x15, Imm 0x40, Imm 0, Imm 0], Count,
    Syscall NR_sendto [Reg 2, Write_buf, Imm 0xc0, Imm 0x40, Imm 0, Imm 0], Count,
    Syscall NR_recvfrom [Reg 2, Ptr 0x202f0e40, Imm 4, Imm 0x40, Imm 0, Imm 0], Count,
    Syscall NR_recvfrom [Reg 2, Ptr 0x202f17c0, Imm 0x15, Imm 0x40, Imm 0, Imm 0], Count,
    Syscall NR_sendto [Reg 2, Write_buf, Imm 0xc0, Imm 0x40, Imm 0, Imm 0], Count,
    Syscall NR_recvfrom [Reg 2, Ptr 0x202f2ac0, Imm 4, Imm 0x40, Imm 0, Imm 0], Count,
    Syscall NR_recvfrom [Reg 2, Ptr 0x202f3540, Imm 0x15, Imm 0x40, Imm 0, Imm 0], Count,
    Syscall NR_sendto [Reg 2, Write_buf, Imm 0xc0, Imm 0x40, Imm 0, Imm 0], Count,
    Syscall NR_recvfrom [Reg 2, Ptr 0x202f48c0, Imm 4, Imm 0x40, Imm 0, Imm 0], Count,
    Syscall NR_recvfrom [Reg 2, Ptr 0x202f5340, Imm 0x15, Imm 0x40, Imm 0, Imm 0], Count]"

definition min_mysql_recvfrom_sendto_20_0_body273 :: "stmt list" where
  "min_mysql_recvfrom_sendto_20_0_body273 = [
    Syscall NR_sendto [Reg 2, Write_buf, Imm 0xc0, Imm 0x40, Imm 0, Imm 0], Count,
    Syscall NR_recvfrom [Reg 2, Ptr 0x20316780, Imm 4, Imm 0x40, Imm 0, Imm 0], Count,
    Syscall NR_recvfrom [Reg 2, Ptr 0x2031a3c0, Imm 0x15, Imm 0x40, Imm 0, Imm 0], Count,
    Syscall NR_sendto [Reg 2, Write_buf, Imm 0xc0, Imm 0x40, Imm 0, Imm 0], Count,
    Syscall NR_recvfrom [Reg 2, Ptr 0x2031b940, Imm 4, Imm 0x40, Imm 0, Imm 0], Count,
    Syscall NR_recvfrom [Reg 2, Ptr 0x203224c0, Imm 0x15, Imm 0x40, Imm 0, Imm 0], Count,
    Syscall NR_sendto [Reg 2, Write_buf, Imm 0xc0, Imm 0x40, Imm 0, Imm 0], Count,
    Syscall NR_recvfrom [Reg 2, Ptr 0x20326a00, Imm 4, Imm 0x40, Imm 0, Imm 0], Count,
    Syscall NR_recvfrom [Reg 2, Ptr 0x20327400, Imm 0x1d, Imm 0x40, Imm 0, Imm 0], Count,
    Syscall NR_sendto [Reg 2, Write_buf, Imm 0x317a, Imm 0x40, Imm 0, Imm 0], Count]"

definition min_mysql_recvfrom_sendto_20_0_body274 :: "stmt list" where
  "min_mysql_recvfrom_sendto_20_0_body274 = [
    Syscall NR_recvfrom [Reg 2, Ptr 0x20359340, Imm 4, Imm 0x40, Imm 0, Imm 0], Count,
    Syscall NR_recvfrom [Reg 2, Ptr 0x20366180, Imm 0x1d, Imm 0x40, Imm 0, Imm 0], Count,
    Syscall NR_sendto [Reg 2, Write_buf, Imm 0x3c, Imm 0x40, Imm 0, Imm 0], Count,
    Syscall NR_recvfrom [Reg 2, Ptr 0x20375f80, Imm 4, Imm 0x40, Imm 0, Imm 0], Count,
    Syscall NR_recvfrom [Reg 2, Ptr 0x20383c40, Imm 0x1d, Imm 0x40, Imm 0, Imm 0], Count,
    Syscall NR_sendto [Reg 2, Write_buf, Imm 0x317a, Imm 0x40, Imm 0, Imm 0], Count,
    Syscall NR_recvfrom [Reg 2, Ptr 0x2057de40, Imm 4, Imm 0x40, Imm 0, Imm 0], Count,
    Syscall NR_recvfrom [Reg 2, Ptr 0x205ac540, Imm 0x1d, Imm 0x40, Imm 0, Imm 0], Count,
    Syscall NR_sendto [Reg 2, Write_buf, Imm 0x317a, Imm 0x40, Imm 0, Imm 0], Count,
    Syscall NR_recvfrom [Reg 2, Ptr 0x207b3080, Imm 4, Imm 0x40, Imm 0, Imm 0], Count]"

definition min_mysql_recvfrom_sendto_20_0_body275 :: "stmt list" where
  "min_mysql_recvfrom_sendto_20_0_body275 = [
    Syscall NR_recvfrom [Reg 2, Ptr 0x207cbc40, Imm 0x15, Imm 0x40, Imm 0, Imm 0], Count,
    Syscall NR_sendto [Reg 2, Write_buf, Imm 0x34, Imm 0x40, Imm 0, Imm 0], Count,
    Syscall NR_recvfrom [Reg 2, Ptr 0x207fafc0, Imm 4, Imm 0x40, Imm 0, Imm 0], Count,
    Syscall NR_recvfrom [Reg 2, Ptr 0x207fcfc0, Imm 0x8d, Imm 0x40, Imm 0, Imm 0], Count,
    Syscall NR_sendto [Reg 2, Write_buf, Imm 0x34, Imm 0x40, Imm 0, Imm 0], Count,
    Syscall NR_recvfrom [Reg 2, Ptr 0x20804d80, Imm 4, Imm 0x40, Imm 0, Imm 0], Count,
    Syscall NR_recvfrom [Reg 2, Ptr 0x20809500, Imm 0x15, Imm 0x40, Imm 0, Imm 0], Count,
    Syscall NR_sendto [Reg 2, Write_buf, Imm 0xb, Imm 0x40, Imm 0, Imm 0], Count,
    Syscall NR_recvfrom [Reg 2, Ptr 0x20818f80, Imm 4, Imm 0x40, Imm 0, Imm 0], Count,
    Syscall NR_recvfrom [Reg 2, Ptr 0x2081f340, Imm 0xd1, Imm 0x40, Imm 0, Imm 0], Count]"

definition min_mysql_recvfrom_sendto_20_0_body276 :: "stmt list" where
  "min_mysql_recvfrom_sendto_20_0_body276 = [
    Syscall NR_sendto [Reg 2, Write_buf, Imm 0xb, Imm 0x40, Imm 0, Imm 0], Count,
    Syscall NR_recvfrom [Reg 2, Ptr 0x20833d00, Imm 4, Imm 0x40, Imm 0, Imm 0], Count,
    Syscall NR_recvfrom [Reg 2, Ptr 0x2083de80, Imm 0xb, Imm 0x40, Imm 0, Imm 0], Count,
    Syscall NR_sendto [Reg 2, Write_buf, Imm 0x18, Imm 0x40, Imm 0, Imm 0], Count,
    Syscall NR_recvfrom [Reg 2, Ptr 0x20a73b80, Imm 4, Imm 0x40, Imm 0, Imm 0], Count,
    Syscall NR_recvfrom [Reg 2, Ptr 0x20a73dc0, Imm 8, Imm 0x40, Imm 0, Imm 0], Count,
    Syscall NR_sendto [Reg 2, Write_buf, Imm 0x18, Imm 0x40, Imm 0, Imm 0], Count,
    Syscall NR_recvfrom [Reg 2, Ptr 0x20a743c0, Imm 4, Imm 0x40, Imm 0, Imm 0], Count,
    Syscall NR_recvfrom [Reg 2, Ptr 0x20a746c0, Imm 0x18, Imm 0x40, Imm 0, Imm 0], Count,
    Syscall NR_sendto [Reg 2, Write_buf, Imm 0xbe, Imm 0x40, Imm 0, Imm 0], Count]"

definition min_mysql_recvfrom_sendto_20_0_body277 :: "stmt list" where
  "min_mysql_recvfrom_sendto_20_0_body277 = [
    Syscall NR_recvfrom [Reg 2, Ptr 0x20a75000, Imm 4, Imm 0x40, Imm 0, Imm 0], Count,
    Syscall NR_recvfrom [Reg 2, Ptr 0x20a75580, Imm 0x15, Imm 0x40, Imm 0, Imm 0], Count,
    Syscall NR_sendto [Reg 2, Write_buf, Imm 0xbe, Imm 0x40, Imm 0, Imm 0], Count,
    Syscall NR_recvfrom [Reg 2, Ptr 0x20a76200, Imm 4, Imm 0x40, Imm 0, Imm 0], Count,
    Syscall NR_recvfrom [Reg 2, Ptr 0x20a76840, Imm 0x15, Imm 0x40, Imm 0, Imm 0], Count,
    Syscall NR_sendto [Reg 2, Write_buf, Imm 0xbe, Imm 0x40, Imm 0, Imm 0], Count,
    Syscall NR_recvfrom [Reg 2, Ptr 0x20a777c0, Imm 4, Imm 0x40, Imm 0, Imm 0], Count,
    Syscall NR_recvfrom [Reg 2, Ptr 0x20a78000, Imm 0x15, Imm 0x40, Imm 0, Imm 0], Count,
    Syscall NR_sendto [Reg 2, Write_buf, Imm 0xbe, Imm 0x40, Imm 0, Imm 0], Count,
    Syscall NR_recvfrom [Reg 2, Ptr 0x20a79280, Imm 4, Imm 0x40, Imm 0, Imm 0], Count]"

definition min_mysql_recvfrom_sendto_20_0_body278 :: "stmt list" where
  "min_mysql_recvfrom_sendto_20_0_body278 = [
    Syscall NR_recvfrom [Reg 2, Ptr 0x20a79ac0, Imm 0x15, Imm 0x40, Imm 0, Imm 0], Count,
    Syscall NR_sendto [Reg 2, Write_buf, Imm 0xbe, Imm 0x40, Imm 0, Imm 0], Count,
    Syscall NR_recvfrom [Reg 2, Ptr 0x20a7ad80, Imm 4, Imm 0x40, Imm 0, Imm 0], Count,
    Syscall NR_recvfrom [Reg 2, Ptr 0x20a7b740, Imm 0x15, Imm 0x40, Imm 0, Imm 0], Count,
    Syscall NR_sendto [Reg 2, Write_buf, Imm 0xbe, Imm 0x40, Imm 0, Imm 0], Count,
    Syscall NR_recvfrom [Reg 2, Ptr 0x20a7ca40, Imm 4, Imm 0x40, Imm 0, Imm 0], Count,
    Syscall NR_recvfrom [Reg 2, Ptr 0x20a7d400, Imm 0x15, Imm 0x40, Imm 0, Imm 0], Count,
    Syscall NR_sendto [Reg 2, Write_buf, Imm 0xbe, Imm 0x40, Imm 0, Imm 0], Count,
    Syscall NR_recvfrom [Reg 2, Ptr 0x20a7e700, Imm 4, Imm 0x40, Imm 0, Imm 0], Count,
    Syscall NR_recvfrom [Reg 2, Ptr 0x20a7f0c0, Imm 0x15, Imm 0x40, Imm 0, Imm 0], Count]"

definition min_mysql_recvfrom_sendto_20_0_body279 :: "stmt list" where
  "min_mysql_recvfrom_sendto_20_0_body279 = [
    Syscall NR_sendto [Reg 2, Write_buf, Imm 0xbe, Imm 0x40, Imm 0, Imm 0], Count,
    Syscall NR_recvfrom [Reg 2, Ptr 0x20a803c0, Imm 4, Imm 0x40, Imm 0, Imm 0], Count,
    Syscall NR_recvfrom [Reg 2, Ptr 0x20a80d80, Imm 0x15, Imm 0x40, Imm 0, Imm 0], Count,
    Syscall NR_sendto [Reg 2, Write_buf, Imm 0xbe, Imm 0x40, Imm 0, Imm 0], Count,
    Syscall NR_recvfrom [Reg 2, Ptr 0x20a81fc0, Imm 4, Imm 0x40, Imm 0, Imm 0], Count,
    Syscall NR_recvfrom [Reg 2, Ptr 0x20a85ac0, Imm 0x15, Imm 0x40, Imm 0, Imm 0], Count,
    Syscall NR_sendto [Reg 2, Write_buf, Imm 0xbe, Imm 0x40, Imm 0, Imm 0], Count,
    Syscall NR_recvfrom [Reg 2, Ptr 0x20a8ce00, Imm 4, Imm 0x40, Imm 0, Imm 0], Count,
    Syscall NR_recvfrom [Reg 2, Ptr 0x20a8d8c0, Imm 0x23, Imm 0x40, Imm 0, Imm 0], Count,
    Syscall NR_sendto [Reg 2, Write_buf, Imm 0x3178, Imm 0x40, Imm 0, Imm 0], Count]"

definition min_mysql_recvfrom_sendto_20_0_body280 :: "stmt list" where
  "min_mysql_recvfrom_sendto_20_0_body280 = [
    Syscall NR_recvfrom [Reg 2, Ptr 0x20a97c00, Imm 4, Imm 0x40, Imm 0, Imm 0], Count,
    Syscall NR_recvfrom [Reg 2, Ptr 0x20a9b580, Imm 0x1d, Imm 0x40, Imm 0, Imm 0], Count,
    Syscall NR_sendto [Reg 2, Write_buf, Imm 0x3c, Imm 0x40, Imm 0, Imm 0], Count,
    Syscall NR_recvfrom [Reg 2, Ptr 0x20aa2040, Imm 4, Imm 0x40, Imm 0, Imm 0], Count,
    Syscall NR_recvfrom [Reg 2, Ptr 0x20aa2800, Imm 0x1d, Imm 0x40, Imm 0, Imm 0], Count,
    Syscall NR_sendto [Reg 2, Write_buf, Imm 0x317a, Imm 0x40, Imm 0, Imm 0], Count,
    Syscall NR_recvfrom [Reg 2, Ptr 0x20c8fe80, Imm 4, Imm 0x40, Imm 0, Imm 0], Count,
    Syscall NR_recvfrom [Reg 2, Ptr 0x20ca5d80, Imm 0x1d, Imm 0x40, Imm 0, Imm 0], Count,
    Syscall NR_sendto [Reg 2, Write_buf, Imm 0x317a, Imm 0x40, Imm 0, Imm 0], Count,
    Syscall NR_recvfrom [Reg 2, Ptr 0x20ec2300, Imm 4, Imm 0x40, Imm 0, Imm 0], Count]"

definition min_mysql_recvfrom_sendto_20_0_body281 :: "stmt list" where
  "min_mysql_recvfrom_sendto_20_0_body281 = [
    Syscall NR_recvfrom [Reg 2, Ptr 0x20ede180, Imm 0x15, Imm 0x40, Imm 0, Imm 0], Count,
    Syscall NR_sendto [Reg 2, Write_buf, Imm 0x34, Imm 0x40, Imm 0, Imm 0], Count,
    Syscall NR_recvfrom [Reg 2, Ptr 0x20f02b40, Imm 4, Imm 0x40, Imm 0, Imm 0], Count,
    Syscall NR_recvfrom [Reg 2, Ptr 0x20f0d540, Imm 0x93, Imm 0x40, Imm 0, Imm 0], Count,
    Syscall NR_sendto [Reg 2, Write_buf, Imm 0x34, Imm 0x40, Imm 0, Imm 0], Count,
    Syscall NR_recvfrom [Reg 2, Ptr 0x20f1bac0, Imm 4, Imm 0x40, Imm 0, Imm 0], Count,
    Syscall NR_recvfrom [Reg 2, Ptr 0x20f22800, Imm 0x15, Imm 0x40, Imm 0, Imm 0], Count,
    Syscall NR_sendto [Reg 2, Write_buf, Imm 0xb, Imm 0x40, Imm 0, Imm 0], Count,
    Syscall NR_recvfrom [Reg 2, Ptr 0x20f30700, Imm 4, Imm 0x40, Imm 0, Imm 0], Count,
    Syscall NR_recvfrom [Reg 2, Ptr 0x20f37180, Imm 0xd1, Imm 0x40, Imm 0, Imm 0], Count]"

definition min_mysql_recvfrom_sendto_20_0_body282 :: "stmt list" where
  "min_mysql_recvfrom_sendto_20_0_body282 = [
    Syscall NR_sendto [Reg 2, Write_buf, Imm 0xd, Imm 0x40, Imm 0, Imm 0], Count,
    Syscall NR_recvfrom [Reg 2, Ptr 0x20f66880, Imm 4, Imm 0x40, Imm 0, Imm 0], Count,
    Syscall NR_recvfrom [Reg 2, Ptr 0x20f6d380, Imm 0xb, Imm 0x40, Imm 0, Imm 0], Count,
    Syscall NR_sendto [Reg 2, Write_buf, Imm 0x18, Imm 0x40, Imm 0, Imm 0], Count,
    Syscall NR_recvfrom [Reg 2, Ptr 0x203d4b40, Imm 4, Imm 0x40, Imm 0, Imm 0], Count,
    Syscall NR_recvfrom [Reg 2, Ptr 0x203d4c00, Imm 8, Imm 0x40, Imm 0, Imm 0], Count,
    Syscall NR_sendto [Reg 2, Write_buf, Imm 0x18, Imm 0x40, Imm 0, Imm 0], Count,
    Syscall NR_recvfrom [Reg 2, Ptr 0x203d4e80, Imm 4, Imm 0x40, Imm 0, Imm 0], Count,
    Syscall NR_recvfrom [Reg 2, Ptr 0x203d5040, Imm 0x15, Imm 0x40, Imm 0, Imm 0], Count,
    Syscall NR_sendto [Reg 2, Write_buf, Imm 0xbe, Imm 0x40, Imm 0, Imm 0], Count]"

definition min_mysql_recvfrom_sendto_20_0_body283 :: "stmt list" where
  "min_mysql_recvfrom_sendto_20_0_body283 = [
    Syscall NR_recvfrom [Reg 2, Ptr 0x203d5800, Imm 4, Imm 0x40, Imm 0, Imm 0], Count,
    Syscall NR_recvfrom [Reg 2, Ptr 0x203d5a80, Imm 0x15, Imm 0x40, Imm 0, Imm 0], Count,
    Syscall NR_sendto [Reg 2, Write_buf, Imm 0xbe, Imm 0x40, Imm 0, Imm 0], Count,
    Syscall NR_recvfrom [Reg 2, Ptr 0x203d63c0, Imm 4, Imm 0x40, Imm 0, Imm 0], Count,
    Syscall NR_recvfrom [Reg 2, Ptr 0x203d6840, Imm 0x15, Imm 0x40, Imm 0, Imm 0], Count,
    Syscall NR_sendto [Reg 2, Write_buf, Imm 0xbe, Imm 0x40, Imm 0, Imm 0], Count,
    Syscall NR_recvfrom [Reg 2, Ptr 0x203d75c0, Imm 4, Imm 0x40, Imm 0, Imm 0], Count,
    Syscall NR_recvfrom [Reg 2, Ptr 0x203d7cc0, Imm 0x15, Imm 0x40, Imm 0, Imm 0], Count,
    Syscall NR_sendto [Reg 2, Write_buf, Imm 0xbe, Imm 0x40, Imm 0, Imm 0], Count,
    Syscall NR_recvfrom [Reg 2, Ptr 0x203d8d00, Imm 4, Imm 0x40, Imm 0, Imm 0], Count]"

definition min_mysql_recvfrom_sendto_20_0_body284 :: "stmt list" where
  "min_mysql_recvfrom_sendto_20_0_body284 = [
    Syscall NR_recvfrom [Reg 2, Ptr 0x203d94c0, Imm 0x15, Imm 0x40, Imm 0, Imm 0], Count,
    Syscall NR_sendto [Reg 2, Write_buf, Imm 0xbe, Imm 0x40, Imm 0, Imm 0], Count,
    Syscall NR_recvfrom [Reg 2, Ptr 0x203da880, Imm 4, Imm 0x40, Imm 0, Imm 0], Count,
    Syscall NR_recvfrom [Reg 2, Ptr 0x203db0c0, Imm 0x15, Imm 0x40, Imm 0, Imm 0], Count,
    Syscall NR_sendto [Reg 2, Write_buf, Imm 0xbe, Imm 0x40, Imm 0, Imm 0], Count,
    Syscall NR_recvfrom [Reg 2, Ptr 0x203fccc0, Imm 4, Imm 0x40, Imm 0, Imm 0], Count,
    Syscall NR_recvfrom [Reg 2, Ptr 0x203fd580, Imm 0x15, Imm 0x40, Imm 0, Imm 0], Count,
    Syscall NR_sendto [Reg 2, Write_buf, Imm 0xbe, Imm 0x40, Imm 0, Imm 0], Count,
    Syscall NR_recvfrom [Reg 2, Ptr 0x203fed00, Imm 4, Imm 0x40, Imm 0, Imm 0], Count,
    Syscall NR_recvfrom [Reg 2, Ptr 0x203ff5c0, Imm 0x15, Imm 0x40, Imm 0, Imm 0], Count]"

definition min_mysql_recvfrom_sendto_20_0_body285 :: "stmt list" where
  "min_mysql_recvfrom_sendto_20_0_body285 = [
    Syscall NR_sendto [Reg 2, Write_buf, Imm 0xbe, Imm 0x40, Imm 0, Imm 0], Count,
    Syscall NR_recvfrom [Reg 2, Ptr 0x20400a40, Imm 4, Imm 0x40, Imm 0, Imm 0], Count,
    Syscall NR_recvfrom [Reg 2, Ptr 0x20401280, Imm 0x15, Imm 0x40, Imm 0, Imm 0], Count,
    Syscall NR_sendto [Reg 2, Write_buf, Imm 0xbe, Imm 0x40, Imm 0, Imm 0], Count,
    Syscall NR_recvfrom [Reg 2, Ptr 0x20402700, Imm 4, Imm 0x40, Imm 0, Imm 0], Count,
    Syscall NR_recvfrom [Reg 2, Ptr 0x20402f40, Imm 0x15, Imm 0x40, Imm 0, Imm 0], Count,
    Syscall NR_sendto [Reg 2, Write_buf, Imm 0xbe, Imm 0x40, Imm 0, Imm 0], Count,
    Syscall NR_recvfrom [Reg 2, Ptr 0x204043c0, Imm 4, Imm 0x40, Imm 0, Imm 0], Count,
    Syscall NR_recvfrom [Reg 2, Ptr 0x20404c00, Imm 0x1d, Imm 0x40, Imm 0, Imm 0], Count,
    Syscall NR_sendto [Reg 2, Write_buf, Imm 0x3178, Imm 0x40, Imm 0, Imm 0], Count]"

definition min_mysql_recvfrom_sendto_20_0_body286 :: "stmt list" where
  "min_mysql_recvfrom_sendto_20_0_body286 = [
    Syscall NR_recvfrom [Reg 2, Ptr 0x2040f740, Imm 4, Imm 0x40, Imm 0, Imm 0], Count,
    Syscall NR_recvfrom [Reg 2, Ptr 0x2040ff00, Imm 0x1d, Imm 0x40, Imm 0, Imm 0], Count,
    Syscall NR_sendto [Reg 2, Write_buf, Imm 0x3c, Imm 0x40, Imm 0, Imm 0], Count,
    Syscall NR_recvfrom [Reg 2, Ptr 0x2041a400, Imm 4, Imm 0x40, Imm 0, Imm 0], Count,
    Syscall NR_recvfrom [Reg 2, Ptr 0x20424f40, Imm 0x1d, Imm 0x40, Imm 0, Imm 0], Count,
    Syscall NR_sendto [Reg 2, Write_buf, Imm 0x317a, Imm 0x40, Imm 0, Imm 0], Count,
    Syscall NR_recvfrom [Reg 2, Ptr 0x2062e400, Imm 4, Imm 0x40, Imm 0, Imm 0], Count,
    Syscall NR_recvfrom [Reg 2, Ptr 0x2064e7c0, Imm 0x1d, Imm 0x40, Imm 0, Imm 0], Count,
    Syscall NR_sendto [Reg 2, Write_buf, Imm 0x3178, Imm 0x40, Imm 0, Imm 0], Count,
    Syscall NR_recvfrom [Reg 2, Ptr 0x2088c500, Imm 4, Imm 0x40, Imm 0, Imm 0], Count]"

definition min_mysql_recvfrom_sendto_20_0_body287 :: "stmt list" where
  "min_mysql_recvfrom_sendto_20_0_body287 = [
    Syscall NR_recvfrom [Reg 2, Ptr 0x208b73c0, Imm 0x15, Imm 0x40, Imm 0, Imm 0], Count,
    Syscall NR_sendto [Reg 2, Write_buf, Imm 0x34, Imm 0x40, Imm 0, Imm 0], Count,
    Syscall NR_recvfrom [Reg 2, Ptr 0x208f7600, Imm 4, Imm 0x40, Imm 0, Imm 0], Count,
    Syscall NR_recvfrom [Reg 2, Ptr 0x209062c0, Imm 0x8d, Imm 0x40, Imm 0, Imm 0], Count,
    Syscall NR_sendto [Reg 2, Write_buf, Imm 0x34, Imm 0x40, Imm 0, Imm 0], Count,
    Syscall NR_recvfrom [Reg 2, Ptr 0x2091c640, Imm 4, Imm 0x40, Imm 0, Imm 0], Count,
    Syscall NR_recvfrom [Reg 2, Ptr 0x2092c400, Imm 0x15, Imm 0x40, Imm 0, Imm 0], Count,
    Syscall NR_sendto [Reg 2, Write_buf, Imm 0xb, Imm 0x40, Imm 0, Imm 0], Count,
    Syscall NR_recvfrom [Reg 2, Ptr 0x209436c0, Imm 4, Imm 0x40, Imm 0, Imm 0], Count,
    Syscall NR_recvfrom [Reg 2, Ptr 0x209503c0, Imm 0xd1, Imm 0x40, Imm 0, Imm 0], Count]"

definition min_mysql_recvfrom_sendto_20_0_body288 :: "stmt list" where
  "min_mysql_recvfrom_sendto_20_0_body288 = [
    Syscall NR_sendto [Reg 2, Write_buf, Imm 0xd, Imm 0x40, Imm 0, Imm 0], Count,
    Syscall NR_recvfrom [Reg 2, Ptr 0x2096c8c0, Imm 4, Imm 0x40, Imm 0, Imm 0], Count,
    Syscall NR_recvfrom [Reg 2, Ptr 0x20973300, Imm 0xb, Imm 0x40, Imm 0, Imm 0], Count,
    Syscall NR_sendto [Reg 2, Write_buf, Imm 0x18, Imm 0x40, Imm 0, Imm 0], Count,
    Syscall NR_recvfrom [Reg 2, Ptr 0x20c51880, Imm 4, Imm 0x40, Imm 0, Imm 0], Count,
    Syscall NR_recvfrom [Reg 2, Ptr 0x20c51940, Imm 8, Imm 0x40, Imm 0, Imm 0], Count,
    Syscall NR_sendto [Reg 2, Write_buf, Imm 0x18, Imm 0x40, Imm 0, Imm 0], Count,
    Syscall NR_recvfrom [Reg 2, Ptr 0x20c51c40, Imm 4, Imm 0x40, Imm 0, Imm 0], Count,
    Syscall NR_recvfrom [Reg 2, Ptr 0x20c51e00, Imm 0x15, Imm 0x40, Imm 0, Imm 0], Count,
    Syscall NR_sendto [Reg 2, Write_buf, Imm 0xc0, Imm 0x40, Imm 0, Imm 0], Count]"

definition min_mysql_recvfrom_sendto_20_0_body289 :: "stmt list" where
  "min_mysql_recvfrom_sendto_20_0_body289 = [
    Syscall NR_recvfrom [Reg 2, Ptr 0x20c52600, Imm 4, Imm 0x40, Imm 0, Imm 0], Count,
    Syscall NR_recvfrom [Reg 2, Ptr 0x20c529c0, Imm 0x15, Imm 0x40, Imm 0, Imm 0], Count,
    Syscall NR_sendto [Reg 2, Write_buf, Imm 0xc0, Imm 0x40, Imm 0, Imm 0], Count,
    Syscall NR_recvfrom [Reg 2, Ptr 0x20c534c0, Imm 4, Imm 0x40, Imm 0, Imm 0], Count,
    Syscall NR_recvfrom [Reg 2, Ptr 0x20c53980, Imm 0x15, Imm 0x40, Imm 0, Imm 0], Count,
    Syscall NR_sendto [Reg 2, Write_buf, Imm 0xc0, Imm 0x40, Imm 0, Imm 0], Count,
    Syscall NR_recvfrom [Reg 2, Ptr 0x20c54880, Imm 4, Imm 0x40, Imm 0, Imm 0], Count,
    Syscall NR_recvfrom [Reg 2, Ptr 0x20c54dc0, Imm 0x15, Imm 0x40, Imm 0, Imm 0], Count,
    Syscall NR_sendto [Reg 2, Write_buf, Imm 0xc0, Imm 0x40, Imm 0, Imm 0], Count,
    Syscall NR_recvfrom [Reg 2, Ptr 0x20c56040, Imm 4, Imm 0x40, Imm 0, Imm 0], Count]"

definition min_mysql_recvfrom_sendto_20_0_body290 :: "stmt list" where
  "min_mysql_recvfrom_sendto_20_0_body290 = [
    Syscall NR_recvfrom [Reg 2, Ptr 0x20c56600, Imm 0x15, Imm 0x40, Imm 0, Imm 0], Count,
    Syscall NR_sendto [Reg 2, Write_buf, Imm 0xc0, Imm 0x40, Imm 0, Imm 0], Count,
    Syscall NR_recvfrom [Reg 2, Ptr 0x20c57a00, Imm 4, Imm 0x40, Imm 0, Imm 0], Count,
    Syscall NR_recvfrom [Reg 2, Ptr 0x20c58040, Imm 0x15, Imm 0x40, Imm 0, Imm 0], Count,
    Syscall NR_sendto [Reg 2, Write_buf, Imm 0xc0, Imm 0x40, Imm 0, Imm 0], Count,
    Syscall NR_recvfrom [Reg 2, Ptr 0x20c59400, Imm 4, Imm 0x40, Imm 0, Imm 0], Count,
    Syscall NR_recvfrom [Reg 2, Ptr 0x20c59a40, Imm 0x15, Imm 0x40, Imm 0, Imm 0], Count,
    Syscall NR_sendto [Reg 2, Write_buf, Imm 0xc0, Imm 0x40, Imm 0, Imm 0], Count,
    Syscall NR_recvfrom [Reg 2, Ptr 0x20c5ad40, Imm 4, Imm 0x40, Imm 0, Imm 0], Count,
    Syscall NR_recvfrom [Reg 2, Ptr 0x20c5b400, Imm 0x15, Imm 0x40, Imm 0, Imm 0], Count]"

definition min_mysql_recvfrom_sendto_20_0_body291 :: "stmt list" where
  "min_mysql_recvfrom_sendto_20_0_body291 = [
    Syscall NR_sendto [Reg 2, Write_buf, Imm 0xc0, Imm 0x40, Imm 0, Imm 0], Count,
    Syscall NR_recvfrom [Reg 2, Ptr 0x20c5c6c0, Imm 4, Imm 0x40, Imm 0, Imm 0], Count,
    Syscall NR_recvfrom [Reg 2, Ptr 0x20c5ce00, Imm 0x15, Imm 0x40, Imm 0, Imm 0], Count,
    Syscall NR_sendto [Reg 2, Write_buf, Imm 0xc0, Imm 0x40, Imm 0, Imm 0], Count,
    Syscall NR_recvfrom [Reg 2, Ptr 0x20c5e100, Imm 4, Imm 0x40, Imm 0, Imm 0], Count,
    Syscall NR_recvfrom [Reg 2, Ptr 0x20c5e8c0, Imm 0x15, Imm 0x40, Imm 0, Imm 0], Count,
    Syscall NR_sendto [Reg 2, Write_buf, Imm 0xc0, Imm 0x40, Imm 0, Imm 0], Count,
    Syscall NR_recvfrom [Reg 2, Ptr 0x20c5fbc0, Imm 4, Imm 0x40, Imm 0, Imm 0], Count,
    Syscall NR_recvfrom [Reg 2, Ptr 0x20c60300, Imm 0x1d, Imm 0x40, Imm 0, Imm 0], Count,
    Syscall NR_sendto [Reg 2, Write_buf, Imm 0x3178, Imm 0x40, Imm 0, Imm 0], Count]"

definition min_mysql_recvfrom_sendto_20_0_body292 :: "stmt list" where
  "min_mysql_recvfrom_sendto_20_0_body292 = [
    Syscall NR_recvfrom [Reg 2, Ptr 0x20c67780, Imm 4, Imm 0x40, Imm 0, Imm 0], Count,
    Syscall NR_recvfrom [Reg 2, Ptr 0x20c67e00, Imm 0x1d, Imm 0x40, Imm 0, Imm 0], Count,
    Syscall NR_sendto [Reg 2, Write_buf, Imm 0x3c, Imm 0x40, Imm 0, Imm 0], Count,
    Syscall NR_recvfrom [Reg 2, Ptr 0x20c7b7c0, Imm 4, Imm 0x40, Imm 0, Imm 0], Count,
    Syscall NR_recvfrom [Reg 2, Ptr 0x20c7be40, Imm 0x1d, Imm 0x40, Imm 0, Imm 0], Count,
    Syscall NR_sendto [Reg 2, Write_buf, Imm 0xc8e, Imm 0x40, Imm 0, Imm 0], Count,
    Syscall NR_recvfrom [Reg 2, Ptr 0x20c86c40, Imm 4, Imm 0x40, Imm 0, Imm 0], Count,
    Syscall NR_recvfrom [Reg 2, Ptr 0x20c87180, Imm 0x1d, Imm 0x40, Imm 0, Imm 0], Count,
    Syscall NR_sendto [Reg 2, Write_buf, Imm 0x3178, Imm 0x40, Imm 0, Imm 0], Count,
    Syscall NR_recvfrom [Reg 2, Ptr 0x20eb9cc0, Imm 4, Imm 0x40, Imm 0, Imm 0], Count]"

definition min_mysql_recvfrom_sendto_20_0_body293 :: "stmt list" where
  "min_mysql_recvfrom_sendto_20_0_body293 = [
    Syscall NR_recvfrom [Reg 2, Ptr 0x20ec6a00, Imm 0x15, Imm 0x40, Imm 0, Imm 0], Count,
    Syscall NR_sendto [Reg 2, Write_buf, Imm 0x34, Imm 0x40, Imm 0, Imm 0], Count,
    Syscall NR_recvfrom [Reg 2, Ptr 0x20eee300, Imm 4, Imm 0x40, Imm 0, Imm 0], Count,
    Syscall NR_recvfrom [Reg 2, Ptr 0x20ef5a80, Imm 0x8d, Imm 0x40, Imm 0, Imm 0], Count,
    Syscall NR_sendto [Reg 2, Write_buf, Imm 0x34, Imm 0x40, Imm 0, Imm 0], Count,
    Syscall NR_recvfrom [Reg 2, Ptr 0x20f23800, Imm 4, Imm 0x40, Imm 0, Imm 0], Count,
    Syscall NR_recvfrom [Reg 2, Ptr 0x20f49800, Imm 0x15, Imm 0x40, Imm 0, Imm 0], Count,
    Syscall NR_sendto [Reg 2, Write_buf, Imm 0xb, Imm 0x40, Imm 0, Imm 0], Count,
    Syscall NR_recvfrom [Reg 2, Ptr 0x20f8fc00, Imm 4, Imm 0x40, Imm 0, Imm 0], Count,
    Syscall NR_recvfrom [Reg 2, Ptr 0x20faa800, Imm 0xd1, Imm 0x40, Imm 0, Imm 0], Count]"

definition min_mysql_recvfrom_sendto_20_0_body294 :: "stmt list" where
  "min_mysql_recvfrom_sendto_20_0_body294 = [
    Syscall NR_sendto [Reg 2, Write_buf, Imm 0xd, Imm 0x40, Imm 0, Imm 0], Count,
    Syscall NR_recvfrom [Reg 2, Ptr 0x20fdfc40, Imm 4, Imm 0x40, Imm 0, Imm 0], Count,
    Syscall NR_recvfrom [Reg 2, Ptr 0x20ff6bc0, Imm 0xb, Imm 0x40, Imm 0, Imm 0], Count,
    Syscall NR_sendto [Reg 2, Write_buf, Imm 0x18, Imm 0x40, Imm 0, Imm 0], Count,
    Syscall NR_recvfrom [Reg 2, Ptr 0x202acdc0, Imm 4, Imm 0x40, Imm 0, Imm 0], Count,
    Syscall NR_recvfrom [Reg 2, Ptr 0x202bd400, Imm 8, Imm 0x40, Imm 0, Imm 0], Count,
    Syscall NR_sendto [Reg 2, Write_buf, Imm 0x18, Imm 0x40, Imm 0, Imm 0], Count,
    Syscall NR_recvfrom [Reg 2, Ptr 0x202c6480, Imm 4, Imm 0x40, Imm 0, Imm 0], Count,
    Syscall NR_recvfrom [Reg 2, Ptr 0x202dcdc0, Imm 0x15, Imm 0x40, Imm 0, Imm 0], Count,
    Syscall NR_sendto [Reg 2, Write_buf, Imm 0xbe, Imm 0x40, Imm 0, Imm 0], Count]"

definition min_mysql_recvfrom_sendto_20_0_body295 :: "stmt list" where
  "min_mysql_recvfrom_sendto_20_0_body295 = [
    Syscall NR_recvfrom [Reg 2, Ptr 0x20302240, Imm 4, Imm 0x40, Imm 0, Imm 0], Count,
    Syscall NR_recvfrom [Reg 2, Ptr 0x2030fd00, Imm 0x15, Imm 0x40, Imm 0, Imm 0], Count,
    Syscall NR_sendto [Reg 2, Write_buf, Imm 0xbe, Imm 0x40, Imm 0, Imm 0], Count,
    Syscall NR_recvfrom [Reg 2, Ptr 0x20335dc0, Imm 4, Imm 0x40, Imm 0, Imm 0], Count,
    Syscall NR_recvfrom [Reg 2, Ptr 0x2033ba40, Imm 0x15, Imm 0x40, Imm 0, Imm 0], Count,
    Syscall NR_sendto [Reg 2, Write_buf, Imm 0xbe, Imm 0x40, Imm 0, Imm 0], Count,
    Syscall NR_recvfrom [Reg 2, Ptr 0x2034ad40, Imm 4, Imm 0x40, Imm 0, Imm 0], Count,
    Syscall NR_recvfrom [Reg 2, Ptr 0x203516c0, Imm 0x15, Imm 0x40, Imm 0, Imm 0], Count,
    Syscall NR_sendto [Reg 2, Write_buf, Imm 0xbe, Imm 0x40, Imm 0, Imm 0], Count,
    Syscall NR_recvfrom [Reg 2, Ptr 0x20361b00, Imm 4, Imm 0x40, Imm 0, Imm 0], Count]"

definition min_mysql_recvfrom_sendto_20_0_body296 :: "stmt list" where
  "min_mysql_recvfrom_sendto_20_0_body296 = [
    Syscall NR_recvfrom [Reg 2, Ptr 0x20368440, Imm 0x15, Imm 0x40, Imm 0, Imm 0], Count,
    Syscall NR_sendto [Reg 2, Write_buf, Imm 0xbe, Imm 0x40, Imm 0, Imm 0], Count,
    Syscall NR_recvfrom [Reg 2, Ptr 0x2037b880, Imm 4, Imm 0x40, Imm 0, Imm 0], Count,
    Syscall NR_recvfrom [Reg 2, Ptr 0x20384000, Imm 0x15, Imm 0x40, Imm 0, Imm 0], Count,
    Syscall NR_sendto [Reg 2, Write_buf, Imm 0xbe, Imm 0x40, Imm 0, Imm 0], Count,
    Syscall NR_recvfrom [Reg 2, Ptr 0x2038ac80, Imm 4, Imm 0x40, Imm 0, Imm 0], Count,
    Syscall NR_recvfrom [Reg 2, Ptr 0x2038b3c0, Imm 0x15, Imm 0x40, Imm 0, Imm 0], Count,
    Syscall NR_sendto [Reg 2, Write_buf, Imm 0xbe, Imm 0x40, Imm 0, Imm 0], Count,
    Syscall NR_recvfrom [Reg 2, Ptr 0x2038c900, Imm 4, Imm 0x40, Imm 0, Imm 0], Count,
    Syscall NR_recvfrom [Reg 2, Ptr 0x2038ce80, Imm 0x15, Imm 0x40, Imm 0, Imm 0], Count]"

definition min_mysql_recvfrom_sendto_20_0_body297 :: "stmt list" where
  "min_mysql_recvfrom_sendto_20_0_body297 = [
    Syscall NR_sendto [Reg 2, Write_buf, Imm 0xbe, Imm 0x40, Imm 0, Imm 0], Count,
    Syscall NR_recvfrom [Reg 2, Ptr 0x2038e1c0, Imm 4, Imm 0x40, Imm 0, Imm 0], Count,
    Syscall NR_recvfrom [Reg 2, Ptr 0x2038e7c0, Imm 0x15, Imm 0x40, Imm 0, Imm 0], Count,
    Syscall NR_sendto [Reg 2, Write_buf, Imm 0xbe, Imm 0x40, Imm 0, Imm 0], Count,
    Syscall NR_recvfrom [Reg 2, Ptr 0x2038f880, Imm 4, Imm 0x40, Imm 0, Imm 0], Count,
    Syscall NR_recvfrom [Reg 2, Ptr 0x2038fd00, Imm 0x15, Imm 0x40, Imm 0, Imm 0], Count,
    Syscall NR_sendto [Reg 2, Write_buf, Imm 0xbe, Imm 0x40, Imm 0, Imm 0], Count,
    Syscall NR_recvfrom [Reg 2, Ptr 0x20393b80, Imm 4, Imm 0x40, Imm 0, Imm 0], Count,
    Syscall NR_recvfrom [Reg 2, Ptr 0x20397400, Imm 0x1d, Imm 0x40, Imm 0, Imm 0], Count,
    Syscall NR_sendto [Reg 2, Write_buf, Imm 0x3178, Imm 0x40, Imm 0, Imm 0], Count]"

definition min_mysql_recvfrom_sendto_20_0_body298 :: "stmt list" where
  "min_mysql_recvfrom_sendto_20_0_body298 = [
    Syscall NR_recvfrom [Reg 2, Ptr 0x203a2f80, Imm 4, Imm 0x40, Imm 0, Imm 0], Count,
    Syscall NR_recvfrom [Reg 2, Ptr 0x203a31c0, Imm 0x1d, Imm 0x40, Imm 0, Imm 0], Count,
    Syscall NR_sendto [Reg 2, Write_buf, Imm 0x3c, Imm 0x40, Imm 0, Imm 0], Count,
    Syscall NR_recvfrom [Reg 2, Ptr 0x203a66c0, Imm 4, Imm 0x40, Imm 0, Imm 0], Count,
    Syscall NR_recvfrom [Reg 2, Ptr 0x203a8180, Imm 0x1d, Imm 0x40, Imm 0, Imm 0], Count,
    Syscall NR_sendto [Reg 2, Write_buf, Imm 0x1e48, Imm 0x40, Imm 0, Imm 0], Count,
    Syscall NR_recvfrom [Reg 2, Ptr 0x203ad700, Imm 4, Imm 0x40, Imm 0, Imm 0], Count,
    Syscall NR_recvfrom [Reg 2, Ptr 0x203b7280, Imm 0x1d, Imm 0x40, Imm 0, Imm 0], Count,
    Syscall NR_sendto [Reg 2, Write_buf, Imm 0x3178, Imm 0x40, Imm 0, Imm 0], Count,
    Syscall NR_recvfrom [Reg 2, Ptr 0x204ad400, Imm 4, Imm 0x40, Imm 0, Imm 0], Count]"

definition min_mysql_recvfrom_sendto_20_0_body299 :: "stmt list" where
  "min_mysql_recvfrom_sendto_20_0_body299 = [
    Syscall NR_recvfrom [Reg 2, Ptr 0x204b0780, Imm 0x15, Imm 0x40, Imm 0, Imm 0], Count,
    Syscall NR_sendto [Reg 2, Write_buf, Imm 0x34, Imm 0x40, Imm 0, Imm 0], Count,
    Syscall NR_recvfrom [Reg 2, Ptr 0x204c1080, Imm 4, Imm 0x40, Imm 0, Imm 0], Count,
    Syscall NR_recvfrom [Reg 2, Ptr 0x204d4740, Imm 0x8d, Imm 0x40, Imm 0, Imm 0], Count,
    Syscall NR_sendto [Reg 2, Write_buf, Imm 0x34, Imm 0x40, Imm 0, Imm 0], Count,
    Syscall NR_recvfrom [Reg 2, Ptr 0x204f4600, Imm 4, Imm 0x40, Imm 0, Imm 0], Count,
    Syscall NR_recvfrom [Reg 2, Ptr 0x204f9c00, Imm 0x15, Imm 0x40, Imm 0, Imm 0], Count,
    Syscall NR_sendto [Reg 2, Write_buf, Imm 0xb, Imm 0x40, Imm 0, Imm 0], Count,
    Syscall NR_recvfrom [Reg 2, Ptr 0x204fe400, Imm 4, Imm 0x40, Imm 0, Imm 0], Count,
    Syscall NR_recvfrom [Reg 2, Ptr 0x205018c0, Imm 0xd1, Imm 0x40, Imm 0, Imm 0], Count]"

definition min_mysql_recvfrom_sendto_20_0_body300 :: "stmt list" where
  "min_mysql_recvfrom_sendto_20_0_body300 = [
    Syscall NR_sendto [Reg 2, Write_buf, Imm 0xd, Imm 0x40, Imm 0, Imm 0], Count,
    Syscall NR_recvfrom [Reg 2, Ptr 0x20515bc0, Imm 4, Imm 0x40, Imm 0, Imm 0], Count,
    Syscall NR_recvfrom [Reg 2, Ptr 0x2051a400, Imm 0xb, Imm 0x40, Imm 0, Imm 0], Count,
    Syscall NR_sendto [Reg 2, Write_buf, Imm 0x18, Imm 0x40, Imm 0, Imm 0], Count,
    Syscall NR_recvfrom [Reg 2, Ptr 0x208d42c0, Imm 4, Imm 0x40, Imm 0, Imm 0], Count,
    Syscall NR_recvfrom [Reg 2, Ptr 0x208ded80, Imm 8, Imm 0x40, Imm 0, Imm 0], Count,
    Syscall NR_sendto [Reg 2, Write_buf, Imm 0x18, Imm 0x40, Imm 0, Imm 0], Count,
    Syscall NR_recvfrom [Reg 2, Ptr 0x209156c0, Imm 4, Imm 0x40, Imm 0, Imm 0], Count,
    Syscall NR_recvfrom [Reg 2, Ptr 0x20929e40, Imm 0x15, Imm 0x40, Imm 0, Imm 0], Count,
    Syscall NR_sendto [Reg 2, Write_buf, Imm 0xbe, Imm 0x40, Imm 0, Imm 0], Count]"

definition min_mysql_recvfrom_sendto_20_0_body301 :: "stmt list" where
  "min_mysql_recvfrom_sendto_20_0_body301 = [
    Syscall NR_recvfrom [Reg 2, Ptr 0x2094bb40, Imm 4, Imm 0x40, Imm 0, Imm 0], Count,
    Syscall NR_recvfrom [Reg 2, Ptr 0x20958040, Imm 0x15, Imm 0x40, Imm 0, Imm 0], Count,
    Syscall NR_sendto [Reg 2, Write_buf, Imm 0xbe, Imm 0x40, Imm 0, Imm 0], Count,
    Syscall NR_recvfrom [Reg 2, Ptr 0x20965100, Imm 4, Imm 0x40, Imm 0, Imm 0], Count,
    Syscall NR_recvfrom [Reg 2, Ptr 0x20965880, Imm 0x15, Imm 0x40, Imm 0, Imm 0], Count,
    Syscall NR_sendto [Reg 2, Write_buf, Imm 0xbe, Imm 0x40, Imm 0, Imm 0], Count,
    Syscall NR_recvfrom [Reg 2, Ptr 0x20972900, Imm 4, Imm 0x40, Imm 0, Imm 0], Count,
    Syscall NR_recvfrom [Reg 2, Ptr 0x20982880, Imm 0x15, Imm 0x40, Imm 0, Imm 0], Count,
    Syscall NR_sendto [Reg 2, Write_buf, Imm 0xbe, Imm 0x40, Imm 0, Imm 0], Count,
    Syscall NR_recvfrom [Reg 2, Ptr 0x209a8ac0, Imm 4, Imm 0x40, Imm 0, Imm 0], Count]"

definition min_mysql_recvfrom_sendto_20_0_body302 :: "stmt list" where
  "min_mysql_recvfrom_sendto_20_0_body302 = [
    Syscall NR_recvfrom [Reg 2, Ptr 0x209b1400, Imm 0x15, Imm 0x40, Imm 0, Imm 0], Count,
    Syscall NR_sendto [Reg 2, Write_buf, Imm 0xbe, Imm 0x40, Imm 0, Imm 0], Count,
    Syscall NR_recvfrom [Reg 2, Ptr 0x209d7280, Imm 4, Imm 0x40, Imm 0, Imm 0], Count,
    Syscall NR_recvfrom [Reg 2, Ptr 0x209dcb40, Imm 0x15, Imm 0x40, Imm 0, Imm 0], Count,
    Syscall NR_sendto [Reg 2, Write_buf, Imm 0xbe, Imm 0x40, Imm 0, Imm 0], Count,
    Syscall NR_recvfrom [Reg 2, Ptr 0x209ef800, Imm 4, Imm 0x40, Imm 0, Imm 0], Count,
    Syscall NR_recvfrom [Reg 2, Ptr 0x209fcfc0, Imm 0x15, Imm 0x40, Imm 0, Imm 0], Count,
    Syscall NR_sendto [Reg 2, Write_buf, Imm 0xbe, Imm 0x40, Imm 0, Imm 0], Count,
    Syscall NR_recvfrom [Reg 2, Ptr 0x20a0de80, Imm 4, Imm 0x40, Imm 0, Imm 0], Count,
    Syscall NR_recvfrom [Reg 2, Ptr 0x20a27a80, Imm 0x15, Imm 0x40, Imm 0, Imm 0], Count]"

definition min_mysql_recvfrom_sendto_20_0_body303 :: "stmt list" where
  "min_mysql_recvfrom_sendto_20_0_body303 = [
    Syscall NR_sendto [Reg 2, Write_buf, Imm 0xbe, Imm 0x40, Imm 0, Imm 0], Count,
    Syscall NR_recvfrom [Reg 2, Ptr 0x20a3ebc0, Imm 4, Imm 0x40, Imm 0, Imm 0], Count,
    Syscall NR_recvfrom [Reg 2, Ptr 0x20a4d600, Imm 0x15, Imm 0x40, Imm 0, Imm 0], Count,
    Syscall NR_sendto [Reg 2, Write_buf, Imm 0xbe, Imm 0x40, Imm 0, Imm 0], Count,
    Syscall NR_recvfrom [Reg 2, Ptr 0x20a576c0, Imm 4, Imm 0x40, Imm 0, Imm 0], Count,
    Syscall NR_recvfrom [Reg 2, Ptr 0x20a5e100, Imm 0x15, Imm 0x40, Imm 0, Imm 0], Count,
    Syscall NR_sendto [Reg 2, Write_buf, Imm 0xbe, Imm 0x40, Imm 0, Imm 0], Count,
    Syscall NR_recvfrom [Reg 2, Ptr 0x20a650c0, Imm 4, Imm 0x40, Imm 0, Imm 0], Count,
    Syscall NR_recvfrom [Reg 2, Ptr 0x20a74c80, Imm 0x1d, Imm 0x40, Imm 0, Imm 0], Count,
    Syscall NR_sendto [Reg 2, Write_buf, Imm 0x317a, Imm 0x40, Imm 0, Imm 0], Count]"

definition min_mysql_recvfrom_sendto_20_0_body304 :: "stmt list" where
  "min_mysql_recvfrom_sendto_20_0_body304 = [
    Syscall NR_recvfrom [Reg 2, Ptr 0x20a85040, Imm 4, Imm 0x40, Imm 0, Imm 0], Count,
    Syscall NR_recvfrom [Reg 2, Ptr 0x20a91b80, Imm 0x1d, Imm 0x40, Imm 0, Imm 0], Count,
    Syscall NR_sendto [Reg 2, Write_buf, Imm 0x3c, Imm 0x40, Imm 0, Imm 0], Count,
    Syscall NR_recvfrom [Reg 2, Ptr 0x20ab6000, Imm 4, Imm 0x40, Imm 0, Imm 0], Count,
    Syscall NR_recvfrom [Reg 2, Ptr 0x20ab9600, Imm 0x1d, Imm 0x40, Imm 0, Imm 0], Count,
    Syscall NR_sendto [Reg 2, Write_buf, Imm 0x317a, Imm 0x40, Imm 0, Imm 0], Count,
    Syscall NR_recvfrom [Reg 2, Ptr 0x20b92880, Imm 4, Imm 0x40, Imm 0, Imm 0], Count,
    Syscall NR_recvfrom [Reg 2, Ptr 0x20b98cc0, Imm 0x1d, Imm 0x40, Imm 0, Imm 0], Count,
    Syscall NR_sendto [Reg 2, Write_buf, Imm 0x3178, Imm 0x40, Imm 0, Imm 0], Count,
    Syscall NR_recvfrom [Reg 2, Ptr 0x20c43300, Imm 4, Imm 0x40, Imm 0, Imm 0], Count]"

definition min_mysql_recvfrom_sendto_20_0_body305 :: "stmt list" where
  "min_mysql_recvfrom_sendto_20_0_body305 = [
    Syscall NR_recvfrom [Reg 2, Ptr 0x20c46d40, Imm 0x15, Imm 0x40, Imm 0, Imm 0], Count,
    Syscall NR_sendto [Reg 2, Write_buf, Imm 0x34, Imm 0x40, Imm 0, Imm 0], Count,
    Syscall NR_recvfrom [Reg 2, Ptr 0x20c4fe40, Imm 4, Imm 0x40, Imm 0, Imm 0], Count,
    Syscall NR_recvfrom [Reg 2, Ptr 0x20c56a00, Imm 0x8d, Imm 0x40, Imm 0, Imm 0], Count,
    Syscall NR_sendto [Reg 2, Write_buf, Imm 0x34, Imm 0x40, Imm 0, Imm 0], Count,
    Syscall NR_recvfrom [Reg 2, Ptr 0x20c5acc0, Imm 4, Imm 0x40, Imm 0, Imm 0], Count,
    Syscall NR_recvfrom [Reg 2, Ptr 0x20c5b640, Imm 0x15, Imm 0x40, Imm 0, Imm 0], Count,
    Syscall NR_sendto [Reg 2, Write_buf, Imm 0xb, Imm 0x40, Imm 0, Imm 0], Count,
    Syscall NR_recvfrom [Reg 2, Ptr 0x20c5c740, Imm 4, Imm 0x40, Imm 0, Imm 0], Count,
    Syscall NR_recvfrom [Reg 2, Ptr 0x20c5d2c0, Imm 0xd1, Imm 0x40, Imm 0, Imm 0], Count]"

definition min_mysql_recvfrom_sendto_20_0_body306 :: "stmt list" where
  "min_mysql_recvfrom_sendto_20_0_body306 = [
    Syscall NR_sendto [Reg 2, Write_buf, Imm 0xd, Imm 0x40, Imm 0, Imm 0], Count,
    Syscall NR_recvfrom [Reg 2, Ptr 0x20c5e540, Imm 4, Imm 0x40, Imm 0, Imm 0], Count,
    Syscall NR_recvfrom [Reg 2, Ptr 0x20c5ed40, Imm 0xb, Imm 0x40, Imm 0, Imm 0], Count,
    Syscall NR_sendto [Reg 2, Write_buf, Imm 0x18, Imm 0x40, Imm 0, Imm 0], Count,
    Syscall NR_recvfrom [Reg 2, Ptr 0x20f01780, Imm 4, Imm 0x40, Imm 0, Imm 0], Count,
    Syscall NR_recvfrom [Reg 2, Ptr 0x20f085c0, Imm 8, Imm 0x40, Imm 0, Imm 0], Count,
    Syscall NR_sendto [Reg 2, Write_buf, Imm 0x18, Imm 0x40, Imm 0, Imm 0], Count,
    Syscall NR_recvfrom [Reg 2, Ptr 0x20f22400, Imm 4, Imm 0x40, Imm 0, Imm 0], Count,
    Syscall NR_recvfrom [Reg 2, Ptr 0x20f322c0, Imm 0x15, Imm 0x40, Imm 0, Imm 0], Count,
    Syscall NR_sendto [Reg 2, Write_buf, Imm 0xc0, Imm 0x40, Imm 0, Imm 0], Count]"

definition min_mysql_recvfrom_sendto_20_0_body307 :: "stmt list" where
  "min_mysql_recvfrom_sendto_20_0_body307 = [
    Syscall NR_recvfrom [Reg 2, Ptr 0x20f4c240, Imm 4, Imm 0x40, Imm 0, Imm 0], Count,
    Syscall NR_recvfrom [Reg 2, Ptr 0x20f52fc0, Imm 0x15, Imm 0x40, Imm 0, Imm 0], Count,
    Syscall NR_sendto [Reg 2, Write_buf, Imm 0xc0, Imm 0x40, Imm 0, Imm 0], Count,
    Syscall NR_recvfrom [Reg 2, Ptr 0x20f69ec0, Imm 4, Imm 0x40, Imm 0, Imm 0], Count,
    Syscall NR_recvfrom [Reg 2, Ptr 0x20f70a00, Imm 0x15, Imm 0x40, Imm 0, Imm 0], Count,
    Syscall NR_sendto [Reg 2, Write_buf, Imm 0xc0, Imm 0x40, Imm 0, Imm 0], Count,
    Syscall NR_recvfrom [Reg 2, Ptr 0x20f73d80, Imm 4, Imm 0x40, Imm 0, Imm 0], Count,
    Syscall NR_recvfrom [Reg 2, Ptr 0x20f74800, Imm 0x15, Imm 0x40, Imm 0, Imm 0], Count,
    Syscall NR_sendto [Reg 2, Write_buf, Imm 0xc0, Imm 0x40, Imm 0, Imm 0], Count,
    Syscall NR_recvfrom [Reg 2, Ptr 0x20f88b80, Imm 4, Imm 0x40, Imm 0, Imm 0], Count]"

definition min_mysql_recvfrom_sendto_20_0_body308 :: "stmt list" where
  "min_mysql_recvfrom_sendto_20_0_body308 = [
    Syscall NR_recvfrom [Reg 2, Ptr 0x20f9a700, Imm 0x15, Imm 0x40, Imm 0, Imm 0], Count,
    Syscall NR_sendto [Reg 2, Write_buf, Imm 0xc0, Imm 0x40, Imm 0, Imm 0], Count,
    Syscall NR_recvfrom [Reg 2, Ptr 0x20fc1fc0, Imm 4, Imm 0x40, Imm 0, Imm 0], Count,
    Syscall NR_recvfrom [Reg 2, Ptr 0x20ff2c00, Imm 0x15, Imm 0x40, Imm 0, Imm 0], Count,
    Syscall NR_sendto [Reg 2, Write_buf, Imm 0xc0, Imm 0x40, Imm 0, Imm 0], Count,
    Syscall NR_recvfrom [Reg 2, Ptr 0x20045840, Imm 4, Imm 0x40, Imm 0, Imm 0], Count,
    Syscall NR_recvfrom [Reg 2, Ptr 0x20058640, Imm 0x15, Imm 0x40, Imm 0, Imm 0], Count,
    Syscall NR_sendto [Reg 2, Write_buf, Imm 0xc0, Imm 0x40, Imm 0, Imm 0], Count,
    Syscall NR_recvfrom [Reg 2, Ptr 0x20065b00, Imm 4, Imm 0x40, Imm 0, Imm 0], Count,
    Syscall NR_recvfrom [Reg 2, Ptr 0x2006c600, Imm 0x15, Imm 0x40, Imm 0, Imm 0], Count]"

definition min_mysql_recvfrom_sendto_20_0_body309 :: "stmt list" where
  "min_mysql_recvfrom_sendto_20_0_body309 = [
    Syscall NR_sendto [Reg 2, Write_buf, Imm 0xc0, Imm 0x40, Imm 0, Imm 0], Count,
    Syscall NR_recvfrom [Reg 2, Ptr 0x20079ec0, Imm 4, Imm 0x40, Imm 0, Imm 0], Count,
    Syscall NR_recvfrom [Reg 2, Ptr 0x20080840, Imm 0x15, Imm 0x40, Imm 0, Imm 0], Count,
    Syscall NR_sendto [Reg 2, Write_buf, Imm 0xc0, Imm 0x40, Imm 0, Imm 0], Count,
    Syscall NR_recvfrom [Reg 2, Ptr 0x200a0600, Imm 4, Imm 0x40, Imm 0, Imm 0], Count,
    Syscall NR_recvfrom [Reg 2, Ptr 0x200b0540, Imm 0x15, Imm 0x40, Imm 0, Imm 0], Count,
    Syscall NR_sendto [Reg 2, Write_buf, Imm 0xc0, Imm 0x40, Imm 0, Imm 0], Count,
    Syscall NR_recvfrom [Reg 2, Ptr 0x200c99c0, Imm 4, Imm 0x40, Imm 0, Imm 0], Count,
    Syscall NR_recvfrom [Reg 2, Ptr 0x200cd040, Imm 0x1d, Imm 0x40, Imm 0, Imm 0], Count,
    Syscall NR_sendto [Reg 2, Write_buf, Imm 0x317a, Imm 0x40, Imm 0, Imm 0], Count]"

definition min_mysql_recvfrom_sendto_20_0_body310 :: "stmt list" where
  "min_mysql_recvfrom_sendto_20_0_body310 = [
    Syscall NR_recvfrom [Reg 2, Ptr 0x200ef380, Imm 4, Imm 0x40, Imm 0, Imm 0], Count,
    Syscall NR_recvfrom [Reg 2, Ptr 0x20103a80, Imm 0x1d, Imm 0x40, Imm 0, Imm 0], Count,
    Syscall NR_sendto [Reg 2, Write_buf, Imm 0x3c, Imm 0x40, Imm 0, Imm 0], Count,
    Syscall NR_recvfrom [Reg 2, Ptr 0x20151cc0, Imm 4, Imm 0x40, Imm 0, Imm 0], Count,
    Syscall NR_recvfrom [Reg 2, Ptr 0x201701c0, Imm 0x23, Imm 0x40, Imm 0, Imm 0], Count,
    Syscall NR_sendto [Reg 2, Write_buf, Imm 0x726, Imm 0x40, Imm 0, Imm 0], Count,
    Syscall NR_recvfrom [Reg 2, Ptr 0x2019ce40, Imm 4, Imm 0x40, Imm 0, Imm 0], Count,
    Syscall NR_recvfrom [Reg 2, Ptr 0x201c08c0, Imm 0x1d, Imm 0x40, Imm 0, Imm 0], Count,
    Syscall NR_sendto [Reg 2, Write_buf, Imm 0x3178, Imm 0x40, Imm 0, Imm 0], Count,
    Syscall NR_recvfrom [Reg 2, Ptr 0x202eb180, Imm 4, Imm 0x40, Imm 0, Imm 0], Count]"

definition min_mysql_recvfrom_sendto_20_0_body311 :: "stmt list" where
  "min_mysql_recvfrom_sendto_20_0_body311 = [
    Syscall NR_recvfrom [Reg 2, Ptr 0x2030a880, Imm 0x15, Imm 0x40, Imm 0, Imm 0], Count,
    Syscall NR_sendto [Reg 2, Write_buf, Imm 0x34, Imm 0x40, Imm 0, Imm 0], Count,
    Syscall NR_recvfrom [Reg 2, Ptr 0x20347440, Imm 4, Imm 0x40, Imm 0, Imm 0], Count,
    Syscall NR_recvfrom [Reg 2, Ptr 0x20352d40, Imm 0x8d, Imm 0x40, Imm 0, Imm 0], Count,
    Syscall NR_sendto [Reg 2, Write_buf, Imm 0x34, Imm 0x40, Imm 0, Imm 0], Count,
    Syscall NR_recvfrom [Reg 2, Ptr 0x20364540, Imm 4, Imm 0x40, Imm 0, Imm 0], Count,
    Syscall NR_recvfrom [Reg 2, Ptr 0x20364a80, Imm 0x15, Imm 0x40, Imm 0, Imm 0], Count,
    Syscall NR_sendto [Reg 2, Write_buf, Imm 0xb, Imm 0x40, Imm 0, Imm 0], Count,
    Syscall NR_recvfrom [Reg 2, Ptr 0x20374880, Imm 4, Imm 0x40, Imm 0, Imm 0], Count,
    Syscall NR_recvfrom [Reg 2, Ptr 0x2037ad40, Imm 0xd1, Imm 0x40, Imm 0, Imm 0], Count]"

definition min_mysql_recvfrom_sendto_20_0_body312 :: "stmt list" where
  "min_mysql_recvfrom_sendto_20_0_body312 = [
    Syscall NR_sendto [Reg 2, Write_buf, Imm 0xb, Imm 0x40, Imm 0, Imm 0], Count,
    Syscall NR_recvfrom [Reg 2, Ptr 0x2038d9c0, Imm 4, Imm 0x40, Imm 0, Imm 0], Count,
    Syscall NR_recvfrom [Reg 2, Ptr 0x2039d980, Imm 0xb, Imm 0x40, Imm 0, Imm 0], Count,
    Syscall NR_sendto [Reg 2, Write_buf, Imm 0x18, Imm 0x40, Imm 0, Imm 0], Count,
    Syscall NR_recvfrom [Reg 2, Ptr 0x208c6040, Imm 4, Imm 0x40, Imm 0, Imm 0], Count,
    Syscall NR_recvfrom [Reg 2, Ptr 0x208c6380, Imm 8, Imm 0x40, Imm 0, Imm 0], Count,
    Syscall NR_sendto [Reg 2, Write_buf, Imm 0x18, Imm 0x40, Imm 0, Imm 0], Count,
    Syscall NR_recvfrom [Reg 2, Ptr 0x208c6a80, Imm 4, Imm 0x40, Imm 0, Imm 0], Count,
    Syscall NR_recvfrom [Reg 2, Ptr 0x208c6e80, Imm 0x15, Imm 0x40, Imm 0, Imm 0], Count,
    Syscall NR_sendto [Reg 2, Write_buf, Imm 0xc0, Imm 0x40, Imm 0, Imm 0], Count]"

definition min_mysql_recvfrom_sendto_20_0_body313 :: "stmt list" where
  "min_mysql_recvfrom_sendto_20_0_body313 = [
    Syscall NR_recvfrom [Reg 2, Ptr 0x208c7a40, Imm 4, Imm 0x40, Imm 0, Imm 0], Count,
    Syscall NR_recvfrom [Reg 2, Ptr 0x208c8140, Imm 0x15, Imm 0x40, Imm 0, Imm 0], Count,
    Syscall NR_sendto [Reg 2, Write_buf, Imm 0xc0, Imm 0x40, Imm 0, Imm 0], Count,
    Syscall NR_recvfrom [Reg 2, Ptr 0x208c8a40, Imm 4, Imm 0x40, Imm 0, Imm 0], Count,
    Syscall NR_recvfrom [Reg 2, Ptr 0x208c9040, Imm 0x15, Imm 0x40, Imm 0, Imm 0], Count,
    Syscall NR_sendto [Reg 2, Write_buf, Imm 0xc0, Imm 0x40, Imm 0, Imm 0], Count,
    Syscall NR_recvfrom [Reg 2, Ptr 0x208c9940, Imm 4, Imm 0x40, Imm 0, Imm 0], Count,
    Syscall NR_recvfrom [Reg 2, Ptr 0x208c9e80, Imm 0x15, Imm 0x40, Imm 0, Imm 0], Count,
    Syscall NR_sendto [Reg 2, Write_buf, Imm 0xc0, Imm 0x40, Imm 0, Imm 0], Count,
    Syscall NR_recvfrom [Reg 2, Ptr 0x208cae00, Imm 4, Imm 0x40, Imm 0, Imm 0], Count]"

definition min_mysql_recvfrom_sendto_20_0_body314 :: "stmt list" where
  "min_mysql_recvfrom_sendto_20_0_body314 = [
    Syscall NR_recvfrom [Reg 2, Ptr 0x208cb1c0, Imm 0x15, Imm 0x40, Imm 0, Imm 0], Count,
    Syscall NR_sendto [Reg 2, Write_buf, Imm 0xc0, Imm 0x40, Imm 0, Imm 0], Count,
    Syscall NR_recvfrom [Reg 2, Ptr 0x208cbc00, Imm 4, Imm 0x40, Imm 0, Imm 0], Count,
    Syscall NR_recvfrom [Reg 2, Ptr 0x208cbfc0, Imm 0x15, Imm 0x40, Imm 0, Imm 0], Count,
    Syscall NR_sendto [Reg 2, Write_buf, Imm 0xc0, Imm 0x40, Imm 0, Imm 0], Count,
    Syscall NR_recvfrom [Reg 2, Ptr 0x208cc9c0, Imm 4, Imm 0x40, Imm 0, Imm 0], Count,
    Syscall NR_recvfrom [Reg 2, Ptr 0x208ccd80, Imm 0x15, Imm 0x40, Imm 0, Imm 0], Count,
    Syscall NR_sendto [Reg 2, Write_buf, Imm 0xc0, Imm 0x40, Imm 0, Imm 0], Count,
    Syscall NR_recvfrom [Reg 2, Ptr 0x208cd780, Imm 4, Imm 0x40, Imm 0, Imm 0], Count,
    Syscall NR_recvfrom [Reg 2, Ptr 0x208cdb40, Imm 0x15, Imm 0x40, Imm 0, Imm 0], Count]"

definition min_mysql_recvfrom_sendto_20_0_body315 :: "stmt list" where
  "min_mysql_recvfrom_sendto_20_0_body315 = [
    Syscall NR_sendto [Reg 2, Write_buf, Imm 0xc0, Imm 0x40, Imm 0, Imm 0], Count,
    Syscall NR_recvfrom [Reg 2, Ptr 0x208ce540, Imm 4, Imm 0x40, Imm 0, Imm 0], Count,
    Syscall NR_recvfrom [Reg 2, Ptr 0x208ce780, Imm 0x15, Imm 0x40, Imm 0, Imm 0], Count,
    Syscall NR_sendto [Reg 2, Write_buf, Imm 0xc0, Imm 0x40, Imm 0, Imm 0], Count,
    Syscall NR_recvfrom [Reg 2, Ptr 0x208d5400, Imm 4, Imm 0x40, Imm 0, Imm 0], Count,
    Syscall NR_recvfrom [Reg 2, Ptr 0x208d56c0, Imm 0x15, Imm 0x40, Imm 0, Imm 0], Count,
    Syscall NR_sendto [Reg 2, Write_buf, Imm 0xc0, Imm 0x40, Imm 0, Imm 0], Count,
    Syscall NR_recvfrom [Reg 2, Ptr 0x208de740, Imm 4, Imm 0x40, Imm 0, Imm 0], Count,
    Syscall NR_recvfrom [Reg 2, Ptr 0x208dec00, Imm 0x23, Imm 0x40, Imm 0, Imm 0], Count,
    Syscall NR_sendto [Reg 2, Write_buf, Imm 0x3178, Imm 0x40, Imm 0, Imm 0], Count]"

definition min_mysql_recvfrom_sendto_20_0_body316 :: "stmt list" where
  "min_mysql_recvfrom_sendto_20_0_body316 = [
    Syscall NR_recvfrom [Reg 2, Ptr 0x208e7f80, Imm 4, Imm 0x40, Imm 0, Imm 0], Count,
    Syscall NR_recvfrom [Reg 2, Ptr 0x20908200, Imm 0x23, Imm 0x40, Imm 0, Imm 0], Count,
    Syscall NR_sendto [Reg 2, Write_buf, Imm 0x3c, Imm 0x40, Imm 0, Imm 0], Count,
    Syscall NR_recvfrom [Reg 2, Ptr 0x2090edc0, Imm 4, Imm 0x40, Imm 0, Imm 0], Count,
    Syscall NR_recvfrom [Reg 2, Ptr 0x209215c0, Imm 0x1d, Imm 0x40, Imm 0, Imm 0], Count,
    Syscall NR_sendto [Reg 2, Write_buf, Imm 0x3178, Imm 0x40, Imm 0, Imm 0], Count,
    Syscall NR_recvfrom [Reg 2, Ptr 0x20a48f80, Imm 4, Imm 0x40, Imm 0, Imm 0], Count,
    Syscall NR_recvfrom [Reg 2, Ptr 0x20a65300, Imm 0x1d, Imm 0x40, Imm 0, Imm 0], Count,
    Syscall NR_sendto [Reg 2, Write_buf, Imm 0x3178, Imm 0x40, Imm 0, Imm 0], Count,
    Syscall NR_recvfrom [Reg 2, Ptr 0x20ba47c0, Imm 4, Imm 0x40, Imm 0, Imm 0], Count]"

definition min_mysql_recvfrom_sendto_20_0_body317 :: "stmt list" where
  "min_mysql_recvfrom_sendto_20_0_body317 = [
    Syscall NR_recvfrom [Reg 2, Ptr 0x20bae6c0, Imm 0x15, Imm 0x40, Imm 0, Imm 0], Count,
    Syscall NR_sendto [Reg 2, Write_buf, Imm 0x34, Imm 0x40, Imm 0, Imm 0], Count,
    Syscall NR_recvfrom [Reg 2, Ptr 0x20bc7fc0, Imm 4, Imm 0x40, Imm 0, Imm 0], Count,
    Syscall NR_recvfrom [Reg 2, Ptr 0x20bcbd40, Imm 0x8d, Imm 0x40, Imm 0, Imm 0], Count,
    Syscall NR_sendto [Reg 2, Write_buf, Imm 0x34, Imm 0x40, Imm 0, Imm 0], Count,
    Syscall NR_recvfrom [Reg 2, Ptr 0x20bd6fc0, Imm 4, Imm 0x40, Imm 0, Imm 0], Count,
    Syscall NR_recvfrom [Reg 2, Ptr 0x20bdbcc0, Imm 0x15, Imm 0x40, Imm 0, Imm 0], Count,
    Syscall NR_sendto [Reg 2, Write_buf, Imm 0xb, Imm 0x40, Imm 0, Imm 0], Count,
    Syscall NR_recvfrom [Reg 2, Ptr 0x20be3a40, Imm 4, Imm 0x40, Imm 0, Imm 0], Count,
    Syscall NR_recvfrom [Reg 2, Ptr 0x20be6c80, Imm 0xd1, Imm 0x40, Imm 0, Imm 0], Count]"

definition min_mysql_recvfrom_sendto_20_0_body318 :: "stmt list" where
  "min_mysql_recvfrom_sendto_20_0_body318 = [
    Syscall NR_sendto [Reg 2, Write_buf, Imm 0xd, Imm 0x40, Imm 0, Imm 0], Count,
    Syscall NR_recvfrom [Reg 2, Ptr 0x20c12e00, Imm 4, Imm 0x40, Imm 0, Imm 0], Count,
    Syscall NR_recvfrom [Reg 2, Ptr 0x20c49ec0, Imm 0xb, Imm 0x40, Imm 0, Imm 0], Count,
    Syscall NR_sendto [Reg 2, Write_buf, Imm 0x18, Imm 0x40, Imm 0, Imm 0], Count,
    Syscall NR_recvfrom [Reg 2, Ptr 0x200d34c0, Imm 4, Imm 0x40, Imm 0, Imm 0], Count,
    Syscall NR_recvfrom [Reg 2, Ptr 0x200d3780, Imm 8, Imm 0x40, Imm 0, Imm 0], Count,
    Syscall NR_sendto [Reg 2, Write_buf, Imm 0x18, Imm 0x40, Imm 0, Imm 0], Count,
    Syscall NR_recvfrom [Reg 2, Ptr 0x200d7000, Imm 4, Imm 0x40, Imm 0, Imm 0], Count,
    Syscall NR_recvfrom [Reg 2, Ptr 0x200da700, Imm 0x15, Imm 0x40, Imm 0, Imm 0], Count,
    Syscall NR_sendto [Reg 2, Write_buf, Imm 0xc0, Imm 0x40, Imm 0, Imm 0], Count]"

definition min_mysql_recvfrom_sendto_20_0_body319 :: "stmt list" where
  "min_mysql_recvfrom_sendto_20_0_body319 = [
    Syscall NR_recvfrom [Reg 2, Ptr 0x200db280, Imm 4, Imm 0x40, Imm 0, Imm 0], Count,
    Syscall NR_recvfrom [Reg 2, Ptr 0x200db680, Imm 0x15, Imm 0x40, Imm 0, Imm 0], Count,
    Syscall NR_sendto [Reg 2, Write_buf, Imm 0xc0, Imm 0x40, Imm 0, Imm 0], Count,
    Syscall NR_recvfrom [Reg 2, Ptr 0x200dc4c0, Imm 4, Imm 0x40, Imm 0, Imm 0], Count,
    Syscall NR_recvfrom [Reg 2, Ptr 0x200dc840, Imm 0x15, Imm 0x40, Imm 0, Imm 0], Count,
    Syscall NR_sendto [Reg 2, Write_buf, Imm 0xc0, Imm 0x40, Imm 0, Imm 0], Count,
    Syscall NR_recvfrom [Reg 2, Ptr 0x200dd740, Imm 4, Imm 0x40, Imm 0, Imm 0], Count,
    Syscall NR_recvfrom [Reg 2, Ptr 0x200ddcc0, Imm 0x15, Imm 0x40, Imm 0, Imm 0], Count,
    Syscall NR_sendto [Reg 2, Write_buf, Imm 0xc0, Imm 0x40, Imm 0, Imm 0], Count,
    Syscall NR_recvfrom [Reg 2, Ptr 0x200de840, Imm 4, Imm 0x40, Imm 0, Imm 0], Count]"

definition min_mysql_recvfrom_sendto_20_0_body320 :: "stmt list" where
  "min_mysql_recvfrom_sendto_20_0_body320 = [
    Syscall NR_recvfrom [Reg 2, Ptr 0x200debc0, Imm 0x15, Imm 0x40, Imm 0, Imm 0], Count,
    Syscall NR_sendto [Reg 2, Write_buf, Imm 0xc0, Imm 0x40, Imm 0, Imm 0], Count,
    Syscall NR_recvfrom [Reg 2, Ptr 0x200df680, Imm 4, Imm 0x40, Imm 0, Imm 0], Count,
    Syscall NR_recvfrom [Reg 2, Ptr 0x200dfbc0, Imm 0x15, Imm 0x40, Imm 0, Imm 0], Count,
    Syscall NR_sendto [Reg 2, Write_buf, Imm 0xc0, Imm 0x40, Imm 0, Imm 0], Count,
    Syscall NR_recvfrom [Reg 2, Ptr 0x200e0780, Imm 4, Imm 0x40, Imm 0, Imm 0], Count,
    Syscall NR_recvfrom [Reg 2, Ptr 0x200e0b40, Imm 0x15, Imm 0x40, Imm 0, Imm 0], Count,
    Syscall NR_sendto [Reg 2, Write_buf, Imm 0xc0, Imm 0x40, Imm 0, Imm 0], Count,
    Syscall NR_recvfrom [Reg 2, Ptr 0x200e1540, Imm 4, Imm 0x40, Imm 0, Imm 0], Count,
    Syscall NR_recvfrom [Reg 2, Ptr 0x200e1900, Imm 0x15, Imm 0x40, Imm 0, Imm 0], Count]"

definition min_mysql_recvfrom_sendto_20_0_body321 :: "stmt list" where
  "min_mysql_recvfrom_sendto_20_0_body321 = [
    Syscall NR_sendto [Reg 2, Write_buf, Imm 0xc0, Imm 0x40, Imm 0, Imm 0], Count,
    Syscall NR_recvfrom [Reg 2, Ptr 0x200e2300, Imm 4, Imm 0x40, Imm 0, Imm 0], Count,
    Syscall NR_recvfrom [Reg 2, Ptr 0x200e26c0, Imm 0x15, Imm 0x40, Imm 0, Imm 0], Count,
    Syscall NR_sendto [Reg 2, Write_buf, Imm 0xc0, Imm 0x40, Imm 0, Imm 0], Count,
    Syscall NR_recvfrom [Reg 2, Ptr 0x200e7740, Imm 4, Imm 0x40, Imm 0, Imm 0], Count,
    Syscall NR_recvfrom [Reg 2, Ptr 0x200e7b00, Imm 0x15, Imm 0x40, Imm 0, Imm 0], Count,
    Syscall NR_sendto [Reg 2, Write_buf, Imm 0xc0, Imm 0x40, Imm 0, Imm 0], Count,
    Syscall NR_recvfrom [Reg 2, Ptr 0x200f1640, Imm 4, Imm 0x40, Imm 0, Imm 0], Count,
    Syscall NR_recvfrom [Reg 2, Ptr 0x200f4b40, Imm 0x1d, Imm 0x40, Imm 0, Imm 0], Count,
    Syscall NR_sendto [Reg 2, Write_buf, Imm 0x317a, Imm 0x40, Imm 0, Imm 0], Count]"

definition min_mysql_recvfrom_sendto_20_0_body322 :: "stmt list" where
  "min_mysql_recvfrom_sendto_20_0_body322 = [
    Syscall NR_recvfrom [Reg 2, Ptr 0x200fe4c0, Imm 4, Imm 0x40, Imm 0, Imm 0], Count,
    Syscall NR_recvfrom [Reg 2, Ptr 0x20104a80, Imm 0x1d, Imm 0x40, Imm 0, Imm 0], Count,
    Syscall NR_sendto [Reg 2, Write_buf, Imm 0x3c, Imm 0x40, Imm 0, Imm 0], Count,
    Syscall NR_recvfrom [Reg 2, Ptr 0x20117700, Imm 4, Imm 0x40, Imm 0, Imm 0], Count,
    Syscall NR_recvfrom [Reg 2, Ptr 0x2011f940, Imm 0x1d, Imm 0x40, Imm 0, Imm 0], Count,
    Syscall NR_sendto [Reg 2, Write_buf, Imm 0x317a, Imm 0x40, Imm 0, Imm 0], Count,
    Syscall NR_recvfrom [Reg 2, Ptr 0x20249b80, Imm 4, Imm 0x40, Imm 0, Imm 0], Count,
    Syscall NR_recvfrom [Reg 2, Ptr 0x2025d100, Imm 0x1d, Imm 0x40, Imm 0, Imm 0], Count,
    Syscall NR_sendto [Reg 2, Write_buf, Imm 0x317a, Imm 0x40, Imm 0, Imm 0], Count,
    Syscall NR_recvfrom [Reg 2, Ptr 0x2033d940, Imm 4, Imm 0x40, Imm 0, Imm 0], Count]"

definition min_mysql_recvfrom_sendto_20_0_body323 :: "stmt list" where
  "min_mysql_recvfrom_sendto_20_0_body323 = [
    Syscall NR_recvfrom [Reg 2, Ptr 0x20340e00, Imm 0x15, Imm 0x40, Imm 0, Imm 0], Count,
    Syscall NR_sendto [Reg 2, Write_buf, Imm 0x34, Imm 0x40, Imm 0, Imm 0], Count,
    Syscall NR_recvfrom [Reg 2, Ptr 0x20344c80, Imm 4, Imm 0x40, Imm 0, Imm 0], Count,
    Syscall NR_recvfrom [Reg 2, Ptr 0x20345200, Imm 0x8d, Imm 0x40, Imm 0, Imm 0], Count,
    Syscall NR_sendto [Reg 2, Write_buf, Imm 0x34, Imm 0x40, Imm 0, Imm 0], Count,
    Syscall NR_recvfrom [Reg 2, Ptr 0x20345e80, Imm 4, Imm 0x40, Imm 0, Imm 0], Count,
    Syscall NR_recvfrom [Reg 2, Ptr 0x20346600, Imm 0x15, Imm 0x40, Imm 0, Imm 0], Count,
    Syscall NR_sendto [Reg 2, Write_buf, Imm 0xb, Imm 0x40, Imm 0, Imm 0], Count,
    Syscall NR_recvfrom [Reg 2, Ptr 0x20348d00, Imm 4, Imm 0x40, Imm 0, Imm 0], Count,
    Syscall NR_recvfrom [Reg 2, Ptr 0x20348ec0, Imm 0xd1, Imm 0x40, Imm 0, Imm 0], Count]"

definition min_mysql_recvfrom_sendto_20_0_body324 :: "stmt list" where
  "min_mysql_recvfrom_sendto_20_0_body324 = [
    Syscall NR_sendto [Reg 2, Write_buf, Imm 0xd, Imm 0x40, Imm 0, Imm 0], Count,
    Syscall NR_recvfrom [Reg 2, Ptr 0x20349d40, Imm 4, Imm 0x40, Imm 0, Imm 0], Count,
    Syscall NR_recvfrom [Reg 2, Ptr 0x20349e80, Imm 0xb, Imm 0x40, Imm 0, Imm 0], Count,
    Syscall NR_sendto [Reg 2, Write_buf, Imm 0x18, Imm 0x40, Imm 0, Imm 0], Count,
    Syscall NR_recvfrom [Reg 2, Ptr 0x20543200, Imm 4, Imm 0x40, Imm 0, Imm 0], Count,
    Syscall NR_recvfrom [Reg 2, Ptr 0x2054ed80, Imm 8, Imm 0x40, Imm 0, Imm 0], Count,
    Syscall NR_sendto [Reg 2, Write_buf, Imm 0x18, Imm 0x40, Imm 0, Imm 0], Count,
    Syscall NR_recvfrom [Reg 2, Ptr 0x205905c0, Imm 4, Imm 0x40, Imm 0, Imm 0], Count,
    Syscall NR_recvfrom [Reg 2, Ptr 0x2059f500, Imm 0x15, Imm 0x40, Imm 0, Imm 0], Count,
    Syscall NR_sendto [Reg 2, Write_buf, Imm 0xbe, Imm 0x40, Imm 0, Imm 0], Count]"

definition min_mysql_recvfrom_sendto_20_0_body325 :: "stmt list" where
  "min_mysql_recvfrom_sendto_20_0_body325 = [
    Syscall NR_recvfrom [Reg 2, Ptr 0x205cc380, Imm 4, Imm 0x40, Imm 0, Imm 0], Count,
    Syscall NR_recvfrom [Reg 2, Ptr 0x205e4000, Imm 0x15, Imm 0x40, Imm 0, Imm 0], Count,
    Syscall NR_sendto [Reg 2, Write_buf, Imm 0xbe, Imm 0x40, Imm 0, Imm 0], Count,
    Syscall NR_recvfrom [Reg 2, Ptr 0x2060af00, Imm 4, Imm 0x40, Imm 0, Imm 0], Count,
    Syscall NR_recvfrom [Reg 2, Ptr 0x20620a80, Imm 0x15, Imm 0x40, Imm 0, Imm 0], Count,
    Syscall NR_sendto [Reg 2, Write_buf, Imm 0xbe, Imm 0x40, Imm 0, Imm 0], Count,
    Syscall NR_recvfrom [Reg 2, Ptr 0x2063c7c0, Imm 4, Imm 0x40, Imm 0, Imm 0], Count,
    Syscall NR_recvfrom [Reg 2, Ptr 0x20646440, Imm 0x15, Imm 0x40, Imm 0, Imm 0], Count,
    Syscall NR_sendto [Reg 2, Write_buf, Imm 0xbe, Imm 0x40, Imm 0, Imm 0], Count,
    Syscall NR_recvfrom [Reg 2, Ptr 0x2065d2c0, Imm 4, Imm 0x40, Imm 0, Imm 0], Count]"

definition min_mysql_recvfrom_sendto_20_0_body326 :: "stmt list" where
  "min_mysql_recvfrom_sendto_20_0_body326 = [
    Syscall NR_recvfrom [Reg 2, Ptr 0x20673100, Imm 0x15, Imm 0x40, Imm 0, Imm 0], Count,
    Syscall NR_sendto [Reg 2, Write_buf, Imm 0xbe, Imm 0x40, Imm 0, Imm 0], Count,
    Syscall NR_recvfrom [Reg 2, Ptr 0x20688fc0, Imm 4, Imm 0x40, Imm 0, Imm 0], Count,
    Syscall NR_recvfrom [Reg 2, Ptr 0x20690e80, Imm 0x15, Imm 0x40, Imm 0, Imm 0], Count,
    Syscall NR_sendto [Reg 2, Write_buf, Imm 0xbe, Imm 0x40, Imm 0, Imm 0], Count,
    Syscall NR_recvfrom [Reg 2, Ptr 0x2069bec0, Imm 4, Imm 0x40, Imm 0, Imm 0], Count,
    Syscall NR_recvfrom [Reg 2, Ptr 0x2069fc40, Imm 0x15, Imm 0x40, Imm 0, Imm 0], Count,
    Syscall NR_sendto [Reg 2, Write_buf, Imm 0xbe, Imm 0x40, Imm 0, Imm 0], Count,
    Syscall NR_recvfrom [Reg 2, Ptr 0x206a3680, Imm 4, Imm 0x40, Imm 0, Imm 0], Count,
    Syscall NR_recvfrom [Reg 2, Ptr 0x206a7300, Imm 0x15, Imm 0x40, Imm 0, Imm 0], Count]"

definition min_mysql_recvfrom_sendto_20_0_body327 :: "stmt list" where
  "min_mysql_recvfrom_sendto_20_0_body327 = [
    Syscall NR_sendto [Reg 2, Write_buf, Imm 0xbe, Imm 0x40, Imm 0, Imm 0], Count,
    Syscall NR_recvfrom [Reg 2, Ptr 0x206b3380, Imm 4, Imm 0x40, Imm 0, Imm 0], Count,
    Syscall NR_recvfrom [Reg 2, Ptr 0x206b3cc0, Imm 0x15, Imm 0x40, Imm 0, Imm 0], Count,
    Syscall NR_sendto [Reg 2, Write_buf, Imm 0xbe, Imm 0x40, Imm 0, Imm 0], Count,
    Syscall NR_recvfrom [Reg 2, Ptr 0x206ba1c0, Imm 4, Imm 0x40, Imm 0, Imm 0], Count,
    Syscall NR_recvfrom [Reg 2, Ptr 0x206c2d80, Imm 0x15, Imm 0x40, Imm 0, Imm 0], Count,
    Syscall NR_sendto [Reg 2, Write_buf, Imm 0xbe, Imm 0x40, Imm 0, Imm 0], Count,
    Syscall NR_recvfrom [Reg 2, Ptr 0x206cec80, Imm 4, Imm 0x40, Imm 0, Imm 0], Count,
    Syscall NR_recvfrom [Reg 2, Ptr 0x206d4200, Imm 0x1d, Imm 0x40, Imm 0, Imm 0], Count,
    Syscall NR_sendto [Reg 2, Write_buf, Imm 0x317a, Imm 0x40, Imm 0, Imm 0], Count]"

definition min_mysql_recvfrom_sendto_20_0_body328 :: "stmt list" where
  "min_mysql_recvfrom_sendto_20_0_body328 = [
    Syscall NR_recvfrom [Reg 2, Ptr 0x206f0a00, Imm 4, Imm 0x40, Imm 0, Imm 0], Count,
    Syscall NR_recvfrom [Reg 2, Ptr 0x206fb300, Imm 0x1d, Imm 0x40, Imm 0, Imm 0], Count,
    Syscall NR_sendto [Reg 2, Write_buf, Imm 0x3c, Imm 0x40, Imm 0, Imm 0], Count,
    Syscall NR_recvfrom [Reg 2, Ptr 0x20706ac0, Imm 4, Imm 0x40, Imm 0, Imm 0], Count,
    Syscall NR_recvfrom [Reg 2, Ptr 0x20723a80, Imm 0x1d, Imm 0x40, Imm 0, Imm 0], Count,
    Syscall NR_sendto [Reg 2, Write_buf, Imm 0x317a, Imm 0x40, Imm 0, Imm 0], Count,
    Syscall NR_recvfrom [Reg 2, Ptr 0x20931880, Imm 4, Imm 0x40, Imm 0, Imm 0], Count,
    Syscall NR_recvfrom [Reg 2, Ptr 0x2093bcc0, Imm 0x1d, Imm 0x40, Imm 0, Imm 0], Count,
    Syscall NR_sendto [Reg 2, Write_buf, Imm 0x3178, Imm 0x40, Imm 0, Imm 0], Count,
    Syscall NR_recvfrom [Reg 2, Ptr 0x20aaf440, Imm 4, Imm 0x40, Imm 0, Imm 0], Count]"

definition min_mysql_recvfrom_sendto_20_0_body329 :: "stmt list" where
  "min_mysql_recvfrom_sendto_20_0_body329 = [
    Syscall NR_recvfrom [Reg 2, Ptr 0x20ab2dc0, Imm 0x15, Imm 0x40, Imm 0, Imm 0], Count,
    Syscall NR_sendto [Reg 2, Write_buf, Imm 0x34, Imm 0x40, Imm 0, Imm 0], Count,
    Syscall NR_recvfrom [Reg 2, Ptr 0x20abd180, Imm 4, Imm 0x40, Imm 0, Imm 0], Count,
    Syscall NR_recvfrom [Reg 2, Ptr 0x20abda40, Imm 0x8d, Imm 0x40, Imm 0, Imm 0], Count,
    Syscall NR_sendto [Reg 2, Write_buf, Imm 0x34, Imm 0x40, Imm 0, Imm 0], Count,
    Syscall NR_recvfrom [Reg 2, Ptr 0x20ac0b40, Imm 4, Imm 0x40, Imm 0, Imm 0], Count,
    Syscall NR_recvfrom [Reg 2, Ptr 0x20ac1340, Imm 0x15, Imm 0x40, Imm 0, Imm 0], Count,
    Syscall NR_sendto [Reg 2, Write_buf, Imm 0xb, Imm 0x40, Imm 0, Imm 0], Count,
    Syscall NR_recvfrom [Reg 2, Ptr 0x20ac3280, Imm 4, Imm 0x40, Imm 0, Imm 0], Count,
    Syscall NR_recvfrom [Reg 2, Ptr 0x20ac3e00, Imm 0xd1, Imm 0x40, Imm 0, Imm 0], Count]"

definition min_mysql_recvfrom_sendto_20_0_body330 :: "stmt list" where
  "min_mysql_recvfrom_sendto_20_0_body330 = [
    Syscall NR_sendto [Reg 2, Write_buf, Imm 0xd, Imm 0x40, Imm 0, Imm 0], Count,
    Syscall NR_recvfrom [Reg 2, Ptr 0x20ac5600, Imm 4, Imm 0x40, Imm 0, Imm 0], Count,
    Syscall NR_recvfrom [Reg 2, Ptr 0x20ac5d80, Imm 0xb, Imm 0x40, Imm 0, Imm 0], Count,
    Syscall NR_sendto [Reg 2, Write_buf, Imm 0x18, Imm 0x40, Imm 0, Imm 0], Count,
    Syscall NR_recvfrom [Reg 2, Ptr 0x20f213c0, Imm 4, Imm 0x40, Imm 0, Imm 0], Count,
    Syscall NR_recvfrom [Reg 2, Ptr 0x20f21640, Imm 8, Imm 0x40, Imm 0, Imm 0], Count,
    Syscall NR_sendto [Reg 2, Write_buf, Imm 0x18, Imm 0x40, Imm 0, Imm 0], Count,
    Syscall NR_recvfrom [Reg 2, Ptr 0x20f21e80, Imm 4, Imm 0x40, Imm 0, Imm 0], Count,
    Syscall NR_recvfrom [Reg 2, Ptr 0x20f22200, Imm 0x15, Imm 0x40, Imm 0, Imm 0], Count,
    Syscall NR_sendto [Reg 2, Write_buf, Imm 0xbe, Imm 0x40, Imm 0, Imm 0], Count]"

definition min_mysql_recvfrom_sendto_20_0_body331 :: "stmt list" where
  "min_mysql_recvfrom_sendto_20_0_body331 = [
    Syscall NR_recvfrom [Reg 2, Ptr 0x20f22c40, Imm 4, Imm 0x40, Imm 0, Imm 0], Count,
    Syscall NR_recvfrom [Reg 2, Ptr 0x20f232c0, Imm 0x15, Imm 0x40, Imm 0, Imm 0], Count,
    Syscall NR_sendto [Reg 2, Write_buf, Imm 0xbe, Imm 0x40, Imm 0, Imm 0], Count,
    Syscall NR_recvfrom [Reg 2, Ptr 0x20f23e40, Imm 4, Imm 0x40, Imm 0, Imm 0], Count,
    Syscall NR_recvfrom [Reg 2, Ptr 0x20f24340, Imm 0x15, Imm 0x40, Imm 0, Imm 0], Count,
    Syscall NR_sendto [Reg 2, Write_buf, Imm 0xbe, Imm 0x40, Imm 0, Imm 0], Count,
    Syscall NR_recvfrom [Reg 2, Ptr 0x20f25140, Imm 4, Imm 0x40, Imm 0, Imm 0], Count,
    Syscall NR_recvfrom [Reg 2, Ptr 0x20f25800, Imm 0x15, Imm 0x40, Imm 0, Imm 0], Count,
    Syscall NR_sendto [Reg 2, Write_buf, Imm 0xbe, Imm 0x40, Imm 0, Imm 0], Count,
    Syscall NR_recvfrom [Reg 2, Ptr 0x20f26480, Imm 4, Imm 0x40, Imm 0, Imm 0], Count]"

definition min_mysql_recvfrom_sendto_20_0_body332 :: "stmt list" where
  "min_mysql_recvfrom_sendto_20_0_body332 = [
    Syscall NR_recvfrom [Reg 2, Ptr 0x20f26980, Imm 0x15, Imm 0x40, Imm 0, Imm 0], Count,
    Syscall NR_sendto [Reg 2, Write_buf, Imm 0xbe, Imm 0x40, Imm 0, Imm 0], Count,
    Syscall NR_recvfrom [Reg 2, Ptr 0x20f27600, Imm 4, Imm 0x40, Imm 0, Imm 0], Count,
    Syscall NR_recvfrom [Reg 2, Ptr 0x20f27b00, Imm 0x15, Imm 0x40, Imm 0, Imm 0], Count,
    Syscall NR_sendto [Reg 2, Write_buf, Imm 0xbe, Imm 0x40, Imm 0, Imm 0], Count,
    Syscall NR_recvfrom [Reg 2, Ptr 0x20f286c0, Imm 4, Imm 0x40, Imm 0, Imm 0], Count,
    Syscall NR_recvfrom [Reg 2, Ptr 0x20f28c40, Imm 0x15, Imm 0x40, Imm 0, Imm 0], Count,
    Syscall NR_sendto [Reg 2, Write_buf, Imm 0xbe, Imm 0x40, Imm 0, Imm 0], Count,
    Syscall NR_recvfrom [Reg 2, Ptr 0x20f29840, Imm 4, Imm 0x40, Imm 0, Imm 0], Count,
    Syscall NR_recvfrom [Reg 2, Ptr 0x20f29dc0, Imm 0x15, Imm 0x40, Imm 0, Imm 0], Count]"

definition min_mysql_recvfrom_sendto_20_0_body333 :: "stmt list" where
  "min_mysql_recvfrom_sendto_20_0_body333 = [
    Syscall NR_sendto [Reg 2, Write_buf, Imm 0xbe, Imm 0x40, Imm 0, Imm 0], Count,
    Syscall NR_recvfrom [Reg 2, Ptr 0x20f2a9c0, Imm 4, Imm 0x40, Imm 0, Imm 0], Count,
    Syscall NR_recvfrom [Reg 2, Ptr 0x20f2af40, Imm 0x15, Imm 0x40, Imm 0, Imm 0], Count,
    Syscall NR_sendto [Reg 2, Write_buf, Imm 0xbe, Imm 0x40, Imm 0, Imm 0], Count,
    Syscall NR_recvfrom [Reg 2, Ptr 0x20f31c00, Imm 4, Imm 0x40, Imm 0, Imm 0], Count,
    Syscall NR_recvfrom [Reg 2, Ptr 0x20f352c0, Imm 0x15, Imm 0x40, Imm 0, Imm 0], Count,
    Syscall NR_sendto [Reg 2, Write_buf, Imm 0xbe, Imm 0x40, Imm 0, Imm 0], Count,
    Syscall NR_recvfrom [Reg 2, Ptr 0x20f3bdc0, Imm 4, Imm 0x40, Imm 0, Imm 0], Count,
    Syscall NR_recvfrom [Reg 2, Ptr 0x20f3f400, Imm 0x1d, Imm 0x40, Imm 0, Imm 0], Count,
    Syscall NR_sendto [Reg 2, Write_buf, Imm 0x317a, Imm 0x40, Imm 0, Imm 0], Count]"

definition min_mysql_recvfrom_sendto_20_0_body334 :: "stmt list" where
  "min_mysql_recvfrom_sendto_20_0_body334 = [
    Syscall NR_recvfrom [Reg 2, Ptr 0x20f49040, Imm 4, Imm 0x40, Imm 0, Imm 0], Count,
    Syscall NR_recvfrom [Reg 2, Ptr 0x20f49480, Imm 0x1d, Imm 0x40, Imm 0, Imm 0], Count,
    Syscall NR_sendto [Reg 2, Write_buf, Imm 0x3c, Imm 0x40, Imm 0, Imm 0], Count,
    Syscall NR_recvfrom [Reg 2, Ptr 0x20f4d4c0, Imm 4, Imm 0x40, Imm 0, Imm 0], Count,
    Syscall NR_recvfrom [Reg 2, Ptr 0x20f5fd40, Imm 0x23, Imm 0x40, Imm 0, Imm 0], Count,
    Syscall NR_sendto [Reg 2, Write_buf, Imm 0x317a, Imm 0x40, Imm 0, Imm 0], Count,
    Syscall NR_recvfrom [Reg 2, Ptr 0x200b4300, Imm 4, Imm 0x40, Imm 0, Imm 0], Count,
    Syscall NR_recvfrom [Reg 2, Ptr 0x200c0a80, Imm 0x1d, Imm 0x40, Imm 0, Imm 0], Count,
    Syscall NR_sendto [Reg 2, Write_buf, Imm 0x3178, Imm 0x40, Imm 0, Imm 0], Count,
    Syscall NR_recvfrom [Reg 2, Ptr 0x201fe180, Imm 4, Imm 0x40, Imm 0, Imm 0], Count]"

definition min_mysql_recvfrom_sendto_20_0_body335 :: "stmt list" where
  "min_mysql_recvfrom_sendto_20_0_body335 = [
    Syscall NR_recvfrom [Reg 2, Ptr 0x20209b40, Imm 0x15, Imm 0x40, Imm 0, Imm 0], Count,
    Syscall NR_sendto [Reg 2, Write_buf, Imm 0x34, Imm 0x40, Imm 0, Imm 0], Count,
    Syscall NR_recvfrom [Reg 2, Ptr 0x2020ddc0, Imm 4, Imm 0x40, Imm 0, Imm 0], Count,
    Syscall NR_recvfrom [Reg 2, Ptr 0x20214f80, Imm 0x8d, Imm 0x40, Imm 0, Imm 0], Count,
    Syscall NR_sendto [Reg 2, Write_buf, Imm 0x34, Imm 0x40, Imm 0, Imm 0], Count,
    Syscall NR_recvfrom [Reg 2, Ptr 0x2021f6c0, Imm 4, Imm 0x40, Imm 0, Imm 0], Count,
    Syscall NR_recvfrom [Reg 2, Ptr 0x20220680, Imm 0x15, Imm 0x40, Imm 0, Imm 0], Count,
    Syscall NR_sendto [Reg 2, Write_buf, Imm 0xb, Imm 0x40, Imm 0, Imm 0], Count,
    Syscall NR_recvfrom [Reg 2, Ptr 0x20238040, Imm 4, Imm 0x40, Imm 0, Imm 0], Count,
    Syscall NR_recvfrom [Reg 2, Ptr 0x2023d0c0, Imm 0xd1, Imm 0x40, Imm 0, Imm 0], Count]"

definition min_mysql_recvfrom_sendto_20_0_body336 :: "stmt list" where
  "min_mysql_recvfrom_sendto_20_0_body336 = [
    Syscall NR_sendto [Reg 2, Write_buf, Imm 0xd, Imm 0x40, Imm 0, Imm 0], Count,
    Syscall NR_recvfrom [Reg 2, Ptr 0x202425c0, Imm 4, Imm 0x40, Imm 0, Imm 0], Count,
    Syscall NR_recvfrom [Reg 2, Ptr 0x20243400, Imm 0xb, Imm 0x40, Imm 0, Imm 0], Count,
    Syscall NR_sendto [Reg 2, Write_buf, Imm 0x18, Imm 0x40, Imm 0, Imm 0], Count,
    Syscall NR_recvfrom [Reg 2, Ptr 0x205dfa00, Imm 4, Imm 0x40, Imm 0, Imm 0], Count,
    Syscall NR_recvfrom [Reg 2, Ptr 0x205dfc00, Imm 8, Imm 0x40, Imm 0, Imm 0], Count,
    Syscall NR_sendto [Reg 2, Write_buf, Imm 0x18, Imm 0x40, Imm 0, Imm 0], Count,
    Syscall NR_recvfrom [Reg 2, Ptr 0x205e0440, Imm 4, Imm 0x40, Imm 0, Imm 0], Count,
    Syscall NR_recvfrom [Reg 2, Ptr 0x205e0880, Imm 0x15, Imm 0x40, Imm 0, Imm 0], Count,
    Syscall NR_sendto [Reg 2, Write_buf, Imm 0xbe, Imm 0x40, Imm 0, Imm 0], Count]"

definition min_mysql_recvfrom_sendto_20_0_body337 :: "stmt list" where
  "min_mysql_recvfrom_sendto_20_0_body337 = [
    Syscall NR_recvfrom [Reg 2, Ptr 0x205e1100, Imm 4, Imm 0x40, Imm 0, Imm 0], Count,
    Syscall NR_recvfrom [Reg 2, Ptr 0x205e1500, Imm 0x15, Imm 0x40, Imm 0, Imm 0], Count,
    Syscall NR_sendto [Reg 2, Write_buf, Imm 0xbe, Imm 0x40, Imm 0, Imm 0], Count,
    Syscall NR_recvfrom [Reg 2, Ptr 0x205e20c0, Imm 4, Imm 0x40, Imm 0, Imm 0], Count,
    Syscall NR_recvfrom [Reg 2, Ptr 0x205e2580, Imm 0x15, Imm 0x40, Imm 0, Imm 0], Count,
    Syscall NR_sendto [Reg 2, Write_buf, Imm 0xbe, Imm 0x40, Imm 0, Imm 0], Count,
    Syscall NR_recvfrom [Reg 2, Ptr 0x205e3280, Imm 4, Imm 0x40, Imm 0, Imm 0], Count,
    Syscall NR_recvfrom [Reg 2, Ptr 0x205e3800, Imm 0x15, Imm 0x40, Imm 0, Imm 0], Count,
    Syscall NR_sendto [Reg 2, Write_buf, Imm 0xbe, Imm 0x40, Imm 0, Imm 0], Count,
    Syscall NR_recvfrom [Reg 2, Ptr 0x205e4540, Imm 4, Imm 0x40, Imm 0, Imm 0], Count]"

definition min_mysql_recvfrom_sendto_20_0_body338 :: "stmt list" where
  "min_mysql_recvfrom_sendto_20_0_body338 = [
    Syscall NR_recvfrom [Reg 2, Ptr 0x205e4a80, Imm 0x15, Imm 0x40, Imm 0, Imm 0], Count,
    Syscall NR_sendto [Reg 2, Write_buf, Imm 0xbe, Imm 0x40, Imm 0, Imm 0], Count,
    Syscall NR_recvfrom [Reg 2, Ptr 0x205e5840, Imm 4, Imm 0x40, Imm 0, Imm 0], Count,
    Syscall NR_recvfrom [Reg 2, Ptr 0x205e5e40, Imm 0x15, Imm 0x40, Imm 0, Imm 0], Count,
    Syscall NR_sendto [Reg 2, Write_buf, Imm 0xbe, Imm 0x40, Imm 0, Imm 0], Count,
    Syscall NR_recvfrom [Reg 2, Ptr 0x205e6c00, Imm 4, Imm 0x40, Imm 0, Imm 0], Count,
    Syscall NR_recvfrom [Reg 2, Ptr 0x205e7200, Imm 0x15, Imm 0x40, Imm 0, Imm 0], Count,
    Syscall NR_sendto [Reg 2, Write_buf, Imm 0xbe, Imm 0x40, Imm 0, Imm 0], Count,
    Syscall NR_recvfrom [Reg 2, Ptr 0x205e8400, Imm 4, Imm 0x40, Imm 0, Imm 0], Count,
    Syscall NR_recvfrom [Reg 2, Ptr 0x205eba00, Imm 0x15, Imm 0x40, Imm 0, Imm 0], Count]"

definition min_mysql_recvfrom_sendto_20_0_body339 :: "stmt list" where
  "min_mysql_recvfrom_sendto_20_0_body339 = [
    Syscall NR_sendto [Reg 2, Write_buf, Imm 0xbe, Imm 0x40, Imm 0, Imm 0], Count,
    Syscall NR_recvfrom [Reg 2, Ptr 0x205ee180, Imm 4, Imm 0x40, Imm 0, Imm 0], Count,
    Syscall NR_recvfrom [Reg 2, Ptr 0x205f1800, Imm 0x15, Imm 0x40, Imm 0, Imm 0], Count,
    Syscall NR_sendto [Reg 2, Write_buf, Imm 0xbe, Imm 0x40, Imm 0, Imm 0], Count,
    Syscall NR_recvfrom [Reg 2, Ptr 0x205f5500, Imm 4, Imm 0x40, Imm 0, Imm 0], Count,
    Syscall NR_recvfrom [Reg 2, Ptr 0x205f59c0, Imm 0x15, Imm 0x40, Imm 0, Imm 0], Count,
    Syscall NR_sendto [Reg 2, Write_buf, Imm 0xbe, Imm 0x40, Imm 0, Imm 0], Count,
    Syscall NR_recvfrom [Reg 2, Ptr 0x205fb680, Imm 4, Imm 0x40, Imm 0, Imm 0], Count,
    Syscall NR_recvfrom [Reg 2, Ptr 0x205fba80, Imm 0x1d, Imm 0x40, Imm 0, Imm 0], Count,
    Syscall NR_sendto [Reg 2, Write_buf, Imm 0x317a, Imm 0x40, Imm 0, Imm 0], Count]"

definition min_mysql_recvfrom_sendto_20_0_body340 :: "stmt list" where
  "min_mysql_recvfrom_sendto_20_0_body340 = [
    Syscall NR_recvfrom [Reg 2, Ptr 0x20615600, Imm 4, Imm 0x40, Imm 0, Imm 0], Count,
    Syscall NR_recvfrom [Reg 2, Ptr 0x20616e00, Imm 0x23, Imm 0x40, Imm 0, Imm 0], Count,
    Syscall NR_sendto [Reg 2, Write_buf, Imm 0x3c, Imm 0x40, Imm 0, Imm 0], Count,
    Syscall NR_recvfrom [Reg 2, Ptr 0x20647980, Imm 4, Imm 0x40, Imm 0, Imm 0], Count,
    Syscall NR_recvfrom [Reg 2, Ptr 0x20651080, Imm 0x1d, Imm 0x40, Imm 0, Imm 0], Count,
    Syscall NR_sendto [Reg 2, Write_buf, Imm 0x317a, Imm 0x40, Imm 0, Imm 0], Count,
    Syscall NR_recvfrom [Reg 2, Ptr 0x207ca840, Imm 4, Imm 0x40, Imm 0, Imm 0], Count,
    Syscall NR_recvfrom [Reg 2, Ptr 0x207fe5c0, Imm 0x1d, Imm 0x40, Imm 0, Imm 0], Count,
    Syscall NR_sendto [Reg 2, Write_buf, Imm 0x3178, Imm 0x40, Imm 0, Imm 0], Count,
    Syscall NR_recvfrom [Reg 2, Ptr 0x2094a940, Imm 4, Imm 0x40, Imm 0, Imm 0], Count]"

definition min_mysql_recvfrom_sendto_20_0_body341 :: "stmt list" where
  "min_mysql_recvfrom_sendto_20_0_body341 = [
    Syscall NR_recvfrom [Reg 2, Ptr 0x20955b00, Imm 0x15, Imm 0x40, Imm 0, Imm 0], Count,
    Syscall NR_sendto [Reg 2, Write_buf, Imm 0x34, Imm 0x40, Imm 0, Imm 0], Count,
    Syscall NR_recvfrom [Reg 2, Ptr 0x20968000, Imm 4, Imm 0x40, Imm 0, Imm 0], Count,
    Syscall NR_recvfrom [Reg 2, Ptr 0x2096f200, Imm 0x8d, Imm 0x40, Imm 0, Imm 0], Count,
    Syscall NR_sendto [Reg 2, Write_buf, Imm 0x34, Imm 0x40, Imm 0, Imm 0], Count,
    Syscall NR_recvfrom [Reg 2, Ptr 0x209825c0, Imm 4, Imm 0x40, Imm 0, Imm 0], Count,
    Syscall NR_recvfrom [Reg 2, Ptr 0x2099e300, Imm 0x15, Imm 0x40, Imm 0, Imm 0], Count,
    Syscall NR_sendto [Reg 2, Write_buf, Imm 0xb, Imm 0x40, Imm 0, Imm 0], Count,
    Syscall NR_recvfrom [Reg 2, Ptr 0x209b4740, Imm 4, Imm 0x40, Imm 0, Imm 0], Count,
    Syscall NR_recvfrom [Reg 2, Ptr 0x209be500, Imm 0xd1, Imm 0x40, Imm 0, Imm 0], Count]"

definition min_mysql_recvfrom_sendto_20_0_body342 :: "stmt list" where
  "min_mysql_recvfrom_sendto_20_0_body342 = [
    Syscall NR_sendto [Reg 2, Write_buf, Imm 0xb, Imm 0x40, Imm 0, Imm 0], Count,
    Syscall NR_recvfrom [Reg 2, Ptr 0x209cf540, Imm 4, Imm 0x40, Imm 0, Imm 0], Count,
    Syscall NR_recvfrom [Reg 2, Ptr 0x209dddc0, Imm 0xb, Imm 0x40, Imm 0, Imm 0], Count,
    Syscall NR_sendto [Reg 2, Write_buf, Imm 0x18, Imm 0x40, Imm 0, Imm 0], Count,
    Syscall NR_recvfrom [Reg 2, Ptr 0x20d71f40, Imm 4, Imm 0x40, Imm 0, Imm 0], Count,
    Syscall NR_recvfrom [Reg 2, Ptr 0x20d72140, Imm 8, Imm 0x40, Imm 0, Imm 0], Count,
    Syscall NR_sendto [Reg 2, Write_buf, Imm 0x18, Imm 0x40, Imm 0, Imm 0], Count,
    Syscall NR_recvfrom [Reg 2, Ptr 0x20d72800, Imm 4, Imm 0x40, Imm 0, Imm 0], Count,
    Syscall NR_recvfrom [Reg 2, Ptr 0x20d72b00, Imm 0x15, Imm 0x40, Imm 0, Imm 0], Count,
    Syscall NR_sendto [Reg 2, Write_buf, Imm 0xc0, Imm 0x40, Imm 0, Imm 0], Count]"

definition min_mysql_recvfrom_sendto_20_0_body343 :: "stmt list" where
  "min_mysql_recvfrom_sendto_20_0_body343 = [
    Syscall NR_recvfrom [Reg 2, Ptr 0x20d73440, Imm 4, Imm 0x40, Imm 0, Imm 0], Count,
    Syscall NR_recvfrom [Reg 2, Ptr 0x20d737c0, Imm 0x15, Imm 0x40, Imm 0, Imm 0], Count,
    Syscall NR_sendto [Reg 2, Write_buf, Imm 0xc0, Imm 0x40, Imm 0, Imm 0], Count,
    Syscall NR_recvfrom [Reg 2, Ptr 0x20d74300, Imm 4, Imm 0x40, Imm 0, Imm 0], Count,
    Syscall NR_recvfrom [Reg 2, Ptr 0x20d74700, Imm 0x15, Imm 0x40, Imm 0, Imm 0], Count,
    Syscall NR_sendto [Reg 2, Write_buf, Imm 0xc0, Imm 0x40, Imm 0, Imm 0], Count,
    Syscall NR_recvfrom [Reg 2, Ptr 0x20d753c0, Imm 4, Imm 0x40, Imm 0, Imm 0], Count,
    Syscall NR_recvfrom [Reg 2, Ptr 0x20d758c0, Imm 0x15, Imm 0x40, Imm 0, Imm 0], Count,
    Syscall NR_sendto [Reg 2, Write_buf, Imm 0xc0, Imm 0x40, Imm 0, Imm 0], Count,
    Syscall NR_recvfrom [Reg 2, Ptr 0x20d76740, Imm 4, Imm 0x40, Imm 0, Imm 0], Count]"

definition min_mysql_recvfrom_sendto_20_0_body344 :: "stmt list" where
  "min_mysql_recvfrom_sendto_20_0_body344 = [
    Syscall NR_recvfrom [Reg 2, Ptr 0x20d76d40, Imm 0x15, Imm 0x40, Imm 0, Imm 0], Count,
    Syscall NR_sendto [Reg 2, Write_buf, Imm 0xc0, Imm 0x40, Imm 0, Imm 0], Count,
    Syscall NR_recvfrom [Reg 2, Ptr 0x20d78080, Imm 4, Imm 0x40, Imm 0, Imm 0], Count,
    Syscall NR_recvfrom [Reg 2, Ptr 0x20d78900, Imm 0x15, Imm 0x40, Imm 0, Imm 0], Count,
    Syscall NR_sendto [Reg 2, Write_buf, Imm 0xc0, Imm 0x40, Imm 0, Imm 0], Count,
    Syscall NR_recvfrom [Reg 2, Ptr 0x20d79e80, Imm 4, Imm 0x40, Imm 0, Imm 0], Count,
    Syscall NR_recvfrom [Reg 2, Ptr 0x20d7a800, Imm 0x15, Imm 0x40, Imm 0, Imm 0], Count,
    Syscall NR_sendto [Reg 2, Write_buf, Imm 0xc0, Imm 0x40, Imm 0, Imm 0], Count,
    Syscall NR_recvfrom [Reg 2, Ptr 0x20d7c100, Imm 4, Imm 0x40, Imm 0, Imm 0], Count,
    Syscall NR_recvfrom [Reg 2, Ptr 0x20d7cb00, Imm 0x15, Imm 0x40, Imm 0, Imm 0], Count]"

definition min_mysql_recvfrom_sendto_20_0_body345 :: "stmt list" where
  "min_mysql_recvfrom_sendto_20_0_body345 = [
    Syscall NR_sendto [Reg 2, Write_buf, Imm 0xc0, Imm 0x40, Imm 0, Imm 0], Count,
    Syscall NR_recvfrom [Reg 2, Ptr 0x20d9e3c0, Imm 4, Imm 0x40, Imm 0, Imm 0], Count,
    Syscall NR_recvfrom [Reg 2, Ptr 0x20d9eec0, Imm 0x15, Imm 0x40, Imm 0, Imm 0], Count,
    Syscall NR_sendto [Reg 2, Write_buf, Imm 0xc0, Imm 0x40, Imm 0, Imm 0], Count,
    Syscall NR_recvfrom [Reg 2, Ptr 0x20da3a80, Imm 4, Imm 0x40, Imm 0, Imm 0], Count,
    Syscall NR_recvfrom [Reg 2, Ptr 0x20da7640, Imm 0x15, Imm 0x40, Imm 0, Imm 0], Count,
    Syscall NR_sendto [Reg 2, Write_buf, Imm 0xc0, Imm 0x40, Imm 0, Imm 0], Count,
    Syscall NR_recvfrom [Reg 2, Ptr 0x20db2100, Imm 4, Imm 0x40, Imm 0, Imm 0], Count,
    Syscall NR_recvfrom [Reg 2, Ptr 0x20db2ac0, Imm 0x1d, Imm 0x40, Imm 0, Imm 0], Count,
    Syscall NR_sendto [Reg 2, Write_buf, Imm 0x3178, Imm 0x40, Imm 0, Imm 0], Count]"

definition min_mysql_recvfrom_sendto_20_0_body346 :: "stmt list" where
  "min_mysql_recvfrom_sendto_20_0_body346 = [
    Syscall NR_recvfrom [Reg 2, Ptr 0x20dd7180, Imm 4, Imm 0x40, Imm 0, Imm 0], Count,
    Syscall NR_recvfrom [Reg 2, Ptr 0x20ddacc0, Imm 0x23, Imm 0x40, Imm 0, Imm 0], Count,
    Syscall NR_sendto [Reg 2, Write_buf, Imm 0x3c, Imm 0x40, Imm 0, Imm 0], Count,
    Syscall NR_recvfrom [Reg 2, Ptr 0x20de5a00, Imm 4, Imm 0x40, Imm 0, Imm 0], Count,
    Syscall NR_recvfrom [Reg 2, Ptr 0x20de6700, Imm 0x1d, Imm 0x40, Imm 0, Imm 0], Count,
    Syscall NR_sendto [Reg 2, Write_buf, Imm 0x3178, Imm 0x40, Imm 0, Imm 0], Count,
    Syscall NR_recvfrom [Reg 2, Ptr 0x20fa4740, Imm 4, Imm 0x40, Imm 0, Imm 0], Count,
    Syscall NR_recvfrom [Reg 2, Ptr 0x20fb9f80, Imm 0x1d, Imm 0x40, Imm 0, Imm 0], Count,
    Syscall NR_sendto [Reg 2, Write_buf, Imm 0x317a, Imm 0x40, Imm 0, Imm 0], Count,
    Syscall NR_recvfrom [Reg 2, Ptr 0x202af9c0, Imm 4, Imm 0x40, Imm 0, Imm 0], Count]"

definition min_mysql_recvfrom_sendto_20_0_body347 :: "stmt list" where
  "min_mysql_recvfrom_sendto_20_0_body347 = [
    Syscall NR_recvfrom [Reg 2, Ptr 0x202c4580, Imm 0x15, Imm 0x40, Imm 0, Imm 0], Count,
    Syscall NR_sendto [Reg 2, Write_buf, Imm 0x34, Imm 0x40, Imm 0, Imm 0], Count,
    Syscall NR_recvfrom [Reg 2, Ptr 0x202ed5c0, Imm 4, Imm 0x40, Imm 0, Imm 0], Count,
    Syscall NR_recvfrom [Reg 2, Ptr 0x20324340, Imm 0x8d, Imm 0x40, Imm 0, Imm 0], Count,
    Syscall NR_sendto [Reg 2, Write_buf, Imm 0x34, Imm 0x40, Imm 0, Imm 0], Count,
    Syscall NR_recvfrom [Reg 2, Ptr 0x20373ac0, Imm 4, Imm 0x40, Imm 0, Imm 0], Count,
    Syscall NR_recvfrom [Reg 2, Ptr 0x20393f80, Imm 0x18, Imm 0x40, Imm 0, Imm 0], Count,
    Syscall NR_sendto [Reg 2, Write_buf, Imm 0xb, Imm 0x40, Imm 0, Imm 0], Count,
    Syscall NR_recvfrom [Reg 2, Ptr 0x203bd240, Imm 4, Imm 0x40, Imm 0, Imm 0], Count,
    Syscall NR_recvfrom [Reg 2, Ptr 0x203c49c0, Imm 0xdd, Imm 0x40, Imm 0, Imm 0], Count]"

definition min_mysql_recvfrom_sendto_20_0_body348 :: "stmt list" where
  "min_mysql_recvfrom_sendto_20_0_body348 = [
    Syscall NR_sendto [Reg 2, Write_buf, Imm 0xd, Imm 0x40, Imm 0, Imm 0], Count,
    Syscall NR_recvfrom [Reg 2, Ptr 0x203e3f80, Imm 4, Imm 0x40, Imm 0, Imm 0], Count,
    Syscall NR_recvfrom [Reg 2, Ptr 0x203f8800, Imm 0xb, Imm 0x40, Imm 0, Imm 0], Count,
    Syscall NR_sendto [Reg 2, Write_buf, Imm 0x18, Imm 0x40, Imm 0, Imm 0], Count,
    Syscall NR_recvfrom [Reg 2, Ptr 0x20679480, Imm 4, Imm 0x40, Imm 0, Imm 0], Count,
    Syscall NR_recvfrom [Reg 2, Ptr 0x206795c0, Imm 8, Imm 0x40, Imm 0, Imm 0], Count,
    Syscall NR_sendto [Reg 2, Write_buf, Imm 0x18, Imm 0x40, Imm 0, Imm 0], Count,
    Syscall NR_recvfrom [Reg 2, Ptr 0x20679880, Imm 4, Imm 0x40, Imm 0, Imm 0], Count,
    Syscall NR_recvfrom [Reg 2, Ptr 0x20679a00, Imm 0x15, Imm 0x40, Imm 0, Imm 0], Count,
    Syscall NR_sendto [Reg 2, Write_buf, Imm 0xbe, Imm 0x40, Imm 0, Imm 0], Count]"

definition min_mysql_recvfrom_sendto_20_0_body349 :: "stmt list" where
  "min_mysql_recvfrom_sendto_20_0_body349 = [
    Syscall NR_recvfrom [Reg 2, Ptr 0x2067a100, Imm 4, Imm 0x40, Imm 0, Imm 0], Count,
    Syscall NR_recvfrom [Reg 2, Ptr 0x2067a300, Imm 0x15, Imm 0x40, Imm 0, Imm 0], Count,
    Syscall NR_sendto [Reg 2, Write_buf, Imm 0xbe, Imm 0x40, Imm 0, Imm 0], Count,
    Syscall NR_recvfrom [Reg 2, Ptr 0x2067abc0, Imm 4, Imm 0x40, Imm 0, Imm 0], Count,
    Syscall NR_recvfrom [Reg 2, Ptr 0x2067ae80, Imm 0x15, Imm 0x40, Imm 0, Imm 0], Count,
    Syscall NR_sendto [Reg 2, Write_buf, Imm 0xbe, Imm 0x40, Imm 0, Imm 0], Count,
    Syscall NR_recvfrom [Reg 2, Ptr 0x2067b740, Imm 4, Imm 0x40, Imm 0, Imm 0], Count,
    Syscall NR_recvfrom [Reg 2, Ptr 0x2067bc80, Imm 0x15, Imm 0x40, Imm 0, Imm 0], Count,
    Syscall NR_sendto [Reg 2, Write_buf, Imm 0xbe, Imm 0x40, Imm 0, Imm 0], Count,
    Syscall NR_recvfrom [Reg 2, Ptr 0x2067c640, Imm 4, Imm 0x40, Imm 0, Imm 0], Count]"

definition min_mysql_recvfrom_sendto_20_0_body350 :: "stmt list" where
  "min_mysql_recvfrom_sendto_20_0_body350 = [
    Syscall NR_recvfrom [Reg 2, Ptr 0x2067cc40, Imm 0x15, Imm 0x40, Imm 0, Imm 0], Count,
    Syscall NR_sendto [Reg 2, Write_buf, Imm 0xbe, Imm 0x40, Imm 0, Imm 0], Count,
    Syscall NR_recvfrom [Reg 2, Ptr 0x2067d740, Imm 4, Imm 0x40, Imm 0, Imm 0], Count,
    Syscall NR_recvfrom [Reg 2, Ptr 0x2067dd80, Imm 0x15, Imm 0x40, Imm 0, Imm 0], Count,
    Syscall NR_sendto [Reg 2, Write_buf, Imm 0xbe, Imm 0x40, Imm 0, Imm 0], Count,
    Syscall NR_recvfrom [Reg 2, Ptr 0x2067ecc0, Imm 4, Imm 0x40, Imm 0, Imm 0], Count,
    Syscall NR_recvfrom [Reg 2, Ptr 0x2067f440, Imm 0x15, Imm 0x40, Imm 0, Imm 0], Count,
    Syscall NR_sendto [Reg 2, Write_buf, Imm 0xbe, Imm 0x40, Imm 0, Imm 0], Count,
    Syscall NR_recvfrom [Reg 2, Ptr 0x206804c0, Imm 4, Imm 0x40, Imm 0, Imm 0], Count,
    Syscall NR_recvfrom [Reg 2, Ptr 0x20680cc0, Imm 0x15, Imm 0x40, Imm 0, Imm 0], Count]"

definition min_mysql_recvfrom_sendto_20_0_body351 :: "stmt list" where
  "min_mysql_recvfrom_sendto_20_0_body351 = [
    Syscall NR_sendto [Reg 2, Write_buf, Imm 0xbe, Imm 0x40, Imm 0, Imm 0], Count,
    Syscall NR_recvfrom [Reg 2, Ptr 0x20681f00, Imm 4, Imm 0x40, Imm 0, Imm 0], Count,
    Syscall NR_recvfrom [Reg 2, Ptr 0x20682780, Imm 0x15, Imm 0x40, Imm 0, Imm 0], Count,
    Syscall NR_sendto [Reg 2, Write_buf, Imm 0xbe, Imm 0x40, Imm 0, Imm 0], Count,
    Syscall NR_recvfrom [Reg 2, Ptr 0x20683a80, Imm 4, Imm 0x40, Imm 0, Imm 0], Count,
    Syscall NR_recvfrom [Reg 2, Ptr 0x20684300, Imm 0x15, Imm 0x40, Imm 0, Imm 0], Count,
    Syscall NR_sendto [Reg 2, Write_buf, Imm 0xbe, Imm 0x40, Imm 0, Imm 0], Count,
    Syscall NR_recvfrom [Reg 2, Ptr 0x20685600, Imm 4, Imm 0x40, Imm 0, Imm 0], Count,
    Syscall NR_recvfrom [Reg 2, Ptr 0x20685e80, Imm 0x1d, Imm 0x40, Imm 0, Imm 0], Count,
    Syscall NR_sendto [Reg 2, Write_buf, Imm 0x317a, Imm 0x40, Imm 0, Imm 0], Count]"

definition min_mysql_recvfrom_sendto_20_0_body352 :: "stmt list" where
  "min_mysql_recvfrom_sendto_20_0_body352 = [
    Syscall NR_recvfrom [Reg 2, Ptr 0x20693c00, Imm 4, Imm 0x40, Imm 0, Imm 0], Count,
    Syscall NR_recvfrom [Reg 2, Ptr 0x206942c0, Imm 0x1d, Imm 0x40, Imm 0, Imm 0], Count,
    Syscall NR_sendto [Reg 2, Write_buf, Imm 0x3c, Imm 0x40, Imm 0, Imm 0], Count,
    Syscall NR_recvfrom [Reg 2, Ptr 0x206a1b40, Imm 4, Imm 0x40, Imm 0, Imm 0], Count,
    Syscall NR_recvfrom [Reg 2, Ptr 0x206a21c0, Imm 0x1d, Imm 0x40, Imm 0, Imm 0], Count,
    Syscall NR_sendto [Reg 2, Write_buf, Imm 0x3178, Imm 0x40, Imm 0, Imm 0], Count,
    Syscall NR_recvfrom [Reg 2, Ptr 0x2080be80, Imm 4, Imm 0x40, Imm 0, Imm 0], Count,
    Syscall NR_recvfrom [Reg 2, Ptr 0x20818ac0, Imm 0x1d, Imm 0x40, Imm 0, Imm 0], Count,
    Syscall NR_sendto [Reg 2, Write_buf, Imm 0x317a, Imm 0x40, Imm 0, Imm 0], Count,
    Syscall NR_recvfrom [Reg 2, Ptr 0x20a6fa40, Imm 4, Imm 0x40, Imm 0, Imm 0], Count]"

definition min_mysql_recvfrom_sendto_20_0_body353 :: "stmt list" where
  "min_mysql_recvfrom_sendto_20_0_body353 = [
    Syscall NR_recvfrom [Reg 2, Ptr 0x20a7f380, Imm 0x15, Imm 0x40, Imm 0, Imm 0], Count,
    Syscall NR_sendto [Reg 2, Write_buf, Imm 0x34, Imm 0x40, Imm 0, Imm 0], Count,
    Syscall NR_recvfrom [Reg 2, Ptr 0x20a97080, Imm 4, Imm 0x40, Imm 0, Imm 0], Count,
    Syscall NR_recvfrom [Reg 2, Ptr 0x20a9de80, Imm 0x8d, Imm 0x40, Imm 0, Imm 0], Count,
    Syscall NR_sendto [Reg 2, Write_buf, Imm 0x34, Imm 0x40, Imm 0, Imm 0], Count,
    Syscall NR_recvfrom [Reg 2, Ptr 0x20abeb40, Imm 4, Imm 0x40, Imm 0, Imm 0], Count,
    Syscall NR_recvfrom [Reg 2, Ptr 0x20ae8d80, Imm 0x15, Imm 0x40, Imm 0, Imm 0], Count,
    Syscall NR_sendto [Reg 2, Write_buf, Imm 0xb, Imm 0x40, Imm 0, Imm 0], Count,
    Syscall NR_recvfrom [Reg 2, Ptr 0x20b2c000, Imm 4, Imm 0x40, Imm 0, Imm 0], Count,
    Syscall NR_recvfrom [Reg 2, Ptr 0x20b3ac80, Imm 0xd1, Imm 0x40, Imm 0, Imm 0], Count]"

definition min_mysql_recvfrom_sendto_20_0_body354 :: "stmt list" where
  "min_mysql_recvfrom_sendto_20_0_body354 = [
    Syscall NR_sendto [Reg 2, Write_buf, Imm 0xd, Imm 0x40, Imm 0, Imm 0], Count,
    Syscall NR_recvfrom [Reg 2, Ptr 0x20b4dc00, Imm 4, Imm 0x40, Imm 0, Imm 0], Count,
    Syscall NR_recvfrom [Reg 2, Ptr 0x20b549c0, Imm 0xb, Imm 0x40, Imm 0, Imm 0], Count,
    Syscall NR_sendto [Reg 2, Write_buf, Imm 0x18, Imm 0x40, Imm 0, Imm 0], Count,
    Syscall NR_recvfrom [Reg 2, Ptr 0x20e28180, Imm 4, Imm 0x40, Imm 0, Imm 0], Count,
    Syscall NR_recvfrom [Reg 2, Ptr 0x20e28380, Imm 8, Imm 0x40, Imm 0, Imm 0], Count,
    Syscall NR_sendto [Reg 2, Write_buf, Imm 0x18, Imm 0x40, Imm 0, Imm 0], Count,
    Syscall NR_recvfrom [Reg 2, Ptr 0x20e28a40, Imm 4, Imm 0x40, Imm 0, Imm 0], Count,
    Syscall NR_recvfrom [Reg 2, Ptr 0x20e28f80, Imm 0x15, Imm 0x40, Imm 0, Imm 0], Count,
    Syscall NR_sendto [Reg 2, Write_buf, Imm 0xc0, Imm 0x40, Imm 0, Imm 0], Count]"

definition min_mysql_recvfrom_sendto_20_0_body355 :: "stmt list" where
  "min_mysql_recvfrom_sendto_20_0_body355 = [
    Syscall NR_recvfrom [Reg 2, Ptr 0x20e29840, Imm 4, Imm 0x40, Imm 0, Imm 0], Count,
    Syscall NR_recvfrom [Reg 2, Ptr 0x20e29d80, Imm 0x15, Imm 0x40, Imm 0, Imm 0], Count,
    Syscall NR_sendto [Reg 2, Write_buf, Imm 0xc0, Imm 0x40, Imm 0, Imm 0], Count,
    Syscall NR_recvfrom [Reg 2, Ptr 0x20e2aac0, Imm 4, Imm 0x40, Imm 0, Imm 0], Count,
    Syscall NR_recvfrom [Reg 2, Ptr 0x20e2b080, Imm 0x15, Imm 0x40, Imm 0, Imm 0], Count,
    Syscall NR_sendto [Reg 2, Write_buf, Imm 0xc0, Imm 0x40, Imm 0, Imm 0], Count,
    Syscall NR_recvfrom [Reg 2, Ptr 0x20e2bd80, Imm 4, Imm 0x40, Imm 0, Imm 0], Count,
    Syscall NR_recvfrom [Reg 2, Ptr 0x20e2c4c0, Imm 0x15, Imm 0x40, Imm 0, Imm 0], Count,
    Syscall NR_sendto [Reg 2, Write_buf, Imm 0xc0, Imm 0x40, Imm 0, Imm 0], Count,
    Syscall NR_recvfrom [Reg 2, Ptr 0x20e2d840, Imm 4, Imm 0x40, Imm 0, Imm 0], Count]"

definition min_mysql_recvfrom_sendto_20_0_body356 :: "stmt list" where
  "min_mysql_recvfrom_sendto_20_0_body356 = [
    Syscall NR_recvfrom [Reg 2, Ptr 0x20e2e200, Imm 0x15, Imm 0x40, Imm 0, Imm 0], Count,
    Syscall NR_sendto [Reg 2, Write_buf, Imm 0xc0, Imm 0x40, Imm 0, Imm 0], Count,
    Syscall NR_recvfrom [Reg 2, Ptr 0x20e2f900, Imm 4, Imm 0x40, Imm 0, Imm 0], Count,
    Syscall NR_recvfrom [Reg 2, Ptr 0x20e30480, Imm 0x15, Imm 0x40, Imm 0, Imm 0], Count,
    Syscall NR_sendto [Reg 2, Write_buf, Imm 0xc0, Imm 0x40, Imm 0, Imm 0], Count,
    Syscall NR_recvfrom [Reg 2, Ptr 0x20e32080, Imm 4, Imm 0x40, Imm 0, Imm 0], Count,
    Syscall NR_recvfrom [Reg 2, Ptr 0x20e32c00, Imm 0x15, Imm 0x40, Imm 0, Imm 0], Count,
    Syscall NR_sendto [Reg 2, Write_buf, Imm 0xc0, Imm 0x40, Imm 0, Imm 0], Count,
    Syscall NR_recvfrom [Reg 2, Ptr 0x20e34880, Imm 4, Imm 0x40, Imm 0, Imm 0], Count,
    Syscall NR_recvfrom [Reg 2, Ptr 0x20e35400, Imm 0x15, Imm 0x40, Imm 0, Imm 0], Count]"

definition min_mysql_recvfrom_sendto_20_0_body357 :: "stmt list" where
  "min_mysql_recvfrom_sendto_20_0_body357 = [
    Syscall NR_sendto [Reg 2, Write_buf, Imm 0xc0, Imm 0x40, Imm 0, Imm 0], Count,
    Syscall NR_recvfrom [Reg 2, Ptr 0x20e37080, Imm 4, Imm 0x40, Imm 0, Imm 0], Count,
    Syscall NR_recvfrom [Reg 2, Ptr 0x20e37c00, Imm 0x15, Imm 0x40, Imm 0, Imm 0], Count,
    Syscall NR_sendto [Reg 2, Write_buf, Imm 0xc0, Imm 0x40, Imm 0, Imm 0], Count,
    Syscall NR_recvfrom [Reg 2, Ptr 0x20e39880, Imm 4, Imm 0x40, Imm 0, Imm 0], Count,
    Syscall NR_recvfrom [Reg 2, Ptr 0x20e3d4c0, Imm 0x15, Imm 0x40, Imm 0, Imm 0], Count,
    Syscall NR_sendto [Reg 2, Write_buf, Imm 0xc0, Imm 0x40, Imm 0, Imm 0], Count,
    Syscall NR_recvfrom [Reg 2, Ptr 0x20e42200, Imm 4, Imm 0x40, Imm 0, Imm 0], Count,
    Syscall NR_recvfrom [Reg 2, Ptr 0x20e42c40, Imm 0x1d, Imm 0x40, Imm 0, Imm 0], Count,
    Syscall NR_sendto [Reg 2, Write_buf, Imm 0x14ee, Imm 0x40, Imm 0, Imm 0], Count]"

definition min_mysql_recvfrom_sendto_20_0_body358 :: "stmt list" where
  "min_mysql_recvfrom_sendto_20_0_body358 = [
    Syscall NR_recvfrom [Reg 2, Ptr 0x20e52000, Imm 4, Imm 0x40, Imm 0, Imm 0], Count,
    Syscall NR_recvfrom [Reg 2, Ptr 0x20e55b40, Imm 0x1d, Imm 0x40, Imm 0, Imm 0], Count,
    Syscall NR_sendto [Reg 2, Write_buf, Imm 0x3c, Imm 0x40, Imm 0, Imm 0], Count,
    Syscall NR_recvfrom [Reg 2, Ptr 0x20e5d680, Imm 4, Imm 0x40, Imm 0, Imm 0], Count,
    Syscall NR_recvfrom [Reg 2, Ptr 0x20e642c0, Imm 0x1d, Imm 0x40, Imm 0, Imm 0], Count,
    Syscall NR_sendto [Reg 2, Write_buf, Imm 0x317a, Imm 0x40, Imm 0, Imm 0], Count,
    Syscall NR_recvfrom [Reg 2, Ptr 0x200b8640, Imm 4, Imm 0x40, Imm 0, Imm 0], Count,
    Syscall NR_recvfrom [Reg 2, Ptr 0x200f7e80, Imm 0x1d, Imm 0x40, Imm 0, Imm 0], Count,
    Syscall NR_sendto [Reg 2, Write_buf, Imm 0x317a, Imm 0x40, Imm 0, Imm 0], Count,
    Syscall NR_recvfrom [Reg 2, Ptr 0x20427840, Imm 4, Imm 0x40, Imm 0, Imm 0], Count]"

definition min_mysql_recvfrom_sendto_20_0_body359 :: "stmt list" where
  "min_mysql_recvfrom_sendto_20_0_body359 = [
    Syscall NR_recvfrom [Reg 2, Ptr 0x20453700, Imm 0x15, Imm 0x40, Imm 0, Imm 0], Count,
    Syscall NR_sendto [Reg 2, Write_buf, Imm 0x34, Imm 0x40, Imm 0, Imm 0], Count,
    Syscall NR_recvfrom [Reg 2, Ptr 0x204a55c0, Imm 4, Imm 0x40, Imm 0, Imm 0], Count,
    Syscall NR_recvfrom [Reg 2, Ptr 0x204b9600, Imm 0x8d, Imm 0x40, Imm 0, Imm 0], Count,
    Syscall NR_sendto [Reg 2, Write_buf, Imm 0x34, Imm 0x40, Imm 0, Imm 0], Count,
    Syscall NR_recvfrom [Reg 2, Ptr 0x204d7040, Imm 4, Imm 0x40, Imm 0, Imm 0], Count,
    Syscall NR_recvfrom [Reg 2, Ptr 0x204e1cc0, Imm 0x15, Imm 0x40, Imm 0, Imm 0], Count,
    Syscall NR_sendto [Reg 2, Write_buf, Imm 0xb, Imm 0x40, Imm 0, Imm 0], Count,
    Syscall NR_recvfrom [Reg 2, Ptr 0x205035c0, Imm 4, Imm 0x40, Imm 0, Imm 0], Count,
    Syscall NR_recvfrom [Reg 2, Ptr 0x20519940, Imm 0xd1, Imm 0x40, Imm 0, Imm 0], Count]"

definition min_mysql_recvfrom_sendto_20_0_body360 :: "stmt list" where
  "min_mysql_recvfrom_sendto_20_0_body360 = [
    Syscall NR_sendto [Reg 2, Write_buf, Imm 0xd, Imm 0x40, Imm 0, Imm 0], Count,
    Syscall NR_recvfrom [Reg 2, Ptr 0x2053c880, Imm 4, Imm 0x40, Imm 0, Imm 0], Count,
    Syscall NR_recvfrom [Reg 2, Ptr 0x20552dc0, Imm 0xb, Imm 0x40, Imm 0, Imm 0], Count,
    Syscall NR_sendto [Reg 2, Write_buf, Imm 0x18, Imm 0x40, Imm 0, Imm 0], Count,
    Syscall NR_recvfrom [Reg 2, Ptr 0x205b8c00, Imm 4, Imm 0x40, Imm 0, Imm 0], Count,
    Syscall NR_recvfrom [Reg 2, Ptr 0x205b9380, Imm 8, Imm 0x40, Imm 0, Imm 0], Count,
    Syscall NR_sendto [Reg 2, Write_buf, Imm 0x18, Imm 0x40, Imm 0, Imm 0], Count,
    Syscall NR_recvfrom [Reg 2, Ptr 0x205baa80, Imm 4, Imm 0x40, Imm 0, Imm 0], Count,
    Syscall NR_recvfrom [Reg 2, Ptr 0x205bb280, Imm 0x15, Imm 0x40, Imm 0, Imm 0], Count,
    Syscall NR_sendto [Reg 2, Write_buf, Imm 0xc0, Imm 0x40, Imm 0, Imm 0], Count]"

lemma min_mysql_recvfrom_sendto_20_0_body241_ok: "body_ok 3 12666 min_mysql_recvfrom_sendto_20_0_body241" "counted min_mysql_recvfrom_sendto_20_0_body241" "calls min_mysql_recvfrom_sendto_20_0_body241 = 10" "opened_in m min_mysql_recvfrom_sendto_20_0_body241 = []"
  by (simp_all add: min_mysql_recvfrom_sendto_20_0_body241_def prog_checks open_checks)

lemma min_mysql_recvfrom_sendto_20_0_body242_ok: "body_ok 3 12666 min_mysql_recvfrom_sendto_20_0_body242" "counted min_mysql_recvfrom_sendto_20_0_body242" "calls min_mysql_recvfrom_sendto_20_0_body242 = 10" "opened_in m min_mysql_recvfrom_sendto_20_0_body242 = []"
  by (simp_all add: min_mysql_recvfrom_sendto_20_0_body242_def prog_checks open_checks)

lemma min_mysql_recvfrom_sendto_20_0_body243_ok: "body_ok 3 12666 min_mysql_recvfrom_sendto_20_0_body243" "counted min_mysql_recvfrom_sendto_20_0_body243" "calls min_mysql_recvfrom_sendto_20_0_body243 = 10" "opened_in m min_mysql_recvfrom_sendto_20_0_body243 = []"
  by (simp_all add: min_mysql_recvfrom_sendto_20_0_body243_def prog_checks open_checks)

lemma min_mysql_recvfrom_sendto_20_0_body244_ok: "body_ok 3 12666 min_mysql_recvfrom_sendto_20_0_body244" "counted min_mysql_recvfrom_sendto_20_0_body244" "calls min_mysql_recvfrom_sendto_20_0_body244 = 10" "opened_in m min_mysql_recvfrom_sendto_20_0_body244 = []"
  by (simp_all add: min_mysql_recvfrom_sendto_20_0_body244_def prog_checks open_checks)

lemma min_mysql_recvfrom_sendto_20_0_body245_ok: "body_ok 3 12666 min_mysql_recvfrom_sendto_20_0_body245" "counted min_mysql_recvfrom_sendto_20_0_body245" "calls min_mysql_recvfrom_sendto_20_0_body245 = 10" "opened_in m min_mysql_recvfrom_sendto_20_0_body245 = []"
  by (simp_all add: min_mysql_recvfrom_sendto_20_0_body245_def prog_checks open_checks)

lemma min_mysql_recvfrom_sendto_20_0_body246_ok: "body_ok 3 12666 min_mysql_recvfrom_sendto_20_0_body246" "counted min_mysql_recvfrom_sendto_20_0_body246" "calls min_mysql_recvfrom_sendto_20_0_body246 = 10" "opened_in m min_mysql_recvfrom_sendto_20_0_body246 = []"
  by (simp_all add: min_mysql_recvfrom_sendto_20_0_body246_def prog_checks open_checks)

lemma min_mysql_recvfrom_sendto_20_0_body247_ok: "body_ok 3 12666 min_mysql_recvfrom_sendto_20_0_body247" "counted min_mysql_recvfrom_sendto_20_0_body247" "calls min_mysql_recvfrom_sendto_20_0_body247 = 10" "opened_in m min_mysql_recvfrom_sendto_20_0_body247 = []"
  by (simp_all add: min_mysql_recvfrom_sendto_20_0_body247_def prog_checks open_checks)

lemma min_mysql_recvfrom_sendto_20_0_body248_ok: "body_ok 3 12666 min_mysql_recvfrom_sendto_20_0_body248" "counted min_mysql_recvfrom_sendto_20_0_body248" "calls min_mysql_recvfrom_sendto_20_0_body248 = 10" "opened_in m min_mysql_recvfrom_sendto_20_0_body248 = []"
  by (simp_all add: min_mysql_recvfrom_sendto_20_0_body248_def prog_checks open_checks)

lemma min_mysql_recvfrom_sendto_20_0_body249_ok: "body_ok 3 12666 min_mysql_recvfrom_sendto_20_0_body249" "counted min_mysql_recvfrom_sendto_20_0_body249" "calls min_mysql_recvfrom_sendto_20_0_body249 = 10" "opened_in m min_mysql_recvfrom_sendto_20_0_body249 = []"
  by (simp_all add: min_mysql_recvfrom_sendto_20_0_body249_def prog_checks open_checks)

lemma min_mysql_recvfrom_sendto_20_0_body250_ok: "body_ok 3 12666 min_mysql_recvfrom_sendto_20_0_body250" "counted min_mysql_recvfrom_sendto_20_0_body250" "calls min_mysql_recvfrom_sendto_20_0_body250 = 10" "opened_in m min_mysql_recvfrom_sendto_20_0_body250 = []"
  by (simp_all add: min_mysql_recvfrom_sendto_20_0_body250_def prog_checks open_checks)

lemma min_mysql_recvfrom_sendto_20_0_body251_ok: "body_ok 3 12666 min_mysql_recvfrom_sendto_20_0_body251" "counted min_mysql_recvfrom_sendto_20_0_body251" "calls min_mysql_recvfrom_sendto_20_0_body251 = 10" "opened_in m min_mysql_recvfrom_sendto_20_0_body251 = []"
  by (simp_all add: min_mysql_recvfrom_sendto_20_0_body251_def prog_checks open_checks)

lemma min_mysql_recvfrom_sendto_20_0_body252_ok: "body_ok 3 12666 min_mysql_recvfrom_sendto_20_0_body252" "counted min_mysql_recvfrom_sendto_20_0_body252" "calls min_mysql_recvfrom_sendto_20_0_body252 = 10" "opened_in m min_mysql_recvfrom_sendto_20_0_body252 = []"
  by (simp_all add: min_mysql_recvfrom_sendto_20_0_body252_def prog_checks open_checks)

lemma min_mysql_recvfrom_sendto_20_0_body253_ok: "body_ok 3 12666 min_mysql_recvfrom_sendto_20_0_body253" "counted min_mysql_recvfrom_sendto_20_0_body253" "calls min_mysql_recvfrom_sendto_20_0_body253 = 10" "opened_in m min_mysql_recvfrom_sendto_20_0_body253 = []"
  by (simp_all add: min_mysql_recvfrom_sendto_20_0_body253_def prog_checks open_checks)

lemma min_mysql_recvfrom_sendto_20_0_body254_ok: "body_ok 3 12666 min_mysql_recvfrom_sendto_20_0_body254" "counted min_mysql_recvfrom_sendto_20_0_body254" "calls min_mysql_recvfrom_sendto_20_0_body254 = 10" "opened_in m min_mysql_recvfrom_sendto_20_0_body254 = []"
  by (simp_all add: min_mysql_recvfrom_sendto_20_0_body254_def prog_checks open_checks)

lemma min_mysql_recvfrom_sendto_20_0_body255_ok: "body_ok 3 12666 min_mysql_recvfrom_sendto_20_0_body255" "counted min_mysql_recvfrom_sendto_20_0_body255" "calls min_mysql_recvfrom_sendto_20_0_body255 = 10" "opened_in m min_mysql_recvfrom_sendto_20_0_body255 = []"
  by (simp_all add: min_mysql_recvfrom_sendto_20_0_body255_def prog_checks open_checks)

lemma min_mysql_recvfrom_sendto_20_0_body256_ok: "body_ok 3 12666 min_mysql_recvfrom_sendto_20_0_body256" "counted min_mysql_recvfrom_sendto_20_0_body256" "calls min_mysql_recvfrom_sendto_20_0_body256 = 10" "opened_in m min_mysql_recvfrom_sendto_20_0_body256 = []"
  by (simp_all add: min_mysql_recvfrom_sendto_20_0_body256_def prog_checks open_checks)

lemma min_mysql_recvfrom_sendto_20_0_body257_ok: "body_ok 3 12666 min_mysql_recvfrom_sendto_20_0_body257" "counted min_mysql_recvfrom_sendto_20_0_body257" "calls min_mysql_recvfrom_sendto_20_0_body257 = 10" "opened_in m min_mysql_recvfrom_sendto_20_0_body257 = []"
  by (simp_all add: min_mysql_recvfrom_sendto_20_0_body257_def prog_checks open_checks)

lemma min_mysql_recvfrom_sendto_20_0_body258_ok: "body_ok 3 12666 min_mysql_recvfrom_sendto_20_0_body258" "counted min_mysql_recvfrom_sendto_20_0_body258" "calls min_mysql_recvfrom_sendto_20_0_body258 = 10" "opened_in m min_mysql_recvfrom_sendto_20_0_body258 = []"
  by (simp_all add: min_mysql_recvfrom_sendto_20_0_body258_def prog_checks open_checks)

lemma min_mysql_recvfrom_sendto_20_0_body259_ok: "body_ok 3 12666 min_mysql_recvfrom_sendto_20_0_body259" "counted min_mysql_recvfrom_sendto_20_0_body259" "calls min_mysql_recvfrom_sendto_20_0_body259 = 10" "opened_in m min_mysql_recvfrom_sendto_20_0_body259 = []"
  by (simp_all add: min_mysql_recvfrom_sendto_20_0_body259_def prog_checks open_checks)

lemma min_mysql_recvfrom_sendto_20_0_body260_ok: "body_ok 3 12666 min_mysql_recvfrom_sendto_20_0_body260" "counted min_mysql_recvfrom_sendto_20_0_body260" "calls min_mysql_recvfrom_sendto_20_0_body260 = 10" "opened_in m min_mysql_recvfrom_sendto_20_0_body260 = []"
  by (simp_all add: min_mysql_recvfrom_sendto_20_0_body260_def prog_checks open_checks)

lemma min_mysql_recvfrom_sendto_20_0_body261_ok: "body_ok 3 12666 min_mysql_recvfrom_sendto_20_0_body261" "counted min_mysql_recvfrom_sendto_20_0_body261" "calls min_mysql_recvfrom_sendto_20_0_body261 = 10" "opened_in m min_mysql_recvfrom_sendto_20_0_body261 = []"
  by (simp_all add: min_mysql_recvfrom_sendto_20_0_body261_def prog_checks open_checks)

lemma min_mysql_recvfrom_sendto_20_0_body262_ok: "body_ok 3 12666 min_mysql_recvfrom_sendto_20_0_body262" "counted min_mysql_recvfrom_sendto_20_0_body262" "calls min_mysql_recvfrom_sendto_20_0_body262 = 10" "opened_in m min_mysql_recvfrom_sendto_20_0_body262 = []"
  by (simp_all add: min_mysql_recvfrom_sendto_20_0_body262_def prog_checks open_checks)

lemma min_mysql_recvfrom_sendto_20_0_body263_ok: "body_ok 3 12666 min_mysql_recvfrom_sendto_20_0_body263" "counted min_mysql_recvfrom_sendto_20_0_body263" "calls min_mysql_recvfrom_sendto_20_0_body263 = 10" "opened_in m min_mysql_recvfrom_sendto_20_0_body263 = []"
  by (simp_all add: min_mysql_recvfrom_sendto_20_0_body263_def prog_checks open_checks)

lemma min_mysql_recvfrom_sendto_20_0_body264_ok: "body_ok 3 12666 min_mysql_recvfrom_sendto_20_0_body264" "counted min_mysql_recvfrom_sendto_20_0_body264" "calls min_mysql_recvfrom_sendto_20_0_body264 = 10" "opened_in m min_mysql_recvfrom_sendto_20_0_body264 = []"
  by (simp_all add: min_mysql_recvfrom_sendto_20_0_body264_def prog_checks open_checks)

lemma min_mysql_recvfrom_sendto_20_0_body265_ok: "body_ok 3 12666 min_mysql_recvfrom_sendto_20_0_body265" "counted min_mysql_recvfrom_sendto_20_0_body265" "calls min_mysql_recvfrom_sendto_20_0_body265 = 10" "opened_in m min_mysql_recvfrom_sendto_20_0_body265 = []"
  by (simp_all add: min_mysql_recvfrom_sendto_20_0_body265_def prog_checks open_checks)

lemma min_mysql_recvfrom_sendto_20_0_body266_ok: "body_ok 3 12666 min_mysql_recvfrom_sendto_20_0_body266" "counted min_mysql_recvfrom_sendto_20_0_body266" "calls min_mysql_recvfrom_sendto_20_0_body266 = 10" "opened_in m min_mysql_recvfrom_sendto_20_0_body266 = []"
  by (simp_all add: min_mysql_recvfrom_sendto_20_0_body266_def prog_checks open_checks)

lemma min_mysql_recvfrom_sendto_20_0_body267_ok: "body_ok 3 12666 min_mysql_recvfrom_sendto_20_0_body267" "counted min_mysql_recvfrom_sendto_20_0_body267" "calls min_mysql_recvfrom_sendto_20_0_body267 = 10" "opened_in m min_mysql_recvfrom_sendto_20_0_body267 = []"
  by (simp_all add: min_mysql_recvfrom_sendto_20_0_body267_def prog_checks open_checks)

lemma min_mysql_recvfrom_sendto_20_0_body268_ok: "body_ok 3 12666 min_mysql_recvfrom_sendto_20_0_body268" "counted min_mysql_recvfrom_sendto_20_0_body268" "calls min_mysql_recvfrom_sendto_20_0_body268 = 10" "opened_in m min_mysql_recvfrom_sendto_20_0_body268 = []"
  by (simp_all add: min_mysql_recvfrom_sendto_20_0_body268_def prog_checks open_checks)

lemma min_mysql_recvfrom_sendto_20_0_body269_ok: "body_ok 3 12666 min_mysql_recvfrom_sendto_20_0_body269" "counted min_mysql_recvfrom_sendto_20_0_body269" "calls min_mysql_recvfrom_sendto_20_0_body269 = 10" "opened_in m min_mysql_recvfrom_sendto_20_0_body269 = []"
  by (simp_all add: min_mysql_recvfrom_sendto_20_0_body269_def prog_checks open_checks)

lemma min_mysql_recvfrom_sendto_20_0_body270_ok: "body_ok 3 12666 min_mysql_recvfrom_sendto_20_0_body270" "counted min_mysql_recvfrom_sendto_20_0_body270" "calls min_mysql_recvfrom_sendto_20_0_body270 = 10" "opened_in m min_mysql_recvfrom_sendto_20_0_body270 = []"
  by (simp_all add: min_mysql_recvfrom_sendto_20_0_body270_def prog_checks open_checks)

lemma min_mysql_recvfrom_sendto_20_0_body271_ok: "body_ok 3 12666 min_mysql_recvfrom_sendto_20_0_body271" "counted min_mysql_recvfrom_sendto_20_0_body271" "calls min_mysql_recvfrom_sendto_20_0_body271 = 10" "opened_in m min_mysql_recvfrom_sendto_20_0_body271 = []"
  by (simp_all add: min_mysql_recvfrom_sendto_20_0_body271_def prog_checks open_checks)

lemma min_mysql_recvfrom_sendto_20_0_body272_ok: "body_ok 3 12666 min_mysql_recvfrom_sendto_20_0_body272" "counted min_mysql_recvfrom_sendto_20_0_body272" "calls min_mysql_recvfrom_sendto_20_0_body272 = 10" "opened_in m min_mysql_recvfrom_sendto_20_0_body272 = []"
  by (simp_all add: min_mysql_recvfrom_sendto_20_0_body272_def prog_checks open_checks)

lemma min_mysql_recvfrom_sendto_20_0_body273_ok: "body_ok 3 12666 min_mysql_recvfrom_sendto_20_0_body273" "counted min_mysql_recvfrom_sendto_20_0_body273" "calls min_mysql_recvfrom_sendto_20_0_body273 = 10" "opened_in m min_mysql_recvfrom_sendto_20_0_body273 = []"
  by (simp_all add: min_mysql_recvfrom_sendto_20_0_body273_def prog_checks open_checks)

lemma min_mysql_recvfrom_sendto_20_0_body274_ok: "body_ok 3 12666 min_mysql_recvfrom_sendto_20_0_body274" "counted min_mysql_recvfrom_sendto_20_0_body274" "calls min_mysql_recvfrom_sendto_20_0_body274 = 10" "opened_in m min_mysql_recvfrom_sendto_20_0_body274 = []"
  by (simp_all add: min_mysql_recvfrom_sendto_20_0_body274_def prog_checks open_checks)

lemma min_mysql_recvfrom_sendto_20_0_body275_ok: "body_ok 3 12666 min_mysql_recvfrom_sendto_20_0_body275" "counted min_mysql_recvfrom_sendto_20_0_body275" "calls min_mysql_recvfrom_sendto_20_0_body275 = 10" "opened_in m min_mysql_recvfrom_sendto_20_0_body275 = []"
  by (simp_all add: min_mysql_recvfrom_sendto_20_0_body275_def prog_checks open_checks)

lemma min_mysql_recvfrom_sendto_20_0_body276_ok: "body_ok 3 12666 min_mysql_recvfrom_sendto_20_0_body276" "counted min_mysql_recvfrom_sendto_20_0_body276" "calls min_mysql_recvfrom_sendto_20_0_body276 = 10" "opened_in m min_mysql_recvfrom_sendto_20_0_body276 = []"
  by (simp_all add: min_mysql_recvfrom_sendto_20_0_body276_def prog_checks open_checks)

lemma min_mysql_recvfrom_sendto_20_0_body277_ok: "body_ok 3 12666 min_mysql_recvfrom_sendto_20_0_body277" "counted min_mysql_recvfrom_sendto_20_0_body277" "calls min_mysql_recvfrom_sendto_20_0_body277 = 10" "opened_in m min_mysql_recvfrom_sendto_20_0_body277 = []"
  by (simp_all add: min_mysql_recvfrom_sendto_20_0_body277_def prog_checks open_checks)

lemma min_mysql_recvfrom_sendto_20_0_body278_ok: "body_ok 3 12666 min_mysql_recvfrom_sendto_20_0_body278" "counted min_mysql_recvfrom_sendto_20_0_body278" "calls min_mysql_recvfrom_sendto_20_0_body278 = 10" "opened_in m min_mysql_recvfrom_sendto_20_0_body278 = []"
  by (simp_all add: min_mysql_recvfrom_sendto_20_0_body278_def prog_checks open_checks)

lemma min_mysql_recvfrom_sendto_20_0_body279_ok: "body_ok 3 12666 min_mysql_recvfrom_sendto_20_0_body279" "counted min_mysql_recvfrom_sendto_20_0_body279" "calls min_mysql_recvfrom_sendto_20_0_body279 = 10" "opened_in m min_mysql_recvfrom_sendto_20_0_body279 = []"
  by (simp_all add: min_mysql_recvfrom_sendto_20_0_body279_def prog_checks open_checks)

lemma min_mysql_recvfrom_sendto_20_0_body280_ok: "body_ok 3 12666 min_mysql_recvfrom_sendto_20_0_body280" "counted min_mysql_recvfrom_sendto_20_0_body280" "calls min_mysql_recvfrom_sendto_20_0_body280 = 10" "opened_in m min_mysql_recvfrom_sendto_20_0_body280 = []"
  by (simp_all add: min_mysql_recvfrom_sendto_20_0_body280_def prog_checks open_checks)

lemma min_mysql_recvfrom_sendto_20_0_body281_ok: "body_ok 3 12666 min_mysql_recvfrom_sendto_20_0_body281" "counted min_mysql_recvfrom_sendto_20_0_body281" "calls min_mysql_recvfrom_sendto_20_0_body281 = 10" "opened_in m min_mysql_recvfrom_sendto_20_0_body281 = []"
  by (simp_all add: min_mysql_recvfrom_sendto_20_0_body281_def prog_checks open_checks)

lemma min_mysql_recvfrom_sendto_20_0_body282_ok: "body_ok 3 12666 min_mysql_recvfrom_sendto_20_0_body282" "counted min_mysql_recvfrom_sendto_20_0_body282" "calls min_mysql_recvfrom_sendto_20_0_body282 = 10" "opened_in m min_mysql_recvfrom_sendto_20_0_body282 = []"
  by (simp_all add: min_mysql_recvfrom_sendto_20_0_body282_def prog_checks open_checks)

lemma min_mysql_recvfrom_sendto_20_0_body283_ok: "body_ok 3 12666 min_mysql_recvfrom_sendto_20_0_body283" "counted min_mysql_recvfrom_sendto_20_0_body283" "calls min_mysql_recvfrom_sendto_20_0_body283 = 10" "opened_in m min_mysql_recvfrom_sendto_20_0_body283 = []"
  by (simp_all add: min_mysql_recvfrom_sendto_20_0_body283_def prog_checks open_checks)

lemma min_mysql_recvfrom_sendto_20_0_body284_ok: "body_ok 3 12666 min_mysql_recvfrom_sendto_20_0_body284" "counted min_mysql_recvfrom_sendto_20_0_body284" "calls min_mysql_recvfrom_sendto_20_0_body284 = 10" "opened_in m min_mysql_recvfrom_sendto_20_0_body284 = []"
  by (simp_all add: min_mysql_recvfrom_sendto_20_0_body284_def prog_checks open_checks)

lemma min_mysql_recvfrom_sendto_20_0_body285_ok: "body_ok 3 12666 min_mysql_recvfrom_sendto_20_0_body285" "counted min_mysql_recvfrom_sendto_20_0_body285" "calls min_mysql_recvfrom_sendto_20_0_body285 = 10" "opened_in m min_mysql_recvfrom_sendto_20_0_body285 = []"
  by (simp_all add: min_mysql_recvfrom_sendto_20_0_body285_def prog_checks open_checks)

lemma min_mysql_recvfrom_sendto_20_0_body286_ok: "body_ok 3 12666 min_mysql_recvfrom_sendto_20_0_body286" "counted min_mysql_recvfrom_sendto_20_0_body286" "calls min_mysql_recvfrom_sendto_20_0_body286 = 10" "opened_in m min_mysql_recvfrom_sendto_20_0_body286 = []"
  by (simp_all add: min_mysql_recvfrom_sendto_20_0_body286_def prog_checks open_checks)

lemma min_mysql_recvfrom_sendto_20_0_body287_ok: "body_ok 3 12666 min_mysql_recvfrom_sendto_20_0_body287" "counted min_mysql_recvfrom_sendto_20_0_body287" "calls min_mysql_recvfrom_sendto_20_0_body287 = 10" "opened_in m min_mysql_recvfrom_sendto_20_0_body287 = []"
  by (simp_all add: min_mysql_recvfrom_sendto_20_0_body287_def prog_checks open_checks)

lemma min_mysql_recvfrom_sendto_20_0_body288_ok: "body_ok 3 12666 min_mysql_recvfrom_sendto_20_0_body288" "counted min_mysql_recvfrom_sendto_20_0_body288" "calls min_mysql_recvfrom_sendto_20_0_body288 = 10" "opened_in m min_mysql_recvfrom_sendto_20_0_body288 = []"
  by (simp_all add: min_mysql_recvfrom_sendto_20_0_body288_def prog_checks open_checks)

lemma min_mysql_recvfrom_sendto_20_0_body289_ok: "body_ok 3 12666 min_mysql_recvfrom_sendto_20_0_body289" "counted min_mysql_recvfrom_sendto_20_0_body289" "calls min_mysql_recvfrom_sendto_20_0_body289 = 10" "opened_in m min_mysql_recvfrom_sendto_20_0_body289 = []"
  by (simp_all add: min_mysql_recvfrom_sendto_20_0_body289_def prog_checks open_checks)

lemma min_mysql_recvfrom_sendto_20_0_body290_ok: "body_ok 3 12666 min_mysql_recvfrom_sendto_20_0_body290" "counted min_mysql_recvfrom_sendto_20_0_body290" "calls min_mysql_recvfrom_sendto_20_0_body290 = 10" "opened_in m min_mysql_recvfrom_sendto_20_0_body290 = []"
  by (simp_all add: min_mysql_recvfrom_sendto_20_0_body290_def prog_checks open_checks)

lemma min_mysql_recvfrom_sendto_20_0_body291_ok: "body_ok 3 12666 min_mysql_recvfrom_sendto_20_0_body291" "counted min_mysql_recvfrom_sendto_20_0_body291" "calls min_mysql_recvfrom_sendto_20_0_body291 = 10" "opened_in m min_mysql_recvfrom_sendto_20_0_body291 = []"
  by (simp_all add: min_mysql_recvfrom_sendto_20_0_body291_def prog_checks open_checks)

lemma min_mysql_recvfrom_sendto_20_0_body292_ok: "body_ok 3 12666 min_mysql_recvfrom_sendto_20_0_body292" "counted min_mysql_recvfrom_sendto_20_0_body292" "calls min_mysql_recvfrom_sendto_20_0_body292 = 10" "opened_in m min_mysql_recvfrom_sendto_20_0_body292 = []"
  by (simp_all add: min_mysql_recvfrom_sendto_20_0_body292_def prog_checks open_checks)

lemma min_mysql_recvfrom_sendto_20_0_body293_ok: "body_ok 3 12666 min_mysql_recvfrom_sendto_20_0_body293" "counted min_mysql_recvfrom_sendto_20_0_body293" "calls min_mysql_recvfrom_sendto_20_0_body293 = 10" "opened_in m min_mysql_recvfrom_sendto_20_0_body293 = []"
  by (simp_all add: min_mysql_recvfrom_sendto_20_0_body293_def prog_checks open_checks)

lemma min_mysql_recvfrom_sendto_20_0_body294_ok: "body_ok 3 12666 min_mysql_recvfrom_sendto_20_0_body294" "counted min_mysql_recvfrom_sendto_20_0_body294" "calls min_mysql_recvfrom_sendto_20_0_body294 = 10" "opened_in m min_mysql_recvfrom_sendto_20_0_body294 = []"
  by (simp_all add: min_mysql_recvfrom_sendto_20_0_body294_def prog_checks open_checks)

lemma min_mysql_recvfrom_sendto_20_0_body295_ok: "body_ok 3 12666 min_mysql_recvfrom_sendto_20_0_body295" "counted min_mysql_recvfrom_sendto_20_0_body295" "calls min_mysql_recvfrom_sendto_20_0_body295 = 10" "opened_in m min_mysql_recvfrom_sendto_20_0_body295 = []"
  by (simp_all add: min_mysql_recvfrom_sendto_20_0_body295_def prog_checks open_checks)

lemma min_mysql_recvfrom_sendto_20_0_body296_ok: "body_ok 3 12666 min_mysql_recvfrom_sendto_20_0_body296" "counted min_mysql_recvfrom_sendto_20_0_body296" "calls min_mysql_recvfrom_sendto_20_0_body296 = 10" "opened_in m min_mysql_recvfrom_sendto_20_0_body296 = []"
  by (simp_all add: min_mysql_recvfrom_sendto_20_0_body296_def prog_checks open_checks)

lemma min_mysql_recvfrom_sendto_20_0_body297_ok: "body_ok 3 12666 min_mysql_recvfrom_sendto_20_0_body297" "counted min_mysql_recvfrom_sendto_20_0_body297" "calls min_mysql_recvfrom_sendto_20_0_body297 = 10" "opened_in m min_mysql_recvfrom_sendto_20_0_body297 = []"
  by (simp_all add: min_mysql_recvfrom_sendto_20_0_body297_def prog_checks open_checks)

lemma min_mysql_recvfrom_sendto_20_0_body298_ok: "body_ok 3 12666 min_mysql_recvfrom_sendto_20_0_body298" "counted min_mysql_recvfrom_sendto_20_0_body298" "calls min_mysql_recvfrom_sendto_20_0_body298 = 10" "opened_in m min_mysql_recvfrom_sendto_20_0_body298 = []"
  by (simp_all add: min_mysql_recvfrom_sendto_20_0_body298_def prog_checks open_checks)

lemma min_mysql_recvfrom_sendto_20_0_body299_ok: "body_ok 3 12666 min_mysql_recvfrom_sendto_20_0_body299" "counted min_mysql_recvfrom_sendto_20_0_body299" "calls min_mysql_recvfrom_sendto_20_0_body299 = 10" "opened_in m min_mysql_recvfrom_sendto_20_0_body299 = []"
  by (simp_all add: min_mysql_recvfrom_sendto_20_0_body299_def prog_checks open_checks)

lemma min_mysql_recvfrom_sendto_20_0_body300_ok: "body_ok 3 12666 min_mysql_recvfrom_sendto_20_0_body300" "counted min_mysql_recvfrom_sendto_20_0_body300" "calls min_mysql_recvfrom_sendto_20_0_body300 = 10" "opened_in m min_mysql_recvfrom_sendto_20_0_body300 = []"
  by (simp_all add: min_mysql_recvfrom_sendto_20_0_body300_def prog_checks open_checks)

lemma min_mysql_recvfrom_sendto_20_0_body301_ok: "body_ok 3 12666 min_mysql_recvfrom_sendto_20_0_body301" "counted min_mysql_recvfrom_sendto_20_0_body301" "calls min_mysql_recvfrom_sendto_20_0_body301 = 10" "opened_in m min_mysql_recvfrom_sendto_20_0_body301 = []"
  by (simp_all add: min_mysql_recvfrom_sendto_20_0_body301_def prog_checks open_checks)

lemma min_mysql_recvfrom_sendto_20_0_body302_ok: "body_ok 3 12666 min_mysql_recvfrom_sendto_20_0_body302" "counted min_mysql_recvfrom_sendto_20_0_body302" "calls min_mysql_recvfrom_sendto_20_0_body302 = 10" "opened_in m min_mysql_recvfrom_sendto_20_0_body302 = []"
  by (simp_all add: min_mysql_recvfrom_sendto_20_0_body302_def prog_checks open_checks)

lemma min_mysql_recvfrom_sendto_20_0_body303_ok: "body_ok 3 12666 min_mysql_recvfrom_sendto_20_0_body303" "counted min_mysql_recvfrom_sendto_20_0_body303" "calls min_mysql_recvfrom_sendto_20_0_body303 = 10" "opened_in m min_mysql_recvfrom_sendto_20_0_body303 = []"
  by (simp_all add: min_mysql_recvfrom_sendto_20_0_body303_def prog_checks open_checks)

lemma min_mysql_recvfrom_sendto_20_0_body304_ok: "body_ok 3 12666 min_mysql_recvfrom_sendto_20_0_body304" "counted min_mysql_recvfrom_sendto_20_0_body304" "calls min_mysql_recvfrom_sendto_20_0_body304 = 10" "opened_in m min_mysql_recvfrom_sendto_20_0_body304 = []"
  by (simp_all add: min_mysql_recvfrom_sendto_20_0_body304_def prog_checks open_checks)

lemma min_mysql_recvfrom_sendto_20_0_body305_ok: "body_ok 3 12666 min_mysql_recvfrom_sendto_20_0_body305" "counted min_mysql_recvfrom_sendto_20_0_body305" "calls min_mysql_recvfrom_sendto_20_0_body305 = 10" "opened_in m min_mysql_recvfrom_sendto_20_0_body305 = []"
  by (simp_all add: min_mysql_recvfrom_sendto_20_0_body305_def prog_checks open_checks)

lemma min_mysql_recvfrom_sendto_20_0_body306_ok: "body_ok 3 12666 min_mysql_recvfrom_sendto_20_0_body306" "counted min_mysql_recvfrom_sendto_20_0_body306" "calls min_mysql_recvfrom_sendto_20_0_body306 = 10" "opened_in m min_mysql_recvfrom_sendto_20_0_body306 = []"
  by (simp_all add: min_mysql_recvfrom_sendto_20_0_body306_def prog_checks open_checks)

lemma min_mysql_recvfrom_sendto_20_0_body307_ok: "body_ok 3 12666 min_mysql_recvfrom_sendto_20_0_body307" "counted min_mysql_recvfrom_sendto_20_0_body307" "calls min_mysql_recvfrom_sendto_20_0_body307 = 10" "opened_in m min_mysql_recvfrom_sendto_20_0_body307 = []"
  by (simp_all add: min_mysql_recvfrom_sendto_20_0_body307_def prog_checks open_checks)

lemma min_mysql_recvfrom_sendto_20_0_body308_ok: "body_ok 3 12666 min_mysql_recvfrom_sendto_20_0_body308" "counted min_mysql_recvfrom_sendto_20_0_body308" "calls min_mysql_recvfrom_sendto_20_0_body308 = 10" "opened_in m min_mysql_recvfrom_sendto_20_0_body308 = []"
  by (simp_all add: min_mysql_recvfrom_sendto_20_0_body308_def prog_checks open_checks)

lemma min_mysql_recvfrom_sendto_20_0_body309_ok: "body_ok 3 12666 min_mysql_recvfrom_sendto_20_0_body309" "counted min_mysql_recvfrom_sendto_20_0_body309" "calls min_mysql_recvfrom_sendto_20_0_body309 = 10" "opened_in m min_mysql_recvfrom_sendto_20_0_body309 = []"
  by (simp_all add: min_mysql_recvfrom_sendto_20_0_body309_def prog_checks open_checks)

lemma min_mysql_recvfrom_sendto_20_0_body310_ok: "body_ok 3 12666 min_mysql_recvfrom_sendto_20_0_body310" "counted min_mysql_recvfrom_sendto_20_0_body310" "calls min_mysql_recvfrom_sendto_20_0_body310 = 10" "opened_in m min_mysql_recvfrom_sendto_20_0_body310 = []"
  by (simp_all add: min_mysql_recvfrom_sendto_20_0_body310_def prog_checks open_checks)

lemma min_mysql_recvfrom_sendto_20_0_body311_ok: "body_ok 3 12666 min_mysql_recvfrom_sendto_20_0_body311" "counted min_mysql_recvfrom_sendto_20_0_body311" "calls min_mysql_recvfrom_sendto_20_0_body311 = 10" "opened_in m min_mysql_recvfrom_sendto_20_0_body311 = []"
  by (simp_all add: min_mysql_recvfrom_sendto_20_0_body311_def prog_checks open_checks)

lemma min_mysql_recvfrom_sendto_20_0_body312_ok: "body_ok 3 12666 min_mysql_recvfrom_sendto_20_0_body312" "counted min_mysql_recvfrom_sendto_20_0_body312" "calls min_mysql_recvfrom_sendto_20_0_body312 = 10" "opened_in m min_mysql_recvfrom_sendto_20_0_body312 = []"
  by (simp_all add: min_mysql_recvfrom_sendto_20_0_body312_def prog_checks open_checks)

lemma min_mysql_recvfrom_sendto_20_0_body313_ok: "body_ok 3 12666 min_mysql_recvfrom_sendto_20_0_body313" "counted min_mysql_recvfrom_sendto_20_0_body313" "calls min_mysql_recvfrom_sendto_20_0_body313 = 10" "opened_in m min_mysql_recvfrom_sendto_20_0_body313 = []"
  by (simp_all add: min_mysql_recvfrom_sendto_20_0_body313_def prog_checks open_checks)

lemma min_mysql_recvfrom_sendto_20_0_body314_ok: "body_ok 3 12666 min_mysql_recvfrom_sendto_20_0_body314" "counted min_mysql_recvfrom_sendto_20_0_body314" "calls min_mysql_recvfrom_sendto_20_0_body314 = 10" "opened_in m min_mysql_recvfrom_sendto_20_0_body314 = []"
  by (simp_all add: min_mysql_recvfrom_sendto_20_0_body314_def prog_checks open_checks)

lemma min_mysql_recvfrom_sendto_20_0_body315_ok: "body_ok 3 12666 min_mysql_recvfrom_sendto_20_0_body315" "counted min_mysql_recvfrom_sendto_20_0_body315" "calls min_mysql_recvfrom_sendto_20_0_body315 = 10" "opened_in m min_mysql_recvfrom_sendto_20_0_body315 = []"
  by (simp_all add: min_mysql_recvfrom_sendto_20_0_body315_def prog_checks open_checks)

lemma min_mysql_recvfrom_sendto_20_0_body316_ok: "body_ok 3 12666 min_mysql_recvfrom_sendto_20_0_body316" "counted min_mysql_recvfrom_sendto_20_0_body316" "calls min_mysql_recvfrom_sendto_20_0_body316 = 10" "opened_in m min_mysql_recvfrom_sendto_20_0_body316 = []"
  by (simp_all add: min_mysql_recvfrom_sendto_20_0_body316_def prog_checks open_checks)

lemma min_mysql_recvfrom_sendto_20_0_body317_ok: "body_ok 3 12666 min_mysql_recvfrom_sendto_20_0_body317" "counted min_mysql_recvfrom_sendto_20_0_body317" "calls min_mysql_recvfrom_sendto_20_0_body317 = 10" "opened_in m min_mysql_recvfrom_sendto_20_0_body317 = []"
  by (simp_all add: min_mysql_recvfrom_sendto_20_0_body317_def prog_checks open_checks)

lemma min_mysql_recvfrom_sendto_20_0_body318_ok: "body_ok 3 12666 min_mysql_recvfrom_sendto_20_0_body318" "counted min_mysql_recvfrom_sendto_20_0_body318" "calls min_mysql_recvfrom_sendto_20_0_body318 = 10" "opened_in m min_mysql_recvfrom_sendto_20_0_body318 = []"
  by (simp_all add: min_mysql_recvfrom_sendto_20_0_body318_def prog_checks open_checks)

lemma min_mysql_recvfrom_sendto_20_0_body319_ok: "body_ok 3 12666 min_mysql_recvfrom_sendto_20_0_body319" "counted min_mysql_recvfrom_sendto_20_0_body319" "calls min_mysql_recvfrom_sendto_20_0_body319 = 10" "opened_in m min_mysql_recvfrom_sendto_20_0_body319 = []"
  by (simp_all add: min_mysql_recvfrom_sendto_20_0_body319_def prog_checks open_checks)

lemma min_mysql_recvfrom_sendto_20_0_body320_ok: "body_ok 3 12666 min_mysql_recvfrom_sendto_20_0_body320" "counted min_mysql_recvfrom_sendto_20_0_body320" "calls min_mysql_recvfrom_sendto_20_0_body320 = 10" "opened_in m min_mysql_recvfrom_sendto_20_0_body320 = []"
  by (simp_all add: min_mysql_recvfrom_sendto_20_0_body320_def prog_checks open_checks)

lemma min_mysql_recvfrom_sendto_20_0_body321_ok: "body_ok 3 12666 min_mysql_recvfrom_sendto_20_0_body321" "counted min_mysql_recvfrom_sendto_20_0_body321" "calls min_mysql_recvfrom_sendto_20_0_body321 = 10" "opened_in m min_mysql_recvfrom_sendto_20_0_body321 = []"
  by (simp_all add: min_mysql_recvfrom_sendto_20_0_body321_def prog_checks open_checks)

lemma min_mysql_recvfrom_sendto_20_0_body322_ok: "body_ok 3 12666 min_mysql_recvfrom_sendto_20_0_body322" "counted min_mysql_recvfrom_sendto_20_0_body322" "calls min_mysql_recvfrom_sendto_20_0_body322 = 10" "opened_in m min_mysql_recvfrom_sendto_20_0_body322 = []"
  by (simp_all add: min_mysql_recvfrom_sendto_20_0_body322_def prog_checks open_checks)

lemma min_mysql_recvfrom_sendto_20_0_body323_ok: "body_ok 3 12666 min_mysql_recvfrom_sendto_20_0_body323" "counted min_mysql_recvfrom_sendto_20_0_body323" "calls min_mysql_recvfrom_sendto_20_0_body323 = 10" "opened_in m min_mysql_recvfrom_sendto_20_0_body323 = []"
  by (simp_all add: min_mysql_recvfrom_sendto_20_0_body323_def prog_checks open_checks)

lemma min_mysql_recvfrom_sendto_20_0_body324_ok: "body_ok 3 12666 min_mysql_recvfrom_sendto_20_0_body324" "counted min_mysql_recvfrom_sendto_20_0_body324" "calls min_mysql_recvfrom_sendto_20_0_body324 = 10" "opened_in m min_mysql_recvfrom_sendto_20_0_body324 = []"
  by (simp_all add: min_mysql_recvfrom_sendto_20_0_body324_def prog_checks open_checks)

lemma min_mysql_recvfrom_sendto_20_0_body325_ok: "body_ok 3 12666 min_mysql_recvfrom_sendto_20_0_body325" "counted min_mysql_recvfrom_sendto_20_0_body325" "calls min_mysql_recvfrom_sendto_20_0_body325 = 10" "opened_in m min_mysql_recvfrom_sendto_20_0_body325 = []"
  by (simp_all add: min_mysql_recvfrom_sendto_20_0_body325_def prog_checks open_checks)

lemma min_mysql_recvfrom_sendto_20_0_body326_ok: "body_ok 3 12666 min_mysql_recvfrom_sendto_20_0_body326" "counted min_mysql_recvfrom_sendto_20_0_body326" "calls min_mysql_recvfrom_sendto_20_0_body326 = 10" "opened_in m min_mysql_recvfrom_sendto_20_0_body326 = []"
  by (simp_all add: min_mysql_recvfrom_sendto_20_0_body326_def prog_checks open_checks)

lemma min_mysql_recvfrom_sendto_20_0_body327_ok: "body_ok 3 12666 min_mysql_recvfrom_sendto_20_0_body327" "counted min_mysql_recvfrom_sendto_20_0_body327" "calls min_mysql_recvfrom_sendto_20_0_body327 = 10" "opened_in m min_mysql_recvfrom_sendto_20_0_body327 = []"
  by (simp_all add: min_mysql_recvfrom_sendto_20_0_body327_def prog_checks open_checks)

lemma min_mysql_recvfrom_sendto_20_0_body328_ok: "body_ok 3 12666 min_mysql_recvfrom_sendto_20_0_body328" "counted min_mysql_recvfrom_sendto_20_0_body328" "calls min_mysql_recvfrom_sendto_20_0_body328 = 10" "opened_in m min_mysql_recvfrom_sendto_20_0_body328 = []"
  by (simp_all add: min_mysql_recvfrom_sendto_20_0_body328_def prog_checks open_checks)

lemma min_mysql_recvfrom_sendto_20_0_body329_ok: "body_ok 3 12666 min_mysql_recvfrom_sendto_20_0_body329" "counted min_mysql_recvfrom_sendto_20_0_body329" "calls min_mysql_recvfrom_sendto_20_0_body329 = 10" "opened_in m min_mysql_recvfrom_sendto_20_0_body329 = []"
  by (simp_all add: min_mysql_recvfrom_sendto_20_0_body329_def prog_checks open_checks)

lemma min_mysql_recvfrom_sendto_20_0_body330_ok: "body_ok 3 12666 min_mysql_recvfrom_sendto_20_0_body330" "counted min_mysql_recvfrom_sendto_20_0_body330" "calls min_mysql_recvfrom_sendto_20_0_body330 = 10" "opened_in m min_mysql_recvfrom_sendto_20_0_body330 = []"
  by (simp_all add: min_mysql_recvfrom_sendto_20_0_body330_def prog_checks open_checks)

lemma min_mysql_recvfrom_sendto_20_0_body331_ok: "body_ok 3 12666 min_mysql_recvfrom_sendto_20_0_body331" "counted min_mysql_recvfrom_sendto_20_0_body331" "calls min_mysql_recvfrom_sendto_20_0_body331 = 10" "opened_in m min_mysql_recvfrom_sendto_20_0_body331 = []"
  by (simp_all add: min_mysql_recvfrom_sendto_20_0_body331_def prog_checks open_checks)

lemma min_mysql_recvfrom_sendto_20_0_body332_ok: "body_ok 3 12666 min_mysql_recvfrom_sendto_20_0_body332" "counted min_mysql_recvfrom_sendto_20_0_body332" "calls min_mysql_recvfrom_sendto_20_0_body332 = 10" "opened_in m min_mysql_recvfrom_sendto_20_0_body332 = []"
  by (simp_all add: min_mysql_recvfrom_sendto_20_0_body332_def prog_checks open_checks)

lemma min_mysql_recvfrom_sendto_20_0_body333_ok: "body_ok 3 12666 min_mysql_recvfrom_sendto_20_0_body333" "counted min_mysql_recvfrom_sendto_20_0_body333" "calls min_mysql_recvfrom_sendto_20_0_body333 = 10" "opened_in m min_mysql_recvfrom_sendto_20_0_body333 = []"
  by (simp_all add: min_mysql_recvfrom_sendto_20_0_body333_def prog_checks open_checks)

lemma min_mysql_recvfrom_sendto_20_0_body334_ok: "body_ok 3 12666 min_mysql_recvfrom_sendto_20_0_body334" "counted min_mysql_recvfrom_sendto_20_0_body334" "calls min_mysql_recvfrom_sendto_20_0_body334 = 10" "opened_in m min_mysql_recvfrom_sendto_20_0_body334 = []"
  by (simp_all add: min_mysql_recvfrom_sendto_20_0_body334_def prog_checks open_checks)

lemma min_mysql_recvfrom_sendto_20_0_body335_ok: "body_ok 3 12666 min_mysql_recvfrom_sendto_20_0_body335" "counted min_mysql_recvfrom_sendto_20_0_body335" "calls min_mysql_recvfrom_sendto_20_0_body335 = 10" "opened_in m min_mysql_recvfrom_sendto_20_0_body335 = []"
  by (simp_all add: min_mysql_recvfrom_sendto_20_0_body335_def prog_checks open_checks)

lemma min_mysql_recvfrom_sendto_20_0_body336_ok: "body_ok 3 12666 min_mysql_recvfrom_sendto_20_0_body336" "counted min_mysql_recvfrom_sendto_20_0_body336" "calls min_mysql_recvfrom_sendto_20_0_body336 = 10" "opened_in m min_mysql_recvfrom_sendto_20_0_body336 = []"
  by (simp_all add: min_mysql_recvfrom_sendto_20_0_body336_def prog_checks open_checks)

lemma min_mysql_recvfrom_sendto_20_0_body337_ok: "body_ok 3 12666 min_mysql_recvfrom_sendto_20_0_body337" "counted min_mysql_recvfrom_sendto_20_0_body337" "calls min_mysql_recvfrom_sendto_20_0_body337 = 10" "opened_in m min_mysql_recvfrom_sendto_20_0_body337 = []"
  by (simp_all add: min_mysql_recvfrom_sendto_20_0_body337_def prog_checks open_checks)

lemma min_mysql_recvfrom_sendto_20_0_body338_ok: "body_ok 3 12666 min_mysql_recvfrom_sendto_20_0_body338" "counted min_mysql_recvfrom_sendto_20_0_body338" "calls min_mysql_recvfrom_sendto_20_0_body338 = 10" "opened_in m min_mysql_recvfrom_sendto_20_0_body338 = []"
  by (simp_all add: min_mysql_recvfrom_sendto_20_0_body338_def prog_checks open_checks)

lemma min_mysql_recvfrom_sendto_20_0_body339_ok: "body_ok 3 12666 min_mysql_recvfrom_sendto_20_0_body339" "counted min_mysql_recvfrom_sendto_20_0_body339" "calls min_mysql_recvfrom_sendto_20_0_body339 = 10" "opened_in m min_mysql_recvfrom_sendto_20_0_body339 = []"
  by (simp_all add: min_mysql_recvfrom_sendto_20_0_body339_def prog_checks open_checks)

lemma min_mysql_recvfrom_sendto_20_0_body340_ok: "body_ok 3 12666 min_mysql_recvfrom_sendto_20_0_body340" "counted min_mysql_recvfrom_sendto_20_0_body340" "calls min_mysql_recvfrom_sendto_20_0_body340 = 10" "opened_in m min_mysql_recvfrom_sendto_20_0_body340 = []"
  by (simp_all add: min_mysql_recvfrom_sendto_20_0_body340_def prog_checks open_checks)

lemma min_mysql_recvfrom_sendto_20_0_body341_ok: "body_ok 3 12666 min_mysql_recvfrom_sendto_20_0_body341" "counted min_mysql_recvfrom_sendto_20_0_body341" "calls min_mysql_recvfrom_sendto_20_0_body341 = 10" "opened_in m min_mysql_recvfrom_sendto_20_0_body341 = []"
  by (simp_all add: min_mysql_recvfrom_sendto_20_0_body341_def prog_checks open_checks)

lemma min_mysql_recvfrom_sendto_20_0_body342_ok: "body_ok 3 12666 min_mysql_recvfrom_sendto_20_0_body342" "counted min_mysql_recvfrom_sendto_20_0_body342" "calls min_mysql_recvfrom_sendto_20_0_body342 = 10" "opened_in m min_mysql_recvfrom_sendto_20_0_body342 = []"
  by (simp_all add: min_mysql_recvfrom_sendto_20_0_body342_def prog_checks open_checks)

lemma min_mysql_recvfrom_sendto_20_0_body343_ok: "body_ok 3 12666 min_mysql_recvfrom_sendto_20_0_body343" "counted min_mysql_recvfrom_sendto_20_0_body343" "calls min_mysql_recvfrom_sendto_20_0_body343 = 10" "opened_in m min_mysql_recvfrom_sendto_20_0_body343 = []"
  by (simp_all add: min_mysql_recvfrom_sendto_20_0_body343_def prog_checks open_checks)

lemma min_mysql_recvfrom_sendto_20_0_body344_ok: "body_ok 3 12666 min_mysql_recvfrom_sendto_20_0_body344" "counted min_mysql_recvfrom_sendto_20_0_body344" "calls min_mysql_recvfrom_sendto_20_0_body344 = 10" "opened_in m min_mysql_recvfrom_sendto_20_0_body344 = []"
  by (simp_all add: min_mysql_recvfrom_sendto_20_0_body344_def prog_checks open_checks)

lemma min_mysql_recvfrom_sendto_20_0_body345_ok: "body_ok 3 12666 min_mysql_recvfrom_sendto_20_0_body345" "counted min_mysql_recvfrom_sendto_20_0_body345" "calls min_mysql_recvfrom_sendto_20_0_body345 = 10" "opened_in m min_mysql_recvfrom_sendto_20_0_body345 = []"
  by (simp_all add: min_mysql_recvfrom_sendto_20_0_body345_def prog_checks open_checks)

lemma min_mysql_recvfrom_sendto_20_0_body346_ok: "body_ok 3 12666 min_mysql_recvfrom_sendto_20_0_body346" "counted min_mysql_recvfrom_sendto_20_0_body346" "calls min_mysql_recvfrom_sendto_20_0_body346 = 10" "opened_in m min_mysql_recvfrom_sendto_20_0_body346 = []"
  by (simp_all add: min_mysql_recvfrom_sendto_20_0_body346_def prog_checks open_checks)

lemma min_mysql_recvfrom_sendto_20_0_body347_ok: "body_ok 3 12666 min_mysql_recvfrom_sendto_20_0_body347" "counted min_mysql_recvfrom_sendto_20_0_body347" "calls min_mysql_recvfrom_sendto_20_0_body347 = 10" "opened_in m min_mysql_recvfrom_sendto_20_0_body347 = []"
  by (simp_all add: min_mysql_recvfrom_sendto_20_0_body347_def prog_checks open_checks)

lemma min_mysql_recvfrom_sendto_20_0_body348_ok: "body_ok 3 12666 min_mysql_recvfrom_sendto_20_0_body348" "counted min_mysql_recvfrom_sendto_20_0_body348" "calls min_mysql_recvfrom_sendto_20_0_body348 = 10" "opened_in m min_mysql_recvfrom_sendto_20_0_body348 = []"
  by (simp_all add: min_mysql_recvfrom_sendto_20_0_body348_def prog_checks open_checks)

lemma min_mysql_recvfrom_sendto_20_0_body349_ok: "body_ok 3 12666 min_mysql_recvfrom_sendto_20_0_body349" "counted min_mysql_recvfrom_sendto_20_0_body349" "calls min_mysql_recvfrom_sendto_20_0_body349 = 10" "opened_in m min_mysql_recvfrom_sendto_20_0_body349 = []"
  by (simp_all add: min_mysql_recvfrom_sendto_20_0_body349_def prog_checks open_checks)

lemma min_mysql_recvfrom_sendto_20_0_body350_ok: "body_ok 3 12666 min_mysql_recvfrom_sendto_20_0_body350" "counted min_mysql_recvfrom_sendto_20_0_body350" "calls min_mysql_recvfrom_sendto_20_0_body350 = 10" "opened_in m min_mysql_recvfrom_sendto_20_0_body350 = []"
  by (simp_all add: min_mysql_recvfrom_sendto_20_0_body350_def prog_checks open_checks)

lemma min_mysql_recvfrom_sendto_20_0_body351_ok: "body_ok 3 12666 min_mysql_recvfrom_sendto_20_0_body351" "counted min_mysql_recvfrom_sendto_20_0_body351" "calls min_mysql_recvfrom_sendto_20_0_body351 = 10" "opened_in m min_mysql_recvfrom_sendto_20_0_body351 = []"
  by (simp_all add: min_mysql_recvfrom_sendto_20_0_body351_def prog_checks open_checks)

lemma min_mysql_recvfrom_sendto_20_0_body352_ok: "body_ok 3 12666 min_mysql_recvfrom_sendto_20_0_body352" "counted min_mysql_recvfrom_sendto_20_0_body352" "calls min_mysql_recvfrom_sendto_20_0_body352 = 10" "opened_in m min_mysql_recvfrom_sendto_20_0_body352 = []"
  by (simp_all add: min_mysql_recvfrom_sendto_20_0_body352_def prog_checks open_checks)

lemma min_mysql_recvfrom_sendto_20_0_body353_ok: "body_ok 3 12666 min_mysql_recvfrom_sendto_20_0_body353" "counted min_mysql_recvfrom_sendto_20_0_body353" "calls min_mysql_recvfrom_sendto_20_0_body353 = 10" "opened_in m min_mysql_recvfrom_sendto_20_0_body353 = []"
  by (simp_all add: min_mysql_recvfrom_sendto_20_0_body353_def prog_checks open_checks)

lemma min_mysql_recvfrom_sendto_20_0_body354_ok: "body_ok 3 12666 min_mysql_recvfrom_sendto_20_0_body354" "counted min_mysql_recvfrom_sendto_20_0_body354" "calls min_mysql_recvfrom_sendto_20_0_body354 = 10" "opened_in m min_mysql_recvfrom_sendto_20_0_body354 = []"
  by (simp_all add: min_mysql_recvfrom_sendto_20_0_body354_def prog_checks open_checks)

lemma min_mysql_recvfrom_sendto_20_0_body355_ok: "body_ok 3 12666 min_mysql_recvfrom_sendto_20_0_body355" "counted min_mysql_recvfrom_sendto_20_0_body355" "calls min_mysql_recvfrom_sendto_20_0_body355 = 10" "opened_in m min_mysql_recvfrom_sendto_20_0_body355 = []"
  by (simp_all add: min_mysql_recvfrom_sendto_20_0_body355_def prog_checks open_checks)

lemma min_mysql_recvfrom_sendto_20_0_body356_ok: "body_ok 3 12666 min_mysql_recvfrom_sendto_20_0_body356" "counted min_mysql_recvfrom_sendto_20_0_body356" "calls min_mysql_recvfrom_sendto_20_0_body356 = 10" "opened_in m min_mysql_recvfrom_sendto_20_0_body356 = []"
  by (simp_all add: min_mysql_recvfrom_sendto_20_0_body356_def prog_checks open_checks)

lemma min_mysql_recvfrom_sendto_20_0_body357_ok: "body_ok 3 12666 min_mysql_recvfrom_sendto_20_0_body357" "counted min_mysql_recvfrom_sendto_20_0_body357" "calls min_mysql_recvfrom_sendto_20_0_body357 = 10" "opened_in m min_mysql_recvfrom_sendto_20_0_body357 = []"
  by (simp_all add: min_mysql_recvfrom_sendto_20_0_body357_def prog_checks open_checks)

lemma min_mysql_recvfrom_sendto_20_0_body358_ok: "body_ok 3 12666 min_mysql_recvfrom_sendto_20_0_body358" "counted min_mysql_recvfrom_sendto_20_0_body358" "calls min_mysql_recvfrom_sendto_20_0_body358 = 10" "opened_in m min_mysql_recvfrom_sendto_20_0_body358 = []"
  by (simp_all add: min_mysql_recvfrom_sendto_20_0_body358_def prog_checks open_checks)

lemma min_mysql_recvfrom_sendto_20_0_body359_ok: "body_ok 3 12666 min_mysql_recvfrom_sendto_20_0_body359" "counted min_mysql_recvfrom_sendto_20_0_body359" "calls min_mysql_recvfrom_sendto_20_0_body359 = 10" "opened_in m min_mysql_recvfrom_sendto_20_0_body359 = []"
  by (simp_all add: min_mysql_recvfrom_sendto_20_0_body359_def prog_checks open_checks)

lemma min_mysql_recvfrom_sendto_20_0_body360_ok: "body_ok 3 12666 min_mysql_recvfrom_sendto_20_0_body360" "counted min_mysql_recvfrom_sendto_20_0_body360" "calls min_mysql_recvfrom_sendto_20_0_body360 = 10" "opened_in m min_mysql_recvfrom_sendto_20_0_body360 = []"
  by (simp_all add: min_mysql_recvfrom_sendto_20_0_body360_def prog_checks open_checks)

end
