(* ===== verification/CSB_Progs_Net_c_p4.thy ===== *)
theory CSB_Progs_Net_c_p4
  imports CSB_Syz_Files
begin

text \<open>
  Statements of min\_mysql\_recvfrom\_sendto\_20\_0 (bench/targets/mysql\_v2), in the
  order of the file; the program is put together in CSB\_Progs\_Net\_c.
\<close>

definition min_mysql_recvfrom_sendto_20_0_body361 :: "stmt list" where
  "min_mysql_recvfrom_sendto_20_0_body361 = [
    Syscall NR_recvfrom [Reg 2, Ptr 0x205bcc80, Imm 4, Imm 0x40, Imm 0, Imm 0], Count,
    Syscall NR_recvfrom [Reg 2, Ptr 0x205bd580, Imm 0x15, Imm 0x40, Imm 0, Imm 0], Count,
    Syscall NR_sendto [Reg 2, Write_buf, Imm 0xc0, Imm 0x40, Imm 0, Imm 0], Count,
    Syscall NR_recvfrom [Reg 2, Ptr 0x205bf0c0, Imm 4, Imm 0x40, Imm 0, Imm 0], Count,
    Syscall NR_recvfrom [Reg 2, Ptr 0x205bfa80, Imm 0x15, Imm 0x40, Imm 0, Imm 0], Count,
    Syscall NR_sendto [Reg 2, Write_buf, Imm 0xc0, Imm 0x40, Imm 0, Imm 0], Count,
    Syscall NR_recvfrom [Reg 2, Ptr 0x205c1680, Imm 4, Imm 0x40, Imm 0, Imm 0], Count,
    Syscall NR_recvfrom [Reg 2, Ptr 0x205c20c0, Imm 0x15, Imm 0x40, Imm 0, Imm 0], Count,
    Syscall NR_sendto [Reg 2, Write_buf, Imm 0xc0, Imm 0x40, Imm 0, Imm 0], Count,
    Syscall NR_recvfrom [Reg 2, Ptr 0x205c3d40, Imm 4, Imm 0x40, Imm 0, Imm 0], Count]"

definition min_mysql_recvfrom_sendto_20_0_body362 :: "stmt list" where
  "min_mysql_recvfrom_sendto_20_0_body362 = [
    Syscall NR_recvfrom [Reg 2, Ptr 0x205c4780, Imm 0x15, Imm 0x40, Imm 0, Imm 0], Count,
    Syscall NR_sendto [Reg 2, Write_buf, Imm 0xc0, Imm 0x40, Imm 0, Imm 0], Count,
    Syscall NR_recvfrom [Reg 2, Ptr 0x205c94c0, Imm 4, Imm 0x40, Imm 0, Imm 0], Count,
    Syscall NR_recvfrom [Reg 2, Ptr 0x205c9f00, Imm 0x15, Imm 0x40, Imm 0, Imm 0], Count,
    Syscall NR_sendto [Reg 2, Write_buf, Imm 0xc0, Imm 0x40, Imm 0, Imm 0], Count,
    Syscall NR_recvfrom [Reg 2, Ptr 0x205cba40, Imm 4, Imm 0x40, Imm 0, Imm 0], Count,
    Syscall NR_recvfrom [Reg 2, Ptr 0x205cf5c0, Imm 0x15, Imm 0x40, Imm 0, Imm 0], Count,
    Syscall NR_sendto [Reg 2, Write_buf, Imm 0xc0, Imm 0x40, Imm 0, Imm 0], Count,
    Syscall NR_recvfrom [Reg 2, Ptr 0x205d4540, Imm 4, Imm 0x40, Imm 0, Imm 0], Count,
    Syscall NR_recvfrom [Reg 2, Ptr 0x205db3c0, Imm 0x15, Imm 0x40, Imm 0, Imm 0], Count]"

definition min_mysql_recvfrom_sendto_20_0_body363 :: "stmt list" where
  "min_mysql_recvfrom_sendto_20_0_body363 = [
    Syscall NR_sendto [Reg 2, Write_buf, Imm 0xc0, Imm 0x40, Imm 0, Imm 0], Count,
    Syscall NR_recvfrom [Reg 2, Ptr 0x205dff00, Imm 4, Imm 0x40, Imm 0, Imm 0], Count,
    Syscall NR_recvfrom [Reg 2, Ptr 0x205ecbc0, Imm 0x15, Imm 0x40, Imm 0, Imm 0], Count,
    Syscall NR_sendto [Reg 2, Write_buf, Imm 0xc0, Imm 0x40, Imm 0, Imm 0], Count,
    Syscall NR_recvfrom [Reg 2, Ptr 0x205f8480, Imm 4, Imm 0x40, Imm 0, Imm 0], Count,
    Syscall NR_recvfrom [Reg 2, Ptr 0x205fcdc0, Imm 0x15, Imm 0x40, Imm 0, Imm 0], Count,
    Syscall NR_sendto [Reg 2, Write_buf, Imm 0xc0, Imm 0x40, Imm 0, Imm 0], Count,
    Syscall NR_recvfrom [Reg 2, Ptr 0x20625400, Imm 4, Imm 0x40, Imm 0, Imm 0], Count,
    Syscall NR_recvfrom [Reg 2, Ptr 0x20630280, Imm 0x23, Imm 0x40, Imm 0, Imm 0], Count,
    Syscall NR_sendto [Reg 2, Write_buf, Imm 0x317a, Imm 0x40, Imm 0, Imm 0], Count]"

definition min_mysql_recvfrom_sendto_20_0_body364 :: "stmt list" where
  "min_mysql_recvfrom_sendto_20_0_body364 = [
    Syscall NR_recvfrom [Reg 2, Ptr 0x2066ea00, Imm 4, Imm 0x40, Imm 0, Imm 0], Count,
    Syscall NR_recvfrom [Reg 2, Ptr 0x20678a00, Imm 0x1d, Imm 0x40, Imm 0, Imm 0], Count,
    Syscall NR_sendto [Reg 2, Write_buf, Imm 0x3c, Imm 0x40, Imm 0, Imm 0], Count,
    Syscall NR_recvfrom [Reg 2, Ptr 0x206b82c0, Imm 4, Imm 0x40, Imm 0, Imm 0], Count,
    Syscall NR_recvfrom [Reg 2, Ptr 0x206c9580, Imm 0x1d, Imm 0x40, Imm 0, Imm 0], Count,
    Syscall NR_sendto [Reg 2, Write_buf, Imm 0x317a, Imm 0x40, Imm 0, Imm 0], Count,
    Syscall NR_recvfrom [Reg 2, Ptr 0x20a0c080, Imm 4, Imm 0x40, Imm 0, Imm 0], Count,
    Syscall NR_recvfrom [Reg 2, Ptr 0x20a2e940, Imm 0x1d, Imm 0x40, Imm 0, Imm 0], Count,
    Syscall NR_sendto [Reg 2, Write_buf, Imm 0x3178, Imm 0x40, Imm 0, Imm 0], Count,
    Syscall NR_recvfrom [Reg 2, Ptr 0x20cd6e40, Imm 4, Imm 0x40, Imm 0, Imm 0], Count]"

definition min_mysql_recvfrom_sendto_20_0_body365 :: "stmt list" where
  "min_mysql_recvfrom_sendto_20_0_body365 = [
    Syscall NR_recvfrom [Reg 2, Ptr 0x20ce3b00, Imm 0x15, Imm 0x40, Imm 0, Imm 0], Count,
    Syscall NR_sendto [Reg 2, Write_buf, Imm 0x34, Imm 0x40, Imm 0, Imm 0], Count,
    Syscall NR_recvfrom [Reg 2, Ptr 0x20cf2f00, Imm 4, Imm 0x40, Imm 0, Imm 0], Count,
    Syscall NR_recvfrom [Reg 2, Ptr 0x20cffa80, Imm 0x8d, Imm 0x40, Imm 0, Imm 0], Count,
    Syscall NR_sendto [Reg 2, Write_buf, Imm 0x34, Imm 0x40, Imm 0, Imm 0], Count,
    Syscall NR_recvfrom [Reg 2, Ptr 0x20d07bc0, Imm 4, Imm 0x40, Imm 0, Imm 0], Count,
    Syscall NR_recvfrom [Reg 2, Ptr 0x20d082c0, Imm 0x15, Imm 0x40, Imm 0, Imm 0], Count,
    Syscall NR_sendto [Reg 2, Write_buf, Imm 0xb, Imm 0x40, Imm 0, Imm 0], Count,
    Syscall NR_recvfrom [Reg 2, Ptr 0x20d0e2c0, Imm 4, Imm 0x40, Imm 0, Imm 0], Count,
    Syscall NR_recvfrom [Reg 2, Ptr 0x20d0e900, Imm 0xd1, Imm 0x40, Imm 0, Imm 0], Count]"

definition min_mysql_recvfrom_sendto_20_0_body366 :: "stmt list" where
  "min_mysql_recvfrom_sendto_20_0_body366 = [
    Syscall NR_sendto [Reg 2, Write_buf, Imm 0xb, Imm 0x40, Imm 0, Imm 0], Count,
    Syscall NR_recvfrom [Reg 2, Ptr 0x20d11580, Imm 4, Imm 0x40, Imm 0, Imm 0], Count,
    Syscall NR_recvfrom [Reg 2, Ptr 0x20d11b00, Imm 0xb, Imm 0x40, Imm 0, Imm 0], Count,
    Syscall NR_sendto [Reg 2, Write_buf, Imm 0x18, Imm 0x40, Imm 0, Imm 0], Count,
    Syscall NR_recvfrom [Reg 2, Ptr 0x20d756c0, Imm 4, Imm 0x40, Imm 0, Imm 0], Count,
    Syscall NR_recvfrom [Reg 2, Ptr 0x20d75700, Imm 8, Imm 0x40, Imm 0, Imm 0], Count,
    Syscall NR_sendto [Reg 2, Write_buf, Imm 0x18, Imm 0x40, Imm 0, Imm 0], Count,
    Syscall NR_recvfrom [Reg 2, Ptr 0x20d757c0, Imm 4, Imm 0x40, Imm 0, Imm 0], Count,
    Syscall NR_recvfrom [Reg 2, Ptr 0x20d75840, Imm 0x15, Imm 0x40, Imm 0, Imm 0], Count,
    Syscall NR_sendto [Reg 2, Write_buf, Imm 0xc0, Imm 0x40, Imm 0, Imm 0], Count]"

definition min_mysql_recvfrom_sendto_20_0_body367 :: "stmt list" where
  "min_mysql_recvfrom_sendto_20_0_body367 = [
    Syscall NR_recvfrom [Reg 2, Ptr 0x20d75c80, Imm 4, Imm 0x40, Imm 0, Imm 0], Count,
    Syscall NR_recvfrom [Reg 2, Ptr 0x20d75f00, Imm 0x15, Imm 0x40, Imm 0, Imm 0], Count,
    Syscall NR_sendto [Reg 2, Write_buf, Imm 0xc0, Imm 0x40, Imm 0, Imm 0], Count,
    Syscall NR_recvfrom [Reg 2, Ptr 0x20d76580, Imm 4, Imm 0x40, Imm 0, Imm 0], Count,
    Syscall NR_recvfrom [Reg 2, Ptr 0x20d76900, Imm 0x15, Imm 0x40, Imm 0, Imm 0], Count,
    Syscall NR_sendto [Reg 2, Write_buf, Imm 0xc0, Imm 0x40, Imm 0, Imm 0], Count,
    Syscall NR_recvfrom [Reg 2, Ptr 0x20d77340, Imm 4, Imm 0x40, Imm 0, Imm 0], Count,
    Syscall NR_recvfrom [Reg 2, Ptr 0x20d778c0, Imm 0x15, Imm 0x40, Imm 0, Imm 0], Count,
    Syscall NR_sendto [Reg 2, Write_buf, Imm 0xc0, Imm 0x40, Imm 0, Imm 0], Count,
    Syscall NR_recvfrom [Reg 2, Ptr 0x20d78640, Imm 4, Imm 0x40, Imm 0, Imm 0], Count]"

definition min_mysql_recvfrom_sendto_20_0_body368 :: "stmt list" where
  "min_mysql_recvfrom_sendto_20_0_body368 = [
    Syscall NR_recvfrom [Reg 2, Ptr 0x20d78dc0, Imm 0x15, Imm 0x40, Imm 0, Imm 0], Count,
    Syscall NR_sendto [Reg 2, Write_buf, Imm 0xc0, Imm 0x40, Imm 0, Imm 0], Count,
    Syscall NR_recvfrom [Reg 2, Ptr 0x20d79d00, Imm 4, Imm 0x40, Imm 0, Imm 0], Count,
    Syscall NR_recvfrom [Reg 2, Ptr 0x20d7a600, Imm 0x15, Imm 0x40, Imm 0, Imm 0], Count,
    Syscall NR_sendto [Reg 2, Write_buf, Imm 0xc0, Imm 0x40, Imm 0, Imm 0], Count,
    Syscall NR_recvfrom [Reg 2, Ptr 0x20d7b780, Imm 4, Imm 0x40, Imm 0, Imm 0], Count,
    Syscall NR_recvfrom [Reg 2, Ptr 0x20d7c1c0, Imm 0x15, Imm 0x40, Imm 0, Imm 0], Count,
    Syscall NR_sendto [Reg 2, Write_buf, Imm 0xc0, Imm 0x40, Imm 0, Imm 0], Count,
    Syscall NR_recvfrom [Reg 2, Ptr 0x20d7d540, Imm 4, Imm 0x40, Imm 0, Imm 0], Count,
    Syscall NR_recvfrom [Reg 2, Ptr 0x20d7dfc0, Imm 0x15, Imm 0x40, Imm 0, Imm 0], Count]"

definition min_mysql_recvfrom_sendto_20_0_body369 :: "stmt list" where
  "min_mysql_recvfrom_sendto_20_0_body369 = [
    Syscall NR_sendto [Reg 2, Write_buf, Imm 0xc0, Imm 0x40, Imm 0, Imm 0], Count,
    Syscall NR_recvfrom [Reg 2, Ptr 0x20d7f500, Imm 4, Imm 0x40, Imm 0, Imm 0], Count,
    Syscall NR_recvfrom [Reg 2, Ptr 0x20d80140, Imm 0x15, Imm 0x40, Imm 0, Imm 0], Count,
    Syscall NR_sendto [Reg 2, Write_buf, Imm 0xc0, Imm 0x40, Imm 0, Imm 0], Count,
    Syscall NR_recvfrom [Reg 2, Ptr 0x20d81740, Imm 4, Imm 0x40, Imm 0, Imm 0], Count,
    Syscall NR_recvfrom [Reg 2, Ptr 0x20d82400, Imm 0x15, Imm 0x40, Imm 0, Imm 0], Count,
    Syscall NR_sendto [Reg 2, Write_buf, Imm 0xc0, Imm 0x40, Imm 0, Imm 0], Count,
    Syscall NR_recvfrom [Reg 2, Ptr 0x20d83b00, Imm 4, Imm 0x40, Imm 0, Imm 0], Count,
    Syscall NR_recvfrom [Reg 2, Ptr 0x20d84840, Imm 0x1d, Imm 0x40, Imm 0, Imm 0], Count,
    Syscall NR_sendto [Reg 2, Write_buf, Imm 0x317a, Imm 0x40, Imm 0, Imm 0], Count]"

definition min_mysql_recvfrom_sendto_20_0_body370 :: "stmt list" where
  "min_mysql_recvfrom_sendto_20_0_body370 = [
    Syscall NR_recvfrom [Reg 2, Ptr 0x20d89400, Imm 4, Imm 0x40, Imm 0, Imm 0], Count,
    Syscall NR_recvfrom [Reg 2, Ptr 0x20d8a0c0, Imm 0x1d, Imm 0x40, Imm 0, Imm 0], Count,
    Syscall NR_sendto [Reg 2, Write_buf, Imm 0x3c, Imm 0x40, Imm 0, Imm 0], Count,
    Syscall NR_recvfrom [Reg 2, Ptr 0x20d917c0, Imm 4, Imm 0x40, Imm 0, Imm 0], Count,
    Syscall NR_recvfrom [Reg 2, Ptr 0x20d953c0, Imm 0x1d, Imm 0x40, Imm 0, Imm 0], Count,
    Syscall NR_sendto [Reg 2, Write_buf, Imm 0x317a, Imm 0x40, Imm 0, Imm 0], Count,
    Syscall NR_recvfrom [Reg 2, Ptr 0x20f68140, Imm 4, Imm 0x40, Imm 0, Imm 0], Count,
    Syscall NR_recvfrom [Reg 2, Ptr 0x20f87440, Imm 0x1d, Imm 0x40, Imm 0, Imm 0], Count,
    Syscall NR_sendto [Reg 2, Write_buf, Imm 0x3178, Imm 0x40, Imm 0, Imm 0], Count,
    Syscall NR_recvfrom [Reg 2, Ptr 0x202674c0, Imm 4, Imm 0x40, Imm 0, Imm 0], Count]"

definition min_mysql_recvfrom_sendto_20_0_body371 :: "stmt list" where
  "min_mysql_recvfrom_sendto_20_0_body371 = [
    Syscall NR_recvfrom [Reg 2, Ptr 0x2028e780, Imm 0x15, Imm 0x40, Imm 0, Imm 0], Count,
    Syscall NR_sendto [Reg 2, Write_buf, Imm 0x34, Imm 0x40, Imm 0, Imm 0], Count,
    Syscall NR_recvfrom [Reg 2, Ptr 0x202c5940, Imm 4, Imm 0x40, Imm 0, Imm 0], Count,
    Syscall NR_recvfrom [Reg 2, Ptr 0x202ed440, Imm 0x8d, Imm 0x40, Imm 0, Imm 0], Count,
    Syscall NR_sendto [Reg 2, Write_buf, Imm 0x34, Imm 0x40, Imm 0, Imm 0], Count,
    Syscall NR_recvfrom [Reg 2, Ptr 0x2031d340, Imm 4, Imm 0x40, Imm 0, Imm 0], Count,
    Syscall NR_recvfrom [Reg 2, Ptr 0x203340c0, Imm 0x15, Imm 0x40, Imm 0, Imm 0], Count,
    Syscall NR_sendto [Reg 2, Write_buf, Imm 0xb, Imm 0x40, Imm 0, Imm 0], Count,
    Syscall NR_recvfrom [Reg 2, Ptr 0x20371680, Imm 4, Imm 0x40, Imm 0, Imm 0], Count,
    Syscall NR_recvfrom [Reg 2, Ptr 0x2037a5c0, Imm 0xd1, Imm 0x40, Imm 0, Imm 0], Count]"

definition min_mysql_recvfrom_sendto_20_0_body372 :: "stmt list" where
  "min_mysql_recvfrom_sendto_20_0_body372 = [
    Syscall NR_sendto [Reg 2, Write_buf, Imm 0xd, Imm 0x40, Imm 0, Imm 0], Count,
    Syscall NR_recvfrom [Reg 2, Ptr 0x203a2380, Imm 4, Imm 0x40, Imm 0, Imm 0], Count,
    Syscall NR_recvfrom [Reg 2, Ptr 0x203bc040, Imm 0xb, Imm 0x40, Imm 0, Imm 0], Count,
    Syscall NR_sendto [Reg 2, Write_buf, Imm 0x18, Imm 0x40, Imm 0, Imm 0], Count,
    Syscall NR_recvfrom [Reg 2, Ptr 0x20507200, Imm 4, Imm 0x40, Imm 0, Imm 0], Count,
    Syscall NR_recvfrom [Reg 2, Ptr 0x20507280, Imm 8, Imm 0x40, Imm 0, Imm 0], Count,
    Syscall NR_sendto [Reg 2, Write_buf, Imm 0x18, Imm 0x40, Imm 0, Imm 0], Count,
    Syscall NR_recvfrom [Reg 2, Ptr 0x20507500, Imm 4, Imm 0x40, Imm 0, Imm 0], Count,
    Syscall NR_recvfrom [Reg 2, Ptr 0x205076c0, Imm 0x15, Imm 0x40, Imm 0, Imm 0], Count,
    Syscall NR_sendto [Reg 2, Write_buf, Imm 0xbe, Imm 0x40, Imm 0, Imm 0], Count]"

definition min_mysql_recvfrom_sendto_20_0_body373 :: "stmt list" where
  "min_mysql_recvfrom_sendto_20_0_body373 = [
    Syscall NR_recvfrom [Reg 2, Ptr 0x20507c40, Imm 4, Imm 0x40, Imm 0, Imm 0], Count,
    Syscall NR_recvfrom [Reg 2, Ptr 0x20507ec0, Imm 0x15, Imm 0x40, Imm 0, Imm 0], Count,
    Syscall NR_sendto [Reg 2, Write_buf, Imm 0xbe, Imm 0x40, Imm 0, Imm 0], Count,
    Syscall NR_recvfrom [Reg 2, Ptr 0x20508680, Imm 4, Imm 0x40, Imm 0, Imm 0], Count,
    Syscall NR_recvfrom [Reg 2, Ptr 0x20508a80, Imm 0x15, Imm 0x40, Imm 0, Imm 0], Count,
    Syscall NR_sendto [Reg 2, Write_buf, Imm 0xbe, Imm 0x40, Imm 0, Imm 0], Count,
    Syscall NR_recvfrom [Reg 2, Ptr 0x20509380, Imm 4, Imm 0x40, Imm 0, Imm 0], Count,
    Syscall NR_recvfrom [Reg 2, Ptr 0x20509740, Imm 0x15, Imm 0x40, Imm 0, Imm 0], Count,
    Syscall NR_sendto [Reg 2, Write_buf, Imm 0xbe, Imm 0x40, Imm 0, Imm 0], Count,
    Syscall NR_recvfrom [Reg 2, Ptr 0x2050a400, Imm 4, Imm 0x40, Imm 0, Imm 0], Count]"

definition min_mysql_recvfrom_sendto_20_0_body374 :: "stmt list" where
  "min_mysql_recvfrom_sendto_20_0_body374 = [
    Syscall NR_recvfrom [Reg 2, Ptr 0x2050a900, Imm 0x15, Imm 0x40, Imm 0, Imm 0], Count,
    Syscall NR_sendto [Reg 2, Write_buf, Imm 0xbe, Imm 0x40, Imm 0, Imm 0], Count,
    Syscall NR_recvfrom [Reg 2, Ptr 0x2050b700, Imm 4, Imm 0x40, Imm 0, Imm 0], Count,
    Syscall NR_recvfrom [Reg 2, Ptr 0x2050bd40, Imm 0x15, Imm 0x40, Imm 0, Imm 0], Count,
    Syscall NR_sendto [Reg 2, Write_buf, Imm 0xbe, Imm 0x40, Imm 0, Imm 0], Count,
    Syscall NR_recvfrom [Reg 2, Ptr 0x2050cec0, Imm 4, Imm 0x40, Imm 0, Imm 0], Count,
    Syscall NR_recvfrom [Reg 2, Ptr 0x2050d580, Imm 0x15, Imm 0x40, Imm 0, Imm 0], Count,
    Syscall NR_sendto [Reg 2, Write_buf, Imm 0xbe, Imm 0x40, Imm 0, Imm 0], Count,
    Syscall NR_recvfrom [Reg 2, Ptr 0x2050e880, Imm 4, Imm 0x40, Imm 0, Imm 0], Count,
    Syscall NR_recvfrom [Reg 2, Ptr 0x2050efc0, Imm 0x15, Imm 0x40, Imm 0, Imm 0], Count]"

definition min_mysql_recvfrom_sendto_20_0_body375 :: "stmt list" where
  "min_mysql_recvfrom_sendto_20_0_body375 = [
    Syscall NR_sendto [Reg 2, Write_buf, Imm 0xbe, Imm 0x40, Imm 0, Imm 0], Count,
    Syscall NR_recvfrom [Reg 2, Ptr 0x20510400, Imm 4, Imm 0x40, Imm 0, Imm 0], Count,
    Syscall NR_recvfrom [Reg 2, Ptr 0x20510d00, Imm 0x15, Imm 0x40, Imm 0, Imm 0], Count,
    Syscall NR_sendto [Reg 2, Write_buf, Imm 0xbe, Imm 0x40, Imm 0, Imm 0], Count,
    Syscall NR_recvfrom [Reg 2, Ptr 0x20512300, Imm 4, Imm 0x40, Imm 0, Imm 0], Count,
    Syscall NR_recvfrom [Reg 2, Ptr 0x20512d00, Imm 0x15, Imm 0x40, Imm 0, Imm 0], Count,
    Syscall NR_sendto [Reg 2, Write_buf, Imm 0xbe, Imm 0x40, Imm 0, Imm 0], Count,
    Syscall NR_recvfrom [Reg 2, Ptr 0x20514540, Imm 4, Imm 0x40, Imm 0, Imm 0], Count,
    Syscall NR_recvfrom [Reg 2, Ptr 0x20514fc0, Imm 0x1d, Imm 0x40, Imm 0, Imm 0], Count,
    Syscall NR_sendto [Reg 2, Write_buf, Imm 0x317a, Imm 0x40, Imm 0, Imm 0], Count]"

definition min_mysql_recvfrom_sendto_20_0_body376 :: "stmt list" where
  "min_mysql_recvfrom_sendto_20_0_body376 = [
    Syscall NR_recvfrom [Reg 2, Ptr 0x2051fdc0, Imm 4, Imm 0x40, Imm 0, Imm 0], Count,
    Syscall NR_recvfrom [Reg 2, Ptr 0x20523a80, Imm 0x1d, Imm 0x40, Imm 0, Imm 0], Count,
    Syscall NR_sendto [Reg 2, Write_buf, Imm 0x3c, Imm 0x40, Imm 0, Imm 0], Count,
    Syscall NR_recvfrom [Reg 2, Ptr 0x2052e480, Imm 4, Imm 0x40, Imm 0, Imm 0], Count,
    Syscall NR_recvfrom [Reg 2, Ptr 0x2052f000, Imm 0x1d, Imm 0x40, Imm 0, Imm 0], Count,
    Syscall NR_sendto [Reg 2, Write_buf, Imm 0x317a, Imm 0x40, Imm 0, Imm 0], Count,
    Syscall NR_recvfrom [Reg 2, Ptr 0x206bed00, Imm 4, Imm 0x40, Imm 0, Imm 0], Count,
    Syscall NR_recvfrom [Reg 2, Ptr 0x206e1f00, Imm 0x1d, Imm 0x40, Imm 0, Imm 0], Count,
    Syscall NR_sendto [Reg 2, Write_buf, Imm 0x3178, Imm 0x40, Imm 0, Imm 0], Count,
    Syscall NR_recvfrom [Reg 2, Ptr 0x209c6c80, Imm 4, Imm 0x40, Imm 0, Imm 0], Count]"

definition min_mysql_recvfrom_sendto_20_0_body377 :: "stmt list" where
  "min_mysql_recvfrom_sendto_20_0_body377 = [
    Syscall NR_recvfrom [Reg 2, Ptr 0x20a02dc0, Imm 0x15, Imm 0x40, Imm 0, Imm 0], Count,
    Syscall NR_sendto [Reg 2, Write_buf, Imm 0x34, Imm 0x40, Imm 0, Imm 0], Count,
    Syscall NR_recvfrom [Reg 2, Ptr 0x20a4bb40, Imm 4, Imm 0x40, Imm 0, Imm 0], Count,
    Syscall NR_recvfrom [Reg 2, Ptr 0x20a75180, Imm 0x8d, Imm 0x40, Imm 0, Imm 0], Count,
    Syscall NR_sendto [Reg 2, Write_buf, Imm 0x34, Imm 0x40, Imm 0, Imm 0], Count,
    Syscall NR_recvfrom [Reg 2, Ptr 0x20a9c200, Imm 4, Imm 0x40, Imm 0, Imm 0], Count,
    Syscall NR_recvfrom [Reg 2, Ptr 0x20aa6500, Imm 0x15, Imm 0x40, Imm 0, Imm 0], Count,
    Syscall NR_sendto [Reg 2, Write_buf, Imm 0xb, Imm 0x40, Imm 0, Imm 0], Count,
    Syscall NR_recvfrom [Reg 2, Ptr 0x20af6fc0, Imm 4, Imm 0x40, Imm 0, Imm 0], Count,
    Syscall NR_recvfrom [Reg 2, Ptr 0x20b11480, Imm 0xd1, Imm 0x40, Imm 0, Imm 0], Count]"

definition min_mysql_recvfrom_sendto_20_0_body378 :: "stmt list" where
  "min_mysql_recvfrom_sendto_20_0_body378 = [
    Syscall NR_sendto [Reg 2, Write_buf, Imm 0xd, Imm 0x40, Imm 0, Imm 0], Count,
    Syscall NR_recvfrom [Reg 2, Ptr 0x20b345c0, Imm 4, Imm 0x40, Imm 0, Imm 0], Count,
    Syscall NR_recvfrom [Reg 2, Ptr 0x20b52240, Imm 0xb, Imm 0x40, Imm 0, Imm 0], Count,
    Syscall NR_sendto [Reg 2, Write_buf, Imm 0x18, Imm 0x40, Imm 0, Imm 0], Count,
    Syscall NR_recvfrom [Reg 2, Ptr 0x20c74e40, Imm 4, Imm 0x40, Imm 0, Imm 0], Count,
    Syscall NR_recvfrom [Reg 2, Ptr 0x20c74ec0, Imm 8, Imm 0x40, Imm 0, Imm 0], Count,
    Syscall NR_sendto [Reg 2, Write_buf, Imm 0x18, Imm 0x40, Imm 0, Imm 0], Count,
    Syscall NR_recvfrom [Reg 2, Ptr 0x20c75180, Imm 4, Imm 0x40, Imm 0, Imm 0], Count,
    Syscall NR_recvfrom [Reg 2, Ptr 0x20c752c0, Imm 0x15, Imm 0x40, Imm 0, Imm 0], Count,
    Syscall NR_sendto [Reg 2, Write_buf, Imm 0xbe, Imm 0x40, Imm 0, Imm 0], Count]"

definition min_mysql_recvfrom_sendto_20_0_body379 :: "stmt list" where
  "min_mysql_recvfrom_sendto_20_0_body379 = [
    Syscall NR_recvfrom [Reg 2, Ptr 0x20c75740, Imm 4, Imm 0x40, Imm 0, Imm 0], Count,
    Syscall NR_recvfrom [Reg 2, Ptr 0x20c75900, Imm 0x15, Imm 0x40, Imm 0, Imm 0], Count,
    Syscall NR_sendto [Reg 2, Write_buf, Imm 0xbe, Imm 0x40, Imm 0, Imm 0], Count,
    Syscall NR_recvfrom [Reg 2, Ptr 0x20c75e80, Imm 4, Imm 0x40, Imm 0, Imm 0], Count,
    Syscall NR_recvfrom [Reg 2, Ptr 0x20c761c0, Imm 0x15, Imm 0x40, Imm 0, Imm 0], Count,
    Syscall NR_sendto [Reg 2, Write_buf, Imm 0xbe, Imm 0x40, Imm 0, Imm 0], Count,
    Syscall NR_recvfrom [Reg 2, Ptr 0x20c76800, Imm 4, Imm 0x40, Imm 0, Imm 0], Count,
    Syscall NR_recvfrom [Reg 2, Ptr 0x20c76b80, Imm 0x15, Imm 0x40, Imm 0, Imm 0], Count,
    Syscall NR_sendto [Reg 2, Write_buf, Imm 0xbe, Imm 0x40, Imm 0, Imm 0], Count,
    Syscall NR_recvfrom [Reg 2, Ptr 0x20c770c0, Imm 4, Imm 0x40, Imm 0, Imm 0], Count]"

definition min_mysql_recvfrom_sendto_20_0_body380 :: "stmt list" where
  "min_mysql_recvfrom_sendto_20_0_body380 = [
    Syscall NR_recvfrom [Reg 2, Ptr 0x20c77340, Imm 0x15, Imm 0x40, Imm 0, Imm 0], Count,
    Syscall NR_sendto [Reg 2, Write_buf, Imm 0xbe, Imm 0x40, Imm 0, Imm 0], Count,
    Syscall NR_recvfrom [Reg 2, Ptr 0x20c77940, Imm 4, Imm 0x40, Imm 0, Imm 0], Count,
    Syscall NR_recvfrom [Reg 2, Ptr 0x20c77c00, Imm 0x15, Imm 0x40, Imm 0, Imm 0], Count,
    Syscall NR_sendto [Reg 2, Write_buf, Imm 0xbe, Imm 0x40, Imm 0, Imm 0], Count,
    Syscall NR_recvfrom [Reg 2, Ptr 0x20c78340, Imm 4, Imm 0x40, Imm 0, Imm 0], Count,
    Syscall NR_recvfrom [Reg 2, Ptr 0x20c78540, Imm 0x15, Imm 0x40, Imm 0, Imm 0], Count,
    Syscall NR_sendto [Reg 2, Write_buf, Imm 0xbe, Imm 0x40, Imm 0, Imm 0], Count,
    Syscall NR_recvfrom [Reg 2, Ptr 0x20c78c00, Imm 4, Imm 0x40, Imm 0, Imm 0], Count,
    Syscall NR_recvfrom [Reg 2, Ptr 0x20c78e00, Imm 0x15, Imm 0x40, Imm 0, Imm 0], Count]"

definition min_mysql_recvfrom_sendto_20_0_body381 :: "stmt list" where
  "min_mysql_recvfrom_sendto_20_0_body381 = [
    Syscall NR_sendto [Reg 2, Write_buf, Imm 0xbe, Imm 0x40, Imm 0, Imm 0], Count,
    Syscall NR_recvfrom [Reg 2, Ptr 0x20c795c0, Imm 4, Imm 0x40, Imm 0, Imm 0], Count,
    Syscall NR_recvfrom [Reg 2, Ptr 0x20c797c0, Imm 0x15, Imm 0x40, Imm 0, Imm 0], Count,
    Syscall NR_sendto [Reg 2, Write_buf, Imm 0xbe, Imm 0x40, Imm 0, Imm 0], Count,
    Syscall NR_recvfrom [Reg 2, Ptr 0x20c79e40, Imm 4, Imm 0x40, Imm 0, Imm 0], Count,
    Syscall NR_recvfrom [Reg 2, Ptr 0x20c7a100, Imm 0x15, Imm 0x40, Imm 0, Imm 0], Count,
    Syscall NR_sendto [Reg 2, Write_buf, Imm 0xbe, Imm 0x40, Imm 0, Imm 0], Count,
    Syscall NR_recvfrom [Reg 2, Ptr 0x20c7a740, Imm 4, Imm 0x40, Imm 0, Imm 0], Count,
    Syscall NR_recvfrom [Reg 2, Ptr 0x20c7aa00, Imm 0x1d, Imm 0x40, Imm 0, Imm 0], Count,
    Syscall NR_sendto [Reg 2, Write_buf, Imm 0x317a, Imm 0x40, Imm 0, Imm 0], Count]"

definition min_mysql_recvfrom_sendto_20_0_body382 :: "stmt list" where
  "min_mysql_recvfrom_sendto_20_0_body382 = [
    Syscall NR_recvfrom [Reg 2, Ptr 0x20c87380, Imm 4, Imm 0x40, Imm 0, Imm 0], Count,
    Syscall NR_recvfrom [Reg 2, Ptr 0x20c87500, Imm 0x1d, Imm 0x40, Imm 0, Imm 0], Count,
    Syscall NR_sendto [Reg 2, Write_buf, Imm 0x3c, Imm 0x40, Imm 0, Imm 0], Count,
    Syscall NR_recvfrom [Reg 2, Ptr 0x20c8bf80, Imm 4, Imm 0x40, Imm 0, Imm 0], Count,
    Syscall NR_recvfrom [Reg 2, Ptr 0x20c8bfc0, Imm 0x1d, Imm 0x40, Imm 0, Imm 0], Count,
    Syscall NR_sendto [Reg 2, Write_buf, Imm 0x3178, Imm 0x40, Imm 0, Imm 0], Count,
    Syscall NR_recvfrom [Reg 2, Ptr 0x20d5edc0, Imm 4, Imm 0x40, Imm 0, Imm 0], Count,
    Syscall NR_recvfrom [Reg 2, Ptr 0x20d65280, Imm 0x1d, Imm 0x40, Imm 0, Imm 0], Count,
    Syscall NR_sendto [Reg 2, Write_buf, Imm 0x336, Imm 0x40, Imm 0, Imm 0], Count,
    Syscall NR_recvfrom [Reg 2, Ptr 0x20d689c0, Imm 4, Imm 0x40, Imm 0, Imm 0], Count]"

definition min_mysql_recvfrom_sendto_20_0_body383 :: "stmt list" where
  "min_mysql_recvfrom_sendto_20_0_body383 = [
    Syscall NR_recvfrom [Reg 2, Ptr 0x20d68bc0, Imm 0x15, Imm 0x40, Imm 0, Imm 0], Count,
    Syscall NR_sendto [Reg 2, Write_buf, Imm 0x34, Imm 0x40, Imm 0, Imm 0], Count,
    Syscall NR_recvfrom [Reg 2, Ptr 0x20d83a40, Imm 4, Imm 0x40, Imm 0, Imm 0], Count,
    Syscall NR_recvfrom [Reg 2, Ptr 0x20d98040, Imm 0x8d, Imm 0x40, Imm 0, Imm 0], Count,
    Syscall NR_sendto [Reg 2, Write_buf, Imm 0x34, Imm 0x40, Imm 0, Imm 0], Count,
    Syscall NR_recvfrom [Reg 2, Ptr 0x20dbb600, Imm 4, Imm 0x40, Imm 0, Imm 0], Count,
    Syscall NR_recvfrom [Reg 2, Ptr 0x20dc08c0, Imm 0x15, Imm 0x40, Imm 0, Imm 0], Count,
    Syscall NR_sendto [Reg 2, Write_buf, Imm 0xb, Imm 0x40, Imm 0, Imm 0], Count,
    Syscall NR_recvfrom [Reg 2, Ptr 0x20dc7f40, Imm 4, Imm 0x40, Imm 0, Imm 0], Count,
    Syscall NR_recvfrom [Reg 2, Ptr 0x20dcb180, Imm 0xd1, Imm 0x40, Imm 0, Imm 0], Count]"

definition min_mysql_recvfrom_sendto_20_0_body384 :: "stmt list" where
  "min_mysql_recvfrom_sendto_20_0_body384 = [
    Syscall NR_sendto [Reg 2, Write_buf, Imm 0xd, Imm 0x40, Imm 0, Imm 0], Count,
    Syscall NR_recvfrom [Reg 2, Ptr 0x20dd7880, Imm 4, Imm 0x40, Imm 0, Imm 0], Count,
    Syscall NR_recvfrom [Reg 2, Ptr 0x20de3e40, Imm 0xb, Imm 0x40, Imm 0, Imm 0], Count,
    Syscall NR_sendto [Reg 2, Write_buf, Imm 0x18, Imm 0x40, Imm 0, Imm 0], Count,
    Syscall NR_recvfrom [Reg 2, Ptr 0x20079440, Imm 4, Imm 0x40, Imm 0, Imm 0], Count,
    Syscall NR_recvfrom [Reg 2, Ptr 0x20092e40, Imm 8, Imm 0x40, Imm 0, Imm 0], Count,
    Syscall NR_sendto [Reg 2, Write_buf, Imm 0x18, Imm 0x40, Imm 0, Imm 0], Count,
    Syscall NR_recvfrom [Reg 2, Ptr 0x200e3ac0, Imm 4, Imm 0x40, Imm 0, Imm 0], Count,
    Syscall NR_recvfrom [Reg 2, Ptr 0x200fa900, Imm 0x15, Imm 0x40, Imm 0, Imm 0], Count,
    Syscall NR_sendto [Reg 2, Write_buf, Imm 0xc0, Imm 0x40, Imm 0, Imm 0], Count]"

definition min_mysql_recvfrom_sendto_20_0_body385 :: "stmt list" where
  "min_mysql_recvfrom_sendto_20_0_body385 = [
    Syscall NR_recvfrom [Reg 2, Ptr 0x201400c0, Imm 4, Imm 0x40, Imm 0, Imm 0], Count,
    Syscall NR_recvfrom [Reg 2, Ptr 0x2015c8c0, Imm 0x15, Imm 0x40, Imm 0, Imm 0], Count,
    Syscall NR_sendto [Reg 2, Write_buf, Imm 0xc0, Imm 0x40, Imm 0, Imm 0], Count,
    Syscall NR_recvfrom [Reg 2, Ptr 0x2018d4c0, Imm 4, Imm 0x40, Imm 0, Imm 0], Count,
    Syscall NR_recvfrom [Reg 2, Ptr 0x201af500, Imm 0x15, Imm 0x40, Imm 0, Imm 0], Count,
    Syscall NR_sendto [Reg 2, Write_buf, Imm 0xc0, Imm 0x40, Imm 0, Imm 0], Count,
    Syscall NR_recvfrom [Reg 2, Ptr 0x201f56c0, Imm 4, Imm 0x40, Imm 0, Imm 0], Count,
    Syscall NR_recvfrom [Reg 2, Ptr 0x2021f300, Imm 0x15, Imm 0x40, Imm 0, Imm 0], Count,
    Syscall NR_sendto [Reg 2, Write_buf, Imm 0xc0, Imm 0x40, Imm 0, Imm 0], Count,
    Syscall NR_recvfrom [Reg 2, Ptr 0x2026e340, Imm 4, Imm 0x40, Imm 0, Imm 0], Count]"

definition min_mysql_recvfrom_sendto_20_0_body386 :: "stmt list" where
  "min_mysql_recvfrom_sendto_20_0_body386 = [
    Syscall NR_recvfrom [Reg 2, Ptr 0x2028c3c0, Imm 0x15, Imm 0x40, Imm 0, Imm 0], Count,
    Syscall NR_sendto [Reg 2, Write_buf, Imm 0xc0, Imm 0x40, Imm 0, Imm 0], Count,
    Syscall NR_recvfrom [Reg 2, Ptr 0x202c31c0, Imm 4, Imm 0x40, Imm 0, Imm 0], Count,
    Syscall NR_recvfrom [Reg 2, Ptr 0x202d1d00, Imm 0x15, Imm 0x40, Imm 0, Imm 0], Count,
    Syscall NR_sendto [Reg 2, Write_buf, Imm 0xc0, Imm 0x40, Imm 0, Imm 0], Count,
    Syscall NR_recvfrom [Reg 2, Ptr 0x20301f80, Imm 4, Imm 0x40, Imm 0, Imm 0], Count,
    Syscall NR_recvfrom [Reg 2, Ptr 0x2030fb00, Imm 0x15, Imm 0x40, Imm 0, Imm 0], Count,
    Syscall NR_sendto [Reg 2, Write_buf, Imm 0xc0, Imm 0x40, Imm 0, Imm 0], Count,
    Syscall NR_recvfrom [Reg 2, Ptr 0x20333d00, Imm 4, Imm 0x40, Imm 0, Imm 0], Count,
    Syscall NR_recvfrom [Reg 2, Ptr 0x20349940, Imm 0x15, Imm 0x40, Imm 0, Imm 0], Count]"

definition min_mysql_recvfrom_sendto_20_0_body387 :: "stmt list" where
  "min_mysql_recvfrom_sendto_20_0_body387 = [
    Syscall NR_sendto [Reg 2, Write_buf, Imm 0xc0, Imm 0x40, Imm 0, Imm 0], Count,
    Syscall NR_recvfrom [Reg 2, Ptr 0x20365a80, Imm 4, Imm 0x40, Imm 0, Imm 0], Count,
    Syscall NR_recvfrom [Reg 2, Ptr 0x20370400, Imm 0x15, Imm 0x40, Imm 0, Imm 0], Count,
    Syscall NR_sendto [Reg 2, Write_buf, Imm 0xc0, Imm 0x40, Imm 0, Imm 0], Count,
    Syscall NR_recvfrom [Reg 2, Ptr 0x2037c980, Imm 4, Imm 0x40, Imm 0, Imm 0], Count,
    Syscall NR_recvfrom [Reg 2, Ptr 0x20383380, Imm 0x15, Imm 0x40, Imm 0, Imm 0], Count,
    Syscall NR_sendto [Reg 2, Write_buf, Imm 0xc0, Imm 0x40, Imm 0, Imm 0], Count,
    Syscall NR_recvfrom [Reg 2, Ptr 0x20387e80, Imm 4, Imm 0x40, Imm 0, Imm 0], Count,
    Syscall NR_recvfrom [Reg 2, Ptr 0x2038b740, Imm 0x1d, Imm 0x40, Imm 0, Imm 0], Count,
    Syscall NR_sendto [Reg 2, Write_buf, Imm 0x3178, Imm 0x40, Imm 0, Imm 0], Count]"

definition min_mysql_recvfrom_sendto_20_0_body388 :: "stmt list" where
  "min_mysql_recvfrom_sendto_20_0_body388 = [
    Syscall NR_recvfrom [Reg 2, Ptr 0x20394840, Imm 4, Imm 0x40, Imm 0, Imm 0], Count,
    Syscall NR_recvfrom [Reg 2, Ptr 0x20397f40, Imm 0x1d, Imm 0x40, Imm 0, Imm 0], Count,
    Syscall NR_sendto [Reg 2, Write_buf, Imm 0x3c, Imm 0x40, Imm 0, Imm 0], Count,
    Syscall NR_recvfrom [Reg 2, Ptr 0x203a57c0, Imm 4, Imm 0x40, Imm 0, Imm 0], Count,
    Syscall NR_recvfrom [Reg 2, Ptr 0x203abe40, Imm 0x1d, Imm 0x40, Imm 0, Imm 0], Count,
    Syscall NR_sendto [Reg 2, Write_buf, Imm 0xd0c, Imm 0x40, Imm 0, Imm 0], Count,
    Syscall NR_recvfrom [Reg 2, Ptr 0x203af340, Imm 4, Imm 0x40, Imm 0, Imm 0], Count,
    Syscall NR_recvfrom [Reg 2, Ptr 0x203af600, Imm 0x1d, Imm 0x40, Imm 0, Imm 0], Count,
    Syscall NR_sendto [Reg 2, Write_buf, Imm 0x3178, Imm 0x40, Imm 0, Imm 0], Count,
    Syscall NR_recvfrom [Reg 2, Ptr 0x20499e40, Imm 4, Imm 0x40, Imm 0, Imm 0], Count]"

definition min_mysql_recvfrom_sendto_20_0_body389 :: "stmt list" where
  "min_mysql_recvfrom_sendto_20_0_body389 = [
    Syscall NR_recvfrom [Reg 2, Ptr 0x204a5240, Imm 0x15, Imm 0x40, Imm 0, Imm 0], Count,
    Syscall NR_sendto [Reg 2, Write_buf, Imm 0x34, Imm 0x40, Imm 0, Imm 0], Count,
    Syscall NR_recvfrom [Reg 2, Ptr 0x204bd200, Imm 4, Imm 0x40, Imm 0, Imm 0], Count,
    Syscall NR_recvfrom [Reg 2, Ptr 0x204c0600, Imm 0x8d, Imm 0x40, Imm 0, Imm 0], Count,
    Syscall NR_sendto [Reg 2, Write_buf, Imm 0x34, Imm 0x40, Imm 0, Imm 0], Count,
    Syscall NR_recvfrom [Reg 2, Ptr 0x204c0c40, Imm 4, Imm 0x40, Imm 0, Imm 0], Count,
    Syscall NR_recvfrom [Reg 2, Ptr 0x204c9840, Imm 0x15, Imm 0x40, Imm 0, Imm 0], Count,
    Syscall NR_sendto [Reg 2, Write_buf, Imm 0xb, Imm 0x40, Imm 0, Imm 0], Count,
    Syscall NR_recvfrom [Reg 2, Ptr 0x204def40, Imm 4, Imm 0x40, Imm 0, Imm 0], Count,
    Syscall NR_recvfrom [Reg 2, Ptr 0x204e0240, Imm 0xd1, Imm 0x40, Imm 0, Imm 0], Count]"

definition min_mysql_recvfrom_sendto_20_0_body390 :: "stmt list" where
  "min_mysql_recvfrom_sendto_20_0_body390 = [
    Syscall NR_sendto [Reg 2, Write_buf, Imm 0xb, Imm 0x40, Imm 0, Imm 0], Count,
    Syscall NR_recvfrom [Reg 2, Ptr 0x204e8bc0, Imm 4, Imm 0x40, Imm 0, Imm 0], Count,
    Syscall NR_recvfrom [Reg 2, Ptr 0x204e8dc0, Imm 0xb, Imm 0x40, Imm 0, Imm 0], Count,
    Syscall NR_sendto [Reg 2, Write_buf, Imm 0x18, Imm 0x40, Imm 0, Imm 0], Count,
    Syscall NR_recvfrom [Reg 2, Ptr 0x206f40c0, Imm 4, Imm 0x40, Imm 0, Imm 0], Count,
    Syscall NR_recvfrom [Reg 2, Ptr 0x20714200, Imm 8, Imm 0x40, Imm 0, Imm 0], Count,
    Syscall NR_sendto [Reg 2, Write_buf, Imm 0x18, Imm 0x40, Imm 0, Imm 0], Count,
    Syscall NR_recvfrom [Reg 2, Ptr 0x20741740, Imm 4, Imm 0x40, Imm 0, Imm 0], Count,
    Syscall NR_recvfrom [Reg 2, Ptr 0x20765300, Imm 0x15, Imm 0x40, Imm 0, Imm 0], Count,
    Syscall NR_sendto [Reg 2, Write_buf, Imm 0xbe, Imm 0x40, Imm 0, Imm 0], Count]"

definition min_mysql_recvfrom_sendto_20_0_body391 :: "stmt list" where
  "min_mysql_recvfrom_sendto_20_0_body391 = [
    Syscall NR_recvfrom [Reg 2, Ptr 0x2077f740, Imm 4, Imm 0x40, Imm 0, Imm 0], Count,
    Syscall NR_recvfrom [Reg 2, Ptr 0x2078ab40, Imm 0x15, Imm 0x40, Imm 0, Imm 0], Count,
    Syscall NR_sendto [Reg 2, Write_buf, Imm 0xbe, Imm 0x40, Imm 0, Imm 0], Count,
    Syscall NR_recvfrom [Reg 2, Ptr 0x207e3b80, Imm 4, Imm 0x40, Imm 0, Imm 0], Count,
    Syscall NR_recvfrom [Reg 2, Ptr 0x207f7440, Imm 0x15, Imm 0x40, Imm 0, Imm 0], Count,
    Syscall NR_sendto [Reg 2, Write_buf, Imm 0xbe, Imm 0x40, Imm 0, Imm 0], Count,
    Syscall NR_recvfrom [Reg 2, Ptr 0x20832880, Imm 4, Imm 0x40, Imm 0, Imm 0], Count,
    Syscall NR_recvfrom [Reg 2, Ptr 0x2085b680, Imm 0x15, Imm 0x40, Imm 0, Imm 0], Count,
    Syscall NR_sendto [Reg 2, Write_buf, Imm 0xbe, Imm 0x40, Imm 0, Imm 0], Count,
    Syscall NR_recvfrom [Reg 2, Ptr 0x208aca40, Imm 4, Imm 0x40, Imm 0, Imm 0], Count]"

definition min_mysql_recvfrom_sendto_20_0_body392 :: "stmt list" where
  "min_mysql_recvfrom_sendto_20_0_body392 = [
    Syscall NR_recvfrom [Reg 2, Ptr 0x208c3500, Imm 0x15, Imm 0x40, Imm 0, Imm 0], Count,
    Syscall NR_sendto [Reg 2, Write_buf, Imm 0xbe, Imm 0x40, Imm 0, Imm 0], Count,
    Syscall NR_recvfrom [Reg 2, Ptr 0x208e3e40, Imm 4, Imm 0x40, Imm 0, Imm 0], Count,
    Syscall NR_recvfrom [Reg 2, Ptr 0x208edb00, Imm 0x15, Imm 0x40, Imm 0, Imm 0], Count,
    Syscall NR_sendto [Reg 2, Write_buf, Imm 0xbe, Imm 0x40, Imm 0, Imm 0], Count,
    Syscall NR_recvfrom [Reg 2, Ptr 0x20927f00, Imm 4, Imm 0x40, Imm 0, Imm 0], Count,
    Syscall NR_recvfrom [Reg 2, Ptr 0x20947180, Imm 0x15, Imm 0x40, Imm 0, Imm 0], Count,
    Syscall NR_sendto [Reg 2, Write_buf, Imm 0xbe, Imm 0x40, Imm 0, Imm 0], Count,
    Syscall NR_recvfrom [Reg 2, Ptr 0x2097cc00, Imm 4, Imm 0x40, Imm 0, Imm 0], Count,
    Syscall NR_recvfrom [Reg 2, Ptr 0x2098f740, Imm 0x15, Imm 0x40, Imm 0, Imm 0], Count]"

definition min_mysql_recvfrom_sendto_20_0_body393 :: "stmt list" where
  "min_mysql_recvfrom_sendto_20_0_body393 = [
    Syscall NR_sendto [Reg 2, Write_buf, Imm 0xbe, Imm 0x40, Imm 0, Imm 0], Count,
    Syscall NR_recvfrom [Reg 2, Ptr 0x209b37c0, Imm 4, Imm 0x40, Imm 0, Imm 0], Count,
    Syscall NR_recvfrom [Reg 2, Ptr 0x209b7180, Imm 0x15, Imm 0x40, Imm 0, Imm 0], Count,
    Syscall NR_sendto [Reg 2, Write_buf, Imm 0xbe, Imm 0x40, Imm 0, Imm 0], Count,
    Syscall NR_recvfrom [Reg 2, Ptr 0x209e7100, Imm 4, Imm 0x40, Imm 0, Imm 0], Count,
    Syscall NR_recvfrom [Reg 2, Ptr 0x209f8e80, Imm 0x15, Imm 0x40, Imm 0, Imm 0], Count,
    Syscall NR_sendto [Reg 2, Write_buf, Imm 0xbe, Imm 0x40, Imm 0, Imm 0], Count,
    Syscall NR_recvfrom [Reg 2, Ptr 0x20a16e00, Imm 4, Imm 0x40, Imm 0, Imm 0], Count,
    Syscall NR_recvfrom [Reg 2, Ptr 0x20a1de80, Imm 0x1d, Imm 0x40, Imm 0, Imm 0], Count,
    Syscall NR_sendto [Reg 2, Write_buf, Imm 0x3178, Imm 0x40, Imm 0, Imm 0], Count]"

definition min_mysql_recvfrom_sendto_20_0_body394 :: "stmt list" where
  "min_mysql_recvfrom_sendto_20_0_body394 = [
    Syscall NR_recvfrom [Reg 2, Ptr 0x20a46300, Imm 4, Imm 0x40, Imm 0, Imm 0], Count,
    Syscall NR_recvfrom [Reg 2, Ptr 0x20a4fa40, Imm 0x1d, Imm 0x40, Imm 0, Imm 0], Count,
    Syscall NR_sendto [Reg 2, Write_buf, Imm 0x3c, Imm 0x40, Imm 0, Imm 0], Count,
    Syscall NR_recvfrom [Reg 2, Ptr 0x20a7b0c0, Imm 4, Imm 0x40, Imm 0, Imm 0], Count,
    Syscall NR_recvfrom [Reg 2, Ptr 0x20a97140, Imm 0x1d, Imm 0x40, Imm 0, Imm 0], Count,
    Syscall NR_sendto [Reg 2, Write_buf, Imm 0x317a, Imm 0x40, Imm 0, Imm 0], Count,
    Syscall NR_recvfrom [Reg 2, Ptr 0x20b8e440, Imm 4, Imm 0x40, Imm 0, Imm 0], Count,
    Syscall NR_recvfrom [Reg 2, Ptr 0x20b9e680, Imm 0x1d, Imm 0x40, Imm 0, Imm 0], Count,
    Syscall NR_sendto [Reg 2, Write_buf, Imm 0x2b12, Imm 0x40, Imm 0, Imm 0], Count,
    Syscall NR_recvfrom [Reg 2, Ptr 0x20bc2400, Imm 4, Imm 0x40, Imm 0, Imm 0], Count]"

definition min_mysql_recvfrom_sendto_20_0_body395 :: "stmt list" where
  "min_mysql_recvfrom_sendto_20_0_body395 = [
    Syscall NR_recvfrom [Reg 2, Ptr 0x20bc7a80, Imm 0x15, Imm 0x40, Imm 0, Imm 0], Count,
    Syscall NR_sendto [Reg 2, Write_buf, Imm 0x34, Imm 0x40, Imm 0, Imm 0], Count,
    Syscall NR_recvfrom [Reg 2, Ptr 0x20be2240, Imm 4, Imm 0x40, Imm 0, Imm 0], Count,
    Syscall NR_recvfrom [Reg 2, Ptr 0x20be7640, Imm 0x8d, Imm 0x40, Imm 0, Imm 0], Count,
    Syscall NR_sendto [Reg 2, Write_buf, Imm 0x34, Imm 0x40, Imm 0, Imm 0], Count,
    Syscall NR_recvfrom [Reg 2, Ptr 0x20c0eb80, Imm 4, Imm 0x40, Imm 0, Imm 0], Count,
    Syscall NR_recvfrom [Reg 2, Ptr 0x20c1ca40, Imm 0x18, Imm 0x40, Imm 0, Imm 0], Count,
    Syscall NR_sendto [Reg 2, Write_buf, Imm 0xb, Imm 0x40, Imm 0, Imm 0], Count,
    Syscall NR_recvfrom [Reg 2, Ptr 0x20c35e40, Imm 4, Imm 0x40, Imm 0, Imm 0], Count,
    Syscall NR_recvfrom [Reg 2, Ptr 0x20c39100, Imm 0xdd, Imm 0x40, Imm 0, Imm 0], Count]"

definition min_mysql_recvfrom_sendto_20_0_body396 :: "stmt list" where
  "min_mysql_recvfrom_sendto_20_0_body396 = [
    Syscall NR_sendto [Reg 2, Write_buf, Imm 0xd, Imm 0x40, Imm 0, Imm 0], Count,
    Syscall NR_recvfrom [Reg 2, Ptr 0x20c42940, Imm 4, Imm 0x40, Imm 0, Imm 0], Count,
    Syscall NR_recvfrom [Reg 2, Ptr 0x20c45d00, Imm 0xb, Imm 0x40, Imm 0, Imm 0], Count,
    Syscall NR_sendto [Reg 2, Write_buf, Imm 0x18, Imm 0x40, Imm 0, Imm 0], Count,
    Syscall NR_recvfrom [Reg 2, Ptr 0x20ebe000, Imm 4, Imm 0x40, Imm 0, Imm 0], Count,
    Syscall NR_recvfrom [Reg 2, Ptr 0x20ecea00, Imm 8, Imm 0x40, Imm 0, Imm 0], Count,
    Syscall NR_sendto [Reg 2, Write_buf, Imm 0x18, Imm 0x40, Imm 0, Imm 0], Count,
    Syscall NR_recvfrom [Reg 2, Ptr 0x20ee5040, Imm 4, Imm 0x40, Imm 0, Imm 0], Count,
    Syscall NR_recvfrom [Reg 2, Ptr 0x20ee88c0, Imm 0x15, Imm 0x40, Imm 0, Imm 0], Count,
    Syscall NR_sendto [Reg 2, Write_buf, Imm 0xc0, Imm 0x40, Imm 0, Imm 0], Count]"

definition min_mysql_recvfrom_sendto_20_0_body397 :: "stmt list" where
  "min_mysql_recvfrom_sendto_20_0_body397 = [
    Syscall NR_recvfrom [Reg 2, Ptr 0x20f02540, Imm 4, Imm 0x40, Imm 0, Imm 0], Count,
    Syscall NR_recvfrom [Reg 2, Ptr 0x20f21940, Imm 0x15, Imm 0x40, Imm 0, Imm 0], Count,
    Syscall NR_sendto [Reg 2, Write_buf, Imm 0xc0, Imm 0x40, Imm 0, Imm 0], Count,
    Syscall NR_recvfrom [Reg 2, Ptr 0x20f53600, Imm 4, Imm 0x40, Imm 0, Imm 0], Count,
    Syscall NR_recvfrom [Reg 2, Ptr 0x20f75240, Imm 0x15, Imm 0x40, Imm 0, Imm 0], Count,
    Syscall NR_sendto [Reg 2, Write_buf, Imm 0xc0, Imm 0x40, Imm 0, Imm 0], Count,
    Syscall NR_recvfrom [Reg 2, Ptr 0x20f92a40, Imm 4, Imm 0x40, Imm 0, Imm 0], Count,
    Syscall NR_recvfrom [Reg 2, Ptr 0x20fa4300, Imm 0x15, Imm 0x40, Imm 0, Imm 0], Count,
    Syscall NR_sendto [Reg 2, Write_buf, Imm 0xc0, Imm 0x40, Imm 0, Imm 0], Count,
    Syscall NR_recvfrom [Reg 2, Ptr 0x20fd7600, Imm 4, Imm 0x40, Imm 0, Imm 0], Count]"

definition min_mysql_recvfrom_sendto_20_0_body398 :: "stmt list" where
  "min_mysql_recvfrom_sendto_20_0_body398 = [
    Syscall NR_recvfrom [Reg 2, Ptr 0x20fe9380, Imm 0x15, Imm 0x40, Imm 0, Imm 0], Count,
    Syscall NR_sendto [Reg 2, Write_buf, Imm 0xc0, Imm 0x40, Imm 0, Imm 0], Count,
    Syscall NR_recvfrom [Reg 2, Ptr 0x20029a00, Imm 4, Imm 0x40, Imm 0, Imm 0], Count,
    Syscall NR_recvfrom [Reg 2, Ptr 0x20048640, Imm 0x15, Imm 0x40, Imm 0, Imm 0], Count,
    Syscall NR_sendto [Reg 2, Write_buf, Imm 0xc0, Imm 0x40, Imm 0, Imm 0], Count,
    Syscall NR_recvfrom [Reg 2, Ptr 0x2006d500, Imm 4, Imm 0x40, Imm 0, Imm 0], Count,
    Syscall NR_recvfrom [Reg 2, Ptr 0x20079f80, Imm 0x15, Imm 0x40, Imm 0, Imm 0], Count,
    Syscall NR_sendto [Reg 2, Write_buf, Imm 0xc0, Imm 0x40, Imm 0, Imm 0], Count,
    Syscall NR_recvfrom [Reg 2, Ptr 0x20090680, Imm 4, Imm 0x40, Imm 0, Imm 0], Count,
    Syscall NR_recvfrom [Reg 2, Ptr 0x20097180, Imm 0x15, Imm 0x40, Imm 0, Imm 0], Count]"

definition min_mysql_recvfrom_sendto_20_0_body399 :: "stmt list" where
  "min_mysql_recvfrom_sendto_20_0_body399 = [
    Syscall NR_sendto [Reg 2, Write_buf, Imm 0xc0, Imm 0x40, Imm 0, Imm 0], Count,
    Syscall NR_recvfrom [Reg 2, Ptr 0x200b11c0, Imm 4, Imm 0x40, Imm 0, Imm 0], Count,
    Syscall NR_recvfrom [Reg 2, Ptr 0x200bae00, Imm 0x15, Imm 0x40, Imm 0, Imm 0], Count,
    Syscall NR_sendto [Reg 2, Write_buf, Imm 0xc0, Imm 0x40, Imm 0, Imm 0], Count,
    Syscall NR_recvfrom [Reg 2, Ptr 0x200c8600, Imm 4, Imm 0x40, Imm 0, Imm 0], Count,
    Syscall NR_recvfrom [Reg 2, Ptr 0x200d2280, Imm 0x15, Imm 0x40, Imm 0, Imm 0], Count,
    Syscall NR_sendto [Reg 2, Write_buf, Imm 0xc0, Imm 0x40, Imm 0, Imm 0], Count,
    Syscall NR_recvfrom [Reg 2, Ptr 0x200d6d40, Imm 4, Imm 0x40, Imm 0, Imm 0], Count,
    Syscall NR_recvfrom [Reg 2, Ptr 0x200d7680, Imm 0x1d, Imm 0x40, Imm 0, Imm 0], Count,
    Syscall NR_sendto [Reg 2, Write_buf, Imm 0x317a, Imm 0x40, Imm 0, Imm 0], Count]"

definition min_mysql_recvfrom_sendto_20_0_body400 :: "stmt list" where
  "min_mysql_recvfrom_sendto_20_0_body400 = [
    Syscall NR_recvfrom [Reg 2, Ptr 0x200dc680, Imm 4, Imm 0x40, Imm 0, Imm 0], Count,
    Syscall NR_recvfrom [Reg 2, Ptr 0x200e4fc0, Imm 0x1d, Imm 0x40, Imm 0, Imm 0], Count,
    Syscall NR_sendto [Reg 2, Write_buf, Imm 0x3c, Imm 0x40, Imm 0, Imm 0], Count,
    Syscall NR_recvfrom [Reg 2, Ptr 0x200ed5c0, Imm 4, Imm 0x40, Imm 0, Imm 0], Count,
    Syscall NR_recvfrom [Reg 2, Ptr 0x200eed40, Imm 0x1d, Imm 0x40, Imm 0, Imm 0], Count,
    Syscall NR_sendto [Reg 2, Write_buf, Imm 0x3178, Imm 0x40, Imm 0, Imm 0], Count,
    Syscall NR_recvfrom [Reg 2, Ptr 0x201fab00, Imm 4, Imm 0x40, Imm 0, Imm 0], Count,
    Syscall NR_recvfrom [Reg 2, Ptr 0x20207480, Imm 0x1d, Imm 0x40, Imm 0, Imm 0], Count,
    Syscall NR_sendto [Reg 2, Write_buf, Imm 0x317a, Imm 0x40, Imm 0, Imm 0], Count,
    Syscall NR_recvfrom [Reg 2, Ptr 0x2030a2c0, Imm 4, Imm 0x40, Imm 0, Imm 0], Count]"

definition min_mysql_recvfrom_sendto_20_0_body401 :: "stmt list" where
  "min_mysql_recvfrom_sendto_20_0_body401 = [
    Syscall NR_recvfrom [Reg 2, Ptr 0x20317940, Imm 0x15, Imm 0x40, Imm 0, Imm 0], Count,
    Syscall NR_sendto [Reg 2, Write_buf, Imm 0x34, Imm 0x40, Imm 0, Imm 0], Count,
    Syscall NR_recvfrom [Reg 2, Ptr 0x20324480, Imm 4, Imm 0x40, Imm 0, Imm 0], Count,
    Syscall NR_recvfrom [Reg 2, Ptr 0x2032aac0, Imm 0x8d, Imm 0x40, Imm 0, Imm 0], Count,
    Syscall NR_sendto [Reg 2, Write_buf, Imm 0x34, Imm 0x40, Imm 0, Imm 0], Count,
    Syscall NR_recvfrom [Reg 2, Ptr 0x20334880, Imm 4, Imm 0x40, Imm 0, Imm 0], Count,
    Syscall NR_recvfrom [Reg 2, Ptr 0x20338400, Imm 0x15, Imm 0x40, Imm 0, Imm 0], Count,
    Syscall NR_sendto [Reg 2, Write_buf, Imm 0xb, Imm 0x40, Imm 0, Imm 0], Count,
    Syscall NR_recvfrom [Reg 2, Ptr 0x2033c1c0, Imm 4, Imm 0x40, Imm 0, Imm 0], Count,
    Syscall NR_recvfrom [Reg 2, Ptr 0x2033f540, Imm 0xd1, Imm 0x40, Imm 0, Imm 0], Count]"

definition min_mysql_recvfrom_sendto_20_0_body402 :: "stmt list" where
  "min_mysql_recvfrom_sendto_20_0_body402 = [
    Syscall NR_sendto [Reg 2, Write_buf, Imm 0xd, Imm 0x40, Imm 0, Imm 0], Count,
    Syscall NR_recvfrom [Reg 2, Ptr 0x20340640, Imm 4, Imm 0x40, Imm 0, Imm 0], Count,
    Syscall NR_recvfrom [Reg 2, Ptr 0x20340880, Imm 0xb, Imm 0x40, Imm 0, Imm 0], Count,
    Syscall NR_sendto [Reg 2, Write_buf, Imm 0x18, Imm 0x40, Imm 0, Imm 0], Count,
    Syscall NR_recvfrom [Reg 2, Ptr 0x2049c740, Imm 4, Imm 0x40, Imm 0, Imm 0], Count,
    Syscall NR_recvfrom [Reg 2, Ptr 0x2049ce00, Imm 8, Imm 0x40, Imm 0, Imm 0], Count,
    Syscall NR_sendto [Reg 2, Write_buf, Imm 0x18, Imm 0x40, Imm 0, Imm 0], Count,
    Syscall NR_recvfrom [Reg 2, Ptr 0x2049df80, Imm 4, Imm 0x40, Imm 0, Imm 0], Count,
    Syscall NR_recvfrom [Reg 2, Ptr 0x2049ecc0, Imm 0x15, Imm 0x40, Imm 0, Imm 0], Count,
    Syscall NR_sendto [Reg 2, Write_buf, Imm 0xbe, Imm 0x40, Imm 0, Imm 0], Count]"

definition min_mysql_recvfrom_sendto_20_0_body403 :: "stmt list" where
  "min_mysql_recvfrom_sendto_20_0_body403 = [
    Syscall NR_recvfrom [Reg 2, Ptr 0x204a0040, Imm 4, Imm 0x40, Imm 0, Imm 0], Count,
    Syscall NR_recvfrom [Reg 2, Ptr 0x204a0c40, Imm 0x15, Imm 0x40, Imm 0, Imm 0], Count,
    Syscall NR_sendto [Reg 2, Write_buf, Imm 0xbe, Imm 0x40, Imm 0, Imm 0], Count,
    Syscall NR_recvfrom [Reg 2, Ptr 0x204a2100, Imm 4, Imm 0x40, Imm 0, Imm 0], Count,
    Syscall NR_recvfrom [Reg 2, Ptr 0x204a2b40, Imm 0x15, Imm 0x40, Imm 0, Imm 0], Count,
    Syscall NR_sendto [Reg 2, Write_buf, Imm 0xbe, Imm 0x40, Imm 0, Imm 0], Count,
    Syscall NR_recvfrom [Reg 2, Ptr 0x204a3fc0, Imm 4, Imm 0x40, Imm 0, Imm 0], Count,
    Syscall NR_recvfrom [Reg 2, Ptr 0x204a4a00, Imm 0x15, Imm 0x40, Imm 0, Imm 0], Count,
    Syscall NR_sendto [Reg 2, Write_buf, Imm 0xbe, Imm 0x40, Imm 0, Imm 0], Count,
    Syscall NR_recvfrom [Reg 2, Ptr 0x204a5c80, Imm 4, Imm 0x40, Imm 0, Imm 0], Count]"

definition min_mysql_recvfrom_sendto_20_0_body404 :: "stmt list" where
  "min_mysql_recvfrom_sendto_20_0_body404 = [
    Syscall NR_recvfrom [Reg 2, Ptr 0x204a6740, Imm 0x15, Imm 0x40, Imm 0, Imm 0], Count,
    Syscall NR_sendto [Reg 2, Write_buf, Imm 0xbe, Imm 0x40, Imm 0, Imm 0], Count,
    Syscall NR_recvfrom [Reg 2, Ptr 0x204a79c0, Imm 4, Imm 0x40, Imm 0, Imm 0], Count,
    Syscall NR_recvfrom [Reg 2, Ptr 0x204a8400, Imm 0x15, Imm 0x40, Imm 0, Imm 0], Count,
    Syscall NR_sendto [Reg 2, Write_buf, Imm 0xbe, Imm 0x40, Imm 0, Imm 0], Count,
    Syscall NR_recvfrom [Reg 2, Ptr 0x204a9680, Imm 4, Imm 0x40, Imm 0, Imm 0], Count,
    Syscall NR_recvfrom [Reg 2, Ptr 0x204aa0c0, Imm 0x15, Imm 0x40, Imm 0, Imm 0], Count,
    Syscall NR_sendto [Reg 2, Write_buf, Imm 0xbe, Imm 0x40, Imm 0, Imm 0], Count,
    Syscall NR_recvfrom [Reg 2, Ptr 0x204ab340, Imm 4, Imm 0x40, Imm 0, Imm 0], Count,
    Syscall NR_recvfrom [Reg 2, Ptr 0x204abd80, Imm 0x15, Imm 0x40, Imm 0, Imm 0], Count]"

definition min_mysql_recvfrom_sendto_20_0_body405 :: "stmt list" where
  "min_mysql_recvfrom_sendto_20_0_body405 = [
    Syscall NR_sendto [Reg 2, Write_buf, Imm 0xbe, Imm 0x40, Imm 0, Imm 0], Count,
    Syscall NR_recvfrom [Reg 2, Ptr 0x204b0140, Imm 4, Imm 0x40, Imm 0, Imm 0], Count,
    Syscall NR_recvfrom [Reg 2, Ptr 0x204b9dc0, Imm 0x15, Imm 0x40, Imm 0, Imm 0], Count,
    Syscall NR_sendto [Reg 2, Write_buf, Imm 0xbe, Imm 0x40, Imm 0, Imm 0], Count,
    Syscall NR_recvfrom [Reg 2, Ptr 0x204bb080, Imm 4, Imm 0x40, Imm 0, Imm 0], Count,
    Syscall NR_recvfrom [Reg 2, Ptr 0x204bb8c0, Imm 0x15, Imm 0x40, Imm 0, Imm 0], Count,
    Syscall NR_sendto [Reg 2, Write_buf, Imm 0xbe, Imm 0x40, Imm 0, Imm 0], Count,
    Syscall NR_recvfrom [Reg 2, Ptr 0x204c8d40, Imm 4, Imm 0x40, Imm 0, Imm 0], Count,
    Syscall NR_recvfrom [Reg 2, Ptr 0x204d2680, Imm 0x1d, Imm 0x40, Imm 0, Imm 0], Count,
    Syscall NR_sendto [Reg 2, Write_buf, Imm 0x317a, Imm 0x40, Imm 0, Imm 0], Count]"

definition min_mysql_recvfrom_sendto_20_0_body406 :: "stmt list" where
  "min_mysql_recvfrom_sendto_20_0_body406 = [
    Syscall NR_recvfrom [Reg 2, Ptr 0x204e2500, Imm 4, Imm 0x40, Imm 0, Imm 0], Count,
    Syscall NR_recvfrom [Reg 2, Ptr 0x204f8340, Imm 0x1d, Imm 0x40, Imm 0, Imm 0], Count,
    Syscall NR_sendto [Reg 2, Write_buf, Imm 0x3c, Imm 0x40, Imm 0, Imm 0], Count,
    Syscall NR_recvfrom [Reg 2, Ptr 0x20521280, Imm 4, Imm 0x40, Imm 0, Imm 0], Count,
    Syscall NR_recvfrom [Reg 2, Ptr 0x20537d80, Imm 0x1d, Imm 0x40, Imm 0, Imm 0], Count,
    Syscall NR_sendto [Reg 2, Write_buf, Imm 0x1000, Imm 0x40, Imm 0, Imm 0], Count,
    Syscall NR_recvfrom [Reg 2, Ptr 0x205721c0, Imm 4, Imm 0x40, Imm 0, Imm 0], Count,
    Syscall NR_recvfrom [Reg 2, Ptr 0x205bd900, Imm 0x1d, Imm 0x40, Imm 0, Imm 0], Count,
    Syscall NR_sendto [Reg 2, Write_buf, Imm 0x317a, Imm 0x40, Imm 0, Imm 0], Count,
    Syscall NR_recvfrom [Reg 2, Ptr 0x207df680, Imm 4, Imm 0x40, Imm 0, Imm 0], Count]"

definition min_mysql_recvfrom_sendto_20_0_body407 :: "stmt list" where
  "min_mysql_recvfrom_sendto_20_0_body407 = [
    Syscall NR_recvfrom [Reg 2, Ptr 0x20806380, Imm 0x15, Imm 0x40, Imm 0, Imm 0], Count,
    Syscall NR_sendto [Reg 2, Write_buf, Imm 0x34, Imm 0x40, Imm 0, Imm 0], Count,
    Syscall NR_recvfrom [Reg 2, Ptr 0x20838bc0, Imm 4, Imm 0x40, Imm 0, Imm 0], Count,
    Syscall NR_recvfrom [Reg 2, Ptr 0x2085ee40, Imm 0x8d, Imm 0x40, Imm 0, Imm 0], Count,
    Syscall NR_sendto [Reg 2, Write_buf, Imm 0x34, Imm 0x40, Imm 0, Imm 0], Count,
    Syscall NR_recvfrom [Reg 2, Ptr 0x20880740, Imm 4, Imm 0x40, Imm 0, Imm 0], Count,
    Syscall NR_recvfrom [Reg 2, Ptr 0x208b7380, Imm 0x15, Imm 0x40, Imm 0, Imm 0], Count,
    Syscall NR_sendto [Reg 2, Write_buf, Imm 0xb, Imm 0x40, Imm 0, Imm 0], Count,
    Syscall NR_recvfrom [Reg 2, Ptr 0x208ec040, Imm 4, Imm 0x40, Imm 0, Imm 0], Count,
    Syscall NR_recvfrom [Reg 2, Ptr 0x20906b00, Imm 0xd1, Imm 0x40, Imm 0, Imm 0], Count]"

definition min_mysql_recvfrom_sendto_20_0_body408 :: "stmt list" where
  "min_mysql_recvfrom_sendto_20_0_body408 = [
    Syscall NR_sendto [Reg 2, Write_buf, Imm 0xd, Imm 0x40, Imm 0, Imm 0], Count,
    Syscall NR_recvfrom [Reg 2, Ptr 0x20934280, Imm 4, Imm 0x40, Imm 0, Imm 0], Count,
    Syscall NR_recvfrom [Reg 2, Ptr 0x2094e740, Imm 0xb, Imm 0x40, Imm 0, Imm 0], Count,
    Syscall NR_sendto [Reg 2, Write_buf, Imm 0x18, Imm 0x40, Imm 0, Imm 0], Count,
    Syscall NR_recvfrom [Reg 2, Ptr 0x20b890c0, Imm 4, Imm 0x40, Imm 0, Imm 0], Count,
    Syscall NR_recvfrom [Reg 2, Ptr 0x20b8cb00, Imm 8, Imm 0x40, Imm 0, Imm 0], Count,
    Syscall NR_sendto [Reg 2, Write_buf, Imm 0x18, Imm 0x40, Imm 0, Imm 0], Count,
    Syscall NR_recvfrom [Reg 2, Ptr 0x20b914c0, Imm 4, Imm 0x40, Imm 0, Imm 0], Count,
    Syscall NR_recvfrom [Reg 2, Ptr 0x20b91bc0, Imm 0x15, Imm 0x40, Imm 0, Imm 0], Count,
    Syscall NR_sendto [Reg 2, Write_buf, Imm 0xbe, Imm 0x40, Imm 0, Imm 0], Count]"

definition min_mysql_recvfrom_sendto_20_0_body409 :: "stmt list" where
  "min_mysql_recvfrom_sendto_20_0_body409 = [
    Syscall NR_recvfrom [Reg 2, Ptr 0x20ba9540, Imm 4, Imm 0x40, Imm 0, Imm 0], Count,
    Syscall NR_recvfrom [Reg 2, Ptr 0x20baef40, Imm 0x15, Imm 0x40, Imm 0, Imm 0], Count,
    Syscall NR_sendto [Reg 2, Write_buf, Imm 0xbe, Imm 0x40, Imm 0, Imm 0], Count,
    Syscall NR_recvfrom [Reg 2, Ptr 0x20bbaac0, Imm 4, Imm 0x40, Imm 0, Imm 0], Count,
    Syscall NR_recvfrom [Reg 2, Ptr 0x20bbc640, Imm 0x15, Imm 0x40, Imm 0, Imm 0], Count,
    Syscall NR_sendto [Reg 2, Write_buf, Imm 0xbe, Imm 0x40, Imm 0, Imm 0], Count,
    Syscall NR_recvfrom [Reg 2, Ptr 0x20bcaac0, Imm 4, Imm 0x40, Imm 0, Imm 0], Count,
    Syscall NR_recvfrom [Reg 2, Ptr 0x20bcc3c0, Imm 0x15, Imm 0x40, Imm 0, Imm 0], Count,
    Syscall NR_sendto [Reg 2, Write_buf, Imm 0xbe, Imm 0x40, Imm 0, Imm 0], Count,
    Syscall NR_recvfrom [Reg 2, Ptr 0x20bd49c0, Imm 4, Imm 0x40, Imm 0, Imm 0], Count]"

definition min_mysql_recvfrom_sendto_20_0_body410 :: "stmt list" where
  "min_mysql_recvfrom_sendto_20_0_body410 = [
    Syscall NR_recvfrom [Reg 2, Ptr 0x20bd8300, Imm 0x15, Imm 0x40, Imm 0, Imm 0], Count,
    Syscall NR_sendto [Reg 2, Write_buf, Imm 0xbe, Imm 0x40, Imm 0, Imm 0], Count,
    Syscall NR_recvfrom [Reg 2, Ptr 0x20bdfb80, Imm 4, Imm 0x40, Imm 0, Imm 0], Count,
    Syscall NR_recvfrom [Reg 2, Ptr 0x20be33c0, Imm 0x15, Imm 0x40, Imm 0, Imm 0], Count,
    Syscall NR_sendto [Reg 2, Write_buf, Imm 0xbe, Imm 0x40, Imm 0, Imm 0], Count,
    Syscall NR_recvfrom [Reg 2, Ptr 0x20bea980, Imm 4, Imm 0x40, Imm 0, Imm 0], Count,
    Syscall NR_recvfrom [Reg 2, Ptr 0x20bee180, Imm 0x15, Imm 0x40, Imm 0, Imm 0], Count,
    Syscall NR_sendto [Reg 2, Write_buf, Imm 0xbe, Imm 0x40, Imm 0, Imm 0], Count,
    Syscall NR_recvfrom [Reg 2, Ptr 0x20bf2740, Imm 4, Imm 0x40, Imm 0, Imm 0], Count,
    Syscall NR_recvfrom [Reg 2, Ptr 0x20bf2ec0, Imm 0x15, Imm 0x40, Imm 0, Imm 0], Count]"

definition min_mysql_recvfrom_sendto_20_0_body411 :: "stmt list" where
  "min_mysql_recvfrom_sendto_20_0_body411 = [
    Syscall NR_sendto [Reg 2, Write_buf, Imm 0xbe, Imm 0x40, Imm 0, Imm 0], Count,
    Syscall NR_recvfrom [Reg 2, Ptr 0x20c0a600, Imm 4, Imm 0x40, Imm 0, Imm 0], Count,
    Syscall NR_recvfrom [Reg 2, Ptr 0x20c10140, Imm 0x15, Imm 0x40, Imm 0, Imm 0], Count,
    Syscall NR_sendto [Reg 2, Write_buf, Imm 0xbe, Imm 0x40, Imm 0, Imm 0], Count,
    Syscall NR_recvfrom [Reg 2, Ptr 0x20c23840, Imm 4, Imm 0x40, Imm 0, Imm 0], Count,
    Syscall NR_recvfrom [Reg 2, Ptr 0x20c270c0, Imm 0x15, Imm 0x40, Imm 0, Imm 0], Count,
    Syscall NR_sendto [Reg 2, Write_buf, Imm 0xbe, Imm 0x40, Imm 0, Imm 0], Count,
    Syscall NR_recvfrom [Reg 2, Ptr 0x20c348c0, Imm 4, Imm 0x40, Imm 0, Imm 0], Count,
    Syscall NR_recvfrom [Reg 2, Ptr 0x20c5d880, Imm 0x1d, Imm 0x40, Imm 0, Imm 0], Count,
    Syscall NR_sendto [Reg 2, Write_buf, Imm 0x317a, Imm 0x40, Imm 0, Imm 0], Count]"

definition min_mysql_recvfrom_sendto_20_0_body412 :: "stmt list" where
  "min_mysql_recvfrom_sendto_20_0_body412 = [
    Syscall NR_recvfrom [Reg 2, Ptr 0x20c74ec0, Imm 4, Imm 0x40, Imm 0, Imm 0], Count,
    Syscall NR_recvfrom [Reg 2, Ptr 0x20c81c80, Imm 0x1d, Imm 0x40, Imm 0, Imm 0], Count,
    Syscall NR_sendto [Reg 2, Write_buf, Imm 0x3c, Imm 0x40, Imm 0, Imm 0], Count,
    Syscall NR_recvfrom [Reg 2, Ptr 0x20c9c780, Imm 4, Imm 0x40, Imm 0, Imm 0], Count,
    Syscall NR_recvfrom [Reg 2, Ptr 0x20cba500, Imm 0x1d, Imm 0x40, Imm 0, Imm 0], Count,
    Syscall NR_sendto [Reg 2, Write_buf, Imm 0x3178, Imm 0x40, Imm 0, Imm 0], Count,
    Syscall NR_recvfrom [Reg 2, Ptr 0x20edc780, Imm 4, Imm 0x40, Imm 0, Imm 0], Count,
    Syscall NR_recvfrom [Reg 2, Ptr 0x20eff680, Imm 0x1d, Imm 0x40, Imm 0, Imm 0], Count,
    Syscall NR_sendto [Reg 2, Write_buf, Imm 0x3178, Imm 0x40, Imm 0, Imm 0], Count,
    Syscall NR_recvfrom [Reg 2, Ptr 0x2009a880, Imm 4, Imm 0x40, Imm 0, Imm 0], Count]"

definition min_mysql_recvfrom_sendto_20_0_body413 :: "stmt list" where
  "min_mysql_recvfrom_sendto_20_0_body413 = [
    Syscall NR_recvfrom [Reg 2, Ptr 0x200a4180, Imm 0x15, Imm 0x40, Imm 0, Imm 0], Count,
    Syscall NR_sendto [Reg 2, Write_buf, Imm 0x34, Imm 0x40, Imm 0, Imm 0], Count,
    Syscall NR_recvfrom [Reg 2, Ptr 0x200a5c40, Imm 4, Imm 0x40, Imm 0, Imm 0], Count,
    Syscall NR_recvfrom [Reg 2, Ptr 0x200a6580, Imm 0x8d, Imm 0x40, Imm 0, Imm 0], Count,
    Syscall NR_sendto [Reg 2, Write_buf, Imm 0x34, Imm 0x40, Imm 0, Imm 0], Count,
    Syscall NR_recvfrom [Reg 2, Ptr 0x200b42c0, Imm 4, Imm 0x40, Imm 0, Imm 0], Count,
    Syscall NR_recvfrom [Reg 2, Ptr 0x200b7ac0, Imm 0x15, Imm 0x40, Imm 0, Imm 0], Count,
    Syscall NR_sendto [Reg 2, Write_buf, Imm 0xb, Imm 0x40, Imm 0, Imm 0], Count,
    Syscall NR_recvfrom [Reg 2, Ptr 0x20e27880, Imm 4, Imm 0x40, Imm 0, Imm 0], Count,
    Syscall NR_recvfrom [Reg 2, Ptr 0x20e27a40, Imm 0xd1, Imm 0x40, Imm 0, Imm 0], Count]"

definition min_mysql_recvfrom_sendto_20_0_body414 :: "stmt list" where
  "min_mysql_recvfrom_sendto_20_0_body414 = [
    Syscall NR_sendto [Reg 2, Write_buf, Imm 0xd, Imm 0x40, Imm 0, Imm 0], Count,
    Syscall NR_recvfrom [Reg 2, Ptr 0x20e4ce40, Imm 4, Imm 0x40, Imm 0, Imm 0], Count,
    Syscall NR_recvfrom [Reg 2, Ptr 0x20e5f540, Imm 0xb, Imm 0x40, Imm 0, Imm 0], Count,
    Syscall NR_sendto [Reg 2, Write_buf, Imm 0x18, Imm 0x40, Imm 0, Imm 0], Count,
    Syscall NR_recvfrom [Reg 2, Ptr 0x20281c40, Imm 4, Imm 0x40, Imm 0, Imm 0], Count,
    Syscall NR_recvfrom [Reg 2, Ptr 0x202a7680, Imm 8, Imm 0x40, Imm 0, Imm 0], Count,
    Syscall NR_sendto [Reg 2, Write_buf, Imm 0x18, Imm 0x40, Imm 0, Imm 0], Count,
    Syscall NR_recvfrom [Reg 2, Ptr 0x202e1940, Imm 4, Imm 0x40, Imm 0, Imm 0], Count,
    Syscall NR_recvfrom [Reg 2, Ptr 0x202fb580, Imm 0x15, Imm 0x40, Imm 0, Imm 0], Count,
    Syscall NR_sendto [Reg 2, Write_buf, Imm 0xc0, Imm 0x40, Imm 0, Imm 0], Count]"

definition min_mysql_recvfrom_sendto_20_0_body415 :: "stmt list" where
  "min_mysql_recvfrom_sendto_20_0_body415 = [
    Syscall NR_recvfrom [Reg 2, Ptr 0x20323f00, Imm 4, Imm 0x40, Imm 0, Imm 0], Count,
    Syscall NR_recvfrom [Reg 2, Ptr 0x20331900, Imm 0x15, Imm 0x40, Imm 0, Imm 0], Count,
    Syscall NR_sendto [Reg 2, Write_buf, Imm 0xc0, Imm 0x40, Imm 0, Imm 0], Count,
    Syscall NR_recvfrom [Reg 2, Ptr 0x203545c0, Imm 4, Imm 0x40, Imm 0, Imm 0], Count,
    Syscall NR_recvfrom [Reg 2, Ptr 0x20365440, Imm 0x15, Imm 0x40, Imm 0, Imm 0], Count,
    Syscall NR_sendto [Reg 2, Write_buf, Imm 0xc0, Imm 0x40, Imm 0, Imm 0], Count,
    Syscall NR_recvfrom [Reg 2, Ptr 0x2039e400, Imm 4, Imm 0x40, Imm 0, Imm 0], Count,
    Syscall NR_recvfrom [Reg 2, Ptr 0x203b8480, Imm 0x15, Imm 0x40, Imm 0, Imm 0], Count,
    Syscall NR_sendto [Reg 2, Write_buf, Imm 0xc0, Imm 0x40, Imm 0, Imm 0], Count,
    Syscall NR_recvfrom [Reg 2, Ptr 0x203e2c40, Imm 4, Imm 0x40, Imm 0, Imm 0], Count]"

definition min_mysql_recvfrom_sendto_20_0_body416 :: "stmt list" where
  "min_mysql_recvfrom_sendto_20_0_body416 = [
    Syscall NR_recvfrom [Reg 2, Ptr 0x203ec200, Imm 0x15, Imm 0x40, Imm 0, Imm 0], Count,
    Syscall NR_sendto [Reg 2, Write_buf, Imm 0xc0, Imm 0x40, Imm 0, Imm 0], Count,
    Syscall NR_recvfrom [Reg 2, Ptr 0x203f8240, Imm 4, Imm 0x40, Imm 0, Imm 0], Count,
    Syscall NR_recvfrom [Reg 2, Ptr 0x20401e80, Imm 0x15, Imm 0x40, Imm 0, Imm 0], Count,
    Syscall NR_sendto [Reg 2, Write_buf, Imm 0xc0, Imm 0x40, Imm 0, Imm 0], Count,
    Syscall NR_recvfrom [Reg 2, Ptr 0x20414400, Imm 4, Imm 0x40, Imm 0, Imm 0], Count,
    Syscall NR_recvfrom [Reg 2, Ptr 0x2041adc0, Imm 0x15, Imm 0x40, Imm 0, Imm 0], Count,
    Syscall NR_sendto [Reg 2, Write_buf, Imm 0xc0, Imm 0x40, Imm 0, Imm 0], Count,
    Syscall NR_recvfrom [Reg 2, Ptr 0x2042e640, Imm 4, Imm 0x40, Imm 0, Imm 0], Count,
    Syscall NR_recvfrom [Reg 2, Ptr 0x20437fc0, Imm 0x15, Imm 0x40, Imm 0, Imm 0], Count]"

definition min_mysql_recvfrom_sendto_20_0_body417 :: "stmt list" where
  "min_mysql_recvfrom_sendto_20_0_body417 = [
    Syscall NR_sendto [Reg 2, Write_buf, Imm 0xc0, Imm 0x40, Imm 0, Imm 0], Count,
    Syscall NR_recvfrom [Reg 2, Ptr 0x2043fc80, Imm 4, Imm 0x40, Imm 0, Imm 0], Count,
    Syscall NR_recvfrom [Reg 2, Ptr 0x20440180, Imm 0x15, Imm 0x40, Imm 0, Imm 0], Count,
    Syscall NR_sendto [Reg 2, Write_buf, Imm 0xc0, Imm 0x40, Imm 0, Imm 0], Count,
    Syscall NR_recvfrom [Reg 2, Ptr 0x2044c340, Imm 4, Imm 0x40, Imm 0, Imm 0], Count,
    Syscall NR_recvfrom [Reg 2, Ptr 0x2044fd80, Imm 0x15, Imm 0x40, Imm 0, Imm 0], Count,
    Syscall NR_sendto [Reg 2, Write_buf, Imm 0xc0, Imm 0x40, Imm 0, Imm 0], Count,
    Syscall NR_recvfrom [Reg 2, Ptr 0x204506c0, Imm 4, Imm 0x40, Imm 0, Imm 0], Count,
    Syscall NR_recvfrom [Reg 2, Ptr 0x20454240, Imm 0x23, Imm 0x40, Imm 0, Imm 0], Count,
    Syscall NR_sendto [Reg 2, Write_buf, Imm 0x317a, Imm 0x40, Imm 0, Imm 0], Count]"

definition min_mysql_recvfrom_sendto_20_0_body418 :: "stmt list" where
  "min_mysql_recvfrom_sendto_20_0_body418 = [
    Syscall NR_recvfrom [Reg 2, Ptr 0x204586c0, Imm 4, Imm 0x40, Imm 0, Imm 0], Count,
    Syscall NR_recvfrom [Reg 2, Ptr 0x2045bd00, Imm 0x1d, Imm 0x40, Imm 0, Imm 0], Count,
    Syscall NR_sendto [Reg 2, Write_buf, Imm 0x3c, Imm 0x40, Imm 0, Imm 0], Count,
    Syscall NR_recvfrom [Reg 2, Ptr 0x2045f040, Imm 4, Imm 0x40, Imm 0, Imm 0], Count,
    Syscall NR_recvfrom [Reg 2, Ptr 0x2047a940, Imm 0x1d, Imm 0x40, Imm 0, Imm 0], Count,
    Syscall NR_sendto [Reg 2, Write_buf, Imm 0x317a, Imm 0x40, Imm 0, Imm 0], Count,
    Syscall NR_recvfrom [Reg 2, Ptr 0x20567480, Imm 4, Imm 0x40, Imm 0, Imm 0], Count,
    Syscall NR_recvfrom [Reg 2, Ptr 0x2056a780, Imm 0x1d, Imm 0x40, Imm 0, Imm 0], Count,
    Syscall NR_sendto [Reg 2, Write_buf, Imm 0x820, Imm 0x40, Imm 0, Imm 0], Count,
    Syscall NR_recvfrom [Reg 2, Ptr 0x20595d40, Imm 4, Imm 0x40, Imm 0, Imm 0], Count]"

definition min_mysql_recvfrom_sendto_20_0_body419 :: "stmt list" where
  "min_mysql_recvfrom_sendto_20_0_body419 = [
    Syscall NR_recvfrom [Reg 2, Ptr 0x205993c0, Imm 0x15, Imm 0x40, Imm 0, Imm 0], Count,
    Syscall NR_sendto [Reg 2, Write_buf, Imm 0x34, Imm 0x40, Imm 0, Imm 0], Count,
    Syscall NR_recvfrom [Reg 2, Ptr 0x205b2900, Imm 4, Imm 0x40, Imm 0, Imm 0], Count,
    Syscall NR_recvfrom [Reg 2, Ptr 0x205b3ec0, Imm 0x8d, Imm 0x40, Imm 0, Imm 0], Count,
    Syscall NR_sendto [Reg 2, Write_buf, Imm 0x34, Imm 0x40, Imm 0, Imm 0], Count,
    Syscall NR_recvfrom [Reg 2, Ptr 0x205ceac0, Imm 4, Imm 0x40, Imm 0, Imm 0], Count,
    Syscall NR_recvfrom [Reg 2, Ptr 0x205dd280, Imm 0x15, Imm 0x40, Imm 0, Imm 0], Count,
    Syscall NR_sendto [Reg 2, Write_buf, Imm 0xb, Imm 0x40, Imm 0, Imm 0], Count,
    Syscall NR_recvfrom [Reg 2, Ptr 0x205efa80, Imm 4, Imm 0x40, Imm 0, Imm 0], Count,
    Syscall NR_recvfrom [Reg 2, Ptr 0x205f2c00, Imm 0xd1, Imm 0x40, Imm 0, Imm 0], Count]"

definition min_mysql_recvfrom_sendto_20_0_body420 :: "stmt list" where
  "min_mysql_recvfrom_sendto_20_0_body420 = [
    Syscall NR_sendto [Reg 2, Write_buf, Imm 0xb, Imm 0x40, Imm 0, Imm 0], Count,
    Syscall NR_recvfrom [Reg 2, Ptr 0x205ff980, Imm 4, Imm 0x40, Imm 0, Imm 0], Count,
    Syscall NR_recvfrom [Reg 2, Ptr 0x205ffb80, Imm 0xb, Imm 0x40, Imm 0, Imm 0], Count,
    Syscall NR_sendto [Reg 2, Write_buf, Imm 0x18, Imm 0x40, Imm 0, Imm 0], Count,
    Syscall NR_recvfrom [Reg 2, Ptr 0x207c1200, Imm 4, Imm 0x40, Imm 0, Imm 0], Count,
    Syscall NR_recvfrom [Reg 2, Ptr 0x207d7740, Imm 8, Imm 0x40, Imm 0, Imm 0], Count,
    Syscall NR_sendto [Reg 2, Write_buf, Imm 0x18, Imm 0x40, Imm 0, Imm 0], Count,
    Syscall NR_recvfrom [Reg 2, Ptr 0x2081c200, Imm 4, Imm 0x40, Imm 0, Imm 0], Count,
    Syscall NR_recvfrom [Reg 2, Ptr 0x2083ab00, Imm 0x15, Imm 0x40, Imm 0, Imm 0], Count,
    Syscall NR_sendto [Reg 2, Write_buf, Imm 0xc0, Imm 0x40, Imm 0, Imm 0], Count]"

definition min_mysql_recvfrom_sendto_20_0_body421 :: "stmt list" where
  "min_mysql_recvfrom_sendto_20_0_body421 = [
    Syscall NR_recvfrom [Reg 2, Ptr 0x2087f540, Imm 4, Imm 0x40, Imm 0, Imm 0], Count,
    Syscall NR_recvfrom [Reg 2, Ptr 0x208a3980, Imm 0x15, Imm 0x40, Imm 0, Imm 0], Count,
    Syscall NR_sendto [Reg 2, Write_buf, Imm 0xc0, Imm 0x40, Imm 0, Imm 0], Count,
    Syscall NR_recvfrom [Reg 2, Ptr 0x208e3a80, Imm 4, Imm 0x40, Imm 0, Imm 0], Count,
    Syscall NR_recvfrom [Reg 2, Ptr 0x2090d900, Imm 0x15, Imm 0x40, Imm 0, Imm 0], Count,
    Syscall NR_sendto [Reg 2, Write_buf, Imm 0xc0, Imm 0x40, Imm 0, Imm 0], Count,
    Syscall NR_recvfrom [Reg 2, Ptr 0x20940a40, Imm 4, Imm 0x40, Imm 0, Imm 0], Count,
    Syscall NR_recvfrom [Reg 2, Ptr 0x20957000, Imm 0x15, Imm 0x40, Imm 0, Imm 0], Count,
    Syscall NR_sendto [Reg 2, Write_buf, Imm 0xc0, Imm 0x40, Imm 0, Imm 0], Count,
    Syscall NR_recvfrom [Reg 2, Ptr 0x20991800, Imm 4, Imm 0x40, Imm 0, Imm 0], Count]"

definition min_mysql_recvfrom_sendto_20_0_body422 :: "stmt list" where
  "min_mysql_recvfrom_sendto_20_0_body422 = [
    Syscall NR_recvfrom [Reg 2, Ptr 0x209a3e40, Imm 0x15, Imm 0x40, Imm 0, Imm 0], Count,
    Syscall NR_sendto [Reg 2, Write_buf, Imm 0xc0, Imm 0x40, Imm 0, Imm 0], Count,
    Syscall NR_recvfrom [Reg 2, Ptr 0x209f2000, Imm 4, Imm 0x40, Imm 0, Imm 0], Count,
    Syscall NR_recvfrom [Reg 2, Ptr 0x20a05fc0, Imm 0x15, Imm 0x40, Imm 0, Imm 0], Count,
    Syscall NR_sendto [Reg 2, Write_buf, Imm 0xc0, Imm 0x40, Imm 0, Imm 0], Count,
    Syscall NR_recvfrom [Reg 2, Ptr 0x20a3c000, Imm 4, Imm 0x40, Imm 0, Imm 0], Count,
    Syscall NR_recvfrom [Reg 2, Ptr 0x20a50080, Imm 0x15, Imm 0x40, Imm 0, Imm 0], Count,
    Syscall NR_sendto [Reg 2, Write_buf, Imm 0xc0, Imm 0x40, Imm 0, Imm 0], Count,
    Syscall NR_recvfrom [Reg 2, Ptr 0x20a8cc00, Imm 4, Imm 0x40, Imm 0, Imm 0], Count,
    Syscall NR_recvfrom [Reg 2, Ptr 0x20abbec0, Imm 0x15, Imm 0x40, Imm 0, Imm 0], Count]"

definition min_mysql_recvfrom_sendto_20_0_body423 :: "stmt list" where
  "min_mysql_recvfrom_sendto_20_0_body423 = [
    Syscall NR_sendto [Reg 2, Write_buf, Imm 0xc0, Imm 0x40, Imm 0, Imm 0], Count,
    Syscall NR_recvfrom [Reg 2, Ptr 0x20b14b00, Imm 4, Imm 0x40, Imm 0, Imm 0], Count,
    Syscall NR_recvfrom [Reg 2, Ptr 0x20b34680, Imm 0x15, Imm 0x40, Imm 0, Imm 0], Count,
    Syscall NR_sendto [Reg 2, Write_buf, Imm 0xc0, Imm 0x40, Imm 0, Imm 0], Count,
    Syscall NR_recvfrom [Reg 2, Ptr 0x20b74e80, Imm 4, Imm 0x40, Imm 0, Imm 0], Count,
    Syscall NR_recvfrom [Reg 2, Ptr 0x20b94280, Imm 0x15, Imm 0x40, Imm 0, Imm 0], Count,
    Syscall NR_sendto [Reg 2, Write_buf, Imm 0xc0, Imm 0x40, Imm 0, Imm 0], Count,
    Syscall NR_recvfrom [Reg 2, Ptr 0x20bb9080, Imm 4, Imm 0x40, Imm 0, Imm 0], Count,
    Syscall NR_recvfrom [Reg 2, Ptr 0x20bccc00, Imm 0x1d, Imm 0x40, Imm 0, Imm 0], Count,
    Syscall NR_sendto [Reg 2, Write_buf, Imm 0x317a, Imm 0x40, Imm 0, Imm 0], Count]"

definition min_mysql_recvfrom_sendto_20_0_body424 :: "stmt list" where
  "min_mysql_recvfrom_sendto_20_0_body424 = [
    Syscall NR_recvfrom [Reg 2, Ptr 0x20beef40, Imm 4, Imm 0x40, Imm 0, Imm 0], Count,
    Syscall NR_recvfrom [Reg 2, Ptr 0x20bf5840, Imm 0x1d, Imm 0x40, Imm 0, Imm 0], Count,
    Syscall NR_sendto [Reg 2, Write_buf, Imm 0x3c, Imm 0x40, Imm 0, Imm 0], Count,
    Syscall NR_recvfrom [Reg 2, Ptr 0x20c0cfc0, Imm 4, Imm 0x40, Imm 0, Imm 0], Count,
    Syscall NR_recvfrom [Reg 2, Ptr 0x20c28f40, Imm 0x1d, Imm 0x40, Imm 0, Imm 0], Count,
    Syscall NR_sendto [Reg 2, Write_buf, Imm 0x19da, Imm 0x40, Imm 0, Imm 0], Count,
    Syscall NR_recvfrom [Reg 2, Ptr 0x20c74d40, Imm 4, Imm 0x40, Imm 0, Imm 0], Count,
    Syscall NR_recvfrom [Reg 2, Ptr 0x20c97140, Imm 0x1d, Imm 0x40, Imm 0, Imm 0], Count,
    Syscall NR_sendto [Reg 2, Write_buf, Imm 0x317a, Imm 0x40, Imm 0, Imm 0], Count,
    Syscall NR_recvfrom [Reg 2, Ptr 0x20d5c640, Imm 4, Imm 0x40, Imm 0, Imm 0], Count]"

definition min_mysql_recvfrom_sendto_20_0_body425 :: "stmt list" where
  "min_mysql_recvfrom_sendto_20_0_body425 = [
    Syscall NR_recvfrom [Reg 2, Ptr 0x20d6ea40, Imm 0x15, Imm 0x40, Imm 0, Imm 0], Count,
    Syscall NR_sendto [Reg 2, Write_buf, Imm 0x34, Imm 0x40, Imm 0, Imm 0], Count,
    Syscall NR_recvfrom [Reg 2, Ptr 0x20dabb00, Imm 4, Imm 0x40, Imm 0, Imm 0], Count,
    Syscall NR_recvfrom [Reg 2, Ptr 0x20db7c40, Imm 0x8d, Imm 0x40, Imm 0, Imm 0], Count,
    Syscall NR_sendto [Reg 2, Write_buf, Imm 0x34, Imm 0x40, Imm 0, Imm 0], Count,
    Syscall NR_recvfrom [Reg 2, Ptr 0x20dbd400, Imm 4, Imm 0x40, Imm 0, Imm 0], Count,
    Syscall NR_recvfrom [Reg 2, Ptr 0x20dc0980, Imm 0x15, Imm 0x40, Imm 0, Imm 0], Count,
    Syscall NR_sendto [Reg 2, Write_buf, Imm 0xb, Imm 0x40, Imm 0, Imm 0], Count,
    Syscall NR_recvfrom [Reg 2, Ptr 0x20dd9a40, Imm 4, Imm 0x40, Imm 0, Imm 0], Count,
    Syscall NR_recvfrom [Reg 2, Ptr 0x20ddce00, Imm 0xd1, Imm 0x40, Imm 0, Imm 0], Count]"

definition min_mysql_recvfrom_sendto_20_0_body426 :: "stmt list" where
  "min_mysql_recvfrom_sendto_20_0_body426 = [
    Syscall NR_sendto [Reg 2, Write_buf, Imm 0xd, Imm 0x40, Imm 0, Imm 0], Count,
    Syscall NR_recvfrom [Reg 2, Ptr 0x20df2d40, Imm 4, Imm 0x40, Imm 0, Imm 0], Count,
    Syscall NR_recvfrom [Reg 2, Ptr 0x20dfc480, Imm 0xb, Imm 0x40, Imm 0, Imm 0], Count,
    Syscall NR_sendto [Reg 2, Write_buf, Imm 0x18, Imm 0x40, Imm 0, Imm 0], Count,
    Syscall NR_recvfrom [Reg 2, Ptr 0x20e741c0, Imm 4, Imm 0x40, Imm 0, Imm 0], Count,
    Syscall NR_recvfrom [Reg 2, Ptr 0x20e74d40, Imm 8, Imm 0x40, Imm 0, Imm 0], Count,
    Syscall NR_sendto [Reg 2, Write_buf, Imm 0x18, Imm 0x40, Imm 0, Imm 0], Count,
    Syscall NR_recvfrom [Reg 2, Ptr 0x20e76840, Imm 4, Imm 0x40, Imm 0, Imm 0], Count,
    Syscall NR_recvfrom [Reg 2, Ptr 0x20e77440, Imm 0x15, Imm 0x40, Imm 0, Imm 0], Count,
    Syscall NR_sendto [Reg 2, Write_buf, Imm 0xc0, Imm 0x40, Imm 0, Imm 0], Count]"

definition min_mysql_recvfrom_sendto_20_0_body427 :: "stmt list" where
  "min_mysql_recvfrom_sendto_20_0_body427 = [
    Syscall NR_recvfrom [Reg 2, Ptr 0x20e79040, Imm 4, Imm 0x40, Imm 0, Imm 0], Count,
    Syscall NR_recvfrom [Reg 2, Ptr 0x20e79c40, Imm 0x15, Imm 0x40, Imm 0, Imm 0], Count,
    Syscall NR_sendto [Reg 2, Write_buf, Imm 0xc0, Imm 0x40, Imm 0, Imm 0], Count,
    Syscall NR_recvfrom [Reg 2, Ptr 0x20e819c0, Imm 4, Imm 0x40, Imm 0, Imm 0], Count,
    Syscall NR_recvfrom [Reg 2, Ptr 0x20e825c0, Imm 0x15, Imm 0x40, Imm 0, Imm 0], Count,
    Syscall NR_sendto [Reg 2, Write_buf, Imm 0xc0, Imm 0x40, Imm 0, Imm 0], Count,
    Syscall NR_recvfrom [Reg 2, Ptr 0x20e8a180, Imm 4, Imm 0x40, Imm 0, Imm 0], Count,
    Syscall NR_recvfrom [Reg 2, Ptr 0x20e90f80, Imm 0x15, Imm 0x40, Imm 0, Imm 0], Count,
    Syscall NR_sendto [Reg 2, Write_buf, Imm 0xc0, Imm 0x40, Imm 0, Imm 0], Count,
    Syscall NR_recvfrom [Reg 2, Ptr 0x20ea00c0, Imm 4, Imm 0x40, Imm 0, Imm 0], Count]"

definition min_mysql_recvfrom_sendto_20_0_body428 :: "stmt list" where
  "min_mysql_recvfrom_sendto_20_0_body428 = [
    Syscall NR_recvfrom [Reg 2, Ptr 0x20ea3d40, Imm 0x15, Imm 0x40, Imm 0, Imm 0], Count,
    Syscall NR_sendto [Reg 2, Write_buf, Imm 0xc0, Imm 0x40, Imm 0, Imm 0], Count,
    Syscall NR_recvfrom [Reg 2, Ptr 0x20eae740, Imm 4, Imm 0x40, Imm 0, Imm 0], Count,
    Syscall NR_recvfrom [Reg 2, Ptr 0x20eb83c0, Imm 0x15, Imm 0x40, Imm 0, Imm 0], Count,
    Syscall NR_sendto [Reg 2, Write_buf, Imm 0xc0, Imm 0x40, Imm 0, Imm 0], Count,
    Syscall NR_recvfrom [Reg 2, Ptr 0x20ed8300, Imm 4, Imm 0x40, Imm 0, Imm 0], Count,
    Syscall NR_recvfrom [Reg 2, Ptr 0x20ee4e00, Imm 0x15, Imm 0x40, Imm 0, Imm 0], Count,
    Syscall NR_sendto [Reg 2, Write_buf, Imm 0xc0, Imm 0x40, Imm 0, Imm 0], Count,
    Syscall NR_recvfrom [Reg 2, Ptr 0x20f14440, Imm 4, Imm 0x40, Imm 0, Imm 0], Count,
    Syscall NR_recvfrom [Reg 2, Ptr 0x20f3ddc0, Imm 0x15, Imm 0x40, Imm 0, Imm 0], Count]"

definition min_mysql_recvfrom_sendto_20_0_body429 :: "stmt list" where
  "min_mysql_recvfrom_sendto_20_0_body429 = [
    Syscall NR_sendto [Reg 2, Write_buf, Imm 0xc0, Imm 0x40, Imm 0, Imm 0], Count,
    Syscall NR_recvfrom [Reg 2, Ptr 0x20fb3f40, Imm 4, Imm 0x40, Imm 0, Imm 0], Count,
    Syscall NR_recvfrom [Reg 2, Ptr 0x20fd9b80, Imm 0x15, Imm 0x40, Imm 0, Imm 0], Count,
    Syscall NR_sendto [Reg 2, Write_buf, Imm 0xc0, Imm 0x40, Imm 0, Imm 0], Count,
    Syscall NR_recvfrom [Reg 2, Ptr 0x20009600, Imm 4, Imm 0x40, Imm 0, Imm 0], Count,
    Syscall NR_recvfrom [Reg 2, Ptr 0x20038640, Imm 0x15, Imm 0x40, Imm 0, Imm 0], Count,
    Syscall NR_sendto [Reg 2, Write_buf, Imm 0xc0, Imm 0x40, Imm 0, Imm 0], Count,
    Syscall NR_recvfrom [Reg 2, Ptr 0x20056c80, Imm 4, Imm 0x40, Imm 0, Imm 0], Count,
    Syscall NR_recvfrom [Reg 2, Ptr 0x2007bf80, Imm 0x1d, Imm 0x40, Imm 0, Imm 0], Count,
    Syscall NR_sendto [Reg 2, Write_buf, Imm 0x3178, Imm 0x40, Imm 0, Imm 0], Count]"

definition min_mysql_recvfrom_sendto_20_0_body430 :: "stmt list" where
  "min_mysql_recvfrom_sendto_20_0_body430 = [
    Syscall NR_recvfrom [Reg 2, Ptr 0x200c99c0, Imm 4, Imm 0x40, Imm 0, Imm 0], Count,
    Syscall NR_recvfrom [Reg 2, Ptr 0x200f3280, Imm 0x1d, Imm 0x40, Imm 0, Imm 0], Count,
    Syscall NR_sendto [Reg 2, Write_buf, Imm 0x3c, Imm 0x40, Imm 0, Imm 0], Count,
    Syscall NR_recvfrom [Reg 2, Ptr 0x20148cc0, Imm 4, Imm 0x40, Imm 0, Imm 0], Count,
    Syscall NR_recvfrom [Reg 2, Ptr 0x2016b5c0, Imm 0x1d, Imm 0x40, Imm 0, Imm 0], Count,
    Syscall NR_sendto [Reg 2, Write_buf, Imm 0x317a, Imm 0x40, Imm 0, Imm 0], Count,
    Syscall NR_recvfrom [Reg 2, Ptr 0x20457480, Imm 4, Imm 0x40, Imm 0, Imm 0], Count,
    Syscall NR_recvfrom [Reg 2, Ptr 0x20483600, Imm 0x1d, Imm 0x40, Imm 0, Imm 0], Count,
    Syscall NR_sendto [Reg 2, Write_buf, Imm 0x317a, Imm 0x40, Imm 0, Imm 0], Count,
    Syscall NR_recvfrom [Reg 2, Ptr 0x205b7f80, Imm 4, Imm 0x40, Imm 0, Imm 0], Count]"

definition min_mysql_recvfrom_sendto_20_0_body431 :: "stmt list" where
  "min_mysql_recvfrom_sendto_20_0_body431 = [
    Syscall NR_recvfrom [Reg 2, Ptr 0x205b8440, Imm 0x15, Imm 0x40, Imm 0, Imm 0], Count,
    Syscall NR_sendto [Reg 2, Write_buf, Imm 0x34, Imm 0x40, Imm 0, Imm 0], Count,
    Syscall NR_recvfrom [Reg 2, Ptr 0x205bad00, Imm 4, Imm 0x40, Imm 0, Imm 0], Count,
    Syscall NR_recvfrom [Reg 2, Ptr 0x205bafc0, Imm 0x8d, Imm 0x40, Imm 0, Imm 0], Count,
    Syscall NR_sendto [Reg 2, Write_buf, Imm 0x34, Imm 0x40, Imm 0, Imm 0], Count,
    Syscall NR_recvfrom [Reg 2, Ptr 0x205bc440, Imm 4, Imm 0x40, Imm 0, Imm 0], Count,
    Syscall NR_recvfrom [Reg 2, Ptr 0x205bc600, Imm 0x15, Imm 0x40, Imm 0, Imm 0], Count,
    Syscall NR_sendto [Reg 2, Write_buf, Imm 0xb, Imm 0x40, Imm 0, Imm 0], Count,
    Syscall NR_recvfrom [Reg 2, Ptr 0x205bea80, Imm 4, Imm 0x40, Imm 0, Imm 0], Count,
    Syscall NR_recvfrom [Reg 2, Ptr 0x205bec00, Imm 0xd1, Imm 0x40, Imm 0, Imm 0], Count]"

definition min_mysql_recvfrom_sendto_20_0_body432 :: "stmt list" where
  "min_mysql_recvfrom_sendto_20_0_body432 = [
    Syscall NR_sendto [Reg 2, Write_buf, Imm 0xb, Imm 0x40, Imm 0, Imm 0], Count,
    Syscall NR_recvfrom [Reg 2, Ptr 0x205bf300, Imm 4, Imm 0x40, Imm 0, Imm 0], Count,
    Syscall NR_recvfrom [Reg 2, Ptr 0x205bf380, Imm 0xb, Imm 0x40, Imm 0, Imm 0], Count,
    Syscall NR_sendto [Reg 2, Write_buf, Imm 0x18, Imm 0x40, Imm 0, Imm 0], Count,
    Syscall NR_recvfrom [Reg 2, Ptr 0x208d78c0, Imm 4, Imm 0x40, Imm 0, Imm 0], Count,
    Syscall NR_recvfrom [Reg 2, Ptr 0x208d7ec0, Imm 8, Imm 0x40, Imm 0, Imm 0], Count,
    Syscall NR_sendto [Reg 2, Write_buf, Imm 0x18, Imm 0x40, Imm 0, Imm 0], Count,
    Syscall NR_recvfrom [Reg 2, Ptr 0x208d8b40, Imm 4, Imm 0x40, Imm 0, Imm 0], Count,
    Syscall NR_recvfrom [Reg 2, Ptr 0x208d9140, Imm 0x15, Imm 0x40, Imm 0, Imm 0], Count,
    Syscall NR_sendto [Reg 2, Write_buf, Imm 0xbe, Imm 0x40, Imm 0, Imm 0], Count]"

definition min_mysql_recvfrom_sendto_20_0_body433 :: "stmt list" where
  "min_mysql_recvfrom_sendto_20_0_body433 = [
    Syscall NR_recvfrom [Reg 2, Ptr 0x208d9e80, Imm 4, Imm 0x40, Imm 0, Imm 0], Count,
    Syscall NR_recvfrom [Reg 2, Ptr 0x208da500, Imm 0x15, Imm 0x40, Imm 0, Imm 0], Count,
    Syscall NR_sendto [Reg 2, Write_buf, Imm 0xbe, Imm 0x40, Imm 0, Imm 0], Count,
    Syscall NR_recvfrom [Reg 2, Ptr 0x208db1c0, Imm 4, Imm 0x40, Imm 0, Imm 0], Count,
    Syscall NR_recvfrom [Reg 2, Ptr 0x208db8c0, Imm 0x15, Imm 0x40, Imm 0, Imm 0], Count,
    Syscall NR_sendto [Reg 2, Write_buf, Imm 0xbe, Imm 0x40, Imm 0, Imm 0], Count,
    Syscall NR_recvfrom [Reg 2, Ptr 0x208dc5c0, Imm 4, Imm 0x40, Imm 0, Imm 0], Count,
    Syscall NR_recvfrom [Reg 2, Ptr 0x208dccc0, Imm 0x15, Imm 0x40, Imm 0, Imm 0], Count,
    Syscall NR_sendto [Reg 2, Write_buf, Imm 0xbe, Imm 0x40, Imm 0, Imm 0], Count,
    Syscall NR_recvfrom [Reg 2, Ptr 0x208dd9c0, Imm 4, Imm 0x40, Imm 0, Imm 0], Count]"

definition min_mysql_recvfrom_sendto_20_0_body434 :: "stmt list" where
  "min_mysql_recvfrom_sendto_20_0_body434 = [
    Syscall NR_recvfrom [Reg 2, Ptr 0x208de000, Imm 0x15, Imm 0x40, Imm 0, Imm 0], Count,
    Syscall NR_sendto [Reg 2, Write_buf, Imm 0xbe, Imm 0x40, Imm 0, Imm 0], Count,
    Syscall NR_recvfrom [Reg 2, Ptr 0x208dec00, Imm 4, Imm 0x40, Imm 0, Imm 0], Count,
    Syscall NR_recvfrom [Reg 2, Ptr 0x208df2c0, Imm 0x15, Imm 0x40, Imm 0, Imm 0], Count,
    Syscall NR_sendto [Reg 2, Write_buf, Imm 0xbe, Imm 0x40, Imm 0, Imm 0], Count,
    Syscall NR_recvfrom [Reg 2, Ptr 0x208dffc0, Imm 4, Imm 0x40, Imm 0, Imm 0], Count,
    Syscall NR_recvfrom [Reg 2, Ptr 0x208e06c0, Imm 0x15, Imm 0x40, Imm 0, Imm 0], Count,
    Syscall NR_sendto [Reg 2, Write_buf, Imm 0xbe, Imm 0x40, Imm 0, Imm 0], Count,
    Syscall NR_recvfrom [Reg 2, Ptr 0x208e3640, Imm 4, Imm 0x40, Imm 0, Imm 0], Count,
    Syscall NR_recvfrom [Reg 2, Ptr 0x208e9e80, Imm 0x15, Imm 0x40, Imm 0, Imm 0], Count]"

definition min_mysql_recvfrom_sendto_20_0_body435 :: "stmt list" where
  "min_mysql_recvfrom_sendto_20_0_body435 = [
    Syscall NR_sendto [Reg 2, Write_buf, Imm 0xbe, Imm 0x40, Imm 0, Imm 0], Count,
    Syscall NR_recvfrom [Reg 2, Ptr 0x208f3cc0, Imm 4, Imm 0x40, Imm 0, Imm 0], Count,
    Syscall NR_recvfrom [Reg 2, Ptr 0x208f4a80, Imm 0x15, Imm 0x40, Imm 0, Imm 0], Count,
    Syscall NR_sendto [Reg 2, Write_buf, Imm 0xbe, Imm 0x40, Imm 0, Imm 0], Count,
    Syscall NR_recvfrom [Reg 2, Ptr 0x208fb240, Imm 4, Imm 0x40, Imm 0, Imm 0], Count,
    Syscall NR_recvfrom [Reg 2, Ptr 0x208fb680, Imm 0x15, Imm 0x40, Imm 0, Imm 0], Count,
    Syscall NR_sendto [Reg 2, Write_buf, Imm 0xbe, Imm 0x40, Imm 0, Imm 0], Count,
    Syscall NR_recvfrom [Reg 2, Ptr 0x20905240, Imm 4, Imm 0x40, Imm 0, Imm 0], Count,
    Syscall NR_recvfrom [Reg 2, Ptr 0x20908880, Imm 0x1d, Imm 0x40, Imm 0, Imm 0], Count,
    Syscall NR_sendto [Reg 2, Write_buf, Imm 0x317a, Imm 0x40, Imm 0, Imm 0], Count]"

definition min_mysql_recvfrom_sendto_20_0_body436 :: "stmt list" where
  "min_mysql_recvfrom_sendto_20_0_body436 = [
    Syscall NR_recvfrom [Reg 2, Ptr 0x2093ae00, Imm 4, Imm 0x40, Imm 0, Imm 0], Count,
    Syscall NR_recvfrom [Reg 2, Ptr 0x20954080, Imm 0x1d, Imm 0x40, Imm 0, Imm 0], Count,
    Syscall NR_sendto [Reg 2, Write_buf, Imm 0x3c, Imm 0x40, Imm 0, Imm 0], Count,
    Syscall NR_recvfrom [Reg 2, Ptr 0x20991100, Imm 4, Imm 0x40, Imm 0, Imm 0], Count,
    Syscall NR_recvfrom [Reg 2, Ptr 0x209a4c00, Imm 0x23, Imm 0x40, Imm 0, Imm 0], Count,
    Syscall NR_sendto [Reg 2, Write_buf, Imm 0x3178, Imm 0x40, Imm 0, Imm 0], Count,
    Syscall NR_recvfrom [Reg 2, Ptr 0x20b57cc0, Imm 4, Imm 0x40, Imm 0, Imm 0], Count,
    Syscall NR_recvfrom [Reg 2, Ptr 0x20b669c0, Imm 0x1d, Imm 0x40, Imm 0, Imm 0], Count,
    Syscall NR_sendto [Reg 2, Write_buf, Imm 0x317a, Imm 0x40, Imm 0, Imm 0], Count,
    Syscall NR_recvfrom [Reg 2, Ptr 0x20c7b140, Imm 4, Imm 0x40, Imm 0, Imm 0], Count]"

definition min_mysql_recvfrom_sendto_20_0_body437 :: "stmt list" where
  "min_mysql_recvfrom_sendto_20_0_body437 = [
    Syscall NR_recvfrom [Reg 2, Ptr 0x20c87740, Imm 0x15, Imm 0x40, Imm 0, Imm 0], Count,
    Syscall NR_sendto [Reg 2, Write_buf, Imm 0x34, Imm 0x40, Imm 0, Imm 0], Count,
    Syscall NR_recvfrom [Reg 2, Ptr 0x20c91040, Imm 4, Imm 0x40, Imm 0, Imm 0], Count,
    Syscall NR_recvfrom [Reg 2, Ptr 0x20c9e340, Imm 0x8d, Imm 0x40, Imm 0, Imm 0], Count,
    Syscall NR_sendto [Reg 2, Write_buf, Imm 0x34, Imm 0x40, Imm 0, Imm 0], Count,
    Syscall NR_recvfrom [Reg 2, Ptr 0x20cb4ac0, Imm 4, Imm 0x40, Imm 0, Imm 0], Count,
    Syscall NR_recvfrom [Reg 2, Ptr 0x20cc54c0, Imm 0x15, Imm 0x40, Imm 0, Imm 0], Count,
    Syscall NR_sendto [Reg 2, Write_buf, Imm 0xb, Imm 0x40, Imm 0, Imm 0], Count,
    Syscall NR_recvfrom [Reg 2, Ptr 0x20cf97c0, Imm 4, Imm 0x40, Imm 0, Imm 0], Count,
    Syscall NR_recvfrom [Reg 2, Ptr 0x20d0b840, Imm 0xd1, Imm 0x40, Imm 0, Imm 0], Count]"

definition min_mysql_recvfrom_sendto_20_0_body438 :: "stmt list" where
  "min_mysql_recvfrom_sendto_20_0_body438 = [
    Syscall NR_sendto [Reg 2, Write_buf, Imm 0xd, Imm 0x40, Imm 0, Imm 0], Count,
    Syscall NR_recvfrom [Reg 2, Ptr 0x20d65740, Imm 4, Imm 0x40, Imm 0, Imm 0], Count,
    Syscall NR_recvfrom [Reg 2, Ptr 0x20d79540, Imm 0xb, Imm 0x40, Imm 0, Imm 0], Count,
    Syscall NR_sendto [Reg 2, Write_buf, Imm 0x18, Imm 0x40, Imm 0, Imm 0], Count,
    Syscall NR_recvfrom [Reg 2, Ptr 0x20060680, Imm 4, Imm 0x40, Imm 0, Imm 0], Count,
    Syscall NR_recvfrom [Reg 2, Ptr 0x20060c40, Imm 8, Imm 0x40, Imm 0, Imm 0], Count,
    Syscall NR_sendto [Reg 2, Write_buf, Imm 0x18, Imm 0x40, Imm 0, Imm 0], Count,
    Syscall NR_recvfrom [Reg 2, Ptr 0x20061740, Imm 4, Imm 0x40, Imm 0, Imm 0], Count,
    Syscall NR_recvfrom [Reg 2, Ptr 0x20061c80, Imm 0x15, Imm 0x40, Imm 0, Imm 0], Count,
    Syscall NR_sendto [Reg 2, Write_buf, Imm 0xbe, Imm 0x40, Imm 0, Imm 0], Count]"

definition min_mysql_recvfrom_sendto_20_0_body439 :: "stmt list" where
  "min_mysql_recvfrom_sendto_20_0_body439 = [
    Syscall NR_recvfrom [Reg 2, Ptr 0x20062880, Imm 4, Imm 0x40, Imm 0, Imm 0], Count,
    Syscall NR_recvfrom [Reg 2, Ptr 0x20062d40, Imm 0x15, Imm 0x40, Imm 0, Imm 0], Count,
    Syscall NR_sendto [Reg 2, Write_buf, Imm 0xbe, Imm 0x40, Imm 0, Imm 0], Count,
    Syscall NR_recvfrom [Reg 2, Ptr 0x20063980, Imm 4, Imm 0x40, Imm 0, Imm 0], Count,
    Syscall NR_recvfrom [Reg 2, Ptr 0x20063e80, Imm 0x15, Imm 0x40, Imm 0, Imm 0], Count,
    Syscall NR_sendto [Reg 2, Write_buf, Imm 0xbe, Imm 0x40, Imm 0, Imm 0], Count,
    Syscall NR_recvfrom [Reg 2, Ptr 0x20064980, Imm 4, Imm 0x40, Imm 0, Imm 0], Count,
    Syscall NR_recvfrom [Reg 2, Ptr 0x20064f00, Imm 0x15, Imm 0x40, Imm 0, Imm 0], Count,
    Syscall NR_sendto [Reg 2, Write_buf, Imm 0xbe, Imm 0x40, Imm 0, Imm 0], Count,
    Syscall NR_recvfrom [Reg 2, Ptr 0x20065b00, Imm 4, Imm 0x40, Imm 0, Imm 0], Count]"

definition min_mysql_recvfrom_sendto_20_0_body440 :: "stmt list" where
  "min_mysql_recvfrom_sendto_20_0_body440 = [
    Syscall NR_recvfrom [Reg 2, Ptr 0x20066080, Imm 0x15, Imm 0x40, Imm 0, Imm 0], Count,
    Syscall NR_sendto [Reg 2, Write_buf, Imm 0xbe, Imm 0x40, Imm 0, Imm 0], Count,
    Syscall NR_recvfrom [Reg 2, Ptr 0x20066c80, Imm 4, Imm 0x40, Imm 0, Imm 0], Count,
    Syscall NR_recvfrom [Reg 2, Ptr 0x20067200, Imm 0x15, Imm 0x40, Imm 0, Imm 0], Count,
    Syscall NR_sendto [Reg 2, Write_buf, Imm 0xbe, Imm 0x40, Imm 0, Imm 0], Count,
    Syscall NR_recvfrom [Reg 2, Ptr 0x20067c80, Imm 4, Imm 0x40, Imm 0, Imm 0], Count,
    Syscall NR_recvfrom [Reg 2, Ptr 0x20068300, Imm 0x15, Imm 0x40, Imm 0, Imm 0], Count,
    Syscall NR_sendto [Reg 2, Write_buf, Imm 0xbe, Imm 0x40, Imm 0, Imm 0], Count,
    Syscall NR_recvfrom [Reg 2, Ptr 0x20068bc0, Imm 4, Imm 0x40, Imm 0, Imm 0], Count,
    Syscall NR_recvfrom [Reg 2, Ptr 0x2006f540, Imm 0x15, Imm 0x40, Imm 0, Imm 0], Count]"

definition min_mysql_recvfrom_sendto_20_0_body441 :: "stmt list" where
  "min_mysql_recvfrom_sendto_20_0_body441 = [
    Syscall NR_sendto [Reg 2, Write_buf, Imm 0xbe, Imm 0x40, Imm 0, Imm 0], Count,
    Syscall NR_recvfrom [Reg 2, Ptr 0x20076040, Imm 4, Imm 0x40, Imm 0, Imm 0], Count,
    Syscall NR_recvfrom [Reg 2, Ptr 0x20076340, Imm 0x15, Imm 0x40, Imm 0, Imm 0], Count,
    Syscall NR_sendto [Reg 2, Write_buf, Imm 0xbe, Imm 0x40, Imm 0, Imm 0], Count,
    Syscall NR_recvfrom [Reg 2, Ptr 0x20080740, Imm 4, Imm 0x40, Imm 0, Imm 0], Count,
    Syscall NR_recvfrom [Reg 2, Ptr 0x20083b80, Imm 0x15, Imm 0x40, Imm 0, Imm 0], Count,
    Syscall NR_sendto [Reg 2, Write_buf, Imm 0xbe, Imm 0x40, Imm 0, Imm 0], Count,
    Syscall NR_recvfrom [Reg 2, Ptr 0x20092180, Imm 4, Imm 0x40, Imm 0, Imm 0], Count,
    Syscall NR_recvfrom [Reg 2, Ptr 0x20092580, Imm 0x1d, Imm 0x40, Imm 0, Imm 0], Count,
    Syscall NR_sendto [Reg 2, Write_buf, Imm 0x317a, Imm 0x40, Imm 0, Imm 0], Count]"

definition min_mysql_recvfrom_sendto_20_0_body442 :: "stmt list" where
  "min_mysql_recvfrom_sendto_20_0_body442 = [
    Syscall NR_recvfrom [Reg 2, Ptr 0x200bb4c0, Imm 4, Imm 0x40, Imm 0, Imm 0], Count,
    Syscall NR_recvfrom [Reg 2, Ptr 0x200c1ec0, Imm 0x1d, Imm 0x40, Imm 0, Imm 0], Count,
    Syscall NR_sendto [Reg 2, Write_buf, Imm 0x3c, Imm 0x40, Imm 0, Imm 0], Count,
    Syscall NR_recvfrom [Reg 2, Ptr 0x200f0e80, Imm 4, Imm 0x40, Imm 0, Imm 0], Count,
    Syscall NR_recvfrom [Reg 2, Ptr 0x200fd240, Imm 0x1d, Imm 0x40, Imm 0, Imm 0], Count,
    Syscall NR_sendto [Reg 2, Write_buf, Imm 0x317a, Imm 0x40, Imm 0, Imm 0], Count,
    Syscall NR_recvfrom [Reg 2, Ptr 0x202542c0, Imm 4, Imm 0x40, Imm 0, Imm 0], Count,
    Syscall NR_recvfrom [Reg 2, Ptr 0x20261940, Imm 0x1d, Imm 0x40, Imm 0, Imm 0], Count,
    Syscall NR_sendto [Reg 2, Write_buf, Imm 0x317a, Imm 0x40, Imm 0, Imm 0], Count,
    Syscall NR_recvfrom [Reg 2, Ptr 0x2032e180, Imm 4, Imm 0x40, Imm 0, Imm 0], Count]"

definition min_mysql_recvfrom_sendto_20_0_body443 :: "stmt list" where
  "min_mysql_recvfrom_sendto_20_0_body443 = [
    Syscall NR_recvfrom [Reg 2, Ptr 0x2032e440, Imm 0x15, Imm 0x40, Imm 0, Imm 0], Count,
    Syscall NR_sendto [Reg 2, Write_buf, Imm 0x34, Imm 0x40, Imm 0, Imm 0], Count,
    Syscall NR_recvfrom [Reg 2, Ptr 0x2032f300, Imm 4, Imm 0x40, Imm 0, Imm 0], Count,
    Syscall NR_recvfrom [Reg 2, Ptr 0x2032f800, Imm 0x8d, Imm 0x40, Imm 0, Imm 0], Count,
    Syscall NR_sendto [Reg 2, Write_buf, Imm 0x34, Imm 0x40, Imm 0, Imm 0], Count,
    Syscall NR_recvfrom [Reg 2, Ptr 0x20331fc0, Imm 4, Imm 0x40, Imm 0, Imm 0], Count,
    Syscall NR_recvfrom [Reg 2, Ptr 0x20332240, Imm 0x15, Imm 0x40, Imm 0, Imm 0], Count,
    Syscall NR_sendto [Reg 2, Write_buf, Imm 0xb, Imm 0x40, Imm 0, Imm 0], Count,
    Syscall NR_recvfrom [Reg 2, Ptr 0x20332d00, Imm 4, Imm 0x40, Imm 0, Imm 0], Count,
    Syscall NR_recvfrom [Reg 2, Ptr 0x20333080, Imm 0xd1, Imm 0x40, Imm 0, Imm 0], Count]"

definition min_mysql_recvfrom_sendto_20_0_body444 :: "stmt list" where
  "min_mysql_recvfrom_sendto_20_0_body444 = [
    Syscall NR_sendto [Reg 2, Write_buf, Imm 0xd, Imm 0x40, Imm 0, Imm 0], Count,
    Syscall NR_recvfrom [Reg 2, Ptr 0x20333840, Imm 4, Imm 0x40, Imm 0, Imm 0], Count,
    Syscall NR_recvfrom [Reg 2, Ptr 0x20333ac0, Imm 0xb, Imm 0x40, Imm 0, Imm 0], Count,
    Syscall NR_sendto [Reg 2, Write_buf, Imm 0x18, Imm 0x40, Imm 0, Imm 0], Count,
    Syscall NR_recvfrom [Reg 2, Ptr 0x20719680, Imm 4, Imm 0x40, Imm 0, Imm 0], Count,
    Syscall NR_recvfrom [Reg 2, Ptr 0x20719c00, Imm 8, Imm 0x40, Imm 0, Imm 0], Count,
    Syscall NR_sendto [Reg 2, Write_buf, Imm 0x18, Imm 0x40, Imm 0, Imm 0], Count,
    Syscall NR_recvfrom [Reg 2, Ptr 0x2071a700, Imm 4, Imm 0x40, Imm 0, Imm 0], Count,
    Syscall NR_recvfrom [Reg 2, Ptr 0x2071abc0, Imm 0x15, Imm 0x40, Imm 0, Imm 0], Count,
    Syscall NR_sendto [Reg 2, Write_buf, Imm 0xc0, Imm 0x40, Imm 0, Imm 0], Count]"

definition min_mysql_recvfrom_sendto_20_0_body445 :: "stmt list" where
  "min_mysql_recvfrom_sendto_20_0_body445 = [
    Syscall NR_recvfrom [Reg 2, Ptr 0x2071b840, Imm 4, Imm 0x40, Imm 0, Imm 0], Count,
    Syscall NR_recvfrom [Reg 2, Ptr 0x2071bd40, Imm 0x15, Imm 0x40, Imm 0, Imm 0], Count,
    Syscall NR_sendto [Reg 2, Write_buf, Imm 0xc0, Imm 0x40, Imm 0, Imm 0], Count,
    Syscall NR_recvfrom [Reg 2, Ptr 0x2071c900, Imm 4, Imm 0x40, Imm 0, Imm 0], Count,
    Syscall NR_recvfrom [Reg 2, Ptr 0x2071ce80, Imm 0x15, Imm 0x40, Imm 0, Imm 0], Count,
    Syscall NR_sendto [Reg 2, Write_buf, Imm 0xc0, Imm 0x40, Imm 0, Imm 0], Count,
    Syscall NR_recvfrom [Reg 2, Ptr 0x2071da80, Imm 4, Imm 0x40, Imm 0, Imm 0], Count,
    Syscall NR_recvfrom [Reg 2, Ptr 0x2071e000, Imm 0x15, Imm 0x40, Imm 0, Imm 0], Count,
    Syscall NR_sendto [Reg 2, Write_buf, Imm 0xc0, Imm 0x40, Imm 0, Imm 0], Count,
    Syscall NR_recvfrom [Reg 2, Ptr 0x2071ec00, Imm 4, Imm 0x40, Imm 0, Imm 0], Count]"

definition min_mysql_recvfrom_sendto_20_0_body446 :: "stmt list" where
  "min_mysql_recvfrom_sendto_20_0_body446 = [
    Syscall NR_recvfrom [Reg 2, Ptr 0x20722240, Imm 0x15, Imm 0x40, Imm 0, Imm 0], Count,
    Syscall NR_sendto [Reg 2, Write_buf, Imm 0xc0, Imm 0x40, Imm 0, Imm 0], Count,
    Syscall NR_recvfrom [Reg 2, Ptr 0x20726100, Imm 4, Imm 0x40, Imm 0, Imm 0], Count,
    Syscall NR_recvfrom [Reg 2, Ptr 0x207267c0, Imm 0x15, Imm 0x40, Imm 0, Imm 0], Count,
    Syscall NR_sendto [Reg 2, Write_buf, Imm 0xc0, Imm 0x40, Imm 0, Imm 0], Count,
    Syscall NR_recvfrom [Reg 2, Ptr 0x2072a400, Imm 4, Imm 0x40, Imm 0, Imm 0], Count,
    Syscall NR_recvfrom [Reg 2, Ptr 0x2072a900, Imm 0x15, Imm 0x40, Imm 0, Imm 0], Count,
    Syscall NR_sendto [Reg 2, Write_buf, Imm 0xc0, Imm 0x40, Imm 0, Imm 0], Count,
    Syscall NR_recvfrom [Reg 2, Ptr 0x207345c0, Imm 4, Imm 0x40, Imm 0, Imm 0], Count,
    Syscall NR_recvfrom [Reg 2, Ptr 0x20734b00, Imm 0x15, Imm 0x40, Imm 0, Imm 0], Count]"

definition min_mysql_recvfrom_sendto_20_0_body447 :: "stmt list" where
  "min_mysql_recvfrom_sendto_20_0_body447 = [
    Syscall NR_sendto [Reg 2, Write_buf, Imm 0xc0, Imm 0x40, Imm 0, Imm 0], Count,
    Syscall NR_recvfrom [Reg 2, Ptr 0x207417c0, Imm 4, Imm 0x40, Imm 0, Imm 0], Count,
    Syscall NR_recvfrom [Reg 2, Ptr 0x20765c40, Imm 0x15, Imm 0x40, Imm 0, Imm 0], Count,
    Syscall NR_sendto [Reg 2, Write_buf, Imm 0xc0, Imm 0x40, Imm 0, Imm 0], Count,
    Syscall NR_recvfrom [Reg 2, Ptr 0x20781dc0, Imm 4, Imm 0x40, Imm 0, Imm 0], Count,
    Syscall NR_recvfrom [Reg 2, Ptr 0x20787c80, Imm 0x15, Imm 0x40, Imm 0, Imm 0], Count,
    Syscall NR_sendto [Reg 2, Write_buf, Imm 0xc0, Imm 0x40, Imm 0, Imm 0], Count,
    Syscall NR_recvfrom [Reg 2, Ptr 0x207a3e00, Imm 4, Imm 0x40, Imm 0, Imm 0], Count,
    Syscall NR_recvfrom [Reg 2, Ptr 0x207b5880, Imm 0x1d, Imm 0x40, Imm 0, Imm 0], Count,
    Syscall NR_sendto [Reg 2, Write_buf, Imm 0x317a, Imm 0x40, Imm 0, Imm 0], Count]"

definition min_mysql_recvfrom_sendto_20_0_body448 :: "stmt list" where
  "min_mysql_recvfrom_sendto_20_0_body448 = [
    Syscall NR_recvfrom [Reg 2, Ptr 0x207e0400, Imm 4, Imm 0x40, Imm 0, Imm 0], Count,
    Syscall NR_recvfrom [Reg 2, Ptr 0x207f3f80, Imm 0x1d, Imm 0x40, Imm 0, Imm 0], Count,
    Syscall NR_sendto [Reg 2, Write_buf, Imm 0x3c, Imm 0x40, Imm 0, Imm 0], Count,
    Syscall NR_recvfrom [Reg 2, Ptr 0x20814c00, Imm 4, Imm 0x40, Imm 0, Imm 0], Count,
    Syscall NR_recvfrom [Reg 2, Ptr 0x2082d9c0, Imm 0x1d, Imm 0x40, Imm 0, Imm 0], Count,
    Syscall NR_sendto [Reg 2, Write_buf, Imm 0x3178, Imm 0x40, Imm 0, Imm 0], Count,
    Syscall NR_recvfrom [Reg 2, Ptr 0x209ac180, Imm 4, Imm 0x40, Imm 0, Imm 0], Count,
    Syscall NR_recvfrom [Reg 2, Ptr 0x209c6c00, Imm 0x1d, Imm 0x40, Imm 0, Imm 0], Count,
    Syscall NR_sendto [Reg 2, Write_buf, Imm 0x317a, Imm 0x40, Imm 0, Imm 0], Count,
    Syscall NR_recvfrom [Reg 2, Ptr 0x20ac8d40, Imm 4, Imm 0x40, Imm 0, Imm 0], Count]"

definition min_mysql_recvfrom_sendto_20_0_body449 :: "stmt list" where
  "min_mysql_recvfrom_sendto_20_0_body449 = [
    Syscall NR_recvfrom [Reg 2, Ptr 0x20acc400, Imm 0x15, Imm 0x40, Imm 0, Imm 0], Count,
    Syscall NR_sendto [Reg 2, Write_buf, Imm 0x34, Imm 0x40, Imm 0, Imm 0], Count,
    Syscall NR_recvfrom [Reg 2, Ptr 0x20ad8a40, Imm 4, Imm 0x40, Imm 0, Imm 0], Count,
    Syscall NR_recvfrom [Reg 2, Ptr 0x20ad8f40, Imm 0x8d, Imm 0x40, Imm 0, Imm 0], Count,
    Syscall NR_sendto [Reg 2, Write_buf, Imm 0x34, Imm 0x40, Imm 0, Imm 0], Count,
    Syscall NR_recvfrom [Reg 2, Ptr 0x20ae0700, Imm 4, Imm 0x40, Imm 0, Imm 0], Count,
    Syscall NR_recvfrom [Reg 2, Ptr 0x20ae36c0, Imm 0x15, Imm 0x40, Imm 0, Imm 0], Count,
    Syscall NR_sendto [Reg 2, Write_buf, Imm 0xb, Imm 0x40, Imm 0, Imm 0], Count,
    Syscall NR_recvfrom [Reg 2, Ptr 0x20afa040, Imm 4, Imm 0x40, Imm 0, Imm 0], Count,
    Syscall NR_recvfrom [Reg 2, Ptr 0x20b02980, Imm 0xd1, Imm 0x40, Imm 0, Imm 0], Count]"

definition min_mysql_recvfrom_sendto_20_0_body450 :: "stmt list" where
  "min_mysql_recvfrom_sendto_20_0_body450 = [
    Syscall NR_sendto [Reg 2, Write_buf, Imm 0xb, Imm 0x40, Imm 0, Imm 0], Count,
    Syscall NR_recvfrom [Reg 2, Ptr 0x20b1a180, Imm 4, Imm 0x40, Imm 0, Imm 0], Count,
    Syscall NR_recvfrom [Reg 2, Ptr 0x20b26840, Imm 0xb, Imm 0x40, Imm 0, Imm 0], Count,
    Syscall NR_sendto [Reg 2, Write_buf, Imm 0x18, Imm 0x40, Imm 0, Imm 0], Count,
    Syscall NR_recvfrom [Reg 2, Ptr 0x20edf240, Imm 4, Imm 0x40, Imm 0, Imm 0], Count,
    Syscall NR_recvfrom [Reg 2, Ptr 0x20ee1880, Imm 8, Imm 0x40, Imm 0, Imm 0], Count,
    Syscall NR_sendto [Reg 2, Write_buf, Imm 0x18, Imm 0x40, Imm 0, Imm 0], Count,
    Syscall NR_recvfrom [Reg 2, Ptr 0x20ee2240, Imm 4, Imm 0x40, Imm 0, Imm 0], Count,
    Syscall NR_recvfrom [Reg 2, Ptr 0x20ee2700, Imm 0x15, Imm 0x40, Imm 0, Imm 0], Count,
    Syscall NR_sendto [Reg 2, Write_buf, Imm 0xc0, Imm 0x40, Imm 0, Imm 0], Count]"

definition min_mysql_recvfrom_sendto_20_0_body451 :: "stmt list" where
  "min_mysql_recvfrom_sendto_20_0_body451 = [
    Syscall NR_recvfrom [Reg 2, Ptr 0x20ee3c40, Imm 4, Imm 0x40, Imm 0, Imm 0], Count,
    Syscall NR_recvfrom [Reg 2, Ptr 0x20ee4680, Imm 0x15, Imm 0x40, Imm 0, Imm 0], Count,
    Syscall NR_sendto [Reg 2, Write_buf, Imm 0xc0, Imm 0x40, Imm 0, Imm 0], Count,
    Syscall NR_recvfrom [Reg 2, Ptr 0x20ee5780, Imm 4, Imm 0x40, Imm 0, Imm 0], Count,
    Syscall NR_recvfrom [Reg 2, Ptr 0x20ee6000, Imm 0x15, Imm 0x40, Imm 0, Imm 0], Count,
    Syscall NR_sendto [Reg 2, Write_buf, Imm 0xc0, Imm 0x40, Imm 0, Imm 0], Count,
    Syscall NR_recvfrom [Reg 2, Ptr 0x20ee6c40, Imm 4, Imm 0x40, Imm 0, Imm 0], Count,
    Syscall NR_recvfrom [Reg 2, Ptr 0x20ee72c0, Imm 0x15, Imm 0x40, Imm 0, Imm 0], Count,
    Syscall NR_sendto [Reg 2, Write_buf, Imm 0xc0, Imm 0x40, Imm 0, Imm 0], Count,
    Syscall NR_recvfrom [Reg 2, Ptr 0x20ee83c0, Imm 4, Imm 0x40, Imm 0, Imm 0], Count]"

definition min_mysql_recvfrom_sendto_20_0_body452 :: "stmt list" where
  "min_mysql_recvfrom_sendto_20_0_body452 = [
    Syscall NR_recvfrom [Reg 2, Ptr 0x20ee8cc0, Imm 0x15, Imm 0x40, Imm 0, Imm 0], Count,
    Syscall NR_sendto [Reg 2, Write_buf, Imm 0xc0, Imm 0x40, Imm 0, Imm 0], Count,
    Syscall NR_recvfrom [Reg 2, Ptr 0x20ee9bc0, Imm 4, Imm 0x40, Imm 0, Imm 0], Count,
    Syscall NR_recvfrom [Reg 2, Ptr 0x20eea2c0, Imm 0x15, Imm 0x40, Imm 0, Imm 0], Count,
    Syscall NR_sendto [Reg 2, Write_buf, Imm 0xc0, Imm 0x40, Imm 0, Imm 0], Count,
    Syscall NR_recvfrom [Reg 2, Ptr 0x20eeafc0, Imm 4, Imm 0x40, Imm 0, Imm 0], Count,
    Syscall NR_recvfrom [Reg 2, Ptr 0x20eeb8c0, Imm 0x15, Imm 0x40, Imm 0, Imm 0], Count,
    Syscall NR_sendto [Reg 2, Write_buf, Imm 0xc0, Imm 0x40, Imm 0, Imm 0], Count,
    Syscall NR_recvfrom [Reg 2, Ptr 0x20eec9c0, Imm 4, Imm 0x40, Imm 0, Imm 0], Count,
    Syscall NR_recvfrom [Reg 2, Ptr 0x20eed2c0, Imm 0x15, Imm 0x40, Imm 0, Imm 0], Count]"

definition min_mysql_recvfrom_sendto_20_0_body453 :: "stmt list" where
  "min_mysql_recvfrom_sendto_20_0_body453 = [
    Syscall NR_sendto [Reg 2, Write_buf, Imm 0xc0, Imm 0x40, Imm 0, Imm 0], Count,
    Syscall NR_recvfrom [Reg 2, Ptr 0x20eedfc0, Imm 4, Imm 0x40, Imm 0, Imm 0], Count,
    Syscall NR_recvfrom [Reg 2, Ptr 0x20eee6c0, Imm 0x15, Imm 0x40, Imm 0, Imm 0], Count,
    Syscall NR_sendto [Reg 2, Write_buf, Imm 0xc0, Imm 0x40, Imm 0, Imm 0], Count,
    Syscall NR_recvfrom [Reg 2, Ptr 0x20ef2480, Imm 4, Imm 0x40, Imm 0, Imm 0], Count,
    Syscall NR_recvfrom [Reg 2, Ptr 0x20ef2d80, Imm 0x15, Imm 0x40, Imm 0, Imm 0], Count,
    Syscall NR_sendto [Reg 2, Write_buf, Imm 0xc0, Imm 0x40, Imm 0, Imm 0], Count,
    Syscall NR_recvfrom [Reg 2, Ptr 0x20efcbc0, Imm 4, Imm 0x40, Imm 0, Imm 0], Count,
    Syscall NR_recvfrom [Reg 2, Ptr 0x20f03080, Imm 0x1d, Imm 0x40, Imm 0, Imm 0], Count,
    Syscall NR_sendto [Reg 2, Write_buf, Imm 0x3178, Imm 0x40, Imm 0, Imm 0], Count]"

definition min_mysql_recvfrom_sendto_20_0_body454 :: "stmt list" where
  "min_mysql_recvfrom_sendto_20_0_body454 = [
    Syscall NR_recvfrom [Reg 2, Ptr 0x20f09ec0, Imm 4, Imm 0x40, Imm 0, Imm 0], Count,
    Syscall NR_recvfrom [Reg 2, Ptr 0x20f0a480, Imm 0x1d, Imm 0x40, Imm 0, Imm 0], Count,
    Syscall NR_sendto [Reg 2, Write_buf, Imm 0x3c, Imm 0x40, Imm 0, Imm 0], Count,
    Syscall NR_recvfrom [Reg 2, Ptr 0x20f11080, Imm 4, Imm 0x40, Imm 0, Imm 0], Count,
    Syscall NR_recvfrom [Reg 2, Ptr 0x20f1db40, Imm 0x1d, Imm 0x40, Imm 0, Imm 0], Count,
    Syscall NR_sendto [Reg 2, Write_buf, Imm 0x3178, Imm 0x40, Imm 0, Imm 0], Count,
    Syscall NR_recvfrom [Reg 2, Ptr 0x200b5340, Imm 4, Imm 0x40, Imm 0, Imm 0], Count,
    Syscall NR_recvfrom [Reg 2, Ptr 0x200c92c0, Imm 0x1d, Imm 0x40, Imm 0, Imm 0], Count,
    Syscall NR_sendto [Reg 2, Write_buf, Imm 0x317a, Imm 0x40, Imm 0, Imm 0], Count,
    Syscall NR_recvfrom [Reg 2, Ptr 0x20289940, Imm 4, Imm 0x40, Imm 0, Imm 0], Count]"

definition min_mysql_recvfrom_sendto_20_0_body455 :: "stmt list" where
  "min_mysql_recvfrom_sendto_20_0_body455 = [
    Syscall NR_recvfrom [Reg 2, Ptr 0x20297780, Imm 0x15, Imm 0x40, Imm 0, Imm 0], Count,
    Syscall NR_sendto [Reg 2, Write_buf, Imm 0x34, Imm 0x40, Imm 0, Imm 0], Count,
    Syscall NR_recvfrom [Reg 2, Ptr 0x202a52c0, Imm 4, Imm 0x40, Imm 0, Imm 0], Count,
    Syscall NR_recvfrom [Reg 2, Ptr 0x202b08c0, Imm 0x8d, Imm 0x40, Imm 0, Imm 0], Count,
    Syscall NR_sendto [Reg 2, Write_buf, Imm 0x34, Imm 0x40, Imm 0, Imm 0], Count,
    Syscall NR_recvfrom [Reg 2, Ptr 0x202c37c0, Imm 4, Imm 0x40, Imm 0, Imm 0], Count,
    Syscall NR_recvfrom [Reg 2, Ptr 0x202c7740, Imm 0x15, Imm 0x40, Imm 0, Imm 0], Count,
    Syscall NR_sendto [Reg 2, Write_buf, Imm 0xb, Imm 0x40, Imm 0, Imm 0], Count,
    Syscall NR_recvfrom [Reg 2, Ptr 0x202d4540, Imm 4, Imm 0x40, Imm 0, Imm 0], Count,
    Syscall NR_recvfrom [Reg 2, Ptr 0x202d8980, Imm 0xd1, Imm 0x40, Imm 0, Imm 0], Count]"

definition min_mysql_recvfrom_sendto_20_0_body456 :: "stmt list" where
  "min_mysql_recvfrom_sendto_20_0_body456 = [
    Syscall NR_sendto [Reg 2, Write_buf, Imm 0xd, Imm 0x40, Imm 0, Imm 0], Count,
    Syscall NR_recvfrom [Reg 2, Ptr 0x202dc2c0, Imm 4, Imm 0x40, Imm 0, Imm 0], Count,
    Syscall NR_recvfrom [Reg 2, Ptr 0x202de780, Imm 0xb, Imm 0x40, Imm 0, Imm 0], Count,
    Syscall NR_sendto [Reg 2, Write_buf, Imm 0x18, Imm 0x40, Imm 0, Imm 0], Count,
    Syscall NR_recvfrom [Reg 2, Ptr 0x20695980, Imm 4, Imm 0x40, Imm 0, Imm 0], Count,
    Syscall NR_recvfrom [Reg 2, Ptr 0x20695a40, Imm 8, Imm 0x40, Imm 0, Imm 0], Count,
    Syscall NR_sendto [Reg 2, Write_buf, Imm 0x18, Imm 0x40, Imm 0, Imm 0], Count,
    Syscall NR_recvfrom [Reg 2, Ptr 0x20695cc0, Imm 4, Imm 0x40, Imm 0, Imm 0], Count,
    Syscall NR_recvfrom [Reg 2, Ptr 0x20695e40, Imm 0x15, Imm 0x40, Imm 0, Imm 0], Count,
    Syscall NR_sendto [Reg 2, Write_buf, Imm 0xc0, Imm 0x40, Imm 0, Imm 0], Count]"

definition min_mysql_recvfrom_sendto_20_0_body457 :: "stmt list" where
  "min_mysql_recvfrom_sendto_20_0_body457 = [
    Syscall NR_recvfrom [Reg 2, Ptr 0x20696540, Imm 4, Imm 0x40, Imm 0, Imm 0], Count,
    Syscall NR_recvfrom [Reg 2, Ptr 0x20696940, Imm 0x15, Imm 0x40, Imm 0, Imm 0], Count,
    Syscall NR_sendto [Reg 2, Write_buf, Imm 0xc0, Imm 0x40, Imm 0, Imm 0], Count,
    Syscall NR_recvfrom [Reg 2, Ptr 0x20697200, Imm 4, Imm 0x40, Imm 0, Imm 0], Count,
    Syscall NR_recvfrom [Reg 2, Ptr 0x20697640, Imm 0x15, Imm 0x40, Imm 0, Imm 0], Count,
    Syscall NR_sendto [Reg 2, Write_buf, Imm 0xc0, Imm 0x40, Imm 0, Imm 0], Count,
    Syscall NR_recvfrom [Reg 2, Ptr 0x20698280, Imm 4, Imm 0x40, Imm 0, Imm 0], Count,
    Syscall NR_recvfrom [Reg 2, Ptr 0x206988c0, Imm 0x15, Imm 0x40, Imm 0, Imm 0], Count,
    Syscall NR_sendto [Reg 2, Write_buf, Imm 0xc0, Imm 0x40, Imm 0, Imm 0], Count,
    Syscall NR_recvfrom [Reg 2, Ptr 0x20699680, Imm 4, Imm 0x40, Imm 0, Imm 0], Count]"

definition min_mysql_recvfrom_sendto_20_0_body458 :: "stmt list" where
  "min_mysql_recvfrom_sendto_20_0_body458 = [
    Syscall NR_recvfrom [Reg 2, Ptr 0x20699d00, Imm 0x15, Imm 0x40, Imm 0, Imm 0], Count,
    Syscall NR_sendto [Reg 2, Write_buf, Imm 0xc0, Imm 0x40, Imm 0, Imm 0], Count,
    Syscall NR_recvfrom [Reg 2, Ptr 0x2069ac00, Imm 4, Imm 0x40, Imm 0, Imm 0], Count,
    Syscall NR_recvfrom [Reg 2, Ptr 0x2069b300, Imm 0x15, Imm 0x40, Imm 0, Imm 0], Count,
    Syscall NR_sendto [Reg 2, Write_buf, Imm 0xc0, Imm 0x40, Imm 0, Imm 0], Count,
    Syscall NR_recvfrom [Reg 2, Ptr 0x2069c300, Imm 4, Imm 0x40, Imm 0, Imm 0], Count,
    Syscall NR_recvfrom [Reg 2, Ptr 0x2069c980, Imm 0x15, Imm 0x40, Imm 0, Imm 0], Count,
    Syscall NR_sendto [Reg 2, Write_buf, Imm 0xc0, Imm 0x40, Imm 0, Imm 0], Count,
    Syscall NR_recvfrom [Reg 2, Ptr 0x2069da80, Imm 4, Imm 0x40, Imm 0, Imm 0], Count,
    Syscall NR_recvfrom [Reg 2, Ptr 0x2069e140, Imm 0x15, Imm 0x40, Imm 0, Imm 0], Count]"

definition min_mysql_recvfrom_sendto_20_0_body459 :: "stmt list" where
  "min_mysql_recvfrom_sendto_20_0_body459 = [
    Syscall NR_sendto [Reg 2, Write_buf, Imm 0xc0, Imm 0x40, Imm 0, Imm 0], Count,
    Syscall NR_recvfrom [Reg 2, Ptr 0x2069f200, Imm 4, Imm 0x40, Imm 0, Imm 0], Count,
    Syscall NR_recvfrom [Reg 2, Ptr 0x2069f8c0, Imm 0x15, Imm 0x40, Imm 0, Imm 0], Count,
    Syscall NR_sendto [Reg 2, Write_buf, Imm 0xc0, Imm 0x40, Imm 0, Imm 0], Count,
    Syscall NR_recvfrom [Reg 2, Ptr 0x206a09c0, Imm 4, Imm 0x40, Imm 0, Imm 0], Count,
    Syscall NR_recvfrom [Reg 2, Ptr 0x206a1080, Imm 0x15, Imm 0x40, Imm 0, Imm 0], Count,
    Syscall NR_sendto [Reg 2, Write_buf, Imm 0xc0, Imm 0x40, Imm 0, Imm 0], Count,
    Syscall NR_recvfrom [Reg 2, Ptr 0x206a2080, Imm 4, Imm 0x40, Imm 0, Imm 0], Count,
    Syscall NR_recvfrom [Reg 2, Ptr 0x206a27c0, Imm 0x1d, Imm 0x40, Imm 0, Imm 0], Count,
    Syscall NR_sendto [Reg 2, Write_buf, Imm 0x317a, Imm 0x40, Imm 0, Imm 0], Count]"

definition min_mysql_recvfrom_sendto_20_0_body460 :: "stmt list" where
  "min_mysql_recvfrom_sendto_20_0_body460 = [
    Syscall NR_recvfrom [Reg 2, Ptr 0x206ace00, Imm 4, Imm 0x40, Imm 0, Imm 0], Count,
    Syscall NR_recvfrom [Reg 2, Ptr 0x206ad540, Imm 0x1d, Imm 0x40, Imm 0, Imm 0], Count,
    Syscall NR_sendto [Reg 2, Write_buf, Imm 0x3c, Imm 0x40, Imm 0, Imm 0], Count,
    Syscall NR_recvfrom [Reg 2, Ptr 0x206b4e80, Imm 4, Imm 0x40, Imm 0, Imm 0], Count,
    Syscall NR_recvfrom [Reg 2, Ptr 0x206be740, Imm 0x1d, Imm 0x40, Imm 0, Imm 0], Count,
    Syscall NR_sendto [Reg 2, Write_buf, Imm 0x317a, Imm 0x40, Imm 0, Imm 0], Count,
    Syscall NR_recvfrom [Reg 2, Ptr 0x20838140, Imm 4, Imm 0x40, Imm 0, Imm 0], Count,
    Syscall NR_recvfrom [Reg 2, Ptr 0x2084ed00, Imm 0x1d, Imm 0x40, Imm 0, Imm 0], Count,
    Syscall NR_sendto [Reg 2, Write_buf, Imm 0x317a, Imm 0x40, Imm 0, Imm 0], Count,
    Syscall NR_recvfrom [Reg 2, Ptr 0x20a5bf00, Imm 4, Imm 0x40, Imm 0, Imm 0], Count]"

definition min_mysql_recvfrom_sendto_20_0_body461 :: "stmt list" where
  "min_mysql_recvfrom_sendto_20_0_body461 = [
    Syscall NR_recvfrom [Reg 2, Ptr 0x20a790c0, Imm 0x18, Imm 0x40, Imm 0, Imm 0], Count,
    Syscall NR_sendto [Reg 2, Write_buf, Imm 0x34, Imm 0x40, Imm 0, Imm 0], Count,
    Syscall NR_recvfrom [Reg 2, Ptr 0x20aa0b00, Imm 4, Imm 0x40, Imm 0, Imm 0], Count,
    Syscall NR_recvfrom [Reg 2, Ptr 0x20aba880, Imm 0x8d, Imm 0x40, Imm 0, Imm 0], Count,
    Syscall NR_sendto [Reg 2, Write_buf, Imm 0x34, Imm 0x40, Imm 0, Imm 0], Count,
    Syscall NR_recvfrom [Reg 2, Ptr 0x20ad7400, Imm 4, Imm 0x40, Imm 0, Imm 0], Count,
    Syscall NR_recvfrom [Reg 2, Ptr 0x20ae3600, Imm 0x15, Imm 0x40, Imm 0, Imm 0], Count,
    Syscall NR_sendto [Reg 2, Write_buf, Imm 0xb, Imm 0x40, Imm 0, Imm 0], Count,
    Syscall NR_recvfrom [Reg 2, Ptr 0x20aeb080, Imm 4, Imm 0x40, Imm 0, Imm 0], Count,
    Syscall NR_recvfrom [Reg 2, Ptr 0x20aec040, Imm 0xd1, Imm 0x40, Imm 0, Imm 0], Count]"

definition min_mysql_recvfrom_sendto_20_0_body462 :: "stmt list" where
  "min_mysql_recvfrom_sendto_20_0_body462 = [
    Syscall NR_sendto [Reg 2, Write_buf, Imm 0xb, Imm 0x40, Imm 0, Imm 0], Count,
    Syscall NR_recvfrom [Reg 2, Ptr 0x20af40c0, Imm 4, Imm 0x40, Imm 0, Imm 0], Count,
    Syscall NR_recvfrom [Reg 2, Ptr 0x20afdc80, Imm 0xb, Imm 0x40, Imm 0, Imm 0], Count,
    Syscall NR_sendto [Reg 2, Write_buf, Imm 0x18, Imm 0x40, Imm 0, Imm 0], Count,
    Syscall NR_recvfrom [Reg 2, Ptr 0x20dab7c0, Imm 4, Imm 0x40, Imm 0, Imm 0], Count,
    Syscall NR_recvfrom [Reg 2, Ptr 0x20dab880, Imm 8, Imm 0x40, Imm 0, Imm 0], Count,
    Syscall NR_sendto [Reg 2, Write_buf, Imm 0x18, Imm 0x40, Imm 0, Imm 0], Count,
    Syscall NR_recvfrom [Reg 2, Ptr 0x20dabc80, Imm 4, Imm 0x40, Imm 0, Imm 0], Count,
    Syscall NR_recvfrom [Reg 2, Ptr 0x20dabf40, Imm 0x15, Imm 0x40, Imm 0, Imm 0], Count,
    Syscall NR_sendto [Reg 2, Write_buf, Imm 0xbe, Imm 0x40, Imm 0, Imm 0], Count]"

definition min_mysql_recvfrom_sendto_20_0_body463 :: "stmt list" where
  "min_mysql_recvfrom_sendto_20_0_body463 = [
    Syscall NR_recvfrom [Reg 2, Ptr 0x20dac680, Imm 4, Imm 0x40, Imm 0, Imm 0], Count,
    Syscall NR_recvfrom [Reg 2, Ptr 0x20dacb00, Imm 0x15, Imm 0x40, Imm 0, Imm 0], Count,
    Syscall NR_sendto [Reg 2, Write_buf, Imm 0xbe, Imm 0x40, Imm 0, Imm 0], Count,
    Syscall NR_recvfrom [Reg 2, Ptr 0x20dad300, Imm 4, Imm 0x40, Imm 0, Imm 0], Count,
    Syscall NR_recvfrom [Reg 2, Ptr 0x20dad8c0, Imm 0x15, Imm 0x40, Imm 0, Imm 0], Count,
    Syscall NR_sendto [Reg 2, Write_buf, Imm 0xbe, Imm 0x40, Imm 0, Imm 0], Count,
    Syscall NR_recvfrom [Reg 2, Ptr 0x20dae300, Imm 4, Imm 0x40, Imm 0, Imm 0], Count,
    Syscall NR_recvfrom [Reg 2, Ptr 0x20dae8c0, Imm 0x15, Imm 0x40, Imm 0, Imm 0], Count,
    Syscall NR_sendto [Reg 2, Write_buf, Imm 0xbe, Imm 0x40, Imm 0, Imm 0], Count,
    Syscall NR_recvfrom [Reg 2, Ptr 0x20035e00, Imm 4, Imm 0x40, Imm 0, Imm 0], Count]"

definition min_mysql_recvfrom_sendto_20_0_body464 :: "stmt list" where
  "min_mysql_recvfrom_sendto_20_0_body464 = [
    Syscall NR_recvfrom [Reg 2, Ptr 0x2003bb00, Imm 0x15, Imm 0x40, Imm 0, Imm 0], Count,
    Syscall NR_sendto [Reg 2, Write_buf, Imm 0xbe, Imm 0x40, Imm 0, Imm 0], Count,
    Syscall NR_recvfrom [Reg 2, Ptr 0x20051500, Imm 4, Imm 0x40, Imm 0, Imm 0], Count,
    Syscall NR_recvfrom [Reg 2, Ptr 0x2005b380, Imm 0x15, Imm 0x40, Imm 0, Imm 0], Count,
    Syscall NR_sendto [Reg 2, Write_buf, Imm 0xbe, Imm 0x40, Imm 0, Imm 0], Count,
    Syscall NR_recvfrom [Reg 2, Ptr 0x20070180, Imm 4, Imm 0x40, Imm 0, Imm 0], Count,
    Syscall NR_recvfrom [Reg 2, Ptr 0x20076ec0, Imm 0x15, Imm 0x40, Imm 0, Imm 0], Count,
    Syscall NR_sendto [Reg 2, Write_buf, Imm 0xbe, Imm 0x40, Imm 0, Imm 0], Count,
    Syscall NR_recvfrom [Reg 2, Ptr 0x20086f00, Imm 4, Imm 0x40, Imm 0, Imm 0], Count,
    Syscall NR_recvfrom [Reg 2, Ptr 0x2008db40, Imm 0x15, Imm 0x40, Imm 0, Imm 0], Count]"

definition min_mysql_recvfrom_sendto_20_0_body465 :: "stmt list" where
  "min_mysql_recvfrom_sendto_20_0_body465 = [
    Syscall NR_sendto [Reg 2, Write_buf, Imm 0xbe, Imm 0x40, Imm 0, Imm 0], Count,
    Syscall NR_recvfrom [Reg 2, Ptr 0x20095880, Imm 4, Imm 0x40, Imm 0, Imm 0], Count,
    Syscall NR_recvfrom [Reg 2, Ptr 0x20096180, Imm 0x15, Imm 0x40, Imm 0, Imm 0], Count,
    Syscall NR_sendto [Reg 2, Write_buf, Imm 0xbe, Imm 0x40, Imm 0, Imm 0], Count,
    Syscall NR_recvfrom [Reg 2, Ptr 0x2009b200, Imm 4, Imm 0x40, Imm 0, Imm 0], Count,
    Syscall NR_recvfrom [Reg 2, Ptr 0x2009b9c0, Imm 0x15, Imm 0x40, Imm 0, Imm 0], Count,
    Syscall NR_sendto [Reg 2, Write_buf, Imm 0xbe, Imm 0x40, Imm 0, Imm 0], Count,
    Syscall NR_recvfrom [Reg 2, Ptr 0x200a0a80, Imm 4, Imm 0x40, Imm 0, Imm 0], Count,
    Syscall NR_recvfrom [Reg 2, Ptr 0x200a4340, Imm 0x1d, Imm 0x40, Imm 0, Imm 0], Count,
    Syscall NR_sendto [Reg 2, Write_buf, Imm 0x317a, Imm 0x40, Imm 0, Imm 0], Count]"

definition min_mysql_recvfrom_sendto_20_0_body466 :: "stmt list" where
  "min_mysql_recvfrom_sendto_20_0_body466 = [
    Syscall NR_recvfrom [Reg 2, Ptr 0x200b8d00, Imm 4, Imm 0x40, Imm 0, Imm 0], Count,
    Syscall NR_recvfrom [Reg 2, Ptr 0x200bd540, Imm 0x1d, Imm 0x40, Imm 0, Imm 0], Count,
    Syscall NR_sendto [Reg 2, Write_buf, Imm 0x3c, Imm 0x40, Imm 0, Imm 0], Count,
    Syscall NR_recvfrom [Reg 2, Ptr 0x200c02c0, Imm 4, Imm 0x40, Imm 0, Imm 0], Count,
    Syscall NR_recvfrom [Reg 2, Ptr 0x200c0c40, Imm 0x1d, Imm 0x40, Imm 0, Imm 0], Count,
    Syscall NR_sendto [Reg 2, Write_buf, Imm 0x317a, Imm 0x40, Imm 0, Imm 0], Count,
    Syscall NR_recvfrom [Reg 2, Ptr 0x202269c0, Imm 4, Imm 0x40, Imm 0, Imm 0], Count,
    Syscall NR_recvfrom [Reg 2, Ptr 0x20237180, Imm 0x1d, Imm 0x40, Imm 0, Imm 0], Count,
    Syscall NR_sendto [Reg 2, Write_buf, Imm 0x317a, Imm 0x40, Imm 0, Imm 0], Count,
    Syscall NR_recvfrom [Reg 2, Ptr 0x203b62c0, Imm 4, Imm 0x40, Imm 0, Imm 0], Count]"

definition min_mysql_recvfrom_sendto_20_0_body467 :: "stmt list" where
  "min_mysql_recvfrom_sendto_20_0_body467 = [
    Syscall NR_recvfrom [Reg 2, Ptr 0x203d4780, Imm 0x15, Imm 0x40, Imm 0, Imm 0], Count,
    Syscall NR_sendto [Reg 2, Write_buf, Imm 0x34, Imm 0x40, Imm 0, Imm 0], Count,
    Syscall NR_recvfrom [Reg 2, Ptr 0x203eb380, Imm 4, Imm 0x40, Imm 0, Imm 0], Count,
    Syscall NR_recvfrom [Reg 2, Ptr 0x204049c0, Imm 0x8d, Imm 0x40, Imm 0, Imm 0], Count,
    Syscall NR_sendto [Reg 2, Write_buf, Imm 0x34, Imm 0x40, Imm 0, Imm 0], Count,
    Syscall NR_recvfrom [Reg 2, Ptr 0x2041ea80, Imm 4, Imm 0x40, Imm 0, Imm 0], Count,
    Syscall NR_recvfrom [Reg 2, Ptr 0x204394c0, Imm 0x15, Imm 0x40, Imm 0, Imm 0], Count,
    Syscall NR_sendto [Reg 2, Write_buf, Imm 0xb, Imm 0x40, Imm 0, Imm 0], Count,
    Syscall NR_recvfrom [Reg 2, Ptr 0x204582c0, Imm 4, Imm 0x40, Imm 0, Imm 0], Count,
    Syscall NR_recvfrom [Reg 2, Ptr 0x20461880, Imm 0xd1, Imm 0x40, Imm 0, Imm 0], Count]"

definition min_mysql_recvfrom_sendto_20_0_body468 :: "stmt list" where
  "min_mysql_recvfrom_sendto_20_0_body468 = [
    Syscall NR_sendto [Reg 2, Write_buf, Imm 0xb, Imm 0x40, Imm 0, Imm 0], Count,
    Syscall NR_recvfrom [Reg 2, Ptr 0x204999c0, Imm 4, Imm 0x40, Imm 0, Imm 0], Count,
    Syscall NR_recvfrom [Reg 2, Ptr 0x204a6240, Imm 0xb, Imm 0x40, Imm 0, Imm 0], Count,
    Syscall NR_sendto [Reg 2, Write_buf, Imm 0x18, Imm 0x40, Imm 0, Imm 0], Count,
    Syscall NR_recvfrom [Reg 2, Ptr 0x204e3800, Imm 4, Imm 0x40, Imm 0, Imm 0], Count,
    Syscall NR_recvfrom [Reg 2, Ptr 0x204e3ec0, Imm 8, Imm 0x40, Imm 0, Imm 0], Count,
    Syscall NR_sendto [Reg 2, Write_buf, Imm 0x18, Imm 0x40, Imm 0, Imm 0], Count,
    Syscall NR_recvfrom [Reg 2, Ptr 0x204e4b40, Imm 4, Imm 0x40, Imm 0, Imm 0], Count,
    Syscall NR_recvfrom [Reg 2, Ptr 0x204e5280, Imm 0x15, Imm 0x40, Imm 0, Imm 0], Count,
    Syscall NR_sendto [Reg 2, Write_buf, Imm 0xbe, Imm 0x40, Imm 0, Imm 0], Count]"

definition min_mysql_recvfrom_sendto_20_0_body469 :: "stmt list" where
  "min_mysql_recvfrom_sendto_20_0_body469 = [
    Syscall NR_recvfrom [Reg 2, Ptr 0x204e6300, Imm 4, Imm 0x40, Imm 0, Imm 0], Count,
    Syscall NR_recvfrom [Reg 2, Ptr 0x204e6d40, Imm 0x15, Imm 0x40, Imm 0, Imm 0], Count,
    Syscall NR_sendto [Reg 2, Write_buf, Imm 0xbe, Imm 0x40, Imm 0, Imm 0], Count,
    Syscall NR_recvfrom [Reg 2, Ptr 0x204e81c0, Imm 4, Imm 0x40, Imm 0, Imm 0], Count,
    Syscall NR_recvfrom [Reg 2, Ptr 0x204e8d40, Imm 0x15, Imm 0x40, Imm 0, Imm 0], Count,
    Syscall NR_sendto [Reg 2, Write_buf, Imm 0xbe, Imm 0x40, Imm 0, Imm 0], Count,
    Syscall NR_recvfrom [Reg 2, Ptr 0x204ea600, Imm 4, Imm 0x40, Imm 0, Imm 0], Count,
    Syscall NR_recvfrom [Reg 2, Ptr 0x204eb280, Imm 0x15, Imm 0x40, Imm 0, Imm 0], Count,
    Syscall NR_sendto [Reg 2, Write_buf, Imm 0xbe, Imm 0x40, Imm 0, Imm 0], Count,
    Syscall NR_recvfrom [Reg 2, Ptr 0x204ecd00, Imm 4, Imm 0x40, Imm 0, Imm 0], Count]"

definition min_mysql_recvfrom_sendto_20_0_body470 :: "stmt list" where
  "min_mysql_recvfrom_sendto_20_0_body470 = [
    Syscall NR_recvfrom [Reg 2, Ptr 0x204ed980, Imm 0x15, Imm 0x40, Imm 0, Imm 0], Count,
    Syscall NR_sendto [Reg 2, Write_buf, Imm 0xbe, Imm 0x40, Imm 0, Imm 0], Count,
    Syscall NR_recvfrom [Reg 2, Ptr 0x204ef500, Imm 4, Imm 0x40, Imm 0, Imm 0], Count,
    Syscall NR_recvfrom [Reg 2, Ptr 0x204f0180, Imm 0x15, Imm 0x40, Imm 0, Imm 0], Count,
    Syscall NR_sendto [Reg 2, Write_buf, Imm 0xbe, Imm 0x40, Imm 0, Imm 0], Count,
    Syscall NR_recvfrom [Reg 2, Ptr 0x204f4dc0, Imm 4, Imm 0x40, Imm 0, Imm 0], Count,
    Syscall NR_recvfrom [Reg 2, Ptr 0x204f8b00, Imm 0x15, Imm 0x40, Imm 0, Imm 0], Count,
    Syscall NR_sendto [Reg 2, Write_buf, Imm 0xbe, Imm 0x40, Imm 0, Imm 0], Count,
    Syscall NR_recvfrom [Reg 2, Ptr 0x20500740, Imm 4, Imm 0x40, Imm 0, Imm 0], Count,
    Syscall NR_recvfrom [Reg 2, Ptr 0x20501340, Imm 0x15, Imm 0x40, Imm 0, Imm 0], Count]"

definition min_mysql_recvfrom_sendto_20_0_body471 :: "stmt list" where
  "min_mysql_recvfrom_sendto_20_0_body471 = [
    Syscall NR_sendto [Reg 2, Write_buf, Imm 0xbe, Imm 0x40, Imm 0, Imm 0], Count,
    Syscall NR_recvfrom [Reg 2, Ptr 0x20505dc0, Imm 4, Imm 0x40, Imm 0, Imm 0], Count,
    Syscall NR_recvfrom [Reg 2, Ptr 0x2050ca80, Imm 0x15, Imm 0x40, Imm 0, Imm 0], Count,
    Syscall NR_sendto [Reg 2, Write_buf, Imm 0xbe, Imm 0x40, Imm 0, Imm 0], Count,
    Syscall NR_recvfrom [Reg 2, Ptr 0x20517780, Imm 4, Imm 0x40, Imm 0, Imm 0], Count,
    Syscall NR_recvfrom [Reg 2, Ptr 0x2051b300, Imm 0x15, Imm 0x40, Imm 0, Imm 0], Count,
    Syscall NR_sendto [Reg 2, Write_buf, Imm 0xbe, Imm 0x40, Imm 0, Imm 0], Count,
    Syscall NR_recvfrom [Reg 2, Ptr 0x2055a100, Imm 4, Imm 0x40, Imm 0, Imm 0], Count,
    Syscall NR_recvfrom [Reg 2, Ptr 0x20566400, Imm 0x1d, Imm 0x40, Imm 0, Imm 0], Count,
    Syscall NR_sendto [Reg 2, Write_buf, Imm 0x3178, Imm 0x40, Imm 0, Imm 0], Count]"

definition min_mysql_recvfrom_sendto_20_0_body472 :: "stmt list" where
  "min_mysql_recvfrom_sendto_20_0_body472 = [
    Syscall NR_recvfrom [Reg 2, Ptr 0x20597040, Imm 4, Imm 0x40, Imm 0, Imm 0], Count,
    Syscall NR_recvfrom [Reg 2, Ptr 0x205a1b00, Imm 0x1d, Imm 0x40, Imm 0, Imm 0], Count,
    Syscall NR_sendto [Reg 2, Write_buf, Imm 0x3c, Imm 0x40, Imm 0, Imm 0], Count,
    Syscall NR_recvfrom [Reg 2, Ptr 0x205d8700, Imm 4, Imm 0x40, Imm 0, Imm 0], Count,
    Syscall NR_recvfrom [Reg 2, Ptr 0x205f2e80, Imm 0x1d, Imm 0x40, Imm 0, Imm 0], Count,
    Syscall NR_sendto [Reg 2, Write_buf, Imm 0x317a, Imm 0x40, Imm 0, Imm 0], Count,
    Syscall NR_recvfrom [Reg 2, Ptr 0x20935c00, Imm 4, Imm 0x40, Imm 0, Imm 0], Count,
    Syscall NR_recvfrom [Reg 2, Ptr 0x2095c180, Imm 0x1d, Imm 0x40, Imm 0, Imm 0], Count,
    Syscall NR_sendto [Reg 2, Write_buf, Imm 0x317a, Imm 0x40, Imm 0, Imm 0], Count,
    Syscall NR_recvfrom [Reg 2, Ptr 0x20c10c00, Imm 4, Imm 0x40, Imm 0, Imm 0], Count]"

definition min_mysql_recvfrom_sendto_20_0_body473 :: "stmt list" where
  "min_mysql_recvfrom_sendto_20_0_body473 = [
    Syscall NR_recvfrom [Reg 2, Ptr 0x20c19c00, Imm 0x15, Imm 0x40, Imm 0, Imm 0], Count,
    Syscall NR_sendto [Reg 2, Write_buf, Imm 0x34, Imm 0x40, Imm 0, Imm 0], Count,
    Syscall NR_recvfrom [Reg 2, Ptr 0x20c40700, Imm 4, Imm 0x40, Imm 0, Imm 0], Count,
    Syscall NR_recvfrom [Reg 2, Ptr 0x20c59f40, Imm 0x8d, Imm 0x40, Imm 0, Imm 0], Count,
    Syscall NR_sendto [Reg 2, Write_buf, Imm 0x34, Imm 0x40, Imm 0, Imm 0], Count,
    Syscall NR_recvfrom [Reg 2, Ptr 0x20c73580, Imm 4, Imm 0x40, Imm 0, Imm 0], Count,
    Syscall NR_recvfrom [Reg 2, Ptr 0x20c7ef00, Imm 0x15, Imm 0x40, Imm 0, Imm 0], Count,
    Syscall NR_sendto [Reg 2, Write_buf, Imm 0xb, Imm 0x40, Imm 0, Imm 0], Count,
    Syscall NR_recvfrom [Reg 2, Ptr 0x20c8efc0, Imm 4, Imm 0x40, Imm 0, Imm 0], Count,
    Syscall NR_recvfrom [Reg 2, Ptr 0x20c93180, Imm 0xd1, Imm 0x40, Imm 0, Imm 0], Count]"

definition min_mysql_recvfrom_sendto_20_0_body474 :: "stmt list" where
  "min_mysql_recvfrom_sendto_20_0_body474 = [
    Syscall NR_sendto [Reg 2, Write_buf, Imm 0xd, Imm 0x40, Imm 0, Imm 0], Count,
    Syscall NR_recvfrom [Reg 2, Ptr 0x20c99f00, Imm 4, Imm 0x40, Imm 0, Imm 0], Count,
    Syscall NR_recvfrom [Reg 2, Ptr 0x20c9c4c0, Imm 0xb, Imm 0x40, Imm 0, Imm 0], Count,
    Syscall NR_sendto [Reg 2, Write_buf, Imm 0x18, Imm 0x40, Imm 0, Imm 0], Count,
    Syscall NR_recvfrom [Reg 2, Ptr 0x20da52c0, Imm 4, Imm 0x40, Imm 0, Imm 0], Count,
    Syscall NR_recvfrom [Reg 2, Ptr 0x20da5540, Imm 8, Imm 0x40, Imm 0, Imm 0], Count,
    Syscall NR_sendto [Reg 2, Write_buf, Imm 0x18, Imm 0x40, Imm 0, Imm 0], Count,
    Syscall NR_recvfrom [Reg 2, Ptr 0x20da5b00, Imm 4, Imm 0x40, Imm 0, Imm 0], Count,
    Syscall NR_recvfrom [Reg 2, Ptr 0x20da5e80, Imm 0x15, Imm 0x40, Imm 0, Imm 0], Count,
    Syscall NR_sendto [Reg 2, Write_buf, Imm 0xc0, Imm 0x40, Imm 0, Imm 0], Count]"

definition min_mysql_recvfrom_sendto_20_0_body475 :: "stmt list" where
  "min_mysql_recvfrom_sendto_20_0_body475 = [
    Syscall NR_recvfrom [Reg 2, Ptr 0x20da6b80, Imm 4, Imm 0x40, Imm 0, Imm 0], Count,
    Syscall NR_recvfrom [Reg 2, Ptr 0x20da72c0, Imm 0x15, Imm 0x40, Imm 0, Imm 0], Count,
    Syscall NR_sendto [Reg 2, Write_buf, Imm 0xc0, Imm 0x40, Imm 0, Imm 0], Count,
    Syscall NR_recvfrom [Reg 2, Ptr 0x20da8340, Imm 4, Imm 0x40, Imm 0, Imm 0], Count,
    Syscall NR_recvfrom [Reg 2, Ptr 0x20da8d80, Imm 0x15, Imm 0x40, Imm 0, Imm 0], Count,
    Syscall NR_sendto [Reg 2, Write_buf, Imm 0xc0, Imm 0x40, Imm 0, Imm 0], Count,
    Syscall NR_recvfrom [Reg 2, Ptr 0x20daa280, Imm 4, Imm 0x40, Imm 0, Imm 0], Count,
    Syscall NR_recvfrom [Reg 2, Ptr 0x20daabc0, Imm 0x15, Imm 0x40, Imm 0, Imm 0], Count,
    Syscall NR_sendto [Reg 2, Write_buf, Imm 0xc0, Imm 0x40, Imm 0, Imm 0], Count,
    Syscall NR_recvfrom [Reg 2, Ptr 0x20dac1c0, Imm 4, Imm 0x40, Imm 0, Imm 0], Count]"

definition min_mysql_recvfrom_sendto_20_0_body476 :: "stmt list" where
  "min_mysql_recvfrom_sendto_20_0_body476 = [
    Syscall NR_recvfrom [Reg 2, Ptr 0x20daca40, Imm 0x15, Imm 0x40, Imm 0, Imm 0], Count,
    Syscall NR_sendto [Reg 2, Write_buf, Imm 0xc0, Imm 0x40, Imm 0, Imm 0], Count,
    Syscall NR_recvfrom [Reg 2, Ptr 0x20dae0c0, Imm 4, Imm 0x40, Imm 0, Imm 0], Count,
    Syscall NR_recvfrom [Reg 2, Ptr 0x20dae980, Imm 0x15, Imm 0x40, Imm 0, Imm 0], Count,
    Syscall NR_sendto [Reg 2, Write_buf, Imm 0xc0, Imm 0x40, Imm 0, Imm 0], Count,
    Syscall NR_recvfrom [Reg 2, Ptr 0x20db0080, Imm 4, Imm 0x40, Imm 0, Imm 0], Count,
    Syscall NR_recvfrom [Reg 2, Ptr 0x20db0940, Imm 0x15, Imm 0x40, Imm 0, Imm 0], Count,
    Syscall NR_sendto [Reg 2, Write_buf, Imm 0xc0, Imm 0x40, Imm 0, Imm 0], Count,
    Syscall NR_recvfrom [Reg 2, Ptr 0x20db1fc0, Imm 4, Imm 0x40, Imm 0, Imm 0], Count,
    Syscall NR_recvfrom [Reg 2, Ptr 0x20db2880, Imm 0x15, Imm 0x40, Imm 0, Imm 0], Count]"

definition min_mysql_recvfrom_sendto_20_0_body477 :: "stmt list" where
  "min_mysql_recvfrom_sendto_20_0_body477 = [
    Syscall NR_sendto [Reg 2, Write_buf, Imm 0xc0, Imm 0x40, Imm 0, Imm 0], Count,
    Syscall NR_recvfrom [Reg 2, Ptr 0x20db3f00, Imm 4, Imm 0x40, Imm 0, Imm 0], Count,
    Syscall NR_recvfrom [Reg 2, Ptr 0x20db47c0, Imm 0x15, Imm 0x40, Imm 0, Imm 0], Count,
    Syscall NR_sendto [Reg 2, Write_buf, Imm 0xc0, Imm 0x40, Imm 0, Imm 0], Count,
    Syscall NR_recvfrom [Reg 2, Ptr 0x20db5e40, Imm 4, Imm 0x40, Imm 0, Imm 0], Count,
    Syscall NR_recvfrom [Reg 2, Ptr 0x20db6780, Imm 0x15, Imm 0x40, Imm 0, Imm 0], Count,
    Syscall NR_sendto [Reg 2, Write_buf, Imm 0xc0, Imm 0x40, Imm 0, Imm 0], Count,
    Syscall NR_recvfrom [Reg 2, Ptr 0x20dbaec0, Imm 4, Imm 0x40, Imm 0, Imm 0], Count,
    Syscall NR_recvfrom [Reg 2, Ptr 0x20dbe840, Imm 0x1d, Imm 0x40, Imm 0, Imm 0], Count,
    Syscall NR_sendto [Reg 2, Write_buf, Imm 0x317a, Imm 0x40, Imm 0, Imm 0], Count]"

definition min_mysql_recvfrom_sendto_20_0_body478 :: "stmt list" where
  "min_mysql_recvfrom_sendto_20_0_body478 = [
    Syscall NR_recvfrom [Reg 2, Ptr 0x20dd2240, Imm 4, Imm 0x40, Imm 0, Imm 0], Count,
    Syscall NR_recvfrom [Reg 2, Ptr 0x20dd8c00, Imm 0x1d, Imm 0x40, Imm 0, Imm 0], Count,
    Syscall NR_sendto [Reg 2, Write_buf, Imm 0x3c, Imm 0x40, Imm 0, Imm 0], Count,
    Syscall NR_recvfrom [Reg 2, Ptr 0x20de0200, Imm 4, Imm 0x40, Imm 0, Imm 0], Count,
    Syscall NR_recvfrom [Reg 2, Ptr 0x20de0980, Imm 0x1d, Imm 0x40, Imm 0, Imm 0], Count,
    Syscall NR_sendto [Reg 2, Write_buf, Imm 0x317a, Imm 0x40, Imm 0, Imm 0], Count,
    Syscall NR_recvfrom [Reg 2, Ptr 0x2007b880, Imm 4, Imm 0x40, Imm 0, Imm 0], Count,
    Syscall NR_recvfrom [Reg 2, Ptr 0x20098540, Imm 0x1d, Imm 0x40, Imm 0, Imm 0], Count,
    Syscall NR_sendto [Reg 2, Write_buf, Imm 0x317a, Imm 0x40, Imm 0, Imm 0], Count,
    Syscall NR_recvfrom [Reg 2, Ptr 0x202e14c0, Imm 4, Imm 0x40, Imm 0, Imm 0], Count]"

definition min_mysql_recvfrom_sendto_20_0_body479 :: "stmt list" where
  "min_mysql_recvfrom_sendto_20_0_body479 = [
    Syscall NR_recvfrom [Reg 2, Ptr 0x203004c0, Imm 0x15, Imm 0x40, Imm 0, Imm 0], Count,
    Syscall NR_sendto [Reg 2, Write_buf, Imm 0x34, Imm 0x40, Imm 0, Imm 0], Count,
    Syscall NR_recvfrom [Reg 2, Ptr 0x20340300, Imm 4, Imm 0x40, Imm 0, Imm 0], Count,
    Syscall NR_recvfrom [Reg 2, Ptr 0x20346cc0, Imm 0x8d, Imm 0x40, Imm 0, Imm 0], Count,
    Syscall NR_sendto [Reg 2, Write_buf, Imm 0x34, Imm 0x40, Imm 0, Imm 0], Count,
    Syscall NR_recvfrom [Reg 2, Ptr 0x20370180, Imm 4, Imm 0x40, Imm 0, Imm 0], Count,
    Syscall NR_recvfrom [Reg 2, Ptr 0x2037ce40, Imm 0x15, Imm 0x40, Imm 0, Imm 0], Count,
    Syscall NR_sendto [Reg 2, Write_buf, Imm 0xb, Imm 0x40, Imm 0, Imm 0], Count,
    Syscall NR_recvfrom [Reg 2, Ptr 0x2038f680, Imm 4, Imm 0x40, Imm 0, Imm 0], Count,
    Syscall NR_recvfrom [Reg 2, Ptr 0x20393480, Imm 0xd1, Imm 0x40, Imm 0, Imm 0], Count]"

definition min_mysql_recvfrom_sendto_20_0_body480 :: "stmt list" where
  "min_mysql_recvfrom_sendto_20_0_body480 = [
    Syscall NR_sendto [Reg 2, Write_buf, Imm 0xd, Imm 0x40, Imm 0, Imm 0], Count,
    Syscall NR_recvfrom [Reg 2, Ptr 0x20395b80, Imm 4, Imm 0x40, Imm 0, Imm 0], Count,
    Syscall NR_recvfrom [Reg 2, Ptr 0x203964c0, Imm 0xb, Imm 0x40, Imm 0, Imm 0], Count,
    Syscall NR_sendto [Reg 2, Write_buf, Imm 0x18, Imm 0x40, Imm 0, Imm 0], Count,
    Syscall NR_recvfrom [Reg 2, Ptr 0x2064b780, Imm 4, Imm 0x40, Imm 0, Imm 0], Count,
    Syscall NR_recvfrom [Reg 2, Ptr 0x2064b8c0, Imm 8, Imm 0x40, Imm 0, Imm 0], Count,
    Syscall NR_sendto [Reg 2, Write_buf, Imm 0x18, Imm 0x40, Imm 0, Imm 0], Count,
    Syscall NR_recvfrom [Reg 2, Ptr 0x2064bcc0, Imm 4, Imm 0x40, Imm 0, Imm 0], Count,
    Syscall NR_recvfrom [Reg 2, Ptr 0x2064bf40, Imm 0x15, Imm 0x40, Imm 0, Imm 0], Count,
    Syscall NR_sendto [Reg 2, Write_buf, Imm 0xc0, Imm 0x40, Imm 0, Imm 0], Count]"

lemma min_mysql_recvfrom_sendto_20_0_body361_ok: "body_ok 3 12666 min_mysql_recvfrom_sendto_20_0_body361" "counted min_mysql_recvfrom_sendto_20_0_body361" "calls min_mysql_recvfrom_sendto_20_0_body361 = 10" "opened_in m min_mysql_recvfrom_sendto_20_0_body361 = []"
  by (simp_all add: min_mysql_recvfrom_sendto_20_0_body361_def prog_checks open_checks)

lemma min_mysql_recvfrom_sendto_20_0_body362_ok: "body_ok 3 12666 min_mysql_recvfrom_sendto_20_0_body362" "counted min_mysql_recvfrom_sendto_20_0_body362" "calls min_mysql_recvfrom_sendto_20_0_body362 = 10" "opened_in m min_mysql_recvfrom_sendto_20_0_body362 = []"
  by (simp_all add: min_mysql_recvfrom_sendto_20_0_body362_def prog_checks open_checks)

lemma min_mysql_recvfrom_sendto_20_0_body363_ok: "body_ok 3 12666 min_mysql_recvfrom_sendto_20_0_body363" "counted min_mysql_recvfrom_sendto_20_0_body363" "calls min_mysql_recvfrom_sendto_20_0_body363 = 10" "opened_in m min_mysql_recvfrom_sendto_20_0_body363 = []"
  by (simp_all add: min_mysql_recvfrom_sendto_20_0_body363_def prog_checks open_checks)

lemma min_mysql_recvfrom_sendto_20_0_body364_ok: "body_ok 3 12666 min_mysql_recvfrom_sendto_20_0_body364" "counted min_mysql_recvfrom_sendto_20_0_body364" "calls min_mysql_recvfrom_sendto_20_0_body364 = 10" "opened_in m min_mysql_recvfrom_sendto_20_0_body364 = []"
  by (simp_all add: min_mysql_recvfrom_sendto_20_0_body364_def prog_checks open_checks)

lemma min_mysql_recvfrom_sendto_20_0_body365_ok: "body_ok 3 12666 min_mysql_recvfrom_sendto_20_0_body365" "counted min_mysql_recvfrom_sendto_20_0_body365" "calls min_mysql_recvfrom_sendto_20_0_body365 = 10" "opened_in m min_mysql_recvfrom_sendto_20_0_body365 = []"
  by (simp_all add: min_mysql_recvfrom_sendto_20_0_body365_def prog_checks open_checks)

lemma min_mysql_recvfrom_sendto_20_0_body366_ok: "body_ok 3 12666 min_mysql_recvfrom_sendto_20_0_body366" "counted min_mysql_recvfrom_sendto_20_0_body366" "calls min_mysql_recvfrom_sendto_20_0_body366 = 10" "opened_in m min_mysql_recvfrom_sendto_20_0_body366 = []"
  by (simp_all add: min_mysql_recvfrom_sendto_20_0_body366_def prog_checks open_checks)

lemma min_mysql_recvfrom_sendto_20_0_body367_ok: "body_ok 3 12666 min_mysql_recvfrom_sendto_20_0_body367" "counted min_mysql_recvfrom_sendto_20_0_body367" "calls min_mysql_recvfrom_sendto_20_0_body367 = 10" "opened_in m min_mysql_recvfrom_sendto_20_0_body367 = []"
  by (simp_all add: min_mysql_recvfrom_sendto_20_0_body367_def prog_checks open_checks)

lemma min_mysql_recvfrom_sendto_20_0_body368_ok: "body_ok 3 12666 min_mysql_recvfrom_sendto_20_0_body368" "counted min_mysql_recvfrom_sendto_20_0_body368" "calls min_mysql_recvfrom_sendto_20_0_body368 = 10" "opened_in m min_mysql_recvfrom_sendto_20_0_body368 = []"
  by (simp_all add: min_mysql_recvfrom_sendto_20_0_body368_def prog_checks open_checks)

lemma min_mysql_recvfrom_sendto_20_0_body369_ok: "body_ok 3 12666 min_mysql_recvfrom_sendto_20_0_body369" "counted min_mysql_recvfrom_sendto_20_0_body369" "calls min_mysql_recvfrom_sendto_20_0_body369 = 10" "opened_in m min_mysql_recvfrom_sendto_20_0_body369 = []"
  by (simp_all add: min_mysql_recvfrom_sendto_20_0_body369_def prog_checks open_checks)

lemma min_mysql_recvfrom_sendto_20_0_body370_ok: "body_ok 3 12666 min_mysql_recvfrom_sendto_20_0_body370" "counted min_mysql_recvfrom_sendto_20_0_body370" "calls min_mysql_recvfrom_sendto_20_0_body370 = 10" "opened_in m min_mysql_recvfrom_sendto_20_0_body370 = []"
  by (simp_all add: min_mysql_recvfrom_sendto_20_0_body370_def prog_checks open_checks)

lemma min_mysql_recvfrom_sendto_20_0_body371_ok: "body_ok 3 12666 min_mysql_recvfrom_sendto_20_0_body371" "counted min_mysql_recvfrom_sendto_20_0_body371" "calls min_mysql_recvfrom_sendto_20_0_body371 = 10" "opened_in m min_mysql_recvfrom_sendto_20_0_body371 = []"
  by (simp_all add: min_mysql_recvfrom_sendto_20_0_body371_def prog_checks open_checks)

lemma min_mysql_recvfrom_sendto_20_0_body372_ok: "body_ok 3 12666 min_mysql_recvfrom_sendto_20_0_body372" "counted min_mysql_recvfrom_sendto_20_0_body372" "calls min_mysql_recvfrom_sendto_20_0_body372 = 10" "opened_in m min_mysql_recvfrom_sendto_20_0_body372 = []"
  by (simp_all add: min_mysql_recvfrom_sendto_20_0_body372_def prog_checks open_checks)

lemma min_mysql_recvfrom_sendto_20_0_body373_ok: "body_ok 3 12666 min_mysql_recvfrom_sendto_20_0_body373" "counted min_mysql_recvfrom_sendto_20_0_body373" "calls min_mysql_recvfrom_sendto_20_0_body373 = 10" "opened_in m min_mysql_recvfrom_sendto_20_0_body373 = []"
  by (simp_all add: min_mysql_recvfrom_sendto_20_0_body373_def prog_checks open_checks)

lemma min_mysql_recvfrom_sendto_20_0_body374_ok: "body_ok 3 12666 min_mysql_recvfrom_sendto_20_0_body374" "counted min_mysql_recvfrom_sendto_20_0_body374" "calls min_mysql_recvfrom_sendto_20_0_body374 = 10" "opened_in m min_mysql_recvfrom_sendto_20_0_body374 = []"
  by (simp_all add: min_mysql_recvfrom_sendto_20_0_body374_def prog_checks open_checks)

lemma min_mysql_recvfrom_sendto_20_0_body375_ok: "body_ok 3 12666 min_mysql_recvfrom_sendto_20_0_body375" "counted min_mysql_recvfrom_sendto_20_0_body375" "calls min_mysql_recvfrom_sendto_20_0_body375 = 10" "opened_in m min_mysql_recvfrom_sendto_20_0_body375 = []"
  by (simp_all add: min_mysql_recvfrom_sendto_20_0_body375_def prog_checks open_checks)

lemma min_mysql_recvfrom_sendto_20_0_body376_ok: "body_ok 3 12666 min_mysql_recvfrom_sendto_20_0_body376" "counted min_mysql_recvfrom_sendto_20_0_body376" "calls min_mysql_recvfrom_sendto_20_0_body376 = 10" "opened_in m min_mysql_recvfrom_sendto_20_0_body376 = []"
  by (simp_all add: min_mysql_recvfrom_sendto_20_0_body376_def prog_checks open_checks)

lemma min_mysql_recvfrom_sendto_20_0_body377_ok: "body_ok 3 12666 min_mysql_recvfrom_sendto_20_0_body377" "counted min_mysql_recvfrom_sendto_20_0_body377" "calls min_mysql_recvfrom_sendto_20_0_body377 = 10" "opened_in m min_mysql_recvfrom_sendto_20_0_body377 = []"
  by (simp_all add: min_mysql_recvfrom_sendto_20_0_body377_def prog_checks open_checks)

lemma min_mysql_recvfrom_sendto_20_0_body378_ok: "body_ok 3 12666 min_mysql_recvfrom_sendto_20_0_body378" "counted min_mysql_recvfrom_sendto_20_0_body378" "calls min_mysql_recvfrom_sendto_20_0_body378 = 10" "opened_in m min_mysql_recvfrom_sendto_20_0_body378 = []"
  by (simp_all add: min_mysql_recvfrom_sendto_20_0_body378_def prog_checks open_checks)

lemma min_mysql_recvfrom_sendto_20_0_body379_ok: "body_ok 3 12666 min_mysql_recvfrom_sendto_20_0_body379" "counted min_mysql_recvfrom_sendto_20_0_body379" "calls min_mysql_recvfrom_sendto_20_0_body379 = 10" "opened_in m min_mysql_recvfrom_sendto_20_0_body379 = []"
  by (simp_all add: min_mysql_recvfrom_sendto_20_0_body379_def prog_checks open_checks)

lemma min_mysql_recvfrom_sendto_20_0_body380_ok: "body_ok 3 12666 min_mysql_recvfrom_sendto_20_0_body380" "counted min_mysql_recvfrom_sendto_20_0_body380" "calls min_mysql_recvfrom_sendto_20_0_body380 = 10" "opened_in m min_mysql_recvfrom_sendto_20_0_body380 = []"
  by (simp_all add: min_mysql_recvfrom_sendto_20_0_body380_def prog_checks open_checks)

lemma min_mysql_recvfrom_sendto_20_0_body381_ok: "body_ok 3 12666 min_mysql_recvfrom_sendto_20_0_body381" "counted min_mysql_recvfrom_sendto_20_0_body381" "calls min_mysql_recvfrom_sendto_20_0_body381 = 10" "opened_in m min_mysql_recvfrom_sendto_20_0_body381 = []"
  by (simp_all add: min_mysql_recvfrom_sendto_20_0_body381_def prog_checks open_checks)

lemma min_mysql_recvfrom_sendto_20_0_body382_ok: "body_ok 3 12666 min_mysql_recvfrom_sendto_20_0_body382" "counted min_mysql_recvfrom_sendto_20_0_body382" "calls min_mysql_recvfrom_sendto_20_0_body382 = 10" "opened_in m min_mysql_recvfrom_sendto_20_0_body382 = []"
  by (simp_all add: min_mysql_recvfrom_sendto_20_0_body382_def prog_checks open_checks)

lemma min_mysql_recvfrom_sendto_20_0_body383_ok: "body_ok 3 12666 min_mysql_recvfrom_sendto_20_0_body383" "counted min_mysql_recvfrom_sendto_20_0_body383" "calls min_mysql_recvfrom_sendto_20_0_body383 = 10" "opened_in m min_mysql_recvfrom_sendto_20_0_body383 = []"
  by (simp_all add: min_mysql_recvfrom_sendto_20_0_body383_def prog_checks open_checks)

lemma min_mysql_recvfrom_sendto_20_0_body384_ok: "body_ok 3 12666 min_mysql_recvfrom_sendto_20_0_body384" "counted min_mysql_recvfrom_sendto_20_0_body384" "calls min_mysql_recvfrom_sendto_20_0_body384 = 10" "opened_in m min_mysql_recvfrom_sendto_20_0_body384 = []"
  by (simp_all add: min_mysql_recvfrom_sendto_20_0_body384_def prog_checks open_checks)

lemma min_mysql_recvfrom_sendto_20_0_body385_ok: "body_ok 3 12666 min_mysql_recvfrom_sendto_20_0_body385" "counted min_mysql_recvfrom_sendto_20_0_body385" "calls min_mysql_recvfrom_sendto_20_0_body385 = 10" "opened_in m min_mysql_recvfrom_sendto_20_0_body385 = []"
  by (simp_all add: min_mysql_recvfrom_sendto_20_0_body385_def prog_checks open_checks)

lemma min_mysql_recvfrom_sendto_20_0_body386_ok: "body_ok 3 12666 min_mysql_recvfrom_sendto_20_0_body386" "counted min_mysql_recvfrom_sendto_20_0_body386" "calls min_mysql_recvfrom_sendto_20_0_body386 = 10" "opened_in m min_mysql_recvfrom_sendto_20_0_body386 = []"
  by (simp_all add: min_mysql_recvfrom_sendto_20_0_body386_def prog_checks open_checks)

lemma min_mysql_recvfrom_sendto_20_0_body387_ok: "body_ok 3 12666 min_mysql_recvfrom_sendto_20_0_body387" "counted min_mysql_recvfrom_sendto_20_0_body387" "calls min_mysql_recvfrom_sendto_20_0_body387 = 10" "opened_in m min_mysql_recvfrom_sendto_20_0_body387 = []"
  by (simp_all add: min_mysql_recvfrom_sendto_20_0_body387_def prog_checks open_checks)

lemma min_mysql_recvfrom_sendto_20_0_body388_ok: "body_ok 3 12666 min_mysql_recvfrom_sendto_20_0_body388" "counted min_mysql_recvfrom_sendto_20_0_body388" "calls min_mysql_recvfrom_sendto_20_0_body388 = 10" "opened_in m min_mysql_recvfrom_sendto_20_0_body388 = []"
  by (simp_all add: min_mysql_recvfrom_sendto_20_0_body388_def prog_checks open_checks)

lemma min_mysql_recvfrom_sendto_20_0_body389_ok: "body_ok 3 12666 min_mysql_recvfrom_sendto_20_0_body389" "counted min_mysql_recvfrom_sendto_20_0_body389" "calls min_mysql_recvfrom_sendto_20_0_body389 = 10" "opened_in m min_mysql_recvfrom_sendto_20_0_body389 = []"
  by (simp_all add: min_mysql_recvfrom_sendto_20_0_body389_def prog_checks open_checks)

lemma min_mysql_recvfrom_sendto_20_0_body390_ok: "body_ok 3 12666 min_mysql_recvfrom_sendto_20_0_body390" "counted min_mysql_recvfrom_sendto_20_0_body390" "calls min_mysql_recvfrom_sendto_20_0_body390 = 10" "opened_in m min_mysql_recvfrom_sendto_20_0_body390 = []"
  by (simp_all add: min_mysql_recvfrom_sendto_20_0_body390_def prog_checks open_checks)

lemma min_mysql_recvfrom_sendto_20_0_body391_ok: "body_ok 3 12666 min_mysql_recvfrom_sendto_20_0_body391" "counted min_mysql_recvfrom_sendto_20_0_body391" "calls min_mysql_recvfrom_sendto_20_0_body391 = 10" "opened_in m min_mysql_recvfrom_sendto_20_0_body391 = []"
  by (simp_all add: min_mysql_recvfrom_sendto_20_0_body391_def prog_checks open_checks)

lemma min_mysql_recvfrom_sendto_20_0_body392_ok: "body_ok 3 12666 min_mysql_recvfrom_sendto_20_0_body392" "counted min_mysql_recvfrom_sendto_20_0_body392" "calls min_mysql_recvfrom_sendto_20_0_body392 = 10" "opened_in m min_mysql_recvfrom_sendto_20_0_body392 = []"
  by (simp_all add: min_mysql_recvfrom_sendto_20_0_body392_def prog_checks open_checks)

lemma min_mysql_recvfrom_sendto_20_0_body393_ok: "body_ok 3 12666 min_mysql_recvfrom_sendto_20_0_body393" "counted min_mysql_recvfrom_sendto_20_0_body393" "calls min_mysql_recvfrom_sendto_20_0_body393 = 10" "opened_in m min_mysql_recvfrom_sendto_20_0_body393 = []"
  by (simp_all add: min_mysql_recvfrom_sendto_20_0_body393_def prog_checks open_checks)

lemma min_mysql_recvfrom_sendto_20_0_body394_ok: "body_ok 3 12666 min_mysql_recvfrom_sendto_20_0_body394" "counted min_mysql_recvfrom_sendto_20_0_body394" "calls min_mysql_recvfrom_sendto_20_0_body394 = 10" "opened_in m min_mysql_recvfrom_sendto_20_0_body394 = []"
  by (simp_all add: min_mysql_recvfrom_sendto_20_0_body394_def prog_checks open_checks)

lemma min_mysql_recvfrom_sendto_20_0_body395_ok: "body_ok 3 12666 min_mysql_recvfrom_sendto_20_0_body395" "counted min_mysql_recvfrom_sendto_20_0_body395" "calls min_mysql_recvfrom_sendto_20_0_body395 = 10" "opened_in m min_mysql_recvfrom_sendto_20_0_body395 = []"
  by (simp_all add: min_mysql_recvfrom_sendto_20_0_body395_def prog_checks open_checks)

lemma min_mysql_recvfrom_sendto_20_0_body396_ok: "body_ok 3 12666 min_mysql_recvfrom_sendto_20_0_body396" "counted min_mysql_recvfrom_sendto_20_0_body396" "calls min_mysql_recvfrom_sendto_20_0_body396 = 10" "opened_in m min_mysql_recvfrom_sendto_20_0_body396 = []"
  by (simp_all add: min_mysql_recvfrom_sendto_20_0_body396_def prog_checks open_checks)

lemma min_mysql_recvfrom_sendto_20_0_body397_ok: "body_ok 3 12666 min_mysql_recvfrom_sendto_20_0_body397" "counted min_mysql_recvfrom_sendto_20_0_body397" "calls min_mysql_recvfrom_sendto_20_0_body397 = 10" "opened_in m min_mysql_recvfrom_sendto_20_0_body397 = []"
  by (simp_all add: min_mysql_recvfrom_sendto_20_0_body397_def prog_checks open_checks)

lemma min_mysql_recvfrom_sendto_20_0_body398_ok: "body_ok 3 12666 min_mysql_recvfrom_sendto_20_0_body398" "counted min_mysql_recvfrom_sendto_20_0_body398" "calls min_mysql_recvfrom_sendto_20_0_body398 = 10" "opened_in m min_mysql_recvfrom_sendto_20_0_body398 = []"
  by (simp_all add: min_mysql_recvfrom_sendto_20_0_body398_def prog_checks open_checks)

lemma min_mysql_recvfrom_sendto_20_0_body399_ok: "body_ok 3 12666 min_mysql_recvfrom_sendto_20_0_body399" "counted min_mysql_recvfrom_sendto_20_0_body399" "calls min_mysql_recvfrom_sendto_20_0_body399 = 10" "opened_in m min_mysql_recvfrom_sendto_20_0_body399 = []"
  by (simp_all add: min_mysql_recvfrom_sendto_20_0_body399_def prog_checks open_checks)

lemma min_mysql_recvfrom_sendto_20_0_body400_ok: "body_ok 3 12666 min_mysql_recvfrom_sendto_20_0_body400" "counted min_mysql_recvfrom_sendto_20_0_body400" "calls min_mysql_recvfrom_sendto_20_0_body400 = 10" "opened_in m min_mysql_recvfrom_sendto_20_0_body400 = []"
  by (simp_all add: min_mysql_recvfrom_sendto_20_0_body400_def prog_checks open_checks)

lemma min_mysql_recvfrom_sendto_20_0_body401_ok: "body_ok 3 12666 min_mysql_recvfrom_sendto_20_0_body401" "counted min_mysql_recvfrom_sendto_20_0_body401" "calls min_mysql_recvfrom_sendto_20_0_body401 = 10" "opened_in m min_mysql_recvfrom_sendto_20_0_body401 = []"
  by (simp_all add: min_mysql_recvfrom_sendto_20_0_body401_def prog_checks open_checks)

lemma min_mysql_recvfrom_sendto_20_0_body402_ok: "body_ok 3 12666 min_mysql_recvfrom_sendto_20_0_body402" "counted min_mysql_recvfrom_sendto_20_0_body402" "calls min_mysql_recvfrom_sendto_20_0_body402 = 10" "opened_in m min_mysql_recvfrom_sendto_20_0_body402 = []"
  by (simp_all add: min_mysql_recvfrom_sendto_20_0_body402_def prog_checks open_checks)

lemma min_mysql_recvfrom_sendto_20_0_body403_ok: "body_ok 3 12666 min_mysql_recvfrom_sendto_20_0_body403" "counted min_mysql_recvfrom_sendto_20_0_body403" "calls min_mysql_recvfrom_sendto_20_0_body403 = 10" "opened_in m min_mysql_recvfrom_sendto_20_0_body403 = []"
  by (simp_all add: min_mysql_recvfrom_sendto_20_0_body403_def prog_checks open_checks)

lemma min_mysql_recvfrom_sendto_20_0_body404_ok: "body_ok 3 12666 min_mysql_recvfrom_sendto_20_0_body404" "counted min_mysql_recvfrom_sendto_20_0_body404" "calls min_mysql_recvfrom_sendto_20_0_body404 = 10" "opened_in m min_mysql_recvfrom_sendto_20_0_body404 = []"
  by (simp_all add: min_mysql_recvfrom_sendto_20_0_body404_def prog_checks open_checks)

lemma min_mysql_recvfrom_sendto_20_0_body405_ok: "body_ok 3 12666 min_mysql_recvfrom_sendto_20_0_body405" "counted min_mysql_recvfrom_sendto_20_0_body405" "calls min_mysql_recvfrom_sendto_20_0_body405 = 10" "opened_in m min_mysql_recvfrom_sendto_20_0_body405 = []"
  by (simp_all add: min_mysql_recvfrom_sendto_20_0_body405_def prog_checks open_checks)

lemma min_mysql_recvfrom_sendto_20_0_body406_ok: "body_ok 3 12666 min_mysql_recvfrom_sendto_20_0_body406" "counted min_mysql_recvfrom_sendto_20_0_body406" "calls min_mysql_recvfrom_sendto_20_0_body406 = 10" "opened_in m min_mysql_recvfrom_sendto_20_0_body406 = []"
  by (simp_all add: min_mysql_recvfrom_sendto_20_0_body406_def prog_checks open_checks)

lemma min_mysql_recvfrom_sendto_20_0_body407_ok: "body_ok 3 12666 min_mysql_recvfrom_sendto_20_0_body407" "counted min_mysql_recvfrom_sendto_20_0_body407" "calls min_mysql_recvfrom_sendto_20_0_body407 = 10" "opened_in m min_mysql_recvfrom_sendto_20_0_body407 = []"
  by (simp_all add: min_mysql_recvfrom_sendto_20_0_body407_def prog_checks open_checks)

lemma min_mysql_recvfrom_sendto_20_0_body408_ok: "body_ok 3 12666 min_mysql_recvfrom_sendto_20_0_body408" "counted min_mysql_recvfrom_sendto_20_0_body408" "calls min_mysql_recvfrom_sendto_20_0_body408 = 10" "opened_in m min_mysql_recvfrom_sendto_20_0_body408 = []"
  by (simp_all add: min_mysql_recvfrom_sendto_20_0_body408_def prog_checks open_checks)

lemma min_mysql_recvfrom_sendto_20_0_body409_ok: "body_ok 3 12666 min_mysql_recvfrom_sendto_20_0_body409" "counted min_mysql_recvfrom_sendto_20_0_body409" "calls min_mysql_recvfrom_sendto_20_0_body409 = 10" "opened_in m min_mysql_recvfrom_sendto_20_0_body409 = []"
  by (simp_all add: min_mysql_recvfrom_sendto_20_0_body409_def prog_checks open_checks)

lemma min_mysql_recvfrom_sendto_20_0_body410_ok: "body_ok 3 12666 min_mysql_recvfrom_sendto_20_0_body410" "counted min_mysql_recvfrom_sendto_20_0_body410" "calls min_mysql_recvfrom_sendto_20_0_body410 = 10" "opened_in m min_mysql_recvfrom_sendto_20_0_body410 = []"
  by (simp_all add: min_mysql_recvfrom_sendto_20_0_body410_def prog_checks open_checks)

lemma min_mysql_recvfrom_sendto_20_0_body411_ok: "body_ok 3 12666 min_mysql_recvfrom_sendto_20_0_body411" "counted min_mysql_recvfrom_sendto_20_0_body411" "calls min_mysql_recvfrom_sendto_20_0_body411 = 10" "opened_in m min_mysql_recvfrom_sendto_20_0_body411 = []"
  by (simp_all add: min_mysql_recvfrom_sendto_20_0_body411_def prog_checks open_checks)

lemma min_mysql_recvfrom_sendto_20_0_body412_ok: "body_ok 3 12666 min_mysql_recvfrom_sendto_20_0_body412" "counted min_mysql_recvfrom_sendto_20_0_body412" "calls min_mysql_recvfrom_sendto_20_0_body412 = 10" "opened_in m min_mysql_recvfrom_sendto_20_0_body412 = []"
  by (simp_all add: min_mysql_recvfrom_sendto_20_0_body412_def prog_checks open_checks)

lemma min_mysql_recvfrom_sendto_20_0_body413_ok: "body_ok 3 12666 min_mysql_recvfrom_sendto_20_0_body413" "counted min_mysql_recvfrom_sendto_20_0_body413" "calls min_mysql_recvfrom_sendto_20_0_body413 = 10" "opened_in m min_mysql_recvfrom_sendto_20_0_body413 = []"
  by (simp_all add: min_mysql_recvfrom_sendto_20_0_body413_def prog_checks open_checks)

lemma min_mysql_recvfrom_sendto_20_0_body414_ok: "body_ok 3 12666 min_mysql_recvfrom_sendto_20_0_body414" "counted min_mysql_recvfrom_sendto_20_0_body414" "calls min_mysql_recvfrom_sendto_20_0_body414 = 10" "opened_in m min_mysql_recvfrom_sendto_20_0_body414 = []"
  by (simp_all add: min_mysql_recvfrom_sendto_20_0_body414_def prog_checks open_checks)

lemma min_mysql_recvfrom_sendto_20_0_body415_ok: "body_ok 3 12666 min_mysql_recvfrom_sendto_20_0_body415" "counted min_mysql_recvfrom_sendto_20_0_body415" "calls min_mysql_recvfrom_sendto_20_0_body415 = 10" "opened_in m min_mysql_recvfrom_sendto_20_0_body415 = []"
  by (simp_all add: min_mysql_recvfrom_sendto_20_0_body415_def prog_checks open_checks)

lemma min_mysql_recvfrom_sendto_20_0_body416_ok: "body_ok 3 12666 min_mysql_recvfrom_sendto_20_0_body416" "counted min_mysql_recvfrom_sendto_20_0_body416" "calls min_mysql_recvfrom_sendto_20_0_body416 = 10" "opened_in m min_mysql_recvfrom_sendto_20_0_body416 = []"
  by (simp_all add: min_mysql_recvfrom_sendto_20_0_body416_def prog_checks open_checks)

lemma min_mysql_recvfrom_sendto_20_0_body417_ok: "body_ok 3 12666 min_mysql_recvfrom_sendto_20_0_body417" "counted min_mysql_recvfrom_sendto_20_0_body417" "calls min_mysql_recvfrom_sendto_20_0_body417 = 10" "opened_in m min_mysql_recvfrom_sendto_20_0_body417 = []"
  by (simp_all add: min_mysql_recvfrom_sendto_20_0_body417_def prog_checks open_checks)

lemma min_mysql_recvfrom_sendto_20_0_body418_ok: "body_ok 3 12666 min_mysql_recvfrom_sendto_20_0_body418" "counted min_mysql_recvfrom_sendto_20_0_body418" "calls min_mysql_recvfrom_sendto_20_0_body418 = 10" "opened_in m min_mysql_recvfrom_sendto_20_0_body418 = []"
  by (simp_all add: min_mysql_recvfrom_sendto_20_0_body418_def prog_checks open_checks)

lemma min_mysql_recvfrom_sendto_20_0_body419_ok: "body_ok 3 12666 min_mysql_recvfrom_sendto_20_0_body419" "counted min_mysql_recvfrom_sendto_20_0_body419" "calls min_mysql_recvfrom_sendto_20_0_body419 = 10" "opened_in m min_mysql_recvfrom_sendto_20_0_body419 = []"
  by (simp_all add: min_mysql_recvfrom_sendto_20_0_body419_def prog_checks open_checks)

lemma min_mysql_recvfrom_sendto_20_0_body420_ok: "body_ok 3 12666 min_mysql_recvfrom_sendto_20_0_body420" "counted min_mysql_recvfrom_sendto_20_0_body420" "calls min_mysql_recvfrom_sendto_20_0_body420 = 10" "opened_in m min_mysql_recvfrom_sendto_20_0_body420 = []"
  by (simp_all add: min_mysql_recvfrom_sendto_20_0_body420_def prog_checks open_checks)

lemma min_mysql_recvfrom_sendto_20_0_body421_ok: "body_ok 3 12666 min_mysql_recvfrom_sendto_20_0_body421" "counted min_mysql_recvfrom_sendto_20_0_body421" "calls min_mysql_recvfrom_sendto_20_0_body421 = 10" "opened_in m min_mysql_recvfrom_sendto_20_0_body421 = []"
  by (simp_all add: min_mysql_recvfrom_sendto_20_0_body421_def prog_checks open_checks)

lemma min_mysql_recvfrom_sendto_20_0_body422_ok: "body_ok 3 12666 min_mysql_recvfrom_sendto_20_0_body422" "counted min_mysql_recvfrom_sendto_20_0_body422" "calls min_mysql_recvfrom_sendto_20_0_body422 = 10" "opened_in m min_mysql_recvfrom_sendto_20_0_body422 = []"
  by (simp_all add: min_mysql_recvfrom_sendto_20_0_body422_def prog_checks open_checks)

lemma min_mysql_recvfrom_sendto_20_0_body423_ok: "body_ok 3 12666 min_mysql_recvfrom_sendto_20_0_body423" "counted min_mysql_recvfrom_sendto_20_0_body423" "calls min_mysql_recvfrom_sendto_20_0_body423 = 10" "opened_in m min_mysql_recvfrom_sendto_20_0_body423 = []"
  by (simp_all add: min_mysql_recvfrom_sendto_20_0_body423_def prog_checks open_checks)

lemma min_mysql_recvfrom_sendto_20_0_body424_ok: "body_ok 3 12666 min_mysql_recvfrom_sendto_20_0_body424" "counted min_mysql_recvfrom_sendto_20_0_body424" "calls min_mysql_recvfrom_sendto_20_0_body424 = 10" "opened_in m min_mysql_recvfrom_sendto_20_0_body424 = []"
  by (simp_all add: min_mysql_recvfrom_sendto_20_0_body424_def prog_checks open_checks)

lemma min_mysql_recvfrom_sendto_20_0_body425_ok: "body_ok 3 12666 min_mysql_recvfrom_sendto_20_0_body425" "counted min_mysql_recvfrom_sendto_20_0_body425" "calls min_mysql_recvfrom_sendto_20_0_body425 = 10" "opened_in m min_mysql_recvfrom_sendto_20_0_body425 = []"
  by (simp_all add: min_mysql_recvfrom_sendto_20_0_body425_def prog_checks open_checks)

lemma min_mysql_recvfrom_sendto_20_0_body426_ok: "body_ok 3 12666 min_mysql_recvfrom_sendto_20_0_body426" "counted min_mysql_recvfrom_sendto_20_0_body426" "calls min_mysql_recvfrom_sendto_20_0_body426 = 10" "opened_in m min_mysql_recvfrom_sendto_20_0_body426 = []"
  by (simp_all add: min_mysql_recvfrom_sendto_20_0_body426_def prog_checks open_checks)

lemma min_mysql_recvfrom_sendto_20_0_body427_ok: "body_ok 3 12666 min_mysql_recvfrom_sendto_20_0_body427" "counted min_mysql_recvfrom_sendto_20_0_body427" "calls min_mysql_recvfrom_sendto_20_0_body427 = 10" "opened_in m min_mysql_recvfrom_sendto_20_0_body427 = []"
  by (simp_all add: min_mysql_recvfrom_sendto_20_0_body427_def prog_checks open_checks)

lemma min_mysql_recvfrom_sendto_20_0_body428_ok: "body_ok 3 12666 min_mysql_recvfrom_sendto_20_0_body428" "counted min_mysql_recvfrom_sendto_20_0_body428" "calls min_mysql_recvfrom_sendto_20_0_body428 = 10" "opened_in m min_mysql_recvfrom_sendto_20_0_body428 = []"
  by (simp_all add: min_mysql_recvfrom_sendto_20_0_body428_def prog_checks open_checks)

lemma min_mysql_recvfrom_sendto_20_0_body429_ok: "body_ok 3 12666 min_mysql_recvfrom_sendto_20_0_body429" "counted min_mysql_recvfrom_sendto_20_0_body429" "calls min_mysql_recvfrom_sendto_20_0_body429 = 10" "opened_in m min_mysql_recvfrom_sendto_20_0_body429 = []"
  by (simp_all add: min_mysql_recvfrom_sendto_20_0_body429_def prog_checks open_checks)

lemma min_mysql_recvfrom_sendto_20_0_body430_ok: "body_ok 3 12666 min_mysql_recvfrom_sendto_20_0_body430" "counted min_mysql_recvfrom_sendto_20_0_body430" "calls min_mysql_recvfrom_sendto_20_0_body430 = 10" "opened_in m min_mysql_recvfrom_sendto_20_0_body430 = []"
  by (simp_all add: min_mysql_recvfrom_sendto_20_0_body430_def prog_checks open_checks)

lemma min_mysql_recvfrom_sendto_20_0_body431_ok: "body_ok 3 12666 min_mysql_recvfrom_sendto_20_0_body431" "counted min_mysql_recvfrom_sendto_20_0_body431" "calls min_mysql_recvfrom_sendto_20_0_body431 = 10" "opened_in m min_mysql_recvfrom_sendto_20_0_body431 = []"
  by (simp_all add: min_mysql_recvfrom_sendto_20_0_body431_def prog_checks open_checks)

lemma min_mysql_recvfrom_sendto_20_0_body432_ok: "body_ok 3 12666 min_mysql_recvfrom_sendto_20_0_body432" "counted min_mysql_recvfrom_sendto_20_0_body432" "calls min_mysql_recvfrom_sendto_20_0_body432 = 10" "opened_in m min_mysql_recvfrom_sendto_20_0_body432 = []"
  by (simp_all add: min_mysql_recvfrom_sendto_20_0_body432_def prog_checks open_checks)

lemma min_mysql_recvfrom_sendto_20_0_body433_ok: "body_ok 3 12666 min_mysql_recvfrom_sendto_20_0_body433" "counted min_mysql_recvfrom_sendto_20_0_body433" "calls min_mysql_recvfrom_sendto_20_0_body433 = 10" "opened_in m min_mysql_recvfrom_sendto_20_0_body433 = []"
  by (simp_all add: min_mysql_recvfrom_sendto_20_0_body433_def prog_checks open_checks)

lemma min_mysql_recvfrom_sendto_20_0_body434_ok: "body_ok 3 12666 min_mysql_recvfrom_sendto_20_0_body434" "counted min_mysql_recvfrom_sendto_20_0_body434" "calls min_mysql_recvfrom_sendto_20_0_body434 = 10" "opened_in m min_mysql_recvfrom_sendto_20_0_body434 = []"
  by (simp_all add: min_mysql_recvfrom_sendto_20_0_body434_def prog_checks open_checks)

lemma min_mysql_recvfrom_sendto_20_0_body435_ok: "body_ok 3 12666 min_mysql_recvfrom_sendto_20_0_body435" "counted min_mysql_recvfrom_sendto_20_0_body435" "calls min_mysql_recvfrom_sendto_20_0_body435 = 10" "opened_in m min_mysql_recvfrom_sendto_20_0_body435 = []"
  by (simp_all add: min_mysql_recvfrom_sendto_20_0_body435_def prog_checks open_checks)

lemma min_mysql_recvfrom_sendto_20_0_body436_ok: "body_ok 3 12666 min_mysql_recvfrom_sendto_20_0_body436" "counted min_mysql_recvfrom_sendto_20_0_body436" "calls min_mysql_recvfrom_sendto_20_0_body436 = 10" "opened_in m min_mysql_recvfrom_sendto_20_0_body436 = []"
  by (simp_all add: min_mysql_recvfrom_sendto_20_0_body436_def prog_checks open_checks)

lemma min_mysql_recvfrom_sendto_20_0_body437_ok: "body_ok 3 12666 min_mysql_recvfrom_sendto_20_0_body437" "counted min_mysql_recvfrom_sendto_20_0_body437" "calls min_mysql_recvfrom_sendto_20_0_body437 = 10" "opened_in m min_mysql_recvfrom_sendto_20_0_body437 = []"
  by (simp_all add: min_mysql_recvfrom_sendto_20_0_body437_def prog_checks open_checks)

lemma min_mysql_recvfrom_sendto_20_0_body438_ok: "body_ok 3 12666 min_mysql_recvfrom_sendto_20_0_body438" "counted min_mysql_recvfrom_sendto_20_0_body438" "calls min_mysql_recvfrom_sendto_20_0_body438 = 10" "opened_in m min_mysql_recvfrom_sendto_20_0_body438 = []"
  by (simp_all add: min_mysql_recvfrom_sendto_20_0_body438_def prog_checks open_checks)

lemma min_mysql_recvfrom_sendto_20_0_body439_ok: "body_ok 3 12666 min_mysql_recvfrom_sendto_20_0_body439" "counted min_mysql_recvfrom_sendto_20_0_body439" "calls min_mysql_recvfrom_sendto_20_0_body439 = 10" "opened_in m min_mysql_recvfrom_sendto_20_0_body439 = []"
  by (simp_all add: min_mysql_recvfrom_sendto_20_0_body439_def prog_checks open_checks)

lemma min_mysql_recvfrom_sendto_20_0_body440_ok: "body_ok 3 12666 min_mysql_recvfrom_sendto_20_0_body440" "counted min_mysql_recvfrom_sendto_20_0_body440" "calls min_mysql_recvfrom_sendto_20_0_body440 = 10" "opened_in m min_mysql_recvfrom_sendto_20_0_body440 = []"
  by (simp_all add: min_mysql_recvfrom_sendto_20_0_body440_def prog_checks open_checks)

lemma min_mysql_recvfrom_sendto_20_0_body441_ok: "body_ok 3 12666 min_mysql_recvfrom_sendto_20_0_body441" "counted min_mysql_recvfrom_sendto_20_0_body441" "calls min_mysql_recvfrom_sendto_20_0_body441 = 10" "opened_in m min_mysql_recvfrom_sendto_20_0_body441 = []"
  by (simp_all add: min_mysql_recvfrom_sendto_20_0_body441_def prog_checks open_checks)

lemma min_mysql_recvfrom_sendto_20_0_body442_ok: "body_ok 3 12666 min_mysql_recvfrom_sendto_20_0_body442" "counted min_mysql_recvfrom_sendto_20_0_body442" "calls min_mysql_recvfrom_sendto_20_0_body442 = 10" "opened_in m min_mysql_recvfrom_sendto_20_0_body442 = []"
  by (simp_all add: min_mysql_recvfrom_sendto_20_0_body442_def prog_checks open_checks)

lemma min_mysql_recvfrom_sendto_20_0_body443_ok: "body_ok 3 12666 min_mysql_recvfrom_sendto_20_0_body443" "counted min_mysql_recvfrom_sendto_20_0_body443" "calls min_mysql_recvfrom_sendto_20_0_body443 = 10" "opened_in m min_mysql_recvfrom_sendto_20_0_body443 = []"
  by (simp_all add: min_mysql_recvfrom_sendto_20_0_body443_def prog_checks open_checks)

lemma min_mysql_recvfrom_sendto_20_0_body444_ok: "body_ok 3 12666 min_mysql_recvfrom_sendto_20_0_body444" "counted min_mysql_recvfrom_sendto_20_0_body444" "calls min_mysql_recvfrom_sendto_20_0_body444 = 10" "opened_in m min_mysql_recvfrom_sendto_20_0_body444 = []"
  by (simp_all add: min_mysql_recvfrom_sendto_20_0_body444_def prog_checks open_checks)

lemma min_mysql_recvfrom_sendto_20_0_body445_ok: "body_ok 3 12666 min_mysql_recvfrom_sendto_20_0_body445" "counted min_mysql_recvfrom_sendto_20_0_body445" "calls min_mysql_recvfrom_sendto_20_0_body445 = 10" "opened_in m min_mysql_recvfrom_sendto_20_0_body445 = []"
  by (simp_all add: min_mysql_recvfrom_sendto_20_0_body445_def prog_checks open_checks)

lemma min_mysql_recvfrom_sendto_20_0_body446_ok: "body_ok 3 12666 min_mysql_recvfrom_sendto_20_0_body446" "counted min_mysql_recvfrom_sendto_20_0_body446" "calls min_mysql_recvfrom_sendto_20_0_body446 = 10" "opened_in m min_mysql_recvfrom_sendto_20_0_body446 = []"
  by (simp_all add: min_mysql_recvfrom_sendto_20_0_body446_def prog_checks open_checks)

lemma min_mysql_recvfrom_sendto_20_0_body447_ok: "body_ok 3 12666 min_mysql_recvfrom_sendto_20_0_body447" "counted min_mysql_recvfrom_sendto_20_0_body447" "calls min_mysql_recvfrom_sendto_20_0_body447 = 10" "opened_in m min_mysql_recvfrom_sendto_20_0_body447 = []"
  by (simp_all add: min_mysql_recvfrom_sendto_20_0_body447_def prog_checks open_checks)

lemma min_mysql_recvfrom_sendto_20_0_body448_ok: "body_ok 3 12666 min_mysql_recvfrom_sendto_20_0_body448" "counted min_mysql_recvfrom_sendto_20_0_body448" "calls min_mysql_recvfrom_sendto_20_0_body448 = 10" "opened_in m min_mysql_recvfrom_sendto_20_0_body448 = []"
  by (simp_all add: min_mysql_recvfrom_sendto_20_0_body448_def prog_checks open_checks)

lemma min_mysql_recvfrom_sendto_20_0_body449_ok: "body_ok 3 12666 min_mysql_recvfrom_sendto_20_0_body449" "counted min_mysql_recvfrom_sendto_20_0_body449" "calls min_mysql_recvfrom_sendto_20_0_body449 = 10" "opened_in m min_mysql_recvfrom_sendto_20_0_body449 = []"
  by (simp_all add: min_mysql_recvfrom_sendto_20_0_body449_def prog_checks open_checks)

lemma min_mysql_recvfrom_sendto_20_0_body450_ok: "body_ok 3 12666 min_mysql_recvfrom_sendto_20_0_body450" "counted min_mysql_recvfrom_sendto_20_0_body450" "calls min_mysql_recvfrom_sendto_20_0_body450 = 10" "opened_in m min_mysql_recvfrom_sendto_20_0_body450 = []"
  by (simp_all add: min_mysql_recvfrom_sendto_20_0_body450_def prog_checks open_checks)

lemma min_mysql_recvfrom_sendto_20_0_body451_ok: "body_ok 3 12666 min_mysql_recvfrom_sendto_20_0_body451" "counted min_mysql_recvfrom_sendto_20_0_body451" "calls min_mysql_recvfrom_sendto_20_0_body451 = 10" "opened_in m min_mysql_recvfrom_sendto_20_0_body451 = []"
  by (simp_all add: min_mysql_recvfrom_sendto_20_0_body451_def prog_checks open_checks)

lemma min_mysql_recvfrom_sendto_20_0_body452_ok: "body_ok 3 12666 min_mysql_recvfrom_sendto_20_0_body452" "counted min_mysql_recvfrom_sendto_20_0_body452" "calls min_mysql_recvfrom_sendto_20_0_body452 = 10" "opened_in m min_mysql_recvfrom_sendto_20_0_body452 = []"
  by (simp_all add: min_mysql_recvfrom_sendto_20_0_body452_def prog_checks open_checks)

lemma min_mysql_recvfrom_sendto_20_0_body453_ok: "body_ok 3 12666 min_mysql_recvfrom_sendto_20_0_body453" "counted min_mysql_recvfrom_sendto_20_0_body453" "calls min_mysql_recvfrom_sendto_20_0_body453 = 10" "opened_in m min_mysql_recvfrom_sendto_20_0_body453 = []"
  by (simp_all add: min_mysql_recvfrom_sendto_20_0_body453_def prog_checks open_checks)

lemma min_mysql_recvfrom_sendto_20_0_body454_ok: "body_ok 3 12666 min_mysql_recvfrom_sendto_20_0_body454" "counted min_mysql_recvfrom_sendto_20_0_body454" "calls min_mysql_recvfrom_sendto_20_0_body454 = 10" "opened_in m min_mysql_recvfrom_sendto_20_0_body454 = []"
  by (simp_all add: min_mysql_recvfrom_sendto_20_0_body454_def prog_checks open_checks)

lemma min_mysql_recvfrom_sendto_20_0_body455_ok: "body_ok 3 12666 min_mysql_recvfrom_sendto_20_0_body455" "counted min_mysql_recvfrom_sendto_20_0_body455" "calls min_mysql_recvfrom_sendto_20_0_body455 = 10" "opened_in m min_mysql_recvfrom_sendto_20_0_body455 = []"
  by (simp_all add: min_mysql_recvfrom_sendto_20_0_body455_def prog_checks open_checks)

lemma min_mysql_recvfrom_sendto_20_0_body456_ok: "body_ok 3 12666 min_mysql_recvfrom_sendto_20_0_body456" "counted min_mysql_recvfrom_sendto_20_0_body456" "calls min_mysql_recvfrom_sendto_20_0_body456 = 10" "opened_in m min_mysql_recvfrom_sendto_20_0_body456 = []"
  by (simp_all add: min_mysql_recvfrom_sendto_20_0_body456_def prog_checks open_checks)

lemma min_mysql_recvfrom_sendto_20_0_body457_ok: "body_ok 3 12666 min_mysql_recvfrom_sendto_20_0_body457" "counted min_mysql_recvfrom_sendto_20_0_body457" "calls min_mysql_recvfrom_sendto_20_0_body457 = 10" "opened_in m min_mysql_recvfrom_sendto_20_0_body457 = []"
  by (simp_all add: min_mysql_recvfrom_sendto_20_0_body457_def prog_checks open_checks)

lemma min_mysql_recvfrom_sendto_20_0_body458_ok: "body_ok 3 12666 min_mysql_recvfrom_sendto_20_0_body458" "counted min_mysql_recvfrom_sendto_20_0_body458" "calls min_mysql_recvfrom_sendto_20_0_body458 = 10" "opened_in m min_mysql_recvfrom_sendto_20_0_body458 = []"
  by (simp_all add: min_mysql_recvfrom_sendto_20_0_body458_def prog_checks open_checks)

lemma min_mysql_recvfrom_sendto_20_0_body459_ok: "body_ok 3 12666 min_mysql_recvfrom_sendto_20_0_body459" "counted min_mysql_recvfrom_sendto_20_0_body459" "calls min_mysql_recvfrom_sendto_20_0_body459 = 10" "opened_in m min_mysql_recvfrom_sendto_20_0_body459 = []"
  by (simp_all add: min_mysql_recvfrom_sendto_20_0_body459_def prog_checks open_checks)

lemma min_mysql_recvfrom_sendto_20_0_body460_ok: "body_ok 3 12666 min_mysql_recvfrom_sendto_20_0_body460" "counted min_mysql_recvfrom_sendto_20_0_body460" "calls min_mysql_recvfrom_sendto_20_0_body460 = 10" "opened_in m min_mysql_recvfrom_sendto_20_0_body460 = []"
  by (simp_all add: min_mysql_recvfrom_sendto_20_0_body460_def prog_checks open_checks)

lemma min_mysql_recvfrom_sendto_20_0_body461_ok: "body_ok 3 12666 min_mysql_recvfrom_sendto_20_0_body461" "counted min_mysql_recvfrom_sendto_20_0_body461" "calls min_mysql_recvfrom_sendto_20_0_body461 = 10" "opened_in m min_mysql_recvfrom_sendto_20_0_body461 = []"
  by (simp_all add: min_mysql_recvfrom_sendto_20_0_body461_def prog_checks open_checks)

lemma min_mysql_recvfrom_sendto_20_0_body462_ok: "body_ok 3 12666 min_mysql_recvfrom_sendto_20_0_body462" "counted min_mysql_recvfrom_sendto_20_0_body462" "calls min_mysql_recvfrom_sendto_20_0_body462 = 10" "opened_in m min_mysql_recvfrom_sendto_20_0_body462 = []"
  by (simp_all add: min_mysql_recvfrom_sendto_20_0_body462_def prog_checks open_checks)

lemma min_mysql_recvfrom_sendto_20_0_body463_ok: "body_ok 3 12666 min_mysql_recvfrom_sendto_20_0_body463" "counted min_mysql_recvfrom_sendto_20_0_body463" "calls min_mysql_recvfrom_sendto_20_0_body463 = 10" "opened_in m min_mysql_recvfrom_sendto_20_0_body463 = []"
  by (simp_all add: min_mysql_recvfrom_sendto_20_0_body463_def prog_checks open_checks)

lemma min_mysql_recvfrom_sendto_20_0_body464_ok: "body_ok 3 12666 min_mysql_recvfrom_sendto_20_0_body464" "counted min_mysql_recvfrom_sendto_20_0_body464" "calls min_mysql_recvfrom_sendto_20_0_body464 = 10" "opened_in m min_mysql_recvfrom_sendto_20_0_body464 = []"
  by (simp_all add: min_mysql_recvfrom_sendto_20_0_body464_def prog_checks open_checks)

lemma min_mysql_recvfrom_sendto_20_0_body465_ok: "body_ok 3 12666 min_mysql_recvfrom_sendto_20_0_body465" "counted min_mysql_recvfrom_sendto_20_0_body465" "calls min_mysql_recvfrom_sendto_20_0_body465 = 10" "opened_in m min_mysql_recvfrom_sendto_20_0_body465 = []"
  by (simp_all add: min_mysql_recvfrom_sendto_20_0_body465_def prog_checks open_checks)

lemma min_mysql_recvfrom_sendto_20_0_body466_ok: "body_ok 3 12666 min_mysql_recvfrom_sendto_20_0_body466" "counted min_mysql_recvfrom_sendto_20_0_body466" "calls min_mysql_recvfrom_sendto_20_0_body466 = 10" "opened_in m min_mysql_recvfrom_sendto_20_0_body466 = []"
  by (simp_all add: min_mysql_recvfrom_sendto_20_0_body466_def prog_checks open_checks)

lemma min_mysql_recvfrom_sendto_20_0_body467_ok: "body_ok 3 12666 min_mysql_recvfrom_sendto_20_0_body467" "counted min_mysql_recvfrom_sendto_20_0_body467" "calls min_mysql_recvfrom_sendto_20_0_body467 = 10" "opened_in m min_mysql_recvfrom_sendto_20_0_body467 = []"
  by (simp_all add: min_mysql_recvfrom_sendto_20_0_body467_def prog_checks open_checks)

lemma min_mysql_recvfrom_sendto_20_0_body468_ok: "body_ok 3 12666 min_mysql_recvfrom_sendto_20_0_body468" "counted min_mysql_recvfrom_sendto_20_0_body468" "calls min_mysql_recvfrom_sendto_20_0_body468 = 10" "opened_in m min_mysql_recvfrom_sendto_20_0_body468 = []"
  by (simp_all add: min_mysql_recvfrom_sendto_20_0_body468_def prog_checks open_checks)

lemma min_mysql_recvfrom_sendto_20_0_body469_ok: "body_ok 3 12666 min_mysql_recvfrom_sendto_20_0_body469" "counted min_mysql_recvfrom_sendto_20_0_body469" "calls min_mysql_recvfrom_sendto_20_0_body469 = 10" "opened_in m min_mysql_recvfrom_sendto_20_0_body469 = []"
  by (simp_all add: min_mysql_recvfrom_sendto_20_0_body469_def prog_checks open_checks)

lemma min_mysql_recvfrom_sendto_20_0_body470_ok: "body_ok 3 12666 min_mysql_recvfrom_sendto_20_0_body470" "counted min_mysql_recvfrom_sendto_20_0_body470" "calls min_mysql_recvfrom_sendto_20_0_body470 = 10" "opened_in m min_mysql_recvfrom_sendto_20_0_body470 = []"
  by (simp_all add: min_mysql_recvfrom_sendto_20_0_body470_def prog_checks open_checks)

lemma min_mysql_recvfrom_sendto_20_0_body471_ok: "body_ok 3 12666 min_mysql_recvfrom_sendto_20_0_body471" "counted min_mysql_recvfrom_sendto_20_0_body471" "calls min_mysql_recvfrom_sendto_20_0_body471 = 10" "opened_in m min_mysql_recvfrom_sendto_20_0_body471 = []"
  by (simp_all add: min_mysql_recvfrom_sendto_20_0_body471_def prog_checks open_checks)

lemma min_mysql_recvfrom_sendto_20_0_body472_ok: "body_ok 3 12666 min_mysql_recvfrom_sendto_20_0_body472" "counted min_mysql_recvfrom_sendto_20_0_body472" "calls min_mysql_recvfrom_sendto_20_0_body472 = 10" "opened_in m min_mysql_recvfrom_sendto_20_0_body472 = []"
  by (simp_all add: min_mysql_recvfrom_sendto_20_0_body472_def prog_checks open_checks)

lemma min_mysql_recvfrom_sendto_20_0_body473_ok: "body_ok 3 12666 min_mysql_recvfrom_sendto_20_0_body473" "counted min_mysql_recvfrom_sendto_20_0_body473" "calls min_mysql_recvfrom_sendto_20_0_body473 = 10" "opened_in m min_mysql_recvfrom_sendto_20_0_body473 = []"
  by (simp_all add: min_mysql_recvfrom_sendto_20_0_body473_def prog_checks open_checks)

lemma min_mysql_recvfrom_sendto_20_0_body474_ok: "body_ok 3 12666 min_mysql_recvfrom_sendto_20_0_body474" "counted min_mysql_recvfrom_sendto_20_0_body474" "calls min_mysql_recvfrom_sendto_20_0_body474 = 10" "opened_in m min_mysql_recvfrom_sendto_20_0_body474 = []"
  by (simp_all add: min_mysql_recvfrom_sendto_20_0_body474_def prog_checks open_checks)

lemma min_mysql_recvfrom_sendto_20_0_body475_ok: "body_ok 3 12666 min_mysql_recvfrom_sendto_20_0_body475" "counted min_mysql_recvfrom_sendto_20_0_body475" "calls min_mysql_recvfrom_sendto_20_0_body475 = 10" "opened_in m min_mysql_recvfrom_sendto_20_0_body475 = []"
  by (simp_all add: min_mysql_recvfrom_sendto_20_0_body475_def prog_checks open_checks)

lemma min_mysql_recvfrom_sendto_20_0_body476_ok: "body_ok 3 12666 min_mysql_recvfrom_sendto_20_0_body476" "counted min_mysql_recvfrom_sendto_20_0_body476" "calls min_mysql_recvfrom_sendto_20_0_body476 = 10" "opened_in m min_mysql_recvfrom_sendto_20_0_body476 = []"
  by (simp_all add: min_mysql_recvfrom_sendto_20_0_body476_def prog_checks open_checks)

lemma min_mysql_recvfrom_sendto_20_0_body477_ok: "body_ok 3 12666 min_mysql_recvfrom_sendto_20_0_body477" "counted min_mysql_recvfrom_sendto_20_0_body477" "calls min_mysql_recvfrom_sendto_20_0_body477 = 10" "opened_in m min_mysql_recvfrom_sendto_20_0_body477 = []"
  by (simp_all add: min_mysql_recvfrom_sendto_20_0_body477_def prog_checks open_checks)

lemma min_mysql_recvfrom_sendto_20_0_body478_ok: "body_ok 3 12666 min_mysql_recvfrom_sendto_20_0_body478" "counted min_mysql_recvfrom_sendto_20_0_body478" "calls min_mysql_recvfrom_sendto_20_0_body478 = 10" "opened_in m min_mysql_recvfrom_sendto_20_0_body478 = []"
  by (simp_all add: min_mysql_recvfrom_sendto_20_0_body478_def prog_checks open_checks)

lemma min_mysql_recvfrom_sendto_20_0_body479_ok: "body_ok 3 12666 min_mysql_recvfrom_sendto_20_0_body479" "counted min_mysql_recvfrom_sendto_20_0_body479" "calls min_mysql_recvfrom_sendto_20_0_body479 = 10" "opened_in m min_mysql_recvfrom_sendto_20_0_body479 = []"
  by (simp_all add: min_mysql_recvfrom_sendto_20_0_body479_def prog_checks open_checks)

lemma min_mysql_recvfrom_sendto_20_0_body480_ok: "body_ok 3 12666 min_mysql_recvfrom_sendto_20_0_body480" "counted min_mysql_recvfrom_sendto_20_0_body480" "calls min_mysql_recvfrom_sendto_20_0_body480 = 10" "opened_in m min_mysql_recvfrom_sendto_20_0_body480 = []"
  by (simp_all add: min_mysql_recvfrom_sendto_20_0_body480_def prog_checks open_checks)

end
