(* ===== verification/CSB_Progs_Net_c_p5.thy ===== *)
theory CSB_Progs_Net_c_p5
  imports CSB_Syz_Files
begin

text \<open>
  Statements of min\_mysql\_recvfrom\_sendto\_20\_0 (bench/targets/mysql\_v2), in the
  order of the file; the program is put together in CSB\_Progs\_Net\_c.
\<close>

definition min_mysql_recvfrom_sendto_20_0_body481 :: "stmt list" where
  "min_mysql_recvfrom_sendto_20_0_body481 = [
    Syscall NR_recvfrom [Reg 2, Ptr 0x2064c680, Imm 4, Imm 0x40, Imm 0, Imm 0], Count,
    Syscall NR_recvfrom [Reg 2, Ptr 0x2064c9c0, Imm 0x15, Imm 0x40, Imm 0, Imm 0], Count,
    Syscall NR_sendto [Reg 2, Write_buf, Imm 0xc0, Imm 0x40, Imm 0, Imm 0], Count,
    Syscall NR_recvfrom [Reg 2, Ptr 0x2064d340, Imm 4, Imm 0x40, Imm 0, Imm 0], Count,
    Syscall NR_recvfrom [Reg 2, Ptr 0x2064d800, Imm 0x15, Imm 0x40, Imm 0, Imm 0], Count,
    Syscall NR_sendto [Reg 2, Write_buf, Imm 0xc0, Imm 0x40, Imm 0, Imm 0], Count,
    Syscall NR_recvfrom [Reg 2, Ptr 0x2064e280, Imm 4, Imm 0x40, Imm 0, Imm 0], Count,
    Syscall NR_recvfrom [Reg 2, Ptr 0x2064e9c0, Imm 0x15, Imm 0x40, Imm 0, Imm 0], Count,
    Syscall NR_sendto [Reg 2, Write_buf, Imm 0xc0, Imm 0x40, Imm 0, Imm 0], Count,
    Syscall NR_recvfrom [Reg 2, Ptr 0x2064f7c0, Imm 4, Imm 0x40, Imm 0, Imm 0], Count]"

definition min_mysql_recvfrom_sendto_20_0_body482 :: "stmt list" where
  "min_mysql_recvfrom_sendto_20_0_body482 = [
    Syscall NR_recvfrom [Reg 2, Ptr 0x20650000, Imm 0x15, Imm 0x40, Imm 0, Imm 0], Count,
    Syscall NR_sendto [Reg 2, Write_buf, Imm 0xc0, Imm 0x40, Imm 0, Imm 0], Count,
    Syscall NR_recvfrom [Reg 2, Ptr 0x20651000, Imm 4, Imm 0x40, Imm 0, Imm 0], Count,
    Syscall NR_recvfrom [Reg 2, Ptr 0x20651a00, Imm 0x15, Imm 0x40, Imm 0, Imm 0], Count,
    Syscall NR_sendto [Reg 2, Write_buf, Imm 0xc0, Imm 0x40, Imm 0, Imm 0], Count,
    Syscall NR_recvfrom [Reg 2, Ptr 0x20652d80, Imm 4, Imm 0x40, Imm 0, Imm 0], Count,
    Syscall NR_recvfrom [Reg 2, Ptr 0x20653840, Imm 0x15, Imm 0x40, Imm 0, Imm 0], Count,
    Syscall NR_sendto [Reg 2, Write_buf, Imm 0xc0, Imm 0x40, Imm 0, Imm 0], Count,
    Syscall NR_recvfrom [Reg 2, Ptr 0x20654cc0, Imm 4, Imm 0x40, Imm 0, Imm 0], Count,
    Syscall NR_recvfrom [Reg 2, Ptr 0x206558c0, Imm 0x15, Imm 0x40, Imm 0, Imm 0], Count]"

definition min_mysql_recvfrom_sendto_20_0_body483 :: "stmt list" where
  "min_mysql_recvfrom_sendto_20_0_body483 = [
    Syscall NR_sendto [Reg 2, Write_buf, Imm 0xc0, Imm 0x40, Imm 0, Imm 0], Count,
    Syscall NR_recvfrom [Reg 2, Ptr 0x20656e40, Imm 4, Imm 0x40, Imm 0, Imm 0], Count,
    Syscall NR_recvfrom [Reg 2, Ptr 0x20657a80, Imm 0x15, Imm 0x40, Imm 0, Imm 0], Count,
    Syscall NR_sendto [Reg 2, Write_buf, Imm 0xc0, Imm 0x40, Imm 0, Imm 0], Count,
    Syscall NR_recvfrom [Reg 2, Ptr 0x20659000, Imm 4, Imm 0x40, Imm 0, Imm 0], Count,
    Syscall NR_recvfrom [Reg 2, Ptr 0x20659c40, Imm 0x15, Imm 0x40, Imm 0, Imm 0], Count,
    Syscall NR_sendto [Reg 2, Write_buf, Imm 0xc0, Imm 0x40, Imm 0, Imm 0], Count,
    Syscall NR_recvfrom [Reg 2, Ptr 0x2065e1c0, Imm 4, Imm 0x40, Imm 0, Imm 0], Count,
    Syscall NR_recvfrom [Reg 2, Ptr 0x20661e80, Imm 0x1d, Imm 0x40, Imm 0, Imm 0], Count,
    Syscall NR_sendto [Reg 2, Write_buf, Imm 0x23a, Imm 0x40, Imm 0, Imm 0], Count]"

definition min_mysql_recvfrom_sendto_20_0_body484 :: "stmt list" where
  "min_mysql_recvfrom_sendto_20_0_body484 = [
    Syscall NR_recvfrom [Reg 2, Ptr 0x206665c0, Imm 4, Imm 0x40, Imm 0, Imm 0], Count,
    Syscall NR_recvfrom [Reg 2, Ptr 0x2066a240, Imm 0x1d, Imm 0x40, Imm 0, Imm 0], Count,
    Syscall NR_sendto [Reg 2, Write_buf, Imm 0x3c, Imm 0x40, Imm 0, Imm 0], Count,
    Syscall NR_recvfrom [Reg 2, Ptr 0x20672040, Imm 4, Imm 0x40, Imm 0, Imm 0], Count,
    Syscall NR_recvfrom [Reg 2, Ptr 0x20678b00, Imm 0x1d, Imm 0x40, Imm 0, Imm 0], Count,
    Syscall NR_sendto [Reg 2, Write_buf, Imm 0x317a, Imm 0x40, Imm 0, Imm 0], Count,
    Syscall NR_recvfrom [Reg 2, Ptr 0x208252c0, Imm 4, Imm 0x40, Imm 0, Imm 0], Count,
    Syscall NR_recvfrom [Reg 2, Ptr 0x2083b480, Imm 0x1d, Imm 0x40, Imm 0, Imm 0], Count,
    Syscall NR_sendto [Reg 2, Write_buf, Imm 0x2040, Imm 0x40, Imm 0, Imm 0], Count,
    Syscall NR_recvfrom [Reg 2, Ptr 0x208a7c80, Imm 4, Imm 0x40, Imm 0, Imm 0], Count]"

definition min_mysql_recvfrom_sendto_20_0_body485 :: "stmt list" where
  "min_mysql_recvfrom_sendto_20_0_body485 = [
    Syscall NR_recvfrom [Reg 2, Ptr 0x208e17c0, Imm 0x15, Imm 0x40, Imm 0, Imm 0], Count,
    Syscall NR_sendto [Reg 2, Write_buf, Imm 0x34, Imm 0x40, Imm 0, Imm 0], Count,
    Syscall NR_recvfrom [Reg 2, Ptr 0x20943080, Imm 4, Imm 0x40, Imm 0, Imm 0], Count,
    Syscall NR_recvfrom [Reg 2, Ptr 0x2095fd40, Imm 0x8d, Imm 0x40, Imm 0, Imm 0], Count,
    Syscall NR_sendto [Reg 2, Write_buf, Imm 0x34, Imm 0x40, Imm 0, Imm 0], Count,
    Syscall NR_recvfrom [Reg 2, Ptr 0x2098dc80, Imm 4, Imm 0x40, Imm 0, Imm 0], Count,
    Syscall NR_recvfrom [Reg 2, Ptr 0x2099e480, Imm 0x15, Imm 0x40, Imm 0, Imm 0], Count,
    Syscall NR_sendto [Reg 2, Write_buf, Imm 0xb, Imm 0x40, Imm 0, Imm 0], Count,
    Syscall NR_recvfrom [Reg 2, Ptr 0x209da280, Imm 4, Imm 0x40, Imm 0, Imm 0], Count,
    Syscall NR_recvfrom [Reg 2, Ptr 0x20a06380, Imm 0xd1, Imm 0x40, Imm 0, Imm 0], Count]"

definition min_mysql_recvfrom_sendto_20_0_body486 :: "stmt list" where
  "min_mysql_recvfrom_sendto_20_0_body486 = [
    Syscall NR_sendto [Reg 2, Write_buf, Imm 0xd, Imm 0x40, Imm 0, Imm 0], Count,
    Syscall NR_recvfrom [Reg 2, Ptr 0x20a50e00, Imm 4, Imm 0x40, Imm 0, Imm 0], Count,
    Syscall NR_recvfrom [Reg 2, Ptr 0x20aae800, Imm 0xb, Imm 0x40, Imm 0, Imm 0], Count,
    Syscall NR_sendto [Reg 2, Write_buf, Imm 0x18, Imm 0x40, Imm 0, Imm 0], Count,
    Syscall NR_recvfrom [Reg 2, Ptr 0x20d9c140, Imm 4, Imm 0x40, Imm 0, Imm 0], Count,
    Syscall NR_recvfrom [Reg 2, Ptr 0x20d9c1c0, Imm 8, Imm 0x40, Imm 0, Imm 0], Count,
    Syscall NR_sendto [Reg 2, Write_buf, Imm 0x18, Imm 0x40, Imm 0, Imm 0], Count,
    Syscall NR_recvfrom [Reg 2, Ptr 0x20d9c2c0, Imm 4, Imm 0x40, Imm 0, Imm 0], Count,
    Syscall NR_recvfrom [Reg 2, Ptr 0x20d9c300, Imm 0x15, Imm 0x40, Imm 0, Imm 0], Count,
    Syscall NR_sendto [Reg 2, Write_buf, Imm 0xc0, Imm 0x40, Imm 0, Imm 0], Count]"

definition min_mysql_recvfrom_sendto_20_0_body487 :: "stmt list" where
  "min_mysql_recvfrom_sendto_20_0_body487 = [
    Syscall NR_recvfrom [Reg 2, Ptr 0x20d9c540, Imm 4, Imm 0x40, Imm 0, Imm 0], Count,
    Syscall NR_recvfrom [Reg 2, Ptr 0x20d9c580, Imm 0x15, Imm 0x40, Imm 0, Imm 0], Count,
    Syscall NR_sendto [Reg 2, Write_buf, Imm 0xc0, Imm 0x40, Imm 0, Imm 0], Count,
    Syscall NR_recvfrom [Reg 2, Ptr 0x20d9c7c0, Imm 4, Imm 0x40, Imm 0, Imm 0], Count,
    Syscall NR_recvfrom [Reg 2, Ptr 0x20d9c800, Imm 0x15, Imm 0x40, Imm 0, Imm 0], Count,
    Syscall NR_sendto [Reg 2, Write_buf, Imm 0xc0, Imm 0x40, Imm 0, Imm 0], Count,
    Syscall NR_recvfrom [Reg 2, Ptr 0x20d9ca40, Imm 4, Imm 0x40, Imm 0, Imm 0], Count,
    Syscall NR_recvfrom [Reg 2, Ptr 0x20d9cb40, Imm 0x15, Imm 0x40, Imm 0, Imm 0], Count,
    Syscall NR_sendto [Reg 2, Write_buf, Imm 0xc0, Imm 0x40, Imm 0, Imm 0], Count,
    Syscall NR_recvfrom [Reg 2, Ptr 0x20d9ccc0, Imm 4, Imm 0x40, Imm 0, Imm 0], Count]"

definition min_mysql_recvfrom_sendto_20_0_body488 :: "stmt list" where
  "min_mysql_recvfrom_sendto_20_0_body488 = [
    Syscall NR_recvfrom [Reg 2, Ptr 0x20d9cdc0, Imm 0x15, Imm 0x40, Imm 0, Imm 0], Count,
    Syscall NR_sendto [Reg 2, Write_buf, Imm 0xc0, Imm 0x40, Imm 0, Imm 0], Count,
    Syscall NR_recvfrom [Reg 2, Ptr 0x20d9cf40, Imm 4, Imm 0x40, Imm 0, Imm 0], Count,
    Syscall NR_recvfrom [Reg 2, Ptr 0x20d9d040, Imm 0x15, Imm 0x40, Imm 0, Imm 0], Count,
    Syscall NR_sendto [Reg 2, Write_buf, Imm 0xc0, Imm 0x40, Imm 0, Imm 0], Count,
    Syscall NR_recvfrom [Reg 2, Ptr 0x20d9d280, Imm 4, Imm 0x40, Imm 0, Imm 0], Count,
    Syscall NR_recvfrom [Reg 2, Ptr 0x20d9d300, Imm 0x15, Imm 0x40, Imm 0, Imm 0], Count,
    Syscall NR_sendto [Reg 2, Write_buf, Imm 0xc0, Imm 0x40, Imm 0, Imm 0], Count,
    Syscall NR_recvfrom [Reg 2, Ptr 0x20d9d540, Imm 4, Imm 0x40, Imm 0, Imm 0], Count,
    Syscall NR_recvfrom [Reg 2, Ptr 0x20d9d5c0, Imm 0x15, Imm 0x40, Imm 0, Imm 0], Count]"

definition min_mysql_recvfrom_sendto_20_0_body489 :: "stmt list" where
  "min_mysql_recvfrom_sendto_20_0_body489 = [
    Syscall NR_sendto [Reg 2, Write_buf, Imm 0xc0, Imm 0x40, Imm 0, Imm 0], Count,
    Syscall NR_recvfrom [Reg 2, Ptr 0x20d9d800, Imm 4, Imm 0x40, Imm 0, Imm 0], Count,
    Syscall NR_recvfrom [Reg 2, Ptr 0x20d9d840, Imm 0x15, Imm 0x40, Imm 0, Imm 0], Count,
    Syscall NR_sendto [Reg 2, Write_buf, Imm 0xc0, Imm 0x40, Imm 0, Imm 0], Count,
    Syscall NR_recvfrom [Reg 2, Ptr 0x20d9da80, Imm 4, Imm 0x40, Imm 0, Imm 0], Count,
    Syscall NR_recvfrom [Reg 2, Ptr 0x20d9dac0, Imm 0x15, Imm 0x40, Imm 0, Imm 0], Count,
    Syscall NR_sendto [Reg 2, Write_buf, Imm 0xc0, Imm 0x40, Imm 0, Imm 0], Count,
    Syscall NR_recvfrom [Reg 2, Ptr 0x20d9dbc0, Imm 4, Imm 0x40, Imm 0, Imm 0], Count,
    Syscall NR_recvfrom [Reg 2, Ptr 0x20d9dc00, Imm 0x1d, Imm 0x40, Imm 0, Imm 0], Count,
    Syscall NR_sendto [Reg 2, Write_buf, Imm 0x317a, Imm 0x40, Imm 0, Imm 0], Count]"

definition min_mysql_recvfrom_sendto_20_0_body490 :: "stmt list" where
  "min_mysql_recvfrom_sendto_20_0_body490 = [
    Syscall NR_recvfrom [Reg 2, Ptr 0x20da4000, Imm 4, Imm 0x40, Imm 0, Imm 0], Count,
    Store 4 0x20da4080 (Reg 2), Store 2 0x20da4084 (Imm 3), Store 2 0x20da4086 (Imm 0),
    Store 8 0x20da40c0 (Imm 0x7080), Store 8 0x20da40c8 (Imm 0), Store 8 0x20da4100 (Imm 1),
    Syscall NR_ppoll [Ptr 0x20da4080, Imm 1, Ptr 0x20da40c0, Ptr 0x20da4100, Imm 8], Count,
    Syscall NR_recvfrom [Reg 2, Ptr 0x20da4180, Imm 4, Imm 0x40, Imm 0, Imm 0], Count,
    Syscall NR_recvfrom [Reg 2, Ptr 0x20da41c0, Imm 0x1d, Imm 0x40, Imm 0, Imm 0], Count,
    Syscall NR_sendto [Reg 2, Write_buf, Imm 0x3c, Imm 0x40, Imm 0, Imm 0], Count,
    Syscall NR_recvfrom [Reg 2, Ptr 0x20da4280, Imm 4, Imm 0x40, Imm 0, Imm 0], Count,
    Syscall NR_recvfrom [Reg 2, Ptr 0x20da4340, Imm 0x1d, Imm 0x40, Imm 0, Imm 0], Count,
    Syscall NR_sendto [Reg 2, Write_buf, Imm 0x3178, Imm 0x40, Imm 0, Imm 0], Count]"

definition min_mysql_recvfrom_sendto_20_0_body491 :: "stmt list" where
  "min_mysql_recvfrom_sendto_20_0_body491 = [
    Syscall NR_recvfrom [Reg 2, Ptr 0x20ddeb40, Imm 4, Imm 0x40, Imm 0, Imm 0], Count,
    Store 4 0x20ddebc0 (Reg 2), Store 2 0x20ddebc4 (Imm 3), Store 2 0x20ddebc6 (Imm 0),
    Store 8 0x20ddec00 (Imm 0x7080), Store 8 0x20ddec08 (Imm 0), Store 8 0x20ddec40 (Imm 1),
    Syscall NR_ppoll [Ptr 0x20ddebc0, Imm 1, Ptr 0x20ddec00, Ptr 0x20ddec40, Imm 8], Count,
    Syscall NR_recvfrom [Reg 2, Ptr 0x20dded00, Imm 4, Imm 0x40, Imm 0, Imm 0], Count,
    Syscall NR_recvfrom [Reg 2, Ptr 0x20ddedc0, Imm 0x1d, Imm 0x40, Imm 0, Imm 0], Count,
    Syscall NR_sendto [Reg 2, Write_buf, Imm 0x3178, Imm 0x40, Imm 0, Imm 0], Count,
    Syscall NR_recvfrom [Reg 2, Ptr 0x20e16080, Imm 4, Imm 0x40, Imm 0, Imm 0], Count,
    Syscall NR_recvfrom [Reg 2, Ptr 0x20e160c0, Imm 0x15, Imm 0x40, Imm 0, Imm 0], Count,
    Syscall NR_sendto [Reg 2, Write_buf, Imm 0x34, Imm 0x40, Imm 0, Imm 0], Count,
    Syscall NR_recvfrom [Reg 2, Ptr 0x20e16240, Imm 4, Imm 0x40, Imm 0, Imm 0], Count]"

definition min_mysql_recvfrom_sendto_20_0_body492 :: "stmt list" where
  "min_mysql_recvfrom_sendto_20_0_body492 = [
    Syscall NR_recvfrom [Reg 2, Ptr 0x20e162c0, Imm 0x8d, Imm 0x40, Imm 0, Imm 0], Count,
    Syscall NR_sendto [Reg 2, Write_buf, Imm 0x34, Imm 0x40, Imm 0, Imm 0], Count,
    Syscall NR_recvfrom [Reg 2, Ptr 0x20e16540, Imm 4, Imm 0x40, Imm 0, Imm 0], Count,
    Syscall NR_recvfrom [Reg 2, Ptr 0x20e165c0, Imm 0x15, Imm 0x40, Imm 0, Imm 0], Count,
    Syscall NR_sendto [Reg 2, Write_buf, Imm 0xb, Imm 0x40, Imm 0, Imm 0], Count,
    Syscall NR_recvfrom [Reg 2, Ptr 0x20e16c40, Imm 4, Imm 0x40, Imm 0, Imm 0], Count,
    Syscall NR_recvfrom [Reg 2, Ptr 0x20e16c80, Imm 0xd1, Imm 0x40, Imm 0, Imm 0], Count,
    Syscall NR_sendto [Reg 2, Write_buf, Imm 0xd, Imm 0x40, Imm 0, Imm 0], Count,
    Syscall NR_recvfrom [Reg 2, Ptr 0x20e16fc0, Imm 4, Imm 0x40, Imm 0, Imm 0], Count,
    Syscall NR_recvfrom [Reg 2, Ptr 0x20e17000, Imm 0xb, Imm 0x40, Imm 0, Imm 0], Count]"

definition min_mysql_recvfrom_sendto_20_0_body493 :: "stmt list" where
  "min_mysql_recvfrom_sendto_20_0_body493 = [
    Syscall NR_sendto [Reg 2, Write_buf, Imm 0x18, Imm 0x40, Imm 0, Imm 0], Count,
    Syscall NR_recvfrom [Reg 2, Ptr 0x20556440, Imm 4, Imm 0x40, Imm 0, Imm 0], Count,
    Syscall NR_recvfrom [Reg 2, Ptr 0x20556480, Imm 8, Imm 0x40, Imm 0, Imm 0], Count,
    Syscall NR_sendto [Reg 2, Write_buf, Imm 0x18, Imm 0x40, Imm 0, Imm 0], Count,
    Syscall NR_recvfrom [Reg 2, Ptr 0x205565c0, Imm 4, Imm 0x40, Imm 0, Imm 0], Count,
    Syscall NR_recvfrom [Reg 2, Ptr 0x20556600, Imm 0x15, Imm 0x40, Imm 0, Imm 0], Count,
    Syscall NR_sendto [Reg 2, Write_buf, Imm 0xbe, Imm 0x40, Imm 0, Imm 0], Count,
    Syscall NR_recvfrom [Reg 2, Ptr 0x20556840, Imm 4, Imm 0x40, Imm 0, Imm 0], Count,
    Syscall NR_recvfrom [Reg 2, Ptr 0x20556880, Imm 0x15, Imm 0x40, Imm 0, Imm 0], Count,
    Syscall NR_sendto [Reg 2, Write_buf, Imm 0xbe, Imm 0x40, Imm 0, Imm 0], Count]"

definition min_mysql_recvfrom_sendto_20_0_body494 :: "stmt list" where
  "min_mysql_recvfrom_sendto_20_0_body494 = [
    Syscall NR_recvfrom [Reg 2, Ptr 0x20556ac0, Imm 4, Imm 0x40, Imm 0, Imm 0], Count,
    Syscall NR_recvfrom [Reg 2, Ptr 0x20556bc0, Imm 0x15, Imm 0x40, Imm 0, Imm 0], Count,
    Syscall NR_sendto [Reg 2, Write_buf, Imm 0xbe, Imm 0x40, Imm 0, Imm 0], Count,
    Syscall NR_recvfrom [Reg 2, Ptr 0x20576d80, Imm 4, Imm 0x40, Imm 0, Imm 0], Count,
    Syscall NR_recvfrom [Reg 2, Ptr 0x20576f00, Imm 0x15, Imm 0x40, Imm 0, Imm 0], Count,
    Syscall NR_sendto [Reg 2, Write_buf, Imm 0xbe, Imm 0x40, Imm 0, Imm 0], Count,
    Syscall NR_recvfrom [Reg 2, Ptr 0x20577100, Imm 4, Imm 0x40, Imm 0, Imm 0], Count,
    Syscall NR_recvfrom [Reg 2, Ptr 0x20577280, Imm 0x15, Imm 0x40, Imm 0, Imm 0], Count,
    Syscall NR_sendto [Reg 2, Write_buf, Imm 0xbe, Imm 0x40, Imm 0, Imm 0], Count,
    Syscall NR_recvfrom [Reg 2, Ptr 0x20577400, Imm 4, Imm 0x40, Imm 0, Imm 0], Count]"

definition min_mysql_recvfrom_sendto_20_0_body495 :: "stmt list" where
  "min_mysql_recvfrom_sendto_20_0_body495 = [
    Syscall NR_recvfrom [Reg 2, Ptr 0x20577500, Imm 0x15, Imm 0x40, Imm 0, Imm 0], Count,
    Syscall NR_sendto [Reg 2, Write_buf, Imm 0xbe, Imm 0x40, Imm 0, Imm 0], Count,
    Syscall NR_recvfrom [Reg 2, Ptr 0x20577680, Imm 4, Imm 0x40, Imm 0, Imm 0], Count,
    Syscall NR_recvfrom [Reg 2, Ptr 0x20577780, Imm 0x15, Imm 0x40, Imm 0, Imm 0], Count,
    Syscall NR_sendto [Reg 2, Write_buf, Imm 0xbe, Imm 0x40, Imm 0, Imm 0], Count,
    Syscall NR_recvfrom [Reg 2, Ptr 0x205779c0, Imm 4, Imm 0x40, Imm 0, Imm 0], Count,
    Syscall NR_recvfrom [Reg 2, Ptr 0x20577a40, Imm 0x15, Imm 0x40, Imm 0, Imm 0], Count,
    Syscall NR_sendto [Reg 2, Write_buf, Imm 0xbe, Imm 0x40, Imm 0, Imm 0], Count,
    Syscall NR_recvfrom [Reg 2, Ptr 0x20577c40, Imm 4, Imm 0x40, Imm 0, Imm 0], Count,
    Syscall NR_recvfrom [Reg 2, Ptr 0x20577cc0, Imm 0x15, Imm 0x40, Imm 0, Imm 0], Count]"

definition min_mysql_recvfrom_sendto_20_0_body496 :: "stmt list" where
  "min_mysql_recvfrom_sendto_20_0_body496 = [
    Syscall NR_sendto [Reg 2, Write_buf, Imm 0xbe, Imm 0x40, Imm 0, Imm 0], Count,
    Syscall NR_recvfrom [Reg 2, Ptr 0x20577ec0, Imm 4, Imm 0x40, Imm 0, Imm 0], Count,
    Syscall NR_recvfrom [Reg 2, Ptr 0x20577f40, Imm 0x15, Imm 0x40, Imm 0, Imm 0], Count,
    Syscall NR_sendto [Reg 2, Write_buf, Imm 0xbe, Imm 0x40, Imm 0, Imm 0], Count,
    Syscall NR_recvfrom [Reg 2, Ptr 0x20578080, Imm 4, Imm 0x40, Imm 0, Imm 0], Count,
    Syscall NR_recvfrom [Reg 2, Ptr 0x205780c0, Imm 0x1d, Imm 0x40, Imm 0, Imm 0], Count,
    Syscall NR_sendto [Reg 2, Write_buf, Imm 0x3178, Imm 0x40, Imm 0, Imm 0], Count,
    Syscall NR_recvfrom [Reg 2, Ptr 0x2057e480, Imm 4, Imm 0x40, Imm 0, Imm 0], Count,
    Syscall NR_recvfrom [Reg 2, Ptr 0x2057e4c0, Imm 0x1d, Imm 0x40, Imm 0, Imm 0], Count,
    Syscall NR_sendto [Reg 2, Write_buf, Imm 0x3c, Imm 0x40, Imm 0, Imm 0], Count]"

definition min_mysql_recvfrom_sendto_20_0_body497 :: "stmt list" where
  "min_mysql_recvfrom_sendto_20_0_body497 = [
    Syscall NR_recvfrom [Reg 2, Ptr 0x2057e600, Imm 4, Imm 0x40, Imm 0, Imm 0], Count,
    Syscall NR_recvfrom [Reg 2, Ptr 0x2057e640, Imm 0x1d, Imm 0x40, Imm 0, Imm 0], Count,
    Syscall NR_sendto [Reg 2, Write_buf, Imm 0x317a, Imm 0x40, Imm 0, Imm 0], Count,
    Syscall NR_recvfrom [Reg 2, Ptr 0x205b8f00, Imm 4, Imm 0x40, Imm 0, Imm 0], Count,
    Syscall NR_recvfrom [Reg 2, Ptr 0x205b8f40, Imm 0x1d, Imm 0x40, Imm 0, Imm 0], Count,
    Syscall NR_sendto [Reg 2, Write_buf, Imm 0x2e86, Imm 0x40, Imm 0, Imm 0], Count,
    Syscall NR_recvfrom [Reg 2, Ptr 0x205ee7c0, Imm 4, Imm 0x40, Imm 0, Imm 0], Count,
    Syscall NR_recvfrom [Reg 2, Ptr 0x205ee800, Imm 0x15, Imm 0x40, Imm 0, Imm 0], Count,
    Syscall NR_sendto [Reg 2, Write_buf, Imm 0x34, Imm 0x40, Imm 0, Imm 0], Count,
    Syscall NR_recvfrom [Reg 2, Ptr 0x205ee9c0, Imm 4, Imm 0x40, Imm 0, Imm 0], Count]"

definition min_mysql_recvfrom_sendto_20_0_body498 :: "stmt list" where
  "min_mysql_recvfrom_sendto_20_0_body498 = [
    Syscall NR_recvfrom [Reg 2, Ptr 0x205eea40, Imm 0x8d, Imm 0x40, Imm 0, Imm 0], Count,
    Syscall NR_sendto [Reg 2, Write_buf, Imm 0x34, Imm 0x40, Imm 0, Imm 0], Count,
    Syscall NR_recvfrom [Reg 2, Ptr 0x205eebc0, Imm 4, Imm 0x40, Imm 0, Imm 0], Count,
    Syscall NR_recvfrom [Reg 2, Ptr 0x205eec40, Imm 0x15, Imm 0x40, Imm 0, Imm 0], Count,
    Syscall NR_sendto [Reg 2, Write_buf, Imm 0xb, Imm 0x40, Imm 0, Imm 0], Count,
    Syscall NR_recvfrom [Reg 2, Ptr 0x205eee40, Imm 4, Imm 0x40, Imm 0, Imm 0], Count,
    Syscall NR_recvfrom [Reg 2, Ptr 0x205eeec0, Imm 0xd1, Imm 0x40, Imm 0, Imm 0], Count,
    Syscall NR_sendto [Reg 2, Write_buf, Imm 0xb, Imm 0x40, Imm 0, Imm 0], Count,
    Syscall NR_recvfrom [Reg 2, Ptr 0x205ef040, Imm 4, Imm 0x40, Imm 0, Imm 0], Count,
    Syscall NR_recvfrom [Reg 2, Ptr 0x205ef080, Imm 0xb, Imm 0x40, Imm 0, Imm 0], Count]"

definition min_mysql_recvfrom_sendto_20_0_body499 :: "stmt list" where
  "min_mysql_recvfrom_sendto_20_0_body499 = [
    Syscall NR_sendto [Reg 2, Write_buf, Imm 0x18, Imm 0x40, Imm 0, Imm 0], Count,
    Syscall NR_recvfrom [Reg 2, Ptr 0x20ba0380, Imm 4, Imm 0x40, Imm 0, Imm 0], Count,
    Syscall NR_recvfrom [Reg 2, Ptr 0x20ba0500, Imm 8, Imm 0x40, Imm 0, Imm 0], Count,
    Syscall NR_sendto [Reg 2, Write_buf, Imm 0x18, Imm 0x40, Imm 0, Imm 0], Count,
    Syscall NR_recvfrom [Reg 2, Ptr 0x20ba0a00, Imm 4, Imm 0x40, Imm 0, Imm 0], Count,
    Syscall NR_recvfrom [Reg 2, Ptr 0x20ba0b80, Imm 0x15, Imm 0x40, Imm 0, Imm 0], Count,
    Syscall NR_sendto [Reg 2, Write_buf, Imm 0xbe, Imm 0x40, Imm 0, Imm 0], Count,
    Syscall NR_recvfrom [Reg 2, Ptr 0x20ba12c0, Imm 4, Imm 0x40, Imm 0, Imm 0], Count,
    Syscall NR_recvfrom [Reg 2, Ptr 0x20ba1500, Imm 0x15, Imm 0x40, Imm 0, Imm 0], Count,
    Syscall NR_sendto [Reg 2, Write_buf, Imm 0xbe, Imm 0x40, Imm 0, Imm 0], Count]"

definition min_mysql_recvfrom_sendto_20_0_body500 :: "stmt list" where
  "min_mysql_recvfrom_sendto_20_0_body500 = [
    Syscall NR_recvfrom [Reg 2, Ptr 0x20ba1cc0, Imm 4, Imm 0x40, Imm 0, Imm 0], Count,
    Syscall NR_recvfrom [Reg 2, Ptr 0x20ba1e40, Imm 0x15, Imm 0x40, Imm 0, Imm 0], Count,
    Syscall NR_sendto [Reg 2, Write_buf, Imm 0xbe, Imm 0x40, Imm 0, Imm 0], Count,
    Syscall NR_recvfrom [Reg 2, Ptr 0x20ba2580, Imm 4, Imm 0x40, Imm 0, Imm 0], Count,
    Syscall NR_recvfrom [Reg 2, Ptr 0x20ba2700, Imm 0x15, Imm 0x40, Imm 0, Imm 0], Count,
    Syscall NR_sendto [Reg 2, Write_buf, Imm 0xbe, Imm 0x40, Imm 0, Imm 0], Count,
    Syscall NR_recvfrom [Reg 2, Ptr 0x20ba2ec0, Imm 4, Imm 0x40, Imm 0, Imm 0], Count,
    Syscall NR_recvfrom [Reg 2, Ptr 0x20ba3000, Imm 0x15, Imm 0x40, Imm 0, Imm 0], Count,
    Syscall NR_sendto [Reg 2, Write_buf, Imm 0xbe, Imm 0x40, Imm 0, Imm 0], Count,
    Syscall NR_recvfrom [Reg 2, Ptr 0x20ba3800, Imm 4, Imm 0x40, Imm 0, Imm 0], Count]"

definition min_mysql_recvfrom_sendto_20_0_body501 :: "stmt list" where
  "min_mysql_recvfrom_sendto_20_0_body501 = [
    Syscall NR_recvfrom [Reg 2, Ptr 0x20ba39c0, Imm 0x15, Imm 0x40, Imm 0, Imm 0], Count,
    Syscall NR_sendto [Reg 2, Write_buf, Imm 0xbe, Imm 0x40, Imm 0, Imm 0], Count,
    Syscall NR_recvfrom [Reg 2, Ptr 0x20ba40c0, Imm 4, Imm 0x40, Imm 0, Imm 0], Count,
    Syscall NR_recvfrom [Reg 2, Ptr 0x20ba4340, Imm 0x15, Imm 0x40, Imm 0, Imm 0], Count,
    Syscall NR_sendto [Reg 2, Write_buf, Imm 0xbe, Imm 0x40, Imm 0, Imm 0], Count,
    Syscall NR_recvfrom [Reg 2, Ptr 0x20ba4a00, Imm 4, Imm 0x40, Imm 0, Imm 0], Count,
    Syscall NR_recvfrom [Reg 2, Ptr 0x20ba4c00, Imm 0x15, Imm 0x40, Imm 0, Imm 0], Count,
    Syscall NR_sendto [Reg 2, Write_buf, Imm 0xbe, Imm 0x40, Imm 0, Imm 0], Count,
    Syscall NR_recvfrom [Reg 2, Ptr 0x20ba52c0, Imm 4, Imm 0x40, Imm 0, Imm 0], Count,
    Syscall NR_recvfrom [Reg 2, Ptr 0x20ba54c0, Imm 0x15, Imm 0x40, Imm 0, Imm 0], Count]"

definition min_mysql_recvfrom_sendto_20_0_body502 :: "stmt list" where
  "min_mysql_recvfrom_sendto_20_0_body502 = [
    Syscall NR_sendto [Reg 2, Write_buf, Imm 0xbe, Imm 0x40, Imm 0, Imm 0], Count,
    Syscall NR_recvfrom [Reg 2, Ptr 0x20ba5c00, Imm 4, Imm 0x40, Imm 0, Imm 0], Count,
    Syscall NR_recvfrom [Reg 2, Ptr 0x20ba5cc0, Imm 0x15, Imm 0x40, Imm 0, Imm 0], Count,
    Syscall NR_sendto [Reg 2, Write_buf, Imm 0xbe, Imm 0x40, Imm 0, Imm 0], Count,
    Syscall NR_recvfrom [Reg 2, Ptr 0x20baf640, Imm 4, Imm 0x40, Imm 0, Imm 0], Count,
    Syscall NR_recvfrom [Reg 2, Ptr 0x20baf680, Imm 0x1d, Imm 0x40, Imm 0, Imm 0], Count,
    Syscall NR_sendto [Reg 2, Write_buf, Imm 0x1bc, Imm 0x40, Imm 0, Imm 0], Count,
    Syscall NR_recvfrom [Reg 2, Ptr 0x20bb5e00, Imm 4, Imm 0x40, Imm 0, Imm 0], Count,
    Syscall NR_recvfrom [Reg 2, Ptr 0x20bb5f80, Imm 0x1d, Imm 0x40, Imm 0, Imm 0], Count,
    Syscall NR_sendto [Reg 2, Write_buf, Imm 0x3c, Imm 0x40, Imm 0, Imm 0], Count]"

definition min_mysql_recvfrom_sendto_20_0_body503 :: "stmt list" where
  "min_mysql_recvfrom_sendto_20_0_body503 = [
    Syscall NR_recvfrom [Reg 2, Ptr 0x20bb7100, Imm 4, Imm 0x40, Imm 0, Imm 0], Count,
    Syscall NR_recvfrom [Reg 2, Ptr 0x20bba340, Imm 0x1d, Imm 0x40, Imm 0, Imm 0], Count,
    Syscall NR_sendto [Reg 2, Write_buf, Imm 0x317a, Imm 0x40, Imm 0, Imm 0], Count,
    Syscall NR_recvfrom [Reg 2, Ptr 0x20c73800, Imm 4, Imm 0x40, Imm 0, Imm 0], Count,
    Syscall NR_recvfrom [Reg 2, Ptr 0x20c7aa80, Imm 0x1d, Imm 0x40, Imm 0, Imm 0], Count,
    Syscall NR_sendto [Reg 2, Write_buf, Imm 0x317a, Imm 0x40, Imm 0, Imm 0], Count,
    Syscall NR_recvfrom [Reg 2, Ptr 0x20cd9d40, Imm 4, Imm 0x40, Imm 0, Imm 0], Count,
    Syscall NR_recvfrom [Reg 2, Ptr 0x20cd9ec0, Imm 0x15, Imm 0x40, Imm 0, Imm 0], Count,
    Syscall NR_sendto [Reg 2, Write_buf, Imm 0x34, Imm 0x40, Imm 0, Imm 0], Count,
    Syscall NR_recvfrom [Reg 2, Ptr 0x20cda240, Imm 4, Imm 0x40, Imm 0, Imm 0], Count]"

definition min_mysql_recvfrom_sendto_20_0_body504 :: "stmt list" where
  "min_mysql_recvfrom_sendto_20_0_body504 = [
    Syscall NR_recvfrom [Reg 2, Ptr 0x20cdad40, Imm 0x8d, Imm 0x40, Imm 0, Imm 0], Count,
    Syscall NR_sendto [Reg 2, Write_buf, Imm 0x34, Imm 0x40, Imm 0, Imm 0], Count,
    Syscall NR_recvfrom [Reg 2, Ptr 0x20213f00, Imm 4, Imm 0x40, Imm 0, Imm 0], Count,
    Syscall NR_recvfrom [Reg 2, Ptr 0x20213f40, Imm 0x15, Imm 0x40, Imm 0, Imm 0], Count,
    Syscall NR_sendto [Reg 2, Write_buf, Imm 0xb, Imm 0x40, Imm 0, Imm 0], Count,
    Syscall NR_recvfrom [Reg 2, Ptr 0x2021d2c0, Imm 4, Imm 0x40, Imm 0, Imm 0], Count,
    Syscall NR_recvfrom [Reg 2, Ptr 0x20221400, Imm 0xd1, Imm 0x40, Imm 0, Imm 0], Count,
    Syscall NR_sendto [Reg 2, Write_buf, Imm 0xd, Imm 0x40, Imm 0, Imm 0], Count,
    Syscall NR_recvfrom [Reg 2, Ptr 0x20226c40, Imm 4, Imm 0x40, Imm 0, Imm 0], Count,
    Syscall NR_recvfrom [Reg 2, Ptr 0x20239080, Imm 0xb, Imm 0x40, Imm 0, Imm 0], Count]"

definition min_mysql_recvfrom_sendto_20_0_body505 :: "stmt list" where
  "min_mysql_recvfrom_sendto_20_0_body505 = [
    Syscall NR_sendto [Reg 2, Write_buf, Imm 0x18, Imm 0x40, Imm 0, Imm 0], Count,
    Syscall NR_recvfrom [Reg 2, Ptr 0x2036c300, Imm 4, Imm 0x40, Imm 0, Imm 0], Count,
    Syscall NR_recvfrom [Reg 2, Ptr 0x2036cdc0, Imm 8, Imm 0x40, Imm 0, Imm 0], Count,
    Syscall NR_sendto [Reg 2, Write_buf, Imm 0x18, Imm 0x40, Imm 0, Imm 0], Count,
    Syscall NR_recvfrom [Reg 2, Ptr 0x2036e380, Imm 4, Imm 0x40, Imm 0, Imm 0], Count,
    Syscall NR_recvfrom [Reg 2, Ptr 0x2036ef00, Imm 0x15, Imm 0x40, Imm 0, Imm 0], Count,
    Syscall NR_sendto [Reg 2, Write_buf, Imm 0xc0, Imm 0x40, Imm 0, Imm 0], Count,
    Syscall NR_recvfrom [Reg 2, Ptr 0x20370540, Imm 4, Imm 0x40, Imm 0, Imm 0], Count,
    Syscall NR_recvfrom [Reg 2, Ptr 0x20371140, Imm 0x15, Imm 0x40, Imm 0, Imm 0], Count,
    Syscall NR_sendto [Reg 2, Write_buf, Imm 0xc0, Imm 0x40, Imm 0, Imm 0], Count]"

definition min_mysql_recvfrom_sendto_20_0_body506 :: "stmt list" where
  "min_mysql_recvfrom_sendto_20_0_body506 = [
    Syscall NR_recvfrom [Reg 2, Ptr 0x20372840, Imm 4, Imm 0x40, Imm 0, Imm 0], Count,
    Syscall NR_recvfrom [Reg 2, Ptr 0x20373440, Imm 0x15, Imm 0x40, Imm 0, Imm 0], Count,
    Syscall NR_sendto [Reg 2, Write_buf, Imm 0xc0, Imm 0x40, Imm 0, Imm 0], Count,
    Syscall NR_recvfrom [Reg 2, Ptr 0x20374b40, Imm 4, Imm 0x40, Imm 0, Imm 0], Count,
    Syscall NR_recvfrom [Reg 2, Ptr 0x20375740, Imm 0x15, Imm 0x40, Imm 0, Imm 0], Count,
    Syscall NR_sendto [Reg 2, Write_buf, Imm 0xc0, Imm 0x40, Imm 0, Imm 0], Count,
    Syscall NR_recvfrom [Reg 2, Ptr 0x20376e40, Imm 4, Imm 0x40, Imm 0, Imm 0], Count,
    Syscall NR_recvfrom [Reg 2, Ptr 0x20377a40, Imm 0x15, Imm 0x40, Imm 0, Imm 0], Count,
    Syscall NR_sendto [Reg 2, Write_buf, Imm 0xc0, Imm 0x40, Imm 0, Imm 0], Count,
    Syscall NR_recvfrom [Reg 2, Ptr 0x2037c100, Imm 4, Imm 0x40, Imm 0, Imm 0], Count]"

definition min_mysql_recvfrom_sendto_20_0_body507 :: "stmt list" where
  "min_mysql_recvfrom_sendto_20_0_body507 = [
    Syscall NR_recvfrom [Reg 2, Ptr 0x20389080, Imm 0x15, Imm 0x40, Imm 0, Imm 0], Count,
    Syscall NR_sendto [Reg 2, Write_buf, Imm 0xc0, Imm 0x40, Imm 0, Imm 0], Count,
    Syscall NR_recvfrom [Reg 2, Ptr 0x20393880, Imm 4, Imm 0x40, Imm 0, Imm 0], Count,
    Syscall NR_recvfrom [Reg 2, Ptr 0x203973c0, Imm 0x15, Imm 0x40, Imm 0, Imm 0], Count,
    Syscall NR_sendto [Reg 2, Write_buf, Imm 0xc0, Imm 0x40, Imm 0, Imm 0], Count,
    Syscall NR_recvfrom [Reg 2, Ptr 0x203a4980, Imm 4, Imm 0x40, Imm 0, Imm 0], Count,
    Syscall NR_recvfrom [Reg 2, Ptr 0x203a5500, Imm 0x15, Imm 0x40, Imm 0, Imm 0], Count,
    Syscall NR_sendto [Reg 2, Write_buf, Imm 0xc0, Imm 0x40, Imm 0, Imm 0], Count,
    Syscall NR_recvfrom [Reg 2, Ptr 0x203a8040, Imm 4, Imm 0x40, Imm 0, Imm 0], Count,
    Syscall NR_recvfrom [Reg 2, Ptr 0x203b1d40, Imm 0x15, Imm 0x40, Imm 0, Imm 0], Count]"

definition min_mysql_recvfrom_sendto_20_0_body508 :: "stmt list" where
  "min_mysql_recvfrom_sendto_20_0_body508 = [
    Syscall NR_sendto [Reg 2, Write_buf, Imm 0xc0, Imm 0x40, Imm 0, Imm 0], Count,
    Syscall NR_recvfrom [Reg 2, Ptr 0x203ed3c0, Imm 4, Imm 0x40, Imm 0, Imm 0], Count,
    Syscall NR_recvfrom [Reg 2, Ptr 0x203fdbc0, Imm 0x15, Imm 0x40, Imm 0, Imm 0], Count,
    Syscall NR_sendto [Reg 2, Write_buf, Imm 0xc0, Imm 0x40, Imm 0, Imm 0], Count,
    Syscall NR_recvfrom [Reg 2, Ptr 0x20454900, Imm 4, Imm 0x40, Imm 0, Imm 0], Count,
    Syscall NR_recvfrom [Reg 2, Ptr 0x204822c0, Imm 0x1d, Imm 0x40, Imm 0, Imm 0], Count,
    Syscall NR_sendto [Reg 2, Write_buf, Imm 0xf06, Imm 0x40, Imm 0, Imm 0], Count,
    Syscall NR_recvfrom [Reg 2, Ptr 0x204c7380, Imm 4, Imm 0x40, Imm 0, Imm 0], Count,
    Syscall NR_recvfrom [Reg 2, Ptr 0x204dba00, Imm 0x1d, Imm 0x40, Imm 0, Imm 0], Count,
    Syscall NR_sendto [Reg 2, Write_buf, Imm 0x3c, Imm 0x40, Imm 0, Imm 0], Count]"

definition min_mysql_recvfrom_sendto_20_0_body509 :: "stmt list" where
  "min_mysql_recvfrom_sendto_20_0_body509 = [
    Syscall NR_recvfrom [Reg 2, Ptr 0x2051a000, Imm 4, Imm 0x40, Imm 0, Imm 0], Count,
    Syscall NR_recvfrom [Reg 2, Ptr 0x20528bc0, Imm 0x1d, Imm 0x40, Imm 0, Imm 0], Count,
    Syscall NR_sendto [Reg 2, Write_buf, Imm 0x3178, Imm 0x40, Imm 0, Imm 0], Count,
    Syscall NR_recvfrom [Reg 2, Ptr 0x207d32c0, Imm 4, Imm 0x40, Imm 0, Imm 0], Count,
    Syscall NR_recvfrom [Reg 2, Ptr 0x207f2200, Imm 0x1d, Imm 0x40, Imm 0, Imm 0], Count,
    Syscall NR_sendto [Reg 2, Write_buf, Imm 0x3178, Imm 0x40, Imm 0, Imm 0], Count,
    Syscall NR_recvfrom [Reg 2, Ptr 0x20969140, Imm 4, Imm 0x40, Imm 0, Imm 0], Count,
    Syscall NR_recvfrom [Reg 2, Ptr 0x2096ce00, Imm 0x15, Imm 0x40, Imm 0, Imm 0], Count,
    Syscall NR_sendto [Reg 2, Write_buf, Imm 0x34, Imm 0x40, Imm 0, Imm 0], Count,
    Syscall NR_recvfrom [Reg 2, Ptr 0x20970480, Imm 4, Imm 0x40, Imm 0, Imm 0], Count]"

definition min_mysql_recvfrom_sendto_20_0_body510 :: "stmt list" where
  "min_mysql_recvfrom_sendto_20_0_body510 = [
    Syscall NR_recvfrom [Reg 2, Ptr 0x209759c0, Imm 0x8d, Imm 0x40, Imm 0, Imm 0], Count,
    Syscall NR_sendto [Reg 2, Write_buf, Imm 0x34, Imm 0x40, Imm 0, Imm 0], Count,
    Syscall NR_recvfrom [Reg 2, Ptr 0x20976440, Imm 4, Imm 0x40, Imm 0, Imm 0], Count,
    Syscall NR_recvfrom [Reg 2, Ptr 0x20977500, Imm 0x15, Imm 0x40, Imm 0, Imm 0], Count,
    Syscall NR_sendto [Reg 2, Write_buf, Imm 0xb, Imm 0x40, Imm 0, Imm 0], Count,
    Syscall NR_recvfrom [Reg 2, Ptr 0x20977bc0, Imm 4, Imm 0x40, Imm 0, Imm 0], Count,
    Syscall NR_recvfrom [Reg 2, Ptr 0x20978240, Imm 0xd1, Imm 0x40, Imm 0, Imm 0], Count,
    Syscall NR_sendto [Reg 2, Write_buf, Imm 0xd, Imm 0x40, Imm 0, Imm 0], Count,
    Syscall NR_recvfrom [Reg 2, Ptr 0x20978900, Imm 4, Imm 0x40, Imm 0, Imm 0], Count,
    Syscall NR_recvfrom [Reg 2, Ptr 0x2097ab40, Imm 0xb, Imm 0x40, Imm 0, Imm 0], Count]"

definition min_mysql_recvfrom_sendto_20_0_body511 :: "stmt list" where
  "min_mysql_recvfrom_sendto_20_0_body511 = [
    Syscall NR_sendto [Reg 2, Write_buf, Imm 0x18, Imm 0x40, Imm 0, Imm 0], Count,
    Syscall NR_recvfrom [Reg 2, Ptr 0x20a605c0, Imm 4, Imm 0x40, Imm 0, Imm 0], Count,
    Syscall NR_recvfrom [Reg 2, Ptr 0x20a60fc0, Imm 8, Imm 0x40, Imm 0, Imm 0], Count,
    Syscall NR_sendto [Reg 2, Write_buf, Imm 0x18, Imm 0x40, Imm 0, Imm 0], Count,
    Syscall NR_recvfrom [Reg 2, Ptr 0x20a624c0, Imm 4, Imm 0x40, Imm 0, Imm 0], Count,
    Syscall NR_recvfrom [Reg 2, Ptr 0x20a63000, Imm 0x15, Imm 0x40, Imm 0, Imm 0], Count,
    Syscall NR_sendto [Reg 2, Write_buf, Imm 0xbe, Imm 0x40, Imm 0, Imm 0], Count,
    Syscall NR_recvfrom [Reg 2, Ptr 0x20a6a800, Imm 4, Imm 0x40, Imm 0, Imm 0], Count,
    Syscall NR_recvfrom [Reg 2, Ptr 0x20a6b340, Imm 0x15, Imm 0x40, Imm 0, Imm 0], Count,
    Syscall NR_sendto [Reg 2, Write_buf, Imm 0xbe, Imm 0x40, Imm 0, Imm 0], Count]"

definition min_mysql_recvfrom_sendto_20_0_body512 :: "stmt list" where
  "min_mysql_recvfrom_sendto_20_0_body512 = [
    Syscall NR_recvfrom [Reg 2, Ptr 0x20a72bc0, Imm 4, Imm 0x40, Imm 0, Imm 0], Count,
    Syscall NR_recvfrom [Reg 2, Ptr 0x20a73800, Imm 0x15, Imm 0x40, Imm 0, Imm 0], Count,
    Syscall NR_sendto [Reg 2, Write_buf, Imm 0xbe, Imm 0x40, Imm 0, Imm 0], Count,
    Syscall NR_recvfrom [Reg 2, Ptr 0x20a74d80, Imm 4, Imm 0x40, Imm 0, Imm 0], Count,
    Syscall NR_recvfrom [Reg 2, Ptr 0x20a7bc40, Imm 0x15, Imm 0x40, Imm 0, Imm 0], Count,
    Syscall NR_sendto [Reg 2, Write_buf, Imm 0xbe, Imm 0x40, Imm 0, Imm 0], Count,
    Syscall NR_recvfrom [Reg 2, Ptr 0x20a8cfc0, Imm 4, Imm 0x40, Imm 0, Imm 0], Count,
    Syscall NR_recvfrom [Reg 2, Ptr 0x20a9de80, Imm 0x15, Imm 0x40, Imm 0, Imm 0], Count,
    Syscall NR_sendto [Reg 2, Write_buf, Imm 0xbe, Imm 0x40, Imm 0, Imm 0], Count,
    Syscall NR_recvfrom [Reg 2, Ptr 0x20ab5ac0, Imm 4, Imm 0x40, Imm 0, Imm 0], Count]"

definition min_mysql_recvfrom_sendto_20_0_body513 :: "stmt list" where
  "min_mysql_recvfrom_sendto_20_0_body513 = [
    Syscall NR_recvfrom [Reg 2, Ptr 0x20ac0dc0, Imm 0x15, Imm 0x40, Imm 0, Imm 0], Count,
    Syscall NR_sendto [Reg 2, Write_buf, Imm 0xbe, Imm 0x40, Imm 0, Imm 0], Count,
    Syscall NR_recvfrom [Reg 2, Ptr 0x20ad5080, Imm 4, Imm 0x40, Imm 0, Imm 0], Count,
    Syscall NR_recvfrom [Reg 2, Ptr 0x20ae0140, Imm 0x15, Imm 0x40, Imm 0, Imm 0], Count,
    Syscall NR_sendto [Reg 2, Write_buf, Imm 0xbe, Imm 0x40, Imm 0, Imm 0], Count,
    Syscall NR_recvfrom [Reg 2, Ptr 0x20af3240, Imm 4, Imm 0x40, Imm 0, Imm 0], Count,
    Syscall NR_recvfrom [Reg 2, Ptr 0x20b05140, Imm 0x15, Imm 0x40, Imm 0, Imm 0], Count,
    Syscall NR_sendto [Reg 2, Write_buf, Imm 0xbe, Imm 0x40, Imm 0, Imm 0], Count,
    Syscall NR_recvfrom [Reg 2, Ptr 0x20b2bc80, Imm 4, Imm 0x40, Imm 0, Imm 0], Count,
    Syscall NR_recvfrom [Reg 2, Ptr 0x20b424c0, Imm 0x15, Imm 0x40, Imm 0, Imm 0], Count]"

definition min_mysql_recvfrom_sendto_20_0_body514 :: "stmt list" where
  "min_mysql_recvfrom_sendto_20_0_body514 = [
    Syscall NR_sendto [Reg 2, Write_buf, Imm 0xbe, Imm 0x40, Imm 0, Imm 0], Count,
    Syscall NR_recvfrom [Reg 2, Ptr 0x20b71a80, Imm 4, Imm 0x40, Imm 0, Imm 0], Count,
    Syscall NR_recvfrom [Reg 2, Ptr 0x20b98fc0, Imm 0x15, Imm 0x40, Imm 0, Imm 0], Count,
    Syscall NR_sendto [Reg 2, Write_buf, Imm 0xbe, Imm 0x40, Imm 0, Imm 0], Count,
    Syscall NR_recvfrom [Reg 2, Ptr 0x20bce400, Imm 4, Imm 0x40, Imm 0, Imm 0], Count,
    Syscall NR_recvfrom [Reg 2, Ptr 0x20be30c0, Imm 0x1d, Imm 0x40, Imm 0, Imm 0], Count,
    Syscall NR_sendto [Reg 2, Write_buf, Imm 0x3178, Imm 0x40, Imm 0, Imm 0], Count,
    Syscall NR_recvfrom [Reg 2, Ptr 0x20c16c00, Imm 4, Imm 0x40, Imm 0, Imm 0], Count,
    Syscall NR_recvfrom [Reg 2, Ptr 0x20c2ccc0, Imm 0x1d, Imm 0x40, Imm 0, Imm 0], Count,
    Syscall NR_sendto [Reg 2, Write_buf, Imm 0x3c, Imm 0x40, Imm 0, Imm 0], Count]"

definition min_mysql_recvfrom_sendto_20_0_body515 :: "stmt list" where
  "min_mysql_recvfrom_sendto_20_0_body515 = [
    Syscall NR_recvfrom [Reg 2, Ptr 0x20c72180, Imm 4, Imm 0x40, Imm 0, Imm 0], Count,
    Syscall NR_recvfrom [Reg 2, Ptr 0x20c948c0, Imm 0x1d, Imm 0x40, Imm 0, Imm 0], Count,
    Syscall NR_sendto [Reg 2, Write_buf, Imm 0x317a, Imm 0x40, Imm 0, Imm 0], Count,
    Syscall NR_recvfrom [Reg 2, Ptr 0x20f01d00, Imm 4, Imm 0x40, Imm 0, Imm 0], Count,
    Syscall NR_recvfrom [Reg 2, Ptr 0x20f27140, Imm 0x1d, Imm 0x40, Imm 0, Imm 0], Count,
    Syscall NR_sendto [Reg 2, Write_buf, Imm 0x317a, Imm 0x40, Imm 0, Imm 0], Count,
    Syscall NR_recvfrom [Reg 2, Ptr 0x20068a80, Imm 4, Imm 0x40, Imm 0, Imm 0], Count,
    Syscall NR_recvfrom [Reg 2, Ptr 0x20068dc0, Imm 0x15, Imm 0x40, Imm 0, Imm 0], Count,
    Syscall NR_sendto [Reg 2, Write_buf, Imm 0x34, Imm 0x40, Imm 0, Imm 0], Count,
    Syscall NR_recvfrom [Reg 2, Ptr 0x20072880, Imm 4, Imm 0x40, Imm 0, Imm 0], Count]"

definition min_mysql_recvfrom_sendto_20_0_body516 :: "stmt list" where
  "min_mysql_recvfrom_sendto_20_0_body516 = [
    Syscall NR_recvfrom [Reg 2, Ptr 0x200790c0, Imm 0x8d, Imm 0x40, Imm 0, Imm 0], Count,
    Syscall NR_sendto [Reg 2, Write_buf, Imm 0x34, Imm 0x40, Imm 0, Imm 0], Count,
    Syscall NR_recvfrom [Reg 2, Ptr 0x20079e00, Imm 4, Imm 0x40, Imm 0, Imm 0], Count,
    Syscall NR_recvfrom [Reg 2, Ptr 0x2007a440, Imm 0x15, Imm 0x40, Imm 0, Imm 0], Count,
    Syscall NR_sendto [Reg 2, Write_buf, Imm 0xb, Imm 0x40, Imm 0, Imm 0], Count,
    Syscall NR_recvfrom [Reg 2, Ptr 0x2007c900, Imm 4, Imm 0x40, Imm 0, Imm 0], Count,
    Syscall NR_recvfrom [Reg 2, Ptr 0x2007cb80, Imm 0xd1, Imm 0x40, Imm 0, Imm 0], Count,
    Syscall NR_sendto [Reg 2, Write_buf, Imm 0xd, Imm 0x40, Imm 0, Imm 0], Count,
    Syscall NR_recvfrom [Reg 2, Ptr 0x2007d2c0, Imm 4, Imm 0x40, Imm 0, Imm 0], Count,
    Syscall NR_recvfrom [Reg 2, Ptr 0x2007d540, Imm 0xb, Imm 0x40, Imm 0, Imm 0], Count]"

definition min_mysql_recvfrom_sendto_20_0_body517 :: "stmt list" where
  "min_mysql_recvfrom_sendto_20_0_body517 = [
    Syscall NR_sendto [Reg 2, Write_buf, Imm 0x18, Imm 0x40, Imm 0, Imm 0], Count,
    Syscall NR_recvfrom [Reg 2, Ptr 0x20168f00, Imm 4, Imm 0x40, Imm 0, Imm 0], Count,
    Syscall NR_recvfrom [Reg 2, Ptr 0x20169800, Imm 8, Imm 0x40, Imm 0, Imm 0], Count,
    Syscall NR_sendto [Reg 2, Write_buf, Imm 0x18, Imm 0x40, Imm 0, Imm 0], Count,
    Syscall NR_recvfrom [Reg 2, Ptr 0x2016b000, Imm 4, Imm 0x40, Imm 0, Imm 0], Count,
    Syscall NR_recvfrom [Reg 2, Ptr 0x2016ba40, Imm 0x15, Imm 0x40, Imm 0, Imm 0], Count,
    Syscall NR_sendto [Reg 2, Write_buf, Imm 0xbe, Imm 0x40, Imm 0, Imm 0], Count,
    Syscall NR_recvfrom [Reg 2, Ptr 0x2016d2c0, Imm 4, Imm 0x40, Imm 0, Imm 0], Count,
    Syscall NR_recvfrom [Reg 2, Ptr 0x2016dd00, Imm 0x15, Imm 0x40, Imm 0, Imm 0], Count,
    Syscall NR_sendto [Reg 2, Write_buf, Imm 0xbe, Imm 0x40, Imm 0, Imm 0], Count]"

definition min_mysql_recvfrom_sendto_20_0_body518 :: "stmt list" where
  "min_mysql_recvfrom_sendto_20_0_body518 = [
    Syscall NR_recvfrom [Reg 2, Ptr 0x20178940, Imm 4, Imm 0x40, Imm 0, Imm 0], Count,
    Syscall NR_recvfrom [Reg 2, Ptr 0x20179380, Imm 0x15, Imm 0x40, Imm 0, Imm 0], Count,
    Syscall NR_sendto [Reg 2, Write_buf, Imm 0xbe, Imm 0x40, Imm 0, Imm 0], Count,
    Syscall NR_recvfrom [Reg 2, Ptr 0x20180d40, Imm 4, Imm 0x40, Imm 0, Imm 0], Count,
    Syscall NR_recvfrom [Reg 2, Ptr 0x20186480, Imm 0x15, Imm 0x40, Imm 0, Imm 0], Count,
    Syscall NR_sendto [Reg 2, Write_buf, Imm 0xbe, Imm 0x40, Imm 0, Imm 0], Count,
    Syscall NR_recvfrom [Reg 2, Ptr 0x2018ae00, Imm 4, Imm 0x40, Imm 0, Imm 0], Count,
    Syscall NR_recvfrom [Reg 2, Ptr 0x2018b6c0, Imm 0x15, Imm 0x40, Imm 0, Imm 0], Count,
    Syscall NR_sendto [Reg 2, Write_buf, Imm 0xbe, Imm 0x40, Imm 0, Imm 0], Count,
    Syscall NR_recvfrom [Reg 2, Ptr 0x20196000, Imm 4, Imm 0x40, Imm 0, Imm 0], Count]"

definition min_mysql_recvfrom_sendto_20_0_body519 :: "stmt list" where
  "min_mysql_recvfrom_sendto_20_0_body519 = [
    Syscall NR_recvfrom [Reg 2, Ptr 0x201a8540, Imm 0x15, Imm 0x40, Imm 0, Imm 0], Count,
    Syscall NR_sendto [Reg 2, Write_buf, Imm 0xbe, Imm 0x40, Imm 0, Imm 0], Count,
    Syscall NR_recvfrom [Reg 2, Ptr 0x201ba4c0, Imm 4, Imm 0x40, Imm 0, Imm 0], Count,
    Syscall NR_recvfrom [Reg 2, Ptr 0x201c5240, Imm 0x15, Imm 0x40, Imm 0, Imm 0], Count,
    Syscall NR_sendto [Reg 2, Write_buf, Imm 0xbe, Imm 0x40, Imm 0, Imm 0], Count,
    Syscall NR_recvfrom [Reg 2, Ptr 0x201c94c0, Imm 4, Imm 0x40, Imm 0, Imm 0], Count,
    Syscall NR_recvfrom [Reg 2, Ptr 0x201c9a00, Imm 0x15, Imm 0x40, Imm 0, Imm 0], Count,
    Syscall NR_sendto [Reg 2, Write_buf, Imm 0xbe, Imm 0x40, Imm 0, Imm 0], Count,
    Syscall NR_recvfrom [Reg 2, Ptr 0x201ce840, Imm 4, Imm 0x40, Imm 0, Imm 0], Count,
    Syscall NR_recvfrom [Reg 2, Ptr 0x201d4fc0, Imm 0x15, Imm 0x40, Imm 0, Imm 0], Count]"

definition min_mysql_recvfrom_sendto_20_0_body520 :: "stmt list" where
  "min_mysql_recvfrom_sendto_20_0_body520 = [
    Syscall NR_sendto [Reg 2, Write_buf, Imm 0xbe, Imm 0x40, Imm 0, Imm 0], Count,
    Syscall NR_recvfrom [Reg 2, Ptr 0x201de040, Imm 4, Imm 0x40, Imm 0, Imm 0], Count,
    Syscall NR_recvfrom [Reg 2, Ptr 0x201de480, Imm 0x15, Imm 0x40, Imm 0, Imm 0], Count,
    Syscall NR_sendto [Reg 2, Write_buf, Imm 0xbe, Imm 0x40, Imm 0, Imm 0], Count,
    Syscall NR_recvfrom [Reg 2, Ptr 0x201e4e40, Imm 4, Imm 0x40, Imm 0, Imm 0], Count,
    Syscall NR_recvfrom [Reg 2, Ptr 0x201eb400, Imm 0x1d, Imm 0x40, Imm 0, Imm 0], Count,
    Syscall NR_sendto [Reg 2, Write_buf, Imm 0x317a, Imm 0x40, Imm 0, Imm 0], Count,
    Syscall NR_recvfrom [Reg 2, Ptr 0x201f4100, Imm 4, Imm 0x40, Imm 0, Imm 0], Count,
    Syscall NR_recvfrom [Reg 2, Ptr 0x201f4380, Imm 0x1d, Imm 0x40, Imm 0, Imm 0], Count,
    Syscall NR_sendto [Reg 2, Write_buf, Imm 0x3c, Imm 0x40, Imm 0, Imm 0], Count]"

definition min_mysql_recvfrom_sendto_20_0_body521 :: "stmt list" where
  "min_mysql_recvfrom_sendto_20_0_body521 = [
    Syscall NR_recvfrom [Reg 2, Ptr 0x201fa980, Imm 4, Imm 0x40, Imm 0, Imm 0], Count,
    Syscall NR_recvfrom [Reg 2, Ptr 0x201faa80, Imm 0x1d, Imm 0x40, Imm 0, Imm 0], Count,
    Syscall NR_sendto [Reg 2, Write_buf, Imm 0x317a, Imm 0x40, Imm 0, Imm 0], Count,
    Syscall NR_recvfrom [Reg 2, Ptr 0x20551d00, Imm 4, Imm 0x40, Imm 0, Imm 0], Count,
    Syscall NR_recvfrom [Reg 2, Ptr 0x20556440, Imm 0x1d, Imm 0x40, Imm 0, Imm 0], Count,
    Syscall NR_sendto [Reg 2, Write_buf, Imm 0x317a, Imm 0x40, Imm 0, Imm 0], Count,
    Syscall NR_recvfrom [Reg 2, Ptr 0x2080ab80, Imm 4, Imm 0x40, Imm 0, Imm 0], Count,
    Syscall NR_recvfrom [Reg 2, Ptr 0x20814900, Imm 0x15, Imm 0x40, Imm 0, Imm 0], Count,
    Syscall NR_sendto [Reg 2, Write_buf, Imm 0x34, Imm 0x40, Imm 0, Imm 0], Count,
    Syscall NR_recvfrom [Reg 2, Ptr 0x20818600, Imm 4, Imm 0x40, Imm 0, Imm 0], Count]"

definition min_mysql_recvfrom_sendto_20_0_body522 :: "stmt list" where
  "min_mysql_recvfrom_sendto_20_0_body522 = [
    Syscall NR_recvfrom [Reg 2, Ptr 0x20818ec0, Imm 0x8d, Imm 0x40, Imm 0, Imm 0], Count,
    Syscall NR_sendto [Reg 2, Write_buf, Imm 0x34, Imm 0x40, Imm 0, Imm 0], Count,
    Syscall NR_recvfrom [Reg 2, Ptr 0x2081d140, Imm 4, Imm 0x40, Imm 0, Imm 0], Count,
    Syscall NR_recvfrom [Reg 2, Ptr 0x2081d8c0, Imm 0x15, Imm 0x40, Imm 0, Imm 0], Count,
    Syscall NR_sendto [Reg 2, Write_buf, Imm 0xb, Imm 0x40, Imm 0, Imm 0], Count,
    Syscall NR_recvfrom [Reg 2, Ptr 0x20821280, Imm 4, Imm 0x40, Imm 0, Imm 0], Count,
    Syscall NR_recvfrom [Reg 2, Ptr 0x20821b80, Imm 0xd1, Imm 0x40, Imm 0, Imm 0], Count,
    Syscall NR_sendto [Reg 2, Write_buf, Imm 0xd, Imm 0x40, Imm 0, Imm 0], Count,
    Syscall NR_recvfrom [Reg 2, Ptr 0x20824800, Imm 4, Imm 0x40, Imm 0, Imm 0], Count,
    Syscall NR_recvfrom [Reg 2, Ptr 0x20824dc0, Imm 0xb, Imm 0x40, Imm 0, Imm 0], Count]"

definition min_mysql_recvfrom_sendto_20_0_body523 :: "stmt list" where
  "min_mysql_recvfrom_sendto_20_0_body523 = [
    Syscall NR_sendto [Reg 2, Write_buf, Imm 0x18, Imm 0x40, Imm 0, Imm 0], Count,
    Syscall NR_recvfrom [Reg 2, Ptr 0x208ec980, Imm 4, Imm 0x40, Imm 0, Imm 0], Count,
    Syscall NR_recvfrom [Reg 2, Ptr 0x208ed140, Imm 8, Imm 0x40, Imm 0, Imm 0], Count,
    Syscall NR_sendto [Reg 2, Write_buf, Imm 0x18, Imm 0x40, Imm 0, Imm 0], Count,
    Syscall NR_recvfrom [Reg 2, Ptr 0x208ee240, Imm 4, Imm 0x40, Imm 0, Imm 0], Count,
    Syscall NR_recvfrom [Reg 2, Ptr 0x208eea00, Imm 0x15, Imm 0x40, Imm 0, Imm 0], Count,
    Syscall NR_sendto [Reg 2, Write_buf, Imm 0xc0, Imm 0x40, Imm 0, Imm 0], Count,
    Syscall NR_recvfrom [Reg 2, Ptr 0x208eff80, Imm 4, Imm 0x40, Imm 0, Imm 0], Count,
    Syscall NR_recvfrom [Reg 2, Ptr 0x208f08c0, Imm 0x15, Imm 0x40, Imm 0, Imm 0], Count,
    Syscall NR_sendto [Reg 2, Write_buf, Imm 0xc0, Imm 0x40, Imm 0, Imm 0], Count]"

definition min_mysql_recvfrom_sendto_20_0_body524 :: "stmt list" where
  "min_mysql_recvfrom_sendto_20_0_body524 = [
    Syscall NR_recvfrom [Reg 2, Ptr 0x208f2140, Imm 4, Imm 0x40, Imm 0, Imm 0], Count,
    Syscall NR_recvfrom [Reg 2, Ptr 0x208f2c00, Imm 0x15, Imm 0x40, Imm 0, Imm 0], Count,
    Syscall NR_sendto [Reg 2, Write_buf, Imm 0xc0, Imm 0x40, Imm 0, Imm 0], Count,
    Syscall NR_recvfrom [Reg 2, Ptr 0x208f4580, Imm 4, Imm 0x40, Imm 0, Imm 0], Count,
    Syscall NR_recvfrom [Reg 2, Ptr 0x208f5040, Imm 0x15, Imm 0x40, Imm 0, Imm 0], Count,
    Syscall NR_sendto [Reg 2, Write_buf, Imm 0xc0, Imm 0x40, Imm 0, Imm 0], Count,
    Syscall NR_recvfrom [Reg 2, Ptr 0x208f69c0, Imm 4, Imm 0x40, Imm 0, Imm 0], Count,
    Syscall NR_recvfrom [Reg 2, Ptr 0x208f7480, Imm 0x15, Imm 0x40, Imm 0, Imm 0], Count,
    Syscall NR_sendto [Reg 2, Write_buf, Imm 0xc0, Imm 0x40, Imm 0, Imm 0], Count,
    Syscall NR_recvfrom [Reg 2, Ptr 0x208f8e00, Imm 4, Imm 0x40, Imm 0, Imm 0], Count]"

definition min_mysql_recvfrom_sendto_20_0_body525 :: "stmt list" where
  "min_mysql_recvfrom_sendto_20_0_body525 = [
    Syscall NR_recvfrom [Reg 2, Ptr 0x208f98c0, Imm 0x15, Imm 0x40, Imm 0, Imm 0], Count,
    Syscall NR_sendto [Reg 2, Write_buf, Imm 0xc0, Imm 0x40, Imm 0, Imm 0], Count,
    Syscall NR_recvfrom [Reg 2, Ptr 0x208fb240, Imm 4, Imm 0x40, Imm 0, Imm 0], Count,
    Syscall NR_recvfrom [Reg 2, Ptr 0x208fedc0, Imm 0x15, Imm 0x40, Imm 0, Imm 0], Count,
    Syscall NR_sendto [Reg 2, Write_buf, Imm 0xc0, Imm 0x40, Imm 0, Imm 0], Count,
    Syscall NR_recvfrom [Reg 2, Ptr 0x20903800, Imm 4, Imm 0x40, Imm 0, Imm 0], Count,
    Syscall NR_recvfrom [Reg 2, Ptr 0x20907300, Imm 0x15, Imm 0x40, Imm 0, Imm 0], Count,
    Syscall NR_sendto [Reg 2, Write_buf, Imm 0xc0, Imm 0x40, Imm 0, Imm 0], Count,
    Syscall NR_recvfrom [Reg 2, Ptr 0x20911e40, Imm 4, Imm 0x40, Imm 0, Imm 0], Count,
    Syscall NR_recvfrom [Reg 2, Ptr 0x209127c0, Imm 0x15, Imm 0x40, Imm 0, Imm 0], Count]"

definition min_mysql_recvfrom_sendto_20_0_body526 :: "stmt list" where
  "min_mysql_recvfrom_sendto_20_0_body526 = [
    Syscall NR_sendto [Reg 2, Write_buf, Imm 0xc0, Imm 0x40, Imm 0, Imm 0], Count,
    Syscall NR_recvfrom [Reg 2, Ptr 0x2093c980, Imm 4, Imm 0x40, Imm 0, Imm 0], Count,
    Syscall NR_recvfrom [Reg 2, Ptr 0x2093d400, Imm 0x15, Imm 0x40, Imm 0, Imm 0], Count,
    Syscall NR_sendto [Reg 2, Write_buf, Imm 0xc0, Imm 0x40, Imm 0, Imm 0], Count,
    Syscall NR_recvfrom [Reg 2, Ptr 0x20952fc0, Imm 4, Imm 0x40, Imm 0, Imm 0], Count,
    Syscall NR_recvfrom [Reg 2, Ptr 0x20957a40, Imm 0x1d, Imm 0x40, Imm 0, Imm 0], Count,
    Syscall NR_sendto [Reg 2, Write_buf, Imm 0x3178, Imm 0x40, Imm 0, Imm 0], Count,
    Syscall NR_recvfrom [Reg 2, Ptr 0x2097c800, Imm 4, Imm 0x40, Imm 0, Imm 0], Count,
    Syscall NR_recvfrom [Reg 2, Ptr 0x20997a40, Imm 0x1d, Imm 0x40, Imm 0, Imm 0], Count,
    Syscall NR_sendto [Reg 2, Write_buf, Imm 0x3c, Imm 0x40, Imm 0, Imm 0], Count]"

definition min_mysql_recvfrom_sendto_20_0_body527 :: "stmt list" where
  "min_mysql_recvfrom_sendto_20_0_body527 = [
    Syscall NR_recvfrom [Reg 2, Ptr 0x209cca80, Imm 4, Imm 0x40, Imm 0, Imm 0], Count,
    Syscall NR_recvfrom [Reg 2, Ptr 0x209f8840, Imm 0x23, Imm 0x40, Imm 0, Imm 0], Count,
    Syscall NR_sendto [Reg 2, Write_buf, Imm 0x3178, Imm 0x40, Imm 0, Imm 0], Count,
    Syscall NR_recvfrom [Reg 2, Ptr 0x20c9ebc0, Imm 4, Imm 0x40, Imm 0, Imm 0], Count,
    Syscall NR_recvfrom [Reg 2, Ptr 0x20cc7840, Imm 0x1d, Imm 0x40, Imm 0, Imm 0], Count,
    Syscall NR_sendto [Reg 2, Write_buf, Imm 0x317a, Imm 0x40, Imm 0, Imm 0], Count,
    Syscall NR_recvfrom [Reg 2, Ptr 0x20f07c80, Imm 4, Imm 0x40, Imm 0, Imm 0], Count,
    Syscall NR_recvfrom [Reg 2, Ptr 0x20f112c0, Imm 0x15, Imm 0x40, Imm 0, Imm 0], Count,
    Syscall NR_sendto [Reg 2, Write_buf, Imm 0x34, Imm 0x40, Imm 0, Imm 0], Count,
    Syscall NR_recvfrom [Reg 2, Ptr 0x20f32480, Imm 4, Imm 0x40, Imm 0, Imm 0], Count]"

definition min_mysql_recvfrom_sendto_20_0_body528 :: "stmt list" where
  "min_mysql_recvfrom_sendto_20_0_body528 = [
    Syscall NR_recvfrom [Reg 2, Ptr 0x20f48500, Imm 0x93, Imm 0x40, Imm 0, Imm 0], Count,
    Syscall NR_sendto [Reg 2, Write_buf, Imm 0x34, Imm 0x40, Imm 0, Imm 0], Count,
    Syscall NR_recvfrom [Reg 2, Ptr 0x20f4d080, Imm 4, Imm 0x40, Imm 0, Imm 0], Count,
    Syscall NR_recvfrom [Reg 2, Ptr 0x20f4d5c0, Imm 0x15, Imm 0x40, Imm 0, Imm 0], Count,
    Syscall NR_sendto [Reg 2, Write_buf, Imm 0xb, Imm 0x40, Imm 0, Imm 0], Count,
    Syscall NR_recvfrom [Reg 2, Ptr 0x20f4eac0, Imm 4, Imm 0x40, Imm 0, Imm 0], Count,
    Syscall NR_recvfrom [Reg 2, Ptr 0x20f4f3c0, Imm 0xd1, Imm 0x40, Imm 0, Imm 0], Count,
    Syscall NR_sendto [Reg 2, Write_buf, Imm 0xd, Imm 0x40, Imm 0, Imm 0], Count,
    Syscall NR_recvfrom [Reg 2, Ptr 0x20f51fc0, Imm 4, Imm 0x40, Imm 0, Imm 0], Count,
    Syscall NR_recvfrom [Reg 2, Ptr 0x20f52440, Imm 0xb, Imm 0x40, Imm 0, Imm 0], Count]"

definition min_mysql_recvfrom_sendto_20_0_body529 :: "stmt list" where
  "min_mysql_recvfrom_sendto_20_0_body529 = [
    Syscall NR_sendto [Reg 2, Write_buf, Imm 0x18, Imm 0x40, Imm 0, Imm 0], Count,
    Syscall NR_recvfrom [Reg 2, Ptr 0x2005a640, Imm 4, Imm 0x40, Imm 0, Imm 0], Count,
    Syscall NR_recvfrom [Reg 2, Ptr 0x2005ae00, Imm 8, Imm 0x40, Imm 0, Imm 0], Count,
    Syscall NR_sendto [Reg 2, Write_buf, Imm 0x18, Imm 0x40, Imm 0, Imm 0], Count,
    Syscall NR_recvfrom [Reg 2, Ptr 0x2005bdc0, Imm 4, Imm 0x40, Imm 0, Imm 0], Count,
    Syscall NR_recvfrom [Reg 2, Ptr 0x2005c680, Imm 0x15, Imm 0x40, Imm 0, Imm 0], Count,
    Syscall NR_sendto [Reg 2, Write_buf, Imm 0xbe, Imm 0x40, Imm 0, Imm 0], Count,
    Syscall NR_recvfrom [Reg 2, Ptr 0x2005db00, Imm 4, Imm 0x40, Imm 0, Imm 0], Count,
    Syscall NR_recvfrom [Reg 2, Ptr 0x2005e5c0, Imm 0x15, Imm 0x40, Imm 0, Imm 0], Count,
    Syscall NR_sendto [Reg 2, Write_buf, Imm 0xbe, Imm 0x40, Imm 0, Imm 0], Count]"

definition min_mysql_recvfrom_sendto_20_0_body530 :: "stmt list" where
  "min_mysql_recvfrom_sendto_20_0_body530 = [
    Syscall NR_recvfrom [Reg 2, Ptr 0x2005fbc0, Imm 4, Imm 0x40, Imm 0, Imm 0], Count,
    Syscall NR_recvfrom [Reg 2, Ptr 0x20060800, Imm 0x15, Imm 0x40, Imm 0, Imm 0], Count,
    Syscall NR_sendto [Reg 2, Write_buf, Imm 0xbe, Imm 0x40, Imm 0, Imm 0], Count,
    Syscall NR_recvfrom [Reg 2, Ptr 0x20062000, Imm 4, Imm 0x40, Imm 0, Imm 0], Count,
    Syscall NR_recvfrom [Reg 2, Ptr 0x20062c40, Imm 0x15, Imm 0x40, Imm 0, Imm 0], Count,
    Syscall NR_sendto [Reg 2, Write_buf, Imm 0xbe, Imm 0x40, Imm 0, Imm 0], Count,
    Syscall NR_recvfrom [Reg 2, Ptr 0x20064440, Imm 4, Imm 0x40, Imm 0, Imm 0], Count,
    Syscall NR_recvfrom [Reg 2, Ptr 0x20065080, Imm 0x15, Imm 0x40, Imm 0, Imm 0], Count,
    Syscall NR_sendto [Reg 2, Write_buf, Imm 0xbe, Imm 0x40, Imm 0, Imm 0], Count,
    Syscall NR_recvfrom [Reg 2, Ptr 0x20066880, Imm 4, Imm 0x40, Imm 0, Imm 0], Count]"

definition min_mysql_recvfrom_sendto_20_0_body531 :: "stmt list" where
  "min_mysql_recvfrom_sendto_20_0_body531 = [
    Syscall NR_recvfrom [Reg 2, Ptr 0x200674c0, Imm 0x15, Imm 0x40, Imm 0, Imm 0], Count,
    Syscall NR_sendto [Reg 2, Write_buf, Imm 0xbe, Imm 0x40, Imm 0, Imm 0], Count,
    Syscall NR_recvfrom [Reg 2, Ptr 0x20071f00, Imm 4, Imm 0x40, Imm 0, Imm 0], Count,
    Syscall NR_recvfrom [Reg 2, Ptr 0x20073c80, Imm 0x15, Imm 0x40, Imm 0, Imm 0], Count,
    Syscall NR_sendto [Reg 2, Write_buf, Imm 0xbe, Imm 0x40, Imm 0, Imm 0], Count,
    Syscall NR_recvfrom [Reg 2, Ptr 0x20078300, Imm 4, Imm 0x40, Imm 0, Imm 0], Count,
    Syscall NR_recvfrom [Reg 2, Ptr 0x2007c780, Imm 0x15, Imm 0x40, Imm 0, Imm 0], Count,
    Syscall NR_sendto [Reg 2, Write_buf, Imm 0xbe, Imm 0x40, Imm 0, Imm 0], Count,
    Syscall NR_recvfrom [Reg 2, Ptr 0x20083d80, Imm 4, Imm 0x40, Imm 0, Imm 0], Count,
    Syscall NR_recvfrom [Reg 2, Ptr 0x20087a80, Imm 0x15, Imm 0x40, Imm 0, Imm 0], Count]"

definition min_mysql_recvfrom_sendto_20_0_body532 :: "stmt list" where
  "min_mysql_recvfrom_sendto_20_0_body532 = [
    Syscall NR_sendto [Reg 2, Write_buf, Imm 0xbe, Imm 0x40, Imm 0, Imm 0], Count,
    Syscall NR_recvfrom [Reg 2, Ptr 0x20088fc0, Imm 4, Imm 0x40, Imm 0, Imm 0], Count,
    Syscall NR_recvfrom [Reg 2, Ptr 0x200a51c0, Imm 0x15, Imm 0x40, Imm 0, Imm 0], Count,
    Syscall NR_sendto [Reg 2, Write_buf, Imm 0xbe, Imm 0x40, Imm 0, Imm 0], Count,
    Syscall NR_recvfrom [Reg 2, Ptr 0x200d3c40, Imm 4, Imm 0x40, Imm 0, Imm 0], Count,
    Syscall NR_recvfrom [Reg 2, Ptr 0x200e7e00, Imm 0x1d, Imm 0x40, Imm 0, Imm 0], Count,
    Syscall NR_sendto [Reg 2, Write_buf, Imm 0x3178, Imm 0x40, Imm 0, Imm 0], Count,
    Syscall NR_recvfrom [Reg 2, Ptr 0x20125fc0, Imm 4, Imm 0x40, Imm 0, Imm 0], Count,
    Syscall NR_recvfrom [Reg 2, Ptr 0x20139680, Imm 0x1d, Imm 0x40, Imm 0, Imm 0], Count,
    Syscall NR_sendto [Reg 2, Write_buf, Imm 0x3c, Imm 0x40, Imm 0, Imm 0], Count]"

definition min_mysql_recvfrom_sendto_20_0_body533 :: "stmt list" where
  "min_mysql_recvfrom_sendto_20_0_body533 = [
    Syscall NR_recvfrom [Reg 2, Ptr 0x2015d980, Imm 4, Imm 0x40, Imm 0, Imm 0], Count,
    Syscall NR_recvfrom [Reg 2, Ptr 0x20172700, Imm 0x1d, Imm 0x40, Imm 0, Imm 0], Count,
    Syscall NR_sendto [Reg 2, Write_buf, Imm 0x317a, Imm 0x40, Imm 0, Imm 0], Count,
    Syscall NR_recvfrom [Reg 2, Ptr 0x20485580, Imm 4, Imm 0x40, Imm 0, Imm 0], Count,
    Syscall NR_recvfrom [Reg 2, Ptr 0x204a4500, Imm 0x1d, Imm 0x40, Imm 0, Imm 0], Count,
    Syscall NR_sendto [Reg 2, Write_buf, Imm 0x3178, Imm 0x40, Imm 0, Imm 0], Count,
    Syscall NR_recvfrom [Reg 2, Ptr 0x20700280, Imm 4, Imm 0x40, Imm 0, Imm 0], Count,
    Syscall NR_recvfrom [Reg 2, Ptr 0x2070a0c0, Imm 0x15, Imm 0x40, Imm 0, Imm 0], Count,
    Syscall NR_sendto [Reg 2, Write_buf, Imm 0x34, Imm 0x40, Imm 0, Imm 0], Count,
    Syscall NR_recvfrom [Reg 2, Ptr 0x2070dec0, Imm 4, Imm 0x40, Imm 0, Imm 0], Count]"

definition min_mysql_recvfrom_sendto_20_0_body534 :: "stmt list" where
  "min_mysql_recvfrom_sendto_20_0_body534 = [
    Syscall NR_recvfrom [Reg 2, Ptr 0x2070e300, Imm 0x8d, Imm 0x40, Imm 0, Imm 0], Count,
    Syscall NR_sendto [Reg 2, Write_buf, Imm 0x34, Imm 0x40, Imm 0, Imm 0], Count,
    Syscall NR_recvfrom [Reg 2, Ptr 0x20711b80, Imm 4, Imm 0x40, Imm 0, Imm 0], Count,
    Syscall NR_recvfrom [Reg 2, Ptr 0x20711f80, Imm 0x15, Imm 0x40, Imm 0, Imm 0], Count,
    Syscall NR_sendto [Reg 2, Write_buf, Imm 0xb, Imm 0x40, Imm 0, Imm 0], Count,
    Syscall NR_recvfrom [Reg 2, Ptr 0x20712e40, Imm 4, Imm 0x40, Imm 0, Imm 0], Count,
    Syscall NR_recvfrom [Reg 2, Ptr 0x20712fc0, Imm 0xd1, Imm 0x40, Imm 0, Imm 0], Count,
    Syscall NR_sendto [Reg 2, Write_buf, Imm 0xd, Imm 0x40, Imm 0, Imm 0], Count,
    Syscall NR_recvfrom [Reg 2, Ptr 0x20713500, Imm 4, Imm 0x40, Imm 0, Imm 0], Count,
    Syscall NR_recvfrom [Reg 2, Ptr 0x20713680, Imm 0xb, Imm 0x40, Imm 0, Imm 0], Count]"

definition min_mysql_recvfrom_sendto_20_0_body535 :: "stmt list" where
  "min_mysql_recvfrom_sendto_20_0_body535 = [
    Syscall NR_sendto [Reg 2, Write_buf, Imm 0x18, Imm 0x40, Imm 0, Imm 0], Count,
    Syscall NR_recvfrom [Reg 2, Ptr 0x20858e40, Imm 4, Imm 0x40, Imm 0, Imm 0], Count,
    Syscall NR_recvfrom [Reg 2, Ptr 0x20859600, Imm 8, Imm 0x40, Imm 0, Imm 0], Count,
    Syscall NR_sendto [Reg 2, Write_buf, Imm 0x18, Imm 0x40, Imm 0, Imm 0], Count,
    Syscall NR_recvfrom [Reg 2, Ptr 0x2085a480, Imm 4, Imm 0x40, Imm 0, Imm 0], Count,
    Syscall NR_recvfrom [Reg 2, Ptr 0x2085ad40, Imm 0x15, Imm 0x40, Imm 0, Imm 0], Count,
    Syscall NR_sendto [Reg 2, Write_buf, Imm 0xbe, Imm 0x40, Imm 0, Imm 0], Count,
    Syscall NR_recvfrom [Reg 2, Ptr 0x2085bd00, Imm 4, Imm 0x40, Imm 0, Imm 0], Count,
    Syscall NR_recvfrom [Reg 2, Ptr 0x2085c680, Imm 0x15, Imm 0x40, Imm 0, Imm 0], Count,
    Syscall NR_sendto [Reg 2, Write_buf, Imm 0xbe, Imm 0x40, Imm 0, Imm 0], Count]"

definition min_mysql_recvfrom_sendto_20_0_body536 :: "stmt list" where
  "min_mysql_recvfrom_sendto_20_0_body536 = [
    Syscall NR_recvfrom [Reg 2, Ptr 0x2085d980, Imm 4, Imm 0x40, Imm 0, Imm 0], Count,
    Syscall NR_recvfrom [Reg 2, Ptr 0x2085e4c0, Imm 0x15, Imm 0x40, Imm 0, Imm 0], Count,
    Syscall NR_sendto [Reg 2, Write_buf, Imm 0xbe, Imm 0x40, Imm 0, Imm 0], Count,
    Syscall NR_recvfrom [Reg 2, Ptr 0x2085f900, Imm 4, Imm 0x40, Imm 0, Imm 0], Count,
    Syscall NR_recvfrom [Reg 2, Ptr 0x20860480, Imm 0x15, Imm 0x40, Imm 0, Imm 0], Count,
    Syscall NR_sendto [Reg 2, Write_buf, Imm 0xbe, Imm 0x40, Imm 0, Imm 0], Count,
    Syscall NR_recvfrom [Reg 2, Ptr 0x20861b80, Imm 4, Imm 0x40, Imm 0, Imm 0], Count,
    Syscall NR_recvfrom [Reg 2, Ptr 0x208657c0, Imm 0x15, Imm 0x40, Imm 0, Imm 0], Count,
    Syscall NR_sendto [Reg 2, Write_buf, Imm 0xbe, Imm 0x40, Imm 0, Imm 0], Count,
    Syscall NR_recvfrom [Reg 2, Ptr 0x2086a800, Imm 4, Imm 0x40, Imm 0, Imm 0], Count]"

definition min_mysql_recvfrom_sendto_20_0_body537 :: "stmt list" where
  "min_mysql_recvfrom_sendto_20_0_body537 = [
    Syscall NR_recvfrom [Reg 2, Ptr 0x2086e3c0, Imm 0x15, Imm 0x40, Imm 0, Imm 0], Count,
    Syscall NR_sendto [Reg 2, Write_buf, Imm 0xbe, Imm 0x40, Imm 0, Imm 0], Count,
    Syscall NR_recvfrom [Reg 2, Ptr 0x2086fa40, Imm 4, Imm 0x40, Imm 0, Imm 0], Count,
    Syscall NR_recvfrom [Reg 2, Ptr 0x20873480, Imm 0x15, Imm 0x40, Imm 0, Imm 0], Count,
    Syscall NR_sendto [Reg 2, Write_buf, Imm 0xbe, Imm 0x40, Imm 0, Imm 0], Count,
    Syscall NR_recvfrom [Reg 2, Ptr 0x2087ad80, Imm 4, Imm 0x40, Imm 0, Imm 0], Count,
    Syscall NR_recvfrom [Reg 2, Ptr 0x2087e840, Imm 0x15, Imm 0x40, Imm 0, Imm 0], Count,
    Syscall NR_sendto [Reg 2, Write_buf, Imm 0xbe, Imm 0x40, Imm 0, Imm 0], Count,
    Syscall NR_recvfrom [Reg 2, Ptr 0x2089aec0, Imm 4, Imm 0x40, Imm 0, Imm 0], Count,
    Syscall NR_recvfrom [Reg 2, Ptr 0x208ac940, Imm 0x15, Imm 0x40, Imm 0, Imm 0], Count]"

definition min_mysql_recvfrom_sendto_20_0_body538 :: "stmt list" where
  "min_mysql_recvfrom_sendto_20_0_body538 = [
    Syscall NR_sendto [Reg 2, Write_buf, Imm 0xbe, Imm 0x40, Imm 0, Imm 0], Count,
    Syscall NR_recvfrom [Reg 2, Ptr 0x208d09c0, Imm 4, Imm 0x40, Imm 0, Imm 0], Count,
    Syscall NR_recvfrom [Reg 2, Ptr 0x208de800, Imm 0x15, Imm 0x40, Imm 0, Imm 0], Count,
    Syscall NR_sendto [Reg 2, Write_buf, Imm 0xbe, Imm 0x40, Imm 0, Imm 0], Count,
    Syscall NR_recvfrom [Reg 2, Ptr 0x20904b40, Imm 4, Imm 0x40, Imm 0, Imm 0], Count,
    Syscall NR_recvfrom [Reg 2, Ptr 0x20911380, Imm 0x1d, Imm 0x40, Imm 0, Imm 0], Count,
    Syscall NR_sendto [Reg 2, Write_buf, Imm 0x3178, Imm 0x40, Imm 0, Imm 0], Count,
    Syscall NR_recvfrom [Reg 2, Ptr 0x20939f40, Imm 4, Imm 0x40, Imm 0, Imm 0], Count,
    Syscall NR_recvfrom [Reg 2, Ptr 0x2095ca80, Imm 0x1d, Imm 0x40, Imm 0, Imm 0], Count,
    Syscall NR_sendto [Reg 2, Write_buf, Imm 0x3c, Imm 0x40, Imm 0, Imm 0], Count]"

definition min_mysql_recvfrom_sendto_20_0_body539 :: "stmt list" where
  "min_mysql_recvfrom_sendto_20_0_body539 = [
    Syscall NR_recvfrom [Reg 2, Ptr 0x20986100, Imm 4, Imm 0x40, Imm 0, Imm 0], Count,
    Syscall NR_recvfrom [Reg 2, Ptr 0x209a80c0, Imm 0x1d, Imm 0x40, Imm 0, Imm 0], Count,
    Syscall NR_sendto [Reg 2, Write_buf, Imm 0x317a, Imm 0x40, Imm 0, Imm 0], Count,
    Syscall NR_recvfrom [Reg 2, Ptr 0x20c7d1c0, Imm 4, Imm 0x40, Imm 0, Imm 0], Count,
    Syscall NR_recvfrom [Reg 2, Ptr 0x20ca2200, Imm 0x1d, Imm 0x40, Imm 0, Imm 0], Count,
    Syscall NR_sendto [Reg 2, Write_buf, Imm 0x3178, Imm 0x40, Imm 0, Imm 0], Count,
    Syscall NR_recvfrom [Reg 2, Ptr 0x20e3d780, Imm 4, Imm 0x40, Imm 0, Imm 0], Count,
    Syscall NR_recvfrom [Reg 2, Ptr 0x20e4b000, Imm 0x15, Imm 0x40, Imm 0, Imm 0], Count,
    Syscall NR_sendto [Reg 2, Write_buf, Imm 0x34, Imm 0x40, Imm 0, Imm 0], Count,
    Syscall NR_recvfrom [Reg 2, Ptr 0x20e59f40, Imm 4, Imm 0x40, Imm 0, Imm 0], Count]"

definition min_mysql_recvfrom_sendto_20_0_body540 :: "stmt list" where
  "min_mysql_recvfrom_sendto_20_0_body540 = [
    Syscall NR_recvfrom [Reg 2, Ptr 0x20e5a440, Imm 0x8d, Imm 0x40, Imm 0, Imm 0], Count,
    Syscall NR_sendto [Reg 2, Write_buf, Imm 0x34, Imm 0x40, Imm 0, Imm 0], Count,
    Syscall NR_recvfrom [Reg 2, Ptr 0x20e67d40, Imm 4, Imm 0x40, Imm 0, Imm 0], Count,
    Syscall NR_recvfrom [Reg 2, Ptr 0x20e71480, Imm 0x15, Imm 0x40, Imm 0, Imm 0], Count,
    Syscall NR_sendto [Reg 2, Write_buf, Imm 0xb, Imm 0x40, Imm 0, Imm 0], Count,
    Syscall NR_recvfrom [Reg 2, Ptr 0x20e7b7c0, Imm 4, Imm 0x40, Imm 0, Imm 0], Count,
    Syscall NR_recvfrom [Reg 2, Ptr 0x20e7ec00, Imm 0xd1, Imm 0x40, Imm 0, Imm 0], Count,
    Syscall NR_sendto [Reg 2, Write_buf, Imm 0xd, Imm 0x40, Imm 0, Imm 0], Count,
    Syscall NR_recvfrom [Reg 2, Ptr 0x20e84440, Imm 4, Imm 0x40, Imm 0, Imm 0], Count,
    Syscall NR_recvfrom [Reg 2, Ptr 0x20e84700, Imm 0xb, Imm 0x40, Imm 0, Imm 0], Count]"

definition min_mysql_recvfrom_sendto_20_0_body541 :: "stmt list" where
  "min_mysql_recvfrom_sendto_20_0_body541 = [
    Syscall NR_sendto [Reg 2, Write_buf, Imm 0x18, Imm 0x40, Imm 0, Imm 0], Count,
    Syscall NR_recvfrom [Reg 2, Ptr 0x20fc94c0, Imm 4, Imm 0x40, Imm 0, Imm 0], Count,
    Syscall NR_recvfrom [Reg 2, Ptr 0x20fc9a80, Imm 8, Imm 0x40, Imm 0, Imm 0], Count,
    Syscall NR_sendto [Reg 2, Write_buf, Imm 0x18, Imm 0x40, Imm 0, Imm 0], Count,
    Syscall NR_recvfrom [Reg 2, Ptr 0x20fcad80, Imm 4, Imm 0x40, Imm 0, Imm 0], Count,
    Syscall NR_recvfrom [Reg 2, Ptr 0x20fcb400, Imm 0x15, Imm 0x40, Imm 0, Imm 0], Count,
    Syscall NR_sendto [Reg 2, Write_buf, Imm 0xc0, Imm 0x40, Imm 0, Imm 0], Count,
    Syscall NR_recvfrom [Reg 2, Ptr 0x20fcc840, Imm 4, Imm 0x40, Imm 0, Imm 0], Count,
    Syscall NR_recvfrom [Reg 2, Ptr 0x20fccf80, Imm 0x15, Imm 0x40, Imm 0, Imm 0], Count,
    Syscall NR_sendto [Reg 2, Write_buf, Imm 0xc0, Imm 0x40, Imm 0, Imm 0], Count]"

definition min_mysql_recvfrom_sendto_20_0_body542 :: "stmt list" where
  "min_mysql_recvfrom_sendto_20_0_body542 = [
    Syscall NR_recvfrom [Reg 2, Ptr 0x20fce480, Imm 4, Imm 0x40, Imm 0, Imm 0], Count,
    Syscall NR_recvfrom [Reg 2, Ptr 0x20fcecc0, Imm 0x15, Imm 0x40, Imm 0, Imm 0], Count,
    Syscall NR_sendto [Reg 2, Write_buf, Imm 0xc0, Imm 0x40, Imm 0, Imm 0], Count,
    Syscall NR_recvfrom [Reg 2, Ptr 0x20fd03c0, Imm 4, Imm 0x40, Imm 0, Imm 0], Count,
    Syscall NR_recvfrom [Reg 2, Ptr 0x20fd0cc0, Imm 0x15, Imm 0x40, Imm 0, Imm 0], Count,
    Syscall NR_sendto [Reg 2, Write_buf, Imm 0xc0, Imm 0x40, Imm 0, Imm 0], Count,
    Syscall NR_recvfrom [Reg 2, Ptr 0x20fe1880, Imm 4, Imm 0x40, Imm 0, Imm 0], Count,
    Syscall NR_recvfrom [Reg 2, Ptr 0x20fe2200, Imm 0x15, Imm 0x40, Imm 0, Imm 0], Count,
    Syscall NR_sendto [Reg 2, Write_buf, Imm 0xc0, Imm 0x40, Imm 0, Imm 0], Count,
    Syscall NR_recvfrom [Reg 2, Ptr 0x20fe9a40, Imm 4, Imm 0x40, Imm 0, Imm 0], Count]"

definition min_mysql_recvfrom_sendto_20_0_body543 :: "stmt list" where
  "min_mysql_recvfrom_sendto_20_0_body543 = [
    Syscall NR_recvfrom [Reg 2, Ptr 0x20fea3c0, Imm 0x15, Imm 0x40, Imm 0, Imm 0], Count,
    Syscall NR_sendto [Reg 2, Write_buf, Imm 0xc0, Imm 0x40, Imm 0, Imm 0], Count,
    Syscall NR_recvfrom [Reg 2, Ptr 0x20ff4b80, Imm 4, Imm 0x40, Imm 0, Imm 0], Count,
    Syscall NR_recvfrom [Reg 2, Ptr 0x20ff7f00, Imm 0x15, Imm 0x40, Imm 0, Imm 0], Count,
    Syscall NR_sendto [Reg 2, Write_buf, Imm 0xc0, Imm 0x40, Imm 0, Imm 0], Count,
    Syscall NR_recvfrom [Reg 2, Ptr 0x2000c840, Imm 4, Imm 0x40, Imm 0, Imm 0], Count,
    Syscall NR_recvfrom [Reg 2, Ptr 0x20011180, Imm 0x15, Imm 0x40, Imm 0, Imm 0], Count,
    Syscall NR_sendto [Reg 2, Write_buf, Imm 0xc0, Imm 0x40, Imm 0, Imm 0], Count,
    Syscall NR_recvfrom [Reg 2, Ptr 0x2004b1c0, Imm 4, Imm 0x40, Imm 0, Imm 0], Count,
    Syscall NR_recvfrom [Reg 2, Ptr 0x2005da40, Imm 0x15, Imm 0x40, Imm 0, Imm 0], Count]"

definition min_mysql_recvfrom_sendto_20_0_body544 :: "stmt list" where
  "min_mysql_recvfrom_sendto_20_0_body544 = [
    Syscall NR_sendto [Reg 2, Write_buf, Imm 0xc0, Imm 0x40, Imm 0, Imm 0], Count,
    Syscall NR_recvfrom [Reg 2, Ptr 0x200a2400, Imm 4, Imm 0x40, Imm 0, Imm 0], Count,
    Syscall NR_recvfrom [Reg 2, Ptr 0x200ba3c0, Imm 0x15, Imm 0x40, Imm 0, Imm 0], Count,
    Syscall NR_sendto [Reg 2, Write_buf, Imm 0xc0, Imm 0x40, Imm 0, Imm 0], Count,
    Syscall NR_recvfrom [Reg 2, Ptr 0x200dc580, Imm 4, Imm 0x40, Imm 0, Imm 0], Count,
    Syscall NR_recvfrom [Reg 2, Ptr 0x200f3c40, Imm 0x1d, Imm 0x40, Imm 0, Imm 0], Count,
    Syscall NR_sendto [Reg 2, Write_buf, Imm 0x317a, Imm 0x40, Imm 0, Imm 0], Count,
    Syscall NR_recvfrom [Reg 2, Ptr 0x2011b5c0, Imm 4, Imm 0x40, Imm 0, Imm 0], Count,
    Syscall NR_recvfrom [Reg 2, Ptr 0x2013dd00, Imm 0x1d, Imm 0x40, Imm 0, Imm 0], Count,
    Syscall NR_sendto [Reg 2, Write_buf, Imm 0x3c, Imm 0x40, Imm 0, Imm 0], Count]"

definition min_mysql_recvfrom_sendto_20_0_body545 :: "stmt list" where
  "min_mysql_recvfrom_sendto_20_0_body545 = [
    Syscall NR_recvfrom [Reg 2, Ptr 0x2017b580, Imm 4, Imm 0x40, Imm 0, Imm 0], Count,
    Syscall NR_recvfrom [Reg 2, Ptr 0x201bb540, Imm 0x1d, Imm 0x40, Imm 0, Imm 0], Count,
    Syscall NR_sendto [Reg 2, Write_buf, Imm 0x3178, Imm 0x40, Imm 0, Imm 0], Count,
    Syscall NR_recvfrom [Reg 2, Ptr 0x20471200, Imm 4, Imm 0x40, Imm 0, Imm 0], Count,
    Syscall NR_recvfrom [Reg 2, Ptr 0x2048e040, Imm 0x1d, Imm 0x40, Imm 0, Imm 0], Count,
    Syscall NR_sendto [Reg 2, Write_buf, Imm 0x3178, Imm 0x40, Imm 0, Imm 0], Count,
    Syscall NR_recvfrom [Reg 2, Ptr 0x205c1d00, Imm 4, Imm 0x40, Imm 0, Imm 0], Count,
    Syscall NR_recvfrom [Reg 2, Ptr 0x205cd400, Imm 0x15, Imm 0x40, Imm 0, Imm 0], Count,
    Syscall NR_sendto [Reg 2, Write_buf, Imm 0x34, Imm 0x40, Imm 0, Imm 0], Count,
    Syscall NR_recvfrom [Reg 2, Ptr 0x205dd4c0, Imm 4, Imm 0x40, Imm 0, Imm 0], Count]"

definition min_mysql_recvfrom_sendto_20_0_body546 :: "stmt list" where
  "min_mysql_recvfrom_sendto_20_0_body546 = [
    Syscall NR_recvfrom [Reg 2, Ptr 0x205dd900, Imm 0x8d, Imm 0x40, Imm 0, Imm 0], Count,
    Syscall NR_sendto [Reg 2, Write_buf, Imm 0x34, Imm 0x40, Imm 0, Imm 0], Count,
    Syscall NR_recvfrom [Reg 2, Ptr 0x205f6bc0, Imm 4, Imm 0x40, Imm 0, Imm 0], Count,
    Syscall NR_recvfrom [Reg 2, Ptr 0x205f9f00, Imm 0x15, Imm 0x40, Imm 0, Imm 0], Count,
    Syscall NR_sendto [Reg 2, Write_buf, Imm 0xb, Imm 0x40, Imm 0, Imm 0], Count,
    Syscall NR_recvfrom [Reg 2, Ptr 0x205fd840, Imm 4, Imm 0x40, Imm 0, Imm 0], Count,
    Syscall NR_recvfrom [Reg 2, Ptr 0x205fd9c0, Imm 0xd1, Imm 0x40, Imm 0, Imm 0], Count,
    Syscall NR_sendto [Reg 2, Write_buf, Imm 0xd, Imm 0x40, Imm 0, Imm 0], Count,
    Syscall NR_recvfrom [Reg 2, Ptr 0x205fe4c0, Imm 4, Imm 0x40, Imm 0, Imm 0], Count,
    Syscall NR_recvfrom [Reg 2, Ptr 0x205fe680, Imm 0xb, Imm 0x40, Imm 0, Imm 0], Count]"

definition min_mysql_recvfrom_sendto_20_0_body547 :: "stmt list" where
  "min_mysql_recvfrom_sendto_20_0_body547 = [
    Syscall NR_sendto [Reg 2, Write_buf, Imm 0x18, Imm 0x40, Imm 0, Imm 0], Count,
    Syscall NR_recvfrom [Reg 2, Ptr 0x20745a80, Imm 4, Imm 0x40, Imm 0, Imm 0], Count,
    Syscall NR_recvfrom [Reg 2, Ptr 0x20746300, Imm 8, Imm 0x40, Imm 0, Imm 0], Count,
    Syscall NR_sendto [Reg 2, Write_buf, Imm 0x18, Imm 0x40, Imm 0, Imm 0], Count,
    Syscall NR_recvfrom [Reg 2, Ptr 0x20747980, Imm 4, Imm 0x40, Imm 0, Imm 0], Count,
    Syscall NR_recvfrom [Reg 2, Ptr 0x20748300, Imm 0x15, Imm 0x40, Imm 0, Imm 0], Count,
    Syscall NR_sendto [Reg 2, Write_buf, Imm 0xc0, Imm 0x40, Imm 0, Imm 0], Count,
    Syscall NR_recvfrom [Reg 2, Ptr 0x20749b00, Imm 4, Imm 0x40, Imm 0, Imm 0], Count,
    Syscall NR_recvfrom [Reg 2, Ptr 0x2074a500, Imm 0x15, Imm 0x40, Imm 0, Imm 0], Count,
    Syscall NR_sendto [Reg 2, Write_buf, Imm 0xc0, Imm 0x40, Imm 0, Imm 0], Count]"

definition min_mysql_recvfrom_sendto_20_0_body548 :: "stmt list" where
  "min_mysql_recvfrom_sendto_20_0_body548 = [
    Syscall NR_recvfrom [Reg 2, Ptr 0x2074be00, Imm 4, Imm 0x40, Imm 0, Imm 0], Count,
    Syscall NR_recvfrom [Reg 2, Ptr 0x2074f8c0, Imm 0x15, Imm 0x40, Imm 0, Imm 0], Count,
    Syscall NR_sendto [Reg 2, Write_buf, Imm 0xc0, Imm 0x40, Imm 0, Imm 0], Count,
    Syscall NR_recvfrom [Reg 2, Ptr 0x207511c0, Imm 4, Imm 0x40, Imm 0, Imm 0], Count,
    Syscall NR_recvfrom [Reg 2, Ptr 0x20754c00, Imm 0x15, Imm 0x40, Imm 0, Imm 0], Count,
    Syscall NR_sendto [Reg 2, Write_buf, Imm 0xc0, Imm 0x40, Imm 0, Imm 0], Count,
    Syscall NR_recvfrom [Reg 2, Ptr 0x20762800, Imm 4, Imm 0x40, Imm 0, Imm 0], Count,
    Syscall NR_recvfrom [Reg 2, Ptr 0x20763100, Imm 0x15, Imm 0x40, Imm 0, Imm 0], Count,
    Syscall NR_sendto [Reg 2, Write_buf, Imm 0xc0, Imm 0x40, Imm 0, Imm 0], Count,
    Syscall NR_recvfrom [Reg 2, Ptr 0x2076d9c0, Imm 4, Imm 0x40, Imm 0, Imm 0], Count]"

definition min_mysql_recvfrom_sendto_20_0_body549 :: "stmt list" where
  "min_mysql_recvfrom_sendto_20_0_body549 = [
    Syscall NR_recvfrom [Reg 2, Ptr 0x20775d00, Imm 0x15, Imm 0x40, Imm 0, Imm 0], Count,
    Syscall NR_sendto [Reg 2, Write_buf, Imm 0xc0, Imm 0x40, Imm 0, Imm 0], Count,
    Syscall NR_recvfrom [Reg 2, Ptr 0x2078a080, Imm 4, Imm 0x40, Imm 0, Imm 0], Count,
    Syscall NR_recvfrom [Reg 2, Ptr 0x2078bc00, Imm 0x15, Imm 0x40, Imm 0, Imm 0], Count,
    Syscall NR_sendto [Reg 2, Write_buf, Imm 0xc0, Imm 0x40, Imm 0, Imm 0], Count,
    Syscall NR_recvfrom [Reg 2, Ptr 0x207aba00, Imm 4, Imm 0x40, Imm 0, Imm 0], Count,
    Syscall NR_recvfrom [Reg 2, Ptr 0x207c3940, Imm 0x15, Imm 0x40, Imm 0, Imm 0], Count,
    Syscall NR_sendto [Reg 2, Write_buf, Imm 0xc0, Imm 0x40, Imm 0, Imm 0], Count,
    Syscall NR_recvfrom [Reg 2, Ptr 0x207e8e00, Imm 4, Imm 0x40, Imm 0, Imm 0], Count,
    Syscall NR_recvfrom [Reg 2, Ptr 0x2080f180, Imm 0x15, Imm 0x40, Imm 0, Imm 0], Count]"

definition min_mysql_recvfrom_sendto_20_0_body550 :: "stmt list" where
  "min_mysql_recvfrom_sendto_20_0_body550 = [
    Syscall NR_sendto [Reg 2, Write_buf, Imm 0xc0, Imm 0x40, Imm 0, Imm 0], Count,
    Syscall NR_recvfrom [Reg 2, Ptr 0x20853e40, Imm 4, Imm 0x40, Imm 0, Imm 0], Count,
    Syscall NR_recvfrom [Reg 2, Ptr 0x20872680, Imm 0x15, Imm 0x40, Imm 0, Imm 0], Count,
    Syscall NR_sendto [Reg 2, Write_buf, Imm 0xc0, Imm 0x40, Imm 0, Imm 0], Count,
    Syscall NR_recvfrom [Reg 2, Ptr 0x20899580, Imm 4, Imm 0x40, Imm 0, Imm 0], Count,
    Syscall NR_recvfrom [Reg 2, Ptr 0x208a6900, Imm 0x1d, Imm 0x40, Imm 0, Imm 0], Count,
    Syscall NR_sendto [Reg 2, Write_buf, Imm 0x3178, Imm 0x40, Imm 0, Imm 0], Count,
    Syscall NR_recvfrom [Reg 2, Ptr 0x208cc480, Imm 4, Imm 0x40, Imm 0, Imm 0], Count,
    Syscall NR_recvfrom [Reg 2, Ptr 0x208f69c0, Imm 0x23, Imm 0x40, Imm 0, Imm 0], Count,
    Syscall NR_sendto [Reg 2, Write_buf, Imm 0x3c, Imm 0x40, Imm 0, Imm 0], Count]"

definition min_mysql_recvfrom_sendto_20_0_body551 :: "stmt list" where
  "min_mysql_recvfrom_sendto_20_0_body551 = [
    Syscall NR_recvfrom [Reg 2, Ptr 0x20945c00, Imm 4, Imm 0x40, Imm 0, Imm 0], Count,
    Syscall NR_recvfrom [Reg 2, Ptr 0x2096a480, Imm 0x1d, Imm 0x40, Imm 0, Imm 0], Count,
    Syscall NR_sendto [Reg 2, Write_buf, Imm 0x3178, Imm 0x40, Imm 0, Imm 0], Count,
    Syscall NR_recvfrom [Reg 2, Ptr 0x20bf9bc0, Imm 4, Imm 0x40, Imm 0, Imm 0], Count,
    Syscall NR_recvfrom [Reg 2, Ptr 0x20c04500, Imm 0x1d, Imm 0x40, Imm 0, Imm 0], Count,
    Syscall NR_sendto [Reg 2, Write_buf, Imm 0x3178, Imm 0x40, Imm 0, Imm 0], Count,
    Syscall NR_recvfrom [Reg 2, Ptr 0x20d09800, Imm 4, Imm 0x40, Imm 0, Imm 0], Count,
    Syscall NR_recvfrom [Reg 2, Ptr 0x20d09c80, Imm 0x15, Imm 0x40, Imm 0, Imm 0], Count,
    Syscall NR_sendto [Reg 2, Write_buf, Imm 0x34, Imm 0x40, Imm 0, Imm 0], Count,
    Syscall NR_recvfrom [Reg 2, Ptr 0x20d107c0, Imm 4, Imm 0x40, Imm 0, Imm 0], Count]"

definition min_mysql_recvfrom_sendto_20_0_body552 :: "stmt list" where
  "min_mysql_recvfrom_sendto_20_0_body552 = [
    Syscall NR_recvfrom [Reg 2, Ptr 0x20d16980, Imm 0x8d, Imm 0x40, Imm 0, Imm 0], Count,
    Syscall NR_sendto [Reg 2, Write_buf, Imm 0x34, Imm 0x40, Imm 0, Imm 0], Count,
    Syscall NR_recvfrom [Reg 2, Ptr 0x20d18f00, Imm 4, Imm 0x40, Imm 0, Imm 0], Count,
    Syscall NR_recvfrom [Reg 2, Ptr 0x20d19100, Imm 0x15, Imm 0x40, Imm 0, Imm 0], Count,
    Syscall NR_sendto [Reg 2, Write_buf, Imm 0xb, Imm 0x40, Imm 0, Imm 0], Count,
    Syscall NR_recvfrom [Reg 2, Ptr 0x20d19ec0, Imm 4, Imm 0x40, Imm 0, Imm 0], Count,
    Syscall NR_recvfrom [Reg 2, Ptr 0x20d1a880, Imm 0xd1, Imm 0x40, Imm 0, Imm 0], Count,
    Syscall NR_sendto [Reg 2, Write_buf, Imm 0xd, Imm 0x40, Imm 0, Imm 0], Count,
    Syscall NR_recvfrom [Reg 2, Ptr 0x20d1b200, Imm 4, Imm 0x40, Imm 0, Imm 0], Count,
    Syscall NR_recvfrom [Reg 2, Ptr 0x20d1b700, Imm 0xb, Imm 0x40, Imm 0, Imm 0], Count]"

definition min_mysql_recvfrom_sendto_20_0_body553 :: "stmt list" where
  "min_mysql_recvfrom_sendto_20_0_body553 = [
    Syscall NR_sendto [Reg 2, Write_buf, Imm 0x18, Imm 0x40, Imm 0, Imm 0], Count,
    Syscall NR_recvfrom [Reg 2, Ptr 0x20e25380, Imm 4, Imm 0x40, Imm 0, Imm 0], Count,
    Syscall NR_recvfrom [Reg 2, Ptr 0x20e25e80, Imm 8, Imm 0x40, Imm 0, Imm 0], Count,
    Syscall NR_sendto [Reg 2, Write_buf, Imm 0x18, Imm 0x40, Imm 0, Imm 0], Count,
    Syscall NR_recvfrom [Reg 2, Ptr 0x20e27280, Imm 4, Imm 0x40, Imm 0, Imm 0], Count,
    Syscall NR_recvfrom [Reg 2, Ptr 0x20e27e80, Imm 0x15, Imm 0x40, Imm 0, Imm 0], Count,
    Syscall NR_sendto [Reg 2, Write_buf, Imm 0xbe, Imm 0x40, Imm 0, Imm 0], Count,
    Syscall NR_recvfrom [Reg 2, Ptr 0x20e29440, Imm 4, Imm 0x40, Imm 0, Imm 0], Count,
    Syscall NR_recvfrom [Reg 2, Ptr 0x20e2b080, Imm 0x15, Imm 0x40, Imm 0, Imm 0], Count,
    Syscall NR_sendto [Reg 2, Write_buf, Imm 0xbe, Imm 0x40, Imm 0, Imm 0], Count]"

definition min_mysql_recvfrom_sendto_20_0_body554 :: "stmt list" where
  "min_mysql_recvfrom_sendto_20_0_body554 = [
    Syscall NR_recvfrom [Reg 2, Ptr 0x20e2f7c0, Imm 4, Imm 0x40, Imm 0, Imm 0], Count,
    Syscall NR_recvfrom [Reg 2, Ptr 0x20e303c0, Imm 0x15, Imm 0x40, Imm 0, Imm 0], Count,
    Syscall NR_sendto [Reg 2, Write_buf, Imm 0xbe, Imm 0x40, Imm 0, Imm 0], Count,
    Syscall NR_recvfrom [Reg 2, Ptr 0x20e34a80, Imm 4, Imm 0x40, Imm 0, Imm 0], Count,
    Syscall NR_recvfrom [Reg 2, Ptr 0x20e3b800, Imm 0x15, Imm 0x40, Imm 0, Imm 0], Count,
    Syscall NR_sendto [Reg 2, Write_buf, Imm 0xbe, Imm 0x40, Imm 0, Imm 0], Count,
    Syscall NR_recvfrom [Reg 2, Ptr 0x20e410c0, Imm 4, Imm 0x40, Imm 0, Imm 0], Count,
    Syscall NR_recvfrom [Reg 2, Ptr 0x20e47c80, Imm 0x15, Imm 0x40, Imm 0, Imm 0], Count,
    Syscall NR_sendto [Reg 2, Write_buf, Imm 0xbe, Imm 0x40, Imm 0, Imm 0], Count,
    Syscall NR_recvfrom [Reg 2, Ptr 0x20e59440, Imm 4, Imm 0x40, Imm 0, Imm 0], Count]"

definition min_mysql_recvfrom_sendto_20_0_body555 :: "stmt list" where
  "min_mysql_recvfrom_sendto_20_0_body555 = [
    Syscall NR_recvfrom [Reg 2, Ptr 0x20e64300, Imm 0x15, Imm 0x40, Imm 0, Imm 0], Count,
    Syscall NR_sendto [Reg 2, Write_buf, Imm 0xbe, Imm 0x40, Imm 0, Imm 0], Count,
    Syscall NR_recvfrom [Reg 2, Ptr 0x20e72f40, Imm 4, Imm 0x40, Imm 0, Imm 0], Count,
    Syscall NR_recvfrom [Reg 2, Ptr 0x20e83cc0, Imm 0x15, Imm 0x40, Imm 0, Imm 0], Count,
    Syscall NR_sendto [Reg 2, Write_buf, Imm 0xbe, Imm 0x40, Imm 0, Imm 0], Count,
    Syscall NR_recvfrom [Reg 2, Ptr 0x20ea4440, Imm 4, Imm 0x40, Imm 0, Imm 0], Count,
    Syscall NR_recvfrom [Reg 2, Ptr 0x20ecc3c0, Imm 0x15, Imm 0x40, Imm 0, Imm 0], Count,
    Syscall NR_sendto [Reg 2, Write_buf, Imm 0xbe, Imm 0x40, Imm 0, Imm 0], Count,
    Syscall NR_recvfrom [Reg 2, Ptr 0x20f02ac0, Imm 4, Imm 0x40, Imm 0, Imm 0], Count,
    Syscall NR_recvfrom [Reg 2, Ptr 0x20f16300, Imm 0x15, Imm 0x40, Imm 0, Imm 0], Count]"

definition min_mysql_recvfrom_sendto_20_0_body556 :: "stmt list" where
  "min_mysql_recvfrom_sendto_20_0_body556 = [
    Syscall NR_sendto [Reg 2, Write_buf, Imm 0xbe, Imm 0x40, Imm 0, Imm 0], Count,
    Syscall NR_recvfrom [Reg 2, Ptr 0x20f2e900, Imm 4, Imm 0x40, Imm 0, Imm 0], Count,
    Syscall NR_recvfrom [Reg 2, Ptr 0x20f35400, Imm 0x15, Imm 0x40, Imm 0, Imm 0], Count,
    Syscall NR_sendto [Reg 2, Write_buf, Imm 0xbe, Imm 0x40, Imm 0, Imm 0], Count,
    Syscall NR_recvfrom [Reg 2, Ptr 0x20f4bf80, Imm 4, Imm 0x40, Imm 0, Imm 0], Count,
    Syscall NR_recvfrom [Reg 2, Ptr 0x20f6c180, Imm 0x1d, Imm 0x40, Imm 0, Imm 0], Count,
    Syscall NR_sendto [Reg 2, Write_buf, Imm 0x317a, Imm 0x40, Imm 0, Imm 0], Count,
    Syscall NR_recvfrom [Reg 2, Ptr 0x20fbe0c0, Imm 4, Imm 0x40, Imm 0, Imm 0], Count,
    Syscall NR_recvfrom [Reg 2, Ptr 0x20fd9200, Imm 0x1d, Imm 0x40, Imm 0, Imm 0], Count,
    Syscall NR_sendto [Reg 2, Write_buf, Imm 0x3c, Imm 0x40, Imm 0, Imm 0], Count]"

definition min_mysql_recvfrom_sendto_20_0_body557 :: "stmt list" where
  "min_mysql_recvfrom_sendto_20_0_body557 = [
    Syscall NR_recvfrom [Reg 2, Ptr 0x200312c0, Imm 4, Imm 0x40, Imm 0, Imm 0], Count,
    Syscall NR_recvfrom [Reg 2, Ptr 0x2004dd40, Imm 0x1d, Imm 0x40, Imm 0, Imm 0], Count,
    Syscall NR_sendto [Reg 2, Write_buf, Imm 0x317a, Imm 0x40, Imm 0, Imm 0], Count,
    Syscall NR_recvfrom [Reg 2, Ptr 0x202f21c0, Imm 4, Imm 0x40, Imm 0, Imm 0], Count,
    Syscall NR_recvfrom [Reg 2, Ptr 0x202fca80, Imm 0x1d, Imm 0x40, Imm 0, Imm 0], Count,
    Syscall NR_sendto [Reg 2, Write_buf, Imm 0x3178, Imm 0x40, Imm 0, Imm 0], Count,
    Syscall NR_recvfrom [Reg 2, Ptr 0x2041fcc0, Imm 4, Imm 0x40, Imm 0, Imm 0], Count,
    Syscall NR_recvfrom [Reg 2, Ptr 0x20426300, Imm 0x18, Imm 0x40, Imm 0, Imm 0], Count,
    Syscall NR_sendto [Reg 2, Write_buf, Imm 0x34, Imm 0x40, Imm 0, Imm 0], Count,
    Syscall NR_recvfrom [Reg 2, Ptr 0x2042b980, Imm 4, Imm 0x40, Imm 0, Imm 0], Count]"

definition min_mysql_recvfrom_sendto_20_0_body558 :: "stmt list" where
  "min_mysql_recvfrom_sendto_20_0_body558 = [
    Syscall NR_recvfrom [Reg 2, Ptr 0x2042ed40, Imm 0x8d, Imm 0x40, Imm 0, Imm 0], Count,
    Syscall NR_sendto [Reg 2, Write_buf, Imm 0x34, Imm 0x40, Imm 0, Imm 0], Count,
    Syscall NR_recvfrom [Reg 2, Ptr 0x2042fd80, Imm 4, Imm 0x40, Imm 0, Imm 0], Count,
    Syscall NR_recvfrom [Reg 2, Ptr 0x2042ff40, Imm 0x15, Imm 0x40, Imm 0, Imm 0], Count,
    Syscall NR_sendto [Reg 2, Write_buf, Imm 0xb, Imm 0x40, Imm 0, Imm 0], Count,
    Syscall NR_recvfrom [Reg 2, Ptr 0x204310c0, Imm 4, Imm 0x40, Imm 0, Imm 0], Count,
    Syscall NR_recvfrom [Reg 2, Ptr 0x20431240, Imm 0xd1, Imm 0x40, Imm 0, Imm 0], Count,
    Syscall NR_sendto [Reg 2, Write_buf, Imm 0xd, Imm 0x40, Imm 0, Imm 0], Count,
    Syscall NR_recvfrom [Reg 2, Ptr 0x204339c0, Imm 4, Imm 0x40, Imm 0, Imm 0], Count,
    Syscall NR_recvfrom [Reg 2, Ptr 0x20433c80, Imm 0xb, Imm 0x40, Imm 0, Imm 0], Count]"

definition min_mysql_recvfrom_sendto_20_0_body559 :: "stmt list" where
  "min_mysql_recvfrom_sendto_20_0_body559 = [
    Syscall NR_sendto [Reg 2, Write_buf, Imm 0x18, Imm 0x40, Imm 0, Imm 0], Count,
    Syscall NR_recvfrom [Reg 2, Ptr 0x2052bc00, Imm 4, Imm 0x40, Imm 0, Imm 0], Count,
    Syscall NR_recvfrom [Reg 2, Ptr 0x2052c4c0, Imm 8, Imm 0x40, Imm 0, Imm 0], Count,
    Syscall NR_sendto [Reg 2, Write_buf, Imm 0x18, Imm 0x40, Imm 0, Imm 0], Count,
    Syscall NR_recvfrom [Reg 2, Ptr 0x2052d940, Imm 4, Imm 0x40, Imm 0, Imm 0], Count,
    Syscall NR_recvfrom [Reg 2, Ptr 0x2052e380, Imm 0x15, Imm 0x40, Imm 0, Imm 0], Count,
    Syscall NR_sendto [Reg 2, Write_buf, Imm 0xc0, Imm 0x40, Imm 0, Imm 0], Count,
    Syscall NR_recvfrom [Reg 2, Ptr 0x2052f940, Imm 4, Imm 0x40, Imm 0, Imm 0], Count,
    Syscall NR_recvfrom [Reg 2, Ptr 0x20533480, Imm 0x15, Imm 0x40, Imm 0, Imm 0], Count,
    Syscall NR_sendto [Reg 2, Write_buf, Imm 0xc0, Imm 0x40, Imm 0, Imm 0], Count]"

definition min_mysql_recvfrom_sendto_20_0_body560 :: "stmt list" where
  "min_mysql_recvfrom_sendto_20_0_body560 = [
    Syscall NR_recvfrom [Reg 2, Ptr 0x20534c00, Imm 4, Imm 0x40, Imm 0, Imm 0], Count,
    Syscall NR_recvfrom [Reg 2, Ptr 0x20538740, Imm 0x15, Imm 0x40, Imm 0, Imm 0], Count,
    Syscall NR_sendto [Reg 2, Write_buf, Imm 0xc0, Imm 0x40, Imm 0, Imm 0], Count,
    Syscall NR_recvfrom [Reg 2, Ptr 0x20543180, Imm 4, Imm 0x40, Imm 0, Imm 0], Count,
    Syscall NR_recvfrom [Reg 2, Ptr 0x20544dc0, Imm 0x15, Imm 0x40, Imm 0, Imm 0], Count,
    Syscall NR_sendto [Reg 2, Write_buf, Imm 0xc0, Imm 0x40, Imm 0, Imm 0], Count,
    Syscall NR_recvfrom [Reg 2, Ptr 0x2054f640, Imm 4, Imm 0x40, Imm 0, Imm 0], Count,
    Syscall NR_recvfrom [Reg 2, Ptr 0x20550000, Imm 0x15, Imm 0x40, Imm 0, Imm 0], Count,
    Syscall NR_sendto [Reg 2, Write_buf, Imm 0xc0, Imm 0x40, Imm 0, Imm 0], Count,
    Syscall NR_recvfrom [Reg 2, Ptr 0x20559740, Imm 4, Imm 0x40, Imm 0, Imm 0], Count]"

definition min_mysql_recvfrom_sendto_20_0_body561 :: "stmt list" where
  "min_mysql_recvfrom_sendto_20_0_body561 = [
    Syscall NR_recvfrom [Reg 2, Ptr 0x20560380, Imm 0x15, Imm 0x40, Imm 0, Imm 0], Count,
    Syscall NR_sendto [Reg 2, Write_buf, Imm 0xc0, Imm 0x40, Imm 0, Imm 0], Count,
    Syscall NR_recvfrom [Reg 2, Ptr 0x20589f00, Imm 4, Imm 0x40, Imm 0, Imm 0], Count,
    Syscall NR_recvfrom [Reg 2, Ptr 0x20597880, Imm 0x15, Imm 0x40, Imm 0, Imm 0], Count,
    Syscall NR_sendto [Reg 2, Write_buf, Imm 0xc0, Imm 0x40, Imm 0, Imm 0], Count,
    Syscall NR_recvfrom [Reg 2, Ptr 0x205cefc0, Imm 4, Imm 0x40, Imm 0, Imm 0], Count,
    Syscall NR_recvfrom [Reg 2, Ptr 0x205ed180, Imm 0x15, Imm 0x40, Imm 0, Imm 0], Count,
    Syscall NR_sendto [Reg 2, Write_buf, Imm 0xc0, Imm 0x40, Imm 0, Imm 0], Count,
    Syscall NR_recvfrom [Reg 2, Ptr 0x2060f340, Imm 4, Imm 0x40, Imm 0, Imm 0], Count,
    Syscall NR_recvfrom [Reg 2, Ptr 0x206261c0, Imm 0x15, Imm 0x40, Imm 0, Imm 0], Count]"

definition min_mysql_recvfrom_sendto_20_0_body562 :: "stmt list" where
  "min_mysql_recvfrom_sendto_20_0_body562 = [
    Syscall NR_sendto [Reg 2, Write_buf, Imm 0xc0, Imm 0x40, Imm 0, Imm 0], Count,
    Syscall NR_recvfrom [Reg 2, Ptr 0x206475c0, Imm 4, Imm 0x40, Imm 0, Imm 0], Count,
    Syscall NR_recvfrom [Reg 2, Ptr 0x20663f00, Imm 0x15, Imm 0x40, Imm 0, Imm 0], Count,
    Syscall NR_sendto [Reg 2, Write_buf, Imm 0xc0, Imm 0x40, Imm 0, Imm 0], Count,
    Syscall NR_recvfrom [Reg 2, Ptr 0x2069ec40, Imm 4, Imm 0x40, Imm 0, Imm 0], Count,
    Syscall NR_recvfrom [Reg 2, Ptr 0x206c7880, Imm 0x1d, Imm 0x40, Imm 0, Imm 0], Count,
    Syscall NR_sendto [Reg 2, Write_buf, Imm 0x3178, Imm 0x40, Imm 0, Imm 0], Count,
    Syscall NR_recvfrom [Reg 2, Ptr 0x20708440, Imm 4, Imm 0x40, Imm 0, Imm 0], Count,
    Syscall NR_recvfrom [Reg 2, Ptr 0x2072b640, Imm 0x1d, Imm 0x40, Imm 0, Imm 0], Count,
    Syscall NR_sendto [Reg 2, Write_buf, Imm 0x3c, Imm 0x40, Imm 0, Imm 0], Count]"

definition min_mysql_recvfrom_sendto_20_0_body563 :: "stmt list" where
  "min_mysql_recvfrom_sendto_20_0_body563 = [
    Syscall NR_recvfrom [Reg 2, Ptr 0x2075b980, Imm 4, Imm 0x40, Imm 0, Imm 0], Count,
    Syscall NR_recvfrom [Reg 2, Ptr 0x2076d480, Imm 0x1d, Imm 0x40, Imm 0, Imm 0], Count,
    Syscall NR_sendto [Reg 2, Write_buf, Imm 0x317a, Imm 0x40, Imm 0, Imm 0], Count,
    Syscall NR_recvfrom [Reg 2, Ptr 0x20a01940, Imm 4, Imm 0x40, Imm 0, Imm 0], Count,
    Syscall NR_recvfrom [Reg 2, Ptr 0x20a102c0, Imm 0x1d, Imm 0x40, Imm 0, Imm 0], Count,
    Syscall NR_sendto [Reg 2, Write_buf, Imm 0x317a, Imm 0x40, Imm 0, Imm 0], Count,
    Syscall NR_recvfrom [Reg 2, Ptr 0x20b269c0, Imm 4, Imm 0x40, Imm 0, Imm 0], Count,
    Syscall NR_recvfrom [Reg 2, Ptr 0x20b29d00, Imm 0x15, Imm 0x40, Imm 0, Imm 0], Count,
    Syscall NR_sendto [Reg 2, Write_buf, Imm 0x34, Imm 0x40, Imm 0, Imm 0], Count,
    Syscall NR_recvfrom [Reg 2, Ptr 0x20b36740, Imm 4, Imm 0x40, Imm 0, Imm 0], Count]"

definition min_mysql_recvfrom_sendto_20_0_body564 :: "stmt list" where
  "min_mysql_recvfrom_sendto_20_0_body564 = [
    Syscall NR_recvfrom [Reg 2, Ptr 0x20b39a80, Imm 0x8d, Imm 0x40, Imm 0, Imm 0], Count,
    Syscall NR_sendto [Reg 2, Write_buf, Imm 0x34, Imm 0x40, Imm 0, Imm 0], Count,
    Syscall NR_recvfrom [Reg 2, Ptr 0x20b40080, Imm 4, Imm 0x40, Imm 0, Imm 0], Count,
    Syscall NR_recvfrom [Reg 2, Ptr 0x20b43380, Imm 0x15, Imm 0x40, Imm 0, Imm 0], Count,
    Syscall NR_sendto [Reg 2, Write_buf, Imm 0xb, Imm 0x40, Imm 0, Imm 0], Count,
    Syscall NR_recvfrom [Reg 2, Ptr 0x20b43780, Imm 4, Imm 0x40, Imm 0, Imm 0], Count,
    Syscall NR_recvfrom [Reg 2, Ptr 0x20b43980, Imm 0xd1, Imm 0x40, Imm 0, Imm 0], Count,
    Syscall NR_sendto [Reg 2, Write_buf, Imm 0xb, Imm 0x40, Imm 0, Imm 0], Count,
    Syscall NR_recvfrom [Reg 2, Ptr 0x20b43e00, Imm 4, Imm 0x40, Imm 0, Imm 0], Count,
    Syscall NR_recvfrom [Reg 2, Ptr 0x20b43f40, Imm 0xb, Imm 0x40, Imm 0, Imm 0], Count]"

definition min_mysql_recvfrom_sendto_20_0_body565 :: "stmt list" where
  "min_mysql_recvfrom_sendto_20_0_body565 = [
    Syscall NR_sendto [Reg 2, Write_buf, Imm 0x18, Imm 0x40, Imm 0, Imm 0], Count,
    Syscall NR_recvfrom [Reg 2, Ptr 0x20b8df00, Imm 4, Imm 0x40, Imm 0, Imm 0], Count,
    Syscall NR_recvfrom [Reg 2, Ptr 0x20b94cc0, Imm 8, Imm 0x40, Imm 0, Imm 0], Count,
    Syscall NR_sendto [Reg 2, Write_buf, Imm 0x18, Imm 0x40, Imm 0, Imm 0], Count,
    Syscall NR_recvfrom [Reg 2, Ptr 0x20b9f340, Imm 4, Imm 0x40, Imm 0, Imm 0], Count,
    Syscall NR_recvfrom [Reg 2, Ptr 0x20b9ff00, Imm 0x15, Imm 0x40, Imm 0, Imm 0], Count,
    Syscall NR_sendto [Reg 2, Write_buf, Imm 0xc0, Imm 0x40, Imm 0, Imm 0], Count,
    Syscall NR_recvfrom [Reg 2, Ptr 0x20ba1480, Imm 4, Imm 0x40, Imm 0, Imm 0], Count,
    Syscall NR_recvfrom [Reg 2, Ptr 0x20ba2680, Imm 0x15, Imm 0x40, Imm 0, Imm 0], Count,
    Syscall NR_sendto [Reg 2, Write_buf, Imm 0xc0, Imm 0x40, Imm 0, Imm 0], Count]"

definition min_mysql_recvfrom_sendto_20_0_body566 :: "stmt list" where
  "min_mysql_recvfrom_sendto_20_0_body566 = [
    Syscall NR_recvfrom [Reg 2, Ptr 0x20bb7880, Imm 4, Imm 0x40, Imm 0, Imm 0], Count,
    Syscall NR_recvfrom [Reg 2, Ptr 0x20bb9900, Imm 0x15, Imm 0x40, Imm 0, Imm 0], Count,
    Syscall NR_sendto [Reg 2, Write_buf, Imm 0xc0, Imm 0x40, Imm 0, Imm 0], Count,
    Syscall NR_recvfrom [Reg 2, Ptr 0x20bd9740, Imm 4, Imm 0x40, Imm 0, Imm 0], Count,
    Syscall NR_recvfrom [Reg 2, Ptr 0x20bfadc0, Imm 0x15, Imm 0x40, Imm 0, Imm 0], Count,
    Syscall NR_sendto [Reg 2, Write_buf, Imm 0xc0, Imm 0x40, Imm 0, Imm 0], Count,
    Syscall NR_recvfrom [Reg 2, Ptr 0x20c10fc0, Imm 4, Imm 0x40, Imm 0, Imm 0], Count,
    Syscall NR_recvfrom [Reg 2, Ptr 0x20c1e0c0, Imm 0x15, Imm 0x40, Imm 0, Imm 0], Count,
    Syscall NR_sendto [Reg 2, Write_buf, Imm 0xc0, Imm 0x40, Imm 0, Imm 0], Count,
    Syscall NR_recvfrom [Reg 2, Ptr 0x20c42400, Imm 4, Imm 0x40, Imm 0, Imm 0], Count]"

definition min_mysql_recvfrom_sendto_20_0_body567 :: "stmt list" where
  "min_mysql_recvfrom_sendto_20_0_body567 = [
    Syscall NR_recvfrom [Reg 2, Ptr 0x20c57800, Imm 0x15, Imm 0x40, Imm 0, Imm 0], Count,
    Syscall NR_sendto [Reg 2, Write_buf, Imm 0xc0, Imm 0x40, Imm 0, Imm 0], Count,
    Syscall NR_recvfrom [Reg 2, Ptr 0x20c81f40, Imm 4, Imm 0x40, Imm 0, Imm 0], Count,
    Syscall NR_recvfrom [Reg 2, Ptr 0x20c94d00, Imm 0x15, Imm 0x40, Imm 0, Imm 0], Count,
    Syscall NR_sendto [Reg 2, Write_buf, Imm 0xc0, Imm 0x40, Imm 0, Imm 0], Count,
    Syscall NR_recvfrom [Reg 2, Ptr 0x20cccbc0, Imm 4, Imm 0x40, Imm 0, Imm 0], Count,
    Syscall NR_recvfrom [Reg 2, Ptr 0x20cea680, Imm 0x15, Imm 0x40, Imm 0, Imm 0], Count,
    Syscall NR_sendto [Reg 2, Write_buf, Imm 0xc0, Imm 0x40, Imm 0, Imm 0], Count,
    Syscall NR_recvfrom [Reg 2, Ptr 0x20d1d6c0, Imm 4, Imm 0x40, Imm 0, Imm 0], Count,
    Syscall NR_recvfrom [Reg 2, Ptr 0x20d2b900, Imm 0x15, Imm 0x40, Imm 0, Imm 0], Count]"

definition min_mysql_recvfrom_sendto_20_0_body568 :: "stmt list" where
  "min_mysql_recvfrom_sendto_20_0_body568 = [
    Syscall NR_sendto [Reg 2, Write_buf, Imm 0xc0, Imm 0x40, Imm 0, Imm 0], Count,
    Syscall NR_recvfrom [Reg 2, Ptr 0x20d55c80, Imm 4, Imm 0x40, Imm 0, Imm 0], Count,
    Syscall NR_recvfrom [Reg 2, Ptr 0x20d71e00, Imm 0x15, Imm 0x40, Imm 0, Imm 0], Count,
    Syscall NR_sendto [Reg 2, Write_buf, Imm 0xc0, Imm 0x40, Imm 0, Imm 0], Count,
    Syscall NR_recvfrom [Reg 2, Ptr 0x20da1d00, Imm 4, Imm 0x40, Imm 0, Imm 0], Count,
    Syscall NR_recvfrom [Reg 2, Ptr 0x20dccc00, Imm 0x1d, Imm 0x40, Imm 0, Imm 0], Count,
    Syscall NR_sendto [Reg 2, Write_buf, Imm 0x317a, Imm 0x40, Imm 0, Imm 0], Count,
    Syscall NR_recvfrom [Reg 2, Ptr 0x20e2f100, Imm 4, Imm 0x40, Imm 0, Imm 0], Count,
    Syscall NR_recvfrom [Reg 2, Ptr 0x20e4eb00, Imm 0x1d, Imm 0x40, Imm 0, Imm 0], Count,
    Syscall NR_sendto [Reg 2, Write_buf, Imm 0x3c, Imm 0x40, Imm 0, Imm 0], Count]"

definition min_mysql_recvfrom_sendto_20_0_body569 :: "stmt list" where
  "min_mysql_recvfrom_sendto_20_0_body569 = [
    Syscall NR_recvfrom [Reg 2, Ptr 0x20e9dd80, Imm 4, Imm 0x40, Imm 0, Imm 0], Count,
    Syscall NR_recvfrom [Reg 2, Ptr 0x20ec9d00, Imm 0x1d, Imm 0x40, Imm 0, Imm 0], Count,
    Syscall NR_sendto [Reg 2, Write_buf, Imm 0x16e6, Imm 0x40, Imm 0, Imm 0], Count,
    Syscall NR_recvfrom [Reg 2, Ptr 0x20f1d3c0, Imm 4, Imm 0x40, Imm 0, Imm 0], Count,
    Syscall NR_recvfrom [Reg 2, Ptr 0x20f39b00, Imm 0x1d, Imm 0x40, Imm 0, Imm 0], Count,
    Syscall NR_sendto [Reg 2, Write_buf, Imm 0x317a, Imm 0x40, Imm 0, Imm 0], Count,
    Syscall NR_recvfrom [Reg 2, Ptr 0x20186bc0, Imm 4, Imm 0x40, Imm 0, Imm 0], Count,
    Syscall NR_recvfrom [Reg 2, Ptr 0x201a6980, Imm 0x15, Imm 0x40, Imm 0, Imm 0], Count,
    Syscall NR_sendto [Reg 2, Write_buf, Imm 0x34, Imm 0x40, Imm 0, Imm 0], Count,
    Syscall NR_recvfrom [Reg 2, Ptr 0x201c4440, Imm 4, Imm 0x40, Imm 0, Imm 0], Count]"

definition min_mysql_recvfrom_sendto_20_0_body570 :: "stmt list" where
  "min_mysql_recvfrom_sendto_20_0_body570 = [
    Syscall NR_recvfrom [Reg 2, Ptr 0x201cb940, Imm 0x8d, Imm 0x40, Imm 0, Imm 0], Count,
    Syscall NR_sendto [Reg 2, Write_buf, Imm 0x34, Imm 0x40, Imm 0, Imm 0], Count,
    Syscall NR_recvfrom [Reg 2, Ptr 0x201de980, Imm 4, Imm 0x40, Imm 0, Imm 0], Count,
    Syscall NR_recvfrom [Reg 2, Ptr 0x201dec80, Imm 0x15, Imm 0x40, Imm 0, Imm 0], Count,
    Syscall NR_sendto [Reg 2, Write_buf, Imm 0xb, Imm 0x40, Imm 0, Imm 0], Count,
    Syscall NR_recvfrom [Reg 2, Ptr 0x203ef940, Imm 4, Imm 0x40, Imm 0, Imm 0], Count,
    Syscall NR_sendto [Reg 2, Write_buf, Imm 0x37, Imm 0x40, Imm 0, Imm 0], Count,
    Syscall NR_shutdown [Reg 2, Imm 2], Count, Syscall NR_close [Reg 2], Count]"

lemma min_mysql_recvfrom_sendto_20_0_body481_ok: "body_ok 3 12666 min_mysql_recvfrom_sendto_20_0_body481" "counted min_mysql_recvfrom_sendto_20_0_body481" "calls min_mysql_recvfrom_sendto_20_0_body481 = 10" "opened_in m min_mysql_recvfrom_sendto_20_0_body481 = []"
  by (simp_all add: min_mysql_recvfrom_sendto_20_0_body481_def prog_checks open_checks)

lemma min_mysql_recvfrom_sendto_20_0_body482_ok: "body_ok 3 12666 min_mysql_recvfrom_sendto_20_0_body482" "counted min_mysql_recvfrom_sendto_20_0_body482" "calls min_mysql_recvfrom_sendto_20_0_body482 = 10" "opened_in m min_mysql_recvfrom_sendto_20_0_body482 = []"
  by (simp_all add: min_mysql_recvfrom_sendto_20_0_body482_def prog_checks open_checks)

lemma min_mysql_recvfrom_sendto_20_0_body483_ok: "body_ok 3 12666 min_mysql_recvfrom_sendto_20_0_body483" "counted min_mysql_recvfrom_sendto_20_0_body483" "calls min_mysql_recvfrom_sendto_20_0_body483 = 10" "opened_in m min_mysql_recvfrom_sendto_20_0_body483 = []"
  by (simp_all add: min_mysql_recvfrom_sendto_20_0_body483_def prog_checks open_checks)

lemma min_mysql_recvfrom_sendto_20_0_body484_ok: "body_ok 3 12666 min_mysql_recvfrom_sendto_20_0_body484" "counted min_mysql_recvfrom_sendto_20_0_body484" "calls min_mysql_recvfrom_sendto_20_0_body484 = 10" "opened_in m min_mysql_recvfrom_sendto_20_0_body484 = []"
  by (simp_all add: min_mysql_recvfrom_sendto_20_0_body484_def prog_checks open_checks)

lemma min_mysql_recvfrom_sendto_20_0_body485_ok: "body_ok 3 12666 min_mysql_recvfrom_sendto_20_0_body485" "counted min_mysql_recvfrom_sendto_20_0_body485" "calls min_mysql_recvfrom_sendto_20_0_body485 = 10" "opened_in m min_mysql_recvfrom_sendto_20_0_body485 = []"
  by (simp_all add: min_mysql_recvfrom_sendto_20_0_body485_def prog_checks open_checks)

lemma min_mysql_recvfrom_sendto_20_0_body486_ok: "body_ok 3 12666 min_mysql_recvfrom_sendto_20_0_body486" "counted min_mysql_recvfrom_sendto_20_0_body486" "calls min_mysql_recvfrom_sendto_20_0_body486 = 10" "opened_in m min_mysql_recvfrom_sendto_20_0_body486 = []"
  by (simp_all add: min_mysql_recvfrom_sendto_20_0_body486_def prog_checks open_checks)

lemma min_mysql_recvfrom_sendto_20_0_body487_ok: "body_ok 3 12666 min_mysql_recvfrom_sendto_20_0_body487" "counted min_mysql_recvfrom_sendto_20_0_body487" "calls min_mysql_recvfrom_sendto_20_0_body487 = 10" "opened_in m min_mysql_recvfrom_sendto_20_0_body487 = []"
  by (simp_all add: min_mysql_recvfrom_sendto_20_0_body487_def prog_checks open_checks)

lemma min_mysql_recvfrom_sendto_20_0_body488_ok: "body_ok 3 12666 min_mysql_recvfrom_sendto_20_0_body488" "counted min_mysql_recvfrom_sendto_20_0_body488" "calls min_mysql_recvfrom_sendto_20_0_body488 = 10" "opened_in m min_mysql_recvfrom_sendto_20_0_body488 = []"
  by (simp_all add: min_mysql_recvfrom_sendto_20_0_body488_def prog_checks open_checks)

lemma min_mysql_recvfrom_sendto_20_0_body489_ok: "body_ok 3 12666 min_mysql_recvfrom_sendto_20_0_body489" "counted min_mysql_recvfrom_sendto_20_0_body489" "calls min_mysql_recvfrom_sendto_20_0_body489 = 10" "opened_in m min_mysql_recvfrom_sendto_20_0_body489 = []"
  by (simp_all add: min_mysql_recvfrom_sendto_20_0_body489_def prog_checks open_checks)

lemma min_mysql_recvfrom_sendto_20_0_body490_ok: "body_ok 3 12666 min_mysql_recvfrom_sendto_20_0_body490" "counted min_mysql_recvfrom_sendto_20_0_body490" "calls min_mysql_recvfrom_sendto_20_0_body490 = 8" "opened_in m min_mysql_recvfrom_sendto_20_0_body490 = []"
  by (simp_all add: min_mysql_recvfrom_sendto_20_0_body490_def prog_checks open_checks)

lemma min_mysql_recvfrom_sendto_20_0_body491_ok: "body_ok 3 12666 min_mysql_recvfrom_sendto_20_0_body491" "counted min_mysql_recvfrom_sendto_20_0_body491" "calls min_mysql_recvfrom_sendto_20_0_body491 = 9" "opened_in m min_mysql_recvfrom_sendto_20_0_body491 = []"
  by (simp_all add: min_mysql_recvfrom_sendto_20_0_body491_def prog_checks open_checks)

lemma min_mysql_recvfrom_sendto_20_0_body492_ok: "body_ok 3 12666 min_mysql_recvfrom_sendto_20_0_body492" "counted min_mysql_recvfrom_sendto_20_0_body492" "calls min_mysql_recvfrom_sendto_20_0_body492 = 10" "opened_in m min_mysql_recvfrom_sendto_20_0_body492 = []"
  by (simp_all add: min_mysql_recvfrom_sendto_20_0_body492_def prog_checks open_checks)

lemma min_mysql_recvfrom_sendto_20_0_body493_ok: "body_ok 3 12666 min_mysql_recvfrom_sendto_20_0_body493" "counted min_mysql_recvfrom_sendto_20_0_body493" "calls min_mysql_recvfrom_sendto_20_0_body493 = 10" "opened_in m min_mysql_recvfrom_sendto_20_0_body493 = []"
  by (simp_all add: min_mysql_recvfrom_sendto_20_0_body493_def prog_checks open_checks)

lemma min_mysql_recvfrom_sendto_20_0_body494_ok: "body_ok 3 12666 min_mysql_recvfrom_sendto_20_0_body494" "counted min_mysql_recvfrom_sendto_20_0_body494" "calls min_mysql_recvfrom_sendto_20_0_body494 = 10" "opened_in m min_mysql_recvfrom_sendto_20_0_body494 = []"
  by (simp_all add: min_mysql_recvfrom_sendto_20_0_body494_def prog_checks open_checks)

lemma min_mysql_recvfrom_sendto_20_0_body495_ok: "body_ok 3 12666 min_mysql_recvfrom_sendto_20_0_body495" "counted min_mysql_recvfrom_sendto_20_0_body495" "calls min_mysql_recvfrom_sendto_20_0_body495 = 10" "opened_in m min_mysql_recvfrom_sendto_20_0_body495 = []"
  by (simp_all add: min_mysql_recvfrom_sendto_20_0_body495_def prog_checks open_checks)

lemma min_mysql_recvfrom_sendto_20_0_body496_ok: "body_ok 3 12666 min_mysql_recvfrom_sendto_20_0_body496" "counted min_mysql_recvfrom_sendto_20_0_body496" "calls min_mysql_recvfrom_sendto_20_0_body496 = 10" "opened_in m min_mysql_recvfrom_sendto_20_0_body496 = []"
  by (simp_all add: min_mysql_recvfrom_sendto_20_0_body496_def prog_checks open_checks)

lemma min_mysql_recvfrom_sendto_20_0_body497_ok: "body_ok 3 12666 min_mysql_recvfrom_sendto_20_0_body497" "counted min_mysql_recvfrom_sendto_20_0_body497" "calls min_mysql_recvfrom_sendto_20_0_body497 = 10" "opened_in m min_mysql_recvfrom_sendto_20_0_body497 = []"
  by (simp_all add: min_mysql_recvfrom_sendto_20_0_body497_def prog_checks open_checks)

lemma min_mysql_recvfrom_sendto_20_0_body498_ok: "body_ok 3 12666 min_mysql_recvfrom_sendto_20_0_body498" "counted min_mysql_recvfrom_sendto_20_0_body498" "calls min_mysql_recvfrom_sendto_20_0_body498 = 10" "opened_in m min_mysql_recvfrom_sendto_20_0_body498 = []"
  by (simp_all add: min_mysql_recvfrom_sendto_20_0_body498_def prog_checks open_checks)

lemma min_mysql_recvfrom_sendto_20_0_body499_ok: "body_ok 3 12666 min_mysql_recvfrom_sendto_20_0_body499" "counted min_mysql_recvfrom_sendto_20_0_body499" "calls min_mysql_recvfrom_sendto_20_0_body499 = 10" "opened_in m min_mysql_recvfrom_sendto_20_0_body499 = []"
  by (simp_all add: min_mysql_recvfrom_sendto_20_0_body499_def prog_checks open_checks)

lemma min_mysql_recvfrom_sendto_20_0_body500_ok: "body_ok 3 12666 min_mysql_recvfrom_sendto_20_0_body500" "counted min_mysql_recvfrom_sendto_20_0_body500" "calls min_mysql_recvfrom_sendto_20_0_body500 = 10" "opened_in m min_mysql_recvfrom_sendto_20_0_body500 = []"
  by (simp_all add: min_mysql_recvfrom_sendto_20_0_body500_def prog_checks open_checks)

lemma min_mysql_recvfrom_sendto_20_0_body501_ok: "body_ok 3 12666 min_mysql_recvfrom_sendto_20_0_body501" "counted min_mysql_recvfrom_sendto_20_0_body501" "calls min_mysql_recvfrom_sendto_20_0_body501 = 10" "opened_in m min_mysql_recvfrom_sendto_20_0_body501 = []"
  by (simp_all add: min_mysql_recvfrom_sendto_20_0_body501_def prog_checks open_checks)

lemma min_mysql_recvfrom_sendto_20_0_body502_ok: "body_ok 3 12666 min_mysql_recvfrom_sendto_20_0_body502" "counted min_mysql_recvfrom_sendto_20_0_body502" "calls min_mysql_recvfrom_sendto_20_0_body502 = 10" "opened_in m min_mysql_recvfrom_sendto_20_0_body502 = []"
  by (simp_all add: min_mysql_recvfrom_sendto_20_0_body502_def prog_checks open_checks)

lemma min_mysql_recvfrom_sendto_20_0_body503_ok: "body_ok 3 12666 min_mysql_recvfrom_sendto_20_0_body503" "counted min_mysql_recvfrom_sendto_20_0_body503" "calls min_mysql_recvfrom_sendto_20_0_body503 = 10" "opened_in m min_mysql_recvfrom_sendto_20_0_body503 = []"
  by (simp_all add: min_mysql_recvfrom_sendto_20_0_body503_def prog_checks open_checks)

lemma min_mysql_recvfrom_sendto_20_0_body504_ok: "body_ok 3 12666 min_mysql_recvfrom_sendto_20_0_body504" "counted min_mysql_recvfrom_sendto_20_0_body504" "calls min_mysql_recvfrom_sendto_20_0_body504 = 10" "opened_in m min_mysql_recvfrom_sendto_20_0_body504 = []"
  by (simp_all add: min_mysql_recvfrom_sendto_20_0_body504_def prog_checks open_checks)

lemma min_mysql_recvfrom_sendto_20_0_body505_ok: "body_ok 3 12666 min_mysql_recvfrom_sendto_20_0_body505" "counted min_mysql_recvfrom_sendto_20_0_body505" "calls min_mysql_recvfrom_sendto_20_0_body505 = 10" "opened_in m min_mysql_recvfrom_sendto_20_0_body505 = []"
  by (simp_all add: min_mysql_recvfrom_sendto_20_0_body505_def prog_checks open_checks)

lemma min_mysql_recvfrom_sendto_20_0_body506_ok: "body_ok 3 12666 min_mysql_recvfrom_sendto_20_0_body506" "counted min_mysql_recvfrom_sendto_20_0_body506" "calls min_mysql_recvfrom_sendto_20_0_body506 = 10" "opened_in m min_mysql_recvfrom_sendto_20_0_body506 = []"
  by (simp_all add: min_mysql_recvfrom_sendto_20_0_body506_def prog_checks open_checks)

lemma min_mysql_recvfrom_sendto_20_0_body507_ok: "body_ok 3 12666 min_mysql_recvfrom_sendto_20_0_body507" "counted min_mysql_recvfrom_sendto_20_0_body507" "calls min_mysql_recvfrom_sendto_20_0_body507 = 10" "opened_in m min_mysql_recvfrom_sendto_20_0_body507 = []"
  by (simp_all add: min_mysql_recvfrom_sendto_20_0_body507_def prog_checks open_checks)

lemma min_mysql_recvfrom_sendto_20_0_body508_ok: "body_ok 3 12666 min_mysql_recvfrom_sendto_20_0_body508" "counted min_mysql_recvfrom_sendto_20_0_body508" "calls min_mysql_recvfrom_sendto_20_0_body508 = 10" "opened_in m min_mysql_recvfrom_sendto_20_0_body508 = []"
  by (simp_all add: min_mysql_recvfrom_sendto_20_0_body508_def prog_checks open_checks)

lemma min_mysql_recvfrom_sendto_20_0_body509_ok: "body_ok 3 12666 min_mysql_recvfrom_sendto_20_0_body509" "counted min_mysql_recvfrom_sendto_20_0_body509" "calls min_mysql_recvfrom_sendto_20_0_body509 = 10" "opened_in m min_mysql_recvfrom_sendto_20_0_body509 = []"
  by (simp_all add: min_mysql_recvfrom_sendto_20_0_body509_def prog_checks open_checks)

lemma min_mysql_recvfrom_sendto_20_0_body510_ok: "body_ok 3 12666 min_mysql_recvfrom_sendto_20_0_body510" "counted min_mysql_recvfrom_sendto_20_0_body510" "calls min_mysql_recvfrom_sendto_20_0_body510 = 10" "opened_in m min_mysql_recvfrom_sendto_20_0_body510 = []"
  by (simp_all add: min_mysql_recvfrom_sendto_20_0_body510_def prog_checks open_checks)

lemma min_mysql_recvfrom_sendto_20_0_body511_ok: "body_ok 3 12666 min_mysql_recvfrom_sendto_20_0_body511" "counted min_mysql_recvfrom_sendto_20_0_body511" "calls min_mysql_recvfrom_sendto_20_0_body511 = 10" "opened_in m min_mysql_recvfrom_sendto_20_0_body511 = []"
  by (simp_all add: min_mysql_recvfrom_sendto_20_0_body511_def prog_checks open_checks)

lemma min_mysql_recvfrom_sendto_20_0_body512_ok: "body_ok 3 12666 min_mysql_recvfrom_sendto_20_0_body512" "counted min_mysql_recvfrom_sendto_20_0_body512" "calls min_mysql_recvfrom_sendto_20_0_body512 = 10" "opened_in m min_mysql_recvfrom_sendto_20_0_body512 = []"
  by (simp_all add: min_mysql_recvfrom_sendto_20_0_body512_def prog_checks open_checks)

lemma min_mysql_recvfrom_sendto_20_0_body513_ok: "body_ok 3 12666 min_mysql_recvfrom_sendto_20_0_body513" "counted min_mysql_recvfrom_sendto_20_0_body513" "calls min_mysql_recvfrom_sendto_20_0_body513 = 10" "opened_in m min_mysql_recvfrom_sendto_20_0_body513 = []"
  by (simp_all add: min_mysql_recvfrom_sendto_20_0_body513_def prog_checks open_checks)

lemma min_mysql_recvfrom_sendto_20_0_body514_ok: "body_ok 3 12666 min_mysql_recvfrom_sendto_20_0_body514" "counted min_mysql_recvfrom_sendto_20_0_body514" "calls min_mysql_recvfrom_sendto_20_0_body514 = 10" "opened_in m min_mysql_recvfrom_sendto_20_0_body514 = []"
  by (simp_all add: min_mysql_recvfrom_sendto_20_0_body514_def prog_checks open_checks)

lemma min_mysql_recvfrom_sendto_20_0_body515_ok: "body_ok 3 12666 min_mysql_recvfrom_sendto_20_0_body515" "counted min_mysql_recvfrom_sendto_20_0_body515" "calls min_mysql_recvfrom_sendto_20_0_body515 = 10" "opened_in m min_mysql_recvfrom_sendto_20_0_body515 = []"
  by (simp_all add: min_mysql_recvfrom_sendto_20_0_body515_def prog_checks open_checks)

lemma min_mysql_recvfrom_sendto_20_0_body516_ok: "body_ok 3 12666 min_mysql_recvfrom_sendto_20_0_body516" "counted min_mysql_recvfrom_sendto_20_0_body516" "calls min_mysql_recvfrom_sendto_20_0_body516 = 10" "opened_in m min_mysql_recvfrom_sendto_20_0_body516 = []"
  by (simp_all add: min_mysql_recvfrom_sendto_20_0_body516_def prog_checks open_checks)

lemma min_mysql_recvfrom_sendto_20_0_body517_ok: "body_ok 3 12666 min_mysql_recvfrom_sendto_20_0_body517" "counted min_mysql_recvfrom_sendto_20_0_body517" "calls min_mysql_recvfrom_sendto_20_0_body517 = 10" "opened_in m min_mysql_recvfrom_sendto_20_0_body517 = []"
  by (simp_all add: min_mysql_recvfrom_sendto_20_0_body517_def prog_checks open_checks)

lemma min_mysql_recvfrom_sendto_20_0_body518_ok: "body_ok 3 12666 min_mysql_recvfrom_sendto_20_0_body518" "counted min_mysql_recvfrom_sendto_20_0_body518" "calls min_mysql_recvfrom_sendto_20_0_body518 = 10" "opened_in m min_mysql_recvfrom_sendto_20_0_body518 = []"
  by (simp_all add: min_mysql_recvfrom_sendto_20_0_body518_def prog_checks open_checks)

lemma min_mysql_recvfrom_sendto_20_0_body519_ok: "body_ok 3 12666 min_mysql_recvfrom_sendto_20_0_body519" "counted min_mysql_recvfrom_sendto_20_0_body519" "calls min_mysql_recvfrom_sendto_20_0_body519 = 10" "opened_in m min_mysql_recvfrom_sendto_20_0_body519 = []"
  by (simp_all add: min_mysql_recvfrom_sendto_20_0_body519_def prog_checks open_checks)

lemma min_mysql_recvfrom_sendto_20_0_body520_ok: "body_ok 3 12666 min_mysql_recvfrom_sendto_20_0_body520" "counted min_mysql_recvfrom_sendto_20_0_body520" "calls min_mysql_recvfrom_sendto_20_0_body520 = 10" "opened_in m min_mysql_recvfrom_sendto_20_0_body520 = []"
  by (simp_all add: min_mysql_recvfrom_sendto_20_0_body520_def prog_checks open_checks)

lemma min_mysql_recvfrom_sendto_20_0_body521_ok: "body_ok 3 12666 min_mysql_recvfrom_sendto_20_0_body521" "counted min_mysql_recvfrom_sendto_20_0_body521" "calls min_mysql_recvfrom_sendto_20_0_body521 = 10" "opened_in m min_mysql_recvfrom_sendto_20_0_body521 = []"
  by (simp_all add: min_mysql_recvfrom_sendto_20_0_body521_def prog_checks open_checks)

lemma min_mysql_recvfrom_sendto_20_0_body522_ok: "body_ok 3 12666 min_mysql_recvfrom_sendto_20_0_body522" "counted min_mysql_recvfrom_sendto_20_0_body522" "calls min_mysql_recvfrom_sendto_20_0_body522 = 10" "opened_in m min_mysql_recvfrom_sendto_20_0_body522 = []"
  by (simp_all add: min_mysql_recvfrom_sendto_20_0_body522_def prog_checks open_checks)

lemma min_mysql_recvfrom_sendto_20_0_body523_ok: "body_ok 3 12666 min_mysql_recvfrom_sendto_20_0_body523" "counted min_mysql_recvfrom_sendto_20_0_body523" "calls min_mysql_recvfrom_sendto_20_0_body523 = 10" "opened_in m min_mysql_recvfrom_sendto_20_0_body523 = []"
  by (simp_all add: min_mysql_recvfrom_sendto_20_0_body523_def prog_checks open_checks)

lemma min_mysql_recvfrom_sendto_20_0_body524_ok: "body_ok 3 12666 min_mysql_recvfrom_sendto_20_0_body524" "counted min_mysql_recvfrom_sendto_20_0_body524" "calls min_mysql_recvfrom_sendto_20_0_body524 = 10" "opened_in m min_mysql_recvfrom_sendto_20_0_body524 = []"
  by (simp_all add: min_mysql_recvfrom_sendto_20_0_body524_def prog_checks open_checks)

lemma min_mysql_recvfrom_sendto_20_0_body525_ok: "body_ok 3 12666 min_mysql_recvfrom_sendto_20_0_body525" "counted min_mysql_recvfrom_sendto_20_0_body525" "calls min_mysql_recvfrom_sendto_20_0_body525 = 10" "opened_in m min_mysql_recvfrom_sendto_20_0_body525 = []"
  by (simp_all add: min_mysql_recvfrom_sendto_20_0_body525_def prog_checks open_checks)

lemma min_mysql_recvfrom_sendto_20_0_body526_ok: "body_ok 3 12666 min_mysql_recvfrom_sendto_20_0_body526" "counted min_mysql_recvfrom_sendto_20_0_body526" "calls min_mysql_recvfrom_sendto_20_0_body526 = 10" "opened_in m min_mysql_recvfrom_sendto_20_0_body526 = []"
  by (simp_all add: min_mysql_recvfrom_sendto_20_0_body526_def prog_checks open_checks)

lemma min_mysql_recvfrom_sendto_20_0_body527_ok: "body_ok 3 12666 min_mysql_recvfrom_sendto_20_0_body527" "counted min_mysql_recvfrom_sendto_20_0_body527" "calls min_mysql_recvfrom_sendto_20_0_body527 = 10" "opened_in m min_mysql_recvfrom_sendto_20_0_body527 = []"
  by (simp_all add: min_mysql_recvfrom_sendto_20_0_body527_def prog_checks open_checks)

lemma min_mysql_recvfrom_sendto_20_0_body528_ok: "body_ok 3 12666 min_mysql_recvfrom_sendto_20_0_body528" "counted min_mysql_recvfrom_sendto_20_0_body528" "calls min_mysql_recvfrom_sendto_20_0_body528 = 10" "opened_in m min_mysql_recvfrom_sendto_20_0_body528 = []"
  by (simp_all add: min_mysql_recvfrom_sendto_20_0_body528_def prog_checks open_checks)

lemma min_mysql_recvfrom_sendto_20_0_body529_ok: "body_ok 3 12666 min_mysql_recvfrom_sendto_20_0_body529" "counted min_mysql_recvfrom_sendto_20_0_body529" "calls min_mysql_recvfrom_sendto_20_0_body529 = 10" "opened_in m min_mysql_recvfrom_sendto_20_0_body529 = []"
  by (simp_all add: min_mysql_recvfrom_sendto_20_0_body529_def prog_checks open_checks)

lemma min_mysql_recvfrom_sendto_20_0_body530_ok: "body_ok 3 12666 min_mysql_recvfrom_sendto_20_0_body530" "counted min_mysql_recvfrom_sendto_20_0_body530" "calls min_mysql_recvfrom_sendto_20_0_body530 = 10" "opened_in m min_mysql_recvfrom_sendto_20_0_body530 = []"
  by (simp_all add: min_mysql_recvfrom_sendto_20_0_body530_def prog_checks open_checks)

lemma min_mysql_recvfrom_sendto_20_0_body531_ok: "body_ok 3 12666 min_mysql_recvfrom_sendto_20_0_body531" "counted min_mysql_recvfrom_sendto_20_0_body531" "calls min_mysql_recvfrom_sendto_20_0_body531 = 10" "opened_in m min_mysql_recvfrom_sendto_20_0_body531 = []"
  by (simp_all add: min_mysql_recvfrom_sendto_20_0_body531_def prog_checks open_checks)

lemma min_mysql_recvfrom_sendto_20_0_body532_ok: "body_ok 3 12666 min_mysql_recvfrom_sendto_20_0_body532" "counted min_mysql_recvfrom_sendto_20_0_body532" "calls min_mysql_recvfrom_sendto_20_0_body532 = 10" "opened_in m min_mysql_recvfrom_sendto_20_0_body532 = []"
  by (simp_all add: min_mysql_recvfrom_sendto_20_0_body532_def prog_checks open_checks)

lemma min_mysql_recvfrom_sendto_20_0_body533_ok: "body_ok 3 12666 min_mysql_recvfrom_sendto_20_0_body533" "counted min_mysql_recvfrom_sendto_20_0_body533" "calls min_mysql_recvfrom_sendto_20_0_body533 = 10" "opened_in m min_mysql_recvfrom_sendto_20_0_body533 = []"
  by (simp_all add: min_mysql_recvfrom_sendto_20_0_body533_def prog_checks open_checks)

lemma min_mysql_recvfrom_sendto_20_0_body534_ok: "body_ok 3 12666 min_mysql_recvfrom_sendto_20_0_body534" "counted min_mysql_recvfrom_sendto_20_0_body534" "calls min_mysql_recvfrom_sendto_20_0_body534 = 10" "opened_in m min_mysql_recvfrom_sendto_20_0_body534 = []"
  by (simp_all add: min_mysql_recvfrom_sendto_20_0_body534_def prog_checks open_checks)

lemma min_mysql_recvfrom_sendto_20_0_body535_ok: "body_ok 3 12666 min_mysql_recvfrom_sendto_20_0_body535" "counted min_mysql_recvfrom_sendto_20_0_body535" "calls min_mysql_recvfrom_sendto_20_0_body535 = 10" "opened_in m min_mysql_recvfrom_sendto_20_0_body535 = []"
  by (simp_all add: min_mysql_recvfrom_sendto_20_0_body535_def prog_checks open_checks)

lemma min_mysql_recvfrom_sendto_20_0_body536_ok: "body_ok 3 12666 min_mysql_recvfrom_sendto_20_0_body536" "counted min_mysql_recvfrom_sendto_20_0_body536" "calls min_mysql_recvfrom_sendto_20_0_body536 = 10" "opened_in m min_mysql_recvfrom_sendto_20_0_body536 = []"
  by (simp_all add: min_mysql_recvfrom_sendto_20_0_body536_def prog_checks open_checks)

lemma min_mysql_recvfrom_sendto_20_0_body537_ok: "body_ok 3 12666 min_mysql_recvfrom_sendto_20_0_body537" "counted min_mysql_recvfrom_sendto_20_0_body537" "calls min_mysql_recvfrom_sendto_20_0_body537 = 10" "opened_in m min_mysql_recvfrom_sendto_20_0_body537 = []"
  by (simp_all add: min_mysql_recvfrom_sendto_20_0_body537_def prog_checks open_checks)

lemma min_mysql_recvfrom_sendto_20_0_body538_ok: "body_ok 3 12666 min_mysql_recvfrom_sendto_20_0_body538" "counted min_mysql_recvfrom_sendto_20_0_body538" "calls min_mysql_recvfrom_sendto_20_0_body538 = 10" "opened_in m min_mysql_recvfrom_sendto_20_0_body538 = []"
  by (simp_all add: min_mysql_recvfrom_sendto_20_0_body538_def prog_checks open_checks)

lemma min_mysql_recvfrom_sendto_20_0_body539_ok: "body_ok 3 12666 min_mysql_recvfrom_sendto_20_0_body539" "counted min_mysql_recvfrom_sendto_20_0_body539" "calls min_mysql_recvfrom_sendto_20_0_body539 = 10" "opened_in m min_mysql_recvfrom_sendto_20_0_body539 = []"
  by (simp_all add: min_mysql_recvfrom_sendto_20_0_body539_def prog_checks open_checks)

lemma min_mysql_recvfrom_sendto_20_0_body540_ok: "body_ok 3 12666 min_mysql_recvfrom_sendto_20_0_body540" "counted min_mysql_recvfrom_sendto_20_0_body540" "calls min_mysql_recvfrom_sendto_20_0_body540 = 10" "opened_in m min_mysql_recvfrom_sendto_20_0_body540 = []"
  by (simp_all add: min_mysql_recvfrom_sendto_20_0_body540_def prog_checks open_checks)

lemma min_mysql_recvfrom_sendto_20_0_body541_ok: "body_ok 3 12666 min_mysql_recvfrom_sendto_20_0_body541" "counted min_mysql_recvfrom_sendto_20_0_body541" "calls min_mysql_recvfrom_sendto_20_0_body541 = 10" "opened_in m min_mysql_recvfrom_sendto_20_0_body541 = []"
  by (simp_all add: min_mysql_recvfrom_sendto_20_0_body541_def prog_checks open_checks)

lemma min_mysql_recvfrom_sendto_20_0_body542_ok: "body_ok 3 12666 min_mysql_recvfrom_sendto_20_0_body542" "counted min_mysql_recvfrom_sendto_20_0_body542" "calls min_mysql_recvfrom_sendto_20_0_body542 = 10" "opened_in m min_mysql_recvfrom_sendto_20_0_body542 = []"
  by (simp_all add: min_mysql_recvfrom_sendto_20_0_body542_def prog_checks open_checks)

lemma min_mysql_recvfrom_sendto_20_0_body543_ok: "body_ok 3 12666 min_mysql_recvfrom_sendto_20_0_body543" "counted min_mysql_recvfrom_sendto_20_0_body543" "calls min_mysql_recvfrom_sendto_20_0_body543 = 10" "opened_in m min_mysql_recvfrom_sendto_20_0_body543 = []"
  by (simp_all add: min_mysql_recvfrom_sendto_20_0_body543_def prog_checks open_checks)

lemma min_mysql_recvfrom_sendto_20_0_body544_ok: "body_ok 3 12666 min_mysql_recvfrom_sendto_20_0_body544" "counted min_mysql_recvfrom_sendto_20_0_body544" "calls min_mysql_recvfrom_sendto_20_0_body544 = 10" "opened_in m min_mysql_recvfrom_sendto_20_0_body544 = []"
  by (simp_all add: min_mysql_recvfrom_sendto_20_0_body544_def prog_checks open_checks)

lemma min_mysql_recvfrom_sendto_20_0_body545_ok: "body_ok 3 12666 min_mysql_recvfrom_sendto_20_0_body545" "counted min_mysql_recvfrom_sendto_20_0_body545" "calls min_mysql_recvfrom_sendto_20_0_body545 = 10" "opened_in m min_mysql_recvfrom_sendto_20_0_body545 = []"
  by (simp_all add: min_mysql_recvfrom_sendto_20_0_body545_def prog_checks open_checks)

lemma min_mysql_recvfrom_sendto_20_0_body546_ok: "body_ok 3 12666 min_mysql_recvfrom_sendto_20_0_body546" "counted min_mysql_recvfrom_sendto_20_0_body546" "calls min_mysql_recvfrom_sendto_20_0_body546 = 10" "opened_in m min_mysql_recvfrom_sendto_20_0_body546 = []"
  by (simp_all add: min_mysql_recvfrom_sendto_20_0_body546_def prog_checks open_checks)

lemma min_mysql_recvfrom_sendto_20_0_body547_ok: "body_ok 3 12666 min_mysql_recvfrom_sendto_20_0_body547" "counted min_mysql_recvfrom_sendto_20_0_body547" "calls min_mysql_recvfrom_sendto_20_0_body547 = 10" "opened_in m min_mysql_recvfrom_sendto_20_0_body547 = []"
  by (simp_all add: min_mysql_recvfrom_sendto_20_0_body547_def prog_checks open_checks)

lemma min_mysql_recvfrom_sendto_20_0_body548_ok: "body_ok 3 12666 min_mysql_recvfrom_sendto_20_0_body548" "counted min_mysql_recvfrom_sendto_20_0_body548" "calls min_mysql_recvfrom_sendto_20_0_body548 = 10" "opened_in m min_mysql_recvfrom_sendto_20_0_body548 = []"
  by (simp_all add: min_mysql_recvfrom_sendto_20_0_body548_def prog_checks open_checks)

lemma min_mysql_recvfrom_sendto_20_0_body549_ok: "body_ok 3 12666 min_mysql_recvfrom_sendto_20_0_body549" "counted min_mysql_recvfrom_sendto_20_0_body549" "calls min_mysql_recvfrom_sendto_20_0_body549 = 10" "opened_in m min_mysql_recvfrom_sendto_20_0_body549 = []"
  by (simp_all add: min_mysql_recvfrom_sendto_20_0_body549_def prog_checks open_checks)

lemma min_mysql_recvfrom_sendto_20_0_body550_ok: "body_ok 3 12666 min_mysql_recvfrom_sendto_20_0_body550" "counted min_mysql_recvfrom_sendto_20_0_body550" "calls min_mysql_recvfrom_sendto_20_0_body550 = 10" "opened_in m min_mysql_recvfrom_sendto_20_0_body550 = []"
  by (simp_all add: min_mysql_recvfrom_sendto_20_0_body550_def prog_checks open_checks)

lemma min_mysql_recvfrom_sendto_20_0_body551_ok: "body_ok 3 12666 min_mysql_recvfrom_sendto_20_0_body551" "counted min_mysql_recvfrom_sendto_20_0_body551" "calls min_mysql_recvfrom_sendto_20_0_body551 = 10" "opened_in m min_mysql_recvfrom_sendto_20_0_body551 = []"
  by (simp_all add: min_mysql_recvfrom_sendto_20_0_body551_def prog_checks open_checks)

lemma min_mysql_recvfrom_sendto_20_0_body552_ok: "body_ok 3 12666 min_mysql_recvfrom_sendto_20_0_body552" "counted min_mysql_recvfrom_sendto_20_0_body552" "calls min_mysql_recvfrom_sendto_20_0_body552 = 10" "opened_in m min_mysql_recvfrom_sendto_20_0_body552 = []"
  by (simp_all add: min_mysql_recvfrom_sendto_20_0_body552_def prog_checks open_checks)

lemma min_mysql_recvfrom_sendto_20_0_body553_ok: "body_ok 3 12666 min_mysql_recvfrom_sendto_20_0_body553" "counted min_mysql_recvfrom_sendto_20_0_body553" "calls min_mysql_recvfrom_sendto_20_0_body553 = 10" "opened_in m min_mysql_recvfrom_sendto_20_0_body553 = []"
  by (simp_all add: min_mysql_recvfrom_sendto_20_0_body553_def prog_checks open_checks)

lemma min_mysql_recvfrom_sendto_20_0_body554_ok: "body_ok 3 12666 min_mysql_recvfrom_sendto_20_0_body554" "counted min_mysql_recvfrom_sendto_20_0_body554" "calls min_mysql_recvfrom_sendto_20_0_body554 = 10" "opened_in m min_mysql_recvfrom_sendto_20_0_body554 = []"
  by (simp_all add: min_mysql_recvfrom_sendto_20_0_body554_def prog_checks open_checks)

lemma min_mysql_recvfrom_sendto_20_0_body555_ok: "body_ok 3 12666 min_mysql_recvfrom_sendto_20_0_body555" "counted min_mysql_recvfrom_sendto_20_0_body555" "calls min_mysql_recvfrom_sendto_20_0_body555 = 10" "opened_in m min_mysql_recvfrom_sendto_20_0_body555 = []"
  by (simp_all add: min_mysql_recvfrom_sendto_20_0_body555_def prog_checks open_checks)

lemma min_mysql_recvfrom_sendto_20_0_body556_ok: "body_ok 3 12666 min_mysql_recvfrom_sendto_20_0_body556" "counted min_mysql_recvfrom_sendto_20_0_body556" "calls min_mysql_recvfrom_sendto_20_0_body556 = 10" "opened_in m min_mysql_recvfrom_sendto_20_0_body556 = []"
  by (simp_all add: min_mysql_recvfrom_sendto_20_0_body556_def prog_checks open_checks)

lemma min_mysql_recvfrom_sendto_20_0_body557_ok: "body_ok 3 12666 min_mysql_recvfrom_sendto_20_0_body557" "counted min_mysql_recvfrom_sendto_20_0_body557" "calls min_mysql_recvfrom_sendto_20_0_body557 = 10" "opened_in m min_mysql_recvfrom_sendto_20_0_body557 = []"
  by (simp_all add: min_mysql_recvfrom_sendto_20_0_body557_def prog_checks open_checks)

lemma min_mysql_recvfrom_sendto_20_0_body558_ok: "body_ok 3 12666 min_mysql_recvfrom_sendto_20_0_body558" "counted min_mysql_recvfrom_sendto_20_0_body558" "calls min_mysql_recvfrom_sendto_20_0_body558 = 10" "opened_in m min_mysql_recvfrom_sendto_20_0_body558 = []"
  by (simp_all add: min_mysql_recvfrom_sendto_20_0_body558_def prog_checks open_checks)

lemma min_mysql_recvfrom_sendto_20_0_body559_ok: "body_ok 3 12666 min_mysql_recvfrom_sendto_20_0_body559" "counted min_mysql_recvfrom_sendto_20_0_body559" "calls min_mysql_recvfrom_sendto_20_0_body559 = 10" "opened_in m min_mysql_recvfrom_sendto_20_0_body559 = []"
  by (simp_all add: min_mysql_recvfrom_sendto_20_0_body559_def prog_checks open_checks)

lemma min_mysql_recvfrom_sendto_20_0_body560_ok: "body_ok 3 12666 min_mysql_recvfrom_sendto_20_0_body560" "counted min_mysql_recvfrom_sendto_20_0_body560" "calls min_mysql_recvfrom_sendto_20_0_body560 = 10" "opened_in m min_mysql_recvfrom_sendto_20_0_body560 = []"
  by (simp_all add: min_mysql_recvfrom_sendto_20_0_body560_def prog_checks open_checks)

lemma min_mysql_recvfrom_sendto_20_0_body561_ok: "body_ok 3 12666 min_mysql_recvfrom_sendto_20_0_body561" "counted min_mysql_recvfrom_sendto_20_0_body561" "calls min_mysql_recvfrom_sendto_20_0_body561 = 10" "opened_in m min_mysql_recvfrom_sendto_20_0_body561 = []"
  by (simp_all add: min_mysql_recvfrom_sendto_20_0_body561_def prog_checks open_checks)

lemma min_mysql_recvfrom_sendto_20_0_body562_ok: "body_ok 3 12666 min_mysql_recvfrom_sendto_20_0_body562" "counted min_mysql_recvfrom_sendto_20_0_body562" "calls min_mysql_recvfrom_sendto_20_0_body562 = 10" "opened_in m min_mysql_recvfrom_sendto_20_0_body562 = []"
  by (simp_all add: min_mysql_recvfrom_sendto_20_0_body562_def prog_checks open_checks)

lemma min_mysql_recvfrom_sendto_20_0_body563_ok: "body_ok 3 12666 min_mysql_recvfrom_sendto_20_0_body563" "counted min_mysql_recvfrom_sendto_20_0_body563" "calls min_mysql_recvfrom_sendto_20_0_body563 = 10" "opened_in m min_mysql_recvfrom_sendto_20_0_body563 = []"
  by (simp_all add: min_mysql_recvfrom_sendto_20_0_body563_def prog_checks open_checks)

lemma min_mysql_recvfrom_sendto_20_0_body564_ok: "body_ok 3 12666 min_mysql_recvfrom_sendto_20_0_body564" "counted min_mysql_recvfrom_sendto_20_0_body564" "calls min_mysql_recvfrom_sendto_20_0_body564 = 10" "opened_in m min_mysql_recvfrom_sendto_20_0_body564 = []"
  by (simp_all add: min_mysql_recvfrom_sendto_20_0_body564_def prog_checks open_checks)

lemma min_mysql_recvfrom_sendto_20_0_body565_ok: "body_ok 3 12666 min_mysql_recvfrom_sendto_20_0_body565" "counted min_mysql_recvfrom_sendto_20_0_body565" "calls min_mysql_recvfrom_sendto_20_0_body565 = 10" "opened_in m min_mysql_recvfrom_sendto_20_0_body565 = []"
  by (simp_all add: min_mysql_recvfrom_sendto_20_0_body565_def prog_checks open_checks)

lemma min_mysql_recvfrom_sendto_20_0_body566_ok: "body_ok 3 12666 min_mysql_recvfrom_sendto_20_0_body566" "counted min_mysql_recvfrom_sendto_20_0_body566" "calls min_mysql_recvfrom_sendto_20_0_body566 = 10" "opened_in m min_mysql_recvfrom_sendto_20_0_body566 = []"
  by (simp_all add: min_mysql_recvfrom_sendto_20_0_body566_def prog_checks open_checks)

lemma min_mysql_recvfrom_sendto_20_0_body567_ok: "body_ok 3 12666 min_mysql_recvfrom_sendto_20_0_body567" "counted min_mysql_recvfrom_sendto_20_0_body567" "calls min_mysql_recvfrom_sendto_20_0_body567 = 10" "opened_in m min_mysql_recvfrom_sendto_20_0_body567 = []"
  by (simp_all add: min_mysql_recvfrom_sendto_20_0_body567_def prog_checks open_checks)

lemma min_mysql_recvfrom_sendto_20_0_body568_ok: "body_ok 3 12666 min_mysql_recvfrom_sendto_20_0_body568" "counted min_mysql_recvfrom_sendto_20_0_body568" "calls min_mysql_recvfrom_sendto_20_0_body568 = 10" "opened_in m min_mysql_recvfrom_sendto_20_0_body568 = []"
  by (simp_all add: min_mysql_recvfrom_sendto_20_0_body568_def prog_checks open_checks)

lemma min_mysql_recvfrom_sendto_20_0_body569_ok: "body_ok 3 12666 min_mysql_recvfrom_sendto_20_0_body569" "counted min_mysql_recvfrom_sendto_20_0_body569" "calls min_mysql_recvfrom_sendto_20_0_body569 = 10" "opened_in m min_mysql_recvfrom_sendto_20_0_body569 = []"
  by (simp_all add: min_mysql_recvfrom_sendto_20_0_body569_def prog_checks open_checks)

lemma min_mysql_recvfrom_sendto_20_0_body570_ok: "body_ok 3 12666 min_mysql_recvfrom_sendto_20_0_body570" "counted min_mysql_recvfrom_sendto_20_0_body570" "calls min_mysql_recvfrom_sendto_20_0_body570 = 9" "opened_in m min_mysql_recvfrom_sendto_20_0_body570 = []"
  by (simp_all add: min_mysql_recvfrom_sendto_20_0_body570_def prog_checks open_checks)

end
