(* ===== verification/CSB_Progs_Mysql_v2l_p1.thy ===== *)
theory CSB_Progs_Mysql_v2l_p1
  imports CSB_Syz_Files
begin

text \<open>
  Statements of min\_mysql\_pwrite64\_openat\_0\_0 (bench/targets/mysql\_v2), in the
  order of the file; the program is put together in CSB\_Progs\_Mysql\_v2l.
\<close>

definition min_mysql_pwrite64_openat_0_0_body1 :: "stmt list" where
  "min_mysql_pwrite64_openat_0_0_body1 = [
    Memcpy 0x201d0a40 (with_nul ''./#innodb_redo/#ib_redo592'') 27,
    Syscall NR_openat [Dir_fd, Ptr 0x201d0a40, Imm 0x42, Imm 0x1ff], Count, Save_res 0,
    Store 2 0x201d0a80 (Imm 1), Store 2 0x201d0a82 (Imm 0), Store 8 0x201d0a88 (Imm 0),
    Store 8 0x201d0a90 (Imm 0), Store 4 0x201d0a98 (Imm 0), Syscall NR_fcntl [Reg 0, Imm 6, Ptr 0x201d0a80],
    Count, Syscall NR_pwrite64 [Reg 0, Write_buf, Imm 0x1000, Imm 0x1dad9000], Count,
    Syscall NR_pwrite64 [Reg 0, Write_buf, Imm 0x200, Imm 0x1dad9000], Count,
    Syscall NR_pwrite64 [Reg 0, Write_buf, Imm 0x200, Imm 0x1dad9200], Count,
    Syscall NR_pwrite64 [Reg 0, Write_buf, Imm 0xe00, Imm 0x1dad9200], Count,
    Syscall NR_pwrite64 [Reg 0, Write_buf, Imm 0x2000, Imm 0x1dada000], Count,
    Syscall NR_pwrite64 [Reg 0, Write_buf, Imm 0x2000, Imm 0x1dadc000], Count,
    Syscall NR_pwrite64 [Reg 0, Write_buf, Imm 0x2000, Imm 0x1dade000], Count,
    Syscall NR_pwrite64 [Reg 0, Write_buf, Imm 0xc00, Imm 0x1dadf000], Count]"

definition min_mysql_pwrite64_openat_0_0_body2 :: "stmt list" where
  "min_mysql_pwrite64_openat_0_0_body2 = [
    Syscall NR_pwrite64 [Reg 0, Write_buf, Imm 0x200, Imm 0x1dadfc00], Count,
    Syscall NR_pwrite64 [Reg 0, Write_buf, Imm 0x200, Imm 0x1dadfc00], Count,
    Syscall NR_pwrite64 [Reg 0, Write_buf, Imm 0x200, Imm 0x1dadfe00], Count,
    Syscall NR_pwrite64 [Reg 0, Write_buf, Imm 0x200, Imm 0x1dadfe00], Count,
    Syscall NR_pwrite64 [Reg 0, Write_buf, Imm 0x200, Imm 0x1dadfe00], Count,
    Syscall NR_pwrite64 [Reg 0, Write_buf, Imm 0x200, Imm 0x1dadfe00], Count,
    Syscall NR_pwrite64 [Reg 0, Write_buf, Imm 0x2000, Imm 0x1dae0000], Count,
    Syscall NR_pwrite64 [Reg 0, Write_buf, Imm 0x600, Imm 0x1dae0000], Count,
    Syscall NR_pwrite64 [Reg 0, Write_buf, Imm 0x200, Imm 0x1dae0600], Count,
    Syscall NR_pwrite64 [Reg 0, Write_buf, Imm 0x200, Imm 0x1dae0600], Count,
    Syscall NR_pwrite64 [Reg 0, Write_buf, Imm 0x200, Imm 0x1dae0600], Count,
    Syscall NR_pwrite64 [Reg 0, Write_buf, Imm 0x200, Imm 0x1dae0800], Count,
    Syscall NR_pwrite64 [Reg 0, Write_buf, Imm 0x200, Imm 0x1dae0800], Count]"

definition min_mysql_pwrite64_openat_0_0_body3 :: "stmt list" where
  "min_mysql_pwrite64_openat_0_0_body3 = [
    Syscall NR_pwrite64 [Reg 0, Write_buf, Imm 0x200, Imm 0x1dae0800], Count,
    Syscall NR_pwrite64 [Reg 0, Write_buf, Imm 0x400, Imm 0x1dae0800], Count,
    Syscall NR_pwrite64 [Reg 0, Write_buf, Imm 0x200, Imm 0x1dae0c00], Count,
    Syscall NR_pwrite64 [Reg 0, Write_buf, Imm 0x1400, Imm 0x1dae0c00], Count,
    Syscall NR_pwrite64 [Reg 0, Write_buf, Imm 0x2000, Imm 0x1dae2000], Count,
    Syscall NR_pwrite64 [Reg 0, Write_buf, Imm 0x2000, Imm 0x1dae4000], Count,
    Syscall NR_pwrite64 [Reg 0, Write_buf, Imm 0x200, Imm 0x1dae4000], Count,
    Syscall NR_pwrite64 [Reg 0, Write_buf, Imm 0x600, Imm 0x1dae4000], Count,
    Syscall NR_pwrite64 [Reg 0, Write_buf, Imm 0x200, Imm 0x1dae4600], Count,
    Syscall NR_pwrite64 [Reg 0, Write_buf, Imm 0x1400, Imm 0x1dae4600], Count,
    Syscall NR_pwrite64 [Reg 0, Write_buf, Imm 0x200, Imm 0x1dae5a00], Count,
    Syscall NR_pwrite64 [Reg 0, Write_buf, Imm 0x200, Imm 0x1dae5a00], Count,
    Syscall NR_pwrite64 [Reg 0, Write_buf, Imm 0x200, Imm 0x1dae5a00], Count]"

definition min_mysql_pwrite64_openat_0_0_body4 :: "stmt list" where
  "min_mysql_pwrite64_openat_0_0_body4 = [
    Syscall NR_pwrite64 [Reg 0, Write_buf, Imm 0x600, Imm 0x1dae5a00], Count,
    Syscall NR_pwrite64 [Reg 0, Write_buf, Imm 0x2000, Imm 0x1dae6000], Count,
    Syscall NR_pwrite64 [Reg 0, Write_buf, Imm 0x800, Imm 0x1dae6800], Count,
    Syscall NR_pwrite64 [Reg 0, Write_buf, Imm 0x200, Imm 0x1dae7000], Count,
    Syscall NR_pwrite64 [Reg 0, Write_buf, Imm 0x400, Imm 0x1dae7000], Count,
    Syscall NR_pwrite64 [Reg 0, Write_buf, Imm 0x200, Imm 0x1dae7400], Count,
    Syscall NR_pwrite64 [Reg 0, Write_buf, Imm 0x600, Imm 0x1dae7400], Count,
    Syscall NR_pwrite64 [Reg 0, Write_buf, Imm 0x200, Imm 0x1dae7a00], Count,
    Syscall NR_pwrite64 [Reg 0, Write_buf, Imm 0x600, Imm 0x1dae7a00], Count,
    Syscall NR_pwrite64 [Reg 0, Write_buf, Imm 0x2000, Imm 0x1dae8000], Count,
    Syscall NR_pwrite64 [Reg 0, Write_buf, Imm 0x200, Imm 0x1dae9200], Count,
    Syscall NR_pwrite64 [Reg 0, Write_buf, Imm 0x200, Imm 0x1dae9200], Count,
    Syscall NR_pwrite64 [Reg 0, Write_buf, Imm 0xe00, Imm 0x1dae9200], Count]"

definition min_mysql_pwrite64_openat_0_0_body5 :: "stmt list" where
  "min_mysql_pwrite64_openat_0_0_body5 = [
    Syscall NR_pwrite64 [Reg 0, Write_buf, Imm 0x2000, Imm 0x1daea000], Count,
    Syscall NR_pwrite64 [Reg 0, Write_buf, Imm 0x2000, Imm 0x1daec000], Count,
    Syscall NR_pwrite64 [Reg 0, Write_buf, Imm 0x200, Imm 0x1daede00], Count,
    Syscall NR_pwrite64 [Reg 0, Write_buf, Imm 0x200, Imm 0x1daede00], Count,
    Syscall NR_pwrite64 [Reg 0, Write_buf, Imm 0x200, Imm 0x1daede00], Count,
    Syscall NR_pwrite64 [Reg 0, Write_buf, Imm 0x200, Imm 0x1daede00], Count,
    Syscall NR_pwrite64 [Reg 0, Write_buf, Imm 0x2000, Imm 0x1daee000], Count,
    Syscall NR_pwrite64 [Reg 0, Write_buf, Imm 0x2000, Imm 0x1daf0000], Count,
    Syscall NR_pwrite64 [Reg 0, Write_buf, Imm 0x2000, Imm 0x1daf2000], Count,
    Syscall NR_pwrite64 [Reg 0, Write_buf, Imm 0x2000, Imm 0x1daf4000], Count,
    Syscall NR_pwrite64 [Reg 0, Write_buf, Imm 0x400, Imm 0x1daf5c00], Count,
    Syscall NR_pwrite64 [Reg 0, Write_buf, Imm 0x2000, Imm 0x1daf6000], Count,
    Syscall NR_pwrite64 [Reg 0, Write_buf, Imm 0x1e00, Imm 0x1daf6200], Count]"

definition min_mysql_pwrite64_openat_0_0_body6 :: "stmt list" where
  "min_mysql_pwrite64_openat_0_0_body6 = [
    Syscall NR_pwrite64 [Reg 0, Write_buf, Imm 0x2000, Imm 0x1daf8000], Count,
    Syscall NR_pwrite64 [Reg 0, Write_buf, Imm 0x2000, Imm 0x1dafa000], Count,
    Syscall NR_pwrite64 [Reg 0, Write_buf, Imm 0x1600, Imm 0x1dafaa00], Count,
    Syscall NR_pwrite64 [Reg 0, Write_buf, Imm 0x2000, Imm 0x1dafc000], Count,
    Syscall NR_pwrite64 [Reg 0, Write_buf, Imm 0x2000, Imm 0x1dafe000], Count,
    Syscall NR_pwrite64 [Reg 0, Write_buf, Imm 0xc00, Imm 0x1daff400], Count,
    Syscall NR_pwrite64 [Reg 0, Write_buf, Imm 0x2000, Imm 0x1db00000], Count,
    Syscall NR_pwrite64 [Reg 0, Write_buf, Imm 0x2000, Imm 0x1db02000], Count,
    Syscall NR_pwrite64 [Reg 0, Write_buf, Imm 0x200, Imm 0x1db03e00], Count,
    Syscall NR_pwrite64 [Reg 0, Write_buf, Imm 0x2000, Imm 0x1db04000], Count,
    Syscall NR_pwrite64 [Reg 0, Write_buf, Imm 0x2000, Imm 0x1db06000], Count,
    Syscall NR_pwrite64 [Reg 0, Write_buf, Imm 0x2000, Imm 0x1db08000], Count,
    Syscall NR_pwrite64 [Reg 0, Write_buf, Imm 0x1800, Imm 0x1db08800], Count]"

definition min_mysql_pwrite64_openat_0_0_body7 :: "stmt list" where
  "min_mysql_pwrite64_openat_0_0_body7 = [
    Syscall NR_pwrite64 [Reg 0, Write_buf, Imm 0x2000, Imm 0x1db0a000], Count,
    Syscall NR_pwrite64 [Reg 0, Write_buf, Imm 0x2000, Imm 0x1db0c000], Count,
    Syscall NR_pwrite64 [Reg 0, Write_buf, Imm 0x200, Imm 0x1db0d200], Count,
    Syscall NR_pwrite64 [Reg 0, Write_buf, Imm 0x200, Imm 0x1db0d400], Count,
    Syscall NR_pwrite64 [Reg 0, Write_buf, Imm 0xc00, Imm 0x1db0d400], Count,
    Syscall NR_pwrite64 [Reg 0, Write_buf, Imm 0x2000, Imm 0x1db0e000], Count,
    Syscall NR_pwrite64 [Reg 0, Write_buf, Imm 0x2000, Imm 0x1db10000], Count,
    Syscall NR_pwrite64 [Reg 0, Write_buf, Imm 0x400, Imm 0x1db11c00], Count,
    Syscall NR_pwrite64 [Reg 0, Write_buf, Imm 0x2000, Imm 0x1db12000], Count,
    Syscall NR_pwrite64 [Reg 0, Write_buf, Imm 0x2000, Imm 0x1db14000], Count,
    Syscall NR_pwrite64 [Reg 0, Write_buf, Imm 0xc00, Imm 0x1db15400], Count,
    Syscall NR_pwrite64 [Reg 0, Write_buf, Imm 0x2000, Imm 0x1db16000], Count,
    Syscall NR_pwrite64 [Reg 0, Write_buf, Imm 0x1a00, Imm 0x1db16600], Count]"

definition min_mysql_pwrite64_openat_0_0_body8 :: "stmt list" where
  "min_mysql_pwrite64_openat_0_0_body8 = [
    Syscall NR_pwrite64 [Reg 0, Write_buf, Imm 0x2000, Imm 0x1db18000], Count,
    Syscall NR_pwrite64 [Reg 0, Write_buf, Imm 0x2000, Imm 0x1db1a000], Count,
    Syscall NR_pwrite64 [Reg 0, Write_buf, Imm 0x1000, Imm 0x1db1b000], Count,
    Syscall NR_pwrite64 [Reg 0, Write_buf, Imm 0x2000, Imm 0x1db1c000], Count,
    Syscall NR_pwrite64 [Reg 0, Write_buf, Imm 0x2000, Imm 0x1db1e000], Count,
    Syscall NR_pwrite64 [Reg 0, Write_buf, Imm 0x600, Imm 0x1db1fa00], Count,
    Syscall NR_pwrite64 [Reg 0, Write_buf, Imm 0x2000, Imm 0x1db20000], Count,
    Syscall NR_pwrite64 [Reg 0, Write_buf, Imm 0x2000, Imm 0x1db22000], Count,
    Syscall NR_pwrite64 [Reg 0, Write_buf, Imm 0x2000, Imm 0x1db24000], Count,
    Syscall NR_pwrite64 [Reg 0, Write_buf, Imm 0x1c00, Imm 0x1db24400], Count,
    Syscall NR_pwrite64 [Reg 0, Write_buf, Imm 0x2000, Imm 0x1db26000], Count,
    Syscall NR_pwrite64 [Reg 0, Write_buf, Imm 0x2000, Imm 0x1db28000], Count,
    Syscall NR_pwrite64 [Reg 0, Write_buf, Imm 0x1200, Imm 0x1db28e00], Count]"

definition min_mysql_pwrite64_openat_0_0_body9 :: "stmt list" where
  "min_mysql_pwrite64_openat_0_0_body9 = [
    Syscall NR_pwrite64 [Reg 0, Write_buf, Imm 0x2000, Imm 0x1db2a000], Count,
    Syscall NR_pwrite64 [Reg 0, Write_buf, Imm 0x2000, Imm 0x1db2c000], Count,
    Syscall NR_pwrite64 [Reg 0, Write_buf, Imm 0x800, Imm 0x1db2d800], Count,
    Syscall NR_pwrite64 [Reg 0, Write_buf, Imm 0x2000, Imm 0x1db2e000], Count,
    Syscall NR_pwrite64 [Reg 0, Write_buf, Imm 0x200, Imm 0x1db2e800], Count,
    Syscall NR_pwrite64 [Reg 0, Write_buf, Imm 0x200, Imm 0x1db2e800], Count,
    Syscall NR_pwrite64 [Reg 0, Write_buf, Imm 0x600, Imm 0x1db2e800], Count,
    Syscall NR_pwrite64 [Reg 0, Write_buf, Imm 0x200, Imm 0x1db2ee00], Count,
    Syscall NR_pwrite64 [Reg 0, Write_buf, Imm 0x200, Imm 0x1db2ee00], Count,
    Syscall NR_pwrite64 [Reg 0, Write_buf, Imm 0x200, Imm 0x1db2ee00], Count,
    Syscall NR_pwrite64 [Reg 0, Write_buf, Imm 0x200, Imm 0x1db2f000], Count,
    Syscall NR_pwrite64 [Reg 0, Write_buf, Imm 0x200, Imm 0x1db2f000], Count,
    Syscall NR_pwrite64 [Reg 0, Write_buf, Imm 0x200, Imm 0x1db2f000], Count]"

definition min_mysql_pwrite64_openat_0_0_body10 :: "stmt list" where
  "min_mysql_pwrite64_openat_0_0_body10 = [
    Syscall NR_pwrite64 [Reg 0, Write_buf, Imm 0x200, Imm 0x1db2f200], Count,
    Syscall NR_pwrite64 [Reg 0, Write_buf, Imm 0x200, Imm 0x1db2f200], Count,
    Syscall NR_pwrite64 [Reg 0, Write_buf, Imm 0xa00, Imm 0x1db2f200], Count,
    Syscall NR_pwrite64 [Reg 0, Write_buf, Imm 0x200, Imm 0x1db2fc00], Count,
    Syscall NR_pwrite64 [Reg 0, Write_buf, Imm 0x400, Imm 0x1db2fc00], Count,
    Syscall NR_pwrite64 [Reg 0, Write_buf, Imm 0x2000, Imm 0x1db30000], Count,
    Syscall NR_pwrite64 [Reg 0, Write_buf, Imm 0x2000, Imm 0x1db32000], Count,
    Syscall NR_pwrite64 [Reg 0, Write_buf, Imm 0x600, Imm 0x1db32400], Count,
    Syscall NR_pwrite64 [Reg 0, Write_buf, Imm 0x200, Imm 0x1db32a00], Count,
    Syscall NR_pwrite64 [Reg 0, Write_buf, Imm 0x1600, Imm 0x1db32a00], Count,
    Syscall NR_pwrite64 [Reg 0, Write_buf, Imm 0x2000, Imm 0x1db34000], Count,
    Syscall NR_pwrite64 [Reg 0, Write_buf, Imm 0x200, Imm 0x1db34400], Count,
    Syscall NR_pwrite64 [Reg 0, Write_buf, Imm 0x200, Imm 0x1db34400], Count]"

definition min_mysql_pwrite64_openat_0_0_body11 :: "stmt list" where
  "min_mysql_pwrite64_openat_0_0_body11 = [
    Syscall NR_pwrite64 [Reg 0, Write_buf, Imm 0xe00, Imm 0x1db34400], Count,
    Syscall NR_pwrite64 [Reg 0, Write_buf, Imm 0x200, Imm 0x1db35200], Count,
    Syscall NR_pwrite64 [Reg 0, Write_buf, Imm 0x800, Imm 0x1db35200], Count,
    Syscall NR_pwrite64 [Reg 0, Write_buf, Imm 0x200, Imm 0x1db35a00], Count,
    Syscall NR_pwrite64 [Reg 0, Write_buf, Imm 0x600, Imm 0x1db35a00], Count,
    Syscall NR_pwrite64 [Reg 0, Write_buf, Imm 0x2000, Imm 0x1db36000], Count,
    Syscall NR_pwrite64 [Reg 0, Write_buf, Imm 0x400, Imm 0x1db36000], Count,
    Syscall NR_pwrite64 [Reg 0, Write_buf, Imm 0x200, Imm 0x1db36400], Count,
    Syscall NR_pwrite64 [Reg 0, Write_buf, Imm 0x1600, Imm 0x1db36400], Count,
    Syscall NR_pwrite64 [Reg 0, Write_buf, Imm 0x200, Imm 0x1db37a00], Count,
    Syscall NR_pwrite64 [Reg 0, Write_buf, Imm 0x600, Imm 0x1db37a00], Count,
    Syscall NR_pwrite64 [Reg 0, Write_buf, Imm 0x2000, Imm 0x1db38000], Count,
    Syscall NR_pwrite64 [Reg 0, Write_buf, Imm 0x2000, Imm 0x1db3a000], Count]"

definition min_mysql_pwrite64_openat_0_0_body12 :: "stmt list" where
  "min_mysql_pwrite64_openat_0_0_body12 = [
    Syscall NR_pwrite64 [Reg 0, Write_buf, Imm 0x200, Imm 0x1db3be00], Count,
    Syscall NR_pwrite64 [Reg 0, Write_buf, Imm 0x2000, Imm 0x1db3c000], Count,
    Syscall NR_pwrite64 [Reg 0, Write_buf, Imm 0x200, Imm 0x1db3c600], Count,
    Syscall NR_pwrite64 [Reg 0, Write_buf, Imm 0x200, Imm 0x1db3c600], Count,
    Syscall NR_pwrite64 [Reg 0, Write_buf, Imm 0x200, Imm 0x1db3c600], Count,
    Syscall NR_pwrite64 [Reg 0, Write_buf, Imm 0x200, Imm 0x1db3c800], Count,
    Syscall NR_pwrite64 [Reg 0, Write_buf, Imm 0x1800, Imm 0x1db3c800], Count,
    Syscall NR_pwrite64 [Reg 0, Write_buf, Imm 0x2000, Imm 0x1db3e000], Count,
    Syscall NR_pwrite64 [Reg 0, Write_buf, Imm 0x2000, Imm 0x1db40000], Count,
    Syscall NR_pwrite64 [Reg 0, Write_buf, Imm 0x2000, Imm 0x1db42000], Count,
    Syscall NR_pwrite64 [Reg 0, Write_buf, Imm 0x2000, Imm 0x1db44000], Count,
    Syscall NR_pwrite64 [Reg 0, Write_buf, Imm 0x1a00, Imm 0x1db44600], Count,
    Syscall NR_pwrite64 [Reg 0, Write_buf, Imm 0x2000, Imm 0x1db46000], Count]"

definition min_mysql_pwrite64_openat_0_0_body13 :: "stmt list" where
  "min_mysql_pwrite64_openat_0_0_body13 = [
    Syscall NR_pwrite64 [Reg 0, Write_buf, Imm 0x2000, Imm 0x1db48000], Count,
    Syscall NR_pwrite64 [Reg 0, Write_buf, Imm 0x1200, Imm 0x1db48e00], Count,
    Syscall NR_pwrite64 [Reg 0, Write_buf, Imm 0x2000, Imm 0x1db4a000], Count,
    Syscall NR_pwrite64 [Reg 0, Write_buf, Imm 0x2000, Imm 0x1db4c000], Count,
    Syscall NR_pwrite64 [Reg 0, Write_buf, Imm 0x800, Imm 0x1db4d800], Count,
    Syscall NR_pwrite64 [Reg 0, Write_buf, Imm 0x2000, Imm 0x1db4e000], Count,
    Syscall NR_pwrite64 [Reg 0, Write_buf, Imm 0x2000, Imm 0x1db50000], Count,
    Syscall NR_pwrite64 [Reg 0, Write_buf, Imm 0x2000, Imm 0x1db52000], Count,
    Syscall NR_pwrite64 [Reg 0, Write_buf, Imm 0x1e00, Imm 0x1db52200], Count,
    Syscall NR_pwrite64 [Reg 0, Write_buf, Imm 0x2000, Imm 0x1db54000], Count,
    Syscall NR_pwrite64 [Reg 0, Write_buf, Imm 0x2000, Imm 0x1db56000], Count,
    Syscall NR_pwrite64 [Reg 0, Write_buf, Imm 0x1400, Imm 0x1db56c00], Count,
    Syscall NR_pwrite64 [Reg 0, Write_buf, Imm 0x2000, Imm 0x1db58000], Count]"

definition min_mysql_pwrite64_openat_0_0_body14 :: "stmt list" where
  "min_mysql_pwrite64_openat_0_0_body14 = [
    Syscall NR_pwrite64 [Reg 0, Write_buf, Imm 0x2000, Imm 0x1db5a000], Count,
    Syscall NR_pwrite64 [Reg 0, Write_buf, Imm 0xa00, Imm 0x1db5b600], Count,
    Syscall NR_pwrite64 [Reg 0, Write_buf, Imm 0x2000, Imm 0x1db5c000], Count,
    Syscall NR_pwrite64 [Reg 0, Write_buf, Imm 0x2000, Imm 0x1db5e000], Count,
    Syscall NR_pwrite64 [Reg 0, Write_buf, Imm 0x2000, Imm 0x1db60000], Count,
    Syscall NR_pwrite64 [Reg 0, Write_buf, Imm 0x2000, Imm 0x1db60000], Count,
    Syscall NR_pwrite64 [Reg 0, Write_buf, Imm 0x2000, Imm 0x1db62000], Count,
    Syscall NR_pwrite64 [Reg 0, Write_buf, Imm 0x2000, Imm 0x1db64000], Count,
    Syscall NR_pwrite64 [Reg 0, Write_buf, Imm 0x1600, Imm 0x1db64a00], Count,
    Syscall NR_pwrite64 [Reg 0, Write_buf, Imm 0x2000, Imm 0x1db66000], Count,
    Syscall NR_pwrite64 [Reg 0, Write_buf, Imm 0x2000, Imm 0x1db68000], Count,
    Syscall NR_pwrite64 [Reg 0, Write_buf, Imm 0xc00, Imm 0x1db69400], Count,
    Syscall NR_pwrite64 [Reg 0, Write_buf, Imm 0x2000, Imm 0x1db6a000], Count]"

definition min_mysql_pwrite64_openat_0_0_body15 :: "stmt list" where
  "min_mysql_pwrite64_openat_0_0_body15 = [
    Syscall NR_pwrite64 [Reg 0, Write_buf, Imm 0x2000, Imm 0x1db6c000], Count,
    Syscall NR_pwrite64 [Reg 0, Write_buf, Imm 0x200, Imm 0x1db6de00], Count,
    Syscall NR_pwrite64 [Reg 0, Write_buf, Imm 0x2000, Imm 0x1db6e000], Count,
    Syscall NR_pwrite64 [Reg 0, Write_buf, Imm 0x2000, Imm 0x1db70000], Count,
    Syscall NR_pwrite64 [Reg 0, Write_buf, Imm 0x2000, Imm 0x1db72000], Count,
    Syscall NR_pwrite64 [Reg 0, Write_buf, Imm 0x1800, Imm 0x1db72800], Count,
    Syscall NR_pwrite64 [Reg 0, Write_buf, Imm 0x2000, Imm 0x1db74000], Count,
    Syscall NR_pwrite64 [Reg 0, Write_buf, Imm 0x2000, Imm 0x1db76000], Count,
    Syscall NR_pwrite64 [Reg 0, Write_buf, Imm 0xe00, Imm 0x1db77200], Count,
    Syscall NR_pwrite64 [Reg 0, Write_buf, Imm 0x2000, Imm 0x1db78000], Count,
    Syscall NR_pwrite64 [Reg 0, Write_buf, Imm 0x2000, Imm 0x1db7a000], Count,
    Syscall NR_pwrite64 [Reg 0, Write_buf, Imm 0x400, Imm 0x1db7bc00], Count,
    Syscall NR_pwrite64 [Reg 0, Write_buf, Imm 0x2000, Imm 0x1db7c000], Count]"

definition min_mysql_pwrite64_openat_0_0_body16 :: "stmt list" where
  "min_mysql_pwrite64_openat_0_0_body16 = [
    Syscall NR_pwrite64 [Reg 0, Write_buf, Imm 0x200, Imm 0x1db7ca00], Count,
    Syscall NR_pwrite64 [Reg 0, Write_buf, Imm 0x200, Imm 0x1db7cc00], Count,
    Syscall NR_pwrite64 [Reg 0, Write_buf, Imm 0x200, Imm 0x1db7cc00], Count,
    Syscall NR_pwrite64 [Reg 0, Write_buf, Imm 0x600, Imm 0x1db7cc00], Count,
    Syscall NR_pwrite64 [Reg 0, Write_buf, Imm 0x200, Imm 0x1db7d200], Count,
    Syscall NR_pwrite64 [Reg 0, Write_buf, Imm 0x200, Imm 0x1db7d200], Count,
    Syscall NR_pwrite64 [Reg 0, Write_buf, Imm 0x200, Imm 0x1db7d400], Count,
    Syscall NR_pwrite64 [Reg 0, Write_buf, Imm 0x200, Imm 0x1db7d400], Count,
    Syscall NR_pwrite64 [Reg 0, Write_buf, Imm 0x200, Imm 0x1db7d400], Count,
    Syscall NR_pwrite64 [Reg 0, Write_buf, Imm 0x200, Imm 0x1db7d400], Count,
    Syscall NR_pwrite64 [Reg 0, Write_buf, Imm 0x200, Imm 0x1db7d400], Count,
    Syscall NR_pwrite64 [Reg 0, Write_buf, Imm 0x200, Imm 0x1db7d400], Count,
    Syscall NR_pwrite64 [Reg 0, Write_buf, Imm 0x200, Imm 0x1db7d600], Count]"

definition min_mysql_pwrite64_openat_0_0_body17 :: "stmt list" where
  "min_mysql_pwrite64_openat_0_0_body17 = [
    Syscall NR_pwrite64 [Reg 0, Write_buf, Imm 0x800, Imm 0x1db7d600], Count,
    Syscall NR_pwrite64 [Reg 0, Write_buf, Imm 0x200, Imm 0x1db7de00], Count,
    Syscall NR_pwrite64 [Reg 0, Write_buf, Imm 0x200, Imm 0x1db7de00], Count,
    Syscall NR_pwrite64 [Reg 0, Write_buf, Imm 0x200, Imm 0x1db7de00], Count,
    Syscall NR_pwrite64 [Reg 0, Write_buf, Imm 0x2000, Imm 0x1db7e000], Count,
    Syscall NR_pwrite64 [Reg 0, Write_buf, Imm 0x400, Imm 0x1db7ea00], Count,
    Syscall NR_pwrite64 [Reg 0, Write_buf, Imm 0x200, Imm 0x1db7ee00], Count,
    Syscall NR_pwrite64 [Reg 0, Write_buf, Imm 0x200, Imm 0x1db7ee00], Count,
    Syscall NR_pwrite64 [Reg 0, Write_buf, Imm 0x400, Imm 0x1db7f000], Count,
    Syscall NR_pwrite64 [Reg 0, Write_buf, Imm 0x600, Imm 0x1db7f400], Count,
    Syscall NR_pwrite64 [Reg 0, Write_buf, Imm 0x200, Imm 0x1db7fa00], Count,
    Syscall NR_pwrite64 [Reg 0, Write_buf, Imm 0x200, Imm 0x1db7fc00], Count,
    Syscall NR_pwrite64 [Reg 0, Write_buf, Imm 0x200, Imm 0x1db7fe00], Count]"

definition min_mysql_pwrite64_openat_0_0_body18 :: "stmt list" where
  "min_mysql_pwrite64_openat_0_0_body18 = [
    Syscall NR_pwrite64 [Reg 0, Write_buf, Imm 0x2000, Imm 0x1db80000], Count,
    Syscall NR_pwrite64 [Reg 0, Write_buf, Imm 0x400, Imm 0x1db80200], Count,
    Syscall NR_pwrite64 [Reg 0, Write_buf, Imm 0x200, Imm 0x1db80600], Count,
    Syscall NR_pwrite64 [Reg 0, Write_buf, Imm 0x1a00, Imm 0x1db80600], Count,
    Syscall NR_pwrite64 [Reg 0, Write_buf, Imm 0x2000, Imm 0x1db82000], Count,
    Syscall NR_pwrite64 [Reg 0, Write_buf, Imm 0x600, Imm 0x1db82000], Count,
    Syscall NR_pwrite64 [Reg 0, Write_buf, Imm 0x200, Imm 0x1db82600], Count,
    Syscall NR_pwrite64 [Reg 0, Write_buf, Imm 0x200, Imm 0x1db82600], Count,
    Syscall NR_pwrite64 [Reg 0, Write_buf, Imm 0x200, Imm 0x1db82800], Count,
    Syscall NR_pwrite64 [Reg 0, Write_buf, Imm 0xc00, Imm 0x1db82800], Count,
    Syscall NR_pwrite64 [Reg 0, Write_buf, Imm 0x200, Imm 0x1db83400], Count,
    Syscall NR_pwrite64 [Reg 0, Write_buf, Imm 0x800, Imm 0x1db83400], Count,
    Syscall NR_pwrite64 [Reg 0, Write_buf, Imm 0x200, Imm 0x1db83c00], Count]"

definition min_mysql_pwrite64_openat_0_0_body19 :: "stmt list" where
  "min_mysql_pwrite64_openat_0_0_body19 = [
    Syscall NR_pwrite64 [Reg 0, Write_buf, Imm 0x200, Imm 0x1db83c00], Count,
    Syscall NR_pwrite64 [Reg 0, Write_buf, Imm 0x400, Imm 0x1db83c00], Count,
    Syscall NR_pwrite64 [Reg 0, Write_buf, Imm 0x2000, Imm 0x1db84000], Count,
    Syscall NR_pwrite64 [Reg 0, Write_buf, Imm 0x400, Imm 0x1db84400], Count,
    Syscall NR_pwrite64 [Reg 0, Write_buf, Imm 0x200, Imm 0x1db84800], Count,
    Syscall NR_pwrite64 [Reg 0, Write_buf, Imm 0x1600, Imm 0x1db84800], Count,
    Syscall NR_pwrite64 [Reg 0, Write_buf, Imm 0x200, Imm 0x1db85e00], Count,
    Syscall NR_pwrite64 [Reg 0, Write_buf, Imm 0x200, Imm 0x1db85e00], Count,
    Syscall NR_pwrite64 [Reg 0, Write_buf, Imm 0x2000, Imm 0x1db86000], Count,
    Syscall NR_pwrite64 [Reg 0, Write_buf, Imm 0x2000, Imm 0x1db88000], Count,
    Syscall NR_pwrite64 [Reg 0, Write_buf, Imm 0x2000, Imm 0x1db8a000], Count,
    Syscall NR_pwrite64 [Reg 0, Write_buf, Imm 0x200, Imm 0x1db8ac00], Count,
    Syscall NR_pwrite64 [Reg 0, Write_buf, Imm 0x1400, Imm 0x1db8ac00], Count]"

definition min_mysql_pwrite64_openat_0_0_body20 :: "stmt list" where
  "min_mysql_pwrite64_openat_0_0_body20 = [
    Syscall NR_pwrite64 [Reg 0, Write_buf, Imm 0x2000, Imm 0x1db8c000], Count,
    Syscall NR_pwrite64 [Reg 0, Write_buf, Imm 0x2000, Imm 0x1db8e000], Count,
    Syscall NR_pwrite64 [Reg 0, Write_buf, Imm 0x2000, Imm 0x1db90000], Count,
    Syscall NR_pwrite64 [Reg 0, Write_buf, Imm 0x2000, Imm 0x1db92000], Count,
    Syscall NR_pwrite64 [Reg 0, Write_buf, Imm 0x800, Imm 0x1db92a00], Count,
    Syscall NR_pwrite64 [Reg 0, Write_buf, Imm 0x200, Imm 0x1db93200], Count,
    Syscall NR_pwrite64 [Reg 0, Write_buf, Imm 0xe00, Imm 0x1db93200], Count,
    Syscall NR_pwrite64 [Reg 0, Write_buf, Imm 0x2000, Imm 0x1db94000], Count,
    Syscall NR_pwrite64 [Reg 0, Write_buf, Imm 0x2000, Imm 0x1db96000], Count,
    Syscall NR_pwrite64 [Reg 0, Write_buf, Imm 0x400, Imm 0x1db97c00], Count,
    Syscall NR_pwrite64 [Reg 0, Write_buf, Imm 0x2000, Imm 0x1db98000], Count,
    Syscall NR_pwrite64 [Reg 0, Write_buf, Imm 0x2000, Imm 0x1db9a000], Count,
    Syscall NR_pwrite64 [Reg 0, Write_buf, Imm 0x2000, Imm 0x1db9c000], Count]"

definition min_mysql_pwrite64_openat_0_0_body21 :: "stmt list" where
  "min_mysql_pwrite64_openat_0_0_body21 = [
    Syscall NR_pwrite64 [Reg 0, Write_buf, Imm 0x1a00, Imm 0x1db9c600], Count,
    Syscall NR_pwrite64 [Reg 0, Write_buf, Imm 0x2000, Imm 0x1db9e000], Count,
    Syscall NR_pwrite64 [Reg 0, Write_buf, Imm 0x2000, Imm 0x1dba0000], Count,
    Syscall NR_pwrite64 [Reg 0, Write_buf, Imm 0x1000, Imm 0x1dba1000], Count,
    Syscall NR_pwrite64 [Reg 0, Write_buf, Imm 0x2000, Imm 0x1dba2000], Count,
    Syscall NR_pwrite64 [Reg 0, Write_buf, Imm 0x2000, Imm 0x1dba4000], Count,
    Syscall NR_pwrite64 [Reg 0, Write_buf, Imm 0x600, Imm 0x1dba5a00], Count,
    Syscall NR_pwrite64 [Reg 0, Write_buf, Imm 0x2000, Imm 0x1dba6000], Count,
    Syscall NR_pwrite64 [Reg 0, Write_buf, Imm 0x2000, Imm 0x1dba8000], Count,
    Syscall NR_pwrite64 [Reg 0, Write_buf, Imm 0x2000, Imm 0x1dbaa000], Count,
    Syscall NR_pwrite64 [Reg 0, Write_buf, Imm 0x1c00, Imm 0x1dbaa400], Count,
    Syscall NR_pwrite64 [Reg 0, Write_buf, Imm 0x2000, Imm 0x1dbac000], Count,
    Syscall NR_pwrite64 [Reg 0, Write_buf, Imm 0x2000, Imm 0x1dbae000], Count]"

definition min_mysql_pwrite64_openat_0_0_body22 :: "stmt list" where
  "min_mysql_pwrite64_openat_0_0_body22 = [
    Syscall NR_pwrite64 [Reg 0, Write_buf, Imm 0x1200, Imm 0x1dbaee00], Count,
    Syscall NR_pwrite64 [Reg 0, Write_buf, Imm 0x2000, Imm 0x1dbb0000], Count,
    Syscall NR_pwrite64 [Reg 0, Write_buf, Imm 0x2000, Imm 0x1dbb2000], Count,
    Syscall NR_pwrite64 [Reg 0, Write_buf, Imm 0x800, Imm 0x1dbb3800], Count,
    Syscall NR_pwrite64 [Reg 0, Write_buf, Imm 0x2000, Imm 0x1dbb4000], Count,
    Syscall NR_pwrite64 [Reg 0, Write_buf, Imm 0x2000, Imm 0x1dbb6000], Count,
    Syscall NR_pwrite64 [Reg 0, Write_buf, Imm 0x2000, Imm 0x1dbb8000], Count,
    Syscall NR_pwrite64 [Reg 0, Write_buf, Imm 0x1e00, Imm 0x1dbb8200], Count,
    Syscall NR_pwrite64 [Reg 0, Write_buf, Imm 0x2000, Imm 0x1dbba000], Count,
    Syscall NR_pwrite64 [Reg 0, Write_buf, Imm 0x2000, Imm 0x1dbbc000], Count,
    Syscall NR_pwrite64 [Reg 0, Write_buf, Imm 0x1400, Imm 0x1dbbcc00], Count,
    Syscall NR_pwrite64 [Reg 0, Write_buf, Imm 0x2000, Imm 0x1dbbe000], Count,
    Syscall NR_pwrite64 [Reg 0, Write_buf, Imm 0x2000, Imm 0x1dbc0000], Count]"

definition min_mysql_pwrite64_openat_0_0_body23 :: "stmt list" where
  "min_mysql_pwrite64_openat_0_0_body23 = [
    Syscall NR_pwrite64 [Reg 0, Write_buf, Imm 0xc00, Imm 0x1dbc1400], Count,
    Syscall NR_pwrite64 [Reg 0, Write_buf, Imm 0x2000, Imm 0x1dbc2000], Count,
    Syscall NR_pwrite64 [Reg 0, Write_buf, Imm 0x2000, Imm 0x1dbc4000], Count,
    Syscall NR_pwrite64 [Reg 0, Write_buf, Imm 0x200, Imm 0x1dbc5e00], Count,
    Syscall NR_pwrite64 [Reg 0, Write_buf, Imm 0x2000, Imm 0x1dbc6000], Count,
    Syscall NR_pwrite64 [Reg 0, Write_buf, Imm 0x2000, Imm 0x1dbc8000], Count,
    Syscall NR_pwrite64 [Reg 0, Write_buf, Imm 0x2000, Imm 0x1dbca000], Count,
    Syscall NR_pwrite64 [Reg 0, Write_buf, Imm 0x400, Imm 0x1dbca800], Count,
    Syscall NR_pwrite64 [Reg 0, Write_buf, Imm 0xc00, Imm 0x1dbcac00], Count,
    Syscall NR_pwrite64 [Reg 0, Write_buf, Imm 0x200, Imm 0x1dbcb800], Count,
    Syscall NR_pwrite64 [Reg 0, Write_buf, Imm 0x200, Imm 0x1dbcb800], Count,
    Syscall NR_pwrite64 [Reg 0, Write_buf, Imm 0x200, Imm 0x1dbcb800], Count,
    Syscall NR_pwrite64 [Reg 0, Write_buf, Imm 0x200, Imm 0x1dbcb800], Count]"

definition min_mysql_pwrite64_openat_0_0_body24 :: "stmt list" where
  "min_mysql_pwrite64_openat_0_0_body24 = [
    Syscall NR_pwrite64 [Reg 0, Write_buf, Imm 0x800, Imm 0x1dbcb800], Count,
    Syscall NR_pwrite64 [Reg 0, Write_buf, Imm 0x2000, Imm 0x1dbcc000], Count,
    Syscall NR_pwrite64 [Reg 0, Write_buf, Imm 0x200, Imm 0x1dbcc000], Count,
    Syscall NR_pwrite64 [Reg 0, Write_buf, Imm 0x200, Imm 0x1dbcc000], Count,
    Syscall NR_pwrite64 [Reg 0, Write_buf, Imm 0x200, Imm 0x1dbcc000], Count,
    Syscall NR_pwrite64 [Reg 0, Write_buf, Imm 0x200, Imm 0x1dbcc000], Count,
    Syscall NR_pwrite64 [Reg 0, Write_buf, Imm 0x200, Imm 0x1dbcc200], Count,
    Syscall NR_pwrite64 [Reg 0, Write_buf, Imm 0x200, Imm 0x1dbcc200], Count,
    Syscall NR_pwrite64 [Reg 0, Write_buf, Imm 0xa00, Imm 0x1dbcc200], Count,
    Syscall NR_pwrite64 [Reg 0, Write_buf, Imm 0x200, Imm 0x1dbccc00], Count,
    Syscall NR_pwrite64 [Reg 0, Write_buf, Imm 0x200, Imm 0x1dbccc00], Count,
    Syscall NR_pwrite64 [Reg 0, Write_buf, Imm 0x1400, Imm 0x1dbccc00], Count,
    Syscall NR_pwrite64 [Reg 0, Write_buf, Imm 0x2000, Imm 0x1dbce000], Count]"

definition min_mysql_pwrite64_openat_0_0_body25 :: "stmt list" where
  "min_mysql_pwrite64_openat_0_0_body25 = [
    Syscall NR_pwrite64 [Reg 0, Write_buf, Imm 0xc00, Imm 0x1dbcf400], Count,
    Syscall NR_pwrite64 [Reg 0, Write_buf, Imm 0x2000, Imm 0x1dbd0000], Count,
    Syscall NR_pwrite64 [Reg 0, Write_buf, Imm 0x600, Imm 0x1dbd0800], Count,
    Syscall NR_pwrite64 [Reg 0, Write_buf, Imm 0x200, Imm 0x1dbd0e00], Count,
    Syscall NR_pwrite64 [Reg 0, Write_buf, Imm 0x200, Imm 0x1dbd0e00], Count,
    Syscall NR_pwrite64 [Reg 0, Write_buf, Imm 0x200, Imm 0x1dbd1000], Count,
    Syscall NR_pwrite64 [Reg 0, Write_buf, Imm 0xa00, Imm 0x1dbd1000], Count,
    Syscall NR_pwrite64 [Reg 0, Write_buf, Imm 0x200, Imm 0x1dbd1a00], Count,
    Syscall NR_pwrite64 [Reg 0, Write_buf, Imm 0x200, Imm 0x1dbd1a00], Count,
    Syscall NR_pwrite64 [Reg 0, Write_buf, Imm 0x600, Imm 0x1dbd1a00], Count,
    Syscall NR_pwrite64 [Reg 0, Write_buf, Imm 0x2000, Imm 0x1dbd2000], Count,
    Syscall NR_pwrite64 [Reg 0, Write_buf, Imm 0x400, Imm 0x1dbd2000], Count,
    Syscall NR_pwrite64 [Reg 0, Write_buf, Imm 0x200, Imm 0x1dbd2400], Count]"

definition min_mysql_pwrite64_openat_0_0_body26 :: "stmt list" where
  "min_mysql_pwrite64_openat_0_0_body26 = [
    Syscall NR_pwrite64 [Reg 0, Write_buf, Imm 0x200, Imm 0x1dbd2400], Count,
    Syscall NR_pwrite64 [Reg 0, Write_buf, Imm 0x200, Imm 0x1dbd2600], Count,
    Syscall NR_pwrite64 [Reg 0, Write_buf, Imm 0x1400, Imm 0x1dbd2600], Count,
    Syscall NR_pwrite64 [Reg 0, Write_buf, Imm 0x200, Imm 0x1dbd3a00], Count,
    Syscall NR_pwrite64 [Reg 0, Write_buf, Imm 0x200, Imm 0x1dbd3a00], Count,
    Syscall NR_pwrite64 [Reg 0, Write_buf, Imm 0x200, Imm 0x1dbd3a00], Count,
    Syscall NR_pwrite64 [Reg 0, Write_buf, Imm 0x200, Imm 0x1dbd3c00], Count,
    Syscall NR_pwrite64 [Reg 0, Write_buf, Imm 0x400, Imm 0x1dbd3c00], Count,
    Syscall NR_pwrite64 [Reg 0, Write_buf, Imm 0x2000, Imm 0x1dbd4000], Count,
    Syscall NR_pwrite64 [Reg 0, Write_buf, Imm 0x2000, Imm 0x1dbd6000], Count,
    Syscall NR_pwrite64 [Reg 0, Write_buf, Imm 0x2000, Imm 0x1dbd8000], Count,
    Syscall NR_pwrite64 [Reg 0, Write_buf, Imm 0x1c00, Imm 0x1dbd8400], Count,
    Syscall NR_pwrite64 [Reg 0, Write_buf, Imm 0x2000, Imm 0x1dbda000], Count]"

definition min_mysql_pwrite64_openat_0_0_body27 :: "stmt list" where
  "min_mysql_pwrite64_openat_0_0_body27 = [
    Syscall NR_pwrite64 [Reg 0, Write_buf, Imm 0x2000, Imm 0x1dbdc000], Count,
    Syscall NR_pwrite64 [Reg 0, Write_buf, Imm 0x2000, Imm 0x1dbde000], Count,
    Syscall NR_pwrite64 [Reg 0, Write_buf, Imm 0x2000, Imm 0x1dbe0000], Count,
    Syscall NR_pwrite64 [Reg 0, Write_buf, Imm 0x1e00, Imm 0x1dbe0200], Count,
    Syscall NR_pwrite64 [Reg 0, Write_buf, Imm 0x2000, Imm 0x1dbe2000], Count,
    Syscall NR_pwrite64 [Reg 0, Write_buf, Imm 0x2000, Imm 0x1dbe4000], Count,
    Syscall NR_pwrite64 [Reg 0, Write_buf, Imm 0x1400, Imm 0x1dbe4c00], Count,
    Syscall NR_pwrite64 [Reg 0, Write_buf, Imm 0x2000, Imm 0x1dbe6000], Count,
    Syscall NR_pwrite64 [Reg 0, Write_buf, Imm 0x2000, Imm 0x1dbe8000], Count,
    Syscall NR_pwrite64 [Reg 0, Write_buf, Imm 0xa00, Imm 0x1dbe9600], Count,
    Syscall NR_pwrite64 [Reg 0, Write_buf, Imm 0x2000, Imm 0x1dbea000], Count,
    Syscall NR_pwrite64 [Reg 0, Write_buf, Imm 0x2000, Imm 0x1dbec000], Count,
    Syscall NR_pwrite64 [Reg 0, Write_buf, Imm 0x2000, Imm 0x1dbee000], Count]"

definition min_mysql_pwrite64_openat_0_0_body28 :: "stmt list" where
  "min_mysql_pwrite64_openat_0_0_body28 = [
    Syscall NR_pwrite64 [Reg 0, Write_buf, Imm 0x2000, Imm 0x1dbee000], Count,
    Syscall NR_pwrite64 [Reg 0, Write_buf, Imm 0x2000, Imm 0x1dbf0000], Count,
    Syscall NR_pwrite64 [Reg 0, Write_buf, Imm 0x2000, Imm 0x1dbf2000], Count,
    Syscall NR_pwrite64 [Reg 0, Write_buf, Imm 0x200, Imm 0x1dbf2a00], Count,
    Syscall NR_pwrite64 [Reg 0, Write_buf, Imm 0x1600, Imm 0x1dbf2a00], Count,
    Syscall NR_pwrite64 [Reg 0, Write_buf, Imm 0x2000, Imm 0x1dbf4000], Count,
    Syscall NR_pwrite64 [Reg 0, Write_buf, Imm 0x2000, Imm 0x1dbf6000], Count,
    Syscall NR_pwrite64 [Reg 0, Write_buf, Imm 0xc00, Imm 0x1dbf7400], Count,
    Syscall NR_pwrite64 [Reg 0, Write_buf, Imm 0x2000, Imm 0x1dbf8000], Count,
    Syscall NR_pwrite64 [Reg 0, Write_buf, Imm 0x2000, Imm 0x1dbfa000], Count,
    Syscall NR_pwrite64 [Reg 0, Write_buf, Imm 0x200, Imm 0x1dbfbe00], Count,
    Syscall NR_pwrite64 [Reg 0, Write_buf, Imm 0x2000, Imm 0x1dbfc000], Count,
    Syscall NR_pwrite64 [Reg 0, Write_buf, Imm 0x2000, Imm 0x1dbfe000], Count]"

definition min_mysql_pwrite64_openat_0_0_body29 :: "stmt list" where
  "min_mysql_pwrite64_openat_0_0_body29 = [
    Syscall NR_pwrite64 [Reg 0, Write_buf, Imm 0x2000, Imm 0x1dc00000], Count,
    Syscall NR_pwrite64 [Reg 0, Write_buf, Imm 0x1800, Imm 0x1dc00800], Count,
    Syscall NR_pwrite64 [Reg 0, Write_buf, Imm 0x2000, Imm 0x1dc02000], Count,
    Syscall NR_pwrite64 [Reg 0, Write_buf, Imm 0x2000, Imm 0x1dc04000], Count,
    Syscall NR_pwrite64 [Reg 0, Write_buf, Imm 0xe00, Imm 0x1dc05200], Count,
    Syscall NR_pwrite64 [Reg 0, Write_buf, Imm 0x2000, Imm 0x1dc06000], Count,
    Syscall NR_pwrite64 [Reg 0, Write_buf, Imm 0x2000, Imm 0x1dc08000], Count,
    Syscall NR_pwrite64 [Reg 0, Write_buf, Imm 0x400, Imm 0x1dc09c00], Count,
    Syscall NR_pwrite64 [Reg 0, Write_buf, Imm 0x2000, Imm 0x1dc0a000], Count,
    Syscall NR_pwrite64 [Reg 0, Write_buf, Imm 0x2000, Imm 0x1dc0c000], Count,
    Syscall NR_pwrite64 [Reg 0, Write_buf, Imm 0x2000, Imm 0x1dc0e000], Count,
    Syscall NR_pwrite64 [Reg 0, Write_buf, Imm 0x1a00, Imm 0x1dc0e600], Count,
    Syscall NR_pwrite64 [Reg 0, Write_buf, Imm 0x2000, Imm 0x1dc10000], Count]"

definition min_mysql_pwrite64_openat_0_0_body30 :: "stmt list" where
  "min_mysql_pwrite64_openat_0_0_body30 = [
    Syscall NR_pwrite64 [Reg 0, Write_buf, Imm 0x2000, Imm 0x1dc12000], Count,
    Syscall NR_pwrite64 [Reg 0, Write_buf, Imm 0x1200, Imm 0x1dc12e00], Count,
    Syscall NR_pwrite64 [Reg 0, Write_buf, Imm 0x2000, Imm 0x1dc14000], Count,
    Syscall NR_pwrite64 [Reg 0, Write_buf, Imm 0x2000, Imm 0x1dc16000], Count,
    Syscall NR_pwrite64 [Reg 0, Write_buf, Imm 0x800, Imm 0x1dc17800], Count,
    Syscall NR_pwrite64 [Reg 0, Write_buf, Imm 0x2000, Imm 0x1dc18000], Count,
    Syscall NR_pwrite64 [Reg 0, Write_buf, Imm 0x200, Imm 0x1dc18800], Count,
    Syscall NR_pwrite64 [Reg 0, Write_buf, Imm 0x200, Imm 0x1dc18800], Count,
    Syscall NR_pwrite64 [Reg 0, Write_buf, Imm 0x200, Imm 0x1dc18a00], Count,
    Syscall NR_pwrite64 [Reg 0, Write_buf, Imm 0x200, Imm 0x1dc18a00], Count,
    Syscall NR_pwrite64 [Reg 0, Write_buf, Imm 0x400, Imm 0x1dc18a00], Count,
    Syscall NR_pwrite64 [Reg 0, Write_buf, Imm 0x200, Imm 0x1dc18e00], Count,
    Syscall NR_pwrite64 [Reg 0, Write_buf, Imm 0x400, Imm 0x1dc18e00], Count]"

definition min_mysql_pwrite64_openat_0_0_body31 :: "stmt list" where
  "min_mysql_pwrite64_openat_0_0_body31 = [
    Syscall NR_pwrite64 [Reg 0, Write_buf, Imm 0x200, Imm 0x1dc19200], Count,
    Syscall NR_pwrite64 [Reg 0, Write_buf, Imm 0x200, Imm 0x1dc19200], Count,
    Syscall NR_pwrite64 [Reg 0, Write_buf, Imm 0x200, Imm 0x1dc19200], Count,
    Syscall NR_pwrite64 [Reg 0, Write_buf, Imm 0x200, Imm 0x1dc19200], Count,
    Syscall NR_pwrite64 [Reg 0, Write_buf, Imm 0x200, Imm 0x1dc19400], Count,
    Syscall NR_pwrite64 [Reg 0, Write_buf, Imm 0x200, Imm 0x1dc19400], Count,
    Syscall NR_pwrite64 [Reg 0, Write_buf, Imm 0x800, Imm 0x1dc19400], Count,
    Syscall NR_pwrite64 [Reg 0, Write_buf, Imm 0x200, Imm 0x1dc19c00], Count,
    Syscall NR_pwrite64 [Reg 0, Write_buf, Imm 0x400, Imm 0x1dc19c00], Count,
    Syscall NR_pwrite64 [Reg 0, Write_buf, Imm 0x2000, Imm 0x1dc1a000], Count,
    Syscall NR_pwrite64 [Reg 0, Write_buf, Imm 0x2000, Imm 0x1dc1c000], Count,
    Syscall NR_pwrite64 [Reg 0, Write_buf, Imm 0x1800, Imm 0x1dc1c200], Count,
    Syscall NR_pwrite64 [Reg 0, Write_buf, Imm 0x200, Imm 0x1dc1da00], Count]"

definition min_mysql_pwrite64_openat_0_0_body32 :: "stmt list" where
  "min_mysql_pwrite64_openat_0_0_body32 = [
    Syscall NR_pwrite64 [Reg 0, Write_buf, Imm 0x600, Imm 0x1dc1da00], Count,
    Syscall NR_pwrite64 [Reg 0, Write_buf, Imm 0x2000, Imm 0x1dc1e000], Count,
    Syscall NR_pwrite64 [Reg 0, Write_buf, Imm 0x200, Imm 0x1dc1e200], Count,
    Syscall NR_pwrite64 [Reg 0, Write_buf, Imm 0xe00, Imm 0x1dc1e200], Count,
    Syscall NR_pwrite64 [Reg 0, Write_buf, Imm 0x200, Imm 0x1dc1f000], Count,
    Syscall NR_pwrite64 [Reg 0, Write_buf, Imm 0x200, Imm 0x1dc1f000], Count,
    Syscall NR_pwrite64 [Reg 0, Write_buf, Imm 0x800, Imm 0x1dc1f000], Count,
    Syscall NR_pwrite64 [Reg 0, Write_buf, Imm 0x200, Imm 0x1dc1f800], Count,
    Syscall NR_pwrite64 [Reg 0, Write_buf, Imm 0x600, Imm 0x1dc1f800], Count,
    Syscall NR_pwrite64 [Reg 0, Write_buf, Imm 0x200, Imm 0x1dc1fe00], Count,
    Syscall NR_pwrite64 [Reg 0, Write_buf, Imm 0x200, Imm 0x1dc1fe00], Count,
    Syscall NR_pwrite64 [Reg 0, Write_buf, Imm 0x2000, Imm 0x1dc20000], Count,
    Syscall NR_pwrite64 [Reg 0, Write_buf, Imm 0x1400, Imm 0x1dc20400], Count]"

definition min_mysql_pwrite64_openat_0_0_body33 :: "stmt list" where
  "min_mysql_pwrite64_openat_0_0_body33 = [
    Syscall NR_pwrite64 [Reg 0, Write_buf, Imm 0x200, Imm 0x1dc21800], Count,
    Syscall NR_pwrite64 [Reg 0, Write_buf, Imm 0x200, Imm 0x1dc21800], Count,
    Syscall NR_pwrite64 [Reg 0, Write_buf, Imm 0x200, Imm 0x1dc21800], Count,
    Syscall NR_pwrite64 [Reg 0, Write_buf, Imm 0x200, Imm 0x1dc21a00], Count,
    Syscall NR_pwrite64 [Reg 0, Write_buf, Imm 0x600, Imm 0x1dc21a00], Count,
    Syscall NR_pwrite64 [Reg 0, Write_buf, Imm 0x2000, Imm 0x1dc22000], Count,
    Syscall NR_pwrite64 [Reg 0, Write_buf, Imm 0x2000, Imm 0x1dc24000], Count,
    Syscall NR_pwrite64 [Reg 0, Write_buf, Imm 0x2000, Imm 0x1dc26000], Count,
    Syscall NR_pwrite64 [Reg 0, Write_buf, Imm 0x1a00, Imm 0x1dc26600], Count,
    Syscall NR_pwrite64 [Reg 0, Write_buf, Imm 0x2000, Imm 0x1dc28000], Count,
    Syscall NR_pwrite64 [Reg 0, Write_buf, Imm 0x2000, Imm 0x1dc2a000], Count,
    Syscall NR_pwrite64 [Reg 0, Write_buf, Imm 0x2000, Imm 0x1dc2c000], Count,
    Syscall NR_pwrite64 [Reg 0, Write_buf, Imm 0x2000, Imm 0x1dc2e000], Count]"

definition min_mysql_pwrite64_openat_0_0_body34 :: "stmt list" where
  "min_mysql_pwrite64_openat_0_0_body34 = [
    Syscall NR_pwrite64 [Reg 0, Write_buf, Imm 0x800, Imm 0x1dc2e400], Count,
    Syscall NR_pwrite64 [Reg 0, Write_buf, Imm 0x200, Imm 0x1dc2ec00], Count,
    Syscall NR_pwrite64 [Reg 0, Write_buf, Imm 0x200, Imm 0x1dc2ee00], Count,
    Syscall NR_pwrite64 [Reg 0, Write_buf, Imm 0x1200, Imm 0x1dc2ee00], Count,
    Syscall NR_pwrite64 [Reg 0, Write_buf, Imm 0x2000, Imm 0x1dc30000], Count,
    Syscall NR_pwrite64 [Reg 0, Write_buf, Imm 0x2000, Imm 0x1dc32000], Count,
    Syscall NR_pwrite64 [Reg 0, Write_buf, Imm 0x200, Imm 0x1dc33800], Count,
    Syscall NR_pwrite64 [Reg 0, Write_buf, Imm 0x800, Imm 0x1dc33800], Count,
    Syscall NR_pwrite64 [Reg 0, Write_buf, Imm 0x2000, Imm 0x1dc34000], Count,
    Syscall NR_pwrite64 [Reg 0, Write_buf, Imm 0x2000, Imm 0x1dc36000], Count,
    Syscall NR_pwrite64 [Reg 0, Write_buf, Imm 0x2000, Imm 0x1dc38000], Count,
    Syscall NR_pwrite64 [Reg 0, Write_buf, Imm 0x200, Imm 0x1dc38200], Count,
    Syscall NR_pwrite64 [Reg 0, Write_buf, Imm 0x1e00, Imm 0x1dc38200], Count]"

definition min_mysql_pwrite64_openat_0_0_body35 :: "stmt list" where
  "min_mysql_pwrite64_openat_0_0_body35 = [
    Syscall NR_pwrite64 [Reg 0, Write_buf, Imm 0x2000, Imm 0x1dc3a000], Count,
    Syscall NR_pwrite64 [Reg 0, Write_buf, Imm 0x2000, Imm 0x1dc3c000], Count,
    Syscall NR_pwrite64 [Reg 0, Write_buf, Imm 0x1400, Imm 0x1dc3cc00], Count,
    Syscall NR_pwrite64 [Reg 0, Write_buf, Imm 0x2000, Imm 0x1dc3e000], Count,
    Syscall NR_pwrite64 [Reg 0, Write_buf, Imm 0x2000, Imm 0x1dc40000], Count,
    Syscall NR_pwrite64 [Reg 0, Write_buf, Imm 0xa00, Imm 0x1dc41600], Count,
    Syscall NR_pwrite64 [Reg 0, Write_buf, Imm 0x2000, Imm 0x1dc42000], Count,
    Syscall NR_pwrite64 [Reg 0, Write_buf, Imm 0x2000, Imm 0x1dc44000], Count,
    Syscall NR_pwrite64 [Reg 0, Write_buf, Imm 0x2000, Imm 0x1dc46000], Count,
    Syscall NR_pwrite64 [Reg 0, Write_buf, Imm 0x2000, Imm 0x1dc46000], Count,
    Syscall NR_pwrite64 [Reg 0, Write_buf, Imm 0x2000, Imm 0x1dc48000], Count,
    Syscall NR_pwrite64 [Reg 0, Write_buf, Imm 0x2000, Imm 0x1dc4a000], Count,
    Syscall NR_pwrite64 [Reg 0, Write_buf, Imm 0x1600, Imm 0x1dc4aa00], Count]"

definition min_mysql_pwrite64_openat_0_0_body36 :: "stmt list" where
  "min_mysql_pwrite64_openat_0_0_body36 = [
    Syscall NR_pwrite64 [Reg 0, Write_buf, Imm 0x2000, Imm 0x1dc4c000], Count,
    Syscall NR_pwrite64 [Reg 0, Write_buf, Imm 0x2000, Imm 0x1dc4e000], Count,
    Syscall NR_pwrite64 [Reg 0, Write_buf, Imm 0xe00, Imm 0x1dc4f200], Count,
    Syscall NR_pwrite64 [Reg 0, Write_buf, Imm 0x2000, Imm 0x1dc50000], Count,
    Syscall NR_pwrite64 [Reg 0, Write_buf, Imm 0x2000, Imm 0x1dc52000], Count,
    Syscall NR_pwrite64 [Reg 0, Write_buf, Imm 0x400, Imm 0x1dc53c00], Count,
    Syscall NR_pwrite64 [Reg 0, Write_buf, Imm 0x2000, Imm 0x1dc54000], Count,
    Syscall NR_pwrite64 [Reg 0, Write_buf, Imm 0x2000, Imm 0x1dc56000], Count,
    Syscall NR_pwrite64 [Reg 0, Write_buf, Imm 0x2000, Imm 0x1dc58000], Count,
    Syscall NR_pwrite64 [Reg 0, Write_buf, Imm 0x1a00, Imm 0x1dc58600], Count,
    Syscall NR_pwrite64 [Reg 0, Write_buf, Imm 0x2000, Imm 0x1dc5a000], Count,
    Syscall NR_pwrite64 [Reg 0, Write_buf, Imm 0x2000, Imm 0x1dc5c000], Count,
    Syscall NR_pwrite64 [Reg 0, Write_buf, Imm 0x1000, Imm 0x1dc5d000], Count]"

definition min_mysql_pwrite64_openat_0_0_body37 :: "stmt list" where
  "min_mysql_pwrite64_openat_0_0_body37 = [
    Syscall NR_pwrite64 [Reg 0, Write_buf, Imm 0x2000, Imm 0x1dc5e000], Count,
    Syscall NR_pwrite64 [Reg 0, Write_buf, Imm 0x2000, Imm 0x1dc60000], Count,
    Syscall NR_pwrite64 [Reg 0, Write_buf, Imm 0x600, Imm 0x1dc61a00], Count,
    Syscall NR_pwrite64 [Reg 0, Write_buf, Imm 0x2000, Imm 0x1dc62000], Count,
    Syscall NR_pwrite64 [Reg 0, Write_buf, Imm 0x2000, Imm 0x1dc64000], Count,
    Syscall NR_pwrite64 [Reg 0, Write_buf, Imm 0x2000, Imm 0x1dc66000], Count,
    Syscall NR_pwrite64 [Reg 0, Write_buf, Imm 0x1000, Imm 0x1dc66400], Count,
    Syscall NR_pwrite64 [Reg 0, Write_buf, Imm 0x200, Imm 0x1dc67400], Count,
    Syscall NR_pwrite64 [Reg 0, Write_buf, Imm 0x200, Imm 0x1dc67400], Count,
    Syscall NR_pwrite64 [Reg 0, Write_buf, Imm 0x200, Imm 0x1dc67400], Count,
    Syscall NR_pwrite64 [Reg 0, Write_buf, Imm 0x200, Imm 0x1dc67400], Count,
    Syscall NR_pwrite64 [Reg 0, Write_buf, Imm 0x800, Imm 0x1dc67400], Count,
    Syscall NR_pwrite64 [Reg 0, Write_buf, Imm 0x200, Imm 0x1dc67c00], Count]"

definition min_mysql_pwrite64_openat_0_0_body38 :: "stmt list" where
  "min_mysql_pwrite64_openat_0_0_body38 = [
    Syscall NR_pwrite64 [Reg 0, Write_buf, Imm 0x200, Imm 0x1dc67c00], Count,
    Syscall NR_pwrite64 [Reg 0, Write_buf, Imm 0x200, Imm 0x1dc67c00], Count,
    Syscall NR_pwrite64 [Reg 0, Write_buf, Imm 0x200, Imm 0x1dc67c00], Count,
    Syscall NR_pwrite64 [Reg 0, Write_buf, Imm 0x200, Imm 0x1dc67c00], Count,
    Syscall NR_pwrite64 [Reg 0, Write_buf, Imm 0x200, Imm 0x1dc67e00], Count,
    Syscall NR_pwrite64 [Reg 0, Write_buf, Imm 0x200, Imm 0x1dc67e00], Count,
    Syscall NR_pwrite64 [Reg 0, Write_buf, Imm 0x200, Imm 0x1dc67e00], Count,
    Syscall NR_pwrite64 [Reg 0, Write_buf, Imm 0x2000, Imm 0x1dc68000], Count,
    Syscall NR_pwrite64 [Reg 0, Write_buf, Imm 0x1800, Imm 0x1dc68800], Count,
    Syscall NR_pwrite64 [Reg 0, Write_buf, Imm 0x2000, Imm 0x1dc6a000], Count,
    Syscall NR_pwrite64 [Reg 0, Write_buf, Imm 0x600, Imm 0x1dc6aa00], Count,
    Syscall NR_pwrite64 [Reg 0, Write_buf, Imm 0x200, Imm 0x1dc6b000], Count,
    Syscall NR_pwrite64 [Reg 0, Write_buf, Imm 0x1000, Imm 0x1dc6b000], Count]"

definition min_mysql_pwrite64_openat_0_0_body39 :: "stmt list" where
  "min_mysql_pwrite64_openat_0_0_body39 = [
    Syscall NR_pwrite64 [Reg 0, Write_buf, Imm 0x2000, Imm 0x1dc6c000], Count,
    Syscall NR_pwrite64 [Reg 0, Write_buf, Imm 0x400, Imm 0x1dc6ca00], Count,
    Syscall NR_pwrite64 [Reg 0, Write_buf, Imm 0x200, Imm 0x1dc6ce00], Count,
    Syscall NR_pwrite64 [Reg 0, Write_buf, Imm 0x200, Imm 0x1dc6d000], Count,
    Syscall NR_pwrite64 [Reg 0, Write_buf, Imm 0x200, Imm 0x1dc6d000], Count,
    Syscall NR_pwrite64 [Reg 0, Write_buf, Imm 0x200, Imm 0x1dc6d200], Count,
    Syscall NR_pwrite64 [Reg 0, Write_buf, Imm 0x200, Imm 0x1dc6d200], Count,
    Syscall NR_pwrite64 [Reg 0, Write_buf, Imm 0xe00, Imm 0x1dc6d200], Count,
    Syscall NR_pwrite64 [Reg 0, Write_buf, Imm 0x2000, Imm 0x1dc6e000], Count,
    Syscall NR_pwrite64 [Reg 0, Write_buf, Imm 0x800, Imm 0x1dc6e000], Count,
    Syscall NR_pwrite64 [Reg 0, Write_buf, Imm 0x200, Imm 0x1dc6e800], Count,
    Syscall NR_pwrite64 [Reg 0, Write_buf, Imm 0x600, Imm 0x1dc6e800], Count,
    Syscall NR_pwrite64 [Reg 0, Write_buf, Imm 0x200, Imm 0x1dc6ee00], Count]"

definition min_mysql_pwrite64_openat_0_0_body40 :: "stmt list" where
  "min_mysql_pwrite64_openat_0_0_body40 = [
    Syscall NR_pwrite64 [Reg 0, Write_buf, Imm 0x600, Imm 0x1dc6ee00], Count,
    Syscall NR_pwrite64 [Reg 0, Write_buf, Imm 0x200, Imm 0x1dc6f400], Count,
    Syscall NR_pwrite64 [Reg 0, Write_buf, Imm 0x200, Imm 0x1dc6f400], Count,
    Syscall NR_pwrite64 [Reg 0, Write_buf, Imm 0xc00, Imm 0x1dc6f400], Count,
    Syscall NR_pwrite64 [Reg 0, Write_buf, Imm 0x2000, Imm 0x1dc70000], Count,
    Syscall NR_pwrite64 [Reg 0, Write_buf, Imm 0x1800, Imm 0x1dc70800], Count,
    Syscall NR_pwrite64 [Reg 0, Write_buf, Imm 0x2000, Imm 0x1dc72000], Count,
    Syscall NR_pwrite64 [Reg 0, Write_buf, Imm 0x2000, Imm 0x1dc74000], Count,
    Syscall NR_pwrite64 [Reg 0, Write_buf, Imm 0x200, Imm 0x1dc75a00], Count,
    Syscall NR_pwrite64 [Reg 0, Write_buf, Imm 0x200, Imm 0x1dc75a00], Count,
    Syscall NR_pwrite64 [Reg 0, Write_buf, Imm 0x600, Imm 0x1dc75a00], Count,
    Syscall NR_pwrite64 [Reg 0, Write_buf, Imm 0x2000, Imm 0x1dc76000], Count,
    Syscall NR_pwrite64 [Reg 0, Write_buf, Imm 0x2000, Imm 0x1dc78000], Count]"

definition min_mysql_pwrite64_openat_0_0_body41 :: "stmt list" where
  "min_mysql_pwrite64_openat_0_0_body41 = [
    Syscall NR_pwrite64 [Reg 0, Write_buf, Imm 0x2000, Imm 0x1dc7a000], Count,
    Syscall NR_pwrite64 [Reg 0, Write_buf, Imm 0xe00, Imm 0x1dc7b200], Count,
    Syscall NR_pwrite64 [Reg 0, Write_buf, Imm 0x2000, Imm 0x1dc7c000], Count,
    Syscall NR_pwrite64 [Reg 0, Write_buf, Imm 0x800, Imm 0x1dc7d800], Count,
    Syscall NR_pwrite64 [Reg 0, Write_buf, Imm 0x2000, Imm 0x1dc7e000], Count,
    Syscall NR_pwrite64 [Reg 0, Write_buf, Imm 0x2000, Imm 0x1dc7e000], Count,
    Syscall NR_pwrite64 [Reg 0, Write_buf, Imm 0x2000, Imm 0x1dc80000], Count,
    Syscall NR_pwrite64 [Reg 0, Write_buf, Imm 0x2000, Imm 0x1dc82000], Count,
    Syscall NR_pwrite64 [Reg 0, Write_buf, Imm 0x1600, Imm 0x1dc82a00], Count,
    Syscall NR_pwrite64 [Reg 0, Write_buf, Imm 0x2000, Imm 0x1dc84000], Count,
    Syscall NR_pwrite64 [Reg 0, Write_buf, Imm 0x2000, Imm 0x1dc86000], Count,
    Syscall NR_pwrite64 [Reg 0, Write_buf, Imm 0x200, Imm 0x1dc87400], Count,
    Syscall NR_pwrite64 [Reg 0, Write_buf, Imm 0xc00, Imm 0x1dc87400], Count]"

definition min_mysql_pwrite64_openat_0_0_body42 :: "stmt list" where
  "min_mysql_pwrite64_openat_0_0_body42 = [
    Syscall NR_pwrite64 [Reg 0, Write_buf, Imm 0x2000, Imm 0x1dc88000], Count,
    Syscall NR_pwrite64 [Reg 0, Write_buf, Imm 0x2000, Imm 0x1dc8a000], Count,
    Syscall NR_pwrite64 [Reg 0, Write_buf, Imm 0x200, Imm 0x1dc8be00], Count,
    Syscall NR_pwrite64 [Reg 0, Write_buf, Imm 0x2000, Imm 0x1dc8c000], Count,
    Syscall NR_pwrite64 [Reg 0, Write_buf, Imm 0x2000, Imm 0x1dc8e000], Count,
    Syscall NR_pwrite64 [Reg 0, Write_buf, Imm 0x2000, Imm 0x1dc90000], Count,
    Syscall NR_pwrite64 [Reg 0, Write_buf, Imm 0x1800, Imm 0x1dc90800], Count,
    Syscall NR_pwrite64 [Reg 0, Write_buf, Imm 0x2000, Imm 0x1dc92000], Count,
    Syscall NR_pwrite64 [Reg 0, Write_buf, Imm 0x2000, Imm 0x1dc94000], Count,
    Syscall NR_pwrite64 [Reg 0, Write_buf, Imm 0xe00, Imm 0x1dc95200], Count,
    Syscall NR_pwrite64 [Reg 0, Write_buf, Imm 0x2000, Imm 0x1dc96000], Count,
    Syscall NR_pwrite64 [Reg 0, Write_buf, Imm 0x2000, Imm 0x1dc98000], Count,
    Syscall NR_pwrite64 [Reg 0, Write_buf, Imm 0x400, Imm 0x1dc99c00], Count]"

definition min_mysql_pwrite64_openat_0_0_body43 :: "stmt list" where
  "min_mysql_pwrite64_openat_0_0_body43 = [
    Syscall NR_pwrite64 [Reg 0, Write_buf, Imm 0x2000, Imm 0x1dc9a000], Count,
    Syscall NR_pwrite64 [Reg 0, Write_buf, Imm 0x2000, Imm 0x1dc9c000], Count,
    Syscall NR_pwrite64 [Reg 0, Write_buf, Imm 0x2000, Imm 0x1dc9e000], Count,
    Syscall NR_pwrite64 [Reg 0, Write_buf, Imm 0x1a00, Imm 0x1dc9e600], Count,
    Syscall NR_pwrite64 [Reg 0, Write_buf, Imm 0x2000, Imm 0x1dca0000], Count,
    Syscall NR_pwrite64 [Reg 0, Write_buf, Imm 0x2000, Imm 0x1dca2000], Count,
    Syscall NR_pwrite64 [Reg 0, Write_buf, Imm 0x1000, Imm 0x1dca3000], Count,
    Syscall NR_pwrite64 [Reg 0, Write_buf, Imm 0x2000, Imm 0x1dca4000], Count,
    Syscall NR_pwrite64 [Reg 0, Write_buf, Imm 0x2000, Imm 0x1dca6000], Count,
    Syscall NR_pwrite64 [Reg 0, Write_buf, Imm 0x600, Imm 0x1dca7a00], Count,
    Syscall NR_pwrite64 [Reg 0, Write_buf, Imm 0x2000, Imm 0x1dca8000], Count,
    Syscall NR_pwrite64 [Reg 0, Write_buf, Imm 0x2000, Imm 0x1dcaa000], Count,
    Syscall NR_pwrite64 [Reg 0, Write_buf, Imm 0x2000, Imm 0x1dcac000], Count]"

definition min_mysql_pwrite64_openat_0_0_body44 :: "stmt list" where
  "min_mysql_pwrite64_openat_0_0_body44 = [
    Syscall NR_pwrite64 [Reg 0, Write_buf, Imm 0x1c00, Imm 0x1dcac400], Count,
    Syscall NR_pwrite64 [Reg 0, Write_buf, Imm 0x2000, Imm 0x1dcae000], Count,
    Syscall NR_pwrite64 [Reg 0, Write_buf, Imm 0x2000, Imm 0x1dcb0000], Count,
    Syscall NR_pwrite64 [Reg 0, Write_buf, Imm 0x1200, Imm 0x1dcb0e00], Count,
    Syscall NR_pwrite64 [Reg 0, Write_buf, Imm 0x2000, Imm 0x1dcb2000], Count,
    Syscall NR_pwrite64 [Reg 0, Write_buf, Imm 0x2000, Imm 0x1dcb4000], Count,
    Syscall NR_pwrite64 [Reg 0, Write_buf, Imm 0xa00, Imm 0x1dcb5600], Count,
    Syscall NR_pwrite64 [Reg 0, Write_buf, Imm 0x2000, Imm 0x1dcb6000], Count,
    Syscall NR_pwrite64 [Reg 0, Write_buf, Imm 0x200, Imm 0x1dcb6600], Count,
    Syscall NR_pwrite64 [Reg 0, Write_buf, Imm 0x200, Imm 0x1dcb6600], Count,
    Syscall NR_pwrite64 [Reg 0, Write_buf, Imm 0x200, Imm 0x1dcb6600], Count,
    Syscall NR_pwrite64 [Reg 0, Write_buf, Imm 0x800, Imm 0x1dcb6600], Count,
    Syscall NR_pwrite64 [Reg 0, Write_buf, Imm 0x200, Imm 0x1dcb6e00], Count]"

definition min_mysql_pwrite64_openat_0_0_body45 :: "stmt list" where
  "min_mysql_pwrite64_openat_0_0_body45 = [
    Syscall NR_pwrite64 [Reg 0, Write_buf, Imm 0x200, Imm 0x1dcb6e00], Count,
    Syscall NR_pwrite64 [Reg 0, Write_buf, Imm 0x200, Imm 0x1dcb6e00], Count,
    Syscall NR_pwrite64 [Reg 0, Write_buf, Imm 0x200, Imm 0x1dcb7000], Count,
    Syscall NR_pwrite64 [Reg 0, Write_buf, Imm 0x200, Imm 0x1dcb7000], Count,
    Syscall NR_pwrite64 [Reg 0, Write_buf, Imm 0x200, Imm 0x1dcb7000], Count,
    Syscall NR_pwrite64 [Reg 0, Write_buf, Imm 0x200, Imm 0x1dcb7000], Count,
    Syscall NR_pwrite64 [Reg 0, Write_buf, Imm 0xa00, Imm 0x1dcb7000], Count,
    Syscall NR_pwrite64 [Reg 0, Write_buf, Imm 0x200, Imm 0x1dcb7a00], Count,
    Syscall NR_pwrite64 [Reg 0, Write_buf, Imm 0x200, Imm 0x1dcb7a00], Count,
    Syscall NR_pwrite64 [Reg 0, Write_buf, Imm 0x600, Imm 0x1dcb7a00], Count,
    Syscall NR_pwrite64 [Reg 0, Write_buf, Imm 0x2000, Imm 0x1dcb8000], Count,
    Syscall NR_pwrite64 [Reg 0, Write_buf, Imm 0x2000, Imm 0x1dcba000], Count,
    Syscall NR_pwrite64 [Reg 0, Write_buf, Imm 0x1800, Imm 0x1dcba400], Count]"

definition min_mysql_pwrite64_openat_0_0_body46 :: "stmt list" where
  "min_mysql_pwrite64_openat_0_0_body46 = [
    Syscall NR_pwrite64 [Reg 0, Write_buf, Imm 0x200, Imm 0x1dcbbc00], Count,
    Syscall NR_pwrite64 [Reg 0, Write_buf, Imm 0x200, Imm 0x1dcbbc00], Count,
    Syscall NR_pwrite64 [Reg 0, Write_buf, Imm 0x200, Imm 0x1dcbbe00], Count,
    Syscall NR_pwrite64 [Reg 0, Write_buf, Imm 0x2000, Imm 0x1dcbc000], Count,
    Syscall NR_pwrite64 [Reg 0, Write_buf, Imm 0x400, Imm 0x1dcbc600], Count,
    Syscall NR_pwrite64 [Reg 0, Write_buf, Imm 0x200, Imm 0x1dcbca00], Count,
    Syscall NR_pwrite64 [Reg 0, Write_buf, Imm 0xc00, Imm 0x1dcbca00], Count,
    Syscall NR_pwrite64 [Reg 0, Write_buf, Imm 0x200, Imm 0x1dcbd600], Count,
    Syscall NR_pwrite64 [Reg 0, Write_buf, Imm 0x200, Imm 0x1dcbd600], Count,
    Syscall NR_pwrite64 [Reg 0, Write_buf, Imm 0x800, Imm 0x1dcbd600], Count,
    Syscall NR_pwrite64 [Reg 0, Write_buf, Imm 0x200, Imm 0x1dcbde00], Count,
    Syscall NR_pwrite64 [Reg 0, Write_buf, Imm 0x200, Imm 0x1dcbde00], Count,
    Syscall NR_pwrite64 [Reg 0, Write_buf, Imm 0x2000, Imm 0x1dcbe000], Count]"

definition min_mysql_pwrite64_openat_0_0_body47 :: "stmt list" where
  "min_mysql_pwrite64_openat_0_0_body47 = [
    Syscall NR_pwrite64 [Reg 0, Write_buf, Imm 0x200, Imm 0x1dcbe600], Count,
    Syscall NR_pwrite64 [Reg 0, Write_buf, Imm 0x200, Imm 0x1dcbe800], Count,
    Syscall NR_pwrite64 [Reg 0, Write_buf, Imm 0x1600, Imm 0x1dcbe800], Count,
    Syscall NR_pwrite64 [Reg 0, Write_buf, Imm 0x200, Imm 0x1dcbfe00], Count,
    Syscall NR_pwrite64 [Reg 0, Write_buf, Imm 0x200, Imm 0x1dcbfe00], Count,
    Syscall NR_pwrite64 [Reg 0, Write_buf, Imm 0x2000, Imm 0x1dcc0000], Count,
    Syscall NR_pwrite64 [Reg 0, Write_buf, Imm 0x2000, Imm 0x1dcc2000], Count,
    Syscall NR_pwrite64 [Reg 0, Write_buf, Imm 0x2000, Imm 0x1dcc4000], Count,
    Syscall NR_pwrite64 [Reg 0, Write_buf, Imm 0x200, Imm 0x1dcc4800], Count,
    Syscall NR_pwrite64 [Reg 0, Write_buf, Imm 0x200, Imm 0x1dcc4800], Count,
    Syscall NR_pwrite64 [Reg 0, Write_buf, Imm 0x1800, Imm 0x1dcc4800], Count,
    Syscall NR_pwrite64 [Reg 0, Write_buf, Imm 0x2000, Imm 0x1dcc6000], Count,
    Syscall NR_pwrite64 [Reg 0, Write_buf, Imm 0x2000, Imm 0x1dcc8000], Count]"

definition min_mysql_pwrite64_openat_0_0_body48 :: "stmt list" where
  "min_mysql_pwrite64_openat_0_0_body48 = [
    Syscall NR_pwrite64 [Reg 0, Write_buf, Imm 0x2000, Imm 0x1dcca000], Count,
    Syscall NR_pwrite64 [Reg 0, Write_buf, Imm 0x2000, Imm 0x1dccc000], Count,
    Syscall NR_pwrite64 [Reg 0, Write_buf, Imm 0x1a00, Imm 0x1dccc600], Count,
    Syscall NR_pwrite64 [Reg 0, Write_buf, Imm 0x2000, Imm 0x1dcce000], Count,
    Syscall NR_pwrite64 [Reg 0, Write_buf, Imm 0x2000, Imm 0x1dcd0000], Count,
    Syscall NR_pwrite64 [Reg 0, Write_buf, Imm 0x1000, Imm 0x1dcd1000], Count,
    Syscall NR_pwrite64 [Reg 0, Write_buf, Imm 0x2000, Imm 0x1dcd2000], Count,
    Syscall NR_pwrite64 [Reg 0, Write_buf, Imm 0x2000, Imm 0x1dcd4000], Count,
    Syscall NR_pwrite64 [Reg 0, Write_buf, Imm 0x600, Imm 0x1dcd5a00], Count,
    Syscall NR_pwrite64 [Reg 0, Write_buf, Imm 0x2000, Imm 0x1dcd6000], Count,
    Syscall NR_pwrite64 [Reg 0, Write_buf, Imm 0x2000, Imm 0x1dcd8000], Count,
    Syscall NR_pwrite64 [Reg 0, Write_buf, Imm 0x2000, Imm 0x1dcda000], Count,
    Syscall NR_pwrite64 [Reg 0, Write_buf, Imm 0x200, Imm 0x1dcda400], Count]"

definition min_mysql_pwrite64_openat_0_0_body49 :: "stmt list" where
  "min_mysql_pwrite64_openat_0_0_body49 = [
    Syscall NR_pwrite64 [Reg 0, Write_buf, Imm 0x1c00, Imm 0x1dcda400], Count,
    Syscall NR_pwrite64 [Reg 0, Write_buf, Imm 0x2000, Imm 0x1dcdc000], Count,
    Syscall NR_pwrite64 [Reg 0, Write_buf, Imm 0x2000, Imm 0x1dcde000], Count,
    Syscall NR_pwrite64 [Reg 0, Write_buf, Imm 0x1200, Imm 0x1dcdee00], Count,
    Syscall NR_pwrite64 [Reg 0, Write_buf, Imm 0x2000, Imm 0x1dce0000], Count,
    Syscall NR_pwrite64 [Reg 0, Write_buf, Imm 0x2000, Imm 0x1dce2000], Count,
    Syscall NR_pwrite64 [Reg 0, Write_buf, Imm 0x800, Imm 0x1dce3800], Count,
    Syscall NR_pwrite64 [Reg 0, Write_buf, Imm 0x2000, Imm 0x1dce4000], Count,
    Syscall NR_pwrite64 [Reg 0, Write_buf, Imm 0x2000, Imm 0x1dce6000], Count,
    Syscall NR_pwrite64 [Reg 0, Write_buf, Imm 0x2000, Imm 0x1dce8000], Count,
    Syscall NR_pwrite64 [Reg 0, Write_buf, Imm 0x1400, Imm 0x1dce8200], Count,
    Syscall NR_pwrite64 [Reg 0, Write_buf, Imm 0xa00, Imm 0x1dce9600], Count,
    Syscall NR_pwrite64 [Reg 0, Write_buf, Imm 0x2000, Imm 0x1dcea000], Count]"

definition min_mysql_pwrite64_openat_0_0_body50 :: "stmt list" where
  "min_mysql_pwrite64_openat_0_0_body50 = [
    Syscall NR_pwrite64 [Reg 0, Write_buf, Imm 0x2000, Imm 0x1dcec000], Count,
    Syscall NR_pwrite64 [Reg 0, Write_buf, Imm 0x200, Imm 0x1dceca00], Count,
    Syscall NR_pwrite64 [Reg 0, Write_buf, Imm 0x200, Imm 0x1dcecc00], Count,
    Syscall NR_pwrite64 [Reg 0, Write_buf, Imm 0x1400, Imm 0x1dcecc00], Count,
    Syscall NR_pwrite64 [Reg 0, Write_buf, Imm 0x2000, Imm 0x1dcee000], Count,
    Syscall NR_pwrite64 [Reg 0, Write_buf, Imm 0x2000, Imm 0x1dcf0000], Count,
    Syscall NR_pwrite64 [Reg 0, Write_buf, Imm 0xc00, Imm 0x1dcf1400], Count,
    Syscall NR_pwrite64 [Reg 0, Write_buf, Imm 0x2000, Imm 0x1dcf2000], Count,
    Syscall NR_pwrite64 [Reg 0, Write_buf, Imm 0x2000, Imm 0x1dcf4000], Count,
    Syscall NR_pwrite64 [Reg 0, Write_buf, Imm 0x200, Imm 0x1dcf5e00], Count,
    Syscall NR_pwrite64 [Reg 0, Write_buf, Imm 0x2000, Imm 0x1dcf6000], Count,
    Syscall NR_pwrite64 [Reg 0, Write_buf, Imm 0x2000, Imm 0x1dcf8000], Count,
    Syscall NR_pwrite64 [Reg 0, Write_buf, Imm 0x2000, Imm 0x1dcfa000], Count]"

definition min_mysql_pwrite64_openat_0_0_body51 :: "stmt list" where
  "min_mysql_pwrite64_openat_0_0_body51 = [
    Syscall NR_pwrite64 [Reg 0, Write_buf, Imm 0x1800, Imm 0x1dcfa800], Count,
    Syscall NR_pwrite64 [Reg 0, Write_buf, Imm 0x2000, Imm 0x1dcfc000], Count,
    Syscall NR_pwrite64 [Reg 0, Write_buf, Imm 0x2000, Imm 0x1dcfe000], Count,
    Syscall NR_pwrite64 [Reg 0, Write_buf, Imm 0xe00, Imm 0x1dcff200], Count,
    Syscall NR_pwrite64 [Reg 0, Write_buf, Imm 0x2000, Imm 0x1dd00000], Count,
    Syscall NR_pwrite64 [Reg 0, Write_buf, Imm 0x2000, Imm 0x1dd02000], Count,
    Syscall NR_pwrite64 [Reg 0, Write_buf, Imm 0x400, Imm 0x1dd03c00], Count,
    Syscall NR_pwrite64 [Reg 0, Write_buf, Imm 0x2000, Imm 0x1dd04000], Count,
    Syscall NR_pwrite64 [Reg 0, Write_buf, Imm 0x200, Imm 0x1dd04c00], Count,
    Syscall NR_pwrite64 [Reg 0, Write_buf, Imm 0x200, Imm 0x1dd04c00], Count,
    Syscall NR_pwrite64 [Reg 0, Write_buf, Imm 0x600, Imm 0x1dd04c00], Count,
    Syscall NR_pwrite64 [Reg 0, Write_buf, Imm 0x200, Imm 0x1dd05200], Count,
    Syscall NR_pwrite64 [Reg 0, Write_buf, Imm 0x200, Imm 0x1dd05200], Count]"

definition min_mysql_pwrite64_openat_0_0_body52 :: "stmt list" where
  "min_mysql_pwrite64_openat_0_0_body52 = [
    Syscall NR_pwrite64 [Reg 0, Write_buf, Imm 0x200, Imm 0x1dd05200], Count,
    Syscall NR_pwrite64 [Reg 0, Write_buf, Imm 0x200, Imm 0x1dd05200], Count,
    Syscall NR_pwrite64 [Reg 0, Write_buf, Imm 0x200, Imm 0x1dd05200], Count,
    Syscall NR_pwrite64 [Reg 0, Write_buf, Imm 0x200, Imm 0x1dd05200], Count,
    Syscall NR_pwrite64 [Reg 0, Write_buf, Imm 0x200, Imm 0x1dd05400], Count,
    Syscall NR_pwrite64 [Reg 0, Write_buf, Imm 0x200, Imm 0x1dd05400], Count,
    Syscall NR_pwrite64 [Reg 0, Write_buf, Imm 0x800, Imm 0x1dd05400], Count,
    Syscall NR_pwrite64 [Reg 0, Write_buf, Imm 0x200, Imm 0x1dd05c00], Count,
    Syscall NR_pwrite64 [Reg 0, Write_buf, Imm 0x400, Imm 0x1dd05c00], Count,
    Syscall NR_pwrite64 [Reg 0, Write_buf, Imm 0x2000, Imm 0x1dd06000], Count,
    Syscall NR_pwrite64 [Reg 0, Write_buf, Imm 0x2000, Imm 0x1dd08000], Count,
    Syscall NR_pwrite64 [Reg 0, Write_buf, Imm 0x1800, Imm 0x1dd08200], Count,
    Syscall NR_pwrite64 [Reg 0, Write_buf, Imm 0x200, Imm 0x1dd09a00], Count]"

definition min_mysql_pwrite64_openat_0_0_body53 :: "stmt list" where
  "min_mysql_pwrite64_openat_0_0_body53 = [
    Syscall NR_pwrite64 [Reg 0, Write_buf, Imm 0x200, Imm 0x1dd09a00], Count,
    Syscall NR_pwrite64 [Reg 0, Write_buf, Imm 0x400, Imm 0x1dd09a00], Count,
    Syscall NR_pwrite64 [Reg 0, Write_buf, Imm 0x200, Imm 0x1dd09e00], Count,
    Syscall NR_pwrite64 [Reg 0, Write_buf, Imm 0x200, Imm 0x1dd09e00], Count,
    Syscall NR_pwrite64 [Reg 0, Write_buf, Imm 0x2000, Imm 0x1dd0a000], Count,
    Syscall NR_pwrite64 [Reg 0, Write_buf, Imm 0x200, Imm 0x1dd0a200], Count,
    Syscall NR_pwrite64 [Reg 0, Write_buf, Imm 0xe00, Imm 0x1dd0a200], Count,
    Syscall NR_pwrite64 [Reg 0, Write_buf, Imm 0x200, Imm 0x1dd0b000], Count,
    Syscall NR_pwrite64 [Reg 0, Write_buf, Imm 0x200, Imm 0x1dd0b000], Count,
    Syscall NR_pwrite64 [Reg 0, Write_buf, Imm 0x800, Imm 0x1dd0b000], Count,
    Syscall NR_pwrite64 [Reg 0, Write_buf, Imm 0x200, Imm 0x1dd0b800], Count,
    Syscall NR_pwrite64 [Reg 0, Write_buf, Imm 0x600, Imm 0x1dd0b800], Count,
    Syscall NR_pwrite64 [Reg 0, Write_buf, Imm 0x200, Imm 0x1dd0be00], Count]"

definition min_mysql_pwrite64_openat_0_0_body54 :: "stmt list" where
  "min_mysql_pwrite64_openat_0_0_body54 = [
    Syscall NR_pwrite64 [Reg 0, Write_buf, Imm 0x200, Imm 0x1dd0be00], Count,
    Syscall NR_pwrite64 [Reg 0, Write_buf, Imm 0x2000, Imm 0x1dd0c000], Count,
    Syscall NR_pwrite64 [Reg 0, Write_buf, Imm 0x1800, Imm 0x1dd0c400], Count,
    Syscall NR_pwrite64 [Reg 0, Write_buf, Imm 0x200, Imm 0x1dd0dc00], Count,
    Syscall NR_pwrite64 [Reg 0, Write_buf, Imm 0x400, Imm 0x1dd0dc00], Count,
    Syscall NR_pwrite64 [Reg 0, Write_buf, Imm 0x2000, Imm 0x1dd0e000], Count,
    Syscall NR_pwrite64 [Reg 0, Write_buf, Imm 0x2000, Imm 0x1dd10000], Count,
    Syscall NR_pwrite64 [Reg 0, Write_buf, Imm 0x2000, Imm 0x1dd12000], Count,
    Syscall NR_pwrite64 [Reg 0, Write_buf, Imm 0x200, Imm 0x1dd12a00], Count,
    Syscall NR_pwrite64 [Reg 0, Write_buf, Imm 0x1600, Imm 0x1dd12a00], Count,
    Syscall NR_pwrite64 [Reg 0, Write_buf, Imm 0x2000, Imm 0x1dd14000], Count,
    Syscall NR_pwrite64 [Reg 0, Write_buf, Imm 0x2000, Imm 0x1dd16000], Count,
    Syscall NR_pwrite64 [Reg 0, Write_buf, Imm 0x2000, Imm 0x1dd18000], Count]"

definition min_mysql_pwrite64_openat_0_0_body55 :: "stmt list" where
  "min_mysql_pwrite64_openat_0_0_body55 = [
    Syscall NR_pwrite64 [Reg 0, Write_buf, Imm 0x2000, Imm 0x1dd1a000], Count,
    Syscall NR_pwrite64 [Reg 0, Write_buf, Imm 0xc00, Imm 0x1dd1a800], Count,
    Syscall NR_pwrite64 [Reg 0, Write_buf, Imm 0x200, Imm 0x1dd1b400], Count,
    Syscall NR_pwrite64 [Reg 0, Write_buf, Imm 0x200, Imm 0x1dd1b400], Count,
    Syscall NR_pwrite64 [Reg 0, Write_buf, Imm 0xa00, Imm 0x1dd1b400], Count,
    Syscall NR_pwrite64 [Reg 0, Write_buf, Imm 0x200, Imm 0x1dd1be00], Count,
    Syscall NR_pwrite64 [Reg 0, Write_buf, Imm 0x2000, Imm 0x1dd1c000], Count,
    Syscall NR_pwrite64 [Reg 0, Write_buf, Imm 0x2000, Imm 0x1dd1e000], Count,
    Syscall NR_pwrite64 [Reg 0, Write_buf, Imm 0x200, Imm 0x1dd1fe00], Count,
    Syscall NR_pwrite64 [Reg 0, Write_buf, Imm 0x200, Imm 0x1dd1fe00], Count,
    Syscall NR_pwrite64 [Reg 0, Write_buf, Imm 0x2000, Imm 0x1dd20000], Count,
    Syscall NR_pwrite64 [Reg 0, Write_buf, Imm 0x2000, Imm 0x1dd22000], Count,
    Syscall NR_pwrite64 [Reg 0, Write_buf, Imm 0x2000, Imm 0x1dd24000], Count]"

definition min_mysql_pwrite64_openat_0_0_body56 :: "stmt list" where
  "min_mysql_pwrite64_openat_0_0_body56 = [
    Syscall NR_pwrite64 [Reg 0, Write_buf, Imm 0x1800, Imm 0x1dd24800], Count,
    Syscall NR_pwrite64 [Reg 0, Write_buf, Imm 0x2000, Imm 0x1dd26000], Count,
    Syscall NR_pwrite64 [Reg 0, Write_buf, Imm 0x2000, Imm 0x1dd28000], Count,
    Syscall NR_pwrite64 [Reg 0, Write_buf, Imm 0xe00, Imm 0x1dd29200], Count,
    Syscall NR_pwrite64 [Reg 0, Write_buf, Imm 0x2000, Imm 0x1dd2a000], Count,
    Syscall NR_pwrite64 [Reg 0, Write_buf, Imm 0x2000, Imm 0x1dd2c000], Count,
    Syscall NR_pwrite64 [Reg 0, Write_buf, Imm 0x400, Imm 0x1dd2dc00], Count,
    Syscall NR_pwrite64 [Reg 0, Write_buf, Imm 0x2000, Imm 0x1dd2e000], Count,
    Syscall NR_pwrite64 [Reg 0, Write_buf, Imm 0x2000, Imm 0x1dd30000], Count,
    Syscall NR_pwrite64 [Reg 0, Write_buf, Imm 0x2000, Imm 0x1dd32000], Count,
    Syscall NR_pwrite64 [Reg 0, Write_buf, Imm 0x1a00, Imm 0x1dd32600], Count,
    Syscall NR_pwrite64 [Reg 0, Write_buf, Imm 0x2000, Imm 0x1dd34000], Count,
    Syscall NR_pwrite64 [Reg 0, Write_buf, Imm 0x2000, Imm 0x1dd36000], Count]"

definition min_mysql_pwrite64_openat_0_0_body57 :: "stmt list" where
  "min_mysql_pwrite64_openat_0_0_body57 = [
    Syscall NR_pwrite64 [Reg 0, Write_buf, Imm 0x200, Imm 0x1dd37000], Count,
    Syscall NR_pwrite64 [Reg 0, Write_buf, Imm 0x1000, Imm 0x1dd37000], Count,
    Syscall NR_pwrite64 [Reg 0, Write_buf, Imm 0x2000, Imm 0x1dd38000], Count,
    Syscall NR_pwrite64 [Reg 0, Write_buf, Imm 0x2000, Imm 0x1dd3a000], Count,
    Syscall NR_pwrite64 [Reg 0, Write_buf, Imm 0x600, Imm 0x1dd3ba00], Count,
    Syscall NR_pwrite64 [Reg 0, Write_buf, Imm 0x2000, Imm 0x1dd3c000], Count,
    Syscall NR_pwrite64 [Reg 0, Write_buf, Imm 0x2000, Imm 0x1dd3e000], Count,
    Syscall NR_pwrite64 [Reg 0, Write_buf, Imm 0x2000, Imm 0x1dd40000], Count,
    Syscall NR_pwrite64 [Reg 0, Write_buf, Imm 0x1c00, Imm 0x1dd40400], Count,
    Syscall NR_pwrite64 [Reg 0, Write_buf, Imm 0x2000, Imm 0x1dd42000], Count,
    Syscall NR_pwrite64 [Reg 0, Write_buf, Imm 0x2000, Imm 0x1dd44000], Count,
    Syscall NR_pwrite64 [Reg 0, Write_buf, Imm 0x1200, Imm 0x1dd44e00], Count,
    Syscall NR_pwrite64 [Reg 0, Write_buf, Imm 0x2000, Imm 0x1dd46000], Count]"

definition min_mysql_pwrite64_openat_0_0_body58 :: "stmt list" where
  "min_mysql_pwrite64_openat_0_0_body58 = [
    Syscall NR_pwrite64 [Reg 0, Write_buf, Imm 0x2000, Imm 0x1dd48000], Count,
    Syscall NR_pwrite64 [Reg 0, Write_buf, Imm 0x800, Imm 0x1dd49800], Count,
    Syscall NR_pwrite64 [Reg 0, Write_buf, Imm 0x2000, Imm 0x1dd4a000], Count,
    Syscall NR_pwrite64 [Reg 0, Write_buf, Imm 0x2000, Imm 0x1dd4c000], Count,
    Syscall NR_pwrite64 [Reg 0, Write_buf, Imm 0x2000, Imm 0x1dd4e000], Count,
    Syscall NR_pwrite64 [Reg 0, Write_buf, Imm 0x1e00, Imm 0x1dd4e200], Count,
    Syscall NR_pwrite64 [Reg 0, Write_buf, Imm 0x2000, Imm 0x1dd50000], Count,
    Syscall NR_pwrite64 [Reg 0, Write_buf, Imm 0x2000, Imm 0x1dd52000], Count,
    Syscall NR_pwrite64 [Reg 0, Write_buf, Imm 0xe00, Imm 0x1dd52c00], Count,
    Syscall NR_pwrite64 [Reg 0, Write_buf, Imm 0x200, Imm 0x1dd53a00], Count,
    Syscall NR_pwrite64 [Reg 0, Write_buf, Imm 0x200, Imm 0x1dd53a00], Count,
    Syscall NR_pwrite64 [Reg 0, Write_buf, Imm 0x200, Imm 0x1dd53a00], Count,
    Syscall NR_pwrite64 [Reg 0, Write_buf, Imm 0x200, Imm 0x1dd53c00], Count]"

definition min_mysql_pwrite64_openat_0_0_body59 :: "stmt list" where
  "min_mysql_pwrite64_openat_0_0_body59 = [
    Syscall NR_pwrite64 [Reg 0, Write_buf, Imm 0x400, Imm 0x1dd53c00], Count,
    Syscall NR_pwrite64 [Reg 0, Write_buf, Imm 0x2000, Imm 0x1dd54000], Count,
    Syscall NR_pwrite64 [Reg 0, Write_buf, Imm 0x200, Imm 0x1dd54200], Count,
    Syscall NR_pwrite64 [Reg 0, Write_buf, Imm 0x200, Imm 0x1dd54400], Count,
    Syscall NR_pwrite64 [Reg 0, Write_buf, Imm 0x200, Imm 0x1dd54400], Count,
    Syscall NR_pwrite64 [Reg 0, Write_buf, Imm 0x200, Imm 0x1dd54400], Count,
    Syscall NR_pwrite64 [Reg 0, Write_buf, Imm 0x200, Imm 0x1dd54400], Count,
    Syscall NR_pwrite64 [Reg 0, Write_buf, Imm 0x200, Imm 0x1dd54400], Count,
    Syscall NR_pwrite64 [Reg 0, Write_buf, Imm 0x200, Imm 0x1dd54600], Count,
    Syscall NR_pwrite64 [Reg 0, Write_buf, Imm 0x800, Imm 0x1dd54600], Count,
    Syscall NR_pwrite64 [Reg 0, Write_buf, Imm 0x200, Imm 0x1dd54e00], Count,
    Syscall NR_pwrite64 [Reg 0, Write_buf, Imm 0x200, Imm 0x1dd54e00], Count,
    Syscall NR_pwrite64 [Reg 0, Write_buf, Imm 0xc00, Imm 0x1dd54e00], Count]"

definition min_mysql_pwrite64_openat_0_0_body60 :: "stmt list" where
  "min_mysql_pwrite64_openat_0_0_body60 = [
    Syscall NR_pwrite64 [Reg 0, Write_buf, Imm 0x200, Imm 0x1dd55a00], Count,
    Syscall NR_pwrite64 [Reg 0, Write_buf, Imm 0x600, Imm 0x1dd55a00], Count,
    Syscall NR_pwrite64 [Reg 0, Write_buf, Imm 0x2000, Imm 0x1dd56000], Count,
    Syscall NR_pwrite64 [Reg 0, Write_buf, Imm 0x600, Imm 0x1dd56600], Count,
    Syscall NR_pwrite64 [Reg 0, Write_buf, Imm 0x400, Imm 0x1dd56c00], Count,
    Syscall NR_pwrite64 [Reg 0, Write_buf, Imm 0x200, Imm 0x1dd57000], Count,
    Syscall NR_pwrite64 [Reg 0, Write_buf, Imm 0x200, Imm 0x1dd57200], Count,
    Syscall NR_pwrite64 [Reg 0, Write_buf, Imm 0x600, Imm 0x1dd57200], Count,
    Syscall NR_pwrite64 [Reg 0, Write_buf, Imm 0x200, Imm 0x1dd57800], Count,
    Syscall NR_pwrite64 [Reg 0, Write_buf, Imm 0x800, Imm 0x1dd57800], Count,
    Syscall NR_pwrite64 [Reg 0, Write_buf, Imm 0x2000, Imm 0x1dd58000], Count,
    Syscall NR_pwrite64 [Reg 0, Write_buf, Imm 0x200, Imm 0x1dd59000], Count,
    Syscall NR_pwrite64 [Reg 0, Write_buf, Imm 0x200, Imm 0x1dd59200], Count]"

definition min_mysql_pwrite64_openat_0_0_body61 :: "stmt list" where
  "min_mysql_pwrite64_openat_0_0_body61 = [
    Syscall NR_pwrite64 [Reg 0, Write_buf, Imm 0xa00, Imm 0x1dd59200], Count,
    Syscall NR_pwrite64 [Reg 0, Write_buf, Imm 0x200, Imm 0x1dd59c00], Count,
    Syscall NR_pwrite64 [Reg 0, Write_buf, Imm 0x400, Imm 0x1dd59c00], Count,
    Syscall NR_pwrite64 [Reg 0, Write_buf, Imm 0x2000, Imm 0x1dd5a000], Count,
    Syscall NR_pwrite64 [Reg 0, Write_buf, Imm 0x800, Imm 0x1dd5a000], Count,
    Syscall NR_pwrite64 [Reg 0, Write_buf, Imm 0x200, Imm 0x1dd5a800], Count,
    Syscall NR_pwrite64 [Reg 0, Write_buf, Imm 0xe00, Imm 0x1dd5a800], Count,
    Syscall NR_pwrite64 [Reg 0, Write_buf, Imm 0x200, Imm 0x1dd5b600], Count,
    Syscall NR_pwrite64 [Reg 0, Write_buf, Imm 0x800, Imm 0x1dd5b600], Count,
    Syscall NR_pwrite64 [Reg 0, Write_buf, Imm 0x200, Imm 0x1dd5be00], Count,
    Syscall NR_pwrite64 [Reg 0, Write_buf, Imm 0x200, Imm 0x1dd5be00], Count,
    Syscall NR_pwrite64 [Reg 0, Write_buf, Imm 0x200, Imm 0x1dd5be00], Count,
    Syscall NR_pwrite64 [Reg 0, Write_buf, Imm 0x2000, Imm 0x1dd5c000], Count]"

definition min_mysql_pwrite64_openat_0_0_body62 :: "stmt list" where
  "min_mysql_pwrite64_openat_0_0_body62 = [
    Syscall NR_pwrite64 [Reg 0, Write_buf, Imm 0x600, Imm 0x1dd5c400], Count,
    Syscall NR_pwrite64 [Reg 0, Write_buf, Imm 0x200, Imm 0x1dd5ca00], Count,
    Syscall NR_pwrite64 [Reg 0, Write_buf, Imm 0x1600, Imm 0x1dd5ca00], Count,
    Syscall NR_pwrite64 [Reg 0, Write_buf, Imm 0x2000, Imm 0x1dd5e000], Count,
    Syscall NR_pwrite64 [Reg 0, Write_buf, Imm 0x1e00, Imm 0x1dd5e200], Count,
    Syscall NR_pwrite64 [Reg 0, Write_buf, Imm 0x2000, Imm 0x1dd60000], Count,
    Syscall NR_pwrite64 [Reg 0, Write_buf, Imm 0x2000, Imm 0x1dd62000], Count,
    Syscall NR_pwrite64 [Reg 0, Write_buf, Imm 0x200, Imm 0x1dd63000], Count,
    Syscall NR_pwrite64 [Reg 0, Write_buf, Imm 0x1000, Imm 0x1dd63000], Count,
    Syscall NR_pwrite64 [Reg 0, Write_buf, Imm 0x2000, Imm 0x1dd64000], Count,
    Syscall NR_pwrite64 [Reg 0, Write_buf, Imm 0x2000, Imm 0x1dd66000], Count,
    Syscall NR_pwrite64 [Reg 0, Write_buf, Imm 0x2000, Imm 0x1dd68000], Count,
    Syscall NR_pwrite64 [Reg 0, Write_buf, Imm 0x2000, Imm 0x1dd6a000], Count]"

definition min_mysql_pwrite64_openat_0_0_body63 :: "stmt list" where
  "min_mysql_pwrite64_openat_0_0_body63 = [
    Syscall NR_pwrite64 [Reg 0, Write_buf, Imm 0xa00, Imm 0x1dd6ae00], Count,
    Syscall NR_pwrite64 [Reg 0, Write_buf, Imm 0x200, Imm 0x1dd6b800], Count,
    Syscall NR_pwrite64 [Reg 0, Write_buf, Imm 0x800, Imm 0x1dd6b800], Count,
    Syscall NR_pwrite64 [Reg 0, Write_buf, Imm 0x2000, Imm 0x1dd6c000], Count,
    Syscall NR_pwrite64 [Reg 0, Write_buf, Imm 0x2000, Imm 0x1dd6e000], Count,
    Syscall NR_pwrite64 [Reg 0, Write_buf, Imm 0x2000, Imm 0x1dd70000], Count,
    Syscall NR_pwrite64 [Reg 0, Write_buf, Imm 0x200, Imm 0x1dd70200], Count,
    Syscall NR_pwrite64 [Reg 0, Write_buf, Imm 0x1e00, Imm 0x1dd70200], Count,
    Syscall NR_pwrite64 [Reg 0, Write_buf, Imm 0x2000, Imm 0x1dd72000], Count,
    Syscall NR_pwrite64 [Reg 0, Write_buf, Imm 0x2000, Imm 0x1dd74000], Count,
    Syscall NR_pwrite64 [Reg 0, Write_buf, Imm 0x1400, Imm 0x1dd74c00], Count,
    Syscall NR_pwrite64 [Reg 0, Write_buf, Imm 0x2000, Imm 0x1dd76000], Count,
    Syscall NR_pwrite64 [Reg 0, Write_buf, Imm 0x2000, Imm 0x1dd78000], Count]"

definition min_mysql_pwrite64_openat_0_0_body64 :: "stmt list" where
  "min_mysql_pwrite64_openat_0_0_body64 = [
    Syscall NR_pwrite64 [Reg 0, Write_buf, Imm 0xa00, Imm 0x1dd79600], Count,
    Syscall NR_pwrite64 [Reg 0, Write_buf, Imm 0x2000, Imm 0x1dd7a000], Count,
    Syscall NR_pwrite64 [Reg 0, Write_buf, Imm 0x2000, Imm 0x1dd7c000], Count,
    Syscall NR_pwrite64 [Reg 0, Write_buf, Imm 0x200, Imm 0x1dd7de00], Count,
    Syscall NR_pwrite64 [Reg 0, Write_buf, Imm 0x2000, Imm 0x1dd7e000], Count,
    Syscall NR_pwrite64 [Reg 0, Write_buf, Imm 0x2000, Imm 0x1dd80000], Count,
    Syscall NR_pwrite64 [Reg 0, Write_buf, Imm 0x2000, Imm 0x1dd82000], Count,
    Syscall NR_pwrite64 [Reg 0, Write_buf, Imm 0x1800, Imm 0x1dd82800], Count,
    Syscall NR_pwrite64 [Reg 0, Write_buf, Imm 0x2000, Imm 0x1dd84000], Count,
    Syscall NR_pwrite64 [Reg 0, Write_buf, Imm 0x2000, Imm 0x1dd86000], Count,
    Syscall NR_pwrite64 [Reg 0, Write_buf, Imm 0xe00, Imm 0x1dd87200], Count,
    Syscall NR_pwrite64 [Reg 0, Write_buf, Imm 0x2000, Imm 0x1dd88000], Count,
    Syscall NR_pwrite64 [Reg 0, Write_buf, Imm 0x2000, Imm 0x1dd8a000], Count]"

definition min_mysql_pwrite64_openat_0_0_body65 :: "stmt list" where
  "min_mysql_pwrite64_openat_0_0_body65 = [
    Syscall NR_pwrite64 [Reg 0, Write_buf, Imm 0x400, Imm 0x1dd8bc00], Count,
    Syscall NR_pwrite64 [Reg 0, Write_buf, Imm 0x2000, Imm 0x1dd8c000], Count,
    Syscall NR_pwrite64 [Reg 0, Write_buf, Imm 0x2000, Imm 0x1dd8e000], Count,
    Syscall NR_pwrite64 [Reg 0, Write_buf, Imm 0x2000, Imm 0x1dd90000], Count,
    Syscall NR_pwrite64 [Reg 0, Write_buf, Imm 0x1a00, Imm 0x1dd90600], Count,
    Syscall NR_pwrite64 [Reg 0, Write_buf, Imm 0x2000, Imm 0x1dd92000], Count,
    Syscall NR_pwrite64 [Reg 0, Write_buf, Imm 0x2000, Imm 0x1dd94000], Count,
    Syscall NR_pwrite64 [Reg 0, Write_buf, Imm 0x1000, Imm 0x1dd95000], Count,
    Syscall NR_pwrite64 [Reg 0, Write_buf, Imm 0x2000, Imm 0x1dd96000], Count,
    Syscall NR_pwrite64 [Reg 0, Write_buf, Imm 0x2000, Imm 0x1dd98000], Count,
    Syscall NR_pwrite64 [Reg 0, Write_buf, Imm 0x600, Imm 0x1dd99a00], Count,
    Syscall NR_pwrite64 [Reg 0, Write_buf, Imm 0x2000, Imm 0x1dd9a000], Count,
    Syscall NR_pwrite64 [Reg 0, Write_buf, Imm 0x2000, Imm 0x1dd9c000], Count]"

definition min_mysql_pwrite64_openat_0_0_body66 :: "stmt list" where
  "min_mysql_pwrite64_openat_0_0_body66 = [
    Syscall NR_pwrite64 [Reg 0, Write_buf, Imm 0x2000, Imm 0x1dd9e000], Count,
    Syscall NR_pwrite64 [Reg 0, Write_buf, Imm 0x1c00, Imm 0x1dd9e400], Count,
    Syscall NR_pwrite64 [Reg 0, Write_buf, Imm 0x2000, Imm 0x1dda0000], Count,
    Syscall NR_pwrite64 [Reg 0, Write_buf, Imm 0x2000, Imm 0x1dda2000], Count,
    Syscall NR_pwrite64 [Reg 0, Write_buf, Imm 0x1000, Imm 0x1dda2e00], Count,
    Syscall NR_pwrite64 [Reg 0, Write_buf, Imm 0x200, Imm 0x1dda3e00], Count,
    Syscall NR_pwrite64 [Reg 0, Write_buf, Imm 0x200, Imm 0x1dda3e00], Count,
    Syscall NR_pwrite64 [Reg 0, Write_buf, Imm 0x200, Imm 0x1dda3e00], Count,
    Syscall NR_pwrite64 [Reg 0, Write_buf, Imm 0x200, Imm 0x1dda3e00], Count,
    Syscall NR_pwrite64 [Reg 0, Write_buf, Imm 0x2000, Imm 0x1dda4000], Count,
    Syscall NR_pwrite64 [Reg 0, Write_buf, Imm 0x200, Imm 0x1dda4600], Count,
    Syscall NR_pwrite64 [Reg 0, Write_buf, Imm 0x200, Imm 0x1dda4800], Count,
    Syscall NR_pwrite64 [Reg 0, Write_buf, Imm 0x200, Imm 0x1dda4800], Count]"

definition min_mysql_pwrite64_openat_0_0_body67 :: "stmt list" where
  "min_mysql_pwrite64_openat_0_0_body67 = [
    Syscall NR_pwrite64 [Reg 0, Write_buf, Imm 0x200, Imm 0x1dda4800], Count,
    Syscall NR_pwrite64 [Reg 0, Write_buf, Imm 0x200, Imm 0x1dda4800], Count,
    Syscall NR_pwrite64 [Reg 0, Write_buf, Imm 0x200, Imm 0x1dda4800], Count,
    Syscall NR_pwrite64 [Reg 0, Write_buf, Imm 0x200, Imm 0x1dda4a00], Count,
    Syscall NR_pwrite64 [Reg 0, Write_buf, Imm 0xa00, Imm 0x1dda4a00], Count,
    Syscall NR_pwrite64 [Reg 0, Write_buf, Imm 0x200, Imm 0x1dda5400], Count,
    Syscall NR_pwrite64 [Reg 0, Write_buf, Imm 0x200, Imm 0x1dda5400], Count,
    Syscall NR_pwrite64 [Reg 0, Write_buf, Imm 0x200, Imm 0x1dda5400], Count,
    Syscall NR_pwrite64 [Reg 0, Write_buf, Imm 0xa00, Imm 0x1dda5600], Count,
    Syscall NR_pwrite64 [Reg 0, Write_buf, Imm 0x2000, Imm 0x1dda6000], Count,
    Syscall NR_pwrite64 [Reg 0, Write_buf, Imm 0x600, Imm 0x1dda6600], Count,
    Syscall NR_pwrite64 [Reg 0, Write_buf, Imm 0x400, Imm 0x1dda6c00], Count,
    Syscall NR_pwrite64 [Reg 0, Write_buf, Imm 0x200, Imm 0x1dda7000], Count]"

definition min_mysql_pwrite64_openat_0_0_body68 :: "stmt list" where
  "min_mysql_pwrite64_openat_0_0_body68 = [
    Syscall NR_pwrite64 [Reg 0, Write_buf, Imm 0x200, Imm 0x1dda7200], Count,
    Syscall NR_pwrite64 [Reg 0, Write_buf, Imm 0xe00, Imm 0x1dda7200], Count,
    Syscall NR_pwrite64 [Reg 0, Write_buf, Imm 0x2000, Imm 0x1dda8000], Count,
    Syscall NR_pwrite64 [Reg 0, Write_buf, Imm 0x800, Imm 0x1dda9800], Count,
    Syscall NR_pwrite64 [Reg 0, Write_buf, Imm 0x2000, Imm 0x1ddaa000], Count,
    Syscall NR_pwrite64 [Reg 0, Write_buf, Imm 0x2000, Imm 0x1ddac000], Count,
    Syscall NR_pwrite64 [Reg 0, Write_buf, Imm 0x1000, Imm 0x1ddad000], Count,
    Syscall NR_pwrite64 [Reg 0, Write_buf, Imm 0x2000, Imm 0x1ddae000], Count,
    Syscall NR_pwrite64 [Reg 0, Write_buf, Imm 0x2000, Imm 0x1ddb0000], Count,
    Syscall NR_pwrite64 [Reg 0, Write_buf, Imm 0x200, Imm 0x1ddb0200], Count,
    Syscall NR_pwrite64 [Reg 0, Write_buf, Imm 0x200, Imm 0x1ddb0400], Count,
    Syscall NR_pwrite64 [Reg 0, Write_buf, Imm 0x200, Imm 0x1ddb0400], Count,
    Syscall NR_pwrite64 [Reg 0, Write_buf, Imm 0xc00, Imm 0x1ddb0400], Count]"

definition min_mysql_pwrite64_openat_0_0_body69 :: "stmt list" where
  "min_mysql_pwrite64_openat_0_0_body69 = [
    Syscall NR_pwrite64 [Reg 0, Write_buf, Imm 0x200, Imm 0x1ddb1000], Count,
    Syscall NR_pwrite64 [Reg 0, Write_buf, Imm 0x800, Imm 0x1ddb1000], Count,
    Syscall NR_pwrite64 [Reg 0, Write_buf, Imm 0x200, Imm 0x1ddb1800], Count,
    Syscall NR_pwrite64 [Reg 0, Write_buf, Imm 0x800, Imm 0x1ddb1800], Count,
    Syscall NR_pwrite64 [Reg 0, Write_buf, Imm 0x2000, Imm 0x1ddb2000], Count,
    Syscall NR_pwrite64 [Reg 0, Write_buf, Imm 0x200, Imm 0x1ddb2000], Count,
    Syscall NR_pwrite64 [Reg 0, Write_buf, Imm 0x400, Imm 0x1ddb2000], Count,
    Syscall NR_pwrite64 [Reg 0, Write_buf, Imm 0x200, Imm 0x1ddb2400], Count,
    Syscall NR_pwrite64 [Reg 0, Write_buf, Imm 0x1a00, Imm 0x1ddb2400], Count,
    Syscall NR_pwrite64 [Reg 0, Write_buf, Imm 0x200, Imm 0x1ddb3e00], Count,
    Syscall NR_pwrite64 [Reg 0, Write_buf, Imm 0x200, Imm 0x1ddb3e00], Count,
    Syscall NR_pwrite64 [Reg 0, Write_buf, Imm 0x2000, Imm 0x1ddb4000], Count,
    Syscall NR_pwrite64 [Reg 0, Write_buf, Imm 0x2000, Imm 0x1ddb6000], Count]"

definition min_mysql_pwrite64_openat_0_0_body70 :: "stmt list" where
  "min_mysql_pwrite64_openat_0_0_body70 = [
    Syscall NR_pwrite64 [Reg 0, Write_buf, Imm 0x2000, Imm 0x1ddb8000], Count,
    Syscall NR_pwrite64 [Reg 0, Write_buf, Imm 0x200, Imm 0x1ddb8c00], Count,
    Syscall NR_pwrite64 [Reg 0, Write_buf, Imm 0x1400, Imm 0x1ddb8c00], Count,
    Syscall NR_pwrite64 [Reg 0, Write_buf, Imm 0x2000, Imm 0x1ddba000], Count,
    Syscall NR_pwrite64 [Reg 0, Write_buf, Imm 0x2000, Imm 0x1ddbc000], Count,
    Syscall NR_pwrite64 [Reg 0, Write_buf, Imm 0x2000, Imm 0x1ddbe000], Count,
    Syscall NR_pwrite64 [Reg 0, Write_buf, Imm 0x2000, Imm 0x1ddc0000], Count,
    Syscall NR_pwrite64 [Reg 0, Write_buf, Imm 0x800, Imm 0x1ddc0a00], Count,
    Syscall NR_pwrite64 [Reg 0, Write_buf, Imm 0x200, Imm 0x1ddc1200], Count,
    Syscall NR_pwrite64 [Reg 0, Write_buf, Imm 0xe00, Imm 0x1ddc1200], Count,
    Syscall NR_pwrite64 [Reg 0, Write_buf, Imm 0x2000, Imm 0x1ddc2000], Count,
    Syscall NR_pwrite64 [Reg 0, Write_buf, Imm 0x2000, Imm 0x1ddc4000], Count,
    Syscall NR_pwrite64 [Reg 0, Write_buf, Imm 0x400, Imm 0x1ddc5c00], Count]"

definition min_mysql_pwrite64_openat_0_0_body71 :: "stmt list" where
  "min_mysql_pwrite64_openat_0_0_body71 = [
    Syscall NR_pwrite64 [Reg 0, Write_buf, Imm 0x2000, Imm 0x1ddc6000], Count,
    Syscall NR_pwrite64 [Reg 0, Write_buf, Imm 0x2000, Imm 0x1ddc8000], Count,
    Syscall NR_pwrite64 [Reg 0, Write_buf, Imm 0x2000, Imm 0x1ddca000], Count,
    Syscall NR_pwrite64 [Reg 0, Write_buf, Imm 0x200, Imm 0x1ddca600], Count,
    Syscall NR_pwrite64 [Reg 0, Write_buf, Imm 0x1a00, Imm 0x1ddca600], Count,
    Syscall NR_pwrite64 [Reg 0, Write_buf, Imm 0x2000, Imm 0x1ddcc000], Count,
    Syscall NR_pwrite64 [Reg 0, Write_buf, Imm 0x2000, Imm 0x1ddce000], Count,
    Syscall NR_pwrite64 [Reg 0, Write_buf, Imm 0x1000, Imm 0x1ddcf000], Count,
    Syscall NR_pwrite64 [Reg 0, Write_buf, Imm 0x2000, Imm 0x1ddd0000], Count,
    Syscall NR_pwrite64 [Reg 0, Write_buf, Imm 0x2000, Imm 0x1ddd2000], Count,
    Syscall NR_pwrite64 [Reg 0, Write_buf, Imm 0x600, Imm 0x1ddd3a00], Count,
    Syscall NR_pwrite64 [Reg 0, Write_buf, Imm 0x2000, Imm 0x1ddd4000], Count,
    Syscall NR_pwrite64 [Reg 0, Write_buf, Imm 0x2000, Imm 0x1ddd6000], Count]"

definition min_mysql_pwrite64_openat_0_0_body72 :: "stmt list" where
  "min_mysql_pwrite64_openat_0_0_body72 = [
    Syscall NR_pwrite64 [Reg 0, Write_buf, Imm 0x2000, Imm 0x1ddd8000], Count,
    Syscall NR_pwrite64 [Reg 0, Write_buf, Imm 0x1c00, Imm 0x1ddd8400], Count,
    Syscall NR_pwrite64 [Reg 0, Write_buf, Imm 0x2000, Imm 0x1ddda000], Count,
    Syscall NR_pwrite64 [Reg 0, Write_buf, Imm 0x2000, Imm 0x1dddc000], Count,
    Syscall NR_pwrite64 [Reg 0, Write_buf, Imm 0x1200, Imm 0x1dddce00], Count,
    Syscall NR_pwrite64 [Reg 0, Write_buf, Imm 0x2000, Imm 0x1ddde000], Count,
    Syscall NR_pwrite64 [Reg 0, Write_buf, Imm 0x2000, Imm 0x1dde0000], Count,
    Syscall NR_pwrite64 [Reg 0, Write_buf, Imm 0x800, Imm 0x1dde1800], Count,
    Syscall NR_pwrite64 [Reg 0, Write_buf, Imm 0x2000, Imm 0x1dde2000], Count,
    Syscall NR_pwrite64 [Reg 0, Write_buf, Imm 0x2000, Imm 0x1dde4000], Count,
    Syscall NR_pwrite64 [Reg 0, Write_buf, Imm 0x2000, Imm 0x1dde6000], Count,
    Syscall NR_pwrite64 [Reg 0, Write_buf, Imm 0x1e00, Imm 0x1dde6200], Count,
    Syscall NR_pwrite64 [Reg 0, Write_buf, Imm 0x2000, Imm 0x1dde8000], Count]"

definition min_mysql_pwrite64_openat_0_0_body73 :: "stmt list" where
  "min_mysql_pwrite64_openat_0_0_body73 = [
    Syscall NR_pwrite64 [Reg 0, Write_buf, Imm 0x2000, Imm 0x1ddea000], Count,
    Syscall NR_pwrite64 [Reg 0, Write_buf, Imm 0x1400, Imm 0x1ddeac00], Count,
    Syscall NR_pwrite64 [Reg 0, Write_buf, Imm 0x2000, Imm 0x1ddec000], Count,
    Syscall NR_pwrite64 [Reg 0, Write_buf, Imm 0x2000, Imm 0x1ddee000], Count,
    Syscall NR_pwrite64 [Reg 0, Write_buf, Imm 0x200, Imm 0x1ddef400], Count,
    Syscall NR_pwrite64 [Reg 0, Write_buf, Imm 0xc00, Imm 0x1ddef400], Count,
    Syscall NR_pwrite64 [Reg 0, Write_buf, Imm 0x2000, Imm 0x1ddf0000], Count,
    Syscall NR_pwrite64 [Reg 0, Write_buf, Imm 0x2000, Imm 0x1ddf2000], Count,
    Syscall NR_pwrite64 [Reg 0, Write_buf, Imm 0x200, Imm 0x1ddf3e00], Count,
    Syscall NR_pwrite64 [Reg 0, Write_buf, Imm 0x2000, Imm 0x1ddf4000], Count,
    Syscall NR_pwrite64 [Reg 0, Write_buf, Imm 0x2000, Imm 0x1ddf6000], Count,
    Syscall NR_pwrite64 [Reg 0, Write_buf, Imm 0x2000, Imm 0x1ddf8000], Count,
    Syscall NR_pwrite64 [Reg 0, Write_buf, Imm 0x1000, Imm 0x1ddf8800], Count]"

definition min_mysql_pwrite64_openat_0_0_body74 :: "stmt list" where
  "min_mysql_pwrite64_openat_0_0_body74 = [
    Syscall NR_pwrite64 [Reg 0, Write_buf, Imm 0x200, Imm 0x1ddf9800], Count,
    Syscall NR_pwrite64 [Reg 0, Write_buf, Imm 0x200, Imm 0x1ddf9800], Count,
    Syscall NR_pwrite64 [Reg 0, Write_buf, Imm 0x200, Imm 0x1ddf9800], Count,
    Syscall NR_pwrite64 [Reg 0, Write_buf, Imm 0x200, Imm 0x1ddf9800], Count,
    Syscall NR_pwrite64 [Reg 0, Write_buf, Imm 0x600, Imm 0x1ddf9800], Count,
    Syscall NR_pwrite64 [Reg 0, Write_buf, Imm 0x200, Imm 0x1ddf9e00], Count,
    Syscall NR_pwrite64 [Reg 0, Write_buf, Imm 0x200, Imm 0x1ddf9e00], Count,
    Syscall NR_pwrite64 [Reg 0, Write_buf, Imm 0x200, Imm 0x1ddf9e00], Count,
    Syscall NR_pwrite64 [Reg 0, Write_buf, Imm 0x200, Imm 0x1ddf9e00], Count,
    Syscall NR_pwrite64 [Reg 0, Write_buf, Imm 0x200, Imm 0x1ddf9e00], Count,
    Syscall NR_pwrite64 [Reg 0, Write_buf, Imm 0x200, Imm 0x1ddf9e00], Count,
    Syscall NR_pwrite64 [Reg 0, Write_buf, Imm 0x2000, Imm 0x1ddfa000], Count,
    Syscall NR_pwrite64 [Reg 0, Write_buf, Imm 0x800, Imm 0x1ddfa000], Count]"

definition min_mysql_pwrite64_openat_0_0_body75 :: "stmt list" where
  "min_mysql_pwrite64_openat_0_0_body75 = [
    Syscall NR_pwrite64 [Reg 0, Write_buf, Imm 0x200, Imm 0x1ddfa800], Count,
    Syscall NR_pwrite64 [Reg 0, Write_buf, Imm 0x1800, Imm 0x1ddfa800], Count,
    Syscall NR_pwrite64 [Reg 0, Write_buf, Imm 0x2000, Imm 0x1ddfc000], Count,
    Syscall NR_pwrite64 [Reg 0, Write_buf, Imm 0x600, Imm 0x1ddfce00], Count,
    Syscall NR_pwrite64 [Reg 0, Write_buf, Imm 0x200, Imm 0x1ddfd400], Count,
    Syscall NR_pwrite64 [Reg 0, Write_buf, Imm 0xc00, Imm 0x1ddfd400], Count,
    Syscall NR_pwrite64 [Reg 0, Write_buf, Imm 0x2000, Imm 0x1ddfe000], Count,
    Syscall NR_pwrite64 [Reg 0, Write_buf, Imm 0x200, Imm 0x1ddfe800], Count,
    Syscall NR_pwrite64 [Reg 0, Write_buf, Imm 0xc00, Imm 0x1ddfe800], Count,
    Syscall NR_pwrite64 [Reg 0, Write_buf, Imm 0x200, Imm 0x1ddff400], Count,
    Syscall NR_pwrite64 [Reg 0, Write_buf, Imm 0x200, Imm 0x1ddff400], Count,
    Syscall NR_pwrite64 [Reg 0, Write_buf, Imm 0x400, Imm 0x1ddff400], Count,
    Syscall NR_pwrite64 [Reg 0, Write_buf, Imm 0x200, Imm 0x1ddff800], Count]"

definition min_mysql_pwrite64_openat_0_0_body76 :: "stmt list" where
  "min_mysql_pwrite64_openat_0_0_body76 = [
    Syscall NR_pwrite64 [Reg 0, Write_buf, Imm 0x400, Imm 0x1ddff800], Count,
    Syscall NR_pwrite64 [Reg 0, Write_buf, Imm 0x200, Imm 0x1ddffc00], Count,
    Syscall NR_pwrite64 [Reg 0, Write_buf, Imm 0x200, Imm 0x1ddffc00], Count,
    Syscall NR_pwrite64 [Reg 0, Write_buf, Imm 0x200, Imm 0x1ddffe00], Count,
    Syscall NR_pwrite64 [Reg 0, Write_buf, Imm 0x200, Imm 0x1ddffe00], Count,
    Syscall NR_pwrite64 [Reg 0, Write_buf, Imm 0x2000, Imm 0x1de00000], Count,
    Syscall NR_pwrite64 [Reg 0, Write_buf, Imm 0x200, Imm 0x1de01800], Count,
    Syscall NR_pwrite64 [Reg 0, Write_buf, Imm 0x200, Imm 0x1de01800], Count,
    Syscall NR_pwrite64 [Reg 0, Write_buf, Imm 0x800, Imm 0x1de01800], Count,
    Syscall NR_pwrite64 [Reg 0, Write_buf, Imm 0x2000, Imm 0x1de02000], Count,
    Syscall NR_pwrite64 [Reg 0, Write_buf, Imm 0x2000, Imm 0x1de04000], Count,
    Syscall NR_pwrite64 [Reg 0, Write_buf, Imm 0x2000, Imm 0x1de06000], Count,
    Syscall NR_pwrite64 [Reg 0, Write_buf, Imm 0x1c00, Imm 0x1de06400], Count]"

definition min_mysql_pwrite64_openat_0_0_body77 :: "stmt list" where
  "min_mysql_pwrite64_openat_0_0_body77 = [
    Syscall NR_pwrite64 [Reg 0, Write_buf, Imm 0x2000, Imm 0x1de08000], Count,
    Syscall NR_pwrite64 [Reg 0, Write_buf, Imm 0x2000, Imm 0x1de0a000], Count,
    Syscall NR_pwrite64 [Reg 0, Write_buf, Imm 0x2000, Imm 0x1de0c000], Count,
    Syscall NR_pwrite64 [Reg 0, Write_buf, Imm 0x2000, Imm 0x1de0e000], Count,
    Syscall NR_pwrite64 [Reg 0, Write_buf, Imm 0x800, Imm 0x1de0e200], Count,
    Syscall NR_pwrite64 [Reg 0, Write_buf, Imm 0x200, Imm 0x1de0ea00], Count,
    Syscall NR_pwrite64 [Reg 0, Write_buf, Imm 0x1600, Imm 0x1de0ea00], Count,
    Syscall NR_pwrite64 [Reg 0, Write_buf, Imm 0x2000, Imm 0x1de10000], Count,
    Syscall NR_pwrite64 [Reg 0, Write_buf, Imm 0x2000, Imm 0x1de12000], Count,
    Syscall NR_pwrite64 [Reg 0, Write_buf, Imm 0x200, Imm 0x1de13400], Count,
    Syscall NR_pwrite64 [Reg 0, Write_buf, Imm 0xc00, Imm 0x1de13400], Count,
    Syscall NR_pwrite64 [Reg 0, Write_buf, Imm 0x2000, Imm 0x1de14000], Count,
    Syscall NR_pwrite64 [Reg 0, Write_buf, Imm 0x2000, Imm 0x1de16000], Count]"

definition min_mysql_pwrite64_openat_0_0_body78 :: "stmt list" where
  "min_mysql_pwrite64_openat_0_0_body78 = [
    Syscall NR_pwrite64 [Reg 0, Write_buf, Imm 0x200, Imm 0x1de17e00], Count,
    Syscall NR_pwrite64 [Reg 0, Write_buf, Imm 0x2000, Imm 0x1de18000], Count,
    Syscall NR_pwrite64 [Reg 0, Write_buf, Imm 0x2000, Imm 0x1de1a000], Count,
    Syscall NR_pwrite64 [Reg 0, Write_buf, Imm 0x2000, Imm 0x1de1c000], Count,
    Syscall NR_pwrite64 [Reg 0, Write_buf, Imm 0x1800, Imm 0x1de1c800], Count,
    Syscall NR_pwrite64 [Reg 0, Write_buf, Imm 0x2000, Imm 0x1de1e000], Count,
    Syscall NR_pwrite64 [Reg 0, Write_buf, Imm 0x2000, Imm 0x1de20000], Count,
    Syscall NR_pwrite64 [Reg 0, Write_buf, Imm 0xe00, Imm 0x1de21200], Count,
    Syscall NR_pwrite64 [Reg 0, Write_buf, Imm 0x2000, Imm 0x1de22000], Count,
    Syscall NR_pwrite64 [Reg 0, Write_buf, Imm 0x2000, Imm 0x1de24000], Count,
    Syscall NR_pwrite64 [Reg 0, Write_buf, Imm 0x200, Imm 0x1de25c00], Count,
    Syscall NR_pwrite64 [Reg 0, Write_buf, Imm 0x400, Imm 0x1de25c00], Count,
    Syscall NR_pwrite64 [Reg 0, Write_buf, Imm 0x2000, Imm 0x1de26000], Count]"

definition min_mysql_pwrite64_openat_0_0_body79 :: "stmt list" where
  "min_mysql_pwrite64_openat_0_0_body79 = [
    Syscall NR_pwrite64 [Reg 0, Write_buf, Imm 0x2000, Imm 0x1de28000], Count,
    Syscall NR_pwrite64 [Reg 0, Write_buf, Imm 0x2000, Imm 0x1de2a000], Count,
    Syscall NR_pwrite64 [Reg 0, Write_buf, Imm 0x1a00, Imm 0x1de2a600], Count,
    Syscall NR_pwrite64 [Reg 0, Write_buf, Imm 0x2000, Imm 0x1de2c000], Count,
    Syscall NR_pwrite64 [Reg 0, Write_buf, Imm 0x2000, Imm 0x1de2e000], Count,
    Syscall NR_pwrite64 [Reg 0, Write_buf, Imm 0x1000, Imm 0x1de2f000], Count,
    Syscall NR_pwrite64 [Reg 0, Write_buf, Imm 0x2000, Imm 0x1de30000], Count,
    Syscall NR_pwrite64 [Reg 0, Write_buf, Imm 0x2000, Imm 0x1de32000], Count,
    Syscall NR_pwrite64 [Reg 0, Write_buf, Imm 0x600, Imm 0x1de33a00], Count,
    Syscall NR_pwrite64 [Reg 0, Write_buf, Imm 0x2000, Imm 0x1de34000], Count,
    Syscall NR_pwrite64 [Reg 0, Write_buf, Imm 0x2000, Imm 0x1de36000], Count,
    Syscall NR_pwrite64 [Reg 0, Write_buf, Imm 0x2000, Imm 0x1de38000], Count,
    Syscall NR_pwrite64 [Reg 0, Write_buf, Imm 0x1c00, Imm 0x1de38400], Count]"

definition min_mysql_pwrite64_openat_0_0_body80 :: "stmt list" where
  "min_mysql_pwrite64_openat_0_0_body80 = [
    Syscall NR_pwrite64 [Reg 0, Write_buf, Imm 0x2000, Imm 0x1de3a000], Count,
    Syscall NR_pwrite64 [Reg 0, Write_buf, Imm 0x2000, Imm 0x1de3c000], Count,
    Syscall NR_pwrite64 [Reg 0, Write_buf, Imm 0x1200, Imm 0x1de3ce00], Count,
    Syscall NR_pwrite64 [Reg 0, Write_buf, Imm 0x2000, Imm 0x1de3e000], Count,
    Syscall NR_pwrite64 [Reg 0, Write_buf, Imm 0x2000, Imm 0x1de40000], Count,
    Syscall NR_pwrite64 [Reg 0, Write_buf, Imm 0x200, Imm 0x1de41600], Count,
    Syscall NR_pwrite64 [Reg 0, Write_buf, Imm 0x200, Imm 0x1de41800], Count,
    Syscall NR_pwrite64 [Reg 0, Write_buf, Imm 0x800, Imm 0x1de41800], Count,
    Syscall NR_pwrite64 [Reg 0, Write_buf, Imm 0x2000, Imm 0x1de42000], Count,
    Syscall NR_pwrite64 [Reg 0, Write_buf, Imm 0x2000, Imm 0x1de44000], Count,
    Syscall NR_pwrite64 [Reg 0, Write_buf, Imm 0x2000, Imm 0x1de46000], Count,
    Syscall NR_pwrite64 [Reg 0, Write_buf, Imm 0x1200, Imm 0x1de46000], Count,
    Syscall NR_pwrite64 [Reg 0, Write_buf, Imm 0x200, Imm 0x1de47200], Count]"

definition min_mysql_pwrite64_openat_0_0_body81 :: "stmt list" where
  "min_mysql_pwrite64_openat_0_0_body81 = [
    Syscall NR_pwrite64 [Reg 0, Write_buf, Imm 0x200, Imm 0x1de47200], Count,
    Syscall NR_pwrite64 [Reg 0, Write_buf, Imm 0x200, Imm 0x1de47200], Count,
    Syscall NR_pwrite64 [Reg 0, Write_buf, Imm 0x200, Imm 0x1de47200], Count,
    Syscall NR_pwrite64 [Reg 0, Write_buf, Imm 0x600, Imm 0x1de47200], Count,
    Syscall NR_pwrite64 [Reg 0, Write_buf, Imm 0x200, Imm 0x1de47800], Count,
    Syscall NR_pwrite64 [Reg 0, Write_buf, Imm 0x200, Imm 0x1de47800], Count,
    Syscall NR_pwrite64 [Reg 0, Write_buf, Imm 0x200, Imm 0x1de47800], Count,
    Syscall NR_pwrite64 [Reg 0, Write_buf, Imm 0x200, Imm 0x1de47a00], Count,
    Syscall NR_pwrite64 [Reg 0, Write_buf, Imm 0x200, Imm 0x1de47a00], Count,
    Syscall NR_pwrite64 [Reg 0, Write_buf, Imm 0x200, Imm 0x1de47a00], Count,
    Syscall NR_pwrite64 [Reg 0, Write_buf, Imm 0x200, Imm 0x1de47a00], Count,
    Syscall NR_pwrite64 [Reg 0, Write_buf, Imm 0x200, Imm 0x1de47c00], Count,
    Syscall NR_pwrite64 [Reg 0, Write_buf, Imm 0x400, Imm 0x1de47c00], Count]"

definition min_mysql_pwrite64_openat_0_0_body82 :: "stmt list" where
  "min_mysql_pwrite64_openat_0_0_body82 = [
    Syscall NR_pwrite64 [Reg 0, Write_buf, Imm 0x2000, Imm 0x1de48000], Count,
    Syscall NR_pwrite64 [Reg 0, Write_buf, Imm 0x1a00, Imm 0x1de48600], Count,
    Syscall NR_pwrite64 [Reg 0, Write_buf, Imm 0x2000, Imm 0x1de4a000], Count,
    Syscall NR_pwrite64 [Reg 0, Write_buf, Imm 0x400, Imm 0x1de4a600], Count,
    Syscall NR_pwrite64 [Reg 0, Write_buf, Imm 0x200, Imm 0x1de4aa00], Count,
    Syscall NR_pwrite64 [Reg 0, Write_buf, Imm 0x600, Imm 0x1de4aa00], Count,
    Syscall NR_pwrite64 [Reg 0, Write_buf, Imm 0x200, Imm 0x1de4b000], Count,
    Syscall NR_pwrite64 [Reg 0, Write_buf, Imm 0x600, Imm 0x1de4b000], Count,
    Syscall NR_pwrite64 [Reg 0, Write_buf, Imm 0x200, Imm 0x1de4b600], Count,
    Syscall NR_pwrite64 [Reg 0, Write_buf, Imm 0xa00, Imm 0x1de4b600], Count,
    Syscall NR_pwrite64 [Reg 0, Write_buf, Imm 0x2000, Imm 0x1de4c000], Count,
    Syscall NR_pwrite64 [Reg 0, Write_buf, Imm 0x200, Imm 0x1de4d000], Count,
    Syscall NR_pwrite64 [Reg 0, Write_buf, Imm 0x200, Imm 0x1de4d000], Count]"

definition min_mysql_pwrite64_openat_0_0_body83 :: "stmt list" where
  "min_mysql_pwrite64_openat_0_0_body83 = [
    Syscall NR_pwrite64 [Reg 0, Write_buf, Imm 0xe00, Imm 0x1de4d000], Count,
    Syscall NR_pwrite64 [Reg 0, Write_buf, Imm 0x200, Imm 0x1de4de00], Count,
    Syscall NR_pwrite64 [Reg 0, Write_buf, Imm 0x200, Imm 0x1de4de00], Count,
    Syscall NR_pwrite64 [Reg 0, Write_buf, Imm 0x2000, Imm 0x1de4e000], Count,
    Syscall NR_pwrite64 [Reg 0, Write_buf, Imm 0x600, Imm 0x1de4e600], Count,
    Syscall NR_pwrite64 [Reg 0, Write_buf, Imm 0x200, Imm 0x1de4ec00], Count,
    Syscall NR_pwrite64 [Reg 0, Write_buf, Imm 0x200, Imm 0x1de4ec00], Count,
    Syscall NR_pwrite64 [Reg 0, Write_buf, Imm 0x400, Imm 0x1de4ec00], Count,
    Syscall NR_pwrite64 [Reg 0, Write_buf, Imm 0x200, Imm 0x1de4f000], Count,
    Syscall NR_pwrite64 [Reg 0, Write_buf, Imm 0x1000, Imm 0x1de4f000], Count,
    Syscall NR_pwrite64 [Reg 0, Write_buf, Imm 0x2000, Imm 0x1de50000], Count,
    Syscall NR_pwrite64 [Reg 0, Write_buf, Imm 0x1a00, Imm 0x1de50600], Count,
    Syscall NR_pwrite64 [Reg 0, Write_buf, Imm 0x2000, Imm 0x1de52000], Count]"

definition min_mysql_pwrite64_openat_0_0_body84 :: "stmt list" where
  "min_mysql_pwrite64_openat_0_0_body84 = [
    Syscall NR_pwrite64 [Reg 0, Write_buf, Imm 0x2000, Imm 0x1de54000], Count,
    Syscall NR_pwrite64 [Reg 0, Write_buf, Imm 0xc00, Imm 0x1de55400], Count,
    Syscall NR_pwrite64 [Reg 0, Write_buf, Imm 0x2000, Imm 0x1de56000], Count,
    Syscall NR_pwrite64 [Reg 0, Write_buf, Imm 0x2000, Imm 0x1de58000], Count,
    Syscall NR_pwrite64 [Reg 0, Write_buf, Imm 0x2000, Imm 0x1de5a000], Count,
    Syscall NR_pwrite64 [Reg 0, Write_buf, Imm 0x2000, Imm 0x1de5c000], Count,
    Syscall NR_pwrite64 [Reg 0, Write_buf, Imm 0xa00, Imm 0x1de5d200], Count,
    Syscall NR_pwrite64 [Reg 0, Write_buf, Imm 0x200, Imm 0x1de5dc00], Count,
    Syscall NR_pwrite64 [Reg 0, Write_buf, Imm 0x400, Imm 0x1de5dc00], Count,
    Syscall NR_pwrite64 [Reg 0, Write_buf, Imm 0x2000, Imm 0x1de5e000], Count,
    Syscall NR_pwrite64 [Reg 0, Write_buf, Imm 0x2000, Imm 0x1de60000], Count,
    Syscall NR_pwrite64 [Reg 0, Write_buf, Imm 0x2000, Imm 0x1de62000], Count,
    Syscall NR_pwrite64 [Reg 0, Write_buf, Imm 0x200, Imm 0x1de62600], Count]"

definition min_mysql_pwrite64_openat_0_0_body85 :: "stmt list" where
  "min_mysql_pwrite64_openat_0_0_body85 = [
    Syscall NR_pwrite64 [Reg 0, Write_buf, Imm 0x1a00, Imm 0x1de62600], Count,
    Syscall NR_pwrite64 [Reg 0, Write_buf, Imm 0x2000, Imm 0x1de64000], Count,
    Syscall NR_pwrite64 [Reg 0, Write_buf, Imm 0x2000, Imm 0x1de66000], Count,
    Syscall NR_pwrite64 [Reg 0, Write_buf, Imm 0x200, Imm 0x1de67000], Count,
    Syscall NR_pwrite64 [Reg 0, Write_buf, Imm 0x1000, Imm 0x1de67000], Count,
    Syscall NR_pwrite64 [Reg 0, Write_buf, Imm 0x2000, Imm 0x1de68000], Count,
    Syscall NR_pwrite64 [Reg 0, Write_buf, Imm 0x2000, Imm 0x1de6a000], Count,
    Syscall NR_pwrite64 [Reg 0, Write_buf, Imm 0x600, Imm 0x1de6ba00], Count,
    Syscall NR_pwrite64 [Reg 0, Write_buf, Imm 0x2000, Imm 0x1de6c000], Count,
    Syscall NR_pwrite64 [Reg 0, Write_buf, Imm 0x2000, Imm 0x1de6e000], Count,
    Syscall NR_pwrite64 [Reg 0, Write_buf, Imm 0x2000, Imm 0x1de70000], Count,
    Syscall NR_pwrite64 [Reg 0, Write_buf, Imm 0x1e00, Imm 0x1de70200], Count,
    Syscall NR_pwrite64 [Reg 0, Write_buf, Imm 0x2000, Imm 0x1de72000], Count]"

definition min_mysql_pwrite64_openat_0_0_body86 :: "stmt list" where
  "min_mysql_pwrite64_openat_0_0_body86 = [
    Syscall NR_pwrite64 [Reg 0, Write_buf, Imm 0x2000, Imm 0x1de74000], Count,
    Syscall NR_pwrite64 [Reg 0, Write_buf, Imm 0x1400, Imm 0x1de74c00], Count,
    Syscall NR_pwrite64 [Reg 0, Write_buf, Imm 0x2000, Imm 0x1de76000], Count,
    Syscall NR_pwrite64 [Reg 0, Write_buf, Imm 0x2000, Imm 0x1de78000], Count,
    Syscall NR_pwrite64 [Reg 0, Write_buf, Imm 0xa00, Imm 0x1de79600], Count,
    Syscall NR_pwrite64 [Reg 0, Write_buf, Imm 0x2000, Imm 0x1de7a000], Count,
    Syscall NR_pwrite64 [Reg 0, Write_buf, Imm 0x2000, Imm 0x1de7c000], Count,
    Syscall NR_pwrite64 [Reg 0, Write_buf, Imm 0x2000, Imm 0x1de7e000], Count,
    Syscall NR_pwrite64 [Reg 0, Write_buf, Imm 0x2000, Imm 0x1de7e000], Count,
    Syscall NR_pwrite64 [Reg 0, Write_buf, Imm 0x2000, Imm 0x1de80000], Count,
    Syscall NR_pwrite64 [Reg 0, Write_buf, Imm 0x2000, Imm 0x1de82000], Count,
    Syscall NR_pwrite64 [Reg 0, Write_buf, Imm 0x1600, Imm 0x1de82a00], Count,
    Syscall NR_pwrite64 [Reg 0, Write_buf, Imm 0x2000, Imm 0x1de84000], Count]"

definition min_mysql_pwrite64_openat_0_0_body87 :: "stmt list" where
  "min_mysql_pwrite64_openat_0_0_body87 = [
    Syscall NR_pwrite64 [Reg 0, Write_buf, Imm 0x2000, Imm 0x1de86000], Count,
    Syscall NR_pwrite64 [Reg 0, Write_buf, Imm 0xc00, Imm 0x1de87400], Count,
    Syscall NR_pwrite64 [Reg 0, Write_buf, Imm 0x2000, Imm 0x1de88000], Count,
    Syscall NR_pwrite64 [Reg 0, Write_buf, Imm 0x2000, Imm 0x1de8a000], Count,
    Syscall NR_pwrite64 [Reg 0, Write_buf, Imm 0x200, Imm 0x1de8be00], Count,
    Syscall NR_pwrite64 [Reg 0, Write_buf, Imm 0x2000, Imm 0x1de8c000], Count,
    Syscall NR_pwrite64 [Reg 0, Write_buf, Imm 0x2000, Imm 0x1de8e000], Count,
    Syscall NR_pwrite64 [Reg 0, Write_buf, Imm 0x2000, Imm 0x1de90000], Count,
    Syscall NR_pwrite64 [Reg 0, Write_buf, Imm 0x1800, Imm 0x1de90800], Count,
    Syscall NR_pwrite64 [Reg 0, Write_buf, Imm 0x2000, Imm 0x1de92000], Count,
    Syscall NR_pwrite64 [Reg 0, Write_buf, Imm 0x2000, Imm 0x1de94000], Count,
    Syscall NR_pwrite64 [Reg 0, Write_buf, Imm 0xe00, Imm 0x1de95200], Count,
    Syscall NR_pwrite64 [Reg 0, Write_buf, Imm 0x2000, Imm 0x1de96000], Count]"

definition min_mysql_pwrite64_openat_0_0_body88 :: "stmt list" where
  "min_mysql_pwrite64_openat_0_0_body88 = [
    Syscall NR_pwrite64 [Reg 0, Write_buf, Imm 0x200, Imm 0x1de96200], Count,
    Syscall NR_pwrite64 [Reg 0, Write_buf, Imm 0x200, Imm 0x1de96200], Count,
    Syscall NR_pwrite64 [Reg 0, Write_buf, Imm 0x200, Imm 0x1de96200], Count,
    Syscall NR_pwrite64 [Reg 0, Write_buf, Imm 0x800, Imm 0x1de96200], Count,
    Syscall NR_pwrite64 [Reg 0, Write_buf, Imm 0x200, Imm 0x1de96a00], Count,
    Syscall NR_pwrite64 [Reg 0, Write_buf, Imm 0x200, Imm 0x1de96a00], Count,
    Syscall NR_pwrite64 [Reg 0, Write_buf, Imm 0x200, Imm 0x1de96a00], Count,
    Syscall NR_pwrite64 [Reg 0, Write_buf, Imm 0x200, Imm 0x1de96a00], Count,
    Syscall NR_pwrite64 [Reg 0, Write_buf, Imm 0x200, Imm 0x1de96a00], Count,
    Syscall NR_pwrite64 [Reg 0, Write_buf, Imm 0x200, Imm 0x1de96c00], Count,
    Syscall NR_pwrite64 [Reg 0, Write_buf, Imm 0xa00, Imm 0x1de96c00], Count,
    Syscall NR_pwrite64 [Reg 0, Write_buf, Imm 0x200, Imm 0x1de97600], Count,
    Syscall NR_pwrite64 [Reg 0, Write_buf, Imm 0xa00, Imm 0x1de97600], Count]"

definition min_mysql_pwrite64_openat_0_0_body89 :: "stmt list" where
  "min_mysql_pwrite64_openat_0_0_body89 = [
    Syscall NR_pwrite64 [Reg 0, Write_buf, Imm 0x2000, Imm 0x1de98000], Count,
    Syscall NR_pwrite64 [Reg 0, Write_buf, Imm 0x600, Imm 0x1de99800], Count,
    Syscall NR_pwrite64 [Reg 0, Write_buf, Imm 0x200, Imm 0x1de99e00], Count,
    Syscall NR_pwrite64 [Reg 0, Write_buf, Imm 0x200, Imm 0x1de99e00], Count,
    Syscall NR_pwrite64 [Reg 0, Write_buf, Imm 0x2000, Imm 0x1de9a000], Count,
    Syscall NR_pwrite64 [Reg 0, Write_buf, Imm 0x200, Imm 0x1de9b600], Count,
    Syscall NR_pwrite64 [Reg 0, Write_buf, Imm 0x200, Imm 0x1de9b600], Count,
    Syscall NR_pwrite64 [Reg 0, Write_buf, Imm 0x800, Imm 0x1de9b600], Count,
    Syscall NR_pwrite64 [Reg 0, Write_buf, Imm 0x200, Imm 0x1de9be00], Count,
    Syscall NR_pwrite64 [Reg 0, Write_buf, Imm 0x200, Imm 0x1de9be00], Count,
    Syscall NR_pwrite64 [Reg 0, Write_buf, Imm 0x2000, Imm 0x1de9c000], Count,
    Syscall NR_pwrite64 [Reg 0, Write_buf, Imm 0x200, Imm 0x1de9cc00], Count,
    Syscall NR_pwrite64 [Reg 0, Write_buf, Imm 0x800, Imm 0x1de9cc00], Count]"

definition min_mysql_pwrite64_openat_0_0_body90 :: "stmt list" where
  "min_mysql_pwrite64_openat_0_0_body90 = [
    Syscall NR_pwrite64 [Reg 0, Write_buf, Imm 0x200, Imm 0x1de9d400], Count,
    Syscall NR_pwrite64 [Reg 0, Write_buf, Imm 0x600, Imm 0x1de9d400], Count,
    Syscall NR_pwrite64 [Reg 0, Write_buf, Imm 0x200, Imm 0x1de9da00], Count,
    Syscall NR_pwrite64 [Reg 0, Write_buf, Imm 0x600, Imm 0x1de9da00], Count,
    Syscall NR_pwrite64 [Reg 0, Write_buf, Imm 0x2000, Imm 0x1de9e000], Count,
    Syscall NR_pwrite64 [Reg 0, Write_buf, Imm 0x200, Imm 0x1de9e000], Count,
    Syscall NR_pwrite64 [Reg 0, Write_buf, Imm 0x1000, Imm 0x1de9e000], Count,
    Syscall NR_pwrite64 [Reg 0, Write_buf, Imm 0x400, Imm 0x1de9f000], Count,
    Syscall NR_pwrite64 [Reg 0, Write_buf, Imm 0x200, Imm 0x1de9f400], Count,
    Syscall NR_pwrite64 [Reg 0, Write_buf, Imm 0x200, Imm 0x1de9f400], Count,
    Syscall NR_pwrite64 [Reg 0, Write_buf, Imm 0xc00, Imm 0x1de9f400], Count,
    Syscall NR_pwrite64 [Reg 0, Write_buf, Imm 0x2000, Imm 0x1dea0000], Count,
    Syscall NR_pwrite64 [Reg 0, Write_buf, Imm 0x2000, Imm 0x1dea2000], Count]"

definition min_mysql_pwrite64_openat_0_0_body91 :: "stmt list" where
  "min_mysql_pwrite64_openat_0_0_body91 = [
    Syscall NR_pwrite64 [Reg 0, Write_buf, Imm 0x2000, Imm 0x1dea4000], Count,
    Syscall NR_pwrite64 [Reg 0, Write_buf, Imm 0x200, Imm 0x1dea4200], Count,
    Syscall NR_pwrite64 [Reg 0, Write_buf, Imm 0x1e00, Imm 0x1dea4200], Count,
    Syscall NR_pwrite64 [Reg 0, Write_buf, Imm 0x2000, Imm 0x1dea6000], Count,
    Syscall NR_pwrite64 [Reg 0, Write_buf, Imm 0x2000, Imm 0x1dea8000], Count,
    Syscall NR_pwrite64 [Reg 0, Write_buf, Imm 0x2000, Imm 0x1deaa000], Count,
    Syscall NR_pwrite64 [Reg 0, Write_buf, Imm 0x2000, Imm 0x1deac000], Count,
    Syscall NR_pwrite64 [Reg 0, Write_buf, Imm 0x200, Imm 0x1deac000], Count,
    Syscall NR_pwrite64 [Reg 0, Write_buf, Imm 0xa00, Imm 0x1deac000], Count,
    Syscall NR_pwrite64 [Reg 0, Write_buf, Imm 0x200, Imm 0x1deaca00], Count,
    Syscall NR_pwrite64 [Reg 0, Write_buf, Imm 0x1600, Imm 0x1deaca00], Count,
    Syscall NR_pwrite64 [Reg 0, Write_buf, Imm 0x2000, Imm 0x1deae000], Count,
    Syscall NR_pwrite64 [Reg 0, Write_buf, Imm 0x2000, Imm 0x1deb0000], Count]"

definition min_mysql_pwrite64_openat_0_0_body92 :: "stmt list" where
  "min_mysql_pwrite64_openat_0_0_body92 = [
    Syscall NR_pwrite64 [Reg 0, Write_buf, Imm 0xc00, Imm 0x1deb1400], Count,
    Syscall NR_pwrite64 [Reg 0, Write_buf, Imm 0x2000, Imm 0x1deb2000], Count,
    Syscall NR_pwrite64 [Reg 0, Write_buf, Imm 0x2000, Imm 0x1deb4000], Count,
    Syscall NR_pwrite64 [Reg 0, Write_buf, Imm 0x200, Imm 0x1deb5e00], Count,
    Syscall NR_pwrite64 [Reg 0, Write_buf, Imm 0x200, Imm 0x1deb5e00], Count,
    Syscall NR_pwrite64 [Reg 0, Write_buf, Imm 0x2000, Imm 0x1deb6000], Count,
    Syscall NR_pwrite64 [Reg 0, Write_buf, Imm 0x2000, Imm 0x1deb8000], Count,
    Syscall NR_pwrite64 [Reg 0, Write_buf, Imm 0x2000, Imm 0x1deba000], Count,
    Syscall NR_pwrite64 [Reg 0, Write_buf, Imm 0x1800, Imm 0x1deba800], Count,
    Syscall NR_pwrite64 [Reg 0, Write_buf, Imm 0x2000, Imm 0x1debc000], Count,
    Syscall NR_pwrite64 [Reg 0, Write_buf, Imm 0x2000, Imm 0x1debe000], Count,
    Syscall NR_pwrite64 [Reg 0, Write_buf, Imm 0xe00, Imm 0x1debf200], Count,
    Syscall NR_pwrite64 [Reg 0, Write_buf, Imm 0x2000, Imm 0x1dec0000], Count]"

definition min_mysql_pwrite64_openat_0_0_body93 :: "stmt list" where
  "min_mysql_pwrite64_openat_0_0_body93 = [
    Syscall NR_pwrite64 [Reg 0, Write_buf, Imm 0x2000, Imm 0x1dec2000], Count,
    Syscall NR_pwrite64 [Reg 0, Write_buf, Imm 0x600, Imm 0x1dec3a00], Count,
    Syscall NR_pwrite64 [Reg 0, Write_buf, Imm 0x2000, Imm 0x1dec4000], Count,
    Syscall NR_pwrite64 [Reg 0, Write_buf, Imm 0x2000, Imm 0x1dec6000], Count,
    Syscall NR_pwrite64 [Reg 0, Write_buf, Imm 0x2000, Imm 0x1dec8000], Count,
    Syscall NR_pwrite64 [Reg 0, Write_buf, Imm 0x1c00, Imm 0x1dec8400], Count,
    Syscall NR_pwrite64 [Reg 0, Write_buf, Imm 0x2000, Imm 0x1deca000], Count,
    Syscall NR_pwrite64 [Reg 0, Write_buf, Imm 0x2000, Imm 0x1decc000], Count,
    Syscall NR_pwrite64 [Reg 0, Write_buf, Imm 0x1200, Imm 0x1decce00], Count,
    Syscall NR_pwrite64 [Reg 0, Write_buf, Imm 0x2000, Imm 0x1dece000], Count,
    Syscall NR_pwrite64 [Reg 0, Write_buf, Imm 0x2000, Imm 0x1ded0000], Count,
    Syscall NR_pwrite64 [Reg 0, Write_buf, Imm 0x800, Imm 0x1ded1800], Count,
    Syscall NR_pwrite64 [Reg 0, Write_buf, Imm 0x2000, Imm 0x1ded2000], Count]"

definition min_mysql_pwrite64_openat_0_0_body94 :: "stmt list" where
  "min_mysql_pwrite64_openat_0_0_body94 = [
    Syscall NR_pwrite64 [Reg 0, Write_buf, Imm 0x2000, Imm 0x1ded4000], Count,
    Syscall NR_pwrite64 [Reg 0, Write_buf, Imm 0x2000, Imm 0x1ded6000], Count,
    Syscall NR_pwrite64 [Reg 0, Write_buf, Imm 0x1e00, Imm 0x1ded6200], Count,
    Syscall NR_pwrite64 [Reg 0, Write_buf, Imm 0x2000, Imm 0x1ded8000], Count,
    Syscall NR_pwrite64 [Reg 0, Write_buf, Imm 0x2000, Imm 0x1deda000], Count,
    Syscall NR_pwrite64 [Reg 0, Write_buf, Imm 0x1400, Imm 0x1dedac00], Count,
    Syscall NR_pwrite64 [Reg 0, Write_buf, Imm 0x2000, Imm 0x1dedc000], Count,
    Syscall NR_pwrite64 [Reg 0, Write_buf, Imm 0x2000, Imm 0x1dede000], Count,
    Syscall NR_pwrite64 [Reg 0, Write_buf, Imm 0xa00, Imm 0x1dedf600], Count,
    Syscall NR_pwrite64 [Reg 0, Write_buf, Imm 0x2000, Imm 0x1dee0000], Count,
    Syscall NR_pwrite64 [Reg 0, Write_buf, Imm 0x2000, Imm 0x1dee2000], Count,
    Syscall NR_pwrite64 [Reg 0, Write_buf, Imm 0x2000, Imm 0x1dee4000], Count,
    Syscall NR_pwrite64 [Reg 0, Write_buf, Imm 0x1000, Imm 0x1dee4000], Count]"

definition min_mysql_pwrite64_openat_0_0_body95 :: "stmt list" where
  "min_mysql_pwrite64_openat_0_0_body95 = [
    Syscall NR_pwrite64 [Reg 0, Write_buf, Imm 0x200, Imm 0x1dee5000], Count,
    Syscall NR_pwrite64 [Reg 0, Write_buf, Imm 0x200, Imm 0x1dee5000], Count,
    Syscall NR_pwrite64 [Reg 0, Write_buf, Imm 0x200, Imm 0x1dee5000], Count,
    Syscall NR_pwrite64 [Reg 0, Write_buf, Imm 0x200, Imm 0x1dee5000], Count,
    Syscall NR_pwrite64 [Reg 0, Write_buf, Imm 0x800, Imm 0x1dee5000], Count,
    Syscall NR_pwrite64 [Reg 0, Write_buf, Imm 0x200, Imm 0x1dee5800], Count,
    Syscall NR_pwrite64 [Reg 0, Write_buf, Imm 0x200, Imm 0x1dee5800], Count,
    Syscall NR_pwrite64 [Reg 0, Write_buf, Imm 0x200, Imm 0x1dee5800], Count,
    Syscall NR_pwrite64 [Reg 0, Write_buf, Imm 0x200, Imm 0x1dee5800], Count,
    Syscall NR_pwrite64 [Reg 0, Write_buf, Imm 0x200, Imm 0x1dee5800], Count,
    Syscall NR_pwrite64 [Reg 0, Write_buf, Imm 0x200, Imm 0x1dee5800], Count,
    Syscall NR_pwrite64 [Reg 0, Write_buf, Imm 0x200, Imm 0x1dee5a00], Count,
    Syscall NR_pwrite64 [Reg 0, Write_buf, Imm 0x600, Imm 0x1dee5a00], Count]"

definition min_mysql_pwrite64_openat_0_0_body96 :: "stmt list" where
  "min_mysql_pwrite64_openat_0_0_body96 = [
    Syscall NR_pwrite64 [Reg 0, Write_buf, Imm 0x2000, Imm 0x1dee6000], Count,
    Syscall NR_pwrite64 [Reg 0, Write_buf, Imm 0x200, Imm 0x1dee6400], Count,
    Syscall NR_pwrite64 [Reg 0, Write_buf, Imm 0x1c00, Imm 0x1dee6400], Count,
    Syscall NR_pwrite64 [Reg 0, Write_buf, Imm 0x2000, Imm 0x1dee8000], Count,
    Syscall NR_pwrite64 [Reg 0, Write_buf, Imm 0x600, Imm 0x1dee8c00], Count,
    Syscall NR_pwrite64 [Reg 0, Write_buf, Imm 0x200, Imm 0x1dee9200], Count,
    Syscall NR_pwrite64 [Reg 0, Write_buf, Imm 0xe00, Imm 0x1dee9200], Count,
    Syscall NR_pwrite64 [Reg 0, Write_buf, Imm 0x2000, Imm 0x1deea000], Count,
    Syscall NR_pwrite64 [Reg 0, Write_buf, Imm 0x200, Imm 0x1deeac00], Count,
    Syscall NR_pwrite64 [Reg 0, Write_buf, Imm 0x200, Imm 0x1deeac00], Count,
    Syscall NR_pwrite64 [Reg 0, Write_buf, Imm 0xe00, Imm 0x1deeac00], Count,
    Syscall NR_pwrite64 [Reg 0, Write_buf, Imm 0x200, Imm 0x1deeba00], Count,
    Syscall NR_pwrite64 [Reg 0, Write_buf, Imm 0x400, Imm 0x1deeba00], Count]"

definition min_mysql_pwrite64_openat_0_0_body97 :: "stmt list" where
  "min_mysql_pwrite64_openat_0_0_body97 = [
    Syscall NR_pwrite64 [Reg 0, Write_buf, Imm 0x200, Imm 0x1deebe00], Count,
    Syscall NR_pwrite64 [Reg 0, Write_buf, Imm 0x200, Imm 0x1deebe00], Count,
    Syscall NR_pwrite64 [Reg 0, Write_buf, Imm 0x200, Imm 0x1deebe00], Count,
    Syscall NR_pwrite64 [Reg 0, Write_buf, Imm 0x2000, Imm 0x1deec000], Count,
    Syscall NR_pwrite64 [Reg 0, Write_buf, Imm 0x200, Imm 0x1deec200], Count,
    Syscall NR_pwrite64 [Reg 0, Write_buf, Imm 0x200, Imm 0x1deec400], Count,
    Syscall NR_pwrite64 [Reg 0, Write_buf, Imm 0x1600, Imm 0x1deec400], Count,
    Syscall NR_pwrite64 [Reg 0, Write_buf, Imm 0x200, Imm 0x1deeda00], Count,
    Syscall NR_pwrite64 [Reg 0, Write_buf, Imm 0x600, Imm 0x1deeda00], Count,
    Syscall NR_pwrite64 [Reg 0, Write_buf, Imm 0x2000, Imm 0x1deee000], Count,
    Syscall NR_pwrite64 [Reg 0, Write_buf, Imm 0x2000, Imm 0x1def0000], Count,
    Syscall NR_pwrite64 [Reg 0, Write_buf, Imm 0x2000, Imm 0x1def2000], Count,
    Syscall NR_pwrite64 [Reg 0, Write_buf, Imm 0x200, Imm 0x1def2600], Count]"

definition min_mysql_pwrite64_openat_0_0_body98 :: "stmt list" where
  "min_mysql_pwrite64_openat_0_0_body98 = [
    Syscall NR_pwrite64 [Reg 0, Write_buf, Imm 0x1a00, Imm 0x1def2600], Count,
    Syscall NR_pwrite64 [Reg 0, Write_buf, Imm 0x2000, Imm 0x1def4000], Count,
    Syscall NR_pwrite64 [Reg 0, Write_buf, Imm 0x2000, Imm 0x1def6000], Count,
    Syscall NR_pwrite64 [Reg 0, Write_buf, Imm 0x2000, Imm 0x1def8000], Count,
    Syscall NR_pwrite64 [Reg 0, Write_buf, Imm 0x2000, Imm 0x1defa000], Count,
    Syscall NR_pwrite64 [Reg 0, Write_buf, Imm 0xa00, Imm 0x1defa400], Count,
    Syscall NR_pwrite64 [Reg 0, Write_buf, Imm 0x200, Imm 0x1defae00], Count,
    Syscall NR_pwrite64 [Reg 0, Write_buf, Imm 0x1200, Imm 0x1defae00], Count,
    Syscall NR_pwrite64 [Reg 0, Write_buf, Imm 0x2000, Imm 0x1defc000], Count,
    Syscall NR_pwrite64 [Reg 0, Write_buf, Imm 0x2000, Imm 0x1defe000], Count,
    Syscall NR_pwrite64 [Reg 0, Write_buf, Imm 0xa00, Imm 0x1deff600], Count,
    Syscall NR_pwrite64 [Reg 0, Write_buf, Imm 0x2000, Imm 0x1df00000], Count,
    Syscall NR_pwrite64 [Reg 0, Write_buf, Imm 0x2000, Imm 0x1df02000], Count]"

definition min_mysql_pwrite64_openat_0_0_body99 :: "stmt list" where
  "min_mysql_pwrite64_openat_0_0_body99 = [
    Syscall NR_pwrite64 [Reg 0, Write_buf, Imm 0x2000, Imm 0x1df04000], Count,
    Syscall NR_pwrite64 [Reg 0, Write_buf, Imm 0x2000, Imm 0x1df04000], Count,
    Syscall NR_pwrite64 [Reg 0, Write_buf, Imm 0x2000, Imm 0x1df06000], Count,
    Syscall NR_pwrite64 [Reg 0, Write_buf, Imm 0x2000, Imm 0x1df08000], Count,
    Syscall NR_pwrite64 [Reg 0, Write_buf, Imm 0x1600, Imm 0x1df08a00], Count,
    Syscall NR_pwrite64 [Reg 0, Write_buf, Imm 0x2000, Imm 0x1df0a000], Count,
    Syscall NR_pwrite64 [Reg 0, Write_buf, Imm 0x2000, Imm 0x1df0c000], Count,
    Syscall NR_pwrite64 [Reg 0, Write_buf, Imm 0xc00, Imm 0x1df0d400], Count,
    Syscall NR_pwrite64 [Reg 0, Write_buf, Imm 0x2000, Imm 0x1df0e000], Count,
    Syscall NR_pwrite64 [Reg 0, Write_buf, Imm 0x2000, Imm 0x1df10000], Count,
    Syscall NR_pwrite64 [Reg 0, Write_buf, Imm 0x200, Imm 0x1df11e00], Count,
    Syscall NR_pwrite64 [Reg 0, Write_buf, Imm 0x2000, Imm 0x1df12000], Count,
    Syscall NR_pwrite64 [Reg 0, Write_buf, Imm 0x2000, Imm 0x1df14000], Count]"

definition min_mysql_pwrite64_openat_0_0_body100 :: "stmt list" where
  "min_mysql_pwrite64_openat_0_0_body100 = [
    Syscall NR_pwrite64 [Reg 0, Write_buf, Imm 0x2000, Imm 0x1df16000], Count,
    Syscall NR_pwrite64 [Reg 0, Write_buf, Imm 0x1800, Imm 0x1df16800], Count,
    Syscall NR_pwrite64 [Reg 0, Write_buf, Imm 0x2000, Imm 0x1df18000], Count,
    Syscall NR_pwrite64 [Reg 0, Write_buf, Imm 0x2000, Imm 0x1df1a000], Count,
    Syscall NR_pwrite64 [Reg 0, Write_buf, Imm 0xe00, Imm 0x1df1b200], Count,
    Syscall NR_pwrite64 [Reg 0, Write_buf, Imm 0x2000, Imm 0x1df1c000], Count,
    Syscall NR_pwrite64 [Reg 0, Write_buf, Imm 0x2000, Imm 0x1df1e000], Count,
    Syscall NR_pwrite64 [Reg 0, Write_buf, Imm 0x400, Imm 0x1df1fc00], Count,
    Syscall NR_pwrite64 [Reg 0, Write_buf, Imm 0x2000, Imm 0x1df20000], Count,
    Syscall NR_pwrite64 [Reg 0, Write_buf, Imm 0x2000, Imm 0x1df22000], Count,
    Syscall NR_pwrite64 [Reg 0, Write_buf, Imm 0x2000, Imm 0x1df24000], Count,
    Syscall NR_pwrite64 [Reg 0, Write_buf, Imm 0x1a00, Imm 0x1df24600], Count,
    Syscall NR_pwrite64 [Reg 0, Write_buf, Imm 0x2000, Imm 0x1df26000], Count]"

definition min_mysql_pwrite64_openat_0_0_body101 :: "stmt list" where
  "min_mysql_pwrite64_openat_0_0_body101 = [
    Syscall NR_pwrite64 [Reg 0, Write_buf, Imm 0x2000, Imm 0x1df28000], Count,
    Syscall NR_pwrite64 [Reg 0, Write_buf, Imm 0x1000, Imm 0x1df29000], Count,
    Syscall NR_pwrite64 [Reg 0, Write_buf, Imm 0x2000, Imm 0x1df2a000], Count,
    Syscall NR_pwrite64 [Reg 0, Write_buf, Imm 0x2000, Imm 0x1df2c000], Count,
    Syscall NR_pwrite64 [Reg 0, Write_buf, Imm 0x600, Imm 0x1df2da00], Count,
    Syscall NR_pwrite64 [Reg 0, Write_buf, Imm 0x2000, Imm 0x1df2e000], Count,
    Syscall NR_pwrite64 [Reg 0, Write_buf, Imm 0x2000, Imm 0x1df30000], Count,
    Syscall NR_pwrite64 [Reg 0, Write_buf, Imm 0x2000, Imm 0x1df32000], Count,
    Syscall NR_pwrite64 [Reg 0, Write_buf, Imm 0x1000, Imm 0x1df32400], Count,
    Syscall NR_pwrite64 [Reg 0, Write_buf, Imm 0x200, Imm 0x1df33400], Count,
    Syscall NR_pwrite64 [Reg 0, Write_buf, Imm 0x200, Imm 0x1df33400], Count,
    Syscall NR_pwrite64 [Reg 0, Write_buf, Imm 0x200, Imm 0x1df33400], Count,
    Syscall NR_pwrite64 [Reg 0, Write_buf, Imm 0x400, Imm 0x1df33400], Count]"

definition min_mysql_pwrite64_openat_0_0_body102 :: "stmt list" where
  "min_mysql_pwrite64_openat_0_0_body102 = [
    Syscall NR_pwrite64 [Reg 0, Write_buf, Imm 0x200, Imm 0x1df33800], Count,
    Syscall NR_pwrite64 [Reg 0, Write_buf, Imm 0x200, Imm 0x1df33800], Count,
    Syscall NR_pwrite64 [Reg 0, Write_buf, Imm 0x200, Imm 0x1df33a00], Count,
    Syscall NR_pwrite64 [Reg 0, Write_buf, Imm 0x200, Imm 0x1df33a00], Count,
    Syscall NR_pwrite64 [Reg 0, Write_buf, Imm 0x200, Imm 0x1df33a00], Count,
    Syscall NR_pwrite64 [Reg 0, Write_buf, Imm 0x200, Imm 0x1df33a00], Count,
    Syscall NR_pwrite64 [Reg 0, Write_buf, Imm 0x200, Imm 0x1df33a00], Count,
    Syscall NR_pwrite64 [Reg 0, Write_buf, Imm 0x200, Imm 0x1df33c00], Count,
    Syscall NR_pwrite64 [Reg 0, Write_buf, Imm 0x400, Imm 0x1df33c00], Count,
    Syscall NR_pwrite64 [Reg 0, Write_buf, Imm 0x2000, Imm 0x1df34000], Count,
    Syscall NR_pwrite64 [Reg 0, Write_buf, Imm 0x200, Imm 0x1df34200], Count,
    Syscall NR_pwrite64 [Reg 0, Write_buf, Imm 0x800, Imm 0x1df34200], Count,
    Syscall NR_pwrite64 [Reg 0, Write_buf, Imm 0x400, Imm 0x1df34a00], Count]"

definition min_mysql_pwrite64_openat_0_0_body103 :: "stmt list" where
  "min_mysql_pwrite64_openat_0_0_body103 = [
    Syscall NR_pwrite64 [Reg 0, Write_buf, Imm 0x200, Imm 0x1df34e00], Count,
    Syscall NR_pwrite64 [Reg 0, Write_buf, Imm 0x200, Imm 0x1df34e00], Count,
    Syscall NR_pwrite64 [Reg 0, Write_buf, Imm 0x200, Imm 0x1df35000], Count,
    Syscall NR_pwrite64 [Reg 0, Write_buf, Imm 0x400, Imm 0x1df35200], Count,
    Syscall NR_pwrite64 [Reg 0, Write_buf, Imm 0x600, Imm 0x1df35600], Count,
    Syscall NR_pwrite64 [Reg 0, Write_buf, Imm 0x200, Imm 0x1df35c00], Count,
    Syscall NR_pwrite64 [Reg 0, Write_buf, Imm 0x400, Imm 0x1df35c00], Count,
    Syscall NR_pwrite64 [Reg 0, Write_buf, Imm 0x2000, Imm 0x1df36000], Count,
    Syscall NR_pwrite64 [Reg 0, Write_buf, Imm 0xc00, Imm 0x1df36800], Count,
    Syscall NR_pwrite64 [Reg 0, Write_buf, Imm 0x200, Imm 0x1df37400], Count,
    Syscall NR_pwrite64 [Reg 0, Write_buf, Imm 0xc00, Imm 0x1df37400], Count,
    Syscall NR_pwrite64 [Reg 0, Write_buf, Imm 0x2000, Imm 0x1df38000], Count,
    Syscall NR_pwrite64 [Reg 0, Write_buf, Imm 0x2000, Imm 0x1df3a000], Count]"

definition min_mysql_pwrite64_openat_0_0_body104 :: "stmt list" where
  "min_mysql_pwrite64_openat_0_0_body104 = [
    Syscall NR_pwrite64 [Reg 0, Write_buf, Imm 0x2000, Imm 0x1df3c000], Count,
    Syscall NR_pwrite64 [Reg 0, Write_buf, Imm 0x2000, Imm 0x1df3e000], Count,
    Syscall NR_pwrite64 [Reg 0, Write_buf, Imm 0x600, Imm 0x1df3e800], Count,
    Syscall NR_pwrite64 [Reg 0, Write_buf, Imm 0x200, Imm 0x1df3ee00], Count,
    Syscall NR_pwrite64 [Reg 0, Write_buf, Imm 0x200, Imm 0x1df3ee00], Count,
    Syscall NR_pwrite64 [Reg 0, Write_buf, Imm 0x200, Imm 0x1df3f000], Count,
    Syscall NR_pwrite64 [Reg 0, Write_buf, Imm 0xe00, Imm 0x1df3f000], Count,
    Syscall NR_pwrite64 [Reg 0, Write_buf, Imm 0x200, Imm 0x1df3fe00], Count,
    Syscall NR_pwrite64 [Reg 0, Write_buf, Imm 0x200, Imm 0x1df3fe00], Count,
    Syscall NR_pwrite64 [Reg 0, Write_buf, Imm 0x200, Imm 0x1df3fe00], Count,
    Syscall NR_pwrite64 [Reg 0, Write_buf, Imm 0x2000, Imm 0x1df40000], Count,
    Syscall NR_pwrite64 [Reg 0, Write_buf, Imm 0x400, Imm 0x1df40400], Count,
    Syscall NR_pwrite64 [Reg 0, Write_buf, Imm 0x200, Imm 0x1df40800], Count]"

definition min_mysql_pwrite64_openat_0_0_body105 :: "stmt list" where
  "min_mysql_pwrite64_openat_0_0_body105 = [
    Syscall NR_pwrite64 [Reg 0, Write_buf, Imm 0x200, Imm 0x1df40800], Count,
    Syscall NR_pwrite64 [Reg 0, Write_buf, Imm 0x600, Imm 0x1df40800], Count,
    Syscall NR_pwrite64 [Reg 0, Write_buf, Imm 0x200, Imm 0x1df40e00], Count,
    Syscall NR_pwrite64 [Reg 0, Write_buf, Imm 0x1200, Imm 0x1df40e00], Count,
    Syscall NR_pwrite64 [Reg 0, Write_buf, Imm 0x2000, Imm 0x1df42000], Count,
    Syscall NR_pwrite64 [Reg 0, Write_buf, Imm 0x1c00, Imm 0x1df42400], Count,
    Syscall NR_pwrite64 [Reg 0, Write_buf, Imm 0x2000, Imm 0x1df44000], Count,
    Syscall NR_pwrite64 [Reg 0, Write_buf, Imm 0x2000, Imm 0x1df46000], Count,
    Syscall NR_pwrite64 [Reg 0, Write_buf, Imm 0x200, Imm 0x1df47200], Count,
    Syscall NR_pwrite64 [Reg 0, Write_buf, Imm 0xe00, Imm 0x1df47200], Count,
    Syscall NR_pwrite64 [Reg 0, Write_buf, Imm 0x2000, Imm 0x1df48000], Count,
    Syscall NR_pwrite64 [Reg 0, Write_buf, Imm 0x2000, Imm 0x1df4a000], Count,
    Syscall NR_pwrite64 [Reg 0, Write_buf, Imm 0x2000, Imm 0x1df4c000], Count]"

definition min_mysql_pwrite64_openat_0_0_body106 :: "stmt list" where
  "min_mysql_pwrite64_openat_0_0_body106 = [
    Syscall NR_pwrite64 [Reg 0, Write_buf, Imm 0x2000, Imm 0x1df4e000], Count,
    Syscall NR_pwrite64 [Reg 0, Write_buf, Imm 0x800, Imm 0x1df4f000], Count,
    Syscall NR_pwrite64 [Reg 0, Write_buf, Imm 0x200, Imm 0x1df4f800], Count,
    Syscall NR_pwrite64 [Reg 0, Write_buf, Imm 0x800, Imm 0x1df4f800], Count,
    Syscall NR_pwrite64 [Reg 0, Write_buf, Imm 0x2000, Imm 0x1df50000], Count,
    Syscall NR_pwrite64 [Reg 0, Write_buf, Imm 0x2000, Imm 0x1df52000], Count,
    Syscall NR_pwrite64 [Reg 0, Write_buf, Imm 0x2000, Imm 0x1df54000], Count,
    Syscall NR_pwrite64 [Reg 0, Write_buf, Imm 0x200, Imm 0x1df54200], Count,
    Syscall NR_pwrite64 [Reg 0, Write_buf, Imm 0x1e00, Imm 0x1df54200], Count,
    Syscall NR_pwrite64 [Reg 0, Write_buf, Imm 0x2000, Imm 0x1df56000], Count,
    Syscall NR_pwrite64 [Reg 0, Write_buf, Imm 0x2000, Imm 0x1df58000], Count,
    Syscall NR_pwrite64 [Reg 0, Write_buf, Imm 0x1400, Imm 0x1df58c00], Count,
    Syscall NR_pwrite64 [Reg 0, Write_buf, Imm 0x2000, Imm 0x1df5a000], Count]"

definition min_mysql_pwrite64_openat_0_0_body107 :: "stmt list" where
  "min_mysql_pwrite64_openat_0_0_body107 = [
    Syscall NR_pwrite64 [Reg 0, Write_buf, Imm 0x2000, Imm 0x1df5c000], Count,
    Syscall NR_pwrite64 [Reg 0, Write_buf, Imm 0xa00, Imm 0x1df5d600], Count,
    Syscall NR_pwrite64 [Reg 0, Write_buf, Imm 0x2000, Imm 0x1df5e000], Count,
    Syscall NR_pwrite64 [Reg 0, Write_buf, Imm 0x2000, Imm 0x1df60000], Count,
    Syscall NR_pwrite64 [Reg 0, Write_buf, Imm 0x2000, Imm 0x1df62000], Count,
    Syscall NR_pwrite64 [Reg 0, Write_buf, Imm 0x200, Imm 0x1df62000], Count,
    Syscall NR_pwrite64 [Reg 0, Write_buf, Imm 0x2000, Imm 0x1df62000], Count,
    Syscall NR_pwrite64 [Reg 0, Write_buf, Imm 0x2000, Imm 0x1df64000], Count,
    Syscall NR_pwrite64 [Reg 0, Write_buf, Imm 0x2000, Imm 0x1df66000], Count,
    Syscall NR_pwrite64 [Reg 0, Write_buf, Imm 0x1600, Imm 0x1df66a00], Count,
    Syscall NR_pwrite64 [Reg 0, Write_buf, Imm 0x2000, Imm 0x1df68000], Count,
    Syscall NR_pwrite64 [Reg 0, Write_buf, Imm 0x2000, Imm 0x1df6a000], Count,
    Syscall NR_pwrite64 [Reg 0, Write_buf, Imm 0xc00, Imm 0x1df6b400], Count]"

definition min_mysql_pwrite64_openat_0_0_body108 :: "stmt list" where
  "min_mysql_pwrite64_openat_0_0_body108 = [
    Syscall NR_pwrite64 [Reg 0, Write_buf, Imm 0x2000, Imm 0x1df6c000], Count,
    Syscall NR_pwrite64 [Reg 0, Write_buf, Imm 0x2000, Imm 0x1df6e000], Count,
    Syscall NR_pwrite64 [Reg 0, Write_buf, Imm 0x200, Imm 0x1df6fe00], Count,
    Syscall NR_pwrite64 [Reg 0, Write_buf, Imm 0x2000, Imm 0x1df70000], Count,
    Syscall NR_pwrite64 [Reg 0, Write_buf, Imm 0x2000, Imm 0x1df72000], Count,
    Syscall NR_pwrite64 [Reg 0, Write_buf, Imm 0x2000, Imm 0x1df74000], Count,
    Syscall NR_pwrite64 [Reg 0, Write_buf, Imm 0x1800, Imm 0x1df74800], Count,
    Syscall NR_pwrite64 [Reg 0, Write_buf, Imm 0x2000, Imm 0x1df76000], Count,
    Syscall NR_pwrite64 [Reg 0, Write_buf, Imm 0x2000, Imm 0x1df78000], Count,
    Syscall NR_pwrite64 [Reg 0, Write_buf, Imm 0xe00, Imm 0x1df79200], Count,
    Syscall NR_pwrite64 [Reg 0, Write_buf, Imm 0x2000, Imm 0x1df7a000], Count,
    Syscall NR_pwrite64 [Reg 0, Write_buf, Imm 0x2000, Imm 0x1df7c000], Count,
    Syscall NR_pwrite64 [Reg 0, Write_buf, Imm 0x400, Imm 0x1df7dc00], Count]"

definition min_mysql_pwrite64_openat_0_0_body109 :: "stmt list" where
  "min_mysql_pwrite64_openat_0_0_body109 = [
    Syscall NR_pwrite64 [Reg 0, Write_buf, Imm 0x2000, Imm 0x1df7e000], Count,
    Syscall NR_pwrite64 [Reg 0, Write_buf, Imm 0x2000, Imm 0x1df80000], Count,
    Syscall NR_pwrite64 [Reg 0, Write_buf, Imm 0x2000, Imm 0x1df82000], Count,
    Syscall NR_pwrite64 [Reg 0, Write_buf, Imm 0x1a00, Imm 0x1df82600], Count,
    Syscall NR_pwrite64 [Reg 0, Write_buf, Imm 0x2000, Imm 0x1df84000], Count,
    Syscall NR_pwrite64 [Reg 0, Write_buf, Imm 0x2000, Imm 0x1df86000], Count,
    Syscall NR_pwrite64 [Reg 0, Write_buf, Imm 0x1000, Imm 0x1df86e00], Count,
    Syscall NR_pwrite64 [Reg 0, Write_buf, Imm 0x200, Imm 0x1df87e00], Count,
    Syscall NR_pwrite64 [Reg 0, Write_buf, Imm 0x200, Imm 0x1df87e00], Count,
    Syscall NR_pwrite64 [Reg 0, Write_buf, Imm 0x200, Imm 0x1df87e00], Count,
    Syscall NR_pwrite64 [Reg 0, Write_buf, Imm 0x200, Imm 0x1df87e00], Count,
    Syscall NR_pwrite64 [Reg 0, Write_buf, Imm 0x200, Imm 0x1df87e00], Count,
    Syscall NR_pwrite64 [Reg 0, Write_buf, Imm 0x2000, Imm 0x1df88000], Count]"

definition min_mysql_pwrite64_openat_0_0_body110 :: "stmt list" where
  "min_mysql_pwrite64_openat_0_0_body110 = [
    Syscall NR_pwrite64 [Reg 0, Write_buf, Imm 0x200, Imm 0x1df88600], Count,
    Syscall NR_pwrite64 [Reg 0, Write_buf, Imm 0x200, Imm 0x1df88800], Count,
    Syscall NR_pwrite64 [Reg 0, Write_buf, Imm 0x200, Imm 0x1df88800], Count,
    Syscall NR_pwrite64 [Reg 0, Write_buf, Imm 0x200, Imm 0x1df88800], Count,
    Syscall NR_pwrite64 [Reg 0, Write_buf, Imm 0x200, Imm 0x1df88800], Count,
    Syscall NR_pwrite64 [Reg 0, Write_buf, Imm 0x200, Imm 0x1df88800], Count,
    Syscall NR_pwrite64 [Reg 0, Write_buf, Imm 0x200, Imm 0x1df88800], Count,
    Syscall NR_pwrite64 [Reg 0, Write_buf, Imm 0x400, Imm 0x1df88800], Count,
    Syscall NR_pwrite64 [Reg 0, Write_buf, Imm 0x200, Imm 0x1df88c00], Count,
    Syscall NR_pwrite64 [Reg 0, Write_buf, Imm 0xa00, Imm 0x1df88c00], Count,
    Syscall NR_pwrite64 [Reg 0, Write_buf, Imm 0x200, Imm 0x1df89600], Count,
    Syscall NR_pwrite64 [Reg 0, Write_buf, Imm 0xa00, Imm 0x1df89600], Count,
    Syscall NR_pwrite64 [Reg 0, Write_buf, Imm 0x2000, Imm 0x1df8a000], Count]"

definition min_mysql_pwrite64_openat_0_0_body111 :: "stmt list" where
  "min_mysql_pwrite64_openat_0_0_body111 = [
    Syscall NR_pwrite64 [Reg 0, Write_buf, Imm 0x200, Imm 0x1df8be00], Count,
    Syscall NR_pwrite64 [Reg 0, Write_buf, Imm 0x2000, Imm 0x1df8c000], Count,
    Syscall NR_pwrite64 [Reg 0, Write_buf, Imm 0x1600, Imm 0x1df8c800], Count,
    Syscall NR_pwrite64 [Reg 0, Write_buf, Imm 0x200, Imm 0x1df8de00], Count,
    Syscall NR_pwrite64 [Reg 0, Write_buf, Imm 0x200, Imm 0x1df8de00], Count,
    Syscall NR_pwrite64 [Reg 0, Write_buf, Imm 0x200, Imm 0x1df8de00], Count,
    Syscall NR_pwrite64 [Reg 0, Write_buf, Imm 0x200, Imm 0x1df8de00], Count,
    Syscall NR_pwrite64 [Reg 0, Write_buf, Imm 0x2000, Imm 0x1df8e000], Count,
    Syscall NR_pwrite64 [Reg 0, Write_buf, Imm 0x800, Imm 0x1df8ec00], Count,
    Syscall NR_pwrite64 [Reg 0, Write_buf, Imm 0x200, Imm 0x1df8f400], Count,
    Syscall NR_pwrite64 [Reg 0, Write_buf, Imm 0x600, Imm 0x1df8f400], Count,
    Syscall NR_pwrite64 [Reg 0, Write_buf, Imm 0x200, Imm 0x1df8fa00], Count,
    Syscall NR_pwrite64 [Reg 0, Write_buf, Imm 0x200, Imm 0x1df8fa00], Count]"

definition min_mysql_pwrite64_openat_0_0_body112 :: "stmt list" where
  "min_mysql_pwrite64_openat_0_0_body112 = [
    Syscall NR_pwrite64 [Reg 0, Write_buf, Imm 0x200, Imm 0x1df8fc00], Count,
    Syscall NR_pwrite64 [Reg 0, Write_buf, Imm 0x400, Imm 0x1df8fc00], Count,
    Syscall NR_pwrite64 [Reg 0, Write_buf, Imm 0x2000, Imm 0x1df90000], Count,
    Syscall NR_pwrite64 [Reg 0, Write_buf, Imm 0x200, Imm 0x1df91200], Count,
    Syscall NR_pwrite64 [Reg 0, Write_buf, Imm 0x200, Imm 0x1df91400], Count,
    Syscall NR_pwrite64 [Reg 0, Write_buf, Imm 0xc00, Imm 0x1df91400], Count,
    Syscall NR_pwrite64 [Reg 0, Write_buf, Imm 0x2000, Imm 0x1df92000], Count,
    Syscall NR_pwrite64 [Reg 0, Write_buf, Imm 0x2000, Imm 0x1df94000], Count,
    Syscall NR_pwrite64 [Reg 0, Write_buf, Imm 0x2000, Imm 0x1df96000], Count,
    Syscall NR_pwrite64 [Reg 0, Write_buf, Imm 0x800, Imm 0x1df96000], Count,
    Syscall NR_pwrite64 [Reg 0, Write_buf, Imm 0x200, Imm 0x1df96800], Count,
    Syscall NR_pwrite64 [Reg 0, Write_buf, Imm 0x1800, Imm 0x1df96800], Count,
    Syscall NR_pwrite64 [Reg 0, Write_buf, Imm 0x2000, Imm 0x1df98000], Count]"

definition min_mysql_pwrite64_openat_0_0_body113 :: "stmt list" where
  "min_mysql_pwrite64_openat_0_0_body113 = [
    Syscall NR_pwrite64 [Reg 0, Write_buf, Imm 0x2000, Imm 0x1df9a000], Count,
    Syscall NR_pwrite64 [Reg 0, Write_buf, Imm 0x2000, Imm 0x1df9c000], Count,
    Syscall NR_pwrite64 [Reg 0, Write_buf, Imm 0x2000, Imm 0x1df9e000], Count,
    Syscall NR_pwrite64 [Reg 0, Write_buf, Imm 0x600, Imm 0x1df9e600], Count,
    Syscall NR_pwrite64 [Reg 0, Write_buf, Imm 0x400, Imm 0x1df9ec00], Count,
    Syscall NR_pwrite64 [Reg 0, Write_buf, Imm 0x200, Imm 0x1df9f000], Count,
    Syscall NR_pwrite64 [Reg 0, Write_buf, Imm 0x200, Imm 0x1df9f200], Count,
    Syscall NR_pwrite64 [Reg 0, Write_buf, Imm 0xe00, Imm 0x1df9f200], Count,
    Syscall NR_pwrite64 [Reg 0, Write_buf, Imm 0x2000, Imm 0x1dfa0000], Count,
    Syscall NR_pwrite64 [Reg 0, Write_buf, Imm 0x2000, Imm 0x1dfa2000], Count,
    Syscall NR_pwrite64 [Reg 0, Write_buf, Imm 0x200, Imm 0x1dfa3c00], Count,
    Syscall NR_pwrite64 [Reg 0, Write_buf, Imm 0x400, Imm 0x1dfa3c00], Count,
    Syscall NR_pwrite64 [Reg 0, Write_buf, Imm 0x2000, Imm 0x1dfa4000], Count]"

definition min_mysql_pwrite64_openat_0_0_body114 :: "stmt list" where
  "min_mysql_pwrite64_openat_0_0_body114 = [
    Syscall NR_pwrite64 [Reg 0, Write_buf, Imm 0x2000, Imm 0x1dfa6000], Count,
    Syscall NR_pwrite64 [Reg 0, Write_buf, Imm 0x2000, Imm 0x1dfa8000], Count,
    Syscall NR_pwrite64 [Reg 0, Write_buf, Imm 0x1a00, Imm 0x1dfa8600], Count,
    Syscall NR_pwrite64 [Reg 0, Write_buf, Imm 0x2000, Imm 0x1dfaa000], Count,
    Syscall NR_pwrite64 [Reg 0, Write_buf, Imm 0x2000, Imm 0x1dfac000], Count,
    Syscall NR_pwrite64 [Reg 0, Write_buf, Imm 0x1000, Imm 0x1dfad000], Count,
    Syscall NR_pwrite64 [Reg 0, Write_buf, Imm 0x2000, Imm 0x1dfae000], Count,
    Syscall NR_pwrite64 [Reg 0, Write_buf, Imm 0x2000, Imm 0x1dfb0000], Count,
    Syscall NR_pwrite64 [Reg 0, Write_buf, Imm 0x600, Imm 0x1dfb1a00], Count,
    Syscall NR_pwrite64 [Reg 0, Write_buf, Imm 0x2000, Imm 0x1dfb2000], Count,
    Syscall NR_pwrite64 [Reg 0, Write_buf, Imm 0x2000, Imm 0x1dfb4000], Count,
    Syscall NR_pwrite64 [Reg 0, Write_buf, Imm 0x2000, Imm 0x1dfb6000], Count,
    Syscall NR_pwrite64 [Reg 0, Write_buf, Imm 0x1c00, Imm 0x1dfb6400], Count]"

definition min_mysql_pwrite64_openat_0_0_body115 :: "stmt list" where
  "min_mysql_pwrite64_openat_0_0_body115 = [
    Syscall NR_pwrite64 [Reg 0, Write_buf, Imm 0x2000, Imm 0x1dfb8000], Count,
    Syscall NR_pwrite64 [Reg 0, Write_buf, Imm 0x2000, Imm 0x1dfba000], Count,
    Syscall NR_pwrite64 [Reg 0, Write_buf, Imm 0x1200, Imm 0x1dfbae00], Count,
    Syscall NR_pwrite64 [Reg 0, Write_buf, Imm 0x2000, Imm 0x1dfbc000], Count,
    Syscall NR_pwrite64 [Reg 0, Write_buf, Imm 0x2000, Imm 0x1dfbe000], Count,
    Syscall NR_pwrite64 [Reg 0, Write_buf, Imm 0x800, Imm 0x1dfbf800], Count,
    Syscall NR_pwrite64 [Reg 0, Write_buf, Imm 0x2000, Imm 0x1dfc0000], Count,
    Syscall NR_pwrite64 [Reg 0, Write_buf, Imm 0x2000, Imm 0x1dfc2000], Count,
    Syscall NR_pwrite64 [Reg 0, Write_buf, Imm 0x2000, Imm 0x1dfc4000], Count,
    Syscall NR_pwrite64 [Reg 0, Write_buf, Imm 0x1e00, Imm 0x1dfc4200], Count,
    Syscall NR_pwrite64 [Reg 0, Write_buf, Imm 0x2000, Imm 0x1dfc6000], Count,
    Syscall NR_pwrite64 [Reg 0, Write_buf, Imm 0x2000, Imm 0x1dfc8000], Count,
    Syscall NR_pwrite64 [Reg 0, Write_buf, Imm 0x1400, Imm 0x1dfc8c00], Count]"

definition min_mysql_pwrite64_openat_0_0_body116 :: "stmt list" where
  "min_mysql_pwrite64_openat_0_0_body116 = [
    Syscall NR_pwrite64 [Reg 0, Write_buf, Imm 0x2000, Imm 0x1dfca000], Count,
    Syscall NR_pwrite64 [Reg 0, Write_buf, Imm 0x2000, Imm 0x1dfcc000], Count,
    Syscall NR_pwrite64 [Reg 0, Write_buf, Imm 0xa00, Imm 0x1dfcd600], Count,
    Syscall NR_pwrite64 [Reg 0, Write_buf, Imm 0x2000, Imm 0x1dfce000], Count,
    Syscall NR_pwrite64 [Reg 0, Write_buf, Imm 0x2000, Imm 0x1dfd0000], Count,
    Syscall NR_pwrite64 [Reg 0, Write_buf, Imm 0x2000, Imm 0x1dfd2000], Count,
    Syscall NR_pwrite64 [Reg 0, Write_buf, Imm 0x2000, Imm 0x1dfd2000], Count,
    Syscall NR_pwrite64 [Reg 0, Write_buf, Imm 0x2000, Imm 0x1dfd4000], Count,
    Syscall NR_pwrite64 [Reg 0, Write_buf, Imm 0x2000, Imm 0x1dfd6000], Count,
    Syscall NR_pwrite64 [Reg 0, Write_buf, Imm 0x1000, Imm 0x1dfd6a00], Count,
    Syscall NR_pwrite64 [Reg 0, Write_buf, Imm 0x200, Imm 0x1dfd7a00], Count,
    Syscall NR_pwrite64 [Reg 0, Write_buf, Imm 0x200, Imm 0x1dfd7a00], Count,
    Syscall NR_pwrite64 [Reg 0, Write_buf, Imm 0x200, Imm 0x1dfd7a00], Count]"

definition min_mysql_pwrite64_openat_0_0_body117 :: "stmt list" where
  "min_mysql_pwrite64_openat_0_0_body117 = [
    Syscall NR_pwrite64 [Reg 0, Write_buf, Imm 0x200, Imm 0x1dfd7a00], Count,
    Syscall NR_pwrite64 [Reg 0, Write_buf, Imm 0x600, Imm 0x1dfd7a00], Count,
    Syscall NR_pwrite64 [Reg 0, Write_buf, Imm 0x2000, Imm 0x1dfd8000], Count,
    Syscall NR_pwrite64 [Reg 0, Write_buf, Imm 0x200, Imm 0x1dfd8200], Count,
    Syscall NR_pwrite64 [Reg 0, Write_buf, Imm 0x200, Imm 0x1dfd8200], Count,
    Syscall NR_pwrite64 [Reg 0, Write_buf, Imm 0x200, Imm 0x1dfd8200], Count,
    Syscall NR_pwrite64 [Reg 0, Write_buf, Imm 0x200, Imm 0x1dfd8200], Count,
    Syscall NR_pwrite64 [Reg 0, Write_buf, Imm 0x200, Imm 0x1dfd8200], Count,
    Syscall NR_pwrite64 [Reg 0, Write_buf, Imm 0x200, Imm 0x1dfd8200], Count,
    Syscall NR_pwrite64 [Reg 0, Write_buf, Imm 0x200, Imm 0x1dfd8400], Count,
    Syscall NR_pwrite64 [Reg 0, Write_buf, Imm 0x600, Imm 0x1dfd8400], Count,
    Syscall NR_pwrite64 [Reg 0, Write_buf, Imm 0x200, Imm 0x1dfd8a00], Count,
    Syscall NR_pwrite64 [Reg 0, Write_buf, Imm 0x1600, Imm 0x1dfd8a00], Count]"

definition min_mysql_pwrite64_openat_0_0_body118 :: "stmt list" where
  "min_mysql_pwrite64_openat_0_0_body118 = [
    Syscall NR_pwrite64 [Reg 0, Write_buf, Imm 0x2000, Imm 0x1dfda000], Count,
    Syscall NR_pwrite64 [Reg 0, Write_buf, Imm 0x200, Imm 0x1dfdb400], Count,
    Syscall NR_pwrite64 [Reg 0, Write_buf, Imm 0x600, Imm 0x1dfdb400], Count,
    Syscall NR_pwrite64 [Reg 0, Write_buf, Imm 0x200, Imm 0x1dfdba00], Count,
    Syscall NR_pwrite64 [Reg 0, Write_buf, Imm 0x600, Imm 0x1dfdba00], Count,
    Syscall NR_pwrite64 [Reg 0, Write_buf, Imm 0x2000, Imm 0x1dfdc000], Count,
    Syscall NR_pwrite64 [Reg 0, Write_buf, Imm 0x200, Imm 0x1dfdd800], Count,
    Syscall NR_pwrite64 [Reg 0, Write_buf, Imm 0x200, Imm 0x1dfdd800], Count,
    Syscall NR_pwrite64 [Reg 0, Write_buf, Imm 0x800, Imm 0x1dfdd800], Count,
    Syscall NR_pwrite64 [Reg 0, Write_buf, Imm 0x2000, Imm 0x1dfde000], Count,
    Syscall NR_pwrite64 [Reg 0, Write_buf, Imm 0xa00, Imm 0x1dfde200], Count,
    Syscall NR_pwrite64 [Reg 0, Write_buf, Imm 0x200, Imm 0x1dfdec00], Count,
    Syscall NR_pwrite64 [Reg 0, Write_buf, Imm 0x600, Imm 0x1dfdec00], Count]"

definition min_mysql_pwrite64_openat_0_0_body119 :: "stmt list" where
  "min_mysql_pwrite64_openat_0_0_body119 = [
    Syscall NR_pwrite64 [Reg 0, Write_buf, Imm 0x200, Imm 0x1dfdf200], Count,
    Syscall NR_pwrite64 [Reg 0, Write_buf, Imm 0xa00, Imm 0x1dfdf200], Count,
    Syscall NR_pwrite64 [Reg 0, Write_buf, Imm 0x200, Imm 0x1dfdfc00], Count,
    Syscall NR_pwrite64 [Reg 0, Write_buf, Imm 0x200, Imm 0x1dfdfc00], Count,
    Syscall NR_pwrite64 [Reg 0, Write_buf, Imm 0x400, Imm 0x1dfdfc00], Count,
    Syscall NR_pwrite64 [Reg 0, Write_buf, Imm 0x2000, Imm 0x1dfe0000], Count,
    Syscall NR_pwrite64 [Reg 0, Write_buf, Imm 0x1000, Imm 0x1dfe1000], Count,
    Syscall NR_pwrite64 [Reg 0, Write_buf, Imm 0x2000, Imm 0x1dfe2000], Count,
    Syscall NR_pwrite64 [Reg 0, Write_buf, Imm 0x2000, Imm 0x1dfe4000], Count,
    Syscall NR_pwrite64 [Reg 0, Write_buf, Imm 0x200, Imm 0x1dfe5e00], Count,
    Syscall NR_pwrite64 [Reg 0, Write_buf, Imm 0x200, Imm 0x1dfe5e00], Count,
    Syscall NR_pwrite64 [Reg 0, Write_buf, Imm 0x200, Imm 0x1dfe5e00], Count,
    Syscall NR_pwrite64 [Reg 0, Write_buf, Imm 0x2000, Imm 0x1dfe6000], Count]"

definition min_mysql_pwrite64_openat_0_0_body120 :: "stmt list" where
  "min_mysql_pwrite64_openat_0_0_body120 = [
    Syscall NR_pwrite64 [Reg 0, Write_buf, Imm 0x2000, Imm 0x1dfe8000], Count,
    Syscall NR_pwrite64 [Reg 0, Write_buf, Imm 0x2000, Imm 0x1dfea000], Count,
    Syscall NR_pwrite64 [Reg 0, Write_buf, Imm 0x2000, Imm 0x1dfec000], Count,
    Syscall NR_pwrite64 [Reg 0, Write_buf, Imm 0x400, Imm 0x1dfedc00], Count,
    Syscall NR_pwrite64 [Reg 0, Write_buf, Imm 0x2000, Imm 0x1dfee000], Count,
    Syscall NR_pwrite64 [Reg 0, Write_buf, Imm 0x1a00, Imm 0x1dfee600], Count,
    Syscall NR_pwrite64 [Reg 0, Write_buf, Imm 0x2000, Imm 0x1dff0000], Count,
    Syscall NR_pwrite64 [Reg 0, Write_buf, Imm 0x2000, Imm 0x1dff2000], Count,
    Syscall NR_pwrite64 [Reg 0, Write_buf, Imm 0x1000, Imm 0x1dff3000], Count,
    Syscall NR_pwrite64 [Reg 0, Write_buf, Imm 0x2000, Imm 0x1dff4000], Count,
    Syscall NR_pwrite64 [Reg 0, Write_buf, Imm 0x2000, Imm 0x1dff6000], Count,
    Syscall NR_pwrite64 [Reg 0, Write_buf, Imm 0x200, Imm 0x1dff7a00], Count,
    Syscall NR_pwrite64 [Reg 0, Write_buf, Imm 0x600, Imm 0x1dff7a00], Count]"

lemma min_mysql_pwrite64_openat_0_0_body1_ok: "body_ok (Suc 0) 8192 min_mysql_pwrite64_openat_0_0_body1" "counted min_mysql_pwrite64_openat_0_0_body1" "calls min_mysql_pwrite64_openat_0_0_body1 = 10" "opened_in m min_mysql_pwrite64_openat_0_0_body1 = [Some ''./#innodb_redo/#ib_redo592'']"
  by (simp_all add: min_mysql_pwrite64_openat_0_0_body1_def prog_checks open_checks)

lemma min_mysql_pwrite64_openat_0_0_body2_ok: "body_ok (Suc 0) 8192 min_mysql_pwrite64_openat_0_0_body2" "counted min_mysql_pwrite64_openat_0_0_body2" "calls min_mysql_pwrite64_openat_0_0_body2 = 13" "opened_in m min_mysql_pwrite64_openat_0_0_body2 = []"
  by (simp_all add: min_mysql_pwrite64_openat_0_0_body2_def prog_checks open_checks)

lemma min_mysql_pwrite64_openat_0_0_body3_ok: "body_ok (Suc 0) 8192 min_mysql_pwrite64_openat_0_0_body3" "counted min_mysql_pwrite64_openat_0_0_body3" "calls min_mysql_pwrite64_openat_0_0_body3 = 13" "opened_in m min_mysql_pwrite64_openat_0_0_body3 = []"
  by (simp_all add: min_mysql_pwrite64_openat_0_0_body3_def prog_checks open_checks)

lemma min_mysql_pwrite64_openat_0_0_body4_ok: "body_ok (Suc 0) 8192 min_mysql_pwrite64_openat_0_0_body4" "counted min_mysql_pwrite64_openat_0_0_body4" "calls min_mysql_pwrite64_openat_0_0_body4 = 13" "opened_in m min_mysql_pwrite64_openat_0_0_body4 = []"
  by (simp_all add: min_mysql_pwrite64_openat_0_0_body4_def prog_checks open_checks)

lemma min_mysql_pwrite64_openat_0_0_body5_ok: "body_ok (Suc 0) 8192 min_mysql_pwrite64_openat_0_0_body5" "counted min_mysql_pwrite64_openat_0_0_body5" "calls min_mysql_pwrite64_openat_0_0_body5 = 13" "opened_in m min_mysql_pwrite64_openat_0_0_body5 = []"
  by (simp_all add: min_mysql_pwrite64_openat_0_0_body5_def prog_checks open_checks)

lemma min_mysql_pwrite64_openat_0_0_body6_ok: "body_ok (Suc 0) 8192 min_mysql_pwrite64_openat_0_0_body6" "counted min_mysql_pwrite64_openat_0_0_body6" "calls min_mysql_pwrite64_openat_0_0_body6 = 13" "opened_in m min_mysql_pwrite64_openat_0_0_body6 = []"
  by (simp_all add: min_mysql_pwrite64_openat_0_0_body6_def prog_checks open_checks)

lemma min_mysql_pwrite64_openat_0_0_body7_ok: "body_ok (Suc 0) 8192 min_mysql_pwrite64_openat_0_0_body7" "counted min_mysql_pwrite64_openat_0_0_body7" "calls min_mysql_pwrite64_openat_0_0_body7 = 13" "opened_in m min_mysql_pwrite64_openat_0_0_body7 = []"
  by (simp_all add: min_mysql_pwrite64_openat_0_0_body7_def prog_checks open_checks)

lemma min_mysql_pwrite64_openat_0_0_body8_ok: "body_ok (Suc 0) 8192 min_mysql_pwrite64_openat_0_0_body8" "counted min_mysql_pwrite64_openat_0_0_body8" "calls min_mysql_pwrite64_openat_0_0_body8 = 13" "opened_in m min_mysql_pwrite64_openat_0_0_body8 = []"
  by (simp_all add: min_mysql_pwrite64_openat_0_0_body8_def prog_checks open_checks)

lemma min_mysql_pwrite64_openat_0_0_body9_ok: "body_ok (Suc 0) 8192 min_mysql_pwrite64_openat_0_0_body9" "counted min_mysql_pwrite64_openat_0_0_body9" "calls min_mysql_pwrite64_openat_0_0_body9 = 13" "opened_in m min_mysql_pwrite64_openat_0_0_body9 = []"
  by (simp_all add: min_mysql_pwrite64_openat_0_0_body9_def prog_checks open_checks)

lemma min_mysql_pwrite64_openat_0_0_body10_ok: "body_ok (Suc 0) 8192 min_mysql_pwrite64_openat_0_0_body10" "counted min_mysql_pwrite64_openat_0_0_body10" "calls min_mysql_pwrite64_openat_0_0_body10 = 13" "opened_in m min_mysql_pwrite64_openat_0_0_body10 = []"
  by (simp_all add: min_mysql_pwrite64_openat_0_0_body10_def prog_checks open_checks)

lemma min_mysql_pwrite64_openat_0_0_body11_ok: "body_ok (Suc 0) 8192 min_mysql_pwrite64_openat_0_0_body11" "counted min_mysql_pwrite64_openat_0_0_body11" "calls min_mysql_pwrite64_openat_0_0_body11 = 13" "opened_in m min_mysql_pwrite64_openat_0_0_body11 = []"
  by (simp_all add: min_mysql_pwrite64_openat_0_0_body11_def prog_checks open_checks)

lemma min_mysql_pwrite64_openat_0_0_body12_ok: "body_ok (Suc 0) 8192 min_mysql_pwrite64_openat_0_0_body12" "counted min_mysql_pwrite64_openat_0_0_body12" "calls min_mysql_pwrite64_openat_0_0_body12 = 13" "opened_in m min_mysql_pwrite64_openat_0_0_body12 = []"
  by (simp_all add: min_mysql_pwrite64_openat_0_0_body12_def prog_checks open_checks)

lemma min_mysql_pwrite64_openat_0_0_body13_ok: "body_ok (Suc 0) 8192 min_mysql_pwrite64_openat_0_0_body13" "counted min_mysql_pwrite64_openat_0_0_body13" "calls min_mysql_pwrite64_openat_0_0_body13 = 13" "opened_in m min_mysql_pwrite64_openat_0_0_body13 = []"
  by (simp_all add: min_mysql_pwrite64_openat_0_0_body13_def prog_checks open_checks)

lemma min_mysql_pwrite64_openat_0_0_body14_ok: "body_ok (Suc 0) 8192 min_mysql_pwrite64_openat_0_0_body14" "counted min_mysql_pwrite64_openat_0_0_body14" "calls min_mysql_pwrite64_openat_0_0_body14 = 13" "opened_in m min_mysql_pwrite64_openat_0_0_body14 = []"
  by (simp_all add: min_mysql_pwrite64_openat_0_0_body14_def prog_checks open_checks)

lemma min_mysql_pwrite64_openat_0_0_body15_ok: "body_ok (Suc 0) 8192 min_mysql_pwrite64_openat_0_0_body15" "counted min_mysql_pwrite64_openat_0_0_body15" "calls min_mysql_pwrite64_openat_0_0_body15 = 13" "opened_in m min_mysql_pwrite64_openat_0_0_body15 = []"
  by (simp_all add: min_mysql_pwrite64_openat_0_0_body15_def prog_checks open_checks)

lemma min_mysql_pwrite64_openat_0_0_body16_ok: "body_ok (Suc 0) 8192 min_mysql_pwrite64_openat_0_0_body16" "counted min_mysql_pwrite64_openat_0_0_body16" "calls min_mysql_pwrite64_openat_0_0_body16 = 13" "opened_in m min_mysql_pwrite64_openat_0_0_body16 = []"
  by (simp_all add: min_mysql_pwrite64_openat_0_0_body16_def prog_checks open_checks)

lemma min_mysql_pwrite64_openat_0_0_body17_ok: "body_ok (Suc 0) 8192 min_mysql_pwrite64_openat_0_0_body17" "counted min_mysql_pwrite64_openat_0_0_body17" "calls min_mysql_pwrite64_openat_0_0_body17 = 13" "opened_in m min_mysql_pwrite64_openat_0_0_body17 = []"
  by (simp_all add: min_mysql_pwrite64_openat_0_0_body17_def prog_checks open_checks)

lemma min_mysql_pwrite64_openat_0_0_body18_ok: "body_ok (Suc 0) 8192 min_mysql_pwrite64_openat_0_0_body18" "counted min_mysql_pwrite64_openat_0_0_body18" "calls min_mysql_pwrite64_openat_0_0_body18 = 13" "opened_in m min_mysql_pwrite64_openat_0_0_body18 = []"
  by (simp_all add: min_mysql_pwrite64_openat_0_0_body18_def prog_checks open_checks)

lemma min_mysql_pwrite64_openat_0_0_body19_ok: "body_ok (Suc 0) 8192 min_mysql_pwrite64_openat_0_0_body19" "counted min_mysql_pwrite64_openat_0_0_body19" "calls min_mysql_pwrite64_openat_0_0_body19 = 13" "opened_in m min_mysql_pwrite64_openat_0_0_body19 = []"
  by (simp_all add: min_mysql_pwrite64_openat_0_0_body19_def prog_checks open_checks)

lemma min_mysql_pwrite64_openat_0_0_body20_ok: "body_ok (Suc 0) 8192 min_mysql_pwrite64_openat_0_0_body20" "counted min_mysql_pwrite64_openat_0_0_body20" "calls min_mysql_pwrite64_openat_0_0_body20 = 13" "opened_in m min_mysql_pwrite64_openat_0_0_body20 = []"
  by (simp_all add: min_mysql_pwrite64_openat_0_0_body20_def prog_checks open_checks)

lemma min_mysql_pwrite64_openat_0_0_body21_ok: "body_ok (Suc 0) 8192 min_mysql_pwrite64_openat_0_0_body21" "counted min_mysql_pwrite64_openat_0_0_body21" "calls min_mysql_pwrite64_openat_0_0_body21 = 13" "opened_in m min_mysql_pwrite64_openat_0_0_body21 = []"
  by (simp_all add: min_mysql_pwrite64_openat_0_0_body21_def prog_checks open_checks)

lemma min_mysql_pwrite64_openat_0_0_body22_ok: "body_ok (Suc 0) 8192 min_mysql_pwrite64_openat_0_0_body22" "counted min_mysql_pwrite64_openat_0_0_body22" "calls min_mysql_pwrite64_openat_0_0_body22 = 13" "opened_in m min_mysql_pwrite64_openat_0_0_body22 = []"
  by (simp_all add: min_mysql_pwrite64_openat_0_0_body22_def prog_checks open_checks)

lemma min_mysql_pwrite64_openat_0_0_body23_ok: "body_ok (Suc 0) 8192 min_mysql_pwrite64_openat_0_0_body23" "counted min_mysql_pwrite64_openat_0_0_body23" "calls min_mysql_pwrite64_openat_0_0_body23 = 13" "opened_in m min_mysql_pwrite64_openat_0_0_body23 = []"
  by (simp_all add: min_mysql_pwrite64_openat_0_0_body23_def prog_checks open_checks)

lemma min_mysql_pwrite64_openat_0_0_body24_ok: "body_ok (Suc 0) 8192 min_mysql_pwrite64_openat_0_0_body24" "counted min_mysql_pwrite64_openat_0_0_body24" "calls min_mysql_pwrite64_openat_0_0_body24 = 13" "opened_in m min_mysql_pwrite64_openat_0_0_body24 = []"
  by (simp_all add: min_mysql_pwrite64_openat_0_0_body24_def prog_checks open_checks)

lemma min_mysql_pwrite64_openat_0_0_body25_ok: "body_ok (Suc 0) 8192 min_mysql_pwrite64_openat_0_0_body25" "counted min_mysql_pwrite64_openat_0_0_body25" "calls min_mysql_pwrite64_openat_0_0_body25 = 13" "opened_in m min_mysql_pwrite64_openat_0_0_body25 = []"
  by (simp_all add: min_mysql_pwrite64_openat_0_0_body25_def prog_checks open_checks)

lemma min_mysql_pwrite64_openat_0_0_body26_ok: "body_ok (Suc 0) 8192 min_mysql_pwrite64_openat_0_0_body26" "counted min_mysql_pwrite64_openat_0_0_body26" "calls min_mysql_pwrite64_openat_0_0_body26 = 13" "opened_in m min_mysql_pwrite64_openat_0_0_body26 = []"
  by (simp_all add: min_mysql_pwrite64_openat_0_0_body26_def prog_checks open_checks)

lemma min_mysql_pwrite64_openat_0_0_body27_ok: "body_ok (Suc 0) 8192 min_mysql_pwrite64_openat_0_0_body27" "counted min_mysql_pwrite64_openat_0_0_body27" "calls min_mysql_pwrite64_openat_0_0_body27 = 13" "opened_in m min_mysql_pwrite64_openat_0_0_body27 = []"
  by (simp_all add: min_mysql_pwrite64_openat_0_0_body27_def prog_checks open_checks)

lemma min_mysql_pwrite64_openat_0_0_body28_ok: "body_ok (Suc 0) 8192 min_mysql_pwrite64_openat_0_0_body28" "counted min_mysql_pwrite64_openat_0_0_body28" "calls min_mysql_pwrite64_openat_0_0_body28 = 13" "opened_in m min_mysql_pwrite64_openat_0_0_body28 = []"
  by (simp_all add: min_mysql_pwrite64_openat_0_0_body28_def prog_checks open_checks)

lemma min_mysql_pwrite64_openat_0_0_body29_ok: "body_ok (Suc 0) 8192 min_mysql_pwrite64_openat_0_0_body29" "counted min_mysql_pwrite64_openat_0_0_body29" "calls min_mysql_pwrite64_openat_0_0_body29 = 13" "opened_in m min_mysql_pwrite64_openat_0_0_body29 = []"
  by (simp_all add: min_mysql_pwrite64_openat_0_0_body29_def prog_checks open_checks)

lemma min_mysql_pwrite64_openat_0_0_body30_ok: "body_ok (Suc 0) 8192 min_mysql_pwrite64_openat_0_0_body30" "counted min_mysql_pwrite64_openat_0_0_body30" "calls min_mysql_pwrite64_openat_0_0_body30 = 13" "opened_in m min_mysql_pwrite64_openat_0_0_body30 = []"
  by (simp_all add: min_mysql_pwrite64_openat_0_0_body30_def prog_checks open_checks)

lemma min_mysql_pwrite64_openat_0_0_body31_ok: "body_ok (Suc 0) 8192 min_mysql_pwrite64_openat_0_0_body31" "counted min_mysql_pwrite64_openat_0_0_body31" "calls min_mysql_pwrite64_openat_0_0_body31 = 13" "opened_in m min_mysql_pwrite64_openat_0_0_body31 = []"
  by (simp_all add: min_mysql_pwrite64_openat_0_0_body31_def prog_checks open_checks)

lemma min_mysql_pwrite64_openat_0_0_body32_ok: "body_ok (Suc 0) 8192 min_mysql_pwrite64_openat_0_0_body32" "counted min_mysql_pwrite64_openat_0_0_body32" "calls min_mysql_pwrite64_openat_0_0_body32 = 13" "opened_in m min_mysql_pwrite64_openat_0_0_body32 = []"
  by (simp_all add: min_mysql_pwrite64_openat_0_0_body32_def prog_checks open_checks)

lemma min_mysql_pwrite64_openat_0_0_body33_ok: "body_ok (Suc 0) 8192 min_mysql_pwrite64_openat_0_0_body33" "counted min_mysql_pwrite64_openat_0_0_body33" "calls min_mysql_pwrite64_openat_0_0_body33 = 13" "opened_in m min_mysql_pwrite64_openat_0_0_body33 = []"
  by (simp_all add: min_mysql_pwrite64_openat_0_0_body33_def prog_checks open_checks)

lemma min_mysql_pwrite64_openat_0_0_body34_ok: "body_ok (Suc 0) 8192 min_mysql_pwrite64_openat_0_0_body34" "counted min_mysql_pwrite64_openat_0_0_body34" "calls min_mysql_pwrite64_openat_0_0_body34 = 13" "opened_in m min_mysql_pwrite64_openat_0_0_body34 = []"
  by (simp_all add: min_mysql_pwrite64_openat_0_0_body34_def prog_checks open_checks)

lemma min_mysql_pwrite64_openat_0_0_body35_ok: "body_ok (Suc 0) 8192 min_mysql_pwrite64_openat_0_0_body35" "counted min_mysql_pwrite64_openat_0_0_body35" "calls min_mysql_pwrite64_openat_0_0_body35 = 13" "opened_in m min_mysql_pwrite64_openat_0_0_body35 = []"
  by (simp_all add: min_mysql_pwrite64_openat_0_0_body35_def prog_checks open_checks)

lemma min_mysql_pwrite64_openat_0_0_body36_ok: "body_ok (Suc 0) 8192 min_mysql_pwrite64_openat_0_0_body36" "counted min_mysql_pwrite64_openat_0_0_body36" "calls min_mysql_pwrite64_openat_0_0_body36 = 13" "opened_in m min_mysql_pwrite64_openat_0_0_body36 = []"
  by (simp_all add: min_mysql_pwrite64_openat_0_0_body36_def prog_checks open_checks)

lemma min_mysql_pwrite64_openat_0_0_body37_ok: "body_ok (Suc 0) 8192 min_mysql_pwrite64_openat_0_0_body37" "counted min_mysql_pwrite64_openat_0_0_body37" "calls min_mysql_pwrite64_openat_0_0_body37 = 13" "opened_in m min_mysql_pwrite64_openat_0_0_body37 = []"
  by (simp_all add: min_mysql_pwrite64_openat_0_0_body37_def prog_checks open_checks)

lemma min_mysql_pwrite64_openat_0_0_body38_ok: "body_ok (Suc 0) 8192 min_mysql_pwrite64_openat_0_0_body38" "counted min_mysql_pwrite64_openat_0_0_body38" "calls min_mysql_pwrite64_openat_0_0_body38 = 13" "opened_in m min_mysql_pwrite64_openat_0_0_body38 = []"
  by (simp_all add: min_mysql_pwrite64_openat_0_0_body38_def prog_checks open_checks)

lemma min_mysql_pwrite64_openat_0_0_body39_ok: "body_ok (Suc 0) 8192 min_mysql_pwrite64_openat_0_0_body39" "counted min_mysql_pwrite64_openat_0_0_body39" "calls min_mysql_pwrite64_openat_0_0_body39 = 13" "opened_in m min_mysql_pwrite64_openat_0_0_body39 = []"
  by (simp_all add: min_mysql_pwrite64_openat_0_0_body39_def prog_checks open_checks)

lemma min_mysql_pwrite64_openat_0_0_body40_ok: "body_ok (Suc 0) 8192 min_mysql_pwrite64_openat_0_0_body40" "counted min_mysql_pwrite64_openat_0_0_body40" "calls min_mysql_pwrite64_openat_0_0_body40 = 13" "opened_in m min_mysql_pwrite64_openat_0_0_body40 = []"
  by (simp_all add: min_mysql_pwrite64_openat_0_0_body40_def prog_checks open_checks)

lemma min_mysql_pwrite64_openat_0_0_body41_ok: "body_ok (Suc 0) 8192 min_mysql_pwrite64_openat_0_0_body41" "counted min_mysql_pwrite64_openat_0_0_body41" "calls min_mysql_pwrite64_openat_0_0_body41 = 13" "opened_in m min_mysql_pwrite64_openat_0_0_body41 = []"
  by (simp_all add: min_mysql_pwrite64_openat_0_0_body41_def prog_checks open_checks)

lemma min_mysql_pwrite64_openat_0_0_body42_ok: "body_ok (Suc 0) 8192 min_mysql_pwrite64_openat_0_0_body42" "counted min_mysql_pwrite64_openat_0_0_body42" "calls min_mysql_pwrite64_openat_0_0_body42 = 13" "opened_in m min_mysql_pwrite64_openat_0_0_body42 = []"
  by (simp_all add: min_mysql_pwrite64_openat_0_0_body42_def prog_checks open_checks)

lemma min_mysql_pwrite64_openat_0_0_body43_ok: "body_ok (Suc 0) 8192 min_mysql_pwrite64_openat_0_0_body43" "counted min_mysql_pwrite64_openat_0_0_body43" "calls min_mysql_pwrite64_openat_0_0_body43 = 13" "opened_in m min_mysql_pwrite64_openat_0_0_body43 = []"
  by (simp_all add: min_mysql_pwrite64_openat_0_0_body43_def prog_checks open_checks)

lemma min_mysql_pwrite64_openat_0_0_body44_ok: "body_ok (Suc 0) 8192 min_mysql_pwrite64_openat_0_0_body44" "counted min_mysql_pwrite64_openat_0_0_body44" "calls min_mysql_pwrite64_openat_0_0_body44 = 13" "opened_in m min_mysql_pwrite64_openat_0_0_body44 = []"
  by (simp_all add: min_mysql_pwrite64_openat_0_0_body44_def prog_checks open_checks)

lemma min_mysql_pwrite64_openat_0_0_body45_ok: "body_ok (Suc 0) 8192 min_mysql_pwrite64_openat_0_0_body45" "counted min_mysql_pwrite64_openat_0_0_body45" "calls min_mysql_pwrite64_openat_0_0_body45 = 13" "opened_in m min_mysql_pwrite64_openat_0_0_body45 = []"
  by (simp_all add: min_mysql_pwrite64_openat_0_0_body45_def prog_checks open_checks)

lemma min_mysql_pwrite64_openat_0_0_body46_ok: "body_ok (Suc 0) 8192 min_mysql_pwrite64_openat_0_0_body46" "counted min_mysql_pwrite64_openat_0_0_body46" "calls min_mysql_pwrite64_openat_0_0_body46 = 13" "opened_in m min_mysql_pwrite64_openat_0_0_body46 = []"
  by (simp_all add: min_mysql_pwrite64_openat_0_0_body46_def prog_checks open_checks)

lemma min_mysql_pwrite64_openat_0_0_body47_ok: "body_ok (Suc 0) 8192 min_mysql_pwrite64_openat_0_0_body47" "counted min_mysql_pwrite64_openat_0_0_body47" "calls min_mysql_pwrite64_openat_0_0_body47 = 13" "opened_in m min_mysql_pwrite64_openat_0_0_body47 = []"
  by (simp_all add: min_mysql_pwrite64_openat_0_0_body47_def prog_checks open_checks)

lemma min_mysql_pwrite64_openat_0_0_body48_ok: "body_ok (Suc 0) 8192 min_mysql_pwrite64_openat_0_0_body48" "counted min_mysql_pwrite64_openat_0_0_body48" "calls min_mysql_pwrite64_openat_0_0_body48 = 13" "opened_in m min_mysql_pwrite64_openat_0_0_body48 = []"
  by (simp_all add: min_mysql_pwrite64_openat_0_0_body48_def prog_checks open_checks)

lemma min_mysql_pwrite64_openat_0_0_body49_ok: "body_ok (Suc 0) 8192 min_mysql_pwrite64_openat_0_0_body49" "counted min_mysql_pwrite64_openat_0_0_body49" "calls min_mysql_pwrite64_openat_0_0_body49 = 13" "opened_in m min_mysql_pwrite64_openat_0_0_body49 = []"
  by (simp_all add: min_mysql_pwrite64_openat_0_0_body49_def prog_checks open_checks)

lemma min_mysql_pwrite64_openat_0_0_body50_ok: "body_ok (Suc 0) 8192 min_mysql_pwrite64_openat_0_0_body50" "counted min_mysql_pwrite64_openat_0_0_body50" "calls min_mysql_pwrite64_openat_0_0_body50 = 13" "opened_in m min_mysql_pwrite64_openat_0_0_body50 = []"
  by (simp_all add: min_mysql_pwrite64_openat_0_0_body50_def prog_checks open_checks)

lemma min_mysql_pwrite64_openat_0_0_body51_ok: "body_ok (Suc 0) 8192 min_mysql_pwrite64_openat_0_0_body51" "counted min_mysql_pwrite64_openat_0_0_body51" "calls min_mysql_pwrite64_openat_0_0_body51 = 13" "opened_in m min_mysql_pwrite64_openat_0_0_body51 = []"
  by (simp_all add: min_mysql_pwrite64_openat_0_0_body51_def prog_checks open_checks)

lemma min_mysql_pwrite64_openat_0_0_body52_ok: "body_ok (Suc 0) 8192 min_mysql_pwrite64_openat_0_0_body52" "counted min_mysql_pwrite64_openat_0_0_body52" "calls min_mysql_pwrite64_openat_0_0_body52 = 13" "opened_in m min_mysql_pwrite64_openat_0_0_body52 = []"
  by (simp_all add: min_mysql_pwrite64_openat_0_0_body52_def prog_checks open_checks)

lemma min_mysql_pwrite64_openat_0_0_body53_ok: "body_ok (Suc 0) 8192 min_mysql_pwrite64_openat_0_0_body53" "counted min_mysql_pwrite64_openat_0_0_body53" "calls min_mysql_pwrite64_openat_0_0_body53 = 13" "opened_in m min_mysql_pwrite64_openat_0_0_body53 = []"
  by (simp_all add: min_mysql_pwrite64_openat_0_0_body53_def prog_checks open_checks)

lemma min_mysql_pwrite64_openat_0_0_body54_ok: "body_ok (Suc 0) 8192 min_mysql_pwrite64_openat_0_0_body54" "counted min_mysql_pwrite64_openat_0_0_body54" "calls min_mysql_pwrite64_openat_0_0_body54 = 13" "opened_in m min_mysql_pwrite64_openat_0_0_body54 = []"
  by (simp_all add: min_mysql_pwrite64_openat_0_0_body54_def prog_checks open_checks)

lemma min_mysql_pwrite64_openat_0_0_body55_ok: "body_ok (Suc 0) 8192 min_mysql_pwrite64_openat_0_0_body55" "counted min_mysql_pwrite64_openat_0_0_body55" "calls min_mysql_pwrite64_openat_0_0_body55 = 13" "opened_in m min_mysql_pwrite64_openat_0_0_body55 = []"
  by (simp_all add: min_mysql_pwrite64_openat_0_0_body55_def prog_checks open_checks)

lemma min_mysql_pwrite64_openat_0_0_body56_ok: "body_ok (Suc 0) 8192 min_mysql_pwrite64_openat_0_0_body56" "counted min_mysql_pwrite64_openat_0_0_body56" "calls min_mysql_pwrite64_openat_0_0_body56 = 13" "opened_in m min_mysql_pwrite64_openat_0_0_body56 = []"
  by (simp_all add: min_mysql_pwrite64_openat_0_0_body56_def prog_checks open_checks)

lemma min_mysql_pwrite64_openat_0_0_body57_ok: "body_ok (Suc 0) 8192 min_mysql_pwrite64_openat_0_0_body57" "counted min_mysql_pwrite64_openat_0_0_body57" "calls min_mysql_pwrite64_openat_0_0_body57 = 13" "opened_in m min_mysql_pwrite64_openat_0_0_body57 = []"
  by (simp_all add: min_mysql_pwrite64_openat_0_0_body57_def prog_checks open_checks)

lemma min_mysql_pwrite64_openat_0_0_body58_ok: "body_ok (Suc 0) 8192 min_mysql_pwrite64_openat_0_0_body58" "counted min_mysql_pwrite64_openat_0_0_body58" "calls min_mysql_pwrite64_openat_0_0_body58 = 13" "opened_in m min_mysql_pwrite64_openat_0_0_body58 = []"
  by (simp_all add: min_mysql_pwrite64_openat_0_0_body58_def prog_checks open_checks)

lemma min_mysql_pwrite64_openat_0_0_body59_ok: "body_ok (Suc 0) 8192 min_mysql_pwrite64_openat_0_0_body59" "counted min_mysql_pwrite64_openat_0_0_body59" "calls min_mysql_pwrite64_openat_0_0_body59 = 13" "opened_in m min_mysql_pwrite64_openat_0_0_body59 = []"
  by (simp_all add: min_mysql_pwrite64_openat_0_0_body59_def prog_checks open_checks)

lemma min_mysql_pwrite64_openat_0_0_body60_ok: "body_ok (Suc 0) 8192 min_mysql_pwrite64_openat_0_0_body60" "counted min_mysql_pwrite64_openat_0_0_body60" "calls min_mysql_pwrite64_openat_0_0_body60 = 13" "opened_in m min_mysql_pwrite64_openat_0_0_body60 = []"
  by (simp_all add: min_mysql_pwrite64_openat_0_0_body60_def prog_checks open_checks)

lemma min_mysql_pwrite64_openat_0_0_body61_ok: "body_ok (Suc 0) 8192 min_mysql_pwrite64_openat_0_0_body61" "counted min_mysql_pwrite64_openat_0_0_body61" "calls min_mysql_pwrite64_openat_0_0_body61 = 13" "opened_in m min_mysql_pwrite64_openat_0_0_body61 = []"
  by (simp_all add: min_mysql_pwrite64_openat_0_0_body61_def prog_checks open_checks)

lemma min_mysql_pwrite64_openat_0_0_body62_ok: "body_ok (Suc 0) 8192 min_mysql_pwrite64_openat_0_0_body62" "counted min_mysql_pwrite64_openat_0_0_body62" "calls min_mysql_pwrite64_openat_0_0_body62 = 13" "opened_in m min_mysql_pwrite64_openat_0_0_body62 = []"
  by (simp_all add: min_mysql_pwrite64_openat_0_0_body62_def prog_checks open_checks)

lemma min_mysql_pwrite64_openat_0_0_body63_ok: "body_ok (Suc 0) 8192 min_mysql_pwrite64_openat_0_0_body63" "counted min_mysql_pwrite64_openat_0_0_body63" "calls min_mysql_pwrite64_openat_0_0_body63 = 13" "opened_in m min_mysql_pwrite64_openat_0_0_body63 = []"
  by (simp_all add: min_mysql_pwrite64_openat_0_0_body63_def prog_checks open_checks)

lemma min_mysql_pwrite64_openat_0_0_body64_ok: "body_ok (Suc 0) 8192 min_mysql_pwrite64_openat_0_0_body64" "counted min_mysql_pwrite64_openat_0_0_body64" "calls min_mysql_pwrite64_openat_0_0_body64 = 13" "opened_in m min_mysql_pwrite64_openat_0_0_body64 = []"
  by (simp_all add: min_mysql_pwrite64_openat_0_0_body64_def prog_checks open_checks)

lemma min_mysql_pwrite64_openat_0_0_body65_ok: "body_ok (Suc 0) 8192 min_mysql_pwrite64_openat_0_0_body65" "counted min_mysql_pwrite64_openat_0_0_body65" "calls min_mysql_pwrite64_openat_0_0_body65 = 13" "opened_in m min_mysql_pwrite64_openat_0_0_body65 = []"
  by (simp_all add: min_mysql_pwrite64_openat_0_0_body65_def prog_checks open_checks)

lemma min_mysql_pwrite64_openat_0_0_body66_ok: "body_ok (Suc 0) 8192 min_mysql_pwrite64_openat_0_0_body66" "counted min_mysql_pwrite64_openat_0_0_body66" "calls min_mysql_pwrite64_openat_0_0_body66 = 13" "opened_in m min_mysql_pwrite64_openat_0_0_body66 = []"
  by (simp_all add: min_mysql_pwrite64_openat_0_0_body66_def prog_checks open_checks)

lemma min_mysql_pwrite64_openat_0_0_body67_ok: "body_ok (Suc 0) 8192 min_mysql_pwrite64_openat_0_0_body67" "counted min_mysql_pwrite64_openat_0_0_body67" "calls min_mysql_pwrite64_openat_0_0_body67 = 13" "opened_in m min_mysql_pwrite64_openat_0_0_body67 = []"
  by (simp_all add: min_mysql_pwrite64_openat_0_0_body67_def prog_checks open_checks)

lemma min_mysql_pwrite64_openat_0_0_body68_ok: "body_ok (Suc 0) 8192 min_mysql_pwrite64_openat_0_0_body68" "counted min_mysql_pwrite64_openat_0_0_body68" "calls min_mysql_pwrite64_openat_0_0_body68 = 13" "opened_in m min_mysql_pwrite64_openat_0_0_body68 = []"
  by (simp_all add: min_mysql_pwrite64_openat_0_0_body68_def prog_checks open_checks)

lemma min_mysql_pwrite64_openat_0_0_body69_ok: "body_ok (Suc 0) 8192 min_mysql_pwrite64_openat_0_0_body69" "counted min_mysql_pwrite64_openat_0_0_body69" "calls min_mysql_pwrite64_openat_0_0_body69 = 13" "opened_in m min_mysql_pwrite64_openat_0_0_body69 = []"
  by (simp_all add: min_mysql_pwrite64_openat_0_0_body69_def prog_checks open_checks)

lemma min_mysql_pwrite64_openat_0_0_body70_ok: "body_ok (Suc 0) 8192 min_mysql_pwrite64_openat_0_0_body70" "counted min_mysql_pwrite64_openat_0_0_body70" "calls min_mysql_pwrite64_openat_0_0_body70 = 13" "opened_in m min_mysql_pwrite64_openat_0_0_body70 = []"
  by (simp_all add: min_mysql_pwrite64_openat_0_0_body70_def prog_checks open_checks)

lemma min_mysql_pwrite64_openat_0_0_body71_ok: "body_ok (Suc 0) 8192 min_mysql_pwrite64_openat_0_0_body71" "counted min_mysql_pwrite64_openat_0_0_body71" "calls min_mysql_pwrite64_openat_0_0_body71 = 13" "opened_in m min_mysql_pwrite64_openat_0_0_body71 = []"
  by (simp_all add: min_mysql_pwrite64_openat_0_0_body71_def prog_checks open_checks)

lemma min_mysql_pwrite64_openat_0_0_body72_ok: "body_ok (Suc 0) 8192 min_mysql_pwrite64_openat_0_0_body72" "counted min_mysql_pwrite64_openat_0_0_body72" "calls min_mysql_pwrite64_openat_0_0_body72 = 13" "opened_in m min_mysql_pwrite64_openat_0_0_body72 = []"
  by (simp_all add: min_mysql_pwrite64_openat_0_0_body72_def prog_checks open_checks)

lemma min_mysql_pwrite64_openat_0_0_body73_ok: "body_ok (Suc 0) 8192 min_mysql_pwrite64_openat_0_0_body73" "counted min_mysql_pwrite64_openat_0_0_body73" "calls min_mysql_pwrite64_openat_0_0_body73 = 13" "opened_in m min_mysql_pwrite64_openat_0_0_body73 = []"
  by (simp_all add: min_mysql_pwrite64_openat_0_0_body73_def prog_checks open_checks)

lemma min_mysql_pwrite64_openat_0_0_body74_ok: "body_ok (Suc 0) 8192 min_mysql_pwrite64_openat_0_0_body74" "counted min_mysql_pwrite64_openat_0_0_body74" "calls min_mysql_pwrite64_openat_0_0_body74 = 13" "opened_in m min_mysql_pwrite64_openat_0_0_body74 = []"
  by (simp_all add: min_mysql_pwrite64_openat_0_0_body74_def prog_checks open_checks)

lemma min_mysql_pwrite64_openat_0_0_body75_ok: "body_ok (Suc 0) 8192 min_mysql_pwrite64_openat_0_0_body75" "counted min_mysql_pwrite64_openat_0_0_body75" "calls min_mysql_pwrite64_openat_0_0_body75 = 13" "opened_in m min_mysql_pwrite64_openat_0_0_body75 = []"
  by (simp_all add: min_mysql_pwrite64_openat_0_0_body75_def prog_checks open_checks)

lemma min_mysql_pwrite64_openat_0_0_body76_ok: "body_ok (Suc 0) 8192 min_mysql_pwrite64_openat_0_0_body76" "counted min_mysql_pwrite64_openat_0_0_body76" "calls min_mysql_pwrite64_openat_0_0_body76 = 13" "opened_in m min_mysql_pwrite64_openat_0_0_body76 = []"
  by (simp_all add: min_mysql_pwrite64_openat_0_0_body76_def prog_checks open_checks)

lemma min_mysql_pwrite64_openat_0_0_body77_ok: "body_ok (Suc 0) 8192 min_mysql_pwrite64_openat_0_0_body77" "counted min_mysql_pwrite64_openat_0_0_body77" "calls min_mysql_pwrite64_openat_0_0_body77 = 13" "opened_in m min_mysql_pwrite64_openat_0_0_body77 = []"
  by (simp_all add: min_mysql_pwrite64_openat_0_0_body77_def prog_checks open_checks)

lemma min_mysql_pwrite64_openat_0_0_body78_ok: "body_ok (Suc 0) 8192 min_mysql_pwrite64_openat_0_0_body78" "counted min_mysql_pwrite64_openat_0_0_body78" "calls min_mysql_pwrite64_openat_0_0_body78 = 13" "opened_in m min_mysql_pwrite64_openat_0_0_body78 = []"
  by (simp_all add: min_mysql_pwrite64_openat_0_0_body78_def prog_checks open_checks)

lemma min_mysql_pwrite64_openat_0_0_body79_ok: "body_ok (Suc 0) 8192 min_mysql_pwrite64_openat_0_0_body79" "counted min_mysql_pwrite64_openat_0_0_body79" "calls min_mysql_pwrite64_openat_0_0_body79 = 13" "opened_in m min_mysql_pwrite64_openat_0_0_body79 = []"
  by (simp_all add: min_mysql_pwrite64_openat_0_0_body79_def prog_checks open_checks)

lemma min_mysql_pwrite64_openat_0_0_body80_ok: "body_ok (Suc 0) 8192 min_mysql_pwrite64_openat_0_0_body80" "counted min_mysql_pwrite64_openat_0_0_body80" "calls min_mysql_pwrite64_openat_0_0_body80 = 13" "opened_in m min_mysql_pwrite64_openat_0_0_body80 = []"
  by (simp_all add: min_mysql_pwrite64_openat_0_0_body80_def prog_checks open_checks)

lemma min_mysql_pwrite64_openat_0_0_body81_ok: "body_ok (Suc 0) 8192 min_mysql_pwrite64_openat_0_0_body81" "counted min_mysql_pwrite64_openat_0_0_body81" "calls min_mysql_pwrite64_openat_0_0_body81 = 13" "opened_in m min_mysql_pwrite64_openat_0_0_body81 = []"
  by (simp_all add: min_mysql_pwrite64_openat_0_0_body81_def prog_checks open_checks)

lemma min_mysql_pwrite64_openat_0_0_body82_ok: "body_ok (Suc 0) 8192 min_mysql_pwrite64_openat_0_0_body82" "counted min_mysql_pwrite64_openat_0_0_body82" "calls min_mysql_pwrite64_openat_0_0_body82 = 13" "opened_in m min_mysql_pwrite64_openat_0_0_body82 = []"
  by (simp_all add: min_mysql_pwrite64_openat_0_0_body82_def prog_checks open_checks)

lemma min_mysql_pwrite64_openat_0_0_body83_ok: "body_ok (Suc 0) 8192 min_mysql_pwrite64_openat_0_0_body83" "counted min_mysql_pwrite64_openat_0_0_body83" "calls min_mysql_pwrite64_openat_0_0_body83 = 13" "opened_in m min_mysql_pwrite64_openat_0_0_body83 = []"
  by (simp_all add: min_mysql_pwrite64_openat_0_0_body83_def prog_checks open_checks)

lemma min_mysql_pwrite64_openat_0_0_body84_ok: "body_ok (Suc 0) 8192 min_mysql_pwrite64_openat_0_0_body84" "counted min_mysql_pwrite64_openat_0_0_body84" "calls min_mysql_pwrite64_openat_0_0_body84 = 13" "opened_in m min_mysql_pwrite64_openat_0_0_body84 = []"
  by (simp_all add: min_mysql_pwrite64_openat_0_0_body84_def prog_checks open_checks)

lemma min_mysql_pwrite64_openat_0_0_body85_ok: "body_ok (Suc 0) 8192 min_mysql_pwrite64_openat_0_0_body85" "counted min_mysql_pwrite64_openat_0_0_body85" "calls min_mysql_pwrite64_openat_0_0_body85 = 13" "opened_in m min_mysql_pwrite64_openat_0_0_body85 = []"
  by (simp_all add: min_mysql_pwrite64_openat_0_0_body85_def prog_checks open_checks)

lemma min_mysql_pwrite64_openat_0_0_body86_ok: "body_ok (Suc 0) 8192 min_mysql_pwrite64_openat_0_0_body86" "counted min_mysql_pwrite64_openat_0_0_body86" "calls min_mysql_pwrite64_openat_0_0_body86 = 13" "opened_in m min_mysql_pwrite64_openat_0_0_body86 = []"
  by (simp_all add: min_mysql_pwrite64_openat_0_0_body86_def prog_checks open_checks)

lemma min_mysql_pwrite64_openat_0_0_body87_ok: "body_ok (Suc 0) 8192 min_mysql_pwrite64_openat_0_0_body87" "counted min_mysql_pwrite64_openat_0_0_body87" "calls min_mysql_pwrite64_openat_0_0_body87 = 13" "opened_in m min_mysql_pwrite64_openat_0_0_body87 = []"
  by (simp_all add: min_mysql_pwrite64_openat_0_0_body87_def prog_checks open_checks)

lemma min_mysql_pwrite64_openat_0_0_body88_ok: "body_ok (Suc 0) 8192 min_mysql_pwrite64_openat_0_0_body88" "counted min_mysql_pwrite64_openat_0_0_body88" "calls min_mysql_pwrite64_openat_0_0_body88 = 13" "opened_in m min_mysql_pwrite64_openat_0_0_body88 = []"
  by (simp_all add: min_mysql_pwrite64_openat_0_0_body88_def prog_checks open_checks)

lemma min_mysql_pwrite64_openat_0_0_body89_ok: "body_ok (Suc 0) 8192 min_mysql_pwrite64_openat_0_0_body89" "counted min_mysql_pwrite64_openat_0_0_body89" "calls min_mysql_pwrite64_openat_0_0_body89 = 13" "opened_in m min_mysql_pwrite64_openat_0_0_body89 = []"
  by (simp_all add: min_mysql_pwrite64_openat_0_0_body89_def prog_checks open_checks)

lemma min_mysql_pwrite64_openat_0_0_body90_ok: "body_ok (Suc 0) 8192 min_mysql_pwrite64_openat_0_0_body90" "counted min_mysql_pwrite64_openat_0_0_body90" "calls min_mysql_pwrite64_openat_0_0_body90 = 13" "opened_in m min_mysql_pwrite64_openat_0_0_body90 = []"
  by (simp_all add: min_mysql_pwrite64_openat_0_0_body90_def prog_checks open_checks)

lemma min_mysql_pwrite64_openat_0_0_body91_ok: "body_ok (Suc 0) 8192 min_mysql_pwrite64_openat_0_0_body91" "counted min_mysql_pwrite64_openat_0_0_body91" "calls min_mysql_pwrite64_openat_0_0_body91 = 13" "opened_in m min_mysql_pwrite64_openat_0_0_body91 = []"
  by (simp_all add: min_mysql_pwrite64_openat_0_0_body91_def prog_checks open_checks)

lemma min_mysql_pwrite64_openat_0_0_body92_ok: "body_ok (Suc 0) 8192 min_mysql_pwrite64_openat_0_0_body92" "counted min_mysql_pwrite64_openat_0_0_body92" "calls min_mysql_pwrite64_openat_0_0_body92 = 13" "opened_in m min_mysql_pwrite64_openat_0_0_body92 = []"
  by (simp_all add: min_mysql_pwrite64_openat_0_0_body92_def prog_checks open_checks)

lemma min_mysql_pwrite64_openat_0_0_body93_ok: "body_ok (Suc 0) 8192 min_mysql_pwrite64_openat_0_0_body93" "counted min_mysql_pwrite64_openat_0_0_body93" "calls min_mysql_pwrite64_openat_0_0_body93 = 13" "opened_in m min_mysql_pwrite64_openat_0_0_body93 = []"
  by (simp_all add: min_mysql_pwrite64_openat_0_0_body93_def prog_checks open_checks)

lemma min_mysql_pwrite64_openat_0_0_body94_ok: "body_ok (Suc 0) 8192 min_mysql_pwrite64_openat_0_0_body94" "counted min_mysql_pwrite64_openat_0_0_body94" "calls min_mysql_pwrite64_openat_0_0_body94 = 13" "opened_in m min_mysql_pwrite64_openat_0_0_body94 = []"
  by (simp_all add: min_mysql_pwrite64_openat_0_0_body94_def prog_checks open_checks)

lemma min_mysql_pwrite64_openat_0_0_body95_ok: "body_ok (Suc 0) 8192 min_mysql_pwrite64_openat_0_0_body95" "counted min_mysql_pwrite64_openat_0_0_body95" "calls min_mysql_pwrite64_openat_0_0_body95 = 13" "opened_in m min_mysql_pwrite64_openat_0_0_body95 = []"
  by (simp_all add: min_mysql_pwrite64_openat_0_0_body95_def prog_checks open_checks)

lemma min_mysql_pwrite64_openat_0_0_body96_ok: "body_ok (Suc 0) 8192 min_mysql_pwrite64_openat_0_0_body96" "counted min_mysql_pwrite64_openat_0_0_body96" "calls min_mysql_pwrite64_openat_0_0_body96 = 13" "opened_in m min_mysql_pwrite64_openat_0_0_body96 = []"
  by (simp_all add: min_mysql_pwrite64_openat_0_0_body96_def prog_checks open_checks)

lemma min_mysql_pwrite64_openat_0_0_body97_ok: "body_ok (Suc 0) 8192 min_mysql_pwrite64_openat_0_0_body97" "counted min_mysql_pwrite64_openat_0_0_body97" "calls min_mysql_pwrite64_openat_0_0_body97 = 13" "opened_in m min_mysql_pwrite64_openat_0_0_body97 = []"
  by (simp_all add: min_mysql_pwrite64_openat_0_0_body97_def prog_checks open_checks)

lemma min_mysql_pwrite64_openat_0_0_body98_ok: "body_ok (Suc 0) 8192 min_mysql_pwrite64_openat_0_0_body98" "counted min_mysql_pwrite64_openat_0_0_body98" "calls min_mysql_pwrite64_openat_0_0_body98 = 13" "opened_in m min_mysql_pwrite64_openat_0_0_body98 = []"
  by (simp_all add: min_mysql_pwrite64_openat_0_0_body98_def prog_checks open_checks)

lemma min_mysql_pwrite64_openat_0_0_body99_ok: "body_ok (Suc 0) 8192 min_mysql_pwrite64_openat_0_0_body99" "counted min_mysql_pwrite64_openat_0_0_body99" "calls min_mysql_pwrite64_openat_0_0_body99 = 13" "opened_in m min_mysql_pwrite64_openat_0_0_body99 = []"
  by (simp_all add: min_mysql_pwrite64_openat_0_0_body99_def prog_checks open_checks)

lemma min_mysql_pwrite64_openat_0_0_body100_ok: "body_ok (Suc 0) 8192 min_mysql_pwrite64_openat_0_0_body100" "counted min_mysql_pwrite64_openat_0_0_body100" "calls min_mysql_pwrite64_openat_0_0_body100 = 13" "opened_in m min_mysql_pwrite64_openat_0_0_body100 = []"
  by (simp_all add: min_mysql_pwrite64_openat_0_0_body100_def prog_checks open_checks)

lemma min_mysql_pwrite64_openat_0_0_body101_ok: "body_ok (Suc 0) 8192 min_mysql_pwrite64_openat_0_0_body101" "counted min_mysql_pwrite64_openat_0_0_body101" "calls min_mysql_pwrite64_openat_0_0_body101 = 13" "opened_in m min_mysql_pwrite64_openat_0_0_body101 = []"
  by (simp_all add: min_mysql_pwrite64_openat_0_0_body101_def prog_checks open_checks)

lemma min_mysql_pwrite64_openat_0_0_body102_ok: "body_ok (Suc 0) 8192 min_mysql_pwrite64_openat_0_0_body102" "counted min_mysql_pwrite64_openat_0_0_body102" "calls min_mysql_pwrite64_openat_0_0_body102 = 13" "opened_in m min_mysql_pwrite64_openat_0_0_body102 = []"
  by (simp_all add: min_mysql_pwrite64_openat_0_0_body102_def prog_checks open_checks)

lemma min_mysql_pwrite64_openat_0_0_body103_ok: "body_ok (Suc 0) 8192 min_mysql_pwrite64_openat_0_0_body103" "counted min_mysql_pwrite64_openat_0_0_body103" "calls min_mysql_pwrite64_openat_0_0_body103 = 13" "opened_in m min_mysql_pwrite64_openat_0_0_body103 = []"
  by (simp_all add: min_mysql_pwrite64_openat_0_0_body103_def prog_checks open_checks)

lemma min_mysql_pwrite64_openat_0_0_body104_ok: "body_ok (Suc 0) 8192 min_mysql_pwrite64_openat_0_0_body104" "counted min_mysql_pwrite64_openat_0_0_body104" "calls min_mysql_pwrite64_openat_0_0_body104 = 13" "opened_in m min_mysql_pwrite64_openat_0_0_body104 = []"
  by (simp_all add: min_mysql_pwrite64_openat_0_0_body104_def prog_checks open_checks)

lemma min_mysql_pwrite64_openat_0_0_body105_ok: "body_ok (Suc 0) 8192 min_mysql_pwrite64_openat_0_0_body105" "counted min_mysql_pwrite64_openat_0_0_body105" "calls min_mysql_pwrite64_openat_0_0_body105 = 13" "opened_in m min_mysql_pwrite64_openat_0_0_body105 = []"
  by (simp_all add: min_mysql_pwrite64_openat_0_0_body105_def prog_checks open_checks)

lemma min_mysql_pwrite64_openat_0_0_body106_ok: "body_ok (Suc 0) 8192 min_mysql_pwrite64_openat_0_0_body106" "counted min_mysql_pwrite64_openat_0_0_body106" "calls min_mysql_pwrite64_openat_0_0_body106 = 13" "opened_in m min_mysql_pwrite64_openat_0_0_body106 = []"
  by (simp_all add: min_mysql_pwrite64_openat_0_0_body106_def prog_checks open_checks)

lemma min_mysql_pwrite64_openat_0_0_body107_ok: "body_ok (Suc 0) 8192 min_mysql_pwrite64_openat_0_0_body107" "counted min_mysql_pwrite64_openat_0_0_body107" "calls min_mysql_pwrite64_openat_0_0_body107 = 13" "opened_in m min_mysql_pwrite64_openat_0_0_body107 = []"
  by (simp_all add: min_mysql_pwrite64_openat_0_0_body107_def prog_checks open_checks)

lemma min_mysql_pwrite64_openat_0_0_body108_ok: "body_ok (Suc 0) 8192 min_mysql_pwrite64_openat_0_0_body108" "counted min_mysql_pwrite64_openat_0_0_body108" "calls min_mysql_pwrite64_openat_0_0_body108 = 13" "opened_in m min_mysql_pwrite64_openat_0_0_body108 = []"
  by (simp_all add: min_mysql_pwrite64_openat_0_0_body108_def prog_checks open_checks)

lemma min_mysql_pwrite64_openat_0_0_body109_ok: "body_ok (Suc 0) 8192 min_mysql_pwrite64_openat_0_0_body109" "counted min_mysql_pwrite64_openat_0_0_body109" "calls min_mysql_pwrite64_openat_0_0_body109 = 13" "opened_in m min_mysql_pwrite64_openat_0_0_body109 = []"
  by (simp_all add: min_mysql_pwrite64_openat_0_0_body109_def prog_checks open_checks)

lemma min_mysql_pwrite64_openat_0_0_body110_ok: "body_ok (Suc 0) 8192 min_mysql_pwrite64_openat_0_0_body110" "counted min_mysql_pwrite64_openat_0_0_body110" "calls min_mysql_pwrite64_openat_0_0_body110 = 13" "opened_in m min_mysql_pwrite64_openat_0_0_body110 = []"
  by (simp_all add: min_mysql_pwrite64_openat_0_0_body110_def prog_checks open_checks)

lemma min_mysql_pwrite64_openat_0_0_body111_ok: "body_ok (Suc 0) 8192 min_mysql_pwrite64_openat_0_0_body111" "counted min_mysql_pwrite64_openat_0_0_body111" "calls min_mysql_pwrite64_openat_0_0_body111 = 13" "opened_in m min_mysql_pwrite64_openat_0_0_body111 = []"
  by (simp_all add: min_mysql_pwrite64_openat_0_0_body111_def prog_checks open_checks)

lemma min_mysql_pwrite64_openat_0_0_body112_ok: "body_ok (Suc 0) 8192 min_mysql_pwrite64_openat_0_0_body112" "counted min_mysql_pwrite64_openat_0_0_body112" "calls min_mysql_pwrite64_openat_0_0_body112 = 13" "opened_in m min_mysql_pwrite64_openat_0_0_body112 = []"
  by (simp_all add: min_mysql_pwrite64_openat_0_0_body112_def prog_checks open_checks)

lemma min_mysql_pwrite64_openat_0_0_body113_ok: "body_ok (Suc 0) 8192 min_mysql_pwrite64_openat_0_0_body113" "counted min_mysql_pwrite64_openat_0_0_body113" "calls min_mysql_pwrite64_openat_0_0_body113 = 13" "opened_in m min_mysql_pwrite64_openat_0_0_body113 = []"
  by (simp_all add: min_mysql_pwrite64_openat_0_0_body113_def prog_checks open_checks)

lemma min_mysql_pwrite64_openat_0_0_body114_ok: "body_ok (Suc 0) 8192 min_mysql_pwrite64_openat_0_0_body114" "counted min_mysql_pwrite64_openat_0_0_body114" "calls min_mysql_pwrite64_openat_0_0_body114 = 13" "opened_in m min_mysql_pwrite64_openat_0_0_body114 = []"
  by (simp_all add: min_mysql_pwrite64_openat_0_0_body114_def prog_checks open_checks)

lemma min_mysql_pwrite64_openat_0_0_body115_ok: "body_ok (Suc 0) 8192 min_mysql_pwrite64_openat_0_0_body115" "counted min_mysql_pwrite64_openat_0_0_body115" "calls min_mysql_pwrite64_openat_0_0_body115 = 13" "opened_in m min_mysql_pwrite64_openat_0_0_body115 = []"
  by (simp_all add: min_mysql_pwrite64_openat_0_0_body115_def prog_checks open_checks)

lemma min_mysql_pwrite64_openat_0_0_body116_ok: "body_ok (Suc 0) 8192 min_mysql_pwrite64_openat_0_0_body116" "counted min_mysql_pwrite64_openat_0_0_body116" "calls min_mysql_pwrite64_openat_0_0_body116 = 13" "opened_in m min_mysql_pwrite64_openat_0_0_body116 = []"
  by (simp_all add: min_mysql_pwrite64_openat_0_0_body116_def prog_checks open_checks)

lemma min_mysql_pwrite64_openat_0_0_body117_ok: "body_ok (Suc 0) 8192 min_mysql_pwrite64_openat_0_0_body117" "counted min_mysql_pwrite64_openat_0_0_body117" "calls min_mysql_pwrite64_openat_0_0_body117 = 13" "opened_in m min_mysql_pwrite64_openat_0_0_body117 = []"
  by (simp_all add: min_mysql_pwrite64_openat_0_0_body117_def prog_checks open_checks)

lemma min_mysql_pwrite64_openat_0_0_body118_ok: "body_ok (Suc 0) 8192 min_mysql_pwrite64_openat_0_0_body118" "counted min_mysql_pwrite64_openat_0_0_body118" "calls min_mysql_pwrite64_openat_0_0_body118 = 13" "opened_in m min_mysql_pwrite64_openat_0_0_body118 = []"
  by (simp_all add: min_mysql_pwrite64_openat_0_0_body118_def prog_checks open_checks)

lemma min_mysql_pwrite64_openat_0_0_body119_ok: "body_ok (Suc 0) 8192 min_mysql_pwrite64_openat_0_0_body119" "counted min_mysql_pwrite64_openat_0_0_body119" "calls min_mysql_pwrite64_openat_0_0_body119 = 13" "opened_in m min_mysql_pwrite64_openat_0_0_body119 = []"
  by (simp_all add: min_mysql_pwrite64_openat_0_0_body119_def prog_checks open_checks)

lemma min_mysql_pwrite64_openat_0_0_body120_ok: "body_ok (Suc 0) 8192 min_mysql_pwrite64_openat_0_0_body120" "counted min_mysql_pwrite64_openat_0_0_body120" "calls min_mysql_pwrite64_openat_0_0_body120 = 13" "opened_in m min_mysql_pwrite64_openat_0_0_body120 = []"
  by (simp_all add: min_mysql_pwrite64_openat_0_0_body120_def prog_checks open_checks)

end
