(* ===== verification/CSB_Progs_Mysql_v2l_p2.thy ===== *)
theory CSB_Progs_Mysql_v2l_p2
  imports CSB_Syz_Files
begin

text \<open>
  Statements of min\_mysql\_pwrite64\_openat\_0\_0 (bench/targets/mysql\_v2), in the
  order of the file; the program is put together in CSB\_Progs\_Mysql\_v2l.
\<close>

definition min_mysql_pwrite64_openat_0_0_body121 :: "stmt list" where
  "min_mysql_pwrite64_openat_0_0_body121 = [
    Syscall NR_pwrite64 [Reg 0, Write_buf, Imm 0x2000, Imm 0x1dff8000], Count,
    Syscall NR_pwrite64 [Reg 0, Write_buf, Imm 0x2000, Imm 0x1dffa000], Count,
    Syscall NR_pwrite64 [Reg 0, Write_buf, Imm 0x2000, Imm 0x1dffc000], Count,
    Syscall NR_pwrite64 [Reg 0, Write_buf, Imm 0x1c00, Imm 0x1dffc400], Count,
    Syscall NR_pwrite64 [Reg 0, Write_buf, Imm 0x2000, Imm 0x1dffe000], Count,
    Syscall NR_pwrite64 [Reg 0, Write_buf, Imm 0x2000, Imm 0x1e000000], Count,
    Syscall NR_pwrite64 [Reg 0, Write_buf, Imm 0x1200, Imm 0x1e000e00], Count,
    Syscall NR_pwrite64 [Reg 0, Write_buf, Imm 0x2000, Imm 0x1e002000], Count,
    Syscall NR_pwrite64 [Reg 0, Write_buf, Imm 0x2000, Imm 0x1e004000], Count,
    Syscall NR_pwrite64 [Reg 0, Write_buf, Imm 0x800, Imm 0x1e005800], Count,
    Syscall NR_pwrite64 [Reg 0, Write_buf, Imm 0x2000, Imm 0x1e006000], Count,
    Syscall NR_pwrite64 [Reg 0, Write_buf, Imm 0x2000, Imm 0x1e008000], Count,
    Syscall NR_pwrite64 [Reg 0, Write_buf, Imm 0x2000, Imm 0x1e00a000], Count]"

definition min_mysql_pwrite64_openat_0_0_body122 :: "stmt list" where
  "min_mysql_pwrite64_openat_0_0_body122 = [
    Syscall NR_pwrite64 [Reg 0, Write_buf, Imm 0x1e00, Imm 0x1e00a200], Count,
    Syscall NR_pwrite64 [Reg 0, Write_buf, Imm 0x2000, Imm 0x1e00c000], Count,
    Syscall NR_pwrite64 [Reg 0, Write_buf, Imm 0x2000, Imm 0x1e00e000], Count,
    Syscall NR_pwrite64 [Reg 0, Write_buf, Imm 0x1400, Imm 0x1e00ec00], Count,
    Syscall NR_pwrite64 [Reg 0, Write_buf, Imm 0x2000, Imm 0x1e010000], Count,
    Syscall NR_pwrite64 [Reg 0, Write_buf, Imm 0x2000, Imm 0x1e012000], Count,
    Syscall NR_pwrite64 [Reg 0, Write_buf, Imm 0xc00, Imm 0x1e013400], Count,
    Syscall NR_pwrite64 [Reg 0, Write_buf, Imm 0x2000, Imm 0x1e014000], Count,
    Syscall NR_pwrite64 [Reg 0, Write_buf, Imm 0x2000, Imm 0x1e016000], Count,
    Syscall NR_pwrite64 [Reg 0, Write_buf, Imm 0x200, Imm 0x1e017e00], Count,
    Syscall NR_pwrite64 [Reg 0, Write_buf, Imm 0x2000, Imm 0x1e018000], Count,
    Syscall NR_pwrite64 [Reg 0, Write_buf, Imm 0x2000, Imm 0x1e01a000], Count,
    Syscall NR_pwrite64 [Reg 0, Write_buf, Imm 0x2000, Imm 0x1e01c000], Count]"

definition min_mysql_pwrite64_openat_0_0_body123 :: "stmt list" where
  "min_mysql_pwrite64_openat_0_0_body123 = [
    Syscall NR_pwrite64 [Reg 0, Write_buf, Imm 0x1800, Imm 0x1e01c800], Count,
    Syscall NR_pwrite64 [Reg 0, Write_buf, Imm 0x2000, Imm 0x1e01e000], Count,
    Syscall NR_pwrite64 [Reg 0, Write_buf, Imm 0x2000, Imm 0x1e020000], Count,
    Syscall NR_pwrite64 [Reg 0, Write_buf, Imm 0xe00, Imm 0x1e021200], Count,
    Syscall NR_pwrite64 [Reg 0, Write_buf, Imm 0x2000, Imm 0x1e022000], Count,
    Syscall NR_pwrite64 [Reg 0, Write_buf, Imm 0x2000, Imm 0x1e024000], Count,
    Syscall NR_pwrite64 [Reg 0, Write_buf, Imm 0x400, Imm 0x1e025c00], Count,
    Syscall NR_pwrite64 [Reg 0, Write_buf, Imm 0x2000, Imm 0x1e026000], Count,
    Syscall NR_pwrite64 [Reg 0, Write_buf, Imm 0x200, Imm 0x1e026c00], Count,
    Syscall NR_pwrite64 [Reg 0, Write_buf, Imm 0x200, Imm 0x1e026c00], Count,
    Syscall NR_pwrite64 [Reg 0, Write_buf, Imm 0x600, Imm 0x1e026c00], Count,
    Syscall NR_pwrite64 [Reg 0, Write_buf, Imm 0x200, Imm 0x1e027200], Count,
    Syscall NR_pwrite64 [Reg 0, Write_buf, Imm 0x200, Imm 0x1e027200], Count]"

definition min_mysql_pwrite64_openat_0_0_body124 :: "stmt list" where
  "min_mysql_pwrite64_openat_0_0_body124 = [
    Syscall NR_pwrite64 [Reg 0, Write_buf, Imm 0x200, Imm 0x1e027200], Count,
    Syscall NR_pwrite64 [Reg 0, Write_buf, Imm 0x200, Imm 0x1e027200], Count,
    Syscall NR_pwrite64 [Reg 0, Write_buf, Imm 0x200, Imm 0x1e027200], Count,
    Syscall NR_pwrite64 [Reg 0, Write_buf, Imm 0x200, Imm 0x1e027200], Count,
    Syscall NR_pwrite64 [Reg 0, Write_buf, Imm 0x200, Imm 0x1e027400], Count,
    Syscall NR_pwrite64 [Reg 0, Write_buf, Imm 0x600, Imm 0x1e027400], Count,
    Syscall NR_pwrite64 [Reg 0, Write_buf, Imm 0x200, Imm 0x1e027a00], Count,
    Syscall NR_pwrite64 [Reg 0, Write_buf, Imm 0x200, Imm 0x1e027a00], Count,
    Syscall NR_pwrite64 [Reg 0, Write_buf, Imm 0x600, Imm 0x1e027a00], Count,
    Syscall NR_pwrite64 [Reg 0, Write_buf, Imm 0x2000, Imm 0x1e028000], Count,
    Syscall NR_pwrite64 [Reg 0, Write_buf, Imm 0x1e00, Imm 0x1e028200], Count,
    Syscall NR_pwrite64 [Reg 0, Write_buf, Imm 0x2000, Imm 0x1e02a000], Count,
    Syscall NR_pwrite64 [Reg 0, Write_buf, Imm 0x2000, Imm 0x1e02c000], Count]"

definition min_mysql_pwrite64_openat_0_0_body125 :: "stmt list" where
  "min_mysql_pwrite64_openat_0_0_body125 = [
    Syscall NR_pwrite64 [Reg 0, Write_buf, Imm 0x2000, Imm 0x1e02e000], Count,
    Syscall NR_pwrite64 [Reg 0, Write_buf, Imm 0x2000, Imm 0x1e030000], Count,
    Syscall NR_pwrite64 [Reg 0, Write_buf, Imm 0x1200, Imm 0x1e030e00], Count,
    Syscall NR_pwrite64 [Reg 0, Write_buf, Imm 0x2000, Imm 0x1e032000], Count,
    Syscall NR_pwrite64 [Reg 0, Write_buf, Imm 0x800, Imm 0x1e032200], Count,
    Syscall NR_pwrite64 [Reg 0, Write_buf, Imm 0x200, Imm 0x1e032a00], Count,
    Syscall NR_pwrite64 [Reg 0, Write_buf, Imm 0x400, Imm 0x1e032a00], Count,
    Syscall NR_pwrite64 [Reg 0, Write_buf, Imm 0x200, Imm 0x1e032e00], Count,
    Syscall NR_pwrite64 [Reg 0, Write_buf, Imm 0xa00, Imm 0x1e032e00], Count,
    Syscall NR_pwrite64 [Reg 0, Write_buf, Imm 0x200, Imm 0x1e033800], Count,
    Syscall NR_pwrite64 [Reg 0, Write_buf, Imm 0x600, Imm 0x1e033800], Count,
    Syscall NR_pwrite64 [Reg 0, Write_buf, Imm 0x200, Imm 0x1e033e00], Count,
    Syscall NR_pwrite64 [Reg 0, Write_buf, Imm 0x200, Imm 0x1e033e00], Count]"

definition min_mysql_pwrite64_openat_0_0_body126 :: "stmt list" where
  "min_mysql_pwrite64_openat_0_0_body126 = [
    Syscall NR_pwrite64 [Reg 0, Write_buf, Imm 0x2000, Imm 0x1e034000], Count,
    Syscall NR_pwrite64 [Reg 0, Write_buf, Imm 0x200, Imm 0x1e034200], Count,
    Syscall NR_pwrite64 [Reg 0, Write_buf, Imm 0x200, Imm 0x1e034400], Count,
    Syscall NR_pwrite64 [Reg 0, Write_buf, Imm 0x1400, Imm 0x1e034400], Count,
    Syscall NR_pwrite64 [Reg 0, Write_buf, Imm 0x200, Imm 0x1e035800], Count,
    Syscall NR_pwrite64 [Reg 0, Write_buf, Imm 0x800, Imm 0x1e035800], Count,
    Syscall NR_pwrite64 [Reg 0, Write_buf, Imm 0x2000, Imm 0x1e036000], Count,
    Syscall NR_pwrite64 [Reg 0, Write_buf, Imm 0x2000, Imm 0x1e038000], Count,
    Syscall NR_pwrite64 [Reg 0, Write_buf, Imm 0x2000, Imm 0x1e03a000], Count,
    Syscall NR_pwrite64 [Reg 0, Write_buf, Imm 0x200, Imm 0x1e03a400], Count,
    Syscall NR_pwrite64 [Reg 0, Write_buf, Imm 0x1c00, Imm 0x1e03a400], Count,
    Syscall NR_pwrite64 [Reg 0, Write_buf, Imm 0x2000, Imm 0x1e03c000], Count,
    Syscall NR_pwrite64 [Reg 0, Write_buf, Imm 0x2000, Imm 0x1e03e000], Count]"

definition min_mysql_pwrite64_openat_0_0_body127 :: "stmt list" where
  "min_mysql_pwrite64_openat_0_0_body127 = [
    Syscall NR_pwrite64 [Reg 0, Write_buf, Imm 0x2000, Imm 0x1e040000], Count,
    Syscall NR_pwrite64 [Reg 0, Write_buf, Imm 0x2000, Imm 0x1e042000], Count,
    Syscall NR_pwrite64 [Reg 0, Write_buf, Imm 0xa00, Imm 0x1e042200], Count,
    Syscall NR_pwrite64 [Reg 0, Write_buf, Imm 0x200, Imm 0x1e042c00], Count,
    Syscall NR_pwrite64 [Reg 0, Write_buf, Imm 0x1400, Imm 0x1e042c00], Count,
    Syscall NR_pwrite64 [Reg 0, Write_buf, Imm 0x2000, Imm 0x1e044000], Count,
    Syscall NR_pwrite64 [Reg 0, Write_buf, Imm 0x2000, Imm 0x1e046000], Count,
    Syscall NR_pwrite64 [Reg 0, Write_buf, Imm 0x200, Imm 0x1e047600], Count,
    Syscall NR_pwrite64 [Reg 0, Write_buf, Imm 0xa00, Imm 0x1e047600], Count,
    Syscall NR_pwrite64 [Reg 0, Write_buf, Imm 0x2000, Imm 0x1e048000], Count,
    Syscall NR_pwrite64 [Reg 0, Write_buf, Imm 0x2000, Imm 0x1e04a000], Count,
    Syscall NR_pwrite64 [Reg 0, Write_buf, Imm 0x2000, Imm 0x1e04c000], Count,
    Syscall NR_pwrite64 [Reg 0, Write_buf, Imm 0x2000, Imm 0x1e04c000], Count]"

definition min_mysql_pwrite64_openat_0_0_body128 :: "stmt list" where
  "min_mysql_pwrite64_openat_0_0_body128 = [
    Syscall NR_pwrite64 [Reg 0, Write_buf, Imm 0x2000, Imm 0x1e04e000], Count,
    Syscall NR_pwrite64 [Reg 0, Write_buf, Imm 0x2000, Imm 0x1e050000], Count,
    Syscall NR_pwrite64 [Reg 0, Write_buf, Imm 0x1800, Imm 0x1e050800], Count,
    Syscall NR_pwrite64 [Reg 0, Write_buf, Imm 0x2000, Imm 0x1e052000], Count,
    Syscall NR_pwrite64 [Reg 0, Write_buf, Imm 0x2000, Imm 0x1e054000], Count,
    Syscall NR_pwrite64 [Reg 0, Write_buf, Imm 0xe00, Imm 0x1e055200], Count,
    Syscall NR_pwrite64 [Reg 0, Write_buf, Imm 0x2000, Imm 0x1e056000], Count,
    Syscall NR_pwrite64 [Reg 0, Write_buf, Imm 0x2000, Imm 0x1e058000], Count,
    Syscall NR_pwrite64 [Reg 0, Write_buf, Imm 0x400, Imm 0x1e059c00], Count,
    Syscall NR_pwrite64 [Reg 0, Write_buf, Imm 0x2000, Imm 0x1e05a000], Count,
    Syscall NR_pwrite64 [Reg 0, Write_buf, Imm 0x2000, Imm 0x1e05c000], Count,
    Syscall NR_pwrite64 [Reg 0, Write_buf, Imm 0x2000, Imm 0x1e05e000], Count,
    Syscall NR_pwrite64 [Reg 0, Write_buf, Imm 0x1a00, Imm 0x1e05e600], Count]"

definition min_mysql_pwrite64_openat_0_0_body129 :: "stmt list" where
  "min_mysql_pwrite64_openat_0_0_body129 = [
    Syscall NR_pwrite64 [Reg 0, Write_buf, Imm 0x2000, Imm 0x1e060000], Count,
    Syscall NR_pwrite64 [Reg 0, Write_buf, Imm 0x2000, Imm 0x1e062000], Count,
    Syscall NR_pwrite64 [Reg 0, Write_buf, Imm 0x1000, Imm 0x1e063000], Count,
    Syscall NR_pwrite64 [Reg 0, Write_buf, Imm 0x2000, Imm 0x1e064000], Count,
    Syscall NR_pwrite64 [Reg 0, Write_buf, Imm 0x2000, Imm 0x1e066000], Count,
    Syscall NR_pwrite64 [Reg 0, Write_buf, Imm 0x600, Imm 0x1e067a00], Count,
    Syscall NR_pwrite64 [Reg 0, Write_buf, Imm 0x2000, Imm 0x1e068000], Count,
    Syscall NR_pwrite64 [Reg 0, Write_buf, Imm 0x2000, Imm 0x1e06a000], Count,
    Syscall NR_pwrite64 [Reg 0, Write_buf, Imm 0x2000, Imm 0x1e06c000], Count,
    Syscall NR_pwrite64 [Reg 0, Write_buf, Imm 0x1c00, Imm 0x1e06c400], Count,
    Syscall NR_pwrite64 [Reg 0, Write_buf, Imm 0x2000, Imm 0x1e06e000], Count,
    Syscall NR_pwrite64 [Reg 0, Write_buf, Imm 0x2000, Imm 0x1e070000], Count,
    Syscall NR_pwrite64 [Reg 0, Write_buf, Imm 0x1200, Imm 0x1e070e00], Count]"

definition min_mysql_pwrite64_openat_0_0_body130 :: "stmt list" where
  "min_mysql_pwrite64_openat_0_0_body130 = [
    Syscall NR_pwrite64 [Reg 0, Write_buf, Imm 0x2000, Imm 0x1e072000], Count,
    Syscall NR_pwrite64 [Reg 0, Write_buf, Imm 0x2000, Imm 0x1e074000], Count,
    Syscall NR_pwrite64 [Reg 0, Write_buf, Imm 0x800, Imm 0x1e075800], Count,
    Syscall NR_pwrite64 [Reg 0, Write_buf, Imm 0x2000, Imm 0x1e076000], Count,
    Syscall NR_pwrite64 [Reg 0, Write_buf, Imm 0x2000, Imm 0x1e078000], Count,
    Syscall NR_pwrite64 [Reg 0, Write_buf, Imm 0x2000, Imm 0x1e07a000], Count,
    Syscall NR_pwrite64 [Reg 0, Write_buf, Imm 0x1000, Imm 0x1e07a200], Count,
    Syscall NR_pwrite64 [Reg 0, Write_buf, Imm 0x200, Imm 0x1e07b200], Count,
    Syscall NR_pwrite64 [Reg 0, Write_buf, Imm 0x200, Imm 0x1e07b200], Count,
    Syscall NR_pwrite64 [Reg 0, Write_buf, Imm 0x200, Imm 0x1e07b200], Count,
    Syscall NR_pwrite64 [Reg 0, Write_buf, Imm 0x400, Imm 0x1e07b200], Count,
    Syscall NR_pwrite64 [Reg 0, Write_buf, Imm 0x200, Imm 0x1e07b600], Count,
    Syscall NR_pwrite64 [Reg 0, Write_buf, Imm 0x200, Imm 0x1e07b600], Count]"

definition min_mysql_pwrite64_openat_0_0_body131 :: "stmt list" where
  "min_mysql_pwrite64_openat_0_0_body131 = [
    Syscall NR_pwrite64 [Reg 0, Write_buf, Imm 0x200, Imm 0x1e07b800], Count,
    Syscall NR_pwrite64 [Reg 0, Write_buf, Imm 0x200, Imm 0x1e07b800], Count,
    Syscall NR_pwrite64 [Reg 0, Write_buf, Imm 0x200, Imm 0x1e07b800], Count,
    Syscall NR_pwrite64 [Reg 0, Write_buf, Imm 0x200, Imm 0x1e07ba00], Count,
    Syscall NR_pwrite64 [Reg 0, Write_buf, Imm 0x600, Imm 0x1e07ba00], Count,
    Syscall NR_pwrite64 [Reg 0, Write_buf, Imm 0x2000, Imm 0x1e07c000], Count,
    Syscall NR_pwrite64 [Reg 0, Write_buf, Imm 0x200, Imm 0x1e07c400], Count,
    Syscall NR_pwrite64 [Reg 0, Write_buf, Imm 0x1c00, Imm 0x1e07c400], Count,
    Syscall NR_pwrite64 [Reg 0, Write_buf, Imm 0x2000, Imm 0x1e07e000], Count,
    Syscall NR_pwrite64 [Reg 0, Write_buf, Imm 0x1800, Imm 0x1e07e800], Count,
    Syscall NR_pwrite64 [Reg 0, Write_buf, Imm 0x2000, Imm 0x1e080000], Count,
    Syscall NR_pwrite64 [Reg 0, Write_buf, Imm 0x600, Imm 0x1e080000], Count,
    Syscall NR_pwrite64 [Reg 0, Write_buf, Imm 0x200, Imm 0x1e080600], Count]"

definition min_mysql_pwrite64_openat_0_0_body132 :: "stmt list" where
  "min_mysql_pwrite64_openat_0_0_body132 = [
    Syscall NR_pwrite64 [Reg 0, Write_buf, Imm 0x200, Imm 0x1e080600], Count,
    Syscall NR_pwrite64 [Reg 0, Write_buf, Imm 0x200, Imm 0x1e080800], Count,
    Syscall NR_pwrite64 [Reg 0, Write_buf, Imm 0xa00, Imm 0x1e080800], Count,
    Syscall NR_pwrite64 [Reg 0, Write_buf, Imm 0x200, Imm 0x1e081200], Count,
    Syscall NR_pwrite64 [Reg 0, Write_buf, Imm 0x200, Imm 0x1e081200], Count,
    Syscall NR_pwrite64 [Reg 0, Write_buf, Imm 0x600, Imm 0x1e081200], Count,
    Syscall NR_pwrite64 [Reg 0, Write_buf, Imm 0x200, Imm 0x1e081800], Count,
    Syscall NR_pwrite64 [Reg 0, Write_buf, Imm 0x400, Imm 0x1e081800], Count,
    Syscall NR_pwrite64 [Reg 0, Write_buf, Imm 0x200, Imm 0x1e081c00], Count,
    Syscall NR_pwrite64 [Reg 0, Write_buf, Imm 0x200, Imm 0x1e081c00], Count,
    Syscall NR_pwrite64 [Reg 0, Write_buf, Imm 0x200, Imm 0x1e081e00], Count,
    Syscall NR_pwrite64 [Reg 0, Write_buf, Imm 0x200, Imm 0x1e081e00], Count,
    Syscall NR_pwrite64 [Reg 0, Write_buf, Imm 0x200, Imm 0x1e081e00], Count]"

definition min_mysql_pwrite64_openat_0_0_body133 :: "stmt list" where
  "min_mysql_pwrite64_openat_0_0_body133 = [
    Syscall NR_pwrite64 [Reg 0, Write_buf, Imm 0x2000, Imm 0x1e082000], Count,
    Syscall NR_pwrite64 [Reg 0, Write_buf, Imm 0x1400, Imm 0x1e082000], Count,
    Syscall NR_pwrite64 [Reg 0, Write_buf, Imm 0x200, Imm 0x1e083400], Count,
    Syscall NR_pwrite64 [Reg 0, Write_buf, Imm 0xc00, Imm 0x1e083400], Count,
    Syscall NR_pwrite64 [Reg 0, Write_buf, Imm 0x2000, Imm 0x1e084000], Count,
    Syscall NR_pwrite64 [Reg 0, Write_buf, Imm 0x2000, Imm 0x1e086000], Count,
    Syscall NR_pwrite64 [Reg 0, Write_buf, Imm 0x200, Imm 0x1e087e00], Count,
    Syscall NR_pwrite64 [Reg 0, Write_buf, Imm 0x200, Imm 0x1e087e00], Count,
    Syscall NR_pwrite64 [Reg 0, Write_buf, Imm 0x2000, Imm 0x1e088000], Count,
    Syscall NR_pwrite64 [Reg 0, Write_buf, Imm 0x2000, Imm 0x1e08a000], Count,
    Syscall NR_pwrite64 [Reg 0, Write_buf, Imm 0x2000, Imm 0x1e08c000], Count,
    Syscall NR_pwrite64 [Reg 0, Write_buf, Imm 0x2000, Imm 0x1e08e000], Count,
    Syscall NR_pwrite64 [Reg 0, Write_buf, Imm 0x400, Imm 0x1e08fc00], Count]"

definition min_mysql_pwrite64_openat_0_0_body134 :: "stmt list" where
  "min_mysql_pwrite64_openat_0_0_body134 = [
    Syscall NR_pwrite64 [Reg 0, Write_buf, Imm 0x2000, Imm 0x1e090000], Count,
    Syscall NR_pwrite64 [Reg 0, Write_buf, Imm 0x1a00, Imm 0x1e090600], Count,
    Syscall NR_pwrite64 [Reg 0, Write_buf, Imm 0x2000, Imm 0x1e092000], Count,
    Syscall NR_pwrite64 [Reg 0, Write_buf, Imm 0x2000, Imm 0x1e094000], Count,
    Syscall NR_pwrite64 [Reg 0, Write_buf, Imm 0x200, Imm 0x1e095000], Count,
    Syscall NR_pwrite64 [Reg 0, Write_buf, Imm 0x1000, Imm 0x1e095000], Count,
    Syscall NR_pwrite64 [Reg 0, Write_buf, Imm 0x2000, Imm 0x1e096000], Count,
    Syscall NR_pwrite64 [Reg 0, Write_buf, Imm 0x2000, Imm 0x1e098000], Count,
    Syscall NR_pwrite64 [Reg 0, Write_buf, Imm 0x600, Imm 0x1e099a00], Count,
    Syscall NR_pwrite64 [Reg 0, Write_buf, Imm 0x2000, Imm 0x1e09a000], Count,
    Syscall NR_pwrite64 [Reg 0, Write_buf, Imm 0x2000, Imm 0x1e09c000], Count,
    Syscall NR_pwrite64 [Reg 0, Write_buf, Imm 0x2000, Imm 0x1e09e000], Count,
    Syscall NR_pwrite64 [Reg 0, Write_buf, Imm 0x1c00, Imm 0x1e09e400], Count]"

definition min_mysql_pwrite64_openat_0_0_body135 :: "stmt list" where
  "min_mysql_pwrite64_openat_0_0_body135 = [
    Syscall NR_pwrite64 [Reg 0, Write_buf, Imm 0x2000, Imm 0x1e0a0000], Count,
    Syscall NR_pwrite64 [Reg 0, Write_buf, Imm 0x2000, Imm 0x1e0a2000], Count,
    Syscall NR_pwrite64 [Reg 0, Write_buf, Imm 0x1200, Imm 0x1e0a2e00], Count,
    Syscall NR_pwrite64 [Reg 0, Write_buf, Imm 0x2000, Imm 0x1e0a4000], Count,
    Syscall NR_pwrite64 [Reg 0, Write_buf, Imm 0x2000, Imm 0x1e0a6000], Count,
    Syscall NR_pwrite64 [Reg 0, Write_buf, Imm 0x800, Imm 0x1e0a7800], Count,
    Syscall NR_pwrite64 [Reg 0, Write_buf, Imm 0x2000, Imm 0x1e0a8000], Count,
    Syscall NR_pwrite64 [Reg 0, Write_buf, Imm 0x2000, Imm 0x1e0aa000], Count,
    Syscall NR_pwrite64 [Reg 0, Write_buf, Imm 0x2000, Imm 0x1e0ac000], Count,
    Syscall NR_pwrite64 [Reg 0, Write_buf, Imm 0x2000, Imm 0x1e0ac000], Count,
    Syscall NR_pwrite64 [Reg 0, Write_buf, Imm 0x2000, Imm 0x1e0ae000], Count,
    Syscall NR_pwrite64 [Reg 0, Write_buf, Imm 0x2000, Imm 0x1e0b0000], Count,
    Syscall NR_pwrite64 [Reg 0, Write_buf, Imm 0x1600, Imm 0x1e0b0a00], Count]"

definition min_mysql_pwrite64_openat_0_0_body136 :: "stmt list" where
  "min_mysql_pwrite64_openat_0_0_body136 = [
    Syscall NR_pwrite64 [Reg 0, Write_buf, Imm 0x2000, Imm 0x1e0b2000], Count,
    Syscall NR_pwrite64 [Reg 0, Write_buf, Imm 0x2000, Imm 0x1e0b4000], Count,
    Syscall NR_pwrite64 [Reg 0, Write_buf, Imm 0xc00, Imm 0x1e0b5400], Count,
    Syscall NR_pwrite64 [Reg 0, Write_buf, Imm 0x2000, Imm 0x1e0b6000], Count,
    Syscall NR_pwrite64 [Reg 0, Write_buf, Imm 0x2000, Imm 0x1e0b8000], Count,
    Syscall NR_pwrite64 [Reg 0, Write_buf, Imm 0x200, Imm 0x1e0b9e00], Count,
    Syscall NR_pwrite64 [Reg 0, Write_buf, Imm 0x2000, Imm 0x1e0ba000], Count,
    Syscall NR_pwrite64 [Reg 0, Write_buf, Imm 0x2000, Imm 0x1e0bc000], Count,
    Syscall NR_pwrite64 [Reg 0, Write_buf, Imm 0x2000, Imm 0x1e0be000], Count,
    Syscall NR_pwrite64 [Reg 0, Write_buf, Imm 0x1800, Imm 0x1e0be800], Count,
    Syscall NR_pwrite64 [Reg 0, Write_buf, Imm 0x2000, Imm 0x1e0c0000], Count,
    Syscall NR_pwrite64 [Reg 0, Write_buf, Imm 0x2000, Imm 0x1e0c2000], Count,
    Syscall NR_pwrite64 [Reg 0, Write_buf, Imm 0x200, Imm 0x1e0c3200], Count]"

definition min_mysql_pwrite64_openat_0_0_body137 :: "stmt list" where
  "min_mysql_pwrite64_openat_0_0_body137 = [
    Syscall NR_pwrite64 [Reg 0, Write_buf, Imm 0xc00, Imm 0x1e0c3400], Count,
    Syscall NR_pwrite64 [Reg 0, Write_buf, Imm 0x2000, Imm 0x1e0c4000], Count,
    Syscall NR_pwrite64 [Reg 0, Write_buf, Imm 0x2000, Imm 0x1e0c6000], Count,
    Syscall NR_pwrite64 [Reg 0, Write_buf, Imm 0x200, Imm 0x1e0c7c00], Count,
    Syscall NR_pwrite64 [Reg 0, Write_buf, Imm 0x400, Imm 0x1e0c7c00], Count,
    Syscall NR_pwrite64 [Reg 0, Write_buf, Imm 0x2000, Imm 0x1e0c8000], Count,
    Syscall NR_pwrite64 [Reg 0, Write_buf, Imm 0x200, Imm 0x1e0c8c00], Count,
    Syscall NR_pwrite64 [Reg 0, Write_buf, Imm 0x200, Imm 0x1e0c8c00], Count,
    Syscall NR_pwrite64 [Reg 0, Write_buf, Imm 0x600, Imm 0x1e0c8c00], Count,
    Syscall NR_pwrite64 [Reg 0, Write_buf, Imm 0x200, Imm 0x1e0c9200], Count,
    Syscall NR_pwrite64 [Reg 0, Write_buf, Imm 0x200, Imm 0x1e0c9200], Count,
    Syscall NR_pwrite64 [Reg 0, Write_buf, Imm 0x200, Imm 0x1e0c9200], Count,
    Syscall NR_pwrite64 [Reg 0, Write_buf, Imm 0x200, Imm 0x1e0c9200], Count]"

definition min_mysql_pwrite64_openat_0_0_body138 :: "stmt list" where
  "min_mysql_pwrite64_openat_0_0_body138 = [
    Syscall NR_pwrite64 [Reg 0, Write_buf, Imm 0x200, Imm 0x1e0c9200], Count,
    Syscall NR_pwrite64 [Reg 0, Write_buf, Imm 0x200, Imm 0x1e0c9200], Count,
    Syscall NR_pwrite64 [Reg 0, Write_buf, Imm 0x400, Imm 0x1e0c9200], Count,
    Syscall NR_pwrite64 [Reg 0, Write_buf, Imm 0x200, Imm 0x1e0c9600], Count,
    Syscall NR_pwrite64 [Reg 0, Write_buf, Imm 0xa00, Imm 0x1e0c9600], Count,
    Syscall NR_pwrite64 [Reg 0, Write_buf, Imm 0x2000, Imm 0x1e0ca000], Count,
    Syscall NR_pwrite64 [Reg 0, Write_buf, Imm 0x200, Imm 0x1e0ca000], Count,
    Syscall NR_pwrite64 [Reg 0, Write_buf, Imm 0xc00, Imm 0x1e0ca000], Count,
    Syscall NR_pwrite64 [Reg 0, Write_buf, Imm 0x200, Imm 0x1e0cac00], Count,
    Syscall NR_pwrite64 [Reg 0, Write_buf, Imm 0x200, Imm 0x1e0cac00], Count,
    Syscall NR_pwrite64 [Reg 0, Write_buf, Imm 0x200, Imm 0x1e0cae00], Count,
    Syscall NR_pwrite64 [Reg 0, Write_buf, Imm 0x200, Imm 0x1e0cae00], Count,
    Syscall NR_pwrite64 [Reg 0, Write_buf, Imm 0x400, Imm 0x1e0cb000], Count]"

definition min_mysql_pwrite64_openat_0_0_body139 :: "stmt list" where
  "min_mysql_pwrite64_openat_0_0_body139 = [
    Syscall NR_pwrite64 [Reg 0, Write_buf, Imm 0x400, Imm 0x1e0cb400], Count,
    Syscall NR_pwrite64 [Reg 0, Write_buf, Imm 0x200, Imm 0x1e0cb800], Count,
    Syscall NR_pwrite64 [Reg 0, Write_buf, Imm 0x200, Imm 0x1e0cba00], Count,
    Syscall NR_pwrite64 [Reg 0, Write_buf, Imm 0x200, Imm 0x1e0cbc00], Count,
    Syscall NR_pwrite64 [Reg 0, Write_buf, Imm 0x200, Imm 0x1e0cbe00], Count,
    Syscall NR_pwrite64 [Reg 0, Write_buf, Imm 0x2000, Imm 0x1e0cc000], Count,
    Syscall NR_pwrite64 [Reg 0, Write_buf, Imm 0x400, Imm 0x1e0cc200], Count,
    Syscall NR_pwrite64 [Reg 0, Write_buf, Imm 0x200, Imm 0x1e0cc600], Count,
    Syscall NR_pwrite64 [Reg 0, Write_buf, Imm 0x1400, Imm 0x1e0cc600], Count,
    Syscall NR_pwrite64 [Reg 0, Write_buf, Imm 0x200, Imm 0x1e0cda00], Count,
    Syscall NR_pwrite64 [Reg 0, Write_buf, Imm 0x200, Imm 0x1e0cda00], Count,
    Syscall NR_pwrite64 [Reg 0, Write_buf, Imm 0x400, Imm 0x1e0cda00], Count,
    Syscall NR_pwrite64 [Reg 0, Write_buf, Imm 0x200, Imm 0x1e0cde00], Count]"

definition min_mysql_pwrite64_openat_0_0_body140 :: "stmt list" where
  "min_mysql_pwrite64_openat_0_0_body140 = [
    Syscall NR_pwrite64 [Reg 0, Write_buf, Imm 0x200, Imm 0x1e0cde00], Count,
    Syscall NR_pwrite64 [Reg 0, Write_buf, Imm 0x2000, Imm 0x1e0ce000], Count,
    Syscall NR_pwrite64 [Reg 0, Write_buf, Imm 0x200, Imm 0x1e0ce000], Count,
    Syscall NR_pwrite64 [Reg 0, Write_buf, Imm 0x200, Imm 0x1e0ce200], Count,
    Syscall NR_pwrite64 [Reg 0, Write_buf, Imm 0xe00, Imm 0x1e0ce200], Count,
    Syscall NR_pwrite64 [Reg 0, Write_buf, Imm 0x200, Imm 0x1e0cf000], Count,
    Syscall NR_pwrite64 [Reg 0, Write_buf, Imm 0x200, Imm 0x1e0cf000], Count,
    Syscall NR_pwrite64 [Reg 0, Write_buf, Imm 0x400, Imm 0x1e0cf000], Count,
    Syscall NR_pwrite64 [Reg 0, Write_buf, Imm 0x200, Imm 0x1e0cf400], Count,
    Syscall NR_pwrite64 [Reg 0, Write_buf, Imm 0x800, Imm 0x1e0cf400], Count,
    Syscall NR_pwrite64 [Reg 0, Write_buf, Imm 0x200, Imm 0x1e0cfc00], Count,
    Syscall NR_pwrite64 [Reg 0, Write_buf, Imm 0x200, Imm 0x1e0cfc00], Count,
    Syscall NR_pwrite64 [Reg 0, Write_buf, Imm 0x200, Imm 0x1e0cfe00], Count]"

definition min_mysql_pwrite64_openat_0_0_body141 :: "stmt list" where
  "min_mysql_pwrite64_openat_0_0_body141 = [
    Syscall NR_pwrite64 [Reg 0, Write_buf, Imm 0x200, Imm 0x1e0cfe00], Count,
    Syscall NR_pwrite64 [Reg 0, Write_buf, Imm 0x200, Imm 0x1e0cfe00], Count,
    Syscall NR_pwrite64 [Reg 0, Write_buf, Imm 0x2000, Imm 0x1e0d0000], Count,
    Syscall NR_pwrite64 [Reg 0, Write_buf, Imm 0x200, Imm 0x1e0d1200], Count,
    Syscall NR_pwrite64 [Reg 0, Write_buf, Imm 0x200, Imm 0x1e0d1400], Count,
    Syscall NR_pwrite64 [Reg 0, Write_buf, Imm 0xc00, Imm 0x1e0d1400], Count,
    Syscall NR_pwrite64 [Reg 0, Write_buf, Imm 0x2000, Imm 0x1e0d2000], Count,
    Syscall NR_pwrite64 [Reg 0, Write_buf, Imm 0x2000, Imm 0x1e0d4000], Count,
    Syscall NR_pwrite64 [Reg 0, Write_buf, Imm 0x200, Imm 0x1e0d5e00], Count,
    Syscall NR_pwrite64 [Reg 0, Write_buf, Imm 0x200, Imm 0x1e0d5e00], Count,
    Syscall NR_pwrite64 [Reg 0, Write_buf, Imm 0x200, Imm 0x1e0d5e00], Count,
    Syscall NR_pwrite64 [Reg 0, Write_buf, Imm 0x2000, Imm 0x1e0d6000], Count,
    Syscall NR_pwrite64 [Reg 0, Write_buf, Imm 0x2000, Imm 0x1e0d8000], Count]"

definition min_mysql_pwrite64_openat_0_0_body142 :: "stmt list" where
  "min_mysql_pwrite64_openat_0_0_body142 = [
    Syscall NR_pwrite64 [Reg 0, Write_buf, Imm 0x2000, Imm 0x1e0da000], Count,
    Syscall NR_pwrite64 [Reg 0, Write_buf, Imm 0x2000, Imm 0x1e0dc000], Count,
    Syscall NR_pwrite64 [Reg 0, Write_buf, Imm 0x400, Imm 0x1e0ddc00], Count,
    Syscall NR_pwrite64 [Reg 0, Write_buf, Imm 0x2000, Imm 0x1e0de000], Count,
    Syscall NR_pwrite64 [Reg 0, Write_buf, Imm 0x1a00, Imm 0x1e0de600], Count,
    Syscall NR_pwrite64 [Reg 0, Write_buf, Imm 0x2000, Imm 0x1e0e0000], Count,
    Syscall NR_pwrite64 [Reg 0, Write_buf, Imm 0x2000, Imm 0x1e0e2000], Count,
    Syscall NR_pwrite64 [Reg 0, Write_buf, Imm 0x1000, Imm 0x1e0e3000], Count,
    Syscall NR_pwrite64 [Reg 0, Write_buf, Imm 0x2000, Imm 0x1e0e4000], Count,
    Syscall NR_pwrite64 [Reg 0, Write_buf, Imm 0x2000, Imm 0x1e0e6000], Count,
    Syscall NR_pwrite64 [Reg 0, Write_buf, Imm 0x600, Imm 0x1e0e7a00], Count,
    Syscall NR_pwrite64 [Reg 0, Write_buf, Imm 0x2000, Imm 0x1e0e8000], Count,
    Syscall NR_pwrite64 [Reg 0, Write_buf, Imm 0x2000, Imm 0x1e0ea000], Count]"

definition min_mysql_pwrite64_openat_0_0_body143 :: "stmt list" where
  "min_mysql_pwrite64_openat_0_0_body143 = [
    Syscall NR_pwrite64 [Reg 0, Write_buf, Imm 0x2000, Imm 0x1e0ec000], Count,
    Syscall NR_pwrite64 [Reg 0, Write_buf, Imm 0x1c00, Imm 0x1e0ec400], Count,
    Syscall NR_pwrite64 [Reg 0, Write_buf, Imm 0x2000, Imm 0x1e0ee000], Count,
    Syscall NR_pwrite64 [Reg 0, Write_buf, Imm 0x2000, Imm 0x1e0f0000], Count,
    Syscall NR_pwrite64 [Reg 0, Write_buf, Imm 0x1200, Imm 0x1e0f0e00], Count,
    Syscall NR_pwrite64 [Reg 0, Write_buf, Imm 0x2000, Imm 0x1e0f2000], Count,
    Syscall NR_pwrite64 [Reg 0, Write_buf, Imm 0x2000, Imm 0x1e0f4000], Count,
    Syscall NR_pwrite64 [Reg 0, Write_buf, Imm 0x800, Imm 0x1e0f5800], Count,
    Syscall NR_pwrite64 [Reg 0, Write_buf, Imm 0x2000, Imm 0x1e0f6000], Count,
    Syscall NR_pwrite64 [Reg 0, Write_buf, Imm 0x2000, Imm 0x1e0f8000], Count,
    Syscall NR_pwrite64 [Reg 0, Write_buf, Imm 0x2000, Imm 0x1e0fa000], Count,
    Syscall NR_pwrite64 [Reg 0, Write_buf, Imm 0x2000, Imm 0x1e0fa000], Count,
    Syscall NR_pwrite64 [Reg 0, Write_buf, Imm 0x2000, Imm 0x1e0fc000], Count]"

definition min_mysql_pwrite64_openat_0_0_body144 :: "stmt list" where
  "min_mysql_pwrite64_openat_0_0_body144 = [
    Syscall NR_pwrite64 [Reg 0, Write_buf, Imm 0x2000, Imm 0x1e0fe000], Count,
    Syscall NR_pwrite64 [Reg 0, Write_buf, Imm 0x1600, Imm 0x1e0fea00], Count,
    Syscall NR_pwrite64 [Reg 0, Write_buf, Imm 0x2000, Imm 0x1e100000], Count,
    Syscall NR_pwrite64 [Reg 0, Write_buf, Imm 0x2000, Imm 0x1e102000], Count,
    Syscall NR_pwrite64 [Reg 0, Write_buf, Imm 0xc00, Imm 0x1e103400], Count,
    Syscall NR_pwrite64 [Reg 0, Write_buf, Imm 0x2000, Imm 0x1e104000], Count,
    Syscall NR_pwrite64 [Reg 0, Write_buf, Imm 0x2000, Imm 0x1e106000], Count,
    Syscall NR_pwrite64 [Reg 0, Write_buf, Imm 0x200, Imm 0x1e107e00], Count,
    Syscall NR_pwrite64 [Reg 0, Write_buf, Imm 0x2000, Imm 0x1e108000], Count,
    Syscall NR_pwrite64 [Reg 0, Write_buf, Imm 0x2000, Imm 0x1e10a000], Count,
    Syscall NR_pwrite64 [Reg 0, Write_buf, Imm 0x2000, Imm 0x1e10c000], Count,
    Syscall NR_pwrite64 [Reg 0, Write_buf, Imm 0x1800, Imm 0x1e10c800], Count,
    Syscall NR_pwrite64 [Reg 0, Write_buf, Imm 0x2000, Imm 0x1e10e000], Count]"

definition min_mysql_pwrite64_openat_0_0_body145 :: "stmt list" where
  "min_mysql_pwrite64_openat_0_0_body145 = [
    Syscall NR_pwrite64 [Reg 0, Write_buf, Imm 0x2000, Imm 0x1e110000], Count,
    Syscall NR_pwrite64 [Reg 0, Write_buf, Imm 0xe00, Imm 0x1e111200], Count,
    Syscall NR_pwrite64 [Reg 0, Write_buf, Imm 0x2000, Imm 0x1e112000], Count,
    Syscall NR_pwrite64 [Reg 0, Write_buf, Imm 0x2000, Imm 0x1e114000], Count,
    Syscall NR_pwrite64 [Reg 0, Write_buf, Imm 0x400, Imm 0x1e115c00], Count,
    Syscall NR_pwrite64 [Reg 0, Write_buf, Imm 0x2000, Imm 0x1e116000], Count,
    Syscall NR_pwrite64 [Reg 0, Write_buf, Imm 0x200, Imm 0x1e116c00], Count,
    Syscall NR_pwrite64 [Reg 0, Write_buf, Imm 0x200, Imm 0x1e116c00], Count,
    Syscall NR_pwrite64 [Reg 0, Write_buf, Imm 0x200, Imm 0x1e116c00], Count,
    Syscall NR_pwrite64 [Reg 0, Write_buf, Imm 0x800, Imm 0x1e116c00], Count,
    Syscall NR_pwrite64 [Reg 0, Write_buf, Imm 0x200, Imm 0x1e117400], Count,
    Syscall NR_pwrite64 [Reg 0, Write_buf, Imm 0x200, Imm 0x1e117400], Count,
    Syscall NR_pwrite64 [Reg 0, Write_buf, Imm 0x200, Imm 0x1e117600], Count]"

definition min_mysql_pwrite64_openat_0_0_body146 :: "stmt list" where
  "min_mysql_pwrite64_openat_0_0_body146 = [
    Syscall NR_pwrite64 [Reg 0, Write_buf, Imm 0x200, Imm 0x1e117600], Count,
    Syscall NR_pwrite64 [Reg 0, Write_buf, Imm 0x200, Imm 0x1e117600], Count,
    Syscall NR_pwrite64 [Reg 0, Write_buf, Imm 0x200, Imm 0x1e117600], Count,
    Syscall NR_pwrite64 [Reg 0, Write_buf, Imm 0x200, Imm 0x1e117600], Count,
    Syscall NR_pwrite64 [Reg 0, Write_buf, Imm 0xa00, Imm 0x1e117600], Count,
    Syscall NR_pwrite64 [Reg 0, Write_buf, Imm 0x2000, Imm 0x1e118000], Count,
    Syscall NR_pwrite64 [Reg 0, Write_buf, Imm 0x2000, Imm 0x1e118000], Count,
    Syscall NR_pwrite64 [Reg 0, Write_buf, Imm 0x2000, Imm 0x1e11a000], Count,
    Syscall NR_pwrite64 [Reg 0, Write_buf, Imm 0x400, Imm 0x1e11a600], Count,
    Syscall NR_pwrite64 [Reg 0, Write_buf, Imm 0x200, Imm 0x1e11aa00], Count,
    Syscall NR_pwrite64 [Reg 0, Write_buf, Imm 0x200, Imm 0x1e11aa00], Count,
    Syscall NR_pwrite64 [Reg 0, Write_buf, Imm 0x200, Imm 0x1e11ac00], Count,
    Syscall NR_pwrite64 [Reg 0, Write_buf, Imm 0x200, Imm 0x1e11ac00], Count]"

definition min_mysql_pwrite64_openat_0_0_body147 :: "stmt list" where
  "min_mysql_pwrite64_openat_0_0_body147 = [
    Syscall NR_pwrite64 [Reg 0, Write_buf, Imm 0x200, Imm 0x1e11ac00], Count,
    Syscall NR_pwrite64 [Reg 0, Write_buf, Imm 0x200, Imm 0x1e11ae00], Count,
    Syscall NR_pwrite64 [Reg 0, Write_buf, Imm 0xa00, Imm 0x1e11ae00], Count,
    Syscall NR_pwrite64 [Reg 0, Write_buf, Imm 0x200, Imm 0x1e11b800], Count,
    Syscall NR_pwrite64 [Reg 0, Write_buf, Imm 0x200, Imm 0x1e11b800], Count,
    Syscall NR_pwrite64 [Reg 0, Write_buf, Imm 0x600, Imm 0x1e11b800], Count,
    Syscall NR_pwrite64 [Reg 0, Write_buf, Imm 0x200, Imm 0x1e11be00], Count,
    Syscall NR_pwrite64 [Reg 0, Write_buf, Imm 0x200, Imm 0x1e11be00], Count,
    Syscall NR_pwrite64 [Reg 0, Write_buf, Imm 0x2000, Imm 0x1e11c000], Count,
    Syscall NR_pwrite64 [Reg 0, Write_buf, Imm 0x200, Imm 0x1e11d800], Count,
    Syscall NR_pwrite64 [Reg 0, Write_buf, Imm 0x200, Imm 0x1e11da00], Count,
    Syscall NR_pwrite64 [Reg 0, Write_buf, Imm 0x200, Imm 0x1e11da00], Count,
    Syscall NR_pwrite64 [Reg 0, Write_buf, Imm 0x400, Imm 0x1e11dc00], Count]"

definition min_mysql_pwrite64_openat_0_0_body148 :: "stmt list" where
  "min_mysql_pwrite64_openat_0_0_body148 = [
    Syscall NR_pwrite64 [Reg 0, Write_buf, Imm 0x2000, Imm 0x1e11e000], Count,
    Syscall NR_pwrite64 [Reg 0, Write_buf, Imm 0x1000, Imm 0x1e11f000], Count,
    Syscall NR_pwrite64 [Reg 0, Write_buf, Imm 0x2000, Imm 0x1e120000], Count,
    Syscall NR_pwrite64 [Reg 0, Write_buf, Imm 0x2000, Imm 0x1e122000], Count,
    Syscall NR_pwrite64 [Reg 0, Write_buf, Imm 0x2000, Imm 0x1e124000], Count,
    Syscall NR_pwrite64 [Reg 0, Write_buf, Imm 0x200, Imm 0x1e125a00], Count,
    Syscall NR_pwrite64 [Reg 0, Write_buf, Imm 0x200, Imm 0x1e125c00], Count,
    Syscall NR_pwrite64 [Reg 0, Write_buf, Imm 0x200, Imm 0x1e125e00], Count,
    Syscall NR_pwrite64 [Reg 0, Write_buf, Imm 0x200, Imm 0x1e125e00], Count,
    Syscall NR_pwrite64 [Reg 0, Write_buf, Imm 0x200, Imm 0x1e125e00], Count,
    Syscall NR_pwrite64 [Reg 0, Write_buf, Imm 0x2000, Imm 0x1e126000], Count,
    Syscall NR_pwrite64 [Reg 0, Write_buf, Imm 0x200, Imm 0x1e126000], Count,
    Syscall NR_pwrite64 [Reg 0, Write_buf, Imm 0x200, Imm 0x1e126000], Count]"

definition min_mysql_pwrite64_openat_0_0_body149 :: "stmt list" where
  "min_mysql_pwrite64_openat_0_0_body149 = [
    Syscall NR_pwrite64 [Reg 0, Write_buf, Imm 0x200, Imm 0x1e126000], Count,
    Syscall NR_pwrite64 [Reg 0, Write_buf, Imm 0x200, Imm 0x1e126000], Count,
    Syscall NR_pwrite64 [Reg 0, Write_buf, Imm 0x200, Imm 0x1e126200], Count,
    Syscall NR_pwrite64 [Reg 0, Write_buf, Imm 0x1200, Imm 0x1e126200], Count,
    Syscall NR_pwrite64 [Reg 0, Write_buf, Imm 0x200, Imm 0x1e127400], Count,
    Syscall NR_pwrite64 [Reg 0, Write_buf, Imm 0xa00, Imm 0x1e127600], Count,
    Syscall NR_pwrite64 [Reg 0, Write_buf, Imm 0x2000, Imm 0x1e128000], Count,
    Syscall NR_pwrite64 [Reg 0, Write_buf, Imm 0xa00, Imm 0x1e128200], Count,
    Syscall NR_pwrite64 [Reg 0, Write_buf, Imm 0x1400, Imm 0x1e128c00], Count,
    Syscall NR_pwrite64 [Reg 0, Write_buf, Imm 0x2000, Imm 0x1e12a000], Count,
    Syscall NR_pwrite64 [Reg 0, Write_buf, Imm 0x600, Imm 0x1e12ba00], Count,
    Syscall NR_pwrite64 [Reg 0, Write_buf, Imm 0x2000, Imm 0x1e12c000], Count,
    Syscall NR_pwrite64 [Reg 0, Write_buf, Imm 0x2000, Imm 0x1e12e000], Count]"

definition min_mysql_pwrite64_openat_0_0_body150 :: "stmt list" where
  "min_mysql_pwrite64_openat_0_0_body150 = [
    Syscall NR_pwrite64 [Reg 0, Write_buf, Imm 0xa00, Imm 0x1e12ee00], Count,
    Syscall NR_pwrite64 [Reg 0, Write_buf, Imm 0x800, Imm 0x1e12f800], Count,
    Syscall NR_pwrite64 [Reg 0, Write_buf, Imm 0x2000, Imm 0x1e130000], Count,
    Syscall NR_pwrite64 [Reg 0, Write_buf, Imm 0x400, Imm 0x1e130200], Count,
    Syscall NR_pwrite64 [Reg 0, Write_buf, Imm 0x200, Imm 0x1e130600], Count,
    Syscall NR_pwrite64 [Reg 0, Write_buf, Imm 0x800, Imm 0x1e130600], Count,
    Syscall NR_pwrite64 [Reg 0, Write_buf, Imm 0x200, Imm 0x1e130e00], Count,
    Syscall NR_pwrite64 [Reg 0, Write_buf, Imm 0x200, Imm 0x1e131000], Count,
    Syscall NR_pwrite64 [Reg 0, Write_buf, Imm 0x200, Imm 0x1e131000], Count,
    Syscall NR_pwrite64 [Reg 0, Write_buf, Imm 0x400, Imm 0x1e131000], Count,
    Syscall NR_pwrite64 [Reg 0, Write_buf, Imm 0x600, Imm 0x1e131400], Count,
    Syscall NR_pwrite64 [Reg 0, Write_buf, Imm 0x400, Imm 0x1e131a00], Count,
    Syscall NR_pwrite64 [Reg 0, Write_buf, Imm 0x200, Imm 0x1e131e00], Count]"

definition min_mysql_pwrite64_openat_0_0_body151 :: "stmt list" where
  "min_mysql_pwrite64_openat_0_0_body151 = [
    Syscall NR_pwrite64 [Reg 0, Write_buf, Imm 0x2000, Imm 0x1e132000], Count,
    Syscall NR_pwrite64 [Reg 0, Write_buf, Imm 0xe00, Imm 0x1e132c00], Count,
    Syscall NR_pwrite64 [Reg 0, Write_buf, Imm 0x400, Imm 0x1e133a00], Count,
    Syscall NR_pwrite64 [Reg 0, Write_buf, Imm 0x200, Imm 0x1e133e00], Count,
    Syscall NR_pwrite64 [Reg 0, Write_buf, Imm 0x2000, Imm 0x1e134000], Count,
    Syscall NR_pwrite64 [Reg 0, Write_buf, Imm 0x600, Imm 0x1e134e00], Count,
    Syscall NR_pwrite64 [Reg 0, Write_buf, Imm 0x600, Imm 0x1e135400], Count,
    Syscall NR_pwrite64 [Reg 0, Write_buf, Imm 0x600, Imm 0x1e135a00], Count,
    Syscall NR_pwrite64 [Reg 0, Write_buf, Imm 0x2000, Imm 0x1e136000], Count,
    Syscall NR_pwrite64 [Reg 0, Write_buf, Imm 0x800, Imm 0x1e136400], Count,
    Syscall NR_pwrite64 [Reg 0, Write_buf, Imm 0x600, Imm 0x1e136c00], Count,
    Syscall NR_pwrite64 [Reg 0, Write_buf, Imm 0x600, Imm 0x1e137200], Count,
    Syscall NR_pwrite64 [Reg 0, Write_buf, Imm 0x400, Imm 0x1e137800], Count]"

definition min_mysql_pwrite64_openat_0_0_body152 :: "stmt list" where
  "min_mysql_pwrite64_openat_0_0_body152 = [
    Syscall NR_pwrite64 [Reg 0, Write_buf, Imm 0x400, Imm 0x1e137c00], Count,
    Syscall NR_pwrite64 [Reg 0, Write_buf, Imm 0x2000, Imm 0x1e138000], Count,
    Syscall NR_pwrite64 [Reg 0, Write_buf, Imm 0x400, Imm 0x1e138800], Count,
    Syscall NR_pwrite64 [Reg 0, Write_buf, Imm 0x400, Imm 0x1e138c00], Count,
    Syscall NR_pwrite64 [Reg 0, Write_buf, Imm 0x200, Imm 0x1e139000], Count,
    Syscall NR_pwrite64 [Reg 0, Write_buf, Imm 0x600, Imm 0x1e139000], Count,
    Syscall NR_pwrite64 [Reg 0, Write_buf, Imm 0x400, Imm 0x1e139600], Count,
    Syscall NR_pwrite64 [Reg 0, Write_buf, Imm 0x400, Imm 0x1e139a00], Count,
    Syscall NR_pwrite64 [Reg 0, Write_buf, Imm 0x200, Imm 0x1e139e00], Count,
    Syscall NR_pwrite64 [Reg 0, Write_buf, Imm 0x2000, Imm 0x1e13a000], Count,
    Syscall NR_pwrite64 [Reg 0, Write_buf, Imm 0x200, Imm 0x1e13a000], Count,
    Syscall NR_pwrite64 [Reg 0, Write_buf, Imm 0x200, Imm 0x1e13a200], Count,
    Syscall NR_pwrite64 [Reg 0, Write_buf, Imm 0x200, Imm 0x1e13a200], Count]"

definition min_mysql_pwrite64_openat_0_0_body153 :: "stmt list" where
  "min_mysql_pwrite64_openat_0_0_body153 = [
    Syscall NR_pwrite64 [Reg 0, Write_buf, Imm 0x200, Imm 0x1e13a400], Count,
    Syscall NR_pwrite64 [Reg 0, Write_buf, Imm 0x200, Imm 0x1e13a600], Count,
    Syscall NR_pwrite64 [Reg 0, Write_buf, Imm 0x200, Imm 0x1e13a600], Count,
    Syscall NR_pwrite64 [Reg 0, Write_buf, Imm 0x200, Imm 0x1e13a800], Count,
    Syscall NR_pwrite64 [Reg 0, Write_buf, Imm 0x200, Imm 0x1e13a800], Count,
    Syscall NR_pwrite64 [Reg 0, Write_buf, Imm 0x200, Imm 0x1e13a800], Count,
    Syscall NR_pwrite64 [Reg 0, Write_buf, Imm 0x400, Imm 0x1e13a800], Count,
    Syscall NR_pwrite64 [Reg 0, Write_buf, Imm 0x200, Imm 0x1e13ac00], Count,
    Syscall NR_pwrite64 [Reg 0, Write_buf, Imm 0x400, Imm 0x1e13ac00], Count,
    Syscall NR_pwrite64 [Reg 0, Write_buf, Imm 0x200, Imm 0x1e13b000], Count,
    Syscall NR_pwrite64 [Reg 0, Write_buf, Imm 0x800, Imm 0x1e13b000], Count,
    Syscall NR_pwrite64 [Reg 0, Write_buf, Imm 0x800, Imm 0x1e13b800], Count,
    Syscall NR_pwrite64 [Reg 0, Write_buf, Imm 0x2000, Imm 0x1e13c000], Count]"

definition min_mysql_pwrite64_openat_0_0_body154 :: "stmt list" where
  "min_mysql_pwrite64_openat_0_0_body154 = [
    Syscall NR_pwrite64 [Reg 0, Write_buf, Imm 0xa00, Imm 0x1e13d600], Count,
    Syscall NR_pwrite64 [Reg 0, Write_buf, Imm 0x2000, Imm 0x1e13e000], Count,
    Syscall NR_pwrite64 [Reg 0, Write_buf, Imm 0x1000, Imm 0x1e13f000], Count,
    Syscall NR_pwrite64 [Reg 0, Write_buf, Imm 0x2000, Imm 0x1e140000], Count,
    Syscall NR_pwrite64 [Reg 0, Write_buf, Imm 0xc00, Imm 0x1e141400], Count,
    Syscall NR_pwrite64 [Reg 0, Write_buf, Imm 0x2000, Imm 0x1e142000], Count,
    Syscall NR_pwrite64 [Reg 0, Write_buf, Imm 0xa00, Imm 0x1e143600], Count,
    Syscall NR_pwrite64 [Reg 0, Write_buf, Imm 0x2000, Imm 0x1e144000], Count,
    Syscall NR_pwrite64 [Reg 0, Write_buf, Imm 0x400, Imm 0x1e144600], Count,
    Syscall NR_pwrite64 [Reg 0, Write_buf, Imm 0x200, Imm 0x1e144a00], Count,
    Syscall NR_pwrite64 [Reg 0, Write_buf, Imm 0x200, Imm 0x1e144a00], Count,
    Syscall NR_pwrite64 [Reg 0, Write_buf, Imm 0x200, Imm 0x1e144c00], Count,
    Syscall NR_pwrite64 [Reg 0, Write_buf, Imm 0x400, Imm 0x1e144c00], Count]"

definition min_mysql_pwrite64_openat_0_0_body155 :: "stmt list" where
  "min_mysql_pwrite64_openat_0_0_body155 = [
    Syscall NR_pwrite64 [Reg 0, Write_buf, Imm 0x200, Imm 0x1e145000], Count,
    Syscall NR_pwrite64 [Reg 0, Write_buf, Imm 0x200, Imm 0x1e145000], Count,
    Syscall NR_pwrite64 [Reg 0, Write_buf, Imm 0x200, Imm 0x1e145200], Count,
    Syscall NR_pwrite64 [Reg 0, Write_buf, Imm 0x200, Imm 0x1e145200], Count,
    Syscall NR_pwrite64 [Reg 0, Write_buf, Imm 0x200, Imm 0x1e145400], Count,
    Syscall NR_pwrite64 [Reg 0, Write_buf, Imm 0x200, Imm 0x1e145400], Count,
    Syscall NR_pwrite64 [Reg 0, Write_buf, Imm 0x200, Imm 0x1e145600], Count,
    Syscall NR_pwrite64 [Reg 0, Write_buf, Imm 0x200, Imm 0x1e145600], Count,
    Syscall NR_pwrite64 [Reg 0, Write_buf, Imm 0x200, Imm 0x1e145600], Count,
    Syscall NR_pwrite64 [Reg 0, Write_buf, Imm 0x200, Imm 0x1e145600], Count,
    Syscall NR_pwrite64 [Reg 0, Write_buf, Imm 0x200, Imm 0x1e145800], Count,
    Syscall NR_pwrite64 [Reg 0, Write_buf, Imm 0x200, Imm 0x1e145800], Count,
    Syscall NR_pwrite64 [Reg 0, Write_buf, Imm 0x200, Imm 0x1e145a00], Count]"

definition min_mysql_pwrite64_openat_0_0_body156 :: "stmt list" where
  "min_mysql_pwrite64_openat_0_0_body156 = [
    Syscall NR_pwrite64 [Reg 0, Write_buf, Imm 0x200, Imm 0x1e145a00], Count,
    Syscall NR_pwrite64 [Reg 0, Write_buf, Imm 0x200, Imm 0x1e145c00], Count,
    Syscall NR_pwrite64 [Reg 0, Write_buf, Imm 0x200, Imm 0x1e145e00], Count,
    Syscall NR_pwrite64 [Reg 0, Write_buf, Imm 0x2000, Imm 0x1e146000], Count,
    Syscall NR_pwrite64 [Reg 0, Write_buf, Imm 0x200, Imm 0x1e146200], Count,
    Syscall NR_pwrite64 [Reg 0, Write_buf, Imm 0x400, Imm 0x1e146400], Count,
    Syscall NR_pwrite64 [Reg 0, Write_buf, Imm 0xc00, Imm 0x1e146800], Count,
    Syscall NR_pwrite64 [Reg 0, Write_buf, Imm 0xa00, Imm 0x1e147400], Count,
    Syscall NR_pwrite64 [Reg 0, Write_buf, Imm 0x200, Imm 0x1e147e00], Count,
    Syscall NR_pwrite64 [Reg 0, Write_buf, Imm 0x2000, Imm 0x1e148000], Count,
    Syscall NR_pwrite64 [Reg 0, Write_buf, Imm 0x800, Imm 0x1e148e00], Count,
    Syscall NR_pwrite64 [Reg 0, Write_buf, Imm 0x400, Imm 0x1e149600], Count,
    Syscall NR_pwrite64 [Reg 0, Write_buf, Imm 0x400, Imm 0x1e149a00], Count]"

definition min_mysql_pwrite64_openat_0_0_body157 :: "stmt list" where
  "min_mysql_pwrite64_openat_0_0_body157 = [
    Syscall NR_pwrite64 [Reg 0, Write_buf, Imm 0x200, Imm 0x1e149e00], Count,
    Syscall NR_pwrite64 [Reg 0, Write_buf, Imm 0x2000, Imm 0x1e14a000], Count,
    Syscall NR_pwrite64 [Reg 0, Write_buf, Imm 0x400, Imm 0x1e14a200], Count,
    Syscall NR_pwrite64 [Reg 0, Write_buf, Imm 0x400, Imm 0x1e14a600], Count,
    Syscall NR_pwrite64 [Reg 0, Write_buf, Imm 0x600, Imm 0x1e14aa00], Count,
    Syscall NR_pwrite64 [Reg 0, Write_buf, Imm 0x200, Imm 0x1e14b000], Count,
    Syscall NR_pwrite64 [Reg 0, Write_buf, Imm 0x400, Imm 0x1e14b200], Count,
    Syscall NR_pwrite64 [Reg 0, Write_buf, Imm 0x800, Imm 0x1e14b600], Count,
    Syscall NR_pwrite64 [Reg 0, Write_buf, Imm 0x200, Imm 0x1e14be00], Count,
    Syscall NR_pwrite64 [Reg 0, Write_buf, Imm 0x2000, Imm 0x1e14c000], Count,
    Syscall NR_pwrite64 [Reg 0, Write_buf, Imm 0x800, Imm 0x1e14c800], Count,
    Syscall NR_pwrite64 [Reg 0, Write_buf, Imm 0x600, Imm 0x1e14d000], Count,
    Syscall NR_pwrite64 [Reg 0, Write_buf, Imm 0x400, Imm 0x1e14d600], Count]"

definition min_mysql_pwrite64_openat_0_0_body158 :: "stmt list" where
  "min_mysql_pwrite64_openat_0_0_body158 = [
    Syscall NR_pwrite64 [Reg 0, Write_buf, Imm 0x600, Imm 0x1e14da00], Count,
    Syscall NR_pwrite64 [Reg 0, Write_buf, Imm 0x2000, Imm 0x1e14e000], Count,
    Syscall NR_pwrite64 [Reg 0, Write_buf, Imm 0x400, Imm 0x1e14e200], Count,
    Syscall NR_pwrite64 [Reg 0, Write_buf, Imm 0x200, Imm 0x1e14e600], Count,
    Syscall NR_pwrite64 [Reg 0, Write_buf, Imm 0x200, Imm 0x1e14e800], Count,
    Syscall NR_pwrite64 [Reg 0, Write_buf, Imm 0x200, Imm 0x1e14e800], Count,
    Syscall NR_pwrite64 [Reg 0, Write_buf, Imm 0x200, Imm 0x1e14e800], Count,
    Syscall NR_pwrite64 [Reg 0, Write_buf, Imm 0x200, Imm 0x1e14ea00], Count,
    Syscall NR_pwrite64 [Reg 0, Write_buf, Imm 0x200, Imm 0x1e14ec00], Count,
    Syscall NR_pwrite64 [Reg 0, Write_buf, Imm 0x200, Imm 0x1e14ec00], Count,
    Syscall NR_pwrite64 [Reg 0, Write_buf, Imm 0x200, Imm 0x1e14ec00], Count,
    Syscall NR_pwrite64 [Reg 0, Write_buf, Imm 0x200, Imm 0x1e14ee00], Count,
    Syscall NR_pwrite64 [Reg 0, Write_buf, Imm 0x200, Imm 0x1e14ee00], Count]"

definition min_mysql_pwrite64_openat_0_0_body159 :: "stmt list" where
  "min_mysql_pwrite64_openat_0_0_body159 = [
    Syscall NR_pwrite64 [Reg 0, Write_buf, Imm 0x200, Imm 0x1e14f000], Count,
    Syscall NR_pwrite64 [Reg 0, Write_buf, Imm 0x200, Imm 0x1e14f200], Count,
    Syscall NR_pwrite64 [Reg 0, Write_buf, Imm 0x400, Imm 0x1e14f400], Count,
    Syscall NR_pwrite64 [Reg 0, Write_buf, Imm 0x200, Imm 0x1e14f800], Count,
    Syscall NR_pwrite64 [Reg 0, Write_buf, Imm 0x200, Imm 0x1e14f800], Count,
    Syscall NR_pwrite64 [Reg 0, Write_buf, Imm 0x200, Imm 0x1e14fa00], Count,
    Syscall NR_pwrite64 [Reg 0, Write_buf, Imm 0x200, Imm 0x1e14fc00], Count,
    Syscall NR_pwrite64 [Reg 0, Write_buf, Imm 0x200, Imm 0x1e14fc00], Count,
    Syscall NR_pwrite64 [Reg 0, Write_buf, Imm 0x200, Imm 0x1e14fe00], Count,
    Syscall NR_pwrite64 [Reg 0, Write_buf, Imm 0x200, Imm 0x1e14fe00], Count,
    Syscall NR_pwrite64 [Reg 0, Write_buf, Imm 0x2000, Imm 0x1e150000], Count,
    Syscall NR_pwrite64 [Reg 0, Write_buf, Imm 0x200, Imm 0x1e150200], Count,
    Syscall NR_pwrite64 [Reg 0, Write_buf, Imm 0x200, Imm 0x1e150400], Count]"

definition min_mysql_pwrite64_openat_0_0_body160 :: "stmt list" where
  "min_mysql_pwrite64_openat_0_0_body160 = [
    Syscall NR_pwrite64 [Reg 0, Write_buf, Imm 0x200, Imm 0x1e150400], Count,
    Syscall NR_pwrite64 [Reg 0, Write_buf, Imm 0x200, Imm 0x1e150400], Count,
    Syscall NR_pwrite64 [Reg 0, Write_buf, Imm 0x200, Imm 0x1e150400], Count,
    Syscall NR_pwrite64 [Reg 0, Write_buf, Imm 0x200, Imm 0x1e150400], Count,
    Syscall NR_pwrite64 [Reg 0, Write_buf, Imm 0x200, Imm 0x1e150600], Count,
    Syscall NR_pwrite64 [Reg 0, Write_buf, Imm 0x200, Imm 0x1e150600], Count,
    Syscall NR_pwrite64 [Reg 0, Write_buf, Imm 0x200, Imm 0x1e150600], Count,
    Syscall NR_pwrite64 [Reg 0, Write_buf, Imm 0x200, Imm 0x1e150800], Count,
    Syscall NR_pwrite64 [Reg 0, Write_buf, Imm 0x200, Imm 0x1e150800], Count,
    Syscall NR_pwrite64 [Reg 0, Write_buf, Imm 0x200, Imm 0x1e150a00], Count,
    Syscall NR_pwrite64 [Reg 0, Write_buf, Imm 0x400, Imm 0x1e150a00], Count,
    Syscall NR_pwrite64 [Reg 0, Write_buf, Imm 0x200, Imm 0x1e150e00], Count,
    Syscall NR_pwrite64 [Reg 0, Write_buf, Imm 0x200, Imm 0x1e151000], Count]"

definition min_mysql_pwrite64_openat_0_0_body161 :: "stmt list" where
  "min_mysql_pwrite64_openat_0_0_body161 = [
    Syscall NR_pwrite64 [Reg 0, Write_buf, Imm 0x200, Imm 0x1e151000], Count,
    Syscall NR_pwrite64 [Reg 0, Write_buf, Imm 0x200, Imm 0x1e151200], Count,
    Syscall NR_pwrite64 [Reg 0, Write_buf, Imm 0x200, Imm 0x1e151400], Count,
    Syscall NR_pwrite64 [Reg 0, Write_buf, Imm 0x800, Imm 0x1e151400], Count,
    Syscall NR_pwrite64 [Reg 0, Write_buf, Imm 0x400, Imm 0x1e151c00], Count,
    Syscall NR_pwrite64 [Reg 0, Write_buf, Imm 0x2000, Imm 0x1e152000], Count,
    Syscall NR_pwrite64 [Reg 0, Write_buf, Imm 0xe00, Imm 0x1e152a00], Count,
    Syscall NR_pwrite64 [Reg 0, Write_buf, Imm 0x800, Imm 0x1e153800], Count,
    Syscall NR_pwrite64 [Reg 0, Write_buf, Imm 0x2000, Imm 0x1e154000], Count,
    Syscall NR_pwrite64 [Reg 0, Write_buf, Imm 0x200, Imm 0x1e154400], Count,
    Syscall NR_pwrite64 [Reg 0, Write_buf, Imm 0x200, Imm 0x1e154600], Count,
    Syscall NR_pwrite64 [Reg 0, Write_buf, Imm 0x200, Imm 0x1e154600], Count,
    Syscall NR_pwrite64 [Reg 0, Write_buf, Imm 0x200, Imm 0x1e154600], Count]"

definition min_mysql_pwrite64_openat_0_0_body162 :: "stmt list" where
  "min_mysql_pwrite64_openat_0_0_body162 = [
    Syscall NR_pwrite64 [Reg 0, Write_buf, Imm 0x200, Imm 0x1e154800], Count,
    Syscall NR_pwrite64 [Reg 0, Write_buf, Imm 0x200, Imm 0x1e154800], Count,
    Syscall NR_pwrite64 [Reg 0, Write_buf, Imm 0x200, Imm 0x1e154800], Count,
    Syscall NR_pwrite64 [Reg 0, Write_buf, Imm 0x200, Imm 0x1e154800], Count,
    Syscall NR_pwrite64 [Reg 0, Write_buf, Imm 0x200, Imm 0x1e154a00], Count,
    Syscall NR_pwrite64 [Reg 0, Write_buf, Imm 0x200, Imm 0x1e154a00], Count,
    Syscall NR_pwrite64 [Reg 0, Write_buf, Imm 0x200, Imm 0x1e154c00], Count,
    Syscall NR_pwrite64 [Reg 0, Write_buf, Imm 0x200, Imm 0x1e154e00], Count,
    Syscall NR_pwrite64 [Reg 0, Write_buf, Imm 0x400, Imm 0x1e154e00], Count,
    Syscall NR_pwrite64 [Reg 0, Write_buf, Imm 0xe00, Imm 0x1e155200], Count,
    Syscall NR_pwrite64 [Reg 0, Write_buf, Imm 0x2000, Imm 0x1e156000], Count,
    Syscall NR_pwrite64 [Reg 0, Write_buf, Imm 0xc00, Imm 0x1e156200], Count,
    Syscall NR_pwrite64 [Reg 0, Write_buf, Imm 0x400, Imm 0x1e156e00], Count]"

definition min_mysql_pwrite64_openat_0_0_body163 :: "stmt list" where
  "min_mysql_pwrite64_openat_0_0_body163 = [
    Syscall NR_pwrite64 [Reg 0, Write_buf, Imm 0x800, Imm 0x1e157200], Count,
    Syscall NR_pwrite64 [Reg 0, Write_buf, Imm 0x400, Imm 0x1e157a00], Count,
    Syscall NR_pwrite64 [Reg 0, Write_buf, Imm 0x200, Imm 0x1e157e00], Count,
    Syscall NR_pwrite64 [Reg 0, Write_buf, Imm 0x2000, Imm 0x1e158000], Count,
    Syscall NR_pwrite64 [Reg 0, Write_buf, Imm 0x200, Imm 0x1e158800], Count,
    Syscall NR_pwrite64 [Reg 0, Write_buf, Imm 0x200, Imm 0x1e158a00], Count,
    Syscall NR_pwrite64 [Reg 0, Write_buf, Imm 0x200, Imm 0x1e158c00], Count,
    Syscall NR_pwrite64 [Reg 0, Write_buf, Imm 0x600, Imm 0x1e158c00], Count,
    Syscall NR_pwrite64 [Reg 0, Write_buf, Imm 0x200, Imm 0x1e159200], Count,
    Syscall NR_pwrite64 [Reg 0, Write_buf, Imm 0x200, Imm 0x1e159400], Count,
    Syscall NR_pwrite64 [Reg 0, Write_buf, Imm 0x200, Imm 0x1e159400], Count,
    Syscall NR_pwrite64 [Reg 0, Write_buf, Imm 0x200, Imm 0x1e159600], Count,
    Syscall NR_pwrite64 [Reg 0, Write_buf, Imm 0x200, Imm 0x1e159800], Count]"

definition min_mysql_pwrite64_openat_0_0_body164 :: "stmt list" where
  "min_mysql_pwrite64_openat_0_0_body164 = [
    Syscall NR_pwrite64 [Reg 0, Write_buf, Imm 0x200, Imm 0x1e159a00], Count,
    Syscall NR_pwrite64 [Reg 0, Write_buf, Imm 0x200, Imm 0x1e159c00], Count,
    Syscall NR_pwrite64 [Reg 0, Write_buf, Imm 0x200, Imm 0x1e159e00], Count,
    Syscall NR_pwrite64 [Reg 0, Write_buf, Imm 0x200, Imm 0x1e159e00], Count,
    Syscall NR_pwrite64 [Reg 0, Write_buf, Imm 0x2000, Imm 0x1e15a000], Count,
    Syscall NR_pwrite64 [Reg 0, Write_buf, Imm 0x400, Imm 0x1e15a200], Count,
    Syscall NR_pwrite64 [Reg 0, Write_buf, Imm 0x200, Imm 0x1e15a600], Count,
    Syscall NR_pwrite64 [Reg 0, Write_buf, Imm 0x200, Imm 0x1e15a600], Count,
    Syscall NR_pwrite64 [Reg 0, Write_buf, Imm 0x200, Imm 0x1e15a600], Count,
    Syscall NR_pwrite64 [Reg 0, Write_buf, Imm 0x200, Imm 0x1e15a600], Count,
    Syscall NR_pwrite64 [Reg 0, Write_buf, Imm 0x200, Imm 0x1e15a600], Count,
    Syscall NR_pwrite64 [Reg 0, Write_buf, Imm 0x200, Imm 0x1e15a800], Count,
    Syscall NR_pwrite64 [Reg 0, Write_buf, Imm 0x1800, Imm 0x1e15a800], Count]"

definition min_mysql_pwrite64_openat_0_0_body165 :: "stmt list" where
  "min_mysql_pwrite64_openat_0_0_body165 = [
    Syscall NR_pwrite64 [Reg 0, Write_buf, Imm 0x2000, Imm 0x1e15c000], Count,
    Syscall NR_pwrite64 [Reg 0, Write_buf, Imm 0x200, Imm 0x1e15d200], Count,
    Syscall NR_pwrite64 [Reg 0, Write_buf, Imm 0x200, Imm 0x1e15d200], Count,
    Syscall NR_pwrite64 [Reg 0, Write_buf, Imm 0x800, Imm 0x1e15d200], Count,
    Syscall NR_pwrite64 [Reg 0, Write_buf, Imm 0x200, Imm 0x1e15da00], Count,
    Syscall NR_pwrite64 [Reg 0, Write_buf, Imm 0x400, Imm 0x1e15da00], Count,
    Syscall NR_pwrite64 [Reg 0, Write_buf, Imm 0x200, Imm 0x1e15de00], Count,
    Syscall NR_pwrite64 [Reg 0, Write_buf, Imm 0x2000, Imm 0x1e15e000], Count,
    Syscall NR_pwrite64 [Reg 0, Write_buf, Imm 0x600, Imm 0x1e15e600], Count,
    Syscall NR_pwrite64 [Reg 0, Write_buf, Imm 0x400, Imm 0x1e15ec00], Count,
    Syscall NR_pwrite64 [Reg 0, Write_buf, Imm 0x600, Imm 0x1e15f000], Count,
    Syscall NR_pwrite64 [Reg 0, Write_buf, Imm 0x400, Imm 0x1e15f600], Count,
    Syscall NR_pwrite64 [Reg 0, Write_buf, Imm 0x600, Imm 0x1e15fa00], Count]"

definition min_mysql_pwrite64_openat_0_0_body166 :: "stmt list" where
  "min_mysql_pwrite64_openat_0_0_body166 = [
    Syscall NR_pwrite64 [Reg 0, Write_buf, Imm 0x2000, Imm 0x1e160000], Count,
    Syscall NR_pwrite64 [Reg 0, Write_buf, Imm 0x200, Imm 0x1e160a00], Count,
    Syscall NR_pwrite64 [Reg 0, Write_buf, Imm 0x200, Imm 0x1e160a00], Count,
    Syscall NR_pwrite64 [Reg 0, Write_buf, Imm 0x200, Imm 0x1e160c00], Count,
    Syscall NR_pwrite64 [Reg 0, Write_buf, Imm 0x200, Imm 0x1e160c00], Count,
    Syscall NR_pwrite64 [Reg 0, Write_buf, Imm 0x200, Imm 0x1e160c00], Count,
    Syscall NR_pwrite64 [Reg 0, Write_buf, Imm 0x200, Imm 0x1e160c00], Count,
    Syscall NR_pwrite64 [Reg 0, Write_buf, Imm 0x200, Imm 0x1e160e00], Count,
    Syscall NR_pwrite64 [Reg 0, Write_buf, Imm 0x200, Imm 0x1e160e00], Count,
    Syscall NR_pwrite64 [Reg 0, Write_buf, Imm 0x200, Imm 0x1e160e00], Count,
    Syscall NR_pwrite64 [Reg 0, Write_buf, Imm 0x200, Imm 0x1e160e00], Count,
    Syscall NR_pwrite64 [Reg 0, Write_buf, Imm 0x200, Imm 0x1e160e00], Count,
    Syscall NR_pwrite64 [Reg 0, Write_buf, Imm 0x200, Imm 0x1e161000], Count]"

definition min_mysql_pwrite64_openat_0_0_body167 :: "stmt list" where
  "min_mysql_pwrite64_openat_0_0_body167 = [
    Syscall NR_pwrite64 [Reg 0, Write_buf, Imm 0x200, Imm 0x1e161000], Count,
    Syscall NR_pwrite64 [Reg 0, Write_buf, Imm 0x200, Imm 0x1e161200], Count,
    Syscall NR_pwrite64 [Reg 0, Write_buf, Imm 0x200, Imm 0x1e161200], Count,
    Syscall NR_pwrite64 [Reg 0, Write_buf, Imm 0x200, Imm 0x1e161400], Count,
    Syscall NR_pwrite64 [Reg 0, Write_buf, Imm 0x200, Imm 0x1e161600], Count,
    Syscall NR_pwrite64 [Reg 0, Write_buf, Imm 0x200, Imm 0x1e161800], Count,
    Syscall NR_pwrite64 [Reg 0, Write_buf, Imm 0x200, Imm 0x1e161800], Count,
    Syscall NR_pwrite64 [Reg 0, Write_buf, Imm 0x200, Imm 0x1e161a00], Count,
    Syscall NR_pwrite64 [Reg 0, Write_buf, Imm 0x200, Imm 0x1e161c00], Count,
    Syscall NR_pwrite64 [Reg 0, Write_buf, Imm 0x200, Imm 0x1e161c00], Count,
    Syscall NR_pwrite64 [Reg 0, Write_buf, Imm 0x200, Imm 0x1e161e00], Count,
    Syscall NR_pwrite64 [Reg 0, Write_buf, Imm 0x2000, Imm 0x1e162000], Count,
    Syscall NR_pwrite64 [Reg 0, Write_buf, Imm 0x800, Imm 0x1e162400], Count]"

definition min_mysql_pwrite64_openat_0_0_body168 :: "stmt list" where
  "min_mysql_pwrite64_openat_0_0_body168 = [
    Syscall NR_pwrite64 [Reg 0, Write_buf, Imm 0x400, Imm 0x1e162c00], Count,
    Syscall NR_pwrite64 [Reg 0, Write_buf, Imm 0x600, Imm 0x1e163000], Count,
    Syscall NR_pwrite64 [Reg 0, Write_buf, Imm 0x400, Imm 0x1e163600], Count,
    Syscall NR_pwrite64 [Reg 0, Write_buf, Imm 0x400, Imm 0x1e163a00], Count,
    Syscall NR_pwrite64 [Reg 0, Write_buf, Imm 0x200, Imm 0x1e163e00], Count,
    Syscall NR_pwrite64 [Reg 0, Write_buf, Imm 0x2000, Imm 0x1e164000], Count,
    Syscall NR_pwrite64 [Reg 0, Write_buf, Imm 0xa00, Imm 0x1e164400], Count,
    Syscall NR_pwrite64 [Reg 0, Write_buf, Imm 0x800, Imm 0x1e164e00], Count,
    Syscall NR_pwrite64 [Reg 0, Write_buf, Imm 0x800, Imm 0x1e165600], Count,
    Syscall NR_pwrite64 [Reg 0, Write_buf, Imm 0x200, Imm 0x1e165e00], Count,
    Syscall NR_pwrite64 [Reg 0, Write_buf, Imm 0x2000, Imm 0x1e166000], Count,
    Syscall NR_pwrite64 [Reg 0, Write_buf, Imm 0x200, Imm 0x1e166600], Count,
    Syscall NR_pwrite64 [Reg 0, Write_buf, Imm 0x200, Imm 0x1e166800], Count]"

definition min_mysql_pwrite64_openat_0_0_body169 :: "stmt list" where
  "min_mysql_pwrite64_openat_0_0_body169 = [
    Syscall NR_pwrite64 [Reg 0, Write_buf, Imm 0x200, Imm 0x1e166800], Count,
    Syscall NR_pwrite64 [Reg 0, Write_buf, Imm 0x200, Imm 0x1e166a00], Count,
    Syscall NR_pwrite64 [Reg 0, Write_buf, Imm 0x200, Imm 0x1e166a00], Count,
    Syscall NR_pwrite64 [Reg 0, Write_buf, Imm 0x200, Imm 0x1e166a00], Count,
    Syscall NR_pwrite64 [Reg 0, Write_buf, Imm 0x200, Imm 0x1e166c00], Count,
    Syscall NR_pwrite64 [Reg 0, Write_buf, Imm 0x600, Imm 0x1e166c00], Count,
    Syscall NR_pwrite64 [Reg 0, Write_buf, Imm 0x200, Imm 0x1e167200], Count,
    Syscall NR_pwrite64 [Reg 0, Write_buf, Imm 0x200, Imm 0x1e167400], Count,
    Syscall NR_pwrite64 [Reg 0, Write_buf, Imm 0x200, Imm 0x1e167600], Count,
    Syscall NR_pwrite64 [Reg 0, Write_buf, Imm 0x200, Imm 0x1e167800], Count,
    Syscall NR_pwrite64 [Reg 0, Write_buf, Imm 0x200, Imm 0x1e167800], Count,
    Syscall NR_pwrite64 [Reg 0, Write_buf, Imm 0x200, Imm 0x1e167800], Count,
    Syscall NR_pwrite64 [Reg 0, Write_buf, Imm 0x200, Imm 0x1e167a00], Count]"

definition min_mysql_pwrite64_openat_0_0_body170 :: "stmt list" where
  "min_mysql_pwrite64_openat_0_0_body170 = [
    Syscall NR_pwrite64 [Reg 0, Write_buf, Imm 0x400, Imm 0x1e167c00], Count,
    Syscall NR_pwrite64 [Reg 0, Write_buf, Imm 0x2000, Imm 0x1e168000], Count,
    Syscall NR_pwrite64 [Reg 0, Write_buf, Imm 0x200, Imm 0x1e168400], Count,
    Syscall NR_pwrite64 [Reg 0, Write_buf, Imm 0x200, Imm 0x1e168400], Count,
    Syscall NR_pwrite64 [Reg 0, Write_buf, Imm 0x200, Imm 0x1e168600], Count,
    Syscall NR_pwrite64 [Reg 0, Write_buf, Imm 0x400, Imm 0x1e168600], Count,
    Syscall NR_pwrite64 [Reg 0, Write_buf, Imm 0x200, Imm 0x1e168a00], Count,
    Syscall NR_pwrite64 [Reg 0, Write_buf, Imm 0x400, Imm 0x1e168a00], Count,
    Syscall NR_pwrite64 [Reg 0, Write_buf, Imm 0x400, Imm 0x1e168e00], Count,
    Syscall NR_pwrite64 [Reg 0, Write_buf, Imm 0x200, Imm 0x1e169200], Count,
    Syscall NR_pwrite64 [Reg 0, Write_buf, Imm 0x400, Imm 0x1e169200], Count,
    Syscall NR_pwrite64 [Reg 0, Write_buf, Imm 0x200, Imm 0x1e169600], Count,
    Syscall NR_pwrite64 [Reg 0, Write_buf, Imm 0x200, Imm 0x1e169800], Count]"

definition min_mysql_pwrite64_openat_0_0_body171 :: "stmt list" where
  "min_mysql_pwrite64_openat_0_0_body171 = [
    Syscall NR_pwrite64 [Reg 0, Write_buf, Imm 0x200, Imm 0x1e169800], Count,
    Syscall NR_pwrite64 [Reg 0, Write_buf, Imm 0x200, Imm 0x1e169a00], Count,
    Syscall NR_pwrite64 [Reg 0, Write_buf, Imm 0x200, Imm 0x1e169a00], Count,
    Syscall NR_pwrite64 [Reg 0, Write_buf, Imm 0x400, Imm 0x1e169a00], Count,
    Syscall NR_pwrite64 [Reg 0, Write_buf, Imm 0x200, Imm 0x1e169e00], Count,
    Syscall NR_pwrite64 [Reg 0, Write_buf, Imm 0x2000, Imm 0x1e16a000], Count,
    Syscall NR_pwrite64 [Reg 0, Write_buf, Imm 0x200, Imm 0x1e16a000], Count,
    Syscall NR_pwrite64 [Reg 0, Write_buf, Imm 0x400, Imm 0x1e16a200], Count,
    Syscall NR_pwrite64 [Reg 0, Write_buf, Imm 0x200, Imm 0x1e16a600], Count,
    Syscall NR_pwrite64 [Reg 0, Write_buf, Imm 0x400, Imm 0x1e16a600], Count,
    Syscall NR_pwrite64 [Reg 0, Write_buf, Imm 0x200, Imm 0x1e16aa00], Count,
    Syscall NR_pwrite64 [Reg 0, Write_buf, Imm 0x200, Imm 0x1e16ac00], Count,
    Syscall NR_pwrite64 [Reg 0, Write_buf, Imm 0x200, Imm 0x1e16ac00], Count]"

definition min_mysql_pwrite64_openat_0_0_body172 :: "stmt list" where
  "min_mysql_pwrite64_openat_0_0_body172 = [
    Syscall NR_pwrite64 [Reg 0, Write_buf, Imm 0x200, Imm 0x1e16ac00], Count,
    Syscall NR_pwrite64 [Reg 0, Write_buf, Imm 0x200, Imm 0x1e16ae00], Count,
    Syscall NR_pwrite64 [Reg 0, Write_buf, Imm 0x200, Imm 0x1e16ae00], Count,
    Syscall NR_pwrite64 [Reg 0, Write_buf, Imm 0x200, Imm 0x1e16b000], Count,
    Syscall NR_pwrite64 [Reg 0, Write_buf, Imm 0x200, Imm 0x1e16b000], Count,
    Syscall NR_pwrite64 [Reg 0, Write_buf, Imm 0x400, Imm 0x1e16b000], Count,
    Syscall NR_pwrite64 [Reg 0, Write_buf, Imm 0x200, Imm 0x1e16b400], Count,
    Syscall NR_pwrite64 [Reg 0, Write_buf, Imm 0x200, Imm 0x1e16b600], Count,
    Syscall NR_pwrite64 [Reg 0, Write_buf, Imm 0x400, Imm 0x1e16b600], Count,
    Syscall NR_pwrite64 [Reg 0, Write_buf, Imm 0x200, Imm 0x1e16ba00], Count,
    Syscall NR_pwrite64 [Reg 0, Write_buf, Imm 0x200, Imm 0x1e16ba00], Count,
    Syscall NR_pwrite64 [Reg 0, Write_buf, Imm 0x200, Imm 0x1e16ba00], Count,
    Syscall NR_pwrite64 [Reg 0, Write_buf, Imm 0x200, Imm 0x1e16bc00], Count]"

definition min_mysql_pwrite64_openat_0_0_body173 :: "stmt list" where
  "min_mysql_pwrite64_openat_0_0_body173 = [
    Syscall NR_pwrite64 [Reg 0, Write_buf, Imm 0x200, Imm 0x1e16be00], Count,
    Syscall NR_pwrite64 [Reg 0, Write_buf, Imm 0x2000, Imm 0x1e16c000], Count,
    Syscall NR_pwrite64 [Reg 0, Write_buf, Imm 0x200, Imm 0x1e16c400], Count,
    Syscall NR_pwrite64 [Reg 0, Write_buf, Imm 0x200, Imm 0x1e16c600], Count,
    Syscall NR_pwrite64 [Reg 0, Write_buf, Imm 0x400, Imm 0x1e16c600], Count,
    Syscall NR_pwrite64 [Reg 0, Write_buf, Imm 0x200, Imm 0x1e16ca00], Count,
    Syscall NR_pwrite64 [Reg 0, Write_buf, Imm 0x200, Imm 0x1e16cc00], Count,
    Syscall NR_pwrite64 [Reg 0, Write_buf, Imm 0x200, Imm 0x1e16ce00], Count,
    Syscall NR_pwrite64 [Reg 0, Write_buf, Imm 0x200, Imm 0x1e16ce00], Count,
    Syscall NR_pwrite64 [Reg 0, Write_buf, Imm 0x200, Imm 0x1e16d000], Count,
    Syscall NR_pwrite64 [Reg 0, Write_buf, Imm 0x200, Imm 0x1e16d200], Count,
    Syscall NR_pwrite64 [Reg 0, Write_buf, Imm 0x200, Imm 0x1e16d200], Count,
    Syscall NR_pwrite64 [Reg 0, Write_buf, Imm 0x400, Imm 0x1e16d400], Count]"

definition min_mysql_pwrite64_openat_0_0_body174 :: "stmt list" where
  "min_mysql_pwrite64_openat_0_0_body174 = [
    Syscall NR_pwrite64 [Reg 0, Write_buf, Imm 0x200, Imm 0x1e16d800], Count,
    Syscall NR_pwrite64 [Reg 0, Write_buf, Imm 0x200, Imm 0x1e16d800], Count,
    Syscall NR_pwrite64 [Reg 0, Write_buf, Imm 0x600, Imm 0x1e16da00], Count,
    Syscall NR_pwrite64 [Reg 0, Write_buf, Imm 0x2000, Imm 0x1e16e000], Count,
    Syscall NR_pwrite64 [Reg 0, Write_buf, Imm 0xc00, Imm 0x1e16e200], Count,
    Syscall NR_pwrite64 [Reg 0, Write_buf, Imm 0x1000, Imm 0x1e16ee00], Count,
    Syscall NR_pwrite64 [Reg 0, Write_buf, Imm 0x200, Imm 0x1e16fe00], Count,
    Syscall NR_pwrite64 [Reg 0, Write_buf, Imm 0x2000, Imm 0x1e170000], Count,
    Syscall NR_pwrite64 [Reg 0, Write_buf, Imm 0x200, Imm 0x1e170a00], Count,
    Syscall NR_pwrite64 [Reg 0, Write_buf, Imm 0x200, Imm 0x1e170c00], Count,
    Syscall NR_pwrite64 [Reg 0, Write_buf, Imm 0x200, Imm 0x1e170e00], Count,
    Syscall NR_pwrite64 [Reg 0, Write_buf, Imm 0x200, Imm 0x1e170e00], Count,
    Syscall NR_pwrite64 [Reg 0, Write_buf, Imm 0x200, Imm 0x1e171000], Count]"

definition min_mysql_pwrite64_openat_0_0_body175 :: "stmt list" where
  "min_mysql_pwrite64_openat_0_0_body175 = [
    Syscall NR_pwrite64 [Reg 0, Write_buf, Imm 0x400, Imm 0x1e171000], Count,
    Syscall NR_pwrite64 [Reg 0, Write_buf, Imm 0x200, Imm 0x1e171400], Count,
    Syscall NR_pwrite64 [Reg 0, Write_buf, Imm 0x200, Imm 0x1e171400], Count,
    Syscall NR_pwrite64 [Reg 0, Write_buf, Imm 0x200, Imm 0x1e171600], Count,
    Syscall NR_pwrite64 [Reg 0, Write_buf, Imm 0x200, Imm 0x1e171800], Count,
    Syscall NR_pwrite64 [Reg 0, Write_buf, Imm 0x200, Imm 0x1e171800], Count,
    Syscall NR_pwrite64 [Reg 0, Write_buf, Imm 0x200, Imm 0x1e171a00], Count,
    Syscall NR_pwrite64 [Reg 0, Write_buf, Imm 0x200, Imm 0x1e171c00], Count,
    Syscall NR_pwrite64 [Reg 0, Write_buf, Imm 0x400, Imm 0x1e171c00], Count,
    Syscall NR_pwrite64 [Reg 0, Write_buf, Imm 0x2000, Imm 0x1e172000], Count,
    Syscall NR_pwrite64 [Reg 0, Write_buf, Imm 0x200, Imm 0x1e172200], Count,
    Syscall NR_pwrite64 [Reg 0, Write_buf, Imm 0x200, Imm 0x1e172200], Count,
    Syscall NR_pwrite64 [Reg 0, Write_buf, Imm 0x200, Imm 0x1e172400], Count]"

definition min_mysql_pwrite64_openat_0_0_body176 :: "stmt list" where
  "min_mysql_pwrite64_openat_0_0_body176 = [
    Syscall NR_pwrite64 [Reg 0, Write_buf, Imm 0x200, Imm 0x1e172400], Count,
    Syscall NR_pwrite64 [Reg 0, Write_buf, Imm 0x200, Imm 0x1e172600], Count,
    Syscall NR_pwrite64 [Reg 0, Write_buf, Imm 0x200, Imm 0x1e172800], Count,
    Syscall NR_pwrite64 [Reg 0, Write_buf, Imm 0x400, Imm 0x1e172800], Count,
    Syscall NR_pwrite64 [Reg 0, Write_buf, Imm 0x200, Imm 0x1e172c00], Count,
    Syscall NR_pwrite64 [Reg 0, Write_buf, Imm 0x200, Imm 0x1e172c00], Count,
    Syscall NR_pwrite64 [Reg 0, Write_buf, Imm 0x200, Imm 0x1e172e00], Count,
    Syscall NR_pwrite64 [Reg 0, Write_buf, Imm 0x200, Imm 0x1e172e00], Count,
    Syscall NR_pwrite64 [Reg 0, Write_buf, Imm 0x200, Imm 0x1e173000], Count,
    Syscall NR_pwrite64 [Reg 0, Write_buf, Imm 0x200, Imm 0x1e173200], Count,
    Syscall NR_pwrite64 [Reg 0, Write_buf, Imm 0x200, Imm 0x1e173400], Count,
    Syscall NR_pwrite64 [Reg 0, Write_buf, Imm 0x200, Imm 0x1e173400], Count,
    Syscall NR_pwrite64 [Reg 0, Write_buf, Imm 0x200, Imm 0x1e173400], Count]"

definition min_mysql_pwrite64_openat_0_0_body177 :: "stmt list" where
  "min_mysql_pwrite64_openat_0_0_body177 = [
    Syscall NR_pwrite64 [Reg 0, Write_buf, Imm 0x200, Imm 0x1e173600], Count,
    Syscall NR_pwrite64 [Reg 0, Write_buf, Imm 0x200, Imm 0x1e173600], Count,
    Syscall NR_pwrite64 [Reg 0, Write_buf, Imm 0x200, Imm 0x1e173600], Count,
    Syscall NR_pwrite64 [Reg 0, Write_buf, Imm 0x200, Imm 0x1e173800], Count,
    Syscall NR_pwrite64 [Reg 0, Write_buf, Imm 0x200, Imm 0x1e173800], Count,
    Syscall NR_pwrite64 [Reg 0, Write_buf, Imm 0x200, Imm 0x1e173a00], Count,
    Syscall NR_pwrite64 [Reg 0, Write_buf, Imm 0x200, Imm 0x1e173a00], Count,
    Syscall NR_pwrite64 [Reg 0, Write_buf, Imm 0x200, Imm 0x1e173c00], Count,
    Syscall NR_pwrite64 [Reg 0, Write_buf, Imm 0x200, Imm 0x1e173c00], Count,
    Syscall NR_pwrite64 [Reg 0, Write_buf, Imm 0x200, Imm 0x1e173e00], Count,
    Syscall NR_pwrite64 [Reg 0, Write_buf, Imm 0x200, Imm 0x1e173e00], Count,
    Syscall NR_pwrite64 [Reg 0, Write_buf, Imm 0x2000, Imm 0x1e174000], Count,
    Syscall NR_pwrite64 [Reg 0, Write_buf, Imm 0x200, Imm 0x1e174200], Count]"

definition min_mysql_pwrite64_openat_0_0_body178 :: "stmt list" where
  "min_mysql_pwrite64_openat_0_0_body178 = [
    Syscall NR_pwrite64 [Reg 0, Write_buf, Imm 0x400, Imm 0x1e174200], Count,
    Syscall NR_pwrite64 [Reg 0, Write_buf, Imm 0x400, Imm 0x1e174600], Count,
    Syscall NR_pwrite64 [Reg 0, Write_buf, Imm 0x200, Imm 0x1e174a00], Count,
    Syscall NR_pwrite64 [Reg 0, Write_buf, Imm 0x200, Imm 0x1e174a00], Count,
    Syscall NR_pwrite64 [Reg 0, Write_buf, Imm 0x200, Imm 0x1e174a00], Count,
    Syscall NR_pwrite64 [Reg 0, Write_buf, Imm 0x200, Imm 0x1e174a00], Count,
    Syscall NR_pwrite64 [Reg 0, Write_buf, Imm 0x200, Imm 0x1e174c00], Count,
    Syscall NR_pwrite64 [Reg 0, Write_buf, Imm 0x200, Imm 0x1e174e00], Count,
    Syscall NR_pwrite64 [Reg 0, Write_buf, Imm 0x200, Imm 0x1e174e00], Count,
    Syscall NR_pwrite64 [Reg 0, Write_buf, Imm 0x200, Imm 0x1e174e00], Count,
    Syscall NR_pwrite64 [Reg 0, Write_buf, Imm 0x200, Imm 0x1e175000], Count,
    Syscall NR_pwrite64 [Reg 0, Write_buf, Imm 0x800, Imm 0x1e175000], Count,
    Syscall NR_pwrite64 [Reg 0, Write_buf, Imm 0x200, Imm 0x1e175800], Count]"

definition min_mysql_pwrite64_openat_0_0_body179 :: "stmt list" where
  "min_mysql_pwrite64_openat_0_0_body179 = [
    Syscall NR_pwrite64 [Reg 0, Write_buf, Imm 0x200, Imm 0x1e175800], Count,
    Syscall NR_pwrite64 [Reg 0, Write_buf, Imm 0x400, Imm 0x1e175a00], Count,
    Syscall NR_pwrite64 [Reg 0, Write_buf, Imm 0x200, Imm 0x1e175e00], Count,
    Syscall NR_pwrite64 [Reg 0, Write_buf, Imm 0x2000, Imm 0x1e176000], Count,
    Syscall NR_pwrite64 [Reg 0, Write_buf, Imm 0x200, Imm 0x1e176200], Count,
    Syscall NR_pwrite64 [Reg 0, Write_buf, Imm 0x200, Imm 0x1e176400], Count,
    Syscall NR_pwrite64 [Reg 0, Write_buf, Imm 0x200, Imm 0x1e176400], Count,
    Syscall NR_pwrite64 [Reg 0, Write_buf, Imm 0x400, Imm 0x1e176400], Count,
    Syscall NR_pwrite64 [Reg 0, Write_buf, Imm 0x200, Imm 0x1e176800], Count,
    Syscall NR_pwrite64 [Reg 0, Write_buf, Imm 0x200, Imm 0x1e176a00], Count,
    Syscall NR_pwrite64 [Reg 0, Write_buf, Imm 0x200, Imm 0x1e176a00], Count,
    Syscall NR_pwrite64 [Reg 0, Write_buf, Imm 0x200, Imm 0x1e176c00], Count,
    Syscall NR_pwrite64 [Reg 0, Write_buf, Imm 0x400, Imm 0x1e176c00], Count]"

definition min_mysql_pwrite64_openat_0_0_body180 :: "stmt list" where
  "min_mysql_pwrite64_openat_0_0_body180 = [
    Syscall NR_pwrite64 [Reg 0, Write_buf, Imm 0x200, Imm 0x1e177000], Count,
    Syscall NR_pwrite64 [Reg 0, Write_buf, Imm 0x600, Imm 0x1e177200], Count,
    Syscall NR_pwrite64 [Reg 0, Write_buf, Imm 0x800, Imm 0x1e177800], Count,
    Syscall NR_pwrite64 [Reg 0, Write_buf, Imm 0x2000, Imm 0x1e178000], Count,
    Syscall NR_pwrite64 [Reg 0, Write_buf, Imm 0xc00, Imm 0x1e178c00], Count,
    Syscall NR_pwrite64 [Reg 0, Write_buf, Imm 0x800, Imm 0x1e179800], Count,
    Syscall NR_pwrite64 [Reg 0, Write_buf, Imm 0x2000, Imm 0x1e17a000], Count,
    Syscall NR_pwrite64 [Reg 0, Write_buf, Imm 0x400, Imm 0x1e17b400], Count,
    Syscall NR_pwrite64 [Reg 0, Write_buf, Imm 0x800, Imm 0x1e17b800], Count,
    Syscall NR_pwrite64 [Reg 0, Write_buf, Imm 0x2000, Imm 0x1e17c000], Count,
    Syscall NR_pwrite64 [Reg 0, Write_buf, Imm 0x200, Imm 0x1e17c200], Count,
    Syscall NR_pwrite64 [Reg 0, Write_buf, Imm 0x200, Imm 0x1e17c400], Count,
    Syscall NR_pwrite64 [Reg 0, Write_buf, Imm 0xc00, Imm 0x1e17c400], Count]"

definition min_mysql_pwrite64_openat_0_0_body181 :: "stmt list" where
  "min_mysql_pwrite64_openat_0_0_body181 = [
    Syscall NR_pwrite64 [Reg 0, Write_buf, Imm 0x200, Imm 0x1e17d000], Count,
    Syscall NR_pwrite64 [Reg 0, Write_buf, Imm 0x200, Imm 0x1e17d200], Count,
    Syscall NR_pwrite64 [Reg 0, Write_buf, Imm 0x200, Imm 0x1e17d400], Count,
    Syscall NR_pwrite64 [Reg 0, Write_buf, Imm 0x200, Imm 0x1e17d600], Count,
    Syscall NR_pwrite64 [Reg 0, Write_buf, Imm 0x200, Imm 0x1e17d800], Count,
    Syscall NR_pwrite64 [Reg 0, Write_buf, Imm 0x200, Imm 0x1e17d800], Count,
    Syscall NR_pwrite64 [Reg 0, Write_buf, Imm 0x200, Imm 0x1e17d800], Count,
    Syscall NR_pwrite64 [Reg 0, Write_buf, Imm 0x200, Imm 0x1e17da00], Count,
    Syscall NR_pwrite64 [Reg 0, Write_buf, Imm 0x200, Imm 0x1e17da00], Count,
    Syscall NR_pwrite64 [Reg 0, Write_buf, Imm 0x200, Imm 0x1e17da00], Count,
    Syscall NR_pwrite64 [Reg 0, Write_buf, Imm 0x200, Imm 0x1e17dc00], Count,
    Syscall NR_pwrite64 [Reg 0, Write_buf, Imm 0x200, Imm 0x1e17de00], Count,
    Syscall NR_pwrite64 [Reg 0, Write_buf, Imm 0x200, Imm 0x1e17de00], Count]"

definition min_mysql_pwrite64_openat_0_0_body182 :: "stmt list" where
  "min_mysql_pwrite64_openat_0_0_body182 = [
    Syscall NR_pwrite64 [Reg 0, Write_buf, Imm 0x200, Imm 0x1e17de00], Count,
    Syscall NR_pwrite64 [Reg 0, Write_buf, Imm 0x200, Imm 0x1e17de00], Count,
    Syscall NR_pwrite64 [Reg 0, Write_buf, Imm 0x200, Imm 0x1e17de00], Count,
    Syscall NR_pwrite64 [Reg 0, Write_buf, Imm 0x2000, Imm 0x1e17e000], Count,
    Syscall NR_pwrite64 [Reg 0, Write_buf, Imm 0x200, Imm 0x1e17e400], Count,
    Syscall NR_pwrite64 [Reg 0, Write_buf, Imm 0x200, Imm 0x1e17e600], Count,
    Syscall NR_pwrite64 [Reg 0, Write_buf, Imm 0x200, Imm 0x1e17e600], Count,
    Syscall NR_pwrite64 [Reg 0, Write_buf, Imm 0x200, Imm 0x1e17e800], Count,
    Syscall NR_pwrite64 [Reg 0, Write_buf, Imm 0x200, Imm 0x1e17e800], Count,
    Syscall NR_pwrite64 [Reg 0, Write_buf, Imm 0x200, Imm 0x1e17ea00], Count,
    Syscall NR_pwrite64 [Reg 0, Write_buf, Imm 0x200, Imm 0x1e17ea00], Count,
    Syscall NR_pwrite64 [Reg 0, Write_buf, Imm 0x200, Imm 0x1e17ea00], Count,
    Syscall NR_pwrite64 [Reg 0, Write_buf, Imm 0x200, Imm 0x1e17ec00], Count]"

definition min_mysql_pwrite64_openat_0_0_body183 :: "stmt list" where
  "min_mysql_pwrite64_openat_0_0_body183 = [
    Syscall NR_pwrite64 [Reg 0, Write_buf, Imm 0x200, Imm 0x1e17ec00], Count,
    Syscall NR_pwrite64 [Reg 0, Write_buf, Imm 0x200, Imm 0x1e17ec00], Count,
    Syscall NR_pwrite64 [Reg 0, Write_buf, Imm 0x200, Imm 0x1e17ee00], Count,
    Syscall NR_pwrite64 [Reg 0, Write_buf, Imm 0x200, Imm 0x1e17f000], Count,
    Syscall NR_pwrite64 [Reg 0, Write_buf, Imm 0x200, Imm 0x1e17f000], Count,
    Syscall NR_pwrite64 [Reg 0, Write_buf, Imm 0x200, Imm 0x1e17f000], Count,
    Syscall NR_pwrite64 [Reg 0, Write_buf, Imm 0x200, Imm 0x1e17f200], Count,
    Syscall NR_pwrite64 [Reg 0, Write_buf, Imm 0x200, Imm 0x1e17f200], Count,
    Syscall NR_pwrite64 [Reg 0, Write_buf, Imm 0x200, Imm 0x1e17f400], Count,
    Syscall NR_pwrite64 [Reg 0, Write_buf, Imm 0xa00, Imm 0x1e17f400], Count,
    Syscall NR_pwrite64 [Reg 0, Write_buf, Imm 0x200, Imm 0x1e17fe00], Count,
    Syscall NR_pwrite64 [Reg 0, Write_buf, Imm 0x2000, Imm 0x1e180000], Count,
    Syscall NR_pwrite64 [Reg 0, Write_buf, Imm 0xc00, Imm 0x1e180800], Count]"

definition min_mysql_pwrite64_openat_0_0_body184 :: "stmt list" where
  "min_mysql_pwrite64_openat_0_0_body184 = [
    Syscall NR_pwrite64 [Reg 0, Write_buf, Imm 0x200, Imm 0x1e181400], Count,
    Syscall NR_pwrite64 [Reg 0, Write_buf, Imm 0x400, Imm 0x1e181600], Count,
    Syscall NR_pwrite64 [Reg 0, Write_buf, Imm 0x400, Imm 0x1e181a00], Count,
    Syscall NR_pwrite64 [Reg 0, Write_buf, Imm 0x200, Imm 0x1e181e00], Count,
    Syscall NR_pwrite64 [Reg 0, Write_buf, Imm 0x2000, Imm 0x1e182000], Count,
    Syscall NR_pwrite64 [Reg 0, Write_buf, Imm 0x400, Imm 0x1e183400], Count,
    Syscall NR_pwrite64 [Reg 0, Write_buf, Imm 0x400, Imm 0x1e183800], Count,
    Syscall NR_pwrite64 [Reg 0, Write_buf, Imm 0x200, Imm 0x1e183c00], Count,
    Syscall NR_pwrite64 [Reg 0, Write_buf, Imm 0x400, Imm 0x1e183c00], Count,
    Syscall NR_pwrite64 [Reg 0, Write_buf, Imm 0x2000, Imm 0x1e184000], Count,
    Syscall NR_pwrite64 [Reg 0, Write_buf, Imm 0x400, Imm 0x1e184a00], Count,
    Syscall NR_pwrite64 [Reg 0, Write_buf, Imm 0x400, Imm 0x1e184e00], Count,
    Syscall NR_pwrite64 [Reg 0, Write_buf, Imm 0x200, Imm 0x1e185200], Count]"

definition min_mysql_pwrite64_openat_0_0_body185 :: "stmt list" where
  "min_mysql_pwrite64_openat_0_0_body185 = [
    Syscall NR_pwrite64 [Reg 0, Write_buf, Imm 0x200, Imm 0x1e185400], Count,
    Syscall NR_pwrite64 [Reg 0, Write_buf, Imm 0x200, Imm 0x1e185600], Count,
    Syscall NR_pwrite64 [Reg 0, Write_buf, Imm 0x200, Imm 0x1e185800], Count,
    Syscall NR_pwrite64 [Reg 0, Write_buf, Imm 0x200, Imm 0x1e185a00], Count,
    Syscall NR_pwrite64 [Reg 0, Write_buf, Imm 0x200, Imm 0x1e185c00], Count,
    Syscall NR_pwrite64 [Reg 0, Write_buf, Imm 0x200, Imm 0x1e185e00], Count,
    Syscall NR_pwrite64 [Reg 0, Write_buf, Imm 0x2000, Imm 0x1e186000], Count,
    Syscall NR_pwrite64 [Reg 0, Write_buf, Imm 0x200, Imm 0x1e186400], Count,
    Syscall NR_pwrite64 [Reg 0, Write_buf, Imm 0x200, Imm 0x1e186400], Count,
    Syscall NR_pwrite64 [Reg 0, Write_buf, Imm 0x200, Imm 0x1e186400], Count,
    Syscall NR_pwrite64 [Reg 0, Write_buf, Imm 0x200, Imm 0x1e186400], Count,
    Syscall NR_pwrite64 [Reg 0, Write_buf, Imm 0x600, Imm 0x1e186400], Count,
    Syscall NR_pwrite64 [Reg 0, Write_buf, Imm 0x400, Imm 0x1e186a00], Count]"

definition min_mysql_pwrite64_openat_0_0_body186 :: "stmt list" where
  "min_mysql_pwrite64_openat_0_0_body186 = [
    Syscall NR_pwrite64 [Reg 0, Write_buf, Imm 0x400, Imm 0x1e186e00], Count,
    Syscall NR_pwrite64 [Reg 0, Write_buf, Imm 0x200, Imm 0x1e187200], Count,
    Syscall NR_pwrite64 [Reg 0, Write_buf, Imm 0x200, Imm 0x1e187400], Count,
    Syscall NR_pwrite64 [Reg 0, Write_buf, Imm 0x200, Imm 0x1e187400], Count,
    Syscall NR_pwrite64 [Reg 0, Write_buf, Imm 0x200, Imm 0x1e187600], Count,
    Syscall NR_pwrite64 [Reg 0, Write_buf, Imm 0x200, Imm 0x1e187600], Count,
    Syscall NR_pwrite64 [Reg 0, Write_buf, Imm 0x200, Imm 0x1e187800], Count,
    Syscall NR_pwrite64 [Reg 0, Write_buf, Imm 0x200, Imm 0x1e187800], Count,
    Syscall NR_pwrite64 [Reg 0, Write_buf, Imm 0x400, Imm 0x1e187800], Count,
    Syscall NR_pwrite64 [Reg 0, Write_buf, Imm 0x200, Imm 0x1e187c00], Count,
    Syscall NR_pwrite64 [Reg 0, Write_buf, Imm 0x200, Imm 0x1e187c00], Count,
    Syscall NR_pwrite64 [Reg 0, Write_buf, Imm 0x200, Imm 0x1e187c00], Count,
    Syscall NR_pwrite64 [Reg 0, Write_buf, Imm 0x200, Imm 0x1e187e00], Count]"

definition min_mysql_pwrite64_openat_0_0_body187 :: "stmt list" where
  "min_mysql_pwrite64_openat_0_0_body187 = [
    Syscall NR_pwrite64 [Reg 0, Write_buf, Imm 0x200, Imm 0x1e187e00], Count,
    Syscall NR_pwrite64 [Reg 0, Write_buf, Imm 0x200, Imm 0x1e187e00], Count,
    Syscall NR_pwrite64 [Reg 0, Write_buf, Imm 0x2000, Imm 0x1e188000], Count,
    Syscall NR_pwrite64 [Reg 0, Write_buf, Imm 0x200, Imm 0x1e188000], Count,
    Syscall NR_pwrite64 [Reg 0, Write_buf, Imm 0x200, Imm 0x1e188000], Count,
    Syscall NR_pwrite64 [Reg 0, Write_buf, Imm 0xa00, Imm 0x1e188000], Count,
    Syscall NR_pwrite64 [Reg 0, Write_buf, Imm 0x200, Imm 0x1e188a00], Count,
    Syscall NR_pwrite64 [Reg 0, Write_buf, Imm 0x200, Imm 0x1e188a00], Count,
    Syscall NR_pwrite64 [Reg 0, Write_buf, Imm 0x200, Imm 0x1e188a00], Count,
    Syscall NR_pwrite64 [Reg 0, Write_buf, Imm 0x200, Imm 0x1e188a00], Count,
    Syscall NR_pwrite64 [Reg 0, Write_buf, Imm 0x200, Imm 0x1e188c00], Count,
    Syscall NR_pwrite64 [Reg 0, Write_buf, Imm 0x200, Imm 0x1e188c00], Count,
    Syscall NR_pwrite64 [Reg 0, Write_buf, Imm 0x400, Imm 0x1e188c00], Count]"

definition min_mysql_pwrite64_openat_0_0_body188 :: "stmt list" where
  "min_mysql_pwrite64_openat_0_0_body188 = [
    Syscall NR_pwrite64 [Reg 0, Write_buf, Imm 0x200, Imm 0x1e189000], Count,
    Syscall NR_pwrite64 [Reg 0, Write_buf, Imm 0x200, Imm 0x1e189000], Count,
    Syscall NR_pwrite64 [Reg 0, Write_buf, Imm 0x200, Imm 0x1e189200], Count,
    Syscall NR_pwrite64 [Reg 0, Write_buf, Imm 0x200, Imm 0x1e189400], Count,
    Syscall NR_pwrite64 [Reg 0, Write_buf, Imm 0x400, Imm 0x1e189400], Count,
    Syscall NR_pwrite64 [Reg 0, Write_buf, Imm 0x200, Imm 0x1e189800], Count,
    Syscall NR_pwrite64 [Reg 0, Write_buf, Imm 0x200, Imm 0x1e189a00], Count,
    Syscall NR_pwrite64 [Reg 0, Write_buf, Imm 0x200, Imm 0x1e189c00], Count,
    Syscall NR_pwrite64 [Reg 0, Write_buf, Imm 0x200, Imm 0x1e189e00], Count,
    Syscall NR_pwrite64 [Reg 0, Write_buf, Imm 0x2000, Imm 0x1e18a000], Count,
    Syscall NR_pwrite64 [Reg 0, Write_buf, Imm 0x200, Imm 0x1e18a200], Count,
    Syscall NR_pwrite64 [Reg 0, Write_buf, Imm 0x400, Imm 0x1e18a400], Count,
    Syscall NR_pwrite64 [Reg 0, Write_buf, Imm 0xa00, Imm 0x1e18a800], Count]"

definition min_mysql_pwrite64_openat_0_0_body189 :: "stmt list" where
  "min_mysql_pwrite64_openat_0_0_body189 = [
    Syscall NR_pwrite64 [Reg 0, Write_buf, Imm 0xe00, Imm 0x1e18b200], Count,
    Syscall NR_pwrite64 [Reg 0, Write_buf, Imm 0x2000, Imm 0x1e18c000], Count,
    Syscall NR_pwrite64 [Reg 0, Write_buf, Imm 0xe00, Imm 0x1e18cc00], Count,
    Syscall NR_pwrite64 [Reg 0, Write_buf, Imm 0x600, Imm 0x1e18da00], Count,
    Syscall NR_pwrite64 [Reg 0, Write_buf, Imm 0x2000, Imm 0x1e18e000], Count,
    Syscall NR_pwrite64 [Reg 0, Write_buf, Imm 0x800, Imm 0x1e18f400], Count,
    Syscall NR_pwrite64 [Reg 0, Write_buf, Imm 0x400, Imm 0x1e18fc00], Count,
    Syscall NR_pwrite64 [Reg 0, Write_buf, Imm 0x2000, Imm 0x1e190000], Count,
    Syscall NR_pwrite64 [Reg 0, Write_buf, Imm 0x600, Imm 0x1e190a00], Count,
    Syscall NR_pwrite64 [Reg 0, Write_buf, Imm 0x200, Imm 0x1e191000], Count,
    Syscall NR_pwrite64 [Reg 0, Write_buf, Imm 0x400, Imm 0x1e191200], Count,
    Syscall NR_pwrite64 [Reg 0, Write_buf, Imm 0x200, Imm 0x1e191600], Count,
    Syscall NR_pwrite64 [Reg 0, Write_buf, Imm 0x200, Imm 0x1e191600], Count]"

definition min_mysql_pwrite64_openat_0_0_body190 :: "stmt list" where
  "min_mysql_pwrite64_openat_0_0_body190 = [
    Syscall NR_pwrite64 [Reg 0, Write_buf, Imm 0x200, Imm 0x1e191800], Count,
    Syscall NR_pwrite64 [Reg 0, Write_buf, Imm 0x400, Imm 0x1e191800], Count,
    Syscall NR_pwrite64 [Reg 0, Write_buf, Imm 0x200, Imm 0x1e191c00], Count,
    Syscall NR_pwrite64 [Reg 0, Write_buf, Imm 0x200, Imm 0x1e191e00], Count,
    Syscall NR_pwrite64 [Reg 0, Write_buf, Imm 0x200, Imm 0x1e191e00], Count,
    Syscall NR_pwrite64 [Reg 0, Write_buf, Imm 0x2000, Imm 0x1e192000], Count,
    Syscall NR_pwrite64 [Reg 0, Write_buf, Imm 0x200, Imm 0x1e192000], Count,
    Syscall NR_pwrite64 [Reg 0, Write_buf, Imm 0x800, Imm 0x1e192000], Count,
    Syscall NR_pwrite64 [Reg 0, Write_buf, Imm 0x200, Imm 0x1e192800], Count,
    Syscall NR_pwrite64 [Reg 0, Write_buf, Imm 0x200, Imm 0x1e192800], Count,
    Syscall NR_pwrite64 [Reg 0, Write_buf, Imm 0x200, Imm 0x1e192a00], Count,
    Syscall NR_pwrite64 [Reg 0, Write_buf, Imm 0x200, Imm 0x1e192a00], Count,
    Syscall NR_pwrite64 [Reg 0, Write_buf, Imm 0x200, Imm 0x1e192a00], Count]"

definition min_mysql_pwrite64_openat_0_0_body191 :: "stmt list" where
  "min_mysql_pwrite64_openat_0_0_body191 = [
    Syscall NR_pwrite64 [Reg 0, Write_buf, Imm 0x200, Imm 0x1e192c00], Count,
    Syscall NR_pwrite64 [Reg 0, Write_buf, Imm 0xa00, Imm 0x1e192c00], Count,
    Syscall NR_pwrite64 [Reg 0, Write_buf, Imm 0x400, Imm 0x1e193600], Count,
    Syscall NR_pwrite64 [Reg 0, Write_buf, Imm 0x200, Imm 0x1e193a00], Count,
    Syscall NR_pwrite64 [Reg 0, Write_buf, Imm 0x400, Imm 0x1e193a00], Count,
    Syscall NR_pwrite64 [Reg 0, Write_buf, Imm 0x200, Imm 0x1e193e00], Count,
    Syscall NR_pwrite64 [Reg 0, Write_buf, Imm 0x2000, Imm 0x1e194000], Count,
    Syscall NR_pwrite64 [Reg 0, Write_buf, Imm 0x200, Imm 0x1e194200], Count,
    Syscall NR_pwrite64 [Reg 0, Write_buf, Imm 0x400, Imm 0x1e194400], Count,
    Syscall NR_pwrite64 [Reg 0, Write_buf, Imm 0x200, Imm 0x1e194800], Count,
    Syscall NR_pwrite64 [Reg 0, Write_buf, Imm 0x200, Imm 0x1e194800], Count,
    Syscall NR_pwrite64 [Reg 0, Write_buf, Imm 0x200, Imm 0x1e194a00], Count,
    Syscall NR_pwrite64 [Reg 0, Write_buf, Imm 0x200, Imm 0x1e194c00], Count]"

definition min_mysql_pwrite64_openat_0_0_body192 :: "stmt list" where
  "min_mysql_pwrite64_openat_0_0_body192 = [
    Syscall NR_pwrite64 [Reg 0, Write_buf, Imm 0x400, Imm 0x1e194c00], Count,
    Syscall NR_pwrite64 [Reg 0, Write_buf, Imm 0x200, Imm 0x1e195000], Count,
    Syscall NR_pwrite64 [Reg 0, Write_buf, Imm 0x200, Imm 0x1e195000], Count,
    Syscall NR_pwrite64 [Reg 0, Write_buf, Imm 0x400, Imm 0x1e195000], Count,
    Syscall NR_pwrite64 [Reg 0, Write_buf, Imm 0x200, Imm 0x1e195400], Count,
    Syscall NR_pwrite64 [Reg 0, Write_buf, Imm 0x200, Imm 0x1e195400], Count,
    Syscall NR_pwrite64 [Reg 0, Write_buf, Imm 0x200, Imm 0x1e195600], Count,
    Syscall NR_pwrite64 [Reg 0, Write_buf, Imm 0x400, Imm 0x1e195600], Count,
    Syscall NR_pwrite64 [Reg 0, Write_buf, Imm 0x200, Imm 0x1e195a00], Count,
    Syscall NR_pwrite64 [Reg 0, Write_buf, Imm 0x200, Imm 0x1e195c00], Count,
    Syscall NR_pwrite64 [Reg 0, Write_buf, Imm 0x200, Imm 0x1e195e00], Count,
    Syscall NR_pwrite64 [Reg 0, Write_buf, Imm 0x2000, Imm 0x1e196000], Count,
    Syscall NR_pwrite64 [Reg 0, Write_buf, Imm 0x200, Imm 0x1e196000], Count]"

definition min_mysql_pwrite64_openat_0_0_body193 :: "stmt list" where
  "min_mysql_pwrite64_openat_0_0_body193 = [
    Syscall NR_pwrite64 [Reg 0, Write_buf, Imm 0x200, Imm 0x1e196200], Count,
    Syscall NR_pwrite64 [Reg 0, Write_buf, Imm 0x200, Imm 0x1e196200], Count,
    Syscall NR_pwrite64 [Reg 0, Write_buf, Imm 0x200, Imm 0x1e196400], Count,
    Syscall NR_pwrite64 [Reg 0, Write_buf, Imm 0x200, Imm 0x1e196600], Count,
    Syscall NR_pwrite64 [Reg 0, Write_buf, Imm 0x200, Imm 0x1e196600], Count,
    Syscall NR_pwrite64 [Reg 0, Write_buf, Imm 0x600, Imm 0x1e196800], Count,
    Syscall NR_pwrite64 [Reg 0, Write_buf, Imm 0xc00, Imm 0x1e196e00], Count,
    Syscall NR_pwrite64 [Reg 0, Write_buf, Imm 0x200, Imm 0x1e197a00], Count,
    Syscall NR_pwrite64 [Reg 0, Write_buf, Imm 0x400, Imm 0x1e197c00], Count,
    Syscall NR_pwrite64 [Reg 0, Write_buf, Imm 0x2000, Imm 0x1e198000], Count,
    Syscall NR_pwrite64 [Reg 0, Write_buf, Imm 0x800, Imm 0x1e198e00], Count,
    Syscall NR_pwrite64 [Reg 0, Write_buf, Imm 0xa00, Imm 0x1e199600], Count,
    Syscall NR_pwrite64 [Reg 0, Write_buf, Imm 0x2000, Imm 0x1e19a000], Count]"

definition min_mysql_pwrite64_openat_0_0_body194 :: "stmt list" where
  "min_mysql_pwrite64_openat_0_0_body194 = [
    Syscall NR_pwrite64 [Reg 0, Write_buf, Imm 0x600, Imm 0x1e19a400], Count,
    Syscall NR_pwrite64 [Reg 0, Write_buf, Imm 0x600, Imm 0x1e19aa00], Count,
    Syscall NR_pwrite64 [Reg 0, Write_buf, Imm 0x400, Imm 0x1e19b000], Count,
    Syscall NR_pwrite64 [Reg 0, Write_buf, Imm 0x400, Imm 0x1e19b400], Count,
    Syscall NR_pwrite64 [Reg 0, Write_buf, Imm 0x400, Imm 0x1e19b800], Count,
    Syscall NR_pwrite64 [Reg 0, Write_buf, Imm 0x200, Imm 0x1e19bc00], Count,
    Syscall NR_pwrite64 [Reg 0, Write_buf, Imm 0x200, Imm 0x1e19bc00], Count,
    Syscall NR_pwrite64 [Reg 0, Write_buf, Imm 0x200, Imm 0x1e19bc00], Count,
    Syscall NR_pwrite64 [Reg 0, Write_buf, Imm 0x200, Imm 0x1e19be00], Count,
    Syscall NR_pwrite64 [Reg 0, Write_buf, Imm 0x200, Imm 0x1e19be00], Count,
    Syscall NR_pwrite64 [Reg 0, Write_buf, Imm 0x2000, Imm 0x1e19c000], Count,
    Syscall NR_pwrite64 [Reg 0, Write_buf, Imm 0x200, Imm 0x1e19c400], Count,
    Syscall NR_pwrite64 [Reg 0, Write_buf, Imm 0x600, Imm 0x1e19c400], Count]"

definition min_mysql_pwrite64_openat_0_0_body195 :: "stmt list" where
  "min_mysql_pwrite64_openat_0_0_body195 = [
    Syscall NR_pwrite64 [Reg 0, Write_buf, Imm 0x400, Imm 0x1e19ca00], Count,
    Syscall NR_pwrite64 [Reg 0, Write_buf, Imm 0x200, Imm 0x1e19ce00], Count,
    Syscall NR_pwrite64 [Reg 0, Write_buf, Imm 0x200, Imm 0x1e19d000], Count,
    Syscall NR_pwrite64 [Reg 0, Write_buf, Imm 0x200, Imm 0x1e19d000], Count,
    Syscall NR_pwrite64 [Reg 0, Write_buf, Imm 0x400, Imm 0x1e19d200], Count,
    Syscall NR_pwrite64 [Reg 0, Write_buf, Imm 0x200, Imm 0x1e19d600], Count,
    Syscall NR_pwrite64 [Reg 0, Write_buf, Imm 0x400, Imm 0x1e19d600], Count,
    Syscall NR_pwrite64 [Reg 0, Write_buf, Imm 0x400, Imm 0x1e19da00], Count,
    Syscall NR_pwrite64 [Reg 0, Write_buf, Imm 0x200, Imm 0x1e19de00], Count,
    Syscall NR_pwrite64 [Reg 0, Write_buf, Imm 0x2000, Imm 0x1e19e000], Count,
    Syscall NR_pwrite64 [Reg 0, Write_buf, Imm 0x400, Imm 0x1e19e400], Count,
    Syscall NR_pwrite64 [Reg 0, Write_buf, Imm 0x200, Imm 0x1e19e800], Count,
    Syscall NR_pwrite64 [Reg 0, Write_buf, Imm 0x200, Imm 0x1e19ea00], Count]"

definition min_mysql_pwrite64_openat_0_0_body196 :: "stmt list" where
  "min_mysql_pwrite64_openat_0_0_body196 = [
    Syscall NR_pwrite64 [Reg 0, Write_buf, Imm 0x200, Imm 0x1e19ec00], Count,
    Syscall NR_pwrite64 [Reg 0, Write_buf, Imm 0x200, Imm 0x1e19ec00], Count,
    Syscall NR_pwrite64 [Reg 0, Write_buf, Imm 0x200, Imm 0x1e19ee00], Count,
    Syscall NR_pwrite64 [Reg 0, Write_buf, Imm 0x200, Imm 0x1e19ee00], Count,
    Syscall NR_pwrite64 [Reg 0, Write_buf, Imm 0x200, Imm 0x1e19ee00], Count,
    Syscall NR_pwrite64 [Reg 0, Write_buf, Imm 0x200, Imm 0x1e19f000], Count,
    Syscall NR_pwrite64 [Reg 0, Write_buf, Imm 0x200, Imm 0x1e19f000], Count,
    Syscall NR_pwrite64 [Reg 0, Write_buf, Imm 0x200, Imm 0x1e19f200], Count,
    Syscall NR_pwrite64 [Reg 0, Write_buf, Imm 0x200, Imm 0x1e19f200], Count,
    Syscall NR_pwrite64 [Reg 0, Write_buf, Imm 0x200, Imm 0x1e19f400], Count,
    Syscall NR_pwrite64 [Reg 0, Write_buf, Imm 0x200, Imm 0x1e19f400], Count,
    Syscall NR_pwrite64 [Reg 0, Write_buf, Imm 0x400, Imm 0x1e19f400], Count,
    Syscall NR_pwrite64 [Reg 0, Write_buf, Imm 0x200, Imm 0x1e19f800], Count]"

definition min_mysql_pwrite64_openat_0_0_body197 :: "stmt list" where
  "min_mysql_pwrite64_openat_0_0_body197 = [
    Syscall NR_pwrite64 [Reg 0, Write_buf, Imm 0x200, Imm 0x1e19f800], Count,
    Syscall NR_pwrite64 [Reg 0, Write_buf, Imm 0x200, Imm 0x1e19fa00], Count,
    Syscall NR_pwrite64 [Reg 0, Write_buf, Imm 0x200, Imm 0x1e19fa00], Count,
    Syscall NR_pwrite64 [Reg 0, Write_buf, Imm 0x400, Imm 0x1e19fa00], Count,
    Syscall NR_pwrite64 [Reg 0, Write_buf, Imm 0x200, Imm 0x1e19fe00], Count,
    Syscall NR_pwrite64 [Reg 0, Write_buf, Imm 0x200, Imm 0x1e19fe00], Count,
    Syscall NR_pwrite64 [Reg 0, Write_buf, Imm 0x200, Imm 0x1e19fe00], Count,
    Syscall NR_pwrite64 [Reg 0, Write_buf, Imm 0x200, Imm 0x1e19fe00], Count,
    Syscall NR_pwrite64 [Reg 0, Write_buf, Imm 0x2000, Imm 0x1e1a0000], Count,
    Syscall NR_pwrite64 [Reg 0, Write_buf, Imm 0x200, Imm 0x1e1a0000], Count,
    Syscall NR_pwrite64 [Reg 0, Write_buf, Imm 0x200, Imm 0x1e1a0000], Count,
    Syscall NR_pwrite64 [Reg 0, Write_buf, Imm 0x200, Imm 0x1e1a0000], Count,
    Syscall NR_pwrite64 [Reg 0, Write_buf, Imm 0x200, Imm 0x1e1a0200], Count]"

definition min_mysql_pwrite64_openat_0_0_body198 :: "stmt list" where
  "min_mysql_pwrite64_openat_0_0_body198 = [
    Syscall NR_pwrite64 [Reg 0, Write_buf, Imm 0x200, Imm 0x1e1a0200], Count,
    Syscall NR_pwrite64 [Reg 0, Write_buf, Imm 0x200, Imm 0x1e1a0200], Count,
    Syscall NR_pwrite64 [Reg 0, Write_buf, Imm 0x200, Imm 0x1e1a0400], Count,
    Syscall NR_pwrite64 [Reg 0, Write_buf, Imm 0x200, Imm 0x1e1a0400], Count,
    Syscall NR_pwrite64 [Reg 0, Write_buf, Imm 0x200, Imm 0x1e1a0400], Count,
    Syscall NR_pwrite64 [Reg 0, Write_buf, Imm 0x200, Imm 0x1e1a0600], Count,
    Syscall NR_pwrite64 [Reg 0, Write_buf, Imm 0x200, Imm 0x1e1a0600], Count,
    Syscall NR_pwrite64 [Reg 0, Write_buf, Imm 0x200, Imm 0x1e1a0800], Count,
    Syscall NR_pwrite64 [Reg 0, Write_buf, Imm 0x200, Imm 0x1e1a0800], Count,
    Syscall NR_pwrite64 [Reg 0, Write_buf, Imm 0x200, Imm 0x1e1a0a00], Count,
    Syscall NR_pwrite64 [Reg 0, Write_buf, Imm 0x200, Imm 0x1e1a0a00], Count,
    Syscall NR_pwrite64 [Reg 0, Write_buf, Imm 0x400, Imm 0x1e1a0c00], Count,
    Syscall NR_pwrite64 [Reg 0, Write_buf, Imm 0x200, Imm 0x1e1a1000], Count]"

definition min_mysql_pwrite64_openat_0_0_body199 :: "stmt list" where
  "min_mysql_pwrite64_openat_0_0_body199 = [
    Syscall NR_pwrite64 [Reg 0, Write_buf, Imm 0x200, Imm 0x1e1a1000], Count,
    Syscall NR_pwrite64 [Reg 0, Write_buf, Imm 0x200, Imm 0x1e1a1200], Count,
    Syscall NR_pwrite64 [Reg 0, Write_buf, Imm 0x400, Imm 0x1e1a1400], Count,
    Syscall NR_pwrite64 [Reg 0, Write_buf, Imm 0x800, Imm 0x1e1a1800], Count,
    Syscall NR_pwrite64 [Reg 0, Write_buf, Imm 0x2000, Imm 0x1e1a2000], Count,
    Syscall NR_pwrite64 [Reg 0, Write_buf, Imm 0xe00, Imm 0x1e1a2a00], Count,
    Syscall NR_pwrite64 [Reg 0, Write_buf, Imm 0x800, Imm 0x1e1a3800], Count,
    Syscall NR_pwrite64 [Reg 0, Write_buf, Imm 0x2000, Imm 0x1e1a4000], Count,
    Syscall NR_pwrite64 [Reg 0, Write_buf, Imm 0x600, Imm 0x1e1a4800], Count,
    Syscall NR_pwrite64 [Reg 0, Write_buf, Imm 0x800, Imm 0x1e1a4e00], Count,
    Syscall NR_pwrite64 [Reg 0, Write_buf, Imm 0x400, Imm 0x1e1a5600], Count,
    Syscall NR_pwrite64 [Reg 0, Write_buf, Imm 0x200, Imm 0x1e1a5a00], Count,
    Syscall NR_pwrite64 [Reg 0, Write_buf, Imm 0x600, Imm 0x1e1a5a00], Count]"

definition min_mysql_pwrite64_openat_0_0_body200 :: "stmt list" where
  "min_mysql_pwrite64_openat_0_0_body200 = [
    Syscall NR_pwrite64 [Reg 0, Write_buf, Imm 0x2000, Imm 0x1e1a6000], Count,
    Syscall NR_pwrite64 [Reg 0, Write_buf, Imm 0x200, Imm 0x1e1a6800], Count,
    Syscall NR_pwrite64 [Reg 0, Write_buf, Imm 0x200, Imm 0x1e1a6a00], Count,
    Syscall NR_pwrite64 [Reg 0, Write_buf, Imm 0x400, Imm 0x1e1a6c00], Count,
    Syscall NR_pwrite64 [Reg 0, Write_buf, Imm 0x400, Imm 0x1e1a7000], Count,
    Syscall NR_pwrite64 [Reg 0, Write_buf, Imm 0x200, Imm 0x1e1a7400], Count,
    Syscall NR_pwrite64 [Reg 0, Write_buf, Imm 0x400, Imm 0x1e1a7600], Count,
    Syscall NR_pwrite64 [Reg 0, Write_buf, Imm 0x600, Imm 0x1e1a7a00], Count,
    Syscall NR_pwrite64 [Reg 0, Write_buf, Imm 0x2000, Imm 0x1e1a8000], Count,
    Syscall NR_pwrite64 [Reg 0, Write_buf, Imm 0x400, Imm 0x1e1a8600], Count,
    Syscall NR_pwrite64 [Reg 0, Write_buf, Imm 0x200, Imm 0x1e1a8a00], Count,
    Syscall NR_pwrite64 [Reg 0, Write_buf, Imm 0x200, Imm 0x1e1a8c00], Count,
    Syscall NR_pwrite64 [Reg 0, Write_buf, Imm 0x200, Imm 0x1e1a8c00], Count]"

definition min_mysql_pwrite64_openat_0_0_body201 :: "stmt list" where
  "min_mysql_pwrite64_openat_0_0_body201 = [
    Syscall NR_pwrite64 [Reg 0, Write_buf, Imm 0x200, Imm 0x1e1a8e00], Count,
    Syscall NR_pwrite64 [Reg 0, Write_buf, Imm 0x200, Imm 0x1e1a8e00], Count,
    Syscall NR_pwrite64 [Reg 0, Write_buf, Imm 0x200, Imm 0x1e1a8e00], Count,
    Syscall NR_pwrite64 [Reg 0, Write_buf, Imm 0x200, Imm 0x1e1a9000], Count,
    Syscall NR_pwrite64 [Reg 0, Write_buf, Imm 0x200, Imm 0x1e1a9000], Count,
    Syscall NR_pwrite64 [Reg 0, Write_buf, Imm 0x200, Imm 0x1e1a9200], Count,
    Syscall NR_pwrite64 [Reg 0, Write_buf, Imm 0x200, Imm 0x1e1a9200], Count,
    Syscall NR_pwrite64 [Reg 0, Write_buf, Imm 0x400, Imm 0x1e1a9200], Count,
    Syscall NR_pwrite64 [Reg 0, Write_buf, Imm 0x200, Imm 0x1e1a9600], Count,
    Syscall NR_pwrite64 [Reg 0, Write_buf, Imm 0x400, Imm 0x1e1a9600], Count,
    Syscall NR_pwrite64 [Reg 0, Write_buf, Imm 0x200, Imm 0x1e1a9a00], Count,
    Syscall NR_pwrite64 [Reg 0, Write_buf, Imm 0x600, Imm 0x1e1a9a00], Count,
    Syscall NR_pwrite64 [Reg 0, Write_buf, Imm 0x2000, Imm 0x1e1aa000], Count]"

definition min_mysql_pwrite64_openat_0_0_body202 :: "stmt list" where
  "min_mysql_pwrite64_openat_0_0_body202 = [
    Syscall NR_pwrite64 [Reg 0, Write_buf, Imm 0x200, Imm 0x1e1aa000], Count,
    Syscall NR_pwrite64 [Reg 0, Write_buf, Imm 0x200, Imm 0x1e1aa200], Count,
    Syscall NR_pwrite64 [Reg 0, Write_buf, Imm 0x200, Imm 0x1e1aa200], Count,
    Syscall NR_pwrite64 [Reg 0, Write_buf, Imm 0x200, Imm 0x1e1aa200], Count,
    Syscall NR_pwrite64 [Reg 0, Write_buf, Imm 0x200, Imm 0x1e1aa400], Count,
    Syscall NR_pwrite64 [Reg 0, Write_buf, Imm 0x200, Imm 0x1e1aa400], Count,
    Syscall NR_pwrite64 [Reg 0, Write_buf, Imm 0x400, Imm 0x1e1aa400], Count,
    Syscall NR_pwrite64 [Reg 0, Write_buf, Imm 0x200, Imm 0x1e1aa800], Count,
    Syscall NR_pwrite64 [Reg 0, Write_buf, Imm 0x200, Imm 0x1e1aaa00], Count,
    Syscall NR_pwrite64 [Reg 0, Write_buf, Imm 0x400, Imm 0x1e1aaa00], Count,
    Syscall NR_pwrite64 [Reg 0, Write_buf, Imm 0x400, Imm 0x1e1aae00], Count,
    Syscall NR_pwrite64 [Reg 0, Write_buf, Imm 0x400, Imm 0x1e1ab200], Count,
    Syscall NR_pwrite64 [Reg 0, Write_buf, Imm 0x400, Imm 0x1e1ab600], Count]"

definition min_mysql_pwrite64_openat_0_0_body203 :: "stmt list" where
  "min_mysql_pwrite64_openat_0_0_body203 = [
    Syscall NR_pwrite64 [Reg 0, Write_buf, Imm 0x600, Imm 0x1e1aba00], Count,
    Syscall NR_pwrite64 [Reg 0, Write_buf, Imm 0x2000, Imm 0x1e1ac000], Count,
    Syscall NR_pwrite64 [Reg 0, Write_buf, Imm 0x400, Imm 0x1e1ac600], Count,
    Syscall NR_pwrite64 [Reg 0, Write_buf, Imm 0x600, Imm 0x1e1aca00], Count,
    Syscall NR_pwrite64 [Reg 0, Write_buf, Imm 0x200, Imm 0x1e1ad000], Count,
    Syscall NR_pwrite64 [Reg 0, Write_buf, Imm 0x200, Imm 0x1e1ad200], Count,
    Syscall NR_pwrite64 [Reg 0, Write_buf, Imm 0x200, Imm 0x1e1ad400], Count,
    Syscall NR_pwrite64 [Reg 0, Write_buf, Imm 0x200, Imm 0x1e1ad400], Count,
    Syscall NR_pwrite64 [Reg 0, Write_buf, Imm 0x200, Imm 0x1e1ad400], Count,
    Syscall NR_pwrite64 [Reg 0, Write_buf, Imm 0x200, Imm 0x1e1ad400], Count,
    Syscall NR_pwrite64 [Reg 0, Write_buf, Imm 0x200, Imm 0x1e1ad600], Count,
    Syscall NR_pwrite64 [Reg 0, Write_buf, Imm 0x200, Imm 0x1e1ad600], Count,
    Syscall NR_pwrite64 [Reg 0, Write_buf, Imm 0x200, Imm 0x1e1ad600], Count]"

definition min_mysql_pwrite64_openat_0_0_body204 :: "stmt list" where
  "min_mysql_pwrite64_openat_0_0_body204 = [
    Syscall NR_pwrite64 [Reg 0, Write_buf, Imm 0x200, Imm 0x1e1ad600], Count,
    Syscall NR_pwrite64 [Reg 0, Write_buf, Imm 0x200, Imm 0x1e1ad600], Count,
    Syscall NR_pwrite64 [Reg 0, Write_buf, Imm 0x200, Imm 0x1e1ad600], Count,
    Syscall NR_pwrite64 [Reg 0, Write_buf, Imm 0x200, Imm 0x1e1ad800], Count,
    Syscall NR_pwrite64 [Reg 0, Write_buf, Imm 0x200, Imm 0x1e1ad800], Count,
    Syscall NR_pwrite64 [Reg 0, Write_buf, Imm 0x200, Imm 0x1e1ada00], Count,
    Syscall NR_pwrite64 [Reg 0, Write_buf, Imm 0x200, Imm 0x1e1ada00], Count,
    Syscall NR_pwrite64 [Reg 0, Write_buf, Imm 0x200, Imm 0x1e1adc00], Count,
    Syscall NR_pwrite64 [Reg 0, Write_buf, Imm 0x400, Imm 0x1e1adc00], Count,
    Syscall NR_pwrite64 [Reg 0, Write_buf, Imm 0x2000, Imm 0x1e1ae000], Count,
    Syscall NR_pwrite64 [Reg 0, Write_buf, Imm 0x400, Imm 0x1e1ae400], Count,
    Syscall NR_pwrite64 [Reg 0, Write_buf, Imm 0x400, Imm 0x1e1ae800], Count,
    Syscall NR_pwrite64 [Reg 0, Write_buf, Imm 0x200, Imm 0x1e1aec00], Count]"

definition min_mysql_pwrite64_openat_0_0_body205 :: "stmt list" where
  "min_mysql_pwrite64_openat_0_0_body205 = [
    Syscall NR_pwrite64 [Reg 0, Write_buf, Imm 0x400, Imm 0x1e1aec00], Count,
    Syscall NR_pwrite64 [Reg 0, Write_buf, Imm 0x200, Imm 0x1e1af000], Count,
    Syscall NR_pwrite64 [Reg 0, Write_buf, Imm 0x200, Imm 0x1e1af200], Count,
    Syscall NR_pwrite64 [Reg 0, Write_buf, Imm 0x400, Imm 0x1e1af400], Count,
    Syscall NR_pwrite64 [Reg 0, Write_buf, Imm 0x800, Imm 0x1e1af800], Count,
    Syscall NR_pwrite64 [Reg 0, Write_buf, Imm 0x2000, Imm 0x1e1b0000], Count,
    Syscall NR_pwrite64 [Reg 0, Write_buf, Imm 0x400, Imm 0x1e1b0400], Count,
    Syscall NR_pwrite64 [Reg 0, Write_buf, Imm 0x400, Imm 0x1e1b0800], Count,
    Syscall NR_pwrite64 [Reg 0, Write_buf, Imm 0xc00, Imm 0x1e1b0c00], Count,
    Syscall NR_pwrite64 [Reg 0, Write_buf, Imm 0x400, Imm 0x1e1b1800], Count,
    Syscall NR_pwrite64 [Reg 0, Write_buf, Imm 0x400, Imm 0x1e1b1c00], Count,
    Syscall NR_pwrite64 [Reg 0, Write_buf, Imm 0x2000, Imm 0x1e1b2000], Count,
    Syscall NR_pwrite64 [Reg 0, Write_buf, Imm 0x600, Imm 0x1e1b2400], Count]"

definition min_mysql_pwrite64_openat_0_0_body206 :: "stmt list" where
  "min_mysql_pwrite64_openat_0_0_body206 = [
    Syscall NR_pwrite64 [Reg 0, Write_buf, Imm 0x200, Imm 0x1e1b2a00], Count,
    Syscall NR_pwrite64 [Reg 0, Write_buf, Imm 0x200, Imm 0x1e1b2c00], Count,
    Syscall NR_pwrite64 [Reg 0, Write_buf, Imm 0x200, Imm 0x1e1b2e00], Count,
    Syscall NR_pwrite64 [Reg 0, Write_buf, Imm 0x200, Imm 0x1e1b3000], Count,
    Syscall NR_pwrite64 [Reg 0, Write_buf, Imm 0x200, Imm 0x1e1b3000], Count,
    Syscall NR_pwrite64 [Reg 0, Write_buf, Imm 0x400, Imm 0x1e1b3000], Count,
    Syscall NR_pwrite64 [Reg 0, Write_buf, Imm 0x200, Imm 0x1e1b3400], Count,
    Syscall NR_pwrite64 [Reg 0, Write_buf, Imm 0x200, Imm 0x1e1b3400], Count,
    Syscall NR_pwrite64 [Reg 0, Write_buf, Imm 0x200, Imm 0x1e1b3600], Count,
    Syscall NR_pwrite64 [Reg 0, Write_buf, Imm 0x200, Imm 0x1e1b3600], Count,
    Syscall NR_pwrite64 [Reg 0, Write_buf, Imm 0x200, Imm 0x1e1b3600], Count,
    Syscall NR_pwrite64 [Reg 0, Write_buf, Imm 0x200, Imm 0x1e1b3600], Count,
    Syscall NR_pwrite64 [Reg 0, Write_buf, Imm 0x200, Imm 0x1e1b3800], Count]"

definition min_mysql_pwrite64_openat_0_0_body207 :: "stmt list" where
  "min_mysql_pwrite64_openat_0_0_body207 = [
    Syscall NR_pwrite64 [Reg 0, Write_buf, Imm 0x200, Imm 0x1e1b3a00], Count,
    Syscall NR_pwrite64 [Reg 0, Write_buf, Imm 0x400, Imm 0x1e1b3a00], Count,
    Syscall NR_pwrite64 [Reg 0, Write_buf, Imm 0x200, Imm 0x1e1b3e00], Count,
    Syscall NR_pwrite64 [Reg 0, Write_buf, Imm 0x2000, Imm 0x1e1b4000], Count,
    Syscall NR_pwrite64 [Reg 0, Write_buf, Imm 0x200, Imm 0x1e1b4000], Count,
    Syscall NR_pwrite64 [Reg 0, Write_buf, Imm 0x200, Imm 0x1e1b4200], Count,
    Syscall NR_pwrite64 [Reg 0, Write_buf, Imm 0x200, Imm 0x1e1b4200], Count,
    Syscall NR_pwrite64 [Reg 0, Write_buf, Imm 0x200, Imm 0x1e1b4400], Count,
    Syscall NR_pwrite64 [Reg 0, Write_buf, Imm 0x200, Imm 0x1e1b4400], Count,
    Syscall NR_pwrite64 [Reg 0, Write_buf, Imm 0x200, Imm 0x1e1b4600], Count,
    Syscall NR_pwrite64 [Reg 0, Write_buf, Imm 0x200, Imm 0x1e1b4600], Count,
    Syscall NR_pwrite64 [Reg 0, Write_buf, Imm 0x200, Imm 0x1e1b4800], Count,
    Syscall NR_pwrite64 [Reg 0, Write_buf, Imm 0x200, Imm 0x1e1b4800], Count]"

definition min_mysql_pwrite64_openat_0_0_body208 :: "stmt list" where
  "min_mysql_pwrite64_openat_0_0_body208 = [
    Syscall NR_pwrite64 [Reg 0, Write_buf, Imm 0x200, Imm 0x1e1b4a00], Count,
    Syscall NR_pwrite64 [Reg 0, Write_buf, Imm 0x200, Imm 0x1e1b4a00], Count,
    Syscall NR_pwrite64 [Reg 0, Write_buf, Imm 0x200, Imm 0x1e1b4c00], Count,
    Syscall NR_pwrite64 [Reg 0, Write_buf, Imm 0x200, Imm 0x1e1b4c00], Count,
    Syscall NR_pwrite64 [Reg 0, Write_buf, Imm 0x200, Imm 0x1e1b4c00], Count,
    Syscall NR_pwrite64 [Reg 0, Write_buf, Imm 0x200, Imm 0x1e1b4e00], Count,
    Syscall NR_pwrite64 [Reg 0, Write_buf, Imm 0x200, Imm 0x1e1b4e00], Count,
    Syscall NR_pwrite64 [Reg 0, Write_buf, Imm 0x200, Imm 0x1e1b5000], Count,
    Syscall NR_pwrite64 [Reg 0, Write_buf, Imm 0x200, Imm 0x1e1b5000], Count,
    Syscall NR_pwrite64 [Reg 0, Write_buf, Imm 0x200, Imm 0x1e1b5200], Count,
    Syscall NR_pwrite64 [Reg 0, Write_buf, Imm 0x200, Imm 0x1e1b5200], Count,
    Syscall NR_pwrite64 [Reg 0, Write_buf, Imm 0x200, Imm 0x1e1b5400], Count,
    Syscall NR_pwrite64 [Reg 0, Write_buf, Imm 0x200, Imm 0x1e1b5400], Count]"

definition min_mysql_pwrite64_openat_0_0_body209 :: "stmt list" where
  "min_mysql_pwrite64_openat_0_0_body209 = [
    Syscall NR_pwrite64 [Reg 0, Write_buf, Imm 0x200, Imm 0x1e1b5400], Count,
    Syscall NR_pwrite64 [Reg 0, Write_buf, Imm 0x200, Imm 0x1e1b5600], Count,
    Syscall NR_pwrite64 [Reg 0, Write_buf, Imm 0x200, Imm 0x1e1b5600], Count,
    Syscall NR_pwrite64 [Reg 0, Write_buf, Imm 0x200, Imm 0x1e1b5600], Count,
    Syscall NR_pwrite64 [Reg 0, Write_buf, Imm 0x200, Imm 0x1e1b5800], Count,
    Syscall NR_pwrite64 [Reg 0, Write_buf, Imm 0x200, Imm 0x1e1b5800], Count,
    Syscall NR_pwrite64 [Reg 0, Write_buf, Imm 0x200, Imm 0x1e1b5800], Count,
    Syscall NR_pwrite64 [Reg 0, Write_buf, Imm 0x400, Imm 0x1e1b5a00], Count,
    Syscall NR_pwrite64 [Reg 0, Write_buf, Imm 0x200, Imm 0x1e1b5e00], Count,
    Syscall NR_pwrite64 [Reg 0, Write_buf, Imm 0x2000, Imm 0x1e1b6000], Count,
    Syscall NR_pwrite64 [Reg 0, Write_buf, Imm 0xc00, Imm 0x1e1b6400], Count,
    Syscall NR_pwrite64 [Reg 0, Write_buf, Imm 0xa00, Imm 0x1e1b7000], Count,
    Syscall NR_pwrite64 [Reg 0, Write_buf, Imm 0x600, Imm 0x1e1b7a00], Count]"

definition min_mysql_pwrite64_openat_0_0_body210 :: "stmt list" where
  "min_mysql_pwrite64_openat_0_0_body210 = [
    Syscall NR_pwrite64 [Reg 0, Write_buf, Imm 0x2000, Imm 0x1e1b8000], Count,
    Syscall NR_pwrite64 [Reg 0, Write_buf, Imm 0xa00, Imm 0x1e1b8e00], Count,
    Syscall NR_pwrite64 [Reg 0, Write_buf, Imm 0x600, Imm 0x1e1b9800], Count,
    Syscall NR_pwrite64 [Reg 0, Write_buf, Imm 0x200, Imm 0x1e1b9e00], Count,
    Syscall NR_pwrite64 [Reg 0, Write_buf, Imm 0x2000, Imm 0x1e1ba000], Count,
    Syscall NR_pwrite64 [Reg 0, Write_buf, Imm 0x600, Imm 0x1e1baa00], Count,
    Syscall NR_pwrite64 [Reg 0, Write_buf, Imm 0x400, Imm 0x1e1bb000], Count,
    Syscall NR_pwrite64 [Reg 0, Write_buf, Imm 0x400, Imm 0x1e1bb400], Count,
    Syscall NR_pwrite64 [Reg 0, Write_buf, Imm 0x200, Imm 0x1e1bb800], Count,
    Syscall NR_pwrite64 [Reg 0, Write_buf, Imm 0x200, Imm 0x1e1bba00], Count,
    Syscall NR_pwrite64 [Reg 0, Write_buf, Imm 0x600, Imm 0x1e1bba00], Count,
    Syscall NR_pwrite64 [Reg 0, Write_buf, Imm 0x2000, Imm 0x1e1bc000], Count,
    Syscall NR_pwrite64 [Reg 0, Write_buf, Imm 0x200, Imm 0x1e1bc600], Count]"

definition min_mysql_pwrite64_openat_0_0_body211 :: "stmt list" where
  "min_mysql_pwrite64_openat_0_0_body211 = [
    Syscall NR_pwrite64 [Reg 0, Write_buf, Imm 0x200, Imm 0x1e1bc800], Count,
    Syscall NR_pwrite64 [Reg 0, Write_buf, Imm 0x200, Imm 0x1e1bc800], Count,
    Syscall NR_pwrite64 [Reg 0, Write_buf, Imm 0x200, Imm 0x1e1bca00], Count,
    Syscall NR_pwrite64 [Reg 0, Write_buf, Imm 0x200, Imm 0x1e1bca00], Count,
    Syscall NR_pwrite64 [Reg 0, Write_buf, Imm 0x400, Imm 0x1e1bca00], Count,
    Syscall NR_pwrite64 [Reg 0, Write_buf, Imm 0x200, Imm 0x1e1bce00], Count,
    Syscall NR_pwrite64 [Reg 0, Write_buf, Imm 0x200, Imm 0x1e1bd000], Count,
    Syscall NR_pwrite64 [Reg 0, Write_buf, Imm 0x200, Imm 0x1e1bd000], Count,
    Syscall NR_pwrite64 [Reg 0, Write_buf, Imm 0x200, Imm 0x1e1bd000], Count,
    Syscall NR_pwrite64 [Reg 0, Write_buf, Imm 0x200, Imm 0x1e1bd200], Count,
    Syscall NR_pwrite64 [Reg 0, Write_buf, Imm 0x200, Imm 0x1e1bd200], Count,
    Syscall NR_pwrite64 [Reg 0, Write_buf, Imm 0x200, Imm 0x1e1bd400], Count,
    Syscall NR_pwrite64 [Reg 0, Write_buf, Imm 0x400, Imm 0x1e1bd400], Count]"

definition min_mysql_pwrite64_openat_0_0_body212 :: "stmt list" where
  "min_mysql_pwrite64_openat_0_0_body212 = [
    Syscall NR_pwrite64 [Reg 0, Write_buf, Imm 0x200, Imm 0x1e1bd800], Count,
    Syscall NR_pwrite64 [Reg 0, Write_buf, Imm 0x200, Imm 0x1e1bd800], Count,
    Syscall NR_pwrite64 [Reg 0, Write_buf, Imm 0x600, Imm 0x1e1bd800], Count,
    Syscall NR_pwrite64 [Reg 0, Write_buf, Imm 0x200, Imm 0x1e1bde00], Count,
    Syscall NR_pwrite64 [Reg 0, Write_buf, Imm 0x200, Imm 0x1e1bde00], Count,
    Syscall NR_pwrite64 [Reg 0, Write_buf, Imm 0x2000, Imm 0x1e1be000], Count,
    Syscall NR_pwrite64 [Reg 0, Write_buf, Imm 0x200, Imm 0x1e1be400], Count,
    Syscall NR_pwrite64 [Reg 0, Write_buf, Imm 0x200, Imm 0x1e1be600], Count,
    Syscall NR_pwrite64 [Reg 0, Write_buf, Imm 0x200, Imm 0x1e1be600], Count,
    Syscall NR_pwrite64 [Reg 0, Write_buf, Imm 0x800, Imm 0x1e1be600], Count,
    Syscall NR_pwrite64 [Reg 0, Write_buf, Imm 0x200, Imm 0x1e1bee00], Count,
    Syscall NR_pwrite64 [Reg 0, Write_buf, Imm 0x200, Imm 0x1e1bf000], Count,
    Syscall NR_pwrite64 [Reg 0, Write_buf, Imm 0x400, Imm 0x1e1bf000], Count]"

definition min_mysql_pwrite64_openat_0_0_body213 :: "stmt list" where
  "min_mysql_pwrite64_openat_0_0_body213 = [
    Syscall NR_pwrite64 [Reg 0, Write_buf, Imm 0x200, Imm 0x1e1bf400], Count,
    Syscall NR_pwrite64 [Reg 0, Write_buf, Imm 0x200, Imm 0x1e1bf400], Count,
    Syscall NR_pwrite64 [Reg 0, Write_buf, Imm 0x400, Imm 0x1e1bf400], Count,
    Syscall NR_pwrite64 [Reg 0, Write_buf, Imm 0x200, Imm 0x1e1bf800], Count,
    Syscall NR_pwrite64 [Reg 0, Write_buf, Imm 0x600, Imm 0x1e1bf800], Count,
    Syscall NR_pwrite64 [Reg 0, Write_buf, Imm 0x200, Imm 0x1e1bfe00], Count,
    Syscall NR_pwrite64 [Reg 0, Write_buf, Imm 0x2000, Imm 0x1e1c0000], Count,
    Syscall NR_pwrite64 [Reg 0, Write_buf, Imm 0x400, Imm 0x1e1c0600], Count,
    Syscall NR_pwrite64 [Reg 0, Write_buf, Imm 0x200, Imm 0x1e1c0a00], Count,
    Syscall NR_pwrite64 [Reg 0, Write_buf, Imm 0x200, Imm 0x1e1c0a00], Count,
    Syscall NR_pwrite64 [Reg 0, Write_buf, Imm 0x600, Imm 0x1e1c0c00], Count,
    Syscall NR_pwrite64 [Reg 0, Write_buf, Imm 0x200, Imm 0x1e1c1200], Count,
    Syscall NR_pwrite64 [Reg 0, Write_buf, Imm 0x400, Imm 0x1e1c1200], Count]"

definition min_mysql_pwrite64_openat_0_0_body214 :: "stmt list" where
  "min_mysql_pwrite64_openat_0_0_body214 = [
    Syscall NR_pwrite64 [Reg 0, Write_buf, Imm 0xa00, Imm 0x1e1c1600], Count,
    Syscall NR_pwrite64 [Reg 0, Write_buf, Imm 0x2000, Imm 0x1e1c2000], Count,
    Syscall NR_pwrite64 [Reg 0, Write_buf, Imm 0xc00, Imm 0x1e1c2400], Count,
    Syscall NR_pwrite64 [Reg 0, Write_buf, Imm 0xe00, Imm 0x1e1c3000], Count,
    Syscall NR_pwrite64 [Reg 0, Write_buf, Imm 0x200, Imm 0x1e1c3e00], Count,
    Syscall NR_pwrite64 [Reg 0, Write_buf, Imm 0x2000, Imm 0x1e1c4000], Count,
    Syscall NR_pwrite64 [Reg 0, Write_buf, Imm 0x600, Imm 0x1e1c4800], Count,
    Syscall NR_pwrite64 [Reg 0, Write_buf, Imm 0x400, Imm 0x1e1c4e00], Count,
    Syscall NR_pwrite64 [Reg 0, Write_buf, Imm 0x600, Imm 0x1e1c5200], Count,
    Syscall NR_pwrite64 [Reg 0, Write_buf, Imm 0x600, Imm 0x1e1c5800], Count,
    Syscall NR_pwrite64 [Reg 0, Write_buf, Imm 0x200, Imm 0x1e1c5e00], Count,
    Syscall NR_pwrite64 [Reg 0, Write_buf, Imm 0x2000, Imm 0x1e1c6000], Count,
    Syscall NR_pwrite64 [Reg 0, Write_buf, Imm 0x400, Imm 0x1e1c6600], Count]"

definition min_mysql_pwrite64_openat_0_0_body215 :: "stmt list" where
  "min_mysql_pwrite64_openat_0_0_body215 = [
    Syscall NR_pwrite64 [Reg 0, Write_buf, Imm 0x200, Imm 0x1e1c6a00], Count,
    Syscall NR_pwrite64 [Reg 0, Write_buf, Imm 0x200, Imm 0x1e1c6c00], Count,
    Syscall NR_pwrite64 [Reg 0, Write_buf, Imm 0x200, Imm 0x1e1c6c00], Count,
    Syscall NR_pwrite64 [Reg 0, Write_buf, Imm 0x200, Imm 0x1e1c6e00], Count,
    Syscall NR_pwrite64 [Reg 0, Write_buf, Imm 0x600, Imm 0x1e1c6e00], Count,
    Syscall NR_pwrite64 [Reg 0, Write_buf, Imm 0x200, Imm 0x1e1c7400], Count,
    Syscall NR_pwrite64 [Reg 0, Write_buf, Imm 0x200, Imm 0x1e1c7600], Count,
    Syscall NR_pwrite64 [Reg 0, Write_buf, Imm 0x200, Imm 0x1e1c7800], Count,
    Syscall NR_pwrite64 [Reg 0, Write_buf, Imm 0x400, Imm 0x1e1c7800], Count,
    Syscall NR_pwrite64 [Reg 0, Write_buf, Imm 0x200, Imm 0x1e1c7c00], Count,
    Syscall NR_pwrite64 [Reg 0, Write_buf, Imm 0x200, Imm 0x1e1c7c00], Count,
    Syscall NR_pwrite64 [Reg 0, Write_buf, Imm 0x200, Imm 0x1e1c7c00], Count,
    Syscall NR_pwrite64 [Reg 0, Write_buf, Imm 0x200, Imm 0x1e1c7e00], Count]"

definition min_mysql_pwrite64_openat_0_0_body216 :: "stmt list" where
  "min_mysql_pwrite64_openat_0_0_body216 = [
    Syscall NR_pwrite64 [Reg 0, Write_buf, Imm 0x200, Imm 0x1e1c7e00], Count,
    Syscall NR_pwrite64 [Reg 0, Write_buf, Imm 0x200, Imm 0x1e1c7e00], Count,
    Syscall NR_pwrite64 [Reg 0, Write_buf, Imm 0x2000, Imm 0x1e1c8000], Count,
    Syscall NR_pwrite64 [Reg 0, Write_buf, Imm 0x200, Imm 0x1e1c8000], Count,
    Syscall NR_pwrite64 [Reg 0, Write_buf, Imm 0x200, Imm 0x1e1c8200], Count,
    Syscall NR_pwrite64 [Reg 0, Write_buf, Imm 0x200, Imm 0x1e1c8200], Count,
    Syscall NR_pwrite64 [Reg 0, Write_buf, Imm 0x200, Imm 0x1e1c8400], Count,
    Syscall NR_pwrite64 [Reg 0, Write_buf, Imm 0x400, Imm 0x1e1c8400], Count,
    Syscall NR_pwrite64 [Reg 0, Write_buf, Imm 0x200, Imm 0x1e1c8800], Count,
    Syscall NR_pwrite64 [Reg 0, Write_buf, Imm 0x1000, Imm 0x1e1c8800], Count,
    Syscall NR_pwrite64 [Reg 0, Write_buf, Imm 0x200, Imm 0x1e1c9800], Count,
    Syscall NR_pwrite64 [Reg 0, Write_buf, Imm 0x200, Imm 0x1e1c9800], Count,
    Syscall NR_pwrite64 [Reg 0, Write_buf, Imm 0x800, Imm 0x1e1c9800], Count]"

definition min_mysql_pwrite64_openat_0_0_body217 :: "stmt list" where
  "min_mysql_pwrite64_openat_0_0_body217 = [
    Syscall NR_pwrite64 [Reg 0, Write_buf, Imm 0x2000, Imm 0x1e1ca000], Count,
    Syscall NR_pwrite64 [Reg 0, Write_buf, Imm 0x400, Imm 0x1e1ca000], Count,
    Syscall NR_pwrite64 [Reg 0, Write_buf, Imm 0x200, Imm 0x1e1ca400], Count,
    Syscall NR_pwrite64 [Reg 0, Write_buf, Imm 0x400, Imm 0x1e1ca400], Count,
    Syscall NR_pwrite64 [Reg 0, Write_buf, Imm 0x200, Imm 0x1e1ca800], Count,
    Syscall NR_pwrite64 [Reg 0, Write_buf, Imm 0x200, Imm 0x1e1caa00], Count,
    Syscall NR_pwrite64 [Reg 0, Write_buf, Imm 0x200, Imm 0x1e1caa00], Count,
    Syscall NR_pwrite64 [Reg 0, Write_buf, Imm 0x200, Imm 0x1e1cac00], Count,
    Syscall NR_pwrite64 [Reg 0, Write_buf, Imm 0x200, Imm 0x1e1cac00], Count,
    Syscall NR_pwrite64 [Reg 0, Write_buf, Imm 0x200, Imm 0x1e1cae00], Count,
    Syscall NR_pwrite64 [Reg 0, Write_buf, Imm 0x200, Imm 0x1e1cae00], Count,
    Syscall NR_pwrite64 [Reg 0, Write_buf, Imm 0x400, Imm 0x1e1cae00], Count,
    Syscall NR_pwrite64 [Reg 0, Write_buf, Imm 0x200, Imm 0x1e1cb200], Count]"

definition min_mysql_pwrite64_openat_0_0_body218 :: "stmt list" where
  "min_mysql_pwrite64_openat_0_0_body218 = [
    Syscall NR_pwrite64 [Reg 0, Write_buf, Imm 0x200, Imm 0x1e1cb200], Count,
    Syscall NR_pwrite64 [Reg 0, Write_buf, Imm 0x600, Imm 0x1e1cb400], Count,
    Syscall NR_pwrite64 [Reg 0, Write_buf, Imm 0x400, Imm 0x1e1cba00], Count,
    Syscall NR_pwrite64 [Reg 0, Write_buf, Imm 0x200, Imm 0x1e1cbe00], Count,
    Syscall NR_pwrite64 [Reg 0, Write_buf, Imm 0x2000, Imm 0x1e1cc000], Count,
    Syscall NR_pwrite64 [Reg 0, Write_buf, Imm 0x400, Imm 0x1e1cca00], Count,
    Syscall NR_pwrite64 [Reg 0, Write_buf, Imm 0x200, Imm 0x1e1cce00], Count,
    Syscall NR_pwrite64 [Reg 0, Write_buf, Imm 0x200, Imm 0x1e1cd000], Count,
    Syscall NR_pwrite64 [Reg 0, Write_buf, Imm 0x400, Imm 0x1e1cd200], Count,
    Syscall NR_pwrite64 [Reg 0, Write_buf, Imm 0x400, Imm 0x1e1cd600], Count,
    Syscall NR_pwrite64 [Reg 0, Write_buf, Imm 0x400, Imm 0x1e1cda00], Count,
    Syscall NR_pwrite64 [Reg 0, Write_buf, Imm 0x200, Imm 0x1e1cde00], Count,
    Syscall NR_pwrite64 [Reg 0, Write_buf, Imm 0x2000, Imm 0x1e1ce000], Count]"

definition min_mysql_pwrite64_openat_0_0_body219 :: "stmt list" where
  "min_mysql_pwrite64_openat_0_0_body219 = [
    Syscall NR_pwrite64 [Reg 0, Write_buf, Imm 0x200, Imm 0x1e1cee00], Count,
    Syscall NR_pwrite64 [Reg 0, Write_buf, Imm 0x200, Imm 0x1e1cf000], Count,
    Syscall NR_pwrite64 [Reg 0, Write_buf, Imm 0x600, Imm 0x1e1cf200], Count,
    Syscall NR_pwrite64 [Reg 0, Write_buf, Imm 0x800, Imm 0x1e1cf800], Count,
    Syscall NR_pwrite64 [Reg 0, Write_buf, Imm 0x2000, Imm 0x1e1d0000], Count,
    Syscall NR_pwrite64 [Reg 0, Write_buf, Imm 0x400, Imm 0x1e1d0600], Count,
    Syscall NR_pwrite64 [Reg 0, Write_buf, Imm 0x600, Imm 0x1e1d0a00], Count,
    Syscall NR_pwrite64 [Reg 0, Write_buf, Imm 0x400, Imm 0x1e1d1000], Count,
    Syscall NR_pwrite64 [Reg 0, Write_buf, Imm 0x200, Imm 0x1e1d1400], Count,
    Syscall NR_pwrite64 [Reg 0, Write_buf, Imm 0x200, Imm 0x1e1d1600], Count,
    Syscall NR_pwrite64 [Reg 0, Write_buf, Imm 0x200, Imm 0x1e1d1800], Count,
    Syscall NR_pwrite64 [Reg 0, Write_buf, Imm 0x400, Imm 0x1e1d1800], Count,
    Syscall NR_pwrite64 [Reg 0, Write_buf, Imm 0x200, Imm 0x1e1d1c00], Count]"

definition min_mysql_pwrite64_openat_0_0_body220 :: "stmt list" where
  "min_mysql_pwrite64_openat_0_0_body220 = [
    Syscall NR_pwrite64 [Reg 0, Write_buf, Imm 0x200, Imm 0x1e1d1e00], Count,
    Syscall NR_pwrite64 [Reg 0, Write_buf, Imm 0x200, Imm 0x1e1d1e00], Count,
    Syscall NR_pwrite64 [Reg 0, Write_buf, Imm 0x2000, Imm 0x1e1d2000], Count,
    Syscall NR_pwrite64 [Reg 0, Write_buf, Imm 0x200, Imm 0x1e1d2000], Count,
    Syscall NR_pwrite64 [Reg 0, Write_buf, Imm 0x200, Imm 0x1e1d2200], Count,
    Syscall NR_pwrite64 [Reg 0, Write_buf, Imm 0x200, Imm 0x1e1d2200], Count,
    Syscall NR_pwrite64 [Reg 0, Write_buf, Imm 0x200, Imm 0x1e1d2400], Count,
    Syscall NR_pwrite64 [Reg 0, Write_buf, Imm 0x200, Imm 0x1e1d2400], Count,
    Syscall NR_pwrite64 [Reg 0, Write_buf, Imm 0x200, Imm 0x1e1d2600], Count,
    Syscall NR_pwrite64 [Reg 0, Write_buf, Imm 0x200, Imm 0x1e1d2800], Count,
    Syscall NR_pwrite64 [Reg 0, Write_buf, Imm 0x200, Imm 0x1e1d2800], Count,
    Syscall NR_pwrite64 [Reg 0, Write_buf, Imm 0x200, Imm 0x1e1d2800], Count,
    Syscall NR_pwrite64 [Reg 0, Write_buf, Imm 0x200, Imm 0x1e1d2800], Count]"

definition min_mysql_pwrite64_openat_0_0_body221 :: "stmt list" where
  "min_mysql_pwrite64_openat_0_0_body221 = [
    Syscall NR_pwrite64 [Reg 0, Write_buf, Imm 0x200, Imm 0x1e1d2a00], Count,
    Syscall NR_pwrite64 [Reg 0, Write_buf, Imm 0x200, Imm 0x1e1d2c00], Count,
    Syscall NR_pwrite64 [Reg 0, Write_buf, Imm 0x200, Imm 0x1e1d2c00], Count,
    Syscall NR_pwrite64 [Reg 0, Write_buf, Imm 0x200, Imm 0x1e1d2c00], Count,
    Syscall NR_pwrite64 [Reg 0, Write_buf, Imm 0x200, Imm 0x1e1d2e00], Count,
    Syscall NR_pwrite64 [Reg 0, Write_buf, Imm 0x800, Imm 0x1e1d2e00], Count,
    Syscall NR_pwrite64 [Reg 0, Write_buf, Imm 0x400, Imm 0x1e1d3600], Count,
    Syscall NR_pwrite64 [Reg 0, Write_buf, Imm 0x200, Imm 0x1e1d3a00], Count,
    Syscall NR_pwrite64 [Reg 0, Write_buf, Imm 0x200, Imm 0x1e1d3a00], Count,
    Syscall NR_pwrite64 [Reg 0, Write_buf, Imm 0x200, Imm 0x1e1d3c00], Count,
    Syscall NR_pwrite64 [Reg 0, Write_buf, Imm 0x400, Imm 0x1e1d3c00], Count,
    Syscall NR_pwrite64 [Reg 0, Write_buf, Imm 0x2000, Imm 0x1e1d4000], Count,
    Syscall NR_pwrite64 [Reg 0, Write_buf, Imm 0x200, Imm 0x1e1d4600], Count]"

definition min_mysql_pwrite64_openat_0_0_body222 :: "stmt list" where
  "min_mysql_pwrite64_openat_0_0_body222 = [
    Syscall NR_pwrite64 [Reg 0, Write_buf, Imm 0x200, Imm 0x1e1d4600], Count,
    Syscall NR_pwrite64 [Reg 0, Write_buf, Imm 0x400, Imm 0x1e1d4600], Count,
    Syscall NR_pwrite64 [Reg 0, Write_buf, Imm 0x200, Imm 0x1e1d4a00], Count,
    Syscall NR_pwrite64 [Reg 0, Write_buf, Imm 0x200, Imm 0x1e1d4a00], Count,
    Syscall NR_pwrite64 [Reg 0, Write_buf, Imm 0x600, Imm 0x1e1d4c00], Count,
    Syscall NR_pwrite64 [Reg 0, Write_buf, Imm 0x200, Imm 0x1e1d5200], Count,
    Syscall NR_pwrite64 [Reg 0, Write_buf, Imm 0x400, Imm 0x1e1d5200], Count,
    Syscall NR_pwrite64 [Reg 0, Write_buf, Imm 0x200, Imm 0x1e1d5600], Count,
    Syscall NR_pwrite64 [Reg 0, Write_buf, Imm 0x200, Imm 0x1e1d5600], Count,
    Syscall NR_pwrite64 [Reg 0, Write_buf, Imm 0x200, Imm 0x1e1d5800], Count,
    Syscall NR_pwrite64 [Reg 0, Write_buf, Imm 0x200, Imm 0x1e1d5800], Count,
    Syscall NR_pwrite64 [Reg 0, Write_buf, Imm 0x200, Imm 0x1e1d5800], Count,
    Syscall NR_pwrite64 [Reg 0, Write_buf, Imm 0x200, Imm 0x1e1d5800], Count]"

definition min_mysql_pwrite64_openat_0_0_body223 :: "stmt list" where
  "min_mysql_pwrite64_openat_0_0_body223 = [
    Syscall NR_pwrite64 [Reg 0, Write_buf, Imm 0x200, Imm 0x1e1d5800], Count,
    Syscall NR_pwrite64 [Reg 0, Write_buf, Imm 0x200, Imm 0x1e1d5a00], Count,
    Syscall NR_pwrite64 [Reg 0, Write_buf, Imm 0x200, Imm 0x1e1d5a00], Count,
    Syscall NR_pwrite64 [Reg 0, Write_buf, Imm 0x200, Imm 0x1e1d5c00], Count,
    Syscall NR_pwrite64 [Reg 0, Write_buf, Imm 0x200, Imm 0x1e1d5c00], Count,
    Syscall NR_pwrite64 [Reg 0, Write_buf, Imm 0x200, Imm 0x1e1d5e00], Count,
    Syscall NR_pwrite64 [Reg 0, Write_buf, Imm 0x2000, Imm 0x1e1d6000], Count,
    Syscall NR_pwrite64 [Reg 0, Write_buf, Imm 0x200, Imm 0x1e1d6200], Count,
    Syscall NR_pwrite64 [Reg 0, Write_buf, Imm 0x200, Imm 0x1e1d6400], Count,
    Syscall NR_pwrite64 [Reg 0, Write_buf, Imm 0x200, Imm 0x1e1d6400], Count,
    Syscall NR_pwrite64 [Reg 0, Write_buf, Imm 0x200, Imm 0x1e1d6600], Count,
    Syscall NR_pwrite64 [Reg 0, Write_buf, Imm 0x600, Imm 0x1e1d6600], Count,
    Syscall NR_pwrite64 [Reg 0, Write_buf, Imm 0xc00, Imm 0x1e1d6c00], Count]"

definition min_mysql_pwrite64_openat_0_0_body224 :: "stmt list" where
  "min_mysql_pwrite64_openat_0_0_body224 = [
    Syscall NR_pwrite64 [Reg 0, Write_buf, Imm 0x600, Imm 0x1e1d7800], Count,
    Syscall NR_pwrite64 [Reg 0, Write_buf, Imm 0x200, Imm 0x1e1d7e00], Count,
    Syscall NR_pwrite64 [Reg 0, Write_buf, Imm 0x2000, Imm 0x1e1d8000], Count,
    Syscall NR_pwrite64 [Reg 0, Write_buf, Imm 0x600, Imm 0x1e1d9400], Count,
    Syscall NR_pwrite64 [Reg 0, Write_buf, Imm 0x600, Imm 0x1e1d9a00], Count,
    Syscall NR_pwrite64 [Reg 0, Write_buf, Imm 0x2000, Imm 0x1e1da000], Count,
    Syscall NR_pwrite64 [Reg 0, Write_buf, Imm 0x800, Imm 0x1e1da800], Count,
    Syscall NR_pwrite64 [Reg 0, Write_buf, Imm 0x600, Imm 0x1e1db000], Count,
    Syscall NR_pwrite64 [Reg 0, Write_buf, Imm 0x200, Imm 0x1e1db600], Count,
    Syscall NR_pwrite64 [Reg 0, Write_buf, Imm 0x400, Imm 0x1e1db800], Count,
    Syscall NR_pwrite64 [Reg 0, Write_buf, Imm 0x200, Imm 0x1e1dbc00], Count,
    Syscall NR_pwrite64 [Reg 0, Write_buf, Imm 0x200, Imm 0x1e1dbc00], Count,
    Syscall NR_pwrite64 [Reg 0, Write_buf, Imm 0x200, Imm 0x1e1dbc00], Count]"

definition min_mysql_pwrite64_openat_0_0_body225 :: "stmt list" where
  "min_mysql_pwrite64_openat_0_0_body225 = [
    Syscall NR_pwrite64 [Reg 0, Write_buf, Imm 0x200, Imm 0x1e1dbc00], Count,
    Syscall NR_pwrite64 [Reg 0, Write_buf, Imm 0x200, Imm 0x1e1dbe00], Count,
    Syscall NR_pwrite64 [Reg 0, Write_buf, Imm 0x200, Imm 0x1e1dbe00], Count,
    Syscall NR_pwrite64 [Reg 0, Write_buf, Imm 0x200, Imm 0x1e1dbe00], Count,
    Syscall NR_pwrite64 [Reg 0, Write_buf, Imm 0x2000, Imm 0x1e1dc000], Count,
    Syscall NR_pwrite64 [Reg 0, Write_buf, Imm 0x200, Imm 0x1e1dc000], Count,
    Syscall NR_pwrite64 [Reg 0, Write_buf, Imm 0x200, Imm 0x1e1dc200], Count,
    Syscall NR_pwrite64 [Reg 0, Write_buf, Imm 0x200, Imm 0x1e1dc200], Count,
    Syscall NR_pwrite64 [Reg 0, Write_buf, Imm 0x200, Imm 0x1e1dc200], Count,
    Syscall NR_pwrite64 [Reg 0, Write_buf, Imm 0x400, Imm 0x1e1dc200], Count,
    Syscall NR_pwrite64 [Reg 0, Write_buf, Imm 0x200, Imm 0x1e1dc600], Count,
    Syscall NR_pwrite64 [Reg 0, Write_buf, Imm 0x200, Imm 0x1e1dc800], Count,
    Syscall NR_pwrite64 [Reg 0, Write_buf, Imm 0x200, Imm 0x1e1dca00], Count]"

definition min_mysql_pwrite64_openat_0_0_body226 :: "stmt list" where
  "min_mysql_pwrite64_openat_0_0_body226 = [
    Syscall NR_pwrite64 [Reg 0, Write_buf, Imm 0x600, Imm 0x1e1dcc00], Count,
    Syscall NR_pwrite64 [Reg 0, Write_buf, Imm 0x400, Imm 0x1e1dd200], Count,
    Syscall NR_pwrite64 [Reg 0, Write_buf, Imm 0xa00, Imm 0x1e1dd600], Count,
    Syscall NR_pwrite64 [Reg 0, Write_buf, Imm 0x2000, Imm 0x1e1de000], Count,
    Syscall NR_pwrite64 [Reg 0, Write_buf, Imm 0x600, Imm 0x1e1de400], Count,
    Syscall NR_pwrite64 [Reg 0, Write_buf, Imm 0x200, Imm 0x1e1dea00], Count,
    Syscall NR_pwrite64 [Reg 0, Write_buf, Imm 0x200, Imm 0x1e1dec00], Count,
    Syscall NR_pwrite64 [Reg 0, Write_buf, Imm 0x200, Imm 0x1e1dee00], Count,
    Syscall NR_pwrite64 [Reg 0, Write_buf, Imm 0x200, Imm 0x1e1dee00], Count,
    Syscall NR_pwrite64 [Reg 0, Write_buf, Imm 0x200, Imm 0x1e1df000], Count,
    Syscall NR_pwrite64 [Reg 0, Write_buf, Imm 0x200, Imm 0x1e1df000], Count,
    Syscall NR_pwrite64 [Reg 0, Write_buf, Imm 0x200, Imm 0x1e1df200], Count,
    Syscall NR_pwrite64 [Reg 0, Write_buf, Imm 0x200, Imm 0x1e1df200], Count]"

definition min_mysql_pwrite64_openat_0_0_body227 :: "stmt list" where
  "min_mysql_pwrite64_openat_0_0_body227 = [
    Syscall NR_pwrite64 [Reg 0, Write_buf, Imm 0x200, Imm 0x1e1df400], Count,
    Syscall NR_pwrite64 [Reg 0, Write_buf, Imm 0x200, Imm 0x1e1df400], Count,
    Syscall NR_pwrite64 [Reg 0, Write_buf, Imm 0x200, Imm 0x1e1df600], Count,
    Syscall NR_pwrite64 [Reg 0, Write_buf, Imm 0x200, Imm 0x1e1df800], Count,
    Syscall NR_pwrite64 [Reg 0, Write_buf, Imm 0x400, Imm 0x1e1df800], Count,
    Syscall NR_pwrite64 [Reg 0, Write_buf, Imm 0x200, Imm 0x1e1dfc00], Count,
    Syscall NR_pwrite64 [Reg 0, Write_buf, Imm 0x200, Imm 0x1e1dfe00], Count,
    Syscall NR_pwrite64 [Reg 0, Write_buf, Imm 0x2000, Imm 0x1e1e0000], Count,
    Syscall NR_pwrite64 [Reg 0, Write_buf, Imm 0x400, Imm 0x1e1e0200], Count,
    Syscall NR_pwrite64 [Reg 0, Write_buf, Imm 0x200, Imm 0x1e1e0600], Count,
    Syscall NR_pwrite64 [Reg 0, Write_buf, Imm 0x200, Imm 0x1e1e0800], Count,
    Syscall NR_pwrite64 [Reg 0, Write_buf, Imm 0x400, Imm 0x1e1e0800], Count,
    Syscall NR_pwrite64 [Reg 0, Write_buf, Imm 0x400, Imm 0x1e1e0c00], Count]"

definition min_mysql_pwrite64_openat_0_0_body228 :: "stmt list" where
  "min_mysql_pwrite64_openat_0_0_body228 = [
    Syscall NR_pwrite64 [Reg 0, Write_buf, Imm 0x200, Imm 0x1e1e1000], Count,
    Syscall NR_pwrite64 [Reg 0, Write_buf, Imm 0x200, Imm 0x1e1e1000], Count,
    Syscall NR_pwrite64 [Reg 0, Write_buf, Imm 0x200, Imm 0x1e1e1000], Count,
    Syscall NR_pwrite64 [Reg 0, Write_buf, Imm 0x200, Imm 0x1e1e1200], Count,
    Syscall NR_pwrite64 [Reg 0, Write_buf, Imm 0x800, Imm 0x1e1e1200], Count,
    Syscall NR_pwrite64 [Reg 0, Write_buf, Imm 0x200, Imm 0x1e1e1a00], Count,
    Syscall NR_pwrite64 [Reg 0, Write_buf, Imm 0x200, Imm 0x1e1e1a00], Count,
    Syscall NR_pwrite64 [Reg 0, Write_buf, Imm 0x200, Imm 0x1e1e1a00], Count,
    Syscall NR_pwrite64 [Reg 0, Write_buf, Imm 0x200, Imm 0x1e1e1c00], Count,
    Syscall NR_pwrite64 [Reg 0, Write_buf, Imm 0x200, Imm 0x1e1e1c00], Count,
    Syscall NR_pwrite64 [Reg 0, Write_buf, Imm 0x400, Imm 0x1e1e1c00], Count,
    Syscall NR_pwrite64 [Reg 0, Write_buf, Imm 0x2000, Imm 0x1e1e2000], Count,
    Syscall NR_pwrite64 [Reg 0, Write_buf, Imm 0x200, Imm 0x1e1e2400], Count]"

definition min_mysql_pwrite64_openat_0_0_body229 :: "stmt list" where
  "min_mysql_pwrite64_openat_0_0_body229 = [
    Syscall NR_pwrite64 [Reg 0, Write_buf, Imm 0x200, Imm 0x1e1e2600], Count,
    Syscall NR_pwrite64 [Reg 0, Write_buf, Imm 0x200, Imm 0x1e1e2600], Count,
    Syscall NR_pwrite64 [Reg 0, Write_buf, Imm 0x200, Imm 0x1e1e2600], Count,
    Syscall NR_pwrite64 [Reg 0, Write_buf, Imm 0x200, Imm 0x1e1e2800], Count,
    Syscall NR_pwrite64 [Reg 0, Write_buf, Imm 0x200, Imm 0x1e1e2800], Count,
    Syscall NR_pwrite64 [Reg 0, Write_buf, Imm 0x600, Imm 0x1e1e2800], Count,
    Syscall NR_pwrite64 [Reg 0, Write_buf, Imm 0x400, Imm 0x1e1e2e00], Count,
    Syscall NR_pwrite64 [Reg 0, Write_buf, Imm 0x200, Imm 0x1e1e3200], Count,
    Syscall NR_pwrite64 [Reg 0, Write_buf, Imm 0x200, Imm 0x1e1e3400], Count,
    Syscall NR_pwrite64 [Reg 0, Write_buf, Imm 0x400, Imm 0x1e1e3400], Count,
    Syscall NR_pwrite64 [Reg 0, Write_buf, Imm 0x200, Imm 0x1e1e3800], Count,
    Syscall NR_pwrite64 [Reg 0, Write_buf, Imm 0x200, Imm 0x1e1e3a00], Count,
    Syscall NR_pwrite64 [Reg 0, Write_buf, Imm 0x400, Imm 0x1e1e3c00], Count]"

definition min_mysql_pwrite64_openat_0_0_body230 :: "stmt list" where
  "min_mysql_pwrite64_openat_0_0_body230 = [
    Syscall NR_pwrite64 [Reg 0, Write_buf, Imm 0x2000, Imm 0x1e1e4000], Count,
    Syscall NR_pwrite64 [Reg 0, Write_buf, Imm 0x600, Imm 0x1e1e4800], Count,
    Syscall NR_pwrite64 [Reg 0, Write_buf, Imm 0xa00, Imm 0x1e1e4e00], Count,
    Syscall NR_pwrite64 [Reg 0, Write_buf, Imm 0x600, Imm 0x1e1e5800], Count,
    Syscall NR_pwrite64 [Reg 0, Write_buf, Imm 0x200, Imm 0x1e1e5e00], Count,
    Syscall NR_pwrite64 [Reg 0, Write_buf, Imm 0x2000, Imm 0x1e1e6000], Count,
    Syscall NR_pwrite64 [Reg 0, Write_buf, Imm 0x200, Imm 0x1e1e6200], Count,
    Syscall NR_pwrite64 [Reg 0, Write_buf, Imm 0x200, Imm 0x1e1e6200], Count,
    Syscall NR_pwrite64 [Reg 0, Write_buf, Imm 0x200, Imm 0x1e1e6400], Count,
    Syscall NR_pwrite64 [Reg 0, Write_buf, Imm 0x200, Imm 0x1e1e6400], Count,
    Syscall NR_pwrite64 [Reg 0, Write_buf, Imm 0x200, Imm 0x1e1e6600], Count,
    Syscall NR_pwrite64 [Reg 0, Write_buf, Imm 0x200, Imm 0x1e1e6800], Count,
    Syscall NR_pwrite64 [Reg 0, Write_buf, Imm 0x200, Imm 0x1e1e6a00], Count]"

definition min_mysql_pwrite64_openat_0_0_body231 :: "stmt list" where
  "min_mysql_pwrite64_openat_0_0_body231 = [
    Syscall NR_pwrite64 [Reg 0, Write_buf, Imm 0x200, Imm 0x1e1e6c00], Count,
    Syscall NR_pwrite64 [Reg 0, Write_buf, Imm 0x200, Imm 0x1e1e6c00], Count,
    Syscall NR_pwrite64 [Reg 0, Write_buf, Imm 0x200, Imm 0x1e1e6e00], Count,
    Syscall NR_pwrite64 [Reg 0, Write_buf, Imm 0x400, Imm 0x1e1e6e00], Count,
    Syscall NR_pwrite64 [Reg 0, Write_buf, Imm 0x600, Imm 0x1e1e7200], Count,
    Syscall NR_pwrite64 [Reg 0, Write_buf, Imm 0x200, Imm 0x1e1e7800], Count,
    Syscall NR_pwrite64 [Reg 0, Write_buf, Imm 0x200, Imm 0x1e1e7800], Count,
    Syscall NR_pwrite64 [Reg 0, Write_buf, Imm 0x200, Imm 0x1e1e7a00], Count,
    Syscall NR_pwrite64 [Reg 0, Write_buf, Imm 0x200, Imm 0x1e1e7c00], Count,
    Syscall NR_pwrite64 [Reg 0, Write_buf, Imm 0x200, Imm 0x1e1e7c00], Count,
    Syscall NR_pwrite64 [Reg 0, Write_buf, Imm 0x200, Imm 0x1e1e7e00], Count,
    Syscall NR_pwrite64 [Reg 0, Write_buf, Imm 0x200, Imm 0x1e1e7e00], Count,
    Syscall NR_pwrite64 [Reg 0, Write_buf, Imm 0x2000, Imm 0x1e1e8000], Count]"

definition min_mysql_pwrite64_openat_0_0_body232 :: "stmt list" where
  "min_mysql_pwrite64_openat_0_0_body232 = [
    Syscall NR_pwrite64 [Reg 0, Write_buf, Imm 0x800, Imm 0x1e1e8400], Count,
    Syscall NR_pwrite64 [Reg 0, Write_buf, Imm 0xa00, Imm 0x1e1e8c00], Count,
    Syscall NR_pwrite64 [Reg 0, Write_buf, Imm 0xa00, Imm 0x1e1e9600], Count,
    Syscall NR_pwrite64 [Reg 0, Write_buf, Imm 0x2000, Imm 0x1e1ea000], Count,
    Syscall NR_pwrite64 [Reg 0, Write_buf, Imm 0x600, Imm 0x1e1eb200], Count,
    Syscall NR_pwrite64 [Reg 0, Write_buf, Imm 0x200, Imm 0x1e1eb800], Count,
    Syscall NR_pwrite64 [Reg 0, Write_buf, Imm 0x200, Imm 0x1e1eba00], Count,
    Syscall NR_pwrite64 [Reg 0, Write_buf, Imm 0x200, Imm 0x1e1eba00], Count,
    Syscall NR_pwrite64 [Reg 0, Write_buf, Imm 0x200, Imm 0x1e1eba00], Count,
    Syscall NR_pwrite64 [Reg 0, Write_buf, Imm 0x200, Imm 0x1e1ebc00], Count,
    Syscall NR_pwrite64 [Reg 0, Write_buf, Imm 0x400, Imm 0x1e1ebc00], Count,
    Syscall NR_pwrite64 [Reg 0, Write_buf, Imm 0x2000, Imm 0x1e1ec000], Count,
    Syscall NR_pwrite64 [Reg 0, Write_buf, Imm 0x200, Imm 0x1e1ec600], Count]"

definition min_mysql_pwrite64_openat_0_0_body233 :: "stmt list" where
  "min_mysql_pwrite64_openat_0_0_body233 = [
    Syscall NR_pwrite64 [Reg 0, Write_buf, Imm 0x200, Imm 0x1e1ec800], Count,
    Syscall NR_pwrite64 [Reg 0, Write_buf, Imm 0x200, Imm 0x1e1ec800], Count,
    Syscall NR_pwrite64 [Reg 0, Write_buf, Imm 0x200, Imm 0x1e1eca00], Count,
    Syscall NR_pwrite64 [Reg 0, Write_buf, Imm 0x200, Imm 0x1e1eca00], Count,
    Syscall NR_pwrite64 [Reg 0, Write_buf, Imm 0x200, Imm 0x1e1ecc00], Count,
    Syscall NR_pwrite64 [Reg 0, Write_buf, Imm 0x200, Imm 0x1e1ece00], Count,
    Syscall NR_pwrite64 [Reg 0, Write_buf, Imm 0x200, Imm 0x1e1ece00], Count,
    Syscall NR_pwrite64 [Reg 0, Write_buf, Imm 0x200, Imm 0x1e1ece00], Count,
    Syscall NR_pwrite64 [Reg 0, Write_buf, Imm 0x200, Imm 0x1e1ed000], Count,
    Syscall NR_pwrite64 [Reg 0, Write_buf, Imm 0x400, Imm 0x1e1ed000], Count,
    Syscall NR_pwrite64 [Reg 0, Write_buf, Imm 0x200, Imm 0x1e1ed400], Count,
    Syscall NR_pwrite64 [Reg 0, Write_buf, Imm 0x400, Imm 0x1e1ed600], Count,
    Syscall NR_pwrite64 [Reg 0, Write_buf, Imm 0x200, Imm 0x1e1eda00], Count]"

definition min_mysql_pwrite64_openat_0_0_body234 :: "stmt list" where
  "min_mysql_pwrite64_openat_0_0_body234 = [
    Syscall NR_pwrite64 [Reg 0, Write_buf, Imm 0x400, Imm 0x1e1eda00], Count,
    Syscall NR_pwrite64 [Reg 0, Write_buf, Imm 0x200, Imm 0x1e1ede00], Count,
    Syscall NR_pwrite64 [Reg 0, Write_buf, Imm 0x2000, Imm 0x1e1ee000], Count,
    Syscall NR_pwrite64 [Reg 0, Write_buf, Imm 0x200, Imm 0x1e1ee200], Count,
    Syscall NR_pwrite64 [Reg 0, Write_buf, Imm 0x400, Imm 0x1e1ee400], Count,
    Syscall NR_pwrite64 [Reg 0, Write_buf, Imm 0x400, Imm 0x1e1ee800], Count,
    Syscall NR_pwrite64 [Reg 0, Write_buf, Imm 0x200, Imm 0x1e1eec00], Count,
    Syscall NR_pwrite64 [Reg 0, Write_buf, Imm 0x200, Imm 0x1e1eee00], Count,
    Syscall NR_pwrite64 [Reg 0, Write_buf, Imm 0x200, Imm 0x1e1eee00], Count,
    Syscall NR_pwrite64 [Reg 0, Write_buf, Imm 0x200, Imm 0x1e1ef000], Count,
    Syscall NR_pwrite64 [Reg 0, Write_buf, Imm 0x200, Imm 0x1e1ef000], Count,
    Syscall NR_pwrite64 [Reg 0, Write_buf, Imm 0x200, Imm 0x1e1ef200], Count,
    Syscall NR_pwrite64 [Reg 0, Write_buf, Imm 0x200, Imm 0x1e1ef200], Count]"

definition min_mysql_pwrite64_openat_0_0_body235 :: "stmt list" where
  "min_mysql_pwrite64_openat_0_0_body235 = [
    Syscall NR_pwrite64 [Reg 0, Write_buf, Imm 0x200, Imm 0x1e1ef400], Count,
    Syscall NR_pwrite64 [Reg 0, Write_buf, Imm 0x200, Imm 0x1e1ef600], Count,
    Syscall NR_pwrite64 [Reg 0, Write_buf, Imm 0x200, Imm 0x1e1ef600], Count,
    Syscall NR_pwrite64 [Reg 0, Write_buf, Imm 0x200, Imm 0x1e1ef800], Count,
    Syscall NR_pwrite64 [Reg 0, Write_buf, Imm 0x200, Imm 0x1e1ef800], Count,
    Syscall NR_pwrite64 [Reg 0, Write_buf, Imm 0x200, Imm 0x1e1efa00], Count,
    Syscall NR_pwrite64 [Reg 0, Write_buf, Imm 0x200, Imm 0x1e1efa00], Count,
    Syscall NR_pwrite64 [Reg 0, Write_buf, Imm 0x200, Imm 0x1e1efa00], Count,
    Syscall NR_pwrite64 [Reg 0, Write_buf, Imm 0x200, Imm 0x1e1efa00], Count,
    Syscall NR_pwrite64 [Reg 0, Write_buf, Imm 0x200, Imm 0x1e1efc00], Count,
    Syscall NR_pwrite64 [Reg 0, Write_buf, Imm 0x400, Imm 0x1e1efc00], Count,
    Syscall NR_pwrite64 [Reg 0, Write_buf, Imm 0x2000, Imm 0x1e1f0000], Count,
    Syscall NR_pwrite64 [Reg 0, Write_buf, Imm 0x200, Imm 0x1e1f0600], Count]"

definition min_mysql_pwrite64_openat_0_0_body236 :: "stmt list" where
  "min_mysql_pwrite64_openat_0_0_body236 = [
    Syscall NR_pwrite64 [Reg 0, Write_buf, Imm 0x200, Imm 0x1e1f0800], Count,
    Syscall NR_pwrite64 [Reg 0, Write_buf, Imm 0x200, Imm 0x1e1f0800], Count,
    Syscall NR_pwrite64 [Reg 0, Write_buf, Imm 0x200, Imm 0x1e1f0800], Count,
    Syscall NR_pwrite64 [Reg 0, Write_buf, Imm 0x200, Imm 0x1e1f0a00], Count,
    Syscall NR_pwrite64 [Reg 0, Write_buf, Imm 0x200, Imm 0x1e1f0a00], Count,
    Syscall NR_pwrite64 [Reg 0, Write_buf, Imm 0x200, Imm 0x1e1f0c00], Count,
    Syscall NR_pwrite64 [Reg 0, Write_buf, Imm 0x200, Imm 0x1e1f0e00], Count,
    Syscall NR_pwrite64 [Reg 0, Write_buf, Imm 0x200, Imm 0x1e1f0e00], Count,
    Syscall NR_pwrite64 [Reg 0, Write_buf, Imm 0x200, Imm 0x1e1f0e00], Count,
    Syscall NR_pwrite64 [Reg 0, Write_buf, Imm 0x200, Imm 0x1e1f1000], Count,
    Syscall NR_pwrite64 [Reg 0, Write_buf, Imm 0x200, Imm 0x1e1f1000], Count,
    Syscall NR_pwrite64 [Reg 0, Write_buf, Imm 0x200, Imm 0x1e1f1000], Count,
    Syscall NR_pwrite64 [Reg 0, Write_buf, Imm 0x200, Imm 0x1e1f1200], Count]"

definition min_mysql_pwrite64_openat_0_0_body237 :: "stmt list" where
  "min_mysql_pwrite64_openat_0_0_body237 = [
    Syscall NR_pwrite64 [Reg 0, Write_buf, Imm 0x200, Imm 0x1e1f1200], Count,
    Syscall NR_pwrite64 [Reg 0, Write_buf, Imm 0x200, Imm 0x1e1f1400], Count,
    Syscall NR_pwrite64 [Reg 0, Write_buf, Imm 0x200, Imm 0x1e1f1600], Count,
    Syscall NR_pwrite64 [Reg 0, Write_buf, Imm 0x200, Imm 0x1e1f1600], Count,
    Syscall NR_pwrite64 [Reg 0, Write_buf, Imm 0x200, Imm 0x1e1f1800], Count,
    Syscall NR_pwrite64 [Reg 0, Write_buf, Imm 0x200, Imm 0x1e1f1a00], Count,
    Syscall NR_pwrite64 [Reg 0, Write_buf, Imm 0x400, Imm 0x1e1f1a00], Count,
    Syscall NR_pwrite64 [Reg 0, Write_buf, Imm 0x200, Imm 0x1e1f1e00], Count,
    Syscall NR_pwrite64 [Reg 0, Write_buf, Imm 0x2000, Imm 0x1e1f2000], Count,
    Syscall NR_pwrite64 [Reg 0, Write_buf, Imm 0xc00, Imm 0x1e1f2200], Count,
    Syscall NR_pwrite64 [Reg 0, Write_buf, Imm 0x1200, Imm 0x1e1f2e00], Count,
    Syscall NR_pwrite64 [Reg 0, Write_buf, Imm 0x2000, Imm 0x1e1f4000], Count,
    Syscall NR_pwrite64 [Reg 0, Write_buf, Imm 0x600, Imm 0x1e1f4400], Count]"

definition min_mysql_pwrite64_openat_0_0_body238 :: "stmt list" where
  "min_mysql_pwrite64_openat_0_0_body238 = [
    Syscall NR_pwrite64 [Reg 0, Write_buf, Imm 0x400, Imm 0x1e1f4a00], Count,
    Syscall NR_pwrite64 [Reg 0, Write_buf, Imm 0x200, Imm 0x1e1f4e00], Count,
    Syscall NR_pwrite64 [Reg 0, Write_buf, Imm 0x200, Imm 0x1e1f5000], Count,
    Syscall NR_pwrite64 [Reg 0, Write_buf, Imm 0x200, Imm 0x1e1f5200], Count,
    Syscall NR_pwrite64 [Reg 0, Write_buf, Imm 0x200, Imm 0x1e1f5400], Count,
    Syscall NR_pwrite64 [Reg 0, Write_buf, Imm 0x200, Imm 0x1e1f5400], Count,
    Syscall NR_pwrite64 [Reg 0, Write_buf, Imm 0x200, Imm 0x1e1f5400], Count,
    Syscall NR_pwrite64 [Reg 0, Write_buf, Imm 0x200, Imm 0x1e1f5600], Count,
    Syscall NR_pwrite64 [Reg 0, Write_buf, Imm 0x200, Imm 0x1e1f5800], Count,
    Syscall NR_pwrite64 [Reg 0, Write_buf, Imm 0x200, Imm 0x1e1f5a00], Count,
    Syscall NR_pwrite64 [Reg 0, Write_buf, Imm 0x200, Imm 0x1e1f5c00], Count,
    Syscall NR_pwrite64 [Reg 0, Write_buf, Imm 0x200, Imm 0x1e1f5c00], Count,
    Syscall NR_pwrite64 [Reg 0, Write_buf, Imm 0x200, Imm 0x1e1f5c00], Count]"

definition min_mysql_pwrite64_openat_0_0_body239 :: "stmt list" where
  "min_mysql_pwrite64_openat_0_0_body239 = [
    Syscall NR_pwrite64 [Reg 0, Write_buf, Imm 0x200, Imm 0x1e1f5e00], Count,
    Syscall NR_pwrite64 [Reg 0, Write_buf, Imm 0x200, Imm 0x1e1f5e00], Count,
    Syscall NR_pwrite64 [Reg 0, Write_buf, Imm 0x2000, Imm 0x1e1f6000], Count,
    Syscall NR_pwrite64 [Reg 0, Write_buf, Imm 0x200, Imm 0x1e1f6000], Count,
    Syscall NR_pwrite64 [Reg 0, Write_buf, Imm 0x200, Imm 0x1e1f6200], Count,
    Syscall NR_pwrite64 [Reg 0, Write_buf, Imm 0x200, Imm 0x1e1f6200], Count,
    Syscall NR_pwrite64 [Reg 0, Write_buf, Imm 0x200, Imm 0x1e1f6200], Count,
    Syscall NR_pwrite64 [Reg 0, Write_buf, Imm 0x200, Imm 0x1e1f6400], Count,
    Syscall NR_pwrite64 [Reg 0, Write_buf, Imm 0x400, Imm 0x1e1f6400], Count,
    Syscall NR_pwrite64 [Reg 0, Write_buf, Imm 0x400, Imm 0x1e1f6800], Count,
    Syscall NR_pwrite64 [Reg 0, Write_buf, Imm 0x200, Imm 0x1e1f6c00], Count,
    Syscall NR_pwrite64 [Reg 0, Write_buf, Imm 0x400, Imm 0x1e1f6c00], Count,
    Syscall NR_pwrite64 [Reg 0, Write_buf, Imm 0x400, Imm 0x1e1f7000], Count]"

definition min_mysql_pwrite64_openat_0_0_body240 :: "stmt list" where
  "min_mysql_pwrite64_openat_0_0_body240 = [
    Syscall NR_pwrite64 [Reg 0, Write_buf, Imm 0x200, Imm 0x1e1f7400], Count,
    Syscall NR_pwrite64 [Reg 0, Write_buf, Imm 0x200, Imm 0x1e1f7600], Count,
    Syscall NR_pwrite64 [Reg 0, Write_buf, Imm 0x200, Imm 0x1e1f7600], Count,
    Syscall NR_pwrite64 [Reg 0, Write_buf, Imm 0x800, Imm 0x1e1f7600], Count,
    Syscall NR_pwrite64 [Reg 0, Write_buf, Imm 0x200, Imm 0x1e1f7e00], Count,
    Syscall NR_pwrite64 [Reg 0, Write_buf, Imm 0x2000, Imm 0x1e1f8000], Count,
    Syscall NR_pwrite64 [Reg 0, Write_buf, Imm 0xa00, Imm 0x1e1f8a00], Count,
    Syscall NR_pwrite64 [Reg 0, Write_buf, Imm 0x200, Imm 0x1e1f9400], Count,
    Syscall NR_pwrite64 [Reg 0, Write_buf, Imm 0x200, Imm 0x1e1f9400], Count,
    Syscall NR_pwrite64 [Reg 0, Write_buf, Imm 0x200, Imm 0x1e1f9600], Count,
    Syscall NR_pwrite64 [Reg 0, Write_buf, Imm 0x200, Imm 0x1e1f9800], Count,
    Syscall NR_pwrite64 [Reg 0, Write_buf, Imm 0x400, Imm 0x1e1f9a00], Count,
    Syscall NR_pwrite64 [Reg 0, Write_buf, Imm 0x200, Imm 0x1e1f9e00], Count]"

lemma min_mysql_pwrite64_openat_0_0_body121_ok: "body_ok (Suc 0) 8192 min_mysql_pwrite64_openat_0_0_body121" "counted min_mysql_pwrite64_openat_0_0_body121" "calls min_mysql_pwrite64_openat_0_0_body121 = 13" "opened_in m min_mysql_pwrite64_openat_0_0_body121 = []"
  by (simp_all add: min_mysql_pwrite64_openat_0_0_body121_def prog_checks open_checks)

lemma min_mysql_pwrite64_openat_0_0_body122_ok: "body_ok (Suc 0) 8192 min_mysql_pwrite64_openat_0_0_body122" "counted min_mysql_pwrite64_openat_0_0_body122" "calls min_mysql_pwrite64_openat_0_0_body122 = 13" "opened_in m min_mysql_pwrite64_openat_0_0_body122 = []"
  by (simp_all add: min_mysql_pwrite64_openat_0_0_body122_def prog_checks open_checks)

lemma min_mysql_pwrite64_openat_0_0_body123_ok: "body_ok (Suc 0) 8192 min_mysql_pwrite64_openat_0_0_body123" "counted min_mysql_pwrite64_openat_0_0_body123" "calls min_mysql_pwrite64_openat_0_0_body123 = 13" "opened_in m min_mysql_pwrite64_openat_0_0_body123 = []"
  by (simp_all add: min_mysql_pwrite64_openat_0_0_body123_def prog_checks open_checks)

lemma min_mysql_pwrite64_openat_0_0_body124_ok: "body_ok (Suc 0) 8192 min_mysql_pwrite64_openat_0_0_body124" "counted min_mysql_pwrite64_openat_0_0_body124" "calls min_mysql_pwrite64_openat_0_0_body124 = 13" "opened_in m min_mysql_pwrite64_openat_0_0_body124 = []"
  by (simp_all add: min_mysql_pwrite64_openat_0_0_body124_def prog_checks open_checks)

lemma min_mysql_pwrite64_openat_0_0_body125_ok: "body_ok (Suc 0) 8192 min_mysql_pwrite64_openat_0_0_body125" "counted min_mysql_pwrite64_openat_0_0_body125" "calls min_mysql_pwrite64_openat_0_0_body125 = 13" "opened_in m min_mysql_pwrite64_openat_0_0_body125 = []"
  by (simp_all add: min_mysql_pwrite64_openat_0_0_body125_def prog_checks open_checks)

lemma min_mysql_pwrite64_openat_0_0_body126_ok: "body_ok (Suc 0) 8192 min_mysql_pwrite64_openat_0_0_body126" "counted min_mysql_pwrite64_openat_0_0_body126" "calls min_mysql_pwrite64_openat_0_0_body126 = 13" "opened_in m min_mysql_pwrite64_openat_0_0_body126 = []"
  by (simp_all add: min_mysql_pwrite64_openat_0_0_body126_def prog_checks open_checks)

lemma min_mysql_pwrite64_openat_0_0_body127_ok: "body_ok (Suc 0) 8192 min_mysql_pwrite64_openat_0_0_body127" "counted min_mysql_pwrite64_openat_0_0_body127" "calls min_mysql_pwrite64_openat_0_0_body127 = 13" "opened_in m min_mysql_pwrite64_openat_0_0_body127 = []"
  by (simp_all add: min_mysql_pwrite64_openat_0_0_body127_def prog_checks open_checks)

lemma min_mysql_pwrite64_openat_0_0_body128_ok: "body_ok (Suc 0) 8192 min_mysql_pwrite64_openat_0_0_body128" "counted min_mysql_pwrite64_openat_0_0_body128" "calls min_mysql_pwrite64_openat_0_0_body128 = 13" "opened_in m min_mysql_pwrite64_openat_0_0_body128 = []"
  by (simp_all add: min_mysql_pwrite64_openat_0_0_body128_def prog_checks open_checks)

lemma min_mysql_pwrite64_openat_0_0_body129_ok: "body_ok (Suc 0) 8192 min_mysql_pwrite64_openat_0_0_body129" "counted min_mysql_pwrite64_openat_0_0_body129" "calls min_mysql_pwrite64_openat_0_0_body129 = 13" "opened_in m min_mysql_pwrite64_openat_0_0_body129 = []"
  by (simp_all add: min_mysql_pwrite64_openat_0_0_body129_def prog_checks open_checks)

lemma min_mysql_pwrite64_openat_0_0_body130_ok: "body_ok (Suc 0) 8192 min_mysql_pwrite64_openat_0_0_body130" "counted min_mysql_pwrite64_openat_0_0_body130" "calls min_mysql_pwrite64_openat_0_0_body130 = 13" "opened_in m min_mysql_pwrite64_openat_0_0_body130 = []"
  by (simp_all add: min_mysql_pwrite64_openat_0_0_body130_def prog_checks open_checks)

lemma min_mysql_pwrite64_openat_0_0_body131_ok: "body_ok (Suc 0) 8192 min_mysql_pwrite64_openat_0_0_body131" "counted min_mysql_pwrite64_openat_0_0_body131" "calls min_mysql_pwrite64_openat_0_0_body131 = 13" "opened_in m min_mysql_pwrite64_openat_0_0_body131 = []"
  by (simp_all add: min_mysql_pwrite64_openat_0_0_body131_def prog_checks open_checks)

lemma min_mysql_pwrite64_openat_0_0_body132_ok: "body_ok (Suc 0) 8192 min_mysql_pwrite64_openat_0_0_body132" "counted min_mysql_pwrite64_openat_0_0_body132" "calls min_mysql_pwrite64_openat_0_0_body132 = 13" "opened_in m min_mysql_pwrite64_openat_0_0_body132 = []"
  by (simp_all add: min_mysql_pwrite64_openat_0_0_body132_def prog_checks open_checks)

lemma min_mysql_pwrite64_openat_0_0_body133_ok: "body_ok (Suc 0) 8192 min_mysql_pwrite64_openat_0_0_body133" "counted min_mysql_pwrite64_openat_0_0_body133" "calls min_mysql_pwrite64_openat_0_0_body133 = 13" "opened_in m min_mysql_pwrite64_openat_0_0_body133 = []"
  by (simp_all add: min_mysql_pwrite64_openat_0_0_body133_def prog_checks open_checks)

lemma min_mysql_pwrite64_openat_0_0_body134_ok: "body_ok (Suc 0) 8192 min_mysql_pwrite64_openat_0_0_body134" "counted min_mysql_pwrite64_openat_0_0_body134" "calls min_mysql_pwrite64_openat_0_0_body134 = 13" "opened_in m min_mysql_pwrite64_openat_0_0_body134 = []"
  by (simp_all add: min_mysql_pwrite64_openat_0_0_body134_def prog_checks open_checks)

lemma min_mysql_pwrite64_openat_0_0_body135_ok: "body_ok (Suc 0) 8192 min_mysql_pwrite64_openat_0_0_body135" "counted min_mysql_pwrite64_openat_0_0_body135" "calls min_mysql_pwrite64_openat_0_0_body135 = 13" "opened_in m min_mysql_pwrite64_openat_0_0_body135 = []"
  by (simp_all add: min_mysql_pwrite64_openat_0_0_body135_def prog_checks open_checks)

lemma min_mysql_pwrite64_openat_0_0_body136_ok: "body_ok (Suc 0) 8192 min_mysql_pwrite64_openat_0_0_body136" "counted min_mysql_pwrite64_openat_0_0_body136" "calls min_mysql_pwrite64_openat_0_0_body136 = 13" "opened_in m min_mysql_pwrite64_openat_0_0_body136 = []"
  by (simp_all add: min_mysql_pwrite64_openat_0_0_body136_def prog_checks open_checks)

lemma min_mysql_pwrite64_openat_0_0_body137_ok: "body_ok (Suc 0) 8192 min_mysql_pwrite64_openat_0_0_body137" "counted min_mysql_pwrite64_openat_0_0_body137" "calls min_mysql_pwrite64_openat_0_0_body137 = 13" "opened_in m min_mysql_pwrite64_openat_0_0_body137 = []"
  by (simp_all add: min_mysql_pwrite64_openat_0_0_body137_def prog_checks open_checks)

lemma min_mysql_pwrite64_openat_0_0_body138_ok: "body_ok (Suc 0) 8192 min_mysql_pwrite64_openat_0_0_body138" "counted min_mysql_pwrite64_openat_0_0_body138" "calls min_mysql_pwrite64_openat_0_0_body138 = 13" "opened_in m min_mysql_pwrite64_openat_0_0_body138 = []"
  by (simp_all add: min_mysql_pwrite64_openat_0_0_body138_def prog_checks open_checks)

lemma min_mysql_pwrite64_openat_0_0_body139_ok: "body_ok (Suc 0) 8192 min_mysql_pwrite64_openat_0_0_body139" "counted min_mysql_pwrite64_openat_0_0_body139" "calls min_mysql_pwrite64_openat_0_0_body139 = 13" "opened_in m min_mysql_pwrite64_openat_0_0_body139 = []"
  by (simp_all add: min_mysql_pwrite64_openat_0_0_body139_def prog_checks open_checks)

lemma min_mysql_pwrite64_openat_0_0_body140_ok: "body_ok (Suc 0) 8192 min_mysql_pwrite64_openat_0_0_body140" "counted min_mysql_pwrite64_openat_0_0_body140" "calls min_mysql_pwrite64_openat_0_0_body140 = 13" "opened_in m min_mysql_pwrite64_openat_0_0_body140 = []"
  by (simp_all add: min_mysql_pwrite64_openat_0_0_body140_def prog_checks open_checks)

lemma min_mysql_pwrite64_openat_0_0_body141_ok: "body_ok (Suc 0) 8192 min_mysql_pwrite64_openat_0_0_body141" "counted min_mysql_pwrite64_openat_0_0_body141" "calls min_mysql_pwrite64_openat_0_0_body141 = 13" "opened_in m min_mysql_pwrite64_openat_0_0_body141 = []"
  by (simp_all add: min_mysql_pwrite64_openat_0_0_body141_def prog_checks open_checks)

lemma min_mysql_pwrite64_openat_0_0_body142_ok: "body_ok (Suc 0) 8192 min_mysql_pwrite64_openat_0_0_body142" "counted min_mysql_pwrite64_openat_0_0_body142" "calls min_mysql_pwrite64_openat_0_0_body142 = 13" "opened_in m min_mysql_pwrite64_openat_0_0_body142 = []"
  by (simp_all add: min_mysql_pwrite64_openat_0_0_body142_def prog_checks open_checks)

lemma min_mysql_pwrite64_openat_0_0_body143_ok: "body_ok (Suc 0) 8192 min_mysql_pwrite64_openat_0_0_body143" "counted min_mysql_pwrite64_openat_0_0_body143" "calls min_mysql_pwrite64_openat_0_0_body143 = 13" "opened_in m min_mysql_pwrite64_openat_0_0_body143 = []"
  by (simp_all add: min_mysql_pwrite64_openat_0_0_body143_def prog_checks open_checks)

lemma min_mysql_pwrite64_openat_0_0_body144_ok: "body_ok (Suc 0) 8192 min_mysql_pwrite64_openat_0_0_body144" "counted min_mysql_pwrite64_openat_0_0_body144" "calls min_mysql_pwrite64_openat_0_0_body144 = 13" "opened_in m min_mysql_pwrite64_openat_0_0_body144 = []"
  by (simp_all add: min_mysql_pwrite64_openat_0_0_body144_def prog_checks open_checks)

lemma min_mysql_pwrite64_openat_0_0_body145_ok: "body_ok (Suc 0) 8192 min_mysql_pwrite64_openat_0_0_body145" "counted min_mysql_pwrite64_openat_0_0_body145" "calls min_mysql_pwrite64_openat_0_0_body145 = 13" "opened_in m min_mysql_pwrite64_openat_0_0_body145 = []"
  by (simp_all add: min_mysql_pwrite64_openat_0_0_body145_def prog_checks open_checks)

lemma min_mysql_pwrite64_openat_0_0_body146_ok: "body_ok (Suc 0) 8192 min_mysql_pwrite64_openat_0_0_body146" "counted min_mysql_pwrite64_openat_0_0_body146" "calls min_mysql_pwrite64_openat_0_0_body146 = 13" "opened_in m min_mysql_pwrite64_openat_0_0_body146 = []"
  by (simp_all add: min_mysql_pwrite64_openat_0_0_body146_def prog_checks open_checks)

lemma min_mysql_pwrite64_openat_0_0_body147_ok: "body_ok (Suc 0) 8192 min_mysql_pwrite64_openat_0_0_body147" "counted min_mysql_pwrite64_openat_0_0_body147" "calls min_mysql_pwrite64_openat_0_0_body147 = 13" "opened_in m min_mysql_pwrite64_openat_0_0_body147 = []"
  by (simp_all add: min_mysql_pwrite64_openat_0_0_body147_def prog_checks open_checks)

lemma min_mysql_pwrite64_openat_0_0_body148_ok: "body_ok (Suc 0) 8192 min_mysql_pwrite64_openat_0_0_body148" "counted min_mysql_pwrite64_openat_0_0_body148" "calls min_mysql_pwrite64_openat_0_0_body148 = 13" "opened_in m min_mysql_pwrite64_openat_0_0_body148 = []"
  by (simp_all add: min_mysql_pwrite64_openat_0_0_body148_def prog_checks open_checks)

lemma min_mysql_pwrite64_openat_0_0_body149_ok: "body_ok (Suc 0) 8192 min_mysql_pwrite64_openat_0_0_body149" "counted min_mysql_pwrite64_openat_0_0_body149" "calls min_mysql_pwrite64_openat_0_0_body149 = 13" "opened_in m min_mysql_pwrite64_openat_0_0_body149 = []"
  by (simp_all add: min_mysql_pwrite64_openat_0_0_body149_def prog_checks open_checks)

lemma min_mysql_pwrite64_openat_0_0_body150_ok: "body_ok (Suc 0) 8192 min_mysql_pwrite64_openat_0_0_body150" "counted min_mysql_pwrite64_openat_0_0_body150" "calls min_mysql_pwrite64_openat_0_0_body150 = 13" "opened_in m min_mysql_pwrite64_openat_0_0_body150 = []"
  by (simp_all add: min_mysql_pwrite64_openat_0_0_body150_def prog_checks open_checks)

lemma min_mysql_pwrite64_openat_0_0_body151_ok: "body_ok (Suc 0) 8192 min_mysql_pwrite64_openat_0_0_body151" "counted min_mysql_pwrite64_openat_0_0_body151" "calls min_mysql_pwrite64_openat_0_0_body151 = 13" "opened_in m min_mysql_pwrite64_openat_0_0_body151 = []"
  by (simp_all add: min_mysql_pwrite64_openat_0_0_body151_def prog_checks open_checks)

lemma min_mysql_pwrite64_openat_0_0_body152_ok: "body_ok (Suc 0) 8192 min_mysql_pwrite64_openat_0_0_body152" "counted min_mysql_pwrite64_openat_0_0_body152" "calls min_mysql_pwrite64_openat_0_0_body152 = 13" "opened_in m min_mysql_pwrite64_openat_0_0_body152 = []"
  by (simp_all add: min_mysql_pwrite64_openat_0_0_body152_def prog_checks open_checks)

lemma min_mysql_pwrite64_openat_0_0_body153_ok: "body_ok (Suc 0) 8192 min_mysql_pwrite64_openat_0_0_body153" "counted min_mysql_pwrite64_openat_0_0_body153" "calls min_mysql_pwrite64_openat_0_0_body153 = 13" "opened_in m min_mysql_pwrite64_openat_0_0_body153 = []"
  by (simp_all add: min_mysql_pwrite64_openat_0_0_body153_def prog_checks open_checks)

lemma min_mysql_pwrite64_openat_0_0_body154_ok: "body_ok (Suc 0) 8192 min_mysql_pwrite64_openat_0_0_body154" "counted min_mysql_pwrite64_openat_0_0_body154" "calls min_mysql_pwrite64_openat_0_0_body154 = 13" "opened_in m min_mysql_pwrite64_openat_0_0_body154 = []"
  by (simp_all add: min_mysql_pwrite64_openat_0_0_body154_def prog_checks open_checks)

lemma min_mysql_pwrite64_openat_0_0_body155_ok: "body_ok (Suc 0) 8192 min_mysql_pwrite64_openat_0_0_body155" "counted min_mysql_pwrite64_openat_0_0_body155" "calls min_mysql_pwrite64_openat_0_0_body155 = 13" "opened_in m min_mysql_pwrite64_openat_0_0_body155 = []"
  by (simp_all add: min_mysql_pwrite64_openat_0_0_body155_def prog_checks open_checks)

lemma min_mysql_pwrite64_openat_0_0_body156_ok: "body_ok (Suc 0) 8192 min_mysql_pwrite64_openat_0_0_body156" "counted min_mysql_pwrite64_openat_0_0_body156" "calls min_mysql_pwrite64_openat_0_0_body156 = 13" "opened_in m min_mysql_pwrite64_openat_0_0_body156 = []"
  by (simp_all add: min_mysql_pwrite64_openat_0_0_body156_def prog_checks open_checks)

lemma min_mysql_pwrite64_openat_0_0_body157_ok: "body_ok (Suc 0) 8192 min_mysql_pwrite64_openat_0_0_body157" "counted min_mysql_pwrite64_openat_0_0_body157" "calls min_mysql_pwrite64_openat_0_0_body157 = 13" "opened_in m min_mysql_pwrite64_openat_0_0_body157 = []"
  by (simp_all add: min_mysql_pwrite64_openat_0_0_body157_def prog_checks open_checks)

lemma min_mysql_pwrite64_openat_0_0_body158_ok: "body_ok (Suc 0) 8192 min_mysql_pwrite64_openat_0_0_body158" "counted min_mysql_pwrite64_openat_0_0_body158" "calls min_mysql_pwrite64_openat_0_0_body158 = 13" "opened_in m min_mysql_pwrite64_openat_0_0_body158 = []"
  by (simp_all add: min_mysql_pwrite64_openat_0_0_body158_def prog_checks open_checks)

lemma min_mysql_pwrite64_openat_0_0_body159_ok: "body_ok (Suc 0) 8192 min_mysql_pwrite64_openat_0_0_body159" "counted min_mysql_pwrite64_openat_0_0_body159" "calls min_mysql_pwrite64_openat_0_0_body159 = 13" "opened_in m min_mysql_pwrite64_openat_0_0_body159 = []"
  by (simp_all add: min_mysql_pwrite64_openat_0_0_body159_def prog_checks open_checks)

lemma min_mysql_pwrite64_openat_0_0_body160_ok: "body_ok (Suc 0) 8192 min_mysql_pwrite64_openat_0_0_body160" "counted min_mysql_pwrite64_openat_0_0_body160" "calls min_mysql_pwrite64_openat_0_0_body160 = 13" "opened_in m min_mysql_pwrite64_openat_0_0_body160 = []"
  by (simp_all add: min_mysql_pwrite64_openat_0_0_body160_def prog_checks open_checks)

lemma min_mysql_pwrite64_openat_0_0_body161_ok: "body_ok (Suc 0) 8192 min_mysql_pwrite64_openat_0_0_body161" "counted min_mysql_pwrite64_openat_0_0_body161" "calls min_mysql_pwrite64_openat_0_0_body161 = 13" "opened_in m min_mysql_pwrite64_openat_0_0_body161 = []"
  by (simp_all add: min_mysql_pwrite64_openat_0_0_body161_def prog_checks open_checks)

lemma min_mysql_pwrite64_openat_0_0_body162_ok: "body_ok (Suc 0) 8192 min_mysql_pwrite64_openat_0_0_body162" "counted min_mysql_pwrite64_openat_0_0_body162" "calls min_mysql_pwrite64_openat_0_0_body162 = 13" "opened_in m min_mysql_pwrite64_openat_0_0_body162 = []"
  by (simp_all add: min_mysql_pwrite64_openat_0_0_body162_def prog_checks open_checks)

lemma min_mysql_pwrite64_openat_0_0_body163_ok: "body_ok (Suc 0) 8192 min_mysql_pwrite64_openat_0_0_body163" "counted min_mysql_pwrite64_openat_0_0_body163" "calls min_mysql_pwrite64_openat_0_0_body163 = 13" "opened_in m min_mysql_pwrite64_openat_0_0_body163 = []"
  by (simp_all add: min_mysql_pwrite64_openat_0_0_body163_def prog_checks open_checks)

lemma min_mysql_pwrite64_openat_0_0_body164_ok: "body_ok (Suc 0) 8192 min_mysql_pwrite64_openat_0_0_body164" "counted min_mysql_pwrite64_openat_0_0_body164" "calls min_mysql_pwrite64_openat_0_0_body164 = 13" "opened_in m min_mysql_pwrite64_openat_0_0_body164 = []"
  by (simp_all add: min_mysql_pwrite64_openat_0_0_body164_def prog_checks open_checks)

lemma min_mysql_pwrite64_openat_0_0_body165_ok: "body_ok (Suc 0) 8192 min_mysql_pwrite64_openat_0_0_body165" "counted min_mysql_pwrite64_openat_0_0_body165" "calls min_mysql_pwrite64_openat_0_0_body165 = 13" "opened_in m min_mysql_pwrite64_openat_0_0_body165 = []"
  by (simp_all add: min_mysql_pwrite64_openat_0_0_body165_def prog_checks open_checks)

lemma min_mysql_pwrite64_openat_0_0_body166_ok: "body_ok (Suc 0) 8192 min_mysql_pwrite64_openat_0_0_body166" "counted min_mysql_pwrite64_openat_0_0_body166" "calls min_mysql_pwrite64_openat_0_0_body166 = 13" "opened_in m min_mysql_pwrite64_openat_0_0_body166 = []"
  by (simp_all add: min_mysql_pwrite64_openat_0_0_body166_def prog_checks open_checks)

lemma min_mysql_pwrite64_openat_0_0_body167_ok: "body_ok (Suc 0) 8192 min_mysql_pwrite64_openat_0_0_body167" "counted min_mysql_pwrite64_openat_0_0_body167" "calls min_mysql_pwrite64_openat_0_0_body167 = 13" "opened_in m min_mysql_pwrite64_openat_0_0_body167 = []"
  by (simp_all add: min_mysql_pwrite64_openat_0_0_body167_def prog_checks open_checks)

lemma min_mysql_pwrite64_openat_0_0_body168_ok: "body_ok (Suc 0) 8192 min_mysql_pwrite64_openat_0_0_body168" "counted min_mysql_pwrite64_openat_0_0_body168" "calls min_mysql_pwrite64_openat_0_0_body168 = 13" "opened_in m min_mysql_pwrite64_openat_0_0_body168 = []"
  by (simp_all add: min_mysql_pwrite64_openat_0_0_body168_def prog_checks open_checks)

lemma min_mysql_pwrite64_openat_0_0_body169_ok: "body_ok (Suc 0) 8192 min_mysql_pwrite64_openat_0_0_body169" "counted min_mysql_pwrite64_openat_0_0_body169" "calls min_mysql_pwrite64_openat_0_0_body169 = 13" "opened_in m min_mysql_pwrite64_openat_0_0_body169 = []"
  by (simp_all add: min_mysql_pwrite64_openat_0_0_body169_def prog_checks open_checks)

lemma min_mysql_pwrite64_openat_0_0_body170_ok: "body_ok (Suc 0) 8192 min_mysql_pwrite64_openat_0_0_body170" "counted min_mysql_pwrite64_openat_0_0_body170" "calls min_mysql_pwrite64_openat_0_0_body170 = 13" "opened_in m min_mysql_pwrite64_openat_0_0_body170 = []"
  by (simp_all add: min_mysql_pwrite64_openat_0_0_body170_def prog_checks open_checks)

lemma min_mysql_pwrite64_openat_0_0_body171_ok: "body_ok (Suc 0) 8192 min_mysql_pwrite64_openat_0_0_body171" "counted min_mysql_pwrite64_openat_0_0_body171" "calls min_mysql_pwrite64_openat_0_0_body171 = 13" "opened_in m min_mysql_pwrite64_openat_0_0_body171 = []"
  by (simp_all add: min_mysql_pwrite64_openat_0_0_body171_def prog_checks open_checks)

lemma min_mysql_pwrite64_openat_0_0_body172_ok: "body_ok (Suc 0) 8192 min_mysql_pwrite64_openat_0_0_body172" "counted min_mysql_pwrite64_openat_0_0_body172" "calls min_mysql_pwrite64_openat_0_0_body172 = 13" "opened_in m min_mysql_pwrite64_openat_0_0_body172 = []"
  by (simp_all add: min_mysql_pwrite64_openat_0_0_body172_def prog_checks open_checks)

lemma min_mysql_pwrite64_openat_0_0_body173_ok: "body_ok (Suc 0) 8192 min_mysql_pwrite64_openat_0_0_body173" "counted min_mysql_pwrite64_openat_0_0_body173" "calls min_mysql_pwrite64_openat_0_0_body173 = 13" "opened_in m min_mysql_pwrite64_openat_0_0_body173 = []"
  by (simp_all add: min_mysql_pwrite64_openat_0_0_body173_def prog_checks open_checks)

lemma min_mysql_pwrite64_openat_0_0_body174_ok: "body_ok (Suc 0) 8192 min_mysql_pwrite64_openat_0_0_body174" "counted min_mysql_pwrite64_openat_0_0_body174" "calls min_mysql_pwrite64_openat_0_0_body174 = 13" "opened_in m min_mysql_pwrite64_openat_0_0_body174 = []"
  by (simp_all add: min_mysql_pwrite64_openat_0_0_body174_def prog_checks open_checks)

lemma min_mysql_pwrite64_openat_0_0_body175_ok: "body_ok (Suc 0) 8192 min_mysql_pwrite64_openat_0_0_body175" "counted min_mysql_pwrite64_openat_0_0_body175" "calls min_mysql_pwrite64_openat_0_0_body175 = 13" "opened_in m min_mysql_pwrite64_openat_0_0_body175 = []"
  by (simp_all add: min_mysql_pwrite64_openat_0_0_body175_def prog_checks open_checks)

lemma min_mysql_pwrite64_openat_0_0_body176_ok: "body_ok (Suc 0) 8192 min_mysql_pwrite64_openat_0_0_body176" "counted min_mysql_pwrite64_openat_0_0_body176" "calls min_mysql_pwrite64_openat_0_0_body176 = 13" "opened_in m min_mysql_pwrite64_openat_0_0_body176 = []"
  by (simp_all add: min_mysql_pwrite64_openat_0_0_body176_def prog_checks open_checks)

lemma min_mysql_pwrite64_openat_0_0_body177_ok: "body_ok (Suc 0) 8192 min_mysql_pwrite64_openat_0_0_body177" "counted min_mysql_pwrite64_openat_0_0_body177" "calls min_mysql_pwrite64_openat_0_0_body177 = 13" "opened_in m min_mysql_pwrite64_openat_0_0_body177 = []"
  by (simp_all add: min_mysql_pwrite64_openat_0_0_body177_def prog_checks open_checks)

lemma min_mysql_pwrite64_openat_0_0_body178_ok: "body_ok (Suc 0) 8192 min_mysql_pwrite64_openat_0_0_body178" "counted min_mysql_pwrite64_openat_0_0_body178" "calls min_mysql_pwrite64_openat_0_0_body178 = 13" "opened_in m min_mysql_pwrite64_openat_0_0_body178 = []"
  by (simp_all add: min_mysql_pwrite64_openat_0_0_body178_def prog_checks open_checks)

lemma min_mysql_pwrite64_openat_0_0_body179_ok: "body_ok (Suc 0) 8192 min_mysql_pwrite64_openat_0_0_body179" "counted min_mysql_pwrite64_openat_0_0_body179" "calls min_mysql_pwrite64_openat_0_0_body179 = 13" "opened_in m min_mysql_pwrite64_openat_0_0_body179 = []"
  by (simp_all add: min_mysql_pwrite64_openat_0_0_body179_def prog_checks open_checks)

lemma min_mysql_pwrite64_openat_0_0_body180_ok: "body_ok (Suc 0) 8192 min_mysql_pwrite64_openat_0_0_body180" "counted min_mysql_pwrite64_openat_0_0_body180" "calls min_mysql_pwrite64_openat_0_0_body180 = 13" "opened_in m min_mysql_pwrite64_openat_0_0_body180 = []"
  by (simp_all add: min_mysql_pwrite64_openat_0_0_body180_def prog_checks open_checks)

lemma min_mysql_pwrite64_openat_0_0_body181_ok: "body_ok (Suc 0) 8192 min_mysql_pwrite64_openat_0_0_body181" "counted min_mysql_pwrite64_openat_0_0_body181" "calls min_mysql_pwrite64_openat_0_0_body181 = 13" "opened_in m min_mysql_pwrite64_openat_0_0_body181 = []"
  by (simp_all add: min_mysql_pwrite64_openat_0_0_body181_def prog_checks open_checks)

lemma min_mysql_pwrite64_openat_0_0_body182_ok: "body_ok (Suc 0) 8192 min_mysql_pwrite64_openat_0_0_body182" "counted min_mysql_pwrite64_openat_0_0_body182" "calls min_mysql_pwrite64_openat_0_0_body182 = 13" "opened_in m min_mysql_pwrite64_openat_0_0_body182 = []"
  by (simp_all add: min_mysql_pwrite64_openat_0_0_body182_def prog_checks open_checks)

lemma min_mysql_pwrite64_openat_0_0_body183_ok: "body_ok (Suc 0) 8192 min_mysql_pwrite64_openat_0_0_body183" "counted min_mysql_pwrite64_openat_0_0_body183" "calls min_mysql_pwrite64_openat_0_0_body183 = 13" "opened_in m min_mysql_pwrite64_openat_0_0_body183 = []"
  by (simp_all add: min_mysql_pwrite64_openat_0_0_body183_def prog_checks open_checks)

lemma min_mysql_pwrite64_openat_0_0_body184_ok: "body_ok (Suc 0) 8192 min_mysql_pwrite64_openat_0_0_body184" "counted min_mysql_pwrite64_openat_0_0_body184" "calls min_mysql_pwrite64_openat_0_0_body184 = 13" "opened_in m min_mysql_pwrite64_openat_0_0_body184 = []"
  by (simp_all add: min_mysql_pwrite64_openat_0_0_body184_def prog_checks open_checks)

lemma min_mysql_pwrite64_openat_0_0_body185_ok: "body_ok (Suc 0) 8192 min_mysql_pwrite64_openat_0_0_body185" "counted min_mysql_pwrite64_openat_0_0_body185" "calls min_mysql_pwrite64_openat_0_0_body185 = 13" "opened_in m min_mysql_pwrite64_openat_0_0_body185 = []"
  by (simp_all add: min_mysql_pwrite64_openat_0_0_body185_def prog_checks open_checks)

lemma min_mysql_pwrite64_openat_0_0_body186_ok: "body_ok (Suc 0) 8192 min_mysql_pwrite64_openat_0_0_body186" "counted min_mysql_pwrite64_openat_0_0_body186" "calls min_mysql_pwrite64_openat_0_0_body186 = 13" "opened_in m min_mysql_pwrite64_openat_0_0_body186 = []"
  by (simp_all add: min_mysql_pwrite64_openat_0_0_body186_def prog_checks open_checks)

lemma min_mysql_pwrite64_openat_0_0_body187_ok: "body_ok (Suc 0) 8192 min_mysql_pwrite64_openat_0_0_body187" "counted min_mysql_pwrite64_openat_0_0_body187" "calls min_mysql_pwrite64_openat_0_0_body187 = 13" "opened_in m min_mysql_pwrite64_openat_0_0_body187 = []"
  by (simp_all add: min_mysql_pwrite64_openat_0_0_body187_def prog_checks open_checks)

lemma min_mysql_pwrite64_openat_0_0_body188_ok: "body_ok (Suc 0) 8192 min_mysql_pwrite64_openat_0_0_body188" "counted min_mysql_pwrite64_openat_0_0_body188" "calls min_mysql_pwrite64_openat_0_0_body188 = 13" "opened_in m min_mysql_pwrite64_openat_0_0_body188 = []"
  by (simp_all add: min_mysql_pwrite64_openat_0_0_body188_def prog_checks open_checks)

lemma min_mysql_pwrite64_openat_0_0_body189_ok: "body_ok (Suc 0) 8192 min_mysql_pwrite64_openat_0_0_body189" "counted min_mysql_pwrite64_openat_0_0_body189" "calls min_mysql_pwrite64_openat_0_0_body189 = 13" "opened_in m min_mysql_pwrite64_openat_0_0_body189 = []"
  by (simp_all add: min_mysql_pwrite64_openat_0_0_body189_def prog_checks open_checks)

lemma min_mysql_pwrite64_openat_0_0_body190_ok: "body_ok (Suc 0) 8192 min_mysql_pwrite64_openat_0_0_body190" "counted min_mysql_pwrite64_openat_0_0_body190" "calls min_mysql_pwrite64_openat_0_0_body190 = 13" "opened_in m min_mysql_pwrite64_openat_0_0_body190 = []"
  by (simp_all add: min_mysql_pwrite64_openat_0_0_body190_def prog_checks open_checks)

lemma min_mysql_pwrite64_openat_0_0_body191_ok: "body_ok (Suc 0) 8192 min_mysql_pwrite64_openat_0_0_body191" "counted min_mysql_pwrite64_openat_0_0_body191" "calls min_mysql_pwrite64_openat_0_0_body191 = 13" "opened_in m min_mysql_pwrite64_openat_0_0_body191 = []"
  by (simp_all add: min_mysql_pwrite64_openat_0_0_body191_def prog_checks open_checks)

lemma min_mysql_pwrite64_openat_0_0_body192_ok: "body_ok (Suc 0) 8192 min_mysql_pwrite64_openat_0_0_body192" "counted min_mysql_pwrite64_openat_0_0_body192" "calls min_mysql_pwrite64_openat_0_0_body192 = 13" "opened_in m min_mysql_pwrite64_openat_0_0_body192 = []"
  by (simp_all add: min_mysql_pwrite64_openat_0_0_body192_def prog_checks open_checks)

lemma min_mysql_pwrite64_openat_0_0_body193_ok: "body_ok (Suc 0) 8192 min_mysql_pwrite64_openat_0_0_body193" "counted min_mysql_pwrite64_openat_0_0_body193" "calls min_mysql_pwrite64_openat_0_0_body193 = 13" "opened_in m min_mysql_pwrite64_openat_0_0_body193 = []"
  by (simp_all add: min_mysql_pwrite64_openat_0_0_body193_def prog_checks open_checks)

lemma min_mysql_pwrite64_openat_0_0_body194_ok: "body_ok (Suc 0) 8192 min_mysql_pwrite64_openat_0_0_body194" "counted min_mysql_pwrite64_openat_0_0_body194" "calls min_mysql_pwrite64_openat_0_0_body194 = 13" "opened_in m min_mysql_pwrite64_openat_0_0_body194 = []"
  by (simp_all add: min_mysql_pwrite64_openat_0_0_body194_def prog_checks open_checks)

lemma min_mysql_pwrite64_openat_0_0_body195_ok: "body_ok (Suc 0) 8192 min_mysql_pwrite64_openat_0_0_body195" "counted min_mysql_pwrite64_openat_0_0_body195" "calls min_mysql_pwrite64_openat_0_0_body195 = 13" "opened_in m min_mysql_pwrite64_openat_0_0_body195 = []"
  by (simp_all add: min_mysql_pwrite64_openat_0_0_body195_def prog_checks open_checks)

lemma min_mysql_pwrite64_openat_0_0_body196_ok: "body_ok (Suc 0) 8192 min_mysql_pwrite64_openat_0_0_body196" "counted min_mysql_pwrite64_openat_0_0_body196" "calls min_mysql_pwrite64_openat_0_0_body196 = 13" "opened_in m min_mysql_pwrite64_openat_0_0_body196 = []"
  by (simp_all add: min_mysql_pwrite64_openat_0_0_body196_def prog_checks open_checks)

lemma min_mysql_pwrite64_openat_0_0_body197_ok: "body_ok (Suc 0) 8192 min_mysql_pwrite64_openat_0_0_body197" "counted min_mysql_pwrite64_openat_0_0_body197" "calls min_mysql_pwrite64_openat_0_0_body197 = 13" "opened_in m min_mysql_pwrite64_openat_0_0_body197 = []"
  by (simp_all add: min_mysql_pwrite64_openat_0_0_body197_def prog_checks open_checks)

lemma min_mysql_pwrite64_openat_0_0_body198_ok: "body_ok (Suc 0) 8192 min_mysql_pwrite64_openat_0_0_body198" "counted min_mysql_pwrite64_openat_0_0_body198" "calls min_mysql_pwrite64_openat_0_0_body198 = 13" "opened_in m min_mysql_pwrite64_openat_0_0_body198 = []"
  by (simp_all add: min_mysql_pwrite64_openat_0_0_body198_def prog_checks open_checks)

lemma min_mysql_pwrite64_openat_0_0_body199_ok: "body_ok (Suc 0) 8192 min_mysql_pwrite64_openat_0_0_body199" "counted min_mysql_pwrite64_openat_0_0_body199" "calls min_mysql_pwrite64_openat_0_0_body199 = 13" "opened_in m min_mysql_pwrite64_openat_0_0_body199 = []"
  by (simp_all add: min_mysql_pwrite64_openat_0_0_body199_def prog_checks open_checks)

lemma min_mysql_pwrite64_openat_0_0_body200_ok: "body_ok (Suc 0) 8192 min_mysql_pwrite64_openat_0_0_body200" "counted min_mysql_pwrite64_openat_0_0_body200" "calls min_mysql_pwrite64_openat_0_0_body200 = 13" "opened_in m min_mysql_pwrite64_openat_0_0_body200 = []"
  by (simp_all add: min_mysql_pwrite64_openat_0_0_body200_def prog_checks open_checks)

lemma min_mysql_pwrite64_openat_0_0_body201_ok: "body_ok (Suc 0) 8192 min_mysql_pwrite64_openat_0_0_body201" "counted min_mysql_pwrite64_openat_0_0_body201" "calls min_mysql_pwrite64_openat_0_0_body201 = 13" "opened_in m min_mysql_pwrite64_openat_0_0_body201 = []"
  by (simp_all add: min_mysql_pwrite64_openat_0_0_body201_def prog_checks open_checks)

lemma min_mysql_pwrite64_openat_0_0_body202_ok: "body_ok (Suc 0) 8192 min_mysql_pwrite64_openat_0_0_body202" "counted min_mysql_pwrite64_openat_0_0_body202" "calls min_mysql_pwrite64_openat_0_0_body202 = 13" "opened_in m min_mysql_pwrite64_openat_0_0_body202 = []"
  by (simp_all add: min_mysql_pwrite64_openat_0_0_body202_def prog_checks open_checks)

lemma min_mysql_pwrite64_openat_0_0_body203_ok: "body_ok (Suc 0) 8192 min_mysql_pwrite64_openat_0_0_body203" "counted min_mysql_pwrite64_openat_0_0_body203" "calls min_mysql_pwrite64_openat_0_0_body203 = 13" "opened_in m min_mysql_pwrite64_openat_0_0_body203 = []"
  by (simp_all add: min_mysql_pwrite64_openat_0_0_body203_def prog_checks open_checks)

lemma min_mysql_pwrite64_openat_0_0_body204_ok: "body_ok (Suc 0) 8192 min_mysql_pwrite64_openat_0_0_body204" "counted min_mysql_pwrite64_openat_0_0_body204" "calls min_mysql_pwrite64_openat_0_0_body204 = 13" "opened_in m min_mysql_pwrite64_openat_0_0_body204 = []"
  by (simp_all add: min_mysql_pwrite64_openat_0_0_body204_def prog_checks open_checks)

lemma min_mysql_pwrite64_openat_0_0_body205_ok: "body_ok (Suc 0) 8192 min_mysql_pwrite64_openat_0_0_body205" "counted min_mysql_pwrite64_openat_0_0_body205" "calls min_mysql_pwrite64_openat_0_0_body205 = 13" "opened_in m min_mysql_pwrite64_openat_0_0_body205 = []"
  by (simp_all add: min_mysql_pwrite64_openat_0_0_body205_def prog_checks open_checks)

lemma min_mysql_pwrite64_openat_0_0_body206_ok: "body_ok (Suc 0) 8192 min_mysql_pwrite64_openat_0_0_body206" "counted min_mysql_pwrite64_openat_0_0_body206" "calls min_mysql_pwrite64_openat_0_0_body206 = 13" "opened_in m min_mysql_pwrite64_openat_0_0_body206 = []"
  by (simp_all add: min_mysql_pwrite64_openat_0_0_body206_def prog_checks open_checks)

lemma min_mysql_pwrite64_openat_0_0_body207_ok: "body_ok (Suc 0) 8192 min_mysql_pwrite64_openat_0_0_body207" "counted min_mysql_pwrite64_openat_0_0_body207" "calls min_mysql_pwrite64_openat_0_0_body207 = 13" "opened_in m min_mysql_pwrite64_openat_0_0_body207 = []"
  by (simp_all add: min_mysql_pwrite64_openat_0_0_body207_def prog_checks open_checks)

lemma min_mysql_pwrite64_openat_0_0_body208_ok: "body_ok (Suc 0) 8192 min_mysql_pwrite64_openat_0_0_body208" "counted min_mysql_pwrite64_openat_0_0_body208" "calls min_mysql_pwrite64_openat_0_0_body208 = 13" "opened_in m min_mysql_pwrite64_openat_0_0_body208 = []"
  by (simp_all add: min_mysql_pwrite64_openat_0_0_body208_def prog_checks open_checks)

lemma min_mysql_pwrite64_openat_0_0_body209_ok: "body_ok (Suc 0) 8192 min_mysql_pwrite64_openat_0_0_body209" "counted min_mysql_pwrite64_openat_0_0_body209" "calls min_mysql_pwrite64_openat_0_0_body209 = 13" "opened_in m min_mysql_pwrite64_openat_0_0_body209 = []"
  by (simp_all add: min_mysql_pwrite64_openat_0_0_body209_def prog_checks open_checks)

lemma min_mysql_pwrite64_openat_0_0_body210_ok: "body_ok (Suc 0) 8192 min_mysql_pwrite64_openat_0_0_body210" "counted min_mysql_pwrite64_openat_0_0_body210" "calls min_mysql_pwrite64_openat_0_0_body210 = 13" "opened_in m min_mysql_pwrite64_openat_0_0_body210 = []"
  by (simp_all add: min_mysql_pwrite64_openat_0_0_body210_def prog_checks open_checks)

lemma min_mysql_pwrite64_openat_0_0_body211_ok: "body_ok (Suc 0) 8192 min_mysql_pwrite64_openat_0_0_body211" "counted min_mysql_pwrite64_openat_0_0_body211" "calls min_mysql_pwrite64_openat_0_0_body211 = 13" "opened_in m min_mysql_pwrite64_openat_0_0_body211 = []"
  by (simp_all add: min_mysql_pwrite64_openat_0_0_body211_def prog_checks open_checks)

lemma min_mysql_pwrite64_openat_0_0_body212_ok: "body_ok (Suc 0) 8192 min_mysql_pwrite64_openat_0_0_body212" "counted min_mysql_pwrite64_openat_0_0_body212" "calls min_mysql_pwrite64_openat_0_0_body212 = 13" "opened_in m min_mysql_pwrite64_openat_0_0_body212 = []"
  by (simp_all add: min_mysql_pwrite64_openat_0_0_body212_def prog_checks open_checks)

lemma min_mysql_pwrite64_openat_0_0_body213_ok: "body_ok (Suc 0) 8192 min_mysql_pwrite64_openat_0_0_body213" "counted min_mysql_pwrite64_openat_0_0_body213" "calls min_mysql_pwrite64_openat_0_0_body213 = 13" "opened_in m min_mysql_pwrite64_openat_0_0_body213 = []"
  by (simp_all add: min_mysql_pwrite64_openat_0_0_body213_def prog_checks open_checks)

lemma min_mysql_pwrite64_openat_0_0_body214_ok: "body_ok (Suc 0) 8192 min_mysql_pwrite64_openat_0_0_body214" "counted min_mysql_pwrite64_openat_0_0_body214" "calls min_mysql_pwrite64_openat_0_0_body214 = 13" "opened_in m min_mysql_pwrite64_openat_0_0_body214 = []"
  by (simp_all add: min_mysql_pwrite64_openat_0_0_body214_def prog_checks open_checks)

lemma min_mysql_pwrite64_openat_0_0_body215_ok: "body_ok (Suc 0) 8192 min_mysql_pwrite64_openat_0_0_body215" "counted min_mysql_pwrite64_openat_0_0_body215" "calls min_mysql_pwrite64_openat_0_0_body215 = 13" "opened_in m min_mysql_pwrite64_openat_0_0_body215 = []"
  by (simp_all add: min_mysql_pwrite64_openat_0_0_body215_def prog_checks open_checks)

lemma min_mysql_pwrite64_openat_0_0_body216_ok: "body_ok (Suc 0) 8192 min_mysql_pwrite64_openat_0_0_body216" "counted min_mysql_pwrite64_openat_0_0_body216" "calls min_mysql_pwrite64_openat_0_0_body216 = 13" "opened_in m min_mysql_pwrite64_openat_0_0_body216 = []"
  by (simp_all add: min_mysql_pwrite64_openat_0_0_body216_def prog_checks open_checks)

lemma min_mysql_pwrite64_openat_0_0_body217_ok: "body_ok (Suc 0) 8192 min_mysql_pwrite64_openat_0_0_body217" "counted min_mysql_pwrite64_openat_0_0_body217" "calls min_mysql_pwrite64_openat_0_0_body217 = 13" "opened_in m min_mysql_pwrite64_openat_0_0_body217 = []"
  by (simp_all add: min_mysql_pwrite64_openat_0_0_body217_def prog_checks open_checks)

lemma min_mysql_pwrite64_openat_0_0_body218_ok: "body_ok (Suc 0) 8192 min_mysql_pwrite64_openat_0_0_body218" "counted min_mysql_pwrite64_openat_0_0_body218" "calls min_mysql_pwrite64_openat_0_0_body218 = 13" "opened_in m min_mysql_pwrite64_openat_0_0_body218 = []"
  by (simp_all add: min_mysql_pwrite64_openat_0_0_body218_def prog_checks open_checks)

lemma min_mysql_pwrite64_openat_0_0_body219_ok: "body_ok (Suc 0) 8192 min_mysql_pwrite64_openat_0_0_body219" "counted min_mysql_pwrite64_openat_0_0_body219" "calls min_mysql_pwrite64_openat_0_0_body219 = 13" "opened_in m min_mysql_pwrite64_openat_0_0_body219 = []"
  by (simp_all add: min_mysql_pwrite64_openat_0_0_body219_def prog_checks open_checks)

lemma min_mysql_pwrite64_openat_0_0_body220_ok: "body_ok (Suc 0) 8192 min_mysql_pwrite64_openat_0_0_body220" "counted min_mysql_pwrite64_openat_0_0_body220" "calls min_mysql_pwrite64_openat_0_0_body220 = 13" "opened_in m min_mysql_pwrite64_openat_0_0_body220 = []"
  by (simp_all add: min_mysql_pwrite64_openat_0_0_body220_def prog_checks open_checks)

lemma min_mysql_pwrite64_openat_0_0_body221_ok: "body_ok (Suc 0) 8192 min_mysql_pwrite64_openat_0_0_body221" "counted min_mysql_pwrite64_openat_0_0_body221" "calls min_mysql_pwrite64_openat_0_0_body221 = 13" "opened_in m min_mysql_pwrite64_openat_0_0_body221 = []"
  by (simp_all add: min_mysql_pwrite64_openat_0_0_body221_def prog_checks open_checks)

lemma min_mysql_pwrite64_openat_0_0_body222_ok: "body_ok (Suc 0) 8192 min_mysql_pwrite64_openat_0_0_body222" "counted min_mysql_pwrite64_openat_0_0_body222" "calls min_mysql_pwrite64_openat_0_0_body222 = 13" "opened_in m min_mysql_pwrite64_openat_0_0_body222 = []"
  by (simp_all add: min_mysql_pwrite64_openat_0_0_body222_def prog_checks open_checks)

lemma min_mysql_pwrite64_openat_0_0_body223_ok: "body_ok (Suc 0) 8192 min_mysql_pwrite64_openat_0_0_body223" "counted min_mysql_pwrite64_openat_0_0_body223" "calls min_mysql_pwrite64_openat_0_0_body223 = 13" "opened_in m min_mysql_pwrite64_openat_0_0_body223 = []"
  by (simp_all add: min_mysql_pwrite64_openat_0_0_body223_def prog_checks open_checks)

lemma min_mysql_pwrite64_openat_0_0_body224_ok: "body_ok (Suc 0) 8192 min_mysql_pwrite64_openat_0_0_body224" "counted min_mysql_pwrite64_openat_0_0_body224" "calls min_mysql_pwrite64_openat_0_0_body224 = 13" "opened_in m min_mysql_pwrite64_openat_0_0_body224 = []"
  by (simp_all add: min_mysql_pwrite64_openat_0_0_body224_def prog_checks open_checks)

lemma min_mysql_pwrite64_openat_0_0_body225_ok: "body_ok (Suc 0) 8192 min_mysql_pwrite64_openat_0_0_body225" "counted min_mysql_pwrite64_openat_0_0_body225" "calls min_mysql_pwrite64_openat_0_0_body225 = 13" "opened_in m min_mysql_pwrite64_openat_0_0_body225 = []"
  by (simp_all add: min_mysql_pwrite64_openat_0_0_body225_def prog_checks open_checks)

lemma min_mysql_pwrite64_openat_0_0_body226_ok: "body_ok (Suc 0) 8192 min_mysql_pwrite64_openat_0_0_body226" "counted min_mysql_pwrite64_openat_0_0_body226" "calls min_mysql_pwrite64_openat_0_0_body226 = 13" "opened_in m min_mysql_pwrite64_openat_0_0_body226 = []"
  by (simp_all add: min_mysql_pwrite64_openat_0_0_body226_def prog_checks open_checks)

lemma min_mysql_pwrite64_openat_0_0_body227_ok: "body_ok (Suc 0) 8192 min_mysql_pwrite64_openat_0_0_body227" "counted min_mysql_pwrite64_openat_0_0_body227" "calls min_mysql_pwrite64_openat_0_0_body227 = 13" "opened_in m min_mysql_pwrite64_openat_0_0_body227 = []"
  by (simp_all add: min_mysql_pwrite64_openat_0_0_body227_def prog_checks open_checks)

lemma min_mysql_pwrite64_openat_0_0_body228_ok: "body_ok (Suc 0) 8192 min_mysql_pwrite64_openat_0_0_body228" "counted min_mysql_pwrite64_openat_0_0_body228" "calls min_mysql_pwrite64_openat_0_0_body228 = 13" "opened_in m min_mysql_pwrite64_openat_0_0_body228 = []"
  by (simp_all add: min_mysql_pwrite64_openat_0_0_body228_def prog_checks open_checks)

lemma min_mysql_pwrite64_openat_0_0_body229_ok: "body_ok (Suc 0) 8192 min_mysql_pwrite64_openat_0_0_body229" "counted min_mysql_pwrite64_openat_0_0_body229" "calls min_mysql_pwrite64_openat_0_0_body229 = 13" "opened_in m min_mysql_pwrite64_openat_0_0_body229 = []"
  by (simp_all add: min_mysql_pwrite64_openat_0_0_body229_def prog_checks open_checks)

lemma min_mysql_pwrite64_openat_0_0_body230_ok: "body_ok (Suc 0) 8192 min_mysql_pwrite64_openat_0_0_body230" "counted min_mysql_pwrite64_openat_0_0_body230" "calls min_mysql_pwrite64_openat_0_0_body230 = 13" "opened_in m min_mysql_pwrite64_openat_0_0_body230 = []"
  by (simp_all add: min_mysql_pwrite64_openat_0_0_body230_def prog_checks open_checks)

lemma min_mysql_pwrite64_openat_0_0_body231_ok: "body_ok (Suc 0) 8192 min_mysql_pwrite64_openat_0_0_body231" "counted min_mysql_pwrite64_openat_0_0_body231" "calls min_mysql_pwrite64_openat_0_0_body231 = 13" "opened_in m min_mysql_pwrite64_openat_0_0_body231 = []"
  by (simp_all add: min_mysql_pwrite64_openat_0_0_body231_def prog_checks open_checks)

lemma min_mysql_pwrite64_openat_0_0_body232_ok: "body_ok (Suc 0) 8192 min_mysql_pwrite64_openat_0_0_body232" "counted min_mysql_pwrite64_openat_0_0_body232" "calls min_mysql_pwrite64_openat_0_0_body232 = 13" "opened_in m min_mysql_pwrite64_openat_0_0_body232 = []"
  by (simp_all add: min_mysql_pwrite64_openat_0_0_body232_def prog_checks open_checks)

lemma min_mysql_pwrite64_openat_0_0_body233_ok: "body_ok (Suc 0) 8192 min_mysql_pwrite64_openat_0_0_body233" "counted min_mysql_pwrite64_openat_0_0_body233" "calls min_mysql_pwrite64_openat_0_0_body233 = 13" "opened_in m min_mysql_pwrite64_openat_0_0_body233 = []"
  by (simp_all add: min_mysql_pwrite64_openat_0_0_body233_def prog_checks open_checks)

lemma min_mysql_pwrite64_openat_0_0_body234_ok: "body_ok (Suc 0) 8192 min_mysql_pwrite64_openat_0_0_body234" "counted min_mysql_pwrite64_openat_0_0_body234" "calls min_mysql_pwrite64_openat_0_0_body234 = 13" "opened_in m min_mysql_pwrite64_openat_0_0_body234 = []"
  by (simp_all add: min_mysql_pwrite64_openat_0_0_body234_def prog_checks open_checks)

lemma min_mysql_pwrite64_openat_0_0_body235_ok: "body_ok (Suc 0) 8192 min_mysql_pwrite64_openat_0_0_body235" "counted min_mysql_pwrite64_openat_0_0_body235" "calls min_mysql_pwrite64_openat_0_0_body235 = 13" "opened_in m min_mysql_pwrite64_openat_0_0_body235 = []"
  by (simp_all add: min_mysql_pwrite64_openat_0_0_body235_def prog_checks open_checks)

lemma min_mysql_pwrite64_openat_0_0_body236_ok: "body_ok (Suc 0) 8192 min_mysql_pwrite64_openat_0_0_body236" "counted min_mysql_pwrite64_openat_0_0_body236" "calls min_mysql_pwrite64_openat_0_0_body236 = 13" "opened_in m min_mysql_pwrite64_openat_0_0_body236 = []"
  by (simp_all add: min_mysql_pwrite64_openat_0_0_body236_def prog_checks open_checks)

lemma min_mysql_pwrite64_openat_0_0_body237_ok: "body_ok (Suc 0) 8192 min_mysql_pwrite64_openat_0_0_body237" "counted min_mysql_pwrite64_openat_0_0_body237" "calls min_mysql_pwrite64_openat_0_0_body237 = 13" "opened_in m min_mysql_pwrite64_openat_0_0_body237 = []"
  by (simp_all add: min_mysql_pwrite64_openat_0_0_body237_def prog_checks open_checks)

lemma min_mysql_pwrite64_openat_0_0_body238_ok: "body_ok (Suc 0) 8192 min_mysql_pwrite64_openat_0_0_body238" "counted min_mysql_pwrite64_openat_0_0_body238" "calls min_mysql_pwrite64_openat_0_0_body238 = 13" "opened_in m min_mysql_pwrite64_openat_0_0_body238 = []"
  by (simp_all add: min_mysql_pwrite64_openat_0_0_body238_def prog_checks open_checks)

lemma min_mysql_pwrite64_openat_0_0_body239_ok: "body_ok (Suc 0) 8192 min_mysql_pwrite64_openat_0_0_body239" "counted min_mysql_pwrite64_openat_0_0_body239" "calls min_mysql_pwrite64_openat_0_0_body239 = 13" "opened_in m min_mysql_pwrite64_openat_0_0_body239 = []"
  by (simp_all add: min_mysql_pwrite64_openat_0_0_body239_def prog_checks open_checks)

lemma min_mysql_pwrite64_openat_0_0_body240_ok: "body_ok (Suc 0) 8192 min_mysql_pwrite64_openat_0_0_body240" "counted min_mysql_pwrite64_openat_0_0_body240" "calls min_mysql_pwrite64_openat_0_0_body240 = 13" "opened_in m min_mysql_pwrite64_openat_0_0_body240 = []"
  by (simp_all add: min_mysql_pwrite64_openat_0_0_body240_def prog_checks open_checks)

end
