(* ===== verification/CSB_Progs_Mysql_v2l_p3.thy ===== *)
theory CSB_Progs_Mysql_v2l_p3
  imports CSB_Syz_Files
begin

text \<open>
  Statements of min\_mysql\_pwrite64\_openat\_0\_0 (bench/targets/mysql\_v2), in the
  order of the file; the program is put together in CSB\_Progs\_Mysql\_v2l.
\<close>

definition min_mysql_pwrite64_openat_0_0_body241 :: "stmt list" where
  "min_mysql_pwrite64_openat_0_0_body241 = [
    Syscall NR_pwrite64 [Reg 0, Write_buf, Imm 0x2000, Imm 0x1e1fa000], Count,
    Syscall NR_pwrite64 [Reg 0, Write_buf, Imm 0x200, Imm 0x1e1fa400], Count,
    Syscall NR_pwrite64 [Reg 0, Write_buf, Imm 0x200, Imm 0x1e1fa600], Count,
    Syscall NR_pwrite64 [Reg 0, Write_buf, Imm 0x400, Imm 0x1e1fa600], Count,
    Syscall NR_pwrite64 [Reg 0, Write_buf, Imm 0x200, Imm 0x1e1faa00], Count,
    Syscall NR_pwrite64 [Reg 0, Write_buf, Imm 0x400, Imm 0x1e1faa00], Count,
    Syscall NR_pwrite64 [Reg 0, Write_buf, Imm 0x200, Imm 0x1e1fae00], Count,
    Syscall NR_pwrite64 [Reg 0, Write_buf, Imm 0x200, Imm 0x1e1fae00], Count,
    Syscall NR_pwrite64 [Reg 0, Write_buf, Imm 0x200, Imm 0x1e1fb000], Count,
    Syscall NR_pwrite64 [Reg 0, Write_buf, Imm 0x200, Imm 0x1e1fb000], Count,
    Syscall NR_pwrite64 [Reg 0, Write_buf, Imm 0x200, Imm 0x1e1fb200], Count,
    Syscall NR_pwrite64 [Reg 0, Write_buf, Imm 0x200, Imm 0x1e1fb200], Count,
    Syscall NR_pwrite64 [Reg 0, Write_buf, Imm 0x200, Imm 0x1e1fb400], Count]"

definition min_mysql_pwrite64_openat_0_0_body242 :: "stmt list" where
  "min_mysql_pwrite64_openat_0_0_body242 = [
    Syscall NR_pwrite64 [Reg 0, Write_buf, Imm 0x200, Imm 0x1e1fb400], Count,
    Syscall NR_pwrite64 [Reg 0, Write_buf, Imm 0x200, Imm 0x1e1fb400], Count,
    Syscall NR_pwrite64 [Reg 0, Write_buf, Imm 0x200, Imm 0x1e1fb600], Count,
    Syscall NR_pwrite64 [Reg 0, Write_buf, Imm 0x200, Imm 0x1e1fb600], Count,
    Syscall NR_pwrite64 [Reg 0, Write_buf, Imm 0x200, Imm 0x1e1fb800], Count,
    Syscall NR_pwrite64 [Reg 0, Write_buf, Imm 0x200, Imm 0x1e1fb800], Count,
    Syscall NR_pwrite64 [Reg 0, Write_buf, Imm 0x200, Imm 0x1e1fb800], Count,
    Syscall NR_pwrite64 [Reg 0, Write_buf, Imm 0x200, Imm 0x1e1fba00], Count,
    Syscall NR_pwrite64 [Reg 0, Write_buf, Imm 0x200, Imm 0x1e1fba00], Count,
    Syscall NR_pwrite64 [Reg 0, Write_buf, Imm 0x200, Imm 0x1e1fbc00], Count,
    Syscall NR_pwrite64 [Reg 0, Write_buf, Imm 0x200, Imm 0x1e1fbe00], Count,
    Syscall NR_pwrite64 [Reg 0, Write_buf, Imm 0x2000, Imm 0x1e1fc000], Count,
    Syscall NR_pwrite64 [Reg 0, Write_buf, Imm 0x200, Imm 0x1e1fc000], Count]"

definition min_mysql_pwrite64_openat_0_0_body243 :: "stmt list" where
  "min_mysql_pwrite64_openat_0_0_body243 = [
    Syscall NR_pwrite64 [Reg 0, Write_buf, Imm 0x400, Imm 0x1e1fc200], Count,
    Syscall NR_pwrite64 [Reg 0, Write_buf, Imm 0x600, Imm 0x1e1fc600], Count,
    Syscall NR_pwrite64 [Reg 0, Write_buf, Imm 0x200, Imm 0x1e1fcc00], Count,
    Syscall NR_pwrite64 [Reg 0, Write_buf, Imm 0x400, Imm 0x1e1fce00], Count,
    Syscall NR_pwrite64 [Reg 0, Write_buf, Imm 0x800, Imm 0x1e1fd200], Count,
    Syscall NR_pwrite64 [Reg 0, Write_buf, Imm 0x400, Imm 0x1e1fda00], Count,
    Syscall NR_pwrite64 [Reg 0, Write_buf, Imm 0x200, Imm 0x1e1fde00], Count,
    Syscall NR_pwrite64 [Reg 0, Write_buf, Imm 0x2000, Imm 0x1e1fe000], Count,
    Syscall NR_pwrite64 [Reg 0, Write_buf, Imm 0x600, Imm 0x1e1fe600], Count,
    Syscall NR_pwrite64 [Reg 0, Write_buf, Imm 0x400, Imm 0x1e1fec00], Count,
    Syscall NR_pwrite64 [Reg 0, Write_buf, Imm 0x800, Imm 0x1e1ff000], Count,
    Syscall NR_pwrite64 [Reg 0, Write_buf, Imm 0x800, Imm 0x1e1ff800], Count,
    Syscall NR_pwrite64 [Reg 0, Write_buf, Imm 0x2000, Imm 0x1e200000], Count]"

definition min_mysql_pwrite64_openat_0_0_body244 :: "stmt list" where
  "min_mysql_pwrite64_openat_0_0_body244 = [
    Syscall NR_pwrite64 [Reg 0, Write_buf, Imm 0x200, Imm 0x1e200200], Count,
    Syscall NR_pwrite64 [Reg 0, Write_buf, Imm 0x200, Imm 0x1e200400], Count,
    Syscall NR_pwrite64 [Reg 0, Write_buf, Imm 0x200, Imm 0x1e200400], Count,
    Syscall NR_pwrite64 [Reg 0, Write_buf, Imm 0x200, Imm 0x1e200600], Count,
    Syscall NR_pwrite64 [Reg 0, Write_buf, Imm 0x200, Imm 0x1e200600], Count,
    Syscall NR_pwrite64 [Reg 0, Write_buf, Imm 0x200, Imm 0x1e200600], Count,
    Syscall NR_pwrite64 [Reg 0, Write_buf, Imm 0x200, Imm 0x1e200600], Count,
    Syscall NR_pwrite64 [Reg 0, Write_buf, Imm 0x200, Imm 0x1e200600], Count,
    Syscall NR_pwrite64 [Reg 0, Write_buf, Imm 0x200, Imm 0x1e200600], Count,
    Syscall NR_pwrite64 [Reg 0, Write_buf, Imm 0x200, Imm 0x1e200800], Count,
    Syscall NR_pwrite64 [Reg 0, Write_buf, Imm 0x200, Imm 0x1e200a00], Count,
    Syscall NR_pwrite64 [Reg 0, Write_buf, Imm 0x200, Imm 0x1e200a00], Count,
    Syscall NR_pwrite64 [Reg 0, Write_buf, Imm 0x200, Imm 0x1e200c00], Count]"

definition min_mysql_pwrite64_openat_0_0_body245 :: "stmt list" where
  "min_mysql_pwrite64_openat_0_0_body245 = [
    Syscall NR_pwrite64 [Reg 0, Write_buf, Imm 0x600, Imm 0x1e200c00], Count,
    Syscall NR_pwrite64 [Reg 0, Write_buf, Imm 0x200, Imm 0x1e201200], Count,
    Syscall NR_pwrite64 [Reg 0, Write_buf, Imm 0x200, Imm 0x1e201200], Count,
    Syscall NR_pwrite64 [Reg 0, Write_buf, Imm 0x200, Imm 0x1e201400], Count,
    Syscall NR_pwrite64 [Reg 0, Write_buf, Imm 0x200, Imm 0x1e201400], Count,
    Syscall NR_pwrite64 [Reg 0, Write_buf, Imm 0x200, Imm 0x1e201600], Count,
    Syscall NR_pwrite64 [Reg 0, Write_buf, Imm 0x200, Imm 0x1e201600], Count,
    Syscall NR_pwrite64 [Reg 0, Write_buf, Imm 0x200, Imm 0x1e201800], Count,
    Syscall NR_pwrite64 [Reg 0, Write_buf, Imm 0x200, Imm 0x1e201a00], Count,
    Syscall NR_pwrite64 [Reg 0, Write_buf, Imm 0x200, Imm 0x1e201a00], Count,
    Syscall NR_pwrite64 [Reg 0, Write_buf, Imm 0x200, Imm 0x1e201a00], Count,
    Syscall NR_pwrite64 [Reg 0, Write_buf, Imm 0x200, Imm 0x1e201c00], Count,
    Syscall NR_pwrite64 [Reg 0, Write_buf, Imm 0x400, Imm 0x1e201c00], Count]"

definition min_mysql_pwrite64_openat_0_0_body246 :: "stmt list" where
  "min_mysql_pwrite64_openat_0_0_body246 = [
    Syscall NR_pwrite64 [Reg 0, Write_buf, Imm 0x2000, Imm 0x1e202000], Count,
    Syscall NR_pwrite64 [Reg 0, Write_buf, Imm 0x600, Imm 0x1e202400], Count,
    Syscall NR_pwrite64 [Reg 0, Write_buf, Imm 0x800, Imm 0x1e202a00], Count,
    Syscall NR_pwrite64 [Reg 0, Write_buf, Imm 0x800, Imm 0x1e203200], Count,
    Syscall NR_pwrite64 [Reg 0, Write_buf, Imm 0x600, Imm 0x1e203a00], Count,
    Syscall NR_pwrite64 [Reg 0, Write_buf, Imm 0x2000, Imm 0x1e204000], Count,
    Syscall NR_pwrite64 [Reg 0, Write_buf, Imm 0x600, Imm 0x1e204600], Count,
    Syscall NR_pwrite64 [Reg 0, Write_buf, Imm 0x600, Imm 0x1e204c00], Count,
    Syscall NR_pwrite64 [Reg 0, Write_buf, Imm 0x200, Imm 0x1e205200], Count,
    Syscall NR_pwrite64 [Reg 0, Write_buf, Imm 0x200, Imm 0x1e205200], Count,
    Syscall NR_pwrite64 [Reg 0, Write_buf, Imm 0x200, Imm 0x1e205400], Count,
    Syscall NR_pwrite64 [Reg 0, Write_buf, Imm 0x600, Imm 0x1e205400], Count,
    Syscall NR_pwrite64 [Reg 0, Write_buf, Imm 0x200, Imm 0x1e205a00], Count]"

definition min_mysql_pwrite64_openat_0_0_body247 :: "stmt list" where
  "min_mysql_pwrite64_openat_0_0_body247 = [
    Syscall NR_pwrite64 [Reg 0, Write_buf, Imm 0x400, Imm 0x1e205a00], Count,
    Syscall NR_pwrite64 [Reg 0, Write_buf, Imm 0x200, Imm 0x1e205e00], Count,
    Syscall NR_pwrite64 [Reg 0, Write_buf, Imm 0x200, Imm 0x1e205e00], Count,
    Syscall NR_pwrite64 [Reg 0, Write_buf, Imm 0x2000, Imm 0x1e206000], Count,
    Syscall NR_pwrite64 [Reg 0, Write_buf, Imm 0x600, Imm 0x1e206c00], Count,
    Syscall NR_pwrite64 [Reg 0, Write_buf, Imm 0x200, Imm 0x1e207200], Count,
    Syscall NR_pwrite64 [Reg 0, Write_buf, Imm 0x200, Imm 0x1e207200], Count,
    Syscall NR_pwrite64 [Reg 0, Write_buf, Imm 0x200, Imm 0x1e207400], Count,
    Syscall NR_pwrite64 [Reg 0, Write_buf, Imm 0xc00, Imm 0x1e207400], Count,
    Syscall NR_pwrite64 [Reg 0, Write_buf, Imm 0x2000, Imm 0x1e208000], Count,
    Syscall NR_pwrite64 [Reg 0, Write_buf, Imm 0x200, Imm 0x1e209000], Count,
    Syscall NR_pwrite64 [Reg 0, Write_buf, Imm 0x400, Imm 0x1e209000], Count,
    Syscall NR_pwrite64 [Reg 0, Write_buf, Imm 0x600, Imm 0x1e209400], Count]"

definition min_mysql_pwrite64_openat_0_0_body248 :: "stmt list" where
  "min_mysql_pwrite64_openat_0_0_body248 = [
    Syscall NR_pwrite64 [Reg 0, Write_buf, Imm 0x400, Imm 0x1e209a00], Count,
    Syscall NR_pwrite64 [Reg 0, Write_buf, Imm 0x200, Imm 0x1e209e00], Count,
    Syscall NR_pwrite64 [Reg 0, Write_buf, Imm 0x2000, Imm 0x1e20a000], Count,
    Syscall NR_pwrite64 [Reg 0, Write_buf, Imm 0x200, Imm 0x1e20a000], Count,
    Syscall NR_pwrite64 [Reg 0, Write_buf, Imm 0x200, Imm 0x1e20a200], Count,
    Syscall NR_pwrite64 [Reg 0, Write_buf, Imm 0x200, Imm 0x1e20a200], Count,
    Syscall NR_pwrite64 [Reg 0, Write_buf, Imm 0x200, Imm 0x1e20a200], Count,
    Syscall NR_pwrite64 [Reg 0, Write_buf, Imm 0x200, Imm 0x1e20a200], Count,
    Syscall NR_pwrite64 [Reg 0, Write_buf, Imm 0x200, Imm 0x1e20a400], Count,
    Syscall NR_pwrite64 [Reg 0, Write_buf, Imm 0x200, Imm 0x1e20a400], Count,
    Syscall NR_pwrite64 [Reg 0, Write_buf, Imm 0x200, Imm 0x1e20a400], Count,
    Syscall NR_pwrite64 [Reg 0, Write_buf, Imm 0x200, Imm 0x1e20a600], Count,
    Syscall NR_pwrite64 [Reg 0, Write_buf, Imm 0x200, Imm 0x1e20a600], Count]"

definition min_mysql_pwrite64_openat_0_0_body249 :: "stmt list" where
  "min_mysql_pwrite64_openat_0_0_body249 = [
    Syscall NR_pwrite64 [Reg 0, Write_buf, Imm 0x200, Imm 0x1e20a600], Count,
    Syscall NR_pwrite64 [Reg 0, Write_buf, Imm 0x200, Imm 0x1e20a800], Count,
    Syscall NR_pwrite64 [Reg 0, Write_buf, Imm 0x400, Imm 0x1e20a800], Count,
    Syscall NR_pwrite64 [Reg 0, Write_buf, Imm 0x200, Imm 0x1e20ac00], Count,
    Syscall NR_pwrite64 [Reg 0, Write_buf, Imm 0x200, Imm 0x1e20ae00], Count,
    Syscall NR_pwrite64 [Reg 0, Write_buf, Imm 0x400, Imm 0x1e20ae00], Count,
    Syscall NR_pwrite64 [Reg 0, Write_buf, Imm 0x200, Imm 0x1e20b200], Count,
    Syscall NR_pwrite64 [Reg 0, Write_buf, Imm 0x200, Imm 0x1e20b200], Count,
    Syscall NR_pwrite64 [Reg 0, Write_buf, Imm 0x200, Imm 0x1e20b200], Count,
    Syscall NR_pwrite64 [Reg 0, Write_buf, Imm 0x400, Imm 0x1e20b200], Count,
    Syscall NR_pwrite64 [Reg 0, Write_buf, Imm 0x200, Imm 0x1e20b600], Count,
    Syscall NR_pwrite64 [Reg 0, Write_buf, Imm 0x200, Imm 0x1e20b800], Count,
    Syscall NR_pwrite64 [Reg 0, Write_buf, Imm 0x200, Imm 0x1e20b800], Count]"

definition min_mysql_pwrite64_openat_0_0_body250 :: "stmt list" where
  "min_mysql_pwrite64_openat_0_0_body250 = [
    Syscall NR_pwrite64 [Reg 0, Write_buf, Imm 0x200, Imm 0x1e20ba00], Count,
    Syscall NR_pwrite64 [Reg 0, Write_buf, Imm 0x200, Imm 0x1e20bc00], Count,
    Syscall NR_pwrite64 [Reg 0, Write_buf, Imm 0x400, Imm 0x1e20bc00], Count,
    Syscall NR_pwrite64 [Reg 0, Write_buf, Imm 0x2000, Imm 0x1e20c000], Count,
    Syscall NR_pwrite64 [Reg 0, Write_buf, Imm 0x400, Imm 0x1e20c200], Count,
    Syscall NR_pwrite64 [Reg 0, Write_buf, Imm 0x400, Imm 0x1e20c600], Count,
    Syscall NR_pwrite64 [Reg 0, Write_buf, Imm 0x400, Imm 0x1e20ca00], Count,
    Syscall NR_pwrite64 [Reg 0, Write_buf, Imm 0x200, Imm 0x1e20ce00], Count,
    Syscall NR_pwrite64 [Reg 0, Write_buf, Imm 0x400, Imm 0x1e20d000], Count,
    Syscall NR_pwrite64 [Reg 0, Write_buf, Imm 0x200, Imm 0x1e20d400], Count,
    Syscall NR_pwrite64 [Reg 0, Write_buf, Imm 0x600, Imm 0x1e20d400], Count,
    Syscall NR_pwrite64 [Reg 0, Write_buf, Imm 0x600, Imm 0x1e20da00], Count,
    Syscall NR_pwrite64 [Reg 0, Write_buf, Imm 0x2000, Imm 0x1e20e000], Count]"

definition min_mysql_pwrite64_openat_0_0_body251 :: "stmt list" where
  "min_mysql_pwrite64_openat_0_0_body251 = [
    Syscall NR_pwrite64 [Reg 0, Write_buf, Imm 0x200, Imm 0x1e20ee00], Count,
    Syscall NR_pwrite64 [Reg 0, Write_buf, Imm 0x400, Imm 0x1e20f000], Count,
    Syscall NR_pwrite64 [Reg 0, Write_buf, Imm 0x600, Imm 0x1e20f400], Count,
    Syscall NR_pwrite64 [Reg 0, Write_buf, Imm 0x200, Imm 0x1e20fa00], Count,
    Syscall NR_pwrite64 [Reg 0, Write_buf, Imm 0x200, Imm 0x1e20fc00], Count,
    Syscall NR_pwrite64 [Reg 0, Write_buf, Imm 0x200, Imm 0x1e20fc00], Count,
    Syscall NR_pwrite64 [Reg 0, Write_buf, Imm 0x200, Imm 0x1e20fc00], Count,
    Syscall NR_pwrite64 [Reg 0, Write_buf, Imm 0x200, Imm 0x1e20fe00], Count,
    Syscall NR_pwrite64 [Reg 0, Write_buf, Imm 0x200, Imm 0x1e20fe00], Count,
    Syscall NR_pwrite64 [Reg 0, Write_buf, Imm 0x2000, Imm 0x1e210000], Count,
    Syscall NR_pwrite64 [Reg 0, Write_buf, Imm 0x800, Imm 0x1e210e00], Count,
    Syscall NR_pwrite64 [Reg 0, Write_buf, Imm 0xa00, Imm 0x1e211600], Count,
    Syscall NR_pwrite64 [Reg 0, Write_buf, Imm 0x2000, Imm 0x1e212000], Count]"

definition min_mysql_pwrite64_openat_0_0_body252 :: "stmt list" where
  "min_mysql_pwrite64_openat_0_0_body252 = [
    Syscall NR_pwrite64 [Reg 0, Write_buf, Imm 0x200, Imm 0x1e212a00], Count,
    Syscall NR_pwrite64 [Reg 0, Write_buf, Imm 0x200, Imm 0x1e212c00], Count,
    Syscall NR_pwrite64 [Reg 0, Write_buf, Imm 0x200, Imm 0x1e212c00], Count,
    Syscall NR_pwrite64 [Reg 0, Write_buf, Imm 0x200, Imm 0x1e212c00], Count,
    Syscall NR_pwrite64 [Reg 0, Write_buf, Imm 0x200, Imm 0x1e212e00], Count,
    Syscall NR_pwrite64 [Reg 0, Write_buf, Imm 0x200, Imm 0x1e213000], Count,
    Syscall NR_pwrite64 [Reg 0, Write_buf, Imm 0x800, Imm 0x1e213000], Count,
    Syscall NR_pwrite64 [Reg 0, Write_buf, Imm 0x400, Imm 0x1e213800], Count,
    Syscall NR_pwrite64 [Reg 0, Write_buf, Imm 0x200, Imm 0x1e213c00], Count,
    Syscall NR_pwrite64 [Reg 0, Write_buf, Imm 0x200, Imm 0x1e213c00], Count,
    Syscall NR_pwrite64 [Reg 0, Write_buf, Imm 0x200, Imm 0x1e213c00], Count,
    Syscall NR_pwrite64 [Reg 0, Write_buf, Imm 0x200, Imm 0x1e213e00], Count,
    Syscall NR_pwrite64 [Reg 0, Write_buf, Imm 0x2000, Imm 0x1e214000], Count]"

definition min_mysql_pwrite64_openat_0_0_body253 :: "stmt list" where
  "min_mysql_pwrite64_openat_0_0_body253 = [
    Syscall NR_pwrite64 [Reg 0, Write_buf, Imm 0x400, Imm 0x1e214200], Count,
    Syscall NR_pwrite64 [Reg 0, Write_buf, Imm 0x200, Imm 0x1e214600], Count,
    Syscall NR_pwrite64 [Reg 0, Write_buf, Imm 0x200, Imm 0x1e214800], Count,
    Syscall NR_pwrite64 [Reg 0, Write_buf, Imm 0x200, Imm 0x1e214a00], Count,
    Syscall NR_pwrite64 [Reg 0, Write_buf, Imm 0x200, Imm 0x1e214c00], Count,
    Syscall NR_pwrite64 [Reg 0, Write_buf, Imm 0x400, Imm 0x1e214c00], Count,
    Syscall NR_pwrite64 [Reg 0, Write_buf, Imm 0x200, Imm 0x1e215000], Count,
    Syscall NR_pwrite64 [Reg 0, Write_buf, Imm 0x400, Imm 0x1e215000], Count,
    Syscall NR_pwrite64 [Reg 0, Write_buf, Imm 0x200, Imm 0x1e215400], Count,
    Syscall NR_pwrite64 [Reg 0, Write_buf, Imm 0x400, Imm 0x1e215400], Count,
    Syscall NR_pwrite64 [Reg 0, Write_buf, Imm 0x600, Imm 0x1e215800], Count,
    Syscall NR_pwrite64 [Reg 0, Write_buf, Imm 0x200, Imm 0x1e215e00], Count,
    Syscall NR_pwrite64 [Reg 0, Write_buf, Imm 0x200, Imm 0x1e215e00], Count]"

definition min_mysql_pwrite64_openat_0_0_body254 :: "stmt list" where
  "min_mysql_pwrite64_openat_0_0_body254 = [
    Syscall NR_pwrite64 [Reg 0, Write_buf, Imm 0x2000, Imm 0x1e216000], Count,
    Syscall NR_pwrite64 [Reg 0, Write_buf, Imm 0x200, Imm 0x1e216000], Count,
    Syscall NR_pwrite64 [Reg 0, Write_buf, Imm 0x200, Imm 0x1e216200], Count,
    Syscall NR_pwrite64 [Reg 0, Write_buf, Imm 0x200, Imm 0x1e216200], Count,
    Syscall NR_pwrite64 [Reg 0, Write_buf, Imm 0x200, Imm 0x1e216200], Count,
    Syscall NR_pwrite64 [Reg 0, Write_buf, Imm 0x200, Imm 0x1e216400], Count,
    Syscall NR_pwrite64 [Reg 0, Write_buf, Imm 0x200, Imm 0x1e216400], Count,
    Syscall NR_pwrite64 [Reg 0, Write_buf, Imm 0x400, Imm 0x1e216600], Count,
    Syscall NR_pwrite64 [Reg 0, Write_buf, Imm 0x200, Imm 0x1e216a00], Count,
    Syscall NR_pwrite64 [Reg 0, Write_buf, Imm 0x200, Imm 0x1e216c00], Count,
    Syscall NR_pwrite64 [Reg 0, Write_buf, Imm 0x200, Imm 0x1e216e00], Count,
    Syscall NR_pwrite64 [Reg 0, Write_buf, Imm 0x200, Imm 0x1e217000], Count,
    Syscall NR_pwrite64 [Reg 0, Write_buf, Imm 0x200, Imm 0x1e217000], Count]"

definition min_mysql_pwrite64_openat_0_0_body255 :: "stmt list" where
  "min_mysql_pwrite64_openat_0_0_body255 = [
    Syscall NR_pwrite64 [Reg 0, Write_buf, Imm 0x200, Imm 0x1e217200], Count,
    Syscall NR_pwrite64 [Reg 0, Write_buf, Imm 0x200, Imm 0x1e217400], Count,
    Syscall NR_pwrite64 [Reg 0, Write_buf, Imm 0x200, Imm 0x1e217400], Count,
    Syscall NR_pwrite64 [Reg 0, Write_buf, Imm 0x200, Imm 0x1e217400], Count,
    Syscall NR_pwrite64 [Reg 0, Write_buf, Imm 0x600, Imm 0x1e217400], Count,
    Syscall NR_pwrite64 [Reg 0, Write_buf, Imm 0x200, Imm 0x1e217a00], Count,
    Syscall NR_pwrite64 [Reg 0, Write_buf, Imm 0x200, Imm 0x1e217a00], Count,
    Syscall NR_pwrite64 [Reg 0, Write_buf, Imm 0x200, Imm 0x1e217c00], Count,
    Syscall NR_pwrite64 [Reg 0, Write_buf, Imm 0x400, Imm 0x1e217c00], Count,
    Syscall NR_pwrite64 [Reg 0, Write_buf, Imm 0x2000, Imm 0x1e218000], Count,
    Syscall NR_pwrite64 [Reg 0, Write_buf, Imm 0x200, Imm 0x1e218800], Count,
    Syscall NR_pwrite64 [Reg 0, Write_buf, Imm 0x400, Imm 0x1e218800], Count,
    Syscall NR_pwrite64 [Reg 0, Write_buf, Imm 0x200, Imm 0x1e218c00], Count]"

definition min_mysql_pwrite64_openat_0_0_body256 :: "stmt list" where
  "min_mysql_pwrite64_openat_0_0_body256 = [
    Syscall NR_pwrite64 [Reg 0, Write_buf, Imm 0x600, Imm 0x1e218c00], Count,
    Syscall NR_pwrite64 [Reg 0, Write_buf, Imm 0x200, Imm 0x1e219200], Count,
    Syscall NR_pwrite64 [Reg 0, Write_buf, Imm 0x200, Imm 0x1e219200], Count,
    Syscall NR_pwrite64 [Reg 0, Write_buf, Imm 0x400, Imm 0x1e219200], Count,
    Syscall NR_pwrite64 [Reg 0, Write_buf, Imm 0x200, Imm 0x1e219600], Count,
    Syscall NR_pwrite64 [Reg 0, Write_buf, Imm 0xa00, Imm 0x1e219600], Count,
    Syscall NR_pwrite64 [Reg 0, Write_buf, Imm 0x2000, Imm 0x1e21a000], Count,
    Syscall NR_pwrite64 [Reg 0, Write_buf, Imm 0x200, Imm 0x1e21a000], Count,
    Syscall NR_pwrite64 [Reg 0, Write_buf, Imm 0x200, Imm 0x1e21a000], Count,
    Syscall NR_pwrite64 [Reg 0, Write_buf, Imm 0x200, Imm 0x1e21a200], Count,
    Syscall NR_pwrite64 [Reg 0, Write_buf, Imm 0x200, Imm 0x1e21a400], Count,
    Syscall NR_pwrite64 [Reg 0, Write_buf, Imm 0x200, Imm 0x1e21a400], Count,
    Syscall NR_pwrite64 [Reg 0, Write_buf, Imm 0x600, Imm 0x1e21a400], Count]"

definition min_mysql_pwrite64_openat_0_0_body257 :: "stmt list" where
  "min_mysql_pwrite64_openat_0_0_body257 = [
    Syscall NR_pwrite64 [Reg 0, Write_buf, Imm 0x200, Imm 0x1e21aa00], Count,
    Syscall NR_pwrite64 [Reg 0, Write_buf, Imm 0x200, Imm 0x1e21aa00], Count,
    Syscall NR_pwrite64 [Reg 0, Write_buf, Imm 0x200, Imm 0x1e21ac00], Count,
    Syscall NR_pwrite64 [Reg 0, Write_buf, Imm 0x200, Imm 0x1e21ac00], Count,
    Syscall NR_pwrite64 [Reg 0, Write_buf, Imm 0x200, Imm 0x1e21ac00], Count,
    Syscall NR_pwrite64 [Reg 0, Write_buf, Imm 0x200, Imm 0x1e21ae00], Count,
    Syscall NR_pwrite64 [Reg 0, Write_buf, Imm 0x200, Imm 0x1e21ae00], Count,
    Syscall NR_pwrite64 [Reg 0, Write_buf, Imm 0x200, Imm 0x1e21b000], Count,
    Syscall NR_pwrite64 [Reg 0, Write_buf, Imm 0x200, Imm 0x1e21b200], Count,
    Syscall NR_pwrite64 [Reg 0, Write_buf, Imm 0x600, Imm 0x1e21b200], Count,
    Syscall NR_pwrite64 [Reg 0, Write_buf, Imm 0x800, Imm 0x1e21b800], Count,
    Syscall NR_pwrite64 [Reg 0, Write_buf, Imm 0x2000, Imm 0x1e21c000], Count,
    Syscall NR_pwrite64 [Reg 0, Write_buf, Imm 0x1000, Imm 0x1e21c800], Count]"

definition min_mysql_pwrite64_openat_0_0_body258 :: "stmt list" where
  "min_mysql_pwrite64_openat_0_0_body258 = [
    Syscall NR_pwrite64 [Reg 0, Write_buf, Imm 0x800, Imm 0x1e21d800], Count,
    Syscall NR_pwrite64 [Reg 0, Write_buf, Imm 0x2000, Imm 0x1e21e000], Count,
    Syscall NR_pwrite64 [Reg 0, Write_buf, Imm 0xa00, Imm 0x1e21e800], Count,
    Syscall NR_pwrite64 [Reg 0, Write_buf, Imm 0x200, Imm 0x1e21f200], Count,
    Syscall NR_pwrite64 [Reg 0, Write_buf, Imm 0x200, Imm 0x1e21f400], Count,
    Syscall NR_pwrite64 [Reg 0, Write_buf, Imm 0x400, Imm 0x1e21f600], Count,
    Syscall NR_pwrite64 [Reg 0, Write_buf, Imm 0x200, Imm 0x1e21fa00], Count,
    Syscall NR_pwrite64 [Reg 0, Write_buf, Imm 0x200, Imm 0x1e21fa00], Count,
    Syscall NR_pwrite64 [Reg 0, Write_buf, Imm 0x200, Imm 0x1e21fa00], Count,
    Syscall NR_pwrite64 [Reg 0, Write_buf, Imm 0x200, Imm 0x1e21fa00], Count,
    Syscall NR_pwrite64 [Reg 0, Write_buf, Imm 0x200, Imm 0x1e21fc00], Count,
    Syscall NR_pwrite64 [Reg 0, Write_buf, Imm 0x200, Imm 0x1e21fc00], Count,
    Syscall NR_pwrite64 [Reg 0, Write_buf, Imm 0x200, Imm 0x1e21fc00], Count]"

definition min_mysql_pwrite64_openat_0_0_body259 :: "stmt list" where
  "min_mysql_pwrite64_openat_0_0_body259 = [
    Syscall NR_pwrite64 [Reg 0, Write_buf, Imm 0x200, Imm 0x1e21fe00], Count,
    Syscall NR_pwrite64 [Reg 0, Write_buf, Imm 0x200, Imm 0x1e21fe00], Count,
    Syscall NR_pwrite64 [Reg 0, Write_buf, Imm 0x2000, Imm 0x1e220000], Count,
    Syscall NR_pwrite64 [Reg 0, Write_buf, Imm 0x400, Imm 0x1e220200], Count,
    Syscall NR_pwrite64 [Reg 0, Write_buf, Imm 0x200, Imm 0x1e220600], Count,
    Syscall NR_pwrite64 [Reg 0, Write_buf, Imm 0x200, Imm 0x1e220800], Count,
    Syscall NR_pwrite64 [Reg 0, Write_buf, Imm 0x200, Imm 0x1e220a00], Count,
    Syscall NR_pwrite64 [Reg 0, Write_buf, Imm 0x200, Imm 0x1e220c00], Count,
    Syscall NR_pwrite64 [Reg 0, Write_buf, Imm 0x200, Imm 0x1e220c00], Count,
    Syscall NR_pwrite64 [Reg 0, Write_buf, Imm 0x400, Imm 0x1e220e00], Count,
    Syscall NR_pwrite64 [Reg 0, Write_buf, Imm 0x200, Imm 0x1e221200], Count,
    Syscall NR_pwrite64 [Reg 0, Write_buf, Imm 0x200, Imm 0x1e221200], Count,
    Syscall NR_pwrite64 [Reg 0, Write_buf, Imm 0x200, Imm 0x1e221400], Count]"

definition min_mysql_pwrite64_openat_0_0_body260 :: "stmt list" where
  "min_mysql_pwrite64_openat_0_0_body260 = [
    Syscall NR_pwrite64 [Reg 0, Write_buf, Imm 0x200, Imm 0x1e221600], Count,
    Syscall NR_pwrite64 [Reg 0, Write_buf, Imm 0x200, Imm 0x1e221800], Count,
    Syscall NR_pwrite64 [Reg 0, Write_buf, Imm 0x200, Imm 0x1e221a00], Count,
    Syscall NR_pwrite64 [Reg 0, Write_buf, Imm 0x200, Imm 0x1e221a00], Count,
    Syscall NR_pwrite64 [Reg 0, Write_buf, Imm 0x200, Imm 0x1e221c00], Count,
    Syscall NR_pwrite64 [Reg 0, Write_buf, Imm 0x200, Imm 0x1e221c00], Count,
    Syscall NR_pwrite64 [Reg 0, Write_buf, Imm 0x200, Imm 0x1e221e00], Count,
    Syscall NR_pwrite64 [Reg 0, Write_buf, Imm 0x200, Imm 0x1e221e00], Count,
    Syscall NR_pwrite64 [Reg 0, Write_buf, Imm 0x2000, Imm 0x1e222000], Count,
    Syscall NR_pwrite64 [Reg 0, Write_buf, Imm 0x400, Imm 0x1e222600], Count,
    Syscall NR_pwrite64 [Reg 0, Write_buf, Imm 0x200, Imm 0x1e222a00], Count,
    Syscall NR_pwrite64 [Reg 0, Write_buf, Imm 0x400, Imm 0x1e222c00], Count,
    Syscall NR_pwrite64 [Reg 0, Write_buf, Imm 0x200, Imm 0x1e223000], Count]"

definition min_mysql_pwrite64_openat_0_0_body261 :: "stmt list" where
  "min_mysql_pwrite64_openat_0_0_body261 = [
    Syscall NR_pwrite64 [Reg 0, Write_buf, Imm 0x400, Imm 0x1e223000], Count,
    Syscall NR_pwrite64 [Reg 0, Write_buf, Imm 0x200, Imm 0x1e223400], Count,
    Syscall NR_pwrite64 [Reg 0, Write_buf, Imm 0x400, Imm 0x1e223600], Count,
    Syscall NR_pwrite64 [Reg 0, Write_buf, Imm 0x200, Imm 0x1e223a00], Count,
    Syscall NR_pwrite64 [Reg 0, Write_buf, Imm 0x200, Imm 0x1e223a00], Count,
    Syscall NR_pwrite64 [Reg 0, Write_buf, Imm 0x200, Imm 0x1e223c00], Count,
    Syscall NR_pwrite64 [Reg 0, Write_buf, Imm 0x200, Imm 0x1e223c00], Count,
    Syscall NR_pwrite64 [Reg 0, Write_buf, Imm 0x200, Imm 0x1e223e00], Count,
    Syscall NR_pwrite64 [Reg 0, Write_buf, Imm 0x200, Imm 0x1e223e00], Count,
    Syscall NR_pwrite64 [Reg 0, Write_buf, Imm 0x200, Imm 0x1e223e00], Count,
    Syscall NR_pwrite64 [Reg 0, Write_buf, Imm 0x2000, Imm 0x1e224000], Count,
    Syscall NR_pwrite64 [Reg 0, Write_buf, Imm 0x400, Imm 0x1e224000], Count,
    Syscall NR_pwrite64 [Reg 0, Write_buf, Imm 0x200, Imm 0x1e224400], Count]"

definition min_mysql_pwrite64_openat_0_0_body262 :: "stmt list" where
  "min_mysql_pwrite64_openat_0_0_body262 = [
    Syscall NR_pwrite64 [Reg 0, Write_buf, Imm 0x200, Imm 0x1e224400], Count,
    Syscall NR_pwrite64 [Reg 0, Write_buf, Imm 0x200, Imm 0x1e224400], Count,
    Syscall NR_pwrite64 [Reg 0, Write_buf, Imm 0x200, Imm 0x1e224600], Count,
    Syscall NR_pwrite64 [Reg 0, Write_buf, Imm 0x200, Imm 0x1e224800], Count,
    Syscall NR_pwrite64 [Reg 0, Write_buf, Imm 0x200, Imm 0x1e224800], Count,
    Syscall NR_pwrite64 [Reg 0, Write_buf, Imm 0x200, Imm 0x1e224800], Count,
    Syscall NR_pwrite64 [Reg 0, Write_buf, Imm 0x200, Imm 0x1e224a00], Count,
    Syscall NR_pwrite64 [Reg 0, Write_buf, Imm 0x200, Imm 0x1e224a00], Count,
    Syscall NR_pwrite64 [Reg 0, Write_buf, Imm 0x200, Imm 0x1e224a00], Count,
    Syscall NR_pwrite64 [Reg 0, Write_buf, Imm 0x200, Imm 0x1e224c00], Count,
    Syscall NR_pwrite64 [Reg 0, Write_buf, Imm 0x400, Imm 0x1e224c00], Count,
    Syscall NR_pwrite64 [Reg 0, Write_buf, Imm 0x200, Imm 0x1e225000], Count,
    Syscall NR_pwrite64 [Reg 0, Write_buf, Imm 0x200, Imm 0x1e225200], Count]"

definition min_mysql_pwrite64_openat_0_0_body263 :: "stmt list" where
  "min_mysql_pwrite64_openat_0_0_body263 = [
    Syscall NR_pwrite64 [Reg 0, Write_buf, Imm 0x200, Imm 0x1e225200], Count,
    Syscall NR_pwrite64 [Reg 0, Write_buf, Imm 0x200, Imm 0x1e225400], Count,
    Syscall NR_pwrite64 [Reg 0, Write_buf, Imm 0x200, Imm 0x1e225600], Count,
    Syscall NR_pwrite64 [Reg 0, Write_buf, Imm 0x400, Imm 0x1e225600], Count,
    Syscall NR_pwrite64 [Reg 0, Write_buf, Imm 0x600, Imm 0x1e225a00], Count,
    Syscall NR_pwrite64 [Reg 0, Write_buf, Imm 0x2000, Imm 0x1e226000], Count,
    Syscall NR_pwrite64 [Reg 0, Write_buf, Imm 0x1000, Imm 0x1e226800], Count,
    Syscall NR_pwrite64 [Reg 0, Write_buf, Imm 0x800, Imm 0x1e227800], Count,
    Syscall NR_pwrite64 [Reg 0, Write_buf, Imm 0x2000, Imm 0x1e228000], Count,
    Syscall NR_pwrite64 [Reg 0, Write_buf, Imm 0xc00, Imm 0x1e229400], Count,
    Syscall NR_pwrite64 [Reg 0, Write_buf, Imm 0x2000, Imm 0x1e22a000], Count,
    Syscall NR_pwrite64 [Reg 0, Write_buf, Imm 0xa00, Imm 0x1e22ae00], Count,
    Syscall NR_pwrite64 [Reg 0, Write_buf, Imm 0x800, Imm 0x1e22b800], Count]"

definition min_mysql_pwrite64_openat_0_0_body264 :: "stmt list" where
  "min_mysql_pwrite64_openat_0_0_body264 = [
    Syscall NR_pwrite64 [Reg 0, Write_buf, Imm 0x2000, Imm 0x1e22c000], Count,
    Syscall NR_pwrite64 [Reg 0, Write_buf, Imm 0x800, Imm 0x1e22ca00], Count,
    Syscall NR_pwrite64 [Reg 0, Write_buf, Imm 0x600, Imm 0x1e22d200], Count,
    Syscall NR_pwrite64 [Reg 0, Write_buf, Imm 0x200, Imm 0x1e22d800], Count,
    Syscall NR_pwrite64 [Reg 0, Write_buf, Imm 0x200, Imm 0x1e22da00], Count,
    Syscall NR_pwrite64 [Reg 0, Write_buf, Imm 0x200, Imm 0x1e22dc00], Count,
    Syscall NR_pwrite64 [Reg 0, Write_buf, Imm 0x200, Imm 0x1e22de00], Count,
    Syscall NR_pwrite64 [Reg 0, Write_buf, Imm 0x200, Imm 0x1e22de00], Count,
    Syscall NR_pwrite64 [Reg 0, Write_buf, Imm 0x2000, Imm 0x1e22e000], Count,
    Syscall NR_pwrite64 [Reg 0, Write_buf, Imm 0x400, Imm 0x1e22e000], Count,
    Syscall NR_pwrite64 [Reg 0, Write_buf, Imm 0x200, Imm 0x1e22e400], Count,
    Syscall NR_pwrite64 [Reg 0, Write_buf, Imm 0x400, Imm 0x1e22e400], Count,
    Syscall NR_pwrite64 [Reg 0, Write_buf, Imm 0x200, Imm 0x1e22e800], Count]"

definition min_mysql_pwrite64_openat_0_0_body265 :: "stmt list" where
  "min_mysql_pwrite64_openat_0_0_body265 = [
    Syscall NR_pwrite64 [Reg 0, Write_buf, Imm 0x200, Imm 0x1e22e800], Count,
    Syscall NR_pwrite64 [Reg 0, Write_buf, Imm 0x200, Imm 0x1e22ea00], Count,
    Syscall NR_pwrite64 [Reg 0, Write_buf, Imm 0x200, Imm 0x1e22ea00], Count,
    Syscall NR_pwrite64 [Reg 0, Write_buf, Imm 0x200, Imm 0x1e22ec00], Count,
    Syscall NR_pwrite64 [Reg 0, Write_buf, Imm 0x200, Imm 0x1e22ee00], Count,
    Syscall NR_pwrite64 [Reg 0, Write_buf, Imm 0x200, Imm 0x1e22f000], Count,
    Syscall NR_pwrite64 [Reg 0, Write_buf, Imm 0x200, Imm 0x1e22f200], Count,
    Syscall NR_pwrite64 [Reg 0, Write_buf, Imm 0x200, Imm 0x1e22f400], Count,
    Syscall NR_pwrite64 [Reg 0, Write_buf, Imm 0x200, Imm 0x1e22f600], Count,
    Syscall NR_pwrite64 [Reg 0, Write_buf, Imm 0x200, Imm 0x1e22f600], Count,
    Syscall NR_pwrite64 [Reg 0, Write_buf, Imm 0x400, Imm 0x1e22f800], Count,
    Syscall NR_pwrite64 [Reg 0, Write_buf, Imm 0x400, Imm 0x1e22fc00], Count,
    Syscall NR_pwrite64 [Reg 0, Write_buf, Imm 0x2000, Imm 0x1e230000], Count]"

definition min_mysql_pwrite64_openat_0_0_body266 :: "stmt list" where
  "min_mysql_pwrite64_openat_0_0_body266 = [
    Syscall NR_pwrite64 [Reg 0, Write_buf, Imm 0x200, Imm 0x1e230600], Count,
    Syscall NR_pwrite64 [Reg 0, Write_buf, Imm 0x400, Imm 0x1e230800], Count,
    Syscall NR_pwrite64 [Reg 0, Write_buf, Imm 0x200, Imm 0x1e230c00], Count,
    Syscall NR_pwrite64 [Reg 0, Write_buf, Imm 0x200, Imm 0x1e230c00], Count,
    Syscall NR_pwrite64 [Reg 0, Write_buf, Imm 0x200, Imm 0x1e230e00], Count,
    Syscall NR_pwrite64 [Reg 0, Write_buf, Imm 0x200, Imm 0x1e231000], Count,
    Syscall NR_pwrite64 [Reg 0, Write_buf, Imm 0x200, Imm 0x1e231000], Count,
    Syscall NR_pwrite64 [Reg 0, Write_buf, Imm 0x600, Imm 0x1e231200], Count,
    Syscall NR_pwrite64 [Reg 0, Write_buf, Imm 0x200, Imm 0x1e231800], Count,
    Syscall NR_pwrite64 [Reg 0, Write_buf, Imm 0x200, Imm 0x1e231a00], Count,
    Syscall NR_pwrite64 [Reg 0, Write_buf, Imm 0x200, Imm 0x1e231c00], Count,
    Syscall NR_pwrite64 [Reg 0, Write_buf, Imm 0x200, Imm 0x1e231c00], Count,
    Syscall NR_pwrite64 [Reg 0, Write_buf, Imm 0x200, Imm 0x1e231e00], Count]"

definition min_mysql_pwrite64_openat_0_0_body267 :: "stmt list" where
  "min_mysql_pwrite64_openat_0_0_body267 = [
    Syscall NR_pwrite64 [Reg 0, Write_buf, Imm 0x2000, Imm 0x1e232000], Count,
    Syscall NR_pwrite64 [Reg 0, Write_buf, Imm 0x200, Imm 0x1e232000], Count,
    Syscall NR_pwrite64 [Reg 0, Write_buf, Imm 0x200, Imm 0x1e232000], Count,
    Syscall NR_pwrite64 [Reg 0, Write_buf, Imm 0x400, Imm 0x1e232000], Count,
    Syscall NR_pwrite64 [Reg 0, Write_buf, Imm 0x200, Imm 0x1e232400], Count,
    Syscall NR_pwrite64 [Reg 0, Write_buf, Imm 0x200, Imm 0x1e232600], Count,
    Syscall NR_pwrite64 [Reg 0, Write_buf, Imm 0x200, Imm 0x1e232600], Count,
    Syscall NR_pwrite64 [Reg 0, Write_buf, Imm 0x200, Imm 0x1e232800], Count,
    Syscall NR_pwrite64 [Reg 0, Write_buf, Imm 0x400, Imm 0x1e232800], Count,
    Syscall NR_pwrite64 [Reg 0, Write_buf, Imm 0x200, Imm 0x1e232c00], Count,
    Syscall NR_pwrite64 [Reg 0, Write_buf, Imm 0x800, Imm 0x1e232c00], Count,
    Syscall NR_pwrite64 [Reg 0, Write_buf, Imm 0x200, Imm 0x1e233400], Count,
    Syscall NR_pwrite64 [Reg 0, Write_buf, Imm 0x200, Imm 0x1e233400], Count]"

definition min_mysql_pwrite64_openat_0_0_body268 :: "stmt list" where
  "min_mysql_pwrite64_openat_0_0_body268 = [
    Syscall NR_pwrite64 [Reg 0, Write_buf, Imm 0x200, Imm 0x1e233600], Count,
    Syscall NR_pwrite64 [Reg 0, Write_buf, Imm 0x200, Imm 0x1e233600], Count,
    Syscall NR_pwrite64 [Reg 0, Write_buf, Imm 0x200, Imm 0x1e233800], Count,
    Syscall NR_pwrite64 [Reg 0, Write_buf, Imm 0x200, Imm 0x1e233800], Count,
    Syscall NR_pwrite64 [Reg 0, Write_buf, Imm 0x200, Imm 0x1e233a00], Count,
    Syscall NR_pwrite64 [Reg 0, Write_buf, Imm 0x200, Imm 0x1e233c00], Count,
    Syscall NR_pwrite64 [Reg 0, Write_buf, Imm 0x200, Imm 0x1e233c00], Count,
    Syscall NR_pwrite64 [Reg 0, Write_buf, Imm 0x200, Imm 0x1e233e00], Count,
    Syscall NR_pwrite64 [Reg 0, Write_buf, Imm 0x200, Imm 0x1e233e00], Count,
    Syscall NR_pwrite64 [Reg 0, Write_buf, Imm 0x200, Imm 0x1e233e00], Count,
    Syscall NR_pwrite64 [Reg 0, Write_buf, Imm 0x2000, Imm 0x1e234000], Count,
    Syscall NR_pwrite64 [Reg 0, Write_buf, Imm 0x200, Imm 0x1e234000], Count,
    Syscall NR_pwrite64 [Reg 0, Write_buf, Imm 0x200, Imm 0x1e234200], Count]"

definition min_mysql_pwrite64_openat_0_0_body269 :: "stmt list" where
  "min_mysql_pwrite64_openat_0_0_body269 = [
    Syscall NR_pwrite64 [Reg 0, Write_buf, Imm 0x200, Imm 0x1e234200], Count,
    Syscall NR_pwrite64 [Reg 0, Write_buf, Imm 0x200, Imm 0x1e234400], Count,
    Syscall NR_pwrite64 [Reg 0, Write_buf, Imm 0x200, Imm 0x1e234600], Count,
    Syscall NR_pwrite64 [Reg 0, Write_buf, Imm 0x200, Imm 0x1e234600], Count,
    Syscall NR_pwrite64 [Reg 0, Write_buf, Imm 0x200, Imm 0x1e234800], Count,
    Syscall NR_pwrite64 [Reg 0, Write_buf, Imm 0x200, Imm 0x1e234800], Count,
    Syscall NR_pwrite64 [Reg 0, Write_buf, Imm 0x200, Imm 0x1e234a00], Count,
    Syscall NR_pwrite64 [Reg 0, Write_buf, Imm 0x200, Imm 0x1e234a00], Count,
    Syscall NR_pwrite64 [Reg 0, Write_buf, Imm 0x200, Imm 0x1e234c00], Count,
    Syscall NR_pwrite64 [Reg 0, Write_buf, Imm 0x200, Imm 0x1e234e00], Count,
    Syscall NR_pwrite64 [Reg 0, Write_buf, Imm 0x200, Imm 0x1e234e00], Count,
    Syscall NR_pwrite64 [Reg 0, Write_buf, Imm 0x200, Imm 0x1e235000], Count,
    Syscall NR_pwrite64 [Reg 0, Write_buf, Imm 0x200, Imm 0x1e235000], Count]"

definition min_mysql_pwrite64_openat_0_0_body270 :: "stmt list" where
  "min_mysql_pwrite64_openat_0_0_body270 = [
    Syscall NR_pwrite64 [Reg 0, Write_buf, Imm 0x200, Imm 0x1e235200], Count,
    Syscall NR_pwrite64 [Reg 0, Write_buf, Imm 0x400, Imm 0x1e235400], Count,
    Syscall NR_pwrite64 [Reg 0, Write_buf, Imm 0x800, Imm 0x1e235800], Count,
    Syscall NR_pwrite64 [Reg 0, Write_buf, Imm 0x2000, Imm 0x1e236000], Count,
    Syscall NR_pwrite64 [Reg 0, Write_buf, Imm 0x200, Imm 0x1e236200], Count,
    Syscall NR_pwrite64 [Reg 0, Write_buf, Imm 0x200, Imm 0x1e236400], Count,
    Syscall NR_pwrite64 [Reg 0, Write_buf, Imm 0x200, Imm 0x1e236600], Count,
    Syscall NR_pwrite64 [Reg 0, Write_buf, Imm 0x600, Imm 0x1e236800], Count,
    Syscall NR_pwrite64 [Reg 0, Write_buf, Imm 0x600, Imm 0x1e236e00], Count,
    Syscall NR_pwrite64 [Reg 0, Write_buf, Imm 0x800, Imm 0x1e237400], Count,
    Syscall NR_pwrite64 [Reg 0, Write_buf, Imm 0x200, Imm 0x1e237c00], Count,
    Syscall NR_pwrite64 [Reg 0, Write_buf, Imm 0x200, Imm 0x1e237e00], Count,
    Syscall NR_pwrite64 [Reg 0, Write_buf, Imm 0x200, Imm 0x1e237e00], Count]"

definition min_mysql_pwrite64_openat_0_0_body271 :: "stmt list" where
  "min_mysql_pwrite64_openat_0_0_body271 = [
    Syscall NR_pwrite64 [Reg 0, Write_buf, Imm 0x2000, Imm 0x1e238000], Count,
    Syscall NR_pwrite64 [Reg 0, Write_buf, Imm 0x200, Imm 0x1e238200], Count,
    Syscall NR_pwrite64 [Reg 0, Write_buf, Imm 0x200, Imm 0x1e238200], Count,
    Syscall NR_pwrite64 [Reg 0, Write_buf, Imm 0x200, Imm 0x1e238400], Count,
    Syscall NR_pwrite64 [Reg 0, Write_buf, Imm 0x200, Imm 0x1e238600], Count,
    Syscall NR_pwrite64 [Reg 0, Write_buf, Imm 0x200, Imm 0x1e238600], Count,
    Syscall NR_pwrite64 [Reg 0, Write_buf, Imm 0x200, Imm 0x1e238800], Count,
    Syscall NR_pwrite64 [Reg 0, Write_buf, Imm 0x200, Imm 0x1e238a00], Count,
    Syscall NR_pwrite64 [Reg 0, Write_buf, Imm 0x200, Imm 0x1e238c00], Count,
    Syscall NR_pwrite64 [Reg 0, Write_buf, Imm 0x200, Imm 0x1e238c00], Count,
    Syscall NR_pwrite64 [Reg 0, Write_buf, Imm 0x200, Imm 0x1e238e00], Count,
    Syscall NR_pwrite64 [Reg 0, Write_buf, Imm 0x200, Imm 0x1e239000], Count,
    Syscall NR_pwrite64 [Reg 0, Write_buf, Imm 0x400, Imm 0x1e239000], Count]"

definition min_mysql_pwrite64_openat_0_0_body272 :: "stmt list" where
  "min_mysql_pwrite64_openat_0_0_body272 = [
    Syscall NR_pwrite64 [Reg 0, Write_buf, Imm 0x400, Imm 0x1e239400], Count,
    Syscall NR_pwrite64 [Reg 0, Write_buf, Imm 0x200, Imm 0x1e239800], Count,
    Syscall NR_pwrite64 [Reg 0, Write_buf, Imm 0x200, Imm 0x1e239a00], Count,
    Syscall NR_pwrite64 [Reg 0, Write_buf, Imm 0x200, Imm 0x1e239c00], Count,
    Syscall NR_pwrite64 [Reg 0, Write_buf, Imm 0x200, Imm 0x1e239e00], Count,
    Syscall NR_pwrite64 [Reg 0, Write_buf, Imm 0x2000, Imm 0x1e23a000], Count,
    Syscall NR_pwrite64 [Reg 0, Write_buf, Imm 0x800, Imm 0x1e23a200], Count,
    Syscall NR_pwrite64 [Reg 0, Write_buf, Imm 0x800, Imm 0x1e23aa00], Count,
    Syscall NR_pwrite64 [Reg 0, Write_buf, Imm 0xa00, Imm 0x1e23b200], Count,
    Syscall NR_pwrite64 [Reg 0, Write_buf, Imm 0x400, Imm 0x1e23bc00], Count,
    Syscall NR_pwrite64 [Reg 0, Write_buf, Imm 0x2000, Imm 0x1e23c000], Count,
    Syscall NR_pwrite64 [Reg 0, Write_buf, Imm 0x400, Imm 0x1e23c600], Count,
    Syscall NR_pwrite64 [Reg 0, Write_buf, Imm 0x200, Imm 0x1e23ca00], Count]"

definition min_mysql_pwrite64_openat_0_0_body273 :: "stmt list" where
  "min_mysql_pwrite64_openat_0_0_body273 = [
    Syscall NR_pwrite64 [Reg 0, Write_buf, Imm 0x200, Imm 0x1e23cc00], Count,
    Syscall NR_pwrite64 [Reg 0, Write_buf, Imm 0x200, Imm 0x1e23cc00], Count,
    Syscall NR_pwrite64 [Reg 0, Write_buf, Imm 0x200, Imm 0x1e23ce00], Count,
    Syscall NR_pwrite64 [Reg 0, Write_buf, Imm 0x400, Imm 0x1e23ce00], Count,
    Syscall NR_pwrite64 [Reg 0, Write_buf, Imm 0x200, Imm 0x1e23d200], Count,
    Syscall NR_pwrite64 [Reg 0, Write_buf, Imm 0x200, Imm 0x1e23d200], Count,
    Syscall NR_pwrite64 [Reg 0, Write_buf, Imm 0x200, Imm 0x1e23d400], Count,
    Syscall NR_pwrite64 [Reg 0, Write_buf, Imm 0x600, Imm 0x1e23d400], Count,
    Syscall NR_pwrite64 [Reg 0, Write_buf, Imm 0x200, Imm 0x1e23da00], Count,
    Syscall NR_pwrite64 [Reg 0, Write_buf, Imm 0x400, Imm 0x1e23da00], Count,
    Syscall NR_pwrite64 [Reg 0, Write_buf, Imm 0x200, Imm 0x1e23de00], Count,
    Syscall NR_pwrite64 [Reg 0, Write_buf, Imm 0x2000, Imm 0x1e23e000], Count,
    Syscall NR_pwrite64 [Reg 0, Write_buf, Imm 0x400, Imm 0x1e23e000], Count]"

definition min_mysql_pwrite64_openat_0_0_body274 :: "stmt list" where
  "min_mysql_pwrite64_openat_0_0_body274 = [
    Syscall NR_pwrite64 [Reg 0, Write_buf, Imm 0x200, Imm 0x1e23e400], Count,
    Syscall NR_pwrite64 [Reg 0, Write_buf, Imm 0x400, Imm 0x1e23e400], Count,
    Syscall NR_pwrite64 [Reg 0, Write_buf, Imm 0x400, Imm 0x1e23e800], Count,
    Syscall NR_pwrite64 [Reg 0, Write_buf, Imm 0x200, Imm 0x1e23ec00], Count,
    Syscall NR_pwrite64 [Reg 0, Write_buf, Imm 0x800, Imm 0x1e23ec00], Count,
    Syscall NR_pwrite64 [Reg 0, Write_buf, Imm 0x200, Imm 0x1e23f400], Count,
    Syscall NR_pwrite64 [Reg 0, Write_buf, Imm 0x200, Imm 0x1e23f600], Count,
    Syscall NR_pwrite64 [Reg 0, Write_buf, Imm 0x200, Imm 0x1e23f800], Count,
    Syscall NR_pwrite64 [Reg 0, Write_buf, Imm 0x200, Imm 0x1e23f800], Count,
    Syscall NR_pwrite64 [Reg 0, Write_buf, Imm 0x200, Imm 0x1e23f800], Count,
    Syscall NR_pwrite64 [Reg 0, Write_buf, Imm 0x200, Imm 0x1e23fa00], Count,
    Syscall NR_pwrite64 [Reg 0, Write_buf, Imm 0x200, Imm 0x1e23fa00], Count,
    Syscall NR_pwrite64 [Reg 0, Write_buf, Imm 0x200, Imm 0x1e23fa00], Count]"

definition min_mysql_pwrite64_openat_0_0_body275 :: "stmt list" where
  "min_mysql_pwrite64_openat_0_0_body275 = [
    Syscall NR_pwrite64 [Reg 0, Write_buf, Imm 0x200, Imm 0x1e23fc00], Count,
    Syscall NR_pwrite64 [Reg 0, Write_buf, Imm 0x200, Imm 0x1e23fc00], Count,
    Syscall NR_pwrite64 [Reg 0, Write_buf, Imm 0x200, Imm 0x1e23fc00], Count,
    Syscall NR_pwrite64 [Reg 0, Write_buf, Imm 0x200, Imm 0x1e23fc00], Count,
    Syscall NR_pwrite64 [Reg 0, Write_buf, Imm 0x200, Imm 0x1e23fe00], Count,
    Syscall NR_pwrite64 [Reg 0, Write_buf, Imm 0x200, Imm 0x1e23fe00], Count,
    Syscall NR_pwrite64 [Reg 0, Write_buf, Imm 0x200, Imm 0x1e23fe00], Count,
    Syscall NR_pwrite64 [Reg 0, Write_buf, Imm 0x2000, Imm 0x1e240000], Count,
    Syscall NR_pwrite64 [Reg 0, Write_buf, Imm 0x200, Imm 0x1e240400], Count,
    Syscall NR_pwrite64 [Reg 0, Write_buf, Imm 0x200, Imm 0x1e240600], Count,
    Syscall NR_pwrite64 [Reg 0, Write_buf, Imm 0x600, Imm 0x1e240600], Count,
    Syscall NR_pwrite64 [Reg 0, Write_buf, Imm 0x600, Imm 0x1e240c00], Count,
    Syscall NR_pwrite64 [Reg 0, Write_buf, Imm 0x800, Imm 0x1e241200], Count]"

definition min_mysql_pwrite64_openat_0_0_body276 :: "stmt list" where
  "min_mysql_pwrite64_openat_0_0_body276 = [
    Syscall NR_pwrite64 [Reg 0, Write_buf, Imm 0x400, Imm 0x1e241a00], Count,
    Syscall NR_pwrite64 [Reg 0, Write_buf, Imm 0x200, Imm 0x1e241e00], Count,
    Syscall NR_pwrite64 [Reg 0, Write_buf, Imm 0x2000, Imm 0x1e242000], Count,
    Syscall NR_pwrite64 [Reg 0, Write_buf, Imm 0xa00, Imm 0x1e242800], Count,
    Syscall NR_pwrite64 [Reg 0, Write_buf, Imm 0x600, Imm 0x1e243200], Count,
    Syscall NR_pwrite64 [Reg 0, Write_buf, Imm 0x200, Imm 0x1e243800], Count,
    Syscall NR_pwrite64 [Reg 0, Write_buf, Imm 0x400, Imm 0x1e243a00], Count,
    Syscall NR_pwrite64 [Reg 0, Write_buf, Imm 0x200, Imm 0x1e243e00], Count,
    Syscall NR_pwrite64 [Reg 0, Write_buf, Imm 0x2000, Imm 0x1e244000], Count,
    Syscall NR_pwrite64 [Reg 0, Write_buf, Imm 0x400, Imm 0x1e244e00], Count,
    Syscall NR_pwrite64 [Reg 0, Write_buf, Imm 0x800, Imm 0x1e245200], Count,
    Syscall NR_pwrite64 [Reg 0, Write_buf, Imm 0x200, Imm 0x1e245a00], Count,
    Syscall NR_pwrite64 [Reg 0, Write_buf, Imm 0x400, Imm 0x1e245c00], Count]"

definition min_mysql_pwrite64_openat_0_0_body277 :: "stmt list" where
  "min_mysql_pwrite64_openat_0_0_body277 = [
    Syscall NR_pwrite64 [Reg 0, Write_buf, Imm 0x2000, Imm 0x1e246000], Count,
    Syscall NR_pwrite64 [Reg 0, Write_buf, Imm 0x600, Imm 0x1e246400], Count,
    Syscall NR_pwrite64 [Reg 0, Write_buf, Imm 0x400, Imm 0x1e246a00], Count,
    Syscall NR_pwrite64 [Reg 0, Write_buf, Imm 0x200, Imm 0x1e246e00], Count,
    Syscall NR_pwrite64 [Reg 0, Write_buf, Imm 0x200, Imm 0x1e246e00], Count,
    Syscall NR_pwrite64 [Reg 0, Write_buf, Imm 0x200, Imm 0x1e247000], Count,
    Syscall NR_pwrite64 [Reg 0, Write_buf, Imm 0x200, Imm 0x1e247000], Count,
    Syscall NR_pwrite64 [Reg 0, Write_buf, Imm 0x200, Imm 0x1e247200], Count,
    Syscall NR_pwrite64 [Reg 0, Write_buf, Imm 0x200, Imm 0x1e247200], Count,
    Syscall NR_pwrite64 [Reg 0, Write_buf, Imm 0x200, Imm 0x1e247200], Count,
    Syscall NR_pwrite64 [Reg 0, Write_buf, Imm 0x400, Imm 0x1e247400], Count,
    Syscall NR_pwrite64 [Reg 0, Write_buf, Imm 0x200, Imm 0x1e247800], Count,
    Syscall NR_pwrite64 [Reg 0, Write_buf, Imm 0x600, Imm 0x1e247800], Count]"

definition min_mysql_pwrite64_openat_0_0_body278 :: "stmt list" where
  "min_mysql_pwrite64_openat_0_0_body278 = [
    Syscall NR_pwrite64 [Reg 0, Write_buf, Imm 0x200, Imm 0x1e247e00], Count,
    Syscall NR_pwrite64 [Reg 0, Write_buf, Imm 0x2000, Imm 0x1e248000], Count,
    Syscall NR_pwrite64 [Reg 0, Write_buf, Imm 0x200, Imm 0x1e248400], Count,
    Syscall NR_pwrite64 [Reg 0, Write_buf, Imm 0x200, Imm 0x1e248600], Count,
    Syscall NR_pwrite64 [Reg 0, Write_buf, Imm 0xa00, Imm 0x1e248800], Count,
    Syscall NR_pwrite64 [Reg 0, Write_buf, Imm 0x400, Imm 0x1e249200], Count,
    Syscall NR_pwrite64 [Reg 0, Write_buf, Imm 0x200, Imm 0x1e249600], Count,
    Syscall NR_pwrite64 [Reg 0, Write_buf, Imm 0x200, Imm 0x1e249800], Count,
    Syscall NR_pwrite64 [Reg 0, Write_buf, Imm 0x200, Imm 0x1e249800], Count,
    Syscall NR_pwrite64 [Reg 0, Write_buf, Imm 0x200, Imm 0x1e249800], Count,
    Syscall NR_pwrite64 [Reg 0, Write_buf, Imm 0x200, Imm 0x1e249800], Count,
    Syscall NR_pwrite64 [Reg 0, Write_buf, Imm 0x200, Imm 0x1e249a00], Count,
    Syscall NR_pwrite64 [Reg 0, Write_buf, Imm 0x200, Imm 0x1e249a00], Count]"

definition min_mysql_pwrite64_openat_0_0_body279 :: "stmt list" where
  "min_mysql_pwrite64_openat_0_0_body279 = [
    Syscall NR_pwrite64 [Reg 0, Write_buf, Imm 0x200, Imm 0x1e249a00], Count,
    Syscall NR_pwrite64 [Reg 0, Write_buf, Imm 0x200, Imm 0x1e249a00], Count,
    Syscall NR_pwrite64 [Reg 0, Write_buf, Imm 0x200, Imm 0x1e249c00], Count,
    Syscall NR_pwrite64 [Reg 0, Write_buf, Imm 0x400, Imm 0x1e249c00], Count,
    Syscall NR_pwrite64 [Reg 0, Write_buf, Imm 0x2000, Imm 0x1e24a000], Count,
    Syscall NR_pwrite64 [Reg 0, Write_buf, Imm 0x600, Imm 0x1e24a200], Count,
    Syscall NR_pwrite64 [Reg 0, Write_buf, Imm 0x600, Imm 0x1e24a800], Count,
    Syscall NR_pwrite64 [Reg 0, Write_buf, Imm 0x800, Imm 0x1e24ae00], Count,
    Syscall NR_pwrite64 [Reg 0, Write_buf, Imm 0x400, Imm 0x1e24b600], Count,
    Syscall NR_pwrite64 [Reg 0, Write_buf, Imm 0x400, Imm 0x1e24ba00], Count,
    Syscall NR_pwrite64 [Reg 0, Write_buf, Imm 0x200, Imm 0x1e24be00], Count,
    Syscall NR_pwrite64 [Reg 0, Write_buf, Imm 0x2000, Imm 0x1e24c000], Count,
    Syscall NR_pwrite64 [Reg 0, Write_buf, Imm 0x200, Imm 0x1e24ca00], Count]"

definition min_mysql_pwrite64_openat_0_0_body280 :: "stmt list" where
  "min_mysql_pwrite64_openat_0_0_body280 = [
    Syscall NR_pwrite64 [Reg 0, Write_buf, Imm 0x800, Imm 0x1e24cc00], Count,
    Syscall NR_pwrite64 [Reg 0, Write_buf, Imm 0x200, Imm 0x1e24d400], Count,
    Syscall NR_pwrite64 [Reg 0, Write_buf, Imm 0x600, Imm 0x1e24d400], Count,
    Syscall NR_pwrite64 [Reg 0, Write_buf, Imm 0x400, Imm 0x1e24da00], Count,
    Syscall NR_pwrite64 [Reg 0, Write_buf, Imm 0x200, Imm 0x1e24de00], Count,
    Syscall NR_pwrite64 [Reg 0, Write_buf, Imm 0x2000, Imm 0x1e24e000], Count,
    Syscall NR_pwrite64 [Reg 0, Write_buf, Imm 0x400, Imm 0x1e24e400], Count,
    Syscall NR_pwrite64 [Reg 0, Write_buf, Imm 0x200, Imm 0x1e24e800], Count,
    Syscall NR_pwrite64 [Reg 0, Write_buf, Imm 0x200, Imm 0x1e24ea00], Count,
    Syscall NR_pwrite64 [Reg 0, Write_buf, Imm 0x200, Imm 0x1e24ec00], Count,
    Syscall NR_pwrite64 [Reg 0, Write_buf, Imm 0x400, Imm 0x1e24ec00], Count,
    Syscall NR_pwrite64 [Reg 0, Write_buf, Imm 0x200, Imm 0x1e24f000], Count,
    Syscall NR_pwrite64 [Reg 0, Write_buf, Imm 0x200, Imm 0x1e24f000], Count]"

definition min_mysql_pwrite64_openat_0_0_body281 :: "stmt list" where
  "min_mysql_pwrite64_openat_0_0_body281 = [
    Syscall NR_pwrite64 [Reg 0, Write_buf, Imm 0x200, Imm 0x1e24f000], Count,
    Syscall NR_pwrite64 [Reg 0, Write_buf, Imm 0x200, Imm 0x1e24f200], Count,
    Syscall NR_pwrite64 [Reg 0, Write_buf, Imm 0x600, Imm 0x1e24f200], Count,
    Syscall NR_pwrite64 [Reg 0, Write_buf, Imm 0x200, Imm 0x1e24f800], Count,
    Syscall NR_pwrite64 [Reg 0, Write_buf, Imm 0x200, Imm 0x1e24fa00], Count,
    Syscall NR_pwrite64 [Reg 0, Write_buf, Imm 0x200, Imm 0x1e24fa00], Count,
    Syscall NR_pwrite64 [Reg 0, Write_buf, Imm 0x400, Imm 0x1e24fc00], Count,
    Syscall NR_pwrite64 [Reg 0, Write_buf, Imm 0x2000, Imm 0x1e250000], Count,
    Syscall NR_pwrite64 [Reg 0, Write_buf, Imm 0x400, Imm 0x1e250200], Count,
    Syscall NR_pwrite64 [Reg 0, Write_buf, Imm 0x400, Imm 0x1e250600], Count,
    Syscall NR_pwrite64 [Reg 0, Write_buf, Imm 0x800, Imm 0x1e250a00], Count,
    Syscall NR_pwrite64 [Reg 0, Write_buf, Imm 0x600, Imm 0x1e251200], Count,
    Syscall NR_pwrite64 [Reg 0, Write_buf, Imm 0x800, Imm 0x1e251800], Count]"

definition min_mysql_pwrite64_openat_0_0_body282 :: "stmt list" where
  "min_mysql_pwrite64_openat_0_0_body282 = [
    Syscall NR_pwrite64 [Reg 0, Write_buf, Imm 0x2000, Imm 0x1e252000], Count,
    Syscall NR_pwrite64 [Reg 0, Write_buf, Imm 0xc00, Imm 0x1e252e00], Count,
    Syscall NR_pwrite64 [Reg 0, Write_buf, Imm 0x400, Imm 0x1e253a00], Count,
    Syscall NR_pwrite64 [Reg 0, Write_buf, Imm 0x200, Imm 0x1e253e00], Count,
    Syscall NR_pwrite64 [Reg 0, Write_buf, Imm 0x2000, Imm 0x1e254000], Count,
    Syscall NR_pwrite64 [Reg 0, Write_buf, Imm 0x200, Imm 0x1e254000], Count,
    Syscall NR_pwrite64 [Reg 0, Write_buf, Imm 0x200, Imm 0x1e254000], Count,
    Syscall NR_pwrite64 [Reg 0, Write_buf, Imm 0x200, Imm 0x1e254000], Count,
    Syscall NR_pwrite64 [Reg 0, Write_buf, Imm 0x200, Imm 0x1e254000], Count,
    Syscall NR_pwrite64 [Reg 0, Write_buf, Imm 0x200, Imm 0x1e254000], Count,
    Syscall NR_pwrite64 [Reg 0, Write_buf, Imm 0x200, Imm 0x1e254200], Count,
    Syscall NR_pwrite64 [Reg 0, Write_buf, Imm 0x200, Imm 0x1e254200], Count,
    Syscall NR_pwrite64 [Reg 0, Write_buf, Imm 0x200, Imm 0x1e254200], Count]"

definition min_mysql_pwrite64_openat_0_0_body283 :: "stmt list" where
  "min_mysql_pwrite64_openat_0_0_body283 = [
    Syscall NR_pwrite64 [Reg 0, Write_buf, Imm 0x200, Imm 0x1e254400], Count,
    Syscall NR_pwrite64 [Reg 0, Write_buf, Imm 0x200, Imm 0x1e254400], Count,
    Syscall NR_pwrite64 [Reg 0, Write_buf, Imm 0x600, Imm 0x1e254400], Count,
    Syscall NR_pwrite64 [Reg 0, Write_buf, Imm 0x200, Imm 0x1e254a00], Count,
    Syscall NR_pwrite64 [Reg 0, Write_buf, Imm 0x200, Imm 0x1e254c00], Count,
    Syscall NR_pwrite64 [Reg 0, Write_buf, Imm 0x200, Imm 0x1e254c00], Count,
    Syscall NR_pwrite64 [Reg 0, Write_buf, Imm 0x200, Imm 0x1e254e00], Count,
    Syscall NR_pwrite64 [Reg 0, Write_buf, Imm 0x200, Imm 0x1e255000], Count,
    Syscall NR_pwrite64 [Reg 0, Write_buf, Imm 0x200, Imm 0x1e255000], Count,
    Syscall NR_pwrite64 [Reg 0, Write_buf, Imm 0x400, Imm 0x1e255200], Count,
    Syscall NR_pwrite64 [Reg 0, Write_buf, Imm 0x400, Imm 0x1e255600], Count,
    Syscall NR_pwrite64 [Reg 0, Write_buf, Imm 0x400, Imm 0x1e255a00], Count,
    Syscall NR_pwrite64 [Reg 0, Write_buf, Imm 0x200, Imm 0x1e255e00], Count]"

definition min_mysql_pwrite64_openat_0_0_body284 :: "stmt list" where
  "min_mysql_pwrite64_openat_0_0_body284 = [
    Syscall NR_pwrite64 [Reg 0, Write_buf, Imm 0x2000, Imm 0x1e256000], Count,
    Syscall NR_pwrite64 [Reg 0, Write_buf, Imm 0xa00, Imm 0x1e256400], Count,
    Syscall NR_pwrite64 [Reg 0, Write_buf, Imm 0x200, Imm 0x1e256e00], Count,
    Syscall NR_pwrite64 [Reg 0, Write_buf, Imm 0x400, Imm 0x1e257000], Count,
    Syscall NR_pwrite64 [Reg 0, Write_buf, Imm 0xc00, Imm 0x1e257400], Count,
    Syscall NR_pwrite64 [Reg 0, Write_buf, Imm 0x2000, Imm 0x1e258000], Count,
    Syscall NR_pwrite64 [Reg 0, Write_buf, Imm 0x600, Imm 0x1e258c00], Count,
    Syscall NR_pwrite64 [Reg 0, Write_buf, Imm 0x200, Imm 0x1e259200], Count,
    Syscall NR_pwrite64 [Reg 0, Write_buf, Imm 0x200, Imm 0x1e259200], Count,
    Syscall NR_pwrite64 [Reg 0, Write_buf, Imm 0x200, Imm 0x1e259400], Count,
    Syscall NR_pwrite64 [Reg 0, Write_buf, Imm 0x200, Imm 0x1e259400], Count,
    Syscall NR_pwrite64 [Reg 0, Write_buf, Imm 0x200, Imm 0x1e259400], Count,
    Syscall NR_pwrite64 [Reg 0, Write_buf, Imm 0x200, Imm 0x1e259400], Count]"

definition min_mysql_pwrite64_openat_0_0_body285 :: "stmt list" where
  "min_mysql_pwrite64_openat_0_0_body285 = [
    Syscall NR_pwrite64 [Reg 0, Write_buf, Imm 0x200, Imm 0x1e259600], Count,
    Syscall NR_pwrite64 [Reg 0, Write_buf, Imm 0x200, Imm 0x1e259600], Count,
    Syscall NR_pwrite64 [Reg 0, Write_buf, Imm 0x200, Imm 0x1e259600], Count,
    Syscall NR_pwrite64 [Reg 0, Write_buf, Imm 0x200, Imm 0x1e259600], Count,
    Syscall NR_pwrite64 [Reg 0, Write_buf, Imm 0x200, Imm 0x1e259600], Count,
    Syscall NR_pwrite64 [Reg 0, Write_buf, Imm 0x200, Imm 0x1e259800], Count,
    Syscall NR_pwrite64 [Reg 0, Write_buf, Imm 0x800, Imm 0x1e259800], Count,
    Syscall NR_pwrite64 [Reg 0, Write_buf, Imm 0x2000, Imm 0x1e25a000], Count,
    Syscall NR_pwrite64 [Reg 0, Write_buf, Imm 0x2000, Imm 0x1e25c000], Count,
    Syscall NR_pwrite64 [Reg 0, Write_buf, Imm 0x2000, Imm 0x1e25e000], Count,
    Syscall NR_pwrite64 [Reg 0, Write_buf, Imm 0x2000, Imm 0x1e260000], Count,
    Syscall NR_pwrite64 [Reg 0, Write_buf, Imm 0x2000, Imm 0x1e262000], Count,
    Syscall NR_pwrite64 [Reg 0, Write_buf, Imm 0xc00, Imm 0x1e262800], Count]"

definition min_mysql_pwrite64_openat_0_0_body286 :: "stmt list" where
  "min_mysql_pwrite64_openat_0_0_body286 = [
    Syscall NR_pwrite64 [Reg 0, Write_buf, Imm 0x600, Imm 0x1e263400], Count,
    Syscall NR_pwrite64 [Reg 0, Write_buf, Imm 0x600, Imm 0x1e263a00], Count,
    Syscall NR_pwrite64 [Reg 0, Write_buf, Imm 0x2000, Imm 0x1e264000], Count,
    Syscall NR_pwrite64 [Reg 0, Write_buf, Imm 0x400, Imm 0x1e265400], Count,
    Syscall NR_pwrite64 [Reg 0, Write_buf, Imm 0x200, Imm 0x1e265800], Count,
    Syscall NR_pwrite64 [Reg 0, Write_buf, Imm 0x200, Imm 0x1e265800], Count,
    Syscall NR_pwrite64 [Reg 0, Write_buf, Imm 0x200, Imm 0x1e265a00], Count,
    Syscall NR_pwrite64 [Reg 0, Write_buf, Imm 0x200, Imm 0x1e265a00], Count,
    Syscall NR_pwrite64 [Reg 0, Write_buf, Imm 0x200, Imm 0x1e265a00], Count,
    Syscall NR_pwrite64 [Reg 0, Write_buf, Imm 0x200, Imm 0x1e265c00], Count,
    Syscall NR_pwrite64 [Reg 0, Write_buf, Imm 0x200, Imm 0x1e265c00], Count,
    Syscall NR_pwrite64 [Reg 0, Write_buf, Imm 0x200, Imm 0x1e265c00], Count,
    Syscall NR_pwrite64 [Reg 0, Write_buf, Imm 0x200, Imm 0x1e265e00], Count]"

definition min_mysql_pwrite64_openat_0_0_body287 :: "stmt list" where
  "min_mysql_pwrite64_openat_0_0_body287 = [
    Syscall NR_pwrite64 [Reg 0, Write_buf, Imm 0x200, Imm 0x1e265e00], Count,
    Syscall NR_pwrite64 [Reg 0, Write_buf, Imm 0x2000, Imm 0x1e266000], Count,
    Syscall NR_pwrite64 [Reg 0, Write_buf, Imm 0x800, Imm 0x1e266200], Count,
    Syscall NR_pwrite64 [Reg 0, Write_buf, Imm 0x200, Imm 0x1e266a00], Count,
    Syscall NR_pwrite64 [Reg 0, Write_buf, Imm 0x600, Imm 0x1e266a00], Count,
    Syscall NR_pwrite64 [Reg 0, Write_buf, Imm 0xe00, Imm 0x1e267000], Count,
    Syscall NR_pwrite64 [Reg 0, Write_buf, Imm 0x200, Imm 0x1e267e00], Count,
    Syscall NR_pwrite64 [Reg 0, Write_buf, Imm 0x2000, Imm 0x1e268000], Count,
    Syscall NR_pwrite64 [Reg 0, Write_buf, Imm 0x1200, Imm 0x1e268400], Count,
    Syscall NR_pwrite64 [Reg 0, Write_buf, Imm 0x400, Imm 0x1e269600], Count,
    Syscall NR_pwrite64 [Reg 0, Write_buf, Imm 0x600, Imm 0x1e269a00], Count,
    Syscall NR_pwrite64 [Reg 0, Write_buf, Imm 0x2000, Imm 0x1e26a000], Count,
    Syscall NR_pwrite64 [Reg 0, Write_buf, Imm 0x200, Imm 0x1e26a800], Count]"

definition min_mysql_pwrite64_openat_0_0_body288 :: "stmt list" where
  "min_mysql_pwrite64_openat_0_0_body288 = [
    Syscall NR_pwrite64 [Reg 0, Write_buf, Imm 0x200, Imm 0x1e26aa00], Count,
    Syscall NR_pwrite64 [Reg 0, Write_buf, Imm 0x200, Imm 0x1e26ac00], Count,
    Syscall NR_pwrite64 [Reg 0, Write_buf, Imm 0x200, Imm 0x1e26ac00], Count,
    Syscall NR_pwrite64 [Reg 0, Write_buf, Imm 0x200, Imm 0x1e26ae00], Count,
    Syscall NR_pwrite64 [Reg 0, Write_buf, Imm 0x200, Imm 0x1e26ae00], Count,
    Syscall NR_pwrite64 [Reg 0, Write_buf, Imm 0x200, Imm 0x1e26ae00], Count,
    Syscall NR_pwrite64 [Reg 0, Write_buf, Imm 0x200, Imm 0x1e26b000], Count,
    Syscall NR_pwrite64 [Reg 0, Write_buf, Imm 0x200, Imm 0x1e26b000], Count,
    Syscall NR_pwrite64 [Reg 0, Write_buf, Imm 0x400, Imm 0x1e26b000], Count,
    Syscall NR_pwrite64 [Reg 0, Write_buf, Imm 0x200, Imm 0x1e26b400], Count,
    Syscall NR_pwrite64 [Reg 0, Write_buf, Imm 0x400, Imm 0x1e26b400], Count,
    Syscall NR_pwrite64 [Reg 0, Write_buf, Imm 0x400, Imm 0x1e26b800], Count,
    Syscall NR_pwrite64 [Reg 0, Write_buf, Imm 0x200, Imm 0x1e26bc00], Count]"

definition min_mysql_pwrite64_openat_0_0_body289 :: "stmt list" where
  "min_mysql_pwrite64_openat_0_0_body289 = [
    Syscall NR_pwrite64 [Reg 0, Write_buf, Imm 0x200, Imm 0x1e26bc00], Count,
    Syscall NR_pwrite64 [Reg 0, Write_buf, Imm 0x200, Imm 0x1e26bc00], Count,
    Syscall NR_pwrite64 [Reg 0, Write_buf, Imm 0x200, Imm 0x1e26bc00], Count,
    Syscall NR_pwrite64 [Reg 0, Write_buf, Imm 0x200, Imm 0x1e26be00], Count,
    Syscall NR_pwrite64 [Reg 0, Write_buf, Imm 0x2000, Imm 0x1e26c000], Count,
    Syscall NR_pwrite64 [Reg 0, Write_buf, Imm 0x200, Imm 0x1e26c200], Count,
    Syscall NR_pwrite64 [Reg 0, Write_buf, Imm 0x200, Imm 0x1e26c400], Count,
    Syscall NR_pwrite64 [Reg 0, Write_buf, Imm 0x200, Imm 0x1e26c400], Count,
    Syscall NR_pwrite64 [Reg 0, Write_buf, Imm 0x200, Imm 0x1e26c600], Count,
    Syscall NR_pwrite64 [Reg 0, Write_buf, Imm 0x400, Imm 0x1e26c600], Count,
    Syscall NR_pwrite64 [Reg 0, Write_buf, Imm 0x200, Imm 0x1e26ca00], Count,
    Syscall NR_pwrite64 [Reg 0, Write_buf, Imm 0x400, Imm 0x1e26ca00], Count,
    Syscall NR_pwrite64 [Reg 0, Write_buf, Imm 0x200, Imm 0x1e26ce00], Count]"

definition min_mysql_pwrite64_openat_0_0_body290 :: "stmt list" where
  "min_mysql_pwrite64_openat_0_0_body290 = [
    Syscall NR_pwrite64 [Reg 0, Write_buf, Imm 0x200, Imm 0x1e26ce00], Count,
    Syscall NR_pwrite64 [Reg 0, Write_buf, Imm 0x200, Imm 0x1e26d000], Count,
    Syscall NR_pwrite64 [Reg 0, Write_buf, Imm 0x200, Imm 0x1e26d000], Count,
    Syscall NR_pwrite64 [Reg 0, Write_buf, Imm 0x200, Imm 0x1e26d200], Count,
    Syscall NR_pwrite64 [Reg 0, Write_buf, Imm 0x200, Imm 0x1e26d200], Count,
    Syscall NR_pwrite64 [Reg 0, Write_buf, Imm 0x200, Imm 0x1e26d200], Count,
    Syscall NR_pwrite64 [Reg 0, Write_buf, Imm 0x200, Imm 0x1e26d400], Count,
    Syscall NR_pwrite64 [Reg 0, Write_buf, Imm 0x200, Imm 0x1e26d400], Count,
    Syscall NR_pwrite64 [Reg 0, Write_buf, Imm 0x200, Imm 0x1e26d600], Count,
    Syscall NR_pwrite64 [Reg 0, Write_buf, Imm 0x600, Imm 0x1e26d600], Count,
    Syscall NR_pwrite64 [Reg 0, Write_buf, Imm 0x200, Imm 0x1e26dc00], Count,
    Syscall NR_pwrite64 [Reg 0, Write_buf, Imm 0x200, Imm 0x1e26de00], Count,
    Syscall NR_pwrite64 [Reg 0, Write_buf, Imm 0x200, Imm 0x1e26de00], Count]"

definition min_mysql_pwrite64_openat_0_0_body291 :: "stmt list" where
  "min_mysql_pwrite64_openat_0_0_body291 = [
    Syscall NR_pwrite64 [Reg 0, Write_buf, Imm 0x2000, Imm 0x1e26e000], Count,
    Syscall NR_pwrite64 [Reg 0, Write_buf, Imm 0x600, Imm 0x1e26e200], Count,
    Syscall NR_pwrite64 [Reg 0, Write_buf, Imm 0x800, Imm 0x1e26e800], Count,
    Syscall NR_pwrite64 [Reg 0, Write_buf, Imm 0x800, Imm 0x1e26f000], Count,
    Syscall NR_pwrite64 [Reg 0, Write_buf, Imm 0x200, Imm 0x1e26f800], Count,
    Syscall NR_pwrite64 [Reg 0, Write_buf, Imm 0x200, Imm 0x1e26f800], Count,
    Syscall NR_pwrite64 [Reg 0, Write_buf, Imm 0x200, Imm 0x1e26fa00], Count,
    Syscall NR_pwrite64 [Reg 0, Write_buf, Imm 0x200, Imm 0x1e26fa00], Count,
    Syscall NR_pwrite64 [Reg 0, Write_buf, Imm 0x200, Imm 0x1e26fa00], Count,
    Syscall NR_pwrite64 [Reg 0, Write_buf, Imm 0x200, Imm 0x1e26fc00], Count,
    Syscall NR_pwrite64 [Reg 0, Write_buf, Imm 0x400, Imm 0x1e26fc00], Count,
    Syscall NR_pwrite64 [Reg 0, Write_buf, Imm 0x2000, Imm 0x1e270000], Count,
    Syscall NR_pwrite64 [Reg 0, Write_buf, Imm 0x200, Imm 0x1e270000], Count]"

definition min_mysql_pwrite64_openat_0_0_body292 :: "stmt list" where
  "min_mysql_pwrite64_openat_0_0_body292 = [
    Syscall NR_pwrite64 [Reg 0, Write_buf, Imm 0x200, Imm 0x1e270000], Count,
    Syscall NR_pwrite64 [Reg 0, Write_buf, Imm 0x200, Imm 0x1e270200], Count,
    Syscall NR_pwrite64 [Reg 0, Write_buf, Imm 0x200, Imm 0x1e270200], Count,
    Syscall NR_pwrite64 [Reg 0, Write_buf, Imm 0x200, Imm 0x1e270200], Count,
    Syscall NR_pwrite64 [Reg 0, Write_buf, Imm 0x200, Imm 0x1e270400], Count,
    Syscall NR_pwrite64 [Reg 0, Write_buf, Imm 0x200, Imm 0x1e270400], Count,
    Syscall NR_pwrite64 [Reg 0, Write_buf, Imm 0x400, Imm 0x1e270600], Count,
    Syscall NR_pwrite64 [Reg 0, Write_buf, Imm 0x200, Imm 0x1e270a00], Count,
    Syscall NR_pwrite64 [Reg 0, Write_buf, Imm 0x200, Imm 0x1e270a00], Count,
    Syscall NR_pwrite64 [Reg 0, Write_buf, Imm 0x200, Imm 0x1e270a00], Count,
    Syscall NR_pwrite64 [Reg 0, Write_buf, Imm 0x200, Imm 0x1e270a00], Count,
    Syscall NR_pwrite64 [Reg 0, Write_buf, Imm 0x200, Imm 0x1e270c00], Count,
    Syscall NR_pwrite64 [Reg 0, Write_buf, Imm 0x200, Imm 0x1e270e00], Count]"

definition min_mysql_pwrite64_openat_0_0_body293 :: "stmt list" where
  "min_mysql_pwrite64_openat_0_0_body293 = [
    Syscall NR_pwrite64 [Reg 0, Write_buf, Imm 0x200, Imm 0x1e271000], Count,
    Syscall NR_pwrite64 [Reg 0, Write_buf, Imm 0x200, Imm 0x1e271200], Count,
    Syscall NR_pwrite64 [Reg 0, Write_buf, Imm 0x200, Imm 0x1e271400], Count,
    Syscall NR_pwrite64 [Reg 0, Write_buf, Imm 0x400, Imm 0x1e271400], Count,
    Syscall NR_pwrite64 [Reg 0, Write_buf, Imm 0x600, Imm 0x1e271800], Count,
    Syscall NR_pwrite64 [Reg 0, Write_buf, Imm 0x200, Imm 0x1e271e00], Count,
    Syscall NR_pwrite64 [Reg 0, Write_buf, Imm 0x2000, Imm 0x1e272000], Count,
    Syscall NR_pwrite64 [Reg 0, Write_buf, Imm 0x600, Imm 0x1e273400], Count,
    Syscall NR_pwrite64 [Reg 0, Write_buf, Imm 0x600, Imm 0x1e273a00], Count,
    Syscall NR_pwrite64 [Reg 0, Write_buf, Imm 0x2000, Imm 0x1e274000], Count,
    Syscall NR_pwrite64 [Reg 0, Write_buf, Imm 0x400, Imm 0x1e274e00], Count,
    Syscall NR_pwrite64 [Reg 0, Write_buf, Imm 0x200, Imm 0x1e275200], Count,
    Syscall NR_pwrite64 [Reg 0, Write_buf, Imm 0x200, Imm 0x1e275200], Count]"

definition min_mysql_pwrite64_openat_0_0_body294 :: "stmt list" where
  "min_mysql_pwrite64_openat_0_0_body294 = [
    Syscall NR_pwrite64 [Reg 0, Write_buf, Imm 0x200, Imm 0x1e275200], Count,
    Syscall NR_pwrite64 [Reg 0, Write_buf, Imm 0x200, Imm 0x1e275400], Count,
    Syscall NR_pwrite64 [Reg 0, Write_buf, Imm 0x200, Imm 0x1e275600], Count,
    Syscall NR_pwrite64 [Reg 0, Write_buf, Imm 0x200, Imm 0x1e275600], Count,
    Syscall NR_pwrite64 [Reg 0, Write_buf, Imm 0x400, Imm 0x1e275800], Count,
    Syscall NR_pwrite64 [Reg 0, Write_buf, Imm 0x200, Imm 0x1e275c00], Count,
    Syscall NR_pwrite64 [Reg 0, Write_buf, Imm 0x200, Imm 0x1e275e00], Count,
    Syscall NR_pwrite64 [Reg 0, Write_buf, Imm 0x2000, Imm 0x1e276000], Count,
    Syscall NR_pwrite64 [Reg 0, Write_buf, Imm 0x200, Imm 0x1e276000], Count,
    Syscall NR_pwrite64 [Reg 0, Write_buf, Imm 0x200, Imm 0x1e276200], Count,
    Syscall NR_pwrite64 [Reg 0, Write_buf, Imm 0x400, Imm 0x1e276400], Count,
    Syscall NR_pwrite64 [Reg 0, Write_buf, Imm 0x600, Imm 0x1e276800], Count,
    Syscall NR_pwrite64 [Reg 0, Write_buf, Imm 0x200, Imm 0x1e276e00], Count]"

definition min_mysql_pwrite64_openat_0_0_body295 :: "stmt list" where
  "min_mysql_pwrite64_openat_0_0_body295 = [
    Syscall NR_pwrite64 [Reg 0, Write_buf, Imm 0x200, Imm 0x1e276e00], Count,
    Syscall NR_pwrite64 [Reg 0, Write_buf, Imm 0x200, Imm 0x1e277000], Count,
    Syscall NR_pwrite64 [Reg 0, Write_buf, Imm 0x400, Imm 0x1e277200], Count,
    Syscall NR_pwrite64 [Reg 0, Write_buf, Imm 0x600, Imm 0x1e277600], Count,
    Syscall NR_pwrite64 [Reg 0, Write_buf, Imm 0x400, Imm 0x1e277c00], Count,
    Syscall NR_pwrite64 [Reg 0, Write_buf, Imm 0x2000, Imm 0x1e278000], Count,
    Syscall NR_pwrite64 [Reg 0, Write_buf, Imm 0x600, Imm 0x1e279000], Count,
    Syscall NR_pwrite64 [Reg 0, Write_buf, Imm 0x600, Imm 0x1e279600], Count,
    Syscall NR_pwrite64 [Reg 0, Write_buf, Imm 0x200, Imm 0x1e279c00], Count,
    Syscall NR_pwrite64 [Reg 0, Write_buf, Imm 0x200, Imm 0x1e279c00], Count,
    Syscall NR_pwrite64 [Reg 0, Write_buf, Imm 0x400, Imm 0x1e279c00], Count,
    Syscall NR_pwrite64 [Reg 0, Write_buf, Imm 0x2000, Imm 0x1e27a000], Count,
    Syscall NR_pwrite64 [Reg 0, Write_buf, Imm 0x200, Imm 0x1e27a000], Count]"

definition min_mysql_pwrite64_openat_0_0_body296 :: "stmt list" where
  "min_mysql_pwrite64_openat_0_0_body296 = [
    Syscall NR_pwrite64 [Reg 0, Write_buf, Imm 0x200, Imm 0x1e27a200], Count,
    Syscall NR_pwrite64 [Reg 0, Write_buf, Imm 0x200, Imm 0x1e27a200], Count,
    Syscall NR_pwrite64 [Reg 0, Write_buf, Imm 0x200, Imm 0x1e27a400], Count,
    Syscall NR_pwrite64 [Reg 0, Write_buf, Imm 0x200, Imm 0x1e27a600], Count,
    Syscall NR_pwrite64 [Reg 0, Write_buf, Imm 0x200, Imm 0x1e27a600], Count,
    Syscall NR_pwrite64 [Reg 0, Write_buf, Imm 0x200, Imm 0x1e27a800], Count,
    Syscall NR_pwrite64 [Reg 0, Write_buf, Imm 0x600, Imm 0x1e27a800], Count,
    Syscall NR_pwrite64 [Reg 0, Write_buf, Imm 0x200, Imm 0x1e27ae00], Count,
    Syscall NR_pwrite64 [Reg 0, Write_buf, Imm 0x200, Imm 0x1e27ae00], Count,
    Syscall NR_pwrite64 [Reg 0, Write_buf, Imm 0x400, Imm 0x1e27ae00], Count,
    Syscall NR_pwrite64 [Reg 0, Write_buf, Imm 0x200, Imm 0x1e27b200], Count,
    Syscall NR_pwrite64 [Reg 0, Write_buf, Imm 0xa00, Imm 0x1e27b200], Count,
    Syscall NR_pwrite64 [Reg 0, Write_buf, Imm 0x200, Imm 0x1e27bc00], Count]"

definition min_mysql_pwrite64_openat_0_0_body297 :: "stmt list" where
  "min_mysql_pwrite64_openat_0_0_body297 = [
    Syscall NR_pwrite64 [Reg 0, Write_buf, Imm 0x200, Imm 0x1e27be00], Count,
    Syscall NR_pwrite64 [Reg 0, Write_buf, Imm 0x200, Imm 0x1e27be00], Count,
    Syscall NR_pwrite64 [Reg 0, Write_buf, Imm 0x2000, Imm 0x1e27c000], Count,
    Syscall NR_pwrite64 [Reg 0, Write_buf, Imm 0x200, Imm 0x1e27c200], Count,
    Syscall NR_pwrite64 [Reg 0, Write_buf, Imm 0x200, Imm 0x1e27c200], Count,
    Syscall NR_pwrite64 [Reg 0, Write_buf, Imm 0x200, Imm 0x1e27c400], Count,
    Syscall NR_pwrite64 [Reg 0, Write_buf, Imm 0x200, Imm 0x1e27c600], Count,
    Syscall NR_pwrite64 [Reg 0, Write_buf, Imm 0x200, Imm 0x1e27c600], Count,
    Syscall NR_pwrite64 [Reg 0, Write_buf, Imm 0x200, Imm 0x1e27c600], Count,
    Syscall NR_pwrite64 [Reg 0, Write_buf, Imm 0x800, Imm 0x1e27c600], Count,
    Syscall NR_pwrite64 [Reg 0, Write_buf, Imm 0x200, Imm 0x1e27ce00], Count,
    Syscall NR_pwrite64 [Reg 0, Write_buf, Imm 0x200, Imm 0x1e27ce00], Count,
    Syscall NR_pwrite64 [Reg 0, Write_buf, Imm 0x200, Imm 0x1e27d000], Count]"

definition min_mysql_pwrite64_openat_0_0_body298 :: "stmt list" where
  "min_mysql_pwrite64_openat_0_0_body298 = [
    Syscall NR_pwrite64 [Reg 0, Write_buf, Imm 0x200, Imm 0x1e27d200], Count,
    Syscall NR_pwrite64 [Reg 0, Write_buf, Imm 0x200, Imm 0x1e27d400], Count,
    Syscall NR_pwrite64 [Reg 0, Write_buf, Imm 0x400, Imm 0x1e27d400], Count,
    Syscall NR_pwrite64 [Reg 0, Write_buf, Imm 0x200, Imm 0x1e27d800], Count,
    Syscall NR_pwrite64 [Reg 0, Write_buf, Imm 0x200, Imm 0x1e27da00], Count,
    Syscall NR_pwrite64 [Reg 0, Write_buf, Imm 0x200, Imm 0x1e27da00], Count,
    Syscall NR_pwrite64 [Reg 0, Write_buf, Imm 0x200, Imm 0x1e27da00], Count,
    Syscall NR_pwrite64 [Reg 0, Write_buf, Imm 0x200, Imm 0x1e27dc00], Count,
    Syscall NR_pwrite64 [Reg 0, Write_buf, Imm 0x200, Imm 0x1e27dc00], Count,
    Syscall NR_pwrite64 [Reg 0, Write_buf, Imm 0x200, Imm 0x1e27de00], Count,
    Syscall NR_pwrite64 [Reg 0, Write_buf, Imm 0x200, Imm 0x1e27de00], Count,
    Syscall NR_pwrite64 [Reg 0, Write_buf, Imm 0x2000, Imm 0x1e27e000], Count,
    Syscall NR_pwrite64 [Reg 0, Write_buf, Imm 0x800, Imm 0x1e27e200], Count]"

definition min_mysql_pwrite64_openat_0_0_body299 :: "stmt list" where
  "min_mysql_pwrite64_openat_0_0_body299 = [
    Syscall NR_pwrite64 [Reg 0, Write_buf, Imm 0xa00, Imm 0x1e27ea00], Count,
    Syscall NR_pwrite64 [Reg 0, Write_buf, Imm 0x200, Imm 0x1e27f400], Count,
    Syscall NR_pwrite64 [Reg 0, Write_buf, Imm 0x400, Imm 0x1e27f400], Count,
    Syscall NR_pwrite64 [Reg 0, Write_buf, Imm 0x400, Imm 0x1e27f800], Count,
    Syscall NR_pwrite64 [Reg 0, Write_buf, Imm 0x400, Imm 0x1e27fc00], Count,
    Syscall NR_pwrite64 [Reg 0, Write_buf, Imm 0x2000, Imm 0x1e280000], Count,
    Syscall NR_pwrite64 [Reg 0, Write_buf, Imm 0x2000, Imm 0x1e282000], Count,
    Syscall NR_pwrite64 [Reg 0, Write_buf, Imm 0xe00, Imm 0x1e283200], Count,
    Syscall NR_pwrite64 [Reg 0, Write_buf, Imm 0x2000, Imm 0x1e284000], Count,
    Syscall NR_pwrite64 [Reg 0, Write_buf, Imm 0x200, Imm 0x1e285000], Count,
    Syscall NR_pwrite64 [Reg 0, Write_buf, Imm 0x400, Imm 0x1e285200], Count,
    Syscall NR_pwrite64 [Reg 0, Write_buf, Imm 0x200, Imm 0x1e285600], Count,
    Syscall NR_pwrite64 [Reg 0, Write_buf, Imm 0x200, Imm 0x1e285800], Count]"

definition min_mysql_pwrite64_openat_0_0_body300 :: "stmt list" where
  "min_mysql_pwrite64_openat_0_0_body300 = [
    Syscall NR_pwrite64 [Reg 0, Write_buf, Imm 0x200, Imm 0x1e285800], Count,
    Syscall NR_pwrite64 [Reg 0, Write_buf, Imm 0x200, Imm 0x1e285a00], Count,
    Syscall NR_pwrite64 [Reg 0, Write_buf, Imm 0x200, Imm 0x1e285a00], Count,
    Syscall NR_pwrite64 [Reg 0, Write_buf, Imm 0x200, Imm 0x1e285c00], Count,
    Syscall NR_pwrite64 [Reg 0, Write_buf, Imm 0x200, Imm 0x1e285c00], Count,
    Syscall NR_pwrite64 [Reg 0, Write_buf, Imm 0x400, Imm 0x1e285c00], Count,
    Syscall NR_pwrite64 [Reg 0, Write_buf, Imm 0x2000, Imm 0x1e286000], Count,
    Syscall NR_pwrite64 [Reg 0, Write_buf, Imm 0x200, Imm 0x1e286600], Count,
    Syscall NR_pwrite64 [Reg 0, Write_buf, Imm 0x200, Imm 0x1e286600], Count,
    Syscall NR_pwrite64 [Reg 0, Write_buf, Imm 0x200, Imm 0x1e286800], Count,
    Syscall NR_pwrite64 [Reg 0, Write_buf, Imm 0x200, Imm 0x1e286a00], Count,
    Syscall NR_pwrite64 [Reg 0, Write_buf, Imm 0x200, Imm 0x1e286c00], Count,
    Syscall NR_pwrite64 [Reg 0, Write_buf, Imm 0x200, Imm 0x1e286c00], Count]"

definition min_mysql_pwrite64_openat_0_0_body301 :: "stmt list" where
  "min_mysql_pwrite64_openat_0_0_body301 = [
    Syscall NR_pwrite64 [Reg 0, Write_buf, Imm 0x400, Imm 0x1e286e00], Count,
    Syscall NR_pwrite64 [Reg 0, Write_buf, Imm 0x400, Imm 0x1e287200], Count,
    Syscall NR_pwrite64 [Reg 0, Write_buf, Imm 0x200, Imm 0x1e287600], Count,
    Syscall NR_pwrite64 [Reg 0, Write_buf, Imm 0x400, Imm 0x1e287600], Count,
    Syscall NR_pwrite64 [Reg 0, Write_buf, Imm 0x200, Imm 0x1e287a00], Count,
    Syscall NR_pwrite64 [Reg 0, Write_buf, Imm 0x200, Imm 0x1e287c00], Count,
    Syscall NR_pwrite64 [Reg 0, Write_buf, Imm 0x400, Imm 0x1e287c00], Count,
    Syscall NR_pwrite64 [Reg 0, Write_buf, Imm 0x2000, Imm 0x1e288000], Count,
    Syscall NR_pwrite64 [Reg 0, Write_buf, Imm 0x200, Imm 0x1e288000], Count,
    Syscall NR_pwrite64 [Reg 0, Write_buf, Imm 0x200, Imm 0x1e288000], Count,
    Syscall NR_pwrite64 [Reg 0, Write_buf, Imm 0x200, Imm 0x1e288000], Count,
    Syscall NR_pwrite64 [Reg 0, Write_buf, Imm 0x200, Imm 0x1e288200], Count,
    Syscall NR_pwrite64 [Reg 0, Write_buf, Imm 0x400, Imm 0x1e288200], Count]"

definition min_mysql_pwrite64_openat_0_0_body302 :: "stmt list" where
  "min_mysql_pwrite64_openat_0_0_body302 = [
    Syscall NR_pwrite64 [Reg 0, Write_buf, Imm 0xa00, Imm 0x1e288600], Count,
    Syscall NR_pwrite64 [Reg 0, Write_buf, Imm 0x200, Imm 0x1e289000], Count,
    Syscall NR_pwrite64 [Reg 0, Write_buf, Imm 0x200, Imm 0x1e289000], Count,
    Syscall NR_pwrite64 [Reg 0, Write_buf, Imm 0x200, Imm 0x1e289200], Count,
    Syscall NR_pwrite64 [Reg 0, Write_buf, Imm 0x400, Imm 0x1e289400], Count,
    Syscall NR_pwrite64 [Reg 0, Write_buf, Imm 0x400, Imm 0x1e289800], Count,
    Syscall NR_pwrite64 [Reg 0, Write_buf, Imm 0x400, Imm 0x1e289c00], Count,
    Syscall NR_pwrite64 [Reg 0, Write_buf, Imm 0x2000, Imm 0x1e28a000], Count,
    Syscall NR_pwrite64 [Reg 0, Write_buf, Imm 0x800, Imm 0x1e28aa00], Count,
    Syscall NR_pwrite64 [Reg 0, Write_buf, Imm 0x800, Imm 0x1e28b200], Count,
    Syscall NR_pwrite64 [Reg 0, Write_buf, Imm 0x600, Imm 0x1e28ba00], Count,
    Syscall NR_pwrite64 [Reg 0, Write_buf, Imm 0x2000, Imm 0x1e28c000], Count,
    Syscall NR_pwrite64 [Reg 0, Write_buf, Imm 0x800, Imm 0x1e28d800], Count]"

definition min_mysql_pwrite64_openat_0_0_body303 :: "stmt list" where
  "min_mysql_pwrite64_openat_0_0_body303 = [
    Syscall NR_pwrite64 [Reg 0, Write_buf, Imm 0x2000, Imm 0x1e28e000], Count,
    Syscall NR_pwrite64 [Reg 0, Write_buf, Imm 0x600, Imm 0x1e28ee00], Count,
    Syscall NR_pwrite64 [Reg 0, Write_buf, Imm 0x800, Imm 0x1e28f400], Count,
    Syscall NR_pwrite64 [Reg 0, Write_buf, Imm 0x200, Imm 0x1e28fc00], Count,
    Syscall NR_pwrite64 [Reg 0, Write_buf, Imm 0x200, Imm 0x1e28fc00], Count,
    Syscall NR_pwrite64 [Reg 0, Write_buf, Imm 0x200, Imm 0x1e28fe00], Count,
    Syscall NR_pwrite64 [Reg 0, Write_buf, Imm 0x2000, Imm 0x1e290000], Count,
    Syscall NR_pwrite64 [Reg 0, Write_buf, Imm 0x200, Imm 0x1e290000], Count,
    Syscall NR_pwrite64 [Reg 0, Write_buf, Imm 0x200, Imm 0x1e290000], Count,
    Syscall NR_pwrite64 [Reg 0, Write_buf, Imm 0x200, Imm 0x1e290200], Count,
    Syscall NR_pwrite64 [Reg 0, Write_buf, Imm 0x200, Imm 0x1e290200], Count,
    Syscall NR_pwrite64 [Reg 0, Write_buf, Imm 0xa00, Imm 0x1e290200], Count,
    Syscall NR_pwrite64 [Reg 0, Write_buf, Imm 0x200, Imm 0x1e290c00], Count]"

definition min_mysql_pwrite64_openat_0_0_body304 :: "stmt list" where
  "min_mysql_pwrite64_openat_0_0_body304 = [
    Syscall NR_pwrite64 [Reg 0, Write_buf, Imm 0x200, Imm 0x1e290c00], Count,
    Syscall NR_pwrite64 [Reg 0, Write_buf, Imm 0x200, Imm 0x1e290e00], Count,
    Syscall NR_pwrite64 [Reg 0, Write_buf, Imm 0x200, Imm 0x1e290e00], Count,
    Syscall NR_pwrite64 [Reg 0, Write_buf, Imm 0x200, Imm 0x1e291000], Count,
    Syscall NR_pwrite64 [Reg 0, Write_buf, Imm 0x200, Imm 0x1e291000], Count,
    Syscall NR_pwrite64 [Reg 0, Write_buf, Imm 0x200, Imm 0x1e291200], Count,
    Syscall NR_pwrite64 [Reg 0, Write_buf, Imm 0x200, Imm 0x1e291200], Count,
    Syscall NR_pwrite64 [Reg 0, Write_buf, Imm 0x200, Imm 0x1e291200], Count,
    Syscall NR_pwrite64 [Reg 0, Write_buf, Imm 0x400, Imm 0x1e291400], Count,
    Syscall NR_pwrite64 [Reg 0, Write_buf, Imm 0x200, Imm 0x1e291800], Count,
    Syscall NR_pwrite64 [Reg 0, Write_buf, Imm 0x800, Imm 0x1e291800], Count,
    Syscall NR_pwrite64 [Reg 0, Write_buf, Imm 0x2000, Imm 0x1e292000], Count,
    Syscall NR_pwrite64 [Reg 0, Write_buf, Imm 0x200, Imm 0x1e292400], Count]"

definition min_mysql_pwrite64_openat_0_0_body305 :: "stmt list" where
  "min_mysql_pwrite64_openat_0_0_body305 = [
    Syscall NR_pwrite64 [Reg 0, Write_buf, Imm 0x200, Imm 0x1e292400], Count,
    Syscall NR_pwrite64 [Reg 0, Write_buf, Imm 0x200, Imm 0x1e292600], Count,
    Syscall NR_pwrite64 [Reg 0, Write_buf, Imm 0x200, Imm 0x1e292600], Count,
    Syscall NR_pwrite64 [Reg 0, Write_buf, Imm 0x200, Imm 0x1e292800], Count,
    Syscall NR_pwrite64 [Reg 0, Write_buf, Imm 0x200, Imm 0x1e292800], Count,
    Syscall NR_pwrite64 [Reg 0, Write_buf, Imm 0x200, Imm 0x1e292a00], Count,
    Syscall NR_pwrite64 [Reg 0, Write_buf, Imm 0x200, Imm 0x1e292c00], Count,
    Syscall NR_pwrite64 [Reg 0, Write_buf, Imm 0x200, Imm 0x1e292c00], Count,
    Syscall NR_pwrite64 [Reg 0, Write_buf, Imm 0x200, Imm 0x1e292c00], Count,
    Syscall NR_pwrite64 [Reg 0, Write_buf, Imm 0x200, Imm 0x1e292e00], Count,
    Syscall NR_pwrite64 [Reg 0, Write_buf, Imm 0x400, Imm 0x1e292e00], Count,
    Syscall NR_pwrite64 [Reg 0, Write_buf, Imm 0x200, Imm 0x1e293200], Count,
    Syscall NR_pwrite64 [Reg 0, Write_buf, Imm 0x200, Imm 0x1e293400], Count]"

definition min_mysql_pwrite64_openat_0_0_body306 :: "stmt list" where
  "min_mysql_pwrite64_openat_0_0_body306 = [
    Syscall NR_pwrite64 [Reg 0, Write_buf, Imm 0x200, Imm 0x1e293400], Count,
    Syscall NR_pwrite64 [Reg 0, Write_buf, Imm 0x200, Imm 0x1e293400], Count,
    Syscall NR_pwrite64 [Reg 0, Write_buf, Imm 0x200, Imm 0x1e293400], Count,
    Syscall NR_pwrite64 [Reg 0, Write_buf, Imm 0x200, Imm 0x1e293600], Count,
    Syscall NR_pwrite64 [Reg 0, Write_buf, Imm 0x200, Imm 0x1e293600], Count,
    Syscall NR_pwrite64 [Reg 0, Write_buf, Imm 0x200, Imm 0x1e293800], Count,
    Syscall NR_pwrite64 [Reg 0, Write_buf, Imm 0x200, Imm 0x1e293800], Count,
    Syscall NR_pwrite64 [Reg 0, Write_buf, Imm 0x200, Imm 0x1e293800], Count,
    Syscall NR_pwrite64 [Reg 0, Write_buf, Imm 0x200, Imm 0x1e293a00], Count,
    Syscall NR_pwrite64 [Reg 0, Write_buf, Imm 0x200, Imm 0x1e293a00], Count,
    Syscall NR_pwrite64 [Reg 0, Write_buf, Imm 0x200, Imm 0x1e293c00], Count,
    Syscall NR_pwrite64 [Reg 0, Write_buf, Imm 0x200, Imm 0x1e293c00], Count,
    Syscall NR_pwrite64 [Reg 0, Write_buf, Imm 0x200, Imm 0x1e293c00], Count]"

definition min_mysql_pwrite64_openat_0_0_body307 :: "stmt list" where
  "min_mysql_pwrite64_openat_0_0_body307 = [
    Syscall NR_pwrite64 [Reg 0, Write_buf, Imm 0x200, Imm 0x1e293e00], Count,
    Syscall NR_pwrite64 [Reg 0, Write_buf, Imm 0x200, Imm 0x1e293e00], Count,
    Syscall NR_pwrite64 [Reg 0, Write_buf, Imm 0x2000, Imm 0x1e294000], Count,
    Syscall NR_pwrite64 [Reg 0, Write_buf, Imm 0x800, Imm 0x1e294600], Count,
    Syscall NR_pwrite64 [Reg 0, Write_buf, Imm 0x1000, Imm 0x1e294e00], Count,
    Syscall NR_pwrite64 [Reg 0, Write_buf, Imm 0x200, Imm 0x1e295e00], Count,
    Syscall NR_pwrite64 [Reg 0, Write_buf, Imm 0x2000, Imm 0x1e296000], Count,
    Syscall NR_pwrite64 [Reg 0, Write_buf, Imm 0xa00, Imm 0x1e296e00], Count,
    Syscall NR_pwrite64 [Reg 0, Write_buf, Imm 0x200, Imm 0x1e297800], Count,
    Syscall NR_pwrite64 [Reg 0, Write_buf, Imm 0x400, Imm 0x1e297a00], Count,
    Syscall NR_pwrite64 [Reg 0, Write_buf, Imm 0x200, Imm 0x1e297e00], Count,
    Syscall NR_pwrite64 [Reg 0, Write_buf, Imm 0x2000, Imm 0x1e298000], Count,
    Syscall NR_pwrite64 [Reg 0, Write_buf, Imm 0x600, Imm 0x1e298a00], Count]"

definition min_mysql_pwrite64_openat_0_0_body308 :: "stmt list" where
  "min_mysql_pwrite64_openat_0_0_body308 = [
    Syscall NR_pwrite64 [Reg 0, Write_buf, Imm 0x200, Imm 0x1e299000], Count,
    Syscall NR_pwrite64 [Reg 0, Write_buf, Imm 0x200, Imm 0x1e299200], Count,
    Syscall NR_pwrite64 [Reg 0, Write_buf, Imm 0x200, Imm 0x1e299400], Count,
    Syscall NR_pwrite64 [Reg 0, Write_buf, Imm 0x400, Imm 0x1e299400], Count,
    Syscall NR_pwrite64 [Reg 0, Write_buf, Imm 0x200, Imm 0x1e299800], Count,
    Syscall NR_pwrite64 [Reg 0, Write_buf, Imm 0x400, Imm 0x1e299a00], Count,
    Syscall NR_pwrite64 [Reg 0, Write_buf, Imm 0x200, Imm 0x1e299e00], Count,
    Syscall NR_pwrite64 [Reg 0, Write_buf, Imm 0x2000, Imm 0x1e29a000], Count,
    Syscall NR_pwrite64 [Reg 0, Write_buf, Imm 0x200, Imm 0x1e29a400], Count,
    Syscall NR_pwrite64 [Reg 0, Write_buf, Imm 0x200, Imm 0x1e29a400], Count,
    Syscall NR_pwrite64 [Reg 0, Write_buf, Imm 0x200, Imm 0x1e29a400], Count,
    Syscall NR_pwrite64 [Reg 0, Write_buf, Imm 0x200, Imm 0x1e29a600], Count,
    Syscall NR_pwrite64 [Reg 0, Write_buf, Imm 0x200, Imm 0x1e29a600], Count]"

definition min_mysql_pwrite64_openat_0_0_body309 :: "stmt list" where
  "min_mysql_pwrite64_openat_0_0_body309 = [
    Syscall NR_pwrite64 [Reg 0, Write_buf, Imm 0x200, Imm 0x1e29a600], Count,
    Syscall NR_pwrite64 [Reg 0, Write_buf, Imm 0x200, Imm 0x1e29a800], Count,
    Syscall NR_pwrite64 [Reg 0, Write_buf, Imm 0x200, Imm 0x1e29a800], Count,
    Syscall NR_pwrite64 [Reg 0, Write_buf, Imm 0x200, Imm 0x1e29a800], Count,
    Syscall NR_pwrite64 [Reg 0, Write_buf, Imm 0x200, Imm 0x1e29aa00], Count,
    Syscall NR_pwrite64 [Reg 0, Write_buf, Imm 0x200, Imm 0x1e29aa00], Count,
    Syscall NR_pwrite64 [Reg 0, Write_buf, Imm 0x200, Imm 0x1e29ac00], Count,
    Syscall NR_pwrite64 [Reg 0, Write_buf, Imm 0x200, Imm 0x1e29ac00], Count,
    Syscall NR_pwrite64 [Reg 0, Write_buf, Imm 0x200, Imm 0x1e29ae00], Count,
    Syscall NR_pwrite64 [Reg 0, Write_buf, Imm 0x400, Imm 0x1e29ae00], Count,
    Syscall NR_pwrite64 [Reg 0, Write_buf, Imm 0x400, Imm 0x1e29b200], Count,
    Syscall NR_pwrite64 [Reg 0, Write_buf, Imm 0x200, Imm 0x1e29b600], Count,
    Syscall NR_pwrite64 [Reg 0, Write_buf, Imm 0x400, Imm 0x1e29b600], Count]"

definition min_mysql_pwrite64_openat_0_0_body310 :: "stmt list" where
  "min_mysql_pwrite64_openat_0_0_body310 = [
    Syscall NR_pwrite64 [Reg 0, Write_buf, Imm 0x200, Imm 0x1e29ba00], Count,
    Syscall NR_pwrite64 [Reg 0, Write_buf, Imm 0x400, Imm 0x1e29bc00], Count,
    Syscall NR_pwrite64 [Reg 0, Write_buf, Imm 0x2000, Imm 0x1e29c000], Count,
    Syscall NR_pwrite64 [Reg 0, Write_buf, Imm 0x200, Imm 0x1e29c600], Count,
    Syscall NR_pwrite64 [Reg 0, Write_buf, Imm 0x600, Imm 0x1e29c600], Count,
    Syscall NR_pwrite64 [Reg 0, Write_buf, Imm 0x200, Imm 0x1e29cc00], Count,
    Syscall NR_pwrite64 [Reg 0, Write_buf, Imm 0x200, Imm 0x1e29ce00], Count,
    Syscall NR_pwrite64 [Reg 0, Write_buf, Imm 0x200, Imm 0x1e29d000], Count,
    Syscall NR_pwrite64 [Reg 0, Write_buf, Imm 0x200, Imm 0x1e29d000], Count,
    Syscall NR_pwrite64 [Reg 0, Write_buf, Imm 0x200, Imm 0x1e29d000], Count,
    Syscall NR_pwrite64 [Reg 0, Write_buf, Imm 0x200, Imm 0x1e29d200], Count,
    Syscall NR_pwrite64 [Reg 0, Write_buf, Imm 0x200, Imm 0x1e29d200], Count,
    Syscall NR_pwrite64 [Reg 0, Write_buf, Imm 0x400, Imm 0x1e29d200], Count]"

definition min_mysql_pwrite64_openat_0_0_body311 :: "stmt list" where
  "min_mysql_pwrite64_openat_0_0_body311 = [
    Syscall NR_pwrite64 [Reg 0, Write_buf, Imm 0x200, Imm 0x1e29d600], Count,
    Syscall NR_pwrite64 [Reg 0, Write_buf, Imm 0x200, Imm 0x1e29d800], Count,
    Syscall NR_pwrite64 [Reg 0, Write_buf, Imm 0x600, Imm 0x1e29d800], Count,
    Syscall NR_pwrite64 [Reg 0, Write_buf, Imm 0x200, Imm 0x1e29de00], Count,
    Syscall NR_pwrite64 [Reg 0, Write_buf, Imm 0x2000, Imm 0x1e29e000], Count,
    Syscall NR_pwrite64 [Reg 0, Write_buf, Imm 0xa00, Imm 0x1e29e400], Count,
    Syscall NR_pwrite64 [Reg 0, Write_buf, Imm 0xc00, Imm 0x1e29ee00], Count,
    Syscall NR_pwrite64 [Reg 0, Write_buf, Imm 0x600, Imm 0x1e29fa00], Count,
    Syscall NR_pwrite64 [Reg 0, Write_buf, Imm 0x2000, Imm 0x1e2a0000], Count,
    Syscall NR_pwrite64 [Reg 0, Write_buf, Imm 0xc00, Imm 0x1e2a1400], Count,
    Syscall NR_pwrite64 [Reg 0, Write_buf, Imm 0x2000, Imm 0x1e2a2000], Count,
    Syscall NR_pwrite64 [Reg 0, Write_buf, Imm 0x800, Imm 0x1e2a2a00], Count,
    Syscall NR_pwrite64 [Reg 0, Write_buf, Imm 0x600, Imm 0x1e2a3200], Count]"

definition min_mysql_pwrite64_openat_0_0_body312 :: "stmt list" where
  "min_mysql_pwrite64_openat_0_0_body312 = [
    Syscall NR_pwrite64 [Reg 0, Write_buf, Imm 0x400, Imm 0x1e2a3800], Count,
    Syscall NR_pwrite64 [Reg 0, Write_buf, Imm 0x200, Imm 0x1e2a3c00], Count,
    Syscall NR_pwrite64 [Reg 0, Write_buf, Imm 0x200, Imm 0x1e2a3e00], Count,
    Syscall NR_pwrite64 [Reg 0, Write_buf, Imm 0x200, Imm 0x1e2a3e00], Count,
    Syscall NR_pwrite64 [Reg 0, Write_buf, Imm 0x2000, Imm 0x1e2a4000], Count,
    Syscall NR_pwrite64 [Reg 0, Write_buf, Imm 0x200, Imm 0x1e2a4000], Count,
    Syscall NR_pwrite64 [Reg 0, Write_buf, Imm 0x200, Imm 0x1e2a4200], Count,
    Syscall NR_pwrite64 [Reg 0, Write_buf, Imm 0x400, Imm 0x1e2a4200], Count,
    Syscall NR_pwrite64 [Reg 0, Write_buf, Imm 0x200, Imm 0x1e2a4600], Count,
    Syscall NR_pwrite64 [Reg 0, Write_buf, Imm 0x200, Imm 0x1e2a4600], Count,
    Syscall NR_pwrite64 [Reg 0, Write_buf, Imm 0x200, Imm 0x1e2a4800], Count,
    Syscall NR_pwrite64 [Reg 0, Write_buf, Imm 0x800, Imm 0x1e2a4800], Count,
    Syscall NR_pwrite64 [Reg 0, Write_buf, Imm 0x400, Imm 0x1e2a5000], Count]"

definition min_mysql_pwrite64_openat_0_0_body313 :: "stmt list" where
  "min_mysql_pwrite64_openat_0_0_body313 = [
    Syscall NR_pwrite64 [Reg 0, Write_buf, Imm 0x600, Imm 0x1e2a5400], Count,
    Syscall NR_pwrite64 [Reg 0, Write_buf, Imm 0x400, Imm 0x1e2a5a00], Count,
    Syscall NR_pwrite64 [Reg 0, Write_buf, Imm 0x200, Imm 0x1e2a5e00], Count,
    Syscall NR_pwrite64 [Reg 0, Write_buf, Imm 0x2000, Imm 0x1e2a6000], Count,
    Syscall NR_pwrite64 [Reg 0, Write_buf, Imm 0xc00, Imm 0x1e2a6400], Count,
    Syscall NR_pwrite64 [Reg 0, Write_buf, Imm 0x400, Imm 0x1e2a7000], Count,
    Syscall NR_pwrite64 [Reg 0, Write_buf, Imm 0x200, Imm 0x1e2a7400], Count,
    Syscall NR_pwrite64 [Reg 0, Write_buf, Imm 0x400, Imm 0x1e2a7400], Count,
    Syscall NR_pwrite64 [Reg 0, Write_buf, Imm 0x200, Imm 0x1e2a7800], Count,
    Syscall NR_pwrite64 [Reg 0, Write_buf, Imm 0x200, Imm 0x1e2a7800], Count,
    Syscall NR_pwrite64 [Reg 0, Write_buf, Imm 0x600, Imm 0x1e2a7800], Count,
    Syscall NR_pwrite64 [Reg 0, Write_buf, Imm 0x200, Imm 0x1e2a7e00], Count,
    Syscall NR_pwrite64 [Reg 0, Write_buf, Imm 0x2000, Imm 0x1e2a8000], Count]"

definition min_mysql_pwrite64_openat_0_0_body314 :: "stmt list" where
  "min_mysql_pwrite64_openat_0_0_body314 = [
    Syscall NR_pwrite64 [Reg 0, Write_buf, Imm 0x200, Imm 0x1e2a8000], Count,
    Syscall NR_pwrite64 [Reg 0, Write_buf, Imm 0xc00, Imm 0x1e2a8000], Count,
    Syscall NR_pwrite64 [Reg 0, Write_buf, Imm 0x200, Imm 0x1e2a8c00], Count,
    Syscall NR_pwrite64 [Reg 0, Write_buf, Imm 0x200, Imm 0x1e2a8c00], Count,
    Syscall NR_pwrite64 [Reg 0, Write_buf, Imm 0x200, Imm 0x1e2a8e00], Count,
    Syscall NR_pwrite64 [Reg 0, Write_buf, Imm 0x200, Imm 0x1e2a9000], Count,
    Syscall NR_pwrite64 [Reg 0, Write_buf, Imm 0x200, Imm 0x1e2a9200], Count,
    Syscall NR_pwrite64 [Reg 0, Write_buf, Imm 0x600, Imm 0x1e2a9200], Count,
    Syscall NR_pwrite64 [Reg 0, Write_buf, Imm 0x200, Imm 0x1e2a9800], Count,
    Syscall NR_pwrite64 [Reg 0, Write_buf, Imm 0x400, Imm 0x1e2a9800], Count,
    Syscall NR_pwrite64 [Reg 0, Write_buf, Imm 0x200, Imm 0x1e2a9c00], Count,
    Syscall NR_pwrite64 [Reg 0, Write_buf, Imm 0x200, Imm 0x1e2a9c00], Count,
    Syscall NR_pwrite64 [Reg 0, Write_buf, Imm 0x400, Imm 0x1e2a9c00], Count]"

definition min_mysql_pwrite64_openat_0_0_body315 :: "stmt list" where
  "min_mysql_pwrite64_openat_0_0_body315 = [
    Syscall NR_pwrite64 [Reg 0, Write_buf, Imm 0x2000, Imm 0x1e2aa000], Count,
    Syscall NR_pwrite64 [Reg 0, Write_buf, Imm 0x200, Imm 0x1e2aa400], Count,
    Syscall NR_pwrite64 [Reg 0, Write_buf, Imm 0x200, Imm 0x1e2aa400], Count,
    Syscall NR_pwrite64 [Reg 0, Write_buf, Imm 0x200, Imm 0x1e2aa600], Count,
    Syscall NR_pwrite64 [Reg 0, Write_buf, Imm 0x800, Imm 0x1e2aa600], Count,
    Syscall NR_pwrite64 [Reg 0, Write_buf, Imm 0x200, Imm 0x1e2aae00], Count,
    Syscall NR_pwrite64 [Reg 0, Write_buf, Imm 0x200, Imm 0x1e2aae00], Count,
    Syscall NR_pwrite64 [Reg 0, Write_buf, Imm 0x200, Imm 0x1e2ab000], Count,
    Syscall NR_pwrite64 [Reg 0, Write_buf, Imm 0x200, Imm 0x1e2ab200], Count,
    Syscall NR_pwrite64 [Reg 0, Write_buf, Imm 0x200, Imm 0x1e2ab200], Count,
    Syscall NR_pwrite64 [Reg 0, Write_buf, Imm 0x600, Imm 0x1e2ab200], Count,
    Syscall NR_pwrite64 [Reg 0, Write_buf, Imm 0x400, Imm 0x1e2ab800], Count,
    Syscall NR_pwrite64 [Reg 0, Write_buf, Imm 0x400, Imm 0x1e2abc00], Count]"

definition min_mysql_pwrite64_openat_0_0_body316 :: "stmt list" where
  "min_mysql_pwrite64_openat_0_0_body316 = [
    Syscall NR_pwrite64 [Reg 0, Write_buf, Imm 0x2000, Imm 0x1e2ac000], Count,
    Syscall NR_pwrite64 [Reg 0, Write_buf, Imm 0x800, Imm 0x1e2aca00], Count,
    Syscall NR_pwrite64 [Reg 0, Write_buf, Imm 0x800, Imm 0x1e2ad200], Count,
    Syscall NR_pwrite64 [Reg 0, Write_buf, Imm 0x200, Imm 0x1e2ada00], Count,
    Syscall NR_pwrite64 [Reg 0, Write_buf, Imm 0x400, Imm 0x1e2adc00], Count,
    Syscall NR_pwrite64 [Reg 0, Write_buf, Imm 0x2000, Imm 0x1e2ae000], Count,
    Syscall NR_pwrite64 [Reg 0, Write_buf, Imm 0x600, Imm 0x1e2afa00], Count,
    Syscall NR_pwrite64 [Reg 0, Write_buf, Imm 0x2000, Imm 0x1e2b0000], Count,
    Syscall NR_pwrite64 [Reg 0, Write_buf, Imm 0x600, Imm 0x1e2b1000], Count,
    Syscall NR_pwrite64 [Reg 0, Write_buf, Imm 0x400, Imm 0x1e2b1600], Count,
    Syscall NR_pwrite64 [Reg 0, Write_buf, Imm 0x600, Imm 0x1e2b1a00], Count,
    Syscall NR_pwrite64 [Reg 0, Write_buf, Imm 0x2000, Imm 0x1e2b2000], Count,
    Syscall NR_pwrite64 [Reg 0, Write_buf, Imm 0x200, Imm 0x1e2b2200], Count]"

definition min_mysql_pwrite64_openat_0_0_body317 :: "stmt list" where
  "min_mysql_pwrite64_openat_0_0_body317 = [
    Syscall NR_pwrite64 [Reg 0, Write_buf, Imm 0x200, Imm 0x1e2b2400], Count,
    Syscall NR_pwrite64 [Reg 0, Write_buf, Imm 0x200, Imm 0x1e2b2400], Count,
    Syscall NR_pwrite64 [Reg 0, Write_buf, Imm 0x200, Imm 0x1e2b2600], Count,
    Syscall NR_pwrite64 [Reg 0, Write_buf, Imm 0x400, Imm 0x1e2b2600], Count,
    Syscall NR_pwrite64 [Reg 0, Write_buf, Imm 0x200, Imm 0x1e2b2a00], Count,
    Syscall NR_pwrite64 [Reg 0, Write_buf, Imm 0x200, Imm 0x1e2b2a00], Count,
    Syscall NR_pwrite64 [Reg 0, Write_buf, Imm 0x200, Imm 0x1e2b2c00], Count,
    Syscall NR_pwrite64 [Reg 0, Write_buf, Imm 0x200, Imm 0x1e2b2c00], Count,
    Syscall NR_pwrite64 [Reg 0, Write_buf, Imm 0x200, Imm 0x1e2b2c00], Count,
    Syscall NR_pwrite64 [Reg 0, Write_buf, Imm 0x200, Imm 0x1e2b2e00], Count,
    Syscall NR_pwrite64 [Reg 0, Write_buf, Imm 0x200, Imm 0x1e2b3000], Count,
    Syscall NR_pwrite64 [Reg 0, Write_buf, Imm 0x200, Imm 0x1e2b3000], Count,
    Syscall NR_pwrite64 [Reg 0, Write_buf, Imm 0x400, Imm 0x1e2b3200], Count]"

definition min_mysql_pwrite64_openat_0_0_body318 :: "stmt list" where
  "min_mysql_pwrite64_openat_0_0_body318 = [
    Syscall NR_pwrite64 [Reg 0, Write_buf, Imm 0x200, Imm 0x1e2b3600], Count,
    Syscall NR_pwrite64 [Reg 0, Write_buf, Imm 0x400, Imm 0x1e2b3800], Count,
    Syscall NR_pwrite64 [Reg 0, Write_buf, Imm 0x400, Imm 0x1e2b3c00], Count,
    Syscall NR_pwrite64 [Reg 0, Write_buf, Imm 0x2000, Imm 0x1e2b4000], Count,
    Syscall NR_pwrite64 [Reg 0, Write_buf, Imm 0x200, Imm 0x1e2b4600], Count,
    Syscall NR_pwrite64 [Reg 0, Write_buf, Imm 0x400, Imm 0x1e2b4600], Count,
    Syscall NR_pwrite64 [Reg 0, Write_buf, Imm 0x200, Imm 0x1e2b4a00], Count,
    Syscall NR_pwrite64 [Reg 0, Write_buf, Imm 0x200, Imm 0x1e2b4c00], Count,
    Syscall NR_pwrite64 [Reg 0, Write_buf, Imm 0x200, Imm 0x1e2b4e00], Count,
    Syscall NR_pwrite64 [Reg 0, Write_buf, Imm 0x200, Imm 0x1e2b4e00], Count,
    Syscall NR_pwrite64 [Reg 0, Write_buf, Imm 0x200, Imm 0x1e2b5000], Count,
    Syscall NR_pwrite64 [Reg 0, Write_buf, Imm 0x200, Imm 0x1e2b5000], Count,
    Syscall NR_pwrite64 [Reg 0, Write_buf, Imm 0x200, Imm 0x1e2b5200], Count]"

definition min_mysql_pwrite64_openat_0_0_body319 :: "stmt list" where
  "min_mysql_pwrite64_openat_0_0_body319 = [
    Syscall NR_pwrite64 [Reg 0, Write_buf, Imm 0xa00, Imm 0x1e2b5200], Count,
    Syscall NR_pwrite64 [Reg 0, Write_buf, Imm 0x200, Imm 0x1e2b5c00], Count,
    Syscall NR_pwrite64 [Reg 0, Write_buf, Imm 0x200, Imm 0x1e2b5c00], Count,
    Syscall NR_pwrite64 [Reg 0, Write_buf, Imm 0x200, Imm 0x1e2b5e00], Count,
    Syscall NR_pwrite64 [Reg 0, Write_buf, Imm 0x200, Imm 0x1e2b5e00], Count,
    Syscall NR_pwrite64 [Reg 0, Write_buf, Imm 0x2000, Imm 0x1e2b6000], Count,
    Syscall NR_pwrite64 [Reg 0, Write_buf, Imm 0xc00, Imm 0x1e2b6000], Count,
    Syscall NR_pwrite64 [Reg 0, Write_buf, Imm 0x400, Imm 0x1e2b6c00], Count,
    Syscall NR_pwrite64 [Reg 0, Write_buf, Imm 0x200, Imm 0x1e2b7000], Count,
    Syscall NR_pwrite64 [Reg 0, Write_buf, Imm 0x200, Imm 0x1e2b7000], Count,
    Syscall NR_pwrite64 [Reg 0, Write_buf, Imm 0x400, Imm 0x1e2b7200], Count,
    Syscall NR_pwrite64 [Reg 0, Write_buf, Imm 0x200, Imm 0x1e2b7600], Count,
    Syscall NR_pwrite64 [Reg 0, Write_buf, Imm 0x200, Imm 0x1e2b7600], Count]"

definition min_mysql_pwrite64_openat_0_0_body320 :: "stmt list" where
  "min_mysql_pwrite64_openat_0_0_body320 = [
    Syscall NR_pwrite64 [Reg 0, Write_buf, Imm 0x200, Imm 0x1e2b7600], Count,
    Syscall NR_pwrite64 [Reg 0, Write_buf, Imm 0x200, Imm 0x1e2b7600], Count,
    Syscall NR_pwrite64 [Reg 0, Write_buf, Imm 0x200, Imm 0x1e2b7800], Count,
    Syscall NR_pwrite64 [Reg 0, Write_buf, Imm 0x200, Imm 0x1e2b7800], Count,
    Syscall NR_pwrite64 [Reg 0, Write_buf, Imm 0x400, Imm 0x1e2b7a00], Count,
    Syscall NR_pwrite64 [Reg 0, Write_buf, Imm 0x200, Imm 0x1e2b7e00], Count,
    Syscall NR_pwrite64 [Reg 0, Write_buf, Imm 0x2000, Imm 0x1e2b8000], Count,
    Syscall NR_pwrite64 [Reg 0, Write_buf, Imm 0xc00, Imm 0x1e2b8600], Count,
    Syscall NR_pwrite64 [Reg 0, Write_buf, Imm 0xe00, Imm 0x1e2b9200], Count,
    Syscall NR_pwrite64 [Reg 0, Write_buf, Imm 0x2000, Imm 0x1e2ba000], Count,
    Syscall NR_pwrite64 [Reg 0, Write_buf, Imm 0xc00, Imm 0x1e2bb400], Count,
    Syscall NR_pwrite64 [Reg 0, Write_buf, Imm 0x2000, Imm 0x1e2bc000], Count,
    Syscall NR_pwrite64 [Reg 0, Write_buf, Imm 0x400, Imm 0x1e2bcc00], Count]"

definition min_mysql_pwrite64_openat_0_0_body321 :: "stmt list" where
  "min_mysql_pwrite64_openat_0_0_body321 = [
    Syscall NR_pwrite64 [Reg 0, Write_buf, Imm 0x200, Imm 0x1e2bd000], Count,
    Syscall NR_pwrite64 [Reg 0, Write_buf, Imm 0x200, Imm 0x1e2bd000], Count,
    Syscall NR_pwrite64 [Reg 0, Write_buf, Imm 0x200, Imm 0x1e2bd000], Count,
    Syscall NR_pwrite64 [Reg 0, Write_buf, Imm 0x200, Imm 0x1e2bd200], Count,
    Syscall NR_pwrite64 [Reg 0, Write_buf, Imm 0x200, Imm 0x1e2bd200], Count,
    Syscall NR_pwrite64 [Reg 0, Write_buf, Imm 0x200, Imm 0x1e2bd200], Count,
    Syscall NR_pwrite64 [Reg 0, Write_buf, Imm 0x200, Imm 0x1e2bd400], Count,
    Syscall NR_pwrite64 [Reg 0, Write_buf, Imm 0x200, Imm 0x1e2bd400], Count,
    Syscall NR_pwrite64 [Reg 0, Write_buf, Imm 0x200, Imm 0x1e2bd400], Count,
    Syscall NR_pwrite64 [Reg 0, Write_buf, Imm 0x200, Imm 0x1e2bd600], Count,
    Syscall NR_pwrite64 [Reg 0, Write_buf, Imm 0x200, Imm 0x1e2bd600], Count,
    Syscall NR_pwrite64 [Reg 0, Write_buf, Imm 0x200, Imm 0x1e2bd800], Count,
    Syscall NR_pwrite64 [Reg 0, Write_buf, Imm 0x200, Imm 0x1e2bda00], Count]"

definition min_mysql_pwrite64_openat_0_0_body322 :: "stmt list" where
  "min_mysql_pwrite64_openat_0_0_body322 = [
    Syscall NR_pwrite64 [Reg 0, Write_buf, Imm 0x200, Imm 0x1e2bda00], Count,
    Syscall NR_pwrite64 [Reg 0, Write_buf, Imm 0x200, Imm 0x1e2bdc00], Count,
    Syscall NR_pwrite64 [Reg 0, Write_buf, Imm 0x200, Imm 0x1e2bde00], Count,
    Syscall NR_pwrite64 [Reg 0, Write_buf, Imm 0x200, Imm 0x1e2bde00], Count,
    Syscall NR_pwrite64 [Reg 0, Write_buf, Imm 0x2000, Imm 0x1e2be000], Count,
    Syscall NR_pwrite64 [Reg 0, Write_buf, Imm 0xa00, Imm 0x1e2be000], Count,
    Syscall NR_pwrite64 [Reg 0, Write_buf, Imm 0x400, Imm 0x1e2bea00], Count,
    Syscall NR_pwrite64 [Reg 0, Write_buf, Imm 0x400, Imm 0x1e2bee00], Count,
    Syscall NR_pwrite64 [Reg 0, Write_buf, Imm 0x200, Imm 0x1e2bf200], Count,
    Syscall NR_pwrite64 [Reg 0, Write_buf, Imm 0x400, Imm 0x1e2bf400], Count,
    Syscall NR_pwrite64 [Reg 0, Write_buf, Imm 0x400, Imm 0x1e2bf800], Count,
    Syscall NR_pwrite64 [Reg 0, Write_buf, Imm 0x200, Imm 0x1e2bfc00], Count,
    Syscall NR_pwrite64 [Reg 0, Write_buf, Imm 0x400, Imm 0x1e2bfc00], Count]"

definition min_mysql_pwrite64_openat_0_0_body323 :: "stmt list" where
  "min_mysql_pwrite64_openat_0_0_body323 = [
    Syscall NR_pwrite64 [Reg 0, Write_buf, Imm 0x2000, Imm 0x1e2c0000], Count,
    Syscall NR_pwrite64 [Reg 0, Write_buf, Imm 0x200, Imm 0x1e2c0000], Count,
    Syscall NR_pwrite64 [Reg 0, Write_buf, Imm 0x200, Imm 0x1e2c0000], Count,
    Syscall NR_pwrite64 [Reg 0, Write_buf, Imm 0x200, Imm 0x1e2c0000], Count,
    Syscall NR_pwrite64 [Reg 0, Write_buf, Imm 0x200, Imm 0x1e2c0000], Count,
    Syscall NR_pwrite64 [Reg 0, Write_buf, Imm 0x200, Imm 0x1e2c0200], Count,
    Syscall NR_pwrite64 [Reg 0, Write_buf, Imm 0x200, Imm 0x1e2c0200], Count,
    Syscall NR_pwrite64 [Reg 0, Write_buf, Imm 0x200, Imm 0x1e2c0400], Count,
    Syscall NR_pwrite64 [Reg 0, Write_buf, Imm 0x200, Imm 0x1e2c0400], Count,
    Syscall NR_pwrite64 [Reg 0, Write_buf, Imm 0x200, Imm 0x1e2c0600], Count,
    Syscall NR_pwrite64 [Reg 0, Write_buf, Imm 0x600, Imm 0x1e2c0600], Count,
    Syscall NR_pwrite64 [Reg 0, Write_buf, Imm 0x200, Imm 0x1e2c0c00], Count,
    Syscall NR_pwrite64 [Reg 0, Write_buf, Imm 0x200, Imm 0x1e2c0c00], Count]"

definition min_mysql_pwrite64_openat_0_0_body324 :: "stmt list" where
  "min_mysql_pwrite64_openat_0_0_body324 = [
    Syscall NR_pwrite64 [Reg 0, Write_buf, Imm 0x200, Imm 0x1e2c0e00], Count,
    Syscall NR_pwrite64 [Reg 0, Write_buf, Imm 0x200, Imm 0x1e2c0e00], Count,
    Syscall NR_pwrite64 [Reg 0, Write_buf, Imm 0x200, Imm 0x1e2c1000], Count,
    Syscall NR_pwrite64 [Reg 0, Write_buf, Imm 0x200, Imm 0x1e2c1000], Count,
    Syscall NR_pwrite64 [Reg 0, Write_buf, Imm 0x200, Imm 0x1e2c1200], Count,
    Syscall NR_pwrite64 [Reg 0, Write_buf, Imm 0x200, Imm 0x1e2c1400], Count,
    Syscall NR_pwrite64 [Reg 0, Write_buf, Imm 0x200, Imm 0x1e2c1400], Count,
    Syscall NR_pwrite64 [Reg 0, Write_buf, Imm 0x200, Imm 0x1e2c1600], Count,
    Syscall NR_pwrite64 [Reg 0, Write_buf, Imm 0x200, Imm 0x1e2c1800], Count,
    Syscall NR_pwrite64 [Reg 0, Write_buf, Imm 0x200, Imm 0x1e2c1800], Count,
    Syscall NR_pwrite64 [Reg 0, Write_buf, Imm 0x200, Imm 0x1e2c1a00], Count,
    Syscall NR_pwrite64 [Reg 0, Write_buf, Imm 0x200, Imm 0x1e2c1c00], Count,
    Syscall NR_pwrite64 [Reg 0, Write_buf, Imm 0x200, Imm 0x1e2c1e00], Count]"

definition min_mysql_pwrite64_openat_0_0_body325 :: "stmt list" where
  "min_mysql_pwrite64_openat_0_0_body325 = [
    Syscall NR_pwrite64 [Reg 0, Write_buf, Imm 0x2000, Imm 0x1e2c2000], Count,
    Syscall NR_pwrite64 [Reg 0, Write_buf, Imm 0x200, Imm 0x1e2c2200], Count,
    Syscall NR_pwrite64 [Reg 0, Write_buf, Imm 0x200, Imm 0x1e2c2400], Count,
    Syscall NR_pwrite64 [Reg 0, Write_buf, Imm 0x200, Imm 0x1e2c2400], Count,
    Syscall NR_pwrite64 [Reg 0, Write_buf, Imm 0x200, Imm 0x1e2c2600], Count,
    Syscall NR_pwrite64 [Reg 0, Write_buf, Imm 0x200, Imm 0x1e2c2600], Count,
    Syscall NR_pwrite64 [Reg 0, Write_buf, Imm 0x200, Imm 0x1e2c2800], Count,
    Syscall NR_pwrite64 [Reg 0, Write_buf, Imm 0x200, Imm 0x1e2c2800], Count,
    Syscall NR_pwrite64 [Reg 0, Write_buf, Imm 0x200, Imm 0x1e2c2800], Count,
    Syscall NR_pwrite64 [Reg 0, Write_buf, Imm 0x200, Imm 0x1e2c2a00], Count,
    Syscall NR_pwrite64 [Reg 0, Write_buf, Imm 0x200, Imm 0x1e2c2a00], Count,
    Syscall NR_pwrite64 [Reg 0, Write_buf, Imm 0x200, Imm 0x1e2c2c00], Count,
    Syscall NR_pwrite64 [Reg 0, Write_buf, Imm 0x200, Imm 0x1e2c2e00], Count]"

definition min_mysql_pwrite64_openat_0_0_body326 :: "stmt list" where
  "min_mysql_pwrite64_openat_0_0_body326 = [
    Syscall NR_pwrite64 [Reg 0, Write_buf, Imm 0x200, Imm 0x1e2c2e00], Count,
    Syscall NR_pwrite64 [Reg 0, Write_buf, Imm 0x400, Imm 0x1e2c3000], Count,
    Syscall NR_pwrite64 [Reg 0, Write_buf, Imm 0x800, Imm 0x1e2c3400], Count,
    Syscall NR_pwrite64 [Reg 0, Write_buf, Imm 0x400, Imm 0x1e2c3c00], Count,
    Syscall NR_pwrite64 [Reg 0, Write_buf, Imm 0x2000, Imm 0x1e2c4000], Count,
    Syscall NR_pwrite64 [Reg 0, Write_buf, Imm 0x600, Imm 0x1e2c5000], Count,
    Syscall NR_pwrite64 [Reg 0, Write_buf, Imm 0x600, Imm 0x1e2c5600], Count,
    Syscall NR_pwrite64 [Reg 0, Write_buf, Imm 0x400, Imm 0x1e2c5c00], Count,
    Syscall NR_pwrite64 [Reg 0, Write_buf, Imm 0x2000, Imm 0x1e2c6000], Count,
    Syscall NR_pwrite64 [Reg 0, Write_buf, Imm 0x200, Imm 0x1e2c6400], Count,
    Syscall NR_pwrite64 [Reg 0, Write_buf, Imm 0x200, Imm 0x1e2c6600], Count,
    Syscall NR_pwrite64 [Reg 0, Write_buf, Imm 0x400, Imm 0x1e2c6600], Count,
    Syscall NR_pwrite64 [Reg 0, Write_buf, Imm 0x200, Imm 0x1e2c6a00], Count]"

definition min_mysql_pwrite64_openat_0_0_body327 :: "stmt list" where
  "min_mysql_pwrite64_openat_0_0_body327 = [
    Syscall NR_pwrite64 [Reg 0, Write_buf, Imm 0x200, Imm 0x1e2c6c00], Count,
    Syscall NR_pwrite64 [Reg 0, Write_buf, Imm 0x200, Imm 0x1e2c6e00], Count,
    Syscall NR_pwrite64 [Reg 0, Write_buf, Imm 0x200, Imm 0x1e2c6e00], Count,
    Syscall NR_pwrite64 [Reg 0, Write_buf, Imm 0x200, Imm 0x1e2c6e00], Count,
    Syscall NR_pwrite64 [Reg 0, Write_buf, Imm 0x200, Imm 0x1e2c7000], Count,
    Syscall NR_pwrite64 [Reg 0, Write_buf, Imm 0x200, Imm 0x1e2c7000], Count,
    Syscall NR_pwrite64 [Reg 0, Write_buf, Imm 0x200, Imm 0x1e2c7200], Count,
    Syscall NR_pwrite64 [Reg 0, Write_buf, Imm 0x200, Imm 0x1e2c7400], Count,
    Syscall NR_pwrite64 [Reg 0, Write_buf, Imm 0x200, Imm 0x1e2c7400], Count,
    Syscall NR_pwrite64 [Reg 0, Write_buf, Imm 0x200, Imm 0x1e2c7600], Count,
    Syscall NR_pwrite64 [Reg 0, Write_buf, Imm 0x200, Imm 0x1e2c7800], Count,
    Syscall NR_pwrite64 [Reg 0, Write_buf, Imm 0x400, Imm 0x1e2c7800], Count,
    Syscall NR_pwrite64 [Reg 0, Write_buf, Imm 0x400, Imm 0x1e2c7c00], Count]"

definition min_mysql_pwrite64_openat_0_0_body328 :: "stmt list" where
  "min_mysql_pwrite64_openat_0_0_body328 = [
    Syscall NR_pwrite64 [Reg 0, Write_buf, Imm 0x2000, Imm 0x1e2c8000], Count,
    Syscall NR_pwrite64 [Reg 0, Write_buf, Imm 0x600, Imm 0x1e2c8400], Count,
    Syscall NR_pwrite64 [Reg 0, Write_buf, Imm 0x200, Imm 0x1e2c8a00], Count,
    Syscall NR_pwrite64 [Reg 0, Write_buf, Imm 0x400, Imm 0x1e2c8c00], Count,
    Syscall NR_pwrite64 [Reg 0, Write_buf, Imm 0x400, Imm 0x1e2c9000], Count,
    Syscall NR_pwrite64 [Reg 0, Write_buf, Imm 0x200, Imm 0x1e2c9400], Count,
    Syscall NR_pwrite64 [Reg 0, Write_buf, Imm 0x200, Imm 0x1e2c9400], Count,
    Syscall NR_pwrite64 [Reg 0, Write_buf, Imm 0x200, Imm 0x1e2c9400], Count,
    Syscall NR_pwrite64 [Reg 0, Write_buf, Imm 0x200, Imm 0x1e2c9600], Count,
    Syscall NR_pwrite64 [Reg 0, Write_buf, Imm 0x200, Imm 0x1e2c9600], Count,
    Syscall NR_pwrite64 [Reg 0, Write_buf, Imm 0x200, Imm 0x1e2c9800], Count,
    Syscall NR_pwrite64 [Reg 0, Write_buf, Imm 0x200, Imm 0x1e2c9a00], Count,
    Syscall NR_pwrite64 [Reg 0, Write_buf, Imm 0x200, Imm 0x1e2c9a00], Count]"

definition min_mysql_pwrite64_openat_0_0_body329 :: "stmt list" where
  "min_mysql_pwrite64_openat_0_0_body329 = [
    Syscall NR_pwrite64 [Reg 0, Write_buf, Imm 0x200, Imm 0x1e2c9c00], Count,
    Syscall NR_pwrite64 [Reg 0, Write_buf, Imm 0x200, Imm 0x1e2c9c00], Count,
    Syscall NR_pwrite64 [Reg 0, Write_buf, Imm 0x200, Imm 0x1e2c9e00], Count,
    Syscall NR_pwrite64 [Reg 0, Write_buf, Imm 0x200, Imm 0x1e2c9e00], Count,
    Syscall NR_pwrite64 [Reg 0, Write_buf, Imm 0x200, Imm 0x1e2c9e00], Count,
    Syscall NR_pwrite64 [Reg 0, Write_buf, Imm 0x200, Imm 0x1e2c9e00], Count,
    Syscall NR_pwrite64 [Reg 0, Write_buf, Imm 0x2000, Imm 0x1e2ca000], Count,
    Syscall NR_pwrite64 [Reg 0, Write_buf, Imm 0x200, Imm 0x1e2ca000], Count,
    Syscall NR_pwrite64 [Reg 0, Write_buf, Imm 0x200, Imm 0x1e2ca200], Count,
    Syscall NR_pwrite64 [Reg 0, Write_buf, Imm 0x200, Imm 0x1e2ca400], Count,
    Syscall NR_pwrite64 [Reg 0, Write_buf, Imm 0x200, Imm 0x1e2ca600], Count,
    Syscall NR_pwrite64 [Reg 0, Write_buf, Imm 0x200, Imm 0x1e2ca600], Count,
    Syscall NR_pwrite64 [Reg 0, Write_buf, Imm 0x200, Imm 0x1e2ca800], Count]"

definition min_mysql_pwrite64_openat_0_0_body330 :: "stmt list" where
  "min_mysql_pwrite64_openat_0_0_body330 = [
    Syscall NR_pwrite64 [Reg 0, Write_buf, Imm 0x200, Imm 0x1e2ca800], Count,
    Syscall NR_pwrite64 [Reg 0, Write_buf, Imm 0x400, Imm 0x1e2caa00], Count,
    Syscall NR_pwrite64 [Reg 0, Write_buf, Imm 0x600, Imm 0x1e2cae00], Count,
    Syscall NR_pwrite64 [Reg 0, Write_buf, Imm 0x200, Imm 0x1e2cb400], Count,
    Syscall NR_pwrite64 [Reg 0, Write_buf, Imm 0x400, Imm 0x1e2cb600], Count,
    Syscall NR_pwrite64 [Reg 0, Write_buf, Imm 0x200, Imm 0x1e2cba00], Count,
    Syscall NR_pwrite64 [Reg 0, Write_buf, Imm 0x200, Imm 0x1e2cba00], Count,
    Syscall NR_pwrite64 [Reg 0, Write_buf, Imm 0x200, Imm 0x1e2cbc00], Count,
    Syscall NR_pwrite64 [Reg 0, Write_buf, Imm 0x200, Imm 0x1e2cbc00], Count,
    Syscall NR_pwrite64 [Reg 0, Write_buf, Imm 0x200, Imm 0x1e2cbc00], Count,
    Syscall NR_pwrite64 [Reg 0, Write_buf, Imm 0x200, Imm 0x1e2cbc00], Count,
    Syscall NR_pwrite64 [Reg 0, Write_buf, Imm 0x200, Imm 0x1e2cbe00], Count,
    Syscall NR_pwrite64 [Reg 0, Write_buf, Imm 0x200, Imm 0x1e2cbe00], Count]"

definition min_mysql_pwrite64_openat_0_0_body331 :: "stmt list" where
  "min_mysql_pwrite64_openat_0_0_body331 = [
    Syscall NR_pwrite64 [Reg 0, Write_buf, Imm 0x2000, Imm 0x1e2cc000], Count,
    Syscall NR_pwrite64 [Reg 0, Write_buf, Imm 0x200, Imm 0x1e2cc000], Count,
    Syscall NR_pwrite64 [Reg 0, Write_buf, Imm 0x200, Imm 0x1e2cc000], Count,
    Syscall NR_pwrite64 [Reg 0, Write_buf, Imm 0x200, Imm 0x1e2cc200], Count,
    Syscall NR_pwrite64 [Reg 0, Write_buf, Imm 0x200, Imm 0x1e2cc400], Count,
    Syscall NR_pwrite64 [Reg 0, Write_buf, Imm 0x200, Imm 0x1e2cc400], Count,
    Syscall NR_pwrite64 [Reg 0, Write_buf, Imm 0x200, Imm 0x1e2cc600], Count,
    Syscall NR_pwrite64 [Reg 0, Write_buf, Imm 0x400, Imm 0x1e2cc600], Count,
    Syscall NR_pwrite64 [Reg 0, Write_buf, Imm 0x400, Imm 0x1e2cca00], Count,
    Syscall NR_pwrite64 [Reg 0, Write_buf, Imm 0x200, Imm 0x1e2cce00], Count,
    Syscall NR_pwrite64 [Reg 0, Write_buf, Imm 0x200, Imm 0x1e2cd000], Count,
    Syscall NR_pwrite64 [Reg 0, Write_buf, Imm 0x200, Imm 0x1e2cd000], Count,
    Syscall NR_pwrite64 [Reg 0, Write_buf, Imm 0x200, Imm 0x1e2cd200], Count]"

definition min_mysql_pwrite64_openat_0_0_body332 :: "stmt list" where
  "min_mysql_pwrite64_openat_0_0_body332 = [
    Syscall NR_pwrite64 [Reg 0, Write_buf, Imm 0x400, Imm 0x1e2cd200], Count,
    Syscall NR_pwrite64 [Reg 0, Write_buf, Imm 0x200, Imm 0x1e2cd600], Count,
    Syscall NR_pwrite64 [Reg 0, Write_buf, Imm 0x200, Imm 0x1e2cd800], Count,
    Syscall NR_pwrite64 [Reg 0, Write_buf, Imm 0x400, Imm 0x1e2cda00], Count,
    Syscall NR_pwrite64 [Reg 0, Write_buf, Imm 0x200, Imm 0x1e2cde00], Count,
    Syscall NR_pwrite64 [Reg 0, Write_buf, Imm 0x2000, Imm 0x1e2ce000], Count,
    Syscall NR_pwrite64 [Reg 0, Write_buf, Imm 0xc00, Imm 0x1e2ce200], Count,
    Syscall NR_pwrite64 [Reg 0, Write_buf, Imm 0x800, Imm 0x1e2cee00], Count,
    Syscall NR_pwrite64 [Reg 0, Write_buf, Imm 0xa00, Imm 0x1e2cf600], Count,
    Syscall NR_pwrite64 [Reg 0, Write_buf, Imm 0x2000, Imm 0x1e2d0000], Count,
    Syscall NR_pwrite64 [Reg 0, Write_buf, Imm 0x200, Imm 0x1e2d0600], Count,
    Syscall NR_pwrite64 [Reg 0, Write_buf, Imm 0x400, Imm 0x1e2d0600], Count,
    Syscall NR_pwrite64 [Reg 0, Write_buf, Imm 0x800, Imm 0x1e2d0a00], Count]"

definition min_mysql_pwrite64_openat_0_0_body333 :: "stmt list" where
  "min_mysql_pwrite64_openat_0_0_body333 = [
    Syscall NR_pwrite64 [Reg 0, Write_buf, Imm 0xa00, Imm 0x1e2d1200], Count,
    Syscall NR_pwrite64 [Reg 0, Write_buf, Imm 0x400, Imm 0x1e2d1c00], Count,
    Syscall NR_pwrite64 [Reg 0, Write_buf, Imm 0x2000, Imm 0x1e2d2000], Count,
    Syscall NR_pwrite64 [Reg 0, Write_buf, Imm 0x400, Imm 0x1e2d3400], Count,
    Syscall NR_pwrite64 [Reg 0, Write_buf, Imm 0x200, Imm 0x1e2d3800], Count,
    Syscall NR_pwrite64 [Reg 0, Write_buf, Imm 0x200, Imm 0x1e2d3a00], Count,
    Syscall NR_pwrite64 [Reg 0, Write_buf, Imm 0x200, Imm 0x1e2d3a00], Count,
    Syscall NR_pwrite64 [Reg 0, Write_buf, Imm 0x600, Imm 0x1e2d3a00], Count,
    Syscall NR_pwrite64 [Reg 0, Write_buf, Imm 0x2000, Imm 0x1e2d4000], Count,
    Syscall NR_pwrite64 [Reg 0, Write_buf, Imm 0x400, Imm 0x1e2d4400], Count,
    Syscall NR_pwrite64 [Reg 0, Write_buf, Imm 0x800, Imm 0x1e2d4800], Count,
    Syscall NR_pwrite64 [Reg 0, Write_buf, Imm 0x400, Imm 0x1e2d5000], Count,
    Syscall NR_pwrite64 [Reg 0, Write_buf, Imm 0xa00, Imm 0x1e2d5400], Count]"

definition min_mysql_pwrite64_openat_0_0_body334 :: "stmt list" where
  "min_mysql_pwrite64_openat_0_0_body334 = [
    Syscall NR_pwrite64 [Reg 0, Write_buf, Imm 0x200, Imm 0x1e2d5e00], Count,
    Syscall NR_pwrite64 [Reg 0, Write_buf, Imm 0x2000, Imm 0x1e2d6000], Count,
    Syscall NR_pwrite64 [Reg 0, Write_buf, Imm 0x200, Imm 0x1e2d6600], Count,
    Syscall NR_pwrite64 [Reg 0, Write_buf, Imm 0x200, Imm 0x1e2d6600], Count,
    Syscall NR_pwrite64 [Reg 0, Write_buf, Imm 0x200, Imm 0x1e2d6800], Count,
    Syscall NR_pwrite64 [Reg 0, Write_buf, Imm 0x200, Imm 0x1e2d6800], Count,
    Syscall NR_pwrite64 [Reg 0, Write_buf, Imm 0x200, Imm 0x1e2d6800], Count,
    Syscall NR_pwrite64 [Reg 0, Write_buf, Imm 0x200, Imm 0x1e2d6800], Count,
    Syscall NR_pwrite64 [Reg 0, Write_buf, Imm 0x200, Imm 0x1e2d6800], Count,
    Syscall NR_pwrite64 [Reg 0, Write_buf, Imm 0x200, Imm 0x1e2d6800], Count,
    Syscall NR_pwrite64 [Reg 0, Write_buf, Imm 0x200, Imm 0x1e2d6a00], Count,
    Syscall NR_pwrite64 [Reg 0, Write_buf, Imm 0x200, Imm 0x1e2d6a00], Count,
    Syscall NR_pwrite64 [Reg 0, Write_buf, Imm 0x200, Imm 0x1e2d6a00], Count]"

definition min_mysql_pwrite64_openat_0_0_body335 :: "stmt list" where
  "min_mysql_pwrite64_openat_0_0_body335 = [
    Syscall NR_pwrite64 [Reg 0, Write_buf, Imm 0x200, Imm 0x1e2d6c00], Count,
    Syscall NR_pwrite64 [Reg 0, Write_buf, Imm 0x200, Imm 0x1e2d6c00], Count,
    Syscall NR_pwrite64 [Reg 0, Write_buf, Imm 0x200, Imm 0x1e2d6c00], Count,
    Syscall NR_pwrite64 [Reg 0, Write_buf, Imm 0x200, Imm 0x1e2d6e00], Count,
    Syscall NR_pwrite64 [Reg 0, Write_buf, Imm 0x200, Imm 0x1e2d6e00], Count,
    Syscall NR_pwrite64 [Reg 0, Write_buf, Imm 0x400, Imm 0x1e2d6e00], Count,
    Syscall NR_pwrite64 [Reg 0, Write_buf, Imm 0x200, Imm 0x1e2d7200], Count,
    Syscall NR_pwrite64 [Reg 0, Write_buf, Imm 0x200, Imm 0x1e2d7400], Count,
    Syscall NR_pwrite64 [Reg 0, Write_buf, Imm 0x400, Imm 0x1e2d7400], Count,
    Syscall NR_pwrite64 [Reg 0, Write_buf, Imm 0x200, Imm 0x1e2d7800], Count,
    Syscall NR_pwrite64 [Reg 0, Write_buf, Imm 0x200, Imm 0x1e2d7a00], Count,
    Syscall NR_pwrite64 [Reg 0, Write_buf, Imm 0x200, Imm 0x1e2d7c00], Count,
    Syscall NR_pwrite64 [Reg 0, Write_buf, Imm 0x200, Imm 0x1e2d7c00], Count]"

definition min_mysql_pwrite64_openat_0_0_body336 :: "stmt list" where
  "min_mysql_pwrite64_openat_0_0_body336 = [
    Syscall NR_pwrite64 [Reg 0, Write_buf, Imm 0x200, Imm 0x1e2d7c00], Count,
    Syscall NR_pwrite64 [Reg 0, Write_buf, Imm 0x200, Imm 0x1e2d7e00], Count,
    Syscall NR_pwrite64 [Reg 0, Write_buf, Imm 0x200, Imm 0x1e2d7e00], Count,
    Syscall NR_pwrite64 [Reg 0, Write_buf, Imm 0x2000, Imm 0x1e2d8000], Count,
    Syscall NR_pwrite64 [Reg 0, Write_buf, Imm 0x600, Imm 0x1e2d8400], Count,
    Syscall NR_pwrite64 [Reg 0, Write_buf, Imm 0xa00, Imm 0x1e2d8a00], Count,
    Syscall NR_pwrite64 [Reg 0, Write_buf, Imm 0x800, Imm 0x1e2d9400], Count,
    Syscall NR_pwrite64 [Reg 0, Write_buf, Imm 0x400, Imm 0x1e2d9c00], Count,
    Syscall NR_pwrite64 [Reg 0, Write_buf, Imm 0x2000, Imm 0x1e2da000], Count,
    Syscall NR_pwrite64 [Reg 0, Write_buf, Imm 0x200, Imm 0x1e2daa00], Count,
    Syscall NR_pwrite64 [Reg 0, Write_buf, Imm 0x200, Imm 0x1e2daa00], Count,
    Syscall NR_pwrite64 [Reg 0, Write_buf, Imm 0x200, Imm 0x1e2dac00], Count,
    Syscall NR_pwrite64 [Reg 0, Write_buf, Imm 0x200, Imm 0x1e2dac00], Count]"

definition min_mysql_pwrite64_openat_0_0_body337 :: "stmt list" where
  "min_mysql_pwrite64_openat_0_0_body337 = [
    Syscall NR_pwrite64 [Reg 0, Write_buf, Imm 0x200, Imm 0x1e2dae00], Count,
    Syscall NR_pwrite64 [Reg 0, Write_buf, Imm 0x200, Imm 0x1e2dae00], Count,
    Syscall NR_pwrite64 [Reg 0, Write_buf, Imm 0xa00, Imm 0x1e2dae00], Count,
    Syscall NR_pwrite64 [Reg 0, Write_buf, Imm 0x400, Imm 0x1e2db800], Count,
    Syscall NR_pwrite64 [Reg 0, Write_buf, Imm 0x400, Imm 0x1e2dbc00], Count,
    Syscall NR_pwrite64 [Reg 0, Write_buf, Imm 0x2000, Imm 0x1e2dc000], Count,
    Syscall NR_pwrite64 [Reg 0, Write_buf, Imm 0x400, Imm 0x1e2dc000], Count,
    Syscall NR_pwrite64 [Reg 0, Write_buf, Imm 0x200, Imm 0x1e2dc400], Count,
    Syscall NR_pwrite64 [Reg 0, Write_buf, Imm 0x200, Imm 0x1e2dc600], Count,
    Syscall NR_pwrite64 [Reg 0, Write_buf, Imm 0x200, Imm 0x1e2dc800], Count,
    Syscall NR_pwrite64 [Reg 0, Write_buf, Imm 0x200, Imm 0x1e2dca00], Count,
    Syscall NR_pwrite64 [Reg 0, Write_buf, Imm 0x200, Imm 0x1e2dca00], Count,
    Syscall NR_pwrite64 [Reg 0, Write_buf, Imm 0x200, Imm 0x1e2dca00], Count]"

definition min_mysql_pwrite64_openat_0_0_body338 :: "stmt list" where
  "min_mysql_pwrite64_openat_0_0_body338 = [
    Syscall NR_pwrite64 [Reg 0, Write_buf, Imm 0x200, Imm 0x1e2dcc00], Count,
    Syscall NR_pwrite64 [Reg 0, Write_buf, Imm 0x200, Imm 0x1e2dcc00], Count,
    Syscall NR_pwrite64 [Reg 0, Write_buf, Imm 0x200, Imm 0x1e2dce00], Count,
    Syscall NR_pwrite64 [Reg 0, Write_buf, Imm 0x200, Imm 0x1e2dce00], Count,
    Syscall NR_pwrite64 [Reg 0, Write_buf, Imm 0x200, Imm 0x1e2dce00], Count,
    Syscall NR_pwrite64 [Reg 0, Write_buf, Imm 0x200, Imm 0x1e2dd000], Count,
    Syscall NR_pwrite64 [Reg 0, Write_buf, Imm 0x200, Imm 0x1e2dd000], Count,
    Syscall NR_pwrite64 [Reg 0, Write_buf, Imm 0x200, Imm 0x1e2dd000], Count,
    Syscall NR_pwrite64 [Reg 0, Write_buf, Imm 0x200, Imm 0x1e2dd200], Count,
    Syscall NR_pwrite64 [Reg 0, Write_buf, Imm 0x200, Imm 0x1e2dd200], Count,
    Syscall NR_pwrite64 [Reg 0, Write_buf, Imm 0x200, Imm 0x1e2dd400], Count,
    Syscall NR_pwrite64 [Reg 0, Write_buf, Imm 0x200, Imm 0x1e2dd400], Count,
    Syscall NR_pwrite64 [Reg 0, Write_buf, Imm 0x200, Imm 0x1e2dd600], Count]"

definition min_mysql_pwrite64_openat_0_0_body339 :: "stmt list" where
  "min_mysql_pwrite64_openat_0_0_body339 = [
    Syscall NR_pwrite64 [Reg 0, Write_buf, Imm 0x400, Imm 0x1e2dd800], Count,
    Syscall NR_pwrite64 [Reg 0, Write_buf, Imm 0x200, Imm 0x1e2ddc00], Count,
    Syscall NR_pwrite64 [Reg 0, Write_buf, Imm 0x400, Imm 0x1e2ddc00], Count,
    Syscall NR_pwrite64 [Reg 0, Write_buf, Imm 0x2000, Imm 0x1e2de000], Count,
    Syscall NR_pwrite64 [Reg 0, Write_buf, Imm 0x800, Imm 0x1e2dea00], Count,
    Syscall NR_pwrite64 [Reg 0, Write_buf, Imm 0x400, Imm 0x1e2df200], Count,
    Syscall NR_pwrite64 [Reg 0, Write_buf, Imm 0x600, Imm 0x1e2df600], Count,
    Syscall NR_pwrite64 [Reg 0, Write_buf, Imm 0x200, Imm 0x1e2dfc00], Count,
    Syscall NR_pwrite64 [Reg 0, Write_buf, Imm 0x200, Imm 0x1e2dfe00], Count,
    Syscall NR_pwrite64 [Reg 0, Write_buf, Imm 0x2000, Imm 0x1e2e0000], Count,
    Syscall NR_pwrite64 [Reg 0, Write_buf, Imm 0x400, Imm 0x1e2e0600], Count,
    Syscall NR_pwrite64 [Reg 0, Write_buf, Imm 0x200, Imm 0x1e2e0a00], Count,
    Syscall NR_pwrite64 [Reg 0, Write_buf, Imm 0x200, Imm 0x1e2e0c00], Count]"

definition min_mysql_pwrite64_openat_0_0_body340 :: "stmt list" where
  "min_mysql_pwrite64_openat_0_0_body340 = [
    Syscall NR_pwrite64 [Reg 0, Write_buf, Imm 0x200, Imm 0x1e2e0c00], Count,
    Syscall NR_pwrite64 [Reg 0, Write_buf, Imm 0x200, Imm 0x1e2e0e00], Count,
    Syscall NR_pwrite64 [Reg 0, Write_buf, Imm 0x200, Imm 0x1e2e0e00], Count,
    Syscall NR_pwrite64 [Reg 0, Write_buf, Imm 0x200, Imm 0x1e2e0e00], Count,
    Syscall NR_pwrite64 [Reg 0, Write_buf, Imm 0x200, Imm 0x1e2e1000], Count,
    Syscall NR_pwrite64 [Reg 0, Write_buf, Imm 0x200, Imm 0x1e2e1000], Count,
    Syscall NR_pwrite64 [Reg 0, Write_buf, Imm 0x200, Imm 0x1e2e1000], Count,
    Syscall NR_pwrite64 [Reg 0, Write_buf, Imm 0x200, Imm 0x1e2e1200], Count,
    Syscall NR_pwrite64 [Reg 0, Write_buf, Imm 0x200, Imm 0x1e2e1200], Count,
    Syscall NR_pwrite64 [Reg 0, Write_buf, Imm 0x400, Imm 0x1e2e1200], Count,
    Syscall NR_pwrite64 [Reg 0, Write_buf, Imm 0x200, Imm 0x1e2e1600], Count,
    Syscall NR_pwrite64 [Reg 0, Write_buf, Imm 0x400, Imm 0x1e2e1800], Count,
    Syscall NR_pwrite64 [Reg 0, Write_buf, Imm 0x400, Imm 0x1e2e1c00], Count]"

definition min_mysql_pwrite64_openat_0_0_body341 :: "stmt list" where
  "min_mysql_pwrite64_openat_0_0_body341 = [
    Syscall NR_pwrite64 [Reg 0, Write_buf, Imm 0x2000, Imm 0x1e2e2000], Count,
    Syscall NR_pwrite64 [Reg 0, Write_buf, Imm 0x800, Imm 0x1e2e2a00], Count,
    Syscall NR_pwrite64 [Reg 0, Write_buf, Imm 0x400, Imm 0x1e2e3200], Count,
    Syscall NR_pwrite64 [Reg 0, Write_buf, Imm 0xa00, Imm 0x1e2e3600], Count,
    Syscall NR_pwrite64 [Reg 0, Write_buf, Imm 0x2000, Imm 0x1e2e4000], Count,
    Syscall NR_pwrite64 [Reg 0, Write_buf, Imm 0x800, Imm 0x1e2e5000], Count,
    Syscall NR_pwrite64 [Reg 0, Write_buf, Imm 0x400, Imm 0x1e2e5800], Count,
    Syscall NR_pwrite64 [Reg 0, Write_buf, Imm 0x200, Imm 0x1e2e5c00], Count,
    Syscall NR_pwrite64 [Reg 0, Write_buf, Imm 0x200, Imm 0x1e2e5e00], Count,
    Syscall NR_pwrite64 [Reg 0, Write_buf, Imm 0x2000, Imm 0x1e2e6000], Count,
    Syscall NR_pwrite64 [Reg 0, Write_buf, Imm 0x800, Imm 0x1e2e6400], Count,
    Syscall NR_pwrite64 [Reg 0, Write_buf, Imm 0x400, Imm 0x1e2e6c00], Count,
    Syscall NR_pwrite64 [Reg 0, Write_buf, Imm 0x200, Imm 0x1e2e7000], Count]"

definition min_mysql_pwrite64_openat_0_0_body342 :: "stmt list" where
  "min_mysql_pwrite64_openat_0_0_body342 = [
    Syscall NR_pwrite64 [Reg 0, Write_buf, Imm 0x200, Imm 0x1e2e7000], Count,
    Syscall NR_pwrite64 [Reg 0, Write_buf, Imm 0x200, Imm 0x1e2e7200], Count,
    Syscall NR_pwrite64 [Reg 0, Write_buf, Imm 0x200, Imm 0x1e2e7200], Count,
    Syscall NR_pwrite64 [Reg 0, Write_buf, Imm 0x200, Imm 0x1e2e7200], Count,
    Syscall NR_pwrite64 [Reg 0, Write_buf, Imm 0x200, Imm 0x1e2e7400], Count,
    Syscall NR_pwrite64 [Reg 0, Write_buf, Imm 0x200, Imm 0x1e2e7400], Count,
    Syscall NR_pwrite64 [Reg 0, Write_buf, Imm 0x200, Imm 0x1e2e7600], Count,
    Syscall NR_pwrite64 [Reg 0, Write_buf, Imm 0x200, Imm 0x1e2e7600], Count,
    Syscall NR_pwrite64 [Reg 0, Write_buf, Imm 0x200, Imm 0x1e2e7600], Count,
    Syscall NR_pwrite64 [Reg 0, Write_buf, Imm 0x200, Imm 0x1e2e7800], Count,
    Syscall NR_pwrite64 [Reg 0, Write_buf, Imm 0x400, Imm 0x1e2e7800], Count,
    Syscall NR_pwrite64 [Reg 0, Write_buf, Imm 0x200, Imm 0x1e2e7c00], Count,
    Syscall NR_pwrite64 [Reg 0, Write_buf, Imm 0x200, Imm 0x1e2e7c00], Count]"

definition min_mysql_pwrite64_openat_0_0_body343 :: "stmt list" where
  "min_mysql_pwrite64_openat_0_0_body343 = [
    Syscall NR_pwrite64 [Reg 0, Write_buf, Imm 0x200, Imm 0x1e2e7e00], Count,
    Syscall NR_pwrite64 [Reg 0, Write_buf, Imm 0x200, Imm 0x1e2e7e00], Count,
    Syscall NR_pwrite64 [Reg 0, Write_buf, Imm 0x2000, Imm 0x1e2e8000], Count,
    Syscall NR_pwrite64 [Reg 0, Write_buf, Imm 0x200, Imm 0x1e2e8000], Count,
    Syscall NR_pwrite64 [Reg 0, Write_buf, Imm 0x200, Imm 0x1e2e8000], Count,
    Syscall NR_pwrite64 [Reg 0, Write_buf, Imm 0x200, Imm 0x1e2e8200], Count,
    Syscall NR_pwrite64 [Reg 0, Write_buf, Imm 0x200, Imm 0x1e2e8200], Count,
    Syscall NR_pwrite64 [Reg 0, Write_buf, Imm 0x200, Imm 0x1e2e8200], Count,
    Syscall NR_pwrite64 [Reg 0, Write_buf, Imm 0x200, Imm 0x1e2e8400], Count,
    Syscall NR_pwrite64 [Reg 0, Write_buf, Imm 0x200, Imm 0x1e2e8400], Count,
    Syscall NR_pwrite64 [Reg 0, Write_buf, Imm 0x200, Imm 0x1e2e8600], Count,
    Syscall NR_pwrite64 [Reg 0, Write_buf, Imm 0x200, Imm 0x1e2e8600], Count,
    Syscall NR_pwrite64 [Reg 0, Write_buf, Imm 0x200, Imm 0x1e2e8800], Count]"

definition min_mysql_pwrite64_openat_0_0_body344 :: "stmt list" where
  "min_mysql_pwrite64_openat_0_0_body344 = [
    Syscall NR_pwrite64 [Reg 0, Write_buf, Imm 0x200, Imm 0x1e2e8800], Count,
    Syscall NR_pwrite64 [Reg 0, Write_buf, Imm 0x200, Imm 0x1e2e8800], Count,
    Syscall NR_pwrite64 [Reg 0, Write_buf, Imm 0x200, Imm 0x1e2e8a00], Count,
    Syscall NR_pwrite64 [Reg 0, Write_buf, Imm 0x200, Imm 0x1e2e8a00], Count,
    Syscall NR_pwrite64 [Reg 0, Write_buf, Imm 0x200, Imm 0x1e2e8c00], Count,
    Syscall NR_pwrite64 [Reg 0, Write_buf, Imm 0x200, Imm 0x1e2e8e00], Count,
    Syscall NR_pwrite64 [Reg 0, Write_buf, Imm 0x200, Imm 0x1e2e8e00], Count,
    Syscall NR_pwrite64 [Reg 0, Write_buf, Imm 0x400, Imm 0x1e2e9000], Count,
    Syscall NR_pwrite64 [Reg 0, Write_buf, Imm 0x400, Imm 0x1e2e9400], Count,
    Syscall NR_pwrite64 [Reg 0, Write_buf, Imm 0x600, Imm 0x1e2e9800], Count,
    Syscall NR_pwrite64 [Reg 0, Write_buf, Imm 0x200, Imm 0x1e2e9e00], Count,
    Syscall NR_pwrite64 [Reg 0, Write_buf, Imm 0x2000, Imm 0x1e2ea000], Count,
    Syscall NR_pwrite64 [Reg 0, Write_buf, Imm 0x400, Imm 0x1e2ea200], Count]"

definition min_mysql_pwrite64_openat_0_0_body345 :: "stmt list" where
  "min_mysql_pwrite64_openat_0_0_body345 = [
    Syscall NR_pwrite64 [Reg 0, Write_buf, Imm 0x400, Imm 0x1e2ea600], Count,
    Syscall NR_pwrite64 [Reg 0, Write_buf, Imm 0x600, Imm 0x1e2eaa00], Count,
    Syscall NR_pwrite64 [Reg 0, Write_buf, Imm 0x200, Imm 0x1e2eb000], Count,
    Syscall NR_pwrite64 [Reg 0, Write_buf, Imm 0x200, Imm 0x1e2eb000], Count,
    Syscall NR_pwrite64 [Reg 0, Write_buf, Imm 0x200, Imm 0x1e2eb200], Count,
    Syscall NR_pwrite64 [Reg 0, Write_buf, Imm 0x200, Imm 0x1e2eb200], Count,
    Syscall NR_pwrite64 [Reg 0, Write_buf, Imm 0x200, Imm 0x1e2eb400], Count,
    Syscall NR_pwrite64 [Reg 0, Write_buf, Imm 0x200, Imm 0x1e2eb400], Count,
    Syscall NR_pwrite64 [Reg 0, Write_buf, Imm 0x200, Imm 0x1e2eb400], Count,
    Syscall NR_pwrite64 [Reg 0, Write_buf, Imm 0x400, Imm 0x1e2eb600], Count,
    Syscall NR_pwrite64 [Reg 0, Write_buf, Imm 0x400, Imm 0x1e2eba00], Count,
    Syscall NR_pwrite64 [Reg 0, Write_buf, Imm 0x200, Imm 0x1e2ebe00], Count,
    Syscall NR_pwrite64 [Reg 0, Write_buf, Imm 0x2000, Imm 0x1e2ec000], Count]"

definition min_mysql_pwrite64_openat_0_0_body346 :: "stmt list" where
  "min_mysql_pwrite64_openat_0_0_body346 = [
    Syscall NR_pwrite64 [Reg 0, Write_buf, Imm 0xe00, Imm 0x1e2ec400], Count,
    Syscall NR_pwrite64 [Reg 0, Write_buf, Imm 0x600, Imm 0x1e2ed200], Count,
    Syscall NR_pwrite64 [Reg 0, Write_buf, Imm 0x600, Imm 0x1e2ed800], Count,
    Syscall NR_pwrite64 [Reg 0, Write_buf, Imm 0x200, Imm 0x1e2ede00], Count,
    Syscall NR_pwrite64 [Reg 0, Write_buf, Imm 0x2000, Imm 0x1e2ee000], Count,
    Syscall NR_pwrite64 [Reg 0, Write_buf, Imm 0x800, Imm 0x1e2ee400], Count,
    Syscall NR_pwrite64 [Reg 0, Write_buf, Imm 0x200, Imm 0x1e2eec00], Count,
    Syscall NR_pwrite64 [Reg 0, Write_buf, Imm 0x200, Imm 0x1e2eec00], Count,
    Syscall NR_pwrite64 [Reg 0, Write_buf, Imm 0x200, Imm 0x1e2eee00], Count,
    Syscall NR_pwrite64 [Reg 0, Write_buf, Imm 0x200, Imm 0x1e2eee00], Count,
    Syscall NR_pwrite64 [Reg 0, Write_buf, Imm 0x200, Imm 0x1e2ef000], Count,
    Syscall NR_pwrite64 [Reg 0, Write_buf, Imm 0x200, Imm 0x1e2ef200], Count,
    Syscall NR_pwrite64 [Reg 0, Write_buf, Imm 0x200, Imm 0x1e2ef200], Count]"

definition min_mysql_pwrite64_openat_0_0_body347 :: "stmt list" where
  "min_mysql_pwrite64_openat_0_0_body347 = [
    Syscall NR_pwrite64 [Reg 0, Write_buf, Imm 0x400, Imm 0x1e2ef200], Count,
    Syscall NR_pwrite64 [Reg 0, Write_buf, Imm 0x200, Imm 0x1e2ef600], Count,
    Syscall NR_pwrite64 [Reg 0, Write_buf, Imm 0x200, Imm 0x1e2ef800], Count,
    Syscall NR_pwrite64 [Reg 0, Write_buf, Imm 0x400, Imm 0x1e2ef800], Count,
    Syscall NR_pwrite64 [Reg 0, Write_buf, Imm 0x200, Imm 0x1e2efc00], Count,
    Syscall NR_pwrite64 [Reg 0, Write_buf, Imm 0x200, Imm 0x1e2efe00], Count,
    Syscall NR_pwrite64 [Reg 0, Write_buf, Imm 0x2000, Imm 0x1e2f0000], Count,
    Syscall NR_pwrite64 [Reg 0, Write_buf, Imm 0x200, Imm 0x1e2f0200], Count,
    Syscall NR_pwrite64 [Reg 0, Write_buf, Imm 0x200, Imm 0x1e2f0200], Count,
    Syscall NR_pwrite64 [Reg 0, Write_buf, Imm 0x400, Imm 0x1e2f0400], Count,
    Syscall NR_pwrite64 [Reg 0, Write_buf, Imm 0x200, Imm 0x1e2f0800], Count,
    Syscall NR_pwrite64 [Reg 0, Write_buf, Imm 0x200, Imm 0x1e2f0a00], Count,
    Syscall NR_pwrite64 [Reg 0, Write_buf, Imm 0x200, Imm 0x1e2f0c00], Count]"

definition min_mysql_pwrite64_openat_0_0_body348 :: "stmt list" where
  "min_mysql_pwrite64_openat_0_0_body348 = [
    Syscall NR_pwrite64 [Reg 0, Write_buf, Imm 0x200, Imm 0x1e2f0c00], Count,
    Syscall NR_pwrite64 [Reg 0, Write_buf, Imm 0x200, Imm 0x1e2f0e00], Count,
    Syscall NR_pwrite64 [Reg 0, Write_buf, Imm 0x200, Imm 0x1e2f1000], Count,
    Syscall NR_pwrite64 [Reg 0, Write_buf, Imm 0x200, Imm 0x1e2f1000], Count,
    Syscall NR_pwrite64 [Reg 0, Write_buf, Imm 0x200, Imm 0x1e2f1200], Count,
    Syscall NR_pwrite64 [Reg 0, Write_buf, Imm 0x400, Imm 0x1e2f1200], Count,
    Syscall NR_pwrite64 [Reg 0, Write_buf, Imm 0x600, Imm 0x1e2f1600], Count,
    Syscall NR_pwrite64 [Reg 0, Write_buf, Imm 0x200, Imm 0x1e2f1c00], Count,
    Syscall NR_pwrite64 [Reg 0, Write_buf, Imm 0x200, Imm 0x1e2f1e00], Count,
    Syscall NR_pwrite64 [Reg 0, Write_buf, Imm 0x2000, Imm 0x1e2f2000], Count,
    Syscall NR_pwrite64 [Reg 0, Write_buf, Imm 0x1000, Imm 0x1e2f2600], Count,
    Syscall NR_pwrite64 [Reg 0, Write_buf, Imm 0x200, Imm 0x1e2f3600], Count,
    Syscall NR_pwrite64 [Reg 0, Write_buf, Imm 0x200, Imm 0x1e2f3800], Count]"

definition min_mysql_pwrite64_openat_0_0_body349 :: "stmt list" where
  "min_mysql_pwrite64_openat_0_0_body349 = [
    Syscall NR_pwrite64 [Reg 0, Write_buf, Imm 0x600, Imm 0x1e2f3a00], Count,
    Syscall NR_pwrite64 [Reg 0, Write_buf, Imm 0x2000, Imm 0x1e2f4000], Count,
    Syscall NR_pwrite64 [Reg 0, Write_buf, Imm 0x400, Imm 0x1e2f4a00], Count,
    Syscall NR_pwrite64 [Reg 0, Write_buf, Imm 0x200, Imm 0x1e2f4e00], Count,
    Syscall NR_pwrite64 [Reg 0, Write_buf, Imm 0x200, Imm 0x1e2f4e00], Count,
    Syscall NR_pwrite64 [Reg 0, Write_buf, Imm 0x200, Imm 0x1e2f5000], Count,
    Syscall NR_pwrite64 [Reg 0, Write_buf, Imm 0x200, Imm 0x1e2f5000], Count,
    Syscall NR_pwrite64 [Reg 0, Write_buf, Imm 0x200, Imm 0x1e2f5200], Count,
    Syscall NR_pwrite64 [Reg 0, Write_buf, Imm 0x200, Imm 0x1e2f5200], Count,
    Syscall NR_pwrite64 [Reg 0, Write_buf, Imm 0x200, Imm 0x1e2f5400], Count,
    Syscall NR_pwrite64 [Reg 0, Write_buf, Imm 0x200, Imm 0x1e2f5400], Count,
    Syscall NR_pwrite64 [Reg 0, Write_buf, Imm 0xc00, Imm 0x1e2f5400], Count,
    Syscall NR_pwrite64 [Reg 0, Write_buf, Imm 0x2000, Imm 0x1e2f6000], Count]"

definition min_mysql_pwrite64_openat_0_0_body350 :: "stmt list" where
  "min_mysql_pwrite64_openat_0_0_body350 = [
    Syscall NR_pwrite64 [Reg 0, Write_buf, Imm 0xe00, Imm 0x1e2f6600], Count,
    Syscall NR_pwrite64 [Reg 0, Write_buf, Imm 0x800, Imm 0x1e2f7400], Count,
    Syscall NR_pwrite64 [Reg 0, Write_buf, Imm 0x400, Imm 0x1e2f7c00], Count,
    Syscall NR_pwrite64 [Reg 0, Write_buf, Imm 0x2000, Imm 0x1e2f8000], Count,
    Syscall NR_pwrite64 [Reg 0, Write_buf, Imm 0x200, Imm 0x1e2f9200], Count,
    Syscall NR_pwrite64 [Reg 0, Write_buf, Imm 0x200, Imm 0x1e2f9200], Count,
    Syscall NR_pwrite64 [Reg 0, Write_buf, Imm 0x200, Imm 0x1e2f9400], Count,
    Syscall NR_pwrite64 [Reg 0, Write_buf, Imm 0x200, Imm 0x1e2f9400], Count,
    Syscall NR_pwrite64 [Reg 0, Write_buf, Imm 0x200, Imm 0x1e2f9600], Count,
    Syscall NR_pwrite64 [Reg 0, Write_buf, Imm 0x200, Imm 0x1e2f9800], Count,
    Syscall NR_pwrite64 [Reg 0, Write_buf, Imm 0x800, Imm 0x1e2f9800], Count,
    Syscall NR_pwrite64 [Reg 0, Write_buf, Imm 0x2000, Imm 0x1e2fa000], Count,
    Syscall NR_pwrite64 [Reg 0, Write_buf, Imm 0x200, Imm 0x1e2fa600], Count]"

definition min_mysql_pwrite64_openat_0_0_body351 :: "stmt list" where
  "min_mysql_pwrite64_openat_0_0_body351 = [
    Syscall NR_pwrite64 [Reg 0, Write_buf, Imm 0x200, Imm 0x1e2fa800], Count,
    Syscall NR_pwrite64 [Reg 0, Write_buf, Imm 0x200, Imm 0x1e2fa800], Count,
    Syscall NR_pwrite64 [Reg 0, Write_buf, Imm 0x200, Imm 0x1e2faa00], Count,
    Syscall NR_pwrite64 [Reg 0, Write_buf, Imm 0x400, Imm 0x1e2faa00], Count,
    Syscall NR_pwrite64 [Reg 0, Write_buf, Imm 0x200, Imm 0x1e2fae00], Count,
    Syscall NR_pwrite64 [Reg 0, Write_buf, Imm 0x200, Imm 0x1e2fae00], Count,
    Syscall NR_pwrite64 [Reg 0, Write_buf, Imm 0x200, Imm 0x1e2fb000], Count,
    Syscall NR_pwrite64 [Reg 0, Write_buf, Imm 0x200, Imm 0x1e2fb000], Count,
    Syscall NR_pwrite64 [Reg 0, Write_buf, Imm 0x200, Imm 0x1e2fb000], Count,
    Syscall NR_pwrite64 [Reg 0, Write_buf, Imm 0x200, Imm 0x1e2fb200], Count,
    Syscall NR_pwrite64 [Reg 0, Write_buf, Imm 0x200, Imm 0x1e2fb200], Count,
    Syscall NR_pwrite64 [Reg 0, Write_buf, Imm 0x200, Imm 0x1e2fb200], Count,
    Syscall NR_pwrite64 [Reg 0, Write_buf, Imm 0x200, Imm 0x1e2fb400], Count]"

definition min_mysql_pwrite64_openat_0_0_body352 :: "stmt list" where
  "min_mysql_pwrite64_openat_0_0_body352 = [
    Syscall NR_pwrite64 [Reg 0, Write_buf, Imm 0x200, Imm 0x1e2fb600], Count,
    Syscall NR_pwrite64 [Reg 0, Write_buf, Imm 0x200, Imm 0x1e2fb600], Count,
    Syscall NR_pwrite64 [Reg 0, Write_buf, Imm 0x200, Imm 0x1e2fb600], Count,
    Syscall NR_pwrite64 [Reg 0, Write_buf, Imm 0x200, Imm 0x1e2fb800], Count,
    Syscall NR_pwrite64 [Reg 0, Write_buf, Imm 0x200, Imm 0x1e2fb800], Count,
    Syscall NR_pwrite64 [Reg 0, Write_buf, Imm 0x200, Imm 0x1e2fb800], Count,
    Syscall NR_pwrite64 [Reg 0, Write_buf, Imm 0x200, Imm 0x1e2fba00], Count,
    Syscall NR_pwrite64 [Reg 0, Write_buf, Imm 0x200, Imm 0x1e2fba00], Count,
    Syscall NR_pwrite64 [Reg 0, Write_buf, Imm 0x200, Imm 0x1e2fbc00], Count,
    Syscall NR_pwrite64 [Reg 0, Write_buf, Imm 0x400, Imm 0x1e2fbc00], Count,
    Syscall NR_pwrite64 [Reg 0, Write_buf, Imm 0x2000, Imm 0x1e2fc000], Count,
    Syscall NR_pwrite64 [Reg 0, Write_buf, Imm 0x800, Imm 0x1e2fc400], Count,
    Syscall NR_pwrite64 [Reg 0, Write_buf, Imm 0x800, Imm 0x1e2fcc00], Count]"

definition min_mysql_pwrite64_openat_0_0_body353 :: "stmt list" where
  "min_mysql_pwrite64_openat_0_0_body353 = [
    Syscall NR_pwrite64 [Reg 0, Write_buf, Imm 0x600, Imm 0x1e2fd400], Count,
    Syscall NR_pwrite64 [Reg 0, Write_buf, Imm 0x600, Imm 0x1e2fda00], Count,
    Syscall NR_pwrite64 [Reg 0, Write_buf, Imm 0x2000, Imm 0x1e2fe000], Count,
    Syscall NR_pwrite64 [Reg 0, Write_buf, Imm 0x200, Imm 0x1e2fec00], Count,
    Syscall NR_pwrite64 [Reg 0, Write_buf, Imm 0x200, Imm 0x1e2fee00], Count,
    Syscall NR_pwrite64 [Reg 0, Write_buf, Imm 0x200, Imm 0x1e2ff000], Count,
    Syscall NR_pwrite64 [Reg 0, Write_buf, Imm 0x200, Imm 0x1e2ff200], Count,
    Syscall NR_pwrite64 [Reg 0, Write_buf, Imm 0x200, Imm 0x1e2ff200], Count,
    Syscall NR_pwrite64 [Reg 0, Write_buf, Imm 0x200, Imm 0x1e2ff400], Count,
    Syscall NR_pwrite64 [Reg 0, Write_buf, Imm 0x400, Imm 0x1e2ff600], Count,
    Syscall NR_pwrite64 [Reg 0, Write_buf, Imm 0x200, Imm 0x1e2ffa00], Count,
    Syscall NR_pwrite64 [Reg 0, Write_buf, Imm 0x200, Imm 0x1e2ffa00], Count,
    Syscall NR_pwrite64 [Reg 0, Write_buf, Imm 0x200, Imm 0x1e2ffa00], Count]"

definition min_mysql_pwrite64_openat_0_0_body354 :: "stmt list" where
  "min_mysql_pwrite64_openat_0_0_body354 = [
    Syscall NR_pwrite64 [Reg 0, Write_buf, Imm 0x200, Imm 0x1e2ffc00], Count,
    Syscall NR_pwrite64 [Reg 0, Write_buf, Imm 0x400, Imm 0x1e2ffc00], Count,
    Syscall NR_pwrite64 [Reg 0, Write_buf, Imm 0x2000, Imm 0x1e300000], Count,
    Syscall NR_pwrite64 [Reg 0, Write_buf, Imm 0x200, Imm 0x1e300200], Count,
    Syscall NR_pwrite64 [Reg 0, Write_buf, Imm 0x200, Imm 0x1e300200], Count,
    Syscall NR_pwrite64 [Reg 0, Write_buf, Imm 0x200, Imm 0x1e300200], Count,
    Syscall NR_pwrite64 [Reg 0, Write_buf, Imm 0x400, Imm 0x1e300400], Count,
    Syscall NR_pwrite64 [Reg 0, Write_buf, Imm 0x600, Imm 0x1e300800], Count,
    Syscall NR_pwrite64 [Reg 0, Write_buf, Imm 0x400, Imm 0x1e300e00], Count,
    Syscall NR_pwrite64 [Reg 0, Write_buf, Imm 0x400, Imm 0x1e301200], Count,
    Syscall NR_pwrite64 [Reg 0, Write_buf, Imm 0x600, Imm 0x1e301600], Count,
    Syscall NR_pwrite64 [Reg 0, Write_buf, Imm 0x400, Imm 0x1e301c00], Count,
    Syscall NR_pwrite64 [Reg 0, Write_buf, Imm 0x2000, Imm 0x1e302000], Count]"

definition min_mysql_pwrite64_openat_0_0_body355 :: "stmt list" where
  "min_mysql_pwrite64_openat_0_0_body355 = [
    Syscall NR_pwrite64 [Reg 0, Write_buf, Imm 0xa00, Imm 0x1e302c00], Count,
    Syscall NR_pwrite64 [Reg 0, Write_buf, Imm 0xa00, Imm 0x1e303600], Count,
    Syscall NR_pwrite64 [Reg 0, Write_buf, Imm 0x2000, Imm 0x1e304000], Count,
    Syscall NR_pwrite64 [Reg 0, Write_buf, Imm 0x400, Imm 0x1e304c00], Count,
    Syscall NR_pwrite64 [Reg 0, Write_buf, Imm 0x200, Imm 0x1e305000], Count,
    Syscall NR_pwrite64 [Reg 0, Write_buf, Imm 0x200, Imm 0x1e305000], Count,
    Syscall NR_pwrite64 [Reg 0, Write_buf, Imm 0x200, Imm 0x1e305200], Count,
    Syscall NR_pwrite64 [Reg 0, Write_buf, Imm 0x200, Imm 0x1e305200], Count,
    Syscall NR_pwrite64 [Reg 0, Write_buf, Imm 0x200, Imm 0x1e305400], Count,
    Syscall NR_pwrite64 [Reg 0, Write_buf, Imm 0x200, Imm 0x1e305400], Count,
    Syscall NR_pwrite64 [Reg 0, Write_buf, Imm 0x200, Imm 0x1e305600], Count,
    Syscall NR_pwrite64 [Reg 0, Write_buf, Imm 0x200, Imm 0x1e305600], Count,
    Syscall NR_pwrite64 [Reg 0, Write_buf, Imm 0x200, Imm 0x1e305600], Count]"

definition min_mysql_pwrite64_openat_0_0_body356 :: "stmt list" where
  "min_mysql_pwrite64_openat_0_0_body356 = [
    Syscall NR_pwrite64 [Reg 0, Write_buf, Imm 0x200, Imm 0x1e305800], Count,
    Syscall NR_pwrite64 [Reg 0, Write_buf, Imm 0x200, Imm 0x1e305800], Count,
    Syscall NR_pwrite64 [Reg 0, Write_buf, Imm 0x200, Imm 0x1e305a00], Count,
    Syscall NR_pwrite64 [Reg 0, Write_buf, Imm 0x400, Imm 0x1e305a00], Count,
    Syscall NR_pwrite64 [Reg 0, Write_buf, Imm 0x200, Imm 0x1e305e00], Count,
    Syscall NR_pwrite64 [Reg 0, Write_buf, Imm 0x200, Imm 0x1e305e00], Count,
    Syscall NR_pwrite64 [Reg 0, Write_buf, Imm 0x2000, Imm 0x1e306000], Count,
    Syscall NR_pwrite64 [Reg 0, Write_buf, Imm 0x800, Imm 0x1e306200], Count,
    Syscall NR_pwrite64 [Reg 0, Write_buf, Imm 0x400, Imm 0x1e306a00], Count,
    Syscall NR_pwrite64 [Reg 0, Write_buf, Imm 0x400, Imm 0x1e306e00], Count,
    Syscall NR_pwrite64 [Reg 0, Write_buf, Imm 0x400, Imm 0x1e307200], Count,
    Syscall NR_pwrite64 [Reg 0, Write_buf, Imm 0x400, Imm 0x1e307600], Count,
    Syscall NR_pwrite64 [Reg 0, Write_buf, Imm 0x600, Imm 0x1e307a00], Count]"

definition min_mysql_pwrite64_openat_0_0_body357 :: "stmt list" where
  "min_mysql_pwrite64_openat_0_0_body357 = [
    Syscall NR_pwrite64 [Reg 0, Write_buf, Imm 0x2000, Imm 0x1e308000], Count,
    Syscall NR_pwrite64 [Reg 0, Write_buf, Imm 0x600, Imm 0x1e308a00], Count,
    Syscall NR_pwrite64 [Reg 0, Write_buf, Imm 0x600, Imm 0x1e309000], Count,
    Syscall NR_pwrite64 [Reg 0, Write_buf, Imm 0x400, Imm 0x1e309600], Count,
    Syscall NR_pwrite64 [Reg 0, Write_buf, Imm 0x200, Imm 0x1e309a00], Count,
    Syscall NR_pwrite64 [Reg 0, Write_buf, Imm 0x200, Imm 0x1e309c00], Count,
    Syscall NR_pwrite64 [Reg 0, Write_buf, Imm 0x200, Imm 0x1e309e00], Count,
    Syscall NR_pwrite64 [Reg 0, Write_buf, Imm 0x200, Imm 0x1e309e00], Count,
    Syscall NR_pwrite64 [Reg 0, Write_buf, Imm 0x200, Imm 0x1e309e00], Count,
    Syscall NR_pwrite64 [Reg 0, Write_buf, Imm 0x2000, Imm 0x1e30a000], Count,
    Syscall NR_pwrite64 [Reg 0, Write_buf, Imm 0x200, Imm 0x1e30a000], Count,
    Syscall NR_pwrite64 [Reg 0, Write_buf, Imm 0x200, Imm 0x1e30a000], Count,
    Syscall NR_pwrite64 [Reg 0, Write_buf, Imm 0x200, Imm 0x1e30a200], Count]"

definition min_mysql_pwrite64_openat_0_0_body358 :: "stmt list" where
  "min_mysql_pwrite64_openat_0_0_body358 = [
    Syscall NR_pwrite64 [Reg 0, Write_buf, Imm 0x200, Imm 0x1e30a200], Count,
    Syscall NR_pwrite64 [Reg 0, Write_buf, Imm 0x400, Imm 0x1e30a200], Count,
    Syscall NR_pwrite64 [Reg 0, Write_buf, Imm 0x200, Imm 0x1e30a600], Count,
    Syscall NR_pwrite64 [Reg 0, Write_buf, Imm 0x200, Imm 0x1e30a600], Count,
    Syscall NR_pwrite64 [Reg 0, Write_buf, Imm 0x200, Imm 0x1e30a800], Count,
    Syscall NR_pwrite64 [Reg 0, Write_buf, Imm 0x200, Imm 0x1e30a800], Count,
    Syscall NR_pwrite64 [Reg 0, Write_buf, Imm 0x200, Imm 0x1e30aa00], Count,
    Syscall NR_pwrite64 [Reg 0, Write_buf, Imm 0x200, Imm 0x1e30ac00], Count,
    Syscall NR_pwrite64 [Reg 0, Write_buf, Imm 0x800, Imm 0x1e30ac00], Count,
    Syscall NR_pwrite64 [Reg 0, Write_buf, Imm 0x200, Imm 0x1e30b400], Count,
    Syscall NR_pwrite64 [Reg 0, Write_buf, Imm 0xa00, Imm 0x1e30b600], Count,
    Syscall NR_pwrite64 [Reg 0, Write_buf, Imm 0x2000, Imm 0x1e30c000], Count,
    Syscall NR_pwrite64 [Reg 0, Write_buf, Imm 0x600, Imm 0x1e30c400], Count]"

definition min_mysql_pwrite64_openat_0_0_body359 :: "stmt list" where
  "min_mysql_pwrite64_openat_0_0_body359 = [
    Syscall NR_pwrite64 [Reg 0, Write_buf, Imm 0x200, Imm 0x1e30ca00], Count,
    Syscall NR_pwrite64 [Reg 0, Write_buf, Imm 0xe00, Imm 0x1e30cc00], Count,
    Syscall NR_pwrite64 [Reg 0, Write_buf, Imm 0x200, Imm 0x1e30da00], Count,
    Syscall NR_pwrite64 [Reg 0, Write_buf, Imm 0x400, Imm 0x1e30dc00], Count,
    Syscall NR_pwrite64 [Reg 0, Write_buf, Imm 0x2000, Imm 0x1e30e000], Count,
    Syscall NR_pwrite64 [Reg 0, Write_buf, Imm 0x200, Imm 0x1e30e600], Count,
    Syscall NR_pwrite64 [Reg 0, Write_buf, Imm 0x200, Imm 0x1e30e600], Count,
    Syscall NR_pwrite64 [Reg 0, Write_buf, Imm 0x200, Imm 0x1e30e800], Count,
    Syscall NR_pwrite64 [Reg 0, Write_buf, Imm 0x400, Imm 0x1e30e800], Count,
    Syscall NR_pwrite64 [Reg 0, Write_buf, Imm 0x200, Imm 0x1e30ec00], Count,
    Syscall NR_pwrite64 [Reg 0, Write_buf, Imm 0x400, Imm 0x1e30ec00], Count,
    Syscall NR_pwrite64 [Reg 0, Write_buf, Imm 0x200, Imm 0x1e30f000], Count,
    Syscall NR_pwrite64 [Reg 0, Write_buf, Imm 0x400, Imm 0x1e30f000], Count]"

definition min_mysql_pwrite64_openat_0_0_body360 :: "stmt list" where
  "min_mysql_pwrite64_openat_0_0_body360 = [
    Syscall NR_pwrite64 [Reg 0, Write_buf, Imm 0x200, Imm 0x1e30f400], Count,
    Syscall NR_pwrite64 [Reg 0, Write_buf, Imm 0x200, Imm 0x1e30f400], Count,
    Syscall NR_pwrite64 [Reg 0, Write_buf, Imm 0x200, Imm 0x1e30f600], Count,
    Syscall NR_pwrite64 [Reg 0, Write_buf, Imm 0x200, Imm 0x1e30f600], Count,
    Syscall NR_pwrite64 [Reg 0, Write_buf, Imm 0x200, Imm 0x1e30f800], Count,
    Syscall NR_pwrite64 [Reg 0, Write_buf, Imm 0x200, Imm 0x1e30f800], Count,
    Syscall NR_pwrite64 [Reg 0, Write_buf, Imm 0x200, Imm 0x1e30f800], Count,
    Syscall NR_pwrite64 [Reg 0, Write_buf, Imm 0x200, Imm 0x1e30fa00], Count,
    Syscall NR_pwrite64 [Reg 0, Write_buf, Imm 0x200, Imm 0x1e30fa00], Count,
    Syscall NR_pwrite64 [Reg 0, Write_buf, Imm 0x200, Imm 0x1e30fa00], Count,
    Syscall NR_pwrite64 [Reg 0, Write_buf, Imm 0x200, Imm 0x1e30fa00], Count,
    Syscall NR_pwrite64 [Reg 0, Write_buf, Imm 0x200, Imm 0x1e30fc00], Count,
    Syscall NR_pwrite64 [Reg 0, Write_buf, Imm 0x200, Imm 0x1e30fc00], Count]"

lemma min_mysql_pwrite64_openat_0_0_body241_ok: "body_ok (Suc 0) 8192 min_mysql_pwrite64_openat_0_0_body241" "counted min_mysql_pwrite64_openat_0_0_body241" "calls min_mysql_pwrite64_openat_0_0_body241 = 13" "opened_in m min_mysql_pwrite64_openat_0_0_body241 = []"
  by (simp_all add: min_mysql_pwrite64_openat_0_0_body241_def prog_checks open_checks)

lemma min_mysql_pwrite64_openat_0_0_body242_ok: "body_ok (Suc 0) 8192 min_mysql_pwrite64_openat_0_0_body242" "counted min_mysql_pwrite64_openat_0_0_body242" "calls min_mysql_pwrite64_openat_0_0_body242 = 13" "opened_in m min_mysql_pwrite64_openat_0_0_body242 = []"
  by (simp_all add: min_mysql_pwrite64_openat_0_0_body242_def prog_checks open_checks)

lemma min_mysql_pwrite64_openat_0_0_body243_ok: "body_ok (Suc 0) 8192 min_mysql_pwrite64_openat_0_0_body243" "counted min_mysql_pwrite64_openat_0_0_body243" "calls min_mysql_pwrite64_openat_0_0_body243 = 13" "opened_in m min_mysql_pwrite64_openat_0_0_body243 = []"
  by (simp_all add: min_mysql_pwrite64_openat_0_0_body243_def prog_checks open_checks)

lemma min_mysql_pwrite64_openat_0_0_body244_ok: "body_ok (Suc 0) 8192 min_mysql_pwrite64_openat_0_0_body244" "counted min_mysql_pwrite64_openat_0_0_body244" "calls min_mysql_pwrite64_openat_0_0_body244 = 13" "opened_in m min_mysql_pwrite64_openat_0_0_body244 = []"
  by (simp_all add: min_mysql_pwrite64_openat_0_0_body244_def prog_checks open_checks)

lemma min_mysql_pwrite64_openat_0_0_body245_ok: "body_ok (Suc 0) 8192 min_mysql_pwrite64_openat_0_0_body245" "counted min_mysql_pwrite64_openat_0_0_body245" "calls min_mysql_pwrite64_openat_0_0_body245 = 13" "opened_in m min_mysql_pwrite64_openat_0_0_body245 = []"
  by (simp_all add: min_mysql_pwrite64_openat_0_0_body245_def prog_checks open_checks)

lemma min_mysql_pwrite64_openat_0_0_body246_ok: "body_ok (Suc 0) 8192 min_mysql_pwrite64_openat_0_0_body246" "counted min_mysql_pwrite64_openat_0_0_body246" "calls min_mysql_pwrite64_openat_0_0_body246 = 13" "opened_in m min_mysql_pwrite64_openat_0_0_body246 = []"
  by (simp_all add: min_mysql_pwrite64_openat_0_0_body246_def prog_checks open_checks)

lemma min_mysql_pwrite64_openat_0_0_body247_ok: "body_ok (Suc 0) 8192 min_mysql_pwrite64_openat_0_0_body247" "counted min_mysql_pwrite64_openat_0_0_body247" "calls min_mysql_pwrite64_openat_0_0_body247 = 13" "opened_in m min_mysql_pwrite64_openat_0_0_body247 = []"
  by (simp_all add: min_mysql_pwrite64_openat_0_0_body247_def prog_checks open_checks)

lemma min_mysql_pwrite64_openat_0_0_body248_ok: "body_ok (Suc 0) 8192 min_mysql_pwrite64_openat_0_0_body248" "counted min_mysql_pwrite64_openat_0_0_body248" "calls min_mysql_pwrite64_openat_0_0_body248 = 13" "opened_in m min_mysql_pwrite64_openat_0_0_body248 = []"
  by (simp_all add: min_mysql_pwrite64_openat_0_0_body248_def prog_checks open_checks)

lemma min_mysql_pwrite64_openat_0_0_body249_ok: "body_ok (Suc 0) 8192 min_mysql_pwrite64_openat_0_0_body249" "counted min_mysql_pwrite64_openat_0_0_body249" "calls min_mysql_pwrite64_openat_0_0_body249 = 13" "opened_in m min_mysql_pwrite64_openat_0_0_body249 = []"
  by (simp_all add: min_mysql_pwrite64_openat_0_0_body249_def prog_checks open_checks)

lemma min_mysql_pwrite64_openat_0_0_body250_ok: "body_ok (Suc 0) 8192 min_mysql_pwrite64_openat_0_0_body250" "counted min_mysql_pwrite64_openat_0_0_body250" "calls min_mysql_pwrite64_openat_0_0_body250 = 13" "opened_in m min_mysql_pwrite64_openat_0_0_body250 = []"
  by (simp_all add: min_mysql_pwrite64_openat_0_0_body250_def prog_checks open_checks)

lemma min_mysql_pwrite64_openat_0_0_body251_ok: "body_ok (Suc 0) 8192 min_mysql_pwrite64_openat_0_0_body251" "counted min_mysql_pwrite64_openat_0_0_body251" "calls min_mysql_pwrite64_openat_0_0_body251 = 13" "opened_in m min_mysql_pwrite64_openat_0_0_body251 = []"
  by (simp_all add: min_mysql_pwrite64_openat_0_0_body251_def prog_checks open_checks)

lemma min_mysql_pwrite64_openat_0_0_body252_ok: "body_ok (Suc 0) 8192 min_mysql_pwrite64_openat_0_0_body252" "counted min_mysql_pwrite64_openat_0_0_body252" "calls min_mysql_pwrite64_openat_0_0_body252 = 13" "opened_in m min_mysql_pwrite64_openat_0_0_body252 = []"
  by (simp_all add: min_mysql_pwrite64_openat_0_0_body252_def prog_checks open_checks)

lemma min_mysql_pwrite64_openat_0_0_body253_ok: "body_ok (Suc 0) 8192 min_mysql_pwrite64_openat_0_0_body253" "counted min_mysql_pwrite64_openat_0_0_body253" "calls min_mysql_pwrite64_openat_0_0_body253 = 13" "opened_in m min_mysql_pwrite64_openat_0_0_body253 = []"
  by (simp_all add: min_mysql_pwrite64_openat_0_0_body253_def prog_checks open_checks)

lemma min_mysql_pwrite64_openat_0_0_body254_ok: "body_ok (Suc 0) 8192 min_mysql_pwrite64_openat_0_0_body254" "counted min_mysql_pwrite64_openat_0_0_body254" "calls min_mysql_pwrite64_openat_0_0_body254 = 13" "opened_in m min_mysql_pwrite64_openat_0_0_body254 = []"
  by (simp_all add: min_mysql_pwrite64_openat_0_0_body254_def prog_checks open_checks)

lemma min_mysql_pwrite64_openat_0_0_body255_ok: "body_ok (Suc 0) 8192 min_mysql_pwrite64_openat_0_0_body255" "counted min_mysql_pwrite64_openat_0_0_body255" "calls min_mysql_pwrite64_openat_0_0_body255 = 13" "opened_in m min_mysql_pwrite64_openat_0_0_body255 = []"
  by (simp_all add: min_mysql_pwrite64_openat_0_0_body255_def prog_checks open_checks)

lemma min_mysql_pwrite64_openat_0_0_body256_ok: "body_ok (Suc 0) 8192 min_mysql_pwrite64_openat_0_0_body256" "counted min_mysql_pwrite64_openat_0_0_body256" "calls min_mysql_pwrite64_openat_0_0_body256 = 13" "opened_in m min_mysql_pwrite64_openat_0_0_body256 = []"
  by (simp_all add: min_mysql_pwrite64_openat_0_0_body256_def prog_checks open_checks)

lemma min_mysql_pwrite64_openat_0_0_body257_ok: "body_ok (Suc 0) 8192 min_mysql_pwrite64_openat_0_0_body257" "counted min_mysql_pwrite64_openat_0_0_body257" "calls min_mysql_pwrite64_openat_0_0_body257 = 13" "opened_in m min_mysql_pwrite64_openat_0_0_body257 = []"
  by (simp_all add: min_mysql_pwrite64_openat_0_0_body257_def prog_checks open_checks)

lemma min_mysql_pwrite64_openat_0_0_body258_ok: "body_ok (Suc 0) 8192 min_mysql_pwrite64_openat_0_0_body258" "counted min_mysql_pwrite64_openat_0_0_body258" "calls min_mysql_pwrite64_openat_0_0_body258 = 13" "opened_in m min_mysql_pwrite64_openat_0_0_body258 = []"
  by (simp_all add: min_mysql_pwrite64_openat_0_0_body258_def prog_checks open_checks)

lemma min_mysql_pwrite64_openat_0_0_body259_ok: "body_ok (Suc 0) 8192 min_mysql_pwrite64_openat_0_0_body259" "counted min_mysql_pwrite64_openat_0_0_body259" "calls min_mysql_pwrite64_openat_0_0_body259 = 13" "opened_in m min_mysql_pwrite64_openat_0_0_body259 = []"
  by (simp_all add: min_mysql_pwrite64_openat_0_0_body259_def prog_checks open_checks)

lemma min_mysql_pwrite64_openat_0_0_body260_ok: "body_ok (Suc 0) 8192 min_mysql_pwrite64_openat_0_0_body260" "counted min_mysql_pwrite64_openat_0_0_body260" "calls min_mysql_pwrite64_openat_0_0_body260 = 13" "opened_in m min_mysql_pwrite64_openat_0_0_body260 = []"
  by (simp_all add: min_mysql_pwrite64_openat_0_0_body260_def prog_checks open_checks)

lemma min_mysql_pwrite64_openat_0_0_body261_ok: "body_ok (Suc 0) 8192 min_mysql_pwrite64_openat_0_0_body261" "counted min_mysql_pwrite64_openat_0_0_body261" "calls min_mysql_pwrite64_openat_0_0_body261 = 13" "opened_in m min_mysql_pwrite64_openat_0_0_body261 = []"
  by (simp_all add: min_mysql_pwrite64_openat_0_0_body261_def prog_checks open_checks)

lemma min_mysql_pwrite64_openat_0_0_body262_ok: "body_ok (Suc 0) 8192 min_mysql_pwrite64_openat_0_0_body262" "counted min_mysql_pwrite64_openat_0_0_body262" "calls min_mysql_pwrite64_openat_0_0_body262 = 13" "opened_in m min_mysql_pwrite64_openat_0_0_body262 = []"
  by (simp_all add: min_mysql_pwrite64_openat_0_0_body262_def prog_checks open_checks)

lemma min_mysql_pwrite64_openat_0_0_body263_ok: "body_ok (Suc 0) 8192 min_mysql_pwrite64_openat_0_0_body263" "counted min_mysql_pwrite64_openat_0_0_body263" "calls min_mysql_pwrite64_openat_0_0_body263 = 13" "opened_in m min_mysql_pwrite64_openat_0_0_body263 = []"
  by (simp_all add: min_mysql_pwrite64_openat_0_0_body263_def prog_checks open_checks)

lemma min_mysql_pwrite64_openat_0_0_body264_ok: "body_ok (Suc 0) 8192 min_mysql_pwrite64_openat_0_0_body264" "counted min_mysql_pwrite64_openat_0_0_body264" "calls min_mysql_pwrite64_openat_0_0_body264 = 13" "opened_in m min_mysql_pwrite64_openat_0_0_body264 = []"
  by (simp_all add: min_mysql_pwrite64_openat_0_0_body264_def prog_checks open_checks)

lemma min_mysql_pwrite64_openat_0_0_body265_ok: "body_ok (Suc 0) 8192 min_mysql_pwrite64_openat_0_0_body265" "counted min_mysql_pwrite64_openat_0_0_body265" "calls min_mysql_pwrite64_openat_0_0_body265 = 13" "opened_in m min_mysql_pwrite64_openat_0_0_body265 = []"
  by (simp_all add: min_mysql_pwrite64_openat_0_0_body265_def prog_checks open_checks)

lemma min_mysql_pwrite64_openat_0_0_body266_ok: "body_ok (Suc 0) 8192 min_mysql_pwrite64_openat_0_0_body266" "counted min_mysql_pwrite64_openat_0_0_body266" "calls min_mysql_pwrite64_openat_0_0_body266 = 13" "opened_in m min_mysql_pwrite64_openat_0_0_body266 = []"
  by (simp_all add: min_mysql_pwrite64_openat_0_0_body266_def prog_checks open_checks)

lemma min_mysql_pwrite64_openat_0_0_body267_ok: "body_ok (Suc 0) 8192 min_mysql_pwrite64_openat_0_0_body267" "counted min_mysql_pwrite64_openat_0_0_body267" "calls min_mysql_pwrite64_openat_0_0_body267 = 13" "opened_in m min_mysql_pwrite64_openat_0_0_body267 = []"
  by (simp_all add: min_mysql_pwrite64_openat_0_0_body267_def prog_checks open_checks)

lemma min_mysql_pwrite64_openat_0_0_body268_ok: "body_ok (Suc 0) 8192 min_mysql_pwrite64_openat_0_0_body268" "counted min_mysql_pwrite64_openat_0_0_body268" "calls min_mysql_pwrite64_openat_0_0_body268 = 13" "opened_in m min_mysql_pwrite64_openat_0_0_body268 = []"
  by (simp_all add: min_mysql_pwrite64_openat_0_0_body268_def prog_checks open_checks)

lemma min_mysql_pwrite64_openat_0_0_body269_ok: "body_ok (Suc 0) 8192 min_mysql_pwrite64_openat_0_0_body269" "counted min_mysql_pwrite64_openat_0_0_body269" "calls min_mysql_pwrite64_openat_0_0_body269 = 13" "opened_in m min_mysql_pwrite64_openat_0_0_body269 = []"
  by (simp_all add: min_mysql_pwrite64_openat_0_0_body269_def prog_checks open_checks)

lemma min_mysql_pwrite64_openat_0_0_body270_ok: "body_ok (Suc 0) 8192 min_mysql_pwrite64_openat_0_0_body270" "counted min_mysql_pwrite64_openat_0_0_body270" "calls min_mysql_pwrite64_openat_0_0_body270 = 13" "opened_in m min_mysql_pwrite64_openat_0_0_body270 = []"
  by (simp_all add: min_mysql_pwrite64_openat_0_0_body270_def prog_checks open_checks)

lemma min_mysql_pwrite64_openat_0_0_body271_ok: "body_ok (Suc 0) 8192 min_mysql_pwrite64_openat_0_0_body271" "counted min_mysql_pwrite64_openat_0_0_body271" "calls min_mysql_pwrite64_openat_0_0_body271 = 13" "opened_in m min_mysql_pwrite64_openat_0_0_body271 = []"
  by (simp_all add: min_mysql_pwrite64_openat_0_0_body271_def prog_checks open_checks)

lemma min_mysql_pwrite64_openat_0_0_body272_ok: "body_ok (Suc 0) 8192 min_mysql_pwrite64_openat_0_0_body272" "counted min_mysql_pwrite64_openat_0_0_body272" "calls min_mysql_pwrite64_openat_0_0_body272 = 13" "opened_in m min_mysql_pwrite64_openat_0_0_body272 = []"
  by (simp_all add: min_mysql_pwrite64_openat_0_0_body272_def prog_checks open_checks)

lemma min_mysql_pwrite64_openat_0_0_body273_ok: "body_ok (Suc 0) 8192 min_mysql_pwrite64_openat_0_0_body273" "counted min_mysql_pwrite64_openat_0_0_body273" "calls min_mysql_pwrite64_openat_0_0_body273 = 13" "opened_in m min_mysql_pwrite64_openat_0_0_body273 = []"
  by (simp_all add: min_mysql_pwrite64_openat_0_0_body273_def prog_checks open_checks)

lemma min_mysql_pwrite64_openat_0_0_body274_ok: "body_ok (Suc 0) 8192 min_mysql_pwrite64_openat_0_0_body274" "counted min_mysql_pwrite64_openat_0_0_body274" "calls min_mysql_pwrite64_openat_0_0_body274 = 13" "opened_in m min_mysql_pwrite64_openat_0_0_body274 = []"
  by (simp_all add: min_mysql_pwrite64_openat_0_0_body274_def prog_checks open_checks)

lemma min_mysql_pwrite64_openat_0_0_body275_ok: "body_ok (Suc 0) 8192 min_mysql_pwrite64_openat_0_0_body275" "counted min_mysql_pwrite64_openat_0_0_body275" "calls min_mysql_pwrite64_openat_0_0_body275 = 13" "opened_in m min_mysql_pwrite64_openat_0_0_body275 = []"
  by (simp_all add: min_mysql_pwrite64_openat_0_0_body275_def prog_checks open_checks)

lemma min_mysql_pwrite64_openat_0_0_body276_ok: "body_ok (Suc 0) 8192 min_mysql_pwrite64_openat_0_0_body276" "counted min_mysql_pwrite64_openat_0_0_body276" "calls min_mysql_pwrite64_openat_0_0_body276 = 13" "opened_in m min_mysql_pwrite64_openat_0_0_body276 = []"
  by (simp_all add: min_mysql_pwrite64_openat_0_0_body276_def prog_checks open_checks)

lemma min_mysql_pwrite64_openat_0_0_body277_ok: "body_ok (Suc 0) 8192 min_mysql_pwrite64_openat_0_0_body277" "counted min_mysql_pwrite64_openat_0_0_body277" "calls min_mysql_pwrite64_openat_0_0_body277 = 13" "opened_in m min_mysql_pwrite64_openat_0_0_body277 = []"
  by (simp_all add: min_mysql_pwrite64_openat_0_0_body277_def prog_checks open_checks)

lemma min_mysql_pwrite64_openat_0_0_body278_ok: "body_ok (Suc 0) 8192 min_mysql_pwrite64_openat_0_0_body278" "counted min_mysql_pwrite64_openat_0_0_body278" "calls min_mysql_pwrite64_openat_0_0_body278 = 13" "opened_in m min_mysql_pwrite64_openat_0_0_body278 = []"
  by (simp_all add: min_mysql_pwrite64_openat_0_0_body278_def prog_checks open_checks)

lemma min_mysql_pwrite64_openat_0_0_body279_ok: "body_ok (Suc 0) 8192 min_mysql_pwrite64_openat_0_0_body279" "counted min_mysql_pwrite64_openat_0_0_body279" "calls min_mysql_pwrite64_openat_0_0_body279 = 13" "opened_in m min_mysql_pwrite64_openat_0_0_body279 = []"
  by (simp_all add: min_mysql_pwrite64_openat_0_0_body279_def prog_checks open_checks)

lemma min_mysql_pwrite64_openat_0_0_body280_ok: "body_ok (Suc 0) 8192 min_mysql_pwrite64_openat_0_0_body280" "counted min_mysql_pwrite64_openat_0_0_body280" "calls min_mysql_pwrite64_openat_0_0_body280 = 13" "opened_in m min_mysql_pwrite64_openat_0_0_body280 = []"
  by (simp_all add: min_mysql_pwrite64_openat_0_0_body280_def prog_checks open_checks)

lemma min_mysql_pwrite64_openat_0_0_body281_ok: "body_ok (Suc 0) 8192 min_mysql_pwrite64_openat_0_0_body281" "counted min_mysql_pwrite64_openat_0_0_body281" "calls min_mysql_pwrite64_openat_0_0_body281 = 13" "opened_in m min_mysql_pwrite64_openat_0_0_body281 = []"
  by (simp_all add: min_mysql_pwrite64_openat_0_0_body281_def prog_checks open_checks)

lemma min_mysql_pwrite64_openat_0_0_body282_ok: "body_ok (Suc 0) 8192 min_mysql_pwrite64_openat_0_0_body282" "counted min_mysql_pwrite64_openat_0_0_body282" "calls min_mysql_pwrite64_openat_0_0_body282 = 13" "opened_in m min_mysql_pwrite64_openat_0_0_body282 = []"
  by (simp_all add: min_mysql_pwrite64_openat_0_0_body282_def prog_checks open_checks)

lemma min_mysql_pwrite64_openat_0_0_body283_ok: "body_ok (Suc 0) 8192 min_mysql_pwrite64_openat_0_0_body283" "counted min_mysql_pwrite64_openat_0_0_body283" "calls min_mysql_pwrite64_openat_0_0_body283 = 13" "opened_in m min_mysql_pwrite64_openat_0_0_body283 = []"
  by (simp_all add: min_mysql_pwrite64_openat_0_0_body283_def prog_checks open_checks)

lemma min_mysql_pwrite64_openat_0_0_body284_ok: "body_ok (Suc 0) 8192 min_mysql_pwrite64_openat_0_0_body284" "counted min_mysql_pwrite64_openat_0_0_body284" "calls min_mysql_pwrite64_openat_0_0_body284 = 13" "opened_in m min_mysql_pwrite64_openat_0_0_body284 = []"
  by (simp_all add: min_mysql_pwrite64_openat_0_0_body284_def prog_checks open_checks)

lemma min_mysql_pwrite64_openat_0_0_body285_ok: "body_ok (Suc 0) 8192 min_mysql_pwrite64_openat_0_0_body285" "counted min_mysql_pwrite64_openat_0_0_body285" "calls min_mysql_pwrite64_openat_0_0_body285 = 13" "opened_in m min_mysql_pwrite64_openat_0_0_body285 = []"
  by (simp_all add: min_mysql_pwrite64_openat_0_0_body285_def prog_checks open_checks)

lemma min_mysql_pwrite64_openat_0_0_body286_ok: "body_ok (Suc 0) 8192 min_mysql_pwrite64_openat_0_0_body286" "counted min_mysql_pwrite64_openat_0_0_body286" "calls min_mysql_pwrite64_openat_0_0_body286 = 13" "opened_in m min_mysql_pwrite64_openat_0_0_body286 = []"
  by (simp_all add: min_mysql_pwrite64_openat_0_0_body286_def prog_checks open_checks)

lemma min_mysql_pwrite64_openat_0_0_body287_ok: "body_ok (Suc 0) 8192 min_mysql_pwrite64_openat_0_0_body287" "counted min_mysql_pwrite64_openat_0_0_body287" "calls min_mysql_pwrite64_openat_0_0_body287 = 13" "opened_in m min_mysql_pwrite64_openat_0_0_body287 = []"
  by (simp_all add: min_mysql_pwrite64_openat_0_0_body287_def prog_checks open_checks)

lemma min_mysql_pwrite64_openat_0_0_body288_ok: "body_ok (Suc 0) 8192 min_mysql_pwrite64_openat_0_0_body288" "counted min_mysql_pwrite64_openat_0_0_body288" "calls min_mysql_pwrite64_openat_0_0_body288 = 13" "opened_in m min_mysql_pwrite64_openat_0_0_body288 = []"
  by (simp_all add: min_mysql_pwrite64_openat_0_0_body288_def prog_checks open_checks)

lemma min_mysql_pwrite64_openat_0_0_body289_ok: "body_ok (Suc 0) 8192 min_mysql_pwrite64_openat_0_0_body289" "counted min_mysql_pwrite64_openat_0_0_body289" "calls min_mysql_pwrite64_openat_0_0_body289 = 13" "opened_in m min_mysql_pwrite64_openat_0_0_body289 = []"
  by (simp_all add: min_mysql_pwrite64_openat_0_0_body289_def prog_checks open_checks)

lemma min_mysql_pwrite64_openat_0_0_body290_ok: "body_ok (Suc 0) 8192 min_mysql_pwrite64_openat_0_0_body290" "counted min_mysql_pwrite64_openat_0_0_body290" "calls min_mysql_pwrite64_openat_0_0_body290 = 13" "opened_in m min_mysql_pwrite64_openat_0_0_body290 = []"
  by (simp_all add: min_mysql_pwrite64_openat_0_0_body290_def prog_checks open_checks)

lemma min_mysql_pwrite64_openat_0_0_body291_ok: "body_ok (Suc 0) 8192 min_mysql_pwrite64_openat_0_0_body291" "counted min_mysql_pwrite64_openat_0_0_body291" "calls min_mysql_pwrite64_openat_0_0_body291 = 13" "opened_in m min_mysql_pwrite64_openat_0_0_body291 = []"
  by (simp_all add: min_mysql_pwrite64_openat_0_0_body291_def prog_checks open_checks)

lemma min_mysql_pwrite64_openat_0_0_body292_ok: "body_ok (Suc 0) 8192 min_mysql_pwrite64_openat_0_0_body292" "counted min_mysql_pwrite64_openat_0_0_body292" "calls min_mysql_pwrite64_openat_0_0_body292 = 13" "opened_in m min_mysql_pwrite64_openat_0_0_body292 = []"
  by (simp_all add: min_mysql_pwrite64_openat_0_0_body292_def prog_checks open_checks)

lemma min_mysql_pwrite64_openat_0_0_body293_ok: "body_ok (Suc 0) 8192 min_mysql_pwrite64_openat_0_0_body293" "counted min_mysql_pwrite64_openat_0_0_body293" "calls min_mysql_pwrite64_openat_0_0_body293 = 13" "opened_in m min_mysql_pwrite64_openat_0_0_body293 = []"
  by (simp_all add: min_mysql_pwrite64_openat_0_0_body293_def prog_checks open_checks)

lemma min_mysql_pwrite64_openat_0_0_body294_ok: "body_ok (Suc 0) 8192 min_mysql_pwrite64_openat_0_0_body294" "counted min_mysql_pwrite64_openat_0_0_body294" "calls min_mysql_pwrite64_openat_0_0_body294 = 13" "opened_in m min_mysql_pwrite64_openat_0_0_body294 = []"
  by (simp_all add: min_mysql_pwrite64_openat_0_0_body294_def prog_checks open_checks)

lemma min_mysql_pwrite64_openat_0_0_body295_ok: "body_ok (Suc 0) 8192 min_mysql_pwrite64_openat_0_0_body295" "counted min_mysql_pwrite64_openat_0_0_body295" "calls min_mysql_pwrite64_openat_0_0_body295 = 13" "opened_in m min_mysql_pwrite64_openat_0_0_body295 = []"
  by (simp_all add: min_mysql_pwrite64_openat_0_0_body295_def prog_checks open_checks)

lemma min_mysql_pwrite64_openat_0_0_body296_ok: "body_ok (Suc 0) 8192 min_mysql_pwrite64_openat_0_0_body296" "counted min_mysql_pwrite64_openat_0_0_body296" "calls min_mysql_pwrite64_openat_0_0_body296 = 13" "opened_in m min_mysql_pwrite64_openat_0_0_body296 = []"
  by (simp_all add: min_mysql_pwrite64_openat_0_0_body296_def prog_checks open_checks)

lemma min_mysql_pwrite64_openat_0_0_body297_ok: "body_ok (Suc 0) 8192 min_mysql_pwrite64_openat_0_0_body297" "counted min_mysql_pwrite64_openat_0_0_body297" "calls min_mysql_pwrite64_openat_0_0_body297 = 13" "opened_in m min_mysql_pwrite64_openat_0_0_body297 = []"
  by (simp_all add: min_mysql_pwrite64_openat_0_0_body297_def prog_checks open_checks)

lemma min_mysql_pwrite64_openat_0_0_body298_ok: "body_ok (Suc 0) 8192 min_mysql_pwrite64_openat_0_0_body298" "counted min_mysql_pwrite64_openat_0_0_body298" "calls min_mysql_pwrite64_openat_0_0_body298 = 13" "opened_in m min_mysql_pwrite64_openat_0_0_body298 = []"
  by (simp_all add: min_mysql_pwrite64_openat_0_0_body298_def prog_checks open_checks)

lemma min_mysql_pwrite64_openat_0_0_body299_ok: "body_ok (Suc 0) 8192 min_mysql_pwrite64_openat_0_0_body299" "counted min_mysql_pwrite64_openat_0_0_body299" "calls min_mysql_pwrite64_openat_0_0_body299 = 13" "opened_in m min_mysql_pwrite64_openat_0_0_body299 = []"
  by (simp_all add: min_mysql_pwrite64_openat_0_0_body299_def prog_checks open_checks)

lemma min_mysql_pwrite64_openat_0_0_body300_ok: "body_ok (Suc 0) 8192 min_mysql_pwrite64_openat_0_0_body300" "counted min_mysql_pwrite64_openat_0_0_body300" "calls min_mysql_pwrite64_openat_0_0_body300 = 13" "opened_in m min_mysql_pwrite64_openat_0_0_body300 = []"
  by (simp_all add: min_mysql_pwrite64_openat_0_0_body300_def prog_checks open_checks)

lemma min_mysql_pwrite64_openat_0_0_body301_ok: "body_ok (Suc 0) 8192 min_mysql_pwrite64_openat_0_0_body301" "counted min_mysql_pwrite64_openat_0_0_body301" "calls min_mysql_pwrite64_openat_0_0_body301 = 13" "opened_in m min_mysql_pwrite64_openat_0_0_body301 = []"
  by (simp_all add: min_mysql_pwrite64_openat_0_0_body301_def prog_checks open_checks)

lemma min_mysql_pwrite64_openat_0_0_body302_ok: "body_ok (Suc 0) 8192 min_mysql_pwrite64_openat_0_0_body302" "counted min_mysql_pwrite64_openat_0_0_body302" "calls min_mysql_pwrite64_openat_0_0_body302 = 13" "opened_in m min_mysql_pwrite64_openat_0_0_body302 = []"
  by (simp_all add: min_mysql_pwrite64_openat_0_0_body302_def prog_checks open_checks)

lemma min_mysql_pwrite64_openat_0_0_body303_ok: "body_ok (Suc 0) 8192 min_mysql_pwrite64_openat_0_0_body303" "counted min_mysql_pwrite64_openat_0_0_body303" "calls min_mysql_pwrite64_openat_0_0_body303 = 13" "opened_in m min_mysql_pwrite64_openat_0_0_body303 = []"
  by (simp_all add: min_mysql_pwrite64_openat_0_0_body303_def prog_checks open_checks)

lemma min_mysql_pwrite64_openat_0_0_body304_ok: "body_ok (Suc 0) 8192 min_mysql_pwrite64_openat_0_0_body304" "counted min_mysql_pwrite64_openat_0_0_body304" "calls min_mysql_pwrite64_openat_0_0_body304 = 13" "opened_in m min_mysql_pwrite64_openat_0_0_body304 = []"
  by (simp_all add: min_mysql_pwrite64_openat_0_0_body304_def prog_checks open_checks)

lemma min_mysql_pwrite64_openat_0_0_body305_ok: "body_ok (Suc 0) 8192 min_mysql_pwrite64_openat_0_0_body305" "counted min_mysql_pwrite64_openat_0_0_body305" "calls min_mysql_pwrite64_openat_0_0_body305 = 13" "opened_in m min_mysql_pwrite64_openat_0_0_body305 = []"
  by (simp_all add: min_mysql_pwrite64_openat_0_0_body305_def prog_checks open_checks)

lemma min_mysql_pwrite64_openat_0_0_body306_ok: "body_ok (Suc 0) 8192 min_mysql_pwrite64_openat_0_0_body306" "counted min_mysql_pwrite64_openat_0_0_body306" "calls min_mysql_pwrite64_openat_0_0_body306 = 13" "opened_in m min_mysql_pwrite64_openat_0_0_body306 = []"
  by (simp_all add: min_mysql_pwrite64_openat_0_0_body306_def prog_checks open_checks)

lemma min_mysql_pwrite64_openat_0_0_body307_ok: "body_ok (Suc 0) 8192 min_mysql_pwrite64_openat_0_0_body307" "counted min_mysql_pwrite64_openat_0_0_body307" "calls min_mysql_pwrite64_openat_0_0_body307 = 13" "opened_in m min_mysql_pwrite64_openat_0_0_body307 = []"
  by (simp_all add: min_mysql_pwrite64_openat_0_0_body307_def prog_checks open_checks)

lemma min_mysql_pwrite64_openat_0_0_body308_ok: "body_ok (Suc 0) 8192 min_mysql_pwrite64_openat_0_0_body308" "counted min_mysql_pwrite64_openat_0_0_body308" "calls min_mysql_pwrite64_openat_0_0_body308 = 13" "opened_in m min_mysql_pwrite64_openat_0_0_body308 = []"
  by (simp_all add: min_mysql_pwrite64_openat_0_0_body308_def prog_checks open_checks)

lemma min_mysql_pwrite64_openat_0_0_body309_ok: "body_ok (Suc 0) 8192 min_mysql_pwrite64_openat_0_0_body309" "counted min_mysql_pwrite64_openat_0_0_body309" "calls min_mysql_pwrite64_openat_0_0_body309 = 13" "opened_in m min_mysql_pwrite64_openat_0_0_body309 = []"
  by (simp_all add: min_mysql_pwrite64_openat_0_0_body309_def prog_checks open_checks)

lemma min_mysql_pwrite64_openat_0_0_body310_ok: "body_ok (Suc 0) 8192 min_mysql_pwrite64_openat_0_0_body310" "counted min_mysql_pwrite64_openat_0_0_body310" "calls min_mysql_pwrite64_openat_0_0_body310 = 13" "opened_in m min_mysql_pwrite64_openat_0_0_body310 = []"
  by (simp_all add: min_mysql_pwrite64_openat_0_0_body310_def prog_checks open_checks)

lemma min_mysql_pwrite64_openat_0_0_body311_ok: "body_ok (Suc 0) 8192 min_mysql_pwrite64_openat_0_0_body311" "counted min_mysql_pwrite64_openat_0_0_body311" "calls min_mysql_pwrite64_openat_0_0_body311 = 13" "opened_in m min_mysql_pwrite64_openat_0_0_body311 = []"
  by (simp_all add: min_mysql_pwrite64_openat_0_0_body311_def prog_checks open_checks)

lemma min_mysql_pwrite64_openat_0_0_body312_ok: "body_ok (Suc 0) 8192 min_mysql_pwrite64_openat_0_0_body312" "counted min_mysql_pwrite64_openat_0_0_body312" "calls min_mysql_pwrite64_openat_0_0_body312 = 13" "opened_in m min_mysql_pwrite64_openat_0_0_body312 = []"
  by (simp_all add: min_mysql_pwrite64_openat_0_0_body312_def prog_checks open_checks)

lemma min_mysql_pwrite64_openat_0_0_body313_ok: "body_ok (Suc 0) 8192 min_mysql_pwrite64_openat_0_0_body313" "counted min_mysql_pwrite64_openat_0_0_body313" "calls min_mysql_pwrite64_openat_0_0_body313 = 13" "opened_in m min_mysql_pwrite64_openat_0_0_body313 = []"
  by (simp_all add: min_mysql_pwrite64_openat_0_0_body313_def prog_checks open_checks)

lemma min_mysql_pwrite64_openat_0_0_body314_ok: "body_ok (Suc 0) 8192 min_mysql_pwrite64_openat_0_0_body314" "counted min_mysql_pwrite64_openat_0_0_body314" "calls min_mysql_pwrite64_openat_0_0_body314 = 13" "opened_in m min_mysql_pwrite64_openat_0_0_body314 = []"
  by (simp_all add: min_mysql_pwrite64_openat_0_0_body314_def prog_checks open_checks)

lemma min_mysql_pwrite64_openat_0_0_body315_ok: "body_ok (Suc 0) 8192 min_mysql_pwrite64_openat_0_0_body315" "counted min_mysql_pwrite64_openat_0_0_body315" "calls min_mysql_pwrite64_openat_0_0_body315 = 13" "opened_in m min_mysql_pwrite64_openat_0_0_body315 = []"
  by (simp_all add: min_mysql_pwrite64_openat_0_0_body315_def prog_checks open_checks)

lemma min_mysql_pwrite64_openat_0_0_body316_ok: "body_ok (Suc 0) 8192 min_mysql_pwrite64_openat_0_0_body316" "counted min_mysql_pwrite64_openat_0_0_body316" "calls min_mysql_pwrite64_openat_0_0_body316 = 13" "opened_in m min_mysql_pwrite64_openat_0_0_body316 = []"
  by (simp_all add: min_mysql_pwrite64_openat_0_0_body316_def prog_checks open_checks)

lemma min_mysql_pwrite64_openat_0_0_body317_ok: "body_ok (Suc 0) 8192 min_mysql_pwrite64_openat_0_0_body317" "counted min_mysql_pwrite64_openat_0_0_body317" "calls min_mysql_pwrite64_openat_0_0_body317 = 13" "opened_in m min_mysql_pwrite64_openat_0_0_body317 = []"
  by (simp_all add: min_mysql_pwrite64_openat_0_0_body317_def prog_checks open_checks)

lemma min_mysql_pwrite64_openat_0_0_body318_ok: "body_ok (Suc 0) 8192 min_mysql_pwrite64_openat_0_0_body318" "counted min_mysql_pwrite64_openat_0_0_body318" "calls min_mysql_pwrite64_openat_0_0_body318 = 13" "opened_in m min_mysql_pwrite64_openat_0_0_body318 = []"
  by (simp_all add: min_mysql_pwrite64_openat_0_0_body318_def prog_checks open_checks)

lemma min_mysql_pwrite64_openat_0_0_body319_ok: "body_ok (Suc 0) 8192 min_mysql_pwrite64_openat_0_0_body319" "counted min_mysql_pwrite64_openat_0_0_body319" "calls min_mysql_pwrite64_openat_0_0_body319 = 13" "opened_in m min_mysql_pwrite64_openat_0_0_body319 = []"
  by (simp_all add: min_mysql_pwrite64_openat_0_0_body319_def prog_checks open_checks)

lemma min_mysql_pwrite64_openat_0_0_body320_ok: "body_ok (Suc 0) 8192 min_mysql_pwrite64_openat_0_0_body320" "counted min_mysql_pwrite64_openat_0_0_body320" "calls min_mysql_pwrite64_openat_0_0_body320 = 13" "opened_in m min_mysql_pwrite64_openat_0_0_body320 = []"
  by (simp_all add: min_mysql_pwrite64_openat_0_0_body320_def prog_checks open_checks)

lemma min_mysql_pwrite64_openat_0_0_body321_ok: "body_ok (Suc 0) 8192 min_mysql_pwrite64_openat_0_0_body321" "counted min_mysql_pwrite64_openat_0_0_body321" "calls min_mysql_pwrite64_openat_0_0_body321 = 13" "opened_in m min_mysql_pwrite64_openat_0_0_body321 = []"
  by (simp_all add: min_mysql_pwrite64_openat_0_0_body321_def prog_checks open_checks)

lemma min_mysql_pwrite64_openat_0_0_body322_ok: "body_ok (Suc 0) 8192 min_mysql_pwrite64_openat_0_0_body322" "counted min_mysql_pwrite64_openat_0_0_body322" "calls min_mysql_pwrite64_openat_0_0_body322 = 13" "opened_in m min_mysql_pwrite64_openat_0_0_body322 = []"
  by (simp_all add: min_mysql_pwrite64_openat_0_0_body322_def prog_checks open_checks)

lemma min_mysql_pwrite64_openat_0_0_body323_ok: "body_ok (Suc 0) 8192 min_mysql_pwrite64_openat_0_0_body323" "counted min_mysql_pwrite64_openat_0_0_body323" "calls min_mysql_pwrite64_openat_0_0_body323 = 13" "opened_in m min_mysql_pwrite64_openat_0_0_body323 = []"
  by (simp_all add: min_mysql_pwrite64_openat_0_0_body323_def prog_checks open_checks)

lemma min_mysql_pwrite64_openat_0_0_body324_ok: "body_ok (Suc 0) 8192 min_mysql_pwrite64_openat_0_0_body324" "counted min_mysql_pwrite64_openat_0_0_body324" "calls min_mysql_pwrite64_openat_0_0_body324 = 13" "opened_in m min_mysql_pwrite64_openat_0_0_body324 = []"
  by (simp_all add: min_mysql_pwrite64_openat_0_0_body324_def prog_checks open_checks)

lemma min_mysql_pwrite64_openat_0_0_body325_ok: "body_ok (Suc 0) 8192 min_mysql_pwrite64_openat_0_0_body325" "counted min_mysql_pwrite64_openat_0_0_body325" "calls min_mysql_pwrite64_openat_0_0_body325 = 13" "opened_in m min_mysql_pwrite64_openat_0_0_body325 = []"
  by (simp_all add: min_mysql_pwrite64_openat_0_0_body325_def prog_checks open_checks)

lemma min_mysql_pwrite64_openat_0_0_body326_ok: "body_ok (Suc 0) 8192 min_mysql_pwrite64_openat_0_0_body326" "counted min_mysql_pwrite64_openat_0_0_body326" "calls min_mysql_pwrite64_openat_0_0_body326 = 13" "opened_in m min_mysql_pwrite64_openat_0_0_body326 = []"
  by (simp_all add: min_mysql_pwrite64_openat_0_0_body326_def prog_checks open_checks)

lemma min_mysql_pwrite64_openat_0_0_body327_ok: "body_ok (Suc 0) 8192 min_mysql_pwrite64_openat_0_0_body327" "counted min_mysql_pwrite64_openat_0_0_body327" "calls min_mysql_pwrite64_openat_0_0_body327 = 13" "opened_in m min_mysql_pwrite64_openat_0_0_body327 = []"
  by (simp_all add: min_mysql_pwrite64_openat_0_0_body327_def prog_checks open_checks)

lemma min_mysql_pwrite64_openat_0_0_body328_ok: "body_ok (Suc 0) 8192 min_mysql_pwrite64_openat_0_0_body328" "counted min_mysql_pwrite64_openat_0_0_body328" "calls min_mysql_pwrite64_openat_0_0_body328 = 13" "opened_in m min_mysql_pwrite64_openat_0_0_body328 = []"
  by (simp_all add: min_mysql_pwrite64_openat_0_0_body328_def prog_checks open_checks)

lemma min_mysql_pwrite64_openat_0_0_body329_ok: "body_ok (Suc 0) 8192 min_mysql_pwrite64_openat_0_0_body329" "counted min_mysql_pwrite64_openat_0_0_body329" "calls min_mysql_pwrite64_openat_0_0_body329 = 13" "opened_in m min_mysql_pwrite64_openat_0_0_body329 = []"
  by (simp_all add: min_mysql_pwrite64_openat_0_0_body329_def prog_checks open_checks)

lemma min_mysql_pwrite64_openat_0_0_body330_ok: "body_ok (Suc 0) 8192 min_mysql_pwrite64_openat_0_0_body330" "counted min_mysql_pwrite64_openat_0_0_body330" "calls min_mysql_pwrite64_openat_0_0_body330 = 13" "opened_in m min_mysql_pwrite64_openat_0_0_body330 = []"
  by (simp_all add: min_mysql_pwrite64_openat_0_0_body330_def prog_checks open_checks)

lemma min_mysql_pwrite64_openat_0_0_body331_ok: "body_ok (Suc 0) 8192 min_mysql_pwrite64_openat_0_0_body331" "counted min_mysql_pwrite64_openat_0_0_body331" "calls min_mysql_pwrite64_openat_0_0_body331 = 13" "opened_in m min_mysql_pwrite64_openat_0_0_body331 = []"
  by (simp_all add: min_mysql_pwrite64_openat_0_0_body331_def prog_checks open_checks)

lemma min_mysql_pwrite64_openat_0_0_body332_ok: "body_ok (Suc 0) 8192 min_mysql_pwrite64_openat_0_0_body332" "counted min_mysql_pwrite64_openat_0_0_body332" "calls min_mysql_pwrite64_openat_0_0_body332 = 13" "opened_in m min_mysql_pwrite64_openat_0_0_body332 = []"
  by (simp_all add: min_mysql_pwrite64_openat_0_0_body332_def prog_checks open_checks)

lemma min_mysql_pwrite64_openat_0_0_body333_ok: "body_ok (Suc 0) 8192 min_mysql_pwrite64_openat_0_0_body333" "counted min_mysql_pwrite64_openat_0_0_body333" "calls min_mysql_pwrite64_openat_0_0_body333 = 13" "opened_in m min_mysql_pwrite64_openat_0_0_body333 = []"
  by (simp_all add: min_mysql_pwrite64_openat_0_0_body333_def prog_checks open_checks)

lemma min_mysql_pwrite64_openat_0_0_body334_ok: "body_ok (Suc 0) 8192 min_mysql_pwrite64_openat_0_0_body334" "counted min_mysql_pwrite64_openat_0_0_body334" "calls min_mysql_pwrite64_openat_0_0_body334 = 13" "opened_in m min_mysql_pwrite64_openat_0_0_body334 = []"
  by (simp_all add: min_mysql_pwrite64_openat_0_0_body334_def prog_checks open_checks)

lemma min_mysql_pwrite64_openat_0_0_body335_ok: "body_ok (Suc 0) 8192 min_mysql_pwrite64_openat_0_0_body335" "counted min_mysql_pwrite64_openat_0_0_body335" "calls min_mysql_pwrite64_openat_0_0_body335 = 13" "opened_in m min_mysql_pwrite64_openat_0_0_body335 = []"
  by (simp_all add: min_mysql_pwrite64_openat_0_0_body335_def prog_checks open_checks)

lemma min_mysql_pwrite64_openat_0_0_body336_ok: "body_ok (Suc 0) 8192 min_mysql_pwrite64_openat_0_0_body336" "counted min_mysql_pwrite64_openat_0_0_body336" "calls min_mysql_pwrite64_openat_0_0_body336 = 13" "opened_in m min_mysql_pwrite64_openat_0_0_body336 = []"
  by (simp_all add: min_mysql_pwrite64_openat_0_0_body336_def prog_checks open_checks)

lemma min_mysql_pwrite64_openat_0_0_body337_ok: "body_ok (Suc 0) 8192 min_mysql_pwrite64_openat_0_0_body337" "counted min_mysql_pwrite64_openat_0_0_body337" "calls min_mysql_pwrite64_openat_0_0_body337 = 13" "opened_in m min_mysql_pwrite64_openat_0_0_body337 = []"
  by (simp_all add: min_mysql_pwrite64_openat_0_0_body337_def prog_checks open_checks)

lemma min_mysql_pwrite64_openat_0_0_body338_ok: "body_ok (Suc 0) 8192 min_mysql_pwrite64_openat_0_0_body338" "counted min_mysql_pwrite64_openat_0_0_body338" "calls min_mysql_pwrite64_openat_0_0_body338 = 13" "opened_in m min_mysql_pwrite64_openat_0_0_body338 = []"
  by (simp_all add: min_mysql_pwrite64_openat_0_0_body338_def prog_checks open_checks)

lemma min_mysql_pwrite64_openat_0_0_body339_ok: "body_ok (Suc 0) 8192 min_mysql_pwrite64_openat_0_0_body339" "counted min_mysql_pwrite64_openat_0_0_body339" "calls min_mysql_pwrite64_openat_0_0_body339 = 13" "opened_in m min_mysql_pwrite64_openat_0_0_body339 = []"
  by (simp_all add: min_mysql_pwrite64_openat_0_0_body339_def prog_checks open_checks)

lemma min_mysql_pwrite64_openat_0_0_body340_ok: "body_ok (Suc 0) 8192 min_mysql_pwrite64_openat_0_0_body340" "counted min_mysql_pwrite64_openat_0_0_body340" "calls min_mysql_pwrite64_openat_0_0_body340 = 13" "opened_in m min_mysql_pwrite64_openat_0_0_body340 = []"
  by (simp_all add: min_mysql_pwrite64_openat_0_0_body340_def prog_checks open_checks)

lemma min_mysql_pwrite64_openat_0_0_body341_ok: "body_ok (Suc 0) 8192 min_mysql_pwrite64_openat_0_0_body341" "counted min_mysql_pwrite64_openat_0_0_body341" "calls min_mysql_pwrite64_openat_0_0_body341 = 13" "opened_in m min_mysql_pwrite64_openat_0_0_body341 = []"
  by (simp_all add: min_mysql_pwrite64_openat_0_0_body341_def prog_checks open_checks)

lemma min_mysql_pwrite64_openat_0_0_body342_ok: "body_ok (Suc 0) 8192 min_mysql_pwrite64_openat_0_0_body342" "counted min_mysql_pwrite64_openat_0_0_body342" "calls min_mysql_pwrite64_openat_0_0_body342 = 13" "opened_in m min_mysql_pwrite64_openat_0_0_body342 = []"
  by (simp_all add: min_mysql_pwrite64_openat_0_0_body342_def prog_checks open_checks)

lemma min_mysql_pwrite64_openat_0_0_body343_ok: "body_ok (Suc 0) 8192 min_mysql_pwrite64_openat_0_0_body343" "counted min_mysql_pwrite64_openat_0_0_body343" "calls min_mysql_pwrite64_openat_0_0_body343 = 13" "opened_in m min_mysql_pwrite64_openat_0_0_body343 = []"
  by (simp_all add: min_mysql_pwrite64_openat_0_0_body343_def prog_checks open_checks)

lemma min_mysql_pwrite64_openat_0_0_body344_ok: "body_ok (Suc 0) 8192 min_mysql_pwrite64_openat_0_0_body344" "counted min_mysql_pwrite64_openat_0_0_body344" "calls min_mysql_pwrite64_openat_0_0_body344 = 13" "opened_in m min_mysql_pwrite64_openat_0_0_body344 = []"
  by (simp_all add: min_mysql_pwrite64_openat_0_0_body344_def prog_checks open_checks)

lemma min_mysql_pwrite64_openat_0_0_body345_ok: "body_ok (Suc 0) 8192 min_mysql_pwrite64_openat_0_0_body345" "counted min_mysql_pwrite64_openat_0_0_body345" "calls min_mysql_pwrite64_openat_0_0_body345 = 13" "opened_in m min_mysql_pwrite64_openat_0_0_body345 = []"
  by (simp_all add: min_mysql_pwrite64_openat_0_0_body345_def prog_checks open_checks)

lemma min_mysql_pwrite64_openat_0_0_body346_ok: "body_ok (Suc 0) 8192 min_mysql_pwrite64_openat_0_0_body346" "counted min_mysql_pwrite64_openat_0_0_body346" "calls min_mysql_pwrite64_openat_0_0_body346 = 13" "opened_in m min_mysql_pwrite64_openat_0_0_body346 = []"
  by (simp_all add: min_mysql_pwrite64_openat_0_0_body346_def prog_checks open_checks)

lemma min_mysql_pwrite64_openat_0_0_body347_ok: "body_ok (Suc 0) 8192 min_mysql_pwrite64_openat_0_0_body347" "counted min_mysql_pwrite64_openat_0_0_body347" "calls min_mysql_pwrite64_openat_0_0_body347 = 13" "opened_in m min_mysql_pwrite64_openat_0_0_body347 = []"
  by (simp_all add: min_mysql_pwrite64_openat_0_0_body347_def prog_checks open_checks)

lemma min_mysql_pwrite64_openat_0_0_body348_ok: "body_ok (Suc 0) 8192 min_mysql_pwrite64_openat_0_0_body348" "counted min_mysql_pwrite64_openat_0_0_body348" "calls min_mysql_pwrite64_openat_0_0_body348 = 13" "opened_in m min_mysql_pwrite64_openat_0_0_body348 = []"
  by (simp_all add: min_mysql_pwrite64_openat_0_0_body348_def prog_checks open_checks)

lemma min_mysql_pwrite64_openat_0_0_body349_ok: "body_ok (Suc 0) 8192 min_mysql_pwrite64_openat_0_0_body349" "counted min_mysql_pwrite64_openat_0_0_body349" "calls min_mysql_pwrite64_openat_0_0_body349 = 13" "opened_in m min_mysql_pwrite64_openat_0_0_body349 = []"
  by (simp_all add: min_mysql_pwrite64_openat_0_0_body349_def prog_checks open_checks)

lemma min_mysql_pwrite64_openat_0_0_body350_ok: "body_ok (Suc 0) 8192 min_mysql_pwrite64_openat_0_0_body350" "counted min_mysql_pwrite64_openat_0_0_body350" "calls min_mysql_pwrite64_openat_0_0_body350 = 13" "opened_in m min_mysql_pwrite64_openat_0_0_body350 = []"
  by (simp_all add: min_mysql_pwrite64_openat_0_0_body350_def prog_checks open_checks)

lemma min_mysql_pwrite64_openat_0_0_body351_ok: "body_ok (Suc 0) 8192 min_mysql_pwrite64_openat_0_0_body351" "counted min_mysql_pwrite64_openat_0_0_body351" "calls min_mysql_pwrite64_openat_0_0_body351 = 13" "opened_in m min_mysql_pwrite64_openat_0_0_body351 = []"
  by (simp_all add: min_mysql_pwrite64_openat_0_0_body351_def prog_checks open_checks)

lemma min_mysql_pwrite64_openat_0_0_body352_ok: "body_ok (Suc 0) 8192 min_mysql_pwrite64_openat_0_0_body352" "counted min_mysql_pwrite64_openat_0_0_body352" "calls min_mysql_pwrite64_openat_0_0_body352 = 13" "opened_in m min_mysql_pwrite64_openat_0_0_body352 = []"
  by (simp_all add: min_mysql_pwrite64_openat_0_0_body352_def prog_checks open_checks)

lemma min_mysql_pwrite64_openat_0_0_body353_ok: "body_ok (Suc 0) 8192 min_mysql_pwrite64_openat_0_0_body353" "counted min_mysql_pwrite64_openat_0_0_body353" "calls min_mysql_pwrite64_openat_0_0_body353 = 13" "opened_in m min_mysql_pwrite64_openat_0_0_body353 = []"
  by (simp_all add: min_mysql_pwrite64_openat_0_0_body353_def prog_checks open_checks)

lemma min_mysql_pwrite64_openat_0_0_body354_ok: "body_ok (Suc 0) 8192 min_mysql_pwrite64_openat_0_0_body354" "counted min_mysql_pwrite64_openat_0_0_body354" "calls min_mysql_pwrite64_openat_0_0_body354 = 13" "opened_in m min_mysql_pwrite64_openat_0_0_body354 = []"
  by (simp_all add: min_mysql_pwrite64_openat_0_0_body354_def prog_checks open_checks)

lemma min_mysql_pwrite64_openat_0_0_body355_ok: "body_ok (Suc 0) 8192 min_mysql_pwrite64_openat_0_0_body355" "counted min_mysql_pwrite64_openat_0_0_body355" "calls min_mysql_pwrite64_openat_0_0_body355 = 13" "opened_in m min_mysql_pwrite64_openat_0_0_body355 = []"
  by (simp_all add: min_mysql_pwrite64_openat_0_0_body355_def prog_checks open_checks)

lemma min_mysql_pwrite64_openat_0_0_body356_ok: "body_ok (Suc 0) 8192 min_mysql_pwrite64_openat_0_0_body356" "counted min_mysql_pwrite64_openat_0_0_body356" "calls min_mysql_pwrite64_openat_0_0_body356 = 13" "opened_in m min_mysql_pwrite64_openat_0_0_body356 = []"
  by (simp_all add: min_mysql_pwrite64_openat_0_0_body356_def prog_checks open_checks)

lemma min_mysql_pwrite64_openat_0_0_body357_ok: "body_ok (Suc 0) 8192 min_mysql_pwrite64_openat_0_0_body357" "counted min_mysql_pwrite64_openat_0_0_body357" "calls min_mysql_pwrite64_openat_0_0_body357 = 13" "opened_in m min_mysql_pwrite64_openat_0_0_body357 = []"
  by (simp_all add: min_mysql_pwrite64_openat_0_0_body357_def prog_checks open_checks)

lemma min_mysql_pwrite64_openat_0_0_body358_ok: "body_ok (Suc 0) 8192 min_mysql_pwrite64_openat_0_0_body358" "counted min_mysql_pwrite64_openat_0_0_body358" "calls min_mysql_pwrite64_openat_0_0_body358 = 13" "opened_in m min_mysql_pwrite64_openat_0_0_body358 = []"
  by (simp_all add: min_mysql_pwrite64_openat_0_0_body358_def prog_checks open_checks)

lemma min_mysql_pwrite64_openat_0_0_body359_ok: "body_ok (Suc 0) 8192 min_mysql_pwrite64_openat_0_0_body359" "counted min_mysql_pwrite64_openat_0_0_body359" "calls min_mysql_pwrite64_openat_0_0_body359 = 13" "opened_in m min_mysql_pwrite64_openat_0_0_body359 = []"
  by (simp_all add: min_mysql_pwrite64_openat_0_0_body359_def prog_checks open_checks)

lemma min_mysql_pwrite64_openat_0_0_body360_ok: "body_ok (Suc 0) 8192 min_mysql_pwrite64_openat_0_0_body360" "counted min_mysql_pwrite64_openat_0_0_body360" "calls min_mysql_pwrite64_openat_0_0_body360 = 13" "opened_in m min_mysql_pwrite64_openat_0_0_body360 = []"
  by (simp_all add: min_mysql_pwrite64_openat_0_0_body360_def prog_checks open_checks)

end
