(* ===== verification/CSB_Progs_Mysql_v2l_p4.thy ===== *)
theory CSB_Progs_Mysql_v2l_p4
  imports CSB_Syz_Files
begin

text \<open>
  Statements of min\_mysql\_pwrite64\_openat\_0\_0 (bench/targets/mysql\_v2), in the
  order of the file; the program is put together in CSB\_Progs\_Mysql\_v2l.
\<close>

definition min_mysql_pwrite64_openat_0_0_body361 :: "stmt list" where
  "min_mysql_pwrite64_openat_0_0_body361 = [
    Syscall NR_pwrite64 [Reg 0, Write_buf, Imm 0x200, Imm 0x1e30fc00], Count,
    Syscall NR_pwrite64 [Reg 0, Write_buf, Imm 0x200, Imm 0x1e30fe00], Count,
    Syscall NR_pwrite64 [Reg 0, Write_buf, Imm 0x200, Imm 0x1e30fe00], Count,
    Syscall NR_pwrite64 [Reg 0, Write_buf, Imm 0x200, Imm 0x1e30fe00], Count,
    Syscall NR_pwrite64 [Reg 0, Write_buf, Imm 0x2000, Imm 0x1e310000], Count,
    Syscall NR_pwrite64 [Reg 0, Write_buf, Imm 0x200, Imm 0x1e310000], Count,
    Syscall NR_pwrite64 [Reg 0, Write_buf, Imm 0x200, Imm 0x1e310200], Count,
    Syscall NR_pwrite64 [Reg 0, Write_buf, Imm 0x200, Imm 0x1e310400], Count,
    Syscall NR_pwrite64 [Reg 0, Write_buf, Imm 0x400, Imm 0x1e310600], Count,
    Syscall NR_pwrite64 [Reg 0, Write_buf, Imm 0x400, Imm 0x1e310a00], Count,
    Syscall NR_pwrite64 [Reg 0, Write_buf, Imm 0xa00, Imm 0x1e310e00], Count,
    Syscall NR_pwrite64 [Reg 0, Write_buf, Imm 0x800, Imm 0x1e311800], Count,
    Syscall NR_pwrite64 [Reg 0, Write_buf, Imm 0x2000, Imm 0x1e312000], Count]"

definition min_mysql_pwrite64_openat_0_0_body362 :: "stmt list" where
  "min_mysql_pwrite64_openat_0_0_body362 = [
    Syscall NR_pwrite64 [Reg 0, Write_buf, Imm 0x800, Imm 0x1e313200], Count,
    Syscall NR_pwrite64 [Reg 0, Write_buf, Imm 0x600, Imm 0x1e313a00], Count,
    Syscall NR_pwrite64 [Reg 0, Write_buf, Imm 0x2000, Imm 0x1e314000], Count,
    Syscall NR_pwrite64 [Reg 0, Write_buf, Imm 0x1000, Imm 0x1e315000], Count,
    Syscall NR_pwrite64 [Reg 0, Write_buf, Imm 0x2000, Imm 0x1e316000], Count,
    Syscall NR_pwrite64 [Reg 0, Write_buf, Imm 0x1200, Imm 0x1e316c00], Count,
    Syscall NR_pwrite64 [Reg 0, Write_buf, Imm 0x200, Imm 0x1e317e00], Count,
    Syscall NR_pwrite64 [Reg 0, Write_buf, Imm 0x2000, Imm 0x1e318000], Count,
    Syscall NR_pwrite64 [Reg 0, Write_buf, Imm 0x200, Imm 0x1e318200], Count,
    Syscall NR_pwrite64 [Reg 0, Write_buf, Imm 0x200, Imm 0x1e318400], Count,
    Syscall NR_pwrite64 [Reg 0, Write_buf, Imm 0x200, Imm 0x1e318400], Count,
    Syscall NR_pwrite64 [Reg 0, Write_buf, Imm 0x200, Imm 0x1e318400], Count,
    Syscall NR_pwrite64 [Reg 0, Write_buf, Imm 0x200, Imm 0x1e318600], Count]"

definition min_mysql_pwrite64_openat_0_0_body363 :: "stmt list" where
  "min_mysql_pwrite64_openat_0_0_body363 = [
    Syscall NR_pwrite64 [Reg 0, Write_buf, Imm 0x400, Imm 0x1e318600], Count,
    Syscall NR_pwrite64 [Reg 0, Write_buf, Imm 0x200, Imm 0x1e318a00], Count,
    Syscall NR_pwrite64 [Reg 0, Write_buf, Imm 0x200, Imm 0x1e318a00], Count,
    Syscall NR_pwrite64 [Reg 0, Write_buf, Imm 0x200, Imm 0x1e318c00], Count,
    Syscall NR_pwrite64 [Reg 0, Write_buf, Imm 0x400, Imm 0x1e318c00], Count,
    Syscall NR_pwrite64 [Reg 0, Write_buf, Imm 0x200, Imm 0x1e319000], Count,
    Syscall NR_pwrite64 [Reg 0, Write_buf, Imm 0x200, Imm 0x1e319000], Count,
    Syscall NR_pwrite64 [Reg 0, Write_buf, Imm 0x400, Imm 0x1e319000], Count,
    Syscall NR_pwrite64 [Reg 0, Write_buf, Imm 0x200, Imm 0x1e319400], Count,
    Syscall NR_pwrite64 [Reg 0, Write_buf, Imm 0x200, Imm 0x1e319400], Count,
    Syscall NR_pwrite64 [Reg 0, Write_buf, Imm 0x200, Imm 0x1e319600], Count,
    Syscall NR_pwrite64 [Reg 0, Write_buf, Imm 0x200, Imm 0x1e319600], Count,
    Syscall NR_pwrite64 [Reg 0, Write_buf, Imm 0x200, Imm 0x1e319800], Count]"

definition min_mysql_pwrite64_openat_0_0_body364 :: "stmt list" where
  "min_mysql_pwrite64_openat_0_0_body364 = [
    Syscall NR_pwrite64 [Reg 0, Write_buf, Imm 0x200, Imm 0x1e319800], Count,
    Syscall NR_pwrite64 [Reg 0, Write_buf, Imm 0x200, Imm 0x1e319800], Count,
    Syscall NR_pwrite64 [Reg 0, Write_buf, Imm 0x200, Imm 0x1e319a00], Count,
    Syscall NR_pwrite64 [Reg 0, Write_buf, Imm 0x200, Imm 0x1e319a00], Count,
    Syscall NR_pwrite64 [Reg 0, Write_buf, Imm 0x200, Imm 0x1e319a00], Count,
    Syscall NR_pwrite64 [Reg 0, Write_buf, Imm 0x200, Imm 0x1e319c00], Count,
    Syscall NR_pwrite64 [Reg 0, Write_buf, Imm 0x200, Imm 0x1e319c00], Count,
    Syscall NR_pwrite64 [Reg 0, Write_buf, Imm 0x200, Imm 0x1e319e00], Count,
    Syscall NR_pwrite64 [Reg 0, Write_buf, Imm 0x2000, Imm 0x1e31a000], Count,
    Syscall NR_pwrite64 [Reg 0, Write_buf, Imm 0x200, Imm 0x1e31a000], Count,
    Syscall NR_pwrite64 [Reg 0, Write_buf, Imm 0x600, Imm 0x1e31a000], Count,
    Syscall NR_pwrite64 [Reg 0, Write_buf, Imm 0x200, Imm 0x1e31a600], Count,
    Syscall NR_pwrite64 [Reg 0, Write_buf, Imm 0x200, Imm 0x1e31a600], Count]"

definition min_mysql_pwrite64_openat_0_0_body365 :: "stmt list" where
  "min_mysql_pwrite64_openat_0_0_body365 = [
    Syscall NR_pwrite64 [Reg 0, Write_buf, Imm 0x200, Imm 0x1e31a800], Count,
    Syscall NR_pwrite64 [Reg 0, Write_buf, Imm 0x200, Imm 0x1e31aa00], Count,
    Syscall NR_pwrite64 [Reg 0, Write_buf, Imm 0x200, Imm 0x1e31aa00], Count,
    Syscall NR_pwrite64 [Reg 0, Write_buf, Imm 0x800, Imm 0x1e31aa00], Count,
    Syscall NR_pwrite64 [Reg 0, Write_buf, Imm 0x200, Imm 0x1e31b200], Count,
    Syscall NR_pwrite64 [Reg 0, Write_buf, Imm 0x200, Imm 0x1e31b200], Count,
    Syscall NR_pwrite64 [Reg 0, Write_buf, Imm 0x200, Imm 0x1e31b400], Count,
    Syscall NR_pwrite64 [Reg 0, Write_buf, Imm 0x400, Imm 0x1e31b400], Count,
    Syscall NR_pwrite64 [Reg 0, Write_buf, Imm 0x200, Imm 0x1e31b800], Count,
    Syscall NR_pwrite64 [Reg 0, Write_buf, Imm 0x200, Imm 0x1e31b800], Count,
    Syscall NR_pwrite64 [Reg 0, Write_buf, Imm 0x200, Imm 0x1e31ba00], Count,
    Syscall NR_pwrite64 [Reg 0, Write_buf, Imm 0x200, Imm 0x1e31ba00], Count,
    Syscall NR_pwrite64 [Reg 0, Write_buf, Imm 0x200, Imm 0x1e31ba00], Count]"

definition min_mysql_pwrite64_openat_0_0_body366 :: "stmt list" where
  "min_mysql_pwrite64_openat_0_0_body366 = [
    Syscall NR_pwrite64 [Reg 0, Write_buf, Imm 0x200, Imm 0x1e31ba00], Count,
    Syscall NR_pwrite64 [Reg 0, Write_buf, Imm 0x200, Imm 0x1e31bc00], Count,
    Syscall NR_pwrite64 [Reg 0, Write_buf, Imm 0x200, Imm 0x1e31bc00], Count,
    Syscall NR_pwrite64 [Reg 0, Write_buf, Imm 0x200, Imm 0x1e31be00], Count,
    Syscall NR_pwrite64 [Reg 0, Write_buf, Imm 0x200, Imm 0x1e31be00], Count,
    Syscall NR_pwrite64 [Reg 0, Write_buf, Imm 0x200, Imm 0x1e31be00], Count,
    Syscall NR_pwrite64 [Reg 0, Write_buf, Imm 0x2000, Imm 0x1e31c000], Count,
    Syscall NR_pwrite64 [Reg 0, Write_buf, Imm 0x200, Imm 0x1e31c000], Count,
    Syscall NR_pwrite64 [Reg 0, Write_buf, Imm 0x200, Imm 0x1e31c000], Count,
    Syscall NR_pwrite64 [Reg 0, Write_buf, Imm 0x200, Imm 0x1e31c200], Count,
    Syscall NR_pwrite64 [Reg 0, Write_buf, Imm 0x200, Imm 0x1e31c200], Count,
    Syscall NR_pwrite64 [Reg 0, Write_buf, Imm 0x200, Imm 0x1e31c400], Count,
    Syscall NR_pwrite64 [Reg 0, Write_buf, Imm 0x200, Imm 0x1e31c600], Count]"

definition min_mysql_pwrite64_openat_0_0_body367 :: "stmt list" where
  "min_mysql_pwrite64_openat_0_0_body367 = [
    Syscall NR_pwrite64 [Reg 0, Write_buf, Imm 0x200, Imm 0x1e31c600], Count,
    Syscall NR_pwrite64 [Reg 0, Write_buf, Imm 0x200, Imm 0x1e31c800], Count,
    Syscall NR_pwrite64 [Reg 0, Write_buf, Imm 0x200, Imm 0x1e31ca00], Count,
    Syscall NR_pwrite64 [Reg 0, Write_buf, Imm 0x400, Imm 0x1e31cc00], Count,
    Syscall NR_pwrite64 [Reg 0, Write_buf, Imm 0x200, Imm 0x1e31d000], Count,
    Syscall NR_pwrite64 [Reg 0, Write_buf, Imm 0x200, Imm 0x1e31d200], Count,
    Syscall NR_pwrite64 [Reg 0, Write_buf, Imm 0x400, Imm 0x1e31d200], Count,
    Syscall NR_pwrite64 [Reg 0, Write_buf, Imm 0x600, Imm 0x1e31d600], Count,
    Syscall NR_pwrite64 [Reg 0, Write_buf, Imm 0x400, Imm 0x1e31dc00], Count,
    Syscall NR_pwrite64 [Reg 0, Write_buf, Imm 0x2000, Imm 0x1e31e000], Count,
    Syscall NR_pwrite64 [Reg 0, Write_buf, Imm 0x600, Imm 0x1e31e600], Count,
    Syscall NR_pwrite64 [Reg 0, Write_buf, Imm 0x200, Imm 0x1e31ec00], Count,
    Syscall NR_pwrite64 [Reg 0, Write_buf, Imm 0x200, Imm 0x1e31ee00], Count]"

definition min_mysql_pwrite64_openat_0_0_body368 :: "stmt list" where
  "min_mysql_pwrite64_openat_0_0_body368 = [
    Syscall NR_pwrite64 [Reg 0, Write_buf, Imm 0x400, Imm 0x1e31f000], Count,
    Syscall NR_pwrite64 [Reg 0, Write_buf, Imm 0x200, Imm 0x1e31f400], Count,
    Syscall NR_pwrite64 [Reg 0, Write_buf, Imm 0x400, Imm 0x1e31f600], Count,
    Syscall NR_pwrite64 [Reg 0, Write_buf, Imm 0x600, Imm 0x1e31fa00], Count,
    Syscall NR_pwrite64 [Reg 0, Write_buf, Imm 0x2000, Imm 0x1e320000], Count,
    Syscall NR_pwrite64 [Reg 0, Write_buf, Imm 0x400, Imm 0x1e321000], Count,
    Syscall NR_pwrite64 [Reg 0, Write_buf, Imm 0xc00, Imm 0x1e321400], Count,
    Syscall NR_pwrite64 [Reg 0, Write_buf, Imm 0x2000, Imm 0x1e322000], Count,
    Syscall NR_pwrite64 [Reg 0, Write_buf, Imm 0x200, Imm 0x1e322400], Count,
    Syscall NR_pwrite64 [Reg 0, Write_buf, Imm 0x200, Imm 0x1e322600], Count,
    Syscall NR_pwrite64 [Reg 0, Write_buf, Imm 0x200, Imm 0x1e322600], Count,
    Syscall NR_pwrite64 [Reg 0, Write_buf, Imm 0x200, Imm 0x1e322800], Count,
    Syscall NR_pwrite64 [Reg 0, Write_buf, Imm 0x200, Imm 0x1e322800], Count]"

definition min_mysql_pwrite64_openat_0_0_body369 :: "stmt list" where
  "min_mysql_pwrite64_openat_0_0_body369 = [
    Syscall NR_pwrite64 [Reg 0, Write_buf, Imm 0x600, Imm 0x1e322800], Count,
    Syscall NR_pwrite64 [Reg 0, Write_buf, Imm 0xa00, Imm 0x1e322e00], Count,
    Syscall NR_pwrite64 [Reg 0, Write_buf, Imm 0x200, Imm 0x1e323800], Count,
    Syscall NR_pwrite64 [Reg 0, Write_buf, Imm 0x400, Imm 0x1e323800], Count,
    Syscall NR_pwrite64 [Reg 0, Write_buf, Imm 0x400, Imm 0x1e323c00], Count,
    Syscall NR_pwrite64 [Reg 0, Write_buf, Imm 0x2000, Imm 0x1e324000], Count,
    Syscall NR_pwrite64 [Reg 0, Write_buf, Imm 0x600, Imm 0x1e324400], Count,
    Syscall NR_pwrite64 [Reg 0, Write_buf, Imm 0x200, Imm 0x1e324a00], Count,
    Syscall NR_pwrite64 [Reg 0, Write_buf, Imm 0x400, Imm 0x1e324c00], Count,
    Syscall NR_pwrite64 [Reg 0, Write_buf, Imm 0x400, Imm 0x1e325000], Count,
    Syscall NR_pwrite64 [Reg 0, Write_buf, Imm 0x200, Imm 0x1e325400], Count,
    Syscall NR_pwrite64 [Reg 0, Write_buf, Imm 0x400, Imm 0x1e325400], Count,
    Syscall NR_pwrite64 [Reg 0, Write_buf, Imm 0x200, Imm 0x1e325800], Count]"

definition min_mysql_pwrite64_openat_0_0_body370 :: "stmt list" where
  "min_mysql_pwrite64_openat_0_0_body370 = [
    Syscall NR_pwrite64 [Reg 0, Write_buf, Imm 0x200, Imm 0x1e325800], Count,
    Syscall NR_pwrite64 [Reg 0, Write_buf, Imm 0x400, Imm 0x1e325800], Count,
    Syscall NR_pwrite64 [Reg 0, Write_buf, Imm 0x200, Imm 0x1e325c00], Count,
    Syscall NR_pwrite64 [Reg 0, Write_buf, Imm 0x200, Imm 0x1e325c00], Count,
    Syscall NR_pwrite64 [Reg 0, Write_buf, Imm 0x200, Imm 0x1e325e00], Count,
    Syscall NR_pwrite64 [Reg 0, Write_buf, Imm 0x2000, Imm 0x1e326000], Count,
    Syscall NR_pwrite64 [Reg 0, Write_buf, Imm 0x200, Imm 0x1e326000], Count,
    Syscall NR_pwrite64 [Reg 0, Write_buf, Imm 0x200, Imm 0x1e326000], Count,
    Syscall NR_pwrite64 [Reg 0, Write_buf, Imm 0x200, Imm 0x1e326200], Count,
    Syscall NR_pwrite64 [Reg 0, Write_buf, Imm 0x200, Imm 0x1e326200], Count,
    Syscall NR_pwrite64 [Reg 0, Write_buf, Imm 0x200, Imm 0x1e326400], Count,
    Syscall NR_pwrite64 [Reg 0, Write_buf, Imm 0x200, Imm 0x1e326400], Count,
    Syscall NR_pwrite64 [Reg 0, Write_buf, Imm 0x200, Imm 0x1e326600], Count]"

definition min_mysql_pwrite64_openat_0_0_body371 :: "stmt list" where
  "min_mysql_pwrite64_openat_0_0_body371 = [
    Syscall NR_pwrite64 [Reg 0, Write_buf, Imm 0x200, Imm 0x1e326600], Count,
    Syscall NR_pwrite64 [Reg 0, Write_buf, Imm 0x200, Imm 0x1e326800], Count,
    Syscall NR_pwrite64 [Reg 0, Write_buf, Imm 0x200, Imm 0x1e326a00], Count,
    Syscall NR_pwrite64 [Reg 0, Write_buf, Imm 0x200, Imm 0x1e326c00], Count,
    Syscall NR_pwrite64 [Reg 0, Write_buf, Imm 0x200, Imm 0x1e326c00], Count,
    Syscall NR_pwrite64 [Reg 0, Write_buf, Imm 0x200, Imm 0x1e326e00], Count,
    Syscall NR_pwrite64 [Reg 0, Write_buf, Imm 0x400, Imm 0x1e327000], Count,
    Syscall NR_pwrite64 [Reg 0, Write_buf, Imm 0x600, Imm 0x1e327400], Count,
    Syscall NR_pwrite64 [Reg 0, Write_buf, Imm 0x400, Imm 0x1e327a00], Count,
    Syscall NR_pwrite64 [Reg 0, Write_buf, Imm 0x200, Imm 0x1e327e00], Count,
    Syscall NR_pwrite64 [Reg 0, Write_buf, Imm 0x2000, Imm 0x1e328000], Count,
    Syscall NR_pwrite64 [Reg 0, Write_buf, Imm 0x600, Imm 0x1e328a00], Count,
    Syscall NR_pwrite64 [Reg 0, Write_buf, Imm 0x800, Imm 0x1e329000], Count]"

definition min_mysql_pwrite64_openat_0_0_body372 :: "stmt list" where
  "min_mysql_pwrite64_openat_0_0_body372 = [
    Syscall NR_pwrite64 [Reg 0, Write_buf, Imm 0x800, Imm 0x1e329800], Count,
    Syscall NR_pwrite64 [Reg 0, Write_buf, Imm 0x2000, Imm 0x1e32a000], Count,
    Syscall NR_pwrite64 [Reg 0, Write_buf, Imm 0xa00, Imm 0x1e32a600], Count,
    Syscall NR_pwrite64 [Reg 0, Write_buf, Imm 0x600, Imm 0x1e32b000], Count,
    Syscall NR_pwrite64 [Reg 0, Write_buf, Imm 0x800, Imm 0x1e32b600], Count,
    Syscall NR_pwrite64 [Reg 0, Write_buf, Imm 0x200, Imm 0x1e32be00], Count,
    Syscall NR_pwrite64 [Reg 0, Write_buf, Imm 0x2000, Imm 0x1e32c000], Count,
    Syscall NR_pwrite64 [Reg 0, Write_buf, Imm 0xc00, Imm 0x1e32c800], Count,
    Syscall NR_pwrite64 [Reg 0, Write_buf, Imm 0x200, Imm 0x1e32d400], Count,
    Syscall NR_pwrite64 [Reg 0, Write_buf, Imm 0x400, Imm 0x1e32d600], Count,
    Syscall NR_pwrite64 [Reg 0, Write_buf, Imm 0x600, Imm 0x1e32da00], Count,
    Syscall NR_pwrite64 [Reg 0, Write_buf, Imm 0x2000, Imm 0x1e32e000], Count,
    Syscall NR_pwrite64 [Reg 0, Write_buf, Imm 0x600, Imm 0x1e32ea00], Count]"

definition min_mysql_pwrite64_openat_0_0_body373 :: "stmt list" where
  "min_mysql_pwrite64_openat_0_0_body373 = [
    Syscall NR_pwrite64 [Reg 0, Write_buf, Imm 0x200, Imm 0x1e32f000], Count,
    Syscall NR_pwrite64 [Reg 0, Write_buf, Imm 0x200, Imm 0x1e32f200], Count,
    Syscall NR_pwrite64 [Reg 0, Write_buf, Imm 0x200, Imm 0x1e32f400], Count,
    Syscall NR_pwrite64 [Reg 0, Write_buf, Imm 0x200, Imm 0x1e32f400], Count,
    Syscall NR_pwrite64 [Reg 0, Write_buf, Imm 0x400, Imm 0x1e32f400], Count,
    Syscall NR_pwrite64 [Reg 0, Write_buf, Imm 0x200, Imm 0x1e32f800], Count,
    Syscall NR_pwrite64 [Reg 0, Write_buf, Imm 0x200, Imm 0x1e32f800], Count,
    Syscall NR_pwrite64 [Reg 0, Write_buf, Imm 0x200, Imm 0x1e32f800], Count,
    Syscall NR_pwrite64 [Reg 0, Write_buf, Imm 0x400, Imm 0x1e32f800], Count,
    Syscall NR_pwrite64 [Reg 0, Write_buf, Imm 0x200, Imm 0x1e32fc00], Count,
    Syscall NR_pwrite64 [Reg 0, Write_buf, Imm 0x200, Imm 0x1e32fc00], Count,
    Syscall NR_pwrite64 [Reg 0, Write_buf, Imm 0x200, Imm 0x1e32fe00], Count,
    Syscall NR_pwrite64 [Reg 0, Write_buf, Imm 0x200, Imm 0x1e32fe00], Count]"

definition min_mysql_pwrite64_openat_0_0_body374 :: "stmt list" where
  "min_mysql_pwrite64_openat_0_0_body374 = [
    Syscall NR_pwrite64 [Reg 0, Write_buf, Imm 0x2000, Imm 0x1e330000], Count,
    Syscall NR_pwrite64 [Reg 0, Write_buf, Imm 0x200, Imm 0x1e330200], Count,
    Syscall NR_pwrite64 [Reg 0, Write_buf, Imm 0x200, Imm 0x1e330400], Count,
    Syscall NR_pwrite64 [Reg 0, Write_buf, Imm 0x200, Imm 0x1e330400], Count,
    Syscall NR_pwrite64 [Reg 0, Write_buf, Imm 0x200, Imm 0x1e330600], Count,
    Syscall NR_pwrite64 [Reg 0, Write_buf, Imm 0x400, Imm 0x1e330800], Count,
    Syscall NR_pwrite64 [Reg 0, Write_buf, Imm 0x400, Imm 0x1e330c00], Count,
    Syscall NR_pwrite64 [Reg 0, Write_buf, Imm 0x800, Imm 0x1e331000], Count,
    Syscall NR_pwrite64 [Reg 0, Write_buf, Imm 0x800, Imm 0x1e331800], Count,
    Syscall NR_pwrite64 [Reg 0, Write_buf, Imm 0x2000, Imm 0x1e332000], Count,
    Syscall NR_pwrite64 [Reg 0, Write_buf, Imm 0xe00, Imm 0x1e333200], Count,
    Syscall NR_pwrite64 [Reg 0, Write_buf, Imm 0x2000, Imm 0x1e334000], Count,
    Syscall NR_pwrite64 [Reg 0, Write_buf, Imm 0x2000, Imm 0x1e336000], Count]"

definition min_mysql_pwrite64_openat_0_0_body375 :: "stmt list" where
  "min_mysql_pwrite64_openat_0_0_body375 = [
    Syscall NR_pwrite64 [Reg 0, Write_buf, Imm 0x800, Imm 0x1e337800], Count,
    Syscall NR_pwrite64 [Reg 0, Write_buf, Imm 0x2000, Imm 0x1e338000], Count,
    Syscall NR_pwrite64 [Reg 0, Write_buf, Imm 0x600, Imm 0x1e339200], Count,
    Syscall NR_pwrite64 [Reg 0, Write_buf, Imm 0x400, Imm 0x1e339800], Count,
    Syscall NR_pwrite64 [Reg 0, Write_buf, Imm 0x200, Imm 0x1e339c00], Count,
    Syscall NR_pwrite64 [Reg 0, Write_buf, Imm 0x400, Imm 0x1e339c00], Count,
    Syscall NR_pwrite64 [Reg 0, Write_buf, Imm 0x2000, Imm 0x1e33a000], Count,
    Syscall NR_pwrite64 [Reg 0, Write_buf, Imm 0x200, Imm 0x1e33a400], Count,
    Syscall NR_pwrite64 [Reg 0, Write_buf, Imm 0x400, Imm 0x1e33a400], Count,
    Syscall NR_pwrite64 [Reg 0, Write_buf, Imm 0x200, Imm 0x1e33a800], Count,
    Syscall NR_pwrite64 [Reg 0, Write_buf, Imm 0xa00, Imm 0x1e33a800], Count,
    Syscall NR_pwrite64 [Reg 0, Write_buf, Imm 0x800, Imm 0x1e33b200], Count,
    Syscall NR_pwrite64 [Reg 0, Write_buf, Imm 0x200, Imm 0x1e33ba00], Count]"

definition min_mysql_pwrite64_openat_0_0_body376 :: "stmt list" where
  "min_mysql_pwrite64_openat_0_0_body376 = [
    Syscall NR_pwrite64 [Reg 0, Write_buf, Imm 0x200, Imm 0x1e33bc00], Count,
    Syscall NR_pwrite64 [Reg 0, Write_buf, Imm 0x200, Imm 0x1e33be00], Count,
    Syscall NR_pwrite64 [Reg 0, Write_buf, Imm 0x2000, Imm 0x1e33c000], Count,
    Syscall NR_pwrite64 [Reg 0, Write_buf, Imm 0xe00, Imm 0x1e33c600], Count,
    Syscall NR_pwrite64 [Reg 0, Write_buf, Imm 0x600, Imm 0x1e33d400], Count,
    Syscall NR_pwrite64 [Reg 0, Write_buf, Imm 0x600, Imm 0x1e33da00], Count,
    Syscall NR_pwrite64 [Reg 0, Write_buf, Imm 0x2000, Imm 0x1e33e000], Count,
    Syscall NR_pwrite64 [Reg 0, Write_buf, Imm 0xc00, Imm 0x1e33ec00], Count,
    Syscall NR_pwrite64 [Reg 0, Write_buf, Imm 0x600, Imm 0x1e33f800], Count,
    Syscall NR_pwrite64 [Reg 0, Write_buf, Imm 0x200, Imm 0x1e33fe00], Count,
    Syscall NR_pwrite64 [Reg 0, Write_buf, Imm 0x2000, Imm 0x1e340000], Count,
    Syscall NR_pwrite64 [Reg 0, Write_buf, Imm 0xa00, Imm 0x1e340c00], Count,
    Syscall NR_pwrite64 [Reg 0, Write_buf, Imm 0x200, Imm 0x1e341600], Count]"

definition min_mysql_pwrite64_openat_0_0_body377 :: "stmt list" where
  "min_mysql_pwrite64_openat_0_0_body377 = [
    Syscall NR_pwrite64 [Reg 0, Write_buf, Imm 0x200, Imm 0x1e341800], Count,
    Syscall NR_pwrite64 [Reg 0, Write_buf, Imm 0x400, Imm 0x1e341a00], Count,
    Syscall NR_pwrite64 [Reg 0, Write_buf, Imm 0x200, Imm 0x1e341e00], Count,
    Syscall NR_pwrite64 [Reg 0, Write_buf, Imm 0x2000, Imm 0x1e342000], Count,
    Syscall NR_pwrite64 [Reg 0, Write_buf, Imm 0x200, Imm 0x1e342600], Count,
    Syscall NR_pwrite64 [Reg 0, Write_buf, Imm 0x200, Imm 0x1e342600], Count,
    Syscall NR_pwrite64 [Reg 0, Write_buf, Imm 0x200, Imm 0x1e342800], Count,
    Syscall NR_pwrite64 [Reg 0, Write_buf, Imm 0x200, Imm 0x1e342a00], Count,
    Syscall NR_pwrite64 [Reg 0, Write_buf, Imm 0x200, Imm 0x1e342a00], Count,
    Syscall NR_pwrite64 [Reg 0, Write_buf, Imm 0x200, Imm 0x1e342c00], Count,
    Syscall NR_pwrite64 [Reg 0, Write_buf, Imm 0x200, Imm 0x1e342c00], Count,
    Syscall NR_pwrite64 [Reg 0, Write_buf, Imm 0x800, Imm 0x1e342c00], Count,
    Syscall NR_pwrite64 [Reg 0, Write_buf, Imm 0x200, Imm 0x1e343400], Count]"

definition min_mysql_pwrite64_openat_0_0_body378 :: "stmt list" where
  "min_mysql_pwrite64_openat_0_0_body378 = [
    Syscall NR_pwrite64 [Reg 0, Write_buf, Imm 0x200, Imm 0x1e343600], Count,
    Syscall NR_pwrite64 [Reg 0, Write_buf, Imm 0x200, Imm 0x1e343800], Count,
    Syscall NR_pwrite64 [Reg 0, Write_buf, Imm 0x800, Imm 0x1e343800], Count,
    Syscall NR_pwrite64 [Reg 0, Write_buf, Imm 0x2000, Imm 0x1e344000], Count,
    Syscall NR_pwrite64 [Reg 0, Write_buf, Imm 0x800, Imm 0x1e344000], Count,
    Syscall NR_pwrite64 [Reg 0, Write_buf, Imm 0x200, Imm 0x1e344800], Count,
    Syscall NR_pwrite64 [Reg 0, Write_buf, Imm 0x200, Imm 0x1e344800], Count,
    Syscall NR_pwrite64 [Reg 0, Write_buf, Imm 0x200, Imm 0x1e344800], Count,
    Syscall NR_pwrite64 [Reg 0, Write_buf, Imm 0x200, Imm 0x1e344a00], Count,
    Syscall NR_pwrite64 [Reg 0, Write_buf, Imm 0x200, Imm 0x1e344a00], Count,
    Syscall NR_pwrite64 [Reg 0, Write_buf, Imm 0x200, Imm 0x1e344a00], Count,
    Syscall NR_pwrite64 [Reg 0, Write_buf, Imm 0x200, Imm 0x1e344c00], Count,
    Syscall NR_pwrite64 [Reg 0, Write_buf, Imm 0x400, Imm 0x1e344c00], Count]"

definition min_mysql_pwrite64_openat_0_0_body379 :: "stmt list" where
  "min_mysql_pwrite64_openat_0_0_body379 = [
    Syscall NR_pwrite64 [Reg 0, Write_buf, Imm 0x400, Imm 0x1e345000], Count,
    Syscall NR_pwrite64 [Reg 0, Write_buf, Imm 0x200, Imm 0x1e345400], Count,
    Syscall NR_pwrite64 [Reg 0, Write_buf, Imm 0x600, Imm 0x1e345600], Count,
    Syscall NR_pwrite64 [Reg 0, Write_buf, Imm 0x200, Imm 0x1e345c00], Count,
    Syscall NR_pwrite64 [Reg 0, Write_buf, Imm 0x200, Imm 0x1e345e00], Count,
    Syscall NR_pwrite64 [Reg 0, Write_buf, Imm 0x200, Imm 0x1e345e00], Count,
    Syscall NR_pwrite64 [Reg 0, Write_buf, Imm 0x2000, Imm 0x1e346000], Count,
    Syscall NR_pwrite64 [Reg 0, Write_buf, Imm 0x1600, Imm 0x1e346800], Count,
    Syscall NR_pwrite64 [Reg 0, Write_buf, Imm 0x200, Imm 0x1e347e00], Count,
    Syscall NR_pwrite64 [Reg 0, Write_buf, Imm 0x2000, Imm 0x1e348000], Count,
    Syscall NR_pwrite64 [Reg 0, Write_buf, Imm 0x600, Imm 0x1e349a00], Count,
    Syscall NR_pwrite64 [Reg 0, Write_buf, Imm 0x2000, Imm 0x1e34a000], Count,
    Syscall NR_pwrite64 [Reg 0, Write_buf, Imm 0x800, Imm 0x1e34b800], Count]"

definition min_mysql_pwrite64_openat_0_0_body380 :: "stmt list" where
  "min_mysql_pwrite64_openat_0_0_body380 = [
    Syscall NR_pwrite64 [Reg 0, Write_buf, Imm 0x2000, Imm 0x1e34c000], Count,
    Syscall NR_pwrite64 [Reg 0, Write_buf, Imm 0x400, Imm 0x1e34ca00], Count,
    Syscall NR_pwrite64 [Reg 0, Write_buf, Imm 0x600, Imm 0x1e34ce00], Count,
    Syscall NR_pwrite64 [Reg 0, Write_buf, Imm 0x600, Imm 0x1e34d400], Count,
    Syscall NR_pwrite64 [Reg 0, Write_buf, Imm 0x400, Imm 0x1e34da00], Count,
    Syscall NR_pwrite64 [Reg 0, Write_buf, Imm 0x200, Imm 0x1e34de00], Count,
    Syscall NR_pwrite64 [Reg 0, Write_buf, Imm 0x2000, Imm 0x1e34e000], Count,
    Syscall NR_pwrite64 [Reg 0, Write_buf, Imm 0x200, Imm 0x1e34e400], Count,
    Syscall NR_pwrite64 [Reg 0, Write_buf, Imm 0x600, Imm 0x1e34e400], Count,
    Syscall NR_pwrite64 [Reg 0, Write_buf, Imm 0x200, Imm 0x1e34ea00], Count,
    Syscall NR_pwrite64 [Reg 0, Write_buf, Imm 0x200, Imm 0x1e34ec00], Count,
    Syscall NR_pwrite64 [Reg 0, Write_buf, Imm 0x200, Imm 0x1e34ec00], Count,
    Syscall NR_pwrite64 [Reg 0, Write_buf, Imm 0x200, Imm 0x1e34ee00], Count]"

definition min_mysql_pwrite64_openat_0_0_body381 :: "stmt list" where
  "min_mysql_pwrite64_openat_0_0_body381 = [
    Syscall NR_pwrite64 [Reg 0, Write_buf, Imm 0x600, Imm 0x1e34ee00], Count,
    Syscall NR_pwrite64 [Reg 0, Write_buf, Imm 0x200, Imm 0x1e34f400], Count,
    Syscall NR_pwrite64 [Reg 0, Write_buf, Imm 0x800, Imm 0x1e34f400], Count,
    Syscall NR_pwrite64 [Reg 0, Write_buf, Imm 0x400, Imm 0x1e34fc00], Count,
    Syscall NR_pwrite64 [Reg 0, Write_buf, Imm 0x2000, Imm 0x1e350000], Count,
    Syscall NR_pwrite64 [Reg 0, Write_buf, Imm 0x400, Imm 0x1e350000], Count,
    Syscall NR_pwrite64 [Reg 0, Write_buf, Imm 0x200, Imm 0x1e350400], Count,
    Syscall NR_pwrite64 [Reg 0, Write_buf, Imm 0x200, Imm 0x1e350400], Count,
    Syscall NR_pwrite64 [Reg 0, Write_buf, Imm 0x200, Imm 0x1e350600], Count,
    Syscall NR_pwrite64 [Reg 0, Write_buf, Imm 0xa00, Imm 0x1e350600], Count,
    Syscall NR_pwrite64 [Reg 0, Write_buf, Imm 0x200, Imm 0x1e351000], Count,
    Syscall NR_pwrite64 [Reg 0, Write_buf, Imm 0x200, Imm 0x1e351200], Count,
    Syscall NR_pwrite64 [Reg 0, Write_buf, Imm 0xa00, Imm 0x1e351200], Count]"

definition min_mysql_pwrite64_openat_0_0_body382 :: "stmt list" where
  "min_mysql_pwrite64_openat_0_0_body382 = [
    Syscall NR_pwrite64 [Reg 0, Write_buf, Imm 0x200, Imm 0x1e351c00], Count,
    Syscall NR_pwrite64 [Reg 0, Write_buf, Imm 0x400, Imm 0x1e351c00], Count,
    Syscall NR_pwrite64 [Reg 0, Write_buf, Imm 0x2000, Imm 0x1e352000], Count,
    Syscall NR_pwrite64 [Reg 0, Write_buf, Imm 0x2000, Imm 0x1e354000], Count,
    Syscall NR_pwrite64 [Reg 0, Write_buf, Imm 0x2000, Imm 0x1e356000], Count,
    Syscall NR_pwrite64 [Reg 0, Write_buf, Imm 0x200, Imm 0x1e356a00], Count,
    Syscall NR_pwrite64 [Reg 0, Write_buf, Imm 0x200, Imm 0x1e356a00], Count,
    Syscall NR_pwrite64 [Reg 0, Write_buf, Imm 0x200, Imm 0x1e356c00], Count,
    Syscall NR_pwrite64 [Reg 0, Write_buf, Imm 0x200, Imm 0x1e356c00], Count,
    Syscall NR_pwrite64 [Reg 0, Write_buf, Imm 0x200, Imm 0x1e356e00], Count,
    Syscall NR_pwrite64 [Reg 0, Write_buf, Imm 0x200, Imm 0x1e356e00], Count,
    Syscall NR_pwrite64 [Reg 0, Write_buf, Imm 0x200, Imm 0x1e356e00], Count,
    Syscall NR_pwrite64 [Reg 0, Write_buf, Imm 0x200, Imm 0x1e357000], Count]"

definition min_mysql_pwrite64_openat_0_0_body383 :: "stmt list" where
  "min_mysql_pwrite64_openat_0_0_body383 = [
    Syscall NR_pwrite64 [Reg 0, Write_buf, Imm 0x600, Imm 0x1e357000], Count,
    Syscall NR_pwrite64 [Reg 0, Write_buf, Imm 0x600, Imm 0x1e357600], Count,
    Syscall NR_pwrite64 [Reg 0, Write_buf, Imm 0x400, Imm 0x1e357c00], Count,
    Syscall NR_pwrite64 [Reg 0, Write_buf, Imm 0x2000, Imm 0x1e358000], Count,
    Syscall NR_pwrite64 [Reg 0, Write_buf, Imm 0x800, Imm 0x1e359800], Count,
    Syscall NR_pwrite64 [Reg 0, Write_buf, Imm 0x2000, Imm 0x1e35a000], Count,
    Syscall NR_pwrite64 [Reg 0, Write_buf, Imm 0xa00, Imm 0x1e35b600], Count,
    Syscall NR_pwrite64 [Reg 0, Write_buf, Imm 0x2000, Imm 0x1e35c000], Count,
    Syscall NR_pwrite64 [Reg 0, Write_buf, Imm 0x600, Imm 0x1e35ce00], Count,
    Syscall NR_pwrite64 [Reg 0, Write_buf, Imm 0x400, Imm 0x1e35d400], Count,
    Syscall NR_pwrite64 [Reg 0, Write_buf, Imm 0x200, Imm 0x1e35d800], Count,
    Syscall NR_pwrite64 [Reg 0, Write_buf, Imm 0x200, Imm 0x1e35d800], Count,
    Syscall NR_pwrite64 [Reg 0, Write_buf, Imm 0x200, Imm 0x1e35da00], Count]"

definition min_mysql_pwrite64_openat_0_0_body384 :: "stmt list" where
  "min_mysql_pwrite64_openat_0_0_body384 = [
    Syscall NR_pwrite64 [Reg 0, Write_buf, Imm 0x200, Imm 0x1e35dc00], Count,
    Syscall NR_pwrite64 [Reg 0, Write_buf, Imm 0x400, Imm 0x1e35dc00], Count,
    Syscall NR_pwrite64 [Reg 0, Write_buf, Imm 0x2000, Imm 0x1e35e000], Count,
    Syscall NR_pwrite64 [Reg 0, Write_buf, Imm 0x2000, Imm 0x1e360000], Count,
    Syscall NR_pwrite64 [Reg 0, Write_buf, Imm 0x200, Imm 0x1e361200], Count,
    Syscall NR_pwrite64 [Reg 0, Write_buf, Imm 0x600, Imm 0x1e361200], Count,
    Syscall NR_pwrite64 [Reg 0, Write_buf, Imm 0x600, Imm 0x1e361800], Count,
    Syscall NR_pwrite64 [Reg 0, Write_buf, Imm 0x200, Imm 0x1e361e00], Count,
    Syscall NR_pwrite64 [Reg 0, Write_buf, Imm 0x2000, Imm 0x1e362000], Count,
    Syscall NR_pwrite64 [Reg 0, Write_buf, Imm 0x800, Imm 0x1e362200], Count,
    Syscall NR_pwrite64 [Reg 0, Write_buf, Imm 0x200, Imm 0x1e362a00], Count,
    Syscall NR_pwrite64 [Reg 0, Write_buf, Imm 0x200, Imm 0x1e362a00], Count,
    Syscall NR_pwrite64 [Reg 0, Write_buf, Imm 0x200, Imm 0x1e362a00], Count]"

definition min_mysql_pwrite64_openat_0_0_body385 :: "stmt list" where
  "min_mysql_pwrite64_openat_0_0_body385 = [
    Syscall NR_pwrite64 [Reg 0, Write_buf, Imm 0x200, Imm 0x1e362c00], Count,
    Syscall NR_pwrite64 [Reg 0, Write_buf, Imm 0x200, Imm 0x1e362c00], Count,
    Syscall NR_pwrite64 [Reg 0, Write_buf, Imm 0x200, Imm 0x1e362e00], Count,
    Syscall NR_pwrite64 [Reg 0, Write_buf, Imm 0x200, Imm 0x1e362e00], Count,
    Syscall NR_pwrite64 [Reg 0, Write_buf, Imm 0x200, Imm 0x1e363000], Count,
    Syscall NR_pwrite64 [Reg 0, Write_buf, Imm 0x200, Imm 0x1e363000], Count,
    Syscall NR_pwrite64 [Reg 0, Write_buf, Imm 0x600, Imm 0x1e363000], Count,
    Syscall NR_pwrite64 [Reg 0, Write_buf, Imm 0x200, Imm 0x1e363600], Count,
    Syscall NR_pwrite64 [Reg 0, Write_buf, Imm 0x200, Imm 0x1e363600], Count,
    Syscall NR_pwrite64 [Reg 0, Write_buf, Imm 0x200, Imm 0x1e363800], Count,
    Syscall NR_pwrite64 [Reg 0, Write_buf, Imm 0x200, Imm 0x1e363800], Count,
    Syscall NR_pwrite64 [Reg 0, Write_buf, Imm 0x200, Imm 0x1e363a00], Count,
    Syscall NR_pwrite64 [Reg 0, Write_buf, Imm 0x200, Imm 0x1e363a00], Count]"

definition min_mysql_pwrite64_openat_0_0_body386 :: "stmt list" where
  "min_mysql_pwrite64_openat_0_0_body386 = [
    Syscall NR_pwrite64 [Reg 0, Write_buf, Imm 0x600, Imm 0x1e363a00], Count,
    Syscall NR_pwrite64 [Reg 0, Write_buf, Imm 0x2000, Imm 0x1e364000], Count,
    Syscall NR_pwrite64 [Reg 0, Write_buf, Imm 0x400, Imm 0x1e364400], Count,
    Syscall NR_pwrite64 [Reg 0, Write_buf, Imm 0x200, Imm 0x1e364800], Count,
    Syscall NR_pwrite64 [Reg 0, Write_buf, Imm 0x200, Imm 0x1e364800], Count,
    Syscall NR_pwrite64 [Reg 0, Write_buf, Imm 0x200, Imm 0x1e364a00], Count,
    Syscall NR_pwrite64 [Reg 0, Write_buf, Imm 0x200, Imm 0x1e364a00], Count,
    Syscall NR_pwrite64 [Reg 0, Write_buf, Imm 0x200, Imm 0x1e364a00], Count,
    Syscall NR_pwrite64 [Reg 0, Write_buf, Imm 0x400, Imm 0x1e364a00], Count,
    Syscall NR_pwrite64 [Reg 0, Write_buf, Imm 0x200, Imm 0x1e364e00], Count,
    Syscall NR_pwrite64 [Reg 0, Write_buf, Imm 0x800, Imm 0x1e364e00], Count,
    Syscall NR_pwrite64 [Reg 0, Write_buf, Imm 0x200, Imm 0x1e365600], Count,
    Syscall NR_pwrite64 [Reg 0, Write_buf, Imm 0x400, Imm 0x1e365600], Count]"

definition min_mysql_pwrite64_openat_0_0_body387 :: "stmt list" where
  "min_mysql_pwrite64_openat_0_0_body387 = [
    Syscall NR_pwrite64 [Reg 0, Write_buf, Imm 0x200, Imm 0x1e365a00], Count,
    Syscall NR_pwrite64 [Reg 0, Write_buf, Imm 0x200, Imm 0x1e365c00], Count,
    Syscall NR_pwrite64 [Reg 0, Write_buf, Imm 0x200, Imm 0x1e365c00], Count,
    Syscall NR_pwrite64 [Reg 0, Write_buf, Imm 0x200, Imm 0x1e365c00], Count,
    Syscall NR_pwrite64 [Reg 0, Write_buf, Imm 0x400, Imm 0x1e365c00], Count,
    Syscall NR_pwrite64 [Reg 0, Write_buf, Imm 0x2000, Imm 0x1e366000], Count,
    Syscall NR_pwrite64 [Reg 0, Write_buf, Imm 0x200, Imm 0x1e366800], Count,
    Syscall NR_pwrite64 [Reg 0, Write_buf, Imm 0x200, Imm 0x1e366a00], Count,
    Syscall NR_pwrite64 [Reg 0, Write_buf, Imm 0x400, Imm 0x1e366c00], Count,
    Syscall NR_pwrite64 [Reg 0, Write_buf, Imm 0x200, Imm 0x1e367000], Count,
    Syscall NR_pwrite64 [Reg 0, Write_buf, Imm 0x200, Imm 0x1e367000], Count,
    Syscall NR_pwrite64 [Reg 0, Write_buf, Imm 0x800, Imm 0x1e367200], Count,
    Syscall NR_pwrite64 [Reg 0, Write_buf, Imm 0x200, Imm 0x1e367a00], Count]"

definition min_mysql_pwrite64_openat_0_0_body388 :: "stmt list" where
  "min_mysql_pwrite64_openat_0_0_body388 = [
    Syscall NR_pwrite64 [Reg 0, Write_buf, Imm 0x200, Imm 0x1e367c00], Count,
    Syscall NR_pwrite64 [Reg 0, Write_buf, Imm 0x200, Imm 0x1e367e00], Count,
    Syscall NR_pwrite64 [Reg 0, Write_buf, Imm 0x2000, Imm 0x1e368000], Count,
    Syscall NR_pwrite64 [Reg 0, Write_buf, Imm 0x800, Imm 0x1e368400], Count,
    Syscall NR_pwrite64 [Reg 0, Write_buf, Imm 0x400, Imm 0x1e368c00], Count,
    Syscall NR_pwrite64 [Reg 0, Write_buf, Imm 0x600, Imm 0x1e369000], Count,
    Syscall NR_pwrite64 [Reg 0, Write_buf, Imm 0xa00, Imm 0x1e369600], Count,
    Syscall NR_pwrite64 [Reg 0, Write_buf, Imm 0x2000, Imm 0x1e36a000], Count,
    Syscall NR_pwrite64 [Reg 0, Write_buf, Imm 0x200, Imm 0x1e36a400], Count,
    Syscall NR_pwrite64 [Reg 0, Write_buf, Imm 0x200, Imm 0x1e36a600], Count,
    Syscall NR_pwrite64 [Reg 0, Write_buf, Imm 0x200, Imm 0x1e36a800], Count,
    Syscall NR_pwrite64 [Reg 0, Write_buf, Imm 0x200, Imm 0x1e36a800], Count,
    Syscall NR_pwrite64 [Reg 0, Write_buf, Imm 0x200, Imm 0x1e36a800], Count]"

definition min_mysql_pwrite64_openat_0_0_body389 :: "stmt list" where
  "min_mysql_pwrite64_openat_0_0_body389 = [
    Syscall NR_pwrite64 [Reg 0, Write_buf, Imm 0x200, Imm 0x1e36a800], Count,
    Syscall NR_pwrite64 [Reg 0, Write_buf, Imm 0x200, Imm 0x1e36aa00], Count,
    Syscall NR_pwrite64 [Reg 0, Write_buf, Imm 0x400, Imm 0x1e36aa00], Count,
    Syscall NR_pwrite64 [Reg 0, Write_buf, Imm 0x200, Imm 0x1e36ae00], Count,
    Syscall NR_pwrite64 [Reg 0, Write_buf, Imm 0x200, Imm 0x1e36b000], Count,
    Syscall NR_pwrite64 [Reg 0, Write_buf, Imm 0x200, Imm 0x1e36b000], Count,
    Syscall NR_pwrite64 [Reg 0, Write_buf, Imm 0xa00, Imm 0x1e36b000], Count,
    Syscall NR_pwrite64 [Reg 0, Write_buf, Imm 0x400, Imm 0x1e36ba00], Count,
    Syscall NR_pwrite64 [Reg 0, Write_buf, Imm 0x200, Imm 0x1e36be00], Count,
    Syscall NR_pwrite64 [Reg 0, Write_buf, Imm 0x2000, Imm 0x1e36c000], Count,
    Syscall NR_pwrite64 [Reg 0, Write_buf, Imm 0x600, Imm 0x1e36c400], Count,
    Syscall NR_pwrite64 [Reg 0, Write_buf, Imm 0x1200, Imm 0x1e36ca00], Count,
    Syscall NR_pwrite64 [Reg 0, Write_buf, Imm 0x200, Imm 0x1e36dc00], Count]"

definition min_mysql_pwrite64_openat_0_0_body390 :: "stmt list" where
  "min_mysql_pwrite64_openat_0_0_body390 = [
    Syscall NR_pwrite64 [Reg 0, Write_buf, Imm 0x400, Imm 0x1e36dc00], Count,
    Syscall NR_pwrite64 [Reg 0, Write_buf, Imm 0x2000, Imm 0x1e36e000], Count,
    Syscall NR_pwrite64 [Reg 0, Write_buf, Imm 0x200, Imm 0x1e36e200], Count,
    Syscall NR_pwrite64 [Reg 0, Write_buf, Imm 0x200, Imm 0x1e36e400], Count,
    Syscall NR_pwrite64 [Reg 0, Write_buf, Imm 0x200, Imm 0x1e36e400], Count,
    Syscall NR_pwrite64 [Reg 0, Write_buf, Imm 0x200, Imm 0x1e36e400], Count,
    Syscall NR_pwrite64 [Reg 0, Write_buf, Imm 0x200, Imm 0x1e36e600], Count,
    Syscall NR_pwrite64 [Reg 0, Write_buf, Imm 0x400, Imm 0x1e36e600], Count,
    Syscall NR_pwrite64 [Reg 0, Write_buf, Imm 0x400, Imm 0x1e36ea00], Count,
    Syscall NR_pwrite64 [Reg 0, Write_buf, Imm 0x600, Imm 0x1e36ee00], Count,
    Syscall NR_pwrite64 [Reg 0, Write_buf, Imm 0x200, Imm 0x1e36f400], Count,
    Syscall NR_pwrite64 [Reg 0, Write_buf, Imm 0x200, Imm 0x1e36f600], Count,
    Syscall NR_pwrite64 [Reg 0, Write_buf, Imm 0x200, Imm 0x1e36f600], Count]"

definition min_mysql_pwrite64_openat_0_0_body391 :: "stmt list" where
  "min_mysql_pwrite64_openat_0_0_body391 = [
    Syscall NR_pwrite64 [Reg 0, Write_buf, Imm 0x200, Imm 0x1e36f600], Count,
    Syscall NR_pwrite64 [Reg 0, Write_buf, Imm 0x200, Imm 0x1e36f800], Count,
    Syscall NR_pwrite64 [Reg 0, Write_buf, Imm 0x200, Imm 0x1e36f800], Count,
    Syscall NR_pwrite64 [Reg 0, Write_buf, Imm 0x200, Imm 0x1e36f800], Count,
    Syscall NR_pwrite64 [Reg 0, Write_buf, Imm 0x200, Imm 0x1e36fa00], Count,
    Syscall NR_pwrite64 [Reg 0, Write_buf, Imm 0x200, Imm 0x1e36fa00], Count,
    Syscall NR_pwrite64 [Reg 0, Write_buf, Imm 0x200, Imm 0x1e36fc00], Count,
    Syscall NR_pwrite64 [Reg 0, Write_buf, Imm 0x200, Imm 0x1e36fc00], Count,
    Syscall NR_pwrite64 [Reg 0, Write_buf, Imm 0x200, Imm 0x1e36fc00], Count,
    Syscall NR_pwrite64 [Reg 0, Write_buf, Imm 0x200, Imm 0x1e36fe00], Count,
    Syscall NR_pwrite64 [Reg 0, Write_buf, Imm 0x200, Imm 0x1e36fe00], Count,
    Syscall NR_pwrite64 [Reg 0, Write_buf, Imm 0x2000, Imm 0x1e370000], Count,
    Syscall NR_pwrite64 [Reg 0, Write_buf, Imm 0x600, Imm 0x1e370000], Count]"

definition min_mysql_pwrite64_openat_0_0_body392 :: "stmt list" where
  "min_mysql_pwrite64_openat_0_0_body392 = [
    Syscall NR_pwrite64 [Reg 0, Write_buf, Imm 0x600, Imm 0x1e370600], Count,
    Syscall NR_pwrite64 [Reg 0, Write_buf, Imm 0x800, Imm 0x1e370c00], Count,
    Syscall NR_pwrite64 [Reg 0, Write_buf, Imm 0xc00, Imm 0x1e371400], Count,
    Syscall NR_pwrite64 [Reg 0, Write_buf, Imm 0x2000, Imm 0x1e372000], Count,
    Syscall NR_pwrite64 [Reg 0, Write_buf, Imm 0x800, Imm 0x1e372a00], Count,
    Syscall NR_pwrite64 [Reg 0, Write_buf, Imm 0x600, Imm 0x1e373200], Count,
    Syscall NR_pwrite64 [Reg 0, Write_buf, Imm 0x200, Imm 0x1e373800], Count,
    Syscall NR_pwrite64 [Reg 0, Write_buf, Imm 0x200, Imm 0x1e373a00], Count,
    Syscall NR_pwrite64 [Reg 0, Write_buf, Imm 0x200, Imm 0x1e373c00], Count,
    Syscall NR_pwrite64 [Reg 0, Write_buf, Imm 0x200, Imm 0x1e373c00], Count,
    Syscall NR_pwrite64 [Reg 0, Write_buf, Imm 0x200, Imm 0x1e373c00], Count,
    Syscall NR_pwrite64 [Reg 0, Write_buf, Imm 0x200, Imm 0x1e373e00], Count,
    Syscall NR_pwrite64 [Reg 0, Write_buf, Imm 0x2000, Imm 0x1e374000], Count]"

definition min_mysql_pwrite64_openat_0_0_body393 :: "stmt list" where
  "min_mysql_pwrite64_openat_0_0_body393 = [
    Syscall NR_pwrite64 [Reg 0, Write_buf, Imm 0x200, Imm 0x1e374000], Count,
    Syscall NR_pwrite64 [Reg 0, Write_buf, Imm 0x200, Imm 0x1e374200], Count,
    Syscall NR_pwrite64 [Reg 0, Write_buf, Imm 0x200, Imm 0x1e374400], Count,
    Syscall NR_pwrite64 [Reg 0, Write_buf, Imm 0x200, Imm 0x1e374400], Count,
    Syscall NR_pwrite64 [Reg 0, Write_buf, Imm 0x200, Imm 0x1e374600], Count,
    Syscall NR_pwrite64 [Reg 0, Write_buf, Imm 0x200, Imm 0x1e374800], Count,
    Syscall NR_pwrite64 [Reg 0, Write_buf, Imm 0x200, Imm 0x1e374800], Count,
    Syscall NR_pwrite64 [Reg 0, Write_buf, Imm 0x800, Imm 0x1e374800], Count,
    Syscall NR_pwrite64 [Reg 0, Write_buf, Imm 0x200, Imm 0x1e375000], Count,
    Syscall NR_pwrite64 [Reg 0, Write_buf, Imm 0x400, Imm 0x1e375000], Count,
    Syscall NR_pwrite64 [Reg 0, Write_buf, Imm 0x400, Imm 0x1e375400], Count,
    Syscall NR_pwrite64 [Reg 0, Write_buf, Imm 0x600, Imm 0x1e375800], Count,
    Syscall NR_pwrite64 [Reg 0, Write_buf, Imm 0x200, Imm 0x1e375e00], Count]"

definition min_mysql_pwrite64_openat_0_0_body394 :: "stmt list" where
  "min_mysql_pwrite64_openat_0_0_body394 = [
    Syscall NR_pwrite64 [Reg 0, Write_buf, Imm 0x2000, Imm 0x1e376000], Count,
    Syscall NR_pwrite64 [Reg 0, Write_buf, Imm 0x200, Imm 0x1e376600], Count,
    Syscall NR_pwrite64 [Reg 0, Write_buf, Imm 0x400, Imm 0x1e376800], Count,
    Syscall NR_pwrite64 [Reg 0, Write_buf, Imm 0x200, Imm 0x1e376c00], Count,
    Syscall NR_pwrite64 [Reg 0, Write_buf, Imm 0x200, Imm 0x1e376e00], Count,
    Syscall NR_pwrite64 [Reg 0, Write_buf, Imm 0x200, Imm 0x1e377000], Count,
    Syscall NR_pwrite64 [Reg 0, Write_buf, Imm 0x200, Imm 0x1e377000], Count,
    Syscall NR_pwrite64 [Reg 0, Write_buf, Imm 0x200, Imm 0x1e377200], Count,
    Syscall NR_pwrite64 [Reg 0, Write_buf, Imm 0x200, Imm 0x1e377200], Count,
    Syscall NR_pwrite64 [Reg 0, Write_buf, Imm 0x200, Imm 0x1e377200], Count,
    Syscall NR_pwrite64 [Reg 0, Write_buf, Imm 0x200, Imm 0x1e377400], Count,
    Syscall NR_pwrite64 [Reg 0, Write_buf, Imm 0x200, Imm 0x1e377400], Count,
    Syscall NR_pwrite64 [Reg 0, Write_buf, Imm 0x200, Imm 0x1e377600], Count]"

definition min_mysql_pwrite64_openat_0_0_body395 :: "stmt list" where
  "min_mysql_pwrite64_openat_0_0_body395 = [
    Syscall NR_pwrite64 [Reg 0, Write_buf, Imm 0x200, Imm 0x1e377600], Count,
    Syscall NR_pwrite64 [Reg 0, Write_buf, Imm 0xa00, Imm 0x1e377600], Count,
    Syscall NR_pwrite64 [Reg 0, Write_buf, Imm 0x2000, Imm 0x1e378000], Count,
    Syscall NR_pwrite64 [Reg 0, Write_buf, Imm 0x200, Imm 0x1e378c00], Count,
    Syscall NR_pwrite64 [Reg 0, Write_buf, Imm 0x200, Imm 0x1e378c00], Count,
    Syscall NR_pwrite64 [Reg 0, Write_buf, Imm 0x200, Imm 0x1e378e00], Count,
    Syscall NR_pwrite64 [Reg 0, Write_buf, Imm 0x200, Imm 0x1e378e00], Count,
    Syscall NR_pwrite64 [Reg 0, Write_buf, Imm 0x200, Imm 0x1e378e00], Count,
    Syscall NR_pwrite64 [Reg 0, Write_buf, Imm 0x200, Imm 0x1e379000], Count,
    Syscall NR_pwrite64 [Reg 0, Write_buf, Imm 0x200, Imm 0x1e379000], Count,
    Syscall NR_pwrite64 [Reg 0, Write_buf, Imm 0x200, Imm 0x1e379200], Count,
    Syscall NR_pwrite64 [Reg 0, Write_buf, Imm 0x200, Imm 0x1e379200], Count,
    Syscall NR_pwrite64 [Reg 0, Write_buf, Imm 0x400, Imm 0x1e379200], Count]"

definition min_mysql_pwrite64_openat_0_0_body396 :: "stmt list" where
  "min_mysql_pwrite64_openat_0_0_body396 = [
    Syscall NR_pwrite64 [Reg 0, Write_buf, Imm 0x200, Imm 0x1e379600], Count,
    Syscall NR_pwrite64 [Reg 0, Write_buf, Imm 0x200, Imm 0x1e379800], Count,
    Syscall NR_pwrite64 [Reg 0, Write_buf, Imm 0x200, Imm 0x1e379800], Count,
    Syscall NR_pwrite64 [Reg 0, Write_buf, Imm 0x200, Imm 0x1e379800], Count,
    Syscall NR_pwrite64 [Reg 0, Write_buf, Imm 0x200, Imm 0x1e379a00], Count,
    Syscall NR_pwrite64 [Reg 0, Write_buf, Imm 0x400, Imm 0x1e379a00], Count,
    Syscall NR_pwrite64 [Reg 0, Write_buf, Imm 0x200, Imm 0x1e379e00], Count,
    Syscall NR_pwrite64 [Reg 0, Write_buf, Imm 0x200, Imm 0x1e379e00], Count,
    Syscall NR_pwrite64 [Reg 0, Write_buf, Imm 0x2000, Imm 0x1e37a000], Count,
    Syscall NR_pwrite64 [Reg 0, Write_buf, Imm 0x200, Imm 0x1e37a400], Count,
    Syscall NR_pwrite64 [Reg 0, Write_buf, Imm 0x400, Imm 0x1e37a400], Count,
    Syscall NR_pwrite64 [Reg 0, Write_buf, Imm 0x400, Imm 0x1e37a800], Count,
    Syscall NR_pwrite64 [Reg 0, Write_buf, Imm 0xa00, Imm 0x1e37ac00], Count]"

definition min_mysql_pwrite64_openat_0_0_body397 :: "stmt list" where
  "min_mysql_pwrite64_openat_0_0_body397 = [
    Syscall NR_pwrite64 [Reg 0, Write_buf, Imm 0xa00, Imm 0x1e37b600], Count,
    Syscall NR_pwrite64 [Reg 0, Write_buf, Imm 0x2000, Imm 0x1e37c000], Count,
    Syscall NR_pwrite64 [Reg 0, Write_buf, Imm 0xa00, Imm 0x1e37d600], Count,
    Syscall NR_pwrite64 [Reg 0, Write_buf, Imm 0x2000, Imm 0x1e37e000], Count,
    Syscall NR_pwrite64 [Reg 0, Write_buf, Imm 0xc00, Imm 0x1e37f400], Count,
    Syscall NR_pwrite64 [Reg 0, Write_buf, Imm 0x2000, Imm 0x1e380000], Count,
    Syscall NR_pwrite64 [Reg 0, Write_buf, Imm 0x200, Imm 0x1e380200], Count,
    Syscall NR_pwrite64 [Reg 0, Write_buf, Imm 0x200, Imm 0x1e380400], Count,
    Syscall NR_pwrite64 [Reg 0, Write_buf, Imm 0x200, Imm 0x1e380400], Count,
    Syscall NR_pwrite64 [Reg 0, Write_buf, Imm 0x200, Imm 0x1e380400], Count,
    Syscall NR_pwrite64 [Reg 0, Write_buf, Imm 0x200, Imm 0x1e380600], Count,
    Syscall NR_pwrite64 [Reg 0, Write_buf, Imm 0x200, Imm 0x1e380600], Count,
    Syscall NR_pwrite64 [Reg 0, Write_buf, Imm 0x200, Imm 0x1e380800], Count]"

definition min_mysql_pwrite64_openat_0_0_body398 :: "stmt list" where
  "min_mysql_pwrite64_openat_0_0_body398 = [
    Syscall NR_pwrite64 [Reg 0, Write_buf, Imm 0x200, Imm 0x1e380800], Count,
    Syscall NR_pwrite64 [Reg 0, Write_buf, Imm 0x400, Imm 0x1e380a00], Count,
    Syscall NR_pwrite64 [Reg 0, Write_buf, Imm 0x600, Imm 0x1e380e00], Count,
    Syscall NR_pwrite64 [Reg 0, Write_buf, Imm 0xa00, Imm 0x1e381400], Count,
    Syscall NR_pwrite64 [Reg 0, Write_buf, Imm 0x200, Imm 0x1e381e00], Count,
    Syscall NR_pwrite64 [Reg 0, Write_buf, Imm 0x2000, Imm 0x1e382000], Count,
    Syscall NR_pwrite64 [Reg 0, Write_buf, Imm 0x600, Imm 0x1e382600], Count,
    Syscall NR_pwrite64 [Reg 0, Write_buf, Imm 0x200, Imm 0x1e382c00], Count,
    Syscall NR_pwrite64 [Reg 0, Write_buf, Imm 0x200, Imm 0x1e382c00], Count,
    Syscall NR_pwrite64 [Reg 0, Write_buf, Imm 0x200, Imm 0x1e382e00], Count,
    Syscall NR_pwrite64 [Reg 0, Write_buf, Imm 0x200, Imm 0x1e382e00], Count,
    Syscall NR_pwrite64 [Reg 0, Write_buf, Imm 0x200, Imm 0x1e382e00], Count,
    Syscall NR_pwrite64 [Reg 0, Write_buf, Imm 0x200, Imm 0x1e382e00], Count]"

definition min_mysql_pwrite64_openat_0_0_body399 :: "stmt list" where
  "min_mysql_pwrite64_openat_0_0_body399 = [
    Syscall NR_pwrite64 [Reg 0, Write_buf, Imm 0x200, Imm 0x1e383000], Count,
    Syscall NR_pwrite64 [Reg 0, Write_buf, Imm 0x200, Imm 0x1e383000], Count,
    Syscall NR_pwrite64 [Reg 0, Write_buf, Imm 0x200, Imm 0x1e383200], Count,
    Syscall NR_pwrite64 [Reg 0, Write_buf, Imm 0x400, Imm 0x1e383200], Count,
    Syscall NR_pwrite64 [Reg 0, Write_buf, Imm 0x200, Imm 0x1e383600], Count,
    Syscall NR_pwrite64 [Reg 0, Write_buf, Imm 0x200, Imm 0x1e383600], Count,
    Syscall NR_pwrite64 [Reg 0, Write_buf, Imm 0x200, Imm 0x1e383600], Count,
    Syscall NR_pwrite64 [Reg 0, Write_buf, Imm 0x200, Imm 0x1e383800], Count,
    Syscall NR_pwrite64 [Reg 0, Write_buf, Imm 0x200, Imm 0x1e383800], Count,
    Syscall NR_pwrite64 [Reg 0, Write_buf, Imm 0x200, Imm 0x1e383a00], Count,
    Syscall NR_pwrite64 [Reg 0, Write_buf, Imm 0x200, Imm 0x1e383a00], Count,
    Syscall NR_pwrite64 [Reg 0, Write_buf, Imm 0x400, Imm 0x1e383a00], Count,
    Syscall NR_pwrite64 [Reg 0, Write_buf, Imm 0x200, Imm 0x1e383e00], Count]"

definition min_mysql_pwrite64_openat_0_0_body400 :: "stmt list" where
  "min_mysql_pwrite64_openat_0_0_body400 = [
    Syscall NR_pwrite64 [Reg 0, Write_buf, Imm 0x2000, Imm 0x1e384000], Count,
    Syscall NR_pwrite64 [Reg 0, Write_buf, Imm 0x200, Imm 0x1e384000], Count,
    Syscall NR_pwrite64 [Reg 0, Write_buf, Imm 0x200, Imm 0x1e384000], Count,
    Syscall NR_pwrite64 [Reg 0, Write_buf, Imm 0x200, Imm 0x1e384000], Count,
    Syscall NR_pwrite64 [Reg 0, Write_buf, Imm 0x200, Imm 0x1e384000], Count,
    Syscall NR_pwrite64 [Reg 0, Write_buf, Imm 0x200, Imm 0x1e384200], Count,
    Syscall NR_pwrite64 [Reg 0, Write_buf, Imm 0x200, Imm 0x1e384400], Count,
    Syscall NR_pwrite64 [Reg 0, Write_buf, Imm 0x400, Imm 0x1e384400], Count,
    Syscall NR_pwrite64 [Reg 0, Write_buf, Imm 0x200, Imm 0x1e384800], Count,
    Syscall NR_pwrite64 [Reg 0, Write_buf, Imm 0x200, Imm 0x1e384a00], Count,
    Syscall NR_pwrite64 [Reg 0, Write_buf, Imm 0x400, Imm 0x1e384a00], Count,
    Syscall NR_pwrite64 [Reg 0, Write_buf, Imm 0x400, Imm 0x1e384e00], Count,
    Syscall NR_pwrite64 [Reg 0, Write_buf, Imm 0xa00, Imm 0x1e385200], Count]"

definition min_mysql_pwrite64_openat_0_0_body401 :: "stmt list" where
  "min_mysql_pwrite64_openat_0_0_body401 = [
    Syscall NR_pwrite64 [Reg 0, Write_buf, Imm 0x400, Imm 0x1e385c00], Count,
    Syscall NR_pwrite64 [Reg 0, Write_buf, Imm 0x2000, Imm 0x1e386000], Count,
    Syscall NR_pwrite64 [Reg 0, Write_buf, Imm 0x800, Imm 0x1e387800], Count,
    Syscall NR_pwrite64 [Reg 0, Write_buf, Imm 0x2000, Imm 0x1e388000], Count,
    Syscall NR_pwrite64 [Reg 0, Write_buf, Imm 0x200, Imm 0x1e389400], Count,
    Syscall NR_pwrite64 [Reg 0, Write_buf, Imm 0xa00, Imm 0x1e389400], Count,
    Syscall NR_pwrite64 [Reg 0, Write_buf, Imm 0x200, Imm 0x1e389e00], Count,
    Syscall NR_pwrite64 [Reg 0, Write_buf, Imm 0x200, Imm 0x1e389e00], Count,
    Syscall NR_pwrite64 [Reg 0, Write_buf, Imm 0x200, Imm 0x1e389e00], Count,
    Syscall NR_pwrite64 [Reg 0, Write_buf, Imm 0x2000, Imm 0x1e38a000], Count,
    Syscall NR_pwrite64 [Reg 0, Write_buf, Imm 0x200, Imm 0x1e38a000], Count,
    Syscall NR_pwrite64 [Reg 0, Write_buf, Imm 0x200, Imm 0x1e38a000], Count,
    Syscall NR_pwrite64 [Reg 0, Write_buf, Imm 0x200, Imm 0x1e38a200], Count]"

definition min_mysql_pwrite64_openat_0_0_body402 :: "stmt list" where
  "min_mysql_pwrite64_openat_0_0_body402 = [
    Syscall NR_pwrite64 [Reg 0, Write_buf, Imm 0x200, Imm 0x1e38a400], Count,
    Syscall NR_pwrite64 [Reg 0, Write_buf, Imm 0x200, Imm 0x1e38a400], Count,
    Syscall NR_pwrite64 [Reg 0, Write_buf, Imm 0x200, Imm 0x1e38a400], Count,
    Syscall NR_pwrite64 [Reg 0, Write_buf, Imm 0x200, Imm 0x1e38a600], Count,
    Syscall NR_pwrite64 [Reg 0, Write_buf, Imm 0x200, Imm 0x1e38a800], Count,
    Syscall NR_pwrite64 [Reg 0, Write_buf, Imm 0x200, Imm 0x1e38a800], Count,
    Syscall NR_pwrite64 [Reg 0, Write_buf, Imm 0x200, Imm 0x1e38aa00], Count,
    Syscall NR_pwrite64 [Reg 0, Write_buf, Imm 0x400, Imm 0x1e38ac00], Count,
    Syscall NR_pwrite64 [Reg 0, Write_buf, Imm 0x200, Imm 0x1e38b000], Count,
    Syscall NR_pwrite64 [Reg 0, Write_buf, Imm 0x200, Imm 0x1e38b200], Count,
    Syscall NR_pwrite64 [Reg 0, Write_buf, Imm 0x400, Imm 0x1e38b200], Count,
    Syscall NR_pwrite64 [Reg 0, Write_buf, Imm 0x800, Imm 0x1e38b600], Count,
    Syscall NR_pwrite64 [Reg 0, Write_buf, Imm 0x200, Imm 0x1e38be00], Count]"

definition min_mysql_pwrite64_openat_0_0_body403 :: "stmt list" where
  "min_mysql_pwrite64_openat_0_0_body403 = [
    Syscall NR_pwrite64 [Reg 0, Write_buf, Imm 0x2000, Imm 0x1e38c000], Count,
    Syscall NR_pwrite64 [Reg 0, Write_buf, Imm 0x200, Imm 0x1e38c200], Count,
    Syscall NR_pwrite64 [Reg 0, Write_buf, Imm 0x200, Imm 0x1e38c200], Count,
    Syscall NR_pwrite64 [Reg 0, Write_buf, Imm 0x400, Imm 0x1e38c200], Count,
    Syscall NR_pwrite64 [Reg 0, Write_buf, Imm 0x200, Imm 0x1e38c600], Count,
    Syscall NR_pwrite64 [Reg 0, Write_buf, Imm 0x200, Imm 0x1e38c800], Count,
    Syscall NR_pwrite64 [Reg 0, Write_buf, Imm 0x200, Imm 0x1e38c800], Count,
    Syscall NR_pwrite64 [Reg 0, Write_buf, Imm 0x200, Imm 0x1e38ca00], Count,
    Syscall NR_pwrite64 [Reg 0, Write_buf, Imm 0x600, Imm 0x1e38ca00], Count,
    Syscall NR_pwrite64 [Reg 0, Write_buf, Imm 0x200, Imm 0x1e38d000], Count,
    Syscall NR_pwrite64 [Reg 0, Write_buf, Imm 0x600, Imm 0x1e38d000], Count,
    Syscall NR_pwrite64 [Reg 0, Write_buf, Imm 0x200, Imm 0x1e38d600], Count,
    Syscall NR_pwrite64 [Reg 0, Write_buf, Imm 0x600, Imm 0x1e38d800], Count]"

definition min_mysql_pwrite64_openat_0_0_body404 :: "stmt list" where
  "min_mysql_pwrite64_openat_0_0_body404 = [
    Syscall NR_pwrite64 [Reg 0, Write_buf, Imm 0x200, Imm 0x1e38de00], Count,
    Syscall NR_pwrite64 [Reg 0, Write_buf, Imm 0x2000, Imm 0x1e38e000], Count,
    Syscall NR_pwrite64 [Reg 0, Write_buf, Imm 0xa00, Imm 0x1e38f000], Count,
    Syscall NR_pwrite64 [Reg 0, Write_buf, Imm 0x600, Imm 0x1e38fa00], Count,
    Syscall NR_pwrite64 [Reg 0, Write_buf, Imm 0x2000, Imm 0x1e390000], Count,
    Syscall NR_pwrite64 [Reg 0, Write_buf, Imm 0xa00, Imm 0x1e390800], Count,
    Syscall NR_pwrite64 [Reg 0, Write_buf, Imm 0xc00, Imm 0x1e391200], Count,
    Syscall NR_pwrite64 [Reg 0, Write_buf, Imm 0x200, Imm 0x1e391e00], Count,
    Syscall NR_pwrite64 [Reg 0, Write_buf, Imm 0x2000, Imm 0x1e392000], Count,
    Syscall NR_pwrite64 [Reg 0, Write_buf, Imm 0x200, Imm 0x1e392400], Count,
    Syscall NR_pwrite64 [Reg 0, Write_buf, Imm 0x200, Imm 0x1e392600], Count,
    Syscall NR_pwrite64 [Reg 0, Write_buf, Imm 0x200, Imm 0x1e392600], Count,
    Syscall NR_pwrite64 [Reg 0, Write_buf, Imm 0x200, Imm 0x1e392600], Count]"

definition min_mysql_pwrite64_openat_0_0_body405 :: "stmt list" where
  "min_mysql_pwrite64_openat_0_0_body405 = [
    Syscall NR_pwrite64 [Reg 0, Write_buf, Imm 0x200, Imm 0x1e392800], Count,
    Syscall NR_pwrite64 [Reg 0, Write_buf, Imm 0x400, Imm 0x1e392800], Count,
    Syscall NR_pwrite64 [Reg 0, Write_buf, Imm 0x200, Imm 0x1e392c00], Count,
    Syscall NR_pwrite64 [Reg 0, Write_buf, Imm 0xa00, Imm 0x1e392c00], Count,
    Syscall NR_pwrite64 [Reg 0, Write_buf, Imm 0x200, Imm 0x1e393600], Count,
    Syscall NR_pwrite64 [Reg 0, Write_buf, Imm 0x200, Imm 0x1e393600], Count,
    Syscall NR_pwrite64 [Reg 0, Write_buf, Imm 0x200, Imm 0x1e393600], Count,
    Syscall NR_pwrite64 [Reg 0, Write_buf, Imm 0x200, Imm 0x1e393600], Count,
    Syscall NR_pwrite64 [Reg 0, Write_buf, Imm 0x200, Imm 0x1e393800], Count,
    Syscall NR_pwrite64 [Reg 0, Write_buf, Imm 0x200, Imm 0x1e393800], Count,
    Syscall NR_pwrite64 [Reg 0, Write_buf, Imm 0x200, Imm 0x1e393800], Count,
    Syscall NR_pwrite64 [Reg 0, Write_buf, Imm 0x200, Imm 0x1e393a00], Count,
    Syscall NR_pwrite64 [Reg 0, Write_buf, Imm 0x200, Imm 0x1e393a00], Count]"

definition min_mysql_pwrite64_openat_0_0_body406 :: "stmt list" where
  "min_mysql_pwrite64_openat_0_0_body406 = [
    Syscall NR_pwrite64 [Reg 0, Write_buf, Imm 0x200, Imm 0x1e393c00], Count,
    Syscall NR_pwrite64 [Reg 0, Write_buf, Imm 0x200, Imm 0x1e393c00], Count,
    Syscall NR_pwrite64 [Reg 0, Write_buf, Imm 0x200, Imm 0x1e393e00], Count,
    Syscall NR_pwrite64 [Reg 0, Write_buf, Imm 0x2000, Imm 0x1e394000], Count,
    Syscall NR_pwrite64 [Reg 0, Write_buf, Imm 0x400, Imm 0x1e394600], Count,
    Syscall NR_pwrite64 [Reg 0, Write_buf, Imm 0x200, Imm 0x1e394a00], Count,
    Syscall NR_pwrite64 [Reg 0, Write_buf, Imm 0x200, Imm 0x1e394c00], Count,
    Syscall NR_pwrite64 [Reg 0, Write_buf, Imm 0x400, Imm 0x1e394e00], Count,
    Syscall NR_pwrite64 [Reg 0, Write_buf, Imm 0xc00, Imm 0x1e395200], Count,
    Syscall NR_pwrite64 [Reg 0, Write_buf, Imm 0x200, Imm 0x1e395e00], Count,
    Syscall NR_pwrite64 [Reg 0, Write_buf, Imm 0x2000, Imm 0x1e396000], Count,
    Syscall NR_pwrite64 [Reg 0, Write_buf, Imm 0xc00, Imm 0x1e396e00], Count,
    Syscall NR_pwrite64 [Reg 0, Write_buf, Imm 0x600, Imm 0x1e397a00], Count]"

definition min_mysql_pwrite64_openat_0_0_body407 :: "stmt list" where
  "min_mysql_pwrite64_openat_0_0_body407 = [
    Syscall NR_pwrite64 [Reg 0, Write_buf, Imm 0x2000, Imm 0x1e398000], Count,
    Syscall NR_pwrite64 [Reg 0, Write_buf, Imm 0x600, Imm 0x1e399a00], Count,
    Syscall NR_pwrite64 [Reg 0, Write_buf, Imm 0x2000, Imm 0x1e39a000], Count,
    Syscall NR_pwrite64 [Reg 0, Write_buf, Imm 0xa00, Imm 0x1e39b000], Count,
    Syscall NR_pwrite64 [Reg 0, Write_buf, Imm 0x400, Imm 0x1e39ba00], Count,
    Syscall NR_pwrite64 [Reg 0, Write_buf, Imm 0x200, Imm 0x1e39be00], Count,
    Syscall NR_pwrite64 [Reg 0, Write_buf, Imm 0x200, Imm 0x1e39be00], Count,
    Syscall NR_pwrite64 [Reg 0, Write_buf, Imm 0x200, Imm 0x1e39be00], Count,
    Syscall NR_pwrite64 [Reg 0, Write_buf, Imm 0x2000, Imm 0x1e39c000], Count,
    Syscall NR_pwrite64 [Reg 0, Write_buf, Imm 0x200, Imm 0x1e39c200], Count,
    Syscall NR_pwrite64 [Reg 0, Write_buf, Imm 0x200, Imm 0x1e39c200], Count,
    Syscall NR_pwrite64 [Reg 0, Write_buf, Imm 0x200, Imm 0x1e39c400], Count,
    Syscall NR_pwrite64 [Reg 0, Write_buf, Imm 0x200, Imm 0x1e39c400], Count]"

definition min_mysql_pwrite64_openat_0_0_body408 :: "stmt list" where
  "min_mysql_pwrite64_openat_0_0_body408 = [
    Syscall NR_pwrite64 [Reg 0, Write_buf, Imm 0x200, Imm 0x1e39c600], Count,
    Syscall NR_pwrite64 [Reg 0, Write_buf, Imm 0x200, Imm 0x1e39c600], Count,
    Syscall NR_pwrite64 [Reg 0, Write_buf, Imm 0x400, Imm 0x1e39c600], Count,
    Syscall NR_pwrite64 [Reg 0, Write_buf, Imm 0x200, Imm 0x1e39ca00], Count,
    Syscall NR_pwrite64 [Reg 0, Write_buf, Imm 0x200, Imm 0x1e39cc00], Count,
    Syscall NR_pwrite64 [Reg 0, Write_buf, Imm 0x200, Imm 0x1e39cc00], Count,
    Syscall NR_pwrite64 [Reg 0, Write_buf, Imm 0x200, Imm 0x1e39cc00], Count,
    Syscall NR_pwrite64 [Reg 0, Write_buf, Imm 0x200, Imm 0x1e39ce00], Count,
    Syscall NR_pwrite64 [Reg 0, Write_buf, Imm 0x200, Imm 0x1e39ce00], Count,
    Syscall NR_pwrite64 [Reg 0, Write_buf, Imm 0x200, Imm 0x1e39d000], Count,
    Syscall NR_pwrite64 [Reg 0, Write_buf, Imm 0x400, Imm 0x1e39d000], Count,
    Syscall NR_pwrite64 [Reg 0, Write_buf, Imm 0x200, Imm 0x1e39d400], Count,
    Syscall NR_pwrite64 [Reg 0, Write_buf, Imm 0x200, Imm 0x1e39d400], Count]"

definition min_mysql_pwrite64_openat_0_0_body409 :: "stmt list" where
  "min_mysql_pwrite64_openat_0_0_body409 = [
    Syscall NR_pwrite64 [Reg 0, Write_buf, Imm 0x400, Imm 0x1e39d400], Count,
    Syscall NR_pwrite64 [Reg 0, Write_buf, Imm 0x200, Imm 0x1e39d800], Count,
    Syscall NR_pwrite64 [Reg 0, Write_buf, Imm 0x200, Imm 0x1e39da00], Count,
    Syscall NR_pwrite64 [Reg 0, Write_buf, Imm 0x600, Imm 0x1e39da00], Count,
    Syscall NR_pwrite64 [Reg 0, Write_buf, Imm 0x2000, Imm 0x1e39e000], Count,
    Syscall NR_pwrite64 [Reg 0, Write_buf, Imm 0x200, Imm 0x1e39e400], Count,
    Syscall NR_pwrite64 [Reg 0, Write_buf, Imm 0x200, Imm 0x1e39e600], Count,
    Syscall NR_pwrite64 [Reg 0, Write_buf, Imm 0x200, Imm 0x1e39e600], Count,
    Syscall NR_pwrite64 [Reg 0, Write_buf, Imm 0x400, Imm 0x1e39e600], Count,
    Syscall NR_pwrite64 [Reg 0, Write_buf, Imm 0x200, Imm 0x1e39ea00], Count,
    Syscall NR_pwrite64 [Reg 0, Write_buf, Imm 0x200, Imm 0x1e39ea00], Count,
    Syscall NR_pwrite64 [Reg 0, Write_buf, Imm 0x200, Imm 0x1e39ea00], Count,
    Syscall NR_pwrite64 [Reg 0, Write_buf, Imm 0x400, Imm 0x1e39ea00], Count]"

definition min_mysql_pwrite64_openat_0_0_body410 :: "stmt list" where
  "min_mysql_pwrite64_openat_0_0_body410 = [
    Syscall NR_pwrite64 [Reg 0, Write_buf, Imm 0x200, Imm 0x1e39ee00], Count,
    Syscall NR_pwrite64 [Reg 0, Write_buf, Imm 0x200, Imm 0x1e39ee00], Count,
    Syscall NR_pwrite64 [Reg 0, Write_buf, Imm 0x200, Imm 0x1e39f000], Count,
    Syscall NR_pwrite64 [Reg 0, Write_buf, Imm 0x200, Imm 0x1e39f000], Count,
    Syscall NR_pwrite64 [Reg 0, Write_buf, Imm 0x200, Imm 0x1e39f000], Count,
    Syscall NR_pwrite64 [Reg 0, Write_buf, Imm 0x200, Imm 0x1e39f200], Count,
    Syscall NR_pwrite64 [Reg 0, Write_buf, Imm 0x400, Imm 0x1e39f200], Count,
    Syscall NR_pwrite64 [Reg 0, Write_buf, Imm 0x200, Imm 0x1e39f600], Count,
    Syscall NR_pwrite64 [Reg 0, Write_buf, Imm 0x200, Imm 0x1e39f800], Count,
    Syscall NR_pwrite64 [Reg 0, Write_buf, Imm 0x200, Imm 0x1e39fa00], Count,
    Syscall NR_pwrite64 [Reg 0, Write_buf, Imm 0x200, Imm 0x1e39fa00], Count,
    Syscall NR_pwrite64 [Reg 0, Write_buf, Imm 0x200, Imm 0x1e39fa00], Count,
    Syscall NR_pwrite64 [Reg 0, Write_buf, Imm 0x400, Imm 0x1e39fa00], Count]"

definition min_mysql_pwrite64_openat_0_0_body411 :: "stmt list" where
  "min_mysql_pwrite64_openat_0_0_body411 = [
    Syscall NR_pwrite64 [Reg 0, Write_buf, Imm 0x200, Imm 0x1e39fe00], Count,
    Syscall NR_pwrite64 [Reg 0, Write_buf, Imm 0x2000, Imm 0x1e3a0000], Count,
    Syscall NR_pwrite64 [Reg 0, Write_buf, Imm 0x200, Imm 0x1e3a0000], Count,
    Syscall NR_pwrite64 [Reg 0, Write_buf, Imm 0x200, Imm 0x1e3a0200], Count,
    Syscall NR_pwrite64 [Reg 0, Write_buf, Imm 0x200, Imm 0x1e3a0200], Count,
    Syscall NR_pwrite64 [Reg 0, Write_buf, Imm 0x200, Imm 0x1e3a0400], Count,
    Syscall NR_pwrite64 [Reg 0, Write_buf, Imm 0x200, Imm 0x1e3a0600], Count,
    Syscall NR_pwrite64 [Reg 0, Write_buf, Imm 0x600, Imm 0x1e3a0800], Count,
    Syscall NR_pwrite64 [Reg 0, Write_buf, Imm 0xa00, Imm 0x1e3a0e00], Count,
    Syscall NR_pwrite64 [Reg 0, Write_buf, Imm 0x200, Imm 0x1e3a1800], Count,
    Syscall NR_pwrite64 [Reg 0, Write_buf, Imm 0x800, Imm 0x1e3a1800], Count,
    Syscall NR_pwrite64 [Reg 0, Write_buf, Imm 0x2000, Imm 0x1e3a2000], Count,
    Syscall NR_pwrite64 [Reg 0, Write_buf, Imm 0x200, Imm 0x1e3a2e00], Count]"

definition min_mysql_pwrite64_openat_0_0_body412 :: "stmt list" where
  "min_mysql_pwrite64_openat_0_0_body412 = [
    Syscall NR_pwrite64 [Reg 0, Write_buf, Imm 0x400, Imm 0x1e3a3000], Count,
    Syscall NR_pwrite64 [Reg 0, Write_buf, Imm 0x800, Imm 0x1e3a3400], Count,
    Syscall NR_pwrite64 [Reg 0, Write_buf, Imm 0x400, Imm 0x1e3a3c00], Count,
    Syscall NR_pwrite64 [Reg 0, Write_buf, Imm 0x2000, Imm 0x1e3a4000], Count,
    Syscall NR_pwrite64 [Reg 0, Write_buf, Imm 0x200, Imm 0x1e3a4600], Count,
    Syscall NR_pwrite64 [Reg 0, Write_buf, Imm 0x400, Imm 0x1e3a4800], Count,
    Syscall NR_pwrite64 [Reg 0, Write_buf, Imm 0x600, Imm 0x1e3a4c00], Count,
    Syscall NR_pwrite64 [Reg 0, Write_buf, Imm 0x800, Imm 0x1e3a5200], Count,
    Syscall NR_pwrite64 [Reg 0, Write_buf, Imm 0x600, Imm 0x1e3a5a00], Count,
    Syscall NR_pwrite64 [Reg 0, Write_buf, Imm 0x2000, Imm 0x1e3a6000], Count,
    Syscall NR_pwrite64 [Reg 0, Write_buf, Imm 0x200, Imm 0x1e3a6600], Count,
    Syscall NR_pwrite64 [Reg 0, Write_buf, Imm 0x200, Imm 0x1e3a6600], Count,
    Syscall NR_pwrite64 [Reg 0, Write_buf, Imm 0x200, Imm 0x1e3a6600], Count]"

definition min_mysql_pwrite64_openat_0_0_body413 :: "stmt list" where
  "min_mysql_pwrite64_openat_0_0_body413 = [
    Syscall NR_pwrite64 [Reg 0, Write_buf, Imm 0x200, Imm 0x1e3a6800], Count,
    Syscall NR_pwrite64 [Reg 0, Write_buf, Imm 0x200, Imm 0x1e3a6800], Count,
    Syscall NR_pwrite64 [Reg 0, Write_buf, Imm 0x200, Imm 0x1e3a6a00], Count,
    Syscall NR_pwrite64 [Reg 0, Write_buf, Imm 0x200, Imm 0x1e3a6a00], Count,
    Syscall NR_pwrite64 [Reg 0, Write_buf, Imm 0x200, Imm 0x1e3a6a00], Count,
    Syscall NR_pwrite64 [Reg 0, Write_buf, Imm 0x200, Imm 0x1e3a6c00], Count,
    Syscall NR_pwrite64 [Reg 0, Write_buf, Imm 0x400, Imm 0x1e3a6c00], Count,
    Syscall NR_pwrite64 [Reg 0, Write_buf, Imm 0x200, Imm 0x1e3a7000], Count,
    Syscall NR_pwrite64 [Reg 0, Write_buf, Imm 0x200, Imm 0x1e3a7200], Count,
    Syscall NR_pwrite64 [Reg 0, Write_buf, Imm 0x800, Imm 0x1e3a7200], Count,
    Syscall NR_pwrite64 [Reg 0, Write_buf, Imm 0x600, Imm 0x1e3a7a00], Count,
    Syscall NR_pwrite64 [Reg 0, Write_buf, Imm 0x2000, Imm 0x1e3a8000], Count,
    Syscall NR_pwrite64 [Reg 0, Write_buf, Imm 0x400, Imm 0x1e3a8400], Count]"

definition min_mysql_pwrite64_openat_0_0_body414 :: "stmt list" where
  "min_mysql_pwrite64_openat_0_0_body414 = [
    Syscall NR_pwrite64 [Reg 0, Write_buf, Imm 0x200, Imm 0x1e3a8800], Count,
    Syscall NR_pwrite64 [Reg 0, Write_buf, Imm 0x200, Imm 0x1e3a8800], Count,
    Syscall NR_pwrite64 [Reg 0, Write_buf, Imm 0x200, Imm 0x1e3a8a00], Count,
    Syscall NR_pwrite64 [Reg 0, Write_buf, Imm 0x200, Imm 0x1e3a8a00], Count,
    Syscall NR_pwrite64 [Reg 0, Write_buf, Imm 0x200, Imm 0x1e3a8a00], Count,
    Syscall NR_pwrite64 [Reg 0, Write_buf, Imm 0x200, Imm 0x1e3a8c00], Count,
    Syscall NR_pwrite64 [Reg 0, Write_buf, Imm 0x200, Imm 0x1e3a8c00], Count,
    Syscall NR_pwrite64 [Reg 0, Write_buf, Imm 0x200, Imm 0x1e3a8c00], Count,
    Syscall NR_pwrite64 [Reg 0, Write_buf, Imm 0x200, Imm 0x1e3a8c00], Count,
    Syscall NR_pwrite64 [Reg 0, Write_buf, Imm 0x200, Imm 0x1e3a8e00], Count,
    Syscall NR_pwrite64 [Reg 0, Write_buf, Imm 0x200, Imm 0x1e3a8e00], Count,
    Syscall NR_pwrite64 [Reg 0, Write_buf, Imm 0x200, Imm 0x1e3a9000], Count,
    Syscall NR_pwrite64 [Reg 0, Write_buf, Imm 0x400, Imm 0x1e3a9000], Count]"

definition min_mysql_pwrite64_openat_0_0_body415 :: "stmt list" where
  "min_mysql_pwrite64_openat_0_0_body415 = [
    Syscall NR_pwrite64 [Reg 0, Write_buf, Imm 0x200, Imm 0x1e3a9400], Count,
    Syscall NR_pwrite64 [Reg 0, Write_buf, Imm 0x200, Imm 0x1e3a9400], Count,
    Syscall NR_pwrite64 [Reg 0, Write_buf, Imm 0x200, Imm 0x1e3a9600], Count,
    Syscall NR_pwrite64 [Reg 0, Write_buf, Imm 0xa00, Imm 0x1e3a9600], Count,
    Syscall NR_pwrite64 [Reg 0, Write_buf, Imm 0x2000, Imm 0x1e3aa000], Count,
    Syscall NR_pwrite64 [Reg 0, Write_buf, Imm 0x800, Imm 0x1e3aa200], Count,
    Syscall NR_pwrite64 [Reg 0, Write_buf, Imm 0x800, Imm 0x1e3aaa00], Count,
    Syscall NR_pwrite64 [Reg 0, Write_buf, Imm 0xe00, Imm 0x1e3ab200], Count,
    Syscall NR_pwrite64 [Reg 0, Write_buf, Imm 0x2000, Imm 0x1e3ac000], Count,
    Syscall NR_pwrite64 [Reg 0, Write_buf, Imm 0x1000, Imm 0x1e3aca00], Count,
    Syscall NR_pwrite64 [Reg 0, Write_buf, Imm 0x600, Imm 0x1e3ada00], Count,
    Syscall NR_pwrite64 [Reg 0, Write_buf, Imm 0x2000, Imm 0x1e3ae000], Count,
    Syscall NR_pwrite64 [Reg 0, Write_buf, Imm 0xa00, Imm 0x1e3af400], Count]"

definition min_mysql_pwrite64_openat_0_0_body416 :: "stmt list" where
  "min_mysql_pwrite64_openat_0_0_body416 = [
    Syscall NR_pwrite64 [Reg 0, Write_buf, Imm 0x200, Imm 0x1e3afe00], Count,
    Syscall NR_pwrite64 [Reg 0, Write_buf, Imm 0x2000, Imm 0x1e3b0000], Count,
    Syscall NR_pwrite64 [Reg 0, Write_buf, Imm 0x200, Imm 0x1e3b0400], Count,
    Syscall NR_pwrite64 [Reg 0, Write_buf, Imm 0x200, Imm 0x1e3b0600], Count,
    Syscall NR_pwrite64 [Reg 0, Write_buf, Imm 0x200, Imm 0x1e3b0600], Count,
    Syscall NR_pwrite64 [Reg 0, Write_buf, Imm 0x200, Imm 0x1e3b0800], Count,
    Syscall NR_pwrite64 [Reg 0, Write_buf, Imm 0x200, Imm 0x1e3b0800], Count,
    Syscall NR_pwrite64 [Reg 0, Write_buf, Imm 0x200, Imm 0x1e3b0a00], Count,
    Syscall NR_pwrite64 [Reg 0, Write_buf, Imm 0x200, Imm 0x1e3b0a00], Count,
    Syscall NR_pwrite64 [Reg 0, Write_buf, Imm 0x200, Imm 0x1e3b0c00], Count,
    Syscall NR_pwrite64 [Reg 0, Write_buf, Imm 0x200, Imm 0x1e3b0e00], Count,
    Syscall NR_pwrite64 [Reg 0, Write_buf, Imm 0x200, Imm 0x1e3b0e00], Count,
    Syscall NR_pwrite64 [Reg 0, Write_buf, Imm 0x200, Imm 0x1e3b1000], Count]"

definition min_mysql_pwrite64_openat_0_0_body417 :: "stmt list" where
  "min_mysql_pwrite64_openat_0_0_body417 = [
    Syscall NR_pwrite64 [Reg 0, Write_buf, Imm 0x200, Imm 0x1e3b1000], Count,
    Syscall NR_pwrite64 [Reg 0, Write_buf, Imm 0x400, Imm 0x1e3b1200], Count,
    Syscall NR_pwrite64 [Reg 0, Write_buf, Imm 0x400, Imm 0x1e3b1600], Count,
    Syscall NR_pwrite64 [Reg 0, Write_buf, Imm 0x200, Imm 0x1e3b1a00], Count,
    Syscall NR_pwrite64 [Reg 0, Write_buf, Imm 0x200, Imm 0x1e3b1c00], Count,
    Syscall NR_pwrite64 [Reg 0, Write_buf, Imm 0x200, Imm 0x1e3b1e00], Count,
    Syscall NR_pwrite64 [Reg 0, Write_buf, Imm 0x2000, Imm 0x1e3b2000], Count,
    Syscall NR_pwrite64 [Reg 0, Write_buf, Imm 0x200, Imm 0x1e3b2000], Count,
    Syscall NR_pwrite64 [Reg 0, Write_buf, Imm 0x600, Imm 0x1e3b2200], Count,
    Syscall NR_pwrite64 [Reg 0, Write_buf, Imm 0x600, Imm 0x1e3b2800], Count,
    Syscall NR_pwrite64 [Reg 0, Write_buf, Imm 0x400, Imm 0x1e3b2e00], Count,
    Syscall NR_pwrite64 [Reg 0, Write_buf, Imm 0x200, Imm 0x1e3b3200], Count,
    Syscall NR_pwrite64 [Reg 0, Write_buf, Imm 0x400, Imm 0x1e3b3200], Count]"

definition min_mysql_pwrite64_openat_0_0_body418 :: "stmt list" where
  "min_mysql_pwrite64_openat_0_0_body418 = [
    Syscall NR_pwrite64 [Reg 0, Write_buf, Imm 0x200, Imm 0x1e3b3600], Count,
    Syscall NR_pwrite64 [Reg 0, Write_buf, Imm 0x400, Imm 0x1e3b3600], Count,
    Syscall NR_pwrite64 [Reg 0, Write_buf, Imm 0x200, Imm 0x1e3b3a00], Count,
    Syscall NR_pwrite64 [Reg 0, Write_buf, Imm 0x200, Imm 0x1e3b3a00], Count,
    Syscall NR_pwrite64 [Reg 0, Write_buf, Imm 0x600, Imm 0x1e3b3a00], Count,
    Syscall NR_pwrite64 [Reg 0, Write_buf, Imm 0x2000, Imm 0x1e3b4000], Count,
    Syscall NR_pwrite64 [Reg 0, Write_buf, Imm 0x200, Imm 0x1e3b4800], Count,
    Syscall NR_pwrite64 [Reg 0, Write_buf, Imm 0x400, Imm 0x1e3b4800], Count,
    Syscall NR_pwrite64 [Reg 0, Write_buf, Imm 0x600, Imm 0x1e3b4c00], Count,
    Syscall NR_pwrite64 [Reg 0, Write_buf, Imm 0x200, Imm 0x1e3b5200], Count,
    Syscall NR_pwrite64 [Reg 0, Write_buf, Imm 0x200, Imm 0x1e3b5400], Count,
    Syscall NR_pwrite64 [Reg 0, Write_buf, Imm 0x200, Imm 0x1e3b5600], Count,
    Syscall NR_pwrite64 [Reg 0, Write_buf, Imm 0x200, Imm 0x1e3b5600], Count]"

definition min_mysql_pwrite64_openat_0_0_body419 :: "stmt list" where
  "min_mysql_pwrite64_openat_0_0_body419 = [
    Syscall NR_pwrite64 [Reg 0, Write_buf, Imm 0x400, Imm 0x1e3b5800], Count,
    Syscall NR_pwrite64 [Reg 0, Write_buf, Imm 0x400, Imm 0x1e3b5c00], Count,
    Syscall NR_pwrite64 [Reg 0, Write_buf, Imm 0x2000, Imm 0x1e3b6000], Count,
    Syscall NR_pwrite64 [Reg 0, Write_buf, Imm 0xa00, Imm 0x1e3b6a00], Count,
    Syscall NR_pwrite64 [Reg 0, Write_buf, Imm 0x800, Imm 0x1e3b7400], Count,
    Syscall NR_pwrite64 [Reg 0, Write_buf, Imm 0x400, Imm 0x1e3b7c00], Count,
    Syscall NR_pwrite64 [Reg 0, Write_buf, Imm 0x2000, Imm 0x1e3b8000], Count,
    Syscall NR_pwrite64 [Reg 0, Write_buf, Imm 0x400, Imm 0x1e3b9c00], Count,
    Syscall NR_pwrite64 [Reg 0, Write_buf, Imm 0x2000, Imm 0x1e3ba000], Count,
    Syscall NR_pwrite64 [Reg 0, Write_buf, Imm 0xc00, Imm 0x1e3bb400], Count,
    Syscall NR_pwrite64 [Reg 0, Write_buf, Imm 0x2000, Imm 0x1e3bc000], Count,
    Syscall NR_pwrite64 [Reg 0, Write_buf, Imm 0x400, Imm 0x1e3bc800], Count,
    Syscall NR_pwrite64 [Reg 0, Write_buf, Imm 0x600, Imm 0x1e3bcc00], Count]"

definition min_mysql_pwrite64_openat_0_0_body420 :: "stmt list" where
  "min_mysql_pwrite64_openat_0_0_body420 = [
    Syscall NR_pwrite64 [Reg 0, Write_buf, Imm 0x200, Imm 0x1e3bd200], Count,
    Syscall NR_pwrite64 [Reg 0, Write_buf, Imm 0xa00, Imm 0x1e3bd200], Count,
    Syscall NR_pwrite64 [Reg 0, Write_buf, Imm 0x200, Imm 0x1e3bdc00], Count,
    Syscall NR_pwrite64 [Reg 0, Write_buf, Imm 0x200, Imm 0x1e3bdc00], Count,
    Syscall NR_pwrite64 [Reg 0, Write_buf, Imm 0x200, Imm 0x1e3bdc00], Count,
    Syscall NR_pwrite64 [Reg 0, Write_buf, Imm 0x200, Imm 0x1e3bdc00], Count,
    Syscall NR_pwrite64 [Reg 0, Write_buf, Imm 0x200, Imm 0x1e3bde00], Count,
    Syscall NR_pwrite64 [Reg 0, Write_buf, Imm 0x200, Imm 0x1e3bde00], Count,
    Syscall NR_pwrite64 [Reg 0, Write_buf, Imm 0x2000, Imm 0x1e3be000], Count,
    Syscall NR_pwrite64 [Reg 0, Write_buf, Imm 0x400, Imm 0x1e3be400], Count,
    Syscall NR_pwrite64 [Reg 0, Write_buf, Imm 0x600, Imm 0x1e3be800], Count,
    Syscall NR_pwrite64 [Reg 0, Write_buf, Imm 0x400, Imm 0x1e3bee00], Count,
    Syscall NR_pwrite64 [Reg 0, Write_buf, Imm 0xc00, Imm 0x1e3bf200], Count]"

definition min_mysql_pwrite64_openat_0_0_body421 :: "stmt list" where
  "min_mysql_pwrite64_openat_0_0_body421 = [
    Syscall NR_pwrite64 [Reg 0, Write_buf, Imm 0x200, Imm 0x1e3bfe00], Count,
    Syscall NR_pwrite64 [Reg 0, Write_buf, Imm 0x2000, Imm 0x1e3c0000], Count,
    Syscall NR_pwrite64 [Reg 0, Write_buf, Imm 0x600, Imm 0x1e3c0400], Count,
    Syscall NR_pwrite64 [Reg 0, Write_buf, Imm 0x200, Imm 0x1e3c0a00], Count,
    Syscall NR_pwrite64 [Reg 0, Write_buf, Imm 0x600, Imm 0x1e3c0c00], Count,
    Syscall NR_pwrite64 [Reg 0, Write_buf, Imm 0x200, Imm 0x1e3c1200], Count,
    Syscall NR_pwrite64 [Reg 0, Write_buf, Imm 0x200, Imm 0x1e3c1200], Count,
    Syscall NR_pwrite64 [Reg 0, Write_buf, Imm 0x200, Imm 0x1e3c1400], Count,
    Syscall NR_pwrite64 [Reg 0, Write_buf, Imm 0xa00, Imm 0x1e3c1400], Count,
    Syscall NR_pwrite64 [Reg 0, Write_buf, Imm 0x200, Imm 0x1e3c1e00], Count,
    Syscall NR_pwrite64 [Reg 0, Write_buf, Imm 0x200, Imm 0x1e3c1e00], Count,
    Syscall NR_pwrite64 [Reg 0, Write_buf, Imm 0x2000, Imm 0x1e3c2000], Count,
    Syscall NR_pwrite64 [Reg 0, Write_buf, Imm 0x400, Imm 0x1e3c2600], Count]"

definition min_mysql_pwrite64_openat_0_0_body422 :: "stmt list" where
  "min_mysql_pwrite64_openat_0_0_body422 = [
    Syscall NR_pwrite64 [Reg 0, Write_buf, Imm 0x200, Imm 0x1e3c2a00], Count,
    Syscall NR_pwrite64 [Reg 0, Write_buf, Imm 0x200, Imm 0x1e3c2c00], Count,
    Syscall NR_pwrite64 [Reg 0, Write_buf, Imm 0x200, Imm 0x1e3c2c00], Count,
    Syscall NR_pwrite64 [Reg 0, Write_buf, Imm 0x200, Imm 0x1e3c2c00], Count,
    Syscall NR_pwrite64 [Reg 0, Write_buf, Imm 0x200, Imm 0x1e3c2c00], Count,
    Syscall NR_pwrite64 [Reg 0, Write_buf, Imm 0x600, Imm 0x1e3c2c00], Count,
    Syscall NR_pwrite64 [Reg 0, Write_buf, Imm 0x400, Imm 0x1e3c3200], Count,
    Syscall NR_pwrite64 [Reg 0, Write_buf, Imm 0x200, Imm 0x1e3c3600], Count,
    Syscall NR_pwrite64 [Reg 0, Write_buf, Imm 0x200, Imm 0x1e3c3600], Count,
    Syscall NR_pwrite64 [Reg 0, Write_buf, Imm 0x200, Imm 0x1e3c3800], Count,
    Syscall NR_pwrite64 [Reg 0, Write_buf, Imm 0x200, Imm 0x1e3c3a00], Count,
    Syscall NR_pwrite64 [Reg 0, Write_buf, Imm 0x200, Imm 0x1e3c3a00], Count,
    Syscall NR_pwrite64 [Reg 0, Write_buf, Imm 0x200, Imm 0x1e3c3c00], Count]"

definition min_mysql_pwrite64_openat_0_0_body423 :: "stmt list" where
  "min_mysql_pwrite64_openat_0_0_body423 = [
    Syscall NR_pwrite64 [Reg 0, Write_buf, Imm 0x200, Imm 0x1e3c3e00], Count,
    Syscall NR_pwrite64 [Reg 0, Write_buf, Imm 0x2000, Imm 0x1e3c4000], Count,
    Syscall NR_pwrite64 [Reg 0, Write_buf, Imm 0x200, Imm 0x1e3c4400], Count,
    Syscall NR_pwrite64 [Reg 0, Write_buf, Imm 0x200, Imm 0x1e3c4600], Count,
    Syscall NR_pwrite64 [Reg 0, Write_buf, Imm 0x400, Imm 0x1e3c4800], Count,
    Syscall NR_pwrite64 [Reg 0, Write_buf, Imm 0x200, Imm 0x1e3c4c00], Count,
    Syscall NR_pwrite64 [Reg 0, Write_buf, Imm 0x400, Imm 0x1e3c4e00], Count,
    Syscall NR_pwrite64 [Reg 0, Write_buf, Imm 0xa00, Imm 0x1e3c5200], Count,
    Syscall NR_pwrite64 [Reg 0, Write_buf, Imm 0x400, Imm 0x1e3c5c00], Count,
    Syscall NR_pwrite64 [Reg 0, Write_buf, Imm 0x2000, Imm 0x1e3c6000], Count,
    Syscall NR_pwrite64 [Reg 0, Write_buf, Imm 0x400, Imm 0x1e3c6200], Count,
    Syscall NR_pwrite64 [Reg 0, Write_buf, Imm 0x600, Imm 0x1e3c6600], Count,
    Syscall NR_pwrite64 [Reg 0, Write_buf, Imm 0x200, Imm 0x1e3c6c00], Count]"

definition min_mysql_pwrite64_openat_0_0_body424 :: "stmt list" where
  "min_mysql_pwrite64_openat_0_0_body424 = [
    Syscall NR_pwrite64 [Reg 0, Write_buf, Imm 0x200, Imm 0x1e3c6e00], Count,
    Syscall NR_pwrite64 [Reg 0, Write_buf, Imm 0x200, Imm 0x1e3c7000], Count,
    Syscall NR_pwrite64 [Reg 0, Write_buf, Imm 0x200, Imm 0x1e3c7200], Count,
    Syscall NR_pwrite64 [Reg 0, Write_buf, Imm 0x200, Imm 0x1e3c7200], Count,
    Syscall NR_pwrite64 [Reg 0, Write_buf, Imm 0x200, Imm 0x1e3c7200], Count,
    Syscall NR_pwrite64 [Reg 0, Write_buf, Imm 0x200, Imm 0x1e3c7200], Count,
    Syscall NR_pwrite64 [Reg 0, Write_buf, Imm 0x200, Imm 0x1e3c7400], Count,
    Syscall NR_pwrite64 [Reg 0, Write_buf, Imm 0x200, Imm 0x1e3c7400], Count,
    Syscall NR_pwrite64 [Reg 0, Write_buf, Imm 0x200, Imm 0x1e3c7400], Count,
    Syscall NR_pwrite64 [Reg 0, Write_buf, Imm 0x200, Imm 0x1e3c7600], Count,
    Syscall NR_pwrite64 [Reg 0, Write_buf, Imm 0x200, Imm 0x1e3c7600], Count,
    Syscall NR_pwrite64 [Reg 0, Write_buf, Imm 0x200, Imm 0x1e3c7600], Count,
    Syscall NR_pwrite64 [Reg 0, Write_buf, Imm 0x200, Imm 0x1e3c7800], Count]"

definition min_mysql_pwrite64_openat_0_0_body425 :: "stmt list" where
  "min_mysql_pwrite64_openat_0_0_body425 = [
    Syscall NR_pwrite64 [Reg 0, Write_buf, Imm 0x200, Imm 0x1e3c7800], Count,
    Syscall NR_pwrite64 [Reg 0, Write_buf, Imm 0x600, Imm 0x1e3c7a00], Count,
    Syscall NR_pwrite64 [Reg 0, Write_buf, Imm 0x2000, Imm 0x1e3c8000], Count,
    Syscall NR_pwrite64 [Reg 0, Write_buf, Imm 0x200, Imm 0x1e3c8800], Count,
    Syscall NR_pwrite64 [Reg 0, Write_buf, Imm 0x400, Imm 0x1e3c8a00], Count,
    Syscall NR_pwrite64 [Reg 0, Write_buf, Imm 0x800, Imm 0x1e3c8e00], Count,
    Syscall NR_pwrite64 [Reg 0, Write_buf, Imm 0x600, Imm 0x1e3c9600], Count,
    Syscall NR_pwrite64 [Reg 0, Write_buf, Imm 0x400, Imm 0x1e3c9c00], Count,
    Syscall NR_pwrite64 [Reg 0, Write_buf, Imm 0x2000, Imm 0x1e3ca000], Count,
    Syscall NR_pwrite64 [Reg 0, Write_buf, Imm 0x400, Imm 0x1e3caa00], Count,
    Syscall NR_pwrite64 [Reg 0, Write_buf, Imm 0xa00, Imm 0x1e3cae00], Count,
    Syscall NR_pwrite64 [Reg 0, Write_buf, Imm 0x200, Imm 0x1e3cb800], Count,
    Syscall NR_pwrite64 [Reg 0, Write_buf, Imm 0x600, Imm 0x1e3cba00], Count]"

definition min_mysql_pwrite64_openat_0_0_body426 :: "stmt list" where
  "min_mysql_pwrite64_openat_0_0_body426 = [
    Syscall NR_pwrite64 [Reg 0, Write_buf, Imm 0x2000, Imm 0x1e3cc000], Count,
    Syscall NR_pwrite64 [Reg 0, Write_buf, Imm 0x400, Imm 0x1e3cc000], Count,
    Syscall NR_pwrite64 [Reg 0, Write_buf, Imm 0x200, Imm 0x1e3cc400], Count,
    Syscall NR_pwrite64 [Reg 0, Write_buf, Imm 0x200, Imm 0x1e3cc400], Count,
    Syscall NR_pwrite64 [Reg 0, Write_buf, Imm 0x200, Imm 0x1e3cc400], Count,
    Syscall NR_pwrite64 [Reg 0, Write_buf, Imm 0x200, Imm 0x1e3cc600], Count,
    Syscall NR_pwrite64 [Reg 0, Write_buf, Imm 0x200, Imm 0x1e3cc600], Count,
    Syscall NR_pwrite64 [Reg 0, Write_buf, Imm 0x200, Imm 0x1e3cc800], Count,
    Syscall NR_pwrite64 [Reg 0, Write_buf, Imm 0x400, Imm 0x1e3cc800], Count,
    Syscall NR_pwrite64 [Reg 0, Write_buf, Imm 0x200, Imm 0x1e3ccc00], Count,
    Syscall NR_pwrite64 [Reg 0, Write_buf, Imm 0x400, Imm 0x1e3ccc00], Count,
    Syscall NR_pwrite64 [Reg 0, Write_buf, Imm 0x200, Imm 0x1e3cd000], Count,
    Syscall NR_pwrite64 [Reg 0, Write_buf, Imm 0x200, Imm 0x1e3cd000], Count]"

definition min_mysql_pwrite64_openat_0_0_body427 :: "stmt list" where
  "min_mysql_pwrite64_openat_0_0_body427 = [
    Syscall NR_pwrite64 [Reg 0, Write_buf, Imm 0x200, Imm 0x1e3cd200], Count,
    Syscall NR_pwrite64 [Reg 0, Write_buf, Imm 0x200, Imm 0x1e3cd200], Count,
    Syscall NR_pwrite64 [Reg 0, Write_buf, Imm 0x200, Imm 0x1e3cd400], Count,
    Syscall NR_pwrite64 [Reg 0, Write_buf, Imm 0x200, Imm 0x1e3cd400], Count,
    Syscall NR_pwrite64 [Reg 0, Write_buf, Imm 0x200, Imm 0x1e3cd600], Count,
    Syscall NR_pwrite64 [Reg 0, Write_buf, Imm 0x200, Imm 0x1e3cd600], Count,
    Syscall NR_pwrite64 [Reg 0, Write_buf, Imm 0x200, Imm 0x1e3cd800], Count,
    Syscall NR_pwrite64 [Reg 0, Write_buf, Imm 0x200, Imm 0x1e3cd800], Count,
    Syscall NR_pwrite64 [Reg 0, Write_buf, Imm 0x200, Imm 0x1e3cd800], Count,
    Syscall NR_pwrite64 [Reg 0, Write_buf, Imm 0x200, Imm 0x1e3cda00], Count,
    Syscall NR_pwrite64 [Reg 0, Write_buf, Imm 0x200, Imm 0x1e3cda00], Count,
    Syscall NR_pwrite64 [Reg 0, Write_buf, Imm 0x200, Imm 0x1e3cdc00], Count,
    Syscall NR_pwrite64 [Reg 0, Write_buf, Imm 0x200, Imm 0x1e3cdc00], Count]"

definition min_mysql_pwrite64_openat_0_0_body428 :: "stmt list" where
  "min_mysql_pwrite64_openat_0_0_body428 = [
    Syscall NR_pwrite64 [Reg 0, Write_buf, Imm 0x200, Imm 0x1e3cde00], Count,
    Syscall NR_pwrite64 [Reg 0, Write_buf, Imm 0x2000, Imm 0x1e3ce000], Count,
    Syscall NR_pwrite64 [Reg 0, Write_buf, Imm 0x200, Imm 0x1e3ce000], Count,
    Syscall NR_pwrite64 [Reg 0, Write_buf, Imm 0x200, Imm 0x1e3ce200], Count,
    Syscall NR_pwrite64 [Reg 0, Write_buf, Imm 0x200, Imm 0x1e3ce400], Count,
    Syscall NR_pwrite64 [Reg 0, Write_buf, Imm 0x200, Imm 0x1e3ce400], Count,
    Syscall NR_pwrite64 [Reg 0, Write_buf, Imm 0x200, Imm 0x1e3ce600], Count,
    Syscall NR_pwrite64 [Reg 0, Write_buf, Imm 0x200, Imm 0x1e3ce800], Count,
    Syscall NR_pwrite64 [Reg 0, Write_buf, Imm 0x200, Imm 0x1e3cea00], Count,
    Syscall NR_pwrite64 [Reg 0, Write_buf, Imm 0x200, Imm 0x1e3cea00], Count,
    Syscall NR_pwrite64 [Reg 0, Write_buf, Imm 0x200, Imm 0x1e3cec00], Count,
    Syscall NR_pwrite64 [Reg 0, Write_buf, Imm 0x800, Imm 0x1e3cec00], Count,
    Syscall NR_pwrite64 [Reg 0, Write_buf, Imm 0x600, Imm 0x1e3cf400], Count]"

definition min_mysql_pwrite64_openat_0_0_body429 :: "stmt list" where
  "min_mysql_pwrite64_openat_0_0_body429 = [
    Syscall NR_pwrite64 [Reg 0, Write_buf, Imm 0x200, Imm 0x1e3cfa00], Count,
    Syscall NR_pwrite64 [Reg 0, Write_buf, Imm 0x200, Imm 0x1e3cfc00], Count,
    Syscall NR_pwrite64 [Reg 0, Write_buf, Imm 0x200, Imm 0x1e3cfc00], Count,
    Syscall NR_pwrite64 [Reg 0, Write_buf, Imm 0x200, Imm 0x1e3cfe00], Count,
    Syscall NR_pwrite64 [Reg 0, Write_buf, Imm 0x2000, Imm 0x1e3d0000], Count,
    Syscall NR_pwrite64 [Reg 0, Write_buf, Imm 0x600, Imm 0x1e3d0400], Count,
    Syscall NR_pwrite64 [Reg 0, Write_buf, Imm 0x200, Imm 0x1e3d0a00], Count,
    Syscall NR_pwrite64 [Reg 0, Write_buf, Imm 0x200, Imm 0x1e3d0c00], Count,
    Syscall NR_pwrite64 [Reg 0, Write_buf, Imm 0x200, Imm 0x1e3d0e00], Count,
    Syscall NR_pwrite64 [Reg 0, Write_buf, Imm 0x200, Imm 0x1e3d0e00], Count,
    Syscall NR_pwrite64 [Reg 0, Write_buf, Imm 0x200, Imm 0x1e3d1000], Count,
    Syscall NR_pwrite64 [Reg 0, Write_buf, Imm 0x200, Imm 0x1e3d1200], Count,
    Syscall NR_pwrite64 [Reg 0, Write_buf, Imm 0x200, Imm 0x1e3d1200], Count]"

definition min_mysql_pwrite64_openat_0_0_body430 :: "stmt list" where
  "min_mysql_pwrite64_openat_0_0_body430 = [
    Syscall NR_pwrite64 [Reg 0, Write_buf, Imm 0x200, Imm 0x1e3d1200], Count,
    Syscall NR_pwrite64 [Reg 0, Write_buf, Imm 0x200, Imm 0x1e3d1200], Count,
    Syscall NR_pwrite64 [Reg 0, Write_buf, Imm 0x200, Imm 0x1e3d1400], Count,
    Syscall NR_pwrite64 [Reg 0, Write_buf, Imm 0x800, Imm 0x1e3d1400], Count,
    Syscall NR_pwrite64 [Reg 0, Write_buf, Imm 0x200, Imm 0x1e3d1c00], Count,
    Syscall NR_pwrite64 [Reg 0, Write_buf, Imm 0x200, Imm 0x1e3d1c00], Count,
    Syscall NR_pwrite64 [Reg 0, Write_buf, Imm 0x200, Imm 0x1e3d1e00], Count,
    Syscall NR_pwrite64 [Reg 0, Write_buf, Imm 0x2000, Imm 0x1e3d2000], Count,
    Syscall NR_pwrite64 [Reg 0, Write_buf, Imm 0x200, Imm 0x1e3d2000], Count,
    Syscall NR_pwrite64 [Reg 0, Write_buf, Imm 0x200, Imm 0x1e3d2200], Count,
    Syscall NR_pwrite64 [Reg 0, Write_buf, Imm 0x200, Imm 0x1e3d2200], Count,
    Syscall NR_pwrite64 [Reg 0, Write_buf, Imm 0x600, Imm 0x1e3d2400], Count,
    Syscall NR_pwrite64 [Reg 0, Write_buf, Imm 0x200, Imm 0x1e3d2a00], Count]"

definition min_mysql_pwrite64_openat_0_0_body431 :: "stmt list" where
  "min_mysql_pwrite64_openat_0_0_body431 = [
    Syscall NR_pwrite64 [Reg 0, Write_buf, Imm 0x200, Imm 0x1e3d2a00], Count,
    Syscall NR_pwrite64 [Reg 0, Write_buf, Imm 0x200, Imm 0x1e3d2c00], Count,
    Syscall NR_pwrite64 [Reg 0, Write_buf, Imm 0x200, Imm 0x1e3d2e00], Count,
    Syscall NR_pwrite64 [Reg 0, Write_buf, Imm 0x200, Imm 0x1e3d3000], Count,
    Syscall NR_pwrite64 [Reg 0, Write_buf, Imm 0x400, Imm 0x1e3d3000], Count,
    Syscall NR_pwrite64 [Reg 0, Write_buf, Imm 0x200, Imm 0x1e3d3400], Count,
    Syscall NR_pwrite64 [Reg 0, Write_buf, Imm 0x200, Imm 0x1e3d3600], Count,
    Syscall NR_pwrite64 [Reg 0, Write_buf, Imm 0x200, Imm 0x1e3d3600], Count,
    Syscall NR_pwrite64 [Reg 0, Write_buf, Imm 0x400, Imm 0x1e3d3800], Count,
    Syscall NR_pwrite64 [Reg 0, Write_buf, Imm 0x400, Imm 0x1e3d3c00], Count,
    Syscall NR_pwrite64 [Reg 0, Write_buf, Imm 0x2000, Imm 0x1e3d4000], Count,
    Syscall NR_pwrite64 [Reg 0, Write_buf, Imm 0x600, Imm 0x1e3d4a00], Count,
    Syscall NR_pwrite64 [Reg 0, Write_buf, Imm 0x800, Imm 0x1e3d5000], Count]"

definition min_mysql_pwrite64_openat_0_0_body432 :: "stmt list" where
  "min_mysql_pwrite64_openat_0_0_body432 = [
    Syscall NR_pwrite64 [Reg 0, Write_buf, Imm 0x600, Imm 0x1e3d5800], Count,
    Syscall NR_pwrite64 [Reg 0, Write_buf, Imm 0x200, Imm 0x1e3d5e00], Count,
    Syscall NR_pwrite64 [Reg 0, Write_buf, Imm 0x2000, Imm 0x1e3d6000], Count,
    Syscall NR_pwrite64 [Reg 0, Write_buf, Imm 0x200, Imm 0x1e3d6800], Count,
    Syscall NR_pwrite64 [Reg 0, Write_buf, Imm 0x200, Imm 0x1e3d6a00], Count,
    Syscall NR_pwrite64 [Reg 0, Write_buf, Imm 0x200, Imm 0x1e3d6c00], Count,
    Syscall NR_pwrite64 [Reg 0, Write_buf, Imm 0x200, Imm 0x1e3d6c00], Count,
    Syscall NR_pwrite64 [Reg 0, Write_buf, Imm 0x200, Imm 0x1e3d6c00], Count,
    Syscall NR_pwrite64 [Reg 0, Write_buf, Imm 0x200, Imm 0x1e3d6c00], Count,
    Syscall NR_pwrite64 [Reg 0, Write_buf, Imm 0x200, Imm 0x1e3d6e00], Count,
    Syscall NR_pwrite64 [Reg 0, Write_buf, Imm 0x200, Imm 0x1e3d6e00], Count,
    Syscall NR_pwrite64 [Reg 0, Write_buf, Imm 0x200, Imm 0x1e3d7000], Count,
    Syscall NR_pwrite64 [Reg 0, Write_buf, Imm 0xa00, Imm 0x1e3d7000], Count]"

definition min_mysql_pwrite64_openat_0_0_body433 :: "stmt list" where
  "min_mysql_pwrite64_openat_0_0_body433 = [
    Syscall NR_pwrite64 [Reg 0, Write_buf, Imm 0x200, Imm 0x1e3d7a00], Count,
    Syscall NR_pwrite64 [Reg 0, Write_buf, Imm 0x200, Imm 0x1e3d7a00], Count,
    Syscall NR_pwrite64 [Reg 0, Write_buf, Imm 0x200, Imm 0x1e3d7a00], Count,
    Syscall NR_pwrite64 [Reg 0, Write_buf, Imm 0x200, Imm 0x1e3d7c00], Count,
    Syscall NR_pwrite64 [Reg 0, Write_buf, Imm 0x200, Imm 0x1e3d7c00], Count,
    Syscall NR_pwrite64 [Reg 0, Write_buf, Imm 0x200, Imm 0x1e3d7c00], Count,
    Syscall NR_pwrite64 [Reg 0, Write_buf, Imm 0x200, Imm 0x1e3d7e00], Count,
    Syscall NR_pwrite64 [Reg 0, Write_buf, Imm 0x200, Imm 0x1e3d7e00], Count,
    Syscall NR_pwrite64 [Reg 0, Write_buf, Imm 0x2000, Imm 0x1e3d8000], Count,
    Syscall NR_pwrite64 [Reg 0, Write_buf, Imm 0x800, Imm 0x1e3d8200], Count,
    Syscall NR_pwrite64 [Reg 0, Write_buf, Imm 0x200, Imm 0x1e3d8a00], Count,
    Syscall NR_pwrite64 [Reg 0, Write_buf, Imm 0x200, Imm 0x1e3d8c00], Count,
    Syscall NR_pwrite64 [Reg 0, Write_buf, Imm 0x400, Imm 0x1e3d8e00], Count]"

definition min_mysql_pwrite64_openat_0_0_body434 :: "stmt list" where
  "min_mysql_pwrite64_openat_0_0_body434 = [
    Syscall NR_pwrite64 [Reg 0, Write_buf, Imm 0x200, Imm 0x1e3d9200], Count,
    Syscall NR_pwrite64 [Reg 0, Write_buf, Imm 0x200, Imm 0x1e3d9400], Count,
    Syscall NR_pwrite64 [Reg 0, Write_buf, Imm 0x400, Imm 0x1e3d9600], Count,
    Syscall NR_pwrite64 [Reg 0, Write_buf, Imm 0x600, Imm 0x1e3d9a00], Count,
    Syscall NR_pwrite64 [Reg 0, Write_buf, Imm 0x2000, Imm 0x1e3da000], Count,
    Syscall NR_pwrite64 [Reg 0, Write_buf, Imm 0x400, Imm 0x1e3da600], Count,
    Syscall NR_pwrite64 [Reg 0, Write_buf, Imm 0x200, Imm 0x1e3daa00], Count,
    Syscall NR_pwrite64 [Reg 0, Write_buf, Imm 0x600, Imm 0x1e3dac00], Count,
    Syscall NR_pwrite64 [Reg 0, Write_buf, Imm 0x200, Imm 0x1e3db200], Count,
    Syscall NR_pwrite64 [Reg 0, Write_buf, Imm 0x400, Imm 0x1e3db400], Count,
    Syscall NR_pwrite64 [Reg 0, Write_buf, Imm 0x200, Imm 0x1e3db800], Count,
    Syscall NR_pwrite64 [Reg 0, Write_buf, Imm 0x200, Imm 0x1e3dba00], Count,
    Syscall NR_pwrite64 [Reg 0, Write_buf, Imm 0x200, Imm 0x1e3dba00], Count]"

definition min_mysql_pwrite64_openat_0_0_body435 :: "stmt list" where
  "min_mysql_pwrite64_openat_0_0_body435 = [
    Syscall NR_pwrite64 [Reg 0, Write_buf, Imm 0x200, Imm 0x1e3dbc00], Count,
    Syscall NR_pwrite64 [Reg 0, Write_buf, Imm 0x200, Imm 0x1e3dbe00], Count,
    Syscall NR_pwrite64 [Reg 0, Write_buf, Imm 0x200, Imm 0x1e3dbe00], Count,
    Syscall NR_pwrite64 [Reg 0, Write_buf, Imm 0x200, Imm 0x1e3dbe00], Count,
    Syscall NR_pwrite64 [Reg 0, Write_buf, Imm 0x200, Imm 0x1e3dbe00], Count,
    Syscall NR_pwrite64 [Reg 0, Write_buf, Imm 0x2000, Imm 0x1e3dc000], Count,
    Syscall NR_pwrite64 [Reg 0, Write_buf, Imm 0x200, Imm 0x1e3dc200], Count,
    Syscall NR_pwrite64 [Reg 0, Write_buf, Imm 0x400, Imm 0x1e3dc200], Count,
    Syscall NR_pwrite64 [Reg 0, Write_buf, Imm 0x200, Imm 0x1e3dc600], Count,
    Syscall NR_pwrite64 [Reg 0, Write_buf, Imm 0x400, Imm 0x1e3dc600], Count,
    Syscall NR_pwrite64 [Reg 0, Write_buf, Imm 0x600, Imm 0x1e3dca00], Count,
    Syscall NR_pwrite64 [Reg 0, Write_buf, Imm 0x600, Imm 0x1e3dd000], Count,
    Syscall NR_pwrite64 [Reg 0, Write_buf, Imm 0x800, Imm 0x1e3dd600], Count]"

definition min_mysql_pwrite64_openat_0_0_body436 :: "stmt list" where
  "min_mysql_pwrite64_openat_0_0_body436 = [
    Syscall NR_pwrite64 [Reg 0, Write_buf, Imm 0x200, Imm 0x1e3dde00], Count,
    Syscall NR_pwrite64 [Reg 0, Write_buf, Imm 0x2000, Imm 0x1e3de000], Count,
    Syscall NR_pwrite64 [Reg 0, Write_buf, Imm 0x600, Imm 0x1e3de200], Count,
    Syscall NR_pwrite64 [Reg 0, Write_buf, Imm 0x800, Imm 0x1e3de800], Count,
    Syscall NR_pwrite64 [Reg 0, Write_buf, Imm 0x400, Imm 0x1e3df000], Count,
    Syscall NR_pwrite64 [Reg 0, Write_buf, Imm 0x200, Imm 0x1e3df400], Count,
    Syscall NR_pwrite64 [Reg 0, Write_buf, Imm 0x200, Imm 0x1e3df600], Count,
    Syscall NR_pwrite64 [Reg 0, Write_buf, Imm 0x200, Imm 0x1e3df600], Count,
    Syscall NR_pwrite64 [Reg 0, Write_buf, Imm 0x200, Imm 0x1e3df800], Count,
    Syscall NR_pwrite64 [Reg 0, Write_buf, Imm 0x200, Imm 0x1e3df800], Count,
    Syscall NR_pwrite64 [Reg 0, Write_buf, Imm 0x800, Imm 0x1e3df800], Count,
    Syscall NR_pwrite64 [Reg 0, Write_buf, Imm 0x2000, Imm 0x1e3e0000], Count,
    Syscall NR_pwrite64 [Reg 0, Write_buf, Imm 0x800, Imm 0x1e3e0800], Count]"

definition min_mysql_pwrite64_openat_0_0_body437 :: "stmt list" where
  "min_mysql_pwrite64_openat_0_0_body437 = [
    Syscall NR_pwrite64 [Reg 0, Write_buf, Imm 0x200, Imm 0x1e3e1000], Count,
    Syscall NR_pwrite64 [Reg 0, Write_buf, Imm 0x400, Imm 0x1e3e1000], Count,
    Syscall NR_pwrite64 [Reg 0, Write_buf, Imm 0x400, Imm 0x1e3e1400], Count,
    Syscall NR_pwrite64 [Reg 0, Write_buf, Imm 0x200, Imm 0x1e3e1800], Count,
    Syscall NR_pwrite64 [Reg 0, Write_buf, Imm 0x200, Imm 0x1e3e1800], Count,
    Syscall NR_pwrite64 [Reg 0, Write_buf, Imm 0x200, Imm 0x1e3e1a00], Count,
    Syscall NR_pwrite64 [Reg 0, Write_buf, Imm 0x200, Imm 0x1e3e1a00], Count,
    Syscall NR_pwrite64 [Reg 0, Write_buf, Imm 0x200, Imm 0x1e3e1a00], Count,
    Syscall NR_pwrite64 [Reg 0, Write_buf, Imm 0x200, Imm 0x1e3e1a00], Count,
    Syscall NR_pwrite64 [Reg 0, Write_buf, Imm 0x200, Imm 0x1e3e1a00], Count,
    Syscall NR_pwrite64 [Reg 0, Write_buf, Imm 0x200, Imm 0x1e3e1a00], Count,
    Syscall NR_pwrite64 [Reg 0, Write_buf, Imm 0x200, Imm 0x1e3e1c00], Count,
    Syscall NR_pwrite64 [Reg 0, Write_buf, Imm 0x200, Imm 0x1e3e1c00], Count]"

definition min_mysql_pwrite64_openat_0_0_body438 :: "stmt list" where
  "min_mysql_pwrite64_openat_0_0_body438 = [
    Syscall NR_pwrite64 [Reg 0, Write_buf, Imm 0x200, Imm 0x1e3e1c00], Count,
    Syscall NR_pwrite64 [Reg 0, Write_buf, Imm 0x200, Imm 0x1e3e1c00], Count,
    Syscall NR_pwrite64 [Reg 0, Write_buf, Imm 0x400, Imm 0x1e3e1c00], Count,
    Syscall NR_pwrite64 [Reg 0, Write_buf, Imm 0x2000, Imm 0x1e3e2000], Count,
    Syscall NR_pwrite64 [Reg 0, Write_buf, Imm 0xa00, Imm 0x1e3e2800], Count,
    Syscall NR_pwrite64 [Reg 0, Write_buf, Imm 0xe00, Imm 0x1e3e3200], Count,
    Syscall NR_pwrite64 [Reg 0, Write_buf, Imm 0x2000, Imm 0x1e3e4000], Count,
    Syscall NR_pwrite64 [Reg 0, Write_buf, Imm 0xc00, Imm 0x1e3e4e00], Count,
    Syscall NR_pwrite64 [Reg 0, Write_buf, Imm 0x600, Imm 0x1e3e5a00], Count,
    Syscall NR_pwrite64 [Reg 0, Write_buf, Imm 0x2000, Imm 0x1e3e6000], Count,
    Syscall NR_pwrite64 [Reg 0, Write_buf, Imm 0x400, Imm 0x1e3e6800], Count,
    Syscall NR_pwrite64 [Reg 0, Write_buf, Imm 0x200, Imm 0x1e3e6c00], Count,
    Syscall NR_pwrite64 [Reg 0, Write_buf, Imm 0x200, Imm 0x1e3e6e00], Count]"

definition min_mysql_pwrite64_openat_0_0_body439 :: "stmt list" where
  "min_mysql_pwrite64_openat_0_0_body439 = [
    Syscall NR_pwrite64 [Reg 0, Write_buf, Imm 0x200, Imm 0x1e3e6e00], Count,
    Syscall NR_pwrite64 [Reg 0, Write_buf, Imm 0x200, Imm 0x1e3e6e00], Count,
    Syscall NR_pwrite64 [Reg 0, Write_buf, Imm 0x200, Imm 0x1e3e7000], Count,
    Syscall NR_pwrite64 [Reg 0, Write_buf, Imm 0x200, Imm 0x1e3e7000], Count,
    Syscall NR_pwrite64 [Reg 0, Write_buf, Imm 0x200, Imm 0x1e3e7000], Count,
    Syscall NR_pwrite64 [Reg 0, Write_buf, Imm 0x200, Imm 0x1e3e7200], Count,
    Syscall NR_pwrite64 [Reg 0, Write_buf, Imm 0x200, Imm 0x1e3e7200], Count,
    Syscall NR_pwrite64 [Reg 0, Write_buf, Imm 0x200, Imm 0x1e3e7200], Count,
    Syscall NR_pwrite64 [Reg 0, Write_buf, Imm 0x600, Imm 0x1e3e7200], Count,
    Syscall NR_pwrite64 [Reg 0, Write_buf, Imm 0x400, Imm 0x1e3e7800], Count,
    Syscall NR_pwrite64 [Reg 0, Write_buf, Imm 0x200, Imm 0x1e3e7c00], Count,
    Syscall NR_pwrite64 [Reg 0, Write_buf, Imm 0x200, Imm 0x1e3e7c00], Count,
    Syscall NR_pwrite64 [Reg 0, Write_buf, Imm 0x200, Imm 0x1e3e7c00], Count]"

definition min_mysql_pwrite64_openat_0_0_body440 :: "stmt list" where
  "min_mysql_pwrite64_openat_0_0_body440 = [
    Syscall NR_pwrite64 [Reg 0, Write_buf, Imm 0x200, Imm 0x1e3e7c00], Count,
    Syscall NR_pwrite64 [Reg 0, Write_buf, Imm 0x200, Imm 0x1e3e7e00], Count,
    Syscall NR_pwrite64 [Reg 0, Write_buf, Imm 0x2000, Imm 0x1e3e8000], Count,
    Syscall NR_pwrite64 [Reg 0, Write_buf, Imm 0x400, Imm 0x1e3e8000], Count,
    Syscall NR_pwrite64 [Reg 0, Write_buf, Imm 0x200, Imm 0x1e3e8400], Count,
    Syscall NR_pwrite64 [Reg 0, Write_buf, Imm 0x400, Imm 0x1e3e8600], Count,
    Syscall NR_pwrite64 [Reg 0, Write_buf, Imm 0x200, Imm 0x1e3e8a00], Count,
    Syscall NR_pwrite64 [Reg 0, Write_buf, Imm 0x200, Imm 0x1e3e8c00], Count,
    Syscall NR_pwrite64 [Reg 0, Write_buf, Imm 0x200, Imm 0x1e3e8c00], Count,
    Syscall NR_pwrite64 [Reg 0, Write_buf, Imm 0x400, Imm 0x1e3e8e00], Count,
    Syscall NR_pwrite64 [Reg 0, Write_buf, Imm 0x200, Imm 0x1e3e9200], Count,
    Syscall NR_pwrite64 [Reg 0, Write_buf, Imm 0x400, Imm 0x1e3e9200], Count,
    Syscall NR_pwrite64 [Reg 0, Write_buf, Imm 0x200, Imm 0x1e3e9600], Count]"

definition min_mysql_pwrite64_openat_0_0_body441 :: "stmt list" where
  "min_mysql_pwrite64_openat_0_0_body441 = [
    Syscall NR_pwrite64 [Reg 0, Write_buf, Imm 0x200, Imm 0x1e3e9600], Count,
    Syscall NR_pwrite64 [Reg 0, Write_buf, Imm 0x200, Imm 0x1e3e9600], Count,
    Syscall NR_pwrite64 [Reg 0, Write_buf, Imm 0x200, Imm 0x1e3e9800], Count,
    Syscall NR_pwrite64 [Reg 0, Write_buf, Imm 0x200, Imm 0x1e3e9800], Count,
    Syscall NR_pwrite64 [Reg 0, Write_buf, Imm 0x200, Imm 0x1e3e9a00], Count,
    Syscall NR_pwrite64 [Reg 0, Write_buf, Imm 0x200, Imm 0x1e3e9c00], Count,
    Syscall NR_pwrite64 [Reg 0, Write_buf, Imm 0x200, Imm 0x1e3e9c00], Count,
    Syscall NR_pwrite64 [Reg 0, Write_buf, Imm 0x200, Imm 0x1e3e9c00], Count,
    Syscall NR_pwrite64 [Reg 0, Write_buf, Imm 0x200, Imm 0x1e3e9c00], Count,
    Syscall NR_pwrite64 [Reg 0, Write_buf, Imm 0x200, Imm 0x1e3e9e00], Count,
    Syscall NR_pwrite64 [Reg 0, Write_buf, Imm 0x200, Imm 0x1e3e9e00], Count,
    Syscall NR_pwrite64 [Reg 0, Write_buf, Imm 0x2000, Imm 0x1e3ea000], Count,
    Syscall NR_pwrite64 [Reg 0, Write_buf, Imm 0x200, Imm 0x1e3ea200], Count]"

definition min_mysql_pwrite64_openat_0_0_body442 :: "stmt list" where
  "min_mysql_pwrite64_openat_0_0_body442 = [
    Syscall NR_pwrite64 [Reg 0, Write_buf, Imm 0x200, Imm 0x1e3ea400], Count,
    Syscall NR_pwrite64 [Reg 0, Write_buf, Imm 0x200, Imm 0x1e3ea600], Count,
    Syscall NR_pwrite64 [Reg 0, Write_buf, Imm 0x200, Imm 0x1e3ea600], Count,
    Syscall NR_pwrite64 [Reg 0, Write_buf, Imm 0x400, Imm 0x1e3ea800], Count,
    Syscall NR_pwrite64 [Reg 0, Write_buf, Imm 0x200, Imm 0x1e3eac00], Count,
    Syscall NR_pwrite64 [Reg 0, Write_buf, Imm 0x200, Imm 0x1e3eae00], Count,
    Syscall NR_pwrite64 [Reg 0, Write_buf, Imm 0x200, Imm 0x1e3eae00], Count,
    Syscall NR_pwrite64 [Reg 0, Write_buf, Imm 0x200, Imm 0x1e3eb000], Count,
    Syscall NR_pwrite64 [Reg 0, Write_buf, Imm 0x200, Imm 0x1e3eb200], Count,
    Syscall NR_pwrite64 [Reg 0, Write_buf, Imm 0x400, Imm 0x1e3eb200], Count,
    Syscall NR_pwrite64 [Reg 0, Write_buf, Imm 0x200, Imm 0x1e3eb600], Count,
    Syscall NR_pwrite64 [Reg 0, Write_buf, Imm 0x200, Imm 0x1e3eb800], Count,
    Syscall NR_pwrite64 [Reg 0, Write_buf, Imm 0x200, Imm 0x1e3eb800], Count]"

definition min_mysql_pwrite64_openat_0_0_body443 :: "stmt list" where
  "min_mysql_pwrite64_openat_0_0_body443 = [
    Syscall NR_pwrite64 [Reg 0, Write_buf, Imm 0x200, Imm 0x1e3eba00], Count,
    Syscall NR_pwrite64 [Reg 0, Write_buf, Imm 0x200, Imm 0x1e3eba00], Count,
    Syscall NR_pwrite64 [Reg 0, Write_buf, Imm 0x400, Imm 0x1e3eba00], Count,
    Syscall NR_pwrite64 [Reg 0, Write_buf, Imm 0x200, Imm 0x1e3ebe00], Count,
    Syscall NR_pwrite64 [Reg 0, Write_buf, Imm 0x200, Imm 0x1e3ebe00], Count,
    Syscall NR_pwrite64 [Reg 0, Write_buf, Imm 0x200, Imm 0x1e3ebe00], Count,
    Syscall NR_pwrite64 [Reg 0, Write_buf, Imm 0x2000, Imm 0x1e3ec000], Count,
    Syscall NR_pwrite64 [Reg 0, Write_buf, Imm 0x200, Imm 0x1e3ec000], Count,
    Syscall NR_pwrite64 [Reg 0, Write_buf, Imm 0x200, Imm 0x1e3ec200], Count,
    Syscall NR_pwrite64 [Reg 0, Write_buf, Imm 0x200, Imm 0x1e3ec200], Count,
    Syscall NR_pwrite64 [Reg 0, Write_buf, Imm 0x200, Imm 0x1e3ec200], Count,
    Syscall NR_pwrite64 [Reg 0, Write_buf, Imm 0x400, Imm 0x1e3ec200], Count,
    Syscall NR_pwrite64 [Reg 0, Write_buf, Imm 0x800, Imm 0x1e3ec600], Count]"

definition min_mysql_pwrite64_openat_0_0_body444 :: "stmt list" where
  "min_mysql_pwrite64_openat_0_0_body444 = [
    Syscall NR_pwrite64 [Reg 0, Write_buf, Imm 0x200, Imm 0x1e3ece00], Count,
    Syscall NR_pwrite64 [Reg 0, Write_buf, Imm 0x200, Imm 0x1e3ed000], Count,
    Syscall NR_pwrite64 [Reg 0, Write_buf, Imm 0x400, Imm 0x1e3ed200], Count,
    Syscall NR_pwrite64 [Reg 0, Write_buf, Imm 0x200, Imm 0x1e3ed600], Count,
    Syscall NR_pwrite64 [Reg 0, Write_buf, Imm 0x800, Imm 0x1e3ed800], Count,
    Syscall NR_pwrite64 [Reg 0, Write_buf, Imm 0x2000, Imm 0x1e3ee000], Count,
    Syscall NR_pwrite64 [Reg 0, Write_buf, Imm 0x800, Imm 0x1e3ee800], Count,
    Syscall NR_pwrite64 [Reg 0, Write_buf, Imm 0x800, Imm 0x1e3ef000], Count,
    Syscall NR_pwrite64 [Reg 0, Write_buf, Imm 0x400, Imm 0x1e3ef800], Count,
    Syscall NR_pwrite64 [Reg 0, Write_buf, Imm 0x400, Imm 0x1e3efc00], Count,
    Syscall NR_pwrite64 [Reg 0, Write_buf, Imm 0x2000, Imm 0x1e3f0000], Count,
    Syscall NR_pwrite64 [Reg 0, Write_buf, Imm 0x200, Imm 0x1e3f0600], Count,
    Syscall NR_pwrite64 [Reg 0, Write_buf, Imm 0x200, Imm 0x1e3f0800], Count]"

definition min_mysql_pwrite64_openat_0_0_body445 :: "stmt list" where
  "min_mysql_pwrite64_openat_0_0_body445 = [
    Syscall NR_pwrite64 [Reg 0, Write_buf, Imm 0x200, Imm 0x1e3f0800], Count,
    Syscall NR_pwrite64 [Reg 0, Write_buf, Imm 0x200, Imm 0x1e3f0a00], Count,
    Syscall NR_pwrite64 [Reg 0, Write_buf, Imm 0x200, Imm 0x1e3f0a00], Count,
    Syscall NR_pwrite64 [Reg 0, Write_buf, Imm 0x200, Imm 0x1e3f0c00], Count,
    Syscall NR_pwrite64 [Reg 0, Write_buf, Imm 0x200, Imm 0x1e3f0c00], Count,
    Syscall NR_pwrite64 [Reg 0, Write_buf, Imm 0x400, Imm 0x1e3f0e00], Count,
    Syscall NR_pwrite64 [Reg 0, Write_buf, Imm 0x200, Imm 0x1e3f1200], Count,
    Syscall NR_pwrite64 [Reg 0, Write_buf, Imm 0x200, Imm 0x1e3f1400], Count,
    Syscall NR_pwrite64 [Reg 0, Write_buf, Imm 0x200, Imm 0x1e3f1400], Count,
    Syscall NR_pwrite64 [Reg 0, Write_buf, Imm 0x200, Imm 0x1e3f1600], Count,
    Syscall NR_pwrite64 [Reg 0, Write_buf, Imm 0x200, Imm 0x1e3f1600], Count,
    Syscall NR_pwrite64 [Reg 0, Write_buf, Imm 0x200, Imm 0x1e3f1600], Count,
    Syscall NR_pwrite64 [Reg 0, Write_buf, Imm 0x200, Imm 0x1e3f1800], Count]"

definition min_mysql_pwrite64_openat_0_0_body446 :: "stmt list" where
  "min_mysql_pwrite64_openat_0_0_body446 = [
    Syscall NR_pwrite64 [Reg 0, Write_buf, Imm 0x200, Imm 0x1e3f1800], Count,
    Syscall NR_pwrite64 [Reg 0, Write_buf, Imm 0x200, Imm 0x1e3f1a00], Count,
    Syscall NR_pwrite64 [Reg 0, Write_buf, Imm 0x200, Imm 0x1e3f1a00], Count,
    Syscall NR_pwrite64 [Reg 0, Write_buf, Imm 0x200, Imm 0x1e3f1a00], Count,
    Syscall NR_pwrite64 [Reg 0, Write_buf, Imm 0x600, Imm 0x1e3f1a00], Count,
    Syscall NR_pwrite64 [Reg 0, Write_buf, Imm 0x2000, Imm 0x1e3f2000], Count,
    Syscall NR_pwrite64 [Reg 0, Write_buf, Imm 0x1000, Imm 0x1e3f2000], Count,
    Syscall NR_pwrite64 [Reg 0, Write_buf, Imm 0x200, Imm 0x1e3f3000], Count,
    Syscall NR_pwrite64 [Reg 0, Write_buf, Imm 0x200, Imm 0x1e3f3200], Count,
    Syscall NR_pwrite64 [Reg 0, Write_buf, Imm 0x400, Imm 0x1e3f3200], Count,
    Syscall NR_pwrite64 [Reg 0, Write_buf, Imm 0xa00, Imm 0x1e3f3600], Count,
    Syscall NR_pwrite64 [Reg 0, Write_buf, Imm 0x2000, Imm 0x1e3f4000], Count,
    Syscall NR_pwrite64 [Reg 0, Write_buf, Imm 0x200, Imm 0x1e3f4400], Count]"

definition min_mysql_pwrite64_openat_0_0_body447 :: "stmt list" where
  "min_mysql_pwrite64_openat_0_0_body447 = [
    Syscall NR_pwrite64 [Reg 0, Write_buf, Imm 0x200, Imm 0x1e3f4600], Count,
    Syscall NR_pwrite64 [Reg 0, Write_buf, Imm 0x400, Imm 0x1e3f4600], Count,
    Syscall NR_pwrite64 [Reg 0, Write_buf, Imm 0x200, Imm 0x1e3f4a00], Count,
    Syscall NR_pwrite64 [Reg 0, Write_buf, Imm 0x200, Imm 0x1e3f4a00], Count,
    Syscall NR_pwrite64 [Reg 0, Write_buf, Imm 0x200, Imm 0x1e3f4a00], Count,
    Syscall NR_pwrite64 [Reg 0, Write_buf, Imm 0xc00, Imm 0x1e3f4a00], Count,
    Syscall NR_pwrite64 [Reg 0, Write_buf, Imm 0x400, Imm 0x1e3f5600], Count,
    Syscall NR_pwrite64 [Reg 0, Write_buf, Imm 0x200, Imm 0x1e3f5a00], Count,
    Syscall NR_pwrite64 [Reg 0, Write_buf, Imm 0x200, Imm 0x1e3f5c00], Count,
    Syscall NR_pwrite64 [Reg 0, Write_buf, Imm 0x200, Imm 0x1e3f5e00], Count,
    Syscall NR_pwrite64 [Reg 0, Write_buf, Imm 0x2000, Imm 0x1e3f6000], Count,
    Syscall NR_pwrite64 [Reg 0, Write_buf, Imm 0x400, Imm 0x1e3f6200], Count,
    Syscall NR_pwrite64 [Reg 0, Write_buf, Imm 0x200, Imm 0x1e3f6600], Count]"

definition min_mysql_pwrite64_openat_0_0_body448 :: "stmt list" where
  "min_mysql_pwrite64_openat_0_0_body448 = [
    Syscall NR_pwrite64 [Reg 0, Write_buf, Imm 0x400, Imm 0x1e3f6800], Count,
    Syscall NR_pwrite64 [Reg 0, Write_buf, Imm 0xa00, Imm 0x1e3f6c00], Count,
    Syscall NR_pwrite64 [Reg 0, Write_buf, Imm 0xa00, Imm 0x1e3f7600], Count,
    Syscall NR_pwrite64 [Reg 0, Write_buf, Imm 0x2000, Imm 0x1e3f8000], Count,
    Syscall NR_pwrite64 [Reg 0, Write_buf, Imm 0x200, Imm 0x1e3f8800], Count,
    Syscall NR_pwrite64 [Reg 0, Write_buf, Imm 0x200, Imm 0x1e3f8a00], Count,
    Syscall NR_pwrite64 [Reg 0, Write_buf, Imm 0x200, Imm 0x1e3f8a00], Count,
    Syscall NR_pwrite64 [Reg 0, Write_buf, Imm 0x200, Imm 0x1e3f8c00], Count,
    Syscall NR_pwrite64 [Reg 0, Write_buf, Imm 0x200, Imm 0x1e3f8e00], Count,
    Syscall NR_pwrite64 [Reg 0, Write_buf, Imm 0x200, Imm 0x1e3f8e00], Count,
    Syscall NR_pwrite64 [Reg 0, Write_buf, Imm 0x200, Imm 0x1e3f8e00], Count,
    Syscall NR_pwrite64 [Reg 0, Write_buf, Imm 0x200, Imm 0x1e3f8e00], Count,
    Syscall NR_pwrite64 [Reg 0, Write_buf, Imm 0x200, Imm 0x1e3f9000], Count]"

definition min_mysql_pwrite64_openat_0_0_body449 :: "stmt list" where
  "min_mysql_pwrite64_openat_0_0_body449 = [
    Syscall NR_pwrite64 [Reg 0, Write_buf, Imm 0x200, Imm 0x1e3f9000], Count,
    Syscall NR_pwrite64 [Reg 0, Write_buf, Imm 0x200, Imm 0x1e3f9200], Count,
    Syscall NR_pwrite64 [Reg 0, Write_buf, Imm 0x200, Imm 0x1e3f9200], Count,
    Syscall NR_pwrite64 [Reg 0, Write_buf, Imm 0x200, Imm 0x1e3f9200], Count,
    Syscall NR_pwrite64 [Reg 0, Write_buf, Imm 0x200, Imm 0x1e3f9400], Count,
    Syscall NR_pwrite64 [Reg 0, Write_buf, Imm 0x200, Imm 0x1e3f9400], Count,
    Syscall NR_pwrite64 [Reg 0, Write_buf, Imm 0x200, Imm 0x1e3f9600], Count,
    Syscall NR_pwrite64 [Reg 0, Write_buf, Imm 0x400, Imm 0x1e3f9600], Count,
    Syscall NR_pwrite64 [Reg 0, Write_buf, Imm 0x200, Imm 0x1e3f9a00], Count,
    Syscall NR_pwrite64 [Reg 0, Write_buf, Imm 0x200, Imm 0x1e3f9a00], Count,
    Syscall NR_pwrite64 [Reg 0, Write_buf, Imm 0x200, Imm 0x1e3f9a00], Count,
    Syscall NR_pwrite64 [Reg 0, Write_buf, Imm 0x200, Imm 0x1e3f9a00], Count,
    Syscall NR_pwrite64 [Reg 0, Write_buf, Imm 0x200, Imm 0x1e3f9c00], Count]"

definition min_mysql_pwrite64_openat_0_0_body450 :: "stmt list" where
  "min_mysql_pwrite64_openat_0_0_body450 = [
    Syscall NR_pwrite64 [Reg 0, Write_buf, Imm 0x200, Imm 0x1e3f9c00], Count,
    Syscall NR_pwrite64 [Reg 0, Write_buf, Imm 0x200, Imm 0x1e3f9c00], Count,
    Syscall NR_pwrite64 [Reg 0, Write_buf, Imm 0x200, Imm 0x1e3f9e00], Count,
    Syscall NR_pwrite64 [Reg 0, Write_buf, Imm 0x200, Imm 0x1e3f9e00], Count,
    Syscall NR_pwrite64 [Reg 0, Write_buf, Imm 0x2000, Imm 0x1e3fa000], Count,
    Syscall NR_pwrite64 [Reg 0, Write_buf, Imm 0x800, Imm 0x1e3fa200], Count,
    Syscall NR_pwrite64 [Reg 0, Write_buf, Imm 0xe00, Imm 0x1e3faa00], Count,
    Syscall NR_pwrite64 [Reg 0, Write_buf, Imm 0x800, Imm 0x1e3fb800], Count,
    Syscall NR_pwrite64 [Reg 0, Write_buf, Imm 0x2000, Imm 0x1e3fc000], Count,
    Syscall NR_pwrite64 [Reg 0, Write_buf, Imm 0x800, Imm 0x1e3fd800], Count,
    Syscall NR_pwrite64 [Reg 0, Write_buf, Imm 0x2000, Imm 0x1e3fe000], Count,
    Syscall NR_pwrite64 [Reg 0, Write_buf, Imm 0x400, Imm 0x1e3fe600], Count,
    Syscall NR_pwrite64 [Reg 0, Write_buf, Imm 0x200, Imm 0x1e3fea00], Count]"

definition min_mysql_pwrite64_openat_0_0_body451 :: "stmt list" where
  "min_mysql_pwrite64_openat_0_0_body451 = [
    Syscall NR_pwrite64 [Reg 0, Write_buf, Imm 0x200, Imm 0x1e3fea00], Count,
    Syscall NR_pwrite64 [Reg 0, Write_buf, Imm 0x200, Imm 0x1e3fec00], Count,
    Syscall NR_pwrite64 [Reg 0, Write_buf, Imm 0x200, Imm 0x1e3fec00], Count,
    Syscall NR_pwrite64 [Reg 0, Write_buf, Imm 0x200, Imm 0x1e3fee00], Count,
    Syscall NR_pwrite64 [Reg 0, Write_buf, Imm 0x200, Imm 0x1e3fee00], Count,
    Syscall NR_pwrite64 [Reg 0, Write_buf, Imm 0x200, Imm 0x1e3fee00], Count,
    Syscall NR_pwrite64 [Reg 0, Write_buf, Imm 0x200, Imm 0x1e3ff000], Count,
    Syscall NR_pwrite64 [Reg 0, Write_buf, Imm 0x600, Imm 0x1e3ff000], Count,
    Syscall NR_pwrite64 [Reg 0, Write_buf, Imm 0x200, Imm 0x1e3ff600], Count,
    Syscall NR_pwrite64 [Reg 0, Write_buf, Imm 0x400, Imm 0x1e3ff800], Count,
    Syscall NR_pwrite64 [Reg 0, Write_buf, Imm 0x200, Imm 0x1e3ffc00], Count,
    Syscall NR_pwrite64 [Reg 0, Write_buf, Imm 0x200, Imm 0x1e3ffe00], Count,
    Syscall NR_pwrite64 [Reg 0, Write_buf, Imm 0x2000, Imm 0x1e400000], Count]"

definition min_mysql_pwrite64_openat_0_0_body452 :: "stmt list" where
  "min_mysql_pwrite64_openat_0_0_body452 = [
    Syscall NR_pwrite64 [Reg 0, Write_buf, Imm 0x200, Imm 0x1e400a00], Count,
    Syscall NR_pwrite64 [Reg 0, Write_buf, Imm 0x600, Imm 0x1e400a00], Count,
    Syscall NR_pwrite64 [Reg 0, Write_buf, Imm 0x600, Imm 0x1e401000], Count,
    Syscall NR_pwrite64 [Reg 0, Write_buf, Imm 0xa00, Imm 0x1e401600], Count,
    Syscall NR_pwrite64 [Reg 0, Write_buf, Imm 0x2000, Imm 0x1e402000], Count,
    Syscall NR_pwrite64 [Reg 0, Write_buf, Imm 0xc00, Imm 0x1e403400], Count,
    Syscall NR_pwrite64 [Reg 0, Write_buf, Imm 0x2000, Imm 0x1e404000], Count,
    Syscall NR_pwrite64 [Reg 0, Write_buf, Imm 0xe00, Imm 0x1e405000], Count,
    Syscall NR_pwrite64 [Reg 0, Write_buf, Imm 0x200, Imm 0x1e405e00], Count,
    Syscall NR_pwrite64 [Reg 0, Write_buf, Imm 0x2000, Imm 0x1e406000], Count,
    Syscall NR_pwrite64 [Reg 0, Write_buf, Imm 0x600, Imm 0x1e407000], Count,
    Syscall NR_pwrite64 [Reg 0, Write_buf, Imm 0x200, Imm 0x1e407600], Count,
    Syscall NR_pwrite64 [Reg 0, Write_buf, Imm 0x200, Imm 0x1e407600], Count]"

definition min_mysql_pwrite64_openat_0_0_body453 :: "stmt list" where
  "min_mysql_pwrite64_openat_0_0_body453 = [
    Syscall NR_pwrite64 [Reg 0, Write_buf, Imm 0x200, Imm 0x1e407800], Count,
    Syscall NR_pwrite64 [Reg 0, Write_buf, Imm 0x200, Imm 0x1e407800], Count,
    Syscall NR_pwrite64 [Reg 0, Write_buf, Imm 0x200, Imm 0x1e407a00], Count,
    Syscall NR_pwrite64 [Reg 0, Write_buf, Imm 0x200, Imm 0x1e407c00], Count,
    Syscall NR_pwrite64 [Reg 0, Write_buf, Imm 0x200, Imm 0x1e407c00], Count,
    Syscall NR_pwrite64 [Reg 0, Write_buf, Imm 0x200, Imm 0x1e407c00], Count,
    Syscall NR_pwrite64 [Reg 0, Write_buf, Imm 0x400, Imm 0x1e407c00], Count,
    Syscall NR_pwrite64 [Reg 0, Write_buf, Imm 0x2000, Imm 0x1e408000], Count,
    Syscall NR_pwrite64 [Reg 0, Write_buf, Imm 0x200, Imm 0x1e408000], Count,
    Syscall NR_pwrite64 [Reg 0, Write_buf, Imm 0x200, Imm 0x1e408200], Count,
    Syscall NR_pwrite64 [Reg 0, Write_buf, Imm 0x400, Imm 0x1e408200], Count,
    Syscall NR_pwrite64 [Reg 0, Write_buf, Imm 0x800, Imm 0x1e408600], Count,
    Syscall NR_pwrite64 [Reg 0, Write_buf, Imm 0x200, Imm 0x1e408e00], Count]"

definition min_mysql_pwrite64_openat_0_0_body454 :: "stmt list" where
  "min_mysql_pwrite64_openat_0_0_body454 = [
    Syscall NR_pwrite64 [Reg 0, Write_buf, Imm 0x200, Imm 0x1e408e00], Count,
    Syscall NR_pwrite64 [Reg 0, Write_buf, Imm 0x200, Imm 0x1e408e00], Count,
    Syscall NR_pwrite64 [Reg 0, Write_buf, Imm 0x200, Imm 0x1e409000], Count,
    Syscall NR_pwrite64 [Reg 0, Write_buf, Imm 0x200, Imm 0x1e409200], Count,
    Syscall NR_pwrite64 [Reg 0, Write_buf, Imm 0x200, Imm 0x1e409200], Count,
    Syscall NR_pwrite64 [Reg 0, Write_buf, Imm 0x400, Imm 0x1e409200], Count,
    Syscall NR_pwrite64 [Reg 0, Write_buf, Imm 0x200, Imm 0x1e409600], Count,
    Syscall NR_pwrite64 [Reg 0, Write_buf, Imm 0x200, Imm 0x1e409800], Count,
    Syscall NR_pwrite64 [Reg 0, Write_buf, Imm 0x200, Imm 0x1e409800], Count,
    Syscall NR_pwrite64 [Reg 0, Write_buf, Imm 0x200, Imm 0x1e409800], Count,
    Syscall NR_pwrite64 [Reg 0, Write_buf, Imm 0x200, Imm 0x1e409800], Count,
    Syscall NR_pwrite64 [Reg 0, Write_buf, Imm 0x200, Imm 0x1e409a00], Count,
    Syscall NR_pwrite64 [Reg 0, Write_buf, Imm 0x200, Imm 0x1e409c00], Count]"

definition min_mysql_pwrite64_openat_0_0_body455 :: "stmt list" where
  "min_mysql_pwrite64_openat_0_0_body455 = [
    Syscall NR_pwrite64 [Reg 0, Write_buf, Imm 0x200, Imm 0x1e409c00], Count,
    Syscall NR_pwrite64 [Reg 0, Write_buf, Imm 0x200, Imm 0x1e409c00], Count,
    Syscall NR_pwrite64 [Reg 0, Write_buf, Imm 0x200, Imm 0x1e409e00], Count,
    Syscall NR_pwrite64 [Reg 0, Write_buf, Imm 0x200, Imm 0x1e409e00], Count,
    Syscall NR_pwrite64 [Reg 0, Write_buf, Imm 0x2000, Imm 0x1e40a000], Count,
    Syscall NR_pwrite64 [Reg 0, Write_buf, Imm 0x400, Imm 0x1e40a000], Count,
    Syscall NR_pwrite64 [Reg 0, Write_buf, Imm 0x200, Imm 0x1e40a400], Count,
    Syscall NR_pwrite64 [Reg 0, Write_buf, Imm 0x200, Imm 0x1e40a400], Count,
    Syscall NR_pwrite64 [Reg 0, Write_buf, Imm 0x200, Imm 0x1e40a600], Count,
    Syscall NR_pwrite64 [Reg 0, Write_buf, Imm 0x200, Imm 0x1e40a600], Count,
    Syscall NR_pwrite64 [Reg 0, Write_buf, Imm 0x200, Imm 0x1e40a800], Count,
    Syscall NR_pwrite64 [Reg 0, Write_buf, Imm 0x200, Imm 0x1e40aa00], Count,
    Syscall NR_pwrite64 [Reg 0, Write_buf, Imm 0x200, Imm 0x1e40aa00], Count]"

definition min_mysql_pwrite64_openat_0_0_body456 :: "stmt list" where
  "min_mysql_pwrite64_openat_0_0_body456 = [
    Syscall NR_pwrite64 [Reg 0, Write_buf, Imm 0x200, Imm 0x1e40ac00], Count,
    Syscall NR_pwrite64 [Reg 0, Write_buf, Imm 0x200, Imm 0x1e40ae00], Count,
    Syscall NR_pwrite64 [Reg 0, Write_buf, Imm 0x200, Imm 0x1e40ae00], Count,
    Syscall NR_pwrite64 [Reg 0, Write_buf, Imm 0x200, Imm 0x1e40ae00], Count,
    Syscall NR_pwrite64 [Reg 0, Write_buf, Imm 0x200, Imm 0x1e40b000], Count,
    Syscall NR_pwrite64 [Reg 0, Write_buf, Imm 0x600, Imm 0x1e40b000], Count,
    Syscall NR_pwrite64 [Reg 0, Write_buf, Imm 0x800, Imm 0x1e40b600], Count,
    Syscall NR_pwrite64 [Reg 0, Write_buf, Imm 0x200, Imm 0x1e40be00], Count,
    Syscall NR_pwrite64 [Reg 0, Write_buf, Imm 0x2000, Imm 0x1e40c000], Count,
    Syscall NR_pwrite64 [Reg 0, Write_buf, Imm 0x400, Imm 0x1e40c600], Count,
    Syscall NR_pwrite64 [Reg 0, Write_buf, Imm 0x1400, Imm 0x1e40ca00], Count,
    Syscall NR_pwrite64 [Reg 0, Write_buf, Imm 0x200, Imm 0x1e40de00], Count,
    Syscall NR_pwrite64 [Reg 0, Write_buf, Imm 0x2000, Imm 0x1e40e000], Count]"

definition min_mysql_pwrite64_openat_0_0_body457 :: "stmt list" where
  "min_mysql_pwrite64_openat_0_0_body457 = [
    Syscall NR_pwrite64 [Reg 0, Write_buf, Imm 0x2000, Imm 0x1e410000], Count,
    Syscall NR_pwrite64 [Reg 0, Write_buf, Imm 0x400, Imm 0x1e411000], Count,
    Syscall NR_pwrite64 [Reg 0, Write_buf, Imm 0x600, Imm 0x1e411400], Count,
    Syscall NR_pwrite64 [Reg 0, Write_buf, Imm 0x600, Imm 0x1e411a00], Count,
    Syscall NR_pwrite64 [Reg 0, Write_buf, Imm 0x2000, Imm 0x1e412000], Count,
    Syscall NR_pwrite64 [Reg 0, Write_buf, Imm 0x200, Imm 0x1e412400], Count,
    Syscall NR_pwrite64 [Reg 0, Write_buf, Imm 0xe00, Imm 0x1e412400], Count,
    Syscall NR_pwrite64 [Reg 0, Write_buf, Imm 0x200, Imm 0x1e413200], Count,
    Syscall NR_pwrite64 [Reg 0, Write_buf, Imm 0x200, Imm 0x1e413400], Count,
    Syscall NR_pwrite64 [Reg 0, Write_buf, Imm 0x200, Imm 0x1e413400], Count,
    Syscall NR_pwrite64 [Reg 0, Write_buf, Imm 0x600, Imm 0x1e413600], Count,
    Syscall NR_pwrite64 [Reg 0, Write_buf, Imm 0x200, Imm 0x1e413c00], Count,
    Syscall NR_pwrite64 [Reg 0, Write_buf, Imm 0x200, Imm 0x1e413c00], Count]"

definition min_mysql_pwrite64_openat_0_0_body458 :: "stmt list" where
  "min_mysql_pwrite64_openat_0_0_body458 = [
    Syscall NR_pwrite64 [Reg 0, Write_buf, Imm 0x400, Imm 0x1e413c00], Count,
    Syscall NR_pwrite64 [Reg 0, Write_buf, Imm 0x2000, Imm 0x1e414000], Count,
    Syscall NR_pwrite64 [Reg 0, Write_buf, Imm 0x200, Imm 0x1e414200], Count,
    Syscall NR_pwrite64 [Reg 0, Write_buf, Imm 0x200, Imm 0x1e414200], Count,
    Syscall NR_pwrite64 [Reg 0, Write_buf, Imm 0x200, Imm 0x1e414400], Count,
    Syscall NR_pwrite64 [Reg 0, Write_buf, Imm 0x200, Imm 0x1e414600], Count,
    Syscall NR_pwrite64 [Reg 0, Write_buf, Imm 0x200, Imm 0x1e414600], Count,
    Syscall NR_pwrite64 [Reg 0, Write_buf, Imm 0x200, Imm 0x1e414600], Count,
    Syscall NR_pwrite64 [Reg 0, Write_buf, Imm 0x600, Imm 0x1e414600], Count,
    Syscall NR_pwrite64 [Reg 0, Write_buf, Imm 0x200, Imm 0x1e414c00], Count,
    Syscall NR_pwrite64 [Reg 0, Write_buf, Imm 0x200, Imm 0x1e414c00], Count,
    Syscall NR_pwrite64 [Reg 0, Write_buf, Imm 0x200, Imm 0x1e414e00], Count,
    Syscall NR_pwrite64 [Reg 0, Write_buf, Imm 0x200, Imm 0x1e414e00], Count]"

definition min_mysql_pwrite64_openat_0_0_body459 :: "stmt list" where
  "min_mysql_pwrite64_openat_0_0_body459 = [
    Syscall NR_pwrite64 [Reg 0, Write_buf, Imm 0x200, Imm 0x1e415000], Count,
    Syscall NR_pwrite64 [Reg 0, Write_buf, Imm 0x200, Imm 0x1e415000], Count,
    Syscall NR_pwrite64 [Reg 0, Write_buf, Imm 0x200, Imm 0x1e415000], Count,
    Syscall NR_pwrite64 [Reg 0, Write_buf, Imm 0x200, Imm 0x1e415200], Count,
    Syscall NR_pwrite64 [Reg 0, Write_buf, Imm 0x200, Imm 0x1e415200], Count,
    Syscall NR_pwrite64 [Reg 0, Write_buf, Imm 0x200, Imm 0x1e415400], Count,
    Syscall NR_pwrite64 [Reg 0, Write_buf, Imm 0x400, Imm 0x1e415400], Count,
    Syscall NR_pwrite64 [Reg 0, Write_buf, Imm 0x200, Imm 0x1e415800], Count,
    Syscall NR_pwrite64 [Reg 0, Write_buf, Imm 0x200, Imm 0x1e415800], Count,
    Syscall NR_pwrite64 [Reg 0, Write_buf, Imm 0x200, Imm 0x1e415800], Count,
    Syscall NR_pwrite64 [Reg 0, Write_buf, Imm 0x200, Imm 0x1e415800], Count,
    Syscall NR_pwrite64 [Reg 0, Write_buf, Imm 0x200, Imm 0x1e415800], Count,
    Syscall NR_pwrite64 [Reg 0, Write_buf, Imm 0x200, Imm 0x1e415800], Count]"

definition min_mysql_pwrite64_openat_0_0_body460 :: "stmt list" where
  "min_mysql_pwrite64_openat_0_0_body460 = [
    Syscall NR_pwrite64 [Reg 0, Write_buf, Imm 0x200, Imm 0x1e415800], Count,
    Syscall NR_pwrite64 [Reg 0, Write_buf, Imm 0x200, Imm 0x1e415a00], Count,
    Syscall NR_pwrite64 [Reg 0, Write_buf, Imm 0x200, Imm 0x1e415a00], Count,
    Syscall NR_pwrite64 [Reg 0, Write_buf, Imm 0x200, Imm 0x1e415a00], Count,
    Syscall NR_pwrite64 [Reg 0, Write_buf, Imm 0x200, Imm 0x1e415a00], Count,
    Syscall NR_pwrite64 [Reg 0, Write_buf, Imm 0x200, Imm 0x1e415c00], Count,
    Syscall NR_pwrite64 [Reg 0, Write_buf, Imm 0x200, Imm 0x1e415c00], Count,
    Syscall NR_pwrite64 [Reg 0, Write_buf, Imm 0x200, Imm 0x1e415e00], Count,
    Syscall NR_pwrite64 [Reg 0, Write_buf, Imm 0x200, Imm 0x1e415e00], Count,
    Syscall NR_pwrite64 [Reg 0, Write_buf, Imm 0x2000, Imm 0x1e416000], Count,
    Syscall NR_pwrite64 [Reg 0, Write_buf, Imm 0x600, Imm 0x1e416200], Count,
    Syscall NR_pwrite64 [Reg 0, Write_buf, Imm 0x200, Imm 0x1e416800], Count,
    Syscall NR_pwrite64 [Reg 0, Write_buf, Imm 0x200, Imm 0x1e416800], Count]"

definition min_mysql_pwrite64_openat_0_0_body461 :: "stmt list" where
  "min_mysql_pwrite64_openat_0_0_body461 = [
    Syscall NR_pwrite64 [Reg 0, Write_buf, Imm 0x200, Imm 0x1e416a00], Count,
    Syscall NR_pwrite64 [Reg 0, Write_buf, Imm 0x200, Imm 0x1e416c00], Count,
    Syscall NR_pwrite64 [Reg 0, Write_buf, Imm 0x200, Imm 0x1e416c00], Count,
    Syscall NR_pwrite64 [Reg 0, Write_buf, Imm 0x600, Imm 0x1e416e00], Count,
    Syscall NR_pwrite64 [Reg 0, Write_buf, Imm 0x800, Imm 0x1e417400], Count,
    Syscall NR_pwrite64 [Reg 0, Write_buf, Imm 0x200, Imm 0x1e417c00], Count,
    Syscall NR_pwrite64 [Reg 0, Write_buf, Imm 0x200, Imm 0x1e417e00], Count,
    Syscall NR_pwrite64 [Reg 0, Write_buf, Imm 0x2000, Imm 0x1e418000], Count,
    Syscall NR_pwrite64 [Reg 0, Write_buf, Imm 0x400, Imm 0x1e418800], Count,
    Syscall NR_pwrite64 [Reg 0, Write_buf, Imm 0xc00, Imm 0x1e418c00], Count,
    Syscall NR_pwrite64 [Reg 0, Write_buf, Imm 0x400, Imm 0x1e419800], Count,
    Syscall NR_pwrite64 [Reg 0, Write_buf, Imm 0x400, Imm 0x1e419c00], Count,
    Syscall NR_pwrite64 [Reg 0, Write_buf, Imm 0x2000, Imm 0x1e41a000], Count]"

definition min_mysql_pwrite64_openat_0_0_body462 :: "stmt list" where
  "min_mysql_pwrite64_openat_0_0_body462 = [
    Syscall NR_pwrite64 [Reg 0, Write_buf, Imm 0xc00, Imm 0x1e41aa00], Count,
    Syscall NR_pwrite64 [Reg 0, Write_buf, Imm 0x600, Imm 0x1e41b600], Count,
    Syscall NR_pwrite64 [Reg 0, Write_buf, Imm 0x400, Imm 0x1e41bc00], Count,
    Syscall NR_pwrite64 [Reg 0, Write_buf, Imm 0x2000, Imm 0x1e41c000], Count,
    Syscall NR_pwrite64 [Reg 0, Write_buf, Imm 0x600, Imm 0x1e41c400], Count,
    Syscall NR_pwrite64 [Reg 0, Write_buf, Imm 0x400, Imm 0x1e41ca00], Count,
    Syscall NR_pwrite64 [Reg 0, Write_buf, Imm 0x800, Imm 0x1e41ce00], Count,
    Syscall NR_pwrite64 [Reg 0, Write_buf, Imm 0x400, Imm 0x1e41d600], Count,
    Syscall NR_pwrite64 [Reg 0, Write_buf, Imm 0x200, Imm 0x1e41da00], Count,
    Syscall NR_pwrite64 [Reg 0, Write_buf, Imm 0x400, Imm 0x1e41da00], Count,
    Syscall NR_pwrite64 [Reg 0, Write_buf, Imm 0x200, Imm 0x1e41de00], Count,
    Syscall NR_pwrite64 [Reg 0, Write_buf, Imm 0x200, Imm 0x1e41de00], Count,
    Syscall NR_pwrite64 [Reg 0, Write_buf, Imm 0x200, Imm 0x1e41de00], Count]"

definition min_mysql_pwrite64_openat_0_0_body463 :: "stmt list" where
  "min_mysql_pwrite64_openat_0_0_body463 = [
    Syscall NR_pwrite64 [Reg 0, Write_buf, Imm 0x200, Imm 0x1e41de00], Count,
    Syscall NR_pwrite64 [Reg 0, Write_buf, Imm 0x2000, Imm 0x1e41e000], Count,
    Syscall NR_pwrite64 [Reg 0, Write_buf, Imm 0x200, Imm 0x1e41e200], Count,
    Syscall NR_pwrite64 [Reg 0, Write_buf, Imm 0x200, Imm 0x1e41e400], Count,
    Syscall NR_pwrite64 [Reg 0, Write_buf, Imm 0x400, Imm 0x1e41e400], Count,
    Syscall NR_pwrite64 [Reg 0, Write_buf, Imm 0x200, Imm 0x1e41e800], Count,
    Syscall NR_pwrite64 [Reg 0, Write_buf, Imm 0x200, Imm 0x1e41e800], Count,
    Syscall NR_pwrite64 [Reg 0, Write_buf, Imm 0x200, Imm 0x1e41e800], Count,
    Syscall NR_pwrite64 [Reg 0, Write_buf, Imm 0x200, Imm 0x1e41ea00], Count,
    Syscall NR_pwrite64 [Reg 0, Write_buf, Imm 0x200, Imm 0x1e41ea00], Count,
    Syscall NR_pwrite64 [Reg 0, Write_buf, Imm 0x200, Imm 0x1e41ec00], Count,
    Syscall NR_pwrite64 [Reg 0, Write_buf, Imm 0x200, Imm 0x1e41ec00], Count,
    Syscall NR_pwrite64 [Reg 0, Write_buf, Imm 0x600, Imm 0x1e41ec00], Count]"

definition min_mysql_pwrite64_openat_0_0_body464 :: "stmt list" where
  "min_mysql_pwrite64_openat_0_0_body464 = [
    Syscall NR_pwrite64 [Reg 0, Write_buf, Imm 0x200, Imm 0x1e41f200], Count,
    Syscall NR_pwrite64 [Reg 0, Write_buf, Imm 0x200, Imm 0x1e41f400], Count,
    Syscall NR_pwrite64 [Reg 0, Write_buf, Imm 0x200, Imm 0x1e41f400], Count,
    Syscall NR_pwrite64 [Reg 0, Write_buf, Imm 0x200, Imm 0x1e41f600], Count,
    Syscall NR_pwrite64 [Reg 0, Write_buf, Imm 0x200, Imm 0x1e41f600], Count,
    Syscall NR_pwrite64 [Reg 0, Write_buf, Imm 0x600, Imm 0x1e41f600], Count,
    Syscall NR_pwrite64 [Reg 0, Write_buf, Imm 0x200, Imm 0x1e41fc00], Count,
    Syscall NR_pwrite64 [Reg 0, Write_buf, Imm 0x400, Imm 0x1e41fc00], Count,
    Syscall NR_pwrite64 [Reg 0, Write_buf, Imm 0x2000, Imm 0x1e420000], Count,
    Syscall NR_pwrite64 [Reg 0, Write_buf, Imm 0x400, Imm 0x1e420000], Count,
    Syscall NR_pwrite64 [Reg 0, Write_buf, Imm 0x200, Imm 0x1e420400], Count,
    Syscall NR_pwrite64 [Reg 0, Write_buf, Imm 0x200, Imm 0x1e420400], Count,
    Syscall NR_pwrite64 [Reg 0, Write_buf, Imm 0x400, Imm 0x1e420400], Count]"

definition min_mysql_pwrite64_openat_0_0_body465 :: "stmt list" where
  "min_mysql_pwrite64_openat_0_0_body465 = [
    Syscall NR_pwrite64 [Reg 0, Write_buf, Imm 0x200, Imm 0x1e420800], Count,
    Syscall NR_pwrite64 [Reg 0, Write_buf, Imm 0x400, Imm 0x1e420800], Count,
    Syscall NR_pwrite64 [Reg 0, Write_buf, Imm 0x200, Imm 0x1e420c00], Count,
    Syscall NR_pwrite64 [Reg 0, Write_buf, Imm 0x400, Imm 0x1e420e00], Count,
    Syscall NR_pwrite64 [Reg 0, Write_buf, Imm 0xe00, Imm 0x1e421200], Count,
    Syscall NR_pwrite64 [Reg 0, Write_buf, Imm 0x2000, Imm 0x1e422000], Count,
    Syscall NR_pwrite64 [Reg 0, Write_buf, Imm 0x1000, Imm 0x1e422a00], Count,
    Syscall NR_pwrite64 [Reg 0, Write_buf, Imm 0x600, Imm 0x1e423a00], Count,
    Syscall NR_pwrite64 [Reg 0, Write_buf, Imm 0x2000, Imm 0x1e424000], Count,
    Syscall NR_pwrite64 [Reg 0, Write_buf, Imm 0x800, Imm 0x1e425800], Count,
    Syscall NR_pwrite64 [Reg 0, Write_buf, Imm 0x2000, Imm 0x1e426000], Count,
    Syscall NR_pwrite64 [Reg 0, Write_buf, Imm 0xa00, Imm 0x1e426c00], Count,
    Syscall NR_pwrite64 [Reg 0, Write_buf, Imm 0xa00, Imm 0x1e427600], Count]"

definition min_mysql_pwrite64_openat_0_0_body466 :: "stmt list" where
  "min_mysql_pwrite64_openat_0_0_body466 = [
    Syscall NR_pwrite64 [Reg 0, Write_buf, Imm 0x2000, Imm 0x1e428000], Count,
    Syscall NR_pwrite64 [Reg 0, Write_buf, Imm 0x400, Imm 0x1e428400], Count,
    Syscall NR_pwrite64 [Reg 0, Write_buf, Imm 0x200, Imm 0x1e428800], Count,
    Syscall NR_pwrite64 [Reg 0, Write_buf, Imm 0x200, Imm 0x1e428a00], Count,
    Syscall NR_pwrite64 [Reg 0, Write_buf, Imm 0x200, Imm 0x1e428a00], Count,
    Syscall NR_pwrite64 [Reg 0, Write_buf, Imm 0x1600, Imm 0x1e428a00], Count,
    Syscall NR_pwrite64 [Reg 0, Write_buf, Imm 0x2000, Imm 0x1e42a000], Count,
    Syscall NR_pwrite64 [Reg 0, Write_buf, Imm 0x200, Imm 0x1e42b000], Count,
    Syscall NR_pwrite64 [Reg 0, Write_buf, Imm 0x400, Imm 0x1e42b200], Count,
    Syscall NR_pwrite64 [Reg 0, Write_buf, Imm 0x400, Imm 0x1e42b600], Count,
    Syscall NR_pwrite64 [Reg 0, Write_buf, Imm 0x600, Imm 0x1e42ba00], Count,
    Syscall NR_pwrite64 [Reg 0, Write_buf, Imm 0x2000, Imm 0x1e42c000], Count,
    Syscall NR_pwrite64 [Reg 0, Write_buf, Imm 0xc00, Imm 0x1e42ce00], Count]"

definition min_mysql_pwrite64_openat_0_0_body467 :: "stmt list" where
  "min_mysql_pwrite64_openat_0_0_body467 = [
    Syscall NR_pwrite64 [Reg 0, Write_buf, Imm 0x600, Imm 0x1e42da00], Count,
    Syscall NR_pwrite64 [Reg 0, Write_buf, Imm 0x2000, Imm 0x1e42e000], Count,
    Syscall NR_pwrite64 [Reg 0, Write_buf, Imm 0x600, Imm 0x1e42ea00], Count,
    Syscall NR_pwrite64 [Reg 0, Write_buf, Imm 0xa00, Imm 0x1e42f000], Count,
    Syscall NR_pwrite64 [Reg 0, Write_buf, Imm 0x400, Imm 0x1e42fa00], Count,
    Syscall NR_pwrite64 [Reg 0, Write_buf, Imm 0x200, Imm 0x1e42fe00], Count,
    Syscall NR_pwrite64 [Reg 0, Write_buf, Imm 0x2000, Imm 0x1e430000], Count,
    Syscall NR_pwrite64 [Reg 0, Write_buf, Imm 0x200, Imm 0x1e430800], Count,
    Syscall NR_pwrite64 [Reg 0, Write_buf, Imm 0x200, Imm 0x1e430a00], Count,
    Syscall NR_pwrite64 [Reg 0, Write_buf, Imm 0x200, Imm 0x1e430a00], Count,
    Syscall NR_pwrite64 [Reg 0, Write_buf, Imm 0x600, Imm 0x1e430a00], Count,
    Syscall NR_pwrite64 [Reg 0, Write_buf, Imm 0x200, Imm 0x1e431000], Count,
    Syscall NR_pwrite64 [Reg 0, Write_buf, Imm 0x200, Imm 0x1e431200], Count]"

definition min_mysql_pwrite64_openat_0_0_body468 :: "stmt list" where
  "min_mysql_pwrite64_openat_0_0_body468 = [
    Syscall NR_pwrite64 [Reg 0, Write_buf, Imm 0x200, Imm 0x1e431200], Count,
    Syscall NR_pwrite64 [Reg 0, Write_buf, Imm 0x400, Imm 0x1e431200], Count,
    Syscall NR_pwrite64 [Reg 0, Write_buf, Imm 0x200, Imm 0x1e431600], Count,
    Syscall NR_pwrite64 [Reg 0, Write_buf, Imm 0x400, Imm 0x1e431600], Count,
    Syscall NR_pwrite64 [Reg 0, Write_buf, Imm 0x200, Imm 0x1e431a00], Count,
    Syscall NR_pwrite64 [Reg 0, Write_buf, Imm 0x200, Imm 0x1e431a00], Count,
    Syscall NR_pwrite64 [Reg 0, Write_buf, Imm 0x600, Imm 0x1e431a00], Count,
    Syscall NR_pwrite64 [Reg 0, Write_buf, Imm 0x2000, Imm 0x1e432000], Count,
    Syscall NR_pwrite64 [Reg 0, Write_buf, Imm 0x200, Imm 0x1e432000], Count,
    Syscall NR_pwrite64 [Reg 0, Write_buf, Imm 0xa00, Imm 0x1e432000], Count,
    Syscall NR_pwrite64 [Reg 0, Write_buf, Imm 0x200, Imm 0x1e432a00], Count,
    Syscall NR_pwrite64 [Reg 0, Write_buf, Imm 0x200, Imm 0x1e432c00], Count,
    Syscall NR_pwrite64 [Reg 0, Write_buf, Imm 0x200, Imm 0x1e432c00], Count]"

definition min_mysql_pwrite64_openat_0_0_body469 :: "stmt list" where
  "min_mysql_pwrite64_openat_0_0_body469 = [
    Syscall NR_pwrite64 [Reg 0, Write_buf, Imm 0x200, Imm 0x1e432e00], Count,
    Syscall NR_pwrite64 [Reg 0, Write_buf, Imm 0x200, Imm 0x1e432e00], Count,
    Syscall NR_pwrite64 [Reg 0, Write_buf, Imm 0x800, Imm 0x1e432e00], Count,
    Syscall NR_pwrite64 [Reg 0, Write_buf, Imm 0x200, Imm 0x1e433600], Count,
    Syscall NR_pwrite64 [Reg 0, Write_buf, Imm 0x200, Imm 0x1e433800], Count,
    Syscall NR_pwrite64 [Reg 0, Write_buf, Imm 0x200, Imm 0x1e433800], Count,
    Syscall NR_pwrite64 [Reg 0, Write_buf, Imm 0x800, Imm 0x1e433800], Count,
    Syscall NR_pwrite64 [Reg 0, Write_buf, Imm 0x2000, Imm 0x1e434000], Count,
    Syscall NR_pwrite64 [Reg 0, Write_buf, Imm 0x1000, Imm 0x1e434800], Count,
    Syscall NR_pwrite64 [Reg 0, Write_buf, Imm 0x600, Imm 0x1e435800], Count,
    Syscall NR_pwrite64 [Reg 0, Write_buf, Imm 0x200, Imm 0x1e435e00], Count,
    Syscall NR_pwrite64 [Reg 0, Write_buf, Imm 0x2000, Imm 0x1e436000], Count,
    Syscall NR_pwrite64 [Reg 0, Write_buf, Imm 0x1600, Imm 0x1e436a00], Count]"

definition min_mysql_pwrite64_openat_0_0_body470 :: "stmt list" where
  "min_mysql_pwrite64_openat_0_0_body470 = [
    Syscall NR_pwrite64 [Reg 0, Write_buf, Imm 0x2000, Imm 0x1e438000], Count,
    Syscall NR_pwrite64 [Reg 0, Write_buf, Imm 0xc00, Imm 0x1e438800], Count,
    Syscall NR_pwrite64 [Reg 0, Write_buf, Imm 0x200, Imm 0x1e439400], Count,
    Syscall NR_pwrite64 [Reg 0, Write_buf, Imm 0x400, Imm 0x1e439600], Count,
    Syscall NR_pwrite64 [Reg 0, Write_buf, Imm 0x200, Imm 0x1e439a00], Count,
    Syscall NR_pwrite64 [Reg 0, Write_buf, Imm 0x200, Imm 0x1e439a00], Count,
    Syscall NR_pwrite64 [Reg 0, Write_buf, Imm 0x200, Imm 0x1e439a00], Count,
    Syscall NR_pwrite64 [Reg 0, Write_buf, Imm 0x200, Imm 0x1e439c00], Count,
    Syscall NR_pwrite64 [Reg 0, Write_buf, Imm 0x200, Imm 0x1e439c00], Count,
    Syscall NR_pwrite64 [Reg 0, Write_buf, Imm 0x400, Imm 0x1e439c00], Count,
    Syscall NR_pwrite64 [Reg 0, Write_buf, Imm 0x2000, Imm 0x1e43a000], Count,
    Syscall NR_pwrite64 [Reg 0, Write_buf, Imm 0x2000, Imm 0x1e43c000], Count,
    Syscall NR_pwrite64 [Reg 0, Write_buf, Imm 0x200, Imm 0x1e43c800], Count]"

definition min_mysql_pwrite64_openat_0_0_body471 :: "stmt list" where
  "min_mysql_pwrite64_openat_0_0_body471 = [
    Syscall NR_pwrite64 [Reg 0, Write_buf, Imm 0x200, Imm 0x1e43c800], Count,
    Syscall NR_pwrite64 [Reg 0, Write_buf, Imm 0x200, Imm 0x1e43ca00], Count,
    Syscall NR_pwrite64 [Reg 0, Write_buf, Imm 0x800, Imm 0x1e43ca00], Count,
    Syscall NR_pwrite64 [Reg 0, Write_buf, Imm 0x200, Imm 0x1e43d200], Count,
    Syscall NR_pwrite64 [Reg 0, Write_buf, Imm 0x200, Imm 0x1e43d200], Count,
    Syscall NR_pwrite64 [Reg 0, Write_buf, Imm 0x200, Imm 0x1e43d400], Count,
    Syscall NR_pwrite64 [Reg 0, Write_buf, Imm 0x400, Imm 0x1e43d400], Count,
    Syscall NR_pwrite64 [Reg 0, Write_buf, Imm 0x200, Imm 0x1e43d800], Count,
    Syscall NR_pwrite64 [Reg 0, Write_buf, Imm 0x400, Imm 0x1e43d800], Count,
    Syscall NR_pwrite64 [Reg 0, Write_buf, Imm 0x200, Imm 0x1e43dc00], Count,
    Syscall NR_pwrite64 [Reg 0, Write_buf, Imm 0x200, Imm 0x1e43dc00], Count,
    Syscall NR_pwrite64 [Reg 0, Write_buf, Imm 0x200, Imm 0x1e43dc00], Count,
    Syscall NR_pwrite64 [Reg 0, Write_buf, Imm 0x200, Imm 0x1e43de00], Count]"

definition min_mysql_pwrite64_openat_0_0_body472 :: "stmt list" where
  "min_mysql_pwrite64_openat_0_0_body472 = [
    Syscall NR_pwrite64 [Reg 0, Write_buf, Imm 0x200, Imm 0x1e43de00], Count,
    Syscall NR_pwrite64 [Reg 0, Write_buf, Imm 0x2000, Imm 0x1e43e000], Count,
    Syscall NR_pwrite64 [Reg 0, Write_buf, Imm 0x200, Imm 0x1e43e600], Count,
    Syscall NR_pwrite64 [Reg 0, Write_buf, Imm 0x200, Imm 0x1e43e600], Count,
    Syscall NR_pwrite64 [Reg 0, Write_buf, Imm 0x400, Imm 0x1e43e600], Count,
    Syscall NR_pwrite64 [Reg 0, Write_buf, Imm 0x600, Imm 0x1e43ea00], Count,
    Syscall NR_pwrite64 [Reg 0, Write_buf, Imm 0x200, Imm 0x1e43f000], Count,
    Syscall NR_pwrite64 [Reg 0, Write_buf, Imm 0x200, Imm 0x1e43f000], Count,
    Syscall NR_pwrite64 [Reg 0, Write_buf, Imm 0x200, Imm 0x1e43f200], Count,
    Syscall NR_pwrite64 [Reg 0, Write_buf, Imm 0x200, Imm 0x1e43f200], Count,
    Syscall NR_pwrite64 [Reg 0, Write_buf, Imm 0x200, Imm 0x1e43f200], Count,
    Syscall NR_pwrite64 [Reg 0, Write_buf, Imm 0x200, Imm 0x1e43f400], Count,
    Syscall NR_pwrite64 [Reg 0, Write_buf, Imm 0x200, Imm 0x1e43f400], Count]"

definition min_mysql_pwrite64_openat_0_0_body473 :: "stmt list" where
  "min_mysql_pwrite64_openat_0_0_body473 = [
    Syscall NR_pwrite64 [Reg 0, Write_buf, Imm 0x200, Imm 0x1e43f600], Count,
    Syscall NR_pwrite64 [Reg 0, Write_buf, Imm 0x600, Imm 0x1e43f600], Count,
    Syscall NR_pwrite64 [Reg 0, Write_buf, Imm 0x400, Imm 0x1e43fc00], Count,
    Syscall NR_pwrite64 [Reg 0, Write_buf, Imm 0x2000, Imm 0x1e440000], Count,
    Syscall NR_pwrite64 [Reg 0, Write_buf, Imm 0x800, Imm 0x1e440a00], Count,
    Syscall NR_pwrite64 [Reg 0, Write_buf, Imm 0xa00, Imm 0x1e441200], Count,
    Syscall NR_pwrite64 [Reg 0, Write_buf, Imm 0x400, Imm 0x1e441c00], Count,
    Syscall NR_pwrite64 [Reg 0, Write_buf, Imm 0x2000, Imm 0x1e442000], Count,
    Syscall NR_pwrite64 [Reg 0, Write_buf, Imm 0x800, Imm 0x1e443800], Count,
    Syscall NR_pwrite64 [Reg 0, Write_buf, Imm 0x2000, Imm 0x1e444000], Count,
    Syscall NR_pwrite64 [Reg 0, Write_buf, Imm 0xe00, Imm 0x1e444e00], Count,
    Syscall NR_pwrite64 [Reg 0, Write_buf, Imm 0x400, Imm 0x1e445c00], Count,
    Syscall NR_pwrite64 [Reg 0, Write_buf, Imm 0x2000, Imm 0x1e446000], Count]"

definition min_mysql_pwrite64_openat_0_0_body474 :: "stmt list" where
  "min_mysql_pwrite64_openat_0_0_body474 = [
    Syscall NR_pwrite64 [Reg 0, Write_buf, Imm 0x600, Imm 0x1e446e00], Count,
    Syscall NR_pwrite64 [Reg 0, Write_buf, Imm 0x200, Imm 0x1e447400], Count,
    Syscall NR_pwrite64 [Reg 0, Write_buf, Imm 0x200, Imm 0x1e447600], Count,
    Syscall NR_pwrite64 [Reg 0, Write_buf, Imm 0x200, Imm 0x1e447600], Count,
    Syscall NR_pwrite64 [Reg 0, Write_buf, Imm 0x200, Imm 0x1e447800], Count,
    Syscall NR_pwrite64 [Reg 0, Write_buf, Imm 0x800, Imm 0x1e447800], Count,
    Syscall NR_pwrite64 [Reg 0, Write_buf, Imm 0x2000, Imm 0x1e448000], Count,
    Syscall NR_pwrite64 [Reg 0, Write_buf, Imm 0x200, Imm 0x1e448000], Count,
    Syscall NR_pwrite64 [Reg 0, Write_buf, Imm 0x600, Imm 0x1e448000], Count,
    Syscall NR_pwrite64 [Reg 0, Write_buf, Imm 0x200, Imm 0x1e448600], Count,
    Syscall NR_pwrite64 [Reg 0, Write_buf, Imm 0x200, Imm 0x1e448600], Count,
    Syscall NR_pwrite64 [Reg 0, Write_buf, Imm 0x200, Imm 0x1e448600], Count,
    Syscall NR_pwrite64 [Reg 0, Write_buf, Imm 0x200, Imm 0x1e448600], Count]"

definition min_mysql_pwrite64_openat_0_0_body475 :: "stmt list" where
  "min_mysql_pwrite64_openat_0_0_body475 = [
    Syscall NR_pwrite64 [Reg 0, Write_buf, Imm 0x200, Imm 0x1e448800], Count,
    Syscall NR_pwrite64 [Reg 0, Write_buf, Imm 0x200, Imm 0x1e448800], Count,
    Syscall NR_pwrite64 [Reg 0, Write_buf, Imm 0x200, Imm 0x1e448800], Count,
    Syscall NR_pwrite64 [Reg 0, Write_buf, Imm 0x200, Imm 0x1e448800], Count,
    Syscall NR_pwrite64 [Reg 0, Write_buf, Imm 0x200, Imm 0x1e448a00], Count,
    Syscall NR_pwrite64 [Reg 0, Write_buf, Imm 0x400, Imm 0x1e448a00], Count,
    Syscall NR_pwrite64 [Reg 0, Write_buf, Imm 0x400, Imm 0x1e448e00], Count,
    Syscall NR_pwrite64 [Reg 0, Write_buf, Imm 0x400, Imm 0x1e449200], Count,
    Syscall NR_pwrite64 [Reg 0, Write_buf, Imm 0x400, Imm 0x1e449600], Count,
    Syscall NR_pwrite64 [Reg 0, Write_buf, Imm 0x200, Imm 0x1e449a00], Count,
    Syscall NR_pwrite64 [Reg 0, Write_buf, Imm 0x200, Imm 0x1e449c00], Count,
    Syscall NR_pwrite64 [Reg 0, Write_buf, Imm 0x200, Imm 0x1e449e00], Count,
    Syscall NR_pwrite64 [Reg 0, Write_buf, Imm 0x2000, Imm 0x1e44a000], Count]"

definition min_mysql_pwrite64_openat_0_0_body476 :: "stmt list" where
  "min_mysql_pwrite64_openat_0_0_body476 = [
    Syscall NR_pwrite64 [Reg 0, Write_buf, Imm 0x400, Imm 0x1e44a400], Count,
    Syscall NR_pwrite64 [Reg 0, Write_buf, Imm 0x200, Imm 0x1e44a800], Count,
    Syscall NR_pwrite64 [Reg 0, Write_buf, Imm 0x200, Imm 0x1e44a800], Count,
    Syscall NR_pwrite64 [Reg 0, Write_buf, Imm 0x200, Imm 0x1e44a800], Count,
    Syscall NR_pwrite64 [Reg 0, Write_buf, Imm 0x400, Imm 0x1e44aa00], Count,
    Syscall NR_pwrite64 [Reg 0, Write_buf, Imm 0x600, Imm 0x1e44ae00], Count,
    Syscall NR_pwrite64 [Reg 0, Write_buf, Imm 0x400, Imm 0x1e44b400], Count,
    Syscall NR_pwrite64 [Reg 0, Write_buf, Imm 0x800, Imm 0x1e44b800], Count,
    Syscall NR_pwrite64 [Reg 0, Write_buf, Imm 0x2000, Imm 0x1e44c000], Count,
    Syscall NR_pwrite64 [Reg 0, Write_buf, Imm 0x1800, Imm 0x1e44c800], Count,
    Syscall NR_pwrite64 [Reg 0, Write_buf, Imm 0x2000, Imm 0x1e44e000], Count,
    Syscall NR_pwrite64 [Reg 0, Write_buf, Imm 0x200, Imm 0x1e44ec00], Count,
    Syscall NR_pwrite64 [Reg 0, Write_buf, Imm 0x200, Imm 0x1e44ec00], Count]"

definition min_mysql_pwrite64_openat_0_0_body477 :: "stmt list" where
  "min_mysql_pwrite64_openat_0_0_body477 = [
    Syscall NR_pwrite64 [Reg 0, Write_buf, Imm 0x400, Imm 0x1e44ee00], Count,
    Syscall NR_pwrite64 [Reg 0, Write_buf, Imm 0x200, Imm 0x1e44f200], Count,
    Syscall NR_pwrite64 [Reg 0, Write_buf, Imm 0x400, Imm 0x1e44f200], Count,
    Syscall NR_pwrite64 [Reg 0, Write_buf, Imm 0x200, Imm 0x1e44f600], Count,
    Syscall NR_pwrite64 [Reg 0, Write_buf, Imm 0x200, Imm 0x1e44f600], Count,
    Syscall NR_pwrite64 [Reg 0, Write_buf, Imm 0x400, Imm 0x1e44f800], Count,
    Syscall NR_pwrite64 [Reg 0, Write_buf, Imm 0x400, Imm 0x1e44fc00], Count,
    Syscall NR_pwrite64 [Reg 0, Write_buf, Imm 0x2000, Imm 0x1e450000], Count,
    Syscall NR_pwrite64 [Reg 0, Write_buf, Imm 0x200, Imm 0x1e450600], Count,
    Syscall NR_pwrite64 [Reg 0, Write_buf, Imm 0x400, Imm 0x1e450800], Count,
    Syscall NR_pwrite64 [Reg 0, Write_buf, Imm 0x200, Imm 0x1e450c00], Count,
    Syscall NR_pwrite64 [Reg 0, Write_buf, Imm 0x200, Imm 0x1e450e00], Count,
    Syscall NR_pwrite64 [Reg 0, Write_buf, Imm 0x200, Imm 0x1e450e00], Count]"

definition min_mysql_pwrite64_openat_0_0_body478 :: "stmt list" where
  "min_mysql_pwrite64_openat_0_0_body478 = [
    Syscall NR_pwrite64 [Reg 0, Write_buf, Imm 0x200, Imm 0x1e450e00], Count,
    Syscall NR_pwrite64 [Reg 0, Write_buf, Imm 0x200, Imm 0x1e451000], Count,
    Syscall NR_pwrite64 [Reg 0, Write_buf, Imm 0x400, Imm 0x1e451000], Count,
    Syscall NR_pwrite64 [Reg 0, Write_buf, Imm 0x200, Imm 0x1e451400], Count,
    Syscall NR_pwrite64 [Reg 0, Write_buf, Imm 0x200, Imm 0x1e451600], Count,
    Syscall NR_pwrite64 [Reg 0, Write_buf, Imm 0x200, Imm 0x1e451600], Count,
    Syscall NR_pwrite64 [Reg 0, Write_buf, Imm 0x200, Imm 0x1e451600], Count,
    Syscall NR_pwrite64 [Reg 0, Write_buf, Imm 0x200, Imm 0x1e451600], Count,
    Syscall NR_pwrite64 [Reg 0, Write_buf, Imm 0x200, Imm 0x1e451600], Count,
    Syscall NR_pwrite64 [Reg 0, Write_buf, Imm 0x400, Imm 0x1e451800], Count,
    Syscall NR_pwrite64 [Reg 0, Write_buf, Imm 0x200, Imm 0x1e451c00], Count,
    Syscall NR_pwrite64 [Reg 0, Write_buf, Imm 0x200, Imm 0x1e451c00], Count,
    Syscall NR_pwrite64 [Reg 0, Write_buf, Imm 0x400, Imm 0x1e451c00], Count]"

definition min_mysql_pwrite64_openat_0_0_body479 :: "stmt list" where
  "min_mysql_pwrite64_openat_0_0_body479 = [
    Syscall NR_pwrite64 [Reg 0, Write_buf, Imm 0x2000, Imm 0x1e452000], Count,
    Syscall NR_pwrite64 [Reg 0, Write_buf, Imm 0x200, Imm 0x1e452200], Count,
    Syscall NR_pwrite64 [Reg 0, Write_buf, Imm 0x200, Imm 0x1e452400], Count,
    Syscall NR_pwrite64 [Reg 0, Write_buf, Imm 0x200, Imm 0x1e452400], Count,
    Syscall NR_pwrite64 [Reg 0, Write_buf, Imm 0x200, Imm 0x1e452600], Count,
    Syscall NR_pwrite64 [Reg 0, Write_buf, Imm 0x200, Imm 0x1e452600], Count,
    Syscall NR_pwrite64 [Reg 0, Write_buf, Imm 0x200, Imm 0x1e452600], Count,
    Syscall NR_pwrite64 [Reg 0, Write_buf, Imm 0x200, Imm 0x1e452600], Count,
    Syscall NR_pwrite64 [Reg 0, Write_buf, Imm 0x200, Imm 0x1e452600], Count,
    Syscall NR_pwrite64 [Reg 0, Write_buf, Imm 0x400, Imm 0x1e452800], Count,
    Syscall NR_pwrite64 [Reg 0, Write_buf, Imm 0x200, Imm 0x1e452c00], Count,
    Syscall NR_pwrite64 [Reg 0, Write_buf, Imm 0x200, Imm 0x1e452c00], Count,
    Syscall NR_pwrite64 [Reg 0, Write_buf, Imm 0x200, Imm 0x1e452e00], Count]"

definition min_mysql_pwrite64_openat_0_0_body480 :: "stmt list" where
  "min_mysql_pwrite64_openat_0_0_body480 = [
    Syscall NR_pwrite64 [Reg 0, Write_buf, Imm 0x600, Imm 0x1e452e00], Count,
    Syscall NR_pwrite64 [Reg 0, Write_buf, Imm 0x200, Imm 0x1e453400], Count,
    Syscall NR_pwrite64 [Reg 0, Write_buf, Imm 0x200, Imm 0x1e453600], Count,
    Syscall NR_pwrite64 [Reg 0, Write_buf, Imm 0x800, Imm 0x1e453600], Count,
    Syscall NR_pwrite64 [Reg 0, Write_buf, Imm 0x200, Imm 0x1e453e00], Count,
    Syscall NR_pwrite64 [Reg 0, Write_buf, Imm 0x200, Imm 0x1e453e00], Count,
    Syscall NR_pwrite64 [Reg 0, Write_buf, Imm 0x2000, Imm 0x1e454000], Count,
    Syscall NR_pwrite64 [Reg 0, Write_buf, Imm 0x1000, Imm 0x1e454400], Count,
    Syscall NR_pwrite64 [Reg 0, Write_buf, Imm 0xc00, Imm 0x1e455400], Count,
    Syscall NR_pwrite64 [Reg 0, Write_buf, Imm 0x2000, Imm 0x1e456000], Count,
    Syscall NR_pwrite64 [Reg 0, Write_buf, Imm 0xe00, Imm 0x1e457200], Count,
    Syscall NR_pwrite64 [Reg 0, Write_buf, Imm 0x2000, Imm 0x1e458000], Count,
    Syscall NR_pwrite64 [Reg 0, Write_buf, Imm 0x600, Imm 0x1e458800], Count]"

lemma min_mysql_pwrite64_openat_0_0_body361_ok: "body_ok (Suc 0) 8192 min_mysql_pwrite64_openat_0_0_body361" "counted min_mysql_pwrite64_openat_0_0_body361" "calls min_mysql_pwrite64_openat_0_0_body361 = 13" "opened_in m min_mysql_pwrite64_openat_0_0_body361 = []"
  by (simp_all add: min_mysql_pwrite64_openat_0_0_body361_def prog_checks open_checks)

lemma min_mysql_pwrite64_openat_0_0_body362_ok: "body_ok (Suc 0) 8192 min_mysql_pwrite64_openat_0_0_body362" "counted min_mysql_pwrite64_openat_0_0_body362" "calls min_mysql_pwrite64_openat_0_0_body362 = 13" "opened_in m min_mysql_pwrite64_openat_0_0_body362 = []"
  by (simp_all add: min_mysql_pwrite64_openat_0_0_body362_def prog_checks open_checks)

lemma min_mysql_pwrite64_openat_0_0_body363_ok: "body_ok (Suc 0) 8192 min_mysql_pwrite64_openat_0_0_body363" "counted min_mysql_pwrite64_openat_0_0_body363" "calls min_mysql_pwrite64_openat_0_0_body363 = 13" "opened_in m min_mysql_pwrite64_openat_0_0_body363 = []"
  by (simp_all add: min_mysql_pwrite64_openat_0_0_body363_def prog_checks open_checks)

lemma min_mysql_pwrite64_openat_0_0_body364_ok: "body_ok (Suc 0) 8192 min_mysql_pwrite64_openat_0_0_body364" "counted min_mysql_pwrite64_openat_0_0_body364" "calls min_mysql_pwrite64_openat_0_0_body364 = 13" "opened_in m min_mysql_pwrite64_openat_0_0_body364 = []"
  by (simp_all add: min_mysql_pwrite64_openat_0_0_body364_def prog_checks open_checks)

lemma min_mysql_pwrite64_openat_0_0_body365_ok: "body_ok (Suc 0) 8192 min_mysql_pwrite64_openat_0_0_body365" "counted min_mysql_pwrite64_openat_0_0_body365" "calls min_mysql_pwrite64_openat_0_0_body365 = 13" "opened_in m min_mysql_pwrite64_openat_0_0_body365 = []"
  by (simp_all add: min_mysql_pwrite64_openat_0_0_body365_def prog_checks open_checks)

lemma min_mysql_pwrite64_openat_0_0_body366_ok: "body_ok (Suc 0) 8192 min_mysql_pwrite64_openat_0_0_body366" "counted min_mysql_pwrite64_openat_0_0_body366" "calls min_mysql_pwrite64_openat_0_0_body366 = 13" "opened_in m min_mysql_pwrite64_openat_0_0_body366 = []"
  by (simp_all add: min_mysql_pwrite64_openat_0_0_body366_def prog_checks open_checks)

lemma min_mysql_pwrite64_openat_0_0_body367_ok: "body_ok (Suc 0) 8192 min_mysql_pwrite64_openat_0_0_body367" "counted min_mysql_pwrite64_openat_0_0_body367" "calls min_mysql_pwrite64_openat_0_0_body367 = 13" "opened_in m min_mysql_pwrite64_openat_0_0_body367 = []"
  by (simp_all add: min_mysql_pwrite64_openat_0_0_body367_def prog_checks open_checks)

lemma min_mysql_pwrite64_openat_0_0_body368_ok: "body_ok (Suc 0) 8192 min_mysql_pwrite64_openat_0_0_body368" "counted min_mysql_pwrite64_openat_0_0_body368" "calls min_mysql_pwrite64_openat_0_0_body368 = 13" "opened_in m min_mysql_pwrite64_openat_0_0_body368 = []"
  by (simp_all add: min_mysql_pwrite64_openat_0_0_body368_def prog_checks open_checks)

lemma min_mysql_pwrite64_openat_0_0_body369_ok: "body_ok (Suc 0) 8192 min_mysql_pwrite64_openat_0_0_body369" "counted min_mysql_pwrite64_openat_0_0_body369" "calls min_mysql_pwrite64_openat_0_0_body369 = 13" "opened_in m min_mysql_pwrite64_openat_0_0_body369 = []"
  by (simp_all add: min_mysql_pwrite64_openat_0_0_body369_def prog_checks open_checks)

lemma min_mysql_pwrite64_openat_0_0_body370_ok: "body_ok (Suc 0) 8192 min_mysql_pwrite64_openat_0_0_body370" "counted min_mysql_pwrite64_openat_0_0_body370" "calls min_mysql_pwrite64_openat_0_0_body370 = 13" "opened_in m min_mysql_pwrite64_openat_0_0_body370 = []"
  by (simp_all add: min_mysql_pwrite64_openat_0_0_body370_def prog_checks open_checks)

lemma min_mysql_pwrite64_openat_0_0_body371_ok: "body_ok (Suc 0) 8192 min_mysql_pwrite64_openat_0_0_body371" "counted min_mysql_pwrite64_openat_0_0_body371" "calls min_mysql_pwrite64_openat_0_0_body371 = 13" "opened_in m min_mysql_pwrite64_openat_0_0_body371 = []"
  by (simp_all add: min_mysql_pwrite64_openat_0_0_body371_def prog_checks open_checks)

lemma min_mysql_pwrite64_openat_0_0_body372_ok: "body_ok (Suc 0) 8192 min_mysql_pwrite64_openat_0_0_body372" "counted min_mysql_pwrite64_openat_0_0_body372" "calls min_mysql_pwrite64_openat_0_0_body372 = 13" "opened_in m min_mysql_pwrite64_openat_0_0_body372 = []"
  by (simp_all add: min_mysql_pwrite64_openat_0_0_body372_def prog_checks open_checks)

lemma min_mysql_pwrite64_openat_0_0_body373_ok: "body_ok (Suc 0) 8192 min_mysql_pwrite64_openat_0_0_body373" "counted min_mysql_pwrite64_openat_0_0_body373" "calls min_mysql_pwrite64_openat_0_0_body373 = 13" "opened_in m min_mysql_pwrite64_openat_0_0_body373 = []"
  by (simp_all add: min_mysql_pwrite64_openat_0_0_body373_def prog_checks open_checks)

lemma min_mysql_pwrite64_openat_0_0_body374_ok: "body_ok (Suc 0) 8192 min_mysql_pwrite64_openat_0_0_body374" "counted min_mysql_pwrite64_openat_0_0_body374" "calls min_mysql_pwrite64_openat_0_0_body374 = 13" "opened_in m min_mysql_pwrite64_openat_0_0_body374 = []"
  by (simp_all add: min_mysql_pwrite64_openat_0_0_body374_def prog_checks open_checks)

lemma min_mysql_pwrite64_openat_0_0_body375_ok: "body_ok (Suc 0) 8192 min_mysql_pwrite64_openat_0_0_body375" "counted min_mysql_pwrite64_openat_0_0_body375" "calls min_mysql_pwrite64_openat_0_0_body375 = 13" "opened_in m min_mysql_pwrite64_openat_0_0_body375 = []"
  by (simp_all add: min_mysql_pwrite64_openat_0_0_body375_def prog_checks open_checks)

lemma min_mysql_pwrite64_openat_0_0_body376_ok: "body_ok (Suc 0) 8192 min_mysql_pwrite64_openat_0_0_body376" "counted min_mysql_pwrite64_openat_0_0_body376" "calls min_mysql_pwrite64_openat_0_0_body376 = 13" "opened_in m min_mysql_pwrite64_openat_0_0_body376 = []"
  by (simp_all add: min_mysql_pwrite64_openat_0_0_body376_def prog_checks open_checks)

lemma min_mysql_pwrite64_openat_0_0_body377_ok: "body_ok (Suc 0) 8192 min_mysql_pwrite64_openat_0_0_body377" "counted min_mysql_pwrite64_openat_0_0_body377" "calls min_mysql_pwrite64_openat_0_0_body377 = 13" "opened_in m min_mysql_pwrite64_openat_0_0_body377 = []"
  by (simp_all add: min_mysql_pwrite64_openat_0_0_body377_def prog_checks open_checks)

lemma min_mysql_pwrite64_openat_0_0_body378_ok: "body_ok (Suc 0) 8192 min_mysql_pwrite64_openat_0_0_body378" "counted min_mysql_pwrite64_openat_0_0_body378" "calls min_mysql_pwrite64_openat_0_0_body378 = 13" "opened_in m min_mysql_pwrite64_openat_0_0_body378 = []"
  by (simp_all add: min_mysql_pwrite64_openat_0_0_body378_def prog_checks open_checks)

lemma min_mysql_pwrite64_openat_0_0_body379_ok: "body_ok (Suc 0) 8192 min_mysql_pwrite64_openat_0_0_body379" "counted min_mysql_pwrite64_openat_0_0_body379" "calls min_mysql_pwrite64_openat_0_0_body379 = 13" "opened_in m min_mysql_pwrite64_openat_0_0_body379 = []"
  by (simp_all add: min_mysql_pwrite64_openat_0_0_body379_def prog_checks open_checks)

lemma min_mysql_pwrite64_openat_0_0_body380_ok: "body_ok (Suc 0) 8192 min_mysql_pwrite64_openat_0_0_body380" "counted min_mysql_pwrite64_openat_0_0_body380" "calls min_mysql_pwrite64_openat_0_0_body380 = 13" "opened_in m min_mysql_pwrite64_openat_0_0_body380 = []"
  by (simp_all add: min_mysql_pwrite64_openat_0_0_body380_def prog_checks open_checks)

lemma min_mysql_pwrite64_openat_0_0_body381_ok: "body_ok (Suc 0) 8192 min_mysql_pwrite64_openat_0_0_body381" "counted min_mysql_pwrite64_openat_0_0_body381" "calls min_mysql_pwrite64_openat_0_0_body381 = 13" "opened_in m min_mysql_pwrite64_openat_0_0_body381 = []"
  by (simp_all add: min_mysql_pwrite64_openat_0_0_body381_def prog_checks open_checks)

lemma min_mysql_pwrite64_openat_0_0_body382_ok: "body_ok (Suc 0) 8192 min_mysql_pwrite64_openat_0_0_body382" "counted min_mysql_pwrite64_openat_0_0_body382" "calls min_mysql_pwrite64_openat_0_0_body382 = 13" "opened_in m min_mysql_pwrite64_openat_0_0_body382 = []"
  by (simp_all add: min_mysql_pwrite64_openat_0_0_body382_def prog_checks open_checks)

lemma min_mysql_pwrite64_openat_0_0_body383_ok: "body_ok (Suc 0) 8192 min_mysql_pwrite64_openat_0_0_body383" "counted min_mysql_pwrite64_openat_0_0_body383" "calls min_mysql_pwrite64_openat_0_0_body383 = 13" "opened_in m min_mysql_pwrite64_openat_0_0_body383 = []"
  by (simp_all add: min_mysql_pwrite64_openat_0_0_body383_def prog_checks open_checks)

lemma min_mysql_pwrite64_openat_0_0_body384_ok: "body_ok (Suc 0) 8192 min_mysql_pwrite64_openat_0_0_body384" "counted min_mysql_pwrite64_openat_0_0_body384" "calls min_mysql_pwrite64_openat_0_0_body384 = 13" "opened_in m min_mysql_pwrite64_openat_0_0_body384 = []"
  by (simp_all add: min_mysql_pwrite64_openat_0_0_body384_def prog_checks open_checks)

lemma min_mysql_pwrite64_openat_0_0_body385_ok: "body_ok (Suc 0) 8192 min_mysql_pwrite64_openat_0_0_body385" "counted min_mysql_pwrite64_openat_0_0_body385" "calls min_mysql_pwrite64_openat_0_0_body385 = 13" "opened_in m min_mysql_pwrite64_openat_0_0_body385 = []"
  by (simp_all add: min_mysql_pwrite64_openat_0_0_body385_def prog_checks open_checks)

lemma min_mysql_pwrite64_openat_0_0_body386_ok: "body_ok (Suc 0) 8192 min_mysql_pwrite64_openat_0_0_body386" "counted min_mysql_pwrite64_openat_0_0_body386" "calls min_mysql_pwrite64_openat_0_0_body386 = 13" "opened_in m min_mysql_pwrite64_openat_0_0_body386 = []"
  by (simp_all add: min_mysql_pwrite64_openat_0_0_body386_def prog_checks open_checks)

lemma min_mysql_pwrite64_openat_0_0_body387_ok: "body_ok (Suc 0) 8192 min_mysql_pwrite64_openat_0_0_body387" "counted min_mysql_pwrite64_openat_0_0_body387" "calls min_mysql_pwrite64_openat_0_0_body387 = 13" "opened_in m min_mysql_pwrite64_openat_0_0_body387 = []"
  by (simp_all add: min_mysql_pwrite64_openat_0_0_body387_def prog_checks open_checks)

lemma min_mysql_pwrite64_openat_0_0_body388_ok: "body_ok (Suc 0) 8192 min_mysql_pwrite64_openat_0_0_body388" "counted min_mysql_pwrite64_openat_0_0_body388" "calls min_mysql_pwrite64_openat_0_0_body388 = 13" "opened_in m min_mysql_pwrite64_openat_0_0_body388 = []"
  by (simp_all add: min_mysql_pwrite64_openat_0_0_body388_def prog_checks open_checks)

lemma min_mysql_pwrite64_openat_0_0_body389_ok: "body_ok (Suc 0) 8192 min_mysql_pwrite64_openat_0_0_body389" "counted min_mysql_pwrite64_openat_0_0_body389" "calls min_mysql_pwrite64_openat_0_0_body389 = 13" "opened_in m min_mysql_pwrite64_openat_0_0_body389 = []"
  by (simp_all add: min_mysql_pwrite64_openat_0_0_body389_def prog_checks open_checks)

lemma min_mysql_pwrite64_openat_0_0_body390_ok: "body_ok (Suc 0) 8192 min_mysql_pwrite64_openat_0_0_body390" "counted min_mysql_pwrite64_openat_0_0_body390" "calls min_mysql_pwrite64_openat_0_0_body390 = 13" "opened_in m min_mysql_pwrite64_openat_0_0_body390 = []"
  by (simp_all add: min_mysql_pwrite64_openat_0_0_body390_def prog_checks open_checks)

lemma min_mysql_pwrite64_openat_0_0_body391_ok: "body_ok (Suc 0) 8192 min_mysql_pwrite64_openat_0_0_body391" "counted min_mysql_pwrite64_openat_0_0_body391" "calls min_mysql_pwrite64_openat_0_0_body391 = 13" "opened_in m min_mysql_pwrite64_openat_0_0_body391 = []"
  by (simp_all add: min_mysql_pwrite64_openat_0_0_body391_def prog_checks open_checks)

lemma min_mysql_pwrite64_openat_0_0_body392_ok: "body_ok (Suc 0) 8192 min_mysql_pwrite64_openat_0_0_body392" "counted min_mysql_pwrite64_openat_0_0_body392" "calls min_mysql_pwrite64_openat_0_0_body392 = 13" "opened_in m min_mysql_pwrite64_openat_0_0_body392 = []"
  by (simp_all add: min_mysql_pwrite64_openat_0_0_body392_def prog_checks open_checks)

lemma min_mysql_pwrite64_openat_0_0_body393_ok: "body_ok (Suc 0) 8192 min_mysql_pwrite64_openat_0_0_body393" "counted min_mysql_pwrite64_openat_0_0_body393" "calls min_mysql_pwrite64_openat_0_0_body393 = 13" "opened_in m min_mysql_pwrite64_openat_0_0_body393 = []"
  by (simp_all add: min_mysql_pwrite64_openat_0_0_body393_def prog_checks open_checks)

lemma min_mysql_pwrite64_openat_0_0_body394_ok: "body_ok (Suc 0) 8192 min_mysql_pwrite64_openat_0_0_body394" "counted min_mysql_pwrite64_openat_0_0_body394" "calls min_mysql_pwrite64_openat_0_0_body394 = 13" "opened_in m min_mysql_pwrite64_openat_0_0_body394 = []"
  by (simp_all add: min_mysql_pwrite64_openat_0_0_body394_def prog_checks open_checks)

lemma min_mysql_pwrite64_openat_0_0_body395_ok: "body_ok (Suc 0) 8192 min_mysql_pwrite64_openat_0_0_body395" "counted min_mysql_pwrite64_openat_0_0_body395" "calls min_mysql_pwrite64_openat_0_0_body395 = 13" "opened_in m min_mysql_pwrite64_openat_0_0_body395 = []"
  by (simp_all add: min_mysql_pwrite64_openat_0_0_body395_def prog_checks open_checks)

lemma min_mysql_pwrite64_openat_0_0_body396_ok: "body_ok (Suc 0) 8192 min_mysql_pwrite64_openat_0_0_body396" "counted min_mysql_pwrite64_openat_0_0_body396" "calls min_mysql_pwrite64_openat_0_0_body396 = 13" "opened_in m min_mysql_pwrite64_openat_0_0_body396 = []"
  by (simp_all add: min_mysql_pwrite64_openat_0_0_body396_def prog_checks open_checks)

lemma min_mysql_pwrite64_openat_0_0_body397_ok: "body_ok (Suc 0) 8192 min_mysql_pwrite64_openat_0_0_body397" "counted min_mysql_pwrite64_openat_0_0_body397" "calls min_mysql_pwrite64_openat_0_0_body397 = 13" "opened_in m min_mysql_pwrite64_openat_0_0_body397 = []"
  by (simp_all add: min_mysql_pwrite64_openat_0_0_body397_def prog_checks open_checks)

lemma min_mysql_pwrite64_openat_0_0_body398_ok: "body_ok (Suc 0) 8192 min_mysql_pwrite64_openat_0_0_body398" "counted min_mysql_pwrite64_openat_0_0_body398" "calls min_mysql_pwrite64_openat_0_0_body398 = 13" "opened_in m min_mysql_pwrite64_openat_0_0_body398 = []"
  by (simp_all add: min_mysql_pwrite64_openat_0_0_body398_def prog_checks open_checks)

lemma min_mysql_pwrite64_openat_0_0_body399_ok: "body_ok (Suc 0) 8192 min_mysql_pwrite64_openat_0_0_body399" "counted min_mysql_pwrite64_openat_0_0_body399" "calls min_mysql_pwrite64_openat_0_0_body399 = 13" "opened_in m min_mysql_pwrite64_openat_0_0_body399 = []"
  by (simp_all add: min_mysql_pwrite64_openat_0_0_body399_def prog_checks open_checks)

lemma min_mysql_pwrite64_openat_0_0_body400_ok: "body_ok (Suc 0) 8192 min_mysql_pwrite64_openat_0_0_body400" "counted min_mysql_pwrite64_openat_0_0_body400" "calls min_mysql_pwrite64_openat_0_0_body400 = 13" "opened_in m min_mysql_pwrite64_openat_0_0_body400 = []"
  by (simp_all add: min_mysql_pwrite64_openat_0_0_body400_def prog_checks open_checks)

lemma min_mysql_pwrite64_openat_0_0_body401_ok: "body_ok (Suc 0) 8192 min_mysql_pwrite64_openat_0_0_body401" "counted min_mysql_pwrite64_openat_0_0_body401" "calls min_mysql_pwrite64_openat_0_0_body401 = 13" "opened_in m min_mysql_pwrite64_openat_0_0_body401 = []"
  by (simp_all add: min_mysql_pwrite64_openat_0_0_body401_def prog_checks open_checks)

lemma min_mysql_pwrite64_openat_0_0_body402_ok: "body_ok (Suc 0) 8192 min_mysql_pwrite64_openat_0_0_body402" "counted min_mysql_pwrite64_openat_0_0_body402" "calls min_mysql_pwrite64_openat_0_0_body402 = 13" "opened_in m min_mysql_pwrite64_openat_0_0_body402 = []"
  by (simp_all add: min_mysql_pwrite64_openat_0_0_body402_def prog_checks open_checks)

lemma min_mysql_pwrite64_openat_0_0_body403_ok: "body_ok (Suc 0) 8192 min_mysql_pwrite64_openat_0_0_body403" "counted min_mysql_pwrite64_openat_0_0_body403" "calls min_mysql_pwrite64_openat_0_0_body403 = 13" "opened_in m min_mysql_pwrite64_openat_0_0_body403 = []"
  by (simp_all add: min_mysql_pwrite64_openat_0_0_body403_def prog_checks open_checks)

lemma min_mysql_pwrite64_openat_0_0_body404_ok: "body_ok (Suc 0) 8192 min_mysql_pwrite64_openat_0_0_body404" "counted min_mysql_pwrite64_openat_0_0_body404" "calls min_mysql_pwrite64_openat_0_0_body404 = 13" "opened_in m min_mysql_pwrite64_openat_0_0_body404 = []"
  by (simp_all add: min_mysql_pwrite64_openat_0_0_body404_def prog_checks open_checks)

lemma min_mysql_pwrite64_openat_0_0_body405_ok: "body_ok (Suc 0) 8192 min_mysql_pwrite64_openat_0_0_body405" "counted min_mysql_pwrite64_openat_0_0_body405" "calls min_mysql_pwrite64_openat_0_0_body405 = 13" "opened_in m min_mysql_pwrite64_openat_0_0_body405 = []"
  by (simp_all add: min_mysql_pwrite64_openat_0_0_body405_def prog_checks open_checks)

lemma min_mysql_pwrite64_openat_0_0_body406_ok: "body_ok (Suc 0) 8192 min_mysql_pwrite64_openat_0_0_body406" "counted min_mysql_pwrite64_openat_0_0_body406" "calls min_mysql_pwrite64_openat_0_0_body406 = 13" "opened_in m min_mysql_pwrite64_openat_0_0_body406 = []"
  by (simp_all add: min_mysql_pwrite64_openat_0_0_body406_def prog_checks open_checks)

lemma min_mysql_pwrite64_openat_0_0_body407_ok: "body_ok (Suc 0) 8192 min_mysql_pwrite64_openat_0_0_body407" "counted min_mysql_pwrite64_openat_0_0_body407" "calls min_mysql_pwrite64_openat_0_0_body407 = 13" "opened_in m min_mysql_pwrite64_openat_0_0_body407 = []"
  by (simp_all add: min_mysql_pwrite64_openat_0_0_body407_def prog_checks open_checks)

lemma min_mysql_pwrite64_openat_0_0_body408_ok: "body_ok (Suc 0) 8192 min_mysql_pwrite64_openat_0_0_body408" "counted min_mysql_pwrite64_openat_0_0_body408" "calls min_mysql_pwrite64_openat_0_0_body408 = 13" "opened_in m min_mysql_pwrite64_openat_0_0_body408 = []"
  by (simp_all add: min_mysql_pwrite64_openat_0_0_body408_def prog_checks open_checks)

lemma min_mysql_pwrite64_openat_0_0_body409_ok: "body_ok (Suc 0) 8192 min_mysql_pwrite64_openat_0_0_body409" "counted min_mysql_pwrite64_openat_0_0_body409" "calls min_mysql_pwrite64_openat_0_0_body409 = 13" "opened_in m min_mysql_pwrite64_openat_0_0_body409 = []"
  by (simp_all add: min_mysql_pwrite64_openat_0_0_body409_def prog_checks open_checks)

lemma min_mysql_pwrite64_openat_0_0_body410_ok: "body_ok (Suc 0) 8192 min_mysql_pwrite64_openat_0_0_body410" "counted min_mysql_pwrite64_openat_0_0_body410" "calls min_mysql_pwrite64_openat_0_0_body410 = 13" "opened_in m min_mysql_pwrite64_openat_0_0_body410 = []"
  by (simp_all add: min_mysql_pwrite64_openat_0_0_body410_def prog_checks open_checks)

lemma min_mysql_pwrite64_openat_0_0_body411_ok: "body_ok (Suc 0) 8192 min_mysql_pwrite64_openat_0_0_body411" "counted min_mysql_pwrite64_openat_0_0_body411" "calls min_mysql_pwrite64_openat_0_0_body411 = 13" "opened_in m min_mysql_pwrite64_openat_0_0_body411 = []"
  by (simp_all add: min_mysql_pwrite64_openat_0_0_body411_def prog_checks open_checks)

lemma min_mysql_pwrite64_openat_0_0_body412_ok: "body_ok (Suc 0) 8192 min_mysql_pwrite64_openat_0_0_body412" "counted min_mysql_pwrite64_openat_0_0_body412" "calls min_mysql_pwrite64_openat_0_0_body412 = 13" "opened_in m min_mysql_pwrite64_openat_0_0_body412 = []"
  by (simp_all add: min_mysql_pwrite64_openat_0_0_body412_def prog_checks open_checks)

lemma min_mysql_pwrite64_openat_0_0_body413_ok: "body_ok (Suc 0) 8192 min_mysql_pwrite64_openat_0_0_body413" "counted min_mysql_pwrite64_openat_0_0_body413" "calls min_mysql_pwrite64_openat_0_0_body413 = 13" "opened_in m min_mysql_pwrite64_openat_0_0_body413 = []"
  by (simp_all add: min_mysql_pwrite64_openat_0_0_body413_def prog_checks open_checks)

lemma min_mysql_pwrite64_openat_0_0_body414_ok: "body_ok (Suc 0) 8192 min_mysql_pwrite64_openat_0_0_body414" "counted min_mysql_pwrite64_openat_0_0_body414" "calls min_mysql_pwrite64_openat_0_0_body414 = 13" "opened_in m min_mysql_pwrite64_openat_0_0_body414 = []"
  by (simp_all add: min_mysql_pwrite64_openat_0_0_body414_def prog_checks open_checks)

lemma min_mysql_pwrite64_openat_0_0_body415_ok: "body_ok (Suc 0) 8192 min_mysql_pwrite64_openat_0_0_body415" "counted min_mysql_pwrite64_openat_0_0_body415" "calls min_mysql_pwrite64_openat_0_0_body415 = 13" "opened_in m min_mysql_pwrite64_openat_0_0_body415 = []"
  by (simp_all add: min_mysql_pwrite64_openat_0_0_body415_def prog_checks open_checks)

lemma min_mysql_pwrite64_openat_0_0_body416_ok: "body_ok (Suc 0) 8192 min_mysql_pwrite64_openat_0_0_body416" "counted min_mysql_pwrite64_openat_0_0_body416" "calls min_mysql_pwrite64_openat_0_0_body416 = 13" "opened_in m min_mysql_pwrite64_openat_0_0_body416 = []"
  by (simp_all add: min_mysql_pwrite64_openat_0_0_body416_def prog_checks open_checks)

lemma min_mysql_pwrite64_openat_0_0_body417_ok: "body_ok (Suc 0) 8192 min_mysql_pwrite64_openat_0_0_body417" "counted min_mysql_pwrite64_openat_0_0_body417" "calls min_mysql_pwrite64_openat_0_0_body417 = 13" "opened_in m min_mysql_pwrite64_openat_0_0_body417 = []"
  by (simp_all add: min_mysql_pwrite64_openat_0_0_body417_def prog_checks open_checks)

lemma min_mysql_pwrite64_openat_0_0_body418_ok: "body_ok (Suc 0) 8192 min_mysql_pwrite64_openat_0_0_body418" "counted min_mysql_pwrite64_openat_0_0_body418" "calls min_mysql_pwrite64_openat_0_0_body418 = 13" "opened_in m min_mysql_pwrite64_openat_0_0_body418 = []"
  by (simp_all add: min_mysql_pwrite64_openat_0_0_body418_def prog_checks open_checks)

lemma min_mysql_pwrite64_openat_0_0_body419_ok: "body_ok (Suc 0) 8192 min_mysql_pwrite64_openat_0_0_body419" "counted min_mysql_pwrite64_openat_0_0_body419" "calls min_mysql_pwrite64_openat_0_0_body419 = 13" "opened_in m min_mysql_pwrite64_openat_0_0_body419 = []"
  by (simp_all add: min_mysql_pwrite64_openat_0_0_body419_def prog_checks open_checks)

lemma min_mysql_pwrite64_openat_0_0_body420_ok: "body_ok (Suc 0) 8192 min_mysql_pwrite64_openat_0_0_body420" "counted min_mysql_pwrite64_openat_0_0_body420" "calls min_mysql_pwrite64_openat_0_0_body420 = 13" "opened_in m min_mysql_pwrite64_openat_0_0_body420 = []"
  by (simp_all add: min_mysql_pwrite64_openat_0_0_body420_def prog_checks open_checks)

lemma min_mysql_pwrite64_openat_0_0_body421_ok: "body_ok (Suc 0) 8192 min_mysql_pwrite64_openat_0_0_body421" "counted min_mysql_pwrite64_openat_0_0_body421" "calls min_mysql_pwrite64_openat_0_0_body421 = 13" "opened_in m min_mysql_pwrite64_openat_0_0_body421 = []"
  by (simp_all add: min_mysql_pwrite64_openat_0_0_body421_def prog_checks open_checks)

lemma min_mysql_pwrite64_openat_0_0_body422_ok: "body_ok (Suc 0) 8192 min_mysql_pwrite64_openat_0_0_body422" "counted min_mysql_pwrite64_openat_0_0_body422" "calls min_mysql_pwrite64_openat_0_0_body422 = 13" "opened_in m min_mysql_pwrite64_openat_0_0_body422 = []"
  by (simp_all add: min_mysql_pwrite64_openat_0_0_body422_def prog_checks open_checks)

lemma min_mysql_pwrite64_openat_0_0_body423_ok: "body_ok (Suc 0) 8192 min_mysql_pwrite64_openat_0_0_body423" "counted min_mysql_pwrite64_openat_0_0_body423" "calls min_mysql_pwrite64_openat_0_0_body423 = 13" "opened_in m min_mysql_pwrite64_openat_0_0_body423 = []"
  by (simp_all add: min_mysql_pwrite64_openat_0_0_body423_def prog_checks open_checks)

lemma min_mysql_pwrite64_openat_0_0_body424_ok: "body_ok (Suc 0) 8192 min_mysql_pwrite64_openat_0_0_body424" "counted min_mysql_pwrite64_openat_0_0_body424" "calls min_mysql_pwrite64_openat_0_0_body424 = 13" "opened_in m min_mysql_pwrite64_openat_0_0_body424 = []"
  by (simp_all add: min_mysql_pwrite64_openat_0_0_body424_def prog_checks open_checks)

lemma min_mysql_pwrite64_openat_0_0_body425_ok: "body_ok (Suc 0) 8192 min_mysql_pwrite64_openat_0_0_body425" "counted min_mysql_pwrite64_openat_0_0_body425" "calls min_mysql_pwrite64_openat_0_0_body425 = 13" "opened_in m min_mysql_pwrite64_openat_0_0_body425 = []"
  by (simp_all add: min_mysql_pwrite64_openat_0_0_body425_def prog_checks open_checks)

lemma min_mysql_pwrite64_openat_0_0_body426_ok: "body_ok (Suc 0) 8192 min_mysql_pwrite64_openat_0_0_body426" "counted min_mysql_pwrite64_openat_0_0_body426" "calls min_mysql_pwrite64_openat_0_0_body426 = 13" "opened_in m min_mysql_pwrite64_openat_0_0_body426 = []"
  by (simp_all add: min_mysql_pwrite64_openat_0_0_body426_def prog_checks open_checks)

lemma min_mysql_pwrite64_openat_0_0_body427_ok: "body_ok (Suc 0) 8192 min_mysql_pwrite64_openat_0_0_body427" "counted min_mysql_pwrite64_openat_0_0_body427" "calls min_mysql_pwrite64_openat_0_0_body427 = 13" "opened_in m min_mysql_pwrite64_openat_0_0_body427 = []"
  by (simp_all add: min_mysql_pwrite64_openat_0_0_body427_def prog_checks open_checks)

lemma min_mysql_pwrite64_openat_0_0_body428_ok: "body_ok (Suc 0) 8192 min_mysql_pwrite64_openat_0_0_body428" "counted min_mysql_pwrite64_openat_0_0_body428" "calls min_mysql_pwrite64_openat_0_0_body428 = 13" "opened_in m min_mysql_pwrite64_openat_0_0_body428 = []"
  by (simp_all add: min_mysql_pwrite64_openat_0_0_body428_def prog_checks open_checks)

lemma min_mysql_pwrite64_openat_0_0_body429_ok: "body_ok (Suc 0) 8192 min_mysql_pwrite64_openat_0_0_body429" "counted min_mysql_pwrite64_openat_0_0_body429" "calls min_mysql_pwrite64_openat_0_0_body429 = 13" "opened_in m min_mysql_pwrite64_openat_0_0_body429 = []"
  by (simp_all add: min_mysql_pwrite64_openat_0_0_body429_def prog_checks open_checks)

lemma min_mysql_pwrite64_openat_0_0_body430_ok: "body_ok (Suc 0) 8192 min_mysql_pwrite64_openat_0_0_body430" "counted min_mysql_pwrite64_openat_0_0_body430" "calls min_mysql_pwrite64_openat_0_0_body430 = 13" "opened_in m min_mysql_pwrite64_openat_0_0_body430 = []"
  by (simp_all add: min_mysql_pwrite64_openat_0_0_body430_def prog_checks open_checks)

lemma min_mysql_pwrite64_openat_0_0_body431_ok: "body_ok (Suc 0) 8192 min_mysql_pwrite64_openat_0_0_body431" "counted min_mysql_pwrite64_openat_0_0_body431" "calls min_mysql_pwrite64_openat_0_0_body431 = 13" "opened_in m min_mysql_pwrite64_openat_0_0_body431 = []"
  by (simp_all add: min_mysql_pwrite64_openat_0_0_body431_def prog_checks open_checks)

lemma min_mysql_pwrite64_openat_0_0_body432_ok: "body_ok (Suc 0) 8192 min_mysql_pwrite64_openat_0_0_body432" "counted min_mysql_pwrite64_openat_0_0_body432" "calls min_mysql_pwrite64_openat_0_0_body432 = 13" "opened_in m min_mysql_pwrite64_openat_0_0_body432 = []"
  by (simp_all add: min_mysql_pwrite64_openat_0_0_body432_def prog_checks open_checks)

lemma min_mysql_pwrite64_openat_0_0_body433_ok: "body_ok (Suc 0) 8192 min_mysql_pwrite64_openat_0_0_body433" "counted min_mysql_pwrite64_openat_0_0_body433" "calls min_mysql_pwrite64_openat_0_0_body433 = 13" "opened_in m min_mysql_pwrite64_openat_0_0_body433 = []"
  by (simp_all add: min_mysql_pwrite64_openat_0_0_body433_def prog_checks open_checks)

lemma min_mysql_pwrite64_openat_0_0_body434_ok: "body_ok (Suc 0) 8192 min_mysql_pwrite64_openat_0_0_body434" "counted min_mysql_pwrite64_openat_0_0_body434" "calls min_mysql_pwrite64_openat_0_0_body434 = 13" "opened_in m min_mysql_pwrite64_openat_0_0_body434 = []"
  by (simp_all add: min_mysql_pwrite64_openat_0_0_body434_def prog_checks open_checks)

lemma min_mysql_pwrite64_openat_0_0_body435_ok: "body_ok (Suc 0) 8192 min_mysql_pwrite64_openat_0_0_body435" "counted min_mysql_pwrite64_openat_0_0_body435" "calls min_mysql_pwrite64_openat_0_0_body435 = 13" "opened_in m min_mysql_pwrite64_openat_0_0_body435 = []"
  by (simp_all add: min_mysql_pwrite64_openat_0_0_body435_def prog_checks open_checks)

lemma min_mysql_pwrite64_openat_0_0_body436_ok: "body_ok (Suc 0) 8192 min_mysql_pwrite64_openat_0_0_body436" "counted min_mysql_pwrite64_openat_0_0_body436" "calls min_mysql_pwrite64_openat_0_0_body436 = 13" "opened_in m min_mysql_pwrite64_openat_0_0_body436 = []"
  by (simp_all add: min_mysql_pwrite64_openat_0_0_body436_def prog_checks open_checks)

lemma min_mysql_pwrite64_openat_0_0_body437_ok: "body_ok (Suc 0) 8192 min_mysql_pwrite64_openat_0_0_body437" "counted min_mysql_pwrite64_openat_0_0_body437" "calls min_mysql_pwrite64_openat_0_0_body437 = 13" "opened_in m min_mysql_pwrite64_openat_0_0_body437 = []"
  by (simp_all add: min_mysql_pwrite64_openat_0_0_body437_def prog_checks open_checks)

lemma min_mysql_pwrite64_openat_0_0_body438_ok: "body_ok (Suc 0) 8192 min_mysql_pwrite64_openat_0_0_body438" "counted min_mysql_pwrite64_openat_0_0_body438" "calls min_mysql_pwrite64_openat_0_0_body438 = 13" "opened_in m min_mysql_pwrite64_openat_0_0_body438 = []"
  by (simp_all add: min_mysql_pwrite64_openat_0_0_body438_def prog_checks open_checks)

lemma min_mysql_pwrite64_openat_0_0_body439_ok: "body_ok (Suc 0) 8192 min_mysql_pwrite64_openat_0_0_body439" "counted min_mysql_pwrite64_openat_0_0_body439" "calls min_mysql_pwrite64_openat_0_0_body439 = 13" "opened_in m min_mysql_pwrite64_openat_0_0_body439 = []"
  by (simp_all add: min_mysql_pwrite64_openat_0_0_body439_def prog_checks open_checks)

lemma min_mysql_pwrite64_openat_0_0_body440_ok: "body_ok (Suc 0) 8192 min_mysql_pwrite64_openat_0_0_body440" "counted min_mysql_pwrite64_openat_0_0_body440" "calls min_mysql_pwrite64_openat_0_0_body440 = 13" "opened_in m min_mysql_pwrite64_openat_0_0_body440 = []"
  by (simp_all add: min_mysql_pwrite64_openat_0_0_body440_def prog_checks open_checks)

lemma min_mysql_pwrite64_openat_0_0_body441_ok: "body_ok (Suc 0) 8192 min_mysql_pwrite64_openat_0_0_body441" "counted min_mysql_pwrite64_openat_0_0_body441" "calls min_mysql_pwrite64_openat_0_0_body441 = 13" "opened_in m min_mysql_pwrite64_openat_0_0_body441 = []"
  by (simp_all add: min_mysql_pwrite64_openat_0_0_body441_def prog_checks open_checks)

lemma min_mysql_pwrite64_openat_0_0_body442_ok: "body_ok (Suc 0) 8192 min_mysql_pwrite64_openat_0_0_body442" "counted min_mysql_pwrite64_openat_0_0_body442" "calls min_mysql_pwrite64_openat_0_0_body442 = 13" "opened_in m min_mysql_pwrite64_openat_0_0_body442 = []"
  by (simp_all add: min_mysql_pwrite64_openat_0_0_body442_def prog_checks open_checks)

lemma min_mysql_pwrite64_openat_0_0_body443_ok: "body_ok (Suc 0) 8192 min_mysql_pwrite64_openat_0_0_body443" "counted min_mysql_pwrite64_openat_0_0_body443" "calls min_mysql_pwrite64_openat_0_0_body443 = 13" "opened_in m min_mysql_pwrite64_openat_0_0_body443 = []"
  by (simp_all add: min_mysql_pwrite64_openat_0_0_body443_def prog_checks open_checks)

lemma min_mysql_pwrite64_openat_0_0_body444_ok: "body_ok (Suc 0) 8192 min_mysql_pwrite64_openat_0_0_body444" "counted min_mysql_pwrite64_openat_0_0_body444" "calls min_mysql_pwrite64_openat_0_0_body444 = 13" "opened_in m min_mysql_pwrite64_openat_0_0_body444 = []"
  by (simp_all add: min_mysql_pwrite64_openat_0_0_body444_def prog_checks open_checks)

lemma min_mysql_pwrite64_openat_0_0_body445_ok: "body_ok (Suc 0) 8192 min_mysql_pwrite64_openat_0_0_body445" "counted min_mysql_pwrite64_openat_0_0_body445" "calls min_mysql_pwrite64_openat_0_0_body445 = 13" "opened_in m min_mysql_pwrite64_openat_0_0_body445 = []"
  by (simp_all add: min_mysql_pwrite64_openat_0_0_body445_def prog_checks open_checks)

lemma min_mysql_pwrite64_openat_0_0_body446_ok: "body_ok (Suc 0) 8192 min_mysql_pwrite64_openat_0_0_body446" "counted min_mysql_pwrite64_openat_0_0_body446" "calls min_mysql_pwrite64_openat_0_0_body446 = 13" "opened_in m min_mysql_pwrite64_openat_0_0_body446 = []"
  by (simp_all add: min_mysql_pwrite64_openat_0_0_body446_def prog_checks open_checks)

lemma min_mysql_pwrite64_openat_0_0_body447_ok: "body_ok (Suc 0) 8192 min_mysql_pwrite64_openat_0_0_body447" "counted min_mysql_pwrite64_openat_0_0_body447" "calls min_mysql_pwrite64_openat_0_0_body447 = 13" "opened_in m min_mysql_pwrite64_openat_0_0_body447 = []"
  by (simp_all add: min_mysql_pwrite64_openat_0_0_body447_def prog_checks open_checks)

lemma min_mysql_pwrite64_openat_0_0_body448_ok: "body_ok (Suc 0) 8192 min_mysql_pwrite64_openat_0_0_body448" "counted min_mysql_pwrite64_openat_0_0_body448" "calls min_mysql_pwrite64_openat_0_0_body448 = 13" "opened_in m min_mysql_pwrite64_openat_0_0_body448 = []"
  by (simp_all add: min_mysql_pwrite64_openat_0_0_body448_def prog_checks open_checks)

lemma min_mysql_pwrite64_openat_0_0_body449_ok: "body_ok (Suc 0) 8192 min_mysql_pwrite64_openat_0_0_body449" "counted min_mysql_pwrite64_openat_0_0_body449" "calls min_mysql_pwrite64_openat_0_0_body449 = 13" "opened_in m min_mysql_pwrite64_openat_0_0_body449 = []"
  by (simp_all add: min_mysql_pwrite64_openat_0_0_body449_def prog_checks open_checks)

lemma min_mysql_pwrite64_openat_0_0_body450_ok: "body_ok (Suc 0) 8192 min_mysql_pwrite64_openat_0_0_body450" "counted min_mysql_pwrite64_openat_0_0_body450" "calls min_mysql_pwrite64_openat_0_0_body450 = 13" "opened_in m min_mysql_pwrite64_openat_0_0_body450 = []"
  by (simp_all add: min_mysql_pwrite64_openat_0_0_body450_def prog_checks open_checks)

lemma min_mysql_pwrite64_openat_0_0_body451_ok: "body_ok (Suc 0) 8192 min_mysql_pwrite64_openat_0_0_body451" "counted min_mysql_pwrite64_openat_0_0_body451" "calls min_mysql_pwrite64_openat_0_0_body451 = 13" "opened_in m min_mysql_pwrite64_openat_0_0_body451 = []"
  by (simp_all add: min_mysql_pwrite64_openat_0_0_body451_def prog_checks open_checks)

lemma min_mysql_pwrite64_openat_0_0_body452_ok: "body_ok (Suc 0) 8192 min_mysql_pwrite64_openat_0_0_body452" "counted min_mysql_pwrite64_openat_0_0_body452" "calls min_mysql_pwrite64_openat_0_0_body452 = 13" "opened_in m min_mysql_pwrite64_openat_0_0_body452 = []"
  by (simp_all add: min_mysql_pwrite64_openat_0_0_body452_def prog_checks open_checks)

lemma min_mysql_pwrite64_openat_0_0_body453_ok: "body_ok (Suc 0) 8192 min_mysql_pwrite64_openat_0_0_body453" "counted min_mysql_pwrite64_openat_0_0_body453" "calls min_mysql_pwrite64_openat_0_0_body453 = 13" "opened_in m min_mysql_pwrite64_openat_0_0_body453 = []"
  by (simp_all add: min_mysql_pwrite64_openat_0_0_body453_def prog_checks open_checks)

lemma min_mysql_pwrite64_openat_0_0_body454_ok: "body_ok (Suc 0) 8192 min_mysql_pwrite64_openat_0_0_body454" "counted min_mysql_pwrite64_openat_0_0_body454" "calls min_mysql_pwrite64_openat_0_0_body454 = 13" "opened_in m min_mysql_pwrite64_openat_0_0_body454 = []"
  by (simp_all add: min_mysql_pwrite64_openat_0_0_body454_def prog_checks open_checks)

lemma min_mysql_pwrite64_openat_0_0_body455_ok: "body_ok (Suc 0) 8192 min_mysql_pwrite64_openat_0_0_body455" "counted min_mysql_pwrite64_openat_0_0_body455" "calls min_mysql_pwrite64_openat_0_0_body455 = 13" "opened_in m min_mysql_pwrite64_openat_0_0_body455 = []"
  by (simp_all add: min_mysql_pwrite64_openat_0_0_body455_def prog_checks open_checks)

lemma min_mysql_pwrite64_openat_0_0_body456_ok: "body_ok (Suc 0) 8192 min_mysql_pwrite64_openat_0_0_body456" "counted min_mysql_pwrite64_openat_0_0_body456" "calls min_mysql_pwrite64_openat_0_0_body456 = 13" "opened_in m min_mysql_pwrite64_openat_0_0_body456 = []"
  by (simp_all add: min_mysql_pwrite64_openat_0_0_body456_def prog_checks open_checks)

lemma min_mysql_pwrite64_openat_0_0_body457_ok: "body_ok (Suc 0) 8192 min_mysql_pwrite64_openat_0_0_body457" "counted min_mysql_pwrite64_openat_0_0_body457" "calls min_mysql_pwrite64_openat_0_0_body457 = 13" "opened_in m min_mysql_pwrite64_openat_0_0_body457 = []"
  by (simp_all add: min_mysql_pwrite64_openat_0_0_body457_def prog_checks open_checks)

lemma min_mysql_pwrite64_openat_0_0_body458_ok: "body_ok (Suc 0) 8192 min_mysql_pwrite64_openat_0_0_body458" "counted min_mysql_pwrite64_openat_0_0_body458" "calls min_mysql_pwrite64_openat_0_0_body458 = 13" "opened_in m min_mysql_pwrite64_openat_0_0_body458 = []"
  by (simp_all add: min_mysql_pwrite64_openat_0_0_body458_def prog_checks open_checks)

lemma min_mysql_pwrite64_openat_0_0_body459_ok: "body_ok (Suc 0) 8192 min_mysql_pwrite64_openat_0_0_body459" "counted min_mysql_pwrite64_openat_0_0_body459" "calls min_mysql_pwrite64_openat_0_0_body459 = 13" "opened_in m min_mysql_pwrite64_openat_0_0_body459 = []"
  by (simp_all add: min_mysql_pwrite64_openat_0_0_body459_def prog_checks open_checks)

lemma min_mysql_pwrite64_openat_0_0_body460_ok: "body_ok (Suc 0) 8192 min_mysql_pwrite64_openat_0_0_body460" "counted min_mysql_pwrite64_openat_0_0_body460" "calls min_mysql_pwrite64_openat_0_0_body460 = 13" "opened_in m min_mysql_pwrite64_openat_0_0_body460 = []"
  by (simp_all add: min_mysql_pwrite64_openat_0_0_body460_def prog_checks open_checks)

lemma min_mysql_pwrite64_openat_0_0_body461_ok: "body_ok (Suc 0) 8192 min_mysql_pwrite64_openat_0_0_body461" "counted min_mysql_pwrite64_openat_0_0_body461" "calls min_mysql_pwrite64_openat_0_0_body461 = 13" "opened_in m min_mysql_pwrite64_openat_0_0_body461 = []"
  by (simp_all add: min_mysql_pwrite64_openat_0_0_body461_def prog_checks open_checks)

lemma min_mysql_pwrite64_openat_0_0_body462_ok: "body_ok (Suc 0) 8192 min_mysql_pwrite64_openat_0_0_body462" "counted min_mysql_pwrite64_openat_0_0_body462" "calls min_mysql_pwrite64_openat_0_0_body462 = 13" "opened_in m min_mysql_pwrite64_openat_0_0_body462 = []"
  by (simp_all add: min_mysql_pwrite64_openat_0_0_body462_def prog_checks open_checks)

lemma min_mysql_pwrite64_openat_0_0_body463_ok: "body_ok (Suc 0) 8192 min_mysql_pwrite64_openat_0_0_body463" "counted min_mysql_pwrite64_openat_0_0_body463" "calls min_mysql_pwrite64_openat_0_0_body463 = 13" "opened_in m min_mysql_pwrite64_openat_0_0_body463 = []"
  by (simp_all add: min_mysql_pwrite64_openat_0_0_body463_def prog_checks open_checks)

lemma min_mysql_pwrite64_openat_0_0_body464_ok: "body_ok (Suc 0) 8192 min_mysql_pwrite64_openat_0_0_body464" "counted min_mysql_pwrite64_openat_0_0_body464" "calls min_mysql_pwrite64_openat_0_0_body464 = 13" "opened_in m min_mysql_pwrite64_openat_0_0_body464 = []"
  by (simp_all add: min_mysql_pwrite64_openat_0_0_body464_def prog_checks open_checks)

lemma min_mysql_pwrite64_openat_0_0_body465_ok: "body_ok (Suc 0) 8192 min_mysql_pwrite64_openat_0_0_body465" "counted min_mysql_pwrite64_openat_0_0_body465" "calls min_mysql_pwrite64_openat_0_0_body465 = 13" "opened_in m min_mysql_pwrite64_openat_0_0_body465 = []"
  by (simp_all add: min_mysql_pwrite64_openat_0_0_body465_def prog_checks open_checks)

lemma min_mysql_pwrite64_openat_0_0_body466_ok: "body_ok (Suc 0) 8192 min_mysql_pwrite64_openat_0_0_body466" "counted min_mysql_pwrite64_openat_0_0_body466" "calls min_mysql_pwrite64_openat_0_0_body466 = 13" "opened_in m min_mysql_pwrite64_openat_0_0_body466 = []"
  by (simp_all add: min_mysql_pwrite64_openat_0_0_body466_def prog_checks open_checks)

lemma min_mysql_pwrite64_openat_0_0_body467_ok: "body_ok (Suc 0) 8192 min_mysql_pwrite64_openat_0_0_body467" "counted min_mysql_pwrite64_openat_0_0_body467" "calls min_mysql_pwrite64_openat_0_0_body467 = 13" "opened_in m min_mysql_pwrite64_openat_0_0_body467 = []"
  by (simp_all add: min_mysql_pwrite64_openat_0_0_body467_def prog_checks open_checks)

lemma min_mysql_pwrite64_openat_0_0_body468_ok: "body_ok (Suc 0) 8192 min_mysql_pwrite64_openat_0_0_body468" "counted min_mysql_pwrite64_openat_0_0_body468" "calls min_mysql_pwrite64_openat_0_0_body468 = 13" "opened_in m min_mysql_pwrite64_openat_0_0_body468 = []"
  by (simp_all add: min_mysql_pwrite64_openat_0_0_body468_def prog_checks open_checks)

lemma min_mysql_pwrite64_openat_0_0_body469_ok: "body_ok (Suc 0) 8192 min_mysql_pwrite64_openat_0_0_body469" "counted min_mysql_pwrite64_openat_0_0_body469" "calls min_mysql_pwrite64_openat_0_0_body469 = 13" "opened_in m min_mysql_pwrite64_openat_0_0_body469 = []"
  by (simp_all add: min_mysql_pwrite64_openat_0_0_body469_def prog_checks open_checks)

lemma min_mysql_pwrite64_openat_0_0_body470_ok: "body_ok (Suc 0) 8192 min_mysql_pwrite64_openat_0_0_body470" "counted min_mysql_pwrite64_openat_0_0_body470" "calls min_mysql_pwrite64_openat_0_0_body470 = 13" "opened_in m min_mysql_pwrite64_openat_0_0_body470 = []"
  by (simp_all add: min_mysql_pwrite64_openat_0_0_body470_def prog_checks open_checks)

lemma min_mysql_pwrite64_openat_0_0_body471_ok: "body_ok (Suc 0) 8192 min_mysql_pwrite64_openat_0_0_body471" "counted min_mysql_pwrite64_openat_0_0_body471" "calls min_mysql_pwrite64_openat_0_0_body471 = 13" "opened_in m min_mysql_pwrite64_openat_0_0_body471 = []"
  by (simp_all add: min_mysql_pwrite64_openat_0_0_body471_def prog_checks open_checks)

lemma min_mysql_pwrite64_openat_0_0_body472_ok: "body_ok (Suc 0) 8192 min_mysql_pwrite64_openat_0_0_body472" "counted min_mysql_pwrite64_openat_0_0_body472" "calls min_mysql_pwrite64_openat_0_0_body472 = 13" "opened_in m min_mysql_pwrite64_openat_0_0_body472 = []"
  by (simp_all add: min_mysql_pwrite64_openat_0_0_body472_def prog_checks open_checks)

lemma min_mysql_pwrite64_openat_0_0_body473_ok: "body_ok (Suc 0) 8192 min_mysql_pwrite64_openat_0_0_body473" "counted min_mysql_pwrite64_openat_0_0_body473" "calls min_mysql_pwrite64_openat_0_0_body473 = 13" "opened_in m min_mysql_pwrite64_openat_0_0_body473 = []"
  by (simp_all add: min_mysql_pwrite64_openat_0_0_body473_def prog_checks open_checks)

lemma min_mysql_pwrite64_openat_0_0_body474_ok: "body_ok (Suc 0) 8192 min_mysql_pwrite64_openat_0_0_body474" "counted min_mysql_pwrite64_openat_0_0_body474" "calls min_mysql_pwrite64_openat_0_0_body474 = 13" "opened_in m min_mysql_pwrite64_openat_0_0_body474 = []"
  by (simp_all add: min_mysql_pwrite64_openat_0_0_body474_def prog_checks open_checks)

lemma min_mysql_pwrite64_openat_0_0_body475_ok: "body_ok (Suc 0) 8192 min_mysql_pwrite64_openat_0_0_body475" "counted min_mysql_pwrite64_openat_0_0_body475" "calls min_mysql_pwrite64_openat_0_0_body475 = 13" "opened_in m min_mysql_pwrite64_openat_0_0_body475 = []"
  by (simp_all add: min_mysql_pwrite64_openat_0_0_body475_def prog_checks open_checks)

lemma min_mysql_pwrite64_openat_0_0_body476_ok: "body_ok (Suc 0) 8192 min_mysql_pwrite64_openat_0_0_body476" "counted min_mysql_pwrite64_openat_0_0_body476" "calls min_mysql_pwrite64_openat_0_0_body476 = 13" "opened_in m min_mysql_pwrite64_openat_0_0_body476 = []"
  by (simp_all add: min_mysql_pwrite64_openat_0_0_body476_def prog_checks open_checks)

lemma min_mysql_pwrite64_openat_0_0_body477_ok: "body_ok (Suc 0) 8192 min_mysql_pwrite64_openat_0_0_body477" "counted min_mysql_pwrite64_openat_0_0_body477" "calls min_mysql_pwrite64_openat_0_0_body477 = 13" "opened_in m min_mysql_pwrite64_openat_0_0_body477 = []"
  by (simp_all add: min_mysql_pwrite64_openat_0_0_body477_def prog_checks open_checks)

lemma min_mysql_pwrite64_openat_0_0_body478_ok: "body_ok (Suc 0) 8192 min_mysql_pwrite64_openat_0_0_body478" "counted min_mysql_pwrite64_openat_0_0_body478" "calls min_mysql_pwrite64_openat_0_0_body478 = 13" "opened_in m min_mysql_pwrite64_openat_0_0_body478 = []"
  by (simp_all add: min_mysql_pwrite64_openat_0_0_body478_def prog_checks open_checks)

lemma min_mysql_pwrite64_openat_0_0_body479_ok: "body_ok (Suc 0) 8192 min_mysql_pwrite64_openat_0_0_body479" "counted min_mysql_pwrite64_openat_0_0_body479" "calls min_mysql_pwrite64_openat_0_0_body479 = 13" "opened_in m min_mysql_pwrite64_openat_0_0_body479 = []"
  by (simp_all add: min_mysql_pwrite64_openat_0_0_body479_def prog_checks open_checks)

lemma min_mysql_pwrite64_openat_0_0_body480_ok: "body_ok (Suc 0) 8192 min_mysql_pwrite64_openat_0_0_body480" "counted min_mysql_pwrite64_openat_0_0_body480" "calls min_mysql_pwrite64_openat_0_0_body480 = 13" "opened_in m min_mysql_pwrite64_openat_0_0_body480 = []"
  by (simp_all add: min_mysql_pwrite64_openat_0_0_body480_def prog_checks open_checks)

end
