(* ===== verification/CSB_Progs_Mysql_v2l_p5.thy ===== *)
theory CSB_Progs_Mysql_v2l_p5
  imports CSB_Syz_Files
begin

text \<open>
  Statements of min\_mysql\_pwrite64\_openat\_0\_0 (bench/targets/mysql\_v2), in the
  order of the file; the program is put together in CSB\_Progs\_Mysql\_v2l.
\<close>

definition min_mysql_pwrite64_openat_0_0_body481 :: "stmt list" where
  "min_mysql_pwrite64_openat_0_0_body481 = [
    Syscall NR_pwrite64 [Reg 0, Write_buf, Imm 0x1200, Imm 0x1e458e00], Count,
    Syscall NR_pwrite64 [Reg 0, Write_buf, Imm 0x2000, Imm 0x1e45a000], Count,
    Syscall NR_pwrite64 [Reg 0, Write_buf, Imm 0x600, Imm 0x1e45b600], Count,
    Syscall NR_pwrite64 [Reg 0, Write_buf, Imm 0x200, Imm 0x1e45bc00], Count,
    Syscall NR_pwrite64 [Reg 0, Write_buf, Imm 0x200, Imm 0x1e45be00], Count,
    Syscall NR_pwrite64 [Reg 0, Write_buf, Imm 0x200, Imm 0x1e45be00], Count,
    Syscall NR_pwrite64 [Reg 0, Write_buf, Imm 0x200, Imm 0x1e45be00], Count,
    Syscall NR_pwrite64 [Reg 0, Write_buf, Imm 0x200, Imm 0x1e45be00], Count,
    Syscall NR_pwrite64 [Reg 0, Write_buf, Imm 0x2000, Imm 0x1e45c000], Count,
    Syscall NR_pwrite64 [Reg 0, Write_buf, Imm 0x200, Imm 0x1e45c000], Count,
    Syscall NR_pwrite64 [Reg 0, Write_buf, Imm 0x600, Imm 0x1e45c000], Count,
    Syscall NR_pwrite64 [Reg 0, Write_buf, Imm 0x200, Imm 0x1e45c600], Count,
    Syscall NR_pwrite64 [Reg 0, Write_buf, Imm 0x800, Imm 0x1e45c600], Count]"

definition min_mysql_pwrite64_openat_0_0_body482 :: "stmt list" where
  "min_mysql_pwrite64_openat_0_0_body482 = [
    Syscall NR_pwrite64 [Reg 0, Write_buf, Imm 0x200, Imm 0x1e45ce00], Count,
    Syscall NR_pwrite64 [Reg 0, Write_buf, Imm 0x200, Imm 0x1e45d000], Count,
    Syscall NR_pwrite64 [Reg 0, Write_buf, Imm 0x200, Imm 0x1e45d000], Count,
    Syscall NR_pwrite64 [Reg 0, Write_buf, Imm 0x200, Imm 0x1e45d000], Count,
    Syscall NR_pwrite64 [Reg 0, Write_buf, Imm 0x200, Imm 0x1e45d000], Count,
    Syscall NR_pwrite64 [Reg 0, Write_buf, Imm 0xa00, Imm 0x1e45d000], Count,
    Syscall NR_pwrite64 [Reg 0, Write_buf, Imm 0x200, Imm 0x1e45da00], Count,
    Syscall NR_pwrite64 [Reg 0, Write_buf, Imm 0x600, Imm 0x1e45da00], Count,
    Syscall NR_pwrite64 [Reg 0, Write_buf, Imm 0x2000, Imm 0x1e45e000], Count,
    Syscall NR_pwrite64 [Reg 0, Write_buf, Imm 0x200, Imm 0x1e45e400], Count,
    Syscall NR_pwrite64 [Reg 0, Write_buf, Imm 0x400, Imm 0x1e45e400], Count,
    Syscall NR_pwrite64 [Reg 0, Write_buf, Imm 0x400, Imm 0x1e45e800], Count,
    Syscall NR_pwrite64 [Reg 0, Write_buf, Imm 0x200, Imm 0x1e45ec00], Count]"

definition min_mysql_pwrite64_openat_0_0_body483 :: "stmt list" where
  "min_mysql_pwrite64_openat_0_0_body483 = [
    Syscall NR_pwrite64 [Reg 0, Write_buf, Imm 0x200, Imm 0x1e45ec00], Count,
    Syscall NR_pwrite64 [Reg 0, Write_buf, Imm 0x200, Imm 0x1e45ec00], Count,
    Syscall NR_pwrite64 [Reg 0, Write_buf, Imm 0x200, Imm 0x1e45ee00], Count,
    Syscall NR_pwrite64 [Reg 0, Write_buf, Imm 0x200, Imm 0x1e45ee00], Count,
    Syscall NR_pwrite64 [Reg 0, Write_buf, Imm 0x200, Imm 0x1e45f000], Count,
    Syscall NR_pwrite64 [Reg 0, Write_buf, Imm 0x200, Imm 0x1e45f200], Count,
    Syscall NR_pwrite64 [Reg 0, Write_buf, Imm 0xa00, Imm 0x1e45f200], Count,
    Syscall NR_pwrite64 [Reg 0, Write_buf, Imm 0x400, Imm 0x1e45fc00], Count,
    Syscall NR_pwrite64 [Reg 0, Write_buf, Imm 0x2000, Imm 0x1e460000], Count,
    Syscall NR_pwrite64 [Reg 0, Write_buf, Imm 0xc00, Imm 0x1e460c00], Count,
    Syscall NR_pwrite64 [Reg 0, Write_buf, Imm 0x800, Imm 0x1e461800], Count,
    Syscall NR_pwrite64 [Reg 0, Write_buf, Imm 0x2000, Imm 0x1e462000], Count,
    Syscall NR_pwrite64 [Reg 0, Write_buf, Imm 0x2000, Imm 0x1e464000], Count]"

definition min_mysql_pwrite64_openat_0_0_body484 :: "stmt list" where
  "min_mysql_pwrite64_openat_0_0_body484 = [
    Syscall NR_pwrite64 [Reg 0, Write_buf, Imm 0xe00, Imm 0x1e465200], Count,
    Syscall NR_pwrite64 [Reg 0, Write_buf, Imm 0x2000, Imm 0x1e466000], Count,
    Syscall NR_pwrite64 [Reg 0, Write_buf, Imm 0x200, Imm 0x1e466a00], Count,
    Syscall NR_pwrite64 [Reg 0, Write_buf, Imm 0x200, Imm 0x1e466a00], Count,
    Syscall NR_pwrite64 [Reg 0, Write_buf, Imm 0xe00, Imm 0x1e466a00], Count,
    Syscall NR_pwrite64 [Reg 0, Write_buf, Imm 0x200, Imm 0x1e467800], Count,
    Syscall NR_pwrite64 [Reg 0, Write_buf, Imm 0x200, Imm 0x1e467800], Count,
    Syscall NR_pwrite64 [Reg 0, Write_buf, Imm 0x200, Imm 0x1e467a00], Count,
    Syscall NR_pwrite64 [Reg 0, Write_buf, Imm 0x200, Imm 0x1e467c00], Count,
    Syscall NR_pwrite64 [Reg 0, Write_buf, Imm 0x200, Imm 0x1e467c00], Count,
    Syscall NR_pwrite64 [Reg 0, Write_buf, Imm 0x200, Imm 0x1e467c00], Count,
    Syscall NR_pwrite64 [Reg 0, Write_buf, Imm 0x200, Imm 0x1e467c00], Count,
    Syscall NR_pwrite64 [Reg 0, Write_buf, Imm 0x200, Imm 0x1e467c00], Count]"

definition min_mysql_pwrite64_openat_0_0_body485 :: "stmt list" where
  "min_mysql_pwrite64_openat_0_0_body485 = [
    Syscall NR_pwrite64 [Reg 0, Write_buf, Imm 0x200, Imm 0x1e467e00], Count,
    Syscall NR_pwrite64 [Reg 0, Write_buf, Imm 0x200, Imm 0x1e467e00], Count,
    Syscall NR_pwrite64 [Reg 0, Write_buf, Imm 0x2000, Imm 0x1e468000], Count,
    Syscall NR_pwrite64 [Reg 0, Write_buf, Imm 0x200, Imm 0x1e468200], Count,
    Syscall NR_pwrite64 [Reg 0, Write_buf, Imm 0x200, Imm 0x1e468400], Count,
    Syscall NR_pwrite64 [Reg 0, Write_buf, Imm 0x200, Imm 0x1e468600], Count,
    Syscall NR_pwrite64 [Reg 0, Write_buf, Imm 0x200, Imm 0x1e468600], Count,
    Syscall NR_pwrite64 [Reg 0, Write_buf, Imm 0x400, Imm 0x1e468800], Count,
    Syscall NR_pwrite64 [Reg 0, Write_buf, Imm 0x200, Imm 0x1e468c00], Count,
    Syscall NR_pwrite64 [Reg 0, Write_buf, Imm 0x600, Imm 0x1e468c00], Count,
    Syscall NR_pwrite64 [Reg 0, Write_buf, Imm 0xa00, Imm 0x1e469200], Count,
    Syscall NR_pwrite64 [Reg 0, Write_buf, Imm 0x400, Imm 0x1e469c00], Count,
    Syscall NR_pwrite64 [Reg 0, Write_buf, Imm 0x2000, Imm 0x1e46a000], Count]"

definition min_mysql_pwrite64_openat_0_0_body486 :: "stmt list" where
  "min_mysql_pwrite64_openat_0_0_body486 = [
    Syscall NR_pwrite64 [Reg 0, Write_buf, Imm 0x200, Imm 0x1e46ac00], Count,
    Syscall NR_pwrite64 [Reg 0, Write_buf, Imm 0x400, Imm 0x1e46ae00], Count,
    Syscall NR_pwrite64 [Reg 0, Write_buf, Imm 0xc00, Imm 0x1e46b200], Count,
    Syscall NR_pwrite64 [Reg 0, Write_buf, Imm 0x200, Imm 0x1e46be00], Count,
    Syscall NR_pwrite64 [Reg 0, Write_buf, Imm 0x2000, Imm 0x1e46c000], Count,
    Syscall NR_pwrite64 [Reg 0, Write_buf, Imm 0xa00, Imm 0x1e46ca00], Count,
    Syscall NR_pwrite64 [Reg 0, Write_buf, Imm 0x200, Imm 0x1e46d400], Count,
    Syscall NR_pwrite64 [Reg 0, Write_buf, Imm 0xc00, Imm 0x1e46d400], Count,
    Syscall NR_pwrite64 [Reg 0, Write_buf, Imm 0x2000, Imm 0x1e46e000], Count,
    Syscall NR_pwrite64 [Reg 0, Write_buf, Imm 0x200, Imm 0x1e46e200], Count,
    Syscall NR_pwrite64 [Reg 0, Write_buf, Imm 0x200, Imm 0x1e46e400], Count,
    Syscall NR_pwrite64 [Reg 0, Write_buf, Imm 0x400, Imm 0x1e46e400], Count,
    Syscall NR_pwrite64 [Reg 0, Write_buf, Imm 0x200, Imm 0x1e46e800], Count]"

definition min_mysql_pwrite64_openat_0_0_body487 :: "stmt list" where
  "min_mysql_pwrite64_openat_0_0_body487 = [
    Syscall NR_pwrite64 [Reg 0, Write_buf, Imm 0xc00, Imm 0x1e46e800], Count,
    Syscall NR_pwrite64 [Reg 0, Write_buf, Imm 0x200, Imm 0x1e46f400], Count,
    Syscall NR_pwrite64 [Reg 0, Write_buf, Imm 0x200, Imm 0x1e46f600], Count,
    Syscall NR_pwrite64 [Reg 0, Write_buf, Imm 0x200, Imm 0x1e46f800], Count,
    Syscall NR_pwrite64 [Reg 0, Write_buf, Imm 0x800, Imm 0x1e46f800], Count,
    Syscall NR_pwrite64 [Reg 0, Write_buf, Imm 0x2000, Imm 0x1e470000], Count,
    Syscall NR_pwrite64 [Reg 0, Write_buf, Imm 0x200, Imm 0x1e470800], Count,
    Syscall NR_pwrite64 [Reg 0, Write_buf, Imm 0x200, Imm 0x1e470800], Count,
    Syscall NR_pwrite64 [Reg 0, Write_buf, Imm 0x200, Imm 0x1e470a00], Count,
    Syscall NR_pwrite64 [Reg 0, Write_buf, Imm 0x200, Imm 0x1e470a00], Count,
    Syscall NR_pwrite64 [Reg 0, Write_buf, Imm 0x200, Imm 0x1e470a00], Count,
    Syscall NR_pwrite64 [Reg 0, Write_buf, Imm 0x200, Imm 0x1e470c00], Count,
    Syscall NR_pwrite64 [Reg 0, Write_buf, Imm 0x600, Imm 0x1e470c00], Count]"

definition min_mysql_pwrite64_openat_0_0_body488 :: "stmt list" where
  "min_mysql_pwrite64_openat_0_0_body488 = [
    Syscall NR_pwrite64 [Reg 0, Write_buf, Imm 0x200, Imm 0x1e471200], Count,
    Syscall NR_pwrite64 [Reg 0, Write_buf, Imm 0x200, Imm 0x1e471200], Count,
    Syscall NR_pwrite64 [Reg 0, Write_buf, Imm 0x200, Imm 0x1e471400], Count,
    Syscall NR_pwrite64 [Reg 0, Write_buf, Imm 0x200, Imm 0x1e471600], Count,
    Syscall NR_pwrite64 [Reg 0, Write_buf, Imm 0x200, Imm 0x1e471600], Count,
    Syscall NR_pwrite64 [Reg 0, Write_buf, Imm 0x200, Imm 0x1e471600], Count,
    Syscall NR_pwrite64 [Reg 0, Write_buf, Imm 0x200, Imm 0x1e471800], Count,
    Syscall NR_pwrite64 [Reg 0, Write_buf, Imm 0x600, Imm 0x1e471800], Count,
    Syscall NR_pwrite64 [Reg 0, Write_buf, Imm 0x200, Imm 0x1e471e00], Count,
    Syscall NR_pwrite64 [Reg 0, Write_buf, Imm 0x200, Imm 0x1e471e00], Count,
    Syscall NR_pwrite64 [Reg 0, Write_buf, Imm 0x200, Imm 0x1e471e00], Count,
    Syscall NR_pwrite64 [Reg 0, Write_buf, Imm 0x200, Imm 0x1e471e00], Count,
    Syscall NR_pwrite64 [Reg 0, Write_buf, Imm 0x2000, Imm 0x1e472000], Count]"

definition min_mysql_pwrite64_openat_0_0_body489 :: "stmt list" where
  "min_mysql_pwrite64_openat_0_0_body489 = [
    Syscall NR_pwrite64 [Reg 0, Write_buf, Imm 0x800, Imm 0x1e472000], Count,
    Syscall NR_pwrite64 [Reg 0, Write_buf, Imm 0xc00, Imm 0x1e472800], Count,
    Syscall NR_pwrite64 [Reg 0, Write_buf, Imm 0x600, Imm 0x1e473400], Count,
    Syscall NR_pwrite64 [Reg 0, Write_buf, Imm 0x600, Imm 0x1e473a00], Count,
    Syscall NR_pwrite64 [Reg 0, Write_buf, Imm 0x2000, Imm 0x1e474000], Count,
    Syscall NR_pwrite64 [Reg 0, Write_buf, Imm 0x1000, Imm 0x1e475000], Count,
    Syscall NR_pwrite64 [Reg 0, Write_buf, Imm 0x2000, Imm 0x1e476000], Count,
    Syscall NR_pwrite64 [Reg 0, Write_buf, Imm 0xc00, Imm 0x1e476a00], Count,
    Syscall NR_pwrite64 [Reg 0, Write_buf, Imm 0xa00, Imm 0x1e477600], Count,
    Syscall NR_pwrite64 [Reg 0, Write_buf, Imm 0x2000, Imm 0x1e478000], Count,
    Syscall NR_pwrite64 [Reg 0, Write_buf, Imm 0xa00, Imm 0x1e478c00], Count,
    Syscall NR_pwrite64 [Reg 0, Write_buf, Imm 0x800, Imm 0x1e479600], Count,
    Syscall NR_pwrite64 [Reg 0, Write_buf, Imm 0x200, Imm 0x1e479e00], Count]"

definition min_mysql_pwrite64_openat_0_0_body490 :: "stmt list" where
  "min_mysql_pwrite64_openat_0_0_body490 = [
    Syscall NR_pwrite64 [Reg 0, Write_buf, Imm 0x2000, Imm 0x1e47a000], Count,
    Syscall NR_pwrite64 [Reg 0, Write_buf, Imm 0x400, Imm 0x1e47a600], Count,
    Syscall NR_pwrite64 [Reg 0, Write_buf, Imm 0x200, Imm 0x1e47aa00], Count,
    Syscall NR_pwrite64 [Reg 0, Write_buf, Imm 0x200, Imm 0x1e47ac00], Count,
    Syscall NR_pwrite64 [Reg 0, Write_buf, Imm 0x200, Imm 0x1e47ac00], Count,
    Syscall NR_pwrite64 [Reg 0, Write_buf, Imm 0x200, Imm 0x1e47ae00], Count,
    Syscall NR_pwrite64 [Reg 0, Write_buf, Imm 0x200, Imm 0x1e47ae00], Count,
    Syscall NR_pwrite64 [Reg 0, Write_buf, Imm 0x200, Imm 0x1e47ae00], Count,
    Syscall NR_pwrite64 [Reg 0, Write_buf, Imm 0x200, Imm 0x1e47b000], Count,
    Syscall NR_pwrite64 [Reg 0, Write_buf, Imm 0x200, Imm 0x1e47b000], Count,
    Syscall NR_pwrite64 [Reg 0, Write_buf, Imm 0x200, Imm 0x1e47b000], Count,
    Syscall NR_pwrite64 [Reg 0, Write_buf, Imm 0x200, Imm 0x1e47b000], Count,
    Syscall NR_pwrite64 [Reg 0, Write_buf, Imm 0x200, Imm 0x1e47b000], Count]"

definition min_mysql_pwrite64_openat_0_0_body491 :: "stmt list" where
  "min_mysql_pwrite64_openat_0_0_body491 = [
    Syscall NR_pwrite64 [Reg 0, Write_buf, Imm 0x200, Imm 0x1e47b200], Count,
    Syscall NR_pwrite64 [Reg 0, Write_buf, Imm 0x400, Imm 0x1e47b200], Count,
    Syscall NR_pwrite64 [Reg 0, Write_buf, Imm 0x200, Imm 0x1e47b600], Count,
    Syscall NR_pwrite64 [Reg 0, Write_buf, Imm 0x800, Imm 0x1e47b600], Count,
    Syscall NR_pwrite64 [Reg 0, Write_buf, Imm 0x200, Imm 0x1e47be00], Count,
    Syscall NR_pwrite64 [Reg 0, Write_buf, Imm 0x200, Imm 0x1e47be00], Count,
    Syscall NR_pwrite64 [Reg 0, Write_buf, Imm 0x200, Imm 0x1e47be00], Count,
    Syscall NR_pwrite64 [Reg 0, Write_buf, Imm 0x2000, Imm 0x1e47c000], Count,
    Syscall NR_pwrite64 [Reg 0, Write_buf, Imm 0x200, Imm 0x1e47c200], Count,
    Syscall NR_pwrite64 [Reg 0, Write_buf, Imm 0x200, Imm 0x1e47c400], Count,
    Syscall NR_pwrite64 [Reg 0, Write_buf, Imm 0x200, Imm 0x1e47c400], Count,
    Syscall NR_pwrite64 [Reg 0, Write_buf, Imm 0x200, Imm 0x1e47c400], Count,
    Syscall NR_pwrite64 [Reg 0, Write_buf, Imm 0x200, Imm 0x1e47c400], Count]"

definition min_mysql_pwrite64_openat_0_0_body492 :: "stmt list" where
  "min_mysql_pwrite64_openat_0_0_body492 = [
    Syscall NR_pwrite64 [Reg 0, Write_buf, Imm 0x200, Imm 0x1e47c400], Count,
    Syscall NR_pwrite64 [Reg 0, Write_buf, Imm 0x200, Imm 0x1e47c600], Count,
    Syscall NR_pwrite64 [Reg 0, Write_buf, Imm 0x200, Imm 0x1e47c600], Count,
    Syscall NR_pwrite64 [Reg 0, Write_buf, Imm 0x200, Imm 0x1e47c800], Count,
    Syscall NR_pwrite64 [Reg 0, Write_buf, Imm 0x200, Imm 0x1e47c800], Count,
    Syscall NR_pwrite64 [Reg 0, Write_buf, Imm 0x400, Imm 0x1e47ca00], Count,
    Syscall NR_pwrite64 [Reg 0, Write_buf, Imm 0x200, Imm 0x1e47ce00], Count,
    Syscall NR_pwrite64 [Reg 0, Write_buf, Imm 0x200, Imm 0x1e47ce00], Count,
    Syscall NR_pwrite64 [Reg 0, Write_buf, Imm 0x200, Imm 0x1e47d000], Count,
    Syscall NR_pwrite64 [Reg 0, Write_buf, Imm 0x200, Imm 0x1e47d000], Count,
    Syscall NR_pwrite64 [Reg 0, Write_buf, Imm 0x800, Imm 0x1e47d200], Count,
    Syscall NR_pwrite64 [Reg 0, Write_buf, Imm 0x200, Imm 0x1e47da00], Count,
    Syscall NR_pwrite64 [Reg 0, Write_buf, Imm 0x200, Imm 0x1e47dc00], Count]"

definition min_mysql_pwrite64_openat_0_0_body493 :: "stmt list" where
  "min_mysql_pwrite64_openat_0_0_body493 = [
    Syscall NR_pwrite64 [Reg 0, Write_buf, Imm 0x200, Imm 0x1e47dc00], Count,
    Syscall NR_pwrite64 [Reg 0, Write_buf, Imm 0x200, Imm 0x1e47de00], Count,
    Syscall NR_pwrite64 [Reg 0, Write_buf, Imm 0x2000, Imm 0x1e47e000], Count,
    Syscall NR_pwrite64 [Reg 0, Write_buf, Imm 0x600, Imm 0x1e47e600], Count,
    Syscall NR_pwrite64 [Reg 0, Write_buf, Imm 0xc00, Imm 0x1e47ec00], Count,
    Syscall NR_pwrite64 [Reg 0, Write_buf, Imm 0x800, Imm 0x1e47f800], Count,
    Syscall NR_pwrite64 [Reg 0, Write_buf, Imm 0x2000, Imm 0x1e480000], Count,
    Syscall NR_pwrite64 [Reg 0, Write_buf, Imm 0x400, Imm 0x1e481800], Count,
    Syscall NR_pwrite64 [Reg 0, Write_buf, Imm 0x400, Imm 0x1e481c00], Count,
    Syscall NR_pwrite64 [Reg 0, Write_buf, Imm 0x2000, Imm 0x1e482000], Count,
    Syscall NR_pwrite64 [Reg 0, Write_buf, Imm 0x800, Imm 0x1e483000], Count,
    Syscall NR_pwrite64 [Reg 0, Write_buf, Imm 0x400, Imm 0x1e483800], Count,
    Syscall NR_pwrite64 [Reg 0, Write_buf, Imm 0x400, Imm 0x1e483c00], Count]"

definition min_mysql_pwrite64_openat_0_0_body494 :: "stmt list" where
  "min_mysql_pwrite64_openat_0_0_body494 = [
    Syscall NR_pwrite64 [Reg 0, Write_buf, Imm 0x2000, Imm 0x1e484000], Count,
    Syscall NR_pwrite64 [Reg 0, Write_buf, Imm 0x200, Imm 0x1e484a00], Count,
    Syscall NR_pwrite64 [Reg 0, Write_buf, Imm 0x200, Imm 0x1e484c00], Count,
    Syscall NR_pwrite64 [Reg 0, Write_buf, Imm 0x200, Imm 0x1e484e00], Count,
    Syscall NR_pwrite64 [Reg 0, Write_buf, Imm 0x400, Imm 0x1e484e00], Count,
    Syscall NR_pwrite64 [Reg 0, Write_buf, Imm 0x200, Imm 0x1e485200], Count,
    Syscall NR_pwrite64 [Reg 0, Write_buf, Imm 0x200, Imm 0x1e485200], Count,
    Syscall NR_pwrite64 [Reg 0, Write_buf, Imm 0x800, Imm 0x1e485200], Count,
    Syscall NR_pwrite64 [Reg 0, Write_buf, Imm 0x200, Imm 0x1e485a00], Count,
    Syscall NR_pwrite64 [Reg 0, Write_buf, Imm 0x200, Imm 0x1e485c00], Count,
    Syscall NR_pwrite64 [Reg 0, Write_buf, Imm 0x200, Imm 0x1e485c00], Count,
    Syscall NR_pwrite64 [Reg 0, Write_buf, Imm 0x200, Imm 0x1e485e00], Count,
    Syscall NR_pwrite64 [Reg 0, Write_buf, Imm 0x200, Imm 0x1e485e00], Count]"

definition min_mysql_pwrite64_openat_0_0_body495 :: "stmt list" where
  "min_mysql_pwrite64_openat_0_0_body495 = [
    Syscall NR_pwrite64 [Reg 0, Write_buf, Imm 0x2000, Imm 0x1e486000], Count,
    Syscall NR_pwrite64 [Reg 0, Write_buf, Imm 0x200, Imm 0x1e486600], Count,
    Syscall NR_pwrite64 [Reg 0, Write_buf, Imm 0xa00, Imm 0x1e486600], Count,
    Syscall NR_pwrite64 [Reg 0, Write_buf, Imm 0x200, Imm 0x1e487000], Count,
    Syscall NR_pwrite64 [Reg 0, Write_buf, Imm 0x200, Imm 0x1e487000], Count,
    Syscall NR_pwrite64 [Reg 0, Write_buf, Imm 0x200, Imm 0x1e487000], Count,
    Syscall NR_pwrite64 [Reg 0, Write_buf, Imm 0x200, Imm 0x1e487200], Count,
    Syscall NR_pwrite64 [Reg 0, Write_buf, Imm 0xa00, Imm 0x1e487200], Count,
    Syscall NR_pwrite64 [Reg 0, Write_buf, Imm 0x200, Imm 0x1e487c00], Count,
    Syscall NR_pwrite64 [Reg 0, Write_buf, Imm 0x200, Imm 0x1e487c00], Count,
    Syscall NR_pwrite64 [Reg 0, Write_buf, Imm 0x400, Imm 0x1e487c00], Count,
    Syscall NR_pwrite64 [Reg 0, Write_buf, Imm 0x2000, Imm 0x1e488000], Count,
    Syscall NR_pwrite64 [Reg 0, Write_buf, Imm 0x200, Imm 0x1e488200], Count]"

definition min_mysql_pwrite64_openat_0_0_body496 :: "stmt list" where
  "min_mysql_pwrite64_openat_0_0_body496 = [
    Syscall NR_pwrite64 [Reg 0, Write_buf, Imm 0x200, Imm 0x1e488200], Count,
    Syscall NR_pwrite64 [Reg 0, Write_buf, Imm 0x200, Imm 0x1e488200], Count,
    Syscall NR_pwrite64 [Reg 0, Write_buf, Imm 0x200, Imm 0x1e488400], Count,
    Syscall NR_pwrite64 [Reg 0, Write_buf, Imm 0x200, Imm 0x1e488600], Count,
    Syscall NR_pwrite64 [Reg 0, Write_buf, Imm 0x200, Imm 0x1e488800], Count,
    Syscall NR_pwrite64 [Reg 0, Write_buf, Imm 0x400, Imm 0x1e488800], Count,
    Syscall NR_pwrite64 [Reg 0, Write_buf, Imm 0x400, Imm 0x1e488c00], Count,
    Syscall NR_pwrite64 [Reg 0, Write_buf, Imm 0x200, Imm 0x1e489000], Count,
    Syscall NR_pwrite64 [Reg 0, Write_buf, Imm 0x200, Imm 0x1e489000], Count,
    Syscall NR_pwrite64 [Reg 0, Write_buf, Imm 0x200, Imm 0x1e489200], Count,
    Syscall NR_pwrite64 [Reg 0, Write_buf, Imm 0x400, Imm 0x1e489400], Count,
    Syscall NR_pwrite64 [Reg 0, Write_buf, Imm 0x800, Imm 0x1e489800], Count,
    Syscall NR_pwrite64 [Reg 0, Write_buf, Imm 0x2000, Imm 0x1e48a000], Count]"

definition min_mysql_pwrite64_openat_0_0_body497 :: "stmt list" where
  "min_mysql_pwrite64_openat_0_0_body497 = [
    Syscall NR_pwrite64 [Reg 0, Write_buf, Imm 0x800, Imm 0x1e48a200], Count,
    Syscall NR_pwrite64 [Reg 0, Write_buf, Imm 0x400, Imm 0x1e48aa00], Count,
    Syscall NR_pwrite64 [Reg 0, Write_buf, Imm 0xe00, Imm 0x1e48ae00], Count,
    Syscall NR_pwrite64 [Reg 0, Write_buf, Imm 0x400, Imm 0x1e48bc00], Count,
    Syscall NR_pwrite64 [Reg 0, Write_buf, Imm 0x2000, Imm 0x1e48c000], Count,
    Syscall NR_pwrite64 [Reg 0, Write_buf, Imm 0x800, Imm 0x1e48d200], Count,
    Syscall NR_pwrite64 [Reg 0, Write_buf, Imm 0x200, Imm 0x1e48da00], Count,
    Syscall NR_pwrite64 [Reg 0, Write_buf, Imm 0x200, Imm 0x1e48dc00], Count,
    Syscall NR_pwrite64 [Reg 0, Write_buf, Imm 0x400, Imm 0x1e48dc00], Count,
    Syscall NR_pwrite64 [Reg 0, Write_buf, Imm 0x2000, Imm 0x1e48e000], Count,
    Syscall NR_pwrite64 [Reg 0, Write_buf, Imm 0x600, Imm 0x1e48e800], Count,
    Syscall NR_pwrite64 [Reg 0, Write_buf, Imm 0x800, Imm 0x1e48ee00], Count,
    Syscall NR_pwrite64 [Reg 0, Write_buf, Imm 0x200, Imm 0x1e48f600], Count]"

definition min_mysql_pwrite64_openat_0_0_body498 :: "stmt list" where
  "min_mysql_pwrite64_openat_0_0_body498 = [
    Syscall NR_pwrite64 [Reg 0, Write_buf, Imm 0x200, Imm 0x1e48f800], Count,
    Syscall NR_pwrite64 [Reg 0, Write_buf, Imm 0x400, Imm 0x1e48fa00], Count,
    Syscall NR_pwrite64 [Reg 0, Write_buf, Imm 0x200, Imm 0x1e48fe00], Count,
    Syscall NR_pwrite64 [Reg 0, Write_buf, Imm 0x2000, Imm 0x1e490000], Count,
    Syscall NR_pwrite64 [Reg 0, Write_buf, Imm 0x400, Imm 0x1e490000], Count,
    Syscall NR_pwrite64 [Reg 0, Write_buf, Imm 0x200, Imm 0x1e490400], Count,
    Syscall NR_pwrite64 [Reg 0, Write_buf, Imm 0x200, Imm 0x1e490400], Count,
    Syscall NR_pwrite64 [Reg 0, Write_buf, Imm 0x200, Imm 0x1e490400], Count,
    Syscall NR_pwrite64 [Reg 0, Write_buf, Imm 0x200, Imm 0x1e490600], Count,
    Syscall NR_pwrite64 [Reg 0, Write_buf, Imm 0x1a00, Imm 0x1e490600], Count,
    Syscall NR_pwrite64 [Reg 0, Write_buf, Imm 0x2000, Imm 0x1e492000], Count,
    Syscall NR_pwrite64 [Reg 0, Write_buf, Imm 0x200, Imm 0x1e493600], Count,
    Syscall NR_pwrite64 [Reg 0, Write_buf, Imm 0x200, Imm 0x1e493600], Count]"

definition min_mysql_pwrite64_openat_0_0_body499 :: "stmt list" where
  "min_mysql_pwrite64_openat_0_0_body499 = [
    Syscall NR_pwrite64 [Reg 0, Write_buf, Imm 0x200, Imm 0x1e493800], Count,
    Syscall NR_pwrite64 [Reg 0, Write_buf, Imm 0x400, Imm 0x1e493800], Count,
    Syscall NR_pwrite64 [Reg 0, Write_buf, Imm 0x200, Imm 0x1e493c00], Count,
    Syscall NR_pwrite64 [Reg 0, Write_buf, Imm 0x400, Imm 0x1e493c00], Count,
    Syscall NR_pwrite64 [Reg 0, Write_buf, Imm 0x2000, Imm 0x1e494000], Count,
    Syscall NR_pwrite64 [Reg 0, Write_buf, Imm 0x200, Imm 0x1e494200], Count,
    Syscall NR_pwrite64 [Reg 0, Write_buf, Imm 0x200, Imm 0x1e494400], Count,
    Syscall NR_pwrite64 [Reg 0, Write_buf, Imm 0x200, Imm 0x1e494400], Count,
    Syscall NR_pwrite64 [Reg 0, Write_buf, Imm 0x200, Imm 0x1e494600], Count,
    Syscall NR_pwrite64 [Reg 0, Write_buf, Imm 0x200, Imm 0x1e494600], Count,
    Syscall NR_pwrite64 [Reg 0, Write_buf, Imm 0x200, Imm 0x1e494800], Count,
    Syscall NR_pwrite64 [Reg 0, Write_buf, Imm 0x200, Imm 0x1e494800], Count,
    Syscall NR_pwrite64 [Reg 0, Write_buf, Imm 0x800, Imm 0x1e494800], Count]"

definition min_mysql_pwrite64_openat_0_0_body500 :: "stmt list" where
  "min_mysql_pwrite64_openat_0_0_body500 = [
    Syscall NR_pwrite64 [Reg 0, Write_buf, Imm 0x200, Imm 0x1e495000], Count,
    Syscall NR_pwrite64 [Reg 0, Write_buf, Imm 0x200, Imm 0x1e495000], Count,
    Syscall NR_pwrite64 [Reg 0, Write_buf, Imm 0x200, Imm 0x1e495000], Count,
    Syscall NR_pwrite64 [Reg 0, Write_buf, Imm 0x200, Imm 0x1e495200], Count,
    Syscall NR_pwrite64 [Reg 0, Write_buf, Imm 0x200, Imm 0x1e495200], Count,
    Syscall NR_pwrite64 [Reg 0, Write_buf, Imm 0x200, Imm 0x1e495200], Count,
    Syscall NR_pwrite64 [Reg 0, Write_buf, Imm 0x200, Imm 0x1e495400], Count,
    Syscall NR_pwrite64 [Reg 0, Write_buf, Imm 0x200, Imm 0x1e495400], Count,
    Syscall NR_pwrite64 [Reg 0, Write_buf, Imm 0x200, Imm 0x1e495600], Count,
    Syscall NR_pwrite64 [Reg 0, Write_buf, Imm 0x200, Imm 0x1e495600], Count,
    Syscall NR_pwrite64 [Reg 0, Write_buf, Imm 0x200, Imm 0x1e495800], Count,
    Syscall NR_pwrite64 [Reg 0, Write_buf, Imm 0x800, Imm 0x1e495800], Count,
    Syscall NR_pwrite64 [Reg 0, Write_buf, Imm 0x2000, Imm 0x1e496000], Count]"

definition min_mysql_pwrite64_openat_0_0_body501 :: "stmt list" where
  "min_mysql_pwrite64_openat_0_0_body501 = [
    Syscall NR_pwrite64 [Reg 0, Write_buf, Imm 0x200, Imm 0x1e496200], Count,
    Syscall NR_pwrite64 [Reg 0, Write_buf, Imm 0x400, Imm 0x1e496200], Count,
    Syscall NR_pwrite64 [Reg 0, Write_buf, Imm 0x400, Imm 0x1e496600], Count,
    Syscall NR_pwrite64 [Reg 0, Write_buf, Imm 0x600, Imm 0x1e496a00], Count,
    Syscall NR_pwrite64 [Reg 0, Write_buf, Imm 0x800, Imm 0x1e497000], Count,
    Syscall NR_pwrite64 [Reg 0, Write_buf, Imm 0x800, Imm 0x1e497800], Count,
    Syscall NR_pwrite64 [Reg 0, Write_buf, Imm 0x2000, Imm 0x1e498000], Count,
    Syscall NR_pwrite64 [Reg 0, Write_buf, Imm 0xa00, Imm 0x1e498a00], Count,
    Syscall NR_pwrite64 [Reg 0, Write_buf, Imm 0x600, Imm 0x1e499400], Count,
    Syscall NR_pwrite64 [Reg 0, Write_buf, Imm 0x600, Imm 0x1e499a00], Count,
    Syscall NR_pwrite64 [Reg 0, Write_buf, Imm 0x2000, Imm 0x1e49a000], Count,
    Syscall NR_pwrite64 [Reg 0, Write_buf, Imm 0x800, Imm 0x1e49aa00], Count,
    Syscall NR_pwrite64 [Reg 0, Write_buf, Imm 0xc00, Imm 0x1e49b200], Count]"

definition min_mysql_pwrite64_openat_0_0_body502 :: "stmt list" where
  "min_mysql_pwrite64_openat_0_0_body502 = [
    Syscall NR_pwrite64 [Reg 0, Write_buf, Imm 0x200, Imm 0x1e49be00], Count,
    Syscall NR_pwrite64 [Reg 0, Write_buf, Imm 0x2000, Imm 0x1e49c000], Count,
    Syscall NR_pwrite64 [Reg 0, Write_buf, Imm 0x600, Imm 0x1e49c600], Count,
    Syscall NR_pwrite64 [Reg 0, Write_buf, Imm 0x200, Imm 0x1e49cc00], Count,
    Syscall NR_pwrite64 [Reg 0, Write_buf, Imm 0x200, Imm 0x1e49ce00], Count,
    Syscall NR_pwrite64 [Reg 0, Write_buf, Imm 0x200, Imm 0x1e49d000], Count,
    Syscall NR_pwrite64 [Reg 0, Write_buf, Imm 0x200, Imm 0x1e49d000], Count,
    Syscall NR_pwrite64 [Reg 0, Write_buf, Imm 0x200, Imm 0x1e49d200], Count,
    Syscall NR_pwrite64 [Reg 0, Write_buf, Imm 0x200, Imm 0x1e49d200], Count,
    Syscall NR_pwrite64 [Reg 0, Write_buf, Imm 0x200, Imm 0x1e49d400], Count,
    Syscall NR_pwrite64 [Reg 0, Write_buf, Imm 0xc00, Imm 0x1e49d400], Count,
    Syscall NR_pwrite64 [Reg 0, Write_buf, Imm 0x2000, Imm 0x1e49e000], Count,
    Syscall NR_pwrite64 [Reg 0, Write_buf, Imm 0x2000, Imm 0x1e4a0000], Count]"

definition min_mysql_pwrite64_openat_0_0_body503 :: "stmt list" where
  "min_mysql_pwrite64_openat_0_0_body503 = [
    Syscall NR_pwrite64 [Reg 0, Write_buf, Imm 0x2000, Imm 0x1e4a2000], Count,
    Syscall NR_pwrite64 [Reg 0, Write_buf, Imm 0x2000, Imm 0x1e4a4000], Count,
    Syscall NR_pwrite64 [Reg 0, Write_buf, Imm 0x2000, Imm 0x1e4a6000], Count,
    Syscall NR_pwrite64 [Reg 0, Write_buf, Imm 0x2000, Imm 0x1e4a8000], Count,
    Syscall NR_pwrite64 [Reg 0, Write_buf, Imm 0x200, Imm 0x1e4a9600], Count,
    Syscall NR_pwrite64 [Reg 0, Write_buf, Imm 0x200, Imm 0x1e4a9600], Count,
    Syscall NR_pwrite64 [Reg 0, Write_buf, Imm 0x200, Imm 0x1e4a9800], Count,
    Syscall NR_pwrite64 [Reg 0, Write_buf, Imm 0x400, Imm 0x1e4a9800], Count,
    Syscall NR_pwrite64 [Reg 0, Write_buf, Imm 0x200, Imm 0x1e4a9c00], Count,
    Syscall NR_pwrite64 [Reg 0, Write_buf, Imm 0x400, Imm 0x1e4a9c00], Count,
    Syscall NR_pwrite64 [Reg 0, Write_buf, Imm 0x2000, Imm 0x1e4aa000], Count,
    Syscall NR_pwrite64 [Reg 0, Write_buf, Imm 0x1000, Imm 0x1e4aa000], Count,
    Syscall NR_pwrite64 [Reg 0, Write_buf, Imm 0x1000, Imm 0x1e4ab000], Count]"

definition min_mysql_pwrite64_openat_0_0_body504 :: "stmt list" where
  "min_mysql_pwrite64_openat_0_0_body504 = [
    Syscall NR_pwrite64 [Reg 0, Write_buf, Imm 0x2000, Imm 0x1e4ac000], Count,
    Syscall NR_pwrite64 [Reg 0, Write_buf, Imm 0x200, Imm 0x1e4ad600], Count,
    Syscall NR_pwrite64 [Reg 0, Write_buf, Imm 0x200, Imm 0x1e4ad600], Count,
    Syscall NR_pwrite64 [Reg 0, Write_buf, Imm 0x800, Imm 0x1e4ad600], Count,
    Syscall NR_pwrite64 [Reg 0, Write_buf, Imm 0x200, Imm 0x1e4ade00], Count,
    Syscall NR_pwrite64 [Reg 0, Write_buf, Imm 0x2000, Imm 0x1e4ae000], Count,
    Syscall NR_pwrite64 [Reg 0, Write_buf, Imm 0x200, Imm 0x1e4ae000], Count,
    Syscall NR_pwrite64 [Reg 0, Write_buf, Imm 0x200, Imm 0x1e4ae000], Count,
    Syscall NR_pwrite64 [Reg 0, Write_buf, Imm 0x200, Imm 0x1e4ae000], Count,
    Syscall NR_pwrite64 [Reg 0, Write_buf, Imm 0x400, Imm 0x1e4ae000], Count,
    Syscall NR_pwrite64 [Reg 0, Write_buf, Imm 0x200, Imm 0x1e4ae400], Count,
    Syscall NR_pwrite64 [Reg 0, Write_buf, Imm 0x200, Imm 0x1e4ae400], Count,
    Syscall NR_pwrite64 [Reg 0, Write_buf, Imm 0x200, Imm 0x1e4ae600], Count]"

definition min_mysql_pwrite64_openat_0_0_body505 :: "stmt list" where
  "min_mysql_pwrite64_openat_0_0_body505 = [
    Syscall NR_pwrite64 [Reg 0, Write_buf, Imm 0x200, Imm 0x1e4ae600], Count,
    Syscall NR_pwrite64 [Reg 0, Write_buf, Imm 0x200, Imm 0x1e4ae600], Count,
    Syscall NR_pwrite64 [Reg 0, Write_buf, Imm 0x200, Imm 0x1e4ae800], Count,
    Syscall NR_pwrite64 [Reg 0, Write_buf, Imm 0x200, Imm 0x1e4ae800], Count,
    Syscall NR_pwrite64 [Reg 0, Write_buf, Imm 0x200, Imm 0x1e4aea00], Count,
    Syscall NR_pwrite64 [Reg 0, Write_buf, Imm 0x200, Imm 0x1e4aea00], Count,
    Syscall NR_pwrite64 [Reg 0, Write_buf, Imm 0x200, Imm 0x1e4aec00], Count,
    Syscall NR_pwrite64 [Reg 0, Write_buf, Imm 0x200, Imm 0x1e4aec00], Count,
    Syscall NR_pwrite64 [Reg 0, Write_buf, Imm 0x200, Imm 0x1e4aec00], Count,
    Syscall NR_pwrite64 [Reg 0, Write_buf, Imm 0x200, Imm 0x1e4aec00], Count,
    Syscall NR_pwrite64 [Reg 0, Write_buf, Imm 0x200, Imm 0x1e4aee00], Count,
    Syscall NR_pwrite64 [Reg 0, Write_buf, Imm 0x200, Imm 0x1e4aee00], Count,
    Syscall NR_pwrite64 [Reg 0, Write_buf, Imm 0x200, Imm 0x1e4aee00], Count]"

definition min_mysql_pwrite64_openat_0_0_body506 :: "stmt list" where
  "min_mysql_pwrite64_openat_0_0_body506 = [
    Syscall NR_pwrite64 [Reg 0, Write_buf, Imm 0x200, Imm 0x1e4af000], Count,
    Syscall NR_pwrite64 [Reg 0, Write_buf, Imm 0x200, Imm 0x1e4af000], Count,
    Syscall NR_pwrite64 [Reg 0, Write_buf, Imm 0x200, Imm 0x1e4af000], Count,
    Syscall NR_pwrite64 [Reg 0, Write_buf, Imm 0x200, Imm 0x1e4af200], Count,
    Syscall NR_pwrite64 [Reg 0, Write_buf, Imm 0x200, Imm 0x1e4af200], Count,
    Syscall NR_pwrite64 [Reg 0, Write_buf, Imm 0x200, Imm 0x1e4af200], Count,
    Syscall NR_pwrite64 [Reg 0, Write_buf, Imm 0x200, Imm 0x1e4af400], Count,
    Syscall NR_pwrite64 [Reg 0, Write_buf, Imm 0x200, Imm 0x1e4af400], Count,
    Syscall NR_pwrite64 [Reg 0, Write_buf, Imm 0x200, Imm 0x1e4af600], Count,
    Syscall NR_pwrite64 [Reg 0, Write_buf, Imm 0x400, Imm 0x1e4af600], Count,
    Syscall NR_pwrite64 [Reg 0, Write_buf, Imm 0x200, Imm 0x1e4afa00], Count,
    Syscall NR_pwrite64 [Reg 0, Write_buf, Imm 0x200, Imm 0x1e4afa00], Count,
    Syscall NR_pwrite64 [Reg 0, Write_buf, Imm 0x200, Imm 0x1e4afa00], Count]"

definition min_mysql_pwrite64_openat_0_0_body507 :: "stmt list" where
  "min_mysql_pwrite64_openat_0_0_body507 = [
    Syscall NR_pwrite64 [Reg 0, Write_buf, Imm 0x200, Imm 0x1e4afc00], Count,
    Syscall NR_pwrite64 [Reg 0, Write_buf, Imm 0x200, Imm 0x1e4afc00], Count,
    Syscall NR_pwrite64 [Reg 0, Write_buf, Imm 0x200, Imm 0x1e4afe00], Count,
    Syscall NR_pwrite64 [Reg 0, Write_buf, Imm 0x200, Imm 0x1e4afe00], Count,
    Syscall NR_pwrite64 [Reg 0, Write_buf, Imm 0x2000, Imm 0x1e4b0000], Count,
    Syscall NR_pwrite64 [Reg 0, Write_buf, Imm 0x200, Imm 0x1e4b0000], Count,
    Syscall NR_pwrite64 [Reg 0, Write_buf, Imm 0x200, Imm 0x1e4b0000], Count,
    Syscall NR_pwrite64 [Reg 0, Write_buf, Imm 0x200, Imm 0x1e4b0000], Count,
    Syscall NR_pwrite64 [Reg 0, Write_buf, Imm 0x200, Imm 0x1e4b0000], Count,
    Syscall NR_pwrite64 [Reg 0, Write_buf, Imm 0x200, Imm 0x1e4b0200], Count,
    Syscall NR_pwrite64 [Reg 0, Write_buf, Imm 0x200, Imm 0x1e4b0200], Count,
    Syscall NR_pwrite64 [Reg 0, Write_buf, Imm 0x200, Imm 0x1e4b0400], Count,
    Syscall NR_pwrite64 [Reg 0, Write_buf, Imm 0x200, Imm 0x1e4b0400], Count]"

definition min_mysql_pwrite64_openat_0_0_body508 :: "stmt list" where
  "min_mysql_pwrite64_openat_0_0_body508 = [
    Syscall NR_pwrite64 [Reg 0, Write_buf, Imm 0x200, Imm 0x1e4b0600], Count,
    Syscall NR_pwrite64 [Reg 0, Write_buf, Imm 0x200, Imm 0x1e4b0600], Count,
    Syscall NR_pwrite64 [Reg 0, Write_buf, Imm 0x200, Imm 0x1e4b0800], Count,
    Syscall NR_pwrite64 [Reg 0, Write_buf, Imm 0x200, Imm 0x1e4b0800], Count,
    Syscall NR_pwrite64 [Reg 0, Write_buf, Imm 0x200, Imm 0x1e4b0800], Count,
    Syscall NR_pwrite64 [Reg 0, Write_buf, Imm 0x200, Imm 0x1e4b0800], Count,
    Syscall NR_pwrite64 [Reg 0, Write_buf, Imm 0x200, Imm 0x1e4b0800], Count,
    Syscall NR_pwrite64 [Reg 0, Write_buf, Imm 0x200, Imm 0x1e4b0a00], Count,
    Syscall NR_pwrite64 [Reg 0, Write_buf, Imm 0x400, Imm 0x1e4b0a00], Count,
    Syscall NR_pwrite64 [Reg 0, Write_buf, Imm 0x200, Imm 0x1e4b0e00], Count,
    Syscall NR_pwrite64 [Reg 0, Write_buf, Imm 0x200, Imm 0x1e4b0e00], Count,
    Syscall NR_pwrite64 [Reg 0, Write_buf, Imm 0x1200, Imm 0x1e4b0e00], Count,
    Syscall NR_pwrite64 [Reg 0, Write_buf, Imm 0x2000, Imm 0x1e4b2000], Count]"

definition min_mysql_pwrite64_openat_0_0_body509 :: "stmt list" where
  "min_mysql_pwrite64_openat_0_0_body509 = [
    Syscall NR_pwrite64 [Reg 0, Write_buf, Imm 0x800, Imm 0x1e4b2000], Count,
    Syscall NR_pwrite64 [Reg 0, Write_buf, Imm 0x200, Imm 0x1e4b2800], Count,
    Syscall NR_pwrite64 [Reg 0, Write_buf, Imm 0x200, Imm 0x1e4b2800], Count,
    Syscall NR_pwrite64 [Reg 0, Write_buf, Imm 0x200, Imm 0x1e4b2a00], Count,
    Syscall NR_pwrite64 [Reg 0, Write_buf, Imm 0x200, Imm 0x1e4b2a00], Count,
    Syscall NR_pwrite64 [Reg 0, Write_buf, Imm 0x200, Imm 0x1e4b2a00], Count,
    Syscall NR_pwrite64 [Reg 0, Write_buf, Imm 0x200, Imm 0x1e4b2c00], Count,
    Syscall NR_pwrite64 [Reg 0, Write_buf, Imm 0x200, Imm 0x1e4b2c00], Count,
    Syscall NR_pwrite64 [Reg 0, Write_buf, Imm 0x200, Imm 0x1e4b2c00], Count,
    Syscall NR_pwrite64 [Reg 0, Write_buf, Imm 0x400, Imm 0x1e4b2c00], Count,
    Syscall NR_pwrite64 [Reg 0, Write_buf, Imm 0x200, Imm 0x1e4b3000], Count,
    Syscall NR_pwrite64 [Reg 0, Write_buf, Imm 0x800, Imm 0x1e4b3000], Count,
    Syscall NR_pwrite64 [Reg 0, Write_buf, Imm 0x200, Imm 0x1e4b3800], Count]"

definition min_mysql_pwrite64_openat_0_0_body510 :: "stmt list" where
  "min_mysql_pwrite64_openat_0_0_body510 = [
    Syscall NR_pwrite64 [Reg 0, Write_buf, Imm 0x800, Imm 0x1e4b3800], Count,
    Syscall NR_pwrite64 [Reg 0, Write_buf, Imm 0x2000, Imm 0x1e4b4000], Count,
    Syscall NR_pwrite64 [Reg 0, Write_buf, Imm 0xa00, Imm 0x1e4b4000], Count,
    Syscall NR_pwrite64 [Reg 0, Write_buf, Imm 0x200, Imm 0x1e4b4a00], Count,
    Syscall NR_pwrite64 [Reg 0, Write_buf, Imm 0x200, Imm 0x1e4b4a00], Count,
    Syscall NR_pwrite64 [Reg 0, Write_buf, Imm 0x200, Imm 0x1e4b4a00], Count,
    Syscall NR_pwrite64 [Reg 0, Write_buf, Imm 0x200, Imm 0x1e4b4a00], Count,
    Syscall NR_pwrite64 [Reg 0, Write_buf, Imm 0x200, Imm 0x1e4b4c00], Count,
    Syscall NR_pwrite64 [Reg 0, Write_buf, Imm 0x200, Imm 0x1e4b4c00], Count,
    Syscall NR_pwrite64 [Reg 0, Write_buf, Imm 0x200, Imm 0x1e4b4c00], Count,
    Syscall NR_pwrite64 [Reg 0, Write_buf, Imm 0x200, Imm 0x1e4b4c00], Count,
    Syscall NR_pwrite64 [Reg 0, Write_buf, Imm 0x200, Imm 0x1e4b4c00], Count,
    Syscall NR_pwrite64 [Reg 0, Write_buf, Imm 0x600, Imm 0x1e4b4c00], Count]"

definition min_mysql_pwrite64_openat_0_0_body511 :: "stmt list" where
  "min_mysql_pwrite64_openat_0_0_body511 = [
    Syscall NR_pwrite64 [Reg 0, Write_buf, Imm 0x200, Imm 0x1e4b5200], Count,
    Syscall NR_pwrite64 [Reg 0, Write_buf, Imm 0x200, Imm 0x1e4b5200], Count,
    Syscall NR_pwrite64 [Reg 0, Write_buf, Imm 0xe00, Imm 0x1e4b5200], Count,
    Syscall NR_pwrite64 [Reg 0, Write_buf, Imm 0x2000, Imm 0x1e4b6000], Count,
    Syscall NR_pwrite64 [Reg 0, Write_buf, Imm 0x800, Imm 0x1e4b6200], Count,
    Syscall NR_pwrite64 [Reg 0, Write_buf, Imm 0x200, Imm 0x1e4b6a00], Count,
    Syscall NR_pwrite64 [Reg 0, Write_buf, Imm 0x200, Imm 0x1e4b6a00], Count,
    Syscall NR_pwrite64 [Reg 0, Write_buf, Imm 0x200, Imm 0x1e4b6a00], Count,
    Syscall NR_pwrite64 [Reg 0, Write_buf, Imm 0x200, Imm 0x1e4b6a00], Count,
    Syscall NR_pwrite64 [Reg 0, Write_buf, Imm 0x200, Imm 0x1e4b6c00], Count,
    Syscall NR_pwrite64 [Reg 0, Write_buf, Imm 0x200, Imm 0x1e4b6c00], Count,
    Syscall NR_pwrite64 [Reg 0, Write_buf, Imm 0x200, Imm 0x1e4b6c00], Count,
    Syscall NR_pwrite64 [Reg 0, Write_buf, Imm 0x200, Imm 0x1e4b6e00], Count]"

definition min_mysql_pwrite64_openat_0_0_body512 :: "stmt list" where
  "min_mysql_pwrite64_openat_0_0_body512 = [
    Syscall NR_pwrite64 [Reg 0, Write_buf, Imm 0x200, Imm 0x1e4b6e00], Count,
    Syscall NR_pwrite64 [Reg 0, Write_buf, Imm 0x400, Imm 0x1e4b6e00], Count,
    Syscall NR_pwrite64 [Reg 0, Write_buf, Imm 0x200, Imm 0x1e4b7200], Count,
    Syscall NR_pwrite64 [Reg 0, Write_buf, Imm 0x200, Imm 0x1e4b7200], Count,
    Syscall NR_pwrite64 [Reg 0, Write_buf, Imm 0xe00, Imm 0x1e4b7200], Count,
    Syscall NR_pwrite64 [Reg 0, Write_buf, Imm 0x2000, Imm 0x1e4b8000], Count,
    Syscall NR_pwrite64 [Reg 0, Write_buf, Imm 0x800, Imm 0x1e4b8600], Count,
    Syscall NR_pwrite64 [Reg 0, Write_buf, Imm 0x200, Imm 0x1e4b8e00], Count,
    Syscall NR_pwrite64 [Reg 0, Write_buf, Imm 0x200, Imm 0x1e4b8e00], Count,
    Syscall NR_pwrite64 [Reg 0, Write_buf, Imm 0x200, Imm 0x1e4b8e00], Count,
    Syscall NR_pwrite64 [Reg 0, Write_buf, Imm 0x200, Imm 0x1e4b8e00], Count,
    Syscall NR_pwrite64 [Reg 0, Write_buf, Imm 0x200, Imm 0x1e4b9000], Count,
    Syscall NR_pwrite64 [Reg 0, Write_buf, Imm 0x200, Imm 0x1e4b9000], Count]"

definition min_mysql_pwrite64_openat_0_0_body513 :: "stmt list" where
  "min_mysql_pwrite64_openat_0_0_body513 = [
    Syscall NR_pwrite64 [Reg 0, Write_buf, Imm 0x200, Imm 0x1e4b9000], Count,
    Syscall NR_pwrite64 [Reg 0, Write_buf, Imm 0x200, Imm 0x1e4b9000], Count,
    Syscall NR_pwrite64 [Reg 0, Write_buf, Imm 0xa00, Imm 0x1e4b9000], Count,
    Syscall NR_pwrite64 [Reg 0, Write_buf, Imm 0x200, Imm 0x1e4b9a00], Count,
    Syscall NR_pwrite64 [Reg 0, Write_buf, Imm 0x200, Imm 0x1e4b9a00], Count,
    Syscall NR_pwrite64 [Reg 0, Write_buf, Imm 0x200, Imm 0x1e4b9a00], Count,
    Syscall NR_pwrite64 [Reg 0, Write_buf, Imm 0x200, Imm 0x1e4b9c00], Count,
    Syscall NR_pwrite64 [Reg 0, Write_buf, Imm 0x400, Imm 0x1e4b9c00], Count,
    Syscall NR_pwrite64 [Reg 0, Write_buf, Imm 0x2000, Imm 0x1e4ba000], Count,
    Syscall NR_pwrite64 [Reg 0, Write_buf, Imm 0x200, Imm 0x1e4ba000], Count,
    Syscall NR_pwrite64 [Reg 0, Write_buf, Imm 0x1000, Imm 0x1e4ba000], Count,
    Syscall NR_pwrite64 [Reg 0, Write_buf, Imm 0x200, Imm 0x1e4bb000], Count,
    Syscall NR_pwrite64 [Reg 0, Write_buf, Imm 0x200, Imm 0x1e4bb000], Count]"

definition min_mysql_pwrite64_openat_0_0_body514 :: "stmt list" where
  "min_mysql_pwrite64_openat_0_0_body514 = [
    Syscall NR_pwrite64 [Reg 0, Write_buf, Imm 0x800, Imm 0x1e4bb000], Count,
    Syscall NR_pwrite64 [Reg 0, Write_buf, Imm 0x200, Imm 0x1e4bb800], Count,
    Syscall NR_pwrite64 [Reg 0, Write_buf, Imm 0x200, Imm 0x1e4bb800], Count,
    Syscall NR_pwrite64 [Reg 0, Write_buf, Imm 0x200, Imm 0x1e4bb800], Count,
    Syscall NR_pwrite64 [Reg 0, Write_buf, Imm 0x200, Imm 0x1e4bba00], Count,
    Syscall NR_pwrite64 [Reg 0, Write_buf, Imm 0x200, Imm 0x1e4bba00], Count,
    Syscall NR_pwrite64 [Reg 0, Write_buf, Imm 0x200, Imm 0x1e4bba00], Count,
    Syscall NR_pwrite64 [Reg 0, Write_buf, Imm 0x200, Imm 0x1e4bba00], Count,
    Syscall NR_pwrite64 [Reg 0, Write_buf, Imm 0x200, Imm 0x1e4bbc00], Count,
    Syscall NR_pwrite64 [Reg 0, Write_buf, Imm 0x200, Imm 0x1e4bbc00], Count,
    Syscall NR_pwrite64 [Reg 0, Write_buf, Imm 0x400, Imm 0x1e4bbc00], Count,
    Syscall NR_pwrite64 [Reg 0, Write_buf, Imm 0x2000, Imm 0x1e4bc000], Count,
    Syscall NR_pwrite64 [Reg 0, Write_buf, Imm 0x200, Imm 0x1e4bc000], Count]"

definition min_mysql_pwrite64_openat_0_0_body515 :: "stmt list" where
  "min_mysql_pwrite64_openat_0_0_body515 = [
    Syscall NR_pwrite64 [Reg 0, Write_buf, Imm 0x1400, Imm 0x1e4bc000], Count,
    Syscall NR_pwrite64 [Reg 0, Write_buf, Imm 0x200, Imm 0x1e4bd400], Count,
    Syscall NR_pwrite64 [Reg 0, Write_buf, Imm 0x200, Imm 0x1e4bd400], Count,
    Syscall NR_pwrite64 [Reg 0, Write_buf, Imm 0x200, Imm 0x1e4bd400], Count,
    Syscall NR_pwrite64 [Reg 0, Write_buf, Imm 0x200, Imm 0x1e4bd600], Count,
    Syscall NR_pwrite64 [Reg 0, Write_buf, Imm 0x200, Imm 0x1e4bd800], Count,
    Syscall NR_pwrite64 [Reg 0, Write_buf, Imm 0x200, Imm 0x1e4bda00], Count,
    Syscall NR_pwrite64 [Reg 0, Write_buf, Imm 0x200, Imm 0x1e4bda00], Count,
    Syscall NR_pwrite64 [Reg 0, Write_buf, Imm 0x200, Imm 0x1e4bdc00], Count,
    Syscall NR_pwrite64 [Reg 0, Write_buf, Imm 0x200, Imm 0x1e4bdc00], Count,
    Syscall NR_pwrite64 [Reg 0, Write_buf, Imm 0x200, Imm 0x1e4bdc00], Count,
    Syscall NR_pwrite64 [Reg 0, Write_buf, Imm 0x200, Imm 0x1e4bdc00], Count,
    Syscall NR_pwrite64 [Reg 0, Write_buf, Imm 0x200, Imm 0x1e4bde00], Count]"

definition min_mysql_pwrite64_openat_0_0_body516 :: "stmt list" where
  "min_mysql_pwrite64_openat_0_0_body516 = [
    Syscall NR_pwrite64 [Reg 0, Write_buf, Imm 0x200, Imm 0x1e4bde00], Count,
    Syscall NR_pwrite64 [Reg 0, Write_buf, Imm 0x200, Imm 0x1e4bde00], Count,
    Syscall NR_pwrite64 [Reg 0, Write_buf, Imm 0x200, Imm 0x1e4bde00], Count,
    Syscall NR_pwrite64 [Reg 0, Write_buf, Imm 0x2000, Imm 0x1e4be000], Count,
    Syscall NR_pwrite64 [Reg 0, Write_buf, Imm 0x200, Imm 0x1e4be400], Count,
    Syscall NR_pwrite64 [Reg 0, Write_buf, Imm 0x1200, Imm 0x1e4be400], Count,
    Syscall NR_pwrite64 [Reg 0, Write_buf, Imm 0x200, Imm 0x1e4bf600], Count,
    Syscall NR_pwrite64 [Reg 0, Write_buf, Imm 0x200, Imm 0x1e4bf600], Count,
    Syscall NR_pwrite64 [Reg 0, Write_buf, Imm 0x200, Imm 0x1e4bf600], Count,
    Syscall NR_pwrite64 [Reg 0, Write_buf, Imm 0x200, Imm 0x1e4bf800], Count,
    Syscall NR_pwrite64 [Reg 0, Write_buf, Imm 0x200, Imm 0x1e4bf800], Count,
    Syscall NR_pwrite64 [Reg 0, Write_buf, Imm 0x200, Imm 0x1e4bfa00], Count,
    Syscall NR_pwrite64 [Reg 0, Write_buf, Imm 0x200, Imm 0x1e4bfc00], Count]"

definition min_mysql_pwrite64_openat_0_0_body517 :: "stmt list" where
  "min_mysql_pwrite64_openat_0_0_body517 = [
    Syscall NR_pwrite64 [Reg 0, Write_buf, Imm 0x200, Imm 0x1e4bfe00], Count,
    Syscall NR_pwrite64 [Reg 0, Write_buf, Imm 0x200, Imm 0x1e4bfe00], Count,
    Syscall NR_pwrite64 [Reg 0, Write_buf, Imm 0x2000, Imm 0x1e4c0000], Count,
    Syscall NR_pwrite64 [Reg 0, Write_buf, Imm 0x200, Imm 0x1e4c0000], Count,
    Syscall NR_pwrite64 [Reg 0, Write_buf, Imm 0x200, Imm 0x1e4c0200], Count,
    Syscall NR_pwrite64 [Reg 0, Write_buf, Imm 0x200, Imm 0x1e4c0200], Count,
    Syscall NR_pwrite64 [Reg 0, Write_buf, Imm 0x400, Imm 0x1e4c0200], Count,
    Syscall NR_pwrite64 [Reg 0, Write_buf, Imm 0x200, Imm 0x1e4c0600], Count,
    Syscall NR_pwrite64 [Reg 0, Write_buf, Imm 0x1200, Imm 0x1e4c0600], Count,
    Syscall NR_pwrite64 [Reg 0, Write_buf, Imm 0x200, Imm 0x1e4c1800], Count,
    Syscall NR_pwrite64 [Reg 0, Write_buf, Imm 0x200, Imm 0x1e4c1800], Count,
    Syscall NR_pwrite64 [Reg 0, Write_buf, Imm 0x200, Imm 0x1e4c1a00], Count,
    Syscall NR_pwrite64 [Reg 0, Write_buf, Imm 0x600, Imm 0x1e4c1a00], Count]"

definition min_mysql_pwrite64_openat_0_0_body518 :: "stmt list" where
  "min_mysql_pwrite64_openat_0_0_body518 = [
    Syscall NR_pwrite64 [Reg 0, Write_buf, Imm 0x2000, Imm 0x1e4c2000], Count,
    Syscall NR_pwrite64 [Reg 0, Write_buf, Imm 0x200, Imm 0x1e4c2200], Count,
    Syscall NR_pwrite64 [Reg 0, Write_buf, Imm 0x200, Imm 0x1e4c2400], Count,
    Syscall NR_pwrite64 [Reg 0, Write_buf, Imm 0x200, Imm 0x1e4c2400], Count,
    Syscall NR_pwrite64 [Reg 0, Write_buf, Imm 0x200, Imm 0x1e4c2400], Count,
    Syscall NR_pwrite64 [Reg 0, Write_buf, Imm 0x200, Imm 0x1e4c2400], Count,
    Syscall NR_pwrite64 [Reg 0, Write_buf, Imm 0x1c00, Imm 0x1e4c2400], Count,
    Syscall NR_pwrite64 [Reg 0, Write_buf, Imm 0x2000, Imm 0x1e4c4000], Count,
    Syscall NR_pwrite64 [Reg 0, Write_buf, Imm 0x2000, Imm 0x1e4c6000], Count,
    Syscall NR_pwrite64 [Reg 0, Write_buf, Imm 0x600, Imm 0x1e4c7200], Count,
    Syscall NR_pwrite64 [Reg 0, Write_buf, Imm 0x200, Imm 0x1e4c7800], Count,
    Syscall NR_pwrite64 [Reg 0, Write_buf, Imm 0x600, Imm 0x1e4c7800], Count,
    Syscall NR_pwrite64 [Reg 0, Write_buf, Imm 0x200, Imm 0x1e4c7e00], Count]"

definition min_mysql_pwrite64_openat_0_0_body519 :: "stmt list" where
  "min_mysql_pwrite64_openat_0_0_body519 = [
    Syscall NR_pwrite64 [Reg 0, Write_buf, Imm 0x2000, Imm 0x1e4c8000], Count,
    Syscall NR_pwrite64 [Reg 0, Write_buf, Imm 0x400, Imm 0x1e4c8400], Count,
    Syscall NR_pwrite64 [Reg 0, Write_buf, Imm 0x200, Imm 0x1e4c8800], Count,
    Syscall NR_pwrite64 [Reg 0, Write_buf, Imm 0x1600, Imm 0x1e4c8800], Count,
    Syscall NR_pwrite64 [Reg 0, Write_buf, Imm 0x200, Imm 0x1e4c9e00], Count,
    Syscall NR_pwrite64 [Reg 0, Write_buf, Imm 0x200, Imm 0x1e4c9e00], Count,
    Syscall NR_pwrite64 [Reg 0, Write_buf, Imm 0x200, Imm 0x1e4c9e00], Count,
    Syscall NR_pwrite64 [Reg 0, Write_buf, Imm 0x200, Imm 0x1e4c9e00], Count,
    Syscall NR_pwrite64 [Reg 0, Write_buf, Imm 0x2000, Imm 0x1e4ca000], Count,
    Syscall NR_pwrite64 [Reg 0, Write_buf, Imm 0x400, Imm 0x1e4ca000], Count,
    Syscall NR_pwrite64 [Reg 0, Write_buf, Imm 0x200, Imm 0x1e4ca400], Count,
    Syscall NR_pwrite64 [Reg 0, Write_buf, Imm 0x200, Imm 0x1e4ca400], Count,
    Syscall NR_pwrite64 [Reg 0, Write_buf, Imm 0x200, Imm 0x1e4ca600], Count]"

definition min_mysql_pwrite64_openat_0_0_body520 :: "stmt list" where
  "min_mysql_pwrite64_openat_0_0_body520 = [
    Syscall NR_pwrite64 [Reg 0, Write_buf, Imm 0x1000, Imm 0x1e4ca600], Count,
    Syscall NR_pwrite64 [Reg 0, Write_buf, Imm 0x200, Imm 0x1e4cb600], Count,
    Syscall NR_pwrite64 [Reg 0, Write_buf, Imm 0x200, Imm 0x1e4cb600], Count,
    Syscall NR_pwrite64 [Reg 0, Write_buf, Imm 0x800, Imm 0x1e4cb600], Count,
    Syscall NR_pwrite64 [Reg 0, Write_buf, Imm 0x200, Imm 0x1e4cbe00], Count,
    Syscall NR_pwrite64 [Reg 0, Write_buf, Imm 0x200, Imm 0x1e4cbe00], Count,
    Syscall NR_pwrite64 [Reg 0, Write_buf, Imm 0x2000, Imm 0x1e4cc000], Count,
    Syscall NR_pwrite64 [Reg 0, Write_buf, Imm 0x200, Imm 0x1e4cc000], Count,
    Syscall NR_pwrite64 [Reg 0, Write_buf, Imm 0x200, Imm 0x1e4cc000], Count,
    Syscall NR_pwrite64 [Reg 0, Write_buf, Imm 0x400, Imm 0x1e4cc000], Count,
    Syscall NR_pwrite64 [Reg 0, Write_buf, Imm 0x200, Imm 0x1e4cc400], Count,
    Syscall NR_pwrite64 [Reg 0, Write_buf, Imm 0x1000, Imm 0x1e4cc400], Count,
    Syscall NR_pwrite64 [Reg 0, Write_buf, Imm 0x200, Imm 0x1e4cd400], Count]"

definition min_mysql_pwrite64_openat_0_0_body521 :: "stmt list" where
  "min_mysql_pwrite64_openat_0_0_body521 = [
    Syscall NR_pwrite64 [Reg 0, Write_buf, Imm 0xc00, Imm 0x1e4cd400], Count,
    Syscall NR_pwrite64 [Reg 0, Write_buf, Imm 0x2000, Imm 0x1e4ce000], Count,
    Syscall NR_pwrite64 [Reg 0, Write_buf, Imm 0x2000, Imm 0x1e4d0000], Count,
    Syscall NR_pwrite64 [Reg 0, Write_buf, Imm 0x2000, Imm 0x1e4d2000], Count,
    Syscall NR_pwrite64 [Reg 0, Write_buf, Imm 0x200, Imm 0x1e4d2400], Count,
    Syscall NR_pwrite64 [Reg 0, Write_buf, Imm 0x200, Imm 0x1e4d2400], Count,
    Syscall NR_pwrite64 [Reg 0, Write_buf, Imm 0x200, Imm 0x1e4d2600], Count,
    Syscall NR_pwrite64 [Reg 0, Write_buf, Imm 0x200, Imm 0x1e4d2600], Count,
    Syscall NR_pwrite64 [Reg 0, Write_buf, Imm 0x200, Imm 0x1e4d2800], Count,
    Syscall NR_pwrite64 [Reg 0, Write_buf, Imm 0x400, Imm 0x1e4d2800], Count,
    Syscall NR_pwrite64 [Reg 0, Write_buf, Imm 0x200, Imm 0x1e4d2c00], Count,
    Syscall NR_pwrite64 [Reg 0, Write_buf, Imm 0x200, Imm 0x1e4d2c00], Count,
    Syscall NR_pwrite64 [Reg 0, Write_buf, Imm 0x200, Imm 0x1e4d2c00], Count]"

definition min_mysql_pwrite64_openat_0_0_body522 :: "stmt list" where
  "min_mysql_pwrite64_openat_0_0_body522 = [
    Syscall NR_pwrite64 [Reg 0, Write_buf, Imm 0x200, Imm 0x1e4d2e00], Count,
    Syscall NR_pwrite64 [Reg 0, Write_buf, Imm 0x1000, Imm 0x1e4d2e00], Count,
    Syscall NR_pwrite64 [Reg 0, Write_buf, Imm 0x200, Imm 0x1e4d3e00], Count,
    Syscall NR_pwrite64 [Reg 0, Write_buf, Imm 0x200, Imm 0x1e4d3e00], Count,
    Syscall NR_pwrite64 [Reg 0, Write_buf, Imm 0x2000, Imm 0x1e4d4000], Count,
    Syscall NR_pwrite64 [Reg 0, Write_buf, Imm 0x200, Imm 0x1e4d4600], Count,
    Syscall NR_pwrite64 [Reg 0, Write_buf, Imm 0x200, Imm 0x1e4d4800], Count,
    Syscall NR_pwrite64 [Reg 0, Write_buf, Imm 0x400, Imm 0x1e4d4800], Count,
    Syscall NR_pwrite64 [Reg 0, Write_buf, Imm 0x200, Imm 0x1e4d4c00], Count,
    Syscall NR_pwrite64 [Reg 0, Write_buf, Imm 0x200, Imm 0x1e4d4c00], Count,
    Syscall NR_pwrite64 [Reg 0, Write_buf, Imm 0x400, Imm 0x1e4d4c00], Count,
    Syscall NR_pwrite64 [Reg 0, Write_buf, Imm 0x200, Imm 0x1e4d5000], Count,
    Syscall NR_pwrite64 [Reg 0, Write_buf, Imm 0x1000, Imm 0x1e4d5000], Count]"

definition min_mysql_pwrite64_openat_0_0_body523 :: "stmt list" where
  "min_mysql_pwrite64_openat_0_0_body523 = [
    Syscall NR_pwrite64 [Reg 0, Write_buf, Imm 0x2000, Imm 0x1e4d6000], Count,
    Syscall NR_pwrite64 [Reg 0, Write_buf, Imm 0x600, Imm 0x1e4d6000], Count,
    Syscall NR_pwrite64 [Reg 0, Write_buf, Imm 0x200, Imm 0x1e4d6600], Count,
    Syscall NR_pwrite64 [Reg 0, Write_buf, Imm 0x200, Imm 0x1e4d6800], Count,
    Syscall NR_pwrite64 [Reg 0, Write_buf, Imm 0x200, Imm 0x1e4d6800], Count,
    Syscall NR_pwrite64 [Reg 0, Write_buf, Imm 0x200, Imm 0x1e4d6800], Count,
    Syscall NR_pwrite64 [Reg 0, Write_buf, Imm 0x200, Imm 0x1e4d6a00], Count,
    Syscall NR_pwrite64 [Reg 0, Write_buf, Imm 0x200, Imm 0x1e4d6a00], Count,
    Syscall NR_pwrite64 [Reg 0, Write_buf, Imm 0x200, Imm 0x1e4d6c00], Count,
    Syscall NR_pwrite64 [Reg 0, Write_buf, Imm 0x200, Imm 0x1e4d6c00], Count,
    Syscall NR_pwrite64 [Reg 0, Write_buf, Imm 0x400, Imm 0x1e4d6c00], Count,
    Syscall NR_pwrite64 [Reg 0, Write_buf, Imm 0x200, Imm 0x1e4d7000], Count,
    Syscall NR_pwrite64 [Reg 0, Write_buf, Imm 0x200, Imm 0x1e4d7000], Count]"

definition min_mysql_pwrite64_openat_0_0_body524 :: "stmt list" where
  "min_mysql_pwrite64_openat_0_0_body524 = [
    Syscall NR_pwrite64 [Reg 0, Write_buf, Imm 0x200, Imm 0x1e4d7200], Count,
    Syscall NR_pwrite64 [Reg 0, Write_buf, Imm 0xe00, Imm 0x1e4d7200], Count,
    Syscall NR_pwrite64 [Reg 0, Write_buf, Imm 0x2000, Imm 0x1e4d8000], Count,
    Syscall NR_pwrite64 [Reg 0, Write_buf, Imm 0x200, Imm 0x1e4d8600], Count,
    Syscall NR_pwrite64 [Reg 0, Write_buf, Imm 0x600, Imm 0x1e4d8600], Count,
    Syscall NR_pwrite64 [Reg 0, Write_buf, Imm 0x200, Imm 0x1e4d8c00], Count,
    Syscall NR_pwrite64 [Reg 0, Write_buf, Imm 0x200, Imm 0x1e4d8e00], Count,
    Syscall NR_pwrite64 [Reg 0, Write_buf, Imm 0x200, Imm 0x1e4d8e00], Count,
    Syscall NR_pwrite64 [Reg 0, Write_buf, Imm 0x200, Imm 0x1e4d9000], Count,
    Syscall NR_pwrite64 [Reg 0, Write_buf, Imm 0x200, Imm 0x1e4d9000], Count,
    Syscall NR_pwrite64 [Reg 0, Write_buf, Imm 0x200, Imm 0x1e4d9200], Count,
    Syscall NR_pwrite64 [Reg 0, Write_buf, Imm 0x200, Imm 0x1e4d9200], Count,
    Syscall NR_pwrite64 [Reg 0, Write_buf, Imm 0x400, Imm 0x1e4d9200], Count]"

definition min_mysql_pwrite64_openat_0_0_body525 :: "stmt list" where
  "min_mysql_pwrite64_openat_0_0_body525 = [
    Syscall NR_pwrite64 [Reg 0, Write_buf, Imm 0x200, Imm 0x1e4d9600], Count,
    Syscall NR_pwrite64 [Reg 0, Write_buf, Imm 0xa00, Imm 0x1e4d9600], Count,
    Syscall NR_pwrite64 [Reg 0, Write_buf, Imm 0x2000, Imm 0x1e4da000], Count,
    Syscall NR_pwrite64 [Reg 0, Write_buf, Imm 0x200, Imm 0x1e4da800], Count,
    Syscall NR_pwrite64 [Reg 0, Write_buf, Imm 0xa00, Imm 0x1e4da800], Count,
    Syscall NR_pwrite64 [Reg 0, Write_buf, Imm 0x200, Imm 0x1e4db200], Count,
    Syscall NR_pwrite64 [Reg 0, Write_buf, Imm 0x200, Imm 0x1e4db200], Count,
    Syscall NR_pwrite64 [Reg 0, Write_buf, Imm 0x200, Imm 0x1e4db400], Count,
    Syscall NR_pwrite64 [Reg 0, Write_buf, Imm 0x200, Imm 0x1e4db400], Count,
    Syscall NR_pwrite64 [Reg 0, Write_buf, Imm 0x600, Imm 0x1e4db400], Count,
    Syscall NR_pwrite64 [Reg 0, Write_buf, Imm 0x200, Imm 0x1e4dba00], Count,
    Syscall NR_pwrite64 [Reg 0, Write_buf, Imm 0x200, Imm 0x1e4dba00], Count,
    Syscall NR_pwrite64 [Reg 0, Write_buf, Imm 0x200, Imm 0x1e4dba00], Count]"

definition min_mysql_pwrite64_openat_0_0_body526 :: "stmt list" where
  "min_mysql_pwrite64_openat_0_0_body526 = [
    Syscall NR_pwrite64 [Reg 0, Write_buf, Imm 0x600, Imm 0x1e4dba00], Count,
    Syscall NR_pwrite64 [Reg 0, Write_buf, Imm 0x2000, Imm 0x1e4dc000], Count,
    Syscall NR_pwrite64 [Reg 0, Write_buf, Imm 0x200, Imm 0x1e4dca00], Count,
    Syscall NR_pwrite64 [Reg 0, Write_buf, Imm 0x200, Imm 0x1e4dca00], Count,
    Syscall NR_pwrite64 [Reg 0, Write_buf, Imm 0x200, Imm 0x1e4dcc00], Count,
    Syscall NR_pwrite64 [Reg 0, Write_buf, Imm 0xa00, Imm 0x1e4dcc00], Count,
    Syscall NR_pwrite64 [Reg 0, Write_buf, Imm 0x200, Imm 0x1e4dd600], Count,
    Syscall NR_pwrite64 [Reg 0, Write_buf, Imm 0x200, Imm 0x1e4dd600], Count,
    Syscall NR_pwrite64 [Reg 0, Write_buf, Imm 0x200, Imm 0x1e4dd600], Count,
    Syscall NR_pwrite64 [Reg 0, Write_buf, Imm 0x200, Imm 0x1e4dd800], Count,
    Syscall NR_pwrite64 [Reg 0, Write_buf, Imm 0x400, Imm 0x1e4dd800], Count,
    Syscall NR_pwrite64 [Reg 0, Write_buf, Imm 0x200, Imm 0x1e4ddc00], Count,
    Syscall NR_pwrite64 [Reg 0, Write_buf, Imm 0x200, Imm 0x1e4ddc00], Count]"

definition min_mysql_pwrite64_openat_0_0_body527 :: "stmt list" where
  "min_mysql_pwrite64_openat_0_0_body527 = [
    Syscall NR_pwrite64 [Reg 0, Write_buf, Imm 0x200, Imm 0x1e4dde00], Count,
    Syscall NR_pwrite64 [Reg 0, Write_buf, Imm 0x200, Imm 0x1e4dde00], Count,
    Syscall NR_pwrite64 [Reg 0, Write_buf, Imm 0x2000, Imm 0x1e4de000], Count,
    Syscall NR_pwrite64 [Reg 0, Write_buf, Imm 0x200, Imm 0x1e4dee00], Count,
    Syscall NR_pwrite64 [Reg 0, Write_buf, Imm 0x400, Imm 0x1e4dee00], Count,
    Syscall NR_pwrite64 [Reg 0, Write_buf, Imm 0x200, Imm 0x1e4df200], Count,
    Syscall NR_pwrite64 [Reg 0, Write_buf, Imm 0x200, Imm 0x1e4df200], Count,
    Syscall NR_pwrite64 [Reg 0, Write_buf, Imm 0xc00, Imm 0x1e4df200], Count,
    Syscall NR_pwrite64 [Reg 0, Write_buf, Imm 0x200, Imm 0x1e4dfe00], Count,
    Syscall NR_pwrite64 [Reg 0, Write_buf, Imm 0x200, Imm 0x1e4dfe00], Count,
    Syscall NR_pwrite64 [Reg 0, Write_buf, Imm 0x200, Imm 0x1e4dfe00], Count,
    Syscall NR_pwrite64 [Reg 0, Write_buf, Imm 0x2000, Imm 0x1e4e0000], Count,
    Syscall NR_pwrite64 [Reg 0, Write_buf, Imm 0x1200, Imm 0x1e4e0400], Count]"

definition min_mysql_pwrite64_openat_0_0_body528 :: "stmt list" where
  "min_mysql_pwrite64_openat_0_0_body528 = [
    Syscall NR_pwrite64 [Reg 0, Write_buf, Imm 0x200, Imm 0x1e4e1600], Count,
    Syscall NR_pwrite64 [Reg 0, Write_buf, Imm 0x200, Imm 0x1e4e1600], Count,
    Syscall NR_pwrite64 [Reg 0, Write_buf, Imm 0xa00, Imm 0x1e4e1600], Count,
    Syscall NR_pwrite64 [Reg 0, Write_buf, Imm 0x2000, Imm 0x1e4e2000], Count,
    Syscall NR_pwrite64 [Reg 0, Write_buf, Imm 0x200, Imm 0x1e4e2000], Count,
    Syscall NR_pwrite64 [Reg 0, Write_buf, Imm 0x200, Imm 0x1e4e2000], Count,
    Syscall NR_pwrite64 [Reg 0, Write_buf, Imm 0x200, Imm 0x1e4e2200], Count,
    Syscall NR_pwrite64 [Reg 0, Write_buf, Imm 0x600, Imm 0x1e4e2200], Count,
    Syscall NR_pwrite64 [Reg 0, Write_buf, Imm 0x200, Imm 0x1e4e2800], Count,
    Syscall NR_pwrite64 [Reg 0, Write_buf, Imm 0x200, Imm 0x1e4e2800], Count,
    Syscall NR_pwrite64 [Reg 0, Write_buf, Imm 0x200, Imm 0x1e4e2a00], Count,
    Syscall NR_pwrite64 [Reg 0, Write_buf, Imm 0xc00, Imm 0x1e4e2a00], Count,
    Syscall NR_pwrite64 [Reg 0, Write_buf, Imm 0x400, Imm 0x1e4e3600], Count]"

definition min_mysql_pwrite64_openat_0_0_body529 :: "stmt list" where
  "min_mysql_pwrite64_openat_0_0_body529 = [
    Syscall NR_pwrite64 [Reg 0, Write_buf, Imm 0x200, Imm 0x1e4e3a00], Count,
    Syscall NR_pwrite64 [Reg 0, Write_buf, Imm 0x200, Imm 0x1e4e3a00], Count,
    Syscall NR_pwrite64 [Reg 0, Write_buf, Imm 0x600, Imm 0x1e4e3a00], Count,
    Syscall NR_pwrite64 [Reg 0, Write_buf, Imm 0x2000, Imm 0x1e4e4000], Count,
    Syscall NR_pwrite64 [Reg 0, Write_buf, Imm 0x200, Imm 0x1e4e5000], Count,
    Syscall NR_pwrite64 [Reg 0, Write_buf, Imm 0x200, Imm 0x1e4e5200], Count,
    Syscall NR_pwrite64 [Reg 0, Write_buf, Imm 0x200, Imm 0x1e4e5200], Count,
    Syscall NR_pwrite64 [Reg 0, Write_buf, Imm 0x200, Imm 0x1e4e5200], Count,
    Syscall NR_pwrite64 [Reg 0, Write_buf, Imm 0x200, Imm 0x1e4e5400], Count,
    Syscall NR_pwrite64 [Reg 0, Write_buf, Imm 0x400, Imm 0x1e4e5400], Count,
    Syscall NR_pwrite64 [Reg 0, Write_buf, Imm 0x200, Imm 0x1e4e5800], Count,
    Syscall NR_pwrite64 [Reg 0, Write_buf, Imm 0x200, Imm 0x1e4e5800], Count,
    Syscall NR_pwrite64 [Reg 0, Write_buf, Imm 0x200, Imm 0x1e4e5a00], Count]"

definition min_mysql_pwrite64_openat_0_0_body530 :: "stmt list" where
  "min_mysql_pwrite64_openat_0_0_body530 = [
    Syscall NR_pwrite64 [Reg 0, Write_buf, Imm 0x600, Imm 0x1e4e5a00], Count,
    Syscall NR_pwrite64 [Reg 0, Write_buf, Imm 0x2000, Imm 0x1e4e6000], Count,
    Syscall NR_pwrite64 [Reg 0, Write_buf, Imm 0x800, Imm 0x1e4e6a00], Count,
    Syscall NR_pwrite64 [Reg 0, Write_buf, Imm 0x200, Imm 0x1e4e7200], Count,
    Syscall NR_pwrite64 [Reg 0, Write_buf, Imm 0x200, Imm 0x1e4e7200], Count,
    Syscall NR_pwrite64 [Reg 0, Write_buf, Imm 0x200, Imm 0x1e4e7200], Count,
    Syscall NR_pwrite64 [Reg 0, Write_buf, Imm 0x200, Imm 0x1e4e7400], Count,
    Syscall NR_pwrite64 [Reg 0, Write_buf, Imm 0x200, Imm 0x1e4e7400], Count,
    Syscall NR_pwrite64 [Reg 0, Write_buf, Imm 0x200, Imm 0x1e4e7400], Count,
    Syscall NR_pwrite64 [Reg 0, Write_buf, Imm 0x800, Imm 0x1e4e7400], Count,
    Syscall NR_pwrite64 [Reg 0, Write_buf, Imm 0x200, Imm 0x1e4e7c00], Count]"

lemma min_mysql_pwrite64_openat_0_0_body481_ok: "body_ok (Suc 0) 8192 min_mysql_pwrite64_openat_0_0_body481" "counted min_mysql_pwrite64_openat_0_0_body481" "calls min_mysql_pwrite64_openat_0_0_body481 = 13" "opened_in m min_mysql_pwrite64_openat_0_0_body481 = []"
  by (simp_all add: min_mysql_pwrite64_openat_0_0_body481_def prog_checks open_checks)

lemma min_mysql_pwrite64_openat_0_0_body482_ok: "body_ok (Suc 0) 8192 min_mysql_pwrite64_openat_0_0_body482" "counted min_mysql_pwrite64_openat_0_0_body482" "calls min_mysql_pwrite64_openat_0_0_body482 = 13" "opened_in m min_mysql_pwrite64_openat_0_0_body482 = []"
  by (simp_all add: min_mysql_pwrite64_openat_0_0_body482_def prog_checks open_checks)

lemma min_mysql_pwrite64_openat_0_0_body483_ok: "body_ok (Suc 0) 8192 min_mysql_pwrite64_openat_0_0_body483" "counted min_mysql_pwrite64_openat_0_0_body483" "calls min_mysql_pwrite64_openat_0_0_body483 = 13" "opened_in m min_mysql_pwrite64_openat_0_0_body483 = []"
  by (simp_all add: min_mysql_pwrite64_openat_0_0_body483_def prog_checks open_checks)

lemma min_mysql_pwrite64_openat_0_0_body484_ok: "body_ok (Suc 0) 8192 min_mysql_pwrite64_openat_0_0_body484" "counted min_mysql_pwrite64_openat_0_0_body484" "calls min_mysql_pwrite64_openat_0_0_body484 = 13" "opened_in m min_mysql_pwrite64_openat_0_0_body484 = []"
  by (simp_all add: min_mysql_pwrite64_openat_0_0_body484_def prog_checks open_checks)

lemma min_mysql_pwrite64_openat_0_0_body485_ok: "body_ok (Suc 0) 8192 min_mysql_pwrite64_openat_0_0_body485" "counted min_mysql_pwrite64_openat_0_0_body485" "calls min_mysql_pwrite64_openat_0_0_body485 = 13" "opened_in m min_mysql_pwrite64_openat_0_0_body485 = []"
  by (simp_all add: min_mysql_pwrite64_openat_0_0_body485_def prog_checks open_checks)

lemma min_mysql_pwrite64_openat_0_0_body486_ok: "body_ok (Suc 0) 8192 min_mysql_pwrite64_openat_0_0_body486" "counted min_mysql_pwrite64_openat_0_0_body486" "calls min_mysql_pwrite64_openat_0_0_body486 = 13" "opened_in m min_mysql_pwrite64_openat_0_0_body486 = []"
  by (simp_all add: min_mysql_pwrite64_openat_0_0_body486_def prog_checks open_checks)

lemma min_mysql_pwrite64_openat_0_0_body487_ok: "body_ok (Suc 0) 8192 min_mysql_pwrite64_openat_0_0_body487" "counted min_mysql_pwrite64_openat_0_0_body487" "calls min_mysql_pwrite64_openat_0_0_body487 = 13" "opened_in m min_mysql_pwrite64_openat_0_0_body487 = []"
  by (simp_all add: min_mysql_pwrite64_openat_0_0_body487_def prog_checks open_checks)

lemma min_mysql_pwrite64_openat_0_0_body488_ok: "body_ok (Suc 0) 8192 min_mysql_pwrite64_openat_0_0_body488" "counted min_mysql_pwrite64_openat_0_0_body488" "calls min_mysql_pwrite64_openat_0_0_body488 = 13" "opened_in m min_mysql_pwrite64_openat_0_0_body488 = []"
  by (simp_all add: min_mysql_pwrite64_openat_0_0_body488_def prog_checks open_checks)

lemma min_mysql_pwrite64_openat_0_0_body489_ok: "body_ok (Suc 0) 8192 min_mysql_pwrite64_openat_0_0_body489" "counted min_mysql_pwrite64_openat_0_0_body489" "calls min_mysql_pwrite64_openat_0_0_body489 = 13" "opened_in m min_mysql_pwrite64_openat_0_0_body489 = []"
  by (simp_all add: min_mysql_pwrite64_openat_0_0_body489_def prog_checks open_checks)

lemma min_mysql_pwrite64_openat_0_0_body490_ok: "body_ok (Suc 0) 8192 min_mysql_pwrite64_openat_0_0_body490" "counted min_mysql_pwrite64_openat_0_0_body490" "calls min_mysql_pwrite64_openat_0_0_body490 = 13" "opened_in m min_mysql_pwrite64_openat_0_0_body490 = []"
  by (simp_all add: min_mysql_pwrite64_openat_0_0_body490_def prog_checks open_checks)

lemma min_mysql_pwrite64_openat_0_0_body491_ok: "body_ok (Suc 0) 8192 min_mysql_pwrite64_openat_0_0_body491" "counted min_mysql_pwrite64_openat_0_0_body491" "calls min_mysql_pwrite64_openat_0_0_body491 = 13" "opened_in m min_mysql_pwrite64_openat_0_0_body491 = []"
  by (simp_all add: min_mysql_pwrite64_openat_0_0_body491_def prog_checks open_checks)

lemma min_mysql_pwrite64_openat_0_0_body492_ok: "body_ok (Suc 0) 8192 min_mysql_pwrite64_openat_0_0_body492" "counted min_mysql_pwrite64_openat_0_0_body492" "calls min_mysql_pwrite64_openat_0_0_body492 = 13" "opened_in m min_mysql_pwrite64_openat_0_0_body492 = []"
  by (simp_all add: min_mysql_pwrite64_openat_0_0_body492_def prog_checks open_checks)

lemma min_mysql_pwrite64_openat_0_0_body493_ok: "body_ok (Suc 0) 8192 min_mysql_pwrite64_openat_0_0_body493" "counted min_mysql_pwrite64_openat_0_0_body493" "calls min_mysql_pwrite64_openat_0_0_body493 = 13" "opened_in m min_mysql_pwrite64_openat_0_0_body493 = []"
  by (simp_all add: min_mysql_pwrite64_openat_0_0_body493_def prog_checks open_checks)

lemma min_mysql_pwrite64_openat_0_0_body494_ok: "body_ok (Suc 0) 8192 min_mysql_pwrite64_openat_0_0_body494" "counted min_mysql_pwrite64_openat_0_0_body494" "calls min_mysql_pwrite64_openat_0_0_body494 = 13" "opened_in m min_mysql_pwrite64_openat_0_0_body494 = []"
  by (simp_all add: min_mysql_pwrite64_openat_0_0_body494_def prog_checks open_checks)

lemma min_mysql_pwrite64_openat_0_0_body495_ok: "body_ok (Suc 0) 8192 min_mysql_pwrite64_openat_0_0_body495" "counted min_mysql_pwrite64_openat_0_0_body495" "calls min_mysql_pwrite64_openat_0_0_body495 = 13" "opened_in m min_mysql_pwrite64_openat_0_0_body495 = []"
  by (simp_all add: min_mysql_pwrite64_openat_0_0_body495_def prog_checks open_checks)

lemma min_mysql_pwrite64_openat_0_0_body496_ok: "body_ok (Suc 0) 8192 min_mysql_pwrite64_openat_0_0_body496" "counted min_mysql_pwrite64_openat_0_0_body496" "calls min_mysql_pwrite64_openat_0_0_body496 = 13" "opened_in m min_mysql_pwrite64_openat_0_0_body496 = []"
  by (simp_all add: min_mysql_pwrite64_openat_0_0_body496_def prog_checks open_checks)

lemma min_mysql_pwrite64_openat_0_0_body497_ok: "body_ok (Suc 0) 8192 min_mysql_pwrite64_openat_0_0_body497" "counted min_mysql_pwrite64_openat_0_0_body497" "calls min_mysql_pwrite64_openat_0_0_body497 = 13" "opened_in m min_mysql_pwrite64_openat_0_0_body497 = []"
  by (simp_all add: min_mysql_pwrite64_openat_0_0_body497_def prog_checks open_checks)

lemma min_mysql_pwrite64_openat_0_0_body498_ok: "body_ok (Suc 0) 8192 min_mysql_pwrite64_openat_0_0_body498" "counted min_mysql_pwrite64_openat_0_0_body498" "calls min_mysql_pwrite64_openat_0_0_body498 = 13" "opened_in m min_mysql_pwrite64_openat_0_0_body498 = []"
  by (simp_all add: min_mysql_pwrite64_openat_0_0_body498_def prog_checks open_checks)

lemma min_mysql_pwrite64_openat_0_0_body499_ok: "body_ok (Suc 0) 8192 min_mysql_pwrite64_openat_0_0_body499" "counted min_mysql_pwrite64_openat_0_0_body499" "calls min_mysql_pwrite64_openat_0_0_body499 = 13" "opened_in m min_mysql_pwrite64_openat_0_0_body499 = []"
  by (simp_all add: min_mysql_pwrite64_openat_0_0_body499_def prog_checks open_checks)

lemma min_mysql_pwrite64_openat_0_0_body500_ok: "body_ok (Suc 0) 8192 min_mysql_pwrite64_openat_0_0_body500" "counted min_mysql_pwrite64_openat_0_0_body500" "calls min_mysql_pwrite64_openat_0_0_body500 = 13" "opened_in m min_mysql_pwrite64_openat_0_0_body500 = []"
  by (simp_all add: min_mysql_pwrite64_openat_0_0_body500_def prog_checks open_checks)

lemma min_mysql_pwrite64_openat_0_0_body501_ok: "body_ok (Suc 0) 8192 min_mysql_pwrite64_openat_0_0_body501" "counted min_mysql_pwrite64_openat_0_0_body501" "calls min_mysql_pwrite64_openat_0_0_body501 = 13" "opened_in m min_mysql_pwrite64_openat_0_0_body501 = []"
  by (simp_all add: min_mysql_pwrite64_openat_0_0_body501_def prog_checks open_checks)

lemma min_mysql_pwrite64_openat_0_0_body502_ok: "body_ok (Suc 0) 8192 min_mysql_pwrite64_openat_0_0_body502" "counted min_mysql_pwrite64_openat_0_0_body502" "calls min_mysql_pwrite64_openat_0_0_body502 = 13" "opened_in m min_mysql_pwrite64_openat_0_0_body502 = []"
  by (simp_all add: min_mysql_pwrite64_openat_0_0_body502_def prog_checks open_checks)

lemma min_mysql_pwrite64_openat_0_0_body503_ok: "body_ok (Suc 0) 8192 min_mysql_pwrite64_openat_0_0_body503" "counted min_mysql_pwrite64_openat_0_0_body503" "calls min_mysql_pwrite64_openat_0_0_body503 = 13" "opened_in m min_mysql_pwrite64_openat_0_0_body503 = []"
  by (simp_all add: min_mysql_pwrite64_openat_0_0_body503_def prog_checks open_checks)

lemma min_mysql_pwrite64_openat_0_0_body504_ok: "body_ok (Suc 0) 8192 min_mysql_pwrite64_openat_0_0_body504" "counted min_mysql_pwrite64_openat_0_0_body504" "calls min_mysql_pwrite64_openat_0_0_body504 = 13" "opened_in m min_mysql_pwrite64_openat_0_0_body504 = []"
  by (simp_all add: min_mysql_pwrite64_openat_0_0_body504_def prog_checks open_checks)

lemma min_mysql_pwrite64_openat_0_0_body505_ok: "body_ok (Suc 0) 8192 min_mysql_pwrite64_openat_0_0_body505" "counted min_mysql_pwrite64_openat_0_0_body505" "calls min_mysql_pwrite64_openat_0_0_body505 = 13" "opened_in m min_mysql_pwrite64_openat_0_0_body505 = []"
  by (simp_all add: min_mysql_pwrite64_openat_0_0_body505_def prog_checks open_checks)

lemma min_mysql_pwrite64_openat_0_0_body506_ok: "body_ok (Suc 0) 8192 min_mysql_pwrite64_openat_0_0_body506" "counted min_mysql_pwrite64_openat_0_0_body506" "calls min_mysql_pwrite64_openat_0_0_body506 = 13" "opened_in m min_mysql_pwrite64_openat_0_0_body506 = []"
  by (simp_all add: min_mysql_pwrite64_openat_0_0_body506_def prog_checks open_checks)

lemma min_mysql_pwrite64_openat_0_0_body507_ok: "body_ok (Suc 0) 8192 min_mysql_pwrite64_openat_0_0_body507" "counted min_mysql_pwrite64_openat_0_0_body507" "calls min_mysql_pwrite64_openat_0_0_body507 = 13" "opened_in m min_mysql_pwrite64_openat_0_0_body507 = []"
  by (simp_all add: min_mysql_pwrite64_openat_0_0_body507_def prog_checks open_checks)

lemma min_mysql_pwrite64_openat_0_0_body508_ok: "body_ok (Suc 0) 8192 min_mysql_pwrite64_openat_0_0_body508" "counted min_mysql_pwrite64_openat_0_0_body508" "calls min_mysql_pwrite64_openat_0_0_body508 = 13" "opened_in m min_mysql_pwrite64_openat_0_0_body508 = []"
  by (simp_all add: min_mysql_pwrite64_openat_0_0_body508_def prog_checks open_checks)

lemma min_mysql_pwrite64_openat_0_0_body509_ok: "body_ok (Suc 0) 8192 min_mysql_pwrite64_openat_0_0_body509" "counted min_mysql_pwrite64_openat_0_0_body509" "calls min_mysql_pwrite64_openat_0_0_body509 = 13" "opened_in m min_mysql_pwrite64_openat_0_0_body509 = []"
  by (simp_all add: min_mysql_pwrite64_openat_0_0_body509_def prog_checks open_checks)

lemma min_mysql_pwrite64_openat_0_0_body510_ok: "body_ok (Suc 0) 8192 min_mysql_pwrite64_openat_0_0_body510" "counted min_mysql_pwrite64_openat_0_0_body510" "calls min_mysql_pwrite64_openat_0_0_body510 = 13" "opened_in m min_mysql_pwrite64_openat_0_0_body510 = []"
  by (simp_all add: min_mysql_pwrite64_openat_0_0_body510_def prog_checks open_checks)

lemma min_mysql_pwrite64_openat_0_0_body511_ok: "body_ok (Suc 0) 8192 min_mysql_pwrite64_openat_0_0_body511" "counted min_mysql_pwrite64_openat_0_0_body511" "calls min_mysql_pwrite64_openat_0_0_body511 = 13" "opened_in m min_mysql_pwrite64_openat_0_0_body511 = []"
  by (simp_all add: min_mysql_pwrite64_openat_0_0_body511_def prog_checks open_checks)

lemma min_mysql_pwrite64_openat_0_0_body512_ok: "body_ok (Suc 0) 8192 min_mysql_pwrite64_openat_0_0_body512" "counted min_mysql_pwrite64_openat_0_0_body512" "calls min_mysql_pwrite64_openat_0_0_body512 = 13" "opened_in m min_mysql_pwrite64_openat_0_0_body512 = []"
  by (simp_all add: min_mysql_pwrite64_openat_0_0_body512_def prog_checks open_checks)

lemma min_mysql_pwrite64_openat_0_0_body513_ok: "body_ok (Suc 0) 8192 min_mysql_pwrite64_openat_0_0_body513" "counted min_mysql_pwrite64_openat_0_0_body513" "calls min_mysql_pwrite64_openat_0_0_body513 = 13" "opened_in m min_mysql_pwrite64_openat_0_0_body513 = []"
  by (simp_all add: min_mysql_pwrite64_openat_0_0_body513_def prog_checks open_checks)

lemma min_mysql_pwrite64_openat_0_0_body514_ok: "body_ok (Suc 0) 8192 min_mysql_pwrite64_openat_0_0_body514" "counted min_mysql_pwrite64_openat_0_0_body514" "calls min_mysql_pwrite64_openat_0_0_body514 = 13" "opened_in m min_mysql_pwrite64_openat_0_0_body514 = []"
  by (simp_all add: min_mysql_pwrite64_openat_0_0_body514_def prog_checks open_checks)

lemma min_mysql_pwrite64_openat_0_0_body515_ok: "body_ok (Suc 0) 8192 min_mysql_pwrite64_openat_0_0_body515" "counted min_mysql_pwrite64_openat_0_0_body515" "calls min_mysql_pwrite64_openat_0_0_body515 = 13" "opened_in m min_mysql_pwrite64_openat_0_0_body515 = []"
  by (simp_all add: min_mysql_pwrite64_openat_0_0_body515_def prog_checks open_checks)

lemma min_mysql_pwrite64_openat_0_0_body516_ok: "body_ok (Suc 0) 8192 min_mysql_pwrite64_openat_0_0_body516" "counted min_mysql_pwrite64_openat_0_0_body516" "calls min_mysql_pwrite64_openat_0_0_body516 = 13" "opened_in m min_mysql_pwrite64_openat_0_0_body516 = []"
  by (simp_all add: min_mysql_pwrite64_openat_0_0_body516_def prog_checks open_checks)

lemma min_mysql_pwrite64_openat_0_0_body517_ok: "body_ok (Suc 0) 8192 min_mysql_pwrite64_openat_0_0_body517" "counted min_mysql_pwrite64_openat_0_0_body517" "calls min_mysql_pwrite64_openat_0_0_body517 = 13" "opened_in m min_mysql_pwrite64_openat_0_0_body517 = []"
  by (simp_all add: min_mysql_pwrite64_openat_0_0_body517_def prog_checks open_checks)

lemma min_mysql_pwrite64_openat_0_0_body518_ok: "body_ok (Suc 0) 8192 min_mysql_pwrite64_openat_0_0_body518" "counted min_mysql_pwrite64_openat_0_0_body518" "calls min_mysql_pwrite64_openat_0_0_body518 = 13" "opened_in m min_mysql_pwrite64_openat_0_0_body518 = []"
  by (simp_all add: min_mysql_pwrite64_openat_0_0_body518_def prog_checks open_checks)

lemma min_mysql_pwrite64_openat_0_0_body519_ok: "body_ok (Suc 0) 8192 min_mysql_pwrite64_openat_0_0_body519" "counted min_mysql_pwrite64_openat_0_0_body519" "calls min_mysql_pwrite64_openat_0_0_body519 = 13" "opened_in m min_mysql_pwrite64_openat_0_0_body519 = []"
  by (simp_all add: min_mysql_pwrite64_openat_0_0_body519_def prog_checks open_checks)

lemma min_mysql_pwrite64_openat_0_0_body520_ok: "body_ok (Suc 0) 8192 min_mysql_pwrite64_openat_0_0_body520" "counted min_mysql_pwrite64_openat_0_0_body520" "calls min_mysql_pwrite64_openat_0_0_body520 = 13" "opened_in m min_mysql_pwrite64_openat_0_0_body520 = []"
  by (simp_all add: min_mysql_pwrite64_openat_0_0_body520_def prog_checks open_checks)

lemma min_mysql_pwrite64_openat_0_0_body521_ok: "body_ok (Suc 0) 8192 min_mysql_pwrite64_openat_0_0_body521" "counted min_mysql_pwrite64_openat_0_0_body521" "calls min_mysql_pwrite64_openat_0_0_body521 = 13" "opened_in m min_mysql_pwrite64_openat_0_0_body521 = []"
  by (simp_all add: min_mysql_pwrite64_openat_0_0_body521_def prog_checks open_checks)

lemma min_mysql_pwrite64_openat_0_0_body522_ok: "body_ok (Suc 0) 8192 min_mysql_pwrite64_openat_0_0_body522" "counted min_mysql_pwrite64_openat_0_0_body522" "calls min_mysql_pwrite64_openat_0_0_body522 = 13" "opened_in m min_mysql_pwrite64_openat_0_0_body522 = []"
  by (simp_all add: min_mysql_pwrite64_openat_0_0_body522_def prog_checks open_checks)

lemma min_mysql_pwrite64_openat_0_0_body523_ok: "body_ok (Suc 0) 8192 min_mysql_pwrite64_openat_0_0_body523" "counted min_mysql_pwrite64_openat_0_0_body523" "calls min_mysql_pwrite64_openat_0_0_body523 = 13" "opened_in m min_mysql_pwrite64_openat_0_0_body523 = []"
  by (simp_all add: min_mysql_pwrite64_openat_0_0_body523_def prog_checks open_checks)

lemma min_mysql_pwrite64_openat_0_0_body524_ok: "body_ok (Suc 0) 8192 min_mysql_pwrite64_openat_0_0_body524" "counted min_mysql_pwrite64_openat_0_0_body524" "calls min_mysql_pwrite64_openat_0_0_body524 = 13" "opened_in m min_mysql_pwrite64_openat_0_0_body524 = []"
  by (simp_all add: min_mysql_pwrite64_openat_0_0_body524_def prog_checks open_checks)

lemma min_mysql_pwrite64_openat_0_0_body525_ok: "body_ok (Suc 0) 8192 min_mysql_pwrite64_openat_0_0_body525" "counted min_mysql_pwrite64_openat_0_0_body525" "calls min_mysql_pwrite64_openat_0_0_body525 = 13" "opened_in m min_mysql_pwrite64_openat_0_0_body525 = []"
  by (simp_all add: min_mysql_pwrite64_openat_0_0_body525_def prog_checks open_checks)

lemma min_mysql_pwrite64_openat_0_0_body526_ok: "body_ok (Suc 0) 8192 min_mysql_pwrite64_openat_0_0_body526" "counted min_mysql_pwrite64_openat_0_0_body526" "calls min_mysql_pwrite64_openat_0_0_body526 = 13" "opened_in m min_mysql_pwrite64_openat_0_0_body526 = []"
  by (simp_all add: min_mysql_pwrite64_openat_0_0_body526_def prog_checks open_checks)

lemma min_mysql_pwrite64_openat_0_0_body527_ok: "body_ok (Suc 0) 8192 min_mysql_pwrite64_openat_0_0_body527" "counted min_mysql_pwrite64_openat_0_0_body527" "calls min_mysql_pwrite64_openat_0_0_body527 = 13" "opened_in m min_mysql_pwrite64_openat_0_0_body527 = []"
  by (simp_all add: min_mysql_pwrite64_openat_0_0_body527_def prog_checks open_checks)

lemma min_mysql_pwrite64_openat_0_0_body528_ok: "body_ok (Suc 0) 8192 min_mysql_pwrite64_openat_0_0_body528" "counted min_mysql_pwrite64_openat_0_0_body528" "calls min_mysql_pwrite64_openat_0_0_body528 = 13" "opened_in m min_mysql_pwrite64_openat_0_0_body528 = []"
  by (simp_all add: min_mysql_pwrite64_openat_0_0_body528_def prog_checks open_checks)

lemma min_mysql_pwrite64_openat_0_0_body529_ok: "body_ok (Suc 0) 8192 min_mysql_pwrite64_openat_0_0_body529" "counted min_mysql_pwrite64_openat_0_0_body529" "calls min_mysql_pwrite64_openat_0_0_body529 = 13" "opened_in m min_mysql_pwrite64_openat_0_0_body529 = []"
  by (simp_all add: min_mysql_pwrite64_openat_0_0_body529_def prog_checks open_checks)

lemma min_mysql_pwrite64_openat_0_0_body530_ok: "body_ok (Suc 0) 8192 min_mysql_pwrite64_openat_0_0_body530" "counted min_mysql_pwrite64_openat_0_0_body530" "calls min_mysql_pwrite64_openat_0_0_body530 = 11" "opened_in m min_mysql_pwrite64_openat_0_0_body530 = []"
  by (simp_all add: min_mysql_pwrite64_openat_0_0_body530_def prog_checks open_checks)

end
