(* ===== verification/CSB_Syz_Shipped.thy ===== *)
theory CSB_Syz_Shipped
  imports
    CSB_Progs_Mysql CSB_Progs_Rocksdb CSB_Progs_Mysql_v2a CSB_Progs_Mysql_v2b CSB_Progs_Mysql_c
    CSB_Progs_Rocksdb_c CSB_Progs_Mysql_v2c CSB_Progs_Mysql_v2d CSB_Progs_Mysql_v2e CSB_Progs_Mysql_v2f
    CSB_Progs_Mysql_v2g CSB_Progs_Mysql_d CSB_Progs_Net_a CSB_Progs_Net_b CSB_Progs_Mysql_v2h
    CSB_Progs_Mysql_v2i CSB_Progs_Mysql_v2j CSB_Progs_Rocksdb_d CSB_Progs_Rocksdb_e CSB_Progs_Rocksdb_f
    CSB_Progs_Mysql_v2k CSB_Progs_Rocksdb_g CSB_Progs_Net_c CSB_Progs_Mysql_v2l
begin

text \<open>
  Properties of the translated targets that the repository ships: their dispatches stay inside
  their memory and buffers and count every call, and the files that the setup of most targets
  prepares are not the ones they open; a target without a close runs out of file descriptors.
\<close>

definition shipped :: "syz_prog list" where
  "shipped = [
    min_mysql_close_dup_0_0, min_mysql_getdents64_close_0_0, min_mysql_lseek_read_1_0,
    min_mysql_read_close_0_0, min_rocks_read_openat_0_0, min_rocks_write_fcntl_8_0,
    min_rocks_fcntl_read_0_0, min_rocks_write_fcntl_9_0, min_rocks_fcntl_pread64_0_0,
    min_rocks_read_openat_2_0, min_mysql_epoll_create1_missing_0_0, min_mysql_read_write_0_0,
    min_mysql_lseek_fcntl_17_0, min_mysql_lseek_pwrite64_26_0, min_mysql_close_openat_0_0,
    min_mysql_lseek_pwrite64_25_0, min_mysql_newfstatat_getdents64_0_0, min_mysql_lseek_pwrite64_20_0,
    min_mysql_pwrite64_lseek_3_0, min_mysql_pwrite64_fcntl_0_0, min_mysql_pread64_lseek_0_0,
    min_mysql_faccessat2_missing_1_0, min_mysql_newfstatat_missing_0_0, min_mysql_openat_fsync_0_2,
    min_mysql_newfstatat_openat_0_1, min_rocks_write_fcntl_7_0, min_rocks_newfstatat_missing_0_0,
    min_mysql_read_openat_1_0, min_mysql_pread64_fcntl_9_0, min_mysql_pread64_fcntl_8_0,
    min_mysql_openat_fsync_1_0, min_mysql_openat_fsync_2_0, min_mysql_fsync_fcntl_7_0,
    min_mysql_fsync_pwrite64_0_0, min_mysql_openat_newfstatat_0_0, min_mysql_lseek_fallocate_95_0,
    min_mysql_lseek_fallocate_97_0, min_mysql_lseek_fallocate_44_0, min_mysql_lseek_fallocate_98_0,
    min_mysql_lseek_fallocate_16_0, min_mysql_lseek_fallocate_24_0, min_mysql_lseek_fallocate_26_0,
    min_mysql_lseek_fallocate_35_0, min_mysql_lseek_fallocate_52_0, min_mysql_lseek_fallocate_68_0,
    min_mysql_lseek_fallocate_90_0, min_mysql_lseek_fallocate_109_0, min_mysql_lseek_fallocate_91_0,
    min_mysql_lseek_fallocate_113_0, min_mysql_lseek_fallocate_43_0, min_mysql_lseek_pwrite64_0_0,
    min_mysql_lseek_pwrite64_13_0, min_mysql_lseek_pwrite64_14_0, min_mysql_lseek_pwrite64_6_0,
    min_mysql_lseek_pwrite64_9_0, min_mysql_lseek_pwrite64_2_0, min_mysql_read_write_0_1,
    min_mysql_newfstatat_0_1, min_mysql_recvfrom_sendto_0_0, min_mysql_recvfrom_sendto_32_0,
    min_mysql_io_getevents_clock_gettime_17_0, min_mysql_io_getevents_clock_gettime_10_0,
    min_mysql_readlinkat_missing_14_0, min_mysql_openat_lseek_26_0, min_rocks_pread64_fcntl_67_0,
    min_rocks_read_fcntl_0_0, min_rocks_write_fcntl_5_0, min_mysql_pread64_write_29_0,
    min_rocks_write_fcntl_0_0, min_mysql_recvfrom_sendto_20_0, min_mysql_pwrite64_openat_0_0]"

lemmas shipped_ok =
  min_mysql_close_dup_0_0_ok(1) min_mysql_getdents64_close_0_0_ok(1) min_mysql_lseek_read_1_0_ok(1)
  min_mysql_read_close_0_0_ok(1) min_rocks_read_openat_0_0_ok(1) min_rocks_write_fcntl_8_0_ok(1)
  min_rocks_fcntl_read_0_0_ok(1) min_rocks_write_fcntl_9_0_ok(1) min_rocks_fcntl_pread64_0_0_ok(1)
  min_rocks_read_openat_2_0_ok(1) min_mysql_epoll_create1_missing_0_0_ok(1)
  min_mysql_read_write_0_0_ok(1) min_mysql_lseek_fcntl_17_0_ok(1) min_mysql_lseek_pwrite64_26_0_ok(1)
  min_mysql_close_openat_0_0_ok(1) min_mysql_lseek_pwrite64_25_0_ok(1)
  min_mysql_newfstatat_getdents64_0_0_ok(1) min_mysql_lseek_pwrite64_20_0_ok(1)
  min_mysql_pwrite64_lseek_3_0_ok(1) min_mysql_pwrite64_fcntl_0_0_ok(1)
  min_mysql_pread64_lseek_0_0_ok(1) min_mysql_faccessat2_missing_1_0_ok(1)
  min_mysql_newfstatat_missing_0_0_ok(1) min_mysql_openat_fsync_0_2_ok(1)
  min_mysql_newfstatat_openat_0_1_ok(1) min_rocks_write_fcntl_7_0_ok(1)
  min_rocks_newfstatat_missing_0_0_ok(1) min_mysql_read_openat_1_0_ok(1)
  min_mysql_pread64_fcntl_9_0_ok(1) min_mysql_pread64_fcntl_8_0_ok(1) min_mysql_openat_fsync_1_0_ok(1)
  min_mysql_openat_fsync_2_0_ok(1) min_mysql_fsync_fcntl_7_0_ok(1) min_mysql_fsync_pwrite64_0_0_ok(1)
  min_mysql_openat_newfstatat_0_0_ok(1) min_mysql_lseek_fallocate_95_0_ok(1)
  min_mysql_lseek_fallocate_97_0_ok(1) min_mysql_lseek_fallocate_44_0_ok(1)
  min_mysql_lseek_fallocate_98_0_ok(1) min_mysql_lseek_fallocate_16_0_ok(1)
  min_mysql_lseek_fallocate_24_0_ok(1) min_mysql_lseek_fallocate_26_0_ok(1)
  min_mysql_lseek_fallocate_35_0_ok(1) min_mysql_lseek_fallocate_52_0_ok(1)
  min_mysql_lseek_fallocate_68_0_ok(1) min_mysql_lseek_fallocate_90_0_ok(1)
  min_mysql_lseek_fallocate_109_0_ok(1) min_mysql_lseek_fallocate_91_0_ok(1)
  min_mysql_lseek_fallocate_113_0_ok(1) min_mysql_lseek_fallocate_43_0_ok(1)
  min_mysql_lseek_pwrite64_0_0_ok(1) min_mysql_lseek_pwrite64_13_0_ok(1)
  min_mysql_lseek_pwrite64_14_0_ok(1) min_mysql_lseek_pwrite64_6_0_ok(1)
  min_mysql_lseek_pwrite64_9_0_ok(1) min_mysql_lseek_pwrite64_2_0_ok(1) min_mysql_read_write_0_1_ok(1)
  min_mysql_newfstatat_0_1_ok(1) min_mysql_recvfrom_sendto_0_0_ok(1)
  min_mysql_recvfrom_sendto_32_0_ok(1) min_mysql_io_getevents_clock_gettime_17_0_ok(1)
  min_mysql_io_getevents_clock_gettime_10_0_ok(1) min_mysql_readlinkat_missing_14_0_ok(1)
  min_mysql_openat_lseek_26_0_ok(1) min_rocks_pread64_fcntl_67_0_ok(1) min_rocks_read_fcntl_0_0_ok(1)
  min_rocks_write_fcntl_5_0_ok(1) min_mysql_pread64_write_29_0_ok(1) min_rocks_write_fcntl_0_0_ok(1)
  min_mysql_recvfrom_sendto_20_0_ok(1) min_mysql_pwrite64_openat_0_0_ok(1)

lemmas shipped_calls =
  min_mysql_close_dup_0_0_ok(2) min_mysql_getdents64_close_0_0_ok(2) min_mysql_lseek_read_1_0_ok(2)
  min_mysql_read_close_0_0_ok(2) min_rocks_read_openat_0_0_ok(2) min_rocks_write_fcntl_8_0_ok(2)
  min_rocks_fcntl_read_0_0_ok(2) min_rocks_write_fcntl_9_0_ok(2) min_rocks_fcntl_pread64_0_0_ok(2)
  min_rocks_read_openat_2_0_ok(2) min_mysql_epoll_create1_missing_0_0_ok(2)
  min_mysql_read_write_0_0_ok(2) min_mysql_lseek_fcntl_17_0_ok(2) min_mysql_lseek_pwrite64_26_0_ok(2)
  min_mysql_close_openat_0_0_ok(2) min_mysql_lseek_pwrite64_25_0_ok(2)
  min_mysql_newfstatat_getdents64_0_0_ok(2) min_mysql_lseek_pwrite64_20_0_ok(2)
  min_mysql_pwrite64_lseek_3_0_ok(2) min_mysql_pwrite64_fcntl_0_0_ok(2)
  min_mysql_pread64_lseek_0_0_ok(2) min_mysql_faccessat2_missing_1_0_ok(2)
  min_mysql_newfstatat_missing_0_0_ok(2) min_mysql_openat_fsync_0_2_ok(2)
  min_mysql_newfstatat_openat_0_1_ok(2) min_rocks_write_fcntl_7_0_ok(2)
  min_rocks_newfstatat_missing_0_0_ok(2) min_mysql_read_openat_1_0_ok(2)
  min_mysql_pread64_fcntl_9_0_ok(2) min_mysql_pread64_fcntl_8_0_ok(2) min_mysql_openat_fsync_1_0_ok(2)
  min_mysql_openat_fsync_2_0_ok(2) min_mysql_fsync_fcntl_7_0_ok(2) min_mysql_fsync_pwrite64_0_0_ok(2)
  min_mysql_openat_newfstatat_0_0_ok(2) min_mysql_lseek_fallocate_95_0_ok(2)
  min_mysql_lseek_fallocate_97_0_ok(2) min_mysql_lseek_fallocate_44_0_ok(2)
  min_mysql_lseek_fallocate_98_0_ok(2) min_mysql_lseek_fallocate_16_0_ok(2)
  min_mysql_lseek_fallocate_24_0_ok(2) min_mysql_lseek_fallocate_26_0_ok(2)
  min_mysql_lseek_fallocate_35_0_ok(2) min_mysql_lseek_fallocate_52_0_ok(2)
  min_mysql_lseek_fallocate_68_0_ok(2) min_mysql_lseek_fallocate_90_0_ok(2)
  min_mysql_lseek_fallocate_109_0_ok(2) min_mysql_lseek_fallocate_91_0_ok(2)
  min_mysql_lseek_fallocate_113_0_ok(2) min_mysql_lseek_fallocate_43_0_ok(2)
  min_mysql_lseek_pwrite64_0_0_ok(2) min_mysql_lseek_pwrite64_13_0_ok(2)
  min_mysql_lseek_pwrite64_14_0_ok(2) min_mysql_lseek_pwrite64_6_0_ok(2)
  min_mysql_lseek_pwrite64_9_0_ok(2) min_mysql_lseek_pwrite64_2_0_ok(2) min_mysql_read_write_0_1_ok(2)
  min_mysql_newfstatat_0_1_ok(2) min_mysql_recvfrom_sendto_0_0_ok(2)
  min_mysql_recvfrom_sendto_32_0_ok(2) min_mysql_io_getevents_clock_gettime_17_0_ok(2)
  min_mysql_io_getevents_clock_gettime_10_0_ok(2) min_mysql_readlinkat_missing_14_0_ok(2)
  min_mysql_openat_lseek_26_0_ok(2) min_rocks_pread64_fcntl_67_0_ok(2) min_rocks_read_fcntl_0_0_ok(2)
  min_rocks_write_fcntl_5_0_ok(2) min_mysql_pread64_write_29_0_ok(2) min_rocks_write_fcntl_0_0_ok(2)
  min_mysql_recvfrom_sendto_20_0_ok(2) min_mysql_pwrite64_openat_0_0_ok(2)

lemmas misprepared_checks =
  min_mysql_lseek_read_1_0_misses min_mysql_read_close_0_0_misses min_rocks_read_openat_0_0_misses
  min_rocks_write_fcntl_8_0_misses min_rocks_fcntl_read_0_0_misses min_rocks_write_fcntl_9_0_misses
  min_rocks_fcntl_pread64_0_0_misses min_mysql_read_write_0_0_misses min_mysql_lseek_fcntl_17_0_misses
  min_mysql_lseek_pwrite64_26_0_misses min_mysql_lseek_pwrite64_25_0_misses
  min_mysql_newfstatat_getdents64_0_0_misses min_mysql_lseek_pwrite64_20_0_misses
  min_mysql_pwrite64_lseek_3_0_misses min_mysql_pwrite64_fcntl_0_0_misses
  min_mysql_pread64_lseek_0_0_misses min_mysql_openat_fsync_0_2_misses min_rocks_write_fcntl_7_0_misses
  min_mysql_read_openat_1_0_misses min_mysql_pread64_fcntl_9_0_misses min_mysql_pread64_fcntl_8_0_misses
  min_mysql_openat_fsync_1_0_misses min_mysql_openat_fsync_2_0_misses min_mysql_fsync_fcntl_7_0_misses
  min_mysql_fsync_pwrite64_0_0_misses min_mysql_openat_newfstatat_0_0_misses
  min_mysql_lseek_fallocate_95_0_misses min_mysql_lseek_fallocate_97_0_misses
  min_mysql_lseek_fallocate_44_0_misses min_mysql_lseek_fallocate_98_0_misses
  min_mysql_lseek_fallocate_16_0_misses min_mysql_lseek_fallocate_24_0_misses
  min_mysql_lseek_fallocate_26_0_misses min_mysql_lseek_fallocate_35_0_misses
  min_mysql_lseek_fallocate_52_0_misses min_mysql_lseek_fallocate_68_0_misses
  min_mysql_lseek_fallocate_90_0_misses min_mysql_lseek_fallocate_109_0_misses
  min_mysql_lseek_fallocate_91_0_misses min_mysql_lseek_fallocate_113_0_misses
  min_mysql_lseek_fallocate_43_0_misses min_mysql_lseek_pwrite64_0_0_misses
  min_mysql_lseek_pwrite64_13_0_misses min_mysql_lseek_pwrite64_14_0_misses
  min_mysql_lseek_pwrite64_6_0_misses min_mysql_lseek_pwrite64_9_0_misses
  min_mysql_lseek_pwrite64_2_0_misses min_mysql_read_write_0_1_misses
  min_rocks_pread64_fcntl_67_0_misses min_rocks_read_fcntl_0_0_misses min_rocks_write_fcntl_5_0_misses
  min_rocks_write_fcntl_0_0_misses min_mysql_pwrite64_openat_0_0_misses



text \<open>
  The targets with files to prepare whose setup prepares other ones. Not listed: the targets
  without file names, those whose file name is the name of a directory that they open
  (\<open>close_dup_0_0\<close>, \<open>getdents64_close_0_0\<close>, \<open>close_openat_0_0\<close>, \<open>openat_lseek_26_0\<close>,
  \<open>pread64_write_29_0\<close>), and \<open>newfstatat_openat_0_1\<close>, whose file name is empty.
\<close>

definition misprepared :: "syz_prog list" where
  "misprepared = [
    min_mysql_lseek_read_1_0, min_mysql_read_close_0_0, min_rocks_read_openat_0_0,
    min_rocks_write_fcntl_8_0, min_rocks_fcntl_read_0_0, min_rocks_write_fcntl_9_0,
    min_rocks_fcntl_pread64_0_0, min_mysql_read_write_0_0, min_mysql_lseek_fcntl_17_0,
    min_mysql_lseek_pwrite64_26_0, min_mysql_lseek_pwrite64_25_0, min_mysql_newfstatat_getdents64_0_0,
    min_mysql_lseek_pwrite64_20_0, min_mysql_pwrite64_lseek_3_0, min_mysql_pwrite64_fcntl_0_0,
    min_mysql_pread64_lseek_0_0, min_mysql_openat_fsync_0_2, min_rocks_write_fcntl_7_0,
    min_mysql_read_openat_1_0, min_mysql_pread64_fcntl_9_0, min_mysql_pread64_fcntl_8_0,
    min_mysql_openat_fsync_1_0, min_mysql_openat_fsync_2_0, min_mysql_fsync_fcntl_7_0,
    min_mysql_fsync_pwrite64_0_0, min_mysql_openat_newfstatat_0_0, min_mysql_lseek_fallocate_95_0,
    min_mysql_lseek_fallocate_97_0, min_mysql_lseek_fallocate_44_0, min_mysql_lseek_fallocate_98_0,
    min_mysql_lseek_fallocate_16_0, min_mysql_lseek_fallocate_24_0, min_mysql_lseek_fallocate_26_0,
    min_mysql_lseek_fallocate_35_0, min_mysql_lseek_fallocate_52_0, min_mysql_lseek_fallocate_68_0,
    min_mysql_lseek_fallocate_90_0, min_mysql_lseek_fallocate_109_0, min_mysql_lseek_fallocate_91_0,
    min_mysql_lseek_fallocate_113_0, min_mysql_lseek_fallocate_43_0, min_mysql_lseek_pwrite64_0_0,
    min_mysql_lseek_pwrite64_13_0, min_mysql_lseek_pwrite64_14_0, min_mysql_lseek_pwrite64_6_0,
    min_mysql_lseek_pwrite64_9_0, min_mysql_lseek_pwrite64_2_0, min_mysql_read_write_0_1,
    min_rocks_pread64_fcntl_67_0, min_rocks_read_fcntl_0_0, min_rocks_write_fcntl_5_0,
    min_rocks_write_fcntl_0_0, min_mysql_pwrite64_openat_0_0]"

lemma misprepared_shipped: "set misprepared \<subseteq> set shipped"
  by (simp add: misprepared_def shipped_def)

lemma misprepared_ok:
  "list_all (\<lambda>P. prog_ok P \<and> setup_misses P \<and> filenames P \<noteq> [] \<and> reg_body P = [] \<and> num_regs P < 2 ^ 32) misprepared"
  "list_all (\<lambda>P. calls (body P) < 2 ^ 31) misprepared"
  unfolding misprepared_def by (simp_all only: list.pred_inject simp_thms shipped_ok misprepared_checks shipped_calls) simp_all

text \<open>
  C25. For the targets of \<open>misprepared\<close>, the setup prepares none of the files that the body
  opens. On any cooperating kernel registration returns, and the kernel has then been asked to
  create exactly the listed files, of which there is at least one. Each of them is, name by
  name of its path, another file than every one that the statements have opened, and is spelled
  like one of these without its last character.
\<close>

theorem setup_prepares_other_files:
  assumes "P \<in> set misprepared" "os_cooperates K" "prog_family P = Mysql \<longrightarrow> length (r_unique w) = num_regs P"
    "s_regs ctx = None" "s_os w = (k, [], [])"
  shows "\<exists>ctx' w' k' opens. syz_reg (tap K) P tid ctx w = Inr (ctx', w') \<and> s_os w' = (k', filenames P, opens) \<and>
    filenames P \<noteq> [] \<and> (\<forall>f \<in> set (filenames P).
      (\<forall>p \<in> set opens. path_names f \<noteq> path_names p) \<and> (\<exists>p \<in> set opens. p \<noteq> [] \<and> f = butlast p))"
proof -
  have P: "prog_ok P" "setup_misses P" "filenames P \<noteq> []" "reg_body P = []" "num_regs P < 2 ^ 32" "calls (body P) < 2 ^ 31"
    using misprepared_ok assms(1) by (auto simp: list_all_iff)
  from syz_reg_misses [OF assms(2) P(1) _ P(5) assms(3,4) P(2) assms(5), of tid] P(3,4,6) show ?thesis
    by (fastforce simp: misses_def list_all_iff list_ex_iff)
qed

section \<open>Running out of descriptors\<close>

text \<open>A kernel with room for finitely many more open files.\<close>

definition limited_epoll :: "'k sys_kernel \<Rightarrow> ('k \<Rightarrow> nat) \<Rightarrow> bool" where
  "limited_epoll K free \<longleftrightarrow>
     (\<forall>vs m k. let (r, m', k') = os_syscall K NR_epoll_create1 vs m k in
        if free k = 0 then r = - 1 \<and> free k' = 0 else r \<noteq> - 1 \<and> free k' = free k - 1)"

lemma epoll_run:
  assumes K: "limited_epoll K free" and c: "0 \<le> num_succeeded ctx" "0 \<le> num_failed ctx"
    "num_succeeded ctx + num_failed ctx < 2 ^ 31 - 1"
  shows "\<exists>r ctx' w'. syz_dispatch K min_mysql_epoll_create1_missing_0_0 op ctx w = Inr (r, ctx', w') \<and>
    free (s_os w') = free (s_os w) - 1 \<and>
    num_succeeded ctx' = num_succeeded ctx + (if free (s_os w) = 0 then 0 else 1) \<and>
    num_failed ctx' = num_failed ctx + (if free (s_os w) = 0 then 1 else 0)"
proof -
  obtain r m k where s: "os_syscall K NR_epoll_create1 [0x80000] (s_memory ctx) (s_os w) = (r, m, k)"
    by (metis prod_cases3)
  have l: "if free (s_os w) = 0 then r = - 1 \<and> free k = 0 else r \<noteq> - 1 \<and> free k = free (s_os w) - 1"
    using K [unfolded limited_epoll_def, rule_format, of "[0x80000]" "s_memory ctx" "s_os w"] s by simp
  have b: "body min_mysql_epoll_create1_missing_0_0 = [Syscall NR_epoll_create1 [Imm 0x80000], Count]"
      "prog_family min_mysql_epoll_create1_missing_0_0 = Mysql_v2"
    by (simp_all add: min_mysql_epoll_create1_missing_0_0_def min_mysql_epoll_create1_missing_0_0_body_def)
  let ?P = min_mysql_epoll_create1_missing_0_0
  let ?s = "(machine_of ?P ctx w)\<lparr>memory := m, res := r, os := k\<rparr>"
  have x: "exec_body K (place_of ?P ctx) (body ?P) (machine_of ?P ctx w) = bind_r (count_res ?s) (exec_body K (place_of ?P ctx) [])"
    by (simp add: b s call_in_bounds_def buffer_calls_def)
  show ?thesis
  proof (cases "free (s_os w) = 0")
    case True
    then have "count_res ?s = Inr (?s\<lparr>failed := num_failed ctx + 1\<rparr>)" using l c
      by (simp add: count_res_def abort_on_fail_def int_inc_def)
    with x True l c show ?thesis by (simp add: syz_dispatch_def run_body_def run_stmts_def store_regs_def b(2))
  next
    case False
    then have "count_res ?s = Inr (?s\<lparr>succeeded := num_succeeded ctx + 1\<rparr>)" using l c
      by (simp add: count_res_def int_inc_def)
    with x False l c show ?thesis by (simp add: syz_dispatch_def run_body_def run_stmts_def store_regs_def b(2))
  qed
qed

text \<open>
  The epoll\_create1 target never closes what it opens, so on a kernel with room for n
  more descriptors exactly its first n dispatches succeed and all the later ones measure a
  failing call.
\<close>

lemma epoll_create1_exhausts:
  assumes "limited_epoll K free" "num_succeeded ctx = 0" "num_failed ctx = 0" "k < 2 ^ 31"
  shows "\<exists>rs ctx' w'. dispatch_all (syz_dispatch K min_mysql_epoll_create1_missing_0_0) (replicate k op) ctx w = Inr (rs, ctx', w') \<and>
    num_succeeded ctx' = int (min k (free (s_os w))) \<and> num_failed ctx' = int (k - min k (free (s_os w)))"
proof -
  have "\<exists>rs ctx' w'. dispatch_all (syz_dispatch K min_mysql_epoll_create1_missing_0_0) (replicate k op) ctx w = Inr (rs, ctx', w') \<and>
    num_succeeded ctx' = num_succeeded ctx + int (min k (free (s_os w))) \<and>
    num_failed ctx' = num_failed ctx + int (k - min k (free (s_os w)))"
    if "0 \<le> num_succeeded ctx" "0 \<le> num_failed ctx" "num_succeeded ctx + num_failed ctx + int k < 2 ^ 31" for ctx w
    using that
  proof (induction k arbitrary: ctx w)
    case (Suc k)
    obtain r c1 w1 where 1: "syz_dispatch K min_mysql_epoll_create1_missing_0_0 op ctx w = Inr (r, c1, w1)"
      "free (s_os w1) = free (s_os w) - 1" "num_succeeded c1 = num_succeeded ctx + (if free (s_os w) = 0 then 0 else 1)"
      "num_failed c1 = num_failed ctx + (if free (s_os w) = 0 then 1 else 0)"
      using epoll_run [OF assms(1), of ctx op w] Suc.prems by auto
    obtain rs c2 w2 where 2: "dispatch_all (syz_dispatch K min_mysql_epoll_create1_missing_0_0) (replicate k op) c1 w1 = Inr (rs, c2, w2)"
      "num_succeeded c2 = num_succeeded c1 + int (min k (free (s_os w1)))"
      "num_failed c2 = num_failed c1 + int (k - min k (free (s_os w1)))"
      using Suc.IH [of c1 w1] Suc.prems 1(3,4) by (auto split: if_splits)
    have "num_succeeded c2 = num_succeeded ctx + int (min (Suc k) (free (s_os w)))"
      "num_failed c2 = num_failed ctx + int (Suc k - min (Suc k) (free (s_os w)))"
      using 1(2-4) 2(2,3) by (auto simp: min_def)
    with 1(1) 2(1) show ?case by simp
  qed simp
  from this [of ctx w] show ?thesis using assms(2-4) by simp
qed

section \<open>Witnesses\<close>

text \<open>An operating system on which everything succeeds, while there is room for system calls.\<close>

definition demo_os :: "nat sys_kernel" where
  "demo_os = \<lparr>os_syscall = (\<lambda>name vs m k. if k = 0 then (- 1, m, 0) else (3, m, k - 1)),
     os_mkdtemp = (\<lambda>template k. (Some template, k)), os_chmod = (\<lambda>path k. k), os_open_dir = (\<lambda>path k. (3, k)),
     os_mkdirat = (\<lambda>fd path k. k), os_openat = (\<lambda>fd path k. (4, k)), os_ftruncate = (\<lambda>fd len k. (0, k)),
     os_close = (\<lambda>fd k. k), os_mmap = (\<lambda>len k. ((0x10000, \<lambda>a. 0), k)), os_malloc = (\<lambda>len k. (1, k))\<rparr>"

definition demo_ctx :: syz_ctx where
  "demo_ctx = \<lparr>s_tid = 0, iteration = 0, aggregation_threads = False, s_regs = None, tmpdir = None, s_dirfd = 0,
     num_succeeded = 0, num_failed = 0, mmap_offsets = 0, s_memory = (\<lambda>a. 0), writeBuffer = 0,
     connect4_arg = None, connect6_arg = None, bind4_arg = None, bind6_arg = None, bind6_at = 0\<rparr>"

definition demo_world :: "nat syz_world" where
  "demo_world = \<lparr>op_name_tbl = None, r_unique = [], g_conn_port = 36721, g_bind_port = 46721,
     bm_connect_addr = (\<lparr>sa_family = 0, sin_port = 0, sin_addr = []\<rparr>, False),
     bm_bind_addr = (\<lparr>sa_family = 0, sin_port = 0, sin_addr = []\<rparr>, False), g_errno = 0, s_os = 2\<rparr>"

lemma demo_ctx_ok:
  "ctx_ok min_rocks_read_openat_0_0 demo_ctx demo_world" "num_succeeded demo_ctx = 0" "num_failed demo_ctx = 0"
  by (simp_all add: ctx_ok_def load_regs_def fresh_regs_def counters_nonneg_def demo_ctx_def min_rocks_read_openat_0_0_def)

lemma syz_results_cumulate_example:
  "case dispatch_all (syz_dispatch demo_os min_rocks_read_openat_0_0) (replicate 3 0) demo_ctx demo_world of
     Inr (rs, ctx', w') \<Rightarrow> map (unat \<circ> op_count) rs = [10, 20, 30]
   | Inl f \<Rightarrow> False"
proof -
  have "[0..<3] = [0, 1, 2 :: nat]" by (simp add: eval_nat_numeral)
  then show ?thesis
    using syz_results_cumulate [OF min_rocks_read_openat_0_0_ok(1) demo_ctx_ok, where K = demo_os and k = 3 and op = 0]
    by (simp add: min_rocks_read_openat_0_0_ok(2) del: dispatch_all.simps split: sum.splits prod.splits)
qed

lemma mkdir_parents_first_example: "\<exists>ps. mkdir_paths ''./var/tmp/'' = Inr (ps @ [''./var/tmp''])"
  using mkdir_parents_first [of "''./var/tmp/''"] by auto

theorem syz_reg_prepares_witness:
  "\<exists>ctx' w'. syz_reg demo_os min_rocks_read_openat_0_0 1 demo_ctx demo_world = Inr (ctx', w') \<and>
    ctx_ok min_rocks_read_openat_0_0 ctx' w'"
proof -
  have "os_cooperates demo_os" by (simp add: os_cooperates_def demo_os_def)
  from syz_reg_prepares [OF this min_rocks_read_openat_0_0_ok(1), of demo_world demo_ctx 1]
  show ?thesis by (simp only: min_rocks_read_openat_0_0_ok(2)) (auto simp: min_rocks_read_openat_0_0_def demo_ctx_def)
qed

definition demo_tapped_world :: "nat tapped syz_world" where
  "demo_tapped_world = \<lparr>op_name_tbl = None, r_unique = [], g_conn_port = 36721, g_bind_port = 46721,
     bm_connect_addr = (\<lparr>sa_family = 0, sin_port = 0, sin_addr = []\<rparr>, False),
     bm_bind_addr = (\<lparr>sa_family = 0, sin_port = 0, sin_addr = []\<rparr>, False), g_errno = 0, s_os = (2, [], [])\<rparr>"

theorem setup_prepares_other_files_witness:
  "\<exists>ctx' w' k' opens. syz_reg (tap demo_os) min_rocks_read_openat_0_0 1 demo_ctx demo_tapped_world = Inr (ctx', w') \<and>
    s_os w' = (k', [''./proc/self/statu''], opens) \<and> (\<exists>p \<in> set opens. butlast p = ''./proc/self/statu'') \<and>
    (\<forall>p \<in> set opens. path_names p \<noteq> path_names ''./proc/self/statu'')"
proof -
  have "min_rocks_read_openat_0_0 \<in> set misprepared" by (simp add: misprepared_def)
  moreover have "os_cooperates demo_os" by (simp add: os_cooperates_def demo_os_def)
  ultimately show ?thesis
    using setup_prepares_other_files [of min_rocks_read_openat_0_0 demo_os demo_tapped_world demo_ctx 2 1]
    by (fastforce simp: min_rocks_read_openat_0_0_def demo_tapped_world_def demo_ctx_def)
qed


lemma epoll_create1_exhausts_example:
  "\<exists>rs ctx' w'. dispatch_all (syz_dispatch demo_os min_mysql_epoll_create1_missing_0_0) (replicate 5 0) demo_ctx demo_world =
      Inr (rs, ctx', w') \<and> num_succeeded ctx' = 2 \<and> num_failed ctx' = 3"
proof -
  have "limited_epoll demo_os id" by (simp add: limited_epoll_def demo_os_def)
  from epoll_create1_exhausts [OF this demo_ctx_ok(2,3), of 5 0 demo_world] show ?thesis
    by (simp add: demo_world_def del: dispatch_all.simps)
qed

end
