(* ===== verification/CSB_Syz_Run.thy ===== *)
theory CSB_Syz_Run
  imports CSB_Results CSB_Syz_Live CSB_Syz_Shipped
begin

text \<open>
  Benchmarks of generated targets from the command line to the printed figures: the counters
  that are never reset between dispatches end up in the count that main prints.
\<close>

definition cumulated :: "syz_prog \<Rightarrow> syz_ctx \<Rightarrow> bm_op_res list \<Rightarrow> bool" where
  "cumulated P c rs \<longleftrightarrow> 0 \<le> num_succeeded c \<and> 0 \<le> num_failed c \<and>
     counted_results c = int (length rs * calls (body P)) \<and>
     map op_count rs = map (\<lambda>j. of_nat ((j + 1) * calls (body P))) [0..<length rs]"

lemma syz_reg_resets:
  "syz_reg K P tid ctx w = Inr (ctx', w') \<Longrightarrow> num_succeeded ctx' = 0 \<and> num_failed ctx' = 0"
  by (auto simp: syz_reg_def reset_counters_def Let_def c_assert_def case_prod_beta split: if_splits)

lemma syz_dispatch_cumulated:
  assumes "counted (body P)" "cumulated P c rs" "syz_dispatch K P op c w = Inr (r, c', w')"
  shows "cumulated P c' (rs @ [r])"
proof -
  obtain c1 where r: "run_body K P c w = Inr (c1, w')" "c' = c1\<lparr>iteration := iteration c1 + 1\<rparr>"
      "op_count r = word_of_int (num_succeeded c1 + num_failed c1)"
    using assms(3) by (auto simp: syz_dispatch_def split: if_splits)
  have c1: "0 \<le> num_succeeded c1" "0 \<le> num_failed c1"
      "num_succeeded c1 + num_failed c1 = int ((length rs + 1) * calls (body P))"
    using run_body_mono [OF r(1)] assms(2) counted_counts [OF assms(1)]
    by (auto simp: cumulated_def counted_results_def algebra_simps)
  have "op_count r = of_nat ((length rs + 1) * calls (body P))" unfolding r(3) c1(3) by (rule of_int_of_nat_eq)
  with c1 r(2) assms(2) show ?thesis by (simp add: cumulated_def counted_results_def)
qed

interpretation syz_results: history_target "syz_target genv pton K P" "\<lambda>c rs. counted (body P) \<longrightarrow> cumulated P c rs"
  for genv pton K P
  by unfold_locales (auto simp: syz_target_def cumulated_def counted_results_def dest: syz_reg_resets syz_dispatch_cumulated)

lemma sum_upto: "(\<Sum>j\<leftarrow>[0..<k]. (j + 1) * n) = n * (k * (k + 1) div 2)" for n :: nat
proof (induction k)
  case (Suc k)
  have "Suc k * (Suc k + 1) div 2 = k * (k + 1) div 2 + Suc k" by (simp add: algebra_simps)
  with Suc show ?case by (simp add: algebra_simps)
qed simp

lemma sum_list_of_nat: "(\<Sum>j\<leftarrow>js. of_nat (f j)) = (of_nat (\<Sum>j\<leftarrow>js. f j) :: u64)"
  by (induction js) simp_all

lemma cumulated_total:
  assumes "cumulated P c rs"
  shows "sum_list (map op_count rs) = of_nat (calls (body P) * (length rs * (length rs + 1) div 2))"
proof -
  have "sum_list (map op_count rs) = of_nat (\<Sum>j\<leftarrow>[0..<length rs]. (j + 1) * calls (body P))"
    using assms by (simp only: cumulated_def sum_list_of_nat)
  then show ?thesis by (simp only: sum_upto)
qed

text \<open>
  C17. End to end, a benchmark of a generated target reports too many operations: when the
  measured phase is done and each thread has completed k dispatches of a body of n system
  calls, the program prints as the number of operations not the n * k calls that were made but
  n * k * (k + 1) / 2, added up over the threads in 64-bit arithmetic.
\<close>

theorem syz_run_overcounts:
  assumes "bm_phase_warmup lib (syz_target genv pton K P) globals = Inr b" and "\<not> g_stop globals"
    and "reachable (syz_target genv pton K P) zero_ctx clk b s" and "main_pc s = M_done"
    and "bm_phase_conclude (syz_target genv pton K P) ticks usage (bench s) = Inr (out, b')"
    and "counted (body P)"
  shows "(''univ_count'', PU (of_nat (\<Sum>tid < length (threads s).
       let k = length (ops_of tid (ops_log s)) in calls (body P) * (k * (k + 1) div 2)))) \<in> set out"
proof -
  let ?m = "length (threads s)"
  have b: "\<not> g_stop b" "g_params b = g_params globals" using assms(1,2) by (auto simp: bm_phase_warmup_def Let_def)
  have len: "?m = unat (num_threads (g_params globals))"
    using flow_reachable [OF assms(3) b(1)] recorded_reachable [OF assms(3) b(1)] assms(4) b(2) by (simp add: flow_def recorded_def)
  note report = conclude_report [OF assms(1-5)]
  have log: "\<forall>(tid, _) \<in> set (ops_log s). tid < ?m" using report(2) len by auto
  have "sum_list (map op_count (results_of tid (ops_log s))) =
      of_nat (calls (body P) * (length (ops_of tid (ops_log s)) * (length (ops_of tid (ops_log s)) + 1) div 2))"
    if tid: "tid < ?m" for tid
  proof (cases "results_of tid (ops_log s) = []")
    case True
    then show ?thesis using length_results_of [of tid "ops_log s"] by simp
  next
    case False
    with syz_results.recorded_history [OF assms(3) b(1) tid] assms(6) show ?thesis
      using cumulated_total length_results_of by metis
  qed
  then have "os_count (op_summary (op_time_ranges (g_stats b)) (map (snd \<circ> snd) (samples clk (ops_log s)))) =
      of_nat (\<Sum>tid < ?m. let k = length (ops_of tid (ops_log s)) in calls (body P) * (k * (k + 1) div 2))"
    unfolding summary_count sum_list_by_thread [OF log] by (simp add: Let_def)
  moreover have "(''univ_count'', PU (os_count (op_summary (op_time_ranges (g_stats b)) (map (snd \<circ> snd) (samples clk (ops_log s)))))) \<in> set out"
    using report(1) by (auto simp: print_univ_def)
  ultimately show ?thesis by simp
qed

section \<open>A run\<close>

text \<open>Two dispatches of the target with a single system call, on a system that answers two calls.\<close>

abbreviation demo_syz :: "(syz_ctx, nat syz_world) bm_target" where
  "demo_syz \<equiv> syz_target (\<lambda>_. None) (\<lambda>_ _. (0, [])) demo_os min_mysql_epoll_create1_missing_0_0"

definition demo_syz_globals :: "nat syz_world bench" where
  "demo_syz_globals = \<lparr>g_stop = False, g_stats = blank_stat, g_params = demo_params, g_ops = [],
     g_rand = g_rand demo_globals, world = demo_world\<rparr>"

definition demo_syz_schedule :: "agent list" where
  "demo_syz_schedule =
     [Main, Main, Main, Main, Thread 0, Main, Main, Main] @ replicate 8 (Thread 0) @
     [Main, Main, Main, Thread 0, Main, Main, Main, Thread 0, Main]"

lemmas demo_syz_defs = min_mysql_epoll_create1_missing_0_0_def min_mysql_epoll_create1_missing_0_0_body_def call_in_bounds_def buffer_calls_def

lemma demo_syz_dispatch:
  assumes "num_succeeded c = int a" "num_failed c = int f" "a + f < 100"
  shows "\<exists>r c' a' f'. syz_dispatch demo_os min_mysql_epoll_create1_missing_0_0 op c w = Inr (r, c', w\<lparr>s_os := s_os w - 1\<rparr>) \<and>
    num_succeeded c' = int a' \<and> num_failed c' = int f' \<and> a' + f' = a + f + 1"
  using assms
  by (auto simp: syz_dispatch_def run_body_def run_stmts_def demo_syz_defs demo_os_def count_res_def abort_on_fail_def int_inc_def
      store_regs_def load_regs_def)

lemma demo_syz_reg:
  "\<exists>c. syz_reg demo_os min_mysql_epoll_create1_missing_0_0 tid demo_ctx w = Inr (c, w\<lparr>s_os := s_os w - 1\<rparr>) \<and>
     num_succeeded c = int 0 \<and> num_failed c = int 0"
  by (auto simp: syz_reg_def setup_buffers_def socket4_arg_def socket6_arg_def reg_prog_def alloc_regs_def
      run_body_def run_stmts_def demo_syz_defs demo_os_def count_res_def abort_on_fail_def int_inc_def store_regs_def load_regs_def demo_ctx_def reset_counters_def)

definition demo_syz_bench :: "rand_state \<Rightarrow> nat syz_world bench" where
  "demo_syz_bench r = demo_syz_globals\<lparr>g_stats := g_stats demo_bench, g_ops := replicate DISTRIBUTION_BOUND 0, g_rand := r,
     world := demo_world\<lparr>op_name_tbl := Some (prog_name min_mysql_epoll_create1_missing_0_0), g_conn_port := 0, g_bind_port := 0\<rparr>\<rparr>"

lemma demo_syz_warmup: "\<exists>r. bm_phase_warmup (\<lambda>_. []) demo_syz demo_syz_globals = Inr (demo_syz_bench r)"
proof -
  define w where "w r = world (demo_syz_bench r)" for r
  have init: "bm_target_init demo_syz (ucast (init_sz demo_params)) (ucast (num_threads demo_params)) demo_world = Inr (w r)" for r
    by (simp add: w_def syz_target_def syz_init_def parse_net_addr_def demo_syz_bench_def demo_syz_globals_def demo_params_def
        min_mysql_epoll_create1_missing_0_0_def demo_world_def Let_def)
  have ops: "bm_target_op_count demo_syz = 1" by (simp add: syz_target_def NUM_SYSCALLS_def)
  have wf: "wf_params (g_params demo_syz_globals)" by (simp add: demo_syz_globals_def demo_params_def wf_params_def)
  obtain b where b: "bm_phase_warmup (\<lambda>_. []) demo_syz demo_syz_globals = Inr b"
    using bm_phase_warmup_ok [where b = demo_syz_globals and T = demo_syz and w = "w undefined" and lib = "\<lambda>_. []", OF wf _ _ _ demo_entropy(2) _ _ bm_stat_init_ok]
      demo_entropy(1) init
    by (auto simp: demo_syz_globals_def demo_params_def total_dist_def DISTRIBUTION_BOUND_def demo_globals_def)
  have "g_ops b = replicate DISTRIBUTION_BOUND 0"
    using warmup_distribution [OF b wf]
    by (intro replicate_eqI) (auto simp: demo_syz_globals_def demo_params_def unat_eq_0)
  moreover have "b = demo_syz_globals\<lparr>g_stats := g_stats demo_bench, g_ops := g_ops b, g_rand := g_rand b, world := w (g_rand b)\<rparr>"
    using b init [of undefined] ops
    by (auto simp: bm_phase_warmup_def Let_def bm_stat_init_ok demo_syz_globals_def demo_params_def demo_bench_def w_def demo_syz_bench_def)
  ultimately have "b = demo_syz_bench (g_rand b)"
    by (simp only: demo_syz_bench_def [of "g_rand b"] w_def) (simp add: demo_syz_bench_def)
  with b show ?thesis by metis
qed

lemma demo_syz_run:
  "\<exists>s. exec_schedule demo_syz demo_ctx demo_clocks demo_syz_schedule (start_phase (demo_syz_bench r) 0) = Some s \<and>
     main_pc s = M_done \<and> length (threads s) = 1 \<and> length (ops_of 0 (ops_log s)) = 2 \<and>
     world (bench s) = (world (demo_syz_bench r))\<lparr>s_os := 0\<rparr>"
proof -
  let ?E = min_mysql_epoll_create1_missing_0_0 and ?w = "world (demo_syz_bench r)"
  obtain c0 where c0: "syz_reg demo_os ?E 0 demo_ctx ?w = Inr (c0, ?w\<lparr>s_os := 1\<rparr>)" "num_succeeded c0 = int 0" "num_failed c0 = int 0"
    using demo_syz_reg [of 0 ?w] by (auto simp: demo_syz_bench_def demo_world_def)
  obtain r1 c1 a f where c1: "syz_dispatch demo_os ?E 0 c0 (?w\<lparr>s_os := 1\<rparr>) = Inr (r1, c1, ?w\<lparr>s_os := 0\<rparr>)"
      "num_succeeded c1 = int a" "num_failed c1 = int f" "a + f = 1"
    using demo_syz_dispatch [OF c0(2,3), of 0 "?w\<lparr>s_os := 1\<rparr>"] by auto
  obtain r2 c2 where c2: "syz_dispatch demo_os ?E 0 c1 (?w\<lparr>s_os := 0\<rparr>) = Inr (r2, c2, ?w\<lparr>s_os := 0\<rparr>)"
    using demo_syz_dispatch [OF c1(2,3), of 0 "?w\<lparr>s_os := 0\<rparr>"] c1(4) by auto
  obtain c3 where c3: "syz_dereg demo_os ?E 0 c2 (?w\<lparr>s_os := 0\<rparr>) = Inr (c3, ?w\<lparr>s_os := 0\<rparr>)"
    by (simp add: syz_dereg_def run_stmts_def store_regs_def demo_syz_defs)
  show ?thesis
    using c0(1) c1(1) c2 c3
    by (simp add: demo_syz_schedule_def start_phase_def exec_step_def bm_phase_run_step_def run_step_def demo_syz_bench_def
      demo_syz_globals_def demo_params_def new_thread_def all_at_def release_def set_thread_def syz_target_def demo_bench_def eval_nat_numeral
      bm_stat_add_op_def op_stat_add_def Let_def add_durations_def demo_clocks_def calc_spent_time_def c_long_def slot_less ops_of_def)
qed

lemma demo_syz_conclude:
  assumes "world (bench s) = (world (demo_syz_bench r))\<lparr>s_os := 0\<rparr>" "wf_stat 1 (g_stats (bench s))"
  shows "\<exists>out b'. bm_phase_conclude demo_syz 2500 (Inr (1, 2, 3)) (bench s) = Inr (out, b')"
proof -
  let ?name = "\<lambda>op. bm_target_get_op_name demo_syz STAT_OP_NAME_MAX_LEN op (world (bench s))"
  have name: "?name 0 = Inr (take 19 (prog_name min_mysql_epoll_create1_missing_0_0))"
    using assms(1) by (simp add: syz_target_def syz_get_op_name_def demo_syz_bench_def STAT_OP_NAME_MAX_LEN_def SYZ_MAX_NAME_LEN_def)
  have "list_all (\<lambda>th. ts_len th = 1) (s_threads (g_stats (bench s)))" using assms(2) by (auto simp: wf_stat_def list_all_length)
  with name show ?thesis
    by (simp add: bm_phase_conclude_def syz_target_def NUM_SYSCALLS_def bm_print_stats_def Let_def)
qed

theorem syz_run_overcounts_witness:
  "\<exists>b s out b'. reachable demo_syz demo_ctx demo_clocks b s \<and> length (ops_of 0 (ops_log s)) = 2 \<and>
     bm_phase_conclude demo_syz 2500 (Inr (1, 2, 3)) (bench s) = Inr (out, b') \<and> (''univ_count'', PU 3) \<in> set out"
proof -
  obtain r where b: "bm_phase_warmup (\<lambda>_. []) demo_syz demo_syz_globals = Inr (demo_syz_bench r)" using demo_syz_warmup by blast
  have g: "\<not> g_stop demo_syz_globals" "\<not> g_stop (demo_syz_bench r)" by (simp_all add: demo_syz_globals_def demo_syz_bench_def)
  obtain s where s: "exec_schedule demo_syz demo_ctx demo_clocks demo_syz_schedule (start_phase (demo_syz_bench r) 0) = Some s"
    "main_pc s = M_done" "length (threads s) = 1" "length (ops_of 0 (ops_log s)) = 2"
    "world (bench s) = (world (demo_syz_bench r))\<lparr>s_os := 0\<rparr>" using demo_syz_run by blast
  have rs: "reachable demo_syz demo_ctx demo_clocks (demo_syz_bench r) s" by (rule exec_schedule_reachable [OF s(1) reachable.start])
  have "bm_stat_init (g_stats demo_syz_globals) 1 1 = Inr (g_stats (demo_syz_bench r))"
    by (simp add: bm_stat_init_ok demo_syz_bench_def demo_bench_def demo_syz_globals_def)
  then have "wf_stat 1 (g_stats (bench s))" using wf_stat_done [OF rs g(2) _ s(2)] wf_stat_init by blast
  from demo_syz_conclude [OF s(5) this] obtain out b' where out: "bm_phase_conclude demo_syz 2500 (Inr (1, 2, 3)) (bench s) = Inr (out, b')"
    by blast
  from syz_run_overcounts [OF b g(1) rs s(2) out] s(3,4) have "(''univ_count'', PU 3) \<in> set out"
    using min_mysql_epoll_create1_missing_0_0_ok by (simp add: prog_ok_def)
  with rs s(4) out show ?thesis by blast
qed

text \<open>The same target can finish from the start.\<close>

theorem syz_run_can_finish_witness:
  "\<exists>b s'. bm_phase_warmup (\<lambda>_. []) demo_syz demo_syz_globals = Inr b \<and>
     (phase_step demo_syz demo_ctx demo_clocks)\<^sup>*\<^sup>* (start_phase b 0) s' \<and> main_pc s' = M_done"
proof -
  obtain r where b: "bm_phase_warmup (\<lambda>_. []) demo_syz demo_syz_globals = Inr (demo_syz_bench r)" using demo_syz_warmup by blast
  have wf: "wf_params (g_params demo_syz_globals)" "\<not> g_stop demo_syz_globals" "op_dist_len (g_params demo_syz_globals) = NUM_SYSCALLS"
    by (simp_all add: demo_syz_globals_def demo_params_def wf_params_def NUM_SYSCALLS_def)
  have "os_cooperates demo_os" by (simp add: os_cooperates_def demo_os_def)
  then have "sound_target demo_os min_mysql_epoll_create1_missing_0_0"
    by (simp add: sound_target_def min_mysql_epoll_create1_missing_0_0_ok) (simp add: min_mysql_epoll_create1_missing_0_0_def)
  then have "room_for_begun demo_os min_mysql_epoll_create1_missing_0_0 demo_ctx (start_phase (demo_syz_bench r) 0)"
    by (rule room_at_start) (simp_all add: demo_ctx_def shared_ok_def min_mysql_epoll_create1_missing_0_0_def)
  from syz_run_can_finish [OF b wf demo_clocks_ok(2) reachable.start this] b show ?thesis by blast
qed

end
