(* ===== verification/CSB_SyzNet.thy ===== *)
theory CSB_SyzNet
  imports CSB_NetMain CSB_Progs_Net_a CSB_Progs_Net_b
begin

text \<open>
  The network targets and the client that plays their peer. Each network target carries a text,
  \<open>netops_accept\<close>, that the plugin scripts/plugins/generic-network-client.sh hands to
  bench/network/client.c (from a file next to the target, with the same text). It describes the
  transfers of the body, one entry for each run of calls in the same direction. This theory
  reads the transfers off the translated bodies and compares them with what the client makes
  of the text. It covers the two network targets whose texts fit the 128 operations of the
  client's array, \<open>recvfrom_sendto_0_0\<close> and \<open>recvfrom_sendto_32_0\<close>. The text of the third one,
  \<open>recvfrom_sendto_20_0\<close>, has 3765 entries, of which the client keeps the first 128
  (CSB\_NetOps); it is not translated.
\<close>

section \<open>The transfers of a body\<close>

text \<open>True for what the target sends, as in the entries of a sequence.\<close>

fun transfers :: "stmt list \<Rightarrow> (bool \<times> u64) list" where
  "transfers [] = []"
| "transfers (Syscall name (sock # buf # Imm len # xs) # cs) =
     (if name = NR_sendto then [(True, len)] else if name = NR_recvfrom then [(False, len)] else []) @ transfers cs"
| "transfers (c # cs) = transfers cs"

fun runs :: "(bool \<times> u64) list \<Rightarrow> (bool \<times> u64 list) list" where
  "runs [] = []"
| "runs ((w, len) # ts) =
     (case runs ts of [] \<Rightarrow> [(w, [len])]
      | (w', lens) # rs \<Rightarrow> if w' = w then (w, len # lens) # rs else (w, [len]) # (w', lens) # rs)"

definition run_op :: "bool \<times> u64 list \<Rightarrow> extracted_op" where
  "run_op run = \<lparr>op_n = of_nat (length (snd run)), op_sz = sum_list (snd run), is_write = fst run\<rparr>"

definition transfer_ops :: "syz_prog \<Rightarrow> extracted_op list" where
  "transfer_ops P = map run_op (runs (transfers (body P)))"

definition bytes_read :: "syz_prog \<Rightarrow> nat" where
  "bytes_read P = (\<Sum>(w, len)\<leftarrow>transfers (body P). if w then 0 else unat len)"

text \<open>The bytes that the client offers: an operation that is not a write of the target is a \<open>send\<close>.\<close>

definition bytes_offered :: "extracted_op list \<Rightarrow> nat" where
  "bytes_offered ops = (\<Sum>op\<leftarrow>ops. if is_write op then 0 else unat (op_sz op))"

lemma transfers_append: "transfers (cs @ cs') = transfers cs @ transfers cs'"
  by (induction cs rule: transfers.induct) simp_all

lemma concat_runs: "concat (map (\<lambda>(w, lens). map (Pair w) lens) (runs ts)) = ts"
  by (induction ts rule: runs.induct) (auto split: list.splits if_splits prod.splits)

lemma runs_nonempty: "(w, lens) \<in> set (runs ts) \<Longrightarrow> lens \<noteq> []"
  by (induction ts arbitrary: w lens rule: runs.induct) (auto split: list.splits if_splits prod.splits)

section \<open>The two targets whose texts fit the client\<close>

definition net_pairs :: "(syz_prog \<times> string list) list" where
  "net_pairs = [(min_mysql_recvfrom_sendto_0_0, min_mysql_recvfrom_sendto_0_0_netops_accept),
     (min_mysql_recvfrom_sendto_32_0, min_mysql_recvfrom_sendto_32_0_netops_accept)]"

definition repeated :: "extracted_op list \<Rightarrow> extracted_op list" where
  "repeated ops = concat (map (\<lambda>op. replicate (unat (op_n op)) op) ops)"

lemma render_0_0:
  "min_mysql_recvfrom_sendto_0_0_netops_accept = [render_ops (transfer_ops min_mysql_recvfrom_sendto_0_0)]"
  by (simp add: transfer_ops_def min_mysql_recvfrom_sendto_0_0_defs run_op_def render_op_def decimal.simps
      min_mysql_recvfrom_sendto_0_0_netops_accept_def)

lemma render_32_0:
  "min_mysql_recvfrom_sendto_32_0_netops_accept = [render_ops (transfer_ops min_mysql_recvfrom_sendto_32_0)]"
  by (simp add: transfer_ops_def min_mysql_recvfrom_sendto_32_0_defs run_op_def render_op_def decimal.simps
      min_mysql_recvfrom_sendto_32_0_netops_accept_def)

lemma transfers_0_0:
  "usable_ops (transfer_ops min_mysql_recvfrom_sendto_0_0)" "length (transfer_ops min_mysql_recvfrom_sendto_0_0) = 44"
  "bytes_read min_mysql_recvfrom_sendto_0_0 = 894"
  "bytes_offered (repeated (transfer_ops min_mysql_recvfrom_sendto_0_0)) = 2076"
  by (simp_all add: transfer_ops_def min_mysql_recvfrom_sendto_0_0_defs run_op_def usable_ops_def bytes_read_def
      bytes_offered_def sum_list_replicate map_concat repeated_def)

lemma transfers_32_0:
  "usable_ops (transfer_ops min_mysql_recvfrom_sendto_32_0)" "length (transfer_ops min_mysql_recvfrom_sendto_32_0) = 124"
  "bytes_read min_mysql_recvfrom_sendto_32_0 = 3918588"
  "bytes_offered (repeated (transfer_ops min_mysql_recvfrom_sendto_32_0)) = 12017661"
  by (simp_all add: transfer_ops_def min_mysql_recvfrom_sendto_32_0_defs run_op_def usable_ops_def bytes_read_def
      bytes_offered_def sum_list_replicate map_concat repeated_def)

text \<open>
  The text of each of the two targets describes its transfers: parsed as the client parses it,
  it gives, for each run of calls in the same direction, their number and the sum of their sizes.
\<close>

lemma netops_describe_transfers:
  "list_all (\<lambda>(P, texts). length texts = 1 \<and>
     parse_ops (hd texts) MAX_EOPS = (int (length (transfer_ops P)), transfer_ops P)) net_pairs"
  by (simp add: net_pairs_def parse_ops_def parse_loop_render min_def render_0_0 render_32_0 transfers_0_0(2) transfers_32_0(2) MAX_EOPS_def)

text \<open>
  What the client makes of the runs: it repeats an operation as often as the entry says, each time
  with the size of the entry.
\<close>

definition client_ops :: "(bool \<times> u64 list) list \<Rightarrow> extracted_op list" where
  "client_ops rs = concat (map (\<lambda>(w, lens). replicate (length lens)
     \<lparr>op_n = of_nat (length lens), op_sz = sum_list lens, is_write = w\<rparr>) rs)"

lemma length_transfers: "length (transfers cs) \<le> calls cs"
  by (induction cs rule: transfers.induct) simp_all

lemma length_in_concat: "(w, lens) \<in> set rs \<Longrightarrow> length lens \<le> length (concat (map (\<lambda>(w, lens). map (Pair w) lens) rs))"
  by (induction rs) auto

lemma length_runs: "(w, lens) \<in> set (runs ts) \<Longrightarrow> length lens \<le> length ts"
  using length_in_concat [of w lens "runs ts"] by (simp only: concat_runs)

lemma repeated_transfer_ops:
  assumes "calls (body P) < 2 ^ 64"
  shows "repeated (transfer_ops P) = client_ops (runs (transfers (body P)))"
proof -
  have "unat (of_nat (length lens) :: u64) = length lens" if "(w, lens) \<in> set (runs (transfers (body P)))" for w lens
    using length_runs [OF that] length_transfers [of "body P"] assms
    by (simp add: unsigned_of_nat take_bit_nat_eq_self_iff)
  then show ?thesis unfolding repeated_def transfer_ops_def client_ops_def map_map
    by (intro arg_cong [where f = concat] map_cong refl) (auto simp: run_op_def)
qed

lemma hd_renders:
  "hd min_mysql_recvfrom_sendto_0_0_netops_accept = render_ops (transfer_ops min_mysql_recvfrom_sendto_0_0)"
  "hd min_mysql_recvfrom_sendto_32_0_netops_accept = render_ops (transfer_ops min_mysql_recvfrom_sendto_32_0)"
  by (simp_all only: render_0_0 render_32_0 list.sel)

lemma net_pairs_ok:
  assumes "(P, texts) \<in> set net_pairs"
  shows "usable_ops (transfer_ops P)" "length (transfer_ops P) \<le> 128" "hd texts = render_ops (transfer_ops P)"
    "repeated (transfer_ops P) = client_ops (runs (transfers (body P)))"
  using assms transfers_0_0(1,2) transfers_32_0(1,2) hd_renders
    repeated_transfer_ops [of min_mysql_recvfrom_sendto_0_0] repeated_transfer_ops [of min_mysql_recvfrom_sendto_32_0]
    min_mysql_recvfrom_sendto_0_0_ok(2) min_mysql_recvfrom_sendto_32_0_ok(2)
  by (auto simp: net_pairs_def)

lemma schedule_of_pair:
  assumes "(P, texts) \<in> set net_pairs" "load_eops (hd texts) = Inr (eops s, eops_sz s, sbuf_size s)"
  shows "schedule s = client_ops (runs (transfers (body P)))"
proof -
  note p = net_pairs_ok [OF assms(1)]
  let ?s = "s\<lparr>conn_heap := Map.empty, next_ptr := 1\<rparr>"
  have "follows (transfer_ops P) ?s"
    by (rule follows_start [OF p(1) assms(2) [unfolded p(3)]]) simp_all
  then have "schedule ?s = repeated (transfer_ops P)" using p(2) by (simp add: follows_def repeated_def MAX_EOPS_def)
  then show ?thesis using p(4) by (simp add: schedule_def)
qed

lemma cyclic_whole: "cyclic s 0 (length (schedule s)) = schedule s"
  by (auto simp: cyclic_def intro!: nth_equalityI)

text \<open>
  C34. The client does not perform the transfers of its target. For a run of transfers of
  \<open>recvfrom_sendto_0_0\<close> or \<open>recvfrom_sendto_32_0\<close> with the sizes \<open>lens\<close>, the client started with
  the text of the target makes as many calls as the run has, but each of them with the sum of
  \<open>lens\<close>: these are exactly the calls of one pass over its schedule, after which, at the next
  failing call, the connection is back at its start.
\<close>

theorem client_repeats_runs:
  assumes "(P, texts) \<in> set net_pairs" "load_eops (hd texts) = Inr (eops s, eops_sz s, sbuf_size s)"
    "net_ok s" "conn_heap s (ev_data ev) = Some d" "position s d = 0"
    "event_for d ev" "ev_events ev AND (EPOLLHUP OR EPOLLERR) = 0"
    "performs K (fd d) (client_ops (runs (transfers (body P)))) (net_kern s) = (rs, k)"
    "- 1 \<notin> set rs" "perform K (fd d) (schedule s ! 0) k = (- 1, k')" "length (schedule s) < tries"
  shows "concat (map (\<lambda>(w, lens). map (Pair w) lens) (runs (transfers (body P)))) = transfers (body P) \<and>
    (\<exists>d' s'. client_readwrite K tries ev s = Inr s' \<and> fd d' = fd d \<and> position s d' = 0 \<and>
       (if k_errno K k' = EAGAIN \<or> k_errno K k' = ECONNRESET
        then config_wait K (ev_data ev) d' (s\<lparr>net_kern := k'\<rparr>) = Inr s'
        else s' = client_unregister K (ev_data ev) d' (s\<lparr>net_kern := k'\<rparr>)))"
proof -
  have "performs K (fd d) (cyclic s (position s d) (length (schedule s))) (net_kern s) = (rs, k)"
    using assms(5,8) cyclic_whole [of s] schedule_of_pair [OF assms(1,2)] by simp
  from client_readwrite_fails_at [OF assms(3,4,6,7) this assms(9) _ assms(11), of k'] assms(5,10)
  show ?thesis by (fastforce simp: concat_runs)
qed

section \<open>Witness\<close>

lemma performs_budget:
  "performs budget_kernel f ops (length ops + m, log) = (replicate (length ops) 0, m, log @ map (io_of f) ops)"
  by (induction ops arbitrary: log) (simp_all add: perform_def budget_kernel_def budget_call_def io_of_def)

definition peer_conn :: conn_data where
  "peer_conn = \<lparr>step = 0, n = 0, last_epoll = EPOLLIN, fd = 5\<rparr>"

lemma length_client_ops: "length (client_ops rs) = length (concat (map (\<lambda>(w, lens). map (Pair w) lens) rs))"
  by (induction rs) (auto simp: client_ops_def)

lemma first_transfer_0_0: "\<exists>rest. transfer_ops min_mysql_recvfrom_sendto_0_0 = \<lparr>op_n = 1, op_sz = 78, is_write = True\<rparr> # rest"
  by (simp add: transfer_ops_def min_mysql_recvfrom_sendto_0_0_defs run_op_def)

lemma first_op_0_0: "client_ops (runs (transfers (body min_mysql_recvfrom_sendto_0_0))) ! 0 = \<lparr>op_n = 1, op_sz = 78, is_write = True\<rparr>"
proof -
  have "repeated (transfer_ops min_mysql_recvfrom_sendto_0_0) ! 0 = \<lparr>op_n = 1, op_sz = 78, is_write = True\<rparr>"
    using first_transfer_0_0 by (auto simp: repeated_def)
  moreover have "repeated (transfer_ops min_mysql_recvfrom_sendto_0_0) = client_ops (runs (transfers (body min_mysql_recvfrom_sendto_0_0)))"
    by (rule net_pairs_ok(4) [of _ min_mysql_recvfrom_sendto_0_0_netops_accept]) (simp add: net_pairs_def)
  ultimately show ?thesis by (simp only:)
qed

lemma length_ops_0_0: "length (client_ops (runs (transfers (body min_mysql_recvfrom_sendto_0_0)))) < 1000"
  using length_transfers [of "body min_mysql_recvfrom_sendto_0_0"] min_mysql_recvfrom_sendto_0_0_ok(2)
  unfolding length_client_ops concat_runs by simp

lemma wf_of_follows: "follows ops (s\<lparr>conn_heap := h, next_ptr := q\<rparr>) \<Longrightarrow> wf_ops s"
  by (simp add: follows_def net_ok_def)

text \<open>The client loaded with the text of the first target, on a kernel that answers one pass.\<close>

theorem client_repeats_runs_witness:
  "\<exists>s s'. load_eops (hd min_mysql_recvfrom_sendto_0_0_netops_accept) = Inr (eops s, eops_sz s, sbuf_size s) \<and>
     client_readwrite budget_kernel 1000 \<lparr>ev_events = EPOLLIN, ev_data = 1\<rparr> s = Inr s' \<and>
     snd (net_kern s') = map (io_of 5) (client_ops (runs (transfers (body min_mysql_recvfrom_sendto_0_0))))"
proof -
  let ?P = min_mysql_recvfrom_sendto_0_0 and ?ev = "\<lparr>ev_events = EPOLLIN, ev_data = 1\<rparr>"
  have pair: "(?P, min_mysql_recvfrom_sendto_0_0_netops_accept) \<in> set net_pairs" by (simp add: net_pairs_def)
  note p = net_pairs_ok [OF pair]
  obtain array sz buf where l: "load_eops (render_ops (transfer_ops ?P)) = Inr (array, sz, buf)"
    using load_eops_render [OF p(1)] by metis
  let ?ops = "client_ops (runs (transfers (body ?P)))"
  let ?s = "\<lparr>eops = array, eops_sz = sz, sbuf_size = buf, conn_heap = [1 \<mapsto> peer_conn], next_ptr = 2,
    epoll_fd = 4, nconn = 1, net_kern = (length ?ops, [])\<rparr>"
  let ?empty = "?s\<lparr>conn_heap := Map.empty, next_ptr := 1\<rparr>"
  have load: "load_eops (hd min_mysql_recvfrom_sendto_0_0_netops_accept) = Inr (eops ?s, eops_sz ?s, sbuf_size ?s)" using l p(3) by simp
  have "follows (transfer_ops ?P) ?empty" by (rule follows_start [OF p(1) l]) simp_all
  then have wf: "wf_ops ?s" by (rule wf_of_follows)
  have sched: "schedule ?s = ?ops" by (rule schedule_of_pair [OF pair load])
  have pos: "position ?s peer_conn = 0" by (simp add: position_def peer_conn_def)
  have at: "in_step ?s peer_conn" using in_step_start [OF wf] by (simp add: peer_conn_def)
  have first: "cur_op ?s peer_conn = \<lparr>op_n = 1, op_sz = 78, is_write = True\<rparr>"
    unfolding sched_at(2) [OF wf at, symmetric] pos sched by (rule first_op_0_0)
  have "last_epoll peer_conn = EPOLLIN" by (simp add: peer_conn_def)
  then have "conn_ok ?s peer_conn" by (simp add: conn_ok_def at first wait_for_def)
  then have ok: "net_ok ?s" by (simp add: net_ok_def wf)
  have d: "conn_heap ?s (ev_data ?ev) = Some peer_conn" by simp
  have ev: "event_for peer_conn ?ev" "ev_events ?ev AND (EPOLLHUP OR EPOLLERR) = 0"
    by (simp_all add: event_for_def peer_conn_def EPOLLIN_def EPOLLHUP_def EPOLLERR_def)
  have run: "performs budget_kernel (fd peer_conn) ?ops (net_kern ?s) = (replicate (length ?ops) 0, 0, map (io_of 5) ?ops)"
    using performs_budget [of 5 ?ops 0 "[]"] by (simp add: peer_conn_def)
  have stop: "perform budget_kernel (fd peer_conn) (schedule ?s ! 0) (0, map (io_of 5) ?ops) = (- 1, 0, map (io_of 5) ?ops)"
    by (simp add: perform_def budget_kernel_def budget_call_def)
  have len: "length (schedule ?s) < 1000"
    using length_ops_0_0 unfolding sched .
  have errno: "k_errno budget_kernel k = EAGAIN" for k by (simp add: budget_kernel_def)
  have "\<exists>d' s'. client_readwrite budget_kernel 1000 ?ev ?s = Inr s' \<and>
      config_wait budget_kernel 1 d' (?s\<lparr>net_kern := (0, map (io_of 5) ?ops)\<rparr>) = Inr s'"
    using client_repeats_runs [OF pair load ok d pos ev run _ stop len] errno by auto
  then obtain s' where s': "client_readwrite budget_kernel 1000 ?ev ?s = Inr s'" "snd (net_kern s') = map (io_of 5) ?ops"
    using config_wait_io [OF budget_kernel_io] by fastforce
  show ?thesis by (intro exI [of _ ?s] exI [of _ s'] conjI load s')
qed

end
