(* ===== verification/CSB_Crew.thy ===== *)
theory CSB_Crew
  imports CSB_Syz_Shipped
begin

text \<open>
  The threads of a generated target, one statement at a time. CSB\_Run takes a dispatch as one
  step; here the threads of the same body interleave between any two statements of it, on one
  kernel. Each has its own mapping, counters and result; the registers are its own in the
  mysql\_v2 and rocksdb templates and one array for all threads in the mysql template. A schedule
  is the list of the threads that take the next step; a thread that has finished its body
  does nothing.
\<close>

record worker =
  w_place :: place
  w_code :: "stmt list"
  w_memory :: mem
  w_regs :: "u64 list"
  w_res :: u64
  w_succeeded :: int
  w_failed :: int

text \<open>
  A system call that was made: thread, name, arguments, result and the memory after it. The plain
  \<open>close(r[i])\<close> at the end of some rocksdb bodies is a call too; its result is not used, and its
  entry repeats the last result kept.
\<close>

record call =
  by_thread :: nat
  call_name :: sysno
  call_args :: "u64 list"
  call_res :: u64
  call_memory :: mem

record 'k crew =
  workers :: "worker list"
  shared_regs :: "u64 list"
  crew_os :: 'k
  made :: "call list"

definition view :: "bool \<Rightarrow> 'k crew \<Rightarrow> worker \<Rightarrow> 'k machine" where
  "view sharing s w = \<lparr>memory = w_memory w, regs = (if sharing then shared_regs s else w_regs w), res = w_res w,
     succeeded = w_succeeded w, failed = w_failed w, os = crew_os s\<rparr>"

definition calls_made :: "nat \<Rightarrow> place \<Rightarrow> stmt \<Rightarrow> 'k machine \<Rightarrow> 'k machine \<Rightarrow> call list" where
  "calls_made tid e c m m' =
     (case c of
        Syscall name xs \<Rightarrow> (case operand_values e m xs of
            Inl f \<Rightarrow> []
          | Inr vs \<Rightarrow> [\<lparr>by_thread = tid, call_name = name, call_args = vs, call_res = res m', call_memory = memory m'\<rparr>])
      | Close_reg i \<Rightarrow> (case reg_at m i of
            Inl f \<Rightarrow> []
          | Inr v \<Rightarrow> [\<lparr>by_thread = tid, call_name = NR_close, call_args = [v], call_res = res m', call_memory = memory m'\<rparr>])
      | _ \<Rightarrow> [])"

definition put_view :: "bool \<Rightarrow> nat \<Rightarrow> stmt list \<Rightarrow> 'k machine \<Rightarrow> 'k crew \<Rightarrow> 'k crew" where
  "put_view sharing tid cs m s =
     (let w = workers s ! tid in
      s\<lparr>workers := (workers s)[tid := \<lparr>w_place = w_place w, w_code = cs, w_memory = memory m,
             w_regs = (if sharing then w_regs w else regs m), w_res = res m, w_succeeded = succeeded m, w_failed = failed m\<rparr>],
         shared_regs := (if sharing then regs m else shared_regs s), crew_os := os m\<rparr>)"

definition crew_step :: "'k sys_kernel \<Rightarrow> bool \<Rightarrow> nat \<Rightarrow> 'k crew \<Rightarrow> 'k crew result" where
  "crew_step K sharing tid s =
     (if tid \<ge> length (workers s) then Inr s
      else let w = workers s ! tid in
        case w_code w of
          [] \<Rightarrow> Inr s
        | c # cs \<Rightarrow> let m = view sharing s w in
            bind_r (exec_stmt K (w_place w) c m) (\<lambda>m'.
              Inr ((put_view sharing tid cs m' s)\<lparr>made := made s @ calls_made tid (w_place w) c m m'\<rparr>)))"

fun crew_run :: "'k sys_kernel \<Rightarrow> bool \<Rightarrow> nat list \<Rightarrow> 'k crew \<Rightarrow> 'k crew result" where
  "crew_run K sharing [] s = Inr s"
| "crew_run K sharing (tid # tids) s = bind_r (crew_step K sharing tid s) (crew_run K sharing tids)"

text \<open>The threads at the beginning of a dispatch, from their contexts.\<close>

definition worker_of :: "syz_prog \<Rightarrow> 'k syz_world \<Rightarrow> syz_ctx \<Rightarrow> worker" where
  "worker_of P w ctx = \<lparr>w_place = place_of P ctx, w_code = body P, w_memory = s_memory ctx, w_regs = load_regs P ctx w,
     w_res = 0, w_succeeded = num_succeeded ctx, w_failed = num_failed ctx\<rparr>"

definition crew_of :: "syz_prog \<Rightarrow> 'k syz_world \<Rightarrow> syz_ctx list \<Rightarrow> 'k crew" where
  "crew_of P w ctxs = \<lparr>workers = map (worker_of P w) ctxs, shared_regs = r_unique w, crew_os = s_os w, made = []\<rparr>"

definition shares_regs :: "syz_prog \<Rightarrow> bool" where
  "shares_regs P \<longleftrightarrow> prog_family P = Mysql"

lemma put_view_simps [simp]:
  "length (workers (put_view sharing tid cs m s)) = length (workers s)"
  "made (put_view sharing tid cs m s) = made s" "crew_os (put_view sharing tid cs m s) = os m"
  "t \<noteq> tid \<Longrightarrow> workers (put_view sharing tid cs m s) ! t = workers s ! t"
  by (simp_all add: put_view_def Let_def)

lemma crew_step_cases:
  obtains (idle) "crew_step K sharing tid s = Inr s"
  | (moves) c cs where "tid < length (workers s)" "w_code (workers s ! tid) = c # cs"
      "crew_step K sharing tid s = bind_r (exec_stmt K (w_place (workers s ! tid)) c (view sharing s (workers s ! tid))) (\<lambda>m'.
              Inr ((put_view sharing tid cs m' s)
                \<lparr>made := made s @ calls_made tid (w_place (workers s ! tid)) c (view sharing s (workers s ! tid)) m'\<rparr>))"
proof (cases "tid < length (workers s) \<and> w_code (workers s ! tid) \<noteq> []")
  case True
  then obtain c cs where "w_code (workers s ! tid) = c # cs" by (cases "w_code (workers s ! tid)") auto
  with True moves show ?thesis by (simp add: crew_step_def Let_def)
next
  case False
  with idle show ?thesis by (auto simp: crew_step_def Let_def split: list.splits)
qed

section \<open>Every interleaving is safe\<close>

text \<open>
  What a thread still has to do passes the check and fits the counters; what it has counted and
  what it will count add up to \<open>goal\<close>.
\<close>

definition worker_safe :: "nat \<Rightarrow> nat \<Rightarrow> int \<Rightarrow> worker \<Rightarrow> bool" where
  "worker_safe nregs maxw goal w \<longleftrightarrow> write_len (w_place w) = maxw \<and> body_ok nregs maxw (w_code w) \<and> 0 \<le> w_succeeded w \<and> 0 \<le> w_failed w \<and>
     w_succeeded w + w_failed w + int (counts (w_code w)) = goal \<and> goal < 2 ^ 31"

definition crew_safe :: "bool \<Rightarrow> nat \<Rightarrow> nat \<Rightarrow> int list \<Rightarrow> 'k crew \<Rightarrow> bool" where
  "crew_safe sharing nregs maxw goals s \<longleftrightarrow> length (workers s) = length goals \<and>
     (\<forall>tid < length goals. worker_safe nregs maxw (goals ! tid) (workers s ! tid) \<and>
        length (regs (view sharing s (workers s ! tid))) = nregs)"

lemma crew_step_safe:
  assumes safe: "crew_safe sharing nregs maxw goals s"
  shows "\<exists>s'. crew_step K sharing tid s = Inr s' \<and> crew_safe sharing nregs maxw goals s'"
proof (cases rule: crew_step_cases [of K sharing tid s])
  case idle
  with safe show ?thesis by simp
next
  case (moves c cs)
  let ?w = "workers s ! tid" and ?m = "view sharing s (workers s ! tid)"
  have w: "worker_safe nregs maxw (goals ! tid) ?w" and n: "length (regs ?m) = nregs"
    using safe moves(1) by (simp_all add: crew_safe_def)
  have "stmt_ok (length (regs ?m)) (write_len (w_place ?w)) c" using w n moves(2) by (simp add: worker_safe_def)
  moreover have "counters_ok (counts [c] + counts cs) ?m"
    using w moves(2) counts_Cons [of c cs] by (simp add: worker_safe_def counters_ok_def view_def)
  ultimately obtain m' where m': "exec_stmt K (w_place ?w) c ?m = Inr m'" "length (regs m') = nregs" "counters_ok (counts cs) m'"
      "succeeded m' + failed m' = succeeded ?m + failed ?m + int (counts [c])"
    using exec_stmt_ok n by blast
  let ?s = "put_view sharing tid cs m' s"
  have at: "worker_safe nregs maxw (goals ! tid) (workers ?s ! tid)"
    using w m'(3,4) moves(1,2) counts_Cons [of c cs]
    by (simp add: worker_safe_def put_view_def counters_ok_def view_def Let_def)
  have "length (regs (view sharing ?s (workers ?s ! t))) = nregs" if "t < length goals" for t
    using safe m'(2) moves(1) that by (cases "t = tid") (auto simp: put_view_def view_def crew_safe_def Let_def)
  moreover have "worker_safe nregs maxw (goals ! t) (workers ?s ! t)" if "t < length goals" for t
    using at safe that by (cases "t = tid") (simp_all add: crew_safe_def)
  ultimately have "crew_safe sharing nregs maxw goals ?s" using safe by (simp add: crew_safe_def)
  then have "crew_safe sharing nregs maxw goals (?s\<lparr>made := x\<rparr>)" for x by (simp add: crew_safe_def view_def cong: if_cong split del: if_split)
  with m'(1) moves(3) show ?thesis by simp
qed

lemma crew_run_safe:
  "crew_safe sharing nregs maxw goals s \<Longrightarrow> \<exists>s'. crew_run K sharing tids s = Inr s' \<and> crew_safe sharing nregs maxw goals s'"
proof (induction tids arbitrary: s)
  case (Cons tid tids)
  with crew_step_safe obtain s1 where "crew_step K sharing tid s = Inr s1" "crew_safe sharing nregs maxw goals s1" by blast
  with Cons.IH show ?case by simp
qed simp

lemma crew_of_safe:
  assumes "prog_ok P" "list_all (\<lambda>ctx. ctx_ok P ctx w \<and> counted_results ctx + int (calls (body P)) < 2 ^ 31) ctxs"
  shows "crew_safe (shares_regs P) (num_regs P) (unat (max_write_buffer P))
    (map (\<lambda>ctx. counted_results ctx + int (calls (body P))) ctxs) (crew_of P w ctxs)"
  using assms counted_counts [of "body P"]
  by (auto simp: crew_safe_def crew_of_def worker_of_def worker_safe_def view_def shares_regs_def list_all_length
      prog_ok_def ctx_ok_def counters_nonneg_def counted_results_def load_regs_def)

lemma crew_runs:
  assumes "prog_ok P" "list_all (\<lambda>ctx. ctx_ok P ctx w \<and> counted_results ctx + int (calls (body P)) < 2 ^ 31) ctxs"
  shows "\<exists>s. crew_run K (shares_regs P) tids (crew_of P w ctxs) = Inr s \<and> length (workers s) = length ctxs \<and>
    (\<forall>tid < length ctxs. w_succeeded (workers s ! tid) + w_failed (workers s ! tid) + int (counts (w_code (workers s ! tid))) =
       counted_results (ctxs ! tid) + int (calls (body P)))"
  using crew_run_safe [OF crew_of_safe [OF assms], of K tids] by (auto simp: crew_safe_def worker_safe_def)

text \<open>
  C22. However the threads of a target interleave, statement by statement and with private or
  shared registers, no step faults, and each thread counts each of its calls exactly once:
  what it has counted and what is left of its body always add up.
\<close>

theorem crew_never_faults:
  assumes "prog_ok P" "list_all (\<lambda>ctx. ctx_ok P ctx w \<and> counted_results ctx + int (calls (body P)) < 2 ^ 31) ctxs"
  shows "\<exists>s. crew_run K (shares_regs P) tids (crew_of P w ctxs) = Inr s \<and> length (workers s) = length ctxs \<and>
    (\<forall>tid < length ctxs. w_succeeded (workers s ! tid) + w_failed (workers s ! tid) + int (counts (w_code (workers s ! tid))) =
       counted_results (ctxs ! tid) + int (calls (body P)))"
  using crew_runs [OF assms] .

section \<open>With registers of its own, a thread closes its own descriptors\<close>

text \<open>
  The bodies that close registers, and fill registers only with results of calls other than
  close, not from memory; the flag says whether the last result is one.
\<close>

fun closes_results :: "bool \<Rightarrow> stmt list \<Rightarrow> bool" where
  "closes_results called [] \<longleftrightarrow> True"
| "closes_results called (Syscall name xs # cs) \<longleftrightarrow>
     (name = NR_close \<longrightarrow> (case xs of [Reg i] \<Rightarrow> True | _ \<Rightarrow> False)) \<and> closes_results (name \<noteq> NR_close) cs"
| "closes_results called (Save_res i # cs) \<longleftrightarrow> called \<and> closes_results called cs"
| "closes_results called (Load_reg i a # cs) \<longleftrightarrow> False"
| "closes_results called (c # cs) \<longleftrightarrow> closes_results called cs"

definition results_to :: "nat \<Rightarrow> call list \<Rightarrow> u64 set" where
  "results_to tid cs = call_res ` {c \<in> set cs. by_thread c = tid \<and> call_name c \<noteq> NR_close}"

text \<open>Every close is of a value that the thread had at the start or has got from a call.\<close>

definition closes_own :: "(nat \<Rightarrow> u64 set) \<Rightarrow> call list \<Rightarrow> bool" where
  "closes_own initial cs \<longleftrightarrow> (\<forall>i < length cs. call_name (cs ! i) = NR_close \<longrightarrow>
     (\<exists>v. call_args (cs ! i) = [v] \<and> v \<in> initial (by_thread (cs ! i)) \<union> results_to (by_thread (cs ! i)) (take i cs)))"

definition owns :: "(nat \<Rightarrow> u64 set) \<Rightarrow> 'k crew \<Rightarrow> bool" where
  "owns initial s \<longleftrightarrow> closes_own initial (made s) \<and> (\<forall>tid < length (workers s).
     set (w_regs (workers s ! tid)) \<subseteq> initial tid \<union> results_to tid (made s) \<and>
     (\<exists>called. closes_results called (w_code (workers s ! tid)) \<and>
        (called \<longrightarrow> w_res (workers s ! tid) \<in> initial tid \<union> results_to tid (made s))))"

lemma results_to_simps [simp]:
  "results_to tid [] = {}" "results_to tid (cs @ cs') = results_to tid cs \<union> results_to tid cs'"
  "results_to tid [c] = (if by_thread c = tid \<and> call_name c \<noteq> NR_close then {call_res c} else {})"
  by (auto simp: results_to_def)

lemma closes_own_snoc:
  "closes_own initial cs \<Longrightarrow>
   (call_name c = NR_close \<Longrightarrow> \<exists>v. call_args c = [v] \<and> v \<in> initial (by_thread c) \<union> results_to (by_thread c) cs) \<Longrightarrow>
   closes_own initial (cs @ [c])"
  by (auto simp: closes_own_def nth_append less_Suc_eq)

lemma closes_own_calls_made:
  assumes "closes_own initial cs" "closes_results called (c # code)" "set (regs m) \<subseteq> initial tid \<union> results_to tid cs"
  shows "closes_own initial (cs @ calls_made tid e c m m')"
proof (cases c)
  case (Syscall name xs)
  show ?thesis
  proof (cases "operand_values e m xs")
    case (Inr vs)
    have "\<exists>v. vs = [v] \<and> v \<in> initial tid \<union> results_to tid cs" if n: "name = NR_close"
    proof -
      obtain i where "xs = [Reg i]"
        using assms(2) Syscall n by (auto split: list.splits operand.splits)
      with Inr have "vs = [regs m ! i]" "i < length (regs m)" by (auto simp: reg_at_def split: if_splits)
      with assms(3) show ?thesis by (auto dest: nth_mem)
    qed
    with assms(1) Inr Syscall show ?thesis by (auto simp: calls_made_def intro!: closes_own_snoc)
  qed (use assms(1) Syscall in \<open>simp add: calls_made_def\<close>)
next
  case (Close_reg i)
  have "regs m ! i \<in> initial tid \<union> results_to tid cs" if "i < length (regs m)" using assms(3) that by (auto dest: nth_mem)
  with assms(1) Close_reg show ?thesis by (auto simp: calls_made_def reg_at_def intro!: closes_own_snoc)
qed (use assms(1) in \<open>simp_all add: calls_made_def\<close>)

lemma exec_stmt_results:
  assumes "exec_stmt K e c m = Inr m'" "closes_results called (c # code)"
    "set (regs m) \<subseteq> A" "called \<longrightarrow> res m \<in> A" "B = A \<union> results_to tid (calls_made tid e c m m')"
  shows "set (regs m') \<subseteq> B \<and> (\<exists>called'. closes_results called' code \<and> (called' \<longrightarrow> res m' \<in> B))"
proof (cases c)
  case (Syscall name xs)
  with assms(1) obtain vs where vs: "operand_values e m xs = Inr vs" by auto
  have "regs m' = regs m" using assms(1) Syscall vs by (auto split: if_splits prod.splits)
  moreover have "closes_results (name \<noteq> NR_close) code" using assms(2) Syscall by simp
  moreover have "B = A \<union> (if name = NR_close then {} else {res m'})" using assms(5) Syscall vs by (simp add: calls_made_def)
  ultimately show ?thesis using assms(3) by (intro conjI exI [of _ "name \<noteq> NR_close"]) auto
next
  case (Save_res i)
  with assms show ?thesis by (auto split: if_splits dest!: set_update_subset_insert [THEN subsetD])
next
  case Count
  with assms show ?thesis
    by (auto simp: count_res_def c_assert_def split: if_splits)
qed (use assms in \<open>auto simp: store_bytes_def Let_def split: if_splits\<close>)

lemma crew_step_owns:
  assumes o: "owns initial s" and s': "crew_step K False t s = Inr s'"
  shows "owns initial s'"
proof (cases rule: crew_step_cases [of K False t s])
  case idle
  with o s' show ?thesis by simp
next
  case (moves c cs)
  let ?w = "workers s ! t" and ?m = "view False s (workers s ! t)"
  have "bind_r (exec_stmt K (w_place ?w) c ?m) (\<lambda>m'. Inr ((put_view False t cs m' s)
      \<lparr>made := made s @ calls_made t (w_place ?w) c ?m m'\<rparr>)) = Inr s'" using moves(3) s' by simp
  then obtain m' where m': "exec_stmt K (w_place ?w) c ?m = Inr m'"
      "s' = (put_view False t cs m' s)\<lparr>made := made s @ calls_made t (w_place ?w) c ?m m'\<rparr>"
    by auto
  let ?A = "initial t \<union> results_to t (made s)"
  obtain called where called: "closes_results called (c # cs)" "called \<longrightarrow> res ?m \<in> ?A" "set (regs ?m) \<subseteq> ?A"
    using o moves(1,2) by (auto simp: owns_def view_def)
  have made: "closes_own initial (made s')"
    using closes_own_calls_made [where initial = initial and tid = t and m = ?m, OF _ called(1,3)] o m'(2) by (simp add: owns_def)
  have own: "set (regs m') \<subseteq> initial t \<union> results_to t (made s') \<and>
      (\<exists>called'. closes_results called' cs \<and> (called' \<longrightarrow> res m' \<in> initial t \<union> results_to t (made s')))"
    using exec_stmt_results [OF m'(1) called(1,3,2) refl, of t] m'(2) by (simp add: Un_assoc)
  have "set (w_regs (workers s' ! tid)) \<subseteq> initial tid \<union> results_to tid (made s') \<and>
     (\<exists>called. closes_results called (w_code (workers s' ! tid)) \<and>
        (called \<longrightarrow> w_res (workers s' ! tid) \<in> initial tid \<union> results_to tid (made s')))" if "tid < length (workers s')" for tid
  proof (cases "tid = t")
    case True
    with own moves(1) m'(2) show ?thesis by (simp add: put_view_def Let_def)
  next
    case False
    with o that m'(2) show ?thesis by (auto simp: owns_def)
  qed
  with made show ?thesis by (simp add: owns_def)
qed

lemma crew_run_owns: "owns initial s \<Longrightarrow> crew_run K False tids s = Inr s' \<Longrightarrow> owns initial s'"
  by (induction tids arbitrary: s) (auto dest: crew_step_owns)

text \<open>
  C20. With private registers no thread closes the descriptor of another: under every schedule,
  each value that a thread passes to close, by a system call or by the plain \<open>close\<close> that ends
  some rocksdb bodies, is one that its registers held at the start or that a call other than
  close has returned to this thread before. This covers the bodies that pass the check
  \<open>closes_results\<close>: they close registers, which they fill with results only. The bodies that load
  registers from memory do not pass it (\<open>io_getevents_clock_gettime\<close> 10 and 17,
  \<open>recvfrom_sendto_0_0\<close>).
\<close>

theorem private_threads_close_own:
  assumes "\<not> shares_regs P" "closes_results False (body P)"
    "crew_run K (shares_regs P) tids (crew_of P w ctxs) = Inr s"
  shows "closes_own (\<lambda>tid. set (load_regs P (ctxs ! tid) w)) (made s)"
proof -
  have "owns (\<lambda>tid. set (load_regs P (ctxs ! tid) w)) (crew_of P w ctxs)"
    using assms(2) by (auto simp: owns_def crew_of_def worker_of_def closes_own_def intro!: exI [of _ False])
  from crew_run_owns [OF this] assms(1,3) show ?thesis by (simp add: owns_def)
qed

section \<open>With shared registers, threads close each other's descriptors\<close>

text \<open>A thread that runs through a piece of its body without interruption.\<close>

fun log_of :: "'k sys_kernel \<Rightarrow> nat \<Rightarrow> place \<Rightarrow> stmt list \<Rightarrow> 'k machine \<Rightarrow> call list" where
  "log_of K tid e [] m = []"
| "log_of K tid e (c # cs) m =
     (case exec_stmt K e c m of Inl f \<Rightarrow> [] | Inr m' \<Rightarrow> calls_made tid e c m m' @ log_of K tid e cs m')"

lemma view_put_view:
  "tid < length (workers s) \<Longrightarrow>
   view sharing ((put_view sharing tid cs m s)\<lparr>made := x\<rparr>) (workers (put_view sharing tid cs m s) ! tid) = m"
  by (simp add: view_def put_view_def Let_def)

lemma put_view_again:
  "tid < length (workers s) \<Longrightarrow>
   put_view sharing tid cs' m' ((put_view sharing tid cs m s)\<lparr>made := x\<rparr>) = (put_view sharing tid cs' m' s)\<lparr>made := x\<rparr>"
  by (simp add: put_view_def Let_def)

lemma put_view_id:
  "tid < length (workers s) \<Longrightarrow> w_code (workers s ! tid) = cs \<Longrightarrow> put_view sharing tid cs (view sharing s (workers s ! tid)) s = s"
  by (auto simp: put_view_def view_def Let_def list_update_same_conv)

lemma crew_run_block:
  assumes "tid < length (workers s)" "w_code (workers s ! tid) = cs @ rest" "e = w_place (workers s ! tid)"
    "m = view sharing s (workers s ! tid)" "exec_body K e cs m = Inr m'"
  shows "crew_run K sharing (replicate (length cs) tid) s =
    Inr ((put_view sharing tid rest m' s)\<lparr>made := made s @ log_of K tid e cs m\<rparr>)"
  using assms
proof (induction cs arbitrary: s m)
  case Nil
  then have "put_view sharing tid rest m' s = s" using put_view_id [of tid s rest sharing] by auto
  with Nil show ?case by simp
next
  case (Cons c cs)
  then obtain m1 where m1: "exec_stmt K e c m = Inr m1" "exec_body K e cs m1 = Inr m'" by auto
  let ?s = "(put_view sharing tid (cs @ rest) m1 s)\<lparr>made := made s @ calls_made tid e c m m1\<rparr>"
  have step: "crew_step K sharing tid s = Inr ?s" using Cons.prems m1 by (simp add: crew_step_def Let_def)
  have "w_code (workers ?s ! tid) = cs @ rest" "w_place (workers ?s ! tid) = e" "tid < length (workers ?s)"
    using Cons.prems(1,3) by (simp_all add: put_view_def Let_def)
  with Cons.IH [of ?s m1] m1(2) Cons.prems(1) have "crew_run K sharing (replicate (length cs) tid) ?s =
      Inr ((put_view sharing tid rest m' ?s)\<lparr>made := made ?s @ log_of K tid e cs m1\<rparr>)"
    by (simp add: view_put_view)
  with step m1 Cons.prems(1) show ?case by (simp add: put_view_again)
qed

lemma crew_run_append: "crew_run K sharing (tids @ tids') s = bind_r (crew_run K sharing tids s) (crew_run K sharing tids')"
proof (induction tids arbitrary: s)
  case (Cons tid tids)
  then show ?case by (cases "crew_step K sharing tid s") simp_all
qed simp

text \<open>The dispatch of CSB\_SyzTarget, one step for all of a body, is one of the interleavings.\<close>

lemma dispatch_is_interleaving:
  assumes "exec_body K (place_of P ctx) (body P) (machine_of P ctx w) = Inr m"
  shows "crew_run K (shares_regs P) (replicate (length (body P)) 0) (crew_of P w [ctx]) =
    Inr ((put_view (shares_regs P) 0 [] m (crew_of P w [ctx]))
      \<lparr>made := log_of K 0 (place_of P ctx) (body P) (machine_of P ctx w)\<rparr>)"
proof -
  have "view (shares_regs P) (crew_of P w [ctx]) (workers (crew_of P w [ctx]) ! 0) = machine_of P ctx w"
    by (simp add: view_def crew_of_def worker_of_def shares_regs_def load_regs_def)
  with crew_run_block [where cs = "body P" and rest = "[]" and tid = 0 and s = "crew_of P w [ctx]"] assms show ?thesis
    by (simp add: crew_of_def worker_of_def)
qed

text \<open>Two threads open a file each, then the first one duplicates and closes.\<close>

definition mixed_up :: "nat list" where
  "mixed_up = replicate 4 0 @ replicate 4 1 @ replicate 4 0"

definition open_block :: "stmt list" where
  "open_block = [Memcpy 0x200b9700 (with_nul ''./var/tmp/'') 11,
     Syscall NR_openat [Dir_fd, Ptr 0x200b9700, Imm 0x484002, Imm 0x1ff], Count, Save_res 0]"

definition dup_block :: "stmt list" where
  "dup_block = [Syscall NR_dup [Reg 0], Count, Save_res 1, Syscall NR_close [Reg 0]]"

definition room_left :: "int \<Rightarrow> 'k machine \<Rightarrow> bool" where
  "room_left k m \<longleftrightarrow> length (regs m) = 10 \<and> 0 \<le> succeeded m \<and> 0 \<le> failed m \<and> succeeded m + failed m + k < 2 ^ 31"

lemma count_res_room:
  "room_left (k + 1) m \<Longrightarrow> 0 \<le> k \<Longrightarrow> \<exists>m'. count_res m = Inr m' \<and> room_left k m' \<and> regs m' = regs m \<and> res m' = res m"
  by (auto simp: count_res_def abort_on_fail_def int_inc_def room_left_def)

lemma open_block_runs:
  assumes K: "\<And>vs m k. fst (os_syscall K NR_openat vs m k) \<noteq> - 1" and m: "room_left (k + 1) m" "0 \<le> k"
  shows "\<exists>m' c. exec_body K e open_block m = Inr m' \<and> log_of K tid e open_block m = [c] \<and> room_left k m' \<and>
    regs m' = (regs m)[0 := call_res c] \<and> by_thread c = tid \<and> call_name c = NR_openat"
proof -
  let ?lit = "with_nul ''./var/tmp/''"
  let ?m1 = "m\<lparr>memory := poke (at_offset e 0x200b9700) (take 11 (literal_bytes ?lit)) (memory m)\<rparr>"
  have 1: "exec_stmt K e (Memcpy 0x200b9700 ?lit 11) m = Inr ?m1"
    by (simp add: with_nul_def store_bytes_ok in_mapping_def MMAP_OFFSET_def MMAP_LENGTH_def)
  let ?vs = "[word_of_int (dir_fd e), at_offset e 0x200b9700, 0x484002, 0x1ff]"
  obtain r mem' k' where 2: "os_syscall K NR_openat ?vs (memory ?m1) (os ?m1) = (r, mem', k')" by (metis prod_cases3)
  then have r: "r \<noteq> - 1" using K by (metis fst_conv)
  let ?m2 = "?m1\<lparr>res := r, memory := mem', os := k'\<rparr>"
  have "room_left (k + 1) ?m2" using m by (simp add: room_left_def)
  with count_res_room [OF this m(2)] obtain m3 where 3: "count_res ?m2 = Inr m3" "room_left k m3" "regs m3 = regs m" "res m3 = r"
    by auto
  let ?m4 = "m3\<lparr>regs := (regs m3)[0 := r]\<rparr>"
  have 4: "exec_stmt K e (Save_res 0) m3 = Inr ?m4" using 3 r by (simp add: room_left_def)
  have x: "exec_stmt K e (Syscall NR_openat [Dir_fd, Ptr 0x200b9700, Imm 0x484002, Imm 0x1ff]) ?m1 = Inr ?m2"
    using 2 by (simp add: call_in_bounds_def buffer_calls_def accessible_in_mapping in_mapping_def MMAP_OFFSET_def MMAP_LENGTH_def)
  have "exec_body K e open_block m = Inr ?m4"
    unfolding open_block_def exec_body.simps 1 x bind_r.simps exec_stmt.simps(5) 3(1) 4 by simp
  moreover have "log_of K tid e open_block m = [\<lparr>by_thread = tid, call_name = NR_openat, call_args = ?vs, call_res = r, call_memory = mem'\<rparr>]"
    unfolding open_block_def log_of.simps 1 sum.case x exec_stmt.simps(5) 3(1) 4 by (simp add: calls_made_def)
  moreover have "room_left k ?m4" using 3 by (simp add: room_left_def)
  ultimately show ?thesis using 3 by auto
qed

lemma dup_block_runs:
  assumes m: "room_left 1 m"
  shows "\<exists>m' c c'. exec_body K e dup_block m = Inr m' \<and> log_of K tid e dup_block m = [c, c'] \<and>
    by_thread c' = tid \<and> call_name c' = NR_close \<and> call_args c' = [regs m ! 0]"
proof -
  have r: "reg_at m 0 = Inr (regs m ! 0)" using m by (simp add: reg_at_def room_left_def)
  obtain r1 mem1 k1 where 1: "os_syscall K NR_dup [regs m ! 0] (memory m) (os m) = (r1, mem1, k1)" by (metis prod_cases3)
  let ?m1 = "m\<lparr>res := r1, memory := mem1, os := k1\<rparr>"
  have x1: "exec_stmt K e (Syscall NR_dup [Reg 0]) m = Inr ?m1" using r 1 by (simp add: call_in_bounds_def buffer_calls_def)
  have "room_left (0 + 1) ?m1" using m by (simp add: room_left_def)
  with count_res_room [OF this] obtain m2 where 2: "count_res ?m1 = Inr m2" "regs m2 = regs m" "length (regs m2) = 10"
    by (auto simp: room_left_def)
  obtain m3 where 3: "exec_stmt K e (Save_res 1) m2 = Inr m3" "regs m3 ! 0 = regs m ! 0" "length (regs m3) = 10"
    using 2 by (cases "res m2 = - 1") auto
  have r3: "reg_at m3 0 = Inr (regs m ! 0)" using 3 by (simp add: reg_at_def)
  obtain r4 mem4 k4 where 4: "os_syscall K NR_close [regs m ! 0] (memory m3) (os m3) = (r4, mem4, k4)" by (metis prod_cases3)
  let ?m4 = "m3\<lparr>res := r4, memory := mem4, os := k4\<rparr>"
  have x4: "exec_stmt K e (Syscall NR_close [Reg 0]) m3 = Inr ?m4" using r3 4 by (simp add: call_in_bounds_def buffer_calls_def)
  have "exec_body K e dup_block m = Inr ?m4"
    unfolding dup_block_def exec_body.simps x1 bind_r.simps exec_stmt.simps(5) 2(1) 3(1) x4 by simp
  moreover have "log_of K tid e dup_block m =
      [\<lparr>by_thread = tid, call_name = NR_dup, call_args = [regs m ! 0], call_res = r1, call_memory = mem1\<rparr>,
       \<lparr>by_thread = tid, call_name = NR_close, call_args = [regs m ! 0], call_res = r4, call_memory = mem4\<rparr>]"
    unfolding dup_block_def log_of.simps x1 sum.case exec_stmt.simps(5) 2(1) 3(1) x4 using r r3 by (simp add: calls_made_def)
  ultimately show ?thesis by auto
qed

text \<open>
  C21. The mysql template shares the registers between the threads, and there the threads do
  close each other's descriptors: on every kernel on which opening succeeds, two threads of
  \<open>min_mysql_close_dup_0_0\<close> have a schedule in which the first closes what the kernel returned to
  the second.
\<close>

theorem shared_threads_close_others:
  assumes K: "\<And>vs m k. fst (os_syscall K NR_openat vs m k) \<noteq> - 1" and regs: "length (r_unique w) = 10"
    and ctxs: "\<And>ctx. ctx \<in> {ctx0, ctx1} \<Longrightarrow> 0 \<le> num_succeeded ctx \<and> 0 \<le> num_failed ctx \<and> counted_results ctx < 1000"
  shows "\<exists>s c0 c1 c2 c3. crew_run K (shares_regs min_mysql_close_dup_0_0) mixed_up (crew_of min_mysql_close_dup_0_0 w [ctx0, ctx1]) = Inr s \<and>
    made s = [c0, c1, c2, c3] \<and> by_thread c1 = 1 \<and> call_name c1 = NR_openat \<and>
    by_thread c3 = 0 \<and> call_name c3 = NR_close \<and> call_args c3 = [call_res c1]"
proof -
  let ?P = min_mysql_close_dup_0_0
  have fam: "shares_regs ?P" by (simp add: shares_regs_def min_mysql_close_dup_0_0_def)
  obtain rest where body: "body ?P = open_block @ dup_block @ rest"
    by (simp add: min_mysql_close_dup_0_0_def min_mysql_close_dup_0_0_body1_def open_block_def dup_block_def)
  have len: "length open_block = 4" "length dup_block = 4" by (simp_all add: open_block_def dup_block_def)
  let ?s0 = "crew_of ?P w [ctx0, ctx1]"
  let ?e0 = "place_of ?P ctx0" and ?e1 = "place_of ?P ctx1"
  let ?m0 = "view True ?s0 (workers ?s0 ! 0)"
  have s0: "0 < length (workers ?s0)" "w_code (workers ?s0 ! 0) = open_block @ dup_block @ rest"
      "?e0 = w_place (workers ?s0 ! 0)" "made ?s0 = []" by (simp_all add: crew_of_def worker_of_def body)
  have "room_left (1 + 1) ?m0" using regs ctxs [of ctx0]
    by (simp add: room_left_def view_def crew_of_def worker_of_def counted_results_def)
  then obtain m1 c0 where 1: "exec_body K ?e0 open_block ?m0 = Inr m1" "log_of K 0 ?e0 open_block ?m0 = [c0]" "room_left 1 m1"
    using open_block_runs [where tid = 0 and e = ?e0 and k = 1 and m = ?m0, OF K _ zero_le_one] by auto
  let ?s1 = "(put_view True 0 (dup_block @ rest) m1 ?s0)\<lparr>made := [c0]\<rparr>"
  have r1: "crew_run K True (replicate 4 0) ?s0 = Inr ?s1"
    using crew_run_block [OF s0(1-3) refl 1(1)] unfolding 1(2) len s0(4) append_Nil .
  let ?w1 = "workers ?s1 ! 1" and ?m1 = "view True ?s1 (workers ?s1 ! 1)"
  have w1: "workers ?s1 ! 1 = worker_of ?P w ctx1" "length (workers ?s1) = 2" "shared_regs ?s1 = regs m1"
    by (simp_all add: put_view_def crew_of_def Let_def)
  have s1: "1 < length (workers ?s1)" "w_code (workers ?s1 ! 1) = open_block @ dup_block @ rest"
      "?e1 = w_place (workers ?s1 ! 1)" "made ?s1 = [c0]" using w1 by (simp_all add: worker_of_def body)
  have "room_left (1 + 1) ?m1" using 1(3) ctxs [of ctx1] w1
    by (simp add: room_left_def view_def worker_of_def counted_results_def)
  then obtain m2 c1 where 2: "exec_body K ?e1 open_block ?m1 = Inr m2" "log_of K 1 ?e1 open_block ?m1 = [c1]" "room_left 1 m2"
      "regs m2 = (regs ?m1)[0 := call_res c1]" "by_thread c1 = 1" "call_name c1 = NR_openat"
    using open_block_runs [where tid = 1 and e = ?e1 and k = 1 and m = ?m1, OF K _ zero_le_one] by auto
  let ?s2 = "(put_view True 1 (dup_block @ rest) m2 ?s1)\<lparr>made := [c0, c1]\<rparr>"
  have r2: "crew_run K True (replicate 4 1) ?s1 = Inr ?s2"
    using crew_run_block [OF s1(1-3) refl 2(1)] unfolding 2(2) len s1(4) by simp
  let ?m2 = "view True ?s2 (workers ?s2 ! 0)"
  have w2: "w_code (workers ?s2 ! 0) = dup_block @ rest" "w_place (workers ?s2 ! 0) = ?e0" "length (workers ?s2) = 2"
      "w_succeeded (workers ?s2 ! 0) = succeeded m1" "w_failed (workers ?s2 ! 0) = failed m1" "shared_regs ?s2 = regs m2"
    by (simp_all add: put_view_def crew_of_def worker_of_def Let_def)
  have s2: "0 < length (workers ?s2)" "w_code (workers ?s2 ! 0) = dup_block @ rest"
      "?e0 = w_place (workers ?s2 ! 0)" "made ?s2 = [c0, c1]" using w2 by simp_all
  have m2: "regs ?m2 ! 0 = call_res c1" using 2(3,4) w2 w1(3) 1(3) by (simp add: view_def room_left_def)
  have "room_left 1 ?m2" using 1(3) 2(3) w2 by (simp add: room_left_def view_def)
  then obtain m3 c2 c3 where 3: "exec_body K ?e0 dup_block ?m2 = Inr m3" "log_of K 0 ?e0 dup_block ?m2 = [c2, c3]"
      "by_thread c3 = 0" "call_name c3 = NR_close" "call_args c3 = [regs ?m2 ! 0]"
    using dup_block_runs [where tid = 0 and e = ?e0 and m = ?m2 and K = K] by auto
  let ?s3 = "(put_view True 0 rest m3 ?s2)\<lparr>made := [c0, c1, c2, c3]\<rparr>"
  have r3: "crew_run K True (replicate 4 0) ?s2 = Inr ?s3"
    using crew_run_block [OF s2(1-3) refl 3(1)] unfolding 3(2) len s2(4) by simp
  have "crew_run K True mixed_up ?s0 = Inr ?s3" unfolding mixed_up_def crew_run_append r1 bind_r.simps r2 r3 ..
  with fam 2(5,6) 3(3-5) m2 show ?thesis by (intro exI [of _ ?s3] exI [of _ c0] exI [of _ c1] exI [of _ c2] exI [of _ c3]) simp
qed

section \<open>Examples\<close>

definition demo_shared_world :: "nat syz_world" where
  "demo_shared_world = demo_world\<lparr>r_unique := replicate 10 (- 1)\<rparr>"

text \<open>A kernel that hands out the next number for what is opened or duplicated.\<close>

definition counting_os :: "nat sys_kernel" where
  "counting_os = demo_os\<lparr>os_syscall := \<lambda>name vs m k. if name \<in> {NR_openat, NR_dup} then (of_nat (k mod 1000), m, k + 1) else (0, m, k)\<rparr>"

lemma demo_crew:
  "list_all (\<lambda>ctx. ctx_ok min_mysql_close_dup_0_0 ctx demo_shared_world \<and> counted_results ctx + int 20 < 2 ^ 31) [demo_ctx, demo_ctx]"
  "shares_regs min_mysql_close_dup_0_0"
  by (simp_all add: ctx_ok_def load_regs_def fresh_regs_def counters_nonneg_def counted_results_def demo_ctx_def demo_shared_world_def
      shares_regs_def min_mysql_close_dup_0_0_def min_mysql_close_dup_0_0_regs_def)

theorem crew_never_faults_witness:
  "\<exists>s. crew_run counting_os True mixed_up (crew_of min_mysql_close_dup_0_0 demo_shared_world [demo_ctx, demo_ctx]) = Inr s \<and>
    w_succeeded (workers s ! 1) + w_failed (workers s ! 1) + int (counts (w_code (workers s ! 1))) = 20"
  using crew_never_faults [OF min_mysql_close_dup_0_0_ok(1), of demo_shared_world "[demo_ctx, demo_ctx]" counting_os mixed_up]
    demo_crew(1,2) by (auto simp: min_mysql_close_dup_0_0_ok(2) counted_results_def demo_ctx_ok(2,3))

text \<open>Two threads of a body that ends with a plain close, taking turns through all of it.\<close>

definition taking_turns :: "nat list" where
  "taking_turns = concat (replicate 60 [0, 1])"

lemma demo_private_crew:
  "list_all (\<lambda>ctx. ctx_ok min_rocks_fcntl_pread64_0_0 ctx demo_world \<and> counted_results ctx + int 20 < 2 ^ 31) [demo_ctx, demo_ctx]"
  "\<not> shares_regs min_rocks_fcntl_pread64_0_0"
  by (simp_all add: ctx_ok_def load_regs_def fresh_regs_def counters_nonneg_def counted_results_def demo_ctx_def
      shares_regs_def min_rocks_fcntl_pread64_0_0_def)

theorem private_threads_close_own_witness:
  "\<exists>s. crew_run demo_os False taking_turns (crew_of min_rocks_fcntl_pread64_0_0 demo_world [demo_ctx, demo_ctx]) = Inr s \<and>
    closes_own (\<lambda>tid. {- 1}) (made s)"
proof -
  let ?P = min_rocks_fcntl_pread64_0_0
  obtain s where s: "crew_run demo_os (shares_regs ?P) taking_turns (crew_of ?P demo_world [demo_ctx, demo_ctx]) = Inr s"
    using crew_runs [OF min_rocks_fcntl_pread64_0_0_ok(1), of demo_world "[demo_ctx, demo_ctx]" demo_os taking_turns]
      demo_private_crew(1) by (auto simp: min_rocks_fcntl_pread64_0_0_ok(2))
  have "closes_results False (body ?P)" by (simp add: min_rocks_fcntl_pread64_0_0_defs)
  moreover have "set (load_regs ?P c demo_world) = {- 1}" for c
    by (simp add: load_regs_def fresh_regs_def min_rocks_fcntl_pread64_0_0_def)
  ultimately show ?thesis using private_threads_close_own [OF demo_private_crew(2) _ s] s demo_private_crew(2) by auto
qed

theorem shared_threads_close_others_witness:
  "\<exists>s c0 c1 c2 c3. crew_run counting_os True mixed_up (crew_of min_mysql_close_dup_0_0 demo_shared_world [demo_ctx, demo_ctx]) = Inr s \<and>
    made s = [c0, c1, c2, c3] \<and> by_thread c1 = 1 \<and> by_thread c3 = 0 \<and> call_args c3 = [call_res c1]"
proof -
  have "fst (os_syscall counting_os NR_openat vs m k) \<noteq> - 1" for vs m k
  proof
    assume "fst (os_syscall counting_os NR_openat vs m k) = - 1"
    then have "(of_nat (k mod 1000) :: u64) = - 1" by (simp add: counting_os_def)
    then have "unat (of_nat (k mod 1000) :: u64) = unat (- 1 :: u64)" by simp
    moreover have "unat (of_nat (k mod 1000) :: u64) = k mod 1000" by (simp add: unsigned_of_nat take_bit_nat_eq_self_iff)
    moreover have "unat (- 1 :: u64) = 2 ^ 64 - 1" by (simp add: unsigned_minus_1_eq_mask mask_eq_exp_minus_1)
    moreover have "k mod 1000 < 1000" by simp
    ultimately show False by simp
  qed
  from shared_threads_close_others [OF this, of demo_shared_world demo_ctx demo_ctx] demo_crew(2) show ?thesis
    by (auto simp: demo_shared_world_def counted_results_def demo_ctx_ok(2,3))
qed

end
