(* ===== verification/CSB_RmDir.thy ===== *)
theory CSB_RmDir
  imports CSB_SyzTarget "HOL-Library.Sublist"
begin

text \<open>
  \<open>remove_tmp_dir\<close> of the generated targets (bench/targets/*/syz/min_*.h), which deletes a
  directory and all that is in it. The calls on directories are a record of the kernel; a
  call that delivers something returns \<open>None\<close> for the failure. The recursion and the loop over the
  entries share a bound on their nesting.
\<close>

definition EACCES :: int where "EACCES = 13"
definition FILENAME_MAX :: nat where "FILENAME_MAX = 4096"

text \<open>\<open>lstat\<close> answers whether the path is a directory.\<close>

record ('d, 'k) dir_kernel =
  os_opendir :: "string \<Rightarrow> 'k \<Rightarrow> 'd option \<times> 'k"
  os_readdir :: "'d \<Rightarrow> 'k \<Rightarrow> string option \<times> 'k"
  os_closedir :: "'d \<Rightarrow> 'k \<Rightarrow> 'k"
  os_lstat :: "string \<Rightarrow> 'k \<Rightarrow> bool option \<times> 'k"
  os_unlink :: "string \<Rightarrow> 'k \<Rightarrow> int \<times> 'k"
  os_rmdir :: "string \<Rightarrow> 'k \<Rightarrow> int \<times> 'k"
  os_errno :: "'k \<Rightarrow> int"

text \<open>\<open>snprintf\<close> cuts the path to the buffer.\<close>

definition entry_path :: "string \<Rightarrow> string \<Rightarrow> string" where
  "entry_path dir name = take (FILENAME_MAX - 1) (dir @ ''/'' @ name)"

fun remove_tmp_dir :: "('d, 'k) dir_kernel \<Rightarrow> nat \<Rightarrow> string \<Rightarrow> 'k \<Rightarrow> 'k result"
and remove_entries :: "('d, 'k) dir_kernel \<Rightarrow> nat \<Rightarrow> string \<Rightarrow> 'd \<Rightarrow> 'k \<Rightarrow> 'k result" where
  "remove_tmp_dir K 0 dir k = Inl Starved"
| "remove_tmp_dir K (Suc fuel) dir k =
     (case os_opendir K dir k of
        (None, k1) \<Rightarrow>
          if os_errno K k1 = EACCES then (let (r, k2) = os_rmdir K dir k1 in c_assert (r = 0) (Inr k2))
          else Inl Assert_failed
      | (Some dp, k1) \<Rightarrow> bind_r (remove_entries K fuel dir dp k1) (\<lambda>k2.
          let (r, k3) = os_rmdir K dir (os_closedir K dp k2) in c_assert (r = 0) (Inr k3)))"
| "remove_entries K 0 dir dp k = Inl Starved"
| "remove_entries K (Suc fuel) dir dp k =
     (case os_readdir K dp k of
        (None, k1) \<Rightarrow> Inr k1
      | (Some name, k1) \<Rightarrow>
          if name = ''.'' \<or> name = ''..'' then remove_entries K fuel dir dp k1
          else let filename = entry_path dir name in
            (case os_lstat K filename k1 of
               (None, k2) \<Rightarrow> Inl Assert_failed
             | (Some is_dir, k2) \<Rightarrow>
                 if is_dir then bind_r (remove_tmp_dir K fuel filename k2) (\<lambda>k3. remove_entries K fuel dir dp k3)
                 else let (r, k3) = os_unlink K filename k2 in c_assert (r = 0) (remove_entries K fuel dir dp k3)))"

text \<open>\<open>rm_tmpdir\<close> passes the directory that registration made; \<open>opendir\<close> of a null pointer is undefined.\<close>

definition rm_tmpdir :: "('d, 'k) dir_kernel \<Rightarrow> nat \<Rightarrow> syz_ctx \<Rightarrow> 'k \<Rightarrow> 'k result" where
  "rm_tmpdir K fuel ctx k = (case tmpdir ctx of None \<Rightarrow> Inl Undefined | Some dir \<Rightarrow> remove_tmp_dir K fuel dir k)"

section \<open>Directories\<close>

text \<open>
  What the process sees of the file system: a path is a directory (\<open>Some True\<close>), another file
  or absent. An open stream has its directory and the names that are still to come.
\<close>

type_synonym file_view = "string \<Rightarrow> bool option"
type_synonym 'd stream_view = "'d \<Rightarrow> (string \<times> string list) option"

abbreviation slash :: "string \<Rightarrow> string \<Rightarrow> string" where
  "slash p n \<equiv> p @ CHR ''/'' # n"

definition proper :: "string \<Rightarrow> bool" where
  "proper n \<longleftrightarrow> n \<noteq> '''' \<and> CHR ''/'' \<notin> set n \<and> n \<noteq> ''.'' \<and> n \<noteq> ''..''"

definition names_in :: "file_view \<Rightarrow> string \<Rightarrow> string set" where
  "names_in fs p = {n. proper n \<and> slash p n \<in> dom fs}"

definition below :: "string \<Rightarrow> string \<Rightarrow> bool" where
  "below p q \<longleftrightarrow> prefix (p @ ''/'') q"

definition branch :: "file_view \<Rightarrow> string \<Rightarrow> string set" where
  "branch fs p = {q \<in> dom fs. q = p \<or> below p q}"

text \<open>A directory whose entries have proper names, short enough paths, and directories above them.\<close>

definition tree :: "file_view \<Rightarrow> string \<Rightarrow> bool" where
  "tree fs p \<longleftrightarrow> finite (branch fs p) \<and> (\<forall>q \<in> branch fs p. length q < FILENAME_MAX) \<and>
     (\<forall>r \<in> branch fs p. \<forall>q \<in> branch fs p. below r q \<longrightarrow> fs r = Some True) \<and>
     (\<forall>q \<in> branch fs p. q \<noteq> p \<longrightarrow> (\<exists>r \<in> branch fs p. \<exists>n. proper n \<and> q = slash r n))"

text \<open>
  Removing a path may drop its name from the streams, and changes nothing else of them.
\<close>

definition pruned :: "string \<Rightarrow> 'd stream_view \<Rightarrow> 'd stream_view \<Rightarrow> bool" where
  "pruned p st st' \<longleftrightarrow> (\<forall>d. st' d = st d \<or>
     (\<exists>q ns. st d = Some (q, ns) \<and> st' d = Some (q, filter (\<lambda>n. slash q n \<noteq> p) ns)))"

text \<open>
  The manual pages of the calls, for a process that may read and write the directories: a stream
  delivers each name once, and \<open>.\<close> and \<open>..\<close> or not; an empty directory can be removed.
\<close>

definition opens :: "('d, 'k) dir_kernel \<Rightarrow> ('k \<Rightarrow> file_view) \<Rightarrow> ('k \<Rightarrow> 'd stream_view) \<Rightarrow> bool" where
  "opens K files stream \<longleftrightarrow>
     (\<forall>k p. files k p = Some True \<longrightarrow> (\<exists>d k' ns. os_opendir K p k = (Some d, k') \<and> files k' = files k \<and>
        stream k d = None \<and> stream k' = (stream k)(d \<mapsto> (p, ns)) \<and> distinct ns \<and>
        names_in (files k) p = set ns - {''.'', ''..''}))"

definition reads_to_end :: "('d, 'k) dir_kernel \<Rightarrow> ('k \<Rightarrow> file_view) \<Rightarrow> ('k \<Rightarrow> 'd stream_view) \<Rightarrow> bool" where
  "reads_to_end K files stream \<longleftrightarrow>
     (\<forall>k d p. stream k d = Some (p, []) \<longrightarrow>
        (\<exists>k'. os_readdir K d k = (None, k') \<and> files k' = files k \<and> stream k' = stream k))"

definition reads_next :: "('d, 'k) dir_kernel \<Rightarrow> ('k \<Rightarrow> file_view) \<Rightarrow> ('k \<Rightarrow> 'd stream_view) \<Rightarrow> bool" where
  "reads_next K files stream \<longleftrightarrow>
     (\<forall>k d p n ns. stream k d = Some (p, n # ns) \<longrightarrow>
        (\<exists>k'. os_readdir K d k = (Some n, k') \<and> files k' = files k \<and> stream k' = (stream k)(d \<mapsto> (p, ns))))"

definition closes :: "('d, 'k) dir_kernel \<Rightarrow> ('k \<Rightarrow> file_view) \<Rightarrow> ('k \<Rightarrow> 'd stream_view) \<Rightarrow> bool" where
  "closes K files stream \<longleftrightarrow>
     (\<forall>k d p ns. stream k d = Some (p, ns) \<longrightarrow>
        files (os_closedir K d k) = files k \<and> stream (os_closedir K d k) = (stream k)(d := None))"

definition examines :: "('d, 'k) dir_kernel \<Rightarrow> ('k \<Rightarrow> file_view) \<Rightarrow> ('k \<Rightarrow> 'd stream_view) \<Rightarrow> bool" where
  "examines K files stream \<longleftrightarrow>
     (\<forall>k p b. files k p = Some b \<longrightarrow> (\<exists>k'. os_lstat K p k = (Some b, k') \<and> files k' = files k \<and> stream k' = stream k))"

definition unlinks :: "('d, 'k) dir_kernel \<Rightarrow> ('k \<Rightarrow> file_view) \<Rightarrow> ('k \<Rightarrow> 'd stream_view) \<Rightarrow> bool" where
  "unlinks K files stream \<longleftrightarrow>
     (\<forall>k p. files k p = Some False \<longrightarrow>
        (\<exists>k'. os_unlink K p k = (0, k') \<and> files k' = (files k)(p := None) \<and> pruned p (stream k) (stream k')))"

definition removes_empty :: "('d, 'k) dir_kernel \<Rightarrow> ('k \<Rightarrow> file_view) \<Rightarrow> ('k \<Rightarrow> 'd stream_view) \<Rightarrow> bool" where
  "removes_empty K files stream \<longleftrightarrow>
     (\<forall>k p. files k p = Some True \<longrightarrow> names_in (files k) p = {} \<longrightarrow>
        (\<exists>k'. os_rmdir K p k = (0, k') \<and> files k' = (files k)(p := None) \<and> pruned p (stream k) (stream k')))"

definition lawful_dirs :: "('d, 'k) dir_kernel \<Rightarrow> ('k \<Rightarrow> file_view) \<Rightarrow> ('k \<Rightarrow> 'd stream_view) \<Rightarrow> bool" where
  "lawful_dirs K files stream \<longleftrightarrow>
     opens K files stream \<and> reads_to_end K files stream \<and> reads_next K files stream \<and> closes K files stream \<and>
     examines K files stream \<and> unlinks K files stream \<and> removes_empty K files stream"

section \<open>Branches\<close>

lemma below_iff: "below p q \<longleftrightarrow> (\<exists>t. q = slash p t)"
  by (auto simp: below_def prefix_def)

lemma below_trans: "below p q \<Longrightarrow> below q r \<Longrightarrow> below p r"
  by (auto simp: below_iff)

lemma below_slash [simp]: "below p (slash p n)"
  by (simp add: below_iff)

lemma not_below_self [simp]: "\<not> below p p"
  by (auto simp: below_iff)

lemma branch_trans: "q \<in> branch fs p \<Longrightarrow> x \<in> branch fs q \<Longrightarrow> x \<in> branch fs p"
  by (auto simp: branch_def intro: below_trans)

lemma branch_entry: "n \<in> names_in fs p \<Longrightarrow> slash p n \<in> branch fs (slash p n)" "n \<in> names_in fs p \<Longrightarrow> slash p n \<in> branch fs p"
  by (auto simp: branch_def names_in_def)

lemma branch_below: "x \<in> branch fs (slash p n) \<Longrightarrow> x \<in> branch fs p \<and> x \<noteq> p"
  using below_trans [of p "slash p n" x] by (auto simp: branch_def)

lemma parent_below:
  assumes "below (slash p n) (slash r m)" "CHR ''/'' \<notin> set m"
  shows "r = slash p n \<or> below (slash p n) r"
proof -
  from assms(1) obtain t where t: "(p @ CHR ''/'' # n) @ CHR ''/'' # t = r @ CHR ''/'' # m" by (auto simp: below_iff)
  define q where "q = p @ CHR ''/'' # n"
  with t obtain us where "q = r @ us \<and> us @ CHR ''/'' # t = CHR ''/'' # m \<or> q @ us = r \<and> CHR ''/'' # t = us @ CHR ''/'' # m"
    by (auto simp only: append_eq_append_conv2)
  then have "r = q \<or> below q r" using assms(2) by (cases us) (auto simp: below_iff)
  then show ?thesis by (simp add: q_def)
qed

lemma branch_split:
  assumes "tree fs p" "x \<in> branch fs p" "x \<noteq> p"
  shows "\<exists>n \<in> names_in fs p. x \<in> branch fs (slash p n)"
  using assms(2,3)
proof (induction "length x" arbitrary: x rule: less_induct)
  case less
  then obtain r n where r: "r \<in> branch fs p" "proper n" "x = slash r n" using assms(1) by (fastforce simp: tree_def)
  show ?case
  proof (cases "r = p")
    case True
    then have "n \<in> names_in fs p" "x \<in> branch fs (slash p n)" using r less.prems by (auto simp: names_in_def branch_def)
    then show ?thesis by blast
  next
    case False
    with less.hyps [of r] r obtain m where m: "m \<in> names_in fs p" "r \<in> branch fs (slash p m)" by auto
    have "x \<in> branch fs r" using less.prems r(3) by (auto simp: branch_def)
    with m show ?thesis using branch_trans by blast
  qed
qed

lemma slash_tail: "n @ CHR ''/'' # xs = m @ CHR ''/'' # ys \<Longrightarrow> CHR ''/'' \<notin> set n \<Longrightarrow> CHR ''/'' \<notin> set m \<Longrightarrow> n = m"
  by (induction n arbitrary: m) (case_tac m; auto)+

lemma branch_disjoint:
  assumes "CHR ''/'' \<notin> set n" "CHR ''/'' \<notin> set m" "x \<in> branch fs (slash p n)" "x \<in> branch fs (slash p m)"
  shows "n = m"
proof -
  have tail: "\<exists>xs. x @ [CHR ''/''] = slash p k @ CHR ''/'' # xs" if "x \<in> branch fs (slash p k)" for k
    using that by (auto simp: branch_def below_iff)
  from tail [OF assms(3)] tail [OF assms(4)]
  have "\<exists>xs ys. n @ CHR ''/'' # xs = m @ CHR ''/'' # ys" by auto metis
  then show ?thesis using assms(1,2) slash_tail by blast
qed

lemma tree_entry:
  assumes "tree fs p" "n \<in> names_in fs p"
  shows "tree fs (slash p n)"
proof -
  have sub: "branch fs (slash p n) \<subseteq> branch fs p" using branch_below by blast
  have "\<exists>r \<in> branch fs (slash p n). \<exists>m. proper m \<and> q = slash r m"
    if q: "q \<in> branch fs (slash p n)" "q \<noteq> slash p n" for q
  proof -
    have "q \<in> branch fs p" "q \<noteq> p" using branch_below [OF q(1)] by auto
    then obtain r m where r: "r \<in> branch fs p" "proper m" "q = slash r m" using assms(1) by (auto simp: tree_def)
    then have "r = slash p n \<or> below (slash p n) r"
      using q parent_below [of p n r m] by (auto simp: branch_def proper_def)
    with r show ?thesis by (auto simp: branch_def)
  qed
  moreover have "finite (branch fs (slash p n))" using assms(1) sub finite_subset by (auto simp: tree_def)
  ultimately show ?thesis using assms(1) sub by (simp add: tree_def) blast
qed

text \<open>Removing the branch of an entry.\<close>

lemma branch_drop: "branch (fs |` (- branch fs q)) p = branch fs p - branch fs q"
  unfolding branch_def [of _ p] by (auto simp: restrict_map_def split: if_splits)

lemma names_drop:
  assumes "n \<in> names_in fs p"
  shows "names_in (fs |` (- branch fs (slash p n))) p = names_in fs p - {n}"
proof -
  have "slash p m \<in> branch fs (slash p n) \<longleftrightarrow> m = n" if "m \<in> names_in fs p" for m
    using branch_disjoint [of m n "slash p m" fs p] branch_entry [OF that] branch_entry [OF assms] that assms
    by (auto simp: names_in_def proper_def)
  then show ?thesis by (auto simp: names_in_def dom_def restrict_map_def)
qed

lemma tree_drop:
  assumes "tree fs p" "n \<in> names_in fs p"
  shows "tree (fs |` (- branch fs (slash p n))) p"
proof -
  let ?b = "branch fs (slash p n)"
  have "\<exists>r \<in> branch fs p - ?b. \<exists>m. proper m \<and> q = slash r m" if q: "q \<in> branch fs p - ?b" "q \<noteq> p" for q
  proof -
    from q assms(1) obtain r m where r: "r \<in> branch fs p" "proper m" "q = slash r m" by (auto simp: tree_def)
    have "q \<in> branch fs r" using q r(3) by (auto simp: branch_def)
    then have "r \<notin> ?b" using q branch_trans [of r fs "slash p n" q] by blast
    with r show ?thesis by blast
  qed
  moreover have "fs r = Some True" if "r \<in> branch fs p - ?b" "q \<in> branch fs p - ?b" "below r q" for r q
    using that assms(1) by (auto simp: tree_def)
  moreover have "finite (branch fs p - ?b)" "\<forall>q \<in> branch fs p - ?b. length q < FILENAME_MAX" using assms(1) by (auto simp: tree_def)
  ultimately show ?thesis by (simp add: tree_def branch_drop)
qed

lemma file_branch:
  assumes "tree fs p" "n \<in> names_in fs p" "fs (slash p n) = Some False"
  shows "branch fs (slash p n) = {slash p n}"
proof -
  have "x = slash p n" if x: "x \<in> branch fs (slash p n)" for x
  proof (rule ccontr)
    assume "x \<noteq> slash p n"
    then have "below (slash p n) x" using x by (simp add: branch_def)
    moreover have "x \<in> branch fs p" using branch_below [OF x] by simp
    ultimately have "fs (slash p n) = Some True" using assms(1) branch_entry(2) [OF assms(2)] by (auto simp: tree_def)
    then show False using assms(3) by simp
  qed
  then show ?thesis using branch_entry(1) [OF assms(2)] by blast
qed

lemma empty_branch: "tree fs p \<Longrightarrow> names_in fs p = {} \<Longrightarrow> branch fs p \<subseteq> {p}"
  using branch_split by blast

section \<open>The removal\<close>

text \<open>Streams with nothing to come from a set of paths are left alone.\<close>

definition kept :: "string set \<Rightarrow> 'd stream_view \<Rightarrow> 'd stream_view \<Rightarrow> bool" where
  "kept B st st' \<longleftrightarrow> (\<forall>d q ns. st d = Some (q, ns) \<longrightarrow> (\<forall>n \<in> set ns. slash q n \<notin> B) \<longrightarrow> st' d = Some (q, ns))"

lemma kept_pruned: "pruned p st st' \<Longrightarrow> p \<in> B \<Longrightarrow> kept B st st'"
proof -
  assume p: "pruned p st st'" "p \<in> B"
  have "st' d = Some (q, ns)" if d: "st d = Some (q, ns)" "\<forall>n \<in> set ns. slash q n \<notin> B" for d q ns
  proof -
    have "filter (\<lambda>n. slash q n \<noteq> p) ns = ns" using d(2) p(2) by (auto simp: filter_id_conv)
    then show ?thesis using p(1) [unfolded pruned_def, rule_format, of d] d(1) by auto
  qed
  then show ?thesis by (simp add: kept_def)
qed

lemma kept_trans: "kept B st st' \<Longrightarrow> kept B st' st'' \<Longrightarrow> kept B st st''"
  by (simp add: kept_def)

lemma kept_mono: "kept B st st' \<Longrightarrow> B \<subseteq> B' \<Longrightarrow> kept B' st st'"
  by (fastforce simp: kept_def)

lemma kept_closed: "kept B st st' \<Longrightarrow> kept B (st(d := None)) (st'(d := None))"
  by (simp add: kept_def)

definition dots :: "string \<Rightarrow> bool" where
  "dots n \<longleftrightarrow> n = ''.'' \<or> n = ''..''"

definition dir_removed :: "('d, 'k) dir_kernel \<Rightarrow> ('k \<Rightarrow> file_view) \<Rightarrow> ('k \<Rightarrow> 'd stream_view) \<Rightarrow> nat \<Rightarrow> bool" where
  "dir_removed K files stream fuel \<longleftrightarrow> (\<forall>p k. tree (files k) p \<longrightarrow> files k p = Some True \<longrightarrow>
     4 * card (branch (files k) p) \<le> fuel \<longrightarrow>
     (\<exists>k'. remove_tmp_dir K fuel p k = Inr k' \<and> files k' = files k |` (- branch (files k) p) \<and>
       kept (branch (files k) p) (stream k) (stream k')))"

definition entries_removed :: "('d, 'k) dir_kernel \<Rightarrow> ('k \<Rightarrow> file_view) \<Rightarrow> ('k \<Rightarrow> 'd stream_view) \<Rightarrow> nat \<Rightarrow> bool" where
  "entries_removed K files stream fuel \<longleftrightarrow> (\<forall>p d ns k. tree (files k) p \<longrightarrow> files k p = Some True \<longrightarrow>
     stream k d = Some (p, ns) \<longrightarrow> distinct ns \<longrightarrow> names_in (files k) p = {n \<in> set ns. \<not> dots n} \<longrightarrow>
     length (filter dots ns) + 4 * card (branch (files k) p - {p}) < fuel \<longrightarrow>
     (\<exists>k'. remove_entries K fuel p d k = Inr k' \<and> files k' = files k |` (- (branch (files k) p - {p})) \<and>
       stream k' d = Some (p, []) \<and> kept (branch (files k) p - {p}) ((stream k)(d := None)) ((stream k')(d := None))))"

lemma few_dots: "distinct ns \<Longrightarrow> length (filter dots ns) \<le> 2"
proof -
  assume "distinct ns"
  then have "length (filter dots ns) = card (set (filter dots ns))" by (intro distinct_card [symmetric] distinct_filter)
  also have "\<dots> \<le> card {''.'', ''..''}" by (rule card_mono) (auto simp: dots_def)
  finally show ?thesis by simp
qed

text \<open>One round of the loop, once the entry is gone.\<close>

lemma after_entry:
  assumes IH: "entries_removed K files stream fuel"
    and tr: "tree (files k) p" "files k p = Some True" and st: "stream k d = Some (p, ns)" "distinct (n # ns)"
    and n: "\<not> dots n" "names_in (files k) p = {m \<in> set (n # ns). \<not> dots m}"
    and fuel: "length (filter dots ns) + 4 * card (branch (files k) p - {p}) < Suc fuel"
    and k3: "files k3 = files k |` (- branch (files k) (slash p n))"
      "kept (branch (files k) (slash p n)) (stream k) (stream k3)"
  shows "\<exists>k'. remove_entries K fuel p d k3 = Inr k' \<and> files k' = files k |` (- (branch (files k) p - {p})) \<and>
    stream k' d = Some (p, []) \<and> kept (branch (files k) p - {p}) ((stream k)(d := None)) ((stream k')(d := None))"
proof -
  let ?B = "branch (files k) p" and ?b = "branch (files k) (slash p n)"
  have nn: "n \<in> names_in (files k) p" using n by simp
  have noslash: "CHR ''/'' \<notin> set m" if "m \<in> set (n # ns)" for m
  proof -
    have "dots m \<or> m \<in> names_in (files k) p" using that n(2) by blast
    then show ?thesis by (auto simp: dots_def names_in_def proper_def)
  qed
  have "slash p m \<notin> ?b" if "m \<in> set ns" for m
    using branch_disjoint [of m n "slash p m" "files k" p] noslash that st(2) by (auto simp: branch_def)
  then have s3: "stream k3 d = Some (p, ns)" using k3(2) st(1) by (auto simp: kept_def)
  have sub: "?b \<subseteq> ?B - {p}" using branch_below by blast
  have p: "p \<notin> ?b" using sub by blast
  have B3: "branch (files k3) p = ?B - ?b" by (simp add: k3(1) branch_drop)
  have fin: "finite ?B" using tr(1) by (simp add: tree_def)
  have "0 < card ?b" using branch_entry(1) [OF nn] sub fin finite_subset [of ?b ?B] by (auto simp: card_gt_0_iff)
  moreover have "card (?B - {p} - ?b) = card (?B - {p}) - card ?b" "card ?b \<le> card (?B - {p})"
    using sub fin by (auto intro: card_Diff_subset card_mono finite_subset)
  moreover have eq: "branch (files k3) p - {p} = ?B - {p} - ?b" using B3 by blast
  ultimately have "length (filter dots ns) + 4 * card (branch (files k3) p - {p}) < fuel" using fuel by simp
  moreover have "tree (files k3) p" "names_in (files k3) p = {m \<in> set ns. \<not> dots m}"
    using tree_drop [OF tr(1) nn] names_drop [OF nn] n st(2) by (auto simp: k3(1))
  moreover have "files k3 p = Some True" using tr(2) p by (simp add: k3(1))
  moreover have "distinct ns" using st(2) by simp
  ultimately obtain k' where k': "remove_entries K fuel p d k3 = Inr k'" "files k' = files k3 |` (- (branch (files k3) p - {p}))"
    "stream k' d = Some (p, [])" "kept (branch (files k3) p - {p}) ((stream k3)(d := None)) ((stream k')(d := None))"
    using IH [unfolded entries_removed_def, rule_format, of k3 p d ns] s3 by blast
  have "files k' = files k3 |` (- (?B - {p} - ?b))" using k'(2) by (simp only: eq)
  also have "\<dots> = files k |` (- ?b \<inter> - (?B - {p} - ?b))" by (simp only: k3(1) restrict_restrict)
  also have "- ?b \<inter> - (?B - {p} - ?b) = - (?B - {p})" using sub by blast
  finally have "files k' = files k |` (- (?B - {p}))" .
  moreover have "kept (?B - {p}) ((stream k)(d := None)) ((stream k')(d := None))"
    using kept_trans [OF kept_mono [OF kept_closed [OF k3(2), of d] sub] kept_mono [OF k'(4)]] eq by auto
  ultimately show ?thesis using k' by blast
qed

lemma lawful:
  assumes "lawful_dirs K files stream"
  shows opendir_law: "files k p = Some True \<Longrightarrow> \<exists>d k' ns. os_opendir K p k = (Some d, k') \<and> files k' = files k \<and>
      stream k d = None \<and> stream k' = (stream k)(d \<mapsto> (p, ns)) \<and> distinct ns \<and> names_in (files k) p = set ns - {''.'', ''..''}"
    and readdir_end: "stream k d = Some (p, []) \<Longrightarrow> \<exists>k'. os_readdir K d k = (None, k') \<and> files k' = files k \<and> stream k' = stream k"
    and readdir_next: "stream k d = Some (p, n # ns) \<Longrightarrow>
      \<exists>k'. os_readdir K d k = (Some n, k') \<and> files k' = files k \<and> stream k' = (stream k)(d \<mapsto> (p, ns))"
    and closedir_law: "stream k d = Some (p, ns) \<Longrightarrow>
      files (os_closedir K d k) = files k \<and> stream (os_closedir K d k) = (stream k)(d := None)"
    and lstat_law: "files k p = Some b \<Longrightarrow> \<exists>k'. os_lstat K p k = (Some b, k') \<and> files k' = files k \<and> stream k' = stream k"
    and unlink_law: "files k p = Some False \<Longrightarrow>
      \<exists>k'. os_unlink K p k = (0, k') \<and> files k' = (files k)(p := None) \<and> pruned p (stream k) (stream k')"
    and rmdir_law: "files k p = Some True \<Longrightarrow> names_in (files k) p = {} \<Longrightarrow>
      \<exists>k'. os_rmdir K p k = (0, k') \<and> files k' = (files k)(p := None) \<and> pruned p (stream k) (stream k')"
  using assms by (simp_all add: lawful_dirs_def opens_def reads_to_end_def reads_next_def closes_def examines_def unlinks_def removes_empty_def)

lemma entries_round:
  assumes L: "lawful_dirs K files stream" and dir: "dir_removed K files stream fuel" and IH: "entries_removed K files stream fuel"
    and tr: "tree (files k) p" "files k p = Some True" and st: "stream k d = Some (p, n # ns)" "distinct (n # ns)"
    and n: "\<not> dots n" "names_in (files k) p = {m \<in> set (n # ns). \<not> dots m}"
    and fuel: "length (filter dots (n # ns)) + 4 * card (branch (files k) p - {p}) < Suc fuel"
  shows "\<exists>k'. remove_entries K (Suc fuel) p d k = Inr k' \<and> files k' = files k |` (- (branch (files k) p - {p})) \<and>
    stream k' d = Some (p, []) \<and> kept (branch (files k) p - {p}) ((stream k)(d := None)) ((stream k')(d := None))"
proof -
  let ?q = "slash p n"
  have nn: "n \<in> names_in (files k) p" using n by simp
  have q: "entry_path p n = ?q"
    using tr(1) branch_entry(2) [OF nn] by (auto simp: entry_path_def tree_def FILENAME_MAX_def)
  obtain k1 where k1: "os_readdir K d k = (Some n, k1)" "files k1 = files k" "stream k1 = (stream k)(d \<mapsto> (p, ns))"
    using readdir_next [OF L st(1)] by blast
  obtain b where b: "files k1 ?q = Some b" using nn k1(2) by (auto simp: names_in_def)
  obtain k2 where k2: "os_lstat K ?q k1 = (Some b, k2)" "files k2 = files k" "stream k2 = (stream k)(d \<mapsto> (p, ns))"
    using lstat_law [OF L b] k1(2,3) by auto
  have rest: "\<exists>k'. remove_entries K fuel p d k3 = Inr k' \<and> files k' = files k |` (- (branch (files k) p - {p})) \<and>
      stream k' d = Some (p, []) \<and> kept (branch (files k) p - {p}) ((stream k)(d := None)) ((stream k')(d := None))"
    if "files k3 = files k |` (- branch (files k) ?q)" "kept (branch (files k) ?q) (stream k2) (stream k3)" for k3
    using after_entry [OF IH, of k2 p d ns n k3] tr st n fuel k2 that by simp
  have step: "remove_entries K (Suc fuel) p d k =
      (if b then bind_r (remove_tmp_dir K fuel ?q k2) (\<lambda>k3. remove_entries K fuel p d k3)
       else let (r, k3) = os_unlink K ?q k2 in c_assert (r = 0) (remove_entries K fuel p d k3))"
    using n(1) by (simp add: k1(1) q k2(1) dots_def)
  show ?thesis
  proof (cases b)
    case True
    have "branch (files k) ?q \<subseteq> branch (files k) p - {p}" "finite (branch (files k) p)"
      using branch_below tr(1) by (auto simp: tree_def)
    then have "card (branch (files k) ?q) \<le> card (branch (files k) p - {p})" by (simp add: card_mono)
    then have "4 * card (branch (files k) ?q) \<le> fuel" using fuel by simp
    moreover have "files k2 ?q = Some True" using b True k1(2) k2(2) by simp
    ultimately obtain k3 where "remove_tmp_dir K fuel ?q k2 = Inr k3" "files k3 = files k |` (- branch (files k) ?q)"
      "kept (branch (files k) ?q) (stream k2) (stream k3)"
      using dir [unfolded dir_removed_def, rule_format, of k2 ?q] tree_entry [OF tr(1) nn] k2(2) by auto
    with rest step True show ?thesis by simp
  next
    case False
    then have f: "files k2 ?q = Some False" using b k1(2) k2(2) by simp
    then have br: "branch (files k) ?q = {?q}" using file_branch [OF tr(1) nn] k2(2) by simp
    obtain k3 where k3: "os_unlink K ?q k2 = (0, k3)" "files k3 = (files k)(?q := None)" "pruned ?q (stream k2) (stream k3)"
      using unlink_law [OF L f] k2(2) by auto
    have "files k3 = files k |` (- branch (files k) ?q)" by (simp add: k3(2) br restrict_complement_singleton_eq)
    then show ?thesis using rest [of k3] kept_pruned [OF k3(3)] step False k3(1) br by simp
  qed
qed

lemma entries_step:
  assumes L: "lawful_dirs K files stream" and dir: "dir_removed K files stream fuel" and IH: "entries_removed K files stream fuel"
  shows "entries_removed K files stream (Suc fuel)"
  unfolding entries_removed_def
proof (intro allI impI)
  fix p d ns k
  assume tr: "tree (files k) p" "files k p = Some True" and st: "stream k d = Some (p, ns)" "distinct ns"
    and n: "names_in (files k) p = {n \<in> set ns. \<not> dots n}"
    and fuel: "length (filter dots ns) + 4 * card (branch (files k) p - {p}) < Suc fuel"
  show "\<exists>k'. remove_entries K (Suc fuel) p d k = Inr k' \<and> files k' = files k |` (- (branch (files k) p - {p})) \<and>
    stream k' d = Some (p, []) \<and> kept (branch (files k) p - {p}) ((stream k)(d := None)) ((stream k')(d := None))"
  proof (cases ns)
    case Nil
    then obtain k' where "os_readdir K d k = (None, k')" "files k' = files k" "stream k' = stream k"
      using readdir_end [OF L] st(1) by blast
    moreover have none: "branch (files k) p - {p} = {}" using empty_branch [OF tr(1)] n Nil by auto
    have "files k |` (- (branch (files k) p - {p})) = files k" unfolding none by (simp add: restrict_map_def)
    ultimately show ?thesis using st(1) Nil by (auto simp: kept_def)
  next
    case (Cons m ms)
    show ?thesis
    proof (cases "dots m")
      case True
      obtain k1 where k1: "os_readdir K d k = (Some m, k1)" "files k1 = files k" "stream k1 = (stream k)(d \<mapsto> (p, ms))"
        using readdir_next [OF L] st(1) Cons by blast
      have "{n \<in> set ns. \<not> dots n} = {n \<in> set ms. \<not> dots n}" using Cons True by auto
      then have "\<exists>k'. remove_entries K fuel p d k1 = Inr k' \<and> files k' = files k1 |` (- (branch (files k1) p - {p})) \<and>
          stream k' d = Some (p, []) \<and> kept (branch (files k1) p - {p}) ((stream k1)(d := None)) ((stream k')(d := None))"
        using IH [unfolded entries_removed_def, rule_format, of k1 p d ms] tr st n fuel k1(2,3) Cons True by simp
      then show ?thesis using k1 True by (auto simp: dots_def)
    next
      case False
      then show ?thesis using entries_round [OF L dir IH tr, of d m ms] st n fuel Cons by blast
    qed
  qed
qed

lemma dir_step:
  assumes L: "lawful_dirs K files stream" and IH: "entries_removed K files stream fuel"
  shows "dir_removed K files stream (Suc fuel)"
  unfolding dir_removed_def
proof (intro allI impI)
  fix p k
  let ?B = "branch (files k) p"
  assume tr: "tree (files k) p" "files k p = Some True" and fuel: "4 * card ?B \<le> Suc fuel"
  obtain d k1 ns where k1: "os_opendir K p k = (Some d, k1)" "files k1 = files k" "stream k d = None"
    "stream k1 = (stream k)(d \<mapsto> (p, ns))" "distinct ns" "names_in (files k) p = set ns - {''.'', ''..''}"
    using opendir_law [OF L tr(2)] by blast
  have p: "p \<in> ?B" "finite ?B" using tr by (auto simp: branch_def tree_def)
  then have "card (?B - {p}) = card ?B - 1" "0 < card ?B" by (auto simp: card_gt_0_iff)
  then have "length (filter dots ns) + 4 * card (?B - {p}) < fuel" using few_dots [OF k1(5)] fuel by linarith
  moreover have "names_in (files k) p = {n \<in> set ns. \<not> dots n}" using k1(6) by (auto simp: dots_def)
  ultimately obtain k2 where k2: "remove_entries K fuel p d k1 = Inr k2" "files k2 = files k |` (- (?B - {p}))"
    "stream k2 d = Some (p, [])" "kept (?B - {p}) ((stream k1)(d := None)) ((stream k2)(d := None))"
    using IH [unfolded entries_removed_def, rule_format, of k1 p d ns] tr k1(2,4,5) by auto
  define k3 where "k3 = os_closedir K d k2"
  have k3: "files k3 = files k2" "stream k3 = (stream k2)(d := None)"
    using closedir_law [OF L k2(3)] by (simp_all add: k3_def)
  have "names_in (files k3) p = {}" by (auto simp: k3(1) k2(2) names_in_def branch_def restrict_map_def split: if_splits)
  moreover have "files k3 p = Some True" using tr(2) by (simp add: k3(1) k2(2))
  ultimately obtain k4 where k4: "os_rmdir K p k3 = (0, k4)" "files k4 = (files k3)(p := None)" "pruned p (stream k3) (stream k4)"
    using rmdir_law [OF L] by blast
  have "files k4 = files k |` (- ?B)"
    using p(1) by (auto simp: k4(2) k3(1) k2(2) restrict_map_def fun_eq_iff)
  moreover have "kept ?B (stream k) (stream k4)"
  proof -
    have "(stream k1)(d := None) = stream k" using k1(3,4) by (auto simp: fun_eq_iff)
    then have "kept ?B (stream k) (stream k3)" using kept_mono [OF k2(4)] k3(2) by auto
    then show ?thesis using kept_trans kept_pruned [OF k4(3) p(1)] by blast
  qed
  moreover have "remove_tmp_dir K (Suc fuel) p k = Inr k4" by (simp add: k1(1) k2(1) k4(1) flip: k3_def)
  ultimately show "\<exists>k'. remove_tmp_dir K (Suc fuel) p k = Inr k' \<and> files k' = files k |` (- ?B) \<and> kept ?B (stream k) (stream k')"
    by blast
qed

lemma all_removed:
  assumes "lawful_dirs K files stream"
  shows "dir_removed K files stream fuel \<and> entries_removed K files stream fuel"
proof (induction fuel)
  case 0
  have "branch (files k) p \<noteq> {}" if "files k p = Some True" for k p using that by (auto simp: branch_def)
  then show ?case by (auto simp: dir_removed_def entries_removed_def tree_def)
next
  case (Suc fuel)
  then show ?case using entries_step [OF assms] dir_step [OF assms] by blast
qed

section \<open>A disk\<close>

text \<open>A kernel that keeps the paths in a list and the streams in a table.\<close>

record disk =
  paths :: "(string \<times> bool) list"
  streams :: "nat \<Rightarrow> (string \<times> string list) option"
  next_stream :: nat

definition disk_view :: "disk \<Rightarrow> file_view" where
  "disk_view k = map_of (paths k)"

definition disk_streams :: "disk \<Rightarrow> nat stream_view" where
  "disk_streams k d = (if d < next_stream k then streams k d else None)"

definition disk_names :: "disk \<Rightarrow> string \<Rightarrow> string list" where
  "disk_names k p = remdups (filter proper (map (\<lambda>q. drop (Suc (length p)) q)
     (filter (\<lambda>q. prefix (p @ ''/'') q) (map fst (paths k)))))"

definition drop_path :: "string \<Rightarrow> disk \<Rightarrow> disk" where
  "drop_path p k = k\<lparr>paths := filter (\<lambda>x. fst x \<noteq> p) (paths k)\<rparr>"

definition disk_kernel :: "(nat, disk) dir_kernel" where
  "disk_kernel = \<lparr>
     os_opendir = (\<lambda>p k. if disk_view k p = Some True
       then (Some (next_stream k), k\<lparr>streams := (streams k)(next_stream k \<mapsto> (p, ''.'' # ''..'' # disk_names k p)),
         next_stream := Suc (next_stream k)\<rparr>) else (None, k)),
     os_readdir = (\<lambda>d k. case streams k d of Some (p, n # ns) \<Rightarrow> (Some n, k\<lparr>streams := (streams k)(d \<mapsto> (p, ns))\<rparr>)
       | _ \<Rightarrow> (None, k)),
     os_closedir = (\<lambda>d k. k\<lparr>streams := (streams k)(d := None)\<rparr>),
     os_lstat = (\<lambda>p k. (disk_view k p, k)),
     os_unlink = (\<lambda>p k. if disk_view k p = Some False then (0, drop_path p k) else (- 1, k)),
     os_rmdir = (\<lambda>p k. if disk_view k p = Some True \<and> disk_names k p = [] then (0, drop_path p k) else (- 1, k)),
     os_errno = (\<lambda>k. 2)\<rparr>"

lemma disk_names_set: "set (disk_names k p) = names_in (disk_view k) p"
proof -
  have "n \<in> set (disk_names k p) \<longleftrightarrow> proper n \<and> (\<exists>q \<in> fst ` set (paths k). below p q \<and> n = drop (Suc (length p)) q)" for n
    by (auto simp: disk_names_def below_def)
  also have "\<dots> n \<longleftrightarrow> n \<in> names_in (disk_view k) p" for n
    by (force simp: names_in_def disk_view_def dom_map_of_conv_image_fst below_iff)
  finally show ?thesis by blast
qed

lemma disk_drop: "disk_view (drop_path p k) = (disk_view k)(p := None)"
proof -
  have "map_of (filter (\<lambda>x. fst x \<noteq> p) xs) = (map_of xs)(p := None)" for xs :: "(string \<times> bool) list"
    by (induction xs) (auto simp: fun_eq_iff)
  then show ?thesis by (simp add: disk_view_def drop_path_def)
qed

lemma disk_unchanged [simp]:
  "disk_view (k\<lparr>streams := st\<rparr>) = disk_view k" "disk_view (k\<lparr>streams := st, next_stream := n\<rparr>) = disk_view k"
  "disk_streams (drop_path p k) = disk_streams k"
  by (simp_all add: disk_view_def disk_streams_def drop_path_def fun_eq_iff)

lemma disk_lawful: "lawful_dirs disk_kernel disk_view disk_streams"
proof -
  have "opens disk_kernel disk_view disk_streams"
    unfolding opens_def
  proof (intro allI impI)
    fix k p assume p: "disk_view k p = Some True"
    let ?d = "next_stream k" and ?ns = "''.'' # ''..'' # disk_names k p"
    let ?k = "k\<lparr>streams := (streams k)(?d \<mapsto> (p, ?ns)), next_stream := Suc ?d\<rparr>"
    have "proper n" if "n \<in> set (disk_names k p)" for n using that by (simp add: disk_names_def)
    then have n: "''.'' \<notin> set (disk_names k p)" "''..'' \<notin> set (disk_names k p)" by (auto simp: proper_def)
    then have "distinct ?ns" by (simp add: disk_names_def)
    moreover have "names_in (disk_view k) p = set ?ns - {''.'', ''..''}" using n by (auto simp: disk_names_set [symmetric])
    moreover have "disk_streams ?k = (disk_streams k)(?d \<mapsto> (p, ?ns))" by (auto simp: disk_streams_def fun_eq_iff)
    moreover have "os_opendir disk_kernel p k = (Some ?d, ?k)" by (simp add: disk_kernel_def p)
    ultimately show "\<exists>d k' ns. os_opendir disk_kernel p k = (Some d, k') \<and> disk_view k' = disk_view k \<and> disk_streams k d = None \<and>
        disk_streams k' = (disk_streams k)(d \<mapsto> (p, ns)) \<and> distinct ns \<and> names_in (disk_view k) p = set ns - {''.'', ''..''}"
      by (intro exI [of _ ?d] exI [of _ ?k] exI [of _ ?ns]) (simp add: disk_streams_def)
  qed
  moreover have "reads_to_end disk_kernel disk_view disk_streams"
    by (auto simp: reads_to_end_def disk_kernel_def disk_streams_def split: if_splits)
  moreover have "reads_next disk_kernel disk_view disk_streams"
    by (auto simp: reads_next_def disk_kernel_def disk_streams_def fun_eq_iff split: if_splits)
  moreover have "closes disk_kernel disk_view disk_streams" "examines disk_kernel disk_view disk_streams"
    by (auto simp: closes_def examines_def disk_kernel_def disk_streams_def fun_eq_iff split: if_splits)
  moreover have "unlinks disk_kernel disk_view disk_streams"
    by (simp add: unlinks_def disk_kernel_def disk_drop pruned_def)
  moreover have "removes_empty disk_kernel disk_view disk_streams"
    by (auto simp: removes_empty_def disk_kernel_def disk_drop pruned_def simp flip: disk_names_set)
  ultimately show ?thesis by (simp add: lawful_dirs_def)
qed

section \<open>Properties\<close>

text \<open>
  C24. On a file system that behaves as the manual pages say, \<open>remove_tmp_dir\<close> terminates without
  a failing assertion, removes the directory with all that is in it and nothing else: its
  recursion and its loops nest at most four times as deep as the number of the paths removed.
\<close>

theorem remove_tmp_dir_removes:
  assumes "lawful_dirs K files stream" and "tree (files k) dir" and "files k dir = Some True"
    and "4 * card (branch (files k) dir) \<le> fuel"
  shows "\<exists>k'. remove_tmp_dir K fuel dir k = Inr k' \<and> files k' = files k |` (- branch (files k) dir)"
  using all_removed [OF assms(1), of fuel] assms(2-4) unfolding dir_removed_def by blast

definition demo_disk :: disk where
  "demo_disk = \<lparr>paths = [(''t'', True), (''t/a'', False), (''t/d'', True), (''t/d/b'', False), (''tx'', False)],
     streams = Map.empty, next_stream = 0\<rparr>"

lemma demo_branch: "branch (disk_view demo_disk) ''t'' = {''t'', ''t/a'', ''t/d'', ''t/d/b''}"
  by (auto simp: branch_def disk_view_def demo_disk_def below_def split: if_splits)

lemma demo_tree: "tree (disk_view demo_disk) ''t''"
proof -
  let ?B = "{''t'', ''t/a'', ''t/d'', ''t/d/b''}"
  have parent: "\<exists>r \<in> ?B. \<exists>n. proper n \<and> q = slash r n" if "proper n" "r \<in> ?B" "q = slash r n" for q r n
    using that by blast
  have "\<exists>r \<in> ?B. \<exists>n. proper n \<and> q = slash r n" if "q \<in> ?B" "q \<noteq> ''t''" for q
  proof -
    have n: "proper ''a''" "proper ''d''" "proper ''b''" by (simp_all add: proper_def)
    from that consider (a) "q = slash ''t'' ''a''" | (d) "q = slash ''t'' ''d''" | (b) "q = slash ''t/d'' ''b''" by auto
    then show ?thesis
    proof cases
      case a show ?thesis by (rule parent [OF n(1) _ a]) simp
    next
      case d show ?thesis by (rule parent [OF n(2) _ d]) simp
    next
      case b show ?thesis by (rule parent [OF n(3) _ b]) simp
    qed
  qed
  then have "\<forall>q \<in> ?B. q \<noteq> ''t'' \<longrightarrow> (\<exists>r \<in> ?B. \<exists>n. proper n \<and> q = slash r n)" by (intro ballI impI)
  moreover have "\<forall>r \<in> ?B. \<forall>q \<in> ?B. below r q \<longrightarrow> disk_view demo_disk r = Some True"
    by (simp add: below_def disk_view_def demo_disk_def)
  moreover have "finite ?B" "\<forall>q \<in> ?B. length q < FILENAME_MAX" by (simp_all add: FILENAME_MAX_def)
  ultimately show ?thesis unfolding tree_def demo_branch by (intro conjI)
qed

lemma demo_view: "disk_view demo_disk = [''t'' \<mapsto> True, ''t/a'' \<mapsto> False, ''t/d'' \<mapsto> True, ''t/d/b'' \<mapsto> False, ''tx'' \<mapsto> False]"
  by (simp add: disk_view_def demo_disk_def fun_eq_iff)

theorem remove_tmp_dir_removes_witness:
  "\<exists>k'. remove_tmp_dir disk_kernel 16 ''t'' demo_disk = Inr k' \<and> disk_view k' = [''tx'' \<mapsto> False]"
proof -
  let ?B = "{''t'', ''t/a'', ''t/d'', ''t/d/b''}"
  have "disk_view demo_disk ''t'' = Some True" "card ?B = 4" by (simp_all add: demo_view)
  then have "\<exists>k'. remove_tmp_dir disk_kernel 16 ''t'' demo_disk = Inr k' \<and> disk_view k' = disk_view demo_disk |` (- ?B)"
    using remove_tmp_dir_removes [OF disk_lawful demo_tree, of 16] by (simp only: demo_branch)
  moreover have "disk_view demo_disk |` (- ?B) = [''tx'' \<mapsto> False]"
    unfolding demo_view by (rule ext) (simp add: restrict_map_def)
  ultimately show ?thesis by simp
qed

end
