(* ===== verification/CSB_Finish.thy ===== *)
theory CSB_Finish
  imports CSB_Syz_Live
begin

text \<open>
  After the stop flag is set the measured phase has only a bounded number of steps left,
  whoever takes them: each thread completes at most the operation it is in, and as long as the
  main thread has not returned from \<open>bm_phase_run\<close>, one of the threads can step. Before
  the flag there is no such bound, as the threads run operation after operation.
\<close>

text \<open>The steps of the threads in a schedule; the clock goes on by itself.\<close>

definition work :: "agent list \<Rightarrow> nat" where
  "work as = length (filter (\<lambda>a. a \<noteq> Clock) as)"

definition steps_left :: "('c, 'w) phase \<Rightarrow> nat" where
  "steps_left s = main_rank (main_pc s) * Suc (4 * length (threads s)) + sum_list (map (thread_rank \<circ> t_pc) (threads s))"

lemma rank_le: "thread_rank pc \<le> 4"
  by (cases pc) simp_all

lemma ranks_le: "sum_list (map (thread_rank \<circ> t_pc) ts) \<le> 4 * length ts"
proof (induction ts)
  case (Cons t ts)
  then show ?case using rank_le [of "t_pc t"] by simp
qed simp

lemma ranks_released: "sum_list (map (thread_rank \<circ> t_pc) (map (\<lambda>t. t\<lparr>t_pc := T_dereg\<rparr>) ts)) = length ts"
  by (induction ts) simp_all

lemma steps_left_bound:
  assumes "flow s" "g_stop (bench s)"
  shows "steps_left s \<le> 7 * Suc (4 * length (threads s))"
proof -
  have "main_rank (main_pc s) \<le> 6" using assms by (cases "main_pc s") (simp_all add: flow_def stage_defs)
  then have "main_rank (main_pc s) * Suc (4 * length (threads s)) \<le> 6 * Suc (4 * length (threads s))" by (rule mult_le_mono1)
  then show ?thesis using ranks_le [of "threads s"] by (simp add: steps_left_def)
qed

lemma thread_step_left:
  assumes "g_stop (bench s)" "tid < length (threads s)" "run_step T clk tid s = Some (Inr s')"
  shows "steps_left s' < steps_left s \<and> g_stop (bench s')"
proof -
  have left: "steps_left (set_thread tid t s1) < steps_left s"
    if "thread_rank (t_pc t) < thread_rank (t_pc (threads s ! tid))" "main_pc s1 = main_pc s" "threads s1 = threads s" for t s1
    using that rank_update [OF assms(2), of t] by (simp add: steps_left_def set_thread_def)
  have bench: "bench (set_thread tid t s1) = bench s1" for t s1 by (simp add: set_thread_def)
  from assms(3) show ?thesis
    by (cases rule: run_step_cases) (use assms(1) in \<open>auto intro!: left simp: bench\<close>)
qed

lemma main_step_left:
  assumes "flow s" "g_stop (bench s)" "bm_phase_run_step z clk s = Some (Inr s')"
  shows "steps_left s' < steps_left s \<and> g_stop (bench s')"
  using assms(3)
proof (cases rule: main_step_cases)
  case stop
  then show ?thesis using assms(2) ranks_released [of "threads s"] by (simp add: steps_left_def release_def)
next
  case (join s1)
  then show ?thesis using assms(2) by (auto simp: steps_left_def elim!: add_durations_frame)
qed (use assms(1,2) in \<open>simp_all add: steps_left_def flow_def stage_defs\<close>)

lemma agent_step_left:
  assumes "flow s" "g_stop (bench s)" "exec_step T z clk a s = Some s'"
  shows "work [a] + steps_left s' \<le> steps_left s \<and> g_stop (bench s')"
proof (cases a)
  case Clock
  then show ?thesis using assms by (auto simp: exec_step_def work_def steps_left_def)
next
  case Main
  then show ?thesis using assms main_step_left [OF assms(1,2)]
    by (fastforce simp: exec_step_def work_def split: option.splits sum.splits)
next
  case (Thread tid)
  then show ?thesis using assms thread_step_left [OF assms(2)]
    by (fastforce simp: exec_step_def work_def split: option.splits sum.splits if_splits)
qed

lemma work_Cons: "work (a # as) = work [a] + work as"
  by (simp add: work_def)

text \<open>The states a target is ready in last while only the clock goes on.\<close>

locale ending_target = finishing_target T z ready
  for T :: "('c, 'w) bm_target" and z :: 'c and ready :: "('c, 'w) phase \<Rightarrow> bool" +
  assumes ready_tick: "ready s \<Longrightarrow> ready (s\<lparr>moment := Suc (moment s)\<rparr>)"
begin

lemma ready_step:
  assumes "g_stop (bench s)" "ready s" "exec_step T z clk a s = Some s'"
  shows "ready s'"
proof (cases a)
  case Clock
  then show ?thesis using assms ready_tick by (auto simp: exec_step_def)
next
  case Main
  then have "bm_phase_run_step z clk s = Some (Inr s')" using assms(3) by (simp add: exec_step_def split: option.splits sum.splits)
  then show ?thesis by (rule ready_main [OF assms(2)])
next
  case (Thread tid)
  then have "tid < length (threads s)" "run_step T clk tid s = Some (Inr s')"
    using assms(3) by (simp_all add: exec_step_def split: option.splits sum.splits if_splits)
  then show ?thesis using ready_thread [OF assms(2)] assms(1) by blast
qed

lemma schedule_left:
  assumes "\<not> g_stop b"
  shows "reachable T z clk b s \<Longrightarrow> g_stop (bench s) \<Longrightarrow> ready s \<Longrightarrow> exec_schedule T z clk as s = Some s' \<Longrightarrow>
    work as + steps_left s' \<le> steps_left s \<and> ready s' \<and> g_stop (bench s')"
proof (induction as arbitrary: s)
  case Nil
  then show ?case by (simp add: work_def)
next
  case (Cons a as)
  then obtain s1 where s1: "exec_step T z clk a s = Some s1" "exec_schedule T z clk as s1 = Some s'"
    by (auto split: option.splits)
  have "reachable T z clk b s1" using Cons.prems(1) exec_step_phase_step [OF s1(1)] by (rule reachable.step)
  moreover note left = agent_step_left [OF flow_reachable [OF Cons.prems(1) assms] Cons.prems(2) s1(1)]
  ultimately have "work as + steps_left s' \<le> steps_left s1 \<and> ready s' \<and> g_stop (bench s')"
    using Cons.IH ready_step [OF Cons.prems(2,3) s1(1)] s1(2) by blast
  with left show ?case by (simp add: work_Cons [of a as])
qed

lemma can_step:
  assumes "can_run T clk b" "reachable T z clk b s" "ready s" "main_pc s \<noteq> M_done"
  shows "\<exists>a s'. a \<noteq> Clock \<and> exec_step T z clk a s = Some s'"
proof -
  have "\<not> g_stop b" using assms(1) by (simp add: can_run_def)
  from phase_progress [OF assms(1) all_invariants_reachable [OF assms(2) this] assms(3,4)] obtain s1
    where s1: "phase_step T z clk s s1" "(s1, s) \<in> phase_order" by blast
  from s1(1) show ?thesis
  proof cases
    case tick
    with s1(2) show ?thesis by (simp add: phase_order_def)
  next
    case main
    then show ?thesis by (intro exI [of _ Main] exI [of _ s1]) (simp add: exec_step_def)
  next
    case (thread tid)
    then show ?thesis by (intro exI [of _ "Thread tid"] exI [of _ s1]) (simp add: exec_step_def)
  qed
qed

lemma must_finish:
  assumes run: "can_run T clk b" and r: "reachable T z clk b s" and "ready s" "g_stop (bench s)"
    and sched: "exec_schedule T z clk as s = Some s'"
  shows "work as \<le> 7 * Suc (4 * unat (num_threads (g_params b))) \<and>
    (main_pc s' = M_done \<or> (\<exists>a s''. a \<noteq> Clock \<and> exec_step T z clk a s' = Some s''))"
proof -
  have b: "\<not> g_stop b" using run by (simp add: can_run_def)
  note f = flow_reachable [OF r b]
  have "length (threads s) \<le> unat (num_threads (g_params b))"
    using f recorded_reachable [OF r b] by (simp add: flow_def recorded_def)
  then have "steps_left s \<le> 7 * Suc (4 * unat (num_threads (g_params b)))"
    using steps_left_bound [OF f assms(4)] by (simp add: algebra_simps)
  moreover note left = schedule_left [OF b r assms(4,3) sched]
  moreover have "main_pc s' \<noteq> M_done \<Longrightarrow> \<exists>a s''. a \<noteq> Clock \<and> exec_step T z clk a s' = Some s''"
    using can_step [OF run exec_schedule_reachable [OF sched r]] left by blast
  ultimately show ?thesis by auto
qed

end

interpretation any_ends: ending_target T z "\<lambda>s. never_aborts T" for T :: "('c, 'w) bm_target" and z
  by unfold_locales simp

interpretation syz_ends: ending_target "syz_target genv pton K P" z "room_for_begun K P z" for genv pton K P z
  by unfold_locales (simp add: room_for_begun_def)

text \<open>The end of a run of a generated target.\<close>

lemma syz_stopped_must_finish:
  assumes "can_run (syz_target genv pton K P) clk b" and "reachable (syz_target genv pton K P) z clk b s"
    and "room_for_begun K P z s" and "g_stop (bench s)" and "exec_schedule (syz_target genv pton K P) z clk as s = Some s'"
  shows "work as \<le> 7 * Suc (4 * unat (num_threads (g_params b))) \<and>
    (main_pc s' = M_done \<or> (\<exists>a s''. a \<noteq> Clock \<and> exec_step (syz_target genv pton K P) z clk a s' = Some s''))"
  using assms by (rule syz_ends.must_finish)

section \<open>Properties\<close>

text \<open>
  C5. After the stop flag is set, every schedule of the threads ends: with \<open>n\<close> benchmark threads
  it has at most 28n + 7 steps of threads, and as long as the phase is not over, one of them
  can step.
\<close>

theorem stopped_run_must_finish:
  assumes "bm_phase_warmup lib T globals = Inr b" and "wf_params (g_params globals)" and "\<not> g_stop globals"
    and "op_dist_len (g_params globals) = bm_target_op_count T" and "never_aborts T"
    and "\<And>m. normal_time (wall clk m)" and "reachable T zero_ctx clk b s" and "g_stop (bench s)"
    and "exec_schedule T zero_ctx clk as s = Some s'"
  shows "work as \<le> 28 * unat (num_threads (g_params b)) + 7 \<and>
    (main_pc s' = M_done \<or> (\<exists>a s''. a \<noteq> Clock \<and> exec_step T zero_ctx clk a s' = Some s''))"
  using any_ends.must_finish [OF warmup_can_run [OF assms(1-4,6)] assms(7,5,8,9)] by simp

text \<open>A run of the empty target up to the stop flag, before its thread has begun an operation, and its end.\<close>

definition until_stop :: "agent list" where
  "until_stop = [Main, Main, Main, Main, Thread 0, Main, Main, Main, Main]"

definition after_stop :: "agent list" where
  "after_stop = [Thread 0, Main, Main, Main, Clock, Thread 0, Main, Main, Main]"

lemma demo_stop:
  assumes "num_threads (g_params b) = 1" "\<not> g_stop b"
  shows "\<exists>s s'. exec_schedule bm_empty \<lparr>e_tid = 7\<rparr> demo_clocks until_stop (start_phase b 0) = Some s \<and> g_stop (bench s) \<and>
    exec_schedule bm_empty \<lparr>e_tid = 7\<rparr> demo_clocks after_stop s = Some s'"
  using assms
  by (simp add: until_stop_def after_stop_def start_phase_def exec_step_def bm_phase_run_step_def run_step_def
      new_thread_def all_at_def release_def set_thread_def bm_empty_def empty_reg_def
      Let_def add_durations_def demo_clocks_def calc_spent_time_def c_long_def signed_divide_int_def)

theorem stopped_run_must_finish_witness:
  "\<exists>b s s'. bm_phase_warmup (\<lambda>_. []) bm_empty demo_globals = Inr b \<and> reachable bm_empty \<lparr>e_tid = 7\<rparr> demo_clocks b s \<and>
     exec_schedule bm_empty \<lparr>e_tid = 7\<rparr> demo_clocks after_stop s = Some s' \<and> work after_stop \<le> 28 * unat (num_threads (g_params b)) + 7 \<and>
     (main_pc s' = M_done \<or> (\<exists>a s''. a \<noteq> Clock \<and> exec_step bm_empty \<lparr>e_tid = 7\<rparr> demo_clocks a s' = Some s''))"
proof -
  obtain b where b: "bm_phase_warmup (\<lambda>_. []) bm_empty demo_globals = Inr b" using demo_warmup by blast
  have n: "num_threads (g_params b) = 1" "\<not> g_stop b"
    using warmup_distribution [OF b demo_wf(1)] warmup_can_run [OF b demo_wf demo_clocks_ok(2)]
    by (simp_all add: demo_globals_def demo_params_def can_run_def)
  obtain s s' where s: "exec_schedule bm_empty \<lparr>e_tid = 7\<rparr> demo_clocks until_stop (start_phase b 0) = Some s" "g_stop (bench s)"
    "exec_schedule bm_empty \<lparr>e_tid = 7\<rparr> demo_clocks after_stop s = Some s'" using demo_stop [OF n] by blast
  have r: "reachable bm_empty \<lparr>e_tid = 7\<rparr> demo_clocks b s" by (rule exec_schedule_reachable [OF s(1) reachable.start])
  from stopped_run_must_finish [OF b demo_wf bm_empty_never_aborts demo_clocks_ok(2) r s(2,3)] b r s(3) show ?thesis by blast
qed

end
