(* ===== verification/CSB_RedisClient.thy ===== *)
theory CSB_RedisClient
  imports CSB_Redis
begin

text \<open>
  bench/network/redis-client.c, the client that drives the redis server target with pairs of a
  SET and a GET. The hiredis library is a parameter: connecting, sending a command and the
  error state of the connection. Output is a list of lines. The endless loops take a bound;
  running out of it is \<open>Starved\<close>.
\<close>

datatype redisReply =
    Reply_nil
  | Reply_string string
  | Reply_status string
  | Reply_integer int
  | Reply_array "redisReply option list"
  | Reply_error string
  | Reply_other int

datatype CMD = READ | WRITE

definition PRINT_FREQ :: int where "PRINT_FREQ = 10000"

record 'k hiredis =
  redisConnect :: "string \<Rightarrow> int \<Rightarrow> 'k \<Rightarrow> bool \<times> 'k"   \<comment> \<open>False is NULL\<close>
  redisCommand :: "string \<Rightarrow> 'k \<Rightarrow> redisReply option \<times> 'k"
  redis_err :: "'k \<Rightarrow> int"
  redis_errstr :: "'k \<Rightarrow> string"

definition int_text :: "int \<Rightarrow> string" where
  "int_text i = (if i < 0 then ''-'' else []) @ decimal (nat \<bar>i\<bar>)"

text \<open>\<open>process\<close>: one line for a reply, and for an array the lines of its elements after it.\<close>

fun process :: "redisReply option \<Rightarrow> string list" where
  "process None = [''Null reply'']"
| "process (Some Reply_nil) = [''Nil reply'']"
| "process (Some (Reply_string s)) = [''String: '' @ c_string s @ '' len('' @ decimal (length s) @ '')'']"
| "process (Some (Reply_status s)) = [''Status: '' @ c_string s]"
| "process (Some (Reply_integer i)) = [''Integer: '' @ int_text i]"
| "process (Some (Reply_array es)) = (''Array of '' @ decimal (length es) @ '' elements'') # concat (map process es)"
| "process (Some (Reply_error s)) = [''Error: '' @ c_string s]"
| "process (Some (Reply_other t)) = [''Unknown reply type: '' @ int_text t]"

definition communicate :: "'k hiredis \<Rightarrow> CMD \<Rightarrow> 'k \<Rightarrow> bool \<times> string list \<times> 'k" where
  "communicate H cmd k =
     (let msg = (if cmd = READ then ''GET foo'' else ''SET foo bar''); (reply, k1) = redisCommand H msg k in
      case reply of
        None \<Rightarrow> (False, [''Null reply (connection error)''], k1)
      | Some r \<Rightarrow>
          if redis_err H k1 \<noteq> 0
          then (False, [''Response Error: '' @ int_text (redis_err H k1) @ '' => '' @ redis_errstr H k1], k1)
          else (True, process reply, k1))"

text \<open>
  The loop that connects; only every \<open>PRINT_FREQ\<close>-th error is printed. The attempts are counted
  in an \<open>int\<close>, which must not overflow.
\<close>

definition next_attempt :: "int \<Rightarrow> int result" where
  "next_attempt attempt = (if attempt < 2 ^ 31 - 1 then Inr (attempt + 1) else Inl Undefined)"

fun connect_until :: "'k hiredis \<Rightarrow> string \<Rightarrow> int \<Rightarrow> int \<Rightarrow> nat \<Rightarrow> 'k \<Rightarrow> (string list \<times> 'k) result" where
  "connect_until H ip port attempt 0 k = Inl Starved"
| "connect_until H ip port attempt (Suc tries) k =
     (let (ok, k1) = redisConnect H ip port k in
      if ok \<and> redis_err H k1 = 0 then Inr ([''Connection succeeded''], k1)
      else bind_r (if ok then next_attempt attempt else Inr attempt) (\<lambda>attempt'.
        bind_r (connect_until H ip port attempt' tries k1) (\<lambda>(out, k2).
        Inr ((if ok \<and> attempt mod PRINT_FREQ = 0 then [''Connection error: '' @ redis_errstr H k1] else []) @ out, k2))))"

text \<open>The loop that sends; both commands of a round are sent even when the first one fails.\<close>

fun send_loop :: "'k hiredis \<Rightarrow> nat \<Rightarrow> 'k \<Rightarrow> (string list \<times> 'k) result" where
  "send_loop H 0 k = Inl Starved"
| "send_loop H (Suc rounds) k =
     (let (success1, out1, k1) = communicate H WRITE k; (success2, out2, k2) = communicate H READ k1 in
      if success1 \<and> success2 then bind_r (send_loop H rounds k2) (\<lambda>(out, k3). Inr (out1 @ out2 @ out, k3))
      else Inr (out1 @ out2, k2))"

definition redis_client_main ::
  "'k hiredis \<Rightarrow> (string \<Rightarrow> int) \<Rightarrow> string list \<Rightarrow> nat \<Rightarrow> nat \<Rightarrow> 'k \<Rightarrow> (string list \<times> 'k) result" where
  "redis_client_main H os_atoi argv tries rounds k =
     c_assert (length argv = 3)
      (let ip = argv ! 1; port = os_atoi (argv ! 2) in
       bind_r (connect_until H ip port 0 tries k) (\<lambda>(out1, k1).
       bind_r (send_loop H rounds k1) (\<lambda>(out2, k2).
       Inr ((''Connecting to Redis server on '' @ ip @ '':'' @ int_text port @ '' ...'') # out1 @ out2 @
         [''Finished sending messages. last result failure''], k2))))"

text \<open>
  What the client relies on: the connection carries \<open>left\<close> more commands, then fails for good;
  \<open>log\<close> is what has been sent.
\<close>

definition connection_lasts :: "'k hiredis \<Rightarrow> ('k \<Rightarrow> string list) \<Rightarrow> ('k \<Rightarrow> nat) \<Rightarrow> bool" where
  "connection_lasts H log left \<longleftrightarrow>
     (\<forall>cmd k. let (r, k1) = redisCommand H cmd k in log k1 = log k @ [cmd] \<and>
        (if left k = 0 then left k1 = 0 \<and> (r = None \<or> redis_err H k1 \<noteq> 0)
         else left k1 = left k - 1 \<and> r \<noteq> None \<and> redis_err H k1 = 0))"

lemma communicate_lasts:
  assumes "connection_lasts H log left"
  obtains out k1 where "communicate H cmd k = (0 < left k, out, k1)" "left k1 = left k - 1"
    "log k1 = log k @ [if cmd = READ then ''GET foo'' else ''SET foo bar'']"
proof -
  let ?msg = "if cmd = READ then ''GET foo'' else ''SET foo bar''"
  obtain r k1 where c: "redisCommand H ?msg k = (r, k1)" by fastforce
  then have l: "log k1 = log k @ [?msg]" "if left k = 0 then left k1 = 0 \<and> (r = None \<or> redis_err H k1 \<noteq> 0)
      else left k1 = left k - 1 \<and> r \<noteq> None \<and> redis_err H k1 = 0"
    using assms by (auto simp: connection_lasts_def dest!: spec [of _ ?msg] spec [of _ k])
  show ?thesis
  proof (cases "left k = 0")
    case True
    with l c that [of _ k1] show ?thesis by (cases r) (auto simp: communicate_def Let_def)
  next
    case False
    with l c that [of _ k1] show ?thesis by (cases r) (auto simp: communicate_def Let_def)
  qed
qed

lemma send_loop_pairs:
  assumes "connection_lasts H log left"
  shows "left k div 2 < rounds \<Longrightarrow> \<exists>out k1. send_loop H rounds k = Inr (out, k1) \<and>
    log k1 = log k @ concat (replicate (left k div 2 + 1) [''SET foo bar'', ''GET foo''])"
proof (induction rounds arbitrary: k)
  case (Suc rounds)
  obtain out1 k1 where 1: "communicate H WRITE k = (0 < left k, out1, k1)" "left k1 = left k - 1"
    "log k1 = log k @ [''SET foo bar'']"
    by (rule communicate_lasts [OF assms, of WRITE k]) simp
  obtain out2 k2 where 2: "communicate H READ k1 = (0 < left k1, out2, k2)" "left k2 = left k1 - 1"
    "log k2 = log k1 @ [''GET foo'']"
    by (rule communicate_lasts [OF assms, of READ k1]) simp
  show ?case
  proof (cases "2 \<le> left k")
    case True
    then have d: "left k div 2 = left k2 div 2 + 1" using 1 2 by simp
    with Suc.prems Suc.IH [of k2] obtain out k3 where "send_loop H rounds k2 = Inr (out, k3)"
      "log k3 = log k2 @ concat (replicate (left k2 div 2 + 1) [''SET foo bar'', ''GET foo''])" by auto
    with 1 2 True d show ?thesis by simp
  next
    case False
    with 1 2 show ?thesis by simp
  qed
qed simp

text \<open>
  C35. The redis client sends pairs of a SET and a GET until the connection fails, and then
  ends: over a connection that carries n more commands it sends n div 2 + 1 pairs, the last of
  which is sent in full even though the connection is already broken.
\<close>

theorem redis_client_sends_pairs:
  assumes "connection_lasts H log left" "length argv = 3" "connect_until H (argv ! 1) (os_atoi (argv ! 2)) 0 tries k = Inr (out1, k1)"
    "left k1 div 2 < rounds"
  shows "\<exists>out k2. redis_client_main H os_atoi argv tries rounds k = Inr (out, k2) \<and>
    log k2 = log k1 @ concat (replicate (left k1 div 2 + 1) [''SET foo bar'', ''GET foo''])"
  using send_loop_pairs [OF assms(1,4)] assms(2,3) by (auto simp: redis_client_main_def)

definition demo_hiredis :: "(nat \<times> string list) hiredis" where
  "demo_hiredis = \<lparr>redisConnect = (\<lambda>ip port k. (True, k)),
     redisCommand = (\<lambda>cmd k. (if fst k = 0 then None else Some (Reply_status ''OK''), (fst k - 1, snd k @ [cmd]))),
     redis_err = (\<lambda>k. 0), redis_errstr = (\<lambda>k. [])\<rparr>"

theorem redis_client_sends_pairs_witness:
  "\<exists>out k2. redis_client_main demo_hiredis (\<lambda>s. 6379) [''client'', ''127.0.0.1'', ''6379''] 1 2 (3, []) = Inr (out, k2) \<and>
    snd k2 = [''SET foo bar'', ''GET foo'', ''SET foo bar'', ''GET foo'']"
proof -
  have "connection_lasts demo_hiredis snd fst" by (simp add: connection_lasts_def demo_hiredis_def)
  moreover have "connect_until demo_hiredis ''127.0.0.1'' 6379 0 1 (3, []) = Inr ([''Connection succeeded''], (3, []))"
    by (simp add: demo_hiredis_def)
  ultimately show ?thesis
    using redis_client_sends_pairs [of demo_hiredis snd fst "[''client'', ''127.0.0.1'', ''6379'']" "\<lambda>s. 6379" 1 "(3, [])"
        "[''Connection succeeded'']" "(3, [])" 2] by simp
qed

end
