(* ===== verification/Spec2Isabelle.thy ===== *)
theory Spec2Isabelle
  imports CSB_Benchmark CSB_Launcher CSB_Redis CSB_NetMain CSB_NetAddr CSB_Syz_Run CSB_SyzNet CSB_Crew CSB_RmDir CSB_Finish CSB_RedisClient
begin

text \<open>
  A model of CSB, a suite of operating system benchmarks in C, and proofs about it.

  \<^bold>\<open>The program.\<close> A benchmark is the skeleton bench/benchmark.c compiled with one target, a header
  that defines the operations to measure. \<open>main\<close> reads the parameters (bm\_params.h), spreads the
  operations over a table of 1024 slots and initialises target and statistics (warm-up), lets
  the threads of the benchmark run the operations between two barriers until a stop flag is set
  (run), prints the statistics (bm\_stats.h, conclude) and frees them (cool-down). Targets are
  written by hand (bm\_empty.h, bm\_server\_redis.h) or generated from traces of system calls
  (bench/targets/mysql, mysql\_v2, rocksdb). bench/network holds separate programs: a client and
  a server that exchange a given sequence of sends and receives, and a client for the redis
  target. bench/include/CSB is the library of all of these.

  \<^bold>\<open>Conventions.\<close> Machine integers are words of their C width; \<open>int\<close> values are integers with
  overflow as a fault. A function that can fail returns \<open>fault + result\<close> (CSB\_Prelude): a failed
  assertion, undefined behaviour, the exit of the process, or \<open>Starved\<close> when a given bound or
  tape of inputs is used up. Entropy, clocks, the kernel, \<open>getenv\<close>, \<open>inet_pton\<close>, \<open>localtime\<close>, \<open>getaddrinfo\<close>,
  \<open>rand\<close> and hiredis are parameters, and so is what \<open>malloc\<close> leaves in memory where the code reads
  it. Doubles (CSB\_Double) are exact binary fractions with rounding to 53 or 24 bits. \<open>printf\<close> is a
  list of keys and values.

  \<^bold>\<open>Theories and what they model.\<close>
  \<^item> CSB\_Prelude, CSB\_Double, CSB\_Libc: faults and their composition, floating point, the parts
    of the C library in use (\<open>strtoul\<close>, decimal printing; \<open>asctime\<close> is in CSB\_Time).
  \<^item> CSB\_Math (math.h), CSB\_Rand (rand.h), CSB\_Time (time.h). The rejection loops recurse over
    the entropy that is left, so their termination is proved; a locale \<open>ranged_drawer\<close> carries
    the shuffle.
  \<^item> CSB\_Target (bm\_target.h): a target is a record of functions. Its locale \<open>counting_target\<close>
    (no more successes than operations) is interpreted by the empty, the redis and the
    generated targets.
  \<^item> CSB\_Stats, CSB\_Stats\_Proofs (bm\_stats.h): recording, histogram, aggregation and printing. The
    locale \<open>aggregation\<close> states when cells may be added in any order; the figures refine the
    summary of the multiset of samples.
  \<^item> CSB\_Params (bm\_params.h, bm\_error.h): the command line, with the regular expressions it uses.
  \<^item> CSB\_Warmup (\<open>bm_phase_warmup\<close>), CSB\_Run, CSB\_Run\_Proofs (\<open>bm_phase_run\<close>, \<open>run\<close>), CSB\_Benchmark
    (\<open>bm_phase_conclude\<close>, \<open>bm_phase_cooldown\<close>, \<open>main\<close>): the measured phase is a step relation
    over the program counters of the main thread and of the benchmark threads, with all
    interleavings; a call of the target is one step. \<open>flow\<close>, \<open>recorded\<close> and \<open>on_plan\<close> are its
    invariants; a rank shows that it can always end when the calls of the target can succeed
    (locale \<open>finishing_target\<close>, interpreted by targets that never abort and, in CSB\_Syz\_Live, by the
    generated targets). CSB\_Finish: after the stop flag it must end, within a number of steps that
    depends on the number of threads only (locale \<open>ending_target\<close>).
  \<^item> CSB\_Results: results that a thread has recorded, from a law about single calls of a target
    (locale \<open>history_target\<close>).
  \<^item> CSB\_Empty (bm\_empty.h and the noise of bm\_helper.h), CSB\_Kernel, CSB\_Redis
    (bm\_server\_redis.h), CSB\_RedisClient (network/redis-client.c).
  \<^item> CSB\_Launcher (thread\_launcher.h): creating, starting, stopping and joining threads, as a step
    relation.
  \<^item> CSB\_NetOps (network/helper.h), CSB\_Net, CSB\_Net\_Proofs, CSB\_NetMain (network/client.c,
    network/server.c), CSB\_NetAddr (bm\_network.h). Both programs handle a batch of epoll events per
    turn; the locale \<open>stepping\<close> covers the two ways they count repetitions. The loop of the
    client that runs until a call fails takes the number of calls as a bound, which
    \<open>client_follows_schedule\<close> shows to be enough exactly when one of that many calls fails, on any
    kernel; \<open>client_spins_at_end_of_file\<close> shows a kernel on which no bound is enough.
  \<^item> CSB\_Syz: the statements of the generated bodies (syz/*.h), their execution on memory,
    registers and counters, and an executable check with its soundness proof. An access outside the
    mapping, the registers or a literal is a fault, and so is a system call that is handed a buffer
    which leaves the mapping or the write buffer (\<open>call_in_bounds\<close>). CSB\_SyzTarget: the
    three templates around the bodies. CSB\_Progs\_*: 71 of the 73 bodies with their
    set-up data, their statements at registration and deregistration, and targets, a long body in
    pieces. CSB\_Syz\_Proofs, CSB\_Syz\_Shipped, CSB\_Syz\_Live, CSB\_Syz\_Run: their properties, alone and
    inside a benchmark run. CSB\_Syz\_Files: the paths that registration creates and that the
    statements open, observed by wrapping the kernel (\<open>tap\<close>). CSB\_SyzNet: two of the three network
    targets against the client that is run with them; the text of the third, 3765 entries of which
    the client keeps 128, and its body are not translated.
    CSB\_Crew: the threads of a target with all interleavings of their statements, over private
    registers (mysql\_v2, rocksdb) or one shared array (mysql). CSB\_RmDir: the recursive removal of
    a directory that comes with each body, against the manual pages of the calls on directories;
    its bound on the nesting is four times the number of paths. A disk is a kernel with these laws.

  \<^bold>\<open>What is shown.\<close> \<open>main\<close> prints the figures of exactly the operations that the threads have
  completed, all inside the measured interval, each thread following its share of the
  distribution and keeping its own row of figures, and from every state of the measured phase it can go on to its end, which it
  cannot miss once the stop flag is set. The
  statistics do not depend on who records what when. The command line and the sequences of the
  network programs are parsed back to what was written; server and client serve the whole
  sequence in step and without a failing assertion, as far as the calls of the kernel succeed. The
  generated targets stay inside their memory and buffers and count every call, alone and
  interleaved; with private registers a thread closes only what the kernel has given it. The error properties show what goes wrong: parameters that are
  missing unnoticed, a start flag that is not reset, requests that fill the buffer, malformed
  sequences, options that fall through, counters that are never reset, which makes the printed
  number of operations grow with the square of the dispatches, prepared files that no call
  opens, a client that takes the end of a connection for data, and one that repeats the sum of a
  run of transfers instead of its calls.

  \<^bold>\<open>Bounds.\<close> The numbers of turns, calls and tries of the endless loops of the network programs are
  arguments, and the theorems say how many are enough. Entropy is a list; \<open>covers\<close> says
  when a list is enough to place one operation.

  \<^bold>\<open>Not modelled.\<close> compiler.h and macros.h (attributes and barriers); freeing of memory where nothing reads it afterwards; relaxed memory orders (the
  threads interleave, and the stop flag is read atomically); steps smaller than a statement of
  a generated body (CSB\_Crew), and a benchmark run with such steps (a dispatch is one step there); signals (SIGPIPE can end
  network/server.c in a \<open>send\<close>, which the model lets return; network/client.c ignores it); the bodies of two
  of the 73 generated targets, one of 304169 lines and one of 52 MB with binary data; the Python runner and the shell generator, which build, start and plot.
\<close>

end
